(* ===== verification/Prelude.thy ===== *)
theory Prelude
  imports Main "HOL-Library.Word"
begin

unbundle bit_operations_syntax

text \<open>
  Shared vocabulary of the development.

  \<^item> \<open>byte\<close>, \<open>ByteVec\<close> and the machine integers of \<^verbatim>\<open>TSS.CPP/include/fdefs.h\<close>;
  \<^item> \<open>outcome\<close>: how a C++ call ends. It returns (\<open>Ok\<close>), throws an exception object
    (\<open>Throw\<close>), stops at a failed \<open>assert\<close>/\<open>_ASSERT\<close> (\<open>AssertFailed\<close>), or executes
    something C++ gives no meaning to, such as an access outside a vector (\<open>Undef\<close>);
  \<^item> \<open>('s, 'a) sx\<close>: a call that reads and writes a state \<open>'s\<close>. The state is returned in
    every case, because an exception leaves the object as it was at the throw;
  \<^item> the generic facts on sequencing, lists and words that the components share.

  Sizes (\<^verbatim>\<open>size_t\<close>) are \<open>nat\<close>: every size in the code is the length of a vector in memory,
  or at most two 32-bit lengths above one, so 64-bit wrap-around cannot happen. Integers that go
  on the wire or that a caller chooses keep their width.
\<close>

named_theorems sx_simps \<open>evaluation of sequenced calls\<close>

type_synonym byte = "8 word"
type_synonym UINT8 = "8 word"
type_synonym UINT16 = "16 word"
type_synonym UINT32 = "32 word"
type_synonym UINT64 = "64 word"
type_synonym ByteVec = "byte list"

datatype exn =
    runtime_error string
  | domain_error string
  | logic_error string
  | out_of_range string
  | invalid_argument string
  | length_error string
  | system_error UINT32 string
  | thrown_pointer string \<comment> \<open>the operand of \<open>throw new ...\<close>: a pointer, not an exception object\<close>

datatype 'a outcome = Ok 'a | Throw exn | AssertFailed | Undef

type_synonym ('s, 'a) sx = "'s \<Rightarrow> 'a outcome \<times> 's"

section \<open>Sequencing\<close>

definition ret :: "'a \<Rightarrow> ('s, 'a) sx" where
  "ret x s = (Ok x, s)"

definition throw :: "exn \<Rightarrow> ('s, 'a) sx" where
  "throw e s = (Throw e, s)"

definition undef :: "('s, 'a) sx" where
  "undef s = (Undef, s)"

definition sassert :: "bool \<Rightarrow> ('s, unit) sx" where
  "sassert c s = (if c then Ok () else AssertFailed, s)"

definition getS :: "('s, 's) sx" where
  "getS s = (Ok s, s)"

definition modifyS :: "('s \<Rightarrow> 's) \<Rightarrow> ('s, unit) sx" where
  "modifyS f s = (Ok (), f s)"

definition sbind :: "('s, 'a) sx \<Rightarrow> ('a \<Rightarrow> ('s, 'b) sx) \<Rightarrow> ('s, 'b) sx" where
  "sbind m f s =
     (case m s of
        (Ok x, t) \<Rightarrow> f x t
      | (Throw e, t) \<Rightarrow> (Throw e, t)
      | (AssertFailed, t) \<Rightarrow> (AssertFailed, t)
      | (Undef, t) \<Rightarrow> (Undef, t))"

definition sseq :: "('s, unit) sx \<Rightarrow> ('s, 'b) sx \<Rightarrow> ('s, 'b) sx" where
  "sseq m k = sbind m (\<lambda>_. k)"

fun wseq :: "('s, unit) sx list \<Rightarrow> ('s, unit) sx" where
  "wseq [] = ret ()"
| "wseq (m # ms) = sseq m (wseq ms)"

text \<open>Running a call on a component of a larger state.\<close>

definition onpart :: "('t \<Rightarrow> 's) \<Rightarrow> ('s \<Rightarrow> 't \<Rightarrow> 't) \<Rightarrow> ('s, 'a) sx \<Rightarrow> ('t, 'a) sx" where
  "onpart g p m t = (case m (g t) of (r, s) \<Rightarrow> (r, p s t))"

lemma ret_app [sx_simps]: "ret x s = (Ok x, s)"
  by (simp add: ret_def)

lemma throw_app [sx_simps]: "throw e s = (Throw e, s)"
  by (simp add: throw_def)

lemma undef_app [sx_simps]: "undef s = (Undef, s)"
  by (simp add: undef_def)

lemma sassert_app [sx_simps]: "sassert c s = (if c then Ok () else AssertFailed, s)"
  by (simp add: sassert_def)

lemma getS_app [sx_simps]: "getS s = (Ok s, s)"
  by (simp add: getS_def)

lemma modifyS_app [sx_simps]: "modifyS f s = (Ok (), f s)"
  by (simp add: modifyS_def)

lemma sbind_Ok: "m s = (Ok x, t) \<Longrightarrow> sbind m f s = f x t"
  by (simp add: sbind_def)

lemma sbind_Throw: "m s = (Throw e, t) \<Longrightarrow> sbind m f s = (Throw e, t)"
  by (simp add: sbind_def)

lemma sbind_Undef: "m s = (Undef, t) \<Longrightarrow> sbind m f s = (Undef, t)"
  by (simp add: sbind_def)

lemma sseq_Ok: "m s = (Ok x, t) \<Longrightarrow> sseq m k s = k t"
  by (simp add: sseq_def sbind_def)

lemma sseq_Throw: "m s = (Throw e, t) \<Longrightarrow> sseq m k s = (Throw e, t)"
  by (simp add: sseq_def sbind_def)

lemma sseq_Undef: "m s = (Undef, t) \<Longrightarrow> sseq m k s = (Undef, t)"
  by (simp add: sseq_def sbind_def)

lemma sbind_ret [simp]: "sbind (ret x) f = f x"
  by (simp add: fun_eq_iff sbind_def ret_app)

lemma sbind_assoc: "sbind (sbind m f) g = sbind m (\<lambda>x. sbind (f x) g)"
  by (auto simp: fun_eq_iff sbind_def split: prod.splits outcome.splits)

lemma sbind_ret_right [simp]: "sbind m ret = m"
  by (auto simp: fun_eq_iff sbind_def ret_app split: prod.splits outcome.splits)

lemma sbind_eq_Ok:
  "sbind m f s = (Ok y, u) \<longleftrightarrow> (\<exists>x t. m s = (Ok x, t) \<and> f x t = (Ok y, u))"
  by (auto simp: sbind_def split: prod.splits outcome.splits)

lemma sseq_eq_Ok:
  "sseq m k s = (Ok y, u) \<longleftrightarrow> (\<exists>t. m s = (Ok (), t) \<and> k t = (Ok y, u))"
  by (auto simp: sseq_def sbind_eq_Ok)

lemma wseq_append: "wseq (xs @ ys) = sseq (wseq xs) (wseq ys)"
  by (induction xs) (simp_all add: sseq_def sbind_assoc)

section \<open>Calls without a state\<close>

fun obind :: "'a outcome \<Rightarrow> ('a \<Rightarrow> 'b outcome) \<Rightarrow> 'b outcome" where
  "obind (Ok x) f = f x"
| "obind (Throw e) f = Throw e"
| "obind AssertFailed f = AssertFailed"
| "obind Undef f = Undef"

definition oassert :: "bool \<Rightarrow> unit outcome" where
  "oassert c = (if c then Ok () else AssertFailed)"

definition lift :: "'a outcome \<Rightarrow> ('s, 'a) sx" where
  "lift r s = (r, s)"

lemma lift_app [sx_simps]: "lift r s = (r, s)"
  by (simp add: lift_def)

lemma obind_eq_Ok: "obind r f = Ok y \<longleftrightarrow> (\<exists>x. r = Ok x \<and> f x = Ok y)"
  by (cases r) simp_all

lemma obind_Ok_right [simp]: "obind r Ok = r"
  by (cases r) simp_all

text \<open>Decimal digits, as \<open>to_string\<close> of a non-negative number prints them.\<close>

fun to_string :: "nat \<Rightarrow> string" where
  "to_string n = (if n < 10 then [] else to_string (n div 10)) @ [char_of (48 + n mod 10)]"

declare to_string.simps [simp del]

section \<open>Lists\<close>

text \<open>Overwriting a run of elements, which is what a marshaling write does to its buffer.\<close>

definition overwrite :: "nat \<Rightarrow> 'a list \<Rightarrow> 'a list \<Rightarrow> 'a list" where
  "overwrite p xs ys = take p ys @ xs @ drop (p + length xs) ys"

lemma length_overwrite [simp]:
  "p + length xs \<le> length ys \<Longrightarrow> length (overwrite p xs ys) = length ys"
  by (simp add: overwrite_def)

lemma overwrite_Nil [simp]: "overwrite p [] ys = ys"
  by (simp add: overwrite_def)

lemma overwrite_single: "p < length ys \<Longrightarrow> overwrite p [x] ys = ys[p := x]"
  by (simp add: overwrite_def upd_conv_take_nth_drop)

lemma overwrite_overwrite_append:
  "p + length xs + length zs \<le> length ys \<Longrightarrow>
   overwrite (p + length xs) zs (overwrite p xs ys) = overwrite p (xs @ zs) ys"
  by (simp add: overwrite_def ac_simps)

lemma take_overwrite [simp]:
  "p \<le> length ys \<Longrightarrow> take (p + length xs) (overwrite p xs ys) = take p ys @ xs"
  by (simp add: overwrite_def)

lemma drop_overwrite: "p \<le> length ys \<Longrightarrow> drop p (overwrite p xs ys) = xs @ drop (p + length xs) ys"
  by (simp add: overwrite_def)

lemma take_drop_overwrite [simp]:
  "p \<le> length ys \<Longrightarrow> take (length xs) (drop p (overwrite p xs ys)) = xs"
  by (simp add: overwrite_def)

text \<open>Writing \<open>zs\<close> after a hole of \<open>length hs\<close> and then filling the hole with \<open>hs\<close>.\<close>

lemma overwrite_hole:
  "p + length hs + length zs \<le> length ys \<Longrightarrow>
   overwrite p hs (overwrite (p + length hs) zs ys) = overwrite p (hs @ zs) ys"
  by (simp add: overwrite_def min_def ac_simps)

lemma drop_eq_appendD:
  assumes "drop p ys = xs @ rest" and "p \<le> length ys"
  shows "p + length xs \<le> length ys" and "take (length xs) (drop p ys) = xs"
    and "drop (p + length xs) ys = rest"
proof -
  have "length (drop p ys) = length (xs @ rest)" using assms(1) by simp
  then show "p + length xs \<le> length ys" using assms(2) by simp
  show "take (length xs) (drop p ys) = xs" using assms(1) by simp
  have "drop (length xs) (drop p ys) = rest" using assms(1) by simp
  then show "drop (p + length xs) ys = rest" by (simp add: add.commute)
qed

section \<open>Big-endian integers\<close>

text \<open>
  The shift amounts of the bytes of an integer of a given size, most significant first, as the
  cascades of \<open>if\<close>s in \<open>Int64ToTpm\<close> and \<open>Int64FromTpm\<close> go through them.
\<close>

definition tpm_shifts :: "nat \<Rightarrow> nat list" where
  "tpm_shifts len =
     (if len = 8 then [56, 48, 40, 32] else []) @ (if 4 \<le> len then [24, 16] else []) @
     (if 2 \<le> len then [8] else []) @ [0]"

definition byte_at :: "nat \<Rightarrow> UINT64 \<Rightarrow> byte" where
  "byte_at k v = ucast (drop_bit k v AND 0xFF)"

definition be_bytes :: "nat \<Rightarrow> UINT64 \<Rightarrow> ByteVec" where
  "be_bytes len v = map (\<lambda>k. byte_at k v) (tpm_shifts len)"

lemma mask8: "(0xFF::64 word) = mask 8"
  by (simp add: mask_eq_exp_minus_1)

lemma tpm_shifts_numeral [simp]:
  "tpm_shifts 1 = [0]" "tpm_shifts (Suc 0) = [0]" "tpm_shifts 2 = [8, 0]"
  "tpm_shifts 4 = [24, 16, 8, 0]"
  "tpm_shifts 8 = [56, 48, 40, 32, 24, 16, 8, 0]"
  by (simp_all add: tpm_shifts_def)

lemma length_be_bytes [simp]:
  "length (be_bytes 1 v) = 1" "length (be_bytes (Suc 0) v) = 1" "length (be_bytes 2 v) = 2"
  "length (be_bytes 4 v) = 4" "length (be_bytes 8 v) = 8"
  by (simp_all add: be_bytes_def)

lemma bit_byte_at: "bit (byte_at k v) n \<longleftrightarrow> n < 8 \<and> bit v (n + k)"
  by (auto simp: byte_at_def bit_simps mask8 add.commute)

end
