(* ===== verification/Helpers.thy ===== *)
theory Helpers
  imports Prelude
begin

unbundle bit_operations_syntax

text \<open>
  \<^verbatim>\<open>TSS.CPP/include/Helpers.h\<close> and \<^verbatim>\<open>TSS.CPP/Src/TpmHelpers.cpp\<close>: the integer codec of the wire
  format (\<open>Int64ToTpm\<close>, \<open>Int64FromTpm\<close> and their wrappers), the byte-buffer helpers
  (\<open>Concatenate\<close>, \<open>TrimTrailingZeros\<close>, \<open>ShiftRight\<close>). The text helpers are in \<open>EnumText\<close>.

  The integer codec works on a vector and a position that it advances; an access outside the vector
  is \<open>Undef\<close>. The lemmas show that, inside the vector, it writes and reads the big-endian bytes.
\<close>

section \<open>Marshaling integers\<close>

text \<open>\<open>buf[pos++] = b\<close> and \<open>buf[pos++]\<close>.\<close>

definition store_next :: "byte \<Rightarrow> (ByteVec \<times> nat, unit) sx" where
  "store_next b = (\<lambda>(buf, pos).
     if pos < length buf then (Ok (), (buf[pos := b], Suc pos)) else (Undef, (buf, pos)))"

definition load_next :: "(ByteVec \<times> nat, byte) sx" where
  "load_next = (\<lambda>(buf, pos).
     if pos < length buf then (Ok (buf ! pos), (buf, Suc pos)) else (Undef, (buf, pos)))"

definition Int64ToTpm :: "UINT64 \<Rightarrow> nat \<Rightarrow> (ByteVec \<times> nat, unit) sx" where
  "Int64ToTpm val len = wseq
     ((if len = 8 then
         [store_next (ucast (drop_bit 56 val AND 0xFF)), store_next (ucast (drop_bit 48 val AND 0xFF)),
          store_next (ucast (drop_bit 40 val AND 0xFF)), store_next (ucast (drop_bit 32 val AND 0xFF))]
       else []) @
      (if 4 \<le> len then
         [store_next (ucast (drop_bit 24 val AND 0xFF)), store_next (ucast (drop_bit 16 val AND 0xFF))]
       else []) @
      (if 2 \<le> len then [store_next (ucast (drop_bit 8 val AND 0xFF))] else []) @
      [store_next (ucast (val AND 0xFF))])"

text \<open>\<open>res += (uint64_t)buf[pos++] << k\<close> for each shift amount \<open>k\<close> in turn.\<close>

fun load_sum :: "nat list \<Rightarrow> UINT64 \<Rightarrow> (ByteVec \<times> nat, UINT64) sx" where
  "load_sum [] res = ret res"
| "load_sum (k # ks) res =
     sbind load_next (\<lambda>b. load_sum ks (res + push_bit k (ucast b)))"

definition Int64FromTpm :: "nat \<Rightarrow> (ByteVec \<times> nat, UINT64) sx" where
  "Int64FromTpm len = load_sum
     ((if len = 8 then [56, 48, 40, 32] else []) @
      (if 4 \<le> len then [24, 16] else []) @
      (if 2 \<le> len then [8] else []) @ [0]) 0"

text \<open>The template \<open>IntToTpm<T>\<close>: a fresh vector of \<open>sizeof(T)\<close> bytes, filled from position 0.\<close>

definition IntToTpm :: "nat \<Rightarrow> UINT64 \<Rightarrow> ByteVec outcome" where
  "IntToTpm size_T val =
     (case Int64ToTpm val size_T (replicate size_T 0, 0) of
        (Ok _, (buf, pos)) \<Rightarrow> Ok buf
      | (Throw e, _) \<Rightarrow> Throw e
      | (AssertFailed, _) \<Rightarrow> AssertFailed
      | (Undef, _) \<Rightarrow> Undef)"

definition Int32ToTpm :: "UINT32 \<Rightarrow> ByteVec outcome" where
  "Int32ToTpm val = IntToTpm 4 (ucast val)"

definition Int16ToTpm :: "UINT16 \<Rightarrow> ByteVec outcome" where
  "Int16ToTpm val = IntToTpm 2 (ucast val)"

lemma store_nexts:
  "p + length bs \<le> length buf \<Longrightarrow>
   wseq (map store_next bs) (buf, p) = (Ok (), (overwrite p bs buf, p + length bs))"
proof (induction bs arbitrary: buf p)
  case Nil
  then show ?case by (simp add: ret_app)
next
  case (Cons b bs)
  then have "store_next b (buf, p) = (Ok (), (overwrite p [b] buf, p + 1))"
    by (simp add: store_next_def overwrite_single)
  moreover have "wseq (map store_next bs) (overwrite p [b] buf, p + 1) =
      (Ok (), (overwrite (p + length [b]) bs (overwrite p [b] buf), p + 1 + length bs))"
    using Cons.IH [of "p + 1" "overwrite p [b] buf"] Cons.prems by simp
  ultimately show ?case
    using overwrite_overwrite_append [of p "[b]" bs buf] Cons.prems by (simp add: sseq_Ok)
qed

lemma Int64ToTpm_stores: "Int64ToTpm val len = wseq (map store_next (be_bytes len val))"
  by (simp add: Int64ToTpm_def be_bytes_def tpm_shifts_def byte_at_def)

lemma Int64ToTpm_writes:
  "p + length (be_bytes len val) \<le> length buf \<Longrightarrow>
   Int64ToTpm val len (buf, p) =
     (Ok (), (overwrite p (be_bytes len val) buf, p + length (be_bytes len val)))"
  by (simp only: Int64ToTpm_stores store_nexts)

fun shift_sum :: "nat list \<Rightarrow> ByteVec \<Rightarrow> UINT64" where
  "shift_sum (k # ks) (b # bs) = push_bit k (ucast b) + shift_sum ks bs"
| "shift_sum _ _ = 0"

lemma load_sum_reads:
  "drop p buf = bs @ rest \<Longrightarrow> p \<le> length buf \<Longrightarrow> length ks = length bs \<Longrightarrow>
   load_sum ks res (buf, p) = (Ok (res + shift_sum ks bs), (buf, p + length bs))"
proof (induction ks arbitrary: bs p res)
  case Nil
  then show ?case by (simp add: ret_app)
next
  case (Cons k ks)
  then obtain b bs' where bs: "bs = b # bs'" by (cases bs) auto
  have less: "p < length buf" using Cons.prems(1,2) bs drop_eq_appendD(1) by fastforce
  then have "buf ! p = b" and tl: "drop (Suc p) buf = bs' @ rest"
    using Cons.prems(1) bs by (simp_all add: Cons_nth_drop_Suc [symmetric])
  then have "load_next (buf, p) = (Ok b, (buf, Suc p))" using less by (simp add: load_next_def)
  then show ?case
    using Cons.IH [of "Suc p" bs' "res + push_bit k (ucast b)"] tl less Cons.prems(3) bs
    by (simp add: sbind_Ok add.assoc)
qed

lemma Int64FromTpm_shifts: "Int64FromTpm len = load_sum (tpm_shifts len) 0"
  by (simp add: Int64FromTpm_def tpm_shifts_def)

lemma byte_at_step: "push_bit k (ucast (byte_at k v)) + take_bit k v = take_bit (k + 8) v"
proof -
  have "push_bit k (ucast (byte_at k v)) AND take_bit k v = 0"
    by (rule bit_word_eqI) (auto simp: bit_simps)
  then have "push_bit k (ucast (byte_at k v)) + take_bit k v =
      push_bit k (ucast (byte_at k v)) OR take_bit k v"
    by (rule disjunctive_add_eq_or)
  also have "\<dots> = take_bit (k + 8) v"
    by (rule bit_word_eqI) (auto simp: bit_simps bit_byte_at)
  finally show ?thesis .
qed

lemma byte_at_0: "ucast (byte_at 0 v) = take_bit 8 v"
  using byte_at_step [of 0 v] by simp

lemma shift_sum_be:
  "shift_sum [0] (be_bytes 1 v) = take_bit 8 v"
  "shift_sum [8, 0] (be_bytes 2 v) = take_bit 16 v"
  "shift_sum [24, 16, 8, 0] (be_bytes 4 v) = take_bit 32 v"
  "shift_sum [56, 48, 40, 32, 24, 16, 8, 0] (be_bytes 8 v) = v"
  using byte_at_step [of 8 v] byte_at_step [of 16 v] byte_at_step [of 24 v] byte_at_step [of 32 v]
    byte_at_step [of 40 v] byte_at_step [of 48 v] byte_at_step [of 56 v]
  by (simp_all add: be_bytes_def byte_at_0 take_bit_word_eq_self)

text \<open>
  Reading back what was written: the code's addition of shifted bytes restores the value, truncated
  to the width that was written.
\<close>

definition int_size :: "nat \<Rightarrow> bool" where
  "int_size len \<longleftrightarrow> len = 1 \<or> len = 2 \<or> len = 4 \<or> len = 8"

lemma length_be_bytes_int_size [simp]: "int_size len \<Longrightarrow> length (be_bytes len v) = len"
  by (auto simp: int_size_def)

lemma length_tpm_shifts [simp]: "int_size len \<Longrightarrow> length (tpm_shifts len) = len"
  by (auto simp: int_size_def)

lemma shift_sum_be_bytes:
  "int_size len \<Longrightarrow> shift_sum (tpm_shifts len) (be_bytes len v) = take_bit (8 * len) v"
  using shift_sum_be [of v] by (auto simp: int_size_def take_bit_word_eq_self)

lemma Int64FromTpm_reads:
  assumes "drop p buf = be_bytes len v @ rest" and "p \<le> length buf" and "int_size len"
  shows "Int64FromTpm len (buf, p) = (Ok (take_bit (8 * len) v), (buf, p + len))"
  using load_sum_reads [OF assms(1,2), of "tpm_shifts len" 0] assms(3)
  by (simp add: Int64FromTpm_shifts shift_sum_be_bytes)

section \<open>Byte buffers\<close>

definition Concatenate :: "ByteVec list \<Rightarrow> ByteVec" where
  "Concatenate bufs = concat bufs"

fun trim_size :: "ByteVec \<Rightarrow> nat \<Rightarrow> nat" where
  "trim_size buf 0 = 0"
| "trim_size buf (Suc n) = (if buf ! n = 0 then trim_size buf n else Suc n)"

definition TrimTrailingZeros :: "ByteVec \<Rightarrow> ByteVec" where
  "TrimTrailingZeros buf =
     (if buf = [] \<or> last buf \<noteq> 0 then buf else take (trim_size buf (length buf)) buf)"

text \<open>
  \<open>ShiftRight\<close>. The loop counts an unsigned \<open>j\<close> down from \<open>newSize - 1\<close> with the condition
  \<open>j >= 0\<close>, so after index 0 it goes on with \<open>SIZE_MAX\<close>, which is outside every vector.
\<close>

definition SIZE_MAX :: nat where
  "SIZE_MAX = 2 ^ 64 - 1"

fun shift_loop :: "ByteVec \<Rightarrow> nat \<Rightarrow> nat list \<Rightarrow> ByteVec \<Rightarrow> ByteVec outcome" where
  "shift_loop x numBits [] y = Ok y"
| "shift_loop x numBits (j # js) y =
     (if j = SIZE_MAX \<or> length y \<le> j \<or> length x \<le> j then Undef
      else shift_loop x numBits js
        (y[j := drop_bit numBits (x ! j) OR
             (if j \<noteq> 0 then push_bit (8 - numBits) (x ! (j - 1)) else 0)]))"

definition ShiftRight :: "ByteVec \<Rightarrow> nat \<Rightarrow> ByteVec outcome" where
  "ShiftRight x numBits =
     (if numBits mod 8 = 0 then
        (if length x < numBits div 8 then Undef else Ok (take (length x - numBits div 8) x))
      else if 7 < numBits then Throw (domain_error ''Can only shift up to 7 bits'')
      else shift_loop x numBits (rev [0..<length x] @ [SIZE_MAX]) (replicate (length x) 0))"

lemma Concatenate_Cons [simp]: "Concatenate (b # bs) = b @ Concatenate bs"
  and Concatenate_Nil [simp]: "Concatenate [] = []"
  by (simp_all add: Concatenate_def)

lemma length_Concatenate: "length (Concatenate bufs) = sum_list (map length bufs)"
  by (simp add: Concatenate_def length_concat)

lemma take_trim_size:
  "n \<le> length buf \<Longrightarrow>
   \<exists>k. take n buf = take (trim_size buf n) buf @ replicate k 0 \<and>
       (trim_size buf n = 0 \<or> buf ! (trim_size buf n - 1) \<noteq> 0)"
proof (induction n)
  case 0
  then show ?case by simp
next
  case (Suc n)
  show ?case
  proof (cases "buf ! n = 0")
    case True
    obtain k where "take n buf = take (trim_size buf n) buf @ replicate k 0"
        "trim_size buf n = 0 \<or> buf ! (trim_size buf n - 1) \<noteq> 0"
      using Suc by auto
    moreover from this True Suc.prems
    have "take (Suc n) buf = take (trim_size buf n) buf @ replicate (Suc k) 0"
      by (simp add: take_Suc_conv_app_nth replicate_append_same [symmetric])
    ultimately show ?thesis using True by (intro exI [of _ "Suc k"]) simp
  qed auto
qed

text \<open>Whatever it is given, a shift by 1 to 7 bits leaves the vector: the loop has no last step.\<close>

lemma shift_loop_SIZE_MAX: "shift_loop x numBits (js @ [SIZE_MAX]) y = Undef"
  by (induction x numBits js y rule: shift_loop.induct) auto

end
