(* ===== verification/TpmMarshal.thy ===== *)
theory TpmMarshal
  imports Helpers
begin

text \<open>
  \<^verbatim>\<open>TSS.CPP/include/TpmMarshal.h\<close>: \<open>TpmBuffer\<close>, the marshaling buffer every TPM structure, command
  and response goes through. The record has the class's four members, each method is a call on it.

  Two predicates summarise what a call does to the wire bytes, and the rules for them let every
  structure be treated by its field list alone:
  \<^item> \<open>writes m bs\<close>: in a buffer with enough room, \<open>m\<close> puts exactly \<open>bs\<close> at the current position and
    moves past it; without enough room it throws and leaves the buffer flagged out of bounds;
  \<^item> \<open>reads m v bs\<close>: where the buffer continues with \<open>bs\<close>, \<open>m\<close> returns \<open>v\<close> and moves past \<open>bs\<close>.
\<close>

named_theorems writes_intros \<open>what a marshaling call writes\<close>
named_theorems reads_intros \<open>what an unmarshaling call reads\<close>

record SizedStructInfo =
  startPos :: nat
  structSize :: nat

record TpmBuffer =
  tb_buf :: ByteVec
  tb_pos :: nat
  tb_outOfBounds :: bool
  tb_sizedStructSizes :: "SizedStructInfo list" \<comment> \<open>a stack, its top first\<close>

type_synonym 'a tpm = "(TpmBuffer, 'a) sx"

section \<open>Construction and position\<close>

definition TpmBuffer_new :: "nat \<Rightarrow> TpmBuffer" where
  "TpmBuffer_new capacity = \<lparr>tb_buf = replicate capacity 0, tb_pos = 0, tb_outOfBounds = False,
     tb_sizedStructSizes = []\<rparr>"

definition TpmBuffer_of :: "ByteVec \<Rightarrow> TpmBuffer" where
  "TpmBuffer_of src = \<lparr>tb_buf = src, tb_pos = 0, tb_outOfBounds = False, tb_sizedStructSizes = []\<rparr>"

text \<open>The copy constructor copies the bytes and the position only.\<close>

definition TpmBuffer_copy :: "TpmBuffer \<Rightarrow> TpmBuffer" where
  "TpmBuffer_copy src = \<lparr>tb_buf = tb_buf src, tb_pos = tb_pos src, tb_outOfBounds = False,
     tb_sizedStructSizes = []\<rparr>"

definition size_buf :: "TpmBuffer \<Rightarrow> nat" where
  "size_buf b = length (tb_buf b)"

definition checkLen :: "nat \<Rightarrow> unit tpm" where
  "checkLen len b =
     (if size_buf b < tb_pos b + len
      then (Throw (runtime_error ''''), b\<lparr>tb_outOfBounds := True, tb_pos := size_buf b\<rparr>)
      else (Ok (), b))"

definition curPos :: "nat tpm" where
  "curPos b = (Ok (tb_pos b), b)"

definition set_curPos :: "nat \<Rightarrow> unit tpm" where
  "set_curPos newPos b = (Ok (), b\<lparr>tb_pos := newPos, tb_outOfBounds := size_buf b < newPos\<rparr>)"

definition isOk :: "bool tpm" where
  "isOk b = (Ok (\<not> tb_outOfBounds b), b)"

text \<open>\<open>vector::resize\<close> drops the tail or appends zero bytes.\<close>

definition resize :: "'a \<Rightarrow> nat \<Rightarrow> 'a list \<Rightarrow> 'a list" where
  "resize d n xs = take n xs @ replicate (n - length xs) d"

definition trim :: "ByteVec tpm" where
  "trim b = (let bs = resize 0 (tb_pos b) (tb_buf b) in (Ok bs, b\<lparr>tb_buf := bs\<rparr>))"

text \<open>
  The subtraction is unsigned: past the end of the structure, the code gets a size near \<open>2 ^ 64\<close>
  that passes \<open>checkLen\<close> after wrapping around once more, and then builds a vector from iterators in
  the wrong order. \<open>Undef\<close> stands for that.
\<close>

definition getCurStuctRemainingSize :: "nat tpm" where
  "getCurStuctRemainingSize b =
     (case tb_sizedStructSizes b of
        [] \<Rightarrow> (Undef, b)
      | ssi # _ \<Rightarrow>
          (if structSize ssi < tb_pos b - startPos ssi \<or> tb_pos b < startPos ssi then (Undef, b)
           else (Ok (structSize ssi - (tb_pos b - startPos ssi)), b)))"

section \<open>Numbers\<close>

definition on_bytes :: "(ByteVec \<times> nat, 'a) sx \<Rightarrow> 'a tpm" where
  "on_bytes = onpart (\<lambda>b. (tb_buf b, tb_pos b)) (\<lambda>(bs, p) b. b\<lparr>tb_buf := bs, tb_pos := p\<rparr>)"

definition writeNum :: "UINT64 \<Rightarrow> nat \<Rightarrow> unit tpm" where
  "writeNum val len = sseq (checkLen len) (on_bytes (Int64ToTpm val len))"

definition readNum :: "nat \<Rightarrow> UINT64 tpm" where
  "readNum len = sseq (checkLen len) (on_bytes (Int64FromTpm len))"

definition writeNumAtPos :: "UINT64 \<Rightarrow> nat \<Rightarrow> nat \<Rightarrow> unit tpm" where
  "writeNumAtPos val pos len =
     sbind curPos (\<lambda>origCurPos. wseq [set_curPos pos, writeNum val len, set_curPos origCurPos])"

definition writeByte :: "UINT8 \<Rightarrow> unit tpm" where
  "writeByte val = sseq (checkLen 1) (on_bytes (store_next (val AND 0xFF)))"

definition writeShort :: "UINT16 \<Rightarrow> unit tpm" where
  "writeShort val = writeNum (ucast val) 2"

definition writeInt :: "UINT32 \<Rightarrow> unit tpm" where
  "writeInt val = writeNum (ucast val) 4"

definition writeInt64 :: "UINT64 \<Rightarrow> unit tpm" where
  "writeInt64 val = writeNum val 8"

definition readByte :: "UINT8 tpm" where
  "readByte = sseq (checkLen 1) (on_bytes load_next)"

definition readShort :: "UINT16 tpm" where
  "readShort = sbind (readNum 2) (\<lambda>v. ret (ucast v))"

definition readInt :: "UINT32 tpm" where
  "readInt = sbind (readNum 4) (\<lambda>v. ret (ucast v))"

definition readInt64 :: "UINT64 tpm" where
  "readInt64 = readNum 8"

section \<open>Byte buffers\<close>

definition put_bytes :: "ByteVec \<Rightarrow> TpmBuffer \<Rightarrow> TpmBuffer" where
  "put_bytes bs b = b\<lparr>tb_buf := overwrite (tb_pos b) bs (tb_buf b), tb_pos := tb_pos b + length bs\<rparr>"

definition writeByteBuf :: "ByteVec \<Rightarrow> unit tpm" where
  "writeByteBuf data =
     (if data = [] then ret () else sseq (checkLen (length data)) (modifyS (put_bytes data)))"

definition readByteBuf :: "nat \<Rightarrow> ByteVec tpm" where
  "readByteBuf n = sseq (checkLen n)
     (\<lambda>b. (Ok (take n (drop (tb_pos b) (tb_buf b))), b\<lparr>tb_pos := tb_pos b + n\<rparr>))"

definition writeSizedByteBuf :: "ByteVec \<Rightarrow> nat \<Rightarrow> unit tpm" where
  "writeSizedByteBuf data sizeLen =
     wseq [writeNum (ucast (of_nat (length data) :: UINT32)) sizeLen, writeByteBuf data]"

text \<open>
  No \<open>checkLen\<close> after the size is read: the vector is built from iterators that may lie past the
  end of the buffer.
\<close>

definition readSizedByteBuf :: "nat \<Rightarrow> ByteVec tpm" where
  "readSizedByteBuf sizeLen = sbind (readNum sizeLen) (\<lambda>n b.
     let len = unat n; start = tb_pos b; b' = b\<lparr>tb_pos := tb_pos b + len\<rparr>
     in if size_buf b < start + len then (Undef, b')
        else (Ok (take len (drop start (tb_buf b))), b'))"

section \<open>Objects and arrays\<close>

text \<open>
  The templates over a structure type take the structure's \<open>toTpm\<close> or \<open>initFromTpm\<close> method; the
  latter maps the object as it was to the object as it is filled from the buffer.
\<close>

definition createObj :: "('a \<Rightarrow> 'a tpm) \<Rightarrow> 'a \<Rightarrow> 'a tpm" where
  "createObj initFromTpm newObj = initFromTpm newObj"

definition writeSizedObj :: "('a \<Rightarrow> unit tpm) \<Rightarrow> 'a \<Rightarrow> unit tpm" where
  "writeSizedObj toTpm obj = sseq (checkLen 2) (\<lambda>b.
     let sizePos = tb_pos b in
     sseq (toTpm obj) (\<lambda>c.
       let objLen = tb_pos c - (sizePos + 2) in
       wseq [writeShort (of_nat objLen), modifyS (\<lambda>d. d\<lparr>tb_pos := tb_pos d + objLen\<rparr>)]
         (c\<lparr>tb_pos := sizePos\<rparr>))
       (b\<lparr>tb_pos := sizePos + 2\<rparr>))"

definition readSizedObj :: "('a \<Rightarrow> 'a tpm) \<Rightarrow> 'a \<Rightarrow> 'a tpm" where
  "readSizedObj initFromTpm obj = sbind readShort (\<lambda>n.
     if n = 0 then ret obj
     else sseq (modifyS (\<lambda>b. b\<lparr>tb_sizedStructSizes :=
                    \<lparr>startPos = tb_pos b, structSize = unat n\<rparr> # tb_sizedStructSizes b\<rparr>))
            (sbind (initFromTpm obj) (\<lambda>obj'.
               sseq (modifyS (\<lambda>b. b\<lparr>tb_sizedStructSizes := tl (tb_sizedStructSizes b)\<rparr>))
                 (ret obj'))))"

fun writeElems :: "('a \<Rightarrow> unit tpm) \<Rightarrow> 'a list \<Rightarrow> unit tpm" where
  "writeElems w [] = ret ()"
| "writeElems w (x # xs) =
     sbind isOk (\<lambda>ok. if \<not> ok then ret () else sseq (w x) (writeElems w xs))"

fun readElems :: "('a \<Rightarrow> 'a tpm) \<Rightarrow> 'a list \<Rightarrow> 'a list tpm" where
  "readElems r [] = ret []"
| "readElems r (x # xs) =
     sbind isOk (\<lambda>ok. if \<not> ok then ret (x # xs)
       else sbind (r x) (\<lambda>y. sbind (readElems r xs) (\<lambda>ys. ret (y # ys))))"

definition writeObjArr :: "('a \<Rightarrow> unit tpm) \<Rightarrow> 'a list \<Rightarrow> unit tpm" where
  "writeObjArr toTpm arr = sseq (writeInt (of_nat (length arr))) (writeElems toTpm arr)"

definition readObjArr :: "('a \<Rightarrow> 'a tpm) \<Rightarrow> 'a \<Rightarrow> 'a list \<Rightarrow> 'a list tpm" where
  "readObjArr initFromTpm newObj arr = sbind readInt (\<lambda>len.
     if len = 0 then ret [] else readElems initFromTpm (resize newObj (unat len) arr))"

definition writeValArr :: "'w::len word list \<Rightarrow> nat \<Rightarrow> unit tpm" where
  "writeValArr arr valSize =
     sseq (writeInt (of_nat (length arr))) (writeElems (\<lambda>val. writeNum (ucast val) valSize) arr)"

definition readValArr :: "'w::len word list \<Rightarrow> nat \<Rightarrow> 'w word list tpm" where
  "readValArr arr valSize = sbind readInt (\<lambda>len.
     if len = 0 then ret []
     else readElems (\<lambda>_. sbind (readNum valSize) (\<lambda>v. ret (ucast (ucast v :: UINT32))))
            (resize 0 (unat len) arr))"

section \<open>What the calls write and read\<close>

definition buf_ok :: "TpmBuffer \<Rightarrow> bool" where
  "buf_ok b \<longleftrightarrow> \<not> tb_outOfBounds b \<and> tb_pos b \<le> size_buf b"

definition fits :: "TpmBuffer \<Rightarrow> nat \<Rightarrow> bool" where
  "fits b n \<longleftrightarrow> tb_pos b + n \<le> size_buf b"

definition overflowed :: "TpmBuffer \<Rightarrow> TpmBuffer \<Rightarrow> bool" where
  "overflowed b b' \<longleftrightarrow> tb_outOfBounds b' \<and> tb_pos b' = size_buf b' \<and> size_buf b' = size_buf b"

definition adv :: "nat \<Rightarrow> TpmBuffer \<Rightarrow> TpmBuffer" where
  "adv n b = b\<lparr>tb_pos := tb_pos b + n\<rparr>"

definition continues :: "TpmBuffer \<Rightarrow> ByteVec \<Rightarrow> bool" where
  "continues b bs \<longleftrightarrow> (\<exists>rest. drop (tb_pos b) (tb_buf b) = bs @ rest)"

definition writes :: "unit tpm \<Rightarrow> ByteVec \<Rightarrow> bool" where
  "writes m bs \<longleftrightarrow> (\<forall>b. buf_ok b \<longrightarrow>
     (if fits b (length bs) then m b = (Ok (), put_bytes bs b)
      else \<exists>b'. m b = (Throw (runtime_error ''''), b') \<and> overflowed b b'))"

definition reads :: "'a tpm \<Rightarrow> 'a \<Rightarrow> ByteVec \<Rightarrow> bool" where
  "reads m v bs \<longleftrightarrow> (\<forall>b. buf_ok b \<longrightarrow> continues b bs \<longrightarrow> m b = (Ok v, adv (length bs) b))"

lemma put_bytes_sel [simp]:
  "tb_pos (put_bytes bs b) = tb_pos b + length bs"
  "tb_buf (put_bytes bs b) = overwrite (tb_pos b) bs (tb_buf b)"
  "tb_outOfBounds (put_bytes bs b) = tb_outOfBounds b"
  "tb_sizedStructSizes (put_bytes bs b) = tb_sizedStructSizes b"
  by (simp_all add: put_bytes_def)

lemma adv_sel [simp]:
  "tb_pos (adv n b) = tb_pos b + n" "tb_buf (adv n b) = tb_buf b"
  "tb_outOfBounds (adv n b) = tb_outOfBounds b"
  "tb_sizedStructSizes (adv n b) = tb_sizedStructSizes b"
  by (simp_all add: adv_def)

lemma adv_adv [simp]: "adv m (adv n b) = adv (n + m) b"
  by (simp add: adv_def add.assoc)

lemma adv_0 [simp]: "adv 0 b = b"
  by (simp add: adv_def)

lemma put_bytes_Nil [simp]: "put_bytes [] b = b"
  by (simp add: put_bytes_def)

lemma size_buf_put_bytes [simp]: "fits b (length bs) \<Longrightarrow> size_buf (put_bytes bs b) = size_buf b"
  by (simp add: fits_def size_buf_def)

lemma put_bytes_append:
  "fits b (length xs + length ys) \<Longrightarrow> put_bytes ys (put_bytes xs b) = put_bytes (xs @ ys) b"
  by (simp add: put_bytes_def fits_def size_buf_def overwrite_overwrite_append add.assoc)

lemma buf_ok_put_bytes: "buf_ok b \<Longrightarrow> fits b (length bs) \<Longrightarrow> buf_ok (put_bytes bs b)"
  by (simp add: buf_ok_def fits_def size_buf_def)

lemma fits_put_bytes:
  "fits b (length xs) \<Longrightarrow> fits (put_bytes xs b) n \<longleftrightarrow> fits b (length xs + n)"
  by (simp add: fits_def size_buf_def add.assoc)

lemma fits_mono: "fits b n \<Longrightarrow> m \<le> n \<Longrightarrow> fits b m"
  by (simp add: fits_def)

lemma continues_fits: "buf_ok b \<Longrightarrow> continues b bs \<Longrightarrow> fits b (length bs)"
  by (auto simp: continues_def fits_def buf_ok_def size_buf_def dest: drop_eq_appendD(1))

lemma continues_take: "continues b bs \<Longrightarrow> take (length bs) (drop (tb_pos b) (tb_buf b)) = bs"
  by (auto simp: continues_def)

lemma continues_append:
  assumes "continues b (xs @ ys)"
  shows "continues b xs" and "continues (adv (length xs) b) ys"
proof -
  obtain rest where d: "drop (tb_pos b) (tb_buf b) = xs @ ys @ rest"
    using assms by (auto simp: continues_def)
  then show "continues b xs" by (auto simp: continues_def)
  have "drop (tb_pos b + length xs) (tb_buf b) = drop (length xs) (drop (tb_pos b) (tb_buf b))"
    by (simp add: add.commute)
  then show "continues (adv (length xs) b) ys" using d by (auto simp: continues_def)
qed

lemma buf_ok_adv: "buf_ok b \<Longrightarrow> fits b n \<Longrightarrow> buf_ok (adv n b)"
  by (simp add: buf_ok_def fits_def size_buf_def)

lemma writesI:
  assumes "\<And>b. buf_ok b \<Longrightarrow> fits b (length bs) \<Longrightarrow> m b = (Ok (), put_bytes bs b)"
    and "\<And>b. buf_ok b \<Longrightarrow> \<not> fits b (length bs) \<Longrightarrow>
           \<exists>b'. m b = (Throw (runtime_error ''''), b') \<and> overflowed b b'"
  shows "writes m bs"
  using assms by (simp add: writes_def)

lemma writes_Ok: "writes m bs \<Longrightarrow> buf_ok b \<Longrightarrow> fits b (length bs) \<Longrightarrow> m b = (Ok (), put_bytes bs b)"
  by (simp add: writes_def)

lemma writes_overflow:
  "writes m bs \<Longrightarrow> buf_ok b \<Longrightarrow> \<not> fits b (length bs) \<Longrightarrow>
   \<exists>b'. m b = (Throw (runtime_error ''''), b') \<and> overflowed b b'"
  by (simp add: writes_def)

lemma readsI:
  "(\<And>b. buf_ok b \<Longrightarrow> continues b bs \<Longrightarrow> m b = (Ok v, adv (length bs) b)) \<Longrightarrow> reads m v bs"
  by (simp add: reads_def)

lemma reads_Ok: "reads m v bs \<Longrightarrow> buf_ok b \<Longrightarrow> continues b bs \<Longrightarrow> m b = (Ok v, adv (length bs) b)"
  by (simp add: reads_def)

subsection \<open>Sequencing\<close>

lemma writes_ret [writes_intros]: "writes (ret ()) []"
  by (simp add: writes_def fits_def buf_ok_def ret_app)

lemma writes_sseq [writes_intros]:
  assumes "writes m xs" and "writes k ys"
  shows "writes (sseq m k) (xs @ ys)"
proof (rule writesI)
  fix b assume ok: "buf_ok b" and f: "fits b (length (xs @ ys))"
  then have fx: "fits b (length xs)" by (simp add: fits_def)
  have "sseq m k b = k (put_bytes xs b)" using writes_Ok [OF assms(1) ok fx] by (rule sseq_Ok)
  also have "\<dots> = (Ok (), put_bytes ys (put_bytes xs b))"
    using assms(2) buf_ok_put_bytes [OF ok fx] f fx by (simp add: writes_Ok fits_put_bytes)
  finally show "sseq m k b = (Ok (), put_bytes (xs @ ys) b)"
    using f by (simp add: put_bytes_append)
next
  fix b assume ok: "buf_ok b" and f: "\<not> fits b (length (xs @ ys))"
  show "\<exists>b'. sseq m k b = (Throw (runtime_error ''''), b') \<and> overflowed b b'"
  proof (cases "fits b (length xs)")
    case True
    then have "sseq m k b = k (put_bytes xs b)"
      using writes_Ok [OF assms(1) ok True] by (simp add: sseq_Ok)
    moreover have "\<not> fits (put_bytes xs b) (length ys)" using f True by (simp add: fits_put_bytes)
    ultimately show ?thesis
      using writes_overflow [OF assms(2) buf_ok_put_bytes [OF ok True]] True
      by (auto simp: overflowed_def)
  next
    case False
    then show ?thesis using writes_overflow [OF assms(1) ok False] by (auto simp: sseq_Throw)
  qed
qed

lemma writes_wseq_Nil [writes_intros]: "writes (wseq []) []"
  by (simp add: writes_ret)

lemma writes_wseq_single [writes_intros]: "writes m xs \<Longrightarrow> writes (wseq [m]) xs"
  using writes_sseq [OF _ writes_ret, of m xs] by simp

lemma writes_wseq_ret [writes_intros]: "writes m xs \<Longrightarrow> writes (wseq [m, ret ()]) xs"
  using writes_sseq [OF _ writes_sseq [OF writes_ret writes_ret], of m xs] by simp

lemma writes_wseq_Cons [writes_intros]:
  "writes m xs \<Longrightarrow> writes (wseq ms) ys \<Longrightarrow> writes (wseq (m # ms)) (xs @ ys)"
  by (simp add: writes_sseq)

lemma reads_ret [reads_intros]: "v = w \<Longrightarrow> reads (ret v) w []"
  by (simp add: reads_def ret_app)

lemma reads_sbind:
  assumes "reads m v xs" and "reads (f v) w ys"
  shows "reads (sbind m f) w (xs @ ys)"
proof (rule readsI)
  fix b assume ok: "buf_ok b" and c: "continues b (xs @ ys)"
  note cx = continues_append(1) [OF c] and cy = continues_append(2) [OF c]
  have "sbind m f b = f v (adv (length xs) b)" using reads_Ok [OF assms(1) ok cx] by (rule sbind_Ok)
  then show "sbind m f b = (Ok w, adv (length (xs @ ys)) b)"
    using reads_Ok [OF assms(2) buf_ok_adv [OF ok continues_fits [OF ok cx]] cy] by simp
qed

lemma reads_sbind_ret: "reads m v bs \<Longrightarrow> f v = w \<Longrightarrow> reads (sbind m (\<lambda>x. ret (f x))) w bs"
  using reads_sbind [of m v bs "\<lambda>x. ret (f x)" w "[]"] by (simp add: reads_ret)

subsection \<open>Numbers\<close>

lemma checkLen_Ok: "fits b n \<Longrightarrow> checkLen n b = (Ok (), b)"
  by (simp add: checkLen_def fits_def)

lemma checkLen_overflow:
  "\<not> fits b n \<Longrightarrow> \<exists>b'. checkLen n b = (Throw (runtime_error ''''), b') \<and> overflowed b b'"
  by (simp add: checkLen_def fits_def overflowed_def size_buf_def)

lemma writes_checked:
  assumes "\<And>b. buf_ok b \<Longrightarrow> fits b (length bs) \<Longrightarrow> m b = (Ok (), put_bytes bs b)"
  shows "writes (sseq (checkLen (length bs)) m) bs"
  using assms checkLen_overflow by (intro writesI) (fastforce simp: sseq_Ok sseq_Throw checkLen_Ok)+

lemma reads_checked:
  assumes "\<And>b. buf_ok b \<Longrightarrow> continues b bs \<Longrightarrow> m b = (Ok v, adv (length bs) b)"
  shows "reads (sseq (checkLen (length bs)) m) v bs"
  using assms by (intro readsI) (simp add: sseq_Ok checkLen_Ok continues_fits)

lemma on_bytes_put:
  "m (tb_buf b, tb_pos b) = (Ok (), (overwrite (tb_pos b) bs (tb_buf b), tb_pos b + length bs)) \<Longrightarrow>
   on_bytes m b = (Ok (), put_bytes bs b)"
  by (simp add: on_bytes_def onpart_def put_bytes_def)

lemma writes_writeNum: "int_size len \<Longrightarrow> writes (writeNum val len) (be_bytes len val)"
  using writes_checked [of "be_bytes len val" "on_bytes (Int64ToTpm val len)"]
  by (simp add: writeNum_def on_bytes_put Int64ToTpm_writes fits_def size_buf_def)

lemma reads_readNum:
  assumes "int_size len"
  shows "reads (readNum len) (take_bit (8 * len) v) (be_bytes len v)"
proof -
  have "reads (sseq (checkLen (length (be_bytes len v))) (on_bytes (Int64FromTpm len)))
      (take_bit (8 * len) v) (be_bytes len v)"
  proof (rule reads_checked)
    fix b assume "buf_ok b" and "continues b (be_bytes len v)"
    then have "Int64FromTpm len (tb_buf b, tb_pos b) =
        (Ok (take_bit (8 * len) v), (tb_buf b, tb_pos b + len))"
      using assms by (auto simp: continues_def buf_ok_def size_buf_def intro: Int64FromTpm_reads)
    then show "on_bytes (Int64FromTpm len) b =
        (Ok (take_bit (8 * len) v), adv (length (be_bytes len v)) b)"
      using assms by (simp add: on_bytes_def onpart_def adv_def)
  qed
  then show ?thesis using assms by (simp add: readNum_def)
qed

text \<open>The wire forms of the four integer widths.\<close>

definition enc8 :: "UINT8 \<Rightarrow> ByteVec" where "enc8 v = [v]"
definition enc16 :: "UINT16 \<Rightarrow> ByteVec" where "enc16 v = be_bytes 2 (ucast v)"
definition enc32 :: "UINT32 \<Rightarrow> ByteVec" where "enc32 v = be_bytes 4 (ucast v)"
definition enc64 :: "UINT64 \<Rightarrow> ByteVec" where "enc64 v = be_bytes 8 v"

lemma length_enc [simp]:
  "length (enc8 a) = 1" "length (enc16 b) = 2" "length (enc32 c) = 4" "length (enc64 d) = 8"
  by (simp_all add: enc8_def enc16_def enc32_def enc64_def)

lemma int_size_numeral [simp]: "int_size 1" "int_size (Suc 0)" "int_size 2" "int_size 4" "int_size 8"
  by (simp_all add: int_size_def)

lemma byte_mask: "(v::byte) AND 0xFF = v"
proof -
  have "(0xFF::byte) = mask 8" by (simp add: mask_eq_exp_minus_1)
  then show ?thesis by (simp add: bit_eq_iff bit_simps)
qed

lemma writes_writeByte [writes_intros]: "writes (writeByte v) (enc8 v)"
  using writes_checked [of "enc8 v" "on_bytes (store_next v)"]
  by (simp add: writeByte_def byte_mask on_bytes_put store_next_def fits_def size_buf_def enc8_def
      overwrite_single)

lemma writes_writeShort [writes_intros]: "writes (writeShort v) (enc16 v)"
  by (simp add: writeShort_def enc16_def writes_writeNum)

lemma writes_writeInt [writes_intros]: "writes (writeInt v) (enc32 v)"
  by (simp add: writeInt_def enc32_def writes_writeNum)

lemma writes_writeInt64 [writes_intros]: "writes (writeInt64 v) (enc64 v)"
  by (simp add: writeInt64_def enc64_def writes_writeNum)

lemma reads_readByte: "reads readByte v (enc8 v)"
proof -
  have "on_bytes load_next b = (Ok v, adv (length (enc8 v)) b)"
    if "buf_ok b" and "continues b (enc8 v)" for b
  proof -
    have "tb_pos b < length (tb_buf b)" and "tb_buf b ! tb_pos b = v"
      using continues_fits [OF that] that(2)
      by (auto simp: fits_def size_buf_def continues_def enc8_def nth_via_drop)
    then show ?thesis by (simp add: on_bytes_def onpart_def load_next_def adv_def)
  qed
  then show ?thesis using reads_checked [of "enc8 v" "on_bytes load_next" v] by (simp add: readByte_def)
qed

lemma ucast_take_bit_ucast:
  "(ucast (take_bit 16 (ucast (v::UINT16)) :: UINT64) :: UINT16) = v"
  "(ucast (take_bit 32 (ucast (w::UINT32)) :: UINT64) :: UINT32) = w"
  by (rule bit_word_eqI; simp add: bit_simps)+

lemma reads_readShort: "reads readShort v (enc16 v)"
  using reads_sbind_ret [OF reads_readNum [of 2 "ucast v"], of ucast v]
  by (simp add: readShort_def enc16_def ucast_take_bit_ucast)

lemma reads_readInt: "reads readInt v (enc32 v)"
  using reads_sbind_ret [OF reads_readNum [of 4 "ucast v"], of ucast v]
  by (simp add: readInt_def enc32_def ucast_take_bit_ucast)

lemma reads_readInt64: "reads readInt64 v (enc64 v)"
  using reads_readNum [of 8 v] by (simp add: readInt64_def enc64_def take_bit_word_eq_self)

subsection \<open>Byte buffers\<close>

lemma writes_writeByteBuf [writes_intros]: "writes (writeByteBuf data) data"
proof (cases "data = []")
  case True
  then show ?thesis by (simp add: writeByteBuf_def writes_ret)
next
  case False
  then show ?thesis
    using writes_checked [of data "modifyS (put_bytes data)"] by (simp add: writeByteBuf_def modifyS_app)
qed

lemma reads_readByteBuf: "n = length bs \<Longrightarrow> reads (readByteBuf n) bs bs"
  using reads_checked [of bs _ bs] by (simp add: readByteBuf_def adv_def continues_take)

text \<open>A byte buffer behind a size prefix of \<open>sizeLen\<close> bytes.\<close>

definition enc_sized :: "nat \<Rightarrow> ByteVec \<Rightarrow> ByteVec" where
  "enc_sized sizeLen data =
     be_bytes sizeLen (ucast (of_nat (length data) :: UINT32)) @ data"

definition sized_ok :: "nat \<Rightarrow> ByteVec \<Rightarrow> bool" where
  "sized_ok sizeLen data \<longleftrightarrow> length data < 2 ^ (8 * min sizeLen 4)"

lemma writes_writeSizedByteBuf [writes_intros]:
  "int_size sizeLen \<Longrightarrow> writes (writeSizedByteBuf data sizeLen) (enc_sized sizeLen data)"
  using writes_wseq_Cons [OF writes_writeNum writes_wseq_Cons [OF writes_writeByteBuf writes_wseq_Nil]]
  by (simp add: writeSizedByteBuf_def enc_sized_def)

lemma unat_size_field:
  assumes "sized_ok sizeLen data" and "int_size sizeLen"
  shows "unat (take_bit (8 * sizeLen) (ucast (of_nat (length data) :: UINT32) :: UINT64)) = length data"
proof -
  have "length data < 2 ^ (8 * min sizeLen 4)" using assms(1) by (simp add: sized_ok_def)
  moreover have "(2::nat) ^ (8 * min sizeLen 4) \<le> 2 ^ 32"
      and "(2::nat) ^ (8 * min sizeLen 4) \<le> 2 ^ (8 * sizeLen)"
    using assms(2) by (auto simp: int_size_def)
  ultimately have "length data < 2 ^ 32" and "length data < 2 ^ (8 * sizeLen)" by linarith+
  then show ?thesis
    by (simp add: unsigned_take_bit_eq unsigned_ucast_eq unat_of_nat take_bit_nat_eq_self)
qed

lemma reads_readSizedByteBuf:
  assumes "sized_ok sizeLen data" and "int_size sizeLen"
  shows "reads (readSizedByteBuf sizeLen) data (enc_sized sizeLen data)"
proof -
  let ?n = "take_bit (8 * sizeLen) (ucast (of_nat (length data) :: UINT32) :: UINT64)"
  have "reads (\<lambda>b. let len = unat ?n; start = tb_pos b; b' = b\<lparr>tb_pos := tb_pos b + len\<rparr>
     in if size_buf b < start + len then (Undef, b')
        else (Ok (take len (drop start (tb_buf b))), b')) data data"
  proof (rule readsI, goal_cases)
    case (1 b)
    then show ?case
      using continues_fits [OF 1] continues_take [OF 1(2)]
      by (simp add: Let_def unat_size_field [OF assms] fits_def adv_def)
  qed
  then show ?thesis
    using reads_sbind [OF reads_readNum [OF assms(2)]]
    by (simp add: readSizedByteBuf_def enc_sized_def)
qed

text \<open>The default size prefix is two bytes.\<close>

abbreviation writeSized2B :: "ByteVec \<Rightarrow> unit tpm" where
  "writeSized2B data \<equiv> writeSizedByteBuf data 2"

abbreviation readSized2B :: "ByteVec tpm" where
  "readSized2B \<equiv> readSizedByteBuf 2"

subsection \<open>Objects in a size-prefixed area\<close>

definition enc_obj :: "ByteVec \<Rightarrow> ByteVec" where
  "enc_obj bs = enc16 (of_nat (length bs)) @ bs"

lemma writes_writeSizedObj:
  assumes w: "writes (toTpm x) bs"
  shows "writes (writeSizedObj toTpm x) (enc_obj bs)"
proof (rule writesI)
  fix b assume ok: "buf_ok b" and f: "fits b (length (enc_obj bs))"
  define b1 where "b1 = b\<lparr>tb_pos := tb_pos b + 2\<rparr>"
  have b1: "buf_ok b1" "fits b1 (length bs)" "tb_pos b1 = tb_pos b + 2"
    using ok f by (simp_all add: buf_ok_def fits_def size_buf_def b1_def enc_obj_def)
  let ?c = "put_bytes bs b1"
  let ?d = "?c\<lparr>tb_pos := tb_pos b\<rparr>"
  have d: "buf_ok ?d" "fits ?d (length (enc16 (of_nat (length bs))))"
    using ok f by (simp_all add: buf_ok_def fits_def size_buf_def enc_obj_def b1_def)
  let ?w = "wseq [writeShort (of_nat (length bs)), modifyS (\<lambda>d. d\<lparr>tb_pos := tb_pos d + length bs\<rparr>)]"
  have "writeSizedObj toTpm x b = ?w ?d"
    using writes_Ok [OF w b1(1,2)] f
    by (simp del: wseq.simps add: writeSizedObj_def sseq_Ok [OF checkLen_Ok] fits_mono enc_obj_def
        b1_def [symmetric] Let_def) (simp del: wseq.simps add: sseq_Ok b1_def)
  also have "\<dots> = (Ok (), (put_bytes (enc16 (of_nat (length bs))) ?d)
      \<lparr>tb_pos := tb_pos b + 2 + length bs\<rparr>)"
    using writes_Ok [OF writes_writeShort d] by (simp add: sseq_Ok modifyS_app ret_app)
  also have "\<dots> = (Ok (), put_bytes (enc_obj bs) b)"
    using f overwrite_hole [of "tb_pos b" "enc16 (of_nat (length bs))" bs "tb_buf b"]
    by (simp add: put_bytes_def enc_obj_def fits_def size_buf_def b1_def)
  finally show "writeSizedObj toTpm x b = (Ok (), put_bytes (enc_obj bs) b)" .
next
  fix b assume ok: "buf_ok b" and f: "\<not> fits b (length (enc_obj bs))"
  show "\<exists>b'. writeSizedObj toTpm x b = (Throw (runtime_error ''''), b') \<and> overflowed b b'"
  proof (cases "fits b 2")
    case True
    define b1 where "b1 = b\<lparr>tb_pos := tb_pos b + 2\<rparr>"
    have b1: "buf_ok b1" "\<not> fits b1 (length bs)"
      using ok f True by (simp_all add: buf_ok_def fits_def size_buf_def b1_def enc_obj_def)
    then obtain b' where "toTpm x b1 = (Throw (runtime_error ''''), b')" "overflowed b1 b'"
      using writes_overflow [OF w] by blast
    moreover from this(1) have "writeSizedObj toTpm x b = (Throw (runtime_error ''''), b')"
      using checkLen_Ok [OF True]
      by (simp only: writeSizedObj_def sseq_Ok Let_def b1_def [symmetric] sseq_Throw)
    ultimately show ?thesis by (simp add: overflowed_def b1_def size_buf_def)
  next
    case False
    then show ?thesis
      using checkLen_overflow [of b 2] by (auto simp: writeSizedObj_def sseq_Throw)
  qed
qed

definition pushed :: "nat \<Rightarrow> TpmBuffer \<Rightarrow> TpmBuffer" where
  "pushed n b = b\<lparr>tb_sizedStructSizes :=
     \<lparr>startPos = tb_pos b, structSize = n\<rparr> # tb_sizedStructSizes b\<rparr>"

text \<open>
  \<open>reads_sized m v bs\<close>: what \<open>m\<close> reads as the body of a sized area of exactly \<open>bs\<close>, where it may
  ask for the remaining size.
\<close>

definition reads_sized :: "'a tpm \<Rightarrow> 'a \<Rightarrow> ByteVec \<Rightarrow> bool" where
  "reads_sized m v bs \<longleftrightarrow> (\<forall>b. buf_ok b \<longrightarrow> continues b bs \<longrightarrow>
     m (pushed (length bs) b) = (Ok v, adv (length bs) (pushed (length bs) b)))"

lemma reads_imp_sized: "reads m v bs \<Longrightarrow> reads_sized m v bs"
  by (auto simp: reads_sized_def reads_def buf_ok_def pushed_def continues_def size_buf_def)

lemma reads_readSizedObj_sized:
  assumes r: "reads_sized (init d) x bs" and len: "length bs < 2 ^ 16" and ne: "bs = [] \<Longrightarrow> x = d"
  shows "reads (readSizedObj init d) x (enc_obj bs)"
proof -
  let ?n = "of_nat (length bs) :: UINT16"
  have n: "unat ?n = length bs" using len by (simp add: unat_of_nat take_bit_nat_eq_self)
  have "reads (if ?n = 0 then ret d else sseq (modifyS (\<lambda>b. b\<lparr>tb_sizedStructSizes :=
                    \<lparr>startPos = tb_pos b, structSize = unat ?n\<rparr> # tb_sizedStructSizes b\<rparr>))
            (sbind (init d) (\<lambda>obj'.
               sseq (modifyS (\<lambda>b. b\<lparr>tb_sizedStructSizes := tl (tb_sizedStructSizes b)\<rparr>))
                 (ret obj')))) x bs"
  proof (cases "bs = []")
    case True
    then show ?thesis using ne by (simp add: reads_ret)
  next
    case False
    then have "?n \<noteq> 0" using n by (metis length_0_conv unat_0)
    moreover have "sseq (modifyS (pushed (unat ?n))) (sbind (init d) (\<lambda>obj'.
        sseq (modifyS (\<lambda>b. b\<lparr>tb_sizedStructSizes := tl (tb_sizedStructSizes b)\<rparr>)) (ret obj'))) b =
        (Ok x, adv (length bs) b)" if "buf_ok b" and "continues b bs" for b
      using r that n unfolding reads_sized_def
      by (simp add: sseq_Ok [OF modifyS_app] sbind_Ok ret_app) (simp add: pushed_def adv_def)
    ultimately show ?thesis by (simp add: reads_def pushed_def [abs_def])
  qed
  then show ?thesis
    using reads_sbind [OF reads_readShort] by (simp add: readSizedObj_def enc_obj_def)
qed

lemma reads_readSizedObj_Nil: "reads (readSizedObj init d) d (enc_obj [])"
  using reads_sbind [OF reads_readShort, of _ 0 d "[]"]
  by (simp add: readSizedObj_def enc_obj_def reads_ret)

lemma reads_readSizedObj:
  "reads (init d) x bs \<Longrightarrow> length bs < 2 ^ 16 \<Longrightarrow> (bs = [] \<Longrightarrow> x = d) \<Longrightarrow>
   reads (readSizedObj init d) x (enc_obj bs)"
  by (rule reads_readSizedObj_sized) (rule reads_imp_sized)

subsection \<open>Arrays\<close>

definition enc_elems :: "('a \<Rightarrow> ByteVec) \<Rightarrow> 'a list \<Rightarrow> ByteVec" where
  "enc_elems enc xs = concat (map enc xs)"

definition enc_arr :: "('a \<Rightarrow> ByteVec) \<Rightarrow> 'a list \<Rightarrow> ByteVec" where
  "enc_arr enc xs = enc32 (of_nat (length xs)) @ enc_elems enc xs"

definition arr_ok :: "('a \<Rightarrow> bool) \<Rightarrow> 'a list \<Rightarrow> bool" where
  "arr_ok ok xs \<longleftrightarrow> length xs < 2 ^ 32 \<and> list_all ok xs"

lemma enc_elems_simps [simp]:
  "enc_elems enc [] = []" "enc_elems enc (x # xs) = enc x @ enc_elems enc xs"
  by (simp_all add: enc_elems_def)

lemma writes_isOk: "writes m bs \<Longrightarrow> writes (sbind isOk (\<lambda>ok. if \<not> ok then m' else m)) bs"
  by (auto simp: writes_def sbind_def isOk_def buf_ok_def)

lemma reads_isOk: "reads m v bs \<Longrightarrow> reads (sbind isOk (\<lambda>ok. if \<not> ok then m' else m)) v bs"
  by (auto simp: reads_def sbind_def isOk_def buf_ok_def)

lemma writes_writeElems:
  "(\<And>x. x \<in> set xs \<Longrightarrow> writes (w x) (enc x)) \<Longrightarrow> writes (writeElems w xs) (enc_elems enc xs)"
proof (induction xs)
  case Nil
  then show ?case by (simp add: writes_ret)
next
  case (Cons x xs)
  then show ?case by (simp add: writes_isOk writes_sseq)
qed

lemma reads_readElems:
  "(\<And>x. x \<in> set xs \<Longrightarrow> reads (r d) x (enc x)) \<Longrightarrow>
   reads (readElems r (replicate (length xs) d)) xs (enc_elems enc xs)"
proof (induction xs)
  case Nil
  then show ?case by (simp add: reads_ret)
next
  case (Cons x xs)
  have "reads (sbind (readElems r (replicate (length xs) d)) (\<lambda>ys. ret (x # ys)))
      (x # xs) (enc_elems enc xs)"
    using Cons by (intro reads_sbind_ret) simp_all
  moreover have "reads (r d) x (enc x)" using Cons.prems by simp
  ultimately have "reads (sbind (r d) (\<lambda>y. sbind (readElems r (replicate (length xs) d))
      (\<lambda>ys. ret (y # ys)))) (x # xs) (enc x @ enc_elems enc xs)"
    by (intro reads_sbind)
  then show ?case by (simp add: reads_isOk)
qed

lemma writes_writeObjArr:
  "(\<And>x. x \<in> set xs \<Longrightarrow> writes (toTpm x) (enc x)) \<Longrightarrow> writes (writeObjArr toTpm xs) (enc_arr enc xs)"
  by (simp add: writeObjArr_def enc_arr_def writes_sseq writes_writeInt writes_writeElems)

lemma reads_readObjArr:
  assumes "\<And>x. x \<in> set xs \<Longrightarrow> reads (init d) x (enc x)" and len: "length xs < 2 ^ 32"
  shows "reads (readObjArr init d []) xs (enc_arr enc xs)"
proof -
  let ?n = "of_nat (length xs) :: UINT32"
  have n: "unat ?n = length xs" using len by (simp add: unat_of_nat take_bit_nat_eq_self)
  have "reads (if ?n = 0 then ret [] else readElems init (resize d (unat ?n) [])) xs
      (enc_elems enc xs)"
  proof (cases "?n = 0")
    case True
    then have "xs = []" using n by simp
    then show ?thesis by (simp add: reads_ret)
  next
    case False
    then show ?thesis using reads_readElems [of xs init d enc] assms(1) n by (simp add: resize_def)
  qed
  then show ?thesis
    unfolding readObjArr_def enc_arr_def by (intro reads_sbind [OF reads_readInt])
qed

text \<open>
  Arrays of numbers of \<open>valSize\<close> bytes. The element goes through a 32-bit integer on its way back.
\<close>

definition enc_val :: "nat \<Rightarrow> 'w::len word \<Rightarrow> ByteVec" where
  "enc_val valSize x = be_bytes valSize (ucast x)"

definition val_fits :: "nat \<Rightarrow> 'w::len word \<Rightarrow> bool" where
  "val_fits valSize x \<longleftrightarrow> ucast (ucast (take_bit (8 * valSize) (ucast x :: UINT64)) :: UINT32) = x"

lemma val_fits_16 [simp]: "val_fits 2 (x::UINT16)"
  unfolding val_fits_def by (rule bit_word_eqI) (simp add: bit_simps)

lemma val_fits_32 [simp]: "val_fits 4 (x::UINT32)"
  unfolding val_fits_def by (rule bit_word_eqI) (simp add: bit_simps)

lemma writes_writeValArr [writes_intros]:
  "int_size n \<Longrightarrow> writes (writeValArr xs n) (enc_arr (enc_val n) xs)"
  unfolding writeValArr_def enc_arr_def
  by (intro writes_sseq writes_writeInt writes_writeElems) (simp add: enc_val_def writes_writeNum)

lemma reads_readValArr:
  assumes "int_size n" and "length xs < 2 ^ 32" and fit: "\<And>x. x \<in> set xs \<Longrightarrow> val_fits n x"
  shows "reads (readValArr [] n) (xs::'w::len word list) (enc_arr (enc_val n) xs)"
proof -
  have "reads (sbind (readNum n) (\<lambda>v. ret (ucast (ucast v :: UINT32)))) x (enc_val n x)"
    if "x \<in> set xs" for x
    using fit [OF that] unfolding enc_val_def val_fits_def
    by (intro reads_sbind_ret [OF reads_readNum [OF assms(1)]])
  then show ?thesis
    using reads_readObjArr [of xs "\<lambda>_. sbind (readNum n) (\<lambda>v. ret (ucast (ucast v :: UINT32)))"
        0 "enc_val n"] assms(2)
    by (simp add: readValArr_def readObjArr_def)
qed

subsection \<open>Calls through a pointer, and the result of a pure function\<close>

text \<open>A call through a \<open>shared_ptr\<close>: a null pointer has no meaning.\<close>

fun deref :: "'u option \<Rightarrow> ('u \<Rightarrow> ('s, 'a) sx) \<Rightarrow> ('s, 'a) sx" where
  "deref (Some u) f = f u"
| "deref None f = undef"

fun bindO :: "'a outcome \<Rightarrow> ('a \<Rightarrow> ('s, 'b) sx) \<Rightarrow> ('s, 'b) sx" where
  "bindO (Ok x) f = f x"
| "bindO (Throw e) f = throw e"
| "bindO AssertFailed f = sbind (sassert False) (\<lambda>_. undef)"
| "bindO Undef f = undef"

fun opt_enc :: "('u \<Rightarrow> ByteVec) \<Rightarrow> 'u option \<Rightarrow> ByteVec" where
  "opt_enc e (Some u) = e u"
| "opt_enc e None = []"

fun opt_ok :: "('u \<Rightarrow> bool) \<Rightarrow> 'u option \<Rightarrow> bool" where
  "opt_ok P (Some u) = P u"
| "opt_ok P None = False"

lemma opt_ok_iff: "opt_ok P u \<longleftrightarrow> u \<noteq> None \<and> P (the u)"
  by (cases u) simp_all

lemma writes_deref [writes_intros]:
  "u \<noteq> None \<Longrightarrow> (\<And>v. u = Some v \<Longrightarrow> writes (f v) (e v)) \<Longrightarrow> writes (deref u f) (opt_enc e u)"
  by (cases u) simp_all

lemma reads_selector16:
  "u \<noteq> None \<Longrightarrow> reads readShort (sel (the u)) (opt_enc (\<lambda>v. enc16 (sel v)) u)"
  by (cases u) (simp_all add: reads_readShort)

lemma reads_selector32:
  "u \<noteq> None \<Longrightarrow> reads readInt (sel (the u)) (opt_enc (\<lambda>v. enc32 (sel v)) u)"
  by (cases u) (simp_all add: reads_readInt)

text \<open>
  The rules by which a method body is followed: a call that is followed by others, and the last
  call, whose result goes into the object that is returned.
\<close>

lemma reads_deref:
  "reads (init d) v xs \<Longrightarrow> reads (f v) w ys \<Longrightarrow> reads (sbind (deref (Some d) init) f) w (xs @ ys)"
  by (simp add: reads_sbind)

lemma reads_deref_ret:
  "reads (init d) v bs \<Longrightarrow> f v = w \<Longrightarrow> reads (sbind (deref (Some d) init) (\<lambda>x. ret (f x))) w bs"
  by (simp add: reads_sbind_ret)

lemma reads_bindO: "r = Ok v \<Longrightarrow> reads (f v) w bs \<Longrightarrow> reads (bindO r f) w bs"
  by simp

lemma reads_if_not [reads_intros]: "\<not> c \<Longrightarrow> reads m x bs \<Longrightarrow> reads m x (if c then [] else bs)"
  by simp

lemmas reads_number_steps [reads_intros] =
  reads_readByte [THEN reads_sbind] reads_readShort [THEN reads_sbind] reads_readInt [THEN reads_sbind]
  reads_readInt64 [THEN reads_sbind] reads_selector16 [THEN reads_sbind] reads_selector32 [THEN reads_sbind]
  reads_readByte [THEN reads_sbind_ret] reads_readShort [THEN reads_sbind_ret]
  reads_readInt [THEN reads_sbind_ret] reads_readInt64 [THEN reads_sbind_ret]

lemmas reads_buffer_steps [reads_intros] =
  reads_readByteBuf [THEN reads_sbind] reads_readSizedByteBuf [THEN reads_sbind]
  reads_readValArr [THEN reads_sbind] reads_readByteBuf [THEN reads_sbind_ret]
  reads_readSizedByteBuf [THEN reads_sbind_ret] reads_readValArr [THEN reads_sbind_ret]

text \<open>A selector whose null value ends the structure.\<close>

lemma reads_unless_null:
  assumes "a = k \<Longrightarrow> f a = x" and "a \<noteq> k \<Longrightarrow> g a b c = x"
  shows "reads (sbind readShort (\<lambda>a. if a = k then ret (f a)
      else sbind readShort (\<lambda>b. sbind readShort (\<lambda>c. ret (g a b c))))) x
      (enc16 a @ (if a = k then [] else enc16 b @ enc16 c))"
proof (cases "a = k")
  case True
  then show ?thesis using assms(1) by (intro reads_sbind [OF reads_readShort]) (simp add: reads_ret)
next
  case False
  then have "reads (sbind readShort (\<lambda>b. sbind readShort (\<lambda>c. ret (g a b c)))) x (enc16 b @ enc16 c)"
    using assms(2) by (intro reads_intros) simp
  then show ?thesis using False by (intro reads_sbind [OF reads_readShort]) simp
qed

text \<open>The field that takes what is left of the enclosing sized area.\<close>

lemma reads_sized_rest:
  assumes "sized_ok 2 d" and "f d e = x"
  shows "reads_sized (sbind (readSizedByteBuf 2) (\<lambda>a.
      sbind (sbind getCurStuctRemainingSize (\<lambda>n. readByteBuf n)) (\<lambda>b. ret (f a b))))
      x (enc_sized 2 d @ e)"
  unfolding reads_sized_def
proof (intro allI impI)
  fix b assume ok: "buf_ok b" and c: "continues b (enc_sized 2 d @ e)"
  let ?n = "length (enc_sized 2 d @ e)"
  let ?b = "pushed ?n b"
  let ?c = "adv (length (enc_sized 2 d)) ?b"
  have okb: "buf_ok ?b" "continues ?b (enc_sized 2 d @ e)"
    using ok c by (simp_all add: buf_ok_def continues_def pushed_def size_buf_def)
  note c1 = continues_append(1) [OF okb(2)] and c2 = continues_append(2) [OF okb(2)]
  have r1: "readSizedByteBuf 2 ?b = (Ok d, ?c)"
    by (rule reads_Ok [OF reads_readSizedByteBuf [OF assms(1)] okb(1) c1]) simp
  have "getCurStuctRemainingSize ?c = (Ok (length e), ?c)"
    by (simp add: getCurStuctRemainingSize_def pushed_def)
  moreover have "readByteBuf (length e) ?c = (Ok e, adv (length e) ?c)"
    by (rule reads_Ok [OF reads_readByteBuf buf_ok_adv [OF okb(1) continues_fits [OF okb(1) c1]] c2]) simp
  ultimately show "sbind (readSizedByteBuf 2) (\<lambda>a. sbind (sbind getCurStuctRemainingSize
      (\<lambda>n. readByteBuf n)) (\<lambda>b. ret (f a b))) ?b = (Ok x, adv ?n ?b)"
    using r1 assms(2) by (simp add: sbind_Ok ret_app)
qed

text \<open>Nothing that carries a value is empty on the wire.\<close>

lemma enc_not_Nil [simp]:
  "enc8 a \<noteq> []" "enc16 b \<noteq> []" "enc32 c \<noteq> []" "enc64 d \<noteq> []" "enc_obj bs \<noteq> []" "enc_arr g xs \<noteq> []"
  by (simp_all add: enc8_def enc16_def enc32_def enc64_def enc_obj_def enc_arr_def be_bytes_def)

lemma enc_sized_not_Nil [simp]: "int_size n \<Longrightarrow> enc_sized n bs \<noteq> []"
  by (auto simp: enc_sized_def int_size_def be_bytes_def)

end
