(* ===== verification/InlineFn.thy ===== *)
theory InlineFn
  imports TpmMarshal
begin

unbundle bit_operations_syntax

text \<open>
  \<^verbatim>\<open>PCPTool.v11/inc/InlineFn.h\<close>: the bounded big-endian cursor that the TPM 1.2/2.0 code of
  PCPTool reads and writes its buffers with.

  The state is the memory behind \<open>pbBuffer\<close> and the cursor behind \<open>pCursor\<close> (\<open>None\<close> for a null
  pointer); \<open>cbBuffer\<close> is what the caller says the buffer's size is. The cursor arithmetic is 32-bit
  and wraps. An access outside the memory is \<open>Undef\<close>; \<open>mem_ok\<close> is the caller's obligation that
  there are \<open>cbBuffer\<close> bytes, and under it no call ever is. A pointer that a read returns into the
  buffer is its offset.
\<close>

type_synonym HRESULT = "32 word"

abbreviation (input) S_OK :: HRESULT where "S_OK \<equiv> 0"
abbreviation (input) E_INVALIDARG :: HRESULT where "E_INVALIDARG \<equiv> 0x80070057"
abbreviation (input) E_FAIL :: HRESULT where "E_FAIL \<equiv> 0x80004005"

record BEBuf =
  be_mem :: ByteVec
  be_cursor :: "UINT32 option"

section \<open>Byte order macros\<close>

definition ENDIANSWAPUINT64 :: "UINT64 \<Rightarrow> UINT64" where
  "ENDIANSWAPUINT64 x =
     push_bit 56 (x AND 0x00000000000000FF) OR
     push_bit 40 (x AND 0x000000000000FF00) OR
     push_bit 24 (x AND 0x0000000000FF0000) OR
     push_bit 8 (x AND 0x00000000FF000000) OR
     drop_bit 8 (x AND 0x000000FF00000000) OR
     drop_bit 24 (x AND 0x0000FF0000000000) OR
     drop_bit 40 (x AND 0x00FF000000000000) OR
     drop_bit 56 (x AND 0xFF00000000000000)"

definition ENDIANSWAPUINT32 :: "UINT32 \<Rightarrow> UINT32" where
  "ENDIANSWAPUINT32 x =
     push_bit 24 (x AND 0x000000FF) OR
     push_bit 8 (x AND 0x0000FF00) OR
     drop_bit 8 (x AND 0x00FF0000) OR
     drop_bit 24 (x AND 0xFF000000)"

definition ENDIANSWAPUINT16 :: "UINT16 \<Rightarrow> UINT16" where
  "ENDIANSWAPUINT16 x = push_bit 8 (x AND 0x00FF) OR drop_bit 8 (x AND 0xFF00)"

definition cursor :: "BEBuf \<Rightarrow> UINT32" where
  "cursor b = the (be_cursor b)"

text \<open>\<open>ARRAY[OFFSET + k]\<close> with \<open>OFFSET\<close> the cursor.\<close>

definition store_at :: "UINT32 \<Rightarrow> byte \<Rightarrow> (BEBuf, unit) sx" where
  "store_at k v b =
     (let i = unat (cursor b + k) in
      if i < length (be_mem b) then (Ok (), b\<lparr>be_mem := (be_mem b)[i := v]\<rparr>) else (Undef, b))"

definition load_at :: "UINT32 \<Rightarrow> (BEBuf, byte) sx" where
  "load_at k b =
     (let i = unat (cursor b + k) in
      if i < length (be_mem b) then (Ok (be_mem b ! i), b) else (Undef, b))"

definition ENDIANSWAP_UINT64TOARRAY :: "UINT64 \<Rightarrow> (BEBuf, unit) sx" where
  "ENDIANSWAP_UINT64TOARRAY x = wseq
     [store_at 0 (ucast (drop_bit 56 (x AND 0xff00000000000000))),
      store_at 1 (ucast (drop_bit 48 (x AND 0x00ff000000000000))),
      store_at 2 (ucast (drop_bit 40 (x AND 0x0000ff0000000000))),
      store_at 3 (ucast (drop_bit 32 (x AND 0x000000ff00000000))),
      store_at 4 (ucast (drop_bit 24 (x AND 0x00000000ff000000))),
      store_at 5 (ucast (drop_bit 16 (x AND 0x0000000000ff0000))),
      store_at 6 (ucast (drop_bit 8 (x AND 0x000000000000ff00))),
      store_at 7 (ucast (x AND 0x00000000000000ff))]"

definition ENDIANSWAP_UINT32TOARRAY :: "UINT32 \<Rightarrow> (BEBuf, unit) sx" where
  "ENDIANSWAP_UINT32TOARRAY x = wseq
     [store_at 0 (ucast (drop_bit 24 (x AND 0xff000000))),
      store_at 1 (ucast (drop_bit 16 (x AND 0x00ff0000))),
      store_at 2 (ucast (drop_bit 8 (x AND 0x0000ff00))),
      store_at 3 (ucast (x AND 0x000000ff))]"

definition ENDIANSWAP_UINT16TOARRAY :: "UINT16 \<Rightarrow> (BEBuf, unit) sx" where
  "ENDIANSWAP_UINT16TOARRAY x = wseq
     [store_at 0 (ucast (drop_bit 8 (x AND 0xff00))), store_at 1 (ucast (x AND 0x00ff))]"

definition ENDIANSWAP_UINT64FROMARRAY :: "(BEBuf, UINT64) sx" where
  "ENDIANSWAP_UINT64FROMARRAY =
     sbind (load_at 0) (\<lambda>a. sbind (load_at 1) (\<lambda>b. sbind (load_at 2) (\<lambda>c. sbind (load_at 3) (\<lambda>d.
     sbind (load_at 4) (\<lambda>e. sbind (load_at 5) (\<lambda>f. sbind (load_at 6) (\<lambda>g. sbind (load_at 7) (\<lambda>h.
     ret (push_bit 56 (ucast a) OR push_bit 48 (ucast b) OR push_bit 40 (ucast c) OR
          push_bit 32 (ucast d) OR push_bit 24 (ucast e) OR push_bit 16 (ucast f) OR
          push_bit 8 (ucast g) OR ucast h)))))))))"

definition ENDIANSWAP_UINT32FROMARRAY :: "(BEBuf, UINT32) sx" where
  "ENDIANSWAP_UINT32FROMARRAY =
     sbind (load_at 0) (\<lambda>a. sbind (load_at 1) (\<lambda>b. sbind (load_at 2) (\<lambda>c. sbind (load_at 3) (\<lambda>d.
     ret (push_bit 24 (ucast a) OR push_bit 16 (ucast b) OR push_bit 8 (ucast c) OR ucast d)))))"

definition ENDIANSWAP_UINT16FROMARRAY :: "(BEBuf, UINT16) sx" where
  "ENDIANSWAP_UINT16FROMARRAY =
     sbind (load_at 0) (\<lambda>a. sbind (load_at 1) (\<lambda>b. ret (push_bit 8 (ucast a) OR ucast b)))"

section \<open>The cursor operations\<close>

text \<open>The guard that every operation starts with, for \<open>n\<close> bytes.\<close>

definition room :: "UINT32 \<Rightarrow> nat \<Rightarrow> BEBuf \<Rightarrow> bool" where
  "room cbBuffer n b \<longleftrightarrow>
     be_cursor b \<noteq> None \<and> cursor b \<le> cbBuffer \<and> n \<le> unat (cbBuffer - cursor b)"

definition advance :: "UINT32 \<Rightarrow> (BEBuf, unit) sx" where
  "advance n = modifyS (\<lambda>b. b\<lparr>be_cursor := Some (cursor b + n)\<rparr>)"

definition SkipBigEndian2B :: "UINT32 \<Rightarrow> (BEBuf, HRESULT) sx" where
  "SkipBigEndian2B cbBuffer b =
     (if \<not> room cbBuffer 2 b then (Ok E_INVALIDARG, b)
      else sbind ENDIANSWAP_UINT16FROMARRAY (\<lambda>bufSize. sseq (advance 2) (\<lambda>c.
        if cbBuffer - cursor c < ucast bufSize then (Ok E_INVALIDARG, c)
        else sseq (advance (ucast bufSize)) (ret S_OK) c)) b)"

text \<open>\<open>memcpy_s\<close>: a count above the destination's size clears the destination and fails.\<close>

definition memcpy_s :: "nat \<Rightarrow> ByteVec \<Rightarrow> (BEBuf, bool) sx" where
  "memcpy_s destSize src b =
     (let p = unat (cursor b) in
      if destSize < length src
      then if length (be_mem b) < p + destSize then (Undef, b)
           else (Ok False, b\<lparr>be_mem := overwrite p (replicate destSize 0) (be_mem b)\<rparr>)
      else if length (be_mem b) < p + length src then (Undef, b)
           else (Ok True, b\<lparr>be_mem := overwrite p src (be_mem b)\<rparr>))"

text \<open>
  \<open>pbInBuffer\<close> is \<open>None\<close> when null and otherwise the \<open>cbInBuffer\<close> bytes it points to.
\<close>

definition WriteBigEndian2B :: "UINT32 \<Rightarrow> UINT16 \<Rightarrow> ByteVec option \<Rightarrow> (BEBuf, HRESULT) sx" where
  "WriteBigEndian2B cbBuffer cbInBuffer pbInBuffer b =
     (if \<not> room cbBuffer 2 b \<or> pbInBuffer = None then (Ok E_INVALIDARG, b)
      else sseq (ENDIANSWAP_UINT16TOARRAY cbInBuffer) (sseq (advance 2) (\<lambda>c.
        sbind (memcpy_s (unat (cbBuffer - cursor c)) (the pbInBuffer)) (\<lambda>ok.
          if \<not> ok then ret E_INVALIDARG else sseq (advance (ucast cbInBuffer)) (ret S_OK)) c)) b)"

text \<open>
  The results of the reads: what was stored through each output pointer, \<open>None\<close> if nothing was. The
  output pointers are null when \<open>out\<close> is \<open>False\<close>.
\<close>

definition ReadBigEndian2B :: "UINT32 \<Rightarrow> bool \<Rightarrow> (BEBuf, HRESULT \<times> UINT16 option \<times> UINT32 option) sx" where
  "ReadBigEndian2B cbBuffer out b =
     (if \<not> room cbBuffer 2 b \<or> \<not> out then (Ok (E_INVALIDARG, None, None), b)
      else sbind ENDIANSWAP_UINT16FROMARRAY (\<lambda>n. sseq (advance 2) (\<lambda>c.
        if cbBuffer - cursor c < ucast n then (Ok (E_INVALIDARG, Some n, None), c)
        else sseq (advance (ucast n)) (ret (S_OK, Some n, Some (cursor c))) c)) b)"

definition SkipBigEndian :: "UINT32 \<Rightarrow> UINT32 \<Rightarrow> (BEBuf, HRESULT) sx" where
  "SkipBigEndian cbBuffer skipSize b =
     (if \<not> room cbBuffer (unat skipSize) b then (Ok E_INVALIDARG, b)
      else sseq (advance skipSize) (ret S_OK) b)"

definition WriteBigEndianBuf :: "UINT32 \<Rightarrow> ByteVec option \<Rightarrow> UINT32 \<Rightarrow> (BEBuf, HRESULT) sx" where
  "WriteBigEndianBuf cbBuffer pbInBuffer cbInBuffer b =
     (if \<not> room cbBuffer (unat cbInBuffer) b \<or> pbInBuffer = None then (Ok E_INVALIDARG, b)
      else sbind (memcpy_s (unat (cbBuffer - cursor b)) (the pbInBuffer)) (\<lambda>ok.
        if \<not> ok then ret E_FAIL else sseq (advance cbInBuffer) (ret S_OK)) b)"

definition ReadBigEndianBuf :: "UINT32 \<Rightarrow> bool \<Rightarrow> UINT32 \<Rightarrow> (BEBuf, HRESULT \<times> UINT32 option) sx" where
  "ReadBigEndianBuf cbBuffer out cbValOut b =
     (if \<not> room cbBuffer (unat cbValOut) b \<or> \<not> out then (Ok (E_INVALIDARG, None), b)
      else sseq (advance cbValOut) (ret (S_OK, Some (cursor b))) b)"

definition WriteBigEndian32 :: "UINT32 \<Rightarrow> UINT32 \<Rightarrow> (BEBuf, HRESULT) sx" where
  "WriteBigEndian32 cbBuffer valIn b =
     (if \<not> room cbBuffer 4 b then (Ok E_INVALIDARG, b)
      else sseq (ENDIANSWAP_UINT32TOARRAY valIn) (sseq (advance 4) (ret S_OK)) b)"

definition ReadBigEndian32 :: "UINT32 \<Rightarrow> bool \<Rightarrow> (BEBuf, HRESULT \<times> UINT32 option) sx" where
  "ReadBigEndian32 cbBuffer out b =
     (if \<not> room cbBuffer 4 b \<or> \<not> out then (Ok (E_INVALIDARG, None), b)
      else sbind ENDIANSWAP_UINT32FROMARRAY (\<lambda>v. sseq (advance 4) (ret (S_OK, Some v))) b)"

definition WriteBigEndian16 :: "UINT32 \<Rightarrow> UINT16 \<Rightarrow> (BEBuf, HRESULT) sx" where
  "WriteBigEndian16 cbBuffer valIn b =
     (if \<not> room cbBuffer 2 b then (Ok E_INVALIDARG, b)
      else sseq (ENDIANSWAP_UINT16TOARRAY valIn) (sseq (advance 2) (ret S_OK)) b)"

definition ReadBigEndian16 :: "UINT32 \<Rightarrow> bool \<Rightarrow> (BEBuf, HRESULT \<times> UINT16 option) sx" where
  "ReadBigEndian16 cbBuffer out b =
     (if \<not> room cbBuffer 2 b \<or> \<not> out then (Ok (E_INVALIDARG, None), b)
      else sbind ENDIANSWAP_UINT16FROMARRAY (\<lambda>v. sseq (advance 2) (ret (S_OK, Some v))) b)"

definition WriteBigEndian8 :: "UINT32 \<Rightarrow> byte \<Rightarrow> (BEBuf, HRESULT) sx" where
  "WriteBigEndian8 cbBuffer valIn b =
     (if \<not> room cbBuffer 1 b then (Ok E_INVALIDARG, b)
      else sseq (store_at 0 valIn) (sseq (advance 1) (ret S_OK)) b)"

definition ReadBigEndian8 :: "UINT32 \<Rightarrow> bool \<Rightarrow> (BEBuf, HRESULT \<times> byte option) sx" where
  "ReadBigEndian8 cbBuffer out b =
     (if \<not> room cbBuffer 1 b \<or> \<not> out then (Ok (E_INVALIDARG, None), b)
      else sbind (load_at 0) (\<lambda>v. sseq (advance 1) (ret (S_OK, Some v))) b)"

section \<open>Byte masks\<close>

text \<open>The byte at bit \<open>k\<close>, as the macros select it, is the one the wire format has there.\<close>

lemma be_masks:
  "(0xff00::16 word) = push_bit 8 (mask 8)" "(0xff::16 word) = mask 8"
  "(0xff000000::32 word) = push_bit 24 (mask 8)" "(0xff0000::32 word) = push_bit 16 (mask 8)"
  "(0xff00::32 word) = push_bit 8 (mask 8)" "(0xff::32 word) = mask 8"
  "(0xff::64 word) = mask 8" "(0xff00::64 word) = push_bit 8 (mask 8)"
  "(0xff0000::64 word) = push_bit 16 (mask 8)" "(0xff000000::64 word) = push_bit 24 (mask 8)"
  "(0xff00000000::64 word) = push_bit 32 (mask 8)"
  "(0xff0000000000::64 word) = push_bit 40 (mask 8)"
  "(0xff000000000000::64 word) = push_bit 48 (mask 8)"
  "(0xff00000000000000::64 word) = push_bit 56 (mask 8)"
  by (simp_all add: mask_eq_exp_minus_1 push_bit_eq_mult)

lemma enc16_bytes: "enc16 x = [ucast (drop_bit 8 (x AND 0xff00)), ucast (x AND 0x00ff)]"
  by (simp add: enc16_def be_bytes_def byte_at_def)
    (intro conjI bit_word_eqI; auto simp: be_masks bit_simps)

lemma enc32_bytes:
  "enc32 x = [ucast (drop_bit 24 (x AND 0xff000000)), ucast (drop_bit 16 (x AND 0x00ff0000)),
     ucast (drop_bit 8 (x AND 0x0000ff00)), ucast (x AND 0x000000ff)]"
  by (simp add: enc32_def be_bytes_def byte_at_def)
    (intro conjI bit_word_eqI; auto simp: be_masks bit_simps)

lemma enc64_bytes:
  "enc64 x = [ucast (drop_bit 56 (x AND 0xff00000000000000)), ucast (drop_bit 48 (x AND 0x00ff000000000000)),
     ucast (drop_bit 40 (x AND 0x0000ff0000000000)), ucast (drop_bit 32 (x AND 0x000000ff00000000)),
     ucast (drop_bit 24 (x AND 0x00000000ff000000)), ucast (drop_bit 16 (x AND 0x0000000000ff0000)),
     ucast (drop_bit 8 (x AND 0x000000000000ff00)), ucast (x AND 0x00000000000000ff)]"
  by (simp add: enc64_def be_bytes_def byte_at_def;
      (intro conjI bit_word_eqI; auto simp: be_masks bit_simps)?)

lemma byte_back:
  "push_bit k (ucast (ucast (drop_bit k (x AND push_bit k (mask 8))) :: byte)) =
   x AND push_bit k (mask 8 :: 'a::len word)"
  by (rule bit_word_eqI) (auto simp: bit_simps)

lemma byte_back_0: "ucast (ucast (x AND mask 8) :: byte) = x AND (mask 8 :: 'a::len word)"
  by (rule bit_word_eqI) (auto simp: bit_simps)

lemma masks_full:
  "push_bit 8 (mask 8) OR mask 8 = (-1 :: 16 word)"
  "push_bit 24 (mask 8) OR (push_bit 16 (mask 8) OR (push_bit 8 (mask 8) OR mask 8)) = (-1 :: 32 word)"
  by (simp_all add: mask_eq_exp_minus_1 push_bit_eq_mult)

lemma join16: "enc16 x = [a, b] \<Longrightarrow> push_bit 8 (ucast a) OR ucast b = x"
  by (auto simp del: drop_bit_and simp: enc16_bytes be_masks byte_back byte_back_0
      bit.conj_disj_distrib [symmetric] masks_full)

lemma join32:
  "enc32 x = [a, b, c, d] \<Longrightarrow>
   push_bit 24 (ucast a) OR push_bit 16 (ucast b) OR push_bit 8 (ucast c) OR ucast d = x"
  by (auto simp del: drop_bit_and simp: enc32_bytes be_masks byte_back byte_back_0 or.assoc
      bit.conj_disj_distrib [symmetric] masks_full)

lemma swap16_swap: "ENDIANSWAPUINT16 (ENDIANSWAPUINT16 x) = x"
  unfolding ENDIANSWAPUINT16_def by (rule bit_word_eqI) (auto simp: be_masks bit_simps)

section \<open>Inside the buffer\<close>

definition mem_ok :: "UINT32 \<Rightarrow> BEBuf \<Rightarrow> bool" where
  "mem_ok cbBuffer b \<longleftrightarrow> unat cbBuffer \<le> length (be_mem b)"

lemma room_unat:
  "room cbBuffer n b \<longleftrightarrow> be_cursor b \<noteq> None \<and> unat (cursor b) + n \<le> unat cbBuffer"
  unfolding room_def word_le_nat_alt by (auto simp: unat_sub word_le_nat_alt)

lemma unat_cursor_add:
  assumes "room cbBuffer n b" and "unat k \<le> n"
  shows "unat (cursor b + k) = unat (cursor b) + unat k"
proof -
  have "unat (cursor b) + unat k < 2 ^ LENGTH(32)"
    using assms unsigned_less [where ?'a = nat, of cbBuffer] unfolding room_unat by linarith
  then show ?thesis by (rule unat_add_lem [THEN iffD1])
qed

lemma load_at_room:
  "room cbBuffer n b \<Longrightarrow> mem_ok cbBuffer b \<Longrightarrow> unat k < n \<Longrightarrow>
   load_at k b = (Ok (be_mem b ! (unat (cursor b) + unat k)), b)"
  using unat_cursor_add [of cbBuffer n b k] by (auto simp: load_at_def Let_def mem_ok_def room_unat)

lemma store_at_room:
  "room cbBuffer n b \<Longrightarrow> mem_ok cbBuffer b \<Longrightarrow> unat k < n \<Longrightarrow>
   store_at k v b = (Ok (), b\<lparr>be_mem := (be_mem b)[unat (cursor b) + unat k := v]\<rparr>)"
  using unat_cursor_add [of cbBuffer n b k] by (auto simp: store_at_def Let_def mem_ok_def room_unat)

lemma room_mem_upd [simp]: "room cbBuffer n (b\<lparr>be_mem := m\<rparr>) \<longleftrightarrow> room cbBuffer n b"
  by (simp add: room_def cursor_def)

lemma cursor_mem_upd [simp]: "cursor (b\<lparr>be_mem := m\<rparr>) = cursor b"
  by (simp add: cursor_def)

lemma mem_ok_upd [simp]:
  "length m = length (be_mem b) \<Longrightarrow> mem_ok cbBuffer (b\<lparr>be_mem := m\<rparr>) \<longleftrightarrow> mem_ok cbBuffer b"
  by (simp add: mem_ok_def)

lemma overwrite_two:
  "p + 2 \<le> length m \<Longrightarrow> overwrite p [x, y] m = m[p := x, p + 1 := y]"
  using overwrite_overwrite_append [of p "[x]" "[y]" m] by (simp add: overwrite_single)

lemma overwrite_four:
  "p + 4 \<le> length m \<Longrightarrow> overwrite p [w, x, y, z] m = m[p := w, p + 1 := x, p + 2 := y, p + 3 := z]"
  using overwrite_overwrite_append [of p "[w, x]" "[y, z]" m]
  by (simp add: overwrite_two del: One_nat_def) (simp add: numeral_3_eq_3)

lemma room_mem: "room cbBuffer n b \<Longrightarrow> mem_ok cbBuffer b \<Longrightarrow> unat (cursor b) + n \<le> length (be_mem b)"
  by (simp add: room_unat mem_ok_def)

lemma store16_room:
  assumes "room cbBuffer 2 b" and "mem_ok cbBuffer b"
  shows "ENDIANSWAP_UINT16TOARRAY v b =
    (Ok (), b\<lparr>be_mem := overwrite (unat (cursor b)) (enc16 v) (be_mem b)\<rparr>)"
  unfolding ENDIANSWAP_UINT16TOARRAY_def enc16_bytes
  using assms room_mem [OF assms]
  by (simp add: sseq_Ok [OF store_at_room] ret_app overwrite_two)

lemma store32_room:
  assumes "room cbBuffer 4 b" and "mem_ok cbBuffer b"
  shows "ENDIANSWAP_UINT32TOARRAY v b =
    (Ok (), b\<lparr>be_mem := overwrite (unat (cursor b)) (enc32 v) (be_mem b)\<rparr>)"
  unfolding ENDIANSWAP_UINT32TOARRAY_def enc32_bytes
  using assms room_mem [OF assms]
  by (simp add: sseq_Ok [OF store_at_room] ret_app overwrite_four)

definition holds_at :: "BEBuf \<Rightarrow> ByteVec \<Rightarrow> bool" where
  "holds_at b bs \<longleftrightarrow> take (length bs) (drop (unat (cursor b)) (be_mem b)) = bs"

lemma holds_at_nth:
  assumes "holds_at b bs" and "i < length bs"
  shows "be_mem b ! (unat (cursor b) + i) = bs ! i"
proof -
  have "length bs \<le> length (be_mem b) - unat (cursor b)"
    using arg_cong [OF assms(1) [unfolded holds_at_def], of length] by simp
  then show ?thesis
    using arg_cong [OF assms(1) [unfolded holds_at_def], of "\<lambda>xs. xs ! i"] assms(2) by simp
qed

lemma load16_room:
  assumes r: "room cbBuffer 2 b" and m: "mem_ok cbBuffer b" and h: "holds_at b (enc16 v)"
  shows "ENDIANSWAP_UINT16FROMARRAY b = (Ok v, b)"
proof -
  obtain x y where e: "enc16 v = [x, y]" using enc16_bytes by blast
  then have "be_mem b ! unat (cursor b) = x" and "be_mem b ! (unat (cursor b) + 1) = y"
    using holds_at_nth [OF h, of 0] holds_at_nth [OF h, of 1] by simp_all
  then show ?thesis
    using load_at_room [OF r m, of 0] load_at_room [OF r m, of 1] join16 [OF e]
    by (simp add: ENDIANSWAP_UINT16FROMARRAY_def sbind_Ok ret_app)
qed

lemma load32_room:
  assumes r: "room cbBuffer 4 b" and m: "mem_ok cbBuffer b" and h: "holds_at b (enc32 v)"
  shows "ENDIANSWAP_UINT32FROMARRAY b = (Ok v, b)"
proof -
  obtain w x y z where e: "enc32 v = [w, x, y, z]" using enc32_bytes by blast
  then have "be_mem b ! unat (cursor b) = w" and "be_mem b ! (unat (cursor b) + 1) = x"
    and "be_mem b ! (unat (cursor b) + 2) = y" and "be_mem b ! (unat (cursor b) + 3) = z"
    using holds_at_nth [OF h, of 0] holds_at_nth [OF h, of 1] holds_at_nth [OF h, of 2]
      holds_at_nth [OF h, of 3] by simp_all
  then show ?thesis
    using load_at_room [OF r m, of 0] load_at_room [OF r m, of 1] load_at_room [OF r m, of 2]
      load_at_room [OF r m, of 3] join32 [OF e]
    by (simp add: ENDIANSWAP_UINT32FROMARRAY_def sbind_Ok ret_app)
qed

section \<open>What the operations do\<close>

text \<open>The bytes \<open>bs\<close> put at the cursor, and the cursor behind \<open>n\<close> bytes.\<close>

definition be_put :: "ByteVec \<Rightarrow> BEBuf \<Rightarrow> BEBuf" where
  "be_put bs b = b\<lparr>be_mem := overwrite (unat (cursor b)) bs (be_mem b)\<rparr>"

definition be_adv :: "UINT32 \<Rightarrow> BEBuf \<Rightarrow> BEBuf" where
  "be_adv n b = b\<lparr>be_cursor := Some (cursor b + n)\<rparr>"

lemma be_sel [simp]:
  "be_cursor (be_put bs b) = be_cursor b" "cursor (be_put bs b) = cursor b"
  "be_mem (be_adv n b) = be_mem b" "cursor (be_adv n b) = cursor b + n"
  "be_cursor (be_adv n b) = Some (cursor b + n)"
  by (simp_all add: be_put_def be_adv_def cursor_def)

lemma advance_app: "advance n b = (Ok (), be_adv n b)"
  by (simp add: advance_def modifyS_app be_adv_def)

lemma holds_at_put:
  "room cbBuffer (length bs) b \<Longrightarrow> mem_ok cbBuffer b \<Longrightarrow> holds_at (be_put bs b) bs"
  by (auto simp: holds_at_def be_put_def room_unat mem_ok_def)

lemma WriteBigEndian32_room:
  "room cbBuffer 4 b \<Longrightarrow> mem_ok cbBuffer b \<Longrightarrow>
   WriteBigEndian32 cbBuffer v b = (Ok S_OK, be_adv 4 (be_put (enc32 v) b))"
  by (simp add: WriteBigEndian32_def sseq_Ok [OF store32_room] sseq_Ok [OF advance_app] ret_app be_put_def)

lemma WriteBigEndian16_room:
  "room cbBuffer 2 b \<Longrightarrow> mem_ok cbBuffer b \<Longrightarrow>
   WriteBigEndian16 cbBuffer v b = (Ok S_OK, be_adv 2 (be_put (enc16 v) b))"
  by (simp add: WriteBigEndian16_def sseq_Ok [OF store16_room] sseq_Ok [OF advance_app] ret_app be_put_def)

lemma WriteBigEndian8_room:
  "room cbBuffer 1 b \<Longrightarrow> mem_ok cbBuffer b \<Longrightarrow>
   WriteBigEndian8 cbBuffer v b = (Ok S_OK, be_adv 1 (be_put (enc8 v) b))"
  using room_mem [of cbBuffer 1 b]
  by (simp add: WriteBigEndian8_def sseq_Ok [OF store_at_room] sseq_Ok [OF advance_app] ret_app
      be_put_def enc8_def overwrite_single)

lemma ReadBigEndian32_room:
  "room cbBuffer 4 b \<Longrightarrow> mem_ok cbBuffer b \<Longrightarrow> holds_at b (enc32 v) \<Longrightarrow>
   ReadBigEndian32 cbBuffer True b = (Ok (S_OK, Some v), be_adv 4 b)"
  by (simp add: ReadBigEndian32_def sbind_Ok [OF load32_room] sseq_Ok [OF advance_app] ret_app)

lemma ReadBigEndian16_room:
  "room cbBuffer 2 b \<Longrightarrow> mem_ok cbBuffer b \<Longrightarrow> holds_at b (enc16 v) \<Longrightarrow>
   ReadBigEndian16 cbBuffer True b = (Ok (S_OK, Some v), be_adv 2 b)"
  by (simp add: ReadBigEndian16_def sbind_Ok [OF load16_room] sseq_Ok [OF advance_app] ret_app)

lemma ReadBigEndian8_room:
  "room cbBuffer 1 b \<Longrightarrow> mem_ok cbBuffer b \<Longrightarrow> holds_at b (enc8 v) \<Longrightarrow>
   ReadBigEndian8 cbBuffer True b = (Ok (S_OK, Some v), be_adv 1 b)"
  using holds_at_nth [of b "enc8 v" 0] load_at_room [of cbBuffer 1 b 0]
  by (simp add: ReadBigEndian8_def sbind_Ok sseq_Ok [OF advance_app] ret_app enc8_def)

text \<open>Bytes are read whatever they are: every pair and every quadruple of bytes is a number's.\<close>

lemma ex_enc16: "length bs = 2 \<Longrightarrow> \<exists>v. bs = enc16 v"
proof -
  assume "length bs = 2"
  then obtain a b where bs: "bs = [a, b]" by (auto simp: numeral_2_eq_2 length_Suc_conv)
  have "enc16 (push_bit 8 (ucast a) OR ucast b) = [a, b]"
    unfolding enc16_bytes be_masks
    by (simp; intro conjI bit_word_eqI; auto simp: bit_simps dest: bit_imp_le_length)
  then show ?thesis using bs by metis
qed

lemma ex_enc32: "length bs = 4 \<Longrightarrow> \<exists>v. bs = enc32 v"
proof -
  assume "length bs = 4"
  then obtain a b c d where bs: "bs = [a, b, c, d]"
    by (auto simp: eval_nat_numeral length_Suc_conv)
  have "enc32 (push_bit 24 (ucast a) OR push_bit 16 (ucast b) OR push_bit 8 (ucast c) OR ucast d) =
      [a, b, c, d]"
    unfolding enc32_bytes be_masks
    by (simp; intro conjI bit_word_eqI; auto simp: bit_simps dest: bit_imp_le_length)
  then show ?thesis using bs by metis
qed

lemma holds_some:
  assumes "room cbBuffer n b" and "mem_ok cbBuffer b"
  obtains bs where "length bs = n" and "holds_at b bs"
  using room_mem [OF assms] that [of "take n (drop (unat (cursor b)) (be_mem b))"]
  by (simp add: holds_at_def)

section \<open>Safety of the cursor\<close>

text \<open>
  The caller's buffer is there and its cursor is inside it: every operation preserves this, never
  leaves the memory, and never moves the cursor backwards.
\<close>

definition be_inv :: "UINT32 \<Rightarrow> BEBuf \<Rightarrow> bool" where
  "be_inv cbBuffer b \<longleftrightarrow> mem_ok cbBuffer b \<and> (be_cursor b \<noteq> None \<longrightarrow> cursor b \<le> cbBuffer)"

definition be_safe :: "UINT32 \<Rightarrow> (BEBuf, 'a) sx \<Rightarrow> bool" where
  "be_safe cbBuffer m \<longleftrightarrow> (\<forall>b. be_inv cbBuffer b \<longrightarrow>
     (\<exists>r b'. m b = (Ok r, b') \<and> be_inv cbBuffer b' \<and> length (be_mem b') = length (be_mem b) \<and>
             cursor b \<le> cursor b'))"

lemma be_safeI:
  "(\<And>b. be_inv cbBuffer b \<Longrightarrow> \<exists>r b'. m b = (Ok r, b') \<and> be_inv cbBuffer b' \<and>
      length (be_mem b') = length (be_mem b) \<and> cursor b \<le> cursor b') \<Longrightarrow> be_safe cbBuffer m"
  by (simp add: be_safe_def)

lemma be_inv_put:
  "be_inv cbBuffer b \<Longrightarrow> room cbBuffer (length bs) b \<Longrightarrow>
   be_inv cbBuffer (be_put bs b) \<and> length (be_mem (be_put bs b)) = length (be_mem b)"
  using room_mem [of cbBuffer "length bs" b] by (simp add: be_inv_def mem_ok_def be_put_def)

lemma be_inv_adv:
  assumes "be_inv cbBuffer b" and r: "room cbBuffer n b" and "unat k \<le> n"
  shows "be_inv cbBuffer (be_adv k b) \<and> cursor b \<le> cursor b + k"
  using assms unat_cursor_add [OF r assms(3)]
  by (simp add: be_inv_def mem_ok_def room_unat word_le_nat_alt)

lemma be_inv_mem_ok: "be_inv cbBuffer b \<Longrightarrow> mem_ok cbBuffer b"
  by (simp add: be_inv_def)

lemmas be_step = be_inv_put be_inv_adv be_inv_mem_ok

lemma room_adv:
  "room cbBuffer n b \<Longrightarrow> unat k + m \<le> n \<Longrightarrow> room cbBuffer m (be_adv k b)"
  using unat_cursor_add [of cbBuffer n b k] by (simp add: room_unat)

lemma room_put [simp]: "room cbBuffer n (be_put bs b) \<longleftrightarrow> room cbBuffer n b"
  by (simp add: room_unat)

lemma be_safe_fixed:
  assumes no: "\<And>b. \<not> room cbBuffer n b \<Longrightarrow> m b = (Ok e, b)"
    and yes: "\<And>b. room cbBuffer n b \<Longrightarrow> mem_ok cbBuffer b \<Longrightarrow>
        \<exists>r bs. m b = (Ok r, be_adv k (be_put bs b)) \<and> length bs \<le> n"
    and k: "unat k \<le> n"
  shows "be_safe cbBuffer m"
proof (rule be_safeI)
  fix b assume inv: "be_inv cbBuffer b"
  show "\<exists>r b'. m b = (Ok r, b') \<and> be_inv cbBuffer b' \<and>
      length (be_mem b') = length (be_mem b) \<and> cursor b \<le> cursor b'"
  proof (cases "room cbBuffer n b")
    case True
    then obtain r bs where m: "m b = (Ok r, be_adv k (be_put bs b))" and "length bs \<le> n"
      using yes be_inv_mem_ok [OF inv] by blast
    then have "room cbBuffer (length bs) b" using True by (simp add: room_unat)
    then have "be_inv cbBuffer (be_put bs b)" and "length (be_mem (be_put bs b)) = length (be_mem b)"
      using be_inv_put [OF inv] by blast+
    moreover from this(1) have "be_inv cbBuffer (be_adv k (be_put bs b))" "cursor b \<le> cursor b + k"
      using be_inv_adv [of cbBuffer "be_put bs b" n k] True k by simp_all
    ultimately show ?thesis using m by auto
  qed (use no inv in auto)
qed

lemma be_put_Nil [simp]: "be_put [] b = b"
  by (simp add: be_put_def)

lemma mem_ok_sel [simp]: "mem_ok cbBuffer (be_adv n b) \<longleftrightarrow> mem_ok cbBuffer b"
  by (simp add: mem_ok_def)

lemma mem_ok_put: "room cbBuffer (length bs) b \<Longrightarrow> mem_ok cbBuffer b \<Longrightarrow> mem_ok cbBuffer (be_put bs b)"
  using room_mem [of cbBuffer "length bs" b] by (simp add: mem_ok_def be_put_def)

text \<open>
  The contract of the fixed-width operations, \<open>wr\<close> and \<open>rd\<close> of the numbers whose wire format \<open>enc\<close> has
  \<open>k\<close> bytes. It is all that their safety and their round trip rest on.
\<close>

locale be_number =
  fixes wr :: "UINT32 \<Rightarrow> 'a \<Rightarrow> (BEBuf, HRESULT) sx"
    and rd :: "UINT32 \<Rightarrow> bool \<Rightarrow> (BEBuf, HRESULT \<times> 'a option) sx"
    and enc :: "'a \<Rightarrow> ByteVec" and k :: UINT32
  assumes length_enc: "length (enc v) = unat k"
    and ex_enc: "length bs = unat k \<Longrightarrow> \<exists>v. bs = enc v"
    and wr_room: "room cbBuffer (unat k) b \<Longrightarrow> mem_ok cbBuffer b \<Longrightarrow>
      wr cbBuffer v b = (Ok S_OK, be_adv k (be_put (enc v) b))"
    and wr_no: "\<not> room cbBuffer (unat k) b \<Longrightarrow> wr cbBuffer v b = (Ok E_INVALIDARG, b)"
    and rd_room: "room cbBuffer (unat k) b \<Longrightarrow> mem_ok cbBuffer b \<Longrightarrow> holds_at b (enc v) \<Longrightarrow>
      rd cbBuffer True b = (Ok (S_OK, Some v), be_adv k b)"
    and rd_no: "\<not> room cbBuffer (unat k) b \<or> \<not> out \<Longrightarrow> rd cbBuffer out b = (Ok (E_INVALIDARG, None), b)"
begin

lemma wr_safe: "be_safe cbBuffer (wr cbBuffer v)"
proof (rule be_safe_fixed [of _ "unat k" _ E_INVALIDARG k])
  fix b assume "room cbBuffer (unat k) b" and "mem_ok cbBuffer b"
  then show "\<exists>r bs. wr cbBuffer v b = (Ok r, be_adv k (be_put bs b)) \<and> length bs \<le> unat k"
    using wr_room length_enc by (metis order_refl)
qed (simp_all add: wr_no)

lemma rd_safe: "be_safe cbBuffer (rd cbBuffer out)"
proof (cases out)
  case True
  show ?thesis
  proof (rule be_safe_fixed [of _ "unat k" _ "(E_INVALIDARG, None)" k])
    fix b assume rm: "room cbBuffer (unat k) b" "mem_ok cbBuffer b"
    obtain bs where "length bs = unat k" "holds_at b bs" by (rule holds_some [OF rm])
    then obtain v where "holds_at b (enc v)" using ex_enc by blast
    then have "rd cbBuffer out b = (Ok (S_OK, Some v), be_adv k (be_put [] b))"
      using rd_room [OF rm] True by simp
    then show "\<exists>r bs. rd cbBuffer out b = (Ok r, be_adv k (be_put bs b)) \<and> length bs \<le> unat k"
      by (metis list.size(3) zero_le)
  qed (simp_all add: rd_no)
qed (auto simp: be_safe_def rd_no)

text \<open>Reading where a value was written gives that value, and leaves the cursor where the write did.\<close>

lemma write_read:
  assumes "room cbBuffer (unat k) b" and "mem_ok cbBuffer b"
  obtains b' where "wr cbBuffer v b = (Ok S_OK, b')"
    and "rd cbBuffer True (b'\<lparr>be_cursor := be_cursor b\<rparr>) = (Ok (S_OK, Some v), b')"
proof -
  let ?p = "be_put (enc v) b"
  have ret: "(be_adv k ?p)\<lparr>be_cursor := be_cursor b\<rparr> = ?p" by (simp add: be_adv_def be_put_def)
  have "rd cbBuffer True ?p = (Ok (S_OK, Some v), be_adv k ?p)"
    using assms length_enc by (intro rd_room mem_ok_put holds_at_put [of cbBuffer]) simp_all
  then show ?thesis using that wr_room [OF assms, of v] ret by simp
qed

end

lemma ex_enc8: "length bs = 1 \<Longrightarrow> \<exists>v. bs = enc8 v"
  by (auto simp: enc8_def length_Suc_conv)

interpretation be32: be_number WriteBigEndian32 ReadBigEndian32 enc32 4
proof unfold_locales
  fix bs :: ByteVec assume "length bs = unat (4 :: UINT32)"
  then show "\<exists>v. bs = enc32 v" using ex_enc32 by simp
qed (simp_all add: WriteBigEndian32_room ReadBigEndian32_room, auto simp: WriteBigEndian32_def ReadBigEndian32_def)

interpretation be16: be_number WriteBigEndian16 ReadBigEndian16 enc16 2
proof unfold_locales
  fix bs :: ByteVec assume "length bs = unat (2 :: UINT32)"
  then show "\<exists>v. bs = enc16 v" using ex_enc16 by simp
qed (simp_all add: WriteBigEndian16_room ReadBigEndian16_room, auto simp: WriteBigEndian16_def ReadBigEndian16_def)

interpretation be8: be_number WriteBigEndian8 ReadBigEndian8 enc8 1
proof unfold_locales
  fix bs :: ByteVec assume "length bs = unat (1 :: UINT32)"
  then show "\<exists>v. bs = enc8 v" using ex_enc8 by simp
qed (simp_all add: WriteBigEndian8_room [simplified] ReadBigEndian8_room [simplified],
  auto simp: WriteBigEndian8_def ReadBigEndian8_def)

lemma SkipBigEndian_room:
  "SkipBigEndian cbBuffer n b =
     (if room cbBuffer (unat n) b then (Ok S_OK, be_adv n b) else (Ok E_INVALIDARG, b))"
  by (simp add: SkipBigEndian_def sseq_Ok [OF advance_app] ret_app)

lemma SkipBigEndian_safe: "be_safe cbBuffer (SkipBigEndian cbBuffer n)"
  by (rule be_safe_fixed [of _ "unat n" _ E_INVALIDARG n])
    (auto simp: SkipBigEndian_room intro!: exI [of _ "[]"])

lemma ReadBigEndianBuf_room:
  "ReadBigEndianBuf cbBuffer out n b =
     (if room cbBuffer (unat n) b \<and> out then (Ok (S_OK, Some (cursor b)), be_adv n b)
      else (Ok (E_INVALIDARG, None), b))"
  by (simp add: ReadBigEndianBuf_def sseq_Ok [OF advance_app] ret_app)

lemma ReadBigEndianBuf_safe: "be_safe cbBuffer (ReadBigEndianBuf cbBuffer out n)"
proof (cases out)
  case True
  then show ?thesis
    by (intro be_safe_fixed [of _ "unat n" _ "(E_INVALIDARG, None)" n])
      (auto simp: ReadBigEndianBuf_room intro!: exI [of _ "[]"])
qed (auto simp: be_safe_def ReadBigEndianBuf_room)

lemma memcpy_s_room:
  "room cbBuffer (length src) b \<Longrightarrow> mem_ok cbBuffer b \<Longrightarrow>
   memcpy_s (unat (cbBuffer - cursor b)) src b = (Ok True, be_put src b)"
  using room_mem [of cbBuffer "length src" b] by (simp add: memcpy_s_def be_put_def room_def not_less)

lemma WriteBigEndianBuf_room:
  "length src = unat n \<Longrightarrow> mem_ok cbBuffer b \<Longrightarrow>
   WriteBigEndianBuf cbBuffer (Some src) n b =
     (if room cbBuffer (length src) b then (Ok S_OK, be_adv n (be_put src b)) else (Ok E_INVALIDARG, b))"
  by (simp add: WriteBigEndianBuf_def sbind_Ok [OF memcpy_s_room] sseq_Ok [OF advance_app] ret_app)

lemma WriteBigEndianBuf_safe:
  assumes "length src = unat n"
  shows "be_safe cbBuffer (WriteBigEndianBuf cbBuffer (Some src) n)"
proof (rule be_safe_fixed [of _ "unat n" _ E_INVALIDARG n])
  fix b assume "room cbBuffer (unat n) b" and "mem_ok cbBuffer b"
  then show "\<exists>r bs. WriteBigEndianBuf cbBuffer (Some src) n b = (Ok r, be_adv n (be_put bs b)) \<and>
      length bs \<le> unat n"
    using assms by (auto simp: WriteBigEndianBuf_room)
qed (simp_all add: WriteBigEndianBuf_def)

section \<open>Buffers with a size prefix\<close>

lemma unat_ucast_16_32 [simp]: "unat (ucast (n :: UINT16) :: UINT32) = unat n"
  using unsigned_less [where ?'a = nat, of n] by (simp add: unsigned_ucast_eq take_bit_nat_eq_self)

lemma not_room_sub:
  assumes "room cbBuffer 0 b"
  shows "cbBuffer - cursor b < ucast (n :: UINT16) \<longleftrightarrow> \<not> room cbBuffer (unat n) b"
proof -
  have "unat (cbBuffer - cursor b) = unat cbBuffer - unat (cursor b)"
    using assms by (simp add: room_def unat_sub)
  then show ?thesis using assms by (auto simp: word_less_nat_alt room_unat)
qed

lemma room_adv_0: "room cbBuffer (unat k) b \<Longrightarrow> room cbBuffer 0 (be_adv k b)"
  using room_adv [of cbBuffer "unat k" b k 0] by simp

lemma ReadBigEndian2B_room:
  assumes "room cbBuffer 2 b" and "mem_ok cbBuffer b" and "holds_at b (enc16 n)"
  shows "ReadBigEndian2B cbBuffer True b =
    (if room cbBuffer (unat n) (be_adv 2 b)
     then (Ok (S_OK, Some n, Some (cursor b + 2)), be_adv (ucast n) (be_adv 2 b))
     else (Ok (E_INVALIDARG, Some n, None), be_adv 2 b))"
  using assms not_room_sub [of cbBuffer "be_adv 2 b" n] room_adv_0 [of cbBuffer 2 b]
  by (simp add: ReadBigEndian2B_def sbind_Ok [OF load16_room] sseq_Ok [OF advance_app] ret_app)

lemma SkipBigEndian2B_room:
  assumes "room cbBuffer 2 b" and "mem_ok cbBuffer b" and "holds_at b (enc16 n)"
  shows "SkipBigEndian2B cbBuffer b =
    (if room cbBuffer (unat n) (be_adv 2 b) then (Ok S_OK, be_adv (ucast n) (be_adv 2 b))
     else (Ok E_INVALIDARG, be_adv 2 b))"
  using assms not_room_sub [of cbBuffer "be_adv 2 b" n] room_adv_0 [of cbBuffer 2 b]
  by (simp add: SkipBigEndian2B_def sbind_Ok [OF load16_room] sseq_Ok [OF advance_app] ret_app)

lemma be_safe_app:
  assumes "be_safe cbBuffer m" and "be_inv cbBuffer b"
  shows "\<exists>r b'. m b = (Ok r, b') \<and> be_inv cbBuffer b' \<and>
    length (be_mem b') = length (be_mem b) \<and> cursor b \<le> cursor b'"
  using assms unfolding be_safe_def by blast

text \<open>Both reads skip the prefix and, when the buffer it announces is there, that buffer too.\<close>

lemma be_safe_skip_prefix:
  assumes no: "\<And>b. \<not> room cbBuffer 2 b \<Longrightarrow> m b = (Ok e, b)"
    and yes: "\<And>b n. room cbBuffer 2 b \<Longrightarrow> mem_ok cbBuffer b \<Longrightarrow> holds_at b (enc16 n) \<Longrightarrow>
      \<exists>r. m b = (Ok r, if room cbBuffer (unat n) (be_adv 2 b) then be_adv (ucast n) (be_adv 2 b)
                       else be_adv 2 b)"
  shows "be_safe cbBuffer m"
proof (rule be_safeI)
  fix b assume inv: "be_inv cbBuffer b"
  show "\<exists>r b'. m b = (Ok r, b') \<and> be_inv cbBuffer b' \<and>
      length (be_mem b') = length (be_mem b) \<and> cursor b \<le> cursor b'"
  proof (cases "room cbBuffer 2 b")
    case True
    obtain bs where "length bs = 2" and "holds_at b bs"
      by (rule holds_some [OF True be_inv_mem_ok [OF inv]])
    then obtain n where n: "holds_at b (enc16 n)" using ex_enc16 by blast
    obtain r where m: "m b = (Ok r, if room cbBuffer (unat n) (be_adv 2 b)
        then be_adv (ucast n) (be_adv 2 b) else be_adv 2 b)"
      using yes [OF True be_inv_mem_ok [OF inv] n] by blast
    have two: "be_inv cbBuffer (be_adv 2 b)" "cursor b \<le> cursor b + 2"
      using be_inv_adv [OF inv True, of 2] by simp_all
    show ?thesis
      using m two be_inv_adv [OF two(1), of "unat n" "ucast n"] order_trans [OF two(2)]
      by (cases "room cbBuffer (unat n) (be_adv 2 b)") auto
  qed (use no inv in auto)
qed

lemma SkipBigEndian2B_safe: "be_safe cbBuffer (SkipBigEndian2B cbBuffer)"
  by (rule be_safe_skip_prefix [of _ _ E_INVALIDARG])
    (auto simp: SkipBigEndian2B_room, simp add: SkipBigEndian2B_def)

lemma ReadBigEndian2B_safe: "be_safe cbBuffer (ReadBigEndian2B cbBuffer out)"
proof (cases out)
  case True
  have "be_safe cbBuffer (ReadBigEndian2B cbBuffer True)"
    by (rule be_safe_skip_prefix [of _ _ "(E_INVALIDARG, None, None)"])
      (auto simp: ReadBigEndian2B_room, simp add: ReadBigEndian2B_def)
  then show ?thesis using True by simp
qed (auto simp: be_safe_def ReadBigEndian2B_def)

lemma memcpy_s_no_room:
  "be_cursor b \<noteq> None \<Longrightarrow> room cbBuffer 0 b \<Longrightarrow> \<not> room cbBuffer (length src) b \<Longrightarrow> mem_ok cbBuffer b \<Longrightarrow>
   memcpy_s (unat (cbBuffer - cursor b)) src b =
     (Ok False, be_put (replicate (unat (cbBuffer - cursor b)) 0) b)"
  by (auto simp: memcpy_s_def be_put_def room_def mem_ok_def unat_sub word_le_nat_alt Let_def)

lemma WriteBigEndian2B_room:
  assumes "length src = unat n" and "room cbBuffer 2 b" and "mem_ok cbBuffer b"
  shows "WriteBigEndian2B cbBuffer n (Some src) b =
    (let c = be_adv 2 (be_put (enc16 n) b) in
     if room cbBuffer (length src) (be_adv 2 b)
     then (Ok S_OK, be_adv (ucast n) (be_put src c))
     else (Ok E_INVALIDARG, be_put (replicate (unat (cbBuffer - cursor c)) 0) c))"
proof -
  let ?c = "be_adv 2 (be_put (enc16 n) b)"
  have c: "mem_ok cbBuffer ?c" "room cbBuffer 0 ?c" "be_cursor ?c \<noteq> None"
    using assms mem_ok_put [of cbBuffer "enc16 n" b] room_adv_0 [of cbBuffer 2 "be_put (enc16 n) b"]
    by simp_all
  have same: "room cbBuffer k ?c \<longleftrightarrow> room cbBuffer k (be_adv 2 b)" for k by (simp add: room_unat)
  have st: "ENDIANSWAP_UINT16TOARRAY n b = (Ok (), be_put (enc16 n) b)"
    using store16_room [OF assms(2,3)] by (simp add: be_put_def)
  show ?thesis
    using assms memcpy_s_room [of cbBuffer src ?c] memcpy_s_no_room [of ?c cbBuffer src] c same
    by (simp add: WriteBigEndian2B_def sseq_Ok st advance_app ret_app sbind_Ok Let_def)
qed

lemma be_inv_room: "be_inv cbBuffer b \<Longrightarrow> be_cursor b \<noteq> None \<Longrightarrow> room cbBuffer 0 b"
  by (simp add: be_inv_def room_def)

lemma WriteBigEndian2B_safe:
  assumes src: "length src = unat n"
  shows "be_safe cbBuffer (WriteBigEndian2B cbBuffer n (Some src))"
proof (rule be_safeI)
  fix b assume inv: "be_inv cbBuffer b"
  show "\<exists>r b'. WriteBigEndian2B cbBuffer n (Some src) b = (Ok r, b') \<and> be_inv cbBuffer b' \<and>
      length (be_mem b') = length (be_mem b) \<and> cursor b \<le> cursor b'"
  proof (cases "room cbBuffer 2 b")
    case True
    let ?p = "be_put (enc16 n) b" and ?c = "be_adv 2 (be_put (enc16 n) b)"
    have p: "be_inv cbBuffer ?p" "length (be_mem ?p) = length (be_mem b)"
      using be_inv_put [OF inv, of "enc16 n"] True by simp_all
    have c: "be_inv cbBuffer ?c" "cursor b \<le> cursor ?c"
      using be_inv_adv [OF p(1), of 2 2] True by simp_all
    have c0: "room cbBuffer 0 ?c" using be_inv_room [OF c(1)] by simp
    have zeros: "room cbBuffer (unat (cbBuffer - cursor ?c)) ?c" using c0 by (simp add: room_def)
    show ?thesis
    proof (cases "room cbBuffer (length src) (be_adv 2 b)")
      case fits: True
      then have r: "room cbBuffer (length src) ?c" by (simp add: room_unat)
      have d: "be_inv cbBuffer (be_put src ?c)" "length (be_mem (be_put src ?c)) = length (be_mem ?c)"
        using be_inv_put [OF c(1) r] by simp_all
      show ?thesis
        using WriteBigEndian2B_room [OF src True be_inv_mem_ok [OF inv]] fits src p c d
          be_inv_adv [OF d(1), of "unat n" "ucast n"] r order_trans [OF c(2)]
        by (simp add: Let_def)
    next
      case False
      then show ?thesis
        using WriteBigEndian2B_room [OF src True be_inv_mem_ok [OF inv]] p c
          be_inv_put [OF c(1), of "replicate (unat (cbBuffer - cursor ?c)) 0"] zeros
        by (simp add: Let_def)
    qed
  qed (use inv in \<open>auto simp: WriteBigEndian2B_def\<close>)
qed

text \<open>
  A buffer written with its size is read back: the size, and a pointer to the bytes that were written.
\<close>

lemma write_read_2B:
  assumes src: "length src = unat n" and r: "room cbBuffer (2 + length src) b" and m: "mem_ok cbBuffer b"
  obtains b' where "WriteBigEndian2B cbBuffer n (Some src) b = (Ok S_OK, b')"
    and "ReadBigEndian2B cbBuffer True (b'\<lparr>be_cursor := be_cursor b\<rparr>) =
      (Ok (S_OK, Some n, Some (cursor b + 2)), b')"
    and "take (length src) (drop (unat (cursor b + 2)) (be_mem b')) = src"
proof -
  let ?p = "be_put (enc16 n) b" let ?q = "be_put src (be_adv 2 ?p)" let ?b = "be_adv (ucast n) ?q"
  have r2: "room cbBuffer 2 b" using r by (simp add: room_unat)
  have c2: "unat (cursor b + 2) = unat (cursor b) + 2" using unat_cursor_add [OF r2, of 2] by simp
  have rs: "room cbBuffer (length src) (be_adv 2 b)" using room_adv [OF r, of 2 "length src"] by simp
  have rq: "room cbBuffer (length src) (be_adv 2 ?p)" using rs by (simp add: room_unat)
  have mq: "mem_ok cbBuffer (be_adv 2 ?p)" using mem_ok_put [of cbBuffer "enc16 n" b] r2 m by simp
  have w: "WriteBigEndian2B cbBuffer n (Some src) b = (Ok S_OK, ?b)"
    using WriteBigEndian2B_room [OF src r2 m] rs by (simp add: Let_def)
  let ?c = "?b\<lparr>be_cursor := be_cursor b\<rparr>"
  have len: "unat (cursor b) + 2 + length src \<le> length (be_mem b)"
    using room_mem [OF r m] by simp
  have mem: "be_mem ?c = overwrite (unat (cursor b)) (enc16 n @ src) (be_mem b)"
    using len c2 by (simp add: be_put_def be_adv_def cursor_def overwrite_def add.commute)
  have cc: "cursor ?c = cursor b" "be_cursor ?c = be_cursor b" by (simp_all add: cursor_def)
  have "holds_at ?c (enc16 n)" using len cc mem by (simp add: holds_at_def overwrite_def)
  moreover have "room cbBuffer 2 ?c" using r2 cc by (simp add: room_unat)
  moreover have "mem_ok cbBuffer ?c" using mem_ok_put [OF rq mq] by (simp add: mem_ok_def be_adv_def)
  moreover have "room cbBuffer (unat n) (be_adv 2 ?c)" using rs src cc by (simp add: room_unat)
  ultimately have rd: "ReadBigEndian2B cbBuffer True ?c =
      (Ok (S_OK, Some n, Some (cursor b + 2)), be_adv (ucast n) (be_adv 2 ?c))"
    using ReadBigEndian2B_room [of cbBuffer ?c n] cc by simp
  have "be_adv (ucast n) (be_adv 2 ?c) = ?b" by (simp add: be_adv_def be_put_def cursor_def)
  then show ?thesis using that [OF w] rd holds_at_put [OF rq mq]
    by (simp add: holds_at_def be_put_def be_adv_def cursor_def)
qed

end
