(* ===== verification/EnumText.thy ===== *)
theory EnumText
  imports Helpers EnumMaps
begin

unbundle bit_operations_syntax

text \<open>
  \<^verbatim>\<open>TSS.CPP/Src/TpmHelpers.cpp\<close>: the text forms of enumerators and numbers. \<open>EnumToStr\<close> looks a value up
  in its enum's table or joins the names of its bits; \<open>StrToEnum\<close> finds the value of such a text.
  \<open>to_hex\<close> and \<open>from_hex\<close> are the number format of the serializers, and undo each other.

  \<open>EnumToStr\<close> also adds the empty name to its table for a bit that has none; a later call gives the same
  text with or without it, so the tables are not part of the state here.
\<close>

section \<open>Enumerators\<close>

text \<open>The name of a value.\<close>

definition enum_find :: "enumID \<Rightarrow> UINT32 \<Rightarrow> string option" where
  "enum_find enumID enumVal = map_of (Enum2StrMap enumID) enumVal"

fun enum_bits :: "enumID \<Rightarrow> UINT32 \<Rightarrow> nat list \<Rightarrow> UINT32 \<Rightarrow> string \<Rightarrow> string" where
  "enum_bits enumID enumVal [] foundBits res = res"
| "enum_bits enumID enumVal (k # ks) foundBits res =
     (if foundBits = enumVal then res
      else let curBit = push_bit k 1 in
        if curBit AND enumVal \<noteq> 0
        then enum_bits enumID enumVal ks (foundBits OR curBit)
               (res @ (if res = '''' then '''' else '' | '') @
                (case enum_find enumID curBit of Some name \<Rightarrow> name | None \<Rightarrow> ''''))
        else enum_bits enumID enumVal ks foundBits res)"

definition EnumToStr :: "UINT32 \<Rightarrow> enumID \<Rightarrow> string" where
  "EnumToStr enumVal enumID =
     (case enum_find enumID enumVal of
        Some name \<Rightarrow> name
      | None \<Rightarrow> enum_bits enumID enumVal [0..<32] 0 '''')"

text \<open>
  The value of a name. The text is a list of names that are separated by \<open>|\<close> and may have blanks around
  them; \<open>beg\<close> is where the next one starts. The blanks before a bar are removed by stepping back from it:
  when nothing but blanks precedes the bar the steps leave the string, and when the name is empty they go
  behind \<open>beg\<close>, the length given to \<open>substr\<close> wraps around and the fragment is all of the rest.
\<close>

definition enum_named :: "enumID \<Rightarrow> string \<Rightarrow> UINT32 option" where
  "enum_named enumID name = map_of (Str2EnumMap enumID) name"

definition is_space :: "char \<Rightarrow> bool" where
  "is_space c \<longleftrightarrow> c = CHR '' ''"

text \<open>The next fragment from \<open>beg\<close> on, and where the one behind it starts.\<close>

definition enum_frag :: "string \<Rightarrow> nat \<Rightarrow> (string \<times> nat option) outcome" where
  "enum_frag enumName beg =
     (let beg = beg + length (takeWhile is_space (drop beg enumName));
          name = takeWhile (\<lambda>c. c \<noteq> CHR ''|'') (drop beg enumName);
          bar = beg + length name;
          end' = bar - length (takeWhile is_space (rev (take bar enumName)))
      in if length enumName \<le> bar then Ok (drop beg enumName, None)
         else if end' = 0 then Undef
         else Ok (if end' < beg then drop beg enumName else take (end' - beg) (drop beg enumName),
                  Some (Suc bar)))"

lemma enum_frag_next:
  "enum_frag enumName beg = Ok (frag, Some next) \<Longrightarrow> beg < next \<and> next \<le> length enumName"
  by (auto simp: enum_frag_def Let_def split: if_splits)

function StrToEnum_loop :: "enumID \<Rightarrow> string \<Rightarrow> nat \<Rightarrow> UINT32 \<Rightarrow> UINT32 outcome" where
  "StrToEnum_loop enumID enumName beg val =
     (case enum_frag enumName beg of
        Ok (frag, next) \<Rightarrow>
          (case enum_named enumID frag of
             None \<Rightarrow> Throw (runtime_error (''Invalid ORed component '' @ [CHR 0x27] @ frag @ [CHR 0x27] @
                        '' of expr '' @ [CHR 0x27] @ enumName @ [CHR 0x27]))
           | Some v \<Rightarrow> (case next of
               None \<Rightarrow> Ok (val OR v)
             | Some next \<Rightarrow> StrToEnum_loop enumID enumName next (val OR v)))
      | Throw e \<Rightarrow> Throw e
      | AssertFailed \<Rightarrow> AssertFailed
      | Undef \<Rightarrow> Undef)"
  by pat_completeness auto
termination
  by (relation "measure (\<lambda>(enumID, enumName, beg, val). Suc (length enumName) - beg)")
    (auto dest: enum_frag_next)

declare StrToEnum_loop.simps [simp del]

definition StrToEnum :: "string \<Rightarrow> enumID \<Rightarrow> UINT32 outcome" where
  "StrToEnum enumName enumID =
     (case enum_named enumID enumName of
        Some v \<Rightarrow> Ok v
      | None \<Rightarrow> StrToEnum_loop enumID enumName 0 0)"

section \<open>Hexadecimal numbers\<close>

definition hexDigit :: "UINT8 \<Rightarrow> char" where
  "hexDigit d = (if d < 10 then char_of (48 + unat d) else char_of (65 + (unat d - 10)))"

text \<open>The loop of \<open>to_hex\<close>, over its values of \<open>offs\<close>; the mask is \<open>0x0F << offs\<close>.\<close>

fun hex_loop :: "nat list \<Rightarrow> UINT64 \<Rightarrow> string \<Rightarrow> string" where
  "hex_loop [] val res = res"
| "hex_loop (offs # os) val res =
     (if val = 0 then res
      else let mask = push_bit offs 0x0F in
        hex_loop os (val AND NOT mask) (hexDigit (ucast (drop_bit offs (val AND mask) AND 0x0F)) # res))"

definition to_hex :: "UINT64 \<Rightarrow> nat \<Rightarrow> string" where
  "to_hex val width =
     (if val = 0 then ''00''
      else
        let res = hex_loop (map (\<lambda>k. 4 * k) [0..<16]) val '''';
            res = (if odd (length res) then ''0'' @ res else res)
        in if length res < width then replicate ((width - length res) * 2) CHR ''0'' @ res else res)"

definition hexDigitVal :: "char \<Rightarrow> UINT8" where
  "hexDigitVal c = (if of_char c \<le> (57 :: nat) then of_char c - 48 else 10 + of_char c - 65)"

definition from_hex :: "string \<Rightarrow> UINT64" where
  "from_hex hex = foldl (\<lambda>res c. push_bit 4 res + ucast (hexDigitVal c)) 0 hex"

lemma hexDigitVal_char_of:
  "n < 256 \<Longrightarrow> hexDigitVal (char_of n) = (if n \<le> 57 then of_nat n - 48 else 10 + of_nat n - 65)"
proof -
  assume n: "n < 256"
  then have "of_char (char_of n) = n" by simp
  moreover have "of_char (char_of n) = (of_nat (of_char (char_of n) :: nat) :: UINT8)"
    by (simp only: of_nat_of_char)
  ultimately show ?thesis using n by (simp add: hexDigitVal_def)
qed

lemma hexDigitVal_hexDigit:
  assumes "d < 16"
  shows "hexDigitVal (hexDigit d) = d"
proof -
  have "unat d < 16" using assms by (simp add: word_less_nat_alt)
  then show ?thesis
    by (auto simp: hexDigit_def hexDigitVal_char_of word_less_nat_alt of_nat_diff)
qed

abbreviation hex_step :: "UINT64 \<Rightarrow> char \<Rightarrow> UINT64" where
  "hex_step \<equiv> \<lambda>res c. push_bit 4 res + ucast (hexDigitVal c)"

definition nibble :: "nat \<Rightarrow> UINT64 \<Rightarrow> UINT8" where
  "nibble k v = ucast (drop_bit (4 * k) (v AND push_bit (4 * k) 0x0F) AND 0x0F)"

lemma mask4: "(0x0F::64 word) = mask 4"
  by (simp add: mask_eq_exp_minus_1)

lemma bit_nibble: "bit (nibble k v) i \<longleftrightarrow> i < 4 \<and> bit v (4 * k + i)"
  by (auto simp: nibble_def mask4 bit_simps add.commute dest: bit_imp_le_length)

lemma nibble_less: "nibble k v < 16"
proof -
  have "nibble k v = take_bit 4 (nibble k v)"
    by (rule bit_word_eqI) (auto simp: bit_simps bit_nibble)
  also have "\<dots> < 16"
    using take_bit_nat_less_exp [of 4 "unat (nibble k v)"]
    by (simp add: word_less_nat_alt unsigned_take_bit_eq)
  finally show ?thesis .
qed

lemma nibble_step:
  "push_bit (4 * k) (push_bit 4 a + ucast (nibble k v)) + take_bit (4 * k) v =
   push_bit (4 * Suc k) a + take_bit (4 * Suc k) v"
proof -
  have "push_bit 4 a AND ucast (nibble k v) = (0 :: UINT64)"
    by (rule bit_word_eqI) (auto simp: bit_simps bit_nibble)
  then have 1: "push_bit 4 a + ucast (nibble k v) = push_bit 4 a OR (ucast (nibble k v) :: UINT64)"
    by (rule disjunctive_add_eq_or)
  have "push_bit (4 * k) x AND take_bit (4 * k) v = 0" for x
    by (rule bit_word_eqI) (auto simp: bit_simps)
  then have 2: "push_bit (4 * k) x + take_bit (4 * k) v = push_bit (4 * k) x OR take_bit (4 * k) v" for x
    by (rule disjunctive_add_eq_or)
  have "push_bit (4 * Suc k) a AND take_bit (4 * Suc k) v = 0"
    by (rule bit_word_eqI) (auto simp: bit_simps)
  then have 3: "push_bit (4 * Suc k) a + take_bit (4 * Suc k) v =
      push_bit (4 * Suc k) a OR take_bit (4 * Suc k) v"
    by (rule disjunctive_add_eq_or)
  show ?thesis
    unfolding 1 2 3 by (rule bit_word_eqI) (auto simp: bit_simps bit_nibble not_less add.commute [of 4])
qed

lemma hex_loop_nibble:
  "4 * k < 64 \<Longrightarrow> (v AND NOT (mask (4 * k))) AND push_bit (4 * k) 0x0F = v AND push_bit (4 * k) 0x0F"
  "(v AND NOT (mask (4 * k))) AND NOT (push_bit (4 * k) 0x0F) = v AND NOT (mask (4 * Suc k) :: UINT64)"
  by (rule bit_word_eqI; auto simp: mask4 bit_simps)+

text \<open>The digits produced so far stand for the low bits of the number.\<close>

lemma hex_loop_value:
  "(\<And>a. foldl hex_step a res = push_bit (4 * k) a + take_bit (4 * k) v) \<Longrightarrow> k \<le> 16 \<Longrightarrow>
   foldl hex_step 0 (hex_loop (map (\<lambda>k. 4 * k) [k..<16]) (v AND NOT (mask (4 * k))) res) = v"
proof (induction "16 - k" arbitrary: k res)
  case 0
  then have "take_bit (4 * k) v = v" by (simp add: take_bit_word_eq_self)
  then show ?case using 0 by simp
next
  case (Suc n)
  then have k: "k < 16" by simp
  show ?case
  proof (cases "v AND NOT (mask (4 * k)) = 0")
    case True
    then have "\<not> bit (v AND NOT (mask (4 * k))) i" for i by (metis bit_0_eq bot_apply bot_bool_def)
    then have "take_bit (4 * k) v = v"
      by (intro bit_word_eqI) (auto simp: bit_simps)
    moreover have "[k..<16] = k # [Suc k..<16]" using k by (simp add: upt_rec [of k])
    ultimately show ?thesis using Suc.prems(1) True by simp
  next
    case False
    have "foldl hex_step a (hexDigit (nibble k v) # res) = push_bit (4 * Suc k) a + take_bit (4 * Suc k) v" for a
      using Suc.prems(1) nibble_step [of k a v] by (simp add: hexDigitVal_hexDigit nibble_less)
    then have "foldl hex_step 0 (hex_loop (map (\<lambda>k. 4 * k) [Suc k..<16]) (v AND NOT (mask (4 * Suc k)))
        (hexDigit (nibble k v) # res)) = v"
      using Suc k by (intro Suc.hyps(1)) simp_all
    moreover have "hex_loop (map (\<lambda>k. 4 * k) [k..<16]) (v AND NOT (mask (4 * k))) res =
        hex_loop (map (\<lambda>k. 4 * k) [Suc k..<16]) (v AND NOT (mask (4 * Suc k))) (hexDigit (nibble k v) # res)"
      using False k hex_loop_nibble(1) [of k v] hex_loop_nibble(2) [of v k]
      by (simp add: upt_rec [of k] Let_def nibble_def del: drop_bit_and)
    ultimately show ?thesis by simp
  qed
qed

lemma hexDigitVal_0 [simp]: "hexDigitVal CHR ''0'' = 0"
  by (simp add: hexDigitVal_def of_char_def)

lemma foldl_zeros [simp]: "foldl hex_step 0 (replicate n CHR ''0'') = 0"
  by (induction n) simp_all

text \<open>Reading a printed number gives it back, whatever the padding.\<close>

lemma from_hex_to_hex: "from_hex (to_hex v width) = v"
proof (cases "v = 0")
  case True
  then show ?thesis by (simp add: to_hex_def from_hex_def)
next
  case False
  have "foldl hex_step 0 (hex_loop (map (\<lambda>k. 4 * k) [0..<16]) v '''') = v"
    using hex_loop_value [of "''''" 0 v] by simp
  then show ?thesis
    using False by (simp add: to_hex_def from_hex_def Let_def)
qed

end
