(* ===== verification/TpmEnums.thy ===== *)
theory TpmEnums
  imports Prelude
begin

text \<open>
  \<^verbatim>\<open>TSS.CPP/include/TpmTypes.h\<close>, the enumerations: each \<open>TpmEnum<U>\<close> is the word it wraps,
  and \<open>X_enum\<close> lists the enumerators of \<open>X\<close> in the order of the source, by name and value. The
  enumerators that the modelled code refers to are abbreviations (\<open>TPM_ALG_ID::AES\<close> is
  \<open>TPM_ALG_ID_AES\<close>; the leading underscore of \<open>_NULL\<close> and the like is dropped).
\<close>

section \<open>The enumerations\<close>

type_synonym TPM_ALG_ID = "16 word"

type_synonym TPM_ECC_CURVE = "16 word"

type_synonym SHA1 = "32 word"

type_synonym SHA256 = "32 word"

type_synonym SHA384 = "32 word"

type_synonym SHA512 = "32 word"

type_synonym SM3_256 = "32 word"

type_synonym SHA3_256 = "32 word"

type_synonym SHA3_384 = "32 word"

type_synonym SHA3_512 = "32 word"

type_synonym Logic = "8 word"

type_synonym TPM_SPEC = "32 word"

type_synonym TPM_GENERATED = "32 word"

type_synonym TPM_CC = "32 word"

type_synonym ImplementationConstants = "32 word"

type_synonym TPM_RC = "32 word"

type_synonym TPM_CLOCK_ADJUST = "8 word"

type_synonym TPM_EO = "16 word"

type_synonym TPM_ST = "16 word"

type_synonym TPM_SU = "16 word"

type_synonym TPM_SE = "8 word"

type_synonym TPM_CAP = "32 word"

type_synonym TPM_PT = "32 word"

type_synonym TPM_PT_PCR = "32 word"

type_synonym TPM_PS = "32 word"

type_synonym TPM_HT = "8 word"

type_synonym TPM_RH = "32 word"

type_synonym TPM_NT = "32 word"

type_synonym TPM_AT = "32 word"

type_synonym TPM_AE = "32 word"

type_synonym PLATFORM = "32 word"

type_synonym Implementation = "32 word"

type_synonym TPM_HC = "32 word"

type_synonym TPMA_ALGORITHM = "32 word"

type_synonym TPMA_OBJECT = "32 word"

type_synonym TPMA_SESSION = "8 word"

type_synonym TPMA_LOCALITY = "8 word"

type_synonym TPMA_PERMANENT = "32 word"

type_synonym TPMA_STARTUP_CLEAR = "32 word"

type_synonym TPMA_MEMORY = "32 word"

type_synonym TPMA_CC = "32 word"

type_synonym TPMA_MODES = "32 word"

type_synonym TPMA_X509_KEY_USAGE = "32 word"

type_synonym TPMA_ACT = "32 word"

type_synonym TPM_NV_INDEX = "32 word"

type_synonym TPMA_NV = "32 word"

section \<open>The constants the code names\<close>

subsection \<open>TPM_ALG_ID\<close>

abbreviation (input) TPM_ALG_ID_ERROR :: TPM_ALG_ID where "TPM_ALG_ID_ERROR \<equiv> 0x0"
abbreviation (input) TPM_ALG_ID_FIRST :: TPM_ALG_ID where "TPM_ALG_ID_FIRST \<equiv> 0x1"
abbreviation (input) TPM_ALG_ID_RSA :: TPM_ALG_ID where "TPM_ALG_ID_RSA \<equiv> 0x1"
abbreviation (input) TPM_ALG_ID_TDES :: TPM_ALG_ID where "TPM_ALG_ID_TDES \<equiv> 0x3"
abbreviation (input) TPM_ALG_ID_SHA :: TPM_ALG_ID where "TPM_ALG_ID_SHA \<equiv> 0x4"
abbreviation (input) TPM_ALG_ID_SHA1 :: TPM_ALG_ID where "TPM_ALG_ID_SHA1 \<equiv> 0x4"
abbreviation (input) TPM_ALG_ID_HMAC :: TPM_ALG_ID where "TPM_ALG_ID_HMAC \<equiv> 0x5"
abbreviation (input) TPM_ALG_ID_AES :: TPM_ALG_ID where "TPM_ALG_ID_AES \<equiv> 0x6"
abbreviation (input) TPM_ALG_ID_MGF1 :: TPM_ALG_ID where "TPM_ALG_ID_MGF1 \<equiv> 0x7"
abbreviation (input) TPM_ALG_ID_KEYEDHASH :: TPM_ALG_ID where "TPM_ALG_ID_KEYEDHASH \<equiv> 0x8"
abbreviation (input) TPM_ALG_ID_XOR :: TPM_ALG_ID where "TPM_ALG_ID_XOR \<equiv> 0xA"
abbreviation (input) TPM_ALG_ID_SHA256 :: TPM_ALG_ID where "TPM_ALG_ID_SHA256 \<equiv> 0xB"
abbreviation (input) TPM_ALG_ID_SHA384 :: TPM_ALG_ID where "TPM_ALG_ID_SHA384 \<equiv> 0xC"
abbreviation (input) TPM_ALG_ID_SHA512 :: TPM_ALG_ID where "TPM_ALG_ID_SHA512 \<equiv> 0xD"
abbreviation (input) TPM_ALG_ID_NULL :: TPM_ALG_ID where "TPM_ALG_ID_NULL \<equiv> 0x10"
abbreviation (input) TPM_ALG_ID_SM3_256 :: TPM_ALG_ID where "TPM_ALG_ID_SM3_256 \<equiv> 0x12"
abbreviation (input) TPM_ALG_ID_SM4 :: TPM_ALG_ID where "TPM_ALG_ID_SM4 \<equiv> 0x13"
abbreviation (input) TPM_ALG_ID_RSASSA :: TPM_ALG_ID where "TPM_ALG_ID_RSASSA \<equiv> 0x14"
abbreviation (input) TPM_ALG_ID_RSAES :: TPM_ALG_ID where "TPM_ALG_ID_RSAES \<equiv> 0x15"
abbreviation (input) TPM_ALG_ID_RSAPSS :: TPM_ALG_ID where "TPM_ALG_ID_RSAPSS \<equiv> 0x16"
abbreviation (input) TPM_ALG_ID_OAEP :: TPM_ALG_ID where "TPM_ALG_ID_OAEP \<equiv> 0x17"
abbreviation (input) TPM_ALG_ID_ECDSA :: TPM_ALG_ID where "TPM_ALG_ID_ECDSA \<equiv> 0x18"
abbreviation (input) TPM_ALG_ID_ECDH :: TPM_ALG_ID where "TPM_ALG_ID_ECDH \<equiv> 0x19"
abbreviation (input) TPM_ALG_ID_ECDAA :: TPM_ALG_ID where "TPM_ALG_ID_ECDAA \<equiv> 0x1A"
abbreviation (input) TPM_ALG_ID_SM2 :: TPM_ALG_ID where "TPM_ALG_ID_SM2 \<equiv> 0x1B"
abbreviation (input) TPM_ALG_ID_ECSCHNORR :: TPM_ALG_ID where "TPM_ALG_ID_ECSCHNORR \<equiv> 0x1C"
abbreviation (input) TPM_ALG_ID_ECMQV :: TPM_ALG_ID where "TPM_ALG_ID_ECMQV \<equiv> 0x1D"
abbreviation (input) TPM_ALG_ID_KDF1_SP800_56A :: TPM_ALG_ID where "TPM_ALG_ID_KDF1_SP800_56A \<equiv> 0x20"
abbreviation (input) TPM_ALG_ID_KDF2 :: TPM_ALG_ID where "TPM_ALG_ID_KDF2 \<equiv> 0x21"
abbreviation (input) TPM_ALG_ID_KDF1_SP800_108 :: TPM_ALG_ID where "TPM_ALG_ID_KDF1_SP800_108 \<equiv> 0x22"
abbreviation (input) TPM_ALG_ID_ECC :: TPM_ALG_ID where "TPM_ALG_ID_ECC \<equiv> 0x23"
abbreviation (input) TPM_ALG_ID_SYMCIPHER :: TPM_ALG_ID where "TPM_ALG_ID_SYMCIPHER \<equiv> 0x25"
abbreviation (input) TPM_ALG_ID_CAMELLIA :: TPM_ALG_ID where "TPM_ALG_ID_CAMELLIA \<equiv> 0x26"
abbreviation (input) TPM_ALG_ID_SHA3_256 :: TPM_ALG_ID where "TPM_ALG_ID_SHA3_256 \<equiv> 0x27"
abbreviation (input) TPM_ALG_ID_SHA3_384 :: TPM_ALG_ID where "TPM_ALG_ID_SHA3_384 \<equiv> 0x28"
abbreviation (input) TPM_ALG_ID_SHA3_512 :: TPM_ALG_ID where "TPM_ALG_ID_SHA3_512 \<equiv> 0x29"
abbreviation (input) TPM_ALG_ID_CMAC :: TPM_ALG_ID where "TPM_ALG_ID_CMAC \<equiv> 0x3F"
abbreviation (input) TPM_ALG_ID_CTR :: TPM_ALG_ID where "TPM_ALG_ID_CTR \<equiv> 0x40"
abbreviation (input) TPM_ALG_ID_OFB :: TPM_ALG_ID where "TPM_ALG_ID_OFB \<equiv> 0x41"
abbreviation (input) TPM_ALG_ID_CBC :: TPM_ALG_ID where "TPM_ALG_ID_CBC \<equiv> 0x42"
abbreviation (input) TPM_ALG_ID_CFB :: TPM_ALG_ID where "TPM_ALG_ID_CFB \<equiv> 0x43"
abbreviation (input) TPM_ALG_ID_ECB :: TPM_ALG_ID where "TPM_ALG_ID_ECB \<equiv> 0x44"
abbreviation (input) TPM_ALG_ID_LAST :: TPM_ALG_ID where "TPM_ALG_ID_LAST \<equiv> 0x44"
abbreviation (input) TPM_ALG_ID_ANY :: TPM_ALG_ID where "TPM_ALG_ID_ANY \<equiv> 0x7FFF"
abbreviation (input) TPM_ALG_ID_ANY2 :: TPM_ALG_ID where "TPM_ALG_ID_ANY2 \<equiv> 0x7FFE"

subsection \<open>TPM_CC\<close>

abbreviation (input) TPM_CC_FIRST :: TPM_CC where "TPM_CC_FIRST \<equiv> 0x11F"
abbreviation (input) TPM_CC_NV_UndefineSpaceSpecial :: TPM_CC where "TPM_CC_NV_UndefineSpaceSpecial \<equiv> 0x11F"
abbreviation (input) TPM_CC_EvictControl :: TPM_CC where "TPM_CC_EvictControl \<equiv> 0x120"
abbreviation (input) TPM_CC_HierarchyControl :: TPM_CC where "TPM_CC_HierarchyControl \<equiv> 0x121"
abbreviation (input) TPM_CC_NV_UndefineSpace :: TPM_CC where "TPM_CC_NV_UndefineSpace \<equiv> 0x122"
abbreviation (input) TPM_CC_ChangeEPS :: TPM_CC where "TPM_CC_ChangeEPS \<equiv> 0x124"
abbreviation (input) TPM_CC_ChangePPS :: TPM_CC where "TPM_CC_ChangePPS \<equiv> 0x125"
abbreviation (input) TPM_CC_Clear :: TPM_CC where "TPM_CC_Clear \<equiv> 0x126"
abbreviation (input) TPM_CC_ClearControl :: TPM_CC where "TPM_CC_ClearControl \<equiv> 0x127"
abbreviation (input) TPM_CC_ClockSet :: TPM_CC where "TPM_CC_ClockSet \<equiv> 0x128"
abbreviation (input) TPM_CC_HierarchyChangeAuth :: TPM_CC where "TPM_CC_HierarchyChangeAuth \<equiv> 0x129"
abbreviation (input) TPM_CC_NV_DefineSpace :: TPM_CC where "TPM_CC_NV_DefineSpace \<equiv> 0x12A"
abbreviation (input) TPM_CC_PCR_Allocate :: TPM_CC where "TPM_CC_PCR_Allocate \<equiv> 0x12B"
abbreviation (input) TPM_CC_PCR_SetAuthPolicy :: TPM_CC where "TPM_CC_PCR_SetAuthPolicy \<equiv> 0x12C"
abbreviation (input) TPM_CC_PP_Commands :: TPM_CC where "TPM_CC_PP_Commands \<equiv> 0x12D"
abbreviation (input) TPM_CC_SetPrimaryPolicy :: TPM_CC where "TPM_CC_SetPrimaryPolicy \<equiv> 0x12E"
abbreviation (input) TPM_CC_FieldUpgradeStart :: TPM_CC where "TPM_CC_FieldUpgradeStart \<equiv> 0x12F"
abbreviation (input) TPM_CC_ClockRateAdjust :: TPM_CC where "TPM_CC_ClockRateAdjust \<equiv> 0x130"
abbreviation (input) TPM_CC_CreatePrimary :: TPM_CC where "TPM_CC_CreatePrimary \<equiv> 0x131"
abbreviation (input) TPM_CC_NV_GlobalWriteLock :: TPM_CC where "TPM_CC_NV_GlobalWriteLock \<equiv> 0x132"
abbreviation (input) TPM_CC_GetCommandAuditDigest :: TPM_CC where "TPM_CC_GetCommandAuditDigest \<equiv> 0x133"
abbreviation (input) TPM_CC_NV_Increment :: TPM_CC where "TPM_CC_NV_Increment \<equiv> 0x134"
abbreviation (input) TPM_CC_NV_SetBits :: TPM_CC where "TPM_CC_NV_SetBits \<equiv> 0x135"
abbreviation (input) TPM_CC_NV_Extend :: TPM_CC where "TPM_CC_NV_Extend \<equiv> 0x136"
abbreviation (input) TPM_CC_NV_Write :: TPM_CC where "TPM_CC_NV_Write \<equiv> 0x137"
abbreviation (input) TPM_CC_NV_WriteLock :: TPM_CC where "TPM_CC_NV_WriteLock \<equiv> 0x138"
abbreviation (input) TPM_CC_DictionaryAttackLockReset :: TPM_CC where "TPM_CC_DictionaryAttackLockReset \<equiv> 0x139"
abbreviation (input) TPM_CC_DictionaryAttackParameters :: TPM_CC where "TPM_CC_DictionaryAttackParameters \<equiv> 0x13A"
abbreviation (input) TPM_CC_NV_ChangeAuth :: TPM_CC where "TPM_CC_NV_ChangeAuth \<equiv> 0x13B"
abbreviation (input) TPM_CC_PCR_Event :: TPM_CC where "TPM_CC_PCR_Event \<equiv> 0x13C"
abbreviation (input) TPM_CC_PCR_Reset :: TPM_CC where "TPM_CC_PCR_Reset \<equiv> 0x13D"
abbreviation (input) TPM_CC_SequenceComplete :: TPM_CC where "TPM_CC_SequenceComplete \<equiv> 0x13E"
abbreviation (input) TPM_CC_SetAlgorithmSet :: TPM_CC where "TPM_CC_SetAlgorithmSet \<equiv> 0x13F"
abbreviation (input) TPM_CC_SetCommandCodeAuditStatus :: TPM_CC where "TPM_CC_SetCommandCodeAuditStatus \<equiv> 0x140"
abbreviation (input) TPM_CC_FieldUpgradeData :: TPM_CC where "TPM_CC_FieldUpgradeData \<equiv> 0x141"
abbreviation (input) TPM_CC_IncrementalSelfTest :: TPM_CC where "TPM_CC_IncrementalSelfTest \<equiv> 0x142"
abbreviation (input) TPM_CC_SelfTest :: TPM_CC where "TPM_CC_SelfTest \<equiv> 0x143"
abbreviation (input) TPM_CC_Startup :: TPM_CC where "TPM_CC_Startup \<equiv> 0x144"
abbreviation (input) TPM_CC_Shutdown :: TPM_CC where "TPM_CC_Shutdown \<equiv> 0x145"
abbreviation (input) TPM_CC_StirRandom :: TPM_CC where "TPM_CC_StirRandom \<equiv> 0x146"
abbreviation (input) TPM_CC_ActivateCredential :: TPM_CC where "TPM_CC_ActivateCredential \<equiv> 0x147"
abbreviation (input) TPM_CC_Certify :: TPM_CC where "TPM_CC_Certify \<equiv> 0x148"
abbreviation (input) TPM_CC_PolicyNV :: TPM_CC where "TPM_CC_PolicyNV \<equiv> 0x149"
abbreviation (input) TPM_CC_CertifyCreation :: TPM_CC where "TPM_CC_CertifyCreation \<equiv> 0x14A"
abbreviation (input) TPM_CC_Duplicate :: TPM_CC where "TPM_CC_Duplicate \<equiv> 0x14B"
abbreviation (input) TPM_CC_GetTime :: TPM_CC where "TPM_CC_GetTime \<equiv> 0x14C"
abbreviation (input) TPM_CC_GetSessionAuditDigest :: TPM_CC where "TPM_CC_GetSessionAuditDigest \<equiv> 0x14D"
abbreviation (input) TPM_CC_NV_Read :: TPM_CC where "TPM_CC_NV_Read \<equiv> 0x14E"
abbreviation (input) TPM_CC_NV_ReadLock :: TPM_CC where "TPM_CC_NV_ReadLock \<equiv> 0x14F"
abbreviation (input) TPM_CC_ObjectChangeAuth :: TPM_CC where "TPM_CC_ObjectChangeAuth \<equiv> 0x150"
abbreviation (input) TPM_CC_PolicySecret :: TPM_CC where "TPM_CC_PolicySecret \<equiv> 0x151"
abbreviation (input) TPM_CC_Rewrap :: TPM_CC where "TPM_CC_Rewrap \<equiv> 0x152"
abbreviation (input) TPM_CC_Create :: TPM_CC where "TPM_CC_Create \<equiv> 0x153"
abbreviation (input) TPM_CC_ECDH_ZGen :: TPM_CC where "TPM_CC_ECDH_ZGen \<equiv> 0x154"
abbreviation (input) TPM_CC_HMAC :: TPM_CC where "TPM_CC_HMAC \<equiv> 0x155"
abbreviation (input) TPM_CC_MAC :: TPM_CC where "TPM_CC_MAC \<equiv> 0x155"
abbreviation (input) TPM_CC_Import :: TPM_CC where "TPM_CC_Import \<equiv> 0x156"
abbreviation (input) TPM_CC_Load :: TPM_CC where "TPM_CC_Load \<equiv> 0x157"
abbreviation (input) TPM_CC_Quote :: TPM_CC where "TPM_CC_Quote \<equiv> 0x158"
abbreviation (input) TPM_CC_RSA_Decrypt :: TPM_CC where "TPM_CC_RSA_Decrypt \<equiv> 0x159"
abbreviation (input) TPM_CC_HMAC_Start :: TPM_CC where "TPM_CC_HMAC_Start \<equiv> 0x15B"
abbreviation (input) TPM_CC_MAC_Start :: TPM_CC where "TPM_CC_MAC_Start \<equiv> 0x15B"
abbreviation (input) TPM_CC_SequenceUpdate :: TPM_CC where "TPM_CC_SequenceUpdate \<equiv> 0x15C"
abbreviation (input) TPM_CC_Sign :: TPM_CC where "TPM_CC_Sign \<equiv> 0x15D"
abbreviation (input) TPM_CC_Unseal :: TPM_CC where "TPM_CC_Unseal \<equiv> 0x15E"
abbreviation (input) TPM_CC_PolicySigned :: TPM_CC where "TPM_CC_PolicySigned \<equiv> 0x160"
abbreviation (input) TPM_CC_ContextLoad :: TPM_CC where "TPM_CC_ContextLoad \<equiv> 0x161"
abbreviation (input) TPM_CC_ContextSave :: TPM_CC where "TPM_CC_ContextSave \<equiv> 0x162"
abbreviation (input) TPM_CC_ECDH_KeyGen :: TPM_CC where "TPM_CC_ECDH_KeyGen \<equiv> 0x163"
abbreviation (input) TPM_CC_EncryptDecrypt :: TPM_CC where "TPM_CC_EncryptDecrypt \<equiv> 0x164"
abbreviation (input) TPM_CC_FlushContext :: TPM_CC where "TPM_CC_FlushContext \<equiv> 0x165"
abbreviation (input) TPM_CC_LoadExternal :: TPM_CC where "TPM_CC_LoadExternal \<equiv> 0x167"
abbreviation (input) TPM_CC_MakeCredential :: TPM_CC where "TPM_CC_MakeCredential \<equiv> 0x168"
abbreviation (input) TPM_CC_NV_ReadPublic :: TPM_CC where "TPM_CC_NV_ReadPublic \<equiv> 0x169"
abbreviation (input) TPM_CC_PolicyAuthorize :: TPM_CC where "TPM_CC_PolicyAuthorize \<equiv> 0x16A"
abbreviation (input) TPM_CC_PolicyAuthValue :: TPM_CC where "TPM_CC_PolicyAuthValue \<equiv> 0x16B"
abbreviation (input) TPM_CC_PolicyCommandCode :: TPM_CC where "TPM_CC_PolicyCommandCode \<equiv> 0x16C"
abbreviation (input) TPM_CC_PolicyCounterTimer :: TPM_CC where "TPM_CC_PolicyCounterTimer \<equiv> 0x16D"
abbreviation (input) TPM_CC_PolicyCpHash :: TPM_CC where "TPM_CC_PolicyCpHash \<equiv> 0x16E"
abbreviation (input) TPM_CC_PolicyLocality :: TPM_CC where "TPM_CC_PolicyLocality \<equiv> 0x16F"
abbreviation (input) TPM_CC_PolicyNameHash :: TPM_CC where "TPM_CC_PolicyNameHash \<equiv> 0x170"
abbreviation (input) TPM_CC_PolicyOR :: TPM_CC where "TPM_CC_PolicyOR \<equiv> 0x171"
abbreviation (input) TPM_CC_PolicyTicket :: TPM_CC where "TPM_CC_PolicyTicket \<equiv> 0x172"
abbreviation (input) TPM_CC_ReadPublic :: TPM_CC where "TPM_CC_ReadPublic \<equiv> 0x173"
abbreviation (input) TPM_CC_RSA_Encrypt :: TPM_CC where "TPM_CC_RSA_Encrypt \<equiv> 0x174"
abbreviation (input) TPM_CC_StartAuthSession :: TPM_CC where "TPM_CC_StartAuthSession \<equiv> 0x176"
abbreviation (input) TPM_CC_VerifySignature :: TPM_CC where "TPM_CC_VerifySignature \<equiv> 0x177"
abbreviation (input) TPM_CC_ECC_Parameters :: TPM_CC where "TPM_CC_ECC_Parameters \<equiv> 0x178"
abbreviation (input) TPM_CC_FirmwareRead :: TPM_CC where "TPM_CC_FirmwareRead \<equiv> 0x179"
abbreviation (input) TPM_CC_GetCapability :: TPM_CC where "TPM_CC_GetCapability \<equiv> 0x17A"
abbreviation (input) TPM_CC_GetRandom :: TPM_CC where "TPM_CC_GetRandom \<equiv> 0x17B"
abbreviation (input) TPM_CC_GetTestResult :: TPM_CC where "TPM_CC_GetTestResult \<equiv> 0x17C"
abbreviation (input) TPM_CC_Hash :: TPM_CC where "TPM_CC_Hash \<equiv> 0x17D"
abbreviation (input) TPM_CC_PCR_Read :: TPM_CC where "TPM_CC_PCR_Read \<equiv> 0x17E"
abbreviation (input) TPM_CC_PolicyPCR :: TPM_CC where "TPM_CC_PolicyPCR \<equiv> 0x17F"
abbreviation (input) TPM_CC_PolicyRestart :: TPM_CC where "TPM_CC_PolicyRestart \<equiv> 0x180"
abbreviation (input) TPM_CC_ReadClock :: TPM_CC where "TPM_CC_ReadClock \<equiv> 0x181"
abbreviation (input) TPM_CC_PCR_Extend :: TPM_CC where "TPM_CC_PCR_Extend \<equiv> 0x182"
abbreviation (input) TPM_CC_PCR_SetAuthValue :: TPM_CC where "TPM_CC_PCR_SetAuthValue \<equiv> 0x183"
abbreviation (input) TPM_CC_NV_Certify :: TPM_CC where "TPM_CC_NV_Certify \<equiv> 0x184"
abbreviation (input) TPM_CC_EventSequenceComplete :: TPM_CC where "TPM_CC_EventSequenceComplete \<equiv> 0x185"
abbreviation (input) TPM_CC_HashSequenceStart :: TPM_CC where "TPM_CC_HashSequenceStart \<equiv> 0x186"
abbreviation (input) TPM_CC_PolicyPhysicalPresence :: TPM_CC where "TPM_CC_PolicyPhysicalPresence \<equiv> 0x187"
abbreviation (input) TPM_CC_PolicyDuplicationSelect :: TPM_CC where "TPM_CC_PolicyDuplicationSelect \<equiv> 0x188"
abbreviation (input) TPM_CC_PolicyGetDigest :: TPM_CC where "TPM_CC_PolicyGetDigest \<equiv> 0x189"
abbreviation (input) TPM_CC_TestParms :: TPM_CC where "TPM_CC_TestParms \<equiv> 0x18A"
abbreviation (input) TPM_CC_Commit :: TPM_CC where "TPM_CC_Commit \<equiv> 0x18B"
abbreviation (input) TPM_CC_PolicyPassword :: TPM_CC where "TPM_CC_PolicyPassword \<equiv> 0x18C"
abbreviation (input) TPM_CC_ZGen_2Phase :: TPM_CC where "TPM_CC_ZGen_2Phase \<equiv> 0x18D"
abbreviation (input) TPM_CC_EC_Ephemeral :: TPM_CC where "TPM_CC_EC_Ephemeral \<equiv> 0x18E"
abbreviation (input) TPM_CC_PolicyNvWritten :: TPM_CC where "TPM_CC_PolicyNvWritten \<equiv> 0x18F"
abbreviation (input) TPM_CC_PolicyTemplate :: TPM_CC where "TPM_CC_PolicyTemplate \<equiv> 0x190"
abbreviation (input) TPM_CC_CreateLoaded :: TPM_CC where "TPM_CC_CreateLoaded \<equiv> 0x191"
abbreviation (input) TPM_CC_PolicyAuthorizeNV :: TPM_CC where "TPM_CC_PolicyAuthorizeNV \<equiv> 0x192"
abbreviation (input) TPM_CC_EncryptDecrypt2 :: TPM_CC where "TPM_CC_EncryptDecrypt2 \<equiv> 0x193"
abbreviation (input) TPM_CC_AC_GetCapability :: TPM_CC where "TPM_CC_AC_GetCapability \<equiv> 0x194"
abbreviation (input) TPM_CC_AC_Send :: TPM_CC where "TPM_CC_AC_Send \<equiv> 0x195"
abbreviation (input) TPM_CC_Policy_AC_SendSelect :: TPM_CC where "TPM_CC_Policy_AC_SendSelect \<equiv> 0x196"
abbreviation (input) TPM_CC_CertifyX509 :: TPM_CC where "TPM_CC_CertifyX509 \<equiv> 0x197"
abbreviation (input) TPM_CC_ACT_SetTimeout :: TPM_CC where "TPM_CC_ACT_SetTimeout \<equiv> 0x198"
abbreviation (input) TPM_CC_ECC_Encrypt :: TPM_CC where "TPM_CC_ECC_Encrypt \<equiv> 0x199"
abbreviation (input) TPM_CC_ECC_Decrypt :: TPM_CC where "TPM_CC_ECC_Decrypt \<equiv> 0x19A"
abbreviation (input) TPM_CC_LAST :: TPM_CC where "TPM_CC_LAST \<equiv> 0x19A"
abbreviation (input) TPM_CC_CC_VEND :: TPM_CC where "TPM_CC_CC_VEND \<equiv> 0x20000000"
abbreviation (input) TPM_CC_Vendor_TCG_Test :: TPM_CC where "TPM_CC_Vendor_TCG_Test \<equiv> 0x20000000"

subsection \<open>TPM_RC\<close>

abbreviation (input) TPM_RC_SUCCESS :: TPM_RC where "TPM_RC_SUCCESS \<equiv> 0x0"
abbreviation (input) TPM_RC_BAD_TAG :: TPM_RC where "TPM_RC_BAD_TAG \<equiv> 0x1E"
abbreviation (input) TPM_RC_RC_VER1 :: TPM_RC where "TPM_RC_RC_VER1 \<equiv> 0x100"
abbreviation (input) TPM_RC_INITIALIZE :: TPM_RC where "TPM_RC_INITIALIZE \<equiv> 0x100"
abbreviation (input) TPM_RC_FAILURE :: TPM_RC where "TPM_RC_FAILURE \<equiv> 0x101"
abbreviation (input) TPM_RC_SEQUENCE :: TPM_RC where "TPM_RC_SEQUENCE \<equiv> 0x103"
abbreviation (input) TPM_RC_PRIVATE :: TPM_RC where "TPM_RC_PRIVATE \<equiv> 0x10B"
abbreviation (input) TPM_RC_HMAC :: TPM_RC where "TPM_RC_HMAC \<equiv> 0x119"
abbreviation (input) TPM_RC_DISABLED :: TPM_RC where "TPM_RC_DISABLED \<equiv> 0x120"
abbreviation (input) TPM_RC_EXCLUSIVE :: TPM_RC where "TPM_RC_EXCLUSIVE \<equiv> 0x121"
abbreviation (input) TPM_RC_AUTH_TYPE :: TPM_RC where "TPM_RC_AUTH_TYPE \<equiv> 0x124"
abbreviation (input) TPM_RC_AUTH_MISSING :: TPM_RC where "TPM_RC_AUTH_MISSING \<equiv> 0x125"
abbreviation (input) TPM_RC_POLICY :: TPM_RC where "TPM_RC_POLICY \<equiv> 0x126"
abbreviation (input) TPM_RC_PCR :: TPM_RC where "TPM_RC_PCR \<equiv> 0x127"
abbreviation (input) TPM_RC_PCR_CHANGED :: TPM_RC where "TPM_RC_PCR_CHANGED \<equiv> 0x128"
abbreviation (input) TPM_RC_UPGRADE :: TPM_RC where "TPM_RC_UPGRADE \<equiv> 0x12D"
abbreviation (input) TPM_RC_TOO_MANY_CONTEXTS :: TPM_RC where "TPM_RC_TOO_MANY_CONTEXTS \<equiv> 0x12E"
abbreviation (input) TPM_RC_AUTH_UNAVAILABLE :: TPM_RC where "TPM_RC_AUTH_UNAVAILABLE \<equiv> 0x12F"
abbreviation (input) TPM_RC_REBOOT :: TPM_RC where "TPM_RC_REBOOT \<equiv> 0x130"
abbreviation (input) TPM_RC_UNBALANCED :: TPM_RC where "TPM_RC_UNBALANCED \<equiv> 0x131"
abbreviation (input) TPM_RC_COMMAND_SIZE :: TPM_RC where "TPM_RC_COMMAND_SIZE \<equiv> 0x142"
abbreviation (input) TPM_RC_COMMAND_CODE :: TPM_RC where "TPM_RC_COMMAND_CODE \<equiv> 0x143"
abbreviation (input) TPM_RC_AUTHSIZE :: TPM_RC where "TPM_RC_AUTHSIZE \<equiv> 0x144"
abbreviation (input) TPM_RC_AUTH_CONTEXT :: TPM_RC where "TPM_RC_AUTH_CONTEXT \<equiv> 0x145"
abbreviation (input) TPM_RC_NV_RANGE :: TPM_RC where "TPM_RC_NV_RANGE \<equiv> 0x146"
abbreviation (input) TPM_RC_NV_SIZE :: TPM_RC where "TPM_RC_NV_SIZE \<equiv> 0x147"
abbreviation (input) TPM_RC_NV_LOCKED :: TPM_RC where "TPM_RC_NV_LOCKED \<equiv> 0x148"
abbreviation (input) TPM_RC_NV_AUTHORIZATION :: TPM_RC where "TPM_RC_NV_AUTHORIZATION \<equiv> 0x149"
abbreviation (input) TPM_RC_NV_UNINITIALIZED :: TPM_RC where "TPM_RC_NV_UNINITIALIZED \<equiv> 0x14A"
abbreviation (input) TPM_RC_NV_SPACE :: TPM_RC where "TPM_RC_NV_SPACE \<equiv> 0x14B"
abbreviation (input) TPM_RC_NV_DEFINED :: TPM_RC where "TPM_RC_NV_DEFINED \<equiv> 0x14C"
abbreviation (input) TPM_RC_BAD_CONTEXT :: TPM_RC where "TPM_RC_BAD_CONTEXT \<equiv> 0x150"
abbreviation (input) TPM_RC_CPHASH :: TPM_RC where "TPM_RC_CPHASH \<equiv> 0x151"
abbreviation (input) TPM_RC_PARENT :: TPM_RC where "TPM_RC_PARENT \<equiv> 0x152"
abbreviation (input) TPM_RC_NEEDS_TEST :: TPM_RC where "TPM_RC_NEEDS_TEST \<equiv> 0x153"
abbreviation (input) TPM_RC_NO_RESULT :: TPM_RC where "TPM_RC_NO_RESULT \<equiv> 0x154"
abbreviation (input) TPM_RC_SENSITIVE :: TPM_RC where "TPM_RC_SENSITIVE \<equiv> 0x155"
abbreviation (input) TPM_RC_RC_MAX_FM0 :: TPM_RC where "TPM_RC_RC_MAX_FM0 \<equiv> 0x17F"
abbreviation (input) TPM_RC_RC_FMT1 :: TPM_RC where "TPM_RC_RC_FMT1 \<equiv> 0x80"
abbreviation (input) TPM_RC_ASYMMETRIC :: TPM_RC where "TPM_RC_ASYMMETRIC \<equiv> 0x81"
abbreviation (input) TPM_RC_ATTRIBUTES :: TPM_RC where "TPM_RC_ATTRIBUTES \<equiv> 0x82"
abbreviation (input) TPM_RC_HASH :: TPM_RC where "TPM_RC_HASH \<equiv> 0x83"
abbreviation (input) TPM_RC_VALUE :: TPM_RC where "TPM_RC_VALUE \<equiv> 0x84"
abbreviation (input) TPM_RC_HIERARCHY :: TPM_RC where "TPM_RC_HIERARCHY \<equiv> 0x85"
abbreviation (input) TPM_RC_KEY_SIZE :: TPM_RC where "TPM_RC_KEY_SIZE \<equiv> 0x87"
abbreviation (input) TPM_RC_MGF :: TPM_RC where "TPM_RC_MGF \<equiv> 0x88"
abbreviation (input) TPM_RC_MODE :: TPM_RC where "TPM_RC_MODE \<equiv> 0x89"
abbreviation (input) TPM_RC_TYPE :: TPM_RC where "TPM_RC_TYPE \<equiv> 0x8A"
abbreviation (input) TPM_RC_HANDLE :: TPM_RC where "TPM_RC_HANDLE \<equiv> 0x8B"
abbreviation (input) TPM_RC_KDF :: TPM_RC where "TPM_RC_KDF \<equiv> 0x8C"
abbreviation (input) TPM_RC_RANGE :: TPM_RC where "TPM_RC_RANGE \<equiv> 0x8D"
abbreviation (input) TPM_RC_AUTH_FAIL :: TPM_RC where "TPM_RC_AUTH_FAIL \<equiv> 0x8E"
abbreviation (input) TPM_RC_NONCE :: TPM_RC where "TPM_RC_NONCE \<equiv> 0x8F"
abbreviation (input) TPM_RC_PP :: TPM_RC where "TPM_RC_PP \<equiv> 0x90"
abbreviation (input) TPM_RC_SCHEME :: TPM_RC where "TPM_RC_SCHEME \<equiv> 0x92"
abbreviation (input) TPM_RC_SIZE :: TPM_RC where "TPM_RC_SIZE \<equiv> 0x95"
abbreviation (input) TPM_RC_SYMMETRIC :: TPM_RC where "TPM_RC_SYMMETRIC \<equiv> 0x96"
abbreviation (input) TPM_RC_TAG :: TPM_RC where "TPM_RC_TAG \<equiv> 0x97"
abbreviation (input) TPM_RC_SELECTOR :: TPM_RC where "TPM_RC_SELECTOR \<equiv> 0x98"
abbreviation (input) TPM_RC_INSUFFICIENT :: TPM_RC where "TPM_RC_INSUFFICIENT \<equiv> 0x9A"
abbreviation (input) TPM_RC_SIGNATURE :: TPM_RC where "TPM_RC_SIGNATURE \<equiv> 0x9B"
abbreviation (input) TPM_RC_KEY :: TPM_RC where "TPM_RC_KEY \<equiv> 0x9C"
abbreviation (input) TPM_RC_POLICY_FAIL :: TPM_RC where "TPM_RC_POLICY_FAIL \<equiv> 0x9D"
abbreviation (input) TPM_RC_INTEGRITY :: TPM_RC where "TPM_RC_INTEGRITY \<equiv> 0x9F"
abbreviation (input) TPM_RC_TICKET :: TPM_RC where "TPM_RC_TICKET \<equiv> 0xA0"
abbreviation (input) TPM_RC_RESERVED_BITS :: TPM_RC where "TPM_RC_RESERVED_BITS \<equiv> 0xA1"
abbreviation (input) TPM_RC_BAD_AUTH :: TPM_RC where "TPM_RC_BAD_AUTH \<equiv> 0xA2"
abbreviation (input) TPM_RC_EXPIRED :: TPM_RC where "TPM_RC_EXPIRED \<equiv> 0xA3"
abbreviation (input) TPM_RC_POLICY_CC :: TPM_RC where "TPM_RC_POLICY_CC \<equiv> 0xA4"
abbreviation (input) TPM_RC_BINDING :: TPM_RC where "TPM_RC_BINDING \<equiv> 0xA5"
abbreviation (input) TPM_RC_CURVE :: TPM_RC where "TPM_RC_CURVE \<equiv> 0xA6"
abbreviation (input) TPM_RC_ECC_POINT :: TPM_RC where "TPM_RC_ECC_POINT \<equiv> 0xA7"
abbreviation (input) TPM_RC_RC_WARN :: TPM_RC where "TPM_RC_RC_WARN \<equiv> 0x900"
abbreviation (input) TPM_RC_CONTEXT_GAP :: TPM_RC where "TPM_RC_CONTEXT_GAP \<equiv> 0x901"
abbreviation (input) TPM_RC_OBJECT_MEMORY :: TPM_RC where "TPM_RC_OBJECT_MEMORY \<equiv> 0x902"
abbreviation (input) TPM_RC_SESSION_MEMORY :: TPM_RC where "TPM_RC_SESSION_MEMORY \<equiv> 0x903"
abbreviation (input) TPM_RC_MEMORY :: TPM_RC where "TPM_RC_MEMORY \<equiv> 0x904"
abbreviation (input) TPM_RC_SESSION_HANDLES :: TPM_RC where "TPM_RC_SESSION_HANDLES \<equiv> 0x905"
abbreviation (input) TPM_RC_OBJECT_HANDLES :: TPM_RC where "TPM_RC_OBJECT_HANDLES \<equiv> 0x906"
abbreviation (input) TPM_RC_LOCALITY :: TPM_RC where "TPM_RC_LOCALITY \<equiv> 0x907"
abbreviation (input) TPM_RC_YIELDED :: TPM_RC where "TPM_RC_YIELDED \<equiv> 0x908"
abbreviation (input) TPM_RC_CANCELED :: TPM_RC where "TPM_RC_CANCELED \<equiv> 0x909"
abbreviation (input) TPM_RC_TESTING :: TPM_RC where "TPM_RC_TESTING \<equiv> 0x90A"
abbreviation (input) TPM_RC_REFERENCE_H0 :: TPM_RC where "TPM_RC_REFERENCE_H0 \<equiv> 0x910"
abbreviation (input) TPM_RC_REFERENCE_H1 :: TPM_RC where "TPM_RC_REFERENCE_H1 \<equiv> 0x911"
abbreviation (input) TPM_RC_REFERENCE_H2 :: TPM_RC where "TPM_RC_REFERENCE_H2 \<equiv> 0x912"
abbreviation (input) TPM_RC_REFERENCE_H3 :: TPM_RC where "TPM_RC_REFERENCE_H3 \<equiv> 0x913"
abbreviation (input) TPM_RC_REFERENCE_H4 :: TPM_RC where "TPM_RC_REFERENCE_H4 \<equiv> 0x914"
abbreviation (input) TPM_RC_REFERENCE_H5 :: TPM_RC where "TPM_RC_REFERENCE_H5 \<equiv> 0x915"
abbreviation (input) TPM_RC_REFERENCE_H6 :: TPM_RC where "TPM_RC_REFERENCE_H6 \<equiv> 0x916"
abbreviation (input) TPM_RC_REFERENCE_S0 :: TPM_RC where "TPM_RC_REFERENCE_S0 \<equiv> 0x918"
abbreviation (input) TPM_RC_REFERENCE_S1 :: TPM_RC where "TPM_RC_REFERENCE_S1 \<equiv> 0x919"
abbreviation (input) TPM_RC_REFERENCE_S2 :: TPM_RC where "TPM_RC_REFERENCE_S2 \<equiv> 0x91A"
abbreviation (input) TPM_RC_REFERENCE_S3 :: TPM_RC where "TPM_RC_REFERENCE_S3 \<equiv> 0x91B"
abbreviation (input) TPM_RC_REFERENCE_S4 :: TPM_RC where "TPM_RC_REFERENCE_S4 \<equiv> 0x91C"
abbreviation (input) TPM_RC_REFERENCE_S5 :: TPM_RC where "TPM_RC_REFERENCE_S5 \<equiv> 0x91D"
abbreviation (input) TPM_RC_REFERENCE_S6 :: TPM_RC where "TPM_RC_REFERENCE_S6 \<equiv> 0x91E"
abbreviation (input) TPM_RC_NV_RATE :: TPM_RC where "TPM_RC_NV_RATE \<equiv> 0x920"
abbreviation (input) TPM_RC_LOCKOUT :: TPM_RC where "TPM_RC_LOCKOUT \<equiv> 0x921"
abbreviation (input) TPM_RC_RETRY :: TPM_RC where "TPM_RC_RETRY \<equiv> 0x922"
abbreviation (input) TPM_RC_NV_UNAVAILABLE :: TPM_RC where "TPM_RC_NV_UNAVAILABLE \<equiv> 0x923"
abbreviation (input) TPM_RC_NOT_USED :: TPM_RC where "TPM_RC_NOT_USED \<equiv> 0x97F"
abbreviation (input) TPM_RC_H :: TPM_RC where "TPM_RC_H \<equiv> 0x0"
abbreviation (input) TPM_RC_P :: TPM_RC where "TPM_RC_P \<equiv> 0x40"
abbreviation (input) TPM_RC_S :: TPM_RC where "TPM_RC_S \<equiv> 0x800"
abbreviation (input) TPM_RC_1 :: TPM_RC where "TPM_RC_1 \<equiv> 0x100"
abbreviation (input) TPM_RC_2 :: TPM_RC where "TPM_RC_2 \<equiv> 0x200"
abbreviation (input) TPM_RC_3 :: TPM_RC where "TPM_RC_3 \<equiv> 0x300"
abbreviation (input) TPM_RC_4 :: TPM_RC where "TPM_RC_4 \<equiv> 0x400"
abbreviation (input) TPM_RC_5 :: TPM_RC where "TPM_RC_5 \<equiv> 0x500"
abbreviation (input) TPM_RC_6 :: TPM_RC where "TPM_RC_6 \<equiv> 0x600"
abbreviation (input) TPM_RC_7 :: TPM_RC where "TPM_RC_7 \<equiv> 0x700"
abbreviation (input) TPM_RC_8 :: TPM_RC where "TPM_RC_8 \<equiv> 0x800"
abbreviation (input) TPM_RC_9 :: TPM_RC where "TPM_RC_9 \<equiv> 0x900"
abbreviation (input) TPM_RC_A :: TPM_RC where "TPM_RC_A \<equiv> 0xA00"
abbreviation (input) TPM_RC_B :: TPM_RC where "TPM_RC_B \<equiv> 0xB00"
abbreviation (input) TPM_RC_C :: TPM_RC where "TPM_RC_C \<equiv> 0xC00"
abbreviation (input) TPM_RC_D :: TPM_RC where "TPM_RC_D \<equiv> 0xD00"
abbreviation (input) TPM_RC_E :: TPM_RC where "TPM_RC_E \<equiv> 0xE00"
abbreviation (input) TPM_RC_F :: TPM_RC where "TPM_RC_F \<equiv> 0xF00"
abbreviation (input) TPM_RC_N_MASK :: TPM_RC where "TPM_RC_N_MASK \<equiv> 0xF00"
abbreviation (input) TPM_RC_TSS_TCP_BAD_HANDSHAKE_RESP :: TPM_RC where "TPM_RC_TSS_TCP_BAD_HANDSHAKE_RESP \<equiv> 0x40280001"
abbreviation (input) TPM_RC_TSS_TCP_SERVER_TOO_OLD :: TPM_RC where "TPM_RC_TSS_TCP_SERVER_TOO_OLD \<equiv> 0x40280002"
abbreviation (input) TPM_RC_TSS_TCP_BAD_ACK :: TPM_RC where "TPM_RC_TSS_TCP_BAD_ACK \<equiv> 0x40280003"
abbreviation (input) TPM_RC_TSS_TCP_BAD_RESP_LEN :: TPM_RC where "TPM_RC_TSS_TCP_BAD_RESP_LEN \<equiv> 0x40280004"
abbreviation (input) TPM_RC_TSS_TCP_UNEXPECTED_STARTUP_RESP :: TPM_RC where "TPM_RC_TSS_TCP_UNEXPECTED_STARTUP_RESP \<equiv> 0x40280005"
abbreviation (input) TPM_RC_TSS_TCP_INVALID_SIZE_TAG :: TPM_RC where "TPM_RC_TSS_TCP_INVALID_SIZE_TAG \<equiv> 0x40280006"
abbreviation (input) TPM_RC_TSS_TCP_DISCONNECTED :: TPM_RC where "TPM_RC_TSS_TCP_DISCONNECTED \<equiv> 0x40280007"
abbreviation (input) TPM_RC_TSS_DISPATCH_FAILED :: TPM_RC where "TPM_RC_TSS_DISPATCH_FAILED \<equiv> 0x40280010"
abbreviation (input) TPM_RC_TSS_SEND_OP_FAILED :: TPM_RC where "TPM_RC_TSS_SEND_OP_FAILED \<equiv> 0x40280011"
abbreviation (input) TPM_RC_TSS_RESP_BUF_TOO_SHORT :: TPM_RC where "TPM_RC_TSS_RESP_BUF_TOO_SHORT \<equiv> 0x40280021"
abbreviation (input) TPM_RC_TSS_RESP_BUF_INVALID_SESSION_TAG :: TPM_RC where "TPM_RC_TSS_RESP_BUF_INVALID_SESSION_TAG \<equiv> 0x40280022"
abbreviation (input) TPM_RC_TSS_RESP_BUF_INVALID_SIZE :: TPM_RC where "TPM_RC_TSS_RESP_BUF_INVALID_SIZE \<equiv> 0x40280023"
abbreviation (input) TPM_RC_TBS_COMMAND_BLOCKED :: TPM_RC where "TPM_RC_TBS_COMMAND_BLOCKED \<equiv> 0x80280400"
abbreviation (input) TPM_RC_TBS_INVALID_HANDLE :: TPM_RC where "TPM_RC_TBS_INVALID_HANDLE \<equiv> 0x80280401"
abbreviation (input) TPM_RC_TBS_DUPLICATE_V_HANDLE :: TPM_RC where "TPM_RC_TBS_DUPLICATE_V_HANDLE \<equiv> 0x80280402"
abbreviation (input) TPM_RC_TBS_EMBEDDED_COMMAND_BLOCKED :: TPM_RC where "TPM_RC_TBS_EMBEDDED_COMMAND_BLOCKED \<equiv> 0x80280403"
abbreviation (input) TPM_RC_TBS_EMBEDDED_COMMAND_UNSUPPORTED :: TPM_RC where "TPM_RC_TBS_EMBEDDED_COMMAND_UNSUPPORTED \<equiv> 0x80280404"
abbreviation (input) TPM_RC_TBS_UNKNOWN_ERROR :: TPM_RC where "TPM_RC_TBS_UNKNOWN_ERROR \<equiv> 0x80284000"
abbreviation (input) TPM_RC_TBS_INTERNAL_ERROR :: TPM_RC where "TPM_RC_TBS_INTERNAL_ERROR \<equiv> 0x80284001"
abbreviation (input) TPM_RC_TBS_BAD_PARAMETER :: TPM_RC where "TPM_RC_TBS_BAD_PARAMETER \<equiv> 0x80284002"
abbreviation (input) TPM_RC_TBS_INVALID_OUTPUT_POINTER :: TPM_RC where "TPM_RC_TBS_INVALID_OUTPUT_POINTER \<equiv> 0x80284003"
abbreviation (input) TPM_RC_TBS_INVALID_CONTEXT :: TPM_RC where "TPM_RC_TBS_INVALID_CONTEXT \<equiv> 0x80284004"
abbreviation (input) TPM_RC_TBS_INSUFFICIENT_BUFFER :: TPM_RC where "TPM_RC_TBS_INSUFFICIENT_BUFFER \<equiv> 0x80284005"
abbreviation (input) TPM_RC_TBS_IO_ERROR :: TPM_RC where "TPM_RC_TBS_IO_ERROR \<equiv> 0x80284006"
abbreviation (input) TPM_RC_TBS_INVALID_CONTEXT_PARAM :: TPM_RC where "TPM_RC_TBS_INVALID_CONTEXT_PARAM \<equiv> 0x80284007"
abbreviation (input) TPM_RC_TBS_SERVICE_NOT_RUNNING :: TPM_RC where "TPM_RC_TBS_SERVICE_NOT_RUNNING \<equiv> 0x80284008"
abbreviation (input) TPM_RC_TBS_TOO_MANY_CONTEXTS :: TPM_RC where "TPM_RC_TBS_TOO_MANY_CONTEXTS \<equiv> 0x80284009"
abbreviation (input) TPM_RC_TBS_TOO_MANY_RESOURCES :: TPM_RC where "TPM_RC_TBS_TOO_MANY_RESOURCES \<equiv> 0x8028400A"
abbreviation (input) TPM_RC_TBS_SERVICE_START_PENDING :: TPM_RC where "TPM_RC_TBS_SERVICE_START_PENDING \<equiv> 0x8028400B"
abbreviation (input) TPM_RC_TBS_PPI_NOT_SUPPORTED :: TPM_RC where "TPM_RC_TBS_PPI_NOT_SUPPORTED \<equiv> 0x8028400C"
abbreviation (input) TPM_RC_TBS_COMMAND_CANCELED :: TPM_RC where "TPM_RC_TBS_COMMAND_CANCELED \<equiv> 0x8028400D"
abbreviation (input) TPM_RC_TBS_BUFFER_TOO_LARGE :: TPM_RC where "TPM_RC_TBS_BUFFER_TOO_LARGE \<equiv> 0x8028400E"
abbreviation (input) TPM_RC_TBS_TPM_NOT_FOUND :: TPM_RC where "TPM_RC_TBS_TPM_NOT_FOUND \<equiv> 0x8028400F"
abbreviation (input) TPM_RC_TBS_SERVICE_DISABLED :: TPM_RC where "TPM_RC_TBS_SERVICE_DISABLED \<equiv> 0x80284010"
abbreviation (input) TPM_RC_TBS_ACCESS_DENIED :: TPM_RC where "TPM_RC_TBS_ACCESS_DENIED \<equiv> 0x80284012"
abbreviation (input) TPM_RC_TBS_PPI_FUNCTION_NOT_SUPPORTED :: TPM_RC where "TPM_RC_TBS_PPI_FUNCTION_NOT_SUPPORTED \<equiv> 0x80284014"
abbreviation (input) TPM_RC_TBS_OWNER_AUTH_NOT_FOUND :: TPM_RC where "TPM_RC_TBS_OWNER_AUTH_NOT_FOUND \<equiv> 0x80284015"

subsection \<open>TPM_ST\<close>

abbreviation (input) TPM_ST_RSP_COMMAND :: TPM_ST where "TPM_ST_RSP_COMMAND \<equiv> 0xC4"
abbreviation (input) TPM_ST_NULL :: TPM_ST where "TPM_ST_NULL \<equiv> 0x8000"
abbreviation (input) TPM_ST_NO_SESSIONS :: TPM_ST where "TPM_ST_NO_SESSIONS \<equiv> 0x8001"
abbreviation (input) TPM_ST_SESSIONS :: TPM_ST where "TPM_ST_SESSIONS \<equiv> 0x8002"
abbreviation (input) TPM_ST_ATTEST_NV :: TPM_ST where "TPM_ST_ATTEST_NV \<equiv> 0x8014"
abbreviation (input) TPM_ST_ATTEST_COMMAND_AUDIT :: TPM_ST where "TPM_ST_ATTEST_COMMAND_AUDIT \<equiv> 0x8015"
abbreviation (input) TPM_ST_ATTEST_SESSION_AUDIT :: TPM_ST where "TPM_ST_ATTEST_SESSION_AUDIT \<equiv> 0x8016"
abbreviation (input) TPM_ST_ATTEST_CERTIFY :: TPM_ST where "TPM_ST_ATTEST_CERTIFY \<equiv> 0x8017"
abbreviation (input) TPM_ST_ATTEST_QUOTE :: TPM_ST where "TPM_ST_ATTEST_QUOTE \<equiv> 0x8018"
abbreviation (input) TPM_ST_ATTEST_TIME :: TPM_ST where "TPM_ST_ATTEST_TIME \<equiv> 0x8019"
abbreviation (input) TPM_ST_ATTEST_CREATION :: TPM_ST where "TPM_ST_ATTEST_CREATION \<equiv> 0x801A"
abbreviation (input) TPM_ST_ATTEST_NV_DIGEST :: TPM_ST where "TPM_ST_ATTEST_NV_DIGEST \<equiv> 0x801C"
abbreviation (input) TPM_ST_CREATION :: TPM_ST where "TPM_ST_CREATION \<equiv> 0x8021"
abbreviation (input) TPM_ST_VERIFIED :: TPM_ST where "TPM_ST_VERIFIED \<equiv> 0x8022"
abbreviation (input) TPM_ST_AUTH_SECRET :: TPM_ST where "TPM_ST_AUTH_SECRET \<equiv> 0x8023"
abbreviation (input) TPM_ST_HASHCHECK :: TPM_ST where "TPM_ST_HASHCHECK \<equiv> 0x8024"
abbreviation (input) TPM_ST_AUTH_SIGNED :: TPM_ST where "TPM_ST_AUTH_SIGNED \<equiv> 0x8025"
abbreviation (input) TPM_ST_FU_MANIFEST :: TPM_ST where "TPM_ST_FU_MANIFEST \<equiv> 0x8029"

subsection \<open>TPM_CAP\<close>

abbreviation (input) TPM_CAP_FIRST :: TPM_CAP where "TPM_CAP_FIRST \<equiv> 0x0"
abbreviation (input) TPM_CAP_ALGS :: TPM_CAP where "TPM_CAP_ALGS \<equiv> 0x0"
abbreviation (input) TPM_CAP_HANDLES :: TPM_CAP where "TPM_CAP_HANDLES \<equiv> 0x1"
abbreviation (input) TPM_CAP_COMMANDS :: TPM_CAP where "TPM_CAP_COMMANDS \<equiv> 0x2"
abbreviation (input) TPM_CAP_PP_COMMANDS :: TPM_CAP where "TPM_CAP_PP_COMMANDS \<equiv> 0x3"
abbreviation (input) TPM_CAP_AUDIT_COMMANDS :: TPM_CAP where "TPM_CAP_AUDIT_COMMANDS \<equiv> 0x4"
abbreviation (input) TPM_CAP_PCRS :: TPM_CAP where "TPM_CAP_PCRS \<equiv> 0x5"
abbreviation (input) TPM_CAP_TPM_PROPERTIES :: TPM_CAP where "TPM_CAP_TPM_PROPERTIES \<equiv> 0x6"
abbreviation (input) TPM_CAP_PCR_PROPERTIES :: TPM_CAP where "TPM_CAP_PCR_PROPERTIES \<equiv> 0x7"
abbreviation (input) TPM_CAP_ECC_CURVES :: TPM_CAP where "TPM_CAP_ECC_CURVES \<equiv> 0x8"
abbreviation (input) TPM_CAP_AUTH_POLICIES :: TPM_CAP where "TPM_CAP_AUTH_POLICIES \<equiv> 0x9"
abbreviation (input) TPM_CAP_ACT :: TPM_CAP where "TPM_CAP_ACT \<equiv> 0xA"
abbreviation (input) TPM_CAP_LAST :: TPM_CAP where "TPM_CAP_LAST \<equiv> 0xA"
abbreviation (input) TPM_CAP_VENDOR_PROPERTY :: TPM_CAP where "TPM_CAP_VENDOR_PROPERTY \<equiv> 0x100"

subsection \<open>TPM_HT\<close>

abbreviation (input) TPM_HT_PCR :: TPM_HT where "TPM_HT_PCR \<equiv> 0x0"
abbreviation (input) TPM_HT_NV_INDEX :: TPM_HT where "TPM_HT_NV_INDEX \<equiv> 0x1"
abbreviation (input) TPM_HT_HMAC_SESSION :: TPM_HT where "TPM_HT_HMAC_SESSION \<equiv> 0x2"
abbreviation (input) TPM_HT_LOADED_SESSION :: TPM_HT where "TPM_HT_LOADED_SESSION \<equiv> 0x2"
abbreviation (input) TPM_HT_POLICY_SESSION :: TPM_HT where "TPM_HT_POLICY_SESSION \<equiv> 0x3"
abbreviation (input) TPM_HT_SAVED_SESSION :: TPM_HT where "TPM_HT_SAVED_SESSION \<equiv> 0x3"
abbreviation (input) TPM_HT_PERMANENT :: TPM_HT where "TPM_HT_PERMANENT \<equiv> 0x40"
abbreviation (input) TPM_HT_TRANSIENT :: TPM_HT where "TPM_HT_TRANSIENT \<equiv> 0x80"
abbreviation (input) TPM_HT_PERSISTENT :: TPM_HT where "TPM_HT_PERSISTENT \<equiv> 0x81"
abbreviation (input) TPM_HT_AC :: TPM_HT where "TPM_HT_AC \<equiv> 0x90"

subsection \<open>TPM_RH\<close>

abbreviation (input) TPM_RH_FIRST :: TPM_RH where "TPM_RH_FIRST \<equiv> 0x40000000"
abbreviation (input) TPM_RH_SRK :: TPM_RH where "TPM_RH_SRK \<equiv> 0x40000000"
abbreviation (input) TPM_RH_OWNER :: TPM_RH where "TPM_RH_OWNER \<equiv> 0x40000001"
abbreviation (input) TPM_RH_REVOKE :: TPM_RH where "TPM_RH_REVOKE \<equiv> 0x40000002"
abbreviation (input) TPM_RH_TRANSPORT :: TPM_RH where "TPM_RH_TRANSPORT \<equiv> 0x40000003"
abbreviation (input) TPM_RH_OPERATOR :: TPM_RH where "TPM_RH_OPERATOR \<equiv> 0x40000004"
abbreviation (input) TPM_RH_ADMIN :: TPM_RH where "TPM_RH_ADMIN \<equiv> 0x40000005"
abbreviation (input) TPM_RH_EK :: TPM_RH where "TPM_RH_EK \<equiv> 0x40000006"
abbreviation (input) TPM_RH_NULL :: TPM_RH where "TPM_RH_NULL \<equiv> 0x40000007"
abbreviation (input) TPM_RH_UNASSIGNED :: TPM_RH where "TPM_RH_UNASSIGNED \<equiv> 0x40000008"
abbreviation (input) TPM_RH_PW :: TPM_RH where "TPM_RH_PW \<equiv> 0x40000009"
abbreviation (input) TPM_RH_LOCKOUT :: TPM_RH where "TPM_RH_LOCKOUT \<equiv> 0x4000000A"
abbreviation (input) TPM_RH_ENDORSEMENT :: TPM_RH where "TPM_RH_ENDORSEMENT \<equiv> 0x4000000B"
abbreviation (input) TPM_RH_PLATFORM :: TPM_RH where "TPM_RH_PLATFORM \<equiv> 0x4000000C"
abbreviation (input) TPM_RH_PLATFORM_NV :: TPM_RH where "TPM_RH_PLATFORM_NV \<equiv> 0x4000000D"
abbreviation (input) TPM_RH_AUTH_00 :: TPM_RH where "TPM_RH_AUTH_00 \<equiv> 0x40000010"
abbreviation (input) TPM_RH_AUTH_FF :: TPM_RH where "TPM_RH_AUTH_FF \<equiv> 0x4000010F"
abbreviation (input) TPM_RH_ACT_0 :: TPM_RH where "TPM_RH_ACT_0 \<equiv> 0x40000110"
abbreviation (input) TPM_RH_ACT_F :: TPM_RH where "TPM_RH_ACT_F \<equiv> 0x4000011F"
abbreviation (input) TPM_RH_LAST :: TPM_RH where "TPM_RH_LAST \<equiv> 0x4000011F"

subsection \<open>TPM_SE\<close>

abbreviation (input) TPM_SE_HMAC :: TPM_SE where "TPM_SE_HMAC \<equiv> 0x0"
abbreviation (input) TPM_SE_POLICY :: TPM_SE where "TPM_SE_POLICY \<equiv> 0x1"
abbreviation (input) TPM_SE_TRIAL :: TPM_SE where "TPM_SE_TRIAL \<equiv> 0x3"

subsection \<open>TPMA_SESSION\<close>

abbreviation (input) TPMA_SESSION_continueSession :: TPMA_SESSION where "TPMA_SESSION_continueSession \<equiv> 0x1"
abbreviation (input) TPMA_SESSION_auditExclusive :: TPMA_SESSION where "TPMA_SESSION_auditExclusive \<equiv> 0x2"
abbreviation (input) TPMA_SESSION_auditReset :: TPMA_SESSION where "TPMA_SESSION_auditReset \<equiv> 0x4"
abbreviation (input) TPMA_SESSION_decrypt :: TPMA_SESSION where "TPMA_SESSION_decrypt \<equiv> 0x20"
abbreviation (input) TPMA_SESSION_encrypt :: TPMA_SESSION where "TPMA_SESSION_encrypt \<equiv> 0x40"
abbreviation (input) TPMA_SESSION_audit :: TPMA_SESSION where "TPMA_SESSION_audit \<equiv> 0x80"

subsection \<open>TPM_GENERATED\<close>

abbreviation (input) TPM_GENERATED_VALUE :: TPM_GENERATED where "TPM_GENERATED_VALUE \<equiv> 0xFF544347"

subsection \<open>TPM_EO\<close>

abbreviation (input) TPM_EO_EQ :: TPM_EO where "TPM_EO_EQ \<equiv> 0x0"
abbreviation (input) TPM_EO_NEQ :: TPM_EO where "TPM_EO_NEQ \<equiv> 0x1"
abbreviation (input) TPM_EO_SIGNED_GT :: TPM_EO where "TPM_EO_SIGNED_GT \<equiv> 0x2"
abbreviation (input) TPM_EO_UNSIGNED_GT :: TPM_EO where "TPM_EO_UNSIGNED_GT \<equiv> 0x3"
abbreviation (input) TPM_EO_SIGNED_LT :: TPM_EO where "TPM_EO_SIGNED_LT \<equiv> 0x4"
abbreviation (input) TPM_EO_UNSIGNED_LT :: TPM_EO where "TPM_EO_UNSIGNED_LT \<equiv> 0x5"
abbreviation (input) TPM_EO_SIGNED_GE :: TPM_EO where "TPM_EO_SIGNED_GE \<equiv> 0x6"
abbreviation (input) TPM_EO_UNSIGNED_GE :: TPM_EO where "TPM_EO_UNSIGNED_GE \<equiv> 0x7"
abbreviation (input) TPM_EO_SIGNED_LE :: TPM_EO where "TPM_EO_SIGNED_LE \<equiv> 0x8"
abbreviation (input) TPM_EO_UNSIGNED_LE :: TPM_EO where "TPM_EO_UNSIGNED_LE \<equiv> 0x9"
abbreviation (input) TPM_EO_BITSET :: TPM_EO where "TPM_EO_BITSET \<equiv> 0xA"
abbreviation (input) TPM_EO_BITCLEAR :: TPM_EO where "TPM_EO_BITCLEAR \<equiv> 0xB"

subsection \<open>TPM_NT\<close>

abbreviation (input) TPM_NT_ORDINARY :: TPM_NT where "TPM_NT_ORDINARY \<equiv> 0x0"
abbreviation (input) TPM_NT_COUNTER :: TPM_NT where "TPM_NT_COUNTER \<equiv> 0x1"
abbreviation (input) TPM_NT_BITS :: TPM_NT where "TPM_NT_BITS \<equiv> 0x2"
abbreviation (input) TPM_NT_EXTEND :: TPM_NT where "TPM_NT_EXTEND \<equiv> 0x4"
abbreviation (input) TPM_NT_PIN_FAIL :: TPM_NT where "TPM_NT_PIN_FAIL \<equiv> 0x8"
abbreviation (input) TPM_NT_PIN_PASS :: TPM_NT where "TPM_NT_PIN_PASS \<equiv> 0x9"

subsection \<open>TPMA_OBJECT\<close>

abbreviation (input) TPMA_OBJECT_fixedTPM :: TPMA_OBJECT where "TPMA_OBJECT_fixedTPM \<equiv> 0x2"
abbreviation (input) TPMA_OBJECT_stClear :: TPMA_OBJECT where "TPMA_OBJECT_stClear \<equiv> 0x4"
abbreviation (input) TPMA_OBJECT_fixedParent :: TPMA_OBJECT where "TPMA_OBJECT_fixedParent \<equiv> 0x10"
abbreviation (input) TPMA_OBJECT_sensitiveDataOrigin :: TPMA_OBJECT where "TPMA_OBJECT_sensitiveDataOrigin \<equiv> 0x20"
abbreviation (input) TPMA_OBJECT_userWithAuth :: TPMA_OBJECT where "TPMA_OBJECT_userWithAuth \<equiv> 0x40"
abbreviation (input) TPMA_OBJECT_adminWithPolicy :: TPMA_OBJECT where "TPMA_OBJECT_adminWithPolicy \<equiv> 0x80"
abbreviation (input) TPMA_OBJECT_noDA :: TPMA_OBJECT where "TPMA_OBJECT_noDA \<equiv> 0x400"
abbreviation (input) TPMA_OBJECT_encryptedDuplication :: TPMA_OBJECT where "TPMA_OBJECT_encryptedDuplication \<equiv> 0x800"
abbreviation (input) TPMA_OBJECT_restricted :: TPMA_OBJECT where "TPMA_OBJECT_restricted \<equiv> 0x10000"
abbreviation (input) TPMA_OBJECT_decrypt :: TPMA_OBJECT where "TPMA_OBJECT_decrypt \<equiv> 0x20000"
abbreviation (input) TPMA_OBJECT_sign :: TPMA_OBJECT where "TPMA_OBJECT_sign \<equiv> 0x40000"
abbreviation (input) TPMA_OBJECT_encrypt :: TPMA_OBJECT where "TPMA_OBJECT_encrypt \<equiv> 0x40000"
abbreviation (input) TPMA_OBJECT_x509sign :: TPMA_OBJECT where "TPMA_OBJECT_x509sign \<equiv> 0x80000"

subsection \<open>TPM_SU\<close>

abbreviation (input) TPM_SU_CLEAR :: TPM_SU where "TPM_SU_CLEAR \<equiv> 0x0"
abbreviation (input) TPM_SU_STATE :: TPM_SU where "TPM_SU_STATE \<equiv> 0x1"

section \<open>The enumerators by name\<close>

definition TPM_ALG_ID_enum :: "(string \<times> TPM_ALG_ID) list" where
  "TPM_ALG_ID_enum = [
     (''_ERROR'', TPM_ALG_ID_ERROR), (''FIRST'', TPM_ALG_ID_FIRST), (''RSA'', TPM_ALG_ID_RSA),
     (''TDES'', TPM_ALG_ID_TDES), (''SHA'', TPM_ALG_ID_SHA), (''SHA1'', TPM_ALG_ID_SHA1),
     (''HMAC'', TPM_ALG_ID_HMAC), (''AES'', TPM_ALG_ID_AES), (''MGF1'', TPM_ALG_ID_MGF1),
     (''KEYEDHASH'', TPM_ALG_ID_KEYEDHASH), (''XOR'', TPM_ALG_ID_XOR),
     (''SHA256'', TPM_ALG_ID_SHA256), (''SHA384'', TPM_ALG_ID_SHA384),
     (''SHA512'', TPM_ALG_ID_SHA512), (''_NULL'', TPM_ALG_ID_NULL),
     (''SM3_256'', TPM_ALG_ID_SM3_256), (''SM4'', TPM_ALG_ID_SM4),
     (''RSASSA'', TPM_ALG_ID_RSASSA), (''RSAES'', TPM_ALG_ID_RSAES),
     (''RSAPSS'', TPM_ALG_ID_RSAPSS), (''OAEP'', TPM_ALG_ID_OAEP), (''ECDSA'', TPM_ALG_ID_ECDSA),
     (''ECDH'', TPM_ALG_ID_ECDH), (''ECDAA'', TPM_ALG_ID_ECDAA), (''SM2'', TPM_ALG_ID_SM2),
     (''ECSCHNORR'', TPM_ALG_ID_ECSCHNORR), (''ECMQV'', TPM_ALG_ID_ECMQV),
     (''KDF1_SP800_56A'', TPM_ALG_ID_KDF1_SP800_56A), (''KDF2'', TPM_ALG_ID_KDF2),
     (''KDF1_SP800_108'', TPM_ALG_ID_KDF1_SP800_108), (''ECC'', TPM_ALG_ID_ECC),
     (''SYMCIPHER'', TPM_ALG_ID_SYMCIPHER), (''CAMELLIA'', TPM_ALG_ID_CAMELLIA),
     (''SHA3_256'', TPM_ALG_ID_SHA3_256), (''SHA3_384'', TPM_ALG_ID_SHA3_384),
     (''SHA3_512'', TPM_ALG_ID_SHA3_512), (''CMAC'', TPM_ALG_ID_CMAC), (''CTR'', TPM_ALG_ID_CTR),
     (''OFB'', TPM_ALG_ID_OFB), (''CBC'', TPM_ALG_ID_CBC), (''CFB'', TPM_ALG_ID_CFB),
     (''ECB'', TPM_ALG_ID_ECB), (''LAST'', TPM_ALG_ID_LAST), (''ANY'', TPM_ALG_ID_ANY),
     (''ANY2'', TPM_ALG_ID_ANY2)]"

definition TPM_ECC_CURVE_enum :: "(string \<times> TPM_ECC_CURVE) list" where
  "TPM_ECC_CURVE_enum = [
     (''NONE'', 0x0), (''NIST_P192'', 0x1), (''NIST_P224'', 0x2), (''NIST_P256'', 0x3),
     (''NIST_P384'', 0x4), (''NIST_P521'', 0x5), (''BN_P256'', 0x10), (''BN_P638'', 0x11),
     (''SM2_P256'', 0x20), (''TEST_P192'', 0x21)]"

definition SHA1_enum :: "(string \<times> SHA1) list" where
  "SHA1_enum = [
     (''DIGEST_SIZE'', 0x14), (''BLOCK_SIZE'', 0x40)]"

definition SHA256_enum :: "(string \<times> SHA256) list" where
  "SHA256_enum = [
     (''DIGEST_SIZE'', 0x20), (''BLOCK_SIZE'', 0x40)]"

definition SHA384_enum :: "(string \<times> SHA384) list" where
  "SHA384_enum = [
     (''DIGEST_SIZE'', 0x30), (''BLOCK_SIZE'', 0x80)]"

definition SHA512_enum :: "(string \<times> SHA512) list" where
  "SHA512_enum = [
     (''DIGEST_SIZE'', 0x40), (''BLOCK_SIZE'', 0x80)]"

definition SM3_256_enum :: "(string \<times> SM3_256) list" where
  "SM3_256_enum = [
     (''DIGEST_SIZE'', 0x20), (''BLOCK_SIZE'', 0x40)]"

definition SHA3_256_enum :: "(string \<times> SHA3_256) list" where
  "SHA3_256_enum = [
     (''DIGEST_SIZE'', 0x20), (''BLOCK_SIZE'', 0x88)]"

definition SHA3_384_enum :: "(string \<times> SHA3_384) list" where
  "SHA3_384_enum = [
     (''DIGEST_SIZE'', 0x30), (''BLOCK_SIZE'', 0x68)]"

definition SHA3_512_enum :: "(string \<times> SHA3_512) list" where
  "SHA3_512_enum = [
     (''DIGEST_SIZE'', 0x40), (''BLOCK_SIZE'', 0x48)]"

definition Logic_enum :: "(string \<times> Logic) list" where
  "Logic_enum = [
     (''_TRUE'', 0x1), (''_FALSE'', 0x0), (''YES'', 0x1), (''NO'', 0x0), (''SET'', 0x1),
     (''CLEAR'', 0x0)]"

definition TPM_SPEC_enum :: "(string \<times> TPM_SPEC) list" where
  "TPM_SPEC_enum = [
     (''FAMILY'', 0x322E3000), (''LEVEL'', 0x0), (''VERSION'', 0xA2), (''YEAR'', 0x7E3),
     (''DAY_OF_YEAR'', 0x168)]"

definition TPM_GENERATED_enum :: "(string \<times> TPM_GENERATED) list" where
  "TPM_GENERATED_enum = [
     (''VALUE'', TPM_GENERATED_VALUE)]"

definition TPM_CC_enum :: "(string \<times> TPM_CC) list" where
  "TPM_CC_enum = [
     (''FIRST'', TPM_CC_FIRST), (''NV_UndefineSpaceSpecial'', TPM_CC_NV_UndefineSpaceSpecial),
     (''EvictControl'', TPM_CC_EvictControl), (''HierarchyControl'', TPM_CC_HierarchyControl),
     (''NV_UndefineSpace'', TPM_CC_NV_UndefineSpace), (''ChangeEPS'', TPM_CC_ChangeEPS),
     (''ChangePPS'', TPM_CC_ChangePPS), (''Clear'', TPM_CC_Clear),
     (''ClearControl'', TPM_CC_ClearControl), (''ClockSet'', TPM_CC_ClockSet),
     (''HierarchyChangeAuth'', TPM_CC_HierarchyChangeAuth),
     (''NV_DefineSpace'', TPM_CC_NV_DefineSpace), (''PCR_Allocate'', TPM_CC_PCR_Allocate),
     (''PCR_SetAuthPolicy'', TPM_CC_PCR_SetAuthPolicy), (''PP_Commands'', TPM_CC_PP_Commands),
     (''SetPrimaryPolicy'', TPM_CC_SetPrimaryPolicy),
     (''FieldUpgradeStart'', TPM_CC_FieldUpgradeStart),
     (''ClockRateAdjust'', TPM_CC_ClockRateAdjust), (''CreatePrimary'', TPM_CC_CreatePrimary),
     (''NV_GlobalWriteLock'', TPM_CC_NV_GlobalWriteLock),
     (''GetCommandAuditDigest'', TPM_CC_GetCommandAuditDigest),
     (''NV_Increment'', TPM_CC_NV_Increment), (''NV_SetBits'', TPM_CC_NV_SetBits),
     (''NV_Extend'', TPM_CC_NV_Extend), (''NV_Write'', TPM_CC_NV_Write),
     (''NV_WriteLock'', TPM_CC_NV_WriteLock),
     (''DictionaryAttackLockReset'', TPM_CC_DictionaryAttackLockReset),
     (''DictionaryAttackParameters'', TPM_CC_DictionaryAttackParameters),
     (''NV_ChangeAuth'', TPM_CC_NV_ChangeAuth), (''PCR_Event'', TPM_CC_PCR_Event),
     (''PCR_Reset'', TPM_CC_PCR_Reset), (''SequenceComplete'', TPM_CC_SequenceComplete),
     (''SetAlgorithmSet'', TPM_CC_SetAlgorithmSet),
     (''SetCommandCodeAuditStatus'', TPM_CC_SetCommandCodeAuditStatus),
     (''FieldUpgradeData'', TPM_CC_FieldUpgradeData),
     (''IncrementalSelfTest'', TPM_CC_IncrementalSelfTest), (''SelfTest'', TPM_CC_SelfTest),
     (''Startup'', TPM_CC_Startup), (''Shutdown'', TPM_CC_Shutdown),
     (''StirRandom'', TPM_CC_StirRandom), (''ActivateCredential'', TPM_CC_ActivateCredential),
     (''Certify'', TPM_CC_Certify), (''PolicyNV'', TPM_CC_PolicyNV),
     (''CertifyCreation'', TPM_CC_CertifyCreation), (''Duplicate'', TPM_CC_Duplicate),
     (''GetTime'', TPM_CC_GetTime), (''GetSessionAuditDigest'', TPM_CC_GetSessionAuditDigest),
     (''NV_Read'', TPM_CC_NV_Read), (''NV_ReadLock'', TPM_CC_NV_ReadLock),
     (''ObjectChangeAuth'', TPM_CC_ObjectChangeAuth), (''PolicySecret'', TPM_CC_PolicySecret),
     (''Rewrap'', TPM_CC_Rewrap), (''Create'', TPM_CC_Create), (''ECDH_ZGen'', TPM_CC_ECDH_ZGen),
     (''HMAC'', TPM_CC_HMAC), (''MAC'', TPM_CC_MAC), (''Import'', TPM_CC_Import),
     (''Load'', TPM_CC_Load), (''Quote'', TPM_CC_Quote), (''RSA_Decrypt'', TPM_CC_RSA_Decrypt),
     (''HMAC_Start'', TPM_CC_HMAC_Start), (''MAC_Start'', TPM_CC_MAC_Start),
     (''SequenceUpdate'', TPM_CC_SequenceUpdate), (''Sign'', TPM_CC_Sign),
     (''Unseal'', TPM_CC_Unseal), (''PolicySigned'', TPM_CC_PolicySigned),
     (''ContextLoad'', TPM_CC_ContextLoad), (''ContextSave'', TPM_CC_ContextSave),
     (''ECDH_KeyGen'', TPM_CC_ECDH_KeyGen), (''EncryptDecrypt'', TPM_CC_EncryptDecrypt),
     (''FlushContext'', TPM_CC_FlushContext), (''LoadExternal'', TPM_CC_LoadExternal),
     (''MakeCredential'', TPM_CC_MakeCredential), (''NV_ReadPublic'', TPM_CC_NV_ReadPublic),
     (''PolicyAuthorize'', TPM_CC_PolicyAuthorize), (''PolicyAuthValue'', TPM_CC_PolicyAuthValue),
     (''PolicyCommandCode'', TPM_CC_PolicyCommandCode),
     (''PolicyCounterTimer'', TPM_CC_PolicyCounterTimer), (''PolicyCpHash'', TPM_CC_PolicyCpHash),
     (''PolicyLocality'', TPM_CC_PolicyLocality), (''PolicyNameHash'', TPM_CC_PolicyNameHash),
     (''PolicyOR'', TPM_CC_PolicyOR), (''PolicyTicket'', TPM_CC_PolicyTicket),
     (''ReadPublic'', TPM_CC_ReadPublic), (''RSA_Encrypt'', TPM_CC_RSA_Encrypt),
     (''StartAuthSession'', TPM_CC_StartAuthSession),
     (''VerifySignature'', TPM_CC_VerifySignature), (''ECC_Parameters'', TPM_CC_ECC_Parameters),
     (''FirmwareRead'', TPM_CC_FirmwareRead), (''GetCapability'', TPM_CC_GetCapability),
     (''GetRandom'', TPM_CC_GetRandom), (''GetTestResult'', TPM_CC_GetTestResult),
     (''Hash'', TPM_CC_Hash), (''PCR_Read'', TPM_CC_PCR_Read), (''PolicyPCR'', TPM_CC_PolicyPCR),
     (''PolicyRestart'', TPM_CC_PolicyRestart), (''ReadClock'', TPM_CC_ReadClock),
     (''PCR_Extend'', TPM_CC_PCR_Extend), (''PCR_SetAuthValue'', TPM_CC_PCR_SetAuthValue),
     (''NV_Certify'', TPM_CC_NV_Certify),
     (''EventSequenceComplete'', TPM_CC_EventSequenceComplete),
     (''HashSequenceStart'', TPM_CC_HashSequenceStart),
     (''PolicyPhysicalPresence'', TPM_CC_PolicyPhysicalPresence),
     (''PolicyDuplicationSelect'', TPM_CC_PolicyDuplicationSelect),
     (''PolicyGetDigest'', TPM_CC_PolicyGetDigest), (''TestParms'', TPM_CC_TestParms),
     (''Commit'', TPM_CC_Commit), (''PolicyPassword'', TPM_CC_PolicyPassword),
     (''ZGen_2Phase'', TPM_CC_ZGen_2Phase), (''EC_Ephemeral'', TPM_CC_EC_Ephemeral),
     (''PolicyNvWritten'', TPM_CC_PolicyNvWritten), (''PolicyTemplate'', TPM_CC_PolicyTemplate),
     (''CreateLoaded'', TPM_CC_CreateLoaded), (''PolicyAuthorizeNV'', TPM_CC_PolicyAuthorizeNV),
     (''EncryptDecrypt2'', TPM_CC_EncryptDecrypt2),
     (''AC_GetCapability'', TPM_CC_AC_GetCapability), (''AC_Send'', TPM_CC_AC_Send),
     (''Policy_AC_SendSelect'', TPM_CC_Policy_AC_SendSelect),
     (''CertifyX509'', TPM_CC_CertifyX509), (''ACT_SetTimeout'', TPM_CC_ACT_SetTimeout),
     (''ECC_Encrypt'', TPM_CC_ECC_Encrypt), (''ECC_Decrypt'', TPM_CC_ECC_Decrypt),
     (''LAST'', TPM_CC_LAST), (''CC_VEND'', TPM_CC_CC_VEND),
     (''Vendor_TCG_Test'', TPM_CC_Vendor_TCG_Test)]"

definition ImplementationConstants_enum :: "(string \<times> ImplementationConstants) list" where
  "ImplementationConstants_enum = [
     (''Ossl'', 0x1), (''Ltc'', 0x2), (''Msbn'', 0x3), (''Symcrypt'', 0x4), (''HASH_COUNT'', 0x3),
     (''MAX_SYM_KEY_BITS'', 0x100), (''MAX_SYM_KEY_BYTES'', 0x20), (''MAX_SYM_BLOCK_SIZE'', 0x10),
     (''MAX_CAP_CC'', 0x19A), (''MAX_RSA_KEY_BYTES'', 0x100), (''MAX_AES_KEY_BYTES'', 0x20),
     (''MAX_ECC_KEY_BYTES'', 0x30), (''LABEL_MAX_BUFFER'', 0x20), (''_TPM_CAP_SIZE'', 0x4),
     (''MAX_CAP_DATA'', 0x3F8), (''MAX_CAP_ALGS'', 0xA9), (''MAX_CAP_HANDLES'', 0xFE),
     (''MAX_TPM_PROPERTIES'', 0x7F), (''MAX_PCR_PROPERTIES'', 0xCB), (''MAX_ECC_CURVES'', 0x1FC),
     (''MAX_TAGGED_POLICIES'', 0xE), (''MAX_AC_CAPABILITIES'', 0x7F), (''MAX_ACT_DATA'', 0x54)]"

definition TPM_RC_enum :: "(string \<times> TPM_RC) list" where
  "TPM_RC_enum = [
     (''SUCCESS'', TPM_RC_SUCCESS), (''BAD_TAG'', TPM_RC_BAD_TAG), (''RC_VER1'', TPM_RC_RC_VER1),
     (''INITIALIZE'', TPM_RC_INITIALIZE), (''FAILURE'', TPM_RC_FAILURE),
     (''SEQUENCE'', TPM_RC_SEQUENCE), (''PRIVATE'', TPM_RC_PRIVATE), (''HMAC'', TPM_RC_HMAC),
     (''DISABLED'', TPM_RC_DISABLED), (''EXCLUSIVE'', TPM_RC_EXCLUSIVE),
     (''AUTH_TYPE'', TPM_RC_AUTH_TYPE), (''AUTH_MISSING'', TPM_RC_AUTH_MISSING),
     (''POLICY'', TPM_RC_POLICY), (''PCR'', TPM_RC_PCR), (''PCR_CHANGED'', TPM_RC_PCR_CHANGED),
     (''UPGRADE'', TPM_RC_UPGRADE), (''TOO_MANY_CONTEXTS'', TPM_RC_TOO_MANY_CONTEXTS),
     (''AUTH_UNAVAILABLE'', TPM_RC_AUTH_UNAVAILABLE), (''REBOOT'', TPM_RC_REBOOT),
     (''UNBALANCED'', TPM_RC_UNBALANCED), (''COMMAND_SIZE'', TPM_RC_COMMAND_SIZE),
     (''COMMAND_CODE'', TPM_RC_COMMAND_CODE), (''AUTHSIZE'', TPM_RC_AUTHSIZE),
     (''AUTH_CONTEXT'', TPM_RC_AUTH_CONTEXT), (''NV_RANGE'', TPM_RC_NV_RANGE),
     (''NV_SIZE'', TPM_RC_NV_SIZE), (''NV_LOCKED'', TPM_RC_NV_LOCKED),
     (''NV_AUTHORIZATION'', TPM_RC_NV_AUTHORIZATION),
     (''NV_UNINITIALIZED'', TPM_RC_NV_UNINITIALIZED), (''NV_SPACE'', TPM_RC_NV_SPACE),
     (''NV_DEFINED'', TPM_RC_NV_DEFINED), (''BAD_CONTEXT'', TPM_RC_BAD_CONTEXT),
     (''CPHASH'', TPM_RC_CPHASH), (''PARENT'', TPM_RC_PARENT),
     (''NEEDS_TEST'', TPM_RC_NEEDS_TEST), (''NO_RESULT'', TPM_RC_NO_RESULT),
     (''SENSITIVE'', TPM_RC_SENSITIVE), (''RC_MAX_FM0'', TPM_RC_RC_MAX_FM0),
     (''RC_FMT1'', TPM_RC_RC_FMT1), (''ASYMMETRIC'', TPM_RC_ASYMMETRIC),
     (''ATTRIBUTES'', TPM_RC_ATTRIBUTES), (''HASH'', TPM_RC_HASH), (''VALUE'', TPM_RC_VALUE),
     (''HIERARCHY'', TPM_RC_HIERARCHY), (''KEY_SIZE'', TPM_RC_KEY_SIZE), (''MGF'', TPM_RC_MGF),
     (''MODE'', TPM_RC_MODE), (''TYPE'', TPM_RC_TYPE), (''HANDLE'', TPM_RC_HANDLE),
     (''KDF'', TPM_RC_KDF), (''RANGE'', TPM_RC_RANGE), (''AUTH_FAIL'', TPM_RC_AUTH_FAIL),
     (''NONCE'', TPM_RC_NONCE), (''PP'', TPM_RC_PP), (''SCHEME'', TPM_RC_SCHEME),
     (''SIZE'', TPM_RC_SIZE), (''SYMMETRIC'', TPM_RC_SYMMETRIC), (''TAG'', TPM_RC_TAG),
     (''SELECTOR'', TPM_RC_SELECTOR), (''INSUFFICIENT'', TPM_RC_INSUFFICIENT),
     (''SIGNATURE'', TPM_RC_SIGNATURE), (''KEY'', TPM_RC_KEY),
     (''POLICY_FAIL'', TPM_RC_POLICY_FAIL), (''INTEGRITY'', TPM_RC_INTEGRITY),
     (''TICKET'', TPM_RC_TICKET), (''RESERVED_BITS'', TPM_RC_RESERVED_BITS),
     (''BAD_AUTH'', TPM_RC_BAD_AUTH), (''EXPIRED'', TPM_RC_EXPIRED),
     (''POLICY_CC'', TPM_RC_POLICY_CC), (''BINDING'', TPM_RC_BINDING), (''CURVE'', TPM_RC_CURVE),
     (''ECC_POINT'', TPM_RC_ECC_POINT), (''RC_WARN'', TPM_RC_RC_WARN),
     (''CONTEXT_GAP'', TPM_RC_CONTEXT_GAP), (''OBJECT_MEMORY'', TPM_RC_OBJECT_MEMORY),
     (''SESSION_MEMORY'', TPM_RC_SESSION_MEMORY), (''MEMORY'', TPM_RC_MEMORY),
     (''SESSION_HANDLES'', TPM_RC_SESSION_HANDLES), (''OBJECT_HANDLES'', TPM_RC_OBJECT_HANDLES),
     (''LOCALITY'', TPM_RC_LOCALITY), (''YIELDED'', TPM_RC_YIELDED),
     (''CANCELED'', TPM_RC_CANCELED), (''TESTING'', TPM_RC_TESTING),
     (''REFERENCE_H0'', TPM_RC_REFERENCE_H0), (''REFERENCE_H1'', TPM_RC_REFERENCE_H1),
     (''REFERENCE_H2'', TPM_RC_REFERENCE_H2), (''REFERENCE_H3'', TPM_RC_REFERENCE_H3),
     (''REFERENCE_H4'', TPM_RC_REFERENCE_H4), (''REFERENCE_H5'', TPM_RC_REFERENCE_H5),
     (''REFERENCE_H6'', TPM_RC_REFERENCE_H6), (''REFERENCE_S0'', TPM_RC_REFERENCE_S0),
     (''REFERENCE_S1'', TPM_RC_REFERENCE_S1), (''REFERENCE_S2'', TPM_RC_REFERENCE_S2),
     (''REFERENCE_S3'', TPM_RC_REFERENCE_S3), (''REFERENCE_S4'', TPM_RC_REFERENCE_S4),
     (''REFERENCE_S5'', TPM_RC_REFERENCE_S5), (''REFERENCE_S6'', TPM_RC_REFERENCE_S6),
     (''NV_RATE'', TPM_RC_NV_RATE), (''LOCKOUT'', TPM_RC_LOCKOUT), (''RETRY'', TPM_RC_RETRY),
     (''NV_UNAVAILABLE'', TPM_RC_NV_UNAVAILABLE), (''NOT_USED'', TPM_RC_NOT_USED),
     (''H'', TPM_RC_H), (''P'', TPM_RC_P), (''S'', TPM_RC_S), (''_1'', TPM_RC_1),
     (''_2'', TPM_RC_2), (''_3'', TPM_RC_3), (''_4'', TPM_RC_4), (''_5'', TPM_RC_5),
     (''_6'', TPM_RC_6), (''_7'', TPM_RC_7), (''_8'', TPM_RC_8), (''_9'', TPM_RC_9),
     (''A'', TPM_RC_A), (''B'', TPM_RC_B), (''C'', TPM_RC_C), (''D'', TPM_RC_D),
     (''E'', TPM_RC_E), (''F'', TPM_RC_F), (''N_MASK'', TPM_RC_N_MASK),
     (''TSS_TCP_BAD_HANDSHAKE_RESP'', TPM_RC_TSS_TCP_BAD_HANDSHAKE_RESP),
     (''TSS_TCP_SERVER_TOO_OLD'', TPM_RC_TSS_TCP_SERVER_TOO_OLD),
     (''TSS_TCP_BAD_ACK'', TPM_RC_TSS_TCP_BAD_ACK),
     (''TSS_TCP_BAD_RESP_LEN'', TPM_RC_TSS_TCP_BAD_RESP_LEN),
     (''TSS_TCP_UNEXPECTED_STARTUP_RESP'', TPM_RC_TSS_TCP_UNEXPECTED_STARTUP_RESP),
     (''TSS_TCP_INVALID_SIZE_TAG'', TPM_RC_TSS_TCP_INVALID_SIZE_TAG),
     (''TSS_TCP_DISCONNECTED'', TPM_RC_TSS_TCP_DISCONNECTED),
     (''TSS_DISPATCH_FAILED'', TPM_RC_TSS_DISPATCH_FAILED),
     (''TSS_SEND_OP_FAILED'', TPM_RC_TSS_SEND_OP_FAILED),
     (''TSS_RESP_BUF_TOO_SHORT'', TPM_RC_TSS_RESP_BUF_TOO_SHORT),
     (''TSS_RESP_BUF_INVALID_SESSION_TAG'', TPM_RC_TSS_RESP_BUF_INVALID_SESSION_TAG),
     (''TSS_RESP_BUF_INVALID_SIZE'', TPM_RC_TSS_RESP_BUF_INVALID_SIZE),
     (''TBS_COMMAND_BLOCKED'', TPM_RC_TBS_COMMAND_BLOCKED),
     (''TBS_INVALID_HANDLE'', TPM_RC_TBS_INVALID_HANDLE),
     (''TBS_DUPLICATE_V_HANDLE'', TPM_RC_TBS_DUPLICATE_V_HANDLE),
     (''TBS_EMBEDDED_COMMAND_BLOCKED'', TPM_RC_TBS_EMBEDDED_COMMAND_BLOCKED),
     (''TBS_EMBEDDED_COMMAND_UNSUPPORTED'', TPM_RC_TBS_EMBEDDED_COMMAND_UNSUPPORTED),
     (''TBS_UNKNOWN_ERROR'', TPM_RC_TBS_UNKNOWN_ERROR),
     (''TBS_INTERNAL_ERROR'', TPM_RC_TBS_INTERNAL_ERROR),
     (''TBS_BAD_PARAMETER'', TPM_RC_TBS_BAD_PARAMETER),
     (''TBS_INVALID_OUTPUT_POINTER'', TPM_RC_TBS_INVALID_OUTPUT_POINTER),
     (''TBS_INVALID_CONTEXT'', TPM_RC_TBS_INVALID_CONTEXT),
     (''TBS_INSUFFICIENT_BUFFER'', TPM_RC_TBS_INSUFFICIENT_BUFFER),
     (''TBS_IO_ERROR'', TPM_RC_TBS_IO_ERROR),
     (''TBS_INVALID_CONTEXT_PARAM'', TPM_RC_TBS_INVALID_CONTEXT_PARAM),
     (''TBS_SERVICE_NOT_RUNNING'', TPM_RC_TBS_SERVICE_NOT_RUNNING),
     (''TBS_TOO_MANY_CONTEXTS'', TPM_RC_TBS_TOO_MANY_CONTEXTS),
     (''TBS_TOO_MANY_RESOURCES'', TPM_RC_TBS_TOO_MANY_RESOURCES),
     (''TBS_SERVICE_START_PENDING'', TPM_RC_TBS_SERVICE_START_PENDING),
     (''TBS_PPI_NOT_SUPPORTED'', TPM_RC_TBS_PPI_NOT_SUPPORTED),
     (''TBS_COMMAND_CANCELED'', TPM_RC_TBS_COMMAND_CANCELED),
     (''TBS_BUFFER_TOO_LARGE'', TPM_RC_TBS_BUFFER_TOO_LARGE),
     (''TBS_TPM_NOT_FOUND'', TPM_RC_TBS_TPM_NOT_FOUND),
     (''TBS_SERVICE_DISABLED'', TPM_RC_TBS_SERVICE_DISABLED),
     (''TBS_ACCESS_DENIED'', TPM_RC_TBS_ACCESS_DENIED),
     (''TBS_PPI_FUNCTION_NOT_SUPPORTED'', TPM_RC_TBS_PPI_FUNCTION_NOT_SUPPORTED),
     (''TBS_OWNER_AUTH_NOT_FOUND'', TPM_RC_TBS_OWNER_AUTH_NOT_FOUND)]"

definition TPM_CLOCK_ADJUST_enum :: "(string \<times> TPM_CLOCK_ADJUST) list" where
  "TPM_CLOCK_ADJUST_enum = [
     (''COARSE_SLOWER'', 0xFD), (''MEDIUM_SLOWER'', 0xFE), (''FINE_SLOWER'', 0xFF),
     (''NO_CHANGE'', 0x0), (''FINE_FASTER'', 0x1), (''MEDIUM_FASTER'', 0x2),
     (''COARSE_FASTER'', 0x3)]"

definition TPM_EO_enum :: "(string \<times> TPM_EO) list" where
  "TPM_EO_enum = [
     (''EQ'', TPM_EO_EQ), (''NEQ'', TPM_EO_NEQ), (''SIGNED_GT'', TPM_EO_SIGNED_GT),
     (''UNSIGNED_GT'', TPM_EO_UNSIGNED_GT), (''SIGNED_LT'', TPM_EO_SIGNED_LT),
     (''UNSIGNED_LT'', TPM_EO_UNSIGNED_LT), (''SIGNED_GE'', TPM_EO_SIGNED_GE),
     (''UNSIGNED_GE'', TPM_EO_UNSIGNED_GE), (''SIGNED_LE'', TPM_EO_SIGNED_LE),
     (''UNSIGNED_LE'', TPM_EO_UNSIGNED_LE), (''BITSET'', TPM_EO_BITSET),
     (''BITCLEAR'', TPM_EO_BITCLEAR)]"

definition TPM_ST_enum :: "(string \<times> TPM_ST) list" where
  "TPM_ST_enum = [
     (''RSP_COMMAND'', TPM_ST_RSP_COMMAND), (''_NULL'', TPM_ST_NULL),
     (''NO_SESSIONS'', TPM_ST_NO_SESSIONS), (''SESSIONS'', TPM_ST_SESSIONS),
     (''ATTEST_NV'', TPM_ST_ATTEST_NV), (''ATTEST_COMMAND_AUDIT'', TPM_ST_ATTEST_COMMAND_AUDIT),
     (''ATTEST_SESSION_AUDIT'', TPM_ST_ATTEST_SESSION_AUDIT),
     (''ATTEST_CERTIFY'', TPM_ST_ATTEST_CERTIFY), (''ATTEST_QUOTE'', TPM_ST_ATTEST_QUOTE),
     (''ATTEST_TIME'', TPM_ST_ATTEST_TIME), (''ATTEST_CREATION'', TPM_ST_ATTEST_CREATION),
     (''ATTEST_NV_DIGEST'', TPM_ST_ATTEST_NV_DIGEST), (''CREATION'', TPM_ST_CREATION),
     (''VERIFIED'', TPM_ST_VERIFIED), (''AUTH_SECRET'', TPM_ST_AUTH_SECRET),
     (''HASHCHECK'', TPM_ST_HASHCHECK), (''AUTH_SIGNED'', TPM_ST_AUTH_SIGNED),
     (''FU_MANIFEST'', TPM_ST_FU_MANIFEST)]"

definition TPM_SU_enum :: "(string \<times> TPM_SU) list" where
  "TPM_SU_enum = [
     (''CLEAR'', TPM_SU_CLEAR), (''STATE'', TPM_SU_STATE)]"

definition TPM_SE_enum :: "(string \<times> TPM_SE) list" where
  "TPM_SE_enum = [
     (''HMAC'', TPM_SE_HMAC), (''POLICY'', TPM_SE_POLICY), (''TRIAL'', TPM_SE_TRIAL)]"

definition TPM_CAP_enum :: "(string \<times> TPM_CAP) list" where
  "TPM_CAP_enum = [
     (''FIRST'', TPM_CAP_FIRST), (''ALGS'', TPM_CAP_ALGS), (''HANDLES'', TPM_CAP_HANDLES),
     (''COMMANDS'', TPM_CAP_COMMANDS), (''PP_COMMANDS'', TPM_CAP_PP_COMMANDS),
     (''AUDIT_COMMANDS'', TPM_CAP_AUDIT_COMMANDS), (''PCRS'', TPM_CAP_PCRS),
     (''TPM_PROPERTIES'', TPM_CAP_TPM_PROPERTIES), (''PCR_PROPERTIES'', TPM_CAP_PCR_PROPERTIES),
     (''ECC_CURVES'', TPM_CAP_ECC_CURVES), (''AUTH_POLICIES'', TPM_CAP_AUTH_POLICIES),
     (''ACT'', TPM_CAP_ACT), (''LAST'', TPM_CAP_LAST),
     (''VENDOR_PROPERTY'', TPM_CAP_VENDOR_PROPERTY)]"

definition TPM_PT_enum :: "(string \<times> TPM_PT) list" where
  "TPM_PT_enum = [
     (''NONE'', 0x0), (''PT_GROUP'', 0x100), (''PT_FIXED'', 0x100), (''FAMILY_INDICATOR'', 0x100),
     (''LEVEL'', 0x101), (''REVISION'', 0x102), (''DAY_OF_YEAR'', 0x103), (''YEAR'', 0x104),
     (''MANUFACTURER'', 0x105), (''VENDOR_STRING_1'', 0x106), (''VENDOR_STRING_2'', 0x107),
     (''VENDOR_STRING_3'', 0x108), (''VENDOR_STRING_4'', 0x109), (''VENDOR_TPM_TYPE'', 0x10A),
     (''FIRMWARE_VERSION_1'', 0x10B), (''FIRMWARE_VERSION_2'', 0x10C), (''INPUT_BUFFER'', 0x10D),
     (''HR_TRANSIENT_MIN'', 0x10E), (''HR_PERSISTENT_MIN'', 0x10F), (''HR_LOADED_MIN'', 0x110),
     (''ACTIVE_SESSIONS_MAX'', 0x111), (''PCR_COUNT'', 0x112), (''PCR_SELECT_MIN'', 0x113),
     (''CONTEXT_GAP_MAX'', 0x114), (''NV_COUNTERS_MAX'', 0x116), (''NV_INDEX_MAX'', 0x117),
     (''MEMORY'', 0x118), (''CLOCK_UPDATE'', 0x119), (''CONTEXT_HASH'', 0x11A),
     (''CONTEXT_SYM'', 0x11B), (''CONTEXT_SYM_SIZE'', 0x11C), (''ORDERLY_COUNT'', 0x11D),
     (''MAX_COMMAND_SIZE'', 0x11E), (''MAX_RESPONSE_SIZE'', 0x11F), (''MAX_DIGEST'', 0x120),
     (''MAX_OBJECT_CONTEXT'', 0x121), (''MAX_SESSION_CONTEXT'', 0x122),
     (''PS_FAMILY_INDICATOR'', 0x123), (''PS_LEVEL'', 0x124), (''PS_REVISION'', 0x125),
     (''PS_DAY_OF_YEAR'', 0x126), (''PS_YEAR'', 0x127), (''SPLIT_MAX'', 0x128),
     (''TOTAL_COMMANDS'', 0x129), (''LIBRARY_COMMANDS'', 0x12A), (''VENDOR_COMMANDS'', 0x12B),
     (''NV_BUFFER_MAX'', 0x12C), (''MODES'', 0x12D), (''MAX_CAP_BUFFER'', 0x12E),
     (''PT_VAR'', 0x200), (''PERMANENT'', 0x200), (''STARTUP_CLEAR'', 0x201),
     (''HR_NV_INDEX'', 0x202), (''HR_LOADED'', 0x203), (''HR_LOADED_AVAIL'', 0x204),
     (''HR_ACTIVE'', 0x205), (''HR_ACTIVE_AVAIL'', 0x206), (''HR_TRANSIENT_AVAIL'', 0x207),
     (''HR_PERSISTENT'', 0x208), (''HR_PERSISTENT_AVAIL'', 0x209), (''NV_COUNTERS'', 0x20A),
     (''NV_COUNTERS_AVAIL'', 0x20B), (''ALGORITHM_SET'', 0x20C), (''LOADED_CURVES'', 0x20D),
     (''LOCKOUT_COUNTER'', 0x20E), (''MAX_AUTH_FAIL'', 0x20F), (''LOCKOUT_INTERVAL'', 0x210),
     (''LOCKOUT_RECOVERY'', 0x211), (''NV_WRITE_RECOVERY'', 0x212), (''AUDIT_COUNTER_0'', 0x213),
     (''AUDIT_COUNTER_1'', 0x214)]"

definition TPM_PT_PCR_enum :: "(string \<times> TPM_PT_PCR) list" where
  "TPM_PT_PCR_enum = [
     (''FIRST'', 0x0), (''SAVE'', 0x0), (''EXTEND_L0'', 0x1), (''RESET_L0'', 0x2),
     (''EXTEND_L1'', 0x3), (''RESET_L1'', 0x4), (''EXTEND_L2'', 0x5), (''RESET_L2'', 0x6),
     (''EXTEND_L3'', 0x7), (''RESET_L3'', 0x8), (''EXTEND_L4'', 0x9), (''RESET_L4'', 0xA),
     (''NO_INCREMENT'', 0x11), (''DRTM_RESET'', 0x12), (''POLICY'', 0x13), (''AUTH'', 0x14),
     (''LAST'', 0x14)]"

definition TPM_PS_enum :: "(string \<times> TPM_PS) list" where
  "TPM_PS_enum = [
     (''MAIN'', 0x0), (''PC'', 0x1), (''PDA'', 0x2), (''CELL_PHONE'', 0x3), (''SERVER'', 0x4),
     (''PERIPHERAL'', 0x5), (''TSS'', 0x6), (''STORAGE'', 0x7), (''AUTHENTICATION'', 0x8),
     (''EMBEDDED'', 0x9), (''HARDCOPY'', 0xA), (''INFRASTRUCTURE'', 0xB),
     (''VIRTUALIZATION'', 0xC), (''TNC'', 0xD), (''MULTI_TENANT'', 0xE), (''TC'', 0xF)]"

definition TPM_HT_enum :: "(string \<times> TPM_HT) list" where
  "TPM_HT_enum = [
     (''PCR'', TPM_HT_PCR), (''NV_INDEX'', TPM_HT_NV_INDEX),
     (''HMAC_SESSION'', TPM_HT_HMAC_SESSION), (''LOADED_SESSION'', TPM_HT_LOADED_SESSION),
     (''POLICY_SESSION'', TPM_HT_POLICY_SESSION), (''SAVED_SESSION'', TPM_HT_SAVED_SESSION),
     (''PERMANENT'', TPM_HT_PERMANENT), (''TRANSIENT'', TPM_HT_TRANSIENT),
     (''PERSISTENT'', TPM_HT_PERSISTENT), (''AC'', TPM_HT_AC)]"

definition TPM_RH_enum :: "(string \<times> TPM_RH) list" where
  "TPM_RH_enum = [
     (''FIRST'', TPM_RH_FIRST), (''SRK'', TPM_RH_SRK), (''OWNER'', TPM_RH_OWNER),
     (''REVOKE'', TPM_RH_REVOKE), (''TRANSPORT'', TPM_RH_TRANSPORT),
     (''OPERATOR'', TPM_RH_OPERATOR), (''ADMIN'', TPM_RH_ADMIN), (''EK'', TPM_RH_EK),
     (''_NULL'', TPM_RH_NULL), (''UNASSIGNED'', TPM_RH_UNASSIGNED), (''PW'', TPM_RH_PW),
     (''LOCKOUT'', TPM_RH_LOCKOUT), (''ENDORSEMENT'', TPM_RH_ENDORSEMENT),
     (''PLATFORM'', TPM_RH_PLATFORM), (''PLATFORM_NV'', TPM_RH_PLATFORM_NV),
     (''AUTH_00'', TPM_RH_AUTH_00), (''AUTH_FF'', TPM_RH_AUTH_FF), (''ACT_0'', TPM_RH_ACT_0),
     (''ACT_F'', TPM_RH_ACT_F), (''LAST'', TPM_RH_LAST)]"

definition TPM_NT_enum :: "(string \<times> TPM_NT) list" where
  "TPM_NT_enum = [
     (''ORDINARY'', TPM_NT_ORDINARY), (''COUNTER'', TPM_NT_COUNTER), (''BITS'', TPM_NT_BITS),
     (''EXTEND'', TPM_NT_EXTEND), (''PIN_FAIL'', TPM_NT_PIN_FAIL),
     (''PIN_PASS'', TPM_NT_PIN_PASS)]"

definition TPM_AT_enum :: "(string \<times> TPM_AT) list" where
  "TPM_AT_enum = [
     (''ANY'', 0x0), (''_ERROR'', 0x1), (''PV1'', 0x2), (''VEND'', 0x80000000)]"

definition TPM_AE_enum :: "(string \<times> TPM_AE) list" where
  "TPM_AE_enum = [
     (''NONE'', 0x0)]"

definition PLATFORM_enum :: "(string \<times> PLATFORM) list" where
  "PLATFORM_enum = [
     (''FAMILY'', 0x322E3000), (''LEVEL'', 0x0), (''VERSION'', 0xA2), (''YEAR'', 0x7E3),
     (''DAY_OF_YEAR'', 0x168)]"

definition Implementation_enum :: "(string \<times> Implementation) list" where
  "Implementation_enum = [
     (''FIELD_UPGRADE_IMPLEMENTED'', 0x0), (''HASH_LIB'', 0x1), (''SYM_LIB'', 0x1),
     (''MATH_LIB'', 0x1), (''IMPLEMENTATION_PCR'', 0x18), (''PCR_SELECT_MAX'', 0x3),
     (''PLATFORM_PCR'', 0x18), (''PCR_SELECT_MIN'', 0x3), (''DRTM_PCR'', 0x11),
     (''HCRTM_PCR'', 0x0), (''NUM_LOCALITIES'', 0x5), (''MAX_HANDLE_NUM'', 0x3),
     (''MAX_ACTIVE_SESSIONS'', 0x40), (''MAX_LOADED_SESSIONS'', 0x3), (''MAX_SESSION_NUM'', 0x3),
     (''MAX_LOADED_OBJECTS'', 0x3), (''MIN_EVICT_OBJECTS'', 0x2), (''NUM_POLICY_PCR_GROUP'', 0x1),
     (''NUM_AUTHVALUE_PCR_GROUP'', 0x1), (''MAX_CONTEXT_SIZE'', 0x4F0),
     (''MAX_DIGEST_BUFFER'', 0x400), (''MAX_NV_INDEX_SIZE'', 0x800),
     (''MAX_NV_BUFFER_SIZE'', 0x400), (''MAX_CAP_BUFFER'', 0x400), (''NV_MEMORY_SIZE'', 0x4000),
     (''MIN_COUNTER_INDICES'', 0x8), (''NUM_STATIC_PCR'', 0x10), (''MAX_ALG_LIST_SIZE'', 0x40),
     (''PRIMARY_SEED_SIZE'', 0x20), (''CONTEXT_ENCRYPT_ALGORITHM'', 0x6),
     (''NV_CLOCK_UPDATE_INTERVAL'', 0xC), (''NUM_POLICY_PCR'', 0x1),
     (''MAX_COMMAND_SIZE'', 0x1000), (''MAX_RESPONSE_SIZE'', 0x1000), (''ORDERLY_BITS'', 0x8),
     (''MAX_SYM_DATA'', 0x80), (''MAX_RNG_ENTROPY_SIZE'', 0x40), (''RAM_INDEX_SPACE'', 0x200),
     (''RSA_DEFAULT_PUBLIC_EXPONENT'', 0x10001), (''ENABLE_PCR_NO_INCREMENT'', 0x1),
     (''CRT_FORMAT_RSA'', 0x1), (''VENDOR_COMMAND_COUNT'', 0x0),
     (''MAX_VENDOR_BUFFER_SIZE'', 0x400), (''MAX_DERIVATION_BITS'', 0x2000),
     (''RSA_MAX_PRIME'', 0x80), (''RSA_PRIVATE_SIZE'', 0x280),
     (''SIZE_OF_X509_SERIAL_NUMBER'', 0x14), (''PRIVATE_VENDOR_SPECIFIC_BYTES'', 0x280)]"

definition TPM_HC_enum :: "(string \<times> TPM_HC) list" where
  "TPM_HC_enum = [
     (''HR_HANDLE_MASK'', 0xFFFFFF), (''HR_RANGE_MASK'', 0xFF000000), (''HR_SHIFT'', 0x18),
     (''HR_PCR'', 0x0), (''HR_HMAC_SESSION'', 0x2000000), (''HR_POLICY_SESSION'', 0x3000000),
     (''HR_TRANSIENT'', 0x80000000), (''HR_PERSISTENT'', 0x81000000),
     (''HR_NV_INDEX'', 0x1000000), (''HR_PERMANENT'', 0x40000000), (''PCR_FIRST'', 0x0),
     (''PCR_LAST'', 0x17), (''HMAC_SESSION_FIRST'', 0x2000000),
     (''HMAC_SESSION_LAST'', 0x200003F), (''LOADED_SESSION_FIRST'', 0x2000000),
     (''LOADED_SESSION_LAST'', 0x200003F), (''POLICY_SESSION_FIRST'', 0x3000000),
     (''POLICY_SESSION_LAST'', 0x300003F), (''TRANSIENT_FIRST'', 0x80000000),
     (''ACTIVE_SESSION_FIRST'', 0x3000000), (''ACTIVE_SESSION_LAST'', 0x300003F),
     (''TRANSIENT_LAST'', 0x80000002), (''PERSISTENT_FIRST'', 0x81000000),
     (''PERSISTENT_LAST'', 0x81FFFFFF), (''PLATFORM_PERSISTENT'', 0x81800000),
     (''NV_INDEX_FIRST'', 0x1000000), (''NV_INDEX_LAST'', 0x1FFFFFF),
     (''PERMANENT_FIRST'', 0x40000000), (''PERMANENT_LAST'', 0x4000011F),
     (''HR_NV_AC'', 0x1D00000), (''NV_AC_FIRST'', 0x1D00000), (''NV_AC_LAST'', 0x1D0FFFF),
     (''HR_AC'', 0x90000000), (''AC_FIRST'', 0x90000000), (''AC_LAST'', 0x9000FFFF)]"

definition TPMA_ALGORITHM_enum :: "(string \<times> TPMA_ALGORITHM) list" where
  "TPMA_ALGORITHM_enum = [
     (''asymmetric'', 0x1), (''symmetric'', 0x2), (''hash'', 0x4), (''object'', 0x8),
     (''signing'', 0x100), (''encrypting'', 0x200), (''method'', 0x400)]"

definition TPMA_OBJECT_enum :: "(string \<times> TPMA_OBJECT) list" where
  "TPMA_OBJECT_enum = [
     (''fixedTPM'', TPMA_OBJECT_fixedTPM), (''stClear'', TPMA_OBJECT_stClear),
     (''fixedParent'', TPMA_OBJECT_fixedParent),
     (''sensitiveDataOrigin'', TPMA_OBJECT_sensitiveDataOrigin),
     (''userWithAuth'', TPMA_OBJECT_userWithAuth),
     (''adminWithPolicy'', TPMA_OBJECT_adminWithPolicy), (''noDA'', TPMA_OBJECT_noDA),
     (''encryptedDuplication'', TPMA_OBJECT_encryptedDuplication),
     (''restricted'', TPMA_OBJECT_restricted), (''decrypt'', TPMA_OBJECT_decrypt),
     (''sign'', TPMA_OBJECT_sign), (''encrypt'', TPMA_OBJECT_encrypt),
     (''x509sign'', TPMA_OBJECT_x509sign)]"

definition TPMA_SESSION_enum :: "(string \<times> TPMA_SESSION) list" where
  "TPMA_SESSION_enum = [
     (''continueSession'', TPMA_SESSION_continueSession),
     (''auditExclusive'', TPMA_SESSION_auditExclusive), (''auditReset'', TPMA_SESSION_auditReset),
     (''decrypt'', TPMA_SESSION_decrypt), (''encrypt'', TPMA_SESSION_encrypt),
     (''audit'', TPMA_SESSION_audit)]"

definition TPMA_LOCALITY_enum :: "(string \<times> TPMA_LOCALITY) list" where
  "TPMA_LOCALITY_enum = [
     (''LOC_ZERO'', 0x1), (''LOC_ONE'', 0x2), (''LOC_TWO'', 0x4), (''LOC_THREE'', 0x8),
     (''LOC_FOUR'', 0x10), (''Extended_BIT_MASK'', 0xE0), (''Extended_BIT_OFFSET'', 0x5),
     (''Extended_BIT_LENGTH'', 0x3)]"

definition TPMA_PERMANENT_enum :: "(string \<times> TPMA_PERMANENT) list" where
  "TPMA_PERMANENT_enum = [
     (''ownerAuthSet'', 0x1), (''endorsementAuthSet'', 0x2), (''lockoutAuthSet'', 0x4),
     (''disableClear'', 0x100), (''inLockout'', 0x200), (''tpmGeneratedEPS'', 0x400)]"

definition TPMA_STARTUP_CLEAR_enum :: "(string \<times> TPMA_STARTUP_CLEAR) list" where
  "TPMA_STARTUP_CLEAR_enum = [
     (''phEnable'', 0x1), (''shEnable'', 0x2), (''ehEnable'', 0x4), (''phEnableNV'', 0x8),
     (''orderly'', 0x80000000)]"

definition TPMA_MEMORY_enum :: "(string \<times> TPMA_MEMORY) list" where
  "TPMA_MEMORY_enum = [
     (''sharedRAM'', 0x1), (''sharedNV'', 0x2), (''objectCopiedToRam'', 0x4)]"

definition TPMA_CC_enum :: "(string \<times> TPMA_CC) list" where
  "TPMA_CC_enum = [
     (''commandIndex_BIT_MASK'', 0xFFFF), (''commandIndex_BIT_OFFSET'', 0x0),
     (''commandIndex_BIT_LENGTH'', 0x10), (''nv'', 0x400000), (''extensive'', 0x800000),
     (''flushed'', 0x1000000), (''cHandles_BIT_MASK'', 0xE000000),
     (''cHandles_BIT_OFFSET'', 0x19), (''cHandles_BIT_LENGTH'', 0x3), (''rHandle'', 0x10000000),
     (''V'', 0x20000000), (''Res_BIT_MASK'', 0xC0000000), (''Res_BIT_OFFSET'', 0x1E),
     (''Res_BIT_LENGTH'', 0x2)]"

definition TPMA_MODES_enum :: "(string \<times> TPMA_MODES) list" where
  "TPMA_MODES_enum = [
     (''FIPS_140_2'', 0x1)]"

definition TPMA_X509_KEY_USAGE_enum :: "(string \<times> TPMA_X509_KEY_USAGE) list" where
  "TPMA_X509_KEY_USAGE_enum = [
     (''decipherOnly'', 0x800000), (''encipherOnly'', 0x1000000), (''cRLSign'', 0x2000000),
     (''keyCertSign'', 0x4000000), (''keyAgreement'', 0x8000000),
     (''dataEncipherment'', 0x10000000), (''keyEncipherment'', 0x20000000),
     (''nonrepudiation'', 0x40000000), (''contentCommitment'', 0x40000000),
     (''digitalSignature'', 0x80000000)]"

definition TPMA_ACT_enum :: "(string \<times> TPMA_ACT) list" where
  "TPMA_ACT_enum = [
     (''signaled'', 0x1), (''preserveSignaled'', 0x2)]"

definition TPM_NV_INDEX_enum :: "(string \<times> TPM_NV_INDEX) list" where
  "TPM_NV_INDEX_enum = [
     (''index_BIT_MASK'', 0xFFFFFF), (''index_BIT_OFFSET'', 0x0), (''index_BIT_LENGTH'', 0x18),
     (''RhNv_BIT_MASK'', 0xFF000000), (''RhNv_BIT_OFFSET'', 0x18), (''RhNv_BIT_LENGTH'', 0x8)]"

definition TPMA_NV_enum :: "(string \<times> TPMA_NV) list" where
  "TPMA_NV_enum = [
     (''PPWRITE'', 0x1), (''OWNERWRITE'', 0x2), (''AUTHWRITE'', 0x4), (''POLICYWRITE'', 0x8),
     (''ORDINARY'', 0x0), (''COUNTER'', 0x10), (''BITS'', 0x20), (''EXTEND'', 0x40),
     (''PIN_FAIL'', 0x80), (''PIN_PASS'', 0x90), (''TpmNt_BIT_MASK'', 0xF0),
     (''TpmNt_BIT_OFFSET'', 0x4), (''TpmNt_BIT_LENGTH'', 0x4), (''POLICY_DELETE'', 0x400),
     (''WRITELOCKED'', 0x800), (''WRITEALL'', 0x1000), (''WRITEDEFINE'', 0x2000),
     (''WRITE_STCLEAR'', 0x4000), (''GLOBALLOCK'', 0x8000), (''PPREAD'', 0x10000),
     (''OWNERREAD'', 0x20000), (''AUTHREAD'', 0x40000), (''POLICYREAD'', 0x80000),
     (''NO_DA'', 0x2000000), (''ORDERLY'', 0x4000000), (''CLEAR_STCLEAR'', 0x8000000),
     (''READLOCKED'', 0x10000000), (''WRITTEN'', 0x20000000), (''PLATFORMCREATE'', 0x40000000),
     (''READ_STCLEAR'', 0x80000000)]"

end
