(* ===== verification/Crypto.thy ===== *)
theory Crypto
  imports Helpers TpmEnums
begin

text \<open>
  \<^verbatim>\<open>TSS.CPP/Src/Crypto.cpp\<close>: the digest sizes.
\<close>

definition HashLength :: "TPM_ALG_ID \<Rightarrow> UINT16" where
  "HashLength hashAlg =
     (if hashAlg = TPM_ALG_ID_NULL then 0
      else if hashAlg = TPM_ALG_ID_SHA1 then 20
      else if hashAlg = TPM_ALG_ID_SHA256 then 32
      else if hashAlg = TPM_ALG_ID_SHA384 then 48
      else if hashAlg = TPM_ALG_ID_SHA512 then 64
      else if hashAlg = TPM_ALG_ID_SM3_256 then 32
      else 0)"

end
