(* ===== verification/TpmStructure.thy ===== *)
theory TpmStructure
  imports TpmMarshal
begin

text \<open>
  \<^verbatim>\<open>TSS.CPP/include/TpmStructure.h\<close>: what every TPM structure inherits from \<open>TpmStructure\<close>
  (\<open>toBytes\<close>, \<open>initFromBytes\<close>, \<open>fromBytes\<close>, \<open>asTpm2B\<close>, equality), over the two virtual methods
  \<open>toTpm\<close> and \<open>initFromTpm\<close>, which are arguments here.

  The locale \<open>tpm_body\<close> is the contract of a structure that is written and read as the body of a
  size-prefixed area; \<open>tpm_codec\<close> adds that it is self-delimiting. Each structure of
  \<^verbatim>\<open>TpmTypes.cpp\<close> is an interpretation of one of them, with \<open>enc\<close> its wire format and \<open>valid\<close> the
  values that format can carry (sizes that fit their prefix, unions whose selector names them).

  A structure that is only partly filled when \<open>initFromTpm\<close> throws is not part of the model: the
  methods return the object when they return at all.
\<close>

section \<open>The inherited methods\<close>

text \<open>
  \<open>_ASSERT\<close> is \<open>assert\<close>: it ends the program where its condition fails in a build with assertions, and nothing is left of
  it in one with \<open>NDEBUG\<close>, which the release flags of \<^verbatim>\<open>TSS.CPP/Makefile\<close> define. The models have the
  assertions; \<open>fromBytes_NDEBUG\<close> is \<open>fromBytes\<close> without.
\<close>

definition outcome_of :: "('s, 'a) sx \<Rightarrow> 's \<Rightarrow> 'a outcome" where
  "outcome_of m s = fst (m s)"

definition default_capacity :: nat where
  "default_capacity = 4096"

definition toBytes :: "('a \<Rightarrow> unit tpm) \<Rightarrow> 'a \<Rightarrow> ByteVec outcome" where
  "toBytes toTpm x = outcome_of (sseq (toTpm x) trim) (TpmBuffer_new default_capacity)"

definition initFromBytes :: "('a \<Rightarrow> 'a tpm) \<Rightarrow> 'a \<Rightarrow> ByteVec \<Rightarrow> 'a outcome" where
  "initFromBytes initFromTpm self buffer = outcome_of
     (sbind (initFromTpm self) (\<lambda>x. sbind curPos (\<lambda>p.
        sseq (sassert (p = length buffer)) (ret x)))) (TpmBuffer_of buffer)"

definition fromBytes :: "('a \<Rightarrow> 'a tpm) \<Rightarrow> 'a \<Rightarrow> ByteVec \<Rightarrow> 'a outcome" where
  "fromBytes initFromTpm newObj buffer = initFromBytes initFromTpm newObj buffer"

definition fromBytes_NDEBUG :: "('a \<Rightarrow> 'a tpm) \<Rightarrow> 'a \<Rightarrow> ByteVec \<Rightarrow> 'a outcome" where
  "fromBytes_NDEBUG initFromTpm newObj buffer = outcome_of (initFromTpm newObj) (TpmBuffer_of buffer)"

definition asTpm2B :: "('a \<Rightarrow> unit tpm) \<Rightarrow> 'a \<Rightarrow> ByteVec outcome" where
  "asTpm2B toTpm x = outcome_of (sseq (writeSizedObj toTpm x) trim) (TpmBuffer_new default_capacity)"

text \<open>
  Equality compares the wire forms; an exception of either marshaling is the comparison's. The
  shortcut for one and the same object is the flag \<open>same\<close>.
\<close>

definition TpmStructure_eq ::
  "bool \<Rightarrow> ('a \<Rightarrow> unit tpm) \<Rightarrow> 'a \<Rightarrow> ('b \<Rightarrow> unit tpm) \<Rightarrow> 'b \<Rightarrow> bool outcome" where
  "TpmStructure_eq same toTpm x toTpm' y =
     (if same then Ok True
      else case toBytes toTpm x of
        Ok a \<Rightarrow> (case toBytes toTpm' y of
             Ok b \<Rightarrow> Ok (a = b) | Throw e \<Rightarrow> Throw e | AssertFailed \<Rightarrow> AssertFailed | Undef \<Rightarrow> Undef)
      | Throw e \<Rightarrow> Throw e | AssertFailed \<Rightarrow> AssertFailed | Undef \<Rightarrow> Undef)"

section \<open>Running a call on a fresh buffer\<close>

lemma buf_ok_new [simp]: "buf_ok (TpmBuffer_new n)"
  by (simp add: buf_ok_def TpmBuffer_new_def)

lemma buf_ok_of [simp]: "buf_ok (TpmBuffer_of bs)"
  by (simp add: buf_ok_def TpmBuffer_of_def)

lemma fits_new: "fits (TpmBuffer_new n) k \<longleftrightarrow> k \<le> n"
  by (simp add: fits_def TpmBuffer_new_def size_buf_def)

lemma continues_of: "continues (TpmBuffer_of (bs @ rest)) bs"
  by (simp add: continues_def TpmBuffer_of_def)

lemma trim_put_new:
  "length bs \<le> n \<Longrightarrow> outcome_of trim (put_bytes bs (TpmBuffer_new n)) = Ok bs"
  by (simp add: outcome_of_def trim_def TpmBuffer_new_def resize_def overwrite_def Let_def)

lemma writes_trim:
  assumes "writes m bs"
  shows "outcome_of (sseq m trim) (TpmBuffer_new n) =
    (if length bs \<le> n then Ok bs else Throw (runtime_error ''''))"
proof (cases "length bs \<le> n")
  case True
  then have "sseq m trim (TpmBuffer_new n) = trim (put_bytes bs (TpmBuffer_new n))"
    using writes_Ok [OF assms buf_ok_new] by (intro sseq_Ok) (simp add: fits_new)
  then show ?thesis using True trim_put_new [of bs n] by (simp add: outcome_of_def)
next
  case False
  then obtain b' where "m (TpmBuffer_new n) = (Throw (runtime_error ''''), b')"
    using writes_overflow [OF assms buf_ok_new] by (auto simp: fits_new)
  then show ?thesis using False by (simp add: outcome_of_def sseq_Throw)
qed

lemma reads_initFromBytes:
  assumes "reads (init d) x bs"
  shows "initFromBytes init d (bs @ rest) = (if rest = [] then Ok x else AssertFailed)"
proof -
  have "init d (TpmBuffer_of (bs @ rest)) = (Ok x, adv (length bs) (TpmBuffer_of (bs @ rest)))"
    by (rule reads_Ok [OF assms buf_ok_of continues_of])
  then show ?thesis
    by (simp add: initFromBytes_def outcome_of_def sbind_def curPos_def sseq_def sassert_app ret_app
        TpmBuffer_of_def)
qed

text \<open>Two values that are read from the same bytes are the same.\<close>

lemma reads_unique:
  assumes "reads m x xs" and "reads m y ys" and "xs @ r = ys @ s"
  shows "x = y \<and> xs = ys \<and> r = s"
proof -
  let ?b = "TpmBuffer_of (xs @ r)"
  have "m ?b = (Ok x, adv (length xs) ?b)" by (rule reads_Ok [OF assms(1) buf_ok_of continues_of])
  moreover have "m ?b = (Ok y, adv (length ys) ?b)"
    unfolding assms(3) by (rule reads_Ok [OF assms(2) buf_ok_of continues_of])
  ultimately have "(Ok x, adv (length xs) ?b) = (Ok y, adv (length ys) ?b)" by simp
  then have "x = y" and "tb_pos (adv (length xs) ?b) = tb_pos (adv (length ys) ?b)" by simp_all
  then have "x = y" and "length xs = length ys" by simp_all
  then show ?thesis using assms(3) by simp
qed

section \<open>The contract of a structure\<close>

text \<open>
  What a size-prefixed area can carry: a value of the structure's format, or nothing at all, which
  is read as the default value (a structure whose union is null writes nothing).
\<close>

definition sized_obj_ok :: "'a \<Rightarrow> ('a \<Rightarrow> ByteVec) \<Rightarrow> ('a \<Rightarrow> bool) \<Rightarrow> 'a \<Rightarrow> bool" where
  "sized_obj_ok dflt enc valid x \<longleftrightarrow>
     length (enc x) < 2 ^ 16 \<and> (if enc x = [] then x = dflt else valid x)"

locale tpm_body =
  fixes toTpm :: "'a \<Rightarrow> unit tpm" and initFromTpm :: "'a \<Rightarrow> 'a tpm" and dflt :: 'a
    and enc :: "'a \<Rightarrow> ByteVec" and valid :: "'a \<Rightarrow> bool"
  assumes toTpm_writes: "valid x \<Longrightarrow> writes (toTpm x) (enc x)"
    and initFromTpm_reads_sized: "valid x \<Longrightarrow> reads_sized (initFromTpm dflt) x (enc x)"
    and dflt_null: "enc dflt = [] \<Longrightarrow> writes (toTpm dflt) []"
begin

lemma toBytes_enc:
  "valid x \<Longrightarrow> toBytes toTpm x =
     (if length (enc x) \<le> 4096 then Ok (enc x) else Throw (runtime_error ''''))"
  unfolding toBytes_def default_capacity_def by (rule writes_trim [OF toTpm_writes])

lemma writes_sized:
  "sized_obj_ok dflt enc valid x \<Longrightarrow> writes (writeSizedObj toTpm x) (enc_obj (enc x))"
  using dflt_null by (auto simp: sized_obj_ok_def toTpm_writes intro!: writes_writeSizedObj split: if_splits)

lemma asTpm2B_enc:
  "valid x \<Longrightarrow> asTpm2B toTpm x =
     (if length (enc x) + 2 \<le> 4096 then Ok (enc_obj (enc x)) else Throw (runtime_error ''''))"
  using writes_trim [of "writeSizedObj toTpm x" "enc_obj (enc x)" 4096]
    writes_writeSizedObj [of toTpm x "enc x"] toTpm_writes
  by (simp add: asTpm2B_def default_capacity_def enc_obj_def)

lemma reads_sizedObj:
  assumes "sized_obj_ok dflt enc valid x"
  shows "reads (readSizedObj initFromTpm dflt) x (enc_obj (enc x))"
proof (cases "enc x = []")
  case True
  then show ?thesis
    using assms by (auto simp: sized_obj_ok_def reads_readSizedObj_Nil)
next
  case False
  then show ?thesis
    using assms by (auto simp: sized_obj_ok_def initFromTpm_reads_sized intro: reads_readSizedObj_sized)
qed

lemma eq_enc:
  "valid x \<Longrightarrow> valid y \<Longrightarrow> length (enc x) \<le> 4096 \<Longrightarrow> length (enc y) \<le> 4096 \<Longrightarrow>
   TpmStructure_eq False toTpm x toTpm y = Ok (enc x = enc y)"
  by (simp add: TpmStructure_eq_def toBytes_enc)

end

locale tpm_codec =
  fixes toTpm :: "'a \<Rightarrow> unit tpm" and initFromTpm :: "'a \<Rightarrow> 'a tpm" and dflt :: 'a
    and enc :: "'a \<Rightarrow> ByteVec" and valid :: "'a \<Rightarrow> bool"
  assumes writes_enc: "valid x \<Longrightarrow> writes (toTpm x) (enc x)"
    and reads_enc: "valid x \<Longrightarrow> reads (initFromTpm dflt) x (enc x)"
    and dflt_empty: "enc dflt = [] \<Longrightarrow> writes (toTpm dflt) []"

sublocale tpm_codec \<subseteq> tpm_body
  by unfold_locales (simp_all add: writes_enc reads_enc reads_imp_sized dflt_empty)

context tpm_codec begin

lemma fromBytes_enc:
  "valid x \<Longrightarrow> fromBytes initFromTpm dflt (enc x @ rest) = (if rest = [] then Ok x else AssertFailed)"
  unfolding fromBytes_def by (rule reads_initFromBytes) (rule reads_enc)

text \<open>Without the assertion, what follows the value is ignored.\<close>

lemma fromBytes_NDEBUG_enc: "valid x \<Longrightarrow> fromBytes_NDEBUG initFromTpm dflt (enc x @ rest) = Ok x"
  using reads_Ok [OF reads_enc, of x "TpmBuffer_of (enc x @ rest)"]
  by (simp add: fromBytes_NDEBUG_def outcome_of_def buf_ok_def TpmBuffer_of_def size_buf_def continues_def)

lemma fromBytes_toBytes:
  "valid x \<Longrightarrow> toBytes toTpm x = Ok bs \<Longrightarrow> fromBytes initFromTpm dflt bs = Ok x"
  using fromBytes_enc [of x "[]"] by (auto simp: toBytes_enc split: if_splits)

lemma enc_prefix_free:
  "valid x \<Longrightarrow> valid y \<Longrightarrow> enc x @ r = enc y @ s \<Longrightarrow> x = y \<and> r = s"
  using reads_unique [OF reads_enc reads_enc] by blast

lemma enc_inj: "valid x \<Longrightarrow> valid y \<Longrightarrow> enc x = enc y \<longleftrightarrow> x = y"
  using enc_prefix_free [of x y "[]" "[]"] by auto

lemma eq_iff_eq:
  "valid x \<Longrightarrow> valid y \<Longrightarrow> length (enc x) \<le> 4096 \<Longrightarrow> length (enc y) \<le> 4096 \<Longrightarrow>
   TpmStructure_eq False toTpm x toTpm y = Ok (x = y)"
  by (simp add: eq_enc enc_inj)

lemma writes_arr: "arr_ok valid xs \<Longrightarrow> writes (writeObjArr toTpm xs) (enc_arr enc xs)"
  by (rule writes_writeObjArr) (auto simp: arr_ok_def list_all_iff writes_enc)

lemma reads_arr: "arr_ok valid xs \<Longrightarrow> reads (readObjArr initFromTpm dflt []) xs (enc_arr enc xs)"
  by (rule reads_readObjArr) (auto simp: arr_ok_def list_all_iff reads_enc)

end

section \<open>Command and response structures\<close>

text \<open>
  \<open>CmdStructure\<close>, \<open>ReqStructure\<close> and \<open>RespStructure\<close>: what the dispatcher sees of a command's
  parameters and of its response, the virtual methods as fields. The handles are not part of what
  \<open>toTpm\<close> writes and \<open>initFromTpm\<close> reads. The type of handles is an argument because the structure
  \<open>TPM_HANDLE\<close> comes later.
\<close>

record SessEncInfo =
  sizeLen :: UINT16
  valLen :: UINT16

record 'h ReqStructure =
  req_toTpm :: "unit tpm"
  req_numHandles :: UINT16
  req_numAuthHandles :: UINT16
  req_getHandles :: "'h list"
  req_sessEncInfo :: SessEncInfo

record ('h, 'r) RespStructure =
  resp_default :: 'r
  resp_initFromTpm :: "'r \<Rightarrow> 'r tpm"
  resp_numHandles :: UINT16
  resp_getHandle :: "'r \<Rightarrow> 'h"
  resp_setHandle :: "'h \<Rightarrow> 'r \<Rightarrow> 'r"
  resp_sessEncInfo :: SessEncInfo

text \<open>The base classes: no handles, no parameters, nothing to encrypt.\<close>

definition no_sessEncInfo :: SessEncInfo where
  "no_sessEncInfo = \<lparr>sizeLen = 0, valLen = 0\<rparr>"

definition empty_req :: "'h ReqStructure" where
  "empty_req = \<lparr>req_toTpm = ret (), req_numHandles = 0, req_numAuthHandles = 0, req_getHandles = [],
     req_sessEncInfo = no_sessEncInfo\<rparr>"

definition empty_resp :: "'h \<Rightarrow> ('h, unit) RespStructure" where
  "empty_resp h = \<lparr>resp_default = (), resp_initFromTpm = ret, resp_numHandles = 0,
     resp_getHandle = (\<lambda>_. h), resp_setHandle = (\<lambda>_ r. r), resp_sessEncInfo = no_sessEncInfo\<rparr>"

end
