(* ===== verification/CryptoOps.thy ===== *)
theory CryptoOps
  imports Crypto TpmStructure
begin

text \<open>
  \<^verbatim>\<open>TSS.CPP/Src/Crypto.cpp\<close>: hashing, HMAC, the key derivation KDFa and CFB encryption.

  OpenSSL is not part of the repository: its digest, HMAC, AES-CFB, random number and RSA
  verification functions are the fields of an \<open>Openssl\<close> record that every operation takes, together
  with the compile-time flag \<open>ALG_SM3_256\<close>. What the code relies on is \<open>ossl_ok\<close>: a digest and an HMAC
  have their algorithm's size, and CFB keeps the length and is undone by the opposite direction.

  The lemmas show which algorithms each call accepts, the digest sizes, that KDFa is the prefix of the
  HMAC counter stream, and where the calls leave C++'s defined behaviour.
\<close>

record Openssl =
  ossl_ALG_SM3_256 :: bool
  ossl_digest :: "TPM_ALG_ID \<Rightarrow> ByteVec \<Rightarrow> ByteVec"
  ossl_hmac :: "TPM_ALG_ID \<Rightarrow> ByteVec \<Rightarrow> ByteVec \<Rightarrow> ByteVec"
  ossl_cfb128 :: "bool \<Rightarrow> ByteVec \<Rightarrow> ByteVec \<Rightarrow> ByteVec \<Rightarrow> ByteVec"
  ossl_rand :: "nat \<Rightarrow> nat \<Rightarrow> ByteVec" \<comment> \<open>the n-th call, for so many bytes\<close>
  ossl_rsa_verify :: "TPM_ALG_ID \<Rightarrow> ByteVec \<Rightarrow> ByteVec \<Rightarrow> ByteVec \<Rightarrow> bool"
    \<comment> \<open>hash algorithm, digest, signature, modulus; the exponent is always 65537\<close>

definition IsImplemented :: "Openssl \<Rightarrow> TPM_ALG_ID \<Rightarrow> bool" where
  "IsImplemented ossl hashAlg \<longleftrightarrow>
     hashAlg = TPM_ALG_ID_SHA1 \<or> hashAlg = TPM_ALG_ID_SHA256 \<or> hashAlg = TPM_ALG_ID_SHA384 \<or>
     hashAlg = TPM_ALG_ID_SHA512 \<or> (ossl_ALG_SM3_256 ossl \<and> hashAlg = TPM_ALG_ID_SM3_256)"

definition ossl_ok :: "Openssl \<Rightarrow> bool" where
  "ossl_ok ossl \<longleftrightarrow>
     (\<forall>a m. IsImplemented ossl a \<longrightarrow> length (ossl_digest ossl a m) = unat (HashLength a)) \<and>
     (\<forall>a k m. IsImplemented ossl a \<longrightarrow> length (ossl_hmac ossl a k m) = unat (HashLength a)) \<and>
     (\<forall>e k iv x. length (ossl_cfb128 ossl e k iv x) = length x) \<and>
     (\<forall>k iv x. ossl_cfb128 ossl False k iv (ossl_cfb128 ossl True k iv x) = x) \<and>
     (\<forall>i n. length (ossl_rand ossl i n) = n)"

section \<open>Digests\<close>

text \<open>\<open>len = 0\<close> means everything from \<open>start\<close> on.\<close>

definition Hash :: "Openssl \<Rightarrow> TPM_ALG_ID \<Rightarrow> ByteVec \<Rightarrow> nat \<Rightarrow> nat \<Rightarrow> ByteVec outcome" where
  "Hash ossl hashAlg toHash start len =
     (if length toHash < start + len
      then Throw (out_of_range (''Crypto::Hash(['' @ to_string (length toHash) @ ''], '' @
             to_string start @ '', '' @ to_string len @ '')''))
      else
        let len' = (if len = 0 then length toHash - start else len) in
        if len' = 0 then Ok (replicate (unat (HashLength hashAlg)) 0)
        else if IsImplemented ossl hashAlg
        then Ok (ossl_digest ossl hashAlg (take len' (drop start toHash)))
        else Throw (domain_error ''Hash(): Unknown or not a hash algorithm''))"

abbreviation Hash_all :: "Openssl \<Rightarrow> TPM_ALG_ID \<Rightarrow> ByteVec \<Rightarrow> ByteVec outcome" where
  "Hash_all ossl hashAlg toHash \<equiv> Hash ossl hashAlg toHash 0 0"

definition HMAC :: "Openssl \<Rightarrow> TPM_ALG_ID \<Rightarrow> ByteVec \<Rightarrow> ByteVec \<Rightarrow> ByteVec outcome" where
  "HMAC ossl hashAlg key toHash =
     (if IsImplemented ossl hashAlg
      then Ok (take (unat (HashLength hashAlg)) (ossl_hmac ossl hashAlg key toHash))
      else Throw (domain_error ''Not a hash algorithm''))"

definition HashPcrs :: "Openssl \<Rightarrow> TPM_ALG_ID \<Rightarrow> ByteVec list \<Rightarrow> ByteVec outcome" where
  "HashPcrs ossl hashAlg PcrValues = Hash_all ossl hashAlg (concat PcrValues)"

section \<open>Key derivation\<close>

definition kdf_input :: "string \<Rightarrow> ByteVec \<Rightarrow> ByteVec \<Rightarrow> UINT32 \<Rightarrow> UINT32 \<Rightarrow> ByteVec outcome" where
  "kdf_input label contextU contextV numBitsRequired i = outcome_of
     (sseq (wseq [writeInt (i + 1), writeByteBuf (map of_char label), writeByte 0,
        writeByteBuf contextU, writeByteBuf contextV, writeInt numBitsRequired]) trim)
     (TpmBuffer_new default_capacity)"

text \<open>The loop over \<open>i\<close>; a fragment that does not fit into \<open>kdfStream\<close> would be written past its end.\<close>

fun kdf_loop ::
  "(UINT32 \<Rightarrow> ByteVec outcome) \<Rightarrow> UINT32 \<Rightarrow> UINT32 list \<Rightarrow> ByteVec \<Rightarrow> ByteVec outcome" where
  "kdf_loop frag bitsPerLoop [] kdfStream = Ok kdfStream"
| "kdf_loop frag bitsPerLoop (i # is) kdfStream = obind (frag i) (\<lambda>f.
     let p = unat (i * bitsPerLoop div 8) in
     if length kdfStream < p + length f then Undef
     else kdf_loop frag bitsPerLoop is (overwrite p f kdfStream))"

text \<open>32-bit arithmetic throughout; a digest of size 0 makes the code divide by zero.\<close>

definition KDFa ::
  "Openssl \<Rightarrow> TPM_ALG_ID \<Rightarrow> ByteVec \<Rightarrow> string \<Rightarrow> ByteVec \<Rightarrow> ByteVec \<Rightarrow> UINT32 \<Rightarrow> ByteVec outcome" where
  "KDFa ossl hmacHash hmacKey label contextU contextV numBitsRequired =
     (let bitsPerLoop = ucast (HashLength hmacHash) * 8 :: UINT32 in
      if bitsPerLoop = 0 then Undef
      else
        let numLoops = (numBitsRequired + bitsPerLoop - 1) div bitsPerLoop in
        obind (kdf_loop
                 (\<lambda>i. obind (kdf_input label contextU contextV numBitsRequired i) (HMAC ossl hmacHash hmacKey))
                 bitsPerLoop (map of_nat [0..<unat numLoops])
                 (replicate (unat (numLoops * bitsPerLoop div 8)) 0))
          (\<lambda>kdfStream. ShiftRight kdfStream (unat (bitsPerLoop * numLoops - numBitsRequired))))"

section \<open>Symmetric encryption\<close>

text \<open>
  An empty initialisation vector stands for zeros. OpenSSL reads sixteen bytes of it, and leaves the key
  schedule uninitialised for a key that is not of 128, 192 or 256 bits.
\<close>

definition CFBXcrypt :: "Openssl \<Rightarrow> bool \<Rightarrow> TPM_ALG_ID \<Rightarrow> ByteVec \<Rightarrow> ByteVec \<Rightarrow> ByteVec \<Rightarrow> ByteVec outcome" where
  "CFBXcrypt ossl encrypt algId keyBytes iv data =
     (if algId \<noteq> TPM_ALG_ID_AES then Throw (domain_error ''unsuppported SymmCipher'')
      else if data = [] then Ok []
      else if length keyBytes \<notin> {16, 24, 32} \<or> (iv \<noteq> [] \<and> length iv < 16) then Undef
      else Ok (ossl_cfb128 ossl encrypt keyBytes
             (if iv = [] then replicate 16 0 else take 16 iv) data))"

definition StringToEncodingParms :: "string \<Rightarrow> ByteVec" where
  "StringToEncodingParms s = map of_char s @ [0]"

section \<open>What the calls return\<close>

lemma IsImplemented_HashLength:
  "IsImplemented ossl a \<Longrightarrow> unat (HashLength a) \<in> {20, 32, 48, 64}"
  by (auto simp: IsImplemented_def HashLength_def)

lemma Hash_all_Ok:
  "IsImplemented ossl a \<Longrightarrow> m \<noteq> [] \<Longrightarrow> Hash_all ossl a m = Ok (ossl_digest ossl a m)"
  by (simp add: Hash_def)

lemma Hash_all_Nil: "Hash_all ossl a [] = Ok (replicate (unat (HashLength a)) 0)"
  by (simp add: Hash_def)

lemma length_Hash:
  "ossl_ok ossl \<Longrightarrow> Hash ossl a m s l = Ok d \<Longrightarrow> length d = unat (HashLength a)"
  by (auto simp: Hash_def ossl_ok_def Let_def split: if_splits)

lemma HMAC_Ok:
  "ossl_ok ossl \<Longrightarrow> IsImplemented ossl a \<Longrightarrow> HMAC ossl a k m = Ok (ossl_hmac ossl a k m)"
  by (simp add: HMAC_def ossl_ok_def)

lemma length_HMAC: "ossl_ok ossl \<Longrightarrow> HMAC ossl a k m = Ok d \<Longrightarrow> length d = unat (HashLength a)"
  by (auto simp: HMAC_def ossl_ok_def split: if_splits)

lemma CFBXcrypt_AES:
  "length key \<in> {16, 24, 32} \<Longrightarrow> iv = [] \<or> 16 \<le> length iv \<Longrightarrow> x \<noteq> [] \<Longrightarrow>
   CFBXcrypt ossl e TPM_ALG_ID_AES key iv x =
     Ok (ossl_cfb128 ossl e key (if iv = [] then replicate 16 0 else take 16 iv) x)"
  by (auto simp: CFBXcrypt_def)

lemma CFBXcrypt_inverse:
  assumes "ossl_ok ossl" and "CFBXcrypt ossl True a key iv x = Ok y"
  shows "length y = length x \<and> CFBXcrypt ossl False a key iv y = Ok x"
proof -
  have len: "length (ossl_cfb128 ossl True k i z) = length z"
    and inv: "ossl_cfb128 ossl False k i (ossl_cfb128 ossl True k i z) = z" for k i z
    using assms(1) by (simp_all add: ossl_ok_def)
  then have "ossl_cfb128 ossl True k i z = [] \<longleftrightarrow> z = []" for k i z
    by (metis length_0_conv)
  then show ?thesis using assms(2) len inv by (auto simp: CFBXcrypt_def split: if_splits)
qed

section \<open>KDFa\<close>

lemma kdf_input_Ok:
  assumes "length label + length u + length v + 9 \<le> 4096"
  shows "kdf_input label u v n i = Ok (enc32 (i + 1) @ map of_char label @ [0] @ u @ v @ enc32 n)"
proof -
  have "writes (wseq [writeInt (i + 1), writeByteBuf (map of_char label), writeByte 0,
      writeByteBuf u, writeByteBuf v, writeInt n])
    (enc32 (i + 1) @ map of_char label @ enc8 0 @ u @ v @ enc32 n)"
    by (intro writes_intros)
  then show ?thesis
    using assms unfolding kdf_input_def default_capacity_def by (simp only: writes_trim) (simp add: enc8_def)
qed

text \<open>The loop fills the stream with the fragments one after the other.\<close>

lemma kdf_loop_concat:
  assumes h: "unat bpl = 8 * h" "8 * h * L < 2 ^ 32" and L: "L < 2 ^ 32"
    and frag: "\<And>i. i < L \<Longrightarrow> frag (of_nat i) = Ok (g i) \<and> length (g i) = h"
  shows "k \<le> L \<Longrightarrow> length pre = k * h \<Longrightarrow>
    kdf_loop frag bpl (map of_nat [k..<L]) (pre @ replicate ((L - k) * h) 0) =
      Ok (pre @ concat (map g [k..<L]))"
proof (induction "L - k" arbitrary: k pre)
  case 0
  then show ?case by simp
next
  case (Suc d)
  then have k: "k < L" and upt: "[k..<L] = k # [Suc k..<L]" by (simp_all add: upt_rec)
  have kh: "k * (8 * h) < 2 ^ 32"
    using mult_le_mono1 [of k L "8 * h"] k h(2) by (metis le_less_trans mult.commute nat_less_le)
  have kw: "unat (of_nat k :: UINT32) = k"
    using k L by (simp add: unat_of_nat take_bit_nat_eq_self)
  have "unat (of_nat k * bpl) = k * (8 * h)"
    using kh kw h(1) by (simp add: unat_word_ariths take_bit_eq_mod [symmetric] take_bit_nat_eq_self)
  then have "unat (of_nat k * bpl div 8 :: UINT32) = k * h"
    by (simp add: unat_div)
  moreover have "overwrite (k * h) (g k) (pre @ replicate ((L - k) * h) 0) =
      (pre @ g k) @ replicate ((L - Suc k) * h) 0"
    using Suc.prems frag [OF k] k by (simp add: overwrite_def diff_mult_distrib)
  moreover have "k * h + h \<le> length (pre @ replicate ((L - k) * h) (0::byte))"
    using Suc.prems k by (simp add: diff_mult_distrib)
      (metis Suc_leI add.commute le_add_diff_inverse mult_Suc mult_le_mono1)
  ultimately show ?case
    using Suc.hyps(1) [of "Suc k" "pre @ g k"] Suc.hyps(2) Suc.prems frag [OF k] k
    by (simp add: upt)
qed

definition kdf_stream ::
  "Openssl \<Rightarrow> TPM_ALG_ID \<Rightarrow> ByteVec \<Rightarrow> string \<Rightarrow> ByteVec \<Rightarrow> ByteVec \<Rightarrow> UINT32 \<Rightarrow> nat \<Rightarrow> ByteVec" where
  "kdf_stream ossl a key label u v n L = concat (map (\<lambda>i. ossl_hmac ossl a key
     (enc32 (of_nat (Suc i)) @ map of_char label @ [0] @ u @ v @ enc32 n)) [0..<L])"

text \<open>The 32-bit arithmetic of KDFa does not wrap for a bit count up to \<open>2 ^ 31\<close>.\<close>

lemma unat_of_nat_32: "k < 2 ^ 32 \<Longrightarrow> unat (of_nat k :: UINT32) = k"
  by (simp add: unat_of_nat take_bit_nat_eq_self)

lemma of_nat_unat_32: "of_nat (unat (w :: UINT32)) = w"
  by simp

lemma mod8_diff: "n \<le> 8 * x \<Longrightarrow> n mod 8 \<noteq> 0 \<Longrightarrow> (8 * x - n) mod 8 \<noteq> (0 :: nat)"
  by presburger

lemma kdf_arith:
  fixes n :: UINT32
  assumes bpl: "unat bpl = 8 * h" and h: "0 < h" "h \<le> 64" and n: "unat n \<le> 2 ^ 31"
  defines "L \<equiv> (unat n + 8 * h - 1) div (8 * h)"
  shows "unat ((n + bpl - 1) div bpl) = L" and "8 * h * L < 2 ^ 32" and "L < 2 ^ 32"
    and "unat (of_nat L * bpl div 8 :: UINT32) = L * h"
    and "unat (bpl * of_nat L - n) = 8 * h * L - unat n" and "unat n \<le> 8 * h * L"
proof -
  let ?N = "unat n"
  have b: "bpl = of_nat (8 * h)" using bpl by (metis of_nat_unat_32)
  have "n + bpl - 1 = of_nat (?N + 8 * h - 1)" using h b by (simp add: of_nat_diff)
  moreover have "?N + 8 * h - 1 < 2 ^ 32" using n h by simp
  ultimately have "unat (n + bpl - 1) = ?N + 8 * h - 1" by (metis unat_of_nat_32)
  then show "unat ((n + bpl - 1) div bpl) = L" using bpl by (simp add: unat_div L_def)
  have up: "8 * h * L \<le> ?N + 8 * h - 1" unfolding L_def by simp
  moreover have "?N + 8 * h - 1 < 2 ^ 32" using n h by simp
  ultimately show lt: "8 * h * L < 2 ^ 32" by (rule le_less_trans)
  have "L \<le> 8 * h * L" using h by simp
  then show "L < 2 ^ 32" using lt by linarith
  have "bpl * of_nat L = of_nat (8 * h * L)" using b by simp
  then have m: "unat (bpl * of_nat L) = 8 * h * L" using lt by (simp only: unat_of_nat_32)
  then show "unat (of_nat L * bpl div 8 :: UINT32) = L * h"
    by (simp add: unat_div mult.commute)
  show le: "?N \<le> 8 * h * L"
  proof -
    have "?N + 8 * h - 1 < 8 * h * L + 8 * h"
      unfolding L_def using h
      by (metis mod_less_divisor mult_div_mod_eq nat_add_left_cancel_less nat_0_less_mult_iff zero_less_numeral)
    then show ?thesis using h by linarith
  qed
  then have "n \<le> bpl * of_nat L" using m by (simp add: word_le_nat_alt)
  then show "unat (bpl * of_nat L - n) = 8 * h * L - ?N" using m by (simp add: unat_sub)
qed

lemma unat_bitsPerLoop:
  "IsImplemented ossl a \<Longrightarrow> unat (ucast (HashLength a) * 8 :: UINT32) = 8 * unat (HashLength a)"
  by (auto simp: IsImplemented_def HashLength_def)

lemma KDFa_Shift:
  assumes ok: "ossl_ok ossl" and a: "IsImplemented ossl a" and n: "unat n \<le> 2 ^ 31"
    and len: "length label + length u + length v + 9 \<le> 4096"
  defines "h \<equiv> unat (HashLength a)"
  defines "L \<equiv> (unat n + 8 * h - 1) div (8 * h)"
  shows "KDFa ossl a key label u v n =
    ShiftRight (kdf_stream ossl a key label u v n L) (8 * h * L - unat n)"
proof -
  let ?bpl = "ucast (HashLength a) * 8 :: UINT32"
  let ?frag = "\<lambda>i. obind (kdf_input label u v n i) (HMAC ossl a key)"
  let ?g = "\<lambda>i. ossl_hmac ossl a key (enc32 (of_nat (Suc i)) @ map of_char label @ [0] @ u @ v @ enc32 n)"
  have bpl: "unat ?bpl = 8 * h" using unat_bitsPerLoop [OF a] by (simp add: h_def)
  have h: "0 < h" "h \<le> 64" using IsImplemented_HashLength [OF a] by (auto simp: h_def)
  note ar = kdf_arith [OF bpl h n, folded L_def]
  have frag: "?frag (of_nat i) = Ok (?g i) \<and> length (?g i) = h" for i
    using HMAC_Ok [OF ok a] ok a kdf_input_Ok [OF len] by (simp add: ossl_ok_def h_def add.commute)
  have "kdf_loop ?frag ?bpl (map of_nat [0..<L]) (replicate (L * h) 0) =
      Ok (kdf_stream ossl a key label u v n L)"
    using kdf_loop_concat [OF bpl ar(2,3), of ?frag ?g 0 "[]"] frag by (simp add: kdf_stream_def)
  moreover have "?bpl \<noteq> 0" using bpl h by (metis mult_eq_0_iff neq0_conv unat_0 zero_neq_numeral)
  moreover have "(n + ?bpl - 1) div ?bpl = of_nat L" using ar(1) by (metis of_nat_unat_32)
  ultimately show ?thesis using ar by (simp add: KDFa_def Let_def)
qed

lemma length_kdf_stream:
  "ossl_ok ossl \<Longrightarrow> IsImplemented ossl a \<Longrightarrow>
   length (kdf_stream ossl a key label u v n L) = L * unat (HashLength a)"
  by (simp add: kdf_stream_def length_concat ossl_ok_def o_def sum_list_triv)

text \<open>
  For a whole number of bytes KDFa is the prefix of the counter stream of HMACs; for any other
  number of bits it does not return.
\<close>

lemma KDFa_bytes:
  assumes "ossl_ok ossl" and "IsImplemented ossl a" and "unat n \<le> 2 ^ 31" and "unat n mod 8 = 0"
    and "length label + length u + length v + 9 \<le> 4096"
  shows "KDFa ossl a key label u v n = Ok (take (unat n div 8)
    (kdf_stream ossl a key label u v n ((unat n + 8 * unat (HashLength a) - 1) div (8 * unat (HashLength a)))))"
proof -
  let ?h = "unat (HashLength a)" let ?L = "(unat n + 8 * ?h - 1) div (8 * ?h)"
  have h: "0 < ?h" "?h \<le> 64" using IsImplemented_HashLength [OF assms(2)] by auto
  have le: "unat n \<le> 8 * ?h * ?L"
    by (rule kdf_arith(6) [OF unat_bitsPerLoop [OF assms(2)] h assms(3)])
  obtain m where m: "unat n = 8 * m" using assms(4) by auto
  have "8 * ?h * ?L - unat n = 8 * (?h * ?L - m)" using m by (simp add: diff_mult_distrib2 mult.assoc)
  moreover have "m \<le> ?h * ?L" using le m by simp
  ultimately show ?thesis
    using KDFa_Shift [OF assms(1-3,5), of key] length_kdf_stream [OF assms(1,2)] m
    by (simp add: ShiftRight_def mult.commute)
qed

lemma KDFa_odd_bits:
  assumes "ossl_ok ossl" and "IsImplemented ossl a" and "unat n \<le> 2 ^ 31" and "unat n mod 8 \<noteq> 0"
    and "length label + length u + length v + 9 \<le> 4096"
  shows "KDFa ossl a key label u v n \<in> {Undef, Throw (domain_error ''Can only shift up to 7 bits'')}"
proof -
  let ?h = "unat (HashLength a)" let ?L = "(unat n + 8 * ?h - 1) div (8 * ?h)"
  have h: "0 < ?h" "?h \<le> 64" using IsImplemented_HashLength [OF assms(2)] by auto
  have "unat n \<le> 8 * ?h * ?L"
    by (rule kdf_arith(6) [OF unat_bitsPerLoop [OF assms(2)] h assms(3)])
  then have "(8 * ?h * ?L - unat n) mod 8 \<noteq> 0"
    using assms(4) mod8_diff [of "unat n" "?h * ?L"] by (simp add: mult.assoc)
  then show ?thesis
    using KDFa_Shift [OF assms(1-3,5), of key] by (auto simp: ShiftRight_def shift_loop_SIZE_MAX)
qed

end
