(* ===== verification/TpmBasicTypes.thy ===== *)
theory TpmBasicTypes
  imports TpmStructure Crypto
begin

text \<open>
  \<^verbatim>\<open>TSS.CPP/include/TpmTypes.h\<close> and \<^verbatim>\<open>TSS.CPP/Src/TpmTypes.cpp\<close>: handles, digests, PCR selections, tickets and tagged properties.

  For each class \<open>X\<close> of the source: the record \<open>X\<close> of its members, \<open>X_default\<close> (its default
  constructor; members that C++ leaves uninitialised are 0), \<open>X_toTpm\<close> and \<open>X_initFromTpm\<close>; then
  the wire format \<open>X_enc\<close>, the values \<open>X_valid\<close> it can carry, and the proof that the methods
  implement it (the interpretation \<open>X_codec\<close>).
\<close>

definition TPMT_HA_DigestSize :: "TPM_ALG_ID \<Rightarrow> UINT16" where
  "TPMT_HA_DigestSize alg = HashLength alg"

subsection \<open>TPM_HANDLE\<close>

text \<open>Handle of a loaded TPM key or other object [TSS].\<close>

record TPM_HANDLE =
  TPM_HANDLE_handle :: "UINT32"
  TPM_HANDLE_AuthValue :: "ByteVec"
  TPM_HANDLE_Name :: "ByteVec"

definition TPM_HANDLE_default :: TPM_HANDLE where
  "TPM_HANDLE_default = \<lparr>TPM_HANDLE_handle = TPM_RH_NULL, TPM_HANDLE_AuthValue = [], TPM_HANDLE_Name = []\<rparr>"

definition TPM_HANDLE_toTpm :: "TPM_HANDLE \<Rightarrow> unit tpm" where
  "TPM_HANDLE_toTpm self =
     wseq [writeInt (TPM_HANDLE_handle self)]"

definition TPM_HANDLE_initFromTpm :: "TPM_HANDLE \<Rightarrow> TPM_HANDLE tpm" where
  "TPM_HANDLE_initFromTpm self =
     sbind readInt (\<lambda>handle.
     ret (self\<lparr>TPM_HANDLE_handle := handle\<rparr>))"

definition TPM_HANDLE_enc :: "TPM_HANDLE \<Rightarrow> ByteVec" where
  "TPM_HANDLE_enc x =
     enc32 (TPM_HANDLE_handle x)"

definition TPM_HANDLE_valid :: "TPM_HANDLE \<Rightarrow> bool" where
  "TPM_HANDLE_valid x \<longleftrightarrow>
     TPM_HANDLE_AuthValue x = [] \<and>
     TPM_HANDLE_Name x = []"

lemma TPM_HANDLE_writes [writes_intros]:
  "TPM_HANDLE_valid x \<Longrightarrow> writes (TPM_HANDLE_toTpm x) (TPM_HANDLE_enc x)"
  unfolding TPM_HANDLE_toTpm_def TPM_HANDLE_enc_def
  by (intro writes_intros; simp add: TPM_HANDLE_valid_def opt_ok_iff)

lemma TPM_HANDLE_reads:
  "TPM_HANDLE_valid x \<Longrightarrow> reads (TPM_HANDLE_initFromTpm TPM_HANDLE_default) x (TPM_HANDLE_enc x)"
  by (simp only: TPM_HANDLE_initFromTpm_def TPM_HANDLE_enc_def TPM_HANDLE_default_def
        TPM_HANDLE.select_convs TPM_HANDLE.update_convs;
      intro reads_intros; (rule TPM_HANDLE.equality)?; simp add: TPM_HANDLE_valid_def opt_ok_iff)

lemma TPM_HANDLE_enc_nonempty [simp]: "TPM_HANDLE_enc x \<noteq> []"
  by (simp add: TPM_HANDLE_enc_def)

interpretation TPM_HANDLE_codec:
  tpm_codec TPM_HANDLE_toTpm TPM_HANDLE_initFromTpm TPM_HANDLE_default
    TPM_HANDLE_enc TPM_HANDLE_valid
  by unfold_locales (simp_all add: TPM_HANDLE_writes TPM_HANDLE_reads)

lemmas TPM_HANDLE_parts [writes_intros] = TPM_HANDLE_codec.writes_arr

lemmas TPM_HANDLE_steps [reads_intros] =
  TPM_HANDLE_reads [THEN reads_sbind] TPM_HANDLE_reads [THEN reads_sbind_ret]
  TPM_HANDLE_codec.reads_arr [THEN reads_sbind] TPM_HANDLE_codec.reads_arr [THEN reads_sbind_ret]

subsection \<open>TPMS_ALGORITHM_DESCRIPTION\<close>

text \<open>This structure is a return value for a TPM2_GetCapability() that reads the installed algorithms.\<close>

record TPMS_ALGORITHM_DESCRIPTION =
  TPMS_ALGORITHM_DESCRIPTION_alg :: "TPM_ALG_ID"
  TPMS_ALGORITHM_DESCRIPTION_attributes :: "TPMA_ALGORITHM"

definition TPMS_ALGORITHM_DESCRIPTION_default :: TPMS_ALGORITHM_DESCRIPTION where
  "TPMS_ALGORITHM_DESCRIPTION_default = \<lparr>TPMS_ALGORITHM_DESCRIPTION_alg = TPM_ALG_ID_NULL, TPMS_ALGORITHM_DESCRIPTION_attributes = 0\<rparr>"

definition TPMS_ALGORITHM_DESCRIPTION_toTpm :: "TPMS_ALGORITHM_DESCRIPTION \<Rightarrow> unit tpm" where
  "TPMS_ALGORITHM_DESCRIPTION_toTpm self =
     wseq [writeShort (TPMS_ALGORITHM_DESCRIPTION_alg self),
       writeInt (TPMS_ALGORITHM_DESCRIPTION_attributes self)]"

definition TPMS_ALGORITHM_DESCRIPTION_initFromTpm :: "TPMS_ALGORITHM_DESCRIPTION \<Rightarrow> TPMS_ALGORITHM_DESCRIPTION tpm" where
  "TPMS_ALGORITHM_DESCRIPTION_initFromTpm self =
     sbind readShort (\<lambda>alg.
     sbind readInt (\<lambda>attributes.
     ret (self\<lparr>TPMS_ALGORITHM_DESCRIPTION_alg := alg, TPMS_ALGORITHM_DESCRIPTION_attributes := attributes\<rparr>)))"

definition TPMS_ALGORITHM_DESCRIPTION_enc :: "TPMS_ALGORITHM_DESCRIPTION \<Rightarrow> ByteVec" where
  "TPMS_ALGORITHM_DESCRIPTION_enc x =
     enc16 (TPMS_ALGORITHM_DESCRIPTION_alg x) @
     enc32 (TPMS_ALGORITHM_DESCRIPTION_attributes x)"

definition TPMS_ALGORITHM_DESCRIPTION_valid :: "TPMS_ALGORITHM_DESCRIPTION \<Rightarrow> bool" where
  "TPMS_ALGORITHM_DESCRIPTION_valid x \<longleftrightarrow>
     True"

lemma TPMS_ALGORITHM_DESCRIPTION_writes [writes_intros]:
  "TPMS_ALGORITHM_DESCRIPTION_valid x \<Longrightarrow> writes (TPMS_ALGORITHM_DESCRIPTION_toTpm x) (TPMS_ALGORITHM_DESCRIPTION_enc x)"
  unfolding TPMS_ALGORITHM_DESCRIPTION_toTpm_def TPMS_ALGORITHM_DESCRIPTION_enc_def
  by (intro writes_intros; simp add: TPMS_ALGORITHM_DESCRIPTION_valid_def opt_ok_iff)

lemma TPMS_ALGORITHM_DESCRIPTION_reads:
  "TPMS_ALGORITHM_DESCRIPTION_valid x \<Longrightarrow> reads (TPMS_ALGORITHM_DESCRIPTION_initFromTpm TPMS_ALGORITHM_DESCRIPTION_default) x (TPMS_ALGORITHM_DESCRIPTION_enc x)"
  by (simp only: TPMS_ALGORITHM_DESCRIPTION_initFromTpm_def TPMS_ALGORITHM_DESCRIPTION_enc_def TPMS_ALGORITHM_DESCRIPTION_default_def
        TPMS_ALGORITHM_DESCRIPTION.select_convs TPMS_ALGORITHM_DESCRIPTION.update_convs;
      intro reads_intros; (rule TPMS_ALGORITHM_DESCRIPTION.equality)?; simp add: TPMS_ALGORITHM_DESCRIPTION_valid_def opt_ok_iff)

interpretation TPMS_ALGORITHM_DESCRIPTION_codec:
  tpm_codec TPMS_ALGORITHM_DESCRIPTION_toTpm TPMS_ALGORITHM_DESCRIPTION_initFromTpm TPMS_ALGORITHM_DESCRIPTION_default
    TPMS_ALGORITHM_DESCRIPTION_enc TPMS_ALGORITHM_DESCRIPTION_valid
  by unfold_locales (erule TPMS_ALGORITHM_DESCRIPTION_writes TPMS_ALGORITHM_DESCRIPTION_reads | simp add: TPMS_ALGORITHM_DESCRIPTION_enc_def)+

subsection \<open>TPMT_HA\<close>

text \<open>Table 80 shows the basic hash-agile structure used in this specification.\<close>

record TPMT_HA =
  TPMT_HA_hashAlg :: "TPM_ALG_ID"
  TPMT_HA_digest :: "ByteVec"

definition TPMT_HA_default :: TPMT_HA where
  "TPMT_HA_default = \<lparr>TPMT_HA_hashAlg = TPM_ALG_ID_NULL, TPMT_HA_digest = []\<rparr>"

definition TPMT_HA_toTpm :: "TPMT_HA \<Rightarrow> unit tpm" where
  "TPMT_HA_toTpm self =
     wseq [writeShort (TPMT_HA_hashAlg self),
       writeByteBuf (TPMT_HA_digest self)]"

definition TPMT_HA_initFromTpm :: "TPMT_HA \<Rightarrow> TPMT_HA tpm" where
  "TPMT_HA_initFromTpm self =
     sbind readShort (\<lambda>hashAlg.
     sbind (readByteBuf (unat (TPMT_HA_DigestSize hashAlg))) (\<lambda>digest.
     ret (self\<lparr>TPMT_HA_hashAlg := hashAlg, TPMT_HA_digest := digest\<rparr>)))"

definition TPMT_HA_enc :: "TPMT_HA \<Rightarrow> ByteVec" where
  "TPMT_HA_enc x =
     enc16 (TPMT_HA_hashAlg x) @
     TPMT_HA_digest x"

definition TPMT_HA_valid :: "TPMT_HA \<Rightarrow> bool" where
  "TPMT_HA_valid x \<longleftrightarrow>
     length (TPMT_HA_digest x) = unat (TPMT_HA_DigestSize (TPMT_HA_hashAlg x))"

lemma TPMT_HA_writes [writes_intros]:
  "TPMT_HA_valid x \<Longrightarrow> writes (TPMT_HA_toTpm x) (TPMT_HA_enc x)"
  unfolding TPMT_HA_toTpm_def TPMT_HA_enc_def
  by (intro writes_intros; simp add: TPMT_HA_valid_def opt_ok_iff)

lemma TPMT_HA_reads:
  "TPMT_HA_valid x \<Longrightarrow> reads (TPMT_HA_initFromTpm TPMT_HA_default) x (TPMT_HA_enc x)"
  by (simp only: TPMT_HA_initFromTpm_def TPMT_HA_enc_def TPMT_HA_default_def
        TPMT_HA.select_convs TPMT_HA.update_convs;
      intro reads_intros; (rule TPMT_HA.equality)?; simp add: TPMT_HA_valid_def opt_ok_iff)

lemma TPMT_HA_enc_nonempty [simp]: "TPMT_HA_enc x \<noteq> []"
  by (simp add: TPMT_HA_enc_def)

interpretation TPMT_HA_codec:
  tpm_codec TPMT_HA_toTpm TPMT_HA_initFromTpm TPMT_HA_default
    TPMT_HA_enc TPMT_HA_valid
  by unfold_locales (simp_all add: TPMT_HA_writes TPMT_HA_reads)

lemmas TPMT_HA_parts [writes_intros] = TPMT_HA_codec.writes_arr

lemmas TPMT_HA_steps [reads_intros] =
  TPMT_HA_reads [THEN reads_sbind] TPMT_HA_reads [THEN reads_sbind_ret]
  TPMT_HA_codec.reads_arr [THEN reads_sbind] TPMT_HA_codec.reads_arr [THEN reads_sbind_ret]

subsection \<open>TPM2B_DIGEST\<close>

text \<open>This structure is used for a sized buffer that cannot be larger than the largest digest produced by any hash algorithm implemented on the TPM.\<close>

record TPM2B_DIGEST =
  TPM2B_DIGEST_buffer :: "ByteVec"

definition TPM2B_DIGEST_default :: TPM2B_DIGEST where
  "TPM2B_DIGEST_default = \<lparr>TPM2B_DIGEST_buffer = []\<rparr>"

definition TPM2B_DIGEST_toTpm :: "TPM2B_DIGEST \<Rightarrow> unit tpm" where
  "TPM2B_DIGEST_toTpm self =
     wseq [writeSizedByteBuf (TPM2B_DIGEST_buffer self) 2]"

definition TPM2B_DIGEST_initFromTpm :: "TPM2B_DIGEST \<Rightarrow> TPM2B_DIGEST tpm" where
  "TPM2B_DIGEST_initFromTpm self =
     sbind (readSizedByteBuf 2) (\<lambda>buffer.
     ret (self\<lparr>TPM2B_DIGEST_buffer := buffer\<rparr>))"

definition TPM2B_DIGEST_enc :: "TPM2B_DIGEST \<Rightarrow> ByteVec" where
  "TPM2B_DIGEST_enc x =
     enc_sized 2 (TPM2B_DIGEST_buffer x)"

definition TPM2B_DIGEST_valid :: "TPM2B_DIGEST \<Rightarrow> bool" where
  "TPM2B_DIGEST_valid x \<longleftrightarrow>
     sized_ok 2 (TPM2B_DIGEST_buffer x)"

lemma TPM2B_DIGEST_writes [writes_intros]:
  "TPM2B_DIGEST_valid x \<Longrightarrow> writes (TPM2B_DIGEST_toTpm x) (TPM2B_DIGEST_enc x)"
  unfolding TPM2B_DIGEST_toTpm_def TPM2B_DIGEST_enc_def
  by (intro writes_intros; simp add: TPM2B_DIGEST_valid_def opt_ok_iff)

lemma TPM2B_DIGEST_reads:
  "TPM2B_DIGEST_valid x \<Longrightarrow> reads (TPM2B_DIGEST_initFromTpm TPM2B_DIGEST_default) x (TPM2B_DIGEST_enc x)"
  by (simp only: TPM2B_DIGEST_initFromTpm_def TPM2B_DIGEST_enc_def TPM2B_DIGEST_default_def
        TPM2B_DIGEST.select_convs TPM2B_DIGEST.update_convs;
      intro reads_intros; (rule TPM2B_DIGEST.equality)?; simp add: TPM2B_DIGEST_valid_def opt_ok_iff)

lemma TPM2B_DIGEST_enc_nonempty [simp]: "TPM2B_DIGEST_enc x \<noteq> []"
  by (simp add: TPM2B_DIGEST_enc_def)

interpretation TPM2B_DIGEST_codec:
  tpm_codec TPM2B_DIGEST_toTpm TPM2B_DIGEST_initFromTpm TPM2B_DIGEST_default
    TPM2B_DIGEST_enc TPM2B_DIGEST_valid
  by unfold_locales (simp_all add: TPM2B_DIGEST_writes TPM2B_DIGEST_reads)

lemmas TPM2B_DIGEST_parts [writes_intros] = TPM2B_DIGEST_codec.writes_arr

lemmas TPM2B_DIGEST_steps [reads_intros] =
  TPM2B_DIGEST_reads [THEN reads_sbind] TPM2B_DIGEST_reads [THEN reads_sbind_ret]
  TPM2B_DIGEST_codec.reads_arr [THEN reads_sbind] TPM2B_DIGEST_codec.reads_arr [THEN reads_sbind_ret]

subsection \<open>TPM2B_DATA\<close>

text \<open>This structure is used for a data buffer that is required to be no larger than the size of the Name of an object.\<close>

record TPM2B_DATA =
  TPM2B_DATA_buffer :: "ByteVec"

definition TPM2B_DATA_default :: TPM2B_DATA where
  "TPM2B_DATA_default = \<lparr>TPM2B_DATA_buffer = []\<rparr>"

definition TPM2B_DATA_toTpm :: "TPM2B_DATA \<Rightarrow> unit tpm" where
  "TPM2B_DATA_toTpm self =
     wseq [writeSizedByteBuf (TPM2B_DATA_buffer self) 2]"

definition TPM2B_DATA_initFromTpm :: "TPM2B_DATA \<Rightarrow> TPM2B_DATA tpm" where
  "TPM2B_DATA_initFromTpm self =
     sbind (readSizedByteBuf 2) (\<lambda>buffer.
     ret (self\<lparr>TPM2B_DATA_buffer := buffer\<rparr>))"

definition TPM2B_DATA_enc :: "TPM2B_DATA \<Rightarrow> ByteVec" where
  "TPM2B_DATA_enc x =
     enc_sized 2 (TPM2B_DATA_buffer x)"

definition TPM2B_DATA_valid :: "TPM2B_DATA \<Rightarrow> bool" where
  "TPM2B_DATA_valid x \<longleftrightarrow>
     sized_ok 2 (TPM2B_DATA_buffer x)"

lemma TPM2B_DATA_writes [writes_intros]:
  "TPM2B_DATA_valid x \<Longrightarrow> writes (TPM2B_DATA_toTpm x) (TPM2B_DATA_enc x)"
  unfolding TPM2B_DATA_toTpm_def TPM2B_DATA_enc_def
  by (intro writes_intros; simp add: TPM2B_DATA_valid_def opt_ok_iff)

lemma TPM2B_DATA_reads:
  "TPM2B_DATA_valid x \<Longrightarrow> reads (TPM2B_DATA_initFromTpm TPM2B_DATA_default) x (TPM2B_DATA_enc x)"
  by (simp only: TPM2B_DATA_initFromTpm_def TPM2B_DATA_enc_def TPM2B_DATA_default_def
        TPM2B_DATA.select_convs TPM2B_DATA.update_convs;
      intro reads_intros; (rule TPM2B_DATA.equality)?; simp add: TPM2B_DATA_valid_def opt_ok_iff)

interpretation TPM2B_DATA_codec:
  tpm_codec TPM2B_DATA_toTpm TPM2B_DATA_initFromTpm TPM2B_DATA_default
    TPM2B_DATA_enc TPM2B_DATA_valid
  by unfold_locales (erule TPM2B_DATA_writes TPM2B_DATA_reads | simp add: TPM2B_DATA_enc_def)+

subsection \<open>TPM2B_EVENT\<close>

text \<open>This type is a sized buffer that can hold event data.\<close>

record TPM2B_EVENT =
  TPM2B_EVENT_buffer :: "ByteVec"

definition TPM2B_EVENT_default :: TPM2B_EVENT where
  "TPM2B_EVENT_default = \<lparr>TPM2B_EVENT_buffer = []\<rparr>"

definition TPM2B_EVENT_toTpm :: "TPM2B_EVENT \<Rightarrow> unit tpm" where
  "TPM2B_EVENT_toTpm self =
     wseq [writeSizedByteBuf (TPM2B_EVENT_buffer self) 2]"

definition TPM2B_EVENT_initFromTpm :: "TPM2B_EVENT \<Rightarrow> TPM2B_EVENT tpm" where
  "TPM2B_EVENT_initFromTpm self =
     sbind (readSizedByteBuf 2) (\<lambda>buffer.
     ret (self\<lparr>TPM2B_EVENT_buffer := buffer\<rparr>))"

definition TPM2B_EVENT_enc :: "TPM2B_EVENT \<Rightarrow> ByteVec" where
  "TPM2B_EVENT_enc x =
     enc_sized 2 (TPM2B_EVENT_buffer x)"

definition TPM2B_EVENT_valid :: "TPM2B_EVENT \<Rightarrow> bool" where
  "TPM2B_EVENT_valid x \<longleftrightarrow>
     sized_ok 2 (TPM2B_EVENT_buffer x)"

lemma TPM2B_EVENT_writes [writes_intros]:
  "TPM2B_EVENT_valid x \<Longrightarrow> writes (TPM2B_EVENT_toTpm x) (TPM2B_EVENT_enc x)"
  unfolding TPM2B_EVENT_toTpm_def TPM2B_EVENT_enc_def
  by (intro writes_intros; simp add: TPM2B_EVENT_valid_def opt_ok_iff)

lemma TPM2B_EVENT_reads:
  "TPM2B_EVENT_valid x \<Longrightarrow> reads (TPM2B_EVENT_initFromTpm TPM2B_EVENT_default) x (TPM2B_EVENT_enc x)"
  by (simp only: TPM2B_EVENT_initFromTpm_def TPM2B_EVENT_enc_def TPM2B_EVENT_default_def
        TPM2B_EVENT.select_convs TPM2B_EVENT.update_convs;
      intro reads_intros; (rule TPM2B_EVENT.equality)?; simp add: TPM2B_EVENT_valid_def opt_ok_iff)

interpretation TPM2B_EVENT_codec:
  tpm_codec TPM2B_EVENT_toTpm TPM2B_EVENT_initFromTpm TPM2B_EVENT_default
    TPM2B_EVENT_enc TPM2B_EVENT_valid
  by unfold_locales (erule TPM2B_EVENT_writes TPM2B_EVENT_reads | simp add: TPM2B_EVENT_enc_def)+

subsection \<open>TPM2B_MAX_BUFFER\<close>

text \<open>This type is a sized buffer that can hold a maximally sized buffer for commands that use a large data buffer such as TPM2_Hash(), ....\<close>

record TPM2B_MAX_BUFFER =
  TPM2B_MAX_BUFFER_buffer :: "ByteVec"

definition TPM2B_MAX_BUFFER_default :: TPM2B_MAX_BUFFER where
  "TPM2B_MAX_BUFFER_default = \<lparr>TPM2B_MAX_BUFFER_buffer = []\<rparr>"

definition TPM2B_MAX_BUFFER_toTpm :: "TPM2B_MAX_BUFFER \<Rightarrow> unit tpm" where
  "TPM2B_MAX_BUFFER_toTpm self =
     wseq [writeSizedByteBuf (TPM2B_MAX_BUFFER_buffer self) 2]"

definition TPM2B_MAX_BUFFER_initFromTpm :: "TPM2B_MAX_BUFFER \<Rightarrow> TPM2B_MAX_BUFFER tpm" where
  "TPM2B_MAX_BUFFER_initFromTpm self =
     sbind (readSizedByteBuf 2) (\<lambda>buffer.
     ret (self\<lparr>TPM2B_MAX_BUFFER_buffer := buffer\<rparr>))"

definition TPM2B_MAX_BUFFER_enc :: "TPM2B_MAX_BUFFER \<Rightarrow> ByteVec" where
  "TPM2B_MAX_BUFFER_enc x =
     enc_sized 2 (TPM2B_MAX_BUFFER_buffer x)"

definition TPM2B_MAX_BUFFER_valid :: "TPM2B_MAX_BUFFER \<Rightarrow> bool" where
  "TPM2B_MAX_BUFFER_valid x \<longleftrightarrow>
     sized_ok 2 (TPM2B_MAX_BUFFER_buffer x)"

lemma TPM2B_MAX_BUFFER_writes [writes_intros]:
  "TPM2B_MAX_BUFFER_valid x \<Longrightarrow> writes (TPM2B_MAX_BUFFER_toTpm x) (TPM2B_MAX_BUFFER_enc x)"
  unfolding TPM2B_MAX_BUFFER_toTpm_def TPM2B_MAX_BUFFER_enc_def
  by (intro writes_intros; simp add: TPM2B_MAX_BUFFER_valid_def opt_ok_iff)

lemma TPM2B_MAX_BUFFER_reads:
  "TPM2B_MAX_BUFFER_valid x \<Longrightarrow> reads (TPM2B_MAX_BUFFER_initFromTpm TPM2B_MAX_BUFFER_default) x (TPM2B_MAX_BUFFER_enc x)"
  by (simp only: TPM2B_MAX_BUFFER_initFromTpm_def TPM2B_MAX_BUFFER_enc_def TPM2B_MAX_BUFFER_default_def
        TPM2B_MAX_BUFFER.select_convs TPM2B_MAX_BUFFER.update_convs;
      intro reads_intros; (rule TPM2B_MAX_BUFFER.equality)?; simp add: TPM2B_MAX_BUFFER_valid_def opt_ok_iff)

interpretation TPM2B_MAX_BUFFER_codec:
  tpm_codec TPM2B_MAX_BUFFER_toTpm TPM2B_MAX_BUFFER_initFromTpm TPM2B_MAX_BUFFER_default
    TPM2B_MAX_BUFFER_enc TPM2B_MAX_BUFFER_valid
  by unfold_locales (erule TPM2B_MAX_BUFFER_writes TPM2B_MAX_BUFFER_reads | simp add: TPM2B_MAX_BUFFER_enc_def)+

subsection \<open>TPM2B_MAX_NV_BUFFER\<close>

text \<open>This type is a sized buffer that can hold a maximally sized buffer for NV data commands such as TPM2_NV_Read(), TPM2_NV_Write(), and TPM2_NV_Certify().\<close>

record TPM2B_MAX_NV_BUFFER =
  TPM2B_MAX_NV_BUFFER_buffer :: "ByteVec"

definition TPM2B_MAX_NV_BUFFER_default :: TPM2B_MAX_NV_BUFFER where
  "TPM2B_MAX_NV_BUFFER_default = \<lparr>TPM2B_MAX_NV_BUFFER_buffer = []\<rparr>"

definition TPM2B_MAX_NV_BUFFER_toTpm :: "TPM2B_MAX_NV_BUFFER \<Rightarrow> unit tpm" where
  "TPM2B_MAX_NV_BUFFER_toTpm self =
     wseq [writeSizedByteBuf (TPM2B_MAX_NV_BUFFER_buffer self) 2]"

definition TPM2B_MAX_NV_BUFFER_initFromTpm :: "TPM2B_MAX_NV_BUFFER \<Rightarrow> TPM2B_MAX_NV_BUFFER tpm" where
  "TPM2B_MAX_NV_BUFFER_initFromTpm self =
     sbind (readSizedByteBuf 2) (\<lambda>buffer.
     ret (self\<lparr>TPM2B_MAX_NV_BUFFER_buffer := buffer\<rparr>))"

definition TPM2B_MAX_NV_BUFFER_enc :: "TPM2B_MAX_NV_BUFFER \<Rightarrow> ByteVec" where
  "TPM2B_MAX_NV_BUFFER_enc x =
     enc_sized 2 (TPM2B_MAX_NV_BUFFER_buffer x)"

definition TPM2B_MAX_NV_BUFFER_valid :: "TPM2B_MAX_NV_BUFFER \<Rightarrow> bool" where
  "TPM2B_MAX_NV_BUFFER_valid x \<longleftrightarrow>
     sized_ok 2 (TPM2B_MAX_NV_BUFFER_buffer x)"

lemma TPM2B_MAX_NV_BUFFER_writes [writes_intros]:
  "TPM2B_MAX_NV_BUFFER_valid x \<Longrightarrow> writes (TPM2B_MAX_NV_BUFFER_toTpm x) (TPM2B_MAX_NV_BUFFER_enc x)"
  unfolding TPM2B_MAX_NV_BUFFER_toTpm_def TPM2B_MAX_NV_BUFFER_enc_def
  by (intro writes_intros; simp add: TPM2B_MAX_NV_BUFFER_valid_def opt_ok_iff)

lemma TPM2B_MAX_NV_BUFFER_reads:
  "TPM2B_MAX_NV_BUFFER_valid x \<Longrightarrow> reads (TPM2B_MAX_NV_BUFFER_initFromTpm TPM2B_MAX_NV_BUFFER_default) x (TPM2B_MAX_NV_BUFFER_enc x)"
  by (simp only: TPM2B_MAX_NV_BUFFER_initFromTpm_def TPM2B_MAX_NV_BUFFER_enc_def TPM2B_MAX_NV_BUFFER_default_def
        TPM2B_MAX_NV_BUFFER.select_convs TPM2B_MAX_NV_BUFFER.update_convs;
      intro reads_intros; (rule TPM2B_MAX_NV_BUFFER.equality)?; simp add: TPM2B_MAX_NV_BUFFER_valid_def opt_ok_iff)

interpretation TPM2B_MAX_NV_BUFFER_codec:
  tpm_codec TPM2B_MAX_NV_BUFFER_toTpm TPM2B_MAX_NV_BUFFER_initFromTpm TPM2B_MAX_NV_BUFFER_default
    TPM2B_MAX_NV_BUFFER_enc TPM2B_MAX_NV_BUFFER_valid
  by unfold_locales (erule TPM2B_MAX_NV_BUFFER_writes TPM2B_MAX_NV_BUFFER_reads | simp add: TPM2B_MAX_NV_BUFFER_enc_def)+

subsection \<open>TPM2B_TIMEOUT\<close>

text \<open>This TPM-dependent structure is used to provide the timeout value for an authorization.\<close>

record TPM2B_TIMEOUT =
  TPM2B_TIMEOUT_buffer :: "ByteVec"

definition TPM2B_TIMEOUT_default :: TPM2B_TIMEOUT where
  "TPM2B_TIMEOUT_default = \<lparr>TPM2B_TIMEOUT_buffer = []\<rparr>"

definition TPM2B_TIMEOUT_toTpm :: "TPM2B_TIMEOUT \<Rightarrow> unit tpm" where
  "TPM2B_TIMEOUT_toTpm self =
     wseq [writeSizedByteBuf (TPM2B_TIMEOUT_buffer self) 2]"

definition TPM2B_TIMEOUT_initFromTpm :: "TPM2B_TIMEOUT \<Rightarrow> TPM2B_TIMEOUT tpm" where
  "TPM2B_TIMEOUT_initFromTpm self =
     sbind (readSizedByteBuf 2) (\<lambda>buffer.
     ret (self\<lparr>TPM2B_TIMEOUT_buffer := buffer\<rparr>))"

definition TPM2B_TIMEOUT_enc :: "TPM2B_TIMEOUT \<Rightarrow> ByteVec" where
  "TPM2B_TIMEOUT_enc x =
     enc_sized 2 (TPM2B_TIMEOUT_buffer x)"

definition TPM2B_TIMEOUT_valid :: "TPM2B_TIMEOUT \<Rightarrow> bool" where
  "TPM2B_TIMEOUT_valid x \<longleftrightarrow>
     sized_ok 2 (TPM2B_TIMEOUT_buffer x)"

lemma TPM2B_TIMEOUT_writes [writes_intros]:
  "TPM2B_TIMEOUT_valid x \<Longrightarrow> writes (TPM2B_TIMEOUT_toTpm x) (TPM2B_TIMEOUT_enc x)"
  unfolding TPM2B_TIMEOUT_toTpm_def TPM2B_TIMEOUT_enc_def
  by (intro writes_intros; simp add: TPM2B_TIMEOUT_valid_def opt_ok_iff)

lemma TPM2B_TIMEOUT_reads:
  "TPM2B_TIMEOUT_valid x \<Longrightarrow> reads (TPM2B_TIMEOUT_initFromTpm TPM2B_TIMEOUT_default) x (TPM2B_TIMEOUT_enc x)"
  by (simp only: TPM2B_TIMEOUT_initFromTpm_def TPM2B_TIMEOUT_enc_def TPM2B_TIMEOUT_default_def
        TPM2B_TIMEOUT.select_convs TPM2B_TIMEOUT.update_convs;
      intro reads_intros; (rule TPM2B_TIMEOUT.equality)?; simp add: TPM2B_TIMEOUT_valid_def opt_ok_iff)

interpretation TPM2B_TIMEOUT_codec:
  tpm_codec TPM2B_TIMEOUT_toTpm TPM2B_TIMEOUT_initFromTpm TPM2B_TIMEOUT_default
    TPM2B_TIMEOUT_enc TPM2B_TIMEOUT_valid
  by unfold_locales (erule TPM2B_TIMEOUT_writes TPM2B_TIMEOUT_reads | simp add: TPM2B_TIMEOUT_enc_def)+

subsection \<open>TPM2B_IV\<close>

text \<open>This structure is used for passing an initial value for a symmetric block cipher to or from the TPM. The size is set to be the largest block size of ....\<close>

record TPM2B_IV =
  TPM2B_IV_buffer :: "ByteVec"

definition TPM2B_IV_default :: TPM2B_IV where
  "TPM2B_IV_default = \<lparr>TPM2B_IV_buffer = []\<rparr>"

definition TPM2B_IV_toTpm :: "TPM2B_IV \<Rightarrow> unit tpm" where
  "TPM2B_IV_toTpm self =
     wseq [writeSizedByteBuf (TPM2B_IV_buffer self) 2]"

definition TPM2B_IV_initFromTpm :: "TPM2B_IV \<Rightarrow> TPM2B_IV tpm" where
  "TPM2B_IV_initFromTpm self =
     sbind (readSizedByteBuf 2) (\<lambda>buffer.
     ret (self\<lparr>TPM2B_IV_buffer := buffer\<rparr>))"

definition TPM2B_IV_enc :: "TPM2B_IV \<Rightarrow> ByteVec" where
  "TPM2B_IV_enc x =
     enc_sized 2 (TPM2B_IV_buffer x)"

definition TPM2B_IV_valid :: "TPM2B_IV \<Rightarrow> bool" where
  "TPM2B_IV_valid x \<longleftrightarrow>
     sized_ok 2 (TPM2B_IV_buffer x)"

lemma TPM2B_IV_writes [writes_intros]:
  "TPM2B_IV_valid x \<Longrightarrow> writes (TPM2B_IV_toTpm x) (TPM2B_IV_enc x)"
  unfolding TPM2B_IV_toTpm_def TPM2B_IV_enc_def
  by (intro writes_intros; simp add: TPM2B_IV_valid_def opt_ok_iff)

lemma TPM2B_IV_reads:
  "TPM2B_IV_valid x \<Longrightarrow> reads (TPM2B_IV_initFromTpm TPM2B_IV_default) x (TPM2B_IV_enc x)"
  by (simp only: TPM2B_IV_initFromTpm_def TPM2B_IV_enc_def TPM2B_IV_default_def
        TPM2B_IV.select_convs TPM2B_IV.update_convs;
      intro reads_intros; (rule TPM2B_IV.equality)?; simp add: TPM2B_IV_valid_def opt_ok_iff)

interpretation TPM2B_IV_codec:
  tpm_codec TPM2B_IV_toTpm TPM2B_IV_initFromTpm TPM2B_IV_default
    TPM2B_IV_enc TPM2B_IV_valid
  by unfold_locales (erule TPM2B_IV_writes TPM2B_IV_reads | simp add: TPM2B_IV_enc_def)+

subsection \<open>TPM2B_NAME\<close>

text \<open>This buffer holds a Name for any entity type.\<close>

record TPM2B_NAME =
  TPM2B_NAME_name :: "ByteVec"

definition TPM2B_NAME_default :: TPM2B_NAME where
  "TPM2B_NAME_default = \<lparr>TPM2B_NAME_name = []\<rparr>"

definition TPM2B_NAME_toTpm :: "TPM2B_NAME \<Rightarrow> unit tpm" where
  "TPM2B_NAME_toTpm self =
     wseq [writeSizedByteBuf (TPM2B_NAME_name self) 2]"

definition TPM2B_NAME_initFromTpm :: "TPM2B_NAME \<Rightarrow> TPM2B_NAME tpm" where
  "TPM2B_NAME_initFromTpm self =
     sbind (readSizedByteBuf 2) (\<lambda>name.
     ret (self\<lparr>TPM2B_NAME_name := name\<rparr>))"

definition TPM2B_NAME_enc :: "TPM2B_NAME \<Rightarrow> ByteVec" where
  "TPM2B_NAME_enc x =
     enc_sized 2 (TPM2B_NAME_name x)"

definition TPM2B_NAME_valid :: "TPM2B_NAME \<Rightarrow> bool" where
  "TPM2B_NAME_valid x \<longleftrightarrow>
     sized_ok 2 (TPM2B_NAME_name x)"

lemma TPM2B_NAME_writes [writes_intros]:
  "TPM2B_NAME_valid x \<Longrightarrow> writes (TPM2B_NAME_toTpm x) (TPM2B_NAME_enc x)"
  unfolding TPM2B_NAME_toTpm_def TPM2B_NAME_enc_def
  by (intro writes_intros; simp add: TPM2B_NAME_valid_def opt_ok_iff)

lemma TPM2B_NAME_reads:
  "TPM2B_NAME_valid x \<Longrightarrow> reads (TPM2B_NAME_initFromTpm TPM2B_NAME_default) x (TPM2B_NAME_enc x)"
  by (simp only: TPM2B_NAME_initFromTpm_def TPM2B_NAME_enc_def TPM2B_NAME_default_def
        TPM2B_NAME.select_convs TPM2B_NAME.update_convs;
      intro reads_intros; (rule TPM2B_NAME.equality)?; simp add: TPM2B_NAME_valid_def opt_ok_iff)

interpretation TPM2B_NAME_codec:
  tpm_codec TPM2B_NAME_toTpm TPM2B_NAME_initFromTpm TPM2B_NAME_default
    TPM2B_NAME_enc TPM2B_NAME_valid
  by unfold_locales (erule TPM2B_NAME_writes TPM2B_NAME_reads | simp add: TPM2B_NAME_enc_def)+

subsection \<open>TPMS_PCR_SELECT\<close>

text \<open>This structure provides a standard method of specifying a list of PCR.\<close>

record TPMS_PCR_SELECT =
  TPMS_PCR_SELECT_pcrSelect :: "ByteVec"

definition TPMS_PCR_SELECT_default :: TPMS_PCR_SELECT where
  "TPMS_PCR_SELECT_default = \<lparr>TPMS_PCR_SELECT_pcrSelect = []\<rparr>"

definition TPMS_PCR_SELECT_toTpm :: "TPMS_PCR_SELECT \<Rightarrow> unit tpm" where
  "TPMS_PCR_SELECT_toTpm self =
     wseq [writeSizedByteBuf (TPMS_PCR_SELECT_pcrSelect self) 1]"

definition TPMS_PCR_SELECT_initFromTpm :: "TPMS_PCR_SELECT \<Rightarrow> TPMS_PCR_SELECT tpm" where
  "TPMS_PCR_SELECT_initFromTpm self =
     sbind (readSizedByteBuf 1) (\<lambda>pcrSelect.
     ret (self\<lparr>TPMS_PCR_SELECT_pcrSelect := pcrSelect\<rparr>))"

definition TPMS_PCR_SELECT_enc :: "TPMS_PCR_SELECT \<Rightarrow> ByteVec" where
  "TPMS_PCR_SELECT_enc x =
     enc_sized 1 (TPMS_PCR_SELECT_pcrSelect x)"

definition TPMS_PCR_SELECT_valid :: "TPMS_PCR_SELECT \<Rightarrow> bool" where
  "TPMS_PCR_SELECT_valid x \<longleftrightarrow>
     sized_ok 1 (TPMS_PCR_SELECT_pcrSelect x)"

lemma TPMS_PCR_SELECT_writes [writes_intros]:
  "TPMS_PCR_SELECT_valid x \<Longrightarrow> writes (TPMS_PCR_SELECT_toTpm x) (TPMS_PCR_SELECT_enc x)"
  unfolding TPMS_PCR_SELECT_toTpm_def TPMS_PCR_SELECT_enc_def
  by (intro writes_intros; simp add: TPMS_PCR_SELECT_valid_def opt_ok_iff)

lemma TPMS_PCR_SELECT_reads:
  "TPMS_PCR_SELECT_valid x \<Longrightarrow> reads (TPMS_PCR_SELECT_initFromTpm TPMS_PCR_SELECT_default) x (TPMS_PCR_SELECT_enc x)"
  by (simp only: TPMS_PCR_SELECT_initFromTpm_def TPMS_PCR_SELECT_enc_def TPMS_PCR_SELECT_default_def
        TPMS_PCR_SELECT.select_convs TPMS_PCR_SELECT.update_convs;
      intro reads_intros; (rule TPMS_PCR_SELECT.equality)?; simp add: TPMS_PCR_SELECT_valid_def opt_ok_iff)

interpretation TPMS_PCR_SELECT_codec:
  tpm_codec TPMS_PCR_SELECT_toTpm TPMS_PCR_SELECT_initFromTpm TPMS_PCR_SELECT_default
    TPMS_PCR_SELECT_enc TPMS_PCR_SELECT_valid
  by unfold_locales (erule TPMS_PCR_SELECT_writes TPMS_PCR_SELECT_reads | simp add: TPMS_PCR_SELECT_enc_def)+

subsection \<open>TPMS_PCR_SELECTION\<close>

text \<open>Table 94 Definition of TPMS_PCR_SELECTION Structure.\<close>

record TPMS_PCR_SELECTION =
  TPMS_PCR_SELECTION_hash :: "TPM_ALG_ID"
  TPMS_PCR_SELECTION_pcrSelect :: "ByteVec"

definition TPMS_PCR_SELECTION_default :: TPMS_PCR_SELECTION where
  "TPMS_PCR_SELECTION_default = \<lparr>TPMS_PCR_SELECTION_hash = TPM_ALG_ID_NULL, TPMS_PCR_SELECTION_pcrSelect = []\<rparr>"

definition TPMS_PCR_SELECTION_toTpm :: "TPMS_PCR_SELECTION \<Rightarrow> unit tpm" where
  "TPMS_PCR_SELECTION_toTpm self =
     wseq [writeShort (TPMS_PCR_SELECTION_hash self),
       writeSizedByteBuf (TPMS_PCR_SELECTION_pcrSelect self) 1]"

definition TPMS_PCR_SELECTION_initFromTpm :: "TPMS_PCR_SELECTION \<Rightarrow> TPMS_PCR_SELECTION tpm" where
  "TPMS_PCR_SELECTION_initFromTpm self =
     sbind readShort (\<lambda>hash.
     sbind (readSizedByteBuf 1) (\<lambda>pcrSelect.
     ret (self\<lparr>TPMS_PCR_SELECTION_hash := hash, TPMS_PCR_SELECTION_pcrSelect := pcrSelect\<rparr>)))"

definition TPMS_PCR_SELECTION_enc :: "TPMS_PCR_SELECTION \<Rightarrow> ByteVec" where
  "TPMS_PCR_SELECTION_enc x =
     enc16 (TPMS_PCR_SELECTION_hash x) @
     enc_sized 1 (TPMS_PCR_SELECTION_pcrSelect x)"

definition TPMS_PCR_SELECTION_valid :: "TPMS_PCR_SELECTION \<Rightarrow> bool" where
  "TPMS_PCR_SELECTION_valid x \<longleftrightarrow>
     sized_ok 1 (TPMS_PCR_SELECTION_pcrSelect x)"

lemma TPMS_PCR_SELECTION_writes [writes_intros]:
  "TPMS_PCR_SELECTION_valid x \<Longrightarrow> writes (TPMS_PCR_SELECTION_toTpm x) (TPMS_PCR_SELECTION_enc x)"
  unfolding TPMS_PCR_SELECTION_toTpm_def TPMS_PCR_SELECTION_enc_def
  by (intro writes_intros; simp add: TPMS_PCR_SELECTION_valid_def opt_ok_iff)

lemma TPMS_PCR_SELECTION_reads:
  "TPMS_PCR_SELECTION_valid x \<Longrightarrow> reads (TPMS_PCR_SELECTION_initFromTpm TPMS_PCR_SELECTION_default) x (TPMS_PCR_SELECTION_enc x)"
  by (simp only: TPMS_PCR_SELECTION_initFromTpm_def TPMS_PCR_SELECTION_enc_def TPMS_PCR_SELECTION_default_def
        TPMS_PCR_SELECTION.select_convs TPMS_PCR_SELECTION.update_convs;
      intro reads_intros; (rule TPMS_PCR_SELECTION.equality)?; simp add: TPMS_PCR_SELECTION_valid_def opt_ok_iff)

lemma TPMS_PCR_SELECTION_enc_nonempty [simp]: "TPMS_PCR_SELECTION_enc x \<noteq> []"
  by (simp add: TPMS_PCR_SELECTION_enc_def)

interpretation TPMS_PCR_SELECTION_codec:
  tpm_codec TPMS_PCR_SELECTION_toTpm TPMS_PCR_SELECTION_initFromTpm TPMS_PCR_SELECTION_default
    TPMS_PCR_SELECTION_enc TPMS_PCR_SELECTION_valid
  by unfold_locales (simp_all add: TPMS_PCR_SELECTION_writes TPMS_PCR_SELECTION_reads)

lemmas TPMS_PCR_SELECTION_parts [writes_intros] = TPMS_PCR_SELECTION_codec.writes_arr

lemmas TPMS_PCR_SELECTION_steps [reads_intros] =
  TPMS_PCR_SELECTION_reads [THEN reads_sbind] TPMS_PCR_SELECTION_reads [THEN reads_sbind_ret]
  TPMS_PCR_SELECTION_codec.reads_arr [THEN reads_sbind] TPMS_PCR_SELECTION_codec.reads_arr [THEN reads_sbind_ret]

subsection \<open>TPMT_TK_CREATION\<close>

text \<open>This ticket is produced by TPM2_Create() or TPM2_CreatePrimary().\<close>

record TPMT_TK_CREATION =
  TPMT_TK_CREATION_hierarchy :: "TPM_HANDLE"
  TPMT_TK_CREATION_digest :: "ByteVec"

definition TPMT_TK_CREATION_default :: TPMT_TK_CREATION where
  "TPMT_TK_CREATION_default = \<lparr>TPMT_TK_CREATION_hierarchy = TPM_HANDLE_default, TPMT_TK_CREATION_digest = []\<rparr>"

definition TPMT_TK_CREATION_toTpm :: "TPMT_TK_CREATION \<Rightarrow> unit tpm" where
  "TPMT_TK_CREATION_toTpm self =
     wseq [writeShort TPM_ST_CREATION,
       TPM_HANDLE_toTpm (TPMT_TK_CREATION_hierarchy self),
       writeSizedByteBuf (TPMT_TK_CREATION_digest self) 2]"

definition TPMT_TK_CREATION_initFromTpm :: "TPMT_TK_CREATION \<Rightarrow> TPMT_TK_CREATION tpm" where
  "TPMT_TK_CREATION_initFromTpm self =
     sbind readShort (\<lambda>_.
     sbind (TPM_HANDLE_initFromTpm (TPMT_TK_CREATION_hierarchy self)) (\<lambda>hierarchy.
     sbind (readSizedByteBuf 2) (\<lambda>digest.
     ret (self\<lparr>TPMT_TK_CREATION_hierarchy := hierarchy, TPMT_TK_CREATION_digest := digest\<rparr>))))"

definition TPMT_TK_CREATION_enc :: "TPMT_TK_CREATION \<Rightarrow> ByteVec" where
  "TPMT_TK_CREATION_enc x =
     enc16 TPM_ST_CREATION @
     TPM_HANDLE_enc (TPMT_TK_CREATION_hierarchy x) @
     enc_sized 2 (TPMT_TK_CREATION_digest x)"

definition TPMT_TK_CREATION_valid :: "TPMT_TK_CREATION \<Rightarrow> bool" where
  "TPMT_TK_CREATION_valid x \<longleftrightarrow>
     TPM_HANDLE_valid (TPMT_TK_CREATION_hierarchy x) \<and>
     sized_ok 2 (TPMT_TK_CREATION_digest x)"

lemma TPMT_TK_CREATION_writes [writes_intros]:
  "TPMT_TK_CREATION_valid x \<Longrightarrow> writes (TPMT_TK_CREATION_toTpm x) (TPMT_TK_CREATION_enc x)"
  unfolding TPMT_TK_CREATION_toTpm_def TPMT_TK_CREATION_enc_def
  by (intro writes_intros; simp add: TPMT_TK_CREATION_valid_def opt_ok_iff)

lemma TPMT_TK_CREATION_reads:
  "TPMT_TK_CREATION_valid x \<Longrightarrow> reads (TPMT_TK_CREATION_initFromTpm TPMT_TK_CREATION_default) x (TPMT_TK_CREATION_enc x)"
  by (simp only: TPMT_TK_CREATION_initFromTpm_def TPMT_TK_CREATION_enc_def TPMT_TK_CREATION_default_def
        TPMT_TK_CREATION.select_convs TPMT_TK_CREATION.update_convs;
      intro reads_intros; (rule TPMT_TK_CREATION.equality)?; simp add: TPMT_TK_CREATION_valid_def opt_ok_iff)

lemma TPMT_TK_CREATION_enc_nonempty [simp]: "TPMT_TK_CREATION_enc x \<noteq> []"
  by (simp add: TPMT_TK_CREATION_enc_def)

interpretation TPMT_TK_CREATION_codec:
  tpm_codec TPMT_TK_CREATION_toTpm TPMT_TK_CREATION_initFromTpm TPMT_TK_CREATION_default
    TPMT_TK_CREATION_enc TPMT_TK_CREATION_valid
  by unfold_locales (simp_all add: TPMT_TK_CREATION_writes TPMT_TK_CREATION_reads)

lemmas TPMT_TK_CREATION_steps [reads_intros] =
  TPMT_TK_CREATION_reads [THEN reads_sbind] TPMT_TK_CREATION_reads [THEN reads_sbind_ret]

subsection \<open>TPMT_TK_VERIFIED\<close>

text \<open>This ticket is produced by TPM2_VerifySignature().\<close>

record TPMT_TK_VERIFIED =
  TPMT_TK_VERIFIED_hierarchy :: "TPM_HANDLE"
  TPMT_TK_VERIFIED_digest :: "ByteVec"

definition TPMT_TK_VERIFIED_default :: TPMT_TK_VERIFIED where
  "TPMT_TK_VERIFIED_default = \<lparr>TPMT_TK_VERIFIED_hierarchy = TPM_HANDLE_default, TPMT_TK_VERIFIED_digest = []\<rparr>"

definition TPMT_TK_VERIFIED_toTpm :: "TPMT_TK_VERIFIED \<Rightarrow> unit tpm" where
  "TPMT_TK_VERIFIED_toTpm self =
     wseq [writeShort TPM_ST_VERIFIED,
       TPM_HANDLE_toTpm (TPMT_TK_VERIFIED_hierarchy self),
       writeSizedByteBuf (TPMT_TK_VERIFIED_digest self) 2]"

definition TPMT_TK_VERIFIED_initFromTpm :: "TPMT_TK_VERIFIED \<Rightarrow> TPMT_TK_VERIFIED tpm" where
  "TPMT_TK_VERIFIED_initFromTpm self =
     sbind readShort (\<lambda>_.
     sbind (TPM_HANDLE_initFromTpm (TPMT_TK_VERIFIED_hierarchy self)) (\<lambda>hierarchy.
     sbind (readSizedByteBuf 2) (\<lambda>digest.
     ret (self\<lparr>TPMT_TK_VERIFIED_hierarchy := hierarchy, TPMT_TK_VERIFIED_digest := digest\<rparr>))))"

definition TPMT_TK_VERIFIED_enc :: "TPMT_TK_VERIFIED \<Rightarrow> ByteVec" where
  "TPMT_TK_VERIFIED_enc x =
     enc16 TPM_ST_VERIFIED @
     TPM_HANDLE_enc (TPMT_TK_VERIFIED_hierarchy x) @
     enc_sized 2 (TPMT_TK_VERIFIED_digest x)"

definition TPMT_TK_VERIFIED_valid :: "TPMT_TK_VERIFIED \<Rightarrow> bool" where
  "TPMT_TK_VERIFIED_valid x \<longleftrightarrow>
     TPM_HANDLE_valid (TPMT_TK_VERIFIED_hierarchy x) \<and>
     sized_ok 2 (TPMT_TK_VERIFIED_digest x)"

lemma TPMT_TK_VERIFIED_writes [writes_intros]:
  "TPMT_TK_VERIFIED_valid x \<Longrightarrow> writes (TPMT_TK_VERIFIED_toTpm x) (TPMT_TK_VERIFIED_enc x)"
  unfolding TPMT_TK_VERIFIED_toTpm_def TPMT_TK_VERIFIED_enc_def
  by (intro writes_intros; simp add: TPMT_TK_VERIFIED_valid_def opt_ok_iff)

lemma TPMT_TK_VERIFIED_reads:
  "TPMT_TK_VERIFIED_valid x \<Longrightarrow> reads (TPMT_TK_VERIFIED_initFromTpm TPMT_TK_VERIFIED_default) x (TPMT_TK_VERIFIED_enc x)"
  by (simp only: TPMT_TK_VERIFIED_initFromTpm_def TPMT_TK_VERIFIED_enc_def TPMT_TK_VERIFIED_default_def
        TPMT_TK_VERIFIED.select_convs TPMT_TK_VERIFIED.update_convs;
      intro reads_intros; (rule TPMT_TK_VERIFIED.equality)?; simp add: TPMT_TK_VERIFIED_valid_def opt_ok_iff)

lemma TPMT_TK_VERIFIED_enc_nonempty [simp]: "TPMT_TK_VERIFIED_enc x \<noteq> []"
  by (simp add: TPMT_TK_VERIFIED_enc_def)

interpretation TPMT_TK_VERIFIED_codec:
  tpm_codec TPMT_TK_VERIFIED_toTpm TPMT_TK_VERIFIED_initFromTpm TPMT_TK_VERIFIED_default
    TPMT_TK_VERIFIED_enc TPMT_TK_VERIFIED_valid
  by unfold_locales (simp_all add: TPMT_TK_VERIFIED_writes TPMT_TK_VERIFIED_reads)

lemmas TPMT_TK_VERIFIED_steps [reads_intros] =
  TPMT_TK_VERIFIED_reads [THEN reads_sbind] TPMT_TK_VERIFIED_reads [THEN reads_sbind_ret]

subsection \<open>TPMT_TK_AUTH\<close>

text \<open>This ticket is produced by TPM2_PolicySigned() and TPM2_PolicySecret() when the authorization has an expiration time.\<close>

record TPMT_TK_AUTH =
  TPMT_TK_AUTH_tag :: "TPM_ST"
  TPMT_TK_AUTH_hierarchy :: "TPM_HANDLE"
  TPMT_TK_AUTH_digest :: "ByteVec"

definition TPMT_TK_AUTH_default :: TPMT_TK_AUTH where
  "TPMT_TK_AUTH_default = \<lparr>TPMT_TK_AUTH_tag = 0, TPMT_TK_AUTH_hierarchy = TPM_HANDLE_default, TPMT_TK_AUTH_digest = []\<rparr>"

definition TPMT_TK_AUTH_toTpm :: "TPMT_TK_AUTH \<Rightarrow> unit tpm" where
  "TPMT_TK_AUTH_toTpm self =
     wseq [writeShort (TPMT_TK_AUTH_tag self),
       TPM_HANDLE_toTpm (TPMT_TK_AUTH_hierarchy self),
       writeSizedByteBuf (TPMT_TK_AUTH_digest self) 2]"

definition TPMT_TK_AUTH_initFromTpm :: "TPMT_TK_AUTH \<Rightarrow> TPMT_TK_AUTH tpm" where
  "TPMT_TK_AUTH_initFromTpm self =
     sbind readShort (\<lambda>tag.
     sbind (TPM_HANDLE_initFromTpm (TPMT_TK_AUTH_hierarchy self)) (\<lambda>hierarchy.
     sbind (readSizedByteBuf 2) (\<lambda>digest.
     ret (self\<lparr>TPMT_TK_AUTH_tag := tag, TPMT_TK_AUTH_hierarchy := hierarchy, TPMT_TK_AUTH_digest := digest\<rparr>))))"

definition TPMT_TK_AUTH_enc :: "TPMT_TK_AUTH \<Rightarrow> ByteVec" where
  "TPMT_TK_AUTH_enc x =
     enc16 (TPMT_TK_AUTH_tag x) @
     TPM_HANDLE_enc (TPMT_TK_AUTH_hierarchy x) @
     enc_sized 2 (TPMT_TK_AUTH_digest x)"

definition TPMT_TK_AUTH_valid :: "TPMT_TK_AUTH \<Rightarrow> bool" where
  "TPMT_TK_AUTH_valid x \<longleftrightarrow>
     TPM_HANDLE_valid (TPMT_TK_AUTH_hierarchy x) \<and>
     sized_ok 2 (TPMT_TK_AUTH_digest x)"

lemma TPMT_TK_AUTH_writes [writes_intros]:
  "TPMT_TK_AUTH_valid x \<Longrightarrow> writes (TPMT_TK_AUTH_toTpm x) (TPMT_TK_AUTH_enc x)"
  unfolding TPMT_TK_AUTH_toTpm_def TPMT_TK_AUTH_enc_def
  by (intro writes_intros; simp add: TPMT_TK_AUTH_valid_def opt_ok_iff)

lemma TPMT_TK_AUTH_reads:
  "TPMT_TK_AUTH_valid x \<Longrightarrow> reads (TPMT_TK_AUTH_initFromTpm TPMT_TK_AUTH_default) x (TPMT_TK_AUTH_enc x)"
  by (simp only: TPMT_TK_AUTH_initFromTpm_def TPMT_TK_AUTH_enc_def TPMT_TK_AUTH_default_def
        TPMT_TK_AUTH.select_convs TPMT_TK_AUTH.update_convs;
      intro reads_intros; (rule TPMT_TK_AUTH.equality)?; simp add: TPMT_TK_AUTH_valid_def opt_ok_iff)

lemma TPMT_TK_AUTH_enc_nonempty [simp]: "TPMT_TK_AUTH_enc x \<noteq> []"
  by (simp add: TPMT_TK_AUTH_enc_def)

interpretation TPMT_TK_AUTH_codec:
  tpm_codec TPMT_TK_AUTH_toTpm TPMT_TK_AUTH_initFromTpm TPMT_TK_AUTH_default
    TPMT_TK_AUTH_enc TPMT_TK_AUTH_valid
  by unfold_locales (simp_all add: TPMT_TK_AUTH_writes TPMT_TK_AUTH_reads)

lemmas TPMT_TK_AUTH_steps [reads_intros] =
  TPMT_TK_AUTH_reads [THEN reads_sbind] TPMT_TK_AUTH_reads [THEN reads_sbind_ret]

subsection \<open>TPMT_TK_HASHCHECK\<close>

text \<open>This ticket is produced by TPM2_SequenceComplete() or TPM2_Hash() when the message that was digested did not start with TPM_GENERATED_VALUE. The ....\<close>

record TPMT_TK_HASHCHECK =
  TPMT_TK_HASHCHECK_hierarchy :: "TPM_HANDLE"
  TPMT_TK_HASHCHECK_digest :: "ByteVec"

definition TPMT_TK_HASHCHECK_default :: TPMT_TK_HASHCHECK where
  "TPMT_TK_HASHCHECK_default = \<lparr>TPMT_TK_HASHCHECK_hierarchy = TPM_HANDLE_default, TPMT_TK_HASHCHECK_digest = []\<rparr>"

definition TPMT_TK_HASHCHECK_toTpm :: "TPMT_TK_HASHCHECK \<Rightarrow> unit tpm" where
  "TPMT_TK_HASHCHECK_toTpm self =
     wseq [writeShort TPM_ST_HASHCHECK,
       TPM_HANDLE_toTpm (TPMT_TK_HASHCHECK_hierarchy self),
       writeSizedByteBuf (TPMT_TK_HASHCHECK_digest self) 2]"

definition TPMT_TK_HASHCHECK_initFromTpm :: "TPMT_TK_HASHCHECK \<Rightarrow> TPMT_TK_HASHCHECK tpm" where
  "TPMT_TK_HASHCHECK_initFromTpm self =
     sbind readShort (\<lambda>_.
     sbind (TPM_HANDLE_initFromTpm (TPMT_TK_HASHCHECK_hierarchy self)) (\<lambda>hierarchy.
     sbind (readSizedByteBuf 2) (\<lambda>digest.
     ret (self\<lparr>TPMT_TK_HASHCHECK_hierarchy := hierarchy, TPMT_TK_HASHCHECK_digest := digest\<rparr>))))"

definition TPMT_TK_HASHCHECK_enc :: "TPMT_TK_HASHCHECK \<Rightarrow> ByteVec" where
  "TPMT_TK_HASHCHECK_enc x =
     enc16 TPM_ST_HASHCHECK @
     TPM_HANDLE_enc (TPMT_TK_HASHCHECK_hierarchy x) @
     enc_sized 2 (TPMT_TK_HASHCHECK_digest x)"

definition TPMT_TK_HASHCHECK_valid :: "TPMT_TK_HASHCHECK \<Rightarrow> bool" where
  "TPMT_TK_HASHCHECK_valid x \<longleftrightarrow>
     TPM_HANDLE_valid (TPMT_TK_HASHCHECK_hierarchy x) \<and>
     sized_ok 2 (TPMT_TK_HASHCHECK_digest x)"

lemma TPMT_TK_HASHCHECK_writes [writes_intros]:
  "TPMT_TK_HASHCHECK_valid x \<Longrightarrow> writes (TPMT_TK_HASHCHECK_toTpm x) (TPMT_TK_HASHCHECK_enc x)"
  unfolding TPMT_TK_HASHCHECK_toTpm_def TPMT_TK_HASHCHECK_enc_def
  by (intro writes_intros; simp add: TPMT_TK_HASHCHECK_valid_def opt_ok_iff)

lemma TPMT_TK_HASHCHECK_reads:
  "TPMT_TK_HASHCHECK_valid x \<Longrightarrow> reads (TPMT_TK_HASHCHECK_initFromTpm TPMT_TK_HASHCHECK_default) x (TPMT_TK_HASHCHECK_enc x)"
  by (simp only: TPMT_TK_HASHCHECK_initFromTpm_def TPMT_TK_HASHCHECK_enc_def TPMT_TK_HASHCHECK_default_def
        TPMT_TK_HASHCHECK.select_convs TPMT_TK_HASHCHECK.update_convs;
      intro reads_intros; (rule TPMT_TK_HASHCHECK.equality)?; simp add: TPMT_TK_HASHCHECK_valid_def opt_ok_iff)

lemma TPMT_TK_HASHCHECK_enc_nonempty [simp]: "TPMT_TK_HASHCHECK_enc x \<noteq> []"
  by (simp add: TPMT_TK_HASHCHECK_enc_def)

interpretation TPMT_TK_HASHCHECK_codec:
  tpm_codec TPMT_TK_HASHCHECK_toTpm TPMT_TK_HASHCHECK_initFromTpm TPMT_TK_HASHCHECK_default
    TPMT_TK_HASHCHECK_enc TPMT_TK_HASHCHECK_valid
  by unfold_locales (simp_all add: TPMT_TK_HASHCHECK_writes TPMT_TK_HASHCHECK_reads)

lemmas TPMT_TK_HASHCHECK_steps [reads_intros] =
  TPMT_TK_HASHCHECK_reads [THEN reads_sbind] TPMT_TK_HASHCHECK_reads [THEN reads_sbind_ret]

subsection \<open>TPMS_ALG_PROPERTY\<close>

text \<open>This structure is used to report the properties of an algorithm identifier.\<close>

record TPMS_ALG_PROPERTY =
  TPMS_ALG_PROPERTY_alg :: "TPM_ALG_ID"
  TPMS_ALG_PROPERTY_algProperties :: "TPMA_ALGORITHM"

definition TPMS_ALG_PROPERTY_default :: TPMS_ALG_PROPERTY where
  "TPMS_ALG_PROPERTY_default = \<lparr>TPMS_ALG_PROPERTY_alg = TPM_ALG_ID_NULL, TPMS_ALG_PROPERTY_algProperties = 0\<rparr>"

definition TPMS_ALG_PROPERTY_toTpm :: "TPMS_ALG_PROPERTY \<Rightarrow> unit tpm" where
  "TPMS_ALG_PROPERTY_toTpm self =
     wseq [writeShort (TPMS_ALG_PROPERTY_alg self),
       writeInt (TPMS_ALG_PROPERTY_algProperties self)]"

definition TPMS_ALG_PROPERTY_initFromTpm :: "TPMS_ALG_PROPERTY \<Rightarrow> TPMS_ALG_PROPERTY tpm" where
  "TPMS_ALG_PROPERTY_initFromTpm self =
     sbind readShort (\<lambda>alg.
     sbind readInt (\<lambda>algProperties.
     ret (self\<lparr>TPMS_ALG_PROPERTY_alg := alg, TPMS_ALG_PROPERTY_algProperties := algProperties\<rparr>)))"

definition TPMS_ALG_PROPERTY_enc :: "TPMS_ALG_PROPERTY \<Rightarrow> ByteVec" where
  "TPMS_ALG_PROPERTY_enc x =
     enc16 (TPMS_ALG_PROPERTY_alg x) @
     enc32 (TPMS_ALG_PROPERTY_algProperties x)"

definition TPMS_ALG_PROPERTY_valid :: "TPMS_ALG_PROPERTY \<Rightarrow> bool" where
  "TPMS_ALG_PROPERTY_valid x \<longleftrightarrow>
     True"

lemma TPMS_ALG_PROPERTY_writes [writes_intros]:
  "TPMS_ALG_PROPERTY_valid x \<Longrightarrow> writes (TPMS_ALG_PROPERTY_toTpm x) (TPMS_ALG_PROPERTY_enc x)"
  unfolding TPMS_ALG_PROPERTY_toTpm_def TPMS_ALG_PROPERTY_enc_def
  by (intro writes_intros; simp add: TPMS_ALG_PROPERTY_valid_def opt_ok_iff)

lemma TPMS_ALG_PROPERTY_reads:
  "TPMS_ALG_PROPERTY_valid x \<Longrightarrow> reads (TPMS_ALG_PROPERTY_initFromTpm TPMS_ALG_PROPERTY_default) x (TPMS_ALG_PROPERTY_enc x)"
  by (simp only: TPMS_ALG_PROPERTY_initFromTpm_def TPMS_ALG_PROPERTY_enc_def TPMS_ALG_PROPERTY_default_def
        TPMS_ALG_PROPERTY.select_convs TPMS_ALG_PROPERTY.update_convs;
      intro reads_intros; (rule TPMS_ALG_PROPERTY.equality)?; simp add: TPMS_ALG_PROPERTY_valid_def opt_ok_iff)

lemma TPMS_ALG_PROPERTY_enc_nonempty [simp]: "TPMS_ALG_PROPERTY_enc x \<noteq> []"
  by (simp add: TPMS_ALG_PROPERTY_enc_def)

interpretation TPMS_ALG_PROPERTY_codec:
  tpm_codec TPMS_ALG_PROPERTY_toTpm TPMS_ALG_PROPERTY_initFromTpm TPMS_ALG_PROPERTY_default
    TPMS_ALG_PROPERTY_enc TPMS_ALG_PROPERTY_valid
  by unfold_locales (simp_all add: TPMS_ALG_PROPERTY_writes TPMS_ALG_PROPERTY_reads)

lemmas TPMS_ALG_PROPERTY_parts [writes_intros] = TPMS_ALG_PROPERTY_codec.writes_arr

lemmas TPMS_ALG_PROPERTY_steps [reads_intros] =
  TPMS_ALG_PROPERTY_reads [THEN reads_sbind] TPMS_ALG_PROPERTY_reads [THEN reads_sbind_ret]
  TPMS_ALG_PROPERTY_codec.reads_arr [THEN reads_sbind] TPMS_ALG_PROPERTY_codec.reads_arr [THEN reads_sbind_ret]

subsection \<open>TPMS_TAGGED_PROPERTY\<close>

text \<open>This structure is used to report the properties that are UINT32 values.\<close>

record TPMS_TAGGED_PROPERTY =
  TPMS_TAGGED_PROPERTY_property :: "TPM_PT"
  TPMS_TAGGED_PROPERTY_value :: "UINT32"

definition TPMS_TAGGED_PROPERTY_default :: TPMS_TAGGED_PROPERTY where
  "TPMS_TAGGED_PROPERTY_default = \<lparr>TPMS_TAGGED_PROPERTY_property = 0, TPMS_TAGGED_PROPERTY_value = 0\<rparr>"

definition TPMS_TAGGED_PROPERTY_toTpm :: "TPMS_TAGGED_PROPERTY \<Rightarrow> unit tpm" where
  "TPMS_TAGGED_PROPERTY_toTpm self =
     wseq [writeInt (TPMS_TAGGED_PROPERTY_property self),
       writeInt (TPMS_TAGGED_PROPERTY_value self)]"

definition TPMS_TAGGED_PROPERTY_initFromTpm :: "TPMS_TAGGED_PROPERTY \<Rightarrow> TPMS_TAGGED_PROPERTY tpm" where
  "TPMS_TAGGED_PROPERTY_initFromTpm self =
     sbind readInt (\<lambda>property.
     sbind readInt (\<lambda>value.
     ret (self\<lparr>TPMS_TAGGED_PROPERTY_property := property, TPMS_TAGGED_PROPERTY_value := value\<rparr>)))"

definition TPMS_TAGGED_PROPERTY_enc :: "TPMS_TAGGED_PROPERTY \<Rightarrow> ByteVec" where
  "TPMS_TAGGED_PROPERTY_enc x =
     enc32 (TPMS_TAGGED_PROPERTY_property x) @
     enc32 (TPMS_TAGGED_PROPERTY_value x)"

definition TPMS_TAGGED_PROPERTY_valid :: "TPMS_TAGGED_PROPERTY \<Rightarrow> bool" where
  "TPMS_TAGGED_PROPERTY_valid x \<longleftrightarrow>
     True"

lemma TPMS_TAGGED_PROPERTY_writes [writes_intros]:
  "TPMS_TAGGED_PROPERTY_valid x \<Longrightarrow> writes (TPMS_TAGGED_PROPERTY_toTpm x) (TPMS_TAGGED_PROPERTY_enc x)"
  unfolding TPMS_TAGGED_PROPERTY_toTpm_def TPMS_TAGGED_PROPERTY_enc_def
  by (intro writes_intros; simp add: TPMS_TAGGED_PROPERTY_valid_def opt_ok_iff)

lemma TPMS_TAGGED_PROPERTY_reads:
  "TPMS_TAGGED_PROPERTY_valid x \<Longrightarrow> reads (TPMS_TAGGED_PROPERTY_initFromTpm TPMS_TAGGED_PROPERTY_default) x (TPMS_TAGGED_PROPERTY_enc x)"
  by (simp only: TPMS_TAGGED_PROPERTY_initFromTpm_def TPMS_TAGGED_PROPERTY_enc_def TPMS_TAGGED_PROPERTY_default_def
        TPMS_TAGGED_PROPERTY.select_convs TPMS_TAGGED_PROPERTY.update_convs;
      intro reads_intros; (rule TPMS_TAGGED_PROPERTY.equality)?; simp add: TPMS_TAGGED_PROPERTY_valid_def opt_ok_iff)

lemma TPMS_TAGGED_PROPERTY_enc_nonempty [simp]: "TPMS_TAGGED_PROPERTY_enc x \<noteq> []"
  by (simp add: TPMS_TAGGED_PROPERTY_enc_def)

interpretation TPMS_TAGGED_PROPERTY_codec:
  tpm_codec TPMS_TAGGED_PROPERTY_toTpm TPMS_TAGGED_PROPERTY_initFromTpm TPMS_TAGGED_PROPERTY_default
    TPMS_TAGGED_PROPERTY_enc TPMS_TAGGED_PROPERTY_valid
  by unfold_locales (simp_all add: TPMS_TAGGED_PROPERTY_writes TPMS_TAGGED_PROPERTY_reads)

lemmas TPMS_TAGGED_PROPERTY_parts [writes_intros] = TPMS_TAGGED_PROPERTY_codec.writes_arr

lemmas TPMS_TAGGED_PROPERTY_steps [reads_intros] =
  TPMS_TAGGED_PROPERTY_reads [THEN reads_sbind] TPMS_TAGGED_PROPERTY_reads [THEN reads_sbind_ret]
  TPMS_TAGGED_PROPERTY_codec.reads_arr [THEN reads_sbind] TPMS_TAGGED_PROPERTY_codec.reads_arr [THEN reads_sbind_ret]

subsection \<open>TPMS_TAGGED_PCR_SELECT\<close>

text \<open>This structure is used in TPM2_GetCapability() to return the attributes of the PCR.\<close>

record TPMS_TAGGED_PCR_SELECT =
  TPMS_TAGGED_PCR_SELECT_tag :: "TPM_PT_PCR"
  TPMS_TAGGED_PCR_SELECT_pcrSelect :: "ByteVec"

definition TPMS_TAGGED_PCR_SELECT_default :: TPMS_TAGGED_PCR_SELECT where
  "TPMS_TAGGED_PCR_SELECT_default = \<lparr>TPMS_TAGGED_PCR_SELECT_tag = 0, TPMS_TAGGED_PCR_SELECT_pcrSelect = []\<rparr>"

definition TPMS_TAGGED_PCR_SELECT_toTpm :: "TPMS_TAGGED_PCR_SELECT \<Rightarrow> unit tpm" where
  "TPMS_TAGGED_PCR_SELECT_toTpm self =
     wseq [writeInt (TPMS_TAGGED_PCR_SELECT_tag self),
       writeSizedByteBuf (TPMS_TAGGED_PCR_SELECT_pcrSelect self) 1]"

definition TPMS_TAGGED_PCR_SELECT_initFromTpm :: "TPMS_TAGGED_PCR_SELECT \<Rightarrow> TPMS_TAGGED_PCR_SELECT tpm" where
  "TPMS_TAGGED_PCR_SELECT_initFromTpm self =
     sbind readInt (\<lambda>tag.
     sbind (readSizedByteBuf 1) (\<lambda>pcrSelect.
     ret (self\<lparr>TPMS_TAGGED_PCR_SELECT_tag := tag, TPMS_TAGGED_PCR_SELECT_pcrSelect := pcrSelect\<rparr>)))"

definition TPMS_TAGGED_PCR_SELECT_enc :: "TPMS_TAGGED_PCR_SELECT \<Rightarrow> ByteVec" where
  "TPMS_TAGGED_PCR_SELECT_enc x =
     enc32 (TPMS_TAGGED_PCR_SELECT_tag x) @
     enc_sized 1 (TPMS_TAGGED_PCR_SELECT_pcrSelect x)"

definition TPMS_TAGGED_PCR_SELECT_valid :: "TPMS_TAGGED_PCR_SELECT \<Rightarrow> bool" where
  "TPMS_TAGGED_PCR_SELECT_valid x \<longleftrightarrow>
     sized_ok 1 (TPMS_TAGGED_PCR_SELECT_pcrSelect x)"

lemma TPMS_TAGGED_PCR_SELECT_writes [writes_intros]:
  "TPMS_TAGGED_PCR_SELECT_valid x \<Longrightarrow> writes (TPMS_TAGGED_PCR_SELECT_toTpm x) (TPMS_TAGGED_PCR_SELECT_enc x)"
  unfolding TPMS_TAGGED_PCR_SELECT_toTpm_def TPMS_TAGGED_PCR_SELECT_enc_def
  by (intro writes_intros; simp add: TPMS_TAGGED_PCR_SELECT_valid_def opt_ok_iff)

lemma TPMS_TAGGED_PCR_SELECT_reads:
  "TPMS_TAGGED_PCR_SELECT_valid x \<Longrightarrow> reads (TPMS_TAGGED_PCR_SELECT_initFromTpm TPMS_TAGGED_PCR_SELECT_default) x (TPMS_TAGGED_PCR_SELECT_enc x)"
  by (simp only: TPMS_TAGGED_PCR_SELECT_initFromTpm_def TPMS_TAGGED_PCR_SELECT_enc_def TPMS_TAGGED_PCR_SELECT_default_def
        TPMS_TAGGED_PCR_SELECT.select_convs TPMS_TAGGED_PCR_SELECT.update_convs;
      intro reads_intros; (rule TPMS_TAGGED_PCR_SELECT.equality)?; simp add: TPMS_TAGGED_PCR_SELECT_valid_def opt_ok_iff)

lemma TPMS_TAGGED_PCR_SELECT_enc_nonempty [simp]: "TPMS_TAGGED_PCR_SELECT_enc x \<noteq> []"
  by (simp add: TPMS_TAGGED_PCR_SELECT_enc_def)

interpretation TPMS_TAGGED_PCR_SELECT_codec:
  tpm_codec TPMS_TAGGED_PCR_SELECT_toTpm TPMS_TAGGED_PCR_SELECT_initFromTpm TPMS_TAGGED_PCR_SELECT_default
    TPMS_TAGGED_PCR_SELECT_enc TPMS_TAGGED_PCR_SELECT_valid
  by unfold_locales (simp_all add: TPMS_TAGGED_PCR_SELECT_writes TPMS_TAGGED_PCR_SELECT_reads)

lemmas TPMS_TAGGED_PCR_SELECT_parts [writes_intros] = TPMS_TAGGED_PCR_SELECT_codec.writes_arr

lemmas TPMS_TAGGED_PCR_SELECT_steps [reads_intros] =
  TPMS_TAGGED_PCR_SELECT_reads [THEN reads_sbind] TPMS_TAGGED_PCR_SELECT_reads [THEN reads_sbind_ret]
  TPMS_TAGGED_PCR_SELECT_codec.reads_arr [THEN reads_sbind] TPMS_TAGGED_PCR_SELECT_codec.reads_arr [THEN reads_sbind_ret]

subsection \<open>TPMS_TAGGED_POLICY\<close>

text \<open>This structure is used in TPM2_GetCapability() to return the policy associated with a permanent handle.\<close>

record TPMS_TAGGED_POLICY =
  TPMS_TAGGED_POLICY_handle :: "TPM_HANDLE"
  TPMS_TAGGED_POLICY_policyHash :: "TPMT_HA"

definition TPMS_TAGGED_POLICY_default :: TPMS_TAGGED_POLICY where
  "TPMS_TAGGED_POLICY_default = \<lparr>TPMS_TAGGED_POLICY_handle = TPM_HANDLE_default, TPMS_TAGGED_POLICY_policyHash = TPMT_HA_default\<rparr>"

definition TPMS_TAGGED_POLICY_toTpm :: "TPMS_TAGGED_POLICY \<Rightarrow> unit tpm" where
  "TPMS_TAGGED_POLICY_toTpm self =
     wseq [TPM_HANDLE_toTpm (TPMS_TAGGED_POLICY_handle self),
       TPMT_HA_toTpm (TPMS_TAGGED_POLICY_policyHash self)]"

definition TPMS_TAGGED_POLICY_initFromTpm :: "TPMS_TAGGED_POLICY \<Rightarrow> TPMS_TAGGED_POLICY tpm" where
  "TPMS_TAGGED_POLICY_initFromTpm self =
     sbind (TPM_HANDLE_initFromTpm (TPMS_TAGGED_POLICY_handle self)) (\<lambda>handle.
     sbind (TPMT_HA_initFromTpm (TPMS_TAGGED_POLICY_policyHash self)) (\<lambda>policyHash.
     ret (self\<lparr>TPMS_TAGGED_POLICY_handle := handle, TPMS_TAGGED_POLICY_policyHash := policyHash\<rparr>)))"

definition TPMS_TAGGED_POLICY_enc :: "TPMS_TAGGED_POLICY \<Rightarrow> ByteVec" where
  "TPMS_TAGGED_POLICY_enc x =
     TPM_HANDLE_enc (TPMS_TAGGED_POLICY_handle x) @
     TPMT_HA_enc (TPMS_TAGGED_POLICY_policyHash x)"

definition TPMS_TAGGED_POLICY_valid :: "TPMS_TAGGED_POLICY \<Rightarrow> bool" where
  "TPMS_TAGGED_POLICY_valid x \<longleftrightarrow>
     TPM_HANDLE_valid (TPMS_TAGGED_POLICY_handle x) \<and>
     TPMT_HA_valid (TPMS_TAGGED_POLICY_policyHash x)"

lemma TPMS_TAGGED_POLICY_writes [writes_intros]:
  "TPMS_TAGGED_POLICY_valid x \<Longrightarrow> writes (TPMS_TAGGED_POLICY_toTpm x) (TPMS_TAGGED_POLICY_enc x)"
  unfolding TPMS_TAGGED_POLICY_toTpm_def TPMS_TAGGED_POLICY_enc_def
  by (intro writes_intros; simp add: TPMS_TAGGED_POLICY_valid_def opt_ok_iff)

lemma TPMS_TAGGED_POLICY_reads:
  "TPMS_TAGGED_POLICY_valid x \<Longrightarrow> reads (TPMS_TAGGED_POLICY_initFromTpm TPMS_TAGGED_POLICY_default) x (TPMS_TAGGED_POLICY_enc x)"
  by (simp only: TPMS_TAGGED_POLICY_initFromTpm_def TPMS_TAGGED_POLICY_enc_def TPMS_TAGGED_POLICY_default_def
        TPMS_TAGGED_POLICY.select_convs TPMS_TAGGED_POLICY.update_convs;
      intro reads_intros; (rule TPMS_TAGGED_POLICY.equality)?; simp add: TPMS_TAGGED_POLICY_valid_def opt_ok_iff)

lemma TPMS_TAGGED_POLICY_enc_nonempty [simp]: "TPMS_TAGGED_POLICY_enc x \<noteq> []"
  by (simp add: TPMS_TAGGED_POLICY_enc_def)

interpretation TPMS_TAGGED_POLICY_codec:
  tpm_codec TPMS_TAGGED_POLICY_toTpm TPMS_TAGGED_POLICY_initFromTpm TPMS_TAGGED_POLICY_default
    TPMS_TAGGED_POLICY_enc TPMS_TAGGED_POLICY_valid
  by unfold_locales (simp_all add: TPMS_TAGGED_POLICY_writes TPMS_TAGGED_POLICY_reads)

lemmas TPMS_TAGGED_POLICY_parts [writes_intros] = TPMS_TAGGED_POLICY_codec.writes_arr

lemmas TPMS_TAGGED_POLICY_steps [reads_intros] =
  TPMS_TAGGED_POLICY_reads [THEN reads_sbind] TPMS_TAGGED_POLICY_reads [THEN reads_sbind_ret]
  TPMS_TAGGED_POLICY_codec.reads_arr [THEN reads_sbind] TPMS_TAGGED_POLICY_codec.reads_arr [THEN reads_sbind_ret]

subsection \<open>TPMS_ACT_DATA\<close>

text \<open>This structure is used in TPM2_GetCapability() to return the ACT data.\<close>

record TPMS_ACT_DATA =
  TPMS_ACT_DATA_handle :: "TPM_HANDLE"
  TPMS_ACT_DATA_timeout :: "UINT32"
  TPMS_ACT_DATA_attributes :: "TPMA_ACT"

definition TPMS_ACT_DATA_default :: TPMS_ACT_DATA where
  "TPMS_ACT_DATA_default = \<lparr>TPMS_ACT_DATA_handle = TPM_HANDLE_default, TPMS_ACT_DATA_timeout = 0, TPMS_ACT_DATA_attributes = 0\<rparr>"

definition TPMS_ACT_DATA_toTpm :: "TPMS_ACT_DATA \<Rightarrow> unit tpm" where
  "TPMS_ACT_DATA_toTpm self =
     wseq [TPM_HANDLE_toTpm (TPMS_ACT_DATA_handle self),
       writeInt (TPMS_ACT_DATA_timeout self),
       writeInt (TPMS_ACT_DATA_attributes self)]"

definition TPMS_ACT_DATA_initFromTpm :: "TPMS_ACT_DATA \<Rightarrow> TPMS_ACT_DATA tpm" where
  "TPMS_ACT_DATA_initFromTpm self =
     sbind (TPM_HANDLE_initFromTpm (TPMS_ACT_DATA_handle self)) (\<lambda>handle.
     sbind readInt (\<lambda>timeout.
     sbind readInt (\<lambda>attributes.
     ret (self\<lparr>TPMS_ACT_DATA_handle := handle, TPMS_ACT_DATA_timeout := timeout, TPMS_ACT_DATA_attributes := attributes\<rparr>))))"

definition TPMS_ACT_DATA_enc :: "TPMS_ACT_DATA \<Rightarrow> ByteVec" where
  "TPMS_ACT_DATA_enc x =
     TPM_HANDLE_enc (TPMS_ACT_DATA_handle x) @
     enc32 (TPMS_ACT_DATA_timeout x) @
     enc32 (TPMS_ACT_DATA_attributes x)"

definition TPMS_ACT_DATA_valid :: "TPMS_ACT_DATA \<Rightarrow> bool" where
  "TPMS_ACT_DATA_valid x \<longleftrightarrow>
     TPM_HANDLE_valid (TPMS_ACT_DATA_handle x)"

lemma TPMS_ACT_DATA_writes [writes_intros]:
  "TPMS_ACT_DATA_valid x \<Longrightarrow> writes (TPMS_ACT_DATA_toTpm x) (TPMS_ACT_DATA_enc x)"
  unfolding TPMS_ACT_DATA_toTpm_def TPMS_ACT_DATA_enc_def
  by (intro writes_intros; simp add: TPMS_ACT_DATA_valid_def opt_ok_iff)

lemma TPMS_ACT_DATA_reads:
  "TPMS_ACT_DATA_valid x \<Longrightarrow> reads (TPMS_ACT_DATA_initFromTpm TPMS_ACT_DATA_default) x (TPMS_ACT_DATA_enc x)"
  by (simp only: TPMS_ACT_DATA_initFromTpm_def TPMS_ACT_DATA_enc_def TPMS_ACT_DATA_default_def
        TPMS_ACT_DATA.select_convs TPMS_ACT_DATA.update_convs;
      intro reads_intros; (rule TPMS_ACT_DATA.equality)?; simp add: TPMS_ACT_DATA_valid_def opt_ok_iff)

lemma TPMS_ACT_DATA_enc_nonempty [simp]: "TPMS_ACT_DATA_enc x \<noteq> []"
  by (simp add: TPMS_ACT_DATA_enc_def)

interpretation TPMS_ACT_DATA_codec:
  tpm_codec TPMS_ACT_DATA_toTpm TPMS_ACT_DATA_initFromTpm TPMS_ACT_DATA_default
    TPMS_ACT_DATA_enc TPMS_ACT_DATA_valid
  by unfold_locales (simp_all add: TPMS_ACT_DATA_writes TPMS_ACT_DATA_reads)

lemmas TPMS_ACT_DATA_parts [writes_intros] = TPMS_ACT_DATA_codec.writes_arr

lemmas TPMS_ACT_DATA_steps [reads_intros] =
  TPMS_ACT_DATA_reads [THEN reads_sbind] TPMS_ACT_DATA_reads [THEN reads_sbind_ret]
  TPMS_ACT_DATA_codec.reads_arr [THEN reads_sbind] TPMS_ACT_DATA_codec.reads_arr [THEN reads_sbind_ret]

end
