(* ===== verification/TpmListTypes.thy ===== *)
theory TpmListTypes
  imports TpmBasicTypes
begin

text \<open>
  \<^verbatim>\<open>TSS.CPP/include/TpmTypes.h\<close> and \<^verbatim>\<open>TSS.CPP/Src/TpmTypes.cpp\<close>: the lists (\<open>TPML_*\<close>) and the capability data.

  For each class \<open>X\<close> of the source: the record \<open>X\<close> of its members, \<open>X_default\<close> (its default
  constructor; members that C++ leaves uninitialised are 0), \<open>X_toTpm\<close> and \<open>X_initFromTpm\<close>; then
  the wire format \<open>X_enc\<close>, the values \<open>X_valid\<close> it can carry, and the proof that the methods
  implement it (the interpretation \<open>X_codec\<close>).
\<close>

subsection \<open>TPML_CC\<close>

text \<open>A list of command codes may be input to the TPM or returned by the TPM depending on the command.\<close>

record TPML_CC =
  TPML_CC_commandCodes :: "TPM_CC list"

definition TPML_CC_default :: TPML_CC where
  "TPML_CC_default = \<lparr>TPML_CC_commandCodes = []\<rparr>"

definition TPML_CC_toTpm :: "TPML_CC \<Rightarrow> unit tpm" where
  "TPML_CC_toTpm self =
     wseq [writeValArr (TPML_CC_commandCodes self) 4]"

definition TPML_CC_initFromTpm :: "TPML_CC \<Rightarrow> TPML_CC tpm" where
  "TPML_CC_initFromTpm self =
     sbind (readValArr (TPML_CC_commandCodes self) 4) (\<lambda>commandCodes.
     ret (self\<lparr>TPML_CC_commandCodes := commandCodes\<rparr>))"

definition TPML_CC_enc :: "TPML_CC \<Rightarrow> ByteVec" where
  "TPML_CC_enc x =
     enc_arr (enc_val 4) (TPML_CC_commandCodes x)"

definition TPML_CC_valid :: "TPML_CC \<Rightarrow> bool" where
  "TPML_CC_valid x \<longleftrightarrow>
     length (TPML_CC_commandCodes x) < 2 ^ 32"

lemma TPML_CC_writes [writes_intros]:
  "TPML_CC_valid x \<Longrightarrow> writes (TPML_CC_toTpm x) (TPML_CC_enc x)"
  unfolding TPML_CC_toTpm_def TPML_CC_enc_def
  by (intro writes_intros; simp add: TPML_CC_valid_def opt_ok_iff)

lemma TPML_CC_reads:
  "TPML_CC_valid x \<Longrightarrow> reads (TPML_CC_initFromTpm TPML_CC_default) x (TPML_CC_enc x)"
  by (simp only: TPML_CC_initFromTpm_def TPML_CC_enc_def TPML_CC_default_def
        TPML_CC.select_convs TPML_CC.update_convs;
      intro reads_intros; (rule TPML_CC.equality)?; simp add: TPML_CC_valid_def opt_ok_iff)

lemma TPML_CC_enc_nonempty [simp]: "TPML_CC_enc x \<noteq> []"
  by (simp add: TPML_CC_enc_def)

interpretation TPML_CC_codec:
  tpm_codec TPML_CC_toTpm TPML_CC_initFromTpm TPML_CC_default
    TPML_CC_enc TPML_CC_valid
  by unfold_locales (simp_all add: TPML_CC_writes TPML_CC_reads)

lemmas TPML_CC_steps [reads_intros] =
  TPML_CC_reads [THEN reads_sbind] TPML_CC_reads [THEN reads_sbind_ret]

subsection \<open>TPML_CCA\<close>

text \<open>This list is only used in TPM2_GetCapability(capability = TPM_CAP_COMMANDS).\<close>

record TPML_CCA =
  TPML_CCA_commandAttributes :: "TPMA_CC list"

definition TPML_CCA_default :: TPML_CCA where
  "TPML_CCA_default = \<lparr>TPML_CCA_commandAttributes = []\<rparr>"

definition TPML_CCA_toTpm :: "TPML_CCA \<Rightarrow> unit tpm" where
  "TPML_CCA_toTpm self =
     wseq [writeValArr (TPML_CCA_commandAttributes self) 4]"

definition TPML_CCA_initFromTpm :: "TPML_CCA \<Rightarrow> TPML_CCA tpm" where
  "TPML_CCA_initFromTpm self =
     sbind (readValArr (TPML_CCA_commandAttributes self) 4) (\<lambda>commandAttributes.
     ret (self\<lparr>TPML_CCA_commandAttributes := commandAttributes\<rparr>))"

definition TPML_CCA_enc :: "TPML_CCA \<Rightarrow> ByteVec" where
  "TPML_CCA_enc x =
     enc_arr (enc_val 4) (TPML_CCA_commandAttributes x)"

definition TPML_CCA_valid :: "TPML_CCA \<Rightarrow> bool" where
  "TPML_CCA_valid x \<longleftrightarrow>
     length (TPML_CCA_commandAttributes x) < 2 ^ 32"

lemma TPML_CCA_writes [writes_intros]:
  "TPML_CCA_valid x \<Longrightarrow> writes (TPML_CCA_toTpm x) (TPML_CCA_enc x)"
  unfolding TPML_CCA_toTpm_def TPML_CCA_enc_def
  by (intro writes_intros; simp add: TPML_CCA_valid_def opt_ok_iff)

lemma TPML_CCA_reads:
  "TPML_CCA_valid x \<Longrightarrow> reads (TPML_CCA_initFromTpm TPML_CCA_default) x (TPML_CCA_enc x)"
  by (simp only: TPML_CCA_initFromTpm_def TPML_CCA_enc_def TPML_CCA_default_def
        TPML_CCA.select_convs TPML_CCA.update_convs;
      intro reads_intros; (rule TPML_CCA.equality)?; simp add: TPML_CCA_valid_def opt_ok_iff)

lemma TPML_CCA_enc_nonempty [simp]: "TPML_CCA_enc x \<noteq> []"
  by (simp add: TPML_CCA_enc_def)

interpretation TPML_CCA_codec:
  tpm_codec TPML_CCA_toTpm TPML_CCA_initFromTpm TPML_CCA_default
    TPML_CCA_enc TPML_CCA_valid
  by unfold_locales (simp_all add: TPML_CCA_writes TPML_CCA_reads)

lemmas TPML_CCA_steps [reads_intros] =
  TPML_CCA_reads [THEN reads_sbind] TPML_CCA_reads [THEN reads_sbind_ret]

subsection \<open>TPML_ALG\<close>

text \<open>This list is returned by TPM2_IncrementalSelfTest().\<close>

record TPML_ALG =
  TPML_ALG_algorithms :: "TPM_ALG_ID list"

definition TPML_ALG_default :: TPML_ALG where
  "TPML_ALG_default = \<lparr>TPML_ALG_algorithms = []\<rparr>"

definition TPML_ALG_toTpm :: "TPML_ALG \<Rightarrow> unit tpm" where
  "TPML_ALG_toTpm self =
     wseq [writeValArr (TPML_ALG_algorithms self) 2]"

definition TPML_ALG_initFromTpm :: "TPML_ALG \<Rightarrow> TPML_ALG tpm" where
  "TPML_ALG_initFromTpm self =
     sbind (readValArr (TPML_ALG_algorithms self) 2) (\<lambda>algorithms.
     ret (self\<lparr>TPML_ALG_algorithms := algorithms\<rparr>))"

definition TPML_ALG_enc :: "TPML_ALG \<Rightarrow> ByteVec" where
  "TPML_ALG_enc x =
     enc_arr (enc_val 2) (TPML_ALG_algorithms x)"

definition TPML_ALG_valid :: "TPML_ALG \<Rightarrow> bool" where
  "TPML_ALG_valid x \<longleftrightarrow>
     length (TPML_ALG_algorithms x) < 2 ^ 32"

lemma TPML_ALG_writes [writes_intros]:
  "TPML_ALG_valid x \<Longrightarrow> writes (TPML_ALG_toTpm x) (TPML_ALG_enc x)"
  unfolding TPML_ALG_toTpm_def TPML_ALG_enc_def
  by (intro writes_intros; simp add: TPML_ALG_valid_def opt_ok_iff)

lemma TPML_ALG_reads:
  "TPML_ALG_valid x \<Longrightarrow> reads (TPML_ALG_initFromTpm TPML_ALG_default) x (TPML_ALG_enc x)"
  by (simp only: TPML_ALG_initFromTpm_def TPML_ALG_enc_def TPML_ALG_default_def
        TPML_ALG.select_convs TPML_ALG.update_convs;
      intro reads_intros; (rule TPML_ALG.equality)?; simp add: TPML_ALG_valid_def opt_ok_iff)

interpretation TPML_ALG_codec:
  tpm_codec TPML_ALG_toTpm TPML_ALG_initFromTpm TPML_ALG_default
    TPML_ALG_enc TPML_ALG_valid
  by unfold_locales (erule TPML_ALG_writes TPML_ALG_reads | simp add: TPML_ALG_enc_def)+

subsection \<open>TPML_HANDLE\<close>

text \<open>This structure is used when the TPM returns a list of loaded handles when the capability in TPM2_GetCapability() is TPM_CAP_HANDLE.\<close>

record TPML_HANDLE =
  TPML_HANDLE_handle :: "TPM_HANDLE list"

definition TPML_HANDLE_default :: TPML_HANDLE where
  "TPML_HANDLE_default = \<lparr>TPML_HANDLE_handle = []\<rparr>"

definition TPML_HANDLE_toTpm :: "TPML_HANDLE \<Rightarrow> unit tpm" where
  "TPML_HANDLE_toTpm self =
     wseq [writeObjArr TPM_HANDLE_toTpm (TPML_HANDLE_handle self)]"

definition TPML_HANDLE_initFromTpm :: "TPML_HANDLE \<Rightarrow> TPML_HANDLE tpm" where
  "TPML_HANDLE_initFromTpm self =
     sbind (readObjArr TPM_HANDLE_initFromTpm TPM_HANDLE_default (TPML_HANDLE_handle self)) (\<lambda>handle.
     ret (self\<lparr>TPML_HANDLE_handle := handle\<rparr>))"

definition TPML_HANDLE_enc :: "TPML_HANDLE \<Rightarrow> ByteVec" where
  "TPML_HANDLE_enc x =
     enc_arr TPM_HANDLE_enc (TPML_HANDLE_handle x)"

definition TPML_HANDLE_valid :: "TPML_HANDLE \<Rightarrow> bool" where
  "TPML_HANDLE_valid x \<longleftrightarrow>
     arr_ok TPM_HANDLE_valid (TPML_HANDLE_handle x)"

lemma TPML_HANDLE_writes [writes_intros]:
  "TPML_HANDLE_valid x \<Longrightarrow> writes (TPML_HANDLE_toTpm x) (TPML_HANDLE_enc x)"
  unfolding TPML_HANDLE_toTpm_def TPML_HANDLE_enc_def
  by (intro writes_intros; simp add: TPML_HANDLE_valid_def opt_ok_iff)

lemma TPML_HANDLE_reads:
  "TPML_HANDLE_valid x \<Longrightarrow> reads (TPML_HANDLE_initFromTpm TPML_HANDLE_default) x (TPML_HANDLE_enc x)"
  by (simp only: TPML_HANDLE_initFromTpm_def TPML_HANDLE_enc_def TPML_HANDLE_default_def
        TPML_HANDLE.select_convs TPML_HANDLE.update_convs;
      intro reads_intros; (rule TPML_HANDLE.equality)?; simp add: TPML_HANDLE_valid_def opt_ok_iff)

lemma TPML_HANDLE_enc_nonempty [simp]: "TPML_HANDLE_enc x \<noteq> []"
  by (simp add: TPML_HANDLE_enc_def)

interpretation TPML_HANDLE_codec:
  tpm_codec TPML_HANDLE_toTpm TPML_HANDLE_initFromTpm TPML_HANDLE_default
    TPML_HANDLE_enc TPML_HANDLE_valid
  by unfold_locales (simp_all add: TPML_HANDLE_writes TPML_HANDLE_reads)

lemmas TPML_HANDLE_steps [reads_intros] =
  TPML_HANDLE_reads [THEN reads_sbind] TPML_HANDLE_reads [THEN reads_sbind_ret]

subsection \<open>TPML_DIGEST\<close>

text \<open>This list is used to convey a list of digest values.\<close>

record TPML_DIGEST =
  TPML_DIGEST_digests :: "TPM2B_DIGEST list"

definition TPML_DIGEST_default :: TPML_DIGEST where
  "TPML_DIGEST_default = \<lparr>TPML_DIGEST_digests = []\<rparr>"

definition TPML_DIGEST_toTpm :: "TPML_DIGEST \<Rightarrow> unit tpm" where
  "TPML_DIGEST_toTpm self =
     wseq [writeObjArr TPM2B_DIGEST_toTpm (TPML_DIGEST_digests self)]"

definition TPML_DIGEST_initFromTpm :: "TPML_DIGEST \<Rightarrow> TPML_DIGEST tpm" where
  "TPML_DIGEST_initFromTpm self =
     sbind (readObjArr TPM2B_DIGEST_initFromTpm TPM2B_DIGEST_default (TPML_DIGEST_digests self)) (\<lambda>digests.
     ret (self\<lparr>TPML_DIGEST_digests := digests\<rparr>))"

definition TPML_DIGEST_enc :: "TPML_DIGEST \<Rightarrow> ByteVec" where
  "TPML_DIGEST_enc x =
     enc_arr TPM2B_DIGEST_enc (TPML_DIGEST_digests x)"

definition TPML_DIGEST_valid :: "TPML_DIGEST \<Rightarrow> bool" where
  "TPML_DIGEST_valid x \<longleftrightarrow>
     arr_ok TPM2B_DIGEST_valid (TPML_DIGEST_digests x)"

lemma TPML_DIGEST_writes [writes_intros]:
  "TPML_DIGEST_valid x \<Longrightarrow> writes (TPML_DIGEST_toTpm x) (TPML_DIGEST_enc x)"
  unfolding TPML_DIGEST_toTpm_def TPML_DIGEST_enc_def
  by (intro writes_intros; simp add: TPML_DIGEST_valid_def opt_ok_iff)

lemma TPML_DIGEST_reads:
  "TPML_DIGEST_valid x \<Longrightarrow> reads (TPML_DIGEST_initFromTpm TPML_DIGEST_default) x (TPML_DIGEST_enc x)"
  by (simp only: TPML_DIGEST_initFromTpm_def TPML_DIGEST_enc_def TPML_DIGEST_default_def
        TPML_DIGEST.select_convs TPML_DIGEST.update_convs;
      intro reads_intros; (rule TPML_DIGEST.equality)?; simp add: TPML_DIGEST_valid_def opt_ok_iff)

interpretation TPML_DIGEST_codec:
  tpm_codec TPML_DIGEST_toTpm TPML_DIGEST_initFromTpm TPML_DIGEST_default
    TPML_DIGEST_enc TPML_DIGEST_valid
  by unfold_locales (erule TPML_DIGEST_writes TPML_DIGEST_reads | simp add: TPML_DIGEST_enc_def)+

subsection \<open>TPML_DIGEST_VALUES\<close>

text \<open>This list is used to convey a list of digest values.\<close>

record TPML_DIGEST_VALUES =
  TPML_DIGEST_VALUES_digests :: "TPMT_HA list"

definition TPML_DIGEST_VALUES_default :: TPML_DIGEST_VALUES where
  "TPML_DIGEST_VALUES_default = \<lparr>TPML_DIGEST_VALUES_digests = []\<rparr>"

definition TPML_DIGEST_VALUES_toTpm :: "TPML_DIGEST_VALUES \<Rightarrow> unit tpm" where
  "TPML_DIGEST_VALUES_toTpm self =
     wseq [writeObjArr TPMT_HA_toTpm (TPML_DIGEST_VALUES_digests self)]"

definition TPML_DIGEST_VALUES_initFromTpm :: "TPML_DIGEST_VALUES \<Rightarrow> TPML_DIGEST_VALUES tpm" where
  "TPML_DIGEST_VALUES_initFromTpm self =
     sbind (readObjArr TPMT_HA_initFromTpm TPMT_HA_default (TPML_DIGEST_VALUES_digests self)) (\<lambda>digests.
     ret (self\<lparr>TPML_DIGEST_VALUES_digests := digests\<rparr>))"

definition TPML_DIGEST_VALUES_enc :: "TPML_DIGEST_VALUES \<Rightarrow> ByteVec" where
  "TPML_DIGEST_VALUES_enc x =
     enc_arr TPMT_HA_enc (TPML_DIGEST_VALUES_digests x)"

definition TPML_DIGEST_VALUES_valid :: "TPML_DIGEST_VALUES \<Rightarrow> bool" where
  "TPML_DIGEST_VALUES_valid x \<longleftrightarrow>
     arr_ok TPMT_HA_valid (TPML_DIGEST_VALUES_digests x)"

lemma TPML_DIGEST_VALUES_writes [writes_intros]:
  "TPML_DIGEST_VALUES_valid x \<Longrightarrow> writes (TPML_DIGEST_VALUES_toTpm x) (TPML_DIGEST_VALUES_enc x)"
  unfolding TPML_DIGEST_VALUES_toTpm_def TPML_DIGEST_VALUES_enc_def
  by (intro writes_intros; simp add: TPML_DIGEST_VALUES_valid_def opt_ok_iff)

lemma TPML_DIGEST_VALUES_reads:
  "TPML_DIGEST_VALUES_valid x \<Longrightarrow> reads (TPML_DIGEST_VALUES_initFromTpm TPML_DIGEST_VALUES_default) x (TPML_DIGEST_VALUES_enc x)"
  by (simp only: TPML_DIGEST_VALUES_initFromTpm_def TPML_DIGEST_VALUES_enc_def TPML_DIGEST_VALUES_default_def
        TPML_DIGEST_VALUES.select_convs TPML_DIGEST_VALUES.update_convs;
      intro reads_intros; (rule TPML_DIGEST_VALUES.equality)?; simp add: TPML_DIGEST_VALUES_valid_def opt_ok_iff)

interpretation TPML_DIGEST_VALUES_codec:
  tpm_codec TPML_DIGEST_VALUES_toTpm TPML_DIGEST_VALUES_initFromTpm TPML_DIGEST_VALUES_default
    TPML_DIGEST_VALUES_enc TPML_DIGEST_VALUES_valid
  by unfold_locales (erule TPML_DIGEST_VALUES_writes TPML_DIGEST_VALUES_reads | simp add: TPML_DIGEST_VALUES_enc_def)+

subsection \<open>TPML_PCR_SELECTION\<close>

text \<open>This list is used to indicate the PCR that are included in a selection when more than one PCR value may be selected.\<close>

record TPML_PCR_SELECTION =
  TPML_PCR_SELECTION_pcrSelections :: "TPMS_PCR_SELECTION list"

definition TPML_PCR_SELECTION_default :: TPML_PCR_SELECTION where
  "TPML_PCR_SELECTION_default = \<lparr>TPML_PCR_SELECTION_pcrSelections = []\<rparr>"

definition TPML_PCR_SELECTION_toTpm :: "TPML_PCR_SELECTION \<Rightarrow> unit tpm" where
  "TPML_PCR_SELECTION_toTpm self =
     wseq [writeObjArr TPMS_PCR_SELECTION_toTpm (TPML_PCR_SELECTION_pcrSelections self)]"

definition TPML_PCR_SELECTION_initFromTpm :: "TPML_PCR_SELECTION \<Rightarrow> TPML_PCR_SELECTION tpm" where
  "TPML_PCR_SELECTION_initFromTpm self =
     sbind (readObjArr TPMS_PCR_SELECTION_initFromTpm TPMS_PCR_SELECTION_default (TPML_PCR_SELECTION_pcrSelections self)) (\<lambda>pcrSelections.
     ret (self\<lparr>TPML_PCR_SELECTION_pcrSelections := pcrSelections\<rparr>))"

definition TPML_PCR_SELECTION_enc :: "TPML_PCR_SELECTION \<Rightarrow> ByteVec" where
  "TPML_PCR_SELECTION_enc x =
     enc_arr TPMS_PCR_SELECTION_enc (TPML_PCR_SELECTION_pcrSelections x)"

definition TPML_PCR_SELECTION_valid :: "TPML_PCR_SELECTION \<Rightarrow> bool" where
  "TPML_PCR_SELECTION_valid x \<longleftrightarrow>
     arr_ok TPMS_PCR_SELECTION_valid (TPML_PCR_SELECTION_pcrSelections x)"

lemma TPML_PCR_SELECTION_writes [writes_intros]:
  "TPML_PCR_SELECTION_valid x \<Longrightarrow> writes (TPML_PCR_SELECTION_toTpm x) (TPML_PCR_SELECTION_enc x)"
  unfolding TPML_PCR_SELECTION_toTpm_def TPML_PCR_SELECTION_enc_def
  by (intro writes_intros; simp add: TPML_PCR_SELECTION_valid_def opt_ok_iff)

lemma TPML_PCR_SELECTION_reads:
  "TPML_PCR_SELECTION_valid x \<Longrightarrow> reads (TPML_PCR_SELECTION_initFromTpm TPML_PCR_SELECTION_default) x (TPML_PCR_SELECTION_enc x)"
  by (simp only: TPML_PCR_SELECTION_initFromTpm_def TPML_PCR_SELECTION_enc_def TPML_PCR_SELECTION_default_def
        TPML_PCR_SELECTION.select_convs TPML_PCR_SELECTION.update_convs;
      intro reads_intros; (rule TPML_PCR_SELECTION.equality)?; simp add: TPML_PCR_SELECTION_valid_def opt_ok_iff)

lemma TPML_PCR_SELECTION_enc_nonempty [simp]: "TPML_PCR_SELECTION_enc x \<noteq> []"
  by (simp add: TPML_PCR_SELECTION_enc_def)

interpretation TPML_PCR_SELECTION_codec:
  tpm_codec TPML_PCR_SELECTION_toTpm TPML_PCR_SELECTION_initFromTpm TPML_PCR_SELECTION_default
    TPML_PCR_SELECTION_enc TPML_PCR_SELECTION_valid
  by unfold_locales (simp_all add: TPML_PCR_SELECTION_writes TPML_PCR_SELECTION_reads)

lemmas TPML_PCR_SELECTION_steps [reads_intros] =
  TPML_PCR_SELECTION_reads [THEN reads_sbind] TPML_PCR_SELECTION_reads [THEN reads_sbind_ret]

subsection \<open>TPML_ALG_PROPERTY\<close>

text \<open>This list is used to report on a list of algorithm attributes.\<close>

record TPML_ALG_PROPERTY =
  TPML_ALG_PROPERTY_algProperties :: "TPMS_ALG_PROPERTY list"

definition TPML_ALG_PROPERTY_default :: TPML_ALG_PROPERTY where
  "TPML_ALG_PROPERTY_default = \<lparr>TPML_ALG_PROPERTY_algProperties = []\<rparr>"

definition TPML_ALG_PROPERTY_toTpm :: "TPML_ALG_PROPERTY \<Rightarrow> unit tpm" where
  "TPML_ALG_PROPERTY_toTpm self =
     wseq [writeObjArr TPMS_ALG_PROPERTY_toTpm (TPML_ALG_PROPERTY_algProperties self)]"

definition TPML_ALG_PROPERTY_initFromTpm :: "TPML_ALG_PROPERTY \<Rightarrow> TPML_ALG_PROPERTY tpm" where
  "TPML_ALG_PROPERTY_initFromTpm self =
     sbind (readObjArr TPMS_ALG_PROPERTY_initFromTpm TPMS_ALG_PROPERTY_default (TPML_ALG_PROPERTY_algProperties self)) (\<lambda>algProperties.
     ret (self\<lparr>TPML_ALG_PROPERTY_algProperties := algProperties\<rparr>))"

definition TPML_ALG_PROPERTY_enc :: "TPML_ALG_PROPERTY \<Rightarrow> ByteVec" where
  "TPML_ALG_PROPERTY_enc x =
     enc_arr TPMS_ALG_PROPERTY_enc (TPML_ALG_PROPERTY_algProperties x)"

definition TPML_ALG_PROPERTY_valid :: "TPML_ALG_PROPERTY \<Rightarrow> bool" where
  "TPML_ALG_PROPERTY_valid x \<longleftrightarrow>
     arr_ok TPMS_ALG_PROPERTY_valid (TPML_ALG_PROPERTY_algProperties x)"

lemma TPML_ALG_PROPERTY_writes [writes_intros]:
  "TPML_ALG_PROPERTY_valid x \<Longrightarrow> writes (TPML_ALG_PROPERTY_toTpm x) (TPML_ALG_PROPERTY_enc x)"
  unfolding TPML_ALG_PROPERTY_toTpm_def TPML_ALG_PROPERTY_enc_def
  by (intro writes_intros; simp add: TPML_ALG_PROPERTY_valid_def opt_ok_iff)

lemma TPML_ALG_PROPERTY_reads:
  "TPML_ALG_PROPERTY_valid x \<Longrightarrow> reads (TPML_ALG_PROPERTY_initFromTpm TPML_ALG_PROPERTY_default) x (TPML_ALG_PROPERTY_enc x)"
  by (simp only: TPML_ALG_PROPERTY_initFromTpm_def TPML_ALG_PROPERTY_enc_def TPML_ALG_PROPERTY_default_def
        TPML_ALG_PROPERTY.select_convs TPML_ALG_PROPERTY.update_convs;
      intro reads_intros; (rule TPML_ALG_PROPERTY.equality)?; simp add: TPML_ALG_PROPERTY_valid_def opt_ok_iff)

lemma TPML_ALG_PROPERTY_enc_nonempty [simp]: "TPML_ALG_PROPERTY_enc x \<noteq> []"
  by (simp add: TPML_ALG_PROPERTY_enc_def)

interpretation TPML_ALG_PROPERTY_codec:
  tpm_codec TPML_ALG_PROPERTY_toTpm TPML_ALG_PROPERTY_initFromTpm TPML_ALG_PROPERTY_default
    TPML_ALG_PROPERTY_enc TPML_ALG_PROPERTY_valid
  by unfold_locales (simp_all add: TPML_ALG_PROPERTY_writes TPML_ALG_PROPERTY_reads)

lemmas TPML_ALG_PROPERTY_steps [reads_intros] =
  TPML_ALG_PROPERTY_reads [THEN reads_sbind] TPML_ALG_PROPERTY_reads [THEN reads_sbind_ret]

subsection \<open>TPML_TAGGED_TPM_PROPERTY\<close>

text \<open>This list is used to report on a list of properties that are TPMS_TAGGED_PROPERTY values.\<close>

record TPML_TAGGED_TPM_PROPERTY =
  TPML_TAGGED_TPM_PROPERTY_tpmProperty :: "TPMS_TAGGED_PROPERTY list"

definition TPML_TAGGED_TPM_PROPERTY_default :: TPML_TAGGED_TPM_PROPERTY where
  "TPML_TAGGED_TPM_PROPERTY_default = \<lparr>TPML_TAGGED_TPM_PROPERTY_tpmProperty = []\<rparr>"

definition TPML_TAGGED_TPM_PROPERTY_toTpm :: "TPML_TAGGED_TPM_PROPERTY \<Rightarrow> unit tpm" where
  "TPML_TAGGED_TPM_PROPERTY_toTpm self =
     wseq [writeObjArr TPMS_TAGGED_PROPERTY_toTpm (TPML_TAGGED_TPM_PROPERTY_tpmProperty self)]"

definition TPML_TAGGED_TPM_PROPERTY_initFromTpm :: "TPML_TAGGED_TPM_PROPERTY \<Rightarrow> TPML_TAGGED_TPM_PROPERTY tpm" where
  "TPML_TAGGED_TPM_PROPERTY_initFromTpm self =
     sbind (readObjArr TPMS_TAGGED_PROPERTY_initFromTpm TPMS_TAGGED_PROPERTY_default (TPML_TAGGED_TPM_PROPERTY_tpmProperty self)) (\<lambda>tpmProperty.
     ret (self\<lparr>TPML_TAGGED_TPM_PROPERTY_tpmProperty := tpmProperty\<rparr>))"

definition TPML_TAGGED_TPM_PROPERTY_enc :: "TPML_TAGGED_TPM_PROPERTY \<Rightarrow> ByteVec" where
  "TPML_TAGGED_TPM_PROPERTY_enc x =
     enc_arr TPMS_TAGGED_PROPERTY_enc (TPML_TAGGED_TPM_PROPERTY_tpmProperty x)"

definition TPML_TAGGED_TPM_PROPERTY_valid :: "TPML_TAGGED_TPM_PROPERTY \<Rightarrow> bool" where
  "TPML_TAGGED_TPM_PROPERTY_valid x \<longleftrightarrow>
     arr_ok TPMS_TAGGED_PROPERTY_valid (TPML_TAGGED_TPM_PROPERTY_tpmProperty x)"

lemma TPML_TAGGED_TPM_PROPERTY_writes [writes_intros]:
  "TPML_TAGGED_TPM_PROPERTY_valid x \<Longrightarrow> writes (TPML_TAGGED_TPM_PROPERTY_toTpm x) (TPML_TAGGED_TPM_PROPERTY_enc x)"
  unfolding TPML_TAGGED_TPM_PROPERTY_toTpm_def TPML_TAGGED_TPM_PROPERTY_enc_def
  by (intro writes_intros; simp add: TPML_TAGGED_TPM_PROPERTY_valid_def opt_ok_iff)

lemma TPML_TAGGED_TPM_PROPERTY_reads:
  "TPML_TAGGED_TPM_PROPERTY_valid x \<Longrightarrow> reads (TPML_TAGGED_TPM_PROPERTY_initFromTpm TPML_TAGGED_TPM_PROPERTY_default) x (TPML_TAGGED_TPM_PROPERTY_enc x)"
  by (simp only: TPML_TAGGED_TPM_PROPERTY_initFromTpm_def TPML_TAGGED_TPM_PROPERTY_enc_def TPML_TAGGED_TPM_PROPERTY_default_def
        TPML_TAGGED_TPM_PROPERTY.select_convs TPML_TAGGED_TPM_PROPERTY.update_convs;
      intro reads_intros; (rule TPML_TAGGED_TPM_PROPERTY.equality)?; simp add: TPML_TAGGED_TPM_PROPERTY_valid_def opt_ok_iff)

lemma TPML_TAGGED_TPM_PROPERTY_enc_nonempty [simp]: "TPML_TAGGED_TPM_PROPERTY_enc x \<noteq> []"
  by (simp add: TPML_TAGGED_TPM_PROPERTY_enc_def)

interpretation TPML_TAGGED_TPM_PROPERTY_codec:
  tpm_codec TPML_TAGGED_TPM_PROPERTY_toTpm TPML_TAGGED_TPM_PROPERTY_initFromTpm TPML_TAGGED_TPM_PROPERTY_default
    TPML_TAGGED_TPM_PROPERTY_enc TPML_TAGGED_TPM_PROPERTY_valid
  by unfold_locales (simp_all add: TPML_TAGGED_TPM_PROPERTY_writes TPML_TAGGED_TPM_PROPERTY_reads)

lemmas TPML_TAGGED_TPM_PROPERTY_steps [reads_intros] =
  TPML_TAGGED_TPM_PROPERTY_reads [THEN reads_sbind] TPML_TAGGED_TPM_PROPERTY_reads [THEN reads_sbind_ret]

subsection \<open>TPML_TAGGED_PCR_PROPERTY\<close>

text \<open>This list is used to report on a list of properties that are TPMS_PCR_SELECT values.\<close>

record TPML_TAGGED_PCR_PROPERTY =
  TPML_TAGGED_PCR_PROPERTY_pcrProperty :: "TPMS_TAGGED_PCR_SELECT list"

definition TPML_TAGGED_PCR_PROPERTY_default :: TPML_TAGGED_PCR_PROPERTY where
  "TPML_TAGGED_PCR_PROPERTY_default = \<lparr>TPML_TAGGED_PCR_PROPERTY_pcrProperty = []\<rparr>"

definition TPML_TAGGED_PCR_PROPERTY_toTpm :: "TPML_TAGGED_PCR_PROPERTY \<Rightarrow> unit tpm" where
  "TPML_TAGGED_PCR_PROPERTY_toTpm self =
     wseq [writeObjArr TPMS_TAGGED_PCR_SELECT_toTpm (TPML_TAGGED_PCR_PROPERTY_pcrProperty self)]"

definition TPML_TAGGED_PCR_PROPERTY_initFromTpm :: "TPML_TAGGED_PCR_PROPERTY \<Rightarrow> TPML_TAGGED_PCR_PROPERTY tpm" where
  "TPML_TAGGED_PCR_PROPERTY_initFromTpm self =
     sbind (readObjArr TPMS_TAGGED_PCR_SELECT_initFromTpm TPMS_TAGGED_PCR_SELECT_default (TPML_TAGGED_PCR_PROPERTY_pcrProperty self)) (\<lambda>pcrProperty.
     ret (self\<lparr>TPML_TAGGED_PCR_PROPERTY_pcrProperty := pcrProperty\<rparr>))"

definition TPML_TAGGED_PCR_PROPERTY_enc :: "TPML_TAGGED_PCR_PROPERTY \<Rightarrow> ByteVec" where
  "TPML_TAGGED_PCR_PROPERTY_enc x =
     enc_arr TPMS_TAGGED_PCR_SELECT_enc (TPML_TAGGED_PCR_PROPERTY_pcrProperty x)"

definition TPML_TAGGED_PCR_PROPERTY_valid :: "TPML_TAGGED_PCR_PROPERTY \<Rightarrow> bool" where
  "TPML_TAGGED_PCR_PROPERTY_valid x \<longleftrightarrow>
     arr_ok TPMS_TAGGED_PCR_SELECT_valid (TPML_TAGGED_PCR_PROPERTY_pcrProperty x)"

lemma TPML_TAGGED_PCR_PROPERTY_writes [writes_intros]:
  "TPML_TAGGED_PCR_PROPERTY_valid x \<Longrightarrow> writes (TPML_TAGGED_PCR_PROPERTY_toTpm x) (TPML_TAGGED_PCR_PROPERTY_enc x)"
  unfolding TPML_TAGGED_PCR_PROPERTY_toTpm_def TPML_TAGGED_PCR_PROPERTY_enc_def
  by (intro writes_intros; simp add: TPML_TAGGED_PCR_PROPERTY_valid_def opt_ok_iff)

lemma TPML_TAGGED_PCR_PROPERTY_reads:
  "TPML_TAGGED_PCR_PROPERTY_valid x \<Longrightarrow> reads (TPML_TAGGED_PCR_PROPERTY_initFromTpm TPML_TAGGED_PCR_PROPERTY_default) x (TPML_TAGGED_PCR_PROPERTY_enc x)"
  by (simp only: TPML_TAGGED_PCR_PROPERTY_initFromTpm_def TPML_TAGGED_PCR_PROPERTY_enc_def TPML_TAGGED_PCR_PROPERTY_default_def
        TPML_TAGGED_PCR_PROPERTY.select_convs TPML_TAGGED_PCR_PROPERTY.update_convs;
      intro reads_intros; (rule TPML_TAGGED_PCR_PROPERTY.equality)?; simp add: TPML_TAGGED_PCR_PROPERTY_valid_def opt_ok_iff)

lemma TPML_TAGGED_PCR_PROPERTY_enc_nonempty [simp]: "TPML_TAGGED_PCR_PROPERTY_enc x \<noteq> []"
  by (simp add: TPML_TAGGED_PCR_PROPERTY_enc_def)

interpretation TPML_TAGGED_PCR_PROPERTY_codec:
  tpm_codec TPML_TAGGED_PCR_PROPERTY_toTpm TPML_TAGGED_PCR_PROPERTY_initFromTpm TPML_TAGGED_PCR_PROPERTY_default
    TPML_TAGGED_PCR_PROPERTY_enc TPML_TAGGED_PCR_PROPERTY_valid
  by unfold_locales (simp_all add: TPML_TAGGED_PCR_PROPERTY_writes TPML_TAGGED_PCR_PROPERTY_reads)

lemmas TPML_TAGGED_PCR_PROPERTY_steps [reads_intros] =
  TPML_TAGGED_PCR_PROPERTY_reads [THEN reads_sbind] TPML_TAGGED_PCR_PROPERTY_reads [THEN reads_sbind_ret]

subsection \<open>TPML_ECC_CURVE\<close>

text \<open>This list is used to report the ECC curve ID values supported by the TPM. It is returned by a TPM2_GetCapability().\<close>

record TPML_ECC_CURVE =
  TPML_ECC_CURVE_eccCurves :: "TPM_ECC_CURVE list"

definition TPML_ECC_CURVE_default :: TPML_ECC_CURVE where
  "TPML_ECC_CURVE_default = \<lparr>TPML_ECC_CURVE_eccCurves = []\<rparr>"

definition TPML_ECC_CURVE_toTpm :: "TPML_ECC_CURVE \<Rightarrow> unit tpm" where
  "TPML_ECC_CURVE_toTpm self =
     wseq [writeValArr (TPML_ECC_CURVE_eccCurves self) 2]"

definition TPML_ECC_CURVE_initFromTpm :: "TPML_ECC_CURVE \<Rightarrow> TPML_ECC_CURVE tpm" where
  "TPML_ECC_CURVE_initFromTpm self =
     sbind (readValArr (TPML_ECC_CURVE_eccCurves self) 2) (\<lambda>eccCurves.
     ret (self\<lparr>TPML_ECC_CURVE_eccCurves := eccCurves\<rparr>))"

definition TPML_ECC_CURVE_enc :: "TPML_ECC_CURVE \<Rightarrow> ByteVec" where
  "TPML_ECC_CURVE_enc x =
     enc_arr (enc_val 2) (TPML_ECC_CURVE_eccCurves x)"

definition TPML_ECC_CURVE_valid :: "TPML_ECC_CURVE \<Rightarrow> bool" where
  "TPML_ECC_CURVE_valid x \<longleftrightarrow>
     length (TPML_ECC_CURVE_eccCurves x) < 2 ^ 32"

lemma TPML_ECC_CURVE_writes [writes_intros]:
  "TPML_ECC_CURVE_valid x \<Longrightarrow> writes (TPML_ECC_CURVE_toTpm x) (TPML_ECC_CURVE_enc x)"
  unfolding TPML_ECC_CURVE_toTpm_def TPML_ECC_CURVE_enc_def
  by (intro writes_intros; simp add: TPML_ECC_CURVE_valid_def opt_ok_iff)

lemma TPML_ECC_CURVE_reads:
  "TPML_ECC_CURVE_valid x \<Longrightarrow> reads (TPML_ECC_CURVE_initFromTpm TPML_ECC_CURVE_default) x (TPML_ECC_CURVE_enc x)"
  by (simp only: TPML_ECC_CURVE_initFromTpm_def TPML_ECC_CURVE_enc_def TPML_ECC_CURVE_default_def
        TPML_ECC_CURVE.select_convs TPML_ECC_CURVE.update_convs;
      intro reads_intros; (rule TPML_ECC_CURVE.equality)?; simp add: TPML_ECC_CURVE_valid_def opt_ok_iff)

lemma TPML_ECC_CURVE_enc_nonempty [simp]: "TPML_ECC_CURVE_enc x \<noteq> []"
  by (simp add: TPML_ECC_CURVE_enc_def)

interpretation TPML_ECC_CURVE_codec:
  tpm_codec TPML_ECC_CURVE_toTpm TPML_ECC_CURVE_initFromTpm TPML_ECC_CURVE_default
    TPML_ECC_CURVE_enc TPML_ECC_CURVE_valid
  by unfold_locales (simp_all add: TPML_ECC_CURVE_writes TPML_ECC_CURVE_reads)

lemmas TPML_ECC_CURVE_steps [reads_intros] =
  TPML_ECC_CURVE_reads [THEN reads_sbind] TPML_ECC_CURVE_reads [THEN reads_sbind_ret]

subsection \<open>TPML_TAGGED_POLICY\<close>

text \<open>This list is used to report the authorization policy values for permanent handles.\<close>

record TPML_TAGGED_POLICY =
  TPML_TAGGED_POLICY_policies :: "TPMS_TAGGED_POLICY list"

definition TPML_TAGGED_POLICY_default :: TPML_TAGGED_POLICY where
  "TPML_TAGGED_POLICY_default = \<lparr>TPML_TAGGED_POLICY_policies = []\<rparr>"

definition TPML_TAGGED_POLICY_toTpm :: "TPML_TAGGED_POLICY \<Rightarrow> unit tpm" where
  "TPML_TAGGED_POLICY_toTpm self =
     wseq [writeObjArr TPMS_TAGGED_POLICY_toTpm (TPML_TAGGED_POLICY_policies self)]"

definition TPML_TAGGED_POLICY_initFromTpm :: "TPML_TAGGED_POLICY \<Rightarrow> TPML_TAGGED_POLICY tpm" where
  "TPML_TAGGED_POLICY_initFromTpm self =
     sbind (readObjArr TPMS_TAGGED_POLICY_initFromTpm TPMS_TAGGED_POLICY_default (TPML_TAGGED_POLICY_policies self)) (\<lambda>policies.
     ret (self\<lparr>TPML_TAGGED_POLICY_policies := policies\<rparr>))"

definition TPML_TAGGED_POLICY_enc :: "TPML_TAGGED_POLICY \<Rightarrow> ByteVec" where
  "TPML_TAGGED_POLICY_enc x =
     enc_arr TPMS_TAGGED_POLICY_enc (TPML_TAGGED_POLICY_policies x)"

definition TPML_TAGGED_POLICY_valid :: "TPML_TAGGED_POLICY \<Rightarrow> bool" where
  "TPML_TAGGED_POLICY_valid x \<longleftrightarrow>
     arr_ok TPMS_TAGGED_POLICY_valid (TPML_TAGGED_POLICY_policies x)"

lemma TPML_TAGGED_POLICY_writes [writes_intros]:
  "TPML_TAGGED_POLICY_valid x \<Longrightarrow> writes (TPML_TAGGED_POLICY_toTpm x) (TPML_TAGGED_POLICY_enc x)"
  unfolding TPML_TAGGED_POLICY_toTpm_def TPML_TAGGED_POLICY_enc_def
  by (intro writes_intros; simp add: TPML_TAGGED_POLICY_valid_def opt_ok_iff)

lemma TPML_TAGGED_POLICY_reads:
  "TPML_TAGGED_POLICY_valid x \<Longrightarrow> reads (TPML_TAGGED_POLICY_initFromTpm TPML_TAGGED_POLICY_default) x (TPML_TAGGED_POLICY_enc x)"
  by (simp only: TPML_TAGGED_POLICY_initFromTpm_def TPML_TAGGED_POLICY_enc_def TPML_TAGGED_POLICY_default_def
        TPML_TAGGED_POLICY.select_convs TPML_TAGGED_POLICY.update_convs;
      intro reads_intros; (rule TPML_TAGGED_POLICY.equality)?; simp add: TPML_TAGGED_POLICY_valid_def opt_ok_iff)

lemma TPML_TAGGED_POLICY_enc_nonempty [simp]: "TPML_TAGGED_POLICY_enc x \<noteq> []"
  by (simp add: TPML_TAGGED_POLICY_enc_def)

interpretation TPML_TAGGED_POLICY_codec:
  tpm_codec TPML_TAGGED_POLICY_toTpm TPML_TAGGED_POLICY_initFromTpm TPML_TAGGED_POLICY_default
    TPML_TAGGED_POLICY_enc TPML_TAGGED_POLICY_valid
  by unfold_locales (simp_all add: TPML_TAGGED_POLICY_writes TPML_TAGGED_POLICY_reads)

lemmas TPML_TAGGED_POLICY_steps [reads_intros] =
  TPML_TAGGED_POLICY_reads [THEN reads_sbind] TPML_TAGGED_POLICY_reads [THEN reads_sbind_ret]

subsection \<open>TPML_ACT_DATA\<close>

text \<open>This list is used to report the timeout and state for the ACT. This list may be generated by TPM2_GetCapabilty().\<close>

record TPML_ACT_DATA =
  TPML_ACT_DATA_actData :: "TPMS_ACT_DATA list"

definition TPML_ACT_DATA_default :: TPML_ACT_DATA where
  "TPML_ACT_DATA_default = \<lparr>TPML_ACT_DATA_actData = []\<rparr>"

definition TPML_ACT_DATA_toTpm :: "TPML_ACT_DATA \<Rightarrow> unit tpm" where
  "TPML_ACT_DATA_toTpm self =
     wseq [writeObjArr TPMS_ACT_DATA_toTpm (TPML_ACT_DATA_actData self)]"

definition TPML_ACT_DATA_initFromTpm :: "TPML_ACT_DATA \<Rightarrow> TPML_ACT_DATA tpm" where
  "TPML_ACT_DATA_initFromTpm self =
     sbind (readObjArr TPMS_ACT_DATA_initFromTpm TPMS_ACT_DATA_default (TPML_ACT_DATA_actData self)) (\<lambda>actData.
     ret (self\<lparr>TPML_ACT_DATA_actData := actData\<rparr>))"

definition TPML_ACT_DATA_enc :: "TPML_ACT_DATA \<Rightarrow> ByteVec" where
  "TPML_ACT_DATA_enc x =
     enc_arr TPMS_ACT_DATA_enc (TPML_ACT_DATA_actData x)"

definition TPML_ACT_DATA_valid :: "TPML_ACT_DATA \<Rightarrow> bool" where
  "TPML_ACT_DATA_valid x \<longleftrightarrow>
     arr_ok TPMS_ACT_DATA_valid (TPML_ACT_DATA_actData x)"

lemma TPML_ACT_DATA_writes [writes_intros]:
  "TPML_ACT_DATA_valid x \<Longrightarrow> writes (TPML_ACT_DATA_toTpm x) (TPML_ACT_DATA_enc x)"
  unfolding TPML_ACT_DATA_toTpm_def TPML_ACT_DATA_enc_def
  by (intro writes_intros; simp add: TPML_ACT_DATA_valid_def opt_ok_iff)

lemma TPML_ACT_DATA_reads:
  "TPML_ACT_DATA_valid x \<Longrightarrow> reads (TPML_ACT_DATA_initFromTpm TPML_ACT_DATA_default) x (TPML_ACT_DATA_enc x)"
  by (simp only: TPML_ACT_DATA_initFromTpm_def TPML_ACT_DATA_enc_def TPML_ACT_DATA_default_def
        TPML_ACT_DATA.select_convs TPML_ACT_DATA.update_convs;
      intro reads_intros; (rule TPML_ACT_DATA.equality)?; simp add: TPML_ACT_DATA_valid_def opt_ok_iff)

lemma TPML_ACT_DATA_enc_nonempty [simp]: "TPML_ACT_DATA_enc x \<noteq> []"
  by (simp add: TPML_ACT_DATA_enc_def)

interpretation TPML_ACT_DATA_codec:
  tpm_codec TPML_ACT_DATA_toTpm TPML_ACT_DATA_initFromTpm TPML_ACT_DATA_default
    TPML_ACT_DATA_enc TPML_ACT_DATA_valid
  by unfold_locales (simp_all add: TPML_ACT_DATA_writes TPML_ACT_DATA_reads)

lemmas TPML_ACT_DATA_steps [reads_intros] =
  TPML_ACT_DATA_reads [THEN reads_sbind] TPML_ACT_DATA_reads [THEN reads_sbind_ret]

subsection \<open>The union TPMU_CAPABILITIES\<close>

datatype TPMU_CAPABILITIES =
    CAPABILITIES_TPML_ALG_PROPERTY TPML_ALG_PROPERTY
  | CAPABILITIES_TPML_HANDLE TPML_HANDLE
  | CAPABILITIES_TPML_CCA TPML_CCA
  | CAPABILITIES_TPML_CC TPML_CC
  | CAPABILITIES_TPML_PCR_SELECTION TPML_PCR_SELECTION
  | CAPABILITIES_TPML_TAGGED_TPM_PROPERTY TPML_TAGGED_TPM_PROPERTY
  | CAPABILITIES_TPML_TAGGED_PCR_PROPERTY TPML_TAGGED_PCR_PROPERTY
  | CAPABILITIES_TPML_ECC_CURVE TPML_ECC_CURVE
  | CAPABILITIES_TPML_TAGGED_POLICY TPML_TAGGED_POLICY
  | CAPABILITIES_TPML_ACT_DATA TPML_ACT_DATA

fun TPMU_CAPABILITIES_GetUnionSelector :: "TPMU_CAPABILITIES \<Rightarrow> TPM_CAP" where
  "TPMU_CAPABILITIES_GetUnionSelector (CAPABILITIES_TPML_ALG_PROPERTY x) = TPM_CAP_ALGS"
| "TPMU_CAPABILITIES_GetUnionSelector (CAPABILITIES_TPML_HANDLE x) = TPM_CAP_HANDLES"
| "TPMU_CAPABILITIES_GetUnionSelector (CAPABILITIES_TPML_CCA x) = TPM_CAP_COMMANDS"
| "TPMU_CAPABILITIES_GetUnionSelector (CAPABILITIES_TPML_CC x) = TPM_CAP_PP_COMMANDS"
| "TPMU_CAPABILITIES_GetUnionSelector (CAPABILITIES_TPML_PCR_SELECTION x) = TPM_CAP_PCRS"
| "TPMU_CAPABILITIES_GetUnionSelector (CAPABILITIES_TPML_TAGGED_TPM_PROPERTY x) = TPM_CAP_TPM_PROPERTIES"
| "TPMU_CAPABILITIES_GetUnionSelector (CAPABILITIES_TPML_TAGGED_PCR_PROPERTY x) = TPM_CAP_PCR_PROPERTIES"
| "TPMU_CAPABILITIES_GetUnionSelector (CAPABILITIES_TPML_ECC_CURVE x) = TPM_CAP_ECC_CURVES"
| "TPMU_CAPABILITIES_GetUnionSelector (CAPABILITIES_TPML_TAGGED_POLICY x) = TPM_CAP_AUTH_POLICIES"
| "TPMU_CAPABILITIES_GetUnionSelector (CAPABILITIES_TPML_ACT_DATA x) = TPM_CAP_ACT"

fun TPMU_CAPABILITIES_toTpm :: "TPMU_CAPABILITIES \<Rightarrow> unit tpm" where
  "TPMU_CAPABILITIES_toTpm (CAPABILITIES_TPML_ALG_PROPERTY x) = TPML_ALG_PROPERTY_toTpm x"
| "TPMU_CAPABILITIES_toTpm (CAPABILITIES_TPML_HANDLE x) = TPML_HANDLE_toTpm x"
| "TPMU_CAPABILITIES_toTpm (CAPABILITIES_TPML_CCA x) = TPML_CCA_toTpm x"
| "TPMU_CAPABILITIES_toTpm (CAPABILITIES_TPML_CC x) = TPML_CC_toTpm x"
| "TPMU_CAPABILITIES_toTpm (CAPABILITIES_TPML_PCR_SELECTION x) = TPML_PCR_SELECTION_toTpm x"
| "TPMU_CAPABILITIES_toTpm (CAPABILITIES_TPML_TAGGED_TPM_PROPERTY x) = TPML_TAGGED_TPM_PROPERTY_toTpm x"
| "TPMU_CAPABILITIES_toTpm (CAPABILITIES_TPML_TAGGED_PCR_PROPERTY x) = TPML_TAGGED_PCR_PROPERTY_toTpm x"
| "TPMU_CAPABILITIES_toTpm (CAPABILITIES_TPML_ECC_CURVE x) = TPML_ECC_CURVE_toTpm x"
| "TPMU_CAPABILITIES_toTpm (CAPABILITIES_TPML_TAGGED_POLICY x) = TPML_TAGGED_POLICY_toTpm x"
| "TPMU_CAPABILITIES_toTpm (CAPABILITIES_TPML_ACT_DATA x) = TPML_ACT_DATA_toTpm x"

fun TPMU_CAPABILITIES_initFromTpm :: "TPMU_CAPABILITIES \<Rightarrow> TPMU_CAPABILITIES tpm" where
  "TPMU_CAPABILITIES_initFromTpm (CAPABILITIES_TPML_ALG_PROPERTY x) = sbind (TPML_ALG_PROPERTY_initFromTpm x) (\<lambda>y. ret (CAPABILITIES_TPML_ALG_PROPERTY y))"
| "TPMU_CAPABILITIES_initFromTpm (CAPABILITIES_TPML_HANDLE x) = sbind (TPML_HANDLE_initFromTpm x) (\<lambda>y. ret (CAPABILITIES_TPML_HANDLE y))"
| "TPMU_CAPABILITIES_initFromTpm (CAPABILITIES_TPML_CCA x) = sbind (TPML_CCA_initFromTpm x) (\<lambda>y. ret (CAPABILITIES_TPML_CCA y))"
| "TPMU_CAPABILITIES_initFromTpm (CAPABILITIES_TPML_CC x) = sbind (TPML_CC_initFromTpm x) (\<lambda>y. ret (CAPABILITIES_TPML_CC y))"
| "TPMU_CAPABILITIES_initFromTpm (CAPABILITIES_TPML_PCR_SELECTION x) = sbind (TPML_PCR_SELECTION_initFromTpm x) (\<lambda>y. ret (CAPABILITIES_TPML_PCR_SELECTION y))"
| "TPMU_CAPABILITIES_initFromTpm (CAPABILITIES_TPML_TAGGED_TPM_PROPERTY x) = sbind (TPML_TAGGED_TPM_PROPERTY_initFromTpm x) (\<lambda>y. ret (CAPABILITIES_TPML_TAGGED_TPM_PROPERTY y))"
| "TPMU_CAPABILITIES_initFromTpm (CAPABILITIES_TPML_TAGGED_PCR_PROPERTY x) = sbind (TPML_TAGGED_PCR_PROPERTY_initFromTpm x) (\<lambda>y. ret (CAPABILITIES_TPML_TAGGED_PCR_PROPERTY y))"
| "TPMU_CAPABILITIES_initFromTpm (CAPABILITIES_TPML_ECC_CURVE x) = sbind (TPML_ECC_CURVE_initFromTpm x) (\<lambda>y. ret (CAPABILITIES_TPML_ECC_CURVE y))"
| "TPMU_CAPABILITIES_initFromTpm (CAPABILITIES_TPML_TAGGED_POLICY x) = sbind (TPML_TAGGED_POLICY_initFromTpm x) (\<lambda>y. ret (CAPABILITIES_TPML_TAGGED_POLICY y))"
| "TPMU_CAPABILITIES_initFromTpm (CAPABILITIES_TPML_ACT_DATA x) = sbind (TPML_ACT_DATA_initFromTpm x) (\<lambda>y. ret (CAPABILITIES_TPML_ACT_DATA y))"

definition UnionFactory_Create_TPMU_CAPABILITIES :: "TPM_CAP \<Rightarrow> TPMU_CAPABILITIES option outcome" where
  "UnionFactory_Create_TPMU_CAPABILITIES selector =
     (if selector = TPM_CAP_ALGS then Ok (Some (CAPABILITIES_TPML_ALG_PROPERTY TPML_ALG_PROPERTY_default))
      else if selector = TPM_CAP_HANDLES then Ok (Some (CAPABILITIES_TPML_HANDLE TPML_HANDLE_default))
      else if selector = TPM_CAP_COMMANDS then Ok (Some (CAPABILITIES_TPML_CCA TPML_CCA_default))
      else if selector = TPM_CAP_PP_COMMANDS then Ok (Some (CAPABILITIES_TPML_CC TPML_CC_default))
      else if selector = TPM_CAP_AUDIT_COMMANDS then Ok (Some (CAPABILITIES_TPML_CC TPML_CC_default))
      else if selector = TPM_CAP_PCRS then Ok (Some (CAPABILITIES_TPML_PCR_SELECTION TPML_PCR_SELECTION_default))
      else if selector = TPM_CAP_TPM_PROPERTIES then Ok (Some (CAPABILITIES_TPML_TAGGED_TPM_PROPERTY TPML_TAGGED_TPM_PROPERTY_default))
      else if selector = TPM_CAP_PCR_PROPERTIES then Ok (Some (CAPABILITIES_TPML_TAGGED_PCR_PROPERTY TPML_TAGGED_PCR_PROPERTY_default))
      else if selector = TPM_CAP_ECC_CURVES then Ok (Some (CAPABILITIES_TPML_ECC_CURVE TPML_ECC_CURVE_default))
      else if selector = TPM_CAP_AUTH_POLICIES then Ok (Some (CAPABILITIES_TPML_TAGGED_POLICY TPML_TAGGED_POLICY_default))
      else if selector = TPM_CAP_ACT then Ok (Some (CAPABILITIES_TPML_ACT_DATA TPML_ACT_DATA_default))
      else Throw (runtime_error ''Unknown selector value''))"

text \<open>The wire form of the members, the member a selector stands for, and which members a selector can name.\<close>

fun TPMU_CAPABILITIES_fresh :: "TPMU_CAPABILITIES \<Rightarrow> TPMU_CAPABILITIES" where
  "TPMU_CAPABILITIES_fresh (CAPABILITIES_TPML_ALG_PROPERTY _) = CAPABILITIES_TPML_ALG_PROPERTY TPML_ALG_PROPERTY_default"
| "TPMU_CAPABILITIES_fresh (CAPABILITIES_TPML_HANDLE _) = CAPABILITIES_TPML_HANDLE TPML_HANDLE_default"
| "TPMU_CAPABILITIES_fresh (CAPABILITIES_TPML_CCA _) = CAPABILITIES_TPML_CCA TPML_CCA_default"
| "TPMU_CAPABILITIES_fresh (CAPABILITIES_TPML_CC _) = CAPABILITIES_TPML_CC TPML_CC_default"
| "TPMU_CAPABILITIES_fresh (CAPABILITIES_TPML_PCR_SELECTION _) = CAPABILITIES_TPML_PCR_SELECTION TPML_PCR_SELECTION_default"
| "TPMU_CAPABILITIES_fresh (CAPABILITIES_TPML_TAGGED_TPM_PROPERTY _) = CAPABILITIES_TPML_TAGGED_TPM_PROPERTY TPML_TAGGED_TPM_PROPERTY_default"
| "TPMU_CAPABILITIES_fresh (CAPABILITIES_TPML_TAGGED_PCR_PROPERTY _) = CAPABILITIES_TPML_TAGGED_PCR_PROPERTY TPML_TAGGED_PCR_PROPERTY_default"
| "TPMU_CAPABILITIES_fresh (CAPABILITIES_TPML_ECC_CURVE _) = CAPABILITIES_TPML_ECC_CURVE TPML_ECC_CURVE_default"
| "TPMU_CAPABILITIES_fresh (CAPABILITIES_TPML_TAGGED_POLICY _) = CAPABILITIES_TPML_TAGGED_POLICY TPML_TAGGED_POLICY_default"
| "TPMU_CAPABILITIES_fresh (CAPABILITIES_TPML_ACT_DATA _) = CAPABILITIES_TPML_ACT_DATA TPML_ACT_DATA_default"

fun TPMU_CAPABILITIES_enc :: "TPMU_CAPABILITIES \<Rightarrow> ByteVec" where
  "TPMU_CAPABILITIES_enc (CAPABILITIES_TPML_ALG_PROPERTY x) = TPML_ALG_PROPERTY_enc x"
| "TPMU_CAPABILITIES_enc (CAPABILITIES_TPML_HANDLE x) = TPML_HANDLE_enc x"
| "TPMU_CAPABILITIES_enc (CAPABILITIES_TPML_CCA x) = TPML_CCA_enc x"
| "TPMU_CAPABILITIES_enc (CAPABILITIES_TPML_CC x) = TPML_CC_enc x"
| "TPMU_CAPABILITIES_enc (CAPABILITIES_TPML_PCR_SELECTION x) = TPML_PCR_SELECTION_enc x"
| "TPMU_CAPABILITIES_enc (CAPABILITIES_TPML_TAGGED_TPM_PROPERTY x) = TPML_TAGGED_TPM_PROPERTY_enc x"
| "TPMU_CAPABILITIES_enc (CAPABILITIES_TPML_TAGGED_PCR_PROPERTY x) = TPML_TAGGED_PCR_PROPERTY_enc x"
| "TPMU_CAPABILITIES_enc (CAPABILITIES_TPML_ECC_CURVE x) = TPML_ECC_CURVE_enc x"
| "TPMU_CAPABILITIES_enc (CAPABILITIES_TPML_TAGGED_POLICY x) = TPML_TAGGED_POLICY_enc x"
| "TPMU_CAPABILITIES_enc (CAPABILITIES_TPML_ACT_DATA x) = TPML_ACT_DATA_enc x"

fun TPMU_CAPABILITIES_valid :: "TPMU_CAPABILITIES \<Rightarrow> bool" where
  "TPMU_CAPABILITIES_valid (CAPABILITIES_TPML_ALG_PROPERTY x) = TPML_ALG_PROPERTY_valid x"
| "TPMU_CAPABILITIES_valid (CAPABILITIES_TPML_HANDLE x) = TPML_HANDLE_valid x"
| "TPMU_CAPABILITIES_valid (CAPABILITIES_TPML_CCA x) = TPML_CCA_valid x"
| "TPMU_CAPABILITIES_valid (CAPABILITIES_TPML_CC x) = TPML_CC_valid x"
| "TPMU_CAPABILITIES_valid (CAPABILITIES_TPML_PCR_SELECTION x) = TPML_PCR_SELECTION_valid x"
| "TPMU_CAPABILITIES_valid (CAPABILITIES_TPML_TAGGED_TPM_PROPERTY x) = TPML_TAGGED_TPM_PROPERTY_valid x"
| "TPMU_CAPABILITIES_valid (CAPABILITIES_TPML_TAGGED_PCR_PROPERTY x) = TPML_TAGGED_PCR_PROPERTY_valid x"
| "TPMU_CAPABILITIES_valid (CAPABILITIES_TPML_ECC_CURVE x) = TPML_ECC_CURVE_valid x"
| "TPMU_CAPABILITIES_valid (CAPABILITIES_TPML_TAGGED_POLICY x) = TPML_TAGGED_POLICY_valid x"
| "TPMU_CAPABILITIES_valid (CAPABILITIES_TPML_ACT_DATA x) = TPML_ACT_DATA_valid x"

lemma TPMU_CAPABILITIES_writes [writes_intros]: "TPMU_CAPABILITIES_valid u \<Longrightarrow> writes (TPMU_CAPABILITIES_toTpm u) (TPMU_CAPABILITIES_enc u)"
  by (cases u) (auto intro!: writes_intros)

lemma TPMU_CAPABILITIES_reads:
  "TPMU_CAPABILITIES_valid u \<Longrightarrow> reads (TPMU_CAPABILITIES_initFromTpm (TPMU_CAPABILITIES_fresh u)) u (TPMU_CAPABILITIES_enc u)"
  by (cases u) (auto intro!: reads_intros)

lemma TPMU_CAPABILITIES_reads_the:
  "opt_ok TPMU_CAPABILITIES_valid u \<Longrightarrow> reads (TPMU_CAPABILITIES_initFromTpm (TPMU_CAPABILITIES_fresh (the u))) (the u) (opt_enc TPMU_CAPABILITIES_enc u)"
  by (cases u) (simp_all add: TPMU_CAPABILITIES_reads)

lemma TPMU_CAPABILITIES_Create:
  "TPMU_CAPABILITIES_valid u \<Longrightarrow>
   UnionFactory_Create_TPMU_CAPABILITIES (TPMU_CAPABILITIES_GetUnionSelector u) = Ok (Some (TPMU_CAPABILITIES_fresh u))"
  by (cases u) (simp_all add: UnionFactory_Create_TPMU_CAPABILITIES_def)

lemma TPMU_CAPABILITIES_Create_the:
  "opt_ok TPMU_CAPABILITIES_valid u \<Longrightarrow>
   UnionFactory_Create_TPMU_CAPABILITIES (TPMU_CAPABILITIES_GetUnionSelector (the u)) = Ok (Some (TPMU_CAPABILITIES_fresh (the u)))"
  by (cases u) (simp_all add: TPMU_CAPABILITIES_Create)

lemmas TPMU_CAPABILITIES_steps [reads_intros] =
  reads_deref [where init = TPMU_CAPABILITIES_initFromTpm, OF TPMU_CAPABILITIES_reads_the]
  reads_deref_ret [where init = TPMU_CAPABILITIES_initFromTpm, OF TPMU_CAPABILITIES_reads_the]
  TPMU_CAPABILITIES_Create_the [THEN reads_bindO]

subsection \<open>TPMS_CAPABILITY_DATA\<close>

text \<open>This data area is returned in response to a TPM2_GetCapability().\<close>

record TPMS_CAPABILITY_DATA =
  TPMS_CAPABILITY_DATA_data :: "TPMU_CAPABILITIES option"

definition TPMS_CAPABILITY_DATA_default :: TPMS_CAPABILITY_DATA where
  "TPMS_CAPABILITY_DATA_default = \<lparr>TPMS_CAPABILITY_DATA_data = None\<rparr>"

definition TPMS_CAPABILITY_DATA_toTpm :: "TPMS_CAPABILITY_DATA \<Rightarrow> unit tpm" where
  "TPMS_CAPABILITY_DATA_toTpm self =
     (if TPMS_CAPABILITY_DATA_data self = None then ret ()
     else wseq [deref (TPMS_CAPABILITY_DATA_data self) (\<lambda>u. writeInt (TPMU_CAPABILITIES_GetUnionSelector u)),
       deref (TPMS_CAPABILITY_DATA_data self) TPMU_CAPABILITIES_toTpm])"

definition TPMS_CAPABILITY_DATA_initFromTpm :: "TPMS_CAPABILITY_DATA \<Rightarrow> TPMS_CAPABILITY_DATA tpm" where
  "TPMS_CAPABILITY_DATA_initFromTpm self =
     sbind readInt (\<lambda>capability.
     bindO (UnionFactory_Create_TPMU_CAPABILITIES capability) (\<lambda>data.
     sbind (deref data TPMU_CAPABILITIES_initFromTpm) (\<lambda>data.
     ret (self\<lparr>TPMS_CAPABILITY_DATA_data := Some data\<rparr>))))"

definition TPMS_CAPABILITY_DATA_enc :: "TPMS_CAPABILITY_DATA \<Rightarrow> ByteVec" where
  "TPMS_CAPABILITY_DATA_enc x =
     (if TPMS_CAPABILITY_DATA_data x = None then []
     else opt_enc (\<lambda>u. enc32 (TPMU_CAPABILITIES_GetUnionSelector u)) (TPMS_CAPABILITY_DATA_data x) @
       opt_enc TPMU_CAPABILITIES_enc (TPMS_CAPABILITY_DATA_data x))"

definition TPMS_CAPABILITY_DATA_valid :: "TPMS_CAPABILITY_DATA \<Rightarrow> bool" where
  "TPMS_CAPABILITY_DATA_valid x \<longleftrightarrow>
     opt_ok TPMU_CAPABILITIES_valid (TPMS_CAPABILITY_DATA_data x)"

lemma TPMS_CAPABILITY_DATA_null: "TPMS_CAPABILITY_DATA_toTpm TPMS_CAPABILITY_DATA_default = ret ()" "TPMS_CAPABILITY_DATA_enc TPMS_CAPABILITY_DATA_default = []"
  by (simp_all add: TPMS_CAPABILITY_DATA_toTpm_def TPMS_CAPABILITY_DATA_enc_def TPMS_CAPABILITY_DATA_default_def)

lemma TPMS_CAPABILITY_DATA_writes [writes_intros]:
  "TPMS_CAPABILITY_DATA_valid x \<Longrightarrow> writes (TPMS_CAPABILITY_DATA_toTpm x) (TPMS_CAPABILITY_DATA_enc x)"
  by (auto simp: TPMS_CAPABILITY_DATA_toTpm_def TPMS_CAPABILITY_DATA_enc_def TPMS_CAPABILITY_DATA_valid_def opt_ok_iff
      simp del: wseq.simps intro!: writes_intros)

lemma TPMS_CAPABILITY_DATA_reads:
  "TPMS_CAPABILITY_DATA_valid x \<Longrightarrow> reads (TPMS_CAPABILITY_DATA_initFromTpm TPMS_CAPABILITY_DATA_default) x (TPMS_CAPABILITY_DATA_enc x)"
  by (simp only: TPMS_CAPABILITY_DATA_initFromTpm_def TPMS_CAPABILITY_DATA_enc_def TPMS_CAPABILITY_DATA_default_def
        TPMS_CAPABILITY_DATA.select_convs TPMS_CAPABILITY_DATA.update_convs;
      intro reads_intros; (rule TPMS_CAPABILITY_DATA.equality)?; simp add: TPMS_CAPABILITY_DATA_valid_def opt_ok_iff)

interpretation TPMS_CAPABILITY_DATA_codec:
  tpm_codec TPMS_CAPABILITY_DATA_toTpm TPMS_CAPABILITY_DATA_initFromTpm TPMS_CAPABILITY_DATA_default
    TPMS_CAPABILITY_DATA_enc TPMS_CAPABILITY_DATA_valid
  by unfold_locales (simp_all add: TPMS_CAPABILITY_DATA_writes TPMS_CAPABILITY_DATA_reads TPMS_CAPABILITY_DATA_null writes_ret)

end
