(* ===== verification/TpmAttestTypes.thy ===== *)
theory TpmAttestTypes
  imports TpmListTypes
begin

text \<open>
  \<^verbatim>\<open>TSS.CPP/include/TpmTypes.h\<close> and \<^verbatim>\<open>TSS.CPP/Src/TpmTypes.cpp\<close>: clock and attestation structures, and the session areas of commands and responses.

  For each class \<open>X\<close> of the source: the record \<open>X\<close> of its members, \<open>X_default\<close> (its default
  constructor; members that C++ leaves uninitialised are 0), \<open>X_toTpm\<close> and \<open>X_initFromTpm\<close>; then
  the wire format \<open>X_enc\<close>, the values \<open>X_valid\<close> it can carry, and the proof that the methods
  implement it (the interpretation \<open>X_codec\<close>).
\<close>

subsection \<open>TPMS_CLOCK_INFO\<close>

text \<open>This structure is used in each of the attestation commands.\<close>

record TPMS_CLOCK_INFO =
  TPMS_CLOCK_INFO_clock :: "UINT64"
  TPMS_CLOCK_INFO_resetCount :: "UINT32"
  TPMS_CLOCK_INFO_restartCount :: "UINT32"
  TPMS_CLOCK_INFO_safe :: "byte"

definition TPMS_CLOCK_INFO_default :: TPMS_CLOCK_INFO where
  "TPMS_CLOCK_INFO_default = \<lparr>TPMS_CLOCK_INFO_clock = 0, TPMS_CLOCK_INFO_resetCount = 0, TPMS_CLOCK_INFO_restartCount = 0, TPMS_CLOCK_INFO_safe = 0\<rparr>"

definition TPMS_CLOCK_INFO_toTpm :: "TPMS_CLOCK_INFO \<Rightarrow> unit tpm" where
  "TPMS_CLOCK_INFO_toTpm self =
     wseq [writeInt64 (TPMS_CLOCK_INFO_clock self),
       writeInt (TPMS_CLOCK_INFO_resetCount self),
       writeInt (TPMS_CLOCK_INFO_restartCount self),
       writeByte (TPMS_CLOCK_INFO_safe self)]"

definition TPMS_CLOCK_INFO_initFromTpm :: "TPMS_CLOCK_INFO \<Rightarrow> TPMS_CLOCK_INFO tpm" where
  "TPMS_CLOCK_INFO_initFromTpm self =
     sbind readInt64 (\<lambda>clock.
     sbind readInt (\<lambda>resetCount.
     sbind readInt (\<lambda>restartCount.
     sbind readByte (\<lambda>safe.
     ret (self\<lparr>TPMS_CLOCK_INFO_clock := clock, TPMS_CLOCK_INFO_resetCount := resetCount, TPMS_CLOCK_INFO_restartCount := restartCount, TPMS_CLOCK_INFO_safe := safe\<rparr>)))))"

definition TPMS_CLOCK_INFO_enc :: "TPMS_CLOCK_INFO \<Rightarrow> ByteVec" where
  "TPMS_CLOCK_INFO_enc x =
     enc64 (TPMS_CLOCK_INFO_clock x) @
     enc32 (TPMS_CLOCK_INFO_resetCount x) @
     enc32 (TPMS_CLOCK_INFO_restartCount x) @
     enc8 (TPMS_CLOCK_INFO_safe x)"

definition TPMS_CLOCK_INFO_valid :: "TPMS_CLOCK_INFO \<Rightarrow> bool" where
  "TPMS_CLOCK_INFO_valid x \<longleftrightarrow>
     True"

lemma TPMS_CLOCK_INFO_writes [writes_intros]:
  "TPMS_CLOCK_INFO_valid x \<Longrightarrow> writes (TPMS_CLOCK_INFO_toTpm x) (TPMS_CLOCK_INFO_enc x)"
  unfolding TPMS_CLOCK_INFO_toTpm_def TPMS_CLOCK_INFO_enc_def
  by (intro writes_intros; simp add: TPMS_CLOCK_INFO_valid_def opt_ok_iff)

lemma TPMS_CLOCK_INFO_reads:
  "TPMS_CLOCK_INFO_valid x \<Longrightarrow> reads (TPMS_CLOCK_INFO_initFromTpm TPMS_CLOCK_INFO_default) x (TPMS_CLOCK_INFO_enc x)"
  by (simp only: TPMS_CLOCK_INFO_initFromTpm_def TPMS_CLOCK_INFO_enc_def TPMS_CLOCK_INFO_default_def
        TPMS_CLOCK_INFO.select_convs TPMS_CLOCK_INFO.update_convs;
      intro reads_intros; (rule TPMS_CLOCK_INFO.equality)?; simp add: TPMS_CLOCK_INFO_valid_def opt_ok_iff)

lemma TPMS_CLOCK_INFO_enc_nonempty [simp]: "TPMS_CLOCK_INFO_enc x \<noteq> []"
  by (simp add: TPMS_CLOCK_INFO_enc_def)

interpretation TPMS_CLOCK_INFO_codec:
  tpm_codec TPMS_CLOCK_INFO_toTpm TPMS_CLOCK_INFO_initFromTpm TPMS_CLOCK_INFO_default
    TPMS_CLOCK_INFO_enc TPMS_CLOCK_INFO_valid
  by unfold_locales (simp_all add: TPMS_CLOCK_INFO_writes TPMS_CLOCK_INFO_reads)

lemmas TPMS_CLOCK_INFO_steps [reads_intros] =
  TPMS_CLOCK_INFO_reads [THEN reads_sbind] TPMS_CLOCK_INFO_reads [THEN reads_sbind_ret]

subsection \<open>TPMS_TIME_INFO\<close>

text \<open>This structure is used in, e.g., the TPM2_GetTime() attestation and TPM2_ReadClock().\<close>

record TPMS_TIME_INFO =
  TPMS_TIME_INFO_time :: "UINT64"
  TPMS_TIME_INFO_clockInfo :: "TPMS_CLOCK_INFO"

definition TPMS_TIME_INFO_default :: TPMS_TIME_INFO where
  "TPMS_TIME_INFO_default = \<lparr>TPMS_TIME_INFO_time = 0, TPMS_TIME_INFO_clockInfo = TPMS_CLOCK_INFO_default\<rparr>"

definition TPMS_TIME_INFO_toTpm :: "TPMS_TIME_INFO \<Rightarrow> unit tpm" where
  "TPMS_TIME_INFO_toTpm self =
     wseq [writeInt64 (TPMS_TIME_INFO_time self),
       TPMS_CLOCK_INFO_toTpm (TPMS_TIME_INFO_clockInfo self)]"

definition TPMS_TIME_INFO_initFromTpm :: "TPMS_TIME_INFO \<Rightarrow> TPMS_TIME_INFO tpm" where
  "TPMS_TIME_INFO_initFromTpm self =
     sbind readInt64 (\<lambda>time.
     sbind (TPMS_CLOCK_INFO_initFromTpm (TPMS_TIME_INFO_clockInfo self)) (\<lambda>clockInfo.
     ret (self\<lparr>TPMS_TIME_INFO_time := time, TPMS_TIME_INFO_clockInfo := clockInfo\<rparr>)))"

definition TPMS_TIME_INFO_enc :: "TPMS_TIME_INFO \<Rightarrow> ByteVec" where
  "TPMS_TIME_INFO_enc x =
     enc64 (TPMS_TIME_INFO_time x) @
     TPMS_CLOCK_INFO_enc (TPMS_TIME_INFO_clockInfo x)"

definition TPMS_TIME_INFO_valid :: "TPMS_TIME_INFO \<Rightarrow> bool" where
  "TPMS_TIME_INFO_valid x \<longleftrightarrow>
     TPMS_CLOCK_INFO_valid (TPMS_TIME_INFO_clockInfo x)"

lemma TPMS_TIME_INFO_writes [writes_intros]:
  "TPMS_TIME_INFO_valid x \<Longrightarrow> writes (TPMS_TIME_INFO_toTpm x) (TPMS_TIME_INFO_enc x)"
  unfolding TPMS_TIME_INFO_toTpm_def TPMS_TIME_INFO_enc_def
  by (intro writes_intros; simp add: TPMS_TIME_INFO_valid_def opt_ok_iff)

lemma TPMS_TIME_INFO_reads:
  "TPMS_TIME_INFO_valid x \<Longrightarrow> reads (TPMS_TIME_INFO_initFromTpm TPMS_TIME_INFO_default) x (TPMS_TIME_INFO_enc x)"
  by (simp only: TPMS_TIME_INFO_initFromTpm_def TPMS_TIME_INFO_enc_def TPMS_TIME_INFO_default_def
        TPMS_TIME_INFO.select_convs TPMS_TIME_INFO.update_convs;
      intro reads_intros; (rule TPMS_TIME_INFO.equality)?; simp add: TPMS_TIME_INFO_valid_def opt_ok_iff)

lemma TPMS_TIME_INFO_enc_nonempty [simp]: "TPMS_TIME_INFO_enc x \<noteq> []"
  by (simp add: TPMS_TIME_INFO_enc_def)

interpretation TPMS_TIME_INFO_codec:
  tpm_codec TPMS_TIME_INFO_toTpm TPMS_TIME_INFO_initFromTpm TPMS_TIME_INFO_default
    TPMS_TIME_INFO_enc TPMS_TIME_INFO_valid
  by unfold_locales (simp_all add: TPMS_TIME_INFO_writes TPMS_TIME_INFO_reads)

lemmas TPMS_TIME_INFO_steps [reads_intros] =
  TPMS_TIME_INFO_reads [THEN reads_sbind] TPMS_TIME_INFO_reads [THEN reads_sbind_ret]

subsection \<open>TPMS_TIME_ATTEST_INFO\<close>

text \<open>This structure is used when the TPM performs TPM2_GetTime.\<close>

record TPMS_TIME_ATTEST_INFO =
  TPMS_TIME_ATTEST_INFO_time :: "TPMS_TIME_INFO"
  TPMS_TIME_ATTEST_INFO_firmwareVersion :: "UINT64"

definition TPMS_TIME_ATTEST_INFO_default :: TPMS_TIME_ATTEST_INFO where
  "TPMS_TIME_ATTEST_INFO_default = \<lparr>TPMS_TIME_ATTEST_INFO_time = TPMS_TIME_INFO_default, TPMS_TIME_ATTEST_INFO_firmwareVersion = 0\<rparr>"

definition TPMS_TIME_ATTEST_INFO_toTpm :: "TPMS_TIME_ATTEST_INFO \<Rightarrow> unit tpm" where
  "TPMS_TIME_ATTEST_INFO_toTpm self =
     wseq [TPMS_TIME_INFO_toTpm (TPMS_TIME_ATTEST_INFO_time self),
       writeInt64 (TPMS_TIME_ATTEST_INFO_firmwareVersion self)]"

definition TPMS_TIME_ATTEST_INFO_initFromTpm :: "TPMS_TIME_ATTEST_INFO \<Rightarrow> TPMS_TIME_ATTEST_INFO tpm" where
  "TPMS_TIME_ATTEST_INFO_initFromTpm self =
     sbind (TPMS_TIME_INFO_initFromTpm (TPMS_TIME_ATTEST_INFO_time self)) (\<lambda>time.
     sbind readInt64 (\<lambda>firmwareVersion.
     ret (self\<lparr>TPMS_TIME_ATTEST_INFO_time := time, TPMS_TIME_ATTEST_INFO_firmwareVersion := firmwareVersion\<rparr>)))"

definition TPMS_TIME_ATTEST_INFO_enc :: "TPMS_TIME_ATTEST_INFO \<Rightarrow> ByteVec" where
  "TPMS_TIME_ATTEST_INFO_enc x =
     TPMS_TIME_INFO_enc (TPMS_TIME_ATTEST_INFO_time x) @
     enc64 (TPMS_TIME_ATTEST_INFO_firmwareVersion x)"

definition TPMS_TIME_ATTEST_INFO_valid :: "TPMS_TIME_ATTEST_INFO \<Rightarrow> bool" where
  "TPMS_TIME_ATTEST_INFO_valid x \<longleftrightarrow>
     TPMS_TIME_INFO_valid (TPMS_TIME_ATTEST_INFO_time x)"

lemma TPMS_TIME_ATTEST_INFO_writes [writes_intros]:
  "TPMS_TIME_ATTEST_INFO_valid x \<Longrightarrow> writes (TPMS_TIME_ATTEST_INFO_toTpm x) (TPMS_TIME_ATTEST_INFO_enc x)"
  unfolding TPMS_TIME_ATTEST_INFO_toTpm_def TPMS_TIME_ATTEST_INFO_enc_def
  by (intro writes_intros; simp add: TPMS_TIME_ATTEST_INFO_valid_def opt_ok_iff)

lemma TPMS_TIME_ATTEST_INFO_reads:
  "TPMS_TIME_ATTEST_INFO_valid x \<Longrightarrow> reads (TPMS_TIME_ATTEST_INFO_initFromTpm TPMS_TIME_ATTEST_INFO_default) x (TPMS_TIME_ATTEST_INFO_enc x)"
  by (simp only: TPMS_TIME_ATTEST_INFO_initFromTpm_def TPMS_TIME_ATTEST_INFO_enc_def TPMS_TIME_ATTEST_INFO_default_def
        TPMS_TIME_ATTEST_INFO.select_convs TPMS_TIME_ATTEST_INFO.update_convs;
      intro reads_intros; (rule TPMS_TIME_ATTEST_INFO.equality)?; simp add: TPMS_TIME_ATTEST_INFO_valid_def opt_ok_iff)

lemma TPMS_TIME_ATTEST_INFO_enc_nonempty [simp]: "TPMS_TIME_ATTEST_INFO_enc x \<noteq> []"
  by (simp add: TPMS_TIME_ATTEST_INFO_enc_def)

interpretation TPMS_TIME_ATTEST_INFO_codec:
  tpm_codec TPMS_TIME_ATTEST_INFO_toTpm TPMS_TIME_ATTEST_INFO_initFromTpm TPMS_TIME_ATTEST_INFO_default
    TPMS_TIME_ATTEST_INFO_enc TPMS_TIME_ATTEST_INFO_valid
  by unfold_locales (simp_all add: TPMS_TIME_ATTEST_INFO_writes TPMS_TIME_ATTEST_INFO_reads)

lemmas TPMS_TIME_ATTEST_INFO_steps [reads_intros] =
  TPMS_TIME_ATTEST_INFO_reads [THEN reads_sbind] TPMS_TIME_ATTEST_INFO_reads [THEN reads_sbind_ret]

subsection \<open>TPMS_CERTIFY_INFO\<close>

text \<open>This is the attested data for TPM2_Certify().\<close>

record TPMS_CERTIFY_INFO =
  TPMS_CERTIFY_INFO_name :: "ByteVec"
  TPMS_CERTIFY_INFO_qualifiedName :: "ByteVec"

definition TPMS_CERTIFY_INFO_default :: TPMS_CERTIFY_INFO where
  "TPMS_CERTIFY_INFO_default = \<lparr>TPMS_CERTIFY_INFO_name = [], TPMS_CERTIFY_INFO_qualifiedName = []\<rparr>"

definition TPMS_CERTIFY_INFO_toTpm :: "TPMS_CERTIFY_INFO \<Rightarrow> unit tpm" where
  "TPMS_CERTIFY_INFO_toTpm self =
     wseq [writeSizedByteBuf (TPMS_CERTIFY_INFO_name self) 2,
       writeSizedByteBuf (TPMS_CERTIFY_INFO_qualifiedName self) 2]"

definition TPMS_CERTIFY_INFO_initFromTpm :: "TPMS_CERTIFY_INFO \<Rightarrow> TPMS_CERTIFY_INFO tpm" where
  "TPMS_CERTIFY_INFO_initFromTpm self =
     sbind (readSizedByteBuf 2) (\<lambda>name.
     sbind (readSizedByteBuf 2) (\<lambda>qualifiedName.
     ret (self\<lparr>TPMS_CERTIFY_INFO_name := name, TPMS_CERTIFY_INFO_qualifiedName := qualifiedName\<rparr>)))"

definition TPMS_CERTIFY_INFO_enc :: "TPMS_CERTIFY_INFO \<Rightarrow> ByteVec" where
  "TPMS_CERTIFY_INFO_enc x =
     enc_sized 2 (TPMS_CERTIFY_INFO_name x) @
     enc_sized 2 (TPMS_CERTIFY_INFO_qualifiedName x)"

definition TPMS_CERTIFY_INFO_valid :: "TPMS_CERTIFY_INFO \<Rightarrow> bool" where
  "TPMS_CERTIFY_INFO_valid x \<longleftrightarrow>
     sized_ok 2 (TPMS_CERTIFY_INFO_name x) \<and>
     sized_ok 2 (TPMS_CERTIFY_INFO_qualifiedName x)"

lemma TPMS_CERTIFY_INFO_writes [writes_intros]:
  "TPMS_CERTIFY_INFO_valid x \<Longrightarrow> writes (TPMS_CERTIFY_INFO_toTpm x) (TPMS_CERTIFY_INFO_enc x)"
  unfolding TPMS_CERTIFY_INFO_toTpm_def TPMS_CERTIFY_INFO_enc_def
  by (intro writes_intros; simp add: TPMS_CERTIFY_INFO_valid_def opt_ok_iff)

lemma TPMS_CERTIFY_INFO_reads:
  "TPMS_CERTIFY_INFO_valid x \<Longrightarrow> reads (TPMS_CERTIFY_INFO_initFromTpm TPMS_CERTIFY_INFO_default) x (TPMS_CERTIFY_INFO_enc x)"
  by (simp only: TPMS_CERTIFY_INFO_initFromTpm_def TPMS_CERTIFY_INFO_enc_def TPMS_CERTIFY_INFO_default_def
        TPMS_CERTIFY_INFO.select_convs TPMS_CERTIFY_INFO.update_convs;
      intro reads_intros; (rule TPMS_CERTIFY_INFO.equality)?; simp add: TPMS_CERTIFY_INFO_valid_def opt_ok_iff)

lemma TPMS_CERTIFY_INFO_enc_nonempty [simp]: "TPMS_CERTIFY_INFO_enc x \<noteq> []"
  by (simp add: TPMS_CERTIFY_INFO_enc_def)

interpretation TPMS_CERTIFY_INFO_codec:
  tpm_codec TPMS_CERTIFY_INFO_toTpm TPMS_CERTIFY_INFO_initFromTpm TPMS_CERTIFY_INFO_default
    TPMS_CERTIFY_INFO_enc TPMS_CERTIFY_INFO_valid
  by unfold_locales (simp_all add: TPMS_CERTIFY_INFO_writes TPMS_CERTIFY_INFO_reads)

lemmas TPMS_CERTIFY_INFO_steps [reads_intros] =
  TPMS_CERTIFY_INFO_reads [THEN reads_sbind] TPMS_CERTIFY_INFO_reads [THEN reads_sbind_ret]

subsection \<open>TPMS_QUOTE_INFO\<close>

text \<open>This is the attested data for TPM2_Quote().\<close>

record TPMS_QUOTE_INFO =
  TPMS_QUOTE_INFO_pcrSelect :: "TPMS_PCR_SELECTION list"
  TPMS_QUOTE_INFO_pcrDigest :: "ByteVec"

definition TPMS_QUOTE_INFO_default :: TPMS_QUOTE_INFO where
  "TPMS_QUOTE_INFO_default = \<lparr>TPMS_QUOTE_INFO_pcrSelect = [], TPMS_QUOTE_INFO_pcrDigest = []\<rparr>"

definition TPMS_QUOTE_INFO_toTpm :: "TPMS_QUOTE_INFO \<Rightarrow> unit tpm" where
  "TPMS_QUOTE_INFO_toTpm self =
     wseq [writeObjArr TPMS_PCR_SELECTION_toTpm (TPMS_QUOTE_INFO_pcrSelect self),
       writeSizedByteBuf (TPMS_QUOTE_INFO_pcrDigest self) 2]"

definition TPMS_QUOTE_INFO_initFromTpm :: "TPMS_QUOTE_INFO \<Rightarrow> TPMS_QUOTE_INFO tpm" where
  "TPMS_QUOTE_INFO_initFromTpm self =
     sbind (readObjArr TPMS_PCR_SELECTION_initFromTpm TPMS_PCR_SELECTION_default (TPMS_QUOTE_INFO_pcrSelect self)) (\<lambda>pcrSelect.
     sbind (readSizedByteBuf 2) (\<lambda>pcrDigest.
     ret (self\<lparr>TPMS_QUOTE_INFO_pcrSelect := pcrSelect, TPMS_QUOTE_INFO_pcrDigest := pcrDigest\<rparr>)))"

definition TPMS_QUOTE_INFO_enc :: "TPMS_QUOTE_INFO \<Rightarrow> ByteVec" where
  "TPMS_QUOTE_INFO_enc x =
     enc_arr TPMS_PCR_SELECTION_enc (TPMS_QUOTE_INFO_pcrSelect x) @
     enc_sized 2 (TPMS_QUOTE_INFO_pcrDigest x)"

definition TPMS_QUOTE_INFO_valid :: "TPMS_QUOTE_INFO \<Rightarrow> bool" where
  "TPMS_QUOTE_INFO_valid x \<longleftrightarrow>
     arr_ok TPMS_PCR_SELECTION_valid (TPMS_QUOTE_INFO_pcrSelect x) \<and>
     sized_ok 2 (TPMS_QUOTE_INFO_pcrDigest x)"

lemma TPMS_QUOTE_INFO_writes [writes_intros]:
  "TPMS_QUOTE_INFO_valid x \<Longrightarrow> writes (TPMS_QUOTE_INFO_toTpm x) (TPMS_QUOTE_INFO_enc x)"
  unfolding TPMS_QUOTE_INFO_toTpm_def TPMS_QUOTE_INFO_enc_def
  by (intro writes_intros; simp add: TPMS_QUOTE_INFO_valid_def opt_ok_iff)

lemma TPMS_QUOTE_INFO_reads:
  "TPMS_QUOTE_INFO_valid x \<Longrightarrow> reads (TPMS_QUOTE_INFO_initFromTpm TPMS_QUOTE_INFO_default) x (TPMS_QUOTE_INFO_enc x)"
  by (simp only: TPMS_QUOTE_INFO_initFromTpm_def TPMS_QUOTE_INFO_enc_def TPMS_QUOTE_INFO_default_def
        TPMS_QUOTE_INFO.select_convs TPMS_QUOTE_INFO.update_convs;
      intro reads_intros; (rule TPMS_QUOTE_INFO.equality)?; simp add: TPMS_QUOTE_INFO_valid_def opt_ok_iff)

lemma TPMS_QUOTE_INFO_enc_nonempty [simp]: "TPMS_QUOTE_INFO_enc x \<noteq> []"
  by (simp add: TPMS_QUOTE_INFO_enc_def)

interpretation TPMS_QUOTE_INFO_codec:
  tpm_codec TPMS_QUOTE_INFO_toTpm TPMS_QUOTE_INFO_initFromTpm TPMS_QUOTE_INFO_default
    TPMS_QUOTE_INFO_enc TPMS_QUOTE_INFO_valid
  by unfold_locales (simp_all add: TPMS_QUOTE_INFO_writes TPMS_QUOTE_INFO_reads)

lemmas TPMS_QUOTE_INFO_steps [reads_intros] =
  TPMS_QUOTE_INFO_reads [THEN reads_sbind] TPMS_QUOTE_INFO_reads [THEN reads_sbind_ret]

subsection \<open>TPMS_COMMAND_AUDIT_INFO\<close>

text \<open>This is the attested data for TPM2_GetCommandAuditDigest().\<close>

record TPMS_COMMAND_AUDIT_INFO =
  TPMS_COMMAND_AUDIT_INFO_auditCounter :: "UINT64"
  TPMS_COMMAND_AUDIT_INFO_digestAlg :: "TPM_ALG_ID"
  TPMS_COMMAND_AUDIT_INFO_auditDigest :: "ByteVec"
  TPMS_COMMAND_AUDIT_INFO_commandDigest :: "ByteVec"

definition TPMS_COMMAND_AUDIT_INFO_default :: TPMS_COMMAND_AUDIT_INFO where
  "TPMS_COMMAND_AUDIT_INFO_default = \<lparr>TPMS_COMMAND_AUDIT_INFO_auditCounter = 0, TPMS_COMMAND_AUDIT_INFO_digestAlg = TPM_ALG_ID_NULL, TPMS_COMMAND_AUDIT_INFO_auditDigest = [], TPMS_COMMAND_AUDIT_INFO_commandDigest = []\<rparr>"

definition TPMS_COMMAND_AUDIT_INFO_toTpm :: "TPMS_COMMAND_AUDIT_INFO \<Rightarrow> unit tpm" where
  "TPMS_COMMAND_AUDIT_INFO_toTpm self =
     wseq [writeInt64 (TPMS_COMMAND_AUDIT_INFO_auditCounter self),
       writeShort (TPMS_COMMAND_AUDIT_INFO_digestAlg self),
       writeSizedByteBuf (TPMS_COMMAND_AUDIT_INFO_auditDigest self) 2,
       writeSizedByteBuf (TPMS_COMMAND_AUDIT_INFO_commandDigest self) 2]"

definition TPMS_COMMAND_AUDIT_INFO_initFromTpm :: "TPMS_COMMAND_AUDIT_INFO \<Rightarrow> TPMS_COMMAND_AUDIT_INFO tpm" where
  "TPMS_COMMAND_AUDIT_INFO_initFromTpm self =
     sbind readInt64 (\<lambda>auditCounter.
     sbind readShort (\<lambda>digestAlg.
     sbind (readSizedByteBuf 2) (\<lambda>auditDigest.
     sbind (readSizedByteBuf 2) (\<lambda>commandDigest.
     ret (self\<lparr>TPMS_COMMAND_AUDIT_INFO_auditCounter := auditCounter, TPMS_COMMAND_AUDIT_INFO_digestAlg := digestAlg, TPMS_COMMAND_AUDIT_INFO_auditDigest := auditDigest, TPMS_COMMAND_AUDIT_INFO_commandDigest := commandDigest\<rparr>)))))"

definition TPMS_COMMAND_AUDIT_INFO_enc :: "TPMS_COMMAND_AUDIT_INFO \<Rightarrow> ByteVec" where
  "TPMS_COMMAND_AUDIT_INFO_enc x =
     enc64 (TPMS_COMMAND_AUDIT_INFO_auditCounter x) @
     enc16 (TPMS_COMMAND_AUDIT_INFO_digestAlg x) @
     enc_sized 2 (TPMS_COMMAND_AUDIT_INFO_auditDigest x) @
     enc_sized 2 (TPMS_COMMAND_AUDIT_INFO_commandDigest x)"

definition TPMS_COMMAND_AUDIT_INFO_valid :: "TPMS_COMMAND_AUDIT_INFO \<Rightarrow> bool" where
  "TPMS_COMMAND_AUDIT_INFO_valid x \<longleftrightarrow>
     sized_ok 2 (TPMS_COMMAND_AUDIT_INFO_auditDigest x) \<and>
     sized_ok 2 (TPMS_COMMAND_AUDIT_INFO_commandDigest x)"

lemma TPMS_COMMAND_AUDIT_INFO_writes [writes_intros]:
  "TPMS_COMMAND_AUDIT_INFO_valid x \<Longrightarrow> writes (TPMS_COMMAND_AUDIT_INFO_toTpm x) (TPMS_COMMAND_AUDIT_INFO_enc x)"
  unfolding TPMS_COMMAND_AUDIT_INFO_toTpm_def TPMS_COMMAND_AUDIT_INFO_enc_def
  by (intro writes_intros; simp add: TPMS_COMMAND_AUDIT_INFO_valid_def opt_ok_iff)

lemma TPMS_COMMAND_AUDIT_INFO_reads:
  "TPMS_COMMAND_AUDIT_INFO_valid x \<Longrightarrow> reads (TPMS_COMMAND_AUDIT_INFO_initFromTpm TPMS_COMMAND_AUDIT_INFO_default) x (TPMS_COMMAND_AUDIT_INFO_enc x)"
  by (simp only: TPMS_COMMAND_AUDIT_INFO_initFromTpm_def TPMS_COMMAND_AUDIT_INFO_enc_def TPMS_COMMAND_AUDIT_INFO_default_def
        TPMS_COMMAND_AUDIT_INFO.select_convs TPMS_COMMAND_AUDIT_INFO.update_convs;
      intro reads_intros; (rule TPMS_COMMAND_AUDIT_INFO.equality)?; simp add: TPMS_COMMAND_AUDIT_INFO_valid_def opt_ok_iff)

lemma TPMS_COMMAND_AUDIT_INFO_enc_nonempty [simp]: "TPMS_COMMAND_AUDIT_INFO_enc x \<noteq> []"
  by (simp add: TPMS_COMMAND_AUDIT_INFO_enc_def)

interpretation TPMS_COMMAND_AUDIT_INFO_codec:
  tpm_codec TPMS_COMMAND_AUDIT_INFO_toTpm TPMS_COMMAND_AUDIT_INFO_initFromTpm TPMS_COMMAND_AUDIT_INFO_default
    TPMS_COMMAND_AUDIT_INFO_enc TPMS_COMMAND_AUDIT_INFO_valid
  by unfold_locales (simp_all add: TPMS_COMMAND_AUDIT_INFO_writes TPMS_COMMAND_AUDIT_INFO_reads)

lemmas TPMS_COMMAND_AUDIT_INFO_steps [reads_intros] =
  TPMS_COMMAND_AUDIT_INFO_reads [THEN reads_sbind] TPMS_COMMAND_AUDIT_INFO_reads [THEN reads_sbind_ret]

subsection \<open>TPMS_SESSION_AUDIT_INFO\<close>

text \<open>This is the attested data for TPM2_GetSessionAuditDigest().\<close>

record TPMS_SESSION_AUDIT_INFO =
  TPMS_SESSION_AUDIT_INFO_exclusiveSession :: "byte"
  TPMS_SESSION_AUDIT_INFO_sessionDigest :: "ByteVec"

definition TPMS_SESSION_AUDIT_INFO_default :: TPMS_SESSION_AUDIT_INFO where
  "TPMS_SESSION_AUDIT_INFO_default = \<lparr>TPMS_SESSION_AUDIT_INFO_exclusiveSession = 0, TPMS_SESSION_AUDIT_INFO_sessionDigest = []\<rparr>"

definition TPMS_SESSION_AUDIT_INFO_toTpm :: "TPMS_SESSION_AUDIT_INFO \<Rightarrow> unit tpm" where
  "TPMS_SESSION_AUDIT_INFO_toTpm self =
     wseq [writeByte (TPMS_SESSION_AUDIT_INFO_exclusiveSession self),
       writeSizedByteBuf (TPMS_SESSION_AUDIT_INFO_sessionDigest self) 2]"

definition TPMS_SESSION_AUDIT_INFO_initFromTpm :: "TPMS_SESSION_AUDIT_INFO \<Rightarrow> TPMS_SESSION_AUDIT_INFO tpm" where
  "TPMS_SESSION_AUDIT_INFO_initFromTpm self =
     sbind readByte (\<lambda>exclusiveSession.
     sbind (readSizedByteBuf 2) (\<lambda>sessionDigest.
     ret (self\<lparr>TPMS_SESSION_AUDIT_INFO_exclusiveSession := exclusiveSession, TPMS_SESSION_AUDIT_INFO_sessionDigest := sessionDigest\<rparr>)))"

definition TPMS_SESSION_AUDIT_INFO_enc :: "TPMS_SESSION_AUDIT_INFO \<Rightarrow> ByteVec" where
  "TPMS_SESSION_AUDIT_INFO_enc x =
     enc8 (TPMS_SESSION_AUDIT_INFO_exclusiveSession x) @
     enc_sized 2 (TPMS_SESSION_AUDIT_INFO_sessionDigest x)"

definition TPMS_SESSION_AUDIT_INFO_valid :: "TPMS_SESSION_AUDIT_INFO \<Rightarrow> bool" where
  "TPMS_SESSION_AUDIT_INFO_valid x \<longleftrightarrow>
     sized_ok 2 (TPMS_SESSION_AUDIT_INFO_sessionDigest x)"

lemma TPMS_SESSION_AUDIT_INFO_writes [writes_intros]:
  "TPMS_SESSION_AUDIT_INFO_valid x \<Longrightarrow> writes (TPMS_SESSION_AUDIT_INFO_toTpm x) (TPMS_SESSION_AUDIT_INFO_enc x)"
  unfolding TPMS_SESSION_AUDIT_INFO_toTpm_def TPMS_SESSION_AUDIT_INFO_enc_def
  by (intro writes_intros; simp add: TPMS_SESSION_AUDIT_INFO_valid_def opt_ok_iff)

lemma TPMS_SESSION_AUDIT_INFO_reads:
  "TPMS_SESSION_AUDIT_INFO_valid x \<Longrightarrow> reads (TPMS_SESSION_AUDIT_INFO_initFromTpm TPMS_SESSION_AUDIT_INFO_default) x (TPMS_SESSION_AUDIT_INFO_enc x)"
  by (simp only: TPMS_SESSION_AUDIT_INFO_initFromTpm_def TPMS_SESSION_AUDIT_INFO_enc_def TPMS_SESSION_AUDIT_INFO_default_def
        TPMS_SESSION_AUDIT_INFO.select_convs TPMS_SESSION_AUDIT_INFO.update_convs;
      intro reads_intros; (rule TPMS_SESSION_AUDIT_INFO.equality)?; simp add: TPMS_SESSION_AUDIT_INFO_valid_def opt_ok_iff)

lemma TPMS_SESSION_AUDIT_INFO_enc_nonempty [simp]: "TPMS_SESSION_AUDIT_INFO_enc x \<noteq> []"
  by (simp add: TPMS_SESSION_AUDIT_INFO_enc_def)

interpretation TPMS_SESSION_AUDIT_INFO_codec:
  tpm_codec TPMS_SESSION_AUDIT_INFO_toTpm TPMS_SESSION_AUDIT_INFO_initFromTpm TPMS_SESSION_AUDIT_INFO_default
    TPMS_SESSION_AUDIT_INFO_enc TPMS_SESSION_AUDIT_INFO_valid
  by unfold_locales (simp_all add: TPMS_SESSION_AUDIT_INFO_writes TPMS_SESSION_AUDIT_INFO_reads)

lemmas TPMS_SESSION_AUDIT_INFO_steps [reads_intros] =
  TPMS_SESSION_AUDIT_INFO_reads [THEN reads_sbind] TPMS_SESSION_AUDIT_INFO_reads [THEN reads_sbind_ret]

subsection \<open>TPMS_CREATION_INFO\<close>

text \<open>This is the attested data for TPM2_CertifyCreation().\<close>

record TPMS_CREATION_INFO =
  TPMS_CREATION_INFO_objectName :: "ByteVec"
  TPMS_CREATION_INFO_creationHash :: "ByteVec"

definition TPMS_CREATION_INFO_default :: TPMS_CREATION_INFO where
  "TPMS_CREATION_INFO_default = \<lparr>TPMS_CREATION_INFO_objectName = [], TPMS_CREATION_INFO_creationHash = []\<rparr>"

definition TPMS_CREATION_INFO_toTpm :: "TPMS_CREATION_INFO \<Rightarrow> unit tpm" where
  "TPMS_CREATION_INFO_toTpm self =
     wseq [writeSizedByteBuf (TPMS_CREATION_INFO_objectName self) 2,
       writeSizedByteBuf (TPMS_CREATION_INFO_creationHash self) 2]"

definition TPMS_CREATION_INFO_initFromTpm :: "TPMS_CREATION_INFO \<Rightarrow> TPMS_CREATION_INFO tpm" where
  "TPMS_CREATION_INFO_initFromTpm self =
     sbind (readSizedByteBuf 2) (\<lambda>objectName.
     sbind (readSizedByteBuf 2) (\<lambda>creationHash.
     ret (self\<lparr>TPMS_CREATION_INFO_objectName := objectName, TPMS_CREATION_INFO_creationHash := creationHash\<rparr>)))"

definition TPMS_CREATION_INFO_enc :: "TPMS_CREATION_INFO \<Rightarrow> ByteVec" where
  "TPMS_CREATION_INFO_enc x =
     enc_sized 2 (TPMS_CREATION_INFO_objectName x) @
     enc_sized 2 (TPMS_CREATION_INFO_creationHash x)"

definition TPMS_CREATION_INFO_valid :: "TPMS_CREATION_INFO \<Rightarrow> bool" where
  "TPMS_CREATION_INFO_valid x \<longleftrightarrow>
     sized_ok 2 (TPMS_CREATION_INFO_objectName x) \<and>
     sized_ok 2 (TPMS_CREATION_INFO_creationHash x)"

lemma TPMS_CREATION_INFO_writes [writes_intros]:
  "TPMS_CREATION_INFO_valid x \<Longrightarrow> writes (TPMS_CREATION_INFO_toTpm x) (TPMS_CREATION_INFO_enc x)"
  unfolding TPMS_CREATION_INFO_toTpm_def TPMS_CREATION_INFO_enc_def
  by (intro writes_intros; simp add: TPMS_CREATION_INFO_valid_def opt_ok_iff)

lemma TPMS_CREATION_INFO_reads:
  "TPMS_CREATION_INFO_valid x \<Longrightarrow> reads (TPMS_CREATION_INFO_initFromTpm TPMS_CREATION_INFO_default) x (TPMS_CREATION_INFO_enc x)"
  by (simp only: TPMS_CREATION_INFO_initFromTpm_def TPMS_CREATION_INFO_enc_def TPMS_CREATION_INFO_default_def
        TPMS_CREATION_INFO.select_convs TPMS_CREATION_INFO.update_convs;
      intro reads_intros; (rule TPMS_CREATION_INFO.equality)?; simp add: TPMS_CREATION_INFO_valid_def opt_ok_iff)

lemma TPMS_CREATION_INFO_enc_nonempty [simp]: "TPMS_CREATION_INFO_enc x \<noteq> []"
  by (simp add: TPMS_CREATION_INFO_enc_def)

interpretation TPMS_CREATION_INFO_codec:
  tpm_codec TPMS_CREATION_INFO_toTpm TPMS_CREATION_INFO_initFromTpm TPMS_CREATION_INFO_default
    TPMS_CREATION_INFO_enc TPMS_CREATION_INFO_valid
  by unfold_locales (simp_all add: TPMS_CREATION_INFO_writes TPMS_CREATION_INFO_reads)

lemmas TPMS_CREATION_INFO_steps [reads_intros] =
  TPMS_CREATION_INFO_reads [THEN reads_sbind] TPMS_CREATION_INFO_reads [THEN reads_sbind_ret]

subsection \<open>TPMS_NV_CERTIFY_INFO\<close>

text \<open>This structure contains the Name and contents of the selected NV Index that is certified by TPM2_NV_Certify().\<close>

record TPMS_NV_CERTIFY_INFO =
  TPMS_NV_CERTIFY_INFO_indexName :: "ByteVec"
  TPMS_NV_CERTIFY_INFO_offset :: "UINT16"
  TPMS_NV_CERTIFY_INFO_nvContents :: "ByteVec"

definition TPMS_NV_CERTIFY_INFO_default :: TPMS_NV_CERTIFY_INFO where
  "TPMS_NV_CERTIFY_INFO_default = \<lparr>TPMS_NV_CERTIFY_INFO_indexName = [], TPMS_NV_CERTIFY_INFO_offset = 0, TPMS_NV_CERTIFY_INFO_nvContents = []\<rparr>"

definition TPMS_NV_CERTIFY_INFO_toTpm :: "TPMS_NV_CERTIFY_INFO \<Rightarrow> unit tpm" where
  "TPMS_NV_CERTIFY_INFO_toTpm self =
     wseq [writeSizedByteBuf (TPMS_NV_CERTIFY_INFO_indexName self) 2,
       writeShort (TPMS_NV_CERTIFY_INFO_offset self),
       writeSizedByteBuf (TPMS_NV_CERTIFY_INFO_nvContents self) 2]"

definition TPMS_NV_CERTIFY_INFO_initFromTpm :: "TPMS_NV_CERTIFY_INFO \<Rightarrow> TPMS_NV_CERTIFY_INFO tpm" where
  "TPMS_NV_CERTIFY_INFO_initFromTpm self =
     sbind (readSizedByteBuf 2) (\<lambda>indexName.
     sbind readShort (\<lambda>offset.
     sbind (readSizedByteBuf 2) (\<lambda>nvContents.
     ret (self\<lparr>TPMS_NV_CERTIFY_INFO_indexName := indexName, TPMS_NV_CERTIFY_INFO_offset := offset, TPMS_NV_CERTIFY_INFO_nvContents := nvContents\<rparr>))))"

definition TPMS_NV_CERTIFY_INFO_enc :: "TPMS_NV_CERTIFY_INFO \<Rightarrow> ByteVec" where
  "TPMS_NV_CERTIFY_INFO_enc x =
     enc_sized 2 (TPMS_NV_CERTIFY_INFO_indexName x) @
     enc16 (TPMS_NV_CERTIFY_INFO_offset x) @
     enc_sized 2 (TPMS_NV_CERTIFY_INFO_nvContents x)"

definition TPMS_NV_CERTIFY_INFO_valid :: "TPMS_NV_CERTIFY_INFO \<Rightarrow> bool" where
  "TPMS_NV_CERTIFY_INFO_valid x \<longleftrightarrow>
     sized_ok 2 (TPMS_NV_CERTIFY_INFO_indexName x) \<and>
     sized_ok 2 (TPMS_NV_CERTIFY_INFO_nvContents x)"

lemma TPMS_NV_CERTIFY_INFO_writes [writes_intros]:
  "TPMS_NV_CERTIFY_INFO_valid x \<Longrightarrow> writes (TPMS_NV_CERTIFY_INFO_toTpm x) (TPMS_NV_CERTIFY_INFO_enc x)"
  unfolding TPMS_NV_CERTIFY_INFO_toTpm_def TPMS_NV_CERTIFY_INFO_enc_def
  by (intro writes_intros; simp add: TPMS_NV_CERTIFY_INFO_valid_def opt_ok_iff)

lemma TPMS_NV_CERTIFY_INFO_reads:
  "TPMS_NV_CERTIFY_INFO_valid x \<Longrightarrow> reads (TPMS_NV_CERTIFY_INFO_initFromTpm TPMS_NV_CERTIFY_INFO_default) x (TPMS_NV_CERTIFY_INFO_enc x)"
  by (simp only: TPMS_NV_CERTIFY_INFO_initFromTpm_def TPMS_NV_CERTIFY_INFO_enc_def TPMS_NV_CERTIFY_INFO_default_def
        TPMS_NV_CERTIFY_INFO.select_convs TPMS_NV_CERTIFY_INFO.update_convs;
      intro reads_intros; (rule TPMS_NV_CERTIFY_INFO.equality)?; simp add: TPMS_NV_CERTIFY_INFO_valid_def opt_ok_iff)

lemma TPMS_NV_CERTIFY_INFO_enc_nonempty [simp]: "TPMS_NV_CERTIFY_INFO_enc x \<noteq> []"
  by (simp add: TPMS_NV_CERTIFY_INFO_enc_def)

interpretation TPMS_NV_CERTIFY_INFO_codec:
  tpm_codec TPMS_NV_CERTIFY_INFO_toTpm TPMS_NV_CERTIFY_INFO_initFromTpm TPMS_NV_CERTIFY_INFO_default
    TPMS_NV_CERTIFY_INFO_enc TPMS_NV_CERTIFY_INFO_valid
  by unfold_locales (simp_all add: TPMS_NV_CERTIFY_INFO_writes TPMS_NV_CERTIFY_INFO_reads)

lemmas TPMS_NV_CERTIFY_INFO_steps [reads_intros] =
  TPMS_NV_CERTIFY_INFO_reads [THEN reads_sbind] TPMS_NV_CERTIFY_INFO_reads [THEN reads_sbind_ret]

subsection \<open>TPMS_NV_DIGEST_CERTIFY_INFO\<close>

text \<open>This structure contains the Name and hash of the contents of the selected NV Index that is certified by TPM2_NV_Certify().\<close>

record TPMS_NV_DIGEST_CERTIFY_INFO =
  TPMS_NV_DIGEST_CERTIFY_INFO_indexName :: "ByteVec"
  TPMS_NV_DIGEST_CERTIFY_INFO_nvDigest :: "ByteVec"

definition TPMS_NV_DIGEST_CERTIFY_INFO_default :: TPMS_NV_DIGEST_CERTIFY_INFO where
  "TPMS_NV_DIGEST_CERTIFY_INFO_default = \<lparr>TPMS_NV_DIGEST_CERTIFY_INFO_indexName = [], TPMS_NV_DIGEST_CERTIFY_INFO_nvDigest = []\<rparr>"

definition TPMS_NV_DIGEST_CERTIFY_INFO_toTpm :: "TPMS_NV_DIGEST_CERTIFY_INFO \<Rightarrow> unit tpm" where
  "TPMS_NV_DIGEST_CERTIFY_INFO_toTpm self =
     wseq [writeSizedByteBuf (TPMS_NV_DIGEST_CERTIFY_INFO_indexName self) 2,
       writeSizedByteBuf (TPMS_NV_DIGEST_CERTIFY_INFO_nvDigest self) 2]"

definition TPMS_NV_DIGEST_CERTIFY_INFO_initFromTpm :: "TPMS_NV_DIGEST_CERTIFY_INFO \<Rightarrow> TPMS_NV_DIGEST_CERTIFY_INFO tpm" where
  "TPMS_NV_DIGEST_CERTIFY_INFO_initFromTpm self =
     sbind (readSizedByteBuf 2) (\<lambda>indexName.
     sbind (readSizedByteBuf 2) (\<lambda>nvDigest.
     ret (self\<lparr>TPMS_NV_DIGEST_CERTIFY_INFO_indexName := indexName, TPMS_NV_DIGEST_CERTIFY_INFO_nvDigest := nvDigest\<rparr>)))"

definition TPMS_NV_DIGEST_CERTIFY_INFO_enc :: "TPMS_NV_DIGEST_CERTIFY_INFO \<Rightarrow> ByteVec" where
  "TPMS_NV_DIGEST_CERTIFY_INFO_enc x =
     enc_sized 2 (TPMS_NV_DIGEST_CERTIFY_INFO_indexName x) @
     enc_sized 2 (TPMS_NV_DIGEST_CERTIFY_INFO_nvDigest x)"

definition TPMS_NV_DIGEST_CERTIFY_INFO_valid :: "TPMS_NV_DIGEST_CERTIFY_INFO \<Rightarrow> bool" where
  "TPMS_NV_DIGEST_CERTIFY_INFO_valid x \<longleftrightarrow>
     sized_ok 2 (TPMS_NV_DIGEST_CERTIFY_INFO_indexName x) \<and>
     sized_ok 2 (TPMS_NV_DIGEST_CERTIFY_INFO_nvDigest x)"

lemma TPMS_NV_DIGEST_CERTIFY_INFO_writes [writes_intros]:
  "TPMS_NV_DIGEST_CERTIFY_INFO_valid x \<Longrightarrow> writes (TPMS_NV_DIGEST_CERTIFY_INFO_toTpm x) (TPMS_NV_DIGEST_CERTIFY_INFO_enc x)"
  unfolding TPMS_NV_DIGEST_CERTIFY_INFO_toTpm_def TPMS_NV_DIGEST_CERTIFY_INFO_enc_def
  by (intro writes_intros; simp add: TPMS_NV_DIGEST_CERTIFY_INFO_valid_def opt_ok_iff)

lemma TPMS_NV_DIGEST_CERTIFY_INFO_reads:
  "TPMS_NV_DIGEST_CERTIFY_INFO_valid x \<Longrightarrow> reads (TPMS_NV_DIGEST_CERTIFY_INFO_initFromTpm TPMS_NV_DIGEST_CERTIFY_INFO_default) x (TPMS_NV_DIGEST_CERTIFY_INFO_enc x)"
  by (simp only: TPMS_NV_DIGEST_CERTIFY_INFO_initFromTpm_def TPMS_NV_DIGEST_CERTIFY_INFO_enc_def TPMS_NV_DIGEST_CERTIFY_INFO_default_def
        TPMS_NV_DIGEST_CERTIFY_INFO.select_convs TPMS_NV_DIGEST_CERTIFY_INFO.update_convs;
      intro reads_intros; (rule TPMS_NV_DIGEST_CERTIFY_INFO.equality)?; simp add: TPMS_NV_DIGEST_CERTIFY_INFO_valid_def opt_ok_iff)

lemma TPMS_NV_DIGEST_CERTIFY_INFO_enc_nonempty [simp]: "TPMS_NV_DIGEST_CERTIFY_INFO_enc x \<noteq> []"
  by (simp add: TPMS_NV_DIGEST_CERTIFY_INFO_enc_def)

interpretation TPMS_NV_DIGEST_CERTIFY_INFO_codec:
  tpm_codec TPMS_NV_DIGEST_CERTIFY_INFO_toTpm TPMS_NV_DIGEST_CERTIFY_INFO_initFromTpm TPMS_NV_DIGEST_CERTIFY_INFO_default
    TPMS_NV_DIGEST_CERTIFY_INFO_enc TPMS_NV_DIGEST_CERTIFY_INFO_valid
  by unfold_locales (simp_all add: TPMS_NV_DIGEST_CERTIFY_INFO_writes TPMS_NV_DIGEST_CERTIFY_INFO_reads)

lemmas TPMS_NV_DIGEST_CERTIFY_INFO_steps [reads_intros] =
  TPMS_NV_DIGEST_CERTIFY_INFO_reads [THEN reads_sbind] TPMS_NV_DIGEST_CERTIFY_INFO_reads [THEN reads_sbind_ret]

subsection \<open>The union TPMU_ATTEST\<close>

datatype TPMU_ATTEST =
    ATTEST_TPMS_CERTIFY_INFO TPMS_CERTIFY_INFO
  | ATTEST_TPMS_CREATION_INFO TPMS_CREATION_INFO
  | ATTEST_TPMS_QUOTE_INFO TPMS_QUOTE_INFO
  | ATTEST_TPMS_COMMAND_AUDIT_INFO TPMS_COMMAND_AUDIT_INFO
  | ATTEST_TPMS_SESSION_AUDIT_INFO TPMS_SESSION_AUDIT_INFO
  | ATTEST_TPMS_TIME_ATTEST_INFO TPMS_TIME_ATTEST_INFO
  | ATTEST_TPMS_NV_CERTIFY_INFO TPMS_NV_CERTIFY_INFO
  | ATTEST_TPMS_NV_DIGEST_CERTIFY_INFO TPMS_NV_DIGEST_CERTIFY_INFO

fun TPMU_ATTEST_GetUnionSelector :: "TPMU_ATTEST \<Rightarrow> TPM_ST" where
  "TPMU_ATTEST_GetUnionSelector (ATTEST_TPMS_CERTIFY_INFO x) = TPM_ST_ATTEST_CERTIFY"
| "TPMU_ATTEST_GetUnionSelector (ATTEST_TPMS_CREATION_INFO x) = TPM_ST_ATTEST_CREATION"
| "TPMU_ATTEST_GetUnionSelector (ATTEST_TPMS_QUOTE_INFO x) = TPM_ST_ATTEST_QUOTE"
| "TPMU_ATTEST_GetUnionSelector (ATTEST_TPMS_COMMAND_AUDIT_INFO x) = TPM_ST_ATTEST_COMMAND_AUDIT"
| "TPMU_ATTEST_GetUnionSelector (ATTEST_TPMS_SESSION_AUDIT_INFO x) = TPM_ST_ATTEST_SESSION_AUDIT"
| "TPMU_ATTEST_GetUnionSelector (ATTEST_TPMS_TIME_ATTEST_INFO x) = TPM_ST_ATTEST_TIME"
| "TPMU_ATTEST_GetUnionSelector (ATTEST_TPMS_NV_CERTIFY_INFO x) = TPM_ST_ATTEST_NV"
| "TPMU_ATTEST_GetUnionSelector (ATTEST_TPMS_NV_DIGEST_CERTIFY_INFO x) = TPM_ST_ATTEST_NV_DIGEST"

fun TPMU_ATTEST_toTpm :: "TPMU_ATTEST \<Rightarrow> unit tpm" where
  "TPMU_ATTEST_toTpm (ATTEST_TPMS_CERTIFY_INFO x) = TPMS_CERTIFY_INFO_toTpm x"
| "TPMU_ATTEST_toTpm (ATTEST_TPMS_CREATION_INFO x) = TPMS_CREATION_INFO_toTpm x"
| "TPMU_ATTEST_toTpm (ATTEST_TPMS_QUOTE_INFO x) = TPMS_QUOTE_INFO_toTpm x"
| "TPMU_ATTEST_toTpm (ATTEST_TPMS_COMMAND_AUDIT_INFO x) = TPMS_COMMAND_AUDIT_INFO_toTpm x"
| "TPMU_ATTEST_toTpm (ATTEST_TPMS_SESSION_AUDIT_INFO x) = TPMS_SESSION_AUDIT_INFO_toTpm x"
| "TPMU_ATTEST_toTpm (ATTEST_TPMS_TIME_ATTEST_INFO x) = TPMS_TIME_ATTEST_INFO_toTpm x"
| "TPMU_ATTEST_toTpm (ATTEST_TPMS_NV_CERTIFY_INFO x) = TPMS_NV_CERTIFY_INFO_toTpm x"
| "TPMU_ATTEST_toTpm (ATTEST_TPMS_NV_DIGEST_CERTIFY_INFO x) = TPMS_NV_DIGEST_CERTIFY_INFO_toTpm x"

fun TPMU_ATTEST_initFromTpm :: "TPMU_ATTEST \<Rightarrow> TPMU_ATTEST tpm" where
  "TPMU_ATTEST_initFromTpm (ATTEST_TPMS_CERTIFY_INFO x) = sbind (TPMS_CERTIFY_INFO_initFromTpm x) (\<lambda>y. ret (ATTEST_TPMS_CERTIFY_INFO y))"
| "TPMU_ATTEST_initFromTpm (ATTEST_TPMS_CREATION_INFO x) = sbind (TPMS_CREATION_INFO_initFromTpm x) (\<lambda>y. ret (ATTEST_TPMS_CREATION_INFO y))"
| "TPMU_ATTEST_initFromTpm (ATTEST_TPMS_QUOTE_INFO x) = sbind (TPMS_QUOTE_INFO_initFromTpm x) (\<lambda>y. ret (ATTEST_TPMS_QUOTE_INFO y))"
| "TPMU_ATTEST_initFromTpm (ATTEST_TPMS_COMMAND_AUDIT_INFO x) = sbind (TPMS_COMMAND_AUDIT_INFO_initFromTpm x) (\<lambda>y. ret (ATTEST_TPMS_COMMAND_AUDIT_INFO y))"
| "TPMU_ATTEST_initFromTpm (ATTEST_TPMS_SESSION_AUDIT_INFO x) = sbind (TPMS_SESSION_AUDIT_INFO_initFromTpm x) (\<lambda>y. ret (ATTEST_TPMS_SESSION_AUDIT_INFO y))"
| "TPMU_ATTEST_initFromTpm (ATTEST_TPMS_TIME_ATTEST_INFO x) = sbind (TPMS_TIME_ATTEST_INFO_initFromTpm x) (\<lambda>y. ret (ATTEST_TPMS_TIME_ATTEST_INFO y))"
| "TPMU_ATTEST_initFromTpm (ATTEST_TPMS_NV_CERTIFY_INFO x) = sbind (TPMS_NV_CERTIFY_INFO_initFromTpm x) (\<lambda>y. ret (ATTEST_TPMS_NV_CERTIFY_INFO y))"
| "TPMU_ATTEST_initFromTpm (ATTEST_TPMS_NV_DIGEST_CERTIFY_INFO x) = sbind (TPMS_NV_DIGEST_CERTIFY_INFO_initFromTpm x) (\<lambda>y. ret (ATTEST_TPMS_NV_DIGEST_CERTIFY_INFO y))"

definition UnionFactory_Create_TPMU_ATTEST :: "TPM_ST \<Rightarrow> TPMU_ATTEST option outcome" where
  "UnionFactory_Create_TPMU_ATTEST selector =
     (if selector = TPM_ST_ATTEST_CERTIFY then Ok (Some (ATTEST_TPMS_CERTIFY_INFO TPMS_CERTIFY_INFO_default))
      else if selector = TPM_ST_ATTEST_CREATION then Ok (Some (ATTEST_TPMS_CREATION_INFO TPMS_CREATION_INFO_default))
      else if selector = TPM_ST_ATTEST_QUOTE then Ok (Some (ATTEST_TPMS_QUOTE_INFO TPMS_QUOTE_INFO_default))
      else if selector = TPM_ST_ATTEST_COMMAND_AUDIT then Ok (Some (ATTEST_TPMS_COMMAND_AUDIT_INFO TPMS_COMMAND_AUDIT_INFO_default))
      else if selector = TPM_ST_ATTEST_SESSION_AUDIT then Ok (Some (ATTEST_TPMS_SESSION_AUDIT_INFO TPMS_SESSION_AUDIT_INFO_default))
      else if selector = TPM_ST_ATTEST_TIME then Ok (Some (ATTEST_TPMS_TIME_ATTEST_INFO TPMS_TIME_ATTEST_INFO_default))
      else if selector = TPM_ST_ATTEST_NV then Ok (Some (ATTEST_TPMS_NV_CERTIFY_INFO TPMS_NV_CERTIFY_INFO_default))
      else if selector = TPM_ST_ATTEST_NV_DIGEST then Ok (Some (ATTEST_TPMS_NV_DIGEST_CERTIFY_INFO TPMS_NV_DIGEST_CERTIFY_INFO_default))
      else Throw (runtime_error ''Unknown selector value''))"

text \<open>The wire form of the members, the member a selector stands for, and which members a selector can name.\<close>

fun TPMU_ATTEST_fresh :: "TPMU_ATTEST \<Rightarrow> TPMU_ATTEST" where
  "TPMU_ATTEST_fresh (ATTEST_TPMS_CERTIFY_INFO _) = ATTEST_TPMS_CERTIFY_INFO TPMS_CERTIFY_INFO_default"
| "TPMU_ATTEST_fresh (ATTEST_TPMS_CREATION_INFO _) = ATTEST_TPMS_CREATION_INFO TPMS_CREATION_INFO_default"
| "TPMU_ATTEST_fresh (ATTEST_TPMS_QUOTE_INFO _) = ATTEST_TPMS_QUOTE_INFO TPMS_QUOTE_INFO_default"
| "TPMU_ATTEST_fresh (ATTEST_TPMS_COMMAND_AUDIT_INFO _) = ATTEST_TPMS_COMMAND_AUDIT_INFO TPMS_COMMAND_AUDIT_INFO_default"
| "TPMU_ATTEST_fresh (ATTEST_TPMS_SESSION_AUDIT_INFO _) = ATTEST_TPMS_SESSION_AUDIT_INFO TPMS_SESSION_AUDIT_INFO_default"
| "TPMU_ATTEST_fresh (ATTEST_TPMS_TIME_ATTEST_INFO _) = ATTEST_TPMS_TIME_ATTEST_INFO TPMS_TIME_ATTEST_INFO_default"
| "TPMU_ATTEST_fresh (ATTEST_TPMS_NV_CERTIFY_INFO _) = ATTEST_TPMS_NV_CERTIFY_INFO TPMS_NV_CERTIFY_INFO_default"
| "TPMU_ATTEST_fresh (ATTEST_TPMS_NV_DIGEST_CERTIFY_INFO _) = ATTEST_TPMS_NV_DIGEST_CERTIFY_INFO TPMS_NV_DIGEST_CERTIFY_INFO_default"

fun TPMU_ATTEST_enc :: "TPMU_ATTEST \<Rightarrow> ByteVec" where
  "TPMU_ATTEST_enc (ATTEST_TPMS_CERTIFY_INFO x) = TPMS_CERTIFY_INFO_enc x"
| "TPMU_ATTEST_enc (ATTEST_TPMS_CREATION_INFO x) = TPMS_CREATION_INFO_enc x"
| "TPMU_ATTEST_enc (ATTEST_TPMS_QUOTE_INFO x) = TPMS_QUOTE_INFO_enc x"
| "TPMU_ATTEST_enc (ATTEST_TPMS_COMMAND_AUDIT_INFO x) = TPMS_COMMAND_AUDIT_INFO_enc x"
| "TPMU_ATTEST_enc (ATTEST_TPMS_SESSION_AUDIT_INFO x) = TPMS_SESSION_AUDIT_INFO_enc x"
| "TPMU_ATTEST_enc (ATTEST_TPMS_TIME_ATTEST_INFO x) = TPMS_TIME_ATTEST_INFO_enc x"
| "TPMU_ATTEST_enc (ATTEST_TPMS_NV_CERTIFY_INFO x) = TPMS_NV_CERTIFY_INFO_enc x"
| "TPMU_ATTEST_enc (ATTEST_TPMS_NV_DIGEST_CERTIFY_INFO x) = TPMS_NV_DIGEST_CERTIFY_INFO_enc x"

fun TPMU_ATTEST_valid :: "TPMU_ATTEST \<Rightarrow> bool" where
  "TPMU_ATTEST_valid (ATTEST_TPMS_CERTIFY_INFO x) = TPMS_CERTIFY_INFO_valid x"
| "TPMU_ATTEST_valid (ATTEST_TPMS_CREATION_INFO x) = TPMS_CREATION_INFO_valid x"
| "TPMU_ATTEST_valid (ATTEST_TPMS_QUOTE_INFO x) = TPMS_QUOTE_INFO_valid x"
| "TPMU_ATTEST_valid (ATTEST_TPMS_COMMAND_AUDIT_INFO x) = TPMS_COMMAND_AUDIT_INFO_valid x"
| "TPMU_ATTEST_valid (ATTEST_TPMS_SESSION_AUDIT_INFO x) = TPMS_SESSION_AUDIT_INFO_valid x"
| "TPMU_ATTEST_valid (ATTEST_TPMS_TIME_ATTEST_INFO x) = TPMS_TIME_ATTEST_INFO_valid x"
| "TPMU_ATTEST_valid (ATTEST_TPMS_NV_CERTIFY_INFO x) = TPMS_NV_CERTIFY_INFO_valid x"
| "TPMU_ATTEST_valid (ATTEST_TPMS_NV_DIGEST_CERTIFY_INFO x) = TPMS_NV_DIGEST_CERTIFY_INFO_valid x"

lemma TPMU_ATTEST_writes [writes_intros]: "TPMU_ATTEST_valid u \<Longrightarrow> writes (TPMU_ATTEST_toTpm u) (TPMU_ATTEST_enc u)"
  by (cases u) (auto intro!: writes_intros)

lemma TPMU_ATTEST_reads:
  "TPMU_ATTEST_valid u \<Longrightarrow> reads (TPMU_ATTEST_initFromTpm (TPMU_ATTEST_fresh u)) u (TPMU_ATTEST_enc u)"
  by (cases u) (auto intro!: reads_intros)

lemma TPMU_ATTEST_reads_the:
  "opt_ok TPMU_ATTEST_valid u \<Longrightarrow> reads (TPMU_ATTEST_initFromTpm (TPMU_ATTEST_fresh (the u))) (the u) (opt_enc TPMU_ATTEST_enc u)"
  by (cases u) (simp_all add: TPMU_ATTEST_reads)

lemma TPMU_ATTEST_Create:
  "TPMU_ATTEST_valid u \<Longrightarrow>
   UnionFactory_Create_TPMU_ATTEST (TPMU_ATTEST_GetUnionSelector u) = Ok (Some (TPMU_ATTEST_fresh u))"
  by (cases u) (simp_all add: UnionFactory_Create_TPMU_ATTEST_def)

lemma TPMU_ATTEST_Create_the:
  "opt_ok TPMU_ATTEST_valid u \<Longrightarrow>
   UnionFactory_Create_TPMU_ATTEST (TPMU_ATTEST_GetUnionSelector (the u)) = Ok (Some (TPMU_ATTEST_fresh (the u)))"
  by (cases u) (simp_all add: TPMU_ATTEST_Create)

lemmas TPMU_ATTEST_steps [reads_intros] =
  reads_deref [where init = TPMU_ATTEST_initFromTpm, OF TPMU_ATTEST_reads_the]
  reads_deref_ret [where init = TPMU_ATTEST_initFromTpm, OF TPMU_ATTEST_reads_the]
  TPMU_ATTEST_Create_the [THEN reads_bindO]

subsection \<open>TPMS_ATTEST\<close>

text \<open>This structure is used on each TPM-generated signed structure.\<close>

record TPMS_ATTEST =
  TPMS_ATTEST_magic :: "TPM_GENERATED"
  TPMS_ATTEST_qualifiedSigner :: "ByteVec"
  TPMS_ATTEST_extraData :: "ByteVec"
  TPMS_ATTEST_clockInfo :: "TPMS_CLOCK_INFO"
  TPMS_ATTEST_firmwareVersion :: "UINT64"
  TPMS_ATTEST_attested :: "TPMU_ATTEST option"

definition TPMS_ATTEST_default :: TPMS_ATTEST where
  "TPMS_ATTEST_default = \<lparr>TPMS_ATTEST_magic = 0, TPMS_ATTEST_qualifiedSigner = [], TPMS_ATTEST_extraData = [], TPMS_ATTEST_clockInfo = TPMS_CLOCK_INFO_default, TPMS_ATTEST_firmwareVersion = 0, TPMS_ATTEST_attested = None\<rparr>"

definition TPMS_ATTEST_toTpm :: "TPMS_ATTEST \<Rightarrow> unit tpm" where
  "TPMS_ATTEST_toTpm self =
     wseq [writeInt (TPMS_ATTEST_magic self),
       deref (TPMS_ATTEST_attested self) (\<lambda>u. writeShort (TPMU_ATTEST_GetUnionSelector u)),
       writeSizedByteBuf (TPMS_ATTEST_qualifiedSigner self) 2,
       writeSizedByteBuf (TPMS_ATTEST_extraData self) 2,
       TPMS_CLOCK_INFO_toTpm (TPMS_ATTEST_clockInfo self),
       writeInt64 (TPMS_ATTEST_firmwareVersion self),
       deref (TPMS_ATTEST_attested self) TPMU_ATTEST_toTpm]"

definition TPMS_ATTEST_initFromTpm :: "TPMS_ATTEST \<Rightarrow> TPMS_ATTEST tpm" where
  "TPMS_ATTEST_initFromTpm self =
     sbind readInt (\<lambda>magic.
     sbind readShort (\<lambda>type.
     sbind (readSizedByteBuf 2) (\<lambda>qualifiedSigner.
     sbind (readSizedByteBuf 2) (\<lambda>extraData.
     sbind (TPMS_CLOCK_INFO_initFromTpm (TPMS_ATTEST_clockInfo self)) (\<lambda>clockInfo.
     sbind readInt64 (\<lambda>firmwareVersion.
     bindO (UnionFactory_Create_TPMU_ATTEST type) (\<lambda>attested.
     sbind (deref attested TPMU_ATTEST_initFromTpm) (\<lambda>attested.
     ret (self\<lparr>TPMS_ATTEST_magic := magic, TPMS_ATTEST_qualifiedSigner := qualifiedSigner, TPMS_ATTEST_extraData := extraData, TPMS_ATTEST_clockInfo := clockInfo, TPMS_ATTEST_firmwareVersion := firmwareVersion, TPMS_ATTEST_attested := Some attested\<rparr>)))))))))"

definition TPMS_ATTEST_enc :: "TPMS_ATTEST \<Rightarrow> ByteVec" where
  "TPMS_ATTEST_enc x =
     enc32 (TPMS_ATTEST_magic x) @
     opt_enc (\<lambda>u. enc16 (TPMU_ATTEST_GetUnionSelector u)) (TPMS_ATTEST_attested x) @
     enc_sized 2 (TPMS_ATTEST_qualifiedSigner x) @
     enc_sized 2 (TPMS_ATTEST_extraData x) @
     TPMS_CLOCK_INFO_enc (TPMS_ATTEST_clockInfo x) @
     enc64 (TPMS_ATTEST_firmwareVersion x) @
     opt_enc TPMU_ATTEST_enc (TPMS_ATTEST_attested x)"

definition TPMS_ATTEST_valid :: "TPMS_ATTEST \<Rightarrow> bool" where
  "TPMS_ATTEST_valid x \<longleftrightarrow>
     sized_ok 2 (TPMS_ATTEST_qualifiedSigner x) \<and>
     sized_ok 2 (TPMS_ATTEST_extraData x) \<and>
     TPMS_CLOCK_INFO_valid (TPMS_ATTEST_clockInfo x) \<and>
     opt_ok TPMU_ATTEST_valid (TPMS_ATTEST_attested x)"

lemma TPMS_ATTEST_writes [writes_intros]:
  "TPMS_ATTEST_valid x \<Longrightarrow> writes (TPMS_ATTEST_toTpm x) (TPMS_ATTEST_enc x)"
  unfolding TPMS_ATTEST_toTpm_def TPMS_ATTEST_enc_def
  by (intro writes_intros; simp add: TPMS_ATTEST_valid_def opt_ok_iff)

lemma TPMS_ATTEST_reads:
  "TPMS_ATTEST_valid x \<Longrightarrow> reads (TPMS_ATTEST_initFromTpm TPMS_ATTEST_default) x (TPMS_ATTEST_enc x)"
  by (simp only: TPMS_ATTEST_initFromTpm_def TPMS_ATTEST_enc_def TPMS_ATTEST_default_def
        TPMS_ATTEST.select_convs TPMS_ATTEST.update_convs;
      intro reads_intros; (rule TPMS_ATTEST.equality)?; simp add: TPMS_ATTEST_valid_def opt_ok_iff)

lemma TPMS_ATTEST_enc_nonempty [simp]: "TPMS_ATTEST_enc x \<noteq> []"
  by (simp add: TPMS_ATTEST_enc_def)

interpretation TPMS_ATTEST_codec:
  tpm_codec TPMS_ATTEST_toTpm TPMS_ATTEST_initFromTpm TPMS_ATTEST_default
    TPMS_ATTEST_enc TPMS_ATTEST_valid
  by unfold_locales (simp_all add: TPMS_ATTEST_writes TPMS_ATTEST_reads)

lemmas TPMS_ATTEST_parts [writes_intros] = TPMS_ATTEST_codec.writes_sized

lemmas TPMS_ATTEST_steps [reads_intros] =
  TPMS_ATTEST_reads [THEN reads_sbind] TPMS_ATTEST_reads [THEN reads_sbind_ret]
  TPMS_ATTEST_codec.reads_sizedObj [THEN reads_sbind] TPMS_ATTEST_codec.reads_sizedObj [THEN reads_sbind_ret]

subsection \<open>TPM2B_ATTEST\<close>

text \<open>This sized buffer to contain the signed structure.\<close>

record TPM2B_ATTEST =
  TPM2B_ATTEST_attestationData :: "TPMS_ATTEST"

definition TPM2B_ATTEST_default :: TPM2B_ATTEST where
  "TPM2B_ATTEST_default = \<lparr>TPM2B_ATTEST_attestationData = TPMS_ATTEST_default\<rparr>"

definition TPM2B_ATTEST_toTpm :: "TPM2B_ATTEST \<Rightarrow> unit tpm" where
  "TPM2B_ATTEST_toTpm self =
     wseq [writeSizedObj TPMS_ATTEST_toTpm (TPM2B_ATTEST_attestationData self)]"

definition TPM2B_ATTEST_initFromTpm :: "TPM2B_ATTEST \<Rightarrow> TPM2B_ATTEST tpm" where
  "TPM2B_ATTEST_initFromTpm self =
     sbind (readSizedObj TPMS_ATTEST_initFromTpm (TPM2B_ATTEST_attestationData self)) (\<lambda>attestationData.
     ret (self\<lparr>TPM2B_ATTEST_attestationData := attestationData\<rparr>))"

definition TPM2B_ATTEST_enc :: "TPM2B_ATTEST \<Rightarrow> ByteVec" where
  "TPM2B_ATTEST_enc x =
     enc_obj (TPMS_ATTEST_enc (TPM2B_ATTEST_attestationData x))"

definition TPM2B_ATTEST_valid :: "TPM2B_ATTEST \<Rightarrow> bool" where
  "TPM2B_ATTEST_valid x \<longleftrightarrow>
     sized_obj_ok TPMS_ATTEST_default TPMS_ATTEST_enc TPMS_ATTEST_valid (TPM2B_ATTEST_attestationData x)"

lemma TPM2B_ATTEST_writes [writes_intros]:
  "TPM2B_ATTEST_valid x \<Longrightarrow> writes (TPM2B_ATTEST_toTpm x) (TPM2B_ATTEST_enc x)"
  unfolding TPM2B_ATTEST_toTpm_def TPM2B_ATTEST_enc_def
  by (intro writes_intros; simp add: TPM2B_ATTEST_valid_def opt_ok_iff)

lemma TPM2B_ATTEST_reads:
  "TPM2B_ATTEST_valid x \<Longrightarrow> reads (TPM2B_ATTEST_initFromTpm TPM2B_ATTEST_default) x (TPM2B_ATTEST_enc x)"
  by (simp only: TPM2B_ATTEST_initFromTpm_def TPM2B_ATTEST_enc_def TPM2B_ATTEST_default_def
        TPM2B_ATTEST.select_convs TPM2B_ATTEST.update_convs;
      intro reads_intros; (rule TPM2B_ATTEST.equality)?; simp add: TPM2B_ATTEST_valid_def opt_ok_iff)

interpretation TPM2B_ATTEST_codec:
  tpm_codec TPM2B_ATTEST_toTpm TPM2B_ATTEST_initFromTpm TPM2B_ATTEST_default
    TPM2B_ATTEST_enc TPM2B_ATTEST_valid
  by unfold_locales (erule TPM2B_ATTEST_writes TPM2B_ATTEST_reads | simp add: TPM2B_ATTEST_enc_def)+

subsection \<open>TPMS_AUTH_COMMAND\<close>

text \<open>This is the format used for each of the authorizations in the session area of a command.\<close>

record TPMS_AUTH_COMMAND =
  TPMS_AUTH_COMMAND_sessionHandle :: "TPM_HANDLE"
  TPMS_AUTH_COMMAND_nonce :: "ByteVec"
  TPMS_AUTH_COMMAND_sessionAttributes :: "TPMA_SESSION"
  TPMS_AUTH_COMMAND_hmac :: "ByteVec"

definition TPMS_AUTH_COMMAND_default :: TPMS_AUTH_COMMAND where
  "TPMS_AUTH_COMMAND_default = \<lparr>TPMS_AUTH_COMMAND_sessionHandle = TPM_HANDLE_default, TPMS_AUTH_COMMAND_nonce = [], TPMS_AUTH_COMMAND_sessionAttributes = 0, TPMS_AUTH_COMMAND_hmac = []\<rparr>"

definition TPMS_AUTH_COMMAND_toTpm :: "TPMS_AUTH_COMMAND \<Rightarrow> unit tpm" where
  "TPMS_AUTH_COMMAND_toTpm self =
     wseq [TPM_HANDLE_toTpm (TPMS_AUTH_COMMAND_sessionHandle self),
       writeSizedByteBuf (TPMS_AUTH_COMMAND_nonce self) 2,
       writeByte (TPMS_AUTH_COMMAND_sessionAttributes self),
       writeSizedByteBuf (TPMS_AUTH_COMMAND_hmac self) 2]"

definition TPMS_AUTH_COMMAND_initFromTpm :: "TPMS_AUTH_COMMAND \<Rightarrow> TPMS_AUTH_COMMAND tpm" where
  "TPMS_AUTH_COMMAND_initFromTpm self =
     sbind (TPM_HANDLE_initFromTpm (TPMS_AUTH_COMMAND_sessionHandle self)) (\<lambda>sessionHandle.
     sbind (readSizedByteBuf 2) (\<lambda>nonce.
     sbind readByte (\<lambda>sessionAttributes.
     sbind (readSizedByteBuf 2) (\<lambda>hmac.
     ret (self\<lparr>TPMS_AUTH_COMMAND_sessionHandle := sessionHandle, TPMS_AUTH_COMMAND_nonce := nonce, TPMS_AUTH_COMMAND_sessionAttributes := sessionAttributes, TPMS_AUTH_COMMAND_hmac := hmac\<rparr>)))))"

definition TPMS_AUTH_COMMAND_enc :: "TPMS_AUTH_COMMAND \<Rightarrow> ByteVec" where
  "TPMS_AUTH_COMMAND_enc x =
     TPM_HANDLE_enc (TPMS_AUTH_COMMAND_sessionHandle x) @
     enc_sized 2 (TPMS_AUTH_COMMAND_nonce x) @
     enc8 (TPMS_AUTH_COMMAND_sessionAttributes x) @
     enc_sized 2 (TPMS_AUTH_COMMAND_hmac x)"

definition TPMS_AUTH_COMMAND_valid :: "TPMS_AUTH_COMMAND \<Rightarrow> bool" where
  "TPMS_AUTH_COMMAND_valid x \<longleftrightarrow>
     TPM_HANDLE_valid (TPMS_AUTH_COMMAND_sessionHandle x) \<and>
     sized_ok 2 (TPMS_AUTH_COMMAND_nonce x) \<and>
     sized_ok 2 (TPMS_AUTH_COMMAND_hmac x)"

lemma TPMS_AUTH_COMMAND_writes [writes_intros]:
  "TPMS_AUTH_COMMAND_valid x \<Longrightarrow> writes (TPMS_AUTH_COMMAND_toTpm x) (TPMS_AUTH_COMMAND_enc x)"
  unfolding TPMS_AUTH_COMMAND_toTpm_def TPMS_AUTH_COMMAND_enc_def
  by (intro writes_intros; simp add: TPMS_AUTH_COMMAND_valid_def opt_ok_iff)

lemma TPMS_AUTH_COMMAND_reads:
  "TPMS_AUTH_COMMAND_valid x \<Longrightarrow> reads (TPMS_AUTH_COMMAND_initFromTpm TPMS_AUTH_COMMAND_default) x (TPMS_AUTH_COMMAND_enc x)"
  by (simp only: TPMS_AUTH_COMMAND_initFromTpm_def TPMS_AUTH_COMMAND_enc_def TPMS_AUTH_COMMAND_default_def
        TPMS_AUTH_COMMAND.select_convs TPMS_AUTH_COMMAND.update_convs;
      intro reads_intros; (rule TPMS_AUTH_COMMAND.equality)?; simp add: TPMS_AUTH_COMMAND_valid_def opt_ok_iff)

interpretation TPMS_AUTH_COMMAND_codec:
  tpm_codec TPMS_AUTH_COMMAND_toTpm TPMS_AUTH_COMMAND_initFromTpm TPMS_AUTH_COMMAND_default
    TPMS_AUTH_COMMAND_enc TPMS_AUTH_COMMAND_valid
  by unfold_locales (erule TPMS_AUTH_COMMAND_writes TPMS_AUTH_COMMAND_reads | simp add: TPMS_AUTH_COMMAND_enc_def)+

subsection \<open>TPMS_AUTH_RESPONSE\<close>

text \<open>This is the format for each of the authorizations in the session area of the response.\<close>

record TPMS_AUTH_RESPONSE =
  TPMS_AUTH_RESPONSE_nonce :: "ByteVec"
  TPMS_AUTH_RESPONSE_sessionAttributes :: "TPMA_SESSION"
  TPMS_AUTH_RESPONSE_hmac :: "ByteVec"

definition TPMS_AUTH_RESPONSE_default :: TPMS_AUTH_RESPONSE where
  "TPMS_AUTH_RESPONSE_default = \<lparr>TPMS_AUTH_RESPONSE_nonce = [], TPMS_AUTH_RESPONSE_sessionAttributes = 0, TPMS_AUTH_RESPONSE_hmac = []\<rparr>"

definition TPMS_AUTH_RESPONSE_toTpm :: "TPMS_AUTH_RESPONSE \<Rightarrow> unit tpm" where
  "TPMS_AUTH_RESPONSE_toTpm self =
     wseq [writeSizedByteBuf (TPMS_AUTH_RESPONSE_nonce self) 2,
       writeByte (TPMS_AUTH_RESPONSE_sessionAttributes self),
       writeSizedByteBuf (TPMS_AUTH_RESPONSE_hmac self) 2]"

definition TPMS_AUTH_RESPONSE_initFromTpm :: "TPMS_AUTH_RESPONSE \<Rightarrow> TPMS_AUTH_RESPONSE tpm" where
  "TPMS_AUTH_RESPONSE_initFromTpm self =
     sbind (readSizedByteBuf 2) (\<lambda>nonce.
     sbind readByte (\<lambda>sessionAttributes.
     sbind (readSizedByteBuf 2) (\<lambda>hmac.
     ret (self\<lparr>TPMS_AUTH_RESPONSE_nonce := nonce, TPMS_AUTH_RESPONSE_sessionAttributes := sessionAttributes, TPMS_AUTH_RESPONSE_hmac := hmac\<rparr>))))"

definition TPMS_AUTH_RESPONSE_enc :: "TPMS_AUTH_RESPONSE \<Rightarrow> ByteVec" where
  "TPMS_AUTH_RESPONSE_enc x =
     enc_sized 2 (TPMS_AUTH_RESPONSE_nonce x) @
     enc8 (TPMS_AUTH_RESPONSE_sessionAttributes x) @
     enc_sized 2 (TPMS_AUTH_RESPONSE_hmac x)"

definition TPMS_AUTH_RESPONSE_valid :: "TPMS_AUTH_RESPONSE \<Rightarrow> bool" where
  "TPMS_AUTH_RESPONSE_valid x \<longleftrightarrow>
     sized_ok 2 (TPMS_AUTH_RESPONSE_nonce x) \<and>
     sized_ok 2 (TPMS_AUTH_RESPONSE_hmac x)"

lemma TPMS_AUTH_RESPONSE_writes [writes_intros]:
  "TPMS_AUTH_RESPONSE_valid x \<Longrightarrow> writes (TPMS_AUTH_RESPONSE_toTpm x) (TPMS_AUTH_RESPONSE_enc x)"
  unfolding TPMS_AUTH_RESPONSE_toTpm_def TPMS_AUTH_RESPONSE_enc_def
  by (intro writes_intros; simp add: TPMS_AUTH_RESPONSE_valid_def opt_ok_iff)

lemma TPMS_AUTH_RESPONSE_reads:
  "TPMS_AUTH_RESPONSE_valid x \<Longrightarrow> reads (TPMS_AUTH_RESPONSE_initFromTpm TPMS_AUTH_RESPONSE_default) x (TPMS_AUTH_RESPONSE_enc x)"
  by (simp only: TPMS_AUTH_RESPONSE_initFromTpm_def TPMS_AUTH_RESPONSE_enc_def TPMS_AUTH_RESPONSE_default_def
        TPMS_AUTH_RESPONSE.select_convs TPMS_AUTH_RESPONSE.update_convs;
      intro reads_intros; (rule TPMS_AUTH_RESPONSE.equality)?; simp add: TPMS_AUTH_RESPONSE_valid_def opt_ok_iff)

interpretation TPMS_AUTH_RESPONSE_codec:
  tpm_codec TPMS_AUTH_RESPONSE_toTpm TPMS_AUTH_RESPONSE_initFromTpm TPMS_AUTH_RESPONSE_default
    TPMS_AUTH_RESPONSE_enc TPMS_AUTH_RESPONSE_valid
  by unfold_locales (erule TPMS_AUTH_RESPONSE_writes TPMS_AUTH_RESPONSE_reads | simp add: TPMS_AUTH_RESPONSE_enc_def)+

end
