(* ===== verification/TpmSchemeTypes.thy ===== *)
theory TpmSchemeTypes
  imports TpmAttestTypes
begin

text \<open>
  \<^verbatim>\<open>TSS.CPP/include/TpmTypes.h\<close> and \<^verbatim>\<open>TSS.CPP/Src/TpmTypes.cpp\<close>: symmetric definitions, sensitive creation data, and the signing, key derivation and encryption schemes.

  For each class \<open>X\<close> of the source: the record \<open>X\<close> of its members, \<open>X_default\<close> (its default
  constructor; members that C++ leaves uninitialised are 0), \<open>X_toTpm\<close> and \<open>X_initFromTpm\<close>; then
  the wire format \<open>X_enc\<close>, the values \<open>X_valid\<close> it can carry, and the proof that the methods
  implement it (the interpretation \<open>X_codec\<close>).
\<close>

subsection \<open>TPMT_SYM_DEF\<close>

text \<open>The TPMT_SYM_DEF structure is used to select an algorithm to be used for parameter encryption in those cases when different symmetric algorithms may ....\<close>

record TPMT_SYM_DEF =
  TPMT_SYM_DEF_algorithm :: "TPM_ALG_ID"
  TPMT_SYM_DEF_keyBits :: "UINT16"
  TPMT_SYM_DEF_mode :: "TPM_ALG_ID"

definition TPMT_SYM_DEF_default :: TPMT_SYM_DEF where
  "TPMT_SYM_DEF_default = \<lparr>TPMT_SYM_DEF_algorithm = TPM_ALG_ID_NULL, TPMT_SYM_DEF_keyBits = 0, TPMT_SYM_DEF_mode = TPM_ALG_ID_NULL\<rparr>"

definition TPMT_SYM_DEF_toTpm :: "TPMT_SYM_DEF \<Rightarrow> unit tpm" where
  "TPMT_SYM_DEF_toTpm self =
     wseq [writeShort (TPMT_SYM_DEF_algorithm self),
     if TPMT_SYM_DEF_algorithm self = TPM_ALG_ID_NULL then ret ()
     else wseq [writeShort (TPMT_SYM_DEF_keyBits self),
       writeShort (TPMT_SYM_DEF_mode self)]]"

definition TPMT_SYM_DEF_initFromTpm :: "TPMT_SYM_DEF \<Rightarrow> TPMT_SYM_DEF tpm" where
  "TPMT_SYM_DEF_initFromTpm self =
     sbind readShort (\<lambda>algorithm.
     if algorithm = TPM_ALG_ID_NULL then ret (self\<lparr>TPMT_SYM_DEF_algorithm := algorithm\<rparr>)
     else      sbind readShort (\<lambda>keyBits.
     sbind readShort (\<lambda>mode.
     ret (self\<lparr>TPMT_SYM_DEF_algorithm := algorithm, TPMT_SYM_DEF_keyBits := keyBits, TPMT_SYM_DEF_mode := mode\<rparr>))))"

definition TPMT_SYM_DEF_enc :: "TPMT_SYM_DEF \<Rightarrow> ByteVec" where
  "TPMT_SYM_DEF_enc x =
     enc16 (TPMT_SYM_DEF_algorithm x) @ (if TPMT_SYM_DEF_algorithm x = TPM_ALG_ID_NULL then [] else enc16 (TPMT_SYM_DEF_keyBits x) @ enc16 (TPMT_SYM_DEF_mode x))"

definition TPMT_SYM_DEF_valid :: "TPMT_SYM_DEF \<Rightarrow> bool" where
  "TPMT_SYM_DEF_valid x \<longleftrightarrow>
     (TPMT_SYM_DEF_algorithm x = TPM_ALG_ID_NULL \<longrightarrow> TPMT_SYM_DEF_keyBits x = 0 \<and> TPMT_SYM_DEF_mode x = TPM_ALG_ID_NULL)"

lemma TPMT_SYM_DEF_writes [writes_intros]:
  "TPMT_SYM_DEF_valid x \<Longrightarrow> writes (TPMT_SYM_DEF_toTpm x) (TPMT_SYM_DEF_enc x)"
  by (auto simp: TPMT_SYM_DEF_toTpm_def TPMT_SYM_DEF_enc_def TPMT_SYM_DEF_valid_def opt_ok_iff
      simp del: wseq.simps intro!: writes_intros)

lemma TPMT_SYM_DEF_reads:
  "TPMT_SYM_DEF_valid x \<Longrightarrow> reads (TPMT_SYM_DEF_initFromTpm TPMT_SYM_DEF_default) x (TPMT_SYM_DEF_enc x)"
  by (simp only: TPMT_SYM_DEF_initFromTpm_def TPMT_SYM_DEF_enc_def TPMT_SYM_DEF_default_def
        TPMT_SYM_DEF.select_convs TPMT_SYM_DEF.update_convs;
      rule reads_unless_null; (rule TPMT_SYM_DEF.equality)?; simp add: TPMT_SYM_DEF_valid_def)

lemma TPMT_SYM_DEF_enc_nonempty [simp]: "TPMT_SYM_DEF_enc x \<noteq> []"
  by (simp add: TPMT_SYM_DEF_enc_def)

interpretation TPMT_SYM_DEF_codec:
  tpm_codec TPMT_SYM_DEF_toTpm TPMT_SYM_DEF_initFromTpm TPMT_SYM_DEF_default
    TPMT_SYM_DEF_enc TPMT_SYM_DEF_valid
  by unfold_locales (simp_all add: TPMT_SYM_DEF_writes TPMT_SYM_DEF_reads)

lemmas TPMT_SYM_DEF_steps [reads_intros] =
  TPMT_SYM_DEF_reads [THEN reads_sbind] TPMT_SYM_DEF_reads [THEN reads_sbind_ret]

subsection \<open>TPMT_SYM_DEF_OBJECT\<close>

text \<open>This structure is used when different symmetric block cipher (not XOR) algorithms may be selected.\<close>

record TPMT_SYM_DEF_OBJECT =
  TPMT_SYM_DEF_OBJECT_algorithm :: "TPM_ALG_ID"
  TPMT_SYM_DEF_OBJECT_keyBits :: "UINT16"
  TPMT_SYM_DEF_OBJECT_mode :: "TPM_ALG_ID"

definition TPMT_SYM_DEF_OBJECT_default :: TPMT_SYM_DEF_OBJECT where
  "TPMT_SYM_DEF_OBJECT_default = \<lparr>TPMT_SYM_DEF_OBJECT_algorithm = TPM_ALG_ID_NULL, TPMT_SYM_DEF_OBJECT_keyBits = 0, TPMT_SYM_DEF_OBJECT_mode = TPM_ALG_ID_NULL\<rparr>"

definition TPMT_SYM_DEF_OBJECT_toTpm :: "TPMT_SYM_DEF_OBJECT \<Rightarrow> unit tpm" where
  "TPMT_SYM_DEF_OBJECT_toTpm self =
     wseq [writeShort (TPMT_SYM_DEF_OBJECT_algorithm self),
     if TPMT_SYM_DEF_OBJECT_algorithm self = TPM_ALG_ID_NULL then ret ()
     else wseq [writeShort (TPMT_SYM_DEF_OBJECT_keyBits self),
       writeShort (TPMT_SYM_DEF_OBJECT_mode self)]]"

definition TPMT_SYM_DEF_OBJECT_initFromTpm :: "TPMT_SYM_DEF_OBJECT \<Rightarrow> TPMT_SYM_DEF_OBJECT tpm" where
  "TPMT_SYM_DEF_OBJECT_initFromTpm self =
     sbind readShort (\<lambda>algorithm.
     if algorithm = TPM_ALG_ID_NULL then ret (self\<lparr>TPMT_SYM_DEF_OBJECT_algorithm := algorithm\<rparr>)
     else      sbind readShort (\<lambda>keyBits.
     sbind readShort (\<lambda>mode.
     ret (self\<lparr>TPMT_SYM_DEF_OBJECT_algorithm := algorithm, TPMT_SYM_DEF_OBJECT_keyBits := keyBits, TPMT_SYM_DEF_OBJECT_mode := mode\<rparr>))))"

definition TPMT_SYM_DEF_OBJECT_enc :: "TPMT_SYM_DEF_OBJECT \<Rightarrow> ByteVec" where
  "TPMT_SYM_DEF_OBJECT_enc x =
     enc16 (TPMT_SYM_DEF_OBJECT_algorithm x) @ (if TPMT_SYM_DEF_OBJECT_algorithm x = TPM_ALG_ID_NULL then [] else enc16 (TPMT_SYM_DEF_OBJECT_keyBits x) @ enc16 (TPMT_SYM_DEF_OBJECT_mode x))"

definition TPMT_SYM_DEF_OBJECT_valid :: "TPMT_SYM_DEF_OBJECT \<Rightarrow> bool" where
  "TPMT_SYM_DEF_OBJECT_valid x \<longleftrightarrow>
     (TPMT_SYM_DEF_OBJECT_algorithm x = TPM_ALG_ID_NULL \<longrightarrow> TPMT_SYM_DEF_OBJECT_keyBits x = 0 \<and> TPMT_SYM_DEF_OBJECT_mode x = TPM_ALG_ID_NULL)"

lemma TPMT_SYM_DEF_OBJECT_writes [writes_intros]:
  "TPMT_SYM_DEF_OBJECT_valid x \<Longrightarrow> writes (TPMT_SYM_DEF_OBJECT_toTpm x) (TPMT_SYM_DEF_OBJECT_enc x)"
  by (auto simp: TPMT_SYM_DEF_OBJECT_toTpm_def TPMT_SYM_DEF_OBJECT_enc_def TPMT_SYM_DEF_OBJECT_valid_def opt_ok_iff
      simp del: wseq.simps intro!: writes_intros)

lemma TPMT_SYM_DEF_OBJECT_reads:
  "TPMT_SYM_DEF_OBJECT_valid x \<Longrightarrow> reads (TPMT_SYM_DEF_OBJECT_initFromTpm TPMT_SYM_DEF_OBJECT_default) x (TPMT_SYM_DEF_OBJECT_enc x)"
  by (simp only: TPMT_SYM_DEF_OBJECT_initFromTpm_def TPMT_SYM_DEF_OBJECT_enc_def TPMT_SYM_DEF_OBJECT_default_def
        TPMT_SYM_DEF_OBJECT.select_convs TPMT_SYM_DEF_OBJECT.update_convs;
      rule reads_unless_null; (rule TPMT_SYM_DEF_OBJECT.equality)?; simp add: TPMT_SYM_DEF_OBJECT_valid_def)

lemma TPMT_SYM_DEF_OBJECT_enc_nonempty [simp]: "TPMT_SYM_DEF_OBJECT_enc x \<noteq> []"
  by (simp add: TPMT_SYM_DEF_OBJECT_enc_def)

interpretation TPMT_SYM_DEF_OBJECT_codec:
  tpm_codec TPMT_SYM_DEF_OBJECT_toTpm TPMT_SYM_DEF_OBJECT_initFromTpm TPMT_SYM_DEF_OBJECT_default
    TPMT_SYM_DEF_OBJECT_enc TPMT_SYM_DEF_OBJECT_valid
  by unfold_locales (simp_all add: TPMT_SYM_DEF_OBJECT_writes TPMT_SYM_DEF_OBJECT_reads)

lemmas TPMT_SYM_DEF_OBJECT_steps [reads_intros] =
  TPMT_SYM_DEF_OBJECT_reads [THEN reads_sbind] TPMT_SYM_DEF_OBJECT_reads [THEN reads_sbind_ret]

subsection \<open>TPM2B_SYM_KEY\<close>

text \<open>This structure is used to hold a symmetric key in the sensitive area of an asymmetric object.\<close>

record TPM2B_SYM_KEY =
  TPM2B_SYM_KEY_buffer :: "ByteVec"

definition TPM2B_SYM_KEY_default :: TPM2B_SYM_KEY where
  "TPM2B_SYM_KEY_default = \<lparr>TPM2B_SYM_KEY_buffer = []\<rparr>"

definition TPM2B_SYM_KEY_toTpm :: "TPM2B_SYM_KEY \<Rightarrow> unit tpm" where
  "TPM2B_SYM_KEY_toTpm self =
     wseq [writeSizedByteBuf (TPM2B_SYM_KEY_buffer self) 2]"

definition TPM2B_SYM_KEY_initFromTpm :: "TPM2B_SYM_KEY \<Rightarrow> TPM2B_SYM_KEY tpm" where
  "TPM2B_SYM_KEY_initFromTpm self =
     sbind (readSizedByteBuf 2) (\<lambda>buffer.
     ret (self\<lparr>TPM2B_SYM_KEY_buffer := buffer\<rparr>))"

definition TPM2B_SYM_KEY_enc :: "TPM2B_SYM_KEY \<Rightarrow> ByteVec" where
  "TPM2B_SYM_KEY_enc x =
     enc_sized 2 (TPM2B_SYM_KEY_buffer x)"

definition TPM2B_SYM_KEY_valid :: "TPM2B_SYM_KEY \<Rightarrow> bool" where
  "TPM2B_SYM_KEY_valid x \<longleftrightarrow>
     sized_ok 2 (TPM2B_SYM_KEY_buffer x)"

lemma TPM2B_SYM_KEY_writes [writes_intros]:
  "TPM2B_SYM_KEY_valid x \<Longrightarrow> writes (TPM2B_SYM_KEY_toTpm x) (TPM2B_SYM_KEY_enc x)"
  unfolding TPM2B_SYM_KEY_toTpm_def TPM2B_SYM_KEY_enc_def
  by (intro writes_intros; simp add: TPM2B_SYM_KEY_valid_def opt_ok_iff)

lemma TPM2B_SYM_KEY_reads:
  "TPM2B_SYM_KEY_valid x \<Longrightarrow> reads (TPM2B_SYM_KEY_initFromTpm TPM2B_SYM_KEY_default) x (TPM2B_SYM_KEY_enc x)"
  by (simp only: TPM2B_SYM_KEY_initFromTpm_def TPM2B_SYM_KEY_enc_def TPM2B_SYM_KEY_default_def
        TPM2B_SYM_KEY.select_convs TPM2B_SYM_KEY.update_convs;
      intro reads_intros; (rule TPM2B_SYM_KEY.equality)?; simp add: TPM2B_SYM_KEY_valid_def opt_ok_iff)

lemma TPM2B_SYM_KEY_enc_nonempty [simp]: "TPM2B_SYM_KEY_enc x \<noteq> []"
  by (simp add: TPM2B_SYM_KEY_enc_def)

interpretation TPM2B_SYM_KEY_codec:
  tpm_codec TPM2B_SYM_KEY_toTpm TPM2B_SYM_KEY_initFromTpm TPM2B_SYM_KEY_default
    TPM2B_SYM_KEY_enc TPM2B_SYM_KEY_valid
  by unfold_locales (simp_all add: TPM2B_SYM_KEY_writes TPM2B_SYM_KEY_reads)

lemmas TPM2B_SYM_KEY_steps [reads_intros] =
  TPM2B_SYM_KEY_reads [THEN reads_sbind] TPM2B_SYM_KEY_reads [THEN reads_sbind_ret]

subsection \<open>TPMS_SYMCIPHER_PARMS\<close>

text \<open>This structure contains the parameters for a symmetric block cipher object.\<close>

record TPMS_SYMCIPHER_PARMS =
  TPMS_SYMCIPHER_PARMS_sym :: "TPMT_SYM_DEF_OBJECT"

definition TPMS_SYMCIPHER_PARMS_default :: TPMS_SYMCIPHER_PARMS where
  "TPMS_SYMCIPHER_PARMS_default = \<lparr>TPMS_SYMCIPHER_PARMS_sym = TPMT_SYM_DEF_OBJECT_default\<rparr>"

definition TPMS_SYMCIPHER_PARMS_toTpm :: "TPMS_SYMCIPHER_PARMS \<Rightarrow> unit tpm" where
  "TPMS_SYMCIPHER_PARMS_toTpm self =
     wseq [TPMT_SYM_DEF_OBJECT_toTpm (TPMS_SYMCIPHER_PARMS_sym self)]"

definition TPMS_SYMCIPHER_PARMS_initFromTpm :: "TPMS_SYMCIPHER_PARMS \<Rightarrow> TPMS_SYMCIPHER_PARMS tpm" where
  "TPMS_SYMCIPHER_PARMS_initFromTpm self =
     sbind (TPMT_SYM_DEF_OBJECT_initFromTpm (TPMS_SYMCIPHER_PARMS_sym self)) (\<lambda>sym.
     ret (self\<lparr>TPMS_SYMCIPHER_PARMS_sym := sym\<rparr>))"

definition TPMS_SYMCIPHER_PARMS_enc :: "TPMS_SYMCIPHER_PARMS \<Rightarrow> ByteVec" where
  "TPMS_SYMCIPHER_PARMS_enc x =
     TPMT_SYM_DEF_OBJECT_enc (TPMS_SYMCIPHER_PARMS_sym x)"

definition TPMS_SYMCIPHER_PARMS_valid :: "TPMS_SYMCIPHER_PARMS \<Rightarrow> bool" where
  "TPMS_SYMCIPHER_PARMS_valid x \<longleftrightarrow>
     TPMT_SYM_DEF_OBJECT_valid (TPMS_SYMCIPHER_PARMS_sym x)"

lemma TPMS_SYMCIPHER_PARMS_writes [writes_intros]:
  "TPMS_SYMCIPHER_PARMS_valid x \<Longrightarrow> writes (TPMS_SYMCIPHER_PARMS_toTpm x) (TPMS_SYMCIPHER_PARMS_enc x)"
  unfolding TPMS_SYMCIPHER_PARMS_toTpm_def TPMS_SYMCIPHER_PARMS_enc_def
  by (intro writes_intros; simp add: TPMS_SYMCIPHER_PARMS_valid_def opt_ok_iff)

lemma TPMS_SYMCIPHER_PARMS_reads:
  "TPMS_SYMCIPHER_PARMS_valid x \<Longrightarrow> reads (TPMS_SYMCIPHER_PARMS_initFromTpm TPMS_SYMCIPHER_PARMS_default) x (TPMS_SYMCIPHER_PARMS_enc x)"
  by (simp only: TPMS_SYMCIPHER_PARMS_initFromTpm_def TPMS_SYMCIPHER_PARMS_enc_def TPMS_SYMCIPHER_PARMS_default_def
        TPMS_SYMCIPHER_PARMS.select_convs TPMS_SYMCIPHER_PARMS.update_convs;
      intro reads_intros; (rule TPMS_SYMCIPHER_PARMS.equality)?; simp add: TPMS_SYMCIPHER_PARMS_valid_def opt_ok_iff)

lemma TPMS_SYMCIPHER_PARMS_enc_nonempty [simp]: "TPMS_SYMCIPHER_PARMS_enc x \<noteq> []"
  by (simp add: TPMS_SYMCIPHER_PARMS_enc_def)

interpretation TPMS_SYMCIPHER_PARMS_codec:
  tpm_codec TPMS_SYMCIPHER_PARMS_toTpm TPMS_SYMCIPHER_PARMS_initFromTpm TPMS_SYMCIPHER_PARMS_default
    TPMS_SYMCIPHER_PARMS_enc TPMS_SYMCIPHER_PARMS_valid
  by unfold_locales (simp_all add: TPMS_SYMCIPHER_PARMS_writes TPMS_SYMCIPHER_PARMS_reads)

lemmas TPMS_SYMCIPHER_PARMS_steps [reads_intros] =
  TPMS_SYMCIPHER_PARMS_reads [THEN reads_sbind] TPMS_SYMCIPHER_PARMS_reads [THEN reads_sbind_ret]

subsection \<open>TPM2B_LABEL\<close>

text \<open>This buffer holds a label or context value.\<close>

record TPM2B_LABEL =
  TPM2B_LABEL_buffer :: "ByteVec"

definition TPM2B_LABEL_default :: TPM2B_LABEL where
  "TPM2B_LABEL_default = \<lparr>TPM2B_LABEL_buffer = []\<rparr>"

definition TPM2B_LABEL_toTpm :: "TPM2B_LABEL \<Rightarrow> unit tpm" where
  "TPM2B_LABEL_toTpm self =
     wseq [writeSizedByteBuf (TPM2B_LABEL_buffer self) 2]"

definition TPM2B_LABEL_initFromTpm :: "TPM2B_LABEL \<Rightarrow> TPM2B_LABEL tpm" where
  "TPM2B_LABEL_initFromTpm self =
     sbind (readSizedByteBuf 2) (\<lambda>buffer.
     ret (self\<lparr>TPM2B_LABEL_buffer := buffer\<rparr>))"

definition TPM2B_LABEL_enc :: "TPM2B_LABEL \<Rightarrow> ByteVec" where
  "TPM2B_LABEL_enc x =
     enc_sized 2 (TPM2B_LABEL_buffer x)"

definition TPM2B_LABEL_valid :: "TPM2B_LABEL \<Rightarrow> bool" where
  "TPM2B_LABEL_valid x \<longleftrightarrow>
     sized_ok 2 (TPM2B_LABEL_buffer x)"

lemma TPM2B_LABEL_writes [writes_intros]:
  "TPM2B_LABEL_valid x \<Longrightarrow> writes (TPM2B_LABEL_toTpm x) (TPM2B_LABEL_enc x)"
  unfolding TPM2B_LABEL_toTpm_def TPM2B_LABEL_enc_def
  by (intro writes_intros; simp add: TPM2B_LABEL_valid_def opt_ok_iff)

lemma TPM2B_LABEL_reads:
  "TPM2B_LABEL_valid x \<Longrightarrow> reads (TPM2B_LABEL_initFromTpm TPM2B_LABEL_default) x (TPM2B_LABEL_enc x)"
  by (simp only: TPM2B_LABEL_initFromTpm_def TPM2B_LABEL_enc_def TPM2B_LABEL_default_def
        TPM2B_LABEL.select_convs TPM2B_LABEL.update_convs;
      intro reads_intros; (rule TPM2B_LABEL.equality)?; simp add: TPM2B_LABEL_valid_def opt_ok_iff)

interpretation TPM2B_LABEL_codec:
  tpm_codec TPM2B_LABEL_toTpm TPM2B_LABEL_initFromTpm TPM2B_LABEL_default
    TPM2B_LABEL_enc TPM2B_LABEL_valid
  by unfold_locales (erule TPM2B_LABEL_writes TPM2B_LABEL_reads | simp add: TPM2B_LABEL_enc_def)+

subsection \<open>TPMS_DERIVE\<close>

text \<open>This structure contains the label and context fields for a derived object.\<close>

record TPMS_DERIVE =
  TPMS_DERIVE_label :: "ByteVec"
  TPMS_DERIVE_context :: "ByteVec"

definition TPMS_DERIVE_default :: TPMS_DERIVE where
  "TPMS_DERIVE_default = \<lparr>TPMS_DERIVE_label = [], TPMS_DERIVE_context = []\<rparr>"

definition TPMS_DERIVE_toTpm :: "TPMS_DERIVE \<Rightarrow> unit tpm" where
  "TPMS_DERIVE_toTpm self =
     wseq [writeSizedByteBuf (TPMS_DERIVE_label self) 2,
       writeSizedByteBuf (TPMS_DERIVE_context self) 2]"

definition TPMS_DERIVE_initFromTpm :: "TPMS_DERIVE \<Rightarrow> TPMS_DERIVE tpm" where
  "TPMS_DERIVE_initFromTpm self =
     sbind (readSizedByteBuf 2) (\<lambda>label.
     sbind (readSizedByteBuf 2) (\<lambda>context.
     ret (self\<lparr>TPMS_DERIVE_label := label, TPMS_DERIVE_context := context\<rparr>)))"

definition TPMS_DERIVE_enc :: "TPMS_DERIVE \<Rightarrow> ByteVec" where
  "TPMS_DERIVE_enc x =
     enc_sized 2 (TPMS_DERIVE_label x) @
     enc_sized 2 (TPMS_DERIVE_context x)"

definition TPMS_DERIVE_valid :: "TPMS_DERIVE \<Rightarrow> bool" where
  "TPMS_DERIVE_valid x \<longleftrightarrow>
     sized_ok 2 (TPMS_DERIVE_label x) \<and>
     sized_ok 2 (TPMS_DERIVE_context x)"

lemma TPMS_DERIVE_writes [writes_intros]:
  "TPMS_DERIVE_valid x \<Longrightarrow> writes (TPMS_DERIVE_toTpm x) (TPMS_DERIVE_enc x)"
  unfolding TPMS_DERIVE_toTpm_def TPMS_DERIVE_enc_def
  by (intro writes_intros; simp add: TPMS_DERIVE_valid_def opt_ok_iff)

lemma TPMS_DERIVE_reads:
  "TPMS_DERIVE_valid x \<Longrightarrow> reads (TPMS_DERIVE_initFromTpm TPMS_DERIVE_default) x (TPMS_DERIVE_enc x)"
  by (simp only: TPMS_DERIVE_initFromTpm_def TPMS_DERIVE_enc_def TPMS_DERIVE_default_def
        TPMS_DERIVE.select_convs TPMS_DERIVE.update_convs;
      intro reads_intros; (rule TPMS_DERIVE.equality)?; simp add: TPMS_DERIVE_valid_def opt_ok_iff)

lemma TPMS_DERIVE_enc_nonempty [simp]: "TPMS_DERIVE_enc x \<noteq> []"
  by (simp add: TPMS_DERIVE_enc_def)

interpretation TPMS_DERIVE_codec:
  tpm_codec TPMS_DERIVE_toTpm TPMS_DERIVE_initFromTpm TPMS_DERIVE_default
    TPMS_DERIVE_enc TPMS_DERIVE_valid
  by unfold_locales (simp_all add: TPMS_DERIVE_writes TPMS_DERIVE_reads)

lemmas TPMS_DERIVE_parts [writes_intros] = TPMS_DERIVE_codec.writes_sized

lemmas TPMS_DERIVE_steps [reads_intros] =
  TPMS_DERIVE_reads [THEN reads_sbind] TPMS_DERIVE_reads [THEN reads_sbind_ret]
  TPMS_DERIVE_codec.reads_sizedObj [THEN reads_sbind] TPMS_DERIVE_codec.reads_sizedObj [THEN reads_sbind_ret]

subsection \<open>TPM2B_DERIVE\<close>

text \<open>Table 147 Definition of TPM2B_DERIVE Structure.\<close>

record TPM2B_DERIVE =
  TPM2B_DERIVE_buffer :: "TPMS_DERIVE"

definition TPM2B_DERIVE_default :: TPM2B_DERIVE where
  "TPM2B_DERIVE_default = \<lparr>TPM2B_DERIVE_buffer = TPMS_DERIVE_default\<rparr>"

definition TPM2B_DERIVE_toTpm :: "TPM2B_DERIVE \<Rightarrow> unit tpm" where
  "TPM2B_DERIVE_toTpm self =
     wseq [writeSizedObj TPMS_DERIVE_toTpm (TPM2B_DERIVE_buffer self)]"

definition TPM2B_DERIVE_initFromTpm :: "TPM2B_DERIVE \<Rightarrow> TPM2B_DERIVE tpm" where
  "TPM2B_DERIVE_initFromTpm self =
     sbind (readSizedObj TPMS_DERIVE_initFromTpm (TPM2B_DERIVE_buffer self)) (\<lambda>buffer.
     ret (self\<lparr>TPM2B_DERIVE_buffer := buffer\<rparr>))"

definition TPM2B_DERIVE_enc :: "TPM2B_DERIVE \<Rightarrow> ByteVec" where
  "TPM2B_DERIVE_enc x =
     enc_obj (TPMS_DERIVE_enc (TPM2B_DERIVE_buffer x))"

definition TPM2B_DERIVE_valid :: "TPM2B_DERIVE \<Rightarrow> bool" where
  "TPM2B_DERIVE_valid x \<longleftrightarrow>
     sized_obj_ok TPMS_DERIVE_default TPMS_DERIVE_enc TPMS_DERIVE_valid (TPM2B_DERIVE_buffer x)"

lemma TPM2B_DERIVE_writes [writes_intros]:
  "TPM2B_DERIVE_valid x \<Longrightarrow> writes (TPM2B_DERIVE_toTpm x) (TPM2B_DERIVE_enc x)"
  unfolding TPM2B_DERIVE_toTpm_def TPM2B_DERIVE_enc_def
  by (intro writes_intros; simp add: TPM2B_DERIVE_valid_def opt_ok_iff)

lemma TPM2B_DERIVE_reads:
  "TPM2B_DERIVE_valid x \<Longrightarrow> reads (TPM2B_DERIVE_initFromTpm TPM2B_DERIVE_default) x (TPM2B_DERIVE_enc x)"
  by (simp only: TPM2B_DERIVE_initFromTpm_def TPM2B_DERIVE_enc_def TPM2B_DERIVE_default_def
        TPM2B_DERIVE.select_convs TPM2B_DERIVE.update_convs;
      intro reads_intros; (rule TPM2B_DERIVE.equality)?; simp add: TPM2B_DERIVE_valid_def opt_ok_iff)

interpretation TPM2B_DERIVE_codec:
  tpm_codec TPM2B_DERIVE_toTpm TPM2B_DERIVE_initFromTpm TPM2B_DERIVE_default
    TPM2B_DERIVE_enc TPM2B_DERIVE_valid
  by unfold_locales (erule TPM2B_DERIVE_writes TPM2B_DERIVE_reads | simp add: TPM2B_DERIVE_enc_def)+

subsection \<open>TPM2B_SENSITIVE_DATA\<close>

text \<open>This buffer wraps the TPMU_SENSITIVE_CREATE structure.\<close>

record TPM2B_SENSITIVE_DATA =
  TPM2B_SENSITIVE_DATA_buffer :: "ByteVec"

definition TPM2B_SENSITIVE_DATA_default :: TPM2B_SENSITIVE_DATA where
  "TPM2B_SENSITIVE_DATA_default = \<lparr>TPM2B_SENSITIVE_DATA_buffer = []\<rparr>"

definition TPM2B_SENSITIVE_DATA_toTpm :: "TPM2B_SENSITIVE_DATA \<Rightarrow> unit tpm" where
  "TPM2B_SENSITIVE_DATA_toTpm self =
     wseq [writeSizedByteBuf (TPM2B_SENSITIVE_DATA_buffer self) 2]"

definition TPM2B_SENSITIVE_DATA_initFromTpm :: "TPM2B_SENSITIVE_DATA \<Rightarrow> TPM2B_SENSITIVE_DATA tpm" where
  "TPM2B_SENSITIVE_DATA_initFromTpm self =
     sbind (readSizedByteBuf 2) (\<lambda>buffer.
     ret (self\<lparr>TPM2B_SENSITIVE_DATA_buffer := buffer\<rparr>))"

definition TPM2B_SENSITIVE_DATA_enc :: "TPM2B_SENSITIVE_DATA \<Rightarrow> ByteVec" where
  "TPM2B_SENSITIVE_DATA_enc x =
     enc_sized 2 (TPM2B_SENSITIVE_DATA_buffer x)"

definition TPM2B_SENSITIVE_DATA_valid :: "TPM2B_SENSITIVE_DATA \<Rightarrow> bool" where
  "TPM2B_SENSITIVE_DATA_valid x \<longleftrightarrow>
     sized_ok 2 (TPM2B_SENSITIVE_DATA_buffer x)"

lemma TPM2B_SENSITIVE_DATA_writes [writes_intros]:
  "TPM2B_SENSITIVE_DATA_valid x \<Longrightarrow> writes (TPM2B_SENSITIVE_DATA_toTpm x) (TPM2B_SENSITIVE_DATA_enc x)"
  unfolding TPM2B_SENSITIVE_DATA_toTpm_def TPM2B_SENSITIVE_DATA_enc_def
  by (intro writes_intros; simp add: TPM2B_SENSITIVE_DATA_valid_def opt_ok_iff)

lemma TPM2B_SENSITIVE_DATA_reads:
  "TPM2B_SENSITIVE_DATA_valid x \<Longrightarrow> reads (TPM2B_SENSITIVE_DATA_initFromTpm TPM2B_SENSITIVE_DATA_default) x (TPM2B_SENSITIVE_DATA_enc x)"
  by (simp only: TPM2B_SENSITIVE_DATA_initFromTpm_def TPM2B_SENSITIVE_DATA_enc_def TPM2B_SENSITIVE_DATA_default_def
        TPM2B_SENSITIVE_DATA.select_convs TPM2B_SENSITIVE_DATA.update_convs;
      intro reads_intros; (rule TPM2B_SENSITIVE_DATA.equality)?; simp add: TPM2B_SENSITIVE_DATA_valid_def opt_ok_iff)

lemma TPM2B_SENSITIVE_DATA_enc_nonempty [simp]: "TPM2B_SENSITIVE_DATA_enc x \<noteq> []"
  by (simp add: TPM2B_SENSITIVE_DATA_enc_def)

interpretation TPM2B_SENSITIVE_DATA_codec:
  tpm_codec TPM2B_SENSITIVE_DATA_toTpm TPM2B_SENSITIVE_DATA_initFromTpm TPM2B_SENSITIVE_DATA_default
    TPM2B_SENSITIVE_DATA_enc TPM2B_SENSITIVE_DATA_valid
  by unfold_locales (simp_all add: TPM2B_SENSITIVE_DATA_writes TPM2B_SENSITIVE_DATA_reads)

lemmas TPM2B_SENSITIVE_DATA_steps [reads_intros] =
  TPM2B_SENSITIVE_DATA_reads [THEN reads_sbind] TPM2B_SENSITIVE_DATA_reads [THEN reads_sbind_ret]

subsection \<open>TPMS_SENSITIVE_CREATE\<close>

text \<open>This structure defines the values to be placed in the sensitive area of a created object.\<close>

record TPMS_SENSITIVE_CREATE =
  TPMS_SENSITIVE_CREATE_userAuth :: "ByteVec"
  TPMS_SENSITIVE_CREATE_data :: "ByteVec"

definition TPMS_SENSITIVE_CREATE_default :: TPMS_SENSITIVE_CREATE where
  "TPMS_SENSITIVE_CREATE_default = \<lparr>TPMS_SENSITIVE_CREATE_userAuth = [], TPMS_SENSITIVE_CREATE_data = []\<rparr>"

definition TPMS_SENSITIVE_CREATE_toTpm :: "TPMS_SENSITIVE_CREATE \<Rightarrow> unit tpm" where
  "TPMS_SENSITIVE_CREATE_toTpm self =
     wseq [writeSizedByteBuf (TPMS_SENSITIVE_CREATE_userAuth self) 2,
       writeSizedByteBuf (TPMS_SENSITIVE_CREATE_data self) 2]"

definition TPMS_SENSITIVE_CREATE_initFromTpm :: "TPMS_SENSITIVE_CREATE \<Rightarrow> TPMS_SENSITIVE_CREATE tpm" where
  "TPMS_SENSITIVE_CREATE_initFromTpm self =
     sbind (readSizedByteBuf 2) (\<lambda>userAuth.
     sbind (readSizedByteBuf 2) (\<lambda>data.
     ret (self\<lparr>TPMS_SENSITIVE_CREATE_userAuth := userAuth, TPMS_SENSITIVE_CREATE_data := data\<rparr>)))"

definition TPMS_SENSITIVE_CREATE_enc :: "TPMS_SENSITIVE_CREATE \<Rightarrow> ByteVec" where
  "TPMS_SENSITIVE_CREATE_enc x =
     enc_sized 2 (TPMS_SENSITIVE_CREATE_userAuth x) @
     enc_sized 2 (TPMS_SENSITIVE_CREATE_data x)"

definition TPMS_SENSITIVE_CREATE_valid :: "TPMS_SENSITIVE_CREATE \<Rightarrow> bool" where
  "TPMS_SENSITIVE_CREATE_valid x \<longleftrightarrow>
     sized_ok 2 (TPMS_SENSITIVE_CREATE_userAuth x) \<and>
     sized_ok 2 (TPMS_SENSITIVE_CREATE_data x)"

lemma TPMS_SENSITIVE_CREATE_writes [writes_intros]:
  "TPMS_SENSITIVE_CREATE_valid x \<Longrightarrow> writes (TPMS_SENSITIVE_CREATE_toTpm x) (TPMS_SENSITIVE_CREATE_enc x)"
  unfolding TPMS_SENSITIVE_CREATE_toTpm_def TPMS_SENSITIVE_CREATE_enc_def
  by (intro writes_intros; simp add: TPMS_SENSITIVE_CREATE_valid_def opt_ok_iff)

lemma TPMS_SENSITIVE_CREATE_reads:
  "TPMS_SENSITIVE_CREATE_valid x \<Longrightarrow> reads (TPMS_SENSITIVE_CREATE_initFromTpm TPMS_SENSITIVE_CREATE_default) x (TPMS_SENSITIVE_CREATE_enc x)"
  by (simp only: TPMS_SENSITIVE_CREATE_initFromTpm_def TPMS_SENSITIVE_CREATE_enc_def TPMS_SENSITIVE_CREATE_default_def
        TPMS_SENSITIVE_CREATE.select_convs TPMS_SENSITIVE_CREATE.update_convs;
      intro reads_intros; (rule TPMS_SENSITIVE_CREATE.equality)?; simp add: TPMS_SENSITIVE_CREATE_valid_def opt_ok_iff)

lemma TPMS_SENSITIVE_CREATE_enc_nonempty [simp]: "TPMS_SENSITIVE_CREATE_enc x \<noteq> []"
  by (simp add: TPMS_SENSITIVE_CREATE_enc_def)

interpretation TPMS_SENSITIVE_CREATE_codec:
  tpm_codec TPMS_SENSITIVE_CREATE_toTpm TPMS_SENSITIVE_CREATE_initFromTpm TPMS_SENSITIVE_CREATE_default
    TPMS_SENSITIVE_CREATE_enc TPMS_SENSITIVE_CREATE_valid
  by unfold_locales (simp_all add: TPMS_SENSITIVE_CREATE_writes TPMS_SENSITIVE_CREATE_reads)

lemmas TPMS_SENSITIVE_CREATE_parts [writes_intros] = TPMS_SENSITIVE_CREATE_codec.writes_sized

lemmas TPMS_SENSITIVE_CREATE_steps [reads_intros] =
  TPMS_SENSITIVE_CREATE_reads [THEN reads_sbind] TPMS_SENSITIVE_CREATE_reads [THEN reads_sbind_ret]
  TPMS_SENSITIVE_CREATE_codec.reads_sizedObj [THEN reads_sbind] TPMS_SENSITIVE_CREATE_codec.reads_sizedObj [THEN reads_sbind_ret]

subsection \<open>TPM2B_SENSITIVE_CREATE\<close>

text \<open>This structure contains the sensitive creation data in a sized buffer.\<close>

record TPM2B_SENSITIVE_CREATE =
  TPM2B_SENSITIVE_CREATE_sensitive :: "TPMS_SENSITIVE_CREATE"

definition TPM2B_SENSITIVE_CREATE_default :: TPM2B_SENSITIVE_CREATE where
  "TPM2B_SENSITIVE_CREATE_default = \<lparr>TPM2B_SENSITIVE_CREATE_sensitive = TPMS_SENSITIVE_CREATE_default\<rparr>"

definition TPM2B_SENSITIVE_CREATE_toTpm :: "TPM2B_SENSITIVE_CREATE \<Rightarrow> unit tpm" where
  "TPM2B_SENSITIVE_CREATE_toTpm self =
     wseq [writeSizedObj TPMS_SENSITIVE_CREATE_toTpm (TPM2B_SENSITIVE_CREATE_sensitive self)]"

definition TPM2B_SENSITIVE_CREATE_initFromTpm :: "TPM2B_SENSITIVE_CREATE \<Rightarrow> TPM2B_SENSITIVE_CREATE tpm" where
  "TPM2B_SENSITIVE_CREATE_initFromTpm self =
     sbind (readSizedObj TPMS_SENSITIVE_CREATE_initFromTpm (TPM2B_SENSITIVE_CREATE_sensitive self)) (\<lambda>sensitive.
     ret (self\<lparr>TPM2B_SENSITIVE_CREATE_sensitive := sensitive\<rparr>))"

definition TPM2B_SENSITIVE_CREATE_enc :: "TPM2B_SENSITIVE_CREATE \<Rightarrow> ByteVec" where
  "TPM2B_SENSITIVE_CREATE_enc x =
     enc_obj (TPMS_SENSITIVE_CREATE_enc (TPM2B_SENSITIVE_CREATE_sensitive x))"

definition TPM2B_SENSITIVE_CREATE_valid :: "TPM2B_SENSITIVE_CREATE \<Rightarrow> bool" where
  "TPM2B_SENSITIVE_CREATE_valid x \<longleftrightarrow>
     sized_obj_ok TPMS_SENSITIVE_CREATE_default TPMS_SENSITIVE_CREATE_enc TPMS_SENSITIVE_CREATE_valid (TPM2B_SENSITIVE_CREATE_sensitive x)"

lemma TPM2B_SENSITIVE_CREATE_writes [writes_intros]:
  "TPM2B_SENSITIVE_CREATE_valid x \<Longrightarrow> writes (TPM2B_SENSITIVE_CREATE_toTpm x) (TPM2B_SENSITIVE_CREATE_enc x)"
  unfolding TPM2B_SENSITIVE_CREATE_toTpm_def TPM2B_SENSITIVE_CREATE_enc_def
  by (intro writes_intros; simp add: TPM2B_SENSITIVE_CREATE_valid_def opt_ok_iff)

lemma TPM2B_SENSITIVE_CREATE_reads:
  "TPM2B_SENSITIVE_CREATE_valid x \<Longrightarrow> reads (TPM2B_SENSITIVE_CREATE_initFromTpm TPM2B_SENSITIVE_CREATE_default) x (TPM2B_SENSITIVE_CREATE_enc x)"
  by (simp only: TPM2B_SENSITIVE_CREATE_initFromTpm_def TPM2B_SENSITIVE_CREATE_enc_def TPM2B_SENSITIVE_CREATE_default_def
        TPM2B_SENSITIVE_CREATE.select_convs TPM2B_SENSITIVE_CREATE.update_convs;
      intro reads_intros; (rule TPM2B_SENSITIVE_CREATE.equality)?; simp add: TPM2B_SENSITIVE_CREATE_valid_def opt_ok_iff)

interpretation TPM2B_SENSITIVE_CREATE_codec:
  tpm_codec TPM2B_SENSITIVE_CREATE_toTpm TPM2B_SENSITIVE_CREATE_initFromTpm TPM2B_SENSITIVE_CREATE_default
    TPM2B_SENSITIVE_CREATE_enc TPM2B_SENSITIVE_CREATE_valid
  by unfold_locales (erule TPM2B_SENSITIVE_CREATE_writes TPM2B_SENSITIVE_CREATE_reads | simp add: TPM2B_SENSITIVE_CREATE_enc_def)+

subsection \<open>TPMS_SCHEME_HASH\<close>

text \<open>This structure is the scheme data for schemes that only require a hash to complete their definition.\<close>

record TPMS_SCHEME_HASH =
  TPMS_SCHEME_HASH_hashAlg :: "TPM_ALG_ID"

definition TPMS_SCHEME_HASH_default :: TPMS_SCHEME_HASH where
  "TPMS_SCHEME_HASH_default = \<lparr>TPMS_SCHEME_HASH_hashAlg = TPM_ALG_ID_NULL\<rparr>"

definition TPMS_SCHEME_HASH_toTpm :: "TPMS_SCHEME_HASH \<Rightarrow> unit tpm" where
  "TPMS_SCHEME_HASH_toTpm self =
     wseq [writeShort (TPMS_SCHEME_HASH_hashAlg self)]"

definition TPMS_SCHEME_HASH_initFromTpm :: "TPMS_SCHEME_HASH \<Rightarrow> TPMS_SCHEME_HASH tpm" where
  "TPMS_SCHEME_HASH_initFromTpm self =
     sbind readShort (\<lambda>hashAlg.
     ret (self\<lparr>TPMS_SCHEME_HASH_hashAlg := hashAlg\<rparr>))"

definition TPMS_SCHEME_HASH_enc :: "TPMS_SCHEME_HASH \<Rightarrow> ByteVec" where
  "TPMS_SCHEME_HASH_enc x =
     enc16 (TPMS_SCHEME_HASH_hashAlg x)"

definition TPMS_SCHEME_HASH_valid :: "TPMS_SCHEME_HASH \<Rightarrow> bool" where
  "TPMS_SCHEME_HASH_valid x \<longleftrightarrow>
     True"

lemma TPMS_SCHEME_HASH_writes [writes_intros]:
  "TPMS_SCHEME_HASH_valid x \<Longrightarrow> writes (TPMS_SCHEME_HASH_toTpm x) (TPMS_SCHEME_HASH_enc x)"
  unfolding TPMS_SCHEME_HASH_toTpm_def TPMS_SCHEME_HASH_enc_def
  by (intro writes_intros; simp add: TPMS_SCHEME_HASH_valid_def opt_ok_iff)

lemma TPMS_SCHEME_HASH_reads:
  "TPMS_SCHEME_HASH_valid x \<Longrightarrow> reads (TPMS_SCHEME_HASH_initFromTpm TPMS_SCHEME_HASH_default) x (TPMS_SCHEME_HASH_enc x)"
  by (simp only: TPMS_SCHEME_HASH_initFromTpm_def TPMS_SCHEME_HASH_enc_def TPMS_SCHEME_HASH_default_def
        TPMS_SCHEME_HASH.select_convs TPMS_SCHEME_HASH.update_convs;
      intro reads_intros; (rule TPMS_SCHEME_HASH.equality)?; simp add: TPMS_SCHEME_HASH_valid_def opt_ok_iff)

lemma TPMS_SCHEME_HASH_enc_nonempty [simp]: "TPMS_SCHEME_HASH_enc x \<noteq> []"
  by (simp add: TPMS_SCHEME_HASH_enc_def)

interpretation TPMS_SCHEME_HASH_codec:
  tpm_codec TPMS_SCHEME_HASH_toTpm TPMS_SCHEME_HASH_initFromTpm TPMS_SCHEME_HASH_default
    TPMS_SCHEME_HASH_enc TPMS_SCHEME_HASH_valid
  by unfold_locales (simp_all add: TPMS_SCHEME_HASH_writes TPMS_SCHEME_HASH_reads)

lemmas TPMS_SCHEME_HASH_steps [reads_intros] =
  TPMS_SCHEME_HASH_reads [THEN reads_sbind] TPMS_SCHEME_HASH_reads [THEN reads_sbind_ret]

subsection \<open>TPMS_SCHEME_ECDAA\<close>

text \<open>This definition is for split signing schemes that require a commit count.\<close>

record TPMS_SCHEME_ECDAA =
  TPMS_SCHEME_ECDAA_hashAlg :: "TPM_ALG_ID"
  TPMS_SCHEME_ECDAA_count :: "UINT16"

definition TPMS_SCHEME_ECDAA_default :: TPMS_SCHEME_ECDAA where
  "TPMS_SCHEME_ECDAA_default = \<lparr>TPMS_SCHEME_ECDAA_hashAlg = TPM_ALG_ID_NULL, TPMS_SCHEME_ECDAA_count = 0\<rparr>"

definition TPMS_SCHEME_ECDAA_toTpm :: "TPMS_SCHEME_ECDAA \<Rightarrow> unit tpm" where
  "TPMS_SCHEME_ECDAA_toTpm self =
     wseq [writeShort (TPMS_SCHEME_ECDAA_hashAlg self),
       writeShort (TPMS_SCHEME_ECDAA_count self)]"

definition TPMS_SCHEME_ECDAA_initFromTpm :: "TPMS_SCHEME_ECDAA \<Rightarrow> TPMS_SCHEME_ECDAA tpm" where
  "TPMS_SCHEME_ECDAA_initFromTpm self =
     sbind readShort (\<lambda>hashAlg.
     sbind readShort (\<lambda>count.
     ret (self\<lparr>TPMS_SCHEME_ECDAA_hashAlg := hashAlg, TPMS_SCHEME_ECDAA_count := count\<rparr>)))"

definition TPMS_SCHEME_ECDAA_enc :: "TPMS_SCHEME_ECDAA \<Rightarrow> ByteVec" where
  "TPMS_SCHEME_ECDAA_enc x =
     enc16 (TPMS_SCHEME_ECDAA_hashAlg x) @
     enc16 (TPMS_SCHEME_ECDAA_count x)"

definition TPMS_SCHEME_ECDAA_valid :: "TPMS_SCHEME_ECDAA \<Rightarrow> bool" where
  "TPMS_SCHEME_ECDAA_valid x \<longleftrightarrow>
     True"

lemma TPMS_SCHEME_ECDAA_writes [writes_intros]:
  "TPMS_SCHEME_ECDAA_valid x \<Longrightarrow> writes (TPMS_SCHEME_ECDAA_toTpm x) (TPMS_SCHEME_ECDAA_enc x)"
  unfolding TPMS_SCHEME_ECDAA_toTpm_def TPMS_SCHEME_ECDAA_enc_def
  by (intro writes_intros; simp add: TPMS_SCHEME_ECDAA_valid_def opt_ok_iff)

lemma TPMS_SCHEME_ECDAA_reads:
  "TPMS_SCHEME_ECDAA_valid x \<Longrightarrow> reads (TPMS_SCHEME_ECDAA_initFromTpm TPMS_SCHEME_ECDAA_default) x (TPMS_SCHEME_ECDAA_enc x)"
  by (simp only: TPMS_SCHEME_ECDAA_initFromTpm_def TPMS_SCHEME_ECDAA_enc_def TPMS_SCHEME_ECDAA_default_def
        TPMS_SCHEME_ECDAA.select_convs TPMS_SCHEME_ECDAA.update_convs;
      intro reads_intros; (rule TPMS_SCHEME_ECDAA.equality)?; simp add: TPMS_SCHEME_ECDAA_valid_def opt_ok_iff)

lemma TPMS_SCHEME_ECDAA_enc_nonempty [simp]: "TPMS_SCHEME_ECDAA_enc x \<noteq> []"
  by (simp add: TPMS_SCHEME_ECDAA_enc_def)

interpretation TPMS_SCHEME_ECDAA_codec:
  tpm_codec TPMS_SCHEME_ECDAA_toTpm TPMS_SCHEME_ECDAA_initFromTpm TPMS_SCHEME_ECDAA_default
    TPMS_SCHEME_ECDAA_enc TPMS_SCHEME_ECDAA_valid
  by unfold_locales (simp_all add: TPMS_SCHEME_ECDAA_writes TPMS_SCHEME_ECDAA_reads)

lemmas TPMS_SCHEME_ECDAA_steps [reads_intros] =
  TPMS_SCHEME_ECDAA_reads [THEN reads_sbind] TPMS_SCHEME_ECDAA_reads [THEN reads_sbind_ret]

subsection \<open>TPMS_SCHEME_XOR\<close>

text \<open>This structure is for the XOR encryption scheme.\<close>

record TPMS_SCHEME_XOR =
  TPMS_SCHEME_XOR_hashAlg :: "TPM_ALG_ID"
  TPMS_SCHEME_XOR_kdf :: "TPM_ALG_ID"

definition TPMS_SCHEME_XOR_default :: TPMS_SCHEME_XOR where
  "TPMS_SCHEME_XOR_default = \<lparr>TPMS_SCHEME_XOR_hashAlg = TPM_ALG_ID_NULL, TPMS_SCHEME_XOR_kdf = TPM_ALG_ID_NULL\<rparr>"

definition TPMS_SCHEME_XOR_toTpm :: "TPMS_SCHEME_XOR \<Rightarrow> unit tpm" where
  "TPMS_SCHEME_XOR_toTpm self =
     wseq [writeShort (TPMS_SCHEME_XOR_hashAlg self),
       writeShort (TPMS_SCHEME_XOR_kdf self)]"

definition TPMS_SCHEME_XOR_initFromTpm :: "TPMS_SCHEME_XOR \<Rightarrow> TPMS_SCHEME_XOR tpm" where
  "TPMS_SCHEME_XOR_initFromTpm self =
     sbind readShort (\<lambda>hashAlg.
     sbind readShort (\<lambda>kdf.
     ret (self\<lparr>TPMS_SCHEME_XOR_hashAlg := hashAlg, TPMS_SCHEME_XOR_kdf := kdf\<rparr>)))"

definition TPMS_SCHEME_XOR_enc :: "TPMS_SCHEME_XOR \<Rightarrow> ByteVec" where
  "TPMS_SCHEME_XOR_enc x =
     enc16 (TPMS_SCHEME_XOR_hashAlg x) @
     enc16 (TPMS_SCHEME_XOR_kdf x)"

definition TPMS_SCHEME_XOR_valid :: "TPMS_SCHEME_XOR \<Rightarrow> bool" where
  "TPMS_SCHEME_XOR_valid x \<longleftrightarrow>
     True"

lemma TPMS_SCHEME_XOR_writes [writes_intros]:
  "TPMS_SCHEME_XOR_valid x \<Longrightarrow> writes (TPMS_SCHEME_XOR_toTpm x) (TPMS_SCHEME_XOR_enc x)"
  unfolding TPMS_SCHEME_XOR_toTpm_def TPMS_SCHEME_XOR_enc_def
  by (intro writes_intros; simp add: TPMS_SCHEME_XOR_valid_def opt_ok_iff)

lemma TPMS_SCHEME_XOR_reads:
  "TPMS_SCHEME_XOR_valid x \<Longrightarrow> reads (TPMS_SCHEME_XOR_initFromTpm TPMS_SCHEME_XOR_default) x (TPMS_SCHEME_XOR_enc x)"
  by (simp only: TPMS_SCHEME_XOR_initFromTpm_def TPMS_SCHEME_XOR_enc_def TPMS_SCHEME_XOR_default_def
        TPMS_SCHEME_XOR.select_convs TPMS_SCHEME_XOR.update_convs;
      intro reads_intros; (rule TPMS_SCHEME_XOR.equality)?; simp add: TPMS_SCHEME_XOR_valid_def opt_ok_iff)

lemma TPMS_SCHEME_XOR_enc_nonempty [simp]: "TPMS_SCHEME_XOR_enc x \<noteq> []"
  by (simp add: TPMS_SCHEME_XOR_enc_def)

interpretation TPMS_SCHEME_XOR_codec:
  tpm_codec TPMS_SCHEME_XOR_toTpm TPMS_SCHEME_XOR_initFromTpm TPMS_SCHEME_XOR_default
    TPMS_SCHEME_XOR_enc TPMS_SCHEME_XOR_valid
  by unfold_locales (simp_all add: TPMS_SCHEME_XOR_writes TPMS_SCHEME_XOR_reads)

lemmas TPMS_SCHEME_XOR_steps [reads_intros] =
  TPMS_SCHEME_XOR_reads [THEN reads_sbind] TPMS_SCHEME_XOR_reads [THEN reads_sbind_ret]

subsection \<open>The union TPMU_SCHEME_KEYEDHASH\<close>

datatype TPMU_SCHEME_KEYEDHASH =
    SCHEME_KEYEDHASH_TPMS_SCHEME_HMAC TPMS_SCHEME_HASH
  | SCHEME_KEYEDHASH_TPMS_SCHEME_XOR TPMS_SCHEME_XOR
  | SCHEME_KEYEDHASH_TPMS_NULL_SCHEME_KEYEDHASH

fun TPMU_SCHEME_KEYEDHASH_GetUnionSelector :: "TPMU_SCHEME_KEYEDHASH \<Rightarrow> TPM_ALG_ID" where
  "TPMU_SCHEME_KEYEDHASH_GetUnionSelector (SCHEME_KEYEDHASH_TPMS_SCHEME_HMAC x) = TPM_ALG_ID_HMAC"
| "TPMU_SCHEME_KEYEDHASH_GetUnionSelector (SCHEME_KEYEDHASH_TPMS_SCHEME_XOR x) = TPM_ALG_ID_XOR"
| "TPMU_SCHEME_KEYEDHASH_GetUnionSelector SCHEME_KEYEDHASH_TPMS_NULL_SCHEME_KEYEDHASH = TPM_ALG_ID_NULL"

fun TPMU_SCHEME_KEYEDHASH_toTpm :: "TPMU_SCHEME_KEYEDHASH \<Rightarrow> unit tpm" where
  "TPMU_SCHEME_KEYEDHASH_toTpm (SCHEME_KEYEDHASH_TPMS_SCHEME_HMAC x) = TPMS_SCHEME_HASH_toTpm x"
| "TPMU_SCHEME_KEYEDHASH_toTpm (SCHEME_KEYEDHASH_TPMS_SCHEME_XOR x) = TPMS_SCHEME_XOR_toTpm x"
| "TPMU_SCHEME_KEYEDHASH_toTpm SCHEME_KEYEDHASH_TPMS_NULL_SCHEME_KEYEDHASH = ret ()"

fun TPMU_SCHEME_KEYEDHASH_initFromTpm :: "TPMU_SCHEME_KEYEDHASH \<Rightarrow> TPMU_SCHEME_KEYEDHASH tpm" where
  "TPMU_SCHEME_KEYEDHASH_initFromTpm (SCHEME_KEYEDHASH_TPMS_SCHEME_HMAC x) = sbind (TPMS_SCHEME_HASH_initFromTpm x) (\<lambda>y. ret (SCHEME_KEYEDHASH_TPMS_SCHEME_HMAC y))"
| "TPMU_SCHEME_KEYEDHASH_initFromTpm (SCHEME_KEYEDHASH_TPMS_SCHEME_XOR x) = sbind (TPMS_SCHEME_XOR_initFromTpm x) (\<lambda>y. ret (SCHEME_KEYEDHASH_TPMS_SCHEME_XOR y))"
| "TPMU_SCHEME_KEYEDHASH_initFromTpm SCHEME_KEYEDHASH_TPMS_NULL_SCHEME_KEYEDHASH = ret SCHEME_KEYEDHASH_TPMS_NULL_SCHEME_KEYEDHASH"

definition UnionFactory_Create_TPMU_SCHEME_KEYEDHASH :: "TPM_ALG_ID \<Rightarrow> TPMU_SCHEME_KEYEDHASH option outcome" where
  "UnionFactory_Create_TPMU_SCHEME_KEYEDHASH selector =
     (if selector = TPM_ALG_ID_HMAC then Ok (Some (SCHEME_KEYEDHASH_TPMS_SCHEME_HMAC TPMS_SCHEME_HASH_default))
      else if selector = TPM_ALG_ID_XOR then Ok (Some (SCHEME_KEYEDHASH_TPMS_SCHEME_XOR TPMS_SCHEME_XOR_default))
      else if selector = TPM_ALG_ID_NULL then Ok (Some SCHEME_KEYEDHASH_TPMS_NULL_SCHEME_KEYEDHASH)
      else Throw (runtime_error ''Unknown selector value''))"

text \<open>The wire form of the members, the member a selector stands for, and which members a selector can name.\<close>

fun TPMU_SCHEME_KEYEDHASH_fresh :: "TPMU_SCHEME_KEYEDHASH \<Rightarrow> TPMU_SCHEME_KEYEDHASH" where
  "TPMU_SCHEME_KEYEDHASH_fresh (SCHEME_KEYEDHASH_TPMS_SCHEME_HMAC _) = SCHEME_KEYEDHASH_TPMS_SCHEME_HMAC TPMS_SCHEME_HASH_default"
| "TPMU_SCHEME_KEYEDHASH_fresh (SCHEME_KEYEDHASH_TPMS_SCHEME_XOR _) = SCHEME_KEYEDHASH_TPMS_SCHEME_XOR TPMS_SCHEME_XOR_default"
| "TPMU_SCHEME_KEYEDHASH_fresh SCHEME_KEYEDHASH_TPMS_NULL_SCHEME_KEYEDHASH = SCHEME_KEYEDHASH_TPMS_NULL_SCHEME_KEYEDHASH"

fun TPMU_SCHEME_KEYEDHASH_enc :: "TPMU_SCHEME_KEYEDHASH \<Rightarrow> ByteVec" where
  "TPMU_SCHEME_KEYEDHASH_enc (SCHEME_KEYEDHASH_TPMS_SCHEME_HMAC x) = TPMS_SCHEME_HASH_enc x"
| "TPMU_SCHEME_KEYEDHASH_enc (SCHEME_KEYEDHASH_TPMS_SCHEME_XOR x) = TPMS_SCHEME_XOR_enc x"
| "TPMU_SCHEME_KEYEDHASH_enc SCHEME_KEYEDHASH_TPMS_NULL_SCHEME_KEYEDHASH = []"

fun TPMU_SCHEME_KEYEDHASH_valid :: "TPMU_SCHEME_KEYEDHASH \<Rightarrow> bool" where
  "TPMU_SCHEME_KEYEDHASH_valid (SCHEME_KEYEDHASH_TPMS_SCHEME_HMAC x) = TPMS_SCHEME_HASH_valid x"
| "TPMU_SCHEME_KEYEDHASH_valid (SCHEME_KEYEDHASH_TPMS_SCHEME_XOR x) = TPMS_SCHEME_XOR_valid x"
| "TPMU_SCHEME_KEYEDHASH_valid SCHEME_KEYEDHASH_TPMS_NULL_SCHEME_KEYEDHASH = True"

lemma TPMU_SCHEME_KEYEDHASH_writes [writes_intros]: "TPMU_SCHEME_KEYEDHASH_valid u \<Longrightarrow> writes (TPMU_SCHEME_KEYEDHASH_toTpm u) (TPMU_SCHEME_KEYEDHASH_enc u)"
  by (cases u) (auto intro!: writes_intros)

lemma TPMU_SCHEME_KEYEDHASH_reads:
  "TPMU_SCHEME_KEYEDHASH_valid u \<Longrightarrow> reads (TPMU_SCHEME_KEYEDHASH_initFromTpm (TPMU_SCHEME_KEYEDHASH_fresh u)) u (TPMU_SCHEME_KEYEDHASH_enc u)"
  by (cases u) (auto intro!: reads_intros)

lemma TPMU_SCHEME_KEYEDHASH_reads_the:
  "opt_ok TPMU_SCHEME_KEYEDHASH_valid u \<Longrightarrow> reads (TPMU_SCHEME_KEYEDHASH_initFromTpm (TPMU_SCHEME_KEYEDHASH_fresh (the u))) (the u) (opt_enc TPMU_SCHEME_KEYEDHASH_enc u)"
  by (cases u) (simp_all add: TPMU_SCHEME_KEYEDHASH_reads)

lemma TPMU_SCHEME_KEYEDHASH_Create:
  "TPMU_SCHEME_KEYEDHASH_valid u \<Longrightarrow>
   UnionFactory_Create_TPMU_SCHEME_KEYEDHASH (TPMU_SCHEME_KEYEDHASH_GetUnionSelector u) = Ok (Some (TPMU_SCHEME_KEYEDHASH_fresh u))"
  by (cases u) (simp_all add: UnionFactory_Create_TPMU_SCHEME_KEYEDHASH_def)

lemma TPMU_SCHEME_KEYEDHASH_Create_the:
  "opt_ok TPMU_SCHEME_KEYEDHASH_valid u \<Longrightarrow>
   UnionFactory_Create_TPMU_SCHEME_KEYEDHASH (TPMU_SCHEME_KEYEDHASH_GetUnionSelector (the u)) = Ok (Some (TPMU_SCHEME_KEYEDHASH_fresh (the u)))"
  by (cases u) (simp_all add: TPMU_SCHEME_KEYEDHASH_Create)

lemmas TPMU_SCHEME_KEYEDHASH_steps [reads_intros] =
  reads_deref [where init = TPMU_SCHEME_KEYEDHASH_initFromTpm, OF TPMU_SCHEME_KEYEDHASH_reads_the]
  reads_deref_ret [where init = TPMU_SCHEME_KEYEDHASH_initFromTpm, OF TPMU_SCHEME_KEYEDHASH_reads_the]
  TPMU_SCHEME_KEYEDHASH_Create_the [THEN reads_bindO]

subsection \<open>TPMT_KEYEDHASH_SCHEME\<close>

text \<open>This structure is used for a hash signing object.\<close>

record TPMT_KEYEDHASH_SCHEME =
  TPMT_KEYEDHASH_SCHEME_details :: "TPMU_SCHEME_KEYEDHASH option"

definition TPMT_KEYEDHASH_SCHEME_default :: TPMT_KEYEDHASH_SCHEME where
  "TPMT_KEYEDHASH_SCHEME_default = \<lparr>TPMT_KEYEDHASH_SCHEME_details = None\<rparr>"

definition TPMT_KEYEDHASH_SCHEME_toTpm :: "TPMT_KEYEDHASH_SCHEME \<Rightarrow> unit tpm" where
  "TPMT_KEYEDHASH_SCHEME_toTpm self =
     (if TPMT_KEYEDHASH_SCHEME_details self = None then ret ()
     else wseq [deref (TPMT_KEYEDHASH_SCHEME_details self) (\<lambda>u. writeShort (TPMU_SCHEME_KEYEDHASH_GetUnionSelector u)),
       deref (TPMT_KEYEDHASH_SCHEME_details self) TPMU_SCHEME_KEYEDHASH_toTpm])"

definition TPMT_KEYEDHASH_SCHEME_initFromTpm :: "TPMT_KEYEDHASH_SCHEME \<Rightarrow> TPMT_KEYEDHASH_SCHEME tpm" where
  "TPMT_KEYEDHASH_SCHEME_initFromTpm self =
     sbind readShort (\<lambda>scheme.
     bindO (UnionFactory_Create_TPMU_SCHEME_KEYEDHASH scheme) (\<lambda>details.
     sbind (deref details TPMU_SCHEME_KEYEDHASH_initFromTpm) (\<lambda>details.
     ret (self\<lparr>TPMT_KEYEDHASH_SCHEME_details := Some details\<rparr>))))"

definition TPMT_KEYEDHASH_SCHEME_enc :: "TPMT_KEYEDHASH_SCHEME \<Rightarrow> ByteVec" where
  "TPMT_KEYEDHASH_SCHEME_enc x =
     (if TPMT_KEYEDHASH_SCHEME_details x = None then []
     else opt_enc (\<lambda>u. enc16 (TPMU_SCHEME_KEYEDHASH_GetUnionSelector u)) (TPMT_KEYEDHASH_SCHEME_details x) @
       opt_enc TPMU_SCHEME_KEYEDHASH_enc (TPMT_KEYEDHASH_SCHEME_details x))"

definition TPMT_KEYEDHASH_SCHEME_valid :: "TPMT_KEYEDHASH_SCHEME \<Rightarrow> bool" where
  "TPMT_KEYEDHASH_SCHEME_valid x \<longleftrightarrow>
     opt_ok TPMU_SCHEME_KEYEDHASH_valid (TPMT_KEYEDHASH_SCHEME_details x)"

lemma TPMT_KEYEDHASH_SCHEME_null: "TPMT_KEYEDHASH_SCHEME_toTpm TPMT_KEYEDHASH_SCHEME_default = ret ()" "TPMT_KEYEDHASH_SCHEME_enc TPMT_KEYEDHASH_SCHEME_default = []"
  by (simp_all add: TPMT_KEYEDHASH_SCHEME_toTpm_def TPMT_KEYEDHASH_SCHEME_enc_def TPMT_KEYEDHASH_SCHEME_default_def)

lemma TPMT_KEYEDHASH_SCHEME_writes [writes_intros]:
  "TPMT_KEYEDHASH_SCHEME_valid x \<Longrightarrow> writes (TPMT_KEYEDHASH_SCHEME_toTpm x) (TPMT_KEYEDHASH_SCHEME_enc x)"
  by (auto simp: TPMT_KEYEDHASH_SCHEME_toTpm_def TPMT_KEYEDHASH_SCHEME_enc_def TPMT_KEYEDHASH_SCHEME_valid_def opt_ok_iff
      simp del: wseq.simps intro!: writes_intros)

lemma TPMT_KEYEDHASH_SCHEME_reads:
  "TPMT_KEYEDHASH_SCHEME_valid x \<Longrightarrow> reads (TPMT_KEYEDHASH_SCHEME_initFromTpm TPMT_KEYEDHASH_SCHEME_default) x (TPMT_KEYEDHASH_SCHEME_enc x)"
  by (simp only: TPMT_KEYEDHASH_SCHEME_initFromTpm_def TPMT_KEYEDHASH_SCHEME_enc_def TPMT_KEYEDHASH_SCHEME_default_def
        TPMT_KEYEDHASH_SCHEME.select_convs TPMT_KEYEDHASH_SCHEME.update_convs;
      intro reads_intros; (rule TPMT_KEYEDHASH_SCHEME.equality)?; simp add: TPMT_KEYEDHASH_SCHEME_valid_def opt_ok_iff)

interpretation TPMT_KEYEDHASH_SCHEME_codec:
  tpm_codec TPMT_KEYEDHASH_SCHEME_toTpm TPMT_KEYEDHASH_SCHEME_initFromTpm TPMT_KEYEDHASH_SCHEME_default
    TPMT_KEYEDHASH_SCHEME_enc TPMT_KEYEDHASH_SCHEME_valid
  by unfold_locales (simp_all add: TPMT_KEYEDHASH_SCHEME_writes TPMT_KEYEDHASH_SCHEME_reads TPMT_KEYEDHASH_SCHEME_null writes_ret)

subsection \<open>The union TPMU_SIG_SCHEME\<close>

datatype TPMU_SIG_SCHEME =
    SIG_SCHEME_TPMS_SIG_SCHEME_RSASSA TPMS_SCHEME_HASH
  | SIG_SCHEME_TPMS_SIG_SCHEME_RSAPSS TPMS_SCHEME_HASH
  | SIG_SCHEME_TPMS_SIG_SCHEME_ECDSA TPMS_SCHEME_HASH
  | SIG_SCHEME_TPMS_SIG_SCHEME_ECDAA TPMS_SCHEME_ECDAA
  | SIG_SCHEME_TPMS_SIG_SCHEME_SM2 TPMS_SCHEME_HASH
  | SIG_SCHEME_TPMS_SIG_SCHEME_ECSCHNORR TPMS_SCHEME_HASH
  | SIG_SCHEME_TPMS_SCHEME_HMAC TPMS_SCHEME_HASH
  | SIG_SCHEME_TPMS_SCHEME_HASH TPMS_SCHEME_HASH
  | SIG_SCHEME_TPMS_NULL_SIG_SCHEME

fun TPMU_SIG_SCHEME_GetUnionSelector :: "TPMU_SIG_SCHEME \<Rightarrow> TPM_ALG_ID" where
  "TPMU_SIG_SCHEME_GetUnionSelector (SIG_SCHEME_TPMS_SIG_SCHEME_RSASSA x) = TPM_ALG_ID_RSASSA"
| "TPMU_SIG_SCHEME_GetUnionSelector (SIG_SCHEME_TPMS_SIG_SCHEME_RSAPSS x) = TPM_ALG_ID_RSAPSS"
| "TPMU_SIG_SCHEME_GetUnionSelector (SIG_SCHEME_TPMS_SIG_SCHEME_ECDSA x) = TPM_ALG_ID_ECDSA"
| "TPMU_SIG_SCHEME_GetUnionSelector (SIG_SCHEME_TPMS_SIG_SCHEME_ECDAA x) = TPM_ALG_ID_ECDAA"
| "TPMU_SIG_SCHEME_GetUnionSelector (SIG_SCHEME_TPMS_SIG_SCHEME_SM2 x) = TPM_ALG_ID_SM2"
| "TPMU_SIG_SCHEME_GetUnionSelector (SIG_SCHEME_TPMS_SIG_SCHEME_ECSCHNORR x) = TPM_ALG_ID_ECSCHNORR"
| "TPMU_SIG_SCHEME_GetUnionSelector (SIG_SCHEME_TPMS_SCHEME_HMAC x) = TPM_ALG_ID_HMAC"
| "TPMU_SIG_SCHEME_GetUnionSelector (SIG_SCHEME_TPMS_SCHEME_HASH x) = TPM_ALG_ID_HMAC"
| "TPMU_SIG_SCHEME_GetUnionSelector SIG_SCHEME_TPMS_NULL_SIG_SCHEME = TPM_ALG_ID_NULL"

fun TPMU_SIG_SCHEME_toTpm :: "TPMU_SIG_SCHEME \<Rightarrow> unit tpm" where
  "TPMU_SIG_SCHEME_toTpm (SIG_SCHEME_TPMS_SIG_SCHEME_RSASSA x) = TPMS_SCHEME_HASH_toTpm x"
| "TPMU_SIG_SCHEME_toTpm (SIG_SCHEME_TPMS_SIG_SCHEME_RSAPSS x) = TPMS_SCHEME_HASH_toTpm x"
| "TPMU_SIG_SCHEME_toTpm (SIG_SCHEME_TPMS_SIG_SCHEME_ECDSA x) = TPMS_SCHEME_HASH_toTpm x"
| "TPMU_SIG_SCHEME_toTpm (SIG_SCHEME_TPMS_SIG_SCHEME_ECDAA x) = TPMS_SCHEME_ECDAA_toTpm x"
| "TPMU_SIG_SCHEME_toTpm (SIG_SCHEME_TPMS_SIG_SCHEME_SM2 x) = TPMS_SCHEME_HASH_toTpm x"
| "TPMU_SIG_SCHEME_toTpm (SIG_SCHEME_TPMS_SIG_SCHEME_ECSCHNORR x) = TPMS_SCHEME_HASH_toTpm x"
| "TPMU_SIG_SCHEME_toTpm (SIG_SCHEME_TPMS_SCHEME_HMAC x) = TPMS_SCHEME_HASH_toTpm x"
| "TPMU_SIG_SCHEME_toTpm (SIG_SCHEME_TPMS_SCHEME_HASH x) = TPMS_SCHEME_HASH_toTpm x"
| "TPMU_SIG_SCHEME_toTpm SIG_SCHEME_TPMS_NULL_SIG_SCHEME = ret ()"

fun TPMU_SIG_SCHEME_initFromTpm :: "TPMU_SIG_SCHEME \<Rightarrow> TPMU_SIG_SCHEME tpm" where
  "TPMU_SIG_SCHEME_initFromTpm (SIG_SCHEME_TPMS_SIG_SCHEME_RSASSA x) = sbind (TPMS_SCHEME_HASH_initFromTpm x) (\<lambda>y. ret (SIG_SCHEME_TPMS_SIG_SCHEME_RSASSA y))"
| "TPMU_SIG_SCHEME_initFromTpm (SIG_SCHEME_TPMS_SIG_SCHEME_RSAPSS x) = sbind (TPMS_SCHEME_HASH_initFromTpm x) (\<lambda>y. ret (SIG_SCHEME_TPMS_SIG_SCHEME_RSAPSS y))"
| "TPMU_SIG_SCHEME_initFromTpm (SIG_SCHEME_TPMS_SIG_SCHEME_ECDSA x) = sbind (TPMS_SCHEME_HASH_initFromTpm x) (\<lambda>y. ret (SIG_SCHEME_TPMS_SIG_SCHEME_ECDSA y))"
| "TPMU_SIG_SCHEME_initFromTpm (SIG_SCHEME_TPMS_SIG_SCHEME_ECDAA x) = sbind (TPMS_SCHEME_ECDAA_initFromTpm x) (\<lambda>y. ret (SIG_SCHEME_TPMS_SIG_SCHEME_ECDAA y))"
| "TPMU_SIG_SCHEME_initFromTpm (SIG_SCHEME_TPMS_SIG_SCHEME_SM2 x) = sbind (TPMS_SCHEME_HASH_initFromTpm x) (\<lambda>y. ret (SIG_SCHEME_TPMS_SIG_SCHEME_SM2 y))"
| "TPMU_SIG_SCHEME_initFromTpm (SIG_SCHEME_TPMS_SIG_SCHEME_ECSCHNORR x) = sbind (TPMS_SCHEME_HASH_initFromTpm x) (\<lambda>y. ret (SIG_SCHEME_TPMS_SIG_SCHEME_ECSCHNORR y))"
| "TPMU_SIG_SCHEME_initFromTpm (SIG_SCHEME_TPMS_SCHEME_HMAC x) = sbind (TPMS_SCHEME_HASH_initFromTpm x) (\<lambda>y. ret (SIG_SCHEME_TPMS_SCHEME_HMAC y))"
| "TPMU_SIG_SCHEME_initFromTpm (SIG_SCHEME_TPMS_SCHEME_HASH x) = sbind (TPMS_SCHEME_HASH_initFromTpm x) (\<lambda>y. ret (SIG_SCHEME_TPMS_SCHEME_HASH y))"
| "TPMU_SIG_SCHEME_initFromTpm SIG_SCHEME_TPMS_NULL_SIG_SCHEME = ret SIG_SCHEME_TPMS_NULL_SIG_SCHEME"

definition UnionFactory_Create_TPMU_SIG_SCHEME :: "TPM_ALG_ID \<Rightarrow> TPMU_SIG_SCHEME option outcome" where
  "UnionFactory_Create_TPMU_SIG_SCHEME selector =
     (if selector = TPM_ALG_ID_RSASSA then Ok (Some (SIG_SCHEME_TPMS_SIG_SCHEME_RSASSA TPMS_SCHEME_HASH_default))
      else if selector = TPM_ALG_ID_RSAPSS then Ok (Some (SIG_SCHEME_TPMS_SIG_SCHEME_RSAPSS TPMS_SCHEME_HASH_default))
      else if selector = TPM_ALG_ID_ECDSA then Ok (Some (SIG_SCHEME_TPMS_SIG_SCHEME_ECDSA TPMS_SCHEME_HASH_default))
      else if selector = TPM_ALG_ID_ECDAA then Ok (Some (SIG_SCHEME_TPMS_SIG_SCHEME_ECDAA TPMS_SCHEME_ECDAA_default))
      else if selector = TPM_ALG_ID_SM2 then Ok (Some (SIG_SCHEME_TPMS_SIG_SCHEME_SM2 TPMS_SCHEME_HASH_default))
      else if selector = TPM_ALG_ID_ECSCHNORR then Ok (Some (SIG_SCHEME_TPMS_SIG_SCHEME_ECSCHNORR TPMS_SCHEME_HASH_default))
      else if selector = TPM_ALG_ID_HMAC then Ok (Some (SIG_SCHEME_TPMS_SCHEME_HMAC TPMS_SCHEME_HASH_default))
      else if selector = TPM_ALG_ID_ANY then Ok (Some (SIG_SCHEME_TPMS_SCHEME_HASH TPMS_SCHEME_HASH_default))
      else if selector = TPM_ALG_ID_NULL then Ok (Some SIG_SCHEME_TPMS_NULL_SIG_SCHEME)
      else Throw (runtime_error ''Unknown selector value''))"

text \<open>The wire form of the members, the member a selector stands for, and which members a selector can name.\<close>

fun TPMU_SIG_SCHEME_fresh :: "TPMU_SIG_SCHEME \<Rightarrow> TPMU_SIG_SCHEME" where
  "TPMU_SIG_SCHEME_fresh (SIG_SCHEME_TPMS_SIG_SCHEME_RSASSA _) = SIG_SCHEME_TPMS_SIG_SCHEME_RSASSA TPMS_SCHEME_HASH_default"
| "TPMU_SIG_SCHEME_fresh (SIG_SCHEME_TPMS_SIG_SCHEME_RSAPSS _) = SIG_SCHEME_TPMS_SIG_SCHEME_RSAPSS TPMS_SCHEME_HASH_default"
| "TPMU_SIG_SCHEME_fresh (SIG_SCHEME_TPMS_SIG_SCHEME_ECDSA _) = SIG_SCHEME_TPMS_SIG_SCHEME_ECDSA TPMS_SCHEME_HASH_default"
| "TPMU_SIG_SCHEME_fresh (SIG_SCHEME_TPMS_SIG_SCHEME_ECDAA _) = SIG_SCHEME_TPMS_SIG_SCHEME_ECDAA TPMS_SCHEME_ECDAA_default"
| "TPMU_SIG_SCHEME_fresh (SIG_SCHEME_TPMS_SIG_SCHEME_SM2 _) = SIG_SCHEME_TPMS_SIG_SCHEME_SM2 TPMS_SCHEME_HASH_default"
| "TPMU_SIG_SCHEME_fresh (SIG_SCHEME_TPMS_SIG_SCHEME_ECSCHNORR _) = SIG_SCHEME_TPMS_SIG_SCHEME_ECSCHNORR TPMS_SCHEME_HASH_default"
| "TPMU_SIG_SCHEME_fresh (SIG_SCHEME_TPMS_SCHEME_HMAC _) = SIG_SCHEME_TPMS_SCHEME_HMAC TPMS_SCHEME_HASH_default"
| "TPMU_SIG_SCHEME_fresh (SIG_SCHEME_TPMS_SCHEME_HASH _) = SIG_SCHEME_TPMS_SCHEME_HASH TPMS_SCHEME_HASH_default"
| "TPMU_SIG_SCHEME_fresh SIG_SCHEME_TPMS_NULL_SIG_SCHEME = SIG_SCHEME_TPMS_NULL_SIG_SCHEME"

fun TPMU_SIG_SCHEME_enc :: "TPMU_SIG_SCHEME \<Rightarrow> ByteVec" where
  "TPMU_SIG_SCHEME_enc (SIG_SCHEME_TPMS_SIG_SCHEME_RSASSA x) = TPMS_SCHEME_HASH_enc x"
| "TPMU_SIG_SCHEME_enc (SIG_SCHEME_TPMS_SIG_SCHEME_RSAPSS x) = TPMS_SCHEME_HASH_enc x"
| "TPMU_SIG_SCHEME_enc (SIG_SCHEME_TPMS_SIG_SCHEME_ECDSA x) = TPMS_SCHEME_HASH_enc x"
| "TPMU_SIG_SCHEME_enc (SIG_SCHEME_TPMS_SIG_SCHEME_ECDAA x) = TPMS_SCHEME_ECDAA_enc x"
| "TPMU_SIG_SCHEME_enc (SIG_SCHEME_TPMS_SIG_SCHEME_SM2 x) = TPMS_SCHEME_HASH_enc x"
| "TPMU_SIG_SCHEME_enc (SIG_SCHEME_TPMS_SIG_SCHEME_ECSCHNORR x) = TPMS_SCHEME_HASH_enc x"
| "TPMU_SIG_SCHEME_enc (SIG_SCHEME_TPMS_SCHEME_HMAC x) = TPMS_SCHEME_HASH_enc x"
| "TPMU_SIG_SCHEME_enc (SIG_SCHEME_TPMS_SCHEME_HASH x) = TPMS_SCHEME_HASH_enc x"
| "TPMU_SIG_SCHEME_enc SIG_SCHEME_TPMS_NULL_SIG_SCHEME = []"

fun TPMU_SIG_SCHEME_valid :: "TPMU_SIG_SCHEME \<Rightarrow> bool" where
  "TPMU_SIG_SCHEME_valid (SIG_SCHEME_TPMS_SIG_SCHEME_RSASSA x) = TPMS_SCHEME_HASH_valid x"
| "TPMU_SIG_SCHEME_valid (SIG_SCHEME_TPMS_SIG_SCHEME_RSAPSS x) = TPMS_SCHEME_HASH_valid x"
| "TPMU_SIG_SCHEME_valid (SIG_SCHEME_TPMS_SIG_SCHEME_ECDSA x) = TPMS_SCHEME_HASH_valid x"
| "TPMU_SIG_SCHEME_valid (SIG_SCHEME_TPMS_SIG_SCHEME_ECDAA x) = TPMS_SCHEME_ECDAA_valid x"
| "TPMU_SIG_SCHEME_valid (SIG_SCHEME_TPMS_SIG_SCHEME_SM2 x) = TPMS_SCHEME_HASH_valid x"
| "TPMU_SIG_SCHEME_valid (SIG_SCHEME_TPMS_SIG_SCHEME_ECSCHNORR x) = TPMS_SCHEME_HASH_valid x"
| "TPMU_SIG_SCHEME_valid (SIG_SCHEME_TPMS_SCHEME_HMAC x) = TPMS_SCHEME_HASH_valid x"
| "TPMU_SIG_SCHEME_valid (SIG_SCHEME_TPMS_SCHEME_HASH _) = False"
| "TPMU_SIG_SCHEME_valid SIG_SCHEME_TPMS_NULL_SIG_SCHEME = True"

lemma TPMU_SIG_SCHEME_writes [writes_intros]: "TPMU_SIG_SCHEME_valid u \<Longrightarrow> writes (TPMU_SIG_SCHEME_toTpm u) (TPMU_SIG_SCHEME_enc u)"
  by (cases u) (auto intro!: writes_intros)

lemma TPMU_SIG_SCHEME_reads:
  "TPMU_SIG_SCHEME_valid u \<Longrightarrow> reads (TPMU_SIG_SCHEME_initFromTpm (TPMU_SIG_SCHEME_fresh u)) u (TPMU_SIG_SCHEME_enc u)"
  by (cases u) (auto intro!: reads_intros)

lemma TPMU_SIG_SCHEME_reads_the:
  "opt_ok TPMU_SIG_SCHEME_valid u \<Longrightarrow> reads (TPMU_SIG_SCHEME_initFromTpm (TPMU_SIG_SCHEME_fresh (the u))) (the u) (opt_enc TPMU_SIG_SCHEME_enc u)"
  by (cases u) (simp_all add: TPMU_SIG_SCHEME_reads)

lemma TPMU_SIG_SCHEME_Create:
  "TPMU_SIG_SCHEME_valid u \<Longrightarrow>
   UnionFactory_Create_TPMU_SIG_SCHEME (TPMU_SIG_SCHEME_GetUnionSelector u) = Ok (Some (TPMU_SIG_SCHEME_fresh u))"
  by (cases u) (simp_all add: UnionFactory_Create_TPMU_SIG_SCHEME_def)

lemma TPMU_SIG_SCHEME_Create_the:
  "opt_ok TPMU_SIG_SCHEME_valid u \<Longrightarrow>
   UnionFactory_Create_TPMU_SIG_SCHEME (TPMU_SIG_SCHEME_GetUnionSelector (the u)) = Ok (Some (TPMU_SIG_SCHEME_fresh (the u)))"
  by (cases u) (simp_all add: TPMU_SIG_SCHEME_Create)

lemmas TPMU_SIG_SCHEME_steps [reads_intros] =
  reads_deref [where init = TPMU_SIG_SCHEME_initFromTpm, OF TPMU_SIG_SCHEME_reads_the]
  reads_deref_ret [where init = TPMU_SIG_SCHEME_initFromTpm, OF TPMU_SIG_SCHEME_reads_the]
  TPMU_SIG_SCHEME_Create_the [THEN reads_bindO]

subsection \<open>TPMT_SIG_SCHEME\<close>

text \<open>Table 162 Definition of TPMT_SIG_SCHEME Structure.\<close>

record TPMT_SIG_SCHEME =
  TPMT_SIG_SCHEME_details :: "TPMU_SIG_SCHEME option"

definition TPMT_SIG_SCHEME_default :: TPMT_SIG_SCHEME where
  "TPMT_SIG_SCHEME_default = \<lparr>TPMT_SIG_SCHEME_details = None\<rparr>"

definition TPMT_SIG_SCHEME_toTpm :: "TPMT_SIG_SCHEME \<Rightarrow> unit tpm" where
  "TPMT_SIG_SCHEME_toTpm self =
     (if TPMT_SIG_SCHEME_details self = None then ret ()
     else wseq [deref (TPMT_SIG_SCHEME_details self) (\<lambda>u. writeShort (TPMU_SIG_SCHEME_GetUnionSelector u)),
       deref (TPMT_SIG_SCHEME_details self) TPMU_SIG_SCHEME_toTpm])"

definition TPMT_SIG_SCHEME_initFromTpm :: "TPMT_SIG_SCHEME \<Rightarrow> TPMT_SIG_SCHEME tpm" where
  "TPMT_SIG_SCHEME_initFromTpm self =
     sbind readShort (\<lambda>scheme.
     bindO (UnionFactory_Create_TPMU_SIG_SCHEME scheme) (\<lambda>details.
     sbind (deref details TPMU_SIG_SCHEME_initFromTpm) (\<lambda>details.
     ret (self\<lparr>TPMT_SIG_SCHEME_details := Some details\<rparr>))))"

definition TPMT_SIG_SCHEME_enc :: "TPMT_SIG_SCHEME \<Rightarrow> ByteVec" where
  "TPMT_SIG_SCHEME_enc x =
     (if TPMT_SIG_SCHEME_details x = None then []
     else opt_enc (\<lambda>u. enc16 (TPMU_SIG_SCHEME_GetUnionSelector u)) (TPMT_SIG_SCHEME_details x) @
       opt_enc TPMU_SIG_SCHEME_enc (TPMT_SIG_SCHEME_details x))"

definition TPMT_SIG_SCHEME_valid :: "TPMT_SIG_SCHEME \<Rightarrow> bool" where
  "TPMT_SIG_SCHEME_valid x \<longleftrightarrow>
     opt_ok TPMU_SIG_SCHEME_valid (TPMT_SIG_SCHEME_details x)"

lemma TPMT_SIG_SCHEME_null: "TPMT_SIG_SCHEME_toTpm TPMT_SIG_SCHEME_default = ret ()" "TPMT_SIG_SCHEME_enc TPMT_SIG_SCHEME_default = []"
  by (simp_all add: TPMT_SIG_SCHEME_toTpm_def TPMT_SIG_SCHEME_enc_def TPMT_SIG_SCHEME_default_def)

lemma TPMT_SIG_SCHEME_writes [writes_intros]:
  "TPMT_SIG_SCHEME_valid x \<Longrightarrow> writes (TPMT_SIG_SCHEME_toTpm x) (TPMT_SIG_SCHEME_enc x)"
  by (auto simp: TPMT_SIG_SCHEME_toTpm_def TPMT_SIG_SCHEME_enc_def TPMT_SIG_SCHEME_valid_def opt_ok_iff
      simp del: wseq.simps intro!: writes_intros)

lemma TPMT_SIG_SCHEME_reads:
  "TPMT_SIG_SCHEME_valid x \<Longrightarrow> reads (TPMT_SIG_SCHEME_initFromTpm TPMT_SIG_SCHEME_default) x (TPMT_SIG_SCHEME_enc x)"
  by (simp only: TPMT_SIG_SCHEME_initFromTpm_def TPMT_SIG_SCHEME_enc_def TPMT_SIG_SCHEME_default_def
        TPMT_SIG_SCHEME.select_convs TPMT_SIG_SCHEME.update_convs;
      intro reads_intros; (rule TPMT_SIG_SCHEME.equality)?; simp add: TPMT_SIG_SCHEME_valid_def opt_ok_iff)

interpretation TPMT_SIG_SCHEME_codec:
  tpm_codec TPMT_SIG_SCHEME_toTpm TPMT_SIG_SCHEME_initFromTpm TPMT_SIG_SCHEME_default
    TPMT_SIG_SCHEME_enc TPMT_SIG_SCHEME_valid
  by unfold_locales (simp_all add: TPMT_SIG_SCHEME_writes TPMT_SIG_SCHEME_reads TPMT_SIG_SCHEME_null writes_ret)

subsection \<open>The union TPMU_KDF_SCHEME\<close>

datatype TPMU_KDF_SCHEME =
    KDF_SCHEME_TPMS_KDF_SCHEME_MGF1 TPMS_SCHEME_HASH
  | KDF_SCHEME_TPMS_KDF_SCHEME_KDF1_SP800_56A TPMS_SCHEME_HASH
  | KDF_SCHEME_TPMS_KDF_SCHEME_KDF2 TPMS_SCHEME_HASH
  | KDF_SCHEME_TPMS_KDF_SCHEME_KDF1_SP800_108 TPMS_SCHEME_HASH
  | KDF_SCHEME_TPMS_SCHEME_HASH TPMS_SCHEME_HASH
  | KDF_SCHEME_TPMS_NULL_KDF_SCHEME

fun TPMU_KDF_SCHEME_GetUnionSelector :: "TPMU_KDF_SCHEME \<Rightarrow> TPM_ALG_ID" where
  "TPMU_KDF_SCHEME_GetUnionSelector (KDF_SCHEME_TPMS_KDF_SCHEME_MGF1 x) = TPM_ALG_ID_MGF1"
| "TPMU_KDF_SCHEME_GetUnionSelector (KDF_SCHEME_TPMS_KDF_SCHEME_KDF1_SP800_56A x) = TPM_ALG_ID_KDF1_SP800_56A"
| "TPMU_KDF_SCHEME_GetUnionSelector (KDF_SCHEME_TPMS_KDF_SCHEME_KDF2 x) = TPM_ALG_ID_KDF2"
| "TPMU_KDF_SCHEME_GetUnionSelector (KDF_SCHEME_TPMS_KDF_SCHEME_KDF1_SP800_108 x) = TPM_ALG_ID_KDF1_SP800_108"
| "TPMU_KDF_SCHEME_GetUnionSelector (KDF_SCHEME_TPMS_SCHEME_HASH x) = TPM_ALG_ID_HMAC"
| "TPMU_KDF_SCHEME_GetUnionSelector KDF_SCHEME_TPMS_NULL_KDF_SCHEME = TPM_ALG_ID_NULL"

fun TPMU_KDF_SCHEME_toTpm :: "TPMU_KDF_SCHEME \<Rightarrow> unit tpm" where
  "TPMU_KDF_SCHEME_toTpm (KDF_SCHEME_TPMS_KDF_SCHEME_MGF1 x) = TPMS_SCHEME_HASH_toTpm x"
| "TPMU_KDF_SCHEME_toTpm (KDF_SCHEME_TPMS_KDF_SCHEME_KDF1_SP800_56A x) = TPMS_SCHEME_HASH_toTpm x"
| "TPMU_KDF_SCHEME_toTpm (KDF_SCHEME_TPMS_KDF_SCHEME_KDF2 x) = TPMS_SCHEME_HASH_toTpm x"
| "TPMU_KDF_SCHEME_toTpm (KDF_SCHEME_TPMS_KDF_SCHEME_KDF1_SP800_108 x) = TPMS_SCHEME_HASH_toTpm x"
| "TPMU_KDF_SCHEME_toTpm (KDF_SCHEME_TPMS_SCHEME_HASH x) = TPMS_SCHEME_HASH_toTpm x"
| "TPMU_KDF_SCHEME_toTpm KDF_SCHEME_TPMS_NULL_KDF_SCHEME = ret ()"

fun TPMU_KDF_SCHEME_initFromTpm :: "TPMU_KDF_SCHEME \<Rightarrow> TPMU_KDF_SCHEME tpm" where
  "TPMU_KDF_SCHEME_initFromTpm (KDF_SCHEME_TPMS_KDF_SCHEME_MGF1 x) = sbind (TPMS_SCHEME_HASH_initFromTpm x) (\<lambda>y. ret (KDF_SCHEME_TPMS_KDF_SCHEME_MGF1 y))"
| "TPMU_KDF_SCHEME_initFromTpm (KDF_SCHEME_TPMS_KDF_SCHEME_KDF1_SP800_56A x) = sbind (TPMS_SCHEME_HASH_initFromTpm x) (\<lambda>y. ret (KDF_SCHEME_TPMS_KDF_SCHEME_KDF1_SP800_56A y))"
| "TPMU_KDF_SCHEME_initFromTpm (KDF_SCHEME_TPMS_KDF_SCHEME_KDF2 x) = sbind (TPMS_SCHEME_HASH_initFromTpm x) (\<lambda>y. ret (KDF_SCHEME_TPMS_KDF_SCHEME_KDF2 y))"
| "TPMU_KDF_SCHEME_initFromTpm (KDF_SCHEME_TPMS_KDF_SCHEME_KDF1_SP800_108 x) = sbind (TPMS_SCHEME_HASH_initFromTpm x) (\<lambda>y. ret (KDF_SCHEME_TPMS_KDF_SCHEME_KDF1_SP800_108 y))"
| "TPMU_KDF_SCHEME_initFromTpm (KDF_SCHEME_TPMS_SCHEME_HASH x) = sbind (TPMS_SCHEME_HASH_initFromTpm x) (\<lambda>y. ret (KDF_SCHEME_TPMS_SCHEME_HASH y))"
| "TPMU_KDF_SCHEME_initFromTpm KDF_SCHEME_TPMS_NULL_KDF_SCHEME = ret KDF_SCHEME_TPMS_NULL_KDF_SCHEME"

definition UnionFactory_Create_TPMU_KDF_SCHEME :: "TPM_ALG_ID \<Rightarrow> TPMU_KDF_SCHEME option outcome" where
  "UnionFactory_Create_TPMU_KDF_SCHEME selector =
     (if selector = TPM_ALG_ID_MGF1 then Ok (Some (KDF_SCHEME_TPMS_KDF_SCHEME_MGF1 TPMS_SCHEME_HASH_default))
      else if selector = TPM_ALG_ID_KDF1_SP800_56A then Ok (Some (KDF_SCHEME_TPMS_KDF_SCHEME_KDF1_SP800_56A TPMS_SCHEME_HASH_default))
      else if selector = TPM_ALG_ID_KDF2 then Ok (Some (KDF_SCHEME_TPMS_KDF_SCHEME_KDF2 TPMS_SCHEME_HASH_default))
      else if selector = TPM_ALG_ID_KDF1_SP800_108 then Ok (Some (KDF_SCHEME_TPMS_KDF_SCHEME_KDF1_SP800_108 TPMS_SCHEME_HASH_default))
      else if selector = TPM_ALG_ID_ANY then Ok (Some (KDF_SCHEME_TPMS_SCHEME_HASH TPMS_SCHEME_HASH_default))
      else if selector = TPM_ALG_ID_NULL then Ok (Some KDF_SCHEME_TPMS_NULL_KDF_SCHEME)
      else Throw (runtime_error ''Unknown selector value''))"

text \<open>The wire form of the members, the member a selector stands for, and which members a selector can name.\<close>

fun TPMU_KDF_SCHEME_fresh :: "TPMU_KDF_SCHEME \<Rightarrow> TPMU_KDF_SCHEME" where
  "TPMU_KDF_SCHEME_fresh (KDF_SCHEME_TPMS_KDF_SCHEME_MGF1 _) = KDF_SCHEME_TPMS_KDF_SCHEME_MGF1 TPMS_SCHEME_HASH_default"
| "TPMU_KDF_SCHEME_fresh (KDF_SCHEME_TPMS_KDF_SCHEME_KDF1_SP800_56A _) = KDF_SCHEME_TPMS_KDF_SCHEME_KDF1_SP800_56A TPMS_SCHEME_HASH_default"
| "TPMU_KDF_SCHEME_fresh (KDF_SCHEME_TPMS_KDF_SCHEME_KDF2 _) = KDF_SCHEME_TPMS_KDF_SCHEME_KDF2 TPMS_SCHEME_HASH_default"
| "TPMU_KDF_SCHEME_fresh (KDF_SCHEME_TPMS_KDF_SCHEME_KDF1_SP800_108 _) = KDF_SCHEME_TPMS_KDF_SCHEME_KDF1_SP800_108 TPMS_SCHEME_HASH_default"
| "TPMU_KDF_SCHEME_fresh (KDF_SCHEME_TPMS_SCHEME_HASH _) = KDF_SCHEME_TPMS_SCHEME_HASH TPMS_SCHEME_HASH_default"
| "TPMU_KDF_SCHEME_fresh KDF_SCHEME_TPMS_NULL_KDF_SCHEME = KDF_SCHEME_TPMS_NULL_KDF_SCHEME"

fun TPMU_KDF_SCHEME_enc :: "TPMU_KDF_SCHEME \<Rightarrow> ByteVec" where
  "TPMU_KDF_SCHEME_enc (KDF_SCHEME_TPMS_KDF_SCHEME_MGF1 x) = TPMS_SCHEME_HASH_enc x"
| "TPMU_KDF_SCHEME_enc (KDF_SCHEME_TPMS_KDF_SCHEME_KDF1_SP800_56A x) = TPMS_SCHEME_HASH_enc x"
| "TPMU_KDF_SCHEME_enc (KDF_SCHEME_TPMS_KDF_SCHEME_KDF2 x) = TPMS_SCHEME_HASH_enc x"
| "TPMU_KDF_SCHEME_enc (KDF_SCHEME_TPMS_KDF_SCHEME_KDF1_SP800_108 x) = TPMS_SCHEME_HASH_enc x"
| "TPMU_KDF_SCHEME_enc (KDF_SCHEME_TPMS_SCHEME_HASH x) = TPMS_SCHEME_HASH_enc x"
| "TPMU_KDF_SCHEME_enc KDF_SCHEME_TPMS_NULL_KDF_SCHEME = []"

fun TPMU_KDF_SCHEME_valid :: "TPMU_KDF_SCHEME \<Rightarrow> bool" where
  "TPMU_KDF_SCHEME_valid (KDF_SCHEME_TPMS_KDF_SCHEME_MGF1 x) = TPMS_SCHEME_HASH_valid x"
| "TPMU_KDF_SCHEME_valid (KDF_SCHEME_TPMS_KDF_SCHEME_KDF1_SP800_56A x) = TPMS_SCHEME_HASH_valid x"
| "TPMU_KDF_SCHEME_valid (KDF_SCHEME_TPMS_KDF_SCHEME_KDF2 x) = TPMS_SCHEME_HASH_valid x"
| "TPMU_KDF_SCHEME_valid (KDF_SCHEME_TPMS_KDF_SCHEME_KDF1_SP800_108 x) = TPMS_SCHEME_HASH_valid x"
| "TPMU_KDF_SCHEME_valid (KDF_SCHEME_TPMS_SCHEME_HASH _) = False"
| "TPMU_KDF_SCHEME_valid KDF_SCHEME_TPMS_NULL_KDF_SCHEME = True"

lemma TPMU_KDF_SCHEME_writes [writes_intros]: "TPMU_KDF_SCHEME_valid u \<Longrightarrow> writes (TPMU_KDF_SCHEME_toTpm u) (TPMU_KDF_SCHEME_enc u)"
  by (cases u) (auto intro!: writes_intros)

lemma TPMU_KDF_SCHEME_reads:
  "TPMU_KDF_SCHEME_valid u \<Longrightarrow> reads (TPMU_KDF_SCHEME_initFromTpm (TPMU_KDF_SCHEME_fresh u)) u (TPMU_KDF_SCHEME_enc u)"
  by (cases u) (auto intro!: reads_intros)

lemma TPMU_KDF_SCHEME_reads_the:
  "opt_ok TPMU_KDF_SCHEME_valid u \<Longrightarrow> reads (TPMU_KDF_SCHEME_initFromTpm (TPMU_KDF_SCHEME_fresh (the u))) (the u) (opt_enc TPMU_KDF_SCHEME_enc u)"
  by (cases u) (simp_all add: TPMU_KDF_SCHEME_reads)

lemma TPMU_KDF_SCHEME_Create:
  "TPMU_KDF_SCHEME_valid u \<Longrightarrow>
   UnionFactory_Create_TPMU_KDF_SCHEME (TPMU_KDF_SCHEME_GetUnionSelector u) = Ok (Some (TPMU_KDF_SCHEME_fresh u))"
  by (cases u) (simp_all add: UnionFactory_Create_TPMU_KDF_SCHEME_def)

lemma TPMU_KDF_SCHEME_Create_the:
  "opt_ok TPMU_KDF_SCHEME_valid u \<Longrightarrow>
   UnionFactory_Create_TPMU_KDF_SCHEME (TPMU_KDF_SCHEME_GetUnionSelector (the u)) = Ok (Some (TPMU_KDF_SCHEME_fresh (the u)))"
  by (cases u) (simp_all add: TPMU_KDF_SCHEME_Create)

lemmas TPMU_KDF_SCHEME_steps [reads_intros] =
  reads_deref [where init = TPMU_KDF_SCHEME_initFromTpm, OF TPMU_KDF_SCHEME_reads_the]
  reads_deref_ret [where init = TPMU_KDF_SCHEME_initFromTpm, OF TPMU_KDF_SCHEME_reads_the]
  TPMU_KDF_SCHEME_Create_the [THEN reads_bindO]

subsection \<open>TPMT_KDF_SCHEME\<close>

text \<open>Table 167 Definition of TPMT_KDF_SCHEME Structure.\<close>

record TPMT_KDF_SCHEME =
  TPMT_KDF_SCHEME_details :: "TPMU_KDF_SCHEME option"

definition TPMT_KDF_SCHEME_default :: TPMT_KDF_SCHEME where
  "TPMT_KDF_SCHEME_default = \<lparr>TPMT_KDF_SCHEME_details = None\<rparr>"

definition TPMT_KDF_SCHEME_toTpm :: "TPMT_KDF_SCHEME \<Rightarrow> unit tpm" where
  "TPMT_KDF_SCHEME_toTpm self =
     (if TPMT_KDF_SCHEME_details self = None then ret ()
     else wseq [deref (TPMT_KDF_SCHEME_details self) (\<lambda>u. writeShort (TPMU_KDF_SCHEME_GetUnionSelector u)),
       deref (TPMT_KDF_SCHEME_details self) TPMU_KDF_SCHEME_toTpm])"

definition TPMT_KDF_SCHEME_initFromTpm :: "TPMT_KDF_SCHEME \<Rightarrow> TPMT_KDF_SCHEME tpm" where
  "TPMT_KDF_SCHEME_initFromTpm self =
     sbind readShort (\<lambda>scheme.
     bindO (UnionFactory_Create_TPMU_KDF_SCHEME scheme) (\<lambda>details.
     sbind (deref details TPMU_KDF_SCHEME_initFromTpm) (\<lambda>details.
     ret (self\<lparr>TPMT_KDF_SCHEME_details := Some details\<rparr>))))"

definition TPMT_KDF_SCHEME_enc :: "TPMT_KDF_SCHEME \<Rightarrow> ByteVec" where
  "TPMT_KDF_SCHEME_enc x =
     (if TPMT_KDF_SCHEME_details x = None then []
     else opt_enc (\<lambda>u. enc16 (TPMU_KDF_SCHEME_GetUnionSelector u)) (TPMT_KDF_SCHEME_details x) @
       opt_enc TPMU_KDF_SCHEME_enc (TPMT_KDF_SCHEME_details x))"

definition TPMT_KDF_SCHEME_valid :: "TPMT_KDF_SCHEME \<Rightarrow> bool" where
  "TPMT_KDF_SCHEME_valid x \<longleftrightarrow>
     opt_ok TPMU_KDF_SCHEME_valid (TPMT_KDF_SCHEME_details x)"

lemma TPMT_KDF_SCHEME_null: "TPMT_KDF_SCHEME_toTpm TPMT_KDF_SCHEME_default = ret ()" "TPMT_KDF_SCHEME_enc TPMT_KDF_SCHEME_default = []"
  by (simp_all add: TPMT_KDF_SCHEME_toTpm_def TPMT_KDF_SCHEME_enc_def TPMT_KDF_SCHEME_default_def)

lemma TPMT_KDF_SCHEME_writes [writes_intros]:
  "TPMT_KDF_SCHEME_valid x \<Longrightarrow> writes (TPMT_KDF_SCHEME_toTpm x) (TPMT_KDF_SCHEME_enc x)"
  by (auto simp: TPMT_KDF_SCHEME_toTpm_def TPMT_KDF_SCHEME_enc_def TPMT_KDF_SCHEME_valid_def opt_ok_iff
      simp del: wseq.simps intro!: writes_intros)

lemma TPMT_KDF_SCHEME_reads:
  "TPMT_KDF_SCHEME_valid x \<Longrightarrow> reads (TPMT_KDF_SCHEME_initFromTpm TPMT_KDF_SCHEME_default) x (TPMT_KDF_SCHEME_enc x)"
  by (simp only: TPMT_KDF_SCHEME_initFromTpm_def TPMT_KDF_SCHEME_enc_def TPMT_KDF_SCHEME_default_def
        TPMT_KDF_SCHEME.select_convs TPMT_KDF_SCHEME.update_convs;
      intro reads_intros; (rule TPMT_KDF_SCHEME.equality)?; simp add: TPMT_KDF_SCHEME_valid_def opt_ok_iff)

interpretation TPMT_KDF_SCHEME_codec:
  tpm_codec TPMT_KDF_SCHEME_toTpm TPMT_KDF_SCHEME_initFromTpm TPMT_KDF_SCHEME_default
    TPMT_KDF_SCHEME_enc TPMT_KDF_SCHEME_valid
  by unfold_locales (simp_all add: TPMT_KDF_SCHEME_writes TPMT_KDF_SCHEME_reads TPMT_KDF_SCHEME_null writes_ret)

subsection \<open>The union TPMU_ASYM_SCHEME\<close>

datatype TPMU_ASYM_SCHEME =
    ASYM_SCHEME_TPMS_KEY_SCHEME_ECDH TPMS_SCHEME_HASH
  | ASYM_SCHEME_TPMS_KEY_SCHEME_ECMQV TPMS_SCHEME_HASH
  | ASYM_SCHEME_TPMS_SIG_SCHEME_RSASSA TPMS_SCHEME_HASH
  | ASYM_SCHEME_TPMS_SIG_SCHEME_RSAPSS TPMS_SCHEME_HASH
  | ASYM_SCHEME_TPMS_SIG_SCHEME_ECDSA TPMS_SCHEME_HASH
  | ASYM_SCHEME_TPMS_SIG_SCHEME_ECDAA TPMS_SCHEME_ECDAA
  | ASYM_SCHEME_TPMS_SIG_SCHEME_SM2 TPMS_SCHEME_HASH
  | ASYM_SCHEME_TPMS_SIG_SCHEME_ECSCHNORR TPMS_SCHEME_HASH
  | ASYM_SCHEME_TPMS_ENC_SCHEME_RSAES
  | ASYM_SCHEME_TPMS_ENC_SCHEME_OAEP TPMS_SCHEME_HASH
  | ASYM_SCHEME_TPMS_SCHEME_HASH TPMS_SCHEME_HASH
  | ASYM_SCHEME_TPMS_NULL_ASYM_SCHEME

fun TPMU_ASYM_SCHEME_GetUnionSelector :: "TPMU_ASYM_SCHEME \<Rightarrow> TPM_ALG_ID" where
  "TPMU_ASYM_SCHEME_GetUnionSelector (ASYM_SCHEME_TPMS_KEY_SCHEME_ECDH x) = TPM_ALG_ID_ECDH"
| "TPMU_ASYM_SCHEME_GetUnionSelector (ASYM_SCHEME_TPMS_KEY_SCHEME_ECMQV x) = TPM_ALG_ID_ECMQV"
| "TPMU_ASYM_SCHEME_GetUnionSelector (ASYM_SCHEME_TPMS_SIG_SCHEME_RSASSA x) = TPM_ALG_ID_RSASSA"
| "TPMU_ASYM_SCHEME_GetUnionSelector (ASYM_SCHEME_TPMS_SIG_SCHEME_RSAPSS x) = TPM_ALG_ID_RSAPSS"
| "TPMU_ASYM_SCHEME_GetUnionSelector (ASYM_SCHEME_TPMS_SIG_SCHEME_ECDSA x) = TPM_ALG_ID_ECDSA"
| "TPMU_ASYM_SCHEME_GetUnionSelector (ASYM_SCHEME_TPMS_SIG_SCHEME_ECDAA x) = TPM_ALG_ID_ECDAA"
| "TPMU_ASYM_SCHEME_GetUnionSelector (ASYM_SCHEME_TPMS_SIG_SCHEME_SM2 x) = TPM_ALG_ID_SM2"
| "TPMU_ASYM_SCHEME_GetUnionSelector (ASYM_SCHEME_TPMS_SIG_SCHEME_ECSCHNORR x) = TPM_ALG_ID_ECSCHNORR"
| "TPMU_ASYM_SCHEME_GetUnionSelector ASYM_SCHEME_TPMS_ENC_SCHEME_RSAES = TPM_ALG_ID_RSAES"
| "TPMU_ASYM_SCHEME_GetUnionSelector (ASYM_SCHEME_TPMS_ENC_SCHEME_OAEP x) = TPM_ALG_ID_OAEP"
| "TPMU_ASYM_SCHEME_GetUnionSelector (ASYM_SCHEME_TPMS_SCHEME_HASH x) = TPM_ALG_ID_HMAC"
| "TPMU_ASYM_SCHEME_GetUnionSelector ASYM_SCHEME_TPMS_NULL_ASYM_SCHEME = TPM_ALG_ID_NULL"

fun TPMU_ASYM_SCHEME_toTpm :: "TPMU_ASYM_SCHEME \<Rightarrow> unit tpm" where
  "TPMU_ASYM_SCHEME_toTpm (ASYM_SCHEME_TPMS_KEY_SCHEME_ECDH x) = TPMS_SCHEME_HASH_toTpm x"
| "TPMU_ASYM_SCHEME_toTpm (ASYM_SCHEME_TPMS_KEY_SCHEME_ECMQV x) = TPMS_SCHEME_HASH_toTpm x"
| "TPMU_ASYM_SCHEME_toTpm (ASYM_SCHEME_TPMS_SIG_SCHEME_RSASSA x) = TPMS_SCHEME_HASH_toTpm x"
| "TPMU_ASYM_SCHEME_toTpm (ASYM_SCHEME_TPMS_SIG_SCHEME_RSAPSS x) = TPMS_SCHEME_HASH_toTpm x"
| "TPMU_ASYM_SCHEME_toTpm (ASYM_SCHEME_TPMS_SIG_SCHEME_ECDSA x) = TPMS_SCHEME_HASH_toTpm x"
| "TPMU_ASYM_SCHEME_toTpm (ASYM_SCHEME_TPMS_SIG_SCHEME_ECDAA x) = TPMS_SCHEME_ECDAA_toTpm x"
| "TPMU_ASYM_SCHEME_toTpm (ASYM_SCHEME_TPMS_SIG_SCHEME_SM2 x) = TPMS_SCHEME_HASH_toTpm x"
| "TPMU_ASYM_SCHEME_toTpm (ASYM_SCHEME_TPMS_SIG_SCHEME_ECSCHNORR x) = TPMS_SCHEME_HASH_toTpm x"
| "TPMU_ASYM_SCHEME_toTpm ASYM_SCHEME_TPMS_ENC_SCHEME_RSAES = ret ()"
| "TPMU_ASYM_SCHEME_toTpm (ASYM_SCHEME_TPMS_ENC_SCHEME_OAEP x) = TPMS_SCHEME_HASH_toTpm x"
| "TPMU_ASYM_SCHEME_toTpm (ASYM_SCHEME_TPMS_SCHEME_HASH x) = TPMS_SCHEME_HASH_toTpm x"
| "TPMU_ASYM_SCHEME_toTpm ASYM_SCHEME_TPMS_NULL_ASYM_SCHEME = ret ()"

fun TPMU_ASYM_SCHEME_initFromTpm :: "TPMU_ASYM_SCHEME \<Rightarrow> TPMU_ASYM_SCHEME tpm" where
  "TPMU_ASYM_SCHEME_initFromTpm (ASYM_SCHEME_TPMS_KEY_SCHEME_ECDH x) = sbind (TPMS_SCHEME_HASH_initFromTpm x) (\<lambda>y. ret (ASYM_SCHEME_TPMS_KEY_SCHEME_ECDH y))"
| "TPMU_ASYM_SCHEME_initFromTpm (ASYM_SCHEME_TPMS_KEY_SCHEME_ECMQV x) = sbind (TPMS_SCHEME_HASH_initFromTpm x) (\<lambda>y. ret (ASYM_SCHEME_TPMS_KEY_SCHEME_ECMQV y))"
| "TPMU_ASYM_SCHEME_initFromTpm (ASYM_SCHEME_TPMS_SIG_SCHEME_RSASSA x) = sbind (TPMS_SCHEME_HASH_initFromTpm x) (\<lambda>y. ret (ASYM_SCHEME_TPMS_SIG_SCHEME_RSASSA y))"
| "TPMU_ASYM_SCHEME_initFromTpm (ASYM_SCHEME_TPMS_SIG_SCHEME_RSAPSS x) = sbind (TPMS_SCHEME_HASH_initFromTpm x) (\<lambda>y. ret (ASYM_SCHEME_TPMS_SIG_SCHEME_RSAPSS y))"
| "TPMU_ASYM_SCHEME_initFromTpm (ASYM_SCHEME_TPMS_SIG_SCHEME_ECDSA x) = sbind (TPMS_SCHEME_HASH_initFromTpm x) (\<lambda>y. ret (ASYM_SCHEME_TPMS_SIG_SCHEME_ECDSA y))"
| "TPMU_ASYM_SCHEME_initFromTpm (ASYM_SCHEME_TPMS_SIG_SCHEME_ECDAA x) = sbind (TPMS_SCHEME_ECDAA_initFromTpm x) (\<lambda>y. ret (ASYM_SCHEME_TPMS_SIG_SCHEME_ECDAA y))"
| "TPMU_ASYM_SCHEME_initFromTpm (ASYM_SCHEME_TPMS_SIG_SCHEME_SM2 x) = sbind (TPMS_SCHEME_HASH_initFromTpm x) (\<lambda>y. ret (ASYM_SCHEME_TPMS_SIG_SCHEME_SM2 y))"
| "TPMU_ASYM_SCHEME_initFromTpm (ASYM_SCHEME_TPMS_SIG_SCHEME_ECSCHNORR x) = sbind (TPMS_SCHEME_HASH_initFromTpm x) (\<lambda>y. ret (ASYM_SCHEME_TPMS_SIG_SCHEME_ECSCHNORR y))"
| "TPMU_ASYM_SCHEME_initFromTpm ASYM_SCHEME_TPMS_ENC_SCHEME_RSAES = ret ASYM_SCHEME_TPMS_ENC_SCHEME_RSAES"
| "TPMU_ASYM_SCHEME_initFromTpm (ASYM_SCHEME_TPMS_ENC_SCHEME_OAEP x) = sbind (TPMS_SCHEME_HASH_initFromTpm x) (\<lambda>y. ret (ASYM_SCHEME_TPMS_ENC_SCHEME_OAEP y))"
| "TPMU_ASYM_SCHEME_initFromTpm (ASYM_SCHEME_TPMS_SCHEME_HASH x) = sbind (TPMS_SCHEME_HASH_initFromTpm x) (\<lambda>y. ret (ASYM_SCHEME_TPMS_SCHEME_HASH y))"
| "TPMU_ASYM_SCHEME_initFromTpm ASYM_SCHEME_TPMS_NULL_ASYM_SCHEME = ret ASYM_SCHEME_TPMS_NULL_ASYM_SCHEME"

definition UnionFactory_Create_TPMU_ASYM_SCHEME :: "TPM_ALG_ID \<Rightarrow> TPMU_ASYM_SCHEME option outcome" where
  "UnionFactory_Create_TPMU_ASYM_SCHEME selector =
     (if selector = TPM_ALG_ID_ECDH then Ok (Some (ASYM_SCHEME_TPMS_KEY_SCHEME_ECDH TPMS_SCHEME_HASH_default))
      else if selector = TPM_ALG_ID_ECMQV then Ok (Some (ASYM_SCHEME_TPMS_KEY_SCHEME_ECMQV TPMS_SCHEME_HASH_default))
      else if selector = TPM_ALG_ID_RSASSA then Ok (Some (ASYM_SCHEME_TPMS_SIG_SCHEME_RSASSA TPMS_SCHEME_HASH_default))
      else if selector = TPM_ALG_ID_RSAPSS then Ok (Some (ASYM_SCHEME_TPMS_SIG_SCHEME_RSAPSS TPMS_SCHEME_HASH_default))
      else if selector = TPM_ALG_ID_ECDSA then Ok (Some (ASYM_SCHEME_TPMS_SIG_SCHEME_ECDSA TPMS_SCHEME_HASH_default))
      else if selector = TPM_ALG_ID_ECDAA then Ok (Some (ASYM_SCHEME_TPMS_SIG_SCHEME_ECDAA TPMS_SCHEME_ECDAA_default))
      else if selector = TPM_ALG_ID_SM2 then Ok (Some (ASYM_SCHEME_TPMS_SIG_SCHEME_SM2 TPMS_SCHEME_HASH_default))
      else if selector = TPM_ALG_ID_ECSCHNORR then Ok (Some (ASYM_SCHEME_TPMS_SIG_SCHEME_ECSCHNORR TPMS_SCHEME_HASH_default))
      else if selector = TPM_ALG_ID_RSAES then Ok (Some ASYM_SCHEME_TPMS_ENC_SCHEME_RSAES)
      else if selector = TPM_ALG_ID_OAEP then Ok (Some (ASYM_SCHEME_TPMS_ENC_SCHEME_OAEP TPMS_SCHEME_HASH_default))
      else if selector = TPM_ALG_ID_ANY then Ok (Some (ASYM_SCHEME_TPMS_SCHEME_HASH TPMS_SCHEME_HASH_default))
      else if selector = TPM_ALG_ID_NULL then Ok (Some ASYM_SCHEME_TPMS_NULL_ASYM_SCHEME)
      else Throw (runtime_error ''Unknown selector value''))"

text \<open>The wire form of the members, the member a selector stands for, and which members a selector can name.\<close>

fun TPMU_ASYM_SCHEME_fresh :: "TPMU_ASYM_SCHEME \<Rightarrow> TPMU_ASYM_SCHEME" where
  "TPMU_ASYM_SCHEME_fresh (ASYM_SCHEME_TPMS_KEY_SCHEME_ECDH _) = ASYM_SCHEME_TPMS_KEY_SCHEME_ECDH TPMS_SCHEME_HASH_default"
| "TPMU_ASYM_SCHEME_fresh (ASYM_SCHEME_TPMS_KEY_SCHEME_ECMQV _) = ASYM_SCHEME_TPMS_KEY_SCHEME_ECMQV TPMS_SCHEME_HASH_default"
| "TPMU_ASYM_SCHEME_fresh (ASYM_SCHEME_TPMS_SIG_SCHEME_RSASSA _) = ASYM_SCHEME_TPMS_SIG_SCHEME_RSASSA TPMS_SCHEME_HASH_default"
| "TPMU_ASYM_SCHEME_fresh (ASYM_SCHEME_TPMS_SIG_SCHEME_RSAPSS _) = ASYM_SCHEME_TPMS_SIG_SCHEME_RSAPSS TPMS_SCHEME_HASH_default"
| "TPMU_ASYM_SCHEME_fresh (ASYM_SCHEME_TPMS_SIG_SCHEME_ECDSA _) = ASYM_SCHEME_TPMS_SIG_SCHEME_ECDSA TPMS_SCHEME_HASH_default"
| "TPMU_ASYM_SCHEME_fresh (ASYM_SCHEME_TPMS_SIG_SCHEME_ECDAA _) = ASYM_SCHEME_TPMS_SIG_SCHEME_ECDAA TPMS_SCHEME_ECDAA_default"
| "TPMU_ASYM_SCHEME_fresh (ASYM_SCHEME_TPMS_SIG_SCHEME_SM2 _) = ASYM_SCHEME_TPMS_SIG_SCHEME_SM2 TPMS_SCHEME_HASH_default"
| "TPMU_ASYM_SCHEME_fresh (ASYM_SCHEME_TPMS_SIG_SCHEME_ECSCHNORR _) = ASYM_SCHEME_TPMS_SIG_SCHEME_ECSCHNORR TPMS_SCHEME_HASH_default"
| "TPMU_ASYM_SCHEME_fresh ASYM_SCHEME_TPMS_ENC_SCHEME_RSAES = ASYM_SCHEME_TPMS_ENC_SCHEME_RSAES"
| "TPMU_ASYM_SCHEME_fresh (ASYM_SCHEME_TPMS_ENC_SCHEME_OAEP _) = ASYM_SCHEME_TPMS_ENC_SCHEME_OAEP TPMS_SCHEME_HASH_default"
| "TPMU_ASYM_SCHEME_fresh (ASYM_SCHEME_TPMS_SCHEME_HASH _) = ASYM_SCHEME_TPMS_SCHEME_HASH TPMS_SCHEME_HASH_default"
| "TPMU_ASYM_SCHEME_fresh ASYM_SCHEME_TPMS_NULL_ASYM_SCHEME = ASYM_SCHEME_TPMS_NULL_ASYM_SCHEME"

fun TPMU_ASYM_SCHEME_enc :: "TPMU_ASYM_SCHEME \<Rightarrow> ByteVec" where
  "TPMU_ASYM_SCHEME_enc (ASYM_SCHEME_TPMS_KEY_SCHEME_ECDH x) = TPMS_SCHEME_HASH_enc x"
| "TPMU_ASYM_SCHEME_enc (ASYM_SCHEME_TPMS_KEY_SCHEME_ECMQV x) = TPMS_SCHEME_HASH_enc x"
| "TPMU_ASYM_SCHEME_enc (ASYM_SCHEME_TPMS_SIG_SCHEME_RSASSA x) = TPMS_SCHEME_HASH_enc x"
| "TPMU_ASYM_SCHEME_enc (ASYM_SCHEME_TPMS_SIG_SCHEME_RSAPSS x) = TPMS_SCHEME_HASH_enc x"
| "TPMU_ASYM_SCHEME_enc (ASYM_SCHEME_TPMS_SIG_SCHEME_ECDSA x) = TPMS_SCHEME_HASH_enc x"
| "TPMU_ASYM_SCHEME_enc (ASYM_SCHEME_TPMS_SIG_SCHEME_ECDAA x) = TPMS_SCHEME_ECDAA_enc x"
| "TPMU_ASYM_SCHEME_enc (ASYM_SCHEME_TPMS_SIG_SCHEME_SM2 x) = TPMS_SCHEME_HASH_enc x"
| "TPMU_ASYM_SCHEME_enc (ASYM_SCHEME_TPMS_SIG_SCHEME_ECSCHNORR x) = TPMS_SCHEME_HASH_enc x"
| "TPMU_ASYM_SCHEME_enc ASYM_SCHEME_TPMS_ENC_SCHEME_RSAES = []"
| "TPMU_ASYM_SCHEME_enc (ASYM_SCHEME_TPMS_ENC_SCHEME_OAEP x) = TPMS_SCHEME_HASH_enc x"
| "TPMU_ASYM_SCHEME_enc (ASYM_SCHEME_TPMS_SCHEME_HASH x) = TPMS_SCHEME_HASH_enc x"
| "TPMU_ASYM_SCHEME_enc ASYM_SCHEME_TPMS_NULL_ASYM_SCHEME = []"

fun TPMU_ASYM_SCHEME_valid :: "TPMU_ASYM_SCHEME \<Rightarrow> bool" where
  "TPMU_ASYM_SCHEME_valid (ASYM_SCHEME_TPMS_KEY_SCHEME_ECDH x) = TPMS_SCHEME_HASH_valid x"
| "TPMU_ASYM_SCHEME_valid (ASYM_SCHEME_TPMS_KEY_SCHEME_ECMQV x) = TPMS_SCHEME_HASH_valid x"
| "TPMU_ASYM_SCHEME_valid (ASYM_SCHEME_TPMS_SIG_SCHEME_RSASSA x) = TPMS_SCHEME_HASH_valid x"
| "TPMU_ASYM_SCHEME_valid (ASYM_SCHEME_TPMS_SIG_SCHEME_RSAPSS x) = TPMS_SCHEME_HASH_valid x"
| "TPMU_ASYM_SCHEME_valid (ASYM_SCHEME_TPMS_SIG_SCHEME_ECDSA x) = TPMS_SCHEME_HASH_valid x"
| "TPMU_ASYM_SCHEME_valid (ASYM_SCHEME_TPMS_SIG_SCHEME_ECDAA x) = TPMS_SCHEME_ECDAA_valid x"
| "TPMU_ASYM_SCHEME_valid (ASYM_SCHEME_TPMS_SIG_SCHEME_SM2 x) = TPMS_SCHEME_HASH_valid x"
| "TPMU_ASYM_SCHEME_valid (ASYM_SCHEME_TPMS_SIG_SCHEME_ECSCHNORR x) = TPMS_SCHEME_HASH_valid x"
| "TPMU_ASYM_SCHEME_valid ASYM_SCHEME_TPMS_ENC_SCHEME_RSAES = True"
| "TPMU_ASYM_SCHEME_valid (ASYM_SCHEME_TPMS_ENC_SCHEME_OAEP x) = TPMS_SCHEME_HASH_valid x"
| "TPMU_ASYM_SCHEME_valid (ASYM_SCHEME_TPMS_SCHEME_HASH _) = False"
| "TPMU_ASYM_SCHEME_valid ASYM_SCHEME_TPMS_NULL_ASYM_SCHEME = True"

lemma TPMU_ASYM_SCHEME_writes [writes_intros]: "TPMU_ASYM_SCHEME_valid u \<Longrightarrow> writes (TPMU_ASYM_SCHEME_toTpm u) (TPMU_ASYM_SCHEME_enc u)"
  by (cases u) (auto intro!: writes_intros)

lemma TPMU_ASYM_SCHEME_reads:
  "TPMU_ASYM_SCHEME_valid u \<Longrightarrow> reads (TPMU_ASYM_SCHEME_initFromTpm (TPMU_ASYM_SCHEME_fresh u)) u (TPMU_ASYM_SCHEME_enc u)"
  by (cases u) (auto intro!: reads_intros)

lemma TPMU_ASYM_SCHEME_reads_the:
  "opt_ok TPMU_ASYM_SCHEME_valid u \<Longrightarrow> reads (TPMU_ASYM_SCHEME_initFromTpm (TPMU_ASYM_SCHEME_fresh (the u))) (the u) (opt_enc TPMU_ASYM_SCHEME_enc u)"
  by (cases u) (simp_all add: TPMU_ASYM_SCHEME_reads)

lemma TPMU_ASYM_SCHEME_Create:
  "TPMU_ASYM_SCHEME_valid u \<Longrightarrow>
   UnionFactory_Create_TPMU_ASYM_SCHEME (TPMU_ASYM_SCHEME_GetUnionSelector u) = Ok (Some (TPMU_ASYM_SCHEME_fresh u))"
  by (cases u) (simp_all add: UnionFactory_Create_TPMU_ASYM_SCHEME_def)

lemma TPMU_ASYM_SCHEME_Create_the:
  "opt_ok TPMU_ASYM_SCHEME_valid u \<Longrightarrow>
   UnionFactory_Create_TPMU_ASYM_SCHEME (TPMU_ASYM_SCHEME_GetUnionSelector (the u)) = Ok (Some (TPMU_ASYM_SCHEME_fresh (the u)))"
  by (cases u) (simp_all add: TPMU_ASYM_SCHEME_Create)

lemmas TPMU_ASYM_SCHEME_steps [reads_intros] =
  reads_deref [where init = TPMU_ASYM_SCHEME_initFromTpm, OF TPMU_ASYM_SCHEME_reads_the]
  reads_deref_ret [where init = TPMU_ASYM_SCHEME_initFromTpm, OF TPMU_ASYM_SCHEME_reads_the]
  TPMU_ASYM_SCHEME_Create_the [THEN reads_bindO]

subsection \<open>TPMT_ASYM_SCHEME\<close>

text \<open>This structure is defined to allow overlay of all of the schemes for any asymmetric object.\<close>

record TPMT_ASYM_SCHEME =
  TPMT_ASYM_SCHEME_details :: "TPMU_ASYM_SCHEME option"

definition TPMT_ASYM_SCHEME_default :: TPMT_ASYM_SCHEME where
  "TPMT_ASYM_SCHEME_default = \<lparr>TPMT_ASYM_SCHEME_details = None\<rparr>"

definition TPMT_ASYM_SCHEME_toTpm :: "TPMT_ASYM_SCHEME \<Rightarrow> unit tpm" where
  "TPMT_ASYM_SCHEME_toTpm self =
     (if TPMT_ASYM_SCHEME_details self = None then ret ()
     else wseq [deref (TPMT_ASYM_SCHEME_details self) (\<lambda>u. writeShort (TPMU_ASYM_SCHEME_GetUnionSelector u)),
       deref (TPMT_ASYM_SCHEME_details self) TPMU_ASYM_SCHEME_toTpm])"

definition TPMT_ASYM_SCHEME_initFromTpm :: "TPMT_ASYM_SCHEME \<Rightarrow> TPMT_ASYM_SCHEME tpm" where
  "TPMT_ASYM_SCHEME_initFromTpm self =
     sbind readShort (\<lambda>scheme.
     bindO (UnionFactory_Create_TPMU_ASYM_SCHEME scheme) (\<lambda>details.
     sbind (deref details TPMU_ASYM_SCHEME_initFromTpm) (\<lambda>details.
     ret (self\<lparr>TPMT_ASYM_SCHEME_details := Some details\<rparr>))))"

definition TPMT_ASYM_SCHEME_enc :: "TPMT_ASYM_SCHEME \<Rightarrow> ByteVec" where
  "TPMT_ASYM_SCHEME_enc x =
     (if TPMT_ASYM_SCHEME_details x = None then []
     else opt_enc (\<lambda>u. enc16 (TPMU_ASYM_SCHEME_GetUnionSelector u)) (TPMT_ASYM_SCHEME_details x) @
       opt_enc TPMU_ASYM_SCHEME_enc (TPMT_ASYM_SCHEME_details x))"

definition TPMT_ASYM_SCHEME_valid :: "TPMT_ASYM_SCHEME \<Rightarrow> bool" where
  "TPMT_ASYM_SCHEME_valid x \<longleftrightarrow>
     opt_ok TPMU_ASYM_SCHEME_valid (TPMT_ASYM_SCHEME_details x)"

lemma TPMT_ASYM_SCHEME_null: "TPMT_ASYM_SCHEME_toTpm TPMT_ASYM_SCHEME_default = ret ()" "TPMT_ASYM_SCHEME_enc TPMT_ASYM_SCHEME_default = []"
  by (simp_all add: TPMT_ASYM_SCHEME_toTpm_def TPMT_ASYM_SCHEME_enc_def TPMT_ASYM_SCHEME_default_def)

lemma TPMT_ASYM_SCHEME_writes [writes_intros]:
  "TPMT_ASYM_SCHEME_valid x \<Longrightarrow> writes (TPMT_ASYM_SCHEME_toTpm x) (TPMT_ASYM_SCHEME_enc x)"
  by (auto simp: TPMT_ASYM_SCHEME_toTpm_def TPMT_ASYM_SCHEME_enc_def TPMT_ASYM_SCHEME_valid_def opt_ok_iff
      simp del: wseq.simps intro!: writes_intros)

lemma TPMT_ASYM_SCHEME_reads:
  "TPMT_ASYM_SCHEME_valid x \<Longrightarrow> reads (TPMT_ASYM_SCHEME_initFromTpm TPMT_ASYM_SCHEME_default) x (TPMT_ASYM_SCHEME_enc x)"
  by (simp only: TPMT_ASYM_SCHEME_initFromTpm_def TPMT_ASYM_SCHEME_enc_def TPMT_ASYM_SCHEME_default_def
        TPMT_ASYM_SCHEME.select_convs TPMT_ASYM_SCHEME.update_convs;
      intro reads_intros; (rule TPMT_ASYM_SCHEME.equality)?; simp add: TPMT_ASYM_SCHEME_valid_def opt_ok_iff)

interpretation TPMT_ASYM_SCHEME_codec:
  tpm_codec TPMT_ASYM_SCHEME_toTpm TPMT_ASYM_SCHEME_initFromTpm TPMT_ASYM_SCHEME_default
    TPMT_ASYM_SCHEME_enc TPMT_ASYM_SCHEME_valid
  by unfold_locales (simp_all add: TPMT_ASYM_SCHEME_writes TPMT_ASYM_SCHEME_reads TPMT_ASYM_SCHEME_null writes_ret)

subsection \<open>TPMT_RSA_SCHEME\<close>

text \<open>Table 172 Definition of (RSA) TPMT_RSA_SCHEME Structure.\<close>

record TPMT_RSA_SCHEME =
  TPMT_RSA_SCHEME_details :: "TPMU_ASYM_SCHEME option"

definition TPMT_RSA_SCHEME_default :: TPMT_RSA_SCHEME where
  "TPMT_RSA_SCHEME_default = \<lparr>TPMT_RSA_SCHEME_details = None\<rparr>"

definition TPMT_RSA_SCHEME_toTpm :: "TPMT_RSA_SCHEME \<Rightarrow> unit tpm" where
  "TPMT_RSA_SCHEME_toTpm self =
     (if TPMT_RSA_SCHEME_details self = None then ret ()
     else wseq [deref (TPMT_RSA_SCHEME_details self) (\<lambda>u. writeShort (TPMU_ASYM_SCHEME_GetUnionSelector u)),
       deref (TPMT_RSA_SCHEME_details self) TPMU_ASYM_SCHEME_toTpm])"

definition TPMT_RSA_SCHEME_initFromTpm :: "TPMT_RSA_SCHEME \<Rightarrow> TPMT_RSA_SCHEME tpm" where
  "TPMT_RSA_SCHEME_initFromTpm self =
     sbind readShort (\<lambda>scheme.
     bindO (UnionFactory_Create_TPMU_ASYM_SCHEME scheme) (\<lambda>details.
     sbind (deref details TPMU_ASYM_SCHEME_initFromTpm) (\<lambda>details.
     ret (self\<lparr>TPMT_RSA_SCHEME_details := Some details\<rparr>))))"

definition TPMT_RSA_SCHEME_enc :: "TPMT_RSA_SCHEME \<Rightarrow> ByteVec" where
  "TPMT_RSA_SCHEME_enc x =
     (if TPMT_RSA_SCHEME_details x = None then []
     else opt_enc (\<lambda>u. enc16 (TPMU_ASYM_SCHEME_GetUnionSelector u)) (TPMT_RSA_SCHEME_details x) @
       opt_enc TPMU_ASYM_SCHEME_enc (TPMT_RSA_SCHEME_details x))"

definition TPMT_RSA_SCHEME_valid :: "TPMT_RSA_SCHEME \<Rightarrow> bool" where
  "TPMT_RSA_SCHEME_valid x \<longleftrightarrow>
     opt_ok TPMU_ASYM_SCHEME_valid (TPMT_RSA_SCHEME_details x)"

lemma TPMT_RSA_SCHEME_null: "TPMT_RSA_SCHEME_toTpm TPMT_RSA_SCHEME_default = ret ()" "TPMT_RSA_SCHEME_enc TPMT_RSA_SCHEME_default = []"
  by (simp_all add: TPMT_RSA_SCHEME_toTpm_def TPMT_RSA_SCHEME_enc_def TPMT_RSA_SCHEME_default_def)

lemma TPMT_RSA_SCHEME_writes [writes_intros]:
  "TPMT_RSA_SCHEME_valid x \<Longrightarrow> writes (TPMT_RSA_SCHEME_toTpm x) (TPMT_RSA_SCHEME_enc x)"
  by (auto simp: TPMT_RSA_SCHEME_toTpm_def TPMT_RSA_SCHEME_enc_def TPMT_RSA_SCHEME_valid_def opt_ok_iff
      simp del: wseq.simps intro!: writes_intros)

lemma TPMT_RSA_SCHEME_reads:
  "TPMT_RSA_SCHEME_valid x \<Longrightarrow> reads (TPMT_RSA_SCHEME_initFromTpm TPMT_RSA_SCHEME_default) x (TPMT_RSA_SCHEME_enc x)"
  by (simp only: TPMT_RSA_SCHEME_initFromTpm_def TPMT_RSA_SCHEME_enc_def TPMT_RSA_SCHEME_default_def
        TPMT_RSA_SCHEME.select_convs TPMT_RSA_SCHEME.update_convs;
      intro reads_intros; (rule TPMT_RSA_SCHEME.equality)?; simp add: TPMT_RSA_SCHEME_valid_def opt_ok_iff)

interpretation TPMT_RSA_SCHEME_codec:
  tpm_codec TPMT_RSA_SCHEME_toTpm TPMT_RSA_SCHEME_initFromTpm TPMT_RSA_SCHEME_default
    TPMT_RSA_SCHEME_enc TPMT_RSA_SCHEME_valid
  by unfold_locales (simp_all add: TPMT_RSA_SCHEME_writes TPMT_RSA_SCHEME_reads TPMT_RSA_SCHEME_null writes_ret)

subsection \<open>TPMT_RSA_DECRYPT\<close>

text \<open>Table 174 Definition of (RSA) TPMT_RSA_DECRYPT Structure.\<close>

record TPMT_RSA_DECRYPT =
  TPMT_RSA_DECRYPT_details :: "TPMU_ASYM_SCHEME option"

definition TPMT_RSA_DECRYPT_default :: TPMT_RSA_DECRYPT where
  "TPMT_RSA_DECRYPT_default = \<lparr>TPMT_RSA_DECRYPT_details = None\<rparr>"

definition TPMT_RSA_DECRYPT_toTpm :: "TPMT_RSA_DECRYPT \<Rightarrow> unit tpm" where
  "TPMT_RSA_DECRYPT_toTpm self =
     (if TPMT_RSA_DECRYPT_details self = None then ret ()
     else wseq [deref (TPMT_RSA_DECRYPT_details self) (\<lambda>u. writeShort (TPMU_ASYM_SCHEME_GetUnionSelector u)),
       deref (TPMT_RSA_DECRYPT_details self) TPMU_ASYM_SCHEME_toTpm])"

definition TPMT_RSA_DECRYPT_initFromTpm :: "TPMT_RSA_DECRYPT \<Rightarrow> TPMT_RSA_DECRYPT tpm" where
  "TPMT_RSA_DECRYPT_initFromTpm self =
     sbind readShort (\<lambda>scheme.
     bindO (UnionFactory_Create_TPMU_ASYM_SCHEME scheme) (\<lambda>details.
     sbind (deref details TPMU_ASYM_SCHEME_initFromTpm) (\<lambda>details.
     ret (self\<lparr>TPMT_RSA_DECRYPT_details := Some details\<rparr>))))"

definition TPMT_RSA_DECRYPT_enc :: "TPMT_RSA_DECRYPT \<Rightarrow> ByteVec" where
  "TPMT_RSA_DECRYPT_enc x =
     (if TPMT_RSA_DECRYPT_details x = None then []
     else opt_enc (\<lambda>u. enc16 (TPMU_ASYM_SCHEME_GetUnionSelector u)) (TPMT_RSA_DECRYPT_details x) @
       opt_enc TPMU_ASYM_SCHEME_enc (TPMT_RSA_DECRYPT_details x))"

definition TPMT_RSA_DECRYPT_valid :: "TPMT_RSA_DECRYPT \<Rightarrow> bool" where
  "TPMT_RSA_DECRYPT_valid x \<longleftrightarrow>
     opt_ok TPMU_ASYM_SCHEME_valid (TPMT_RSA_DECRYPT_details x)"

lemma TPMT_RSA_DECRYPT_null: "TPMT_RSA_DECRYPT_toTpm TPMT_RSA_DECRYPT_default = ret ()" "TPMT_RSA_DECRYPT_enc TPMT_RSA_DECRYPT_default = []"
  by (simp_all add: TPMT_RSA_DECRYPT_toTpm_def TPMT_RSA_DECRYPT_enc_def TPMT_RSA_DECRYPT_default_def)

lemma TPMT_RSA_DECRYPT_writes [writes_intros]:
  "TPMT_RSA_DECRYPT_valid x \<Longrightarrow> writes (TPMT_RSA_DECRYPT_toTpm x) (TPMT_RSA_DECRYPT_enc x)"
  by (auto simp: TPMT_RSA_DECRYPT_toTpm_def TPMT_RSA_DECRYPT_enc_def TPMT_RSA_DECRYPT_valid_def opt_ok_iff
      simp del: wseq.simps intro!: writes_intros)

lemma TPMT_RSA_DECRYPT_reads:
  "TPMT_RSA_DECRYPT_valid x \<Longrightarrow> reads (TPMT_RSA_DECRYPT_initFromTpm TPMT_RSA_DECRYPT_default) x (TPMT_RSA_DECRYPT_enc x)"
  by (simp only: TPMT_RSA_DECRYPT_initFromTpm_def TPMT_RSA_DECRYPT_enc_def TPMT_RSA_DECRYPT_default_def
        TPMT_RSA_DECRYPT.select_convs TPMT_RSA_DECRYPT.update_convs;
      intro reads_intros; (rule TPMT_RSA_DECRYPT.equality)?; simp add: TPMT_RSA_DECRYPT_valid_def opt_ok_iff)

interpretation TPMT_RSA_DECRYPT_codec:
  tpm_codec TPMT_RSA_DECRYPT_toTpm TPMT_RSA_DECRYPT_initFromTpm TPMT_RSA_DECRYPT_default
    TPMT_RSA_DECRYPT_enc TPMT_RSA_DECRYPT_valid
  by unfold_locales (simp_all add: TPMT_RSA_DECRYPT_writes TPMT_RSA_DECRYPT_reads TPMT_RSA_DECRYPT_null writes_ret)

end
