(* ===== verification/AuthSession.thy ===== *)
theory AuthSession
  imports CryptoOps TpmSchemeTypes
begin

unbundle bit_operations_syntax

text \<open>
  \<^verbatim>\<open>TSS.CPP/include/Tss.h\<close> and \<^verbatim>\<open>TSS.CPP/Src/TpmAuthSessions.cpp\<close>: the class \<open>AUTH_SESSION\<close>, one
  authorization session as the client keeps it. Its session key is derived from the bound object's
  authorization value and the salt (\<open>CalcSessionKey\<close>); \<open>GetAuthHmac\<close> authorizes a command or checks a
  response; \<open>ParamXcrypt\<close> encrypts or decrypts the first parameter.

  Handles are compared by their value (both sides convert to \<open>UINT32\<close>).
\<close>

record AUTH_SESSION =
  as_handle :: TPM_HANDLE
  as_SessionType :: TPM_SE
  as_NonceTpm :: ByteVec
  as_NonceCaller :: ByteVec
  as_HashAlg :: TPM_ALG_ID
  as_SessionAttributes :: TPMA_SESSION
  as_Symmetric :: TPMT_SYM_DEF
  as_SessionKey :: ByteVec
  as_AuthValue :: ByteVec
  as_Salt :: ByteVec
  as_BindObject :: TPM_HANDLE
  as_NeedsHmac :: bool
  as_NeedsPassword :: bool
  as_SessionInitted :: bool

definition same_handle :: "TPM_HANDLE \<Rightarrow> TPM_HANDLE \<Rightarrow> bool" where
  "same_handle h k \<longleftrightarrow> TPM_HANDLE_handle h = TPM_HANDLE_handle k"

definition TPM_HANDLE_of :: "UINT32 \<Rightarrow> TPM_HANDLE" where
  "TPM_HANDLE_of v = TPM_HANDLE_default\<lparr>TPM_HANDLE_handle := v\<rparr>"

text \<open>
  The placeholder for a password session. Its type, hash algorithm and attributes are never
  initialised: they are whatever \<open>junk\<close> holds.
\<close>

definition AUTH_SESSION_PWAP :: "TPM_SE \<times> TPM_ALG_ID \<times> TPMA_SESSION \<Rightarrow> AUTH_SESSION" where
  "AUTH_SESSION_PWAP junk =
     \<lparr>as_handle = TPM_HANDLE_of TPM_RH_PW, as_SessionType = fst junk, as_NonceTpm = [],
      as_NonceCaller = [], as_HashAlg = fst (snd junk), as_SessionAttributes = snd (snd junk),
      as_Symmetric = TPMT_SYM_DEF_default, as_SessionKey = [], as_AuthValue = [], as_Salt = [],
      as_BindObject = TPM_HANDLE_default, as_NeedsHmac = False, as_NeedsPassword = False,
      as_SessionInitted = False\<rparr>"

definition IsPWAP :: "AUTH_SESSION \<Rightarrow> bool" where
  "IsPWAP s \<longleftrightarrow> TPM_HANDLE_handle (as_handle s) = TPM_RH_PW"

definition IncludePassword :: "AUTH_SESSION \<Rightarrow> AUTH_SESSION" where
  "IncludePassword s = s\<lparr>as_NeedsPassword := True\<rparr>"

definition ForceHmac :: "AUTH_SESSION \<Rightarrow> AUTH_SESSION" where
  "ForceHmac s = s\<lparr>as_NeedsHmac := True\<rparr>"

definition CanEncrypt :: "AUTH_SESSION \<Rightarrow> bool" where
  "CanEncrypt s \<longleftrightarrow> TPMT_SYM_DEF_algorithm (as_Symmetric s) \<noteq> TPM_ALG_ID_NULL"

section \<open>The session key\<close>

definition CalcSessionKey :: "Openssl \<Rightarrow> AUTH_SESSION \<Rightarrow> AUTH_SESSION outcome" where
  "CalcSessionKey ossl s = obind (oassert (as_SessionKey s = [])) (\<lambda>_.
     if as_Salt s = [] \<and> TPM_HANDLE_handle (as_BindObject s) = TPM_RH_NULL then Ok s
     else
       let bindAuth = TrimTrailingZeros (TPM_HANDLE_AuthValue (as_BindObject s));
           hmacKey = Concatenate [bindAuth, as_Salt s]
       in obind (KDFa ossl (as_HashAlg s) hmacKey ''ATH'' (as_NonceTpm s) (as_NonceCaller s)
                   (ucast (HashLength (as_HashAlg s)) * 8))
            (\<lambda>key. Ok (s\<lparr>as_SessionKey := key\<rparr>)))"

definition AUTH_SESSION_Init :: "Openssl \<Rightarrow> AUTH_SESSION \<Rightarrow> AUTH_SESSION outcome" where
  "AUTH_SESSION_Init ossl s =
     obind (CalcSessionKey ossl s) (\<lambda>t. Ok (t\<lparr>as_SessionInitted := True\<rparr>))"

definition AUTH_SESSION_new ::
  "Openssl \<Rightarrow> TPM_HANDLE \<Rightarrow> TPM_SE \<Rightarrow> TPM_ALG_ID \<Rightarrow> ByteVec \<Rightarrow> ByteVec \<Rightarrow> TPMA_SESSION \<Rightarrow>
   TPMT_SYM_DEF \<Rightarrow> ByteVec \<Rightarrow> TPM_HANDLE \<Rightarrow> AUTH_SESSION outcome" where
  "AUTH_SESSION_new ossl sessHandle type hashAlg nonceCaller nonceTpm attributes symDef salt boundObject =
     AUTH_SESSION_Init ossl
       \<lparr>as_handle = sessHandle, as_SessionType = type, as_NonceTpm = nonceTpm,
        as_NonceCaller = nonceCaller, as_HashAlg = hashAlg, as_SessionAttributes = attributes,
        as_Symmetric = symDef, as_SessionKey = [],
        as_AuthValue = (if TPM_HANDLE_handle boundObject \<noteq> TPM_RH_NULL
                        then TPM_HANDLE_AuthValue boundObject else []),
        as_Salt = salt, as_BindObject = boundObject, as_NeedsHmac = False, as_NeedsPassword = False,
        as_SessionInitted = False\<rparr>"

section \<open>Authorizing a command, checking a response\<close>

definition nonceNewer :: "bool \<Rightarrow> AUTH_SESSION \<Rightarrow> ByteVec" where
  "nonceNewer directionIn s = (if directionIn then as_NonceCaller s else as_NonceTpm s)"

definition nonceOlder :: "bool \<Rightarrow> AUTH_SESSION \<Rightarrow> ByteVec" where
  "nonceOlder directionIn s = (if directionIn then as_NonceTpm s else as_NonceCaller s)"

text \<open>The authorization value that the HMAC key ends with.\<close>

definition hmac_auth :: "AUTH_SESSION \<Rightarrow> TPM_HANDLE option \<Rightarrow> ByteVec" where
  "hmac_auth s authHandle =
     (let auth = TPM_HANDLE_AuthValue (as_handle s) in
      case authHandle of
        None \<Rightarrow> auth
      | Some h \<Rightarrow>
          if TPM_HANDLE_handle h \<noteq> TPM_RH_PW \<and> auth = [] \<and>
             ((as_SessionType s \<noteq> TPM_SE_POLICY \<and> \<not> same_handle (as_BindObject s) h) \<or>
              (as_SessionType s = TPM_SE_POLICY \<and> as_NeedsHmac s))
          then TrimTrailingZeros (TPM_HANDLE_AuthValue h)
          else auth)"

definition GetAuthHmac ::
  "Openssl \<Rightarrow> AUTH_SESSION \<Rightarrow> ByteVec \<Rightarrow> bool \<Rightarrow> ByteVec \<Rightarrow> ByteVec \<Rightarrow> TPM_HANDLE option \<Rightarrow>
   ByteVec outcome" where
  "GetAuthHmac ossl s parmHash directionIn nonceDec nonceEnc authHandle =
     obind (oassert (as_SessionInitted s)) (\<lambda>_.
       if as_NeedsPassword s then Ok (as_AuthValue s)
       else HMAC ossl (as_HashAlg s)
         (Concatenate [as_SessionKey s, hmac_auth s authHandle])
         (Concatenate [parmHash, nonceNewer directionIn s, nonceOlder directionIn s,
            nonceDec, nonceEnc, [as_SessionAttributes s]]))"

section \<open>Parameter encryption\<close>

text \<open>
  The size check lets the key sizes 0 and 384 pass: with the first the key is empty, with the second the
  iterators go past the end of \<open>keyInfo\<close>.
\<close>

definition ParamXcrypt :: "Openssl \<Rightarrow> AUTH_SESSION \<Rightarrow> ByteVec \<Rightarrow> bool \<Rightarrow> ByteVec outcome" where
  "ParamXcrypt ossl s parm request =
     (let sym = as_Symmetric s in
      if TPMT_SYM_DEF_algorithm sym \<noteq> TPM_ALG_ID_AES \<or> TPMT_SYM_DEF_mode sym \<noteq> TPM_ALG_ID_CFB \<or>
         TPMT_SYM_DEF_keyBits sym AND NOT (128 OR 256) \<noteq> 0
      then Throw (domain_error ''Only 128- or 256-bit AES in CFB mode is supported'')
      else
        let keySize = unat (TPMT_SYM_DEF_keyBits sym div 8) in
        obind (KDFa ossl (as_HashAlg s) (as_SessionKey s) ''CFB'' (nonceNewer request s)
                 (nonceOlder request s) 256) (\<lambda>keyInfo.
          if length keyInfo < keySize then Undef
          else CFBXcrypt ossl request TPM_ALG_ID_AES (take keySize keyInfo) (drop keySize keyInfo) parm))"

section \<open>What a session computes\<close>

text \<open>The nonces are short enough for the 4096 bytes of the buffer they are concatenated in.\<close>

definition nonces_ok :: "AUTH_SESSION \<Rightarrow> bool" where
  "nonces_ok s \<longleftrightarrow> length (as_NonceTpm s) + length (as_NonceCaller s) \<le> 4000"

lemma nonces_ok_dir: "nonces_ok s \<Longrightarrow> length (nonceNewer d s) + length (nonceOlder d s) \<le> 4000"
  by (auto simp: nonces_ok_def nonceNewer_def nonceOlder_def)

lemma CalcSessionKey_none:
  "as_SessionKey s = [] \<Longrightarrow> as_Salt s = [] \<Longrightarrow> TPM_HANDLE_handle (as_BindObject s) = TPM_RH_NULL \<Longrightarrow>
   CalcSessionKey ossl s = Ok s"
  by (simp add: CalcSessionKey_def oassert_def)

text \<open>
  A bound or salted session's key is one HMAC, keyed with the bound object's authorization value and
  the salt, over the label \<open>ATH\<close> and the two nonces.
\<close>

definition session_key :: "Openssl \<Rightarrow> AUTH_SESSION \<Rightarrow> ByteVec" where
  "session_key ossl s = ossl_hmac ossl (as_HashAlg s)
     (TrimTrailingZeros (TPM_HANDLE_AuthValue (as_BindObject s)) @ as_Salt s)
     (enc32 1 @ map of_char ''ATH'' @ [0] @ as_NonceTpm s @ as_NonceCaller s @
      enc32 (ucast (HashLength (as_HashAlg s)) * 8))"

lemma CalcSessionKey_bound:
  assumes ok: "ossl_ok ossl" and a: "IsImplemented ossl (as_HashAlg s)" and n: "nonces_ok s"
    and "as_SessionKey s = []"
    and "as_Salt s \<noteq> [] \<or> TPM_HANDLE_handle (as_BindObject s) \<noteq> TPM_RH_NULL"
  shows "CalcSessionKey ossl s = Ok (s\<lparr>as_SessionKey := session_key ossl s\<rparr>)"
proof -
  let ?h = "unat (HashLength (as_HashAlg s))" let ?n = "ucast (HashLength (as_HashAlg s)) * 8 :: UINT32"
  have h: "?h \<in> {20, 32, 48, 64}" by (rule IsImplemented_HashLength [OF a])
  have nb: "unat ?n = 8 * ?h" by (rule unat_bitsPerLoop [OF a])
  have "(8 * ?h + 8 * ?h - 1) div (8 * ?h) = 1" using h by auto
  moreover have "length (''ATH'' :: string) + length (as_NonceTpm s) + length (as_NonceCaller s) + 9 \<le> 4096"
    using n by (simp add: nonces_ok_def)
  moreover have "unat ?n \<le> 2 ^ 31" and "unat ?n mod 8 = 0" using nb h by auto
  ultimately have "KDFa ossl (as_HashAlg s) k ''ATH'' (as_NonceTpm s) (as_NonceCaller s) ?n =
      Ok (take ?h (kdf_stream ossl (as_HashAlg s) k ''ATH'' (as_NonceTpm s) (as_NonceCaller s) ?n 1))" for k
    using KDFa_bytes [OF ok a, of ?n "''ATH''" "as_NonceTpm s" "as_NonceCaller s" k] nb by simp
  moreover have "length (session_key ossl s) = ?h" using ok a by (simp add: session_key_def ossl_ok_def)
  ultimately show ?thesis
    using assms(4,5) by (auto simp: CalcSessionKey_def oassert_def Let_def kdf_stream_def session_key_def)
qed

text \<open>
  The HMAC of Part 1, 19.6.5 of the TPM specification as a formula: the client computes it for a command
  with its own nonce as the newer one, and for the response with the TPM's.
\<close>

definition auth_hmac ::
  "Openssl \<Rightarrow> AUTH_SESSION \<Rightarrow> ByteVec \<Rightarrow> ByteVec \<Rightarrow> ByteVec \<Rightarrow> ByteVec \<Rightarrow> ByteVec" where
  "auth_hmac ossl s auth pHash newer older = ossl_hmac ossl (as_HashAlg s) (as_SessionKey s @ auth)
     (pHash @ newer @ older @ [as_SessionAttributes s])"

lemma GetAuthHmac_command:
  "ossl_ok ossl \<Longrightarrow> IsImplemented ossl (as_HashAlg s) \<Longrightarrow> as_SessionInitted s \<Longrightarrow> \<not> as_NeedsPassword s \<Longrightarrow>
   GetAuthHmac ossl s cpHash True [] [] h =
     Ok (auth_hmac ossl s (hmac_auth s h) cpHash (as_NonceCaller s) (as_NonceTpm s))"
  by (simp add: GetAuthHmac_def oassert_def HMAC_Ok auth_hmac_def nonceNewer_def nonceOlder_def)

lemma GetAuthHmac_response:
  "ossl_ok ossl \<Longrightarrow> IsImplemented ossl (as_HashAlg s) \<Longrightarrow> as_SessionInitted s \<Longrightarrow> \<not> as_NeedsPassword s \<Longrightarrow>
   GetAuthHmac ossl s rpHash False [] [] h =
     Ok (auth_hmac ossl s (hmac_auth s h) rpHash (as_NonceTpm s) (as_NonceCaller s))"
  by (simp add: GetAuthHmac_def oassert_def HMAC_Ok auth_hmac_def nonceNewer_def nonceOlder_def)

lemma GetAuthHmac_password:
  "as_SessionInitted s \<Longrightarrow> as_NeedsPassword s \<Longrightarrow> GetAuthHmac ossl s p d nd ne h = Ok (as_AuthValue s)"
  by (simp add: GetAuthHmac_def oassert_def)

text \<open>The authorization value stays out of the key for the object that the session is bound to.\<close>

lemma hmac_auth_bound:
  "as_SessionType s \<noteq> TPM_SE_POLICY \<Longrightarrow> same_handle (as_BindObject s) h \<Longrightarrow>
   hmac_auth s (Some h) = TPM_HANDLE_AuthValue (as_handle s)"
  by (simp add: hmac_auth_def Let_def)

lemma hmac_auth_HMAC:
  "as_SessionType s = TPM_SE_HMAC \<Longrightarrow> \<not> same_handle (as_BindObject s) h \<Longrightarrow>
   TPM_HANDLE_handle h \<noteq> TPM_RH_PW \<Longrightarrow> TPM_HANDLE_AuthValue (as_handle s) = [] \<Longrightarrow>
   hmac_auth s (Some h) = TrimTrailingZeros (TPM_HANDLE_AuthValue h)"
  by (simp add: hmac_auth_def Let_def)

lemma hmac_auth_policy:
  "as_SessionType s = TPM_SE_POLICY \<Longrightarrow> TPM_HANDLE_handle h \<noteq> TPM_RH_PW \<Longrightarrow>
   TPM_HANDLE_AuthValue (as_handle s) = [] \<Longrightarrow>
   hmac_auth s (Some h) = (if as_NeedsHmac s then TrimTrailingZeros (TPM_HANDLE_AuthValue h) else [])"
  by (simp add: hmac_auth_def Let_def)

section \<open>What parameter encryption computes\<close>

definition xcrypt_stream :: "Openssl \<Rightarrow> AUTH_SESSION \<Rightarrow> bool \<Rightarrow> ByteVec" where
  "xcrypt_stream ossl s d =
     (let h = unat (HashLength (as_HashAlg s)) in
      take 32 (kdf_stream ossl (as_HashAlg s) (as_SessionKey s) ''CFB'' (nonceNewer d s) (nonceOlder d s) 256
        ((256 + 8 * h - 1) div (8 * h))))"

definition aes_cfb :: "UINT16 \<Rightarrow> AUTH_SESSION \<Rightarrow> bool" where
  "aes_cfb bits s \<longleftrightarrow> TPMT_SYM_DEF_algorithm (as_Symmetric s) = TPM_ALG_ID_AES \<and>
     TPMT_SYM_DEF_mode (as_Symmetric s) = TPM_ALG_ID_CFB \<and> TPMT_SYM_DEF_keyBits (as_Symmetric s) = bits"

lemma xcrypt_KDFa:
  assumes "ossl_ok ossl" and "IsImplemented ossl (as_HashAlg s)" and "nonces_ok s"
  shows "KDFa ossl (as_HashAlg s) (as_SessionKey s) ''CFB'' (nonceNewer d s) (nonceOlder d s) 256 =
      Ok (xcrypt_stream ossl s d)" and "length (xcrypt_stream ossl s d) = 32"
proof -
  show "KDFa ossl (as_HashAlg s) (as_SessionKey s) ''CFB'' (nonceNewer d s) (nonceOlder d s) 256 =
      Ok (xcrypt_stream ossl s d)"
    using KDFa_bytes [OF assms(1,2), of 256 "''CFB''" "nonceNewer d s" "nonceOlder d s" "as_SessionKey s"]
      nonces_ok_dir [OF assms(3), of d] by (simp add: xcrypt_stream_def Let_def)
  show "length (xcrypt_stream ossl s d) = 32"
    using IsImplemented_HashLength [OF assms(2)] length_kdf_stream [OF assms(1,2)]
    by (auto simp: xcrypt_stream_def Let_def)
qed

lemma ParamXcrypt_128:
  assumes "ossl_ok ossl" and "IsImplemented ossl (as_HashAlg s)" and "nonces_ok s" and "aes_cfb 128 s"
    and "parm \<noteq> []"
  shows "ParamXcrypt ossl s parm d = Ok (ossl_cfb128 ossl d (take 16 (xcrypt_stream ossl s d))
     (drop 16 (xcrypt_stream ossl s d)) parm)"
  using xcrypt_KDFa [OF assms(1-3), of d] assms(4,5)
  by (simp add: ParamXcrypt_def aes_cfb_def Let_def CFBXcrypt_def)

text \<open>With a 256-bit key nothing of the 256 derived bits is left: the initialisation vector is zero.\<close>

lemma ParamXcrypt_256:
  assumes "ossl_ok ossl" and "IsImplemented ossl (as_HashAlg s)" and "nonces_ok s" and "aes_cfb 256 s"
    and "parm \<noteq> []"
  shows "ParamXcrypt ossl s parm d =
    Ok (ossl_cfb128 ossl d (xcrypt_stream ossl s d) (replicate 16 0) parm)"
  using xcrypt_KDFa [OF assms(1-3), of d] assms(4,5)
  by (simp add: ParamXcrypt_def aes_cfb_def Let_def CFBXcrypt_def)

lemma ParamXcrypt_other:
  assumes "ossl_ok ossl" and "IsImplemented ossl (as_HashAlg s)" and "nonces_ok s"
    and "aes_cfb 0 s \<or> aes_cfb 384 s" and "parm \<noteq> []"
  shows "ParamXcrypt ossl s parm d = Undef"
  using xcrypt_KDFa [OF assms(1-3), of d] assms(4,5)
  by (auto simp: ParamXcrypt_def aes_cfb_def Let_def CFBXcrypt_def)

text \<open>The peer holds the same session with the nonces' roles exchanged, and so decrypts.\<close>

definition peer :: "AUTH_SESSION \<Rightarrow> AUTH_SESSION" where
  "peer s = s\<lparr>as_NonceTpm := as_NonceCaller s, as_NonceCaller := as_NonceTpm s\<rparr>"

lemma peer_nonces [simp]:
  "nonceNewer False (peer s) = nonceNewer True s" "nonceOlder False (peer s) = nonceOlder True s"
  by (simp_all add: peer_def nonceNewer_def nonceOlder_def)

lemma ParamXcrypt_peer:
  assumes ok: "ossl_ok ossl" and enc: "ParamXcrypt ossl s parm True = Ok c"
  shows "length c = length parm \<and> ParamXcrypt ossl (peer s) c False = Ok parm"
proof -
  obtain info where info: "KDFa ossl (as_HashAlg s) (as_SessionKey s) ''CFB'' (nonceNewer True s)
      (nonceOlder True s) 256 = Ok info"
    and "CFBXcrypt ossl True TPM_ALG_ID_AES
      (take (unat (TPMT_SYM_DEF_keyBits (as_Symmetric s) div 8)) info)
      (drop (unat (TPMT_SYM_DEF_keyBits (as_Symmetric s) div 8)) info) parm = Ok c"
    using enc by (auto simp: ParamXcrypt_def Let_def obind_eq_Ok split: if_splits)
  then show ?thesis
    using CFBXcrypt_inverse [OF ok] enc
    by (auto simp: ParamXcrypt_def Let_def peer_def [of s, THEN arg_cong, of as_HashAlg]
        peer_def [of s, THEN arg_cong, of as_SessionKey] peer_def [of s, THEN arg_cong, of as_Symmetric]
        split: if_splits)
qed

end
