(* ===== verification/TpmKeyTypes.thy ===== *)
theory TpmKeyTypes
  imports TpmSchemeTypes
begin

text \<open>
  \<^verbatim>\<open>TSS.CPP/include/TpmTypes.h\<close> and \<^verbatim>\<open>TSS.CPP/Src/TpmTypes.cpp\<close>: key parameters, signatures, public and sensitive areas.

  For each class \<open>X\<close> of the source: the record \<open>X\<close> of its members, \<open>X_default\<close> (its default
  constructor; members that C++ leaves uninitialised are 0), \<open>X_toTpm\<close> and \<open>X_initFromTpm\<close>; then
  the wire format \<open>X_enc\<close>, the values \<open>X_valid\<close> it can carry, and the proof that the methods
  implement it (the interpretation \<open>X_codec\<close>).
\<close>

subsection \<open>TPM2B_PUBLIC_KEY_RSA\<close>

text \<open>This sized buffer holds the largest RSA public key supported by the TPM.\<close>

record TPM2B_PUBLIC_KEY_RSA =
  TPM2B_PUBLIC_KEY_RSA_buffer :: "ByteVec"

definition TPM2B_PUBLIC_KEY_RSA_default :: TPM2B_PUBLIC_KEY_RSA where
  "TPM2B_PUBLIC_KEY_RSA_default = \<lparr>TPM2B_PUBLIC_KEY_RSA_buffer = []\<rparr>"

definition TPM2B_PUBLIC_KEY_RSA_toTpm :: "TPM2B_PUBLIC_KEY_RSA \<Rightarrow> unit tpm" where
  "TPM2B_PUBLIC_KEY_RSA_toTpm self =
     wseq [writeSizedByteBuf (TPM2B_PUBLIC_KEY_RSA_buffer self) 2]"

definition TPM2B_PUBLIC_KEY_RSA_initFromTpm :: "TPM2B_PUBLIC_KEY_RSA \<Rightarrow> TPM2B_PUBLIC_KEY_RSA tpm" where
  "TPM2B_PUBLIC_KEY_RSA_initFromTpm self =
     sbind (readSizedByteBuf 2) (\<lambda>buffer.
     ret (self\<lparr>TPM2B_PUBLIC_KEY_RSA_buffer := buffer\<rparr>))"

definition TPM2B_PUBLIC_KEY_RSA_enc :: "TPM2B_PUBLIC_KEY_RSA \<Rightarrow> ByteVec" where
  "TPM2B_PUBLIC_KEY_RSA_enc x =
     enc_sized 2 (TPM2B_PUBLIC_KEY_RSA_buffer x)"

definition TPM2B_PUBLIC_KEY_RSA_valid :: "TPM2B_PUBLIC_KEY_RSA \<Rightarrow> bool" where
  "TPM2B_PUBLIC_KEY_RSA_valid x \<longleftrightarrow>
     sized_ok 2 (TPM2B_PUBLIC_KEY_RSA_buffer x)"

lemma TPM2B_PUBLIC_KEY_RSA_writes [writes_intros]:
  "TPM2B_PUBLIC_KEY_RSA_valid x \<Longrightarrow> writes (TPM2B_PUBLIC_KEY_RSA_toTpm x) (TPM2B_PUBLIC_KEY_RSA_enc x)"
  unfolding TPM2B_PUBLIC_KEY_RSA_toTpm_def TPM2B_PUBLIC_KEY_RSA_enc_def
  by (intro writes_intros; simp add: TPM2B_PUBLIC_KEY_RSA_valid_def opt_ok_iff)

lemma TPM2B_PUBLIC_KEY_RSA_reads:
  "TPM2B_PUBLIC_KEY_RSA_valid x \<Longrightarrow> reads (TPM2B_PUBLIC_KEY_RSA_initFromTpm TPM2B_PUBLIC_KEY_RSA_default) x (TPM2B_PUBLIC_KEY_RSA_enc x)"
  by (simp only: TPM2B_PUBLIC_KEY_RSA_initFromTpm_def TPM2B_PUBLIC_KEY_RSA_enc_def TPM2B_PUBLIC_KEY_RSA_default_def
        TPM2B_PUBLIC_KEY_RSA.select_convs TPM2B_PUBLIC_KEY_RSA.update_convs;
      intro reads_intros; (rule TPM2B_PUBLIC_KEY_RSA.equality)?; simp add: TPM2B_PUBLIC_KEY_RSA_valid_def opt_ok_iff)

lemma TPM2B_PUBLIC_KEY_RSA_enc_nonempty [simp]: "TPM2B_PUBLIC_KEY_RSA_enc x \<noteq> []"
  by (simp add: TPM2B_PUBLIC_KEY_RSA_enc_def)

interpretation TPM2B_PUBLIC_KEY_RSA_codec:
  tpm_codec TPM2B_PUBLIC_KEY_RSA_toTpm TPM2B_PUBLIC_KEY_RSA_initFromTpm TPM2B_PUBLIC_KEY_RSA_default
    TPM2B_PUBLIC_KEY_RSA_enc TPM2B_PUBLIC_KEY_RSA_valid
  by unfold_locales (simp_all add: TPM2B_PUBLIC_KEY_RSA_writes TPM2B_PUBLIC_KEY_RSA_reads)

lemmas TPM2B_PUBLIC_KEY_RSA_steps [reads_intros] =
  TPM2B_PUBLIC_KEY_RSA_reads [THEN reads_sbind] TPM2B_PUBLIC_KEY_RSA_reads [THEN reads_sbind_ret]

subsection \<open>TPM2B_PRIVATE_KEY_RSA\<close>

text \<open>This sized buffer holds the largest RSA prime number supported by the TPM.\<close>

record TPM2B_PRIVATE_KEY_RSA =
  TPM2B_PRIVATE_KEY_RSA_buffer :: "ByteVec"

definition TPM2B_PRIVATE_KEY_RSA_default :: TPM2B_PRIVATE_KEY_RSA where
  "TPM2B_PRIVATE_KEY_RSA_default = \<lparr>TPM2B_PRIVATE_KEY_RSA_buffer = []\<rparr>"

definition TPM2B_PRIVATE_KEY_RSA_toTpm :: "TPM2B_PRIVATE_KEY_RSA \<Rightarrow> unit tpm" where
  "TPM2B_PRIVATE_KEY_RSA_toTpm self =
     wseq [writeSizedByteBuf (TPM2B_PRIVATE_KEY_RSA_buffer self) 2]"

definition TPM2B_PRIVATE_KEY_RSA_initFromTpm :: "TPM2B_PRIVATE_KEY_RSA \<Rightarrow> TPM2B_PRIVATE_KEY_RSA tpm" where
  "TPM2B_PRIVATE_KEY_RSA_initFromTpm self =
     sbind (readSizedByteBuf 2) (\<lambda>buffer.
     ret (self\<lparr>TPM2B_PRIVATE_KEY_RSA_buffer := buffer\<rparr>))"

definition TPM2B_PRIVATE_KEY_RSA_enc :: "TPM2B_PRIVATE_KEY_RSA \<Rightarrow> ByteVec" where
  "TPM2B_PRIVATE_KEY_RSA_enc x =
     enc_sized 2 (TPM2B_PRIVATE_KEY_RSA_buffer x)"

definition TPM2B_PRIVATE_KEY_RSA_valid :: "TPM2B_PRIVATE_KEY_RSA \<Rightarrow> bool" where
  "TPM2B_PRIVATE_KEY_RSA_valid x \<longleftrightarrow>
     sized_ok 2 (TPM2B_PRIVATE_KEY_RSA_buffer x)"

lemma TPM2B_PRIVATE_KEY_RSA_writes [writes_intros]:
  "TPM2B_PRIVATE_KEY_RSA_valid x \<Longrightarrow> writes (TPM2B_PRIVATE_KEY_RSA_toTpm x) (TPM2B_PRIVATE_KEY_RSA_enc x)"
  unfolding TPM2B_PRIVATE_KEY_RSA_toTpm_def TPM2B_PRIVATE_KEY_RSA_enc_def
  by (intro writes_intros; simp add: TPM2B_PRIVATE_KEY_RSA_valid_def opt_ok_iff)

lemma TPM2B_PRIVATE_KEY_RSA_reads:
  "TPM2B_PRIVATE_KEY_RSA_valid x \<Longrightarrow> reads (TPM2B_PRIVATE_KEY_RSA_initFromTpm TPM2B_PRIVATE_KEY_RSA_default) x (TPM2B_PRIVATE_KEY_RSA_enc x)"
  by (simp only: TPM2B_PRIVATE_KEY_RSA_initFromTpm_def TPM2B_PRIVATE_KEY_RSA_enc_def TPM2B_PRIVATE_KEY_RSA_default_def
        TPM2B_PRIVATE_KEY_RSA.select_convs TPM2B_PRIVATE_KEY_RSA.update_convs;
      intro reads_intros; (rule TPM2B_PRIVATE_KEY_RSA.equality)?; simp add: TPM2B_PRIVATE_KEY_RSA_valid_def opt_ok_iff)

lemma TPM2B_PRIVATE_KEY_RSA_enc_nonempty [simp]: "TPM2B_PRIVATE_KEY_RSA_enc x \<noteq> []"
  by (simp add: TPM2B_PRIVATE_KEY_RSA_enc_def)

interpretation TPM2B_PRIVATE_KEY_RSA_codec:
  tpm_codec TPM2B_PRIVATE_KEY_RSA_toTpm TPM2B_PRIVATE_KEY_RSA_initFromTpm TPM2B_PRIVATE_KEY_RSA_default
    TPM2B_PRIVATE_KEY_RSA_enc TPM2B_PRIVATE_KEY_RSA_valid
  by unfold_locales (simp_all add: TPM2B_PRIVATE_KEY_RSA_writes TPM2B_PRIVATE_KEY_RSA_reads)

lemmas TPM2B_PRIVATE_KEY_RSA_steps [reads_intros] =
  TPM2B_PRIVATE_KEY_RSA_reads [THEN reads_sbind] TPM2B_PRIVATE_KEY_RSA_reads [THEN reads_sbind_ret]

subsection \<open>TPM2B_ECC_PARAMETER\<close>

text \<open>This sized buffer holds the largest ECC parameter (coordinate) supported by the TPM.\<close>

record TPM2B_ECC_PARAMETER =
  TPM2B_ECC_PARAMETER_buffer :: "ByteVec"

definition TPM2B_ECC_PARAMETER_default :: TPM2B_ECC_PARAMETER where
  "TPM2B_ECC_PARAMETER_default = \<lparr>TPM2B_ECC_PARAMETER_buffer = []\<rparr>"

definition TPM2B_ECC_PARAMETER_toTpm :: "TPM2B_ECC_PARAMETER \<Rightarrow> unit tpm" where
  "TPM2B_ECC_PARAMETER_toTpm self =
     wseq [writeSizedByteBuf (TPM2B_ECC_PARAMETER_buffer self) 2]"

definition TPM2B_ECC_PARAMETER_initFromTpm :: "TPM2B_ECC_PARAMETER \<Rightarrow> TPM2B_ECC_PARAMETER tpm" where
  "TPM2B_ECC_PARAMETER_initFromTpm self =
     sbind (readSizedByteBuf 2) (\<lambda>buffer.
     ret (self\<lparr>TPM2B_ECC_PARAMETER_buffer := buffer\<rparr>))"

definition TPM2B_ECC_PARAMETER_enc :: "TPM2B_ECC_PARAMETER \<Rightarrow> ByteVec" where
  "TPM2B_ECC_PARAMETER_enc x =
     enc_sized 2 (TPM2B_ECC_PARAMETER_buffer x)"

definition TPM2B_ECC_PARAMETER_valid :: "TPM2B_ECC_PARAMETER \<Rightarrow> bool" where
  "TPM2B_ECC_PARAMETER_valid x \<longleftrightarrow>
     sized_ok 2 (TPM2B_ECC_PARAMETER_buffer x)"

lemma TPM2B_ECC_PARAMETER_writes [writes_intros]:
  "TPM2B_ECC_PARAMETER_valid x \<Longrightarrow> writes (TPM2B_ECC_PARAMETER_toTpm x) (TPM2B_ECC_PARAMETER_enc x)"
  unfolding TPM2B_ECC_PARAMETER_toTpm_def TPM2B_ECC_PARAMETER_enc_def
  by (intro writes_intros; simp add: TPM2B_ECC_PARAMETER_valid_def opt_ok_iff)

lemma TPM2B_ECC_PARAMETER_reads:
  "TPM2B_ECC_PARAMETER_valid x \<Longrightarrow> reads (TPM2B_ECC_PARAMETER_initFromTpm TPM2B_ECC_PARAMETER_default) x (TPM2B_ECC_PARAMETER_enc x)"
  by (simp only: TPM2B_ECC_PARAMETER_initFromTpm_def TPM2B_ECC_PARAMETER_enc_def TPM2B_ECC_PARAMETER_default_def
        TPM2B_ECC_PARAMETER.select_convs TPM2B_ECC_PARAMETER.update_convs;
      intro reads_intros; (rule TPM2B_ECC_PARAMETER.equality)?; simp add: TPM2B_ECC_PARAMETER_valid_def opt_ok_iff)

lemma TPM2B_ECC_PARAMETER_enc_nonempty [simp]: "TPM2B_ECC_PARAMETER_enc x \<noteq> []"
  by (simp add: TPM2B_ECC_PARAMETER_enc_def)

interpretation TPM2B_ECC_PARAMETER_codec:
  tpm_codec TPM2B_ECC_PARAMETER_toTpm TPM2B_ECC_PARAMETER_initFromTpm TPM2B_ECC_PARAMETER_default
    TPM2B_ECC_PARAMETER_enc TPM2B_ECC_PARAMETER_valid
  by unfold_locales (simp_all add: TPM2B_ECC_PARAMETER_writes TPM2B_ECC_PARAMETER_reads)

lemmas TPM2B_ECC_PARAMETER_steps [reads_intros] =
  TPM2B_ECC_PARAMETER_reads [THEN reads_sbind] TPM2B_ECC_PARAMETER_reads [THEN reads_sbind_ret]

subsection \<open>TPMS_ECC_POINT\<close>

text \<open>This structure holds two ECC coordinates that, together, make up an ECC point.\<close>

record TPMS_ECC_POINT =
  TPMS_ECC_POINT_x :: "ByteVec"
  TPMS_ECC_POINT_y :: "ByteVec"

definition TPMS_ECC_POINT_default :: TPMS_ECC_POINT where
  "TPMS_ECC_POINT_default = \<lparr>TPMS_ECC_POINT_x = [], TPMS_ECC_POINT_y = []\<rparr>"

definition TPMS_ECC_POINT_toTpm :: "TPMS_ECC_POINT \<Rightarrow> unit tpm" where
  "TPMS_ECC_POINT_toTpm self =
     wseq [writeSizedByteBuf (TPMS_ECC_POINT_x self) 2,
       writeSizedByteBuf (TPMS_ECC_POINT_y self) 2]"

definition TPMS_ECC_POINT_initFromTpm :: "TPMS_ECC_POINT \<Rightarrow> TPMS_ECC_POINT tpm" where
  "TPMS_ECC_POINT_initFromTpm self =
     sbind (readSizedByteBuf 2) (\<lambda>x.
     sbind (readSizedByteBuf 2) (\<lambda>y.
     ret (self\<lparr>TPMS_ECC_POINT_x := x, TPMS_ECC_POINT_y := y\<rparr>)))"

definition TPMS_ECC_POINT_enc :: "TPMS_ECC_POINT \<Rightarrow> ByteVec" where
  "TPMS_ECC_POINT_enc x =
     enc_sized 2 (TPMS_ECC_POINT_x x) @
     enc_sized 2 (TPMS_ECC_POINT_y x)"

definition TPMS_ECC_POINT_valid :: "TPMS_ECC_POINT \<Rightarrow> bool" where
  "TPMS_ECC_POINT_valid x \<longleftrightarrow>
     sized_ok 2 (TPMS_ECC_POINT_x x) \<and>
     sized_ok 2 (TPMS_ECC_POINT_y x)"

lemma TPMS_ECC_POINT_writes [writes_intros]:
  "TPMS_ECC_POINT_valid x \<Longrightarrow> writes (TPMS_ECC_POINT_toTpm x) (TPMS_ECC_POINT_enc x)"
  unfolding TPMS_ECC_POINT_toTpm_def TPMS_ECC_POINT_enc_def
  by (intro writes_intros; simp add: TPMS_ECC_POINT_valid_def opt_ok_iff)

lemma TPMS_ECC_POINT_reads:
  "TPMS_ECC_POINT_valid x \<Longrightarrow> reads (TPMS_ECC_POINT_initFromTpm TPMS_ECC_POINT_default) x (TPMS_ECC_POINT_enc x)"
  by (simp only: TPMS_ECC_POINT_initFromTpm_def TPMS_ECC_POINT_enc_def TPMS_ECC_POINT_default_def
        TPMS_ECC_POINT.select_convs TPMS_ECC_POINT.update_convs;
      intro reads_intros; (rule TPMS_ECC_POINT.equality)?; simp add: TPMS_ECC_POINT_valid_def opt_ok_iff)

lemma TPMS_ECC_POINT_enc_nonempty [simp]: "TPMS_ECC_POINT_enc x \<noteq> []"
  by (simp add: TPMS_ECC_POINT_enc_def)

interpretation TPMS_ECC_POINT_codec:
  tpm_codec TPMS_ECC_POINT_toTpm TPMS_ECC_POINT_initFromTpm TPMS_ECC_POINT_default
    TPMS_ECC_POINT_enc TPMS_ECC_POINT_valid
  by unfold_locales (simp_all add: TPMS_ECC_POINT_writes TPMS_ECC_POINT_reads)

lemmas TPMS_ECC_POINT_parts [writes_intros] = TPMS_ECC_POINT_codec.writes_sized

lemmas TPMS_ECC_POINT_steps [reads_intros] =
  TPMS_ECC_POINT_reads [THEN reads_sbind] TPMS_ECC_POINT_reads [THEN reads_sbind_ret]
  TPMS_ECC_POINT_codec.reads_sizedObj [THEN reads_sbind] TPMS_ECC_POINT_codec.reads_sizedObj [THEN reads_sbind_ret]

subsection \<open>TPM2B_ECC_POINT\<close>

text \<open>This structure is defined to allow a point to be a single sized parameter so that it may be encrypted.\<close>

record TPM2B_ECC_POINT =
  TPM2B_ECC_POINT_point :: "TPMS_ECC_POINT"

definition TPM2B_ECC_POINT_default :: TPM2B_ECC_POINT where
  "TPM2B_ECC_POINT_default = \<lparr>TPM2B_ECC_POINT_point = TPMS_ECC_POINT_default\<rparr>"

definition TPM2B_ECC_POINT_toTpm :: "TPM2B_ECC_POINT \<Rightarrow> unit tpm" where
  "TPM2B_ECC_POINT_toTpm self =
     wseq [writeSizedObj TPMS_ECC_POINT_toTpm (TPM2B_ECC_POINT_point self)]"

definition TPM2B_ECC_POINT_initFromTpm :: "TPM2B_ECC_POINT \<Rightarrow> TPM2B_ECC_POINT tpm" where
  "TPM2B_ECC_POINT_initFromTpm self =
     sbind (readSizedObj TPMS_ECC_POINT_initFromTpm (TPM2B_ECC_POINT_point self)) (\<lambda>point.
     ret (self\<lparr>TPM2B_ECC_POINT_point := point\<rparr>))"

definition TPM2B_ECC_POINT_enc :: "TPM2B_ECC_POINT \<Rightarrow> ByteVec" where
  "TPM2B_ECC_POINT_enc x =
     enc_obj (TPMS_ECC_POINT_enc (TPM2B_ECC_POINT_point x))"

definition TPM2B_ECC_POINT_valid :: "TPM2B_ECC_POINT \<Rightarrow> bool" where
  "TPM2B_ECC_POINT_valid x \<longleftrightarrow>
     sized_obj_ok TPMS_ECC_POINT_default TPMS_ECC_POINT_enc TPMS_ECC_POINT_valid (TPM2B_ECC_POINT_point x)"

lemma TPM2B_ECC_POINT_writes [writes_intros]:
  "TPM2B_ECC_POINT_valid x \<Longrightarrow> writes (TPM2B_ECC_POINT_toTpm x) (TPM2B_ECC_POINT_enc x)"
  unfolding TPM2B_ECC_POINT_toTpm_def TPM2B_ECC_POINT_enc_def
  by (intro writes_intros; simp add: TPM2B_ECC_POINT_valid_def opt_ok_iff)

lemma TPM2B_ECC_POINT_reads:
  "TPM2B_ECC_POINT_valid x \<Longrightarrow> reads (TPM2B_ECC_POINT_initFromTpm TPM2B_ECC_POINT_default) x (TPM2B_ECC_POINT_enc x)"
  by (simp only: TPM2B_ECC_POINT_initFromTpm_def TPM2B_ECC_POINT_enc_def TPM2B_ECC_POINT_default_def
        TPM2B_ECC_POINT.select_convs TPM2B_ECC_POINT.update_convs;
      intro reads_intros; (rule TPM2B_ECC_POINT.equality)?; simp add: TPM2B_ECC_POINT_valid_def opt_ok_iff)

interpretation TPM2B_ECC_POINT_codec:
  tpm_codec TPM2B_ECC_POINT_toTpm TPM2B_ECC_POINT_initFromTpm TPM2B_ECC_POINT_default
    TPM2B_ECC_POINT_enc TPM2B_ECC_POINT_valid
  by unfold_locales (erule TPM2B_ECC_POINT_writes TPM2B_ECC_POINT_reads | simp add: TPM2B_ECC_POINT_enc_def)+

subsection \<open>TPMT_ECC_SCHEME\<close>

text \<open>Table 183 Definition of (TPMT_SIG_SCHEME) (ECC) TPMT_ECC_SCHEME Structure.\<close>

record TPMT_ECC_SCHEME =
  TPMT_ECC_SCHEME_details :: "TPMU_ASYM_SCHEME option"

definition TPMT_ECC_SCHEME_default :: TPMT_ECC_SCHEME where
  "TPMT_ECC_SCHEME_default = \<lparr>TPMT_ECC_SCHEME_details = None\<rparr>"

definition TPMT_ECC_SCHEME_toTpm :: "TPMT_ECC_SCHEME \<Rightarrow> unit tpm" where
  "TPMT_ECC_SCHEME_toTpm self =
     (if TPMT_ECC_SCHEME_details self = None then ret ()
     else wseq [deref (TPMT_ECC_SCHEME_details self) (\<lambda>u. writeShort (TPMU_ASYM_SCHEME_GetUnionSelector u)),
       deref (TPMT_ECC_SCHEME_details self) TPMU_ASYM_SCHEME_toTpm])"

definition TPMT_ECC_SCHEME_initFromTpm :: "TPMT_ECC_SCHEME \<Rightarrow> TPMT_ECC_SCHEME tpm" where
  "TPMT_ECC_SCHEME_initFromTpm self =
     sbind readShort (\<lambda>scheme.
     bindO (UnionFactory_Create_TPMU_ASYM_SCHEME scheme) (\<lambda>details.
     sbind (deref details TPMU_ASYM_SCHEME_initFromTpm) (\<lambda>details.
     ret (self\<lparr>TPMT_ECC_SCHEME_details := Some details\<rparr>))))"

definition TPMT_ECC_SCHEME_enc :: "TPMT_ECC_SCHEME \<Rightarrow> ByteVec" where
  "TPMT_ECC_SCHEME_enc x =
     (if TPMT_ECC_SCHEME_details x = None then []
     else opt_enc (\<lambda>u. enc16 (TPMU_ASYM_SCHEME_GetUnionSelector u)) (TPMT_ECC_SCHEME_details x) @
       opt_enc TPMU_ASYM_SCHEME_enc (TPMT_ECC_SCHEME_details x))"

definition TPMT_ECC_SCHEME_valid :: "TPMT_ECC_SCHEME \<Rightarrow> bool" where
  "TPMT_ECC_SCHEME_valid x \<longleftrightarrow>
     opt_ok TPMU_ASYM_SCHEME_valid (TPMT_ECC_SCHEME_details x)"

lemma TPMT_ECC_SCHEME_null: "TPMT_ECC_SCHEME_toTpm TPMT_ECC_SCHEME_default = ret ()" "TPMT_ECC_SCHEME_enc TPMT_ECC_SCHEME_default = []"
  by (simp_all add: TPMT_ECC_SCHEME_toTpm_def TPMT_ECC_SCHEME_enc_def TPMT_ECC_SCHEME_default_def)

lemma TPMT_ECC_SCHEME_writes [writes_intros]:
  "TPMT_ECC_SCHEME_valid x \<Longrightarrow> writes (TPMT_ECC_SCHEME_toTpm x) (TPMT_ECC_SCHEME_enc x)"
  by (auto simp: TPMT_ECC_SCHEME_toTpm_def TPMT_ECC_SCHEME_enc_def TPMT_ECC_SCHEME_valid_def opt_ok_iff
      simp del: wseq.simps intro!: writes_intros)

lemma TPMT_ECC_SCHEME_reads:
  "TPMT_ECC_SCHEME_valid x \<Longrightarrow> reads (TPMT_ECC_SCHEME_initFromTpm TPMT_ECC_SCHEME_default) x (TPMT_ECC_SCHEME_enc x)"
  by (simp only: TPMT_ECC_SCHEME_initFromTpm_def TPMT_ECC_SCHEME_enc_def TPMT_ECC_SCHEME_default_def
        TPMT_ECC_SCHEME.select_convs TPMT_ECC_SCHEME.update_convs;
      intro reads_intros; (rule TPMT_ECC_SCHEME.equality)?; simp add: TPMT_ECC_SCHEME_valid_def opt_ok_iff)

interpretation TPMT_ECC_SCHEME_codec:
  tpm_codec TPMT_ECC_SCHEME_toTpm TPMT_ECC_SCHEME_initFromTpm TPMT_ECC_SCHEME_default
    TPMT_ECC_SCHEME_enc TPMT_ECC_SCHEME_valid
  by unfold_locales (simp_all add: TPMT_ECC_SCHEME_writes TPMT_ECC_SCHEME_reads TPMT_ECC_SCHEME_null writes_ret)

subsection \<open>TPMS_ALGORITHM_DETAIL_ECC\<close>

text \<open>This structure is used to report on the curve parameters of an ECC curve.\<close>

record TPMS_ALGORITHM_DETAIL_ECC =
  TPMS_ALGORITHM_DETAIL_ECC_curveID :: "TPM_ECC_CURVE"
  TPMS_ALGORITHM_DETAIL_ECC_keySize :: "UINT16"
  TPMS_ALGORITHM_DETAIL_ECC_kdf :: "TPMU_KDF_SCHEME option"
  TPMS_ALGORITHM_DETAIL_ECC_sign :: "TPMU_ASYM_SCHEME option"
  TPMS_ALGORITHM_DETAIL_ECC_p :: "ByteVec"
  TPMS_ALGORITHM_DETAIL_ECC_a :: "ByteVec"
  TPMS_ALGORITHM_DETAIL_ECC_b :: "ByteVec"
  TPMS_ALGORITHM_DETAIL_ECC_gX :: "ByteVec"
  TPMS_ALGORITHM_DETAIL_ECC_gY :: "ByteVec"
  TPMS_ALGORITHM_DETAIL_ECC_n :: "ByteVec"
  TPMS_ALGORITHM_DETAIL_ECC_h :: "ByteVec"

definition TPMS_ALGORITHM_DETAIL_ECC_default :: TPMS_ALGORITHM_DETAIL_ECC where
  "TPMS_ALGORITHM_DETAIL_ECC_default = \<lparr>TPMS_ALGORITHM_DETAIL_ECC_curveID = 0, TPMS_ALGORITHM_DETAIL_ECC_keySize = 0, TPMS_ALGORITHM_DETAIL_ECC_kdf = None, TPMS_ALGORITHM_DETAIL_ECC_sign = None, TPMS_ALGORITHM_DETAIL_ECC_p = [], TPMS_ALGORITHM_DETAIL_ECC_a = [], TPMS_ALGORITHM_DETAIL_ECC_b = [], TPMS_ALGORITHM_DETAIL_ECC_gX = [], TPMS_ALGORITHM_DETAIL_ECC_gY = [], TPMS_ALGORITHM_DETAIL_ECC_n = [], TPMS_ALGORITHM_DETAIL_ECC_h = []\<rparr>"

definition TPMS_ALGORITHM_DETAIL_ECC_toTpm :: "TPMS_ALGORITHM_DETAIL_ECC \<Rightarrow> unit tpm" where
  "TPMS_ALGORITHM_DETAIL_ECC_toTpm self =
     wseq [writeShort (TPMS_ALGORITHM_DETAIL_ECC_curveID self),
       writeShort (TPMS_ALGORITHM_DETAIL_ECC_keySize self),
       deref (TPMS_ALGORITHM_DETAIL_ECC_kdf self) (\<lambda>u. writeShort (TPMU_KDF_SCHEME_GetUnionSelector u)),
       deref (TPMS_ALGORITHM_DETAIL_ECC_kdf self) TPMU_KDF_SCHEME_toTpm,
       deref (TPMS_ALGORITHM_DETAIL_ECC_sign self) (\<lambda>u. writeShort (TPMU_ASYM_SCHEME_GetUnionSelector u)),
       deref (TPMS_ALGORITHM_DETAIL_ECC_sign self) TPMU_ASYM_SCHEME_toTpm,
       writeSizedByteBuf (TPMS_ALGORITHM_DETAIL_ECC_p self) 2,
       writeSizedByteBuf (TPMS_ALGORITHM_DETAIL_ECC_a self) 2,
       writeSizedByteBuf (TPMS_ALGORITHM_DETAIL_ECC_b self) 2,
       writeSizedByteBuf (TPMS_ALGORITHM_DETAIL_ECC_gX self) 2,
       writeSizedByteBuf (TPMS_ALGORITHM_DETAIL_ECC_gY self) 2,
       writeSizedByteBuf (TPMS_ALGORITHM_DETAIL_ECC_n self) 2,
       writeSizedByteBuf (TPMS_ALGORITHM_DETAIL_ECC_h self) 2]"

definition TPMS_ALGORITHM_DETAIL_ECC_initFromTpm :: "TPMS_ALGORITHM_DETAIL_ECC \<Rightarrow> TPMS_ALGORITHM_DETAIL_ECC tpm" where
  "TPMS_ALGORITHM_DETAIL_ECC_initFromTpm self =
     sbind readShort (\<lambda>curveID.
     sbind readShort (\<lambda>keySize.
     sbind readShort (\<lambda>kdfScheme.
     bindO (UnionFactory_Create_TPMU_KDF_SCHEME kdfScheme) (\<lambda>kdf.
     sbind (deref kdf TPMU_KDF_SCHEME_initFromTpm) (\<lambda>kdf.
     sbind readShort (\<lambda>signScheme.
     bindO (UnionFactory_Create_TPMU_ASYM_SCHEME signScheme) (\<lambda>sign.
     sbind (deref sign TPMU_ASYM_SCHEME_initFromTpm) (\<lambda>sign.
     sbind (readSizedByteBuf 2) (\<lambda>p.
     sbind (readSizedByteBuf 2) (\<lambda>a.
     sbind (readSizedByteBuf 2) (\<lambda>b.
     sbind (readSizedByteBuf 2) (\<lambda>gX.
     sbind (readSizedByteBuf 2) (\<lambda>gY.
     sbind (readSizedByteBuf 2) (\<lambda>n.
     sbind (readSizedByteBuf 2) (\<lambda>h.
     ret (self\<lparr>TPMS_ALGORITHM_DETAIL_ECC_curveID := curveID, TPMS_ALGORITHM_DETAIL_ECC_keySize := keySize, TPMS_ALGORITHM_DETAIL_ECC_kdf := Some kdf, TPMS_ALGORITHM_DETAIL_ECC_sign := Some sign, TPMS_ALGORITHM_DETAIL_ECC_p := p, TPMS_ALGORITHM_DETAIL_ECC_a := a, TPMS_ALGORITHM_DETAIL_ECC_b := b, TPMS_ALGORITHM_DETAIL_ECC_gX := gX, TPMS_ALGORITHM_DETAIL_ECC_gY := gY, TPMS_ALGORITHM_DETAIL_ECC_n := n, TPMS_ALGORITHM_DETAIL_ECC_h := h\<rparr>))))))))))))))))"

definition TPMS_ALGORITHM_DETAIL_ECC_enc :: "TPMS_ALGORITHM_DETAIL_ECC \<Rightarrow> ByteVec" where
  "TPMS_ALGORITHM_DETAIL_ECC_enc x =
     enc16 (TPMS_ALGORITHM_DETAIL_ECC_curveID x) @
     enc16 (TPMS_ALGORITHM_DETAIL_ECC_keySize x) @
     opt_enc (\<lambda>u. enc16 (TPMU_KDF_SCHEME_GetUnionSelector u)) (TPMS_ALGORITHM_DETAIL_ECC_kdf x) @
     opt_enc TPMU_KDF_SCHEME_enc (TPMS_ALGORITHM_DETAIL_ECC_kdf x) @
     opt_enc (\<lambda>u. enc16 (TPMU_ASYM_SCHEME_GetUnionSelector u)) (TPMS_ALGORITHM_DETAIL_ECC_sign x) @
     opt_enc TPMU_ASYM_SCHEME_enc (TPMS_ALGORITHM_DETAIL_ECC_sign x) @
     enc_sized 2 (TPMS_ALGORITHM_DETAIL_ECC_p x) @
     enc_sized 2 (TPMS_ALGORITHM_DETAIL_ECC_a x) @
     enc_sized 2 (TPMS_ALGORITHM_DETAIL_ECC_b x) @
     enc_sized 2 (TPMS_ALGORITHM_DETAIL_ECC_gX x) @
     enc_sized 2 (TPMS_ALGORITHM_DETAIL_ECC_gY x) @
     enc_sized 2 (TPMS_ALGORITHM_DETAIL_ECC_n x) @
     enc_sized 2 (TPMS_ALGORITHM_DETAIL_ECC_h x)"

definition TPMS_ALGORITHM_DETAIL_ECC_valid :: "TPMS_ALGORITHM_DETAIL_ECC \<Rightarrow> bool" where
  "TPMS_ALGORITHM_DETAIL_ECC_valid x \<longleftrightarrow>
     opt_ok TPMU_KDF_SCHEME_valid (TPMS_ALGORITHM_DETAIL_ECC_kdf x) \<and>
     opt_ok TPMU_ASYM_SCHEME_valid (TPMS_ALGORITHM_DETAIL_ECC_sign x) \<and>
     sized_ok 2 (TPMS_ALGORITHM_DETAIL_ECC_p x) \<and>
     sized_ok 2 (TPMS_ALGORITHM_DETAIL_ECC_a x) \<and>
     sized_ok 2 (TPMS_ALGORITHM_DETAIL_ECC_b x) \<and>
     sized_ok 2 (TPMS_ALGORITHM_DETAIL_ECC_gX x) \<and>
     sized_ok 2 (TPMS_ALGORITHM_DETAIL_ECC_gY x) \<and>
     sized_ok 2 (TPMS_ALGORITHM_DETAIL_ECC_n x) \<and>
     sized_ok 2 (TPMS_ALGORITHM_DETAIL_ECC_h x)"

lemma TPMS_ALGORITHM_DETAIL_ECC_writes [writes_intros]:
  "TPMS_ALGORITHM_DETAIL_ECC_valid x \<Longrightarrow> writes (TPMS_ALGORITHM_DETAIL_ECC_toTpm x) (TPMS_ALGORITHM_DETAIL_ECC_enc x)"
  unfolding TPMS_ALGORITHM_DETAIL_ECC_toTpm_def TPMS_ALGORITHM_DETAIL_ECC_enc_def
  by (intro writes_intros; simp add: TPMS_ALGORITHM_DETAIL_ECC_valid_def opt_ok_iff)

lemma TPMS_ALGORITHM_DETAIL_ECC_reads:
  "TPMS_ALGORITHM_DETAIL_ECC_valid x \<Longrightarrow> reads (TPMS_ALGORITHM_DETAIL_ECC_initFromTpm TPMS_ALGORITHM_DETAIL_ECC_default) x (TPMS_ALGORITHM_DETAIL_ECC_enc x)"
  by (simp only: TPMS_ALGORITHM_DETAIL_ECC_initFromTpm_def TPMS_ALGORITHM_DETAIL_ECC_enc_def TPMS_ALGORITHM_DETAIL_ECC_default_def
        TPMS_ALGORITHM_DETAIL_ECC.select_convs TPMS_ALGORITHM_DETAIL_ECC.update_convs;
      intro reads_intros; (rule TPMS_ALGORITHM_DETAIL_ECC.equality)?; simp add: TPMS_ALGORITHM_DETAIL_ECC_valid_def opt_ok_iff)

lemma TPMS_ALGORITHM_DETAIL_ECC_enc_nonempty [simp]: "TPMS_ALGORITHM_DETAIL_ECC_enc x \<noteq> []"
  by (simp add: TPMS_ALGORITHM_DETAIL_ECC_enc_def)

interpretation TPMS_ALGORITHM_DETAIL_ECC_codec:
  tpm_codec TPMS_ALGORITHM_DETAIL_ECC_toTpm TPMS_ALGORITHM_DETAIL_ECC_initFromTpm TPMS_ALGORITHM_DETAIL_ECC_default
    TPMS_ALGORITHM_DETAIL_ECC_enc TPMS_ALGORITHM_DETAIL_ECC_valid
  by unfold_locales (simp_all add: TPMS_ALGORITHM_DETAIL_ECC_writes TPMS_ALGORITHM_DETAIL_ECC_reads)

lemmas TPMS_ALGORITHM_DETAIL_ECC_steps [reads_intros] =
  TPMS_ALGORITHM_DETAIL_ECC_reads [THEN reads_sbind] TPMS_ALGORITHM_DETAIL_ECC_reads [THEN reads_sbind_ret]

subsection \<open>TPMS_SIGNATURE_RSA\<close>

text \<open>Table 185 Definition of (RSA) TPMS_SIGNATURE_RSA Structure.\<close>

record TPMS_SIGNATURE_RSA =
  TPMS_SIGNATURE_RSA_hash :: "TPM_ALG_ID"
  TPMS_SIGNATURE_RSA_sig :: "ByteVec"

definition TPMS_SIGNATURE_RSA_default :: TPMS_SIGNATURE_RSA where
  "TPMS_SIGNATURE_RSA_default = \<lparr>TPMS_SIGNATURE_RSA_hash = TPM_ALG_ID_NULL, TPMS_SIGNATURE_RSA_sig = []\<rparr>"

definition TPMS_SIGNATURE_RSA_toTpm :: "TPMS_SIGNATURE_RSA \<Rightarrow> unit tpm" where
  "TPMS_SIGNATURE_RSA_toTpm self =
     wseq [writeShort (TPMS_SIGNATURE_RSA_hash self),
       writeSizedByteBuf (TPMS_SIGNATURE_RSA_sig self) 2]"

definition TPMS_SIGNATURE_RSA_initFromTpm :: "TPMS_SIGNATURE_RSA \<Rightarrow> TPMS_SIGNATURE_RSA tpm" where
  "TPMS_SIGNATURE_RSA_initFromTpm self =
     sbind readShort (\<lambda>hash.
     sbind (readSizedByteBuf 2) (\<lambda>sig.
     ret (self\<lparr>TPMS_SIGNATURE_RSA_hash := hash, TPMS_SIGNATURE_RSA_sig := sig\<rparr>)))"

definition TPMS_SIGNATURE_RSA_enc :: "TPMS_SIGNATURE_RSA \<Rightarrow> ByteVec" where
  "TPMS_SIGNATURE_RSA_enc x =
     enc16 (TPMS_SIGNATURE_RSA_hash x) @
     enc_sized 2 (TPMS_SIGNATURE_RSA_sig x)"

definition TPMS_SIGNATURE_RSA_valid :: "TPMS_SIGNATURE_RSA \<Rightarrow> bool" where
  "TPMS_SIGNATURE_RSA_valid x \<longleftrightarrow>
     sized_ok 2 (TPMS_SIGNATURE_RSA_sig x)"

lemma TPMS_SIGNATURE_RSA_writes [writes_intros]:
  "TPMS_SIGNATURE_RSA_valid x \<Longrightarrow> writes (TPMS_SIGNATURE_RSA_toTpm x) (TPMS_SIGNATURE_RSA_enc x)"
  unfolding TPMS_SIGNATURE_RSA_toTpm_def TPMS_SIGNATURE_RSA_enc_def
  by (intro writes_intros; simp add: TPMS_SIGNATURE_RSA_valid_def opt_ok_iff)

lemma TPMS_SIGNATURE_RSA_reads:
  "TPMS_SIGNATURE_RSA_valid x \<Longrightarrow> reads (TPMS_SIGNATURE_RSA_initFromTpm TPMS_SIGNATURE_RSA_default) x (TPMS_SIGNATURE_RSA_enc x)"
  by (simp only: TPMS_SIGNATURE_RSA_initFromTpm_def TPMS_SIGNATURE_RSA_enc_def TPMS_SIGNATURE_RSA_default_def
        TPMS_SIGNATURE_RSA.select_convs TPMS_SIGNATURE_RSA.update_convs;
      intro reads_intros; (rule TPMS_SIGNATURE_RSA.equality)?; simp add: TPMS_SIGNATURE_RSA_valid_def opt_ok_iff)

lemma TPMS_SIGNATURE_RSA_enc_nonempty [simp]: "TPMS_SIGNATURE_RSA_enc x \<noteq> []"
  by (simp add: TPMS_SIGNATURE_RSA_enc_def)

interpretation TPMS_SIGNATURE_RSA_codec:
  tpm_codec TPMS_SIGNATURE_RSA_toTpm TPMS_SIGNATURE_RSA_initFromTpm TPMS_SIGNATURE_RSA_default
    TPMS_SIGNATURE_RSA_enc TPMS_SIGNATURE_RSA_valid
  by unfold_locales (simp_all add: TPMS_SIGNATURE_RSA_writes TPMS_SIGNATURE_RSA_reads)

lemmas TPMS_SIGNATURE_RSA_steps [reads_intros] =
  TPMS_SIGNATURE_RSA_reads [THEN reads_sbind] TPMS_SIGNATURE_RSA_reads [THEN reads_sbind_ret]

subsection \<open>TPMS_SIGNATURE_ECC\<close>

text \<open>Table 187 Definition of (ECC) TPMS_SIGNATURE_ECC Structure.\<close>

record TPMS_SIGNATURE_ECC =
  TPMS_SIGNATURE_ECC_hash :: "TPM_ALG_ID"
  TPMS_SIGNATURE_ECC_signatureR :: "ByteVec"
  TPMS_SIGNATURE_ECC_signatureS :: "ByteVec"

definition TPMS_SIGNATURE_ECC_default :: TPMS_SIGNATURE_ECC where
  "TPMS_SIGNATURE_ECC_default = \<lparr>TPMS_SIGNATURE_ECC_hash = TPM_ALG_ID_NULL, TPMS_SIGNATURE_ECC_signatureR = [], TPMS_SIGNATURE_ECC_signatureS = []\<rparr>"

definition TPMS_SIGNATURE_ECC_toTpm :: "TPMS_SIGNATURE_ECC \<Rightarrow> unit tpm" where
  "TPMS_SIGNATURE_ECC_toTpm self =
     wseq [writeShort (TPMS_SIGNATURE_ECC_hash self),
       writeSizedByteBuf (TPMS_SIGNATURE_ECC_signatureR self) 2,
       writeSizedByteBuf (TPMS_SIGNATURE_ECC_signatureS self) 2]"

definition TPMS_SIGNATURE_ECC_initFromTpm :: "TPMS_SIGNATURE_ECC \<Rightarrow> TPMS_SIGNATURE_ECC tpm" where
  "TPMS_SIGNATURE_ECC_initFromTpm self =
     sbind readShort (\<lambda>hash.
     sbind (readSizedByteBuf 2) (\<lambda>signatureR.
     sbind (readSizedByteBuf 2) (\<lambda>signatureS.
     ret (self\<lparr>TPMS_SIGNATURE_ECC_hash := hash, TPMS_SIGNATURE_ECC_signatureR := signatureR, TPMS_SIGNATURE_ECC_signatureS := signatureS\<rparr>))))"

definition TPMS_SIGNATURE_ECC_enc :: "TPMS_SIGNATURE_ECC \<Rightarrow> ByteVec" where
  "TPMS_SIGNATURE_ECC_enc x =
     enc16 (TPMS_SIGNATURE_ECC_hash x) @
     enc_sized 2 (TPMS_SIGNATURE_ECC_signatureR x) @
     enc_sized 2 (TPMS_SIGNATURE_ECC_signatureS x)"

definition TPMS_SIGNATURE_ECC_valid :: "TPMS_SIGNATURE_ECC \<Rightarrow> bool" where
  "TPMS_SIGNATURE_ECC_valid x \<longleftrightarrow>
     sized_ok 2 (TPMS_SIGNATURE_ECC_signatureR x) \<and>
     sized_ok 2 (TPMS_SIGNATURE_ECC_signatureS x)"

lemma TPMS_SIGNATURE_ECC_writes [writes_intros]:
  "TPMS_SIGNATURE_ECC_valid x \<Longrightarrow> writes (TPMS_SIGNATURE_ECC_toTpm x) (TPMS_SIGNATURE_ECC_enc x)"
  unfolding TPMS_SIGNATURE_ECC_toTpm_def TPMS_SIGNATURE_ECC_enc_def
  by (intro writes_intros; simp add: TPMS_SIGNATURE_ECC_valid_def opt_ok_iff)

lemma TPMS_SIGNATURE_ECC_reads:
  "TPMS_SIGNATURE_ECC_valid x \<Longrightarrow> reads (TPMS_SIGNATURE_ECC_initFromTpm TPMS_SIGNATURE_ECC_default) x (TPMS_SIGNATURE_ECC_enc x)"
  by (simp only: TPMS_SIGNATURE_ECC_initFromTpm_def TPMS_SIGNATURE_ECC_enc_def TPMS_SIGNATURE_ECC_default_def
        TPMS_SIGNATURE_ECC.select_convs TPMS_SIGNATURE_ECC.update_convs;
      intro reads_intros; (rule TPMS_SIGNATURE_ECC.equality)?; simp add: TPMS_SIGNATURE_ECC_valid_def opt_ok_iff)

lemma TPMS_SIGNATURE_ECC_enc_nonempty [simp]: "TPMS_SIGNATURE_ECC_enc x \<noteq> []"
  by (simp add: TPMS_SIGNATURE_ECC_enc_def)

interpretation TPMS_SIGNATURE_ECC_codec:
  tpm_codec TPMS_SIGNATURE_ECC_toTpm TPMS_SIGNATURE_ECC_initFromTpm TPMS_SIGNATURE_ECC_default
    TPMS_SIGNATURE_ECC_enc TPMS_SIGNATURE_ECC_valid
  by unfold_locales (simp_all add: TPMS_SIGNATURE_ECC_writes TPMS_SIGNATURE_ECC_reads)

lemmas TPMS_SIGNATURE_ECC_steps [reads_intros] =
  TPMS_SIGNATURE_ECC_reads [THEN reads_sbind] TPMS_SIGNATURE_ECC_reads [THEN reads_sbind_ret]

subsection \<open>The union TPMU_SIGNATURE\<close>

datatype TPMU_SIGNATURE =
    SIGNATURE_TPMS_SIGNATURE_RSASSA TPMS_SIGNATURE_RSA
  | SIGNATURE_TPMS_SIGNATURE_RSAPSS TPMS_SIGNATURE_RSA
  | SIGNATURE_TPMS_SIGNATURE_ECDSA TPMS_SIGNATURE_ECC
  | SIGNATURE_TPMS_SIGNATURE_ECDAA TPMS_SIGNATURE_ECC
  | SIGNATURE_TPMS_SIGNATURE_SM2 TPMS_SIGNATURE_ECC
  | SIGNATURE_TPMS_SIGNATURE_ECSCHNORR TPMS_SIGNATURE_ECC
  | SIGNATURE_TPMT_HA TPMT_HA
  | SIGNATURE_TPMS_SCHEME_HASH TPMS_SCHEME_HASH
  | SIGNATURE_TPMS_NULL_SIGNATURE

fun TPMU_SIGNATURE_GetUnionSelector :: "TPMU_SIGNATURE \<Rightarrow> TPM_ALG_ID" where
  "TPMU_SIGNATURE_GetUnionSelector (SIGNATURE_TPMS_SIGNATURE_RSASSA x) = TPM_ALG_ID_RSASSA"
| "TPMU_SIGNATURE_GetUnionSelector (SIGNATURE_TPMS_SIGNATURE_RSAPSS x) = TPM_ALG_ID_RSAPSS"
| "TPMU_SIGNATURE_GetUnionSelector (SIGNATURE_TPMS_SIGNATURE_ECDSA x) = TPM_ALG_ID_ECDSA"
| "TPMU_SIGNATURE_GetUnionSelector (SIGNATURE_TPMS_SIGNATURE_ECDAA x) = TPM_ALG_ID_ECDAA"
| "TPMU_SIGNATURE_GetUnionSelector (SIGNATURE_TPMS_SIGNATURE_SM2 x) = TPM_ALG_ID_SM2"
| "TPMU_SIGNATURE_GetUnionSelector (SIGNATURE_TPMS_SIGNATURE_ECSCHNORR x) = TPM_ALG_ID_ECSCHNORR"
| "TPMU_SIGNATURE_GetUnionSelector (SIGNATURE_TPMT_HA x) = TPM_ALG_ID_HMAC"
| "TPMU_SIGNATURE_GetUnionSelector (SIGNATURE_TPMS_SCHEME_HASH x) = TPM_ALG_ID_HMAC"
| "TPMU_SIGNATURE_GetUnionSelector SIGNATURE_TPMS_NULL_SIGNATURE = TPM_ALG_ID_NULL"

fun TPMU_SIGNATURE_toTpm :: "TPMU_SIGNATURE \<Rightarrow> unit tpm" where
  "TPMU_SIGNATURE_toTpm (SIGNATURE_TPMS_SIGNATURE_RSASSA x) = TPMS_SIGNATURE_RSA_toTpm x"
| "TPMU_SIGNATURE_toTpm (SIGNATURE_TPMS_SIGNATURE_RSAPSS x) = TPMS_SIGNATURE_RSA_toTpm x"
| "TPMU_SIGNATURE_toTpm (SIGNATURE_TPMS_SIGNATURE_ECDSA x) = TPMS_SIGNATURE_ECC_toTpm x"
| "TPMU_SIGNATURE_toTpm (SIGNATURE_TPMS_SIGNATURE_ECDAA x) = TPMS_SIGNATURE_ECC_toTpm x"
| "TPMU_SIGNATURE_toTpm (SIGNATURE_TPMS_SIGNATURE_SM2 x) = TPMS_SIGNATURE_ECC_toTpm x"
| "TPMU_SIGNATURE_toTpm (SIGNATURE_TPMS_SIGNATURE_ECSCHNORR x) = TPMS_SIGNATURE_ECC_toTpm x"
| "TPMU_SIGNATURE_toTpm (SIGNATURE_TPMT_HA x) = TPMT_HA_toTpm x"
| "TPMU_SIGNATURE_toTpm (SIGNATURE_TPMS_SCHEME_HASH x) = TPMS_SCHEME_HASH_toTpm x"
| "TPMU_SIGNATURE_toTpm SIGNATURE_TPMS_NULL_SIGNATURE = ret ()"

fun TPMU_SIGNATURE_initFromTpm :: "TPMU_SIGNATURE \<Rightarrow> TPMU_SIGNATURE tpm" where
  "TPMU_SIGNATURE_initFromTpm (SIGNATURE_TPMS_SIGNATURE_RSASSA x) = sbind (TPMS_SIGNATURE_RSA_initFromTpm x) (\<lambda>y. ret (SIGNATURE_TPMS_SIGNATURE_RSASSA y))"
| "TPMU_SIGNATURE_initFromTpm (SIGNATURE_TPMS_SIGNATURE_RSAPSS x) = sbind (TPMS_SIGNATURE_RSA_initFromTpm x) (\<lambda>y. ret (SIGNATURE_TPMS_SIGNATURE_RSAPSS y))"
| "TPMU_SIGNATURE_initFromTpm (SIGNATURE_TPMS_SIGNATURE_ECDSA x) = sbind (TPMS_SIGNATURE_ECC_initFromTpm x) (\<lambda>y. ret (SIGNATURE_TPMS_SIGNATURE_ECDSA y))"
| "TPMU_SIGNATURE_initFromTpm (SIGNATURE_TPMS_SIGNATURE_ECDAA x) = sbind (TPMS_SIGNATURE_ECC_initFromTpm x) (\<lambda>y. ret (SIGNATURE_TPMS_SIGNATURE_ECDAA y))"
| "TPMU_SIGNATURE_initFromTpm (SIGNATURE_TPMS_SIGNATURE_SM2 x) = sbind (TPMS_SIGNATURE_ECC_initFromTpm x) (\<lambda>y. ret (SIGNATURE_TPMS_SIGNATURE_SM2 y))"
| "TPMU_SIGNATURE_initFromTpm (SIGNATURE_TPMS_SIGNATURE_ECSCHNORR x) = sbind (TPMS_SIGNATURE_ECC_initFromTpm x) (\<lambda>y. ret (SIGNATURE_TPMS_SIGNATURE_ECSCHNORR y))"
| "TPMU_SIGNATURE_initFromTpm (SIGNATURE_TPMT_HA x) = sbind (TPMT_HA_initFromTpm x) (\<lambda>y. ret (SIGNATURE_TPMT_HA y))"
| "TPMU_SIGNATURE_initFromTpm (SIGNATURE_TPMS_SCHEME_HASH x) = sbind (TPMS_SCHEME_HASH_initFromTpm x) (\<lambda>y. ret (SIGNATURE_TPMS_SCHEME_HASH y))"
| "TPMU_SIGNATURE_initFromTpm SIGNATURE_TPMS_NULL_SIGNATURE = ret SIGNATURE_TPMS_NULL_SIGNATURE"

definition UnionFactory_Create_TPMU_SIGNATURE :: "TPM_ALG_ID \<Rightarrow> TPMU_SIGNATURE option outcome" where
  "UnionFactory_Create_TPMU_SIGNATURE selector =
     (if selector = TPM_ALG_ID_RSASSA then Ok (Some (SIGNATURE_TPMS_SIGNATURE_RSASSA TPMS_SIGNATURE_RSA_default))
      else if selector = TPM_ALG_ID_RSAPSS then Ok (Some (SIGNATURE_TPMS_SIGNATURE_RSAPSS TPMS_SIGNATURE_RSA_default))
      else if selector = TPM_ALG_ID_ECDSA then Ok (Some (SIGNATURE_TPMS_SIGNATURE_ECDSA TPMS_SIGNATURE_ECC_default))
      else if selector = TPM_ALG_ID_ECDAA then Ok (Some (SIGNATURE_TPMS_SIGNATURE_ECDAA TPMS_SIGNATURE_ECC_default))
      else if selector = TPM_ALG_ID_SM2 then Ok (Some (SIGNATURE_TPMS_SIGNATURE_SM2 TPMS_SIGNATURE_ECC_default))
      else if selector = TPM_ALG_ID_ECSCHNORR then Ok (Some (SIGNATURE_TPMS_SIGNATURE_ECSCHNORR TPMS_SIGNATURE_ECC_default))
      else if selector = TPM_ALG_ID_HMAC then Ok (Some (SIGNATURE_TPMT_HA TPMT_HA_default))
      else if selector = TPM_ALG_ID_ANY then Ok (Some (SIGNATURE_TPMS_SCHEME_HASH TPMS_SCHEME_HASH_default))
      else if selector = TPM_ALG_ID_NULL then Ok (Some SIGNATURE_TPMS_NULL_SIGNATURE)
      else Throw (runtime_error ''Unknown selector value''))"

text \<open>The wire form of the members, the member a selector stands for, and which members a selector can name.\<close>

fun TPMU_SIGNATURE_fresh :: "TPMU_SIGNATURE \<Rightarrow> TPMU_SIGNATURE" where
  "TPMU_SIGNATURE_fresh (SIGNATURE_TPMS_SIGNATURE_RSASSA _) = SIGNATURE_TPMS_SIGNATURE_RSASSA TPMS_SIGNATURE_RSA_default"
| "TPMU_SIGNATURE_fresh (SIGNATURE_TPMS_SIGNATURE_RSAPSS _) = SIGNATURE_TPMS_SIGNATURE_RSAPSS TPMS_SIGNATURE_RSA_default"
| "TPMU_SIGNATURE_fresh (SIGNATURE_TPMS_SIGNATURE_ECDSA _) = SIGNATURE_TPMS_SIGNATURE_ECDSA TPMS_SIGNATURE_ECC_default"
| "TPMU_SIGNATURE_fresh (SIGNATURE_TPMS_SIGNATURE_ECDAA _) = SIGNATURE_TPMS_SIGNATURE_ECDAA TPMS_SIGNATURE_ECC_default"
| "TPMU_SIGNATURE_fresh (SIGNATURE_TPMS_SIGNATURE_SM2 _) = SIGNATURE_TPMS_SIGNATURE_SM2 TPMS_SIGNATURE_ECC_default"
| "TPMU_SIGNATURE_fresh (SIGNATURE_TPMS_SIGNATURE_ECSCHNORR _) = SIGNATURE_TPMS_SIGNATURE_ECSCHNORR TPMS_SIGNATURE_ECC_default"
| "TPMU_SIGNATURE_fresh (SIGNATURE_TPMT_HA _) = SIGNATURE_TPMT_HA TPMT_HA_default"
| "TPMU_SIGNATURE_fresh (SIGNATURE_TPMS_SCHEME_HASH _) = SIGNATURE_TPMS_SCHEME_HASH TPMS_SCHEME_HASH_default"
| "TPMU_SIGNATURE_fresh SIGNATURE_TPMS_NULL_SIGNATURE = SIGNATURE_TPMS_NULL_SIGNATURE"

fun TPMU_SIGNATURE_enc :: "TPMU_SIGNATURE \<Rightarrow> ByteVec" where
  "TPMU_SIGNATURE_enc (SIGNATURE_TPMS_SIGNATURE_RSASSA x) = TPMS_SIGNATURE_RSA_enc x"
| "TPMU_SIGNATURE_enc (SIGNATURE_TPMS_SIGNATURE_RSAPSS x) = TPMS_SIGNATURE_RSA_enc x"
| "TPMU_SIGNATURE_enc (SIGNATURE_TPMS_SIGNATURE_ECDSA x) = TPMS_SIGNATURE_ECC_enc x"
| "TPMU_SIGNATURE_enc (SIGNATURE_TPMS_SIGNATURE_ECDAA x) = TPMS_SIGNATURE_ECC_enc x"
| "TPMU_SIGNATURE_enc (SIGNATURE_TPMS_SIGNATURE_SM2 x) = TPMS_SIGNATURE_ECC_enc x"
| "TPMU_SIGNATURE_enc (SIGNATURE_TPMS_SIGNATURE_ECSCHNORR x) = TPMS_SIGNATURE_ECC_enc x"
| "TPMU_SIGNATURE_enc (SIGNATURE_TPMT_HA x) = TPMT_HA_enc x"
| "TPMU_SIGNATURE_enc (SIGNATURE_TPMS_SCHEME_HASH x) = TPMS_SCHEME_HASH_enc x"
| "TPMU_SIGNATURE_enc SIGNATURE_TPMS_NULL_SIGNATURE = []"

fun TPMU_SIGNATURE_valid :: "TPMU_SIGNATURE \<Rightarrow> bool" where
  "TPMU_SIGNATURE_valid (SIGNATURE_TPMS_SIGNATURE_RSASSA x) = TPMS_SIGNATURE_RSA_valid x"
| "TPMU_SIGNATURE_valid (SIGNATURE_TPMS_SIGNATURE_RSAPSS x) = TPMS_SIGNATURE_RSA_valid x"
| "TPMU_SIGNATURE_valid (SIGNATURE_TPMS_SIGNATURE_ECDSA x) = TPMS_SIGNATURE_ECC_valid x"
| "TPMU_SIGNATURE_valid (SIGNATURE_TPMS_SIGNATURE_ECDAA x) = TPMS_SIGNATURE_ECC_valid x"
| "TPMU_SIGNATURE_valid (SIGNATURE_TPMS_SIGNATURE_SM2 x) = TPMS_SIGNATURE_ECC_valid x"
| "TPMU_SIGNATURE_valid (SIGNATURE_TPMS_SIGNATURE_ECSCHNORR x) = TPMS_SIGNATURE_ECC_valid x"
| "TPMU_SIGNATURE_valid (SIGNATURE_TPMT_HA x) = TPMT_HA_valid x"
| "TPMU_SIGNATURE_valid (SIGNATURE_TPMS_SCHEME_HASH _) = False"
| "TPMU_SIGNATURE_valid SIGNATURE_TPMS_NULL_SIGNATURE = True"

lemma TPMU_SIGNATURE_writes [writes_intros]: "TPMU_SIGNATURE_valid u \<Longrightarrow> writes (TPMU_SIGNATURE_toTpm u) (TPMU_SIGNATURE_enc u)"
  by (cases u) (auto intro!: writes_intros)

lemma TPMU_SIGNATURE_reads:
  "TPMU_SIGNATURE_valid u \<Longrightarrow> reads (TPMU_SIGNATURE_initFromTpm (TPMU_SIGNATURE_fresh u)) u (TPMU_SIGNATURE_enc u)"
  by (cases u) (auto intro!: reads_intros)

lemma TPMU_SIGNATURE_reads_the:
  "opt_ok TPMU_SIGNATURE_valid u \<Longrightarrow> reads (TPMU_SIGNATURE_initFromTpm (TPMU_SIGNATURE_fresh (the u))) (the u) (opt_enc TPMU_SIGNATURE_enc u)"
  by (cases u) (simp_all add: TPMU_SIGNATURE_reads)

lemma TPMU_SIGNATURE_Create:
  "TPMU_SIGNATURE_valid u \<Longrightarrow>
   UnionFactory_Create_TPMU_SIGNATURE (TPMU_SIGNATURE_GetUnionSelector u) = Ok (Some (TPMU_SIGNATURE_fresh u))"
  by (cases u) (simp_all add: UnionFactory_Create_TPMU_SIGNATURE_def)

lemma TPMU_SIGNATURE_Create_the:
  "opt_ok TPMU_SIGNATURE_valid u \<Longrightarrow>
   UnionFactory_Create_TPMU_SIGNATURE (TPMU_SIGNATURE_GetUnionSelector (the u)) = Ok (Some (TPMU_SIGNATURE_fresh (the u)))"
  by (cases u) (simp_all add: TPMU_SIGNATURE_Create)

lemmas TPMU_SIGNATURE_steps [reads_intros] =
  reads_deref [where init = TPMU_SIGNATURE_initFromTpm, OF TPMU_SIGNATURE_reads_the]
  reads_deref_ret [where init = TPMU_SIGNATURE_initFromTpm, OF TPMU_SIGNATURE_reads_the]
  TPMU_SIGNATURE_Create_the [THEN reads_bindO]

subsection \<open>TPMT_SIGNATURE\<close>

text \<open>Table 190 shows the basic algorithm-agile structure when a symmetric or asymmetric signature is indicated.\<close>

record TPMT_SIGNATURE =
  TPMT_SIGNATURE_signature :: "TPMU_SIGNATURE option"

definition TPMT_SIGNATURE_default :: TPMT_SIGNATURE where
  "TPMT_SIGNATURE_default = \<lparr>TPMT_SIGNATURE_signature = None\<rparr>"

definition TPMT_SIGNATURE_toTpm :: "TPMT_SIGNATURE \<Rightarrow> unit tpm" where
  "TPMT_SIGNATURE_toTpm self =
     (if TPMT_SIGNATURE_signature self = None then ret ()
     else wseq [deref (TPMT_SIGNATURE_signature self) (\<lambda>u. writeShort (TPMU_SIGNATURE_GetUnionSelector u)),
       deref (TPMT_SIGNATURE_signature self) TPMU_SIGNATURE_toTpm])"

definition TPMT_SIGNATURE_initFromTpm :: "TPMT_SIGNATURE \<Rightarrow> TPMT_SIGNATURE tpm" where
  "TPMT_SIGNATURE_initFromTpm self =
     sbind readShort (\<lambda>sigAlg.
     bindO (UnionFactory_Create_TPMU_SIGNATURE sigAlg) (\<lambda>signature.
     sbind (deref signature TPMU_SIGNATURE_initFromTpm) (\<lambda>signature.
     ret (self\<lparr>TPMT_SIGNATURE_signature := Some signature\<rparr>))))"

definition TPMT_SIGNATURE_enc :: "TPMT_SIGNATURE \<Rightarrow> ByteVec" where
  "TPMT_SIGNATURE_enc x =
     (if TPMT_SIGNATURE_signature x = None then []
     else opt_enc (\<lambda>u. enc16 (TPMU_SIGNATURE_GetUnionSelector u)) (TPMT_SIGNATURE_signature x) @
       opt_enc TPMU_SIGNATURE_enc (TPMT_SIGNATURE_signature x))"

definition TPMT_SIGNATURE_valid :: "TPMT_SIGNATURE \<Rightarrow> bool" where
  "TPMT_SIGNATURE_valid x \<longleftrightarrow>
     opt_ok TPMU_SIGNATURE_valid (TPMT_SIGNATURE_signature x)"

lemma TPMT_SIGNATURE_null: "TPMT_SIGNATURE_toTpm TPMT_SIGNATURE_default = ret ()" "TPMT_SIGNATURE_enc TPMT_SIGNATURE_default = []"
  by (simp_all add: TPMT_SIGNATURE_toTpm_def TPMT_SIGNATURE_enc_def TPMT_SIGNATURE_default_def)

lemma TPMT_SIGNATURE_writes [writes_intros]:
  "TPMT_SIGNATURE_valid x \<Longrightarrow> writes (TPMT_SIGNATURE_toTpm x) (TPMT_SIGNATURE_enc x)"
  by (auto simp: TPMT_SIGNATURE_toTpm_def TPMT_SIGNATURE_enc_def TPMT_SIGNATURE_valid_def opt_ok_iff
      simp del: wseq.simps intro!: writes_intros)

lemma TPMT_SIGNATURE_reads:
  "TPMT_SIGNATURE_valid x \<Longrightarrow> reads (TPMT_SIGNATURE_initFromTpm TPMT_SIGNATURE_default) x (TPMT_SIGNATURE_enc x)"
  by (simp only: TPMT_SIGNATURE_initFromTpm_def TPMT_SIGNATURE_enc_def TPMT_SIGNATURE_default_def
        TPMT_SIGNATURE.select_convs TPMT_SIGNATURE.update_convs;
      intro reads_intros; (rule TPMT_SIGNATURE.equality)?; simp add: TPMT_SIGNATURE_valid_def opt_ok_iff)

interpretation TPMT_SIGNATURE_codec:
  tpm_codec TPMT_SIGNATURE_toTpm TPMT_SIGNATURE_initFromTpm TPMT_SIGNATURE_default
    TPMT_SIGNATURE_enc TPMT_SIGNATURE_valid
  by unfold_locales (simp_all add: TPMT_SIGNATURE_writes TPMT_SIGNATURE_reads TPMT_SIGNATURE_null writes_ret)

subsection \<open>TPM2B_ENCRYPTED_SECRET\<close>

text \<open>Table 192 Definition of TPM2B_ENCRYPTED_SECRET Structure.\<close>

record TPM2B_ENCRYPTED_SECRET =
  TPM2B_ENCRYPTED_SECRET_secret :: "ByteVec"

definition TPM2B_ENCRYPTED_SECRET_default :: TPM2B_ENCRYPTED_SECRET where
  "TPM2B_ENCRYPTED_SECRET_default = \<lparr>TPM2B_ENCRYPTED_SECRET_secret = []\<rparr>"

definition TPM2B_ENCRYPTED_SECRET_toTpm :: "TPM2B_ENCRYPTED_SECRET \<Rightarrow> unit tpm" where
  "TPM2B_ENCRYPTED_SECRET_toTpm self =
     wseq [writeSizedByteBuf (TPM2B_ENCRYPTED_SECRET_secret self) 2]"

definition TPM2B_ENCRYPTED_SECRET_initFromTpm :: "TPM2B_ENCRYPTED_SECRET \<Rightarrow> TPM2B_ENCRYPTED_SECRET tpm" where
  "TPM2B_ENCRYPTED_SECRET_initFromTpm self =
     sbind (readSizedByteBuf 2) (\<lambda>secret.
     ret (self\<lparr>TPM2B_ENCRYPTED_SECRET_secret := secret\<rparr>))"

definition TPM2B_ENCRYPTED_SECRET_enc :: "TPM2B_ENCRYPTED_SECRET \<Rightarrow> ByteVec" where
  "TPM2B_ENCRYPTED_SECRET_enc x =
     enc_sized 2 (TPM2B_ENCRYPTED_SECRET_secret x)"

definition TPM2B_ENCRYPTED_SECRET_valid :: "TPM2B_ENCRYPTED_SECRET \<Rightarrow> bool" where
  "TPM2B_ENCRYPTED_SECRET_valid x \<longleftrightarrow>
     sized_ok 2 (TPM2B_ENCRYPTED_SECRET_secret x)"

lemma TPM2B_ENCRYPTED_SECRET_writes [writes_intros]:
  "TPM2B_ENCRYPTED_SECRET_valid x \<Longrightarrow> writes (TPM2B_ENCRYPTED_SECRET_toTpm x) (TPM2B_ENCRYPTED_SECRET_enc x)"
  unfolding TPM2B_ENCRYPTED_SECRET_toTpm_def TPM2B_ENCRYPTED_SECRET_enc_def
  by (intro writes_intros; simp add: TPM2B_ENCRYPTED_SECRET_valid_def opt_ok_iff)

lemma TPM2B_ENCRYPTED_SECRET_reads:
  "TPM2B_ENCRYPTED_SECRET_valid x \<Longrightarrow> reads (TPM2B_ENCRYPTED_SECRET_initFromTpm TPM2B_ENCRYPTED_SECRET_default) x (TPM2B_ENCRYPTED_SECRET_enc x)"
  by (simp only: TPM2B_ENCRYPTED_SECRET_initFromTpm_def TPM2B_ENCRYPTED_SECRET_enc_def TPM2B_ENCRYPTED_SECRET_default_def
        TPM2B_ENCRYPTED_SECRET.select_convs TPM2B_ENCRYPTED_SECRET.update_convs;
      intro reads_intros; (rule TPM2B_ENCRYPTED_SECRET.equality)?; simp add: TPM2B_ENCRYPTED_SECRET_valid_def opt_ok_iff)

interpretation TPM2B_ENCRYPTED_SECRET_codec:
  tpm_codec TPM2B_ENCRYPTED_SECRET_toTpm TPM2B_ENCRYPTED_SECRET_initFromTpm TPM2B_ENCRYPTED_SECRET_default
    TPM2B_ENCRYPTED_SECRET_enc TPM2B_ENCRYPTED_SECRET_valid
  by unfold_locales (erule TPM2B_ENCRYPTED_SECRET_writes TPM2B_ENCRYPTED_SECRET_reads | simp add: TPM2B_ENCRYPTED_SECRET_enc_def)+

subsection \<open>TPMS_KEYEDHASH_PARMS\<close>

text \<open>This structure describes the parameters that would appear in the public area of a KEYEDHASH object.\<close>

record TPMS_KEYEDHASH_PARMS =
  TPMS_KEYEDHASH_PARMS_scheme :: "TPMU_SCHEME_KEYEDHASH option"

definition TPMS_KEYEDHASH_PARMS_default :: TPMS_KEYEDHASH_PARMS where
  "TPMS_KEYEDHASH_PARMS_default = \<lparr>TPMS_KEYEDHASH_PARMS_scheme = None\<rparr>"

definition TPMS_KEYEDHASH_PARMS_toTpm :: "TPMS_KEYEDHASH_PARMS \<Rightarrow> unit tpm" where
  "TPMS_KEYEDHASH_PARMS_toTpm self =
     (if TPMS_KEYEDHASH_PARMS_scheme self = None then ret ()
     else wseq [deref (TPMS_KEYEDHASH_PARMS_scheme self) (\<lambda>u. writeShort (TPMU_SCHEME_KEYEDHASH_GetUnionSelector u)),
       deref (TPMS_KEYEDHASH_PARMS_scheme self) TPMU_SCHEME_KEYEDHASH_toTpm])"

definition TPMS_KEYEDHASH_PARMS_initFromTpm :: "TPMS_KEYEDHASH_PARMS \<Rightarrow> TPMS_KEYEDHASH_PARMS tpm" where
  "TPMS_KEYEDHASH_PARMS_initFromTpm self =
     sbind readShort (\<lambda>schemeScheme.
     bindO (UnionFactory_Create_TPMU_SCHEME_KEYEDHASH schemeScheme) (\<lambda>scheme.
     sbind (deref scheme TPMU_SCHEME_KEYEDHASH_initFromTpm) (\<lambda>scheme.
     ret (self\<lparr>TPMS_KEYEDHASH_PARMS_scheme := Some scheme\<rparr>))))"

definition TPMS_KEYEDHASH_PARMS_enc :: "TPMS_KEYEDHASH_PARMS \<Rightarrow> ByteVec" where
  "TPMS_KEYEDHASH_PARMS_enc x =
     (if TPMS_KEYEDHASH_PARMS_scheme x = None then []
     else opt_enc (\<lambda>u. enc16 (TPMU_SCHEME_KEYEDHASH_GetUnionSelector u)) (TPMS_KEYEDHASH_PARMS_scheme x) @
       opt_enc TPMU_SCHEME_KEYEDHASH_enc (TPMS_KEYEDHASH_PARMS_scheme x))"

definition TPMS_KEYEDHASH_PARMS_valid :: "TPMS_KEYEDHASH_PARMS \<Rightarrow> bool" where
  "TPMS_KEYEDHASH_PARMS_valid x \<longleftrightarrow>
     opt_ok TPMU_SCHEME_KEYEDHASH_valid (TPMS_KEYEDHASH_PARMS_scheme x)"

lemma TPMS_KEYEDHASH_PARMS_null: "TPMS_KEYEDHASH_PARMS_toTpm TPMS_KEYEDHASH_PARMS_default = ret ()" "TPMS_KEYEDHASH_PARMS_enc TPMS_KEYEDHASH_PARMS_default = []"
  by (simp_all add: TPMS_KEYEDHASH_PARMS_toTpm_def TPMS_KEYEDHASH_PARMS_enc_def TPMS_KEYEDHASH_PARMS_default_def)

lemma TPMS_KEYEDHASH_PARMS_writes [writes_intros]:
  "TPMS_KEYEDHASH_PARMS_valid x \<Longrightarrow> writes (TPMS_KEYEDHASH_PARMS_toTpm x) (TPMS_KEYEDHASH_PARMS_enc x)"
  by (auto simp: TPMS_KEYEDHASH_PARMS_toTpm_def TPMS_KEYEDHASH_PARMS_enc_def TPMS_KEYEDHASH_PARMS_valid_def opt_ok_iff
      simp del: wseq.simps intro!: writes_intros)

lemma TPMS_KEYEDHASH_PARMS_reads:
  "TPMS_KEYEDHASH_PARMS_valid x \<Longrightarrow> reads (TPMS_KEYEDHASH_PARMS_initFromTpm TPMS_KEYEDHASH_PARMS_default) x (TPMS_KEYEDHASH_PARMS_enc x)"
  by (simp only: TPMS_KEYEDHASH_PARMS_initFromTpm_def TPMS_KEYEDHASH_PARMS_enc_def TPMS_KEYEDHASH_PARMS_default_def
        TPMS_KEYEDHASH_PARMS.select_convs TPMS_KEYEDHASH_PARMS.update_convs;
      intro reads_intros; (rule TPMS_KEYEDHASH_PARMS.equality)?; simp add: TPMS_KEYEDHASH_PARMS_valid_def opt_ok_iff)

interpretation TPMS_KEYEDHASH_PARMS_codec:
  tpm_codec TPMS_KEYEDHASH_PARMS_toTpm TPMS_KEYEDHASH_PARMS_initFromTpm TPMS_KEYEDHASH_PARMS_default
    TPMS_KEYEDHASH_PARMS_enc TPMS_KEYEDHASH_PARMS_valid
  by unfold_locales (simp_all add: TPMS_KEYEDHASH_PARMS_writes TPMS_KEYEDHASH_PARMS_reads TPMS_KEYEDHASH_PARMS_null writes_ret)

lemmas TPMS_KEYEDHASH_PARMS_steps [reads_intros] =
  TPMS_KEYEDHASH_PARMS_reads [THEN reads_sbind] TPMS_KEYEDHASH_PARMS_reads [THEN reads_sbind_ret]

subsection \<open>TPMS_ASYM_PARMS\<close>

text \<open>This structure contains the common public area parameters for an asymmetric key.\<close>

record TPMS_ASYM_PARMS =
  TPMS_ASYM_PARMS_symmetric :: "TPMT_SYM_DEF_OBJECT"
  TPMS_ASYM_PARMS_scheme :: "TPMU_ASYM_SCHEME option"

definition TPMS_ASYM_PARMS_default :: TPMS_ASYM_PARMS where
  "TPMS_ASYM_PARMS_default = \<lparr>TPMS_ASYM_PARMS_symmetric = TPMT_SYM_DEF_OBJECT_default, TPMS_ASYM_PARMS_scheme = None\<rparr>"

definition TPMS_ASYM_PARMS_toTpm :: "TPMS_ASYM_PARMS \<Rightarrow> unit tpm" where
  "TPMS_ASYM_PARMS_toTpm self =
     wseq [TPMT_SYM_DEF_OBJECT_toTpm (TPMS_ASYM_PARMS_symmetric self),
       deref (TPMS_ASYM_PARMS_scheme self) (\<lambda>u. writeShort (TPMU_ASYM_SCHEME_GetUnionSelector u)),
       deref (TPMS_ASYM_PARMS_scheme self) TPMU_ASYM_SCHEME_toTpm]"

definition TPMS_ASYM_PARMS_initFromTpm :: "TPMS_ASYM_PARMS \<Rightarrow> TPMS_ASYM_PARMS tpm" where
  "TPMS_ASYM_PARMS_initFromTpm self =
     sbind (TPMT_SYM_DEF_OBJECT_initFromTpm (TPMS_ASYM_PARMS_symmetric self)) (\<lambda>symmetric.
     sbind readShort (\<lambda>schemeScheme.
     bindO (UnionFactory_Create_TPMU_ASYM_SCHEME schemeScheme) (\<lambda>scheme.
     sbind (deref scheme TPMU_ASYM_SCHEME_initFromTpm) (\<lambda>scheme.
     ret (self\<lparr>TPMS_ASYM_PARMS_symmetric := symmetric, TPMS_ASYM_PARMS_scheme := Some scheme\<rparr>)))))"

definition TPMS_ASYM_PARMS_enc :: "TPMS_ASYM_PARMS \<Rightarrow> ByteVec" where
  "TPMS_ASYM_PARMS_enc x =
     TPMT_SYM_DEF_OBJECT_enc (TPMS_ASYM_PARMS_symmetric x) @
     opt_enc (\<lambda>u. enc16 (TPMU_ASYM_SCHEME_GetUnionSelector u)) (TPMS_ASYM_PARMS_scheme x) @
     opt_enc TPMU_ASYM_SCHEME_enc (TPMS_ASYM_PARMS_scheme x)"

definition TPMS_ASYM_PARMS_valid :: "TPMS_ASYM_PARMS \<Rightarrow> bool" where
  "TPMS_ASYM_PARMS_valid x \<longleftrightarrow>
     TPMT_SYM_DEF_OBJECT_valid (TPMS_ASYM_PARMS_symmetric x) \<and>
     opt_ok TPMU_ASYM_SCHEME_valid (TPMS_ASYM_PARMS_scheme x)"

lemma TPMS_ASYM_PARMS_writes [writes_intros]:
  "TPMS_ASYM_PARMS_valid x \<Longrightarrow> writes (TPMS_ASYM_PARMS_toTpm x) (TPMS_ASYM_PARMS_enc x)"
  unfolding TPMS_ASYM_PARMS_toTpm_def TPMS_ASYM_PARMS_enc_def
  by (intro writes_intros; simp add: TPMS_ASYM_PARMS_valid_def opt_ok_iff)

lemma TPMS_ASYM_PARMS_reads:
  "TPMS_ASYM_PARMS_valid x \<Longrightarrow> reads (TPMS_ASYM_PARMS_initFromTpm TPMS_ASYM_PARMS_default) x (TPMS_ASYM_PARMS_enc x)"
  by (simp only: TPMS_ASYM_PARMS_initFromTpm_def TPMS_ASYM_PARMS_enc_def TPMS_ASYM_PARMS_default_def
        TPMS_ASYM_PARMS.select_convs TPMS_ASYM_PARMS.update_convs;
      intro reads_intros; (rule TPMS_ASYM_PARMS.equality)?; simp add: TPMS_ASYM_PARMS_valid_def opt_ok_iff)

lemma TPMS_ASYM_PARMS_enc_nonempty [simp]: "TPMS_ASYM_PARMS_enc x \<noteq> []"
  by (simp add: TPMS_ASYM_PARMS_enc_def)

interpretation TPMS_ASYM_PARMS_codec:
  tpm_codec TPMS_ASYM_PARMS_toTpm TPMS_ASYM_PARMS_initFromTpm TPMS_ASYM_PARMS_default
    TPMS_ASYM_PARMS_enc TPMS_ASYM_PARMS_valid
  by unfold_locales (simp_all add: TPMS_ASYM_PARMS_writes TPMS_ASYM_PARMS_reads)

lemmas TPMS_ASYM_PARMS_steps [reads_intros] =
  TPMS_ASYM_PARMS_reads [THEN reads_sbind] TPMS_ASYM_PARMS_reads [THEN reads_sbind_ret]

subsection \<open>TPMS_RSA_PARMS\<close>

text \<open>A TPM compatible with this specification and supporting RSA shall support two primes and an exponent of zero.\<close>

record TPMS_RSA_PARMS =
  TPMS_RSA_PARMS_symmetric :: "TPMT_SYM_DEF_OBJECT"
  TPMS_RSA_PARMS_scheme :: "TPMU_ASYM_SCHEME option"
  TPMS_RSA_PARMS_keyBits :: "UINT16"
  TPMS_RSA_PARMS_exponent :: "UINT32"

definition TPMS_RSA_PARMS_default :: TPMS_RSA_PARMS where
  "TPMS_RSA_PARMS_default = \<lparr>TPMS_RSA_PARMS_symmetric = TPMT_SYM_DEF_OBJECT_default, TPMS_RSA_PARMS_scheme = None, TPMS_RSA_PARMS_keyBits = 0, TPMS_RSA_PARMS_exponent = 0\<rparr>"

definition TPMS_RSA_PARMS_toTpm :: "TPMS_RSA_PARMS \<Rightarrow> unit tpm" where
  "TPMS_RSA_PARMS_toTpm self =
     wseq [TPMT_SYM_DEF_OBJECT_toTpm (TPMS_RSA_PARMS_symmetric self),
       deref (TPMS_RSA_PARMS_scheme self) (\<lambda>u. writeShort (TPMU_ASYM_SCHEME_GetUnionSelector u)),
       deref (TPMS_RSA_PARMS_scheme self) TPMU_ASYM_SCHEME_toTpm,
       writeShort (TPMS_RSA_PARMS_keyBits self),
       writeInt (TPMS_RSA_PARMS_exponent self)]"

definition TPMS_RSA_PARMS_initFromTpm :: "TPMS_RSA_PARMS \<Rightarrow> TPMS_RSA_PARMS tpm" where
  "TPMS_RSA_PARMS_initFromTpm self =
     sbind (TPMT_SYM_DEF_OBJECT_initFromTpm (TPMS_RSA_PARMS_symmetric self)) (\<lambda>symmetric.
     sbind readShort (\<lambda>schemeScheme.
     bindO (UnionFactory_Create_TPMU_ASYM_SCHEME schemeScheme) (\<lambda>scheme.
     sbind (deref scheme TPMU_ASYM_SCHEME_initFromTpm) (\<lambda>scheme.
     sbind readShort (\<lambda>keyBits.
     sbind readInt (\<lambda>exponent.
     ret (self\<lparr>TPMS_RSA_PARMS_symmetric := symmetric, TPMS_RSA_PARMS_scheme := Some scheme, TPMS_RSA_PARMS_keyBits := keyBits, TPMS_RSA_PARMS_exponent := exponent\<rparr>)))))))"

definition TPMS_RSA_PARMS_enc :: "TPMS_RSA_PARMS \<Rightarrow> ByteVec" where
  "TPMS_RSA_PARMS_enc x =
     TPMT_SYM_DEF_OBJECT_enc (TPMS_RSA_PARMS_symmetric x) @
     opt_enc (\<lambda>u. enc16 (TPMU_ASYM_SCHEME_GetUnionSelector u)) (TPMS_RSA_PARMS_scheme x) @
     opt_enc TPMU_ASYM_SCHEME_enc (TPMS_RSA_PARMS_scheme x) @
     enc16 (TPMS_RSA_PARMS_keyBits x) @
     enc32 (TPMS_RSA_PARMS_exponent x)"

definition TPMS_RSA_PARMS_valid :: "TPMS_RSA_PARMS \<Rightarrow> bool" where
  "TPMS_RSA_PARMS_valid x \<longleftrightarrow>
     TPMT_SYM_DEF_OBJECT_valid (TPMS_RSA_PARMS_symmetric x) \<and>
     opt_ok TPMU_ASYM_SCHEME_valid (TPMS_RSA_PARMS_scheme x)"

lemma TPMS_RSA_PARMS_writes [writes_intros]:
  "TPMS_RSA_PARMS_valid x \<Longrightarrow> writes (TPMS_RSA_PARMS_toTpm x) (TPMS_RSA_PARMS_enc x)"
  unfolding TPMS_RSA_PARMS_toTpm_def TPMS_RSA_PARMS_enc_def
  by (intro writes_intros; simp add: TPMS_RSA_PARMS_valid_def opt_ok_iff)

lemma TPMS_RSA_PARMS_reads:
  "TPMS_RSA_PARMS_valid x \<Longrightarrow> reads (TPMS_RSA_PARMS_initFromTpm TPMS_RSA_PARMS_default) x (TPMS_RSA_PARMS_enc x)"
  by (simp only: TPMS_RSA_PARMS_initFromTpm_def TPMS_RSA_PARMS_enc_def TPMS_RSA_PARMS_default_def
        TPMS_RSA_PARMS.select_convs TPMS_RSA_PARMS.update_convs;
      intro reads_intros; (rule TPMS_RSA_PARMS.equality)?; simp add: TPMS_RSA_PARMS_valid_def opt_ok_iff)

lemma TPMS_RSA_PARMS_enc_nonempty [simp]: "TPMS_RSA_PARMS_enc x \<noteq> []"
  by (simp add: TPMS_RSA_PARMS_enc_def)

interpretation TPMS_RSA_PARMS_codec:
  tpm_codec TPMS_RSA_PARMS_toTpm TPMS_RSA_PARMS_initFromTpm TPMS_RSA_PARMS_default
    TPMS_RSA_PARMS_enc TPMS_RSA_PARMS_valid
  by unfold_locales (simp_all add: TPMS_RSA_PARMS_writes TPMS_RSA_PARMS_reads)

lemmas TPMS_RSA_PARMS_steps [reads_intros] =
  TPMS_RSA_PARMS_reads [THEN reads_sbind] TPMS_RSA_PARMS_reads [THEN reads_sbind_ret]

subsection \<open>TPMS_ECC_PARMS\<close>

text \<open>This structure contains the parameters for prime modulus ECC.\<close>

record TPMS_ECC_PARMS =
  TPMS_ECC_PARMS_symmetric :: "TPMT_SYM_DEF_OBJECT"
  TPMS_ECC_PARMS_scheme :: "TPMU_ASYM_SCHEME option"
  TPMS_ECC_PARMS_curveID :: "TPM_ECC_CURVE"
  TPMS_ECC_PARMS_kdf :: "TPMU_KDF_SCHEME option"

definition TPMS_ECC_PARMS_default :: TPMS_ECC_PARMS where
  "TPMS_ECC_PARMS_default = \<lparr>TPMS_ECC_PARMS_symmetric = TPMT_SYM_DEF_OBJECT_default, TPMS_ECC_PARMS_scheme = None, TPMS_ECC_PARMS_curveID = 0, TPMS_ECC_PARMS_kdf = None\<rparr>"

definition TPMS_ECC_PARMS_toTpm :: "TPMS_ECC_PARMS \<Rightarrow> unit tpm" where
  "TPMS_ECC_PARMS_toTpm self =
     wseq [TPMT_SYM_DEF_OBJECT_toTpm (TPMS_ECC_PARMS_symmetric self),
       deref (TPMS_ECC_PARMS_scheme self) (\<lambda>u. writeShort (TPMU_ASYM_SCHEME_GetUnionSelector u)),
       deref (TPMS_ECC_PARMS_scheme self) TPMU_ASYM_SCHEME_toTpm,
       writeShort (TPMS_ECC_PARMS_curveID self),
       deref (TPMS_ECC_PARMS_kdf self) (\<lambda>u. writeShort (TPMU_KDF_SCHEME_GetUnionSelector u)),
       deref (TPMS_ECC_PARMS_kdf self) TPMU_KDF_SCHEME_toTpm]"

definition TPMS_ECC_PARMS_initFromTpm :: "TPMS_ECC_PARMS \<Rightarrow> TPMS_ECC_PARMS tpm" where
  "TPMS_ECC_PARMS_initFromTpm self =
     sbind (TPMT_SYM_DEF_OBJECT_initFromTpm (TPMS_ECC_PARMS_symmetric self)) (\<lambda>symmetric.
     sbind readShort (\<lambda>schemeScheme.
     bindO (UnionFactory_Create_TPMU_ASYM_SCHEME schemeScheme) (\<lambda>scheme.
     sbind (deref scheme TPMU_ASYM_SCHEME_initFromTpm) (\<lambda>scheme.
     sbind readShort (\<lambda>curveID.
     sbind readShort (\<lambda>kdfScheme.
     bindO (UnionFactory_Create_TPMU_KDF_SCHEME kdfScheme) (\<lambda>kdf.
     sbind (deref kdf TPMU_KDF_SCHEME_initFromTpm) (\<lambda>kdf.
     ret (self\<lparr>TPMS_ECC_PARMS_symmetric := symmetric, TPMS_ECC_PARMS_scheme := Some scheme, TPMS_ECC_PARMS_curveID := curveID, TPMS_ECC_PARMS_kdf := Some kdf\<rparr>)))))))))"

definition TPMS_ECC_PARMS_enc :: "TPMS_ECC_PARMS \<Rightarrow> ByteVec" where
  "TPMS_ECC_PARMS_enc x =
     TPMT_SYM_DEF_OBJECT_enc (TPMS_ECC_PARMS_symmetric x) @
     opt_enc (\<lambda>u. enc16 (TPMU_ASYM_SCHEME_GetUnionSelector u)) (TPMS_ECC_PARMS_scheme x) @
     opt_enc TPMU_ASYM_SCHEME_enc (TPMS_ECC_PARMS_scheme x) @
     enc16 (TPMS_ECC_PARMS_curveID x) @
     opt_enc (\<lambda>u. enc16 (TPMU_KDF_SCHEME_GetUnionSelector u)) (TPMS_ECC_PARMS_kdf x) @
     opt_enc TPMU_KDF_SCHEME_enc (TPMS_ECC_PARMS_kdf x)"

definition TPMS_ECC_PARMS_valid :: "TPMS_ECC_PARMS \<Rightarrow> bool" where
  "TPMS_ECC_PARMS_valid x \<longleftrightarrow>
     TPMT_SYM_DEF_OBJECT_valid (TPMS_ECC_PARMS_symmetric x) \<and>
     opt_ok TPMU_ASYM_SCHEME_valid (TPMS_ECC_PARMS_scheme x) \<and>
     opt_ok TPMU_KDF_SCHEME_valid (TPMS_ECC_PARMS_kdf x)"

lemma TPMS_ECC_PARMS_writes [writes_intros]:
  "TPMS_ECC_PARMS_valid x \<Longrightarrow> writes (TPMS_ECC_PARMS_toTpm x) (TPMS_ECC_PARMS_enc x)"
  unfolding TPMS_ECC_PARMS_toTpm_def TPMS_ECC_PARMS_enc_def
  by (intro writes_intros; simp add: TPMS_ECC_PARMS_valid_def opt_ok_iff)

lemma TPMS_ECC_PARMS_reads:
  "TPMS_ECC_PARMS_valid x \<Longrightarrow> reads (TPMS_ECC_PARMS_initFromTpm TPMS_ECC_PARMS_default) x (TPMS_ECC_PARMS_enc x)"
  by (simp only: TPMS_ECC_PARMS_initFromTpm_def TPMS_ECC_PARMS_enc_def TPMS_ECC_PARMS_default_def
        TPMS_ECC_PARMS.select_convs TPMS_ECC_PARMS.update_convs;
      intro reads_intros; (rule TPMS_ECC_PARMS.equality)?; simp add: TPMS_ECC_PARMS_valid_def opt_ok_iff)

lemma TPMS_ECC_PARMS_enc_nonempty [simp]: "TPMS_ECC_PARMS_enc x \<noteq> []"
  by (simp add: TPMS_ECC_PARMS_enc_def)

interpretation TPMS_ECC_PARMS_codec:
  tpm_codec TPMS_ECC_PARMS_toTpm TPMS_ECC_PARMS_initFromTpm TPMS_ECC_PARMS_default
    TPMS_ECC_PARMS_enc TPMS_ECC_PARMS_valid
  by unfold_locales (simp_all add: TPMS_ECC_PARMS_writes TPMS_ECC_PARMS_reads)

lemmas TPMS_ECC_PARMS_steps [reads_intros] =
  TPMS_ECC_PARMS_reads [THEN reads_sbind] TPMS_ECC_PARMS_reads [THEN reads_sbind_ret]

subsection \<open>The union TPMU_PUBLIC_PARMS\<close>

datatype TPMU_PUBLIC_PARMS =
    PUBLIC_PARMS_TPMS_KEYEDHASH_PARMS TPMS_KEYEDHASH_PARMS
  | PUBLIC_PARMS_TPMS_SYMCIPHER_PARMS TPMS_SYMCIPHER_PARMS
  | PUBLIC_PARMS_TPMS_RSA_PARMS TPMS_RSA_PARMS
  | PUBLIC_PARMS_TPMS_ECC_PARMS TPMS_ECC_PARMS
  | PUBLIC_PARMS_TPMS_ASYM_PARMS TPMS_ASYM_PARMS

fun TPMU_PUBLIC_PARMS_GetUnionSelector :: "TPMU_PUBLIC_PARMS \<Rightarrow> TPM_ALG_ID" where
  "TPMU_PUBLIC_PARMS_GetUnionSelector (PUBLIC_PARMS_TPMS_KEYEDHASH_PARMS x) = TPM_ALG_ID_KEYEDHASH"
| "TPMU_PUBLIC_PARMS_GetUnionSelector (PUBLIC_PARMS_TPMS_SYMCIPHER_PARMS x) = TPM_ALG_ID_SYMCIPHER"
| "TPMU_PUBLIC_PARMS_GetUnionSelector (PUBLIC_PARMS_TPMS_RSA_PARMS x) = TPM_ALG_ID_RSA"
| "TPMU_PUBLIC_PARMS_GetUnionSelector (PUBLIC_PARMS_TPMS_ECC_PARMS x) = TPM_ALG_ID_ECC"
| "TPMU_PUBLIC_PARMS_GetUnionSelector (PUBLIC_PARMS_TPMS_ASYM_PARMS x) = TPM_ALG_ID_ANY"

fun TPMU_PUBLIC_PARMS_toTpm :: "TPMU_PUBLIC_PARMS \<Rightarrow> unit tpm" where
  "TPMU_PUBLIC_PARMS_toTpm (PUBLIC_PARMS_TPMS_KEYEDHASH_PARMS x) = TPMS_KEYEDHASH_PARMS_toTpm x"
| "TPMU_PUBLIC_PARMS_toTpm (PUBLIC_PARMS_TPMS_SYMCIPHER_PARMS x) = TPMS_SYMCIPHER_PARMS_toTpm x"
| "TPMU_PUBLIC_PARMS_toTpm (PUBLIC_PARMS_TPMS_RSA_PARMS x) = TPMS_RSA_PARMS_toTpm x"
| "TPMU_PUBLIC_PARMS_toTpm (PUBLIC_PARMS_TPMS_ECC_PARMS x) = TPMS_ECC_PARMS_toTpm x"
| "TPMU_PUBLIC_PARMS_toTpm (PUBLIC_PARMS_TPMS_ASYM_PARMS x) = TPMS_ASYM_PARMS_toTpm x"

fun TPMU_PUBLIC_PARMS_initFromTpm :: "TPMU_PUBLIC_PARMS \<Rightarrow> TPMU_PUBLIC_PARMS tpm" where
  "TPMU_PUBLIC_PARMS_initFromTpm (PUBLIC_PARMS_TPMS_KEYEDHASH_PARMS x) = sbind (TPMS_KEYEDHASH_PARMS_initFromTpm x) (\<lambda>y. ret (PUBLIC_PARMS_TPMS_KEYEDHASH_PARMS y))"
| "TPMU_PUBLIC_PARMS_initFromTpm (PUBLIC_PARMS_TPMS_SYMCIPHER_PARMS x) = sbind (TPMS_SYMCIPHER_PARMS_initFromTpm x) (\<lambda>y. ret (PUBLIC_PARMS_TPMS_SYMCIPHER_PARMS y))"
| "TPMU_PUBLIC_PARMS_initFromTpm (PUBLIC_PARMS_TPMS_RSA_PARMS x) = sbind (TPMS_RSA_PARMS_initFromTpm x) (\<lambda>y. ret (PUBLIC_PARMS_TPMS_RSA_PARMS y))"
| "TPMU_PUBLIC_PARMS_initFromTpm (PUBLIC_PARMS_TPMS_ECC_PARMS x) = sbind (TPMS_ECC_PARMS_initFromTpm x) (\<lambda>y. ret (PUBLIC_PARMS_TPMS_ECC_PARMS y))"
| "TPMU_PUBLIC_PARMS_initFromTpm (PUBLIC_PARMS_TPMS_ASYM_PARMS x) = sbind (TPMS_ASYM_PARMS_initFromTpm x) (\<lambda>y. ret (PUBLIC_PARMS_TPMS_ASYM_PARMS y))"

definition UnionFactory_Create_TPMU_PUBLIC_PARMS :: "TPM_ALG_ID \<Rightarrow> TPMU_PUBLIC_PARMS option outcome" where
  "UnionFactory_Create_TPMU_PUBLIC_PARMS selector =
     (if selector = TPM_ALG_ID_KEYEDHASH then Ok (Some (PUBLIC_PARMS_TPMS_KEYEDHASH_PARMS TPMS_KEYEDHASH_PARMS_default))
      else if selector = TPM_ALG_ID_SYMCIPHER then Ok (Some (PUBLIC_PARMS_TPMS_SYMCIPHER_PARMS TPMS_SYMCIPHER_PARMS_default))
      else if selector = TPM_ALG_ID_RSA then Ok (Some (PUBLIC_PARMS_TPMS_RSA_PARMS TPMS_RSA_PARMS_default))
      else if selector = TPM_ALG_ID_ECC then Ok (Some (PUBLIC_PARMS_TPMS_ECC_PARMS TPMS_ECC_PARMS_default))
      else if selector = TPM_ALG_ID_ANY then Ok (Some (PUBLIC_PARMS_TPMS_ASYM_PARMS TPMS_ASYM_PARMS_default))
      else Throw (runtime_error ''Unknown selector value''))"

text \<open>The wire form of the members, the member a selector stands for, and which members a selector can name.\<close>

fun TPMU_PUBLIC_PARMS_fresh :: "TPMU_PUBLIC_PARMS \<Rightarrow> TPMU_PUBLIC_PARMS" where
  "TPMU_PUBLIC_PARMS_fresh (PUBLIC_PARMS_TPMS_KEYEDHASH_PARMS _) = PUBLIC_PARMS_TPMS_KEYEDHASH_PARMS TPMS_KEYEDHASH_PARMS_default"
| "TPMU_PUBLIC_PARMS_fresh (PUBLIC_PARMS_TPMS_SYMCIPHER_PARMS _) = PUBLIC_PARMS_TPMS_SYMCIPHER_PARMS TPMS_SYMCIPHER_PARMS_default"
| "TPMU_PUBLIC_PARMS_fresh (PUBLIC_PARMS_TPMS_RSA_PARMS _) = PUBLIC_PARMS_TPMS_RSA_PARMS TPMS_RSA_PARMS_default"
| "TPMU_PUBLIC_PARMS_fresh (PUBLIC_PARMS_TPMS_ECC_PARMS _) = PUBLIC_PARMS_TPMS_ECC_PARMS TPMS_ECC_PARMS_default"
| "TPMU_PUBLIC_PARMS_fresh (PUBLIC_PARMS_TPMS_ASYM_PARMS _) = PUBLIC_PARMS_TPMS_ASYM_PARMS TPMS_ASYM_PARMS_default"

fun TPMU_PUBLIC_PARMS_enc :: "TPMU_PUBLIC_PARMS \<Rightarrow> ByteVec" where
  "TPMU_PUBLIC_PARMS_enc (PUBLIC_PARMS_TPMS_KEYEDHASH_PARMS x) = TPMS_KEYEDHASH_PARMS_enc x"
| "TPMU_PUBLIC_PARMS_enc (PUBLIC_PARMS_TPMS_SYMCIPHER_PARMS x) = TPMS_SYMCIPHER_PARMS_enc x"
| "TPMU_PUBLIC_PARMS_enc (PUBLIC_PARMS_TPMS_RSA_PARMS x) = TPMS_RSA_PARMS_enc x"
| "TPMU_PUBLIC_PARMS_enc (PUBLIC_PARMS_TPMS_ECC_PARMS x) = TPMS_ECC_PARMS_enc x"
| "TPMU_PUBLIC_PARMS_enc (PUBLIC_PARMS_TPMS_ASYM_PARMS x) = TPMS_ASYM_PARMS_enc x"

fun TPMU_PUBLIC_PARMS_valid :: "TPMU_PUBLIC_PARMS \<Rightarrow> bool" where
  "TPMU_PUBLIC_PARMS_valid (PUBLIC_PARMS_TPMS_KEYEDHASH_PARMS x) = TPMS_KEYEDHASH_PARMS_valid x"
| "TPMU_PUBLIC_PARMS_valid (PUBLIC_PARMS_TPMS_SYMCIPHER_PARMS x) = TPMS_SYMCIPHER_PARMS_valid x"
| "TPMU_PUBLIC_PARMS_valid (PUBLIC_PARMS_TPMS_RSA_PARMS x) = TPMS_RSA_PARMS_valid x"
| "TPMU_PUBLIC_PARMS_valid (PUBLIC_PARMS_TPMS_ECC_PARMS x) = TPMS_ECC_PARMS_valid x"
| "TPMU_PUBLIC_PARMS_valid (PUBLIC_PARMS_TPMS_ASYM_PARMS x) = TPMS_ASYM_PARMS_valid x"

lemma TPMU_PUBLIC_PARMS_writes [writes_intros]: "TPMU_PUBLIC_PARMS_valid u \<Longrightarrow> writes (TPMU_PUBLIC_PARMS_toTpm u) (TPMU_PUBLIC_PARMS_enc u)"
  by (cases u) (auto intro!: writes_intros)

lemma TPMU_PUBLIC_PARMS_reads:
  "TPMU_PUBLIC_PARMS_valid u \<Longrightarrow> reads (TPMU_PUBLIC_PARMS_initFromTpm (TPMU_PUBLIC_PARMS_fresh u)) u (TPMU_PUBLIC_PARMS_enc u)"
  by (cases u) (auto intro!: reads_intros)

lemma TPMU_PUBLIC_PARMS_reads_the:
  "opt_ok TPMU_PUBLIC_PARMS_valid u \<Longrightarrow> reads (TPMU_PUBLIC_PARMS_initFromTpm (TPMU_PUBLIC_PARMS_fresh (the u))) (the u) (opt_enc TPMU_PUBLIC_PARMS_enc u)"
  by (cases u) (simp_all add: TPMU_PUBLIC_PARMS_reads)

lemma TPMU_PUBLIC_PARMS_Create:
  "TPMU_PUBLIC_PARMS_valid u \<Longrightarrow>
   UnionFactory_Create_TPMU_PUBLIC_PARMS (TPMU_PUBLIC_PARMS_GetUnionSelector u) = Ok (Some (TPMU_PUBLIC_PARMS_fresh u))"
  by (cases u) (simp_all add: UnionFactory_Create_TPMU_PUBLIC_PARMS_def)

lemma TPMU_PUBLIC_PARMS_Create_the:
  "opt_ok TPMU_PUBLIC_PARMS_valid u \<Longrightarrow>
   UnionFactory_Create_TPMU_PUBLIC_PARMS (TPMU_PUBLIC_PARMS_GetUnionSelector (the u)) = Ok (Some (TPMU_PUBLIC_PARMS_fresh (the u)))"
  by (cases u) (simp_all add: TPMU_PUBLIC_PARMS_Create)

lemmas TPMU_PUBLIC_PARMS_steps [reads_intros] =
  reads_deref [where init = TPMU_PUBLIC_PARMS_initFromTpm, OF TPMU_PUBLIC_PARMS_reads_the]
  reads_deref_ret [where init = TPMU_PUBLIC_PARMS_initFromTpm, OF TPMU_PUBLIC_PARMS_reads_the]
  TPMU_PUBLIC_PARMS_Create_the [THEN reads_bindO]

subsection \<open>TPMT_PUBLIC_PARMS\<close>

text \<open>This structure is used in TPM2_TestParms() to validate that a set of algorithm parameters is supported by the TPM.\<close>

record TPMT_PUBLIC_PARMS =
  TPMT_PUBLIC_PARMS_parameters :: "TPMU_PUBLIC_PARMS option"

definition TPMT_PUBLIC_PARMS_default :: TPMT_PUBLIC_PARMS where
  "TPMT_PUBLIC_PARMS_default = \<lparr>TPMT_PUBLIC_PARMS_parameters = None\<rparr>"

definition TPMT_PUBLIC_PARMS_toTpm :: "TPMT_PUBLIC_PARMS \<Rightarrow> unit tpm" where
  "TPMT_PUBLIC_PARMS_toTpm self =
     (if TPMT_PUBLIC_PARMS_parameters self = None then ret ()
     else wseq [deref (TPMT_PUBLIC_PARMS_parameters self) (\<lambda>u. writeShort (TPMU_PUBLIC_PARMS_GetUnionSelector u)),
       deref (TPMT_PUBLIC_PARMS_parameters self) TPMU_PUBLIC_PARMS_toTpm])"

definition TPMT_PUBLIC_PARMS_initFromTpm :: "TPMT_PUBLIC_PARMS \<Rightarrow> TPMT_PUBLIC_PARMS tpm" where
  "TPMT_PUBLIC_PARMS_initFromTpm self =
     sbind readShort (\<lambda>type.
     bindO (UnionFactory_Create_TPMU_PUBLIC_PARMS type) (\<lambda>parameters.
     sbind (deref parameters TPMU_PUBLIC_PARMS_initFromTpm) (\<lambda>parameters.
     ret (self\<lparr>TPMT_PUBLIC_PARMS_parameters := Some parameters\<rparr>))))"

definition TPMT_PUBLIC_PARMS_enc :: "TPMT_PUBLIC_PARMS \<Rightarrow> ByteVec" where
  "TPMT_PUBLIC_PARMS_enc x =
     (if TPMT_PUBLIC_PARMS_parameters x = None then []
     else opt_enc (\<lambda>u. enc16 (TPMU_PUBLIC_PARMS_GetUnionSelector u)) (TPMT_PUBLIC_PARMS_parameters x) @
       opt_enc TPMU_PUBLIC_PARMS_enc (TPMT_PUBLIC_PARMS_parameters x))"

definition TPMT_PUBLIC_PARMS_valid :: "TPMT_PUBLIC_PARMS \<Rightarrow> bool" where
  "TPMT_PUBLIC_PARMS_valid x \<longleftrightarrow>
     opt_ok TPMU_PUBLIC_PARMS_valid (TPMT_PUBLIC_PARMS_parameters x)"

lemma TPMT_PUBLIC_PARMS_null: "TPMT_PUBLIC_PARMS_toTpm TPMT_PUBLIC_PARMS_default = ret ()" "TPMT_PUBLIC_PARMS_enc TPMT_PUBLIC_PARMS_default = []"
  by (simp_all add: TPMT_PUBLIC_PARMS_toTpm_def TPMT_PUBLIC_PARMS_enc_def TPMT_PUBLIC_PARMS_default_def)

lemma TPMT_PUBLIC_PARMS_writes [writes_intros]:
  "TPMT_PUBLIC_PARMS_valid x \<Longrightarrow> writes (TPMT_PUBLIC_PARMS_toTpm x) (TPMT_PUBLIC_PARMS_enc x)"
  by (auto simp: TPMT_PUBLIC_PARMS_toTpm_def TPMT_PUBLIC_PARMS_enc_def TPMT_PUBLIC_PARMS_valid_def opt_ok_iff
      simp del: wseq.simps intro!: writes_intros)

lemma TPMT_PUBLIC_PARMS_reads:
  "TPMT_PUBLIC_PARMS_valid x \<Longrightarrow> reads (TPMT_PUBLIC_PARMS_initFromTpm TPMT_PUBLIC_PARMS_default) x (TPMT_PUBLIC_PARMS_enc x)"
  by (simp only: TPMT_PUBLIC_PARMS_initFromTpm_def TPMT_PUBLIC_PARMS_enc_def TPMT_PUBLIC_PARMS_default_def
        TPMT_PUBLIC_PARMS.select_convs TPMT_PUBLIC_PARMS.update_convs;
      intro reads_intros; (rule TPMT_PUBLIC_PARMS.equality)?; simp add: TPMT_PUBLIC_PARMS_valid_def opt_ok_iff)

interpretation TPMT_PUBLIC_PARMS_codec:
  tpm_codec TPMT_PUBLIC_PARMS_toTpm TPMT_PUBLIC_PARMS_initFromTpm TPMT_PUBLIC_PARMS_default
    TPMT_PUBLIC_PARMS_enc TPMT_PUBLIC_PARMS_valid
  by unfold_locales (simp_all add: TPMT_PUBLIC_PARMS_writes TPMT_PUBLIC_PARMS_reads TPMT_PUBLIC_PARMS_null writes_ret)

subsection \<open>The union TPMU_PUBLIC_ID\<close>

datatype TPMU_PUBLIC_ID =
    PUBLIC_ID_TPM2B_DIGEST_KEYEDHASH TPM2B_DIGEST
  | PUBLIC_ID_TPM2B_DIGEST_SYMCIPHER TPM2B_DIGEST
  | PUBLIC_ID_TPM2B_PUBLIC_KEY_RSA TPM2B_PUBLIC_KEY_RSA
  | PUBLIC_ID_TPMS_ECC_POINT TPMS_ECC_POINT
  | PUBLIC_ID_TPMS_DERIVE TPMS_DERIVE

fun TPMU_PUBLIC_ID_GetUnionSelector :: "TPMU_PUBLIC_ID \<Rightarrow> TPM_ALG_ID" where
  "TPMU_PUBLIC_ID_GetUnionSelector (PUBLIC_ID_TPM2B_DIGEST_KEYEDHASH x) = TPM_ALG_ID_KEYEDHASH"
| "TPMU_PUBLIC_ID_GetUnionSelector (PUBLIC_ID_TPM2B_DIGEST_SYMCIPHER x) = TPM_ALG_ID_SYMCIPHER"
| "TPMU_PUBLIC_ID_GetUnionSelector (PUBLIC_ID_TPM2B_PUBLIC_KEY_RSA x) = TPM_ALG_ID_RSA"
| "TPMU_PUBLIC_ID_GetUnionSelector (PUBLIC_ID_TPMS_ECC_POINT x) = TPM_ALG_ID_ECC"
| "TPMU_PUBLIC_ID_GetUnionSelector (PUBLIC_ID_TPMS_DERIVE x) = TPM_ALG_ID_ANY2"

fun TPMU_PUBLIC_ID_toTpm :: "TPMU_PUBLIC_ID \<Rightarrow> unit tpm" where
  "TPMU_PUBLIC_ID_toTpm (PUBLIC_ID_TPM2B_DIGEST_KEYEDHASH x) = TPM2B_DIGEST_toTpm x"
| "TPMU_PUBLIC_ID_toTpm (PUBLIC_ID_TPM2B_DIGEST_SYMCIPHER x) = TPM2B_DIGEST_toTpm x"
| "TPMU_PUBLIC_ID_toTpm (PUBLIC_ID_TPM2B_PUBLIC_KEY_RSA x) = TPM2B_PUBLIC_KEY_RSA_toTpm x"
| "TPMU_PUBLIC_ID_toTpm (PUBLIC_ID_TPMS_ECC_POINT x) = TPMS_ECC_POINT_toTpm x"
| "TPMU_PUBLIC_ID_toTpm (PUBLIC_ID_TPMS_DERIVE x) = TPMS_DERIVE_toTpm x"

fun TPMU_PUBLIC_ID_initFromTpm :: "TPMU_PUBLIC_ID \<Rightarrow> TPMU_PUBLIC_ID tpm" where
  "TPMU_PUBLIC_ID_initFromTpm (PUBLIC_ID_TPM2B_DIGEST_KEYEDHASH x) = sbind (TPM2B_DIGEST_initFromTpm x) (\<lambda>y. ret (PUBLIC_ID_TPM2B_DIGEST_KEYEDHASH y))"
| "TPMU_PUBLIC_ID_initFromTpm (PUBLIC_ID_TPM2B_DIGEST_SYMCIPHER x) = sbind (TPM2B_DIGEST_initFromTpm x) (\<lambda>y. ret (PUBLIC_ID_TPM2B_DIGEST_SYMCIPHER y))"
| "TPMU_PUBLIC_ID_initFromTpm (PUBLIC_ID_TPM2B_PUBLIC_KEY_RSA x) = sbind (TPM2B_PUBLIC_KEY_RSA_initFromTpm x) (\<lambda>y. ret (PUBLIC_ID_TPM2B_PUBLIC_KEY_RSA y))"
| "TPMU_PUBLIC_ID_initFromTpm (PUBLIC_ID_TPMS_ECC_POINT x) = sbind (TPMS_ECC_POINT_initFromTpm x) (\<lambda>y. ret (PUBLIC_ID_TPMS_ECC_POINT y))"
| "TPMU_PUBLIC_ID_initFromTpm (PUBLIC_ID_TPMS_DERIVE x) = sbind (TPMS_DERIVE_initFromTpm x) (\<lambda>y. ret (PUBLIC_ID_TPMS_DERIVE y))"

definition UnionFactory_Create_TPMU_PUBLIC_ID :: "TPM_ALG_ID \<Rightarrow> TPMU_PUBLIC_ID option outcome" where
  "UnionFactory_Create_TPMU_PUBLIC_ID selector =
     (if selector = TPM_ALG_ID_KEYEDHASH then Ok (Some (PUBLIC_ID_TPM2B_DIGEST_KEYEDHASH TPM2B_DIGEST_default))
      else if selector = TPM_ALG_ID_SYMCIPHER then Ok (Some (PUBLIC_ID_TPM2B_DIGEST_SYMCIPHER TPM2B_DIGEST_default))
      else if selector = TPM_ALG_ID_RSA then Ok (Some (PUBLIC_ID_TPM2B_PUBLIC_KEY_RSA TPM2B_PUBLIC_KEY_RSA_default))
      else if selector = TPM_ALG_ID_ECC then Ok (Some (PUBLIC_ID_TPMS_ECC_POINT TPMS_ECC_POINT_default))
      else if selector = TPM_ALG_ID_ANY then Ok (Some (PUBLIC_ID_TPMS_DERIVE TPMS_DERIVE_default))
      else Throw (runtime_error ''Unknown selector value''))"

text \<open>The wire form of the members, the member a selector stands for, and which members a selector can name.\<close>

fun TPMU_PUBLIC_ID_fresh :: "TPMU_PUBLIC_ID \<Rightarrow> TPMU_PUBLIC_ID" where
  "TPMU_PUBLIC_ID_fresh (PUBLIC_ID_TPM2B_DIGEST_KEYEDHASH _) = PUBLIC_ID_TPM2B_DIGEST_KEYEDHASH TPM2B_DIGEST_default"
| "TPMU_PUBLIC_ID_fresh (PUBLIC_ID_TPM2B_DIGEST_SYMCIPHER _) = PUBLIC_ID_TPM2B_DIGEST_SYMCIPHER TPM2B_DIGEST_default"
| "TPMU_PUBLIC_ID_fresh (PUBLIC_ID_TPM2B_PUBLIC_KEY_RSA _) = PUBLIC_ID_TPM2B_PUBLIC_KEY_RSA TPM2B_PUBLIC_KEY_RSA_default"
| "TPMU_PUBLIC_ID_fresh (PUBLIC_ID_TPMS_ECC_POINT _) = PUBLIC_ID_TPMS_ECC_POINT TPMS_ECC_POINT_default"
| "TPMU_PUBLIC_ID_fresh (PUBLIC_ID_TPMS_DERIVE _) = PUBLIC_ID_TPMS_DERIVE TPMS_DERIVE_default"

fun TPMU_PUBLIC_ID_enc :: "TPMU_PUBLIC_ID \<Rightarrow> ByteVec" where
  "TPMU_PUBLIC_ID_enc (PUBLIC_ID_TPM2B_DIGEST_KEYEDHASH x) = TPM2B_DIGEST_enc x"
| "TPMU_PUBLIC_ID_enc (PUBLIC_ID_TPM2B_DIGEST_SYMCIPHER x) = TPM2B_DIGEST_enc x"
| "TPMU_PUBLIC_ID_enc (PUBLIC_ID_TPM2B_PUBLIC_KEY_RSA x) = TPM2B_PUBLIC_KEY_RSA_enc x"
| "TPMU_PUBLIC_ID_enc (PUBLIC_ID_TPMS_ECC_POINT x) = TPMS_ECC_POINT_enc x"
| "TPMU_PUBLIC_ID_enc (PUBLIC_ID_TPMS_DERIVE x) = TPMS_DERIVE_enc x"

fun TPMU_PUBLIC_ID_valid :: "TPMU_PUBLIC_ID \<Rightarrow> bool" where
  "TPMU_PUBLIC_ID_valid (PUBLIC_ID_TPM2B_DIGEST_KEYEDHASH x) = TPM2B_DIGEST_valid x"
| "TPMU_PUBLIC_ID_valid (PUBLIC_ID_TPM2B_DIGEST_SYMCIPHER x) = TPM2B_DIGEST_valid x"
| "TPMU_PUBLIC_ID_valid (PUBLIC_ID_TPM2B_PUBLIC_KEY_RSA x) = TPM2B_PUBLIC_KEY_RSA_valid x"
| "TPMU_PUBLIC_ID_valid (PUBLIC_ID_TPMS_ECC_POINT x) = TPMS_ECC_POINT_valid x"
| "TPMU_PUBLIC_ID_valid (PUBLIC_ID_TPMS_DERIVE _) = False"

lemma TPMU_PUBLIC_ID_writes [writes_intros]: "TPMU_PUBLIC_ID_valid u \<Longrightarrow> writes (TPMU_PUBLIC_ID_toTpm u) (TPMU_PUBLIC_ID_enc u)"
  by (cases u) (auto intro!: writes_intros)

lemma TPMU_PUBLIC_ID_reads:
  "TPMU_PUBLIC_ID_valid u \<Longrightarrow> reads (TPMU_PUBLIC_ID_initFromTpm (TPMU_PUBLIC_ID_fresh u)) u (TPMU_PUBLIC_ID_enc u)"
  by (cases u) (auto intro!: reads_intros)

lemma TPMU_PUBLIC_ID_reads_the:
  "opt_ok TPMU_PUBLIC_ID_valid u \<Longrightarrow> reads (TPMU_PUBLIC_ID_initFromTpm (TPMU_PUBLIC_ID_fresh (the u))) (the u) (opt_enc TPMU_PUBLIC_ID_enc u)"
  by (cases u) (simp_all add: TPMU_PUBLIC_ID_reads)

lemma TPMU_PUBLIC_ID_Create:
  "TPMU_PUBLIC_ID_valid u \<Longrightarrow>
   UnionFactory_Create_TPMU_PUBLIC_ID (TPMU_PUBLIC_ID_GetUnionSelector u) = Ok (Some (TPMU_PUBLIC_ID_fresh u))"
  by (cases u) (simp_all add: UnionFactory_Create_TPMU_PUBLIC_ID_def)

lemma TPMU_PUBLIC_ID_Create_the:
  "opt_ok TPMU_PUBLIC_ID_valid u \<Longrightarrow>
   UnionFactory_Create_TPMU_PUBLIC_ID (TPMU_PUBLIC_ID_GetUnionSelector (the u)) = Ok (Some (TPMU_PUBLIC_ID_fresh (the u)))"
  by (cases u) (simp_all add: TPMU_PUBLIC_ID_Create)

lemmas TPMU_PUBLIC_ID_steps [reads_intros] =
  reads_deref [where init = TPMU_PUBLIC_ID_initFromTpm, OF TPMU_PUBLIC_ID_reads_the]
  reads_deref_ret [where init = TPMU_PUBLIC_ID_initFromTpm, OF TPMU_PUBLIC_ID_reads_the]
  TPMU_PUBLIC_ID_Create_the [THEN reads_bindO]

subsection \<open>TPMT_PUBLIC\<close>

text \<open>Table 201 defines the public area structure.\<close>

record TPMT_PUBLIC =
  TPMT_PUBLIC_nameAlg :: "TPM_ALG_ID"
  TPMT_PUBLIC_objectAttributes :: "TPMA_OBJECT"
  TPMT_PUBLIC_authPolicy :: "ByteVec"
  TPMT_PUBLIC_parameters :: "TPMU_PUBLIC_PARMS option"
  TPMT_PUBLIC_unique :: "TPMU_PUBLIC_ID option"

definition TPMT_PUBLIC_default :: TPMT_PUBLIC where
  "TPMT_PUBLIC_default = \<lparr>TPMT_PUBLIC_nameAlg = TPM_ALG_ID_NULL, TPMT_PUBLIC_objectAttributes = 0, TPMT_PUBLIC_authPolicy = [], TPMT_PUBLIC_parameters = None, TPMT_PUBLIC_unique = None\<rparr>"

definition TPMT_PUBLIC_toTpm :: "TPMT_PUBLIC \<Rightarrow> unit tpm" where
  "TPMT_PUBLIC_toTpm self =
     (if TPMT_PUBLIC_parameters self = None then ret ()
     else wseq [deref (TPMT_PUBLIC_parameters self) (\<lambda>u. writeShort (TPMU_PUBLIC_PARMS_GetUnionSelector u)),
       writeShort (TPMT_PUBLIC_nameAlg self),
       writeInt (TPMT_PUBLIC_objectAttributes self),
       writeSizedByteBuf (TPMT_PUBLIC_authPolicy self) 2,
       deref (TPMT_PUBLIC_parameters self) TPMU_PUBLIC_PARMS_toTpm,
       deref (TPMT_PUBLIC_unique self) TPMU_PUBLIC_ID_toTpm])"

definition TPMT_PUBLIC_initFromTpm :: "TPMT_PUBLIC \<Rightarrow> TPMT_PUBLIC tpm" where
  "TPMT_PUBLIC_initFromTpm self =
     sbind readShort (\<lambda>type.
     sbind readShort (\<lambda>nameAlg.
     sbind readInt (\<lambda>objectAttributes.
     sbind (readSizedByteBuf 2) (\<lambda>authPolicy.
     bindO (UnionFactory_Create_TPMU_PUBLIC_PARMS type) (\<lambda>parameters.
     sbind (deref parameters TPMU_PUBLIC_PARMS_initFromTpm) (\<lambda>parameters.
     bindO (UnionFactory_Create_TPMU_PUBLIC_ID type) (\<lambda>unique.
     sbind (deref unique TPMU_PUBLIC_ID_initFromTpm) (\<lambda>unique.
     ret (self\<lparr>TPMT_PUBLIC_nameAlg := nameAlg, TPMT_PUBLIC_objectAttributes := objectAttributes, TPMT_PUBLIC_authPolicy := authPolicy, TPMT_PUBLIC_parameters := Some parameters, TPMT_PUBLIC_unique := Some unique\<rparr>)))))))))"

definition TPMT_PUBLIC_enc :: "TPMT_PUBLIC \<Rightarrow> ByteVec" where
  "TPMT_PUBLIC_enc x =
     (if TPMT_PUBLIC_parameters x = None then []
     else opt_enc (\<lambda>u. enc16 (TPMU_PUBLIC_PARMS_GetUnionSelector u)) (TPMT_PUBLIC_parameters x) @
       enc16 (TPMT_PUBLIC_nameAlg x) @
       enc32 (TPMT_PUBLIC_objectAttributes x) @
       enc_sized 2 (TPMT_PUBLIC_authPolicy x) @
       opt_enc TPMU_PUBLIC_PARMS_enc (TPMT_PUBLIC_parameters x) @
       opt_enc TPMU_PUBLIC_ID_enc (TPMT_PUBLIC_unique x))"

definition TPMT_PUBLIC_valid :: "TPMT_PUBLIC \<Rightarrow> bool" where
  "TPMT_PUBLIC_valid x \<longleftrightarrow>
     sized_ok 2 (TPMT_PUBLIC_authPolicy x) \<and>
     opt_ok TPMU_PUBLIC_PARMS_valid (TPMT_PUBLIC_parameters x) \<and>
     opt_ok TPMU_PUBLIC_ID_valid (TPMT_PUBLIC_unique x) \<and>
     TPMU_PUBLIC_ID_GetUnionSelector (the (TPMT_PUBLIC_unique x)) =
       TPMU_PUBLIC_PARMS_GetUnionSelector (the (TPMT_PUBLIC_parameters x))"

lemma TPMT_PUBLIC_null: "TPMT_PUBLIC_toTpm TPMT_PUBLIC_default = ret ()" "TPMT_PUBLIC_enc TPMT_PUBLIC_default = []"
  by (simp_all add: TPMT_PUBLIC_toTpm_def TPMT_PUBLIC_enc_def TPMT_PUBLIC_default_def)

lemma TPMT_PUBLIC_writes [writes_intros]:
  "TPMT_PUBLIC_valid x \<Longrightarrow> writes (TPMT_PUBLIC_toTpm x) (TPMT_PUBLIC_enc x)"
  by (auto simp: TPMT_PUBLIC_toTpm_def TPMT_PUBLIC_enc_def TPMT_PUBLIC_valid_def opt_ok_iff
      simp del: wseq.simps intro!: writes_intros)

lemma TPMT_PUBLIC_reads:
  "TPMT_PUBLIC_valid x \<Longrightarrow> reads (TPMT_PUBLIC_initFromTpm TPMT_PUBLIC_default) x (TPMT_PUBLIC_enc x)"
proof -
  assume v: "TPMT_PUBLIC_valid x"
  then have "TPMU_PUBLIC_PARMS_GetUnionSelector (the (TPMT_PUBLIC_parameters x)) =
      TPMU_PUBLIC_ID_GetUnionSelector (the (TPMT_PUBLIC_unique x))"
    by (auto simp: TPMT_PUBLIC_valid_def opt_ok_iff)
  then have c: "UnionFactory_Create_TPMU_PUBLIC_ID
      (TPMU_PUBLIC_PARMS_GetUnionSelector (the (TPMT_PUBLIC_parameters x))) =
      Ok (Some (TPMU_PUBLIC_ID_fresh (the (TPMT_PUBLIC_unique x))))"
    using v TPMU_PUBLIC_ID_Create_the by (simp add: TPMT_PUBLIC_valid_def)
  show ?thesis
    using v by (simp only: TPMT_PUBLIC_initFromTpm_def TPMT_PUBLIC_enc_def TPMT_PUBLIC_default_def
        TPMT_PUBLIC.select_convs TPMT_PUBLIC.update_convs; intro c [THEN reads_bindO] reads_intros;
        (rule TPMT_PUBLIC.equality)?; simp add: TPMT_PUBLIC_valid_def opt_ok_iff)
qed

interpretation TPMT_PUBLIC_codec:
  tpm_codec TPMT_PUBLIC_toTpm TPMT_PUBLIC_initFromTpm TPMT_PUBLIC_default
    TPMT_PUBLIC_enc TPMT_PUBLIC_valid
  by unfold_locales (simp_all add: TPMT_PUBLIC_writes TPMT_PUBLIC_reads TPMT_PUBLIC_null writes_ret)

lemmas TPMT_PUBLIC_parts [writes_intros] = TPMT_PUBLIC_codec.writes_sized

lemmas TPMT_PUBLIC_steps [reads_intros] =
  TPMT_PUBLIC_reads [THEN reads_sbind] TPMT_PUBLIC_reads [THEN reads_sbind_ret]
  TPMT_PUBLIC_codec.reads_sizedObj [THEN reads_sbind] TPMT_PUBLIC_codec.reads_sizedObj [THEN reads_sbind_ret]

subsection \<open>TPM2B_PUBLIC\<close>

text \<open>This sized buffer is used to embed a TPMT_PUBLIC in a load command and in any response that returns a public area.\<close>

record TPM2B_PUBLIC =
  TPM2B_PUBLIC_publicArea :: "TPMT_PUBLIC"

definition TPM2B_PUBLIC_default :: TPM2B_PUBLIC where
  "TPM2B_PUBLIC_default = \<lparr>TPM2B_PUBLIC_publicArea = TPMT_PUBLIC_default\<rparr>"

definition TPM2B_PUBLIC_toTpm :: "TPM2B_PUBLIC \<Rightarrow> unit tpm" where
  "TPM2B_PUBLIC_toTpm self =
     wseq [writeSizedObj TPMT_PUBLIC_toTpm (TPM2B_PUBLIC_publicArea self)]"

definition TPM2B_PUBLIC_initFromTpm :: "TPM2B_PUBLIC \<Rightarrow> TPM2B_PUBLIC tpm" where
  "TPM2B_PUBLIC_initFromTpm self =
     sbind (readSizedObj TPMT_PUBLIC_initFromTpm (TPM2B_PUBLIC_publicArea self)) (\<lambda>publicArea.
     ret (self\<lparr>TPM2B_PUBLIC_publicArea := publicArea\<rparr>))"

definition TPM2B_PUBLIC_enc :: "TPM2B_PUBLIC \<Rightarrow> ByteVec" where
  "TPM2B_PUBLIC_enc x =
     enc_obj (TPMT_PUBLIC_enc (TPM2B_PUBLIC_publicArea x))"

definition TPM2B_PUBLIC_valid :: "TPM2B_PUBLIC \<Rightarrow> bool" where
  "TPM2B_PUBLIC_valid x \<longleftrightarrow>
     sized_obj_ok TPMT_PUBLIC_default TPMT_PUBLIC_enc TPMT_PUBLIC_valid (TPM2B_PUBLIC_publicArea x)"

lemma TPM2B_PUBLIC_writes [writes_intros]:
  "TPM2B_PUBLIC_valid x \<Longrightarrow> writes (TPM2B_PUBLIC_toTpm x) (TPM2B_PUBLIC_enc x)"
  unfolding TPM2B_PUBLIC_toTpm_def TPM2B_PUBLIC_enc_def
  by (intro writes_intros; simp add: TPM2B_PUBLIC_valid_def opt_ok_iff)

lemma TPM2B_PUBLIC_reads:
  "TPM2B_PUBLIC_valid x \<Longrightarrow> reads (TPM2B_PUBLIC_initFromTpm TPM2B_PUBLIC_default) x (TPM2B_PUBLIC_enc x)"
  by (simp only: TPM2B_PUBLIC_initFromTpm_def TPM2B_PUBLIC_enc_def TPM2B_PUBLIC_default_def
        TPM2B_PUBLIC.select_convs TPM2B_PUBLIC.update_convs;
      intro reads_intros; (rule TPM2B_PUBLIC.equality)?; simp add: TPM2B_PUBLIC_valid_def opt_ok_iff)

interpretation TPM2B_PUBLIC_codec:
  tpm_codec TPM2B_PUBLIC_toTpm TPM2B_PUBLIC_initFromTpm TPM2B_PUBLIC_default
    TPM2B_PUBLIC_enc TPM2B_PUBLIC_valid
  by unfold_locales (erule TPM2B_PUBLIC_writes TPM2B_PUBLIC_reads | simp add: TPM2B_PUBLIC_enc_def)+

subsection \<open>TPM2B_TEMPLATE\<close>

text \<open>This sized buffer is used to embed a TPMT_TEMPLATE for TPM2_CreateLoaded().\<close>

record TPM2B_TEMPLATE =
  TPM2B_TEMPLATE_buffer :: "ByteVec"

definition TPM2B_TEMPLATE_default :: TPM2B_TEMPLATE where
  "TPM2B_TEMPLATE_default = \<lparr>TPM2B_TEMPLATE_buffer = []\<rparr>"

definition TPM2B_TEMPLATE_toTpm :: "TPM2B_TEMPLATE \<Rightarrow> unit tpm" where
  "TPM2B_TEMPLATE_toTpm self =
     wseq [writeSizedByteBuf (TPM2B_TEMPLATE_buffer self) 2]"

definition TPM2B_TEMPLATE_initFromTpm :: "TPM2B_TEMPLATE \<Rightarrow> TPM2B_TEMPLATE tpm" where
  "TPM2B_TEMPLATE_initFromTpm self =
     sbind (readSizedByteBuf 2) (\<lambda>buffer.
     ret (self\<lparr>TPM2B_TEMPLATE_buffer := buffer\<rparr>))"

definition TPM2B_TEMPLATE_enc :: "TPM2B_TEMPLATE \<Rightarrow> ByteVec" where
  "TPM2B_TEMPLATE_enc x =
     enc_sized 2 (TPM2B_TEMPLATE_buffer x)"

definition TPM2B_TEMPLATE_valid :: "TPM2B_TEMPLATE \<Rightarrow> bool" where
  "TPM2B_TEMPLATE_valid x \<longleftrightarrow>
     sized_ok 2 (TPM2B_TEMPLATE_buffer x)"

lemma TPM2B_TEMPLATE_writes [writes_intros]:
  "TPM2B_TEMPLATE_valid x \<Longrightarrow> writes (TPM2B_TEMPLATE_toTpm x) (TPM2B_TEMPLATE_enc x)"
  unfolding TPM2B_TEMPLATE_toTpm_def TPM2B_TEMPLATE_enc_def
  by (intro writes_intros; simp add: TPM2B_TEMPLATE_valid_def opt_ok_iff)

lemma TPM2B_TEMPLATE_reads:
  "TPM2B_TEMPLATE_valid x \<Longrightarrow> reads (TPM2B_TEMPLATE_initFromTpm TPM2B_TEMPLATE_default) x (TPM2B_TEMPLATE_enc x)"
  by (simp only: TPM2B_TEMPLATE_initFromTpm_def TPM2B_TEMPLATE_enc_def TPM2B_TEMPLATE_default_def
        TPM2B_TEMPLATE.select_convs TPM2B_TEMPLATE.update_convs;
      intro reads_intros; (rule TPM2B_TEMPLATE.equality)?; simp add: TPM2B_TEMPLATE_valid_def opt_ok_iff)

interpretation TPM2B_TEMPLATE_codec:
  tpm_codec TPM2B_TEMPLATE_toTpm TPM2B_TEMPLATE_initFromTpm TPM2B_TEMPLATE_default
    TPM2B_TEMPLATE_enc TPM2B_TEMPLATE_valid
  by unfold_locales (erule TPM2B_TEMPLATE_writes TPM2B_TEMPLATE_reads | simp add: TPM2B_TEMPLATE_enc_def)+

subsection \<open>TPM2B_PRIVATE_VENDOR_SPECIFIC\<close>

text \<open>This structure is defined for coding purposes.\<close>

record TPM2B_PRIVATE_VENDOR_SPECIFIC =
  TPM2B_PRIVATE_VENDOR_SPECIFIC_buffer :: "ByteVec"

definition TPM2B_PRIVATE_VENDOR_SPECIFIC_default :: TPM2B_PRIVATE_VENDOR_SPECIFIC where
  "TPM2B_PRIVATE_VENDOR_SPECIFIC_default = \<lparr>TPM2B_PRIVATE_VENDOR_SPECIFIC_buffer = []\<rparr>"

definition TPM2B_PRIVATE_VENDOR_SPECIFIC_toTpm :: "TPM2B_PRIVATE_VENDOR_SPECIFIC \<Rightarrow> unit tpm" where
  "TPM2B_PRIVATE_VENDOR_SPECIFIC_toTpm self =
     wseq [writeSizedByteBuf (TPM2B_PRIVATE_VENDOR_SPECIFIC_buffer self) 2]"

definition TPM2B_PRIVATE_VENDOR_SPECIFIC_initFromTpm :: "TPM2B_PRIVATE_VENDOR_SPECIFIC \<Rightarrow> TPM2B_PRIVATE_VENDOR_SPECIFIC tpm" where
  "TPM2B_PRIVATE_VENDOR_SPECIFIC_initFromTpm self =
     sbind (readSizedByteBuf 2) (\<lambda>buffer.
     ret (self\<lparr>TPM2B_PRIVATE_VENDOR_SPECIFIC_buffer := buffer\<rparr>))"

definition TPM2B_PRIVATE_VENDOR_SPECIFIC_enc :: "TPM2B_PRIVATE_VENDOR_SPECIFIC \<Rightarrow> ByteVec" where
  "TPM2B_PRIVATE_VENDOR_SPECIFIC_enc x =
     enc_sized 2 (TPM2B_PRIVATE_VENDOR_SPECIFIC_buffer x)"

definition TPM2B_PRIVATE_VENDOR_SPECIFIC_valid :: "TPM2B_PRIVATE_VENDOR_SPECIFIC \<Rightarrow> bool" where
  "TPM2B_PRIVATE_VENDOR_SPECIFIC_valid x \<longleftrightarrow>
     sized_ok 2 (TPM2B_PRIVATE_VENDOR_SPECIFIC_buffer x)"

lemma TPM2B_PRIVATE_VENDOR_SPECIFIC_writes [writes_intros]:
  "TPM2B_PRIVATE_VENDOR_SPECIFIC_valid x \<Longrightarrow> writes (TPM2B_PRIVATE_VENDOR_SPECIFIC_toTpm x) (TPM2B_PRIVATE_VENDOR_SPECIFIC_enc x)"
  unfolding TPM2B_PRIVATE_VENDOR_SPECIFIC_toTpm_def TPM2B_PRIVATE_VENDOR_SPECIFIC_enc_def
  by (intro writes_intros; simp add: TPM2B_PRIVATE_VENDOR_SPECIFIC_valid_def opt_ok_iff)

lemma TPM2B_PRIVATE_VENDOR_SPECIFIC_reads:
  "TPM2B_PRIVATE_VENDOR_SPECIFIC_valid x \<Longrightarrow> reads (TPM2B_PRIVATE_VENDOR_SPECIFIC_initFromTpm TPM2B_PRIVATE_VENDOR_SPECIFIC_default) x (TPM2B_PRIVATE_VENDOR_SPECIFIC_enc x)"
  by (simp only: TPM2B_PRIVATE_VENDOR_SPECIFIC_initFromTpm_def TPM2B_PRIVATE_VENDOR_SPECIFIC_enc_def TPM2B_PRIVATE_VENDOR_SPECIFIC_default_def
        TPM2B_PRIVATE_VENDOR_SPECIFIC.select_convs TPM2B_PRIVATE_VENDOR_SPECIFIC.update_convs;
      intro reads_intros; (rule TPM2B_PRIVATE_VENDOR_SPECIFIC.equality)?; simp add: TPM2B_PRIVATE_VENDOR_SPECIFIC_valid_def opt_ok_iff)

lemma TPM2B_PRIVATE_VENDOR_SPECIFIC_enc_nonempty [simp]: "TPM2B_PRIVATE_VENDOR_SPECIFIC_enc x \<noteq> []"
  by (simp add: TPM2B_PRIVATE_VENDOR_SPECIFIC_enc_def)

interpretation TPM2B_PRIVATE_VENDOR_SPECIFIC_codec:
  tpm_codec TPM2B_PRIVATE_VENDOR_SPECIFIC_toTpm TPM2B_PRIVATE_VENDOR_SPECIFIC_initFromTpm TPM2B_PRIVATE_VENDOR_SPECIFIC_default
    TPM2B_PRIVATE_VENDOR_SPECIFIC_enc TPM2B_PRIVATE_VENDOR_SPECIFIC_valid
  by unfold_locales (simp_all add: TPM2B_PRIVATE_VENDOR_SPECIFIC_writes TPM2B_PRIVATE_VENDOR_SPECIFIC_reads)

lemmas TPM2B_PRIVATE_VENDOR_SPECIFIC_steps [reads_intros] =
  TPM2B_PRIVATE_VENDOR_SPECIFIC_reads [THEN reads_sbind] TPM2B_PRIVATE_VENDOR_SPECIFIC_reads [THEN reads_sbind_ret]

subsection \<open>The union TPMU_SENSITIVE_COMPOSITE\<close>

datatype TPMU_SENSITIVE_COMPOSITE =
    SENSITIVE_COMPOSITE_TPM2B_PRIVATE_KEY_RSA TPM2B_PRIVATE_KEY_RSA
  | SENSITIVE_COMPOSITE_TPM2B_ECC_PARAMETER TPM2B_ECC_PARAMETER
  | SENSITIVE_COMPOSITE_TPM2B_SENSITIVE_DATA TPM2B_SENSITIVE_DATA
  | SENSITIVE_COMPOSITE_TPM2B_SYM_KEY TPM2B_SYM_KEY
  | SENSITIVE_COMPOSITE_TPM2B_PRIVATE_VENDOR_SPECIFIC TPM2B_PRIVATE_VENDOR_SPECIFIC

fun TPMU_SENSITIVE_COMPOSITE_GetUnionSelector :: "TPMU_SENSITIVE_COMPOSITE \<Rightarrow> TPM_ALG_ID" where
  "TPMU_SENSITIVE_COMPOSITE_GetUnionSelector (SENSITIVE_COMPOSITE_TPM2B_PRIVATE_KEY_RSA x) = TPM_ALG_ID_RSA"
| "TPMU_SENSITIVE_COMPOSITE_GetUnionSelector (SENSITIVE_COMPOSITE_TPM2B_ECC_PARAMETER x) = TPM_ALG_ID_ECC"
| "TPMU_SENSITIVE_COMPOSITE_GetUnionSelector (SENSITIVE_COMPOSITE_TPM2B_SENSITIVE_DATA x) = TPM_ALG_ID_KEYEDHASH"
| "TPMU_SENSITIVE_COMPOSITE_GetUnionSelector (SENSITIVE_COMPOSITE_TPM2B_SYM_KEY x) = TPM_ALG_ID_SYMCIPHER"
| "TPMU_SENSITIVE_COMPOSITE_GetUnionSelector (SENSITIVE_COMPOSITE_TPM2B_PRIVATE_VENDOR_SPECIFIC x) = TPM_ALG_ID_ANY"

fun TPMU_SENSITIVE_COMPOSITE_toTpm :: "TPMU_SENSITIVE_COMPOSITE \<Rightarrow> unit tpm" where
  "TPMU_SENSITIVE_COMPOSITE_toTpm (SENSITIVE_COMPOSITE_TPM2B_PRIVATE_KEY_RSA x) = TPM2B_PRIVATE_KEY_RSA_toTpm x"
| "TPMU_SENSITIVE_COMPOSITE_toTpm (SENSITIVE_COMPOSITE_TPM2B_ECC_PARAMETER x) = TPM2B_ECC_PARAMETER_toTpm x"
| "TPMU_SENSITIVE_COMPOSITE_toTpm (SENSITIVE_COMPOSITE_TPM2B_SENSITIVE_DATA x) = TPM2B_SENSITIVE_DATA_toTpm x"
| "TPMU_SENSITIVE_COMPOSITE_toTpm (SENSITIVE_COMPOSITE_TPM2B_SYM_KEY x) = TPM2B_SYM_KEY_toTpm x"
| "TPMU_SENSITIVE_COMPOSITE_toTpm (SENSITIVE_COMPOSITE_TPM2B_PRIVATE_VENDOR_SPECIFIC x) = TPM2B_PRIVATE_VENDOR_SPECIFIC_toTpm x"

fun TPMU_SENSITIVE_COMPOSITE_initFromTpm :: "TPMU_SENSITIVE_COMPOSITE \<Rightarrow> TPMU_SENSITIVE_COMPOSITE tpm" where
  "TPMU_SENSITIVE_COMPOSITE_initFromTpm (SENSITIVE_COMPOSITE_TPM2B_PRIVATE_KEY_RSA x) = sbind (TPM2B_PRIVATE_KEY_RSA_initFromTpm x) (\<lambda>y. ret (SENSITIVE_COMPOSITE_TPM2B_PRIVATE_KEY_RSA y))"
| "TPMU_SENSITIVE_COMPOSITE_initFromTpm (SENSITIVE_COMPOSITE_TPM2B_ECC_PARAMETER x) = sbind (TPM2B_ECC_PARAMETER_initFromTpm x) (\<lambda>y. ret (SENSITIVE_COMPOSITE_TPM2B_ECC_PARAMETER y))"
| "TPMU_SENSITIVE_COMPOSITE_initFromTpm (SENSITIVE_COMPOSITE_TPM2B_SENSITIVE_DATA x) = sbind (TPM2B_SENSITIVE_DATA_initFromTpm x) (\<lambda>y. ret (SENSITIVE_COMPOSITE_TPM2B_SENSITIVE_DATA y))"
| "TPMU_SENSITIVE_COMPOSITE_initFromTpm (SENSITIVE_COMPOSITE_TPM2B_SYM_KEY x) = sbind (TPM2B_SYM_KEY_initFromTpm x) (\<lambda>y. ret (SENSITIVE_COMPOSITE_TPM2B_SYM_KEY y))"
| "TPMU_SENSITIVE_COMPOSITE_initFromTpm (SENSITIVE_COMPOSITE_TPM2B_PRIVATE_VENDOR_SPECIFIC x) = sbind (TPM2B_PRIVATE_VENDOR_SPECIFIC_initFromTpm x) (\<lambda>y. ret (SENSITIVE_COMPOSITE_TPM2B_PRIVATE_VENDOR_SPECIFIC y))"

definition UnionFactory_Create_TPMU_SENSITIVE_COMPOSITE :: "TPM_ALG_ID \<Rightarrow> TPMU_SENSITIVE_COMPOSITE option outcome" where
  "UnionFactory_Create_TPMU_SENSITIVE_COMPOSITE selector =
     (if selector = TPM_ALG_ID_RSA then Ok (Some (SENSITIVE_COMPOSITE_TPM2B_PRIVATE_KEY_RSA TPM2B_PRIVATE_KEY_RSA_default))
      else if selector = TPM_ALG_ID_ECC then Ok (Some (SENSITIVE_COMPOSITE_TPM2B_ECC_PARAMETER TPM2B_ECC_PARAMETER_default))
      else if selector = TPM_ALG_ID_KEYEDHASH then Ok (Some (SENSITIVE_COMPOSITE_TPM2B_SENSITIVE_DATA TPM2B_SENSITIVE_DATA_default))
      else if selector = TPM_ALG_ID_SYMCIPHER then Ok (Some (SENSITIVE_COMPOSITE_TPM2B_SYM_KEY TPM2B_SYM_KEY_default))
      else if selector = TPM_ALG_ID_ANY then Ok (Some (SENSITIVE_COMPOSITE_TPM2B_PRIVATE_VENDOR_SPECIFIC TPM2B_PRIVATE_VENDOR_SPECIFIC_default))
      else Throw (runtime_error ''Unknown selector value''))"

text \<open>The wire form of the members, the member a selector stands for, and which members a selector can name.\<close>

fun TPMU_SENSITIVE_COMPOSITE_fresh :: "TPMU_SENSITIVE_COMPOSITE \<Rightarrow> TPMU_SENSITIVE_COMPOSITE" where
  "TPMU_SENSITIVE_COMPOSITE_fresh (SENSITIVE_COMPOSITE_TPM2B_PRIVATE_KEY_RSA _) = SENSITIVE_COMPOSITE_TPM2B_PRIVATE_KEY_RSA TPM2B_PRIVATE_KEY_RSA_default"
| "TPMU_SENSITIVE_COMPOSITE_fresh (SENSITIVE_COMPOSITE_TPM2B_ECC_PARAMETER _) = SENSITIVE_COMPOSITE_TPM2B_ECC_PARAMETER TPM2B_ECC_PARAMETER_default"
| "TPMU_SENSITIVE_COMPOSITE_fresh (SENSITIVE_COMPOSITE_TPM2B_SENSITIVE_DATA _) = SENSITIVE_COMPOSITE_TPM2B_SENSITIVE_DATA TPM2B_SENSITIVE_DATA_default"
| "TPMU_SENSITIVE_COMPOSITE_fresh (SENSITIVE_COMPOSITE_TPM2B_SYM_KEY _) = SENSITIVE_COMPOSITE_TPM2B_SYM_KEY TPM2B_SYM_KEY_default"
| "TPMU_SENSITIVE_COMPOSITE_fresh (SENSITIVE_COMPOSITE_TPM2B_PRIVATE_VENDOR_SPECIFIC _) = SENSITIVE_COMPOSITE_TPM2B_PRIVATE_VENDOR_SPECIFIC TPM2B_PRIVATE_VENDOR_SPECIFIC_default"

fun TPMU_SENSITIVE_COMPOSITE_enc :: "TPMU_SENSITIVE_COMPOSITE \<Rightarrow> ByteVec" where
  "TPMU_SENSITIVE_COMPOSITE_enc (SENSITIVE_COMPOSITE_TPM2B_PRIVATE_KEY_RSA x) = TPM2B_PRIVATE_KEY_RSA_enc x"
| "TPMU_SENSITIVE_COMPOSITE_enc (SENSITIVE_COMPOSITE_TPM2B_ECC_PARAMETER x) = TPM2B_ECC_PARAMETER_enc x"
| "TPMU_SENSITIVE_COMPOSITE_enc (SENSITIVE_COMPOSITE_TPM2B_SENSITIVE_DATA x) = TPM2B_SENSITIVE_DATA_enc x"
| "TPMU_SENSITIVE_COMPOSITE_enc (SENSITIVE_COMPOSITE_TPM2B_SYM_KEY x) = TPM2B_SYM_KEY_enc x"
| "TPMU_SENSITIVE_COMPOSITE_enc (SENSITIVE_COMPOSITE_TPM2B_PRIVATE_VENDOR_SPECIFIC x) = TPM2B_PRIVATE_VENDOR_SPECIFIC_enc x"

fun TPMU_SENSITIVE_COMPOSITE_valid :: "TPMU_SENSITIVE_COMPOSITE \<Rightarrow> bool" where
  "TPMU_SENSITIVE_COMPOSITE_valid (SENSITIVE_COMPOSITE_TPM2B_PRIVATE_KEY_RSA x) = TPM2B_PRIVATE_KEY_RSA_valid x"
| "TPMU_SENSITIVE_COMPOSITE_valid (SENSITIVE_COMPOSITE_TPM2B_ECC_PARAMETER x) = TPM2B_ECC_PARAMETER_valid x"
| "TPMU_SENSITIVE_COMPOSITE_valid (SENSITIVE_COMPOSITE_TPM2B_SENSITIVE_DATA x) = TPM2B_SENSITIVE_DATA_valid x"
| "TPMU_SENSITIVE_COMPOSITE_valid (SENSITIVE_COMPOSITE_TPM2B_SYM_KEY x) = TPM2B_SYM_KEY_valid x"
| "TPMU_SENSITIVE_COMPOSITE_valid (SENSITIVE_COMPOSITE_TPM2B_PRIVATE_VENDOR_SPECIFIC x) = TPM2B_PRIVATE_VENDOR_SPECIFIC_valid x"

lemma TPMU_SENSITIVE_COMPOSITE_writes [writes_intros]: "TPMU_SENSITIVE_COMPOSITE_valid u \<Longrightarrow> writes (TPMU_SENSITIVE_COMPOSITE_toTpm u) (TPMU_SENSITIVE_COMPOSITE_enc u)"
  by (cases u) (auto intro!: writes_intros)

lemma TPMU_SENSITIVE_COMPOSITE_reads:
  "TPMU_SENSITIVE_COMPOSITE_valid u \<Longrightarrow> reads (TPMU_SENSITIVE_COMPOSITE_initFromTpm (TPMU_SENSITIVE_COMPOSITE_fresh u)) u (TPMU_SENSITIVE_COMPOSITE_enc u)"
  by (cases u) (auto intro!: reads_intros)

lemma TPMU_SENSITIVE_COMPOSITE_reads_the:
  "opt_ok TPMU_SENSITIVE_COMPOSITE_valid u \<Longrightarrow> reads (TPMU_SENSITIVE_COMPOSITE_initFromTpm (TPMU_SENSITIVE_COMPOSITE_fresh (the u))) (the u) (opt_enc TPMU_SENSITIVE_COMPOSITE_enc u)"
  by (cases u) (simp_all add: TPMU_SENSITIVE_COMPOSITE_reads)

lemma TPMU_SENSITIVE_COMPOSITE_Create:
  "TPMU_SENSITIVE_COMPOSITE_valid u \<Longrightarrow>
   UnionFactory_Create_TPMU_SENSITIVE_COMPOSITE (TPMU_SENSITIVE_COMPOSITE_GetUnionSelector u) = Ok (Some (TPMU_SENSITIVE_COMPOSITE_fresh u))"
  by (cases u) (simp_all add: UnionFactory_Create_TPMU_SENSITIVE_COMPOSITE_def)

lemma TPMU_SENSITIVE_COMPOSITE_Create_the:
  "opt_ok TPMU_SENSITIVE_COMPOSITE_valid u \<Longrightarrow>
   UnionFactory_Create_TPMU_SENSITIVE_COMPOSITE (TPMU_SENSITIVE_COMPOSITE_GetUnionSelector (the u)) = Ok (Some (TPMU_SENSITIVE_COMPOSITE_fresh (the u)))"
  by (cases u) (simp_all add: TPMU_SENSITIVE_COMPOSITE_Create)

lemmas TPMU_SENSITIVE_COMPOSITE_steps [reads_intros] =
  reads_deref [where init = TPMU_SENSITIVE_COMPOSITE_initFromTpm, OF TPMU_SENSITIVE_COMPOSITE_reads_the]
  reads_deref_ret [where init = TPMU_SENSITIVE_COMPOSITE_initFromTpm, OF TPMU_SENSITIVE_COMPOSITE_reads_the]
  TPMU_SENSITIVE_COMPOSITE_Create_the [THEN reads_bindO]

subsection \<open>TPMT_SENSITIVE\<close>

text \<open>AuthValue shall not be larger than the size of the digest produced by the nameAlg of the object.\<close>

record TPMT_SENSITIVE =
  TPMT_SENSITIVE_authValue :: "ByteVec"
  TPMT_SENSITIVE_seedValue :: "ByteVec"
  TPMT_SENSITIVE_sensitive :: "TPMU_SENSITIVE_COMPOSITE option"

definition TPMT_SENSITIVE_default :: TPMT_SENSITIVE where
  "TPMT_SENSITIVE_default = \<lparr>TPMT_SENSITIVE_authValue = [], TPMT_SENSITIVE_seedValue = [], TPMT_SENSITIVE_sensitive = None\<rparr>"

definition TPMT_SENSITIVE_toTpm :: "TPMT_SENSITIVE \<Rightarrow> unit tpm" where
  "TPMT_SENSITIVE_toTpm self =
     (if TPMT_SENSITIVE_sensitive self = None then ret ()
     else wseq [deref (TPMT_SENSITIVE_sensitive self) (\<lambda>u. writeShort (TPMU_SENSITIVE_COMPOSITE_GetUnionSelector u)),
       writeSizedByteBuf (TPMT_SENSITIVE_authValue self) 2,
       writeSizedByteBuf (TPMT_SENSITIVE_seedValue self) 2,
       deref (TPMT_SENSITIVE_sensitive self) TPMU_SENSITIVE_COMPOSITE_toTpm])"

definition TPMT_SENSITIVE_initFromTpm :: "TPMT_SENSITIVE \<Rightarrow> TPMT_SENSITIVE tpm" where
  "TPMT_SENSITIVE_initFromTpm self =
     sbind readShort (\<lambda>sensitiveType.
     sbind (readSizedByteBuf 2) (\<lambda>authValue.
     sbind (readSizedByteBuf 2) (\<lambda>seedValue.
     bindO (UnionFactory_Create_TPMU_SENSITIVE_COMPOSITE sensitiveType) (\<lambda>sensitive.
     sbind (deref sensitive TPMU_SENSITIVE_COMPOSITE_initFromTpm) (\<lambda>sensitive.
     ret (self\<lparr>TPMT_SENSITIVE_authValue := authValue, TPMT_SENSITIVE_seedValue := seedValue, TPMT_SENSITIVE_sensitive := Some sensitive\<rparr>))))))"

definition TPMT_SENSITIVE_enc :: "TPMT_SENSITIVE \<Rightarrow> ByteVec" where
  "TPMT_SENSITIVE_enc x =
     (if TPMT_SENSITIVE_sensitive x = None then []
     else opt_enc (\<lambda>u. enc16 (TPMU_SENSITIVE_COMPOSITE_GetUnionSelector u)) (TPMT_SENSITIVE_sensitive x) @
       enc_sized 2 (TPMT_SENSITIVE_authValue x) @
       enc_sized 2 (TPMT_SENSITIVE_seedValue x) @
       opt_enc TPMU_SENSITIVE_COMPOSITE_enc (TPMT_SENSITIVE_sensitive x))"

definition TPMT_SENSITIVE_valid :: "TPMT_SENSITIVE \<Rightarrow> bool" where
  "TPMT_SENSITIVE_valid x \<longleftrightarrow>
     sized_ok 2 (TPMT_SENSITIVE_authValue x) \<and>
     sized_ok 2 (TPMT_SENSITIVE_seedValue x) \<and>
     opt_ok TPMU_SENSITIVE_COMPOSITE_valid (TPMT_SENSITIVE_sensitive x)"

lemma TPMT_SENSITIVE_null: "TPMT_SENSITIVE_toTpm TPMT_SENSITIVE_default = ret ()" "TPMT_SENSITIVE_enc TPMT_SENSITIVE_default = []"
  by (simp_all add: TPMT_SENSITIVE_toTpm_def TPMT_SENSITIVE_enc_def TPMT_SENSITIVE_default_def)

lemma TPMT_SENSITIVE_writes [writes_intros]:
  "TPMT_SENSITIVE_valid x \<Longrightarrow> writes (TPMT_SENSITIVE_toTpm x) (TPMT_SENSITIVE_enc x)"
  by (auto simp: TPMT_SENSITIVE_toTpm_def TPMT_SENSITIVE_enc_def TPMT_SENSITIVE_valid_def opt_ok_iff
      simp del: wseq.simps intro!: writes_intros)

lemma TPMT_SENSITIVE_reads:
  "TPMT_SENSITIVE_valid x \<Longrightarrow> reads (TPMT_SENSITIVE_initFromTpm TPMT_SENSITIVE_default) x (TPMT_SENSITIVE_enc x)"
  by (simp only: TPMT_SENSITIVE_initFromTpm_def TPMT_SENSITIVE_enc_def TPMT_SENSITIVE_default_def
        TPMT_SENSITIVE.select_convs TPMT_SENSITIVE.update_convs;
      intro reads_intros; (rule TPMT_SENSITIVE.equality)?; simp add: TPMT_SENSITIVE_valid_def opt_ok_iff)

interpretation TPMT_SENSITIVE_codec:
  tpm_codec TPMT_SENSITIVE_toTpm TPMT_SENSITIVE_initFromTpm TPMT_SENSITIVE_default
    TPMT_SENSITIVE_enc TPMT_SENSITIVE_valid
  by unfold_locales (simp_all add: TPMT_SENSITIVE_writes TPMT_SENSITIVE_reads TPMT_SENSITIVE_null writes_ret)

lemmas TPMT_SENSITIVE_parts [writes_intros] = TPMT_SENSITIVE_codec.writes_sized

lemmas TPMT_SENSITIVE_steps [reads_intros] =
  TPMT_SENSITIVE_reads [THEN reads_sbind] TPMT_SENSITIVE_reads [THEN reads_sbind_ret]
  TPMT_SENSITIVE_codec.reads_sizedObj [THEN reads_sbind] TPMT_SENSITIVE_codec.reads_sizedObj [THEN reads_sbind_ret]

subsection \<open>TPM2B_SENSITIVE\<close>

text \<open>The TPM2B_SENSITIVE structure is used as a parameter in TPM2_LoadExternal().\<close>

record TPM2B_SENSITIVE =
  TPM2B_SENSITIVE_sensitiveArea :: "TPMT_SENSITIVE"

definition TPM2B_SENSITIVE_default :: TPM2B_SENSITIVE where
  "TPM2B_SENSITIVE_default = \<lparr>TPM2B_SENSITIVE_sensitiveArea = TPMT_SENSITIVE_default\<rparr>"

definition TPM2B_SENSITIVE_toTpm :: "TPM2B_SENSITIVE \<Rightarrow> unit tpm" where
  "TPM2B_SENSITIVE_toTpm self =
     wseq [writeSizedObj TPMT_SENSITIVE_toTpm (TPM2B_SENSITIVE_sensitiveArea self)]"

definition TPM2B_SENSITIVE_initFromTpm :: "TPM2B_SENSITIVE \<Rightarrow> TPM2B_SENSITIVE tpm" where
  "TPM2B_SENSITIVE_initFromTpm self =
     sbind (readSizedObj TPMT_SENSITIVE_initFromTpm (TPM2B_SENSITIVE_sensitiveArea self)) (\<lambda>sensitiveArea.
     ret (self\<lparr>TPM2B_SENSITIVE_sensitiveArea := sensitiveArea\<rparr>))"

definition TPM2B_SENSITIVE_enc :: "TPM2B_SENSITIVE \<Rightarrow> ByteVec" where
  "TPM2B_SENSITIVE_enc x =
     enc_obj (TPMT_SENSITIVE_enc (TPM2B_SENSITIVE_sensitiveArea x))"

definition TPM2B_SENSITIVE_valid :: "TPM2B_SENSITIVE \<Rightarrow> bool" where
  "TPM2B_SENSITIVE_valid x \<longleftrightarrow>
     sized_obj_ok TPMT_SENSITIVE_default TPMT_SENSITIVE_enc TPMT_SENSITIVE_valid (TPM2B_SENSITIVE_sensitiveArea x)"

lemma TPM2B_SENSITIVE_writes [writes_intros]:
  "TPM2B_SENSITIVE_valid x \<Longrightarrow> writes (TPM2B_SENSITIVE_toTpm x) (TPM2B_SENSITIVE_enc x)"
  unfolding TPM2B_SENSITIVE_toTpm_def TPM2B_SENSITIVE_enc_def
  by (intro writes_intros; simp add: TPM2B_SENSITIVE_valid_def opt_ok_iff)

lemma TPM2B_SENSITIVE_reads:
  "TPM2B_SENSITIVE_valid x \<Longrightarrow> reads (TPM2B_SENSITIVE_initFromTpm TPM2B_SENSITIVE_default) x (TPM2B_SENSITIVE_enc x)"
  by (simp only: TPM2B_SENSITIVE_initFromTpm_def TPM2B_SENSITIVE_enc_def TPM2B_SENSITIVE_default_def
        TPM2B_SENSITIVE.select_convs TPM2B_SENSITIVE.update_convs;
      intro reads_intros; (rule TPM2B_SENSITIVE.equality)?; simp add: TPM2B_SENSITIVE_valid_def opt_ok_iff)

interpretation TPM2B_SENSITIVE_codec:
  tpm_codec TPM2B_SENSITIVE_toTpm TPM2B_SENSITIVE_initFromTpm TPM2B_SENSITIVE_default
    TPM2B_SENSITIVE_enc TPM2B_SENSITIVE_valid
  by unfold_locales (erule TPM2B_SENSITIVE_writes TPM2B_SENSITIVE_reads | simp add: TPM2B_SENSITIVE_enc_def)+

subsection \<open>PRIVATE_AREA\<close>

text \<open>This structure is defined to size the contents of a TPM2B_PRIVATE. This structure is not directly marshaled or unmarshaled.\<close>

record PRIVATE_AREA =
  PRIVATE_AREA_integrityOuter :: "ByteVec"
  PRIVATE_AREA_integrityInner :: "ByteVec"
  PRIVATE_AREA_sensitive :: "TPMT_SENSITIVE"

definition PRIVATE_AREA_default :: PRIVATE_AREA where
  "PRIVATE_AREA_default = \<lparr>PRIVATE_AREA_integrityOuter = [], PRIVATE_AREA_integrityInner = [], PRIVATE_AREA_sensitive = TPMT_SENSITIVE_default\<rparr>"

definition PRIVATE_AREA_toTpm :: "PRIVATE_AREA \<Rightarrow> unit tpm" where
  "PRIVATE_AREA_toTpm self =
     wseq [writeSizedByteBuf (PRIVATE_AREA_integrityOuter self) 2,
       writeSizedByteBuf (PRIVATE_AREA_integrityInner self) 2,
       writeSizedObj TPMT_SENSITIVE_toTpm (PRIVATE_AREA_sensitive self)]"

definition PRIVATE_AREA_initFromTpm :: "PRIVATE_AREA \<Rightarrow> PRIVATE_AREA tpm" where
  "PRIVATE_AREA_initFromTpm self =
     sbind (readSizedByteBuf 2) (\<lambda>integrityOuter.
     sbind (readSizedByteBuf 2) (\<lambda>integrityInner.
     sbind (readSizedObj TPMT_SENSITIVE_initFromTpm (PRIVATE_AREA_sensitive self)) (\<lambda>sensitive.
     ret (self\<lparr>PRIVATE_AREA_integrityOuter := integrityOuter, PRIVATE_AREA_integrityInner := integrityInner, PRIVATE_AREA_sensitive := sensitive\<rparr>))))"

definition PRIVATE_AREA_enc :: "PRIVATE_AREA \<Rightarrow> ByteVec" where
  "PRIVATE_AREA_enc x =
     enc_sized 2 (PRIVATE_AREA_integrityOuter x) @
     enc_sized 2 (PRIVATE_AREA_integrityInner x) @
     enc_obj (TPMT_SENSITIVE_enc (PRIVATE_AREA_sensitive x))"

definition PRIVATE_AREA_valid :: "PRIVATE_AREA \<Rightarrow> bool" where
  "PRIVATE_AREA_valid x \<longleftrightarrow>
     sized_ok 2 (PRIVATE_AREA_integrityOuter x) \<and>
     sized_ok 2 (PRIVATE_AREA_integrityInner x) \<and>
     sized_obj_ok TPMT_SENSITIVE_default TPMT_SENSITIVE_enc TPMT_SENSITIVE_valid (PRIVATE_AREA_sensitive x)"

lemma PRIVATE_AREA_writes [writes_intros]:
  "PRIVATE_AREA_valid x \<Longrightarrow> writes (PRIVATE_AREA_toTpm x) (PRIVATE_AREA_enc x)"
  unfolding PRIVATE_AREA_toTpm_def PRIVATE_AREA_enc_def
  by (intro writes_intros; simp add: PRIVATE_AREA_valid_def opt_ok_iff)

lemma PRIVATE_AREA_reads:
  "PRIVATE_AREA_valid x \<Longrightarrow> reads (PRIVATE_AREA_initFromTpm PRIVATE_AREA_default) x (PRIVATE_AREA_enc x)"
  by (simp only: PRIVATE_AREA_initFromTpm_def PRIVATE_AREA_enc_def PRIVATE_AREA_default_def
        PRIVATE_AREA.select_convs PRIVATE_AREA.update_convs;
      intro reads_intros; (rule PRIVATE_AREA.equality)?; simp add: PRIVATE_AREA_valid_def opt_ok_iff)

interpretation PRIVATE_AREA_codec:
  tpm_codec PRIVATE_AREA_toTpm PRIVATE_AREA_initFromTpm PRIVATE_AREA_default
    PRIVATE_AREA_enc PRIVATE_AREA_valid
  by unfold_locales (erule PRIVATE_AREA_writes PRIVATE_AREA_reads | simp add: PRIVATE_AREA_enc_def)+

subsection \<open>TPM2B_PRIVATE\<close>

text \<open>The TPM2B_PRIVATE structure is used as a parameter in multiple commands that create, load, and modify the sensitive area of an object.\<close>

record TPM2B_PRIVATE =
  TPM2B_PRIVATE_buffer :: "ByteVec"

definition TPM2B_PRIVATE_default :: TPM2B_PRIVATE where
  "TPM2B_PRIVATE_default = \<lparr>TPM2B_PRIVATE_buffer = []\<rparr>"

definition TPM2B_PRIVATE_toTpm :: "TPM2B_PRIVATE \<Rightarrow> unit tpm" where
  "TPM2B_PRIVATE_toTpm self =
     wseq [writeSizedByteBuf (TPM2B_PRIVATE_buffer self) 2]"

definition TPM2B_PRIVATE_initFromTpm :: "TPM2B_PRIVATE \<Rightarrow> TPM2B_PRIVATE tpm" where
  "TPM2B_PRIVATE_initFromTpm self =
     sbind (readSizedByteBuf 2) (\<lambda>buffer.
     ret (self\<lparr>TPM2B_PRIVATE_buffer := buffer\<rparr>))"

definition TPM2B_PRIVATE_enc :: "TPM2B_PRIVATE \<Rightarrow> ByteVec" where
  "TPM2B_PRIVATE_enc x =
     enc_sized 2 (TPM2B_PRIVATE_buffer x)"

definition TPM2B_PRIVATE_valid :: "TPM2B_PRIVATE \<Rightarrow> bool" where
  "TPM2B_PRIVATE_valid x \<longleftrightarrow>
     sized_ok 2 (TPM2B_PRIVATE_buffer x)"

lemma TPM2B_PRIVATE_writes [writes_intros]:
  "TPM2B_PRIVATE_valid x \<Longrightarrow> writes (TPM2B_PRIVATE_toTpm x) (TPM2B_PRIVATE_enc x)"
  unfolding TPM2B_PRIVATE_toTpm_def TPM2B_PRIVATE_enc_def
  by (intro writes_intros; simp add: TPM2B_PRIVATE_valid_def opt_ok_iff)

lemma TPM2B_PRIVATE_reads:
  "TPM2B_PRIVATE_valid x \<Longrightarrow> reads (TPM2B_PRIVATE_initFromTpm TPM2B_PRIVATE_default) x (TPM2B_PRIVATE_enc x)"
  by (simp only: TPM2B_PRIVATE_initFromTpm_def TPM2B_PRIVATE_enc_def TPM2B_PRIVATE_default_def
        TPM2B_PRIVATE.select_convs TPM2B_PRIVATE.update_convs;
      intro reads_intros; (rule TPM2B_PRIVATE.equality)?; simp add: TPM2B_PRIVATE_valid_def opt_ok_iff)

lemma TPM2B_PRIVATE_enc_nonempty [simp]: "TPM2B_PRIVATE_enc x \<noteq> []"
  by (simp add: TPM2B_PRIVATE_enc_def)

interpretation TPM2B_PRIVATE_codec:
  tpm_codec TPM2B_PRIVATE_toTpm TPM2B_PRIVATE_initFromTpm TPM2B_PRIVATE_default
    TPM2B_PRIVATE_enc TPM2B_PRIVATE_valid
  by unfold_locales (simp_all add: TPM2B_PRIVATE_writes TPM2B_PRIVATE_reads)

lemmas TPM2B_PRIVATE_steps [reads_intros] =
  TPM2B_PRIVATE_reads [THEN reads_sbind] TPM2B_PRIVATE_reads [THEN reads_sbind_ret]

subsection \<open>TPMS_ID_OBJECT\<close>

text \<open>This structure is used for sizing the TPM2B_ID_OBJECT.\<close>

record TPMS_ID_OBJECT =
  TPMS_ID_OBJECT_integrityHMAC :: "ByteVec"
  TPMS_ID_OBJECT_encIdentity :: "ByteVec"

definition TPMS_ID_OBJECT_default :: TPMS_ID_OBJECT where
  "TPMS_ID_OBJECT_default = \<lparr>TPMS_ID_OBJECT_integrityHMAC = [], TPMS_ID_OBJECT_encIdentity = []\<rparr>"

definition TPMS_ID_OBJECT_toTpm :: "TPMS_ID_OBJECT \<Rightarrow> unit tpm" where
  "TPMS_ID_OBJECT_toTpm self =
     wseq [writeSizedByteBuf (TPMS_ID_OBJECT_integrityHMAC self) 2,
       writeByteBuf (TPMS_ID_OBJECT_encIdentity self)]"

definition TPMS_ID_OBJECT_initFromTpm :: "TPMS_ID_OBJECT \<Rightarrow> TPMS_ID_OBJECT tpm" where
  "TPMS_ID_OBJECT_initFromTpm self =
     sbind (readSizedByteBuf 2) (\<lambda>integrityHMAC.
     sbind (sbind getCurStuctRemainingSize (\<lambda>n. readByteBuf n)) (\<lambda>encIdentity.
     ret (self\<lparr>TPMS_ID_OBJECT_integrityHMAC := integrityHMAC, TPMS_ID_OBJECT_encIdentity := encIdentity\<rparr>)))"

definition TPMS_ID_OBJECT_enc :: "TPMS_ID_OBJECT \<Rightarrow> ByteVec" where
  "TPMS_ID_OBJECT_enc x =
     enc_sized 2 (TPMS_ID_OBJECT_integrityHMAC x) @
     TPMS_ID_OBJECT_encIdentity x"

definition TPMS_ID_OBJECT_valid :: "TPMS_ID_OBJECT \<Rightarrow> bool" where
  "TPMS_ID_OBJECT_valid x \<longleftrightarrow>
     sized_ok 2 (TPMS_ID_OBJECT_integrityHMAC x)"

lemma TPMS_ID_OBJECT_writes [writes_intros]:
  "TPMS_ID_OBJECT_valid x \<Longrightarrow> writes (TPMS_ID_OBJECT_toTpm x) (TPMS_ID_OBJECT_enc x)"
  unfolding TPMS_ID_OBJECT_toTpm_def TPMS_ID_OBJECT_enc_def
  by (intro writes_intros; simp add: TPMS_ID_OBJECT_valid_def opt_ok_iff)

lemma TPMS_ID_OBJECT_reads:
  "TPMS_ID_OBJECT_valid x \<Longrightarrow> reads_sized (TPMS_ID_OBJECT_initFromTpm TPMS_ID_OBJECT_default) x (TPMS_ID_OBJECT_enc x)"
  by (simp only: TPMS_ID_OBJECT_initFromTpm_def TPMS_ID_OBJECT_enc_def TPMS_ID_OBJECT_default_def
        TPMS_ID_OBJECT.select_convs TPMS_ID_OBJECT.update_convs;
      rule reads_sized_rest; simp add: TPMS_ID_OBJECT_valid_def)

lemma TPMS_ID_OBJECT_enc_nonempty [simp]: "TPMS_ID_OBJECT_enc x \<noteq> []"
  by (simp add: TPMS_ID_OBJECT_enc_def)

interpretation TPMS_ID_OBJECT_codec:
  tpm_body TPMS_ID_OBJECT_toTpm TPMS_ID_OBJECT_initFromTpm TPMS_ID_OBJECT_default
    TPMS_ID_OBJECT_enc TPMS_ID_OBJECT_valid
  by unfold_locales (simp_all add: TPMS_ID_OBJECT_writes TPMS_ID_OBJECT_reads)

lemmas TPMS_ID_OBJECT_parts [writes_intros] = TPMS_ID_OBJECT_codec.writes_sized

lemmas TPMS_ID_OBJECT_steps [reads_intros] =
  TPMS_ID_OBJECT_codec.reads_sizedObj [THEN reads_sbind] TPMS_ID_OBJECT_codec.reads_sizedObj [THEN reads_sbind_ret]

subsection \<open>TPM2B_ID_OBJECT\<close>

text \<open>This structure is an output from TPM2_MakeCredential() and is an input to TPM2_ActivateCredential().\<close>

record TPM2B_ID_OBJECT =
  TPM2B_ID_OBJECT_credential :: "TPMS_ID_OBJECT"

definition TPM2B_ID_OBJECT_default :: TPM2B_ID_OBJECT where
  "TPM2B_ID_OBJECT_default = \<lparr>TPM2B_ID_OBJECT_credential = TPMS_ID_OBJECT_default\<rparr>"

definition TPM2B_ID_OBJECT_toTpm :: "TPM2B_ID_OBJECT \<Rightarrow> unit tpm" where
  "TPM2B_ID_OBJECT_toTpm self =
     wseq [writeSizedObj TPMS_ID_OBJECT_toTpm (TPM2B_ID_OBJECT_credential self)]"

definition TPM2B_ID_OBJECT_initFromTpm :: "TPM2B_ID_OBJECT \<Rightarrow> TPM2B_ID_OBJECT tpm" where
  "TPM2B_ID_OBJECT_initFromTpm self =
     sbind (readSizedObj TPMS_ID_OBJECT_initFromTpm (TPM2B_ID_OBJECT_credential self)) (\<lambda>credential.
     ret (self\<lparr>TPM2B_ID_OBJECT_credential := credential\<rparr>))"

definition TPM2B_ID_OBJECT_enc :: "TPM2B_ID_OBJECT \<Rightarrow> ByteVec" where
  "TPM2B_ID_OBJECT_enc x =
     enc_obj (TPMS_ID_OBJECT_enc (TPM2B_ID_OBJECT_credential x))"

definition TPM2B_ID_OBJECT_valid :: "TPM2B_ID_OBJECT \<Rightarrow> bool" where
  "TPM2B_ID_OBJECT_valid x \<longleftrightarrow>
     sized_obj_ok TPMS_ID_OBJECT_default TPMS_ID_OBJECT_enc TPMS_ID_OBJECT_valid (TPM2B_ID_OBJECT_credential x)"

lemma TPM2B_ID_OBJECT_writes [writes_intros]:
  "TPM2B_ID_OBJECT_valid x \<Longrightarrow> writes (TPM2B_ID_OBJECT_toTpm x) (TPM2B_ID_OBJECT_enc x)"
  unfolding TPM2B_ID_OBJECT_toTpm_def TPM2B_ID_OBJECT_enc_def
  by (intro writes_intros; simp add: TPM2B_ID_OBJECT_valid_def opt_ok_iff)

lemma TPM2B_ID_OBJECT_reads:
  "TPM2B_ID_OBJECT_valid x \<Longrightarrow> reads (TPM2B_ID_OBJECT_initFromTpm TPM2B_ID_OBJECT_default) x (TPM2B_ID_OBJECT_enc x)"
  by (simp only: TPM2B_ID_OBJECT_initFromTpm_def TPM2B_ID_OBJECT_enc_def TPM2B_ID_OBJECT_default_def
        TPM2B_ID_OBJECT.select_convs TPM2B_ID_OBJECT.update_convs;
      intro reads_intros; (rule TPM2B_ID_OBJECT.equality)?; simp add: TPM2B_ID_OBJECT_valid_def opt_ok_iff)

interpretation TPM2B_ID_OBJECT_codec:
  tpm_codec TPM2B_ID_OBJECT_toTpm TPM2B_ID_OBJECT_initFromTpm TPM2B_ID_OBJECT_default
    TPM2B_ID_OBJECT_enc TPM2B_ID_OBJECT_valid
  by unfold_locales (erule TPM2B_ID_OBJECT_writes TPM2B_ID_OBJECT_reads | simp add: TPM2B_ID_OBJECT_enc_def)+

end
