(* ===== verification/TpmNvTypes.thy ===== *)
theory TpmNvTypes
  imports TpmKeyTypes
begin

text \<open>
  \<^verbatim>\<open>TSS.CPP/include/TpmTypes.h\<close> and \<^verbatim>\<open>TSS.CPP/Src/TpmTypes.cpp\<close>: NV areas, saved contexts and creation data.

  For each class \<open>X\<close> of the source: the record \<open>X\<close> of its members, \<open>X_default\<close> (its default
  constructor; members that C++ leaves uninitialised are 0), \<open>X_toTpm\<close> and \<open>X_initFromTpm\<close>; then
  the wire format \<open>X_enc\<close>, the values \<open>X_valid\<close> it can carry, and the proof that the methods
  implement it (the interpretation \<open>X_codec\<close>).
\<close>

subsection \<open>TPMS_NV_PIN_COUNTER_PARAMETERS\<close>

text \<open>This is the data that can be written to and read from a TPM_NT_PIN_PASS or TPM_NT_PIN_FAIL non-volatile index.\<close>

record TPMS_NV_PIN_COUNTER_PARAMETERS =
  TPMS_NV_PIN_COUNTER_PARAMETERS_pinCount :: "UINT32"
  TPMS_NV_PIN_COUNTER_PARAMETERS_pinLimit :: "UINT32"

definition TPMS_NV_PIN_COUNTER_PARAMETERS_default :: TPMS_NV_PIN_COUNTER_PARAMETERS where
  "TPMS_NV_PIN_COUNTER_PARAMETERS_default = \<lparr>TPMS_NV_PIN_COUNTER_PARAMETERS_pinCount = 0, TPMS_NV_PIN_COUNTER_PARAMETERS_pinLimit = 0\<rparr>"

definition TPMS_NV_PIN_COUNTER_PARAMETERS_toTpm :: "TPMS_NV_PIN_COUNTER_PARAMETERS \<Rightarrow> unit tpm" where
  "TPMS_NV_PIN_COUNTER_PARAMETERS_toTpm self =
     wseq [writeInt (TPMS_NV_PIN_COUNTER_PARAMETERS_pinCount self),
       writeInt (TPMS_NV_PIN_COUNTER_PARAMETERS_pinLimit self)]"

definition TPMS_NV_PIN_COUNTER_PARAMETERS_initFromTpm :: "TPMS_NV_PIN_COUNTER_PARAMETERS \<Rightarrow> TPMS_NV_PIN_COUNTER_PARAMETERS tpm" where
  "TPMS_NV_PIN_COUNTER_PARAMETERS_initFromTpm self =
     sbind readInt (\<lambda>pinCount.
     sbind readInt (\<lambda>pinLimit.
     ret (self\<lparr>TPMS_NV_PIN_COUNTER_PARAMETERS_pinCount := pinCount, TPMS_NV_PIN_COUNTER_PARAMETERS_pinLimit := pinLimit\<rparr>)))"

definition TPMS_NV_PIN_COUNTER_PARAMETERS_enc :: "TPMS_NV_PIN_COUNTER_PARAMETERS \<Rightarrow> ByteVec" where
  "TPMS_NV_PIN_COUNTER_PARAMETERS_enc x =
     enc32 (TPMS_NV_PIN_COUNTER_PARAMETERS_pinCount x) @
     enc32 (TPMS_NV_PIN_COUNTER_PARAMETERS_pinLimit x)"

definition TPMS_NV_PIN_COUNTER_PARAMETERS_valid :: "TPMS_NV_PIN_COUNTER_PARAMETERS \<Rightarrow> bool" where
  "TPMS_NV_PIN_COUNTER_PARAMETERS_valid x \<longleftrightarrow>
     True"

lemma TPMS_NV_PIN_COUNTER_PARAMETERS_writes [writes_intros]:
  "TPMS_NV_PIN_COUNTER_PARAMETERS_valid x \<Longrightarrow> writes (TPMS_NV_PIN_COUNTER_PARAMETERS_toTpm x) (TPMS_NV_PIN_COUNTER_PARAMETERS_enc x)"
  unfolding TPMS_NV_PIN_COUNTER_PARAMETERS_toTpm_def TPMS_NV_PIN_COUNTER_PARAMETERS_enc_def
  by (intro writes_intros; simp add: TPMS_NV_PIN_COUNTER_PARAMETERS_valid_def opt_ok_iff)

lemma TPMS_NV_PIN_COUNTER_PARAMETERS_reads:
  "TPMS_NV_PIN_COUNTER_PARAMETERS_valid x \<Longrightarrow> reads (TPMS_NV_PIN_COUNTER_PARAMETERS_initFromTpm TPMS_NV_PIN_COUNTER_PARAMETERS_default) x (TPMS_NV_PIN_COUNTER_PARAMETERS_enc x)"
  by (simp only: TPMS_NV_PIN_COUNTER_PARAMETERS_initFromTpm_def TPMS_NV_PIN_COUNTER_PARAMETERS_enc_def TPMS_NV_PIN_COUNTER_PARAMETERS_default_def
        TPMS_NV_PIN_COUNTER_PARAMETERS.select_convs TPMS_NV_PIN_COUNTER_PARAMETERS.update_convs;
      intro reads_intros; (rule TPMS_NV_PIN_COUNTER_PARAMETERS.equality)?; simp add: TPMS_NV_PIN_COUNTER_PARAMETERS_valid_def opt_ok_iff)

interpretation TPMS_NV_PIN_COUNTER_PARAMETERS_codec:
  tpm_codec TPMS_NV_PIN_COUNTER_PARAMETERS_toTpm TPMS_NV_PIN_COUNTER_PARAMETERS_initFromTpm TPMS_NV_PIN_COUNTER_PARAMETERS_default
    TPMS_NV_PIN_COUNTER_PARAMETERS_enc TPMS_NV_PIN_COUNTER_PARAMETERS_valid
  by unfold_locales (erule TPMS_NV_PIN_COUNTER_PARAMETERS_writes TPMS_NV_PIN_COUNTER_PARAMETERS_reads | simp add: TPMS_NV_PIN_COUNTER_PARAMETERS_enc_def)+

subsection \<open>TPMS_NV_PUBLIC\<close>

text \<open>This structure describes an NV Index.\<close>

record TPMS_NV_PUBLIC =
  TPMS_NV_PUBLIC_nvIndex :: "TPM_HANDLE"
  TPMS_NV_PUBLIC_nameAlg :: "TPM_ALG_ID"
  TPMS_NV_PUBLIC_attributes :: "TPMA_NV"
  TPMS_NV_PUBLIC_authPolicy :: "ByteVec"
  TPMS_NV_PUBLIC_dataSize :: "UINT16"

definition TPMS_NV_PUBLIC_default :: TPMS_NV_PUBLIC where
  "TPMS_NV_PUBLIC_default = \<lparr>TPMS_NV_PUBLIC_nvIndex = TPM_HANDLE_default, TPMS_NV_PUBLIC_nameAlg = TPM_ALG_ID_NULL, TPMS_NV_PUBLIC_attributes = 0, TPMS_NV_PUBLIC_authPolicy = [], TPMS_NV_PUBLIC_dataSize = 0\<rparr>"

definition TPMS_NV_PUBLIC_toTpm :: "TPMS_NV_PUBLIC \<Rightarrow> unit tpm" where
  "TPMS_NV_PUBLIC_toTpm self =
     wseq [TPM_HANDLE_toTpm (TPMS_NV_PUBLIC_nvIndex self),
       writeShort (TPMS_NV_PUBLIC_nameAlg self),
       writeInt (TPMS_NV_PUBLIC_attributes self),
       writeSizedByteBuf (TPMS_NV_PUBLIC_authPolicy self) 2,
       writeShort (TPMS_NV_PUBLIC_dataSize self)]"

definition TPMS_NV_PUBLIC_initFromTpm :: "TPMS_NV_PUBLIC \<Rightarrow> TPMS_NV_PUBLIC tpm" where
  "TPMS_NV_PUBLIC_initFromTpm self =
     sbind (TPM_HANDLE_initFromTpm (TPMS_NV_PUBLIC_nvIndex self)) (\<lambda>nvIndex.
     sbind readShort (\<lambda>nameAlg.
     sbind readInt (\<lambda>attributes.
     sbind (readSizedByteBuf 2) (\<lambda>authPolicy.
     sbind readShort (\<lambda>dataSize.
     ret (self\<lparr>TPMS_NV_PUBLIC_nvIndex := nvIndex, TPMS_NV_PUBLIC_nameAlg := nameAlg, TPMS_NV_PUBLIC_attributes := attributes, TPMS_NV_PUBLIC_authPolicy := authPolicy, TPMS_NV_PUBLIC_dataSize := dataSize\<rparr>))))))"

definition TPMS_NV_PUBLIC_enc :: "TPMS_NV_PUBLIC \<Rightarrow> ByteVec" where
  "TPMS_NV_PUBLIC_enc x =
     TPM_HANDLE_enc (TPMS_NV_PUBLIC_nvIndex x) @
     enc16 (TPMS_NV_PUBLIC_nameAlg x) @
     enc32 (TPMS_NV_PUBLIC_attributes x) @
     enc_sized 2 (TPMS_NV_PUBLIC_authPolicy x) @
     enc16 (TPMS_NV_PUBLIC_dataSize x)"

definition TPMS_NV_PUBLIC_valid :: "TPMS_NV_PUBLIC \<Rightarrow> bool" where
  "TPMS_NV_PUBLIC_valid x \<longleftrightarrow>
     TPM_HANDLE_valid (TPMS_NV_PUBLIC_nvIndex x) \<and>
     sized_ok 2 (TPMS_NV_PUBLIC_authPolicy x)"

lemma TPMS_NV_PUBLIC_writes [writes_intros]:
  "TPMS_NV_PUBLIC_valid x \<Longrightarrow> writes (TPMS_NV_PUBLIC_toTpm x) (TPMS_NV_PUBLIC_enc x)"
  unfolding TPMS_NV_PUBLIC_toTpm_def TPMS_NV_PUBLIC_enc_def
  by (intro writes_intros; simp add: TPMS_NV_PUBLIC_valid_def opt_ok_iff)

lemma TPMS_NV_PUBLIC_reads:
  "TPMS_NV_PUBLIC_valid x \<Longrightarrow> reads (TPMS_NV_PUBLIC_initFromTpm TPMS_NV_PUBLIC_default) x (TPMS_NV_PUBLIC_enc x)"
  by (simp only: TPMS_NV_PUBLIC_initFromTpm_def TPMS_NV_PUBLIC_enc_def TPMS_NV_PUBLIC_default_def
        TPMS_NV_PUBLIC.select_convs TPMS_NV_PUBLIC.update_convs;
      intro reads_intros; (rule TPMS_NV_PUBLIC.equality)?; simp add: TPMS_NV_PUBLIC_valid_def opt_ok_iff)

lemma TPMS_NV_PUBLIC_enc_nonempty [simp]: "TPMS_NV_PUBLIC_enc x \<noteq> []"
  by (simp add: TPMS_NV_PUBLIC_enc_def)

interpretation TPMS_NV_PUBLIC_codec:
  tpm_codec TPMS_NV_PUBLIC_toTpm TPMS_NV_PUBLIC_initFromTpm TPMS_NV_PUBLIC_default
    TPMS_NV_PUBLIC_enc TPMS_NV_PUBLIC_valid
  by unfold_locales (simp_all add: TPMS_NV_PUBLIC_writes TPMS_NV_PUBLIC_reads)

lemmas TPMS_NV_PUBLIC_parts [writes_intros] = TPMS_NV_PUBLIC_codec.writes_sized

lemmas TPMS_NV_PUBLIC_steps [reads_intros] =
  TPMS_NV_PUBLIC_reads [THEN reads_sbind] TPMS_NV_PUBLIC_reads [THEN reads_sbind_ret]
  TPMS_NV_PUBLIC_codec.reads_sizedObj [THEN reads_sbind] TPMS_NV_PUBLIC_codec.reads_sizedObj [THEN reads_sbind_ret]

subsection \<open>TPM2B_NV_PUBLIC\<close>

text \<open>This structure is used when a TPMS_NV_PUBLIC is sent on the TPM interface.\<close>

record TPM2B_NV_PUBLIC =
  TPM2B_NV_PUBLIC_nvPublic :: "TPMS_NV_PUBLIC"

definition TPM2B_NV_PUBLIC_default :: TPM2B_NV_PUBLIC where
  "TPM2B_NV_PUBLIC_default = \<lparr>TPM2B_NV_PUBLIC_nvPublic = TPMS_NV_PUBLIC_default\<rparr>"

definition TPM2B_NV_PUBLIC_toTpm :: "TPM2B_NV_PUBLIC \<Rightarrow> unit tpm" where
  "TPM2B_NV_PUBLIC_toTpm self =
     wseq [writeSizedObj TPMS_NV_PUBLIC_toTpm (TPM2B_NV_PUBLIC_nvPublic self)]"

definition TPM2B_NV_PUBLIC_initFromTpm :: "TPM2B_NV_PUBLIC \<Rightarrow> TPM2B_NV_PUBLIC tpm" where
  "TPM2B_NV_PUBLIC_initFromTpm self =
     sbind (readSizedObj TPMS_NV_PUBLIC_initFromTpm (TPM2B_NV_PUBLIC_nvPublic self)) (\<lambda>nvPublic.
     ret (self\<lparr>TPM2B_NV_PUBLIC_nvPublic := nvPublic\<rparr>))"

definition TPM2B_NV_PUBLIC_enc :: "TPM2B_NV_PUBLIC \<Rightarrow> ByteVec" where
  "TPM2B_NV_PUBLIC_enc x =
     enc_obj (TPMS_NV_PUBLIC_enc (TPM2B_NV_PUBLIC_nvPublic x))"

definition TPM2B_NV_PUBLIC_valid :: "TPM2B_NV_PUBLIC \<Rightarrow> bool" where
  "TPM2B_NV_PUBLIC_valid x \<longleftrightarrow>
     sized_obj_ok TPMS_NV_PUBLIC_default TPMS_NV_PUBLIC_enc TPMS_NV_PUBLIC_valid (TPM2B_NV_PUBLIC_nvPublic x)"

lemma TPM2B_NV_PUBLIC_writes [writes_intros]:
  "TPM2B_NV_PUBLIC_valid x \<Longrightarrow> writes (TPM2B_NV_PUBLIC_toTpm x) (TPM2B_NV_PUBLIC_enc x)"
  unfolding TPM2B_NV_PUBLIC_toTpm_def TPM2B_NV_PUBLIC_enc_def
  by (intro writes_intros; simp add: TPM2B_NV_PUBLIC_valid_def opt_ok_iff)

lemma TPM2B_NV_PUBLIC_reads:
  "TPM2B_NV_PUBLIC_valid x \<Longrightarrow> reads (TPM2B_NV_PUBLIC_initFromTpm TPM2B_NV_PUBLIC_default) x (TPM2B_NV_PUBLIC_enc x)"
  by (simp only: TPM2B_NV_PUBLIC_initFromTpm_def TPM2B_NV_PUBLIC_enc_def TPM2B_NV_PUBLIC_default_def
        TPM2B_NV_PUBLIC.select_convs TPM2B_NV_PUBLIC.update_convs;
      intro reads_intros; (rule TPM2B_NV_PUBLIC.equality)?; simp add: TPM2B_NV_PUBLIC_valid_def opt_ok_iff)

interpretation TPM2B_NV_PUBLIC_codec:
  tpm_codec TPM2B_NV_PUBLIC_toTpm TPM2B_NV_PUBLIC_initFromTpm TPM2B_NV_PUBLIC_default
    TPM2B_NV_PUBLIC_enc TPM2B_NV_PUBLIC_valid
  by unfold_locales (erule TPM2B_NV_PUBLIC_writes TPM2B_NV_PUBLIC_reads | simp add: TPM2B_NV_PUBLIC_enc_def)+

subsection \<open>TPM2B_CONTEXT_SENSITIVE\<close>

text \<open>This structure holds the object or session context data.\<close>

record TPM2B_CONTEXT_SENSITIVE =
  TPM2B_CONTEXT_SENSITIVE_buffer :: "ByteVec"

definition TPM2B_CONTEXT_SENSITIVE_default :: TPM2B_CONTEXT_SENSITIVE where
  "TPM2B_CONTEXT_SENSITIVE_default = \<lparr>TPM2B_CONTEXT_SENSITIVE_buffer = []\<rparr>"

definition TPM2B_CONTEXT_SENSITIVE_toTpm :: "TPM2B_CONTEXT_SENSITIVE \<Rightarrow> unit tpm" where
  "TPM2B_CONTEXT_SENSITIVE_toTpm self =
     wseq [writeSizedByteBuf (TPM2B_CONTEXT_SENSITIVE_buffer self) 2]"

definition TPM2B_CONTEXT_SENSITIVE_initFromTpm :: "TPM2B_CONTEXT_SENSITIVE \<Rightarrow> TPM2B_CONTEXT_SENSITIVE tpm" where
  "TPM2B_CONTEXT_SENSITIVE_initFromTpm self =
     sbind (readSizedByteBuf 2) (\<lambda>buffer.
     ret (self\<lparr>TPM2B_CONTEXT_SENSITIVE_buffer := buffer\<rparr>))"

definition TPM2B_CONTEXT_SENSITIVE_enc :: "TPM2B_CONTEXT_SENSITIVE \<Rightarrow> ByteVec" where
  "TPM2B_CONTEXT_SENSITIVE_enc x =
     enc_sized 2 (TPM2B_CONTEXT_SENSITIVE_buffer x)"

definition TPM2B_CONTEXT_SENSITIVE_valid :: "TPM2B_CONTEXT_SENSITIVE \<Rightarrow> bool" where
  "TPM2B_CONTEXT_SENSITIVE_valid x \<longleftrightarrow>
     sized_ok 2 (TPM2B_CONTEXT_SENSITIVE_buffer x)"

lemma TPM2B_CONTEXT_SENSITIVE_writes [writes_intros]:
  "TPM2B_CONTEXT_SENSITIVE_valid x \<Longrightarrow> writes (TPM2B_CONTEXT_SENSITIVE_toTpm x) (TPM2B_CONTEXT_SENSITIVE_enc x)"
  unfolding TPM2B_CONTEXT_SENSITIVE_toTpm_def TPM2B_CONTEXT_SENSITIVE_enc_def
  by (intro writes_intros; simp add: TPM2B_CONTEXT_SENSITIVE_valid_def opt_ok_iff)

lemma TPM2B_CONTEXT_SENSITIVE_reads:
  "TPM2B_CONTEXT_SENSITIVE_valid x \<Longrightarrow> reads (TPM2B_CONTEXT_SENSITIVE_initFromTpm TPM2B_CONTEXT_SENSITIVE_default) x (TPM2B_CONTEXT_SENSITIVE_enc x)"
  by (simp only: TPM2B_CONTEXT_SENSITIVE_initFromTpm_def TPM2B_CONTEXT_SENSITIVE_enc_def TPM2B_CONTEXT_SENSITIVE_default_def
        TPM2B_CONTEXT_SENSITIVE.select_convs TPM2B_CONTEXT_SENSITIVE.update_convs;
      intro reads_intros; (rule TPM2B_CONTEXT_SENSITIVE.equality)?; simp add: TPM2B_CONTEXT_SENSITIVE_valid_def opt_ok_iff)

interpretation TPM2B_CONTEXT_SENSITIVE_codec:
  tpm_codec TPM2B_CONTEXT_SENSITIVE_toTpm TPM2B_CONTEXT_SENSITIVE_initFromTpm TPM2B_CONTEXT_SENSITIVE_default
    TPM2B_CONTEXT_SENSITIVE_enc TPM2B_CONTEXT_SENSITIVE_valid
  by unfold_locales (erule TPM2B_CONTEXT_SENSITIVE_writes TPM2B_CONTEXT_SENSITIVE_reads | simp add: TPM2B_CONTEXT_SENSITIVE_enc_def)+

subsection \<open>TPMS_CONTEXT_DATA\<close>

text \<open>This structure holds the integrity value and the encrypted data for a context.\<close>

record TPMS_CONTEXT_DATA =
  TPMS_CONTEXT_DATA_integrity :: "ByteVec"
  TPMS_CONTEXT_DATA_encrypted :: "ByteVec"

definition TPMS_CONTEXT_DATA_default :: TPMS_CONTEXT_DATA where
  "TPMS_CONTEXT_DATA_default = \<lparr>TPMS_CONTEXT_DATA_integrity = [], TPMS_CONTEXT_DATA_encrypted = []\<rparr>"

definition TPMS_CONTEXT_DATA_toTpm :: "TPMS_CONTEXT_DATA \<Rightarrow> unit tpm" where
  "TPMS_CONTEXT_DATA_toTpm self =
     wseq [writeSizedByteBuf (TPMS_CONTEXT_DATA_integrity self) 2,
       writeByteBuf (TPMS_CONTEXT_DATA_encrypted self)]"

definition TPMS_CONTEXT_DATA_initFromTpm :: "TPMS_CONTEXT_DATA \<Rightarrow> TPMS_CONTEXT_DATA tpm" where
  "TPMS_CONTEXT_DATA_initFromTpm self =
     sbind (readSizedByteBuf 2) (\<lambda>integrity.
     sbind (sbind getCurStuctRemainingSize (\<lambda>n. readByteBuf n)) (\<lambda>encrypted.
     ret (self\<lparr>TPMS_CONTEXT_DATA_integrity := integrity, TPMS_CONTEXT_DATA_encrypted := encrypted\<rparr>)))"

definition TPMS_CONTEXT_DATA_enc :: "TPMS_CONTEXT_DATA \<Rightarrow> ByteVec" where
  "TPMS_CONTEXT_DATA_enc x =
     enc_sized 2 (TPMS_CONTEXT_DATA_integrity x) @
     TPMS_CONTEXT_DATA_encrypted x"

definition TPMS_CONTEXT_DATA_valid :: "TPMS_CONTEXT_DATA \<Rightarrow> bool" where
  "TPMS_CONTEXT_DATA_valid x \<longleftrightarrow>
     sized_ok 2 (TPMS_CONTEXT_DATA_integrity x)"

lemma TPMS_CONTEXT_DATA_writes [writes_intros]:
  "TPMS_CONTEXT_DATA_valid x \<Longrightarrow> writes (TPMS_CONTEXT_DATA_toTpm x) (TPMS_CONTEXT_DATA_enc x)"
  unfolding TPMS_CONTEXT_DATA_toTpm_def TPMS_CONTEXT_DATA_enc_def
  by (intro writes_intros; simp add: TPMS_CONTEXT_DATA_valid_def opt_ok_iff)

lemma TPMS_CONTEXT_DATA_reads:
  "TPMS_CONTEXT_DATA_valid x \<Longrightarrow> reads_sized (TPMS_CONTEXT_DATA_initFromTpm TPMS_CONTEXT_DATA_default) x (TPMS_CONTEXT_DATA_enc x)"
  by (simp only: TPMS_CONTEXT_DATA_initFromTpm_def TPMS_CONTEXT_DATA_enc_def TPMS_CONTEXT_DATA_default_def
        TPMS_CONTEXT_DATA.select_convs TPMS_CONTEXT_DATA.update_convs;
      rule reads_sized_rest; simp add: TPMS_CONTEXT_DATA_valid_def)

lemma TPMS_CONTEXT_DATA_enc_nonempty [simp]: "TPMS_CONTEXT_DATA_enc x \<noteq> []"
  by (simp add: TPMS_CONTEXT_DATA_enc_def)

interpretation TPMS_CONTEXT_DATA_codec:
  tpm_body TPMS_CONTEXT_DATA_toTpm TPMS_CONTEXT_DATA_initFromTpm TPMS_CONTEXT_DATA_default
    TPMS_CONTEXT_DATA_enc TPMS_CONTEXT_DATA_valid
  by unfold_locales (simp_all add: TPMS_CONTEXT_DATA_writes TPMS_CONTEXT_DATA_reads)

lemmas TPMS_CONTEXT_DATA_parts [writes_intros] = TPMS_CONTEXT_DATA_codec.writes_sized

lemmas TPMS_CONTEXT_DATA_steps [reads_intros] =
  TPMS_CONTEXT_DATA_codec.reads_sizedObj [THEN reads_sbind] TPMS_CONTEXT_DATA_codec.reads_sizedObj [THEN reads_sbind_ret]

subsection \<open>TPM2B_CONTEXT_DATA\<close>

text \<open>This structure is used in a TPMS_CONTEXT.\<close>

record TPM2B_CONTEXT_DATA =
  TPM2B_CONTEXT_DATA_buffer :: "TPMS_CONTEXT_DATA"

definition TPM2B_CONTEXT_DATA_default :: TPM2B_CONTEXT_DATA where
  "TPM2B_CONTEXT_DATA_default = \<lparr>TPM2B_CONTEXT_DATA_buffer = TPMS_CONTEXT_DATA_default\<rparr>"

definition TPM2B_CONTEXT_DATA_toTpm :: "TPM2B_CONTEXT_DATA \<Rightarrow> unit tpm" where
  "TPM2B_CONTEXT_DATA_toTpm self =
     wseq [writeSizedObj TPMS_CONTEXT_DATA_toTpm (TPM2B_CONTEXT_DATA_buffer self)]"

definition TPM2B_CONTEXT_DATA_initFromTpm :: "TPM2B_CONTEXT_DATA \<Rightarrow> TPM2B_CONTEXT_DATA tpm" where
  "TPM2B_CONTEXT_DATA_initFromTpm self =
     sbind (readSizedObj TPMS_CONTEXT_DATA_initFromTpm (TPM2B_CONTEXT_DATA_buffer self)) (\<lambda>buffer.
     ret (self\<lparr>TPM2B_CONTEXT_DATA_buffer := buffer\<rparr>))"

definition TPM2B_CONTEXT_DATA_enc :: "TPM2B_CONTEXT_DATA \<Rightarrow> ByteVec" where
  "TPM2B_CONTEXT_DATA_enc x =
     enc_obj (TPMS_CONTEXT_DATA_enc (TPM2B_CONTEXT_DATA_buffer x))"

definition TPM2B_CONTEXT_DATA_valid :: "TPM2B_CONTEXT_DATA \<Rightarrow> bool" where
  "TPM2B_CONTEXT_DATA_valid x \<longleftrightarrow>
     sized_obj_ok TPMS_CONTEXT_DATA_default TPMS_CONTEXT_DATA_enc TPMS_CONTEXT_DATA_valid (TPM2B_CONTEXT_DATA_buffer x)"

lemma TPM2B_CONTEXT_DATA_writes [writes_intros]:
  "TPM2B_CONTEXT_DATA_valid x \<Longrightarrow> writes (TPM2B_CONTEXT_DATA_toTpm x) (TPM2B_CONTEXT_DATA_enc x)"
  unfolding TPM2B_CONTEXT_DATA_toTpm_def TPM2B_CONTEXT_DATA_enc_def
  by (intro writes_intros; simp add: TPM2B_CONTEXT_DATA_valid_def opt_ok_iff)

lemma TPM2B_CONTEXT_DATA_reads:
  "TPM2B_CONTEXT_DATA_valid x \<Longrightarrow> reads (TPM2B_CONTEXT_DATA_initFromTpm TPM2B_CONTEXT_DATA_default) x (TPM2B_CONTEXT_DATA_enc x)"
  by (simp only: TPM2B_CONTEXT_DATA_initFromTpm_def TPM2B_CONTEXT_DATA_enc_def TPM2B_CONTEXT_DATA_default_def
        TPM2B_CONTEXT_DATA.select_convs TPM2B_CONTEXT_DATA.update_convs;
      intro reads_intros; (rule TPM2B_CONTEXT_DATA.equality)?; simp add: TPM2B_CONTEXT_DATA_valid_def opt_ok_iff)

interpretation TPM2B_CONTEXT_DATA_codec:
  tpm_codec TPM2B_CONTEXT_DATA_toTpm TPM2B_CONTEXT_DATA_initFromTpm TPM2B_CONTEXT_DATA_default
    TPM2B_CONTEXT_DATA_enc TPM2B_CONTEXT_DATA_valid
  by unfold_locales (erule TPM2B_CONTEXT_DATA_writes TPM2B_CONTEXT_DATA_reads | simp add: TPM2B_CONTEXT_DATA_enc_def)+

subsection \<open>TPMS_CONTEXT\<close>

text \<open>This structure is used in TPM2_ContextLoad() and TPM2_ContextSave().\<close>

record TPMS_CONTEXT =
  TPMS_CONTEXT_sequence :: "UINT64"
  TPMS_CONTEXT_savedHandle :: "TPM_HANDLE"
  TPMS_CONTEXT_hierarchy :: "TPM_HANDLE"
  TPMS_CONTEXT_contextBlob :: "TPMS_CONTEXT_DATA"

definition TPMS_CONTEXT_default :: TPMS_CONTEXT where
  "TPMS_CONTEXT_default = \<lparr>TPMS_CONTEXT_sequence = 0, TPMS_CONTEXT_savedHandle = TPM_HANDLE_default, TPMS_CONTEXT_hierarchy = TPM_HANDLE_default, TPMS_CONTEXT_contextBlob = TPMS_CONTEXT_DATA_default\<rparr>"

definition TPMS_CONTEXT_toTpm :: "TPMS_CONTEXT \<Rightarrow> unit tpm" where
  "TPMS_CONTEXT_toTpm self =
     wseq [writeInt64 (TPMS_CONTEXT_sequence self),
       TPM_HANDLE_toTpm (TPMS_CONTEXT_savedHandle self),
       TPM_HANDLE_toTpm (TPMS_CONTEXT_hierarchy self),
       writeSizedObj TPMS_CONTEXT_DATA_toTpm (TPMS_CONTEXT_contextBlob self)]"

definition TPMS_CONTEXT_initFromTpm :: "TPMS_CONTEXT \<Rightarrow> TPMS_CONTEXT tpm" where
  "TPMS_CONTEXT_initFromTpm self =
     sbind readInt64 (\<lambda>sequence.
     sbind (TPM_HANDLE_initFromTpm (TPMS_CONTEXT_savedHandle self)) (\<lambda>savedHandle.
     sbind (TPM_HANDLE_initFromTpm (TPMS_CONTEXT_hierarchy self)) (\<lambda>hierarchy.
     sbind (readSizedObj TPMS_CONTEXT_DATA_initFromTpm (TPMS_CONTEXT_contextBlob self)) (\<lambda>contextBlob.
     ret (self\<lparr>TPMS_CONTEXT_sequence := sequence, TPMS_CONTEXT_savedHandle := savedHandle, TPMS_CONTEXT_hierarchy := hierarchy, TPMS_CONTEXT_contextBlob := contextBlob\<rparr>)))))"

definition TPMS_CONTEXT_enc :: "TPMS_CONTEXT \<Rightarrow> ByteVec" where
  "TPMS_CONTEXT_enc x =
     enc64 (TPMS_CONTEXT_sequence x) @
     TPM_HANDLE_enc (TPMS_CONTEXT_savedHandle x) @
     TPM_HANDLE_enc (TPMS_CONTEXT_hierarchy x) @
     enc_obj (TPMS_CONTEXT_DATA_enc (TPMS_CONTEXT_contextBlob x))"

definition TPMS_CONTEXT_valid :: "TPMS_CONTEXT \<Rightarrow> bool" where
  "TPMS_CONTEXT_valid x \<longleftrightarrow>
     TPM_HANDLE_valid (TPMS_CONTEXT_savedHandle x) \<and>
     TPM_HANDLE_valid (TPMS_CONTEXT_hierarchy x) \<and>
     sized_obj_ok TPMS_CONTEXT_DATA_default TPMS_CONTEXT_DATA_enc TPMS_CONTEXT_DATA_valid (TPMS_CONTEXT_contextBlob x)"

lemma TPMS_CONTEXT_writes [writes_intros]:
  "TPMS_CONTEXT_valid x \<Longrightarrow> writes (TPMS_CONTEXT_toTpm x) (TPMS_CONTEXT_enc x)"
  unfolding TPMS_CONTEXT_toTpm_def TPMS_CONTEXT_enc_def
  by (intro writes_intros; simp add: TPMS_CONTEXT_valid_def opt_ok_iff)

lemma TPMS_CONTEXT_reads:
  "TPMS_CONTEXT_valid x \<Longrightarrow> reads (TPMS_CONTEXT_initFromTpm TPMS_CONTEXT_default) x (TPMS_CONTEXT_enc x)"
  by (simp only: TPMS_CONTEXT_initFromTpm_def TPMS_CONTEXT_enc_def TPMS_CONTEXT_default_def
        TPMS_CONTEXT.select_convs TPMS_CONTEXT.update_convs;
      intro reads_intros; (rule TPMS_CONTEXT.equality)?; simp add: TPMS_CONTEXT_valid_def opt_ok_iff)

lemma TPMS_CONTEXT_enc_nonempty [simp]: "TPMS_CONTEXT_enc x \<noteq> []"
  by (simp add: TPMS_CONTEXT_enc_def)

interpretation TPMS_CONTEXT_codec:
  tpm_codec TPMS_CONTEXT_toTpm TPMS_CONTEXT_initFromTpm TPMS_CONTEXT_default
    TPMS_CONTEXT_enc TPMS_CONTEXT_valid
  by unfold_locales (simp_all add: TPMS_CONTEXT_writes TPMS_CONTEXT_reads)

lemmas TPMS_CONTEXT_steps [reads_intros] =
  TPMS_CONTEXT_reads [THEN reads_sbind] TPMS_CONTEXT_reads [THEN reads_sbind_ret]

subsection \<open>TPMS_CREATION_DATA\<close>

text \<open>This structure provides information relating to the creation environment for the object.\<close>

record TPMS_CREATION_DATA =
  TPMS_CREATION_DATA_pcrSelect :: "TPMS_PCR_SELECTION list"
  TPMS_CREATION_DATA_pcrDigest :: "ByteVec"
  TPMS_CREATION_DATA_locality :: "TPMA_LOCALITY"
  TPMS_CREATION_DATA_parentNameAlg :: "TPM_ALG_ID"
  TPMS_CREATION_DATA_parentName :: "ByteVec"
  TPMS_CREATION_DATA_parentQualifiedName :: "ByteVec"
  TPMS_CREATION_DATA_outsideInfo :: "ByteVec"

definition TPMS_CREATION_DATA_default :: TPMS_CREATION_DATA where
  "TPMS_CREATION_DATA_default = \<lparr>TPMS_CREATION_DATA_pcrSelect = [], TPMS_CREATION_DATA_pcrDigest = [], TPMS_CREATION_DATA_locality = 0, TPMS_CREATION_DATA_parentNameAlg = TPM_ALG_ID_NULL, TPMS_CREATION_DATA_parentName = [], TPMS_CREATION_DATA_parentQualifiedName = [], TPMS_CREATION_DATA_outsideInfo = []\<rparr>"

definition TPMS_CREATION_DATA_toTpm :: "TPMS_CREATION_DATA \<Rightarrow> unit tpm" where
  "TPMS_CREATION_DATA_toTpm self =
     wseq [writeObjArr TPMS_PCR_SELECTION_toTpm (TPMS_CREATION_DATA_pcrSelect self),
       writeSizedByteBuf (TPMS_CREATION_DATA_pcrDigest self) 2,
       writeByte (TPMS_CREATION_DATA_locality self),
       writeShort (TPMS_CREATION_DATA_parentNameAlg self),
       writeSizedByteBuf (TPMS_CREATION_DATA_parentName self) 2,
       writeSizedByteBuf (TPMS_CREATION_DATA_parentQualifiedName self) 2,
       writeSizedByteBuf (TPMS_CREATION_DATA_outsideInfo self) 2]"

definition TPMS_CREATION_DATA_initFromTpm :: "TPMS_CREATION_DATA \<Rightarrow> TPMS_CREATION_DATA tpm" where
  "TPMS_CREATION_DATA_initFromTpm self =
     sbind (readObjArr TPMS_PCR_SELECTION_initFromTpm TPMS_PCR_SELECTION_default (TPMS_CREATION_DATA_pcrSelect self)) (\<lambda>pcrSelect.
     sbind (readSizedByteBuf 2) (\<lambda>pcrDigest.
     sbind readByte (\<lambda>locality.
     sbind readShort (\<lambda>parentNameAlg.
     sbind (readSizedByteBuf 2) (\<lambda>parentName.
     sbind (readSizedByteBuf 2) (\<lambda>parentQualifiedName.
     sbind (readSizedByteBuf 2) (\<lambda>outsideInfo.
     ret (self\<lparr>TPMS_CREATION_DATA_pcrSelect := pcrSelect, TPMS_CREATION_DATA_pcrDigest := pcrDigest, TPMS_CREATION_DATA_locality := locality, TPMS_CREATION_DATA_parentNameAlg := parentNameAlg, TPMS_CREATION_DATA_parentName := parentName, TPMS_CREATION_DATA_parentQualifiedName := parentQualifiedName, TPMS_CREATION_DATA_outsideInfo := outsideInfo\<rparr>))))))))"

definition TPMS_CREATION_DATA_enc :: "TPMS_CREATION_DATA \<Rightarrow> ByteVec" where
  "TPMS_CREATION_DATA_enc x =
     enc_arr TPMS_PCR_SELECTION_enc (TPMS_CREATION_DATA_pcrSelect x) @
     enc_sized 2 (TPMS_CREATION_DATA_pcrDigest x) @
     enc8 (TPMS_CREATION_DATA_locality x) @
     enc16 (TPMS_CREATION_DATA_parentNameAlg x) @
     enc_sized 2 (TPMS_CREATION_DATA_parentName x) @
     enc_sized 2 (TPMS_CREATION_DATA_parentQualifiedName x) @
     enc_sized 2 (TPMS_CREATION_DATA_outsideInfo x)"

definition TPMS_CREATION_DATA_valid :: "TPMS_CREATION_DATA \<Rightarrow> bool" where
  "TPMS_CREATION_DATA_valid x \<longleftrightarrow>
     arr_ok TPMS_PCR_SELECTION_valid (TPMS_CREATION_DATA_pcrSelect x) \<and>
     sized_ok 2 (TPMS_CREATION_DATA_pcrDigest x) \<and>
     sized_ok 2 (TPMS_CREATION_DATA_parentName x) \<and>
     sized_ok 2 (TPMS_CREATION_DATA_parentQualifiedName x) \<and>
     sized_ok 2 (TPMS_CREATION_DATA_outsideInfo x)"

lemma TPMS_CREATION_DATA_writes [writes_intros]:
  "TPMS_CREATION_DATA_valid x \<Longrightarrow> writes (TPMS_CREATION_DATA_toTpm x) (TPMS_CREATION_DATA_enc x)"
  unfolding TPMS_CREATION_DATA_toTpm_def TPMS_CREATION_DATA_enc_def
  by (intro writes_intros; simp add: TPMS_CREATION_DATA_valid_def opt_ok_iff)

lemma TPMS_CREATION_DATA_reads:
  "TPMS_CREATION_DATA_valid x \<Longrightarrow> reads (TPMS_CREATION_DATA_initFromTpm TPMS_CREATION_DATA_default) x (TPMS_CREATION_DATA_enc x)"
  by (simp only: TPMS_CREATION_DATA_initFromTpm_def TPMS_CREATION_DATA_enc_def TPMS_CREATION_DATA_default_def
        TPMS_CREATION_DATA.select_convs TPMS_CREATION_DATA.update_convs;
      intro reads_intros; (rule TPMS_CREATION_DATA.equality)?; simp add: TPMS_CREATION_DATA_valid_def opt_ok_iff)

lemma TPMS_CREATION_DATA_enc_nonempty [simp]: "TPMS_CREATION_DATA_enc x \<noteq> []"
  by (simp add: TPMS_CREATION_DATA_enc_def)

interpretation TPMS_CREATION_DATA_codec:
  tpm_codec TPMS_CREATION_DATA_toTpm TPMS_CREATION_DATA_initFromTpm TPMS_CREATION_DATA_default
    TPMS_CREATION_DATA_enc TPMS_CREATION_DATA_valid
  by unfold_locales (simp_all add: TPMS_CREATION_DATA_writes TPMS_CREATION_DATA_reads)

lemmas TPMS_CREATION_DATA_parts [writes_intros] = TPMS_CREATION_DATA_codec.writes_sized

lemmas TPMS_CREATION_DATA_steps [reads_intros] =
  TPMS_CREATION_DATA_reads [THEN reads_sbind] TPMS_CREATION_DATA_reads [THEN reads_sbind_ret]
  TPMS_CREATION_DATA_codec.reads_sizedObj [THEN reads_sbind] TPMS_CREATION_DATA_codec.reads_sizedObj [THEN reads_sbind_ret]

subsection \<open>TPM2B_CREATION_DATA\<close>

text \<open>This structure is created by TPM2_Create() and TPM2_CreatePrimary().\<close>

record TPM2B_CREATION_DATA =
  TPM2B_CREATION_DATA_creationData :: "TPMS_CREATION_DATA"

definition TPM2B_CREATION_DATA_default :: TPM2B_CREATION_DATA where
  "TPM2B_CREATION_DATA_default = \<lparr>TPM2B_CREATION_DATA_creationData = TPMS_CREATION_DATA_default\<rparr>"

definition TPM2B_CREATION_DATA_toTpm :: "TPM2B_CREATION_DATA \<Rightarrow> unit tpm" where
  "TPM2B_CREATION_DATA_toTpm self =
     wseq [writeSizedObj TPMS_CREATION_DATA_toTpm (TPM2B_CREATION_DATA_creationData self)]"

definition TPM2B_CREATION_DATA_initFromTpm :: "TPM2B_CREATION_DATA \<Rightarrow> TPM2B_CREATION_DATA tpm" where
  "TPM2B_CREATION_DATA_initFromTpm self =
     sbind (readSizedObj TPMS_CREATION_DATA_initFromTpm (TPM2B_CREATION_DATA_creationData self)) (\<lambda>creationData.
     ret (self\<lparr>TPM2B_CREATION_DATA_creationData := creationData\<rparr>))"

definition TPM2B_CREATION_DATA_enc :: "TPM2B_CREATION_DATA \<Rightarrow> ByteVec" where
  "TPM2B_CREATION_DATA_enc x =
     enc_obj (TPMS_CREATION_DATA_enc (TPM2B_CREATION_DATA_creationData x))"

definition TPM2B_CREATION_DATA_valid :: "TPM2B_CREATION_DATA \<Rightarrow> bool" where
  "TPM2B_CREATION_DATA_valid x \<longleftrightarrow>
     sized_obj_ok TPMS_CREATION_DATA_default TPMS_CREATION_DATA_enc TPMS_CREATION_DATA_valid (TPM2B_CREATION_DATA_creationData x)"

lemma TPM2B_CREATION_DATA_writes [writes_intros]:
  "TPM2B_CREATION_DATA_valid x \<Longrightarrow> writes (TPM2B_CREATION_DATA_toTpm x) (TPM2B_CREATION_DATA_enc x)"
  unfolding TPM2B_CREATION_DATA_toTpm_def TPM2B_CREATION_DATA_enc_def
  by (intro writes_intros; simp add: TPM2B_CREATION_DATA_valid_def opt_ok_iff)

lemma TPM2B_CREATION_DATA_reads:
  "TPM2B_CREATION_DATA_valid x \<Longrightarrow> reads (TPM2B_CREATION_DATA_initFromTpm TPM2B_CREATION_DATA_default) x (TPM2B_CREATION_DATA_enc x)"
  by (simp only: TPM2B_CREATION_DATA_initFromTpm_def TPM2B_CREATION_DATA_enc_def TPM2B_CREATION_DATA_default_def
        TPM2B_CREATION_DATA.select_convs TPM2B_CREATION_DATA.update_convs;
      intro reads_intros; (rule TPM2B_CREATION_DATA.equality)?; simp add: TPM2B_CREATION_DATA_valid_def opt_ok_iff)

interpretation TPM2B_CREATION_DATA_codec:
  tpm_codec TPM2B_CREATION_DATA_toTpm TPM2B_CREATION_DATA_initFromTpm TPM2B_CREATION_DATA_default
    TPM2B_CREATION_DATA_enc TPM2B_CREATION_DATA_valid
  by unfold_locales (erule TPM2B_CREATION_DATA_writes TPM2B_CREATION_DATA_reads | simp add: TPM2B_CREATION_DATA_enc_def)+

subsection \<open>TPMS_AC_OUTPUT\<close>

text \<open>TPMS_AC_OUTPUT is used to return information about an AC. The tag structure parameter indicates the type of the data value.\<close>

record TPMS_AC_OUTPUT =
  TPMS_AC_OUTPUT_tag :: "TPM_AT"
  TPMS_AC_OUTPUT_data :: "UINT32"

definition TPMS_AC_OUTPUT_default :: TPMS_AC_OUTPUT where
  "TPMS_AC_OUTPUT_default = \<lparr>TPMS_AC_OUTPUT_tag = 0, TPMS_AC_OUTPUT_data = 0\<rparr>"

definition TPMS_AC_OUTPUT_toTpm :: "TPMS_AC_OUTPUT \<Rightarrow> unit tpm" where
  "TPMS_AC_OUTPUT_toTpm self =
     wseq [writeInt (TPMS_AC_OUTPUT_tag self),
       writeInt (TPMS_AC_OUTPUT_data self)]"

definition TPMS_AC_OUTPUT_initFromTpm :: "TPMS_AC_OUTPUT \<Rightarrow> TPMS_AC_OUTPUT tpm" where
  "TPMS_AC_OUTPUT_initFromTpm self =
     sbind readInt (\<lambda>tag.
     sbind readInt (\<lambda>data.
     ret (self\<lparr>TPMS_AC_OUTPUT_tag := tag, TPMS_AC_OUTPUT_data := data\<rparr>)))"

definition TPMS_AC_OUTPUT_enc :: "TPMS_AC_OUTPUT \<Rightarrow> ByteVec" where
  "TPMS_AC_OUTPUT_enc x =
     enc32 (TPMS_AC_OUTPUT_tag x) @
     enc32 (TPMS_AC_OUTPUT_data x)"

definition TPMS_AC_OUTPUT_valid :: "TPMS_AC_OUTPUT \<Rightarrow> bool" where
  "TPMS_AC_OUTPUT_valid x \<longleftrightarrow>
     True"

lemma TPMS_AC_OUTPUT_writes [writes_intros]:
  "TPMS_AC_OUTPUT_valid x \<Longrightarrow> writes (TPMS_AC_OUTPUT_toTpm x) (TPMS_AC_OUTPUT_enc x)"
  unfolding TPMS_AC_OUTPUT_toTpm_def TPMS_AC_OUTPUT_enc_def
  by (intro writes_intros; simp add: TPMS_AC_OUTPUT_valid_def opt_ok_iff)

lemma TPMS_AC_OUTPUT_reads:
  "TPMS_AC_OUTPUT_valid x \<Longrightarrow> reads (TPMS_AC_OUTPUT_initFromTpm TPMS_AC_OUTPUT_default) x (TPMS_AC_OUTPUT_enc x)"
  by (simp only: TPMS_AC_OUTPUT_initFromTpm_def TPMS_AC_OUTPUT_enc_def TPMS_AC_OUTPUT_default_def
        TPMS_AC_OUTPUT.select_convs TPMS_AC_OUTPUT.update_convs;
      intro reads_intros; (rule TPMS_AC_OUTPUT.equality)?; simp add: TPMS_AC_OUTPUT_valid_def opt_ok_iff)

lemma TPMS_AC_OUTPUT_enc_nonempty [simp]: "TPMS_AC_OUTPUT_enc x \<noteq> []"
  by (simp add: TPMS_AC_OUTPUT_enc_def)

interpretation TPMS_AC_OUTPUT_codec:
  tpm_codec TPMS_AC_OUTPUT_toTpm TPMS_AC_OUTPUT_initFromTpm TPMS_AC_OUTPUT_default
    TPMS_AC_OUTPUT_enc TPMS_AC_OUTPUT_valid
  by unfold_locales (simp_all add: TPMS_AC_OUTPUT_writes TPMS_AC_OUTPUT_reads)

lemmas TPMS_AC_OUTPUT_parts [writes_intros] = TPMS_AC_OUTPUT_codec.writes_arr

lemmas TPMS_AC_OUTPUT_steps [reads_intros] =
  TPMS_AC_OUTPUT_reads [THEN reads_sbind] TPMS_AC_OUTPUT_reads [THEN reads_sbind_ret]
  TPMS_AC_OUTPUT_codec.reads_arr [THEN reads_sbind] TPMS_AC_OUTPUT_codec.reads_arr [THEN reads_sbind_ret]

subsection \<open>TPML_AC_CAPABILITIES\<close>

text \<open>This list is only used in TPM2_AC_GetCapability().\<close>

record TPML_AC_CAPABILITIES =
  TPML_AC_CAPABILITIES_acCapabilities :: "TPMS_AC_OUTPUT list"

definition TPML_AC_CAPABILITIES_default :: TPML_AC_CAPABILITIES where
  "TPML_AC_CAPABILITIES_default = \<lparr>TPML_AC_CAPABILITIES_acCapabilities = []\<rparr>"

definition TPML_AC_CAPABILITIES_toTpm :: "TPML_AC_CAPABILITIES \<Rightarrow> unit tpm" where
  "TPML_AC_CAPABILITIES_toTpm self =
     wseq [writeObjArr TPMS_AC_OUTPUT_toTpm (TPML_AC_CAPABILITIES_acCapabilities self)]"

definition TPML_AC_CAPABILITIES_initFromTpm :: "TPML_AC_CAPABILITIES \<Rightarrow> TPML_AC_CAPABILITIES tpm" where
  "TPML_AC_CAPABILITIES_initFromTpm self =
     sbind (readObjArr TPMS_AC_OUTPUT_initFromTpm TPMS_AC_OUTPUT_default (TPML_AC_CAPABILITIES_acCapabilities self)) (\<lambda>acCapabilities.
     ret (self\<lparr>TPML_AC_CAPABILITIES_acCapabilities := acCapabilities\<rparr>))"

definition TPML_AC_CAPABILITIES_enc :: "TPML_AC_CAPABILITIES \<Rightarrow> ByteVec" where
  "TPML_AC_CAPABILITIES_enc x =
     enc_arr TPMS_AC_OUTPUT_enc (TPML_AC_CAPABILITIES_acCapabilities x)"

definition TPML_AC_CAPABILITIES_valid :: "TPML_AC_CAPABILITIES \<Rightarrow> bool" where
  "TPML_AC_CAPABILITIES_valid x \<longleftrightarrow>
     arr_ok TPMS_AC_OUTPUT_valid (TPML_AC_CAPABILITIES_acCapabilities x)"

lemma TPML_AC_CAPABILITIES_writes [writes_intros]:
  "TPML_AC_CAPABILITIES_valid x \<Longrightarrow> writes (TPML_AC_CAPABILITIES_toTpm x) (TPML_AC_CAPABILITIES_enc x)"
  unfolding TPML_AC_CAPABILITIES_toTpm_def TPML_AC_CAPABILITIES_enc_def
  by (intro writes_intros; simp add: TPML_AC_CAPABILITIES_valid_def opt_ok_iff)

lemma TPML_AC_CAPABILITIES_reads:
  "TPML_AC_CAPABILITIES_valid x \<Longrightarrow> reads (TPML_AC_CAPABILITIES_initFromTpm TPML_AC_CAPABILITIES_default) x (TPML_AC_CAPABILITIES_enc x)"
  by (simp only: TPML_AC_CAPABILITIES_initFromTpm_def TPML_AC_CAPABILITIES_enc_def TPML_AC_CAPABILITIES_default_def
        TPML_AC_CAPABILITIES.select_convs TPML_AC_CAPABILITIES.update_convs;
      intro reads_intros; (rule TPML_AC_CAPABILITIES.equality)?; simp add: TPML_AC_CAPABILITIES_valid_def opt_ok_iff)

interpretation TPML_AC_CAPABILITIES_codec:
  tpm_codec TPML_AC_CAPABILITIES_toTpm TPML_AC_CAPABILITIES_initFromTpm TPML_AC_CAPABILITIES_default
    TPML_AC_CAPABILITIES_enc TPML_AC_CAPABILITIES_valid
  by unfold_locales (erule TPML_AC_CAPABILITIES_writes TPML_AC_CAPABILITIES_reads | simp add: TPML_AC_CAPABILITIES_enc_def)+

end
