(* ===== verification/TpmAttestCommands.thy ===== *)
theory TpmAttestCommands
  imports TpmNvTypes
begin

text \<open>
  \<^verbatim>\<open>TSS.CPP/include/TpmTypes.h\<close> and \<^verbatim>\<open>TSS.CPP/Src/TpmTypes.cpp\<close>: the parameter
  structures of commands and responses, attestation, signing, audit and PCR.

  As for the other structures, each class has its record, default, \<open>toTpm\<close>, \<open>initFromTpm\<close>, wire
  format and codec; the handles are members that are not marshaled, so the values the format can
  carry have null handles. \<open>X_req\<close> and \<open>X_resp\<close> collect what the dispatcher sees.
\<close>

subsection \<open>TPM2_Certify_REQUEST\<close>

text \<open>The purpose of this command is to prove that an object with a specific Name is loaded in the TPM. By certifying that the object is loaded, the TPM ....\<close>

record TPM2_Certify_REQUEST =
  TPM2_Certify_REQUEST_objectHandle :: "TPM_HANDLE"
  TPM2_Certify_REQUEST_signHandle :: "TPM_HANDLE"
  TPM2_Certify_REQUEST_qualifyingData :: "ByteVec"
  TPM2_Certify_REQUEST_inScheme :: "TPMU_SIG_SCHEME option"

definition TPM2_Certify_REQUEST_default :: TPM2_Certify_REQUEST where
  "TPM2_Certify_REQUEST_default = \<lparr>TPM2_Certify_REQUEST_objectHandle = TPM_HANDLE_default, TPM2_Certify_REQUEST_signHandle = TPM_HANDLE_default, TPM2_Certify_REQUEST_qualifyingData = [], TPM2_Certify_REQUEST_inScheme = None\<rparr>"

definition TPM2_Certify_REQUEST_toTpm :: "TPM2_Certify_REQUEST \<Rightarrow> unit tpm" where
  "TPM2_Certify_REQUEST_toTpm self =
     wseq [writeSizedByteBuf (TPM2_Certify_REQUEST_qualifyingData self) 2,
       deref (TPM2_Certify_REQUEST_inScheme self) (\<lambda>u. writeShort (TPMU_SIG_SCHEME_GetUnionSelector u)),
       deref (TPM2_Certify_REQUEST_inScheme self) TPMU_SIG_SCHEME_toTpm]"

definition TPM2_Certify_REQUEST_initFromTpm :: "TPM2_Certify_REQUEST \<Rightarrow> TPM2_Certify_REQUEST tpm" where
  "TPM2_Certify_REQUEST_initFromTpm self =
     sbind (readSizedByteBuf 2) (\<lambda>qualifyingData.
     sbind readShort (\<lambda>inSchemeScheme.
     bindO (UnionFactory_Create_TPMU_SIG_SCHEME inSchemeScheme) (\<lambda>inScheme.
     sbind (deref inScheme TPMU_SIG_SCHEME_initFromTpm) (\<lambda>inScheme.
     ret (self\<lparr>TPM2_Certify_REQUEST_qualifyingData := qualifyingData, TPM2_Certify_REQUEST_inScheme := Some inScheme\<rparr>)))))"

definition TPM2_Certify_REQUEST_enc :: "TPM2_Certify_REQUEST \<Rightarrow> ByteVec" where
  "TPM2_Certify_REQUEST_enc x =
     enc_sized 2 (TPM2_Certify_REQUEST_qualifyingData x) @
     opt_enc (\<lambda>u. enc16 (TPMU_SIG_SCHEME_GetUnionSelector u)) (TPM2_Certify_REQUEST_inScheme x) @
     opt_enc TPMU_SIG_SCHEME_enc (TPM2_Certify_REQUEST_inScheme x)"

definition TPM2_Certify_REQUEST_valid :: "TPM2_Certify_REQUEST \<Rightarrow> bool" where
  "TPM2_Certify_REQUEST_valid x \<longleftrightarrow>
     sized_ok 2 (TPM2_Certify_REQUEST_qualifyingData x) \<and>
     opt_ok TPMU_SIG_SCHEME_valid (TPM2_Certify_REQUEST_inScheme x) \<and>
     TPM2_Certify_REQUEST_objectHandle x = TPM_HANDLE_default \<and>
     TPM2_Certify_REQUEST_signHandle x = TPM_HANDLE_default"

lemma TPM2_Certify_REQUEST_writes [writes_intros]:
  "TPM2_Certify_REQUEST_valid x \<Longrightarrow> writes (TPM2_Certify_REQUEST_toTpm x) (TPM2_Certify_REQUEST_enc x)"
  unfolding TPM2_Certify_REQUEST_toTpm_def TPM2_Certify_REQUEST_enc_def
  by (intro writes_intros; simp add: TPM2_Certify_REQUEST_valid_def opt_ok_iff)

lemma TPM2_Certify_REQUEST_reads:
  "TPM2_Certify_REQUEST_valid x \<Longrightarrow> reads (TPM2_Certify_REQUEST_initFromTpm TPM2_Certify_REQUEST_default) x (TPM2_Certify_REQUEST_enc x)"
  by (simp only: TPM2_Certify_REQUEST_initFromTpm_def TPM2_Certify_REQUEST_enc_def TPM2_Certify_REQUEST_default_def
        TPM2_Certify_REQUEST.select_convs TPM2_Certify_REQUEST.update_convs;
      intro reads_intros; (rule TPM2_Certify_REQUEST.equality)?; simp add: TPM2_Certify_REQUEST_valid_def opt_ok_iff)

interpretation TPM2_Certify_REQUEST_codec:
  tpm_codec TPM2_Certify_REQUEST_toTpm TPM2_Certify_REQUEST_initFromTpm TPM2_Certify_REQUEST_default
    TPM2_Certify_REQUEST_enc TPM2_Certify_REQUEST_valid
  by unfold_locales (erule TPM2_Certify_REQUEST_writes TPM2_Certify_REQUEST_reads | simp add: TPM2_Certify_REQUEST_enc_def)+

definition TPM2_Certify_REQUEST_req :: "TPM2_Certify_REQUEST \<Rightarrow> TPM_HANDLE ReqStructure" where
  "TPM2_Certify_REQUEST_req self =
     \<lparr>req_toTpm = TPM2_Certify_REQUEST_toTpm self, req_numHandles = 2,
     req_numAuthHandles = 2, req_getHandles = [TPM2_Certify_REQUEST_objectHandle self, TPM2_Certify_REQUEST_signHandle self], req_sessEncInfo = \<lparr>sizeLen = 2, valLen = 1\<rparr>\<rparr>"

subsection \<open>CertifyResponse\<close>

text \<open>The purpose of this command is to prove that an object with a specific Name is loaded in the TPM. By certifying that the object is loaded, the TPM ....\<close>

record CertifyResponse =
  CertifyResponse_certifyInfo :: "TPMS_ATTEST"
  CertifyResponse_signature :: "TPMU_SIGNATURE option"

definition CertifyResponse_default :: CertifyResponse where
  "CertifyResponse_default = \<lparr>CertifyResponse_certifyInfo = TPMS_ATTEST_default, CertifyResponse_signature = None\<rparr>"

definition CertifyResponse_toTpm :: "CertifyResponse \<Rightarrow> unit tpm" where
  "CertifyResponse_toTpm self =
     wseq [writeSizedObj TPMS_ATTEST_toTpm (CertifyResponse_certifyInfo self),
       deref (CertifyResponse_signature self) (\<lambda>u. writeShort (TPMU_SIGNATURE_GetUnionSelector u)),
       deref (CertifyResponse_signature self) TPMU_SIGNATURE_toTpm]"

definition CertifyResponse_initFromTpm :: "CertifyResponse \<Rightarrow> CertifyResponse tpm" where
  "CertifyResponse_initFromTpm self =
     sbind (readSizedObj TPMS_ATTEST_initFromTpm (CertifyResponse_certifyInfo self)) (\<lambda>certifyInfo.
     sbind readShort (\<lambda>signatureSigAlg.
     bindO (UnionFactory_Create_TPMU_SIGNATURE signatureSigAlg) (\<lambda>signature.
     sbind (deref signature TPMU_SIGNATURE_initFromTpm) (\<lambda>signature.
     ret (self\<lparr>CertifyResponse_certifyInfo := certifyInfo, CertifyResponse_signature := Some signature\<rparr>)))))"

definition CertifyResponse_enc :: "CertifyResponse \<Rightarrow> ByteVec" where
  "CertifyResponse_enc x =
     enc_obj (TPMS_ATTEST_enc (CertifyResponse_certifyInfo x)) @
     opt_enc (\<lambda>u. enc16 (TPMU_SIGNATURE_GetUnionSelector u)) (CertifyResponse_signature x) @
     opt_enc TPMU_SIGNATURE_enc (CertifyResponse_signature x)"

definition CertifyResponse_valid :: "CertifyResponse \<Rightarrow> bool" where
  "CertifyResponse_valid x \<longleftrightarrow>
     sized_obj_ok TPMS_ATTEST_default TPMS_ATTEST_enc TPMS_ATTEST_valid (CertifyResponse_certifyInfo x) \<and>
     opt_ok TPMU_SIGNATURE_valid (CertifyResponse_signature x)"

lemma CertifyResponse_writes [writes_intros]:
  "CertifyResponse_valid x \<Longrightarrow> writes (CertifyResponse_toTpm x) (CertifyResponse_enc x)"
  unfolding CertifyResponse_toTpm_def CertifyResponse_enc_def
  by (intro writes_intros; simp add: CertifyResponse_valid_def opt_ok_iff)

lemma CertifyResponse_reads:
  "CertifyResponse_valid x \<Longrightarrow> reads (CertifyResponse_initFromTpm CertifyResponse_default) x (CertifyResponse_enc x)"
  by (simp only: CertifyResponse_initFromTpm_def CertifyResponse_enc_def CertifyResponse_default_def
        CertifyResponse.select_convs CertifyResponse.update_convs;
      intro reads_intros; (rule CertifyResponse.equality)?; simp add: CertifyResponse_valid_def opt_ok_iff)

interpretation CertifyResponse_codec:
  tpm_codec CertifyResponse_toTpm CertifyResponse_initFromTpm CertifyResponse_default
    CertifyResponse_enc CertifyResponse_valid
  by unfold_locales (erule CertifyResponse_writes CertifyResponse_reads | simp add: CertifyResponse_enc_def)+

definition CertifyResponse_resp :: "(TPM_HANDLE, CertifyResponse) RespStructure" where
  "CertifyResponse_resp = \<lparr>resp_default = CertifyResponse_default, resp_initFromTpm = CertifyResponse_initFromTpm,
     resp_numHandles = 0, resp_getHandle = (\<lambda>_. TPM_HANDLE_default),
     resp_setHandle = (\<lambda>_ self. self), resp_sessEncInfo = \<lparr>sizeLen = 2, valLen = 1\<rparr>\<rparr>"

subsection \<open>TPM2_CertifyCreation_REQUEST\<close>

text \<open>This command is used to prove the association between an object and its creation data.\<close>

record TPM2_CertifyCreation_REQUEST =
  TPM2_CertifyCreation_REQUEST_signHandle :: "TPM_HANDLE"
  TPM2_CertifyCreation_REQUEST_objectHandle :: "TPM_HANDLE"
  TPM2_CertifyCreation_REQUEST_qualifyingData :: "ByteVec"
  TPM2_CertifyCreation_REQUEST_creationHash :: "ByteVec"
  TPM2_CertifyCreation_REQUEST_inScheme :: "TPMU_SIG_SCHEME option"
  TPM2_CertifyCreation_REQUEST_creationTicket :: "TPMT_TK_CREATION"

definition TPM2_CertifyCreation_REQUEST_default :: TPM2_CertifyCreation_REQUEST where
  "TPM2_CertifyCreation_REQUEST_default = \<lparr>TPM2_CertifyCreation_REQUEST_signHandle = TPM_HANDLE_default, TPM2_CertifyCreation_REQUEST_objectHandle = TPM_HANDLE_default, TPM2_CertifyCreation_REQUEST_qualifyingData = [], TPM2_CertifyCreation_REQUEST_creationHash = [], TPM2_CertifyCreation_REQUEST_inScheme = None, TPM2_CertifyCreation_REQUEST_creationTicket = TPMT_TK_CREATION_default\<rparr>"

definition TPM2_CertifyCreation_REQUEST_toTpm :: "TPM2_CertifyCreation_REQUEST \<Rightarrow> unit tpm" where
  "TPM2_CertifyCreation_REQUEST_toTpm self =
     wseq [writeSizedByteBuf (TPM2_CertifyCreation_REQUEST_qualifyingData self) 2,
       writeSizedByteBuf (TPM2_CertifyCreation_REQUEST_creationHash self) 2,
       deref (TPM2_CertifyCreation_REQUEST_inScheme self) (\<lambda>u. writeShort (TPMU_SIG_SCHEME_GetUnionSelector u)),
       deref (TPM2_CertifyCreation_REQUEST_inScheme self) TPMU_SIG_SCHEME_toTpm,
       TPMT_TK_CREATION_toTpm (TPM2_CertifyCreation_REQUEST_creationTicket self)]"

definition TPM2_CertifyCreation_REQUEST_initFromTpm :: "TPM2_CertifyCreation_REQUEST \<Rightarrow> TPM2_CertifyCreation_REQUEST tpm" where
  "TPM2_CertifyCreation_REQUEST_initFromTpm self =
     sbind (readSizedByteBuf 2) (\<lambda>qualifyingData.
     sbind (readSizedByteBuf 2) (\<lambda>creationHash.
     sbind readShort (\<lambda>inSchemeScheme.
     bindO (UnionFactory_Create_TPMU_SIG_SCHEME inSchemeScheme) (\<lambda>inScheme.
     sbind (deref inScheme TPMU_SIG_SCHEME_initFromTpm) (\<lambda>inScheme.
     sbind (TPMT_TK_CREATION_initFromTpm (TPM2_CertifyCreation_REQUEST_creationTicket self)) (\<lambda>creationTicket.
     ret (self\<lparr>TPM2_CertifyCreation_REQUEST_qualifyingData := qualifyingData, TPM2_CertifyCreation_REQUEST_creationHash := creationHash, TPM2_CertifyCreation_REQUEST_inScheme := Some inScheme, TPM2_CertifyCreation_REQUEST_creationTicket := creationTicket\<rparr>)))))))"

definition TPM2_CertifyCreation_REQUEST_enc :: "TPM2_CertifyCreation_REQUEST \<Rightarrow> ByteVec" where
  "TPM2_CertifyCreation_REQUEST_enc x =
     enc_sized 2 (TPM2_CertifyCreation_REQUEST_qualifyingData x) @
     enc_sized 2 (TPM2_CertifyCreation_REQUEST_creationHash x) @
     opt_enc (\<lambda>u. enc16 (TPMU_SIG_SCHEME_GetUnionSelector u)) (TPM2_CertifyCreation_REQUEST_inScheme x) @
     opt_enc TPMU_SIG_SCHEME_enc (TPM2_CertifyCreation_REQUEST_inScheme x) @
     TPMT_TK_CREATION_enc (TPM2_CertifyCreation_REQUEST_creationTicket x)"

definition TPM2_CertifyCreation_REQUEST_valid :: "TPM2_CertifyCreation_REQUEST \<Rightarrow> bool" where
  "TPM2_CertifyCreation_REQUEST_valid x \<longleftrightarrow>
     sized_ok 2 (TPM2_CertifyCreation_REQUEST_qualifyingData x) \<and>
     sized_ok 2 (TPM2_CertifyCreation_REQUEST_creationHash x) \<and>
     opt_ok TPMU_SIG_SCHEME_valid (TPM2_CertifyCreation_REQUEST_inScheme x) \<and>
     TPMT_TK_CREATION_valid (TPM2_CertifyCreation_REQUEST_creationTicket x) \<and>
     TPM2_CertifyCreation_REQUEST_signHandle x = TPM_HANDLE_default \<and>
     TPM2_CertifyCreation_REQUEST_objectHandle x = TPM_HANDLE_default"

lemma TPM2_CertifyCreation_REQUEST_writes [writes_intros]:
  "TPM2_CertifyCreation_REQUEST_valid x \<Longrightarrow> writes (TPM2_CertifyCreation_REQUEST_toTpm x) (TPM2_CertifyCreation_REQUEST_enc x)"
  unfolding TPM2_CertifyCreation_REQUEST_toTpm_def TPM2_CertifyCreation_REQUEST_enc_def
  by (intro writes_intros; simp add: TPM2_CertifyCreation_REQUEST_valid_def opt_ok_iff)

lemma TPM2_CertifyCreation_REQUEST_reads:
  "TPM2_CertifyCreation_REQUEST_valid x \<Longrightarrow> reads (TPM2_CertifyCreation_REQUEST_initFromTpm TPM2_CertifyCreation_REQUEST_default) x (TPM2_CertifyCreation_REQUEST_enc x)"
  by (simp only: TPM2_CertifyCreation_REQUEST_initFromTpm_def TPM2_CertifyCreation_REQUEST_enc_def TPM2_CertifyCreation_REQUEST_default_def
        TPM2_CertifyCreation_REQUEST.select_convs TPM2_CertifyCreation_REQUEST.update_convs;
      intro reads_intros; (rule TPM2_CertifyCreation_REQUEST.equality)?; simp add: TPM2_CertifyCreation_REQUEST_valid_def opt_ok_iff)

interpretation TPM2_CertifyCreation_REQUEST_codec:
  tpm_codec TPM2_CertifyCreation_REQUEST_toTpm TPM2_CertifyCreation_REQUEST_initFromTpm TPM2_CertifyCreation_REQUEST_default
    TPM2_CertifyCreation_REQUEST_enc TPM2_CertifyCreation_REQUEST_valid
  by unfold_locales (erule TPM2_CertifyCreation_REQUEST_writes TPM2_CertifyCreation_REQUEST_reads | simp add: TPM2_CertifyCreation_REQUEST_enc_def)+

definition TPM2_CertifyCreation_REQUEST_req :: "TPM2_CertifyCreation_REQUEST \<Rightarrow> TPM_HANDLE ReqStructure" where
  "TPM2_CertifyCreation_REQUEST_req self =
     \<lparr>req_toTpm = TPM2_CertifyCreation_REQUEST_toTpm self, req_numHandles = 2,
     req_numAuthHandles = 1, req_getHandles = [TPM2_CertifyCreation_REQUEST_signHandle self, TPM2_CertifyCreation_REQUEST_objectHandle self], req_sessEncInfo = \<lparr>sizeLen = 2, valLen = 1\<rparr>\<rparr>"

subsection \<open>CertifyCreationResponse\<close>

text \<open>This command is used to prove the association between an object and its creation data.\<close>

record CertifyCreationResponse =
  CertifyCreationResponse_certifyInfo :: "TPMS_ATTEST"
  CertifyCreationResponse_signature :: "TPMU_SIGNATURE option"

definition CertifyCreationResponse_default :: CertifyCreationResponse where
  "CertifyCreationResponse_default = \<lparr>CertifyCreationResponse_certifyInfo = TPMS_ATTEST_default, CertifyCreationResponse_signature = None\<rparr>"

definition CertifyCreationResponse_toTpm :: "CertifyCreationResponse \<Rightarrow> unit tpm" where
  "CertifyCreationResponse_toTpm self =
     wseq [writeSizedObj TPMS_ATTEST_toTpm (CertifyCreationResponse_certifyInfo self),
       deref (CertifyCreationResponse_signature self) (\<lambda>u. writeShort (TPMU_SIGNATURE_GetUnionSelector u)),
       deref (CertifyCreationResponse_signature self) TPMU_SIGNATURE_toTpm]"

definition CertifyCreationResponse_initFromTpm :: "CertifyCreationResponse \<Rightarrow> CertifyCreationResponse tpm" where
  "CertifyCreationResponse_initFromTpm self =
     sbind (readSizedObj TPMS_ATTEST_initFromTpm (CertifyCreationResponse_certifyInfo self)) (\<lambda>certifyInfo.
     sbind readShort (\<lambda>signatureSigAlg.
     bindO (UnionFactory_Create_TPMU_SIGNATURE signatureSigAlg) (\<lambda>signature.
     sbind (deref signature TPMU_SIGNATURE_initFromTpm) (\<lambda>signature.
     ret (self\<lparr>CertifyCreationResponse_certifyInfo := certifyInfo, CertifyCreationResponse_signature := Some signature\<rparr>)))))"

definition CertifyCreationResponse_enc :: "CertifyCreationResponse \<Rightarrow> ByteVec" where
  "CertifyCreationResponse_enc x =
     enc_obj (TPMS_ATTEST_enc (CertifyCreationResponse_certifyInfo x)) @
     opt_enc (\<lambda>u. enc16 (TPMU_SIGNATURE_GetUnionSelector u)) (CertifyCreationResponse_signature x) @
     opt_enc TPMU_SIGNATURE_enc (CertifyCreationResponse_signature x)"

definition CertifyCreationResponse_valid :: "CertifyCreationResponse \<Rightarrow> bool" where
  "CertifyCreationResponse_valid x \<longleftrightarrow>
     sized_obj_ok TPMS_ATTEST_default TPMS_ATTEST_enc TPMS_ATTEST_valid (CertifyCreationResponse_certifyInfo x) \<and>
     opt_ok TPMU_SIGNATURE_valid (CertifyCreationResponse_signature x)"

lemma CertifyCreationResponse_writes [writes_intros]:
  "CertifyCreationResponse_valid x \<Longrightarrow> writes (CertifyCreationResponse_toTpm x) (CertifyCreationResponse_enc x)"
  unfolding CertifyCreationResponse_toTpm_def CertifyCreationResponse_enc_def
  by (intro writes_intros; simp add: CertifyCreationResponse_valid_def opt_ok_iff)

lemma CertifyCreationResponse_reads:
  "CertifyCreationResponse_valid x \<Longrightarrow> reads (CertifyCreationResponse_initFromTpm CertifyCreationResponse_default) x (CertifyCreationResponse_enc x)"
  by (simp only: CertifyCreationResponse_initFromTpm_def CertifyCreationResponse_enc_def CertifyCreationResponse_default_def
        CertifyCreationResponse.select_convs CertifyCreationResponse.update_convs;
      intro reads_intros; (rule CertifyCreationResponse.equality)?; simp add: CertifyCreationResponse_valid_def opt_ok_iff)

interpretation CertifyCreationResponse_codec:
  tpm_codec CertifyCreationResponse_toTpm CertifyCreationResponse_initFromTpm CertifyCreationResponse_default
    CertifyCreationResponse_enc CertifyCreationResponse_valid
  by unfold_locales (erule CertifyCreationResponse_writes CertifyCreationResponse_reads | simp add: CertifyCreationResponse_enc_def)+

definition CertifyCreationResponse_resp :: "(TPM_HANDLE, CertifyCreationResponse) RespStructure" where
  "CertifyCreationResponse_resp = \<lparr>resp_default = CertifyCreationResponse_default, resp_initFromTpm = CertifyCreationResponse_initFromTpm,
     resp_numHandles = 0, resp_getHandle = (\<lambda>_. TPM_HANDLE_default),
     resp_setHandle = (\<lambda>_ self. self), resp_sessEncInfo = \<lparr>sizeLen = 2, valLen = 1\<rparr>\<rparr>"

subsection \<open>TPM2_Quote_REQUEST\<close>

text \<open>This command is used to quote PCR values.\<close>

record TPM2_Quote_REQUEST =
  TPM2_Quote_REQUEST_signHandle :: "TPM_HANDLE"
  TPM2_Quote_REQUEST_qualifyingData :: "ByteVec"
  TPM2_Quote_REQUEST_inScheme :: "TPMU_SIG_SCHEME option"
  TPM2_Quote_REQUEST_PCRselect :: "TPMS_PCR_SELECTION list"

definition TPM2_Quote_REQUEST_default :: TPM2_Quote_REQUEST where
  "TPM2_Quote_REQUEST_default = \<lparr>TPM2_Quote_REQUEST_signHandle = TPM_HANDLE_default, TPM2_Quote_REQUEST_qualifyingData = [], TPM2_Quote_REQUEST_inScheme = None, TPM2_Quote_REQUEST_PCRselect = []\<rparr>"

definition TPM2_Quote_REQUEST_toTpm :: "TPM2_Quote_REQUEST \<Rightarrow> unit tpm" where
  "TPM2_Quote_REQUEST_toTpm self =
     wseq [writeSizedByteBuf (TPM2_Quote_REQUEST_qualifyingData self) 2,
       deref (TPM2_Quote_REQUEST_inScheme self) (\<lambda>u. writeShort (TPMU_SIG_SCHEME_GetUnionSelector u)),
       deref (TPM2_Quote_REQUEST_inScheme self) TPMU_SIG_SCHEME_toTpm,
       writeObjArr TPMS_PCR_SELECTION_toTpm (TPM2_Quote_REQUEST_PCRselect self)]"

definition TPM2_Quote_REQUEST_initFromTpm :: "TPM2_Quote_REQUEST \<Rightarrow> TPM2_Quote_REQUEST tpm" where
  "TPM2_Quote_REQUEST_initFromTpm self =
     sbind (readSizedByteBuf 2) (\<lambda>qualifyingData.
     sbind readShort (\<lambda>inSchemeScheme.
     bindO (UnionFactory_Create_TPMU_SIG_SCHEME inSchemeScheme) (\<lambda>inScheme.
     sbind (deref inScheme TPMU_SIG_SCHEME_initFromTpm) (\<lambda>inScheme.
     sbind (readObjArr TPMS_PCR_SELECTION_initFromTpm TPMS_PCR_SELECTION_default (TPM2_Quote_REQUEST_PCRselect self)) (\<lambda>PCRselect.
     ret (self\<lparr>TPM2_Quote_REQUEST_qualifyingData := qualifyingData, TPM2_Quote_REQUEST_inScheme := Some inScheme, TPM2_Quote_REQUEST_PCRselect := PCRselect\<rparr>))))))"

definition TPM2_Quote_REQUEST_enc :: "TPM2_Quote_REQUEST \<Rightarrow> ByteVec" where
  "TPM2_Quote_REQUEST_enc x =
     enc_sized 2 (TPM2_Quote_REQUEST_qualifyingData x) @
     opt_enc (\<lambda>u. enc16 (TPMU_SIG_SCHEME_GetUnionSelector u)) (TPM2_Quote_REQUEST_inScheme x) @
     opt_enc TPMU_SIG_SCHEME_enc (TPM2_Quote_REQUEST_inScheme x) @
     enc_arr TPMS_PCR_SELECTION_enc (TPM2_Quote_REQUEST_PCRselect x)"

definition TPM2_Quote_REQUEST_valid :: "TPM2_Quote_REQUEST \<Rightarrow> bool" where
  "TPM2_Quote_REQUEST_valid x \<longleftrightarrow>
     sized_ok 2 (TPM2_Quote_REQUEST_qualifyingData x) \<and>
     opt_ok TPMU_SIG_SCHEME_valid (TPM2_Quote_REQUEST_inScheme x) \<and>
     arr_ok TPMS_PCR_SELECTION_valid (TPM2_Quote_REQUEST_PCRselect x) \<and>
     TPM2_Quote_REQUEST_signHandle x = TPM_HANDLE_default"

lemma TPM2_Quote_REQUEST_writes [writes_intros]:
  "TPM2_Quote_REQUEST_valid x \<Longrightarrow> writes (TPM2_Quote_REQUEST_toTpm x) (TPM2_Quote_REQUEST_enc x)"
  unfolding TPM2_Quote_REQUEST_toTpm_def TPM2_Quote_REQUEST_enc_def
  by (intro writes_intros; simp add: TPM2_Quote_REQUEST_valid_def opt_ok_iff)

lemma TPM2_Quote_REQUEST_reads:
  "TPM2_Quote_REQUEST_valid x \<Longrightarrow> reads (TPM2_Quote_REQUEST_initFromTpm TPM2_Quote_REQUEST_default) x (TPM2_Quote_REQUEST_enc x)"
  by (simp only: TPM2_Quote_REQUEST_initFromTpm_def TPM2_Quote_REQUEST_enc_def TPM2_Quote_REQUEST_default_def
        TPM2_Quote_REQUEST.select_convs TPM2_Quote_REQUEST.update_convs;
      intro reads_intros; (rule TPM2_Quote_REQUEST.equality)?; simp add: TPM2_Quote_REQUEST_valid_def opt_ok_iff)

interpretation TPM2_Quote_REQUEST_codec:
  tpm_codec TPM2_Quote_REQUEST_toTpm TPM2_Quote_REQUEST_initFromTpm TPM2_Quote_REQUEST_default
    TPM2_Quote_REQUEST_enc TPM2_Quote_REQUEST_valid
  by unfold_locales (erule TPM2_Quote_REQUEST_writes TPM2_Quote_REQUEST_reads | simp add: TPM2_Quote_REQUEST_enc_def)+

definition TPM2_Quote_REQUEST_req :: "TPM2_Quote_REQUEST \<Rightarrow> TPM_HANDLE ReqStructure" where
  "TPM2_Quote_REQUEST_req self =
     \<lparr>req_toTpm = TPM2_Quote_REQUEST_toTpm self, req_numHandles = 1,
     req_numAuthHandles = 1, req_getHandles = [TPM2_Quote_REQUEST_signHandle self], req_sessEncInfo = \<lparr>sizeLen = 2, valLen = 1\<rparr>\<rparr>"

subsection \<open>QuoteResponse\<close>

text \<open>This command is used to quote PCR values.\<close>

record QuoteResponse =
  QuoteResponse_quoted :: "TPMS_ATTEST"
  QuoteResponse_signature :: "TPMU_SIGNATURE option"

definition QuoteResponse_default :: QuoteResponse where
  "QuoteResponse_default = \<lparr>QuoteResponse_quoted = TPMS_ATTEST_default, QuoteResponse_signature = None\<rparr>"

definition QuoteResponse_toTpm :: "QuoteResponse \<Rightarrow> unit tpm" where
  "QuoteResponse_toTpm self =
     wseq [writeSizedObj TPMS_ATTEST_toTpm (QuoteResponse_quoted self),
       deref (QuoteResponse_signature self) (\<lambda>u. writeShort (TPMU_SIGNATURE_GetUnionSelector u)),
       deref (QuoteResponse_signature self) TPMU_SIGNATURE_toTpm]"

definition QuoteResponse_initFromTpm :: "QuoteResponse \<Rightarrow> QuoteResponse tpm" where
  "QuoteResponse_initFromTpm self =
     sbind (readSizedObj TPMS_ATTEST_initFromTpm (QuoteResponse_quoted self)) (\<lambda>quoted.
     sbind readShort (\<lambda>signatureSigAlg.
     bindO (UnionFactory_Create_TPMU_SIGNATURE signatureSigAlg) (\<lambda>signature.
     sbind (deref signature TPMU_SIGNATURE_initFromTpm) (\<lambda>signature.
     ret (self\<lparr>QuoteResponse_quoted := quoted, QuoteResponse_signature := Some signature\<rparr>)))))"

definition QuoteResponse_enc :: "QuoteResponse \<Rightarrow> ByteVec" where
  "QuoteResponse_enc x =
     enc_obj (TPMS_ATTEST_enc (QuoteResponse_quoted x)) @
     opt_enc (\<lambda>u. enc16 (TPMU_SIGNATURE_GetUnionSelector u)) (QuoteResponse_signature x) @
     opt_enc TPMU_SIGNATURE_enc (QuoteResponse_signature x)"

definition QuoteResponse_valid :: "QuoteResponse \<Rightarrow> bool" where
  "QuoteResponse_valid x \<longleftrightarrow>
     sized_obj_ok TPMS_ATTEST_default TPMS_ATTEST_enc TPMS_ATTEST_valid (QuoteResponse_quoted x) \<and>
     opt_ok TPMU_SIGNATURE_valid (QuoteResponse_signature x)"

lemma QuoteResponse_writes [writes_intros]:
  "QuoteResponse_valid x \<Longrightarrow> writes (QuoteResponse_toTpm x) (QuoteResponse_enc x)"
  unfolding QuoteResponse_toTpm_def QuoteResponse_enc_def
  by (intro writes_intros; simp add: QuoteResponse_valid_def opt_ok_iff)

lemma QuoteResponse_reads:
  "QuoteResponse_valid x \<Longrightarrow> reads (QuoteResponse_initFromTpm QuoteResponse_default) x (QuoteResponse_enc x)"
  by (simp only: QuoteResponse_initFromTpm_def QuoteResponse_enc_def QuoteResponse_default_def
        QuoteResponse.select_convs QuoteResponse.update_convs;
      intro reads_intros; (rule QuoteResponse.equality)?; simp add: QuoteResponse_valid_def opt_ok_iff)

interpretation QuoteResponse_codec:
  tpm_codec QuoteResponse_toTpm QuoteResponse_initFromTpm QuoteResponse_default
    QuoteResponse_enc QuoteResponse_valid
  by unfold_locales (erule QuoteResponse_writes QuoteResponse_reads | simp add: QuoteResponse_enc_def)+

definition QuoteResponse_resp :: "(TPM_HANDLE, QuoteResponse) RespStructure" where
  "QuoteResponse_resp = \<lparr>resp_default = QuoteResponse_default, resp_initFromTpm = QuoteResponse_initFromTpm,
     resp_numHandles = 0, resp_getHandle = (\<lambda>_. TPM_HANDLE_default),
     resp_setHandle = (\<lambda>_ self. self), resp_sessEncInfo = \<lparr>sizeLen = 2, valLen = 1\<rparr>\<rparr>"

subsection \<open>TPM2_GetSessionAuditDigest_REQUEST\<close>

text \<open>This command returns a digital signature of the audit session digest.\<close>

record TPM2_GetSessionAuditDigest_REQUEST =
  TPM2_GetSessionAuditDigest_REQUEST_privacyAdminHandle :: "TPM_HANDLE"
  TPM2_GetSessionAuditDigest_REQUEST_signHandle :: "TPM_HANDLE"
  TPM2_GetSessionAuditDigest_REQUEST_sessionHandle :: "TPM_HANDLE"
  TPM2_GetSessionAuditDigest_REQUEST_qualifyingData :: "ByteVec"
  TPM2_GetSessionAuditDigest_REQUEST_inScheme :: "TPMU_SIG_SCHEME option"

definition TPM2_GetSessionAuditDigest_REQUEST_default :: TPM2_GetSessionAuditDigest_REQUEST where
  "TPM2_GetSessionAuditDigest_REQUEST_default = \<lparr>TPM2_GetSessionAuditDigest_REQUEST_privacyAdminHandle = TPM_HANDLE_default, TPM2_GetSessionAuditDigest_REQUEST_signHandle = TPM_HANDLE_default, TPM2_GetSessionAuditDigest_REQUEST_sessionHandle = TPM_HANDLE_default, TPM2_GetSessionAuditDigest_REQUEST_qualifyingData = [], TPM2_GetSessionAuditDigest_REQUEST_inScheme = None\<rparr>"

definition TPM2_GetSessionAuditDigest_REQUEST_toTpm :: "TPM2_GetSessionAuditDigest_REQUEST \<Rightarrow> unit tpm" where
  "TPM2_GetSessionAuditDigest_REQUEST_toTpm self =
     wseq [writeSizedByteBuf (TPM2_GetSessionAuditDigest_REQUEST_qualifyingData self) 2,
       deref (TPM2_GetSessionAuditDigest_REQUEST_inScheme self) (\<lambda>u. writeShort (TPMU_SIG_SCHEME_GetUnionSelector u)),
       deref (TPM2_GetSessionAuditDigest_REQUEST_inScheme self) TPMU_SIG_SCHEME_toTpm]"

definition TPM2_GetSessionAuditDigest_REQUEST_initFromTpm :: "TPM2_GetSessionAuditDigest_REQUEST \<Rightarrow> TPM2_GetSessionAuditDigest_REQUEST tpm" where
  "TPM2_GetSessionAuditDigest_REQUEST_initFromTpm self =
     sbind (readSizedByteBuf 2) (\<lambda>qualifyingData.
     sbind readShort (\<lambda>inSchemeScheme.
     bindO (UnionFactory_Create_TPMU_SIG_SCHEME inSchemeScheme) (\<lambda>inScheme.
     sbind (deref inScheme TPMU_SIG_SCHEME_initFromTpm) (\<lambda>inScheme.
     ret (self\<lparr>TPM2_GetSessionAuditDigest_REQUEST_qualifyingData := qualifyingData, TPM2_GetSessionAuditDigest_REQUEST_inScheme := Some inScheme\<rparr>)))))"

definition TPM2_GetSessionAuditDigest_REQUEST_enc :: "TPM2_GetSessionAuditDigest_REQUEST \<Rightarrow> ByteVec" where
  "TPM2_GetSessionAuditDigest_REQUEST_enc x =
     enc_sized 2 (TPM2_GetSessionAuditDigest_REQUEST_qualifyingData x) @
     opt_enc (\<lambda>u. enc16 (TPMU_SIG_SCHEME_GetUnionSelector u)) (TPM2_GetSessionAuditDigest_REQUEST_inScheme x) @
     opt_enc TPMU_SIG_SCHEME_enc (TPM2_GetSessionAuditDigest_REQUEST_inScheme x)"

definition TPM2_GetSessionAuditDigest_REQUEST_valid :: "TPM2_GetSessionAuditDigest_REQUEST \<Rightarrow> bool" where
  "TPM2_GetSessionAuditDigest_REQUEST_valid x \<longleftrightarrow>
     sized_ok 2 (TPM2_GetSessionAuditDigest_REQUEST_qualifyingData x) \<and>
     opt_ok TPMU_SIG_SCHEME_valid (TPM2_GetSessionAuditDigest_REQUEST_inScheme x) \<and>
     TPM2_GetSessionAuditDigest_REQUEST_privacyAdminHandle x = TPM_HANDLE_default \<and>
     TPM2_GetSessionAuditDigest_REQUEST_signHandle x = TPM_HANDLE_default \<and>
     TPM2_GetSessionAuditDigest_REQUEST_sessionHandle x = TPM_HANDLE_default"

lemma TPM2_GetSessionAuditDigest_REQUEST_writes [writes_intros]:
  "TPM2_GetSessionAuditDigest_REQUEST_valid x \<Longrightarrow> writes (TPM2_GetSessionAuditDigest_REQUEST_toTpm x) (TPM2_GetSessionAuditDigest_REQUEST_enc x)"
  unfolding TPM2_GetSessionAuditDigest_REQUEST_toTpm_def TPM2_GetSessionAuditDigest_REQUEST_enc_def
  by (intro writes_intros; simp add: TPM2_GetSessionAuditDigest_REQUEST_valid_def opt_ok_iff)

lemma TPM2_GetSessionAuditDigest_REQUEST_reads:
  "TPM2_GetSessionAuditDigest_REQUEST_valid x \<Longrightarrow> reads (TPM2_GetSessionAuditDigest_REQUEST_initFromTpm TPM2_GetSessionAuditDigest_REQUEST_default) x (TPM2_GetSessionAuditDigest_REQUEST_enc x)"
  by (simp only: TPM2_GetSessionAuditDigest_REQUEST_initFromTpm_def TPM2_GetSessionAuditDigest_REQUEST_enc_def TPM2_GetSessionAuditDigest_REQUEST_default_def
        TPM2_GetSessionAuditDigest_REQUEST.select_convs TPM2_GetSessionAuditDigest_REQUEST.update_convs;
      intro reads_intros; (rule TPM2_GetSessionAuditDigest_REQUEST.equality)?; simp add: TPM2_GetSessionAuditDigest_REQUEST_valid_def opt_ok_iff)

interpretation TPM2_GetSessionAuditDigest_REQUEST_codec:
  tpm_codec TPM2_GetSessionAuditDigest_REQUEST_toTpm TPM2_GetSessionAuditDigest_REQUEST_initFromTpm TPM2_GetSessionAuditDigest_REQUEST_default
    TPM2_GetSessionAuditDigest_REQUEST_enc TPM2_GetSessionAuditDigest_REQUEST_valid
  by unfold_locales (erule TPM2_GetSessionAuditDigest_REQUEST_writes TPM2_GetSessionAuditDigest_REQUEST_reads | simp add: TPM2_GetSessionAuditDigest_REQUEST_enc_def)+

definition TPM2_GetSessionAuditDigest_REQUEST_req :: "TPM2_GetSessionAuditDigest_REQUEST \<Rightarrow> TPM_HANDLE ReqStructure" where
  "TPM2_GetSessionAuditDigest_REQUEST_req self =
     \<lparr>req_toTpm = TPM2_GetSessionAuditDigest_REQUEST_toTpm self, req_numHandles = 3,
     req_numAuthHandles = 2, req_getHandles = [TPM2_GetSessionAuditDigest_REQUEST_privacyAdminHandle self, TPM2_GetSessionAuditDigest_REQUEST_signHandle self, TPM2_GetSessionAuditDigest_REQUEST_sessionHandle self], req_sessEncInfo = \<lparr>sizeLen = 2, valLen = 1\<rparr>\<rparr>"

subsection \<open>GetSessionAuditDigestResponse\<close>

text \<open>This command returns a digital signature of the audit session digest.\<close>

record GetSessionAuditDigestResponse =
  GetSessionAuditDigestResponse_auditInfo :: "TPMS_ATTEST"
  GetSessionAuditDigestResponse_signature :: "TPMU_SIGNATURE option"

definition GetSessionAuditDigestResponse_default :: GetSessionAuditDigestResponse where
  "GetSessionAuditDigestResponse_default = \<lparr>GetSessionAuditDigestResponse_auditInfo = TPMS_ATTEST_default, GetSessionAuditDigestResponse_signature = None\<rparr>"

definition GetSessionAuditDigestResponse_toTpm :: "GetSessionAuditDigestResponse \<Rightarrow> unit tpm" where
  "GetSessionAuditDigestResponse_toTpm self =
     wseq [writeSizedObj TPMS_ATTEST_toTpm (GetSessionAuditDigestResponse_auditInfo self),
       deref (GetSessionAuditDigestResponse_signature self) (\<lambda>u. writeShort (TPMU_SIGNATURE_GetUnionSelector u)),
       deref (GetSessionAuditDigestResponse_signature self) TPMU_SIGNATURE_toTpm]"

definition GetSessionAuditDigestResponse_initFromTpm :: "GetSessionAuditDigestResponse \<Rightarrow> GetSessionAuditDigestResponse tpm" where
  "GetSessionAuditDigestResponse_initFromTpm self =
     sbind (readSizedObj TPMS_ATTEST_initFromTpm (GetSessionAuditDigestResponse_auditInfo self)) (\<lambda>auditInfo.
     sbind readShort (\<lambda>signatureSigAlg.
     bindO (UnionFactory_Create_TPMU_SIGNATURE signatureSigAlg) (\<lambda>signature.
     sbind (deref signature TPMU_SIGNATURE_initFromTpm) (\<lambda>signature.
     ret (self\<lparr>GetSessionAuditDigestResponse_auditInfo := auditInfo, GetSessionAuditDigestResponse_signature := Some signature\<rparr>)))))"

definition GetSessionAuditDigestResponse_enc :: "GetSessionAuditDigestResponse \<Rightarrow> ByteVec" where
  "GetSessionAuditDigestResponse_enc x =
     enc_obj (TPMS_ATTEST_enc (GetSessionAuditDigestResponse_auditInfo x)) @
     opt_enc (\<lambda>u. enc16 (TPMU_SIGNATURE_GetUnionSelector u)) (GetSessionAuditDigestResponse_signature x) @
     opt_enc TPMU_SIGNATURE_enc (GetSessionAuditDigestResponse_signature x)"

definition GetSessionAuditDigestResponse_valid :: "GetSessionAuditDigestResponse \<Rightarrow> bool" where
  "GetSessionAuditDigestResponse_valid x \<longleftrightarrow>
     sized_obj_ok TPMS_ATTEST_default TPMS_ATTEST_enc TPMS_ATTEST_valid (GetSessionAuditDigestResponse_auditInfo x) \<and>
     opt_ok TPMU_SIGNATURE_valid (GetSessionAuditDigestResponse_signature x)"

lemma GetSessionAuditDigestResponse_writes [writes_intros]:
  "GetSessionAuditDigestResponse_valid x \<Longrightarrow> writes (GetSessionAuditDigestResponse_toTpm x) (GetSessionAuditDigestResponse_enc x)"
  unfolding GetSessionAuditDigestResponse_toTpm_def GetSessionAuditDigestResponse_enc_def
  by (intro writes_intros; simp add: GetSessionAuditDigestResponse_valid_def opt_ok_iff)

lemma GetSessionAuditDigestResponse_reads:
  "GetSessionAuditDigestResponse_valid x \<Longrightarrow> reads (GetSessionAuditDigestResponse_initFromTpm GetSessionAuditDigestResponse_default) x (GetSessionAuditDigestResponse_enc x)"
  by (simp only: GetSessionAuditDigestResponse_initFromTpm_def GetSessionAuditDigestResponse_enc_def GetSessionAuditDigestResponse_default_def
        GetSessionAuditDigestResponse.select_convs GetSessionAuditDigestResponse.update_convs;
      intro reads_intros; (rule GetSessionAuditDigestResponse.equality)?; simp add: GetSessionAuditDigestResponse_valid_def opt_ok_iff)

interpretation GetSessionAuditDigestResponse_codec:
  tpm_codec GetSessionAuditDigestResponse_toTpm GetSessionAuditDigestResponse_initFromTpm GetSessionAuditDigestResponse_default
    GetSessionAuditDigestResponse_enc GetSessionAuditDigestResponse_valid
  by unfold_locales (erule GetSessionAuditDigestResponse_writes GetSessionAuditDigestResponse_reads | simp add: GetSessionAuditDigestResponse_enc_def)+

definition GetSessionAuditDigestResponse_resp :: "(TPM_HANDLE, GetSessionAuditDigestResponse) RespStructure" where
  "GetSessionAuditDigestResponse_resp = \<lparr>resp_default = GetSessionAuditDigestResponse_default, resp_initFromTpm = GetSessionAuditDigestResponse_initFromTpm,
     resp_numHandles = 0, resp_getHandle = (\<lambda>_. TPM_HANDLE_default),
     resp_setHandle = (\<lambda>_ self. self), resp_sessEncInfo = \<lparr>sizeLen = 2, valLen = 1\<rparr>\<rparr>"

subsection \<open>TPM2_GetCommandAuditDigest_REQUEST\<close>

text \<open>This command returns the current value of the command audit digest, a digest of the commands being audited, and the audit hash algorithm.\<close>

record TPM2_GetCommandAuditDigest_REQUEST =
  TPM2_GetCommandAuditDigest_REQUEST_privacyHandle :: "TPM_HANDLE"
  TPM2_GetCommandAuditDigest_REQUEST_signHandle :: "TPM_HANDLE"
  TPM2_GetCommandAuditDigest_REQUEST_qualifyingData :: "ByteVec"
  TPM2_GetCommandAuditDigest_REQUEST_inScheme :: "TPMU_SIG_SCHEME option"

definition TPM2_GetCommandAuditDigest_REQUEST_default :: TPM2_GetCommandAuditDigest_REQUEST where
  "TPM2_GetCommandAuditDigest_REQUEST_default = \<lparr>TPM2_GetCommandAuditDigest_REQUEST_privacyHandle = TPM_HANDLE_default, TPM2_GetCommandAuditDigest_REQUEST_signHandle = TPM_HANDLE_default, TPM2_GetCommandAuditDigest_REQUEST_qualifyingData = [], TPM2_GetCommandAuditDigest_REQUEST_inScheme = None\<rparr>"

definition TPM2_GetCommandAuditDigest_REQUEST_toTpm :: "TPM2_GetCommandAuditDigest_REQUEST \<Rightarrow> unit tpm" where
  "TPM2_GetCommandAuditDigest_REQUEST_toTpm self =
     wseq [writeSizedByteBuf (TPM2_GetCommandAuditDigest_REQUEST_qualifyingData self) 2,
       deref (TPM2_GetCommandAuditDigest_REQUEST_inScheme self) (\<lambda>u. writeShort (TPMU_SIG_SCHEME_GetUnionSelector u)),
       deref (TPM2_GetCommandAuditDigest_REQUEST_inScheme self) TPMU_SIG_SCHEME_toTpm]"

definition TPM2_GetCommandAuditDigest_REQUEST_initFromTpm :: "TPM2_GetCommandAuditDigest_REQUEST \<Rightarrow> TPM2_GetCommandAuditDigest_REQUEST tpm" where
  "TPM2_GetCommandAuditDigest_REQUEST_initFromTpm self =
     sbind (readSizedByteBuf 2) (\<lambda>qualifyingData.
     sbind readShort (\<lambda>inSchemeScheme.
     bindO (UnionFactory_Create_TPMU_SIG_SCHEME inSchemeScheme) (\<lambda>inScheme.
     sbind (deref inScheme TPMU_SIG_SCHEME_initFromTpm) (\<lambda>inScheme.
     ret (self\<lparr>TPM2_GetCommandAuditDigest_REQUEST_qualifyingData := qualifyingData, TPM2_GetCommandAuditDigest_REQUEST_inScheme := Some inScheme\<rparr>)))))"

definition TPM2_GetCommandAuditDigest_REQUEST_enc :: "TPM2_GetCommandAuditDigest_REQUEST \<Rightarrow> ByteVec" where
  "TPM2_GetCommandAuditDigest_REQUEST_enc x =
     enc_sized 2 (TPM2_GetCommandAuditDigest_REQUEST_qualifyingData x) @
     opt_enc (\<lambda>u. enc16 (TPMU_SIG_SCHEME_GetUnionSelector u)) (TPM2_GetCommandAuditDigest_REQUEST_inScheme x) @
     opt_enc TPMU_SIG_SCHEME_enc (TPM2_GetCommandAuditDigest_REQUEST_inScheme x)"

definition TPM2_GetCommandAuditDigest_REQUEST_valid :: "TPM2_GetCommandAuditDigest_REQUEST \<Rightarrow> bool" where
  "TPM2_GetCommandAuditDigest_REQUEST_valid x \<longleftrightarrow>
     sized_ok 2 (TPM2_GetCommandAuditDigest_REQUEST_qualifyingData x) \<and>
     opt_ok TPMU_SIG_SCHEME_valid (TPM2_GetCommandAuditDigest_REQUEST_inScheme x) \<and>
     TPM2_GetCommandAuditDigest_REQUEST_privacyHandle x = TPM_HANDLE_default \<and>
     TPM2_GetCommandAuditDigest_REQUEST_signHandle x = TPM_HANDLE_default"

lemma TPM2_GetCommandAuditDigest_REQUEST_writes [writes_intros]:
  "TPM2_GetCommandAuditDigest_REQUEST_valid x \<Longrightarrow> writes (TPM2_GetCommandAuditDigest_REQUEST_toTpm x) (TPM2_GetCommandAuditDigest_REQUEST_enc x)"
  unfolding TPM2_GetCommandAuditDigest_REQUEST_toTpm_def TPM2_GetCommandAuditDigest_REQUEST_enc_def
  by (intro writes_intros; simp add: TPM2_GetCommandAuditDigest_REQUEST_valid_def opt_ok_iff)

lemma TPM2_GetCommandAuditDigest_REQUEST_reads:
  "TPM2_GetCommandAuditDigest_REQUEST_valid x \<Longrightarrow> reads (TPM2_GetCommandAuditDigest_REQUEST_initFromTpm TPM2_GetCommandAuditDigest_REQUEST_default) x (TPM2_GetCommandAuditDigest_REQUEST_enc x)"
  by (simp only: TPM2_GetCommandAuditDigest_REQUEST_initFromTpm_def TPM2_GetCommandAuditDigest_REQUEST_enc_def TPM2_GetCommandAuditDigest_REQUEST_default_def
        TPM2_GetCommandAuditDigest_REQUEST.select_convs TPM2_GetCommandAuditDigest_REQUEST.update_convs;
      intro reads_intros; (rule TPM2_GetCommandAuditDigest_REQUEST.equality)?; simp add: TPM2_GetCommandAuditDigest_REQUEST_valid_def opt_ok_iff)

interpretation TPM2_GetCommandAuditDigest_REQUEST_codec:
  tpm_codec TPM2_GetCommandAuditDigest_REQUEST_toTpm TPM2_GetCommandAuditDigest_REQUEST_initFromTpm TPM2_GetCommandAuditDigest_REQUEST_default
    TPM2_GetCommandAuditDigest_REQUEST_enc TPM2_GetCommandAuditDigest_REQUEST_valid
  by unfold_locales (erule TPM2_GetCommandAuditDigest_REQUEST_writes TPM2_GetCommandAuditDigest_REQUEST_reads | simp add: TPM2_GetCommandAuditDigest_REQUEST_enc_def)+

definition TPM2_GetCommandAuditDigest_REQUEST_req :: "TPM2_GetCommandAuditDigest_REQUEST \<Rightarrow> TPM_HANDLE ReqStructure" where
  "TPM2_GetCommandAuditDigest_REQUEST_req self =
     \<lparr>req_toTpm = TPM2_GetCommandAuditDigest_REQUEST_toTpm self, req_numHandles = 2,
     req_numAuthHandles = 2, req_getHandles = [TPM2_GetCommandAuditDigest_REQUEST_privacyHandle self, TPM2_GetCommandAuditDigest_REQUEST_signHandle self], req_sessEncInfo = \<lparr>sizeLen = 2, valLen = 1\<rparr>\<rparr>"

subsection \<open>GetCommandAuditDigestResponse\<close>

text \<open>This command returns the current value of the command audit digest, a digest of the commands being audited, and the audit hash algorithm.\<close>

record GetCommandAuditDigestResponse =
  GetCommandAuditDigestResponse_auditInfo :: "TPMS_ATTEST"
  GetCommandAuditDigestResponse_signature :: "TPMU_SIGNATURE option"

definition GetCommandAuditDigestResponse_default :: GetCommandAuditDigestResponse where
  "GetCommandAuditDigestResponse_default = \<lparr>GetCommandAuditDigestResponse_auditInfo = TPMS_ATTEST_default, GetCommandAuditDigestResponse_signature = None\<rparr>"

definition GetCommandAuditDigestResponse_toTpm :: "GetCommandAuditDigestResponse \<Rightarrow> unit tpm" where
  "GetCommandAuditDigestResponse_toTpm self =
     wseq [writeSizedObj TPMS_ATTEST_toTpm (GetCommandAuditDigestResponse_auditInfo self),
       deref (GetCommandAuditDigestResponse_signature self) (\<lambda>u. writeShort (TPMU_SIGNATURE_GetUnionSelector u)),
       deref (GetCommandAuditDigestResponse_signature self) TPMU_SIGNATURE_toTpm]"

definition GetCommandAuditDigestResponse_initFromTpm :: "GetCommandAuditDigestResponse \<Rightarrow> GetCommandAuditDigestResponse tpm" where
  "GetCommandAuditDigestResponse_initFromTpm self =
     sbind (readSizedObj TPMS_ATTEST_initFromTpm (GetCommandAuditDigestResponse_auditInfo self)) (\<lambda>auditInfo.
     sbind readShort (\<lambda>signatureSigAlg.
     bindO (UnionFactory_Create_TPMU_SIGNATURE signatureSigAlg) (\<lambda>signature.
     sbind (deref signature TPMU_SIGNATURE_initFromTpm) (\<lambda>signature.
     ret (self\<lparr>GetCommandAuditDigestResponse_auditInfo := auditInfo, GetCommandAuditDigestResponse_signature := Some signature\<rparr>)))))"

definition GetCommandAuditDigestResponse_enc :: "GetCommandAuditDigestResponse \<Rightarrow> ByteVec" where
  "GetCommandAuditDigestResponse_enc x =
     enc_obj (TPMS_ATTEST_enc (GetCommandAuditDigestResponse_auditInfo x)) @
     opt_enc (\<lambda>u. enc16 (TPMU_SIGNATURE_GetUnionSelector u)) (GetCommandAuditDigestResponse_signature x) @
     opt_enc TPMU_SIGNATURE_enc (GetCommandAuditDigestResponse_signature x)"

definition GetCommandAuditDigestResponse_valid :: "GetCommandAuditDigestResponse \<Rightarrow> bool" where
  "GetCommandAuditDigestResponse_valid x \<longleftrightarrow>
     sized_obj_ok TPMS_ATTEST_default TPMS_ATTEST_enc TPMS_ATTEST_valid (GetCommandAuditDigestResponse_auditInfo x) \<and>
     opt_ok TPMU_SIGNATURE_valid (GetCommandAuditDigestResponse_signature x)"

lemma GetCommandAuditDigestResponse_writes [writes_intros]:
  "GetCommandAuditDigestResponse_valid x \<Longrightarrow> writes (GetCommandAuditDigestResponse_toTpm x) (GetCommandAuditDigestResponse_enc x)"
  unfolding GetCommandAuditDigestResponse_toTpm_def GetCommandAuditDigestResponse_enc_def
  by (intro writes_intros; simp add: GetCommandAuditDigestResponse_valid_def opt_ok_iff)

lemma GetCommandAuditDigestResponse_reads:
  "GetCommandAuditDigestResponse_valid x \<Longrightarrow> reads (GetCommandAuditDigestResponse_initFromTpm GetCommandAuditDigestResponse_default) x (GetCommandAuditDigestResponse_enc x)"
  by (simp only: GetCommandAuditDigestResponse_initFromTpm_def GetCommandAuditDigestResponse_enc_def GetCommandAuditDigestResponse_default_def
        GetCommandAuditDigestResponse.select_convs GetCommandAuditDigestResponse.update_convs;
      intro reads_intros; (rule GetCommandAuditDigestResponse.equality)?; simp add: GetCommandAuditDigestResponse_valid_def opt_ok_iff)

interpretation GetCommandAuditDigestResponse_codec:
  tpm_codec GetCommandAuditDigestResponse_toTpm GetCommandAuditDigestResponse_initFromTpm GetCommandAuditDigestResponse_default
    GetCommandAuditDigestResponse_enc GetCommandAuditDigestResponse_valid
  by unfold_locales (erule GetCommandAuditDigestResponse_writes GetCommandAuditDigestResponse_reads | simp add: GetCommandAuditDigestResponse_enc_def)+

definition GetCommandAuditDigestResponse_resp :: "(TPM_HANDLE, GetCommandAuditDigestResponse) RespStructure" where
  "GetCommandAuditDigestResponse_resp = \<lparr>resp_default = GetCommandAuditDigestResponse_default, resp_initFromTpm = GetCommandAuditDigestResponse_initFromTpm,
     resp_numHandles = 0, resp_getHandle = (\<lambda>_. TPM_HANDLE_default),
     resp_setHandle = (\<lambda>_ self. self), resp_sessEncInfo = \<lparr>sizeLen = 2, valLen = 1\<rparr>\<rparr>"

subsection \<open>TPM2_GetTime_REQUEST\<close>

text \<open>This command returns the current values of Time and Clock.\<close>

record TPM2_GetTime_REQUEST =
  TPM2_GetTime_REQUEST_privacyAdminHandle :: "TPM_HANDLE"
  TPM2_GetTime_REQUEST_signHandle :: "TPM_HANDLE"
  TPM2_GetTime_REQUEST_qualifyingData :: "ByteVec"
  TPM2_GetTime_REQUEST_inScheme :: "TPMU_SIG_SCHEME option"

definition TPM2_GetTime_REQUEST_default :: TPM2_GetTime_REQUEST where
  "TPM2_GetTime_REQUEST_default = \<lparr>TPM2_GetTime_REQUEST_privacyAdminHandle = TPM_HANDLE_default, TPM2_GetTime_REQUEST_signHandle = TPM_HANDLE_default, TPM2_GetTime_REQUEST_qualifyingData = [], TPM2_GetTime_REQUEST_inScheme = None\<rparr>"

definition TPM2_GetTime_REQUEST_toTpm :: "TPM2_GetTime_REQUEST \<Rightarrow> unit tpm" where
  "TPM2_GetTime_REQUEST_toTpm self =
     wseq [writeSizedByteBuf (TPM2_GetTime_REQUEST_qualifyingData self) 2,
       deref (TPM2_GetTime_REQUEST_inScheme self) (\<lambda>u. writeShort (TPMU_SIG_SCHEME_GetUnionSelector u)),
       deref (TPM2_GetTime_REQUEST_inScheme self) TPMU_SIG_SCHEME_toTpm]"

definition TPM2_GetTime_REQUEST_initFromTpm :: "TPM2_GetTime_REQUEST \<Rightarrow> TPM2_GetTime_REQUEST tpm" where
  "TPM2_GetTime_REQUEST_initFromTpm self =
     sbind (readSizedByteBuf 2) (\<lambda>qualifyingData.
     sbind readShort (\<lambda>inSchemeScheme.
     bindO (UnionFactory_Create_TPMU_SIG_SCHEME inSchemeScheme) (\<lambda>inScheme.
     sbind (deref inScheme TPMU_SIG_SCHEME_initFromTpm) (\<lambda>inScheme.
     ret (self\<lparr>TPM2_GetTime_REQUEST_qualifyingData := qualifyingData, TPM2_GetTime_REQUEST_inScheme := Some inScheme\<rparr>)))))"

definition TPM2_GetTime_REQUEST_enc :: "TPM2_GetTime_REQUEST \<Rightarrow> ByteVec" where
  "TPM2_GetTime_REQUEST_enc x =
     enc_sized 2 (TPM2_GetTime_REQUEST_qualifyingData x) @
     opt_enc (\<lambda>u. enc16 (TPMU_SIG_SCHEME_GetUnionSelector u)) (TPM2_GetTime_REQUEST_inScheme x) @
     opt_enc TPMU_SIG_SCHEME_enc (TPM2_GetTime_REQUEST_inScheme x)"

definition TPM2_GetTime_REQUEST_valid :: "TPM2_GetTime_REQUEST \<Rightarrow> bool" where
  "TPM2_GetTime_REQUEST_valid x \<longleftrightarrow>
     sized_ok 2 (TPM2_GetTime_REQUEST_qualifyingData x) \<and>
     opt_ok TPMU_SIG_SCHEME_valid (TPM2_GetTime_REQUEST_inScheme x) \<and>
     TPM2_GetTime_REQUEST_privacyAdminHandle x = TPM_HANDLE_default \<and>
     TPM2_GetTime_REQUEST_signHandle x = TPM_HANDLE_default"

lemma TPM2_GetTime_REQUEST_writes [writes_intros]:
  "TPM2_GetTime_REQUEST_valid x \<Longrightarrow> writes (TPM2_GetTime_REQUEST_toTpm x) (TPM2_GetTime_REQUEST_enc x)"
  unfolding TPM2_GetTime_REQUEST_toTpm_def TPM2_GetTime_REQUEST_enc_def
  by (intro writes_intros; simp add: TPM2_GetTime_REQUEST_valid_def opt_ok_iff)

lemma TPM2_GetTime_REQUEST_reads:
  "TPM2_GetTime_REQUEST_valid x \<Longrightarrow> reads (TPM2_GetTime_REQUEST_initFromTpm TPM2_GetTime_REQUEST_default) x (TPM2_GetTime_REQUEST_enc x)"
  by (simp only: TPM2_GetTime_REQUEST_initFromTpm_def TPM2_GetTime_REQUEST_enc_def TPM2_GetTime_REQUEST_default_def
        TPM2_GetTime_REQUEST.select_convs TPM2_GetTime_REQUEST.update_convs;
      intro reads_intros; (rule TPM2_GetTime_REQUEST.equality)?; simp add: TPM2_GetTime_REQUEST_valid_def opt_ok_iff)

interpretation TPM2_GetTime_REQUEST_codec:
  tpm_codec TPM2_GetTime_REQUEST_toTpm TPM2_GetTime_REQUEST_initFromTpm TPM2_GetTime_REQUEST_default
    TPM2_GetTime_REQUEST_enc TPM2_GetTime_REQUEST_valid
  by unfold_locales (erule TPM2_GetTime_REQUEST_writes TPM2_GetTime_REQUEST_reads | simp add: TPM2_GetTime_REQUEST_enc_def)+

definition TPM2_GetTime_REQUEST_req :: "TPM2_GetTime_REQUEST \<Rightarrow> TPM_HANDLE ReqStructure" where
  "TPM2_GetTime_REQUEST_req self =
     \<lparr>req_toTpm = TPM2_GetTime_REQUEST_toTpm self, req_numHandles = 2,
     req_numAuthHandles = 2, req_getHandles = [TPM2_GetTime_REQUEST_privacyAdminHandle self, TPM2_GetTime_REQUEST_signHandle self], req_sessEncInfo = \<lparr>sizeLen = 2, valLen = 1\<rparr>\<rparr>"

subsection \<open>GetTimeResponse\<close>

text \<open>This command returns the current values of Time and Clock.\<close>

record GetTimeResponse =
  GetTimeResponse_timeInfo :: "TPMS_ATTEST"
  GetTimeResponse_signature :: "TPMU_SIGNATURE option"

definition GetTimeResponse_default :: GetTimeResponse where
  "GetTimeResponse_default = \<lparr>GetTimeResponse_timeInfo = TPMS_ATTEST_default, GetTimeResponse_signature = None\<rparr>"

definition GetTimeResponse_toTpm :: "GetTimeResponse \<Rightarrow> unit tpm" where
  "GetTimeResponse_toTpm self =
     wseq [writeSizedObj TPMS_ATTEST_toTpm (GetTimeResponse_timeInfo self),
       deref (GetTimeResponse_signature self) (\<lambda>u. writeShort (TPMU_SIGNATURE_GetUnionSelector u)),
       deref (GetTimeResponse_signature self) TPMU_SIGNATURE_toTpm]"

definition GetTimeResponse_initFromTpm :: "GetTimeResponse \<Rightarrow> GetTimeResponse tpm" where
  "GetTimeResponse_initFromTpm self =
     sbind (readSizedObj TPMS_ATTEST_initFromTpm (GetTimeResponse_timeInfo self)) (\<lambda>timeInfo.
     sbind readShort (\<lambda>signatureSigAlg.
     bindO (UnionFactory_Create_TPMU_SIGNATURE signatureSigAlg) (\<lambda>signature.
     sbind (deref signature TPMU_SIGNATURE_initFromTpm) (\<lambda>signature.
     ret (self\<lparr>GetTimeResponse_timeInfo := timeInfo, GetTimeResponse_signature := Some signature\<rparr>)))))"

definition GetTimeResponse_enc :: "GetTimeResponse \<Rightarrow> ByteVec" where
  "GetTimeResponse_enc x =
     enc_obj (TPMS_ATTEST_enc (GetTimeResponse_timeInfo x)) @
     opt_enc (\<lambda>u. enc16 (TPMU_SIGNATURE_GetUnionSelector u)) (GetTimeResponse_signature x) @
     opt_enc TPMU_SIGNATURE_enc (GetTimeResponse_signature x)"

definition GetTimeResponse_valid :: "GetTimeResponse \<Rightarrow> bool" where
  "GetTimeResponse_valid x \<longleftrightarrow>
     sized_obj_ok TPMS_ATTEST_default TPMS_ATTEST_enc TPMS_ATTEST_valid (GetTimeResponse_timeInfo x) \<and>
     opt_ok TPMU_SIGNATURE_valid (GetTimeResponse_signature x)"

lemma GetTimeResponse_writes [writes_intros]:
  "GetTimeResponse_valid x \<Longrightarrow> writes (GetTimeResponse_toTpm x) (GetTimeResponse_enc x)"
  unfolding GetTimeResponse_toTpm_def GetTimeResponse_enc_def
  by (intro writes_intros; simp add: GetTimeResponse_valid_def opt_ok_iff)

lemma GetTimeResponse_reads:
  "GetTimeResponse_valid x \<Longrightarrow> reads (GetTimeResponse_initFromTpm GetTimeResponse_default) x (GetTimeResponse_enc x)"
  by (simp only: GetTimeResponse_initFromTpm_def GetTimeResponse_enc_def GetTimeResponse_default_def
        GetTimeResponse.select_convs GetTimeResponse.update_convs;
      intro reads_intros; (rule GetTimeResponse.equality)?; simp add: GetTimeResponse_valid_def opt_ok_iff)

interpretation GetTimeResponse_codec:
  tpm_codec GetTimeResponse_toTpm GetTimeResponse_initFromTpm GetTimeResponse_default
    GetTimeResponse_enc GetTimeResponse_valid
  by unfold_locales (erule GetTimeResponse_writes GetTimeResponse_reads | simp add: GetTimeResponse_enc_def)+

definition GetTimeResponse_resp :: "(TPM_HANDLE, GetTimeResponse) RespStructure" where
  "GetTimeResponse_resp = \<lparr>resp_default = GetTimeResponse_default, resp_initFromTpm = GetTimeResponse_initFromTpm,
     resp_numHandles = 0, resp_getHandle = (\<lambda>_. TPM_HANDLE_default),
     resp_setHandle = (\<lambda>_ self. self), resp_sessEncInfo = \<lparr>sizeLen = 2, valLen = 1\<rparr>\<rparr>"

subsection \<open>TPM2_CertifyX509_REQUEST\<close>

text \<open>The purpose of this command is to generate an X.509 certificate that proves an object with a specific public key and attributes is loaded in the TPM. ....\<close>

record TPM2_CertifyX509_REQUEST =
  TPM2_CertifyX509_REQUEST_objectHandle :: "TPM_HANDLE"
  TPM2_CertifyX509_REQUEST_signHandle :: "TPM_HANDLE"
  TPM2_CertifyX509_REQUEST_reserved :: "ByteVec"
  TPM2_CertifyX509_REQUEST_inScheme :: "TPMU_SIG_SCHEME option"
  TPM2_CertifyX509_REQUEST_partialCertificate :: "ByteVec"

definition TPM2_CertifyX509_REQUEST_default :: TPM2_CertifyX509_REQUEST where
  "TPM2_CertifyX509_REQUEST_default = \<lparr>TPM2_CertifyX509_REQUEST_objectHandle = TPM_HANDLE_default, TPM2_CertifyX509_REQUEST_signHandle = TPM_HANDLE_default, TPM2_CertifyX509_REQUEST_reserved = [], TPM2_CertifyX509_REQUEST_inScheme = None, TPM2_CertifyX509_REQUEST_partialCertificate = []\<rparr>"

definition TPM2_CertifyX509_REQUEST_toTpm :: "TPM2_CertifyX509_REQUEST \<Rightarrow> unit tpm" where
  "TPM2_CertifyX509_REQUEST_toTpm self =
     wseq [writeSizedByteBuf (TPM2_CertifyX509_REQUEST_reserved self) 2,
       deref (TPM2_CertifyX509_REQUEST_inScheme self) (\<lambda>u. writeShort (TPMU_SIG_SCHEME_GetUnionSelector u)),
       deref (TPM2_CertifyX509_REQUEST_inScheme self) TPMU_SIG_SCHEME_toTpm,
       writeSizedByteBuf (TPM2_CertifyX509_REQUEST_partialCertificate self) 2]"

definition TPM2_CertifyX509_REQUEST_initFromTpm :: "TPM2_CertifyX509_REQUEST \<Rightarrow> TPM2_CertifyX509_REQUEST tpm" where
  "TPM2_CertifyX509_REQUEST_initFromTpm self =
     sbind (readSizedByteBuf 2) (\<lambda>reserved.
     sbind readShort (\<lambda>inSchemeScheme.
     bindO (UnionFactory_Create_TPMU_SIG_SCHEME inSchemeScheme) (\<lambda>inScheme.
     sbind (deref inScheme TPMU_SIG_SCHEME_initFromTpm) (\<lambda>inScheme.
     sbind (readSizedByteBuf 2) (\<lambda>partialCertificate.
     ret (self\<lparr>TPM2_CertifyX509_REQUEST_reserved := reserved, TPM2_CertifyX509_REQUEST_inScheme := Some inScheme, TPM2_CertifyX509_REQUEST_partialCertificate := partialCertificate\<rparr>))))))"

definition TPM2_CertifyX509_REQUEST_enc :: "TPM2_CertifyX509_REQUEST \<Rightarrow> ByteVec" where
  "TPM2_CertifyX509_REQUEST_enc x =
     enc_sized 2 (TPM2_CertifyX509_REQUEST_reserved x) @
     opt_enc (\<lambda>u. enc16 (TPMU_SIG_SCHEME_GetUnionSelector u)) (TPM2_CertifyX509_REQUEST_inScheme x) @
     opt_enc TPMU_SIG_SCHEME_enc (TPM2_CertifyX509_REQUEST_inScheme x) @
     enc_sized 2 (TPM2_CertifyX509_REQUEST_partialCertificate x)"

definition TPM2_CertifyX509_REQUEST_valid :: "TPM2_CertifyX509_REQUEST \<Rightarrow> bool" where
  "TPM2_CertifyX509_REQUEST_valid x \<longleftrightarrow>
     sized_ok 2 (TPM2_CertifyX509_REQUEST_reserved x) \<and>
     opt_ok TPMU_SIG_SCHEME_valid (TPM2_CertifyX509_REQUEST_inScheme x) \<and>
     sized_ok 2 (TPM2_CertifyX509_REQUEST_partialCertificate x) \<and>
     TPM2_CertifyX509_REQUEST_objectHandle x = TPM_HANDLE_default \<and>
     TPM2_CertifyX509_REQUEST_signHandle x = TPM_HANDLE_default"

lemma TPM2_CertifyX509_REQUEST_writes [writes_intros]:
  "TPM2_CertifyX509_REQUEST_valid x \<Longrightarrow> writes (TPM2_CertifyX509_REQUEST_toTpm x) (TPM2_CertifyX509_REQUEST_enc x)"
  unfolding TPM2_CertifyX509_REQUEST_toTpm_def TPM2_CertifyX509_REQUEST_enc_def
  by (intro writes_intros; simp add: TPM2_CertifyX509_REQUEST_valid_def opt_ok_iff)

lemma TPM2_CertifyX509_REQUEST_reads:
  "TPM2_CertifyX509_REQUEST_valid x \<Longrightarrow> reads (TPM2_CertifyX509_REQUEST_initFromTpm TPM2_CertifyX509_REQUEST_default) x (TPM2_CertifyX509_REQUEST_enc x)"
  by (simp only: TPM2_CertifyX509_REQUEST_initFromTpm_def TPM2_CertifyX509_REQUEST_enc_def TPM2_CertifyX509_REQUEST_default_def
        TPM2_CertifyX509_REQUEST.select_convs TPM2_CertifyX509_REQUEST.update_convs;
      intro reads_intros; (rule TPM2_CertifyX509_REQUEST.equality)?; simp add: TPM2_CertifyX509_REQUEST_valid_def opt_ok_iff)

interpretation TPM2_CertifyX509_REQUEST_codec:
  tpm_codec TPM2_CertifyX509_REQUEST_toTpm TPM2_CertifyX509_REQUEST_initFromTpm TPM2_CertifyX509_REQUEST_default
    TPM2_CertifyX509_REQUEST_enc TPM2_CertifyX509_REQUEST_valid
  by unfold_locales (erule TPM2_CertifyX509_REQUEST_writes TPM2_CertifyX509_REQUEST_reads | simp add: TPM2_CertifyX509_REQUEST_enc_def)+

definition TPM2_CertifyX509_REQUEST_req :: "TPM2_CertifyX509_REQUEST \<Rightarrow> TPM_HANDLE ReqStructure" where
  "TPM2_CertifyX509_REQUEST_req self =
     \<lparr>req_toTpm = TPM2_CertifyX509_REQUEST_toTpm self, req_numHandles = 2,
     req_numAuthHandles = 2, req_getHandles = [TPM2_CertifyX509_REQUEST_objectHandle self, TPM2_CertifyX509_REQUEST_signHandle self], req_sessEncInfo = \<lparr>sizeLen = 2, valLen = 1\<rparr>\<rparr>"

subsection \<open>CertifyX509Response\<close>

text \<open>The purpose of this command is to generate an X.509 certificate that proves an object with a specific public key and attributes is loaded in the TPM. ....\<close>

record CertifyX509Response =
  CertifyX509Response_addedToCertificate :: "ByteVec"
  CertifyX509Response_tbsDigest :: "ByteVec"
  CertifyX509Response_signature :: "TPMU_SIGNATURE option"

definition CertifyX509Response_default :: CertifyX509Response where
  "CertifyX509Response_default = \<lparr>CertifyX509Response_addedToCertificate = [], CertifyX509Response_tbsDigest = [], CertifyX509Response_signature = None\<rparr>"

definition CertifyX509Response_toTpm :: "CertifyX509Response \<Rightarrow> unit tpm" where
  "CertifyX509Response_toTpm self =
     wseq [writeSizedByteBuf (CertifyX509Response_addedToCertificate self) 2,
       writeSizedByteBuf (CertifyX509Response_tbsDigest self) 2,
       deref (CertifyX509Response_signature self) (\<lambda>u. writeShort (TPMU_SIGNATURE_GetUnionSelector u)),
       deref (CertifyX509Response_signature self) TPMU_SIGNATURE_toTpm]"

definition CertifyX509Response_initFromTpm :: "CertifyX509Response \<Rightarrow> CertifyX509Response tpm" where
  "CertifyX509Response_initFromTpm self =
     sbind (readSizedByteBuf 2) (\<lambda>addedToCertificate.
     sbind (readSizedByteBuf 2) (\<lambda>tbsDigest.
     sbind readShort (\<lambda>signatureSigAlg.
     bindO (UnionFactory_Create_TPMU_SIGNATURE signatureSigAlg) (\<lambda>signature.
     sbind (deref signature TPMU_SIGNATURE_initFromTpm) (\<lambda>signature.
     ret (self\<lparr>CertifyX509Response_addedToCertificate := addedToCertificate, CertifyX509Response_tbsDigest := tbsDigest, CertifyX509Response_signature := Some signature\<rparr>))))))"

definition CertifyX509Response_enc :: "CertifyX509Response \<Rightarrow> ByteVec" where
  "CertifyX509Response_enc x =
     enc_sized 2 (CertifyX509Response_addedToCertificate x) @
     enc_sized 2 (CertifyX509Response_tbsDigest x) @
     opt_enc (\<lambda>u. enc16 (TPMU_SIGNATURE_GetUnionSelector u)) (CertifyX509Response_signature x) @
     opt_enc TPMU_SIGNATURE_enc (CertifyX509Response_signature x)"

definition CertifyX509Response_valid :: "CertifyX509Response \<Rightarrow> bool" where
  "CertifyX509Response_valid x \<longleftrightarrow>
     sized_ok 2 (CertifyX509Response_addedToCertificate x) \<and>
     sized_ok 2 (CertifyX509Response_tbsDigest x) \<and>
     opt_ok TPMU_SIGNATURE_valid (CertifyX509Response_signature x)"

lemma CertifyX509Response_writes [writes_intros]:
  "CertifyX509Response_valid x \<Longrightarrow> writes (CertifyX509Response_toTpm x) (CertifyX509Response_enc x)"
  unfolding CertifyX509Response_toTpm_def CertifyX509Response_enc_def
  by (intro writes_intros; simp add: CertifyX509Response_valid_def opt_ok_iff)

lemma CertifyX509Response_reads:
  "CertifyX509Response_valid x \<Longrightarrow> reads (CertifyX509Response_initFromTpm CertifyX509Response_default) x (CertifyX509Response_enc x)"
  by (simp only: CertifyX509Response_initFromTpm_def CertifyX509Response_enc_def CertifyX509Response_default_def
        CertifyX509Response.select_convs CertifyX509Response.update_convs;
      intro reads_intros; (rule CertifyX509Response.equality)?; simp add: CertifyX509Response_valid_def opt_ok_iff)

interpretation CertifyX509Response_codec:
  tpm_codec CertifyX509Response_toTpm CertifyX509Response_initFromTpm CertifyX509Response_default
    CertifyX509Response_enc CertifyX509Response_valid
  by unfold_locales (erule CertifyX509Response_writes CertifyX509Response_reads | simp add: CertifyX509Response_enc_def)+

definition CertifyX509Response_resp :: "(TPM_HANDLE, CertifyX509Response) RespStructure" where
  "CertifyX509Response_resp = \<lparr>resp_default = CertifyX509Response_default, resp_initFromTpm = CertifyX509Response_initFromTpm,
     resp_numHandles = 0, resp_getHandle = (\<lambda>_. TPM_HANDLE_default),
     resp_setHandle = (\<lambda>_ self. self), resp_sessEncInfo = \<lparr>sizeLen = 2, valLen = 1\<rparr>\<rparr>"

subsection \<open>TPM2_Commit_REQUEST\<close>

text \<open>TPM2_Commit() performs the first part of an ECC anonymous signing operation.\<close>

record TPM2_Commit_REQUEST =
  TPM2_Commit_REQUEST_signHandle :: "TPM_HANDLE"
  TPM2_Commit_REQUEST_P1 :: "TPMS_ECC_POINT"
  TPM2_Commit_REQUEST_s2 :: "ByteVec"
  TPM2_Commit_REQUEST_y2 :: "ByteVec"

definition TPM2_Commit_REQUEST_default :: TPM2_Commit_REQUEST where
  "TPM2_Commit_REQUEST_default = \<lparr>TPM2_Commit_REQUEST_signHandle = TPM_HANDLE_default, TPM2_Commit_REQUEST_P1 = TPMS_ECC_POINT_default, TPM2_Commit_REQUEST_s2 = [], TPM2_Commit_REQUEST_y2 = []\<rparr>"

definition TPM2_Commit_REQUEST_toTpm :: "TPM2_Commit_REQUEST \<Rightarrow> unit tpm" where
  "TPM2_Commit_REQUEST_toTpm self =
     wseq [writeSizedObj TPMS_ECC_POINT_toTpm (TPM2_Commit_REQUEST_P1 self),
       writeSizedByteBuf (TPM2_Commit_REQUEST_s2 self) 2,
       writeSizedByteBuf (TPM2_Commit_REQUEST_y2 self) 2]"

definition TPM2_Commit_REQUEST_initFromTpm :: "TPM2_Commit_REQUEST \<Rightarrow> TPM2_Commit_REQUEST tpm" where
  "TPM2_Commit_REQUEST_initFromTpm self =
     sbind (readSizedObj TPMS_ECC_POINT_initFromTpm (TPM2_Commit_REQUEST_P1 self)) (\<lambda>P1.
     sbind (readSizedByteBuf 2) (\<lambda>s2.
     sbind (readSizedByteBuf 2) (\<lambda>y2.
     ret (self\<lparr>TPM2_Commit_REQUEST_P1 := P1, TPM2_Commit_REQUEST_s2 := s2, TPM2_Commit_REQUEST_y2 := y2\<rparr>))))"

definition TPM2_Commit_REQUEST_enc :: "TPM2_Commit_REQUEST \<Rightarrow> ByteVec" where
  "TPM2_Commit_REQUEST_enc x =
     enc_obj (TPMS_ECC_POINT_enc (TPM2_Commit_REQUEST_P1 x)) @
     enc_sized 2 (TPM2_Commit_REQUEST_s2 x) @
     enc_sized 2 (TPM2_Commit_REQUEST_y2 x)"

definition TPM2_Commit_REQUEST_valid :: "TPM2_Commit_REQUEST \<Rightarrow> bool" where
  "TPM2_Commit_REQUEST_valid x \<longleftrightarrow>
     sized_obj_ok TPMS_ECC_POINT_default TPMS_ECC_POINT_enc TPMS_ECC_POINT_valid (TPM2_Commit_REQUEST_P1 x) \<and>
     sized_ok 2 (TPM2_Commit_REQUEST_s2 x) \<and>
     sized_ok 2 (TPM2_Commit_REQUEST_y2 x) \<and>
     TPM2_Commit_REQUEST_signHandle x = TPM_HANDLE_default"

lemma TPM2_Commit_REQUEST_writes [writes_intros]:
  "TPM2_Commit_REQUEST_valid x \<Longrightarrow> writes (TPM2_Commit_REQUEST_toTpm x) (TPM2_Commit_REQUEST_enc x)"
  unfolding TPM2_Commit_REQUEST_toTpm_def TPM2_Commit_REQUEST_enc_def
  by (intro writes_intros; simp add: TPM2_Commit_REQUEST_valid_def opt_ok_iff)

lemma TPM2_Commit_REQUEST_reads:
  "TPM2_Commit_REQUEST_valid x \<Longrightarrow> reads (TPM2_Commit_REQUEST_initFromTpm TPM2_Commit_REQUEST_default) x (TPM2_Commit_REQUEST_enc x)"
  by (simp only: TPM2_Commit_REQUEST_initFromTpm_def TPM2_Commit_REQUEST_enc_def TPM2_Commit_REQUEST_default_def
        TPM2_Commit_REQUEST.select_convs TPM2_Commit_REQUEST.update_convs;
      intro reads_intros; (rule TPM2_Commit_REQUEST.equality)?; simp add: TPM2_Commit_REQUEST_valid_def opt_ok_iff)

interpretation TPM2_Commit_REQUEST_codec:
  tpm_codec TPM2_Commit_REQUEST_toTpm TPM2_Commit_REQUEST_initFromTpm TPM2_Commit_REQUEST_default
    TPM2_Commit_REQUEST_enc TPM2_Commit_REQUEST_valid
  by unfold_locales (erule TPM2_Commit_REQUEST_writes TPM2_Commit_REQUEST_reads | simp add: TPM2_Commit_REQUEST_enc_def)+

definition TPM2_Commit_REQUEST_req :: "TPM2_Commit_REQUEST \<Rightarrow> TPM_HANDLE ReqStructure" where
  "TPM2_Commit_REQUEST_req self =
     \<lparr>req_toTpm = TPM2_Commit_REQUEST_toTpm self, req_numHandles = 1,
     req_numAuthHandles = 1, req_getHandles = [TPM2_Commit_REQUEST_signHandle self], req_sessEncInfo = \<lparr>sizeLen = 2, valLen = 1\<rparr>\<rparr>"

subsection \<open>CommitResponse\<close>

text \<open>TPM2_Commit() performs the first part of an ECC anonymous signing operation.\<close>

record CommitResponse =
  CommitResponse_K :: "TPMS_ECC_POINT"
  CommitResponse_L :: "TPMS_ECC_POINT"
  CommitResponse_E :: "TPMS_ECC_POINT"
  CommitResponse_counter :: "UINT16"

definition CommitResponse_default :: CommitResponse where
  "CommitResponse_default = \<lparr>CommitResponse_K = TPMS_ECC_POINT_default, CommitResponse_L = TPMS_ECC_POINT_default, CommitResponse_E = TPMS_ECC_POINT_default, CommitResponse_counter = 0\<rparr>"

definition CommitResponse_toTpm :: "CommitResponse \<Rightarrow> unit tpm" where
  "CommitResponse_toTpm self =
     wseq [writeSizedObj TPMS_ECC_POINT_toTpm (CommitResponse_K self),
       writeSizedObj TPMS_ECC_POINT_toTpm (CommitResponse_L self),
       writeSizedObj TPMS_ECC_POINT_toTpm (CommitResponse_E self),
       writeShort (CommitResponse_counter self)]"

definition CommitResponse_initFromTpm :: "CommitResponse \<Rightarrow> CommitResponse tpm" where
  "CommitResponse_initFromTpm self =
     sbind (readSizedObj TPMS_ECC_POINT_initFromTpm (CommitResponse_K self)) (\<lambda>K.
     sbind (readSizedObj TPMS_ECC_POINT_initFromTpm (CommitResponse_L self)) (\<lambda>L.
     sbind (readSizedObj TPMS_ECC_POINT_initFromTpm (CommitResponse_E self)) (\<lambda>E.
     sbind readShort (\<lambda>counter.
     ret (self\<lparr>CommitResponse_K := K, CommitResponse_L := L, CommitResponse_E := E, CommitResponse_counter := counter\<rparr>)))))"

definition CommitResponse_enc :: "CommitResponse \<Rightarrow> ByteVec" where
  "CommitResponse_enc x =
     enc_obj (TPMS_ECC_POINT_enc (CommitResponse_K x)) @
     enc_obj (TPMS_ECC_POINT_enc (CommitResponse_L x)) @
     enc_obj (TPMS_ECC_POINT_enc (CommitResponse_E x)) @
     enc16 (CommitResponse_counter x)"

definition CommitResponse_valid :: "CommitResponse \<Rightarrow> bool" where
  "CommitResponse_valid x \<longleftrightarrow>
     sized_obj_ok TPMS_ECC_POINT_default TPMS_ECC_POINT_enc TPMS_ECC_POINT_valid (CommitResponse_K x) \<and>
     sized_obj_ok TPMS_ECC_POINT_default TPMS_ECC_POINT_enc TPMS_ECC_POINT_valid (CommitResponse_L x) \<and>
     sized_obj_ok TPMS_ECC_POINT_default TPMS_ECC_POINT_enc TPMS_ECC_POINT_valid (CommitResponse_E x)"

lemma CommitResponse_writes [writes_intros]:
  "CommitResponse_valid x \<Longrightarrow> writes (CommitResponse_toTpm x) (CommitResponse_enc x)"
  unfolding CommitResponse_toTpm_def CommitResponse_enc_def
  by (intro writes_intros; simp add: CommitResponse_valid_def opt_ok_iff)

lemma CommitResponse_reads:
  "CommitResponse_valid x \<Longrightarrow> reads (CommitResponse_initFromTpm CommitResponse_default) x (CommitResponse_enc x)"
  by (simp only: CommitResponse_initFromTpm_def CommitResponse_enc_def CommitResponse_default_def
        CommitResponse.select_convs CommitResponse.update_convs;
      intro reads_intros; (rule CommitResponse.equality)?; simp add: CommitResponse_valid_def opt_ok_iff)

interpretation CommitResponse_codec:
  tpm_codec CommitResponse_toTpm CommitResponse_initFromTpm CommitResponse_default
    CommitResponse_enc CommitResponse_valid
  by unfold_locales (erule CommitResponse_writes CommitResponse_reads | simp add: CommitResponse_enc_def)+

definition CommitResponse_resp :: "(TPM_HANDLE, CommitResponse) RespStructure" where
  "CommitResponse_resp = \<lparr>resp_default = CommitResponse_default, resp_initFromTpm = CommitResponse_initFromTpm,
     resp_numHandles = 0, resp_getHandle = (\<lambda>_. TPM_HANDLE_default),
     resp_setHandle = (\<lambda>_ self. self), resp_sessEncInfo = \<lparr>sizeLen = 2, valLen = 1\<rparr>\<rparr>"

subsection \<open>TPM2_EC_Ephemeral_REQUEST\<close>

text \<open>TPM2_EC_Ephemeral() creates an ephemeral key for use in a two-phase key exchange protocol.\<close>

record TPM2_EC_Ephemeral_REQUEST =
  TPM2_EC_Ephemeral_REQUEST_curveID :: "TPM_ECC_CURVE"

definition TPM2_EC_Ephemeral_REQUEST_default :: TPM2_EC_Ephemeral_REQUEST where
  "TPM2_EC_Ephemeral_REQUEST_default = \<lparr>TPM2_EC_Ephemeral_REQUEST_curveID = 0\<rparr>"

definition TPM2_EC_Ephemeral_REQUEST_toTpm :: "TPM2_EC_Ephemeral_REQUEST \<Rightarrow> unit tpm" where
  "TPM2_EC_Ephemeral_REQUEST_toTpm self =
     wseq [writeShort (TPM2_EC_Ephemeral_REQUEST_curveID self)]"

definition TPM2_EC_Ephemeral_REQUEST_initFromTpm :: "TPM2_EC_Ephemeral_REQUEST \<Rightarrow> TPM2_EC_Ephemeral_REQUEST tpm" where
  "TPM2_EC_Ephemeral_REQUEST_initFromTpm self =
     sbind readShort (\<lambda>curveID.
     ret (self\<lparr>TPM2_EC_Ephemeral_REQUEST_curveID := curveID\<rparr>))"

definition TPM2_EC_Ephemeral_REQUEST_enc :: "TPM2_EC_Ephemeral_REQUEST \<Rightarrow> ByteVec" where
  "TPM2_EC_Ephemeral_REQUEST_enc x =
     enc16 (TPM2_EC_Ephemeral_REQUEST_curveID x)"

definition TPM2_EC_Ephemeral_REQUEST_valid :: "TPM2_EC_Ephemeral_REQUEST \<Rightarrow> bool" where
  "TPM2_EC_Ephemeral_REQUEST_valid x \<longleftrightarrow>
     True"

lemma TPM2_EC_Ephemeral_REQUEST_writes [writes_intros]:
  "TPM2_EC_Ephemeral_REQUEST_valid x \<Longrightarrow> writes (TPM2_EC_Ephemeral_REQUEST_toTpm x) (TPM2_EC_Ephemeral_REQUEST_enc x)"
  unfolding TPM2_EC_Ephemeral_REQUEST_toTpm_def TPM2_EC_Ephemeral_REQUEST_enc_def
  by (intro writes_intros; simp add: TPM2_EC_Ephemeral_REQUEST_valid_def opt_ok_iff)

lemma TPM2_EC_Ephemeral_REQUEST_reads:
  "TPM2_EC_Ephemeral_REQUEST_valid x \<Longrightarrow> reads (TPM2_EC_Ephemeral_REQUEST_initFromTpm TPM2_EC_Ephemeral_REQUEST_default) x (TPM2_EC_Ephemeral_REQUEST_enc x)"
  by (simp only: TPM2_EC_Ephemeral_REQUEST_initFromTpm_def TPM2_EC_Ephemeral_REQUEST_enc_def TPM2_EC_Ephemeral_REQUEST_default_def
        TPM2_EC_Ephemeral_REQUEST.select_convs TPM2_EC_Ephemeral_REQUEST.update_convs;
      intro reads_intros; (rule TPM2_EC_Ephemeral_REQUEST.equality)?; simp add: TPM2_EC_Ephemeral_REQUEST_valid_def opt_ok_iff)

interpretation TPM2_EC_Ephemeral_REQUEST_codec:
  tpm_codec TPM2_EC_Ephemeral_REQUEST_toTpm TPM2_EC_Ephemeral_REQUEST_initFromTpm TPM2_EC_Ephemeral_REQUEST_default
    TPM2_EC_Ephemeral_REQUEST_enc TPM2_EC_Ephemeral_REQUEST_valid
  by unfold_locales (erule TPM2_EC_Ephemeral_REQUEST_writes TPM2_EC_Ephemeral_REQUEST_reads | simp add: TPM2_EC_Ephemeral_REQUEST_enc_def)+

definition TPM2_EC_Ephemeral_REQUEST_req :: "TPM2_EC_Ephemeral_REQUEST \<Rightarrow> TPM_HANDLE ReqStructure" where
  "TPM2_EC_Ephemeral_REQUEST_req self =
     \<lparr>req_toTpm = TPM2_EC_Ephemeral_REQUEST_toTpm self, req_numHandles = 0,
     req_numAuthHandles = 0, req_getHandles = [], req_sessEncInfo = no_sessEncInfo\<rparr>"

subsection \<open>EC_EphemeralResponse\<close>

text \<open>TPM2_EC_Ephemeral() creates an ephemeral key for use in a two-phase key exchange protocol.\<close>

record EC_EphemeralResponse =
  EC_EphemeralResponse_Q :: "TPMS_ECC_POINT"
  EC_EphemeralResponse_counter :: "UINT16"

definition EC_EphemeralResponse_default :: EC_EphemeralResponse where
  "EC_EphemeralResponse_default = \<lparr>EC_EphemeralResponse_Q = TPMS_ECC_POINT_default, EC_EphemeralResponse_counter = 0\<rparr>"

definition EC_EphemeralResponse_toTpm :: "EC_EphemeralResponse \<Rightarrow> unit tpm" where
  "EC_EphemeralResponse_toTpm self =
     wseq [writeSizedObj TPMS_ECC_POINT_toTpm (EC_EphemeralResponse_Q self),
       writeShort (EC_EphemeralResponse_counter self)]"

definition EC_EphemeralResponse_initFromTpm :: "EC_EphemeralResponse \<Rightarrow> EC_EphemeralResponse tpm" where
  "EC_EphemeralResponse_initFromTpm self =
     sbind (readSizedObj TPMS_ECC_POINT_initFromTpm (EC_EphemeralResponse_Q self)) (\<lambda>Q.
     sbind readShort (\<lambda>counter.
     ret (self\<lparr>EC_EphemeralResponse_Q := Q, EC_EphemeralResponse_counter := counter\<rparr>)))"

definition EC_EphemeralResponse_enc :: "EC_EphemeralResponse \<Rightarrow> ByteVec" where
  "EC_EphemeralResponse_enc x =
     enc_obj (TPMS_ECC_POINT_enc (EC_EphemeralResponse_Q x)) @
     enc16 (EC_EphemeralResponse_counter x)"

definition EC_EphemeralResponse_valid :: "EC_EphemeralResponse \<Rightarrow> bool" where
  "EC_EphemeralResponse_valid x \<longleftrightarrow>
     sized_obj_ok TPMS_ECC_POINT_default TPMS_ECC_POINT_enc TPMS_ECC_POINT_valid (EC_EphemeralResponse_Q x)"

lemma EC_EphemeralResponse_writes [writes_intros]:
  "EC_EphemeralResponse_valid x \<Longrightarrow> writes (EC_EphemeralResponse_toTpm x) (EC_EphemeralResponse_enc x)"
  unfolding EC_EphemeralResponse_toTpm_def EC_EphemeralResponse_enc_def
  by (intro writes_intros; simp add: EC_EphemeralResponse_valid_def opt_ok_iff)

lemma EC_EphemeralResponse_reads:
  "EC_EphemeralResponse_valid x \<Longrightarrow> reads (EC_EphemeralResponse_initFromTpm EC_EphemeralResponse_default) x (EC_EphemeralResponse_enc x)"
  by (simp only: EC_EphemeralResponse_initFromTpm_def EC_EphemeralResponse_enc_def EC_EphemeralResponse_default_def
        EC_EphemeralResponse.select_convs EC_EphemeralResponse.update_convs;
      intro reads_intros; (rule EC_EphemeralResponse.equality)?; simp add: EC_EphemeralResponse_valid_def opt_ok_iff)

interpretation EC_EphemeralResponse_codec:
  tpm_codec EC_EphemeralResponse_toTpm EC_EphemeralResponse_initFromTpm EC_EphemeralResponse_default
    EC_EphemeralResponse_enc EC_EphemeralResponse_valid
  by unfold_locales (erule EC_EphemeralResponse_writes EC_EphemeralResponse_reads | simp add: EC_EphemeralResponse_enc_def)+

definition EC_EphemeralResponse_resp :: "(TPM_HANDLE, EC_EphemeralResponse) RespStructure" where
  "EC_EphemeralResponse_resp = \<lparr>resp_default = EC_EphemeralResponse_default, resp_initFromTpm = EC_EphemeralResponse_initFromTpm,
     resp_numHandles = 0, resp_getHandle = (\<lambda>_. TPM_HANDLE_default),
     resp_setHandle = (\<lambda>_ self. self), resp_sessEncInfo = \<lparr>sizeLen = 2, valLen = 1\<rparr>\<rparr>"

subsection \<open>TPM2_VerifySignature_REQUEST\<close>

text \<open>This command uses loaded keys to validate a signature on a message with the message digest passed to the TPM.\<close>

record TPM2_VerifySignature_REQUEST =
  TPM2_VerifySignature_REQUEST_keyHandle :: "TPM_HANDLE"
  TPM2_VerifySignature_REQUEST_digest :: "ByteVec"
  TPM2_VerifySignature_REQUEST_signature :: "TPMU_SIGNATURE option"

definition TPM2_VerifySignature_REQUEST_default :: TPM2_VerifySignature_REQUEST where
  "TPM2_VerifySignature_REQUEST_default = \<lparr>TPM2_VerifySignature_REQUEST_keyHandle = TPM_HANDLE_default, TPM2_VerifySignature_REQUEST_digest = [], TPM2_VerifySignature_REQUEST_signature = None\<rparr>"

definition TPM2_VerifySignature_REQUEST_toTpm :: "TPM2_VerifySignature_REQUEST \<Rightarrow> unit tpm" where
  "TPM2_VerifySignature_REQUEST_toTpm self =
     wseq [writeSizedByteBuf (TPM2_VerifySignature_REQUEST_digest self) 2,
       deref (TPM2_VerifySignature_REQUEST_signature self) (\<lambda>u. writeShort (TPMU_SIGNATURE_GetUnionSelector u)),
       deref (TPM2_VerifySignature_REQUEST_signature self) TPMU_SIGNATURE_toTpm]"

definition TPM2_VerifySignature_REQUEST_initFromTpm :: "TPM2_VerifySignature_REQUEST \<Rightarrow> TPM2_VerifySignature_REQUEST tpm" where
  "TPM2_VerifySignature_REQUEST_initFromTpm self =
     sbind (readSizedByteBuf 2) (\<lambda>digest.
     sbind readShort (\<lambda>signatureSigAlg.
     bindO (UnionFactory_Create_TPMU_SIGNATURE signatureSigAlg) (\<lambda>signature.
     sbind (deref signature TPMU_SIGNATURE_initFromTpm) (\<lambda>signature.
     ret (self\<lparr>TPM2_VerifySignature_REQUEST_digest := digest, TPM2_VerifySignature_REQUEST_signature := Some signature\<rparr>)))))"

definition TPM2_VerifySignature_REQUEST_enc :: "TPM2_VerifySignature_REQUEST \<Rightarrow> ByteVec" where
  "TPM2_VerifySignature_REQUEST_enc x =
     enc_sized 2 (TPM2_VerifySignature_REQUEST_digest x) @
     opt_enc (\<lambda>u. enc16 (TPMU_SIGNATURE_GetUnionSelector u)) (TPM2_VerifySignature_REQUEST_signature x) @
     opt_enc TPMU_SIGNATURE_enc (TPM2_VerifySignature_REQUEST_signature x)"

definition TPM2_VerifySignature_REQUEST_valid :: "TPM2_VerifySignature_REQUEST \<Rightarrow> bool" where
  "TPM2_VerifySignature_REQUEST_valid x \<longleftrightarrow>
     sized_ok 2 (TPM2_VerifySignature_REQUEST_digest x) \<and>
     opt_ok TPMU_SIGNATURE_valid (TPM2_VerifySignature_REQUEST_signature x) \<and>
     TPM2_VerifySignature_REQUEST_keyHandle x = TPM_HANDLE_default"

lemma TPM2_VerifySignature_REQUEST_writes [writes_intros]:
  "TPM2_VerifySignature_REQUEST_valid x \<Longrightarrow> writes (TPM2_VerifySignature_REQUEST_toTpm x) (TPM2_VerifySignature_REQUEST_enc x)"
  unfolding TPM2_VerifySignature_REQUEST_toTpm_def TPM2_VerifySignature_REQUEST_enc_def
  by (intro writes_intros; simp add: TPM2_VerifySignature_REQUEST_valid_def opt_ok_iff)

lemma TPM2_VerifySignature_REQUEST_reads:
  "TPM2_VerifySignature_REQUEST_valid x \<Longrightarrow> reads (TPM2_VerifySignature_REQUEST_initFromTpm TPM2_VerifySignature_REQUEST_default) x (TPM2_VerifySignature_REQUEST_enc x)"
  by (simp only: TPM2_VerifySignature_REQUEST_initFromTpm_def TPM2_VerifySignature_REQUEST_enc_def TPM2_VerifySignature_REQUEST_default_def
        TPM2_VerifySignature_REQUEST.select_convs TPM2_VerifySignature_REQUEST.update_convs;
      intro reads_intros; (rule TPM2_VerifySignature_REQUEST.equality)?; simp add: TPM2_VerifySignature_REQUEST_valid_def opt_ok_iff)

interpretation TPM2_VerifySignature_REQUEST_codec:
  tpm_codec TPM2_VerifySignature_REQUEST_toTpm TPM2_VerifySignature_REQUEST_initFromTpm TPM2_VerifySignature_REQUEST_default
    TPM2_VerifySignature_REQUEST_enc TPM2_VerifySignature_REQUEST_valid
  by unfold_locales (erule TPM2_VerifySignature_REQUEST_writes TPM2_VerifySignature_REQUEST_reads | simp add: TPM2_VerifySignature_REQUEST_enc_def)+

definition TPM2_VerifySignature_REQUEST_req :: "TPM2_VerifySignature_REQUEST \<Rightarrow> TPM_HANDLE ReqStructure" where
  "TPM2_VerifySignature_REQUEST_req self =
     \<lparr>req_toTpm = TPM2_VerifySignature_REQUEST_toTpm self, req_numHandles = 1,
     req_numAuthHandles = 0, req_getHandles = [TPM2_VerifySignature_REQUEST_keyHandle self], req_sessEncInfo = \<lparr>sizeLen = 2, valLen = 1\<rparr>\<rparr>"

subsection \<open>VerifySignatureResponse\<close>

text \<open>This command uses loaded keys to validate a signature on a message with the message digest passed to the TPM.\<close>

record VerifySignatureResponse =
  VerifySignatureResponse_validation :: "TPMT_TK_VERIFIED"

definition VerifySignatureResponse_default :: VerifySignatureResponse where
  "VerifySignatureResponse_default = \<lparr>VerifySignatureResponse_validation = TPMT_TK_VERIFIED_default\<rparr>"

definition VerifySignatureResponse_toTpm :: "VerifySignatureResponse \<Rightarrow> unit tpm" where
  "VerifySignatureResponse_toTpm self =
     wseq [TPMT_TK_VERIFIED_toTpm (VerifySignatureResponse_validation self)]"

definition VerifySignatureResponse_initFromTpm :: "VerifySignatureResponse \<Rightarrow> VerifySignatureResponse tpm" where
  "VerifySignatureResponse_initFromTpm self =
     sbind (TPMT_TK_VERIFIED_initFromTpm (VerifySignatureResponse_validation self)) (\<lambda>validation.
     ret (self\<lparr>VerifySignatureResponse_validation := validation\<rparr>))"

definition VerifySignatureResponse_enc :: "VerifySignatureResponse \<Rightarrow> ByteVec" where
  "VerifySignatureResponse_enc x =
     TPMT_TK_VERIFIED_enc (VerifySignatureResponse_validation x)"

definition VerifySignatureResponse_valid :: "VerifySignatureResponse \<Rightarrow> bool" where
  "VerifySignatureResponse_valid x \<longleftrightarrow>
     TPMT_TK_VERIFIED_valid (VerifySignatureResponse_validation x)"

lemma VerifySignatureResponse_writes [writes_intros]:
  "VerifySignatureResponse_valid x \<Longrightarrow> writes (VerifySignatureResponse_toTpm x) (VerifySignatureResponse_enc x)"
  unfolding VerifySignatureResponse_toTpm_def VerifySignatureResponse_enc_def
  by (intro writes_intros; simp add: VerifySignatureResponse_valid_def opt_ok_iff)

lemma VerifySignatureResponse_reads:
  "VerifySignatureResponse_valid x \<Longrightarrow> reads (VerifySignatureResponse_initFromTpm VerifySignatureResponse_default) x (VerifySignatureResponse_enc x)"
  by (simp only: VerifySignatureResponse_initFromTpm_def VerifySignatureResponse_enc_def VerifySignatureResponse_default_def
        VerifySignatureResponse.select_convs VerifySignatureResponse.update_convs;
      intro reads_intros; (rule VerifySignatureResponse.equality)?; simp add: VerifySignatureResponse_valid_def opt_ok_iff)

interpretation VerifySignatureResponse_codec:
  tpm_codec VerifySignatureResponse_toTpm VerifySignatureResponse_initFromTpm VerifySignatureResponse_default
    VerifySignatureResponse_enc VerifySignatureResponse_valid
  by unfold_locales (erule VerifySignatureResponse_writes VerifySignatureResponse_reads | simp add: VerifySignatureResponse_enc_def)+

definition VerifySignatureResponse_resp :: "(TPM_HANDLE, VerifySignatureResponse) RespStructure" where
  "VerifySignatureResponse_resp = \<lparr>resp_default = VerifySignatureResponse_default, resp_initFromTpm = VerifySignatureResponse_initFromTpm,
     resp_numHandles = 0, resp_getHandle = (\<lambda>_. TPM_HANDLE_default),
     resp_setHandle = (\<lambda>_ self. self), resp_sessEncInfo = no_sessEncInfo\<rparr>"

subsection \<open>TPM2_Sign_REQUEST\<close>

text \<open>This command causes the TPM to sign an externally provided hash with the specified symmetric or asymmetric signing key.\<close>

record TPM2_Sign_REQUEST =
  TPM2_Sign_REQUEST_keyHandle :: "TPM_HANDLE"
  TPM2_Sign_REQUEST_digest :: "ByteVec"
  TPM2_Sign_REQUEST_inScheme :: "TPMU_SIG_SCHEME option"
  TPM2_Sign_REQUEST_validation :: "TPMT_TK_HASHCHECK"

definition TPM2_Sign_REQUEST_default :: TPM2_Sign_REQUEST where
  "TPM2_Sign_REQUEST_default = \<lparr>TPM2_Sign_REQUEST_keyHandle = TPM_HANDLE_default, TPM2_Sign_REQUEST_digest = [], TPM2_Sign_REQUEST_inScheme = None, TPM2_Sign_REQUEST_validation = TPMT_TK_HASHCHECK_default\<rparr>"

definition TPM2_Sign_REQUEST_toTpm :: "TPM2_Sign_REQUEST \<Rightarrow> unit tpm" where
  "TPM2_Sign_REQUEST_toTpm self =
     wseq [writeSizedByteBuf (TPM2_Sign_REQUEST_digest self) 2,
       deref (TPM2_Sign_REQUEST_inScheme self) (\<lambda>u. writeShort (TPMU_SIG_SCHEME_GetUnionSelector u)),
       deref (TPM2_Sign_REQUEST_inScheme self) TPMU_SIG_SCHEME_toTpm,
       TPMT_TK_HASHCHECK_toTpm (TPM2_Sign_REQUEST_validation self)]"

definition TPM2_Sign_REQUEST_initFromTpm :: "TPM2_Sign_REQUEST \<Rightarrow> TPM2_Sign_REQUEST tpm" where
  "TPM2_Sign_REQUEST_initFromTpm self =
     sbind (readSizedByteBuf 2) (\<lambda>digest.
     sbind readShort (\<lambda>inSchemeScheme.
     bindO (UnionFactory_Create_TPMU_SIG_SCHEME inSchemeScheme) (\<lambda>inScheme.
     sbind (deref inScheme TPMU_SIG_SCHEME_initFromTpm) (\<lambda>inScheme.
     sbind (TPMT_TK_HASHCHECK_initFromTpm (TPM2_Sign_REQUEST_validation self)) (\<lambda>validation.
     ret (self\<lparr>TPM2_Sign_REQUEST_digest := digest, TPM2_Sign_REQUEST_inScheme := Some inScheme, TPM2_Sign_REQUEST_validation := validation\<rparr>))))))"

definition TPM2_Sign_REQUEST_enc :: "TPM2_Sign_REQUEST \<Rightarrow> ByteVec" where
  "TPM2_Sign_REQUEST_enc x =
     enc_sized 2 (TPM2_Sign_REQUEST_digest x) @
     opt_enc (\<lambda>u. enc16 (TPMU_SIG_SCHEME_GetUnionSelector u)) (TPM2_Sign_REQUEST_inScheme x) @
     opt_enc TPMU_SIG_SCHEME_enc (TPM2_Sign_REQUEST_inScheme x) @
     TPMT_TK_HASHCHECK_enc (TPM2_Sign_REQUEST_validation x)"

definition TPM2_Sign_REQUEST_valid :: "TPM2_Sign_REQUEST \<Rightarrow> bool" where
  "TPM2_Sign_REQUEST_valid x \<longleftrightarrow>
     sized_ok 2 (TPM2_Sign_REQUEST_digest x) \<and>
     opt_ok TPMU_SIG_SCHEME_valid (TPM2_Sign_REQUEST_inScheme x) \<and>
     TPMT_TK_HASHCHECK_valid (TPM2_Sign_REQUEST_validation x) \<and>
     TPM2_Sign_REQUEST_keyHandle x = TPM_HANDLE_default"

lemma TPM2_Sign_REQUEST_writes [writes_intros]:
  "TPM2_Sign_REQUEST_valid x \<Longrightarrow> writes (TPM2_Sign_REQUEST_toTpm x) (TPM2_Sign_REQUEST_enc x)"
  unfolding TPM2_Sign_REQUEST_toTpm_def TPM2_Sign_REQUEST_enc_def
  by (intro writes_intros; simp add: TPM2_Sign_REQUEST_valid_def opt_ok_iff)

lemma TPM2_Sign_REQUEST_reads:
  "TPM2_Sign_REQUEST_valid x \<Longrightarrow> reads (TPM2_Sign_REQUEST_initFromTpm TPM2_Sign_REQUEST_default) x (TPM2_Sign_REQUEST_enc x)"
  by (simp only: TPM2_Sign_REQUEST_initFromTpm_def TPM2_Sign_REQUEST_enc_def TPM2_Sign_REQUEST_default_def
        TPM2_Sign_REQUEST.select_convs TPM2_Sign_REQUEST.update_convs;
      intro reads_intros; (rule TPM2_Sign_REQUEST.equality)?; simp add: TPM2_Sign_REQUEST_valid_def opt_ok_iff)

interpretation TPM2_Sign_REQUEST_codec:
  tpm_codec TPM2_Sign_REQUEST_toTpm TPM2_Sign_REQUEST_initFromTpm TPM2_Sign_REQUEST_default
    TPM2_Sign_REQUEST_enc TPM2_Sign_REQUEST_valid
  by unfold_locales (erule TPM2_Sign_REQUEST_writes TPM2_Sign_REQUEST_reads | simp add: TPM2_Sign_REQUEST_enc_def)+

definition TPM2_Sign_REQUEST_req :: "TPM2_Sign_REQUEST \<Rightarrow> TPM_HANDLE ReqStructure" where
  "TPM2_Sign_REQUEST_req self =
     \<lparr>req_toTpm = TPM2_Sign_REQUEST_toTpm self, req_numHandles = 1,
     req_numAuthHandles = 1, req_getHandles = [TPM2_Sign_REQUEST_keyHandle self], req_sessEncInfo = \<lparr>sizeLen = 2, valLen = 1\<rparr>\<rparr>"

subsection \<open>SignResponse\<close>

text \<open>This command causes the TPM to sign an externally provided hash with the specified symmetric or asymmetric signing key.\<close>

record SignResponse =
  SignResponse_signature :: "TPMU_SIGNATURE option"

definition SignResponse_default :: SignResponse where
  "SignResponse_default = \<lparr>SignResponse_signature = None\<rparr>"

definition SignResponse_toTpm :: "SignResponse \<Rightarrow> unit tpm" where
  "SignResponse_toTpm self =
     (if SignResponse_signature self = None then ret ()
     else wseq [deref (SignResponse_signature self) (\<lambda>u. writeShort (TPMU_SIGNATURE_GetUnionSelector u)),
       deref (SignResponse_signature self) TPMU_SIGNATURE_toTpm])"

definition SignResponse_initFromTpm :: "SignResponse \<Rightarrow> SignResponse tpm" where
  "SignResponse_initFromTpm self =
     sbind readShort (\<lambda>signatureSigAlg.
     bindO (UnionFactory_Create_TPMU_SIGNATURE signatureSigAlg) (\<lambda>signature.
     sbind (deref signature TPMU_SIGNATURE_initFromTpm) (\<lambda>signature.
     ret (self\<lparr>SignResponse_signature := Some signature\<rparr>))))"

definition SignResponse_enc :: "SignResponse \<Rightarrow> ByteVec" where
  "SignResponse_enc x =
     (if SignResponse_signature x = None then []
     else opt_enc (\<lambda>u. enc16 (TPMU_SIGNATURE_GetUnionSelector u)) (SignResponse_signature x) @
       opt_enc TPMU_SIGNATURE_enc (SignResponse_signature x))"

definition SignResponse_valid :: "SignResponse \<Rightarrow> bool" where
  "SignResponse_valid x \<longleftrightarrow>
     opt_ok TPMU_SIGNATURE_valid (SignResponse_signature x)"

lemma SignResponse_null: "SignResponse_toTpm SignResponse_default = ret ()" "SignResponse_enc SignResponse_default = []"
  by (simp_all add: SignResponse_toTpm_def SignResponse_enc_def SignResponse_default_def)

lemma SignResponse_writes [writes_intros]:
  "SignResponse_valid x \<Longrightarrow> writes (SignResponse_toTpm x) (SignResponse_enc x)"
  by (auto simp: SignResponse_toTpm_def SignResponse_enc_def SignResponse_valid_def opt_ok_iff
      simp del: wseq.simps intro!: writes_intros)

lemma SignResponse_reads:
  "SignResponse_valid x \<Longrightarrow> reads (SignResponse_initFromTpm SignResponse_default) x (SignResponse_enc x)"
  by (simp only: SignResponse_initFromTpm_def SignResponse_enc_def SignResponse_default_def
        SignResponse.select_convs SignResponse.update_convs;
      intro reads_intros; (rule SignResponse.equality)?; simp add: SignResponse_valid_def opt_ok_iff)

interpretation SignResponse_codec:
  tpm_codec SignResponse_toTpm SignResponse_initFromTpm SignResponse_default
    SignResponse_enc SignResponse_valid
  by unfold_locales (simp_all add: SignResponse_writes SignResponse_reads SignResponse_null writes_ret)

definition SignResponse_resp :: "(TPM_HANDLE, SignResponse) RespStructure" where
  "SignResponse_resp = \<lparr>resp_default = SignResponse_default, resp_initFromTpm = SignResponse_initFromTpm,
     resp_numHandles = 0, resp_getHandle = (\<lambda>_. TPM_HANDLE_default),
     resp_setHandle = (\<lambda>_ self. self), resp_sessEncInfo = no_sessEncInfo\<rparr>"

subsection \<open>TPM2_SetCommandCodeAuditStatus_REQUEST\<close>

text \<open>This command may be used by the Privacy Administrator or platform to change the audit status of a command or to set the hash algorithm used for the ....\<close>

record TPM2_SetCommandCodeAuditStatus_REQUEST =
  TPM2_SetCommandCodeAuditStatus_REQUEST_auth :: "TPM_HANDLE"
  TPM2_SetCommandCodeAuditStatus_REQUEST_auditAlg :: "TPM_ALG_ID"
  TPM2_SetCommandCodeAuditStatus_REQUEST_setList :: "TPM_CC list"
  TPM2_SetCommandCodeAuditStatus_REQUEST_clearList :: "TPM_CC list"

definition TPM2_SetCommandCodeAuditStatus_REQUEST_default :: TPM2_SetCommandCodeAuditStatus_REQUEST where
  "TPM2_SetCommandCodeAuditStatus_REQUEST_default = \<lparr>TPM2_SetCommandCodeAuditStatus_REQUEST_auth = TPM_HANDLE_default, TPM2_SetCommandCodeAuditStatus_REQUEST_auditAlg = TPM_ALG_ID_NULL, TPM2_SetCommandCodeAuditStatus_REQUEST_setList = [], TPM2_SetCommandCodeAuditStatus_REQUEST_clearList = []\<rparr>"

definition TPM2_SetCommandCodeAuditStatus_REQUEST_toTpm :: "TPM2_SetCommandCodeAuditStatus_REQUEST \<Rightarrow> unit tpm" where
  "TPM2_SetCommandCodeAuditStatus_REQUEST_toTpm self =
     wseq [writeShort (TPM2_SetCommandCodeAuditStatus_REQUEST_auditAlg self),
       writeValArr (TPM2_SetCommandCodeAuditStatus_REQUEST_setList self) 4,
       writeValArr (TPM2_SetCommandCodeAuditStatus_REQUEST_clearList self) 4]"

definition TPM2_SetCommandCodeAuditStatus_REQUEST_initFromTpm :: "TPM2_SetCommandCodeAuditStatus_REQUEST \<Rightarrow> TPM2_SetCommandCodeAuditStatus_REQUEST tpm" where
  "TPM2_SetCommandCodeAuditStatus_REQUEST_initFromTpm self =
     sbind readShort (\<lambda>auditAlg.
     sbind (readValArr (TPM2_SetCommandCodeAuditStatus_REQUEST_setList self) 4) (\<lambda>setList.
     sbind (readValArr (TPM2_SetCommandCodeAuditStatus_REQUEST_clearList self) 4) (\<lambda>clearList.
     ret (self\<lparr>TPM2_SetCommandCodeAuditStatus_REQUEST_auditAlg := auditAlg, TPM2_SetCommandCodeAuditStatus_REQUEST_setList := setList, TPM2_SetCommandCodeAuditStatus_REQUEST_clearList := clearList\<rparr>))))"

definition TPM2_SetCommandCodeAuditStatus_REQUEST_enc :: "TPM2_SetCommandCodeAuditStatus_REQUEST \<Rightarrow> ByteVec" where
  "TPM2_SetCommandCodeAuditStatus_REQUEST_enc x =
     enc16 (TPM2_SetCommandCodeAuditStatus_REQUEST_auditAlg x) @
     enc_arr (enc_val 4) (TPM2_SetCommandCodeAuditStatus_REQUEST_setList x) @
     enc_arr (enc_val 4) (TPM2_SetCommandCodeAuditStatus_REQUEST_clearList x)"

definition TPM2_SetCommandCodeAuditStatus_REQUEST_valid :: "TPM2_SetCommandCodeAuditStatus_REQUEST \<Rightarrow> bool" where
  "TPM2_SetCommandCodeAuditStatus_REQUEST_valid x \<longleftrightarrow>
     length (TPM2_SetCommandCodeAuditStatus_REQUEST_setList x) < 2 ^ 32 \<and>
     length (TPM2_SetCommandCodeAuditStatus_REQUEST_clearList x) < 2 ^ 32 \<and>
     TPM2_SetCommandCodeAuditStatus_REQUEST_auth x = TPM_HANDLE_default"

lemma TPM2_SetCommandCodeAuditStatus_REQUEST_writes [writes_intros]:
  "TPM2_SetCommandCodeAuditStatus_REQUEST_valid x \<Longrightarrow> writes (TPM2_SetCommandCodeAuditStatus_REQUEST_toTpm x) (TPM2_SetCommandCodeAuditStatus_REQUEST_enc x)"
  unfolding TPM2_SetCommandCodeAuditStatus_REQUEST_toTpm_def TPM2_SetCommandCodeAuditStatus_REQUEST_enc_def
  by (intro writes_intros; simp add: TPM2_SetCommandCodeAuditStatus_REQUEST_valid_def opt_ok_iff)

lemma TPM2_SetCommandCodeAuditStatus_REQUEST_reads:
  "TPM2_SetCommandCodeAuditStatus_REQUEST_valid x \<Longrightarrow> reads (TPM2_SetCommandCodeAuditStatus_REQUEST_initFromTpm TPM2_SetCommandCodeAuditStatus_REQUEST_default) x (TPM2_SetCommandCodeAuditStatus_REQUEST_enc x)"
  by (simp only: TPM2_SetCommandCodeAuditStatus_REQUEST_initFromTpm_def TPM2_SetCommandCodeAuditStatus_REQUEST_enc_def TPM2_SetCommandCodeAuditStatus_REQUEST_default_def
        TPM2_SetCommandCodeAuditStatus_REQUEST.select_convs TPM2_SetCommandCodeAuditStatus_REQUEST.update_convs;
      intro reads_intros; (rule TPM2_SetCommandCodeAuditStatus_REQUEST.equality)?; simp add: TPM2_SetCommandCodeAuditStatus_REQUEST_valid_def opt_ok_iff)

interpretation TPM2_SetCommandCodeAuditStatus_REQUEST_codec:
  tpm_codec TPM2_SetCommandCodeAuditStatus_REQUEST_toTpm TPM2_SetCommandCodeAuditStatus_REQUEST_initFromTpm TPM2_SetCommandCodeAuditStatus_REQUEST_default
    TPM2_SetCommandCodeAuditStatus_REQUEST_enc TPM2_SetCommandCodeAuditStatus_REQUEST_valid
  by unfold_locales (erule TPM2_SetCommandCodeAuditStatus_REQUEST_writes TPM2_SetCommandCodeAuditStatus_REQUEST_reads | simp add: TPM2_SetCommandCodeAuditStatus_REQUEST_enc_def)+

definition TPM2_SetCommandCodeAuditStatus_REQUEST_req :: "TPM2_SetCommandCodeAuditStatus_REQUEST \<Rightarrow> TPM_HANDLE ReqStructure" where
  "TPM2_SetCommandCodeAuditStatus_REQUEST_req self =
     \<lparr>req_toTpm = TPM2_SetCommandCodeAuditStatus_REQUEST_toTpm self, req_numHandles = 1,
     req_numAuthHandles = 1, req_getHandles = [TPM2_SetCommandCodeAuditStatus_REQUEST_auth self], req_sessEncInfo = no_sessEncInfo\<rparr>"

subsection \<open>TPM2_PCR_Extend_REQUEST\<close>

text \<open>This command is used to cause an update to the indicated PCR. The digests parameter contains one or more tagged digest values identified by an ....\<close>

record TPM2_PCR_Extend_REQUEST =
  TPM2_PCR_Extend_REQUEST_pcrHandle :: "TPM_HANDLE"
  TPM2_PCR_Extend_REQUEST_digests :: "TPMT_HA list"

definition TPM2_PCR_Extend_REQUEST_default :: TPM2_PCR_Extend_REQUEST where
  "TPM2_PCR_Extend_REQUEST_default = \<lparr>TPM2_PCR_Extend_REQUEST_pcrHandle = TPM_HANDLE_default, TPM2_PCR_Extend_REQUEST_digests = []\<rparr>"

definition TPM2_PCR_Extend_REQUEST_toTpm :: "TPM2_PCR_Extend_REQUEST \<Rightarrow> unit tpm" where
  "TPM2_PCR_Extend_REQUEST_toTpm self =
     wseq [writeObjArr TPMT_HA_toTpm (TPM2_PCR_Extend_REQUEST_digests self)]"

definition TPM2_PCR_Extend_REQUEST_initFromTpm :: "TPM2_PCR_Extend_REQUEST \<Rightarrow> TPM2_PCR_Extend_REQUEST tpm" where
  "TPM2_PCR_Extend_REQUEST_initFromTpm self =
     sbind (readObjArr TPMT_HA_initFromTpm TPMT_HA_default (TPM2_PCR_Extend_REQUEST_digests self)) (\<lambda>digests.
     ret (self\<lparr>TPM2_PCR_Extend_REQUEST_digests := digests\<rparr>))"

definition TPM2_PCR_Extend_REQUEST_enc :: "TPM2_PCR_Extend_REQUEST \<Rightarrow> ByteVec" where
  "TPM2_PCR_Extend_REQUEST_enc x =
     enc_arr TPMT_HA_enc (TPM2_PCR_Extend_REQUEST_digests x)"

definition TPM2_PCR_Extend_REQUEST_valid :: "TPM2_PCR_Extend_REQUEST \<Rightarrow> bool" where
  "TPM2_PCR_Extend_REQUEST_valid x \<longleftrightarrow>
     arr_ok TPMT_HA_valid (TPM2_PCR_Extend_REQUEST_digests x) \<and>
     TPM2_PCR_Extend_REQUEST_pcrHandle x = TPM_HANDLE_default"

lemma TPM2_PCR_Extend_REQUEST_writes [writes_intros]:
  "TPM2_PCR_Extend_REQUEST_valid x \<Longrightarrow> writes (TPM2_PCR_Extend_REQUEST_toTpm x) (TPM2_PCR_Extend_REQUEST_enc x)"
  unfolding TPM2_PCR_Extend_REQUEST_toTpm_def TPM2_PCR_Extend_REQUEST_enc_def
  by (intro writes_intros; simp add: TPM2_PCR_Extend_REQUEST_valid_def opt_ok_iff)

lemma TPM2_PCR_Extend_REQUEST_reads:
  "TPM2_PCR_Extend_REQUEST_valid x \<Longrightarrow> reads (TPM2_PCR_Extend_REQUEST_initFromTpm TPM2_PCR_Extend_REQUEST_default) x (TPM2_PCR_Extend_REQUEST_enc x)"
  by (simp only: TPM2_PCR_Extend_REQUEST_initFromTpm_def TPM2_PCR_Extend_REQUEST_enc_def TPM2_PCR_Extend_REQUEST_default_def
        TPM2_PCR_Extend_REQUEST.select_convs TPM2_PCR_Extend_REQUEST.update_convs;
      intro reads_intros; (rule TPM2_PCR_Extend_REQUEST.equality)?; simp add: TPM2_PCR_Extend_REQUEST_valid_def opt_ok_iff)

interpretation TPM2_PCR_Extend_REQUEST_codec:
  tpm_codec TPM2_PCR_Extend_REQUEST_toTpm TPM2_PCR_Extend_REQUEST_initFromTpm TPM2_PCR_Extend_REQUEST_default
    TPM2_PCR_Extend_REQUEST_enc TPM2_PCR_Extend_REQUEST_valid
  by unfold_locales (erule TPM2_PCR_Extend_REQUEST_writes TPM2_PCR_Extend_REQUEST_reads | simp add: TPM2_PCR_Extend_REQUEST_enc_def)+

definition TPM2_PCR_Extend_REQUEST_req :: "TPM2_PCR_Extend_REQUEST \<Rightarrow> TPM_HANDLE ReqStructure" where
  "TPM2_PCR_Extend_REQUEST_req self =
     \<lparr>req_toTpm = TPM2_PCR_Extend_REQUEST_toTpm self, req_numHandles = 1,
     req_numAuthHandles = 1, req_getHandles = [TPM2_PCR_Extend_REQUEST_pcrHandle self], req_sessEncInfo = \<lparr>sizeLen = 4, valLen = 66\<rparr>\<rparr>"

subsection \<open>TPM2_PCR_Event_REQUEST\<close>

text \<open>This command is used to cause an update to the indicated PCR.\<close>

record TPM2_PCR_Event_REQUEST =
  TPM2_PCR_Event_REQUEST_pcrHandle :: "TPM_HANDLE"
  TPM2_PCR_Event_REQUEST_eventData :: "ByteVec"

definition TPM2_PCR_Event_REQUEST_default :: TPM2_PCR_Event_REQUEST where
  "TPM2_PCR_Event_REQUEST_default = \<lparr>TPM2_PCR_Event_REQUEST_pcrHandle = TPM_HANDLE_default, TPM2_PCR_Event_REQUEST_eventData = []\<rparr>"

definition TPM2_PCR_Event_REQUEST_toTpm :: "TPM2_PCR_Event_REQUEST \<Rightarrow> unit tpm" where
  "TPM2_PCR_Event_REQUEST_toTpm self =
     wseq [writeSizedByteBuf (TPM2_PCR_Event_REQUEST_eventData self) 2]"

definition TPM2_PCR_Event_REQUEST_initFromTpm :: "TPM2_PCR_Event_REQUEST \<Rightarrow> TPM2_PCR_Event_REQUEST tpm" where
  "TPM2_PCR_Event_REQUEST_initFromTpm self =
     sbind (readSizedByteBuf 2) (\<lambda>eventData.
     ret (self\<lparr>TPM2_PCR_Event_REQUEST_eventData := eventData\<rparr>))"

definition TPM2_PCR_Event_REQUEST_enc :: "TPM2_PCR_Event_REQUEST \<Rightarrow> ByteVec" where
  "TPM2_PCR_Event_REQUEST_enc x =
     enc_sized 2 (TPM2_PCR_Event_REQUEST_eventData x)"

definition TPM2_PCR_Event_REQUEST_valid :: "TPM2_PCR_Event_REQUEST \<Rightarrow> bool" where
  "TPM2_PCR_Event_REQUEST_valid x \<longleftrightarrow>
     sized_ok 2 (TPM2_PCR_Event_REQUEST_eventData x) \<and>
     TPM2_PCR_Event_REQUEST_pcrHandle x = TPM_HANDLE_default"

lemma TPM2_PCR_Event_REQUEST_writes [writes_intros]:
  "TPM2_PCR_Event_REQUEST_valid x \<Longrightarrow> writes (TPM2_PCR_Event_REQUEST_toTpm x) (TPM2_PCR_Event_REQUEST_enc x)"
  unfolding TPM2_PCR_Event_REQUEST_toTpm_def TPM2_PCR_Event_REQUEST_enc_def
  by (intro writes_intros; simp add: TPM2_PCR_Event_REQUEST_valid_def opt_ok_iff)

lemma TPM2_PCR_Event_REQUEST_reads:
  "TPM2_PCR_Event_REQUEST_valid x \<Longrightarrow> reads (TPM2_PCR_Event_REQUEST_initFromTpm TPM2_PCR_Event_REQUEST_default) x (TPM2_PCR_Event_REQUEST_enc x)"
  by (simp only: TPM2_PCR_Event_REQUEST_initFromTpm_def TPM2_PCR_Event_REQUEST_enc_def TPM2_PCR_Event_REQUEST_default_def
        TPM2_PCR_Event_REQUEST.select_convs TPM2_PCR_Event_REQUEST.update_convs;
      intro reads_intros; (rule TPM2_PCR_Event_REQUEST.equality)?; simp add: TPM2_PCR_Event_REQUEST_valid_def opt_ok_iff)

interpretation TPM2_PCR_Event_REQUEST_codec:
  tpm_codec TPM2_PCR_Event_REQUEST_toTpm TPM2_PCR_Event_REQUEST_initFromTpm TPM2_PCR_Event_REQUEST_default
    TPM2_PCR_Event_REQUEST_enc TPM2_PCR_Event_REQUEST_valid
  by unfold_locales (erule TPM2_PCR_Event_REQUEST_writes TPM2_PCR_Event_REQUEST_reads | simp add: TPM2_PCR_Event_REQUEST_enc_def)+

definition TPM2_PCR_Event_REQUEST_req :: "TPM2_PCR_Event_REQUEST \<Rightarrow> TPM_HANDLE ReqStructure" where
  "TPM2_PCR_Event_REQUEST_req self =
     \<lparr>req_toTpm = TPM2_PCR_Event_REQUEST_toTpm self, req_numHandles = 1,
     req_numAuthHandles = 1, req_getHandles = [TPM2_PCR_Event_REQUEST_pcrHandle self], req_sessEncInfo = \<lparr>sizeLen = 2, valLen = 1\<rparr>\<rparr>"

subsection \<open>PCR_EventResponse\<close>

text \<open>This command is used to cause an update to the indicated PCR.\<close>

record PCR_EventResponse =
  PCR_EventResponse_digests :: "TPMT_HA list"

definition PCR_EventResponse_default :: PCR_EventResponse where
  "PCR_EventResponse_default = \<lparr>PCR_EventResponse_digests = []\<rparr>"

definition PCR_EventResponse_toTpm :: "PCR_EventResponse \<Rightarrow> unit tpm" where
  "PCR_EventResponse_toTpm self =
     wseq [writeObjArr TPMT_HA_toTpm (PCR_EventResponse_digests self)]"

definition PCR_EventResponse_initFromTpm :: "PCR_EventResponse \<Rightarrow> PCR_EventResponse tpm" where
  "PCR_EventResponse_initFromTpm self =
     sbind (readObjArr TPMT_HA_initFromTpm TPMT_HA_default (PCR_EventResponse_digests self)) (\<lambda>digests.
     ret (self\<lparr>PCR_EventResponse_digests := digests\<rparr>))"

definition PCR_EventResponse_enc :: "PCR_EventResponse \<Rightarrow> ByteVec" where
  "PCR_EventResponse_enc x =
     enc_arr TPMT_HA_enc (PCR_EventResponse_digests x)"

definition PCR_EventResponse_valid :: "PCR_EventResponse \<Rightarrow> bool" where
  "PCR_EventResponse_valid x \<longleftrightarrow>
     arr_ok TPMT_HA_valid (PCR_EventResponse_digests x)"

lemma PCR_EventResponse_writes [writes_intros]:
  "PCR_EventResponse_valid x \<Longrightarrow> writes (PCR_EventResponse_toTpm x) (PCR_EventResponse_enc x)"
  unfolding PCR_EventResponse_toTpm_def PCR_EventResponse_enc_def
  by (intro writes_intros; simp add: PCR_EventResponse_valid_def opt_ok_iff)

lemma PCR_EventResponse_reads:
  "PCR_EventResponse_valid x \<Longrightarrow> reads (PCR_EventResponse_initFromTpm PCR_EventResponse_default) x (PCR_EventResponse_enc x)"
  by (simp only: PCR_EventResponse_initFromTpm_def PCR_EventResponse_enc_def PCR_EventResponse_default_def
        PCR_EventResponse.select_convs PCR_EventResponse.update_convs;
      intro reads_intros; (rule PCR_EventResponse.equality)?; simp add: PCR_EventResponse_valid_def opt_ok_iff)

interpretation PCR_EventResponse_codec:
  tpm_codec PCR_EventResponse_toTpm PCR_EventResponse_initFromTpm PCR_EventResponse_default
    PCR_EventResponse_enc PCR_EventResponse_valid
  by unfold_locales (erule PCR_EventResponse_writes PCR_EventResponse_reads | simp add: PCR_EventResponse_enc_def)+

definition PCR_EventResponse_resp :: "(TPM_HANDLE, PCR_EventResponse) RespStructure" where
  "PCR_EventResponse_resp = \<lparr>resp_default = PCR_EventResponse_default, resp_initFromTpm = PCR_EventResponse_initFromTpm,
     resp_numHandles = 0, resp_getHandle = (\<lambda>_. TPM_HANDLE_default),
     resp_setHandle = (\<lambda>_ self. self), resp_sessEncInfo = \<lparr>sizeLen = 4, valLen = 66\<rparr>\<rparr>"

subsection \<open>TPM2_PCR_Read_REQUEST\<close>

text \<open>This command returns the values of all PCR specified in pcrSelectionIn.\<close>

record TPM2_PCR_Read_REQUEST =
  TPM2_PCR_Read_REQUEST_pcrSelectionIn :: "TPMS_PCR_SELECTION list"

definition TPM2_PCR_Read_REQUEST_default :: TPM2_PCR_Read_REQUEST where
  "TPM2_PCR_Read_REQUEST_default = \<lparr>TPM2_PCR_Read_REQUEST_pcrSelectionIn = []\<rparr>"

definition TPM2_PCR_Read_REQUEST_toTpm :: "TPM2_PCR_Read_REQUEST \<Rightarrow> unit tpm" where
  "TPM2_PCR_Read_REQUEST_toTpm self =
     wseq [writeObjArr TPMS_PCR_SELECTION_toTpm (TPM2_PCR_Read_REQUEST_pcrSelectionIn self)]"

definition TPM2_PCR_Read_REQUEST_initFromTpm :: "TPM2_PCR_Read_REQUEST \<Rightarrow> TPM2_PCR_Read_REQUEST tpm" where
  "TPM2_PCR_Read_REQUEST_initFromTpm self =
     sbind (readObjArr TPMS_PCR_SELECTION_initFromTpm TPMS_PCR_SELECTION_default (TPM2_PCR_Read_REQUEST_pcrSelectionIn self)) (\<lambda>pcrSelectionIn.
     ret (self\<lparr>TPM2_PCR_Read_REQUEST_pcrSelectionIn := pcrSelectionIn\<rparr>))"

definition TPM2_PCR_Read_REQUEST_enc :: "TPM2_PCR_Read_REQUEST \<Rightarrow> ByteVec" where
  "TPM2_PCR_Read_REQUEST_enc x =
     enc_arr TPMS_PCR_SELECTION_enc (TPM2_PCR_Read_REQUEST_pcrSelectionIn x)"

definition TPM2_PCR_Read_REQUEST_valid :: "TPM2_PCR_Read_REQUEST \<Rightarrow> bool" where
  "TPM2_PCR_Read_REQUEST_valid x \<longleftrightarrow>
     arr_ok TPMS_PCR_SELECTION_valid (TPM2_PCR_Read_REQUEST_pcrSelectionIn x)"

lemma TPM2_PCR_Read_REQUEST_writes [writes_intros]:
  "TPM2_PCR_Read_REQUEST_valid x \<Longrightarrow> writes (TPM2_PCR_Read_REQUEST_toTpm x) (TPM2_PCR_Read_REQUEST_enc x)"
  unfolding TPM2_PCR_Read_REQUEST_toTpm_def TPM2_PCR_Read_REQUEST_enc_def
  by (intro writes_intros; simp add: TPM2_PCR_Read_REQUEST_valid_def opt_ok_iff)

lemma TPM2_PCR_Read_REQUEST_reads:
  "TPM2_PCR_Read_REQUEST_valid x \<Longrightarrow> reads (TPM2_PCR_Read_REQUEST_initFromTpm TPM2_PCR_Read_REQUEST_default) x (TPM2_PCR_Read_REQUEST_enc x)"
  by (simp only: TPM2_PCR_Read_REQUEST_initFromTpm_def TPM2_PCR_Read_REQUEST_enc_def TPM2_PCR_Read_REQUEST_default_def
        TPM2_PCR_Read_REQUEST.select_convs TPM2_PCR_Read_REQUEST.update_convs;
      intro reads_intros; (rule TPM2_PCR_Read_REQUEST.equality)?; simp add: TPM2_PCR_Read_REQUEST_valid_def opt_ok_iff)

interpretation TPM2_PCR_Read_REQUEST_codec:
  tpm_codec TPM2_PCR_Read_REQUEST_toTpm TPM2_PCR_Read_REQUEST_initFromTpm TPM2_PCR_Read_REQUEST_default
    TPM2_PCR_Read_REQUEST_enc TPM2_PCR_Read_REQUEST_valid
  by unfold_locales (erule TPM2_PCR_Read_REQUEST_writes TPM2_PCR_Read_REQUEST_reads | simp add: TPM2_PCR_Read_REQUEST_enc_def)+

definition TPM2_PCR_Read_REQUEST_req :: "TPM2_PCR_Read_REQUEST \<Rightarrow> TPM_HANDLE ReqStructure" where
  "TPM2_PCR_Read_REQUEST_req self =
     \<lparr>req_toTpm = TPM2_PCR_Read_REQUEST_toTpm self, req_numHandles = 0,
     req_numAuthHandles = 0, req_getHandles = [], req_sessEncInfo = \<lparr>sizeLen = 4, valLen = 3\<rparr>\<rparr>"

subsection \<open>PCR_ReadResponse\<close>

text \<open>This command returns the values of all PCR specified in pcrSelectionIn.\<close>

record PCR_ReadResponse =
  PCR_ReadResponse_pcrUpdateCounter :: "UINT32"
  PCR_ReadResponse_pcrSelectionOut :: "TPMS_PCR_SELECTION list"
  PCR_ReadResponse_pcrValues :: "TPM2B_DIGEST list"

definition PCR_ReadResponse_default :: PCR_ReadResponse where
  "PCR_ReadResponse_default = \<lparr>PCR_ReadResponse_pcrUpdateCounter = 0, PCR_ReadResponse_pcrSelectionOut = [], PCR_ReadResponse_pcrValues = []\<rparr>"

definition PCR_ReadResponse_toTpm :: "PCR_ReadResponse \<Rightarrow> unit tpm" where
  "PCR_ReadResponse_toTpm self =
     wseq [writeInt (PCR_ReadResponse_pcrUpdateCounter self),
       writeObjArr TPMS_PCR_SELECTION_toTpm (PCR_ReadResponse_pcrSelectionOut self),
       writeObjArr TPM2B_DIGEST_toTpm (PCR_ReadResponse_pcrValues self)]"

definition PCR_ReadResponse_initFromTpm :: "PCR_ReadResponse \<Rightarrow> PCR_ReadResponse tpm" where
  "PCR_ReadResponse_initFromTpm self =
     sbind readInt (\<lambda>pcrUpdateCounter.
     sbind (readObjArr TPMS_PCR_SELECTION_initFromTpm TPMS_PCR_SELECTION_default (PCR_ReadResponse_pcrSelectionOut self)) (\<lambda>pcrSelectionOut.
     sbind (readObjArr TPM2B_DIGEST_initFromTpm TPM2B_DIGEST_default (PCR_ReadResponse_pcrValues self)) (\<lambda>pcrValues.
     ret (self\<lparr>PCR_ReadResponse_pcrUpdateCounter := pcrUpdateCounter, PCR_ReadResponse_pcrSelectionOut := pcrSelectionOut, PCR_ReadResponse_pcrValues := pcrValues\<rparr>))))"

definition PCR_ReadResponse_enc :: "PCR_ReadResponse \<Rightarrow> ByteVec" where
  "PCR_ReadResponse_enc x =
     enc32 (PCR_ReadResponse_pcrUpdateCounter x) @
     enc_arr TPMS_PCR_SELECTION_enc (PCR_ReadResponse_pcrSelectionOut x) @
     enc_arr TPM2B_DIGEST_enc (PCR_ReadResponse_pcrValues x)"

definition PCR_ReadResponse_valid :: "PCR_ReadResponse \<Rightarrow> bool" where
  "PCR_ReadResponse_valid x \<longleftrightarrow>
     arr_ok TPMS_PCR_SELECTION_valid (PCR_ReadResponse_pcrSelectionOut x) \<and>
     arr_ok TPM2B_DIGEST_valid (PCR_ReadResponse_pcrValues x)"

lemma PCR_ReadResponse_writes [writes_intros]:
  "PCR_ReadResponse_valid x \<Longrightarrow> writes (PCR_ReadResponse_toTpm x) (PCR_ReadResponse_enc x)"
  unfolding PCR_ReadResponse_toTpm_def PCR_ReadResponse_enc_def
  by (intro writes_intros; simp add: PCR_ReadResponse_valid_def opt_ok_iff)

lemma PCR_ReadResponse_reads:
  "PCR_ReadResponse_valid x \<Longrightarrow> reads (PCR_ReadResponse_initFromTpm PCR_ReadResponse_default) x (PCR_ReadResponse_enc x)"
  by (simp only: PCR_ReadResponse_initFromTpm_def PCR_ReadResponse_enc_def PCR_ReadResponse_default_def
        PCR_ReadResponse.select_convs PCR_ReadResponse.update_convs;
      intro reads_intros; (rule PCR_ReadResponse.equality)?; simp add: PCR_ReadResponse_valid_def opt_ok_iff)

interpretation PCR_ReadResponse_codec:
  tpm_codec PCR_ReadResponse_toTpm PCR_ReadResponse_initFromTpm PCR_ReadResponse_default
    PCR_ReadResponse_enc PCR_ReadResponse_valid
  by unfold_locales (erule PCR_ReadResponse_writes PCR_ReadResponse_reads | simp add: PCR_ReadResponse_enc_def)+

definition PCR_ReadResponse_resp :: "(TPM_HANDLE, PCR_ReadResponse) RespStructure" where
  "PCR_ReadResponse_resp = \<lparr>resp_default = PCR_ReadResponse_default, resp_initFromTpm = PCR_ReadResponse_initFromTpm,
     resp_numHandles = 0, resp_getHandle = (\<lambda>_. TPM_HANDLE_default),
     resp_setHandle = (\<lambda>_ self. self), resp_sessEncInfo = no_sessEncInfo\<rparr>"

subsection \<open>TPM2_PCR_Allocate_REQUEST\<close>

text \<open>This command is used to set the desired PCR allocation of PCR and algorithms.\<close>

record TPM2_PCR_Allocate_REQUEST =
  TPM2_PCR_Allocate_REQUEST_authHandle :: "TPM_HANDLE"
  TPM2_PCR_Allocate_REQUEST_pcrAllocation :: "TPMS_PCR_SELECTION list"

definition TPM2_PCR_Allocate_REQUEST_default :: TPM2_PCR_Allocate_REQUEST where
  "TPM2_PCR_Allocate_REQUEST_default = \<lparr>TPM2_PCR_Allocate_REQUEST_authHandle = TPM_HANDLE_default, TPM2_PCR_Allocate_REQUEST_pcrAllocation = []\<rparr>"

definition TPM2_PCR_Allocate_REQUEST_toTpm :: "TPM2_PCR_Allocate_REQUEST \<Rightarrow> unit tpm" where
  "TPM2_PCR_Allocate_REQUEST_toTpm self =
     wseq [writeObjArr TPMS_PCR_SELECTION_toTpm (TPM2_PCR_Allocate_REQUEST_pcrAllocation self)]"

definition TPM2_PCR_Allocate_REQUEST_initFromTpm :: "TPM2_PCR_Allocate_REQUEST \<Rightarrow> TPM2_PCR_Allocate_REQUEST tpm" where
  "TPM2_PCR_Allocate_REQUEST_initFromTpm self =
     sbind (readObjArr TPMS_PCR_SELECTION_initFromTpm TPMS_PCR_SELECTION_default (TPM2_PCR_Allocate_REQUEST_pcrAllocation self)) (\<lambda>pcrAllocation.
     ret (self\<lparr>TPM2_PCR_Allocate_REQUEST_pcrAllocation := pcrAllocation\<rparr>))"

definition TPM2_PCR_Allocate_REQUEST_enc :: "TPM2_PCR_Allocate_REQUEST \<Rightarrow> ByteVec" where
  "TPM2_PCR_Allocate_REQUEST_enc x =
     enc_arr TPMS_PCR_SELECTION_enc (TPM2_PCR_Allocate_REQUEST_pcrAllocation x)"

definition TPM2_PCR_Allocate_REQUEST_valid :: "TPM2_PCR_Allocate_REQUEST \<Rightarrow> bool" where
  "TPM2_PCR_Allocate_REQUEST_valid x \<longleftrightarrow>
     arr_ok TPMS_PCR_SELECTION_valid (TPM2_PCR_Allocate_REQUEST_pcrAllocation x) \<and>
     TPM2_PCR_Allocate_REQUEST_authHandle x = TPM_HANDLE_default"

lemma TPM2_PCR_Allocate_REQUEST_writes [writes_intros]:
  "TPM2_PCR_Allocate_REQUEST_valid x \<Longrightarrow> writes (TPM2_PCR_Allocate_REQUEST_toTpm x) (TPM2_PCR_Allocate_REQUEST_enc x)"
  unfolding TPM2_PCR_Allocate_REQUEST_toTpm_def TPM2_PCR_Allocate_REQUEST_enc_def
  by (intro writes_intros; simp add: TPM2_PCR_Allocate_REQUEST_valid_def opt_ok_iff)

lemma TPM2_PCR_Allocate_REQUEST_reads:
  "TPM2_PCR_Allocate_REQUEST_valid x \<Longrightarrow> reads (TPM2_PCR_Allocate_REQUEST_initFromTpm TPM2_PCR_Allocate_REQUEST_default) x (TPM2_PCR_Allocate_REQUEST_enc x)"
  by (simp only: TPM2_PCR_Allocate_REQUEST_initFromTpm_def TPM2_PCR_Allocate_REQUEST_enc_def TPM2_PCR_Allocate_REQUEST_default_def
        TPM2_PCR_Allocate_REQUEST.select_convs TPM2_PCR_Allocate_REQUEST.update_convs;
      intro reads_intros; (rule TPM2_PCR_Allocate_REQUEST.equality)?; simp add: TPM2_PCR_Allocate_REQUEST_valid_def opt_ok_iff)

interpretation TPM2_PCR_Allocate_REQUEST_codec:
  tpm_codec TPM2_PCR_Allocate_REQUEST_toTpm TPM2_PCR_Allocate_REQUEST_initFromTpm TPM2_PCR_Allocate_REQUEST_default
    TPM2_PCR_Allocate_REQUEST_enc TPM2_PCR_Allocate_REQUEST_valid
  by unfold_locales (erule TPM2_PCR_Allocate_REQUEST_writes TPM2_PCR_Allocate_REQUEST_reads | simp add: TPM2_PCR_Allocate_REQUEST_enc_def)+

definition TPM2_PCR_Allocate_REQUEST_req :: "TPM2_PCR_Allocate_REQUEST \<Rightarrow> TPM_HANDLE ReqStructure" where
  "TPM2_PCR_Allocate_REQUEST_req self =
     \<lparr>req_toTpm = TPM2_PCR_Allocate_REQUEST_toTpm self, req_numHandles = 1,
     req_numAuthHandles = 1, req_getHandles = [TPM2_PCR_Allocate_REQUEST_authHandle self], req_sessEncInfo = \<lparr>sizeLen = 4, valLen = 3\<rparr>\<rparr>"

subsection \<open>PCR_AllocateResponse\<close>

text \<open>This command is used to set the desired PCR allocation of PCR and algorithms.\<close>

record PCR_AllocateResponse =
  PCR_AllocateResponse_allocationSuccess :: "byte"
  PCR_AllocateResponse_maxPCR :: "UINT32"
  PCR_AllocateResponse_sizeNeeded :: "UINT32"
  PCR_AllocateResponse_sizeAvailable :: "UINT32"

definition PCR_AllocateResponse_default :: PCR_AllocateResponse where
  "PCR_AllocateResponse_default = \<lparr>PCR_AllocateResponse_allocationSuccess = 0, PCR_AllocateResponse_maxPCR = 0, PCR_AllocateResponse_sizeNeeded = 0, PCR_AllocateResponse_sizeAvailable = 0\<rparr>"

definition PCR_AllocateResponse_toTpm :: "PCR_AllocateResponse \<Rightarrow> unit tpm" where
  "PCR_AllocateResponse_toTpm self =
     wseq [writeByte (PCR_AllocateResponse_allocationSuccess self),
       writeInt (PCR_AllocateResponse_maxPCR self),
       writeInt (PCR_AllocateResponse_sizeNeeded self),
       writeInt (PCR_AllocateResponse_sizeAvailable self)]"

definition PCR_AllocateResponse_initFromTpm :: "PCR_AllocateResponse \<Rightarrow> PCR_AllocateResponse tpm" where
  "PCR_AllocateResponse_initFromTpm self =
     sbind readByte (\<lambda>allocationSuccess.
     sbind readInt (\<lambda>maxPCR.
     sbind readInt (\<lambda>sizeNeeded.
     sbind readInt (\<lambda>sizeAvailable.
     ret (self\<lparr>PCR_AllocateResponse_allocationSuccess := allocationSuccess, PCR_AllocateResponse_maxPCR := maxPCR, PCR_AllocateResponse_sizeNeeded := sizeNeeded, PCR_AllocateResponse_sizeAvailable := sizeAvailable\<rparr>)))))"

definition PCR_AllocateResponse_enc :: "PCR_AllocateResponse \<Rightarrow> ByteVec" where
  "PCR_AllocateResponse_enc x =
     enc8 (PCR_AllocateResponse_allocationSuccess x) @
     enc32 (PCR_AllocateResponse_maxPCR x) @
     enc32 (PCR_AllocateResponse_sizeNeeded x) @
     enc32 (PCR_AllocateResponse_sizeAvailable x)"

definition PCR_AllocateResponse_valid :: "PCR_AllocateResponse \<Rightarrow> bool" where
  "PCR_AllocateResponse_valid x \<longleftrightarrow>
     True"

lemma PCR_AllocateResponse_writes [writes_intros]:
  "PCR_AllocateResponse_valid x \<Longrightarrow> writes (PCR_AllocateResponse_toTpm x) (PCR_AllocateResponse_enc x)"
  unfolding PCR_AllocateResponse_toTpm_def PCR_AllocateResponse_enc_def
  by (intro writes_intros; simp add: PCR_AllocateResponse_valid_def opt_ok_iff)

lemma PCR_AllocateResponse_reads:
  "PCR_AllocateResponse_valid x \<Longrightarrow> reads (PCR_AllocateResponse_initFromTpm PCR_AllocateResponse_default) x (PCR_AllocateResponse_enc x)"
  by (simp only: PCR_AllocateResponse_initFromTpm_def PCR_AllocateResponse_enc_def PCR_AllocateResponse_default_def
        PCR_AllocateResponse.select_convs PCR_AllocateResponse.update_convs;
      intro reads_intros; (rule PCR_AllocateResponse.equality)?; simp add: PCR_AllocateResponse_valid_def opt_ok_iff)

interpretation PCR_AllocateResponse_codec:
  tpm_codec PCR_AllocateResponse_toTpm PCR_AllocateResponse_initFromTpm PCR_AllocateResponse_default
    PCR_AllocateResponse_enc PCR_AllocateResponse_valid
  by unfold_locales (erule PCR_AllocateResponse_writes PCR_AllocateResponse_reads | simp add: PCR_AllocateResponse_enc_def)+

definition PCR_AllocateResponse_resp :: "(TPM_HANDLE, PCR_AllocateResponse) RespStructure" where
  "PCR_AllocateResponse_resp = \<lparr>resp_default = PCR_AllocateResponse_default, resp_initFromTpm = PCR_AllocateResponse_initFromTpm,
     resp_numHandles = 0, resp_getHandle = (\<lambda>_. TPM_HANDLE_default),
     resp_setHandle = (\<lambda>_ self. self), resp_sessEncInfo = no_sessEncInfo\<rparr>"

subsection \<open>TPM2_PCR_SetAuthPolicy_REQUEST\<close>

text \<open>This command is used to associate a policy with a PCR or group of PCR. The policy determines the conditions under which a PCR may be extended or reset.\<close>

record TPM2_PCR_SetAuthPolicy_REQUEST =
  TPM2_PCR_SetAuthPolicy_REQUEST_authHandle :: "TPM_HANDLE"
  TPM2_PCR_SetAuthPolicy_REQUEST_authPolicy :: "ByteVec"
  TPM2_PCR_SetAuthPolicy_REQUEST_hashAlg :: "TPM_ALG_ID"
  TPM2_PCR_SetAuthPolicy_REQUEST_pcrNum :: "TPM_HANDLE"

definition TPM2_PCR_SetAuthPolicy_REQUEST_default :: TPM2_PCR_SetAuthPolicy_REQUEST where
  "TPM2_PCR_SetAuthPolicy_REQUEST_default = \<lparr>TPM2_PCR_SetAuthPolicy_REQUEST_authHandle = TPM_HANDLE_default, TPM2_PCR_SetAuthPolicy_REQUEST_authPolicy = [], TPM2_PCR_SetAuthPolicy_REQUEST_hashAlg = TPM_ALG_ID_NULL, TPM2_PCR_SetAuthPolicy_REQUEST_pcrNum = TPM_HANDLE_default\<rparr>"

definition TPM2_PCR_SetAuthPolicy_REQUEST_toTpm :: "TPM2_PCR_SetAuthPolicy_REQUEST \<Rightarrow> unit tpm" where
  "TPM2_PCR_SetAuthPolicy_REQUEST_toTpm self =
     wseq [writeSizedByteBuf (TPM2_PCR_SetAuthPolicy_REQUEST_authPolicy self) 2,
       writeShort (TPM2_PCR_SetAuthPolicy_REQUEST_hashAlg self),
       TPM_HANDLE_toTpm (TPM2_PCR_SetAuthPolicy_REQUEST_pcrNum self)]"

definition TPM2_PCR_SetAuthPolicy_REQUEST_initFromTpm :: "TPM2_PCR_SetAuthPolicy_REQUEST \<Rightarrow> TPM2_PCR_SetAuthPolicy_REQUEST tpm" where
  "TPM2_PCR_SetAuthPolicy_REQUEST_initFromTpm self =
     sbind (readSizedByteBuf 2) (\<lambda>authPolicy.
     sbind readShort (\<lambda>hashAlg.
     sbind (TPM_HANDLE_initFromTpm (TPM2_PCR_SetAuthPolicy_REQUEST_pcrNum self)) (\<lambda>pcrNum.
     ret (self\<lparr>TPM2_PCR_SetAuthPolicy_REQUEST_authPolicy := authPolicy, TPM2_PCR_SetAuthPolicy_REQUEST_hashAlg := hashAlg, TPM2_PCR_SetAuthPolicy_REQUEST_pcrNum := pcrNum\<rparr>))))"

definition TPM2_PCR_SetAuthPolicy_REQUEST_enc :: "TPM2_PCR_SetAuthPolicy_REQUEST \<Rightarrow> ByteVec" where
  "TPM2_PCR_SetAuthPolicy_REQUEST_enc x =
     enc_sized 2 (TPM2_PCR_SetAuthPolicy_REQUEST_authPolicy x) @
     enc16 (TPM2_PCR_SetAuthPolicy_REQUEST_hashAlg x) @
     TPM_HANDLE_enc (TPM2_PCR_SetAuthPolicy_REQUEST_pcrNum x)"

definition TPM2_PCR_SetAuthPolicy_REQUEST_valid :: "TPM2_PCR_SetAuthPolicy_REQUEST \<Rightarrow> bool" where
  "TPM2_PCR_SetAuthPolicy_REQUEST_valid x \<longleftrightarrow>
     sized_ok 2 (TPM2_PCR_SetAuthPolicy_REQUEST_authPolicy x) \<and>
     TPM_HANDLE_valid (TPM2_PCR_SetAuthPolicy_REQUEST_pcrNum x) \<and>
     TPM2_PCR_SetAuthPolicy_REQUEST_authHandle x = TPM_HANDLE_default"

lemma TPM2_PCR_SetAuthPolicy_REQUEST_writes [writes_intros]:
  "TPM2_PCR_SetAuthPolicy_REQUEST_valid x \<Longrightarrow> writes (TPM2_PCR_SetAuthPolicy_REQUEST_toTpm x) (TPM2_PCR_SetAuthPolicy_REQUEST_enc x)"
  unfolding TPM2_PCR_SetAuthPolicy_REQUEST_toTpm_def TPM2_PCR_SetAuthPolicy_REQUEST_enc_def
  by (intro writes_intros; simp add: TPM2_PCR_SetAuthPolicy_REQUEST_valid_def opt_ok_iff)

lemma TPM2_PCR_SetAuthPolicy_REQUEST_reads:
  "TPM2_PCR_SetAuthPolicy_REQUEST_valid x \<Longrightarrow> reads (TPM2_PCR_SetAuthPolicy_REQUEST_initFromTpm TPM2_PCR_SetAuthPolicy_REQUEST_default) x (TPM2_PCR_SetAuthPolicy_REQUEST_enc x)"
  by (simp only: TPM2_PCR_SetAuthPolicy_REQUEST_initFromTpm_def TPM2_PCR_SetAuthPolicy_REQUEST_enc_def TPM2_PCR_SetAuthPolicy_REQUEST_default_def
        TPM2_PCR_SetAuthPolicy_REQUEST.select_convs TPM2_PCR_SetAuthPolicy_REQUEST.update_convs;
      intro reads_intros; (rule TPM2_PCR_SetAuthPolicy_REQUEST.equality)?; simp add: TPM2_PCR_SetAuthPolicy_REQUEST_valid_def opt_ok_iff)

interpretation TPM2_PCR_SetAuthPolicy_REQUEST_codec:
  tpm_codec TPM2_PCR_SetAuthPolicy_REQUEST_toTpm TPM2_PCR_SetAuthPolicy_REQUEST_initFromTpm TPM2_PCR_SetAuthPolicy_REQUEST_default
    TPM2_PCR_SetAuthPolicy_REQUEST_enc TPM2_PCR_SetAuthPolicy_REQUEST_valid
  by unfold_locales (erule TPM2_PCR_SetAuthPolicy_REQUEST_writes TPM2_PCR_SetAuthPolicy_REQUEST_reads | simp add: TPM2_PCR_SetAuthPolicy_REQUEST_enc_def)+

definition TPM2_PCR_SetAuthPolicy_REQUEST_req :: "TPM2_PCR_SetAuthPolicy_REQUEST \<Rightarrow> TPM_HANDLE ReqStructure" where
  "TPM2_PCR_SetAuthPolicy_REQUEST_req self =
     \<lparr>req_toTpm = TPM2_PCR_SetAuthPolicy_REQUEST_toTpm self, req_numHandles = 1,
     req_numAuthHandles = 1, req_getHandles = [TPM2_PCR_SetAuthPolicy_REQUEST_authHandle self], req_sessEncInfo = \<lparr>sizeLen = 2, valLen = 1\<rparr>\<rparr>"

subsection \<open>TPM2_PCR_SetAuthValue_REQUEST\<close>

text \<open>This command changes the authValue of a PCR or group of PCR.\<close>

record TPM2_PCR_SetAuthValue_REQUEST =
  TPM2_PCR_SetAuthValue_REQUEST_pcrHandle :: "TPM_HANDLE"
  TPM2_PCR_SetAuthValue_REQUEST_auth :: "ByteVec"

definition TPM2_PCR_SetAuthValue_REQUEST_default :: TPM2_PCR_SetAuthValue_REQUEST where
  "TPM2_PCR_SetAuthValue_REQUEST_default = \<lparr>TPM2_PCR_SetAuthValue_REQUEST_pcrHandle = TPM_HANDLE_default, TPM2_PCR_SetAuthValue_REQUEST_auth = []\<rparr>"

definition TPM2_PCR_SetAuthValue_REQUEST_toTpm :: "TPM2_PCR_SetAuthValue_REQUEST \<Rightarrow> unit tpm" where
  "TPM2_PCR_SetAuthValue_REQUEST_toTpm self =
     wseq [writeSizedByteBuf (TPM2_PCR_SetAuthValue_REQUEST_auth self) 2]"

definition TPM2_PCR_SetAuthValue_REQUEST_initFromTpm :: "TPM2_PCR_SetAuthValue_REQUEST \<Rightarrow> TPM2_PCR_SetAuthValue_REQUEST tpm" where
  "TPM2_PCR_SetAuthValue_REQUEST_initFromTpm self =
     sbind (readSizedByteBuf 2) (\<lambda>auth.
     ret (self\<lparr>TPM2_PCR_SetAuthValue_REQUEST_auth := auth\<rparr>))"

definition TPM2_PCR_SetAuthValue_REQUEST_enc :: "TPM2_PCR_SetAuthValue_REQUEST \<Rightarrow> ByteVec" where
  "TPM2_PCR_SetAuthValue_REQUEST_enc x =
     enc_sized 2 (TPM2_PCR_SetAuthValue_REQUEST_auth x)"

definition TPM2_PCR_SetAuthValue_REQUEST_valid :: "TPM2_PCR_SetAuthValue_REQUEST \<Rightarrow> bool" where
  "TPM2_PCR_SetAuthValue_REQUEST_valid x \<longleftrightarrow>
     sized_ok 2 (TPM2_PCR_SetAuthValue_REQUEST_auth x) \<and>
     TPM2_PCR_SetAuthValue_REQUEST_pcrHandle x = TPM_HANDLE_default"

lemma TPM2_PCR_SetAuthValue_REQUEST_writes [writes_intros]:
  "TPM2_PCR_SetAuthValue_REQUEST_valid x \<Longrightarrow> writes (TPM2_PCR_SetAuthValue_REQUEST_toTpm x) (TPM2_PCR_SetAuthValue_REQUEST_enc x)"
  unfolding TPM2_PCR_SetAuthValue_REQUEST_toTpm_def TPM2_PCR_SetAuthValue_REQUEST_enc_def
  by (intro writes_intros; simp add: TPM2_PCR_SetAuthValue_REQUEST_valid_def opt_ok_iff)

lemma TPM2_PCR_SetAuthValue_REQUEST_reads:
  "TPM2_PCR_SetAuthValue_REQUEST_valid x \<Longrightarrow> reads (TPM2_PCR_SetAuthValue_REQUEST_initFromTpm TPM2_PCR_SetAuthValue_REQUEST_default) x (TPM2_PCR_SetAuthValue_REQUEST_enc x)"
  by (simp only: TPM2_PCR_SetAuthValue_REQUEST_initFromTpm_def TPM2_PCR_SetAuthValue_REQUEST_enc_def TPM2_PCR_SetAuthValue_REQUEST_default_def
        TPM2_PCR_SetAuthValue_REQUEST.select_convs TPM2_PCR_SetAuthValue_REQUEST.update_convs;
      intro reads_intros; (rule TPM2_PCR_SetAuthValue_REQUEST.equality)?; simp add: TPM2_PCR_SetAuthValue_REQUEST_valid_def opt_ok_iff)

interpretation TPM2_PCR_SetAuthValue_REQUEST_codec:
  tpm_codec TPM2_PCR_SetAuthValue_REQUEST_toTpm TPM2_PCR_SetAuthValue_REQUEST_initFromTpm TPM2_PCR_SetAuthValue_REQUEST_default
    TPM2_PCR_SetAuthValue_REQUEST_enc TPM2_PCR_SetAuthValue_REQUEST_valid
  by unfold_locales (erule TPM2_PCR_SetAuthValue_REQUEST_writes TPM2_PCR_SetAuthValue_REQUEST_reads | simp add: TPM2_PCR_SetAuthValue_REQUEST_enc_def)+

definition TPM2_PCR_SetAuthValue_REQUEST_req :: "TPM2_PCR_SetAuthValue_REQUEST \<Rightarrow> TPM_HANDLE ReqStructure" where
  "TPM2_PCR_SetAuthValue_REQUEST_req self =
     \<lparr>req_toTpm = TPM2_PCR_SetAuthValue_REQUEST_toTpm self, req_numHandles = 1,
     req_numAuthHandles = 1, req_getHandles = [TPM2_PCR_SetAuthValue_REQUEST_pcrHandle self], req_sessEncInfo = \<lparr>sizeLen = 2, valLen = 1\<rparr>\<rparr>"

subsection \<open>TPM2_PCR_Reset_REQUEST\<close>

text \<open>If the attribute of a PCR allows the PCR to be reset and proper authorization is provided, then this command may be used to set the PCR in all banks ....\<close>

record TPM2_PCR_Reset_REQUEST =
  TPM2_PCR_Reset_REQUEST_pcrHandle :: "TPM_HANDLE"

definition TPM2_PCR_Reset_REQUEST_default :: TPM2_PCR_Reset_REQUEST where
  "TPM2_PCR_Reset_REQUEST_default = \<lparr>TPM2_PCR_Reset_REQUEST_pcrHandle = TPM_HANDLE_default\<rparr>"

definition TPM2_PCR_Reset_REQUEST_toTpm :: "TPM2_PCR_Reset_REQUEST \<Rightarrow> unit tpm" where
  "TPM2_PCR_Reset_REQUEST_toTpm self =
     wseq []"

definition TPM2_PCR_Reset_REQUEST_initFromTpm :: "TPM2_PCR_Reset_REQUEST \<Rightarrow> TPM2_PCR_Reset_REQUEST tpm" where
  "TPM2_PCR_Reset_REQUEST_initFromTpm self =
     ret self"

definition TPM2_PCR_Reset_REQUEST_enc :: "TPM2_PCR_Reset_REQUEST \<Rightarrow> ByteVec" where
  "TPM2_PCR_Reset_REQUEST_enc x =
     []"

definition TPM2_PCR_Reset_REQUEST_valid :: "TPM2_PCR_Reset_REQUEST \<Rightarrow> bool" where
  "TPM2_PCR_Reset_REQUEST_valid x \<longleftrightarrow>
     TPM2_PCR_Reset_REQUEST_pcrHandle x = TPM_HANDLE_default"

lemma TPM2_PCR_Reset_REQUEST_writes [writes_intros]:
  "TPM2_PCR_Reset_REQUEST_valid x \<Longrightarrow> writes (TPM2_PCR_Reset_REQUEST_toTpm x) (TPM2_PCR_Reset_REQUEST_enc x)"
  unfolding TPM2_PCR_Reset_REQUEST_toTpm_def TPM2_PCR_Reset_REQUEST_enc_def
  by (intro writes_intros; simp add: TPM2_PCR_Reset_REQUEST_valid_def opt_ok_iff)

lemma TPM2_PCR_Reset_REQUEST_reads:
  "TPM2_PCR_Reset_REQUEST_valid x \<Longrightarrow> reads (TPM2_PCR_Reset_REQUEST_initFromTpm TPM2_PCR_Reset_REQUEST_default) x (TPM2_PCR_Reset_REQUEST_enc x)"
  by (simp only: TPM2_PCR_Reset_REQUEST_initFromTpm_def TPM2_PCR_Reset_REQUEST_enc_def TPM2_PCR_Reset_REQUEST_default_def
        TPM2_PCR_Reset_REQUEST.select_convs TPM2_PCR_Reset_REQUEST.update_convs;
      intro reads_intros; (rule TPM2_PCR_Reset_REQUEST.equality)?; simp add: TPM2_PCR_Reset_REQUEST_valid_def opt_ok_iff)

interpretation TPM2_PCR_Reset_REQUEST_codec:
  tpm_codec TPM2_PCR_Reset_REQUEST_toTpm TPM2_PCR_Reset_REQUEST_initFromTpm TPM2_PCR_Reset_REQUEST_default
    TPM2_PCR_Reset_REQUEST_enc TPM2_PCR_Reset_REQUEST_valid
  by unfold_locales (erule TPM2_PCR_Reset_REQUEST_writes TPM2_PCR_Reset_REQUEST_reads | simp add: TPM2_PCR_Reset_REQUEST_toTpm_def writes_ret)+

definition TPM2_PCR_Reset_REQUEST_req :: "TPM2_PCR_Reset_REQUEST \<Rightarrow> TPM_HANDLE ReqStructure" where
  "TPM2_PCR_Reset_REQUEST_req self =
     \<lparr>req_toTpm = TPM2_PCR_Reset_REQUEST_toTpm self, req_numHandles = 1,
     req_numAuthHandles = 1, req_getHandles = [TPM2_PCR_Reset_REQUEST_pcrHandle self], req_sessEncInfo = no_sessEncInfo\<rparr>"

end
