(* ===== verification/TpmNvCommands.thy ===== *)
theory TpmNvCommands
  imports TpmNvTypes
begin

text \<open>
  \<^verbatim>\<open>TSS.CPP/include/TpmTypes.h\<close> and \<^verbatim>\<open>TSS.CPP/Src/TpmTypes.cpp\<close>: the parameter
  structures of commands and responses, capabilities, NV storage, attached components and vendor commands.

  As for the other structures, each class has its record, default, \<open>toTpm\<close>, \<open>initFromTpm\<close>, wire
  format and codec; the handles are members that are not marshaled, so the values the format can
  carry have null handles. \<open>X_req\<close> and \<open>X_resp\<close> collect what the dispatcher sees.
\<close>

subsection \<open>TPM2_GetCapability_REQUEST\<close>

text \<open>This command returns various information regarding the TPM and its current state.\<close>

record TPM2_GetCapability_REQUEST =
  TPM2_GetCapability_REQUEST_capability :: "TPM_CAP"
  TPM2_GetCapability_REQUEST_property :: "UINT32"
  TPM2_GetCapability_REQUEST_propertyCount :: "UINT32"

definition TPM2_GetCapability_REQUEST_default :: TPM2_GetCapability_REQUEST where
  "TPM2_GetCapability_REQUEST_default = \<lparr>TPM2_GetCapability_REQUEST_capability = 0, TPM2_GetCapability_REQUEST_property = 0, TPM2_GetCapability_REQUEST_propertyCount = 0\<rparr>"

definition TPM2_GetCapability_REQUEST_toTpm :: "TPM2_GetCapability_REQUEST \<Rightarrow> unit tpm" where
  "TPM2_GetCapability_REQUEST_toTpm self =
     wseq [writeInt (TPM2_GetCapability_REQUEST_capability self),
       writeInt (TPM2_GetCapability_REQUEST_property self),
       writeInt (TPM2_GetCapability_REQUEST_propertyCount self)]"

definition TPM2_GetCapability_REQUEST_initFromTpm :: "TPM2_GetCapability_REQUEST \<Rightarrow> TPM2_GetCapability_REQUEST tpm" where
  "TPM2_GetCapability_REQUEST_initFromTpm self =
     sbind readInt (\<lambda>capability.
     sbind readInt (\<lambda>property.
     sbind readInt (\<lambda>propertyCount.
     ret (self\<lparr>TPM2_GetCapability_REQUEST_capability := capability, TPM2_GetCapability_REQUEST_property := property, TPM2_GetCapability_REQUEST_propertyCount := propertyCount\<rparr>))))"

definition TPM2_GetCapability_REQUEST_enc :: "TPM2_GetCapability_REQUEST \<Rightarrow> ByteVec" where
  "TPM2_GetCapability_REQUEST_enc x =
     enc32 (TPM2_GetCapability_REQUEST_capability x) @
     enc32 (TPM2_GetCapability_REQUEST_property x) @
     enc32 (TPM2_GetCapability_REQUEST_propertyCount x)"

definition TPM2_GetCapability_REQUEST_valid :: "TPM2_GetCapability_REQUEST \<Rightarrow> bool" where
  "TPM2_GetCapability_REQUEST_valid x \<longleftrightarrow>
     True"

lemma TPM2_GetCapability_REQUEST_writes [writes_intros]:
  "TPM2_GetCapability_REQUEST_valid x \<Longrightarrow> writes (TPM2_GetCapability_REQUEST_toTpm x) (TPM2_GetCapability_REQUEST_enc x)"
  unfolding TPM2_GetCapability_REQUEST_toTpm_def TPM2_GetCapability_REQUEST_enc_def
  by (intro writes_intros; simp add: TPM2_GetCapability_REQUEST_valid_def opt_ok_iff)

lemma TPM2_GetCapability_REQUEST_reads:
  "TPM2_GetCapability_REQUEST_valid x \<Longrightarrow> reads (TPM2_GetCapability_REQUEST_initFromTpm TPM2_GetCapability_REQUEST_default) x (TPM2_GetCapability_REQUEST_enc x)"
  by (simp only: TPM2_GetCapability_REQUEST_initFromTpm_def TPM2_GetCapability_REQUEST_enc_def TPM2_GetCapability_REQUEST_default_def
        TPM2_GetCapability_REQUEST.select_convs TPM2_GetCapability_REQUEST.update_convs;
      intro reads_intros; (rule TPM2_GetCapability_REQUEST.equality)?; simp add: TPM2_GetCapability_REQUEST_valid_def opt_ok_iff)

interpretation TPM2_GetCapability_REQUEST_codec:
  tpm_codec TPM2_GetCapability_REQUEST_toTpm TPM2_GetCapability_REQUEST_initFromTpm TPM2_GetCapability_REQUEST_default
    TPM2_GetCapability_REQUEST_enc TPM2_GetCapability_REQUEST_valid
  by unfold_locales (erule TPM2_GetCapability_REQUEST_writes TPM2_GetCapability_REQUEST_reads | simp add: TPM2_GetCapability_REQUEST_enc_def)+

definition TPM2_GetCapability_REQUEST_req :: "TPM2_GetCapability_REQUEST \<Rightarrow> TPM_HANDLE ReqStructure" where
  "TPM2_GetCapability_REQUEST_req self =
     \<lparr>req_toTpm = TPM2_GetCapability_REQUEST_toTpm self, req_numHandles = 0,
     req_numAuthHandles = 0, req_getHandles = [], req_sessEncInfo = no_sessEncInfo\<rparr>"

subsection \<open>GetCapabilityResponse\<close>

text \<open>This command returns various information regarding the TPM and its current state.\<close>

record GetCapabilityResponse =
  GetCapabilityResponse_moreData :: "byte"
  GetCapabilityResponse_capabilityData :: "TPMU_CAPABILITIES option"

definition GetCapabilityResponse_default :: GetCapabilityResponse where
  "GetCapabilityResponse_default = \<lparr>GetCapabilityResponse_moreData = 0, GetCapabilityResponse_capabilityData = None\<rparr>"

definition GetCapabilityResponse_toTpm :: "GetCapabilityResponse \<Rightarrow> unit tpm" where
  "GetCapabilityResponse_toTpm self =
     wseq [writeByte (GetCapabilityResponse_moreData self),
       deref (GetCapabilityResponse_capabilityData self) (\<lambda>u. writeInt (TPMU_CAPABILITIES_GetUnionSelector u)),
       deref (GetCapabilityResponse_capabilityData self) TPMU_CAPABILITIES_toTpm]"

definition GetCapabilityResponse_initFromTpm :: "GetCapabilityResponse \<Rightarrow> GetCapabilityResponse tpm" where
  "GetCapabilityResponse_initFromTpm self =
     sbind readByte (\<lambda>moreData.
     sbind readInt (\<lambda>capabilityDataCapability.
     bindO (UnionFactory_Create_TPMU_CAPABILITIES capabilityDataCapability) (\<lambda>capabilityData.
     sbind (deref capabilityData TPMU_CAPABILITIES_initFromTpm) (\<lambda>capabilityData.
     ret (self\<lparr>GetCapabilityResponse_moreData := moreData, GetCapabilityResponse_capabilityData := Some capabilityData\<rparr>)))))"

definition GetCapabilityResponse_enc :: "GetCapabilityResponse \<Rightarrow> ByteVec" where
  "GetCapabilityResponse_enc x =
     enc8 (GetCapabilityResponse_moreData x) @
     opt_enc (\<lambda>u. enc32 (TPMU_CAPABILITIES_GetUnionSelector u)) (GetCapabilityResponse_capabilityData x) @
     opt_enc TPMU_CAPABILITIES_enc (GetCapabilityResponse_capabilityData x)"

definition GetCapabilityResponse_valid :: "GetCapabilityResponse \<Rightarrow> bool" where
  "GetCapabilityResponse_valid x \<longleftrightarrow>
     opt_ok TPMU_CAPABILITIES_valid (GetCapabilityResponse_capabilityData x)"

lemma GetCapabilityResponse_writes [writes_intros]:
  "GetCapabilityResponse_valid x \<Longrightarrow> writes (GetCapabilityResponse_toTpm x) (GetCapabilityResponse_enc x)"
  unfolding GetCapabilityResponse_toTpm_def GetCapabilityResponse_enc_def
  by (intro writes_intros; simp add: GetCapabilityResponse_valid_def opt_ok_iff)

lemma GetCapabilityResponse_reads:
  "GetCapabilityResponse_valid x \<Longrightarrow> reads (GetCapabilityResponse_initFromTpm GetCapabilityResponse_default) x (GetCapabilityResponse_enc x)"
  by (simp only: GetCapabilityResponse_initFromTpm_def GetCapabilityResponse_enc_def GetCapabilityResponse_default_def
        GetCapabilityResponse.select_convs GetCapabilityResponse.update_convs;
      intro reads_intros; (rule GetCapabilityResponse.equality)?; simp add: GetCapabilityResponse_valid_def opt_ok_iff)

interpretation GetCapabilityResponse_codec:
  tpm_codec GetCapabilityResponse_toTpm GetCapabilityResponse_initFromTpm GetCapabilityResponse_default
    GetCapabilityResponse_enc GetCapabilityResponse_valid
  by unfold_locales (erule GetCapabilityResponse_writes GetCapabilityResponse_reads | simp add: GetCapabilityResponse_enc_def)+

definition GetCapabilityResponse_resp :: "(TPM_HANDLE, GetCapabilityResponse) RespStructure" where
  "GetCapabilityResponse_resp = \<lparr>resp_default = GetCapabilityResponse_default, resp_initFromTpm = GetCapabilityResponse_initFromTpm,
     resp_numHandles = 0, resp_getHandle = (\<lambda>_. TPM_HANDLE_default),
     resp_setHandle = (\<lambda>_ self. self), resp_sessEncInfo = no_sessEncInfo\<rparr>"

subsection \<open>TPM2_TestParms_REQUEST\<close>

text \<open>This command is used to check to see if specific combinations of algorithm parameters are supported.\<close>

record TPM2_TestParms_REQUEST =
  TPM2_TestParms_REQUEST_parameters :: "TPMU_PUBLIC_PARMS option"

definition TPM2_TestParms_REQUEST_default :: TPM2_TestParms_REQUEST where
  "TPM2_TestParms_REQUEST_default = \<lparr>TPM2_TestParms_REQUEST_parameters = None\<rparr>"

definition TPM2_TestParms_REQUEST_toTpm :: "TPM2_TestParms_REQUEST \<Rightarrow> unit tpm" where
  "TPM2_TestParms_REQUEST_toTpm self =
     (if TPM2_TestParms_REQUEST_parameters self = None then ret ()
     else wseq [deref (TPM2_TestParms_REQUEST_parameters self) (\<lambda>u. writeShort (TPMU_PUBLIC_PARMS_GetUnionSelector u)),
       deref (TPM2_TestParms_REQUEST_parameters self) TPMU_PUBLIC_PARMS_toTpm])"

definition TPM2_TestParms_REQUEST_initFromTpm :: "TPM2_TestParms_REQUEST \<Rightarrow> TPM2_TestParms_REQUEST tpm" where
  "TPM2_TestParms_REQUEST_initFromTpm self =
     sbind readShort (\<lambda>parametersType.
     bindO (UnionFactory_Create_TPMU_PUBLIC_PARMS parametersType) (\<lambda>parameters.
     sbind (deref parameters TPMU_PUBLIC_PARMS_initFromTpm) (\<lambda>parameters.
     ret (self\<lparr>TPM2_TestParms_REQUEST_parameters := Some parameters\<rparr>))))"

definition TPM2_TestParms_REQUEST_enc :: "TPM2_TestParms_REQUEST \<Rightarrow> ByteVec" where
  "TPM2_TestParms_REQUEST_enc x =
     (if TPM2_TestParms_REQUEST_parameters x = None then []
     else opt_enc (\<lambda>u. enc16 (TPMU_PUBLIC_PARMS_GetUnionSelector u)) (TPM2_TestParms_REQUEST_parameters x) @
       opt_enc TPMU_PUBLIC_PARMS_enc (TPM2_TestParms_REQUEST_parameters x))"

definition TPM2_TestParms_REQUEST_valid :: "TPM2_TestParms_REQUEST \<Rightarrow> bool" where
  "TPM2_TestParms_REQUEST_valid x \<longleftrightarrow>
     opt_ok TPMU_PUBLIC_PARMS_valid (TPM2_TestParms_REQUEST_parameters x)"

lemma TPM2_TestParms_REQUEST_null: "TPM2_TestParms_REQUEST_toTpm TPM2_TestParms_REQUEST_default = ret ()" "TPM2_TestParms_REQUEST_enc TPM2_TestParms_REQUEST_default = []"
  by (simp_all add: TPM2_TestParms_REQUEST_toTpm_def TPM2_TestParms_REQUEST_enc_def TPM2_TestParms_REQUEST_default_def)

lemma TPM2_TestParms_REQUEST_writes [writes_intros]:
  "TPM2_TestParms_REQUEST_valid x \<Longrightarrow> writes (TPM2_TestParms_REQUEST_toTpm x) (TPM2_TestParms_REQUEST_enc x)"
  by (auto simp: TPM2_TestParms_REQUEST_toTpm_def TPM2_TestParms_REQUEST_enc_def TPM2_TestParms_REQUEST_valid_def opt_ok_iff
      simp del: wseq.simps intro!: writes_intros)

lemma TPM2_TestParms_REQUEST_reads:
  "TPM2_TestParms_REQUEST_valid x \<Longrightarrow> reads (TPM2_TestParms_REQUEST_initFromTpm TPM2_TestParms_REQUEST_default) x (TPM2_TestParms_REQUEST_enc x)"
  by (simp only: TPM2_TestParms_REQUEST_initFromTpm_def TPM2_TestParms_REQUEST_enc_def TPM2_TestParms_REQUEST_default_def
        TPM2_TestParms_REQUEST.select_convs TPM2_TestParms_REQUEST.update_convs;
      intro reads_intros; (rule TPM2_TestParms_REQUEST.equality)?; simp add: TPM2_TestParms_REQUEST_valid_def opt_ok_iff)

interpretation TPM2_TestParms_REQUEST_codec:
  tpm_codec TPM2_TestParms_REQUEST_toTpm TPM2_TestParms_REQUEST_initFromTpm TPM2_TestParms_REQUEST_default
    TPM2_TestParms_REQUEST_enc TPM2_TestParms_REQUEST_valid
  by unfold_locales (simp_all add: TPM2_TestParms_REQUEST_writes TPM2_TestParms_REQUEST_reads TPM2_TestParms_REQUEST_null writes_ret)

definition TPM2_TestParms_REQUEST_req :: "TPM2_TestParms_REQUEST \<Rightarrow> TPM_HANDLE ReqStructure" where
  "TPM2_TestParms_REQUEST_req self =
     \<lparr>req_toTpm = TPM2_TestParms_REQUEST_toTpm self, req_numHandles = 0,
     req_numAuthHandles = 0, req_getHandles = [], req_sessEncInfo = no_sessEncInfo\<rparr>"

subsection \<open>TPM2_NV_DefineSpace_REQUEST\<close>

text \<open>This command defines the attributes of an NV Index and causes the TPM to reserve space to hold the data associated with the NV Index.\<close>

record TPM2_NV_DefineSpace_REQUEST =
  TPM2_NV_DefineSpace_REQUEST_authHandle :: "TPM_HANDLE"
  TPM2_NV_DefineSpace_REQUEST_auth :: "ByteVec"
  TPM2_NV_DefineSpace_REQUEST_publicInfo :: "TPMS_NV_PUBLIC"

definition TPM2_NV_DefineSpace_REQUEST_default :: TPM2_NV_DefineSpace_REQUEST where
  "TPM2_NV_DefineSpace_REQUEST_default = \<lparr>TPM2_NV_DefineSpace_REQUEST_authHandle = TPM_HANDLE_default, TPM2_NV_DefineSpace_REQUEST_auth = [], TPM2_NV_DefineSpace_REQUEST_publicInfo = TPMS_NV_PUBLIC_default\<rparr>"

definition TPM2_NV_DefineSpace_REQUEST_toTpm :: "TPM2_NV_DefineSpace_REQUEST \<Rightarrow> unit tpm" where
  "TPM2_NV_DefineSpace_REQUEST_toTpm self =
     wseq [writeSizedByteBuf (TPM2_NV_DefineSpace_REQUEST_auth self) 2,
       writeSizedObj TPMS_NV_PUBLIC_toTpm (TPM2_NV_DefineSpace_REQUEST_publicInfo self)]"

definition TPM2_NV_DefineSpace_REQUEST_initFromTpm :: "TPM2_NV_DefineSpace_REQUEST \<Rightarrow> TPM2_NV_DefineSpace_REQUEST tpm" where
  "TPM2_NV_DefineSpace_REQUEST_initFromTpm self =
     sbind (readSizedByteBuf 2) (\<lambda>auth.
     sbind (readSizedObj TPMS_NV_PUBLIC_initFromTpm (TPM2_NV_DefineSpace_REQUEST_publicInfo self)) (\<lambda>publicInfo.
     ret (self\<lparr>TPM2_NV_DefineSpace_REQUEST_auth := auth, TPM2_NV_DefineSpace_REQUEST_publicInfo := publicInfo\<rparr>)))"

definition TPM2_NV_DefineSpace_REQUEST_enc :: "TPM2_NV_DefineSpace_REQUEST \<Rightarrow> ByteVec" where
  "TPM2_NV_DefineSpace_REQUEST_enc x =
     enc_sized 2 (TPM2_NV_DefineSpace_REQUEST_auth x) @
     enc_obj (TPMS_NV_PUBLIC_enc (TPM2_NV_DefineSpace_REQUEST_publicInfo x))"

definition TPM2_NV_DefineSpace_REQUEST_valid :: "TPM2_NV_DefineSpace_REQUEST \<Rightarrow> bool" where
  "TPM2_NV_DefineSpace_REQUEST_valid x \<longleftrightarrow>
     sized_ok 2 (TPM2_NV_DefineSpace_REQUEST_auth x) \<and>
     sized_obj_ok TPMS_NV_PUBLIC_default TPMS_NV_PUBLIC_enc TPMS_NV_PUBLIC_valid (TPM2_NV_DefineSpace_REQUEST_publicInfo x) \<and>
     TPM2_NV_DefineSpace_REQUEST_authHandle x = TPM_HANDLE_default"

lemma TPM2_NV_DefineSpace_REQUEST_writes [writes_intros]:
  "TPM2_NV_DefineSpace_REQUEST_valid x \<Longrightarrow> writes (TPM2_NV_DefineSpace_REQUEST_toTpm x) (TPM2_NV_DefineSpace_REQUEST_enc x)"
  unfolding TPM2_NV_DefineSpace_REQUEST_toTpm_def TPM2_NV_DefineSpace_REQUEST_enc_def
  by (intro writes_intros; simp add: TPM2_NV_DefineSpace_REQUEST_valid_def opt_ok_iff)

lemma TPM2_NV_DefineSpace_REQUEST_reads:
  "TPM2_NV_DefineSpace_REQUEST_valid x \<Longrightarrow> reads (TPM2_NV_DefineSpace_REQUEST_initFromTpm TPM2_NV_DefineSpace_REQUEST_default) x (TPM2_NV_DefineSpace_REQUEST_enc x)"
  by (simp only: TPM2_NV_DefineSpace_REQUEST_initFromTpm_def TPM2_NV_DefineSpace_REQUEST_enc_def TPM2_NV_DefineSpace_REQUEST_default_def
        TPM2_NV_DefineSpace_REQUEST.select_convs TPM2_NV_DefineSpace_REQUEST.update_convs;
      intro reads_intros; (rule TPM2_NV_DefineSpace_REQUEST.equality)?; simp add: TPM2_NV_DefineSpace_REQUEST_valid_def opt_ok_iff)

interpretation TPM2_NV_DefineSpace_REQUEST_codec:
  tpm_codec TPM2_NV_DefineSpace_REQUEST_toTpm TPM2_NV_DefineSpace_REQUEST_initFromTpm TPM2_NV_DefineSpace_REQUEST_default
    TPM2_NV_DefineSpace_REQUEST_enc TPM2_NV_DefineSpace_REQUEST_valid
  by unfold_locales (erule TPM2_NV_DefineSpace_REQUEST_writes TPM2_NV_DefineSpace_REQUEST_reads | simp add: TPM2_NV_DefineSpace_REQUEST_enc_def)+

definition TPM2_NV_DefineSpace_REQUEST_req :: "TPM2_NV_DefineSpace_REQUEST \<Rightarrow> TPM_HANDLE ReqStructure" where
  "TPM2_NV_DefineSpace_REQUEST_req self =
     \<lparr>req_toTpm = TPM2_NV_DefineSpace_REQUEST_toTpm self, req_numHandles = 1,
     req_numAuthHandles = 1, req_getHandles = [TPM2_NV_DefineSpace_REQUEST_authHandle self], req_sessEncInfo = \<lparr>sizeLen = 2, valLen = 1\<rparr>\<rparr>"

subsection \<open>TPM2_NV_UndefineSpace_REQUEST\<close>

text \<open>This command removes an Index from the TPM.\<close>

record TPM2_NV_UndefineSpace_REQUEST =
  TPM2_NV_UndefineSpace_REQUEST_authHandle :: "TPM_HANDLE"
  TPM2_NV_UndefineSpace_REQUEST_nvIndex :: "TPM_HANDLE"

definition TPM2_NV_UndefineSpace_REQUEST_default :: TPM2_NV_UndefineSpace_REQUEST where
  "TPM2_NV_UndefineSpace_REQUEST_default = \<lparr>TPM2_NV_UndefineSpace_REQUEST_authHandle = TPM_HANDLE_default, TPM2_NV_UndefineSpace_REQUEST_nvIndex = TPM_HANDLE_default\<rparr>"

definition TPM2_NV_UndefineSpace_REQUEST_toTpm :: "TPM2_NV_UndefineSpace_REQUEST \<Rightarrow> unit tpm" where
  "TPM2_NV_UndefineSpace_REQUEST_toTpm self =
     wseq []"

definition TPM2_NV_UndefineSpace_REQUEST_initFromTpm :: "TPM2_NV_UndefineSpace_REQUEST \<Rightarrow> TPM2_NV_UndefineSpace_REQUEST tpm" where
  "TPM2_NV_UndefineSpace_REQUEST_initFromTpm self =
     ret self"

definition TPM2_NV_UndefineSpace_REQUEST_enc :: "TPM2_NV_UndefineSpace_REQUEST \<Rightarrow> ByteVec" where
  "TPM2_NV_UndefineSpace_REQUEST_enc x =
     []"

definition TPM2_NV_UndefineSpace_REQUEST_valid :: "TPM2_NV_UndefineSpace_REQUEST \<Rightarrow> bool" where
  "TPM2_NV_UndefineSpace_REQUEST_valid x \<longleftrightarrow>
     TPM2_NV_UndefineSpace_REQUEST_authHandle x = TPM_HANDLE_default \<and>
     TPM2_NV_UndefineSpace_REQUEST_nvIndex x = TPM_HANDLE_default"

lemma TPM2_NV_UndefineSpace_REQUEST_writes [writes_intros]:
  "TPM2_NV_UndefineSpace_REQUEST_valid x \<Longrightarrow> writes (TPM2_NV_UndefineSpace_REQUEST_toTpm x) (TPM2_NV_UndefineSpace_REQUEST_enc x)"
  unfolding TPM2_NV_UndefineSpace_REQUEST_toTpm_def TPM2_NV_UndefineSpace_REQUEST_enc_def
  by (intro writes_intros; simp add: TPM2_NV_UndefineSpace_REQUEST_valid_def opt_ok_iff)

lemma TPM2_NV_UndefineSpace_REQUEST_reads:
  "TPM2_NV_UndefineSpace_REQUEST_valid x \<Longrightarrow> reads (TPM2_NV_UndefineSpace_REQUEST_initFromTpm TPM2_NV_UndefineSpace_REQUEST_default) x (TPM2_NV_UndefineSpace_REQUEST_enc x)"
  by (simp only: TPM2_NV_UndefineSpace_REQUEST_initFromTpm_def TPM2_NV_UndefineSpace_REQUEST_enc_def TPM2_NV_UndefineSpace_REQUEST_default_def
        TPM2_NV_UndefineSpace_REQUEST.select_convs TPM2_NV_UndefineSpace_REQUEST.update_convs;
      intro reads_intros; (rule TPM2_NV_UndefineSpace_REQUEST.equality)?; simp add: TPM2_NV_UndefineSpace_REQUEST_valid_def opt_ok_iff)

interpretation TPM2_NV_UndefineSpace_REQUEST_codec:
  tpm_codec TPM2_NV_UndefineSpace_REQUEST_toTpm TPM2_NV_UndefineSpace_REQUEST_initFromTpm TPM2_NV_UndefineSpace_REQUEST_default
    TPM2_NV_UndefineSpace_REQUEST_enc TPM2_NV_UndefineSpace_REQUEST_valid
  by unfold_locales (erule TPM2_NV_UndefineSpace_REQUEST_writes TPM2_NV_UndefineSpace_REQUEST_reads | simp add: TPM2_NV_UndefineSpace_REQUEST_toTpm_def writes_ret)+

definition TPM2_NV_UndefineSpace_REQUEST_req :: "TPM2_NV_UndefineSpace_REQUEST \<Rightarrow> TPM_HANDLE ReqStructure" where
  "TPM2_NV_UndefineSpace_REQUEST_req self =
     \<lparr>req_toTpm = TPM2_NV_UndefineSpace_REQUEST_toTpm self, req_numHandles = 2,
     req_numAuthHandles = 1, req_getHandles = [TPM2_NV_UndefineSpace_REQUEST_authHandle self, TPM2_NV_UndefineSpace_REQUEST_nvIndex self], req_sessEncInfo = no_sessEncInfo\<rparr>"

subsection \<open>TPM2_NV_UndefineSpaceSpecial_REQUEST\<close>

text \<open>This command allows removal of a platform-created NV Index that has TPMA_NV_POLICY_DELETE SET.\<close>

record TPM2_NV_UndefineSpaceSpecial_REQUEST =
  TPM2_NV_UndefineSpaceSpecial_REQUEST_nvIndex :: "TPM_HANDLE"
  TPM2_NV_UndefineSpaceSpecial_REQUEST_platform :: "TPM_HANDLE"

definition TPM2_NV_UndefineSpaceSpecial_REQUEST_default :: TPM2_NV_UndefineSpaceSpecial_REQUEST where
  "TPM2_NV_UndefineSpaceSpecial_REQUEST_default = \<lparr>TPM2_NV_UndefineSpaceSpecial_REQUEST_nvIndex = TPM_HANDLE_default, TPM2_NV_UndefineSpaceSpecial_REQUEST_platform = TPM_HANDLE_default\<rparr>"

definition TPM2_NV_UndefineSpaceSpecial_REQUEST_toTpm :: "TPM2_NV_UndefineSpaceSpecial_REQUEST \<Rightarrow> unit tpm" where
  "TPM2_NV_UndefineSpaceSpecial_REQUEST_toTpm self =
     wseq []"

definition TPM2_NV_UndefineSpaceSpecial_REQUEST_initFromTpm :: "TPM2_NV_UndefineSpaceSpecial_REQUEST \<Rightarrow> TPM2_NV_UndefineSpaceSpecial_REQUEST tpm" where
  "TPM2_NV_UndefineSpaceSpecial_REQUEST_initFromTpm self =
     ret self"

definition TPM2_NV_UndefineSpaceSpecial_REQUEST_enc :: "TPM2_NV_UndefineSpaceSpecial_REQUEST \<Rightarrow> ByteVec" where
  "TPM2_NV_UndefineSpaceSpecial_REQUEST_enc x =
     []"

definition TPM2_NV_UndefineSpaceSpecial_REQUEST_valid :: "TPM2_NV_UndefineSpaceSpecial_REQUEST \<Rightarrow> bool" where
  "TPM2_NV_UndefineSpaceSpecial_REQUEST_valid x \<longleftrightarrow>
     TPM2_NV_UndefineSpaceSpecial_REQUEST_nvIndex x = TPM_HANDLE_default \<and>
     TPM2_NV_UndefineSpaceSpecial_REQUEST_platform x = TPM_HANDLE_default"

lemma TPM2_NV_UndefineSpaceSpecial_REQUEST_writes [writes_intros]:
  "TPM2_NV_UndefineSpaceSpecial_REQUEST_valid x \<Longrightarrow> writes (TPM2_NV_UndefineSpaceSpecial_REQUEST_toTpm x) (TPM2_NV_UndefineSpaceSpecial_REQUEST_enc x)"
  unfolding TPM2_NV_UndefineSpaceSpecial_REQUEST_toTpm_def TPM2_NV_UndefineSpaceSpecial_REQUEST_enc_def
  by (intro writes_intros; simp add: TPM2_NV_UndefineSpaceSpecial_REQUEST_valid_def opt_ok_iff)

lemma TPM2_NV_UndefineSpaceSpecial_REQUEST_reads:
  "TPM2_NV_UndefineSpaceSpecial_REQUEST_valid x \<Longrightarrow> reads (TPM2_NV_UndefineSpaceSpecial_REQUEST_initFromTpm TPM2_NV_UndefineSpaceSpecial_REQUEST_default) x (TPM2_NV_UndefineSpaceSpecial_REQUEST_enc x)"
  by (simp only: TPM2_NV_UndefineSpaceSpecial_REQUEST_initFromTpm_def TPM2_NV_UndefineSpaceSpecial_REQUEST_enc_def TPM2_NV_UndefineSpaceSpecial_REQUEST_default_def
        TPM2_NV_UndefineSpaceSpecial_REQUEST.select_convs TPM2_NV_UndefineSpaceSpecial_REQUEST.update_convs;
      intro reads_intros; (rule TPM2_NV_UndefineSpaceSpecial_REQUEST.equality)?; simp add: TPM2_NV_UndefineSpaceSpecial_REQUEST_valid_def opt_ok_iff)

interpretation TPM2_NV_UndefineSpaceSpecial_REQUEST_codec:
  tpm_codec TPM2_NV_UndefineSpaceSpecial_REQUEST_toTpm TPM2_NV_UndefineSpaceSpecial_REQUEST_initFromTpm TPM2_NV_UndefineSpaceSpecial_REQUEST_default
    TPM2_NV_UndefineSpaceSpecial_REQUEST_enc TPM2_NV_UndefineSpaceSpecial_REQUEST_valid
  by unfold_locales (erule TPM2_NV_UndefineSpaceSpecial_REQUEST_writes TPM2_NV_UndefineSpaceSpecial_REQUEST_reads | simp add: TPM2_NV_UndefineSpaceSpecial_REQUEST_toTpm_def writes_ret)+

definition TPM2_NV_UndefineSpaceSpecial_REQUEST_req :: "TPM2_NV_UndefineSpaceSpecial_REQUEST \<Rightarrow> TPM_HANDLE ReqStructure" where
  "TPM2_NV_UndefineSpaceSpecial_REQUEST_req self =
     \<lparr>req_toTpm = TPM2_NV_UndefineSpaceSpecial_REQUEST_toTpm self, req_numHandles = 2,
     req_numAuthHandles = 2, req_getHandles = [TPM2_NV_UndefineSpaceSpecial_REQUEST_nvIndex self, TPM2_NV_UndefineSpaceSpecial_REQUEST_platform self], req_sessEncInfo = no_sessEncInfo\<rparr>"

subsection \<open>TPM2_NV_ReadPublic_REQUEST\<close>

text \<open>This command is used to read the public area and Name of an NV Index.\<close>

record TPM2_NV_ReadPublic_REQUEST =
  TPM2_NV_ReadPublic_REQUEST_nvIndex :: "TPM_HANDLE"

definition TPM2_NV_ReadPublic_REQUEST_default :: TPM2_NV_ReadPublic_REQUEST where
  "TPM2_NV_ReadPublic_REQUEST_default = \<lparr>TPM2_NV_ReadPublic_REQUEST_nvIndex = TPM_HANDLE_default\<rparr>"

definition TPM2_NV_ReadPublic_REQUEST_toTpm :: "TPM2_NV_ReadPublic_REQUEST \<Rightarrow> unit tpm" where
  "TPM2_NV_ReadPublic_REQUEST_toTpm self =
     wseq []"

definition TPM2_NV_ReadPublic_REQUEST_initFromTpm :: "TPM2_NV_ReadPublic_REQUEST \<Rightarrow> TPM2_NV_ReadPublic_REQUEST tpm" where
  "TPM2_NV_ReadPublic_REQUEST_initFromTpm self =
     ret self"

definition TPM2_NV_ReadPublic_REQUEST_enc :: "TPM2_NV_ReadPublic_REQUEST \<Rightarrow> ByteVec" where
  "TPM2_NV_ReadPublic_REQUEST_enc x =
     []"

definition TPM2_NV_ReadPublic_REQUEST_valid :: "TPM2_NV_ReadPublic_REQUEST \<Rightarrow> bool" where
  "TPM2_NV_ReadPublic_REQUEST_valid x \<longleftrightarrow>
     TPM2_NV_ReadPublic_REQUEST_nvIndex x = TPM_HANDLE_default"

lemma TPM2_NV_ReadPublic_REQUEST_writes [writes_intros]:
  "TPM2_NV_ReadPublic_REQUEST_valid x \<Longrightarrow> writes (TPM2_NV_ReadPublic_REQUEST_toTpm x) (TPM2_NV_ReadPublic_REQUEST_enc x)"
  unfolding TPM2_NV_ReadPublic_REQUEST_toTpm_def TPM2_NV_ReadPublic_REQUEST_enc_def
  by (intro writes_intros; simp add: TPM2_NV_ReadPublic_REQUEST_valid_def opt_ok_iff)

lemma TPM2_NV_ReadPublic_REQUEST_reads:
  "TPM2_NV_ReadPublic_REQUEST_valid x \<Longrightarrow> reads (TPM2_NV_ReadPublic_REQUEST_initFromTpm TPM2_NV_ReadPublic_REQUEST_default) x (TPM2_NV_ReadPublic_REQUEST_enc x)"
  by (simp only: TPM2_NV_ReadPublic_REQUEST_initFromTpm_def TPM2_NV_ReadPublic_REQUEST_enc_def TPM2_NV_ReadPublic_REQUEST_default_def
        TPM2_NV_ReadPublic_REQUEST.select_convs TPM2_NV_ReadPublic_REQUEST.update_convs;
      intro reads_intros; (rule TPM2_NV_ReadPublic_REQUEST.equality)?; simp add: TPM2_NV_ReadPublic_REQUEST_valid_def opt_ok_iff)

interpretation TPM2_NV_ReadPublic_REQUEST_codec:
  tpm_codec TPM2_NV_ReadPublic_REQUEST_toTpm TPM2_NV_ReadPublic_REQUEST_initFromTpm TPM2_NV_ReadPublic_REQUEST_default
    TPM2_NV_ReadPublic_REQUEST_enc TPM2_NV_ReadPublic_REQUEST_valid
  by unfold_locales (erule TPM2_NV_ReadPublic_REQUEST_writes TPM2_NV_ReadPublic_REQUEST_reads | simp add: TPM2_NV_ReadPublic_REQUEST_toTpm_def writes_ret)+

definition TPM2_NV_ReadPublic_REQUEST_req :: "TPM2_NV_ReadPublic_REQUEST \<Rightarrow> TPM_HANDLE ReqStructure" where
  "TPM2_NV_ReadPublic_REQUEST_req self =
     \<lparr>req_toTpm = TPM2_NV_ReadPublic_REQUEST_toTpm self, req_numHandles = 1,
     req_numAuthHandles = 0, req_getHandles = [TPM2_NV_ReadPublic_REQUEST_nvIndex self], req_sessEncInfo = no_sessEncInfo\<rparr>"

subsection \<open>NV_ReadPublicResponse\<close>

text \<open>This command is used to read the public area and Name of an NV Index.\<close>

record NV_ReadPublicResponse =
  NV_ReadPublicResponse_nvPublic :: "TPMS_NV_PUBLIC"
  NV_ReadPublicResponse_nvName :: "ByteVec"

definition NV_ReadPublicResponse_default :: NV_ReadPublicResponse where
  "NV_ReadPublicResponse_default = \<lparr>NV_ReadPublicResponse_nvPublic = TPMS_NV_PUBLIC_default, NV_ReadPublicResponse_nvName = []\<rparr>"

definition NV_ReadPublicResponse_toTpm :: "NV_ReadPublicResponse \<Rightarrow> unit tpm" where
  "NV_ReadPublicResponse_toTpm self =
     wseq [writeSizedObj TPMS_NV_PUBLIC_toTpm (NV_ReadPublicResponse_nvPublic self),
       writeSizedByteBuf (NV_ReadPublicResponse_nvName self) 2]"

definition NV_ReadPublicResponse_initFromTpm :: "NV_ReadPublicResponse \<Rightarrow> NV_ReadPublicResponse tpm" where
  "NV_ReadPublicResponse_initFromTpm self =
     sbind (readSizedObj TPMS_NV_PUBLIC_initFromTpm (NV_ReadPublicResponse_nvPublic self)) (\<lambda>nvPublic.
     sbind (readSizedByteBuf 2) (\<lambda>nvName.
     ret (self\<lparr>NV_ReadPublicResponse_nvPublic := nvPublic, NV_ReadPublicResponse_nvName := nvName\<rparr>)))"

definition NV_ReadPublicResponse_enc :: "NV_ReadPublicResponse \<Rightarrow> ByteVec" where
  "NV_ReadPublicResponse_enc x =
     enc_obj (TPMS_NV_PUBLIC_enc (NV_ReadPublicResponse_nvPublic x)) @
     enc_sized 2 (NV_ReadPublicResponse_nvName x)"

definition NV_ReadPublicResponse_valid :: "NV_ReadPublicResponse \<Rightarrow> bool" where
  "NV_ReadPublicResponse_valid x \<longleftrightarrow>
     sized_obj_ok TPMS_NV_PUBLIC_default TPMS_NV_PUBLIC_enc TPMS_NV_PUBLIC_valid (NV_ReadPublicResponse_nvPublic x) \<and>
     sized_ok 2 (NV_ReadPublicResponse_nvName x)"

lemma NV_ReadPublicResponse_writes [writes_intros]:
  "NV_ReadPublicResponse_valid x \<Longrightarrow> writes (NV_ReadPublicResponse_toTpm x) (NV_ReadPublicResponse_enc x)"
  unfolding NV_ReadPublicResponse_toTpm_def NV_ReadPublicResponse_enc_def
  by (intro writes_intros; simp add: NV_ReadPublicResponse_valid_def opt_ok_iff)

lemma NV_ReadPublicResponse_reads:
  "NV_ReadPublicResponse_valid x \<Longrightarrow> reads (NV_ReadPublicResponse_initFromTpm NV_ReadPublicResponse_default) x (NV_ReadPublicResponse_enc x)"
  by (simp only: NV_ReadPublicResponse_initFromTpm_def NV_ReadPublicResponse_enc_def NV_ReadPublicResponse_default_def
        NV_ReadPublicResponse.select_convs NV_ReadPublicResponse.update_convs;
      intro reads_intros; (rule NV_ReadPublicResponse.equality)?; simp add: NV_ReadPublicResponse_valid_def opt_ok_iff)

interpretation NV_ReadPublicResponse_codec:
  tpm_codec NV_ReadPublicResponse_toTpm NV_ReadPublicResponse_initFromTpm NV_ReadPublicResponse_default
    NV_ReadPublicResponse_enc NV_ReadPublicResponse_valid
  by unfold_locales (erule NV_ReadPublicResponse_writes NV_ReadPublicResponse_reads | simp add: NV_ReadPublicResponse_enc_def)+

definition NV_ReadPublicResponse_resp :: "(TPM_HANDLE, NV_ReadPublicResponse) RespStructure" where
  "NV_ReadPublicResponse_resp = \<lparr>resp_default = NV_ReadPublicResponse_default, resp_initFromTpm = NV_ReadPublicResponse_initFromTpm,
     resp_numHandles = 0, resp_getHandle = (\<lambda>_. TPM_HANDLE_default),
     resp_setHandle = (\<lambda>_ self. self), resp_sessEncInfo = \<lparr>sizeLen = 2, valLen = 1\<rparr>\<rparr>"

subsection \<open>TPM2_NV_Write_REQUEST\<close>

text \<open>This command writes a value to an area in NV memory that was previously defined by TPM2_NV_DefineSpace().\<close>

record TPM2_NV_Write_REQUEST =
  TPM2_NV_Write_REQUEST_authHandle :: "TPM_HANDLE"
  TPM2_NV_Write_REQUEST_nvIndex :: "TPM_HANDLE"
  TPM2_NV_Write_REQUEST_data :: "ByteVec"
  TPM2_NV_Write_REQUEST_offset :: "UINT16"

definition TPM2_NV_Write_REQUEST_default :: TPM2_NV_Write_REQUEST where
  "TPM2_NV_Write_REQUEST_default = \<lparr>TPM2_NV_Write_REQUEST_authHandle = TPM_HANDLE_default, TPM2_NV_Write_REQUEST_nvIndex = TPM_HANDLE_default, TPM2_NV_Write_REQUEST_data = [], TPM2_NV_Write_REQUEST_offset = 0\<rparr>"

definition TPM2_NV_Write_REQUEST_toTpm :: "TPM2_NV_Write_REQUEST \<Rightarrow> unit tpm" where
  "TPM2_NV_Write_REQUEST_toTpm self =
     wseq [writeSizedByteBuf (TPM2_NV_Write_REQUEST_data self) 2,
       writeShort (TPM2_NV_Write_REQUEST_offset self)]"

definition TPM2_NV_Write_REQUEST_initFromTpm :: "TPM2_NV_Write_REQUEST \<Rightarrow> TPM2_NV_Write_REQUEST tpm" where
  "TPM2_NV_Write_REQUEST_initFromTpm self =
     sbind (readSizedByteBuf 2) (\<lambda>data.
     sbind readShort (\<lambda>offset.
     ret (self\<lparr>TPM2_NV_Write_REQUEST_data := data, TPM2_NV_Write_REQUEST_offset := offset\<rparr>)))"

definition TPM2_NV_Write_REQUEST_enc :: "TPM2_NV_Write_REQUEST \<Rightarrow> ByteVec" where
  "TPM2_NV_Write_REQUEST_enc x =
     enc_sized 2 (TPM2_NV_Write_REQUEST_data x) @
     enc16 (TPM2_NV_Write_REQUEST_offset x)"

definition TPM2_NV_Write_REQUEST_valid :: "TPM2_NV_Write_REQUEST \<Rightarrow> bool" where
  "TPM2_NV_Write_REQUEST_valid x \<longleftrightarrow>
     sized_ok 2 (TPM2_NV_Write_REQUEST_data x) \<and>
     TPM2_NV_Write_REQUEST_authHandle x = TPM_HANDLE_default \<and>
     TPM2_NV_Write_REQUEST_nvIndex x = TPM_HANDLE_default"

lemma TPM2_NV_Write_REQUEST_writes [writes_intros]:
  "TPM2_NV_Write_REQUEST_valid x \<Longrightarrow> writes (TPM2_NV_Write_REQUEST_toTpm x) (TPM2_NV_Write_REQUEST_enc x)"
  unfolding TPM2_NV_Write_REQUEST_toTpm_def TPM2_NV_Write_REQUEST_enc_def
  by (intro writes_intros; simp add: TPM2_NV_Write_REQUEST_valid_def opt_ok_iff)

lemma TPM2_NV_Write_REQUEST_reads:
  "TPM2_NV_Write_REQUEST_valid x \<Longrightarrow> reads (TPM2_NV_Write_REQUEST_initFromTpm TPM2_NV_Write_REQUEST_default) x (TPM2_NV_Write_REQUEST_enc x)"
  by (simp only: TPM2_NV_Write_REQUEST_initFromTpm_def TPM2_NV_Write_REQUEST_enc_def TPM2_NV_Write_REQUEST_default_def
        TPM2_NV_Write_REQUEST.select_convs TPM2_NV_Write_REQUEST.update_convs;
      intro reads_intros; (rule TPM2_NV_Write_REQUEST.equality)?; simp add: TPM2_NV_Write_REQUEST_valid_def opt_ok_iff)

interpretation TPM2_NV_Write_REQUEST_codec:
  tpm_codec TPM2_NV_Write_REQUEST_toTpm TPM2_NV_Write_REQUEST_initFromTpm TPM2_NV_Write_REQUEST_default
    TPM2_NV_Write_REQUEST_enc TPM2_NV_Write_REQUEST_valid
  by unfold_locales (erule TPM2_NV_Write_REQUEST_writes TPM2_NV_Write_REQUEST_reads | simp add: TPM2_NV_Write_REQUEST_enc_def)+

definition TPM2_NV_Write_REQUEST_req :: "TPM2_NV_Write_REQUEST \<Rightarrow> TPM_HANDLE ReqStructure" where
  "TPM2_NV_Write_REQUEST_req self =
     \<lparr>req_toTpm = TPM2_NV_Write_REQUEST_toTpm self, req_numHandles = 2,
     req_numAuthHandles = 1, req_getHandles = [TPM2_NV_Write_REQUEST_authHandle self, TPM2_NV_Write_REQUEST_nvIndex self], req_sessEncInfo = \<lparr>sizeLen = 2, valLen = 1\<rparr>\<rparr>"

subsection \<open>TPM2_NV_Increment_REQUEST\<close>

text \<open>This command is used to increment the value in an NV Index that has the TPM_NT_COUNTER attribute.\<close>

record TPM2_NV_Increment_REQUEST =
  TPM2_NV_Increment_REQUEST_authHandle :: "TPM_HANDLE"
  TPM2_NV_Increment_REQUEST_nvIndex :: "TPM_HANDLE"

definition TPM2_NV_Increment_REQUEST_default :: TPM2_NV_Increment_REQUEST where
  "TPM2_NV_Increment_REQUEST_default = \<lparr>TPM2_NV_Increment_REQUEST_authHandle = TPM_HANDLE_default, TPM2_NV_Increment_REQUEST_nvIndex = TPM_HANDLE_default\<rparr>"

definition TPM2_NV_Increment_REQUEST_toTpm :: "TPM2_NV_Increment_REQUEST \<Rightarrow> unit tpm" where
  "TPM2_NV_Increment_REQUEST_toTpm self =
     wseq []"

definition TPM2_NV_Increment_REQUEST_initFromTpm :: "TPM2_NV_Increment_REQUEST \<Rightarrow> TPM2_NV_Increment_REQUEST tpm" where
  "TPM2_NV_Increment_REQUEST_initFromTpm self =
     ret self"

definition TPM2_NV_Increment_REQUEST_enc :: "TPM2_NV_Increment_REQUEST \<Rightarrow> ByteVec" where
  "TPM2_NV_Increment_REQUEST_enc x =
     []"

definition TPM2_NV_Increment_REQUEST_valid :: "TPM2_NV_Increment_REQUEST \<Rightarrow> bool" where
  "TPM2_NV_Increment_REQUEST_valid x \<longleftrightarrow>
     TPM2_NV_Increment_REQUEST_authHandle x = TPM_HANDLE_default \<and>
     TPM2_NV_Increment_REQUEST_nvIndex x = TPM_HANDLE_default"

lemma TPM2_NV_Increment_REQUEST_writes [writes_intros]:
  "TPM2_NV_Increment_REQUEST_valid x \<Longrightarrow> writes (TPM2_NV_Increment_REQUEST_toTpm x) (TPM2_NV_Increment_REQUEST_enc x)"
  unfolding TPM2_NV_Increment_REQUEST_toTpm_def TPM2_NV_Increment_REQUEST_enc_def
  by (intro writes_intros; simp add: TPM2_NV_Increment_REQUEST_valid_def opt_ok_iff)

lemma TPM2_NV_Increment_REQUEST_reads:
  "TPM2_NV_Increment_REQUEST_valid x \<Longrightarrow> reads (TPM2_NV_Increment_REQUEST_initFromTpm TPM2_NV_Increment_REQUEST_default) x (TPM2_NV_Increment_REQUEST_enc x)"
  by (simp only: TPM2_NV_Increment_REQUEST_initFromTpm_def TPM2_NV_Increment_REQUEST_enc_def TPM2_NV_Increment_REQUEST_default_def
        TPM2_NV_Increment_REQUEST.select_convs TPM2_NV_Increment_REQUEST.update_convs;
      intro reads_intros; (rule TPM2_NV_Increment_REQUEST.equality)?; simp add: TPM2_NV_Increment_REQUEST_valid_def opt_ok_iff)

interpretation TPM2_NV_Increment_REQUEST_codec:
  tpm_codec TPM2_NV_Increment_REQUEST_toTpm TPM2_NV_Increment_REQUEST_initFromTpm TPM2_NV_Increment_REQUEST_default
    TPM2_NV_Increment_REQUEST_enc TPM2_NV_Increment_REQUEST_valid
  by unfold_locales (erule TPM2_NV_Increment_REQUEST_writes TPM2_NV_Increment_REQUEST_reads | simp add: TPM2_NV_Increment_REQUEST_toTpm_def writes_ret)+

definition TPM2_NV_Increment_REQUEST_req :: "TPM2_NV_Increment_REQUEST \<Rightarrow> TPM_HANDLE ReqStructure" where
  "TPM2_NV_Increment_REQUEST_req self =
     \<lparr>req_toTpm = TPM2_NV_Increment_REQUEST_toTpm self, req_numHandles = 2,
     req_numAuthHandles = 1, req_getHandles = [TPM2_NV_Increment_REQUEST_authHandle self, TPM2_NV_Increment_REQUEST_nvIndex self], req_sessEncInfo = no_sessEncInfo\<rparr>"

subsection \<open>TPM2_NV_Extend_REQUEST\<close>

text \<open>This command extends a value to an area in NV memory that was previously defined by TPM2_NV_DefineSpace.\<close>

record TPM2_NV_Extend_REQUEST =
  TPM2_NV_Extend_REQUEST_authHandle :: "TPM_HANDLE"
  TPM2_NV_Extend_REQUEST_nvIndex :: "TPM_HANDLE"
  TPM2_NV_Extend_REQUEST_data :: "ByteVec"

definition TPM2_NV_Extend_REQUEST_default :: TPM2_NV_Extend_REQUEST where
  "TPM2_NV_Extend_REQUEST_default = \<lparr>TPM2_NV_Extend_REQUEST_authHandle = TPM_HANDLE_default, TPM2_NV_Extend_REQUEST_nvIndex = TPM_HANDLE_default, TPM2_NV_Extend_REQUEST_data = []\<rparr>"

definition TPM2_NV_Extend_REQUEST_toTpm :: "TPM2_NV_Extend_REQUEST \<Rightarrow> unit tpm" where
  "TPM2_NV_Extend_REQUEST_toTpm self =
     wseq [writeSizedByteBuf (TPM2_NV_Extend_REQUEST_data self) 2]"

definition TPM2_NV_Extend_REQUEST_initFromTpm :: "TPM2_NV_Extend_REQUEST \<Rightarrow> TPM2_NV_Extend_REQUEST tpm" where
  "TPM2_NV_Extend_REQUEST_initFromTpm self =
     sbind (readSizedByteBuf 2) (\<lambda>data.
     ret (self\<lparr>TPM2_NV_Extend_REQUEST_data := data\<rparr>))"

definition TPM2_NV_Extend_REQUEST_enc :: "TPM2_NV_Extend_REQUEST \<Rightarrow> ByteVec" where
  "TPM2_NV_Extend_REQUEST_enc x =
     enc_sized 2 (TPM2_NV_Extend_REQUEST_data x)"

definition TPM2_NV_Extend_REQUEST_valid :: "TPM2_NV_Extend_REQUEST \<Rightarrow> bool" where
  "TPM2_NV_Extend_REQUEST_valid x \<longleftrightarrow>
     sized_ok 2 (TPM2_NV_Extend_REQUEST_data x) \<and>
     TPM2_NV_Extend_REQUEST_authHandle x = TPM_HANDLE_default \<and>
     TPM2_NV_Extend_REQUEST_nvIndex x = TPM_HANDLE_default"

lemma TPM2_NV_Extend_REQUEST_writes [writes_intros]:
  "TPM2_NV_Extend_REQUEST_valid x \<Longrightarrow> writes (TPM2_NV_Extend_REQUEST_toTpm x) (TPM2_NV_Extend_REQUEST_enc x)"
  unfolding TPM2_NV_Extend_REQUEST_toTpm_def TPM2_NV_Extend_REQUEST_enc_def
  by (intro writes_intros; simp add: TPM2_NV_Extend_REQUEST_valid_def opt_ok_iff)

lemma TPM2_NV_Extend_REQUEST_reads:
  "TPM2_NV_Extend_REQUEST_valid x \<Longrightarrow> reads (TPM2_NV_Extend_REQUEST_initFromTpm TPM2_NV_Extend_REQUEST_default) x (TPM2_NV_Extend_REQUEST_enc x)"
  by (simp only: TPM2_NV_Extend_REQUEST_initFromTpm_def TPM2_NV_Extend_REQUEST_enc_def TPM2_NV_Extend_REQUEST_default_def
        TPM2_NV_Extend_REQUEST.select_convs TPM2_NV_Extend_REQUEST.update_convs;
      intro reads_intros; (rule TPM2_NV_Extend_REQUEST.equality)?; simp add: TPM2_NV_Extend_REQUEST_valid_def opt_ok_iff)

interpretation TPM2_NV_Extend_REQUEST_codec:
  tpm_codec TPM2_NV_Extend_REQUEST_toTpm TPM2_NV_Extend_REQUEST_initFromTpm TPM2_NV_Extend_REQUEST_default
    TPM2_NV_Extend_REQUEST_enc TPM2_NV_Extend_REQUEST_valid
  by unfold_locales (erule TPM2_NV_Extend_REQUEST_writes TPM2_NV_Extend_REQUEST_reads | simp add: TPM2_NV_Extend_REQUEST_enc_def)+

definition TPM2_NV_Extend_REQUEST_req :: "TPM2_NV_Extend_REQUEST \<Rightarrow> TPM_HANDLE ReqStructure" where
  "TPM2_NV_Extend_REQUEST_req self =
     \<lparr>req_toTpm = TPM2_NV_Extend_REQUEST_toTpm self, req_numHandles = 2,
     req_numAuthHandles = 1, req_getHandles = [TPM2_NV_Extend_REQUEST_authHandle self, TPM2_NV_Extend_REQUEST_nvIndex self], req_sessEncInfo = \<lparr>sizeLen = 2, valLen = 1\<rparr>\<rparr>"

subsection \<open>TPM2_NV_SetBits_REQUEST\<close>

text \<open>This command is used to SET bits in an NV Index that was created as a bit field.\<close>

record TPM2_NV_SetBits_REQUEST =
  TPM2_NV_SetBits_REQUEST_authHandle :: "TPM_HANDLE"
  TPM2_NV_SetBits_REQUEST_nvIndex :: "TPM_HANDLE"
  TPM2_NV_SetBits_REQUEST_bits :: "UINT64"

definition TPM2_NV_SetBits_REQUEST_default :: TPM2_NV_SetBits_REQUEST where
  "TPM2_NV_SetBits_REQUEST_default = \<lparr>TPM2_NV_SetBits_REQUEST_authHandle = TPM_HANDLE_default, TPM2_NV_SetBits_REQUEST_nvIndex = TPM_HANDLE_default, TPM2_NV_SetBits_REQUEST_bits = 0\<rparr>"

definition TPM2_NV_SetBits_REQUEST_toTpm :: "TPM2_NV_SetBits_REQUEST \<Rightarrow> unit tpm" where
  "TPM2_NV_SetBits_REQUEST_toTpm self =
     wseq [writeInt64 (TPM2_NV_SetBits_REQUEST_bits self)]"

definition TPM2_NV_SetBits_REQUEST_initFromTpm :: "TPM2_NV_SetBits_REQUEST \<Rightarrow> TPM2_NV_SetBits_REQUEST tpm" where
  "TPM2_NV_SetBits_REQUEST_initFromTpm self =
     sbind readInt64 (\<lambda>bits.
     ret (self\<lparr>TPM2_NV_SetBits_REQUEST_bits := bits\<rparr>))"

definition TPM2_NV_SetBits_REQUEST_enc :: "TPM2_NV_SetBits_REQUEST \<Rightarrow> ByteVec" where
  "TPM2_NV_SetBits_REQUEST_enc x =
     enc64 (TPM2_NV_SetBits_REQUEST_bits x)"

definition TPM2_NV_SetBits_REQUEST_valid :: "TPM2_NV_SetBits_REQUEST \<Rightarrow> bool" where
  "TPM2_NV_SetBits_REQUEST_valid x \<longleftrightarrow>
     TPM2_NV_SetBits_REQUEST_authHandle x = TPM_HANDLE_default \<and>
     TPM2_NV_SetBits_REQUEST_nvIndex x = TPM_HANDLE_default"

lemma TPM2_NV_SetBits_REQUEST_writes [writes_intros]:
  "TPM2_NV_SetBits_REQUEST_valid x \<Longrightarrow> writes (TPM2_NV_SetBits_REQUEST_toTpm x) (TPM2_NV_SetBits_REQUEST_enc x)"
  unfolding TPM2_NV_SetBits_REQUEST_toTpm_def TPM2_NV_SetBits_REQUEST_enc_def
  by (intro writes_intros; simp add: TPM2_NV_SetBits_REQUEST_valid_def opt_ok_iff)

lemma TPM2_NV_SetBits_REQUEST_reads:
  "TPM2_NV_SetBits_REQUEST_valid x \<Longrightarrow> reads (TPM2_NV_SetBits_REQUEST_initFromTpm TPM2_NV_SetBits_REQUEST_default) x (TPM2_NV_SetBits_REQUEST_enc x)"
  by (simp only: TPM2_NV_SetBits_REQUEST_initFromTpm_def TPM2_NV_SetBits_REQUEST_enc_def TPM2_NV_SetBits_REQUEST_default_def
        TPM2_NV_SetBits_REQUEST.select_convs TPM2_NV_SetBits_REQUEST.update_convs;
      intro reads_intros; (rule TPM2_NV_SetBits_REQUEST.equality)?; simp add: TPM2_NV_SetBits_REQUEST_valid_def opt_ok_iff)

interpretation TPM2_NV_SetBits_REQUEST_codec:
  tpm_codec TPM2_NV_SetBits_REQUEST_toTpm TPM2_NV_SetBits_REQUEST_initFromTpm TPM2_NV_SetBits_REQUEST_default
    TPM2_NV_SetBits_REQUEST_enc TPM2_NV_SetBits_REQUEST_valid
  by unfold_locales (erule TPM2_NV_SetBits_REQUEST_writes TPM2_NV_SetBits_REQUEST_reads | simp add: TPM2_NV_SetBits_REQUEST_enc_def)+

definition TPM2_NV_SetBits_REQUEST_req :: "TPM2_NV_SetBits_REQUEST \<Rightarrow> TPM_HANDLE ReqStructure" where
  "TPM2_NV_SetBits_REQUEST_req self =
     \<lparr>req_toTpm = TPM2_NV_SetBits_REQUEST_toTpm self, req_numHandles = 2,
     req_numAuthHandles = 1, req_getHandles = [TPM2_NV_SetBits_REQUEST_authHandle self, TPM2_NV_SetBits_REQUEST_nvIndex self], req_sessEncInfo = no_sessEncInfo\<rparr>"

subsection \<open>TPM2_NV_WriteLock_REQUEST\<close>

text \<open>If the TPMA_NV_WRITEDEFINE or TPMA_NV_WRITE_STCLEAR attributes of an NV location are SET, then this command may be used to inhibit further writes of ....\<close>

record TPM2_NV_WriteLock_REQUEST =
  TPM2_NV_WriteLock_REQUEST_authHandle :: "TPM_HANDLE"
  TPM2_NV_WriteLock_REQUEST_nvIndex :: "TPM_HANDLE"

definition TPM2_NV_WriteLock_REQUEST_default :: TPM2_NV_WriteLock_REQUEST where
  "TPM2_NV_WriteLock_REQUEST_default = \<lparr>TPM2_NV_WriteLock_REQUEST_authHandle = TPM_HANDLE_default, TPM2_NV_WriteLock_REQUEST_nvIndex = TPM_HANDLE_default\<rparr>"

definition TPM2_NV_WriteLock_REQUEST_toTpm :: "TPM2_NV_WriteLock_REQUEST \<Rightarrow> unit tpm" where
  "TPM2_NV_WriteLock_REQUEST_toTpm self =
     wseq []"

definition TPM2_NV_WriteLock_REQUEST_initFromTpm :: "TPM2_NV_WriteLock_REQUEST \<Rightarrow> TPM2_NV_WriteLock_REQUEST tpm" where
  "TPM2_NV_WriteLock_REQUEST_initFromTpm self =
     ret self"

definition TPM2_NV_WriteLock_REQUEST_enc :: "TPM2_NV_WriteLock_REQUEST \<Rightarrow> ByteVec" where
  "TPM2_NV_WriteLock_REQUEST_enc x =
     []"

definition TPM2_NV_WriteLock_REQUEST_valid :: "TPM2_NV_WriteLock_REQUEST \<Rightarrow> bool" where
  "TPM2_NV_WriteLock_REQUEST_valid x \<longleftrightarrow>
     TPM2_NV_WriteLock_REQUEST_authHandle x = TPM_HANDLE_default \<and>
     TPM2_NV_WriteLock_REQUEST_nvIndex x = TPM_HANDLE_default"

lemma TPM2_NV_WriteLock_REQUEST_writes [writes_intros]:
  "TPM2_NV_WriteLock_REQUEST_valid x \<Longrightarrow> writes (TPM2_NV_WriteLock_REQUEST_toTpm x) (TPM2_NV_WriteLock_REQUEST_enc x)"
  unfolding TPM2_NV_WriteLock_REQUEST_toTpm_def TPM2_NV_WriteLock_REQUEST_enc_def
  by (intro writes_intros; simp add: TPM2_NV_WriteLock_REQUEST_valid_def opt_ok_iff)

lemma TPM2_NV_WriteLock_REQUEST_reads:
  "TPM2_NV_WriteLock_REQUEST_valid x \<Longrightarrow> reads (TPM2_NV_WriteLock_REQUEST_initFromTpm TPM2_NV_WriteLock_REQUEST_default) x (TPM2_NV_WriteLock_REQUEST_enc x)"
  by (simp only: TPM2_NV_WriteLock_REQUEST_initFromTpm_def TPM2_NV_WriteLock_REQUEST_enc_def TPM2_NV_WriteLock_REQUEST_default_def
        TPM2_NV_WriteLock_REQUEST.select_convs TPM2_NV_WriteLock_REQUEST.update_convs;
      intro reads_intros; (rule TPM2_NV_WriteLock_REQUEST.equality)?; simp add: TPM2_NV_WriteLock_REQUEST_valid_def opt_ok_iff)

interpretation TPM2_NV_WriteLock_REQUEST_codec:
  tpm_codec TPM2_NV_WriteLock_REQUEST_toTpm TPM2_NV_WriteLock_REQUEST_initFromTpm TPM2_NV_WriteLock_REQUEST_default
    TPM2_NV_WriteLock_REQUEST_enc TPM2_NV_WriteLock_REQUEST_valid
  by unfold_locales (erule TPM2_NV_WriteLock_REQUEST_writes TPM2_NV_WriteLock_REQUEST_reads | simp add: TPM2_NV_WriteLock_REQUEST_toTpm_def writes_ret)+

definition TPM2_NV_WriteLock_REQUEST_req :: "TPM2_NV_WriteLock_REQUEST \<Rightarrow> TPM_HANDLE ReqStructure" where
  "TPM2_NV_WriteLock_REQUEST_req self =
     \<lparr>req_toTpm = TPM2_NV_WriteLock_REQUEST_toTpm self, req_numHandles = 2,
     req_numAuthHandles = 1, req_getHandles = [TPM2_NV_WriteLock_REQUEST_authHandle self, TPM2_NV_WriteLock_REQUEST_nvIndex self], req_sessEncInfo = no_sessEncInfo\<rparr>"

subsection \<open>TPM2_NV_GlobalWriteLock_REQUEST\<close>

text \<open>The command will SET TPMA_NV_WRITELOCKED for all indexes that have their TPMA_NV_GLOBALLOCK attribute SET.\<close>

record TPM2_NV_GlobalWriteLock_REQUEST =
  TPM2_NV_GlobalWriteLock_REQUEST_authHandle :: "TPM_HANDLE"

definition TPM2_NV_GlobalWriteLock_REQUEST_default :: TPM2_NV_GlobalWriteLock_REQUEST where
  "TPM2_NV_GlobalWriteLock_REQUEST_default = \<lparr>TPM2_NV_GlobalWriteLock_REQUEST_authHandle = TPM_HANDLE_default\<rparr>"

definition TPM2_NV_GlobalWriteLock_REQUEST_toTpm :: "TPM2_NV_GlobalWriteLock_REQUEST \<Rightarrow> unit tpm" where
  "TPM2_NV_GlobalWriteLock_REQUEST_toTpm self =
     wseq []"

definition TPM2_NV_GlobalWriteLock_REQUEST_initFromTpm :: "TPM2_NV_GlobalWriteLock_REQUEST \<Rightarrow> TPM2_NV_GlobalWriteLock_REQUEST tpm" where
  "TPM2_NV_GlobalWriteLock_REQUEST_initFromTpm self =
     ret self"

definition TPM2_NV_GlobalWriteLock_REQUEST_enc :: "TPM2_NV_GlobalWriteLock_REQUEST \<Rightarrow> ByteVec" where
  "TPM2_NV_GlobalWriteLock_REQUEST_enc x =
     []"

definition TPM2_NV_GlobalWriteLock_REQUEST_valid :: "TPM2_NV_GlobalWriteLock_REQUEST \<Rightarrow> bool" where
  "TPM2_NV_GlobalWriteLock_REQUEST_valid x \<longleftrightarrow>
     TPM2_NV_GlobalWriteLock_REQUEST_authHandle x = TPM_HANDLE_default"

lemma TPM2_NV_GlobalWriteLock_REQUEST_writes [writes_intros]:
  "TPM2_NV_GlobalWriteLock_REQUEST_valid x \<Longrightarrow> writes (TPM2_NV_GlobalWriteLock_REQUEST_toTpm x) (TPM2_NV_GlobalWriteLock_REQUEST_enc x)"
  unfolding TPM2_NV_GlobalWriteLock_REQUEST_toTpm_def TPM2_NV_GlobalWriteLock_REQUEST_enc_def
  by (intro writes_intros; simp add: TPM2_NV_GlobalWriteLock_REQUEST_valid_def opt_ok_iff)

lemma TPM2_NV_GlobalWriteLock_REQUEST_reads:
  "TPM2_NV_GlobalWriteLock_REQUEST_valid x \<Longrightarrow> reads (TPM2_NV_GlobalWriteLock_REQUEST_initFromTpm TPM2_NV_GlobalWriteLock_REQUEST_default) x (TPM2_NV_GlobalWriteLock_REQUEST_enc x)"
  by (simp only: TPM2_NV_GlobalWriteLock_REQUEST_initFromTpm_def TPM2_NV_GlobalWriteLock_REQUEST_enc_def TPM2_NV_GlobalWriteLock_REQUEST_default_def
        TPM2_NV_GlobalWriteLock_REQUEST.select_convs TPM2_NV_GlobalWriteLock_REQUEST.update_convs;
      intro reads_intros; (rule TPM2_NV_GlobalWriteLock_REQUEST.equality)?; simp add: TPM2_NV_GlobalWriteLock_REQUEST_valid_def opt_ok_iff)

interpretation TPM2_NV_GlobalWriteLock_REQUEST_codec:
  tpm_codec TPM2_NV_GlobalWriteLock_REQUEST_toTpm TPM2_NV_GlobalWriteLock_REQUEST_initFromTpm TPM2_NV_GlobalWriteLock_REQUEST_default
    TPM2_NV_GlobalWriteLock_REQUEST_enc TPM2_NV_GlobalWriteLock_REQUEST_valid
  by unfold_locales (erule TPM2_NV_GlobalWriteLock_REQUEST_writes TPM2_NV_GlobalWriteLock_REQUEST_reads | simp add: TPM2_NV_GlobalWriteLock_REQUEST_toTpm_def writes_ret)+

definition TPM2_NV_GlobalWriteLock_REQUEST_req :: "TPM2_NV_GlobalWriteLock_REQUEST \<Rightarrow> TPM_HANDLE ReqStructure" where
  "TPM2_NV_GlobalWriteLock_REQUEST_req self =
     \<lparr>req_toTpm = TPM2_NV_GlobalWriteLock_REQUEST_toTpm self, req_numHandles = 1,
     req_numAuthHandles = 1, req_getHandles = [TPM2_NV_GlobalWriteLock_REQUEST_authHandle self], req_sessEncInfo = no_sessEncInfo\<rparr>"

subsection \<open>TPM2_NV_Read_REQUEST\<close>

text \<open>This command reads a value from an area in NV memory previously defined by TPM2_NV_DefineSpace().\<close>

record TPM2_NV_Read_REQUEST =
  TPM2_NV_Read_REQUEST_authHandle :: "TPM_HANDLE"
  TPM2_NV_Read_REQUEST_nvIndex :: "TPM_HANDLE"
  TPM2_NV_Read_REQUEST_size :: "UINT16"
  TPM2_NV_Read_REQUEST_offset :: "UINT16"

definition TPM2_NV_Read_REQUEST_default :: TPM2_NV_Read_REQUEST where
  "TPM2_NV_Read_REQUEST_default = \<lparr>TPM2_NV_Read_REQUEST_authHandle = TPM_HANDLE_default, TPM2_NV_Read_REQUEST_nvIndex = TPM_HANDLE_default, TPM2_NV_Read_REQUEST_size = 0, TPM2_NV_Read_REQUEST_offset = 0\<rparr>"

definition TPM2_NV_Read_REQUEST_toTpm :: "TPM2_NV_Read_REQUEST \<Rightarrow> unit tpm" where
  "TPM2_NV_Read_REQUEST_toTpm self =
     wseq [writeShort (TPM2_NV_Read_REQUEST_size self),
       writeShort (TPM2_NV_Read_REQUEST_offset self)]"

definition TPM2_NV_Read_REQUEST_initFromTpm :: "TPM2_NV_Read_REQUEST \<Rightarrow> TPM2_NV_Read_REQUEST tpm" where
  "TPM2_NV_Read_REQUEST_initFromTpm self =
     sbind readShort (\<lambda>size.
     sbind readShort (\<lambda>offset.
     ret (self\<lparr>TPM2_NV_Read_REQUEST_size := size, TPM2_NV_Read_REQUEST_offset := offset\<rparr>)))"

definition TPM2_NV_Read_REQUEST_enc :: "TPM2_NV_Read_REQUEST \<Rightarrow> ByteVec" where
  "TPM2_NV_Read_REQUEST_enc x =
     enc16 (TPM2_NV_Read_REQUEST_size x) @
     enc16 (TPM2_NV_Read_REQUEST_offset x)"

definition TPM2_NV_Read_REQUEST_valid :: "TPM2_NV_Read_REQUEST \<Rightarrow> bool" where
  "TPM2_NV_Read_REQUEST_valid x \<longleftrightarrow>
     TPM2_NV_Read_REQUEST_authHandle x = TPM_HANDLE_default \<and>
     TPM2_NV_Read_REQUEST_nvIndex x = TPM_HANDLE_default"

lemma TPM2_NV_Read_REQUEST_writes [writes_intros]:
  "TPM2_NV_Read_REQUEST_valid x \<Longrightarrow> writes (TPM2_NV_Read_REQUEST_toTpm x) (TPM2_NV_Read_REQUEST_enc x)"
  unfolding TPM2_NV_Read_REQUEST_toTpm_def TPM2_NV_Read_REQUEST_enc_def
  by (intro writes_intros; simp add: TPM2_NV_Read_REQUEST_valid_def opt_ok_iff)

lemma TPM2_NV_Read_REQUEST_reads:
  "TPM2_NV_Read_REQUEST_valid x \<Longrightarrow> reads (TPM2_NV_Read_REQUEST_initFromTpm TPM2_NV_Read_REQUEST_default) x (TPM2_NV_Read_REQUEST_enc x)"
  by (simp only: TPM2_NV_Read_REQUEST_initFromTpm_def TPM2_NV_Read_REQUEST_enc_def TPM2_NV_Read_REQUEST_default_def
        TPM2_NV_Read_REQUEST.select_convs TPM2_NV_Read_REQUEST.update_convs;
      intro reads_intros; (rule TPM2_NV_Read_REQUEST.equality)?; simp add: TPM2_NV_Read_REQUEST_valid_def opt_ok_iff)

interpretation TPM2_NV_Read_REQUEST_codec:
  tpm_codec TPM2_NV_Read_REQUEST_toTpm TPM2_NV_Read_REQUEST_initFromTpm TPM2_NV_Read_REQUEST_default
    TPM2_NV_Read_REQUEST_enc TPM2_NV_Read_REQUEST_valid
  by unfold_locales (erule TPM2_NV_Read_REQUEST_writes TPM2_NV_Read_REQUEST_reads | simp add: TPM2_NV_Read_REQUEST_enc_def)+

definition TPM2_NV_Read_REQUEST_req :: "TPM2_NV_Read_REQUEST \<Rightarrow> TPM_HANDLE ReqStructure" where
  "TPM2_NV_Read_REQUEST_req self =
     \<lparr>req_toTpm = TPM2_NV_Read_REQUEST_toTpm self, req_numHandles = 2,
     req_numAuthHandles = 1, req_getHandles = [TPM2_NV_Read_REQUEST_authHandle self, TPM2_NV_Read_REQUEST_nvIndex self], req_sessEncInfo = no_sessEncInfo\<rparr>"

subsection \<open>NV_ReadResponse\<close>

text \<open>This command reads a value from an area in NV memory previously defined by TPM2_NV_DefineSpace().\<close>

record NV_ReadResponse =
  NV_ReadResponse_data :: "ByteVec"

definition NV_ReadResponse_default :: NV_ReadResponse where
  "NV_ReadResponse_default = \<lparr>NV_ReadResponse_data = []\<rparr>"

definition NV_ReadResponse_toTpm :: "NV_ReadResponse \<Rightarrow> unit tpm" where
  "NV_ReadResponse_toTpm self =
     wseq [writeSizedByteBuf (NV_ReadResponse_data self) 2]"

definition NV_ReadResponse_initFromTpm :: "NV_ReadResponse \<Rightarrow> NV_ReadResponse tpm" where
  "NV_ReadResponse_initFromTpm self =
     sbind (readSizedByteBuf 2) (\<lambda>data.
     ret (self\<lparr>NV_ReadResponse_data := data\<rparr>))"

definition NV_ReadResponse_enc :: "NV_ReadResponse \<Rightarrow> ByteVec" where
  "NV_ReadResponse_enc x =
     enc_sized 2 (NV_ReadResponse_data x)"

definition NV_ReadResponse_valid :: "NV_ReadResponse \<Rightarrow> bool" where
  "NV_ReadResponse_valid x \<longleftrightarrow>
     sized_ok 2 (NV_ReadResponse_data x)"

lemma NV_ReadResponse_writes [writes_intros]:
  "NV_ReadResponse_valid x \<Longrightarrow> writes (NV_ReadResponse_toTpm x) (NV_ReadResponse_enc x)"
  unfolding NV_ReadResponse_toTpm_def NV_ReadResponse_enc_def
  by (intro writes_intros; simp add: NV_ReadResponse_valid_def opt_ok_iff)

lemma NV_ReadResponse_reads:
  "NV_ReadResponse_valid x \<Longrightarrow> reads (NV_ReadResponse_initFromTpm NV_ReadResponse_default) x (NV_ReadResponse_enc x)"
  by (simp only: NV_ReadResponse_initFromTpm_def NV_ReadResponse_enc_def NV_ReadResponse_default_def
        NV_ReadResponse.select_convs NV_ReadResponse.update_convs;
      intro reads_intros; (rule NV_ReadResponse.equality)?; simp add: NV_ReadResponse_valid_def opt_ok_iff)

interpretation NV_ReadResponse_codec:
  tpm_codec NV_ReadResponse_toTpm NV_ReadResponse_initFromTpm NV_ReadResponse_default
    NV_ReadResponse_enc NV_ReadResponse_valid
  by unfold_locales (erule NV_ReadResponse_writes NV_ReadResponse_reads | simp add: NV_ReadResponse_enc_def)+

definition NV_ReadResponse_resp :: "(TPM_HANDLE, NV_ReadResponse) RespStructure" where
  "NV_ReadResponse_resp = \<lparr>resp_default = NV_ReadResponse_default, resp_initFromTpm = NV_ReadResponse_initFromTpm,
     resp_numHandles = 0, resp_getHandle = (\<lambda>_. TPM_HANDLE_default),
     resp_setHandle = (\<lambda>_ self. self), resp_sessEncInfo = \<lparr>sizeLen = 2, valLen = 1\<rparr>\<rparr>"

subsection \<open>TPM2_NV_ReadLock_REQUEST\<close>

text \<open>If TPMA_NV_READ_STCLEAR is SET in an Index, then this command may be used to prevent further reads of the NV Index until the next TPM2_Startup ....\<close>

record TPM2_NV_ReadLock_REQUEST =
  TPM2_NV_ReadLock_REQUEST_authHandle :: "TPM_HANDLE"
  TPM2_NV_ReadLock_REQUEST_nvIndex :: "TPM_HANDLE"

definition TPM2_NV_ReadLock_REQUEST_default :: TPM2_NV_ReadLock_REQUEST where
  "TPM2_NV_ReadLock_REQUEST_default = \<lparr>TPM2_NV_ReadLock_REQUEST_authHandle = TPM_HANDLE_default, TPM2_NV_ReadLock_REQUEST_nvIndex = TPM_HANDLE_default\<rparr>"

definition TPM2_NV_ReadLock_REQUEST_toTpm :: "TPM2_NV_ReadLock_REQUEST \<Rightarrow> unit tpm" where
  "TPM2_NV_ReadLock_REQUEST_toTpm self =
     wseq []"

definition TPM2_NV_ReadLock_REQUEST_initFromTpm :: "TPM2_NV_ReadLock_REQUEST \<Rightarrow> TPM2_NV_ReadLock_REQUEST tpm" where
  "TPM2_NV_ReadLock_REQUEST_initFromTpm self =
     ret self"

definition TPM2_NV_ReadLock_REQUEST_enc :: "TPM2_NV_ReadLock_REQUEST \<Rightarrow> ByteVec" where
  "TPM2_NV_ReadLock_REQUEST_enc x =
     []"

definition TPM2_NV_ReadLock_REQUEST_valid :: "TPM2_NV_ReadLock_REQUEST \<Rightarrow> bool" where
  "TPM2_NV_ReadLock_REQUEST_valid x \<longleftrightarrow>
     TPM2_NV_ReadLock_REQUEST_authHandle x = TPM_HANDLE_default \<and>
     TPM2_NV_ReadLock_REQUEST_nvIndex x = TPM_HANDLE_default"

lemma TPM2_NV_ReadLock_REQUEST_writes [writes_intros]:
  "TPM2_NV_ReadLock_REQUEST_valid x \<Longrightarrow> writes (TPM2_NV_ReadLock_REQUEST_toTpm x) (TPM2_NV_ReadLock_REQUEST_enc x)"
  unfolding TPM2_NV_ReadLock_REQUEST_toTpm_def TPM2_NV_ReadLock_REQUEST_enc_def
  by (intro writes_intros; simp add: TPM2_NV_ReadLock_REQUEST_valid_def opt_ok_iff)

lemma TPM2_NV_ReadLock_REQUEST_reads:
  "TPM2_NV_ReadLock_REQUEST_valid x \<Longrightarrow> reads (TPM2_NV_ReadLock_REQUEST_initFromTpm TPM2_NV_ReadLock_REQUEST_default) x (TPM2_NV_ReadLock_REQUEST_enc x)"
  by (simp only: TPM2_NV_ReadLock_REQUEST_initFromTpm_def TPM2_NV_ReadLock_REQUEST_enc_def TPM2_NV_ReadLock_REQUEST_default_def
        TPM2_NV_ReadLock_REQUEST.select_convs TPM2_NV_ReadLock_REQUEST.update_convs;
      intro reads_intros; (rule TPM2_NV_ReadLock_REQUEST.equality)?; simp add: TPM2_NV_ReadLock_REQUEST_valid_def opt_ok_iff)

interpretation TPM2_NV_ReadLock_REQUEST_codec:
  tpm_codec TPM2_NV_ReadLock_REQUEST_toTpm TPM2_NV_ReadLock_REQUEST_initFromTpm TPM2_NV_ReadLock_REQUEST_default
    TPM2_NV_ReadLock_REQUEST_enc TPM2_NV_ReadLock_REQUEST_valid
  by unfold_locales (erule TPM2_NV_ReadLock_REQUEST_writes TPM2_NV_ReadLock_REQUEST_reads | simp add: TPM2_NV_ReadLock_REQUEST_toTpm_def writes_ret)+

definition TPM2_NV_ReadLock_REQUEST_req :: "TPM2_NV_ReadLock_REQUEST \<Rightarrow> TPM_HANDLE ReqStructure" where
  "TPM2_NV_ReadLock_REQUEST_req self =
     \<lparr>req_toTpm = TPM2_NV_ReadLock_REQUEST_toTpm self, req_numHandles = 2,
     req_numAuthHandles = 1, req_getHandles = [TPM2_NV_ReadLock_REQUEST_authHandle self, TPM2_NV_ReadLock_REQUEST_nvIndex self], req_sessEncInfo = no_sessEncInfo\<rparr>"

subsection \<open>TPM2_NV_ChangeAuth_REQUEST\<close>

text \<open>This command allows the authorization secret for an NV Index to be changed.\<close>

record TPM2_NV_ChangeAuth_REQUEST =
  TPM2_NV_ChangeAuth_REQUEST_nvIndex :: "TPM_HANDLE"
  TPM2_NV_ChangeAuth_REQUEST_newAuth :: "ByteVec"

definition TPM2_NV_ChangeAuth_REQUEST_default :: TPM2_NV_ChangeAuth_REQUEST where
  "TPM2_NV_ChangeAuth_REQUEST_default = \<lparr>TPM2_NV_ChangeAuth_REQUEST_nvIndex = TPM_HANDLE_default, TPM2_NV_ChangeAuth_REQUEST_newAuth = []\<rparr>"

definition TPM2_NV_ChangeAuth_REQUEST_toTpm :: "TPM2_NV_ChangeAuth_REQUEST \<Rightarrow> unit tpm" where
  "TPM2_NV_ChangeAuth_REQUEST_toTpm self =
     wseq [writeSizedByteBuf (TPM2_NV_ChangeAuth_REQUEST_newAuth self) 2]"

definition TPM2_NV_ChangeAuth_REQUEST_initFromTpm :: "TPM2_NV_ChangeAuth_REQUEST \<Rightarrow> TPM2_NV_ChangeAuth_REQUEST tpm" where
  "TPM2_NV_ChangeAuth_REQUEST_initFromTpm self =
     sbind (readSizedByteBuf 2) (\<lambda>newAuth.
     ret (self\<lparr>TPM2_NV_ChangeAuth_REQUEST_newAuth := newAuth\<rparr>))"

definition TPM2_NV_ChangeAuth_REQUEST_enc :: "TPM2_NV_ChangeAuth_REQUEST \<Rightarrow> ByteVec" where
  "TPM2_NV_ChangeAuth_REQUEST_enc x =
     enc_sized 2 (TPM2_NV_ChangeAuth_REQUEST_newAuth x)"

definition TPM2_NV_ChangeAuth_REQUEST_valid :: "TPM2_NV_ChangeAuth_REQUEST \<Rightarrow> bool" where
  "TPM2_NV_ChangeAuth_REQUEST_valid x \<longleftrightarrow>
     sized_ok 2 (TPM2_NV_ChangeAuth_REQUEST_newAuth x) \<and>
     TPM2_NV_ChangeAuth_REQUEST_nvIndex x = TPM_HANDLE_default"

lemma TPM2_NV_ChangeAuth_REQUEST_writes [writes_intros]:
  "TPM2_NV_ChangeAuth_REQUEST_valid x \<Longrightarrow> writes (TPM2_NV_ChangeAuth_REQUEST_toTpm x) (TPM2_NV_ChangeAuth_REQUEST_enc x)"
  unfolding TPM2_NV_ChangeAuth_REQUEST_toTpm_def TPM2_NV_ChangeAuth_REQUEST_enc_def
  by (intro writes_intros; simp add: TPM2_NV_ChangeAuth_REQUEST_valid_def opt_ok_iff)

lemma TPM2_NV_ChangeAuth_REQUEST_reads:
  "TPM2_NV_ChangeAuth_REQUEST_valid x \<Longrightarrow> reads (TPM2_NV_ChangeAuth_REQUEST_initFromTpm TPM2_NV_ChangeAuth_REQUEST_default) x (TPM2_NV_ChangeAuth_REQUEST_enc x)"
  by (simp only: TPM2_NV_ChangeAuth_REQUEST_initFromTpm_def TPM2_NV_ChangeAuth_REQUEST_enc_def TPM2_NV_ChangeAuth_REQUEST_default_def
        TPM2_NV_ChangeAuth_REQUEST.select_convs TPM2_NV_ChangeAuth_REQUEST.update_convs;
      intro reads_intros; (rule TPM2_NV_ChangeAuth_REQUEST.equality)?; simp add: TPM2_NV_ChangeAuth_REQUEST_valid_def opt_ok_iff)

interpretation TPM2_NV_ChangeAuth_REQUEST_codec:
  tpm_codec TPM2_NV_ChangeAuth_REQUEST_toTpm TPM2_NV_ChangeAuth_REQUEST_initFromTpm TPM2_NV_ChangeAuth_REQUEST_default
    TPM2_NV_ChangeAuth_REQUEST_enc TPM2_NV_ChangeAuth_REQUEST_valid
  by unfold_locales (erule TPM2_NV_ChangeAuth_REQUEST_writes TPM2_NV_ChangeAuth_REQUEST_reads | simp add: TPM2_NV_ChangeAuth_REQUEST_enc_def)+

definition TPM2_NV_ChangeAuth_REQUEST_req :: "TPM2_NV_ChangeAuth_REQUEST \<Rightarrow> TPM_HANDLE ReqStructure" where
  "TPM2_NV_ChangeAuth_REQUEST_req self =
     \<lparr>req_toTpm = TPM2_NV_ChangeAuth_REQUEST_toTpm self, req_numHandles = 1,
     req_numAuthHandles = 1, req_getHandles = [TPM2_NV_ChangeAuth_REQUEST_nvIndex self], req_sessEncInfo = \<lparr>sizeLen = 2, valLen = 1\<rparr>\<rparr>"

subsection \<open>TPM2_NV_Certify_REQUEST\<close>

text \<open>The purpose of this command is to certify the contents of an NV Index or portion of an NV Index.\<close>

record TPM2_NV_Certify_REQUEST =
  TPM2_NV_Certify_REQUEST_signHandle :: "TPM_HANDLE"
  TPM2_NV_Certify_REQUEST_authHandle :: "TPM_HANDLE"
  TPM2_NV_Certify_REQUEST_nvIndex :: "TPM_HANDLE"
  TPM2_NV_Certify_REQUEST_qualifyingData :: "ByteVec"
  TPM2_NV_Certify_REQUEST_inScheme :: "TPMU_SIG_SCHEME option"
  TPM2_NV_Certify_REQUEST_size :: "UINT16"
  TPM2_NV_Certify_REQUEST_offset :: "UINT16"

definition TPM2_NV_Certify_REQUEST_default :: TPM2_NV_Certify_REQUEST where
  "TPM2_NV_Certify_REQUEST_default = \<lparr>TPM2_NV_Certify_REQUEST_signHandle = TPM_HANDLE_default, TPM2_NV_Certify_REQUEST_authHandle = TPM_HANDLE_default, TPM2_NV_Certify_REQUEST_nvIndex = TPM_HANDLE_default, TPM2_NV_Certify_REQUEST_qualifyingData = [], TPM2_NV_Certify_REQUEST_inScheme = None, TPM2_NV_Certify_REQUEST_size = 0, TPM2_NV_Certify_REQUEST_offset = 0\<rparr>"

definition TPM2_NV_Certify_REQUEST_toTpm :: "TPM2_NV_Certify_REQUEST \<Rightarrow> unit tpm" where
  "TPM2_NV_Certify_REQUEST_toTpm self =
     wseq [writeSizedByteBuf (TPM2_NV_Certify_REQUEST_qualifyingData self) 2,
       deref (TPM2_NV_Certify_REQUEST_inScheme self) (\<lambda>u. writeShort (TPMU_SIG_SCHEME_GetUnionSelector u)),
       deref (TPM2_NV_Certify_REQUEST_inScheme self) TPMU_SIG_SCHEME_toTpm,
       writeShort (TPM2_NV_Certify_REQUEST_size self),
       writeShort (TPM2_NV_Certify_REQUEST_offset self)]"

definition TPM2_NV_Certify_REQUEST_initFromTpm :: "TPM2_NV_Certify_REQUEST \<Rightarrow> TPM2_NV_Certify_REQUEST tpm" where
  "TPM2_NV_Certify_REQUEST_initFromTpm self =
     sbind (readSizedByteBuf 2) (\<lambda>qualifyingData.
     sbind readShort (\<lambda>inSchemeScheme.
     bindO (UnionFactory_Create_TPMU_SIG_SCHEME inSchemeScheme) (\<lambda>inScheme.
     sbind (deref inScheme TPMU_SIG_SCHEME_initFromTpm) (\<lambda>inScheme.
     sbind readShort (\<lambda>size.
     sbind readShort (\<lambda>offset.
     ret (self\<lparr>TPM2_NV_Certify_REQUEST_qualifyingData := qualifyingData, TPM2_NV_Certify_REQUEST_inScheme := Some inScheme, TPM2_NV_Certify_REQUEST_size := size, TPM2_NV_Certify_REQUEST_offset := offset\<rparr>)))))))"

definition TPM2_NV_Certify_REQUEST_enc :: "TPM2_NV_Certify_REQUEST \<Rightarrow> ByteVec" where
  "TPM2_NV_Certify_REQUEST_enc x =
     enc_sized 2 (TPM2_NV_Certify_REQUEST_qualifyingData x) @
     opt_enc (\<lambda>u. enc16 (TPMU_SIG_SCHEME_GetUnionSelector u)) (TPM2_NV_Certify_REQUEST_inScheme x) @
     opt_enc TPMU_SIG_SCHEME_enc (TPM2_NV_Certify_REQUEST_inScheme x) @
     enc16 (TPM2_NV_Certify_REQUEST_size x) @
     enc16 (TPM2_NV_Certify_REQUEST_offset x)"

definition TPM2_NV_Certify_REQUEST_valid :: "TPM2_NV_Certify_REQUEST \<Rightarrow> bool" where
  "TPM2_NV_Certify_REQUEST_valid x \<longleftrightarrow>
     sized_ok 2 (TPM2_NV_Certify_REQUEST_qualifyingData x) \<and>
     opt_ok TPMU_SIG_SCHEME_valid (TPM2_NV_Certify_REQUEST_inScheme x) \<and>
     TPM2_NV_Certify_REQUEST_signHandle x = TPM_HANDLE_default \<and>
     TPM2_NV_Certify_REQUEST_authHandle x = TPM_HANDLE_default \<and>
     TPM2_NV_Certify_REQUEST_nvIndex x = TPM_HANDLE_default"

lemma TPM2_NV_Certify_REQUEST_writes [writes_intros]:
  "TPM2_NV_Certify_REQUEST_valid x \<Longrightarrow> writes (TPM2_NV_Certify_REQUEST_toTpm x) (TPM2_NV_Certify_REQUEST_enc x)"
  unfolding TPM2_NV_Certify_REQUEST_toTpm_def TPM2_NV_Certify_REQUEST_enc_def
  by (intro writes_intros; simp add: TPM2_NV_Certify_REQUEST_valid_def opt_ok_iff)

lemma TPM2_NV_Certify_REQUEST_reads:
  "TPM2_NV_Certify_REQUEST_valid x \<Longrightarrow> reads (TPM2_NV_Certify_REQUEST_initFromTpm TPM2_NV_Certify_REQUEST_default) x (TPM2_NV_Certify_REQUEST_enc x)"
  by (simp only: TPM2_NV_Certify_REQUEST_initFromTpm_def TPM2_NV_Certify_REQUEST_enc_def TPM2_NV_Certify_REQUEST_default_def
        TPM2_NV_Certify_REQUEST.select_convs TPM2_NV_Certify_REQUEST.update_convs;
      intro reads_intros; (rule TPM2_NV_Certify_REQUEST.equality)?; simp add: TPM2_NV_Certify_REQUEST_valid_def opt_ok_iff)

interpretation TPM2_NV_Certify_REQUEST_codec:
  tpm_codec TPM2_NV_Certify_REQUEST_toTpm TPM2_NV_Certify_REQUEST_initFromTpm TPM2_NV_Certify_REQUEST_default
    TPM2_NV_Certify_REQUEST_enc TPM2_NV_Certify_REQUEST_valid
  by unfold_locales (erule TPM2_NV_Certify_REQUEST_writes TPM2_NV_Certify_REQUEST_reads | simp add: TPM2_NV_Certify_REQUEST_enc_def)+

definition TPM2_NV_Certify_REQUEST_req :: "TPM2_NV_Certify_REQUEST \<Rightarrow> TPM_HANDLE ReqStructure" where
  "TPM2_NV_Certify_REQUEST_req self =
     \<lparr>req_toTpm = TPM2_NV_Certify_REQUEST_toTpm self, req_numHandles = 3,
     req_numAuthHandles = 2, req_getHandles = [TPM2_NV_Certify_REQUEST_signHandle self, TPM2_NV_Certify_REQUEST_authHandle self, TPM2_NV_Certify_REQUEST_nvIndex self], req_sessEncInfo = \<lparr>sizeLen = 2, valLen = 1\<rparr>\<rparr>"

subsection \<open>NV_CertifyResponse\<close>

text \<open>The purpose of this command is to certify the contents of an NV Index or portion of an NV Index.\<close>

record NV_CertifyResponse =
  NV_CertifyResponse_certifyInfo :: "TPMS_ATTEST"
  NV_CertifyResponse_signature :: "TPMU_SIGNATURE option"

definition NV_CertifyResponse_default :: NV_CertifyResponse where
  "NV_CertifyResponse_default = \<lparr>NV_CertifyResponse_certifyInfo = TPMS_ATTEST_default, NV_CertifyResponse_signature = None\<rparr>"

definition NV_CertifyResponse_toTpm :: "NV_CertifyResponse \<Rightarrow> unit tpm" where
  "NV_CertifyResponse_toTpm self =
     wseq [writeSizedObj TPMS_ATTEST_toTpm (NV_CertifyResponse_certifyInfo self),
       deref (NV_CertifyResponse_signature self) (\<lambda>u. writeShort (TPMU_SIGNATURE_GetUnionSelector u)),
       deref (NV_CertifyResponse_signature self) TPMU_SIGNATURE_toTpm]"

definition NV_CertifyResponse_initFromTpm :: "NV_CertifyResponse \<Rightarrow> NV_CertifyResponse tpm" where
  "NV_CertifyResponse_initFromTpm self =
     sbind (readSizedObj TPMS_ATTEST_initFromTpm (NV_CertifyResponse_certifyInfo self)) (\<lambda>certifyInfo.
     sbind readShort (\<lambda>signatureSigAlg.
     bindO (UnionFactory_Create_TPMU_SIGNATURE signatureSigAlg) (\<lambda>signature.
     sbind (deref signature TPMU_SIGNATURE_initFromTpm) (\<lambda>signature.
     ret (self\<lparr>NV_CertifyResponse_certifyInfo := certifyInfo, NV_CertifyResponse_signature := Some signature\<rparr>)))))"

definition NV_CertifyResponse_enc :: "NV_CertifyResponse \<Rightarrow> ByteVec" where
  "NV_CertifyResponse_enc x =
     enc_obj (TPMS_ATTEST_enc (NV_CertifyResponse_certifyInfo x)) @
     opt_enc (\<lambda>u. enc16 (TPMU_SIGNATURE_GetUnionSelector u)) (NV_CertifyResponse_signature x) @
     opt_enc TPMU_SIGNATURE_enc (NV_CertifyResponse_signature x)"

definition NV_CertifyResponse_valid :: "NV_CertifyResponse \<Rightarrow> bool" where
  "NV_CertifyResponse_valid x \<longleftrightarrow>
     sized_obj_ok TPMS_ATTEST_default TPMS_ATTEST_enc TPMS_ATTEST_valid (NV_CertifyResponse_certifyInfo x) \<and>
     opt_ok TPMU_SIGNATURE_valid (NV_CertifyResponse_signature x)"

lemma NV_CertifyResponse_writes [writes_intros]:
  "NV_CertifyResponse_valid x \<Longrightarrow> writes (NV_CertifyResponse_toTpm x) (NV_CertifyResponse_enc x)"
  unfolding NV_CertifyResponse_toTpm_def NV_CertifyResponse_enc_def
  by (intro writes_intros; simp add: NV_CertifyResponse_valid_def opt_ok_iff)

lemma NV_CertifyResponse_reads:
  "NV_CertifyResponse_valid x \<Longrightarrow> reads (NV_CertifyResponse_initFromTpm NV_CertifyResponse_default) x (NV_CertifyResponse_enc x)"
  by (simp only: NV_CertifyResponse_initFromTpm_def NV_CertifyResponse_enc_def NV_CertifyResponse_default_def
        NV_CertifyResponse.select_convs NV_CertifyResponse.update_convs;
      intro reads_intros; (rule NV_CertifyResponse.equality)?; simp add: NV_CertifyResponse_valid_def opt_ok_iff)

interpretation NV_CertifyResponse_codec:
  tpm_codec NV_CertifyResponse_toTpm NV_CertifyResponse_initFromTpm NV_CertifyResponse_default
    NV_CertifyResponse_enc NV_CertifyResponse_valid
  by unfold_locales (erule NV_CertifyResponse_writes NV_CertifyResponse_reads | simp add: NV_CertifyResponse_enc_def)+

definition NV_CertifyResponse_resp :: "(TPM_HANDLE, NV_CertifyResponse) RespStructure" where
  "NV_CertifyResponse_resp = \<lparr>resp_default = NV_CertifyResponse_default, resp_initFromTpm = NV_CertifyResponse_initFromTpm,
     resp_numHandles = 0, resp_getHandle = (\<lambda>_. TPM_HANDLE_default),
     resp_setHandle = (\<lambda>_ self. self), resp_sessEncInfo = \<lparr>sizeLen = 2, valLen = 1\<rparr>\<rparr>"

subsection \<open>TPM2_AC_GetCapability_REQUEST\<close>

text \<open>The purpose of this command is to obtain information about an Attached Component referenced by an AC handle.\<close>

record TPM2_AC_GetCapability_REQUEST =
  TPM2_AC_GetCapability_REQUEST_ac :: "TPM_HANDLE"
  TPM2_AC_GetCapability_REQUEST_capability :: "TPM_AT"
  TPM2_AC_GetCapability_REQUEST_count :: "UINT32"

definition TPM2_AC_GetCapability_REQUEST_default :: TPM2_AC_GetCapability_REQUEST where
  "TPM2_AC_GetCapability_REQUEST_default = \<lparr>TPM2_AC_GetCapability_REQUEST_ac = TPM_HANDLE_default, TPM2_AC_GetCapability_REQUEST_capability = 0, TPM2_AC_GetCapability_REQUEST_count = 0\<rparr>"

definition TPM2_AC_GetCapability_REQUEST_toTpm :: "TPM2_AC_GetCapability_REQUEST \<Rightarrow> unit tpm" where
  "TPM2_AC_GetCapability_REQUEST_toTpm self =
     wseq [writeInt (TPM2_AC_GetCapability_REQUEST_capability self),
       writeInt (TPM2_AC_GetCapability_REQUEST_count self)]"

definition TPM2_AC_GetCapability_REQUEST_initFromTpm :: "TPM2_AC_GetCapability_REQUEST \<Rightarrow> TPM2_AC_GetCapability_REQUEST tpm" where
  "TPM2_AC_GetCapability_REQUEST_initFromTpm self =
     sbind readInt (\<lambda>capability.
     sbind readInt (\<lambda>count.
     ret (self\<lparr>TPM2_AC_GetCapability_REQUEST_capability := capability, TPM2_AC_GetCapability_REQUEST_count := count\<rparr>)))"

definition TPM2_AC_GetCapability_REQUEST_enc :: "TPM2_AC_GetCapability_REQUEST \<Rightarrow> ByteVec" where
  "TPM2_AC_GetCapability_REQUEST_enc x =
     enc32 (TPM2_AC_GetCapability_REQUEST_capability x) @
     enc32 (TPM2_AC_GetCapability_REQUEST_count x)"

definition TPM2_AC_GetCapability_REQUEST_valid :: "TPM2_AC_GetCapability_REQUEST \<Rightarrow> bool" where
  "TPM2_AC_GetCapability_REQUEST_valid x \<longleftrightarrow>
     TPM2_AC_GetCapability_REQUEST_ac x = TPM_HANDLE_default"

lemma TPM2_AC_GetCapability_REQUEST_writes [writes_intros]:
  "TPM2_AC_GetCapability_REQUEST_valid x \<Longrightarrow> writes (TPM2_AC_GetCapability_REQUEST_toTpm x) (TPM2_AC_GetCapability_REQUEST_enc x)"
  unfolding TPM2_AC_GetCapability_REQUEST_toTpm_def TPM2_AC_GetCapability_REQUEST_enc_def
  by (intro writes_intros; simp add: TPM2_AC_GetCapability_REQUEST_valid_def opt_ok_iff)

lemma TPM2_AC_GetCapability_REQUEST_reads:
  "TPM2_AC_GetCapability_REQUEST_valid x \<Longrightarrow> reads (TPM2_AC_GetCapability_REQUEST_initFromTpm TPM2_AC_GetCapability_REQUEST_default) x (TPM2_AC_GetCapability_REQUEST_enc x)"
  by (simp only: TPM2_AC_GetCapability_REQUEST_initFromTpm_def TPM2_AC_GetCapability_REQUEST_enc_def TPM2_AC_GetCapability_REQUEST_default_def
        TPM2_AC_GetCapability_REQUEST.select_convs TPM2_AC_GetCapability_REQUEST.update_convs;
      intro reads_intros; (rule TPM2_AC_GetCapability_REQUEST.equality)?; simp add: TPM2_AC_GetCapability_REQUEST_valid_def opt_ok_iff)

interpretation TPM2_AC_GetCapability_REQUEST_codec:
  tpm_codec TPM2_AC_GetCapability_REQUEST_toTpm TPM2_AC_GetCapability_REQUEST_initFromTpm TPM2_AC_GetCapability_REQUEST_default
    TPM2_AC_GetCapability_REQUEST_enc TPM2_AC_GetCapability_REQUEST_valid
  by unfold_locales (erule TPM2_AC_GetCapability_REQUEST_writes TPM2_AC_GetCapability_REQUEST_reads | simp add: TPM2_AC_GetCapability_REQUEST_enc_def)+

definition TPM2_AC_GetCapability_REQUEST_req :: "TPM2_AC_GetCapability_REQUEST \<Rightarrow> TPM_HANDLE ReqStructure" where
  "TPM2_AC_GetCapability_REQUEST_req self =
     \<lparr>req_toTpm = TPM2_AC_GetCapability_REQUEST_toTpm self, req_numHandles = 1,
     req_numAuthHandles = 0, req_getHandles = [TPM2_AC_GetCapability_REQUEST_ac self], req_sessEncInfo = no_sessEncInfo\<rparr>"

subsection \<open>AC_GetCapabilityResponse\<close>

text \<open>The purpose of this command is to obtain information about an Attached Component referenced by an AC handle.\<close>

record AC_GetCapabilityResponse =
  AC_GetCapabilityResponse_moreData :: "byte"
  AC_GetCapabilityResponse_capabilitiesData :: "TPMS_AC_OUTPUT list"

definition AC_GetCapabilityResponse_default :: AC_GetCapabilityResponse where
  "AC_GetCapabilityResponse_default = \<lparr>AC_GetCapabilityResponse_moreData = 0, AC_GetCapabilityResponse_capabilitiesData = []\<rparr>"

definition AC_GetCapabilityResponse_toTpm :: "AC_GetCapabilityResponse \<Rightarrow> unit tpm" where
  "AC_GetCapabilityResponse_toTpm self =
     wseq [writeByte (AC_GetCapabilityResponse_moreData self),
       writeObjArr TPMS_AC_OUTPUT_toTpm (AC_GetCapabilityResponse_capabilitiesData self)]"

definition AC_GetCapabilityResponse_initFromTpm :: "AC_GetCapabilityResponse \<Rightarrow> AC_GetCapabilityResponse tpm" where
  "AC_GetCapabilityResponse_initFromTpm self =
     sbind readByte (\<lambda>moreData.
     sbind (readObjArr TPMS_AC_OUTPUT_initFromTpm TPMS_AC_OUTPUT_default (AC_GetCapabilityResponse_capabilitiesData self)) (\<lambda>capabilitiesData.
     ret (self\<lparr>AC_GetCapabilityResponse_moreData := moreData, AC_GetCapabilityResponse_capabilitiesData := capabilitiesData\<rparr>)))"

definition AC_GetCapabilityResponse_enc :: "AC_GetCapabilityResponse \<Rightarrow> ByteVec" where
  "AC_GetCapabilityResponse_enc x =
     enc8 (AC_GetCapabilityResponse_moreData x) @
     enc_arr TPMS_AC_OUTPUT_enc (AC_GetCapabilityResponse_capabilitiesData x)"

definition AC_GetCapabilityResponse_valid :: "AC_GetCapabilityResponse \<Rightarrow> bool" where
  "AC_GetCapabilityResponse_valid x \<longleftrightarrow>
     arr_ok TPMS_AC_OUTPUT_valid (AC_GetCapabilityResponse_capabilitiesData x)"

lemma AC_GetCapabilityResponse_writes [writes_intros]:
  "AC_GetCapabilityResponse_valid x \<Longrightarrow> writes (AC_GetCapabilityResponse_toTpm x) (AC_GetCapabilityResponse_enc x)"
  unfolding AC_GetCapabilityResponse_toTpm_def AC_GetCapabilityResponse_enc_def
  by (intro writes_intros; simp add: AC_GetCapabilityResponse_valid_def opt_ok_iff)

lemma AC_GetCapabilityResponse_reads:
  "AC_GetCapabilityResponse_valid x \<Longrightarrow> reads (AC_GetCapabilityResponse_initFromTpm AC_GetCapabilityResponse_default) x (AC_GetCapabilityResponse_enc x)"
  by (simp only: AC_GetCapabilityResponse_initFromTpm_def AC_GetCapabilityResponse_enc_def AC_GetCapabilityResponse_default_def
        AC_GetCapabilityResponse.select_convs AC_GetCapabilityResponse.update_convs;
      intro reads_intros; (rule AC_GetCapabilityResponse.equality)?; simp add: AC_GetCapabilityResponse_valid_def opt_ok_iff)

interpretation AC_GetCapabilityResponse_codec:
  tpm_codec AC_GetCapabilityResponse_toTpm AC_GetCapabilityResponse_initFromTpm AC_GetCapabilityResponse_default
    AC_GetCapabilityResponse_enc AC_GetCapabilityResponse_valid
  by unfold_locales (erule AC_GetCapabilityResponse_writes AC_GetCapabilityResponse_reads | simp add: AC_GetCapabilityResponse_enc_def)+

definition AC_GetCapabilityResponse_resp :: "(TPM_HANDLE, AC_GetCapabilityResponse) RespStructure" where
  "AC_GetCapabilityResponse_resp = \<lparr>resp_default = AC_GetCapabilityResponse_default, resp_initFromTpm = AC_GetCapabilityResponse_initFromTpm,
     resp_numHandles = 0, resp_getHandle = (\<lambda>_. TPM_HANDLE_default),
     resp_setHandle = (\<lambda>_ self. self), resp_sessEncInfo = no_sessEncInfo\<rparr>"

subsection \<open>TPM2_AC_Send_REQUEST\<close>

text \<open>The purpose of this command is to send (copy) a loaded object from the TPM to an Attached Component.\<close>

record TPM2_AC_Send_REQUEST =
  TPM2_AC_Send_REQUEST_sendObject :: "TPM_HANDLE"
  TPM2_AC_Send_REQUEST_authHandle :: "TPM_HANDLE"
  TPM2_AC_Send_REQUEST_ac :: "TPM_HANDLE"
  TPM2_AC_Send_REQUEST_acDataIn :: "ByteVec"

definition TPM2_AC_Send_REQUEST_default :: TPM2_AC_Send_REQUEST where
  "TPM2_AC_Send_REQUEST_default = \<lparr>TPM2_AC_Send_REQUEST_sendObject = TPM_HANDLE_default, TPM2_AC_Send_REQUEST_authHandle = TPM_HANDLE_default, TPM2_AC_Send_REQUEST_ac = TPM_HANDLE_default, TPM2_AC_Send_REQUEST_acDataIn = []\<rparr>"

definition TPM2_AC_Send_REQUEST_toTpm :: "TPM2_AC_Send_REQUEST \<Rightarrow> unit tpm" where
  "TPM2_AC_Send_REQUEST_toTpm self =
     wseq [writeSizedByteBuf (TPM2_AC_Send_REQUEST_acDataIn self) 2]"

definition TPM2_AC_Send_REQUEST_initFromTpm :: "TPM2_AC_Send_REQUEST \<Rightarrow> TPM2_AC_Send_REQUEST tpm" where
  "TPM2_AC_Send_REQUEST_initFromTpm self =
     sbind (readSizedByteBuf 2) (\<lambda>acDataIn.
     ret (self\<lparr>TPM2_AC_Send_REQUEST_acDataIn := acDataIn\<rparr>))"

definition TPM2_AC_Send_REQUEST_enc :: "TPM2_AC_Send_REQUEST \<Rightarrow> ByteVec" where
  "TPM2_AC_Send_REQUEST_enc x =
     enc_sized 2 (TPM2_AC_Send_REQUEST_acDataIn x)"

definition TPM2_AC_Send_REQUEST_valid :: "TPM2_AC_Send_REQUEST \<Rightarrow> bool" where
  "TPM2_AC_Send_REQUEST_valid x \<longleftrightarrow>
     sized_ok 2 (TPM2_AC_Send_REQUEST_acDataIn x) \<and>
     TPM2_AC_Send_REQUEST_sendObject x = TPM_HANDLE_default \<and>
     TPM2_AC_Send_REQUEST_authHandle x = TPM_HANDLE_default \<and>
     TPM2_AC_Send_REQUEST_ac x = TPM_HANDLE_default"

lemma TPM2_AC_Send_REQUEST_writes [writes_intros]:
  "TPM2_AC_Send_REQUEST_valid x \<Longrightarrow> writes (TPM2_AC_Send_REQUEST_toTpm x) (TPM2_AC_Send_REQUEST_enc x)"
  unfolding TPM2_AC_Send_REQUEST_toTpm_def TPM2_AC_Send_REQUEST_enc_def
  by (intro writes_intros; simp add: TPM2_AC_Send_REQUEST_valid_def opt_ok_iff)

lemma TPM2_AC_Send_REQUEST_reads:
  "TPM2_AC_Send_REQUEST_valid x \<Longrightarrow> reads (TPM2_AC_Send_REQUEST_initFromTpm TPM2_AC_Send_REQUEST_default) x (TPM2_AC_Send_REQUEST_enc x)"
  by (simp only: TPM2_AC_Send_REQUEST_initFromTpm_def TPM2_AC_Send_REQUEST_enc_def TPM2_AC_Send_REQUEST_default_def
        TPM2_AC_Send_REQUEST.select_convs TPM2_AC_Send_REQUEST.update_convs;
      intro reads_intros; (rule TPM2_AC_Send_REQUEST.equality)?; simp add: TPM2_AC_Send_REQUEST_valid_def opt_ok_iff)

interpretation TPM2_AC_Send_REQUEST_codec:
  tpm_codec TPM2_AC_Send_REQUEST_toTpm TPM2_AC_Send_REQUEST_initFromTpm TPM2_AC_Send_REQUEST_default
    TPM2_AC_Send_REQUEST_enc TPM2_AC_Send_REQUEST_valid
  by unfold_locales (erule TPM2_AC_Send_REQUEST_writes TPM2_AC_Send_REQUEST_reads | simp add: TPM2_AC_Send_REQUEST_enc_def)+

definition TPM2_AC_Send_REQUEST_req :: "TPM2_AC_Send_REQUEST \<Rightarrow> TPM_HANDLE ReqStructure" where
  "TPM2_AC_Send_REQUEST_req self =
     \<lparr>req_toTpm = TPM2_AC_Send_REQUEST_toTpm self, req_numHandles = 3,
     req_numAuthHandles = 2, req_getHandles = [TPM2_AC_Send_REQUEST_sendObject self, TPM2_AC_Send_REQUEST_authHandle self, TPM2_AC_Send_REQUEST_ac self], req_sessEncInfo = \<lparr>sizeLen = 2, valLen = 1\<rparr>\<rparr>"

subsection \<open>AC_SendResponse\<close>

text \<open>The purpose of this command is to send (copy) a loaded object from the TPM to an Attached Component.\<close>

record AC_SendResponse =
  AC_SendResponse_acDataOut :: "TPMS_AC_OUTPUT"

definition AC_SendResponse_default :: AC_SendResponse where
  "AC_SendResponse_default = \<lparr>AC_SendResponse_acDataOut = TPMS_AC_OUTPUT_default\<rparr>"

definition AC_SendResponse_toTpm :: "AC_SendResponse \<Rightarrow> unit tpm" where
  "AC_SendResponse_toTpm self =
     wseq [TPMS_AC_OUTPUT_toTpm (AC_SendResponse_acDataOut self)]"

definition AC_SendResponse_initFromTpm :: "AC_SendResponse \<Rightarrow> AC_SendResponse tpm" where
  "AC_SendResponse_initFromTpm self =
     sbind (TPMS_AC_OUTPUT_initFromTpm (AC_SendResponse_acDataOut self)) (\<lambda>acDataOut.
     ret (self\<lparr>AC_SendResponse_acDataOut := acDataOut\<rparr>))"

definition AC_SendResponse_enc :: "AC_SendResponse \<Rightarrow> ByteVec" where
  "AC_SendResponse_enc x =
     TPMS_AC_OUTPUT_enc (AC_SendResponse_acDataOut x)"

definition AC_SendResponse_valid :: "AC_SendResponse \<Rightarrow> bool" where
  "AC_SendResponse_valid x \<longleftrightarrow>
     TPMS_AC_OUTPUT_valid (AC_SendResponse_acDataOut x)"

lemma AC_SendResponse_writes [writes_intros]:
  "AC_SendResponse_valid x \<Longrightarrow> writes (AC_SendResponse_toTpm x) (AC_SendResponse_enc x)"
  unfolding AC_SendResponse_toTpm_def AC_SendResponse_enc_def
  by (intro writes_intros; simp add: AC_SendResponse_valid_def opt_ok_iff)

lemma AC_SendResponse_reads:
  "AC_SendResponse_valid x \<Longrightarrow> reads (AC_SendResponse_initFromTpm AC_SendResponse_default) x (AC_SendResponse_enc x)"
  by (simp only: AC_SendResponse_initFromTpm_def AC_SendResponse_enc_def AC_SendResponse_default_def
        AC_SendResponse.select_convs AC_SendResponse.update_convs;
      intro reads_intros; (rule AC_SendResponse.equality)?; simp add: AC_SendResponse_valid_def opt_ok_iff)

interpretation AC_SendResponse_codec:
  tpm_codec AC_SendResponse_toTpm AC_SendResponse_initFromTpm AC_SendResponse_default
    AC_SendResponse_enc AC_SendResponse_valid
  by unfold_locales (erule AC_SendResponse_writes AC_SendResponse_reads | simp add: AC_SendResponse_enc_def)+

definition AC_SendResponse_resp :: "(TPM_HANDLE, AC_SendResponse) RespStructure" where
  "AC_SendResponse_resp = \<lparr>resp_default = AC_SendResponse_default, resp_initFromTpm = AC_SendResponse_initFromTpm,
     resp_numHandles = 0, resp_getHandle = (\<lambda>_. TPM_HANDLE_default),
     resp_setHandle = (\<lambda>_ self. self), resp_sessEncInfo = no_sessEncInfo\<rparr>"

subsection \<open>TPM2_Policy_AC_SendSelect_REQUEST\<close>

text \<open>This command allows qualification of the sending (copying) of an Object to an Attached Component (AC).\<close>

record TPM2_Policy_AC_SendSelect_REQUEST =
  TPM2_Policy_AC_SendSelect_REQUEST_policySession :: "TPM_HANDLE"
  TPM2_Policy_AC_SendSelect_REQUEST_objectName :: "ByteVec"
  TPM2_Policy_AC_SendSelect_REQUEST_authHandleName :: "ByteVec"
  TPM2_Policy_AC_SendSelect_REQUEST_acName :: "ByteVec"
  TPM2_Policy_AC_SendSelect_REQUEST_includeObject :: "byte"

definition TPM2_Policy_AC_SendSelect_REQUEST_default :: TPM2_Policy_AC_SendSelect_REQUEST where
  "TPM2_Policy_AC_SendSelect_REQUEST_default = \<lparr>TPM2_Policy_AC_SendSelect_REQUEST_policySession = TPM_HANDLE_default, TPM2_Policy_AC_SendSelect_REQUEST_objectName = [], TPM2_Policy_AC_SendSelect_REQUEST_authHandleName = [], TPM2_Policy_AC_SendSelect_REQUEST_acName = [], TPM2_Policy_AC_SendSelect_REQUEST_includeObject = 0\<rparr>"

definition TPM2_Policy_AC_SendSelect_REQUEST_toTpm :: "TPM2_Policy_AC_SendSelect_REQUEST \<Rightarrow> unit tpm" where
  "TPM2_Policy_AC_SendSelect_REQUEST_toTpm self =
     wseq [writeSizedByteBuf (TPM2_Policy_AC_SendSelect_REQUEST_objectName self) 2,
       writeSizedByteBuf (TPM2_Policy_AC_SendSelect_REQUEST_authHandleName self) 2,
       writeSizedByteBuf (TPM2_Policy_AC_SendSelect_REQUEST_acName self) 2,
       writeByte (TPM2_Policy_AC_SendSelect_REQUEST_includeObject self)]"

definition TPM2_Policy_AC_SendSelect_REQUEST_initFromTpm :: "TPM2_Policy_AC_SendSelect_REQUEST \<Rightarrow> TPM2_Policy_AC_SendSelect_REQUEST tpm" where
  "TPM2_Policy_AC_SendSelect_REQUEST_initFromTpm self =
     sbind (readSizedByteBuf 2) (\<lambda>objectName.
     sbind (readSizedByteBuf 2) (\<lambda>authHandleName.
     sbind (readSizedByteBuf 2) (\<lambda>acName.
     sbind readByte (\<lambda>includeObject.
     ret (self\<lparr>TPM2_Policy_AC_SendSelect_REQUEST_objectName := objectName, TPM2_Policy_AC_SendSelect_REQUEST_authHandleName := authHandleName, TPM2_Policy_AC_SendSelect_REQUEST_acName := acName, TPM2_Policy_AC_SendSelect_REQUEST_includeObject := includeObject\<rparr>)))))"

definition TPM2_Policy_AC_SendSelect_REQUEST_enc :: "TPM2_Policy_AC_SendSelect_REQUEST \<Rightarrow> ByteVec" where
  "TPM2_Policy_AC_SendSelect_REQUEST_enc x =
     enc_sized 2 (TPM2_Policy_AC_SendSelect_REQUEST_objectName x) @
     enc_sized 2 (TPM2_Policy_AC_SendSelect_REQUEST_authHandleName x) @
     enc_sized 2 (TPM2_Policy_AC_SendSelect_REQUEST_acName x) @
     enc8 (TPM2_Policy_AC_SendSelect_REQUEST_includeObject x)"

definition TPM2_Policy_AC_SendSelect_REQUEST_valid :: "TPM2_Policy_AC_SendSelect_REQUEST \<Rightarrow> bool" where
  "TPM2_Policy_AC_SendSelect_REQUEST_valid x \<longleftrightarrow>
     sized_ok 2 (TPM2_Policy_AC_SendSelect_REQUEST_objectName x) \<and>
     sized_ok 2 (TPM2_Policy_AC_SendSelect_REQUEST_authHandleName x) \<and>
     sized_ok 2 (TPM2_Policy_AC_SendSelect_REQUEST_acName x) \<and>
     TPM2_Policy_AC_SendSelect_REQUEST_policySession x = TPM_HANDLE_default"

lemma TPM2_Policy_AC_SendSelect_REQUEST_writes [writes_intros]:
  "TPM2_Policy_AC_SendSelect_REQUEST_valid x \<Longrightarrow> writes (TPM2_Policy_AC_SendSelect_REQUEST_toTpm x) (TPM2_Policy_AC_SendSelect_REQUEST_enc x)"
  unfolding TPM2_Policy_AC_SendSelect_REQUEST_toTpm_def TPM2_Policy_AC_SendSelect_REQUEST_enc_def
  by (intro writes_intros; simp add: TPM2_Policy_AC_SendSelect_REQUEST_valid_def opt_ok_iff)

lemma TPM2_Policy_AC_SendSelect_REQUEST_reads:
  "TPM2_Policy_AC_SendSelect_REQUEST_valid x \<Longrightarrow> reads (TPM2_Policy_AC_SendSelect_REQUEST_initFromTpm TPM2_Policy_AC_SendSelect_REQUEST_default) x (TPM2_Policy_AC_SendSelect_REQUEST_enc x)"
  by (simp only: TPM2_Policy_AC_SendSelect_REQUEST_initFromTpm_def TPM2_Policy_AC_SendSelect_REQUEST_enc_def TPM2_Policy_AC_SendSelect_REQUEST_default_def
        TPM2_Policy_AC_SendSelect_REQUEST.select_convs TPM2_Policy_AC_SendSelect_REQUEST.update_convs;
      intro reads_intros; (rule TPM2_Policy_AC_SendSelect_REQUEST.equality)?; simp add: TPM2_Policy_AC_SendSelect_REQUEST_valid_def opt_ok_iff)

interpretation TPM2_Policy_AC_SendSelect_REQUEST_codec:
  tpm_codec TPM2_Policy_AC_SendSelect_REQUEST_toTpm TPM2_Policy_AC_SendSelect_REQUEST_initFromTpm TPM2_Policy_AC_SendSelect_REQUEST_default
    TPM2_Policy_AC_SendSelect_REQUEST_enc TPM2_Policy_AC_SendSelect_REQUEST_valid
  by unfold_locales (erule TPM2_Policy_AC_SendSelect_REQUEST_writes TPM2_Policy_AC_SendSelect_REQUEST_reads | simp add: TPM2_Policy_AC_SendSelect_REQUEST_enc_def)+

definition TPM2_Policy_AC_SendSelect_REQUEST_req :: "TPM2_Policy_AC_SendSelect_REQUEST \<Rightarrow> TPM_HANDLE ReqStructure" where
  "TPM2_Policy_AC_SendSelect_REQUEST_req self =
     \<lparr>req_toTpm = TPM2_Policy_AC_SendSelect_REQUEST_toTpm self, req_numHandles = 1,
     req_numAuthHandles = 0, req_getHandles = [TPM2_Policy_AC_SendSelect_REQUEST_policySession self], req_sessEncInfo = \<lparr>sizeLen = 2, valLen = 1\<rparr>\<rparr>"

subsection \<open>TPM2_ACT_SetTimeout_REQUEST\<close>

text \<open>This command is used to set the time remaining before an Authenticated Countdown Timer (ACT) expires.\<close>

record TPM2_ACT_SetTimeout_REQUEST =
  TPM2_ACT_SetTimeout_REQUEST_actHandle :: "TPM_HANDLE"
  TPM2_ACT_SetTimeout_REQUEST_startTimeout :: "UINT32"

definition TPM2_ACT_SetTimeout_REQUEST_default :: TPM2_ACT_SetTimeout_REQUEST where
  "TPM2_ACT_SetTimeout_REQUEST_default = \<lparr>TPM2_ACT_SetTimeout_REQUEST_actHandle = TPM_HANDLE_default, TPM2_ACT_SetTimeout_REQUEST_startTimeout = 0\<rparr>"

definition TPM2_ACT_SetTimeout_REQUEST_toTpm :: "TPM2_ACT_SetTimeout_REQUEST \<Rightarrow> unit tpm" where
  "TPM2_ACT_SetTimeout_REQUEST_toTpm self =
     wseq [writeInt (TPM2_ACT_SetTimeout_REQUEST_startTimeout self)]"

definition TPM2_ACT_SetTimeout_REQUEST_initFromTpm :: "TPM2_ACT_SetTimeout_REQUEST \<Rightarrow> TPM2_ACT_SetTimeout_REQUEST tpm" where
  "TPM2_ACT_SetTimeout_REQUEST_initFromTpm self =
     sbind readInt (\<lambda>startTimeout.
     ret (self\<lparr>TPM2_ACT_SetTimeout_REQUEST_startTimeout := startTimeout\<rparr>))"

definition TPM2_ACT_SetTimeout_REQUEST_enc :: "TPM2_ACT_SetTimeout_REQUEST \<Rightarrow> ByteVec" where
  "TPM2_ACT_SetTimeout_REQUEST_enc x =
     enc32 (TPM2_ACT_SetTimeout_REQUEST_startTimeout x)"

definition TPM2_ACT_SetTimeout_REQUEST_valid :: "TPM2_ACT_SetTimeout_REQUEST \<Rightarrow> bool" where
  "TPM2_ACT_SetTimeout_REQUEST_valid x \<longleftrightarrow>
     TPM2_ACT_SetTimeout_REQUEST_actHandle x = TPM_HANDLE_default"

lemma TPM2_ACT_SetTimeout_REQUEST_writes [writes_intros]:
  "TPM2_ACT_SetTimeout_REQUEST_valid x \<Longrightarrow> writes (TPM2_ACT_SetTimeout_REQUEST_toTpm x) (TPM2_ACT_SetTimeout_REQUEST_enc x)"
  unfolding TPM2_ACT_SetTimeout_REQUEST_toTpm_def TPM2_ACT_SetTimeout_REQUEST_enc_def
  by (intro writes_intros; simp add: TPM2_ACT_SetTimeout_REQUEST_valid_def opt_ok_iff)

lemma TPM2_ACT_SetTimeout_REQUEST_reads:
  "TPM2_ACT_SetTimeout_REQUEST_valid x \<Longrightarrow> reads (TPM2_ACT_SetTimeout_REQUEST_initFromTpm TPM2_ACT_SetTimeout_REQUEST_default) x (TPM2_ACT_SetTimeout_REQUEST_enc x)"
  by (simp only: TPM2_ACT_SetTimeout_REQUEST_initFromTpm_def TPM2_ACT_SetTimeout_REQUEST_enc_def TPM2_ACT_SetTimeout_REQUEST_default_def
        TPM2_ACT_SetTimeout_REQUEST.select_convs TPM2_ACT_SetTimeout_REQUEST.update_convs;
      intro reads_intros; (rule TPM2_ACT_SetTimeout_REQUEST.equality)?; simp add: TPM2_ACT_SetTimeout_REQUEST_valid_def opt_ok_iff)

interpretation TPM2_ACT_SetTimeout_REQUEST_codec:
  tpm_codec TPM2_ACT_SetTimeout_REQUEST_toTpm TPM2_ACT_SetTimeout_REQUEST_initFromTpm TPM2_ACT_SetTimeout_REQUEST_default
    TPM2_ACT_SetTimeout_REQUEST_enc TPM2_ACT_SetTimeout_REQUEST_valid
  by unfold_locales (erule TPM2_ACT_SetTimeout_REQUEST_writes TPM2_ACT_SetTimeout_REQUEST_reads | simp add: TPM2_ACT_SetTimeout_REQUEST_enc_def)+

definition TPM2_ACT_SetTimeout_REQUEST_req :: "TPM2_ACT_SetTimeout_REQUEST \<Rightarrow> TPM_HANDLE ReqStructure" where
  "TPM2_ACT_SetTimeout_REQUEST_req self =
     \<lparr>req_toTpm = TPM2_ACT_SetTimeout_REQUEST_toTpm self, req_numHandles = 1,
     req_numAuthHandles = 1, req_getHandles = [TPM2_ACT_SetTimeout_REQUEST_actHandle self], req_sessEncInfo = no_sessEncInfo\<rparr>"

subsection \<open>TPM2_Vendor_TCG_Test_REQUEST\<close>

text \<open>This is a placeholder to allow testing of the dispatch code.\<close>

record TPM2_Vendor_TCG_Test_REQUEST =
  TPM2_Vendor_TCG_Test_REQUEST_inputData :: "ByteVec"

definition TPM2_Vendor_TCG_Test_REQUEST_default :: TPM2_Vendor_TCG_Test_REQUEST where
  "TPM2_Vendor_TCG_Test_REQUEST_default = \<lparr>TPM2_Vendor_TCG_Test_REQUEST_inputData = []\<rparr>"

definition TPM2_Vendor_TCG_Test_REQUEST_toTpm :: "TPM2_Vendor_TCG_Test_REQUEST \<Rightarrow> unit tpm" where
  "TPM2_Vendor_TCG_Test_REQUEST_toTpm self =
     wseq [writeSizedByteBuf (TPM2_Vendor_TCG_Test_REQUEST_inputData self) 2]"

definition TPM2_Vendor_TCG_Test_REQUEST_initFromTpm :: "TPM2_Vendor_TCG_Test_REQUEST \<Rightarrow> TPM2_Vendor_TCG_Test_REQUEST tpm" where
  "TPM2_Vendor_TCG_Test_REQUEST_initFromTpm self =
     sbind (readSizedByteBuf 2) (\<lambda>inputData.
     ret (self\<lparr>TPM2_Vendor_TCG_Test_REQUEST_inputData := inputData\<rparr>))"

definition TPM2_Vendor_TCG_Test_REQUEST_enc :: "TPM2_Vendor_TCG_Test_REQUEST \<Rightarrow> ByteVec" where
  "TPM2_Vendor_TCG_Test_REQUEST_enc x =
     enc_sized 2 (TPM2_Vendor_TCG_Test_REQUEST_inputData x)"

definition TPM2_Vendor_TCG_Test_REQUEST_valid :: "TPM2_Vendor_TCG_Test_REQUEST \<Rightarrow> bool" where
  "TPM2_Vendor_TCG_Test_REQUEST_valid x \<longleftrightarrow>
     sized_ok 2 (TPM2_Vendor_TCG_Test_REQUEST_inputData x)"

lemma TPM2_Vendor_TCG_Test_REQUEST_writes [writes_intros]:
  "TPM2_Vendor_TCG_Test_REQUEST_valid x \<Longrightarrow> writes (TPM2_Vendor_TCG_Test_REQUEST_toTpm x) (TPM2_Vendor_TCG_Test_REQUEST_enc x)"
  unfolding TPM2_Vendor_TCG_Test_REQUEST_toTpm_def TPM2_Vendor_TCG_Test_REQUEST_enc_def
  by (intro writes_intros; simp add: TPM2_Vendor_TCG_Test_REQUEST_valid_def opt_ok_iff)

lemma TPM2_Vendor_TCG_Test_REQUEST_reads:
  "TPM2_Vendor_TCG_Test_REQUEST_valid x \<Longrightarrow> reads (TPM2_Vendor_TCG_Test_REQUEST_initFromTpm TPM2_Vendor_TCG_Test_REQUEST_default) x (TPM2_Vendor_TCG_Test_REQUEST_enc x)"
  by (simp only: TPM2_Vendor_TCG_Test_REQUEST_initFromTpm_def TPM2_Vendor_TCG_Test_REQUEST_enc_def TPM2_Vendor_TCG_Test_REQUEST_default_def
        TPM2_Vendor_TCG_Test_REQUEST.select_convs TPM2_Vendor_TCG_Test_REQUEST.update_convs;
      intro reads_intros; (rule TPM2_Vendor_TCG_Test_REQUEST.equality)?; simp add: TPM2_Vendor_TCG_Test_REQUEST_valid_def opt_ok_iff)

interpretation TPM2_Vendor_TCG_Test_REQUEST_codec:
  tpm_codec TPM2_Vendor_TCG_Test_REQUEST_toTpm TPM2_Vendor_TCG_Test_REQUEST_initFromTpm TPM2_Vendor_TCG_Test_REQUEST_default
    TPM2_Vendor_TCG_Test_REQUEST_enc TPM2_Vendor_TCG_Test_REQUEST_valid
  by unfold_locales (erule TPM2_Vendor_TCG_Test_REQUEST_writes TPM2_Vendor_TCG_Test_REQUEST_reads | simp add: TPM2_Vendor_TCG_Test_REQUEST_enc_def)+

definition TPM2_Vendor_TCG_Test_REQUEST_req :: "TPM2_Vendor_TCG_Test_REQUEST \<Rightarrow> TPM_HANDLE ReqStructure" where
  "TPM2_Vendor_TCG_Test_REQUEST_req self =
     \<lparr>req_toTpm = TPM2_Vendor_TCG_Test_REQUEST_toTpm self, req_numHandles = 0,
     req_numAuthHandles = 0, req_getHandles = [], req_sessEncInfo = \<lparr>sizeLen = 2, valLen = 1\<rparr>\<rparr>"

subsection \<open>Vendor_TCG_TestResponse\<close>

text \<open>This is a placeholder to allow testing of the dispatch code.\<close>

record Vendor_TCG_TestResponse =
  Vendor_TCG_TestResponse_outputData :: "ByteVec"

definition Vendor_TCG_TestResponse_default :: Vendor_TCG_TestResponse where
  "Vendor_TCG_TestResponse_default = \<lparr>Vendor_TCG_TestResponse_outputData = []\<rparr>"

definition Vendor_TCG_TestResponse_toTpm :: "Vendor_TCG_TestResponse \<Rightarrow> unit tpm" where
  "Vendor_TCG_TestResponse_toTpm self =
     wseq [writeSizedByteBuf (Vendor_TCG_TestResponse_outputData self) 2]"

definition Vendor_TCG_TestResponse_initFromTpm :: "Vendor_TCG_TestResponse \<Rightarrow> Vendor_TCG_TestResponse tpm" where
  "Vendor_TCG_TestResponse_initFromTpm self =
     sbind (readSizedByteBuf 2) (\<lambda>outputData.
     ret (self\<lparr>Vendor_TCG_TestResponse_outputData := outputData\<rparr>))"

definition Vendor_TCG_TestResponse_enc :: "Vendor_TCG_TestResponse \<Rightarrow> ByteVec" where
  "Vendor_TCG_TestResponse_enc x =
     enc_sized 2 (Vendor_TCG_TestResponse_outputData x)"

definition Vendor_TCG_TestResponse_valid :: "Vendor_TCG_TestResponse \<Rightarrow> bool" where
  "Vendor_TCG_TestResponse_valid x \<longleftrightarrow>
     sized_ok 2 (Vendor_TCG_TestResponse_outputData x)"

lemma Vendor_TCG_TestResponse_writes [writes_intros]:
  "Vendor_TCG_TestResponse_valid x \<Longrightarrow> writes (Vendor_TCG_TestResponse_toTpm x) (Vendor_TCG_TestResponse_enc x)"
  unfolding Vendor_TCG_TestResponse_toTpm_def Vendor_TCG_TestResponse_enc_def
  by (intro writes_intros; simp add: Vendor_TCG_TestResponse_valid_def opt_ok_iff)

lemma Vendor_TCG_TestResponse_reads:
  "Vendor_TCG_TestResponse_valid x \<Longrightarrow> reads (Vendor_TCG_TestResponse_initFromTpm Vendor_TCG_TestResponse_default) x (Vendor_TCG_TestResponse_enc x)"
  by (simp only: Vendor_TCG_TestResponse_initFromTpm_def Vendor_TCG_TestResponse_enc_def Vendor_TCG_TestResponse_default_def
        Vendor_TCG_TestResponse.select_convs Vendor_TCG_TestResponse.update_convs;
      intro reads_intros; (rule Vendor_TCG_TestResponse.equality)?; simp add: Vendor_TCG_TestResponse_valid_def opt_ok_iff)

interpretation Vendor_TCG_TestResponse_codec:
  tpm_codec Vendor_TCG_TestResponse_toTpm Vendor_TCG_TestResponse_initFromTpm Vendor_TCG_TestResponse_default
    Vendor_TCG_TestResponse_enc Vendor_TCG_TestResponse_valid
  by unfold_locales (erule Vendor_TCG_TestResponse_writes Vendor_TCG_TestResponse_reads | simp add: Vendor_TCG_TestResponse_enc_def)+

definition Vendor_TCG_TestResponse_resp :: "(TPM_HANDLE, Vendor_TCG_TestResponse) RespStructure" where
  "Vendor_TCG_TestResponse_resp = \<lparr>resp_default = Vendor_TCG_TestResponse_default, resp_initFromTpm = Vendor_TCG_TestResponse_initFromTpm,
     resp_numHandles = 0, resp_getHandle = (\<lambda>_. TPM_HANDLE_default),
     resp_setHandle = (\<lambda>_ self. self), resp_sessEncInfo = \<lparr>sizeLen = 2, valLen = 1\<rparr>\<rparr>"

end
