(* ===== verification/TypeExtensions.thy ===== *)
theory TypeExtensions
  imports AuthSession TpmAttestCommands TpmNvCommands
begin

unbundle bit_operations_syntax

text \<open>
  \<^verbatim>\<open>TSS.CPP/Src/TpmTypeExtensions.cpp\<close> and the hand-written members of \<^verbatim>\<open>TSS.CPP/include/TpmTypes.h\<close>:
  names and types of handles, PCR selections, \<open>TPMT_HA\<close> as a PCR or audit accumulator, the name of a
  public area, and the checks of quotes, certificates and audit attestations against the key that is
  claimed to have signed them.

  A pointer that the code dereferences without a check is \<open>Undef\<close> when it is null.
\<close>

definition oderef :: "'a option \<Rightarrow> 'a outcome" where
  "oderef p = (case p of None \<Rightarrow> Undef | Some x \<Rightarrow> Ok x)"

section \<open>Handles\<close>

definition TPM_HANDLE_Persistent :: "UINT32 \<Rightarrow> TPM_HANDLE" where
  "TPM_HANDLE_Persistent handleOffset =
     TPM_HANDLE_of (push_bit 24 (ucast (TPM_HT_PERSISTENT :: TPM_HT)) + handleOffset)"

definition TPM_HANDLE_Pcr :: "UINT32 \<Rightarrow> TPM_HANDLE" where
  "TPM_HANDLE_Pcr PcrIndex = TPM_HANDLE_of PcrIndex"

definition TPM_HANDLE_NV :: "UINT32 \<Rightarrow> TPM_HANDLE" where
  "TPM_HANDLE_NV NvSlot = TPM_HANDLE_of (push_bit 24 (ucast (TPM_HT_NV_INDEX :: TPM_HT)) + NvSlot)"

definition SetAuth :: "ByteVec \<Rightarrow> TPM_HANDLE \<Rightarrow> TPM_HANDLE" where
  "SetAuth authVal h = h\<lparr>TPM_HANDLE_AuthValue := authVal\<rparr>"

definition GetAuth :: "TPM_HANDLE \<Rightarrow> ByteVec" where
  "GetAuth h = TPM_HANDLE_AuthValue h"

definition GetHandleType :: "TPM_HANDLE \<Rightarrow> TPM_HT" where
  "GetHandleType h = ucast (drop_bit 24 (TPM_HANDLE_handle h))"

text \<open>\<open>GetName\<close> caches the name of an entity that is named by its handle.\<close>

definition TPM_HANDLE_GetName :: "(TPM_HANDLE, ByteVec) sx" where
  "TPM_HANDLE_GetName h =
     (let t = GetHandleType h in
      if t = 0 \<or> t = 2 \<or> t = 3 \<or> t = 0x40
      then case Int32ToTpm (TPM_HANDLE_handle h) of
             Ok name \<Rightarrow> (Ok name, h\<lparr>TPM_HANDLE_Name := name\<rparr>)
           | r \<Rightarrow> (r, h)
      else if t = 1 \<or> t = 0x80 \<or> t = 0x81
      then (if TPM_HANDLE_Name h = [] then throw (runtime_error ''Name is not set for handle'') h
            else ret (TPM_HANDLE_Name h) h)
      else throw (runtime_error ''Unknown handle type'') h)"

definition SetName :: "ByteVec \<Rightarrow> (TPM_HANDLE, unit) sx" where
  "SetName name h =
     (let handleType = GetHandleType h in
      if handleType = TPM_HT_NV_INDEX \<or> handleType = TPM_HT_TRANSIENT \<or>
         handleType = TPM_HT_PERSISTENT \<or> handleType = TPM_HT_PERSISTENT
      then (Ok (), h\<lparr>TPM_HANDLE_Name := name\<rparr>)
      else sbind TPM_HANDLE_GetName (\<lambda>n. sassert (name = n)) h)"

section \<open>PCR selections\<close>

definition bit_of :: "UINT32 \<Rightarrow> byte" where
  "bit_of pcr = push_bit (unat (pcr mod 8)) 1"

definition TPMS_PCR_SELECTION_one :: "TPM_ALG_ID \<Rightarrow> UINT32 \<Rightarrow> TPMS_PCR_SELECTION" where
  "TPMS_PCR_SELECTION_one hashAlg pcr =
     (let sz = (if 3 < pcr div 8 + 1 then pcr div 8 + 1 else 3) in
      \<lparr>TPMS_PCR_SELECTION_hash = hashAlg,
       TPMS_PCR_SELECTION_pcrSelect = (replicate (unat sz) 0)[unat (pcr div 8) := bit_of pcr]\<rparr>)"

fun pcr_max :: "UINT32 list \<Rightarrow> UINT32 \<Rightarrow> UINT32" where
  "pcr_max [] pcrMax = pcrMax"
| "pcr_max (pcr # pcrs) pcrMax = pcr_max pcrs (if pcrMax < pcr then pcr else pcrMax)"

fun select_pcrs :: "UINT32 list \<Rightarrow> ByteVec \<Rightarrow> ByteVec" where
  "select_pcrs [] sel = sel"
| "select_pcrs (pcr # pcrs) sel =
     select_pcrs pcrs (sel[unat (pcr div 8) := sel ! unat (pcr div 8) OR bit_of pcr])"

definition TPMS_PCR_SELECTION_set :: "TPM_ALG_ID \<Rightarrow> UINT32 list \<Rightarrow> TPMS_PCR_SELECTION" where
  "TPMS_PCR_SELECTION_set hashAlg pcrs =
     (let m = pcr_max pcrs 0; pcrMax = (if m < 23 then 23 else m) in
      \<lparr>TPMS_PCR_SELECTION_hash = hashAlg,
       TPMS_PCR_SELECTION_pcrSelect = select_pcrs pcrs (replicate (unat (pcrMax div 8 + 1)) 0)\<rparr>)"

definition PcrIsSelected :: "TPMS_PCR_SELECTION \<Rightarrow> UINT32 \<Rightarrow> bool outcome" where
  "PcrIsSelected self pcr =
     (let sel = TPMS_PCR_SELECTION_pcrSelect self; i = unat (pcr div 8) in
      if length sel \<le> i then Undef
      else Ok (drop_bit (unat (pcr mod 8)) (sel ! i) AND 1 \<noteq> 0))"

fun to_array_loop :: "TPMS_PCR_SELECTION \<Rightarrow> nat list \<Rightarrow> UINT32 list outcome" where
  "to_array_loop self [] = Ok []"
| "to_array_loop self (j # js) = obind (PcrIsSelected self (of_nat j)) (\<lambda>sel.
     obind (to_array_loop self js) (\<lambda>arr. Ok (if sel then of_nat j # arr else arr)))"

text \<open>The bound of the loop is an \<open>int\<close>: the size is cast to one, and the product may leave its range.\<close>

definition ToArray :: "TPMS_PCR_SELECTION \<Rightarrow> UINT32 list outcome" where
  "ToArray self =
     (let maxIs = sint (of_nat (length (TPMS_PCR_SELECTION_pcrSelect self)) :: 32 word) * 8 in
      if maxIs < - (2 ^ 31) \<or> 2 ^ 31 \<le> maxIs then Undef else to_array_loop self [0..<nat maxIs])"

section \<open>Hash values\<close>

definition TPMT_HA_of_alg :: "TPM_ALG_ID \<Rightarrow> TPMT_HA" where
  "TPMT_HA_of_alg alg =
     \<lparr>TPMT_HA_hashAlg = alg, TPMT_HA_digest = replicate (unat (HashLength alg)) 0\<rparr>"

definition FromHashOfData :: "Openssl \<Rightarrow> TPM_ALG_ID \<Rightarrow> ByteVec \<Rightarrow> TPMT_HA outcome" where
  "FromHashOfData ossl alg data = obind (Hash_all ossl alg data) (\<lambda>d.
     Ok \<lparr>TPMT_HA_hashAlg = alg, TPMT_HA_digest = d\<rparr>)"

definition FromHashOfString :: "Openssl \<Rightarrow> TPM_ALG_ID \<Rightarrow> string \<Rightarrow> TPMT_HA outcome" where
  "FromHashOfString ossl alg str = FromHashOfData ossl alg (map of_char str)"

definition DigestSize :: "TPMT_HA \<Rightarrow> UINT16" where
  "DigestSize self = HashLength (TPMT_HA_hashAlg self)"

definition Extend :: "Openssl \<Rightarrow> ByteVec \<Rightarrow> TPMT_HA \<Rightarrow> TPMT_HA outcome" where
  "Extend ossl x self =
     obind (Hash_all ossl (TPMT_HA_hashAlg self) (Concatenate [TPMT_HA_digest self, x]))
       (\<lambda>d. Ok (self\<lparr>TPMT_HA_digest := d\<rparr>))"

definition Event :: "Openssl \<Rightarrow> ByteVec \<Rightarrow> TPMT_HA \<Rightarrow> TPMT_HA outcome" where
  "Event ossl x self = obind (Hash_all ossl (TPMT_HA_hashAlg self) x) (\<lambda>s. Extend ossl s self)"

definition Reset :: "TPMT_HA \<Rightarrow> TPMT_HA" where
  "Reset self = self\<lparr>TPMT_HA_digest := map (\<lambda>_. 0) (TPMT_HA_digest self)\<rparr>"

section \<open>Public areas and signatures\<close>

definition TPMT_PUBLIC_GetName :: "Openssl \<Rightarrow> TPMT_PUBLIC \<Rightarrow> ByteVec outcome" where
  "TPMT_PUBLIC_GetName ossl self =
     obind (toBytes TPMT_PUBLIC_toTpm self) (\<lambda>bytes.
       obind (Hash_all ossl (TPMT_PUBLIC_nameAlg self) bytes) (\<lambda>pubHash.
         obind (Int16ToTpm (TPMT_PUBLIC_nameAlg self)) (\<lambda>theHashAlg. Ok (theHashAlg @ pubHash))))"

definition as_rsa_parms :: "TPMU_PUBLIC_PARMS \<Rightarrow> TPMS_RSA_PARMS option" where
  "as_rsa_parms u = (case u of PUBLIC_PARMS_TPMS_RSA_PARMS p \<Rightarrow> Some p | _ \<Rightarrow> None)"

definition GetSigningHashAlg :: "TPMT_PUBLIC \<Rightarrow> TPM_ALG_ID outcome" where
  "GetSigningHashAlg pub = obind (oderef (TPMT_PUBLIC_parameters pub)) (\<lambda>u.
     case as_rsa_parms u of
       None \<Rightarrow> Throw (domain_error ''Only RSA signature verificaion is supported'')
     | Some rsaParms \<Rightarrow> obind (oderef (TPMS_RSA_PARMS_scheme rsaParms)) (\<lambda>scheme.
         case scheme of
           ASYM_SCHEME_TPMS_SIG_SCHEME_RSASSA s \<Rightarrow> Ok (TPMS_SCHEME_HASH_hashAlg s)
         | _ \<Rightarrow> Throw (domain_error ''only RSASSA is supported'')))"

definition TpmAlgIdToNid :: "Openssl \<Rightarrow> TPM_ALG_ID \<Rightarrow> TPM_ALG_ID outcome" where
  "TpmAlgIdToNid ossl hashAlg =
     (if hashAlg = TPM_ALG_ID_NULL \<or> IsImplemented ossl hashAlg then Ok hashAlg
      else Throw (domain_error ''TpmAlgIdToNid(): Unknown or not a hash algorithm''))"

text \<open>
  \<open>Crypto::ValidateSignature\<close> with \<open>_cpri__ValidateSignatureRSA\<close>: the modulus is copied into a buffer of
  4096 bytes. The exponent in the key is not used.
\<close>

definition Crypto_ValidateSignature ::
  "Openssl \<Rightarrow> TPMT_PUBLIC \<Rightarrow> ByteVec \<Rightarrow> TPMU_SIGNATURE \<Rightarrow> bool outcome" where
  "Crypto_ValidateSignature ossl pubKey signedDigest sig =
     obind (oderef (TPMT_PUBLIC_parameters pubKey)) (\<lambda>u.
       if as_rsa_parms u = None
       then Throw (domain_error ''ValidateSignature: Only RSA is supported'')
       else case sig of
         SIGNATURE_TPMS_SIGNATURE_RSASSA rsaSig \<Rightarrow>
           obind (oderef (TPMT_PUBLIC_unique pubKey)) (\<lambda>unique.
             case unique of
               PUBLIC_ID_TPM2B_PUBLIC_KEY_RSA k \<Rightarrow>
                 let modulus = TPM2B_PUBLIC_KEY_RSA_buffer k in
                 if 4096 < length modulus then Undef
                 else obind (GetSigningHashAlg pubKey) (\<lambda>hashAlg.
                   if length (TPMS_SIGNATURE_RSA_sig rsaSig) \<noteq> length modulus then Ok False
                   else obind (TpmAlgIdToNid ossl hashAlg) (\<lambda>nid.
                     Ok (ossl_rsa_verify ossl nid signedDigest (TPMS_SIGNATURE_RSA_sig rsaSig) modulus)))
             | _ \<Rightarrow> Undef)
       | _ \<Rightarrow> Throw (domain_error ''ValidateSignature: Only RSASSA scheme is supported''))"

text \<open>The last steps of every check: hash the attestation's wire form and verify the signature over it.\<close>

definition verify_attest ::
  "Openssl \<Rightarrow> TPMT_PUBLIC \<Rightarrow> TPM_ALG_ID \<Rightarrow> TPMS_ATTEST \<Rightarrow> TPMU_SIGNATURE option \<Rightarrow> bool outcome" where
  "verify_attest ossl self hashAlg attest signature =
     obind (toBytes TPMS_ATTEST_toTpm attest) (\<lambda>signedBlob.
       obind (Hash_all ossl hashAlg signedBlob) (\<lambda>signedBlobHash.
         obind (oderef signature) (\<lambda>sig. Crypto_ValidateSignature ossl self signedBlobHash sig)))"

text \<open>And the first steps: the key's hash algorithm, the nonce and the magic number.\<close>

definition check_attest ::
  "TPMT_PUBLIC \<Rightarrow> ByteVec \<Rightarrow> TPMS_ATTEST \<Rightarrow> (TPM_ALG_ID \<Rightarrow> bool outcome) \<Rightarrow> bool outcome" where
  "check_attest self Nonce attest k = obind (GetSigningHashAlg self) (\<lambda>hashAlg.
     if TPMS_ATTEST_extraData attest \<noteq> Nonce then Ok False
     else if TPMS_ATTEST_magic attest \<noteq> TPM_GENERATED_VALUE then Ok False
     else k hashAlg)"

text \<open>\<open>operator!=\<close> on vectors of structures.\<close>

fun structs_eq :: "('a \<Rightarrow> unit tpm) \<Rightarrow> 'a list \<Rightarrow> 'a list \<Rightarrow> bool outcome" where
  "structs_eq toTpm (x # xs) (y # ys) = obind (TpmStructure_eq False toTpm x toTpm y) (\<lambda>e.
     if e then structs_eq toTpm xs ys else Ok False)"
| "structs_eq toTpm [] [] = Ok True"
| "structs_eq toTpm _ _ = Ok False"

definition vectors_eq :: "('a \<Rightarrow> unit tpm) \<Rightarrow> 'a list \<Rightarrow> 'a list \<Rightarrow> bool outcome" where
  "vectors_eq toTpm xs ys = (if length xs \<noteq> length ys then Ok False else structs_eq toTpm xs ys)"

definition ValidateQuote ::
  "Openssl \<Rightarrow> TPMT_PUBLIC \<Rightarrow> PCR_ReadResponse \<Rightarrow> ByteVec \<Rightarrow> QuoteResponse \<Rightarrow> bool outcome" where
  "ValidateQuote ossl self expectedPcrVals Nonce quote =
     (let attest = QuoteResponse_quoted quote in
      check_attest self Nonce attest (\<lambda>hashAlg. obind (oderef (TPMS_ATTEST_attested attest)) (\<lambda>u.
        case u of
          ATTEST_TPMS_QUOTE_INFO quoteInfo \<Rightarrow>
            obind (vectors_eq TPMS_PCR_SELECTION_toTpm (TPMS_QUOTE_INFO_pcrSelect quoteInfo)
                     (PCR_ReadResponse_pcrSelectionOut expectedPcrVals)) (\<lambda>same.
              if \<not> same then Ok False
              else obind (HashPcrs ossl hashAlg
                            (map TPM2B_DIGEST_buffer (PCR_ReadResponse_pcrValues expectedPcrVals))) (\<lambda>d.
                if TPMS_QUOTE_INFO_pcrDigest quoteInfo \<noteq> d then Ok False
                else verify_attest ossl self hashAlg attest (QuoteResponse_signature quote)))
        | _ \<Rightarrow> Ok False)))"

definition ValidateCertify ::
  "Openssl \<Rightarrow> TPMT_PUBLIC \<Rightarrow> TPMT_PUBLIC \<Rightarrow> ByteVec \<Rightarrow> CertifyResponse \<Rightarrow> bool outcome" where
  "ValidateCertify ossl self certifiedKey Nonce certResponse =
     (let attest = CertifyResponse_certifyInfo certResponse in
      check_attest self Nonce attest (\<lambda>hashAlg. obind (oderef (TPMS_ATTEST_attested attest)) (\<lambda>u.
        case u of
          ATTEST_TPMS_CERTIFY_INFO quoteInfo \<Rightarrow>
            obind (TPMT_PUBLIC_GetName ossl certifiedKey) (\<lambda>name.
              if TPMS_CERTIFY_INFO_name quoteInfo \<noteq> name then Ok False
              else verify_attest ossl self hashAlg attest (CertifyResponse_signature certResponse))
        | _ \<Rightarrow> Ok False)))"

definition ValidateCertifyCreation ::
  "Openssl \<Rightarrow> TPMT_PUBLIC \<Rightarrow> ByteVec \<Rightarrow> ByteVec \<Rightarrow> CertifyCreationResponse \<Rightarrow> bool outcome" where
  "ValidateCertifyCreation ossl self Nonce creationHash certResponse =
     (let attest = CertifyCreationResponse_certifyInfo certResponse in
      check_attest self Nonce attest (\<lambda>hashAlg. obind (oderef (TPMS_ATTEST_attested attest)) (\<lambda>u.
        case u of
          ATTEST_TPMS_CREATION_INFO quoteInfo \<Rightarrow>
            if TPMS_CREATION_INFO_creationHash quoteInfo \<noteq> creationHash then Ok False
            else verify_attest ossl self hashAlg attest (CertifyCreationResponse_signature certResponse)
        | _ \<Rightarrow> Ok False)))"

definition ValidateGetTime ::
  "Openssl \<Rightarrow> TPMT_PUBLIC \<Rightarrow> ByteVec \<Rightarrow> GetTimeResponse \<Rightarrow> bool outcome" where
  "ValidateGetTime ossl self Nonce timeQuote =
     (let attest = GetTimeResponse_timeInfo timeQuote in
      check_attest self Nonce attest (\<lambda>hashAlg.
        verify_attest ossl self hashAlg attest (GetTimeResponse_signature timeQuote)))"

text \<open>The next three use the result of \<open>dynamic_cast\<close> unchecked.\<close>

definition ValidateCommandAudit ::
  "Openssl \<Rightarrow> TPMT_PUBLIC \<Rightarrow> TPMT_HA \<Rightarrow> ByteVec \<Rightarrow> GetCommandAuditDigestResponse \<Rightarrow> bool outcome" where
  "ValidateCommandAudit ossl self expectedHash Nonce quote =
     (let attest = GetCommandAuditDigestResponse_auditInfo quote in
      check_attest self Nonce attest (\<lambda>hashAlg. obind (oderef (TPMS_ATTEST_attested attest)) (\<lambda>u.
        case u of
          ATTEST_TPMS_COMMAND_AUDIT_INFO sessionInfo \<Rightarrow>
            if TPMT_HA_digest expectedHash \<noteq> TPMS_COMMAND_AUDIT_INFO_auditDigest sessionInfo then Ok False
            else verify_attest ossl self hashAlg attest (GetCommandAuditDigestResponse_signature quote)
        | _ \<Rightarrow> Undef)))"

definition ValidateSessionAudit ::
  "Openssl \<Rightarrow> TPMT_PUBLIC \<Rightarrow> TPMT_HA \<Rightarrow> ByteVec \<Rightarrow> GetSessionAuditDigestResponse \<Rightarrow> bool outcome" where
  "ValidateSessionAudit ossl self expectedHash Nonce quote =
     (let attest = GetSessionAuditDigestResponse_auditInfo quote in
      check_attest self Nonce attest (\<lambda>hashAlg. obind (oderef (TPMS_ATTEST_attested attest)) (\<lambda>u.
        case u of
          ATTEST_TPMS_SESSION_AUDIT_INFO sessionInfo \<Rightarrow>
            if TPMT_HA_digest expectedHash \<noteq> TPMS_SESSION_AUDIT_INFO_sessionDigest sessionInfo then Ok False
            else verify_attest ossl self hashAlg attest (GetSessionAuditDigestResponse_signature quote)
        | _ \<Rightarrow> Undef)))"

definition ValidateCertifyNV ::
  "Openssl \<Rightarrow> TPMT_PUBLIC \<Rightarrow> ByteVec \<Rightarrow> ByteVec \<Rightarrow> UINT16 \<Rightarrow> NV_CertifyResponse \<Rightarrow> bool outcome" where
  "ValidateCertifyNV ossl self Nonce expectedContents offset quote =
     (let attest = NV_CertifyResponse_certifyInfo quote in
      check_attest self Nonce attest (\<lambda>hashAlg. obind (oderef (TPMS_ATTEST_attested attest)) (\<lambda>u.
        case u of
          ATTEST_TPMS_NV_CERTIFY_INFO nvInfo \<Rightarrow>
            if TPMS_NV_CERTIFY_INFO_nvContents nvInfo \<noteq> expectedContents then Ok False
            else if TPMS_NV_CERTIFY_INFO_offset nvInfo \<noteq> offset then Ok False
            else verify_attest ossl self hashAlg attest (NV_CertifyResponse_signature quote)
        | _ \<Rightarrow> Undef)))"

section \<open>Handles and names\<close>

text \<open>The top byte of a handle, which is its type, and an offset of 24 bits below it.\<close>

lemma less24_bits:
  assumes "(off :: UINT32) < 2 ^ 24" and "bit off k"
  shows "k < 24"
proof -
  have "unat off < 2 ^ 24" using assms(1) by (simp add: word_less_nat_alt)
  then have "take_bit 24 (unat off) = unat off" by (simp add: take_bit_nat_eq_self)
  then have "bit (unat off) k \<Longrightarrow> k < 24" by (metis bit_take_bit_iff)
  then show ?thesis using assms(2) by (simp add: bit_unsigned_iff bit_imp_le_length)
qed

lemma GetHandleType_offset:
  assumes "off < 2 ^ 24"
  shows "GetHandleType (TPM_HANDLE_of (push_bit 24 (ucast t) + off)) = t"
proof -
  have "push_bit 24 (ucast t :: UINT32) AND off = 0"
    by (rule bit_word_eqI) (auto simp: bit_simps dest!: less24_bits [OF assms])
  then have "push_bit 24 (ucast t) + off = push_bit 24 (ucast t) OR off"
    by (rule disjunctive_add_eq_or)
  moreover have "ucast (drop_bit 24 (push_bit 24 (ucast t) OR off)) = t"
    by (rule bit_word_eqI) (auto simp: bit_simps dest!: less24_bits [OF assms])
  ultimately show ?thesis by (simp add: GetHandleType_def TPM_HANDLE_of_def)
qed

lemma GetHandleType_Persistent:
  "off < 2 ^ 24 \<Longrightarrow> GetHandleType (TPM_HANDLE_Persistent off) = TPM_HT_PERSISTENT"
  unfolding TPM_HANDLE_Persistent_def by (rule GetHandleType_offset)

lemma GetHandleType_NV: "off < 2 ^ 24 \<Longrightarrow> GetHandleType (TPM_HANDLE_NV off) = TPM_HT_NV_INDEX"
  unfolding TPM_HANDLE_NV_def by (rule GetHandleType_offset)

lemma GetHandleType_Pcr: "i < 2 ^ 24 \<Longrightarrow> GetHandleType (TPM_HANDLE_Pcr i) = 0"
  using GetHandleType_offset [of i 0] by (simp add: TPM_HANDLE_Pcr_def)

definition named_by_handle :: "TPM_HANDLE \<Rightarrow> bool" where
  "named_by_handle h \<longleftrightarrow> GetHandleType h \<in> {0, 2, 3, 0x40}"

definition named_object :: "TPM_HANDLE \<Rightarrow> bool" where
  "named_object h \<longleftrightarrow> GetHandleType h \<in> {1, 0x80, 0x81}"

lemma IntToTpm_be: "int_size n \<Longrightarrow> IntToTpm n v = Ok (be_bytes n v)"
  using Int64ToTpm_writes [of 0 n v "replicate n 0"]
  by (simp add: IntToTpm_def overwrite_def)

lemma Int32ToTpm_enc: "Int32ToTpm v = Ok (enc32 v)" and Int16ToTpm_enc: "Int16ToTpm w = Ok (enc16 w)"
  by (simp_all add: Int32ToTpm_def Int16ToTpm_def IntToTpm_be enc32_def enc16_def)

lemma GetName_by_handle:
  "named_by_handle h \<Longrightarrow> TPM_HANDLE_GetName h =
     (Ok (enc32 (TPM_HANDLE_handle h)), h\<lparr>TPM_HANDLE_Name := enc32 (TPM_HANDLE_handle h)\<rparr>)"
  by (auto simp: named_by_handle_def TPM_HANDLE_GetName_def Let_def Int32ToTpm_enc)

text \<open>An object has the name it was given, and none until then.\<close>

lemma GetName_object:
  "named_object h \<Longrightarrow> TPM_HANDLE_GetName h =
     (if TPM_HANDLE_Name h = [] then (Throw (runtime_error ''Name is not set for handle''), h)
      else (Ok (TPM_HANDLE_Name h), h))"
  by (auto simp: named_object_def TPM_HANDLE_GetName_def Let_def sx_simps)

lemma SetName_object:
  "named_object h \<Longrightarrow> SetName name h = (Ok (), h\<lparr>TPM_HANDLE_Name := name\<rparr>)"
  by (auto simp: named_object_def SetName_def Let_def)

lemma GetHandleType_Name [simp]:
  "GetHandleType (h\<lparr>TPM_HANDLE_Name := n\<rparr>) = GetHandleType h"
  "GetHandleType (h\<lparr>TPM_HANDLE_AuthValue := n\<rparr>) = GetHandleType h"
  by (simp_all add: GetHandleType_def)

lemma SetName_GetName:
  "named_object h \<Longrightarrow> name \<noteq> [] \<Longrightarrow> SetName name h = (Ok (), h') \<Longrightarrow> TPM_HANDLE_GetName h' = (Ok name, h')"
  by (auto simp: SetName_object GetName_object named_object_def)

lemma SetName_by_handle:
  "named_by_handle h \<Longrightarrow> fst (SetName name h) =
     (if name = enc32 (TPM_HANDLE_handle h) then Ok () else AssertFailed)"
  using GetName_by_handle [of h]
  by (auto simp: named_by_handle_def SetName_def Let_def sbind_Ok sassert_app)

section \<open>PCR selections\<close>

definition sel_bit :: "ByteVec \<Rightarrow> UINT32 \<Rightarrow> bool" where
  "sel_bit sel p = bit (sel ! unat (p div 8)) (unat (p mod 8))"

lemma PcrIsSelected_bit:
  "unat (p div 8) < length (TPMS_PCR_SELECTION_pcrSelect s) \<Longrightarrow>
   PcrIsSelected s p = Ok (sel_bit (TPMS_PCR_SELECTION_pcrSelect s) p)"
  by (simp add: PcrIsSelected_def Let_def sel_bit_def and_one_eq bit_iff_odd_drop_bit
      odd_iff_mod_2_eq_one)

lemma unat_mod8: "unat ((p::UINT32) mod 8) = unat p mod 8" "unat ((p::UINT32) mod 8) < 8"
  by (simp_all add: unat_mod)

lemma pcr_eq_iff:
  fixes p q :: UINT32
  shows "p = q \<longleftrightarrow> unat (p div 8) = unat (q div 8) \<and> unat (p mod 8) = unat (q mod 8)"
  by (metis div_mult_mod_eq unsigned_word_eqI)

lemma bit_bit_of: "bit (bit_of q) k \<longleftrightarrow> k = unat (q mod 8)"
  using unat_mod8(2) [of q] by (auto simp: bit_of_def bit_simps)

lemma sel_bit_update:
  "unat (q div 8) < length sel \<Longrightarrow>
   sel_bit (sel[unat (q div 8) := sel ! unat (q div 8) OR bit_of q]) p \<longleftrightarrow> sel_bit sel p \<or> p = q"
  by (auto simp: sel_bit_def nth_list_update bit_simps bit_bit_of pcr_eq_iff [of p q])

lemma length_select_pcrs [simp]: "length (select_pcrs pcrs sel) = length sel"
  by (induction pcrs sel rule: select_pcrs.induct) simp_all

lemma sel_bit_select:
  "(\<And>q. q \<in> set pcrs \<Longrightarrow> unat (q div 8) < length sel) \<Longrightarrow>
   sel_bit (select_pcrs pcrs sel) p \<longleftrightarrow> sel_bit sel p \<or> p \<in> set pcrs"
  by (induction pcrs sel rule: select_pcrs.induct) (auto simp: sel_bit_update)

lemma pcr_max_ge: "m \<le> pcr_max pcrs m" "p \<in> set pcrs \<Longrightarrow> p \<le> pcr_max pcrs m"
proof (induction pcrs m rule: pcr_max.induct)
  case (2 pcr pcrs m)
  {
    case 1
    show ?case using "2.IH"(1) by (auto split: if_splits)
  next
    case 2
    then show ?case using "2.IH" by (auto split: if_splits intro: order_trans)
  }
qed simp_all

definition pcr_selection :: "TPM_ALG_ID \<Rightarrow> UINT32 list \<Rightarrow> ByteVec" where
  "pcr_selection hashAlg pcrs = TPMS_PCR_SELECTION_pcrSelect (TPMS_PCR_SELECTION_set hashAlg pcrs)"

lemma unat_div8_Suc: "unat ((m::UINT32) div 8 + 1) = unat m div 8 + 1"
proof -
  have "unat (m div 8) < 2 ^ 29" using unsigned_less [where ?'a = nat, of m] by (simp add: unat_div)
  then have "unat (m div 8) + unat (1 :: UINT32) < 2 ^ LENGTH(32)" by simp
  then have "unat (m div 8 + 1) = unat (m div 8) + unat (1 :: UINT32)"
    by (rule unat_add_lem [THEN iffD1])
  then show ?thesis by (simp add: unat_div)
qed

lemma pcr_selection_room: "p \<in> set pcrs \<Longrightarrow> unat (p div 8) < length (pcr_selection hashAlg pcrs)"
proof -
  assume "p \<in> set pcrs"
  then have "p \<le> pcr_max pcrs 0" by (rule pcr_max_ge(2))
  then have "unat p \<le> unat (if pcr_max pcrs 0 < 23 then 23 else pcr_max pcrs 0)"
    by (auto simp: word_le_nat_alt word_less_nat_alt)
  then show ?thesis
    by (simp add: pcr_selection_def TPMS_PCR_SELECTION_set_def Let_def unat_div8_Suc unat_div
        div_le_mono le_imp_less_Suc)
qed

lemma pcr_max_in: "pcr_max pcrs m \<in> insert m (set pcrs)"
  by (induction pcrs m rule: pcr_max.induct) (auto split: if_splits)

text \<open>The selection stays below the range of the loop of \<open>ToArray\<close>.\<close>

lemma length_pcr_selection_less: "length (pcr_selection hashAlg pcrs) < 2 ^ 28 \<longleftrightarrow> (\<forall>q \<in> set pcrs. unat q < 2 ^ 31 - 8)"
proof -
  define m where "m = (if pcr_max pcrs 0 < 23 then 23 else pcr_max pcrs 0)"
  have l: "length (pcr_selection hashAlg pcrs) = unat m div 8 + 1"
    by (simp add: pcr_selection_def TPMS_PCR_SELECTION_set_def Let_def unat_div8_Suc m_def)
  have "unat m < 2 ^ 31 - 8 \<longleftrightarrow> unat (pcr_max pcrs 0) < 2 ^ 31 - 8"
    by (auto simp: m_def word_less_nat_alt)
  moreover have "unat (pcr_max pcrs 0) < 2 ^ 31 - 8 \<longleftrightarrow> (\<forall>q \<in> set pcrs. unat q < 2 ^ 31 - 8)"
    using pcr_max_in [of pcrs 0] pcr_max_ge(2) [of _ pcrs 0] by (auto simp: word_le_nat_alt intro: le_less_trans)
  moreover have "unat m div 8 + 1 < 2 ^ 28 \<longleftrightarrow> unat m < 2 ^ 31 - 8" by auto
  ultimately show ?thesis using l by simp
qed

lemma length_pcr_selection: "3 \<le> length (pcr_selection hashAlg pcrs)" "length (pcr_selection hashAlg pcrs) \<le> 2 ^ 29"
proof -
  define m where "m = (if pcr_max pcrs 0 < 23 then 23 else pcr_max pcrs 0)"
  have l: "length (pcr_selection hashAlg pcrs) = unat m div 8 + 1"
    by (simp add: pcr_selection_def TPMS_PCR_SELECTION_set_def Let_def unat_div8_Suc m_def)
  have "23 \<le> unat m" by (auto simp: m_def word_less_nat_alt)
  then have "23 div 8 \<le> unat m div 8" by (rule div_le_mono)
  then show "3 \<le> length (pcr_selection hashAlg pcrs)" using l by simp
  have "unat m < 2 ^ 32" using unsigned_less [where ?'a = nat, of m] by simp
  then show "length (pcr_selection hashAlg pcrs) \<le> 2 ^ 29" using l by simp
qed

lemma sel_bit_zeros: "unat (p div 8) < n \<Longrightarrow> \<not> sel_bit (replicate n 0) p"
  by (simp add: sel_bit_def)

text \<open>The selection made from a list of PCRs selects those, and no other.\<close>

lemma PcrIsSelected_set:
  assumes "unat (p div 8) < length (pcr_selection hashAlg pcrs)"
  shows "PcrIsSelected (TPMS_PCR_SELECTION_set hashAlg pcrs) p = Ok (p \<in> set pcrs)"
proof -
  have "PcrIsSelected (TPMS_PCR_SELECTION_set hashAlg pcrs) p = Ok (sel_bit (pcr_selection hashAlg pcrs) p)"
    using assms by (simp add: PcrIsSelected_bit pcr_selection_def)
  moreover have "sel_bit (pcr_selection hashAlg pcrs) p \<longleftrightarrow> p \<in> set pcrs"
    using assms pcr_selection_room [of _ pcrs hashAlg]
    by (simp add: pcr_selection_def TPMS_PCR_SELECTION_set_def Let_def sel_bit_select sel_bit_zeros)
  ultimately show ?thesis by simp
qed

lemma to_array_loop_filter:
  "(\<And>j. j \<in> set js \<Longrightarrow> PcrIsSelected s (of_nat j) = Ok (P (of_nat j))) \<Longrightarrow>
   to_array_loop s js = Ok (filter P (map of_nat js))"
  by (induction js) simp_all

lemma ToArray_set:
  fixes hashAlg pcrs
  defines "n \<equiv> length (pcr_selection hashAlg pcrs) * 8"
  shows "ToArray (TPMS_PCR_SELECTION_set hashAlg pcrs) =
    (if n < 2 ^ 31 then Ok (filter (\<lambda>p. p \<in> set pcrs) (map of_nat [0..<n])) else Undef)"
proof -
  have s: "sint (of_nat (length (pcr_selection hashAlg pcrs)) :: 32 word) = int (length (pcr_selection hashAlg pcrs))"
    using length_pcr_selection(2) [of hashAlg pcrs]
    by (simp add: signed_of_nat signed_take_bit_int_eq_self)
  have n: "j < 2 ^ 32" if "j < n" for j
    using that length_pcr_selection(2) [of hashAlg pcrs] by (simp add: n_def)
  have "unat ((of_nat j :: UINT32) div 8) < length (pcr_selection hashAlg pcrs)" if "j < n" for j
    using that n [OF that] by (simp add: unat_div unat_of_nat_32 n_def less_mult_imp_div_less)
  then have "to_array_loop (TPMS_PCR_SELECTION_set hashAlg pcrs) [0..<n] =
      Ok (filter (\<lambda>p. p \<in> set pcrs) (map of_nat [0..<n]))"
    by (intro to_array_loop_filter PcrIsSelected_set) simp
  moreover have "nat (int (length (pcr_selection hashAlg pcrs)) * 8) = n" by (simp add: n_def nat_mult_distrib)
  ultimately show ?thesis
    unfolding ToArray_def pcr_selection_def [symmetric] s by (auto simp: n_def)
qed

lemma ToArray_sorted:
  assumes "\<forall>q \<in> set pcrs. unat q < 2 ^ 31 - 8"
  shows "\<exists>arr. ToArray (TPMS_PCR_SELECTION_set hashAlg pcrs) = Ok arr \<and> set arr = set pcrs \<and>
     sorted arr \<and> distinct arr"
proof -
  let ?n = "length (pcr_selection hashAlg pcrs) * 8"
  have n: "?n < 2 ^ 31" using assms length_pcr_selection_less [of hashAlg pcrs] by simp
  have "p \<in> of_nat ` {0..<?n}" if "p \<in> set pcrs" for p
  proof -
    have "unat p div 8 < length (pcr_selection hashAlg pcrs)"
      using pcr_selection_room [OF that] by (simp add: unat_div)
    then have "unat p < ?n" by linarith
    then show ?thesis by (metis atLeastLessThan_iff image_eqI of_nat_unat_32 zero_le)
  qed
  moreover have "sorted (map of_nat [0..<?n] :: UINT32 list)"
    using n by (auto simp: sorted_iff_nth_mono word_le_nat_alt unat_of_nat_32)
  moreover have "distinct (map of_nat [0..<?n] :: UINT32 list)"
    using n by (auto simp: distinct_map inj_on_def dest!: arg_cong [of _ _ unat] simp: unat_of_nat_32)
  ultimately show ?thesis
    by (intro exI [of _ "filter (\<lambda>p. p \<in> set pcrs) (map of_nat [0..<?n])"])
      (use n in \<open>auto simp: ToArray_set sorted_wrt_filter\<close>)
qed

lemma ToArray_overflow:
  "\<not> (\<forall>q \<in> set pcrs. unat q < 2 ^ 31 - 8) \<Longrightarrow> ToArray (TPMS_PCR_SELECTION_set hashAlg pcrs) = Undef"
  using length_pcr_selection_less [of hashAlg pcrs] by (simp only: ToArray_set split: if_split) auto

section \<open>Hash accumulators\<close>

lemma Extend_Ok:
  "IsImplemented ossl (TPMT_HA_hashAlg h) \<Longrightarrow> TPMT_HA_digest h @ x \<noteq> [] \<Longrightarrow>
   Extend ossl x h = Ok (h\<lparr>TPMT_HA_digest := ossl_digest ossl (TPMT_HA_hashAlg h) (TPMT_HA_digest h @ x)\<rparr>)"
  by (simp add: Extend_def Hash_all_Ok)

text \<open>A hash value of its algorithm's size, which every operation keeps.\<close>

definition ha_ok :: "Openssl \<Rightarrow> TPMT_HA \<Rightarrow> bool" where
  "ha_ok ossl h \<longleftrightarrow> IsImplemented ossl (TPMT_HA_hashAlg h) \<and>
     length (TPMT_HA_digest h) = unat (HashLength (TPMT_HA_hashAlg h))"

lemma ha_ok_nonempty: "ha_ok ossl h \<Longrightarrow> TPMT_HA_digest h \<noteq> []"
  using IsImplemented_HashLength [of ossl "TPMT_HA_hashAlg h"] by (auto simp: ha_ok_def)

lemma ha_ok_of_alg: "IsImplemented ossl a \<Longrightarrow> ha_ok ossl (TPMT_HA_of_alg a)"
  by (simp add: ha_ok_def TPMT_HA_of_alg_def)

lemma ha_ok_Reset: "ha_ok ossl h \<Longrightarrow> ha_ok ossl (Reset h)"
  by (simp add: ha_ok_def Reset_def)

lemma Reset_of_alg: "ha_ok ossl h \<Longrightarrow> Reset h = TPMT_HA_of_alg (TPMT_HA_hashAlg h)"
  by (simp add: ha_ok_def Reset_def TPMT_HA_of_alg_def map_replicate_const)

definition extended :: "Openssl \<Rightarrow> TPMT_HA \<Rightarrow> ByteVec \<Rightarrow> TPMT_HA" where
  "extended ossl h x = h\<lparr>TPMT_HA_digest := ossl_digest ossl (TPMT_HA_hashAlg h) (TPMT_HA_digest h @ x)\<rparr>"

lemma Extend_extended:
  "ha_ok ossl h \<Longrightarrow> Extend ossl x h = Ok (extended ossl h x)"
  using ha_ok_nonempty [of ossl h] by (simp add: Extend_Ok ha_ok_def extended_def)

lemma ha_ok_extended: "ossl_ok ossl \<Longrightarrow> ha_ok ossl h \<Longrightarrow> ha_ok ossl (extended ossl h x)"
  by (simp add: ha_ok_def extended_def ossl_ok_def)

lemma extended_sel [simp]:
  "TPMT_HA_hashAlg (extended ossl h x) = TPMT_HA_hashAlg h"
  by (simp add: extended_def)

text \<open>An event extends the digest of its data, except that nothing is taken for the data of an empty one.\<close>

lemma Event_extended:
  "ha_ok ossl h \<Longrightarrow> Event ossl x h = Ok (extended ossl h
     (if x = [] then replicate (unat (HashLength (TPMT_HA_hashAlg h))) 0
      else ossl_digest ossl (TPMT_HA_hashAlg h) x))"
  using Extend_extended [of ossl h] by (simp add: Event_def Hash_all_Nil Hash_all_Ok ha_ok_def)

section \<open>The name of a public area\<close>

lemma TPMT_PUBLIC_enc_nonempty: "TPMT_PUBLIC_valid x \<Longrightarrow> TPMT_PUBLIC_enc x \<noteq> []"
  by (auto simp: TPMT_PUBLIC_enc_def TPMT_PUBLIC_valid_def opt_ok_iff)

lemma TPMT_PUBLIC_GetName_enc:
  assumes "TPMT_PUBLIC_valid x" and "length (TPMT_PUBLIC_enc x) \<le> 4096"
    and "IsImplemented ossl (TPMT_PUBLIC_nameAlg x)"
  shows "TPMT_PUBLIC_GetName ossl x = Ok (enc16 (TPMT_PUBLIC_nameAlg x) @
    ossl_digest ossl (TPMT_PUBLIC_nameAlg x) (TPMT_PUBLIC_enc x))"
  using assms by (simp add: TPMT_PUBLIC_GetName_def TPMT_PUBLIC_codec.toBytes_enc Hash_all_Ok Int16ToTpm_enc
      TPMT_PUBLIC_enc_nonempty)

lemma enc16_inj: "enc16 a = enc16 b \<longleftrightarrow> a = b"
  using reads_unique [OF reads_readShort reads_readShort, of a "[]" b "[]"] by auto

text \<open>Two public areas of one name are one, or their digests collide.\<close>

lemma TPMT_PUBLIC_GetName_collision:
  assumes x: "TPMT_PUBLIC_valid x" "length (TPMT_PUBLIC_enc x) \<le> 4096" "IsImplemented ossl (TPMT_PUBLIC_nameAlg x)"
    and y: "TPMT_PUBLIC_valid y" "length (TPMT_PUBLIC_enc y) \<le> 4096" "IsImplemented ossl (TPMT_PUBLIC_nameAlg y)"
    and "TPMT_PUBLIC_GetName ossl x = TPMT_PUBLIC_GetName ossl y" and "x \<noteq> y"
  obtains m m' where "m \<noteq> m'"
    and "ossl_digest ossl (TPMT_PUBLIC_nameAlg x) m = ossl_digest ossl (TPMT_PUBLIC_nameAlg x) m'"
proof (rule that)
  show "TPMT_PUBLIC_enc x \<noteq> TPMT_PUBLIC_enc y"
    using TPMT_PUBLIC_codec.enc_inj [OF x(1) y(1)] \<open>x \<noteq> y\<close> by simp
  have "enc16 (TPMT_PUBLIC_nameAlg x) @ ossl_digest ossl (TPMT_PUBLIC_nameAlg x) (TPMT_PUBLIC_enc x) =
      enc16 (TPMT_PUBLIC_nameAlg y) @ ossl_digest ossl (TPMT_PUBLIC_nameAlg y) (TPMT_PUBLIC_enc y)"
    using assms(7) by (simp add: TPMT_PUBLIC_GetName_enc [OF x] TPMT_PUBLIC_GetName_enc [OF y])
  then show "ossl_digest ossl (TPMT_PUBLIC_nameAlg x) (TPMT_PUBLIC_enc x) =
      ossl_digest ossl (TPMT_PUBLIC_nameAlg x) (TPMT_PUBLIC_enc y)"
    by (auto simp: enc16_inj)
qed

section \<open>What the checks of attestations establish\<close>

definition signed_by ::
  "Openssl \<Rightarrow> TPMT_PUBLIC \<Rightarrow> TPM_ALG_ID \<Rightarrow> ByteVec \<Rightarrow> TPMU_SIGNATURE option \<Rightarrow> bool" where
  "signed_by ossl key alg blob signature \<longleftrightarrow> (\<exists>s k.
     signature = Some (SIGNATURE_TPMS_SIGNATURE_RSASSA s) \<and>
     TPMT_PUBLIC_unique key = Some (PUBLIC_ID_TPM2B_PUBLIC_KEY_RSA k) \<and>
     ossl_rsa_verify ossl alg (ossl_digest ossl alg blob) (TPMS_SIGNATURE_RSA_sig s)
       (TPM2B_PUBLIC_KEY_RSA_buffer k))"

lemma Crypto_ValidateSignature_True:
  assumes "Crypto_ValidateSignature ossl key d sig = Ok True" and "GetSigningHashAlg key = Ok alg"
  shows "\<exists>s k. sig = SIGNATURE_TPMS_SIGNATURE_RSASSA s \<and>
     TPMT_PUBLIC_unique key = Some (PUBLIC_ID_TPM2B_PUBLIC_KEY_RSA k) \<and>
     ossl_rsa_verify ossl alg d (TPMS_SIGNATURE_RSA_sig s) (TPM2B_PUBLIC_KEY_RSA_buffer k)"
  using assms unfolding Crypto_ValidateSignature_def
  by (auto simp: obind_eq_Ok oderef_def Let_def TpmAlgIdToNid_def
      split: if_splits option.splits TPMU_SIGNATURE.splits TPMU_PUBLIC_ID.splits)

lemma verify_attest_True:
  assumes "verify_attest ossl key alg attest signature = Ok True" and "GetSigningHashAlg key = Ok alg"
    and "toBytes TPMS_ATTEST_toTpm attest = Ok blob" and "blob \<noteq> []"
  shows "signed_by ossl key alg blob signature"
proof -
  obtain d sig where "Hash_all ossl alg blob = Ok d" and s: "oderef signature = Ok sig"
    and v: "Crypto_ValidateSignature ossl key d sig = Ok True"
    using assms(1,3) by (auto simp: verify_attest_def obind_eq_Ok)
  then have "d = ossl_digest ossl alg blob" using assms(4) by (auto simp: Hash_def split: if_splits)
  then show ?thesis
    using Crypto_ValidateSignature_True [OF v assms(2)] s
    by (auto simp: signed_by_def oderef_def split: option.splits)
qed

text \<open>
  What every successful check has established: the key's hash algorithm is \<open>alg\<close>, the attestation
  carries the caller's nonce and the TPM's magic number, and its wire form is signed by the key.
\<close>

definition attested_by ::
  "Openssl \<Rightarrow> TPMT_PUBLIC \<Rightarrow> ByteVec \<Rightarrow> TPMS_ATTEST \<Rightarrow> TPMU_SIGNATURE option \<Rightarrow> TPM_ALG_ID \<Rightarrow> bool" where
  "attested_by ossl key Nonce attest signature alg \<longleftrightarrow>
     GetSigningHashAlg key = Ok alg \<and> TPMS_ATTEST_extraData attest = Nonce \<and>
     TPMS_ATTEST_magic attest = TPM_GENERATED_VALUE \<and>
     signed_by ossl key alg (TPMS_ATTEST_enc attest) signature"

lemma check_attest_True:
  "check_attest self N attest k = Ok True \<longleftrightarrow> (\<exists>alg. GetSigningHashAlg self = Ok alg \<and>
     TPMS_ATTEST_extraData attest = N \<and> TPMS_ATTEST_magic attest = TPM_GENERATED_VALUE \<and> k alg = Ok True)"
  by (auto simp: check_attest_def obind_eq_Ok)

lemma attested_byI:
  assumes "GetSigningHashAlg key = Ok alg" and "TPMS_ATTEST_extraData attest = N"
    and "TPMS_ATTEST_magic attest = TPM_GENERATED_VALUE"
    and v: "verify_attest ossl key alg attest signature = Ok True" and "TPMS_ATTEST_valid attest"
  shows "attested_by ossl key N attest signature alg"
proof -
  have "toBytes TPMS_ATTEST_toTpm attest = Ok (TPMS_ATTEST_enc attest)"
    using v assms(5) by (auto simp: verify_attest_def obind_eq_Ok TPMS_ATTEST_codec.toBytes_enc split: if_splits)
  then show ?thesis
    using verify_attest_True [OF v assms(1)] assms(1-3) by (simp add: attested_by_def)
qed

lemma oderef_Ok: "oderef p = Ok x \<longleftrightarrow> p = Some x"
  by (simp add: oderef_def split: option.splits)

lemma case_attest:
  "(case u of ATTEST_TPMS_QUOTE_INFO i \<Rightarrow> f1 i | _ \<Rightarrow> Ok False) = Ok True \<longleftrightarrow>
     (\<exists>i. u = ATTEST_TPMS_QUOTE_INFO i \<and> f1 i = Ok True)"
  "(case u of ATTEST_TPMS_CERTIFY_INFO i \<Rightarrow> f2 i | _ \<Rightarrow> Ok False) = Ok True \<longleftrightarrow>
     (\<exists>i. u = ATTEST_TPMS_CERTIFY_INFO i \<and> f2 i = Ok True)"
  "(case u of ATTEST_TPMS_CREATION_INFO i \<Rightarrow> f3 i | _ \<Rightarrow> Ok False) = Ok True \<longleftrightarrow>
     (\<exists>i. u = ATTEST_TPMS_CREATION_INFO i \<and> f3 i = Ok True)"
  "(case u of ATTEST_TPMS_NV_CERTIFY_INFO i \<Rightarrow> f4 i | _ \<Rightarrow> Undef) = Ok True \<longleftrightarrow>
     (\<exists>i. u = ATTEST_TPMS_NV_CERTIFY_INFO i \<and> f4 i = Ok True)"
  by (cases u; simp)+

lemmas validate_simps = Let_def check_attest_True obind_eq_Ok oderef_Ok

lemma ValidateQuote_True:
  assumes "ValidateQuote ossl self e N q = Ok True" and "TPMS_ATTEST_valid (QuoteResponse_quoted q)"
  shows "\<exists>alg info. attested_by ossl self N (QuoteResponse_quoted q) (QuoteResponse_signature q) alg \<and>
     TPMS_ATTEST_attested (QuoteResponse_quoted q) = Some (ATTEST_TPMS_QUOTE_INFO info) \<and>
     vectors_eq TPMS_PCR_SELECTION_toTpm (TPMS_QUOTE_INFO_pcrSelect info)
       (PCR_ReadResponse_pcrSelectionOut e) = Ok True \<and>
     HashPcrs ossl alg (map TPM2B_DIGEST_buffer (PCR_ReadResponse_pcrValues e)) =
       Ok (TPMS_QUOTE_INFO_pcrDigest info)"
  using assms unfolding ValidateQuote_def
  by (auto simp: validate_simps case_attest intro: attested_byI split: if_split_asm)

lemma ValidateCertify_True:
  assumes "ValidateCertify ossl self ck N r = Ok True" and "TPMS_ATTEST_valid (CertifyResponse_certifyInfo r)"
  shows "\<exists>alg info. attested_by ossl self N (CertifyResponse_certifyInfo r) (CertifyResponse_signature r) alg \<and>
     TPMS_ATTEST_attested (CertifyResponse_certifyInfo r) = Some (ATTEST_TPMS_CERTIFY_INFO info) \<and>
     TPMT_PUBLIC_GetName ossl ck = Ok (TPMS_CERTIFY_INFO_name info)"
  using assms unfolding ValidateCertify_def
  by (auto simp: validate_simps case_attest intro: attested_byI split: if_split_asm)

lemma ValidateCertifyNV_True:
  assumes "ValidateCertifyNV ossl self N c off r = Ok True"
    and "TPMS_ATTEST_valid (NV_CertifyResponse_certifyInfo r)"
  shows "\<exists>alg info. attested_by ossl self N (NV_CertifyResponse_certifyInfo r) (NV_CertifyResponse_signature r) alg \<and>
     TPMS_ATTEST_attested (NV_CertifyResponse_certifyInfo r) = Some (ATTEST_TPMS_NV_CERTIFY_INFO info) \<and>
     TPMS_NV_CERTIFY_INFO_nvContents info = c \<and> TPMS_NV_CERTIFY_INFO_offset info = off"
  using assms unfolding ValidateCertifyNV_def
  by (auto simp: validate_simps case_attest intro: attested_byI split: if_split_asm)

lemma ValidateCertifyCreation_True:
  assumes "ValidateCertifyCreation ossl self N h r = Ok True"
    and "TPMS_ATTEST_valid (CertifyCreationResponse_certifyInfo r)"
  shows "\<exists>alg info. attested_by ossl self N (CertifyCreationResponse_certifyInfo r)
       (CertifyCreationResponse_signature r) alg \<and>
     TPMS_ATTEST_attested (CertifyCreationResponse_certifyInfo r) = Some (ATTEST_TPMS_CREATION_INFO info) \<and>
     TPMS_CREATION_INFO_creationHash info = h"
  using assms unfolding ValidateCertifyCreation_def
  by (auto simp: validate_simps case_attest intro: attested_byI split: if_split_asm)

text \<open>\<open>ValidateGetTime\<close> does not look at the type of the attestation.\<close>

lemma ValidateGetTime_any:
  assumes "GetSigningHashAlg self = Ok alg" and "TPMS_ATTEST_extraData a = N"
    and "TPMS_ATTEST_magic a = TPM_GENERATED_VALUE"
  shows "ValidateGetTime ossl self N \<lparr>GetTimeResponse_timeInfo = a, GetTimeResponse_signature = s\<rparr> =
    verify_attest ossl self alg a s"
  using assms by (simp add: ValidateGetTime_def check_attest_def)

lemma audit_null:
  assumes "GetSigningHashAlg self = Ok alg" and "TPMS_ATTEST_extraData a = N"
    and "TPMS_ATTEST_magic a = TPM_GENERATED_VALUE" and "TPMS_ATTEST_attested a = Some u"
  shows "TPMU_ATTEST_GetUnionSelector u \<noteq> TPM_ST_ATTEST_COMMAND_AUDIT \<Longrightarrow> ValidateCommandAudit ossl self h N
      \<lparr>GetCommandAuditDigestResponse_auditInfo = a, GetCommandAuditDigestResponse_signature = s\<rparr> = Undef"
    and "TPMU_ATTEST_GetUnionSelector u \<noteq> TPM_ST_ATTEST_SESSION_AUDIT \<Longrightarrow> ValidateSessionAudit ossl self h N
      \<lparr>GetSessionAuditDigestResponse_auditInfo = a, GetSessionAuditDigestResponse_signature = s\<rparr> = Undef"
    and "TPMU_ATTEST_GetUnionSelector u \<noteq> TPM_ST_ATTEST_NV \<Longrightarrow> ValidateCertifyNV ossl self N c off
      \<lparr>NV_CertifyResponse_certifyInfo = a, NV_CertifyResponse_signature = s\<rparr> = Undef"
  using assms by (auto simp: ValidateCommandAudit_def ValidateSessionAudit_def ValidateCertifyNV_def
      check_attest_def oderef_def split: TPMU_ATTEST.splits)

end
