(* ===== verification/TpmObjectCommands.thy ===== *)
theory TpmObjectCommands
  imports TpmNvTypes
begin

text \<open>
  \<^verbatim>\<open>TSS.CPP/include/TpmTypes.h\<close> and \<^verbatim>\<open>TSS.CPP/Src/TpmTypes.cpp\<close>: the parameter
  structures of commands and responses, startup, sessions and objects.

  As for the other structures, each class has its record, default, \<open>toTpm\<close>, \<open>initFromTpm\<close>, wire
  format and codec; the handles are members that are not marshaled, so the values the format can
  carry have null handles. \<open>X_req\<close> and \<open>X_resp\<close> collect what the dispatcher sees.
\<close>

subsection \<open>TPM2_Startup_REQUEST\<close>

text \<open>TPM2_Startup() is always preceded by _TPM_Init, which is the physical indication that TPM initialization is necessary because of a system-wide reset.\<close>

record TPM2_Startup_REQUEST =
  TPM2_Startup_REQUEST_startupType :: "TPM_SU"

definition TPM2_Startup_REQUEST_default :: TPM2_Startup_REQUEST where
  "TPM2_Startup_REQUEST_default = \<lparr>TPM2_Startup_REQUEST_startupType = 0\<rparr>"

definition TPM2_Startup_REQUEST_toTpm :: "TPM2_Startup_REQUEST \<Rightarrow> unit tpm" where
  "TPM2_Startup_REQUEST_toTpm self =
     wseq [writeShort (TPM2_Startup_REQUEST_startupType self)]"

definition TPM2_Startup_REQUEST_initFromTpm :: "TPM2_Startup_REQUEST \<Rightarrow> TPM2_Startup_REQUEST tpm" where
  "TPM2_Startup_REQUEST_initFromTpm self =
     sbind readShort (\<lambda>startupType.
     ret (self\<lparr>TPM2_Startup_REQUEST_startupType := startupType\<rparr>))"

definition TPM2_Startup_REQUEST_enc :: "TPM2_Startup_REQUEST \<Rightarrow> ByteVec" where
  "TPM2_Startup_REQUEST_enc x =
     enc16 (TPM2_Startup_REQUEST_startupType x)"

definition TPM2_Startup_REQUEST_valid :: "TPM2_Startup_REQUEST \<Rightarrow> bool" where
  "TPM2_Startup_REQUEST_valid x \<longleftrightarrow>
     True"

lemma TPM2_Startup_REQUEST_writes [writes_intros]:
  "TPM2_Startup_REQUEST_valid x \<Longrightarrow> writes (TPM2_Startup_REQUEST_toTpm x) (TPM2_Startup_REQUEST_enc x)"
  unfolding TPM2_Startup_REQUEST_toTpm_def TPM2_Startup_REQUEST_enc_def
  by (intro writes_intros; simp add: TPM2_Startup_REQUEST_valid_def opt_ok_iff)

lemma TPM2_Startup_REQUEST_reads:
  "TPM2_Startup_REQUEST_valid x \<Longrightarrow> reads (TPM2_Startup_REQUEST_initFromTpm TPM2_Startup_REQUEST_default) x (TPM2_Startup_REQUEST_enc x)"
  by (simp only: TPM2_Startup_REQUEST_initFromTpm_def TPM2_Startup_REQUEST_enc_def TPM2_Startup_REQUEST_default_def
        TPM2_Startup_REQUEST.select_convs TPM2_Startup_REQUEST.update_convs;
      intro reads_intros; (rule TPM2_Startup_REQUEST.equality)?; simp add: TPM2_Startup_REQUEST_valid_def opt_ok_iff)

interpretation TPM2_Startup_REQUEST_codec:
  tpm_codec TPM2_Startup_REQUEST_toTpm TPM2_Startup_REQUEST_initFromTpm TPM2_Startup_REQUEST_default
    TPM2_Startup_REQUEST_enc TPM2_Startup_REQUEST_valid
  by unfold_locales (erule TPM2_Startup_REQUEST_writes TPM2_Startup_REQUEST_reads | simp add: TPM2_Startup_REQUEST_enc_def)+

definition TPM2_Startup_REQUEST_req :: "TPM2_Startup_REQUEST \<Rightarrow> TPM_HANDLE ReqStructure" where
  "TPM2_Startup_REQUEST_req self =
     \<lparr>req_toTpm = TPM2_Startup_REQUEST_toTpm self, req_numHandles = 0,
     req_numAuthHandles = 0, req_getHandles = [], req_sessEncInfo = no_sessEncInfo\<rparr>"

subsection \<open>TPM2_Shutdown_REQUEST\<close>

text \<open>This command is used to prepare the TPM for a power cycle.\<close>

record TPM2_Shutdown_REQUEST =
  TPM2_Shutdown_REQUEST_shutdownType :: "TPM_SU"

definition TPM2_Shutdown_REQUEST_default :: TPM2_Shutdown_REQUEST where
  "TPM2_Shutdown_REQUEST_default = \<lparr>TPM2_Shutdown_REQUEST_shutdownType = 0\<rparr>"

definition TPM2_Shutdown_REQUEST_toTpm :: "TPM2_Shutdown_REQUEST \<Rightarrow> unit tpm" where
  "TPM2_Shutdown_REQUEST_toTpm self =
     wseq [writeShort (TPM2_Shutdown_REQUEST_shutdownType self)]"

definition TPM2_Shutdown_REQUEST_initFromTpm :: "TPM2_Shutdown_REQUEST \<Rightarrow> TPM2_Shutdown_REQUEST tpm" where
  "TPM2_Shutdown_REQUEST_initFromTpm self =
     sbind readShort (\<lambda>shutdownType.
     ret (self\<lparr>TPM2_Shutdown_REQUEST_shutdownType := shutdownType\<rparr>))"

definition TPM2_Shutdown_REQUEST_enc :: "TPM2_Shutdown_REQUEST \<Rightarrow> ByteVec" where
  "TPM2_Shutdown_REQUEST_enc x =
     enc16 (TPM2_Shutdown_REQUEST_shutdownType x)"

definition TPM2_Shutdown_REQUEST_valid :: "TPM2_Shutdown_REQUEST \<Rightarrow> bool" where
  "TPM2_Shutdown_REQUEST_valid x \<longleftrightarrow>
     True"

lemma TPM2_Shutdown_REQUEST_writes [writes_intros]:
  "TPM2_Shutdown_REQUEST_valid x \<Longrightarrow> writes (TPM2_Shutdown_REQUEST_toTpm x) (TPM2_Shutdown_REQUEST_enc x)"
  unfolding TPM2_Shutdown_REQUEST_toTpm_def TPM2_Shutdown_REQUEST_enc_def
  by (intro writes_intros; simp add: TPM2_Shutdown_REQUEST_valid_def opt_ok_iff)

lemma TPM2_Shutdown_REQUEST_reads:
  "TPM2_Shutdown_REQUEST_valid x \<Longrightarrow> reads (TPM2_Shutdown_REQUEST_initFromTpm TPM2_Shutdown_REQUEST_default) x (TPM2_Shutdown_REQUEST_enc x)"
  by (simp only: TPM2_Shutdown_REQUEST_initFromTpm_def TPM2_Shutdown_REQUEST_enc_def TPM2_Shutdown_REQUEST_default_def
        TPM2_Shutdown_REQUEST.select_convs TPM2_Shutdown_REQUEST.update_convs;
      intro reads_intros; (rule TPM2_Shutdown_REQUEST.equality)?; simp add: TPM2_Shutdown_REQUEST_valid_def opt_ok_iff)

interpretation TPM2_Shutdown_REQUEST_codec:
  tpm_codec TPM2_Shutdown_REQUEST_toTpm TPM2_Shutdown_REQUEST_initFromTpm TPM2_Shutdown_REQUEST_default
    TPM2_Shutdown_REQUEST_enc TPM2_Shutdown_REQUEST_valid
  by unfold_locales (erule TPM2_Shutdown_REQUEST_writes TPM2_Shutdown_REQUEST_reads | simp add: TPM2_Shutdown_REQUEST_enc_def)+

definition TPM2_Shutdown_REQUEST_req :: "TPM2_Shutdown_REQUEST \<Rightarrow> TPM_HANDLE ReqStructure" where
  "TPM2_Shutdown_REQUEST_req self =
     \<lparr>req_toTpm = TPM2_Shutdown_REQUEST_toTpm self, req_numHandles = 0,
     req_numAuthHandles = 0, req_getHandles = [], req_sessEncInfo = no_sessEncInfo\<rparr>"

subsection \<open>TPM2_SelfTest_REQUEST\<close>

text \<open>This command causes the TPM to perform a test of its capabilities.\<close>

record TPM2_SelfTest_REQUEST =
  TPM2_SelfTest_REQUEST_fullTest :: "byte"

definition TPM2_SelfTest_REQUEST_default :: TPM2_SelfTest_REQUEST where
  "TPM2_SelfTest_REQUEST_default = \<lparr>TPM2_SelfTest_REQUEST_fullTest = 0\<rparr>"

definition TPM2_SelfTest_REQUEST_toTpm :: "TPM2_SelfTest_REQUEST \<Rightarrow> unit tpm" where
  "TPM2_SelfTest_REQUEST_toTpm self =
     wseq [writeByte (TPM2_SelfTest_REQUEST_fullTest self)]"

definition TPM2_SelfTest_REQUEST_initFromTpm :: "TPM2_SelfTest_REQUEST \<Rightarrow> TPM2_SelfTest_REQUEST tpm" where
  "TPM2_SelfTest_REQUEST_initFromTpm self =
     sbind readByte (\<lambda>fullTest.
     ret (self\<lparr>TPM2_SelfTest_REQUEST_fullTest := fullTest\<rparr>))"

definition TPM2_SelfTest_REQUEST_enc :: "TPM2_SelfTest_REQUEST \<Rightarrow> ByteVec" where
  "TPM2_SelfTest_REQUEST_enc x =
     enc8 (TPM2_SelfTest_REQUEST_fullTest x)"

definition TPM2_SelfTest_REQUEST_valid :: "TPM2_SelfTest_REQUEST \<Rightarrow> bool" where
  "TPM2_SelfTest_REQUEST_valid x \<longleftrightarrow>
     True"

lemma TPM2_SelfTest_REQUEST_writes [writes_intros]:
  "TPM2_SelfTest_REQUEST_valid x \<Longrightarrow> writes (TPM2_SelfTest_REQUEST_toTpm x) (TPM2_SelfTest_REQUEST_enc x)"
  unfolding TPM2_SelfTest_REQUEST_toTpm_def TPM2_SelfTest_REQUEST_enc_def
  by (intro writes_intros; simp add: TPM2_SelfTest_REQUEST_valid_def opt_ok_iff)

lemma TPM2_SelfTest_REQUEST_reads:
  "TPM2_SelfTest_REQUEST_valid x \<Longrightarrow> reads (TPM2_SelfTest_REQUEST_initFromTpm TPM2_SelfTest_REQUEST_default) x (TPM2_SelfTest_REQUEST_enc x)"
  by (simp only: TPM2_SelfTest_REQUEST_initFromTpm_def TPM2_SelfTest_REQUEST_enc_def TPM2_SelfTest_REQUEST_default_def
        TPM2_SelfTest_REQUEST.select_convs TPM2_SelfTest_REQUEST.update_convs;
      intro reads_intros; (rule TPM2_SelfTest_REQUEST.equality)?; simp add: TPM2_SelfTest_REQUEST_valid_def opt_ok_iff)

interpretation TPM2_SelfTest_REQUEST_codec:
  tpm_codec TPM2_SelfTest_REQUEST_toTpm TPM2_SelfTest_REQUEST_initFromTpm TPM2_SelfTest_REQUEST_default
    TPM2_SelfTest_REQUEST_enc TPM2_SelfTest_REQUEST_valid
  by unfold_locales (erule TPM2_SelfTest_REQUEST_writes TPM2_SelfTest_REQUEST_reads | simp add: TPM2_SelfTest_REQUEST_enc_def)+

definition TPM2_SelfTest_REQUEST_req :: "TPM2_SelfTest_REQUEST \<Rightarrow> TPM_HANDLE ReqStructure" where
  "TPM2_SelfTest_REQUEST_req self =
     \<lparr>req_toTpm = TPM2_SelfTest_REQUEST_toTpm self, req_numHandles = 0,
     req_numAuthHandles = 0, req_getHandles = [], req_sessEncInfo = no_sessEncInfo\<rparr>"

subsection \<open>TPM2_IncrementalSelfTest_REQUEST\<close>

text \<open>This command causes the TPM to perform a test of the selected algorithms.\<close>

record TPM2_IncrementalSelfTest_REQUEST =
  TPM2_IncrementalSelfTest_REQUEST_toTest :: "TPM_ALG_ID list"

definition TPM2_IncrementalSelfTest_REQUEST_default :: TPM2_IncrementalSelfTest_REQUEST where
  "TPM2_IncrementalSelfTest_REQUEST_default = \<lparr>TPM2_IncrementalSelfTest_REQUEST_toTest = []\<rparr>"

definition TPM2_IncrementalSelfTest_REQUEST_toTpm :: "TPM2_IncrementalSelfTest_REQUEST \<Rightarrow> unit tpm" where
  "TPM2_IncrementalSelfTest_REQUEST_toTpm self =
     wseq [writeValArr (TPM2_IncrementalSelfTest_REQUEST_toTest self) 2]"

definition TPM2_IncrementalSelfTest_REQUEST_initFromTpm :: "TPM2_IncrementalSelfTest_REQUEST \<Rightarrow> TPM2_IncrementalSelfTest_REQUEST tpm" where
  "TPM2_IncrementalSelfTest_REQUEST_initFromTpm self =
     sbind (readValArr (TPM2_IncrementalSelfTest_REQUEST_toTest self) 2) (\<lambda>toTest.
     ret (self\<lparr>TPM2_IncrementalSelfTest_REQUEST_toTest := toTest\<rparr>))"

definition TPM2_IncrementalSelfTest_REQUEST_enc :: "TPM2_IncrementalSelfTest_REQUEST \<Rightarrow> ByteVec" where
  "TPM2_IncrementalSelfTest_REQUEST_enc x =
     enc_arr (enc_val 2) (TPM2_IncrementalSelfTest_REQUEST_toTest x)"

definition TPM2_IncrementalSelfTest_REQUEST_valid :: "TPM2_IncrementalSelfTest_REQUEST \<Rightarrow> bool" where
  "TPM2_IncrementalSelfTest_REQUEST_valid x \<longleftrightarrow>
     length (TPM2_IncrementalSelfTest_REQUEST_toTest x) < 2 ^ 32"

lemma TPM2_IncrementalSelfTest_REQUEST_writes [writes_intros]:
  "TPM2_IncrementalSelfTest_REQUEST_valid x \<Longrightarrow> writes (TPM2_IncrementalSelfTest_REQUEST_toTpm x) (TPM2_IncrementalSelfTest_REQUEST_enc x)"
  unfolding TPM2_IncrementalSelfTest_REQUEST_toTpm_def TPM2_IncrementalSelfTest_REQUEST_enc_def
  by (intro writes_intros; simp add: TPM2_IncrementalSelfTest_REQUEST_valid_def opt_ok_iff)

lemma TPM2_IncrementalSelfTest_REQUEST_reads:
  "TPM2_IncrementalSelfTest_REQUEST_valid x \<Longrightarrow> reads (TPM2_IncrementalSelfTest_REQUEST_initFromTpm TPM2_IncrementalSelfTest_REQUEST_default) x (TPM2_IncrementalSelfTest_REQUEST_enc x)"
  by (simp only: TPM2_IncrementalSelfTest_REQUEST_initFromTpm_def TPM2_IncrementalSelfTest_REQUEST_enc_def TPM2_IncrementalSelfTest_REQUEST_default_def
        TPM2_IncrementalSelfTest_REQUEST.select_convs TPM2_IncrementalSelfTest_REQUEST.update_convs;
      intro reads_intros; (rule TPM2_IncrementalSelfTest_REQUEST.equality)?; simp add: TPM2_IncrementalSelfTest_REQUEST_valid_def opt_ok_iff)

interpretation TPM2_IncrementalSelfTest_REQUEST_codec:
  tpm_codec TPM2_IncrementalSelfTest_REQUEST_toTpm TPM2_IncrementalSelfTest_REQUEST_initFromTpm TPM2_IncrementalSelfTest_REQUEST_default
    TPM2_IncrementalSelfTest_REQUEST_enc TPM2_IncrementalSelfTest_REQUEST_valid
  by unfold_locales (erule TPM2_IncrementalSelfTest_REQUEST_writes TPM2_IncrementalSelfTest_REQUEST_reads | simp add: TPM2_IncrementalSelfTest_REQUEST_enc_def)+

definition TPM2_IncrementalSelfTest_REQUEST_req :: "TPM2_IncrementalSelfTest_REQUEST \<Rightarrow> TPM_HANDLE ReqStructure" where
  "TPM2_IncrementalSelfTest_REQUEST_req self =
     \<lparr>req_toTpm = TPM2_IncrementalSelfTest_REQUEST_toTpm self, req_numHandles = 0,
     req_numAuthHandles = 0, req_getHandles = [], req_sessEncInfo = \<lparr>sizeLen = 4, valLen = 2\<rparr>\<rparr>"

subsection \<open>IncrementalSelfTestResponse\<close>

text \<open>This command causes the TPM to perform a test of the selected algorithms.\<close>

record IncrementalSelfTestResponse =
  IncrementalSelfTestResponse_toDoList :: "TPM_ALG_ID list"

definition IncrementalSelfTestResponse_default :: IncrementalSelfTestResponse where
  "IncrementalSelfTestResponse_default = \<lparr>IncrementalSelfTestResponse_toDoList = []\<rparr>"

definition IncrementalSelfTestResponse_toTpm :: "IncrementalSelfTestResponse \<Rightarrow> unit tpm" where
  "IncrementalSelfTestResponse_toTpm self =
     wseq [writeValArr (IncrementalSelfTestResponse_toDoList self) 2]"

definition IncrementalSelfTestResponse_initFromTpm :: "IncrementalSelfTestResponse \<Rightarrow> IncrementalSelfTestResponse tpm" where
  "IncrementalSelfTestResponse_initFromTpm self =
     sbind (readValArr (IncrementalSelfTestResponse_toDoList self) 2) (\<lambda>toDoList.
     ret (self\<lparr>IncrementalSelfTestResponse_toDoList := toDoList\<rparr>))"

definition IncrementalSelfTestResponse_enc :: "IncrementalSelfTestResponse \<Rightarrow> ByteVec" where
  "IncrementalSelfTestResponse_enc x =
     enc_arr (enc_val 2) (IncrementalSelfTestResponse_toDoList x)"

definition IncrementalSelfTestResponse_valid :: "IncrementalSelfTestResponse \<Rightarrow> bool" where
  "IncrementalSelfTestResponse_valid x \<longleftrightarrow>
     length (IncrementalSelfTestResponse_toDoList x) < 2 ^ 32"

lemma IncrementalSelfTestResponse_writes [writes_intros]:
  "IncrementalSelfTestResponse_valid x \<Longrightarrow> writes (IncrementalSelfTestResponse_toTpm x) (IncrementalSelfTestResponse_enc x)"
  unfolding IncrementalSelfTestResponse_toTpm_def IncrementalSelfTestResponse_enc_def
  by (intro writes_intros; simp add: IncrementalSelfTestResponse_valid_def opt_ok_iff)

lemma IncrementalSelfTestResponse_reads:
  "IncrementalSelfTestResponse_valid x \<Longrightarrow> reads (IncrementalSelfTestResponse_initFromTpm IncrementalSelfTestResponse_default) x (IncrementalSelfTestResponse_enc x)"
  by (simp only: IncrementalSelfTestResponse_initFromTpm_def IncrementalSelfTestResponse_enc_def IncrementalSelfTestResponse_default_def
        IncrementalSelfTestResponse.select_convs IncrementalSelfTestResponse.update_convs;
      intro reads_intros; (rule IncrementalSelfTestResponse.equality)?; simp add: IncrementalSelfTestResponse_valid_def opt_ok_iff)

interpretation IncrementalSelfTestResponse_codec:
  tpm_codec IncrementalSelfTestResponse_toTpm IncrementalSelfTestResponse_initFromTpm IncrementalSelfTestResponse_default
    IncrementalSelfTestResponse_enc IncrementalSelfTestResponse_valid
  by unfold_locales (erule IncrementalSelfTestResponse_writes IncrementalSelfTestResponse_reads | simp add: IncrementalSelfTestResponse_enc_def)+

definition IncrementalSelfTestResponse_resp :: "(TPM_HANDLE, IncrementalSelfTestResponse) RespStructure" where
  "IncrementalSelfTestResponse_resp = \<lparr>resp_default = IncrementalSelfTestResponse_default, resp_initFromTpm = IncrementalSelfTestResponse_initFromTpm,
     resp_numHandles = 0, resp_getHandle = (\<lambda>_. TPM_HANDLE_default),
     resp_setHandle = (\<lambda>_ self. self), resp_sessEncInfo = \<lparr>sizeLen = 4, valLen = 2\<rparr>\<rparr>"

subsection \<open>TPM2_GetTestResult_REQUEST\<close>

text \<open>This command returns manufacturer-specific information regarding the results of a self-test and an indication of the test status.\<close>

type_synonym TPM2_GetTestResult_REQUEST = unit

definition TPM2_GetTestResult_REQUEST_default :: TPM2_GetTestResult_REQUEST where
  "TPM2_GetTestResult_REQUEST_default = ()"

definition TPM2_GetTestResult_REQUEST_toTpm :: "TPM2_GetTestResult_REQUEST \<Rightarrow> unit tpm" where
  "TPM2_GetTestResult_REQUEST_toTpm self =
     wseq []"

definition TPM2_GetTestResult_REQUEST_initFromTpm :: "TPM2_GetTestResult_REQUEST \<Rightarrow> TPM2_GetTestResult_REQUEST tpm" where
  "TPM2_GetTestResult_REQUEST_initFromTpm self =
     ret self"

definition TPM2_GetTestResult_REQUEST_enc :: "TPM2_GetTestResult_REQUEST \<Rightarrow> ByteVec" where
  "TPM2_GetTestResult_REQUEST_enc x =
     []"

definition TPM2_GetTestResult_REQUEST_valid :: "TPM2_GetTestResult_REQUEST \<Rightarrow> bool" where
  "TPM2_GetTestResult_REQUEST_valid x \<longleftrightarrow>
     True"

lemma TPM2_GetTestResult_REQUEST_writes [writes_intros]:
  "TPM2_GetTestResult_REQUEST_valid x \<Longrightarrow> writes (TPM2_GetTestResult_REQUEST_toTpm x) (TPM2_GetTestResult_REQUEST_enc x)"
  unfolding TPM2_GetTestResult_REQUEST_toTpm_def TPM2_GetTestResult_REQUEST_enc_def
  by (intro writes_intros; simp add: TPM2_GetTestResult_REQUEST_valid_def opt_ok_iff)

lemma TPM2_GetTestResult_REQUEST_reads:
  "TPM2_GetTestResult_REQUEST_valid x \<Longrightarrow> reads (TPM2_GetTestResult_REQUEST_initFromTpm TPM2_GetTestResult_REQUEST_default) x (TPM2_GetTestResult_REQUEST_enc x)"
  by (simp only: TPM2_GetTestResult_REQUEST_initFromTpm_def TPM2_GetTestResult_REQUEST_enc_def TPM2_GetTestResult_REQUEST_default_def;
      intro reads_intros; simp add: TPM2_GetTestResult_REQUEST_valid_def opt_ok_iff)

interpretation TPM2_GetTestResult_REQUEST_codec:
  tpm_codec TPM2_GetTestResult_REQUEST_toTpm TPM2_GetTestResult_REQUEST_initFromTpm TPM2_GetTestResult_REQUEST_default
    TPM2_GetTestResult_REQUEST_enc TPM2_GetTestResult_REQUEST_valid
  by unfold_locales (erule TPM2_GetTestResult_REQUEST_writes TPM2_GetTestResult_REQUEST_reads | simp add: TPM2_GetTestResult_REQUEST_toTpm_def writes_ret)+

definition TPM2_GetTestResult_REQUEST_req :: "TPM2_GetTestResult_REQUEST \<Rightarrow> TPM_HANDLE ReqStructure" where
  "TPM2_GetTestResult_REQUEST_req self =
     \<lparr>req_toTpm = TPM2_GetTestResult_REQUEST_toTpm self, req_numHandles = 0,
     req_numAuthHandles = 0, req_getHandles = [], req_sessEncInfo = no_sessEncInfo\<rparr>"

subsection \<open>GetTestResultResponse\<close>

text \<open>This command returns manufacturer-specific information regarding the results of a self-test and an indication of the test status.\<close>

record GetTestResultResponse =
  GetTestResultResponse_outData :: "ByteVec"
  GetTestResultResponse_testResult :: "TPM_RC"

definition GetTestResultResponse_default :: GetTestResultResponse where
  "GetTestResultResponse_default = \<lparr>GetTestResultResponse_outData = [], GetTestResultResponse_testResult = 0\<rparr>"

definition GetTestResultResponse_toTpm :: "GetTestResultResponse \<Rightarrow> unit tpm" where
  "GetTestResultResponse_toTpm self =
     wseq [writeSizedByteBuf (GetTestResultResponse_outData self) 2,
       writeInt (GetTestResultResponse_testResult self)]"

definition GetTestResultResponse_initFromTpm :: "GetTestResultResponse \<Rightarrow> GetTestResultResponse tpm" where
  "GetTestResultResponse_initFromTpm self =
     sbind (readSizedByteBuf 2) (\<lambda>outData.
     sbind readInt (\<lambda>testResult.
     ret (self\<lparr>GetTestResultResponse_outData := outData, GetTestResultResponse_testResult := testResult\<rparr>)))"

definition GetTestResultResponse_enc :: "GetTestResultResponse \<Rightarrow> ByteVec" where
  "GetTestResultResponse_enc x =
     enc_sized 2 (GetTestResultResponse_outData x) @
     enc32 (GetTestResultResponse_testResult x)"

definition GetTestResultResponse_valid :: "GetTestResultResponse \<Rightarrow> bool" where
  "GetTestResultResponse_valid x \<longleftrightarrow>
     sized_ok 2 (GetTestResultResponse_outData x)"

lemma GetTestResultResponse_writes [writes_intros]:
  "GetTestResultResponse_valid x \<Longrightarrow> writes (GetTestResultResponse_toTpm x) (GetTestResultResponse_enc x)"
  unfolding GetTestResultResponse_toTpm_def GetTestResultResponse_enc_def
  by (intro writes_intros; simp add: GetTestResultResponse_valid_def opt_ok_iff)

lemma GetTestResultResponse_reads:
  "GetTestResultResponse_valid x \<Longrightarrow> reads (GetTestResultResponse_initFromTpm GetTestResultResponse_default) x (GetTestResultResponse_enc x)"
  by (simp only: GetTestResultResponse_initFromTpm_def GetTestResultResponse_enc_def GetTestResultResponse_default_def
        GetTestResultResponse.select_convs GetTestResultResponse.update_convs;
      intro reads_intros; (rule GetTestResultResponse.equality)?; simp add: GetTestResultResponse_valid_def opt_ok_iff)

interpretation GetTestResultResponse_codec:
  tpm_codec GetTestResultResponse_toTpm GetTestResultResponse_initFromTpm GetTestResultResponse_default
    GetTestResultResponse_enc GetTestResultResponse_valid
  by unfold_locales (erule GetTestResultResponse_writes GetTestResultResponse_reads | simp add: GetTestResultResponse_enc_def)+

definition GetTestResultResponse_resp :: "(TPM_HANDLE, GetTestResultResponse) RespStructure" where
  "GetTestResultResponse_resp = \<lparr>resp_default = GetTestResultResponse_default, resp_initFromTpm = GetTestResultResponse_initFromTpm,
     resp_numHandles = 0, resp_getHandle = (\<lambda>_. TPM_HANDLE_default),
     resp_setHandle = (\<lambda>_ self. self), resp_sessEncInfo = \<lparr>sizeLen = 2, valLen = 1\<rparr>\<rparr>"

subsection \<open>TPM2_StartAuthSession_REQUEST\<close>

text \<open>This command is used to start an authorization session using alternative methods of establishing the session key (sessionKey).\<close>

record TPM2_StartAuthSession_REQUEST =
  TPM2_StartAuthSession_REQUEST_tpmKey :: "TPM_HANDLE"
  TPM2_StartAuthSession_REQUEST_bind :: "TPM_HANDLE"
  TPM2_StartAuthSession_REQUEST_nonceCaller :: "ByteVec"
  TPM2_StartAuthSession_REQUEST_encryptedSalt :: "ByteVec"
  TPM2_StartAuthSession_REQUEST_sessionType :: "TPM_SE"
  TPM2_StartAuthSession_REQUEST_symmetric :: "TPMT_SYM_DEF"
  TPM2_StartAuthSession_REQUEST_authHash :: "TPM_ALG_ID"

definition TPM2_StartAuthSession_REQUEST_default :: TPM2_StartAuthSession_REQUEST where
  "TPM2_StartAuthSession_REQUEST_default = \<lparr>TPM2_StartAuthSession_REQUEST_tpmKey = TPM_HANDLE_default, TPM2_StartAuthSession_REQUEST_bind = TPM_HANDLE_default, TPM2_StartAuthSession_REQUEST_nonceCaller = [], TPM2_StartAuthSession_REQUEST_encryptedSalt = [], TPM2_StartAuthSession_REQUEST_sessionType = 0, TPM2_StartAuthSession_REQUEST_symmetric = TPMT_SYM_DEF_default, TPM2_StartAuthSession_REQUEST_authHash = TPM_ALG_ID_NULL\<rparr>"

definition TPM2_StartAuthSession_REQUEST_toTpm :: "TPM2_StartAuthSession_REQUEST \<Rightarrow> unit tpm" where
  "TPM2_StartAuthSession_REQUEST_toTpm self =
     wseq [writeSizedByteBuf (TPM2_StartAuthSession_REQUEST_nonceCaller self) 2,
       writeSizedByteBuf (TPM2_StartAuthSession_REQUEST_encryptedSalt self) 2,
       writeByte (TPM2_StartAuthSession_REQUEST_sessionType self),
       TPMT_SYM_DEF_toTpm (TPM2_StartAuthSession_REQUEST_symmetric self),
       writeShort (TPM2_StartAuthSession_REQUEST_authHash self)]"

definition TPM2_StartAuthSession_REQUEST_initFromTpm :: "TPM2_StartAuthSession_REQUEST \<Rightarrow> TPM2_StartAuthSession_REQUEST tpm" where
  "TPM2_StartAuthSession_REQUEST_initFromTpm self =
     sbind (readSizedByteBuf 2) (\<lambda>nonceCaller.
     sbind (readSizedByteBuf 2) (\<lambda>encryptedSalt.
     sbind readByte (\<lambda>sessionType.
     sbind (TPMT_SYM_DEF_initFromTpm (TPM2_StartAuthSession_REQUEST_symmetric self)) (\<lambda>symmetric.
     sbind readShort (\<lambda>authHash.
     ret (self\<lparr>TPM2_StartAuthSession_REQUEST_nonceCaller := nonceCaller, TPM2_StartAuthSession_REQUEST_encryptedSalt := encryptedSalt, TPM2_StartAuthSession_REQUEST_sessionType := sessionType, TPM2_StartAuthSession_REQUEST_symmetric := symmetric, TPM2_StartAuthSession_REQUEST_authHash := authHash\<rparr>))))))"

definition TPM2_StartAuthSession_REQUEST_enc :: "TPM2_StartAuthSession_REQUEST \<Rightarrow> ByteVec" where
  "TPM2_StartAuthSession_REQUEST_enc x =
     enc_sized 2 (TPM2_StartAuthSession_REQUEST_nonceCaller x) @
     enc_sized 2 (TPM2_StartAuthSession_REQUEST_encryptedSalt x) @
     enc8 (TPM2_StartAuthSession_REQUEST_sessionType x) @
     TPMT_SYM_DEF_enc (TPM2_StartAuthSession_REQUEST_symmetric x) @
     enc16 (TPM2_StartAuthSession_REQUEST_authHash x)"

definition TPM2_StartAuthSession_REQUEST_valid :: "TPM2_StartAuthSession_REQUEST \<Rightarrow> bool" where
  "TPM2_StartAuthSession_REQUEST_valid x \<longleftrightarrow>
     sized_ok 2 (TPM2_StartAuthSession_REQUEST_nonceCaller x) \<and>
     sized_ok 2 (TPM2_StartAuthSession_REQUEST_encryptedSalt x) \<and>
     TPMT_SYM_DEF_valid (TPM2_StartAuthSession_REQUEST_symmetric x) \<and>
     TPM2_StartAuthSession_REQUEST_tpmKey x = TPM_HANDLE_default \<and>
     TPM2_StartAuthSession_REQUEST_bind x = TPM_HANDLE_default"

lemma TPM2_StartAuthSession_REQUEST_writes [writes_intros]:
  "TPM2_StartAuthSession_REQUEST_valid x \<Longrightarrow> writes (TPM2_StartAuthSession_REQUEST_toTpm x) (TPM2_StartAuthSession_REQUEST_enc x)"
  unfolding TPM2_StartAuthSession_REQUEST_toTpm_def TPM2_StartAuthSession_REQUEST_enc_def
  by (intro writes_intros; simp add: TPM2_StartAuthSession_REQUEST_valid_def opt_ok_iff)

lemma TPM2_StartAuthSession_REQUEST_reads:
  "TPM2_StartAuthSession_REQUEST_valid x \<Longrightarrow> reads (TPM2_StartAuthSession_REQUEST_initFromTpm TPM2_StartAuthSession_REQUEST_default) x (TPM2_StartAuthSession_REQUEST_enc x)"
  by (simp only: TPM2_StartAuthSession_REQUEST_initFromTpm_def TPM2_StartAuthSession_REQUEST_enc_def TPM2_StartAuthSession_REQUEST_default_def
        TPM2_StartAuthSession_REQUEST.select_convs TPM2_StartAuthSession_REQUEST.update_convs;
      intro reads_intros; (rule TPM2_StartAuthSession_REQUEST.equality)?; simp add: TPM2_StartAuthSession_REQUEST_valid_def opt_ok_iff)

interpretation TPM2_StartAuthSession_REQUEST_codec:
  tpm_codec TPM2_StartAuthSession_REQUEST_toTpm TPM2_StartAuthSession_REQUEST_initFromTpm TPM2_StartAuthSession_REQUEST_default
    TPM2_StartAuthSession_REQUEST_enc TPM2_StartAuthSession_REQUEST_valid
  by unfold_locales (erule TPM2_StartAuthSession_REQUEST_writes TPM2_StartAuthSession_REQUEST_reads | simp add: TPM2_StartAuthSession_REQUEST_enc_def)+

definition TPM2_StartAuthSession_REQUEST_req :: "TPM2_StartAuthSession_REQUEST \<Rightarrow> TPM_HANDLE ReqStructure" where
  "TPM2_StartAuthSession_REQUEST_req self =
     \<lparr>req_toTpm = TPM2_StartAuthSession_REQUEST_toTpm self, req_numHandles = 2,
     req_numAuthHandles = 0, req_getHandles = [TPM2_StartAuthSession_REQUEST_tpmKey self, TPM2_StartAuthSession_REQUEST_bind self], req_sessEncInfo = \<lparr>sizeLen = 2, valLen = 1\<rparr>\<rparr>"

subsection \<open>StartAuthSessionResponse\<close>

text \<open>This command is used to start an authorization session using alternative methods of establishing the session key (sessionKey).\<close>

record StartAuthSessionResponse =
  StartAuthSessionResponse_handle :: "TPM_HANDLE"
  StartAuthSessionResponse_nonceTPM :: "ByteVec"

definition StartAuthSessionResponse_default :: StartAuthSessionResponse where
  "StartAuthSessionResponse_default = \<lparr>StartAuthSessionResponse_handle = TPM_HANDLE_default, StartAuthSessionResponse_nonceTPM = []\<rparr>"

definition StartAuthSessionResponse_toTpm :: "StartAuthSessionResponse \<Rightarrow> unit tpm" where
  "StartAuthSessionResponse_toTpm self =
     wseq [writeSizedByteBuf (StartAuthSessionResponse_nonceTPM self) 2]"

definition StartAuthSessionResponse_initFromTpm :: "StartAuthSessionResponse \<Rightarrow> StartAuthSessionResponse tpm" where
  "StartAuthSessionResponse_initFromTpm self =
     sbind (readSizedByteBuf 2) (\<lambda>nonceTPM.
     ret (self\<lparr>StartAuthSessionResponse_nonceTPM := nonceTPM\<rparr>))"

definition StartAuthSessionResponse_enc :: "StartAuthSessionResponse \<Rightarrow> ByteVec" where
  "StartAuthSessionResponse_enc x =
     enc_sized 2 (StartAuthSessionResponse_nonceTPM x)"

definition StartAuthSessionResponse_valid :: "StartAuthSessionResponse \<Rightarrow> bool" where
  "StartAuthSessionResponse_valid x \<longleftrightarrow>
     sized_ok 2 (StartAuthSessionResponse_nonceTPM x) \<and>
     StartAuthSessionResponse_handle x = TPM_HANDLE_default"

lemma StartAuthSessionResponse_writes [writes_intros]:
  "StartAuthSessionResponse_valid x \<Longrightarrow> writes (StartAuthSessionResponse_toTpm x) (StartAuthSessionResponse_enc x)"
  unfolding StartAuthSessionResponse_toTpm_def StartAuthSessionResponse_enc_def
  by (intro writes_intros; simp add: StartAuthSessionResponse_valid_def opt_ok_iff)

lemma StartAuthSessionResponse_reads:
  "StartAuthSessionResponse_valid x \<Longrightarrow> reads (StartAuthSessionResponse_initFromTpm StartAuthSessionResponse_default) x (StartAuthSessionResponse_enc x)"
  by (simp only: StartAuthSessionResponse_initFromTpm_def StartAuthSessionResponse_enc_def StartAuthSessionResponse_default_def
        StartAuthSessionResponse.select_convs StartAuthSessionResponse.update_convs;
      intro reads_intros; (rule StartAuthSessionResponse.equality)?; simp add: StartAuthSessionResponse_valid_def opt_ok_iff)

interpretation StartAuthSessionResponse_codec:
  tpm_codec StartAuthSessionResponse_toTpm StartAuthSessionResponse_initFromTpm StartAuthSessionResponse_default
    StartAuthSessionResponse_enc StartAuthSessionResponse_valid
  by unfold_locales (erule StartAuthSessionResponse_writes StartAuthSessionResponse_reads | simp add: StartAuthSessionResponse_enc_def)+

definition StartAuthSessionResponse_resp :: "(TPM_HANDLE, StartAuthSessionResponse) RespStructure" where
  "StartAuthSessionResponse_resp = \<lparr>resp_default = StartAuthSessionResponse_default, resp_initFromTpm = StartAuthSessionResponse_initFromTpm,
     resp_numHandles = 1, resp_getHandle = StartAuthSessionResponse_handle,
     resp_setHandle = (\<lambda>h self. self\<lparr>StartAuthSessionResponse_handle := h\<rparr>), resp_sessEncInfo = \<lparr>sizeLen = 2, valLen = 1\<rparr>\<rparr>"

subsection \<open>TPM2_PolicyRestart_REQUEST\<close>

text \<open>This command allows a policy authorization session to be returned to its initial state.\<close>

record TPM2_PolicyRestart_REQUEST =
  TPM2_PolicyRestart_REQUEST_sessionHandle :: "TPM_HANDLE"

definition TPM2_PolicyRestart_REQUEST_default :: TPM2_PolicyRestart_REQUEST where
  "TPM2_PolicyRestart_REQUEST_default = \<lparr>TPM2_PolicyRestart_REQUEST_sessionHandle = TPM_HANDLE_default\<rparr>"

definition TPM2_PolicyRestart_REQUEST_toTpm :: "TPM2_PolicyRestart_REQUEST \<Rightarrow> unit tpm" where
  "TPM2_PolicyRestart_REQUEST_toTpm self =
     wseq []"

definition TPM2_PolicyRestart_REQUEST_initFromTpm :: "TPM2_PolicyRestart_REQUEST \<Rightarrow> TPM2_PolicyRestart_REQUEST tpm" where
  "TPM2_PolicyRestart_REQUEST_initFromTpm self =
     ret self"

definition TPM2_PolicyRestart_REQUEST_enc :: "TPM2_PolicyRestart_REQUEST \<Rightarrow> ByteVec" where
  "TPM2_PolicyRestart_REQUEST_enc x =
     []"

definition TPM2_PolicyRestart_REQUEST_valid :: "TPM2_PolicyRestart_REQUEST \<Rightarrow> bool" where
  "TPM2_PolicyRestart_REQUEST_valid x \<longleftrightarrow>
     TPM2_PolicyRestart_REQUEST_sessionHandle x = TPM_HANDLE_default"

lemma TPM2_PolicyRestart_REQUEST_writes [writes_intros]:
  "TPM2_PolicyRestart_REQUEST_valid x \<Longrightarrow> writes (TPM2_PolicyRestart_REQUEST_toTpm x) (TPM2_PolicyRestart_REQUEST_enc x)"
  unfolding TPM2_PolicyRestart_REQUEST_toTpm_def TPM2_PolicyRestart_REQUEST_enc_def
  by (intro writes_intros; simp add: TPM2_PolicyRestart_REQUEST_valid_def opt_ok_iff)

lemma TPM2_PolicyRestart_REQUEST_reads:
  "TPM2_PolicyRestart_REQUEST_valid x \<Longrightarrow> reads (TPM2_PolicyRestart_REQUEST_initFromTpm TPM2_PolicyRestart_REQUEST_default) x (TPM2_PolicyRestart_REQUEST_enc x)"
  by (simp only: TPM2_PolicyRestart_REQUEST_initFromTpm_def TPM2_PolicyRestart_REQUEST_enc_def TPM2_PolicyRestart_REQUEST_default_def
        TPM2_PolicyRestart_REQUEST.select_convs TPM2_PolicyRestart_REQUEST.update_convs;
      intro reads_intros; (rule TPM2_PolicyRestart_REQUEST.equality)?; simp add: TPM2_PolicyRestart_REQUEST_valid_def opt_ok_iff)

interpretation TPM2_PolicyRestart_REQUEST_codec:
  tpm_codec TPM2_PolicyRestart_REQUEST_toTpm TPM2_PolicyRestart_REQUEST_initFromTpm TPM2_PolicyRestart_REQUEST_default
    TPM2_PolicyRestart_REQUEST_enc TPM2_PolicyRestart_REQUEST_valid
  by unfold_locales (erule TPM2_PolicyRestart_REQUEST_writes TPM2_PolicyRestart_REQUEST_reads | simp add: TPM2_PolicyRestart_REQUEST_toTpm_def writes_ret)+

definition TPM2_PolicyRestart_REQUEST_req :: "TPM2_PolicyRestart_REQUEST \<Rightarrow> TPM_HANDLE ReqStructure" where
  "TPM2_PolicyRestart_REQUEST_req self =
     \<lparr>req_toTpm = TPM2_PolicyRestart_REQUEST_toTpm self, req_numHandles = 1,
     req_numAuthHandles = 0, req_getHandles = [TPM2_PolicyRestart_REQUEST_sessionHandle self], req_sessEncInfo = no_sessEncInfo\<rparr>"

subsection \<open>TPM2_Create_REQUEST\<close>

text \<open>This command is used to create an object that can be loaded into a TPM using TPM2_Load().\<close>

record TPM2_Create_REQUEST =
  TPM2_Create_REQUEST_parentHandle :: "TPM_HANDLE"
  TPM2_Create_REQUEST_inSensitive :: "TPMS_SENSITIVE_CREATE"
  TPM2_Create_REQUEST_inPublic :: "TPMT_PUBLIC"
  TPM2_Create_REQUEST_outsideInfo :: "ByteVec"
  TPM2_Create_REQUEST_creationPCR :: "TPMS_PCR_SELECTION list"

definition TPM2_Create_REQUEST_default :: TPM2_Create_REQUEST where
  "TPM2_Create_REQUEST_default = \<lparr>TPM2_Create_REQUEST_parentHandle = TPM_HANDLE_default, TPM2_Create_REQUEST_inSensitive = TPMS_SENSITIVE_CREATE_default, TPM2_Create_REQUEST_inPublic = TPMT_PUBLIC_default, TPM2_Create_REQUEST_outsideInfo = [], TPM2_Create_REQUEST_creationPCR = []\<rparr>"

definition TPM2_Create_REQUEST_toTpm :: "TPM2_Create_REQUEST \<Rightarrow> unit tpm" where
  "TPM2_Create_REQUEST_toTpm self =
     wseq [writeSizedObj TPMS_SENSITIVE_CREATE_toTpm (TPM2_Create_REQUEST_inSensitive self),
       writeSizedObj TPMT_PUBLIC_toTpm (TPM2_Create_REQUEST_inPublic self),
       writeSizedByteBuf (TPM2_Create_REQUEST_outsideInfo self) 2,
       writeObjArr TPMS_PCR_SELECTION_toTpm (TPM2_Create_REQUEST_creationPCR self)]"

definition TPM2_Create_REQUEST_initFromTpm :: "TPM2_Create_REQUEST \<Rightarrow> TPM2_Create_REQUEST tpm" where
  "TPM2_Create_REQUEST_initFromTpm self =
     sbind (readSizedObj TPMS_SENSITIVE_CREATE_initFromTpm (TPM2_Create_REQUEST_inSensitive self)) (\<lambda>inSensitive.
     sbind (readSizedObj TPMT_PUBLIC_initFromTpm (TPM2_Create_REQUEST_inPublic self)) (\<lambda>inPublic.
     sbind (readSizedByteBuf 2) (\<lambda>outsideInfo.
     sbind (readObjArr TPMS_PCR_SELECTION_initFromTpm TPMS_PCR_SELECTION_default (TPM2_Create_REQUEST_creationPCR self)) (\<lambda>creationPCR.
     ret (self\<lparr>TPM2_Create_REQUEST_inSensitive := inSensitive, TPM2_Create_REQUEST_inPublic := inPublic, TPM2_Create_REQUEST_outsideInfo := outsideInfo, TPM2_Create_REQUEST_creationPCR := creationPCR\<rparr>)))))"

definition TPM2_Create_REQUEST_enc :: "TPM2_Create_REQUEST \<Rightarrow> ByteVec" where
  "TPM2_Create_REQUEST_enc x =
     enc_obj (TPMS_SENSITIVE_CREATE_enc (TPM2_Create_REQUEST_inSensitive x)) @
     enc_obj (TPMT_PUBLIC_enc (TPM2_Create_REQUEST_inPublic x)) @
     enc_sized 2 (TPM2_Create_REQUEST_outsideInfo x) @
     enc_arr TPMS_PCR_SELECTION_enc (TPM2_Create_REQUEST_creationPCR x)"

definition TPM2_Create_REQUEST_valid :: "TPM2_Create_REQUEST \<Rightarrow> bool" where
  "TPM2_Create_REQUEST_valid x \<longleftrightarrow>
     sized_obj_ok TPMS_SENSITIVE_CREATE_default TPMS_SENSITIVE_CREATE_enc TPMS_SENSITIVE_CREATE_valid (TPM2_Create_REQUEST_inSensitive x) \<and>
     sized_obj_ok TPMT_PUBLIC_default TPMT_PUBLIC_enc TPMT_PUBLIC_valid (TPM2_Create_REQUEST_inPublic x) \<and>
     sized_ok 2 (TPM2_Create_REQUEST_outsideInfo x) \<and>
     arr_ok TPMS_PCR_SELECTION_valid (TPM2_Create_REQUEST_creationPCR x) \<and>
     TPM2_Create_REQUEST_parentHandle x = TPM_HANDLE_default"

lemma TPM2_Create_REQUEST_writes [writes_intros]:
  "TPM2_Create_REQUEST_valid x \<Longrightarrow> writes (TPM2_Create_REQUEST_toTpm x) (TPM2_Create_REQUEST_enc x)"
  unfolding TPM2_Create_REQUEST_toTpm_def TPM2_Create_REQUEST_enc_def
  by (intro writes_intros; simp add: TPM2_Create_REQUEST_valid_def opt_ok_iff)

lemma TPM2_Create_REQUEST_reads:
  "TPM2_Create_REQUEST_valid x \<Longrightarrow> reads (TPM2_Create_REQUEST_initFromTpm TPM2_Create_REQUEST_default) x (TPM2_Create_REQUEST_enc x)"
  by (simp only: TPM2_Create_REQUEST_initFromTpm_def TPM2_Create_REQUEST_enc_def TPM2_Create_REQUEST_default_def
        TPM2_Create_REQUEST.select_convs TPM2_Create_REQUEST.update_convs;
      intro reads_intros; (rule TPM2_Create_REQUEST.equality)?; simp add: TPM2_Create_REQUEST_valid_def opt_ok_iff)

interpretation TPM2_Create_REQUEST_codec:
  tpm_codec TPM2_Create_REQUEST_toTpm TPM2_Create_REQUEST_initFromTpm TPM2_Create_REQUEST_default
    TPM2_Create_REQUEST_enc TPM2_Create_REQUEST_valid
  by unfold_locales (erule TPM2_Create_REQUEST_writes TPM2_Create_REQUEST_reads | simp add: TPM2_Create_REQUEST_enc_def)+

definition TPM2_Create_REQUEST_req :: "TPM2_Create_REQUEST \<Rightarrow> TPM_HANDLE ReqStructure" where
  "TPM2_Create_REQUEST_req self =
     \<lparr>req_toTpm = TPM2_Create_REQUEST_toTpm self, req_numHandles = 1,
     req_numAuthHandles = 1, req_getHandles = [TPM2_Create_REQUEST_parentHandle self], req_sessEncInfo = \<lparr>sizeLen = 2, valLen = 1\<rparr>\<rparr>"

subsection \<open>CreateResponse\<close>

text \<open>This command is used to create an object that can be loaded into a TPM using TPM2_Load().\<close>

record CreateResponse =
  CreateResponse_outPrivate :: "TPM2B_PRIVATE"
  CreateResponse_outPublic :: "TPMT_PUBLIC"
  CreateResponse_creationData :: "TPMS_CREATION_DATA"
  CreateResponse_creationHash :: "ByteVec"
  CreateResponse_creationTicket :: "TPMT_TK_CREATION"

definition CreateResponse_default :: CreateResponse where
  "CreateResponse_default = \<lparr>CreateResponse_outPrivate = TPM2B_PRIVATE_default, CreateResponse_outPublic = TPMT_PUBLIC_default, CreateResponse_creationData = TPMS_CREATION_DATA_default, CreateResponse_creationHash = [], CreateResponse_creationTicket = TPMT_TK_CREATION_default\<rparr>"

definition CreateResponse_toTpm :: "CreateResponse \<Rightarrow> unit tpm" where
  "CreateResponse_toTpm self =
     wseq [TPM2B_PRIVATE_toTpm (CreateResponse_outPrivate self),
       writeSizedObj TPMT_PUBLIC_toTpm (CreateResponse_outPublic self),
       writeSizedObj TPMS_CREATION_DATA_toTpm (CreateResponse_creationData self),
       writeSizedByteBuf (CreateResponse_creationHash self) 2,
       TPMT_TK_CREATION_toTpm (CreateResponse_creationTicket self)]"

definition CreateResponse_initFromTpm :: "CreateResponse \<Rightarrow> CreateResponse tpm" where
  "CreateResponse_initFromTpm self =
     sbind (TPM2B_PRIVATE_initFromTpm (CreateResponse_outPrivate self)) (\<lambda>outPrivate.
     sbind (readSizedObj TPMT_PUBLIC_initFromTpm (CreateResponse_outPublic self)) (\<lambda>outPublic.
     sbind (readSizedObj TPMS_CREATION_DATA_initFromTpm (CreateResponse_creationData self)) (\<lambda>creationData.
     sbind (readSizedByteBuf 2) (\<lambda>creationHash.
     sbind (TPMT_TK_CREATION_initFromTpm (CreateResponse_creationTicket self)) (\<lambda>creationTicket.
     ret (self\<lparr>CreateResponse_outPrivate := outPrivate, CreateResponse_outPublic := outPublic, CreateResponse_creationData := creationData, CreateResponse_creationHash := creationHash, CreateResponse_creationTicket := creationTicket\<rparr>))))))"

definition CreateResponse_enc :: "CreateResponse \<Rightarrow> ByteVec" where
  "CreateResponse_enc x =
     TPM2B_PRIVATE_enc (CreateResponse_outPrivate x) @
     enc_obj (TPMT_PUBLIC_enc (CreateResponse_outPublic x)) @
     enc_obj (TPMS_CREATION_DATA_enc (CreateResponse_creationData x)) @
     enc_sized 2 (CreateResponse_creationHash x) @
     TPMT_TK_CREATION_enc (CreateResponse_creationTicket x)"

definition CreateResponse_valid :: "CreateResponse \<Rightarrow> bool" where
  "CreateResponse_valid x \<longleftrightarrow>
     TPM2B_PRIVATE_valid (CreateResponse_outPrivate x) \<and>
     sized_obj_ok TPMT_PUBLIC_default TPMT_PUBLIC_enc TPMT_PUBLIC_valid (CreateResponse_outPublic x) \<and>
     sized_obj_ok TPMS_CREATION_DATA_default TPMS_CREATION_DATA_enc TPMS_CREATION_DATA_valid (CreateResponse_creationData x) \<and>
     sized_ok 2 (CreateResponse_creationHash x) \<and>
     TPMT_TK_CREATION_valid (CreateResponse_creationTicket x)"

lemma CreateResponse_writes [writes_intros]:
  "CreateResponse_valid x \<Longrightarrow> writes (CreateResponse_toTpm x) (CreateResponse_enc x)"
  unfolding CreateResponse_toTpm_def CreateResponse_enc_def
  by (intro writes_intros; simp add: CreateResponse_valid_def opt_ok_iff)

lemma CreateResponse_reads:
  "CreateResponse_valid x \<Longrightarrow> reads (CreateResponse_initFromTpm CreateResponse_default) x (CreateResponse_enc x)"
  by (simp only: CreateResponse_initFromTpm_def CreateResponse_enc_def CreateResponse_default_def
        CreateResponse.select_convs CreateResponse.update_convs;
      intro reads_intros; (rule CreateResponse.equality)?; simp add: CreateResponse_valid_def opt_ok_iff)

interpretation CreateResponse_codec:
  tpm_codec CreateResponse_toTpm CreateResponse_initFromTpm CreateResponse_default
    CreateResponse_enc CreateResponse_valid
  by unfold_locales (erule CreateResponse_writes CreateResponse_reads | simp add: CreateResponse_enc_def)+

definition CreateResponse_resp :: "(TPM_HANDLE, CreateResponse) RespStructure" where
  "CreateResponse_resp = \<lparr>resp_default = CreateResponse_default, resp_initFromTpm = CreateResponse_initFromTpm,
     resp_numHandles = 0, resp_getHandle = (\<lambda>_. TPM_HANDLE_default),
     resp_setHandle = (\<lambda>_ self. self), resp_sessEncInfo = no_sessEncInfo\<rparr>"

subsection \<open>TPM2_Load_REQUEST\<close>

text \<open>This command is used to load objects into the TPM. This command is used when both a TPM2B_PUBLIC and TPM2B_PRIVATE are to be loaded.\<close>

record TPM2_Load_REQUEST =
  TPM2_Load_REQUEST_parentHandle :: "TPM_HANDLE"
  TPM2_Load_REQUEST_inPrivate :: "TPM2B_PRIVATE"
  TPM2_Load_REQUEST_inPublic :: "TPMT_PUBLIC"

definition TPM2_Load_REQUEST_default :: TPM2_Load_REQUEST where
  "TPM2_Load_REQUEST_default = \<lparr>TPM2_Load_REQUEST_parentHandle = TPM_HANDLE_default, TPM2_Load_REQUEST_inPrivate = TPM2B_PRIVATE_default, TPM2_Load_REQUEST_inPublic = TPMT_PUBLIC_default\<rparr>"

definition TPM2_Load_REQUEST_toTpm :: "TPM2_Load_REQUEST \<Rightarrow> unit tpm" where
  "TPM2_Load_REQUEST_toTpm self =
     wseq [TPM2B_PRIVATE_toTpm (TPM2_Load_REQUEST_inPrivate self),
       writeSizedObj TPMT_PUBLIC_toTpm (TPM2_Load_REQUEST_inPublic self)]"

definition TPM2_Load_REQUEST_initFromTpm :: "TPM2_Load_REQUEST \<Rightarrow> TPM2_Load_REQUEST tpm" where
  "TPM2_Load_REQUEST_initFromTpm self =
     sbind (TPM2B_PRIVATE_initFromTpm (TPM2_Load_REQUEST_inPrivate self)) (\<lambda>inPrivate.
     sbind (readSizedObj TPMT_PUBLIC_initFromTpm (TPM2_Load_REQUEST_inPublic self)) (\<lambda>inPublic.
     ret (self\<lparr>TPM2_Load_REQUEST_inPrivate := inPrivate, TPM2_Load_REQUEST_inPublic := inPublic\<rparr>)))"

definition TPM2_Load_REQUEST_enc :: "TPM2_Load_REQUEST \<Rightarrow> ByteVec" where
  "TPM2_Load_REQUEST_enc x =
     TPM2B_PRIVATE_enc (TPM2_Load_REQUEST_inPrivate x) @
     enc_obj (TPMT_PUBLIC_enc (TPM2_Load_REQUEST_inPublic x))"

definition TPM2_Load_REQUEST_valid :: "TPM2_Load_REQUEST \<Rightarrow> bool" where
  "TPM2_Load_REQUEST_valid x \<longleftrightarrow>
     TPM2B_PRIVATE_valid (TPM2_Load_REQUEST_inPrivate x) \<and>
     sized_obj_ok TPMT_PUBLIC_default TPMT_PUBLIC_enc TPMT_PUBLIC_valid (TPM2_Load_REQUEST_inPublic x) \<and>
     TPM2_Load_REQUEST_parentHandle x = TPM_HANDLE_default"

lemma TPM2_Load_REQUEST_writes [writes_intros]:
  "TPM2_Load_REQUEST_valid x \<Longrightarrow> writes (TPM2_Load_REQUEST_toTpm x) (TPM2_Load_REQUEST_enc x)"
  unfolding TPM2_Load_REQUEST_toTpm_def TPM2_Load_REQUEST_enc_def
  by (intro writes_intros; simp add: TPM2_Load_REQUEST_valid_def opt_ok_iff)

lemma TPM2_Load_REQUEST_reads:
  "TPM2_Load_REQUEST_valid x \<Longrightarrow> reads (TPM2_Load_REQUEST_initFromTpm TPM2_Load_REQUEST_default) x (TPM2_Load_REQUEST_enc x)"
  by (simp only: TPM2_Load_REQUEST_initFromTpm_def TPM2_Load_REQUEST_enc_def TPM2_Load_REQUEST_default_def
        TPM2_Load_REQUEST.select_convs TPM2_Load_REQUEST.update_convs;
      intro reads_intros; (rule TPM2_Load_REQUEST.equality)?; simp add: TPM2_Load_REQUEST_valid_def opt_ok_iff)

interpretation TPM2_Load_REQUEST_codec:
  tpm_codec TPM2_Load_REQUEST_toTpm TPM2_Load_REQUEST_initFromTpm TPM2_Load_REQUEST_default
    TPM2_Load_REQUEST_enc TPM2_Load_REQUEST_valid
  by unfold_locales (erule TPM2_Load_REQUEST_writes TPM2_Load_REQUEST_reads | simp add: TPM2_Load_REQUEST_enc_def)+

definition TPM2_Load_REQUEST_req :: "TPM2_Load_REQUEST \<Rightarrow> TPM_HANDLE ReqStructure" where
  "TPM2_Load_REQUEST_req self =
     \<lparr>req_toTpm = TPM2_Load_REQUEST_toTpm self, req_numHandles = 1,
     req_numAuthHandles = 1, req_getHandles = [TPM2_Load_REQUEST_parentHandle self], req_sessEncInfo = no_sessEncInfo\<rparr>"

subsection \<open>LoadResponse\<close>

text \<open>This command is used to load objects into the TPM. This command is used when both a TPM2B_PUBLIC and TPM2B_PRIVATE are to be loaded.\<close>

record LoadResponse =
  LoadResponse_handle :: "TPM_HANDLE"
  LoadResponse_name :: "ByteVec"

definition LoadResponse_default :: LoadResponse where
  "LoadResponse_default = \<lparr>LoadResponse_handle = TPM_HANDLE_default, LoadResponse_name = []\<rparr>"

definition LoadResponse_toTpm :: "LoadResponse \<Rightarrow> unit tpm" where
  "LoadResponse_toTpm self =
     wseq [writeSizedByteBuf (LoadResponse_name self) 2]"

definition LoadResponse_initFromTpm :: "LoadResponse \<Rightarrow> LoadResponse tpm" where
  "LoadResponse_initFromTpm self =
     sbind (readSizedByteBuf 2) (\<lambda>name.
     ret (self\<lparr>LoadResponse_name := name\<rparr>))"

definition LoadResponse_enc :: "LoadResponse \<Rightarrow> ByteVec" where
  "LoadResponse_enc x =
     enc_sized 2 (LoadResponse_name x)"

definition LoadResponse_valid :: "LoadResponse \<Rightarrow> bool" where
  "LoadResponse_valid x \<longleftrightarrow>
     sized_ok 2 (LoadResponse_name x) \<and>
     LoadResponse_handle x = TPM_HANDLE_default"

lemma LoadResponse_writes [writes_intros]:
  "LoadResponse_valid x \<Longrightarrow> writes (LoadResponse_toTpm x) (LoadResponse_enc x)"
  unfolding LoadResponse_toTpm_def LoadResponse_enc_def
  by (intro writes_intros; simp add: LoadResponse_valid_def opt_ok_iff)

lemma LoadResponse_reads:
  "LoadResponse_valid x \<Longrightarrow> reads (LoadResponse_initFromTpm LoadResponse_default) x (LoadResponse_enc x)"
  by (simp only: LoadResponse_initFromTpm_def LoadResponse_enc_def LoadResponse_default_def
        LoadResponse.select_convs LoadResponse.update_convs;
      intro reads_intros; (rule LoadResponse.equality)?; simp add: LoadResponse_valid_def opt_ok_iff)

interpretation LoadResponse_codec:
  tpm_codec LoadResponse_toTpm LoadResponse_initFromTpm LoadResponse_default
    LoadResponse_enc LoadResponse_valid
  by unfold_locales (erule LoadResponse_writes LoadResponse_reads | simp add: LoadResponse_enc_def)+

definition LoadResponse_resp :: "(TPM_HANDLE, LoadResponse) RespStructure" where
  "LoadResponse_resp = \<lparr>resp_default = LoadResponse_default, resp_initFromTpm = LoadResponse_initFromTpm,
     resp_numHandles = 1, resp_getHandle = LoadResponse_handle,
     resp_setHandle = (\<lambda>h self. self\<lparr>LoadResponse_handle := h\<rparr>), resp_sessEncInfo = \<lparr>sizeLen = 2, valLen = 1\<rparr>\<rparr>"

subsection \<open>TPM2_LoadExternal_REQUEST\<close>

text \<open>This command is used to load an object that is not a Protected Object into the TPM. The command allows loading of a public area or both a public and ....\<close>

record TPM2_LoadExternal_REQUEST =
  TPM2_LoadExternal_REQUEST_inPrivate :: "TPMT_SENSITIVE"
  TPM2_LoadExternal_REQUEST_inPublic :: "TPMT_PUBLIC"
  TPM2_LoadExternal_REQUEST_hierarchy :: "TPM_HANDLE"

definition TPM2_LoadExternal_REQUEST_default :: TPM2_LoadExternal_REQUEST where
  "TPM2_LoadExternal_REQUEST_default = \<lparr>TPM2_LoadExternal_REQUEST_inPrivate = TPMT_SENSITIVE_default, TPM2_LoadExternal_REQUEST_inPublic = TPMT_PUBLIC_default, TPM2_LoadExternal_REQUEST_hierarchy = TPM_HANDLE_default\<rparr>"

definition TPM2_LoadExternal_REQUEST_toTpm :: "TPM2_LoadExternal_REQUEST \<Rightarrow> unit tpm" where
  "TPM2_LoadExternal_REQUEST_toTpm self =
     wseq [writeSizedObj TPMT_SENSITIVE_toTpm (TPM2_LoadExternal_REQUEST_inPrivate self),
       writeSizedObj TPMT_PUBLIC_toTpm (TPM2_LoadExternal_REQUEST_inPublic self),
       TPM_HANDLE_toTpm (TPM2_LoadExternal_REQUEST_hierarchy self)]"

definition TPM2_LoadExternal_REQUEST_initFromTpm :: "TPM2_LoadExternal_REQUEST \<Rightarrow> TPM2_LoadExternal_REQUEST tpm" where
  "TPM2_LoadExternal_REQUEST_initFromTpm self =
     sbind (readSizedObj TPMT_SENSITIVE_initFromTpm (TPM2_LoadExternal_REQUEST_inPrivate self)) (\<lambda>inPrivate.
     sbind (readSizedObj TPMT_PUBLIC_initFromTpm (TPM2_LoadExternal_REQUEST_inPublic self)) (\<lambda>inPublic.
     sbind (TPM_HANDLE_initFromTpm (TPM2_LoadExternal_REQUEST_hierarchy self)) (\<lambda>hierarchy.
     ret (self\<lparr>TPM2_LoadExternal_REQUEST_inPrivate := inPrivate, TPM2_LoadExternal_REQUEST_inPublic := inPublic, TPM2_LoadExternal_REQUEST_hierarchy := hierarchy\<rparr>))))"

definition TPM2_LoadExternal_REQUEST_enc :: "TPM2_LoadExternal_REQUEST \<Rightarrow> ByteVec" where
  "TPM2_LoadExternal_REQUEST_enc x =
     enc_obj (TPMT_SENSITIVE_enc (TPM2_LoadExternal_REQUEST_inPrivate x)) @
     enc_obj (TPMT_PUBLIC_enc (TPM2_LoadExternal_REQUEST_inPublic x)) @
     TPM_HANDLE_enc (TPM2_LoadExternal_REQUEST_hierarchy x)"

definition TPM2_LoadExternal_REQUEST_valid :: "TPM2_LoadExternal_REQUEST \<Rightarrow> bool" where
  "TPM2_LoadExternal_REQUEST_valid x \<longleftrightarrow>
     sized_obj_ok TPMT_SENSITIVE_default TPMT_SENSITIVE_enc TPMT_SENSITIVE_valid (TPM2_LoadExternal_REQUEST_inPrivate x) \<and>
     sized_obj_ok TPMT_PUBLIC_default TPMT_PUBLIC_enc TPMT_PUBLIC_valid (TPM2_LoadExternal_REQUEST_inPublic x) \<and>
     TPM_HANDLE_valid (TPM2_LoadExternal_REQUEST_hierarchy x)"

lemma TPM2_LoadExternal_REQUEST_writes [writes_intros]:
  "TPM2_LoadExternal_REQUEST_valid x \<Longrightarrow> writes (TPM2_LoadExternal_REQUEST_toTpm x) (TPM2_LoadExternal_REQUEST_enc x)"
  unfolding TPM2_LoadExternal_REQUEST_toTpm_def TPM2_LoadExternal_REQUEST_enc_def
  by (intro writes_intros; simp add: TPM2_LoadExternal_REQUEST_valid_def opt_ok_iff)

lemma TPM2_LoadExternal_REQUEST_reads:
  "TPM2_LoadExternal_REQUEST_valid x \<Longrightarrow> reads (TPM2_LoadExternal_REQUEST_initFromTpm TPM2_LoadExternal_REQUEST_default) x (TPM2_LoadExternal_REQUEST_enc x)"
  by (simp only: TPM2_LoadExternal_REQUEST_initFromTpm_def TPM2_LoadExternal_REQUEST_enc_def TPM2_LoadExternal_REQUEST_default_def
        TPM2_LoadExternal_REQUEST.select_convs TPM2_LoadExternal_REQUEST.update_convs;
      intro reads_intros; (rule TPM2_LoadExternal_REQUEST.equality)?; simp add: TPM2_LoadExternal_REQUEST_valid_def opt_ok_iff)

interpretation TPM2_LoadExternal_REQUEST_codec:
  tpm_codec TPM2_LoadExternal_REQUEST_toTpm TPM2_LoadExternal_REQUEST_initFromTpm TPM2_LoadExternal_REQUEST_default
    TPM2_LoadExternal_REQUEST_enc TPM2_LoadExternal_REQUEST_valid
  by unfold_locales (erule TPM2_LoadExternal_REQUEST_writes TPM2_LoadExternal_REQUEST_reads | simp add: TPM2_LoadExternal_REQUEST_enc_def)+

definition TPM2_LoadExternal_REQUEST_req :: "TPM2_LoadExternal_REQUEST \<Rightarrow> TPM_HANDLE ReqStructure" where
  "TPM2_LoadExternal_REQUEST_req self =
     \<lparr>req_toTpm = TPM2_LoadExternal_REQUEST_toTpm self, req_numHandles = 0,
     req_numAuthHandles = 0, req_getHandles = [], req_sessEncInfo = \<lparr>sizeLen = 2, valLen = 1\<rparr>\<rparr>"

subsection \<open>LoadExternalResponse\<close>

text \<open>This command is used to load an object that is not a Protected Object into the TPM. The command allows loading of a public area or both a public and ....\<close>

record LoadExternalResponse =
  LoadExternalResponse_handle :: "TPM_HANDLE"
  LoadExternalResponse_name :: "ByteVec"

definition LoadExternalResponse_default :: LoadExternalResponse where
  "LoadExternalResponse_default = \<lparr>LoadExternalResponse_handle = TPM_HANDLE_default, LoadExternalResponse_name = []\<rparr>"

definition LoadExternalResponse_toTpm :: "LoadExternalResponse \<Rightarrow> unit tpm" where
  "LoadExternalResponse_toTpm self =
     wseq [writeSizedByteBuf (LoadExternalResponse_name self) 2]"

definition LoadExternalResponse_initFromTpm :: "LoadExternalResponse \<Rightarrow> LoadExternalResponse tpm" where
  "LoadExternalResponse_initFromTpm self =
     sbind (readSizedByteBuf 2) (\<lambda>name.
     ret (self\<lparr>LoadExternalResponse_name := name\<rparr>))"

definition LoadExternalResponse_enc :: "LoadExternalResponse \<Rightarrow> ByteVec" where
  "LoadExternalResponse_enc x =
     enc_sized 2 (LoadExternalResponse_name x)"

definition LoadExternalResponse_valid :: "LoadExternalResponse \<Rightarrow> bool" where
  "LoadExternalResponse_valid x \<longleftrightarrow>
     sized_ok 2 (LoadExternalResponse_name x) \<and>
     LoadExternalResponse_handle x = TPM_HANDLE_default"

lemma LoadExternalResponse_writes [writes_intros]:
  "LoadExternalResponse_valid x \<Longrightarrow> writes (LoadExternalResponse_toTpm x) (LoadExternalResponse_enc x)"
  unfolding LoadExternalResponse_toTpm_def LoadExternalResponse_enc_def
  by (intro writes_intros; simp add: LoadExternalResponse_valid_def opt_ok_iff)

lemma LoadExternalResponse_reads:
  "LoadExternalResponse_valid x \<Longrightarrow> reads (LoadExternalResponse_initFromTpm LoadExternalResponse_default) x (LoadExternalResponse_enc x)"
  by (simp only: LoadExternalResponse_initFromTpm_def LoadExternalResponse_enc_def LoadExternalResponse_default_def
        LoadExternalResponse.select_convs LoadExternalResponse.update_convs;
      intro reads_intros; (rule LoadExternalResponse.equality)?; simp add: LoadExternalResponse_valid_def opt_ok_iff)

interpretation LoadExternalResponse_codec:
  tpm_codec LoadExternalResponse_toTpm LoadExternalResponse_initFromTpm LoadExternalResponse_default
    LoadExternalResponse_enc LoadExternalResponse_valid
  by unfold_locales (erule LoadExternalResponse_writes LoadExternalResponse_reads | simp add: LoadExternalResponse_enc_def)+

definition LoadExternalResponse_resp :: "(TPM_HANDLE, LoadExternalResponse) RespStructure" where
  "LoadExternalResponse_resp = \<lparr>resp_default = LoadExternalResponse_default, resp_initFromTpm = LoadExternalResponse_initFromTpm,
     resp_numHandles = 1, resp_getHandle = LoadExternalResponse_handle,
     resp_setHandle = (\<lambda>h self. self\<lparr>LoadExternalResponse_handle := h\<rparr>), resp_sessEncInfo = \<lparr>sizeLen = 2, valLen = 1\<rparr>\<rparr>"

subsection \<open>TPM2_ReadPublic_REQUEST\<close>

text \<open>This command allows access to the public area of a loaded object.\<close>

record TPM2_ReadPublic_REQUEST =
  TPM2_ReadPublic_REQUEST_objectHandle :: "TPM_HANDLE"

definition TPM2_ReadPublic_REQUEST_default :: TPM2_ReadPublic_REQUEST where
  "TPM2_ReadPublic_REQUEST_default = \<lparr>TPM2_ReadPublic_REQUEST_objectHandle = TPM_HANDLE_default\<rparr>"

definition TPM2_ReadPublic_REQUEST_toTpm :: "TPM2_ReadPublic_REQUEST \<Rightarrow> unit tpm" where
  "TPM2_ReadPublic_REQUEST_toTpm self =
     wseq []"

definition TPM2_ReadPublic_REQUEST_initFromTpm :: "TPM2_ReadPublic_REQUEST \<Rightarrow> TPM2_ReadPublic_REQUEST tpm" where
  "TPM2_ReadPublic_REQUEST_initFromTpm self =
     ret self"

definition TPM2_ReadPublic_REQUEST_enc :: "TPM2_ReadPublic_REQUEST \<Rightarrow> ByteVec" where
  "TPM2_ReadPublic_REQUEST_enc x =
     []"

definition TPM2_ReadPublic_REQUEST_valid :: "TPM2_ReadPublic_REQUEST \<Rightarrow> bool" where
  "TPM2_ReadPublic_REQUEST_valid x \<longleftrightarrow>
     TPM2_ReadPublic_REQUEST_objectHandle x = TPM_HANDLE_default"

lemma TPM2_ReadPublic_REQUEST_writes [writes_intros]:
  "TPM2_ReadPublic_REQUEST_valid x \<Longrightarrow> writes (TPM2_ReadPublic_REQUEST_toTpm x) (TPM2_ReadPublic_REQUEST_enc x)"
  unfolding TPM2_ReadPublic_REQUEST_toTpm_def TPM2_ReadPublic_REQUEST_enc_def
  by (intro writes_intros; simp add: TPM2_ReadPublic_REQUEST_valid_def opt_ok_iff)

lemma TPM2_ReadPublic_REQUEST_reads:
  "TPM2_ReadPublic_REQUEST_valid x \<Longrightarrow> reads (TPM2_ReadPublic_REQUEST_initFromTpm TPM2_ReadPublic_REQUEST_default) x (TPM2_ReadPublic_REQUEST_enc x)"
  by (simp only: TPM2_ReadPublic_REQUEST_initFromTpm_def TPM2_ReadPublic_REQUEST_enc_def TPM2_ReadPublic_REQUEST_default_def
        TPM2_ReadPublic_REQUEST.select_convs TPM2_ReadPublic_REQUEST.update_convs;
      intro reads_intros; (rule TPM2_ReadPublic_REQUEST.equality)?; simp add: TPM2_ReadPublic_REQUEST_valid_def opt_ok_iff)

interpretation TPM2_ReadPublic_REQUEST_codec:
  tpm_codec TPM2_ReadPublic_REQUEST_toTpm TPM2_ReadPublic_REQUEST_initFromTpm TPM2_ReadPublic_REQUEST_default
    TPM2_ReadPublic_REQUEST_enc TPM2_ReadPublic_REQUEST_valid
  by unfold_locales (erule TPM2_ReadPublic_REQUEST_writes TPM2_ReadPublic_REQUEST_reads | simp add: TPM2_ReadPublic_REQUEST_toTpm_def writes_ret)+

definition TPM2_ReadPublic_REQUEST_req :: "TPM2_ReadPublic_REQUEST \<Rightarrow> TPM_HANDLE ReqStructure" where
  "TPM2_ReadPublic_REQUEST_req self =
     \<lparr>req_toTpm = TPM2_ReadPublic_REQUEST_toTpm self, req_numHandles = 1,
     req_numAuthHandles = 0, req_getHandles = [TPM2_ReadPublic_REQUEST_objectHandle self], req_sessEncInfo = no_sessEncInfo\<rparr>"

subsection \<open>ReadPublicResponse\<close>

text \<open>This command allows access to the public area of a loaded object.\<close>

record ReadPublicResponse =
  ReadPublicResponse_outPublic :: "TPMT_PUBLIC"
  ReadPublicResponse_name :: "ByteVec"
  ReadPublicResponse_qualifiedName :: "ByteVec"

definition ReadPublicResponse_default :: ReadPublicResponse where
  "ReadPublicResponse_default = \<lparr>ReadPublicResponse_outPublic = TPMT_PUBLIC_default, ReadPublicResponse_name = [], ReadPublicResponse_qualifiedName = []\<rparr>"

definition ReadPublicResponse_toTpm :: "ReadPublicResponse \<Rightarrow> unit tpm" where
  "ReadPublicResponse_toTpm self =
     wseq [writeSizedObj TPMT_PUBLIC_toTpm (ReadPublicResponse_outPublic self),
       writeSizedByteBuf (ReadPublicResponse_name self) 2,
       writeSizedByteBuf (ReadPublicResponse_qualifiedName self) 2]"

definition ReadPublicResponse_initFromTpm :: "ReadPublicResponse \<Rightarrow> ReadPublicResponse tpm" where
  "ReadPublicResponse_initFromTpm self =
     sbind (readSizedObj TPMT_PUBLIC_initFromTpm (ReadPublicResponse_outPublic self)) (\<lambda>outPublic.
     sbind (readSizedByteBuf 2) (\<lambda>name.
     sbind (readSizedByteBuf 2) (\<lambda>qualifiedName.
     ret (self\<lparr>ReadPublicResponse_outPublic := outPublic, ReadPublicResponse_name := name, ReadPublicResponse_qualifiedName := qualifiedName\<rparr>))))"

definition ReadPublicResponse_enc :: "ReadPublicResponse \<Rightarrow> ByteVec" where
  "ReadPublicResponse_enc x =
     enc_obj (TPMT_PUBLIC_enc (ReadPublicResponse_outPublic x)) @
     enc_sized 2 (ReadPublicResponse_name x) @
     enc_sized 2 (ReadPublicResponse_qualifiedName x)"

definition ReadPublicResponse_valid :: "ReadPublicResponse \<Rightarrow> bool" where
  "ReadPublicResponse_valid x \<longleftrightarrow>
     sized_obj_ok TPMT_PUBLIC_default TPMT_PUBLIC_enc TPMT_PUBLIC_valid (ReadPublicResponse_outPublic x) \<and>
     sized_ok 2 (ReadPublicResponse_name x) \<and>
     sized_ok 2 (ReadPublicResponse_qualifiedName x)"

lemma ReadPublicResponse_writes [writes_intros]:
  "ReadPublicResponse_valid x \<Longrightarrow> writes (ReadPublicResponse_toTpm x) (ReadPublicResponse_enc x)"
  unfolding ReadPublicResponse_toTpm_def ReadPublicResponse_enc_def
  by (intro writes_intros; simp add: ReadPublicResponse_valid_def opt_ok_iff)

lemma ReadPublicResponse_reads:
  "ReadPublicResponse_valid x \<Longrightarrow> reads (ReadPublicResponse_initFromTpm ReadPublicResponse_default) x (ReadPublicResponse_enc x)"
  by (simp only: ReadPublicResponse_initFromTpm_def ReadPublicResponse_enc_def ReadPublicResponse_default_def
        ReadPublicResponse.select_convs ReadPublicResponse.update_convs;
      intro reads_intros; (rule ReadPublicResponse.equality)?; simp add: ReadPublicResponse_valid_def opt_ok_iff)

interpretation ReadPublicResponse_codec:
  tpm_codec ReadPublicResponse_toTpm ReadPublicResponse_initFromTpm ReadPublicResponse_default
    ReadPublicResponse_enc ReadPublicResponse_valid
  by unfold_locales (erule ReadPublicResponse_writes ReadPublicResponse_reads | simp add: ReadPublicResponse_enc_def)+

definition ReadPublicResponse_resp :: "(TPM_HANDLE, ReadPublicResponse) RespStructure" where
  "ReadPublicResponse_resp = \<lparr>resp_default = ReadPublicResponse_default, resp_initFromTpm = ReadPublicResponse_initFromTpm,
     resp_numHandles = 0, resp_getHandle = (\<lambda>_. TPM_HANDLE_default),
     resp_setHandle = (\<lambda>_ self. self), resp_sessEncInfo = \<lparr>sizeLen = 2, valLen = 1\<rparr>\<rparr>"

subsection \<open>TPM2_ActivateCredential_REQUEST\<close>

text \<open>This command enables the association of a credential with an object in a way that ensures that the TPM has validated the parameters of the ....\<close>

record TPM2_ActivateCredential_REQUEST =
  TPM2_ActivateCredential_REQUEST_activateHandle :: "TPM_HANDLE"
  TPM2_ActivateCredential_REQUEST_keyHandle :: "TPM_HANDLE"
  TPM2_ActivateCredential_REQUEST_credentialBlob :: "TPMS_ID_OBJECT"
  TPM2_ActivateCredential_REQUEST_secret :: "ByteVec"

definition TPM2_ActivateCredential_REQUEST_default :: TPM2_ActivateCredential_REQUEST where
  "TPM2_ActivateCredential_REQUEST_default = \<lparr>TPM2_ActivateCredential_REQUEST_activateHandle = TPM_HANDLE_default, TPM2_ActivateCredential_REQUEST_keyHandle = TPM_HANDLE_default, TPM2_ActivateCredential_REQUEST_credentialBlob = TPMS_ID_OBJECT_default, TPM2_ActivateCredential_REQUEST_secret = []\<rparr>"

definition TPM2_ActivateCredential_REQUEST_toTpm :: "TPM2_ActivateCredential_REQUEST \<Rightarrow> unit tpm" where
  "TPM2_ActivateCredential_REQUEST_toTpm self =
     wseq [writeSizedObj TPMS_ID_OBJECT_toTpm (TPM2_ActivateCredential_REQUEST_credentialBlob self),
       writeSizedByteBuf (TPM2_ActivateCredential_REQUEST_secret self) 2]"

definition TPM2_ActivateCredential_REQUEST_initFromTpm :: "TPM2_ActivateCredential_REQUEST \<Rightarrow> TPM2_ActivateCredential_REQUEST tpm" where
  "TPM2_ActivateCredential_REQUEST_initFromTpm self =
     sbind (readSizedObj TPMS_ID_OBJECT_initFromTpm (TPM2_ActivateCredential_REQUEST_credentialBlob self)) (\<lambda>credentialBlob.
     sbind (readSizedByteBuf 2) (\<lambda>secret.
     ret (self\<lparr>TPM2_ActivateCredential_REQUEST_credentialBlob := credentialBlob, TPM2_ActivateCredential_REQUEST_secret := secret\<rparr>)))"

definition TPM2_ActivateCredential_REQUEST_enc :: "TPM2_ActivateCredential_REQUEST \<Rightarrow> ByteVec" where
  "TPM2_ActivateCredential_REQUEST_enc x =
     enc_obj (TPMS_ID_OBJECT_enc (TPM2_ActivateCredential_REQUEST_credentialBlob x)) @
     enc_sized 2 (TPM2_ActivateCredential_REQUEST_secret x)"

definition TPM2_ActivateCredential_REQUEST_valid :: "TPM2_ActivateCredential_REQUEST \<Rightarrow> bool" where
  "TPM2_ActivateCredential_REQUEST_valid x \<longleftrightarrow>
     sized_obj_ok TPMS_ID_OBJECT_default TPMS_ID_OBJECT_enc TPMS_ID_OBJECT_valid (TPM2_ActivateCredential_REQUEST_credentialBlob x) \<and>
     sized_ok 2 (TPM2_ActivateCredential_REQUEST_secret x) \<and>
     TPM2_ActivateCredential_REQUEST_activateHandle x = TPM_HANDLE_default \<and>
     TPM2_ActivateCredential_REQUEST_keyHandle x = TPM_HANDLE_default"

lemma TPM2_ActivateCredential_REQUEST_writes [writes_intros]:
  "TPM2_ActivateCredential_REQUEST_valid x \<Longrightarrow> writes (TPM2_ActivateCredential_REQUEST_toTpm x) (TPM2_ActivateCredential_REQUEST_enc x)"
  unfolding TPM2_ActivateCredential_REQUEST_toTpm_def TPM2_ActivateCredential_REQUEST_enc_def
  by (intro writes_intros; simp add: TPM2_ActivateCredential_REQUEST_valid_def opt_ok_iff)

lemma TPM2_ActivateCredential_REQUEST_reads:
  "TPM2_ActivateCredential_REQUEST_valid x \<Longrightarrow> reads (TPM2_ActivateCredential_REQUEST_initFromTpm TPM2_ActivateCredential_REQUEST_default) x (TPM2_ActivateCredential_REQUEST_enc x)"
  by (simp only: TPM2_ActivateCredential_REQUEST_initFromTpm_def TPM2_ActivateCredential_REQUEST_enc_def TPM2_ActivateCredential_REQUEST_default_def
        TPM2_ActivateCredential_REQUEST.select_convs TPM2_ActivateCredential_REQUEST.update_convs;
      intro reads_intros; (rule TPM2_ActivateCredential_REQUEST.equality)?; simp add: TPM2_ActivateCredential_REQUEST_valid_def opt_ok_iff)

interpretation TPM2_ActivateCredential_REQUEST_codec:
  tpm_codec TPM2_ActivateCredential_REQUEST_toTpm TPM2_ActivateCredential_REQUEST_initFromTpm TPM2_ActivateCredential_REQUEST_default
    TPM2_ActivateCredential_REQUEST_enc TPM2_ActivateCredential_REQUEST_valid
  by unfold_locales (erule TPM2_ActivateCredential_REQUEST_writes TPM2_ActivateCredential_REQUEST_reads | simp add: TPM2_ActivateCredential_REQUEST_enc_def)+

definition TPM2_ActivateCredential_REQUEST_req :: "TPM2_ActivateCredential_REQUEST \<Rightarrow> TPM_HANDLE ReqStructure" where
  "TPM2_ActivateCredential_REQUEST_req self =
     \<lparr>req_toTpm = TPM2_ActivateCredential_REQUEST_toTpm self, req_numHandles = 2,
     req_numAuthHandles = 2, req_getHandles = [TPM2_ActivateCredential_REQUEST_activateHandle self, TPM2_ActivateCredential_REQUEST_keyHandle self], req_sessEncInfo = \<lparr>sizeLen = 2, valLen = 1\<rparr>\<rparr>"

subsection \<open>ActivateCredentialResponse\<close>

text \<open>This command enables the association of a credential with an object in a way that ensures that the TPM has validated the parameters of the ....\<close>

record ActivateCredentialResponse =
  ActivateCredentialResponse_certInfo :: "ByteVec"

definition ActivateCredentialResponse_default :: ActivateCredentialResponse where
  "ActivateCredentialResponse_default = \<lparr>ActivateCredentialResponse_certInfo = []\<rparr>"

definition ActivateCredentialResponse_toTpm :: "ActivateCredentialResponse \<Rightarrow> unit tpm" where
  "ActivateCredentialResponse_toTpm self =
     wseq [writeSizedByteBuf (ActivateCredentialResponse_certInfo self) 2]"

definition ActivateCredentialResponse_initFromTpm :: "ActivateCredentialResponse \<Rightarrow> ActivateCredentialResponse tpm" where
  "ActivateCredentialResponse_initFromTpm self =
     sbind (readSizedByteBuf 2) (\<lambda>certInfo.
     ret (self\<lparr>ActivateCredentialResponse_certInfo := certInfo\<rparr>))"

definition ActivateCredentialResponse_enc :: "ActivateCredentialResponse \<Rightarrow> ByteVec" where
  "ActivateCredentialResponse_enc x =
     enc_sized 2 (ActivateCredentialResponse_certInfo x)"

definition ActivateCredentialResponse_valid :: "ActivateCredentialResponse \<Rightarrow> bool" where
  "ActivateCredentialResponse_valid x \<longleftrightarrow>
     sized_ok 2 (ActivateCredentialResponse_certInfo x)"

lemma ActivateCredentialResponse_writes [writes_intros]:
  "ActivateCredentialResponse_valid x \<Longrightarrow> writes (ActivateCredentialResponse_toTpm x) (ActivateCredentialResponse_enc x)"
  unfolding ActivateCredentialResponse_toTpm_def ActivateCredentialResponse_enc_def
  by (intro writes_intros; simp add: ActivateCredentialResponse_valid_def opt_ok_iff)

lemma ActivateCredentialResponse_reads:
  "ActivateCredentialResponse_valid x \<Longrightarrow> reads (ActivateCredentialResponse_initFromTpm ActivateCredentialResponse_default) x (ActivateCredentialResponse_enc x)"
  by (simp only: ActivateCredentialResponse_initFromTpm_def ActivateCredentialResponse_enc_def ActivateCredentialResponse_default_def
        ActivateCredentialResponse.select_convs ActivateCredentialResponse.update_convs;
      intro reads_intros; (rule ActivateCredentialResponse.equality)?; simp add: ActivateCredentialResponse_valid_def opt_ok_iff)

interpretation ActivateCredentialResponse_codec:
  tpm_codec ActivateCredentialResponse_toTpm ActivateCredentialResponse_initFromTpm ActivateCredentialResponse_default
    ActivateCredentialResponse_enc ActivateCredentialResponse_valid
  by unfold_locales (erule ActivateCredentialResponse_writes ActivateCredentialResponse_reads | simp add: ActivateCredentialResponse_enc_def)+

definition ActivateCredentialResponse_resp :: "(TPM_HANDLE, ActivateCredentialResponse) RespStructure" where
  "ActivateCredentialResponse_resp = \<lparr>resp_default = ActivateCredentialResponse_default, resp_initFromTpm = ActivateCredentialResponse_initFromTpm,
     resp_numHandles = 0, resp_getHandle = (\<lambda>_. TPM_HANDLE_default),
     resp_setHandle = (\<lambda>_ self. self), resp_sessEncInfo = \<lparr>sizeLen = 2, valLen = 1\<rparr>\<rparr>"

subsection \<open>TPM2_MakeCredential_REQUEST\<close>

text \<open>This command allows the TPM to perform the actions required of a Certificate Authority (CA) in creating a TPM2B_ID_OBJECT containing an activation ....\<close>

record TPM2_MakeCredential_REQUEST =
  TPM2_MakeCredential_REQUEST_handle :: "TPM_HANDLE"
  TPM2_MakeCredential_REQUEST_credential :: "ByteVec"
  TPM2_MakeCredential_REQUEST_objectName :: "ByteVec"

definition TPM2_MakeCredential_REQUEST_default :: TPM2_MakeCredential_REQUEST where
  "TPM2_MakeCredential_REQUEST_default = \<lparr>TPM2_MakeCredential_REQUEST_handle = TPM_HANDLE_default, TPM2_MakeCredential_REQUEST_credential = [], TPM2_MakeCredential_REQUEST_objectName = []\<rparr>"

definition TPM2_MakeCredential_REQUEST_toTpm :: "TPM2_MakeCredential_REQUEST \<Rightarrow> unit tpm" where
  "TPM2_MakeCredential_REQUEST_toTpm self =
     wseq [writeSizedByteBuf (TPM2_MakeCredential_REQUEST_credential self) 2,
       writeSizedByteBuf (TPM2_MakeCredential_REQUEST_objectName self) 2]"

definition TPM2_MakeCredential_REQUEST_initFromTpm :: "TPM2_MakeCredential_REQUEST \<Rightarrow> TPM2_MakeCredential_REQUEST tpm" where
  "TPM2_MakeCredential_REQUEST_initFromTpm self =
     sbind (readSizedByteBuf 2) (\<lambda>credential.
     sbind (readSizedByteBuf 2) (\<lambda>objectName.
     ret (self\<lparr>TPM2_MakeCredential_REQUEST_credential := credential, TPM2_MakeCredential_REQUEST_objectName := objectName\<rparr>)))"

definition TPM2_MakeCredential_REQUEST_enc :: "TPM2_MakeCredential_REQUEST \<Rightarrow> ByteVec" where
  "TPM2_MakeCredential_REQUEST_enc x =
     enc_sized 2 (TPM2_MakeCredential_REQUEST_credential x) @
     enc_sized 2 (TPM2_MakeCredential_REQUEST_objectName x)"

definition TPM2_MakeCredential_REQUEST_valid :: "TPM2_MakeCredential_REQUEST \<Rightarrow> bool" where
  "TPM2_MakeCredential_REQUEST_valid x \<longleftrightarrow>
     sized_ok 2 (TPM2_MakeCredential_REQUEST_credential x) \<and>
     sized_ok 2 (TPM2_MakeCredential_REQUEST_objectName x) \<and>
     TPM2_MakeCredential_REQUEST_handle x = TPM_HANDLE_default"

lemma TPM2_MakeCredential_REQUEST_writes [writes_intros]:
  "TPM2_MakeCredential_REQUEST_valid x \<Longrightarrow> writes (TPM2_MakeCredential_REQUEST_toTpm x) (TPM2_MakeCredential_REQUEST_enc x)"
  unfolding TPM2_MakeCredential_REQUEST_toTpm_def TPM2_MakeCredential_REQUEST_enc_def
  by (intro writes_intros; simp add: TPM2_MakeCredential_REQUEST_valid_def opt_ok_iff)

lemma TPM2_MakeCredential_REQUEST_reads:
  "TPM2_MakeCredential_REQUEST_valid x \<Longrightarrow> reads (TPM2_MakeCredential_REQUEST_initFromTpm TPM2_MakeCredential_REQUEST_default) x (TPM2_MakeCredential_REQUEST_enc x)"
  by (simp only: TPM2_MakeCredential_REQUEST_initFromTpm_def TPM2_MakeCredential_REQUEST_enc_def TPM2_MakeCredential_REQUEST_default_def
        TPM2_MakeCredential_REQUEST.select_convs TPM2_MakeCredential_REQUEST.update_convs;
      intro reads_intros; (rule TPM2_MakeCredential_REQUEST.equality)?; simp add: TPM2_MakeCredential_REQUEST_valid_def opt_ok_iff)

interpretation TPM2_MakeCredential_REQUEST_codec:
  tpm_codec TPM2_MakeCredential_REQUEST_toTpm TPM2_MakeCredential_REQUEST_initFromTpm TPM2_MakeCredential_REQUEST_default
    TPM2_MakeCredential_REQUEST_enc TPM2_MakeCredential_REQUEST_valid
  by unfold_locales (erule TPM2_MakeCredential_REQUEST_writes TPM2_MakeCredential_REQUEST_reads | simp add: TPM2_MakeCredential_REQUEST_enc_def)+

definition TPM2_MakeCredential_REQUEST_req :: "TPM2_MakeCredential_REQUEST \<Rightarrow> TPM_HANDLE ReqStructure" where
  "TPM2_MakeCredential_REQUEST_req self =
     \<lparr>req_toTpm = TPM2_MakeCredential_REQUEST_toTpm self, req_numHandles = 1,
     req_numAuthHandles = 0, req_getHandles = [TPM2_MakeCredential_REQUEST_handle self], req_sessEncInfo = \<lparr>sizeLen = 2, valLen = 1\<rparr>\<rparr>"

subsection \<open>MakeCredentialResponse\<close>

text \<open>This command allows the TPM to perform the actions required of a Certificate Authority (CA) in creating a TPM2B_ID_OBJECT containing an activation ....\<close>

record MakeCredentialResponse =
  MakeCredentialResponse_credentialBlob :: "TPMS_ID_OBJECT"
  MakeCredentialResponse_secret :: "ByteVec"

definition MakeCredentialResponse_default :: MakeCredentialResponse where
  "MakeCredentialResponse_default = \<lparr>MakeCredentialResponse_credentialBlob = TPMS_ID_OBJECT_default, MakeCredentialResponse_secret = []\<rparr>"

definition MakeCredentialResponse_toTpm :: "MakeCredentialResponse \<Rightarrow> unit tpm" where
  "MakeCredentialResponse_toTpm self =
     wseq [writeSizedObj TPMS_ID_OBJECT_toTpm (MakeCredentialResponse_credentialBlob self),
       writeSizedByteBuf (MakeCredentialResponse_secret self) 2]"

definition MakeCredentialResponse_initFromTpm :: "MakeCredentialResponse \<Rightarrow> MakeCredentialResponse tpm" where
  "MakeCredentialResponse_initFromTpm self =
     sbind (readSizedObj TPMS_ID_OBJECT_initFromTpm (MakeCredentialResponse_credentialBlob self)) (\<lambda>credentialBlob.
     sbind (readSizedByteBuf 2) (\<lambda>secret.
     ret (self\<lparr>MakeCredentialResponse_credentialBlob := credentialBlob, MakeCredentialResponse_secret := secret\<rparr>)))"

definition MakeCredentialResponse_enc :: "MakeCredentialResponse \<Rightarrow> ByteVec" where
  "MakeCredentialResponse_enc x =
     enc_obj (TPMS_ID_OBJECT_enc (MakeCredentialResponse_credentialBlob x)) @
     enc_sized 2 (MakeCredentialResponse_secret x)"

definition MakeCredentialResponse_valid :: "MakeCredentialResponse \<Rightarrow> bool" where
  "MakeCredentialResponse_valid x \<longleftrightarrow>
     sized_obj_ok TPMS_ID_OBJECT_default TPMS_ID_OBJECT_enc TPMS_ID_OBJECT_valid (MakeCredentialResponse_credentialBlob x) \<and>
     sized_ok 2 (MakeCredentialResponse_secret x)"

lemma MakeCredentialResponse_writes [writes_intros]:
  "MakeCredentialResponse_valid x \<Longrightarrow> writes (MakeCredentialResponse_toTpm x) (MakeCredentialResponse_enc x)"
  unfolding MakeCredentialResponse_toTpm_def MakeCredentialResponse_enc_def
  by (intro writes_intros; simp add: MakeCredentialResponse_valid_def opt_ok_iff)

lemma MakeCredentialResponse_reads:
  "MakeCredentialResponse_valid x \<Longrightarrow> reads (MakeCredentialResponse_initFromTpm MakeCredentialResponse_default) x (MakeCredentialResponse_enc x)"
  by (simp only: MakeCredentialResponse_initFromTpm_def MakeCredentialResponse_enc_def MakeCredentialResponse_default_def
        MakeCredentialResponse.select_convs MakeCredentialResponse.update_convs;
      intro reads_intros; (rule MakeCredentialResponse.equality)?; simp add: MakeCredentialResponse_valid_def opt_ok_iff)

interpretation MakeCredentialResponse_codec:
  tpm_codec MakeCredentialResponse_toTpm MakeCredentialResponse_initFromTpm MakeCredentialResponse_default
    MakeCredentialResponse_enc MakeCredentialResponse_valid
  by unfold_locales (erule MakeCredentialResponse_writes MakeCredentialResponse_reads | simp add: MakeCredentialResponse_enc_def)+

definition MakeCredentialResponse_resp :: "(TPM_HANDLE, MakeCredentialResponse) RespStructure" where
  "MakeCredentialResponse_resp = \<lparr>resp_default = MakeCredentialResponse_default, resp_initFromTpm = MakeCredentialResponse_initFromTpm,
     resp_numHandles = 0, resp_getHandle = (\<lambda>_. TPM_HANDLE_default),
     resp_setHandle = (\<lambda>_ self. self), resp_sessEncInfo = \<lparr>sizeLen = 2, valLen = 1\<rparr>\<rparr>"

subsection \<open>TPM2_Unseal_REQUEST\<close>

text \<open>This command returns the data in a loaded Sealed Data Object.\<close>

record TPM2_Unseal_REQUEST =
  TPM2_Unseal_REQUEST_itemHandle :: "TPM_HANDLE"

definition TPM2_Unseal_REQUEST_default :: TPM2_Unseal_REQUEST where
  "TPM2_Unseal_REQUEST_default = \<lparr>TPM2_Unseal_REQUEST_itemHandle = TPM_HANDLE_default\<rparr>"

definition TPM2_Unseal_REQUEST_toTpm :: "TPM2_Unseal_REQUEST \<Rightarrow> unit tpm" where
  "TPM2_Unseal_REQUEST_toTpm self =
     wseq []"

definition TPM2_Unseal_REQUEST_initFromTpm :: "TPM2_Unseal_REQUEST \<Rightarrow> TPM2_Unseal_REQUEST tpm" where
  "TPM2_Unseal_REQUEST_initFromTpm self =
     ret self"

definition TPM2_Unseal_REQUEST_enc :: "TPM2_Unseal_REQUEST \<Rightarrow> ByteVec" where
  "TPM2_Unseal_REQUEST_enc x =
     []"

definition TPM2_Unseal_REQUEST_valid :: "TPM2_Unseal_REQUEST \<Rightarrow> bool" where
  "TPM2_Unseal_REQUEST_valid x \<longleftrightarrow>
     TPM2_Unseal_REQUEST_itemHandle x = TPM_HANDLE_default"

lemma TPM2_Unseal_REQUEST_writes [writes_intros]:
  "TPM2_Unseal_REQUEST_valid x \<Longrightarrow> writes (TPM2_Unseal_REQUEST_toTpm x) (TPM2_Unseal_REQUEST_enc x)"
  unfolding TPM2_Unseal_REQUEST_toTpm_def TPM2_Unseal_REQUEST_enc_def
  by (intro writes_intros; simp add: TPM2_Unseal_REQUEST_valid_def opt_ok_iff)

lemma TPM2_Unseal_REQUEST_reads:
  "TPM2_Unseal_REQUEST_valid x \<Longrightarrow> reads (TPM2_Unseal_REQUEST_initFromTpm TPM2_Unseal_REQUEST_default) x (TPM2_Unseal_REQUEST_enc x)"
  by (simp only: TPM2_Unseal_REQUEST_initFromTpm_def TPM2_Unseal_REQUEST_enc_def TPM2_Unseal_REQUEST_default_def
        TPM2_Unseal_REQUEST.select_convs TPM2_Unseal_REQUEST.update_convs;
      intro reads_intros; (rule TPM2_Unseal_REQUEST.equality)?; simp add: TPM2_Unseal_REQUEST_valid_def opt_ok_iff)

interpretation TPM2_Unseal_REQUEST_codec:
  tpm_codec TPM2_Unseal_REQUEST_toTpm TPM2_Unseal_REQUEST_initFromTpm TPM2_Unseal_REQUEST_default
    TPM2_Unseal_REQUEST_enc TPM2_Unseal_REQUEST_valid
  by unfold_locales (erule TPM2_Unseal_REQUEST_writes TPM2_Unseal_REQUEST_reads | simp add: TPM2_Unseal_REQUEST_toTpm_def writes_ret)+

definition TPM2_Unseal_REQUEST_req :: "TPM2_Unseal_REQUEST \<Rightarrow> TPM_HANDLE ReqStructure" where
  "TPM2_Unseal_REQUEST_req self =
     \<lparr>req_toTpm = TPM2_Unseal_REQUEST_toTpm self, req_numHandles = 1,
     req_numAuthHandles = 1, req_getHandles = [TPM2_Unseal_REQUEST_itemHandle self], req_sessEncInfo = no_sessEncInfo\<rparr>"

subsection \<open>UnsealResponse\<close>

text \<open>This command returns the data in a loaded Sealed Data Object.\<close>

record UnsealResponse =
  UnsealResponse_outData :: "ByteVec"

definition UnsealResponse_default :: UnsealResponse where
  "UnsealResponse_default = \<lparr>UnsealResponse_outData = []\<rparr>"

definition UnsealResponse_toTpm :: "UnsealResponse \<Rightarrow> unit tpm" where
  "UnsealResponse_toTpm self =
     wseq [writeSizedByteBuf (UnsealResponse_outData self) 2]"

definition UnsealResponse_initFromTpm :: "UnsealResponse \<Rightarrow> UnsealResponse tpm" where
  "UnsealResponse_initFromTpm self =
     sbind (readSizedByteBuf 2) (\<lambda>outData.
     ret (self\<lparr>UnsealResponse_outData := outData\<rparr>))"

definition UnsealResponse_enc :: "UnsealResponse \<Rightarrow> ByteVec" where
  "UnsealResponse_enc x =
     enc_sized 2 (UnsealResponse_outData x)"

definition UnsealResponse_valid :: "UnsealResponse \<Rightarrow> bool" where
  "UnsealResponse_valid x \<longleftrightarrow>
     sized_ok 2 (UnsealResponse_outData x)"

lemma UnsealResponse_writes [writes_intros]:
  "UnsealResponse_valid x \<Longrightarrow> writes (UnsealResponse_toTpm x) (UnsealResponse_enc x)"
  unfolding UnsealResponse_toTpm_def UnsealResponse_enc_def
  by (intro writes_intros; simp add: UnsealResponse_valid_def opt_ok_iff)

lemma UnsealResponse_reads:
  "UnsealResponse_valid x \<Longrightarrow> reads (UnsealResponse_initFromTpm UnsealResponse_default) x (UnsealResponse_enc x)"
  by (simp only: UnsealResponse_initFromTpm_def UnsealResponse_enc_def UnsealResponse_default_def
        UnsealResponse.select_convs UnsealResponse.update_convs;
      intro reads_intros; (rule UnsealResponse.equality)?; simp add: UnsealResponse_valid_def opt_ok_iff)

interpretation UnsealResponse_codec:
  tpm_codec UnsealResponse_toTpm UnsealResponse_initFromTpm UnsealResponse_default
    UnsealResponse_enc UnsealResponse_valid
  by unfold_locales (erule UnsealResponse_writes UnsealResponse_reads | simp add: UnsealResponse_enc_def)+

definition UnsealResponse_resp :: "(TPM_HANDLE, UnsealResponse) RespStructure" where
  "UnsealResponse_resp = \<lparr>resp_default = UnsealResponse_default, resp_initFromTpm = UnsealResponse_initFromTpm,
     resp_numHandles = 0, resp_getHandle = (\<lambda>_. TPM_HANDLE_default),
     resp_setHandle = (\<lambda>_ self. self), resp_sessEncInfo = \<lparr>sizeLen = 2, valLen = 1\<rparr>\<rparr>"

subsection \<open>TPM2_ObjectChangeAuth_REQUEST\<close>

text \<open>This command is used to change the authorization secret for a TPM-resident object.\<close>

record TPM2_ObjectChangeAuth_REQUEST =
  TPM2_ObjectChangeAuth_REQUEST_objectHandle :: "TPM_HANDLE"
  TPM2_ObjectChangeAuth_REQUEST_parentHandle :: "TPM_HANDLE"
  TPM2_ObjectChangeAuth_REQUEST_newAuth :: "ByteVec"

definition TPM2_ObjectChangeAuth_REQUEST_default :: TPM2_ObjectChangeAuth_REQUEST where
  "TPM2_ObjectChangeAuth_REQUEST_default = \<lparr>TPM2_ObjectChangeAuth_REQUEST_objectHandle = TPM_HANDLE_default, TPM2_ObjectChangeAuth_REQUEST_parentHandle = TPM_HANDLE_default, TPM2_ObjectChangeAuth_REQUEST_newAuth = []\<rparr>"

definition TPM2_ObjectChangeAuth_REQUEST_toTpm :: "TPM2_ObjectChangeAuth_REQUEST \<Rightarrow> unit tpm" where
  "TPM2_ObjectChangeAuth_REQUEST_toTpm self =
     wseq [writeSizedByteBuf (TPM2_ObjectChangeAuth_REQUEST_newAuth self) 2]"

definition TPM2_ObjectChangeAuth_REQUEST_initFromTpm :: "TPM2_ObjectChangeAuth_REQUEST \<Rightarrow> TPM2_ObjectChangeAuth_REQUEST tpm" where
  "TPM2_ObjectChangeAuth_REQUEST_initFromTpm self =
     sbind (readSizedByteBuf 2) (\<lambda>newAuth.
     ret (self\<lparr>TPM2_ObjectChangeAuth_REQUEST_newAuth := newAuth\<rparr>))"

definition TPM2_ObjectChangeAuth_REQUEST_enc :: "TPM2_ObjectChangeAuth_REQUEST \<Rightarrow> ByteVec" where
  "TPM2_ObjectChangeAuth_REQUEST_enc x =
     enc_sized 2 (TPM2_ObjectChangeAuth_REQUEST_newAuth x)"

definition TPM2_ObjectChangeAuth_REQUEST_valid :: "TPM2_ObjectChangeAuth_REQUEST \<Rightarrow> bool" where
  "TPM2_ObjectChangeAuth_REQUEST_valid x \<longleftrightarrow>
     sized_ok 2 (TPM2_ObjectChangeAuth_REQUEST_newAuth x) \<and>
     TPM2_ObjectChangeAuth_REQUEST_objectHandle x = TPM_HANDLE_default \<and>
     TPM2_ObjectChangeAuth_REQUEST_parentHandle x = TPM_HANDLE_default"

lemma TPM2_ObjectChangeAuth_REQUEST_writes [writes_intros]:
  "TPM2_ObjectChangeAuth_REQUEST_valid x \<Longrightarrow> writes (TPM2_ObjectChangeAuth_REQUEST_toTpm x) (TPM2_ObjectChangeAuth_REQUEST_enc x)"
  unfolding TPM2_ObjectChangeAuth_REQUEST_toTpm_def TPM2_ObjectChangeAuth_REQUEST_enc_def
  by (intro writes_intros; simp add: TPM2_ObjectChangeAuth_REQUEST_valid_def opt_ok_iff)

lemma TPM2_ObjectChangeAuth_REQUEST_reads:
  "TPM2_ObjectChangeAuth_REQUEST_valid x \<Longrightarrow> reads (TPM2_ObjectChangeAuth_REQUEST_initFromTpm TPM2_ObjectChangeAuth_REQUEST_default) x (TPM2_ObjectChangeAuth_REQUEST_enc x)"
  by (simp only: TPM2_ObjectChangeAuth_REQUEST_initFromTpm_def TPM2_ObjectChangeAuth_REQUEST_enc_def TPM2_ObjectChangeAuth_REQUEST_default_def
        TPM2_ObjectChangeAuth_REQUEST.select_convs TPM2_ObjectChangeAuth_REQUEST.update_convs;
      intro reads_intros; (rule TPM2_ObjectChangeAuth_REQUEST.equality)?; simp add: TPM2_ObjectChangeAuth_REQUEST_valid_def opt_ok_iff)

interpretation TPM2_ObjectChangeAuth_REQUEST_codec:
  tpm_codec TPM2_ObjectChangeAuth_REQUEST_toTpm TPM2_ObjectChangeAuth_REQUEST_initFromTpm TPM2_ObjectChangeAuth_REQUEST_default
    TPM2_ObjectChangeAuth_REQUEST_enc TPM2_ObjectChangeAuth_REQUEST_valid
  by unfold_locales (erule TPM2_ObjectChangeAuth_REQUEST_writes TPM2_ObjectChangeAuth_REQUEST_reads | simp add: TPM2_ObjectChangeAuth_REQUEST_enc_def)+

definition TPM2_ObjectChangeAuth_REQUEST_req :: "TPM2_ObjectChangeAuth_REQUEST \<Rightarrow> TPM_HANDLE ReqStructure" where
  "TPM2_ObjectChangeAuth_REQUEST_req self =
     \<lparr>req_toTpm = TPM2_ObjectChangeAuth_REQUEST_toTpm self, req_numHandles = 2,
     req_numAuthHandles = 1, req_getHandles = [TPM2_ObjectChangeAuth_REQUEST_objectHandle self, TPM2_ObjectChangeAuth_REQUEST_parentHandle self], req_sessEncInfo = \<lparr>sizeLen = 2, valLen = 1\<rparr>\<rparr>"

subsection \<open>ObjectChangeAuthResponse\<close>

text \<open>This command is used to change the authorization secret for a TPM-resident object.\<close>

record ObjectChangeAuthResponse =
  ObjectChangeAuthResponse_outPrivate :: "TPM2B_PRIVATE"

definition ObjectChangeAuthResponse_default :: ObjectChangeAuthResponse where
  "ObjectChangeAuthResponse_default = \<lparr>ObjectChangeAuthResponse_outPrivate = TPM2B_PRIVATE_default\<rparr>"

definition ObjectChangeAuthResponse_toTpm :: "ObjectChangeAuthResponse \<Rightarrow> unit tpm" where
  "ObjectChangeAuthResponse_toTpm self =
     wseq [TPM2B_PRIVATE_toTpm (ObjectChangeAuthResponse_outPrivate self)]"

definition ObjectChangeAuthResponse_initFromTpm :: "ObjectChangeAuthResponse \<Rightarrow> ObjectChangeAuthResponse tpm" where
  "ObjectChangeAuthResponse_initFromTpm self =
     sbind (TPM2B_PRIVATE_initFromTpm (ObjectChangeAuthResponse_outPrivate self)) (\<lambda>outPrivate.
     ret (self\<lparr>ObjectChangeAuthResponse_outPrivate := outPrivate\<rparr>))"

definition ObjectChangeAuthResponse_enc :: "ObjectChangeAuthResponse \<Rightarrow> ByteVec" where
  "ObjectChangeAuthResponse_enc x =
     TPM2B_PRIVATE_enc (ObjectChangeAuthResponse_outPrivate x)"

definition ObjectChangeAuthResponse_valid :: "ObjectChangeAuthResponse \<Rightarrow> bool" where
  "ObjectChangeAuthResponse_valid x \<longleftrightarrow>
     TPM2B_PRIVATE_valid (ObjectChangeAuthResponse_outPrivate x)"

lemma ObjectChangeAuthResponse_writes [writes_intros]:
  "ObjectChangeAuthResponse_valid x \<Longrightarrow> writes (ObjectChangeAuthResponse_toTpm x) (ObjectChangeAuthResponse_enc x)"
  unfolding ObjectChangeAuthResponse_toTpm_def ObjectChangeAuthResponse_enc_def
  by (intro writes_intros; simp add: ObjectChangeAuthResponse_valid_def opt_ok_iff)

lemma ObjectChangeAuthResponse_reads:
  "ObjectChangeAuthResponse_valid x \<Longrightarrow> reads (ObjectChangeAuthResponse_initFromTpm ObjectChangeAuthResponse_default) x (ObjectChangeAuthResponse_enc x)"
  by (simp only: ObjectChangeAuthResponse_initFromTpm_def ObjectChangeAuthResponse_enc_def ObjectChangeAuthResponse_default_def
        ObjectChangeAuthResponse.select_convs ObjectChangeAuthResponse.update_convs;
      intro reads_intros; (rule ObjectChangeAuthResponse.equality)?; simp add: ObjectChangeAuthResponse_valid_def opt_ok_iff)

interpretation ObjectChangeAuthResponse_codec:
  tpm_codec ObjectChangeAuthResponse_toTpm ObjectChangeAuthResponse_initFromTpm ObjectChangeAuthResponse_default
    ObjectChangeAuthResponse_enc ObjectChangeAuthResponse_valid
  by unfold_locales (erule ObjectChangeAuthResponse_writes ObjectChangeAuthResponse_reads | simp add: ObjectChangeAuthResponse_enc_def)+

definition ObjectChangeAuthResponse_resp :: "(TPM_HANDLE, ObjectChangeAuthResponse) RespStructure" where
  "ObjectChangeAuthResponse_resp = \<lparr>resp_default = ObjectChangeAuthResponse_default, resp_initFromTpm = ObjectChangeAuthResponse_initFromTpm,
     resp_numHandles = 0, resp_getHandle = (\<lambda>_. TPM_HANDLE_default),
     resp_setHandle = (\<lambda>_ self. self), resp_sessEncInfo = no_sessEncInfo\<rparr>"

subsection \<open>TPM2_CreateLoaded_REQUEST\<close>

text \<open>This command creates an object and loads it in the TPM. This command allows creation of any type of object (Primary, Ordinary, or Derived) depending ....\<close>

record TPM2_CreateLoaded_REQUEST =
  TPM2_CreateLoaded_REQUEST_parentHandle :: "TPM_HANDLE"
  TPM2_CreateLoaded_REQUEST_inSensitive :: "TPMS_SENSITIVE_CREATE"
  TPM2_CreateLoaded_REQUEST_inPublic :: "ByteVec"

definition TPM2_CreateLoaded_REQUEST_default :: TPM2_CreateLoaded_REQUEST where
  "TPM2_CreateLoaded_REQUEST_default = \<lparr>TPM2_CreateLoaded_REQUEST_parentHandle = TPM_HANDLE_default, TPM2_CreateLoaded_REQUEST_inSensitive = TPMS_SENSITIVE_CREATE_default, TPM2_CreateLoaded_REQUEST_inPublic = []\<rparr>"

definition TPM2_CreateLoaded_REQUEST_toTpm :: "TPM2_CreateLoaded_REQUEST \<Rightarrow> unit tpm" where
  "TPM2_CreateLoaded_REQUEST_toTpm self =
     wseq [writeSizedObj TPMS_SENSITIVE_CREATE_toTpm (TPM2_CreateLoaded_REQUEST_inSensitive self),
       writeSizedByteBuf (TPM2_CreateLoaded_REQUEST_inPublic self) 2]"

definition TPM2_CreateLoaded_REQUEST_initFromTpm :: "TPM2_CreateLoaded_REQUEST \<Rightarrow> TPM2_CreateLoaded_REQUEST tpm" where
  "TPM2_CreateLoaded_REQUEST_initFromTpm self =
     sbind (readSizedObj TPMS_SENSITIVE_CREATE_initFromTpm (TPM2_CreateLoaded_REQUEST_inSensitive self)) (\<lambda>inSensitive.
     sbind (readSizedByteBuf 2) (\<lambda>inPublic.
     ret (self\<lparr>TPM2_CreateLoaded_REQUEST_inSensitive := inSensitive, TPM2_CreateLoaded_REQUEST_inPublic := inPublic\<rparr>)))"

definition TPM2_CreateLoaded_REQUEST_enc :: "TPM2_CreateLoaded_REQUEST \<Rightarrow> ByteVec" where
  "TPM2_CreateLoaded_REQUEST_enc x =
     enc_obj (TPMS_SENSITIVE_CREATE_enc (TPM2_CreateLoaded_REQUEST_inSensitive x)) @
     enc_sized 2 (TPM2_CreateLoaded_REQUEST_inPublic x)"

definition TPM2_CreateLoaded_REQUEST_valid :: "TPM2_CreateLoaded_REQUEST \<Rightarrow> bool" where
  "TPM2_CreateLoaded_REQUEST_valid x \<longleftrightarrow>
     sized_obj_ok TPMS_SENSITIVE_CREATE_default TPMS_SENSITIVE_CREATE_enc TPMS_SENSITIVE_CREATE_valid (TPM2_CreateLoaded_REQUEST_inSensitive x) \<and>
     sized_ok 2 (TPM2_CreateLoaded_REQUEST_inPublic x) \<and>
     TPM2_CreateLoaded_REQUEST_parentHandle x = TPM_HANDLE_default"

lemma TPM2_CreateLoaded_REQUEST_writes [writes_intros]:
  "TPM2_CreateLoaded_REQUEST_valid x \<Longrightarrow> writes (TPM2_CreateLoaded_REQUEST_toTpm x) (TPM2_CreateLoaded_REQUEST_enc x)"
  unfolding TPM2_CreateLoaded_REQUEST_toTpm_def TPM2_CreateLoaded_REQUEST_enc_def
  by (intro writes_intros; simp add: TPM2_CreateLoaded_REQUEST_valid_def opt_ok_iff)

lemma TPM2_CreateLoaded_REQUEST_reads:
  "TPM2_CreateLoaded_REQUEST_valid x \<Longrightarrow> reads (TPM2_CreateLoaded_REQUEST_initFromTpm TPM2_CreateLoaded_REQUEST_default) x (TPM2_CreateLoaded_REQUEST_enc x)"
  by (simp only: TPM2_CreateLoaded_REQUEST_initFromTpm_def TPM2_CreateLoaded_REQUEST_enc_def TPM2_CreateLoaded_REQUEST_default_def
        TPM2_CreateLoaded_REQUEST.select_convs TPM2_CreateLoaded_REQUEST.update_convs;
      intro reads_intros; (rule TPM2_CreateLoaded_REQUEST.equality)?; simp add: TPM2_CreateLoaded_REQUEST_valid_def opt_ok_iff)

interpretation TPM2_CreateLoaded_REQUEST_codec:
  tpm_codec TPM2_CreateLoaded_REQUEST_toTpm TPM2_CreateLoaded_REQUEST_initFromTpm TPM2_CreateLoaded_REQUEST_default
    TPM2_CreateLoaded_REQUEST_enc TPM2_CreateLoaded_REQUEST_valid
  by unfold_locales (erule TPM2_CreateLoaded_REQUEST_writes TPM2_CreateLoaded_REQUEST_reads | simp add: TPM2_CreateLoaded_REQUEST_enc_def)+

definition TPM2_CreateLoaded_REQUEST_req :: "TPM2_CreateLoaded_REQUEST \<Rightarrow> TPM_HANDLE ReqStructure" where
  "TPM2_CreateLoaded_REQUEST_req self =
     \<lparr>req_toTpm = TPM2_CreateLoaded_REQUEST_toTpm self, req_numHandles = 1,
     req_numAuthHandles = 1, req_getHandles = [TPM2_CreateLoaded_REQUEST_parentHandle self], req_sessEncInfo = \<lparr>sizeLen = 2, valLen = 1\<rparr>\<rparr>"

subsection \<open>CreateLoadedResponse\<close>

text \<open>This command creates an object and loads it in the TPM. This command allows creation of any type of object (Primary, Ordinary, or Derived) depending ....\<close>

record CreateLoadedResponse =
  CreateLoadedResponse_handle :: "TPM_HANDLE"
  CreateLoadedResponse_outPrivate :: "TPM2B_PRIVATE"
  CreateLoadedResponse_outPublic :: "TPMT_PUBLIC"
  CreateLoadedResponse_name :: "ByteVec"

definition CreateLoadedResponse_default :: CreateLoadedResponse where
  "CreateLoadedResponse_default = \<lparr>CreateLoadedResponse_handle = TPM_HANDLE_default, CreateLoadedResponse_outPrivate = TPM2B_PRIVATE_default, CreateLoadedResponse_outPublic = TPMT_PUBLIC_default, CreateLoadedResponse_name = []\<rparr>"

definition CreateLoadedResponse_toTpm :: "CreateLoadedResponse \<Rightarrow> unit tpm" where
  "CreateLoadedResponse_toTpm self =
     wseq [TPM2B_PRIVATE_toTpm (CreateLoadedResponse_outPrivate self),
       writeSizedObj TPMT_PUBLIC_toTpm (CreateLoadedResponse_outPublic self),
       writeSizedByteBuf (CreateLoadedResponse_name self) 2]"

definition CreateLoadedResponse_initFromTpm :: "CreateLoadedResponse \<Rightarrow> CreateLoadedResponse tpm" where
  "CreateLoadedResponse_initFromTpm self =
     sbind (TPM2B_PRIVATE_initFromTpm (CreateLoadedResponse_outPrivate self)) (\<lambda>outPrivate.
     sbind (readSizedObj TPMT_PUBLIC_initFromTpm (CreateLoadedResponse_outPublic self)) (\<lambda>outPublic.
     sbind (readSizedByteBuf 2) (\<lambda>name.
     ret (self\<lparr>CreateLoadedResponse_outPrivate := outPrivate, CreateLoadedResponse_outPublic := outPublic, CreateLoadedResponse_name := name\<rparr>))))"

definition CreateLoadedResponse_enc :: "CreateLoadedResponse \<Rightarrow> ByteVec" where
  "CreateLoadedResponse_enc x =
     TPM2B_PRIVATE_enc (CreateLoadedResponse_outPrivate x) @
     enc_obj (TPMT_PUBLIC_enc (CreateLoadedResponse_outPublic x)) @
     enc_sized 2 (CreateLoadedResponse_name x)"

definition CreateLoadedResponse_valid :: "CreateLoadedResponse \<Rightarrow> bool" where
  "CreateLoadedResponse_valid x \<longleftrightarrow>
     TPM2B_PRIVATE_valid (CreateLoadedResponse_outPrivate x) \<and>
     sized_obj_ok TPMT_PUBLIC_default TPMT_PUBLIC_enc TPMT_PUBLIC_valid (CreateLoadedResponse_outPublic x) \<and>
     sized_ok 2 (CreateLoadedResponse_name x) \<and>
     CreateLoadedResponse_handle x = TPM_HANDLE_default"

lemma CreateLoadedResponse_writes [writes_intros]:
  "CreateLoadedResponse_valid x \<Longrightarrow> writes (CreateLoadedResponse_toTpm x) (CreateLoadedResponse_enc x)"
  unfolding CreateLoadedResponse_toTpm_def CreateLoadedResponse_enc_def
  by (intro writes_intros; simp add: CreateLoadedResponse_valid_def opt_ok_iff)

lemma CreateLoadedResponse_reads:
  "CreateLoadedResponse_valid x \<Longrightarrow> reads (CreateLoadedResponse_initFromTpm CreateLoadedResponse_default) x (CreateLoadedResponse_enc x)"
  by (simp only: CreateLoadedResponse_initFromTpm_def CreateLoadedResponse_enc_def CreateLoadedResponse_default_def
        CreateLoadedResponse.select_convs CreateLoadedResponse.update_convs;
      intro reads_intros; (rule CreateLoadedResponse.equality)?; simp add: CreateLoadedResponse_valid_def opt_ok_iff)

interpretation CreateLoadedResponse_codec:
  tpm_codec CreateLoadedResponse_toTpm CreateLoadedResponse_initFromTpm CreateLoadedResponse_default
    CreateLoadedResponse_enc CreateLoadedResponse_valid
  by unfold_locales (erule CreateLoadedResponse_writes CreateLoadedResponse_reads | simp add: CreateLoadedResponse_enc_def)+

definition CreateLoadedResponse_resp :: "(TPM_HANDLE, CreateLoadedResponse) RespStructure" where
  "CreateLoadedResponse_resp = \<lparr>resp_default = CreateLoadedResponse_default, resp_initFromTpm = CreateLoadedResponse_initFromTpm,
     resp_numHandles = 1, resp_getHandle = CreateLoadedResponse_handle,
     resp_setHandle = (\<lambda>h self. self\<lparr>CreateLoadedResponse_handle := h\<rparr>), resp_sessEncInfo = no_sessEncInfo\<rparr>"

subsection \<open>TPM2_Duplicate_REQUEST\<close>

text \<open>This command duplicates a loaded object so that it may be used in a different hierarchy.\<close>

record TPM2_Duplicate_REQUEST =
  TPM2_Duplicate_REQUEST_objectHandle :: "TPM_HANDLE"
  TPM2_Duplicate_REQUEST_newParentHandle :: "TPM_HANDLE"
  TPM2_Duplicate_REQUEST_encryptionKeyIn :: "ByteVec"
  TPM2_Duplicate_REQUEST_symmetricAlg :: "TPMT_SYM_DEF_OBJECT"

definition TPM2_Duplicate_REQUEST_default :: TPM2_Duplicate_REQUEST where
  "TPM2_Duplicate_REQUEST_default = \<lparr>TPM2_Duplicate_REQUEST_objectHandle = TPM_HANDLE_default, TPM2_Duplicate_REQUEST_newParentHandle = TPM_HANDLE_default, TPM2_Duplicate_REQUEST_encryptionKeyIn = [], TPM2_Duplicate_REQUEST_symmetricAlg = TPMT_SYM_DEF_OBJECT_default\<rparr>"

definition TPM2_Duplicate_REQUEST_toTpm :: "TPM2_Duplicate_REQUEST \<Rightarrow> unit tpm" where
  "TPM2_Duplicate_REQUEST_toTpm self =
     wseq [writeSizedByteBuf (TPM2_Duplicate_REQUEST_encryptionKeyIn self) 2,
       TPMT_SYM_DEF_OBJECT_toTpm (TPM2_Duplicate_REQUEST_symmetricAlg self)]"

definition TPM2_Duplicate_REQUEST_initFromTpm :: "TPM2_Duplicate_REQUEST \<Rightarrow> TPM2_Duplicate_REQUEST tpm" where
  "TPM2_Duplicate_REQUEST_initFromTpm self =
     sbind (readSizedByteBuf 2) (\<lambda>encryptionKeyIn.
     sbind (TPMT_SYM_DEF_OBJECT_initFromTpm (TPM2_Duplicate_REQUEST_symmetricAlg self)) (\<lambda>symmetricAlg.
     ret (self\<lparr>TPM2_Duplicate_REQUEST_encryptionKeyIn := encryptionKeyIn, TPM2_Duplicate_REQUEST_symmetricAlg := symmetricAlg\<rparr>)))"

definition TPM2_Duplicate_REQUEST_enc :: "TPM2_Duplicate_REQUEST \<Rightarrow> ByteVec" where
  "TPM2_Duplicate_REQUEST_enc x =
     enc_sized 2 (TPM2_Duplicate_REQUEST_encryptionKeyIn x) @
     TPMT_SYM_DEF_OBJECT_enc (TPM2_Duplicate_REQUEST_symmetricAlg x)"

definition TPM2_Duplicate_REQUEST_valid :: "TPM2_Duplicate_REQUEST \<Rightarrow> bool" where
  "TPM2_Duplicate_REQUEST_valid x \<longleftrightarrow>
     sized_ok 2 (TPM2_Duplicate_REQUEST_encryptionKeyIn x) \<and>
     TPMT_SYM_DEF_OBJECT_valid (TPM2_Duplicate_REQUEST_symmetricAlg x) \<and>
     TPM2_Duplicate_REQUEST_objectHandle x = TPM_HANDLE_default \<and>
     TPM2_Duplicate_REQUEST_newParentHandle x = TPM_HANDLE_default"

lemma TPM2_Duplicate_REQUEST_writes [writes_intros]:
  "TPM2_Duplicate_REQUEST_valid x \<Longrightarrow> writes (TPM2_Duplicate_REQUEST_toTpm x) (TPM2_Duplicate_REQUEST_enc x)"
  unfolding TPM2_Duplicate_REQUEST_toTpm_def TPM2_Duplicate_REQUEST_enc_def
  by (intro writes_intros; simp add: TPM2_Duplicate_REQUEST_valid_def opt_ok_iff)

lemma TPM2_Duplicate_REQUEST_reads:
  "TPM2_Duplicate_REQUEST_valid x \<Longrightarrow> reads (TPM2_Duplicate_REQUEST_initFromTpm TPM2_Duplicate_REQUEST_default) x (TPM2_Duplicate_REQUEST_enc x)"
  by (simp only: TPM2_Duplicate_REQUEST_initFromTpm_def TPM2_Duplicate_REQUEST_enc_def TPM2_Duplicate_REQUEST_default_def
        TPM2_Duplicate_REQUEST.select_convs TPM2_Duplicate_REQUEST.update_convs;
      intro reads_intros; (rule TPM2_Duplicate_REQUEST.equality)?; simp add: TPM2_Duplicate_REQUEST_valid_def opt_ok_iff)

interpretation TPM2_Duplicate_REQUEST_codec:
  tpm_codec TPM2_Duplicate_REQUEST_toTpm TPM2_Duplicate_REQUEST_initFromTpm TPM2_Duplicate_REQUEST_default
    TPM2_Duplicate_REQUEST_enc TPM2_Duplicate_REQUEST_valid
  by unfold_locales (erule TPM2_Duplicate_REQUEST_writes TPM2_Duplicate_REQUEST_reads | simp add: TPM2_Duplicate_REQUEST_enc_def)+

definition TPM2_Duplicate_REQUEST_req :: "TPM2_Duplicate_REQUEST \<Rightarrow> TPM_HANDLE ReqStructure" where
  "TPM2_Duplicate_REQUEST_req self =
     \<lparr>req_toTpm = TPM2_Duplicate_REQUEST_toTpm self, req_numHandles = 2,
     req_numAuthHandles = 1, req_getHandles = [TPM2_Duplicate_REQUEST_objectHandle self, TPM2_Duplicate_REQUEST_newParentHandle self], req_sessEncInfo = \<lparr>sizeLen = 2, valLen = 1\<rparr>\<rparr>"

subsection \<open>DuplicateResponse\<close>

text \<open>This command duplicates a loaded object so that it may be used in a different hierarchy.\<close>

record DuplicateResponse =
  DuplicateResponse_encryptionKeyOut :: "ByteVec"
  DuplicateResponse_duplicate :: "TPM2B_PRIVATE"
  DuplicateResponse_outSymSeed :: "ByteVec"

definition DuplicateResponse_default :: DuplicateResponse where
  "DuplicateResponse_default = \<lparr>DuplicateResponse_encryptionKeyOut = [], DuplicateResponse_duplicate = TPM2B_PRIVATE_default, DuplicateResponse_outSymSeed = []\<rparr>"

definition DuplicateResponse_toTpm :: "DuplicateResponse \<Rightarrow> unit tpm" where
  "DuplicateResponse_toTpm self =
     wseq [writeSizedByteBuf (DuplicateResponse_encryptionKeyOut self) 2,
       TPM2B_PRIVATE_toTpm (DuplicateResponse_duplicate self),
       writeSizedByteBuf (DuplicateResponse_outSymSeed self) 2]"

definition DuplicateResponse_initFromTpm :: "DuplicateResponse \<Rightarrow> DuplicateResponse tpm" where
  "DuplicateResponse_initFromTpm self =
     sbind (readSizedByteBuf 2) (\<lambda>encryptionKeyOut.
     sbind (TPM2B_PRIVATE_initFromTpm (DuplicateResponse_duplicate self)) (\<lambda>duplicate.
     sbind (readSizedByteBuf 2) (\<lambda>outSymSeed.
     ret (self\<lparr>DuplicateResponse_encryptionKeyOut := encryptionKeyOut, DuplicateResponse_duplicate := duplicate, DuplicateResponse_outSymSeed := outSymSeed\<rparr>))))"

definition DuplicateResponse_enc :: "DuplicateResponse \<Rightarrow> ByteVec" where
  "DuplicateResponse_enc x =
     enc_sized 2 (DuplicateResponse_encryptionKeyOut x) @
     TPM2B_PRIVATE_enc (DuplicateResponse_duplicate x) @
     enc_sized 2 (DuplicateResponse_outSymSeed x)"

definition DuplicateResponse_valid :: "DuplicateResponse \<Rightarrow> bool" where
  "DuplicateResponse_valid x \<longleftrightarrow>
     sized_ok 2 (DuplicateResponse_encryptionKeyOut x) \<and>
     TPM2B_PRIVATE_valid (DuplicateResponse_duplicate x) \<and>
     sized_ok 2 (DuplicateResponse_outSymSeed x)"

lemma DuplicateResponse_writes [writes_intros]:
  "DuplicateResponse_valid x \<Longrightarrow> writes (DuplicateResponse_toTpm x) (DuplicateResponse_enc x)"
  unfolding DuplicateResponse_toTpm_def DuplicateResponse_enc_def
  by (intro writes_intros; simp add: DuplicateResponse_valid_def opt_ok_iff)

lemma DuplicateResponse_reads:
  "DuplicateResponse_valid x \<Longrightarrow> reads (DuplicateResponse_initFromTpm DuplicateResponse_default) x (DuplicateResponse_enc x)"
  by (simp only: DuplicateResponse_initFromTpm_def DuplicateResponse_enc_def DuplicateResponse_default_def
        DuplicateResponse.select_convs DuplicateResponse.update_convs;
      intro reads_intros; (rule DuplicateResponse.equality)?; simp add: DuplicateResponse_valid_def opt_ok_iff)

interpretation DuplicateResponse_codec:
  tpm_codec DuplicateResponse_toTpm DuplicateResponse_initFromTpm DuplicateResponse_default
    DuplicateResponse_enc DuplicateResponse_valid
  by unfold_locales (erule DuplicateResponse_writes DuplicateResponse_reads | simp add: DuplicateResponse_enc_def)+

definition DuplicateResponse_resp :: "(TPM_HANDLE, DuplicateResponse) RespStructure" where
  "DuplicateResponse_resp = \<lparr>resp_default = DuplicateResponse_default, resp_initFromTpm = DuplicateResponse_initFromTpm,
     resp_numHandles = 0, resp_getHandle = (\<lambda>_. TPM_HANDLE_default),
     resp_setHandle = (\<lambda>_ self. self), resp_sessEncInfo = \<lparr>sizeLen = 2, valLen = 1\<rparr>\<rparr>"

subsection \<open>TPM2_Rewrap_REQUEST\<close>

text \<open>This command allows the TPM to serve in the role as a Duplication Authority.\<close>

record TPM2_Rewrap_REQUEST =
  TPM2_Rewrap_REQUEST_oldParent :: "TPM_HANDLE"
  TPM2_Rewrap_REQUEST_newParent :: "TPM_HANDLE"
  TPM2_Rewrap_REQUEST_inDuplicate :: "TPM2B_PRIVATE"
  TPM2_Rewrap_REQUEST_name :: "ByteVec"
  TPM2_Rewrap_REQUEST_inSymSeed :: "ByteVec"

definition TPM2_Rewrap_REQUEST_default :: TPM2_Rewrap_REQUEST where
  "TPM2_Rewrap_REQUEST_default = \<lparr>TPM2_Rewrap_REQUEST_oldParent = TPM_HANDLE_default, TPM2_Rewrap_REQUEST_newParent = TPM_HANDLE_default, TPM2_Rewrap_REQUEST_inDuplicate = TPM2B_PRIVATE_default, TPM2_Rewrap_REQUEST_name = [], TPM2_Rewrap_REQUEST_inSymSeed = []\<rparr>"

definition TPM2_Rewrap_REQUEST_toTpm :: "TPM2_Rewrap_REQUEST \<Rightarrow> unit tpm" where
  "TPM2_Rewrap_REQUEST_toTpm self =
     wseq [TPM2B_PRIVATE_toTpm (TPM2_Rewrap_REQUEST_inDuplicate self),
       writeSizedByteBuf (TPM2_Rewrap_REQUEST_name self) 2,
       writeSizedByteBuf (TPM2_Rewrap_REQUEST_inSymSeed self) 2]"

definition TPM2_Rewrap_REQUEST_initFromTpm :: "TPM2_Rewrap_REQUEST \<Rightarrow> TPM2_Rewrap_REQUEST tpm" where
  "TPM2_Rewrap_REQUEST_initFromTpm self =
     sbind (TPM2B_PRIVATE_initFromTpm (TPM2_Rewrap_REQUEST_inDuplicate self)) (\<lambda>inDuplicate.
     sbind (readSizedByteBuf 2) (\<lambda>name.
     sbind (readSizedByteBuf 2) (\<lambda>inSymSeed.
     ret (self\<lparr>TPM2_Rewrap_REQUEST_inDuplicate := inDuplicate, TPM2_Rewrap_REQUEST_name := name, TPM2_Rewrap_REQUEST_inSymSeed := inSymSeed\<rparr>))))"

definition TPM2_Rewrap_REQUEST_enc :: "TPM2_Rewrap_REQUEST \<Rightarrow> ByteVec" where
  "TPM2_Rewrap_REQUEST_enc x =
     TPM2B_PRIVATE_enc (TPM2_Rewrap_REQUEST_inDuplicate x) @
     enc_sized 2 (TPM2_Rewrap_REQUEST_name x) @
     enc_sized 2 (TPM2_Rewrap_REQUEST_inSymSeed x)"

definition TPM2_Rewrap_REQUEST_valid :: "TPM2_Rewrap_REQUEST \<Rightarrow> bool" where
  "TPM2_Rewrap_REQUEST_valid x \<longleftrightarrow>
     TPM2B_PRIVATE_valid (TPM2_Rewrap_REQUEST_inDuplicate x) \<and>
     sized_ok 2 (TPM2_Rewrap_REQUEST_name x) \<and>
     sized_ok 2 (TPM2_Rewrap_REQUEST_inSymSeed x) \<and>
     TPM2_Rewrap_REQUEST_oldParent x = TPM_HANDLE_default \<and>
     TPM2_Rewrap_REQUEST_newParent x = TPM_HANDLE_default"

lemma TPM2_Rewrap_REQUEST_writes [writes_intros]:
  "TPM2_Rewrap_REQUEST_valid x \<Longrightarrow> writes (TPM2_Rewrap_REQUEST_toTpm x) (TPM2_Rewrap_REQUEST_enc x)"
  unfolding TPM2_Rewrap_REQUEST_toTpm_def TPM2_Rewrap_REQUEST_enc_def
  by (intro writes_intros; simp add: TPM2_Rewrap_REQUEST_valid_def opt_ok_iff)

lemma TPM2_Rewrap_REQUEST_reads:
  "TPM2_Rewrap_REQUEST_valid x \<Longrightarrow> reads (TPM2_Rewrap_REQUEST_initFromTpm TPM2_Rewrap_REQUEST_default) x (TPM2_Rewrap_REQUEST_enc x)"
  by (simp only: TPM2_Rewrap_REQUEST_initFromTpm_def TPM2_Rewrap_REQUEST_enc_def TPM2_Rewrap_REQUEST_default_def
        TPM2_Rewrap_REQUEST.select_convs TPM2_Rewrap_REQUEST.update_convs;
      intro reads_intros; (rule TPM2_Rewrap_REQUEST.equality)?; simp add: TPM2_Rewrap_REQUEST_valid_def opt_ok_iff)

interpretation TPM2_Rewrap_REQUEST_codec:
  tpm_codec TPM2_Rewrap_REQUEST_toTpm TPM2_Rewrap_REQUEST_initFromTpm TPM2_Rewrap_REQUEST_default
    TPM2_Rewrap_REQUEST_enc TPM2_Rewrap_REQUEST_valid
  by unfold_locales (erule TPM2_Rewrap_REQUEST_writes TPM2_Rewrap_REQUEST_reads | simp add: TPM2_Rewrap_REQUEST_enc_def)+

definition TPM2_Rewrap_REQUEST_req :: "TPM2_Rewrap_REQUEST \<Rightarrow> TPM_HANDLE ReqStructure" where
  "TPM2_Rewrap_REQUEST_req self =
     \<lparr>req_toTpm = TPM2_Rewrap_REQUEST_toTpm self, req_numHandles = 2,
     req_numAuthHandles = 1, req_getHandles = [TPM2_Rewrap_REQUEST_oldParent self, TPM2_Rewrap_REQUEST_newParent self], req_sessEncInfo = no_sessEncInfo\<rparr>"

subsection \<open>RewrapResponse\<close>

text \<open>This command allows the TPM to serve in the role as a Duplication Authority.\<close>

record RewrapResponse =
  RewrapResponse_outDuplicate :: "TPM2B_PRIVATE"
  RewrapResponse_outSymSeed :: "ByteVec"

definition RewrapResponse_default :: RewrapResponse where
  "RewrapResponse_default = \<lparr>RewrapResponse_outDuplicate = TPM2B_PRIVATE_default, RewrapResponse_outSymSeed = []\<rparr>"

definition RewrapResponse_toTpm :: "RewrapResponse \<Rightarrow> unit tpm" where
  "RewrapResponse_toTpm self =
     wseq [TPM2B_PRIVATE_toTpm (RewrapResponse_outDuplicate self),
       writeSizedByteBuf (RewrapResponse_outSymSeed self) 2]"

definition RewrapResponse_initFromTpm :: "RewrapResponse \<Rightarrow> RewrapResponse tpm" where
  "RewrapResponse_initFromTpm self =
     sbind (TPM2B_PRIVATE_initFromTpm (RewrapResponse_outDuplicate self)) (\<lambda>outDuplicate.
     sbind (readSizedByteBuf 2) (\<lambda>outSymSeed.
     ret (self\<lparr>RewrapResponse_outDuplicate := outDuplicate, RewrapResponse_outSymSeed := outSymSeed\<rparr>)))"

definition RewrapResponse_enc :: "RewrapResponse \<Rightarrow> ByteVec" where
  "RewrapResponse_enc x =
     TPM2B_PRIVATE_enc (RewrapResponse_outDuplicate x) @
     enc_sized 2 (RewrapResponse_outSymSeed x)"

definition RewrapResponse_valid :: "RewrapResponse \<Rightarrow> bool" where
  "RewrapResponse_valid x \<longleftrightarrow>
     TPM2B_PRIVATE_valid (RewrapResponse_outDuplicate x) \<and>
     sized_ok 2 (RewrapResponse_outSymSeed x)"

lemma RewrapResponse_writes [writes_intros]:
  "RewrapResponse_valid x \<Longrightarrow> writes (RewrapResponse_toTpm x) (RewrapResponse_enc x)"
  unfolding RewrapResponse_toTpm_def RewrapResponse_enc_def
  by (intro writes_intros; simp add: RewrapResponse_valid_def opt_ok_iff)

lemma RewrapResponse_reads:
  "RewrapResponse_valid x \<Longrightarrow> reads (RewrapResponse_initFromTpm RewrapResponse_default) x (RewrapResponse_enc x)"
  by (simp only: RewrapResponse_initFromTpm_def RewrapResponse_enc_def RewrapResponse_default_def
        RewrapResponse.select_convs RewrapResponse.update_convs;
      intro reads_intros; (rule RewrapResponse.equality)?; simp add: RewrapResponse_valid_def opt_ok_iff)

interpretation RewrapResponse_codec:
  tpm_codec RewrapResponse_toTpm RewrapResponse_initFromTpm RewrapResponse_default
    RewrapResponse_enc RewrapResponse_valid
  by unfold_locales (erule RewrapResponse_writes RewrapResponse_reads | simp add: RewrapResponse_enc_def)+

definition RewrapResponse_resp :: "(TPM_HANDLE, RewrapResponse) RespStructure" where
  "RewrapResponse_resp = \<lparr>resp_default = RewrapResponse_default, resp_initFromTpm = RewrapResponse_initFromTpm,
     resp_numHandles = 0, resp_getHandle = (\<lambda>_. TPM_HANDLE_default),
     resp_setHandle = (\<lambda>_ self. self), resp_sessEncInfo = no_sessEncInfo\<rparr>"

subsection \<open>TPM2_Import_REQUEST\<close>

text \<open>This command allows an object to be encrypted using the symmetric encryption values of a Storage Key.\<close>

record TPM2_Import_REQUEST =
  TPM2_Import_REQUEST_parentHandle :: "TPM_HANDLE"
  TPM2_Import_REQUEST_encryptionKey :: "ByteVec"
  TPM2_Import_REQUEST_objectPublic :: "TPMT_PUBLIC"
  TPM2_Import_REQUEST_duplicate :: "TPM2B_PRIVATE"
  TPM2_Import_REQUEST_inSymSeed :: "ByteVec"
  TPM2_Import_REQUEST_symmetricAlg :: "TPMT_SYM_DEF_OBJECT"

definition TPM2_Import_REQUEST_default :: TPM2_Import_REQUEST where
  "TPM2_Import_REQUEST_default = \<lparr>TPM2_Import_REQUEST_parentHandle = TPM_HANDLE_default, TPM2_Import_REQUEST_encryptionKey = [], TPM2_Import_REQUEST_objectPublic = TPMT_PUBLIC_default, TPM2_Import_REQUEST_duplicate = TPM2B_PRIVATE_default, TPM2_Import_REQUEST_inSymSeed = [], TPM2_Import_REQUEST_symmetricAlg = TPMT_SYM_DEF_OBJECT_default\<rparr>"

definition TPM2_Import_REQUEST_toTpm :: "TPM2_Import_REQUEST \<Rightarrow> unit tpm" where
  "TPM2_Import_REQUEST_toTpm self =
     wseq [writeSizedByteBuf (TPM2_Import_REQUEST_encryptionKey self) 2,
       writeSizedObj TPMT_PUBLIC_toTpm (TPM2_Import_REQUEST_objectPublic self),
       TPM2B_PRIVATE_toTpm (TPM2_Import_REQUEST_duplicate self),
       writeSizedByteBuf (TPM2_Import_REQUEST_inSymSeed self) 2,
       TPMT_SYM_DEF_OBJECT_toTpm (TPM2_Import_REQUEST_symmetricAlg self)]"

definition TPM2_Import_REQUEST_initFromTpm :: "TPM2_Import_REQUEST \<Rightarrow> TPM2_Import_REQUEST tpm" where
  "TPM2_Import_REQUEST_initFromTpm self =
     sbind (readSizedByteBuf 2) (\<lambda>encryptionKey.
     sbind (readSizedObj TPMT_PUBLIC_initFromTpm (TPM2_Import_REQUEST_objectPublic self)) (\<lambda>objectPublic.
     sbind (TPM2B_PRIVATE_initFromTpm (TPM2_Import_REQUEST_duplicate self)) (\<lambda>duplicate.
     sbind (readSizedByteBuf 2) (\<lambda>inSymSeed.
     sbind (TPMT_SYM_DEF_OBJECT_initFromTpm (TPM2_Import_REQUEST_symmetricAlg self)) (\<lambda>symmetricAlg.
     ret (self\<lparr>TPM2_Import_REQUEST_encryptionKey := encryptionKey, TPM2_Import_REQUEST_objectPublic := objectPublic, TPM2_Import_REQUEST_duplicate := duplicate, TPM2_Import_REQUEST_inSymSeed := inSymSeed, TPM2_Import_REQUEST_symmetricAlg := symmetricAlg\<rparr>))))))"

definition TPM2_Import_REQUEST_enc :: "TPM2_Import_REQUEST \<Rightarrow> ByteVec" where
  "TPM2_Import_REQUEST_enc x =
     enc_sized 2 (TPM2_Import_REQUEST_encryptionKey x) @
     enc_obj (TPMT_PUBLIC_enc (TPM2_Import_REQUEST_objectPublic x)) @
     TPM2B_PRIVATE_enc (TPM2_Import_REQUEST_duplicate x) @
     enc_sized 2 (TPM2_Import_REQUEST_inSymSeed x) @
     TPMT_SYM_DEF_OBJECT_enc (TPM2_Import_REQUEST_symmetricAlg x)"

definition TPM2_Import_REQUEST_valid :: "TPM2_Import_REQUEST \<Rightarrow> bool" where
  "TPM2_Import_REQUEST_valid x \<longleftrightarrow>
     sized_ok 2 (TPM2_Import_REQUEST_encryptionKey x) \<and>
     sized_obj_ok TPMT_PUBLIC_default TPMT_PUBLIC_enc TPMT_PUBLIC_valid (TPM2_Import_REQUEST_objectPublic x) \<and>
     TPM2B_PRIVATE_valid (TPM2_Import_REQUEST_duplicate x) \<and>
     sized_ok 2 (TPM2_Import_REQUEST_inSymSeed x) \<and>
     TPMT_SYM_DEF_OBJECT_valid (TPM2_Import_REQUEST_symmetricAlg x) \<and>
     TPM2_Import_REQUEST_parentHandle x = TPM_HANDLE_default"

lemma TPM2_Import_REQUEST_writes [writes_intros]:
  "TPM2_Import_REQUEST_valid x \<Longrightarrow> writes (TPM2_Import_REQUEST_toTpm x) (TPM2_Import_REQUEST_enc x)"
  unfolding TPM2_Import_REQUEST_toTpm_def TPM2_Import_REQUEST_enc_def
  by (intro writes_intros; simp add: TPM2_Import_REQUEST_valid_def opt_ok_iff)

lemma TPM2_Import_REQUEST_reads:
  "TPM2_Import_REQUEST_valid x \<Longrightarrow> reads (TPM2_Import_REQUEST_initFromTpm TPM2_Import_REQUEST_default) x (TPM2_Import_REQUEST_enc x)"
  by (simp only: TPM2_Import_REQUEST_initFromTpm_def TPM2_Import_REQUEST_enc_def TPM2_Import_REQUEST_default_def
        TPM2_Import_REQUEST.select_convs TPM2_Import_REQUEST.update_convs;
      intro reads_intros; (rule TPM2_Import_REQUEST.equality)?; simp add: TPM2_Import_REQUEST_valid_def opt_ok_iff)

interpretation TPM2_Import_REQUEST_codec:
  tpm_codec TPM2_Import_REQUEST_toTpm TPM2_Import_REQUEST_initFromTpm TPM2_Import_REQUEST_default
    TPM2_Import_REQUEST_enc TPM2_Import_REQUEST_valid
  by unfold_locales (erule TPM2_Import_REQUEST_writes TPM2_Import_REQUEST_reads | simp add: TPM2_Import_REQUEST_enc_def)+

definition TPM2_Import_REQUEST_req :: "TPM2_Import_REQUEST \<Rightarrow> TPM_HANDLE ReqStructure" where
  "TPM2_Import_REQUEST_req self =
     \<lparr>req_toTpm = TPM2_Import_REQUEST_toTpm self, req_numHandles = 1,
     req_numAuthHandles = 1, req_getHandles = [TPM2_Import_REQUEST_parentHandle self], req_sessEncInfo = \<lparr>sizeLen = 2, valLen = 1\<rparr>\<rparr>"

subsection \<open>ImportResponse\<close>

text \<open>This command allows an object to be encrypted using the symmetric encryption values of a Storage Key.\<close>

record ImportResponse =
  ImportResponse_outPrivate :: "TPM2B_PRIVATE"

definition ImportResponse_default :: ImportResponse where
  "ImportResponse_default = \<lparr>ImportResponse_outPrivate = TPM2B_PRIVATE_default\<rparr>"

definition ImportResponse_toTpm :: "ImportResponse \<Rightarrow> unit tpm" where
  "ImportResponse_toTpm self =
     wseq [TPM2B_PRIVATE_toTpm (ImportResponse_outPrivate self)]"

definition ImportResponse_initFromTpm :: "ImportResponse \<Rightarrow> ImportResponse tpm" where
  "ImportResponse_initFromTpm self =
     sbind (TPM2B_PRIVATE_initFromTpm (ImportResponse_outPrivate self)) (\<lambda>outPrivate.
     ret (self\<lparr>ImportResponse_outPrivate := outPrivate\<rparr>))"

definition ImportResponse_enc :: "ImportResponse \<Rightarrow> ByteVec" where
  "ImportResponse_enc x =
     TPM2B_PRIVATE_enc (ImportResponse_outPrivate x)"

definition ImportResponse_valid :: "ImportResponse \<Rightarrow> bool" where
  "ImportResponse_valid x \<longleftrightarrow>
     TPM2B_PRIVATE_valid (ImportResponse_outPrivate x)"

lemma ImportResponse_writes [writes_intros]:
  "ImportResponse_valid x \<Longrightarrow> writes (ImportResponse_toTpm x) (ImportResponse_enc x)"
  unfolding ImportResponse_toTpm_def ImportResponse_enc_def
  by (intro writes_intros; simp add: ImportResponse_valid_def opt_ok_iff)

lemma ImportResponse_reads:
  "ImportResponse_valid x \<Longrightarrow> reads (ImportResponse_initFromTpm ImportResponse_default) x (ImportResponse_enc x)"
  by (simp only: ImportResponse_initFromTpm_def ImportResponse_enc_def ImportResponse_default_def
        ImportResponse.select_convs ImportResponse.update_convs;
      intro reads_intros; (rule ImportResponse.equality)?; simp add: ImportResponse_valid_def opt_ok_iff)

interpretation ImportResponse_codec:
  tpm_codec ImportResponse_toTpm ImportResponse_initFromTpm ImportResponse_default
    ImportResponse_enc ImportResponse_valid
  by unfold_locales (erule ImportResponse_writes ImportResponse_reads | simp add: ImportResponse_enc_def)+

definition ImportResponse_resp :: "(TPM_HANDLE, ImportResponse) RespStructure" where
  "ImportResponse_resp = \<lparr>resp_default = ImportResponse_default, resp_initFromTpm = ImportResponse_initFromTpm,
     resp_numHandles = 0, resp_getHandle = (\<lambda>_. TPM_HANDLE_default),
     resp_setHandle = (\<lambda>_ self. self), resp_sessEncInfo = no_sessEncInfo\<rparr>"

end
