(* ===== verification/TpmCryptoCommands.thy ===== *)
theory TpmCryptoCommands
  imports TpmNvTypes
begin

text \<open>
  \<^verbatim>\<open>TSS.CPP/include/TpmTypes.h\<close> and \<^verbatim>\<open>TSS.CPP/Src/TpmTypes.cpp\<close>: the parameter
  structures of commands and responses, asymmetric and symmetric primitives, random numbers and hash sequences.

  As for the other structures, each class has its record, default, \<open>toTpm\<close>, \<open>initFromTpm\<close>, wire
  format and codec; the handles are members that are not marshaled, so the values the format can
  carry have null handles. \<open>X_req\<close> and \<open>X_resp\<close> collect what the dispatcher sees.
\<close>

subsection \<open>TPM2_RSA_Encrypt_REQUEST\<close>

text \<open>This command performs RSA encryption using the indicated padding scheme according to IETF RFC 8017. If the scheme of keyHandle is TPM_ALG_NULL, then ....\<close>

record TPM2_RSA_Encrypt_REQUEST =
  TPM2_RSA_Encrypt_REQUEST_keyHandle :: "TPM_HANDLE"
  TPM2_RSA_Encrypt_REQUEST_message :: "ByteVec"
  TPM2_RSA_Encrypt_REQUEST_inScheme :: "TPMU_ASYM_SCHEME option"
  TPM2_RSA_Encrypt_REQUEST_label :: "ByteVec"

definition TPM2_RSA_Encrypt_REQUEST_default :: TPM2_RSA_Encrypt_REQUEST where
  "TPM2_RSA_Encrypt_REQUEST_default = \<lparr>TPM2_RSA_Encrypt_REQUEST_keyHandle = TPM_HANDLE_default, TPM2_RSA_Encrypt_REQUEST_message = [], TPM2_RSA_Encrypt_REQUEST_inScheme = None, TPM2_RSA_Encrypt_REQUEST_label = []\<rparr>"

definition TPM2_RSA_Encrypt_REQUEST_toTpm :: "TPM2_RSA_Encrypt_REQUEST \<Rightarrow> unit tpm" where
  "TPM2_RSA_Encrypt_REQUEST_toTpm self =
     wseq [writeSizedByteBuf (TPM2_RSA_Encrypt_REQUEST_message self) 2,
       deref (TPM2_RSA_Encrypt_REQUEST_inScheme self) (\<lambda>u. writeShort (TPMU_ASYM_SCHEME_GetUnionSelector u)),
       deref (TPM2_RSA_Encrypt_REQUEST_inScheme self) TPMU_ASYM_SCHEME_toTpm,
       writeSizedByteBuf (TPM2_RSA_Encrypt_REQUEST_label self) 2]"

definition TPM2_RSA_Encrypt_REQUEST_initFromTpm :: "TPM2_RSA_Encrypt_REQUEST \<Rightarrow> TPM2_RSA_Encrypt_REQUEST tpm" where
  "TPM2_RSA_Encrypt_REQUEST_initFromTpm self =
     sbind (readSizedByteBuf 2) (\<lambda>message.
     sbind readShort (\<lambda>inSchemeScheme.
     bindO (UnionFactory_Create_TPMU_ASYM_SCHEME inSchemeScheme) (\<lambda>inScheme.
     sbind (deref inScheme TPMU_ASYM_SCHEME_initFromTpm) (\<lambda>inScheme.
     sbind (readSizedByteBuf 2) (\<lambda>label.
     ret (self\<lparr>TPM2_RSA_Encrypt_REQUEST_message := message, TPM2_RSA_Encrypt_REQUEST_inScheme := Some inScheme, TPM2_RSA_Encrypt_REQUEST_label := label\<rparr>))))))"

definition TPM2_RSA_Encrypt_REQUEST_enc :: "TPM2_RSA_Encrypt_REQUEST \<Rightarrow> ByteVec" where
  "TPM2_RSA_Encrypt_REQUEST_enc x =
     enc_sized 2 (TPM2_RSA_Encrypt_REQUEST_message x) @
     opt_enc (\<lambda>u. enc16 (TPMU_ASYM_SCHEME_GetUnionSelector u)) (TPM2_RSA_Encrypt_REQUEST_inScheme x) @
     opt_enc TPMU_ASYM_SCHEME_enc (TPM2_RSA_Encrypt_REQUEST_inScheme x) @
     enc_sized 2 (TPM2_RSA_Encrypt_REQUEST_label x)"

definition TPM2_RSA_Encrypt_REQUEST_valid :: "TPM2_RSA_Encrypt_REQUEST \<Rightarrow> bool" where
  "TPM2_RSA_Encrypt_REQUEST_valid x \<longleftrightarrow>
     sized_ok 2 (TPM2_RSA_Encrypt_REQUEST_message x) \<and>
     opt_ok TPMU_ASYM_SCHEME_valid (TPM2_RSA_Encrypt_REQUEST_inScheme x) \<and>
     sized_ok 2 (TPM2_RSA_Encrypt_REQUEST_label x) \<and>
     TPM2_RSA_Encrypt_REQUEST_keyHandle x = TPM_HANDLE_default"

lemma TPM2_RSA_Encrypt_REQUEST_writes [writes_intros]:
  "TPM2_RSA_Encrypt_REQUEST_valid x \<Longrightarrow> writes (TPM2_RSA_Encrypt_REQUEST_toTpm x) (TPM2_RSA_Encrypt_REQUEST_enc x)"
  unfolding TPM2_RSA_Encrypt_REQUEST_toTpm_def TPM2_RSA_Encrypt_REQUEST_enc_def
  by (intro writes_intros; simp add: TPM2_RSA_Encrypt_REQUEST_valid_def opt_ok_iff)

lemma TPM2_RSA_Encrypt_REQUEST_reads:
  "TPM2_RSA_Encrypt_REQUEST_valid x \<Longrightarrow> reads (TPM2_RSA_Encrypt_REQUEST_initFromTpm TPM2_RSA_Encrypt_REQUEST_default) x (TPM2_RSA_Encrypt_REQUEST_enc x)"
  by (simp only: TPM2_RSA_Encrypt_REQUEST_initFromTpm_def TPM2_RSA_Encrypt_REQUEST_enc_def TPM2_RSA_Encrypt_REQUEST_default_def
        TPM2_RSA_Encrypt_REQUEST.select_convs TPM2_RSA_Encrypt_REQUEST.update_convs;
      intro reads_intros; (rule TPM2_RSA_Encrypt_REQUEST.equality)?; simp add: TPM2_RSA_Encrypt_REQUEST_valid_def opt_ok_iff)

interpretation TPM2_RSA_Encrypt_REQUEST_codec:
  tpm_codec TPM2_RSA_Encrypt_REQUEST_toTpm TPM2_RSA_Encrypt_REQUEST_initFromTpm TPM2_RSA_Encrypt_REQUEST_default
    TPM2_RSA_Encrypt_REQUEST_enc TPM2_RSA_Encrypt_REQUEST_valid
  by unfold_locales (erule TPM2_RSA_Encrypt_REQUEST_writes TPM2_RSA_Encrypt_REQUEST_reads | simp add: TPM2_RSA_Encrypt_REQUEST_enc_def)+

definition TPM2_RSA_Encrypt_REQUEST_req :: "TPM2_RSA_Encrypt_REQUEST \<Rightarrow> TPM_HANDLE ReqStructure" where
  "TPM2_RSA_Encrypt_REQUEST_req self =
     \<lparr>req_toTpm = TPM2_RSA_Encrypt_REQUEST_toTpm self, req_numHandles = 1,
     req_numAuthHandles = 0, req_getHandles = [TPM2_RSA_Encrypt_REQUEST_keyHandle self], req_sessEncInfo = \<lparr>sizeLen = 2, valLen = 1\<rparr>\<rparr>"

subsection \<open>RSA_EncryptResponse\<close>

text \<open>This command performs RSA encryption using the indicated padding scheme according to IETF RFC 8017. If the scheme of keyHandle is TPM_ALG_NULL, then ....\<close>

record RSA_EncryptResponse =
  RSA_EncryptResponse_outData :: "ByteVec"

definition RSA_EncryptResponse_default :: RSA_EncryptResponse where
  "RSA_EncryptResponse_default = \<lparr>RSA_EncryptResponse_outData = []\<rparr>"

definition RSA_EncryptResponse_toTpm :: "RSA_EncryptResponse \<Rightarrow> unit tpm" where
  "RSA_EncryptResponse_toTpm self =
     wseq [writeSizedByteBuf (RSA_EncryptResponse_outData self) 2]"

definition RSA_EncryptResponse_initFromTpm :: "RSA_EncryptResponse \<Rightarrow> RSA_EncryptResponse tpm" where
  "RSA_EncryptResponse_initFromTpm self =
     sbind (readSizedByteBuf 2) (\<lambda>outData.
     ret (self\<lparr>RSA_EncryptResponse_outData := outData\<rparr>))"

definition RSA_EncryptResponse_enc :: "RSA_EncryptResponse \<Rightarrow> ByteVec" where
  "RSA_EncryptResponse_enc x =
     enc_sized 2 (RSA_EncryptResponse_outData x)"

definition RSA_EncryptResponse_valid :: "RSA_EncryptResponse \<Rightarrow> bool" where
  "RSA_EncryptResponse_valid x \<longleftrightarrow>
     sized_ok 2 (RSA_EncryptResponse_outData x)"

lemma RSA_EncryptResponse_writes [writes_intros]:
  "RSA_EncryptResponse_valid x \<Longrightarrow> writes (RSA_EncryptResponse_toTpm x) (RSA_EncryptResponse_enc x)"
  unfolding RSA_EncryptResponse_toTpm_def RSA_EncryptResponse_enc_def
  by (intro writes_intros; simp add: RSA_EncryptResponse_valid_def opt_ok_iff)

lemma RSA_EncryptResponse_reads:
  "RSA_EncryptResponse_valid x \<Longrightarrow> reads (RSA_EncryptResponse_initFromTpm RSA_EncryptResponse_default) x (RSA_EncryptResponse_enc x)"
  by (simp only: RSA_EncryptResponse_initFromTpm_def RSA_EncryptResponse_enc_def RSA_EncryptResponse_default_def
        RSA_EncryptResponse.select_convs RSA_EncryptResponse.update_convs;
      intro reads_intros; (rule RSA_EncryptResponse.equality)?; simp add: RSA_EncryptResponse_valid_def opt_ok_iff)

interpretation RSA_EncryptResponse_codec:
  tpm_codec RSA_EncryptResponse_toTpm RSA_EncryptResponse_initFromTpm RSA_EncryptResponse_default
    RSA_EncryptResponse_enc RSA_EncryptResponse_valid
  by unfold_locales (erule RSA_EncryptResponse_writes RSA_EncryptResponse_reads | simp add: RSA_EncryptResponse_enc_def)+

definition RSA_EncryptResponse_resp :: "(TPM_HANDLE, RSA_EncryptResponse) RespStructure" where
  "RSA_EncryptResponse_resp = \<lparr>resp_default = RSA_EncryptResponse_default, resp_initFromTpm = RSA_EncryptResponse_initFromTpm,
     resp_numHandles = 0, resp_getHandle = (\<lambda>_. TPM_HANDLE_default),
     resp_setHandle = (\<lambda>_ self. self), resp_sessEncInfo = \<lparr>sizeLen = 2, valLen = 1\<rparr>\<rparr>"

subsection \<open>TPM2_RSA_Decrypt_REQUEST\<close>

text \<open>This command performs RSA decryption using the indicated padding scheme according to IETF RFC 8017 ((PKCS#1).\<close>

record TPM2_RSA_Decrypt_REQUEST =
  TPM2_RSA_Decrypt_REQUEST_keyHandle :: "TPM_HANDLE"
  TPM2_RSA_Decrypt_REQUEST_cipherText :: "ByteVec"
  TPM2_RSA_Decrypt_REQUEST_inScheme :: "TPMU_ASYM_SCHEME option"
  TPM2_RSA_Decrypt_REQUEST_label :: "ByteVec"

definition TPM2_RSA_Decrypt_REQUEST_default :: TPM2_RSA_Decrypt_REQUEST where
  "TPM2_RSA_Decrypt_REQUEST_default = \<lparr>TPM2_RSA_Decrypt_REQUEST_keyHandle = TPM_HANDLE_default, TPM2_RSA_Decrypt_REQUEST_cipherText = [], TPM2_RSA_Decrypt_REQUEST_inScheme = None, TPM2_RSA_Decrypt_REQUEST_label = []\<rparr>"

definition TPM2_RSA_Decrypt_REQUEST_toTpm :: "TPM2_RSA_Decrypt_REQUEST \<Rightarrow> unit tpm" where
  "TPM2_RSA_Decrypt_REQUEST_toTpm self =
     wseq [writeSizedByteBuf (TPM2_RSA_Decrypt_REQUEST_cipherText self) 2,
       deref (TPM2_RSA_Decrypt_REQUEST_inScheme self) (\<lambda>u. writeShort (TPMU_ASYM_SCHEME_GetUnionSelector u)),
       deref (TPM2_RSA_Decrypt_REQUEST_inScheme self) TPMU_ASYM_SCHEME_toTpm,
       writeSizedByteBuf (TPM2_RSA_Decrypt_REQUEST_label self) 2]"

definition TPM2_RSA_Decrypt_REQUEST_initFromTpm :: "TPM2_RSA_Decrypt_REQUEST \<Rightarrow> TPM2_RSA_Decrypt_REQUEST tpm" where
  "TPM2_RSA_Decrypt_REQUEST_initFromTpm self =
     sbind (readSizedByteBuf 2) (\<lambda>cipherText.
     sbind readShort (\<lambda>inSchemeScheme.
     bindO (UnionFactory_Create_TPMU_ASYM_SCHEME inSchemeScheme) (\<lambda>inScheme.
     sbind (deref inScheme TPMU_ASYM_SCHEME_initFromTpm) (\<lambda>inScheme.
     sbind (readSizedByteBuf 2) (\<lambda>label.
     ret (self\<lparr>TPM2_RSA_Decrypt_REQUEST_cipherText := cipherText, TPM2_RSA_Decrypt_REQUEST_inScheme := Some inScheme, TPM2_RSA_Decrypt_REQUEST_label := label\<rparr>))))))"

definition TPM2_RSA_Decrypt_REQUEST_enc :: "TPM2_RSA_Decrypt_REQUEST \<Rightarrow> ByteVec" where
  "TPM2_RSA_Decrypt_REQUEST_enc x =
     enc_sized 2 (TPM2_RSA_Decrypt_REQUEST_cipherText x) @
     opt_enc (\<lambda>u. enc16 (TPMU_ASYM_SCHEME_GetUnionSelector u)) (TPM2_RSA_Decrypt_REQUEST_inScheme x) @
     opt_enc TPMU_ASYM_SCHEME_enc (TPM2_RSA_Decrypt_REQUEST_inScheme x) @
     enc_sized 2 (TPM2_RSA_Decrypt_REQUEST_label x)"

definition TPM2_RSA_Decrypt_REQUEST_valid :: "TPM2_RSA_Decrypt_REQUEST \<Rightarrow> bool" where
  "TPM2_RSA_Decrypt_REQUEST_valid x \<longleftrightarrow>
     sized_ok 2 (TPM2_RSA_Decrypt_REQUEST_cipherText x) \<and>
     opt_ok TPMU_ASYM_SCHEME_valid (TPM2_RSA_Decrypt_REQUEST_inScheme x) \<and>
     sized_ok 2 (TPM2_RSA_Decrypt_REQUEST_label x) \<and>
     TPM2_RSA_Decrypt_REQUEST_keyHandle x = TPM_HANDLE_default"

lemma TPM2_RSA_Decrypt_REQUEST_writes [writes_intros]:
  "TPM2_RSA_Decrypt_REQUEST_valid x \<Longrightarrow> writes (TPM2_RSA_Decrypt_REQUEST_toTpm x) (TPM2_RSA_Decrypt_REQUEST_enc x)"
  unfolding TPM2_RSA_Decrypt_REQUEST_toTpm_def TPM2_RSA_Decrypt_REQUEST_enc_def
  by (intro writes_intros; simp add: TPM2_RSA_Decrypt_REQUEST_valid_def opt_ok_iff)

lemma TPM2_RSA_Decrypt_REQUEST_reads:
  "TPM2_RSA_Decrypt_REQUEST_valid x \<Longrightarrow> reads (TPM2_RSA_Decrypt_REQUEST_initFromTpm TPM2_RSA_Decrypt_REQUEST_default) x (TPM2_RSA_Decrypt_REQUEST_enc x)"
  by (simp only: TPM2_RSA_Decrypt_REQUEST_initFromTpm_def TPM2_RSA_Decrypt_REQUEST_enc_def TPM2_RSA_Decrypt_REQUEST_default_def
        TPM2_RSA_Decrypt_REQUEST.select_convs TPM2_RSA_Decrypt_REQUEST.update_convs;
      intro reads_intros; (rule TPM2_RSA_Decrypt_REQUEST.equality)?; simp add: TPM2_RSA_Decrypt_REQUEST_valid_def opt_ok_iff)

interpretation TPM2_RSA_Decrypt_REQUEST_codec:
  tpm_codec TPM2_RSA_Decrypt_REQUEST_toTpm TPM2_RSA_Decrypt_REQUEST_initFromTpm TPM2_RSA_Decrypt_REQUEST_default
    TPM2_RSA_Decrypt_REQUEST_enc TPM2_RSA_Decrypt_REQUEST_valid
  by unfold_locales (erule TPM2_RSA_Decrypt_REQUEST_writes TPM2_RSA_Decrypt_REQUEST_reads | simp add: TPM2_RSA_Decrypt_REQUEST_enc_def)+

definition TPM2_RSA_Decrypt_REQUEST_req :: "TPM2_RSA_Decrypt_REQUEST \<Rightarrow> TPM_HANDLE ReqStructure" where
  "TPM2_RSA_Decrypt_REQUEST_req self =
     \<lparr>req_toTpm = TPM2_RSA_Decrypt_REQUEST_toTpm self, req_numHandles = 1,
     req_numAuthHandles = 1, req_getHandles = [TPM2_RSA_Decrypt_REQUEST_keyHandle self], req_sessEncInfo = \<lparr>sizeLen = 2, valLen = 1\<rparr>\<rparr>"

subsection \<open>RSA_DecryptResponse\<close>

text \<open>This command performs RSA decryption using the indicated padding scheme according to IETF RFC 8017 ((PKCS#1).\<close>

record RSA_DecryptResponse =
  RSA_DecryptResponse_message :: "ByteVec"

definition RSA_DecryptResponse_default :: RSA_DecryptResponse where
  "RSA_DecryptResponse_default = \<lparr>RSA_DecryptResponse_message = []\<rparr>"

definition RSA_DecryptResponse_toTpm :: "RSA_DecryptResponse \<Rightarrow> unit tpm" where
  "RSA_DecryptResponse_toTpm self =
     wseq [writeSizedByteBuf (RSA_DecryptResponse_message self) 2]"

definition RSA_DecryptResponse_initFromTpm :: "RSA_DecryptResponse \<Rightarrow> RSA_DecryptResponse tpm" where
  "RSA_DecryptResponse_initFromTpm self =
     sbind (readSizedByteBuf 2) (\<lambda>message.
     ret (self\<lparr>RSA_DecryptResponse_message := message\<rparr>))"

definition RSA_DecryptResponse_enc :: "RSA_DecryptResponse \<Rightarrow> ByteVec" where
  "RSA_DecryptResponse_enc x =
     enc_sized 2 (RSA_DecryptResponse_message x)"

definition RSA_DecryptResponse_valid :: "RSA_DecryptResponse \<Rightarrow> bool" where
  "RSA_DecryptResponse_valid x \<longleftrightarrow>
     sized_ok 2 (RSA_DecryptResponse_message x)"

lemma RSA_DecryptResponse_writes [writes_intros]:
  "RSA_DecryptResponse_valid x \<Longrightarrow> writes (RSA_DecryptResponse_toTpm x) (RSA_DecryptResponse_enc x)"
  unfolding RSA_DecryptResponse_toTpm_def RSA_DecryptResponse_enc_def
  by (intro writes_intros; simp add: RSA_DecryptResponse_valid_def opt_ok_iff)

lemma RSA_DecryptResponse_reads:
  "RSA_DecryptResponse_valid x \<Longrightarrow> reads (RSA_DecryptResponse_initFromTpm RSA_DecryptResponse_default) x (RSA_DecryptResponse_enc x)"
  by (simp only: RSA_DecryptResponse_initFromTpm_def RSA_DecryptResponse_enc_def RSA_DecryptResponse_default_def
        RSA_DecryptResponse.select_convs RSA_DecryptResponse.update_convs;
      intro reads_intros; (rule RSA_DecryptResponse.equality)?; simp add: RSA_DecryptResponse_valid_def opt_ok_iff)

interpretation RSA_DecryptResponse_codec:
  tpm_codec RSA_DecryptResponse_toTpm RSA_DecryptResponse_initFromTpm RSA_DecryptResponse_default
    RSA_DecryptResponse_enc RSA_DecryptResponse_valid
  by unfold_locales (erule RSA_DecryptResponse_writes RSA_DecryptResponse_reads | simp add: RSA_DecryptResponse_enc_def)+

definition RSA_DecryptResponse_resp :: "(TPM_HANDLE, RSA_DecryptResponse) RespStructure" where
  "RSA_DecryptResponse_resp = \<lparr>resp_default = RSA_DecryptResponse_default, resp_initFromTpm = RSA_DecryptResponse_initFromTpm,
     resp_numHandles = 0, resp_getHandle = (\<lambda>_. TPM_HANDLE_default),
     resp_setHandle = (\<lambda>_ self. self), resp_sessEncInfo = \<lparr>sizeLen = 2, valLen = 1\<rparr>\<rparr>"

subsection \<open>TPM2_ECDH_KeyGen_REQUEST\<close>

text \<open>This command uses the TPM to generate an ephemeral key pair (de, Qe where Qe [de]G).\<close>

record TPM2_ECDH_KeyGen_REQUEST =
  TPM2_ECDH_KeyGen_REQUEST_keyHandle :: "TPM_HANDLE"

definition TPM2_ECDH_KeyGen_REQUEST_default :: TPM2_ECDH_KeyGen_REQUEST where
  "TPM2_ECDH_KeyGen_REQUEST_default = \<lparr>TPM2_ECDH_KeyGen_REQUEST_keyHandle = TPM_HANDLE_default\<rparr>"

definition TPM2_ECDH_KeyGen_REQUEST_toTpm :: "TPM2_ECDH_KeyGen_REQUEST \<Rightarrow> unit tpm" where
  "TPM2_ECDH_KeyGen_REQUEST_toTpm self =
     wseq []"

definition TPM2_ECDH_KeyGen_REQUEST_initFromTpm :: "TPM2_ECDH_KeyGen_REQUEST \<Rightarrow> TPM2_ECDH_KeyGen_REQUEST tpm" where
  "TPM2_ECDH_KeyGen_REQUEST_initFromTpm self =
     ret self"

definition TPM2_ECDH_KeyGen_REQUEST_enc :: "TPM2_ECDH_KeyGen_REQUEST \<Rightarrow> ByteVec" where
  "TPM2_ECDH_KeyGen_REQUEST_enc x =
     []"

definition TPM2_ECDH_KeyGen_REQUEST_valid :: "TPM2_ECDH_KeyGen_REQUEST \<Rightarrow> bool" where
  "TPM2_ECDH_KeyGen_REQUEST_valid x \<longleftrightarrow>
     TPM2_ECDH_KeyGen_REQUEST_keyHandle x = TPM_HANDLE_default"

lemma TPM2_ECDH_KeyGen_REQUEST_writes [writes_intros]:
  "TPM2_ECDH_KeyGen_REQUEST_valid x \<Longrightarrow> writes (TPM2_ECDH_KeyGen_REQUEST_toTpm x) (TPM2_ECDH_KeyGen_REQUEST_enc x)"
  unfolding TPM2_ECDH_KeyGen_REQUEST_toTpm_def TPM2_ECDH_KeyGen_REQUEST_enc_def
  by (intro writes_intros; simp add: TPM2_ECDH_KeyGen_REQUEST_valid_def opt_ok_iff)

lemma TPM2_ECDH_KeyGen_REQUEST_reads:
  "TPM2_ECDH_KeyGen_REQUEST_valid x \<Longrightarrow> reads (TPM2_ECDH_KeyGen_REQUEST_initFromTpm TPM2_ECDH_KeyGen_REQUEST_default) x (TPM2_ECDH_KeyGen_REQUEST_enc x)"
  by (simp only: TPM2_ECDH_KeyGen_REQUEST_initFromTpm_def TPM2_ECDH_KeyGen_REQUEST_enc_def TPM2_ECDH_KeyGen_REQUEST_default_def
        TPM2_ECDH_KeyGen_REQUEST.select_convs TPM2_ECDH_KeyGen_REQUEST.update_convs;
      intro reads_intros; (rule TPM2_ECDH_KeyGen_REQUEST.equality)?; simp add: TPM2_ECDH_KeyGen_REQUEST_valid_def opt_ok_iff)

interpretation TPM2_ECDH_KeyGen_REQUEST_codec:
  tpm_codec TPM2_ECDH_KeyGen_REQUEST_toTpm TPM2_ECDH_KeyGen_REQUEST_initFromTpm TPM2_ECDH_KeyGen_REQUEST_default
    TPM2_ECDH_KeyGen_REQUEST_enc TPM2_ECDH_KeyGen_REQUEST_valid
  by unfold_locales (erule TPM2_ECDH_KeyGen_REQUEST_writes TPM2_ECDH_KeyGen_REQUEST_reads | simp add: TPM2_ECDH_KeyGen_REQUEST_toTpm_def writes_ret)+

definition TPM2_ECDH_KeyGen_REQUEST_req :: "TPM2_ECDH_KeyGen_REQUEST \<Rightarrow> TPM_HANDLE ReqStructure" where
  "TPM2_ECDH_KeyGen_REQUEST_req self =
     \<lparr>req_toTpm = TPM2_ECDH_KeyGen_REQUEST_toTpm self, req_numHandles = 1,
     req_numAuthHandles = 0, req_getHandles = [TPM2_ECDH_KeyGen_REQUEST_keyHandle self], req_sessEncInfo = no_sessEncInfo\<rparr>"

subsection \<open>ECDH_KeyGenResponse\<close>

text \<open>This command uses the TPM to generate an ephemeral key pair (de, Qe where Qe [de]G).\<close>

record ECDH_KeyGenResponse =
  ECDH_KeyGenResponse_zPoint :: "TPMS_ECC_POINT"
  ECDH_KeyGenResponse_pubPoint :: "TPMS_ECC_POINT"

definition ECDH_KeyGenResponse_default :: ECDH_KeyGenResponse where
  "ECDH_KeyGenResponse_default = \<lparr>ECDH_KeyGenResponse_zPoint = TPMS_ECC_POINT_default, ECDH_KeyGenResponse_pubPoint = TPMS_ECC_POINT_default\<rparr>"

definition ECDH_KeyGenResponse_toTpm :: "ECDH_KeyGenResponse \<Rightarrow> unit tpm" where
  "ECDH_KeyGenResponse_toTpm self =
     wseq [writeSizedObj TPMS_ECC_POINT_toTpm (ECDH_KeyGenResponse_zPoint self),
       writeSizedObj TPMS_ECC_POINT_toTpm (ECDH_KeyGenResponse_pubPoint self)]"

definition ECDH_KeyGenResponse_initFromTpm :: "ECDH_KeyGenResponse \<Rightarrow> ECDH_KeyGenResponse tpm" where
  "ECDH_KeyGenResponse_initFromTpm self =
     sbind (readSizedObj TPMS_ECC_POINT_initFromTpm (ECDH_KeyGenResponse_zPoint self)) (\<lambda>zPoint.
     sbind (readSizedObj TPMS_ECC_POINT_initFromTpm (ECDH_KeyGenResponse_pubPoint self)) (\<lambda>pubPoint.
     ret (self\<lparr>ECDH_KeyGenResponse_zPoint := zPoint, ECDH_KeyGenResponse_pubPoint := pubPoint\<rparr>)))"

definition ECDH_KeyGenResponse_enc :: "ECDH_KeyGenResponse \<Rightarrow> ByteVec" where
  "ECDH_KeyGenResponse_enc x =
     enc_obj (TPMS_ECC_POINT_enc (ECDH_KeyGenResponse_zPoint x)) @
     enc_obj (TPMS_ECC_POINT_enc (ECDH_KeyGenResponse_pubPoint x))"

definition ECDH_KeyGenResponse_valid :: "ECDH_KeyGenResponse \<Rightarrow> bool" where
  "ECDH_KeyGenResponse_valid x \<longleftrightarrow>
     sized_obj_ok TPMS_ECC_POINT_default TPMS_ECC_POINT_enc TPMS_ECC_POINT_valid (ECDH_KeyGenResponse_zPoint x) \<and>
     sized_obj_ok TPMS_ECC_POINT_default TPMS_ECC_POINT_enc TPMS_ECC_POINT_valid (ECDH_KeyGenResponse_pubPoint x)"

lemma ECDH_KeyGenResponse_writes [writes_intros]:
  "ECDH_KeyGenResponse_valid x \<Longrightarrow> writes (ECDH_KeyGenResponse_toTpm x) (ECDH_KeyGenResponse_enc x)"
  unfolding ECDH_KeyGenResponse_toTpm_def ECDH_KeyGenResponse_enc_def
  by (intro writes_intros; simp add: ECDH_KeyGenResponse_valid_def opt_ok_iff)

lemma ECDH_KeyGenResponse_reads:
  "ECDH_KeyGenResponse_valid x \<Longrightarrow> reads (ECDH_KeyGenResponse_initFromTpm ECDH_KeyGenResponse_default) x (ECDH_KeyGenResponse_enc x)"
  by (simp only: ECDH_KeyGenResponse_initFromTpm_def ECDH_KeyGenResponse_enc_def ECDH_KeyGenResponse_default_def
        ECDH_KeyGenResponse.select_convs ECDH_KeyGenResponse.update_convs;
      intro reads_intros; (rule ECDH_KeyGenResponse.equality)?; simp add: ECDH_KeyGenResponse_valid_def opt_ok_iff)

interpretation ECDH_KeyGenResponse_codec:
  tpm_codec ECDH_KeyGenResponse_toTpm ECDH_KeyGenResponse_initFromTpm ECDH_KeyGenResponse_default
    ECDH_KeyGenResponse_enc ECDH_KeyGenResponse_valid
  by unfold_locales (erule ECDH_KeyGenResponse_writes ECDH_KeyGenResponse_reads | simp add: ECDH_KeyGenResponse_enc_def)+

definition ECDH_KeyGenResponse_resp :: "(TPM_HANDLE, ECDH_KeyGenResponse) RespStructure" where
  "ECDH_KeyGenResponse_resp = \<lparr>resp_default = ECDH_KeyGenResponse_default, resp_initFromTpm = ECDH_KeyGenResponse_initFromTpm,
     resp_numHandles = 0, resp_getHandle = (\<lambda>_. TPM_HANDLE_default),
     resp_setHandle = (\<lambda>_ self. self), resp_sessEncInfo = \<lparr>sizeLen = 2, valLen = 1\<rparr>\<rparr>"

subsection \<open>TPM2_ECDH_ZGen_REQUEST\<close>

text \<open>This command uses the TPM to recover the Z value from a public point (QB) and a private key (ds).\<close>

record TPM2_ECDH_ZGen_REQUEST =
  TPM2_ECDH_ZGen_REQUEST_keyHandle :: "TPM_HANDLE"
  TPM2_ECDH_ZGen_REQUEST_inPoint :: "TPMS_ECC_POINT"

definition TPM2_ECDH_ZGen_REQUEST_default :: TPM2_ECDH_ZGen_REQUEST where
  "TPM2_ECDH_ZGen_REQUEST_default = \<lparr>TPM2_ECDH_ZGen_REQUEST_keyHandle = TPM_HANDLE_default, TPM2_ECDH_ZGen_REQUEST_inPoint = TPMS_ECC_POINT_default\<rparr>"

definition TPM2_ECDH_ZGen_REQUEST_toTpm :: "TPM2_ECDH_ZGen_REQUEST \<Rightarrow> unit tpm" where
  "TPM2_ECDH_ZGen_REQUEST_toTpm self =
     wseq [writeSizedObj TPMS_ECC_POINT_toTpm (TPM2_ECDH_ZGen_REQUEST_inPoint self)]"

definition TPM2_ECDH_ZGen_REQUEST_initFromTpm :: "TPM2_ECDH_ZGen_REQUEST \<Rightarrow> TPM2_ECDH_ZGen_REQUEST tpm" where
  "TPM2_ECDH_ZGen_REQUEST_initFromTpm self =
     sbind (readSizedObj TPMS_ECC_POINT_initFromTpm (TPM2_ECDH_ZGen_REQUEST_inPoint self)) (\<lambda>inPoint.
     ret (self\<lparr>TPM2_ECDH_ZGen_REQUEST_inPoint := inPoint\<rparr>))"

definition TPM2_ECDH_ZGen_REQUEST_enc :: "TPM2_ECDH_ZGen_REQUEST \<Rightarrow> ByteVec" where
  "TPM2_ECDH_ZGen_REQUEST_enc x =
     enc_obj (TPMS_ECC_POINT_enc (TPM2_ECDH_ZGen_REQUEST_inPoint x))"

definition TPM2_ECDH_ZGen_REQUEST_valid :: "TPM2_ECDH_ZGen_REQUEST \<Rightarrow> bool" where
  "TPM2_ECDH_ZGen_REQUEST_valid x \<longleftrightarrow>
     sized_obj_ok TPMS_ECC_POINT_default TPMS_ECC_POINT_enc TPMS_ECC_POINT_valid (TPM2_ECDH_ZGen_REQUEST_inPoint x) \<and>
     TPM2_ECDH_ZGen_REQUEST_keyHandle x = TPM_HANDLE_default"

lemma TPM2_ECDH_ZGen_REQUEST_writes [writes_intros]:
  "TPM2_ECDH_ZGen_REQUEST_valid x \<Longrightarrow> writes (TPM2_ECDH_ZGen_REQUEST_toTpm x) (TPM2_ECDH_ZGen_REQUEST_enc x)"
  unfolding TPM2_ECDH_ZGen_REQUEST_toTpm_def TPM2_ECDH_ZGen_REQUEST_enc_def
  by (intro writes_intros; simp add: TPM2_ECDH_ZGen_REQUEST_valid_def opt_ok_iff)

lemma TPM2_ECDH_ZGen_REQUEST_reads:
  "TPM2_ECDH_ZGen_REQUEST_valid x \<Longrightarrow> reads (TPM2_ECDH_ZGen_REQUEST_initFromTpm TPM2_ECDH_ZGen_REQUEST_default) x (TPM2_ECDH_ZGen_REQUEST_enc x)"
  by (simp only: TPM2_ECDH_ZGen_REQUEST_initFromTpm_def TPM2_ECDH_ZGen_REQUEST_enc_def TPM2_ECDH_ZGen_REQUEST_default_def
        TPM2_ECDH_ZGen_REQUEST.select_convs TPM2_ECDH_ZGen_REQUEST.update_convs;
      intro reads_intros; (rule TPM2_ECDH_ZGen_REQUEST.equality)?; simp add: TPM2_ECDH_ZGen_REQUEST_valid_def opt_ok_iff)

interpretation TPM2_ECDH_ZGen_REQUEST_codec:
  tpm_codec TPM2_ECDH_ZGen_REQUEST_toTpm TPM2_ECDH_ZGen_REQUEST_initFromTpm TPM2_ECDH_ZGen_REQUEST_default
    TPM2_ECDH_ZGen_REQUEST_enc TPM2_ECDH_ZGen_REQUEST_valid
  by unfold_locales (erule TPM2_ECDH_ZGen_REQUEST_writes TPM2_ECDH_ZGen_REQUEST_reads | simp add: TPM2_ECDH_ZGen_REQUEST_enc_def)+

definition TPM2_ECDH_ZGen_REQUEST_req :: "TPM2_ECDH_ZGen_REQUEST \<Rightarrow> TPM_HANDLE ReqStructure" where
  "TPM2_ECDH_ZGen_REQUEST_req self =
     \<lparr>req_toTpm = TPM2_ECDH_ZGen_REQUEST_toTpm self, req_numHandles = 1,
     req_numAuthHandles = 1, req_getHandles = [TPM2_ECDH_ZGen_REQUEST_keyHandle self], req_sessEncInfo = \<lparr>sizeLen = 2, valLen = 1\<rparr>\<rparr>"

subsection \<open>ECDH_ZGenResponse\<close>

text \<open>This command uses the TPM to recover the Z value from a public point (QB) and a private key (ds).\<close>

record ECDH_ZGenResponse =
  ECDH_ZGenResponse_outPoint :: "TPMS_ECC_POINT"

definition ECDH_ZGenResponse_default :: ECDH_ZGenResponse where
  "ECDH_ZGenResponse_default = \<lparr>ECDH_ZGenResponse_outPoint = TPMS_ECC_POINT_default\<rparr>"

definition ECDH_ZGenResponse_toTpm :: "ECDH_ZGenResponse \<Rightarrow> unit tpm" where
  "ECDH_ZGenResponse_toTpm self =
     wseq [writeSizedObj TPMS_ECC_POINT_toTpm (ECDH_ZGenResponse_outPoint self)]"

definition ECDH_ZGenResponse_initFromTpm :: "ECDH_ZGenResponse \<Rightarrow> ECDH_ZGenResponse tpm" where
  "ECDH_ZGenResponse_initFromTpm self =
     sbind (readSizedObj TPMS_ECC_POINT_initFromTpm (ECDH_ZGenResponse_outPoint self)) (\<lambda>outPoint.
     ret (self\<lparr>ECDH_ZGenResponse_outPoint := outPoint\<rparr>))"

definition ECDH_ZGenResponse_enc :: "ECDH_ZGenResponse \<Rightarrow> ByteVec" where
  "ECDH_ZGenResponse_enc x =
     enc_obj (TPMS_ECC_POINT_enc (ECDH_ZGenResponse_outPoint x))"

definition ECDH_ZGenResponse_valid :: "ECDH_ZGenResponse \<Rightarrow> bool" where
  "ECDH_ZGenResponse_valid x \<longleftrightarrow>
     sized_obj_ok TPMS_ECC_POINT_default TPMS_ECC_POINT_enc TPMS_ECC_POINT_valid (ECDH_ZGenResponse_outPoint x)"

lemma ECDH_ZGenResponse_writes [writes_intros]:
  "ECDH_ZGenResponse_valid x \<Longrightarrow> writes (ECDH_ZGenResponse_toTpm x) (ECDH_ZGenResponse_enc x)"
  unfolding ECDH_ZGenResponse_toTpm_def ECDH_ZGenResponse_enc_def
  by (intro writes_intros; simp add: ECDH_ZGenResponse_valid_def opt_ok_iff)

lemma ECDH_ZGenResponse_reads:
  "ECDH_ZGenResponse_valid x \<Longrightarrow> reads (ECDH_ZGenResponse_initFromTpm ECDH_ZGenResponse_default) x (ECDH_ZGenResponse_enc x)"
  by (simp only: ECDH_ZGenResponse_initFromTpm_def ECDH_ZGenResponse_enc_def ECDH_ZGenResponse_default_def
        ECDH_ZGenResponse.select_convs ECDH_ZGenResponse.update_convs;
      intro reads_intros; (rule ECDH_ZGenResponse.equality)?; simp add: ECDH_ZGenResponse_valid_def opt_ok_iff)

interpretation ECDH_ZGenResponse_codec:
  tpm_codec ECDH_ZGenResponse_toTpm ECDH_ZGenResponse_initFromTpm ECDH_ZGenResponse_default
    ECDH_ZGenResponse_enc ECDH_ZGenResponse_valid
  by unfold_locales (erule ECDH_ZGenResponse_writes ECDH_ZGenResponse_reads | simp add: ECDH_ZGenResponse_enc_def)+

definition ECDH_ZGenResponse_resp :: "(TPM_HANDLE, ECDH_ZGenResponse) RespStructure" where
  "ECDH_ZGenResponse_resp = \<lparr>resp_default = ECDH_ZGenResponse_default, resp_initFromTpm = ECDH_ZGenResponse_initFromTpm,
     resp_numHandles = 0, resp_getHandle = (\<lambda>_. TPM_HANDLE_default),
     resp_setHandle = (\<lambda>_ self. self), resp_sessEncInfo = \<lparr>sizeLen = 2, valLen = 1\<rparr>\<rparr>"

subsection \<open>TPM2_ECC_Parameters_REQUEST\<close>

text \<open>This command returns the parameters of an ECC curve identified by its TCG-assigned curveID.\<close>

record TPM2_ECC_Parameters_REQUEST =
  TPM2_ECC_Parameters_REQUEST_curveID :: "TPM_ECC_CURVE"

definition TPM2_ECC_Parameters_REQUEST_default :: TPM2_ECC_Parameters_REQUEST where
  "TPM2_ECC_Parameters_REQUEST_default = \<lparr>TPM2_ECC_Parameters_REQUEST_curveID = 0\<rparr>"

definition TPM2_ECC_Parameters_REQUEST_toTpm :: "TPM2_ECC_Parameters_REQUEST \<Rightarrow> unit tpm" where
  "TPM2_ECC_Parameters_REQUEST_toTpm self =
     wseq [writeShort (TPM2_ECC_Parameters_REQUEST_curveID self)]"

definition TPM2_ECC_Parameters_REQUEST_initFromTpm :: "TPM2_ECC_Parameters_REQUEST \<Rightarrow> TPM2_ECC_Parameters_REQUEST tpm" where
  "TPM2_ECC_Parameters_REQUEST_initFromTpm self =
     sbind readShort (\<lambda>curveID.
     ret (self\<lparr>TPM2_ECC_Parameters_REQUEST_curveID := curveID\<rparr>))"

definition TPM2_ECC_Parameters_REQUEST_enc :: "TPM2_ECC_Parameters_REQUEST \<Rightarrow> ByteVec" where
  "TPM2_ECC_Parameters_REQUEST_enc x =
     enc16 (TPM2_ECC_Parameters_REQUEST_curveID x)"

definition TPM2_ECC_Parameters_REQUEST_valid :: "TPM2_ECC_Parameters_REQUEST \<Rightarrow> bool" where
  "TPM2_ECC_Parameters_REQUEST_valid x \<longleftrightarrow>
     True"

lemma TPM2_ECC_Parameters_REQUEST_writes [writes_intros]:
  "TPM2_ECC_Parameters_REQUEST_valid x \<Longrightarrow> writes (TPM2_ECC_Parameters_REQUEST_toTpm x) (TPM2_ECC_Parameters_REQUEST_enc x)"
  unfolding TPM2_ECC_Parameters_REQUEST_toTpm_def TPM2_ECC_Parameters_REQUEST_enc_def
  by (intro writes_intros; simp add: TPM2_ECC_Parameters_REQUEST_valid_def opt_ok_iff)

lemma TPM2_ECC_Parameters_REQUEST_reads:
  "TPM2_ECC_Parameters_REQUEST_valid x \<Longrightarrow> reads (TPM2_ECC_Parameters_REQUEST_initFromTpm TPM2_ECC_Parameters_REQUEST_default) x (TPM2_ECC_Parameters_REQUEST_enc x)"
  by (simp only: TPM2_ECC_Parameters_REQUEST_initFromTpm_def TPM2_ECC_Parameters_REQUEST_enc_def TPM2_ECC_Parameters_REQUEST_default_def
        TPM2_ECC_Parameters_REQUEST.select_convs TPM2_ECC_Parameters_REQUEST.update_convs;
      intro reads_intros; (rule TPM2_ECC_Parameters_REQUEST.equality)?; simp add: TPM2_ECC_Parameters_REQUEST_valid_def opt_ok_iff)

interpretation TPM2_ECC_Parameters_REQUEST_codec:
  tpm_codec TPM2_ECC_Parameters_REQUEST_toTpm TPM2_ECC_Parameters_REQUEST_initFromTpm TPM2_ECC_Parameters_REQUEST_default
    TPM2_ECC_Parameters_REQUEST_enc TPM2_ECC_Parameters_REQUEST_valid
  by unfold_locales (erule TPM2_ECC_Parameters_REQUEST_writes TPM2_ECC_Parameters_REQUEST_reads | simp add: TPM2_ECC_Parameters_REQUEST_enc_def)+

definition TPM2_ECC_Parameters_REQUEST_req :: "TPM2_ECC_Parameters_REQUEST \<Rightarrow> TPM_HANDLE ReqStructure" where
  "TPM2_ECC_Parameters_REQUEST_req self =
     \<lparr>req_toTpm = TPM2_ECC_Parameters_REQUEST_toTpm self, req_numHandles = 0,
     req_numAuthHandles = 0, req_getHandles = [], req_sessEncInfo = no_sessEncInfo\<rparr>"

subsection \<open>ECC_ParametersResponse\<close>

text \<open>This command returns the parameters of an ECC curve identified by its TCG-assigned curveID.\<close>

record ECC_ParametersResponse =
  ECC_ParametersResponse_parameters :: "TPMS_ALGORITHM_DETAIL_ECC"

definition ECC_ParametersResponse_default :: ECC_ParametersResponse where
  "ECC_ParametersResponse_default = \<lparr>ECC_ParametersResponse_parameters = TPMS_ALGORITHM_DETAIL_ECC_default\<rparr>"

definition ECC_ParametersResponse_toTpm :: "ECC_ParametersResponse \<Rightarrow> unit tpm" where
  "ECC_ParametersResponse_toTpm self =
     wseq [TPMS_ALGORITHM_DETAIL_ECC_toTpm (ECC_ParametersResponse_parameters self)]"

definition ECC_ParametersResponse_initFromTpm :: "ECC_ParametersResponse \<Rightarrow> ECC_ParametersResponse tpm" where
  "ECC_ParametersResponse_initFromTpm self =
     sbind (TPMS_ALGORITHM_DETAIL_ECC_initFromTpm (ECC_ParametersResponse_parameters self)) (\<lambda>parameters.
     ret (self\<lparr>ECC_ParametersResponse_parameters := parameters\<rparr>))"

definition ECC_ParametersResponse_enc :: "ECC_ParametersResponse \<Rightarrow> ByteVec" where
  "ECC_ParametersResponse_enc x =
     TPMS_ALGORITHM_DETAIL_ECC_enc (ECC_ParametersResponse_parameters x)"

definition ECC_ParametersResponse_valid :: "ECC_ParametersResponse \<Rightarrow> bool" where
  "ECC_ParametersResponse_valid x \<longleftrightarrow>
     TPMS_ALGORITHM_DETAIL_ECC_valid (ECC_ParametersResponse_parameters x)"

lemma ECC_ParametersResponse_writes [writes_intros]:
  "ECC_ParametersResponse_valid x \<Longrightarrow> writes (ECC_ParametersResponse_toTpm x) (ECC_ParametersResponse_enc x)"
  unfolding ECC_ParametersResponse_toTpm_def ECC_ParametersResponse_enc_def
  by (intro writes_intros; simp add: ECC_ParametersResponse_valid_def opt_ok_iff)

lemma ECC_ParametersResponse_reads:
  "ECC_ParametersResponse_valid x \<Longrightarrow> reads (ECC_ParametersResponse_initFromTpm ECC_ParametersResponse_default) x (ECC_ParametersResponse_enc x)"
  by (simp only: ECC_ParametersResponse_initFromTpm_def ECC_ParametersResponse_enc_def ECC_ParametersResponse_default_def
        ECC_ParametersResponse.select_convs ECC_ParametersResponse.update_convs;
      intro reads_intros; (rule ECC_ParametersResponse.equality)?; simp add: ECC_ParametersResponse_valid_def opt_ok_iff)

interpretation ECC_ParametersResponse_codec:
  tpm_codec ECC_ParametersResponse_toTpm ECC_ParametersResponse_initFromTpm ECC_ParametersResponse_default
    ECC_ParametersResponse_enc ECC_ParametersResponse_valid
  by unfold_locales (erule ECC_ParametersResponse_writes ECC_ParametersResponse_reads | simp add: ECC_ParametersResponse_enc_def)+

definition ECC_ParametersResponse_resp :: "(TPM_HANDLE, ECC_ParametersResponse) RespStructure" where
  "ECC_ParametersResponse_resp = \<lparr>resp_default = ECC_ParametersResponse_default, resp_initFromTpm = ECC_ParametersResponse_initFromTpm,
     resp_numHandles = 0, resp_getHandle = (\<lambda>_. TPM_HANDLE_default),
     resp_setHandle = (\<lambda>_ self. self), resp_sessEncInfo = no_sessEncInfo\<rparr>"

subsection \<open>TPM2_ZGen_2Phase_REQUEST\<close>

text \<open>This command supports two-phase key exchange protocols.\<close>

record TPM2_ZGen_2Phase_REQUEST =
  TPM2_ZGen_2Phase_REQUEST_keyA :: "TPM_HANDLE"
  TPM2_ZGen_2Phase_REQUEST_inQsB :: "TPMS_ECC_POINT"
  TPM2_ZGen_2Phase_REQUEST_inQeB :: "TPMS_ECC_POINT"
  TPM2_ZGen_2Phase_REQUEST_inScheme :: "TPM_ALG_ID"
  TPM2_ZGen_2Phase_REQUEST_counter :: "UINT16"

definition TPM2_ZGen_2Phase_REQUEST_default :: TPM2_ZGen_2Phase_REQUEST where
  "TPM2_ZGen_2Phase_REQUEST_default = \<lparr>TPM2_ZGen_2Phase_REQUEST_keyA = TPM_HANDLE_default, TPM2_ZGen_2Phase_REQUEST_inQsB = TPMS_ECC_POINT_default, TPM2_ZGen_2Phase_REQUEST_inQeB = TPMS_ECC_POINT_default, TPM2_ZGen_2Phase_REQUEST_inScheme = TPM_ALG_ID_NULL, TPM2_ZGen_2Phase_REQUEST_counter = 0\<rparr>"

definition TPM2_ZGen_2Phase_REQUEST_toTpm :: "TPM2_ZGen_2Phase_REQUEST \<Rightarrow> unit tpm" where
  "TPM2_ZGen_2Phase_REQUEST_toTpm self =
     wseq [writeSizedObj TPMS_ECC_POINT_toTpm (TPM2_ZGen_2Phase_REQUEST_inQsB self),
       writeSizedObj TPMS_ECC_POINT_toTpm (TPM2_ZGen_2Phase_REQUEST_inQeB self),
       writeShort (TPM2_ZGen_2Phase_REQUEST_inScheme self),
       writeShort (TPM2_ZGen_2Phase_REQUEST_counter self)]"

definition TPM2_ZGen_2Phase_REQUEST_initFromTpm :: "TPM2_ZGen_2Phase_REQUEST \<Rightarrow> TPM2_ZGen_2Phase_REQUEST tpm" where
  "TPM2_ZGen_2Phase_REQUEST_initFromTpm self =
     sbind (readSizedObj TPMS_ECC_POINT_initFromTpm (TPM2_ZGen_2Phase_REQUEST_inQsB self)) (\<lambda>inQsB.
     sbind (readSizedObj TPMS_ECC_POINT_initFromTpm (TPM2_ZGen_2Phase_REQUEST_inQeB self)) (\<lambda>inQeB.
     sbind readShort (\<lambda>inScheme.
     sbind readShort (\<lambda>counter.
     ret (self\<lparr>TPM2_ZGen_2Phase_REQUEST_inQsB := inQsB, TPM2_ZGen_2Phase_REQUEST_inQeB := inQeB, TPM2_ZGen_2Phase_REQUEST_inScheme := inScheme, TPM2_ZGen_2Phase_REQUEST_counter := counter\<rparr>)))))"

definition TPM2_ZGen_2Phase_REQUEST_enc :: "TPM2_ZGen_2Phase_REQUEST \<Rightarrow> ByteVec" where
  "TPM2_ZGen_2Phase_REQUEST_enc x =
     enc_obj (TPMS_ECC_POINT_enc (TPM2_ZGen_2Phase_REQUEST_inQsB x)) @
     enc_obj (TPMS_ECC_POINT_enc (TPM2_ZGen_2Phase_REQUEST_inQeB x)) @
     enc16 (TPM2_ZGen_2Phase_REQUEST_inScheme x) @
     enc16 (TPM2_ZGen_2Phase_REQUEST_counter x)"

definition TPM2_ZGen_2Phase_REQUEST_valid :: "TPM2_ZGen_2Phase_REQUEST \<Rightarrow> bool" where
  "TPM2_ZGen_2Phase_REQUEST_valid x \<longleftrightarrow>
     sized_obj_ok TPMS_ECC_POINT_default TPMS_ECC_POINT_enc TPMS_ECC_POINT_valid (TPM2_ZGen_2Phase_REQUEST_inQsB x) \<and>
     sized_obj_ok TPMS_ECC_POINT_default TPMS_ECC_POINT_enc TPMS_ECC_POINT_valid (TPM2_ZGen_2Phase_REQUEST_inQeB x) \<and>
     TPM2_ZGen_2Phase_REQUEST_keyA x = TPM_HANDLE_default"

lemma TPM2_ZGen_2Phase_REQUEST_writes [writes_intros]:
  "TPM2_ZGen_2Phase_REQUEST_valid x \<Longrightarrow> writes (TPM2_ZGen_2Phase_REQUEST_toTpm x) (TPM2_ZGen_2Phase_REQUEST_enc x)"
  unfolding TPM2_ZGen_2Phase_REQUEST_toTpm_def TPM2_ZGen_2Phase_REQUEST_enc_def
  by (intro writes_intros; simp add: TPM2_ZGen_2Phase_REQUEST_valid_def opt_ok_iff)

lemma TPM2_ZGen_2Phase_REQUEST_reads:
  "TPM2_ZGen_2Phase_REQUEST_valid x \<Longrightarrow> reads (TPM2_ZGen_2Phase_REQUEST_initFromTpm TPM2_ZGen_2Phase_REQUEST_default) x (TPM2_ZGen_2Phase_REQUEST_enc x)"
  by (simp only: TPM2_ZGen_2Phase_REQUEST_initFromTpm_def TPM2_ZGen_2Phase_REQUEST_enc_def TPM2_ZGen_2Phase_REQUEST_default_def
        TPM2_ZGen_2Phase_REQUEST.select_convs TPM2_ZGen_2Phase_REQUEST.update_convs;
      intro reads_intros; (rule TPM2_ZGen_2Phase_REQUEST.equality)?; simp add: TPM2_ZGen_2Phase_REQUEST_valid_def opt_ok_iff)

interpretation TPM2_ZGen_2Phase_REQUEST_codec:
  tpm_codec TPM2_ZGen_2Phase_REQUEST_toTpm TPM2_ZGen_2Phase_REQUEST_initFromTpm TPM2_ZGen_2Phase_REQUEST_default
    TPM2_ZGen_2Phase_REQUEST_enc TPM2_ZGen_2Phase_REQUEST_valid
  by unfold_locales (erule TPM2_ZGen_2Phase_REQUEST_writes TPM2_ZGen_2Phase_REQUEST_reads | simp add: TPM2_ZGen_2Phase_REQUEST_enc_def)+

definition TPM2_ZGen_2Phase_REQUEST_req :: "TPM2_ZGen_2Phase_REQUEST \<Rightarrow> TPM_HANDLE ReqStructure" where
  "TPM2_ZGen_2Phase_REQUEST_req self =
     \<lparr>req_toTpm = TPM2_ZGen_2Phase_REQUEST_toTpm self, req_numHandles = 1,
     req_numAuthHandles = 1, req_getHandles = [TPM2_ZGen_2Phase_REQUEST_keyA self], req_sessEncInfo = \<lparr>sizeLen = 2, valLen = 1\<rparr>\<rparr>"

subsection \<open>ZGen_2PhaseResponse\<close>

text \<open>This command supports two-phase key exchange protocols.\<close>

record ZGen_2PhaseResponse =
  ZGen_2PhaseResponse_outZ1 :: "TPMS_ECC_POINT"
  ZGen_2PhaseResponse_outZ2 :: "TPMS_ECC_POINT"

definition ZGen_2PhaseResponse_default :: ZGen_2PhaseResponse where
  "ZGen_2PhaseResponse_default = \<lparr>ZGen_2PhaseResponse_outZ1 = TPMS_ECC_POINT_default, ZGen_2PhaseResponse_outZ2 = TPMS_ECC_POINT_default\<rparr>"

definition ZGen_2PhaseResponse_toTpm :: "ZGen_2PhaseResponse \<Rightarrow> unit tpm" where
  "ZGen_2PhaseResponse_toTpm self =
     wseq [writeSizedObj TPMS_ECC_POINT_toTpm (ZGen_2PhaseResponse_outZ1 self),
       writeSizedObj TPMS_ECC_POINT_toTpm (ZGen_2PhaseResponse_outZ2 self)]"

definition ZGen_2PhaseResponse_initFromTpm :: "ZGen_2PhaseResponse \<Rightarrow> ZGen_2PhaseResponse tpm" where
  "ZGen_2PhaseResponse_initFromTpm self =
     sbind (readSizedObj TPMS_ECC_POINT_initFromTpm (ZGen_2PhaseResponse_outZ1 self)) (\<lambda>outZ1.
     sbind (readSizedObj TPMS_ECC_POINT_initFromTpm (ZGen_2PhaseResponse_outZ2 self)) (\<lambda>outZ2.
     ret (self\<lparr>ZGen_2PhaseResponse_outZ1 := outZ1, ZGen_2PhaseResponse_outZ2 := outZ2\<rparr>)))"

definition ZGen_2PhaseResponse_enc :: "ZGen_2PhaseResponse \<Rightarrow> ByteVec" where
  "ZGen_2PhaseResponse_enc x =
     enc_obj (TPMS_ECC_POINT_enc (ZGen_2PhaseResponse_outZ1 x)) @
     enc_obj (TPMS_ECC_POINT_enc (ZGen_2PhaseResponse_outZ2 x))"

definition ZGen_2PhaseResponse_valid :: "ZGen_2PhaseResponse \<Rightarrow> bool" where
  "ZGen_2PhaseResponse_valid x \<longleftrightarrow>
     sized_obj_ok TPMS_ECC_POINT_default TPMS_ECC_POINT_enc TPMS_ECC_POINT_valid (ZGen_2PhaseResponse_outZ1 x) \<and>
     sized_obj_ok TPMS_ECC_POINT_default TPMS_ECC_POINT_enc TPMS_ECC_POINT_valid (ZGen_2PhaseResponse_outZ2 x)"

lemma ZGen_2PhaseResponse_writes [writes_intros]:
  "ZGen_2PhaseResponse_valid x \<Longrightarrow> writes (ZGen_2PhaseResponse_toTpm x) (ZGen_2PhaseResponse_enc x)"
  unfolding ZGen_2PhaseResponse_toTpm_def ZGen_2PhaseResponse_enc_def
  by (intro writes_intros; simp add: ZGen_2PhaseResponse_valid_def opt_ok_iff)

lemma ZGen_2PhaseResponse_reads:
  "ZGen_2PhaseResponse_valid x \<Longrightarrow> reads (ZGen_2PhaseResponse_initFromTpm ZGen_2PhaseResponse_default) x (ZGen_2PhaseResponse_enc x)"
  by (simp only: ZGen_2PhaseResponse_initFromTpm_def ZGen_2PhaseResponse_enc_def ZGen_2PhaseResponse_default_def
        ZGen_2PhaseResponse.select_convs ZGen_2PhaseResponse.update_convs;
      intro reads_intros; (rule ZGen_2PhaseResponse.equality)?; simp add: ZGen_2PhaseResponse_valid_def opt_ok_iff)

interpretation ZGen_2PhaseResponse_codec:
  tpm_codec ZGen_2PhaseResponse_toTpm ZGen_2PhaseResponse_initFromTpm ZGen_2PhaseResponse_default
    ZGen_2PhaseResponse_enc ZGen_2PhaseResponse_valid
  by unfold_locales (erule ZGen_2PhaseResponse_writes ZGen_2PhaseResponse_reads | simp add: ZGen_2PhaseResponse_enc_def)+

definition ZGen_2PhaseResponse_resp :: "(TPM_HANDLE, ZGen_2PhaseResponse) RespStructure" where
  "ZGen_2PhaseResponse_resp = \<lparr>resp_default = ZGen_2PhaseResponse_default, resp_initFromTpm = ZGen_2PhaseResponse_initFromTpm,
     resp_numHandles = 0, resp_getHandle = (\<lambda>_. TPM_HANDLE_default),
     resp_setHandle = (\<lambda>_ self. self), resp_sessEncInfo = \<lparr>sizeLen = 2, valLen = 1\<rparr>\<rparr>"

subsection \<open>TPM2_ECC_Encrypt_REQUEST\<close>

text \<open>This command performs ECC encryption as described in Part 1, Annex D.\<close>

record TPM2_ECC_Encrypt_REQUEST =
  TPM2_ECC_Encrypt_REQUEST_keyHandle :: "TPM_HANDLE"
  TPM2_ECC_Encrypt_REQUEST_plainText :: "ByteVec"
  TPM2_ECC_Encrypt_REQUEST_inScheme :: "TPMU_KDF_SCHEME option"

definition TPM2_ECC_Encrypt_REQUEST_default :: TPM2_ECC_Encrypt_REQUEST where
  "TPM2_ECC_Encrypt_REQUEST_default = \<lparr>TPM2_ECC_Encrypt_REQUEST_keyHandle = TPM_HANDLE_default, TPM2_ECC_Encrypt_REQUEST_plainText = [], TPM2_ECC_Encrypt_REQUEST_inScheme = None\<rparr>"

definition TPM2_ECC_Encrypt_REQUEST_toTpm :: "TPM2_ECC_Encrypt_REQUEST \<Rightarrow> unit tpm" where
  "TPM2_ECC_Encrypt_REQUEST_toTpm self =
     wseq [writeSizedByteBuf (TPM2_ECC_Encrypt_REQUEST_plainText self) 2,
       deref (TPM2_ECC_Encrypt_REQUEST_inScheme self) (\<lambda>u. writeShort (TPMU_KDF_SCHEME_GetUnionSelector u)),
       deref (TPM2_ECC_Encrypt_REQUEST_inScheme self) TPMU_KDF_SCHEME_toTpm]"

definition TPM2_ECC_Encrypt_REQUEST_initFromTpm :: "TPM2_ECC_Encrypt_REQUEST \<Rightarrow> TPM2_ECC_Encrypt_REQUEST tpm" where
  "TPM2_ECC_Encrypt_REQUEST_initFromTpm self =
     sbind (readSizedByteBuf 2) (\<lambda>plainText.
     sbind readShort (\<lambda>inSchemeScheme.
     bindO (UnionFactory_Create_TPMU_KDF_SCHEME inSchemeScheme) (\<lambda>inScheme.
     sbind (deref inScheme TPMU_KDF_SCHEME_initFromTpm) (\<lambda>inScheme.
     ret (self\<lparr>TPM2_ECC_Encrypt_REQUEST_plainText := plainText, TPM2_ECC_Encrypt_REQUEST_inScheme := Some inScheme\<rparr>)))))"

definition TPM2_ECC_Encrypt_REQUEST_enc :: "TPM2_ECC_Encrypt_REQUEST \<Rightarrow> ByteVec" where
  "TPM2_ECC_Encrypt_REQUEST_enc x =
     enc_sized 2 (TPM2_ECC_Encrypt_REQUEST_plainText x) @
     opt_enc (\<lambda>u. enc16 (TPMU_KDF_SCHEME_GetUnionSelector u)) (TPM2_ECC_Encrypt_REQUEST_inScheme x) @
     opt_enc TPMU_KDF_SCHEME_enc (TPM2_ECC_Encrypt_REQUEST_inScheme x)"

definition TPM2_ECC_Encrypt_REQUEST_valid :: "TPM2_ECC_Encrypt_REQUEST \<Rightarrow> bool" where
  "TPM2_ECC_Encrypt_REQUEST_valid x \<longleftrightarrow>
     sized_ok 2 (TPM2_ECC_Encrypt_REQUEST_plainText x) \<and>
     opt_ok TPMU_KDF_SCHEME_valid (TPM2_ECC_Encrypt_REQUEST_inScheme x) \<and>
     TPM2_ECC_Encrypt_REQUEST_keyHandle x = TPM_HANDLE_default"

lemma TPM2_ECC_Encrypt_REQUEST_writes [writes_intros]:
  "TPM2_ECC_Encrypt_REQUEST_valid x \<Longrightarrow> writes (TPM2_ECC_Encrypt_REQUEST_toTpm x) (TPM2_ECC_Encrypt_REQUEST_enc x)"
  unfolding TPM2_ECC_Encrypt_REQUEST_toTpm_def TPM2_ECC_Encrypt_REQUEST_enc_def
  by (intro writes_intros; simp add: TPM2_ECC_Encrypt_REQUEST_valid_def opt_ok_iff)

lemma TPM2_ECC_Encrypt_REQUEST_reads:
  "TPM2_ECC_Encrypt_REQUEST_valid x \<Longrightarrow> reads (TPM2_ECC_Encrypt_REQUEST_initFromTpm TPM2_ECC_Encrypt_REQUEST_default) x (TPM2_ECC_Encrypt_REQUEST_enc x)"
  by (simp only: TPM2_ECC_Encrypt_REQUEST_initFromTpm_def TPM2_ECC_Encrypt_REQUEST_enc_def TPM2_ECC_Encrypt_REQUEST_default_def
        TPM2_ECC_Encrypt_REQUEST.select_convs TPM2_ECC_Encrypt_REQUEST.update_convs;
      intro reads_intros; (rule TPM2_ECC_Encrypt_REQUEST.equality)?; simp add: TPM2_ECC_Encrypt_REQUEST_valid_def opt_ok_iff)

interpretation TPM2_ECC_Encrypt_REQUEST_codec:
  tpm_codec TPM2_ECC_Encrypt_REQUEST_toTpm TPM2_ECC_Encrypt_REQUEST_initFromTpm TPM2_ECC_Encrypt_REQUEST_default
    TPM2_ECC_Encrypt_REQUEST_enc TPM2_ECC_Encrypt_REQUEST_valid
  by unfold_locales (erule TPM2_ECC_Encrypt_REQUEST_writes TPM2_ECC_Encrypt_REQUEST_reads | simp add: TPM2_ECC_Encrypt_REQUEST_enc_def)+

definition TPM2_ECC_Encrypt_REQUEST_req :: "TPM2_ECC_Encrypt_REQUEST \<Rightarrow> TPM_HANDLE ReqStructure" where
  "TPM2_ECC_Encrypt_REQUEST_req self =
     \<lparr>req_toTpm = TPM2_ECC_Encrypt_REQUEST_toTpm self, req_numHandles = 1,
     req_numAuthHandles = 0, req_getHandles = [TPM2_ECC_Encrypt_REQUEST_keyHandle self], req_sessEncInfo = \<lparr>sizeLen = 2, valLen = 1\<rparr>\<rparr>"

subsection \<open>ECC_EncryptResponse\<close>

text \<open>This command performs ECC encryption as described in Part 1, Annex D.\<close>

record ECC_EncryptResponse =
  ECC_EncryptResponse_C1 :: "TPMS_ECC_POINT"
  ECC_EncryptResponse_C2 :: "ByteVec"
  ECC_EncryptResponse_C3 :: "ByteVec"

definition ECC_EncryptResponse_default :: ECC_EncryptResponse where
  "ECC_EncryptResponse_default = \<lparr>ECC_EncryptResponse_C1 = TPMS_ECC_POINT_default, ECC_EncryptResponse_C2 = [], ECC_EncryptResponse_C3 = []\<rparr>"

definition ECC_EncryptResponse_toTpm :: "ECC_EncryptResponse \<Rightarrow> unit tpm" where
  "ECC_EncryptResponse_toTpm self =
     wseq [writeSizedObj TPMS_ECC_POINT_toTpm (ECC_EncryptResponse_C1 self),
       writeSizedByteBuf (ECC_EncryptResponse_C2 self) 2,
       writeSizedByteBuf (ECC_EncryptResponse_C3 self) 2]"

definition ECC_EncryptResponse_initFromTpm :: "ECC_EncryptResponse \<Rightarrow> ECC_EncryptResponse tpm" where
  "ECC_EncryptResponse_initFromTpm self =
     sbind (readSizedObj TPMS_ECC_POINT_initFromTpm (ECC_EncryptResponse_C1 self)) (\<lambda>C1.
     sbind (readSizedByteBuf 2) (\<lambda>C2.
     sbind (readSizedByteBuf 2) (\<lambda>C3.
     ret (self\<lparr>ECC_EncryptResponse_C1 := C1, ECC_EncryptResponse_C2 := C2, ECC_EncryptResponse_C3 := C3\<rparr>))))"

definition ECC_EncryptResponse_enc :: "ECC_EncryptResponse \<Rightarrow> ByteVec" where
  "ECC_EncryptResponse_enc x =
     enc_obj (TPMS_ECC_POINT_enc (ECC_EncryptResponse_C1 x)) @
     enc_sized 2 (ECC_EncryptResponse_C2 x) @
     enc_sized 2 (ECC_EncryptResponse_C3 x)"

definition ECC_EncryptResponse_valid :: "ECC_EncryptResponse \<Rightarrow> bool" where
  "ECC_EncryptResponse_valid x \<longleftrightarrow>
     sized_obj_ok TPMS_ECC_POINT_default TPMS_ECC_POINT_enc TPMS_ECC_POINT_valid (ECC_EncryptResponse_C1 x) \<and>
     sized_ok 2 (ECC_EncryptResponse_C2 x) \<and>
     sized_ok 2 (ECC_EncryptResponse_C3 x)"

lemma ECC_EncryptResponse_writes [writes_intros]:
  "ECC_EncryptResponse_valid x \<Longrightarrow> writes (ECC_EncryptResponse_toTpm x) (ECC_EncryptResponse_enc x)"
  unfolding ECC_EncryptResponse_toTpm_def ECC_EncryptResponse_enc_def
  by (intro writes_intros; simp add: ECC_EncryptResponse_valid_def opt_ok_iff)

lemma ECC_EncryptResponse_reads:
  "ECC_EncryptResponse_valid x \<Longrightarrow> reads (ECC_EncryptResponse_initFromTpm ECC_EncryptResponse_default) x (ECC_EncryptResponse_enc x)"
  by (simp only: ECC_EncryptResponse_initFromTpm_def ECC_EncryptResponse_enc_def ECC_EncryptResponse_default_def
        ECC_EncryptResponse.select_convs ECC_EncryptResponse.update_convs;
      intro reads_intros; (rule ECC_EncryptResponse.equality)?; simp add: ECC_EncryptResponse_valid_def opt_ok_iff)

interpretation ECC_EncryptResponse_codec:
  tpm_codec ECC_EncryptResponse_toTpm ECC_EncryptResponse_initFromTpm ECC_EncryptResponse_default
    ECC_EncryptResponse_enc ECC_EncryptResponse_valid
  by unfold_locales (erule ECC_EncryptResponse_writes ECC_EncryptResponse_reads | simp add: ECC_EncryptResponse_enc_def)+

definition ECC_EncryptResponse_resp :: "(TPM_HANDLE, ECC_EncryptResponse) RespStructure" where
  "ECC_EncryptResponse_resp = \<lparr>resp_default = ECC_EncryptResponse_default, resp_initFromTpm = ECC_EncryptResponse_initFromTpm,
     resp_numHandles = 0, resp_getHandle = (\<lambda>_. TPM_HANDLE_default),
     resp_setHandle = (\<lambda>_ self. self), resp_sessEncInfo = \<lparr>sizeLen = 2, valLen = 1\<rparr>\<rparr>"

subsection \<open>TPM2_ECC_Decrypt_REQUEST\<close>

text \<open>This command performs ECC decryption.\<close>

record TPM2_ECC_Decrypt_REQUEST =
  TPM2_ECC_Decrypt_REQUEST_keyHandle :: "TPM_HANDLE"
  TPM2_ECC_Decrypt_REQUEST_C1 :: "TPMS_ECC_POINT"
  TPM2_ECC_Decrypt_REQUEST_C2 :: "ByteVec"
  TPM2_ECC_Decrypt_REQUEST_C3 :: "ByteVec"
  TPM2_ECC_Decrypt_REQUEST_inScheme :: "TPMU_KDF_SCHEME option"

definition TPM2_ECC_Decrypt_REQUEST_default :: TPM2_ECC_Decrypt_REQUEST where
  "TPM2_ECC_Decrypt_REQUEST_default = \<lparr>TPM2_ECC_Decrypt_REQUEST_keyHandle = TPM_HANDLE_default, TPM2_ECC_Decrypt_REQUEST_C1 = TPMS_ECC_POINT_default, TPM2_ECC_Decrypt_REQUEST_C2 = [], TPM2_ECC_Decrypt_REQUEST_C3 = [], TPM2_ECC_Decrypt_REQUEST_inScheme = None\<rparr>"

definition TPM2_ECC_Decrypt_REQUEST_toTpm :: "TPM2_ECC_Decrypt_REQUEST \<Rightarrow> unit tpm" where
  "TPM2_ECC_Decrypt_REQUEST_toTpm self =
     wseq [writeSizedObj TPMS_ECC_POINT_toTpm (TPM2_ECC_Decrypt_REQUEST_C1 self),
       writeSizedByteBuf (TPM2_ECC_Decrypt_REQUEST_C2 self) 2,
       writeSizedByteBuf (TPM2_ECC_Decrypt_REQUEST_C3 self) 2,
       deref (TPM2_ECC_Decrypt_REQUEST_inScheme self) (\<lambda>u. writeShort (TPMU_KDF_SCHEME_GetUnionSelector u)),
       deref (TPM2_ECC_Decrypt_REQUEST_inScheme self) TPMU_KDF_SCHEME_toTpm]"

definition TPM2_ECC_Decrypt_REQUEST_initFromTpm :: "TPM2_ECC_Decrypt_REQUEST \<Rightarrow> TPM2_ECC_Decrypt_REQUEST tpm" where
  "TPM2_ECC_Decrypt_REQUEST_initFromTpm self =
     sbind (readSizedObj TPMS_ECC_POINT_initFromTpm (TPM2_ECC_Decrypt_REQUEST_C1 self)) (\<lambda>C1.
     sbind (readSizedByteBuf 2) (\<lambda>C2.
     sbind (readSizedByteBuf 2) (\<lambda>C3.
     sbind readShort (\<lambda>inSchemeScheme.
     bindO (UnionFactory_Create_TPMU_KDF_SCHEME inSchemeScheme) (\<lambda>inScheme.
     sbind (deref inScheme TPMU_KDF_SCHEME_initFromTpm) (\<lambda>inScheme.
     ret (self\<lparr>TPM2_ECC_Decrypt_REQUEST_C1 := C1, TPM2_ECC_Decrypt_REQUEST_C2 := C2, TPM2_ECC_Decrypt_REQUEST_C3 := C3, TPM2_ECC_Decrypt_REQUEST_inScheme := Some inScheme\<rparr>)))))))"

definition TPM2_ECC_Decrypt_REQUEST_enc :: "TPM2_ECC_Decrypt_REQUEST \<Rightarrow> ByteVec" where
  "TPM2_ECC_Decrypt_REQUEST_enc x =
     enc_obj (TPMS_ECC_POINT_enc (TPM2_ECC_Decrypt_REQUEST_C1 x)) @
     enc_sized 2 (TPM2_ECC_Decrypt_REQUEST_C2 x) @
     enc_sized 2 (TPM2_ECC_Decrypt_REQUEST_C3 x) @
     opt_enc (\<lambda>u. enc16 (TPMU_KDF_SCHEME_GetUnionSelector u)) (TPM2_ECC_Decrypt_REQUEST_inScheme x) @
     opt_enc TPMU_KDF_SCHEME_enc (TPM2_ECC_Decrypt_REQUEST_inScheme x)"

definition TPM2_ECC_Decrypt_REQUEST_valid :: "TPM2_ECC_Decrypt_REQUEST \<Rightarrow> bool" where
  "TPM2_ECC_Decrypt_REQUEST_valid x \<longleftrightarrow>
     sized_obj_ok TPMS_ECC_POINT_default TPMS_ECC_POINT_enc TPMS_ECC_POINT_valid (TPM2_ECC_Decrypt_REQUEST_C1 x) \<and>
     sized_ok 2 (TPM2_ECC_Decrypt_REQUEST_C2 x) \<and>
     sized_ok 2 (TPM2_ECC_Decrypt_REQUEST_C3 x) \<and>
     opt_ok TPMU_KDF_SCHEME_valid (TPM2_ECC_Decrypt_REQUEST_inScheme x) \<and>
     TPM2_ECC_Decrypt_REQUEST_keyHandle x = TPM_HANDLE_default"

lemma TPM2_ECC_Decrypt_REQUEST_writes [writes_intros]:
  "TPM2_ECC_Decrypt_REQUEST_valid x \<Longrightarrow> writes (TPM2_ECC_Decrypt_REQUEST_toTpm x) (TPM2_ECC_Decrypt_REQUEST_enc x)"
  unfolding TPM2_ECC_Decrypt_REQUEST_toTpm_def TPM2_ECC_Decrypt_REQUEST_enc_def
  by (intro writes_intros; simp add: TPM2_ECC_Decrypt_REQUEST_valid_def opt_ok_iff)

lemma TPM2_ECC_Decrypt_REQUEST_reads:
  "TPM2_ECC_Decrypt_REQUEST_valid x \<Longrightarrow> reads (TPM2_ECC_Decrypt_REQUEST_initFromTpm TPM2_ECC_Decrypt_REQUEST_default) x (TPM2_ECC_Decrypt_REQUEST_enc x)"
  by (simp only: TPM2_ECC_Decrypt_REQUEST_initFromTpm_def TPM2_ECC_Decrypt_REQUEST_enc_def TPM2_ECC_Decrypt_REQUEST_default_def
        TPM2_ECC_Decrypt_REQUEST.select_convs TPM2_ECC_Decrypt_REQUEST.update_convs;
      intro reads_intros; (rule TPM2_ECC_Decrypt_REQUEST.equality)?; simp add: TPM2_ECC_Decrypt_REQUEST_valid_def opt_ok_iff)

interpretation TPM2_ECC_Decrypt_REQUEST_codec:
  tpm_codec TPM2_ECC_Decrypt_REQUEST_toTpm TPM2_ECC_Decrypt_REQUEST_initFromTpm TPM2_ECC_Decrypt_REQUEST_default
    TPM2_ECC_Decrypt_REQUEST_enc TPM2_ECC_Decrypt_REQUEST_valid
  by unfold_locales (erule TPM2_ECC_Decrypt_REQUEST_writes TPM2_ECC_Decrypt_REQUEST_reads | simp add: TPM2_ECC_Decrypt_REQUEST_enc_def)+

definition TPM2_ECC_Decrypt_REQUEST_req :: "TPM2_ECC_Decrypt_REQUEST \<Rightarrow> TPM_HANDLE ReqStructure" where
  "TPM2_ECC_Decrypt_REQUEST_req self =
     \<lparr>req_toTpm = TPM2_ECC_Decrypt_REQUEST_toTpm self, req_numHandles = 1,
     req_numAuthHandles = 1, req_getHandles = [TPM2_ECC_Decrypt_REQUEST_keyHandle self], req_sessEncInfo = \<lparr>sizeLen = 2, valLen = 1\<rparr>\<rparr>"

subsection \<open>ECC_DecryptResponse\<close>

text \<open>This command performs ECC decryption.\<close>

record ECC_DecryptResponse =
  ECC_DecryptResponse_plainText :: "ByteVec"

definition ECC_DecryptResponse_default :: ECC_DecryptResponse where
  "ECC_DecryptResponse_default = \<lparr>ECC_DecryptResponse_plainText = []\<rparr>"

definition ECC_DecryptResponse_toTpm :: "ECC_DecryptResponse \<Rightarrow> unit tpm" where
  "ECC_DecryptResponse_toTpm self =
     wseq [writeSizedByteBuf (ECC_DecryptResponse_plainText self) 2]"

definition ECC_DecryptResponse_initFromTpm :: "ECC_DecryptResponse \<Rightarrow> ECC_DecryptResponse tpm" where
  "ECC_DecryptResponse_initFromTpm self =
     sbind (readSizedByteBuf 2) (\<lambda>plainText.
     ret (self\<lparr>ECC_DecryptResponse_plainText := plainText\<rparr>))"

definition ECC_DecryptResponse_enc :: "ECC_DecryptResponse \<Rightarrow> ByteVec" where
  "ECC_DecryptResponse_enc x =
     enc_sized 2 (ECC_DecryptResponse_plainText x)"

definition ECC_DecryptResponse_valid :: "ECC_DecryptResponse \<Rightarrow> bool" where
  "ECC_DecryptResponse_valid x \<longleftrightarrow>
     sized_ok 2 (ECC_DecryptResponse_plainText x)"

lemma ECC_DecryptResponse_writes [writes_intros]:
  "ECC_DecryptResponse_valid x \<Longrightarrow> writes (ECC_DecryptResponse_toTpm x) (ECC_DecryptResponse_enc x)"
  unfolding ECC_DecryptResponse_toTpm_def ECC_DecryptResponse_enc_def
  by (intro writes_intros; simp add: ECC_DecryptResponse_valid_def opt_ok_iff)

lemma ECC_DecryptResponse_reads:
  "ECC_DecryptResponse_valid x \<Longrightarrow> reads (ECC_DecryptResponse_initFromTpm ECC_DecryptResponse_default) x (ECC_DecryptResponse_enc x)"
  by (simp only: ECC_DecryptResponse_initFromTpm_def ECC_DecryptResponse_enc_def ECC_DecryptResponse_default_def
        ECC_DecryptResponse.select_convs ECC_DecryptResponse.update_convs;
      intro reads_intros; (rule ECC_DecryptResponse.equality)?; simp add: ECC_DecryptResponse_valid_def opt_ok_iff)

interpretation ECC_DecryptResponse_codec:
  tpm_codec ECC_DecryptResponse_toTpm ECC_DecryptResponse_initFromTpm ECC_DecryptResponse_default
    ECC_DecryptResponse_enc ECC_DecryptResponse_valid
  by unfold_locales (erule ECC_DecryptResponse_writes ECC_DecryptResponse_reads | simp add: ECC_DecryptResponse_enc_def)+

definition ECC_DecryptResponse_resp :: "(TPM_HANDLE, ECC_DecryptResponse) RespStructure" where
  "ECC_DecryptResponse_resp = \<lparr>resp_default = ECC_DecryptResponse_default, resp_initFromTpm = ECC_DecryptResponse_initFromTpm,
     resp_numHandles = 0, resp_getHandle = (\<lambda>_. TPM_HANDLE_default),
     resp_setHandle = (\<lambda>_ self. self), resp_sessEncInfo = \<lparr>sizeLen = 2, valLen = 1\<rparr>\<rparr>"

subsection \<open>TPM2_EncryptDecrypt_REQUEST\<close>

text \<open>NOTE 1 This command is deprecated, and TPM2_EncryptDecrypt2() is preferred.\<close>

record TPM2_EncryptDecrypt_REQUEST =
  TPM2_EncryptDecrypt_REQUEST_keyHandle :: "TPM_HANDLE"
  TPM2_EncryptDecrypt_REQUEST_decrypt :: "byte"
  TPM2_EncryptDecrypt_REQUEST_mode :: "TPM_ALG_ID"
  TPM2_EncryptDecrypt_REQUEST_ivIn :: "ByteVec"
  TPM2_EncryptDecrypt_REQUEST_inData :: "ByteVec"

definition TPM2_EncryptDecrypt_REQUEST_default :: TPM2_EncryptDecrypt_REQUEST where
  "TPM2_EncryptDecrypt_REQUEST_default = \<lparr>TPM2_EncryptDecrypt_REQUEST_keyHandle = TPM_HANDLE_default, TPM2_EncryptDecrypt_REQUEST_decrypt = 0, TPM2_EncryptDecrypt_REQUEST_mode = TPM_ALG_ID_NULL, TPM2_EncryptDecrypt_REQUEST_ivIn = [], TPM2_EncryptDecrypt_REQUEST_inData = []\<rparr>"

definition TPM2_EncryptDecrypt_REQUEST_toTpm :: "TPM2_EncryptDecrypt_REQUEST \<Rightarrow> unit tpm" where
  "TPM2_EncryptDecrypt_REQUEST_toTpm self =
     wseq [writeByte (TPM2_EncryptDecrypt_REQUEST_decrypt self),
       writeShort (TPM2_EncryptDecrypt_REQUEST_mode self),
       writeSizedByteBuf (TPM2_EncryptDecrypt_REQUEST_ivIn self) 2,
       writeSizedByteBuf (TPM2_EncryptDecrypt_REQUEST_inData self) 2]"

definition TPM2_EncryptDecrypt_REQUEST_initFromTpm :: "TPM2_EncryptDecrypt_REQUEST \<Rightarrow> TPM2_EncryptDecrypt_REQUEST tpm" where
  "TPM2_EncryptDecrypt_REQUEST_initFromTpm self =
     sbind readByte (\<lambda>decrypt.
     sbind readShort (\<lambda>mode.
     sbind (readSizedByteBuf 2) (\<lambda>ivIn.
     sbind (readSizedByteBuf 2) (\<lambda>inData.
     ret (self\<lparr>TPM2_EncryptDecrypt_REQUEST_decrypt := decrypt, TPM2_EncryptDecrypt_REQUEST_mode := mode, TPM2_EncryptDecrypt_REQUEST_ivIn := ivIn, TPM2_EncryptDecrypt_REQUEST_inData := inData\<rparr>)))))"

definition TPM2_EncryptDecrypt_REQUEST_enc :: "TPM2_EncryptDecrypt_REQUEST \<Rightarrow> ByteVec" where
  "TPM2_EncryptDecrypt_REQUEST_enc x =
     enc8 (TPM2_EncryptDecrypt_REQUEST_decrypt x) @
     enc16 (TPM2_EncryptDecrypt_REQUEST_mode x) @
     enc_sized 2 (TPM2_EncryptDecrypt_REQUEST_ivIn x) @
     enc_sized 2 (TPM2_EncryptDecrypt_REQUEST_inData x)"

definition TPM2_EncryptDecrypt_REQUEST_valid :: "TPM2_EncryptDecrypt_REQUEST \<Rightarrow> bool" where
  "TPM2_EncryptDecrypt_REQUEST_valid x \<longleftrightarrow>
     sized_ok 2 (TPM2_EncryptDecrypt_REQUEST_ivIn x) \<and>
     sized_ok 2 (TPM2_EncryptDecrypt_REQUEST_inData x) \<and>
     TPM2_EncryptDecrypt_REQUEST_keyHandle x = TPM_HANDLE_default"

lemma TPM2_EncryptDecrypt_REQUEST_writes [writes_intros]:
  "TPM2_EncryptDecrypt_REQUEST_valid x \<Longrightarrow> writes (TPM2_EncryptDecrypt_REQUEST_toTpm x) (TPM2_EncryptDecrypt_REQUEST_enc x)"
  unfolding TPM2_EncryptDecrypt_REQUEST_toTpm_def TPM2_EncryptDecrypt_REQUEST_enc_def
  by (intro writes_intros; simp add: TPM2_EncryptDecrypt_REQUEST_valid_def opt_ok_iff)

lemma TPM2_EncryptDecrypt_REQUEST_reads:
  "TPM2_EncryptDecrypt_REQUEST_valid x \<Longrightarrow> reads (TPM2_EncryptDecrypt_REQUEST_initFromTpm TPM2_EncryptDecrypt_REQUEST_default) x (TPM2_EncryptDecrypt_REQUEST_enc x)"
  by (simp only: TPM2_EncryptDecrypt_REQUEST_initFromTpm_def TPM2_EncryptDecrypt_REQUEST_enc_def TPM2_EncryptDecrypt_REQUEST_default_def
        TPM2_EncryptDecrypt_REQUEST.select_convs TPM2_EncryptDecrypt_REQUEST.update_convs;
      intro reads_intros; (rule TPM2_EncryptDecrypt_REQUEST.equality)?; simp add: TPM2_EncryptDecrypt_REQUEST_valid_def opt_ok_iff)

interpretation TPM2_EncryptDecrypt_REQUEST_codec:
  tpm_codec TPM2_EncryptDecrypt_REQUEST_toTpm TPM2_EncryptDecrypt_REQUEST_initFromTpm TPM2_EncryptDecrypt_REQUEST_default
    TPM2_EncryptDecrypt_REQUEST_enc TPM2_EncryptDecrypt_REQUEST_valid
  by unfold_locales (erule TPM2_EncryptDecrypt_REQUEST_writes TPM2_EncryptDecrypt_REQUEST_reads | simp add: TPM2_EncryptDecrypt_REQUEST_enc_def)+

definition TPM2_EncryptDecrypt_REQUEST_req :: "TPM2_EncryptDecrypt_REQUEST \<Rightarrow> TPM_HANDLE ReqStructure" where
  "TPM2_EncryptDecrypt_REQUEST_req self =
     \<lparr>req_toTpm = TPM2_EncryptDecrypt_REQUEST_toTpm self, req_numHandles = 1,
     req_numAuthHandles = 1, req_getHandles = [TPM2_EncryptDecrypt_REQUEST_keyHandle self], req_sessEncInfo = no_sessEncInfo\<rparr>"

subsection \<open>EncryptDecryptResponse\<close>

text \<open>NOTE 1 This command is deprecated, and TPM2_EncryptDecrypt2() is preferred.\<close>

record EncryptDecryptResponse =
  EncryptDecryptResponse_outData :: "ByteVec"
  EncryptDecryptResponse_ivOut :: "ByteVec"

definition EncryptDecryptResponse_default :: EncryptDecryptResponse where
  "EncryptDecryptResponse_default = \<lparr>EncryptDecryptResponse_outData = [], EncryptDecryptResponse_ivOut = []\<rparr>"

definition EncryptDecryptResponse_toTpm :: "EncryptDecryptResponse \<Rightarrow> unit tpm" where
  "EncryptDecryptResponse_toTpm self =
     wseq [writeSizedByteBuf (EncryptDecryptResponse_outData self) 2,
       writeSizedByteBuf (EncryptDecryptResponse_ivOut self) 2]"

definition EncryptDecryptResponse_initFromTpm :: "EncryptDecryptResponse \<Rightarrow> EncryptDecryptResponse tpm" where
  "EncryptDecryptResponse_initFromTpm self =
     sbind (readSizedByteBuf 2) (\<lambda>outData.
     sbind (readSizedByteBuf 2) (\<lambda>ivOut.
     ret (self\<lparr>EncryptDecryptResponse_outData := outData, EncryptDecryptResponse_ivOut := ivOut\<rparr>)))"

definition EncryptDecryptResponse_enc :: "EncryptDecryptResponse \<Rightarrow> ByteVec" where
  "EncryptDecryptResponse_enc x =
     enc_sized 2 (EncryptDecryptResponse_outData x) @
     enc_sized 2 (EncryptDecryptResponse_ivOut x)"

definition EncryptDecryptResponse_valid :: "EncryptDecryptResponse \<Rightarrow> bool" where
  "EncryptDecryptResponse_valid x \<longleftrightarrow>
     sized_ok 2 (EncryptDecryptResponse_outData x) \<and>
     sized_ok 2 (EncryptDecryptResponse_ivOut x)"

lemma EncryptDecryptResponse_writes [writes_intros]:
  "EncryptDecryptResponse_valid x \<Longrightarrow> writes (EncryptDecryptResponse_toTpm x) (EncryptDecryptResponse_enc x)"
  unfolding EncryptDecryptResponse_toTpm_def EncryptDecryptResponse_enc_def
  by (intro writes_intros; simp add: EncryptDecryptResponse_valid_def opt_ok_iff)

lemma EncryptDecryptResponse_reads:
  "EncryptDecryptResponse_valid x \<Longrightarrow> reads (EncryptDecryptResponse_initFromTpm EncryptDecryptResponse_default) x (EncryptDecryptResponse_enc x)"
  by (simp only: EncryptDecryptResponse_initFromTpm_def EncryptDecryptResponse_enc_def EncryptDecryptResponse_default_def
        EncryptDecryptResponse.select_convs EncryptDecryptResponse.update_convs;
      intro reads_intros; (rule EncryptDecryptResponse.equality)?; simp add: EncryptDecryptResponse_valid_def opt_ok_iff)

interpretation EncryptDecryptResponse_codec:
  tpm_codec EncryptDecryptResponse_toTpm EncryptDecryptResponse_initFromTpm EncryptDecryptResponse_default
    EncryptDecryptResponse_enc EncryptDecryptResponse_valid
  by unfold_locales (erule EncryptDecryptResponse_writes EncryptDecryptResponse_reads | simp add: EncryptDecryptResponse_enc_def)+

definition EncryptDecryptResponse_resp :: "(TPM_HANDLE, EncryptDecryptResponse) RespStructure" where
  "EncryptDecryptResponse_resp = \<lparr>resp_default = EncryptDecryptResponse_default, resp_initFromTpm = EncryptDecryptResponse_initFromTpm,
     resp_numHandles = 0, resp_getHandle = (\<lambda>_. TPM_HANDLE_default),
     resp_setHandle = (\<lambda>_ self. self), resp_sessEncInfo = \<lparr>sizeLen = 2, valLen = 1\<rparr>\<rparr>"

subsection \<open>TPM2_EncryptDecrypt2_REQUEST\<close>

text \<open>This command is identical to TPM2_EncryptDecrypt(), except that the inData parameter is the first parameter.\<close>

record TPM2_EncryptDecrypt2_REQUEST =
  TPM2_EncryptDecrypt2_REQUEST_keyHandle :: "TPM_HANDLE"
  TPM2_EncryptDecrypt2_REQUEST_inData :: "ByteVec"
  TPM2_EncryptDecrypt2_REQUEST_decrypt :: "byte"
  TPM2_EncryptDecrypt2_REQUEST_mode :: "TPM_ALG_ID"
  TPM2_EncryptDecrypt2_REQUEST_ivIn :: "ByteVec"

definition TPM2_EncryptDecrypt2_REQUEST_default :: TPM2_EncryptDecrypt2_REQUEST where
  "TPM2_EncryptDecrypt2_REQUEST_default = \<lparr>TPM2_EncryptDecrypt2_REQUEST_keyHandle = TPM_HANDLE_default, TPM2_EncryptDecrypt2_REQUEST_inData = [], TPM2_EncryptDecrypt2_REQUEST_decrypt = 0, TPM2_EncryptDecrypt2_REQUEST_mode = TPM_ALG_ID_NULL, TPM2_EncryptDecrypt2_REQUEST_ivIn = []\<rparr>"

definition TPM2_EncryptDecrypt2_REQUEST_toTpm :: "TPM2_EncryptDecrypt2_REQUEST \<Rightarrow> unit tpm" where
  "TPM2_EncryptDecrypt2_REQUEST_toTpm self =
     wseq [writeSizedByteBuf (TPM2_EncryptDecrypt2_REQUEST_inData self) 2,
       writeByte (TPM2_EncryptDecrypt2_REQUEST_decrypt self),
       writeShort (TPM2_EncryptDecrypt2_REQUEST_mode self),
       writeSizedByteBuf (TPM2_EncryptDecrypt2_REQUEST_ivIn self) 2]"

definition TPM2_EncryptDecrypt2_REQUEST_initFromTpm :: "TPM2_EncryptDecrypt2_REQUEST \<Rightarrow> TPM2_EncryptDecrypt2_REQUEST tpm" where
  "TPM2_EncryptDecrypt2_REQUEST_initFromTpm self =
     sbind (readSizedByteBuf 2) (\<lambda>inData.
     sbind readByte (\<lambda>decrypt.
     sbind readShort (\<lambda>mode.
     sbind (readSizedByteBuf 2) (\<lambda>ivIn.
     ret (self\<lparr>TPM2_EncryptDecrypt2_REQUEST_inData := inData, TPM2_EncryptDecrypt2_REQUEST_decrypt := decrypt, TPM2_EncryptDecrypt2_REQUEST_mode := mode, TPM2_EncryptDecrypt2_REQUEST_ivIn := ivIn\<rparr>)))))"

definition TPM2_EncryptDecrypt2_REQUEST_enc :: "TPM2_EncryptDecrypt2_REQUEST \<Rightarrow> ByteVec" where
  "TPM2_EncryptDecrypt2_REQUEST_enc x =
     enc_sized 2 (TPM2_EncryptDecrypt2_REQUEST_inData x) @
     enc8 (TPM2_EncryptDecrypt2_REQUEST_decrypt x) @
     enc16 (TPM2_EncryptDecrypt2_REQUEST_mode x) @
     enc_sized 2 (TPM2_EncryptDecrypt2_REQUEST_ivIn x)"

definition TPM2_EncryptDecrypt2_REQUEST_valid :: "TPM2_EncryptDecrypt2_REQUEST \<Rightarrow> bool" where
  "TPM2_EncryptDecrypt2_REQUEST_valid x \<longleftrightarrow>
     sized_ok 2 (TPM2_EncryptDecrypt2_REQUEST_inData x) \<and>
     sized_ok 2 (TPM2_EncryptDecrypt2_REQUEST_ivIn x) \<and>
     TPM2_EncryptDecrypt2_REQUEST_keyHandle x = TPM_HANDLE_default"

lemma TPM2_EncryptDecrypt2_REQUEST_writes [writes_intros]:
  "TPM2_EncryptDecrypt2_REQUEST_valid x \<Longrightarrow> writes (TPM2_EncryptDecrypt2_REQUEST_toTpm x) (TPM2_EncryptDecrypt2_REQUEST_enc x)"
  unfolding TPM2_EncryptDecrypt2_REQUEST_toTpm_def TPM2_EncryptDecrypt2_REQUEST_enc_def
  by (intro writes_intros; simp add: TPM2_EncryptDecrypt2_REQUEST_valid_def opt_ok_iff)

lemma TPM2_EncryptDecrypt2_REQUEST_reads:
  "TPM2_EncryptDecrypt2_REQUEST_valid x \<Longrightarrow> reads (TPM2_EncryptDecrypt2_REQUEST_initFromTpm TPM2_EncryptDecrypt2_REQUEST_default) x (TPM2_EncryptDecrypt2_REQUEST_enc x)"
  by (simp only: TPM2_EncryptDecrypt2_REQUEST_initFromTpm_def TPM2_EncryptDecrypt2_REQUEST_enc_def TPM2_EncryptDecrypt2_REQUEST_default_def
        TPM2_EncryptDecrypt2_REQUEST.select_convs TPM2_EncryptDecrypt2_REQUEST.update_convs;
      intro reads_intros; (rule TPM2_EncryptDecrypt2_REQUEST.equality)?; simp add: TPM2_EncryptDecrypt2_REQUEST_valid_def opt_ok_iff)

interpretation TPM2_EncryptDecrypt2_REQUEST_codec:
  tpm_codec TPM2_EncryptDecrypt2_REQUEST_toTpm TPM2_EncryptDecrypt2_REQUEST_initFromTpm TPM2_EncryptDecrypt2_REQUEST_default
    TPM2_EncryptDecrypt2_REQUEST_enc TPM2_EncryptDecrypt2_REQUEST_valid
  by unfold_locales (erule TPM2_EncryptDecrypt2_REQUEST_writes TPM2_EncryptDecrypt2_REQUEST_reads | simp add: TPM2_EncryptDecrypt2_REQUEST_enc_def)+

definition TPM2_EncryptDecrypt2_REQUEST_req :: "TPM2_EncryptDecrypt2_REQUEST \<Rightarrow> TPM_HANDLE ReqStructure" where
  "TPM2_EncryptDecrypt2_REQUEST_req self =
     \<lparr>req_toTpm = TPM2_EncryptDecrypt2_REQUEST_toTpm self, req_numHandles = 1,
     req_numAuthHandles = 1, req_getHandles = [TPM2_EncryptDecrypt2_REQUEST_keyHandle self], req_sessEncInfo = \<lparr>sizeLen = 2, valLen = 1\<rparr>\<rparr>"

subsection \<open>EncryptDecrypt2Response\<close>

text \<open>This command is identical to TPM2_EncryptDecrypt(), except that the inData parameter is the first parameter.\<close>

record EncryptDecrypt2Response =
  EncryptDecrypt2Response_outData :: "ByteVec"
  EncryptDecrypt2Response_ivOut :: "ByteVec"

definition EncryptDecrypt2Response_default :: EncryptDecrypt2Response where
  "EncryptDecrypt2Response_default = \<lparr>EncryptDecrypt2Response_outData = [], EncryptDecrypt2Response_ivOut = []\<rparr>"

definition EncryptDecrypt2Response_toTpm :: "EncryptDecrypt2Response \<Rightarrow> unit tpm" where
  "EncryptDecrypt2Response_toTpm self =
     wseq [writeSizedByteBuf (EncryptDecrypt2Response_outData self) 2,
       writeSizedByteBuf (EncryptDecrypt2Response_ivOut self) 2]"

definition EncryptDecrypt2Response_initFromTpm :: "EncryptDecrypt2Response \<Rightarrow> EncryptDecrypt2Response tpm" where
  "EncryptDecrypt2Response_initFromTpm self =
     sbind (readSizedByteBuf 2) (\<lambda>outData.
     sbind (readSizedByteBuf 2) (\<lambda>ivOut.
     ret (self\<lparr>EncryptDecrypt2Response_outData := outData, EncryptDecrypt2Response_ivOut := ivOut\<rparr>)))"

definition EncryptDecrypt2Response_enc :: "EncryptDecrypt2Response \<Rightarrow> ByteVec" where
  "EncryptDecrypt2Response_enc x =
     enc_sized 2 (EncryptDecrypt2Response_outData x) @
     enc_sized 2 (EncryptDecrypt2Response_ivOut x)"

definition EncryptDecrypt2Response_valid :: "EncryptDecrypt2Response \<Rightarrow> bool" where
  "EncryptDecrypt2Response_valid x \<longleftrightarrow>
     sized_ok 2 (EncryptDecrypt2Response_outData x) \<and>
     sized_ok 2 (EncryptDecrypt2Response_ivOut x)"

lemma EncryptDecrypt2Response_writes [writes_intros]:
  "EncryptDecrypt2Response_valid x \<Longrightarrow> writes (EncryptDecrypt2Response_toTpm x) (EncryptDecrypt2Response_enc x)"
  unfolding EncryptDecrypt2Response_toTpm_def EncryptDecrypt2Response_enc_def
  by (intro writes_intros; simp add: EncryptDecrypt2Response_valid_def opt_ok_iff)

lemma EncryptDecrypt2Response_reads:
  "EncryptDecrypt2Response_valid x \<Longrightarrow> reads (EncryptDecrypt2Response_initFromTpm EncryptDecrypt2Response_default) x (EncryptDecrypt2Response_enc x)"
  by (simp only: EncryptDecrypt2Response_initFromTpm_def EncryptDecrypt2Response_enc_def EncryptDecrypt2Response_default_def
        EncryptDecrypt2Response.select_convs EncryptDecrypt2Response.update_convs;
      intro reads_intros; (rule EncryptDecrypt2Response.equality)?; simp add: EncryptDecrypt2Response_valid_def opt_ok_iff)

interpretation EncryptDecrypt2Response_codec:
  tpm_codec EncryptDecrypt2Response_toTpm EncryptDecrypt2Response_initFromTpm EncryptDecrypt2Response_default
    EncryptDecrypt2Response_enc EncryptDecrypt2Response_valid
  by unfold_locales (erule EncryptDecrypt2Response_writes EncryptDecrypt2Response_reads | simp add: EncryptDecrypt2Response_enc_def)+

definition EncryptDecrypt2Response_resp :: "(TPM_HANDLE, EncryptDecrypt2Response) RespStructure" where
  "EncryptDecrypt2Response_resp = \<lparr>resp_default = EncryptDecrypt2Response_default, resp_initFromTpm = EncryptDecrypt2Response_initFromTpm,
     resp_numHandles = 0, resp_getHandle = (\<lambda>_. TPM_HANDLE_default),
     resp_setHandle = (\<lambda>_ self. self), resp_sessEncInfo = \<lparr>sizeLen = 2, valLen = 1\<rparr>\<rparr>"

subsection \<open>TPM2_Hash_REQUEST\<close>

text \<open>This command performs a hash operation on a data buffer and returns the results.\<close>

record TPM2_Hash_REQUEST =
  TPM2_Hash_REQUEST_data :: "ByteVec"
  TPM2_Hash_REQUEST_hashAlg :: "TPM_ALG_ID"
  TPM2_Hash_REQUEST_hierarchy :: "TPM_HANDLE"

definition TPM2_Hash_REQUEST_default :: TPM2_Hash_REQUEST where
  "TPM2_Hash_REQUEST_default = \<lparr>TPM2_Hash_REQUEST_data = [], TPM2_Hash_REQUEST_hashAlg = TPM_ALG_ID_NULL, TPM2_Hash_REQUEST_hierarchy = TPM_HANDLE_default\<rparr>"

definition TPM2_Hash_REQUEST_toTpm :: "TPM2_Hash_REQUEST \<Rightarrow> unit tpm" where
  "TPM2_Hash_REQUEST_toTpm self =
     wseq [writeSizedByteBuf (TPM2_Hash_REQUEST_data self) 2,
       writeShort (TPM2_Hash_REQUEST_hashAlg self),
       TPM_HANDLE_toTpm (TPM2_Hash_REQUEST_hierarchy self)]"

definition TPM2_Hash_REQUEST_initFromTpm :: "TPM2_Hash_REQUEST \<Rightarrow> TPM2_Hash_REQUEST tpm" where
  "TPM2_Hash_REQUEST_initFromTpm self =
     sbind (readSizedByteBuf 2) (\<lambda>data.
     sbind readShort (\<lambda>hashAlg.
     sbind (TPM_HANDLE_initFromTpm (TPM2_Hash_REQUEST_hierarchy self)) (\<lambda>hierarchy.
     ret (self\<lparr>TPM2_Hash_REQUEST_data := data, TPM2_Hash_REQUEST_hashAlg := hashAlg, TPM2_Hash_REQUEST_hierarchy := hierarchy\<rparr>))))"

definition TPM2_Hash_REQUEST_enc :: "TPM2_Hash_REQUEST \<Rightarrow> ByteVec" where
  "TPM2_Hash_REQUEST_enc x =
     enc_sized 2 (TPM2_Hash_REQUEST_data x) @
     enc16 (TPM2_Hash_REQUEST_hashAlg x) @
     TPM_HANDLE_enc (TPM2_Hash_REQUEST_hierarchy x)"

definition TPM2_Hash_REQUEST_valid :: "TPM2_Hash_REQUEST \<Rightarrow> bool" where
  "TPM2_Hash_REQUEST_valid x \<longleftrightarrow>
     sized_ok 2 (TPM2_Hash_REQUEST_data x) \<and>
     TPM_HANDLE_valid (TPM2_Hash_REQUEST_hierarchy x)"

lemma TPM2_Hash_REQUEST_writes [writes_intros]:
  "TPM2_Hash_REQUEST_valid x \<Longrightarrow> writes (TPM2_Hash_REQUEST_toTpm x) (TPM2_Hash_REQUEST_enc x)"
  unfolding TPM2_Hash_REQUEST_toTpm_def TPM2_Hash_REQUEST_enc_def
  by (intro writes_intros; simp add: TPM2_Hash_REQUEST_valid_def opt_ok_iff)

lemma TPM2_Hash_REQUEST_reads:
  "TPM2_Hash_REQUEST_valid x \<Longrightarrow> reads (TPM2_Hash_REQUEST_initFromTpm TPM2_Hash_REQUEST_default) x (TPM2_Hash_REQUEST_enc x)"
  by (simp only: TPM2_Hash_REQUEST_initFromTpm_def TPM2_Hash_REQUEST_enc_def TPM2_Hash_REQUEST_default_def
        TPM2_Hash_REQUEST.select_convs TPM2_Hash_REQUEST.update_convs;
      intro reads_intros; (rule TPM2_Hash_REQUEST.equality)?; simp add: TPM2_Hash_REQUEST_valid_def opt_ok_iff)

interpretation TPM2_Hash_REQUEST_codec:
  tpm_codec TPM2_Hash_REQUEST_toTpm TPM2_Hash_REQUEST_initFromTpm TPM2_Hash_REQUEST_default
    TPM2_Hash_REQUEST_enc TPM2_Hash_REQUEST_valid
  by unfold_locales (erule TPM2_Hash_REQUEST_writes TPM2_Hash_REQUEST_reads | simp add: TPM2_Hash_REQUEST_enc_def)+

definition TPM2_Hash_REQUEST_req :: "TPM2_Hash_REQUEST \<Rightarrow> TPM_HANDLE ReqStructure" where
  "TPM2_Hash_REQUEST_req self =
     \<lparr>req_toTpm = TPM2_Hash_REQUEST_toTpm self, req_numHandles = 0,
     req_numAuthHandles = 0, req_getHandles = [], req_sessEncInfo = \<lparr>sizeLen = 2, valLen = 1\<rparr>\<rparr>"

subsection \<open>HashResponse\<close>

text \<open>This command performs a hash operation on a data buffer and returns the results.\<close>

record HashResponse =
  HashResponse_outHash :: "ByteVec"
  HashResponse_validation :: "TPMT_TK_HASHCHECK"

definition HashResponse_default :: HashResponse where
  "HashResponse_default = \<lparr>HashResponse_outHash = [], HashResponse_validation = TPMT_TK_HASHCHECK_default\<rparr>"

definition HashResponse_toTpm :: "HashResponse \<Rightarrow> unit tpm" where
  "HashResponse_toTpm self =
     wseq [writeSizedByteBuf (HashResponse_outHash self) 2,
       TPMT_TK_HASHCHECK_toTpm (HashResponse_validation self)]"

definition HashResponse_initFromTpm :: "HashResponse \<Rightarrow> HashResponse tpm" where
  "HashResponse_initFromTpm self =
     sbind (readSizedByteBuf 2) (\<lambda>outHash.
     sbind (TPMT_TK_HASHCHECK_initFromTpm (HashResponse_validation self)) (\<lambda>validation.
     ret (self\<lparr>HashResponse_outHash := outHash, HashResponse_validation := validation\<rparr>)))"

definition HashResponse_enc :: "HashResponse \<Rightarrow> ByteVec" where
  "HashResponse_enc x =
     enc_sized 2 (HashResponse_outHash x) @
     TPMT_TK_HASHCHECK_enc (HashResponse_validation x)"

definition HashResponse_valid :: "HashResponse \<Rightarrow> bool" where
  "HashResponse_valid x \<longleftrightarrow>
     sized_ok 2 (HashResponse_outHash x) \<and>
     TPMT_TK_HASHCHECK_valid (HashResponse_validation x)"

lemma HashResponse_writes [writes_intros]:
  "HashResponse_valid x \<Longrightarrow> writes (HashResponse_toTpm x) (HashResponse_enc x)"
  unfolding HashResponse_toTpm_def HashResponse_enc_def
  by (intro writes_intros; simp add: HashResponse_valid_def opt_ok_iff)

lemma HashResponse_reads:
  "HashResponse_valid x \<Longrightarrow> reads (HashResponse_initFromTpm HashResponse_default) x (HashResponse_enc x)"
  by (simp only: HashResponse_initFromTpm_def HashResponse_enc_def HashResponse_default_def
        HashResponse.select_convs HashResponse.update_convs;
      intro reads_intros; (rule HashResponse.equality)?; simp add: HashResponse_valid_def opt_ok_iff)

interpretation HashResponse_codec:
  tpm_codec HashResponse_toTpm HashResponse_initFromTpm HashResponse_default
    HashResponse_enc HashResponse_valid
  by unfold_locales (erule HashResponse_writes HashResponse_reads | simp add: HashResponse_enc_def)+

definition HashResponse_resp :: "(TPM_HANDLE, HashResponse) RespStructure" where
  "HashResponse_resp = \<lparr>resp_default = HashResponse_default, resp_initFromTpm = HashResponse_initFromTpm,
     resp_numHandles = 0, resp_getHandle = (\<lambda>_. TPM_HANDLE_default),
     resp_setHandle = (\<lambda>_ self. self), resp_sessEncInfo = \<lparr>sizeLen = 2, valLen = 1\<rparr>\<rparr>"

subsection \<open>TPM2_HMAC_REQUEST\<close>

text \<open>This command performs an HMAC on the supplied data using the indicated hash algorithm.\<close>

record TPM2_HMAC_REQUEST =
  TPM2_HMAC_REQUEST_handle :: "TPM_HANDLE"
  TPM2_HMAC_REQUEST_buffer :: "ByteVec"
  TPM2_HMAC_REQUEST_hashAlg :: "TPM_ALG_ID"

definition TPM2_HMAC_REQUEST_default :: TPM2_HMAC_REQUEST where
  "TPM2_HMAC_REQUEST_default = \<lparr>TPM2_HMAC_REQUEST_handle = TPM_HANDLE_default, TPM2_HMAC_REQUEST_buffer = [], TPM2_HMAC_REQUEST_hashAlg = TPM_ALG_ID_NULL\<rparr>"

definition TPM2_HMAC_REQUEST_toTpm :: "TPM2_HMAC_REQUEST \<Rightarrow> unit tpm" where
  "TPM2_HMAC_REQUEST_toTpm self =
     wseq [writeSizedByteBuf (TPM2_HMAC_REQUEST_buffer self) 2,
       writeShort (TPM2_HMAC_REQUEST_hashAlg self)]"

definition TPM2_HMAC_REQUEST_initFromTpm :: "TPM2_HMAC_REQUEST \<Rightarrow> TPM2_HMAC_REQUEST tpm" where
  "TPM2_HMAC_REQUEST_initFromTpm self =
     sbind (readSizedByteBuf 2) (\<lambda>buffer.
     sbind readShort (\<lambda>hashAlg.
     ret (self\<lparr>TPM2_HMAC_REQUEST_buffer := buffer, TPM2_HMAC_REQUEST_hashAlg := hashAlg\<rparr>)))"

definition TPM2_HMAC_REQUEST_enc :: "TPM2_HMAC_REQUEST \<Rightarrow> ByteVec" where
  "TPM2_HMAC_REQUEST_enc x =
     enc_sized 2 (TPM2_HMAC_REQUEST_buffer x) @
     enc16 (TPM2_HMAC_REQUEST_hashAlg x)"

definition TPM2_HMAC_REQUEST_valid :: "TPM2_HMAC_REQUEST \<Rightarrow> bool" where
  "TPM2_HMAC_REQUEST_valid x \<longleftrightarrow>
     sized_ok 2 (TPM2_HMAC_REQUEST_buffer x) \<and>
     TPM2_HMAC_REQUEST_handle x = TPM_HANDLE_default"

lemma TPM2_HMAC_REQUEST_writes [writes_intros]:
  "TPM2_HMAC_REQUEST_valid x \<Longrightarrow> writes (TPM2_HMAC_REQUEST_toTpm x) (TPM2_HMAC_REQUEST_enc x)"
  unfolding TPM2_HMAC_REQUEST_toTpm_def TPM2_HMAC_REQUEST_enc_def
  by (intro writes_intros; simp add: TPM2_HMAC_REQUEST_valid_def opt_ok_iff)

lemma TPM2_HMAC_REQUEST_reads:
  "TPM2_HMAC_REQUEST_valid x \<Longrightarrow> reads (TPM2_HMAC_REQUEST_initFromTpm TPM2_HMAC_REQUEST_default) x (TPM2_HMAC_REQUEST_enc x)"
  by (simp only: TPM2_HMAC_REQUEST_initFromTpm_def TPM2_HMAC_REQUEST_enc_def TPM2_HMAC_REQUEST_default_def
        TPM2_HMAC_REQUEST.select_convs TPM2_HMAC_REQUEST.update_convs;
      intro reads_intros; (rule TPM2_HMAC_REQUEST.equality)?; simp add: TPM2_HMAC_REQUEST_valid_def opt_ok_iff)

interpretation TPM2_HMAC_REQUEST_codec:
  tpm_codec TPM2_HMAC_REQUEST_toTpm TPM2_HMAC_REQUEST_initFromTpm TPM2_HMAC_REQUEST_default
    TPM2_HMAC_REQUEST_enc TPM2_HMAC_REQUEST_valid
  by unfold_locales (erule TPM2_HMAC_REQUEST_writes TPM2_HMAC_REQUEST_reads | simp add: TPM2_HMAC_REQUEST_enc_def)+

definition TPM2_HMAC_REQUEST_req :: "TPM2_HMAC_REQUEST \<Rightarrow> TPM_HANDLE ReqStructure" where
  "TPM2_HMAC_REQUEST_req self =
     \<lparr>req_toTpm = TPM2_HMAC_REQUEST_toTpm self, req_numHandles = 1,
     req_numAuthHandles = 1, req_getHandles = [TPM2_HMAC_REQUEST_handle self], req_sessEncInfo = \<lparr>sizeLen = 2, valLen = 1\<rparr>\<rparr>"

subsection \<open>HMACResponse\<close>

text \<open>This command performs an HMAC on the supplied data using the indicated hash algorithm.\<close>

record HMACResponse =
  HMACResponse_outHMAC :: "ByteVec"

definition HMACResponse_default :: HMACResponse where
  "HMACResponse_default = \<lparr>HMACResponse_outHMAC = []\<rparr>"

definition HMACResponse_toTpm :: "HMACResponse \<Rightarrow> unit tpm" where
  "HMACResponse_toTpm self =
     wseq [writeSizedByteBuf (HMACResponse_outHMAC self) 2]"

definition HMACResponse_initFromTpm :: "HMACResponse \<Rightarrow> HMACResponse tpm" where
  "HMACResponse_initFromTpm self =
     sbind (readSizedByteBuf 2) (\<lambda>outHMAC.
     ret (self\<lparr>HMACResponse_outHMAC := outHMAC\<rparr>))"

definition HMACResponse_enc :: "HMACResponse \<Rightarrow> ByteVec" where
  "HMACResponse_enc x =
     enc_sized 2 (HMACResponse_outHMAC x)"

definition HMACResponse_valid :: "HMACResponse \<Rightarrow> bool" where
  "HMACResponse_valid x \<longleftrightarrow>
     sized_ok 2 (HMACResponse_outHMAC x)"

lemma HMACResponse_writes [writes_intros]:
  "HMACResponse_valid x \<Longrightarrow> writes (HMACResponse_toTpm x) (HMACResponse_enc x)"
  unfolding HMACResponse_toTpm_def HMACResponse_enc_def
  by (intro writes_intros; simp add: HMACResponse_valid_def opt_ok_iff)

lemma HMACResponse_reads:
  "HMACResponse_valid x \<Longrightarrow> reads (HMACResponse_initFromTpm HMACResponse_default) x (HMACResponse_enc x)"
  by (simp only: HMACResponse_initFromTpm_def HMACResponse_enc_def HMACResponse_default_def
        HMACResponse.select_convs HMACResponse.update_convs;
      intro reads_intros; (rule HMACResponse.equality)?; simp add: HMACResponse_valid_def opt_ok_iff)

interpretation HMACResponse_codec:
  tpm_codec HMACResponse_toTpm HMACResponse_initFromTpm HMACResponse_default
    HMACResponse_enc HMACResponse_valid
  by unfold_locales (erule HMACResponse_writes HMACResponse_reads | simp add: HMACResponse_enc_def)+

definition HMACResponse_resp :: "(TPM_HANDLE, HMACResponse) RespStructure" where
  "HMACResponse_resp = \<lparr>resp_default = HMACResponse_default, resp_initFromTpm = HMACResponse_initFromTpm,
     resp_numHandles = 0, resp_getHandle = (\<lambda>_. TPM_HANDLE_default),
     resp_setHandle = (\<lambda>_ self. self), resp_sessEncInfo = \<lparr>sizeLen = 2, valLen = 1\<rparr>\<rparr>"

subsection \<open>TPM2_MAC_REQUEST\<close>

text \<open>This command performs an HMAC or a block cipher MAC on the supplied data using the indicated algorithm.\<close>

record TPM2_MAC_REQUEST =
  TPM2_MAC_REQUEST_handle :: "TPM_HANDLE"
  TPM2_MAC_REQUEST_buffer :: "ByteVec"
  TPM2_MAC_REQUEST_inScheme :: "TPM_ALG_ID"

definition TPM2_MAC_REQUEST_default :: TPM2_MAC_REQUEST where
  "TPM2_MAC_REQUEST_default = \<lparr>TPM2_MAC_REQUEST_handle = TPM_HANDLE_default, TPM2_MAC_REQUEST_buffer = [], TPM2_MAC_REQUEST_inScheme = TPM_ALG_ID_NULL\<rparr>"

definition TPM2_MAC_REQUEST_toTpm :: "TPM2_MAC_REQUEST \<Rightarrow> unit tpm" where
  "TPM2_MAC_REQUEST_toTpm self =
     wseq [writeSizedByteBuf (TPM2_MAC_REQUEST_buffer self) 2,
       writeShort (TPM2_MAC_REQUEST_inScheme self)]"

definition TPM2_MAC_REQUEST_initFromTpm :: "TPM2_MAC_REQUEST \<Rightarrow> TPM2_MAC_REQUEST tpm" where
  "TPM2_MAC_REQUEST_initFromTpm self =
     sbind (readSizedByteBuf 2) (\<lambda>buffer.
     sbind readShort (\<lambda>inScheme.
     ret (self\<lparr>TPM2_MAC_REQUEST_buffer := buffer, TPM2_MAC_REQUEST_inScheme := inScheme\<rparr>)))"

definition TPM2_MAC_REQUEST_enc :: "TPM2_MAC_REQUEST \<Rightarrow> ByteVec" where
  "TPM2_MAC_REQUEST_enc x =
     enc_sized 2 (TPM2_MAC_REQUEST_buffer x) @
     enc16 (TPM2_MAC_REQUEST_inScheme x)"

definition TPM2_MAC_REQUEST_valid :: "TPM2_MAC_REQUEST \<Rightarrow> bool" where
  "TPM2_MAC_REQUEST_valid x \<longleftrightarrow>
     sized_ok 2 (TPM2_MAC_REQUEST_buffer x) \<and>
     TPM2_MAC_REQUEST_handle x = TPM_HANDLE_default"

lemma TPM2_MAC_REQUEST_writes [writes_intros]:
  "TPM2_MAC_REQUEST_valid x \<Longrightarrow> writes (TPM2_MAC_REQUEST_toTpm x) (TPM2_MAC_REQUEST_enc x)"
  unfolding TPM2_MAC_REQUEST_toTpm_def TPM2_MAC_REQUEST_enc_def
  by (intro writes_intros; simp add: TPM2_MAC_REQUEST_valid_def opt_ok_iff)

lemma TPM2_MAC_REQUEST_reads:
  "TPM2_MAC_REQUEST_valid x \<Longrightarrow> reads (TPM2_MAC_REQUEST_initFromTpm TPM2_MAC_REQUEST_default) x (TPM2_MAC_REQUEST_enc x)"
  by (simp only: TPM2_MAC_REQUEST_initFromTpm_def TPM2_MAC_REQUEST_enc_def TPM2_MAC_REQUEST_default_def
        TPM2_MAC_REQUEST.select_convs TPM2_MAC_REQUEST.update_convs;
      intro reads_intros; (rule TPM2_MAC_REQUEST.equality)?; simp add: TPM2_MAC_REQUEST_valid_def opt_ok_iff)

interpretation TPM2_MAC_REQUEST_codec:
  tpm_codec TPM2_MAC_REQUEST_toTpm TPM2_MAC_REQUEST_initFromTpm TPM2_MAC_REQUEST_default
    TPM2_MAC_REQUEST_enc TPM2_MAC_REQUEST_valid
  by unfold_locales (erule TPM2_MAC_REQUEST_writes TPM2_MAC_REQUEST_reads | simp add: TPM2_MAC_REQUEST_enc_def)+

definition TPM2_MAC_REQUEST_req :: "TPM2_MAC_REQUEST \<Rightarrow> TPM_HANDLE ReqStructure" where
  "TPM2_MAC_REQUEST_req self =
     \<lparr>req_toTpm = TPM2_MAC_REQUEST_toTpm self, req_numHandles = 1,
     req_numAuthHandles = 1, req_getHandles = [TPM2_MAC_REQUEST_handle self], req_sessEncInfo = \<lparr>sizeLen = 2, valLen = 1\<rparr>\<rparr>"

subsection \<open>MACResponse\<close>

text \<open>This command performs an HMAC or a block cipher MAC on the supplied data using the indicated algorithm.\<close>

record MACResponse =
  MACResponse_outMAC :: "ByteVec"

definition MACResponse_default :: MACResponse where
  "MACResponse_default = \<lparr>MACResponse_outMAC = []\<rparr>"

definition MACResponse_toTpm :: "MACResponse \<Rightarrow> unit tpm" where
  "MACResponse_toTpm self =
     wseq [writeSizedByteBuf (MACResponse_outMAC self) 2]"

definition MACResponse_initFromTpm :: "MACResponse \<Rightarrow> MACResponse tpm" where
  "MACResponse_initFromTpm self =
     sbind (readSizedByteBuf 2) (\<lambda>outMAC.
     ret (self\<lparr>MACResponse_outMAC := outMAC\<rparr>))"

definition MACResponse_enc :: "MACResponse \<Rightarrow> ByteVec" where
  "MACResponse_enc x =
     enc_sized 2 (MACResponse_outMAC x)"

definition MACResponse_valid :: "MACResponse \<Rightarrow> bool" where
  "MACResponse_valid x \<longleftrightarrow>
     sized_ok 2 (MACResponse_outMAC x)"

lemma MACResponse_writes [writes_intros]:
  "MACResponse_valid x \<Longrightarrow> writes (MACResponse_toTpm x) (MACResponse_enc x)"
  unfolding MACResponse_toTpm_def MACResponse_enc_def
  by (intro writes_intros; simp add: MACResponse_valid_def opt_ok_iff)

lemma MACResponse_reads:
  "MACResponse_valid x \<Longrightarrow> reads (MACResponse_initFromTpm MACResponse_default) x (MACResponse_enc x)"
  by (simp only: MACResponse_initFromTpm_def MACResponse_enc_def MACResponse_default_def
        MACResponse.select_convs MACResponse.update_convs;
      intro reads_intros; (rule MACResponse.equality)?; simp add: MACResponse_valid_def opt_ok_iff)

interpretation MACResponse_codec:
  tpm_codec MACResponse_toTpm MACResponse_initFromTpm MACResponse_default
    MACResponse_enc MACResponse_valid
  by unfold_locales (erule MACResponse_writes MACResponse_reads | simp add: MACResponse_enc_def)+

definition MACResponse_resp :: "(TPM_HANDLE, MACResponse) RespStructure" where
  "MACResponse_resp = \<lparr>resp_default = MACResponse_default, resp_initFromTpm = MACResponse_initFromTpm,
     resp_numHandles = 0, resp_getHandle = (\<lambda>_. TPM_HANDLE_default),
     resp_setHandle = (\<lambda>_ self. self), resp_sessEncInfo = \<lparr>sizeLen = 2, valLen = 1\<rparr>\<rparr>"

subsection \<open>TPM2_GetRandom_REQUEST\<close>

text \<open>This command returns the next bytesRequested octets from the random number generator (RNG).\<close>

record TPM2_GetRandom_REQUEST =
  TPM2_GetRandom_REQUEST_bytesRequested :: "UINT16"

definition TPM2_GetRandom_REQUEST_default :: TPM2_GetRandom_REQUEST where
  "TPM2_GetRandom_REQUEST_default = \<lparr>TPM2_GetRandom_REQUEST_bytesRequested = 0\<rparr>"

definition TPM2_GetRandom_REQUEST_toTpm :: "TPM2_GetRandom_REQUEST \<Rightarrow> unit tpm" where
  "TPM2_GetRandom_REQUEST_toTpm self =
     wseq [writeShort (TPM2_GetRandom_REQUEST_bytesRequested self)]"

definition TPM2_GetRandom_REQUEST_initFromTpm :: "TPM2_GetRandom_REQUEST \<Rightarrow> TPM2_GetRandom_REQUEST tpm" where
  "TPM2_GetRandom_REQUEST_initFromTpm self =
     sbind readShort (\<lambda>bytesRequested.
     ret (self\<lparr>TPM2_GetRandom_REQUEST_bytesRequested := bytesRequested\<rparr>))"

definition TPM2_GetRandom_REQUEST_enc :: "TPM2_GetRandom_REQUEST \<Rightarrow> ByteVec" where
  "TPM2_GetRandom_REQUEST_enc x =
     enc16 (TPM2_GetRandom_REQUEST_bytesRequested x)"

definition TPM2_GetRandom_REQUEST_valid :: "TPM2_GetRandom_REQUEST \<Rightarrow> bool" where
  "TPM2_GetRandom_REQUEST_valid x \<longleftrightarrow>
     True"

lemma TPM2_GetRandom_REQUEST_writes [writes_intros]:
  "TPM2_GetRandom_REQUEST_valid x \<Longrightarrow> writes (TPM2_GetRandom_REQUEST_toTpm x) (TPM2_GetRandom_REQUEST_enc x)"
  unfolding TPM2_GetRandom_REQUEST_toTpm_def TPM2_GetRandom_REQUEST_enc_def
  by (intro writes_intros; simp add: TPM2_GetRandom_REQUEST_valid_def opt_ok_iff)

lemma TPM2_GetRandom_REQUEST_reads:
  "TPM2_GetRandom_REQUEST_valid x \<Longrightarrow> reads (TPM2_GetRandom_REQUEST_initFromTpm TPM2_GetRandom_REQUEST_default) x (TPM2_GetRandom_REQUEST_enc x)"
  by (simp only: TPM2_GetRandom_REQUEST_initFromTpm_def TPM2_GetRandom_REQUEST_enc_def TPM2_GetRandom_REQUEST_default_def
        TPM2_GetRandom_REQUEST.select_convs TPM2_GetRandom_REQUEST.update_convs;
      intro reads_intros; (rule TPM2_GetRandom_REQUEST.equality)?; simp add: TPM2_GetRandom_REQUEST_valid_def opt_ok_iff)

interpretation TPM2_GetRandom_REQUEST_codec:
  tpm_codec TPM2_GetRandom_REQUEST_toTpm TPM2_GetRandom_REQUEST_initFromTpm TPM2_GetRandom_REQUEST_default
    TPM2_GetRandom_REQUEST_enc TPM2_GetRandom_REQUEST_valid
  by unfold_locales (erule TPM2_GetRandom_REQUEST_writes TPM2_GetRandom_REQUEST_reads | simp add: TPM2_GetRandom_REQUEST_enc_def)+

definition TPM2_GetRandom_REQUEST_req :: "TPM2_GetRandom_REQUEST \<Rightarrow> TPM_HANDLE ReqStructure" where
  "TPM2_GetRandom_REQUEST_req self =
     \<lparr>req_toTpm = TPM2_GetRandom_REQUEST_toTpm self, req_numHandles = 0,
     req_numAuthHandles = 0, req_getHandles = [], req_sessEncInfo = no_sessEncInfo\<rparr>"

subsection \<open>GetRandomResponse\<close>

text \<open>This command returns the next bytesRequested octets from the random number generator (RNG).\<close>

record GetRandomResponse =
  GetRandomResponse_randomBytes :: "ByteVec"

definition GetRandomResponse_default :: GetRandomResponse where
  "GetRandomResponse_default = \<lparr>GetRandomResponse_randomBytes = []\<rparr>"

definition GetRandomResponse_toTpm :: "GetRandomResponse \<Rightarrow> unit tpm" where
  "GetRandomResponse_toTpm self =
     wseq [writeSizedByteBuf (GetRandomResponse_randomBytes self) 2]"

definition GetRandomResponse_initFromTpm :: "GetRandomResponse \<Rightarrow> GetRandomResponse tpm" where
  "GetRandomResponse_initFromTpm self =
     sbind (readSizedByteBuf 2) (\<lambda>randomBytes.
     ret (self\<lparr>GetRandomResponse_randomBytes := randomBytes\<rparr>))"

definition GetRandomResponse_enc :: "GetRandomResponse \<Rightarrow> ByteVec" where
  "GetRandomResponse_enc x =
     enc_sized 2 (GetRandomResponse_randomBytes x)"

definition GetRandomResponse_valid :: "GetRandomResponse \<Rightarrow> bool" where
  "GetRandomResponse_valid x \<longleftrightarrow>
     sized_ok 2 (GetRandomResponse_randomBytes x)"

lemma GetRandomResponse_writes [writes_intros]:
  "GetRandomResponse_valid x \<Longrightarrow> writes (GetRandomResponse_toTpm x) (GetRandomResponse_enc x)"
  unfolding GetRandomResponse_toTpm_def GetRandomResponse_enc_def
  by (intro writes_intros; simp add: GetRandomResponse_valid_def opt_ok_iff)

lemma GetRandomResponse_reads:
  "GetRandomResponse_valid x \<Longrightarrow> reads (GetRandomResponse_initFromTpm GetRandomResponse_default) x (GetRandomResponse_enc x)"
  by (simp only: GetRandomResponse_initFromTpm_def GetRandomResponse_enc_def GetRandomResponse_default_def
        GetRandomResponse.select_convs GetRandomResponse.update_convs;
      intro reads_intros; (rule GetRandomResponse.equality)?; simp add: GetRandomResponse_valid_def opt_ok_iff)

interpretation GetRandomResponse_codec:
  tpm_codec GetRandomResponse_toTpm GetRandomResponse_initFromTpm GetRandomResponse_default
    GetRandomResponse_enc GetRandomResponse_valid
  by unfold_locales (erule GetRandomResponse_writes GetRandomResponse_reads | simp add: GetRandomResponse_enc_def)+

definition GetRandomResponse_resp :: "(TPM_HANDLE, GetRandomResponse) RespStructure" where
  "GetRandomResponse_resp = \<lparr>resp_default = GetRandomResponse_default, resp_initFromTpm = GetRandomResponse_initFromTpm,
     resp_numHandles = 0, resp_getHandle = (\<lambda>_. TPM_HANDLE_default),
     resp_setHandle = (\<lambda>_ self. self), resp_sessEncInfo = \<lparr>sizeLen = 2, valLen = 1\<rparr>\<rparr>"

subsection \<open>TPM2_StirRandom_REQUEST\<close>

text \<open>This command is used to add "additional information" to the RNG state.\<close>

record TPM2_StirRandom_REQUEST =
  TPM2_StirRandom_REQUEST_inData :: "ByteVec"

definition TPM2_StirRandom_REQUEST_default :: TPM2_StirRandom_REQUEST where
  "TPM2_StirRandom_REQUEST_default = \<lparr>TPM2_StirRandom_REQUEST_inData = []\<rparr>"

definition TPM2_StirRandom_REQUEST_toTpm :: "TPM2_StirRandom_REQUEST \<Rightarrow> unit tpm" where
  "TPM2_StirRandom_REQUEST_toTpm self =
     wseq [writeSizedByteBuf (TPM2_StirRandom_REQUEST_inData self) 2]"

definition TPM2_StirRandom_REQUEST_initFromTpm :: "TPM2_StirRandom_REQUEST \<Rightarrow> TPM2_StirRandom_REQUEST tpm" where
  "TPM2_StirRandom_REQUEST_initFromTpm self =
     sbind (readSizedByteBuf 2) (\<lambda>inData.
     ret (self\<lparr>TPM2_StirRandom_REQUEST_inData := inData\<rparr>))"

definition TPM2_StirRandom_REQUEST_enc :: "TPM2_StirRandom_REQUEST \<Rightarrow> ByteVec" where
  "TPM2_StirRandom_REQUEST_enc x =
     enc_sized 2 (TPM2_StirRandom_REQUEST_inData x)"

definition TPM2_StirRandom_REQUEST_valid :: "TPM2_StirRandom_REQUEST \<Rightarrow> bool" where
  "TPM2_StirRandom_REQUEST_valid x \<longleftrightarrow>
     sized_ok 2 (TPM2_StirRandom_REQUEST_inData x)"

lemma TPM2_StirRandom_REQUEST_writes [writes_intros]:
  "TPM2_StirRandom_REQUEST_valid x \<Longrightarrow> writes (TPM2_StirRandom_REQUEST_toTpm x) (TPM2_StirRandom_REQUEST_enc x)"
  unfolding TPM2_StirRandom_REQUEST_toTpm_def TPM2_StirRandom_REQUEST_enc_def
  by (intro writes_intros; simp add: TPM2_StirRandom_REQUEST_valid_def opt_ok_iff)

lemma TPM2_StirRandom_REQUEST_reads:
  "TPM2_StirRandom_REQUEST_valid x \<Longrightarrow> reads (TPM2_StirRandom_REQUEST_initFromTpm TPM2_StirRandom_REQUEST_default) x (TPM2_StirRandom_REQUEST_enc x)"
  by (simp only: TPM2_StirRandom_REQUEST_initFromTpm_def TPM2_StirRandom_REQUEST_enc_def TPM2_StirRandom_REQUEST_default_def
        TPM2_StirRandom_REQUEST.select_convs TPM2_StirRandom_REQUEST.update_convs;
      intro reads_intros; (rule TPM2_StirRandom_REQUEST.equality)?; simp add: TPM2_StirRandom_REQUEST_valid_def opt_ok_iff)

interpretation TPM2_StirRandom_REQUEST_codec:
  tpm_codec TPM2_StirRandom_REQUEST_toTpm TPM2_StirRandom_REQUEST_initFromTpm TPM2_StirRandom_REQUEST_default
    TPM2_StirRandom_REQUEST_enc TPM2_StirRandom_REQUEST_valid
  by unfold_locales (erule TPM2_StirRandom_REQUEST_writes TPM2_StirRandom_REQUEST_reads | simp add: TPM2_StirRandom_REQUEST_enc_def)+

definition TPM2_StirRandom_REQUEST_req :: "TPM2_StirRandom_REQUEST \<Rightarrow> TPM_HANDLE ReqStructure" where
  "TPM2_StirRandom_REQUEST_req self =
     \<lparr>req_toTpm = TPM2_StirRandom_REQUEST_toTpm self, req_numHandles = 0,
     req_numAuthHandles = 0, req_getHandles = [], req_sessEncInfo = \<lparr>sizeLen = 2, valLen = 1\<rparr>\<rparr>"

subsection \<open>TPM2_HMAC_Start_REQUEST\<close>

text \<open>This command starts an HMAC sequence.\<close>

record TPM2_HMAC_Start_REQUEST =
  TPM2_HMAC_Start_REQUEST_handle :: "TPM_HANDLE"
  TPM2_HMAC_Start_REQUEST_auth :: "ByteVec"
  TPM2_HMAC_Start_REQUEST_hashAlg :: "TPM_ALG_ID"

definition TPM2_HMAC_Start_REQUEST_default :: TPM2_HMAC_Start_REQUEST where
  "TPM2_HMAC_Start_REQUEST_default = \<lparr>TPM2_HMAC_Start_REQUEST_handle = TPM_HANDLE_default, TPM2_HMAC_Start_REQUEST_auth = [], TPM2_HMAC_Start_REQUEST_hashAlg = TPM_ALG_ID_NULL\<rparr>"

definition TPM2_HMAC_Start_REQUEST_toTpm :: "TPM2_HMAC_Start_REQUEST \<Rightarrow> unit tpm" where
  "TPM2_HMAC_Start_REQUEST_toTpm self =
     wseq [writeSizedByteBuf (TPM2_HMAC_Start_REQUEST_auth self) 2,
       writeShort (TPM2_HMAC_Start_REQUEST_hashAlg self)]"

definition TPM2_HMAC_Start_REQUEST_initFromTpm :: "TPM2_HMAC_Start_REQUEST \<Rightarrow> TPM2_HMAC_Start_REQUEST tpm" where
  "TPM2_HMAC_Start_REQUEST_initFromTpm self =
     sbind (readSizedByteBuf 2) (\<lambda>auth.
     sbind readShort (\<lambda>hashAlg.
     ret (self\<lparr>TPM2_HMAC_Start_REQUEST_auth := auth, TPM2_HMAC_Start_REQUEST_hashAlg := hashAlg\<rparr>)))"

definition TPM2_HMAC_Start_REQUEST_enc :: "TPM2_HMAC_Start_REQUEST \<Rightarrow> ByteVec" where
  "TPM2_HMAC_Start_REQUEST_enc x =
     enc_sized 2 (TPM2_HMAC_Start_REQUEST_auth x) @
     enc16 (TPM2_HMAC_Start_REQUEST_hashAlg x)"

definition TPM2_HMAC_Start_REQUEST_valid :: "TPM2_HMAC_Start_REQUEST \<Rightarrow> bool" where
  "TPM2_HMAC_Start_REQUEST_valid x \<longleftrightarrow>
     sized_ok 2 (TPM2_HMAC_Start_REQUEST_auth x) \<and>
     TPM2_HMAC_Start_REQUEST_handle x = TPM_HANDLE_default"

lemma TPM2_HMAC_Start_REQUEST_writes [writes_intros]:
  "TPM2_HMAC_Start_REQUEST_valid x \<Longrightarrow> writes (TPM2_HMAC_Start_REQUEST_toTpm x) (TPM2_HMAC_Start_REQUEST_enc x)"
  unfolding TPM2_HMAC_Start_REQUEST_toTpm_def TPM2_HMAC_Start_REQUEST_enc_def
  by (intro writes_intros; simp add: TPM2_HMAC_Start_REQUEST_valid_def opt_ok_iff)

lemma TPM2_HMAC_Start_REQUEST_reads:
  "TPM2_HMAC_Start_REQUEST_valid x \<Longrightarrow> reads (TPM2_HMAC_Start_REQUEST_initFromTpm TPM2_HMAC_Start_REQUEST_default) x (TPM2_HMAC_Start_REQUEST_enc x)"
  by (simp only: TPM2_HMAC_Start_REQUEST_initFromTpm_def TPM2_HMAC_Start_REQUEST_enc_def TPM2_HMAC_Start_REQUEST_default_def
        TPM2_HMAC_Start_REQUEST.select_convs TPM2_HMAC_Start_REQUEST.update_convs;
      intro reads_intros; (rule TPM2_HMAC_Start_REQUEST.equality)?; simp add: TPM2_HMAC_Start_REQUEST_valid_def opt_ok_iff)

interpretation TPM2_HMAC_Start_REQUEST_codec:
  tpm_codec TPM2_HMAC_Start_REQUEST_toTpm TPM2_HMAC_Start_REQUEST_initFromTpm TPM2_HMAC_Start_REQUEST_default
    TPM2_HMAC_Start_REQUEST_enc TPM2_HMAC_Start_REQUEST_valid
  by unfold_locales (erule TPM2_HMAC_Start_REQUEST_writes TPM2_HMAC_Start_REQUEST_reads | simp add: TPM2_HMAC_Start_REQUEST_enc_def)+

definition TPM2_HMAC_Start_REQUEST_req :: "TPM2_HMAC_Start_REQUEST \<Rightarrow> TPM_HANDLE ReqStructure" where
  "TPM2_HMAC_Start_REQUEST_req self =
     \<lparr>req_toTpm = TPM2_HMAC_Start_REQUEST_toTpm self, req_numHandles = 1,
     req_numAuthHandles = 1, req_getHandles = [TPM2_HMAC_Start_REQUEST_handle self], req_sessEncInfo = \<lparr>sizeLen = 2, valLen = 1\<rparr>\<rparr>"

subsection \<open>HMAC_StartResponse\<close>

text \<open>This command starts an HMAC sequence.\<close>

record HMAC_StartResponse =
  HMAC_StartResponse_handle :: "TPM_HANDLE"

definition HMAC_StartResponse_default :: HMAC_StartResponse where
  "HMAC_StartResponse_default = \<lparr>HMAC_StartResponse_handle = TPM_HANDLE_default\<rparr>"

definition HMAC_StartResponse_toTpm :: "HMAC_StartResponse \<Rightarrow> unit tpm" where
  "HMAC_StartResponse_toTpm self =
     wseq []"

definition HMAC_StartResponse_initFromTpm :: "HMAC_StartResponse \<Rightarrow> HMAC_StartResponse tpm" where
  "HMAC_StartResponse_initFromTpm self =
     ret self"

definition HMAC_StartResponse_enc :: "HMAC_StartResponse \<Rightarrow> ByteVec" where
  "HMAC_StartResponse_enc x =
     []"

definition HMAC_StartResponse_valid :: "HMAC_StartResponse \<Rightarrow> bool" where
  "HMAC_StartResponse_valid x \<longleftrightarrow>
     HMAC_StartResponse_handle x = TPM_HANDLE_default"

lemma HMAC_StartResponse_writes [writes_intros]:
  "HMAC_StartResponse_valid x \<Longrightarrow> writes (HMAC_StartResponse_toTpm x) (HMAC_StartResponse_enc x)"
  unfolding HMAC_StartResponse_toTpm_def HMAC_StartResponse_enc_def
  by (intro writes_intros; simp add: HMAC_StartResponse_valid_def opt_ok_iff)

lemma HMAC_StartResponse_reads:
  "HMAC_StartResponse_valid x \<Longrightarrow> reads (HMAC_StartResponse_initFromTpm HMAC_StartResponse_default) x (HMAC_StartResponse_enc x)"
  by (simp only: HMAC_StartResponse_initFromTpm_def HMAC_StartResponse_enc_def HMAC_StartResponse_default_def
        HMAC_StartResponse.select_convs HMAC_StartResponse.update_convs;
      intro reads_intros; (rule HMAC_StartResponse.equality)?; simp add: HMAC_StartResponse_valid_def opt_ok_iff)

interpretation HMAC_StartResponse_codec:
  tpm_codec HMAC_StartResponse_toTpm HMAC_StartResponse_initFromTpm HMAC_StartResponse_default
    HMAC_StartResponse_enc HMAC_StartResponse_valid
  by unfold_locales (erule HMAC_StartResponse_writes HMAC_StartResponse_reads | simp add: HMAC_StartResponse_toTpm_def writes_ret)+

definition HMAC_StartResponse_resp :: "(TPM_HANDLE, HMAC_StartResponse) RespStructure" where
  "HMAC_StartResponse_resp = \<lparr>resp_default = HMAC_StartResponse_default, resp_initFromTpm = HMAC_StartResponse_initFromTpm,
     resp_numHandles = 1, resp_getHandle = HMAC_StartResponse_handle,
     resp_setHandle = (\<lambda>h self. self\<lparr>HMAC_StartResponse_handle := h\<rparr>), resp_sessEncInfo = no_sessEncInfo\<rparr>"

subsection \<open>TPM2_MAC_Start_REQUEST\<close>

text \<open>This command starts a MAC sequence.\<close>

record TPM2_MAC_Start_REQUEST =
  TPM2_MAC_Start_REQUEST_handle :: "TPM_HANDLE"
  TPM2_MAC_Start_REQUEST_auth :: "ByteVec"
  TPM2_MAC_Start_REQUEST_inScheme :: "TPM_ALG_ID"

definition TPM2_MAC_Start_REQUEST_default :: TPM2_MAC_Start_REQUEST where
  "TPM2_MAC_Start_REQUEST_default = \<lparr>TPM2_MAC_Start_REQUEST_handle = TPM_HANDLE_default, TPM2_MAC_Start_REQUEST_auth = [], TPM2_MAC_Start_REQUEST_inScheme = TPM_ALG_ID_NULL\<rparr>"

definition TPM2_MAC_Start_REQUEST_toTpm :: "TPM2_MAC_Start_REQUEST \<Rightarrow> unit tpm" where
  "TPM2_MAC_Start_REQUEST_toTpm self =
     wseq [writeSizedByteBuf (TPM2_MAC_Start_REQUEST_auth self) 2,
       writeShort (TPM2_MAC_Start_REQUEST_inScheme self)]"

definition TPM2_MAC_Start_REQUEST_initFromTpm :: "TPM2_MAC_Start_REQUEST \<Rightarrow> TPM2_MAC_Start_REQUEST tpm" where
  "TPM2_MAC_Start_REQUEST_initFromTpm self =
     sbind (readSizedByteBuf 2) (\<lambda>auth.
     sbind readShort (\<lambda>inScheme.
     ret (self\<lparr>TPM2_MAC_Start_REQUEST_auth := auth, TPM2_MAC_Start_REQUEST_inScheme := inScheme\<rparr>)))"

definition TPM2_MAC_Start_REQUEST_enc :: "TPM2_MAC_Start_REQUEST \<Rightarrow> ByteVec" where
  "TPM2_MAC_Start_REQUEST_enc x =
     enc_sized 2 (TPM2_MAC_Start_REQUEST_auth x) @
     enc16 (TPM2_MAC_Start_REQUEST_inScheme x)"

definition TPM2_MAC_Start_REQUEST_valid :: "TPM2_MAC_Start_REQUEST \<Rightarrow> bool" where
  "TPM2_MAC_Start_REQUEST_valid x \<longleftrightarrow>
     sized_ok 2 (TPM2_MAC_Start_REQUEST_auth x) \<and>
     TPM2_MAC_Start_REQUEST_handle x = TPM_HANDLE_default"

lemma TPM2_MAC_Start_REQUEST_writes [writes_intros]:
  "TPM2_MAC_Start_REQUEST_valid x \<Longrightarrow> writes (TPM2_MAC_Start_REQUEST_toTpm x) (TPM2_MAC_Start_REQUEST_enc x)"
  unfolding TPM2_MAC_Start_REQUEST_toTpm_def TPM2_MAC_Start_REQUEST_enc_def
  by (intro writes_intros; simp add: TPM2_MAC_Start_REQUEST_valid_def opt_ok_iff)

lemma TPM2_MAC_Start_REQUEST_reads:
  "TPM2_MAC_Start_REQUEST_valid x \<Longrightarrow> reads (TPM2_MAC_Start_REQUEST_initFromTpm TPM2_MAC_Start_REQUEST_default) x (TPM2_MAC_Start_REQUEST_enc x)"
  by (simp only: TPM2_MAC_Start_REQUEST_initFromTpm_def TPM2_MAC_Start_REQUEST_enc_def TPM2_MAC_Start_REQUEST_default_def
        TPM2_MAC_Start_REQUEST.select_convs TPM2_MAC_Start_REQUEST.update_convs;
      intro reads_intros; (rule TPM2_MAC_Start_REQUEST.equality)?; simp add: TPM2_MAC_Start_REQUEST_valid_def opt_ok_iff)

interpretation TPM2_MAC_Start_REQUEST_codec:
  tpm_codec TPM2_MAC_Start_REQUEST_toTpm TPM2_MAC_Start_REQUEST_initFromTpm TPM2_MAC_Start_REQUEST_default
    TPM2_MAC_Start_REQUEST_enc TPM2_MAC_Start_REQUEST_valid
  by unfold_locales (erule TPM2_MAC_Start_REQUEST_writes TPM2_MAC_Start_REQUEST_reads | simp add: TPM2_MAC_Start_REQUEST_enc_def)+

definition TPM2_MAC_Start_REQUEST_req :: "TPM2_MAC_Start_REQUEST \<Rightarrow> TPM_HANDLE ReqStructure" where
  "TPM2_MAC_Start_REQUEST_req self =
     \<lparr>req_toTpm = TPM2_MAC_Start_REQUEST_toTpm self, req_numHandles = 1,
     req_numAuthHandles = 1, req_getHandles = [TPM2_MAC_Start_REQUEST_handle self], req_sessEncInfo = \<lparr>sizeLen = 2, valLen = 1\<rparr>\<rparr>"

subsection \<open>MAC_StartResponse\<close>

text \<open>This command starts a MAC sequence.\<close>

record MAC_StartResponse =
  MAC_StartResponse_handle :: "TPM_HANDLE"

definition MAC_StartResponse_default :: MAC_StartResponse where
  "MAC_StartResponse_default = \<lparr>MAC_StartResponse_handle = TPM_HANDLE_default\<rparr>"

definition MAC_StartResponse_toTpm :: "MAC_StartResponse \<Rightarrow> unit tpm" where
  "MAC_StartResponse_toTpm self =
     wseq []"

definition MAC_StartResponse_initFromTpm :: "MAC_StartResponse \<Rightarrow> MAC_StartResponse tpm" where
  "MAC_StartResponse_initFromTpm self =
     ret self"

definition MAC_StartResponse_enc :: "MAC_StartResponse \<Rightarrow> ByteVec" where
  "MAC_StartResponse_enc x =
     []"

definition MAC_StartResponse_valid :: "MAC_StartResponse \<Rightarrow> bool" where
  "MAC_StartResponse_valid x \<longleftrightarrow>
     MAC_StartResponse_handle x = TPM_HANDLE_default"

lemma MAC_StartResponse_writes [writes_intros]:
  "MAC_StartResponse_valid x \<Longrightarrow> writes (MAC_StartResponse_toTpm x) (MAC_StartResponse_enc x)"
  unfolding MAC_StartResponse_toTpm_def MAC_StartResponse_enc_def
  by (intro writes_intros; simp add: MAC_StartResponse_valid_def opt_ok_iff)

lemma MAC_StartResponse_reads:
  "MAC_StartResponse_valid x \<Longrightarrow> reads (MAC_StartResponse_initFromTpm MAC_StartResponse_default) x (MAC_StartResponse_enc x)"
  by (simp only: MAC_StartResponse_initFromTpm_def MAC_StartResponse_enc_def MAC_StartResponse_default_def
        MAC_StartResponse.select_convs MAC_StartResponse.update_convs;
      intro reads_intros; (rule MAC_StartResponse.equality)?; simp add: MAC_StartResponse_valid_def opt_ok_iff)

interpretation MAC_StartResponse_codec:
  tpm_codec MAC_StartResponse_toTpm MAC_StartResponse_initFromTpm MAC_StartResponse_default
    MAC_StartResponse_enc MAC_StartResponse_valid
  by unfold_locales (erule MAC_StartResponse_writes MAC_StartResponse_reads | simp add: MAC_StartResponse_toTpm_def writes_ret)+

definition MAC_StartResponse_resp :: "(TPM_HANDLE, MAC_StartResponse) RespStructure" where
  "MAC_StartResponse_resp = \<lparr>resp_default = MAC_StartResponse_default, resp_initFromTpm = MAC_StartResponse_initFromTpm,
     resp_numHandles = 1, resp_getHandle = MAC_StartResponse_handle,
     resp_setHandle = (\<lambda>h self. self\<lparr>MAC_StartResponse_handle := h\<rparr>), resp_sessEncInfo = no_sessEncInfo\<rparr>"

subsection \<open>TPM2_HashSequenceStart_REQUEST\<close>

text \<open>This command starts a hash or an Event Sequence.\<close>

record TPM2_HashSequenceStart_REQUEST =
  TPM2_HashSequenceStart_REQUEST_auth :: "ByteVec"
  TPM2_HashSequenceStart_REQUEST_hashAlg :: "TPM_ALG_ID"

definition TPM2_HashSequenceStart_REQUEST_default :: TPM2_HashSequenceStart_REQUEST where
  "TPM2_HashSequenceStart_REQUEST_default = \<lparr>TPM2_HashSequenceStart_REQUEST_auth = [], TPM2_HashSequenceStart_REQUEST_hashAlg = TPM_ALG_ID_NULL\<rparr>"

definition TPM2_HashSequenceStart_REQUEST_toTpm :: "TPM2_HashSequenceStart_REQUEST \<Rightarrow> unit tpm" where
  "TPM2_HashSequenceStart_REQUEST_toTpm self =
     wseq [writeSizedByteBuf (TPM2_HashSequenceStart_REQUEST_auth self) 2,
       writeShort (TPM2_HashSequenceStart_REQUEST_hashAlg self)]"

definition TPM2_HashSequenceStart_REQUEST_initFromTpm :: "TPM2_HashSequenceStart_REQUEST \<Rightarrow> TPM2_HashSequenceStart_REQUEST tpm" where
  "TPM2_HashSequenceStart_REQUEST_initFromTpm self =
     sbind (readSizedByteBuf 2) (\<lambda>auth.
     sbind readShort (\<lambda>hashAlg.
     ret (self\<lparr>TPM2_HashSequenceStart_REQUEST_auth := auth, TPM2_HashSequenceStart_REQUEST_hashAlg := hashAlg\<rparr>)))"

definition TPM2_HashSequenceStart_REQUEST_enc :: "TPM2_HashSequenceStart_REQUEST \<Rightarrow> ByteVec" where
  "TPM2_HashSequenceStart_REQUEST_enc x =
     enc_sized 2 (TPM2_HashSequenceStart_REQUEST_auth x) @
     enc16 (TPM2_HashSequenceStart_REQUEST_hashAlg x)"

definition TPM2_HashSequenceStart_REQUEST_valid :: "TPM2_HashSequenceStart_REQUEST \<Rightarrow> bool" where
  "TPM2_HashSequenceStart_REQUEST_valid x \<longleftrightarrow>
     sized_ok 2 (TPM2_HashSequenceStart_REQUEST_auth x)"

lemma TPM2_HashSequenceStart_REQUEST_writes [writes_intros]:
  "TPM2_HashSequenceStart_REQUEST_valid x \<Longrightarrow> writes (TPM2_HashSequenceStart_REQUEST_toTpm x) (TPM2_HashSequenceStart_REQUEST_enc x)"
  unfolding TPM2_HashSequenceStart_REQUEST_toTpm_def TPM2_HashSequenceStart_REQUEST_enc_def
  by (intro writes_intros; simp add: TPM2_HashSequenceStart_REQUEST_valid_def opt_ok_iff)

lemma TPM2_HashSequenceStart_REQUEST_reads:
  "TPM2_HashSequenceStart_REQUEST_valid x \<Longrightarrow> reads (TPM2_HashSequenceStart_REQUEST_initFromTpm TPM2_HashSequenceStart_REQUEST_default) x (TPM2_HashSequenceStart_REQUEST_enc x)"
  by (simp only: TPM2_HashSequenceStart_REQUEST_initFromTpm_def TPM2_HashSequenceStart_REQUEST_enc_def TPM2_HashSequenceStart_REQUEST_default_def
        TPM2_HashSequenceStart_REQUEST.select_convs TPM2_HashSequenceStart_REQUEST.update_convs;
      intro reads_intros; (rule TPM2_HashSequenceStart_REQUEST.equality)?; simp add: TPM2_HashSequenceStart_REQUEST_valid_def opt_ok_iff)

interpretation TPM2_HashSequenceStart_REQUEST_codec:
  tpm_codec TPM2_HashSequenceStart_REQUEST_toTpm TPM2_HashSequenceStart_REQUEST_initFromTpm TPM2_HashSequenceStart_REQUEST_default
    TPM2_HashSequenceStart_REQUEST_enc TPM2_HashSequenceStart_REQUEST_valid
  by unfold_locales (erule TPM2_HashSequenceStart_REQUEST_writes TPM2_HashSequenceStart_REQUEST_reads | simp add: TPM2_HashSequenceStart_REQUEST_enc_def)+

definition TPM2_HashSequenceStart_REQUEST_req :: "TPM2_HashSequenceStart_REQUEST \<Rightarrow> TPM_HANDLE ReqStructure" where
  "TPM2_HashSequenceStart_REQUEST_req self =
     \<lparr>req_toTpm = TPM2_HashSequenceStart_REQUEST_toTpm self, req_numHandles = 0,
     req_numAuthHandles = 0, req_getHandles = [], req_sessEncInfo = \<lparr>sizeLen = 2, valLen = 1\<rparr>\<rparr>"

subsection \<open>HashSequenceStartResponse\<close>

text \<open>This command starts a hash or an Event Sequence.\<close>

record HashSequenceStartResponse =
  HashSequenceStartResponse_handle :: "TPM_HANDLE"

definition HashSequenceStartResponse_default :: HashSequenceStartResponse where
  "HashSequenceStartResponse_default = \<lparr>HashSequenceStartResponse_handle = TPM_HANDLE_default\<rparr>"

definition HashSequenceStartResponse_toTpm :: "HashSequenceStartResponse \<Rightarrow> unit tpm" where
  "HashSequenceStartResponse_toTpm self =
     wseq []"

definition HashSequenceStartResponse_initFromTpm :: "HashSequenceStartResponse \<Rightarrow> HashSequenceStartResponse tpm" where
  "HashSequenceStartResponse_initFromTpm self =
     ret self"

definition HashSequenceStartResponse_enc :: "HashSequenceStartResponse \<Rightarrow> ByteVec" where
  "HashSequenceStartResponse_enc x =
     []"

definition HashSequenceStartResponse_valid :: "HashSequenceStartResponse \<Rightarrow> bool" where
  "HashSequenceStartResponse_valid x \<longleftrightarrow>
     HashSequenceStartResponse_handle x = TPM_HANDLE_default"

lemma HashSequenceStartResponse_writes [writes_intros]:
  "HashSequenceStartResponse_valid x \<Longrightarrow> writes (HashSequenceStartResponse_toTpm x) (HashSequenceStartResponse_enc x)"
  unfolding HashSequenceStartResponse_toTpm_def HashSequenceStartResponse_enc_def
  by (intro writes_intros; simp add: HashSequenceStartResponse_valid_def opt_ok_iff)

lemma HashSequenceStartResponse_reads:
  "HashSequenceStartResponse_valid x \<Longrightarrow> reads (HashSequenceStartResponse_initFromTpm HashSequenceStartResponse_default) x (HashSequenceStartResponse_enc x)"
  by (simp only: HashSequenceStartResponse_initFromTpm_def HashSequenceStartResponse_enc_def HashSequenceStartResponse_default_def
        HashSequenceStartResponse.select_convs HashSequenceStartResponse.update_convs;
      intro reads_intros; (rule HashSequenceStartResponse.equality)?; simp add: HashSequenceStartResponse_valid_def opt_ok_iff)

interpretation HashSequenceStartResponse_codec:
  tpm_codec HashSequenceStartResponse_toTpm HashSequenceStartResponse_initFromTpm HashSequenceStartResponse_default
    HashSequenceStartResponse_enc HashSequenceStartResponse_valid
  by unfold_locales (erule HashSequenceStartResponse_writes HashSequenceStartResponse_reads | simp add: HashSequenceStartResponse_toTpm_def writes_ret)+

definition HashSequenceStartResponse_resp :: "(TPM_HANDLE, HashSequenceStartResponse) RespStructure" where
  "HashSequenceStartResponse_resp = \<lparr>resp_default = HashSequenceStartResponse_default, resp_initFromTpm = HashSequenceStartResponse_initFromTpm,
     resp_numHandles = 1, resp_getHandle = HashSequenceStartResponse_handle,
     resp_setHandle = (\<lambda>h self. self\<lparr>HashSequenceStartResponse_handle := h\<rparr>), resp_sessEncInfo = no_sessEncInfo\<rparr>"

subsection \<open>TPM2_SequenceUpdate_REQUEST\<close>

text \<open>This command is used to add data to a hash or HMAC sequence.\<close>

record TPM2_SequenceUpdate_REQUEST =
  TPM2_SequenceUpdate_REQUEST_sequenceHandle :: "TPM_HANDLE"
  TPM2_SequenceUpdate_REQUEST_buffer :: "ByteVec"

definition TPM2_SequenceUpdate_REQUEST_default :: TPM2_SequenceUpdate_REQUEST where
  "TPM2_SequenceUpdate_REQUEST_default = \<lparr>TPM2_SequenceUpdate_REQUEST_sequenceHandle = TPM_HANDLE_default, TPM2_SequenceUpdate_REQUEST_buffer = []\<rparr>"

definition TPM2_SequenceUpdate_REQUEST_toTpm :: "TPM2_SequenceUpdate_REQUEST \<Rightarrow> unit tpm" where
  "TPM2_SequenceUpdate_REQUEST_toTpm self =
     wseq [writeSizedByteBuf (TPM2_SequenceUpdate_REQUEST_buffer self) 2]"

definition TPM2_SequenceUpdate_REQUEST_initFromTpm :: "TPM2_SequenceUpdate_REQUEST \<Rightarrow> TPM2_SequenceUpdate_REQUEST tpm" where
  "TPM2_SequenceUpdate_REQUEST_initFromTpm self =
     sbind (readSizedByteBuf 2) (\<lambda>buffer.
     ret (self\<lparr>TPM2_SequenceUpdate_REQUEST_buffer := buffer\<rparr>))"

definition TPM2_SequenceUpdate_REQUEST_enc :: "TPM2_SequenceUpdate_REQUEST \<Rightarrow> ByteVec" where
  "TPM2_SequenceUpdate_REQUEST_enc x =
     enc_sized 2 (TPM2_SequenceUpdate_REQUEST_buffer x)"

definition TPM2_SequenceUpdate_REQUEST_valid :: "TPM2_SequenceUpdate_REQUEST \<Rightarrow> bool" where
  "TPM2_SequenceUpdate_REQUEST_valid x \<longleftrightarrow>
     sized_ok 2 (TPM2_SequenceUpdate_REQUEST_buffer x) \<and>
     TPM2_SequenceUpdate_REQUEST_sequenceHandle x = TPM_HANDLE_default"

lemma TPM2_SequenceUpdate_REQUEST_writes [writes_intros]:
  "TPM2_SequenceUpdate_REQUEST_valid x \<Longrightarrow> writes (TPM2_SequenceUpdate_REQUEST_toTpm x) (TPM2_SequenceUpdate_REQUEST_enc x)"
  unfolding TPM2_SequenceUpdate_REQUEST_toTpm_def TPM2_SequenceUpdate_REQUEST_enc_def
  by (intro writes_intros; simp add: TPM2_SequenceUpdate_REQUEST_valid_def opt_ok_iff)

lemma TPM2_SequenceUpdate_REQUEST_reads:
  "TPM2_SequenceUpdate_REQUEST_valid x \<Longrightarrow> reads (TPM2_SequenceUpdate_REQUEST_initFromTpm TPM2_SequenceUpdate_REQUEST_default) x (TPM2_SequenceUpdate_REQUEST_enc x)"
  by (simp only: TPM2_SequenceUpdate_REQUEST_initFromTpm_def TPM2_SequenceUpdate_REQUEST_enc_def TPM2_SequenceUpdate_REQUEST_default_def
        TPM2_SequenceUpdate_REQUEST.select_convs TPM2_SequenceUpdate_REQUEST.update_convs;
      intro reads_intros; (rule TPM2_SequenceUpdate_REQUEST.equality)?; simp add: TPM2_SequenceUpdate_REQUEST_valid_def opt_ok_iff)

interpretation TPM2_SequenceUpdate_REQUEST_codec:
  tpm_codec TPM2_SequenceUpdate_REQUEST_toTpm TPM2_SequenceUpdate_REQUEST_initFromTpm TPM2_SequenceUpdate_REQUEST_default
    TPM2_SequenceUpdate_REQUEST_enc TPM2_SequenceUpdate_REQUEST_valid
  by unfold_locales (erule TPM2_SequenceUpdate_REQUEST_writes TPM2_SequenceUpdate_REQUEST_reads | simp add: TPM2_SequenceUpdate_REQUEST_enc_def)+

definition TPM2_SequenceUpdate_REQUEST_req :: "TPM2_SequenceUpdate_REQUEST \<Rightarrow> TPM_HANDLE ReqStructure" where
  "TPM2_SequenceUpdate_REQUEST_req self =
     \<lparr>req_toTpm = TPM2_SequenceUpdate_REQUEST_toTpm self, req_numHandles = 1,
     req_numAuthHandles = 1, req_getHandles = [TPM2_SequenceUpdate_REQUEST_sequenceHandle self], req_sessEncInfo = \<lparr>sizeLen = 2, valLen = 1\<rparr>\<rparr>"

subsection \<open>TPM2_SequenceComplete_REQUEST\<close>

text \<open>This command adds the last part of data, if any, to a hash/HMAC sequence and returns the result.\<close>

record TPM2_SequenceComplete_REQUEST =
  TPM2_SequenceComplete_REQUEST_sequenceHandle :: "TPM_HANDLE"
  TPM2_SequenceComplete_REQUEST_buffer :: "ByteVec"
  TPM2_SequenceComplete_REQUEST_hierarchy :: "TPM_HANDLE"

definition TPM2_SequenceComplete_REQUEST_default :: TPM2_SequenceComplete_REQUEST where
  "TPM2_SequenceComplete_REQUEST_default = \<lparr>TPM2_SequenceComplete_REQUEST_sequenceHandle = TPM_HANDLE_default, TPM2_SequenceComplete_REQUEST_buffer = [], TPM2_SequenceComplete_REQUEST_hierarchy = TPM_HANDLE_default\<rparr>"

definition TPM2_SequenceComplete_REQUEST_toTpm :: "TPM2_SequenceComplete_REQUEST \<Rightarrow> unit tpm" where
  "TPM2_SequenceComplete_REQUEST_toTpm self =
     wseq [writeSizedByteBuf (TPM2_SequenceComplete_REQUEST_buffer self) 2,
       TPM_HANDLE_toTpm (TPM2_SequenceComplete_REQUEST_hierarchy self)]"

definition TPM2_SequenceComplete_REQUEST_initFromTpm :: "TPM2_SequenceComplete_REQUEST \<Rightarrow> TPM2_SequenceComplete_REQUEST tpm" where
  "TPM2_SequenceComplete_REQUEST_initFromTpm self =
     sbind (readSizedByteBuf 2) (\<lambda>buffer.
     sbind (TPM_HANDLE_initFromTpm (TPM2_SequenceComplete_REQUEST_hierarchy self)) (\<lambda>hierarchy.
     ret (self\<lparr>TPM2_SequenceComplete_REQUEST_buffer := buffer, TPM2_SequenceComplete_REQUEST_hierarchy := hierarchy\<rparr>)))"

definition TPM2_SequenceComplete_REQUEST_enc :: "TPM2_SequenceComplete_REQUEST \<Rightarrow> ByteVec" where
  "TPM2_SequenceComplete_REQUEST_enc x =
     enc_sized 2 (TPM2_SequenceComplete_REQUEST_buffer x) @
     TPM_HANDLE_enc (TPM2_SequenceComplete_REQUEST_hierarchy x)"

definition TPM2_SequenceComplete_REQUEST_valid :: "TPM2_SequenceComplete_REQUEST \<Rightarrow> bool" where
  "TPM2_SequenceComplete_REQUEST_valid x \<longleftrightarrow>
     sized_ok 2 (TPM2_SequenceComplete_REQUEST_buffer x) \<and>
     TPM_HANDLE_valid (TPM2_SequenceComplete_REQUEST_hierarchy x) \<and>
     TPM2_SequenceComplete_REQUEST_sequenceHandle x = TPM_HANDLE_default"

lemma TPM2_SequenceComplete_REQUEST_writes [writes_intros]:
  "TPM2_SequenceComplete_REQUEST_valid x \<Longrightarrow> writes (TPM2_SequenceComplete_REQUEST_toTpm x) (TPM2_SequenceComplete_REQUEST_enc x)"
  unfolding TPM2_SequenceComplete_REQUEST_toTpm_def TPM2_SequenceComplete_REQUEST_enc_def
  by (intro writes_intros; simp add: TPM2_SequenceComplete_REQUEST_valid_def opt_ok_iff)

lemma TPM2_SequenceComplete_REQUEST_reads:
  "TPM2_SequenceComplete_REQUEST_valid x \<Longrightarrow> reads (TPM2_SequenceComplete_REQUEST_initFromTpm TPM2_SequenceComplete_REQUEST_default) x (TPM2_SequenceComplete_REQUEST_enc x)"
  by (simp only: TPM2_SequenceComplete_REQUEST_initFromTpm_def TPM2_SequenceComplete_REQUEST_enc_def TPM2_SequenceComplete_REQUEST_default_def
        TPM2_SequenceComplete_REQUEST.select_convs TPM2_SequenceComplete_REQUEST.update_convs;
      intro reads_intros; (rule TPM2_SequenceComplete_REQUEST.equality)?; simp add: TPM2_SequenceComplete_REQUEST_valid_def opt_ok_iff)

interpretation TPM2_SequenceComplete_REQUEST_codec:
  tpm_codec TPM2_SequenceComplete_REQUEST_toTpm TPM2_SequenceComplete_REQUEST_initFromTpm TPM2_SequenceComplete_REQUEST_default
    TPM2_SequenceComplete_REQUEST_enc TPM2_SequenceComplete_REQUEST_valid
  by unfold_locales (erule TPM2_SequenceComplete_REQUEST_writes TPM2_SequenceComplete_REQUEST_reads | simp add: TPM2_SequenceComplete_REQUEST_enc_def)+

definition TPM2_SequenceComplete_REQUEST_req :: "TPM2_SequenceComplete_REQUEST \<Rightarrow> TPM_HANDLE ReqStructure" where
  "TPM2_SequenceComplete_REQUEST_req self =
     \<lparr>req_toTpm = TPM2_SequenceComplete_REQUEST_toTpm self, req_numHandles = 1,
     req_numAuthHandles = 1, req_getHandles = [TPM2_SequenceComplete_REQUEST_sequenceHandle self], req_sessEncInfo = \<lparr>sizeLen = 2, valLen = 1\<rparr>\<rparr>"

subsection \<open>SequenceCompleteResponse\<close>

text \<open>This command adds the last part of data, if any, to a hash/HMAC sequence and returns the result.\<close>

record SequenceCompleteResponse =
  SequenceCompleteResponse_result :: "ByteVec"
  SequenceCompleteResponse_validation :: "TPMT_TK_HASHCHECK"

definition SequenceCompleteResponse_default :: SequenceCompleteResponse where
  "SequenceCompleteResponse_default = \<lparr>SequenceCompleteResponse_result = [], SequenceCompleteResponse_validation = TPMT_TK_HASHCHECK_default\<rparr>"

definition SequenceCompleteResponse_toTpm :: "SequenceCompleteResponse \<Rightarrow> unit tpm" where
  "SequenceCompleteResponse_toTpm self =
     wseq [writeSizedByteBuf (SequenceCompleteResponse_result self) 2,
       TPMT_TK_HASHCHECK_toTpm (SequenceCompleteResponse_validation self)]"

definition SequenceCompleteResponse_initFromTpm :: "SequenceCompleteResponse \<Rightarrow> SequenceCompleteResponse tpm" where
  "SequenceCompleteResponse_initFromTpm self =
     sbind (readSizedByteBuf 2) (\<lambda>result.
     sbind (TPMT_TK_HASHCHECK_initFromTpm (SequenceCompleteResponse_validation self)) (\<lambda>validation.
     ret (self\<lparr>SequenceCompleteResponse_result := result, SequenceCompleteResponse_validation := validation\<rparr>)))"

definition SequenceCompleteResponse_enc :: "SequenceCompleteResponse \<Rightarrow> ByteVec" where
  "SequenceCompleteResponse_enc x =
     enc_sized 2 (SequenceCompleteResponse_result x) @
     TPMT_TK_HASHCHECK_enc (SequenceCompleteResponse_validation x)"

definition SequenceCompleteResponse_valid :: "SequenceCompleteResponse \<Rightarrow> bool" where
  "SequenceCompleteResponse_valid x \<longleftrightarrow>
     sized_ok 2 (SequenceCompleteResponse_result x) \<and>
     TPMT_TK_HASHCHECK_valid (SequenceCompleteResponse_validation x)"

lemma SequenceCompleteResponse_writes [writes_intros]:
  "SequenceCompleteResponse_valid x \<Longrightarrow> writes (SequenceCompleteResponse_toTpm x) (SequenceCompleteResponse_enc x)"
  unfolding SequenceCompleteResponse_toTpm_def SequenceCompleteResponse_enc_def
  by (intro writes_intros; simp add: SequenceCompleteResponse_valid_def opt_ok_iff)

lemma SequenceCompleteResponse_reads:
  "SequenceCompleteResponse_valid x \<Longrightarrow> reads (SequenceCompleteResponse_initFromTpm SequenceCompleteResponse_default) x (SequenceCompleteResponse_enc x)"
  by (simp only: SequenceCompleteResponse_initFromTpm_def SequenceCompleteResponse_enc_def SequenceCompleteResponse_default_def
        SequenceCompleteResponse.select_convs SequenceCompleteResponse.update_convs;
      intro reads_intros; (rule SequenceCompleteResponse.equality)?; simp add: SequenceCompleteResponse_valid_def opt_ok_iff)

interpretation SequenceCompleteResponse_codec:
  tpm_codec SequenceCompleteResponse_toTpm SequenceCompleteResponse_initFromTpm SequenceCompleteResponse_default
    SequenceCompleteResponse_enc SequenceCompleteResponse_valid
  by unfold_locales (erule SequenceCompleteResponse_writes SequenceCompleteResponse_reads | simp add: SequenceCompleteResponse_enc_def)+

definition SequenceCompleteResponse_resp :: "(TPM_HANDLE, SequenceCompleteResponse) RespStructure" where
  "SequenceCompleteResponse_resp = \<lparr>resp_default = SequenceCompleteResponse_default, resp_initFromTpm = SequenceCompleteResponse_initFromTpm,
     resp_numHandles = 0, resp_getHandle = (\<lambda>_. TPM_HANDLE_default),
     resp_setHandle = (\<lambda>_ self. self), resp_sessEncInfo = \<lparr>sizeLen = 2, valLen = 1\<rparr>\<rparr>"

subsection \<open>TPM2_EventSequenceComplete_REQUEST\<close>

text \<open>This command adds the last part of data, if any, to an Event Sequence and returns the result in a digest list.\<close>

record TPM2_EventSequenceComplete_REQUEST =
  TPM2_EventSequenceComplete_REQUEST_pcrHandle :: "TPM_HANDLE"
  TPM2_EventSequenceComplete_REQUEST_sequenceHandle :: "TPM_HANDLE"
  TPM2_EventSequenceComplete_REQUEST_buffer :: "ByteVec"

definition TPM2_EventSequenceComplete_REQUEST_default :: TPM2_EventSequenceComplete_REQUEST where
  "TPM2_EventSequenceComplete_REQUEST_default = \<lparr>TPM2_EventSequenceComplete_REQUEST_pcrHandle = TPM_HANDLE_default, TPM2_EventSequenceComplete_REQUEST_sequenceHandle = TPM_HANDLE_default, TPM2_EventSequenceComplete_REQUEST_buffer = []\<rparr>"

definition TPM2_EventSequenceComplete_REQUEST_toTpm :: "TPM2_EventSequenceComplete_REQUEST \<Rightarrow> unit tpm" where
  "TPM2_EventSequenceComplete_REQUEST_toTpm self =
     wseq [writeSizedByteBuf (TPM2_EventSequenceComplete_REQUEST_buffer self) 2]"

definition TPM2_EventSequenceComplete_REQUEST_initFromTpm :: "TPM2_EventSequenceComplete_REQUEST \<Rightarrow> TPM2_EventSequenceComplete_REQUEST tpm" where
  "TPM2_EventSequenceComplete_REQUEST_initFromTpm self =
     sbind (readSizedByteBuf 2) (\<lambda>buffer.
     ret (self\<lparr>TPM2_EventSequenceComplete_REQUEST_buffer := buffer\<rparr>))"

definition TPM2_EventSequenceComplete_REQUEST_enc :: "TPM2_EventSequenceComplete_REQUEST \<Rightarrow> ByteVec" where
  "TPM2_EventSequenceComplete_REQUEST_enc x =
     enc_sized 2 (TPM2_EventSequenceComplete_REQUEST_buffer x)"

definition TPM2_EventSequenceComplete_REQUEST_valid :: "TPM2_EventSequenceComplete_REQUEST \<Rightarrow> bool" where
  "TPM2_EventSequenceComplete_REQUEST_valid x \<longleftrightarrow>
     sized_ok 2 (TPM2_EventSequenceComplete_REQUEST_buffer x) \<and>
     TPM2_EventSequenceComplete_REQUEST_pcrHandle x = TPM_HANDLE_default \<and>
     TPM2_EventSequenceComplete_REQUEST_sequenceHandle x = TPM_HANDLE_default"

lemma TPM2_EventSequenceComplete_REQUEST_writes [writes_intros]:
  "TPM2_EventSequenceComplete_REQUEST_valid x \<Longrightarrow> writes (TPM2_EventSequenceComplete_REQUEST_toTpm x) (TPM2_EventSequenceComplete_REQUEST_enc x)"
  unfolding TPM2_EventSequenceComplete_REQUEST_toTpm_def TPM2_EventSequenceComplete_REQUEST_enc_def
  by (intro writes_intros; simp add: TPM2_EventSequenceComplete_REQUEST_valid_def opt_ok_iff)

lemma TPM2_EventSequenceComplete_REQUEST_reads:
  "TPM2_EventSequenceComplete_REQUEST_valid x \<Longrightarrow> reads (TPM2_EventSequenceComplete_REQUEST_initFromTpm TPM2_EventSequenceComplete_REQUEST_default) x (TPM2_EventSequenceComplete_REQUEST_enc x)"
  by (simp only: TPM2_EventSequenceComplete_REQUEST_initFromTpm_def TPM2_EventSequenceComplete_REQUEST_enc_def TPM2_EventSequenceComplete_REQUEST_default_def
        TPM2_EventSequenceComplete_REQUEST.select_convs TPM2_EventSequenceComplete_REQUEST.update_convs;
      intro reads_intros; (rule TPM2_EventSequenceComplete_REQUEST.equality)?; simp add: TPM2_EventSequenceComplete_REQUEST_valid_def opt_ok_iff)

interpretation TPM2_EventSequenceComplete_REQUEST_codec:
  tpm_codec TPM2_EventSequenceComplete_REQUEST_toTpm TPM2_EventSequenceComplete_REQUEST_initFromTpm TPM2_EventSequenceComplete_REQUEST_default
    TPM2_EventSequenceComplete_REQUEST_enc TPM2_EventSequenceComplete_REQUEST_valid
  by unfold_locales (erule TPM2_EventSequenceComplete_REQUEST_writes TPM2_EventSequenceComplete_REQUEST_reads | simp add: TPM2_EventSequenceComplete_REQUEST_enc_def)+

definition TPM2_EventSequenceComplete_REQUEST_req :: "TPM2_EventSequenceComplete_REQUEST \<Rightarrow> TPM_HANDLE ReqStructure" where
  "TPM2_EventSequenceComplete_REQUEST_req self =
     \<lparr>req_toTpm = TPM2_EventSequenceComplete_REQUEST_toTpm self, req_numHandles = 2,
     req_numAuthHandles = 2, req_getHandles = [TPM2_EventSequenceComplete_REQUEST_pcrHandle self, TPM2_EventSequenceComplete_REQUEST_sequenceHandle self], req_sessEncInfo = \<lparr>sizeLen = 2, valLen = 1\<rparr>\<rparr>"

subsection \<open>EventSequenceCompleteResponse\<close>

text \<open>This command adds the last part of data, if any, to an Event Sequence and returns the result in a digest list.\<close>

record EventSequenceCompleteResponse =
  EventSequenceCompleteResponse_results :: "TPMT_HA list"

definition EventSequenceCompleteResponse_default :: EventSequenceCompleteResponse where
  "EventSequenceCompleteResponse_default = \<lparr>EventSequenceCompleteResponse_results = []\<rparr>"

definition EventSequenceCompleteResponse_toTpm :: "EventSequenceCompleteResponse \<Rightarrow> unit tpm" where
  "EventSequenceCompleteResponse_toTpm self =
     wseq [writeObjArr TPMT_HA_toTpm (EventSequenceCompleteResponse_results self)]"

definition EventSequenceCompleteResponse_initFromTpm :: "EventSequenceCompleteResponse \<Rightarrow> EventSequenceCompleteResponse tpm" where
  "EventSequenceCompleteResponse_initFromTpm self =
     sbind (readObjArr TPMT_HA_initFromTpm TPMT_HA_default (EventSequenceCompleteResponse_results self)) (\<lambda>results.
     ret (self\<lparr>EventSequenceCompleteResponse_results := results\<rparr>))"

definition EventSequenceCompleteResponse_enc :: "EventSequenceCompleteResponse \<Rightarrow> ByteVec" where
  "EventSequenceCompleteResponse_enc x =
     enc_arr TPMT_HA_enc (EventSequenceCompleteResponse_results x)"

definition EventSequenceCompleteResponse_valid :: "EventSequenceCompleteResponse \<Rightarrow> bool" where
  "EventSequenceCompleteResponse_valid x \<longleftrightarrow>
     arr_ok TPMT_HA_valid (EventSequenceCompleteResponse_results x)"

lemma EventSequenceCompleteResponse_writes [writes_intros]:
  "EventSequenceCompleteResponse_valid x \<Longrightarrow> writes (EventSequenceCompleteResponse_toTpm x) (EventSequenceCompleteResponse_enc x)"
  unfolding EventSequenceCompleteResponse_toTpm_def EventSequenceCompleteResponse_enc_def
  by (intro writes_intros; simp add: EventSequenceCompleteResponse_valid_def opt_ok_iff)

lemma EventSequenceCompleteResponse_reads:
  "EventSequenceCompleteResponse_valid x \<Longrightarrow> reads (EventSequenceCompleteResponse_initFromTpm EventSequenceCompleteResponse_default) x (EventSequenceCompleteResponse_enc x)"
  by (simp only: EventSequenceCompleteResponse_initFromTpm_def EventSequenceCompleteResponse_enc_def EventSequenceCompleteResponse_default_def
        EventSequenceCompleteResponse.select_convs EventSequenceCompleteResponse.update_convs;
      intro reads_intros; (rule EventSequenceCompleteResponse.equality)?; simp add: EventSequenceCompleteResponse_valid_def opt_ok_iff)

interpretation EventSequenceCompleteResponse_codec:
  tpm_codec EventSequenceCompleteResponse_toTpm EventSequenceCompleteResponse_initFromTpm EventSequenceCompleteResponse_default
    EventSequenceCompleteResponse_enc EventSequenceCompleteResponse_valid
  by unfold_locales (erule EventSequenceCompleteResponse_writes EventSequenceCompleteResponse_reads | simp add: EventSequenceCompleteResponse_enc_def)+

definition EventSequenceCompleteResponse_resp :: "(TPM_HANDLE, EventSequenceCompleteResponse) RespStructure" where
  "EventSequenceCompleteResponse_resp = \<lparr>resp_default = EventSequenceCompleteResponse_default, resp_initFromTpm = EventSequenceCompleteResponse_initFromTpm,
     resp_numHandles = 0, resp_getHandle = (\<lambda>_. TPM_HANDLE_default),
     resp_setHandle = (\<lambda>_ self. self), resp_sessEncInfo = \<lparr>sizeLen = 4, valLen = 66\<rparr>\<rparr>"

end
