(* ===== verification/TpmAdminCommands.thy ===== *)
theory TpmAdminCommands
  imports TpmNvTypes
begin

text \<open>
  \<^verbatim>\<open>TSS.CPP/include/TpmTypes.h\<close> and \<^verbatim>\<open>TSS.CPP/Src/TpmTypes.cpp\<close>: the parameter
  structures of commands and responses, hierarchies, dictionary attack parameters, field upgrade, context management and clocks.

  As for the other structures, each class has its record, default, \<open>toTpm\<close>, \<open>initFromTpm\<close>, wire
  format and codec; the handles are members that are not marshaled, so the values the format can
  carry have null handles. \<open>X_req\<close> and \<open>X_resp\<close> collect what the dispatcher sees.
\<close>

subsection \<open>TPM2_CreatePrimary_REQUEST\<close>

text \<open>This command is used to create a Primary Object under one of the Primary Seeds or a Temporary Object under TPM_RH_NULL. The command uses a ....\<close>

record TPM2_CreatePrimary_REQUEST =
  TPM2_CreatePrimary_REQUEST_primaryHandle :: "TPM_HANDLE"
  TPM2_CreatePrimary_REQUEST_inSensitive :: "TPMS_SENSITIVE_CREATE"
  TPM2_CreatePrimary_REQUEST_inPublic :: "TPMT_PUBLIC"
  TPM2_CreatePrimary_REQUEST_outsideInfo :: "ByteVec"
  TPM2_CreatePrimary_REQUEST_creationPCR :: "TPMS_PCR_SELECTION list"

definition TPM2_CreatePrimary_REQUEST_default :: TPM2_CreatePrimary_REQUEST where
  "TPM2_CreatePrimary_REQUEST_default = \<lparr>TPM2_CreatePrimary_REQUEST_primaryHandle = TPM_HANDLE_default, TPM2_CreatePrimary_REQUEST_inSensitive = TPMS_SENSITIVE_CREATE_default, TPM2_CreatePrimary_REQUEST_inPublic = TPMT_PUBLIC_default, TPM2_CreatePrimary_REQUEST_outsideInfo = [], TPM2_CreatePrimary_REQUEST_creationPCR = []\<rparr>"

definition TPM2_CreatePrimary_REQUEST_toTpm :: "TPM2_CreatePrimary_REQUEST \<Rightarrow> unit tpm" where
  "TPM2_CreatePrimary_REQUEST_toTpm self =
     wseq [writeSizedObj TPMS_SENSITIVE_CREATE_toTpm (TPM2_CreatePrimary_REQUEST_inSensitive self),
       writeSizedObj TPMT_PUBLIC_toTpm (TPM2_CreatePrimary_REQUEST_inPublic self),
       writeSizedByteBuf (TPM2_CreatePrimary_REQUEST_outsideInfo self) 2,
       writeObjArr TPMS_PCR_SELECTION_toTpm (TPM2_CreatePrimary_REQUEST_creationPCR self)]"

definition TPM2_CreatePrimary_REQUEST_initFromTpm :: "TPM2_CreatePrimary_REQUEST \<Rightarrow> TPM2_CreatePrimary_REQUEST tpm" where
  "TPM2_CreatePrimary_REQUEST_initFromTpm self =
     sbind (readSizedObj TPMS_SENSITIVE_CREATE_initFromTpm (TPM2_CreatePrimary_REQUEST_inSensitive self)) (\<lambda>inSensitive.
     sbind (readSizedObj TPMT_PUBLIC_initFromTpm (TPM2_CreatePrimary_REQUEST_inPublic self)) (\<lambda>inPublic.
     sbind (readSizedByteBuf 2) (\<lambda>outsideInfo.
     sbind (readObjArr TPMS_PCR_SELECTION_initFromTpm TPMS_PCR_SELECTION_default (TPM2_CreatePrimary_REQUEST_creationPCR self)) (\<lambda>creationPCR.
     ret (self\<lparr>TPM2_CreatePrimary_REQUEST_inSensitive := inSensitive, TPM2_CreatePrimary_REQUEST_inPublic := inPublic, TPM2_CreatePrimary_REQUEST_outsideInfo := outsideInfo, TPM2_CreatePrimary_REQUEST_creationPCR := creationPCR\<rparr>)))))"

definition TPM2_CreatePrimary_REQUEST_enc :: "TPM2_CreatePrimary_REQUEST \<Rightarrow> ByteVec" where
  "TPM2_CreatePrimary_REQUEST_enc x =
     enc_obj (TPMS_SENSITIVE_CREATE_enc (TPM2_CreatePrimary_REQUEST_inSensitive x)) @
     enc_obj (TPMT_PUBLIC_enc (TPM2_CreatePrimary_REQUEST_inPublic x)) @
     enc_sized 2 (TPM2_CreatePrimary_REQUEST_outsideInfo x) @
     enc_arr TPMS_PCR_SELECTION_enc (TPM2_CreatePrimary_REQUEST_creationPCR x)"

definition TPM2_CreatePrimary_REQUEST_valid :: "TPM2_CreatePrimary_REQUEST \<Rightarrow> bool" where
  "TPM2_CreatePrimary_REQUEST_valid x \<longleftrightarrow>
     sized_obj_ok TPMS_SENSITIVE_CREATE_default TPMS_SENSITIVE_CREATE_enc TPMS_SENSITIVE_CREATE_valid (TPM2_CreatePrimary_REQUEST_inSensitive x) \<and>
     sized_obj_ok TPMT_PUBLIC_default TPMT_PUBLIC_enc TPMT_PUBLIC_valid (TPM2_CreatePrimary_REQUEST_inPublic x) \<and>
     sized_ok 2 (TPM2_CreatePrimary_REQUEST_outsideInfo x) \<and>
     arr_ok TPMS_PCR_SELECTION_valid (TPM2_CreatePrimary_REQUEST_creationPCR x) \<and>
     TPM2_CreatePrimary_REQUEST_primaryHandle x = TPM_HANDLE_default"

lemma TPM2_CreatePrimary_REQUEST_writes [writes_intros]:
  "TPM2_CreatePrimary_REQUEST_valid x \<Longrightarrow> writes (TPM2_CreatePrimary_REQUEST_toTpm x) (TPM2_CreatePrimary_REQUEST_enc x)"
  unfolding TPM2_CreatePrimary_REQUEST_toTpm_def TPM2_CreatePrimary_REQUEST_enc_def
  by (intro writes_intros; simp add: TPM2_CreatePrimary_REQUEST_valid_def opt_ok_iff)

lemma TPM2_CreatePrimary_REQUEST_reads:
  "TPM2_CreatePrimary_REQUEST_valid x \<Longrightarrow> reads (TPM2_CreatePrimary_REQUEST_initFromTpm TPM2_CreatePrimary_REQUEST_default) x (TPM2_CreatePrimary_REQUEST_enc x)"
  by (simp only: TPM2_CreatePrimary_REQUEST_initFromTpm_def TPM2_CreatePrimary_REQUEST_enc_def TPM2_CreatePrimary_REQUEST_default_def
        TPM2_CreatePrimary_REQUEST.select_convs TPM2_CreatePrimary_REQUEST.update_convs;
      intro reads_intros; (rule TPM2_CreatePrimary_REQUEST.equality)?; simp add: TPM2_CreatePrimary_REQUEST_valid_def opt_ok_iff)

interpretation TPM2_CreatePrimary_REQUEST_codec:
  tpm_codec TPM2_CreatePrimary_REQUEST_toTpm TPM2_CreatePrimary_REQUEST_initFromTpm TPM2_CreatePrimary_REQUEST_default
    TPM2_CreatePrimary_REQUEST_enc TPM2_CreatePrimary_REQUEST_valid
  by unfold_locales (erule TPM2_CreatePrimary_REQUEST_writes TPM2_CreatePrimary_REQUEST_reads | simp add: TPM2_CreatePrimary_REQUEST_enc_def)+

definition TPM2_CreatePrimary_REQUEST_req :: "TPM2_CreatePrimary_REQUEST \<Rightarrow> TPM_HANDLE ReqStructure" where
  "TPM2_CreatePrimary_REQUEST_req self =
     \<lparr>req_toTpm = TPM2_CreatePrimary_REQUEST_toTpm self, req_numHandles = 1,
     req_numAuthHandles = 1, req_getHandles = [TPM2_CreatePrimary_REQUEST_primaryHandle self], req_sessEncInfo = \<lparr>sizeLen = 2, valLen = 1\<rparr>\<rparr>"

subsection \<open>CreatePrimaryResponse\<close>

text \<open>This command is used to create a Primary Object under one of the Primary Seeds or a Temporary Object under TPM_RH_NULL. The command uses a ....\<close>

record CreatePrimaryResponse =
  CreatePrimaryResponse_handle :: "TPM_HANDLE"
  CreatePrimaryResponse_outPublic :: "TPMT_PUBLIC"
  CreatePrimaryResponse_creationData :: "TPMS_CREATION_DATA"
  CreatePrimaryResponse_creationHash :: "ByteVec"
  CreatePrimaryResponse_creationTicket :: "TPMT_TK_CREATION"
  CreatePrimaryResponse_name :: "ByteVec"

definition CreatePrimaryResponse_default :: CreatePrimaryResponse where
  "CreatePrimaryResponse_default = \<lparr>CreatePrimaryResponse_handle = TPM_HANDLE_default, CreatePrimaryResponse_outPublic = TPMT_PUBLIC_default, CreatePrimaryResponse_creationData = TPMS_CREATION_DATA_default, CreatePrimaryResponse_creationHash = [], CreatePrimaryResponse_creationTicket = TPMT_TK_CREATION_default, CreatePrimaryResponse_name = []\<rparr>"

definition CreatePrimaryResponse_toTpm :: "CreatePrimaryResponse \<Rightarrow> unit tpm" where
  "CreatePrimaryResponse_toTpm self =
     wseq [writeSizedObj TPMT_PUBLIC_toTpm (CreatePrimaryResponse_outPublic self),
       writeSizedObj TPMS_CREATION_DATA_toTpm (CreatePrimaryResponse_creationData self),
       writeSizedByteBuf (CreatePrimaryResponse_creationHash self) 2,
       TPMT_TK_CREATION_toTpm (CreatePrimaryResponse_creationTicket self),
       writeSizedByteBuf (CreatePrimaryResponse_name self) 2]"

definition CreatePrimaryResponse_initFromTpm :: "CreatePrimaryResponse \<Rightarrow> CreatePrimaryResponse tpm" where
  "CreatePrimaryResponse_initFromTpm self =
     sbind (readSizedObj TPMT_PUBLIC_initFromTpm (CreatePrimaryResponse_outPublic self)) (\<lambda>outPublic.
     sbind (readSizedObj TPMS_CREATION_DATA_initFromTpm (CreatePrimaryResponse_creationData self)) (\<lambda>creationData.
     sbind (readSizedByteBuf 2) (\<lambda>creationHash.
     sbind (TPMT_TK_CREATION_initFromTpm (CreatePrimaryResponse_creationTicket self)) (\<lambda>creationTicket.
     sbind (readSizedByteBuf 2) (\<lambda>name.
     ret (self\<lparr>CreatePrimaryResponse_outPublic := outPublic, CreatePrimaryResponse_creationData := creationData, CreatePrimaryResponse_creationHash := creationHash, CreatePrimaryResponse_creationTicket := creationTicket, CreatePrimaryResponse_name := name\<rparr>))))))"

definition CreatePrimaryResponse_enc :: "CreatePrimaryResponse \<Rightarrow> ByteVec" where
  "CreatePrimaryResponse_enc x =
     enc_obj (TPMT_PUBLIC_enc (CreatePrimaryResponse_outPublic x)) @
     enc_obj (TPMS_CREATION_DATA_enc (CreatePrimaryResponse_creationData x)) @
     enc_sized 2 (CreatePrimaryResponse_creationHash x) @
     TPMT_TK_CREATION_enc (CreatePrimaryResponse_creationTicket x) @
     enc_sized 2 (CreatePrimaryResponse_name x)"

definition CreatePrimaryResponse_valid :: "CreatePrimaryResponse \<Rightarrow> bool" where
  "CreatePrimaryResponse_valid x \<longleftrightarrow>
     sized_obj_ok TPMT_PUBLIC_default TPMT_PUBLIC_enc TPMT_PUBLIC_valid (CreatePrimaryResponse_outPublic x) \<and>
     sized_obj_ok TPMS_CREATION_DATA_default TPMS_CREATION_DATA_enc TPMS_CREATION_DATA_valid (CreatePrimaryResponse_creationData x) \<and>
     sized_ok 2 (CreatePrimaryResponse_creationHash x) \<and>
     TPMT_TK_CREATION_valid (CreatePrimaryResponse_creationTicket x) \<and>
     sized_ok 2 (CreatePrimaryResponse_name x) \<and>
     CreatePrimaryResponse_handle x = TPM_HANDLE_default"

lemma CreatePrimaryResponse_writes [writes_intros]:
  "CreatePrimaryResponse_valid x \<Longrightarrow> writes (CreatePrimaryResponse_toTpm x) (CreatePrimaryResponse_enc x)"
  unfolding CreatePrimaryResponse_toTpm_def CreatePrimaryResponse_enc_def
  by (intro writes_intros; simp add: CreatePrimaryResponse_valid_def opt_ok_iff)

lemma CreatePrimaryResponse_reads:
  "CreatePrimaryResponse_valid x \<Longrightarrow> reads (CreatePrimaryResponse_initFromTpm CreatePrimaryResponse_default) x (CreatePrimaryResponse_enc x)"
  by (simp only: CreatePrimaryResponse_initFromTpm_def CreatePrimaryResponse_enc_def CreatePrimaryResponse_default_def
        CreatePrimaryResponse.select_convs CreatePrimaryResponse.update_convs;
      intro reads_intros; (rule CreatePrimaryResponse.equality)?; simp add: CreatePrimaryResponse_valid_def opt_ok_iff)

interpretation CreatePrimaryResponse_codec:
  tpm_codec CreatePrimaryResponse_toTpm CreatePrimaryResponse_initFromTpm CreatePrimaryResponse_default
    CreatePrimaryResponse_enc CreatePrimaryResponse_valid
  by unfold_locales (erule CreatePrimaryResponse_writes CreatePrimaryResponse_reads | simp add: CreatePrimaryResponse_enc_def)+

definition CreatePrimaryResponse_resp :: "(TPM_HANDLE, CreatePrimaryResponse) RespStructure" where
  "CreatePrimaryResponse_resp = \<lparr>resp_default = CreatePrimaryResponse_default, resp_initFromTpm = CreatePrimaryResponse_initFromTpm,
     resp_numHandles = 1, resp_getHandle = CreatePrimaryResponse_handle,
     resp_setHandle = (\<lambda>h self. self\<lparr>CreatePrimaryResponse_handle := h\<rparr>), resp_sessEncInfo = \<lparr>sizeLen = 2, valLen = 1\<rparr>\<rparr>"

subsection \<open>TPM2_HierarchyControl_REQUEST\<close>

text \<open>This command enables and disables use of a hierarchy and its associated NV storage.\<close>

record TPM2_HierarchyControl_REQUEST =
  TPM2_HierarchyControl_REQUEST_authHandle :: "TPM_HANDLE"
  TPM2_HierarchyControl_REQUEST_enable :: "TPM_HANDLE"
  TPM2_HierarchyControl_REQUEST_state :: "byte"

definition TPM2_HierarchyControl_REQUEST_default :: TPM2_HierarchyControl_REQUEST where
  "TPM2_HierarchyControl_REQUEST_default = \<lparr>TPM2_HierarchyControl_REQUEST_authHandle = TPM_HANDLE_default, TPM2_HierarchyControl_REQUEST_enable = TPM_HANDLE_default, TPM2_HierarchyControl_REQUEST_state = 0\<rparr>"

definition TPM2_HierarchyControl_REQUEST_toTpm :: "TPM2_HierarchyControl_REQUEST \<Rightarrow> unit tpm" where
  "TPM2_HierarchyControl_REQUEST_toTpm self =
     wseq [TPM_HANDLE_toTpm (TPM2_HierarchyControl_REQUEST_enable self),
       writeByte (TPM2_HierarchyControl_REQUEST_state self)]"

definition TPM2_HierarchyControl_REQUEST_initFromTpm :: "TPM2_HierarchyControl_REQUEST \<Rightarrow> TPM2_HierarchyControl_REQUEST tpm" where
  "TPM2_HierarchyControl_REQUEST_initFromTpm self =
     sbind (TPM_HANDLE_initFromTpm (TPM2_HierarchyControl_REQUEST_enable self)) (\<lambda>enable.
     sbind readByte (\<lambda>state.
     ret (self\<lparr>TPM2_HierarchyControl_REQUEST_enable := enable, TPM2_HierarchyControl_REQUEST_state := state\<rparr>)))"

definition TPM2_HierarchyControl_REQUEST_enc :: "TPM2_HierarchyControl_REQUEST \<Rightarrow> ByteVec" where
  "TPM2_HierarchyControl_REQUEST_enc x =
     TPM_HANDLE_enc (TPM2_HierarchyControl_REQUEST_enable x) @
     enc8 (TPM2_HierarchyControl_REQUEST_state x)"

definition TPM2_HierarchyControl_REQUEST_valid :: "TPM2_HierarchyControl_REQUEST \<Rightarrow> bool" where
  "TPM2_HierarchyControl_REQUEST_valid x \<longleftrightarrow>
     TPM_HANDLE_valid (TPM2_HierarchyControl_REQUEST_enable x) \<and>
     TPM2_HierarchyControl_REQUEST_authHandle x = TPM_HANDLE_default"

lemma TPM2_HierarchyControl_REQUEST_writes [writes_intros]:
  "TPM2_HierarchyControl_REQUEST_valid x \<Longrightarrow> writes (TPM2_HierarchyControl_REQUEST_toTpm x) (TPM2_HierarchyControl_REQUEST_enc x)"
  unfolding TPM2_HierarchyControl_REQUEST_toTpm_def TPM2_HierarchyControl_REQUEST_enc_def
  by (intro writes_intros; simp add: TPM2_HierarchyControl_REQUEST_valid_def opt_ok_iff)

lemma TPM2_HierarchyControl_REQUEST_reads:
  "TPM2_HierarchyControl_REQUEST_valid x \<Longrightarrow> reads (TPM2_HierarchyControl_REQUEST_initFromTpm TPM2_HierarchyControl_REQUEST_default) x (TPM2_HierarchyControl_REQUEST_enc x)"
  by (simp only: TPM2_HierarchyControl_REQUEST_initFromTpm_def TPM2_HierarchyControl_REQUEST_enc_def TPM2_HierarchyControl_REQUEST_default_def
        TPM2_HierarchyControl_REQUEST.select_convs TPM2_HierarchyControl_REQUEST.update_convs;
      intro reads_intros; (rule TPM2_HierarchyControl_REQUEST.equality)?; simp add: TPM2_HierarchyControl_REQUEST_valid_def opt_ok_iff)

interpretation TPM2_HierarchyControl_REQUEST_codec:
  tpm_codec TPM2_HierarchyControl_REQUEST_toTpm TPM2_HierarchyControl_REQUEST_initFromTpm TPM2_HierarchyControl_REQUEST_default
    TPM2_HierarchyControl_REQUEST_enc TPM2_HierarchyControl_REQUEST_valid
  by unfold_locales (erule TPM2_HierarchyControl_REQUEST_writes TPM2_HierarchyControl_REQUEST_reads | simp add: TPM2_HierarchyControl_REQUEST_enc_def)+

definition TPM2_HierarchyControl_REQUEST_req :: "TPM2_HierarchyControl_REQUEST \<Rightarrow> TPM_HANDLE ReqStructure" where
  "TPM2_HierarchyControl_REQUEST_req self =
     \<lparr>req_toTpm = TPM2_HierarchyControl_REQUEST_toTpm self, req_numHandles = 1,
     req_numAuthHandles = 1, req_getHandles = [TPM2_HierarchyControl_REQUEST_authHandle self], req_sessEncInfo = no_sessEncInfo\<rparr>"

subsection \<open>TPM2_SetPrimaryPolicy_REQUEST\<close>

text \<open>This command allows setting of the authorization policy for the lockout (lockoutPolicy), the platform hierarchy (platformPolicy), the storage ....\<close>

record TPM2_SetPrimaryPolicy_REQUEST =
  TPM2_SetPrimaryPolicy_REQUEST_authHandle :: "TPM_HANDLE"
  TPM2_SetPrimaryPolicy_REQUEST_authPolicy :: "ByteVec"
  TPM2_SetPrimaryPolicy_REQUEST_hashAlg :: "TPM_ALG_ID"

definition TPM2_SetPrimaryPolicy_REQUEST_default :: TPM2_SetPrimaryPolicy_REQUEST where
  "TPM2_SetPrimaryPolicy_REQUEST_default = \<lparr>TPM2_SetPrimaryPolicy_REQUEST_authHandle = TPM_HANDLE_default, TPM2_SetPrimaryPolicy_REQUEST_authPolicy = [], TPM2_SetPrimaryPolicy_REQUEST_hashAlg = TPM_ALG_ID_NULL\<rparr>"

definition TPM2_SetPrimaryPolicy_REQUEST_toTpm :: "TPM2_SetPrimaryPolicy_REQUEST \<Rightarrow> unit tpm" where
  "TPM2_SetPrimaryPolicy_REQUEST_toTpm self =
     wseq [writeSizedByteBuf (TPM2_SetPrimaryPolicy_REQUEST_authPolicy self) 2,
       writeShort (TPM2_SetPrimaryPolicy_REQUEST_hashAlg self)]"

definition TPM2_SetPrimaryPolicy_REQUEST_initFromTpm :: "TPM2_SetPrimaryPolicy_REQUEST \<Rightarrow> TPM2_SetPrimaryPolicy_REQUEST tpm" where
  "TPM2_SetPrimaryPolicy_REQUEST_initFromTpm self =
     sbind (readSizedByteBuf 2) (\<lambda>authPolicy.
     sbind readShort (\<lambda>hashAlg.
     ret (self\<lparr>TPM2_SetPrimaryPolicy_REQUEST_authPolicy := authPolicy, TPM2_SetPrimaryPolicy_REQUEST_hashAlg := hashAlg\<rparr>)))"

definition TPM2_SetPrimaryPolicy_REQUEST_enc :: "TPM2_SetPrimaryPolicy_REQUEST \<Rightarrow> ByteVec" where
  "TPM2_SetPrimaryPolicy_REQUEST_enc x =
     enc_sized 2 (TPM2_SetPrimaryPolicy_REQUEST_authPolicy x) @
     enc16 (TPM2_SetPrimaryPolicy_REQUEST_hashAlg x)"

definition TPM2_SetPrimaryPolicy_REQUEST_valid :: "TPM2_SetPrimaryPolicy_REQUEST \<Rightarrow> bool" where
  "TPM2_SetPrimaryPolicy_REQUEST_valid x \<longleftrightarrow>
     sized_ok 2 (TPM2_SetPrimaryPolicy_REQUEST_authPolicy x) \<and>
     TPM2_SetPrimaryPolicy_REQUEST_authHandle x = TPM_HANDLE_default"

lemma TPM2_SetPrimaryPolicy_REQUEST_writes [writes_intros]:
  "TPM2_SetPrimaryPolicy_REQUEST_valid x \<Longrightarrow> writes (TPM2_SetPrimaryPolicy_REQUEST_toTpm x) (TPM2_SetPrimaryPolicy_REQUEST_enc x)"
  unfolding TPM2_SetPrimaryPolicy_REQUEST_toTpm_def TPM2_SetPrimaryPolicy_REQUEST_enc_def
  by (intro writes_intros; simp add: TPM2_SetPrimaryPolicy_REQUEST_valid_def opt_ok_iff)

lemma TPM2_SetPrimaryPolicy_REQUEST_reads:
  "TPM2_SetPrimaryPolicy_REQUEST_valid x \<Longrightarrow> reads (TPM2_SetPrimaryPolicy_REQUEST_initFromTpm TPM2_SetPrimaryPolicy_REQUEST_default) x (TPM2_SetPrimaryPolicy_REQUEST_enc x)"
  by (simp only: TPM2_SetPrimaryPolicy_REQUEST_initFromTpm_def TPM2_SetPrimaryPolicy_REQUEST_enc_def TPM2_SetPrimaryPolicy_REQUEST_default_def
        TPM2_SetPrimaryPolicy_REQUEST.select_convs TPM2_SetPrimaryPolicy_REQUEST.update_convs;
      intro reads_intros; (rule TPM2_SetPrimaryPolicy_REQUEST.equality)?; simp add: TPM2_SetPrimaryPolicy_REQUEST_valid_def opt_ok_iff)

interpretation TPM2_SetPrimaryPolicy_REQUEST_codec:
  tpm_codec TPM2_SetPrimaryPolicy_REQUEST_toTpm TPM2_SetPrimaryPolicy_REQUEST_initFromTpm TPM2_SetPrimaryPolicy_REQUEST_default
    TPM2_SetPrimaryPolicy_REQUEST_enc TPM2_SetPrimaryPolicy_REQUEST_valid
  by unfold_locales (erule TPM2_SetPrimaryPolicy_REQUEST_writes TPM2_SetPrimaryPolicy_REQUEST_reads | simp add: TPM2_SetPrimaryPolicy_REQUEST_enc_def)+

definition TPM2_SetPrimaryPolicy_REQUEST_req :: "TPM2_SetPrimaryPolicy_REQUEST \<Rightarrow> TPM_HANDLE ReqStructure" where
  "TPM2_SetPrimaryPolicy_REQUEST_req self =
     \<lparr>req_toTpm = TPM2_SetPrimaryPolicy_REQUEST_toTpm self, req_numHandles = 1,
     req_numAuthHandles = 1, req_getHandles = [TPM2_SetPrimaryPolicy_REQUEST_authHandle self], req_sessEncInfo = \<lparr>sizeLen = 2, valLen = 1\<rparr>\<rparr>"

subsection \<open>TPM2_ChangePPS_REQUEST\<close>

text \<open>This replaces the current platform primary seed (PPS) with a value from the RNG and sets platformPolicy to the default initialization value (the ....\<close>

record TPM2_ChangePPS_REQUEST =
  TPM2_ChangePPS_REQUEST_authHandle :: "TPM_HANDLE"

definition TPM2_ChangePPS_REQUEST_default :: TPM2_ChangePPS_REQUEST where
  "TPM2_ChangePPS_REQUEST_default = \<lparr>TPM2_ChangePPS_REQUEST_authHandle = TPM_HANDLE_default\<rparr>"

definition TPM2_ChangePPS_REQUEST_toTpm :: "TPM2_ChangePPS_REQUEST \<Rightarrow> unit tpm" where
  "TPM2_ChangePPS_REQUEST_toTpm self =
     wseq []"

definition TPM2_ChangePPS_REQUEST_initFromTpm :: "TPM2_ChangePPS_REQUEST \<Rightarrow> TPM2_ChangePPS_REQUEST tpm" where
  "TPM2_ChangePPS_REQUEST_initFromTpm self =
     ret self"

definition TPM2_ChangePPS_REQUEST_enc :: "TPM2_ChangePPS_REQUEST \<Rightarrow> ByteVec" where
  "TPM2_ChangePPS_REQUEST_enc x =
     []"

definition TPM2_ChangePPS_REQUEST_valid :: "TPM2_ChangePPS_REQUEST \<Rightarrow> bool" where
  "TPM2_ChangePPS_REQUEST_valid x \<longleftrightarrow>
     TPM2_ChangePPS_REQUEST_authHandle x = TPM_HANDLE_default"

lemma TPM2_ChangePPS_REQUEST_writes [writes_intros]:
  "TPM2_ChangePPS_REQUEST_valid x \<Longrightarrow> writes (TPM2_ChangePPS_REQUEST_toTpm x) (TPM2_ChangePPS_REQUEST_enc x)"
  unfolding TPM2_ChangePPS_REQUEST_toTpm_def TPM2_ChangePPS_REQUEST_enc_def
  by (intro writes_intros; simp add: TPM2_ChangePPS_REQUEST_valid_def opt_ok_iff)

lemma TPM2_ChangePPS_REQUEST_reads:
  "TPM2_ChangePPS_REQUEST_valid x \<Longrightarrow> reads (TPM2_ChangePPS_REQUEST_initFromTpm TPM2_ChangePPS_REQUEST_default) x (TPM2_ChangePPS_REQUEST_enc x)"
  by (simp only: TPM2_ChangePPS_REQUEST_initFromTpm_def TPM2_ChangePPS_REQUEST_enc_def TPM2_ChangePPS_REQUEST_default_def
        TPM2_ChangePPS_REQUEST.select_convs TPM2_ChangePPS_REQUEST.update_convs;
      intro reads_intros; (rule TPM2_ChangePPS_REQUEST.equality)?; simp add: TPM2_ChangePPS_REQUEST_valid_def opt_ok_iff)

interpretation TPM2_ChangePPS_REQUEST_codec:
  tpm_codec TPM2_ChangePPS_REQUEST_toTpm TPM2_ChangePPS_REQUEST_initFromTpm TPM2_ChangePPS_REQUEST_default
    TPM2_ChangePPS_REQUEST_enc TPM2_ChangePPS_REQUEST_valid
  by unfold_locales (erule TPM2_ChangePPS_REQUEST_writes TPM2_ChangePPS_REQUEST_reads | simp add: TPM2_ChangePPS_REQUEST_toTpm_def writes_ret)+

definition TPM2_ChangePPS_REQUEST_req :: "TPM2_ChangePPS_REQUEST \<Rightarrow> TPM_HANDLE ReqStructure" where
  "TPM2_ChangePPS_REQUEST_req self =
     \<lparr>req_toTpm = TPM2_ChangePPS_REQUEST_toTpm self, req_numHandles = 1,
     req_numAuthHandles = 1, req_getHandles = [TPM2_ChangePPS_REQUEST_authHandle self], req_sessEncInfo = no_sessEncInfo\<rparr>"

subsection \<open>TPM2_ChangeEPS_REQUEST\<close>

text \<open>This replaces the current endorsement primary seed (EPS) with a value from the RNG and sets the Endorsement hierarchy controls to their default ....\<close>

record TPM2_ChangeEPS_REQUEST =
  TPM2_ChangeEPS_REQUEST_authHandle :: "TPM_HANDLE"

definition TPM2_ChangeEPS_REQUEST_default :: TPM2_ChangeEPS_REQUEST where
  "TPM2_ChangeEPS_REQUEST_default = \<lparr>TPM2_ChangeEPS_REQUEST_authHandle = TPM_HANDLE_default\<rparr>"

definition TPM2_ChangeEPS_REQUEST_toTpm :: "TPM2_ChangeEPS_REQUEST \<Rightarrow> unit tpm" where
  "TPM2_ChangeEPS_REQUEST_toTpm self =
     wseq []"

definition TPM2_ChangeEPS_REQUEST_initFromTpm :: "TPM2_ChangeEPS_REQUEST \<Rightarrow> TPM2_ChangeEPS_REQUEST tpm" where
  "TPM2_ChangeEPS_REQUEST_initFromTpm self =
     ret self"

definition TPM2_ChangeEPS_REQUEST_enc :: "TPM2_ChangeEPS_REQUEST \<Rightarrow> ByteVec" where
  "TPM2_ChangeEPS_REQUEST_enc x =
     []"

definition TPM2_ChangeEPS_REQUEST_valid :: "TPM2_ChangeEPS_REQUEST \<Rightarrow> bool" where
  "TPM2_ChangeEPS_REQUEST_valid x \<longleftrightarrow>
     TPM2_ChangeEPS_REQUEST_authHandle x = TPM_HANDLE_default"

lemma TPM2_ChangeEPS_REQUEST_writes [writes_intros]:
  "TPM2_ChangeEPS_REQUEST_valid x \<Longrightarrow> writes (TPM2_ChangeEPS_REQUEST_toTpm x) (TPM2_ChangeEPS_REQUEST_enc x)"
  unfolding TPM2_ChangeEPS_REQUEST_toTpm_def TPM2_ChangeEPS_REQUEST_enc_def
  by (intro writes_intros; simp add: TPM2_ChangeEPS_REQUEST_valid_def opt_ok_iff)

lemma TPM2_ChangeEPS_REQUEST_reads:
  "TPM2_ChangeEPS_REQUEST_valid x \<Longrightarrow> reads (TPM2_ChangeEPS_REQUEST_initFromTpm TPM2_ChangeEPS_REQUEST_default) x (TPM2_ChangeEPS_REQUEST_enc x)"
  by (simp only: TPM2_ChangeEPS_REQUEST_initFromTpm_def TPM2_ChangeEPS_REQUEST_enc_def TPM2_ChangeEPS_REQUEST_default_def
        TPM2_ChangeEPS_REQUEST.select_convs TPM2_ChangeEPS_REQUEST.update_convs;
      intro reads_intros; (rule TPM2_ChangeEPS_REQUEST.equality)?; simp add: TPM2_ChangeEPS_REQUEST_valid_def opt_ok_iff)

interpretation TPM2_ChangeEPS_REQUEST_codec:
  tpm_codec TPM2_ChangeEPS_REQUEST_toTpm TPM2_ChangeEPS_REQUEST_initFromTpm TPM2_ChangeEPS_REQUEST_default
    TPM2_ChangeEPS_REQUEST_enc TPM2_ChangeEPS_REQUEST_valid
  by unfold_locales (erule TPM2_ChangeEPS_REQUEST_writes TPM2_ChangeEPS_REQUEST_reads | simp add: TPM2_ChangeEPS_REQUEST_toTpm_def writes_ret)+

definition TPM2_ChangeEPS_REQUEST_req :: "TPM2_ChangeEPS_REQUEST \<Rightarrow> TPM_HANDLE ReqStructure" where
  "TPM2_ChangeEPS_REQUEST_req self =
     \<lparr>req_toTpm = TPM2_ChangeEPS_REQUEST_toTpm self, req_numHandles = 1,
     req_numAuthHandles = 1, req_getHandles = [TPM2_ChangeEPS_REQUEST_authHandle self], req_sessEncInfo = no_sessEncInfo\<rparr>"

subsection \<open>TPM2_Clear_REQUEST\<close>

text \<open>This command removes all TPM context associated with a specific Owner.\<close>

record TPM2_Clear_REQUEST =
  TPM2_Clear_REQUEST_authHandle :: "TPM_HANDLE"

definition TPM2_Clear_REQUEST_default :: TPM2_Clear_REQUEST where
  "TPM2_Clear_REQUEST_default = \<lparr>TPM2_Clear_REQUEST_authHandle = TPM_HANDLE_default\<rparr>"

definition TPM2_Clear_REQUEST_toTpm :: "TPM2_Clear_REQUEST \<Rightarrow> unit tpm" where
  "TPM2_Clear_REQUEST_toTpm self =
     wseq []"

definition TPM2_Clear_REQUEST_initFromTpm :: "TPM2_Clear_REQUEST \<Rightarrow> TPM2_Clear_REQUEST tpm" where
  "TPM2_Clear_REQUEST_initFromTpm self =
     ret self"

definition TPM2_Clear_REQUEST_enc :: "TPM2_Clear_REQUEST \<Rightarrow> ByteVec" where
  "TPM2_Clear_REQUEST_enc x =
     []"

definition TPM2_Clear_REQUEST_valid :: "TPM2_Clear_REQUEST \<Rightarrow> bool" where
  "TPM2_Clear_REQUEST_valid x \<longleftrightarrow>
     TPM2_Clear_REQUEST_authHandle x = TPM_HANDLE_default"

lemma TPM2_Clear_REQUEST_writes [writes_intros]:
  "TPM2_Clear_REQUEST_valid x \<Longrightarrow> writes (TPM2_Clear_REQUEST_toTpm x) (TPM2_Clear_REQUEST_enc x)"
  unfolding TPM2_Clear_REQUEST_toTpm_def TPM2_Clear_REQUEST_enc_def
  by (intro writes_intros; simp add: TPM2_Clear_REQUEST_valid_def opt_ok_iff)

lemma TPM2_Clear_REQUEST_reads:
  "TPM2_Clear_REQUEST_valid x \<Longrightarrow> reads (TPM2_Clear_REQUEST_initFromTpm TPM2_Clear_REQUEST_default) x (TPM2_Clear_REQUEST_enc x)"
  by (simp only: TPM2_Clear_REQUEST_initFromTpm_def TPM2_Clear_REQUEST_enc_def TPM2_Clear_REQUEST_default_def
        TPM2_Clear_REQUEST.select_convs TPM2_Clear_REQUEST.update_convs;
      intro reads_intros; (rule TPM2_Clear_REQUEST.equality)?; simp add: TPM2_Clear_REQUEST_valid_def opt_ok_iff)

interpretation TPM2_Clear_REQUEST_codec:
  tpm_codec TPM2_Clear_REQUEST_toTpm TPM2_Clear_REQUEST_initFromTpm TPM2_Clear_REQUEST_default
    TPM2_Clear_REQUEST_enc TPM2_Clear_REQUEST_valid
  by unfold_locales (erule TPM2_Clear_REQUEST_writes TPM2_Clear_REQUEST_reads | simp add: TPM2_Clear_REQUEST_toTpm_def writes_ret)+

definition TPM2_Clear_REQUEST_req :: "TPM2_Clear_REQUEST \<Rightarrow> TPM_HANDLE ReqStructure" where
  "TPM2_Clear_REQUEST_req self =
     \<lparr>req_toTpm = TPM2_Clear_REQUEST_toTpm self, req_numHandles = 1,
     req_numAuthHandles = 1, req_getHandles = [TPM2_Clear_REQUEST_authHandle self], req_sessEncInfo = no_sessEncInfo\<rparr>"

subsection \<open>TPM2_ClearControl_REQUEST\<close>

text \<open>TPM2_ClearControl() disables and enables the execution of TPM2_Clear().\<close>

record TPM2_ClearControl_REQUEST =
  TPM2_ClearControl_REQUEST_auth :: "TPM_HANDLE"
  TPM2_ClearControl_REQUEST_disable :: "byte"

definition TPM2_ClearControl_REQUEST_default :: TPM2_ClearControl_REQUEST where
  "TPM2_ClearControl_REQUEST_default = \<lparr>TPM2_ClearControl_REQUEST_auth = TPM_HANDLE_default, TPM2_ClearControl_REQUEST_disable = 0\<rparr>"

definition TPM2_ClearControl_REQUEST_toTpm :: "TPM2_ClearControl_REQUEST \<Rightarrow> unit tpm" where
  "TPM2_ClearControl_REQUEST_toTpm self =
     wseq [writeByte (TPM2_ClearControl_REQUEST_disable self)]"

definition TPM2_ClearControl_REQUEST_initFromTpm :: "TPM2_ClearControl_REQUEST \<Rightarrow> TPM2_ClearControl_REQUEST tpm" where
  "TPM2_ClearControl_REQUEST_initFromTpm self =
     sbind readByte (\<lambda>disable.
     ret (self\<lparr>TPM2_ClearControl_REQUEST_disable := disable\<rparr>))"

definition TPM2_ClearControl_REQUEST_enc :: "TPM2_ClearControl_REQUEST \<Rightarrow> ByteVec" where
  "TPM2_ClearControl_REQUEST_enc x =
     enc8 (TPM2_ClearControl_REQUEST_disable x)"

definition TPM2_ClearControl_REQUEST_valid :: "TPM2_ClearControl_REQUEST \<Rightarrow> bool" where
  "TPM2_ClearControl_REQUEST_valid x \<longleftrightarrow>
     TPM2_ClearControl_REQUEST_auth x = TPM_HANDLE_default"

lemma TPM2_ClearControl_REQUEST_writes [writes_intros]:
  "TPM2_ClearControl_REQUEST_valid x \<Longrightarrow> writes (TPM2_ClearControl_REQUEST_toTpm x) (TPM2_ClearControl_REQUEST_enc x)"
  unfolding TPM2_ClearControl_REQUEST_toTpm_def TPM2_ClearControl_REQUEST_enc_def
  by (intro writes_intros; simp add: TPM2_ClearControl_REQUEST_valid_def opt_ok_iff)

lemma TPM2_ClearControl_REQUEST_reads:
  "TPM2_ClearControl_REQUEST_valid x \<Longrightarrow> reads (TPM2_ClearControl_REQUEST_initFromTpm TPM2_ClearControl_REQUEST_default) x (TPM2_ClearControl_REQUEST_enc x)"
  by (simp only: TPM2_ClearControl_REQUEST_initFromTpm_def TPM2_ClearControl_REQUEST_enc_def TPM2_ClearControl_REQUEST_default_def
        TPM2_ClearControl_REQUEST.select_convs TPM2_ClearControl_REQUEST.update_convs;
      intro reads_intros; (rule TPM2_ClearControl_REQUEST.equality)?; simp add: TPM2_ClearControl_REQUEST_valid_def opt_ok_iff)

interpretation TPM2_ClearControl_REQUEST_codec:
  tpm_codec TPM2_ClearControl_REQUEST_toTpm TPM2_ClearControl_REQUEST_initFromTpm TPM2_ClearControl_REQUEST_default
    TPM2_ClearControl_REQUEST_enc TPM2_ClearControl_REQUEST_valid
  by unfold_locales (erule TPM2_ClearControl_REQUEST_writes TPM2_ClearControl_REQUEST_reads | simp add: TPM2_ClearControl_REQUEST_enc_def)+

definition TPM2_ClearControl_REQUEST_req :: "TPM2_ClearControl_REQUEST \<Rightarrow> TPM_HANDLE ReqStructure" where
  "TPM2_ClearControl_REQUEST_req self =
     \<lparr>req_toTpm = TPM2_ClearControl_REQUEST_toTpm self, req_numHandles = 1,
     req_numAuthHandles = 1, req_getHandles = [TPM2_ClearControl_REQUEST_auth self], req_sessEncInfo = no_sessEncInfo\<rparr>"

subsection \<open>TPM2_HierarchyChangeAuth_REQUEST\<close>

text \<open>This command allows the authorization secret for a hierarchy or lockout to be changed using the current authorization value as the command ....\<close>

record TPM2_HierarchyChangeAuth_REQUEST =
  TPM2_HierarchyChangeAuth_REQUEST_authHandle :: "TPM_HANDLE"
  TPM2_HierarchyChangeAuth_REQUEST_newAuth :: "ByteVec"

definition TPM2_HierarchyChangeAuth_REQUEST_default :: TPM2_HierarchyChangeAuth_REQUEST where
  "TPM2_HierarchyChangeAuth_REQUEST_default = \<lparr>TPM2_HierarchyChangeAuth_REQUEST_authHandle = TPM_HANDLE_default, TPM2_HierarchyChangeAuth_REQUEST_newAuth = []\<rparr>"

definition TPM2_HierarchyChangeAuth_REQUEST_toTpm :: "TPM2_HierarchyChangeAuth_REQUEST \<Rightarrow> unit tpm" where
  "TPM2_HierarchyChangeAuth_REQUEST_toTpm self =
     wseq [writeSizedByteBuf (TPM2_HierarchyChangeAuth_REQUEST_newAuth self) 2]"

definition TPM2_HierarchyChangeAuth_REQUEST_initFromTpm :: "TPM2_HierarchyChangeAuth_REQUEST \<Rightarrow> TPM2_HierarchyChangeAuth_REQUEST tpm" where
  "TPM2_HierarchyChangeAuth_REQUEST_initFromTpm self =
     sbind (readSizedByteBuf 2) (\<lambda>newAuth.
     ret (self\<lparr>TPM2_HierarchyChangeAuth_REQUEST_newAuth := newAuth\<rparr>))"

definition TPM2_HierarchyChangeAuth_REQUEST_enc :: "TPM2_HierarchyChangeAuth_REQUEST \<Rightarrow> ByteVec" where
  "TPM2_HierarchyChangeAuth_REQUEST_enc x =
     enc_sized 2 (TPM2_HierarchyChangeAuth_REQUEST_newAuth x)"

definition TPM2_HierarchyChangeAuth_REQUEST_valid :: "TPM2_HierarchyChangeAuth_REQUEST \<Rightarrow> bool" where
  "TPM2_HierarchyChangeAuth_REQUEST_valid x \<longleftrightarrow>
     sized_ok 2 (TPM2_HierarchyChangeAuth_REQUEST_newAuth x) \<and>
     TPM2_HierarchyChangeAuth_REQUEST_authHandle x = TPM_HANDLE_default"

lemma TPM2_HierarchyChangeAuth_REQUEST_writes [writes_intros]:
  "TPM2_HierarchyChangeAuth_REQUEST_valid x \<Longrightarrow> writes (TPM2_HierarchyChangeAuth_REQUEST_toTpm x) (TPM2_HierarchyChangeAuth_REQUEST_enc x)"
  unfolding TPM2_HierarchyChangeAuth_REQUEST_toTpm_def TPM2_HierarchyChangeAuth_REQUEST_enc_def
  by (intro writes_intros; simp add: TPM2_HierarchyChangeAuth_REQUEST_valid_def opt_ok_iff)

lemma TPM2_HierarchyChangeAuth_REQUEST_reads:
  "TPM2_HierarchyChangeAuth_REQUEST_valid x \<Longrightarrow> reads (TPM2_HierarchyChangeAuth_REQUEST_initFromTpm TPM2_HierarchyChangeAuth_REQUEST_default) x (TPM2_HierarchyChangeAuth_REQUEST_enc x)"
  by (simp only: TPM2_HierarchyChangeAuth_REQUEST_initFromTpm_def TPM2_HierarchyChangeAuth_REQUEST_enc_def TPM2_HierarchyChangeAuth_REQUEST_default_def
        TPM2_HierarchyChangeAuth_REQUEST.select_convs TPM2_HierarchyChangeAuth_REQUEST.update_convs;
      intro reads_intros; (rule TPM2_HierarchyChangeAuth_REQUEST.equality)?; simp add: TPM2_HierarchyChangeAuth_REQUEST_valid_def opt_ok_iff)

interpretation TPM2_HierarchyChangeAuth_REQUEST_codec:
  tpm_codec TPM2_HierarchyChangeAuth_REQUEST_toTpm TPM2_HierarchyChangeAuth_REQUEST_initFromTpm TPM2_HierarchyChangeAuth_REQUEST_default
    TPM2_HierarchyChangeAuth_REQUEST_enc TPM2_HierarchyChangeAuth_REQUEST_valid
  by unfold_locales (erule TPM2_HierarchyChangeAuth_REQUEST_writes TPM2_HierarchyChangeAuth_REQUEST_reads | simp add: TPM2_HierarchyChangeAuth_REQUEST_enc_def)+

definition TPM2_HierarchyChangeAuth_REQUEST_req :: "TPM2_HierarchyChangeAuth_REQUEST \<Rightarrow> TPM_HANDLE ReqStructure" where
  "TPM2_HierarchyChangeAuth_REQUEST_req self =
     \<lparr>req_toTpm = TPM2_HierarchyChangeAuth_REQUEST_toTpm self, req_numHandles = 1,
     req_numAuthHandles = 1, req_getHandles = [TPM2_HierarchyChangeAuth_REQUEST_authHandle self], req_sessEncInfo = \<lparr>sizeLen = 2, valLen = 1\<rparr>\<rparr>"

subsection \<open>TPM2_DictionaryAttackLockReset_REQUEST\<close>

text \<open>This command cancels the effect of a TPM lockout due to a number of successive authorization failures.\<close>

record TPM2_DictionaryAttackLockReset_REQUEST =
  TPM2_DictionaryAttackLockReset_REQUEST_lockHandle :: "TPM_HANDLE"

definition TPM2_DictionaryAttackLockReset_REQUEST_default :: TPM2_DictionaryAttackLockReset_REQUEST where
  "TPM2_DictionaryAttackLockReset_REQUEST_default = \<lparr>TPM2_DictionaryAttackLockReset_REQUEST_lockHandle = TPM_HANDLE_default\<rparr>"

definition TPM2_DictionaryAttackLockReset_REQUEST_toTpm :: "TPM2_DictionaryAttackLockReset_REQUEST \<Rightarrow> unit tpm" where
  "TPM2_DictionaryAttackLockReset_REQUEST_toTpm self =
     wseq []"

definition TPM2_DictionaryAttackLockReset_REQUEST_initFromTpm :: "TPM2_DictionaryAttackLockReset_REQUEST \<Rightarrow> TPM2_DictionaryAttackLockReset_REQUEST tpm" where
  "TPM2_DictionaryAttackLockReset_REQUEST_initFromTpm self =
     ret self"

definition TPM2_DictionaryAttackLockReset_REQUEST_enc :: "TPM2_DictionaryAttackLockReset_REQUEST \<Rightarrow> ByteVec" where
  "TPM2_DictionaryAttackLockReset_REQUEST_enc x =
     []"

definition TPM2_DictionaryAttackLockReset_REQUEST_valid :: "TPM2_DictionaryAttackLockReset_REQUEST \<Rightarrow> bool" where
  "TPM2_DictionaryAttackLockReset_REQUEST_valid x \<longleftrightarrow>
     TPM2_DictionaryAttackLockReset_REQUEST_lockHandle x = TPM_HANDLE_default"

lemma TPM2_DictionaryAttackLockReset_REQUEST_writes [writes_intros]:
  "TPM2_DictionaryAttackLockReset_REQUEST_valid x \<Longrightarrow> writes (TPM2_DictionaryAttackLockReset_REQUEST_toTpm x) (TPM2_DictionaryAttackLockReset_REQUEST_enc x)"
  unfolding TPM2_DictionaryAttackLockReset_REQUEST_toTpm_def TPM2_DictionaryAttackLockReset_REQUEST_enc_def
  by (intro writes_intros; simp add: TPM2_DictionaryAttackLockReset_REQUEST_valid_def opt_ok_iff)

lemma TPM2_DictionaryAttackLockReset_REQUEST_reads:
  "TPM2_DictionaryAttackLockReset_REQUEST_valid x \<Longrightarrow> reads (TPM2_DictionaryAttackLockReset_REQUEST_initFromTpm TPM2_DictionaryAttackLockReset_REQUEST_default) x (TPM2_DictionaryAttackLockReset_REQUEST_enc x)"
  by (simp only: TPM2_DictionaryAttackLockReset_REQUEST_initFromTpm_def TPM2_DictionaryAttackLockReset_REQUEST_enc_def TPM2_DictionaryAttackLockReset_REQUEST_default_def
        TPM2_DictionaryAttackLockReset_REQUEST.select_convs TPM2_DictionaryAttackLockReset_REQUEST.update_convs;
      intro reads_intros; (rule TPM2_DictionaryAttackLockReset_REQUEST.equality)?; simp add: TPM2_DictionaryAttackLockReset_REQUEST_valid_def opt_ok_iff)

interpretation TPM2_DictionaryAttackLockReset_REQUEST_codec:
  tpm_codec TPM2_DictionaryAttackLockReset_REQUEST_toTpm TPM2_DictionaryAttackLockReset_REQUEST_initFromTpm TPM2_DictionaryAttackLockReset_REQUEST_default
    TPM2_DictionaryAttackLockReset_REQUEST_enc TPM2_DictionaryAttackLockReset_REQUEST_valid
  by unfold_locales (erule TPM2_DictionaryAttackLockReset_REQUEST_writes TPM2_DictionaryAttackLockReset_REQUEST_reads | simp add: TPM2_DictionaryAttackLockReset_REQUEST_toTpm_def writes_ret)+

definition TPM2_DictionaryAttackLockReset_REQUEST_req :: "TPM2_DictionaryAttackLockReset_REQUEST \<Rightarrow> TPM_HANDLE ReqStructure" where
  "TPM2_DictionaryAttackLockReset_REQUEST_req self =
     \<lparr>req_toTpm = TPM2_DictionaryAttackLockReset_REQUEST_toTpm self, req_numHandles = 1,
     req_numAuthHandles = 1, req_getHandles = [TPM2_DictionaryAttackLockReset_REQUEST_lockHandle self], req_sessEncInfo = no_sessEncInfo\<rparr>"

subsection \<open>TPM2_DictionaryAttackParameters_REQUEST\<close>

text \<open>This command changes the lockout parameters.\<close>

record TPM2_DictionaryAttackParameters_REQUEST =
  TPM2_DictionaryAttackParameters_REQUEST_lockHandle :: "TPM_HANDLE"
  TPM2_DictionaryAttackParameters_REQUEST_newMaxTries :: "UINT32"
  TPM2_DictionaryAttackParameters_REQUEST_newRecoveryTime :: "UINT32"
  TPM2_DictionaryAttackParameters_REQUEST_lockoutRecovery :: "UINT32"

definition TPM2_DictionaryAttackParameters_REQUEST_default :: TPM2_DictionaryAttackParameters_REQUEST where
  "TPM2_DictionaryAttackParameters_REQUEST_default = \<lparr>TPM2_DictionaryAttackParameters_REQUEST_lockHandle = TPM_HANDLE_default, TPM2_DictionaryAttackParameters_REQUEST_newMaxTries = 0, TPM2_DictionaryAttackParameters_REQUEST_newRecoveryTime = 0, TPM2_DictionaryAttackParameters_REQUEST_lockoutRecovery = 0\<rparr>"

definition TPM2_DictionaryAttackParameters_REQUEST_toTpm :: "TPM2_DictionaryAttackParameters_REQUEST \<Rightarrow> unit tpm" where
  "TPM2_DictionaryAttackParameters_REQUEST_toTpm self =
     wseq [writeInt (TPM2_DictionaryAttackParameters_REQUEST_newMaxTries self),
       writeInt (TPM2_DictionaryAttackParameters_REQUEST_newRecoveryTime self),
       writeInt (TPM2_DictionaryAttackParameters_REQUEST_lockoutRecovery self)]"

definition TPM2_DictionaryAttackParameters_REQUEST_initFromTpm :: "TPM2_DictionaryAttackParameters_REQUEST \<Rightarrow> TPM2_DictionaryAttackParameters_REQUEST tpm" where
  "TPM2_DictionaryAttackParameters_REQUEST_initFromTpm self =
     sbind readInt (\<lambda>newMaxTries.
     sbind readInt (\<lambda>newRecoveryTime.
     sbind readInt (\<lambda>lockoutRecovery.
     ret (self\<lparr>TPM2_DictionaryAttackParameters_REQUEST_newMaxTries := newMaxTries, TPM2_DictionaryAttackParameters_REQUEST_newRecoveryTime := newRecoveryTime, TPM2_DictionaryAttackParameters_REQUEST_lockoutRecovery := lockoutRecovery\<rparr>))))"

definition TPM2_DictionaryAttackParameters_REQUEST_enc :: "TPM2_DictionaryAttackParameters_REQUEST \<Rightarrow> ByteVec" where
  "TPM2_DictionaryAttackParameters_REQUEST_enc x =
     enc32 (TPM2_DictionaryAttackParameters_REQUEST_newMaxTries x) @
     enc32 (TPM2_DictionaryAttackParameters_REQUEST_newRecoveryTime x) @
     enc32 (TPM2_DictionaryAttackParameters_REQUEST_lockoutRecovery x)"

definition TPM2_DictionaryAttackParameters_REQUEST_valid :: "TPM2_DictionaryAttackParameters_REQUEST \<Rightarrow> bool" where
  "TPM2_DictionaryAttackParameters_REQUEST_valid x \<longleftrightarrow>
     TPM2_DictionaryAttackParameters_REQUEST_lockHandle x = TPM_HANDLE_default"

lemma TPM2_DictionaryAttackParameters_REQUEST_writes [writes_intros]:
  "TPM2_DictionaryAttackParameters_REQUEST_valid x \<Longrightarrow> writes (TPM2_DictionaryAttackParameters_REQUEST_toTpm x) (TPM2_DictionaryAttackParameters_REQUEST_enc x)"
  unfolding TPM2_DictionaryAttackParameters_REQUEST_toTpm_def TPM2_DictionaryAttackParameters_REQUEST_enc_def
  by (intro writes_intros; simp add: TPM2_DictionaryAttackParameters_REQUEST_valid_def opt_ok_iff)

lemma TPM2_DictionaryAttackParameters_REQUEST_reads:
  "TPM2_DictionaryAttackParameters_REQUEST_valid x \<Longrightarrow> reads (TPM2_DictionaryAttackParameters_REQUEST_initFromTpm TPM2_DictionaryAttackParameters_REQUEST_default) x (TPM2_DictionaryAttackParameters_REQUEST_enc x)"
  by (simp only: TPM2_DictionaryAttackParameters_REQUEST_initFromTpm_def TPM2_DictionaryAttackParameters_REQUEST_enc_def TPM2_DictionaryAttackParameters_REQUEST_default_def
        TPM2_DictionaryAttackParameters_REQUEST.select_convs TPM2_DictionaryAttackParameters_REQUEST.update_convs;
      intro reads_intros; (rule TPM2_DictionaryAttackParameters_REQUEST.equality)?; simp add: TPM2_DictionaryAttackParameters_REQUEST_valid_def opt_ok_iff)

interpretation TPM2_DictionaryAttackParameters_REQUEST_codec:
  tpm_codec TPM2_DictionaryAttackParameters_REQUEST_toTpm TPM2_DictionaryAttackParameters_REQUEST_initFromTpm TPM2_DictionaryAttackParameters_REQUEST_default
    TPM2_DictionaryAttackParameters_REQUEST_enc TPM2_DictionaryAttackParameters_REQUEST_valid
  by unfold_locales (erule TPM2_DictionaryAttackParameters_REQUEST_writes TPM2_DictionaryAttackParameters_REQUEST_reads | simp add: TPM2_DictionaryAttackParameters_REQUEST_enc_def)+

definition TPM2_DictionaryAttackParameters_REQUEST_req :: "TPM2_DictionaryAttackParameters_REQUEST \<Rightarrow> TPM_HANDLE ReqStructure" where
  "TPM2_DictionaryAttackParameters_REQUEST_req self =
     \<lparr>req_toTpm = TPM2_DictionaryAttackParameters_REQUEST_toTpm self, req_numHandles = 1,
     req_numAuthHandles = 1, req_getHandles = [TPM2_DictionaryAttackParameters_REQUEST_lockHandle self], req_sessEncInfo = no_sessEncInfo\<rparr>"

subsection \<open>TPM2_PP_Commands_REQUEST\<close>

text \<open>This command is used to determine which commands require assertion of Physical Presence (PP) in addition to platformAuth/platformPolicy.\<close>

record TPM2_PP_Commands_REQUEST =
  TPM2_PP_Commands_REQUEST_auth :: "TPM_HANDLE"
  TPM2_PP_Commands_REQUEST_setList :: "TPM_CC list"
  TPM2_PP_Commands_REQUEST_clearList :: "TPM_CC list"

definition TPM2_PP_Commands_REQUEST_default :: TPM2_PP_Commands_REQUEST where
  "TPM2_PP_Commands_REQUEST_default = \<lparr>TPM2_PP_Commands_REQUEST_auth = TPM_HANDLE_default, TPM2_PP_Commands_REQUEST_setList = [], TPM2_PP_Commands_REQUEST_clearList = []\<rparr>"

definition TPM2_PP_Commands_REQUEST_toTpm :: "TPM2_PP_Commands_REQUEST \<Rightarrow> unit tpm" where
  "TPM2_PP_Commands_REQUEST_toTpm self =
     wseq [writeValArr (TPM2_PP_Commands_REQUEST_setList self) 4,
       writeValArr (TPM2_PP_Commands_REQUEST_clearList self) 4]"

definition TPM2_PP_Commands_REQUEST_initFromTpm :: "TPM2_PP_Commands_REQUEST \<Rightarrow> TPM2_PP_Commands_REQUEST tpm" where
  "TPM2_PP_Commands_REQUEST_initFromTpm self =
     sbind (readValArr (TPM2_PP_Commands_REQUEST_setList self) 4) (\<lambda>setList.
     sbind (readValArr (TPM2_PP_Commands_REQUEST_clearList self) 4) (\<lambda>clearList.
     ret (self\<lparr>TPM2_PP_Commands_REQUEST_setList := setList, TPM2_PP_Commands_REQUEST_clearList := clearList\<rparr>)))"

definition TPM2_PP_Commands_REQUEST_enc :: "TPM2_PP_Commands_REQUEST \<Rightarrow> ByteVec" where
  "TPM2_PP_Commands_REQUEST_enc x =
     enc_arr (enc_val 4) (TPM2_PP_Commands_REQUEST_setList x) @
     enc_arr (enc_val 4) (TPM2_PP_Commands_REQUEST_clearList x)"

definition TPM2_PP_Commands_REQUEST_valid :: "TPM2_PP_Commands_REQUEST \<Rightarrow> bool" where
  "TPM2_PP_Commands_REQUEST_valid x \<longleftrightarrow>
     length (TPM2_PP_Commands_REQUEST_setList x) < 2 ^ 32 \<and>
     length (TPM2_PP_Commands_REQUEST_clearList x) < 2 ^ 32 \<and>
     TPM2_PP_Commands_REQUEST_auth x = TPM_HANDLE_default"

lemma TPM2_PP_Commands_REQUEST_writes [writes_intros]:
  "TPM2_PP_Commands_REQUEST_valid x \<Longrightarrow> writes (TPM2_PP_Commands_REQUEST_toTpm x) (TPM2_PP_Commands_REQUEST_enc x)"
  unfolding TPM2_PP_Commands_REQUEST_toTpm_def TPM2_PP_Commands_REQUEST_enc_def
  by (intro writes_intros; simp add: TPM2_PP_Commands_REQUEST_valid_def opt_ok_iff)

lemma TPM2_PP_Commands_REQUEST_reads:
  "TPM2_PP_Commands_REQUEST_valid x \<Longrightarrow> reads (TPM2_PP_Commands_REQUEST_initFromTpm TPM2_PP_Commands_REQUEST_default) x (TPM2_PP_Commands_REQUEST_enc x)"
  by (simp only: TPM2_PP_Commands_REQUEST_initFromTpm_def TPM2_PP_Commands_REQUEST_enc_def TPM2_PP_Commands_REQUEST_default_def
        TPM2_PP_Commands_REQUEST.select_convs TPM2_PP_Commands_REQUEST.update_convs;
      intro reads_intros; (rule TPM2_PP_Commands_REQUEST.equality)?; simp add: TPM2_PP_Commands_REQUEST_valid_def opt_ok_iff)

interpretation TPM2_PP_Commands_REQUEST_codec:
  tpm_codec TPM2_PP_Commands_REQUEST_toTpm TPM2_PP_Commands_REQUEST_initFromTpm TPM2_PP_Commands_REQUEST_default
    TPM2_PP_Commands_REQUEST_enc TPM2_PP_Commands_REQUEST_valid
  by unfold_locales (erule TPM2_PP_Commands_REQUEST_writes TPM2_PP_Commands_REQUEST_reads | simp add: TPM2_PP_Commands_REQUEST_enc_def)+

definition TPM2_PP_Commands_REQUEST_req :: "TPM2_PP_Commands_REQUEST \<Rightarrow> TPM_HANDLE ReqStructure" where
  "TPM2_PP_Commands_REQUEST_req self =
     \<lparr>req_toTpm = TPM2_PP_Commands_REQUEST_toTpm self, req_numHandles = 1,
     req_numAuthHandles = 1, req_getHandles = [TPM2_PP_Commands_REQUEST_auth self], req_sessEncInfo = \<lparr>sizeLen = 4, valLen = 4\<rparr>\<rparr>"

subsection \<open>TPM2_SetAlgorithmSet_REQUEST\<close>

text \<open>This command allows the platform to change the set of algorithms that are used by the TPM. The algorithmSet setting is a vendor-dependent value.\<close>

record TPM2_SetAlgorithmSet_REQUEST =
  TPM2_SetAlgorithmSet_REQUEST_authHandle :: "TPM_HANDLE"
  TPM2_SetAlgorithmSet_REQUEST_algorithmSet :: "UINT32"

definition TPM2_SetAlgorithmSet_REQUEST_default :: TPM2_SetAlgorithmSet_REQUEST where
  "TPM2_SetAlgorithmSet_REQUEST_default = \<lparr>TPM2_SetAlgorithmSet_REQUEST_authHandle = TPM_HANDLE_default, TPM2_SetAlgorithmSet_REQUEST_algorithmSet = 0\<rparr>"

definition TPM2_SetAlgorithmSet_REQUEST_toTpm :: "TPM2_SetAlgorithmSet_REQUEST \<Rightarrow> unit tpm" where
  "TPM2_SetAlgorithmSet_REQUEST_toTpm self =
     wseq [writeInt (TPM2_SetAlgorithmSet_REQUEST_algorithmSet self)]"

definition TPM2_SetAlgorithmSet_REQUEST_initFromTpm :: "TPM2_SetAlgorithmSet_REQUEST \<Rightarrow> TPM2_SetAlgorithmSet_REQUEST tpm" where
  "TPM2_SetAlgorithmSet_REQUEST_initFromTpm self =
     sbind readInt (\<lambda>algorithmSet.
     ret (self\<lparr>TPM2_SetAlgorithmSet_REQUEST_algorithmSet := algorithmSet\<rparr>))"

definition TPM2_SetAlgorithmSet_REQUEST_enc :: "TPM2_SetAlgorithmSet_REQUEST \<Rightarrow> ByteVec" where
  "TPM2_SetAlgorithmSet_REQUEST_enc x =
     enc32 (TPM2_SetAlgorithmSet_REQUEST_algorithmSet x)"

definition TPM2_SetAlgorithmSet_REQUEST_valid :: "TPM2_SetAlgorithmSet_REQUEST \<Rightarrow> bool" where
  "TPM2_SetAlgorithmSet_REQUEST_valid x \<longleftrightarrow>
     TPM2_SetAlgorithmSet_REQUEST_authHandle x = TPM_HANDLE_default"

lemma TPM2_SetAlgorithmSet_REQUEST_writes [writes_intros]:
  "TPM2_SetAlgorithmSet_REQUEST_valid x \<Longrightarrow> writes (TPM2_SetAlgorithmSet_REQUEST_toTpm x) (TPM2_SetAlgorithmSet_REQUEST_enc x)"
  unfolding TPM2_SetAlgorithmSet_REQUEST_toTpm_def TPM2_SetAlgorithmSet_REQUEST_enc_def
  by (intro writes_intros; simp add: TPM2_SetAlgorithmSet_REQUEST_valid_def opt_ok_iff)

lemma TPM2_SetAlgorithmSet_REQUEST_reads:
  "TPM2_SetAlgorithmSet_REQUEST_valid x \<Longrightarrow> reads (TPM2_SetAlgorithmSet_REQUEST_initFromTpm TPM2_SetAlgorithmSet_REQUEST_default) x (TPM2_SetAlgorithmSet_REQUEST_enc x)"
  by (simp only: TPM2_SetAlgorithmSet_REQUEST_initFromTpm_def TPM2_SetAlgorithmSet_REQUEST_enc_def TPM2_SetAlgorithmSet_REQUEST_default_def
        TPM2_SetAlgorithmSet_REQUEST.select_convs TPM2_SetAlgorithmSet_REQUEST.update_convs;
      intro reads_intros; (rule TPM2_SetAlgorithmSet_REQUEST.equality)?; simp add: TPM2_SetAlgorithmSet_REQUEST_valid_def opt_ok_iff)

interpretation TPM2_SetAlgorithmSet_REQUEST_codec:
  tpm_codec TPM2_SetAlgorithmSet_REQUEST_toTpm TPM2_SetAlgorithmSet_REQUEST_initFromTpm TPM2_SetAlgorithmSet_REQUEST_default
    TPM2_SetAlgorithmSet_REQUEST_enc TPM2_SetAlgorithmSet_REQUEST_valid
  by unfold_locales (erule TPM2_SetAlgorithmSet_REQUEST_writes TPM2_SetAlgorithmSet_REQUEST_reads | simp add: TPM2_SetAlgorithmSet_REQUEST_enc_def)+

definition TPM2_SetAlgorithmSet_REQUEST_req :: "TPM2_SetAlgorithmSet_REQUEST \<Rightarrow> TPM_HANDLE ReqStructure" where
  "TPM2_SetAlgorithmSet_REQUEST_req self =
     \<lparr>req_toTpm = TPM2_SetAlgorithmSet_REQUEST_toTpm self, req_numHandles = 1,
     req_numAuthHandles = 1, req_getHandles = [TPM2_SetAlgorithmSet_REQUEST_authHandle self], req_sessEncInfo = no_sessEncInfo\<rparr>"

subsection \<open>TPM2_FieldUpgradeStart_REQUEST\<close>

text \<open>This command uses platformPolicy and a TPM Vendor Authorization Key to authorize a Field Upgrade Manifest.\<close>

record TPM2_FieldUpgradeStart_REQUEST =
  TPM2_FieldUpgradeStart_REQUEST_authorization :: "TPM_HANDLE"
  TPM2_FieldUpgradeStart_REQUEST_keyHandle :: "TPM_HANDLE"
  TPM2_FieldUpgradeStart_REQUEST_fuDigest :: "ByteVec"
  TPM2_FieldUpgradeStart_REQUEST_manifestSignature :: "TPMU_SIGNATURE option"

definition TPM2_FieldUpgradeStart_REQUEST_default :: TPM2_FieldUpgradeStart_REQUEST where
  "TPM2_FieldUpgradeStart_REQUEST_default = \<lparr>TPM2_FieldUpgradeStart_REQUEST_authorization = TPM_HANDLE_default, TPM2_FieldUpgradeStart_REQUEST_keyHandle = TPM_HANDLE_default, TPM2_FieldUpgradeStart_REQUEST_fuDigest = [], TPM2_FieldUpgradeStart_REQUEST_manifestSignature = None\<rparr>"

definition TPM2_FieldUpgradeStart_REQUEST_toTpm :: "TPM2_FieldUpgradeStart_REQUEST \<Rightarrow> unit tpm" where
  "TPM2_FieldUpgradeStart_REQUEST_toTpm self =
     wseq [writeSizedByteBuf (TPM2_FieldUpgradeStart_REQUEST_fuDigest self) 2,
       deref (TPM2_FieldUpgradeStart_REQUEST_manifestSignature self) (\<lambda>u. writeShort (TPMU_SIGNATURE_GetUnionSelector u)),
       deref (TPM2_FieldUpgradeStart_REQUEST_manifestSignature self) TPMU_SIGNATURE_toTpm]"

definition TPM2_FieldUpgradeStart_REQUEST_initFromTpm :: "TPM2_FieldUpgradeStart_REQUEST \<Rightarrow> TPM2_FieldUpgradeStart_REQUEST tpm" where
  "TPM2_FieldUpgradeStart_REQUEST_initFromTpm self =
     sbind (readSizedByteBuf 2) (\<lambda>fuDigest.
     sbind readShort (\<lambda>manifestSignatureSigAlg.
     bindO (UnionFactory_Create_TPMU_SIGNATURE manifestSignatureSigAlg) (\<lambda>manifestSignature.
     sbind (deref manifestSignature TPMU_SIGNATURE_initFromTpm) (\<lambda>manifestSignature.
     ret (self\<lparr>TPM2_FieldUpgradeStart_REQUEST_fuDigest := fuDigest, TPM2_FieldUpgradeStart_REQUEST_manifestSignature := Some manifestSignature\<rparr>)))))"

definition TPM2_FieldUpgradeStart_REQUEST_enc :: "TPM2_FieldUpgradeStart_REQUEST \<Rightarrow> ByteVec" where
  "TPM2_FieldUpgradeStart_REQUEST_enc x =
     enc_sized 2 (TPM2_FieldUpgradeStart_REQUEST_fuDigest x) @
     opt_enc (\<lambda>u. enc16 (TPMU_SIGNATURE_GetUnionSelector u)) (TPM2_FieldUpgradeStart_REQUEST_manifestSignature x) @
     opt_enc TPMU_SIGNATURE_enc (TPM2_FieldUpgradeStart_REQUEST_manifestSignature x)"

definition TPM2_FieldUpgradeStart_REQUEST_valid :: "TPM2_FieldUpgradeStart_REQUEST \<Rightarrow> bool" where
  "TPM2_FieldUpgradeStart_REQUEST_valid x \<longleftrightarrow>
     sized_ok 2 (TPM2_FieldUpgradeStart_REQUEST_fuDigest x) \<and>
     opt_ok TPMU_SIGNATURE_valid (TPM2_FieldUpgradeStart_REQUEST_manifestSignature x) \<and>
     TPM2_FieldUpgradeStart_REQUEST_authorization x = TPM_HANDLE_default \<and>
     TPM2_FieldUpgradeStart_REQUEST_keyHandle x = TPM_HANDLE_default"

lemma TPM2_FieldUpgradeStart_REQUEST_writes [writes_intros]:
  "TPM2_FieldUpgradeStart_REQUEST_valid x \<Longrightarrow> writes (TPM2_FieldUpgradeStart_REQUEST_toTpm x) (TPM2_FieldUpgradeStart_REQUEST_enc x)"
  unfolding TPM2_FieldUpgradeStart_REQUEST_toTpm_def TPM2_FieldUpgradeStart_REQUEST_enc_def
  by (intro writes_intros; simp add: TPM2_FieldUpgradeStart_REQUEST_valid_def opt_ok_iff)

lemma TPM2_FieldUpgradeStart_REQUEST_reads:
  "TPM2_FieldUpgradeStart_REQUEST_valid x \<Longrightarrow> reads (TPM2_FieldUpgradeStart_REQUEST_initFromTpm TPM2_FieldUpgradeStart_REQUEST_default) x (TPM2_FieldUpgradeStart_REQUEST_enc x)"
  by (simp only: TPM2_FieldUpgradeStart_REQUEST_initFromTpm_def TPM2_FieldUpgradeStart_REQUEST_enc_def TPM2_FieldUpgradeStart_REQUEST_default_def
        TPM2_FieldUpgradeStart_REQUEST.select_convs TPM2_FieldUpgradeStart_REQUEST.update_convs;
      intro reads_intros; (rule TPM2_FieldUpgradeStart_REQUEST.equality)?; simp add: TPM2_FieldUpgradeStart_REQUEST_valid_def opt_ok_iff)

interpretation TPM2_FieldUpgradeStart_REQUEST_codec:
  tpm_codec TPM2_FieldUpgradeStart_REQUEST_toTpm TPM2_FieldUpgradeStart_REQUEST_initFromTpm TPM2_FieldUpgradeStart_REQUEST_default
    TPM2_FieldUpgradeStart_REQUEST_enc TPM2_FieldUpgradeStart_REQUEST_valid
  by unfold_locales (erule TPM2_FieldUpgradeStart_REQUEST_writes TPM2_FieldUpgradeStart_REQUEST_reads | simp add: TPM2_FieldUpgradeStart_REQUEST_enc_def)+

definition TPM2_FieldUpgradeStart_REQUEST_req :: "TPM2_FieldUpgradeStart_REQUEST \<Rightarrow> TPM_HANDLE ReqStructure" where
  "TPM2_FieldUpgradeStart_REQUEST_req self =
     \<lparr>req_toTpm = TPM2_FieldUpgradeStart_REQUEST_toTpm self, req_numHandles = 2,
     req_numAuthHandles = 1, req_getHandles = [TPM2_FieldUpgradeStart_REQUEST_authorization self, TPM2_FieldUpgradeStart_REQUEST_keyHandle self], req_sessEncInfo = \<lparr>sizeLen = 2, valLen = 1\<rparr>\<rparr>"

subsection \<open>TPM2_FieldUpgradeData_REQUEST\<close>

text \<open>This command will take the actual field upgrade image to be installed on the TPM. The exact format of fuData is vendor-specific.\<close>

record TPM2_FieldUpgradeData_REQUEST =
  TPM2_FieldUpgradeData_REQUEST_fuData :: "ByteVec"

definition TPM2_FieldUpgradeData_REQUEST_default :: TPM2_FieldUpgradeData_REQUEST where
  "TPM2_FieldUpgradeData_REQUEST_default = \<lparr>TPM2_FieldUpgradeData_REQUEST_fuData = []\<rparr>"

definition TPM2_FieldUpgradeData_REQUEST_toTpm :: "TPM2_FieldUpgradeData_REQUEST \<Rightarrow> unit tpm" where
  "TPM2_FieldUpgradeData_REQUEST_toTpm self =
     wseq [writeSizedByteBuf (TPM2_FieldUpgradeData_REQUEST_fuData self) 2]"

definition TPM2_FieldUpgradeData_REQUEST_initFromTpm :: "TPM2_FieldUpgradeData_REQUEST \<Rightarrow> TPM2_FieldUpgradeData_REQUEST tpm" where
  "TPM2_FieldUpgradeData_REQUEST_initFromTpm self =
     sbind (readSizedByteBuf 2) (\<lambda>fuData.
     ret (self\<lparr>TPM2_FieldUpgradeData_REQUEST_fuData := fuData\<rparr>))"

definition TPM2_FieldUpgradeData_REQUEST_enc :: "TPM2_FieldUpgradeData_REQUEST \<Rightarrow> ByteVec" where
  "TPM2_FieldUpgradeData_REQUEST_enc x =
     enc_sized 2 (TPM2_FieldUpgradeData_REQUEST_fuData x)"

definition TPM2_FieldUpgradeData_REQUEST_valid :: "TPM2_FieldUpgradeData_REQUEST \<Rightarrow> bool" where
  "TPM2_FieldUpgradeData_REQUEST_valid x \<longleftrightarrow>
     sized_ok 2 (TPM2_FieldUpgradeData_REQUEST_fuData x)"

lemma TPM2_FieldUpgradeData_REQUEST_writes [writes_intros]:
  "TPM2_FieldUpgradeData_REQUEST_valid x \<Longrightarrow> writes (TPM2_FieldUpgradeData_REQUEST_toTpm x) (TPM2_FieldUpgradeData_REQUEST_enc x)"
  unfolding TPM2_FieldUpgradeData_REQUEST_toTpm_def TPM2_FieldUpgradeData_REQUEST_enc_def
  by (intro writes_intros; simp add: TPM2_FieldUpgradeData_REQUEST_valid_def opt_ok_iff)

lemma TPM2_FieldUpgradeData_REQUEST_reads:
  "TPM2_FieldUpgradeData_REQUEST_valid x \<Longrightarrow> reads (TPM2_FieldUpgradeData_REQUEST_initFromTpm TPM2_FieldUpgradeData_REQUEST_default) x (TPM2_FieldUpgradeData_REQUEST_enc x)"
  by (simp only: TPM2_FieldUpgradeData_REQUEST_initFromTpm_def TPM2_FieldUpgradeData_REQUEST_enc_def TPM2_FieldUpgradeData_REQUEST_default_def
        TPM2_FieldUpgradeData_REQUEST.select_convs TPM2_FieldUpgradeData_REQUEST.update_convs;
      intro reads_intros; (rule TPM2_FieldUpgradeData_REQUEST.equality)?; simp add: TPM2_FieldUpgradeData_REQUEST_valid_def opt_ok_iff)

interpretation TPM2_FieldUpgradeData_REQUEST_codec:
  tpm_codec TPM2_FieldUpgradeData_REQUEST_toTpm TPM2_FieldUpgradeData_REQUEST_initFromTpm TPM2_FieldUpgradeData_REQUEST_default
    TPM2_FieldUpgradeData_REQUEST_enc TPM2_FieldUpgradeData_REQUEST_valid
  by unfold_locales (erule TPM2_FieldUpgradeData_REQUEST_writes TPM2_FieldUpgradeData_REQUEST_reads | simp add: TPM2_FieldUpgradeData_REQUEST_enc_def)+

definition TPM2_FieldUpgradeData_REQUEST_req :: "TPM2_FieldUpgradeData_REQUEST \<Rightarrow> TPM_HANDLE ReqStructure" where
  "TPM2_FieldUpgradeData_REQUEST_req self =
     \<lparr>req_toTpm = TPM2_FieldUpgradeData_REQUEST_toTpm self, req_numHandles = 0,
     req_numAuthHandles = 0, req_getHandles = [], req_sessEncInfo = \<lparr>sizeLen = 2, valLen = 1\<rparr>\<rparr>"

subsection \<open>FieldUpgradeDataResponse\<close>

text \<open>This command will take the actual field upgrade image to be installed on the TPM. The exact format of fuData is vendor-specific.\<close>

record FieldUpgradeDataResponse =
  FieldUpgradeDataResponse_nextDigest :: "TPMT_HA"
  FieldUpgradeDataResponse_firstDigest :: "TPMT_HA"

definition FieldUpgradeDataResponse_default :: FieldUpgradeDataResponse where
  "FieldUpgradeDataResponse_default = \<lparr>FieldUpgradeDataResponse_nextDigest = TPMT_HA_default, FieldUpgradeDataResponse_firstDigest = TPMT_HA_default\<rparr>"

definition FieldUpgradeDataResponse_toTpm :: "FieldUpgradeDataResponse \<Rightarrow> unit tpm" where
  "FieldUpgradeDataResponse_toTpm self =
     wseq [TPMT_HA_toTpm (FieldUpgradeDataResponse_nextDigest self),
       TPMT_HA_toTpm (FieldUpgradeDataResponse_firstDigest self)]"

definition FieldUpgradeDataResponse_initFromTpm :: "FieldUpgradeDataResponse \<Rightarrow> FieldUpgradeDataResponse tpm" where
  "FieldUpgradeDataResponse_initFromTpm self =
     sbind (TPMT_HA_initFromTpm (FieldUpgradeDataResponse_nextDigest self)) (\<lambda>nextDigest.
     sbind (TPMT_HA_initFromTpm (FieldUpgradeDataResponse_firstDigest self)) (\<lambda>firstDigest.
     ret (self\<lparr>FieldUpgradeDataResponse_nextDigest := nextDigest, FieldUpgradeDataResponse_firstDigest := firstDigest\<rparr>)))"

definition FieldUpgradeDataResponse_enc :: "FieldUpgradeDataResponse \<Rightarrow> ByteVec" where
  "FieldUpgradeDataResponse_enc x =
     TPMT_HA_enc (FieldUpgradeDataResponse_nextDigest x) @
     TPMT_HA_enc (FieldUpgradeDataResponse_firstDigest x)"

definition FieldUpgradeDataResponse_valid :: "FieldUpgradeDataResponse \<Rightarrow> bool" where
  "FieldUpgradeDataResponse_valid x \<longleftrightarrow>
     TPMT_HA_valid (FieldUpgradeDataResponse_nextDigest x) \<and>
     TPMT_HA_valid (FieldUpgradeDataResponse_firstDigest x)"

lemma FieldUpgradeDataResponse_writes [writes_intros]:
  "FieldUpgradeDataResponse_valid x \<Longrightarrow> writes (FieldUpgradeDataResponse_toTpm x) (FieldUpgradeDataResponse_enc x)"
  unfolding FieldUpgradeDataResponse_toTpm_def FieldUpgradeDataResponse_enc_def
  by (intro writes_intros; simp add: FieldUpgradeDataResponse_valid_def opt_ok_iff)

lemma FieldUpgradeDataResponse_reads:
  "FieldUpgradeDataResponse_valid x \<Longrightarrow> reads (FieldUpgradeDataResponse_initFromTpm FieldUpgradeDataResponse_default) x (FieldUpgradeDataResponse_enc x)"
  by (simp only: FieldUpgradeDataResponse_initFromTpm_def FieldUpgradeDataResponse_enc_def FieldUpgradeDataResponse_default_def
        FieldUpgradeDataResponse.select_convs FieldUpgradeDataResponse.update_convs;
      intro reads_intros; (rule FieldUpgradeDataResponse.equality)?; simp add: FieldUpgradeDataResponse_valid_def opt_ok_iff)

interpretation FieldUpgradeDataResponse_codec:
  tpm_codec FieldUpgradeDataResponse_toTpm FieldUpgradeDataResponse_initFromTpm FieldUpgradeDataResponse_default
    FieldUpgradeDataResponse_enc FieldUpgradeDataResponse_valid
  by unfold_locales (erule FieldUpgradeDataResponse_writes FieldUpgradeDataResponse_reads | simp add: FieldUpgradeDataResponse_enc_def)+

definition FieldUpgradeDataResponse_resp :: "(TPM_HANDLE, FieldUpgradeDataResponse) RespStructure" where
  "FieldUpgradeDataResponse_resp = \<lparr>resp_default = FieldUpgradeDataResponse_default, resp_initFromTpm = FieldUpgradeDataResponse_initFromTpm,
     resp_numHandles = 0, resp_getHandle = (\<lambda>_. TPM_HANDLE_default),
     resp_setHandle = (\<lambda>_ self. self), resp_sessEncInfo = no_sessEncInfo\<rparr>"

subsection \<open>TPM2_FirmwareRead_REQUEST\<close>

text \<open>This command is used to read a copy of the current firmware installed in the TPM.\<close>

record TPM2_FirmwareRead_REQUEST =
  TPM2_FirmwareRead_REQUEST_sequenceNumber :: "UINT32"

definition TPM2_FirmwareRead_REQUEST_default :: TPM2_FirmwareRead_REQUEST where
  "TPM2_FirmwareRead_REQUEST_default = \<lparr>TPM2_FirmwareRead_REQUEST_sequenceNumber = 0\<rparr>"

definition TPM2_FirmwareRead_REQUEST_toTpm :: "TPM2_FirmwareRead_REQUEST \<Rightarrow> unit tpm" where
  "TPM2_FirmwareRead_REQUEST_toTpm self =
     wseq [writeInt (TPM2_FirmwareRead_REQUEST_sequenceNumber self)]"

definition TPM2_FirmwareRead_REQUEST_initFromTpm :: "TPM2_FirmwareRead_REQUEST \<Rightarrow> TPM2_FirmwareRead_REQUEST tpm" where
  "TPM2_FirmwareRead_REQUEST_initFromTpm self =
     sbind readInt (\<lambda>sequenceNumber.
     ret (self\<lparr>TPM2_FirmwareRead_REQUEST_sequenceNumber := sequenceNumber\<rparr>))"

definition TPM2_FirmwareRead_REQUEST_enc :: "TPM2_FirmwareRead_REQUEST \<Rightarrow> ByteVec" where
  "TPM2_FirmwareRead_REQUEST_enc x =
     enc32 (TPM2_FirmwareRead_REQUEST_sequenceNumber x)"

definition TPM2_FirmwareRead_REQUEST_valid :: "TPM2_FirmwareRead_REQUEST \<Rightarrow> bool" where
  "TPM2_FirmwareRead_REQUEST_valid x \<longleftrightarrow>
     True"

lemma TPM2_FirmwareRead_REQUEST_writes [writes_intros]:
  "TPM2_FirmwareRead_REQUEST_valid x \<Longrightarrow> writes (TPM2_FirmwareRead_REQUEST_toTpm x) (TPM2_FirmwareRead_REQUEST_enc x)"
  unfolding TPM2_FirmwareRead_REQUEST_toTpm_def TPM2_FirmwareRead_REQUEST_enc_def
  by (intro writes_intros; simp add: TPM2_FirmwareRead_REQUEST_valid_def opt_ok_iff)

lemma TPM2_FirmwareRead_REQUEST_reads:
  "TPM2_FirmwareRead_REQUEST_valid x \<Longrightarrow> reads (TPM2_FirmwareRead_REQUEST_initFromTpm TPM2_FirmwareRead_REQUEST_default) x (TPM2_FirmwareRead_REQUEST_enc x)"
  by (simp only: TPM2_FirmwareRead_REQUEST_initFromTpm_def TPM2_FirmwareRead_REQUEST_enc_def TPM2_FirmwareRead_REQUEST_default_def
        TPM2_FirmwareRead_REQUEST.select_convs TPM2_FirmwareRead_REQUEST.update_convs;
      intro reads_intros; (rule TPM2_FirmwareRead_REQUEST.equality)?; simp add: TPM2_FirmwareRead_REQUEST_valid_def opt_ok_iff)

interpretation TPM2_FirmwareRead_REQUEST_codec:
  tpm_codec TPM2_FirmwareRead_REQUEST_toTpm TPM2_FirmwareRead_REQUEST_initFromTpm TPM2_FirmwareRead_REQUEST_default
    TPM2_FirmwareRead_REQUEST_enc TPM2_FirmwareRead_REQUEST_valid
  by unfold_locales (erule TPM2_FirmwareRead_REQUEST_writes TPM2_FirmwareRead_REQUEST_reads | simp add: TPM2_FirmwareRead_REQUEST_enc_def)+

definition TPM2_FirmwareRead_REQUEST_req :: "TPM2_FirmwareRead_REQUEST \<Rightarrow> TPM_HANDLE ReqStructure" where
  "TPM2_FirmwareRead_REQUEST_req self =
     \<lparr>req_toTpm = TPM2_FirmwareRead_REQUEST_toTpm self, req_numHandles = 0,
     req_numAuthHandles = 0, req_getHandles = [], req_sessEncInfo = no_sessEncInfo\<rparr>"

subsection \<open>FirmwareReadResponse\<close>

text \<open>This command is used to read a copy of the current firmware installed in the TPM.\<close>

record FirmwareReadResponse =
  FirmwareReadResponse_fuData :: "ByteVec"

definition FirmwareReadResponse_default :: FirmwareReadResponse where
  "FirmwareReadResponse_default = \<lparr>FirmwareReadResponse_fuData = []\<rparr>"

definition FirmwareReadResponse_toTpm :: "FirmwareReadResponse \<Rightarrow> unit tpm" where
  "FirmwareReadResponse_toTpm self =
     wseq [writeSizedByteBuf (FirmwareReadResponse_fuData self) 2]"

definition FirmwareReadResponse_initFromTpm :: "FirmwareReadResponse \<Rightarrow> FirmwareReadResponse tpm" where
  "FirmwareReadResponse_initFromTpm self =
     sbind (readSizedByteBuf 2) (\<lambda>fuData.
     ret (self\<lparr>FirmwareReadResponse_fuData := fuData\<rparr>))"

definition FirmwareReadResponse_enc :: "FirmwareReadResponse \<Rightarrow> ByteVec" where
  "FirmwareReadResponse_enc x =
     enc_sized 2 (FirmwareReadResponse_fuData x)"

definition FirmwareReadResponse_valid :: "FirmwareReadResponse \<Rightarrow> bool" where
  "FirmwareReadResponse_valid x \<longleftrightarrow>
     sized_ok 2 (FirmwareReadResponse_fuData x)"

lemma FirmwareReadResponse_writes [writes_intros]:
  "FirmwareReadResponse_valid x \<Longrightarrow> writes (FirmwareReadResponse_toTpm x) (FirmwareReadResponse_enc x)"
  unfolding FirmwareReadResponse_toTpm_def FirmwareReadResponse_enc_def
  by (intro writes_intros; simp add: FirmwareReadResponse_valid_def opt_ok_iff)

lemma FirmwareReadResponse_reads:
  "FirmwareReadResponse_valid x \<Longrightarrow> reads (FirmwareReadResponse_initFromTpm FirmwareReadResponse_default) x (FirmwareReadResponse_enc x)"
  by (simp only: FirmwareReadResponse_initFromTpm_def FirmwareReadResponse_enc_def FirmwareReadResponse_default_def
        FirmwareReadResponse.select_convs FirmwareReadResponse.update_convs;
      intro reads_intros; (rule FirmwareReadResponse.equality)?; simp add: FirmwareReadResponse_valid_def opt_ok_iff)

interpretation FirmwareReadResponse_codec:
  tpm_codec FirmwareReadResponse_toTpm FirmwareReadResponse_initFromTpm FirmwareReadResponse_default
    FirmwareReadResponse_enc FirmwareReadResponse_valid
  by unfold_locales (erule FirmwareReadResponse_writes FirmwareReadResponse_reads | simp add: FirmwareReadResponse_enc_def)+

definition FirmwareReadResponse_resp :: "(TPM_HANDLE, FirmwareReadResponse) RespStructure" where
  "FirmwareReadResponse_resp = \<lparr>resp_default = FirmwareReadResponse_default, resp_initFromTpm = FirmwareReadResponse_initFromTpm,
     resp_numHandles = 0, resp_getHandle = (\<lambda>_. TPM_HANDLE_default),
     resp_setHandle = (\<lambda>_ self. self), resp_sessEncInfo = \<lparr>sizeLen = 2, valLen = 1\<rparr>\<rparr>"

subsection \<open>TPM2_ContextSave_REQUEST\<close>

text \<open>This command saves a session context, object context, or sequence object context outside the TPM.\<close>

record TPM2_ContextSave_REQUEST =
  TPM2_ContextSave_REQUEST_saveHandle :: "TPM_HANDLE"

definition TPM2_ContextSave_REQUEST_default :: TPM2_ContextSave_REQUEST where
  "TPM2_ContextSave_REQUEST_default = \<lparr>TPM2_ContextSave_REQUEST_saveHandle = TPM_HANDLE_default\<rparr>"

definition TPM2_ContextSave_REQUEST_toTpm :: "TPM2_ContextSave_REQUEST \<Rightarrow> unit tpm" where
  "TPM2_ContextSave_REQUEST_toTpm self =
     wseq []"

definition TPM2_ContextSave_REQUEST_initFromTpm :: "TPM2_ContextSave_REQUEST \<Rightarrow> TPM2_ContextSave_REQUEST tpm" where
  "TPM2_ContextSave_REQUEST_initFromTpm self =
     ret self"

definition TPM2_ContextSave_REQUEST_enc :: "TPM2_ContextSave_REQUEST \<Rightarrow> ByteVec" where
  "TPM2_ContextSave_REQUEST_enc x =
     []"

definition TPM2_ContextSave_REQUEST_valid :: "TPM2_ContextSave_REQUEST \<Rightarrow> bool" where
  "TPM2_ContextSave_REQUEST_valid x \<longleftrightarrow>
     TPM2_ContextSave_REQUEST_saveHandle x = TPM_HANDLE_default"

lemma TPM2_ContextSave_REQUEST_writes [writes_intros]:
  "TPM2_ContextSave_REQUEST_valid x \<Longrightarrow> writes (TPM2_ContextSave_REQUEST_toTpm x) (TPM2_ContextSave_REQUEST_enc x)"
  unfolding TPM2_ContextSave_REQUEST_toTpm_def TPM2_ContextSave_REQUEST_enc_def
  by (intro writes_intros; simp add: TPM2_ContextSave_REQUEST_valid_def opt_ok_iff)

lemma TPM2_ContextSave_REQUEST_reads:
  "TPM2_ContextSave_REQUEST_valid x \<Longrightarrow> reads (TPM2_ContextSave_REQUEST_initFromTpm TPM2_ContextSave_REQUEST_default) x (TPM2_ContextSave_REQUEST_enc x)"
  by (simp only: TPM2_ContextSave_REQUEST_initFromTpm_def TPM2_ContextSave_REQUEST_enc_def TPM2_ContextSave_REQUEST_default_def
        TPM2_ContextSave_REQUEST.select_convs TPM2_ContextSave_REQUEST.update_convs;
      intro reads_intros; (rule TPM2_ContextSave_REQUEST.equality)?; simp add: TPM2_ContextSave_REQUEST_valid_def opt_ok_iff)

interpretation TPM2_ContextSave_REQUEST_codec:
  tpm_codec TPM2_ContextSave_REQUEST_toTpm TPM2_ContextSave_REQUEST_initFromTpm TPM2_ContextSave_REQUEST_default
    TPM2_ContextSave_REQUEST_enc TPM2_ContextSave_REQUEST_valid
  by unfold_locales (erule TPM2_ContextSave_REQUEST_writes TPM2_ContextSave_REQUEST_reads | simp add: TPM2_ContextSave_REQUEST_toTpm_def writes_ret)+

definition TPM2_ContextSave_REQUEST_req :: "TPM2_ContextSave_REQUEST \<Rightarrow> TPM_HANDLE ReqStructure" where
  "TPM2_ContextSave_REQUEST_req self =
     \<lparr>req_toTpm = TPM2_ContextSave_REQUEST_toTpm self, req_numHandles = 1,
     req_numAuthHandles = 0, req_getHandles = [TPM2_ContextSave_REQUEST_saveHandle self], req_sessEncInfo = no_sessEncInfo\<rparr>"

subsection \<open>ContextSaveResponse\<close>

text \<open>This command saves a session context, object context, or sequence object context outside the TPM.\<close>

record ContextSaveResponse =
  ContextSaveResponse_context :: "TPMS_CONTEXT"

definition ContextSaveResponse_default :: ContextSaveResponse where
  "ContextSaveResponse_default = \<lparr>ContextSaveResponse_context = TPMS_CONTEXT_default\<rparr>"

definition ContextSaveResponse_toTpm :: "ContextSaveResponse \<Rightarrow> unit tpm" where
  "ContextSaveResponse_toTpm self =
     wseq [TPMS_CONTEXT_toTpm (ContextSaveResponse_context self)]"

definition ContextSaveResponse_initFromTpm :: "ContextSaveResponse \<Rightarrow> ContextSaveResponse tpm" where
  "ContextSaveResponse_initFromTpm self =
     sbind (TPMS_CONTEXT_initFromTpm (ContextSaveResponse_context self)) (\<lambda>context.
     ret (self\<lparr>ContextSaveResponse_context := context\<rparr>))"

definition ContextSaveResponse_enc :: "ContextSaveResponse \<Rightarrow> ByteVec" where
  "ContextSaveResponse_enc x =
     TPMS_CONTEXT_enc (ContextSaveResponse_context x)"

definition ContextSaveResponse_valid :: "ContextSaveResponse \<Rightarrow> bool" where
  "ContextSaveResponse_valid x \<longleftrightarrow>
     TPMS_CONTEXT_valid (ContextSaveResponse_context x)"

lemma ContextSaveResponse_writes [writes_intros]:
  "ContextSaveResponse_valid x \<Longrightarrow> writes (ContextSaveResponse_toTpm x) (ContextSaveResponse_enc x)"
  unfolding ContextSaveResponse_toTpm_def ContextSaveResponse_enc_def
  by (intro writes_intros; simp add: ContextSaveResponse_valid_def opt_ok_iff)

lemma ContextSaveResponse_reads:
  "ContextSaveResponse_valid x \<Longrightarrow> reads (ContextSaveResponse_initFromTpm ContextSaveResponse_default) x (ContextSaveResponse_enc x)"
  by (simp only: ContextSaveResponse_initFromTpm_def ContextSaveResponse_enc_def ContextSaveResponse_default_def
        ContextSaveResponse.select_convs ContextSaveResponse.update_convs;
      intro reads_intros; (rule ContextSaveResponse.equality)?; simp add: ContextSaveResponse_valid_def opt_ok_iff)

interpretation ContextSaveResponse_codec:
  tpm_codec ContextSaveResponse_toTpm ContextSaveResponse_initFromTpm ContextSaveResponse_default
    ContextSaveResponse_enc ContextSaveResponse_valid
  by unfold_locales (erule ContextSaveResponse_writes ContextSaveResponse_reads | simp add: ContextSaveResponse_enc_def)+

definition ContextSaveResponse_resp :: "(TPM_HANDLE, ContextSaveResponse) RespStructure" where
  "ContextSaveResponse_resp = \<lparr>resp_default = ContextSaveResponse_default, resp_initFromTpm = ContextSaveResponse_initFromTpm,
     resp_numHandles = 0, resp_getHandle = (\<lambda>_. TPM_HANDLE_default),
     resp_setHandle = (\<lambda>_ self. self), resp_sessEncInfo = no_sessEncInfo\<rparr>"

subsection \<open>TPM2_ContextLoad_REQUEST\<close>

text \<open>This command is used to reload a context that has been saved by TPM2_ContextSave().\<close>

record TPM2_ContextLoad_REQUEST =
  TPM2_ContextLoad_REQUEST_context :: "TPMS_CONTEXT"

definition TPM2_ContextLoad_REQUEST_default :: TPM2_ContextLoad_REQUEST where
  "TPM2_ContextLoad_REQUEST_default = \<lparr>TPM2_ContextLoad_REQUEST_context = TPMS_CONTEXT_default\<rparr>"

definition TPM2_ContextLoad_REQUEST_toTpm :: "TPM2_ContextLoad_REQUEST \<Rightarrow> unit tpm" where
  "TPM2_ContextLoad_REQUEST_toTpm self =
     wseq [TPMS_CONTEXT_toTpm (TPM2_ContextLoad_REQUEST_context self)]"

definition TPM2_ContextLoad_REQUEST_initFromTpm :: "TPM2_ContextLoad_REQUEST \<Rightarrow> TPM2_ContextLoad_REQUEST tpm" where
  "TPM2_ContextLoad_REQUEST_initFromTpm self =
     sbind (TPMS_CONTEXT_initFromTpm (TPM2_ContextLoad_REQUEST_context self)) (\<lambda>context.
     ret (self\<lparr>TPM2_ContextLoad_REQUEST_context := context\<rparr>))"

definition TPM2_ContextLoad_REQUEST_enc :: "TPM2_ContextLoad_REQUEST \<Rightarrow> ByteVec" where
  "TPM2_ContextLoad_REQUEST_enc x =
     TPMS_CONTEXT_enc (TPM2_ContextLoad_REQUEST_context x)"

definition TPM2_ContextLoad_REQUEST_valid :: "TPM2_ContextLoad_REQUEST \<Rightarrow> bool" where
  "TPM2_ContextLoad_REQUEST_valid x \<longleftrightarrow>
     TPMS_CONTEXT_valid (TPM2_ContextLoad_REQUEST_context x)"

lemma TPM2_ContextLoad_REQUEST_writes [writes_intros]:
  "TPM2_ContextLoad_REQUEST_valid x \<Longrightarrow> writes (TPM2_ContextLoad_REQUEST_toTpm x) (TPM2_ContextLoad_REQUEST_enc x)"
  unfolding TPM2_ContextLoad_REQUEST_toTpm_def TPM2_ContextLoad_REQUEST_enc_def
  by (intro writes_intros; simp add: TPM2_ContextLoad_REQUEST_valid_def opt_ok_iff)

lemma TPM2_ContextLoad_REQUEST_reads:
  "TPM2_ContextLoad_REQUEST_valid x \<Longrightarrow> reads (TPM2_ContextLoad_REQUEST_initFromTpm TPM2_ContextLoad_REQUEST_default) x (TPM2_ContextLoad_REQUEST_enc x)"
  by (simp only: TPM2_ContextLoad_REQUEST_initFromTpm_def TPM2_ContextLoad_REQUEST_enc_def TPM2_ContextLoad_REQUEST_default_def
        TPM2_ContextLoad_REQUEST.select_convs TPM2_ContextLoad_REQUEST.update_convs;
      intro reads_intros; (rule TPM2_ContextLoad_REQUEST.equality)?; simp add: TPM2_ContextLoad_REQUEST_valid_def opt_ok_iff)

interpretation TPM2_ContextLoad_REQUEST_codec:
  tpm_codec TPM2_ContextLoad_REQUEST_toTpm TPM2_ContextLoad_REQUEST_initFromTpm TPM2_ContextLoad_REQUEST_default
    TPM2_ContextLoad_REQUEST_enc TPM2_ContextLoad_REQUEST_valid
  by unfold_locales (erule TPM2_ContextLoad_REQUEST_writes TPM2_ContextLoad_REQUEST_reads | simp add: TPM2_ContextLoad_REQUEST_enc_def)+

definition TPM2_ContextLoad_REQUEST_req :: "TPM2_ContextLoad_REQUEST \<Rightarrow> TPM_HANDLE ReqStructure" where
  "TPM2_ContextLoad_REQUEST_req self =
     \<lparr>req_toTpm = TPM2_ContextLoad_REQUEST_toTpm self, req_numHandles = 0,
     req_numAuthHandles = 0, req_getHandles = [], req_sessEncInfo = no_sessEncInfo\<rparr>"

subsection \<open>ContextLoadResponse\<close>

text \<open>This command is used to reload a context that has been saved by TPM2_ContextSave().\<close>

record ContextLoadResponse =
  ContextLoadResponse_handle :: "TPM_HANDLE"

definition ContextLoadResponse_default :: ContextLoadResponse where
  "ContextLoadResponse_default = \<lparr>ContextLoadResponse_handle = TPM_HANDLE_default\<rparr>"

definition ContextLoadResponse_toTpm :: "ContextLoadResponse \<Rightarrow> unit tpm" where
  "ContextLoadResponse_toTpm self =
     wseq []"

definition ContextLoadResponse_initFromTpm :: "ContextLoadResponse \<Rightarrow> ContextLoadResponse tpm" where
  "ContextLoadResponse_initFromTpm self =
     ret self"

definition ContextLoadResponse_enc :: "ContextLoadResponse \<Rightarrow> ByteVec" where
  "ContextLoadResponse_enc x =
     []"

definition ContextLoadResponse_valid :: "ContextLoadResponse \<Rightarrow> bool" where
  "ContextLoadResponse_valid x \<longleftrightarrow>
     ContextLoadResponse_handle x = TPM_HANDLE_default"

lemma ContextLoadResponse_writes [writes_intros]:
  "ContextLoadResponse_valid x \<Longrightarrow> writes (ContextLoadResponse_toTpm x) (ContextLoadResponse_enc x)"
  unfolding ContextLoadResponse_toTpm_def ContextLoadResponse_enc_def
  by (intro writes_intros; simp add: ContextLoadResponse_valid_def opt_ok_iff)

lemma ContextLoadResponse_reads:
  "ContextLoadResponse_valid x \<Longrightarrow> reads (ContextLoadResponse_initFromTpm ContextLoadResponse_default) x (ContextLoadResponse_enc x)"
  by (simp only: ContextLoadResponse_initFromTpm_def ContextLoadResponse_enc_def ContextLoadResponse_default_def
        ContextLoadResponse.select_convs ContextLoadResponse.update_convs;
      intro reads_intros; (rule ContextLoadResponse.equality)?; simp add: ContextLoadResponse_valid_def opt_ok_iff)

interpretation ContextLoadResponse_codec:
  tpm_codec ContextLoadResponse_toTpm ContextLoadResponse_initFromTpm ContextLoadResponse_default
    ContextLoadResponse_enc ContextLoadResponse_valid
  by unfold_locales (erule ContextLoadResponse_writes ContextLoadResponse_reads | simp add: ContextLoadResponse_toTpm_def writes_ret)+

definition ContextLoadResponse_resp :: "(TPM_HANDLE, ContextLoadResponse) RespStructure" where
  "ContextLoadResponse_resp = \<lparr>resp_default = ContextLoadResponse_default, resp_initFromTpm = ContextLoadResponse_initFromTpm,
     resp_numHandles = 1, resp_getHandle = ContextLoadResponse_handle,
     resp_setHandle = (\<lambda>h self. self\<lparr>ContextLoadResponse_handle := h\<rparr>), resp_sessEncInfo = no_sessEncInfo\<rparr>"

subsection \<open>TPM2_FlushContext_REQUEST\<close>

text \<open>This command causes all context associated with a loaded object, sequence object, or session to be removed from TPM memory.\<close>

record TPM2_FlushContext_REQUEST =
  TPM2_FlushContext_REQUEST_flushHandle :: "TPM_HANDLE"

definition TPM2_FlushContext_REQUEST_default :: TPM2_FlushContext_REQUEST where
  "TPM2_FlushContext_REQUEST_default = \<lparr>TPM2_FlushContext_REQUEST_flushHandle = TPM_HANDLE_default\<rparr>"

definition TPM2_FlushContext_REQUEST_toTpm :: "TPM2_FlushContext_REQUEST \<Rightarrow> unit tpm" where
  "TPM2_FlushContext_REQUEST_toTpm self =
     wseq [TPM_HANDLE_toTpm (TPM2_FlushContext_REQUEST_flushHandle self)]"

definition TPM2_FlushContext_REQUEST_initFromTpm :: "TPM2_FlushContext_REQUEST \<Rightarrow> TPM2_FlushContext_REQUEST tpm" where
  "TPM2_FlushContext_REQUEST_initFromTpm self =
     sbind (TPM_HANDLE_initFromTpm (TPM2_FlushContext_REQUEST_flushHandle self)) (\<lambda>flushHandle.
     ret (self\<lparr>TPM2_FlushContext_REQUEST_flushHandle := flushHandle\<rparr>))"

definition TPM2_FlushContext_REQUEST_enc :: "TPM2_FlushContext_REQUEST \<Rightarrow> ByteVec" where
  "TPM2_FlushContext_REQUEST_enc x =
     TPM_HANDLE_enc (TPM2_FlushContext_REQUEST_flushHandle x)"

definition TPM2_FlushContext_REQUEST_valid :: "TPM2_FlushContext_REQUEST \<Rightarrow> bool" where
  "TPM2_FlushContext_REQUEST_valid x \<longleftrightarrow>
     TPM_HANDLE_valid (TPM2_FlushContext_REQUEST_flushHandle x)"

lemma TPM2_FlushContext_REQUEST_writes [writes_intros]:
  "TPM2_FlushContext_REQUEST_valid x \<Longrightarrow> writes (TPM2_FlushContext_REQUEST_toTpm x) (TPM2_FlushContext_REQUEST_enc x)"
  unfolding TPM2_FlushContext_REQUEST_toTpm_def TPM2_FlushContext_REQUEST_enc_def
  by (intro writes_intros; simp add: TPM2_FlushContext_REQUEST_valid_def opt_ok_iff)

lemma TPM2_FlushContext_REQUEST_reads:
  "TPM2_FlushContext_REQUEST_valid x \<Longrightarrow> reads (TPM2_FlushContext_REQUEST_initFromTpm TPM2_FlushContext_REQUEST_default) x (TPM2_FlushContext_REQUEST_enc x)"
  by (simp only: TPM2_FlushContext_REQUEST_initFromTpm_def TPM2_FlushContext_REQUEST_enc_def TPM2_FlushContext_REQUEST_default_def
        TPM2_FlushContext_REQUEST.select_convs TPM2_FlushContext_REQUEST.update_convs;
      intro reads_intros; (rule TPM2_FlushContext_REQUEST.equality)?; simp add: TPM2_FlushContext_REQUEST_valid_def opt_ok_iff)

interpretation TPM2_FlushContext_REQUEST_codec:
  tpm_codec TPM2_FlushContext_REQUEST_toTpm TPM2_FlushContext_REQUEST_initFromTpm TPM2_FlushContext_REQUEST_default
    TPM2_FlushContext_REQUEST_enc TPM2_FlushContext_REQUEST_valid
  by unfold_locales (erule TPM2_FlushContext_REQUEST_writes TPM2_FlushContext_REQUEST_reads | simp add: TPM2_FlushContext_REQUEST_enc_def)+

definition TPM2_FlushContext_REQUEST_req :: "TPM2_FlushContext_REQUEST \<Rightarrow> TPM_HANDLE ReqStructure" where
  "TPM2_FlushContext_REQUEST_req self =
     \<lparr>req_toTpm = TPM2_FlushContext_REQUEST_toTpm self, req_numHandles = 0,
     req_numAuthHandles = 0, req_getHandles = [], req_sessEncInfo = no_sessEncInfo\<rparr>"

subsection \<open>TPM2_EvictControl_REQUEST\<close>

text \<open>This command allows certain Transient Objects to be made persistent or a persistent object to be evicted.\<close>

record TPM2_EvictControl_REQUEST =
  TPM2_EvictControl_REQUEST_auth :: "TPM_HANDLE"
  TPM2_EvictControl_REQUEST_objectHandle :: "TPM_HANDLE"
  TPM2_EvictControl_REQUEST_persistentHandle :: "TPM_HANDLE"

definition TPM2_EvictControl_REQUEST_default :: TPM2_EvictControl_REQUEST where
  "TPM2_EvictControl_REQUEST_default = \<lparr>TPM2_EvictControl_REQUEST_auth = TPM_HANDLE_default, TPM2_EvictControl_REQUEST_objectHandle = TPM_HANDLE_default, TPM2_EvictControl_REQUEST_persistentHandle = TPM_HANDLE_default\<rparr>"

definition TPM2_EvictControl_REQUEST_toTpm :: "TPM2_EvictControl_REQUEST \<Rightarrow> unit tpm" where
  "TPM2_EvictControl_REQUEST_toTpm self =
     wseq [TPM_HANDLE_toTpm (TPM2_EvictControl_REQUEST_persistentHandle self)]"

definition TPM2_EvictControl_REQUEST_initFromTpm :: "TPM2_EvictControl_REQUEST \<Rightarrow> TPM2_EvictControl_REQUEST tpm" where
  "TPM2_EvictControl_REQUEST_initFromTpm self =
     sbind (TPM_HANDLE_initFromTpm (TPM2_EvictControl_REQUEST_persistentHandle self)) (\<lambda>persistentHandle.
     ret (self\<lparr>TPM2_EvictControl_REQUEST_persistentHandle := persistentHandle\<rparr>))"

definition TPM2_EvictControl_REQUEST_enc :: "TPM2_EvictControl_REQUEST \<Rightarrow> ByteVec" where
  "TPM2_EvictControl_REQUEST_enc x =
     TPM_HANDLE_enc (TPM2_EvictControl_REQUEST_persistentHandle x)"

definition TPM2_EvictControl_REQUEST_valid :: "TPM2_EvictControl_REQUEST \<Rightarrow> bool" where
  "TPM2_EvictControl_REQUEST_valid x \<longleftrightarrow>
     TPM_HANDLE_valid (TPM2_EvictControl_REQUEST_persistentHandle x) \<and>
     TPM2_EvictControl_REQUEST_auth x = TPM_HANDLE_default \<and>
     TPM2_EvictControl_REQUEST_objectHandle x = TPM_HANDLE_default"

lemma TPM2_EvictControl_REQUEST_writes [writes_intros]:
  "TPM2_EvictControl_REQUEST_valid x \<Longrightarrow> writes (TPM2_EvictControl_REQUEST_toTpm x) (TPM2_EvictControl_REQUEST_enc x)"
  unfolding TPM2_EvictControl_REQUEST_toTpm_def TPM2_EvictControl_REQUEST_enc_def
  by (intro writes_intros; simp add: TPM2_EvictControl_REQUEST_valid_def opt_ok_iff)

lemma TPM2_EvictControl_REQUEST_reads:
  "TPM2_EvictControl_REQUEST_valid x \<Longrightarrow> reads (TPM2_EvictControl_REQUEST_initFromTpm TPM2_EvictControl_REQUEST_default) x (TPM2_EvictControl_REQUEST_enc x)"
  by (simp only: TPM2_EvictControl_REQUEST_initFromTpm_def TPM2_EvictControl_REQUEST_enc_def TPM2_EvictControl_REQUEST_default_def
        TPM2_EvictControl_REQUEST.select_convs TPM2_EvictControl_REQUEST.update_convs;
      intro reads_intros; (rule TPM2_EvictControl_REQUEST.equality)?; simp add: TPM2_EvictControl_REQUEST_valid_def opt_ok_iff)

interpretation TPM2_EvictControl_REQUEST_codec:
  tpm_codec TPM2_EvictControl_REQUEST_toTpm TPM2_EvictControl_REQUEST_initFromTpm TPM2_EvictControl_REQUEST_default
    TPM2_EvictControl_REQUEST_enc TPM2_EvictControl_REQUEST_valid
  by unfold_locales (erule TPM2_EvictControl_REQUEST_writes TPM2_EvictControl_REQUEST_reads | simp add: TPM2_EvictControl_REQUEST_enc_def)+

definition TPM2_EvictControl_REQUEST_req :: "TPM2_EvictControl_REQUEST \<Rightarrow> TPM_HANDLE ReqStructure" where
  "TPM2_EvictControl_REQUEST_req self =
     \<lparr>req_toTpm = TPM2_EvictControl_REQUEST_toTpm self, req_numHandles = 2,
     req_numAuthHandles = 1, req_getHandles = [TPM2_EvictControl_REQUEST_auth self, TPM2_EvictControl_REQUEST_objectHandle self], req_sessEncInfo = no_sessEncInfo\<rparr>"

subsection \<open>TPM2_ReadClock_REQUEST\<close>

text \<open>This command reads the current TPMS_TIME_INFO structure that contains the current setting of Time, Clock, resetCount, and restartCount.\<close>

type_synonym TPM2_ReadClock_REQUEST = unit

definition TPM2_ReadClock_REQUEST_default :: TPM2_ReadClock_REQUEST where
  "TPM2_ReadClock_REQUEST_default = ()"

definition TPM2_ReadClock_REQUEST_toTpm :: "TPM2_ReadClock_REQUEST \<Rightarrow> unit tpm" where
  "TPM2_ReadClock_REQUEST_toTpm self =
     wseq []"

definition TPM2_ReadClock_REQUEST_initFromTpm :: "TPM2_ReadClock_REQUEST \<Rightarrow> TPM2_ReadClock_REQUEST tpm" where
  "TPM2_ReadClock_REQUEST_initFromTpm self =
     ret self"

definition TPM2_ReadClock_REQUEST_enc :: "TPM2_ReadClock_REQUEST \<Rightarrow> ByteVec" where
  "TPM2_ReadClock_REQUEST_enc x =
     []"

definition TPM2_ReadClock_REQUEST_valid :: "TPM2_ReadClock_REQUEST \<Rightarrow> bool" where
  "TPM2_ReadClock_REQUEST_valid x \<longleftrightarrow>
     True"

lemma TPM2_ReadClock_REQUEST_writes [writes_intros]:
  "TPM2_ReadClock_REQUEST_valid x \<Longrightarrow> writes (TPM2_ReadClock_REQUEST_toTpm x) (TPM2_ReadClock_REQUEST_enc x)"
  unfolding TPM2_ReadClock_REQUEST_toTpm_def TPM2_ReadClock_REQUEST_enc_def
  by (intro writes_intros; simp add: TPM2_ReadClock_REQUEST_valid_def opt_ok_iff)

lemma TPM2_ReadClock_REQUEST_reads:
  "TPM2_ReadClock_REQUEST_valid x \<Longrightarrow> reads (TPM2_ReadClock_REQUEST_initFromTpm TPM2_ReadClock_REQUEST_default) x (TPM2_ReadClock_REQUEST_enc x)"
  by (simp only: TPM2_ReadClock_REQUEST_initFromTpm_def TPM2_ReadClock_REQUEST_enc_def TPM2_ReadClock_REQUEST_default_def;
      intro reads_intros; simp add: TPM2_ReadClock_REQUEST_valid_def opt_ok_iff)

interpretation TPM2_ReadClock_REQUEST_codec:
  tpm_codec TPM2_ReadClock_REQUEST_toTpm TPM2_ReadClock_REQUEST_initFromTpm TPM2_ReadClock_REQUEST_default
    TPM2_ReadClock_REQUEST_enc TPM2_ReadClock_REQUEST_valid
  by unfold_locales (erule TPM2_ReadClock_REQUEST_writes TPM2_ReadClock_REQUEST_reads | simp add: TPM2_ReadClock_REQUEST_toTpm_def writes_ret)+

definition TPM2_ReadClock_REQUEST_req :: "TPM2_ReadClock_REQUEST \<Rightarrow> TPM_HANDLE ReqStructure" where
  "TPM2_ReadClock_REQUEST_req self =
     \<lparr>req_toTpm = TPM2_ReadClock_REQUEST_toTpm self, req_numHandles = 0,
     req_numAuthHandles = 0, req_getHandles = [], req_sessEncInfo = no_sessEncInfo\<rparr>"

subsection \<open>ReadClockResponse\<close>

text \<open>This command reads the current TPMS_TIME_INFO structure that contains the current setting of Time, Clock, resetCount, and restartCount.\<close>

record ReadClockResponse =
  ReadClockResponse_currentTime :: "TPMS_TIME_INFO"

definition ReadClockResponse_default :: ReadClockResponse where
  "ReadClockResponse_default = \<lparr>ReadClockResponse_currentTime = TPMS_TIME_INFO_default\<rparr>"

definition ReadClockResponse_toTpm :: "ReadClockResponse \<Rightarrow> unit tpm" where
  "ReadClockResponse_toTpm self =
     wseq [TPMS_TIME_INFO_toTpm (ReadClockResponse_currentTime self)]"

definition ReadClockResponse_initFromTpm :: "ReadClockResponse \<Rightarrow> ReadClockResponse tpm" where
  "ReadClockResponse_initFromTpm self =
     sbind (TPMS_TIME_INFO_initFromTpm (ReadClockResponse_currentTime self)) (\<lambda>currentTime.
     ret (self\<lparr>ReadClockResponse_currentTime := currentTime\<rparr>))"

definition ReadClockResponse_enc :: "ReadClockResponse \<Rightarrow> ByteVec" where
  "ReadClockResponse_enc x =
     TPMS_TIME_INFO_enc (ReadClockResponse_currentTime x)"

definition ReadClockResponse_valid :: "ReadClockResponse \<Rightarrow> bool" where
  "ReadClockResponse_valid x \<longleftrightarrow>
     TPMS_TIME_INFO_valid (ReadClockResponse_currentTime x)"

lemma ReadClockResponse_writes [writes_intros]:
  "ReadClockResponse_valid x \<Longrightarrow> writes (ReadClockResponse_toTpm x) (ReadClockResponse_enc x)"
  unfolding ReadClockResponse_toTpm_def ReadClockResponse_enc_def
  by (intro writes_intros; simp add: ReadClockResponse_valid_def opt_ok_iff)

lemma ReadClockResponse_reads:
  "ReadClockResponse_valid x \<Longrightarrow> reads (ReadClockResponse_initFromTpm ReadClockResponse_default) x (ReadClockResponse_enc x)"
  by (simp only: ReadClockResponse_initFromTpm_def ReadClockResponse_enc_def ReadClockResponse_default_def
        ReadClockResponse.select_convs ReadClockResponse.update_convs;
      intro reads_intros; (rule ReadClockResponse.equality)?; simp add: ReadClockResponse_valid_def opt_ok_iff)

interpretation ReadClockResponse_codec:
  tpm_codec ReadClockResponse_toTpm ReadClockResponse_initFromTpm ReadClockResponse_default
    ReadClockResponse_enc ReadClockResponse_valid
  by unfold_locales (erule ReadClockResponse_writes ReadClockResponse_reads | simp add: ReadClockResponse_enc_def)+

definition ReadClockResponse_resp :: "(TPM_HANDLE, ReadClockResponse) RespStructure" where
  "ReadClockResponse_resp = \<lparr>resp_default = ReadClockResponse_default, resp_initFromTpm = ReadClockResponse_initFromTpm,
     resp_numHandles = 0, resp_getHandle = (\<lambda>_. TPM_HANDLE_default),
     resp_setHandle = (\<lambda>_ self. self), resp_sessEncInfo = no_sessEncInfo\<rparr>"

subsection \<open>TPM2_ClockSet_REQUEST\<close>

text \<open>This command is used to advance the value of the TPMs Clock.\<close>

record TPM2_ClockSet_REQUEST =
  TPM2_ClockSet_REQUEST_auth :: "TPM_HANDLE"
  TPM2_ClockSet_REQUEST_newTime :: "UINT64"

definition TPM2_ClockSet_REQUEST_default :: TPM2_ClockSet_REQUEST where
  "TPM2_ClockSet_REQUEST_default = \<lparr>TPM2_ClockSet_REQUEST_auth = TPM_HANDLE_default, TPM2_ClockSet_REQUEST_newTime = 0\<rparr>"

definition TPM2_ClockSet_REQUEST_toTpm :: "TPM2_ClockSet_REQUEST \<Rightarrow> unit tpm" where
  "TPM2_ClockSet_REQUEST_toTpm self =
     wseq [writeInt64 (TPM2_ClockSet_REQUEST_newTime self)]"

definition TPM2_ClockSet_REQUEST_initFromTpm :: "TPM2_ClockSet_REQUEST \<Rightarrow> TPM2_ClockSet_REQUEST tpm" where
  "TPM2_ClockSet_REQUEST_initFromTpm self =
     sbind readInt64 (\<lambda>newTime.
     ret (self\<lparr>TPM2_ClockSet_REQUEST_newTime := newTime\<rparr>))"

definition TPM2_ClockSet_REQUEST_enc :: "TPM2_ClockSet_REQUEST \<Rightarrow> ByteVec" where
  "TPM2_ClockSet_REQUEST_enc x =
     enc64 (TPM2_ClockSet_REQUEST_newTime x)"

definition TPM2_ClockSet_REQUEST_valid :: "TPM2_ClockSet_REQUEST \<Rightarrow> bool" where
  "TPM2_ClockSet_REQUEST_valid x \<longleftrightarrow>
     TPM2_ClockSet_REQUEST_auth x = TPM_HANDLE_default"

lemma TPM2_ClockSet_REQUEST_writes [writes_intros]:
  "TPM2_ClockSet_REQUEST_valid x \<Longrightarrow> writes (TPM2_ClockSet_REQUEST_toTpm x) (TPM2_ClockSet_REQUEST_enc x)"
  unfolding TPM2_ClockSet_REQUEST_toTpm_def TPM2_ClockSet_REQUEST_enc_def
  by (intro writes_intros; simp add: TPM2_ClockSet_REQUEST_valid_def opt_ok_iff)

lemma TPM2_ClockSet_REQUEST_reads:
  "TPM2_ClockSet_REQUEST_valid x \<Longrightarrow> reads (TPM2_ClockSet_REQUEST_initFromTpm TPM2_ClockSet_REQUEST_default) x (TPM2_ClockSet_REQUEST_enc x)"
  by (simp only: TPM2_ClockSet_REQUEST_initFromTpm_def TPM2_ClockSet_REQUEST_enc_def TPM2_ClockSet_REQUEST_default_def
        TPM2_ClockSet_REQUEST.select_convs TPM2_ClockSet_REQUEST.update_convs;
      intro reads_intros; (rule TPM2_ClockSet_REQUEST.equality)?; simp add: TPM2_ClockSet_REQUEST_valid_def opt_ok_iff)

interpretation TPM2_ClockSet_REQUEST_codec:
  tpm_codec TPM2_ClockSet_REQUEST_toTpm TPM2_ClockSet_REQUEST_initFromTpm TPM2_ClockSet_REQUEST_default
    TPM2_ClockSet_REQUEST_enc TPM2_ClockSet_REQUEST_valid
  by unfold_locales (erule TPM2_ClockSet_REQUEST_writes TPM2_ClockSet_REQUEST_reads | simp add: TPM2_ClockSet_REQUEST_enc_def)+

definition TPM2_ClockSet_REQUEST_req :: "TPM2_ClockSet_REQUEST \<Rightarrow> TPM_HANDLE ReqStructure" where
  "TPM2_ClockSet_REQUEST_req self =
     \<lparr>req_toTpm = TPM2_ClockSet_REQUEST_toTpm self, req_numHandles = 1,
     req_numAuthHandles = 1, req_getHandles = [TPM2_ClockSet_REQUEST_auth self], req_sessEncInfo = no_sessEncInfo\<rparr>"

subsection \<open>TPM2_ClockRateAdjust_REQUEST\<close>

text \<open>This command adjusts the rate of advance of Clock and Time to provide a better approximation to real time.\<close>

record TPM2_ClockRateAdjust_REQUEST =
  TPM2_ClockRateAdjust_REQUEST_auth :: "TPM_HANDLE"
  TPM2_ClockRateAdjust_REQUEST_rateAdjust :: "TPM_CLOCK_ADJUST"

definition TPM2_ClockRateAdjust_REQUEST_default :: TPM2_ClockRateAdjust_REQUEST where
  "TPM2_ClockRateAdjust_REQUEST_default = \<lparr>TPM2_ClockRateAdjust_REQUEST_auth = TPM_HANDLE_default, TPM2_ClockRateAdjust_REQUEST_rateAdjust = 0\<rparr>"

definition TPM2_ClockRateAdjust_REQUEST_toTpm :: "TPM2_ClockRateAdjust_REQUEST \<Rightarrow> unit tpm" where
  "TPM2_ClockRateAdjust_REQUEST_toTpm self =
     wseq [writeByte (TPM2_ClockRateAdjust_REQUEST_rateAdjust self)]"

definition TPM2_ClockRateAdjust_REQUEST_initFromTpm :: "TPM2_ClockRateAdjust_REQUEST \<Rightarrow> TPM2_ClockRateAdjust_REQUEST tpm" where
  "TPM2_ClockRateAdjust_REQUEST_initFromTpm self =
     sbind readByte (\<lambda>rateAdjust.
     ret (self\<lparr>TPM2_ClockRateAdjust_REQUEST_rateAdjust := rateAdjust\<rparr>))"

definition TPM2_ClockRateAdjust_REQUEST_enc :: "TPM2_ClockRateAdjust_REQUEST \<Rightarrow> ByteVec" where
  "TPM2_ClockRateAdjust_REQUEST_enc x =
     enc8 (TPM2_ClockRateAdjust_REQUEST_rateAdjust x)"

definition TPM2_ClockRateAdjust_REQUEST_valid :: "TPM2_ClockRateAdjust_REQUEST \<Rightarrow> bool" where
  "TPM2_ClockRateAdjust_REQUEST_valid x \<longleftrightarrow>
     TPM2_ClockRateAdjust_REQUEST_auth x = TPM_HANDLE_default"

lemma TPM2_ClockRateAdjust_REQUEST_writes [writes_intros]:
  "TPM2_ClockRateAdjust_REQUEST_valid x \<Longrightarrow> writes (TPM2_ClockRateAdjust_REQUEST_toTpm x) (TPM2_ClockRateAdjust_REQUEST_enc x)"
  unfolding TPM2_ClockRateAdjust_REQUEST_toTpm_def TPM2_ClockRateAdjust_REQUEST_enc_def
  by (intro writes_intros; simp add: TPM2_ClockRateAdjust_REQUEST_valid_def opt_ok_iff)

lemma TPM2_ClockRateAdjust_REQUEST_reads:
  "TPM2_ClockRateAdjust_REQUEST_valid x \<Longrightarrow> reads (TPM2_ClockRateAdjust_REQUEST_initFromTpm TPM2_ClockRateAdjust_REQUEST_default) x (TPM2_ClockRateAdjust_REQUEST_enc x)"
  by (simp only: TPM2_ClockRateAdjust_REQUEST_initFromTpm_def TPM2_ClockRateAdjust_REQUEST_enc_def TPM2_ClockRateAdjust_REQUEST_default_def
        TPM2_ClockRateAdjust_REQUEST.select_convs TPM2_ClockRateAdjust_REQUEST.update_convs;
      intro reads_intros; (rule TPM2_ClockRateAdjust_REQUEST.equality)?; simp add: TPM2_ClockRateAdjust_REQUEST_valid_def opt_ok_iff)

interpretation TPM2_ClockRateAdjust_REQUEST_codec:
  tpm_codec TPM2_ClockRateAdjust_REQUEST_toTpm TPM2_ClockRateAdjust_REQUEST_initFromTpm TPM2_ClockRateAdjust_REQUEST_default
    TPM2_ClockRateAdjust_REQUEST_enc TPM2_ClockRateAdjust_REQUEST_valid
  by unfold_locales (erule TPM2_ClockRateAdjust_REQUEST_writes TPM2_ClockRateAdjust_REQUEST_reads | simp add: TPM2_ClockRateAdjust_REQUEST_enc_def)+

definition TPM2_ClockRateAdjust_REQUEST_req :: "TPM2_ClockRateAdjust_REQUEST \<Rightarrow> TPM_HANDLE ReqStructure" where
  "TPM2_ClockRateAdjust_REQUEST_req self =
     \<lparr>req_toTpm = TPM2_ClockRateAdjust_REQUEST_toTpm self, req_numHandles = 1,
     req_numAuthHandles = 1, req_getHandles = [TPM2_ClockRateAdjust_REQUEST_auth self], req_sessEncInfo = no_sessEncInfo\<rparr>"

end
