(* ===== verification/Tpm2Dispatch.thy ===== *)
theory Tpm2Dispatch
  imports TypeExtensions EnumText TpmObjectCommands TpmCryptoCommands TpmAdminCommands
begin

unbundle bit_operations_syntax

text \<open>
  \<^verbatim>\<open>TSS.CPP/Src/Tpm2.cpp\<close> and the class \<open>Tpm2\<close> of \<^verbatim>\<open>TSS.CPP/include/Tpm2.h\<close>: how a command is sent and
  its response taken in. \<open>DispatchOut\<close> builds the command (header, handles, authorization area,
  parameters), \<open>DispatchIn\<close> checks the response, updates the sessions and decides between a result and
  an exception, \<open>Dispatch\<close> repeats both while the TPM asks for it.

  The record \<open>Tpm2\<close> has the members of the class, and with them the objects that its pointers refer to:
  the sessions (\<open>tp_sess\<close>, with the global \<open>PwapSession\<close> at address 0) and the hashes that \<open>_GetCpHash\<close>
  fills in. The device is an argument, its two methods working on a state of its own; the random
  numbers come from \<open>ossl_rand\<close>, \<open>tp_rands\<close> counting the calls. The user's response callback is the
  log of its arguments. Buffers are local variables of the code, so they are returned, not kept.
\<close>

type_synonym addr = nat

record 'd TpmDevice =
  dev_DispatchCommand :: "ByteVec \<Rightarrow> ('d, unit) sx"
  dev_GetResponse :: "('d, ByteVec) sx"

record 'd Tpm2 =
  tp_device :: "'d option"
  tp_AdminOwner :: TPM_HANDLE
  tp_AdminEndorsement :: TPM_HANDLE
  tp_AdminPlatform :: TPM_HANDLE
  tp_AdminLockout :: TPM_HANDLE
  tp_AllowErrors :: bool
  tp_DemandError :: bool
  tp_AuditCommand :: bool
  tp_ExpectedError :: TPM_RC
  tp_Sessions :: "addr list"
  tp_CpHash :: "addr option"
  tp_EncSession :: "addr option"
  tp_DecSession :: "addr option"
  tp_NonceTpmDec :: ByteVec
  tp_NonceTpmEnc :: ByteVec
  tp_PendingCommand :: TPM_CC
  tp_LastCommandBuf :: ByteVec
  tp_SessTag :: TPM_ST
  tp_InHandles :: "TPM_HANDLE list"
  tp_objectInName :: ByteVec
  tp_objectInAuth :: ByteVec
  tp_LastResponseCode :: TPM_RC
  tp_CommandAuditHash :: TPMT_HA
  tp_AuditCpHash :: TPMT_HA
  tp_responseCallback :: bool
  tp_callbackLog :: "(ByteVec \<times> ByteVec) list"
  tp_sess :: "addr \<Rightarrow> AUTH_SESSION"
  tp_hashes :: "addr \<Rightarrow> TPMT_HA"
  tp_rands :: nat

type_synonym ('d, 'a) tp = "('d Tpm2, 'a) sx"

definition PwapSession :: addr where
  "PwapSession = 0"

definition getf :: "('s \<Rightarrow> 'a) \<Rightarrow> ('s, 'a) sx" where
  "getf f s = (Ok (f s), s)"

text \<open>A call on a local buffer: its result and the buffer as it leaves it.\<close>

definition on_buf :: "'a tpm \<Rightarrow> TpmBuffer \<Rightarrow> ('a \<times> TpmBuffer) outcome" where
  "on_buf m b = (case m b of
       (Ok x, b') \<Rightarrow> Ok (x, b') | (Throw e, _) \<Rightarrow> Throw e | (AssertFailed, _) \<Rightarrow> AssertFailed
     | (Undef, _) \<Rightarrow> Undef)"

definition to_buf :: "unit tpm \<Rightarrow> TpmBuffer \<Rightarrow> ('s, TpmBuffer) sx" where
  "to_buf m b = lift (obind (on_buf m b) (\<lambda>(_, b'). Ok b'))"

definition nth_o :: "'a list \<Rightarrow> nat \<Rightarrow> 'a outcome" where
  "nth_o xs i = (if i < length xs then Ok (xs ! i) else Undef)"

section \<open>Response codes and invocation state\<close>

definition IsFmt1 :: "TPM_RC \<Rightarrow> bool" where
  "IsFmt1 responseCode \<longleftrightarrow> responseCode AND 0x80 \<noteq> 0"

definition ResponseCodeFromTpmError :: "TPM_RC \<Rightarrow> TPM_RC" where
  "ResponseCodeFromTpmError responseCode =
     responseCode AND (if IsFmt1 responseCode then 0xBF else 0x97F)"

definition Tpm2_Init :: "'d Tpm2 \<Rightarrow> 'd Tpm2" where
  "Tpm2_Init t = t\<lparr>tp_AdminPlatform := TPM_HANDLE_of TPM_RH_PLATFORM,
     tp_AdminOwner := TPM_HANDLE_of TPM_RH_OWNER,
     tp_AdminEndorsement := TPM_HANDLE_of TPM_RH_ENDORSEMENT,
     tp_AdminLockout := TPM_HANDLE_of TPM_RH_LOCKOUT,
     tp_CommandAuditHash := (tp_CommandAuditHash t)\<lparr>TPMT_HA_hashAlg := TPM_ALG_ID_NULL\<rparr>\<rparr>"

definition ClearInvocationState :: "('d, unit) tp" where
  "ClearInvocationState = modifyS (\<lambda>t. t\<lparr>tp_AllowErrors := False, tp_DemandError := False,
     tp_ExpectedError := TPM_RC_SUCCESS, tp_CpHash := None, tp_AuditCommand := False,
     tp_PendingCommand := 0\<rparr>)"

definition clear_Sessions :: "('d, unit) tp" where
  "clear_Sessions = modifyS (\<lambda>t. t\<lparr>tp_Sessions := []\<rparr>)"

definition set_sess :: "addr \<Rightarrow> AUTH_SESSION \<Rightarrow> ('d, unit) tp" where
  "set_sess a s = modifyS (\<lambda>t. t\<lparr>tp_sess := (tp_sess t)(a := s)\<rparr>)"

definition RandomBytes :: "Openssl \<Rightarrow> nat \<Rightarrow> ('d, ByteVec) tp" where
  "RandomBytes ossl n t = (Ok (ossl_rand ossl (tp_rands t) n), t\<lparr>tp_rands := tp_rands t + 1\<rparr>)"

fun roll_nonces :: "Openssl \<Rightarrow> addr list \<Rightarrow> ('d, unit) tp" where
  "roll_nonces ossl [] = ret ()"
| "roll_nonces ossl (a # as) = sbind (getf (\<lambda>t. tp_sess t a)) (\<lambda>s.
     if IsPWAP s then roll_nonces ossl as
     else sbind (RandomBytes ossl (length (as_NonceCaller s))) (\<lambda>nonce.
       sseq (set_sess a (s\<lparr>as_NonceCaller := nonce\<rparr>)) (roll_nonces ossl as)))"

definition RollNonces :: "Openssl \<Rightarrow> ('d, unit) tp" where
  "RollNonces ossl = sbind (getf tp_Sessions) (roll_nonces ossl)"

definition SetRhAuthValue :: "'d Tpm2 \<Rightarrow> TPM_HANDLE \<Rightarrow> TPM_HANDLE" where
  "SetRhAuthValue t h =
     (if TPM_HANDLE_handle h = TPM_RH_OWNER then SetAuth (GetAuth (tp_AdminOwner t)) h
      else if TPM_HANDLE_handle h = TPM_RH_ENDORSEMENT then SetAuth (GetAuth (tp_AdminEndorsement t)) h
      else if TPM_HANDLE_handle h = TPM_RH_PLATFORM then SetAuth (GetAuth (tp_AdminPlatform t)) h
      else if TPM_HANDLE_handle h = TPM_RH_LOCKOUT then SetAuth (GetAuth (tp_AdminLockout t)) h
      else h)"

section \<open>Authorizing a command\<close>

definition GetCpHashData :: "TPM_HANDLE list \<Rightarrow> TPM_CC \<Rightarrow> ByteVec \<Rightarrow> ByteVec outcome" where
  "GetCpHashData InHandles cmdCode cmdParams = outcome_of
     (sseq (wseq ([writeInt cmdCode] @
          map (\<lambda>h. bindO (fst (TPM_HANDLE_GetName h)) writeByteBuf) InHandles @
          [writeByteBuf cmdParams])) trim)
     (TpmBuffer_new default_capacity)"

text \<open>
  One session of the authorization area. The structure \<open>s\<close> is declared before the loop, so a field that
  an iteration does not assign still holds what an earlier one put there.
\<close>

definition auth_session ::
  "Openssl \<Rightarrow> ByteVec \<Rightarrow> nat \<Rightarrow> nat \<Rightarrow> addr \<Rightarrow> TPMS_AUTH_COMMAND \<Rightarrow> ('d, TPMS_AUTH_COMMAND) tp" where
  "auth_session ossl cpHashData numAuthHandles i a s =
     sseq (modifyS (\<lambda>t. if i < length (tp_InHandles t)
             then t\<lparr>tp_InHandles := (tp_InHandles t)[i := SetRhAuthValue t (tp_InHandles t ! i)]\<rparr> else t))
     (sbind getS (\<lambda>t.
       let sess = tp_sess t a; handle = nth_o (tp_InHandles t) i in
       if IsPWAP sess
       then bindO handle (\<lambda>h. ret (s\<lparr>TPMS_AUTH_COMMAND_sessionHandle := TPM_HANDLE_of TPM_RH_PW,
              TPMS_AUTH_COMMAND_nonce := [], TPMS_AUTH_COMMAND_hmac := GetAuth h,
              TPMS_AUTH_COMMAND_sessionAttributes := TPMA_SESSION_continueSession\<rparr>))
       else sbind
         (if i < numAuthHandles
          then bindO handle (\<lambda>h. sseq (set_sess a (sess\<lparr>as_AuthValue := GetAuth h\<rparr>)) (ret (Some h)))
          else ret None)
         (\<lambda>associatedHandle. sbind (getf (\<lambda>t. tp_sess t a)) (\<lambda>sess.
           let s = s\<lparr>TPMS_AUTH_COMMAND_nonce := as_NonceCaller sess,
                 TPMS_AUTH_COMMAND_sessionHandle := as_handle sess,
                 TPMS_AUTH_COMMAND_sessionAttributes := as_SessionAttributes sess\<rparr> in
           if as_SessionType sess = TPM_SE_HMAC \<or> as_NeedsHmac sess
           then lift (obind (Hash_all ossl (as_HashAlg sess) cpHashData) (\<lambda>cpHash.
                  obind (GetAuthHmac ossl sess cpHash True (tp_NonceTpmDec t) (tp_NonceTpmEnc t)
                           associatedHandle)
                    (\<lambda>hmac. Ok (s\<lparr>TPMS_AUTH_COMMAND_hmac := hmac\<rparr>))))
           else if as_NeedsPassword sess
           then bindO handle (\<lambda>h. ret (s\<lparr>TPMS_AUTH_COMMAND_hmac := GetAuth h\<rparr>))
           else ret s))))"

fun auth_loop ::
  "Openssl \<Rightarrow> ByteVec \<Rightarrow> nat \<Rightarrow> nat \<Rightarrow> addr list \<Rightarrow> TPMS_AUTH_COMMAND \<Rightarrow> TpmBuffer \<Rightarrow> ('d, TpmBuffer) tp" where
  "auth_loop ossl cpHashData n i [] s cmdBuf = ret cmdBuf"
| "auth_loop ossl cpHashData n i (a # as) s cmdBuf =
     sbind (auth_session ossl cpHashData n i a s) (\<lambda>s.
       sbind (to_buf (TPMS_AUTH_COMMAND_toTpm s) cmdBuf) (\<lambda>cmdBuf.
         auth_loop ossl cpHashData n (Suc i) as s cmdBuf))"

definition ProcessAuthSessions ::
  "Openssl \<Rightarrow> TpmBuffer \<Rightarrow> TPM_CC \<Rightarrow> nat \<Rightarrow> ByteVec \<Rightarrow> ('d, ByteVec \<times> TpmBuffer) tp" where
  "ProcessAuthSessions ossl cmdBuf cmdCode numAuthHandles cmdParams = sbind getS (\<lambda>t.
     sseq (sassert (numAuthHandles \<le> length (tp_Sessions t)))
     (let needHmac = list_ex (\<lambda>a. \<not> IsPWAP (tp_sess t a)) (tp_Sessions t) in
      sbind (if needHmac then lift (GetCpHashData (tp_InHandles t) cmdCode cmdParams) else ret [])
        (\<lambda>cpHashData.
          sbind (auth_loop ossl cpHashData numAuthHandles 0 (tp_Sessions t) TPMS_AUTH_COMMAND_default cmdBuf)
            (\<lambda>cmdBuf. ret (cpHashData, cmdBuf)))))"

section \<open>Parameter encryption\<close>

fun last_session :: "(addr \<Rightarrow> AUTH_SESSION) \<Rightarrow> TPMA_SESSION \<Rightarrow> addr list \<Rightarrow> addr option \<Rightarrow> addr option" where
  "last_session sess attr [] found = found"
| "last_session sess attr (a # as) found = last_session sess attr as
     (if \<not> IsPWAP (sess a) \<and> as_SessionAttributes (sess a) AND attr \<noteq> 0 then Some a else found)"

definition PrepareParmEncryptionSessions :: "('d, unit) tp" where
  "PrepareParmEncryptionSessions = modifyS (\<lambda>t.
     let dec = last_session (tp_sess t) TPMA_SESSION_decrypt (tp_Sessions t) None;
         enc = last_session (tp_sess t) TPMA_SESSION_encrypt (tp_Sessions t) None;
         nonce = (\<lambda>p. as_NonceTpm (tp_sess t (the p)))
     in t\<lparr>tp_DecSession := dec, tp_EncSession := enc,
          tp_NonceTpmDec := (if dec \<noteq> None \<and> dec \<noteq> Some (hd (tp_Sessions t)) then nonce dec else []),
          tp_NonceTpmEnc := (if enc \<noteq> None \<and> enc \<noteq> Some (hd (tp_Sessions t)) \<and> enc \<noteq> dec
                             then nonce enc else [])\<rparr>)"

definition DoParmEncryption :: "Openssl \<Rightarrow> SessEncInfo \<Rightarrow> TpmBuffer \<Rightarrow> nat \<Rightarrow> bool \<Rightarrow> ('d, TpmBuffer) tp" where
  "DoParmEncryption ossl sei paramBuf start request =
     sbind (getf (if request then tp_DecSession else tp_EncSession)) (\<lambda>xcryptSess.
       case xcryptSess of
         None \<Rightarrow> ret paramBuf
       | Some a \<Rightarrow>
           sseq (sassert (sizeLen sei \<noteq> 0 \<and> valLen sei \<noteq> 0))
           (let origCurPos = tb_pos paramBuf in
            sbind (lift (on_buf
              (sseq (set_curPos start) (sbind (readNum (unat (sizeLen sei))) (\<lambda>arrSize.
                 sbind curPos (\<lambda>arrPos.
                   sbind (readByteBuf (unat arrSize * unat (valLen sei))) (\<lambda>toXcrypt.
                     ret (arrPos, toXcrypt)))))) paramBuf)) (\<lambda>((arrPos, toXcrypt), paramBuf).
            sbind (getf (\<lambda>t. tp_sess t a)) (\<lambda>sess.
            sbind (lift (ParamXcrypt ossl sess toXcrypt request)) (\<lambda>res.
            sbind (to_buf (wseq [set_curPos arrPos, writeByteBuf res, set_curPos origCurPos]) paramBuf)
              (\<lambda>paramBuf.
            sseq (modifyS (\<lambda>t. t\<lparr>tp_EncSession := None, tp_DecSession := None\<rparr>)) (ret paramBuf)))))))"

section \<open>Requests and responses\<close>

text \<open>
  The request and response objects that the dispatcher casts to their class, for which the command code
  decides; of all others it sees only the virtual methods. A cast to the wrong class is \<open>Undef\<close>.
\<close>

datatype ReqObj =
    Req_HierarchyChangeAuth TPM2_HierarchyChangeAuth_REQUEST
  | Req_LoadExternal TPM2_LoadExternal_REQUEST
  | Req_Load TPM2_Load_REQUEST
  | Req_NV_ChangeAuth TPM2_NV_ChangeAuth_REQUEST
  | Req_ObjectChangeAuth TPM2_ObjectChangeAuth_REQUEST
  | Req_PCR_SetAuthValue TPM2_PCR_SetAuthValue_REQUEST
  | Req_EvictControl TPM2_EvictControl_REQUEST
  | Req_Clear TPM2_Clear_REQUEST
  | Req_HashSequenceStart TPM2_HashSequenceStart_REQUEST
  | Req_other "TPM_HANDLE ReqStructure"

fun req_methods :: "ReqObj \<Rightarrow> TPM_HANDLE ReqStructure" where
  "req_methods (Req_HierarchyChangeAuth r) = TPM2_HierarchyChangeAuth_REQUEST_req r"
| "req_methods (Req_LoadExternal r) = TPM2_LoadExternal_REQUEST_req r"
| "req_methods (Req_Load r) = TPM2_Load_REQUEST_req r"
| "req_methods (Req_NV_ChangeAuth r) = TPM2_NV_ChangeAuth_REQUEST_req r"
| "req_methods (Req_ObjectChangeAuth r) = TPM2_ObjectChangeAuth_REQUEST_req r"
| "req_methods (Req_PCR_SetAuthValue r) = TPM2_PCR_SetAuthValue_REQUEST_req r"
| "req_methods (Req_EvictControl r) = TPM2_EvictControl_REQUEST_req r"
| "req_methods (Req_Clear r) = TPM2_Clear_REQUEST_req r"
| "req_methods (Req_HashSequenceStart r) = TPM2_HashSequenceStart_REQUEST_req r"
| "req_methods (Req_other m) = m"

datatype 'r RespObj =
    Resp_Load LoadResponse
  | Resp_CreatePrimary CreatePrimaryResponse
  | Resp_LoadExternal LoadExternalResponse
  | Resp_HashSequenceStart HashSequenceStartResponse
  | Resp_other 'r

fun resp_read :: "(TPM_HANDLE, 'r) RespStructure \<Rightarrow> 'r RespObj \<Rightarrow> 'r RespObj tpm" where
  "resp_read m (Resp_Load r) = sbind (resp_initFromTpm LoadResponse_resp r) (\<lambda>r. ret (Resp_Load r))"
| "resp_read m (Resp_CreatePrimary r) =
     sbind (resp_initFromTpm CreatePrimaryResponse_resp r) (\<lambda>r. ret (Resp_CreatePrimary r))"
| "resp_read m (Resp_LoadExternal r) =
     sbind (resp_initFromTpm LoadExternalResponse_resp r) (\<lambda>r. ret (Resp_LoadExternal r))"
| "resp_read m (Resp_HashSequenceStart r) =
     sbind (resp_initFromTpm HashSequenceStartResponse_resp r) (\<lambda>r. ret (Resp_HashSequenceStart r))"
| "resp_read m (Resp_other r) = sbind (resp_initFromTpm m r) (\<lambda>r. ret (Resp_other r))"

fun resp_handles :: "(TPM_HANDLE, 'r) RespStructure \<Rightarrow> 'r RespObj \<Rightarrow> UINT16" where
  "resp_handles m (Resp_other r) = resp_numHandles m"
| "resp_handles m (Resp_Load r) = resp_numHandles LoadResponse_resp"
| "resp_handles m (Resp_CreatePrimary r) = resp_numHandles CreatePrimaryResponse_resp"
| "resp_handles m (Resp_LoadExternal r) = resp_numHandles LoadExternalResponse_resp"
| "resp_handles m (Resp_HashSequenceStart r) = resp_numHandles HashSequenceStartResponse_resp"

fun resp_encInfo :: "(TPM_HANDLE, 'r) RespStructure \<Rightarrow> 'r RespObj \<Rightarrow> SessEncInfo" where
  "resp_encInfo m (Resp_other r) = resp_sessEncInfo m"
| "resp_encInfo m (Resp_Load r) = resp_sessEncInfo LoadResponse_resp"
| "resp_encInfo m (Resp_CreatePrimary r) = resp_sessEncInfo CreatePrimaryResponse_resp"
| "resp_encInfo m (Resp_LoadExternal r) = resp_sessEncInfo LoadExternalResponse_resp"
| "resp_encInfo m (Resp_HashSequenceStart r) = resp_sessEncInfo HashSequenceStartResponse_resp"

fun resp_put_handle :: "(TPM_HANDLE, 'r) RespStructure \<Rightarrow> TPM_HANDLE \<Rightarrow> 'r RespObj \<Rightarrow> 'r RespObj" where
  "resp_put_handle m h (Resp_other r) = Resp_other (resp_setHandle m h r)"
| "resp_put_handle m h (Resp_Load r) = Resp_Load (resp_setHandle LoadResponse_resp h r)"
| "resp_put_handle m h (Resp_CreatePrimary r) =
     Resp_CreatePrimary (resp_setHandle CreatePrimaryResponse_resp h r)"
| "resp_put_handle m h (Resp_LoadExternal r) =
     Resp_LoadExternal (resp_setHandle LoadExternalResponse_resp h r)"
| "resp_put_handle m h (Resp_HashSequenceStart r) =
     Resp_HashSequenceStart (resp_setHandle HashSequenceStartResponse_resp h r)"

definition set_objectInAuth :: "ByteVec \<Rightarrow> ('d, unit) tp" where
  "set_objectInAuth v = modifyS (\<lambda>t. t\<lparr>tp_objectInAuth := v\<rparr>)"

definition set_objectInName :: "ByteVec \<Rightarrow> ('d, unit) tp" where
  "set_objectInName v = modifyS (\<lambda>t. t\<lparr>tp_objectInName := v\<rparr>)"

text \<open>It is called after the command was sent; the request is returned as it leaves it.\<close>

definition UpdateRequestHandles :: "Openssl \<Rightarrow> TPM_CC \<Rightarrow> ReqObj \<Rightarrow> ('d, ReqObj) tp" where
  "UpdateRequestHandles ossl cc req = sseq (set_objectInName [])
     (if cc = TPM_CC_HierarchyChangeAuth then
        (case req of
           Req_HierarchyChangeAuth r \<Rightarrow>
             sseq (set_objectInAuth (TPM2_HierarchyChangeAuth_REQUEST_newAuth r))
               (ret (Req_HierarchyChangeAuth (r\<lparr>TPM2_HierarchyChangeAuth_REQUEST_authHandle :=
                  SetAuth (TPM2_HierarchyChangeAuth_REQUEST_newAuth r)
                    (TPM2_HierarchyChangeAuth_REQUEST_authHandle r)\<rparr>)))
         | _ \<Rightarrow> undef)
      else if cc = TPM_CC_LoadExternal then
        (case req of
           Req_LoadExternal r \<Rightarrow>
             sbind (lift (TPMT_PUBLIC_GetName ossl (TPM2_LoadExternal_REQUEST_inPublic r)))
               (\<lambda>n. sseq (set_objectInName n) (ret req))
         | _ \<Rightarrow> undef)
      else if cc = TPM_CC_Load then
        (case req of
           Req_Load r \<Rightarrow>
             sbind (lift (TPMT_PUBLIC_GetName ossl (TPM2_Load_REQUEST_inPublic r)))
               (\<lambda>n. sseq (set_objectInName n) (ret req))
         | _ \<Rightarrow> undef)
      else if cc = TPM_CC_NV_ChangeAuth then
        (case req of
           Req_NV_ChangeAuth r \<Rightarrow>
             sseq (set_objectInAuth (TPM2_NV_ChangeAuth_REQUEST_newAuth r))
               (ret (Req_NV_ChangeAuth (r\<lparr>TPM2_NV_ChangeAuth_REQUEST_nvIndex :=
                  SetAuth (TPM2_NV_ChangeAuth_REQUEST_newAuth r) (TPM2_NV_ChangeAuth_REQUEST_nvIndex r)\<rparr>)))
         | _ \<Rightarrow> undef)
      else if cc = TPM_CC_ObjectChangeAuth then
        (case req of
           Req_ObjectChangeAuth r \<Rightarrow>
             sseq (set_objectInAuth (TPM2_ObjectChangeAuth_REQUEST_newAuth r)) (ret req)
         | _ \<Rightarrow> undef)
      else if cc = TPM_CC_PCR_SetAuthValue then
        (case req of
           Req_PCR_SetAuthValue r \<Rightarrow> sseq (set_objectInAuth (TPM2_PCR_SetAuthValue_REQUEST_auth r)) (ret req)
         | _ \<Rightarrow> undef)
      else if cc = TPM_CC_EvictControl then
        (case req of
           Req_EvictControl r \<Rightarrow>
             let h = TPM2_EvictControl_REQUEST_objectHandle r in
             sseq (set_objectInAuth (GetAuth h))
             (if GetHandleType h \<noteq> TPM_HT_PERSISTENT
              then (case TPM_HANDLE_GetName h of (res, h') \<Rightarrow>
                sbind (lift res) (\<lambda>n. sseq (set_objectInName n)
                  (ret (Req_EvictControl (r\<lparr>TPM2_EvictControl_REQUEST_objectHandle := h'\<rparr>)))))
              else ret req)
         | _ \<Rightarrow> undef)
      else if cc = TPM_CC_Clear then
        (case req of
           Req_Clear r \<Rightarrow> ret (Req_Clear (r\<lparr>TPM2_Clear_REQUEST_authHandle :=
             SetAuth [] (TPM2_Clear_REQUEST_authHandle r)\<rparr>))
         | _ \<Rightarrow> undef)
      else if cc = TPM_CC_HashSequenceStart then
        (case req of
           Req_HashSequenceStart r \<Rightarrow> sseq (set_objectInAuth (TPM2_HashSequenceStart_REQUEST_auth r)) (ret req)
         | _ \<Rightarrow> undef)
      else ret req)"

text \<open>\<open>InHandles[i]\<close> replaced by what \<open>f\<close> makes of it.\<close>

definition on_InHandle :: "nat \<Rightarrow> (TPM_HANDLE, unit) sx \<Rightarrow> ('d, unit) tp" where
  "on_InHandle i m = sbind (getf (\<lambda>t. nth_o (tp_InHandles t) i)) (\<lambda>r. bindO r (\<lambda>h.
     case m h of (res, h') \<Rightarrow>
       sseq (modifyS (\<lambda>t. t\<lparr>tp_InHandles := (tp_InHandles t)[i := h']\<rparr>)) (lift res)))"

definition auth_InHandle :: "nat \<Rightarrow> ('d, unit) tp" where
  "auth_InHandle i = sbind (getf tp_objectInAuth) (\<lambda>v. on_InHandle i (modifyS (SetAuth v)))"

definition CompleteUpdateRequestHandles :: "TPM_CC \<Rightarrow> ('d, unit) tp" where
  "CompleteUpdateRequestHandles cc =
     (if cc = TPM_CC_HierarchyChangeAuth then
        sbind (getf (\<lambda>t. nth_o (tp_InHandles t) 0)) (\<lambda>r. bindO r (\<lambda>h.
          sseq (modifyS (\<lambda>t.
            if TPM_HANDLE_handle h = TPM_RH_OWNER
            then t\<lparr>tp_AdminOwner := SetAuth (tp_objectInAuth t) (tp_AdminOwner t)\<rparr>
            else if TPM_HANDLE_handle h = TPM_RH_ENDORSEMENT
            then t\<lparr>tp_AdminEndorsement := SetAuth (tp_objectInAuth t) (tp_AdminEndorsement t)\<rparr>
            else if TPM_HANDLE_handle h = TPM_RH_PLATFORM
            then t\<lparr>tp_AdminPlatform := SetAuth (tp_objectInAuth t) (tp_AdminPlatform t)\<rparr>
            else if TPM_HANDLE_handle h = TPM_RH_LOCKOUT
            then t\<lparr>tp_AdminLockout := SetAuth (tp_objectInAuth t) (tp_AdminLockout t)\<rparr>
            else t)) (auth_InHandle 0)))
      else if cc = TPM_CC_NV_ChangeAuth then auth_InHandle 0
      else if cc = TPM_CC_ObjectChangeAuth then ret ()
      else if cc = TPM_CC_PCR_SetAuthValue then auth_InHandle 0
      else if cc = TPM_CC_EvictControl then
        sbind (getf (\<lambda>t. nth_o (tp_InHandles t) 1)) (\<lambda>r. bindO r (\<lambda>h.
          if GetHandleType h \<noteq> TPM_HT_PERSISTENT
          then sseq (auth_InHandle 1)
            (sbind (getf tp_objectInName) (\<lambda>n. on_InHandle 1 (SetName n)))
          else ret ()))
      else if cc = TPM_CC_Clear then
        modifyS (\<lambda>t. t\<lparr>tp_AdminLockout := SetAuth [] (tp_AdminLockout t),
          tp_AdminOwner := SetAuth [] (tp_AdminOwner t),
          tp_AdminEndorsement := SetAuth [] (tp_AdminEndorsement t)\<rparr>)
      else ret ())"

definition handle_SetName :: "ByteVec \<Rightarrow> TPM_HANDLE \<Rightarrow> TPM_HANDLE outcome" where
  "handle_SetName n h = (case SetName n h of
       (Ok _, h') \<Rightarrow> Ok h' | (Throw e, _) \<Rightarrow> Throw e | (AssertFailed, _) \<Rightarrow> AssertFailed
     | (Undef, _) \<Rightarrow> Undef)"

definition UpdateRespHandle :: "Openssl \<Rightarrow> TPM_CC \<Rightarrow> 'r RespObj \<Rightarrow> ('d, 'r RespObj) tp" where
  "UpdateRespHandle ossl cc resp = sbind getS (\<lambda>t. lift
     (if cc = TPM_CC_Load then
        (case resp of
           Resp_Load r \<Rightarrow> obind (oassert (LoadResponse_name r = tp_objectInName t)) (\<lambda>_.
             obind (handle_SetName (LoadResponse_name r) (LoadResponse_handle r)) (\<lambda>h.
               Ok (Resp_Load (r\<lparr>LoadResponse_handle := h\<rparr>))))
         | _ \<Rightarrow> Undef)
      else if cc = TPM_CC_CreatePrimary then
        (case resp of
           Resp_CreatePrimary r \<Rightarrow>
             obind (TPMT_PUBLIC_GetName ossl (CreatePrimaryResponse_outPublic r)) (\<lambda>n.
             obind (oassert (CreatePrimaryResponse_name r = n)) (\<lambda>_.
             obind (handle_SetName (CreatePrimaryResponse_name r) (CreatePrimaryResponse_handle r)) (\<lambda>h.
               Ok (Resp_CreatePrimary (r\<lparr>CreatePrimaryResponse_handle := h\<rparr>)))))
         | _ \<Rightarrow> Undef)
      else if cc = TPM_CC_LoadExternal then
        (case resp of
           Resp_LoadExternal r \<Rightarrow> obind (oassert (LoadExternalResponse_name r = tp_objectInName t)) (\<lambda>_.
             obind (handle_SetName (LoadExternalResponse_name r) (LoadExternalResponse_handle r)) (\<lambda>h.
               Ok (Resp_LoadExternal (r\<lparr>LoadExternalResponse_handle := h\<rparr>))))
         | _ \<Rightarrow> Undef)
      else if cc = TPM_CC_HashSequenceStart then
        (case resp of
           Resp_HashSequenceStart r \<Rightarrow>
             Ok (Resp_HashSequenceStart (r\<lparr>HashSequenceStartResponse_handle :=
               SetAuth (tp_objectInAuth t) (HashSequenceStartResponse_handle r)\<rparr>))
         | _ \<Rightarrow> Undef)
      else Ok resp))"

section \<open>Sending a command\<close>

definition on_device :: "('d, 'a) sx \<Rightarrow> ('d, 'a) tp" where
  "on_device m t = (case tp_device t of
       None \<Rightarrow> (Undef, t)
     | Some d \<Rightarrow> (case m d of (r, d') \<Rightarrow> (r, t\<lparr>tp_device := Some d'\<rparr>)))"

text \<open>
  The header with a size of 0, the handles, and after them the authorization area with its size. The
  result is \<open>cpHashData\<close> and the two buffers.
\<close>

definition write_sessions ::
  "Openssl \<Rightarrow> TPM_CC \<Rightarrow> TPM_HANDLE ReqStructure \<Rightarrow> TpmBuffer \<Rightarrow> TpmBuffer \<Rightarrow>
   ('d, ByteVec \<times> TpmBuffer \<times> TpmBuffer) tp" where
  "write_sessions ossl cmdCode req cmdBuf paramBuf =
     (let authSizePos = tb_pos cmdBuf; numAuthHandles = unat (req_numAuthHandles req) in
      sbind (to_buf (writeInt 0) cmdBuf) (\<lambda>cmdBuf.
      sseq (modifyS (\<lambda>t. if length (tp_Sessions t) < numAuthHandles
              then t\<lparr>tp_Sessions := resize PwapSession numAuthHandles (tp_Sessions t)\<rparr> else t))
      (sseq (RollNonces ossl)
      (sseq PrepareParmEncryptionSessions
      (sbind (DoParmEncryption ossl (req_sessEncInfo req) paramBuf 0 True) (\<lambda>paramBuf.
      sbind (ProcessAuthSessions ossl cmdBuf cmdCode numAuthHandles (tb_buf paramBuf)) (\<lambda>(cpHashData, cmdBuf).
      sbind (to_buf (writeNumAtPos (of_nat (tb_pos cmdBuf - authSizePos - 4)) authSizePos 4) cmdBuf)
        (\<lambda>cmdBuf. ret (cpHashData, cmdBuf, paramBuf)))))))))"

text \<open>The buffers of \<open>DispatchOut\<close>: the header, the authorization area and the parameters, complete.\<close>

definition make_command ::
  "Openssl \<Rightarrow> TPM_CC \<Rightarrow> TPM_HANDLE ReqStructure \<Rightarrow> bool \<Rightarrow> TPM_ST \<Rightarrow> ('d, ByteVec \<times> TpmBuffer \<times> TpmBuffer) tp" where
  "make_command ossl cmdCode req hasSessions tag =
     sseq (modifyS (\<lambda>t. t\<lparr>tp_SessTag := tag, tp_InHandles := req_getHandles req\<rparr>))
     (sbind (to_buf (wseq ([writeShort tag, writeInt 0, writeInt cmdCode] @
          map TPM_HANDLE_toTpm (req_getHandles req))) (TpmBuffer_new default_capacity)) (\<lambda>cmdBuf.
      sbind (to_buf (sseq (req_toTpm req) (sbind trim (\<lambda>_. ret ()))) (TpmBuffer_new default_capacity))
        (\<lambda>paramBuf.
      sbind (if hasSessions then write_sessions ossl cmdCode req cmdBuf paramBuf
             else ret ([], cmdBuf, paramBuf)) (\<lambda>(cpHashData, cmdBuf, paramBuf).
      sbind (to_buf (writeByteBuf (tb_buf paramBuf)) cmdBuf) (\<lambda>cmdBuf.
      sbind (to_buf (writeNumAtPos (of_nat (tb_pos cmdBuf)) 2 4) cmdBuf) (\<lambda>cmdBuf.
        ret (cpHashData, cmdBuf, paramBuf)))))))"

text \<open>
  Its last part: only the hash of the parameters was asked for, or the command goes to the device.
\<close>

definition send_command ::
  "Openssl \<Rightarrow> 'd TpmDevice \<Rightarrow> TPM_CC \<Rightarrow> ReqObj \<Rightarrow> ByteVec \<Rightarrow> TpmBuffer \<Rightarrow> ('d, bool \<times> ReqObj) tp" where
  "send_command ossl dev cmdCode reqObj cpHashData cmdBuf = sbind getS (\<lambda>t.
     case tp_CpHash t of
       Some a \<Rightarrow>
         sbind (lift (Hash_all ossl (TPMT_HA_hashAlg (tp_hashes t a)) cpHashData)) (\<lambda>d.
           sseq (modifyS (\<lambda>t. t\<lparr>tp_hashes := (tp_hashes t)(a := (tp_hashes t a)\<lparr>TPMT_HA_digest := d\<rparr>)\<rparr>))
           (sseq ClearInvocationState (sseq clear_Sessions
           (sseq (modifyS (\<lambda>t. t\<lparr>tp_CpHash := None\<rparr>)) (ret (False, reqObj))))))
     | None \<Rightarrow>
         sseq (if tp_AuditCommand t
               then sbind (lift (Hash_all ossl (TPMT_HA_hashAlg (tp_CommandAuditHash t)) cpHashData))
                 (\<lambda>d. modifyS (\<lambda>t. t\<lparr>tp_AuditCpHash := (tp_AuditCpHash t)\<lparr>TPMT_HA_digest := d\<rparr>\<rparr>))
               else ret ())
         (if tp_device t = None
          then throw (runtime_error
            ''No TPM device. Use _SetDevice() or the constructor that takes a TpmDevice*'')
          else
            let cmd = resize 0 (tb_pos cmdBuf) (tb_buf cmdBuf) in
            sseq (modifyS (\<lambda>t. t\<lparr>tp_LastCommandBuf := cmd\<rparr>))
            (sseq (on_device (dev_DispatchCommand dev cmd))
            (sbind (UpdateRequestHandles ossl cmdCode reqObj) (\<lambda>reqObj.
             sseq (modifyS (\<lambda>t. t\<lparr>tp_PendingCommand := cmdCode\<rparr>)) (ret (True, reqObj)))))))"

definition DispatchOut ::
  "Openssl \<Rightarrow> 'd TpmDevice \<Rightarrow> TPM_CC \<Rightarrow> ReqObj \<Rightarrow> ('d, bool \<times> ReqObj) tp" where
  "DispatchOut ossl dev cmdCode reqObj = sbind getS (\<lambda>t.
     if tp_PendingCommand t \<noteq> 0
     then throw (runtime_error
       ''Pending async command must be completed before issuing the next command.'')
     else if tp_AuditCommand t \<and> TPMT_HA_hashAlg (tp_CommandAuditHash t) = TPM_ALG_ID_NULL
     then throw (runtime_error ''Command audit is not enabled'')
     else
       let req = req_methods reqObj;
           hasSessions = (req_numAuthHandles req \<noteq> 0 \<or> tp_Sessions t \<noteq> []);
           tag = (if hasSessions then TPM_ST_SESSIONS else TPM_ST_NO_SESSIONS) in
       sbind (make_command ossl cmdCode req hasSessions tag) (\<lambda>(cpHashData, cmdBuf, paramBuf).
       sbind getS (\<lambda>t.
       sbind (if tp_CpHash t \<noteq> None \<or> tp_AuditCommand t
              then (if cpHashData = [] then lift (GetCpHashData (tp_InHandles t) cmdCode (tb_buf paramBuf))
                    else ret cpHashData)
              else ret cpHashData) (\<lambda>cpHashData.
         send_command ossl dev cmdCode reqObj cpHashData cmdBuf))))"

section \<open>Taking in the response\<close>

text \<open>
  The response hash is taken over the buffer itself: the return code and the command code are written
  over the eight bytes before the parameters.
\<close>

definition GetRpHash ::
  "Openssl \<Rightarrow> TPM_ALG_ID \<Rightarrow> TpmBuffer \<Rightarrow> TPM_CC \<Rightarrow> nat \<Rightarrow> nat \<Rightarrow> bool \<Rightarrow> (ByteVec \<times> TpmBuffer) outcome" where
  "GetRpHash ossl hashAlg respBuf cmdCode respParamsPos respParamsSize rpReady =
     (let rpHeaderSize = 8; rpHashDataPos = respParamsPos - rpHeaderSize; origCurPos = tb_pos respBuf in
      obind (if rpReady then Ok ((), respBuf)
             else on_buf (wseq [set_curPos rpHashDataPos, writeInt TPM_RC_SUCCESS, writeInt cmdCode,
                    set_curPos origCurPos]) respBuf) (\<lambda>(_, respBuf).
        obind (Hash ossl hashAlg (tb_buf respBuf) rpHashDataPos (rpHeaderSize + respParamsSize))
          (\<lambda>h. Ok (h, respBuf))))"

text \<open>
  One session of the response. The check of a password session looks at a structure \<open>r\<close> that was just
  constructed, not at the one that was read.
\<close>

definition resp_session ::
  "Openssl \<Rightarrow> TPM_CC \<Rightarrow> nat \<Rightarrow> nat \<Rightarrow> nat \<Rightarrow> addr \<Rightarrow> bool \<Rightarrow> TpmBuffer \<Rightarrow> ('d, bool \<times> TpmBuffer) tp" where
  "resp_session ossl cmdCode respParamsPos respParamsSize j a rpReady respBuf =
     sbind (lift (on_buf (TPMS_AUTH_RESPONSE_initFromTpm TPMS_AUTH_RESPONSE_default) respBuf))
       (\<lambda>(authResponse, respBuf). sbind getS (\<lambda>t.
       let sess = tp_sess t a in
       if IsPWAP sess
       then
         let r = TPMS_AUTH_RESPONSE_default in
         if TPMS_AUTH_RESPONSE_nonce r \<noteq> [] \<or> TPMS_AUTH_RESPONSE_hmac r \<noteq> []
         then sseq clear_Sessions (throw (runtime_error ''Bad value in PWAP session response''))
         else ret (rpReady, respBuf)
       else
         let associatedHandle = (if j < length (tp_InHandles t) then Some (tp_InHandles t ! j) else None);
             sess = (case associatedHandle of None \<Rightarrow> sess | Some h \<Rightarrow> sess\<lparr>as_AuthValue := GetAuth h\<rparr>);
             sess = sess\<lparr>as_NonceTpm := TPMS_AUTH_RESPONSE_nonce authResponse,
               as_SessionAttributes := TPMS_AUTH_RESPONSE_sessionAttributes authResponse\<rparr>
         in sseq (set_sess a sess)
           (if as_SessionType sess = TPM_SE_HMAC
            then sbind (lift (GetRpHash ossl (as_HashAlg sess) respBuf cmdCode respParamsPos
                   respParamsSize rpReady)) (\<lambda>(rpHash, respBuf).
              sbind (lift (GetAuthHmac ossl sess rpHash False (tp_NonceTpmDec t) (tp_NonceTpmEnc t)
                   associatedHandle)) (\<lambda>expectedHmac.
                if expectedHmac \<noteq> TPMS_AUTH_RESPONSE_hmac authResponse
                then throw (runtime_error ''Invalid TPM response HMAC'')
                else ret (True, respBuf)))
            else ret (rpReady, respBuf))))"

fun resp_loop ::
  "Openssl \<Rightarrow> TPM_CC \<Rightarrow> nat \<Rightarrow> nat \<Rightarrow> nat \<Rightarrow> addr list \<Rightarrow> bool \<Rightarrow> TpmBuffer \<Rightarrow> ('d, bool \<times> TpmBuffer) tp" where
  "resp_loop ossl cmdCode pos len j [] rpReady respBuf = ret (rpReady, respBuf)"
| "resp_loop ossl cmdCode pos len j (a # as) rpReady respBuf =
     sbind (resp_session ossl cmdCode pos len j a rpReady respBuf) (\<lambda>(rpReady, respBuf).
       resp_loop ossl cmdCode pos len (Suc j) as rpReady respBuf)"

definition ProcessRespSessions ::
  "Openssl \<Rightarrow> TpmBuffer \<Rightarrow> TPM_CC \<Rightarrow> nat \<Rightarrow> nat \<Rightarrow> ('d, bool \<times> TpmBuffer) tp" where
  "ProcessRespSessions ossl respBuf cmdCode respParamsPos respParamsSize =
     sbind (to_buf (set_curPos (respParamsPos + respParamsSize)) respBuf) (\<lambda>respBuf.
     sbind (getf tp_Sessions) (\<lambda>as.
     sbind (resp_loop ossl cmdCode respParamsPos respParamsSize 0 as False respBuf)
       (\<lambda>(rpReady, respBuf).
         if size_buf respBuf \<noteq> tb_pos respBuf
         then throw (runtime_error ''Invalid response buffer: Data beyond the authorization area'')
         else ret (rpReady, respBuf))))"

text \<open>The reaction to a response code: the message of the exception, or the empty string for none.\<close>

definition error_message :: "'d Tpm2 \<Rightarrow> TPM_CC \<Rightarrow> TPM_RC \<Rightarrow> string" where
  "error_message t cmdCode respCode =
     (if respCode = TPM_RC_SUCCESS
      then if tp_DemandError t then ''A TPM error was demanded but the function succeeded''
        else if tp_ExpectedError t \<noteq> TPM_RC_SUCCESS
        then ''Error {'' @ EnumToStr (tp_ExpectedError t) TPM_RC_ID @ ''} was expected but command '' @
             EnumToStr cmdCode TPM_CC_ID @ ''() succeeded''
        else ''''
      else if \<not> tp_DemandError t \<and> \<not> tp_AllowErrors t
      then if tp_ExpectedError t \<noteq> TPM_RC_SUCCESS
        then (if tp_LastResponseCode t \<noteq> tp_ExpectedError t
              then ''TPM returned {'' @ EnumToStr (tp_LastResponseCode t) TPM_RC_ID @
                ''} instead of expected {'' @ EnumToStr (tp_ExpectedError t) TPM_RC_ID @ ''} from'' @
                EnumToStr cmdCode TPM_CC_ID @ ''()''
              else '''')
        else ''TPM Error - TPM_RC::'' @ EnumToStr (tp_LastResponseCode t) TPM_RC_ID
      else '''')"

text \<open>The response of a command that succeeded, its header read already.\<close>

definition complete_command ::
  "Openssl \<Rightarrow> (TPM_HANDLE, 'r) RespStructure \<Rightarrow> TPM_CC \<Rightarrow> bool \<Rightarrow> TPM_ST \<Rightarrow> 'r RespObj \<Rightarrow> TpmBuffer \<Rightarrow>
   ('d, bool \<times> 'r RespObj) tp" where
  "complete_command ossl m cmdCode auditCommand respTag resp respBuf = sbind getS (\<lambda>t.
     if tp_SessTag t \<noteq> respTag then throw (runtime_error ''Wrong response session tag'')
     else
       sbind (if 0 < resp_handles m resp
              then sseq (sassert (resp_handles m resp = 1))
                (sbind (lift (on_buf readInt respBuf)) (\<lambda>(h, respBuf).
                  ret (resp_put_handle m (TPM_HANDLE_of h) resp, respBuf)))
              else ret (resp, respBuf)) (\<lambda>(resp, respBuf).
       sbind (if tp_SessTag t = TPM_ST_SESSIONS
              then sbind (lift (on_buf readInt respBuf)) (\<lambda>(n, respBuf).
                let respParamsPos = tb_pos respBuf in
                sbind (ProcessRespSessions ossl respBuf cmdCode respParamsPos (unat n))
                  (\<lambda>(rpReady, respBuf). ret (respParamsPos, unat n, rpReady, respBuf)))
              else ret (tb_pos respBuf, size_buf respBuf - tb_pos respBuf, False, respBuf))
         (\<lambda>(respParamsPos, respParamsSize, rpReady, respBuf).
       sbind (if auditCommand
              then sbind getS (\<lambda>t.
                sbind (lift (GetRpHash ossl (TPMT_HA_hashAlg (tp_CommandAuditHash t)) respBuf cmdCode
                         respParamsPos respParamsSize rpReady)) (\<lambda>(rpHash, respBuf).
                sbind (lift (Extend ossl (Concatenate [TPMT_HA_digest (tp_AuditCpHash t), rpHash])
                         (tp_CommandAuditHash t))) (\<lambda>h.
                sseq (modifyS (\<lambda>t. t\<lparr>tp_CommandAuditHash := h\<rparr>)) (ret respBuf))))
              else ret respBuf) (\<lambda>respBuf.
       sbind (DoParmEncryption ossl (resp_encInfo m resp) respBuf respParamsPos False) (\<lambda>respBuf.
       sbind (lift (on_buf (sseq (set_curPos respParamsPos) (resp_read m resp)) respBuf))
         (\<lambda>(resp, respBuf).
       if tb_pos respBuf \<noteq> respParamsPos + respParamsSize
       then throw (runtime_error ''Bad response parameters area'')
       else sbind (UpdateRespHandle ossl cmdCode resp) (\<lambda>resp.
         sseq clear_Sessions (ret (True, resp)))))))))"

definition DispatchIn ::
  "Openssl \<Rightarrow> 'd TpmDevice \<Rightarrow> (TPM_HANDLE, 'r) RespStructure \<Rightarrow> TPM_CC \<Rightarrow> 'r RespObj \<Rightarrow>
   ('d, bool \<times> 'r RespObj) tp" where
  "DispatchIn ossl dev m cmdCode resp = sbind getS (\<lambda>t.
     if tp_PendingCommand t = 0
     then throw (runtime_error ''Async command completion with no outstanding command'')
     else if tp_PendingCommand t \<noteq> cmdCode
     then throw (runtime_error ''Async command completion does not match command being processed'')
     else if tp_AuditCommand t \<and> TPMT_HA_hashAlg (tp_CommandAuditHash t) = TPM_ALG_ID_NULL
     then throw (runtime_error ''Command audit is not enabled'')
     else sseq (modifyS (\<lambda>t. t\<lparr>tp_PendingCommand := 0\<rparr>))
       (sbind (on_device (dev_GetResponse dev)) (\<lambda>rawRespBuf.
       if length rawRespBuf < 10
       then throw (runtime_error (''Too short TPM response of '' @ to_string (length rawRespBuf) @ '' B reveived''))
       else sseq (modifyS (\<lambda>t. if tp_responseCallback t
              then t\<lparr>tp_callbackLog := tp_callbackLog t @ [(tp_LastCommandBuf t, rawRespBuf)]\<rparr> else t))
       (sbind (lift (on_buf (sbind readShort (\<lambda>respTag. sbind readInt (\<lambda>respSize.
            sbind readInt (\<lambda>respCode. ret (respTag, respSize, respCode))))) (TpmBuffer_of rawRespBuf)))
         (\<lambda>((respTag, respSize, respCode), respBuf).
       if unat respSize \<noteq> length rawRespBuf
       then throw (runtime_error (''Inconsistent TPM response buffer: '' @ to_string (unat respSize) @
         '' B reported, '' @ to_string (length rawRespBuf) @ '' B received''))
       else if respCode = TPM_RC_RETRY then ret (False, resp)
       else sseq (modifyS (\<lambda>t. t\<lparr>tp_LastResponseCode := ResponseCodeFromTpmError respCode\<rparr>))
       (sseq (if respCode = TPM_RC_SUCCESS then CompleteUpdateRequestHandles cmdCode else ret ())
       (sbind getS (\<lambda>t.
       let errMsg = error_message t cmdCode respCode; auditCommand = tp_AuditCommand t in
       sseq ClearInvocationState
       (if errMsg \<noteq> ''''
        then sseq clear_Sessions (throw (system_error (tp_LastResponseCode t) errMsg))
        else if tp_LastResponseCode t \<noteq> TPM_RC_SUCCESS
        then sseq clear_Sessions (ret (True, resp))
        else complete_command ossl m cmdCode auditCommand respTag resp respBuf)))))))))"

section \<open>A whole command\<close>

text \<open>
  The loop goes on while the TPM answers \<open>TPM_RC_RETRY\<close>: \<open>None\<close> is that it never ends. The response
  object is the same in every round, the request as the last round left it.
\<close>

partial_function (option) Dispatch_loop ::
  "Openssl \<Rightarrow> 'd TpmDevice \<Rightarrow> (TPM_HANDLE, 'r) RespStructure \<Rightarrow> TPM_CC \<Rightarrow> ReqObj \<Rightarrow> 'r RespObj \<Rightarrow>
   'd Tpm2 \<Rightarrow> ('r RespObj outcome \<times> 'd Tpm2) option" where
  "Dispatch_loop ossl dev m cmdCode req resp t =
     (case DispatchOut ossl dev cmdCode req t of
        (Ok (processPhaseTwo, req), t) \<Rightarrow>
          (if \<not> processPhaseTwo then Some (Ok resp, t)
           else case DispatchIn ossl dev m cmdCode resp t of
             (Ok (done, resp), t) \<Rightarrow>
               (if done then Some (Ok resp, t) else Dispatch_loop ossl dev m cmdCode req resp t)
           | (Throw e, t) \<Rightarrow> Some (Throw e, t)
           | (AssertFailed, t) \<Rightarrow> Some (AssertFailed, t)
           | (Undef, t) \<Rightarrow> Some (Undef, t))
      | (Throw e, t) \<Rightarrow> Some (Throw e, t)
      | (AssertFailed, t) \<Rightarrow> Some (AssertFailed, t)
      | (Undef, t) \<Rightarrow> Some (Undef, t))"

definition Dispatch ::
  "Openssl \<Rightarrow> 'd TpmDevice \<Rightarrow> (TPM_HANDLE, 'r) RespStructure \<Rightarrow> TPM_CC \<Rightarrow> ReqObj \<Rightarrow> 'r RespObj \<Rightarrow>
   'd Tpm2 \<Rightarrow> ('r RespObj outcome \<times> 'd Tpm2) option" where
  "Dispatch ossl dev m cmdCode req resp = Dispatch_loop ossl dev m cmdCode req resp"

end
