(* ===== verification/TpmPolicyCommands.thy ===== *)
theory TpmPolicyCommands
  imports TpmNvTypes
begin

text \<open>
  \<^verbatim>\<open>TSS.CPP/include/TpmTypes.h\<close> and \<^verbatim>\<open>TSS.CPP/Src/TpmTypes.cpp\<close>: the parameter
  structures of commands and responses, enhanced authorization.

  As for the other structures, each class has its record, default, \<open>toTpm\<close>, \<open>initFromTpm\<close>, wire
  format and codec; the handles are members that are not marshaled, so the values the format can
  carry have null handles. \<open>X_req\<close> and \<open>X_resp\<close> collect what the dispatcher sees.
\<close>

subsection \<open>TPM2_PolicySigned_REQUEST\<close>

text \<open>This command includes a signed authorization in a policy.\<close>

record TPM2_PolicySigned_REQUEST =
  TPM2_PolicySigned_REQUEST_authObject :: "TPM_HANDLE"
  TPM2_PolicySigned_REQUEST_policySession :: "TPM_HANDLE"
  TPM2_PolicySigned_REQUEST_nonceTPM :: "ByteVec"
  TPM2_PolicySigned_REQUEST_cpHashA :: "ByteVec"
  TPM2_PolicySigned_REQUEST_policyRef :: "ByteVec"
  TPM2_PolicySigned_REQUEST_expiration :: "UINT32"
  TPM2_PolicySigned_REQUEST_auth :: "TPMU_SIGNATURE option"

definition TPM2_PolicySigned_REQUEST_default :: TPM2_PolicySigned_REQUEST where
  "TPM2_PolicySigned_REQUEST_default = \<lparr>TPM2_PolicySigned_REQUEST_authObject = TPM_HANDLE_default, TPM2_PolicySigned_REQUEST_policySession = TPM_HANDLE_default, TPM2_PolicySigned_REQUEST_nonceTPM = [], TPM2_PolicySigned_REQUEST_cpHashA = [], TPM2_PolicySigned_REQUEST_policyRef = [], TPM2_PolicySigned_REQUEST_expiration = 0, TPM2_PolicySigned_REQUEST_auth = None\<rparr>"

definition TPM2_PolicySigned_REQUEST_toTpm :: "TPM2_PolicySigned_REQUEST \<Rightarrow> unit tpm" where
  "TPM2_PolicySigned_REQUEST_toTpm self =
     wseq [writeSizedByteBuf (TPM2_PolicySigned_REQUEST_nonceTPM self) 2,
       writeSizedByteBuf (TPM2_PolicySigned_REQUEST_cpHashA self) 2,
       writeSizedByteBuf (TPM2_PolicySigned_REQUEST_policyRef self) 2,
       writeInt (TPM2_PolicySigned_REQUEST_expiration self),
       deref (TPM2_PolicySigned_REQUEST_auth self) (\<lambda>u. writeShort (TPMU_SIGNATURE_GetUnionSelector u)),
       deref (TPM2_PolicySigned_REQUEST_auth self) TPMU_SIGNATURE_toTpm]"

definition TPM2_PolicySigned_REQUEST_initFromTpm :: "TPM2_PolicySigned_REQUEST \<Rightarrow> TPM2_PolicySigned_REQUEST tpm" where
  "TPM2_PolicySigned_REQUEST_initFromTpm self =
     sbind (readSizedByteBuf 2) (\<lambda>nonceTPM.
     sbind (readSizedByteBuf 2) (\<lambda>cpHashA.
     sbind (readSizedByteBuf 2) (\<lambda>policyRef.
     sbind readInt (\<lambda>expiration.
     sbind readShort (\<lambda>authSigAlg.
     bindO (UnionFactory_Create_TPMU_SIGNATURE authSigAlg) (\<lambda>auth.
     sbind (deref auth TPMU_SIGNATURE_initFromTpm) (\<lambda>auth.
     ret (self\<lparr>TPM2_PolicySigned_REQUEST_nonceTPM := nonceTPM, TPM2_PolicySigned_REQUEST_cpHashA := cpHashA, TPM2_PolicySigned_REQUEST_policyRef := policyRef, TPM2_PolicySigned_REQUEST_expiration := expiration, TPM2_PolicySigned_REQUEST_auth := Some auth\<rparr>))))))))"

definition TPM2_PolicySigned_REQUEST_enc :: "TPM2_PolicySigned_REQUEST \<Rightarrow> ByteVec" where
  "TPM2_PolicySigned_REQUEST_enc x =
     enc_sized 2 (TPM2_PolicySigned_REQUEST_nonceTPM x) @
     enc_sized 2 (TPM2_PolicySigned_REQUEST_cpHashA x) @
     enc_sized 2 (TPM2_PolicySigned_REQUEST_policyRef x) @
     enc32 (TPM2_PolicySigned_REQUEST_expiration x) @
     opt_enc (\<lambda>u. enc16 (TPMU_SIGNATURE_GetUnionSelector u)) (TPM2_PolicySigned_REQUEST_auth x) @
     opt_enc TPMU_SIGNATURE_enc (TPM2_PolicySigned_REQUEST_auth x)"

definition TPM2_PolicySigned_REQUEST_valid :: "TPM2_PolicySigned_REQUEST \<Rightarrow> bool" where
  "TPM2_PolicySigned_REQUEST_valid x \<longleftrightarrow>
     sized_ok 2 (TPM2_PolicySigned_REQUEST_nonceTPM x) \<and>
     sized_ok 2 (TPM2_PolicySigned_REQUEST_cpHashA x) \<and>
     sized_ok 2 (TPM2_PolicySigned_REQUEST_policyRef x) \<and>
     opt_ok TPMU_SIGNATURE_valid (TPM2_PolicySigned_REQUEST_auth x) \<and>
     TPM2_PolicySigned_REQUEST_authObject x = TPM_HANDLE_default \<and>
     TPM2_PolicySigned_REQUEST_policySession x = TPM_HANDLE_default"

lemma TPM2_PolicySigned_REQUEST_writes [writes_intros]:
  "TPM2_PolicySigned_REQUEST_valid x \<Longrightarrow> writes (TPM2_PolicySigned_REQUEST_toTpm x) (TPM2_PolicySigned_REQUEST_enc x)"
  unfolding TPM2_PolicySigned_REQUEST_toTpm_def TPM2_PolicySigned_REQUEST_enc_def
  by (intro writes_intros; simp add: TPM2_PolicySigned_REQUEST_valid_def opt_ok_iff)

lemma TPM2_PolicySigned_REQUEST_reads:
  "TPM2_PolicySigned_REQUEST_valid x \<Longrightarrow> reads (TPM2_PolicySigned_REQUEST_initFromTpm TPM2_PolicySigned_REQUEST_default) x (TPM2_PolicySigned_REQUEST_enc x)"
  by (simp only: TPM2_PolicySigned_REQUEST_initFromTpm_def TPM2_PolicySigned_REQUEST_enc_def TPM2_PolicySigned_REQUEST_default_def
        TPM2_PolicySigned_REQUEST.select_convs TPM2_PolicySigned_REQUEST.update_convs;
      intro reads_intros; (rule TPM2_PolicySigned_REQUEST.equality)?; simp add: TPM2_PolicySigned_REQUEST_valid_def opt_ok_iff)

interpretation TPM2_PolicySigned_REQUEST_codec:
  tpm_codec TPM2_PolicySigned_REQUEST_toTpm TPM2_PolicySigned_REQUEST_initFromTpm TPM2_PolicySigned_REQUEST_default
    TPM2_PolicySigned_REQUEST_enc TPM2_PolicySigned_REQUEST_valid
  by unfold_locales (erule TPM2_PolicySigned_REQUEST_writes TPM2_PolicySigned_REQUEST_reads | simp add: TPM2_PolicySigned_REQUEST_enc_def)+

definition TPM2_PolicySigned_REQUEST_req :: "TPM2_PolicySigned_REQUEST \<Rightarrow> TPM_HANDLE ReqStructure" where
  "TPM2_PolicySigned_REQUEST_req self =
     \<lparr>req_toTpm = TPM2_PolicySigned_REQUEST_toTpm self, req_numHandles = 2,
     req_numAuthHandles = 0, req_getHandles = [TPM2_PolicySigned_REQUEST_authObject self, TPM2_PolicySigned_REQUEST_policySession self], req_sessEncInfo = \<lparr>sizeLen = 2, valLen = 1\<rparr>\<rparr>"

subsection \<open>PolicySignedResponse\<close>

text \<open>This command includes a signed authorization in a policy.\<close>

record PolicySignedResponse =
  PolicySignedResponse_timeout :: "ByteVec"
  PolicySignedResponse_policyTicket :: "TPMT_TK_AUTH"

definition PolicySignedResponse_default :: PolicySignedResponse where
  "PolicySignedResponse_default = \<lparr>PolicySignedResponse_timeout = [], PolicySignedResponse_policyTicket = TPMT_TK_AUTH_default\<rparr>"

definition PolicySignedResponse_toTpm :: "PolicySignedResponse \<Rightarrow> unit tpm" where
  "PolicySignedResponse_toTpm self =
     wseq [writeSizedByteBuf (PolicySignedResponse_timeout self) 2,
       TPMT_TK_AUTH_toTpm (PolicySignedResponse_policyTicket self)]"

definition PolicySignedResponse_initFromTpm :: "PolicySignedResponse \<Rightarrow> PolicySignedResponse tpm" where
  "PolicySignedResponse_initFromTpm self =
     sbind (readSizedByteBuf 2) (\<lambda>timeout.
     sbind (TPMT_TK_AUTH_initFromTpm (PolicySignedResponse_policyTicket self)) (\<lambda>policyTicket.
     ret (self\<lparr>PolicySignedResponse_timeout := timeout, PolicySignedResponse_policyTicket := policyTicket\<rparr>)))"

definition PolicySignedResponse_enc :: "PolicySignedResponse \<Rightarrow> ByteVec" where
  "PolicySignedResponse_enc x =
     enc_sized 2 (PolicySignedResponse_timeout x) @
     TPMT_TK_AUTH_enc (PolicySignedResponse_policyTicket x)"

definition PolicySignedResponse_valid :: "PolicySignedResponse \<Rightarrow> bool" where
  "PolicySignedResponse_valid x \<longleftrightarrow>
     sized_ok 2 (PolicySignedResponse_timeout x) \<and>
     TPMT_TK_AUTH_valid (PolicySignedResponse_policyTicket x)"

lemma PolicySignedResponse_writes [writes_intros]:
  "PolicySignedResponse_valid x \<Longrightarrow> writes (PolicySignedResponse_toTpm x) (PolicySignedResponse_enc x)"
  unfolding PolicySignedResponse_toTpm_def PolicySignedResponse_enc_def
  by (intro writes_intros; simp add: PolicySignedResponse_valid_def opt_ok_iff)

lemma PolicySignedResponse_reads:
  "PolicySignedResponse_valid x \<Longrightarrow> reads (PolicySignedResponse_initFromTpm PolicySignedResponse_default) x (PolicySignedResponse_enc x)"
  by (simp only: PolicySignedResponse_initFromTpm_def PolicySignedResponse_enc_def PolicySignedResponse_default_def
        PolicySignedResponse.select_convs PolicySignedResponse.update_convs;
      intro reads_intros; (rule PolicySignedResponse.equality)?; simp add: PolicySignedResponse_valid_def opt_ok_iff)

interpretation PolicySignedResponse_codec:
  tpm_codec PolicySignedResponse_toTpm PolicySignedResponse_initFromTpm PolicySignedResponse_default
    PolicySignedResponse_enc PolicySignedResponse_valid
  by unfold_locales (erule PolicySignedResponse_writes PolicySignedResponse_reads | simp add: PolicySignedResponse_enc_def)+

definition PolicySignedResponse_resp :: "(TPM_HANDLE, PolicySignedResponse) RespStructure" where
  "PolicySignedResponse_resp = \<lparr>resp_default = PolicySignedResponse_default, resp_initFromTpm = PolicySignedResponse_initFromTpm,
     resp_numHandles = 0, resp_getHandle = (\<lambda>_. TPM_HANDLE_default),
     resp_setHandle = (\<lambda>_ self. self), resp_sessEncInfo = \<lparr>sizeLen = 2, valLen = 1\<rparr>\<rparr>"

subsection \<open>TPM2_PolicySecret_REQUEST\<close>

text \<open>This command includes a secret-based authorization to a policy.\<close>

record TPM2_PolicySecret_REQUEST =
  TPM2_PolicySecret_REQUEST_authHandle :: "TPM_HANDLE"
  TPM2_PolicySecret_REQUEST_policySession :: "TPM_HANDLE"
  TPM2_PolicySecret_REQUEST_nonceTPM :: "ByteVec"
  TPM2_PolicySecret_REQUEST_cpHashA :: "ByteVec"
  TPM2_PolicySecret_REQUEST_policyRef :: "ByteVec"
  TPM2_PolicySecret_REQUEST_expiration :: "UINT32"

definition TPM2_PolicySecret_REQUEST_default :: TPM2_PolicySecret_REQUEST where
  "TPM2_PolicySecret_REQUEST_default = \<lparr>TPM2_PolicySecret_REQUEST_authHandle = TPM_HANDLE_default, TPM2_PolicySecret_REQUEST_policySession = TPM_HANDLE_default, TPM2_PolicySecret_REQUEST_nonceTPM = [], TPM2_PolicySecret_REQUEST_cpHashA = [], TPM2_PolicySecret_REQUEST_policyRef = [], TPM2_PolicySecret_REQUEST_expiration = 0\<rparr>"

definition TPM2_PolicySecret_REQUEST_toTpm :: "TPM2_PolicySecret_REQUEST \<Rightarrow> unit tpm" where
  "TPM2_PolicySecret_REQUEST_toTpm self =
     wseq [writeSizedByteBuf (TPM2_PolicySecret_REQUEST_nonceTPM self) 2,
       writeSizedByteBuf (TPM2_PolicySecret_REQUEST_cpHashA self) 2,
       writeSizedByteBuf (TPM2_PolicySecret_REQUEST_policyRef self) 2,
       writeInt (TPM2_PolicySecret_REQUEST_expiration self)]"

definition TPM2_PolicySecret_REQUEST_initFromTpm :: "TPM2_PolicySecret_REQUEST \<Rightarrow> TPM2_PolicySecret_REQUEST tpm" where
  "TPM2_PolicySecret_REQUEST_initFromTpm self =
     sbind (readSizedByteBuf 2) (\<lambda>nonceTPM.
     sbind (readSizedByteBuf 2) (\<lambda>cpHashA.
     sbind (readSizedByteBuf 2) (\<lambda>policyRef.
     sbind readInt (\<lambda>expiration.
     ret (self\<lparr>TPM2_PolicySecret_REQUEST_nonceTPM := nonceTPM, TPM2_PolicySecret_REQUEST_cpHashA := cpHashA, TPM2_PolicySecret_REQUEST_policyRef := policyRef, TPM2_PolicySecret_REQUEST_expiration := expiration\<rparr>)))))"

definition TPM2_PolicySecret_REQUEST_enc :: "TPM2_PolicySecret_REQUEST \<Rightarrow> ByteVec" where
  "TPM2_PolicySecret_REQUEST_enc x =
     enc_sized 2 (TPM2_PolicySecret_REQUEST_nonceTPM x) @
     enc_sized 2 (TPM2_PolicySecret_REQUEST_cpHashA x) @
     enc_sized 2 (TPM2_PolicySecret_REQUEST_policyRef x) @
     enc32 (TPM2_PolicySecret_REQUEST_expiration x)"

definition TPM2_PolicySecret_REQUEST_valid :: "TPM2_PolicySecret_REQUEST \<Rightarrow> bool" where
  "TPM2_PolicySecret_REQUEST_valid x \<longleftrightarrow>
     sized_ok 2 (TPM2_PolicySecret_REQUEST_nonceTPM x) \<and>
     sized_ok 2 (TPM2_PolicySecret_REQUEST_cpHashA x) \<and>
     sized_ok 2 (TPM2_PolicySecret_REQUEST_policyRef x) \<and>
     TPM2_PolicySecret_REQUEST_authHandle x = TPM_HANDLE_default \<and>
     TPM2_PolicySecret_REQUEST_policySession x = TPM_HANDLE_default"

lemma TPM2_PolicySecret_REQUEST_writes [writes_intros]:
  "TPM2_PolicySecret_REQUEST_valid x \<Longrightarrow> writes (TPM2_PolicySecret_REQUEST_toTpm x) (TPM2_PolicySecret_REQUEST_enc x)"
  unfolding TPM2_PolicySecret_REQUEST_toTpm_def TPM2_PolicySecret_REQUEST_enc_def
  by (intro writes_intros; simp add: TPM2_PolicySecret_REQUEST_valid_def opt_ok_iff)

lemma TPM2_PolicySecret_REQUEST_reads:
  "TPM2_PolicySecret_REQUEST_valid x \<Longrightarrow> reads (TPM2_PolicySecret_REQUEST_initFromTpm TPM2_PolicySecret_REQUEST_default) x (TPM2_PolicySecret_REQUEST_enc x)"
  by (simp only: TPM2_PolicySecret_REQUEST_initFromTpm_def TPM2_PolicySecret_REQUEST_enc_def TPM2_PolicySecret_REQUEST_default_def
        TPM2_PolicySecret_REQUEST.select_convs TPM2_PolicySecret_REQUEST.update_convs;
      intro reads_intros; (rule TPM2_PolicySecret_REQUEST.equality)?; simp add: TPM2_PolicySecret_REQUEST_valid_def opt_ok_iff)

interpretation TPM2_PolicySecret_REQUEST_codec:
  tpm_codec TPM2_PolicySecret_REQUEST_toTpm TPM2_PolicySecret_REQUEST_initFromTpm TPM2_PolicySecret_REQUEST_default
    TPM2_PolicySecret_REQUEST_enc TPM2_PolicySecret_REQUEST_valid
  by unfold_locales (erule TPM2_PolicySecret_REQUEST_writes TPM2_PolicySecret_REQUEST_reads | simp add: TPM2_PolicySecret_REQUEST_enc_def)+

definition TPM2_PolicySecret_REQUEST_req :: "TPM2_PolicySecret_REQUEST \<Rightarrow> TPM_HANDLE ReqStructure" where
  "TPM2_PolicySecret_REQUEST_req self =
     \<lparr>req_toTpm = TPM2_PolicySecret_REQUEST_toTpm self, req_numHandles = 2,
     req_numAuthHandles = 1, req_getHandles = [TPM2_PolicySecret_REQUEST_authHandle self, TPM2_PolicySecret_REQUEST_policySession self], req_sessEncInfo = \<lparr>sizeLen = 2, valLen = 1\<rparr>\<rparr>"

subsection \<open>PolicySecretResponse\<close>

text \<open>This command includes a secret-based authorization to a policy.\<close>

record PolicySecretResponse =
  PolicySecretResponse_timeout :: "ByteVec"
  PolicySecretResponse_policyTicket :: "TPMT_TK_AUTH"

definition PolicySecretResponse_default :: PolicySecretResponse where
  "PolicySecretResponse_default = \<lparr>PolicySecretResponse_timeout = [], PolicySecretResponse_policyTicket = TPMT_TK_AUTH_default\<rparr>"

definition PolicySecretResponse_toTpm :: "PolicySecretResponse \<Rightarrow> unit tpm" where
  "PolicySecretResponse_toTpm self =
     wseq [writeSizedByteBuf (PolicySecretResponse_timeout self) 2,
       TPMT_TK_AUTH_toTpm (PolicySecretResponse_policyTicket self)]"

definition PolicySecretResponse_initFromTpm :: "PolicySecretResponse \<Rightarrow> PolicySecretResponse tpm" where
  "PolicySecretResponse_initFromTpm self =
     sbind (readSizedByteBuf 2) (\<lambda>timeout.
     sbind (TPMT_TK_AUTH_initFromTpm (PolicySecretResponse_policyTicket self)) (\<lambda>policyTicket.
     ret (self\<lparr>PolicySecretResponse_timeout := timeout, PolicySecretResponse_policyTicket := policyTicket\<rparr>)))"

definition PolicySecretResponse_enc :: "PolicySecretResponse \<Rightarrow> ByteVec" where
  "PolicySecretResponse_enc x =
     enc_sized 2 (PolicySecretResponse_timeout x) @
     TPMT_TK_AUTH_enc (PolicySecretResponse_policyTicket x)"

definition PolicySecretResponse_valid :: "PolicySecretResponse \<Rightarrow> bool" where
  "PolicySecretResponse_valid x \<longleftrightarrow>
     sized_ok 2 (PolicySecretResponse_timeout x) \<and>
     TPMT_TK_AUTH_valid (PolicySecretResponse_policyTicket x)"

lemma PolicySecretResponse_writes [writes_intros]:
  "PolicySecretResponse_valid x \<Longrightarrow> writes (PolicySecretResponse_toTpm x) (PolicySecretResponse_enc x)"
  unfolding PolicySecretResponse_toTpm_def PolicySecretResponse_enc_def
  by (intro writes_intros; simp add: PolicySecretResponse_valid_def opt_ok_iff)

lemma PolicySecretResponse_reads:
  "PolicySecretResponse_valid x \<Longrightarrow> reads (PolicySecretResponse_initFromTpm PolicySecretResponse_default) x (PolicySecretResponse_enc x)"
  by (simp only: PolicySecretResponse_initFromTpm_def PolicySecretResponse_enc_def PolicySecretResponse_default_def
        PolicySecretResponse.select_convs PolicySecretResponse.update_convs;
      intro reads_intros; (rule PolicySecretResponse.equality)?; simp add: PolicySecretResponse_valid_def opt_ok_iff)

interpretation PolicySecretResponse_codec:
  tpm_codec PolicySecretResponse_toTpm PolicySecretResponse_initFromTpm PolicySecretResponse_default
    PolicySecretResponse_enc PolicySecretResponse_valid
  by unfold_locales (erule PolicySecretResponse_writes PolicySecretResponse_reads | simp add: PolicySecretResponse_enc_def)+

definition PolicySecretResponse_resp :: "(TPM_HANDLE, PolicySecretResponse) RespStructure" where
  "PolicySecretResponse_resp = \<lparr>resp_default = PolicySecretResponse_default, resp_initFromTpm = PolicySecretResponse_initFromTpm,
     resp_numHandles = 0, resp_getHandle = (\<lambda>_. TPM_HANDLE_default),
     resp_setHandle = (\<lambda>_ self. self), resp_sessEncInfo = \<lparr>sizeLen = 2, valLen = 1\<rparr>\<rparr>"

subsection \<open>TPM2_PolicyTicket_REQUEST\<close>

text \<open>This command is similar to TPM2_PolicySigned() except that it takes a ticket instead of a signed authorization.\<close>

record TPM2_PolicyTicket_REQUEST =
  TPM2_PolicyTicket_REQUEST_policySession :: "TPM_HANDLE"
  TPM2_PolicyTicket_REQUEST_timeout :: "ByteVec"
  TPM2_PolicyTicket_REQUEST_cpHashA :: "ByteVec"
  TPM2_PolicyTicket_REQUEST_policyRef :: "ByteVec"
  TPM2_PolicyTicket_REQUEST_authName :: "ByteVec"
  TPM2_PolicyTicket_REQUEST_ticket :: "TPMT_TK_AUTH"

definition TPM2_PolicyTicket_REQUEST_default :: TPM2_PolicyTicket_REQUEST where
  "TPM2_PolicyTicket_REQUEST_default = \<lparr>TPM2_PolicyTicket_REQUEST_policySession = TPM_HANDLE_default, TPM2_PolicyTicket_REQUEST_timeout = [], TPM2_PolicyTicket_REQUEST_cpHashA = [], TPM2_PolicyTicket_REQUEST_policyRef = [], TPM2_PolicyTicket_REQUEST_authName = [], TPM2_PolicyTicket_REQUEST_ticket = TPMT_TK_AUTH_default\<rparr>"

definition TPM2_PolicyTicket_REQUEST_toTpm :: "TPM2_PolicyTicket_REQUEST \<Rightarrow> unit tpm" where
  "TPM2_PolicyTicket_REQUEST_toTpm self =
     wseq [writeSizedByteBuf (TPM2_PolicyTicket_REQUEST_timeout self) 2,
       writeSizedByteBuf (TPM2_PolicyTicket_REQUEST_cpHashA self) 2,
       writeSizedByteBuf (TPM2_PolicyTicket_REQUEST_policyRef self) 2,
       writeSizedByteBuf (TPM2_PolicyTicket_REQUEST_authName self) 2,
       TPMT_TK_AUTH_toTpm (TPM2_PolicyTicket_REQUEST_ticket self)]"

definition TPM2_PolicyTicket_REQUEST_initFromTpm :: "TPM2_PolicyTicket_REQUEST \<Rightarrow> TPM2_PolicyTicket_REQUEST tpm" where
  "TPM2_PolicyTicket_REQUEST_initFromTpm self =
     sbind (readSizedByteBuf 2) (\<lambda>timeout.
     sbind (readSizedByteBuf 2) (\<lambda>cpHashA.
     sbind (readSizedByteBuf 2) (\<lambda>policyRef.
     sbind (readSizedByteBuf 2) (\<lambda>authName.
     sbind (TPMT_TK_AUTH_initFromTpm (TPM2_PolicyTicket_REQUEST_ticket self)) (\<lambda>ticket.
     ret (self\<lparr>TPM2_PolicyTicket_REQUEST_timeout := timeout, TPM2_PolicyTicket_REQUEST_cpHashA := cpHashA, TPM2_PolicyTicket_REQUEST_policyRef := policyRef, TPM2_PolicyTicket_REQUEST_authName := authName, TPM2_PolicyTicket_REQUEST_ticket := ticket\<rparr>))))))"

definition TPM2_PolicyTicket_REQUEST_enc :: "TPM2_PolicyTicket_REQUEST \<Rightarrow> ByteVec" where
  "TPM2_PolicyTicket_REQUEST_enc x =
     enc_sized 2 (TPM2_PolicyTicket_REQUEST_timeout x) @
     enc_sized 2 (TPM2_PolicyTicket_REQUEST_cpHashA x) @
     enc_sized 2 (TPM2_PolicyTicket_REQUEST_policyRef x) @
     enc_sized 2 (TPM2_PolicyTicket_REQUEST_authName x) @
     TPMT_TK_AUTH_enc (TPM2_PolicyTicket_REQUEST_ticket x)"

definition TPM2_PolicyTicket_REQUEST_valid :: "TPM2_PolicyTicket_REQUEST \<Rightarrow> bool" where
  "TPM2_PolicyTicket_REQUEST_valid x \<longleftrightarrow>
     sized_ok 2 (TPM2_PolicyTicket_REQUEST_timeout x) \<and>
     sized_ok 2 (TPM2_PolicyTicket_REQUEST_cpHashA x) \<and>
     sized_ok 2 (TPM2_PolicyTicket_REQUEST_policyRef x) \<and>
     sized_ok 2 (TPM2_PolicyTicket_REQUEST_authName x) \<and>
     TPMT_TK_AUTH_valid (TPM2_PolicyTicket_REQUEST_ticket x) \<and>
     TPM2_PolicyTicket_REQUEST_policySession x = TPM_HANDLE_default"

lemma TPM2_PolicyTicket_REQUEST_writes [writes_intros]:
  "TPM2_PolicyTicket_REQUEST_valid x \<Longrightarrow> writes (TPM2_PolicyTicket_REQUEST_toTpm x) (TPM2_PolicyTicket_REQUEST_enc x)"
  unfolding TPM2_PolicyTicket_REQUEST_toTpm_def TPM2_PolicyTicket_REQUEST_enc_def
  by (intro writes_intros; simp add: TPM2_PolicyTicket_REQUEST_valid_def opt_ok_iff)

lemma TPM2_PolicyTicket_REQUEST_reads:
  "TPM2_PolicyTicket_REQUEST_valid x \<Longrightarrow> reads (TPM2_PolicyTicket_REQUEST_initFromTpm TPM2_PolicyTicket_REQUEST_default) x (TPM2_PolicyTicket_REQUEST_enc x)"
  by (simp only: TPM2_PolicyTicket_REQUEST_initFromTpm_def TPM2_PolicyTicket_REQUEST_enc_def TPM2_PolicyTicket_REQUEST_default_def
        TPM2_PolicyTicket_REQUEST.select_convs TPM2_PolicyTicket_REQUEST.update_convs;
      intro reads_intros; (rule TPM2_PolicyTicket_REQUEST.equality)?; simp add: TPM2_PolicyTicket_REQUEST_valid_def opt_ok_iff)

interpretation TPM2_PolicyTicket_REQUEST_codec:
  tpm_codec TPM2_PolicyTicket_REQUEST_toTpm TPM2_PolicyTicket_REQUEST_initFromTpm TPM2_PolicyTicket_REQUEST_default
    TPM2_PolicyTicket_REQUEST_enc TPM2_PolicyTicket_REQUEST_valid
  by unfold_locales (erule TPM2_PolicyTicket_REQUEST_writes TPM2_PolicyTicket_REQUEST_reads | simp add: TPM2_PolicyTicket_REQUEST_enc_def)+

definition TPM2_PolicyTicket_REQUEST_req :: "TPM2_PolicyTicket_REQUEST \<Rightarrow> TPM_HANDLE ReqStructure" where
  "TPM2_PolicyTicket_REQUEST_req self =
     \<lparr>req_toTpm = TPM2_PolicyTicket_REQUEST_toTpm self, req_numHandles = 1,
     req_numAuthHandles = 0, req_getHandles = [TPM2_PolicyTicket_REQUEST_policySession self], req_sessEncInfo = \<lparr>sizeLen = 2, valLen = 1\<rparr>\<rparr>"

subsection \<open>TPM2_PolicyOR_REQUEST\<close>

text \<open>This command allows options in authorizations without requiring that the TPM evaluate all of the options.\<close>

record TPM2_PolicyOR_REQUEST =
  TPM2_PolicyOR_REQUEST_policySession :: "TPM_HANDLE"
  TPM2_PolicyOR_REQUEST_pHashList :: "TPM2B_DIGEST list"

definition TPM2_PolicyOR_REQUEST_default :: TPM2_PolicyOR_REQUEST where
  "TPM2_PolicyOR_REQUEST_default = \<lparr>TPM2_PolicyOR_REQUEST_policySession = TPM_HANDLE_default, TPM2_PolicyOR_REQUEST_pHashList = []\<rparr>"

definition TPM2_PolicyOR_REQUEST_toTpm :: "TPM2_PolicyOR_REQUEST \<Rightarrow> unit tpm" where
  "TPM2_PolicyOR_REQUEST_toTpm self =
     wseq [writeObjArr TPM2B_DIGEST_toTpm (TPM2_PolicyOR_REQUEST_pHashList self)]"

definition TPM2_PolicyOR_REQUEST_initFromTpm :: "TPM2_PolicyOR_REQUEST \<Rightarrow> TPM2_PolicyOR_REQUEST tpm" where
  "TPM2_PolicyOR_REQUEST_initFromTpm self =
     sbind (readObjArr TPM2B_DIGEST_initFromTpm TPM2B_DIGEST_default (TPM2_PolicyOR_REQUEST_pHashList self)) (\<lambda>pHashList.
     ret (self\<lparr>TPM2_PolicyOR_REQUEST_pHashList := pHashList\<rparr>))"

definition TPM2_PolicyOR_REQUEST_enc :: "TPM2_PolicyOR_REQUEST \<Rightarrow> ByteVec" where
  "TPM2_PolicyOR_REQUEST_enc x =
     enc_arr TPM2B_DIGEST_enc (TPM2_PolicyOR_REQUEST_pHashList x)"

definition TPM2_PolicyOR_REQUEST_valid :: "TPM2_PolicyOR_REQUEST \<Rightarrow> bool" where
  "TPM2_PolicyOR_REQUEST_valid x \<longleftrightarrow>
     arr_ok TPM2B_DIGEST_valid (TPM2_PolicyOR_REQUEST_pHashList x) \<and>
     TPM2_PolicyOR_REQUEST_policySession x = TPM_HANDLE_default"

lemma TPM2_PolicyOR_REQUEST_writes [writes_intros]:
  "TPM2_PolicyOR_REQUEST_valid x \<Longrightarrow> writes (TPM2_PolicyOR_REQUEST_toTpm x) (TPM2_PolicyOR_REQUEST_enc x)"
  unfolding TPM2_PolicyOR_REQUEST_toTpm_def TPM2_PolicyOR_REQUEST_enc_def
  by (intro writes_intros; simp add: TPM2_PolicyOR_REQUEST_valid_def opt_ok_iff)

lemma TPM2_PolicyOR_REQUEST_reads:
  "TPM2_PolicyOR_REQUEST_valid x \<Longrightarrow> reads (TPM2_PolicyOR_REQUEST_initFromTpm TPM2_PolicyOR_REQUEST_default) x (TPM2_PolicyOR_REQUEST_enc x)"
  by (simp only: TPM2_PolicyOR_REQUEST_initFromTpm_def TPM2_PolicyOR_REQUEST_enc_def TPM2_PolicyOR_REQUEST_default_def
        TPM2_PolicyOR_REQUEST.select_convs TPM2_PolicyOR_REQUEST.update_convs;
      intro reads_intros; (rule TPM2_PolicyOR_REQUEST.equality)?; simp add: TPM2_PolicyOR_REQUEST_valid_def opt_ok_iff)

interpretation TPM2_PolicyOR_REQUEST_codec:
  tpm_codec TPM2_PolicyOR_REQUEST_toTpm TPM2_PolicyOR_REQUEST_initFromTpm TPM2_PolicyOR_REQUEST_default
    TPM2_PolicyOR_REQUEST_enc TPM2_PolicyOR_REQUEST_valid
  by unfold_locales (erule TPM2_PolicyOR_REQUEST_writes TPM2_PolicyOR_REQUEST_reads | simp add: TPM2_PolicyOR_REQUEST_enc_def)+

definition TPM2_PolicyOR_REQUEST_req :: "TPM2_PolicyOR_REQUEST \<Rightarrow> TPM_HANDLE ReqStructure" where
  "TPM2_PolicyOR_REQUEST_req self =
     \<lparr>req_toTpm = TPM2_PolicyOR_REQUEST_toTpm self, req_numHandles = 1,
     req_numAuthHandles = 0, req_getHandles = [TPM2_PolicyOR_REQUEST_policySession self], req_sessEncInfo = \<lparr>sizeLen = 4, valLen = 2\<rparr>\<rparr>"

subsection \<open>TPM2_PolicyPCR_REQUEST\<close>

text \<open>This command is used to cause conditional gating of a policy based on PCR. This command together with TPM2_PolicyOR() allows one group of ....\<close>

record TPM2_PolicyPCR_REQUEST =
  TPM2_PolicyPCR_REQUEST_policySession :: "TPM_HANDLE"
  TPM2_PolicyPCR_REQUEST_pcrDigest :: "ByteVec"
  TPM2_PolicyPCR_REQUEST_pcrs :: "TPMS_PCR_SELECTION list"

definition TPM2_PolicyPCR_REQUEST_default :: TPM2_PolicyPCR_REQUEST where
  "TPM2_PolicyPCR_REQUEST_default = \<lparr>TPM2_PolicyPCR_REQUEST_policySession = TPM_HANDLE_default, TPM2_PolicyPCR_REQUEST_pcrDigest = [], TPM2_PolicyPCR_REQUEST_pcrs = []\<rparr>"

definition TPM2_PolicyPCR_REQUEST_toTpm :: "TPM2_PolicyPCR_REQUEST \<Rightarrow> unit tpm" where
  "TPM2_PolicyPCR_REQUEST_toTpm self =
     wseq [writeSizedByteBuf (TPM2_PolicyPCR_REQUEST_pcrDigest self) 2,
       writeObjArr TPMS_PCR_SELECTION_toTpm (TPM2_PolicyPCR_REQUEST_pcrs self)]"

definition TPM2_PolicyPCR_REQUEST_initFromTpm :: "TPM2_PolicyPCR_REQUEST \<Rightarrow> TPM2_PolicyPCR_REQUEST tpm" where
  "TPM2_PolicyPCR_REQUEST_initFromTpm self =
     sbind (readSizedByteBuf 2) (\<lambda>pcrDigest.
     sbind (readObjArr TPMS_PCR_SELECTION_initFromTpm TPMS_PCR_SELECTION_default (TPM2_PolicyPCR_REQUEST_pcrs self)) (\<lambda>pcrs.
     ret (self\<lparr>TPM2_PolicyPCR_REQUEST_pcrDigest := pcrDigest, TPM2_PolicyPCR_REQUEST_pcrs := pcrs\<rparr>)))"

definition TPM2_PolicyPCR_REQUEST_enc :: "TPM2_PolicyPCR_REQUEST \<Rightarrow> ByteVec" where
  "TPM2_PolicyPCR_REQUEST_enc x =
     enc_sized 2 (TPM2_PolicyPCR_REQUEST_pcrDigest x) @
     enc_arr TPMS_PCR_SELECTION_enc (TPM2_PolicyPCR_REQUEST_pcrs x)"

definition TPM2_PolicyPCR_REQUEST_valid :: "TPM2_PolicyPCR_REQUEST \<Rightarrow> bool" where
  "TPM2_PolicyPCR_REQUEST_valid x \<longleftrightarrow>
     sized_ok 2 (TPM2_PolicyPCR_REQUEST_pcrDigest x) \<and>
     arr_ok TPMS_PCR_SELECTION_valid (TPM2_PolicyPCR_REQUEST_pcrs x) \<and>
     TPM2_PolicyPCR_REQUEST_policySession x = TPM_HANDLE_default"

lemma TPM2_PolicyPCR_REQUEST_writes [writes_intros]:
  "TPM2_PolicyPCR_REQUEST_valid x \<Longrightarrow> writes (TPM2_PolicyPCR_REQUEST_toTpm x) (TPM2_PolicyPCR_REQUEST_enc x)"
  unfolding TPM2_PolicyPCR_REQUEST_toTpm_def TPM2_PolicyPCR_REQUEST_enc_def
  by (intro writes_intros; simp add: TPM2_PolicyPCR_REQUEST_valid_def opt_ok_iff)

lemma TPM2_PolicyPCR_REQUEST_reads:
  "TPM2_PolicyPCR_REQUEST_valid x \<Longrightarrow> reads (TPM2_PolicyPCR_REQUEST_initFromTpm TPM2_PolicyPCR_REQUEST_default) x (TPM2_PolicyPCR_REQUEST_enc x)"
  by (simp only: TPM2_PolicyPCR_REQUEST_initFromTpm_def TPM2_PolicyPCR_REQUEST_enc_def TPM2_PolicyPCR_REQUEST_default_def
        TPM2_PolicyPCR_REQUEST.select_convs TPM2_PolicyPCR_REQUEST.update_convs;
      intro reads_intros; (rule TPM2_PolicyPCR_REQUEST.equality)?; simp add: TPM2_PolicyPCR_REQUEST_valid_def opt_ok_iff)

interpretation TPM2_PolicyPCR_REQUEST_codec:
  tpm_codec TPM2_PolicyPCR_REQUEST_toTpm TPM2_PolicyPCR_REQUEST_initFromTpm TPM2_PolicyPCR_REQUEST_default
    TPM2_PolicyPCR_REQUEST_enc TPM2_PolicyPCR_REQUEST_valid
  by unfold_locales (erule TPM2_PolicyPCR_REQUEST_writes TPM2_PolicyPCR_REQUEST_reads | simp add: TPM2_PolicyPCR_REQUEST_enc_def)+

definition TPM2_PolicyPCR_REQUEST_req :: "TPM2_PolicyPCR_REQUEST \<Rightarrow> TPM_HANDLE ReqStructure" where
  "TPM2_PolicyPCR_REQUEST_req self =
     \<lparr>req_toTpm = TPM2_PolicyPCR_REQUEST_toTpm self, req_numHandles = 1,
     req_numAuthHandles = 0, req_getHandles = [TPM2_PolicyPCR_REQUEST_policySession self], req_sessEncInfo = \<lparr>sizeLen = 2, valLen = 1\<rparr>\<rparr>"

subsection \<open>TPM2_PolicyLocality_REQUEST\<close>

text \<open>This command indicates that the authorization will be limited to a specific locality.\<close>

record TPM2_PolicyLocality_REQUEST =
  TPM2_PolicyLocality_REQUEST_policySession :: "TPM_HANDLE"
  TPM2_PolicyLocality_REQUEST_locality :: "TPMA_LOCALITY"

definition TPM2_PolicyLocality_REQUEST_default :: TPM2_PolicyLocality_REQUEST where
  "TPM2_PolicyLocality_REQUEST_default = \<lparr>TPM2_PolicyLocality_REQUEST_policySession = TPM_HANDLE_default, TPM2_PolicyLocality_REQUEST_locality = 0\<rparr>"

definition TPM2_PolicyLocality_REQUEST_toTpm :: "TPM2_PolicyLocality_REQUEST \<Rightarrow> unit tpm" where
  "TPM2_PolicyLocality_REQUEST_toTpm self =
     wseq [writeByte (TPM2_PolicyLocality_REQUEST_locality self)]"

definition TPM2_PolicyLocality_REQUEST_initFromTpm :: "TPM2_PolicyLocality_REQUEST \<Rightarrow> TPM2_PolicyLocality_REQUEST tpm" where
  "TPM2_PolicyLocality_REQUEST_initFromTpm self =
     sbind readByte (\<lambda>locality.
     ret (self\<lparr>TPM2_PolicyLocality_REQUEST_locality := locality\<rparr>))"

definition TPM2_PolicyLocality_REQUEST_enc :: "TPM2_PolicyLocality_REQUEST \<Rightarrow> ByteVec" where
  "TPM2_PolicyLocality_REQUEST_enc x =
     enc8 (TPM2_PolicyLocality_REQUEST_locality x)"

definition TPM2_PolicyLocality_REQUEST_valid :: "TPM2_PolicyLocality_REQUEST \<Rightarrow> bool" where
  "TPM2_PolicyLocality_REQUEST_valid x \<longleftrightarrow>
     TPM2_PolicyLocality_REQUEST_policySession x = TPM_HANDLE_default"

lemma TPM2_PolicyLocality_REQUEST_writes [writes_intros]:
  "TPM2_PolicyLocality_REQUEST_valid x \<Longrightarrow> writes (TPM2_PolicyLocality_REQUEST_toTpm x) (TPM2_PolicyLocality_REQUEST_enc x)"
  unfolding TPM2_PolicyLocality_REQUEST_toTpm_def TPM2_PolicyLocality_REQUEST_enc_def
  by (intro writes_intros; simp add: TPM2_PolicyLocality_REQUEST_valid_def opt_ok_iff)

lemma TPM2_PolicyLocality_REQUEST_reads:
  "TPM2_PolicyLocality_REQUEST_valid x \<Longrightarrow> reads (TPM2_PolicyLocality_REQUEST_initFromTpm TPM2_PolicyLocality_REQUEST_default) x (TPM2_PolicyLocality_REQUEST_enc x)"
  by (simp only: TPM2_PolicyLocality_REQUEST_initFromTpm_def TPM2_PolicyLocality_REQUEST_enc_def TPM2_PolicyLocality_REQUEST_default_def
        TPM2_PolicyLocality_REQUEST.select_convs TPM2_PolicyLocality_REQUEST.update_convs;
      intro reads_intros; (rule TPM2_PolicyLocality_REQUEST.equality)?; simp add: TPM2_PolicyLocality_REQUEST_valid_def opt_ok_iff)

interpretation TPM2_PolicyLocality_REQUEST_codec:
  tpm_codec TPM2_PolicyLocality_REQUEST_toTpm TPM2_PolicyLocality_REQUEST_initFromTpm TPM2_PolicyLocality_REQUEST_default
    TPM2_PolicyLocality_REQUEST_enc TPM2_PolicyLocality_REQUEST_valid
  by unfold_locales (erule TPM2_PolicyLocality_REQUEST_writes TPM2_PolicyLocality_REQUEST_reads | simp add: TPM2_PolicyLocality_REQUEST_enc_def)+

definition TPM2_PolicyLocality_REQUEST_req :: "TPM2_PolicyLocality_REQUEST \<Rightarrow> TPM_HANDLE ReqStructure" where
  "TPM2_PolicyLocality_REQUEST_req self =
     \<lparr>req_toTpm = TPM2_PolicyLocality_REQUEST_toTpm self, req_numHandles = 1,
     req_numAuthHandles = 0, req_getHandles = [TPM2_PolicyLocality_REQUEST_policySession self], req_sessEncInfo = no_sessEncInfo\<rparr>"

subsection \<open>TPM2_PolicyNV_REQUEST\<close>

text \<open>This command is used to cause conditional gating of a policy based on the contents of an NV Index.\<close>

record TPM2_PolicyNV_REQUEST =
  TPM2_PolicyNV_REQUEST_authHandle :: "TPM_HANDLE"
  TPM2_PolicyNV_REQUEST_nvIndex :: "TPM_HANDLE"
  TPM2_PolicyNV_REQUEST_policySession :: "TPM_HANDLE"
  TPM2_PolicyNV_REQUEST_operandB :: "ByteVec"
  TPM2_PolicyNV_REQUEST_offset :: "UINT16"
  TPM2_PolicyNV_REQUEST_operation :: "TPM_EO"

definition TPM2_PolicyNV_REQUEST_default :: TPM2_PolicyNV_REQUEST where
  "TPM2_PolicyNV_REQUEST_default = \<lparr>TPM2_PolicyNV_REQUEST_authHandle = TPM_HANDLE_default, TPM2_PolicyNV_REQUEST_nvIndex = TPM_HANDLE_default, TPM2_PolicyNV_REQUEST_policySession = TPM_HANDLE_default, TPM2_PolicyNV_REQUEST_operandB = [], TPM2_PolicyNV_REQUEST_offset = 0, TPM2_PolicyNV_REQUEST_operation = 0\<rparr>"

definition TPM2_PolicyNV_REQUEST_toTpm :: "TPM2_PolicyNV_REQUEST \<Rightarrow> unit tpm" where
  "TPM2_PolicyNV_REQUEST_toTpm self =
     wseq [writeSizedByteBuf (TPM2_PolicyNV_REQUEST_operandB self) 2,
       writeShort (TPM2_PolicyNV_REQUEST_offset self),
       writeShort (TPM2_PolicyNV_REQUEST_operation self)]"

definition TPM2_PolicyNV_REQUEST_initFromTpm :: "TPM2_PolicyNV_REQUEST \<Rightarrow> TPM2_PolicyNV_REQUEST tpm" where
  "TPM2_PolicyNV_REQUEST_initFromTpm self =
     sbind (readSizedByteBuf 2) (\<lambda>operandB.
     sbind readShort (\<lambda>offset.
     sbind readShort (\<lambda>operation.
     ret (self\<lparr>TPM2_PolicyNV_REQUEST_operandB := operandB, TPM2_PolicyNV_REQUEST_offset := offset, TPM2_PolicyNV_REQUEST_operation := operation\<rparr>))))"

definition TPM2_PolicyNV_REQUEST_enc :: "TPM2_PolicyNV_REQUEST \<Rightarrow> ByteVec" where
  "TPM2_PolicyNV_REQUEST_enc x =
     enc_sized 2 (TPM2_PolicyNV_REQUEST_operandB x) @
     enc16 (TPM2_PolicyNV_REQUEST_offset x) @
     enc16 (TPM2_PolicyNV_REQUEST_operation x)"

definition TPM2_PolicyNV_REQUEST_valid :: "TPM2_PolicyNV_REQUEST \<Rightarrow> bool" where
  "TPM2_PolicyNV_REQUEST_valid x \<longleftrightarrow>
     sized_ok 2 (TPM2_PolicyNV_REQUEST_operandB x) \<and>
     TPM2_PolicyNV_REQUEST_authHandle x = TPM_HANDLE_default \<and>
     TPM2_PolicyNV_REQUEST_nvIndex x = TPM_HANDLE_default \<and>
     TPM2_PolicyNV_REQUEST_policySession x = TPM_HANDLE_default"

lemma TPM2_PolicyNV_REQUEST_writes [writes_intros]:
  "TPM2_PolicyNV_REQUEST_valid x \<Longrightarrow> writes (TPM2_PolicyNV_REQUEST_toTpm x) (TPM2_PolicyNV_REQUEST_enc x)"
  unfolding TPM2_PolicyNV_REQUEST_toTpm_def TPM2_PolicyNV_REQUEST_enc_def
  by (intro writes_intros; simp add: TPM2_PolicyNV_REQUEST_valid_def opt_ok_iff)

lemma TPM2_PolicyNV_REQUEST_reads:
  "TPM2_PolicyNV_REQUEST_valid x \<Longrightarrow> reads (TPM2_PolicyNV_REQUEST_initFromTpm TPM2_PolicyNV_REQUEST_default) x (TPM2_PolicyNV_REQUEST_enc x)"
  by (simp only: TPM2_PolicyNV_REQUEST_initFromTpm_def TPM2_PolicyNV_REQUEST_enc_def TPM2_PolicyNV_REQUEST_default_def
        TPM2_PolicyNV_REQUEST.select_convs TPM2_PolicyNV_REQUEST.update_convs;
      intro reads_intros; (rule TPM2_PolicyNV_REQUEST.equality)?; simp add: TPM2_PolicyNV_REQUEST_valid_def opt_ok_iff)

interpretation TPM2_PolicyNV_REQUEST_codec:
  tpm_codec TPM2_PolicyNV_REQUEST_toTpm TPM2_PolicyNV_REQUEST_initFromTpm TPM2_PolicyNV_REQUEST_default
    TPM2_PolicyNV_REQUEST_enc TPM2_PolicyNV_REQUEST_valid
  by unfold_locales (erule TPM2_PolicyNV_REQUEST_writes TPM2_PolicyNV_REQUEST_reads | simp add: TPM2_PolicyNV_REQUEST_enc_def)+

definition TPM2_PolicyNV_REQUEST_req :: "TPM2_PolicyNV_REQUEST \<Rightarrow> TPM_HANDLE ReqStructure" where
  "TPM2_PolicyNV_REQUEST_req self =
     \<lparr>req_toTpm = TPM2_PolicyNV_REQUEST_toTpm self, req_numHandles = 3,
     req_numAuthHandles = 1, req_getHandles = [TPM2_PolicyNV_REQUEST_authHandle self, TPM2_PolicyNV_REQUEST_nvIndex self, TPM2_PolicyNV_REQUEST_policySession self], req_sessEncInfo = \<lparr>sizeLen = 2, valLen = 1\<rparr>\<rparr>"

subsection \<open>TPM2_PolicyCounterTimer_REQUEST\<close>

text \<open>This command is used to cause conditional gating of a policy based on the contents of the TPMS_TIME_INFO structure.\<close>

record TPM2_PolicyCounterTimer_REQUEST =
  TPM2_PolicyCounterTimer_REQUEST_policySession :: "TPM_HANDLE"
  TPM2_PolicyCounterTimer_REQUEST_operandB :: "ByteVec"
  TPM2_PolicyCounterTimer_REQUEST_offset :: "UINT16"
  TPM2_PolicyCounterTimer_REQUEST_operation :: "TPM_EO"

definition TPM2_PolicyCounterTimer_REQUEST_default :: TPM2_PolicyCounterTimer_REQUEST where
  "TPM2_PolicyCounterTimer_REQUEST_default = \<lparr>TPM2_PolicyCounterTimer_REQUEST_policySession = TPM_HANDLE_default, TPM2_PolicyCounterTimer_REQUEST_operandB = [], TPM2_PolicyCounterTimer_REQUEST_offset = 0, TPM2_PolicyCounterTimer_REQUEST_operation = 0\<rparr>"

definition TPM2_PolicyCounterTimer_REQUEST_toTpm :: "TPM2_PolicyCounterTimer_REQUEST \<Rightarrow> unit tpm" where
  "TPM2_PolicyCounterTimer_REQUEST_toTpm self =
     wseq [writeSizedByteBuf (TPM2_PolicyCounterTimer_REQUEST_operandB self) 2,
       writeShort (TPM2_PolicyCounterTimer_REQUEST_offset self),
       writeShort (TPM2_PolicyCounterTimer_REQUEST_operation self)]"

definition TPM2_PolicyCounterTimer_REQUEST_initFromTpm :: "TPM2_PolicyCounterTimer_REQUEST \<Rightarrow> TPM2_PolicyCounterTimer_REQUEST tpm" where
  "TPM2_PolicyCounterTimer_REQUEST_initFromTpm self =
     sbind (readSizedByteBuf 2) (\<lambda>operandB.
     sbind readShort (\<lambda>offset.
     sbind readShort (\<lambda>operation.
     ret (self\<lparr>TPM2_PolicyCounterTimer_REQUEST_operandB := operandB, TPM2_PolicyCounterTimer_REQUEST_offset := offset, TPM2_PolicyCounterTimer_REQUEST_operation := operation\<rparr>))))"

definition TPM2_PolicyCounterTimer_REQUEST_enc :: "TPM2_PolicyCounterTimer_REQUEST \<Rightarrow> ByteVec" where
  "TPM2_PolicyCounterTimer_REQUEST_enc x =
     enc_sized 2 (TPM2_PolicyCounterTimer_REQUEST_operandB x) @
     enc16 (TPM2_PolicyCounterTimer_REQUEST_offset x) @
     enc16 (TPM2_PolicyCounterTimer_REQUEST_operation x)"

definition TPM2_PolicyCounterTimer_REQUEST_valid :: "TPM2_PolicyCounterTimer_REQUEST \<Rightarrow> bool" where
  "TPM2_PolicyCounterTimer_REQUEST_valid x \<longleftrightarrow>
     sized_ok 2 (TPM2_PolicyCounterTimer_REQUEST_operandB x) \<and>
     TPM2_PolicyCounterTimer_REQUEST_policySession x = TPM_HANDLE_default"

lemma TPM2_PolicyCounterTimer_REQUEST_writes [writes_intros]:
  "TPM2_PolicyCounterTimer_REQUEST_valid x \<Longrightarrow> writes (TPM2_PolicyCounterTimer_REQUEST_toTpm x) (TPM2_PolicyCounterTimer_REQUEST_enc x)"
  unfolding TPM2_PolicyCounterTimer_REQUEST_toTpm_def TPM2_PolicyCounterTimer_REQUEST_enc_def
  by (intro writes_intros; simp add: TPM2_PolicyCounterTimer_REQUEST_valid_def opt_ok_iff)

lemma TPM2_PolicyCounterTimer_REQUEST_reads:
  "TPM2_PolicyCounterTimer_REQUEST_valid x \<Longrightarrow> reads (TPM2_PolicyCounterTimer_REQUEST_initFromTpm TPM2_PolicyCounterTimer_REQUEST_default) x (TPM2_PolicyCounterTimer_REQUEST_enc x)"
  by (simp only: TPM2_PolicyCounterTimer_REQUEST_initFromTpm_def TPM2_PolicyCounterTimer_REQUEST_enc_def TPM2_PolicyCounterTimer_REQUEST_default_def
        TPM2_PolicyCounterTimer_REQUEST.select_convs TPM2_PolicyCounterTimer_REQUEST.update_convs;
      intro reads_intros; (rule TPM2_PolicyCounterTimer_REQUEST.equality)?; simp add: TPM2_PolicyCounterTimer_REQUEST_valid_def opt_ok_iff)

interpretation TPM2_PolicyCounterTimer_REQUEST_codec:
  tpm_codec TPM2_PolicyCounterTimer_REQUEST_toTpm TPM2_PolicyCounterTimer_REQUEST_initFromTpm TPM2_PolicyCounterTimer_REQUEST_default
    TPM2_PolicyCounterTimer_REQUEST_enc TPM2_PolicyCounterTimer_REQUEST_valid
  by unfold_locales (erule TPM2_PolicyCounterTimer_REQUEST_writes TPM2_PolicyCounterTimer_REQUEST_reads | simp add: TPM2_PolicyCounterTimer_REQUEST_enc_def)+

definition TPM2_PolicyCounterTimer_REQUEST_req :: "TPM2_PolicyCounterTimer_REQUEST \<Rightarrow> TPM_HANDLE ReqStructure" where
  "TPM2_PolicyCounterTimer_REQUEST_req self =
     \<lparr>req_toTpm = TPM2_PolicyCounterTimer_REQUEST_toTpm self, req_numHandles = 1,
     req_numAuthHandles = 0, req_getHandles = [TPM2_PolicyCounterTimer_REQUEST_policySession self], req_sessEncInfo = \<lparr>sizeLen = 2, valLen = 1\<rparr>\<rparr>"

subsection \<open>TPM2_PolicyCommandCode_REQUEST\<close>

text \<open>This command indicates that the authorization will be limited to a specific command code.\<close>

record TPM2_PolicyCommandCode_REQUEST =
  TPM2_PolicyCommandCode_REQUEST_policySession :: "TPM_HANDLE"
  TPM2_PolicyCommandCode_REQUEST_code :: "TPM_CC"

definition TPM2_PolicyCommandCode_REQUEST_default :: TPM2_PolicyCommandCode_REQUEST where
  "TPM2_PolicyCommandCode_REQUEST_default = \<lparr>TPM2_PolicyCommandCode_REQUEST_policySession = TPM_HANDLE_default, TPM2_PolicyCommandCode_REQUEST_code = 0\<rparr>"

definition TPM2_PolicyCommandCode_REQUEST_toTpm :: "TPM2_PolicyCommandCode_REQUEST \<Rightarrow> unit tpm" where
  "TPM2_PolicyCommandCode_REQUEST_toTpm self =
     wseq [writeInt (TPM2_PolicyCommandCode_REQUEST_code self)]"

definition TPM2_PolicyCommandCode_REQUEST_initFromTpm :: "TPM2_PolicyCommandCode_REQUEST \<Rightarrow> TPM2_PolicyCommandCode_REQUEST tpm" where
  "TPM2_PolicyCommandCode_REQUEST_initFromTpm self =
     sbind readInt (\<lambda>code.
     ret (self\<lparr>TPM2_PolicyCommandCode_REQUEST_code := code\<rparr>))"

definition TPM2_PolicyCommandCode_REQUEST_enc :: "TPM2_PolicyCommandCode_REQUEST \<Rightarrow> ByteVec" where
  "TPM2_PolicyCommandCode_REQUEST_enc x =
     enc32 (TPM2_PolicyCommandCode_REQUEST_code x)"

definition TPM2_PolicyCommandCode_REQUEST_valid :: "TPM2_PolicyCommandCode_REQUEST \<Rightarrow> bool" where
  "TPM2_PolicyCommandCode_REQUEST_valid x \<longleftrightarrow>
     TPM2_PolicyCommandCode_REQUEST_policySession x = TPM_HANDLE_default"

lemma TPM2_PolicyCommandCode_REQUEST_writes [writes_intros]:
  "TPM2_PolicyCommandCode_REQUEST_valid x \<Longrightarrow> writes (TPM2_PolicyCommandCode_REQUEST_toTpm x) (TPM2_PolicyCommandCode_REQUEST_enc x)"
  unfolding TPM2_PolicyCommandCode_REQUEST_toTpm_def TPM2_PolicyCommandCode_REQUEST_enc_def
  by (intro writes_intros; simp add: TPM2_PolicyCommandCode_REQUEST_valid_def opt_ok_iff)

lemma TPM2_PolicyCommandCode_REQUEST_reads:
  "TPM2_PolicyCommandCode_REQUEST_valid x \<Longrightarrow> reads (TPM2_PolicyCommandCode_REQUEST_initFromTpm TPM2_PolicyCommandCode_REQUEST_default) x (TPM2_PolicyCommandCode_REQUEST_enc x)"
  by (simp only: TPM2_PolicyCommandCode_REQUEST_initFromTpm_def TPM2_PolicyCommandCode_REQUEST_enc_def TPM2_PolicyCommandCode_REQUEST_default_def
        TPM2_PolicyCommandCode_REQUEST.select_convs TPM2_PolicyCommandCode_REQUEST.update_convs;
      intro reads_intros; (rule TPM2_PolicyCommandCode_REQUEST.equality)?; simp add: TPM2_PolicyCommandCode_REQUEST_valid_def opt_ok_iff)

interpretation TPM2_PolicyCommandCode_REQUEST_codec:
  tpm_codec TPM2_PolicyCommandCode_REQUEST_toTpm TPM2_PolicyCommandCode_REQUEST_initFromTpm TPM2_PolicyCommandCode_REQUEST_default
    TPM2_PolicyCommandCode_REQUEST_enc TPM2_PolicyCommandCode_REQUEST_valid
  by unfold_locales (erule TPM2_PolicyCommandCode_REQUEST_writes TPM2_PolicyCommandCode_REQUEST_reads | simp add: TPM2_PolicyCommandCode_REQUEST_enc_def)+

definition TPM2_PolicyCommandCode_REQUEST_req :: "TPM2_PolicyCommandCode_REQUEST \<Rightarrow> TPM_HANDLE ReqStructure" where
  "TPM2_PolicyCommandCode_REQUEST_req self =
     \<lparr>req_toTpm = TPM2_PolicyCommandCode_REQUEST_toTpm self, req_numHandles = 1,
     req_numAuthHandles = 0, req_getHandles = [TPM2_PolicyCommandCode_REQUEST_policySession self], req_sessEncInfo = no_sessEncInfo\<rparr>"

subsection \<open>TPM2_PolicyPhysicalPresence_REQUEST\<close>

text \<open>This command indicates that physical presence will need to be asserted at the time the authorization is performed.\<close>

record TPM2_PolicyPhysicalPresence_REQUEST =
  TPM2_PolicyPhysicalPresence_REQUEST_policySession :: "TPM_HANDLE"

definition TPM2_PolicyPhysicalPresence_REQUEST_default :: TPM2_PolicyPhysicalPresence_REQUEST where
  "TPM2_PolicyPhysicalPresence_REQUEST_default = \<lparr>TPM2_PolicyPhysicalPresence_REQUEST_policySession = TPM_HANDLE_default\<rparr>"

definition TPM2_PolicyPhysicalPresence_REQUEST_toTpm :: "TPM2_PolicyPhysicalPresence_REQUEST \<Rightarrow> unit tpm" where
  "TPM2_PolicyPhysicalPresence_REQUEST_toTpm self =
     wseq []"

definition TPM2_PolicyPhysicalPresence_REQUEST_initFromTpm :: "TPM2_PolicyPhysicalPresence_REQUEST \<Rightarrow> TPM2_PolicyPhysicalPresence_REQUEST tpm" where
  "TPM2_PolicyPhysicalPresence_REQUEST_initFromTpm self =
     ret self"

definition TPM2_PolicyPhysicalPresence_REQUEST_enc :: "TPM2_PolicyPhysicalPresence_REQUEST \<Rightarrow> ByteVec" where
  "TPM2_PolicyPhysicalPresence_REQUEST_enc x =
     []"

definition TPM2_PolicyPhysicalPresence_REQUEST_valid :: "TPM2_PolicyPhysicalPresence_REQUEST \<Rightarrow> bool" where
  "TPM2_PolicyPhysicalPresence_REQUEST_valid x \<longleftrightarrow>
     TPM2_PolicyPhysicalPresence_REQUEST_policySession x = TPM_HANDLE_default"

lemma TPM2_PolicyPhysicalPresence_REQUEST_writes [writes_intros]:
  "TPM2_PolicyPhysicalPresence_REQUEST_valid x \<Longrightarrow> writes (TPM2_PolicyPhysicalPresence_REQUEST_toTpm x) (TPM2_PolicyPhysicalPresence_REQUEST_enc x)"
  unfolding TPM2_PolicyPhysicalPresence_REQUEST_toTpm_def TPM2_PolicyPhysicalPresence_REQUEST_enc_def
  by (intro writes_intros; simp add: TPM2_PolicyPhysicalPresence_REQUEST_valid_def opt_ok_iff)

lemma TPM2_PolicyPhysicalPresence_REQUEST_reads:
  "TPM2_PolicyPhysicalPresence_REQUEST_valid x \<Longrightarrow> reads (TPM2_PolicyPhysicalPresence_REQUEST_initFromTpm TPM2_PolicyPhysicalPresence_REQUEST_default) x (TPM2_PolicyPhysicalPresence_REQUEST_enc x)"
  by (simp only: TPM2_PolicyPhysicalPresence_REQUEST_initFromTpm_def TPM2_PolicyPhysicalPresence_REQUEST_enc_def TPM2_PolicyPhysicalPresence_REQUEST_default_def
        TPM2_PolicyPhysicalPresence_REQUEST.select_convs TPM2_PolicyPhysicalPresence_REQUEST.update_convs;
      intro reads_intros; (rule TPM2_PolicyPhysicalPresence_REQUEST.equality)?; simp add: TPM2_PolicyPhysicalPresence_REQUEST_valid_def opt_ok_iff)

interpretation TPM2_PolicyPhysicalPresence_REQUEST_codec:
  tpm_codec TPM2_PolicyPhysicalPresence_REQUEST_toTpm TPM2_PolicyPhysicalPresence_REQUEST_initFromTpm TPM2_PolicyPhysicalPresence_REQUEST_default
    TPM2_PolicyPhysicalPresence_REQUEST_enc TPM2_PolicyPhysicalPresence_REQUEST_valid
  by unfold_locales (erule TPM2_PolicyPhysicalPresence_REQUEST_writes TPM2_PolicyPhysicalPresence_REQUEST_reads | simp add: TPM2_PolicyPhysicalPresence_REQUEST_toTpm_def writes_ret)+

definition TPM2_PolicyPhysicalPresence_REQUEST_req :: "TPM2_PolicyPhysicalPresence_REQUEST \<Rightarrow> TPM_HANDLE ReqStructure" where
  "TPM2_PolicyPhysicalPresence_REQUEST_req self =
     \<lparr>req_toTpm = TPM2_PolicyPhysicalPresence_REQUEST_toTpm self, req_numHandles = 1,
     req_numAuthHandles = 0, req_getHandles = [TPM2_PolicyPhysicalPresence_REQUEST_policySession self], req_sessEncInfo = no_sessEncInfo\<rparr>"

subsection \<open>TPM2_PolicyCpHash_REQUEST\<close>

text \<open>This command is used to allow a policy to be bound to a specific command and command parameters.\<close>

record TPM2_PolicyCpHash_REQUEST =
  TPM2_PolicyCpHash_REQUEST_policySession :: "TPM_HANDLE"
  TPM2_PolicyCpHash_REQUEST_cpHashA :: "ByteVec"

definition TPM2_PolicyCpHash_REQUEST_default :: TPM2_PolicyCpHash_REQUEST where
  "TPM2_PolicyCpHash_REQUEST_default = \<lparr>TPM2_PolicyCpHash_REQUEST_policySession = TPM_HANDLE_default, TPM2_PolicyCpHash_REQUEST_cpHashA = []\<rparr>"

definition TPM2_PolicyCpHash_REQUEST_toTpm :: "TPM2_PolicyCpHash_REQUEST \<Rightarrow> unit tpm" where
  "TPM2_PolicyCpHash_REQUEST_toTpm self =
     wseq [writeSizedByteBuf (TPM2_PolicyCpHash_REQUEST_cpHashA self) 2]"

definition TPM2_PolicyCpHash_REQUEST_initFromTpm :: "TPM2_PolicyCpHash_REQUEST \<Rightarrow> TPM2_PolicyCpHash_REQUEST tpm" where
  "TPM2_PolicyCpHash_REQUEST_initFromTpm self =
     sbind (readSizedByteBuf 2) (\<lambda>cpHashA.
     ret (self\<lparr>TPM2_PolicyCpHash_REQUEST_cpHashA := cpHashA\<rparr>))"

definition TPM2_PolicyCpHash_REQUEST_enc :: "TPM2_PolicyCpHash_REQUEST \<Rightarrow> ByteVec" where
  "TPM2_PolicyCpHash_REQUEST_enc x =
     enc_sized 2 (TPM2_PolicyCpHash_REQUEST_cpHashA x)"

definition TPM2_PolicyCpHash_REQUEST_valid :: "TPM2_PolicyCpHash_REQUEST \<Rightarrow> bool" where
  "TPM2_PolicyCpHash_REQUEST_valid x \<longleftrightarrow>
     sized_ok 2 (TPM2_PolicyCpHash_REQUEST_cpHashA x) \<and>
     TPM2_PolicyCpHash_REQUEST_policySession x = TPM_HANDLE_default"

lemma TPM2_PolicyCpHash_REQUEST_writes [writes_intros]:
  "TPM2_PolicyCpHash_REQUEST_valid x \<Longrightarrow> writes (TPM2_PolicyCpHash_REQUEST_toTpm x) (TPM2_PolicyCpHash_REQUEST_enc x)"
  unfolding TPM2_PolicyCpHash_REQUEST_toTpm_def TPM2_PolicyCpHash_REQUEST_enc_def
  by (intro writes_intros; simp add: TPM2_PolicyCpHash_REQUEST_valid_def opt_ok_iff)

lemma TPM2_PolicyCpHash_REQUEST_reads:
  "TPM2_PolicyCpHash_REQUEST_valid x \<Longrightarrow> reads (TPM2_PolicyCpHash_REQUEST_initFromTpm TPM2_PolicyCpHash_REQUEST_default) x (TPM2_PolicyCpHash_REQUEST_enc x)"
  by (simp only: TPM2_PolicyCpHash_REQUEST_initFromTpm_def TPM2_PolicyCpHash_REQUEST_enc_def TPM2_PolicyCpHash_REQUEST_default_def
        TPM2_PolicyCpHash_REQUEST.select_convs TPM2_PolicyCpHash_REQUEST.update_convs;
      intro reads_intros; (rule TPM2_PolicyCpHash_REQUEST.equality)?; simp add: TPM2_PolicyCpHash_REQUEST_valid_def opt_ok_iff)

interpretation TPM2_PolicyCpHash_REQUEST_codec:
  tpm_codec TPM2_PolicyCpHash_REQUEST_toTpm TPM2_PolicyCpHash_REQUEST_initFromTpm TPM2_PolicyCpHash_REQUEST_default
    TPM2_PolicyCpHash_REQUEST_enc TPM2_PolicyCpHash_REQUEST_valid
  by unfold_locales (erule TPM2_PolicyCpHash_REQUEST_writes TPM2_PolicyCpHash_REQUEST_reads | simp add: TPM2_PolicyCpHash_REQUEST_enc_def)+

definition TPM2_PolicyCpHash_REQUEST_req :: "TPM2_PolicyCpHash_REQUEST \<Rightarrow> TPM_HANDLE ReqStructure" where
  "TPM2_PolicyCpHash_REQUEST_req self =
     \<lparr>req_toTpm = TPM2_PolicyCpHash_REQUEST_toTpm self, req_numHandles = 1,
     req_numAuthHandles = 0, req_getHandles = [TPM2_PolicyCpHash_REQUEST_policySession self], req_sessEncInfo = \<lparr>sizeLen = 2, valLen = 1\<rparr>\<rparr>"

subsection \<open>TPM2_PolicyNameHash_REQUEST\<close>

text \<open>This command allows a policy to be bound to a specific set of TPM entities without being bound to the parameters of the command.\<close>

record TPM2_PolicyNameHash_REQUEST =
  TPM2_PolicyNameHash_REQUEST_policySession :: "TPM_HANDLE"
  TPM2_PolicyNameHash_REQUEST_nameHash :: "ByteVec"

definition TPM2_PolicyNameHash_REQUEST_default :: TPM2_PolicyNameHash_REQUEST where
  "TPM2_PolicyNameHash_REQUEST_default = \<lparr>TPM2_PolicyNameHash_REQUEST_policySession = TPM_HANDLE_default, TPM2_PolicyNameHash_REQUEST_nameHash = []\<rparr>"

definition TPM2_PolicyNameHash_REQUEST_toTpm :: "TPM2_PolicyNameHash_REQUEST \<Rightarrow> unit tpm" where
  "TPM2_PolicyNameHash_REQUEST_toTpm self =
     wseq [writeSizedByteBuf (TPM2_PolicyNameHash_REQUEST_nameHash self) 2]"

definition TPM2_PolicyNameHash_REQUEST_initFromTpm :: "TPM2_PolicyNameHash_REQUEST \<Rightarrow> TPM2_PolicyNameHash_REQUEST tpm" where
  "TPM2_PolicyNameHash_REQUEST_initFromTpm self =
     sbind (readSizedByteBuf 2) (\<lambda>nameHash.
     ret (self\<lparr>TPM2_PolicyNameHash_REQUEST_nameHash := nameHash\<rparr>))"

definition TPM2_PolicyNameHash_REQUEST_enc :: "TPM2_PolicyNameHash_REQUEST \<Rightarrow> ByteVec" where
  "TPM2_PolicyNameHash_REQUEST_enc x =
     enc_sized 2 (TPM2_PolicyNameHash_REQUEST_nameHash x)"

definition TPM2_PolicyNameHash_REQUEST_valid :: "TPM2_PolicyNameHash_REQUEST \<Rightarrow> bool" where
  "TPM2_PolicyNameHash_REQUEST_valid x \<longleftrightarrow>
     sized_ok 2 (TPM2_PolicyNameHash_REQUEST_nameHash x) \<and>
     TPM2_PolicyNameHash_REQUEST_policySession x = TPM_HANDLE_default"

lemma TPM2_PolicyNameHash_REQUEST_writes [writes_intros]:
  "TPM2_PolicyNameHash_REQUEST_valid x \<Longrightarrow> writes (TPM2_PolicyNameHash_REQUEST_toTpm x) (TPM2_PolicyNameHash_REQUEST_enc x)"
  unfolding TPM2_PolicyNameHash_REQUEST_toTpm_def TPM2_PolicyNameHash_REQUEST_enc_def
  by (intro writes_intros; simp add: TPM2_PolicyNameHash_REQUEST_valid_def opt_ok_iff)

lemma TPM2_PolicyNameHash_REQUEST_reads:
  "TPM2_PolicyNameHash_REQUEST_valid x \<Longrightarrow> reads (TPM2_PolicyNameHash_REQUEST_initFromTpm TPM2_PolicyNameHash_REQUEST_default) x (TPM2_PolicyNameHash_REQUEST_enc x)"
  by (simp only: TPM2_PolicyNameHash_REQUEST_initFromTpm_def TPM2_PolicyNameHash_REQUEST_enc_def TPM2_PolicyNameHash_REQUEST_default_def
        TPM2_PolicyNameHash_REQUEST.select_convs TPM2_PolicyNameHash_REQUEST.update_convs;
      intro reads_intros; (rule TPM2_PolicyNameHash_REQUEST.equality)?; simp add: TPM2_PolicyNameHash_REQUEST_valid_def opt_ok_iff)

interpretation TPM2_PolicyNameHash_REQUEST_codec:
  tpm_codec TPM2_PolicyNameHash_REQUEST_toTpm TPM2_PolicyNameHash_REQUEST_initFromTpm TPM2_PolicyNameHash_REQUEST_default
    TPM2_PolicyNameHash_REQUEST_enc TPM2_PolicyNameHash_REQUEST_valid
  by unfold_locales (erule TPM2_PolicyNameHash_REQUEST_writes TPM2_PolicyNameHash_REQUEST_reads | simp add: TPM2_PolicyNameHash_REQUEST_enc_def)+

definition TPM2_PolicyNameHash_REQUEST_req :: "TPM2_PolicyNameHash_REQUEST \<Rightarrow> TPM_HANDLE ReqStructure" where
  "TPM2_PolicyNameHash_REQUEST_req self =
     \<lparr>req_toTpm = TPM2_PolicyNameHash_REQUEST_toTpm self, req_numHandles = 1,
     req_numAuthHandles = 0, req_getHandles = [TPM2_PolicyNameHash_REQUEST_policySession self], req_sessEncInfo = \<lparr>sizeLen = 2, valLen = 1\<rparr>\<rparr>"

subsection \<open>TPM2_PolicyDuplicationSelect_REQUEST\<close>

text \<open>This command allows qualification of duplication to allow duplication to a selected new parent.\<close>

record TPM2_PolicyDuplicationSelect_REQUEST =
  TPM2_PolicyDuplicationSelect_REQUEST_policySession :: "TPM_HANDLE"
  TPM2_PolicyDuplicationSelect_REQUEST_objectName :: "ByteVec"
  TPM2_PolicyDuplicationSelect_REQUEST_newParentName :: "ByteVec"
  TPM2_PolicyDuplicationSelect_REQUEST_includeObject :: "byte"

definition TPM2_PolicyDuplicationSelect_REQUEST_default :: TPM2_PolicyDuplicationSelect_REQUEST where
  "TPM2_PolicyDuplicationSelect_REQUEST_default = \<lparr>TPM2_PolicyDuplicationSelect_REQUEST_policySession = TPM_HANDLE_default, TPM2_PolicyDuplicationSelect_REQUEST_objectName = [], TPM2_PolicyDuplicationSelect_REQUEST_newParentName = [], TPM2_PolicyDuplicationSelect_REQUEST_includeObject = 0\<rparr>"

definition TPM2_PolicyDuplicationSelect_REQUEST_toTpm :: "TPM2_PolicyDuplicationSelect_REQUEST \<Rightarrow> unit tpm" where
  "TPM2_PolicyDuplicationSelect_REQUEST_toTpm self =
     wseq [writeSizedByteBuf (TPM2_PolicyDuplicationSelect_REQUEST_objectName self) 2,
       writeSizedByteBuf (TPM2_PolicyDuplicationSelect_REQUEST_newParentName self) 2,
       writeByte (TPM2_PolicyDuplicationSelect_REQUEST_includeObject self)]"

definition TPM2_PolicyDuplicationSelect_REQUEST_initFromTpm :: "TPM2_PolicyDuplicationSelect_REQUEST \<Rightarrow> TPM2_PolicyDuplicationSelect_REQUEST tpm" where
  "TPM2_PolicyDuplicationSelect_REQUEST_initFromTpm self =
     sbind (readSizedByteBuf 2) (\<lambda>objectName.
     sbind (readSizedByteBuf 2) (\<lambda>newParentName.
     sbind readByte (\<lambda>includeObject.
     ret (self\<lparr>TPM2_PolicyDuplicationSelect_REQUEST_objectName := objectName, TPM2_PolicyDuplicationSelect_REQUEST_newParentName := newParentName, TPM2_PolicyDuplicationSelect_REQUEST_includeObject := includeObject\<rparr>))))"

definition TPM2_PolicyDuplicationSelect_REQUEST_enc :: "TPM2_PolicyDuplicationSelect_REQUEST \<Rightarrow> ByteVec" where
  "TPM2_PolicyDuplicationSelect_REQUEST_enc x =
     enc_sized 2 (TPM2_PolicyDuplicationSelect_REQUEST_objectName x) @
     enc_sized 2 (TPM2_PolicyDuplicationSelect_REQUEST_newParentName x) @
     enc8 (TPM2_PolicyDuplicationSelect_REQUEST_includeObject x)"

definition TPM2_PolicyDuplicationSelect_REQUEST_valid :: "TPM2_PolicyDuplicationSelect_REQUEST \<Rightarrow> bool" where
  "TPM2_PolicyDuplicationSelect_REQUEST_valid x \<longleftrightarrow>
     sized_ok 2 (TPM2_PolicyDuplicationSelect_REQUEST_objectName x) \<and>
     sized_ok 2 (TPM2_PolicyDuplicationSelect_REQUEST_newParentName x) \<and>
     TPM2_PolicyDuplicationSelect_REQUEST_policySession x = TPM_HANDLE_default"

lemma TPM2_PolicyDuplicationSelect_REQUEST_writes [writes_intros]:
  "TPM2_PolicyDuplicationSelect_REQUEST_valid x \<Longrightarrow> writes (TPM2_PolicyDuplicationSelect_REQUEST_toTpm x) (TPM2_PolicyDuplicationSelect_REQUEST_enc x)"
  unfolding TPM2_PolicyDuplicationSelect_REQUEST_toTpm_def TPM2_PolicyDuplicationSelect_REQUEST_enc_def
  by (intro writes_intros; simp add: TPM2_PolicyDuplicationSelect_REQUEST_valid_def opt_ok_iff)

lemma TPM2_PolicyDuplicationSelect_REQUEST_reads:
  "TPM2_PolicyDuplicationSelect_REQUEST_valid x \<Longrightarrow> reads (TPM2_PolicyDuplicationSelect_REQUEST_initFromTpm TPM2_PolicyDuplicationSelect_REQUEST_default) x (TPM2_PolicyDuplicationSelect_REQUEST_enc x)"
  by (simp only: TPM2_PolicyDuplicationSelect_REQUEST_initFromTpm_def TPM2_PolicyDuplicationSelect_REQUEST_enc_def TPM2_PolicyDuplicationSelect_REQUEST_default_def
        TPM2_PolicyDuplicationSelect_REQUEST.select_convs TPM2_PolicyDuplicationSelect_REQUEST.update_convs;
      intro reads_intros; (rule TPM2_PolicyDuplicationSelect_REQUEST.equality)?; simp add: TPM2_PolicyDuplicationSelect_REQUEST_valid_def opt_ok_iff)

interpretation TPM2_PolicyDuplicationSelect_REQUEST_codec:
  tpm_codec TPM2_PolicyDuplicationSelect_REQUEST_toTpm TPM2_PolicyDuplicationSelect_REQUEST_initFromTpm TPM2_PolicyDuplicationSelect_REQUEST_default
    TPM2_PolicyDuplicationSelect_REQUEST_enc TPM2_PolicyDuplicationSelect_REQUEST_valid
  by unfold_locales (erule TPM2_PolicyDuplicationSelect_REQUEST_writes TPM2_PolicyDuplicationSelect_REQUEST_reads | simp add: TPM2_PolicyDuplicationSelect_REQUEST_enc_def)+

definition TPM2_PolicyDuplicationSelect_REQUEST_req :: "TPM2_PolicyDuplicationSelect_REQUEST \<Rightarrow> TPM_HANDLE ReqStructure" where
  "TPM2_PolicyDuplicationSelect_REQUEST_req self =
     \<lparr>req_toTpm = TPM2_PolicyDuplicationSelect_REQUEST_toTpm self, req_numHandles = 1,
     req_numAuthHandles = 0, req_getHandles = [TPM2_PolicyDuplicationSelect_REQUEST_policySession self], req_sessEncInfo = \<lparr>sizeLen = 2, valLen = 1\<rparr>\<rparr>"

subsection \<open>TPM2_PolicyAuthorize_REQUEST\<close>

text \<open>This command allows policies to change.\<close>

record TPM2_PolicyAuthorize_REQUEST =
  TPM2_PolicyAuthorize_REQUEST_policySession :: "TPM_HANDLE"
  TPM2_PolicyAuthorize_REQUEST_approvedPolicy :: "ByteVec"
  TPM2_PolicyAuthorize_REQUEST_policyRef :: "ByteVec"
  TPM2_PolicyAuthorize_REQUEST_keySign :: "ByteVec"
  TPM2_PolicyAuthorize_REQUEST_checkTicket :: "TPMT_TK_VERIFIED"

definition TPM2_PolicyAuthorize_REQUEST_default :: TPM2_PolicyAuthorize_REQUEST where
  "TPM2_PolicyAuthorize_REQUEST_default = \<lparr>TPM2_PolicyAuthorize_REQUEST_policySession = TPM_HANDLE_default, TPM2_PolicyAuthorize_REQUEST_approvedPolicy = [], TPM2_PolicyAuthorize_REQUEST_policyRef = [], TPM2_PolicyAuthorize_REQUEST_keySign = [], TPM2_PolicyAuthorize_REQUEST_checkTicket = TPMT_TK_VERIFIED_default\<rparr>"

definition TPM2_PolicyAuthorize_REQUEST_toTpm :: "TPM2_PolicyAuthorize_REQUEST \<Rightarrow> unit tpm" where
  "TPM2_PolicyAuthorize_REQUEST_toTpm self =
     wseq [writeSizedByteBuf (TPM2_PolicyAuthorize_REQUEST_approvedPolicy self) 2,
       writeSizedByteBuf (TPM2_PolicyAuthorize_REQUEST_policyRef self) 2,
       writeSizedByteBuf (TPM2_PolicyAuthorize_REQUEST_keySign self) 2,
       TPMT_TK_VERIFIED_toTpm (TPM2_PolicyAuthorize_REQUEST_checkTicket self)]"

definition TPM2_PolicyAuthorize_REQUEST_initFromTpm :: "TPM2_PolicyAuthorize_REQUEST \<Rightarrow> TPM2_PolicyAuthorize_REQUEST tpm" where
  "TPM2_PolicyAuthorize_REQUEST_initFromTpm self =
     sbind (readSizedByteBuf 2) (\<lambda>approvedPolicy.
     sbind (readSizedByteBuf 2) (\<lambda>policyRef.
     sbind (readSizedByteBuf 2) (\<lambda>keySign.
     sbind (TPMT_TK_VERIFIED_initFromTpm (TPM2_PolicyAuthorize_REQUEST_checkTicket self)) (\<lambda>checkTicket.
     ret (self\<lparr>TPM2_PolicyAuthorize_REQUEST_approvedPolicy := approvedPolicy, TPM2_PolicyAuthorize_REQUEST_policyRef := policyRef, TPM2_PolicyAuthorize_REQUEST_keySign := keySign, TPM2_PolicyAuthorize_REQUEST_checkTicket := checkTicket\<rparr>)))))"

definition TPM2_PolicyAuthorize_REQUEST_enc :: "TPM2_PolicyAuthorize_REQUEST \<Rightarrow> ByteVec" where
  "TPM2_PolicyAuthorize_REQUEST_enc x =
     enc_sized 2 (TPM2_PolicyAuthorize_REQUEST_approvedPolicy x) @
     enc_sized 2 (TPM2_PolicyAuthorize_REQUEST_policyRef x) @
     enc_sized 2 (TPM2_PolicyAuthorize_REQUEST_keySign x) @
     TPMT_TK_VERIFIED_enc (TPM2_PolicyAuthorize_REQUEST_checkTicket x)"

definition TPM2_PolicyAuthorize_REQUEST_valid :: "TPM2_PolicyAuthorize_REQUEST \<Rightarrow> bool" where
  "TPM2_PolicyAuthorize_REQUEST_valid x \<longleftrightarrow>
     sized_ok 2 (TPM2_PolicyAuthorize_REQUEST_approvedPolicy x) \<and>
     sized_ok 2 (TPM2_PolicyAuthorize_REQUEST_policyRef x) \<and>
     sized_ok 2 (TPM2_PolicyAuthorize_REQUEST_keySign x) \<and>
     TPMT_TK_VERIFIED_valid (TPM2_PolicyAuthorize_REQUEST_checkTicket x) \<and>
     TPM2_PolicyAuthorize_REQUEST_policySession x = TPM_HANDLE_default"

lemma TPM2_PolicyAuthorize_REQUEST_writes [writes_intros]:
  "TPM2_PolicyAuthorize_REQUEST_valid x \<Longrightarrow> writes (TPM2_PolicyAuthorize_REQUEST_toTpm x) (TPM2_PolicyAuthorize_REQUEST_enc x)"
  unfolding TPM2_PolicyAuthorize_REQUEST_toTpm_def TPM2_PolicyAuthorize_REQUEST_enc_def
  by (intro writes_intros; simp add: TPM2_PolicyAuthorize_REQUEST_valid_def opt_ok_iff)

lemma TPM2_PolicyAuthorize_REQUEST_reads:
  "TPM2_PolicyAuthorize_REQUEST_valid x \<Longrightarrow> reads (TPM2_PolicyAuthorize_REQUEST_initFromTpm TPM2_PolicyAuthorize_REQUEST_default) x (TPM2_PolicyAuthorize_REQUEST_enc x)"
  by (simp only: TPM2_PolicyAuthorize_REQUEST_initFromTpm_def TPM2_PolicyAuthorize_REQUEST_enc_def TPM2_PolicyAuthorize_REQUEST_default_def
        TPM2_PolicyAuthorize_REQUEST.select_convs TPM2_PolicyAuthorize_REQUEST.update_convs;
      intro reads_intros; (rule TPM2_PolicyAuthorize_REQUEST.equality)?; simp add: TPM2_PolicyAuthorize_REQUEST_valid_def opt_ok_iff)

interpretation TPM2_PolicyAuthorize_REQUEST_codec:
  tpm_codec TPM2_PolicyAuthorize_REQUEST_toTpm TPM2_PolicyAuthorize_REQUEST_initFromTpm TPM2_PolicyAuthorize_REQUEST_default
    TPM2_PolicyAuthorize_REQUEST_enc TPM2_PolicyAuthorize_REQUEST_valid
  by unfold_locales (erule TPM2_PolicyAuthorize_REQUEST_writes TPM2_PolicyAuthorize_REQUEST_reads | simp add: TPM2_PolicyAuthorize_REQUEST_enc_def)+

definition TPM2_PolicyAuthorize_REQUEST_req :: "TPM2_PolicyAuthorize_REQUEST \<Rightarrow> TPM_HANDLE ReqStructure" where
  "TPM2_PolicyAuthorize_REQUEST_req self =
     \<lparr>req_toTpm = TPM2_PolicyAuthorize_REQUEST_toTpm self, req_numHandles = 1,
     req_numAuthHandles = 0, req_getHandles = [TPM2_PolicyAuthorize_REQUEST_policySession self], req_sessEncInfo = \<lparr>sizeLen = 2, valLen = 1\<rparr>\<rparr>"

subsection \<open>TPM2_PolicyAuthValue_REQUEST\<close>

text \<open>This command allows a policy to be bound to the authorization value of the authorized entity.\<close>

record TPM2_PolicyAuthValue_REQUEST =
  TPM2_PolicyAuthValue_REQUEST_policySession :: "TPM_HANDLE"

definition TPM2_PolicyAuthValue_REQUEST_default :: TPM2_PolicyAuthValue_REQUEST where
  "TPM2_PolicyAuthValue_REQUEST_default = \<lparr>TPM2_PolicyAuthValue_REQUEST_policySession = TPM_HANDLE_default\<rparr>"

definition TPM2_PolicyAuthValue_REQUEST_toTpm :: "TPM2_PolicyAuthValue_REQUEST \<Rightarrow> unit tpm" where
  "TPM2_PolicyAuthValue_REQUEST_toTpm self =
     wseq []"

definition TPM2_PolicyAuthValue_REQUEST_initFromTpm :: "TPM2_PolicyAuthValue_REQUEST \<Rightarrow> TPM2_PolicyAuthValue_REQUEST tpm" where
  "TPM2_PolicyAuthValue_REQUEST_initFromTpm self =
     ret self"

definition TPM2_PolicyAuthValue_REQUEST_enc :: "TPM2_PolicyAuthValue_REQUEST \<Rightarrow> ByteVec" where
  "TPM2_PolicyAuthValue_REQUEST_enc x =
     []"

definition TPM2_PolicyAuthValue_REQUEST_valid :: "TPM2_PolicyAuthValue_REQUEST \<Rightarrow> bool" where
  "TPM2_PolicyAuthValue_REQUEST_valid x \<longleftrightarrow>
     TPM2_PolicyAuthValue_REQUEST_policySession x = TPM_HANDLE_default"

lemma TPM2_PolicyAuthValue_REQUEST_writes [writes_intros]:
  "TPM2_PolicyAuthValue_REQUEST_valid x \<Longrightarrow> writes (TPM2_PolicyAuthValue_REQUEST_toTpm x) (TPM2_PolicyAuthValue_REQUEST_enc x)"
  unfolding TPM2_PolicyAuthValue_REQUEST_toTpm_def TPM2_PolicyAuthValue_REQUEST_enc_def
  by (intro writes_intros; simp add: TPM2_PolicyAuthValue_REQUEST_valid_def opt_ok_iff)

lemma TPM2_PolicyAuthValue_REQUEST_reads:
  "TPM2_PolicyAuthValue_REQUEST_valid x \<Longrightarrow> reads (TPM2_PolicyAuthValue_REQUEST_initFromTpm TPM2_PolicyAuthValue_REQUEST_default) x (TPM2_PolicyAuthValue_REQUEST_enc x)"
  by (simp only: TPM2_PolicyAuthValue_REQUEST_initFromTpm_def TPM2_PolicyAuthValue_REQUEST_enc_def TPM2_PolicyAuthValue_REQUEST_default_def
        TPM2_PolicyAuthValue_REQUEST.select_convs TPM2_PolicyAuthValue_REQUEST.update_convs;
      intro reads_intros; (rule TPM2_PolicyAuthValue_REQUEST.equality)?; simp add: TPM2_PolicyAuthValue_REQUEST_valid_def opt_ok_iff)

interpretation TPM2_PolicyAuthValue_REQUEST_codec:
  tpm_codec TPM2_PolicyAuthValue_REQUEST_toTpm TPM2_PolicyAuthValue_REQUEST_initFromTpm TPM2_PolicyAuthValue_REQUEST_default
    TPM2_PolicyAuthValue_REQUEST_enc TPM2_PolicyAuthValue_REQUEST_valid
  by unfold_locales (erule TPM2_PolicyAuthValue_REQUEST_writes TPM2_PolicyAuthValue_REQUEST_reads | simp add: TPM2_PolicyAuthValue_REQUEST_toTpm_def writes_ret)+

definition TPM2_PolicyAuthValue_REQUEST_req :: "TPM2_PolicyAuthValue_REQUEST \<Rightarrow> TPM_HANDLE ReqStructure" where
  "TPM2_PolicyAuthValue_REQUEST_req self =
     \<lparr>req_toTpm = TPM2_PolicyAuthValue_REQUEST_toTpm self, req_numHandles = 1,
     req_numAuthHandles = 0, req_getHandles = [TPM2_PolicyAuthValue_REQUEST_policySession self], req_sessEncInfo = no_sessEncInfo\<rparr>"

subsection \<open>TPM2_PolicyPassword_REQUEST\<close>

text \<open>This command allows a policy to be bound to the authorization value of the authorized object.\<close>

record TPM2_PolicyPassword_REQUEST =
  TPM2_PolicyPassword_REQUEST_policySession :: "TPM_HANDLE"

definition TPM2_PolicyPassword_REQUEST_default :: TPM2_PolicyPassword_REQUEST where
  "TPM2_PolicyPassword_REQUEST_default = \<lparr>TPM2_PolicyPassword_REQUEST_policySession = TPM_HANDLE_default\<rparr>"

definition TPM2_PolicyPassword_REQUEST_toTpm :: "TPM2_PolicyPassword_REQUEST \<Rightarrow> unit tpm" where
  "TPM2_PolicyPassword_REQUEST_toTpm self =
     wseq []"

definition TPM2_PolicyPassword_REQUEST_initFromTpm :: "TPM2_PolicyPassword_REQUEST \<Rightarrow> TPM2_PolicyPassword_REQUEST tpm" where
  "TPM2_PolicyPassword_REQUEST_initFromTpm self =
     ret self"

definition TPM2_PolicyPassword_REQUEST_enc :: "TPM2_PolicyPassword_REQUEST \<Rightarrow> ByteVec" where
  "TPM2_PolicyPassword_REQUEST_enc x =
     []"

definition TPM2_PolicyPassword_REQUEST_valid :: "TPM2_PolicyPassword_REQUEST \<Rightarrow> bool" where
  "TPM2_PolicyPassword_REQUEST_valid x \<longleftrightarrow>
     TPM2_PolicyPassword_REQUEST_policySession x = TPM_HANDLE_default"

lemma TPM2_PolicyPassword_REQUEST_writes [writes_intros]:
  "TPM2_PolicyPassword_REQUEST_valid x \<Longrightarrow> writes (TPM2_PolicyPassword_REQUEST_toTpm x) (TPM2_PolicyPassword_REQUEST_enc x)"
  unfolding TPM2_PolicyPassword_REQUEST_toTpm_def TPM2_PolicyPassword_REQUEST_enc_def
  by (intro writes_intros; simp add: TPM2_PolicyPassword_REQUEST_valid_def opt_ok_iff)

lemma TPM2_PolicyPassword_REQUEST_reads:
  "TPM2_PolicyPassword_REQUEST_valid x \<Longrightarrow> reads (TPM2_PolicyPassword_REQUEST_initFromTpm TPM2_PolicyPassword_REQUEST_default) x (TPM2_PolicyPassword_REQUEST_enc x)"
  by (simp only: TPM2_PolicyPassword_REQUEST_initFromTpm_def TPM2_PolicyPassword_REQUEST_enc_def TPM2_PolicyPassword_REQUEST_default_def
        TPM2_PolicyPassword_REQUEST.select_convs TPM2_PolicyPassword_REQUEST.update_convs;
      intro reads_intros; (rule TPM2_PolicyPassword_REQUEST.equality)?; simp add: TPM2_PolicyPassword_REQUEST_valid_def opt_ok_iff)

interpretation TPM2_PolicyPassword_REQUEST_codec:
  tpm_codec TPM2_PolicyPassword_REQUEST_toTpm TPM2_PolicyPassword_REQUEST_initFromTpm TPM2_PolicyPassword_REQUEST_default
    TPM2_PolicyPassword_REQUEST_enc TPM2_PolicyPassword_REQUEST_valid
  by unfold_locales (erule TPM2_PolicyPassword_REQUEST_writes TPM2_PolicyPassword_REQUEST_reads | simp add: TPM2_PolicyPassword_REQUEST_toTpm_def writes_ret)+

definition TPM2_PolicyPassword_REQUEST_req :: "TPM2_PolicyPassword_REQUEST \<Rightarrow> TPM_HANDLE ReqStructure" where
  "TPM2_PolicyPassword_REQUEST_req self =
     \<lparr>req_toTpm = TPM2_PolicyPassword_REQUEST_toTpm self, req_numHandles = 1,
     req_numAuthHandles = 0, req_getHandles = [TPM2_PolicyPassword_REQUEST_policySession self], req_sessEncInfo = no_sessEncInfo\<rparr>"

subsection \<open>TPM2_PolicyGetDigest_REQUEST\<close>

text \<open>This command returns the current policyDigest of the session.\<close>

record TPM2_PolicyGetDigest_REQUEST =
  TPM2_PolicyGetDigest_REQUEST_policySession :: "TPM_HANDLE"

definition TPM2_PolicyGetDigest_REQUEST_default :: TPM2_PolicyGetDigest_REQUEST where
  "TPM2_PolicyGetDigest_REQUEST_default = \<lparr>TPM2_PolicyGetDigest_REQUEST_policySession = TPM_HANDLE_default\<rparr>"

definition TPM2_PolicyGetDigest_REQUEST_toTpm :: "TPM2_PolicyGetDigest_REQUEST \<Rightarrow> unit tpm" where
  "TPM2_PolicyGetDigest_REQUEST_toTpm self =
     wseq []"

definition TPM2_PolicyGetDigest_REQUEST_initFromTpm :: "TPM2_PolicyGetDigest_REQUEST \<Rightarrow> TPM2_PolicyGetDigest_REQUEST tpm" where
  "TPM2_PolicyGetDigest_REQUEST_initFromTpm self =
     ret self"

definition TPM2_PolicyGetDigest_REQUEST_enc :: "TPM2_PolicyGetDigest_REQUEST \<Rightarrow> ByteVec" where
  "TPM2_PolicyGetDigest_REQUEST_enc x =
     []"

definition TPM2_PolicyGetDigest_REQUEST_valid :: "TPM2_PolicyGetDigest_REQUEST \<Rightarrow> bool" where
  "TPM2_PolicyGetDigest_REQUEST_valid x \<longleftrightarrow>
     TPM2_PolicyGetDigest_REQUEST_policySession x = TPM_HANDLE_default"

lemma TPM2_PolicyGetDigest_REQUEST_writes [writes_intros]:
  "TPM2_PolicyGetDigest_REQUEST_valid x \<Longrightarrow> writes (TPM2_PolicyGetDigest_REQUEST_toTpm x) (TPM2_PolicyGetDigest_REQUEST_enc x)"
  unfolding TPM2_PolicyGetDigest_REQUEST_toTpm_def TPM2_PolicyGetDigest_REQUEST_enc_def
  by (intro writes_intros; simp add: TPM2_PolicyGetDigest_REQUEST_valid_def opt_ok_iff)

lemma TPM2_PolicyGetDigest_REQUEST_reads:
  "TPM2_PolicyGetDigest_REQUEST_valid x \<Longrightarrow> reads (TPM2_PolicyGetDigest_REQUEST_initFromTpm TPM2_PolicyGetDigest_REQUEST_default) x (TPM2_PolicyGetDigest_REQUEST_enc x)"
  by (simp only: TPM2_PolicyGetDigest_REQUEST_initFromTpm_def TPM2_PolicyGetDigest_REQUEST_enc_def TPM2_PolicyGetDigest_REQUEST_default_def
        TPM2_PolicyGetDigest_REQUEST.select_convs TPM2_PolicyGetDigest_REQUEST.update_convs;
      intro reads_intros; (rule TPM2_PolicyGetDigest_REQUEST.equality)?; simp add: TPM2_PolicyGetDigest_REQUEST_valid_def opt_ok_iff)

interpretation TPM2_PolicyGetDigest_REQUEST_codec:
  tpm_codec TPM2_PolicyGetDigest_REQUEST_toTpm TPM2_PolicyGetDigest_REQUEST_initFromTpm TPM2_PolicyGetDigest_REQUEST_default
    TPM2_PolicyGetDigest_REQUEST_enc TPM2_PolicyGetDigest_REQUEST_valid
  by unfold_locales (erule TPM2_PolicyGetDigest_REQUEST_writes TPM2_PolicyGetDigest_REQUEST_reads | simp add: TPM2_PolicyGetDigest_REQUEST_toTpm_def writes_ret)+

definition TPM2_PolicyGetDigest_REQUEST_req :: "TPM2_PolicyGetDigest_REQUEST \<Rightarrow> TPM_HANDLE ReqStructure" where
  "TPM2_PolicyGetDigest_REQUEST_req self =
     \<lparr>req_toTpm = TPM2_PolicyGetDigest_REQUEST_toTpm self, req_numHandles = 1,
     req_numAuthHandles = 0, req_getHandles = [TPM2_PolicyGetDigest_REQUEST_policySession self], req_sessEncInfo = no_sessEncInfo\<rparr>"

subsection \<open>PolicyGetDigestResponse\<close>

text \<open>This command returns the current policyDigest of the session.\<close>

record PolicyGetDigestResponse =
  PolicyGetDigestResponse_policyDigest :: "ByteVec"

definition PolicyGetDigestResponse_default :: PolicyGetDigestResponse where
  "PolicyGetDigestResponse_default = \<lparr>PolicyGetDigestResponse_policyDigest = []\<rparr>"

definition PolicyGetDigestResponse_toTpm :: "PolicyGetDigestResponse \<Rightarrow> unit tpm" where
  "PolicyGetDigestResponse_toTpm self =
     wseq [writeSizedByteBuf (PolicyGetDigestResponse_policyDigest self) 2]"

definition PolicyGetDigestResponse_initFromTpm :: "PolicyGetDigestResponse \<Rightarrow> PolicyGetDigestResponse tpm" where
  "PolicyGetDigestResponse_initFromTpm self =
     sbind (readSizedByteBuf 2) (\<lambda>policyDigest.
     ret (self\<lparr>PolicyGetDigestResponse_policyDigest := policyDigest\<rparr>))"

definition PolicyGetDigestResponse_enc :: "PolicyGetDigestResponse \<Rightarrow> ByteVec" where
  "PolicyGetDigestResponse_enc x =
     enc_sized 2 (PolicyGetDigestResponse_policyDigest x)"

definition PolicyGetDigestResponse_valid :: "PolicyGetDigestResponse \<Rightarrow> bool" where
  "PolicyGetDigestResponse_valid x \<longleftrightarrow>
     sized_ok 2 (PolicyGetDigestResponse_policyDigest x)"

lemma PolicyGetDigestResponse_writes [writes_intros]:
  "PolicyGetDigestResponse_valid x \<Longrightarrow> writes (PolicyGetDigestResponse_toTpm x) (PolicyGetDigestResponse_enc x)"
  unfolding PolicyGetDigestResponse_toTpm_def PolicyGetDigestResponse_enc_def
  by (intro writes_intros; simp add: PolicyGetDigestResponse_valid_def opt_ok_iff)

lemma PolicyGetDigestResponse_reads:
  "PolicyGetDigestResponse_valid x \<Longrightarrow> reads (PolicyGetDigestResponse_initFromTpm PolicyGetDigestResponse_default) x (PolicyGetDigestResponse_enc x)"
  by (simp only: PolicyGetDigestResponse_initFromTpm_def PolicyGetDigestResponse_enc_def PolicyGetDigestResponse_default_def
        PolicyGetDigestResponse.select_convs PolicyGetDigestResponse.update_convs;
      intro reads_intros; (rule PolicyGetDigestResponse.equality)?; simp add: PolicyGetDigestResponse_valid_def opt_ok_iff)

interpretation PolicyGetDigestResponse_codec:
  tpm_codec PolicyGetDigestResponse_toTpm PolicyGetDigestResponse_initFromTpm PolicyGetDigestResponse_default
    PolicyGetDigestResponse_enc PolicyGetDigestResponse_valid
  by unfold_locales (erule PolicyGetDigestResponse_writes PolicyGetDigestResponse_reads | simp add: PolicyGetDigestResponse_enc_def)+

definition PolicyGetDigestResponse_resp :: "(TPM_HANDLE, PolicyGetDigestResponse) RespStructure" where
  "PolicyGetDigestResponse_resp = \<lparr>resp_default = PolicyGetDigestResponse_default, resp_initFromTpm = PolicyGetDigestResponse_initFromTpm,
     resp_numHandles = 0, resp_getHandle = (\<lambda>_. TPM_HANDLE_default),
     resp_setHandle = (\<lambda>_ self. self), resp_sessEncInfo = \<lparr>sizeLen = 2, valLen = 1\<rparr>\<rparr>"

subsection \<open>TPM2_PolicyNvWritten_REQUEST\<close>

text \<open>This command allows a policy to be bound to the TPMA_NV_WRITTEN attributes.\<close>

record TPM2_PolicyNvWritten_REQUEST =
  TPM2_PolicyNvWritten_REQUEST_policySession :: "TPM_HANDLE"
  TPM2_PolicyNvWritten_REQUEST_writtenSet :: "byte"

definition TPM2_PolicyNvWritten_REQUEST_default :: TPM2_PolicyNvWritten_REQUEST where
  "TPM2_PolicyNvWritten_REQUEST_default = \<lparr>TPM2_PolicyNvWritten_REQUEST_policySession = TPM_HANDLE_default, TPM2_PolicyNvWritten_REQUEST_writtenSet = 0\<rparr>"

definition TPM2_PolicyNvWritten_REQUEST_toTpm :: "TPM2_PolicyNvWritten_REQUEST \<Rightarrow> unit tpm" where
  "TPM2_PolicyNvWritten_REQUEST_toTpm self =
     wseq [writeByte (TPM2_PolicyNvWritten_REQUEST_writtenSet self)]"

definition TPM2_PolicyNvWritten_REQUEST_initFromTpm :: "TPM2_PolicyNvWritten_REQUEST \<Rightarrow> TPM2_PolicyNvWritten_REQUEST tpm" where
  "TPM2_PolicyNvWritten_REQUEST_initFromTpm self =
     sbind readByte (\<lambda>writtenSet.
     ret (self\<lparr>TPM2_PolicyNvWritten_REQUEST_writtenSet := writtenSet\<rparr>))"

definition TPM2_PolicyNvWritten_REQUEST_enc :: "TPM2_PolicyNvWritten_REQUEST \<Rightarrow> ByteVec" where
  "TPM2_PolicyNvWritten_REQUEST_enc x =
     enc8 (TPM2_PolicyNvWritten_REQUEST_writtenSet x)"

definition TPM2_PolicyNvWritten_REQUEST_valid :: "TPM2_PolicyNvWritten_REQUEST \<Rightarrow> bool" where
  "TPM2_PolicyNvWritten_REQUEST_valid x \<longleftrightarrow>
     TPM2_PolicyNvWritten_REQUEST_policySession x = TPM_HANDLE_default"

lemma TPM2_PolicyNvWritten_REQUEST_writes [writes_intros]:
  "TPM2_PolicyNvWritten_REQUEST_valid x \<Longrightarrow> writes (TPM2_PolicyNvWritten_REQUEST_toTpm x) (TPM2_PolicyNvWritten_REQUEST_enc x)"
  unfolding TPM2_PolicyNvWritten_REQUEST_toTpm_def TPM2_PolicyNvWritten_REQUEST_enc_def
  by (intro writes_intros; simp add: TPM2_PolicyNvWritten_REQUEST_valid_def opt_ok_iff)

lemma TPM2_PolicyNvWritten_REQUEST_reads:
  "TPM2_PolicyNvWritten_REQUEST_valid x \<Longrightarrow> reads (TPM2_PolicyNvWritten_REQUEST_initFromTpm TPM2_PolicyNvWritten_REQUEST_default) x (TPM2_PolicyNvWritten_REQUEST_enc x)"
  by (simp only: TPM2_PolicyNvWritten_REQUEST_initFromTpm_def TPM2_PolicyNvWritten_REQUEST_enc_def TPM2_PolicyNvWritten_REQUEST_default_def
        TPM2_PolicyNvWritten_REQUEST.select_convs TPM2_PolicyNvWritten_REQUEST.update_convs;
      intro reads_intros; (rule TPM2_PolicyNvWritten_REQUEST.equality)?; simp add: TPM2_PolicyNvWritten_REQUEST_valid_def opt_ok_iff)

interpretation TPM2_PolicyNvWritten_REQUEST_codec:
  tpm_codec TPM2_PolicyNvWritten_REQUEST_toTpm TPM2_PolicyNvWritten_REQUEST_initFromTpm TPM2_PolicyNvWritten_REQUEST_default
    TPM2_PolicyNvWritten_REQUEST_enc TPM2_PolicyNvWritten_REQUEST_valid
  by unfold_locales (erule TPM2_PolicyNvWritten_REQUEST_writes TPM2_PolicyNvWritten_REQUEST_reads | simp add: TPM2_PolicyNvWritten_REQUEST_enc_def)+

definition TPM2_PolicyNvWritten_REQUEST_req :: "TPM2_PolicyNvWritten_REQUEST \<Rightarrow> TPM_HANDLE ReqStructure" where
  "TPM2_PolicyNvWritten_REQUEST_req self =
     \<lparr>req_toTpm = TPM2_PolicyNvWritten_REQUEST_toTpm self, req_numHandles = 1,
     req_numAuthHandles = 0, req_getHandles = [TPM2_PolicyNvWritten_REQUEST_policySession self], req_sessEncInfo = no_sessEncInfo\<rparr>"

subsection \<open>TPM2_PolicyTemplate_REQUEST\<close>

text \<open>This command allows a policy to be bound to a specific creation template.\<close>

record TPM2_PolicyTemplate_REQUEST =
  TPM2_PolicyTemplate_REQUEST_policySession :: "TPM_HANDLE"
  TPM2_PolicyTemplate_REQUEST_templateHash :: "ByteVec"

definition TPM2_PolicyTemplate_REQUEST_default :: TPM2_PolicyTemplate_REQUEST where
  "TPM2_PolicyTemplate_REQUEST_default = \<lparr>TPM2_PolicyTemplate_REQUEST_policySession = TPM_HANDLE_default, TPM2_PolicyTemplate_REQUEST_templateHash = []\<rparr>"

definition TPM2_PolicyTemplate_REQUEST_toTpm :: "TPM2_PolicyTemplate_REQUEST \<Rightarrow> unit tpm" where
  "TPM2_PolicyTemplate_REQUEST_toTpm self =
     wseq [writeSizedByteBuf (TPM2_PolicyTemplate_REQUEST_templateHash self) 2]"

definition TPM2_PolicyTemplate_REQUEST_initFromTpm :: "TPM2_PolicyTemplate_REQUEST \<Rightarrow> TPM2_PolicyTemplate_REQUEST tpm" where
  "TPM2_PolicyTemplate_REQUEST_initFromTpm self =
     sbind (readSizedByteBuf 2) (\<lambda>templateHash.
     ret (self\<lparr>TPM2_PolicyTemplate_REQUEST_templateHash := templateHash\<rparr>))"

definition TPM2_PolicyTemplate_REQUEST_enc :: "TPM2_PolicyTemplate_REQUEST \<Rightarrow> ByteVec" where
  "TPM2_PolicyTemplate_REQUEST_enc x =
     enc_sized 2 (TPM2_PolicyTemplate_REQUEST_templateHash x)"

definition TPM2_PolicyTemplate_REQUEST_valid :: "TPM2_PolicyTemplate_REQUEST \<Rightarrow> bool" where
  "TPM2_PolicyTemplate_REQUEST_valid x \<longleftrightarrow>
     sized_ok 2 (TPM2_PolicyTemplate_REQUEST_templateHash x) \<and>
     TPM2_PolicyTemplate_REQUEST_policySession x = TPM_HANDLE_default"

lemma TPM2_PolicyTemplate_REQUEST_writes [writes_intros]:
  "TPM2_PolicyTemplate_REQUEST_valid x \<Longrightarrow> writes (TPM2_PolicyTemplate_REQUEST_toTpm x) (TPM2_PolicyTemplate_REQUEST_enc x)"
  unfolding TPM2_PolicyTemplate_REQUEST_toTpm_def TPM2_PolicyTemplate_REQUEST_enc_def
  by (intro writes_intros; simp add: TPM2_PolicyTemplate_REQUEST_valid_def opt_ok_iff)

lemma TPM2_PolicyTemplate_REQUEST_reads:
  "TPM2_PolicyTemplate_REQUEST_valid x \<Longrightarrow> reads (TPM2_PolicyTemplate_REQUEST_initFromTpm TPM2_PolicyTemplate_REQUEST_default) x (TPM2_PolicyTemplate_REQUEST_enc x)"
  by (simp only: TPM2_PolicyTemplate_REQUEST_initFromTpm_def TPM2_PolicyTemplate_REQUEST_enc_def TPM2_PolicyTemplate_REQUEST_default_def
        TPM2_PolicyTemplate_REQUEST.select_convs TPM2_PolicyTemplate_REQUEST.update_convs;
      intro reads_intros; (rule TPM2_PolicyTemplate_REQUEST.equality)?; simp add: TPM2_PolicyTemplate_REQUEST_valid_def opt_ok_iff)

interpretation TPM2_PolicyTemplate_REQUEST_codec:
  tpm_codec TPM2_PolicyTemplate_REQUEST_toTpm TPM2_PolicyTemplate_REQUEST_initFromTpm TPM2_PolicyTemplate_REQUEST_default
    TPM2_PolicyTemplate_REQUEST_enc TPM2_PolicyTemplate_REQUEST_valid
  by unfold_locales (erule TPM2_PolicyTemplate_REQUEST_writes TPM2_PolicyTemplate_REQUEST_reads | simp add: TPM2_PolicyTemplate_REQUEST_enc_def)+

definition TPM2_PolicyTemplate_REQUEST_req :: "TPM2_PolicyTemplate_REQUEST \<Rightarrow> TPM_HANDLE ReqStructure" where
  "TPM2_PolicyTemplate_REQUEST_req self =
     \<lparr>req_toTpm = TPM2_PolicyTemplate_REQUEST_toTpm self, req_numHandles = 1,
     req_numAuthHandles = 0, req_getHandles = [TPM2_PolicyTemplate_REQUEST_policySession self], req_sessEncInfo = \<lparr>sizeLen = 2, valLen = 1\<rparr>\<rparr>"

subsection \<open>TPM2_PolicyAuthorizeNV_REQUEST\<close>

text \<open>This command provides a capability that is the equivalent of a revocable policy.\<close>

record TPM2_PolicyAuthorizeNV_REQUEST =
  TPM2_PolicyAuthorizeNV_REQUEST_authHandle :: "TPM_HANDLE"
  TPM2_PolicyAuthorizeNV_REQUEST_nvIndex :: "TPM_HANDLE"
  TPM2_PolicyAuthorizeNV_REQUEST_policySession :: "TPM_HANDLE"

definition TPM2_PolicyAuthorizeNV_REQUEST_default :: TPM2_PolicyAuthorizeNV_REQUEST where
  "TPM2_PolicyAuthorizeNV_REQUEST_default = \<lparr>TPM2_PolicyAuthorizeNV_REQUEST_authHandle = TPM_HANDLE_default, TPM2_PolicyAuthorizeNV_REQUEST_nvIndex = TPM_HANDLE_default, TPM2_PolicyAuthorizeNV_REQUEST_policySession = TPM_HANDLE_default\<rparr>"

definition TPM2_PolicyAuthorizeNV_REQUEST_toTpm :: "TPM2_PolicyAuthorizeNV_REQUEST \<Rightarrow> unit tpm" where
  "TPM2_PolicyAuthorizeNV_REQUEST_toTpm self =
     wseq []"

definition TPM2_PolicyAuthorizeNV_REQUEST_initFromTpm :: "TPM2_PolicyAuthorizeNV_REQUEST \<Rightarrow> TPM2_PolicyAuthorizeNV_REQUEST tpm" where
  "TPM2_PolicyAuthorizeNV_REQUEST_initFromTpm self =
     ret self"

definition TPM2_PolicyAuthorizeNV_REQUEST_enc :: "TPM2_PolicyAuthorizeNV_REQUEST \<Rightarrow> ByteVec" where
  "TPM2_PolicyAuthorizeNV_REQUEST_enc x =
     []"

definition TPM2_PolicyAuthorizeNV_REQUEST_valid :: "TPM2_PolicyAuthorizeNV_REQUEST \<Rightarrow> bool" where
  "TPM2_PolicyAuthorizeNV_REQUEST_valid x \<longleftrightarrow>
     TPM2_PolicyAuthorizeNV_REQUEST_authHandle x = TPM_HANDLE_default \<and>
     TPM2_PolicyAuthorizeNV_REQUEST_nvIndex x = TPM_HANDLE_default \<and>
     TPM2_PolicyAuthorizeNV_REQUEST_policySession x = TPM_HANDLE_default"

lemma TPM2_PolicyAuthorizeNV_REQUEST_writes [writes_intros]:
  "TPM2_PolicyAuthorizeNV_REQUEST_valid x \<Longrightarrow> writes (TPM2_PolicyAuthorizeNV_REQUEST_toTpm x) (TPM2_PolicyAuthorizeNV_REQUEST_enc x)"
  unfolding TPM2_PolicyAuthorizeNV_REQUEST_toTpm_def TPM2_PolicyAuthorizeNV_REQUEST_enc_def
  by (intro writes_intros; simp add: TPM2_PolicyAuthorizeNV_REQUEST_valid_def opt_ok_iff)

lemma TPM2_PolicyAuthorizeNV_REQUEST_reads:
  "TPM2_PolicyAuthorizeNV_REQUEST_valid x \<Longrightarrow> reads (TPM2_PolicyAuthorizeNV_REQUEST_initFromTpm TPM2_PolicyAuthorizeNV_REQUEST_default) x (TPM2_PolicyAuthorizeNV_REQUEST_enc x)"
  by (simp only: TPM2_PolicyAuthorizeNV_REQUEST_initFromTpm_def TPM2_PolicyAuthorizeNV_REQUEST_enc_def TPM2_PolicyAuthorizeNV_REQUEST_default_def
        TPM2_PolicyAuthorizeNV_REQUEST.select_convs TPM2_PolicyAuthorizeNV_REQUEST.update_convs;
      intro reads_intros; (rule TPM2_PolicyAuthorizeNV_REQUEST.equality)?; simp add: TPM2_PolicyAuthorizeNV_REQUEST_valid_def opt_ok_iff)

interpretation TPM2_PolicyAuthorizeNV_REQUEST_codec:
  tpm_codec TPM2_PolicyAuthorizeNV_REQUEST_toTpm TPM2_PolicyAuthorizeNV_REQUEST_initFromTpm TPM2_PolicyAuthorizeNV_REQUEST_default
    TPM2_PolicyAuthorizeNV_REQUEST_enc TPM2_PolicyAuthorizeNV_REQUEST_valid
  by unfold_locales (erule TPM2_PolicyAuthorizeNV_REQUEST_writes TPM2_PolicyAuthorizeNV_REQUEST_reads | simp add: TPM2_PolicyAuthorizeNV_REQUEST_toTpm_def writes_ret)+

definition TPM2_PolicyAuthorizeNV_REQUEST_req :: "TPM2_PolicyAuthorizeNV_REQUEST \<Rightarrow> TPM_HANDLE ReqStructure" where
  "TPM2_PolicyAuthorizeNV_REQUEST_req self =
     \<lparr>req_toTpm = TPM2_PolicyAuthorizeNV_REQUEST_toTpm self, req_numHandles = 3,
     req_numAuthHandles = 1, req_getHandles = [TPM2_PolicyAuthorizeNV_REQUEST_authHandle self, TPM2_PolicyAuthorizeNV_REQUEST_nvIndex self, TPM2_PolicyAuthorizeNV_REQUEST_policySession self], req_sessEncInfo = no_sessEncInfo\<rparr>"

end
