(* ===== verification/TpmTssTypes.thy ===== *)
theory TpmTssTypes
  imports TpmNvTypes
begin

text \<open>
  \<^verbatim>\<open>TSS.CPP/include/TpmTypes.h\<close> and \<^verbatim>\<open>TSS.CPP/Src/TpmTypes.cpp\<close>: structures of the TSS itself.

  For each class \<open>X\<close> of the source: the record \<open>X\<close> of its members, \<open>X_default\<close> (its default
  constructor; members that C++ leaves uninitialised are 0), \<open>X_toTpm\<close> and \<open>X_initFromTpm\<close>; then
  the wire format \<open>X_enc\<close>, the values \<open>X_valid\<close> it can carry, and the proof that the methods
  implement it (the interpretation \<open>X_codec\<close>).
\<close>

subsection \<open>TssObject\<close>

text \<open>Contains the public and the plaintext-sensitive and/or encrypted private part of a TPM key (or other object).\<close>

record TssObject =
  TssObject_Public :: "TPMT_PUBLIC"
  TssObject_Sensitive :: "TPMT_SENSITIVE"
  TssObject_Private :: "TPM2B_PRIVATE"

definition TssObject_default :: TssObject where
  "TssObject_default = \<lparr>TssObject_Public = TPMT_PUBLIC_default, TssObject_Sensitive = TPMT_SENSITIVE_default, TssObject_Private = TPM2B_PRIVATE_default\<rparr>"

definition TssObject_toTpm :: "TssObject \<Rightarrow> unit tpm" where
  "TssObject_toTpm self =
     wseq [TPMT_PUBLIC_toTpm (TssObject_Public self),
       TPMT_SENSITIVE_toTpm (TssObject_Sensitive self),
       TPM2B_PRIVATE_toTpm (TssObject_Private self)]"

definition TssObject_initFromTpm :: "TssObject \<Rightarrow> TssObject tpm" where
  "TssObject_initFromTpm self =
     sbind (TPMT_PUBLIC_initFromTpm (TssObject_Public self)) (\<lambda>Public.
     sbind (TPMT_SENSITIVE_initFromTpm (TssObject_Sensitive self)) (\<lambda>Sensitive.
     sbind (TPM2B_PRIVATE_initFromTpm (TssObject_Private self)) (\<lambda>Private.
     ret (self\<lparr>TssObject_Public := Public, TssObject_Sensitive := Sensitive, TssObject_Private := Private\<rparr>))))"

definition TssObject_enc :: "TssObject \<Rightarrow> ByteVec" where
  "TssObject_enc x =
     TPMT_PUBLIC_enc (TssObject_Public x) @
     TPMT_SENSITIVE_enc (TssObject_Sensitive x) @
     TPM2B_PRIVATE_enc (TssObject_Private x)"

definition TssObject_valid :: "TssObject \<Rightarrow> bool" where
  "TssObject_valid x \<longleftrightarrow>
     TPMT_PUBLIC_valid (TssObject_Public x) \<and>
     TPMT_SENSITIVE_valid (TssObject_Sensitive x) \<and>
     TPM2B_PRIVATE_valid (TssObject_Private x)"

lemma TssObject_writes [writes_intros]:
  "TssObject_valid x \<Longrightarrow> writes (TssObject_toTpm x) (TssObject_enc x)"
  unfolding TssObject_toTpm_def TssObject_enc_def
  by (intro writes_intros; simp add: TssObject_valid_def opt_ok_iff)

lemma TssObject_reads:
  "TssObject_valid x \<Longrightarrow> reads (TssObject_initFromTpm TssObject_default) x (TssObject_enc x)"
  by (simp only: TssObject_initFromTpm_def TssObject_enc_def TssObject_default_def
        TssObject.select_convs TssObject.update_convs;
      intro reads_intros; (rule TssObject.equality)?; simp add: TssObject_valid_def opt_ok_iff)

interpretation TssObject_codec:
  tpm_codec TssObject_toTpm TssObject_initFromTpm TssObject_default
    TssObject_enc TssObject_valid
  by unfold_locales (erule TssObject_writes TssObject_reads | simp add: TssObject_enc_def)+

subsection \<open>PcrValue\<close>

text \<open>Contains a PCR index and associated hash(pcr-value) [TSS].\<close>

record PcrValue =
  PcrValue_index :: "UINT32"
  PcrValue_value :: "TPMT_HA"

definition PcrValue_default :: PcrValue where
  "PcrValue_default = \<lparr>PcrValue_index = 0, PcrValue_value = TPMT_HA_default\<rparr>"

definition PcrValue_toTpm :: "PcrValue \<Rightarrow> unit tpm" where
  "PcrValue_toTpm self =
     wseq [writeInt (PcrValue_index self),
       TPMT_HA_toTpm (PcrValue_value self)]"

definition PcrValue_initFromTpm :: "PcrValue \<Rightarrow> PcrValue tpm" where
  "PcrValue_initFromTpm self =
     sbind readInt (\<lambda>index.
     sbind (TPMT_HA_initFromTpm (PcrValue_value self)) (\<lambda>value.
     ret (self\<lparr>PcrValue_index := index, PcrValue_value := value\<rparr>)))"

definition PcrValue_enc :: "PcrValue \<Rightarrow> ByteVec" where
  "PcrValue_enc x =
     enc32 (PcrValue_index x) @
     TPMT_HA_enc (PcrValue_value x)"

definition PcrValue_valid :: "PcrValue \<Rightarrow> bool" where
  "PcrValue_valid x \<longleftrightarrow>
     TPMT_HA_valid (PcrValue_value x)"

lemma PcrValue_writes [writes_intros]:
  "PcrValue_valid x \<Longrightarrow> writes (PcrValue_toTpm x) (PcrValue_enc x)"
  unfolding PcrValue_toTpm_def PcrValue_enc_def
  by (intro writes_intros; simp add: PcrValue_valid_def opt_ok_iff)

lemma PcrValue_reads:
  "PcrValue_valid x \<Longrightarrow> reads (PcrValue_initFromTpm PcrValue_default) x (PcrValue_enc x)"
  by (simp only: PcrValue_initFromTpm_def PcrValue_enc_def PcrValue_default_def
        PcrValue.select_convs PcrValue.update_convs;
      intro reads_intros; (rule PcrValue.equality)?; simp add: PcrValue_valid_def opt_ok_iff)

interpretation PcrValue_codec:
  tpm_codec PcrValue_toTpm PcrValue_initFromTpm PcrValue_default
    PcrValue_enc PcrValue_valid
  by unfold_locales (erule PcrValue_writes PcrValue_reads | simp add: PcrValue_enc_def)+

subsection \<open>SessionIn\<close>

text \<open>Structure representing a session block in a command buffer [TSS].\<close>

record SessionIn =
  SessionIn_handle :: "TPM_HANDLE"
  SessionIn_nonceCaller :: "ByteVec"
  SessionIn_attributes :: "TPMA_SESSION"
  SessionIn_auth :: "ByteVec"

definition SessionIn_default :: SessionIn where
  "SessionIn_default = \<lparr>SessionIn_handle = TPM_HANDLE_default, SessionIn_nonceCaller = [], SessionIn_attributes = 0, SessionIn_auth = []\<rparr>"

definition SessionIn_toTpm :: "SessionIn \<Rightarrow> unit tpm" where
  "SessionIn_toTpm self =
     wseq [TPM_HANDLE_toTpm (SessionIn_handle self),
       writeSizedByteBuf (SessionIn_nonceCaller self) 2,
       writeByte (SessionIn_attributes self),
       writeSizedByteBuf (SessionIn_auth self) 2]"

definition SessionIn_initFromTpm :: "SessionIn \<Rightarrow> SessionIn tpm" where
  "SessionIn_initFromTpm self =
     sbind (TPM_HANDLE_initFromTpm (SessionIn_handle self)) (\<lambda>handle.
     sbind (readSizedByteBuf 2) (\<lambda>nonceCaller.
     sbind readByte (\<lambda>attributes.
     sbind (readSizedByteBuf 2) (\<lambda>auth.
     ret (self\<lparr>SessionIn_handle := handle, SessionIn_nonceCaller := nonceCaller, SessionIn_attributes := attributes, SessionIn_auth := auth\<rparr>)))))"

definition SessionIn_enc :: "SessionIn \<Rightarrow> ByteVec" where
  "SessionIn_enc x =
     TPM_HANDLE_enc (SessionIn_handle x) @
     enc_sized 2 (SessionIn_nonceCaller x) @
     enc8 (SessionIn_attributes x) @
     enc_sized 2 (SessionIn_auth x)"

definition SessionIn_valid :: "SessionIn \<Rightarrow> bool" where
  "SessionIn_valid x \<longleftrightarrow>
     TPM_HANDLE_valid (SessionIn_handle x) \<and>
     sized_ok 2 (SessionIn_nonceCaller x) \<and>
     sized_ok 2 (SessionIn_auth x)"

lemma SessionIn_writes [writes_intros]:
  "SessionIn_valid x \<Longrightarrow> writes (SessionIn_toTpm x) (SessionIn_enc x)"
  unfolding SessionIn_toTpm_def SessionIn_enc_def
  by (intro writes_intros; simp add: SessionIn_valid_def opt_ok_iff)

lemma SessionIn_reads:
  "SessionIn_valid x \<Longrightarrow> reads (SessionIn_initFromTpm SessionIn_default) x (SessionIn_enc x)"
  by (simp only: SessionIn_initFromTpm_def SessionIn_enc_def SessionIn_default_def
        SessionIn.select_convs SessionIn.update_convs;
      intro reads_intros; (rule SessionIn.equality)?; simp add: SessionIn_valid_def opt_ok_iff)

interpretation SessionIn_codec:
  tpm_codec SessionIn_toTpm SessionIn_initFromTpm SessionIn_default
    SessionIn_enc SessionIn_valid
  by unfold_locales (erule SessionIn_writes SessionIn_reads | simp add: SessionIn_enc_def)+

subsection \<open>SessionOut\<close>

text \<open>Structure representing a session block in a response buffer [TSS].\<close>

record SessionOut =
  SessionOut_nonceTpm :: "ByteVec"
  SessionOut_attributes :: "TPMA_SESSION"
  SessionOut_auth :: "ByteVec"

definition SessionOut_default :: SessionOut where
  "SessionOut_default = \<lparr>SessionOut_nonceTpm = [], SessionOut_attributes = 0, SessionOut_auth = []\<rparr>"

definition SessionOut_toTpm :: "SessionOut \<Rightarrow> unit tpm" where
  "SessionOut_toTpm self =
     wseq [writeSizedByteBuf (SessionOut_nonceTpm self) 2,
       writeByte (SessionOut_attributes self),
       writeSizedByteBuf (SessionOut_auth self) 2]"

definition SessionOut_initFromTpm :: "SessionOut \<Rightarrow> SessionOut tpm" where
  "SessionOut_initFromTpm self =
     sbind (readSizedByteBuf 2) (\<lambda>nonceTpm.
     sbind readByte (\<lambda>attributes.
     sbind (readSizedByteBuf 2) (\<lambda>auth.
     ret (self\<lparr>SessionOut_nonceTpm := nonceTpm, SessionOut_attributes := attributes, SessionOut_auth := auth\<rparr>))))"

definition SessionOut_enc :: "SessionOut \<Rightarrow> ByteVec" where
  "SessionOut_enc x =
     enc_sized 2 (SessionOut_nonceTpm x) @
     enc8 (SessionOut_attributes x) @
     enc_sized 2 (SessionOut_auth x)"

definition SessionOut_valid :: "SessionOut \<Rightarrow> bool" where
  "SessionOut_valid x \<longleftrightarrow>
     sized_ok 2 (SessionOut_nonceTpm x) \<and>
     sized_ok 2 (SessionOut_auth x)"

lemma SessionOut_writes [writes_intros]:
  "SessionOut_valid x \<Longrightarrow> writes (SessionOut_toTpm x) (SessionOut_enc x)"
  unfolding SessionOut_toTpm_def SessionOut_enc_def
  by (intro writes_intros; simp add: SessionOut_valid_def opt_ok_iff)

lemma SessionOut_reads:
  "SessionOut_valid x \<Longrightarrow> reads (SessionOut_initFromTpm SessionOut_default) x (SessionOut_enc x)"
  by (simp only: SessionOut_initFromTpm_def SessionOut_enc_def SessionOut_default_def
        SessionOut.select_convs SessionOut.update_convs;
      intro reads_intros; (rule SessionOut.equality)?; simp add: SessionOut_valid_def opt_ok_iff)

interpretation SessionOut_codec:
  tpm_codec SessionOut_toTpm SessionOut_initFromTpm SessionOut_default
    SessionOut_enc SessionOut_valid
  by unfold_locales (erule SessionOut_writes SessionOut_reads | simp add: SessionOut_enc_def)+

subsection \<open>CommandHeader\<close>

text \<open>Command header [TSS].\<close>

record CommandHeader =
  CommandHeader_Tag :: "TPM_ST"
  CommandHeader_CommandSize :: "UINT32"
  CommandHeader_CommandCode :: "TPM_CC"

definition CommandHeader_default :: CommandHeader where
  "CommandHeader_default = \<lparr>CommandHeader_Tag = 0, CommandHeader_CommandSize = 0, CommandHeader_CommandCode = 0\<rparr>"

definition CommandHeader_toTpm :: "CommandHeader \<Rightarrow> unit tpm" where
  "CommandHeader_toTpm self =
     wseq [writeShort (CommandHeader_Tag self),
       writeInt (CommandHeader_CommandSize self),
       writeInt (CommandHeader_CommandCode self)]"

definition CommandHeader_initFromTpm :: "CommandHeader \<Rightarrow> CommandHeader tpm" where
  "CommandHeader_initFromTpm self =
     sbind readShort (\<lambda>Tag.
     sbind readInt (\<lambda>CommandSize.
     sbind readInt (\<lambda>CommandCode.
     ret (self\<lparr>CommandHeader_Tag := Tag, CommandHeader_CommandSize := CommandSize, CommandHeader_CommandCode := CommandCode\<rparr>))))"

definition CommandHeader_enc :: "CommandHeader \<Rightarrow> ByteVec" where
  "CommandHeader_enc x =
     enc16 (CommandHeader_Tag x) @
     enc32 (CommandHeader_CommandSize x) @
     enc32 (CommandHeader_CommandCode x)"

definition CommandHeader_valid :: "CommandHeader \<Rightarrow> bool" where
  "CommandHeader_valid x \<longleftrightarrow>
     True"

lemma CommandHeader_writes [writes_intros]:
  "CommandHeader_valid x \<Longrightarrow> writes (CommandHeader_toTpm x) (CommandHeader_enc x)"
  unfolding CommandHeader_toTpm_def CommandHeader_enc_def
  by (intro writes_intros; simp add: CommandHeader_valid_def opt_ok_iff)

lemma CommandHeader_reads:
  "CommandHeader_valid x \<Longrightarrow> reads (CommandHeader_initFromTpm CommandHeader_default) x (CommandHeader_enc x)"
  by (simp only: CommandHeader_initFromTpm_def CommandHeader_enc_def CommandHeader_default_def
        CommandHeader.select_convs CommandHeader.update_convs;
      intro reads_intros; (rule CommandHeader.equality)?; simp add: CommandHeader_valid_def opt_ok_iff)

interpretation CommandHeader_codec:
  tpm_codec CommandHeader_toTpm CommandHeader_initFromTpm CommandHeader_default
    CommandHeader_enc CommandHeader_valid
  by unfold_locales (erule CommandHeader_writes CommandHeader_reads | simp add: CommandHeader_enc_def)+

subsection \<open>TSS_KEY\<close>

text \<open>Contains the public and private part of a TPM key.\<close>

record TSS_KEY =
  TSS_KEY_publicPart :: "TPMT_PUBLIC"
  TSS_KEY_privatePart :: "ByteVec"

definition TSS_KEY_default :: TSS_KEY where
  "TSS_KEY_default = \<lparr>TSS_KEY_publicPart = TPMT_PUBLIC_default, TSS_KEY_privatePart = []\<rparr>"

definition TSS_KEY_toTpm :: "TSS_KEY \<Rightarrow> unit tpm" where
  "TSS_KEY_toTpm self =
     wseq [TPMT_PUBLIC_toTpm (TSS_KEY_publicPart self),
       writeSizedByteBuf (TSS_KEY_privatePart self) 2]"

definition TSS_KEY_initFromTpm :: "TSS_KEY \<Rightarrow> TSS_KEY tpm" where
  "TSS_KEY_initFromTpm self =
     sbind (TPMT_PUBLIC_initFromTpm (TSS_KEY_publicPart self)) (\<lambda>publicPart.
     sbind (readSizedByteBuf 2) (\<lambda>privatePart.
     ret (self\<lparr>TSS_KEY_publicPart := publicPart, TSS_KEY_privatePart := privatePart\<rparr>)))"

definition TSS_KEY_enc :: "TSS_KEY \<Rightarrow> ByteVec" where
  "TSS_KEY_enc x =
     TPMT_PUBLIC_enc (TSS_KEY_publicPart x) @
     enc_sized 2 (TSS_KEY_privatePart x)"

definition TSS_KEY_valid :: "TSS_KEY \<Rightarrow> bool" where
  "TSS_KEY_valid x \<longleftrightarrow>
     TPMT_PUBLIC_valid (TSS_KEY_publicPart x) \<and>
     sized_ok 2 (TSS_KEY_privatePart x)"

lemma TSS_KEY_writes [writes_intros]:
  "TSS_KEY_valid x \<Longrightarrow> writes (TSS_KEY_toTpm x) (TSS_KEY_enc x)"
  unfolding TSS_KEY_toTpm_def TSS_KEY_enc_def
  by (intro writes_intros; simp add: TSS_KEY_valid_def opt_ok_iff)

lemma TSS_KEY_reads:
  "TSS_KEY_valid x \<Longrightarrow> reads (TSS_KEY_initFromTpm TSS_KEY_default) x (TSS_KEY_enc x)"
  by (simp only: TSS_KEY_initFromTpm_def TSS_KEY_enc_def TSS_KEY_default_def
        TSS_KEY.select_convs TSS_KEY.update_convs;
      intro reads_intros; (rule TSS_KEY.equality)?; simp add: TSS_KEY_valid_def opt_ok_iff)

interpretation TSS_KEY_codec:
  tpm_codec TSS_KEY_toTpm TSS_KEY_initFromTpm TSS_KEY_default
    TSS_KEY_enc TSS_KEY_valid
  by unfold_locales (erule TSS_KEY_writes TSS_KEY_reads | simp add: TSS_KEY_enc_def)+

end
