(* ===== verification/TpmPolicy.thy ===== *)
theory TpmPolicy
  imports Tpm2Dispatch TpmPolicyCommands TpmTssTypes
begin

text \<open>
  \<^verbatim>\<open>TSS.CPP/include/TpmPolicy.h\<close> and \<^verbatim>\<open>TSS.CPP/Src/TpmPolicy.cpp\<close>: policy expressions, the digest the
  library computes for them in software, their branch identifiers, and their execution on a TPM.

  Each class derived from \<open>PABase\<close> is a constructor, its first argument the tag. A chain is a list, and is
  evaluated from its end; \<open>PolicyOr\<close> holds a list of chains. Cloning is the identity.
\<close>

datatype PABase =
    PolicyLocality string TPMA_LOCALITY
  | PolicyPhysicalPresence string
  | PolicyOr string "PABase list list"
  | PolicyPcr string "TPM2B_DIGEST list" "TPMS_PCR_SELECTION list"
  | PolicyCommandCode string TPM_CC
  | PolicyCpHash string ByteVec
  | PolicyCounterTimer string ByteVec UINT16 TPM_EO
  | PolicyNameHash string ByteVec
  | PolicyAuthValue string
  | PolicyPassword string
  | PolicyNV string ByteVec UINT16 TPM_EO TPM_HANDLE TPM_HANDLE ByteVec bool
      \<comment> \<open>operand, offset, operation, authorizing handle, index, its name, callback needed\<close>
  | PolicySigned string bool ByteVec ByteVec UINT32 TPMT_PUBLIC TSS_KEY bool
      \<comment> \<open>with nonce, cpHashA, policyRef, expiration, public key, full key, callback needed\<close>
  | PolicyAuthorize string ByteVec ByteVec TPMT_PUBLIC "TPMU_SIGNATURE option"
      \<comment> \<open>approved policy, policyRef, authorizing key, signature\<close>
  | PolicySecret string bool ByteVec ByteVec UINT32 ByteVec TPM_HANDLE bool
      \<comment> \<open>with nonce, cpHashA, policyRef, expiration, object's name, its handle, callback needed\<close>
  | PolicyTicket string bool ByteVec ByteVec UINT32 TPMT_PUBLIC TSS_KEY bool
  | PolicyDuplicationSelect string ByteVec ByteVec bool

fun Tag :: "PABase \<Rightarrow> string" where
  "Tag (PolicyLocality tag _) = tag"
| "Tag (PolicyPhysicalPresence tag) = tag"
| "Tag (PolicyOr tag _) = tag"
| "Tag (PolicyPcr tag _ _) = tag"
| "Tag (PolicyCommandCode tag _) = tag"
| "Tag (PolicyCpHash tag _) = tag"
| "Tag (PolicyCounterTimer tag _ _ _) = tag"
| "Tag (PolicyNameHash tag _) = tag"
| "Tag (PolicyAuthValue tag) = tag"
| "Tag (PolicyPassword tag) = tag"
| "Tag (PolicyNV tag _ _ _ _ _ _ _) = tag"
| "Tag (PolicySigned tag _ _ _ _ _ _ _) = tag"
| "Tag (PolicyAuthorize tag _ _ _ _) = tag"
| "Tag (PolicySecret tag _ _ _ _ _ _ _) = tag"
| "Tag (PolicyTicket tag _ _ _ _ _ _ _) = tag"
| "Tag (PolicyDuplicationSelect tag _ _ _) = tag"

section \<open>The digest of a policy\<close>

definition buf_bytes :: "unit tpm list \<Rightarrow> ByteVec outcome" where
  "buf_bytes ms = outcome_of (sseq (wseq ms) trim) (TpmBuffer_new default_capacity)"

definition extend_buf :: "Openssl \<Rightarrow> unit tpm list \<Rightarrow> TPMT_HA \<Rightarrow> TPMT_HA outcome" where
  "extend_buf ossl ms accumulator = obind (buf_bytes ms) (\<lambda>b. Extend ossl b accumulator)"

definition PolicyUpdate :: "Openssl \<Rightarrow> TPM_CC \<Rightarrow> ByteVec \<Rightarrow> ByteVec \<Rightarrow> TPMT_HA \<Rightarrow> TPMT_HA outcome" where
  "PolicyUpdate ossl commandCode arg2 arg3 policyDigest =
     obind (extend_buf ossl [writeInt commandCode, writeByteBuf arg2] policyDigest) (Extend ossl arg3)"

definition GetOpDigest :: "Openssl \<Rightarrow> TPM_ALG_ID \<Rightarrow> ByteVec \<Rightarrow> UINT16 \<Rightarrow> TPM_EO \<Rightarrow> ByteVec outcome" where
  "GetOpDigest ossl hashAlg OperandB Offset Operation =
     obind (buf_bytes [writeByteBuf OperandB, writeShort Offset, writeShort Operation])
       (Hash_all ossl hashAlg)"

text \<open>The method \<open>UpdatePolicyDigest\<close> of each class; \<open>PolicyOr\<close> takes the digests of its branches.\<close>

definition PolicyLocality_UpdatePolicyDigest :: "Openssl \<Rightarrow> TPMA_LOCALITY \<Rightarrow> TPMT_HA \<Rightarrow> TPMT_HA outcome" where
  "PolicyLocality_UpdatePolicyDigest ossl Locality accumulator =
     extend_buf ossl [writeInt TPM_CC_PolicyLocality, writeByte Locality] accumulator"

definition PolicyPhysicalPresence_UpdatePolicyDigest :: "Openssl \<Rightarrow> TPMT_HA \<Rightarrow> TPMT_HA outcome" where
  "PolicyPhysicalPresence_UpdatePolicyDigest ossl accumulator =
     obind (Int32ToTpm TPM_CC_PolicyPhysicalPresence) (\<lambda>b. Extend ossl b accumulator)"

definition PolicyOr_UpdatePolicyDigest ::
  "Openssl \<Rightarrow> (TpmBuffer \<Rightarrow> TpmBuffer outcome) \<Rightarrow> TPMT_HA \<Rightarrow> TPMT_HA outcome" where
  "PolicyOr_UpdatePolicyDigest ossl write_Branches accumulator =
     obind (on_buf (writeInt TPM_CC_PolicyOR) (TpmBuffer_new default_capacity)) (\<lambda>(_, buf).
       obind (write_Branches buf) (\<lambda>buf.
         obind (outcome_of trim buf) (\<lambda>b. Extend ossl b (Reset accumulator))))"

definition PolicyPcr_UpdatePolicyDigest ::
  "Openssl \<Rightarrow> TPM2B_DIGEST list \<Rightarrow> TPMS_PCR_SELECTION list \<Rightarrow> TPMT_HA \<Rightarrow> TPMT_HA outcome" where
  "PolicyPcr_UpdatePolicyDigest ossl PcrValues Pcrs accumulator =
     obind (HashPcrs ossl (TPMT_HA_hashAlg accumulator) (map TPM2B_DIGEST_buffer PcrValues)) (\<lambda>d.
       extend_buf ossl ([writeInt TPM_CC_PolicyPCR, writeInt (of_nat (length Pcrs))] @
         map TPMS_PCR_SELECTION_toTpm Pcrs @ [writeByteBuf d]) accumulator)"

definition PolicyCommandCode_UpdatePolicyDigest :: "Openssl \<Rightarrow> TPM_CC \<Rightarrow> TPMT_HA \<Rightarrow> TPMT_HA outcome" where
  "PolicyCommandCode_UpdatePolicyDigest ossl CommandCode accumulator =
     extend_buf ossl [writeInt TPM_CC_PolicyCommandCode, writeInt CommandCode] accumulator"

definition PolicyCpHash_UpdatePolicyDigest :: "Openssl \<Rightarrow> ByteVec \<Rightarrow> TPMT_HA \<Rightarrow> TPMT_HA outcome" where
  "PolicyCpHash_UpdatePolicyDigest ossl CpHash accumulator =
     extend_buf ossl [writeInt TPM_CC_PolicyCpHash, writeByteBuf CpHash] accumulator"

definition PolicyCounterTimer_UpdatePolicyDigest ::
  "Openssl \<Rightarrow> ByteVec \<Rightarrow> UINT16 \<Rightarrow> TPM_EO \<Rightarrow> TPMT_HA \<Rightarrow> TPMT_HA outcome" where
  "PolicyCounterTimer_UpdatePolicyDigest ossl OperandB Offset Operation accumulator =
     obind (GetOpDigest ossl (TPMT_HA_hashAlg accumulator) OperandB Offset Operation) (\<lambda>d.
       extend_buf ossl [writeInt TPM_CC_PolicyCounterTimer, writeByteBuf d] accumulator)"

definition PolicyNameHash_UpdatePolicyDigest :: "Openssl \<Rightarrow> ByteVec \<Rightarrow> TPMT_HA \<Rightarrow> TPMT_HA outcome" where
  "PolicyNameHash_UpdatePolicyDigest ossl NameHash accumulator =
     extend_buf ossl [writeInt TPM_CC_PolicyNameHash, writeByteBuf NameHash] accumulator"

definition PolicyAuthValue_UpdatePolicyDigest :: "Openssl \<Rightarrow> TPMT_HA \<Rightarrow> TPMT_HA outcome" where
  "PolicyAuthValue_UpdatePolicyDigest ossl accumulator =
     obind (Int32ToTpm TPM_CC_PolicyAuthValue) (\<lambda>b. Extend ossl b accumulator)"

definition PolicyPassword_UpdatePolicyDigest :: "Openssl \<Rightarrow> TPMT_HA \<Rightarrow> TPMT_HA outcome" where
  "PolicyPassword_UpdatePolicyDigest ossl accumulator =
     obind (Int32ToTpm TPM_CC_PolicyAuthValue) (\<lambda>b. Extend ossl b accumulator)"

definition PolicyNV_UpdatePolicyDigest ::
  "Openssl \<Rightarrow> ByteVec \<Rightarrow> UINT16 \<Rightarrow> TPM_EO \<Rightarrow> ByteVec \<Rightarrow> TPMT_HA \<Rightarrow> TPMT_HA outcome" where
  "PolicyNV_UpdatePolicyDigest ossl OperandB Offset Operation NvIndexName accumulator =
     obind (GetOpDigest ossl (TPMT_HA_hashAlg accumulator) OperandB Offset Operation) (\<lambda>d.
       extend_buf ossl [writeInt TPM_CC_PolicyNV, writeByteBuf d, writeByteBuf NvIndexName] accumulator)"

definition PolicySigned_UpdatePolicyDigest ::
  "Openssl \<Rightarrow> ByteVec \<Rightarrow> TPMT_PUBLIC \<Rightarrow> TPMT_HA \<Rightarrow> TPMT_HA outcome" where
  "PolicySigned_UpdatePolicyDigest ossl PolicyRef PublicKey accumulator =
     obind (TPMT_PUBLIC_GetName ossl PublicKey) (\<lambda>n.
       PolicyUpdate ossl TPM_CC_PolicySigned n PolicyRef accumulator)"

definition PolicyAuthorize_UpdatePolicyDigest ::
  "Openssl \<Rightarrow> ByteVec \<Rightarrow> TPMT_PUBLIC \<Rightarrow> TPMT_HA \<Rightarrow> TPMT_HA outcome" where
  "PolicyAuthorize_UpdatePolicyDigest ossl PolicyRef AuthorizingKey accumulator =
     (let accumulator = Reset accumulator in
      obind (TPMT_PUBLIC_GetName ossl AuthorizingKey) (\<lambda>n.
        PolicyUpdate ossl TPM_CC_PolicyAuthorize n PolicyRef accumulator))"

definition PolicySecret_UpdatePolicyDigest ::
  "Openssl \<Rightarrow> ByteVec \<Rightarrow> ByteVec \<Rightarrow> TPMT_HA \<Rightarrow> TPMT_HA outcome" where
  "PolicySecret_UpdatePolicyDigest ossl PolicyRef AuthObjectName accumulator =
     PolicyUpdate ossl TPM_CC_PolicySecret AuthObjectName PolicyRef accumulator"

definition PolicyDuplicationSelect_UpdatePolicyDigest ::
  "Openssl \<Rightarrow> ByteVec \<Rightarrow> ByteVec \<Rightarrow> bool \<Rightarrow> TPMT_HA \<Rightarrow> TPMT_HA outcome" where
  "PolicyDuplicationSelect_UpdatePolicyDigest ossl ObjectName NewParentName IncludeObjectName accumulator =
     extend_buf ossl ([writeInt TPM_CC_PolicyDuplicationSelect] @
       (if IncludeObjectName then [writeByteBuf ObjectName] else []) @
       [writeByteBuf NewParentName, writeByte (if IncludeObjectName then 1 else 0)]) accumulator"

definition PolicyTicket_UpdatePolicyDigest :: "TPMT_HA \<Rightarrow> TPMT_HA outcome" where
  "PolicyTicket_UpdatePolicyDigest accumulator = AssertFailed"

text \<open>The virtual call, and the digest of a chain: it takes in the chain's last element first.\<close>

fun UpdatePolicyDigest :: "Openssl \<Rightarrow> PABase \<Rightarrow> TPMT_HA \<Rightarrow> TPMT_HA outcome"
  and update_chain :: "Openssl \<Rightarrow> PABase list \<Rightarrow> TPMT_HA \<Rightarrow> TPMT_HA outcome"
  and write_branches :: "Openssl \<Rightarrow> PABase list list \<Rightarrow> TPM_ALG_ID \<Rightarrow> TpmBuffer \<Rightarrow> TpmBuffer outcome" where
  "UpdatePolicyDigest ossl (PolicyLocality _ loc) acc = PolicyLocality_UpdatePolicyDigest ossl loc acc"
| "UpdatePolicyDigest ossl (PolicyPhysicalPresence _) acc = PolicyPhysicalPresence_UpdatePolicyDigest ossl acc"
| "UpdatePolicyDigest ossl (PolicyOr _ Branches) acc =
     PolicyOr_UpdatePolicyDigest ossl (write_branches ossl Branches (TPMT_HA_hashAlg acc)) acc"
| "UpdatePolicyDigest ossl (PolicyPcr _ vals pcrs) acc = PolicyPcr_UpdatePolicyDigest ossl vals pcrs acc"
| "UpdatePolicyDigest ossl (PolicyCommandCode _ cc) acc = PolicyCommandCode_UpdatePolicyDigest ossl cc acc"
| "UpdatePolicyDigest ossl (PolicyCpHash _ h) acc = PolicyCpHash_UpdatePolicyDigest ossl h acc"
| "UpdatePolicyDigest ossl (PolicyCounterTimer _ b off op) acc =
     PolicyCounterTimer_UpdatePolicyDigest ossl b off op acc"
| "UpdatePolicyDigest ossl (PolicyNameHash _ h) acc = PolicyNameHash_UpdatePolicyDigest ossl h acc"
| "UpdatePolicyDigest ossl (PolicyAuthValue _) acc = PolicyAuthValue_UpdatePolicyDigest ossl acc"
| "UpdatePolicyDigest ossl (PolicyPassword _) acc = PolicyPassword_UpdatePolicyDigest ossl acc"
| "UpdatePolicyDigest ossl (PolicyNV _ b off op _ _ name _) acc =
     PolicyNV_UpdatePolicyDigest ossl b off op name acc"
| "UpdatePolicyDigest ossl (PolicySigned _ _ _ ref _ key _ _) acc =
     PolicySigned_UpdatePolicyDigest ossl ref key acc"
| "UpdatePolicyDigest ossl (PolicyAuthorize _ _ ref key _) acc =
     PolicyAuthorize_UpdatePolicyDigest ossl ref key acc"
| "UpdatePolicyDigest ossl (PolicySecret _ _ _ ref _ name _ _) acc =
     PolicySecret_UpdatePolicyDigest ossl ref name acc"
| "UpdatePolicyDigest ossl (PolicyTicket _ _ _ _ _ _ _ _) acc = PolicyTicket_UpdatePolicyDigest acc"
| "UpdatePolicyDigest ossl (PolicyDuplicationSelect _ obj parent inc) acc =
     PolicyDuplicationSelect_UpdatePolicyDigest ossl obj parent inc acc"
| "update_chain ossl [] acc = Ok acc"
| "update_chain ossl (p # ps) acc = obind (update_chain ossl ps acc) (UpdatePolicyDigest ossl p)"
| "write_branches ossl [] hashAlg buf = Ok buf"
| "write_branches ossl (b # bs) hashAlg buf =
     obind (update_chain ossl b (TPMT_HA_of_alg hashAlg)) (\<lambda>d.
       obind (on_buf (writeByteBuf (TPMT_HA_digest d)) buf) (\<lambda>(_, buf).
         write_branches ossl bs hashAlg buf))"

lemmas assertion_defs =
  PolicyLocality_UpdatePolicyDigest_def PolicyPhysicalPresence_UpdatePolicyDigest_def
  PolicyOr_UpdatePolicyDigest_def PolicyPcr_UpdatePolicyDigest_def PolicyCommandCode_UpdatePolicyDigest_def
  PolicyCpHash_UpdatePolicyDigest_def PolicyCounterTimer_UpdatePolicyDigest_def
  PolicyNameHash_UpdatePolicyDigest_def PolicyAuthValue_UpdatePolicyDigest_def
  PolicyPassword_UpdatePolicyDigest_def PolicyNV_UpdatePolicyDigest_def PolicySigned_UpdatePolicyDigest_def
  PolicyAuthorize_UpdatePolicyDigest_def PolicySecret_UpdatePolicyDigest_def
  PolicyDuplicationSelect_UpdatePolicyDigest_def PolicyTicket_UpdatePolicyDigest_def

definition GetPolicyDigest :: "Openssl \<Rightarrow> PABase list \<Rightarrow> TPM_ALG_ID \<Rightarrow> TPMT_HA outcome" where
  "GetPolicyDigest ossl chain hashAlg = update_chain ossl chain (TPMT_HA_of_alg hashAlg)"

section \<open>Tags and branches\<close>

text \<open>
  The tags of a chain, checked one by one against all tags seen so far. The test
  \<open>typeid(chain[j]) == typeid(PolicyOr)\<close> compares a pointer type with a class and never holds.
\<close>

fun check_tags :: "PABase list \<Rightarrow> string list \<Rightarrow> string list outcome" where
  "check_tags [] allIds = Ok allIds"
| "check_tags (p # ps) allIds =
     (let id = Tag p in
      if id \<noteq> '''' then
        (if id \<in> set allIds
         then Throw (runtime_error (''Illegal repeated tag in policy expression:'' @ id))
         else check_tags ps (id # allIds))
      else check_tags ps allIds)"

text \<open>The last element of a chain is its branch's name, or a \<open>PolicyOr\<close> with branches of its own.\<close>

fun last_ids :: "PABase list \<Rightarrow> string list \<times> string list \<Rightarrow> (string list \<times> string list) outcome"
  and branches_ids :: "PABase list list \<Rightarrow> string list \<times> string list \<Rightarrow> (string list \<times> string list) outcome" where
  "last_ids [] st = Undef"
| "last_ids (p # q # ps) st = last_ids (q # ps) st"
| "last_ids [PolicyOr _ Branches] st = branches_ids Branches st"
| "last_ids [p] (branchIds, allIds) = Ok (branchIds @ [Tag p], allIds)"
| "branches_ids [] st = Ok st"
| "branches_ids (b # bs) (branchIds, allIds) =
     obind (obind (check_tags b allIds) (\<lambda>allIds. last_ids b (branchIds, allIds))) (branches_ids bs)"

definition GetBranchIdsInternal ::
  "PABase list \<Rightarrow> string list \<times> string list \<Rightarrow> (string list \<times> string list) outcome" where
  "GetBranchIdsInternal chain st = branches_ids [chain] st"

definition GetBranchIds :: "PABase list \<Rightarrow> string list outcome" where
  "GetBranchIds chain = obind (GetBranchIdsInternal chain ([], [])) (\<lambda>(chainIds, _). Ok chainIds)"

fun set_tag :: "string \<Rightarrow> PABase \<Rightarrow> PABase" where
  "set_tag tag (PolicyLocality _ a) = PolicyLocality tag a"
| "set_tag tag (PolicyPhysicalPresence _) = PolicyPhysicalPresence tag"
| "set_tag tag (PolicyOr _ a) = PolicyOr tag a"
| "set_tag tag (PolicyPcr _ a b) = PolicyPcr tag a b"
| "set_tag tag (PolicyCommandCode _ a) = PolicyCommandCode tag a"
| "set_tag tag (PolicyCpHash _ a) = PolicyCpHash tag a"
| "set_tag tag (PolicyCounterTimer _ a b c) = PolicyCounterTimer tag a b c"
| "set_tag tag (PolicyNameHash _ a) = PolicyNameHash tag a"
| "set_tag tag (PolicyAuthValue _) = PolicyAuthValue tag"
| "set_tag tag (PolicyPassword _) = PolicyPassword tag"
| "set_tag tag (PolicyNV _ a b c d e f g) = PolicyNV tag a b c d e f g"
| "set_tag tag (PolicySigned _ a b c d e f g) = PolicySigned tag a b c d e f g"
| "set_tag tag (PolicyAuthorize _ a b c d) = PolicyAuthorize tag a b c d"
| "set_tag tag (PolicySecret _ a b c d e f g) = PolicySecret tag a b c d e f g"
| "set_tag tag (PolicyTicket _ a b c d e f g) = PolicyTicket tag a b c d e f g"
| "set_tag tag (PolicyDuplicationSelect _ a b c) = PolicyDuplicationSelect tag a b c"

definition is_or :: "PABase \<Rightarrow> bool" where
  "is_or p = (case p of PolicyOr _ _ \<Rightarrow> True | _ \<Rightarrow> False)"

definition SetTree :: "PABase list \<Rightarrow> PABase list outcome" where
  "SetTree policyBranch = obind (GetBranchIdsInternal policyBranch ([], [])) (\<lambda>_.
     let lastOne = last policyBranch in
     Ok (if \<not> is_or lastOne \<and> Tag lastOne = ''''
         then butlast policyBranch @ [set_tag ''leaf'' lastOne] else policyBranch))"

definition GetBranchId :: "PABase list \<Rightarrow> string" where
  "GetBranchId chain = Tag (last chain)"

text \<open>
  The descent into a \<open>PolicyOr\<close> is guarded by \<open>typeid(lastOne) == typeid(PolicyOr*)\<close>, which compares
  \<open>PABase*\<close> with \<open>PolicyOr*\<close> and is never true: only the tag of the chain's own last element counts.
\<close>

definition ChainContainsBranch :: "PABase list \<Rightarrow> string \<Rightarrow> bool" where
  "ChainContainsBranch chain branchId \<longleftrightarrow> branchId = GetBranchId chain"

end
