(* ===== verification/PolicyDigest.thy ===== *)
theory PolicyDigest
  imports TpmPolicy
begin

unbundle bit_operations_syntax

text \<open>
  The digest that \<^verbatim>\<open>TpmPolicy.cpp\<close> computes for a policy: it always has its algorithm's size, every
  assertion extends it with the bytes that Part 3 of the TPM specification names for its command, and
  \<open>PolicyOr\<close> and \<open>PolicyAuthorize\<close> forget what came after them in the chain.
\<close>

section \<open>The digest keeps its size\<close>

lemma Extend_keeps_ha_ok:
  "ossl_ok ossl \<Longrightarrow> ha_ok ossl h \<Longrightarrow> Extend ossl x h = Ok h' \<Longrightarrow>
   ha_ok ossl h' \<and> TPMT_HA_hashAlg h' = TPMT_HA_hashAlg h"
  by (auto simp: Extend_extended ha_ok_extended)

lemma ha_ok_Reset_alg: "TPMT_HA_hashAlg (Reset h) = TPMT_HA_hashAlg h"
  by (simp add: Reset_def)

definition keeps_ha :: "Openssl \<Rightarrow> TPMT_HA \<Rightarrow> TPMT_HA outcome \<Rightarrow> bool" where
  "keeps_ha ossl h r \<longleftrightarrow> (\<forall>h'. r = Ok h' \<longrightarrow> ha_ok ossl h' \<and> TPMT_HA_hashAlg h' = TPMT_HA_hashAlg h)"

lemma keeps_ha_obind: "(\<And>x. keeps_ha ossl h (f x)) \<Longrightarrow> keeps_ha ossl h (obind r f)"
  by (auto simp: keeps_ha_def obind_eq_Ok)

lemma keeps_ha_Extend: "ossl_ok ossl \<Longrightarrow> ha_ok ossl h \<Longrightarrow> keeps_ha ossl h (Extend ossl x h)"
  by (auto simp: keeps_ha_def Extend_extended ha_ok_extended)

lemma keeps_ha_extend_buf: "ossl_ok ossl \<Longrightarrow> ha_ok ossl h \<Longrightarrow> keeps_ha ossl h (extend_buf ossl ms h)"
  unfolding extend_buf_def by (intro keeps_ha_obind keeps_ha_Extend)

lemma keeps_ha_PolicyUpdate:
  assumes "ossl_ok ossl" and "ha_ok ossl h"
  shows "keeps_ha ossl h (PolicyUpdate ossl cc a b h)"
  using keeps_ha_extend_buf [OF assms] keeps_ha_Extend [OF assms(1)]
  unfolding PolicyUpdate_def keeps_ha_def obind_eq_Ok by metis

lemma keeps_ha_Reset:
  "keeps_ha ossl (Reset h) r \<Longrightarrow> keeps_ha ossl h r"
  unfolding keeps_ha_def ha_ok_Reset_alg by assumption

lemma keeps_ha_prod: "(\<And>x y. keeps_ha ossl h (f x y)) \<Longrightarrow> keeps_ha ossl h (case p of (x, y) \<Rightarrow> f x y)"
  by (cases p) simp

lemma keeps_ha_assertion:
  assumes "ossl_ok ossl" and "ha_ok ossl acc"
  shows "keeps_ha ossl acc (UpdatePolicyDigest ossl p acc)"
proof -
  have failed: "keeps_ha ossl acc AssertFailed" by (simp add: keeps_ha_def)
  note reset = ha_ok_Reset [OF assms(2)]
  note steps = keeps_ha_Extend [OF assms] keeps_ha_extend_buf [OF assms] keeps_ha_PolicyUpdate [OF assms] failed
  note reset_steps = keeps_ha_Reset [OF keeps_ha_Extend [OF assms(1) reset]]
    keeps_ha_Reset [OF keeps_ha_PolicyUpdate [OF assms(1) reset]]
  show ?thesis
  proof (cases p)
    case (PolicyOr tag bs)
    then show ?thesis
      by (simp only: UpdatePolicyDigest.simps assertion_defs) (intro keeps_ha_obind keeps_ha_prod reset_steps)
  next
    case (PolicyAuthorize tag approved ref key sig)
    then show ?thesis
      by (simp only: UpdatePolicyDigest.simps assertion_defs Let_def) (intro keeps_ha_obind reset_steps)
  qed (simp only: UpdatePolicyDigest.simps assertion_defs Let_def; intro keeps_ha_obind steps)+
qed

lemma update_chain_keeps:
  "ossl_ok ossl \<Longrightarrow> ha_ok ossl acc \<Longrightarrow> keeps_ha ossl acc (update_chain ossl ps acc)"
proof (induction ps)
  case Nil
  then show ?case by (simp add: keeps_ha_def)
next
  case (Cons p ps)
  then show ?case
    using keeps_ha_assertion [OF Cons.prems(1)]
    unfolding update_chain.simps keeps_ha_def obind_eq_Ok by metis
qed

text \<open>A digest that is computed has the size of the chosen algorithm.\<close>

lemma GetPolicyDigest_ok:
  assumes "ossl_ok ossl" and "IsImplemented ossl alg" and "GetPolicyDigest ossl chain alg = Ok d"
  shows "ha_ok ossl d \<and> TPMT_HA_hashAlg d = alg"
  using update_chain_keeps [OF assms(1) ha_ok_of_alg [OF assms(2)]] assms(3)
  by (auto simp: GetPolicyDigest_def keeps_ha_def TPMT_HA_of_alg_def)

section \<open>What an assertion extends the digest with\<close>

lemma buf_bytes_enc:
  "writes (wseq ms) bs \<Longrightarrow> length bs \<le> 4096 \<Longrightarrow> buf_bytes ms = Ok bs"
  unfolding buf_bytes_def default_capacity_def by (simp only: writes_trim) simp

lemma extend_buf_enc:
  "ha_ok ossl acc \<Longrightarrow> writes (wseq ms) bs \<Longrightarrow> length bs \<le> 4096 \<Longrightarrow>
   extend_buf ossl ms acc = Ok (extended ossl acc bs)"
  by (simp add: extend_buf_def buf_bytes_enc Extend_extended)

lemma writes_two: "writes m xs \<Longrightarrow> writes k ys \<Longrightarrow> writes (wseq [m, k]) (xs @ ys)"
  by (intro writes_intros)

lemma writes_three:
  "writes m xs \<Longrightarrow> writes k ys \<Longrightarrow> writes l zs \<Longrightarrow> writes (wseq [m, k, l]) (xs @ ys @ zs)"
  by (intro writes_intros)

lemma PolicyUpdate_enc:
  assumes "ossl_ok ossl" and "ha_ok ossl acc" and "length a \<le> 4092"
  shows "PolicyUpdate ossl cc a b acc = Ok (extended ossl (extended ossl acc (enc32 cc @ a)) b)"
  using extend_buf_enc [OF assms(2) writes_two [OF writes_writeInt writes_writeByteBuf], of cc a]
    Extend_extended [OF ha_ok_extended [OF assms(1,2)]] assms(3)
  by (simp add: PolicyUpdate_def)

text \<open>
  The bytes of a simple assertion: the command code and its arguments, as the commands of Part 3
  extend the policy digest of a session on the TPM.
\<close>

definition op_digest :: "Openssl \<Rightarrow> TPM_ALG_ID \<Rightarrow> ByteVec \<Rightarrow> UINT16 \<Rightarrow> TPM_EO \<Rightarrow> ByteVec" where
  "op_digest ossl alg operandB offset operation =
     ossl_digest ossl alg (operandB @ enc16 offset @ enc16 operation)"

fun assertion_bytes :: "Openssl \<Rightarrow> TPM_ALG_ID \<Rightarrow> PABase \<Rightarrow> ByteVec option" where
  "assertion_bytes ossl alg (PolicyLocality _ l) = Some (enc32 TPM_CC_PolicyLocality @ enc8 l)"
| "assertion_bytes ossl alg (PolicyPhysicalPresence _) = Some (enc32 TPM_CC_PolicyPhysicalPresence)"
| "assertion_bytes ossl alg (PolicyCommandCode _ c) = Some (enc32 TPM_CC_PolicyCommandCode @ enc32 c)"
| "assertion_bytes ossl alg (PolicyCpHash _ h) = Some (enc32 TPM_CC_PolicyCpHash @ h)"
| "assertion_bytes ossl alg (PolicyNameHash _ h) = Some (enc32 TPM_CC_PolicyNameHash @ h)"
| "assertion_bytes ossl alg (PolicyAuthValue _) = Some (enc32 TPM_CC_PolicyAuthValue)"
| "assertion_bytes ossl alg (PolicyPassword _) = Some (enc32 TPM_CC_PolicyAuthValue)"
| "assertion_bytes ossl alg (PolicyCounterTimer _ b off op) =
     Some (enc32 TPM_CC_PolicyCounterTimer @ op_digest ossl alg b off op)"
| "assertion_bytes ossl alg (PolicyNV _ b off op _ _ name _) =
     Some (enc32 TPM_CC_PolicyNV @ op_digest ossl alg b off op @ name)"
| "assertion_bytes ossl alg (PolicyDuplicationSelect _ obj parent inc) =
     Some (enc32 TPM_CC_PolicyDuplicationSelect @ (if inc then obj else []) @ parent @
       enc8 (if inc then 1 else 0))"
| "assertion_bytes ossl alg _ = None"

lemma GetOpDigest_enc:
  assumes "IsImplemented ossl alg" and "length b \<le> 4092"
  shows "GetOpDigest ossl alg b off op = Ok (op_digest ossl alg b off op)"
proof -
  have "writes (wseq [writeByteBuf b, writeShort off, writeShort op]) (b @ enc16 off @ enc16 op)"
    by (intro writes_intros)
  from buf_bytes_enc [OF this] assms show ?thesis
    by (simp add: GetOpDigest_def op_digest_def Hash_all_Ok enc_not_Nil)
qed

text \<open>The variable-length arguments of an assertion are short enough for one buffer.\<close>

fun small_args :: "PABase \<Rightarrow> bool" where
  "small_args (PolicyCpHash _ h) \<longleftrightarrow> length h \<le> 1024"
| "small_args (PolicyNameHash _ h) \<longleftrightarrow> length h \<le> 1024"
| "small_args (PolicyCounterTimer _ b _ _) \<longleftrightarrow> length b \<le> 1024"
| "small_args (PolicyNV _ b _ _ _ _ name _) \<longleftrightarrow> length b \<le> 1024 \<and> length name \<le> 1024"
| "small_args (PolicyDuplicationSelect _ obj parent _) \<longleftrightarrow> length obj \<le> 1024 \<and> length parent \<le> 1024"
| "small_args _ \<longleftrightarrow> True"

lemma UpdatePolicyDigest_bytes:
  assumes ok: "ossl_ok ossl" and acc: "ha_ok ossl acc" and small: "small_args p"
    and bytes: "assertion_bytes ossl (TPMT_HA_hashAlg acc) p = Some bs"
  shows "UpdatePolicyDigest ossl p acc = Ok (extended ossl acc bs)"
proof -
  have a: "IsImplemented ossl (TPMT_HA_hashAlg acc)" using acc by (simp add: ha_ok_def)
  have d: "length (op_digest ossl (TPMT_HA_hashAlg acc) b off op) \<le> 64" for b off op
    using ok a IsImplemented_HashLength [OF a] by (auto simp: op_digest_def ossl_ok_def)
  note two = extend_buf_enc [OF acc writes_two] and three = extend_buf_enc [OF acc writes_three]
  note op = GetOpDigest_enc [OF a]
  show ?thesis
  proof (cases p)
    case (PolicyNV tag b off op auth idx name cb)
    then show ?thesis
      using small bytes d [of b off op]
      by (auto simp: assertion_defs op three [OF writes_writeInt writes_writeByteBuf writes_writeByteBuf])
  next
    case (PolicyCounterTimer tag b off op)
    then show ?thesis
      using small bytes d [of b off op]
      by (auto simp: assertion_defs op two [OF writes_writeInt writes_writeByteBuf])
  next
    case (PolicyDuplicationSelect tag obj parent inc)
    have "writes (wseq ([writeInt TPM_CC_PolicyDuplicationSelect] @
        (if inc then [writeByteBuf obj] else []) @ [writeByteBuf parent, writeByte (if inc then 1 else 0)]))
      (enc32 TPM_CC_PolicyDuplicationSelect @ (if inc then obj else []) @ parent @
       enc8 (if inc then 1 else 0))"
      by (cases inc) (simp_all only: if_True if_False append_Cons append_Nil,
          (intro writes_wseq_Cons writes_wseq_single writes_writeInt writes_writeByteBuf writes_writeByte)+)
    from extend_buf_enc [OF acc this] show ?thesis
      using PolicyDuplicationSelect small bytes by (auto simp: assertion_defs simp del: wseq.simps)
  qed (use small bytes d in \<open>auto simp: assertion_defs op Int32ToTpm_enc Extend_extended [OF acc]
      two [OF writes_writeInt writes_writeInt] two [OF writes_writeInt writes_writeByte]
      two [OF writes_writeInt writes_writeByteBuf]\<close>)
qed

end
