(* ===== verification/WireLimits.thy ===== *)
theory WireLimits
  imports TpmListTypes TpmBasicTypes TpmStructure
begin

text \<open>
  Where marshaling meets its limits: a size prefix that announces more than there is, a structure that
  exceeds the buffer, and a union whose member belongs to two selectors.
\<close>

lemma readSizedByteBuf_short:
  assumes "length bs < unat n"
  shows "fst (readSizedByteBuf 2 (TpmBuffer_of (enc16 n @ bs))) = Undef"
proof -
  let ?b = "TpmBuffer_of (enc16 n @ bs)"
  have "reads (readNum 2) (take_bit 16 (ucast n)) (enc16 n)"
    using reads_readNum [of 2 "ucast n"] by (simp add: enc16_def)
  from reads_Ok [OF this buf_ok_of continues_of]
  have "readNum 2 ?b = (Ok (take_bit 16 (ucast n)), adv 2 ?b)" by simp
  moreover have "unat (take_bit 16 (ucast n) :: UINT64) = unat n"
    using unsigned_less [where ?'a = nat, of n]
    by (simp add: unsigned_take_bit_eq unsigned_ucast_eq take_bit_nat_eq_self)
  ultimately show ?thesis
    using assms by (simp add: readSizedByteBuf_def sbind_Ok Let_def size_buf_def TpmBuffer_of_def)
qed

lemma TPM2B_DIGEST_short:
  assumes "length bs < unat n"
  shows "fromBytes TPM2B_DIGEST_initFromTpm TPM2B_DIGEST_default (enc16 n @ bs) = Undef"
proof -
  obtain b where "readSizedByteBuf 2 (TpmBuffer_of (enc16 n @ bs)) = (Undef, b)"
    using readSizedByteBuf_short [OF assms] by (metis prod.collapse)
  then show ?thesis
    by (simp add: fromBytes_def initFromBytes_def outcome_of_def TPM2B_DIGEST_initFromTpm_def sbind_Undef)
qed

lemma TPM2B_MAX_BUFFER_capacity:
  "toBytes TPM2B_MAX_BUFFER_toTpm \<lparr>TPM2B_MAX_BUFFER_buffer = bs\<rparr> =
     (if length bs + 2 \<le> 4096 then Ok (enc16 (of_nat (length bs)) @ bs) else Throw (runtime_error ''''))"
proof -
  have "writes (TPM2B_MAX_BUFFER_toTpm \<lparr>TPM2B_MAX_BUFFER_buffer = bs\<rparr>) (enc_sized 2 bs)"
    unfolding TPM2B_MAX_BUFFER_toTpm_def TPM2B_MAX_BUFFER.select_convs by (intro writes_intros) simp
  from writes_trim [OF this, of default_capacity]
  have "toBytes TPM2B_MAX_BUFFER_toTpm \<lparr>TPM2B_MAX_BUFFER_buffer = bs\<rparr> =
      (if length bs + 2 \<le> 4096 then Ok (enc_sized 2 bs) else Throw (runtime_error ''''))"
    by (simp add: toBytes_def default_capacity_def enc_sized_def)
  moreover have "enc_sized 2 bs = enc16 (of_nat (length bs)) @ bs"
  proof -
    have "byte_at k (ucast (of_nat n :: UINT32)) = byte_at k (ucast (of_nat n :: UINT16))"
      if "k + 8 \<le> 16" for k n
      using that by (intro bit_word_eqI) (auto simp: bit_byte_at bit_simps)
    then show ?thesis by (simp add: enc_sized_def enc16_def be_bytes_def)
  qed
  ultimately show ?thesis by simp
qed

text \<open>\<open>TPML_CC\<close> is the member for two selectors, but remembers only one.\<close>

lemma capability_audit_commands:
  assumes "length ccs < 1000"
  defines "l \<equiv> \<lparr>TPML_CC_commandCodes = ccs\<rparr>"
  shows "\<exists>x. fromBytes TPMS_CAPABILITY_DATA_initFromTpm TPMS_CAPABILITY_DATA_default
        (enc32 TPM_CAP_AUDIT_COMMANDS @ TPML_CC_enc l) = Ok x \<and>
      toBytes TPMS_CAPABILITY_DATA_toTpm x = Ok (enc32 TPM_CAP_PP_COMMANDS @ TPML_CC_enc l)"
proof (intro exI conjI)
  let ?x = "\<lparr>TPMS_CAPABILITY_DATA_data = Some (CAPABILITIES_TPML_CC l)\<rparr>"
  have l: "TPML_CC_valid l" using assms by (simp add: l_def TPML_CC_valid_def)
  have list: "reads (TPML_CC_initFromTpm TPML_CC_default) l (TPML_CC_enc l)"
    by (rule TPML_CC_codec.reads_enc [OF l])
  have "reads (sbind (deref (Some (CAPABILITIES_TPML_CC TPML_CC_default)) TPMU_CAPABILITIES_initFromTpm) (\<lambda>data.
      ret (TPMS_CAPABILITY_DATA_default\<lparr>TPMS_CAPABILITY_DATA_data := Some data\<rparr>))) ?x (TPML_CC_enc l)"
    using reads_sbind_ret [OF list, of "\<lambda>y. TPMS_CAPABILITY_DATA_default\<lparr>TPMS_CAPABILITY_DATA_data :=
      Some (CAPABILITIES_TPML_CC y)\<rparr>"]
    by (simp add: sbind_assoc TPMS_CAPABILITY_DATA_default_def)
  then have "reads (TPMS_CAPABILITY_DATA_initFromTpm TPMS_CAPABILITY_DATA_default) ?x
      (enc32 TPM_CAP_AUDIT_COMMANDS @ TPML_CC_enc l)"
    unfolding TPMS_CAPABILITY_DATA_initFromTpm_def
    by (intro reads_sbind [OF reads_readInt])
      (simp add: UnionFactory_Create_TPMU_CAPABILITIES_def)
  from reads_initFromBytes [of TPMS_CAPABILITY_DATA_initFromTpm, OF this, of "[]"]
  show "fromBytes TPMS_CAPABILITY_DATA_initFromTpm TPMS_CAPABILITY_DATA_default
      (enc32 TPM_CAP_AUDIT_COMMANDS @ TPML_CC_enc l) = Ok ?x"
    by (simp add: fromBytes_def)
  have "length (enc_val 4 c) = 4" for c :: UINT32 by (simp add: enc_val_def)
  then have "length (enc_elems (enc_val 4) ccs) = 4 * length ccs" by (induction ccs) simp_all
  then have "length (TPML_CC_enc l) = 4 + 4 * length ccs"
    by (simp add: l_def TPML_CC_enc_def enc_arr_def)
  then show "toBytes TPMS_CAPABILITY_DATA_toTpm ?x = Ok (enc32 TPM_CAP_PP_COMMANDS @ TPML_CC_enc l)"
    using assms(1) l TPMS_CAPABILITY_DATA_codec.toBytes_enc [of ?x]
    by (simp add: TPMS_CAPABILITY_DATA_valid_def TPMS_CAPABILITY_DATA_enc_def opt_ok_iff)
qed

end
