(* ===== verification/Samples.thy ===== *)
theory Samples
  imports TypeExtensions Tpm2Dispatch
begin

unbundle bit_operations_syntax

text \<open>
  Concrete inputs on which the properties are applied: a stand-in for OpenSSL that satisfies what the
  code relies on, an RSA signing key, a quote that it signed, and an HMAC session.
\<close>

text \<open>Digests pad or cut their input, the cipher adds one byte of the key, a signature is the digest.\<close>

definition sample_ossl :: Openssl where
  "sample_ossl = \<lparr>ossl_ALG_SM3_256 = False,
     ossl_digest = (\<lambda>a m. take (unat (HashLength a)) (m @ replicate 64 0)),
     ossl_hmac = (\<lambda>a k m. take (unat (HashLength a)) (k @ m @ replicate 64 0)),
     ossl_cfb128 = (\<lambda>e k iv x. map (\<lambda>b. b XOR (case k of [] \<Rightarrow> 0 | c # _ \<Rightarrow> c)) x),
     ossl_rand = (\<lambda>i n. replicate n (of_nat i)),
     ossl_rsa_verify = (\<lambda>a d s m. s = d)\<rparr>"

lemma sample_sel [simp]:
  "ossl_digest sample_ossl a m = take (unat (HashLength a)) (m @ replicate 64 0)"
  "ossl_hmac sample_ossl a k m = take (unat (HashLength a)) (k @ m @ replicate 64 0)"
  "ossl_cfb128 sample_ossl e k iv x = map (\<lambda>b. b XOR (case k of [] \<Rightarrow> 0 | c # _ \<Rightarrow> c)) x"
  "ossl_rand sample_ossl i n = replicate n (of_nat i)"
  "ossl_rsa_verify sample_ossl a d s m \<longleftrightarrow> s = d"
  by (simp_all add: sample_ossl_def)

lemma sample_ossl_ok [simp]: "ossl_ok sample_ossl"
proof -
  have "unat (HashLength a) \<le> 64" if "IsImplemented sample_ossl a" for a
    using IsImplemented_HashLength [OF that] by auto
  then have "length (take (unat (HashLength a)) (xs @ replicate 64 (0::byte))) = unat (HashLength a)"
    if "IsImplemented sample_ossl a" for a xs
    using that by fastforce
  from this [of _ "_ @ _"] this show ?thesis by (simp add: ossl_ok_def o_def xor.assoc)
qed

lemma sample_implements [simp]:
  "IsImplemented sample_ossl TPM_ALG_ID_SHA256" "IsImplemented sample_ossl TPM_ALG_ID_SHA1"
  by (simp_all add: IsImplemented_def)

definition sample_parms :: TPMS_RSA_PARMS where
  "sample_parms = \<lparr>TPMS_RSA_PARMS_symmetric = TPMT_SYM_DEF_OBJECT_default,
     TPMS_RSA_PARMS_scheme = Some (ASYM_SCHEME_TPMS_SIG_SCHEME_RSASSA
       \<lparr>TPMS_SCHEME_HASH_hashAlg = TPM_ALG_ID_SHA256\<rparr>),
     TPMS_RSA_PARMS_keyBits = 256, TPMS_RSA_PARMS_exponent = 65537\<rparr>"

definition sample_key :: TPMT_PUBLIC where
  "sample_key = \<lparr>TPMT_PUBLIC_nameAlg = TPM_ALG_ID_SHA256, TPMT_PUBLIC_objectAttributes = 0x40040,
     TPMT_PUBLIC_authPolicy = [], TPMT_PUBLIC_parameters = Some (PUBLIC_PARMS_TPMS_RSA_PARMS sample_parms),
     TPMT_PUBLIC_unique = Some (PUBLIC_ID_TPM2B_PUBLIC_KEY_RSA
       \<lparr>TPM2B_PUBLIC_KEY_RSA_buffer = replicate 32 7\<rparr>)\<rparr>"

lemma sample_key_valid [simp]: "TPMT_PUBLIC_valid sample_key"
  by (simp add: sample_key_def sample_parms_def TPMT_PUBLIC_valid_def opt_ok_iff TPMS_RSA_PARMS_valid_def
      TPMT_SYM_DEF_OBJECT_valid_def TPMT_SYM_DEF_OBJECT_default_def TPMS_SCHEME_HASH_valid_def
      TPM2B_PUBLIC_KEY_RSA_valid_def sized_ok_def)

lemma length_sample_key [simp]: "length (TPMT_PUBLIC_enc sample_key) = 56"
  by (simp add: sample_key_def sample_parms_def TPMT_PUBLIC_enc_def TPMS_RSA_PARMS_enc_def
      TPMT_SYM_DEF_OBJECT_enc_def TPMT_SYM_DEF_OBJECT_default_def TPMS_SCHEME_HASH_enc_def
      TPM2B_PUBLIC_KEY_RSA_enc_def enc_sized_def)

lemma sample_key_alg [simp]:
  "TPMT_PUBLIC_nameAlg sample_key = TPM_ALG_ID_SHA256" "GetSigningHashAlg sample_key = Ok TPM_ALG_ID_SHA256"
  by (simp_all add: sample_key_def sample_parms_def GetSigningHashAlg_def oderef_def as_rsa_parms_def)

definition sample_attest :: TPMS_ATTEST where
  "sample_attest = \<lparr>TPMS_ATTEST_magic = TPM_GENERATED_VALUE, TPMS_ATTEST_qualifiedSigner = [],
     TPMS_ATTEST_extraData = [1, 2, 3], TPMS_ATTEST_clockInfo = TPMS_CLOCK_INFO_default,
     TPMS_ATTEST_firmwareVersion = 0,
     TPMS_ATTEST_attested = Some (ATTEST_TPMS_QUOTE_INFO \<lparr>TPMS_QUOTE_INFO_pcrSelect = [],
       TPMS_QUOTE_INFO_pcrDigest = replicate 32 0\<rparr>)\<rparr>"

lemma sample_attest_valid [simp]: "TPMS_ATTEST_valid sample_attest"
  by (simp add: sample_attest_def TPMS_ATTEST_valid_def TPMS_CLOCK_INFO_valid_def opt_ok_iff
      TPMS_QUOTE_INFO_valid_def sized_ok_def arr_ok_def)

lemma length_sample_attest [simp]: "length (TPMS_ATTEST_enc sample_attest) = 76"
  by (simp add: sample_attest_def TPMS_ATTEST_enc_def TPMS_CLOCK_INFO_enc_def
      TPMS_QUOTE_INFO_enc_def enc_sized_def enc_arr_def)

definition sample_signature :: "TPMU_SIGNATURE option" where
  "sample_signature = Some (SIGNATURE_TPMS_SIGNATURE_RSASSA \<lparr>TPMS_SIGNATURE_RSA_hash = TPM_ALG_ID_SHA256,
     TPMS_SIGNATURE_RSA_sig = take 32 (TPMS_ATTEST_enc sample_attest)\<rparr>)"

definition sample_session :: AUTH_SESSION where
  "sample_session = \<lparr>as_handle = TPM_HANDLE_of 0x2000000, as_SessionType = TPM_SE_HMAC,
     as_NonceTpm = [1, 2], as_NonceCaller = [3, 4], as_HashAlg = TPM_ALG_ID_SHA256,
     as_SessionAttributes = TPMA_SESSION_continueSession,
     as_Symmetric = \<lparr>TPMT_SYM_DEF_algorithm = TPM_ALG_ID_AES, TPMT_SYM_DEF_keyBits = 128,
       TPMT_SYM_DEF_mode = TPM_ALG_ID_CFB\<rparr>,
     as_SessionKey = [], as_AuthValue = [], as_Salt = [5], as_BindObject = TPM_HANDLE_of TPM_RH_NULL,
     as_NeedsHmac = False, as_NeedsPassword = False, as_SessionInitted = True\<rparr>"

text \<open>A client with no session attached, whose device answers every command with \<open>resp\<close>.\<close>

definition sample_dev :: "ByteVec \<Rightarrow> unit TpmDevice" where
  "sample_dev resp = \<lparr>dev_DispatchCommand = (\<lambda>cmd. ret ()), dev_GetResponse = ret resp\<rparr>"

definition sample_client :: "'d \<Rightarrow> 'd Tpm2" where
  "sample_client d = \<lparr>tp_device = Some d, tp_AdminOwner = TPM_HANDLE_default,
     tp_AdminEndorsement = TPM_HANDLE_default, tp_AdminPlatform = TPM_HANDLE_default,
     tp_AdminLockout = TPM_HANDLE_default, tp_AllowErrors = False, tp_DemandError = False,
     tp_AuditCommand = False, tp_ExpectedError = TPM_RC_SUCCESS, tp_Sessions = [], tp_CpHash = None,
     tp_EncSession = None, tp_DecSession = None, tp_NonceTpmDec = [], tp_NonceTpmEnc = [],
     tp_PendingCommand = 0, tp_LastCommandBuf = [], tp_SessTag = TPM_ST_NO_SESSIONS, tp_InHandles = [],
     tp_objectInName = [], tp_objectInAuth = [], tp_LastResponseCode = TPM_RC_SUCCESS,
     tp_CommandAuditHash = TPMT_HA_of_alg TPM_ALG_ID_SHA256, tp_AuditCpHash = TPMT_HA_of_alg TPM_ALG_ID_SHA256,
     tp_responseCallback = False, tp_callbackLog = [],
     tp_sess = (\<lambda>a. if a = PwapSession then AUTH_SESSION_PWAP (0, 0, 0) else sample_session),
     tp_hashes = (\<lambda>_. TPMT_HA_of_alg TPM_ALG_ID_SHA256), tp_rands = 0\<rparr>"

abbreviation sample_tpm :: "unit Tpm2" where
  "sample_tpm \<equiv> sample_client ()"

end
