(* ===== verification/Tpm2Behaviour.thy ===== *)
theory Tpm2Behaviour
  imports Tpm2Dispatch
begin

unbundle bit_operations_syntax

text \<open>
  What the dispatcher of \<^verbatim>\<open>TSS.CPP/Src/Tpm2.cpp\<close> does: the order of calls it enforces, its reaction to
  response codes, the command it puts on the wire, what authorizes it, which responses it accepts, and
  the state it leaves behind.
\<close>

section \<open>Evaluation\<close>

lemma getf_app [sx_simps]: "getf f s = (Ok (f s), s)"
  by (simp add: getf_def)

lemma sbind_getS [simp]: "sbind getS f t = f t t"
  by (simp add: sbind_def getS_app)

lemma sbind_getf [simp]: "sbind (getf g) f t = f (g t) t"
  by (simp add: sbind_def getf_app)

lemma sseq_modifyS [simp]: "sseq (modifyS f) k t = k (f t)"
  by (simp add: sseq_def sbind_def modifyS_app)

lemma sbind_lift [simp]: "sbind (lift (Ok x)) f = f x"
  by (simp add: fun_eq_iff sbind_def lift_app)

lemma sseq_ret [simp]: "sseq (ret u) k = k"
  by (simp add: sseq_def)

lemma sbind_throw [simp]: "sbind (throw e) f = throw e"
  by (simp add: fun_eq_iff sbind_def throw_app)

lemma sseq_throw [simp]: "sseq (throw e) k = throw e"
  by (simp add: fun_eq_iff sseq_def sbind_def throw_app)

lemma sseq_app_assoc [simp]: "sseq (sseq a b) c = sseq a (sseq b c)"
  by (simp add: sseq_def sbind_assoc)

lemma sbind_sseq [simp]: "sbind (sseq a b) f = sseq a (sbind b f)"
  by (simp add: sseq_def sbind_assoc)

lemma sseq_ClearInvocationState [simp]:
  "sseq ClearInvocationState k t = k (t\<lparr>tp_AllowErrors := False, tp_DemandError := False,
     tp_ExpectedError := TPM_RC_SUCCESS, tp_CpHash := None, tp_AuditCommand := False,
     tp_PendingCommand := 0\<rparr>)"
  by (simp add: ClearInvocationState_def)

lemma sseq_clear_Sessions [simp]: "sseq clear_Sessions k t = k (t\<lparr>tp_Sessions := []\<rparr>)"
  by (simp add: clear_Sessions_def)

lemma sseq_set_sess [simp]: "sseq (set_sess a s) k t = k (t\<lparr>tp_sess := (tp_sess t)(a := s)\<rparr>)"
  by (simp add: set_sess_def)

section \<open>The order of calls\<close>

text \<open>A second command cannot be sent before the first one's response was taken in, and vice versa.\<close>

lemma DispatchOut_pending:
  "tp_PendingCommand t \<noteq> 0 \<Longrightarrow> DispatchOut ossl dev cc req t = (Throw (runtime_error
     ''Pending async command must be completed before issuing the next command.''), t)"
  by (simp add: DispatchOut_def throw_app)

lemma DispatchIn_not_pending:
  "tp_PendingCommand t = 0 \<Longrightarrow> DispatchIn ossl dev m cc resp t = (Throw (runtime_error
     ''Async command completion with no outstanding command''), t)"
  by (simp add: DispatchIn_def throw_app)

lemma DispatchIn_mismatch:
  "tp_PendingCommand t \<noteq> 0 \<Longrightarrow> tp_PendingCommand t \<noteq> cc \<Longrightarrow>
   DispatchIn ossl dev m cc resp t = (Throw (runtime_error
     ''Async command completion does not match command being processed''), t)"
  by (simp add: DispatchIn_def throw_app)

section \<open>The reaction to response codes\<close>

text \<open>What the three settings mean: when a response is not an exception.\<close>

definition tolerated :: "'d Tpm2 \<Rightarrow> TPM_RC \<Rightarrow> bool" where
  "tolerated t respCode \<longleftrightarrow>
     (if respCode = TPM_RC_SUCCESS then \<not> tp_DemandError t \<and> tp_ExpectedError t = TPM_RC_SUCCESS
      else tp_DemandError t \<or> tp_AllowErrors t \<or>
        (tp_ExpectedError t \<noteq> TPM_RC_SUCCESS \<and> tp_LastResponseCode t = tp_ExpectedError t))"

lemma error_message_tolerated: "error_message t cc respCode = '''' \<longleftrightarrow> tolerated t respCode"
  by (simp add: error_message_def tolerated_def)

text \<open>Format-one codes lose the number of the parameter, handle or session, the others their flags.\<close>

lemma ResponseCode_idem: "ResponseCodeFromTpmError (ResponseCodeFromTpmError rc) = ResponseCodeFromTpmError rc"
proof -
  have "IsFmt1 (rc AND 0xBF) = IsFmt1 rc" and "IsFmt1 (rc AND 0x97F) = False"
    by (simp_all add: IsFmt1_def and.assoc)
  then show ?thesis by (simp add: ResponseCodeFromTpmError_def and.assoc)
qed

section \<open>What a call leaves alone\<close>

named_theorems keeps_intros \<open>calls that do not change a part of the state\<close>

definition keeps :: "('s \<Rightarrow> 'b) \<Rightarrow> ('s, 'a) sx \<Rightarrow> bool" where
  "keeps f m \<longleftrightarrow> (\<forall>t. f (snd (m t)) = f t)"

lemma keepsD: "keeps f m \<Longrightarrow> m t = (r, t') \<Longrightarrow> f t' = f t"
  unfolding keeps_def by (metis snd_conv)

lemma keeps_sbind [keeps_intros]:
  "keeps f m \<Longrightarrow> (\<And>x. keeps f (k x)) \<Longrightarrow> keeps f (sbind m k)"
  by (simp add: keeps_def sbind_def split: prod.split outcome.split) (metis snd_conv)

lemma keeps_sseq [keeps_intros]: "keeps f m \<Longrightarrow> keeps f k \<Longrightarrow> keeps f (sseq m k)"
  unfolding sseq_def by (rule keeps_sbind)

lemma keeps_basic [keeps_intros]:
  "keeps f (ret x)" "keeps f (throw e)" "keeps f undef" "keeps f (lift r)" "keeps f (sassert c)"
  "keeps f getS" "keeps f (getf g)" "keeps f (to_buf b m)"
  by (simp_all add: keeps_def sx_simps to_buf_def)

lemma keeps_modifyS: "(\<And>t. f (g t) = f t) \<Longrightarrow> keeps f (modifyS g)"
  by (simp add: keeps_def modifyS_app)

lemma keeps_bindO [keeps_intros]: "(\<And>x. keeps f (k x)) \<Longrightarrow> keeps f (bindO r k)"
  by (cases r) (auto intro: keeps_intros)

lemma keeps_if [keeps_intros]: "(c \<Longrightarrow> keeps f m) \<Longrightarrow> (\<not> c \<Longrightarrow> keeps f k) \<Longrightarrow> keeps f (if c then m else k)"
  by simp

lemma keeps_option [keeps_intros]:
  "keeps f m \<Longrightarrow> (\<And>x. keeps f (k x)) \<Longrightarrow> keeps f (case v of None \<Rightarrow> m | Some x \<Rightarrow> k x)"
  by (simp split: option.split)

lemma keeps_prod [keeps_intros]:
  "(\<And>x y. keeps f (k x y)) \<Longrightarrow> keeps f (case p of (x, y) \<Rightarrow> k x y)"
  "(\<And>x y. keeps f (l x y z)) \<Longrightarrow> keeps f ((case p of (x, y) \<Rightarrow> l x y) z)"
  by (simp_all split: prod.split)

text \<open>The settings for one invocation, which only the next response may reset.\<close>

definition invocation ::
  "'d Tpm2 \<Rightarrow> bool \<times> bool \<times> bool \<times> TPM_RC \<times> addr option \<times> TPM_CC" where
  "invocation t = (tp_AllowErrors t, tp_DemandError t, tp_AuditCommand t, tp_ExpectedError t,
     tp_CpHash t, tp_PendingCommand t)"

definition no_invocation :: "bool \<times> bool \<times> bool \<times> TPM_RC \<times> addr option \<times> TPM_CC" where
  "no_invocation = (False, False, False, TPM_RC_SUCCESS, None, 0)"

lemma keeps_set_sess [keeps_intros]: "keeps invocation (set_sess a s)"
  unfolding set_sess_def by (rule keeps_modifyS) (simp add: invocation_def)

lemma keeps_clear_Sessions [keeps_intros]: "keeps invocation clear_Sessions"
  unfolding clear_Sessions_def by (rule keeps_modifyS) (simp add: invocation_def)

lemma keeps_on_device [keeps_intros]: "keeps invocation (on_device m)"
  by (simp add: keeps_def on_device_def invocation_def split: option.split prod.split)

lemma keeps_DoParmEncryption [keeps_intros]: "keeps invocation (DoParmEncryption ossl sei buf start req)"
  unfolding DoParmEncryption_def Let_def
  by (intro keeps_intros keeps_modifyS; simp add: invocation_def)

lemma keeps_resp_session [keeps_intros]:
  "keeps invocation (resp_session ossl cc pos len j a ready buf)"
proof -
  have "keeps invocation (sbind getS (\<lambda>t. f t))" if "\<And>t. keeps invocation (f t)"
    for f :: "'d Tpm2 \<Rightarrow> ('d, 'b) tp"
    by (intro keeps_intros that)
  then show ?thesis
    unfolding resp_session_def Let_def by (intro keeps_intros)
qed

lemma keeps_resp_loop [keeps_intros]: "keeps invocation (resp_loop ossl cc pos len j as ready buf)"
  by (induction ossl cc pos len j as ready buf rule: resp_loop.induct)
    (simp_all, auto intro!: keeps_intros)

lemma keeps_ProcessRespSessions [keeps_intros]:
  "keeps invocation (ProcessRespSessions ossl buf cc pos len)"
  unfolding ProcessRespSessions_def by (intro keeps_intros)

lemma keeps_UpdateRespHandle [keeps_intros]: "keeps invocation (UpdateRespHandle ossl cc resp)"
  unfolding UpdateRespHandle_def by (intro keeps_intros)

lemma keeps_complete_command [keeps_intros]:
  "keeps invocation (complete_command ossl m cc audit tag resp buf)"
  unfolding complete_command_def Let_def
  by (intro keeps_intros keeps_modifyS; simp add: invocation_def)

section \<open>The end of a command\<close>

text \<open>What holds whenever a call returns: only its last step matters.\<close>

named_theorems yields_intros \<open>what a call returns and leaves behind\<close>

definition yields :: "('a \<Rightarrow> 's \<Rightarrow> bool) \<Rightarrow> ('s, 'a) sx \<Rightarrow> bool" where
  "yields P m \<longleftrightarrow> (\<forall>t x t'. m t = (Ok x, t') \<longrightarrow> P x t')"

lemma yieldsD: "yields P m \<Longrightarrow> m t = (Ok x, t') \<Longrightarrow> P x t'"
  by (simp add: yields_def)

lemma yields_sbind [yields_intros]: "(\<And>x. yields P (k x)) \<Longrightarrow> yields P (sbind m k)"
  by (auto simp: yields_def sbind_eq_Ok)

lemma yields_sseq [yields_intros]: "yields P k \<Longrightarrow> yields P (sseq m k)"
  unfolding sseq_def by (rule yields_sbind)

lemma yields_throw [yields_intros]: "yields P (throw e)"
  by (simp add: yields_def throw_app)

lemma yields_if [yields_intros]:
  "(c \<Longrightarrow> yields P m) \<Longrightarrow> (\<not> c \<Longrightarrow> yields P k) \<Longrightarrow> yields P (if c then m else k)"
  by simp

lemma yields_prod [yields_intros]:
  "(\<And>x y. yields P (k x y)) \<Longrightarrow> yields P (case p of (x, y) \<Rightarrow> k x y)"
  "(\<And>x y. yields P (l x y z)) \<Longrightarrow> yields P ((case p of (x, y) \<Rightarrow> l x y) z)"
  by (simp_all split: prod.split)

definition finished :: "bool \<times> 'r RespObj \<Rightarrow> 'd Tpm2 \<Rightarrow> bool" where
  "finished r t \<longleftrightarrow> fst r \<and> tp_Sessions t = []"

lemma yields_finished [yields_intros]: "yields finished (sseq clear_Sessions (ret (True, resp)))"
  by (simp add: yields_def finished_def ret_app)

lemma complete_command_finished:
  "yields finished (complete_command ossl m cc audit tag resp buf)"
  unfolding complete_command_def Let_def
  by (rule yields_sbind; (rule yields_if yields_throw yields_sbind yields_prod yields_finished | simp only:)+)

definition command_over :: "bool \<times> 'r RespObj \<Rightarrow> 'd Tpm2 \<Rightarrow> bool" where
  "command_over r t \<longleftrightarrow> fst r \<longrightarrow> tp_Sessions t = [] \<and> invocation t = no_invocation"

lemma command_over_clear:
  fixes m :: "('d, bool \<times> 'r RespObj) tp"
  assumes "yields finished m" and "keeps invocation m"
  shows "yields command_over (sseq ClearInvocationState m)"
  unfolding yields_def
proof (intro allI impI)
  fix t :: "'d Tpm2" and x t'
  assume "sseq ClearInvocationState m t = (Ok x, t')"
  then obtain u where m: "m u = (Ok x, t')" and u: "invocation u = no_invocation"
    by (auto simp: invocation_def no_invocation_def)
  show "command_over x t'"
    using yieldsD [OF assms(1) m] keepsD [OF assms(2) m] u by (auto simp: command_over_def finished_def)
qed

lemma yields_retry [yields_intros]: "yields command_over (ret (False, resp))"
  by (simp add: yields_def command_over_def ret_app)

lemma DispatchIn_over: "yields command_over (DispatchIn ossl dev m cc resp)"
  unfolding DispatchIn_def Let_def
  by (rule yields_sbind; (rule yields_if yields_throw yields_prod yields_retry command_over_clear
      keeps_if keeps_complete_command complete_command_finished yields_finished yields_sbind yields_sseq
    | (intro keeps_intros; fail))+)

text \<open>
  Once a command is over, no setting made for it is left and no session is attached; while it is not
  (\<open>TPM_RC_RETRY\<close>), nothing of that is touched.
\<close>

lemma DispatchIn_finished:
  "DispatchIn ossl dev m cc resp t = (Ok (True, resp'), t') \<Longrightarrow>
   tp_Sessions t' = [] \<and> invocation t' = no_invocation"
  using yieldsD [OF DispatchIn_over] by (fastforce simp: command_over_def)

section \<open>Responses that are not a success\<close>

definition raw_response :: "TPM_ST \<Rightarrow> TPM_RC \<Rightarrow> ByteVec \<Rightarrow> ByteVec" where
  "raw_response tag code body = enc16 tag @ enc32 (of_nat (length body + 10)) @ enc32 code @ body"

lemma length_raw_response [simp]: "length (raw_response tag code body) = length body + 10"
  by (simp add: raw_response_def)

lemma on_buf_reads:
  "reads m v bs \<Longrightarrow> buf_ok b \<Longrightarrow> continues b bs \<Longrightarrow> on_buf m b = Ok (v, adv (length bs) b)"
  by (simp add: on_buf_def reads_Ok)

definition read_header :: "(TPM_ST \<times> UINT32 \<times> TPM_RC) tpm" where
  "read_header = sbind readShort (\<lambda>respTag. sbind readInt (\<lambda>respSize.
     sbind readInt (\<lambda>respCode. ret (respTag, respSize, respCode))))"

lemma read_header_raw:
  "on_buf read_header (TpmBuffer_of (raw_response tag code body)) =
     Ok ((tag, of_nat (length body + 10), code), adv 10 (TpmBuffer_of (raw_response tag code body)))"
proof -
  have "reads read_header (tag, of_nat (length body + 10), code)
      (enc16 tag @ enc32 (of_nat (length body + 10)) @ enc32 code @ [])"
    unfolding read_header_def by (intro reads_intros refl)
  from on_buf_reads [OF this buf_ok_of, of "raw_response tag code body"] show ?thesis
    by (simp add: continues_def raw_response_def TpmBuffer_of_def)
qed

text \<open>The state after the device's answer was taken, and after its code was looked at.\<close>

definition received :: "'d \<Rightarrow> ByteVec \<Rightarrow> 'd Tpm2 \<Rightarrow> 'd Tpm2" where
  "received d raw t = t\<lparr>tp_PendingCommand := 0, tp_device := Some d,
     tp_callbackLog := (if tp_responseCallback t then tp_callbackLog t @ [(tp_LastCommandBuf t, raw)]
                        else tp_callbackLog t)\<rparr>"

definition noted :: "TPM_RC \<Rightarrow> 'd Tpm2 \<Rightarrow> 'd Tpm2" where
  "noted code t = t\<lparr>tp_LastResponseCode := ResponseCodeFromTpmError code\<rparr>"

definition reset_invocation :: "'d Tpm2 \<Rightarrow> 'd Tpm2" where
  "reset_invocation t = t\<lparr>tp_AllowErrors := False, tp_DemandError := False,
     tp_ExpectedError := TPM_RC_SUCCESS, tp_CpHash := None, tp_AuditCommand := False,
     tp_PendingCommand := 0\<rparr>"

definition awaits :: "TPM_CC \<Rightarrow> 'd Tpm2 \<Rightarrow> bool" where
  "awaits cc t \<longleftrightarrow> tp_PendingCommand t = cc \<and> cc \<noteq> 0 \<and>
     \<not> (tp_AuditCommand t \<and> TPMT_HA_hashAlg (tp_CommandAuditHash t) = TPM_ALG_ID_NULL)"

lemma DispatchIn_header:
  assumes "awaits cc t" and dev: "tp_device t = Some d"
    and resp: "dev_GetResponse dev d = (Ok (raw_response tag code body), d')"
    and len: "length body + 10 < 2 ^ 32"
  shows "DispatchIn ossl dev m cc resp t =
    (let u = received d' (raw_response tag code body) t; v = noted code u in
     if code = TPM_RC_RETRY then (Ok (False, resp), u)
     else sseq (if code = TPM_RC_SUCCESS then CompleteUpdateRequestHandles cc else ret ())
       (sbind getS (\<lambda>w. sseq ClearInvocationState
         (if error_message w cc code \<noteq> ''''
          then sseq clear_Sessions (throw (system_error (tp_LastResponseCode w) (error_message w cc code)))
          else if tp_LastResponseCode w \<noteq> TPM_RC_SUCCESS then sseq clear_Sessions (ret (True, resp))
          else complete_command ossl m cc (tp_AuditCommand w) tag resp
            (adv 10 (TpmBuffer_of (raw_response tag code body)))))) v)"
proof -
  have "on_device (dev_GetResponse dev) (t\<lparr>tp_PendingCommand := 0\<rparr>) =
      (Ok (raw_response tag code body), t\<lparr>tp_PendingCommand := 0, tp_device := Some d'\<rparr>)"
    using dev resp by (simp add: on_device_def)
  moreover have "unat (of_nat (length body + 10) :: UINT32) = length body + 10"
    using len by (rule unat_of_nat_32)
  moreover note read_header_raw [of tag code body, unfolded read_header_def]
  moreover have "tp_PendingCommand t = cc" "cc \<noteq> 0" using assms(1) by (auto simp: awaits_def)
  moreover have audit: "\<not> (tp_AuditCommand t \<and> TPMT_HA_hashAlg (tp_CommandAuditHash t) = TPM_ALG_ID_NULL)"
    using assms(1) by (simp add: awaits_def)
  ultimately show ?thesis
    by (cases "tp_responseCallback t"; cases "code = TPM_RC_RETRY")
      (simp_all add: DispatchIn_def sbind_Ok received_def noted_def Let_def ret_app if_not_P [OF audit]
        del: of_nat_add split del: if_split)
qed

text \<open>
  An error of the TPM ends the command: an exception with the masked code, unless the settings of the
  invocation tolerate it. Either way the settings and the sessions are gone.
\<close>

lemma DispatchIn_error:
  assumes "awaits cc t" and "tp_device t = Some d"
    and "dev_GetResponse dev d = (Ok (raw_response tag code body), d')"
    and "length body + 10 < 2 ^ 32"
    and code: "code \<noteq> TPM_RC_RETRY" "code \<noteq> TPM_RC_SUCCESS"
    and masked: "ResponseCodeFromTpmError code \<noteq> TPM_RC_SUCCESS"
  defines "u \<equiv> noted code (received d' (raw_response tag code body) t)"
  shows "DispatchIn ossl dev m cc resp t =
    (if tolerated u code then Ok (True, resp)
     else Throw (system_error (ResponseCodeFromTpmError code) (error_message u cc code)),
     (reset_invocation u)\<lparr>tp_Sessions := []\<rparr>)"
  using code masked
  by (simp add: DispatchIn_header [OF assms(1-4)] Let_def u_def error_message_tolerated throw_app ret_app
      reset_invocation_def) (simp add: noted_def)

lemma DispatchIn_retry:
  assumes "awaits cc t" and "tp_device t = Some d"
    and "dev_GetResponse dev d = (Ok (raw_response tag TPM_RC_RETRY body), d')"
    and "length body + 10 < 2 ^ 32"
  shows "DispatchIn ossl dev m cc resp t =
    (Ok (False, resp), received d' (raw_response tag TPM_RC_RETRY body) t)"
  by (simp add: DispatchIn_header [OF assms] Let_def)

text \<open>A success that was not wanted: the settings demanded an error.\<close>

lemma DispatchIn_demanded:
  assumes "awaits cc t" and "tp_device t = Some d"
    and "dev_GetResponse dev d = (Ok (raw_response tag TPM_RC_SUCCESS body), d')"
    and "length body + 10 < 2 ^ 32"
    and update: "CompleteUpdateRequestHandles cc
      (noted TPM_RC_SUCCESS (received d' (raw_response tag TPM_RC_SUCCESS body) t)) = (Ok (), u)"
    and demanded: "\<not> tolerated u TPM_RC_SUCCESS"
  shows "DispatchIn ossl dev m cc resp t =
    (Throw (system_error (tp_LastResponseCode u) (error_message u cc TPM_RC_SUCCESS)),
     (reset_invocation u)\<lparr>tp_Sessions := []\<rparr>)"
  using demanded
  by (simp add: DispatchIn_header [OF assms(1-4)] Let_def sseq_Ok [where m = "CompleteUpdateRequestHandles cc", OF update] error_message_tolerated
      throw_app reset_invocation_def)

text \<open>
  A response whose tag is not that of the command is refused, but the sessions of the command stay
  attached: unlike on every other path, \<open>Sessions\<close> is not cleared, so the next command is sent with them.
\<close>

lemma DispatchIn_wrong_tag:
  assumes "awaits cc t" and "tp_device t = Some d"
    and "dev_GetResponse dev d = (Ok (raw_response tag TPM_RC_SUCCESS body), d')"
    and "length body + 10 < 2 ^ 32"
    and update: "CompleteUpdateRequestHandles cc
      (noted TPM_RC_SUCCESS (received d' (raw_response tag TPM_RC_SUCCESS body) t)) = (Ok (), u)"
    and "tolerated u TPM_RC_SUCCESS" and "tp_LastResponseCode u = TPM_RC_SUCCESS"
    and "tp_SessTag u \<noteq> tag"
  shows "DispatchIn ossl dev m cc resp t =
    (Throw (runtime_error ''Wrong response session tag''), reset_invocation u)"
proof -
  have "error_message u cc TPM_RC_SUCCESS = ''''" using assms(6) by (simp add: error_message_tolerated)
  then show ?thesis
    using assms(7,8)
    by (simp add: DispatchIn_header [OF assms(1-4)] Let_def sseq_Ok [where m = "CompleteUpdateRequestHandles cc", OF update] complete_command_def
        throw_app reset_invocation_def)
qed

section \<open>Retrying\<close>

text \<open>One round of the loop: the command was sent and the answer was \<open>TPM_RC_RETRY\<close>.\<close>

inductive retry_round ::
  "Openssl \<Rightarrow> 'd TpmDevice \<Rightarrow> (TPM_HANDLE, 'r) RespStructure \<Rightarrow> TPM_CC \<Rightarrow> 'r RespObj \<Rightarrow>
   ReqObj \<times> 'd Tpm2 \<Rightarrow> ReqObj \<times> 'd Tpm2 \<Rightarrow> bool"
  for ossl dev m cc resp where
  round: "DispatchOut ossl dev cc req t = (Ok (True, req'), u) \<Longrightarrow>
    DispatchIn ossl dev m cc resp u = (Ok (False, resp'), v) \<Longrightarrow>
    retry_round ossl dev m cc resp (req, t) (req', v)"

inductive_cases retry_roundE: "retry_round ossl dev m cc resp (req, t) y"

lemma DispatchIn_again: "yields (\<lambda>r _. \<not> fst r \<longrightarrow> snd r = resp) (DispatchIn ossl dev m cc resp)"
proof -
  let ?P = "\<lambda>r _. \<not> fst r \<longrightarrow> snd r = resp"
  have basic: "yields ?P (ret (False, resp))" "\<And>r. yields ?P (ret (True, r))"
    by (simp_all add: yields_def ret_app)
  have completed: "yields ?P (complete_command ossl m cc audit tag resp buf)" for audit tag buf
    unfolding complete_command_def Let_def
    by (rule yields_sbind; (rule yields_if yields_throw yields_sbind yields_prod yields_sseq basic
        | simp only:)+)
  show ?thesis
    unfolding DispatchIn_def Let_def
    by (rule yields_sbind; (rule yields_if yields_throw yields_prod basic completed yields_sbind yields_sseq)+)
qed

lemma Dispatch_loop_round:
  "retry_round ossl dev m cc resp (req, t) (req', v) \<Longrightarrow>
   Dispatch_loop ossl dev m cc req resp t = Dispatch_loop ossl dev m cc req' resp v"
  using yieldsD [OF DispatchIn_again]
  by (fastforce elim!: retry_roundE simp: Dispatch_loop.simps [of ossl dev m cc req resp t])

lemma retry_round_det: "retry_round ossl dev m cc resp x y \<Longrightarrow> retry_round ossl dev m cc resp x z \<Longrightarrow> y = z"
  by (cases x) (auto elim!: retry_roundE)

lemma Dispatch_loop_stops:
  assumes "\<And>y. \<not> retry_round ossl dev m cc resp (req, t) y"
  shows "Dispatch_loop ossl dev m cc req resp t \<noteq> None"
proof -
  have "DispatchIn ossl dev m cc resp u \<noteq> (Ok (False, resp'), v)"
    if "DispatchOut ossl dev cc req t = (Ok (True, req'), u)" for req' u resp' v
    using round [OF that] assms by blast
  then show ?thesis
    by (subst Dispatch_loop.simps) (clarsimp split: prod.splits outcome.splits; blast)
qed

text \<open>A call that returns came to an end after finitely many rounds.\<close>

lemma Dispatch_loop_rounds:
  assumes "Dispatch_loop ossl dev m cc req resp t = Some r"
  shows "\<forall>f. f 0 = (req, t) \<longrightarrow> (\<exists>i. \<not> retry_round ossl dev m cc resp (f i) (f (Suc i)))"
proof (rule Dispatch_loop.raw_induct [OF _ assms], goal_cases)
  case (1 loop ossl dev m cc req resp t r)
  note IH = 1(1) and step = 1(2)
  show ?case
  proof (intro allI impI)
    fix f :: "nat \<Rightarrow> ReqObj \<times> 'b Tpm2"
    assume f: "f 0 = (req, t)"
    show "\<exists>i. \<not> retry_round ossl dev m cc resp (f i) (f (Suc i))"
    proof (cases "retry_round ossl dev m cc resp (f 0) (f (Suc 0))")
      case True
      obtain req' v where f': "f (Suc 0) = (req', v)" by (cases "f (Suc 0)")
      from True have "loop ossl dev m cc req' resp v = Some r"
        using step yieldsD [OF DispatchIn_again] unfolding f f' by (fastforce elim!: retry_roundE)
      from IH [OF this, rule_format, of "\<lambda>i. f (Suc i)"] f' show ?thesis by auto
    qed blast
  qed
qed

text \<open>
  A command comes to an end (a result, an exception, a failed assertion) exactly if the TPM does not
  answer it with \<open>TPM_RC_RETRY\<close> for ever: nothing else in the code bounds the number of rounds.
\<close>

lemma Dispatch_never_returns:
  "Dispatch ossl dev m cc req resp t = None \<longleftrightarrow>
   (\<exists>f. f 0 = (req, t) \<and> (\<forall>i. retry_round ossl dev m cc resp (f i) (f (Suc i))))"
proof
  assume none: "Dispatch ossl dev m cc req resp t = None"
  let ?next = "\<lambda>x. SOME y. retry_round ossl dev m cc resp x y"
  define f where "f = (\<lambda>i. (?next ^^ i) (req, t))"
  have "Dispatch_loop ossl dev m cc (fst (f i)) resp (snd (f i)) = None \<and>
      (i > 0 \<longrightarrow> retry_round ossl dev m cc resp (f (i - 1)) (f i))" for i
  proof (induction i)
    case 0
    then show ?case using none by (simp add: f_def Dispatch_def)
  next
    case (Suc i)
    then have "\<exists>y. retry_round ossl dev m cc resp (f i) y"
      using Dispatch_loop_stops [of ossl dev m cc resp "fst (f i)" "snd (f i)"] by auto
    then have "retry_round ossl dev m cc resp (f i) (f (Suc i))"
      unfolding f_def by (simp add: someI_ex)
    then show ?case
      using Suc Dispatch_loop_round [of ossl dev m cc resp "fst (f i)" "snd (f i)" "fst (f (Suc i))"
        "snd (f (Suc i))"] by simp
  qed
  then have "retry_round ossl dev m cc resp (f i) (f (Suc i))" for i
    by (metis diff_Suc_1 zero_less_Suc)
  moreover have "f 0 = (req, t)" by (simp add: f_def)
  ultimately show "\<exists>f. f 0 = (req, t) \<and> (\<forall>i. retry_round ossl dev m cc resp (f i) (f (Suc i)))" by blast
next
  assume "\<exists>f. f 0 = (req, t) \<and> (\<forall>i. retry_round ossl dev m cc resp (f i) (f (Suc i)))"
  then show "Dispatch ossl dev m cc req resp t = None"
    unfolding Dispatch_def using Dispatch_loop_rounds by (cases "Dispatch_loop ossl dev m cc req resp t") blast+
qed

end
