(* ===== verification/Tpm2Command.thy ===== *)
theory Tpm2Command
  imports Tpm2Behaviour
begin

unbundle bit_operations_syntax

text \<open>
  What \<open>Tpm2::DispatchOut\<close> puts on the wire: the layout of a command, its authorization area and the
  encryption of its first parameter.
\<close>

section \<open>A buffer under construction\<close>

definition built :: "ByteVec \<Rightarrow> TpmBuffer" where
  "built bs = put_bytes bs (TpmBuffer_new default_capacity)"

lemma built_Nil: "TpmBuffer_new default_capacity = built []"
  by (simp add: built_def)

lemma built_sel [simp]: "tb_pos (built bs) = length bs" "tb_outOfBounds (built bs) = False"
  "tb_sizedStructSizes (built bs) = []"
  by (simp_all add: built_def TpmBuffer_new_def)

lemma size_buf_built: "length bs \<le> 4096 \<Longrightarrow> size_buf (built bs) = 4096"
  by (simp add: built_def size_buf_def TpmBuffer_new_def default_capacity_def)

lemma buf_ok_built: "length bs \<le> 4096 \<Longrightarrow> buf_ok (built bs)"
  by (simp add: buf_ok_def size_buf_built)

lemma fits_built: "length bs \<le> 4096 \<Longrightarrow> fits (built bs) n \<longleftrightarrow> length bs + n \<le> 4096"
  by (simp add: fits_def size_buf_built)

lemma put_bytes_built:
  "length xs + length ys \<le> 4096 \<Longrightarrow> put_bytes ys (built xs) = built (xs @ ys)"
  by (simp add: built_def put_bytes_append fits_new default_capacity_def)

lemma take_built: "length bs \<le> 4096 \<Longrightarrow> resize 0 (length bs) (tb_buf (built bs)) = bs"
  by (simp add: built_def resize_def TpmBuffer_new_def default_capacity_def overwrite_def)

lemma to_buf_built:
  assumes "writes m bs" and "length xs \<le> 4096"
  shows "to_buf m (built xs) t =
    (if length xs + length bs \<le> 4096 then (Ok (built (xs @ bs)), t) else (Throw (runtime_error ''''), t))"
proof (cases "length xs + length bs \<le> 4096")
  case True
  then show ?thesis
    using writes_Ok [OF assms(1) buf_ok_built] assms(2)
    by (simp add: to_buf_def on_buf_def lift_app fits_built put_bytes_built)
next
  case False
  then obtain b' where "m (built xs) = (Throw (runtime_error ''''), b')"
    using writes_overflow [OF assms(1) buf_ok_built] assms(2) by (auto simp: fits_built)
  then show ?thesis using False by (simp add: to_buf_def on_buf_def lift_app)
qed

lemma to_buf_eq_Ok:
  "writes m bs \<Longrightarrow> length xs \<le> 4096 \<Longrightarrow> to_buf m (built xs) t = (Ok b, t') \<longleftrightarrow>
   length xs + length bs \<le> 4096 \<and> b = built (xs @ bs) \<and> t' = t"
  by (auto simp: to_buf_built)

lemma overwrite_within:
  "p + length zs \<le> length xs \<Longrightarrow> overwrite p zs (overwrite 0 xs ys) = overwrite 0 (overwrite p zs xs) ys"
  by (simp add: overwrite_def)

text \<open>A number that is written over bytes that are already there: a size that became known.\<close>

lemma to_buf_writeNumAtPos:
  assumes "int_size len" and "length (be_bytes len v) = len" and "p + len \<le> length xs" and "length xs \<le> 4096"
  shows "to_buf (writeNumAtPos v p len) (built xs) t = (Ok (built (overwrite p (be_bytes len v) xs)), t)"
proof -
  let ?b = "(built xs)\<lparr>tb_pos := p\<rparr>"
  have size: "size_buf ?b = 4096" using assms(4) size_buf_built by (simp add: size_buf_def)
  then have "writeNum v len ?b = (Ok (), put_bytes (be_bytes len v) ?b)"
    using assms by (intro writes_Ok [OF writes_writeNum]) (simp_all add: buf_ok_def fits_def)
  moreover have "set_curPos p (built xs) = (Ok (), ?b)"
    using size assms(3,4) by (simp add: set_curPos_def size_buf_built)
  moreover have "set_curPos (length xs) (put_bytes (be_bytes len v) ?b) =
      (Ok (), built (overwrite p (be_bytes len v) xs))"
    using size assms
    by (simp add: set_curPos_def size_buf_def put_bytes_def built_def TpmBuffer_new_def
        default_capacity_def overwrite_within)
  ultimately show ?thesis
    by (simp add: to_buf_def on_buf_def lift_app writeNumAtPos_def sbind_Ok sseq_Ok curPos_def ret_app)
qed

lemma be_bytes_of_nat: "be_bytes 4 (of_nat n) = enc32 (of_nat n)"
proof -
  have "byte_at k (of_nat n) = byte_at k (ucast (of_nat n :: UINT32))" if "k + 8 \<le> 32" for k
    using that by (intro bit_word_eqI) (auto simp: bit_byte_at bit_simps)
  then show ?thesis by (simp add: enc32_def be_bytes_def)
qed

section \<open>Specification of the wire format\<close>

definition auth_area :: "TPMS_AUTH_COMMAND list \<Rightarrow> ByteVec" where
  "auth_area auths = (let area = concat (map TPMS_AUTH_COMMAND_enc auths) in enc32 (of_nat (length area)) @ area)"

definition command_bytes :: "TPM_ST \<Rightarrow> TPM_CC \<Rightarrow> TPM_HANDLE list \<Rightarrow> ByteVec \<Rightarrow> ByteVec \<Rightarrow> ByteVec" where
  "command_bytes tag cc handles area params =
     (let rest = enc32 cc @ concat (map TPM_HANDLE_enc handles) @ area @ params
      in enc16 tag @ enc32 (of_nat (6 + length rest)) @ rest)"

lemma TPM_HANDLE_writes_any: "writes (TPM_HANDLE_toTpm h) (TPM_HANDLE_enc h)"
  unfolding TPM_HANDLE_toTpm_def TPM_HANDLE_enc_def by (intro writes_intros)

lemma TPMS_AUTH_COMMAND_writes_any: "writes (TPMS_AUTH_COMMAND_toTpm s) (TPMS_AUTH_COMMAND_enc s)"
  unfolding TPMS_AUTH_COMMAND_toTpm_def TPMS_AUTH_COMMAND_enc_def
  by (intro writes_intros TPM_HANDLE_writes_any) simp_all

lemma writes_all: "(\<And>x. writes (f x) (g x)) \<Longrightarrow> writes (wseq (map f xs)) (concat (map g xs))"
  by (induction xs) (simp_all add: writes_ret writes_sseq)

text \<open>Which session an authorization is for.\<close>

definition auth_handle :: "TPMS_AUTH_COMMAND \<Rightarrow> UINT32" where
  "auth_handle s = TPM_HANDLE_handle (TPMS_AUTH_COMMAND_sessionHandle s)"

definition session_handle :: "'d Tpm2 \<Rightarrow> addr \<Rightarrow> UINT32" where
  "session_handle t = (\<lambda>a. TPM_HANDLE_handle (as_handle (tp_sess t a)))"

definition authorizes :: "'d Tpm2 \<Rightarrow> nat \<Rightarrow> TPMS_AUTH_COMMAND list \<Rightarrow> bool" where
  "authorizes t n auths \<longleftrightarrow> length auths = max (length (tp_Sessions t)) n \<and>
     take (length (tp_Sessions t)) (map auth_handle auths) = map (session_handle t) (tp_Sessions t)"

lemma authorizes_started [simp]: "authorizes (t\<lparr>tp_SessTag := tag, tp_InHandles := hs\<rparr>) n auths \<longleftrightarrow> authorizes t n auths"
  by (simp add: authorizes_def session_handle_def)

lemma bindO_eq_Ok: "bindO r f t = (Ok y, t') \<longleftrightarrow> (\<exists>x. r = Ok x \<and> f x t = (Ok y, t'))"
  by (cases r) (simp_all add: throw_app sbind_def sassert_def undef_def)

lemma auth_session_handle:
  assumes "auth_session ossl cp n i a s t = (Ok s', t')"
  shows "auth_handle s' = session_handle t a \<and> session_handle t' = session_handle t"
  using assms
  by (auto simp: auth_session_def Let_def sseq_eq_Ok sbind_eq_Ok modifyS_app getS_app getf_app ret_app lift_app
      bindO_eq_Ok obind_eq_Ok set_sess_def auth_handle_def session_handle_def IsPWAP_def TPM_HANDLE_of_def throw_app fun_eq_iff
      split: if_split_asm outcome.split_asm)

lemma auth_loop_writes:
  "auth_loop ossl cp n i as s (built xs) t = (Ok b, t') \<Longrightarrow> length xs \<le> 4096 \<Longrightarrow>
   \<exists>auths. map auth_handle auths = map (session_handle t) as \<and> b = built (xs @ concat (map TPMS_AUTH_COMMAND_enc auths)) \<and>
     length (xs @ concat (map TPMS_AUTH_COMMAND_enc auths)) \<le> 4096"
proof (induction as arbitrary: i s xs t)
  case Nil
  then show ?case by (simp add: ret_app)
next
  case (Cons a as)
  from Cons.prems obtain s' u where "auth_session ossl cp n i a s t = (Ok s', u)" "length xs + length (TPMS_AUTH_COMMAND_enc s') \<le> 4096"
    and "auth_loop ossl cp n (Suc i) as s' (built (xs @ TPMS_AUTH_COMMAND_enc s')) u = (Ok b, t')"
    by (auto simp: sbind_eq_Ok to_buf_eq_Ok [OF TPMS_AUTH_COMMAND_writes_any])
  moreover from this obtain auths where "map auth_handle auths = map (session_handle u) as"
    and "b = built ((xs @ TPMS_AUTH_COMMAND_enc s') @ concat (map TPMS_AUTH_COMMAND_enc auths))"
    and "length ((xs @ TPMS_AUTH_COMMAND_enc s') @ concat (map TPMS_AUTH_COMMAND_enc auths)) \<le> 4096"
    using Cons.IH by fastforce
  ultimately show ?case
    using auth_session_handle [of ossl cp n i a s t s' u] by (intro exI [of _ "s' # auths"]) simp
qed

section \<open>Parameter encryption\<close>

text \<open>A buffer that holds nothing but what was written: the parameters after \<open>trim\<close>.\<close>

definition full :: "ByteVec \<Rightarrow> TpmBuffer" where
  "full bs = (TpmBuffer_of bs)\<lparr>tb_pos := length bs\<rparr>"

lemma full_sel [simp]: "tb_pos (full bs) = length bs" "tb_buf (full bs) = bs" "size_buf (full bs) = length bs"
  by (simp_all add: full_def TpmBuffer_of_def size_buf_def)

lemma to_buf_trim:
  assumes "writes m bs"
  shows "to_buf (sseq m (sbind trim (\<lambda>_. ret ()))) (built []) t =
    (if length bs \<le> 4096 then (Ok (full bs), t) else (Throw (runtime_error ''''), t))"
proof (cases "length bs \<le> 4096")
  case True
  then have "m (built []) = (Ok (), built bs)"
    using writes_Ok [OF assms buf_ok_built, of "[]"] by (simp add: fits_built put_bytes_built)
  moreover have "(built bs)\<lparr>tb_buf := bs\<rparr> = full bs"
    by (simp add: full_def TpmBuffer_of_def built_def TpmBuffer_new_def put_bytes_def)
  then have "trim (built bs) = (Ok bs, full bs)"
    using True by (simp add: trim_def take_built Let_def)
  ultimately show ?thesis
    using True by (simp add: to_buf_def on_buf_def lift_app sseq_Ok sbind_Ok ret_app)
next
  case False
  then obtain b' where "m (built []) = (Throw (runtime_error ''''), b')"
    using writes_overflow [OF assms buf_ok_built, of "[]"] by (auto simp: fits_built)
  then show ?thesis using False by (simp add: to_buf_def on_buf_def lift_app sseq_Throw)
qed

lemma keeps_load_next [keeps_intros]: "keeps (\<lambda>s. length (fst s)) load_next"
  by (simp add: keeps_def load_next_def split: prod.split)

lemma keeps_on_bytes [keeps_intros]: "keeps (\<lambda>s. length (fst s)) m \<Longrightarrow> keeps size_buf (on_bytes m)"
  by (auto simp: keeps_def on_bytes_def onpart_def size_buf_def split: prod.split)
    (metis fst_conv snd_conv)

lemma keeps_load_sum [keeps_intros]: "keeps (\<lambda>s. length (fst s)) (load_sum ks r)"
  by (induction ks arbitrary: r) (auto intro!: keeps_intros)

lemma keeps_buffer [keeps_intros]:
  "keeps size_buf (checkLen n)" "keeps size_buf curPos" "keeps size_buf (set_curPos p)"
  by (simp_all add: keeps_def checkLen_def curPos_def set_curPos_def size_buf_def)

lemma keeps_readNum [keeps_intros]: "keeps size_buf (readNum n)"
  unfolding readNum_def Int64FromTpm_shifts by (intro keeps_intros)

lemma keeps_readByteBuf [keeps_intros]: "keeps size_buf (readByteBuf n)"
  unfolding readByteBuf_def by (intro keeps_intros) (simp add: keeps_def size_buf_def)

lemma keeps_writeByteBuf [keeps_intros]: "keeps size_buf (writeByteBuf bs)"
proof -
  have "size_buf (snd (sseq (checkLen (length bs)) (modifyS (put_bytes bs)) b)) = size_buf b" for b
    by (cases "fits b (length bs)")
      (simp_all add: sseq_Ok checkLen_Ok modifyS_app sseq_def sbind_def checkLen_def fits_def size_buf_def)
  then show ?thesis by (simp add: writeByteBuf_def keeps_def ret_app)
qed

lemma on_buf_keeps: "keeps size_buf m \<Longrightarrow> on_buf m b = Ok (x, b') \<Longrightarrow> size_buf b' = size_buf b"
  unfolding keeps_def on_buf_def by (auto split: prod.splits outcome.splits) (metis snd_conv)

lemma to_buf_keeps: "keeps size_buf m \<Longrightarrow> to_buf m b t = (Ok b', t') \<Longrightarrow> size_buf b' = size_buf b"
  by (auto simp: to_buf_def lift_app obind_eq_Ok dest: on_buf_keeps)

text \<open>Whatever the cipher returns, the parameters keep their length; without a session, their value.\<close>

lemma DoParmEncryption_size:
  assumes "DoParmEncryption ossl sei b start request t = (Ok b', t')"
  shows "size_buf b' = size_buf b"
proof (cases "if request then tp_DecSession t else tp_EncSession t")
  case None
  then show ?thesis using assms by (simp add: DoParmEncryption_def ret_app split: if_splits)
next
  case (Some a)
  have keeps_all: "keeps size_buf (sseq (set_curPos p) (sseq (writeByteBuf r) (sseq (set_curPos q) (ret ()))))"
    for p r q
    by (intro keeps_intros)
  have keeps_read: "keeps size_buf (sseq (set_curPos start) (sbind (readNum n) (\<lambda>arrSize.
      sbind curPos (\<lambda>arrPos. sbind (readByteBuf (unat arrSize * k)) (\<lambda>x. ret (arrPos, x))))))" for n k
    by (intro keeps_intros)
  show ?thesis
    using assms Some
    by (auto simp: DoParmEncryption_def sseq_eq_Ok sbind_eq_Ok lift_app Let_def ret_app
        dest!: to_buf_keeps [OF keeps_all] on_buf_keeps [OF keeps_read] split: prod.splits if_splits)
qed

text \<open>
  Of a parameter area that begins with a sized buffer, exactly the data of that buffer are replaced by
  their encryption; the size before them and all further parameters are sent as they are.
\<close>

lemma DoParmEncryption_first:
  assumes sess: "tp_DecSession t = Some a" and sei: "sizeLen sei = 2" "valLen sei = 1"
    and ok: "sized_ok 2 data"
    and xcrypt: "ParamXcrypt ossl (tp_sess t a) data True = Ok res" and len: "length res = length data"
  shows "DoParmEncryption ossl sei (full (enc_sized 2 data @ rest)) 0 True t =
    (Ok (full (enc_sized 2 res @ rest)), t\<lparr>tp_EncSession := None, tp_DecSession := None\<rparr>)"
proof -
  let ?b = "full (enc_sized 2 data @ rest)"
  let ?size = "ucast (of_nat (length data) :: UINT32) :: UINT64"
  let ?c = "?b\<lparr>tb_pos := 0, tb_outOfBounds := False\<rparr>"
  have read: "reads (readNum 2) (take_bit 16 ?size) (be_bytes 2 ?size)"
    using reads_readNum [of 2 ?size] by simp
  have size: "unat (take_bit 16 ?size) = length data"
    using unat_size_field [OF ok] by simp
  have "readNum 2 ?c = (Ok (take_bit 16 ?size), adv 2 ?c)"
    using reads_Ok [OF read, of ?c] by (simp add: buf_ok_def size_buf_def continues_def enc_sized_def)
  moreover have "readByteBuf (length data) (adv 2 ?c) = (Ok data, adv (2 + length data) ?c)"
    using reads_Ok [OF reads_readByteBuf, of _ data "adv 2 ?c"]
    by (simp add: buf_ok_def size_buf_def continues_def enc_sized_def)
  moreover have "set_curPos 0 ?b = (Ok (), ?c)" by (simp add: set_curPos_def)
  ultimately have get: "on_buf (sseq (set_curPos 0) (sbind (readNum 2) (\<lambda>arrSize. sbind curPos (\<lambda>arrPos.
      sbind (readByteBuf (unat arrSize)) (\<lambda>x. ret (arrPos, x)))))) ?b = Ok ((2, data), adv (2 + length data) ?c)"
    by (simp add: on_buf_def sseq_Ok sbind_Ok curPos_def size ret_app)
  let ?d = "(adv (2 + length data) ?c)\<lparr>tb_pos := 2, tb_outOfBounds := False\<rparr>"
  have "set_curPos 2 (adv (2 + length data) ?c) = (Ok (), ?d)"
    by (simp add: set_curPos_def size_buf_def enc_sized_def)
  moreover have "writeByteBuf res ?d = (Ok (), put_bytes res ?d)"
    using len by (intro writes_Ok [OF writes_writeByteBuf])
      (simp_all add: buf_ok_def fits_def size_buf_def enc_sized_def)
  moreover have "set_curPos (length (enc_sized 2 data @ rest)) (put_bytes res ?d) =
      (Ok (), full (enc_sized 2 res @ rest))"
    using len by (simp add: set_curPos_def size_buf_def put_bytes_def full_def TpmBuffer_of_def
        enc_sized_def overwrite_def)
  ultimately have put: "to_buf (wseq [set_curPos 2, writeByteBuf res,
      set_curPos (length (enc_sized 2 data @ rest))]) (adv (2 + length data) ?c) t =
      (Ok (full (enc_sized 2 res @ rest)), t)"
    by (simp add: to_buf_def on_buf_def lift_app sseq_Ok ret_app)
  show ?thesis
    using sess sei xcrypt get put
    by (simp add: DoParmEncryption_def sseq_def sbind_def sassert_app lift_app Let_def ret_app modifyS_app
        getf_app)
qed

section \<open>The command\<close>

text \<open>What is in place when the command is sent stays so until the response is taken in.\<close>

lemma keeps_LastCommandBuf [keeps_intros]:
  "keeps tp_LastCommandBuf (set_objectInAuth v)" "keeps tp_LastCommandBuf (set_objectInName v)"
  "keeps tp_device (set_objectInAuth v)" "keeps tp_device (set_objectInName v)"
  unfolding set_objectInAuth_def set_objectInName_def by (rule keeps_modifyS; simp)+

lemma keeps_UpdateRequestHandles:
  assumes "\<And>v. keeps f (set_objectInAuth v)" and "\<And>v. keeps f (set_objectInName v)"
  shows "keeps f (UpdateRequestHandles ossl cc req)"
  unfolding UpdateRequestHandles_def Let_def
  by (cases req) (simp_all only: ReqObj.case, (intro keeps_intros assms)+)

text \<open>The device is not used, and the buffers of an earlier command stay, while a command is made.\<close>

lemma keeps_device:
  "keeps tp_device (set_sess a s)" "keeps tp_device (RandomBytes ossl n)" "keeps tp_device clear_Sessions"
  "keeps tp_device PrepareParmEncryptionSessions"
  unfolding set_sess_def clear_Sessions_def PrepareParmEncryptionSessions_def Let_def
  by (rule keeps_modifyS; simp | simp add: keeps_def RandomBytes_def)+

lemma keeps_getS_device: "(\<And>t. keeps f (k t)) \<Longrightarrow> keeps f (sbind getS k)"
  by (intro keeps_intros)

lemma keeps_device_roll [keeps_intros]: "keeps tp_device (RollNonces ossl)"
proof -
  have "keeps tp_device (roll_nonces ossl as)" for as
  proof (induction as)
    case Nil
    show ?case unfolding roll_nonces.simps by (intro keeps_intros)
  next
    case (Cons a as)
    then show ?case unfolding roll_nonces.simps by (intro keeps_intros keeps_device)
  qed
  then show ?thesis unfolding RollNonces_def by (intro keeps_intros)
qed

lemma keeps_device_DoParmEncryption [keeps_intros]:
  "keeps tp_device (DoParmEncryption ossl sei buf start req)"
  unfolding DoParmEncryption_def Let_def by (intro keeps_intros keeps_modifyS; simp)

lemma keeps_device_auth_session: "keeps tp_device (auth_session ossl cp n i a s)"
  unfolding auth_session_def Let_def
  by (intro keeps_sseq keeps_sbind keeps_if keeps_bindO keeps_basic keeps_device keeps_modifyS; simp)

lemma keeps_device_auth_loop [keeps_intros]: "keeps tp_device (auth_loop ossl cp n i as s b)"
  by (induction ossl cp n i as s b rule: auth_loop.induct)
    (auto intro!: keeps_intros keeps_device_auth_session)

lemma keeps_device_write_sessions: "keeps tp_device (write_sessions ossl cc req b p)"
proof -
  have "keeps tp_device (ProcessAuthSessions ossl b cc n x)" for b n x
    unfolding ProcessAuthSessions_def Let_def by (intro keeps_intros)
  then show ?thesis
    unfolding write_sessions_def Let_def
    by (intro keeps_sseq keeps_sbind keeps_if keeps_prod keeps_basic keeps_device keeps_modifyS
        keeps_device_roll keeps_device_DoParmEncryption) simp_all
qed

lemma keeps_Sessions_roll: "keeps tp_Sessions (RollNonces ossl)"
proof -
  have "keeps tp_Sessions (RandomBytes ossl n)" for n by (simp add: keeps_def RandomBytes_def)
  moreover have "keeps tp_Sessions (set_sess a s)" for a s
    unfolding set_sess_def by (rule keeps_modifyS) simp
  moreover have "keeps tp_Sessions (roll_nonces ossl as)" for as
  proof (induction as)
    case Nil
    show ?case unfolding roll_nonces.simps by (intro keeps_intros)
  next
    case (Cons a as)
    then show ?case unfolding roll_nonces.simps by (intro keeps_intros calculation)
  qed
  then show ?thesis unfolding RollNonces_def by (intro keeps_intros)
qed

lemma keeps_Sessions_encryption:
  "keeps tp_Sessions PrepareParmEncryptionSessions"
  "keeps tp_Sessions (DoParmEncryption ossl sei buf start req)"
  unfolding PrepareParmEncryptionSessions_def DoParmEncryption_def Let_def
  by (rule keeps_modifyS; simp) (intro keeps_intros keeps_modifyS; simp)

lemma roll_nonces_handle: "roll_nonces ossl as t = (Ok x, t') \<Longrightarrow> session_handle t' = session_handle t"
proof (induction as arbitrary: t)
  case Nil
  then show ?case by (simp add: ret_app)
next
  case (Cons a as)
  have "session_handle (t\<lparr>tp_rands := n, tp_sess := (tp_sess t)(a := tp_sess t a\<lparr>as_NonceCaller := v\<rparr>)\<rparr>) = session_handle t" for n v
    by (simp add: session_handle_def fun_eq_iff)
  then show ?case
    using Cons by (auto simp: sbind_eq_Ok sseq_eq_Ok getf_app RandomBytes_def set_sess_def modifyS_app split: if_split_asm)
qed

lemma keeps_handles:
  "keeps tp_sess PrepareParmEncryptionSessions" "keeps tp_sess (DoParmEncryption ossl sei buf start req)"
  unfolding PrepareParmEncryptionSessions_def DoParmEncryption_def Let_def
  by (rule keeps_modifyS; simp) (intro keeps_intros keeps_modifyS; simp)

text \<open>The authorization area: one structure for each session, the sessions made up to the handles' number.\<close>

lemma write_sessions_layout:
  assumes "write_sessions ossl cc req (built xs) paramBuf t = (Ok (cp, cmdBuf, paramBuf'), t')"
    and len: "length xs \<le> 4096"
  shows "\<exists>auths. cmdBuf = built (xs @ auth_area auths) \<and> length (xs @ auth_area auths) \<le> 4096 \<and>
    authorizes t (unat (req_numAuthHandles req)) auths \<and>
    size_buf paramBuf' = size_buf paramBuf"
proof -
  let ?n = "unat (req_numAuthHandles req)"
  let ?t = "if length (tp_Sessions t) < ?n
    then t\<lparr>tp_Sessions := resize PwapSession ?n (tp_Sessions t)\<rparr> else t"
  from assms obtain u v w z cmdBuf' where small: "length xs + 4 \<le> 4096"
    and roll: "RollNonces ossl ?t = (Ok (), u)" and prep: "PrepareParmEncryptionSessions u = (Ok (), v)"
    and enc: "DoParmEncryption ossl (req_sessEncInfo req) paramBuf 0 True v = (Ok paramBuf', w)"
    and "ProcessAuthSessions ossl (built (xs @ enc32 0)) cc ?n (tb_buf paramBuf') w = (Ok (cp, cmdBuf'), z)"
    and fill: "to_buf (writeNumAtPos (of_nat (tb_pos cmdBuf' - (length xs + 4))) (length xs) 4) cmdBuf' z =
      (Ok cmdBuf, t')"
    by (auto simp: write_sessions_def Let_def sbind_eq_Ok to_buf_eq_Ok [OF writes_writeInt] sseq_eq_Ok
        modifyS_app ret_app split: prod.splits)
  then obtain x b where "auth_loop ossl x ?n 0 (tp_Sessions w) b (built (xs @ enc32 0)) w = (Ok cmdBuf', z)"
    by (auto simp: ProcessAuthSessions_def sbind_eq_Ok sseq_eq_Ok sassert_app getS_app lift_app ret_app Let_def
        split: if_splits)
  then obtain auths where auths: "map auth_handle auths = map (session_handle w) (tp_Sessions w)"
    and cmdBuf': "cmdBuf' = built ((xs @ enc32 0) @ concat (map TPMS_AUTH_COMMAND_enc auths))"
    and total: "length ((xs @ enc32 0) @ concat (map TPMS_AUTH_COMMAND_enc auths)) \<le> 4096"
    using auth_loop_writes [of ossl x ?n 0 "tp_Sessions w" b "xs @ enc32 0" w cmdBuf' z] small by auto
  have "tp_Sessions w = tp_Sessions ?t"
    using keepsD [OF keeps_Sessions_roll roll] keepsD [OF keeps_Sessions_encryption(1) prep]
      keepsD [OF keeps_Sessions_encryption(2) enc] by simp
  moreover have "session_handle w = session_handle t"
    using keepsD [OF keeps_handles(1) prep] keepsD [OF keeps_handles(2) enc] roll_nonces_handle [of ossl _ ?t "()" u] roll
    by (auto simp: session_handle_def RollNonces_def sbind_eq_Ok getf_app split: if_split_asm)
  ultimately have m: "map auth_handle auths = map (session_handle t) (tp_Sessions ?t)" using auths by simp
  have "authorizes t ?n auths"
    using arg_cong [OF m, of length] arg_cong [OF m, of "take (length (tp_Sessions t))"]
    by (auto simp: authorizes_def resize_def take_map split: if_splits)
  moreover have "cmdBuf = built (xs @ auth_area auths)"
    using fill total unfolding cmdBuf'
    by (subst (asm) to_buf_writeNumAtPos)
      (auto simp: auth_area_def Let_def be_bytes_of_nat overwrite_def)
  ultimately show ?thesis
    using total DoParmEncryption_size [OF enc] by (intro exI [of _ auths]) (simp add: auth_area_def Let_def)
qed

definition uses_sessions :: "'d Tpm2 \<Rightarrow> ReqObj \<Rightarrow> bool" where
  "uses_sessions t req \<longleftrightarrow> req_numAuthHandles (req_methods req) \<noteq> 0 \<or> tp_Sessions t \<noteq> []"

definition command_tag :: "'d Tpm2 \<Rightarrow> ReqObj \<Rightarrow> TPM_ST" where
  "command_tag t req = (if uses_sessions t req then TPM_ST_SESSIONS else TPM_ST_NO_SESSIONS)"

text \<open>
  \<open>sent\<close>: the command that a call handed to the device, and what the device made of it.
\<close>

definition sent :: "'d TpmDevice \<Rightarrow> ByteVec \<Rightarrow> 'd Tpm2 \<Rightarrow> 'd Tpm2 \<Rightarrow> bool" where
  "sent dev cmd t t' \<longleftrightarrow> (\<exists>d d'. tp_device t = Some d \<and> dev_DispatchCommand dev cmd d = (Ok (), d') \<and>
     tp_device t' = Some d' \<and> tp_LastCommandBuf t' = cmd)"

lemma on_deviceD:
  "on_device m t = (Ok x, t') \<Longrightarrow> \<exists>d d'. tp_device t = Some d \<and> m d = (Ok x, d') \<and> t' = t\<lparr>tp_device := Some d'\<rparr>"
  by (auto simp: on_device_def split: option.splits prod.splits)

lemma header_area:
  assumes "(if hasS then write_sessions ossl cc req (built xs) (full params)
      else ret ([], built xs, full params)) u = (Ok (cp, cmdBuf, paramBuf), v)"
    and len: "length xs \<le> 4096"
  shows "\<exists>area. cmdBuf = built (xs @ area) \<and> length (xs @ area) \<le> 4096 \<and>
    length (tb_buf paramBuf) = length params \<and> tp_device v = tp_device u \<and>
    (if hasS
     then \<exists>auths. area = auth_area auths \<and>
       authorizes u (unat (req_numAuthHandles req)) auths
     else area = [] \<and> tb_buf paramBuf = params)"
proof (cases hasS)
  case True
  then have "write_sessions ossl cc req (built xs) (full params) u = (Ok (cp, cmdBuf, paramBuf), v)"
    using assms(1) by simp
  from write_sessions_layout [OF this len] keepsD [OF keeps_device_write_sessions this] True
  show ?thesis by (auto simp: size_buf_def full_def TpmBuffer_of_def)
next
  case False
  then show ?thesis using assms by (auto simp: ret_app)
qed

lemma make_command_layout:
  assumes "make_command ossl cc req hasS tag t = (Ok (cp, cmdBuf, paramBuf), t')"
    and params: "writes (req_toTpm req) params"
  shows "\<exists>area. cmdBuf = built (command_bytes tag cc (req_getHandles req) area (tb_buf paramBuf)) \<and>
    length (command_bytes tag cc (req_getHandles req) area (tb_buf paramBuf)) \<le> 4096 \<and>
    length (tb_buf paramBuf) = length params \<and> tp_device t' = tp_device t \<and>
    (if hasS
     then \<exists>auths. area = auth_area auths \<and>
       authorizes t (unat (req_numAuthHandles req)) auths
     else area = [] \<and> tb_buf paramBuf = params)"
proof -
  let ?hs = "req_getHandles req"
  let ?rest = "enc32 cc @ concat (map TPM_HANDLE_enc ?hs)"
  let ?head = "enc16 tag @ enc32 0 @ ?rest"
  let ?u = "t\<lparr>tp_SessTag := tag, tp_InHandles := ?hs\<rparr>"
  have head: "writes (wseq ([writeShort tag, writeInt 0, writeInt cc] @ map TPM_HANDLE_toTpm ?hs)) ?head"
    by (simp, intro writes_intros writes_all TPM_HANDLE_writes_any)
  from assms(1) obtain b1 b2 b3 u1 u2 u3 u4 where
      b1: "to_buf (wseq ([writeShort tag, writeInt 0, writeInt cc] @ map TPM_HANDLE_toTpm ?hs)) (built []) ?u =
        (Ok b1, u1)"
    and b2: "to_buf (sseq (req_toTpm req) (sbind trim (\<lambda>_. ret ()))) (built []) u1 = (Ok b2, u2)"
    and b3: "(if hasS then write_sessions ossl cc req b1 b2 else ret ([], b1, b2)) u2 =
        (Ok (cp, b3, paramBuf), u3)"
    and tail: "sbind (to_buf (writeByteBuf (tb_buf paramBuf)) b3) (\<lambda>b4.
        to_buf (writeNumAtPos (of_nat (tb_pos b4)) 2 4) b4) u3 = (Ok cmdBuf, t')"
    by (auto simp: make_command_def built_Nil sbind_eq_Ok [where m = "to_buf _ (built [])"]
        sbind_eq_Ok [where m = "If _ _ _"] sbind_eq_Ok [where m = "to_buf _ _"] ret_app
        simp del: wseq.simps split: prod.splits)
  have b1': "b1 = built ?head" "length ?head \<le> 4096" "u1 = ?u"
    using b1 by (simp_all only: to_buf_eq_Ok [OF head] list.size(3)) simp_all
  have b2': "b2 = full params" "u2 = ?u"
    using b2 by (simp_all add: b1' to_buf_trim [OF params] split: if_splits)
  obtain area where area: "b3 = built (?head @ area)" "length (?head @ area) \<le> 4096"
    "length (tb_buf paramBuf) = length params" "tp_device u3 = tp_device ?u"
    "if hasS then \<exists>auths. area = auth_area auths \<and>
        authorizes ?u (unat (req_numAuthHandles req)) auths
     else area = [] \<and> tb_buf paramBuf = params"
    using header_area [OF b3 [unfolded b1' b2'] b1'(2)] by blast
  let ?all = "(?head @ area) @ tb_buf paramBuf"
  let ?b4 = "built ?all"
  have body: "to_buf (writeByteBuf (tb_buf paramBuf)) b3 u3 = (Ok b, v) \<longleftrightarrow>
      length ?all \<le> 4096 \<and> b = ?b4 \<and> v = u3" for b v
    unfolding area(1) to_buf_eq_Ok [OF writes_writeByteBuf area(2)] by simp
  from tail have b4: "to_buf (writeNumAtPos (of_nat (length ?all)) 2 4) ?b4 u3 = (Ok cmdBuf, t')"
    and len: "length ?all \<le> 4096"
    unfolding sbind_eq_Ok body by auto
  have fill: "to_buf (writeNumAtPos (of_nat (length ?all)) 2 4) ?b4 u3 =
      (Ok (built (overwrite 2 (enc32 (of_nat (length ?all))) ?all)), u3)"
    unfolding be_bytes_of_nat [symmetric] by (rule to_buf_writeNumAtPos) (use len in simp_all)
  have "cmdBuf = built (overwrite 2 (enc32 (of_nat (length ?all))) ?all)" "t' = u3"
    using b4 unfolding fill by simp_all
  moreover have "overwrite 2 (enc32 (of_nat (length ?all))) ?all =
      command_bytes tag cc ?hs area (tb_buf paramBuf)"
    by (simp add: command_bytes_def Let_def overwrite_def)
  moreover have "length (command_bytes tag cc ?hs area (tb_buf paramBuf)) = length ?all"
    by (simp add: command_bytes_def Let_def)
  ultimately show ?thesis
    using area(3-5) len by (cases hasS; intro exI [of _ area]; simp)
qed

text \<open>
  Every command that is sent has the format that Part 1 of the TPM specification prescribes: the tag
  says whether there are sessions, the size field counts all bytes, the handles and the parameters are
  those of the request, and there is one authorization for each session, at least one for each handle
  that needs one.
\<close>

lemma send_command_sent:
  assumes "send_command ossl dev cc reqObj cp (built bs) t = (Ok (True, reqObj'), t')" and "length bs \<le> 4096"
  shows "sent dev bs t t' \<and> tp_PendingCommand t' = cc"
proof -
  from assms obtain d d' where d: "tp_device t = Some d" and cmd: "dev_DispatchCommand dev bs d = (Ok (), d')"
    and "\<exists>u v. UpdateRequestHandles ossl cc reqObj (u\<lparr>tp_LastCommandBuf := bs, tp_device := Some d'\<rparr>) =
      (Ok reqObj', v) \<and> t' = v\<lparr>tp_PendingCommand := cc\<rparr>"
    by (fastforce simp: send_command_def Let_def sseq_eq_Ok sbind_eq_Ok throw_app ret_app modifyS_app lift_app
        take_built dest!: on_deviceD split: option.splits if_splits)
  then obtain u v where last: "UpdateRequestHandles ossl cc reqObj (u\<lparr>tp_LastCommandBuf := bs, tp_device := Some d'\<rparr>) =
      (Ok reqObj', v)" and t': "t' = v\<lparr>tp_PendingCommand := cc\<rparr>" by blast
  have "tp_device v = Some d'" "tp_LastCommandBuf v = bs"
    using keepsD [OF keeps_UpdateRequestHandles last, of tp_device]
      keepsD [OF keeps_UpdateRequestHandles last, of tp_LastCommandBuf]
    by (simp_all add: set_objectInAuth_def set_objectInName_def keeps_modifyS)
  then show ?thesis using d cmd t' by (auto simp: sent_def)
qed

lemma DispatchOut_layout:
  assumes "DispatchOut ossl dev cc reqObj t = (Ok (True, reqObj'), t')"
    and params: "writes (req_toTpm (req_methods reqObj)) params"
  shows "\<exists>area params'. sent dev (command_bytes (command_tag t reqObj) cc
      (req_getHandles (req_methods reqObj)) area params') t t' \<and>
    length params' = length params \<and> tp_PendingCommand t' = cc \<and>
    (if uses_sessions t reqObj
     then \<exists>auths. area = auth_area auths \<and>
       authorizes t (unat (req_numAuthHandles (req_methods reqObj))) auths
     else area = [] \<and> params' = params)"
proof -
  let ?tag = "command_tag t reqObj" and ?uses = "uses_sessions t reqObj"
  define cont where "cont = (\<lambda>(cpHashData, cmdBuf, paramBuf :: TpmBuffer). sbind getS (\<lambda>t.
      sbind (if tp_CpHash t \<noteq> None \<or> tp_AuditCommand t
             then (if cpHashData = [] then lift (GetCpHashData (tp_InHandles t) cc (tb_buf paramBuf))
                   else ret cpHashData)
             else ret cpHashData) (\<lambda>cpHashData. send_command ossl dev cc reqObj cpHashData cmdBuf)))"
  have "sbind (make_command ossl cc (req_methods reqObj) ?uses ?tag) cont t = (Ok (True, reqObj'), t')"
    using assms(1) unfolding DispatchOut_def Let_def cont_def command_tag_def uses_sessions_def
    by (auto simp: throw_app simp del: One_nat_def split: if_split_asm)
  then obtain r u where make: "make_command ossl cc (req_methods reqObj) ?uses ?tag t = (Ok r, u)"
    and "cont r u = (Ok (True, reqObj'), t')"
    by (auto simp: sbind_eq_Ok)
  moreover obtain cp cmdBuf paramBuf where r: "r = (cp, cmdBuf, paramBuf)" by (cases r)
  ultimately obtain cp' where send: "send_command ossl dev cc reqObj cp' cmdBuf u = (Ok (True, reqObj'), t')"
    by (auto simp: cont_def sbind_eq_Ok lift_app ret_app split: if_split_asm)
  note make = make [unfolded r]
  from make_command_layout [OF make params] obtain area where
      cmdBuf: "cmdBuf = built (command_bytes ?tag cc (req_getHandles (req_methods reqObj)) area (tb_buf paramBuf))"
    and len: "length (command_bytes ?tag cc (req_getHandles (req_methods reqObj)) area (tb_buf paramBuf)) \<le> 4096"
    and rest: "length (tb_buf paramBuf) = length params" "tp_device u = tp_device t"
      "if ?uses then \<exists>auths. area = auth_area auths \<and>
         authorizes t (unat (req_numAuthHandles (req_methods reqObj))) auths
       else area = [] \<and> tb_buf paramBuf = params"
    by blast
  from send_command_sent [OF send [unfolded cmdBuf] len] rest show ?thesis
    by (intro exI [of _ area] exI [of _ "tb_buf paramBuf"]) (simp add: sent_def)
qed

text \<open>The number of authorizations alone.\<close>

lemma DispatchOut_format:
  assumes "DispatchOut ossl dev cc reqObj t = (Ok (True, reqObj'), t')"
    and "writes (req_toTpm (req_methods reqObj)) params"
  shows "\<exists>area params'. sent dev (command_bytes (command_tag t reqObj) cc
      (req_getHandles (req_methods reqObj)) area params') t t' \<and>
    length params' = length params \<and> tp_PendingCommand t' = cc \<and>
    (if uses_sessions t reqObj
     then \<exists>auths. area = auth_area auths \<and>
       length auths = max (length (tp_Sessions t)) (unat (req_numAuthHandles (req_methods reqObj)))
     else area = [] \<and> params' = params)"
  using DispatchOut_layout [OF assms] unfolding authorizes_def by (fastforce split: if_splits)

section \<open>A response with another tag\<close>

lemma keeps_CompleteUpdate:
  assumes "\<And>t v. f (t\<lparr>tp_InHandles := v\<rparr>) = f t" and "\<And>t v. f (t\<lparr>tp_AdminOwner := v\<rparr>) = f t"
    and "\<And>t v. f (t\<lparr>tp_AdminEndorsement := v\<rparr>) = f t" and "\<And>t v. f (t\<lparr>tp_AdminPlatform := v\<rparr>) = f t"
    and "\<And>t v. f (t\<lparr>tp_AdminLockout := v\<rparr>) = f t"
  shows "keeps f (CompleteUpdateRequestHandles cc)"
proof -
  have on: "keeps f (on_InHandle i m)" for i m
    unfolding on_InHandle_def
    by (intro keeps_sbind keeps_sseq keeps_bindO keeps_basic keeps_prod keeps_modifyS) (simp_all add: assms)
  have auth: "keeps f (auth_InHandle i)" for i
    unfolding auth_InHandle_def by (intro keeps_sbind keeps_basic on)
  show ?thesis
    unfolding CompleteUpdateRequestHandles_def
    by (intro keeps_if keeps_sbind keeps_sseq keeps_bindO keeps_basic keeps_modifyS on auth) (simp_all add: assms)
qed

text \<open>The sessions of the refused response are those of the next command.\<close>

lemma DispatchIn_wrong_tag_next:
  assumes "awaits cc t" and "tp_device t = Some d"
    and "dev_GetResponse dev d = (Ok (raw_response tag TPM_RC_SUCCESS body), d')" and "length body + 10 < 2 ^ 32"
    and update: "CompleteUpdateRequestHandles cc
      (noted TPM_RC_SUCCESS (received d' (raw_response tag TPM_RC_SUCCESS body) t)) = (Ok (), u)"
    and "tolerated t TPM_RC_SUCCESS" and "tp_SessTag t \<noteq> tag"
  shows "DispatchIn ossl dev m cc resp t = (Throw (runtime_error ''Wrong response session tag''), reset_invocation u)"
    and "tp_Sessions (reset_invocation u) = tp_Sessions t"
    and "DispatchOut ossl dev' cc' req (reset_invocation u) = (Ok (True, req'), t'') \<Longrightarrow>
      writes (req_toTpm (req_methods req)) params \<Longrightarrow> tp_Sessions t \<noteq> [] \<Longrightarrow>
      \<exists>auths params'. sent dev' (command_bytes TPM_ST_SESSIONS cc' (req_getHandles (req_methods req))
          (auth_area auths) params') (reset_invocation u) t'' \<and>
        take (length (tp_Sessions t)) (map auth_handle auths) = map (session_handle t) (tp_Sessions t)"
proof -
  let ?w = "noted TPM_RC_SUCCESS (received d' (raw_response tag TPM_RC_SUCCESS body) t)"
  have k: "f u = f ?w" if "keeps f (CompleteUpdateRequestHandles cc)" for f :: "_ \<Rightarrow> 'z"
    using keepsD [OF that update] .
  have k1: "tp_Sessions u = tp_Sessions t" and k2: "tp_SessTag u = tp_SessTag t"
    and k3: "tp_LastResponseCode u = TPM_RC_SUCCESS" and k4: "tp_sess u = tp_sess t"
    and k5: "tp_DemandError u = tp_DemandError t" and k6: "tp_ExpectedError u = tp_ExpectedError t"
    using keepsD [OF keeps_CompleteUpdate update, of tp_Sessions] keepsD [OF keeps_CompleteUpdate update, of tp_SessTag]
      keepsD [OF keeps_CompleteUpdate update, of tp_LastResponseCode] keepsD [OF keeps_CompleteUpdate update, of tp_sess]
      keepsD [OF keeps_CompleteUpdate update, of tp_DemandError] keepsD [OF keeps_CompleteUpdate update, of tp_ExpectedError]
    by (simp_all add: noted_def received_def ResponseCodeFromTpmError_def IsFmt1_def)
  show "DispatchIn ossl dev m cc resp t = (Throw (runtime_error ''Wrong response session tag''), reset_invocation u)"
    by (rule DispatchIn_wrong_tag [OF assms(1-5)]) (use assms(6,7) k2 k3 k5 k6 in \<open>simp_all add: tolerated_def\<close>)
  show s: "tp_Sessions (reset_invocation u) = tp_Sessions t" by (simp add: reset_invocation_def k1)
  have h: "session_handle (reset_invocation u) = session_handle t" by (simp add: session_handle_def reset_invocation_def k4)
  show "\<exists>auths params'. sent dev' (command_bytes TPM_ST_SESSIONS cc' (req_getHandles (req_methods req))
          (auth_area auths) params') (reset_invocation u) t'' \<and>
        take (length (tp_Sessions t)) (map auth_handle auths) = map (session_handle t) (tp_Sessions t)"
    if "DispatchOut ossl dev' cc' req (reset_invocation u) = (Ok (True, req'), t'')"
      and "writes (req_toTpm (req_methods req)) params" and "tp_Sessions t \<noteq> []"
    using DispatchOut_layout [OF that(1,2)] that(3)
    by (auto simp: uses_sessions_def command_tag_def authorizes_def s h)
qed

end
