(* ===== verification/Tpm2Progress.thy ===== *)
theory Tpm2Progress
  imports Tpm2Command
begin

unbundle bit_operations_syntax

text \<open>
  When \<open>Tpm2::DispatchOut\<close> succeeds: a command that uses no session is sent, with its parameters as they
  were marshaled, whenever it fits into a buffer and the device takes it.
\<close>

lemma make_command_plain:
  assumes "writes (req_toTpm req) params"
    and "length (command_bytes tag cc (req_getHandles req) [] params) \<le> 4096"
  shows "make_command ossl cc req False tag t =
    (Ok ([], built (command_bytes tag cc (req_getHandles req) [] params), full params),
     t\<lparr>tp_SessTag := tag, tp_InHandles := req_getHandles req\<rparr>)"
proof -
  let ?hs = "req_getHandles req"
  let ?u = "t\<lparr>tp_SessTag := tag, tp_InHandles := ?hs\<rparr>"
  let ?head = "enc16 tag @ enc32 0 @ enc32 cc @ concat (map TPM_HANDLE_enc ?hs)"
  let ?all = "?head @ params"
  have len: "length ?all \<le> 4096" using assms(2) by (simp add: command_bytes_def Let_def)
  have head: "writes (wseq ([writeShort tag, writeInt 0, writeInt cc] @ map TPM_HANDLE_toTpm ?hs)) ?head"
    by (simp, intro writes_intros writes_all TPM_HANDLE_writes_any)
  have "length ?head \<le> 4096" using len by simp
  then have 1: "to_buf (wseq ([writeShort tag, writeInt 0, writeInt cc] @ map TPM_HANDLE_toTpm ?hs)) (built []) ?u =
      (Ok (built ?head), ?u)"
    by (simp only: to_buf_built [OF head] list.size(3)) simp
  have 2: "to_buf (sseq (req_toTpm req) (sbind trim (\<lambda>_. ret ()))) (built []) ?u = (Ok (full params), ?u)"
    using len by (simp add: to_buf_trim [OF assms(1)])
  have 3: "to_buf (writeByteBuf params) (built ?head) ?u = (Ok (built ?all), ?u)"
    using len by (subst to_buf_built [OF writes_writeByteBuf]) simp_all
  have "to_buf (writeNumAtPos (of_nat (length ?all)) 2 4) (built ?all) ?u =
      (Ok (built (overwrite 2 (enc32 (of_nat (length ?all))) ?all)), ?u)"
    unfolding be_bytes_of_nat [symmetric] by (rule to_buf_writeNumAtPos) (use len in simp_all)
  moreover have "overwrite 2 (enc32 (of_nat (length ?all))) ?all = command_bytes tag cc ?hs [] params"
    by (simp add: command_bytes_def Let_def overwrite_def)
  ultimately have 4: "to_buf (writeNumAtPos (of_nat (length ?all)) 2 4) (built ?all) ?u =
      (Ok (built (command_bytes tag cc ?hs [] params)), ?u)" by simp
  show ?thesis
    unfolding make_command_def built_Nil sseq_modifyS 
      sbind_Ok [where m = "to_buf _ _", OF 1] sbind_Ok [where m = "to_buf _ _", OF 2]
    by (simp add: sbind_Ok [where m = "to_buf _ _", OF 3 [simplified]]
        sbind_Ok [where m = "to_buf _ _", OF 4 [simplified]] ret_app del: wseq.simps)
qed

lemma DispatchOut_plain:
  assumes "tp_PendingCommand t = 0" and "\<not> tp_AuditCommand t" and "tp_CpHash t = None"
    and "\<not> uses_sessions t req" and "tp_device t = Some d"
    and params: "writes (req_toTpm (req_methods req)) params"
    and cmd: "cmd = command_bytes TPM_ST_NO_SESSIONS cc (req_getHandles (req_methods req)) [] params"
    and len: "length cmd \<le> 4096"
    and dev: "dev_DispatchCommand dev cmd d = (Ok (), d')"
    and last: "UpdateRequestHandles ossl cc req (t\<lparr>tp_SessTag := TPM_ST_NO_SESSIONS,
      tp_InHandles := req_getHandles (req_methods req), tp_LastCommandBuf := cmd, tp_device := Some d'\<rparr>) = (Ok req', u)"
  shows "DispatchOut ossl dev cc req t = (Ok (True, req'), u\<lparr>tp_PendingCommand := cc\<rparr>)"
proof -
  let ?v = "t\<lparr>tp_SessTag := TPM_ST_NO_SESSIONS, tp_InHandles := req_getHandles (req_methods req)\<rparr>"
  have "send_command ossl dev cc req [] (built cmd) ?v = (Ok (True, req'), u\<lparr>tp_PendingCommand := cc\<rparr>)"
    using assms(2,3,5) dev last len
    by (simp add: send_command_def Let_def take_built sseq_Ok sbind_Ok on_device_def ret_app)
  moreover have "make_command ossl cc (req_methods req) False TPM_ST_NO_SESSIONS t = (Ok ([], built cmd, full params), ?v)"
    using make_command_plain [OF params len [unfolded cmd]] by (simp add: cmd)
  ultimately show ?thesis
    using assms(1-4) by (simp add: DispatchOut_def Let_def sbind_Ok uses_sessions_def)
qed

end
