(* ===== verification/Tpm2Calls.thy ===== *)
theory Tpm2Calls
  imports Tpm2Progress
begin

unbundle bit_operations_syntax

text \<open>
  What the methods of \<open>Tpm2\<close> for the single commands share, and a whole command from the call to the
  returned values: the request is sent, the response is taken in, its fields come back.
\<close>

section \<open>Calling the dispatcher\<close>

text \<open>The loop of \<open>Dispatch\<close> may not end, which is \<open>None\<close>.\<close>

type_synonym ('d, 'a) call = "'d Tpm2 \<Rightarrow> ('a outcome \<times> 'd Tpm2) option"

definition returning ::
  "('r RespObj \<Rightarrow> 'a outcome) \<Rightarrow> ('d Tpm2 \<Rightarrow> ('r RespObj outcome \<times> 'd Tpm2) option) \<Rightarrow> ('d, 'a) call" where
  "returning f m t = map_option (\<lambda>(r, t). (obind r f, t)) (m t)"

definition the_resp :: "('r \<Rightarrow> 'a) \<Rightarrow> 'r RespObj \<Rightarrow> 'a outcome" where
  "the_resp f resp = (case resp of Resp_other r \<Rightarrow> Ok (f r) | _ \<Rightarrow> Undef)"

lemma the_resp_other [simp]: "the_resp f (Resp_other r) = Ok (f r)"
  by (simp add: the_resp_def)

definition no_response :: "(TPM_HANDLE, unit) RespStructure" where
  "no_response = empty_resp TPM_HANDLE_default"

section \<open>Taking in a plain response\<close>

lemma TpmBuffer_of_sel [simp]: "tb_pos (TpmBuffer_of bs) = 0" "size_buf (TpmBuffer_of bs) = length bs"
  "size_buf (adv n b) = size_buf b"
  by (simp_all add: TpmBuffer_of_def size_buf_def)

text \<open>
  A successful response to a command without sessions: \<open>v\<close> is the state in which its parameters are read.
\<close>

lemma read_params_at:
  assumes params: "reads (resp_initFromTpm m r) r' body" and c: "tb_buf c = pre @ body"
  shows "on_buf (sseq (set_curPos (length pre)) (sbind (resp_initFromTpm m r) (\<lambda>r. ret (Resp_other r)))) c =
    Ok (Resp_other r', adv (length body) (c\<lparr>tb_pos := length pre, tb_outOfBounds := False\<rparr>))"
proof -
  let ?d = "c\<lparr>tb_pos := length pre, tb_outOfBounds := False\<rparr>"
  have seek: "set_curPos (length pre) c = (Ok (), ?d)" using c by (simp add: set_curPos_def size_buf_def)
  have "continues ?d (body @ [])" using c by (simp add: continues_def)
  moreover have "buf_ok ?d" using c by (simp add: buf_ok_def size_buf_def)
  ultimately have "resp_initFromTpm m r ?d = (Ok r', adv (length body) ?d)"
    using reads_Ok [OF params] by (simp add: append_Nil2)
  then show ?thesis by (simp add: on_buf_def sseq_Ok [where m = "set_curPos _", OF seek] sbind_Ok ret_app)
qed

lemma raw_head:
  obtains head where "length head = 10" and "tb_buf (adv n (TpmBuffer_of (raw_response tag code body))) = head @ body"
  by (rule that [of "enc16 tag @ enc32 (of_nat (length body + 10)) @ enc32 code"])
    (simp_all add: raw_response_def TpmBuffer_of_def)

lemma complete_command_plain:
  assumes tag: "tp_SessTag t = TPM_ST_NO_SESSIONS" and enc: "tp_EncSession t = None"
    and handles: "resp_numHandles m = 0"
    and params: "reads (resp_initFromTpm m r) r' body"
    and last: "UpdateRespHandle ossl cc (Resp_other r') t = (Ok resp', u)"
  shows "complete_command ossl m cc False TPM_ST_NO_SESSIONS (Resp_other r)
      (adv 10 (TpmBuffer_of (raw_response TPM_ST_NO_SESSIONS code body))) t =
    (Ok (True, resp'), u\<lparr>tp_Sessions := []\<rparr>)"
proof -
  let ?b = "adv 10 (TpmBuffer_of (raw_response TPM_ST_NO_SESSIONS code body))"
  obtain head where head: "length head = 10" "tb_buf ?b = head @ body" by (rule raw_head)
  then show ?thesis
    using tag enc handles last read_params_at [OF params head(2)]
    by (simp add: complete_command_def DoParmEncryption_def ret_app sbind_Ok
        sbind_Ok [where m = "UpdateRespHandle _ _ _", OF last])
qed

lemma DispatchIn_success:
  assumes "awaits cc t" and "tp_device t = Some d"
    and "dev_GetResponse dev d = (Ok (raw_response tag TPM_RC_SUCCESS body), d')"
    and "length body + 10 < 2 ^ 32"
    and update: "CompleteUpdateRequestHandles cc
      (noted TPM_RC_SUCCESS (received d' (raw_response tag TPM_RC_SUCCESS body) t)) = (Ok (), u)"
    and wanted: "tolerated u TPM_RC_SUCCESS" and code: "tp_LastResponseCode u = TPM_RC_SUCCESS"
  shows "DispatchIn ossl dev m cc resp t = complete_command ossl m cc (tp_AuditCommand u) tag resp
    (adv 10 (TpmBuffer_of (raw_response tag TPM_RC_SUCCESS body))) (reset_invocation u)"
proof -
  have "error_message u cc TPM_RC_SUCCESS = ''''" using wanted by (simp add: error_message_tolerated)
  then show ?thesis
    using code
    by (simp add: DispatchIn_header [OF assms(1-4)] Let_def
        sseq_Ok [where m = "CompleteUpdateRequestHandles cc", OF update])
      (simp add: reset_invocation_def)
qed

section \<open>A whole command\<close>

text \<open>The commands for which the dispatcher keeps no names or authorization values up to date.\<close>

definition plain_code :: "TPM_CC \<Rightarrow> bool" where
  "plain_code cc \<longleftrightarrow> cc \<notin> {0, TPM_CC_HierarchyChangeAuth, TPM_CC_LoadExternal, TPM_CC_Load, TPM_CC_NV_ChangeAuth,
     TPM_CC_ObjectChangeAuth, TPM_CC_PCR_SetAuthValue, TPM_CC_EvictControl, TPM_CC_Clear,
     TPM_CC_HashSequenceStart, TPM_CC_CreatePrimary}"

lemma plain_updates:
  assumes "plain_code cc"
  shows "UpdateRequestHandles ossl cc req t = (Ok req, t\<lparr>tp_objectInName := []\<rparr>)"
    and "CompleteUpdateRequestHandles cc t = (Ok (), t)"
    and "UpdateRespHandle ossl cc resp t = (Ok resp, t)"
  using assms
  by (simp_all add: plain_code_def UpdateRequestHandles_def CompleteUpdateRequestHandles_def
      UpdateRespHandle_def set_objectInName_def ret_app lift_app)

text \<open>A client between two commands: nothing is pending, no setting was made, no session is attached.\<close>

definition idle :: "'d Tpm2 \<Rightarrow> bool" where
  "idle t \<longleftrightarrow> tp_PendingCommand t = 0 \<and> \<not> tp_AuditCommand t \<and> tp_CpHash t = None \<and> \<not> tp_AllowErrors t \<and>
     \<not> tp_DemandError t \<and> tp_ExpectedError t = TPM_RC_SUCCESS \<and> tp_Sessions t = []"

definition plain_command :: "TPM_CC \<Rightarrow> TPM_HANDLE ReqStructure \<Rightarrow> ByteVec \<Rightarrow> ByteVec" where
  "plain_command cc req params = command_bytes TPM_ST_NO_SESSIONS cc (req_getHandles req) [] params"

text \<open>The device takes the command and has \<open>raw\<close> for an answer.\<close>

definition answers :: "'d TpmDevice \<Rightarrow> 'd \<Rightarrow> ByteVec \<Rightarrow> ByteVec \<Rightarrow> 'd \<Rightarrow> bool" where
  "answers dev d cmd raw d' \<longleftrightarrow> (\<exists>d1. dev_DispatchCommand dev cmd d = (Ok (), d1) \<and> dev_GetResponse dev d1 = (Ok raw, d'))"

lemma Dispatch_once:
  "DispatchOut ossl dev cc req t = (Ok (True, req'), u) \<Longrightarrow> DispatchIn ossl dev m cc resp u = (Ok (True, resp'), v) \<Longrightarrow>
   Dispatch ossl dev m cc req resp t = Some (Ok resp', v)"
  by (simp add: Dispatch_def Dispatch_loop.simps [of ossl dev m cc req resp t])

lemma Dispatch_success:
  assumes idle: "idle t" and cc: "plain_code cc"
    and no_auth: "req_numAuthHandles (req_methods req) = 0"
    and dev: "tp_device t = Some d" "answers dev d (plain_command cc (req_methods req) params)
      (raw_response tag TPM_RC_SUCCESS body) d'"
    and params: "writes (req_toTpm (req_methods req)) params"
    and len: "length (plain_command cc (req_methods req) params) \<le> 4096" "length body + 10 < 2 ^ 32"
  obtains w where "idle w" and "tp_SessTag w = TPM_ST_NO_SESSIONS" and "tp_device w = Some d'"
    and "tp_EncSession w = tp_EncSession t" and "tp_sess w = tp_sess t"
    and "\<And>(m :: (TPM_HANDLE, 'r) RespStructure) resp resp' t'. complete_command ossl m cc False tag resp
        (adv 10 (TpmBuffer_of (raw_response tag TPM_RC_SUCCESS body))) w = (Ok (True, resp'), t') \<Longrightarrow>
      Dispatch ossl dev m cc req resp t = Some (Ok resp', t')"
proof -
  let ?cmd = "plain_command cc (req_methods req) params"
  let ?raw = "raw_response tag TPM_RC_SUCCESS body"
  obtain d1 where d1: "dev_DispatchCommand dev ?cmd d = (Ok (), d1)" "dev_GetResponse dev d1 = (Ok ?raw, d')"
    using dev(2) by (auto simp: answers_def)
  note i = idle [unfolded idle_def]
  define u where "u = t\<lparr>tp_SessTag := TPM_ST_NO_SESSIONS, tp_InHandles := req_getHandles (req_methods req),
    tp_LastCommandBuf := ?cmd, tp_device := Some d1, tp_objectInName := [], tp_PendingCommand := cc\<rparr>"
  define v where "v = noted TPM_RC_SUCCESS (received d' ?raw u)"
  have out: "DispatchOut ossl dev cc req t = (Ok (True, req), u)"
    using i no_auth d1(1) len(1) dev(1) unfolding u_def plain_command_def
    by (subst DispatchOut_plain [OF _ _ _ _ dev(1) params refl _ _ plain_updates(1) [OF cc]])
      (simp_all add: uses_sessions_def)
  have v: "tp_LastResponseCode v = TPM_RC_SUCCESS" "\<not> tp_AuditCommand v"
    using i by (simp_all add: v_def noted_def received_def u_def ResponseCodeFromTpmError_def IsFmt1_def)
  have taken: "DispatchIn ossl dev m cc resp u =
      complete_command ossl m cc False tag resp (adv 10 (TpmBuffer_of ?raw)) (reset_invocation v)"
    for m :: "(TPM_HANDLE, 'r) RespStructure" and resp
    using i cc d1(2) len(2) v
    by (subst DispatchIn_success [where d = d1 and d' = d' and u = v])
      (simp_all add: plain_updates [OF cc] v_def u_def awaits_def plain_code_def tolerated_def noted_def received_def)
  have "Dispatch ossl dev m cc req resp t = Some (Ok resp', t')"
    if "complete_command ossl m cc False tag resp (adv 10 (TpmBuffer_of ?raw)) (reset_invocation v) =
      (Ok (True, resp'), t')" for m :: "(TPM_HANDLE, 'r) RespStructure" and resp resp' t'
    by (rule Dispatch_once [OF out]) (simp add: taken that)
  moreover have "idle (reset_invocation v)" using i
    by (simp add: idle_def reset_invocation_def) (simp add: v_def u_def noted_def received_def)
  moreover have "tp_SessTag (reset_invocation v) = TPM_ST_NO_SESSIONS" "tp_device (reset_invocation v) = Some d'"
    "tp_EncSession (reset_invocation v) = tp_EncSession t" "tp_sess (reset_invocation v) = tp_sess t"
    by (simp_all add: reset_invocation_def v_def u_def noted_def received_def)
  ultimately show thesis using that by blast
qed

text \<open>Without a session nothing is decrypted: the fields of the response are what the TPM wrote into it.\<close>

lemma Dispatch_plain:
  assumes "idle t" and "plain_code cc" and "req_numAuthHandles (req_methods req) = 0"
    and "tp_device t = Some d" and "answers dev d (plain_command cc (req_methods req) params)
      (raw_response TPM_ST_NO_SESSIONS TPM_RC_SUCCESS body) d'"
    and "writes (req_toTpm (req_methods req)) params"
    and "length (plain_command cc (req_methods req) params) \<le> 4096" and "length body + 10 < 2 ^ 32"
    and enc: "tp_EncSession t = None"
    and resp: "resp_numHandles (m :: (TPM_HANDLE, 'r) RespStructure) = 0" "reads (resp_initFromTpm m r) r' body"
  shows "\<exists>t'. Dispatch ossl dev m cc req (Resp_other r) t = Some (Ok (Resp_other r'), t') \<and>
    idle t' \<and> tp_device t' = Some d'"
proof -
  obtain w where w: "idle w" "tp_SessTag w = TPM_ST_NO_SESSIONS" "tp_device w = Some d'" "tp_EncSession w = None"
    and result: "\<And>(m :: (TPM_HANDLE, 'r) RespStructure) resp resp' t'.
      complete_command ossl m cc False TPM_ST_NO_SESSIONS resp
        (adv 10 (TpmBuffer_of (raw_response TPM_ST_NO_SESSIONS TPM_RC_SUCCESS body))) w = (Ok (True, resp'), t') \<Longrightarrow>
      Dispatch ossl dev m cc req resp t = Some (Ok resp', t')"
    by (rule Dispatch_success [OF assms(1-8)]) (use enc in auto)
  show ?thesis
    using result [OF complete_command_plain [OF w(2,4) resp plain_updates(3) [OF assms(2)]]] w
    by (simp add: idle_def)
qed

end
