(* ===== verification/Tpm2Methods.thy ===== *)
theory Tpm2Methods
  imports Tpm2Calls TpmObjectCommands TpmCryptoCommands TpmAttestCommands TpmPolicyCommands TpmAdminCommands TpmNvCommands
begin

text \<open>
  The methods of \<^verbatim>\<open>class Tpm2\<close> for the commands of Part 3 of the TPM specification, as
  \<^verbatim>\<open>TSS.CPP/Src/TpmTypes.cpp\<close> defines them: the arguments go into a request, the request to the dispatcher, and
  what comes back is the response or, if it has only one field, that field.
\<close>

definition Tpm2_Startup ::
  "Openssl \<Rightarrow> 'd TpmDevice \<Rightarrow> TPM_SU \<Rightarrow> ('d, unit) call" where
  "Tpm2_Startup ossl dev startupType =
     returning (the_resp id) (Dispatch ossl dev no_response TPM_CC_Startup
       (Req_other (TPM2_Startup_REQUEST_req
         \<lparr>TPM2_Startup_REQUEST_startupType = startupType\<rparr>))
       (Resp_other ()))"

definition Tpm2_Shutdown ::
  "Openssl \<Rightarrow> 'd TpmDevice \<Rightarrow> TPM_SU \<Rightarrow> ('d, unit) call" where
  "Tpm2_Shutdown ossl dev shutdownType =
     returning (the_resp id) (Dispatch ossl dev no_response TPM_CC_Shutdown
       (Req_other (TPM2_Shutdown_REQUEST_req
         \<lparr>TPM2_Shutdown_REQUEST_shutdownType = shutdownType\<rparr>))
       (Resp_other ()))"

definition Tpm2_SelfTest ::
  "Openssl \<Rightarrow> 'd TpmDevice \<Rightarrow> byte \<Rightarrow> ('d, unit) call" where
  "Tpm2_SelfTest ossl dev fullTest =
     returning (the_resp id) (Dispatch ossl dev no_response TPM_CC_SelfTest
       (Req_other (TPM2_SelfTest_REQUEST_req
         \<lparr>TPM2_SelfTest_REQUEST_fullTest = fullTest\<rparr>))
       (Resp_other ()))"

definition Tpm2_IncrementalSelfTest ::
  "Openssl \<Rightarrow> 'd TpmDevice \<Rightarrow> TPM_ALG_ID list \<Rightarrow> ('d, TPM_ALG_ID list) call" where
  "Tpm2_IncrementalSelfTest ossl dev toTest =
     returning (the_resp IncrementalSelfTestResponse_toDoList) (Dispatch ossl dev
       IncrementalSelfTestResponse_resp TPM_CC_IncrementalSelfTest
       (Req_other (TPM2_IncrementalSelfTest_REQUEST_req
         \<lparr>TPM2_IncrementalSelfTest_REQUEST_toTest = toTest\<rparr>))
       (Resp_other IncrementalSelfTestResponse_default))"

definition Tpm2_GetTestResult ::
  "Openssl \<Rightarrow> 'd TpmDevice \<Rightarrow> ('d, GetTestResultResponse) call" where
  "Tpm2_GetTestResult ossl dev =
     returning (the_resp id) (Dispatch ossl dev GetTestResultResponse_resp TPM_CC_GetTestResult
       (Req_other empty_req)
       (Resp_other GetTestResultResponse_default))"

definition Tpm2_StartAuthSession ::
  "Openssl \<Rightarrow> 'd TpmDevice \<Rightarrow> TPM_HANDLE \<Rightarrow> TPM_HANDLE \<Rightarrow> ByteVec \<Rightarrow> ByteVec \<Rightarrow> TPM_SE \<Rightarrow> TPMT_SYM_DEF \<Rightarrow>
     TPM_ALG_ID \<Rightarrow> ('d, StartAuthSessionResponse) call" where
  "Tpm2_StartAuthSession ossl dev tpmKey bind nonceCaller encryptedSalt sessionType symmetric authHash =
     returning (the_resp id) (Dispatch ossl dev StartAuthSessionResponse_resp TPM_CC_StartAuthSession
       (Req_other (TPM2_StartAuthSession_REQUEST_req
         \<lparr>TPM2_StartAuthSession_REQUEST_tpmKey = tpmKey, TPM2_StartAuthSession_REQUEST_bind = bind,
          TPM2_StartAuthSession_REQUEST_nonceCaller = nonceCaller,
          TPM2_StartAuthSession_REQUEST_encryptedSalt = encryptedSalt,
          TPM2_StartAuthSession_REQUEST_sessionType = sessionType,
          TPM2_StartAuthSession_REQUEST_symmetric = symmetric,
          TPM2_StartAuthSession_REQUEST_authHash = authHash\<rparr>))
       (Resp_other StartAuthSessionResponse_default))"

definition Tpm2_PolicyRestart ::
  "Openssl \<Rightarrow> 'd TpmDevice \<Rightarrow> TPM_HANDLE \<Rightarrow> ('d, unit) call" where
  "Tpm2_PolicyRestart ossl dev sessionHandle =
     returning (the_resp id) (Dispatch ossl dev no_response TPM_CC_PolicyRestart
       (Req_other (TPM2_PolicyRestart_REQUEST_req
         \<lparr>TPM2_PolicyRestart_REQUEST_sessionHandle = sessionHandle\<rparr>))
       (Resp_other ()))"

definition Tpm2_Create ::
  "Openssl \<Rightarrow> 'd TpmDevice \<Rightarrow> TPM_HANDLE \<Rightarrow> TPMS_SENSITIVE_CREATE \<Rightarrow> TPMT_PUBLIC \<Rightarrow> ByteVec \<Rightarrow>
     TPMS_PCR_SELECTION list \<Rightarrow> ('d, CreateResponse) call" where
  "Tpm2_Create ossl dev parentHandle inSensitive inPublic outsideInfo creationPCR =
     returning (the_resp id) (Dispatch ossl dev CreateResponse_resp TPM_CC_Create
       (Req_other (TPM2_Create_REQUEST_req
         \<lparr>TPM2_Create_REQUEST_parentHandle = parentHandle,
          TPM2_Create_REQUEST_inSensitive = inSensitive, TPM2_Create_REQUEST_inPublic = inPublic,
          TPM2_Create_REQUEST_outsideInfo = outsideInfo, TPM2_Create_REQUEST_creationPCR =
            creationPCR\<rparr>))
       (Resp_other CreateResponse_default))"

definition Tpm2_Load ::
  "Openssl \<Rightarrow> 'd TpmDevice \<Rightarrow> TPM_HANDLE \<Rightarrow> TPM2B_PRIVATE \<Rightarrow> TPMT_PUBLIC \<Rightarrow> ('d, TPM_HANDLE) call" where
  "Tpm2_Load ossl dev parentHandle inPrivate inPublic =
     returning (\<lambda>resp. case resp of Resp_Load r \<Rightarrow> Ok (LoadResponse_handle r) | _ \<Rightarrow> Undef) (Dispatch
       ossl dev no_response TPM_CC_Load
       (Req_Load
         \<lparr>TPM2_Load_REQUEST_parentHandle = parentHandle, TPM2_Load_REQUEST_inPrivate = inPrivate,
          TPM2_Load_REQUEST_inPublic = inPublic\<rparr>)
       (Resp_Load LoadResponse_default))"

definition Tpm2_LoadExternal ::
  "Openssl \<Rightarrow> 'd TpmDevice \<Rightarrow> TPMT_SENSITIVE \<Rightarrow> TPMT_PUBLIC \<Rightarrow> TPM_HANDLE \<Rightarrow> ('d, TPM_HANDLE) call" where
  "Tpm2_LoadExternal ossl dev inPrivate inPublic hierarchy =
     returning (\<lambda>resp. case resp of Resp_LoadExternal r \<Rightarrow> Ok (LoadExternalResponse_handle r) | _ \<Rightarrow>
       Undef) (Dispatch ossl dev no_response TPM_CC_LoadExternal
       (Req_LoadExternal
         \<lparr>TPM2_LoadExternal_REQUEST_inPrivate = inPrivate,
          TPM2_LoadExternal_REQUEST_inPublic = inPublic, TPM2_LoadExternal_REQUEST_hierarchy =
            hierarchy\<rparr>)
       (Resp_LoadExternal LoadExternalResponse_default))"

definition Tpm2_ReadPublic ::
  "Openssl \<Rightarrow> 'd TpmDevice \<Rightarrow> TPM_HANDLE \<Rightarrow> ('d, ReadPublicResponse) call" where
  "Tpm2_ReadPublic ossl dev objectHandle =
     returning (the_resp id) (Dispatch ossl dev ReadPublicResponse_resp TPM_CC_ReadPublic
       (Req_other (TPM2_ReadPublic_REQUEST_req
         \<lparr>TPM2_ReadPublic_REQUEST_objectHandle = objectHandle\<rparr>))
       (Resp_other ReadPublicResponse_default))"

definition Tpm2_ActivateCredential ::
  "Openssl \<Rightarrow> 'd TpmDevice \<Rightarrow> TPM_HANDLE \<Rightarrow> TPM_HANDLE \<Rightarrow> TPMS_ID_OBJECT \<Rightarrow> ByteVec \<Rightarrow>
     ('d, ByteVec) call" where
  "Tpm2_ActivateCredential ossl dev activateHandle keyHandle credentialBlob secret =
     returning (the_resp ActivateCredentialResponse_certInfo) (Dispatch ossl dev
       ActivateCredentialResponse_resp TPM_CC_ActivateCredential
       (Req_other (TPM2_ActivateCredential_REQUEST_req
         \<lparr>TPM2_ActivateCredential_REQUEST_activateHandle = activateHandle,
          TPM2_ActivateCredential_REQUEST_keyHandle = keyHandle,
          TPM2_ActivateCredential_REQUEST_credentialBlob = credentialBlob,
          TPM2_ActivateCredential_REQUEST_secret = secret\<rparr>))
       (Resp_other ActivateCredentialResponse_default))"

definition Tpm2_MakeCredential ::
  "Openssl \<Rightarrow> 'd TpmDevice \<Rightarrow> TPM_HANDLE \<Rightarrow> ByteVec \<Rightarrow> ByteVec \<Rightarrow> ('d, MakeCredentialResponse) call" where
  "Tpm2_MakeCredential ossl dev handle credential objectName =
     returning (the_resp id) (Dispatch ossl dev MakeCredentialResponse_resp TPM_CC_MakeCredential
       (Req_other (TPM2_MakeCredential_REQUEST_req
         \<lparr>TPM2_MakeCredential_REQUEST_handle = handle,
          TPM2_MakeCredential_REQUEST_credential = credential,
          TPM2_MakeCredential_REQUEST_objectName = objectName\<rparr>))
       (Resp_other MakeCredentialResponse_default))"

definition Tpm2_Unseal ::
  "Openssl \<Rightarrow> 'd TpmDevice \<Rightarrow> TPM_HANDLE \<Rightarrow> ('d, ByteVec) call" where
  "Tpm2_Unseal ossl dev itemHandle =
     returning (the_resp UnsealResponse_outData) (Dispatch ossl dev UnsealResponse_resp TPM_CC_Unseal
       (Req_other (TPM2_Unseal_REQUEST_req
         \<lparr>TPM2_Unseal_REQUEST_itemHandle = itemHandle\<rparr>))
       (Resp_other UnsealResponse_default))"

definition Tpm2_ObjectChangeAuth ::
  "Openssl \<Rightarrow> 'd TpmDevice \<Rightarrow> TPM_HANDLE \<Rightarrow> TPM_HANDLE \<Rightarrow> ByteVec \<Rightarrow> ('d, TPM2B_PRIVATE) call" where
  "Tpm2_ObjectChangeAuth ossl dev objectHandle parentHandle newAuth =
     returning (the_resp ObjectChangeAuthResponse_outPrivate) (Dispatch ossl dev
       ObjectChangeAuthResponse_resp TPM_CC_ObjectChangeAuth
       (Req_ObjectChangeAuth
         \<lparr>TPM2_ObjectChangeAuth_REQUEST_objectHandle = objectHandle,
          TPM2_ObjectChangeAuth_REQUEST_parentHandle = parentHandle,
          TPM2_ObjectChangeAuth_REQUEST_newAuth = newAuth\<rparr>)
       (Resp_other ObjectChangeAuthResponse_default))"

definition Tpm2_CreateLoaded ::
  "Openssl \<Rightarrow> 'd TpmDevice \<Rightarrow> TPM_HANDLE \<Rightarrow> TPMS_SENSITIVE_CREATE \<Rightarrow> ByteVec \<Rightarrow>
     ('d, CreateLoadedResponse) call" where
  "Tpm2_CreateLoaded ossl dev parentHandle inSensitive inPublic =
     returning (the_resp id) (Dispatch ossl dev CreateLoadedResponse_resp TPM_CC_CreateLoaded
       (Req_other (TPM2_CreateLoaded_REQUEST_req
         \<lparr>TPM2_CreateLoaded_REQUEST_parentHandle = parentHandle,
          TPM2_CreateLoaded_REQUEST_inSensitive = inSensitive,
          TPM2_CreateLoaded_REQUEST_inPublic = inPublic\<rparr>))
       (Resp_other CreateLoadedResponse_default))"

definition Tpm2_Duplicate ::
  "Openssl \<Rightarrow> 'd TpmDevice \<Rightarrow> TPM_HANDLE \<Rightarrow> TPM_HANDLE \<Rightarrow> ByteVec \<Rightarrow> TPMT_SYM_DEF_OBJECT \<Rightarrow>
     ('d, DuplicateResponse) call" where
  "Tpm2_Duplicate ossl dev objectHandle newParentHandle encryptionKeyIn symmetricAlg =
     returning (the_resp id) (Dispatch ossl dev DuplicateResponse_resp TPM_CC_Duplicate
       (Req_other (TPM2_Duplicate_REQUEST_req
         \<lparr>TPM2_Duplicate_REQUEST_objectHandle = objectHandle,
          TPM2_Duplicate_REQUEST_newParentHandle = newParentHandle,
          TPM2_Duplicate_REQUEST_encryptionKeyIn = encryptionKeyIn,
          TPM2_Duplicate_REQUEST_symmetricAlg = symmetricAlg\<rparr>))
       (Resp_other DuplicateResponse_default))"

definition Tpm2_Rewrap ::
  "Openssl \<Rightarrow> 'd TpmDevice \<Rightarrow> TPM_HANDLE \<Rightarrow> TPM_HANDLE \<Rightarrow> TPM2B_PRIVATE \<Rightarrow> ByteVec \<Rightarrow> ByteVec \<Rightarrow>
     ('d, RewrapResponse) call" where
  "Tpm2_Rewrap ossl dev oldParent newParent inDuplicate name inSymSeed =
     returning (the_resp id) (Dispatch ossl dev RewrapResponse_resp TPM_CC_Rewrap
       (Req_other (TPM2_Rewrap_REQUEST_req
         \<lparr>TPM2_Rewrap_REQUEST_oldParent = oldParent, TPM2_Rewrap_REQUEST_newParent = newParent,
          TPM2_Rewrap_REQUEST_inDuplicate = inDuplicate, TPM2_Rewrap_REQUEST_name = name,
          TPM2_Rewrap_REQUEST_inSymSeed = inSymSeed\<rparr>))
       (Resp_other RewrapResponse_default))"

definition Tpm2_Import ::
  "Openssl \<Rightarrow> 'd TpmDevice \<Rightarrow> TPM_HANDLE \<Rightarrow> ByteVec \<Rightarrow> TPMT_PUBLIC \<Rightarrow> TPM2B_PRIVATE \<Rightarrow> ByteVec \<Rightarrow>
     TPMT_SYM_DEF_OBJECT \<Rightarrow> ('d, TPM2B_PRIVATE) call" where
  "Tpm2_Import ossl dev parentHandle encryptionKey objectPublic duplicate inSymSeed symmetricAlg =
     returning (the_resp ImportResponse_outPrivate) (Dispatch ossl dev ImportResponse_resp TPM_CC_Import
       (Req_other (TPM2_Import_REQUEST_req
         \<lparr>TPM2_Import_REQUEST_parentHandle = parentHandle,
          TPM2_Import_REQUEST_encryptionKey = encryptionKey,
          TPM2_Import_REQUEST_objectPublic = objectPublic, TPM2_Import_REQUEST_duplicate = duplicate,
          TPM2_Import_REQUEST_inSymSeed = inSymSeed, TPM2_Import_REQUEST_symmetricAlg = symmetricAlg\<rparr>))
       (Resp_other ImportResponse_default))"

definition Tpm2_RSA_Encrypt ::
  "Openssl \<Rightarrow> 'd TpmDevice \<Rightarrow> TPM_HANDLE \<Rightarrow> ByteVec \<Rightarrow> TPMU_ASYM_SCHEME \<Rightarrow> ByteVec \<Rightarrow>
     ('d, ByteVec) call" where
  "Tpm2_RSA_Encrypt ossl dev keyHandle message inScheme label =
     returning (the_resp RSA_EncryptResponse_outData) (Dispatch ossl dev RSA_EncryptResponse_resp
       TPM_CC_RSA_Encrypt
       (Req_other (TPM2_RSA_Encrypt_REQUEST_req
         \<lparr>TPM2_RSA_Encrypt_REQUEST_keyHandle = keyHandle, TPM2_RSA_Encrypt_REQUEST_message = message,
          TPM2_RSA_Encrypt_REQUEST_inScheme = Some inScheme, TPM2_RSA_Encrypt_REQUEST_label = label\<rparr>))
       (Resp_other RSA_EncryptResponse_default))"

definition Tpm2_RSA_Decrypt ::
  "Openssl \<Rightarrow> 'd TpmDevice \<Rightarrow> TPM_HANDLE \<Rightarrow> ByteVec \<Rightarrow> TPMU_ASYM_SCHEME \<Rightarrow> ByteVec \<Rightarrow>
     ('d, ByteVec) call" where
  "Tpm2_RSA_Decrypt ossl dev keyHandle cipherText inScheme label =
     returning (the_resp RSA_DecryptResponse_message) (Dispatch ossl dev RSA_DecryptResponse_resp
       TPM_CC_RSA_Decrypt
       (Req_other (TPM2_RSA_Decrypt_REQUEST_req
         \<lparr>TPM2_RSA_Decrypt_REQUEST_keyHandle = keyHandle,
          TPM2_RSA_Decrypt_REQUEST_cipherText = cipherText,
          TPM2_RSA_Decrypt_REQUEST_inScheme = Some inScheme, TPM2_RSA_Decrypt_REQUEST_label = label\<rparr>))
       (Resp_other RSA_DecryptResponse_default))"

definition Tpm2_ECDH_KeyGen ::
  "Openssl \<Rightarrow> 'd TpmDevice \<Rightarrow> TPM_HANDLE \<Rightarrow> ('d, ECDH_KeyGenResponse) call" where
  "Tpm2_ECDH_KeyGen ossl dev keyHandle =
     returning (the_resp id) (Dispatch ossl dev ECDH_KeyGenResponse_resp TPM_CC_ECDH_KeyGen
       (Req_other (TPM2_ECDH_KeyGen_REQUEST_req
         \<lparr>TPM2_ECDH_KeyGen_REQUEST_keyHandle = keyHandle\<rparr>))
       (Resp_other ECDH_KeyGenResponse_default))"

definition Tpm2_ECDH_ZGen ::
  "Openssl \<Rightarrow> 'd TpmDevice \<Rightarrow> TPM_HANDLE \<Rightarrow> TPMS_ECC_POINT \<Rightarrow> ('d, TPMS_ECC_POINT) call" where
  "Tpm2_ECDH_ZGen ossl dev keyHandle inPoint =
     returning (the_resp ECDH_ZGenResponse_outPoint) (Dispatch ossl dev ECDH_ZGenResponse_resp
       TPM_CC_ECDH_ZGen
       (Req_other (TPM2_ECDH_ZGen_REQUEST_req
         \<lparr>TPM2_ECDH_ZGen_REQUEST_keyHandle = keyHandle, TPM2_ECDH_ZGen_REQUEST_inPoint = inPoint\<rparr>))
       (Resp_other ECDH_ZGenResponse_default))"

definition Tpm2_ECC_Parameters ::
  "Openssl \<Rightarrow> 'd TpmDevice \<Rightarrow> TPM_ECC_CURVE \<Rightarrow> ('d, TPMS_ALGORITHM_DETAIL_ECC) call" where
  "Tpm2_ECC_Parameters ossl dev curveID =
     returning (the_resp ECC_ParametersResponse_parameters) (Dispatch ossl dev
       ECC_ParametersResponse_resp TPM_CC_ECC_Parameters
       (Req_other (TPM2_ECC_Parameters_REQUEST_req
         \<lparr>TPM2_ECC_Parameters_REQUEST_curveID = curveID\<rparr>))
       (Resp_other ECC_ParametersResponse_default))"

definition Tpm2_ZGen_2Phase ::
  "Openssl \<Rightarrow> 'd TpmDevice \<Rightarrow> TPM_HANDLE \<Rightarrow> TPMS_ECC_POINT \<Rightarrow> TPMS_ECC_POINT \<Rightarrow> TPM_ALG_ID \<Rightarrow> UINT16 \<Rightarrow>
     ('d, ZGen_2PhaseResponse) call" where
  "Tpm2_ZGen_2Phase ossl dev keyA inQsB inQeB inScheme counter =
     returning (the_resp id) (Dispatch ossl dev ZGen_2PhaseResponse_resp TPM_CC_ZGen_2Phase
       (Req_other (TPM2_ZGen_2Phase_REQUEST_req
         \<lparr>TPM2_ZGen_2Phase_REQUEST_keyA = keyA, TPM2_ZGen_2Phase_REQUEST_inQsB = inQsB,
          TPM2_ZGen_2Phase_REQUEST_inQeB = inQeB, TPM2_ZGen_2Phase_REQUEST_inScheme = inScheme,
          TPM2_ZGen_2Phase_REQUEST_counter = counter\<rparr>))
       (Resp_other ZGen_2PhaseResponse_default))"

definition Tpm2_ECC_Encrypt ::
  "Openssl \<Rightarrow> 'd TpmDevice \<Rightarrow> TPM_HANDLE \<Rightarrow> ByteVec \<Rightarrow> TPMU_KDF_SCHEME \<Rightarrow>
     ('d, ECC_EncryptResponse) call" where
  "Tpm2_ECC_Encrypt ossl dev keyHandle plainText inScheme =
     returning (the_resp id) (Dispatch ossl dev ECC_EncryptResponse_resp TPM_CC_ECC_Encrypt
       (Req_other (TPM2_ECC_Encrypt_REQUEST_req
         \<lparr>TPM2_ECC_Encrypt_REQUEST_keyHandle = keyHandle,
          TPM2_ECC_Encrypt_REQUEST_plainText = plainText,
          TPM2_ECC_Encrypt_REQUEST_inScheme = Some inScheme\<rparr>))
       (Resp_other ECC_EncryptResponse_default))"

definition Tpm2_ECC_Decrypt ::
  "Openssl \<Rightarrow> 'd TpmDevice \<Rightarrow> TPM_HANDLE \<Rightarrow> TPMS_ECC_POINT \<Rightarrow> ByteVec \<Rightarrow> ByteVec \<Rightarrow> TPMU_KDF_SCHEME \<Rightarrow>
     ('d, ByteVec) call" where
  "Tpm2_ECC_Decrypt ossl dev keyHandle C1 C2 C3 inScheme =
     returning (the_resp ECC_DecryptResponse_plainText) (Dispatch ossl dev ECC_DecryptResponse_resp
       TPM_CC_ECC_Decrypt
       (Req_other (TPM2_ECC_Decrypt_REQUEST_req
         \<lparr>TPM2_ECC_Decrypt_REQUEST_keyHandle = keyHandle, TPM2_ECC_Decrypt_REQUEST_C1 = C1,
          TPM2_ECC_Decrypt_REQUEST_C2 = C2, TPM2_ECC_Decrypt_REQUEST_C3 = C3,
          TPM2_ECC_Decrypt_REQUEST_inScheme = Some inScheme\<rparr>))
       (Resp_other ECC_DecryptResponse_default))"

definition Tpm2_EncryptDecrypt ::
  "Openssl \<Rightarrow> 'd TpmDevice \<Rightarrow> TPM_HANDLE \<Rightarrow> byte \<Rightarrow> TPM_ALG_ID \<Rightarrow> ByteVec \<Rightarrow> ByteVec \<Rightarrow>
     ('d, EncryptDecryptResponse) call" where
  "Tpm2_EncryptDecrypt ossl dev keyHandle decrypt mode ivIn inData =
     returning (the_resp id) (Dispatch ossl dev EncryptDecryptResponse_resp TPM_CC_EncryptDecrypt
       (Req_other (TPM2_EncryptDecrypt_REQUEST_req
         \<lparr>TPM2_EncryptDecrypt_REQUEST_keyHandle = keyHandle,
          TPM2_EncryptDecrypt_REQUEST_decrypt = decrypt, TPM2_EncryptDecrypt_REQUEST_mode = mode,
          TPM2_EncryptDecrypt_REQUEST_ivIn = ivIn, TPM2_EncryptDecrypt_REQUEST_inData = inData\<rparr>))
       (Resp_other EncryptDecryptResponse_default))"

definition Tpm2_EncryptDecrypt2 ::
  "Openssl \<Rightarrow> 'd TpmDevice \<Rightarrow> TPM_HANDLE \<Rightarrow> ByteVec \<Rightarrow> byte \<Rightarrow> TPM_ALG_ID \<Rightarrow> ByteVec \<Rightarrow>
     ('d, EncryptDecrypt2Response) call" where
  "Tpm2_EncryptDecrypt2 ossl dev keyHandle inData decrypt mode ivIn =
     returning (the_resp id) (Dispatch ossl dev EncryptDecrypt2Response_resp TPM_CC_EncryptDecrypt2
       (Req_other (TPM2_EncryptDecrypt2_REQUEST_req
         \<lparr>TPM2_EncryptDecrypt2_REQUEST_keyHandle = keyHandle,
          TPM2_EncryptDecrypt2_REQUEST_inData = inData, TPM2_EncryptDecrypt2_REQUEST_decrypt = decrypt,
          TPM2_EncryptDecrypt2_REQUEST_mode = mode, TPM2_EncryptDecrypt2_REQUEST_ivIn = ivIn\<rparr>))
       (Resp_other EncryptDecrypt2Response_default))"

definition Tpm2_Hash ::
  "Openssl \<Rightarrow> 'd TpmDevice \<Rightarrow> ByteVec \<Rightarrow> TPM_ALG_ID \<Rightarrow> TPM_HANDLE \<Rightarrow> ('d, HashResponse) call" where
  "Tpm2_Hash ossl dev data hashAlg hierarchy =
     returning (the_resp id) (Dispatch ossl dev HashResponse_resp TPM_CC_Hash
       (Req_other (TPM2_Hash_REQUEST_req
         \<lparr>TPM2_Hash_REQUEST_data = data, TPM2_Hash_REQUEST_hashAlg = hashAlg,
          TPM2_Hash_REQUEST_hierarchy = hierarchy\<rparr>))
       (Resp_other HashResponse_default))"

definition Tpm2_HMAC ::
  "Openssl \<Rightarrow> 'd TpmDevice \<Rightarrow> TPM_HANDLE \<Rightarrow> ByteVec \<Rightarrow> TPM_ALG_ID \<Rightarrow> ('d, ByteVec) call" where
  "Tpm2_HMAC ossl dev handle buffer hashAlg =
     returning (the_resp HMACResponse_outHMAC) (Dispatch ossl dev HMACResponse_resp TPM_CC_HMAC
       (Req_other (TPM2_HMAC_REQUEST_req
         \<lparr>TPM2_HMAC_REQUEST_handle = handle, TPM2_HMAC_REQUEST_buffer = buffer,
          TPM2_HMAC_REQUEST_hashAlg = hashAlg\<rparr>))
       (Resp_other HMACResponse_default))"

definition Tpm2_MAC ::
  "Openssl \<Rightarrow> 'd TpmDevice \<Rightarrow> TPM_HANDLE \<Rightarrow> ByteVec \<Rightarrow> TPM_ALG_ID \<Rightarrow> ('d, ByteVec) call" where
  "Tpm2_MAC ossl dev handle buffer inScheme =
     returning (the_resp MACResponse_outMAC) (Dispatch ossl dev MACResponse_resp TPM_CC_MAC
       (Req_other (TPM2_MAC_REQUEST_req
         \<lparr>TPM2_MAC_REQUEST_handle = handle, TPM2_MAC_REQUEST_buffer = buffer,
          TPM2_MAC_REQUEST_inScheme = inScheme\<rparr>))
       (Resp_other MACResponse_default))"

definition Tpm2_GetRandom ::
  "Openssl \<Rightarrow> 'd TpmDevice \<Rightarrow> UINT16 \<Rightarrow> ('d, ByteVec) call" where
  "Tpm2_GetRandom ossl dev bytesRequested =
     returning (the_resp GetRandomResponse_randomBytes) (Dispatch ossl dev GetRandomResponse_resp
       TPM_CC_GetRandom
       (Req_other (TPM2_GetRandom_REQUEST_req
         \<lparr>TPM2_GetRandom_REQUEST_bytesRequested = bytesRequested\<rparr>))
       (Resp_other GetRandomResponse_default))"

definition Tpm2_StirRandom ::
  "Openssl \<Rightarrow> 'd TpmDevice \<Rightarrow> ByteVec \<Rightarrow> ('d, unit) call" where
  "Tpm2_StirRandom ossl dev inData =
     returning (the_resp id) (Dispatch ossl dev no_response TPM_CC_StirRandom
       (Req_other (TPM2_StirRandom_REQUEST_req
         \<lparr>TPM2_StirRandom_REQUEST_inData = inData\<rparr>))
       (Resp_other ()))"

definition Tpm2_HMAC_Start ::
  "Openssl \<Rightarrow> 'd TpmDevice \<Rightarrow> TPM_HANDLE \<Rightarrow> ByteVec \<Rightarrow> TPM_ALG_ID \<Rightarrow> ('d, TPM_HANDLE) call" where
  "Tpm2_HMAC_Start ossl dev handle auth hashAlg =
     returning (the_resp HMAC_StartResponse_handle) (Dispatch ossl dev HMAC_StartResponse_resp
       TPM_CC_HMAC_Start
       (Req_other (TPM2_HMAC_Start_REQUEST_req
         \<lparr>TPM2_HMAC_Start_REQUEST_handle = handle, TPM2_HMAC_Start_REQUEST_auth = auth,
          TPM2_HMAC_Start_REQUEST_hashAlg = hashAlg\<rparr>))
       (Resp_other HMAC_StartResponse_default))"

definition Tpm2_MAC_Start ::
  "Openssl \<Rightarrow> 'd TpmDevice \<Rightarrow> TPM_HANDLE \<Rightarrow> ByteVec \<Rightarrow> TPM_ALG_ID \<Rightarrow> ('d, TPM_HANDLE) call" where
  "Tpm2_MAC_Start ossl dev handle auth inScheme =
     returning (the_resp MAC_StartResponse_handle) (Dispatch ossl dev MAC_StartResponse_resp
       TPM_CC_MAC_Start
       (Req_other (TPM2_MAC_Start_REQUEST_req
         \<lparr>TPM2_MAC_Start_REQUEST_handle = handle, TPM2_MAC_Start_REQUEST_auth = auth,
          TPM2_MAC_Start_REQUEST_inScheme = inScheme\<rparr>))
       (Resp_other MAC_StartResponse_default))"

definition Tpm2_HashSequenceStart ::
  "Openssl \<Rightarrow> 'd TpmDevice \<Rightarrow> ByteVec \<Rightarrow> TPM_ALG_ID \<Rightarrow> ('d, TPM_HANDLE) call" where
  "Tpm2_HashSequenceStart ossl dev auth hashAlg =
     returning (\<lambda>resp. case resp of Resp_HashSequenceStart r \<Rightarrow> Ok (HashSequenceStartResponse_handle r)
       | _ \<Rightarrow> Undef) (Dispatch ossl dev no_response TPM_CC_HashSequenceStart
       (Req_HashSequenceStart
         \<lparr>TPM2_HashSequenceStart_REQUEST_auth = auth, TPM2_HashSequenceStart_REQUEST_hashAlg = hashAlg\<rparr>)
       (Resp_HashSequenceStart HashSequenceStartResponse_default))"

definition Tpm2_SequenceUpdate ::
  "Openssl \<Rightarrow> 'd TpmDevice \<Rightarrow> TPM_HANDLE \<Rightarrow> ByteVec \<Rightarrow> ('d, unit) call" where
  "Tpm2_SequenceUpdate ossl dev sequenceHandle buffer =
     returning (the_resp id) (Dispatch ossl dev no_response TPM_CC_SequenceUpdate
       (Req_other (TPM2_SequenceUpdate_REQUEST_req
         \<lparr>TPM2_SequenceUpdate_REQUEST_sequenceHandle = sequenceHandle,
          TPM2_SequenceUpdate_REQUEST_buffer = buffer\<rparr>))
       (Resp_other ()))"

definition Tpm2_SequenceComplete ::
  "Openssl \<Rightarrow> 'd TpmDevice \<Rightarrow> TPM_HANDLE \<Rightarrow> ByteVec \<Rightarrow> TPM_HANDLE \<Rightarrow>
     ('d, SequenceCompleteResponse) call" where
  "Tpm2_SequenceComplete ossl dev sequenceHandle buffer hierarchy =
     returning (the_resp id) (Dispatch ossl dev SequenceCompleteResponse_resp TPM_CC_SequenceComplete
       (Req_other (TPM2_SequenceComplete_REQUEST_req
         \<lparr>TPM2_SequenceComplete_REQUEST_sequenceHandle = sequenceHandle,
          TPM2_SequenceComplete_REQUEST_buffer = buffer,
          TPM2_SequenceComplete_REQUEST_hierarchy = hierarchy\<rparr>))
       (Resp_other SequenceCompleteResponse_default))"

definition Tpm2_EventSequenceComplete ::
  "Openssl \<Rightarrow> 'd TpmDevice \<Rightarrow> TPM_HANDLE \<Rightarrow> TPM_HANDLE \<Rightarrow> ByteVec \<Rightarrow> ('d, TPMT_HA list) call" where
  "Tpm2_EventSequenceComplete ossl dev pcrHandle sequenceHandle buffer =
     returning (the_resp EventSequenceCompleteResponse_results) (Dispatch ossl dev
       EventSequenceCompleteResponse_resp TPM_CC_EventSequenceComplete
       (Req_other (TPM2_EventSequenceComplete_REQUEST_req
         \<lparr>TPM2_EventSequenceComplete_REQUEST_pcrHandle = pcrHandle,
          TPM2_EventSequenceComplete_REQUEST_sequenceHandle = sequenceHandle,
          TPM2_EventSequenceComplete_REQUEST_buffer = buffer\<rparr>))
       (Resp_other EventSequenceCompleteResponse_default))"

definition Tpm2_Certify ::
  "Openssl \<Rightarrow> 'd TpmDevice \<Rightarrow> TPM_HANDLE \<Rightarrow> TPM_HANDLE \<Rightarrow> ByteVec \<Rightarrow> TPMU_SIG_SCHEME \<Rightarrow>
     ('d, CertifyResponse) call" where
  "Tpm2_Certify ossl dev objectHandle signHandle qualifyingData inScheme =
     returning (the_resp id) (Dispatch ossl dev CertifyResponse_resp TPM_CC_Certify
       (Req_other (TPM2_Certify_REQUEST_req
         \<lparr>TPM2_Certify_REQUEST_objectHandle = objectHandle,
          TPM2_Certify_REQUEST_signHandle = signHandle,
          TPM2_Certify_REQUEST_qualifyingData = qualifyingData,
          TPM2_Certify_REQUEST_inScheme = Some inScheme\<rparr>))
       (Resp_other CertifyResponse_default))"

definition Tpm2_CertifyCreation ::
  "Openssl \<Rightarrow> 'd TpmDevice \<Rightarrow> TPM_HANDLE \<Rightarrow> TPM_HANDLE \<Rightarrow> ByteVec \<Rightarrow> ByteVec \<Rightarrow> TPMU_SIG_SCHEME \<Rightarrow>
     TPMT_TK_CREATION \<Rightarrow> ('d, CertifyCreationResponse) call" where
  "Tpm2_CertifyCreation ossl dev signHandle objectHandle qualifyingData creationHash inScheme
     creationTicket =
     returning (the_resp id) (Dispatch ossl dev CertifyCreationResponse_resp TPM_CC_CertifyCreation
       (Req_other (TPM2_CertifyCreation_REQUEST_req
         \<lparr>TPM2_CertifyCreation_REQUEST_signHandle = signHandle,
          TPM2_CertifyCreation_REQUEST_objectHandle = objectHandle,
          TPM2_CertifyCreation_REQUEST_qualifyingData = qualifyingData,
          TPM2_CertifyCreation_REQUEST_creationHash = creationHash,
          TPM2_CertifyCreation_REQUEST_inScheme = Some inScheme,
          TPM2_CertifyCreation_REQUEST_creationTicket = creationTicket\<rparr>))
       (Resp_other CertifyCreationResponse_default))"

definition Tpm2_Quote ::
  "Openssl \<Rightarrow> 'd TpmDevice \<Rightarrow> TPM_HANDLE \<Rightarrow> ByteVec \<Rightarrow> TPMU_SIG_SCHEME \<Rightarrow> TPMS_PCR_SELECTION list \<Rightarrow>
     ('d, QuoteResponse) call" where
  "Tpm2_Quote ossl dev signHandle qualifyingData inScheme PCRselect =
     returning (the_resp id) (Dispatch ossl dev QuoteResponse_resp TPM_CC_Quote
       (Req_other (TPM2_Quote_REQUEST_req
         \<lparr>TPM2_Quote_REQUEST_signHandle = signHandle,
          TPM2_Quote_REQUEST_qualifyingData = qualifyingData,
          TPM2_Quote_REQUEST_inScheme = Some inScheme, TPM2_Quote_REQUEST_PCRselect = PCRselect\<rparr>))
       (Resp_other QuoteResponse_default))"

definition Tpm2_GetSessionAuditDigest ::
  "Openssl \<Rightarrow> 'd TpmDevice \<Rightarrow> TPM_HANDLE \<Rightarrow> TPM_HANDLE \<Rightarrow> TPM_HANDLE \<Rightarrow> ByteVec \<Rightarrow> TPMU_SIG_SCHEME \<Rightarrow>
     ('d, GetSessionAuditDigestResponse) call" where
  "Tpm2_GetSessionAuditDigest ossl dev privacyAdminHandle signHandle sessionHandle qualifyingData
     inScheme =
     returning (the_resp id) (Dispatch ossl dev GetSessionAuditDigestResponse_resp
       TPM_CC_GetSessionAuditDigest
       (Req_other (TPM2_GetSessionAuditDigest_REQUEST_req
         \<lparr>TPM2_GetSessionAuditDigest_REQUEST_privacyAdminHandle = privacyAdminHandle,
          TPM2_GetSessionAuditDigest_REQUEST_signHandle = signHandle,
          TPM2_GetSessionAuditDigest_REQUEST_sessionHandle = sessionHandle,
          TPM2_GetSessionAuditDigest_REQUEST_qualifyingData = qualifyingData,
          TPM2_GetSessionAuditDigest_REQUEST_inScheme = Some inScheme\<rparr>))
       (Resp_other GetSessionAuditDigestResponse_default))"

definition Tpm2_GetCommandAuditDigest ::
  "Openssl \<Rightarrow> 'd TpmDevice \<Rightarrow> TPM_HANDLE \<Rightarrow> TPM_HANDLE \<Rightarrow> ByteVec \<Rightarrow> TPMU_SIG_SCHEME \<Rightarrow>
     ('d, GetCommandAuditDigestResponse) call" where
  "Tpm2_GetCommandAuditDigest ossl dev privacyHandle signHandle qualifyingData inScheme =
     returning (the_resp id) (Dispatch ossl dev GetCommandAuditDigestResponse_resp
       TPM_CC_GetCommandAuditDigest
       (Req_other (TPM2_GetCommandAuditDigest_REQUEST_req
         \<lparr>TPM2_GetCommandAuditDigest_REQUEST_privacyHandle = privacyHandle,
          TPM2_GetCommandAuditDigest_REQUEST_signHandle = signHandle,
          TPM2_GetCommandAuditDigest_REQUEST_qualifyingData = qualifyingData,
          TPM2_GetCommandAuditDigest_REQUEST_inScheme = Some inScheme\<rparr>))
       (Resp_other GetCommandAuditDigestResponse_default))"

definition Tpm2_GetTime ::
  "Openssl \<Rightarrow> 'd TpmDevice \<Rightarrow> TPM_HANDLE \<Rightarrow> TPM_HANDLE \<Rightarrow> ByteVec \<Rightarrow> TPMU_SIG_SCHEME \<Rightarrow>
     ('d, GetTimeResponse) call" where
  "Tpm2_GetTime ossl dev privacyAdminHandle signHandle qualifyingData inScheme =
     returning (the_resp id) (Dispatch ossl dev GetTimeResponse_resp TPM_CC_GetTime
       (Req_other (TPM2_GetTime_REQUEST_req
         \<lparr>TPM2_GetTime_REQUEST_privacyAdminHandle = privacyAdminHandle,
          TPM2_GetTime_REQUEST_signHandle = signHandle,
          TPM2_GetTime_REQUEST_qualifyingData = qualifyingData,
          TPM2_GetTime_REQUEST_inScheme = Some inScheme\<rparr>))
       (Resp_other GetTimeResponse_default))"

definition Tpm2_CertifyX509 ::
  "Openssl \<Rightarrow> 'd TpmDevice \<Rightarrow> TPM_HANDLE \<Rightarrow> TPM_HANDLE \<Rightarrow> ByteVec \<Rightarrow> TPMU_SIG_SCHEME \<Rightarrow> ByteVec \<Rightarrow>
     ('d, CertifyX509Response) call" where
  "Tpm2_CertifyX509 ossl dev objectHandle signHandle reserved inScheme partialCertificate =
     returning (the_resp id) (Dispatch ossl dev CertifyX509Response_resp TPM_CC_CertifyX509
       (Req_other (TPM2_CertifyX509_REQUEST_req
         \<lparr>TPM2_CertifyX509_REQUEST_objectHandle = objectHandle,
          TPM2_CertifyX509_REQUEST_signHandle = signHandle,
          TPM2_CertifyX509_REQUEST_reserved = reserved,
          TPM2_CertifyX509_REQUEST_inScheme = Some inScheme,
          TPM2_CertifyX509_REQUEST_partialCertificate = partialCertificate\<rparr>))
       (Resp_other CertifyX509Response_default))"

definition Tpm2_Commit ::
  "Openssl \<Rightarrow> 'd TpmDevice \<Rightarrow> TPM_HANDLE \<Rightarrow> TPMS_ECC_POINT \<Rightarrow> ByteVec \<Rightarrow> ByteVec \<Rightarrow>
     ('d, CommitResponse) call" where
  "Tpm2_Commit ossl dev signHandle P1 s2 y2 =
     returning (the_resp id) (Dispatch ossl dev CommitResponse_resp TPM_CC_Commit
       (Req_other (TPM2_Commit_REQUEST_req
         \<lparr>TPM2_Commit_REQUEST_signHandle = signHandle, TPM2_Commit_REQUEST_P1 = P1,
          TPM2_Commit_REQUEST_s2 = s2, TPM2_Commit_REQUEST_y2 = y2\<rparr>))
       (Resp_other CommitResponse_default))"

definition Tpm2_EC_Ephemeral ::
  "Openssl \<Rightarrow> 'd TpmDevice \<Rightarrow> TPM_ECC_CURVE \<Rightarrow> ('d, EC_EphemeralResponse) call" where
  "Tpm2_EC_Ephemeral ossl dev curveID =
     returning (the_resp id) (Dispatch ossl dev EC_EphemeralResponse_resp TPM_CC_EC_Ephemeral
       (Req_other (TPM2_EC_Ephemeral_REQUEST_req
         \<lparr>TPM2_EC_Ephemeral_REQUEST_curveID = curveID\<rparr>))
       (Resp_other EC_EphemeralResponse_default))"

definition Tpm2_VerifySignature ::
  "Openssl \<Rightarrow> 'd TpmDevice \<Rightarrow> TPM_HANDLE \<Rightarrow> ByteVec \<Rightarrow> TPMU_SIGNATURE \<Rightarrow> ('d, TPMT_TK_VERIFIED) call" where
  "Tpm2_VerifySignature ossl dev keyHandle digest signature =
     returning (the_resp VerifySignatureResponse_validation) (Dispatch ossl dev
       VerifySignatureResponse_resp TPM_CC_VerifySignature
       (Req_other (TPM2_VerifySignature_REQUEST_req
         \<lparr>TPM2_VerifySignature_REQUEST_keyHandle = keyHandle,
          TPM2_VerifySignature_REQUEST_digest = digest,
          TPM2_VerifySignature_REQUEST_signature = Some signature\<rparr>))
       (Resp_other VerifySignatureResponse_default))"

definition Tpm2_Sign ::
  "Openssl \<Rightarrow> 'd TpmDevice \<Rightarrow> TPM_HANDLE \<Rightarrow> ByteVec \<Rightarrow> TPMU_SIG_SCHEME \<Rightarrow> TPMT_TK_HASHCHECK \<Rightarrow>
     ('d, TPMU_SIGNATURE option) call" where
  "Tpm2_Sign ossl dev keyHandle digest inScheme validation =
     returning (the_resp SignResponse_signature) (Dispatch ossl dev SignResponse_resp TPM_CC_Sign
       (Req_other (TPM2_Sign_REQUEST_req
         \<lparr>TPM2_Sign_REQUEST_keyHandle = keyHandle, TPM2_Sign_REQUEST_digest = digest,
          TPM2_Sign_REQUEST_inScheme = Some inScheme, TPM2_Sign_REQUEST_validation = validation\<rparr>))
       (Resp_other SignResponse_default))"

definition Tpm2_SetCommandCodeAuditStatus ::
  "Openssl \<Rightarrow> 'd TpmDevice \<Rightarrow> TPM_HANDLE \<Rightarrow> TPM_ALG_ID \<Rightarrow> TPM_CC list \<Rightarrow> TPM_CC list \<Rightarrow> ('d, unit) call" where
  "Tpm2_SetCommandCodeAuditStatus ossl dev auth auditAlg setList clearList =
     returning (the_resp id) (Dispatch ossl dev no_response TPM_CC_SetCommandCodeAuditStatus
       (Req_other (TPM2_SetCommandCodeAuditStatus_REQUEST_req
         \<lparr>TPM2_SetCommandCodeAuditStatus_REQUEST_auth = auth,
          TPM2_SetCommandCodeAuditStatus_REQUEST_auditAlg = auditAlg,
          TPM2_SetCommandCodeAuditStatus_REQUEST_setList = setList,
          TPM2_SetCommandCodeAuditStatus_REQUEST_clearList = clearList\<rparr>))
       (Resp_other ()))"

definition Tpm2_PCR_Extend ::
  "Openssl \<Rightarrow> 'd TpmDevice \<Rightarrow> TPM_HANDLE \<Rightarrow> TPMT_HA list \<Rightarrow> ('d, unit) call" where
  "Tpm2_PCR_Extend ossl dev pcrHandle digests =
     returning (the_resp id) (Dispatch ossl dev no_response TPM_CC_PCR_Extend
       (Req_other (TPM2_PCR_Extend_REQUEST_req
         \<lparr>TPM2_PCR_Extend_REQUEST_pcrHandle = pcrHandle, TPM2_PCR_Extend_REQUEST_digests = digests\<rparr>))
       (Resp_other ()))"

definition Tpm2_PCR_Event ::
  "Openssl \<Rightarrow> 'd TpmDevice \<Rightarrow> TPM_HANDLE \<Rightarrow> ByteVec \<Rightarrow> ('d, TPMT_HA list) call" where
  "Tpm2_PCR_Event ossl dev pcrHandle eventData =
     returning (the_resp PCR_EventResponse_digests) (Dispatch ossl dev PCR_EventResponse_resp
       TPM_CC_PCR_Event
       (Req_other (TPM2_PCR_Event_REQUEST_req
         \<lparr>TPM2_PCR_Event_REQUEST_pcrHandle = pcrHandle, TPM2_PCR_Event_REQUEST_eventData = eventData\<rparr>))
       (Resp_other PCR_EventResponse_default))"

definition Tpm2_PCR_Read ::
  "Openssl \<Rightarrow> 'd TpmDevice \<Rightarrow> TPMS_PCR_SELECTION list \<Rightarrow> ('d, PCR_ReadResponse) call" where
  "Tpm2_PCR_Read ossl dev pcrSelectionIn =
     returning (the_resp id) (Dispatch ossl dev PCR_ReadResponse_resp TPM_CC_PCR_Read
       (Req_other (TPM2_PCR_Read_REQUEST_req
         \<lparr>TPM2_PCR_Read_REQUEST_pcrSelectionIn = pcrSelectionIn\<rparr>))
       (Resp_other PCR_ReadResponse_default))"

definition Tpm2_PCR_Allocate ::
  "Openssl \<Rightarrow> 'd TpmDevice \<Rightarrow> TPM_HANDLE \<Rightarrow> TPMS_PCR_SELECTION list \<Rightarrow>
     ('d, PCR_AllocateResponse) call" where
  "Tpm2_PCR_Allocate ossl dev authHandle pcrAllocation =
     returning (the_resp id) (Dispatch ossl dev PCR_AllocateResponse_resp TPM_CC_PCR_Allocate
       (Req_other (TPM2_PCR_Allocate_REQUEST_req
         \<lparr>TPM2_PCR_Allocate_REQUEST_authHandle = authHandle,
          TPM2_PCR_Allocate_REQUEST_pcrAllocation = pcrAllocation\<rparr>))
       (Resp_other PCR_AllocateResponse_default))"

definition Tpm2_PCR_SetAuthPolicy ::
  "Openssl \<Rightarrow> 'd TpmDevice \<Rightarrow> TPM_HANDLE \<Rightarrow> ByteVec \<Rightarrow> TPM_ALG_ID \<Rightarrow> TPM_HANDLE \<Rightarrow> ('d, unit) call" where
  "Tpm2_PCR_SetAuthPolicy ossl dev authHandle authPolicy hashAlg pcrNum =
     returning (the_resp id) (Dispatch ossl dev no_response TPM_CC_PCR_SetAuthPolicy
       (Req_other (TPM2_PCR_SetAuthPolicy_REQUEST_req
         \<lparr>TPM2_PCR_SetAuthPolicy_REQUEST_authHandle = authHandle,
          TPM2_PCR_SetAuthPolicy_REQUEST_authPolicy = authPolicy,
          TPM2_PCR_SetAuthPolicy_REQUEST_hashAlg = hashAlg,
          TPM2_PCR_SetAuthPolicy_REQUEST_pcrNum = pcrNum\<rparr>))
       (Resp_other ()))"

definition Tpm2_PCR_SetAuthValue ::
  "Openssl \<Rightarrow> 'd TpmDevice \<Rightarrow> TPM_HANDLE \<Rightarrow> ByteVec \<Rightarrow> ('d, unit) call" where
  "Tpm2_PCR_SetAuthValue ossl dev pcrHandle auth =
     returning (the_resp id) (Dispatch ossl dev no_response TPM_CC_PCR_SetAuthValue
       (Req_PCR_SetAuthValue
         \<lparr>TPM2_PCR_SetAuthValue_REQUEST_pcrHandle = pcrHandle, TPM2_PCR_SetAuthValue_REQUEST_auth =
           auth\<rparr>)
       (Resp_other ()))"

definition Tpm2_PCR_Reset ::
  "Openssl \<Rightarrow> 'd TpmDevice \<Rightarrow> TPM_HANDLE \<Rightarrow> ('d, unit) call" where
  "Tpm2_PCR_Reset ossl dev pcrHandle =
     returning (the_resp id) (Dispatch ossl dev no_response TPM_CC_PCR_Reset
       (Req_other (TPM2_PCR_Reset_REQUEST_req
         \<lparr>TPM2_PCR_Reset_REQUEST_pcrHandle = pcrHandle\<rparr>))
       (Resp_other ()))"

definition Tpm2_PolicySigned ::
  "Openssl \<Rightarrow> 'd TpmDevice \<Rightarrow> TPM_HANDLE \<Rightarrow> TPM_HANDLE \<Rightarrow> ByteVec \<Rightarrow> ByteVec \<Rightarrow> ByteVec \<Rightarrow> UINT32 \<Rightarrow>
     TPMU_SIGNATURE \<Rightarrow> ('d, PolicySignedResponse) call" where
  "Tpm2_PolicySigned ossl dev authObject policySession nonceTPM cpHashA policyRef expiration auth =
     returning (the_resp id) (Dispatch ossl dev PolicySignedResponse_resp TPM_CC_PolicySigned
       (Req_other (TPM2_PolicySigned_REQUEST_req
         \<lparr>TPM2_PolicySigned_REQUEST_authObject = authObject,
          TPM2_PolicySigned_REQUEST_policySession = policySession,
          TPM2_PolicySigned_REQUEST_nonceTPM = nonceTPM, TPM2_PolicySigned_REQUEST_cpHashA = cpHashA,
          TPM2_PolicySigned_REQUEST_policyRef = policyRef,
          TPM2_PolicySigned_REQUEST_expiration = expiration, TPM2_PolicySigned_REQUEST_auth = Some
            auth\<rparr>))
       (Resp_other PolicySignedResponse_default))"

end
