(* ===== verification/Tpm2MethodsMore.thy ===== *)
theory Tpm2MethodsMore
  imports Tpm2Calls TpmObjectCommands TpmCryptoCommands TpmAttestCommands TpmPolicyCommands TpmAdminCommands TpmNvCommands
begin

text \<open>
  The methods of \<^verbatim>\<open>class Tpm2\<close> for the commands of Part 3 of the TPM specification, as
  \<^verbatim>\<open>TSS.CPP/Src/TpmTypes.cpp\<close> defines them: the arguments go into a request, the request to the dispatcher, and
  what comes back is the response or, if it has only one field, that field.
\<close>

definition Tpm2_PolicySecret ::
  "Openssl \<Rightarrow> 'd TpmDevice \<Rightarrow> TPM_HANDLE \<Rightarrow> TPM_HANDLE \<Rightarrow> ByteVec \<Rightarrow> ByteVec \<Rightarrow> ByteVec \<Rightarrow> UINT32 \<Rightarrow>
     ('d, PolicySecretResponse) call" where
  "Tpm2_PolicySecret ossl dev authHandle policySession nonceTPM cpHashA policyRef expiration =
     returning (the_resp id) (Dispatch ossl dev PolicySecretResponse_resp TPM_CC_PolicySecret
       (Req_other (TPM2_PolicySecret_REQUEST_req
         \<lparr>TPM2_PolicySecret_REQUEST_authHandle = authHandle,
          TPM2_PolicySecret_REQUEST_policySession = policySession,
          TPM2_PolicySecret_REQUEST_nonceTPM = nonceTPM, TPM2_PolicySecret_REQUEST_cpHashA = cpHashA,
          TPM2_PolicySecret_REQUEST_policyRef = policyRef,
          TPM2_PolicySecret_REQUEST_expiration = expiration\<rparr>))
       (Resp_other PolicySecretResponse_default))"

definition Tpm2_PolicyTicket ::
  "Openssl \<Rightarrow> 'd TpmDevice \<Rightarrow> TPM_HANDLE \<Rightarrow> ByteVec \<Rightarrow> ByteVec \<Rightarrow> ByteVec \<Rightarrow> ByteVec \<Rightarrow> TPMT_TK_AUTH \<Rightarrow>
     ('d, unit) call" where
  "Tpm2_PolicyTicket ossl dev policySession timeout cpHashA policyRef authName ticket =
     returning (the_resp id) (Dispatch ossl dev no_response TPM_CC_PolicyTicket
       (Req_other (TPM2_PolicyTicket_REQUEST_req
         \<lparr>TPM2_PolicyTicket_REQUEST_policySession = policySession,
          TPM2_PolicyTicket_REQUEST_timeout = timeout, TPM2_PolicyTicket_REQUEST_cpHashA = cpHashA,
          TPM2_PolicyTicket_REQUEST_policyRef = policyRef,
          TPM2_PolicyTicket_REQUEST_authName = authName, TPM2_PolicyTicket_REQUEST_ticket = ticket\<rparr>))
       (Resp_other ()))"

definition Tpm2_PolicyOR ::
  "Openssl \<Rightarrow> 'd TpmDevice \<Rightarrow> TPM_HANDLE \<Rightarrow> TPM2B_DIGEST list \<Rightarrow> ('d, unit) call" where
  "Tpm2_PolicyOR ossl dev policySession pHashList =
     returning (the_resp id) (Dispatch ossl dev no_response TPM_CC_PolicyOR
       (Req_other (TPM2_PolicyOR_REQUEST_req
         \<lparr>TPM2_PolicyOR_REQUEST_policySession = policySession,
          TPM2_PolicyOR_REQUEST_pHashList = pHashList\<rparr>))
       (Resp_other ()))"

definition Tpm2_PolicyPCR ::
  "Openssl \<Rightarrow> 'd TpmDevice \<Rightarrow> TPM_HANDLE \<Rightarrow> ByteVec \<Rightarrow> TPMS_PCR_SELECTION list \<Rightarrow> ('d, unit) call" where
  "Tpm2_PolicyPCR ossl dev policySession pcrDigest pcrs =
     returning (the_resp id) (Dispatch ossl dev no_response TPM_CC_PolicyPCR
       (Req_other (TPM2_PolicyPCR_REQUEST_req
         \<lparr>TPM2_PolicyPCR_REQUEST_policySession = policySession,
          TPM2_PolicyPCR_REQUEST_pcrDigest = pcrDigest, TPM2_PolicyPCR_REQUEST_pcrs = pcrs\<rparr>))
       (Resp_other ()))"

definition Tpm2_PolicyLocality ::
  "Openssl \<Rightarrow> 'd TpmDevice \<Rightarrow> TPM_HANDLE \<Rightarrow> TPMA_LOCALITY \<Rightarrow> ('d, unit) call" where
  "Tpm2_PolicyLocality ossl dev policySession locality =
     returning (the_resp id) (Dispatch ossl dev no_response TPM_CC_PolicyLocality
       (Req_other (TPM2_PolicyLocality_REQUEST_req
         \<lparr>TPM2_PolicyLocality_REQUEST_policySession = policySession,
          TPM2_PolicyLocality_REQUEST_locality = locality\<rparr>))
       (Resp_other ()))"

definition Tpm2_PolicyNV ::
  "Openssl \<Rightarrow> 'd TpmDevice \<Rightarrow> TPM_HANDLE \<Rightarrow> TPM_HANDLE \<Rightarrow> TPM_HANDLE \<Rightarrow> ByteVec \<Rightarrow> UINT16 \<Rightarrow> TPM_EO \<Rightarrow>
     ('d, unit) call" where
  "Tpm2_PolicyNV ossl dev authHandle nvIndex policySession operandB offset operation =
     returning (the_resp id) (Dispatch ossl dev no_response TPM_CC_PolicyNV
       (Req_other (TPM2_PolicyNV_REQUEST_req
         \<lparr>TPM2_PolicyNV_REQUEST_authHandle = authHandle, TPM2_PolicyNV_REQUEST_nvIndex = nvIndex,
          TPM2_PolicyNV_REQUEST_policySession = policySession,
          TPM2_PolicyNV_REQUEST_operandB = operandB, TPM2_PolicyNV_REQUEST_offset = offset,
          TPM2_PolicyNV_REQUEST_operation = operation\<rparr>))
       (Resp_other ()))"

definition Tpm2_PolicyCounterTimer ::
  "Openssl \<Rightarrow> 'd TpmDevice \<Rightarrow> TPM_HANDLE \<Rightarrow> ByteVec \<Rightarrow> UINT16 \<Rightarrow> TPM_EO \<Rightarrow> ('d, unit) call" where
  "Tpm2_PolicyCounterTimer ossl dev policySession operandB offset operation =
     returning (the_resp id) (Dispatch ossl dev no_response TPM_CC_PolicyCounterTimer
       (Req_other (TPM2_PolicyCounterTimer_REQUEST_req
         \<lparr>TPM2_PolicyCounterTimer_REQUEST_policySession = policySession,
          TPM2_PolicyCounterTimer_REQUEST_operandB = operandB,
          TPM2_PolicyCounterTimer_REQUEST_offset = offset,
          TPM2_PolicyCounterTimer_REQUEST_operation = operation\<rparr>))
       (Resp_other ()))"

definition Tpm2_PolicyCommandCode ::
  "Openssl \<Rightarrow> 'd TpmDevice \<Rightarrow> TPM_HANDLE \<Rightarrow> TPM_CC \<Rightarrow> ('d, unit) call" where
  "Tpm2_PolicyCommandCode ossl dev policySession code =
     returning (the_resp id) (Dispatch ossl dev no_response TPM_CC_PolicyCommandCode
       (Req_other (TPM2_PolicyCommandCode_REQUEST_req
         \<lparr>TPM2_PolicyCommandCode_REQUEST_policySession = policySession,
          TPM2_PolicyCommandCode_REQUEST_code = code\<rparr>))
       (Resp_other ()))"

definition Tpm2_PolicyPhysicalPresence ::
  "Openssl \<Rightarrow> 'd TpmDevice \<Rightarrow> TPM_HANDLE \<Rightarrow> ('d, unit) call" where
  "Tpm2_PolicyPhysicalPresence ossl dev policySession =
     returning (the_resp id) (Dispatch ossl dev no_response TPM_CC_PolicyPhysicalPresence
       (Req_other (TPM2_PolicyPhysicalPresence_REQUEST_req
         \<lparr>TPM2_PolicyPhysicalPresence_REQUEST_policySession = policySession\<rparr>))
       (Resp_other ()))"

definition Tpm2_PolicyCpHash ::
  "Openssl \<Rightarrow> 'd TpmDevice \<Rightarrow> TPM_HANDLE \<Rightarrow> ByteVec \<Rightarrow> ('d, unit) call" where
  "Tpm2_PolicyCpHash ossl dev policySession cpHashA =
     returning (the_resp id) (Dispatch ossl dev no_response TPM_CC_PolicyCpHash
       (Req_other (TPM2_PolicyCpHash_REQUEST_req
         \<lparr>TPM2_PolicyCpHash_REQUEST_policySession = policySession,
          TPM2_PolicyCpHash_REQUEST_cpHashA = cpHashA\<rparr>))
       (Resp_other ()))"

definition Tpm2_PolicyNameHash ::
  "Openssl \<Rightarrow> 'd TpmDevice \<Rightarrow> TPM_HANDLE \<Rightarrow> ByteVec \<Rightarrow> ('d, unit) call" where
  "Tpm2_PolicyNameHash ossl dev policySession nameHash =
     returning (the_resp id) (Dispatch ossl dev no_response TPM_CC_PolicyNameHash
       (Req_other (TPM2_PolicyNameHash_REQUEST_req
         \<lparr>TPM2_PolicyNameHash_REQUEST_policySession = policySession,
          TPM2_PolicyNameHash_REQUEST_nameHash = nameHash\<rparr>))
       (Resp_other ()))"

definition Tpm2_PolicyDuplicationSelect ::
  "Openssl \<Rightarrow> 'd TpmDevice \<Rightarrow> TPM_HANDLE \<Rightarrow> ByteVec \<Rightarrow> ByteVec \<Rightarrow> byte \<Rightarrow> ('d, unit) call" where
  "Tpm2_PolicyDuplicationSelect ossl dev policySession objectName newParentName includeObject =
     returning (the_resp id) (Dispatch ossl dev no_response TPM_CC_PolicyDuplicationSelect
       (Req_other (TPM2_PolicyDuplicationSelect_REQUEST_req
         \<lparr>TPM2_PolicyDuplicationSelect_REQUEST_policySession = policySession,
          TPM2_PolicyDuplicationSelect_REQUEST_objectName = objectName,
          TPM2_PolicyDuplicationSelect_REQUEST_newParentName = newParentName,
          TPM2_PolicyDuplicationSelect_REQUEST_includeObject = includeObject\<rparr>))
       (Resp_other ()))"

definition Tpm2_PolicyAuthorize ::
  "Openssl \<Rightarrow> 'd TpmDevice \<Rightarrow> TPM_HANDLE \<Rightarrow> ByteVec \<Rightarrow> ByteVec \<Rightarrow> ByteVec \<Rightarrow> TPMT_TK_VERIFIED \<Rightarrow>
     ('d, unit) call" where
  "Tpm2_PolicyAuthorize ossl dev policySession approvedPolicy policyRef keySign checkTicket =
     returning (the_resp id) (Dispatch ossl dev no_response TPM_CC_PolicyAuthorize
       (Req_other (TPM2_PolicyAuthorize_REQUEST_req
         \<lparr>TPM2_PolicyAuthorize_REQUEST_policySession = policySession,
          TPM2_PolicyAuthorize_REQUEST_approvedPolicy = approvedPolicy,
          TPM2_PolicyAuthorize_REQUEST_policyRef = policyRef,
          TPM2_PolicyAuthorize_REQUEST_keySign = keySign,
          TPM2_PolicyAuthorize_REQUEST_checkTicket = checkTicket\<rparr>))
       (Resp_other ()))"

definition Tpm2_PolicyAuthValue ::
  "Openssl \<Rightarrow> 'd TpmDevice \<Rightarrow> TPM_HANDLE \<Rightarrow> ('d, unit) call" where
  "Tpm2_PolicyAuthValue ossl dev policySession =
     returning (the_resp id) (Dispatch ossl dev no_response TPM_CC_PolicyAuthValue
       (Req_other (TPM2_PolicyAuthValue_REQUEST_req
         \<lparr>TPM2_PolicyAuthValue_REQUEST_policySession = policySession\<rparr>))
       (Resp_other ()))"

definition Tpm2_PolicyPassword ::
  "Openssl \<Rightarrow> 'd TpmDevice \<Rightarrow> TPM_HANDLE \<Rightarrow> ('d, unit) call" where
  "Tpm2_PolicyPassword ossl dev policySession =
     returning (the_resp id) (Dispatch ossl dev no_response TPM_CC_PolicyPassword
       (Req_other (TPM2_PolicyPassword_REQUEST_req
         \<lparr>TPM2_PolicyPassword_REQUEST_policySession = policySession\<rparr>))
       (Resp_other ()))"

definition Tpm2_PolicyGetDigest ::
  "Openssl \<Rightarrow> 'd TpmDevice \<Rightarrow> TPM_HANDLE \<Rightarrow> ('d, ByteVec) call" where
  "Tpm2_PolicyGetDigest ossl dev policySession =
     returning (the_resp PolicyGetDigestResponse_policyDigest) (Dispatch ossl dev
       PolicyGetDigestResponse_resp TPM_CC_PolicyGetDigest
       (Req_other (TPM2_PolicyGetDigest_REQUEST_req
         \<lparr>TPM2_PolicyGetDigest_REQUEST_policySession = policySession\<rparr>))
       (Resp_other PolicyGetDigestResponse_default))"

definition Tpm2_PolicyNvWritten ::
  "Openssl \<Rightarrow> 'd TpmDevice \<Rightarrow> TPM_HANDLE \<Rightarrow> byte \<Rightarrow> ('d, unit) call" where
  "Tpm2_PolicyNvWritten ossl dev policySession writtenSet =
     returning (the_resp id) (Dispatch ossl dev no_response TPM_CC_PolicyNvWritten
       (Req_other (TPM2_PolicyNvWritten_REQUEST_req
         \<lparr>TPM2_PolicyNvWritten_REQUEST_policySession = policySession,
          TPM2_PolicyNvWritten_REQUEST_writtenSet = writtenSet\<rparr>))
       (Resp_other ()))"

definition Tpm2_PolicyTemplate ::
  "Openssl \<Rightarrow> 'd TpmDevice \<Rightarrow> TPM_HANDLE \<Rightarrow> ByteVec \<Rightarrow> ('d, unit) call" where
  "Tpm2_PolicyTemplate ossl dev policySession templateHash =
     returning (the_resp id) (Dispatch ossl dev no_response TPM_CC_PolicyTemplate
       (Req_other (TPM2_PolicyTemplate_REQUEST_req
         \<lparr>TPM2_PolicyTemplate_REQUEST_policySession = policySession,
          TPM2_PolicyTemplate_REQUEST_templateHash = templateHash\<rparr>))
       (Resp_other ()))"

definition Tpm2_PolicyAuthorizeNV ::
  "Openssl \<Rightarrow> 'd TpmDevice \<Rightarrow> TPM_HANDLE \<Rightarrow> TPM_HANDLE \<Rightarrow> TPM_HANDLE \<Rightarrow> ('d, unit) call" where
  "Tpm2_PolicyAuthorizeNV ossl dev authHandle nvIndex policySession =
     returning (the_resp id) (Dispatch ossl dev no_response TPM_CC_PolicyAuthorizeNV
       (Req_other (TPM2_PolicyAuthorizeNV_REQUEST_req
         \<lparr>TPM2_PolicyAuthorizeNV_REQUEST_authHandle = authHandle,
          TPM2_PolicyAuthorizeNV_REQUEST_nvIndex = nvIndex,
          TPM2_PolicyAuthorizeNV_REQUEST_policySession = policySession\<rparr>))
       (Resp_other ()))"

definition Tpm2_CreatePrimary ::
  "Openssl \<Rightarrow> 'd TpmDevice \<Rightarrow> TPM_HANDLE \<Rightarrow> TPMS_SENSITIVE_CREATE \<Rightarrow> TPMT_PUBLIC \<Rightarrow> ByteVec \<Rightarrow>
     TPMS_PCR_SELECTION list \<Rightarrow> ('d, CreatePrimaryResponse) call" where
  "Tpm2_CreatePrimary ossl dev primaryHandle inSensitive inPublic outsideInfo creationPCR =
     returning (\<lambda>resp. case resp of Resp_CreatePrimary r \<Rightarrow> Ok r | _ \<Rightarrow> Undef) (Dispatch ossl dev
       no_response TPM_CC_CreatePrimary
       (Req_other (TPM2_CreatePrimary_REQUEST_req
         \<lparr>TPM2_CreatePrimary_REQUEST_primaryHandle = primaryHandle,
          TPM2_CreatePrimary_REQUEST_inSensitive = inSensitive,
          TPM2_CreatePrimary_REQUEST_inPublic = inPublic,
          TPM2_CreatePrimary_REQUEST_outsideInfo = outsideInfo,
          TPM2_CreatePrimary_REQUEST_creationPCR = creationPCR\<rparr>))
       (Resp_CreatePrimary CreatePrimaryResponse_default))"

definition Tpm2_HierarchyControl ::
  "Openssl \<Rightarrow> 'd TpmDevice \<Rightarrow> TPM_HANDLE \<Rightarrow> TPM_HANDLE \<Rightarrow> byte \<Rightarrow> ('d, unit) call" where
  "Tpm2_HierarchyControl ossl dev authHandle enable state =
     returning (the_resp id) (Dispatch ossl dev no_response TPM_CC_HierarchyControl
       (Req_other (TPM2_HierarchyControl_REQUEST_req
         \<lparr>TPM2_HierarchyControl_REQUEST_authHandle = authHandle,
          TPM2_HierarchyControl_REQUEST_enable = enable, TPM2_HierarchyControl_REQUEST_state = state\<rparr>))
       (Resp_other ()))"

definition Tpm2_SetPrimaryPolicy ::
  "Openssl \<Rightarrow> 'd TpmDevice \<Rightarrow> TPM_HANDLE \<Rightarrow> ByteVec \<Rightarrow> TPM_ALG_ID \<Rightarrow> ('d, unit) call" where
  "Tpm2_SetPrimaryPolicy ossl dev authHandle authPolicy hashAlg =
     returning (the_resp id) (Dispatch ossl dev no_response TPM_CC_SetPrimaryPolicy
       (Req_other (TPM2_SetPrimaryPolicy_REQUEST_req
         \<lparr>TPM2_SetPrimaryPolicy_REQUEST_authHandle = authHandle,
          TPM2_SetPrimaryPolicy_REQUEST_authPolicy = authPolicy,
          TPM2_SetPrimaryPolicy_REQUEST_hashAlg = hashAlg\<rparr>))
       (Resp_other ()))"

definition Tpm2_ChangePPS ::
  "Openssl \<Rightarrow> 'd TpmDevice \<Rightarrow> TPM_HANDLE \<Rightarrow> ('d, unit) call" where
  "Tpm2_ChangePPS ossl dev authHandle =
     returning (the_resp id) (Dispatch ossl dev no_response TPM_CC_ChangePPS
       (Req_other (TPM2_ChangePPS_REQUEST_req
         \<lparr>TPM2_ChangePPS_REQUEST_authHandle = authHandle\<rparr>))
       (Resp_other ()))"

definition Tpm2_ChangeEPS ::
  "Openssl \<Rightarrow> 'd TpmDevice \<Rightarrow> TPM_HANDLE \<Rightarrow> ('d, unit) call" where
  "Tpm2_ChangeEPS ossl dev authHandle =
     returning (the_resp id) (Dispatch ossl dev no_response TPM_CC_ChangeEPS
       (Req_other (TPM2_ChangeEPS_REQUEST_req
         \<lparr>TPM2_ChangeEPS_REQUEST_authHandle = authHandle\<rparr>))
       (Resp_other ()))"

definition Tpm2_Clear ::
  "Openssl \<Rightarrow> 'd TpmDevice \<Rightarrow> TPM_HANDLE \<Rightarrow> ('d, unit) call" where
  "Tpm2_Clear ossl dev authHandle =
     returning (the_resp id) (Dispatch ossl dev no_response TPM_CC_Clear
       (Req_Clear
         \<lparr>TPM2_Clear_REQUEST_authHandle = authHandle\<rparr>)
       (Resp_other ()))"

definition Tpm2_ClearControl ::
  "Openssl \<Rightarrow> 'd TpmDevice \<Rightarrow> TPM_HANDLE \<Rightarrow> byte \<Rightarrow> ('d, unit) call" where
  "Tpm2_ClearControl ossl dev auth disable =
     returning (the_resp id) (Dispatch ossl dev no_response TPM_CC_ClearControl
       (Req_other (TPM2_ClearControl_REQUEST_req
         \<lparr>TPM2_ClearControl_REQUEST_auth = auth, TPM2_ClearControl_REQUEST_disable = disable\<rparr>))
       (Resp_other ()))"

definition Tpm2_HierarchyChangeAuth ::
  "Openssl \<Rightarrow> 'd TpmDevice \<Rightarrow> TPM_HANDLE \<Rightarrow> ByteVec \<Rightarrow> ('d, unit) call" where
  "Tpm2_HierarchyChangeAuth ossl dev authHandle newAuth =
     returning (the_resp id) (Dispatch ossl dev no_response TPM_CC_HierarchyChangeAuth
       (Req_HierarchyChangeAuth
         \<lparr>TPM2_HierarchyChangeAuth_REQUEST_authHandle = authHandle,
          TPM2_HierarchyChangeAuth_REQUEST_newAuth = newAuth\<rparr>)
       (Resp_other ()))"

definition Tpm2_DictionaryAttackLockReset ::
  "Openssl \<Rightarrow> 'd TpmDevice \<Rightarrow> TPM_HANDLE \<Rightarrow> ('d, unit) call" where
  "Tpm2_DictionaryAttackLockReset ossl dev lockHandle =
     returning (the_resp id) (Dispatch ossl dev no_response TPM_CC_DictionaryAttackLockReset
       (Req_other (TPM2_DictionaryAttackLockReset_REQUEST_req
         \<lparr>TPM2_DictionaryAttackLockReset_REQUEST_lockHandle = lockHandle\<rparr>))
       (Resp_other ()))"

definition Tpm2_DictionaryAttackParameters ::
  "Openssl \<Rightarrow> 'd TpmDevice \<Rightarrow> TPM_HANDLE \<Rightarrow> UINT32 \<Rightarrow> UINT32 \<Rightarrow> UINT32 \<Rightarrow> ('d, unit) call" where
  "Tpm2_DictionaryAttackParameters ossl dev lockHandle newMaxTries newRecoveryTime lockoutRecovery =
     returning (the_resp id) (Dispatch ossl dev no_response TPM_CC_DictionaryAttackParameters
       (Req_other (TPM2_DictionaryAttackParameters_REQUEST_req
         \<lparr>TPM2_DictionaryAttackParameters_REQUEST_lockHandle = lockHandle,
          TPM2_DictionaryAttackParameters_REQUEST_newMaxTries = newMaxTries,
          TPM2_DictionaryAttackParameters_REQUEST_newRecoveryTime = newRecoveryTime,
          TPM2_DictionaryAttackParameters_REQUEST_lockoutRecovery = lockoutRecovery\<rparr>))
       (Resp_other ()))"

definition Tpm2_PP_Commands ::
  "Openssl \<Rightarrow> 'd TpmDevice \<Rightarrow> TPM_HANDLE \<Rightarrow> TPM_CC list \<Rightarrow> TPM_CC list \<Rightarrow> ('d, unit) call" where
  "Tpm2_PP_Commands ossl dev auth setList clearList =
     returning (the_resp id) (Dispatch ossl dev no_response TPM_CC_PP_Commands
       (Req_other (TPM2_PP_Commands_REQUEST_req
         \<lparr>TPM2_PP_Commands_REQUEST_auth = auth, TPM2_PP_Commands_REQUEST_setList = setList,
          TPM2_PP_Commands_REQUEST_clearList = clearList\<rparr>))
       (Resp_other ()))"

definition Tpm2_SetAlgorithmSet ::
  "Openssl \<Rightarrow> 'd TpmDevice \<Rightarrow> TPM_HANDLE \<Rightarrow> UINT32 \<Rightarrow> ('d, unit) call" where
  "Tpm2_SetAlgorithmSet ossl dev authHandle algorithmSet =
     returning (the_resp id) (Dispatch ossl dev no_response TPM_CC_SetAlgorithmSet
       (Req_other (TPM2_SetAlgorithmSet_REQUEST_req
         \<lparr>TPM2_SetAlgorithmSet_REQUEST_authHandle = authHandle,
          TPM2_SetAlgorithmSet_REQUEST_algorithmSet = algorithmSet\<rparr>))
       (Resp_other ()))"

definition Tpm2_FieldUpgradeStart ::
  "Openssl \<Rightarrow> 'd TpmDevice \<Rightarrow> TPM_HANDLE \<Rightarrow> TPM_HANDLE \<Rightarrow> ByteVec \<Rightarrow> TPMU_SIGNATURE \<Rightarrow> ('d, unit) call" where
  "Tpm2_FieldUpgradeStart ossl dev authorization keyHandle fuDigest manifestSignature =
     returning (the_resp id) (Dispatch ossl dev no_response TPM_CC_FieldUpgradeStart
       (Req_other (TPM2_FieldUpgradeStart_REQUEST_req
         \<lparr>TPM2_FieldUpgradeStart_REQUEST_authorization = authorization,
          TPM2_FieldUpgradeStart_REQUEST_keyHandle = keyHandle,
          TPM2_FieldUpgradeStart_REQUEST_fuDigest = fuDigest,
          TPM2_FieldUpgradeStart_REQUEST_manifestSignature = Some manifestSignature\<rparr>))
       (Resp_other ()))"

definition Tpm2_FieldUpgradeData ::
  "Openssl \<Rightarrow> 'd TpmDevice \<Rightarrow> ByteVec \<Rightarrow> ('d, FieldUpgradeDataResponse) call" where
  "Tpm2_FieldUpgradeData ossl dev fuData =
     returning (the_resp id) (Dispatch ossl dev FieldUpgradeDataResponse_resp TPM_CC_FieldUpgradeData
       (Req_other (TPM2_FieldUpgradeData_REQUEST_req
         \<lparr>TPM2_FieldUpgradeData_REQUEST_fuData = fuData\<rparr>))
       (Resp_other FieldUpgradeDataResponse_default))"

definition Tpm2_FirmwareRead ::
  "Openssl \<Rightarrow> 'd TpmDevice \<Rightarrow> UINT32 \<Rightarrow> ('d, ByteVec) call" where
  "Tpm2_FirmwareRead ossl dev sequenceNumber =
     returning (the_resp FirmwareReadResponse_fuData) (Dispatch ossl dev FirmwareReadResponse_resp
       TPM_CC_FirmwareRead
       (Req_other (TPM2_FirmwareRead_REQUEST_req
         \<lparr>TPM2_FirmwareRead_REQUEST_sequenceNumber = sequenceNumber\<rparr>))
       (Resp_other FirmwareReadResponse_default))"

definition Tpm2_ContextSave ::
  "Openssl \<Rightarrow> 'd TpmDevice \<Rightarrow> TPM_HANDLE \<Rightarrow> ('d, TPMS_CONTEXT) call" where
  "Tpm2_ContextSave ossl dev saveHandle =
     returning (the_resp ContextSaveResponse_context) (Dispatch ossl dev ContextSaveResponse_resp
       TPM_CC_ContextSave
       (Req_other (TPM2_ContextSave_REQUEST_req
         \<lparr>TPM2_ContextSave_REQUEST_saveHandle = saveHandle\<rparr>))
       (Resp_other ContextSaveResponse_default))"

definition Tpm2_ContextLoad ::
  "Openssl \<Rightarrow> 'd TpmDevice \<Rightarrow> TPMS_CONTEXT \<Rightarrow> ('d, TPM_HANDLE) call" where
  "Tpm2_ContextLoad ossl dev context =
     returning (the_resp ContextLoadResponse_handle) (Dispatch ossl dev ContextLoadResponse_resp
       TPM_CC_ContextLoad
       (Req_other (TPM2_ContextLoad_REQUEST_req
         \<lparr>TPM2_ContextLoad_REQUEST_context = context\<rparr>))
       (Resp_other ContextLoadResponse_default))"

definition Tpm2_FlushContext ::
  "Openssl \<Rightarrow> 'd TpmDevice \<Rightarrow> TPM_HANDLE \<Rightarrow> ('d, unit) call" where
  "Tpm2_FlushContext ossl dev flushHandle =
     returning (the_resp id) (Dispatch ossl dev no_response TPM_CC_FlushContext
       (Req_other (TPM2_FlushContext_REQUEST_req
         \<lparr>TPM2_FlushContext_REQUEST_flushHandle = flushHandle\<rparr>))
       (Resp_other ()))"

definition Tpm2_EvictControl ::
  "Openssl \<Rightarrow> 'd TpmDevice \<Rightarrow> TPM_HANDLE \<Rightarrow> TPM_HANDLE \<Rightarrow> TPM_HANDLE \<Rightarrow> ('d, unit) call" where
  "Tpm2_EvictControl ossl dev auth objectHandle persistentHandle =
     returning (the_resp id) (Dispatch ossl dev no_response TPM_CC_EvictControl
       (Req_EvictControl
         \<lparr>TPM2_EvictControl_REQUEST_auth = auth, TPM2_EvictControl_REQUEST_objectHandle = objectHandle,
          TPM2_EvictControl_REQUEST_persistentHandle = persistentHandle\<rparr>)
       (Resp_other ()))"

definition Tpm2_ReadClock ::
  "Openssl \<Rightarrow> 'd TpmDevice \<Rightarrow> ('d, TPMS_TIME_INFO) call" where
  "Tpm2_ReadClock ossl dev =
     returning (the_resp ReadClockResponse_currentTime) (Dispatch ossl dev ReadClockResponse_resp
       TPM_CC_ReadClock
       (Req_other empty_req)
       (Resp_other ReadClockResponse_default))"

definition Tpm2_ClockSet ::
  "Openssl \<Rightarrow> 'd TpmDevice \<Rightarrow> TPM_HANDLE \<Rightarrow> UINT64 \<Rightarrow> ('d, unit) call" where
  "Tpm2_ClockSet ossl dev auth newTime =
     returning (the_resp id) (Dispatch ossl dev no_response TPM_CC_ClockSet
       (Req_other (TPM2_ClockSet_REQUEST_req
         \<lparr>TPM2_ClockSet_REQUEST_auth = auth, TPM2_ClockSet_REQUEST_newTime = newTime\<rparr>))
       (Resp_other ()))"

definition Tpm2_ClockRateAdjust ::
  "Openssl \<Rightarrow> 'd TpmDevice \<Rightarrow> TPM_HANDLE \<Rightarrow> TPM_CLOCK_ADJUST \<Rightarrow> ('d, unit) call" where
  "Tpm2_ClockRateAdjust ossl dev auth rateAdjust =
     returning (the_resp id) (Dispatch ossl dev no_response TPM_CC_ClockRateAdjust
       (Req_other (TPM2_ClockRateAdjust_REQUEST_req
         \<lparr>TPM2_ClockRateAdjust_REQUEST_auth = auth, TPM2_ClockRateAdjust_REQUEST_rateAdjust =
           rateAdjust\<rparr>))
       (Resp_other ()))"

definition Tpm2_GetCapability ::
  "Openssl \<Rightarrow> 'd TpmDevice \<Rightarrow> TPM_CAP \<Rightarrow> UINT32 \<Rightarrow> UINT32 \<Rightarrow> ('d, GetCapabilityResponse) call" where
  "Tpm2_GetCapability ossl dev capability property propertyCount =
     returning (the_resp id) (Dispatch ossl dev GetCapabilityResponse_resp TPM_CC_GetCapability
       (Req_other (TPM2_GetCapability_REQUEST_req
         \<lparr>TPM2_GetCapability_REQUEST_capability = capability,
          TPM2_GetCapability_REQUEST_property = property,
          TPM2_GetCapability_REQUEST_propertyCount = propertyCount\<rparr>))
       (Resp_other GetCapabilityResponse_default))"

definition Tpm2_TestParms ::
  "Openssl \<Rightarrow> 'd TpmDevice \<Rightarrow> TPMU_PUBLIC_PARMS \<Rightarrow> ('d, unit) call" where
  "Tpm2_TestParms ossl dev parameters =
     returning (the_resp id) (Dispatch ossl dev no_response TPM_CC_TestParms
       (Req_other (TPM2_TestParms_REQUEST_req
         \<lparr>TPM2_TestParms_REQUEST_parameters = Some parameters\<rparr>))
       (Resp_other ()))"

definition Tpm2_NV_DefineSpace ::
  "Openssl \<Rightarrow> 'd TpmDevice \<Rightarrow> TPM_HANDLE \<Rightarrow> ByteVec \<Rightarrow> TPMS_NV_PUBLIC \<Rightarrow> ('d, unit) call" where
  "Tpm2_NV_DefineSpace ossl dev authHandle auth publicInfo =
     returning (the_resp id) (Dispatch ossl dev no_response TPM_CC_NV_DefineSpace
       (Req_other (TPM2_NV_DefineSpace_REQUEST_req
         \<lparr>TPM2_NV_DefineSpace_REQUEST_authHandle = authHandle, TPM2_NV_DefineSpace_REQUEST_auth = auth,
          TPM2_NV_DefineSpace_REQUEST_publicInfo = publicInfo\<rparr>))
       (Resp_other ()))"

definition Tpm2_NV_UndefineSpace ::
  "Openssl \<Rightarrow> 'd TpmDevice \<Rightarrow> TPM_HANDLE \<Rightarrow> TPM_HANDLE \<Rightarrow> ('d, unit) call" where
  "Tpm2_NV_UndefineSpace ossl dev authHandle nvIndex =
     returning (the_resp id) (Dispatch ossl dev no_response TPM_CC_NV_UndefineSpace
       (Req_other (TPM2_NV_UndefineSpace_REQUEST_req
         \<lparr>TPM2_NV_UndefineSpace_REQUEST_authHandle = authHandle,
          TPM2_NV_UndefineSpace_REQUEST_nvIndex = nvIndex\<rparr>))
       (Resp_other ()))"

definition Tpm2_NV_UndefineSpaceSpecial ::
  "Openssl \<Rightarrow> 'd TpmDevice \<Rightarrow> TPM_HANDLE \<Rightarrow> TPM_HANDLE \<Rightarrow> ('d, unit) call" where
  "Tpm2_NV_UndefineSpaceSpecial ossl dev nvIndex platform =
     returning (the_resp id) (Dispatch ossl dev no_response TPM_CC_NV_UndefineSpaceSpecial
       (Req_other (TPM2_NV_UndefineSpaceSpecial_REQUEST_req
         \<lparr>TPM2_NV_UndefineSpaceSpecial_REQUEST_nvIndex = nvIndex,
          TPM2_NV_UndefineSpaceSpecial_REQUEST_platform = platform\<rparr>))
       (Resp_other ()))"

definition Tpm2_NV_ReadPublic ::
  "Openssl \<Rightarrow> 'd TpmDevice \<Rightarrow> TPM_HANDLE \<Rightarrow> ('d, NV_ReadPublicResponse) call" where
  "Tpm2_NV_ReadPublic ossl dev nvIndex =
     returning (the_resp id) (Dispatch ossl dev NV_ReadPublicResponse_resp TPM_CC_NV_ReadPublic
       (Req_other (TPM2_NV_ReadPublic_REQUEST_req
         \<lparr>TPM2_NV_ReadPublic_REQUEST_nvIndex = nvIndex\<rparr>))
       (Resp_other NV_ReadPublicResponse_default))"

definition Tpm2_NV_Write ::
  "Openssl \<Rightarrow> 'd TpmDevice \<Rightarrow> TPM_HANDLE \<Rightarrow> TPM_HANDLE \<Rightarrow> ByteVec \<Rightarrow> UINT16 \<Rightarrow> ('d, unit) call" where
  "Tpm2_NV_Write ossl dev authHandle nvIndex data offset =
     returning (the_resp id) (Dispatch ossl dev no_response TPM_CC_NV_Write
       (Req_other (TPM2_NV_Write_REQUEST_req
         \<lparr>TPM2_NV_Write_REQUEST_authHandle = authHandle, TPM2_NV_Write_REQUEST_nvIndex = nvIndex,
          TPM2_NV_Write_REQUEST_data = data, TPM2_NV_Write_REQUEST_offset = offset\<rparr>))
       (Resp_other ()))"

definition Tpm2_NV_Increment ::
  "Openssl \<Rightarrow> 'd TpmDevice \<Rightarrow> TPM_HANDLE \<Rightarrow> TPM_HANDLE \<Rightarrow> ('d, unit) call" where
  "Tpm2_NV_Increment ossl dev authHandle nvIndex =
     returning (the_resp id) (Dispatch ossl dev no_response TPM_CC_NV_Increment
       (Req_other (TPM2_NV_Increment_REQUEST_req
         \<lparr>TPM2_NV_Increment_REQUEST_authHandle = authHandle, TPM2_NV_Increment_REQUEST_nvIndex =
           nvIndex\<rparr>))
       (Resp_other ()))"

definition Tpm2_NV_Extend ::
  "Openssl \<Rightarrow> 'd TpmDevice \<Rightarrow> TPM_HANDLE \<Rightarrow> TPM_HANDLE \<Rightarrow> ByteVec \<Rightarrow> ('d, unit) call" where
  "Tpm2_NV_Extend ossl dev authHandle nvIndex data =
     returning (the_resp id) (Dispatch ossl dev no_response TPM_CC_NV_Extend
       (Req_other (TPM2_NV_Extend_REQUEST_req
         \<lparr>TPM2_NV_Extend_REQUEST_authHandle = authHandle, TPM2_NV_Extend_REQUEST_nvIndex = nvIndex,
          TPM2_NV_Extend_REQUEST_data = data\<rparr>))
       (Resp_other ()))"

definition Tpm2_NV_SetBits ::
  "Openssl \<Rightarrow> 'd TpmDevice \<Rightarrow> TPM_HANDLE \<Rightarrow> TPM_HANDLE \<Rightarrow> UINT64 \<Rightarrow> ('d, unit) call" where
  "Tpm2_NV_SetBits ossl dev authHandle nvIndex bits =
     returning (the_resp id) (Dispatch ossl dev no_response TPM_CC_NV_SetBits
       (Req_other (TPM2_NV_SetBits_REQUEST_req
         \<lparr>TPM2_NV_SetBits_REQUEST_authHandle = authHandle, TPM2_NV_SetBits_REQUEST_nvIndex = nvIndex,
          TPM2_NV_SetBits_REQUEST_bits = bits\<rparr>))
       (Resp_other ()))"

definition Tpm2_NV_WriteLock ::
  "Openssl \<Rightarrow> 'd TpmDevice \<Rightarrow> TPM_HANDLE \<Rightarrow> TPM_HANDLE \<Rightarrow> ('d, unit) call" where
  "Tpm2_NV_WriteLock ossl dev authHandle nvIndex =
     returning (the_resp id) (Dispatch ossl dev no_response TPM_CC_NV_WriteLock
       (Req_other (TPM2_NV_WriteLock_REQUEST_req
         \<lparr>TPM2_NV_WriteLock_REQUEST_authHandle = authHandle, TPM2_NV_WriteLock_REQUEST_nvIndex =
           nvIndex\<rparr>))
       (Resp_other ()))"

definition Tpm2_NV_GlobalWriteLock ::
  "Openssl \<Rightarrow> 'd TpmDevice \<Rightarrow> TPM_HANDLE \<Rightarrow> ('d, unit) call" where
  "Tpm2_NV_GlobalWriteLock ossl dev authHandle =
     returning (the_resp id) (Dispatch ossl dev no_response TPM_CC_NV_GlobalWriteLock
       (Req_other (TPM2_NV_GlobalWriteLock_REQUEST_req
         \<lparr>TPM2_NV_GlobalWriteLock_REQUEST_authHandle = authHandle\<rparr>))
       (Resp_other ()))"

definition Tpm2_NV_Read ::
  "Openssl \<Rightarrow> 'd TpmDevice \<Rightarrow> TPM_HANDLE \<Rightarrow> TPM_HANDLE \<Rightarrow> UINT16 \<Rightarrow> UINT16 \<Rightarrow> ('d, ByteVec) call" where
  "Tpm2_NV_Read ossl dev authHandle nvIndex sizeVal offset =
     returning (the_resp NV_ReadResponse_data) (Dispatch ossl dev NV_ReadResponse_resp TPM_CC_NV_Read
       (Req_other (TPM2_NV_Read_REQUEST_req
         \<lparr>TPM2_NV_Read_REQUEST_authHandle = authHandle, TPM2_NV_Read_REQUEST_nvIndex = nvIndex,
          TPM2_NV_Read_REQUEST_size = sizeVal, TPM2_NV_Read_REQUEST_offset = offset\<rparr>))
       (Resp_other NV_ReadResponse_default))"

definition Tpm2_NV_ReadLock ::
  "Openssl \<Rightarrow> 'd TpmDevice \<Rightarrow> TPM_HANDLE \<Rightarrow> TPM_HANDLE \<Rightarrow> ('d, unit) call" where
  "Tpm2_NV_ReadLock ossl dev authHandle nvIndex =
     returning (the_resp id) (Dispatch ossl dev no_response TPM_CC_NV_ReadLock
       (Req_other (TPM2_NV_ReadLock_REQUEST_req
         \<lparr>TPM2_NV_ReadLock_REQUEST_authHandle = authHandle, TPM2_NV_ReadLock_REQUEST_nvIndex =
           nvIndex\<rparr>))
       (Resp_other ()))"

definition Tpm2_NV_ChangeAuth ::
  "Openssl \<Rightarrow> 'd TpmDevice \<Rightarrow> TPM_HANDLE \<Rightarrow> ByteVec \<Rightarrow> ('d, unit) call" where
  "Tpm2_NV_ChangeAuth ossl dev nvIndex newAuth =
     returning (the_resp id) (Dispatch ossl dev no_response TPM_CC_NV_ChangeAuth
       (Req_NV_ChangeAuth
         \<lparr>TPM2_NV_ChangeAuth_REQUEST_nvIndex = nvIndex, TPM2_NV_ChangeAuth_REQUEST_newAuth = newAuth\<rparr>)
       (Resp_other ()))"

definition Tpm2_NV_Certify ::
  "Openssl \<Rightarrow> 'd TpmDevice \<Rightarrow> TPM_HANDLE \<Rightarrow> TPM_HANDLE \<Rightarrow> TPM_HANDLE \<Rightarrow> ByteVec \<Rightarrow> TPMU_SIG_SCHEME \<Rightarrow>
     UINT16 \<Rightarrow> UINT16 \<Rightarrow> ('d, NV_CertifyResponse) call" where
  "Tpm2_NV_Certify ossl dev signHandle authHandle nvIndex qualifyingData inScheme sizeVal offset =
     returning (the_resp id) (Dispatch ossl dev NV_CertifyResponse_resp TPM_CC_NV_Certify
       (Req_other (TPM2_NV_Certify_REQUEST_req
         \<lparr>TPM2_NV_Certify_REQUEST_signHandle = signHandle,
          TPM2_NV_Certify_REQUEST_authHandle = authHandle, TPM2_NV_Certify_REQUEST_nvIndex = nvIndex,
          TPM2_NV_Certify_REQUEST_qualifyingData = qualifyingData,
          TPM2_NV_Certify_REQUEST_inScheme = Some inScheme, TPM2_NV_Certify_REQUEST_size = sizeVal,
          TPM2_NV_Certify_REQUEST_offset = offset\<rparr>))
       (Resp_other NV_CertifyResponse_default))"

definition Tpm2_AC_GetCapability ::
  "Openssl \<Rightarrow> 'd TpmDevice \<Rightarrow> TPM_HANDLE \<Rightarrow> TPM_AT \<Rightarrow> UINT32 \<Rightarrow> ('d, AC_GetCapabilityResponse) call" where
  "Tpm2_AC_GetCapability ossl dev ac capability count =
     returning (the_resp id) (Dispatch ossl dev AC_GetCapabilityResponse_resp TPM_CC_AC_GetCapability
       (Req_other (TPM2_AC_GetCapability_REQUEST_req
         \<lparr>TPM2_AC_GetCapability_REQUEST_ac = ac, TPM2_AC_GetCapability_REQUEST_capability = capability,
          TPM2_AC_GetCapability_REQUEST_count = count\<rparr>))
       (Resp_other AC_GetCapabilityResponse_default))"

definition Tpm2_AC_Send ::
  "Openssl \<Rightarrow> 'd TpmDevice \<Rightarrow> TPM_HANDLE \<Rightarrow> TPM_HANDLE \<Rightarrow> TPM_HANDLE \<Rightarrow> ByteVec \<Rightarrow>
     ('d, TPMS_AC_OUTPUT) call" where
  "Tpm2_AC_Send ossl dev sendObject authHandle ac acDataIn =
     returning (the_resp AC_SendResponse_acDataOut) (Dispatch ossl dev AC_SendResponse_resp
       TPM_CC_AC_Send
       (Req_other (TPM2_AC_Send_REQUEST_req
         \<lparr>TPM2_AC_Send_REQUEST_sendObject = sendObject, TPM2_AC_Send_REQUEST_authHandle = authHandle,
          TPM2_AC_Send_REQUEST_ac = ac, TPM2_AC_Send_REQUEST_acDataIn = acDataIn\<rparr>))
       (Resp_other AC_SendResponse_default))"

definition Tpm2_Policy_AC_SendSelect ::
  "Openssl \<Rightarrow> 'd TpmDevice \<Rightarrow> TPM_HANDLE \<Rightarrow> ByteVec \<Rightarrow> ByteVec \<Rightarrow> ByteVec \<Rightarrow> byte \<Rightarrow> ('d, unit) call" where
  "Tpm2_Policy_AC_SendSelect ossl dev policySession objectName authHandleName acName includeObject =
     returning (the_resp id) (Dispatch ossl dev no_response TPM_CC_Policy_AC_SendSelect
       (Req_other (TPM2_Policy_AC_SendSelect_REQUEST_req
         \<lparr>TPM2_Policy_AC_SendSelect_REQUEST_policySession = policySession,
          TPM2_Policy_AC_SendSelect_REQUEST_objectName = objectName,
          TPM2_Policy_AC_SendSelect_REQUEST_authHandleName = authHandleName,
          TPM2_Policy_AC_SendSelect_REQUEST_acName = acName,
          TPM2_Policy_AC_SendSelect_REQUEST_includeObject = includeObject\<rparr>))
       (Resp_other ()))"

definition Tpm2_ACT_SetTimeout ::
  "Openssl \<Rightarrow> 'd TpmDevice \<Rightarrow> TPM_HANDLE \<Rightarrow> UINT32 \<Rightarrow> ('d, unit) call" where
  "Tpm2_ACT_SetTimeout ossl dev actHandle startTimeout =
     returning (the_resp id) (Dispatch ossl dev no_response TPM_CC_ACT_SetTimeout
       (Req_other (TPM2_ACT_SetTimeout_REQUEST_req
         \<lparr>TPM2_ACT_SetTimeout_REQUEST_actHandle = actHandle,
          TPM2_ACT_SetTimeout_REQUEST_startTimeout = startTimeout\<rparr>))
       (Resp_other ()))"

definition Tpm2_Vendor_TCG_Test ::
  "Openssl \<Rightarrow> 'd TpmDevice \<Rightarrow> ByteVec \<Rightarrow> ('d, ByteVec) call" where
  "Tpm2_Vendor_TCG_Test ossl dev inputData =
     returning (the_resp Vendor_TCG_TestResponse_outputData) (Dispatch ossl dev
       Vendor_TCG_TestResponse_resp TPM_CC_Vendor_TCG_Test
       (Req_other (TPM2_Vendor_TCG_Test_REQUEST_req
         \<lparr>TPM2_Vendor_TCG_Test_REQUEST_inputData = inputData\<rparr>))
       (Resp_other Vendor_TCG_TestResponse_default))"

end
