(* ===== verification/PolicyExecute.thy ===== *)
theory PolicyExecute
  imports TpmPolicy Tpm2MethodsMore Tpm2Methods
begin

unbundle bit_operations_syntax

text \<open>
  \<^verbatim>\<open>TSS.CPP/Src/TpmPolicy.cpp\<close>: the execution of a policy on a TPM, by the methods of \<open>Tpm2\<close> on a policy
  session, and \<open>Crypto::Sign\<close>, by which a signed assertion can be satisfied in software.
\<close>

section \<open>Sequences of commands\<close>

text \<open>A command may not return (\<open>None\<close>); then nothing after it happens.\<close>

definition cret :: "'a \<Rightarrow> ('d, 'a) call" where
  "cret x t = Some (Ok x, t)"

definition cbind :: "('d, 'a) call \<Rightarrow> ('a \<Rightarrow> ('d, 'b) call) \<Rightarrow> ('d, 'b) call" where
  "cbind m f t = (case m t of
       None \<Rightarrow> None
     | Some (Ok x, t) \<Rightarrow> f x t
     | Some (Throw e, t) \<Rightarrow> Some (Throw e, t)
     | Some (AssertFailed, t) \<Rightarrow> Some (AssertFailed, t)
     | Some (Undef, t) \<Rightarrow> Some (Undef, t))"

definition clift :: "'a outcome \<Rightarrow> ('d, 'a) call" where
  "clift r t = Some (r, t)"

text \<open>\<open>*p.Session\<close>, the session at an address, and a call that changes it.\<close>

definition with_session :: "addr \<Rightarrow> (AUTH_SESSION \<Rightarrow> ('d, 'a) call) \<Rightarrow> ('d, 'a) call" where
  "with_session a f t = f (tp_sess t a) t"

definition change_session :: "addr \<Rightarrow> (AUTH_SESSION \<Rightarrow> AUTH_SESSION) \<Rightarrow> ('d, unit) call" where
  "change_session a f t = Some (Ok (), t\<lparr>tp_sess := (tp_sess t)(a := f (tp_sess t a))\<rparr>)"

definition AllowErrors :: "('d, unit) call" where
  "AllowErrors t = Some (Ok (), t\<lparr>tp_AllowErrors := True\<rparr>)"

definition GetLastResponseCode :: "('d, TPM_RC) call" where
  "GetLastResponseCode t = Some (Ok (tp_LastResponseCode t), t)"

section \<open>Signing in software\<close>

text \<open>
  \<open>rsa_sign\<close> stands for the RSA arithmetic of OpenSSL: a signature over a digest, from the modulus and one prime; \<open>None\<close>
  when a step of it fails, which is asserted not to happen.
\<close>

type_synonym rsa_sign = "TPM_ALG_ID \<Rightarrow> ByteVec \<Rightarrow> ByteVec \<Rightarrow> ByteVec \<Rightarrow> ByteVec option"

definition Crypto_Sign ::
  "Openssl \<Rightarrow> rsa_sign \<Rightarrow> TSS_KEY \<Rightarrow> ByteVec \<Rightarrow> TPMU_SIG_SCHEME \<Rightarrow> SignResponse outcome" where
  "Crypto_Sign ossl rsa_sign key toSign explicitScheme =
     (let pubKey = TSS_KEY_publicPart key; priv = TSS_KEY_privatePart key in
      obind (oderef (TPMT_PUBLIC_parameters pubKey)) (\<lambda>u.
        case as_rsa_parms u of
          None \<Rightarrow> Throw (domain_error ''Only RSA signing is supported'')
        | Some rsaParms \<Rightarrow> obind (oderef (TPMT_PUBLIC_unique pubKey)) (\<lambda>unique.
            obind (oderef (TPMS_RSA_PARMS_scheme rsaParms)) (\<lambda>own.
            let schemeAlg = TPMU_ASYM_SCHEME_GetUnionSelector own;
                expSchemeAlg = TPMU_SIG_SCHEME_GetUnionSelector explicitScheme in
            obind (if schemeAlg = TPM_ALG_ID_NULL
                   then (if expSchemeAlg = TPM_ALG_ID_NULL
                         then Throw (domain_error ''Crypto::Sign: No signing scheme specified'')
                         else if expSchemeAlg \<noteq> TPM_ALG_ID_RSASSA
                         then Throw (domain_error ''Crypto::Sign: Only RSASSA is supported'')
                         else (case explicitScheme of SIG_SCHEME_TPMS_SIG_SCHEME_RSASSA s \<Rightarrow> Ok s | _ \<Rightarrow> Undef))
                   else if expSchemeAlg \<noteq> TPM_ALG_ID_NULL
                   then Throw (domain_error
                     ''Crypto::Sign: Non-default scheme can only be used for a key with no scheme of its own'')
                   else (case own of ASYM_SCHEME_TPMS_SIG_SCHEME_RSASSA s \<Rightarrow> Ok s | _ \<Rightarrow> Undef)) (\<lambda>scheme.
              case unique of
                PUBLIC_ID_TPM2B_PUBLIC_KEY_RSA k \<Rightarrow>
                  let modulus = TPM2B_PUBLIC_KEY_RSA_buffer k; hashAlg = TPMS_SCHEME_HASH_hashAlg scheme in
                  if modulus = [] \<or> priv = [] \<or> toSign = [] then Undef
                  else obind (TpmAlgIdToNid ossl hashAlg) (\<lambda>nid.
                    case rsa_sign nid toSign modulus priv of
                      None \<Rightarrow> AssertFailed
                    | Some sig \<Rightarrow> Ok \<lparr>SignResponse_signature = Some (SIGNATURE_TPMS_SIGNATURE_RSASSA
                        \<lparr>TPMS_SIGNATURE_RSA_hash = hashAlg, TPMS_SIGNATURE_RSA_sig = sig\<rparr>)\<rparr>)
              | _ \<Rightarrow> Undef)))))"

definition TSS_KEY_Sign ::
  "Openssl \<Rightarrow> rsa_sign \<Rightarrow> TSS_KEY \<Rightarrow> ByteVec \<Rightarrow> TPMU_SIG_SCHEME \<Rightarrow> SignResponse outcome" where
  "TSS_KEY_Sign ossl rsa_sign key dataToSign nonDefaultScheme =
     Crypto_Sign ossl rsa_sign key dataToSign nonDefaultScheme"

section \<open>Executing an assertion\<close>

text \<open>What a policy tree refers to while it is executed: the two callbacks, if they were set, and OpenSSL.\<close>

record PolicyEnv =
  theNvCallback :: "(string \<Rightarrow> TPM_HANDLE \<times> TPM_HANDLE) option"
  theSignCallback :: "(ByteVec \<Rightarrow> UINT32 \<Rightarrow> ByteVec \<Rightarrow> ByteVec \<Rightarrow> string \<Rightarrow> SignResponse) option"
  pe_ossl :: Openssl
  pe_rsa_sign :: rsa_sign

definition PolicyLocality_Execute ::
  "PolicyEnv \<Rightarrow> 'd TpmDevice \<Rightarrow> addr \<Rightarrow> TPMA_LOCALITY \<Rightarrow> ('d, unit) call" where
  "PolicyLocality_Execute p tpm a Locality =
     with_session a (\<lambda>s. Tpm2_PolicyLocality (pe_ossl p) tpm (as_handle s) Locality)"

definition PolicyPhysicalPresence_Execute ::
  "PolicyEnv \<Rightarrow> 'd TpmDevice \<Rightarrow> addr \<Rightarrow> ('d, unit) call" where
  "PolicyPhysicalPresence_Execute p tpm a =
     with_session a (\<lambda>s. Tpm2_PolicyPhysicalPresence (pe_ossl p) tpm (as_handle s))"

definition PolicyOr_Execute ::
  "PolicyEnv \<Rightarrow> 'd TpmDevice \<Rightarrow> addr \<Rightarrow> PABase list list \<Rightarrow> ('d, unit) call" where
  "PolicyOr_Execute p tpm a Branches = with_session a (\<lambda>s.
     let hashAlg = as_HashAlg s in
     cbind (clift (foldr (\<lambda>b r. obind (GetPolicyDigest (pe_ossl p) b hashAlg) (\<lambda>d. obind r (\<lambda>ds.
         Ok (\<lparr>TPM2B_DIGEST_buffer = TPMT_HA_digest d\<rparr> # ds)))) Branches (Ok []))) (\<lambda>hashList.
     Tpm2_PolicyOR (pe_ossl p) tpm (as_handle s) hashList))"

definition PolicyPcr_Execute ::
  "PolicyEnv \<Rightarrow> 'd TpmDevice \<Rightarrow> addr \<Rightarrow> TPM2B_DIGEST list \<Rightarrow> TPMS_PCR_SELECTION list \<Rightarrow> ('d, unit) call" where
  "PolicyPcr_Execute p tpm a PcrValues Pcrs = with_session a (\<lambda>s.
     cbind (clift (HashPcrs (pe_ossl p) (as_HashAlg s) (map TPM2B_DIGEST_buffer PcrValues))) (\<lambda>d.
     Tpm2_PolicyPCR (pe_ossl p) tpm (as_handle s) d Pcrs))"

definition PolicyCommandCode_Execute ::
  "PolicyEnv \<Rightarrow> 'd TpmDevice \<Rightarrow> addr \<Rightarrow> TPM_CC \<Rightarrow> ('d, unit) call" where
  "PolicyCommandCode_Execute p tpm a CommandCode =
     with_session a (\<lambda>s. Tpm2_PolicyCommandCode (pe_ossl p) tpm (as_handle s) CommandCode)"

definition PolicyCpHash_Execute ::
  "PolicyEnv \<Rightarrow> 'd TpmDevice \<Rightarrow> addr \<Rightarrow> ByteVec \<Rightarrow> ('d, unit) call" where
  "PolicyCpHash_Execute p tpm a CpHash =
     with_session a (\<lambda>s. Tpm2_PolicyCpHash (pe_ossl p) tpm (as_handle s) CpHash)"

definition PolicyCounterTimer_Execute ::
  "PolicyEnv \<Rightarrow> 'd TpmDevice \<Rightarrow> addr \<Rightarrow> ByteVec \<Rightarrow> UINT16 \<Rightarrow> TPM_EO \<Rightarrow> ('d, unit) call" where
  "PolicyCounterTimer_Execute p tpm a OperandB Offset Operation =
     with_session a (\<lambda>s. Tpm2_PolicyCounterTimer (pe_ossl p) tpm (as_handle s) OperandB Offset Operation)"

definition PolicyNameHash_Execute ::
  "PolicyEnv \<Rightarrow> 'd TpmDevice \<Rightarrow> addr \<Rightarrow> ByteVec \<Rightarrow> ('d, unit) call" where
  "PolicyNameHash_Execute p tpm a NameHash =
     with_session a (\<lambda>s. Tpm2_PolicyNameHash (pe_ossl p) tpm (as_handle s) NameHash)"

definition PolicyAuthValue_Execute :: "PolicyEnv \<Rightarrow> 'd TpmDevice \<Rightarrow> addr \<Rightarrow> ('d, unit) call" where
  "PolicyAuthValue_Execute p tpm a = cbind (change_session a ForceHmac) (\<lambda>_.
     with_session a (\<lambda>s. Tpm2_PolicyAuthValue (pe_ossl p) tpm (as_handle s)))"

definition PolicyPassword_Execute :: "PolicyEnv \<Rightarrow> 'd TpmDevice \<Rightarrow> addr \<Rightarrow> ('d, unit) call" where
  "PolicyPassword_Execute p tpm a = cbind (change_session a IncludePassword) (\<lambda>_.
     with_session a (\<lambda>s. Tpm2_PolicyPassword (pe_ossl p) tpm (as_handle s)))"

text \<open>The handles that the callback returns are also stored in the assertion, to be replaced when it is executed again.\<close>

definition PolicyNV_Execute ::
  "PolicyEnv \<Rightarrow> 'd TpmDevice \<Rightarrow> addr \<Rightarrow> string \<Rightarrow> ByteVec \<Rightarrow> UINT16 \<Rightarrow> TPM_EO \<Rightarrow> TPM_HANDLE \<Rightarrow> TPM_HANDLE \<Rightarrow>
   bool \<Rightarrow> ('d, unit) call" where
  "PolicyNV_Execute p tpm a tag OperandB Offset Operation AuthHandle NvIndex CallbackNeeded =
     cbind (clift (if CallbackNeeded
                   then obind (oderef (theNvCallback p)) (\<lambda>f. Ok (f tag))
                   else Ok (AuthHandle, NvIndex))) (\<lambda>(AuthHandle, NvIndex).
     with_session a (\<lambda>s. Tpm2_PolicyNV (pe_ossl p) tpm AuthHandle NvIndex (as_handle s) OperandB Offset Operation))"

definition PolicySigned_Execute ::
  "PolicyEnv \<Rightarrow> 'd TpmDevice \<Rightarrow> addr \<Rightarrow> string \<Rightarrow> bool \<Rightarrow> ByteVec \<Rightarrow> ByteVec \<Rightarrow> UINT32 \<Rightarrow> TPMT_PUBLIC \<Rightarrow> TSS_KEY \<Rightarrow>
   bool \<Rightarrow> ('d, unit) call" where
  "PolicySigned_Execute p tpm a tag IncludeTpmNonce CpHashA PolicyRef Expiration PublicKey FullKey CallbackNeeded =
     with_session a (\<lambda>s. let nonceTpm = (if IncludeTpmNonce then as_NonceTpm s else []) in
     cbind (clift
       (if CallbackNeeded
        then obind (oderef (theSignCallback p)) (\<lambda>f. Ok (f nonceTpm Expiration CpHashA PolicyRef tag))
        else obind (buf_bytes [writeByteBuf nonceTpm, writeInt Expiration, writeByteBuf CpHashA,
                 writeByteBuf PolicyRef]) (\<lambda>toSign.
          obind (oderef (TPMT_PUBLIC_parameters PublicKey)) (\<lambda>u.
            case as_rsa_parms u of
              None \<Rightarrow> Throw (domain_error ''Not supported'')
            | Some parms \<Rightarrow> obind (oderef (TPMS_RSA_PARMS_scheme parms)) (\<lambda>scheme.
                case scheme of
                  ASYM_SCHEME_TPMS_SIG_SCHEME_RSASSA scheme \<Rightarrow>
                    obind (FromHashOfData (pe_ossl p) (TPMS_SCHEME_HASH_hashAlg scheme) toSign) (\<lambda>hashToSign.
                      TSS_KEY_Sign (pe_ossl p) (pe_rsa_sign p) FullKey (TPMT_HA_digest hashToSign)
                        SIG_SCHEME_TPMS_NULL_SIG_SCHEME)
                | _ \<Rightarrow> Throw (domain_error ''Unsupported signing scheme'')))))) (\<lambda>sig.
     cbind (Tpm2_LoadExternal (pe_ossl p) tpm TPMT_SENSITIVE_default PublicKey (TPM_HANDLE_of TPM_RH_OWNER)) (\<lambda>pubKeyH.
     cbind (clift (oderef (SignResponse_signature sig))) (\<lambda>auth.
     cbind (with_session a (\<lambda>s. Tpm2_PolicySigned (pe_ossl p) tpm pubKeyH (as_handle s) nonceTpm CpHashA PolicyRef
       Expiration auth)) (\<lambda>_.
     Tpm2_FlushContext (pe_ossl p) tpm pubKeyH)))))"

text \<open>
  The code of the response to \<open>VerifySignature\<close> is looked at again, after \<open>PolicyAuthorize\<close> was executed, in
  place of the code of the response to that. Failures are thrown as pointers.
\<close>

definition PolicyAuthorize_Execute ::
  "PolicyEnv \<Rightarrow> 'd TpmDevice \<Rightarrow> addr \<Rightarrow> ByteVec \<Rightarrow> ByteVec \<Rightarrow> TPMT_PUBLIC \<Rightarrow> TPMU_SIGNATURE option \<Rightarrow> ('d, unit) call" where
  "PolicyAuthorize_Execute p tpm a ApprovedPolicy PolicyRef AuthorizingKey Signature =
     cbind (with_session a (\<lambda>s. clift (FromHashOfData (pe_ossl p) (as_HashAlg s)
       (Concatenate [ApprovedPolicy, PolicyRef])))) (\<lambda>aHash.
     cbind (Tpm2_LoadExternal (pe_ossl p) tpm TPMT_SENSITIVE_default AuthorizingKey (TPM_HANDLE_of TPM_RH_OWNER))
       (\<lambda>verifierHandle.
     cbind AllowErrors (\<lambda>_.
     cbind (clift (oderef Signature)) (\<lambda>signature.
     cbind (Tpm2_VerifySignature (pe_ossl p) tpm verifierHandle (TPMT_HA_digest aHash) signature) (\<lambda>ticket.
     cbind GetLastResponseCode (\<lambda>responseCode.
       if responseCode \<noteq> TPM_RC_SUCCESS
       then cbind (Tpm2_FlushContext (pe_ossl p) tpm verifierHandle) (\<lambda>_.
         clift (Throw (thrown_pointer ''Policy signature verification failed'')))
       else cbind AllowErrors (\<lambda>_.
         cbind (clift (TPMT_PUBLIC_GetName (pe_ossl p) AuthorizingKey)) (\<lambda>name.
         cbind (with_session a (\<lambda>s. Tpm2_PolicyAuthorize (pe_ossl p) tpm (as_handle s) ApprovedPolicy PolicyRef
           name ticket)) (\<lambda>_.
         cbind (Tpm2_FlushContext (pe_ossl p) tpm verifierHandle) (\<lambda>_.
           if responseCode \<noteq> TPM_RC_SUCCESS
           then clift (Throw (thrown_pointer ''PolicyAuthorize failed'')) else cret ()))))))))))"

definition PolicySecret_Execute ::
  "PolicyEnv \<Rightarrow> 'd TpmDevice \<Rightarrow> addr \<Rightarrow> bool \<Rightarrow> ByteVec \<Rightarrow> ByteVec \<Rightarrow> UINT32 \<Rightarrow> TPM_HANDLE \<Rightarrow> bool \<Rightarrow> ('d, unit) call" where
  "PolicySecret_Execute p tpm a IncludeTpmNonce CpHashA PolicyRef Expiration AuthHandle CallbackNeeded =
     with_session a (\<lambda>s. let nonceTpm = (if IncludeTpmNonce then as_NonceTpm s else []) in
     cbind (clift (oassert (\<not> CallbackNeeded))) (\<lambda>_.
     cbind (Tpm2_PolicySecret (pe_ossl p) tpm AuthHandle (as_handle s) nonceTpm CpHashA PolicyRef Expiration)
       (\<lambda>_. cret ())))"

definition PolicyDuplicationSelect_Execute ::
  "PolicyEnv \<Rightarrow> 'd TpmDevice \<Rightarrow> addr \<Rightarrow> ByteVec \<Rightarrow> ByteVec \<Rightarrow> bool \<Rightarrow> ('d, unit) call" where
  "PolicyDuplicationSelect_Execute p tpm a ObjectName NewParentName IncludeObjectName =
     with_session a (\<lambda>s. Tpm2_PolicyDuplicationSelect (pe_ossl p) tpm (as_handle s) ObjectName NewParentName
       (if IncludeObjectName then 1 else 0))"

definition PolicyTicket_Execute :: "('d, unit) call" where
  "PolicyTicket_Execute = clift AssertFailed"

section \<open>Executing a branch\<close>

text \<open>
  The virtual call, and the loops over a chain, from its end, and over the branches of a \<open>PolicyOr\<close>, of which all
  that contain the branch are executed before the assertion itself.
\<close>

fun Execute_node :: "PolicyEnv \<Rightarrow> 'd TpmDevice \<Rightarrow> addr \<Rightarrow> PABase \<Rightarrow> ('d, unit) call" where
  "Execute_node p tpm a (PolicyLocality _ l) = PolicyLocality_Execute p tpm a l"
| "Execute_node p tpm a (PolicyPhysicalPresence _) = PolicyPhysicalPresence_Execute p tpm a"
| "Execute_node p tpm a (PolicyOr _ Branches) = PolicyOr_Execute p tpm a Branches"
| "Execute_node p tpm a (PolicyPcr _ vals pcrs) = PolicyPcr_Execute p tpm a vals pcrs"
| "Execute_node p tpm a (PolicyCommandCode _ cc) = PolicyCommandCode_Execute p tpm a cc"
| "Execute_node p tpm a (PolicyCpHash _ h) = PolicyCpHash_Execute p tpm a h"
| "Execute_node p tpm a (PolicyCounterTimer _ b off op) = PolicyCounterTimer_Execute p tpm a b off op"
| "Execute_node p tpm a (PolicyNameHash _ h) = PolicyNameHash_Execute p tpm a h"
| "Execute_node p tpm a (PolicyAuthValue _) = PolicyAuthValue_Execute p tpm a"
| "Execute_node p tpm a (PolicyPassword _) = PolicyPassword_Execute p tpm a"
| "Execute_node p tpm a (PolicyNV tag b off op auth idx _ cb) = PolicyNV_Execute p tpm a tag b off op auth idx cb"
| "Execute_node p tpm a (PolicySigned tag n cp ref ex pub key cb) =
     PolicySigned_Execute p tpm a tag n cp ref ex pub key cb"
| "Execute_node p tpm a (PolicyAuthorize _ pol ref key sig) = PolicyAuthorize_Execute p tpm a pol ref key sig"
| "Execute_node p tpm a (PolicySecret _ n cp ref ex _ h cb) = PolicySecret_Execute p tpm a n cp ref ex h cb"
| "Execute_node p tpm a (PolicyTicket _ _ _ _ _ _ _ _) = PolicyTicket_Execute"
| "Execute_node p tpm a (PolicyDuplicationSelect _ obj parent inc) =
     PolicyDuplicationSelect_Execute p tpm a obj parent inc"

fun Execute_chain :: "PolicyEnv \<Rightarrow> 'd TpmDevice \<Rightarrow> addr \<Rightarrow> string \<Rightarrow> PABase list \<Rightarrow> ('d, unit) call"
  and Execute_descend :: "PolicyEnv \<Rightarrow> 'd TpmDevice \<Rightarrow> addr \<Rightarrow> string \<Rightarrow> PABase \<Rightarrow> ('d, unit) call"
  and Execute_branches :: "PolicyEnv \<Rightarrow> 'd TpmDevice \<Rightarrow> addr \<Rightarrow> string \<Rightarrow> PABase list list \<Rightarrow> ('d, unit) call" where
  "Execute_chain p tpm a branchId [] = cret ()"
| "Execute_chain p tpm a branchId (node # chain) =
     cbind (Execute_chain p tpm a branchId chain) (\<lambda>_. Execute_descend p tpm a branchId node)"
| "Execute_descend p tpm a branchId (PolicyOr tag Branches) =
     cbind (Execute_branches p tpm a branchId Branches) (\<lambda>_. Execute_node p tpm a (PolicyOr tag Branches))"
| "Execute_descend p tpm a branchId node = Execute_node p tpm a node"
| "Execute_branches p tpm a branchId [] = cret ()"
| "Execute_branches p tpm a branchId (b # bs) =
     cbind (if ChainContainsBranch b branchId then Execute_chain p tpm a branchId b else cret ())
       (\<lambda>_. Execute_branches p tpm a branchId bs)"

definition Execute ::
  "PolicyEnv \<Rightarrow> 'd TpmDevice \<Rightarrow> addr \<Rightarrow> PABase list \<Rightarrow> string \<Rightarrow> ('d, TPM_RC) call" where
  "Execute p tpm a Policy branchId =
     cbind (clift (GetBranchIds Policy)) (\<lambda>branchIds.
       if branchId = '''' then clift (Throw (runtime_error ''Need a non-empty branchId''))
       else if branchId \<notin> set branchIds then clift (Throw (runtime_error (''branchId not found:'' @ branchId)))
       else cbind (Execute_chain p tpm a branchId Policy) (\<lambda>_. cret TPM_RC_SUCCESS))"

end
