(* ===== verification/PolicyRefinement.thy ===== *)
theory PolicyRefinement
  imports PolicyDigest PolicyExecute
begin

unbundle bit_operations_syntax

text \<open>
  The two halves of \<^verbatim>\<open>TpmPolicy.cpp\<close> against each other: the digest that \<open>GetPolicyDigest\<close> computes in software, and
  the commands that \<open>Execute\<close> sends. The TPM between them is described by what Part 3 of the TPM specification says
  that its policy commands do to the digest of the policy session, as a function of the bytes of the command.
\<close>

section \<open>What the policy commands do on a TPM\<close>

text \<open>A size-prefixed parameter and what follows it.\<close>

fun sized_field :: "ByteVec \<Rightarrow> ByteVec \<times> ByteVec" where
  "sized_field (hi # lo # bs) = (let n = 256 * unat hi + unat lo in (take n bs, drop n bs))"
| "sized_field bs = ([], bs)"

fun sized_fields :: "ByteVec \<Rightarrow> ByteVec list" where
  "sized_fields (hi # lo # bs) = (let n = 256 * unat hi + unat lo in take n bs # sized_fields (drop n bs))"
| "sized_fields bs = []"

lemma be_bytes_2: "be_bytes 2 v = [byte_at 8 v, byte_at 0 v]"
  by (simp add: be_bytes_def)

lemma unat_byte_at: "unat (byte_at k v) = unat v div 2 ^ k mod 256"
proof -
  have "byte_at k v = ucast (drop_bit k v)"
    by (rule bit_word_eqI) (simp add: bit_byte_at bit_simps add.commute)
  then show ?thesis
    by (simp only: unsigned_ucast_eq unat_drop_bit_eq take_bit_eq_mod [where 'a = nat] drop_bit_eq_div [where 'a = nat])
      simp
qed

lemma sized_prefix:
  assumes "sized_ok 2 h"
  obtains hi lo where "enc_sized 2 h = hi # lo # h" and "256 * unat hi + unat lo = length h"
proof
  let ?n = "ucast (of_nat (length h) :: UINT32) :: UINT64"
  have n: "unat ?n = length h" "length h < 65536"
    using assms by (simp_all add: sized_ok_def unsigned_ucast_eq unat_of_nat take_bit_nat_eq_self)
  show "enc_sized 2 h = byte_at 8 ?n # byte_at 0 ?n # h"
    by (simp add: enc_sized_def be_bytes_2)
  have "length h div 256 < 256" using n(2) by (simp add: div_less_iff_less_mult)
  then show "256 * unat (byte_at 8 ?n) + unat (byte_at 0 ?n) = length h"
    unfolding unat_byte_at n(1) by simp
qed

lemma sized_field_enc: "sized_ok 2 h \<Longrightarrow> sized_field (enc_sized 2 h @ rest) = (h, rest)"
  by (erule sized_prefix) simp

lemma sized_fields_enc:
  "list_all TPM2B_DIGEST_valid ds \<Longrightarrow> sized_fields (enc_elems TPM2B_DIGEST_enc ds) = map TPM2B_DIGEST_buffer ds"
proof (induction ds)
  case (Cons d ds)
  then have "sized_ok 2 (TPM2B_DIGEST_buffer d)" by (simp add: TPM2B_DIGEST_valid_def)
  then show ?case using Cons by (elim sized_prefix) (simp add: TPM2B_DIGEST_enc_def)
qed simp

text \<open>
  The digest after a command, from its code, its parameters and the digest \<open>D\<close> before; \<open>None\<close> if the specification has
  the command fail. \<open>PolicyPassword\<close> extends the digest with the code of \<open>PolicyAuthValue\<close>.
\<close>

definition tpm_policy :: "Openssl \<Rightarrow> TPM_ALG_ID \<Rightarrow> TPM_CC \<Rightarrow> ByteVec \<Rightarrow> ByteVec \<Rightarrow> ByteVec option" where
  "tpm_policy ossl alg cc params D =
     (let new = (\<lambda>cc x. Some (ossl_digest ossl alg (D @ enc32 cc @ x)));
          (field, rest) = sized_field params; (field2, rest2) = sized_field rest
      in if cc \<in> {TPM_CC_PolicyLocality, TPM_CC_PolicyPhysicalPresence, TPM_CC_PolicyCommandCode, TPM_CC_PolicyAuthValue}
         then new cc params
         else if cc = TPM_CC_PolicyPassword then new TPM_CC_PolicyAuthValue params
         else if cc \<in> {TPM_CC_PolicyCpHash, TPM_CC_PolicyNameHash} then new cc field
         else if cc = TPM_CC_PolicyCounterTimer then new cc (ossl_digest ossl alg (field @ rest))
         else if cc = TPM_CC_PolicyDuplicationSelect
         then new cc ((if rest2 = [0] then [] else field) @ field2 @ rest2)
         else if cc = TPM_CC_PolicyPCR then new cc (rest @ field)
         else if cc = TPM_CC_PolicyOR
         then let ds = sized_fields (drop 4 params) in
              if 2 \<le> length ds \<and> length ds \<le> 8 \<and> D \<in> set ds
              then Some (ossl_digest ossl alg (replicate (unat (HashLength alg)) 0 @ enc32 cc @ concat ds))
              else None
         else None)"

text \<open>
  The well-formed parameters of these commands. A digest of PCR values is given, and the registers selected are those
  that the TPM has (it ignores the others, and leaves them out of the digest); \<open>there\<close> tells which selections these are.
\<close>

inductive policy_params :: "(TPMS_PCR_SELECTION list \<Rightarrow> bool) \<Rightarrow> TPM_CC \<Rightarrow> ByteVec \<Rightarrow> bool" for there where
  locality: "policy_params there TPM_CC_PolicyLocality (enc8 l)"
| presence: "policy_params there TPM_CC_PolicyPhysicalPresence []"
| code: "policy_params there TPM_CC_PolicyCommandCode (enc32 c)"
| auth_value: "policy_params there TPM_CC_PolicyAuthValue []"
| password: "policy_params there TPM_CC_PolicyPassword []"
| cp_hash: "sized_ok 2 x \<Longrightarrow> policy_params there TPM_CC_PolicyCpHash (enc_sized 2 x)"
| name_hash: "sized_ok 2 x \<Longrightarrow> policy_params there TPM_CC_PolicyNameHash (enc_sized 2 x)"
| counter: "sized_ok 2 b \<Longrightarrow> policy_params there TPM_CC_PolicyCounterTimer (enc_sized 2 b @ enc16 off @ enc16 op)"
| duplication: "sized_ok 2 obj \<Longrightarrow> sized_ok 2 parent \<Longrightarrow> inc \<in> {0, 1} \<Longrightarrow>
    policy_params there TPM_CC_PolicyDuplicationSelect (enc_sized 2 obj @ enc_sized 2 parent @ enc8 inc)"
| pcr: "sized_ok 2 d \<Longrightarrow> d \<noteq> [] \<Longrightarrow> arr_ok TPMS_PCR_SELECTION_valid pcrs \<Longrightarrow> there pcrs \<Longrightarrow>
    policy_params there TPM_CC_PolicyPCR (enc_sized 2 d @ enc_arr TPMS_PCR_SELECTION_enc pcrs)"
| or: "arr_ok TPM2B_DIGEST_valid ds \<Longrightarrow> policy_params there TPM_CC_PolicyOR (enc_arr TPM2B_DIGEST_enc ds)"

text \<open>An error response, which is not the request to try again.\<close>

definition refuses :: "'d TpmDevice \<Rightarrow> 'd \<Rightarrow> ByteVec \<Rightarrow> 'd \<Rightarrow> bool" where
  "refuses dev d cmd d' \<longleftrightarrow> (\<exists>tag code body. answers dev d cmd (raw_response tag code body) d' \<and>
     length body + 10 < 2 ^ 32 \<and> code \<noteq> TPM_RC_RETRY \<and> code \<noteq> TPM_RC_SUCCESS \<and>
     ResponseCodeFromTpmError code \<noteq> TPM_RC_SUCCESS)"

text \<open>
  A TPM with a policy session of the handle \<open>h\<close>, whose digest \<open>pd\<close> reads off the TPM's state. It may refuse any command, for
  instance because the current locality or the values of the PCRs are others; when it carries one of these commands out,
  the digest becomes the specified one. Nothing is said of other commands, or of other parameters.
\<close>

definition policy_tpm :: "(TPMS_PCR_SELECTION list \<Rightarrow> bool) \<Rightarrow> Openssl \<Rightarrow> TPM_ALG_ID \<Rightarrow> UINT32 \<Rightarrow> 'd TpmDevice \<Rightarrow>
    ('d \<Rightarrow> ByteVec) \<Rightarrow> bool" where
  "policy_tpm there ossl alg h dev pd \<longleftrightarrow> (\<forall>d cc params H. TPM_HANDLE_handle H = h \<longrightarrow> policy_params there cc params \<longrightarrow>
     (let cmd = command_bytes TPM_ST_NO_SESSIONS cc [H] [] params in
      (\<exists>d'. refuses dev d cmd d') \<or>
      (\<exists>d'. answers dev d cmd (raw_response TPM_ST_NO_SESSIONS TPM_RC_SUCCESS []) d' \<and>
        tpm_policy ossl alg cc params (pd d) = Some (pd d'))))"

text \<open>
  A call that ended with an exception because the TPM refused the command that was sent last. If \<open>Q\<close> holds, it did so
  although the digest of the session was no reason for that.
\<close>

definition stopped :: "Openssl \<Rightarrow> TPM_ALG_ID \<Rightarrow> UINT32 \<Rightarrow> 'd TpmDevice \<Rightarrow> ('d \<Rightarrow> ByteVec) \<Rightarrow> bool \<Rightarrow> 'a outcome \<Rightarrow> 'd Tpm2 \<Rightarrow> bool" where
  "stopped ossl alg h dev pd Q r t \<longleftrightarrow> (\<exists>e. r = Throw e) \<and> tp_LastResponseCode t \<noteq> TPM_RC_SUCCESS \<and>
     (\<exists>d d' cc H params. TPM_HANDLE_handle H = h \<and> tp_LastCommandBuf t = command_bytes TPM_ST_NO_SESSIONS cc [H] [] params \<and>
       refuses dev d (tp_LastCommandBuf t) d' \<and> tp_device t = Some d' \<and> (Q \<longrightarrow> tpm_policy ossl alg cc params (pd d) \<noteq> None))"

lemma stopped_mono: "stopped ossl alg h dev pd Q r t \<Longrightarrow> (Q' \<Longrightarrow> Q) \<Longrightarrow> stopped ossl alg h dev pd Q' r t"
  unfolding stopped_def by blast

lemma stopped_Throw [simp]:
  "\<not> stopped ossl alg h dev pd Q (Ok x) t" "stopped ossl alg h dev pd Q (Throw e) t \<Longrightarrow> stopped ossl alg h dev pd Q (Throw e') t"
  by (auto simp: stopped_def)

section \<open>A command that may be refused\<close>

lemma Dispatch_refused:
  assumes idle: "idle t" and cc: "plain_code cc"
    and no_auth: "req_numAuthHandles (req_methods req) = 0"
    and dev: "tp_device t = Some d" "refuses dev d (plain_command cc (req_methods req) params) d'"
    and params: "writes (req_toTpm (req_methods req)) params"
    and len: "length (plain_command cc (req_methods req) params) \<le> 4096"
  shows "\<exists>e t'. Dispatch ossl dev m cc req resp t = Some (Throw e, t') \<and> tp_LastResponseCode t' \<noteq> TPM_RC_SUCCESS \<and>
    tp_LastCommandBuf t' = plain_command cc (req_methods req) params \<and> tp_device t' = Some d'"
proof -
  let ?cmd = "plain_command cc (req_methods req) params"
  obtain tag code body d1 where d1: "dev_DispatchCommand dev ?cmd d = (Ok (), d1)"
      "dev_GetResponse dev d1 = (Ok (raw_response tag code body), d')"
    and code: "length body + 10 < 2 ^ 32" "code \<noteq> TPM_RC_RETRY" "code \<noteq> TPM_RC_SUCCESS"
      "ResponseCodeFromTpmError code \<noteq> TPM_RC_SUCCESS"
    using dev(2) by (auto simp: refuses_def answers_def)
  note i = idle [unfolded idle_def]
  define u where "u = t\<lparr>tp_SessTag := TPM_ST_NO_SESSIONS, tp_InHandles := req_getHandles (req_methods req),
    tp_LastCommandBuf := ?cmd, tp_device := Some d1, tp_objectInName := [], tp_PendingCommand := cc\<rparr>"
  have out: "DispatchOut ossl dev cc req t = (Ok (True, req), u)"
    using i no_auth d1(1) len dev(1) unfolding u_def plain_command_def
    by (subst DispatchOut_plain [OF _ _ _ _ dev(1) params refl _ _ plain_updates(1) [OF cc]])
      (simp_all add: uses_sessions_def)
  have "awaits cc u" "tp_device u = Some d1"
    using i cc by (simp_all add: u_def awaits_def plain_code_def)
  moreover have "\<not> tolerated (noted code (received d' (raw_response tag code body) u)) code"
    using i code by (simp add: tolerated_def noted_def received_def u_def)
  ultimately show ?thesis
    by (simp add: Dispatch_def Dispatch_loop.simps [of ossl dev m cc req resp t] out
        DispatchIn_error [OF _ _ d1(2) code(1-4)])
      (use code(4) in \<open>simp add: reset_invocation_def noted_def received_def u_def\<close>)
qed

text \<open>What a policy session's client keeps from one assertion to the next.\<close>

definition executing :: "addr \<Rightarrow> UINT32 \<Rightarrow> TPM_ALG_ID \<Rightarrow> 'd \<Rightarrow> 'd Tpm2 \<Rightarrow> bool" where
  "executing a h alg d t \<longleftrightarrow> idle t \<and> tp_EncSession t = None \<and> tp_device t = Some d \<and>
     TPM_HANDLE_handle (as_handle (tp_sess t a)) = h \<and> as_HashAlg (tp_sess t a) = alg"

text \<open>The command \<open>cc\<close> with these parameters, sent by a call on the policy session.\<close>

definition sends :: "Openssl \<Rightarrow> 'd TpmDevice \<Rightarrow> TPM_CC \<Rightarrow> TPM_HANDLE \<Rightarrow> ByteVec \<Rightarrow> ('d, unit) call \<Rightarrow> bool" where
  "sends ossl dev cc H params m \<longleftrightarrow> (\<exists>req.
     m = returning (the_resp id) (Dispatch ossl dev no_response cc (Req_other req) (Resp_other ())) \<and>
     req_getHandles req = [H] \<and> req_numAuthHandles req = 0 \<and> writes (req_toTpm req) params)"

lemma no_response_reads: "resp_numHandles no_response = 0" "reads (resp_initFromTpm no_response ()) () []"
  by (simp_all add: no_response_def empty_resp_def reads_ret)

lemma length_handle_command [simp]:
  "length (command_bytes tag cc [H] [] params) = 14 + length params"
  by (simp add: command_bytes_def TPM_HANDLE_enc_def)

lemma command_bytes_handle:
  "TPM_HANDLE_handle H = TPM_HANDLE_handle H' \<Longrightarrow> command_bytes tag cc [H] ar ps = command_bytes tag cc [H'] ar ps"
  by (simp add: command_bytes_def TPM_HANDLE_enc_def)

text \<open>A policy command returns: with the specified digest on the TPM, or because the TPM refused it.\<close>

definition policy_step :: "Openssl \<Rightarrow> 'd TpmDevice \<Rightarrow> ('d \<Rightarrow> ByteVec) \<Rightarrow> addr \<Rightarrow> UINT32 \<Rightarrow> TPM_ALG_ID \<Rightarrow> (ByteVec \<Rightarrow> ByteVec option) \<Rightarrow>
  ('d, unit) call \<Rightarrow> bool" where
  "policy_step ossl dev pd a h alg F m \<longleftrightarrow> (\<forall>d t. executing a h alg d t \<longrightarrow>
     (\<exists>r t'. m t = Some (r, t') \<and> ((r = Ok () \<and> (\<exists>d'. executing a h alg d' t' \<and> F (pd d) = Some (pd d'))) \<or>
       stopped ossl alg h dev pd (F (pd d) \<noteq> None) r t')))"

lemma policy_stepD:
  assumes "policy_step ossl dev pd a h alg F m" and "executing a h alg d t"
  obtains (ok) t' d' where "m t = Some (Ok (), t')" and "executing a h alg d' t'" and "F (pd d) = Some (pd d')"
    | (stop) r t' where "m t = Some (r, t')" and "stopped ossl alg h dev pd (F (pd d) \<noteq> None) r t'"
  using assms unfolding policy_step_def by blast

lemma sends_policy_step:
  fixes dev :: "'d TpmDevice"
  assumes tpm: "policy_tpm there ossl alg h dev pd" and wf: "policy_params there cc params"
    and cc: "plain_code cc" and len: "length params \<le> 4000"
    and sends: "\<And>d t. executing a h alg d t \<Longrightarrow> sends ossl dev cc (as_handle (tp_sess t a)) params (m t)"
  shows "policy_step ossl dev pd a h alg (tpm_policy ossl alg cc params) (\<lambda>t. m t t)"
  unfolding policy_step_def
proof (intro allI impI)
  fix d and t :: "'d Tpm2"
  assume ex: "executing a h alg d t"
  let ?H = "as_handle (tp_sess t a)"
  let ?cmd = "command_bytes TPM_ST_NO_SESSIONS cc [?H] [] params"
  obtain req where m: "m t = returning (the_resp id) (Dispatch ossl dev no_response cc (Req_other req) (Resp_other ()))"
    and req: "req_getHandles req = [?H]" "req_numAuthHandles req = 0" "writes (req_toTpm req) params"
    using sends [OF ex] by (auto simp: sends_def)
  have t: "idle t" "tp_device t = Some d" "tp_EncSession t = None" "TPM_HANDLE_handle ?H = h"
    using ex by (simp_all add: executing_def)
  have cmd: "plain_command cc (req_methods (Req_other req)) params = ?cmd" by (simp add: plain_command_def req)
  have len': "length ?cmd \<le> 4096" using len by simp
  from tpm t(4) wf consider (no) d' where "refuses dev d ?cmd d'"
    | (yes) d' where "answers dev d ?cmd (raw_response TPM_ST_NO_SESSIONS TPM_RC_SUCCESS []) d'"
        "tpm_policy ossl alg cc params (pd d) = Some (pd d')"
    unfolding policy_tpm_def Let_def by metis
  then show "\<exists>r t'. m t t = Some (r, t') \<and> ((r = Ok () \<and>
      (\<exists>d'. executing a h alg d' t' \<and> tpm_policy ossl alg cc params (pd d) = Some (pd d'))) \<or>
      stopped ossl alg h dev pd (tpm_policy ossl alg cc params (pd d) \<noteq> None) r t')"
  proof cases
    case no
    have "\<exists>e t'. Dispatch ossl dev no_response cc (Req_other req) (Resp_other ()) t = Some (Throw e, t') \<and>
        tp_LastResponseCode t' \<noteq> TPM_RC_SUCCESS \<and>
        tp_LastCommandBuf t' = plain_command cc (req_methods (Req_other req)) params \<and> tp_device t' = Some d'"
      using no len' req(2,3)
      by (intro Dispatch_refused [OF t(1) cc _ t(2), where params = params and d' = d']) (simp_all only: cmd, simp_all)
    then obtain e t' where d: "Dispatch ossl dev no_response cc (Req_other req) (Resp_other ()) t = Some (Throw e, t')"
      and s: "tp_LastResponseCode t' \<noteq> TPM_RC_SUCCESS" "tp_LastCommandBuf t' = ?cmd" "tp_device t' = Some d'"
      unfolding cmd by blast
    have "stopped ossl alg h dev pd (tpm_policy ossl alg cc params (pd d) \<noteq> None) (Throw e :: unit outcome) t'"
      unfolding stopped_def using s no t(4)
      by (intro conjI exI [of _ d] exI [of _ d'] exI [of _ cc] exI [of _ ?H] exI [of _ params]) simp_all
    then show ?thesis by (auto simp: m returning_def d)
  next
    case yes
    have p: "req_numAuthHandles (req_methods (Req_other req)) = 0" "writes (req_toTpm (req_methods (Req_other req))) params"
        "length (plain_command cc (req_methods (Req_other req)) params) \<le> 4096"
      using len' req(2,3) by (simp_all only: cmd) simp_all
    have answer: "answers dev d (plain_command cc (req_methods (Req_other req)) params)
        (raw_response TPM_ST_NO_SESSIONS TPM_RC_SUCCESS []) d'"
      unfolding cmd by (rule yes(1))
    obtain w where w: "idle w" "tp_SessTag w = TPM_ST_NO_SESSIONS" "tp_device w = Some d'" "tp_EncSession w = None"
        "tp_sess w = tp_sess t"
      and result: "\<And>(m :: (TPM_HANDLE, unit) RespStructure) resp resp' t'.
        complete_command ossl m cc False TPM_ST_NO_SESSIONS resp
          (adv 10 (TpmBuffer_of (raw_response TPM_ST_NO_SESSIONS TPM_RC_SUCCESS []))) w = (Ok (True, resp'), t') \<Longrightarrow>
        Dispatch ossl dev m cc (Req_other req) resp t = Some (Ok resp', t')"
      using Dispatch_success [OF t(1) cc p(1) t(2) answer p(2,3), where 'r = unit and ossl = ossl] t(3)
      by (simp only: list.size) (simp, blast)
    have "m t t = Some (Ok (), w\<lparr>tp_Sessions := []\<rparr>)"
      using result [OF complete_command_plain [OF w(2,4) no_response_reads plain_updates(3) [OF cc]]]
      by (simp add: m returning_def)
    moreover have "executing a h alg d' (w\<lparr>tp_Sessions := []\<rparr>)"
      using ex w by (simp add: executing_def idle_def)
    ultimately show ?thesis using yes(2) by blast
  qed
qed

section \<open>The assertions\<close>

text \<open>The command of an assertion that needs no other entity, no key and no other session, and its parameters.\<close>

definition pcr_digest :: "Openssl \<Rightarrow> TPM_ALG_ID \<Rightarrow> TPM2B_DIGEST list \<Rightarrow> ByteVec" where
  "pcr_digest ossl alg vals = (let bs = concat (map TPM2B_DIGEST_buffer vals) in
     if bs = [] then replicate (unat (HashLength alg)) 0 else ossl_digest ossl alg bs)"

fun assertion_command :: "Openssl \<Rightarrow> TPM_ALG_ID \<Rightarrow> PABase \<Rightarrow> (TPM_CC \<times> ByteVec) option" where
  "assertion_command ossl alg (PolicyLocality _ l) = Some (TPM_CC_PolicyLocality, enc8 l)"
| "assertion_command ossl alg (PolicyPhysicalPresence _) = Some (TPM_CC_PolicyPhysicalPresence, [])"
| "assertion_command ossl alg (PolicyCommandCode _ c) = Some (TPM_CC_PolicyCommandCode, enc32 c)"
| "assertion_command ossl alg (PolicyCpHash _ h) = Some (TPM_CC_PolicyCpHash, enc_sized 2 h)"
| "assertion_command ossl alg (PolicyNameHash _ h) = Some (TPM_CC_PolicyNameHash, enc_sized 2 h)"
| "assertion_command ossl alg (PolicyAuthValue _) = Some (TPM_CC_PolicyAuthValue, [])"
| "assertion_command ossl alg (PolicyPassword _) = Some (TPM_CC_PolicyPassword, [])"
| "assertion_command ossl alg (PolicyCounterTimer _ b off op) =
     Some (TPM_CC_PolicyCounterTimer, enc_sized 2 b @ enc16 off @ enc16 op)"
| "assertion_command ossl alg (PolicyDuplicationSelect _ obj parent inc) =
     Some (TPM_CC_PolicyDuplicationSelect, enc_sized 2 obj @ enc_sized 2 parent @ enc8 (if inc then 1 else 0))"
| "assertion_command ossl alg (PolicyPcr _ vals pcrs) =
     Some (TPM_CC_PolicyPCR, enc_sized 2 (pcr_digest ossl alg vals) @ enc_arr TPMS_PCR_SELECTION_enc pcrs)"
| "assertion_command ossl alg _ = None"

text \<open>The bounds under which the command and the software digest fit their buffers.\<close>

fun fits_command :: "PABase \<Rightarrow> bool" where
  "fits_command (PolicyPcr _ vals pcrs) \<longleftrightarrow> arr_ok TPMS_PCR_SELECTION_valid pcrs \<and>
     length (enc_arr TPMS_PCR_SELECTION_enc pcrs) \<le> 2048"
| "fits_command p \<longleftrightarrow> small_args p"

lemma pcr_digest_length:
  "ossl_ok ossl \<Longrightarrow> IsImplemented ossl alg \<Longrightarrow> length (pcr_digest ossl alg vals) = unat (HashLength alg)"
  by (simp add: ossl_ok_def Let_def pcr_digest_def)

lemma HashPcrs_pcr_digest:
  "IsImplemented ossl alg \<Longrightarrow> HashPcrs ossl alg (map TPM2B_DIGEST_buffer vals) = Ok (pcr_digest ossl alg vals)"
  by (cases "concat (map TPM2B_DIGEST_buffer vals) = []")
    (simp_all only: HashPcrs_def pcr_digest_def Hash_all_Nil Hash_all_Ok Let_def if_True if_False simp_thms)

lemma sized_ok_1024: "length h \<le> 1024 \<Longrightarrow> sized_ok 2 h"
  by (simp add: sized_ok_def)

lemma length_enc_sized: "length (enc_sized 2 h) = length h + 2"
  by (simp add: enc_sized_def)

lemma digest_short:
  "ossl_ok ossl \<Longrightarrow> IsImplemented ossl alg \<Longrightarrow> length (pcr_digest ossl alg vals) \<le> 64"
  using IsImplemented_HashLength [of ossl alg] by (auto simp: pcr_digest_length)

lemma writes_wseq_map:
  "(\<And>x. x \<in> set xs \<Longrightarrow> writes (w x) (enc x)) \<Longrightarrow> writes (wseq (map w xs)) (enc_elems enc xs)"
  by (induction xs) (simp_all add: writes_ret writes_sseq)

lemma UpdatePolicyDigest_Pcr:
  assumes "ossl_ok ossl" and acc: "ha_ok ossl acc" and fits: "fits_command (PolicyPcr tag vals pcrs)"
  shows "UpdatePolicyDigest ossl (PolicyPcr tag vals pcrs) acc = Ok (extended ossl acc (enc32 TPM_CC_PolicyPCR @
    enc_arr TPMS_PCR_SELECTION_enc pcrs @ pcr_digest ossl (TPMT_HA_hashAlg acc) vals))"
proof -
  let ?d = "pcr_digest ossl (TPMT_HA_hashAlg acc) vals"
  have impl: "IsImplemented ossl (TPMT_HA_hashAlg acc)" using acc by (simp add: ha_ok_def)
  have "writes (wseq (map TPMS_PCR_SELECTION_toTpm pcrs)) (enc_elems TPMS_PCR_SELECTION_enc pcrs)"
    using fits by (intro writes_wseq_map TPMS_PCR_SELECTION_writes) (simp add: arr_ok_def list_all_iff)
  then have "writes (wseq ([writeInt TPM_CC_PolicyPCR, writeInt (of_nat (length pcrs))] @
        map TPMS_PCR_SELECTION_toTpm pcrs @ [writeByteBuf ?d]))
      (enc32 TPM_CC_PolicyPCR @ enc32 (of_nat (length pcrs)) @ enc_elems TPMS_PCR_SELECTION_enc pcrs @ ?d)"
    unfolding append_Cons append_Nil wseq_append
    by (intro writes_wseq_Cons writes_writeInt)
      (simp only: wseq_append, intro writes_sseq writes_wseq_single writes_writeByteBuf)
  from extend_buf_enc [OF acc this] show ?thesis
    using fits digest_short [OF assms(1) impl, of vals]
    by (simp add: assertion_defs HashPcrs_pcr_digest [OF impl] enc_arr_def
        del: wseq.simps)
qed

text \<open>What the specification has the command do is what \<open>UpdatePolicyDigest\<close> computes.\<close>

lemma command_digest:
  assumes ok: "ossl_ok ossl" and acc: "ha_ok ossl acc" and fits: "fits_command p"
    and cmd: "assertion_command ossl (TPMT_HA_hashAlg acc) p = Some (cc, params)"
  shows "\<exists>acc'. UpdatePolicyDigest ossl p acc = Ok acc' \<and>
    tpm_policy ossl (TPMT_HA_hashAlg acc) cc params (TPMT_HA_digest acc) = Some (TPMT_HA_digest acc')"
proof -
  have impl: "IsImplemented ossl (TPMT_HA_hashAlg acc)" using acc by (simp add: ha_ok_def)
  show ?thesis
  proof (cases "\<exists>tag vals pcrs. p = PolicyPcr tag vals pcrs")
    case True
    have "sized_ok 2 (pcr_digest ossl (TPMT_HA_hashAlg acc) vals)" for vals
      using digest_short [OF ok impl, of vals] by (simp add: sized_ok_1024)
    then show ?thesis
      using True fits cmd UpdatePolicyDigest_Pcr [OF ok acc]
      by (auto simp: tpm_policy_def sized_field_enc extended_def)
  next
    case False
    then have small: "small_args p" using fits by (cases p) simp_all
    then obtain bs where bs: "assertion_bytes ossl (TPMT_HA_hashAlg acc) p = Some bs"
      using cmd False by (cases p) auto
    have "tpm_policy ossl (TPMT_HA_hashAlg acc) cc params (TPMT_HA_digest acc) =
        Some (TPMT_HA_digest (extended ossl acc bs))"
      using cmd bs small False
      by (cases p) (auto simp: tpm_policy_def extended_def sized_field_enc sized_ok_1024 op_digest_def enc8_def
          sized_field_enc [where rest = "[]", simplified])
    then show ?thesis using UpdatePolicyDigest_bytes [OF ok acc small bs] by blast
  qed
qed

section \<open>Executing an assertion\<close>

lemma sendsI:
  "writes (req_toTpm req) params \<Longrightarrow> req_getHandles req = [H] \<Longrightarrow> req_numAuthHandles req = 0 \<Longrightarrow>
   sends ossl dev cc H params (returning (the_resp id) (Dispatch ossl dev no_response cc (Req_other req) (Resp_other ())))"
  by (auto simp: sends_def)

named_theorems sends_intros \<open>the command that a method sends on a policy session\<close>

lemma sends_simple [sends_intros]:
  "sends ossl dev TPM_CC_PolicyLocality H (enc8 l) (Tpm2_PolicyLocality ossl dev H l)"
  "sends ossl dev TPM_CC_PolicyPhysicalPresence H [] (Tpm2_PolicyPhysicalPresence ossl dev H)"
  "sends ossl dev TPM_CC_PolicyCommandCode H (enc32 c) (Tpm2_PolicyCommandCode ossl dev H c)"
  "sends ossl dev TPM_CC_PolicyAuthValue H [] (Tpm2_PolicyAuthValue ossl dev H)"
  "sends ossl dev TPM_CC_PolicyPassword H [] (Tpm2_PolicyPassword ossl dev H)"
  unfolding Tpm2_PolicyLocality_def Tpm2_PolicyPhysicalPresence_def Tpm2_PolicyCommandCode_def
    Tpm2_PolicyAuthValue_def Tpm2_PolicyPassword_def
  by (rule sendsI; simp only: TPM2_PolicyLocality_REQUEST_req_def TPM2_PolicyPhysicalPresence_REQUEST_req_def
      TPM2_PolicyCommandCode_REQUEST_req_def TPM2_PolicyAuthValue_REQUEST_req_def TPM2_PolicyPassword_REQUEST_req_def
      TPM2_PolicyLocality_REQUEST_toTpm_def TPM2_PolicyPhysicalPresence_REQUEST_toTpm_def
      TPM2_PolicyCommandCode_REQUEST_toTpm_def TPM2_PolicyAuthValue_REQUEST_toTpm_def
      TPM2_PolicyPassword_REQUEST_toTpm_def ReqStructure.select_convs TPM2_PolicyLocality_REQUEST.select_convs
      TPM2_PolicyPhysicalPresence_REQUEST.select_convs TPM2_PolicyCommandCode_REQUEST.select_convs
      TPM2_PolicyAuthValue_REQUEST.select_convs TPM2_PolicyPassword_REQUEST.select_convs;
    intro writes_intros)+

lemma int_size_2: "int_size 2"
  by (simp add: int_size_def)

lemma sends_sized [sends_intros]:
  "sends ossl dev TPM_CC_PolicyCpHash H (enc_sized 2 x) (Tpm2_PolicyCpHash ossl dev H x)"
  "sends ossl dev TPM_CC_PolicyNameHash H (enc_sized 2 x) (Tpm2_PolicyNameHash ossl dev H x)"
  "sends ossl dev TPM_CC_PolicyCounterTimer H (enc_sized 2 b @ enc16 off @ enc16 op)
     (Tpm2_PolicyCounterTimer ossl dev H b off op)"
  "sends ossl dev TPM_CC_PolicyDuplicationSelect H (enc_sized 2 obj @ enc_sized 2 parent @ enc8 inc)
     (Tpm2_PolicyDuplicationSelect ossl dev H obj parent inc)"
  unfolding Tpm2_PolicyCpHash_def Tpm2_PolicyNameHash_def Tpm2_PolicyCounterTimer_def Tpm2_PolicyDuplicationSelect_def
  by (rule sendsI; simp only: TPM2_PolicyCpHash_REQUEST_req_def TPM2_PolicyNameHash_REQUEST_req_def
      TPM2_PolicyCounterTimer_REQUEST_req_def TPM2_PolicyDuplicationSelect_REQUEST_req_def
      TPM2_PolicyCpHash_REQUEST_toTpm_def TPM2_PolicyNameHash_REQUEST_toTpm_def
      TPM2_PolicyCounterTimer_REQUEST_toTpm_def TPM2_PolicyDuplicationSelect_REQUEST_toTpm_def
      ReqStructure.select_convs TPM2_PolicyCpHash_REQUEST.select_convs TPM2_PolicyNameHash_REQUEST.select_convs
      TPM2_PolicyCounterTimer_REQUEST.select_convs TPM2_PolicyDuplicationSelect_REQUEST.select_convs;
    intro writes_intros int_size_2)+

lemma sends_PCR [sends_intros]:
  assumes "arr_ok TPMS_PCR_SELECTION_valid pcrs"
  shows "sends ossl dev TPM_CC_PolicyPCR H (enc_sized 2 d @ enc_arr TPMS_PCR_SELECTION_enc pcrs)
    (Tpm2_PolicyPCR ossl dev H d pcrs)"
  unfolding Tpm2_PolicyPCR_def
  by (rule sendsI; simp only: TPM2_PolicyPCR_REQUEST_req_def TPM2_PolicyPCR_REQUEST_toTpm_def ReqStructure.select_convs
      TPM2_PolicyPCR_REQUEST.select_convs; intro writes_intros int_size_2 TPMS_PCR_SELECTION_codec.writes_arr assms)

lemma sends_OR [sends_intros]:
  assumes "arr_ok TPM2B_DIGEST_valid ds"
  shows "sends ossl dev TPM_CC_PolicyOR H (enc_arr TPM2B_DIGEST_enc ds) (Tpm2_PolicyOR ossl dev H ds)"
  unfolding Tpm2_PolicyOR_def
  by (rule sendsI; simp only: TPM2_PolicyOR_REQUEST_req_def TPM2_PolicyOR_REQUEST_toTpm_def ReqStructure.select_convs
      TPM2_PolicyOR_REQUEST.select_convs; intro writes_intros TPM2B_DIGEST_codec.writes_arr assms)

lemma policy_step_bind:
  fixes m :: "('d, unit) call"
  assumes "policy_step ossl dev pd a h alg F m" and "policy_step ossl dev pd a h alg G k"
  shows "policy_step ossl dev pd a h alg (\<lambda>D. Option.bind (F D) G) (cbind m (\<lambda>_. k))"
  unfolding policy_step_def
proof (intro allI impI)
  fix d and t :: "'d Tpm2"
  assume "executing a h alg d t"
  with assms(1) show "\<exists>r t'. cbind m (\<lambda>_. k) t = Some (r, t') \<and> ((r = Ok () \<and>
      (\<exists>d'. executing a h alg d' t' \<and> Option.bind (F (pd d)) G = Some (pd d'))) \<or>
      stopped ossl alg h dev pd (Option.bind (F (pd d)) G \<noteq> None) r t')"
  proof (cases rule: policy_stepD)
    case (ok t1 d1)
    from assms(2) ok(2) show ?thesis
      by (cases rule: policy_stepD) (auto simp: cbind_def ok(1,3))
  next
    case (stop r t1)
    then obtain e where "r = Throw e" by (auto simp: stopped_def)
    then show ?thesis using stop by (cases "F (pd d)") (auto simp: cbind_def elim: stopped_mono)
  qed
qed

lemma policy_step_change_session:
  assumes "\<And>s. as_handle (f s) = as_handle s" and "\<And>s. as_HashAlg (f s) = as_HashAlg s"
  shows "policy_step ossl dev pd a h alg Some (change_session a f)"
  using assms by (auto simp: policy_step_def change_session_def executing_def idle_def)

lemma policy_step_cret: "policy_step ossl dev pd a h alg Some (cret ())"
  by (auto simp: policy_step_def cret_def)

lemma cbind_clift_Ok [simp]: "cbind (clift (Ok x)) f = f x"
  by (simp add: cbind_def clift_def fun_eq_iff)

text \<open>
  An assertion on the policy session: it is the call of a method on the session's handle, after the flag of the session
  was set in two cases.
\<close>

lemma session_call:
  fixes dev :: "'d TpmDevice"
  assumes "policy_tpm there ossl alg h dev pd" and "policy_params there cc params" and "plain_code cc" and "length params \<le> 4000"
    and "\<And>s. as_HashAlg s = alg \<Longrightarrow> sends ossl dev cc (as_handle s) params (f s)"
  shows "policy_step ossl dev pd a h alg (tpm_policy ossl alg cc params) (with_session a f)"
  using sends_policy_step [OF assms(1-4), of a "\<lambda>t. f (tp_sess t a)"] assms(5)
  by (simp add: with_session_def [abs_def] executing_def)

lemma flagged_call:
  fixes dev :: "'d TpmDevice"
  assumes "policy_tpm there ossl alg h dev pd" and "policy_params there cc params" and "plain_code cc" and "length params \<le> 4000"
    and "\<And>s. as_HashAlg s = alg \<Longrightarrow> sends ossl dev cc (as_handle s) params (f s)"
    and "\<And>s. as_handle (g s) = as_handle s" and "\<And>s. as_HashAlg (g s) = as_HashAlg s"
  shows "policy_step ossl dev pd a h alg (tpm_policy ossl alg cc params) (cbind (change_session a g) (\<lambda>_. with_session a f))"
  using policy_step_bind [OF policy_step_change_session [OF assms(6,7)] session_call [OF assms(1-5)]] by simp

lemmas execute_defs =
  PolicyLocality_Execute_def PolicyPhysicalPresence_Execute_def PolicyCommandCode_Execute_def PolicyCpHash_Execute_def
  PolicyNameHash_Execute_def PolicyCounterTimer_Execute_def PolicyDuplicationSelect_Execute_def
  PolicyAuthValue_Execute_def PolicyPassword_Execute_def PolicyPcr_Execute_def

text \<open>The registers that an assertion selects are there.\<close>

fun registers :: "(TPMS_PCR_SELECTION list \<Rightarrow> bool) \<Rightarrow> PABase \<Rightarrow> bool" where
  "registers there (PolicyPcr _ vals pcrs) \<longleftrightarrow> there pcrs"
| "registers there p \<longleftrightarrow> True"

lemma assertion_params:
  assumes ok: "ossl_ok ossl" and impl: "IsImplemented ossl alg" and fits: "fits_command p" and there: "registers there p"
    and cmd: "assertion_command ossl alg p = Some (cc, params)"
  shows "policy_params there cc params"
proof (cases p)
  case (PolicyPcr tag vals pcrs)
  have "length (pcr_digest ossl alg vals) \<noteq> 0"
    using pcr_digest_length [OF ok impl, of vals] IsImplemented_HashLength [OF impl] by auto
  then have "pcr_digest ossl alg vals \<noteq> []" by simp
  then show ?thesis
    using fits there cmd PolicyPcr digest_short [OF ok impl, of vals] by (auto simp: sized_ok_1024 intro!: policy_params.pcr)
qed (use fits cmd in \<open>auto simp: sized_ok_1024 intro: policy_params.intros split: if_splits intro!: policy_params.duplication\<close>)

lemma Execute_node_step:
  fixes dev :: "'d TpmDevice"
  assumes tpm: "policy_tpm there ossl alg h dev pd" and ok: "ossl_ok ossl" and impl: "IsImplemented ossl alg"
    and env: "pe_ossl env = ossl" and fits: "fits_command p" and there: "registers there p"
    and cmd: "assertion_command ossl alg p = Some (cc, params)"
  shows "policy_step ossl dev pd a h alg (tpm_policy ossl alg cc params) (Execute_node env dev a p)"
proof -
  note wf = assertion_params [OF ok impl fits there cmd]
  have code: "plain_code cc" using cmd by (cases p) (auto simp: plain_code_def)
  have "length (pcr_digest ossl alg vals) + n \<le> 3998" if "n \<le> 2048" for vals n
    using digest_short [OF ok impl, of vals] that by linarith
  then have len: "length params \<le> 4000"
    using cmd fits by (cases p) (auto simp: length_enc_sized)
  note call = session_call [OF tpm wf code len] and flagged = flagged_call [OF tpm wf code len]
  show ?thesis
  proof (cases p)
    case (PolicyPcr tag vals pcrs)
    show ?thesis
      unfolding PolicyPcr Execute_node.simps execute_defs env
      by (rule call) (use cmd fits PolicyPcr in \<open>auto simp: HashPcrs_pcr_digest [OF impl] intro!: sends_intros\<close>)
  next
    case (PolicyAuthValue tag)
    show ?thesis
      unfolding PolicyAuthValue Execute_node.simps execute_defs env
      by (rule flagged) (use cmd PolicyAuthValue in \<open>auto simp: ForceHmac_def intro!: sends_intros\<close>)
  next
    case (PolicyPassword tag)
    show ?thesis
      unfolding PolicyPassword Execute_node.simps execute_defs env
      by (rule flagged) (use cmd PolicyPassword in \<open>auto simp: IncludePassword_def intro!: sends_intros\<close>)
  qed ((use cmd in \<open>simp; fail\<close>) |
      (simp only: Execute_node.simps execute_defs env, rule call,
        (use cmd in \<open>auto intro!: sends_intros\<close>)[1]))+
qed

section \<open>Executing a branch\<close>

definition plain_chain :: "Openssl \<Rightarrow> TPM_ALG_ID \<Rightarrow> PABase list \<Rightarrow> bool" where
  "plain_chain ossl alg ps \<longleftrightarrow> (\<forall>p \<in> set ps. fits_command p \<and> assertion_command ossl alg p \<noteq> None)"

text \<open>
  The refinement: a call, which returns, and the computation in software. Whenever the digest on the TPM is the one
  computed so far, the call succeeds and the digest on the TPM is the one computed next, or the TPM refused a command,
  for which the digest was no reason if \<open>P\<close> holds.
\<close>

definition refines :: "Openssl \<Rightarrow> 'd TpmDevice \<Rightarrow> TPM_ALG_ID \<Rightarrow> ('d \<Rightarrow> ByteVec) \<Rightarrow> addr \<Rightarrow> UINT32 \<Rightarrow>
  (TPMT_HA \<Rightarrow> bool) \<Rightarrow> (TPMT_HA \<Rightarrow> TPMT_HA outcome) \<Rightarrow> ('d, unit) call \<Rightarrow> bool" where
  "refines ossl dev alg pd a h P upd m \<longleftrightarrow> (\<forall>d t acc. executing a h alg d t \<longrightarrow> ha_ok ossl acc \<longrightarrow>
     TPMT_HA_hashAlg acc = alg \<longrightarrow> TPMT_HA_digest acc = pd d \<longrightarrow>
     (\<exists>r t'. m t = Some (r, t') \<and> ((r = Ok () \<and> (\<exists>d' acc'. upd acc = Ok acc' \<and> executing a h alg d' t' \<and>
        ha_ok ossl acc' \<and> TPMT_HA_hashAlg acc' = alg \<and> TPMT_HA_digest acc' = pd d')) \<or>
       stopped ossl alg h dev pd (P acc) r t')))"

lemma refinesD:
  assumes "refines ossl dev alg pd a h P upd m" and "executing a h alg d t" and "ha_ok ossl acc"
    and "TPMT_HA_hashAlg acc = alg" and "TPMT_HA_digest acc = pd d"
  obtains (ok) t' d' acc' where "m t = Some (Ok (), t')" and "upd acc = Ok acc'" and "executing a h alg d' t'"
      and "ha_ok ossl acc'" and "TPMT_HA_hashAlg acc' = alg" and "TPMT_HA_digest acc' = pd d'"
    | (stop) r t' where "m t = Some (r, t')" and "stopped ossl alg h dev pd (P acc) r t'"
  using assms unfolding refines_def by blast

lemma refines_cret: "refines ossl dev alg pd a h P Ok (cret ())"
  by (auto simp: refines_def cret_def)

text \<open>\<open>P\<close> is a precondition under which the digest is never a reason to refuse.\<close>

lemma refines_bind:
  fixes m :: "('d, unit) call"
  assumes m: "refines ossl dev alg pd a h P upd m" and k: "refines ossl dev alg pd a h Q upd' k"
    and pre: "\<And>acc acc'. P acc \<Longrightarrow> upd acc = Ok acc' \<Longrightarrow> Q acc'"
  shows "refines ossl dev alg pd a h P (\<lambda>acc. obind (upd acc) upd') (cbind m (\<lambda>_. k))"
  unfolding refines_def
proof (intro allI impI)
  fix d acc and t :: "'d Tpm2"
  assume "executing a h alg d t" and "ha_ok ossl acc" and "TPMT_HA_hashAlg acc = alg" and "TPMT_HA_digest acc = pd d"
  with m show "\<exists>r t'. cbind m (\<lambda>_. k) t = Some (r, t') \<and> ((r = Ok () \<and> (\<exists>d' acc'. obind (upd acc) upd' = Ok acc' \<and>
      executing a h alg d' t' \<and> ha_ok ossl acc' \<and> TPMT_HA_hashAlg acc' = alg \<and> TPMT_HA_digest acc' = pd d')) \<or>
      stopped ossl alg h dev pd (P acc) r t')"
  proof (cases rule: refinesD)
    case (ok t1 d1 acc1)
    note first = ok
    from k ok(3-6) show ?thesis
    proof (cases rule: refinesD)
      case (ok t2 d2 acc2)
      then show ?thesis by (auto simp: cbind_def first(1,2))
    next
      case (stop r t2)
      have "stopped ossl alg h dev pd (P acc) r t2" by (rule stopped_mono [OF stop(2) pre [OF _ first(2)]])
      then show ?thesis using stop(1) by (auto simp: cbind_def first(1))
    qed
  next
    case (stop r t1)
    then obtain e where "r = Throw e" by (auto simp: stopped_def)
    then show ?thesis using stop by (auto simp: cbind_def)
  qed
qed

lemma refines_node:
  fixes dev :: "'d TpmDevice"
  assumes tpm: "policy_tpm there ossl alg h dev pd" and ok: "ossl_ok ossl" and env: "pe_ossl env = ossl"
    and fits: "fits_command p" and there: "registers there p" and cmd: "assertion_command ossl alg p \<noteq> None"
  shows "refines ossl dev alg pd a h P (UpdatePolicyDigest ossl p) (Execute_node env dev a p)"
  unfolding refines_def
proof (intro allI impI)
  fix d acc and t :: "'d Tpm2"
  assume ex: "executing a h alg d t" and acc: "ha_ok ossl acc" "TPMT_HA_hashAlg acc = alg" "TPMT_HA_digest acc = pd d"
  obtain cc params where c: "assertion_command ossl alg p = Some (cc, params)" using cmd by auto
  have impl: "IsImplemented ossl alg" using acc by (auto simp: ha_ok_def)
  obtain acc' where upd: "UpdatePolicyDigest ossl p acc = Ok acc'"
    and new: "tpm_policy ossl alg cc params (pd d) = Some (TPMT_HA_digest acc')"
    using command_digest [OF ok acc(1) fits, unfolded acc(2,3), OF c] by blast
  have acc': "ha_ok ossl acc'" "TPMT_HA_hashAlg acc' = alg"
    using keeps_ha_assertion [OF ok acc(1), of p] upd acc(2) by (simp_all add: keeps_ha_def)
  from Execute_node_step [OF tpm ok impl env fits there c, of a] ex
  show "\<exists>r t'. Execute_node env dev a p t = Some (r, t') \<and> ((r = Ok () \<and> (\<exists>d' acc'.
      UpdatePolicyDigest ossl p acc = Ok acc' \<and> executing a h alg d' t' \<and> ha_ok ossl acc' \<and>
      TPMT_HA_hashAlg acc' = alg \<and> TPMT_HA_digest acc' = pd d')) \<or> stopped ossl alg h dev pd (P acc) r t')"
  proof (cases rule: policy_stepD)
    case (ok t' d')
    then show ?thesis using upd new acc' by auto
  next
    case (stop r t')
    have "stopped ossl alg h dev pd (P acc) r t'" by (rule stopped_mono [OF stop(2)]) (simp add: new)
    then show ?thesis using stop(1) by blast
  qed
qed

lemma assertion_not_or:
  "assertion_command ossl alg p \<noteq> None \<Longrightarrow> Execute_descend env dev a bid p = Execute_node env dev a p"
  by (cases p) simp_all

lemma plain_not_or: "assertion_command ossl alg p \<noteq> None \<Longrightarrow> \<not> is_or p"
  by (cases p) (simp_all add: is_or_def)

lemma refines_chain:
  assumes "policy_tpm there ossl alg h dev pd" and "ossl_ok ossl" and "pe_ossl env = ossl"
  shows "plain_chain ossl alg ps \<Longrightarrow> \<forall>p \<in> set ps. registers there p \<Longrightarrow>
    refines ossl dev alg pd a h P (update_chain ossl ps) (Execute_chain env dev a bid ps)"
proof (induction ps)
  case Nil
  then show ?case by (simp add: refines_cret)
next
  case (Cons p ps)
  then have p: "fits_command p" "registers there p" "assertion_command ossl alg p \<noteq> None" and ps: "plain_chain ossl alg ps"
    by (simp_all add: plain_chain_def)
  show ?case
    using refines_bind [OF Cons.IH [OF ps] refines_node [OF assms p, where P = "\<lambda>_. True"]] Cons.prems(2)
    by (simp add: refines_def assertion_not_or [OF p(3)])
qed

section \<open>The branch that is executed\<close>

text \<open>What the check of the tags establishes: no tag but the empty one occurs twice.\<close>

lemma check_tags_distinct:
  "check_tags ps allIds = Ok allIds' \<Longrightarrow> set allIds' = set allIds \<union> {Tag p |p. p \<in> set ps \<and> Tag p \<noteq> ''''} \<and>
   (\<forall>p \<in> set ps. Tag p \<noteq> '''' \<longrightarrow> Tag p \<notin> set allIds)"
proof (induction ps arbitrary: allIds)
  case (Cons p ps)
  show ?case
  proof (cases "Tag p = ''''")
    case True
    then show ?thesis using Cons.IH [of allIds] Cons.prems by auto
  next
    case False
    then have "Tag p \<notin> set allIds" "check_tags ps (Tag p # allIds) = Ok allIds'"
      using Cons.prems by (simp_all add: Let_def split: if_splits)
    then show ?thesis using Cons.IH [of "Tag p # allIds"] False by auto
  qed
qed simp

lemma last_ids_plain:
  "\<forall>p \<in> set b. \<not> is_or p \<Longrightarrow> last_ids b (ids, allIds) = (if b = [] then Undef else Ok (ids @ [GetBranchId b], allIds))"
proof (induction b)
  case (Cons p b)
  then show ?case by (cases b; cases p) (simp_all add: GetBranchId_def is_or_def)
qed simp

lemma last_ids_or: "last_ids (ps @ [PolicyOr tag bs]) st = branches_ids bs st"
proof (induction ps)
  case (Cons p ps)
  then show ?case by (cases ps) simp_all
qed simp

lemma branches_ids_plain:
  "branches_ids bs (ids, allIds) = Ok (ids', allIds') \<Longrightarrow> \<forall>b \<in> set bs. \<forall>p \<in> set b. \<not> is_or p \<Longrightarrow>
   ids' = ids @ map GetBranchId bs \<and> [] \<notin> set bs \<and> set allIds \<subseteq> set allIds' \<and>
   (\<forall>b \<in> set bs. GetBranchId b \<noteq> '''' \<longrightarrow> GetBranchId b \<notin> set allIds) \<and>
   distinct (filter (\<lambda>i. i \<noteq> '''') (map GetBranchId bs))"
proof (induction bs arbitrary: ids allIds)
  case (Cons b bs)
  then obtain all1 where c: "check_tags b allIds = Ok all1"
    and rest: "branches_ids bs (ids @ [GetBranchId b], all1) = Ok (ids', allIds')" and b: "b \<noteq> []"
    by (auto simp: obind_eq_Ok last_ids_plain split: if_splits)
  note tags = check_tags_distinct [OF c]
  have "last b \<in> set b" using b by simp
  then have "GetBranchId b \<noteq> '''' \<Longrightarrow> GetBranchId b \<in> set all1 \<and> GetBranchId b \<notin> set allIds"
    using tags unfolding GetBranchId_def by blast
  moreover have "set allIds \<subseteq> set all1" using tags by blast
  ultimately show ?case using Cons.IH [OF rest] Cons.prems(2) b by auto
qed simp

lemma unique_branch:
  assumes "distinct (filter (\<lambda>i. i \<noteq> '''') (map GetBranchId bs))" and "bid \<in> GetBranchId ` set bs" and "bid \<noteq> ''''"
  obtains b where "filter (\<lambda>b. ChainContainsBranch b bid) bs = [b]"
proof -
  have "\<exists>b. filter (\<lambda>b. ChainContainsBranch b bid) bs = [b]"
    using assms
  proof (induction bs)
    case (Cons b bs)
    show ?case
    proof (cases "GetBranchId b = bid")
      case True
      then have "bid \<notin> GetBranchId ` set bs" using Cons.prems by auto
      then have "filter (\<lambda>b. ChainContainsBranch b bid) bs = []"
        by (auto simp: ChainContainsBranch_def filter_empty_conv)
      then show ?thesis using True by (simp add: ChainContainsBranch_def)
    next
      case False
      then show ?thesis using Cons by (auto simp: ChainContainsBranch_def split: if_splits)
    qed
  qed simp
  then show thesis using that by blast
qed

lemma cbind_cret [simp]: "cbind (cret x) f = f x"
  by (simp add: cbind_def cret_def fun_eq_iff)

lemma cbind_assoc: "cbind (cbind m f) g = cbind m (\<lambda>x. cbind (f x) g)"
  by (auto simp: cbind_def fun_eq_iff split: option.splits prod.splits outcome.splits)

lemma Execute_branches_filter:
  "Execute_branches env dev a bid bs = Execute_branches env dev a bid (filter (\<lambda>b. ChainContainsBranch b bid) bs)"
  by (induction bs) simp_all

lemma cbind_cret_right [simp]: "cbind m (\<lambda>_. cret ()) = m" "cbind m cret = m"
  for m :: "('d, unit) call"
  by (auto simp: cbind_def cret_def fun_eq_iff split: option.splits prod.splits outcome.splits)

lemma Execute_chain_append:
  "Execute_chain env dev a bid (ps @ qs) = cbind (Execute_chain env dev a bid qs) (\<lambda>_. Execute_chain env dev a bid ps)"
  by (induction ps) (simp_all add: cbind_assoc)

lemma obind_assoc: "obind (obind r f) g = obind r (\<lambda>x. obind (f x) g)"
  by (cases r) simp_all

lemma update_chain_append:
  "update_chain ossl (ps @ qs) acc = obind (update_chain ossl qs acc) (update_chain ossl ps)"
  by (induction ps) (simp_all add: obind_assoc)

section \<open>Executing a policy\<close>

text \<open>
  The policies that are covered: a chain of plain assertions, or one that ends in a \<open>PolicyOr\<close> of at most eight such
  chains, the number of digests that a TPM takes.
\<close>

definition or_branches :: "Openssl \<Rightarrow> TPM_ALG_ID \<Rightarrow> PABase list list \<Rightarrow> bool" where
  "or_branches ossl alg bs \<longleftrightarrow> length bs \<le> 8 \<and> (\<forall>b \<in> set bs. plain_chain ossl alg b)"

lemma plain_chain_digest:
  assumes ok: "ossl_ok ossl"
  shows "ha_ok ossl acc \<Longrightarrow> plain_chain ossl (TPMT_HA_hashAlg acc) ps \<Longrightarrow>
    \<exists>acc'. update_chain ossl ps acc = Ok acc' \<and> ha_ok ossl acc' \<and> TPMT_HA_hashAlg acc' = TPMT_HA_hashAlg acc"
proof (induction ps)
  case (Cons p ps)
  then obtain acc1 where acc1: "update_chain ossl ps acc = Ok acc1" "ha_ok ossl acc1"
      "TPMT_HA_hashAlg acc1 = TPMT_HA_hashAlg acc"
    by (auto simp: plain_chain_def)
  obtain cc params where "assertion_command ossl (TPMT_HA_hashAlg acc1) p = Some (cc, params)" "fits_command p"
    using Cons.prems(2) acc1(3) by (auto simp: plain_chain_def)
  with command_digest [OF ok acc1(2)] obtain acc2 where "UpdatePolicyDigest ossl p acc1 = Ok acc2" by blast
  then show ?case using keeps_ha_assertion [OF ok acc1(2), of p] acc1 by (simp add: keeps_ha_def)
qed simp

lemma branch_digest:
  assumes "ossl_ok ossl" and "IsImplemented ossl alg" and "plain_chain ossl alg b"
  obtains d where "GetPolicyDigest ossl b alg = Ok d" and "ha_ok ossl d" and "TPMT_HA_hashAlg d = alg"
  using plain_chain_digest [OF assms(1) ha_ok_of_alg [OF assms(2)], of b] assms(3)
  by (auto simp: GetPolicyDigest_def TPMT_HA_of_alg_def)

definition branch_digests :: "Openssl \<Rightarrow> TPM_ALG_ID \<Rightarrow> PABase list list \<Rightarrow> ByteVec list" where
  "branch_digests ossl alg bs =
     map (\<lambda>b. case GetPolicyDigest ossl b alg of Ok d \<Rightarrow> TPMT_HA_digest d | _ \<Rightarrow> []) bs"

lemma hashList_eq:
  assumes "ossl_ok ossl" and "IsImplemented ossl alg"
  shows "\<forall>b \<in> set bs. plain_chain ossl alg b \<Longrightarrow>
    foldr (\<lambda>b r. obind (GetPolicyDigest ossl b alg) (\<lambda>d. obind r (\<lambda>ds.
      Ok (\<lparr>TPM2B_DIGEST_buffer = TPMT_HA_digest d\<rparr> # ds)))) bs (Ok []) =
    Ok (map (\<lambda>d. \<lparr>TPM2B_DIGEST_buffer = d\<rparr>) (branch_digests ossl alg bs)) \<and>
    list_all (\<lambda>x. length x = unat (HashLength alg)) (branch_digests ossl alg bs)"
proof (induction bs)
  case (Cons b bs)
  obtain d where "GetPolicyDigest ossl b alg = Ok d" "ha_ok ossl d" "TPMT_HA_hashAlg d = alg"
    using Cons.prems by (auto elim: branch_digest [OF assms])
  then show ?case using Cons by (simp add: branch_digests_def ha_ok_def)
qed (simp add: branch_digests_def)

lemma on_buf_sseq: "obind (on_buf m b) (\<lambda>(_, b). on_buf k b) = on_buf (sseq m k) b"
  by (cases "m b" rule: prod.exhaust; cases "fst (m b)") (auto simp: on_buf_def sseq_def sbind_def)

lemma write_branches_eq:
  assumes "ossl_ok ossl" and "IsImplemented ossl alg"
  shows "\<forall>b \<in> set bs. plain_chain ossl alg b \<Longrightarrow>
    write_branches ossl bs alg buf =
      obind (on_buf (wseq (map writeByteBuf (branch_digests ossl alg bs))) buf) (\<lambda>(_, b). Ok b)"
proof (induction bs arbitrary: buf)
  case Nil
  then show ?case by (simp add: branch_digests_def on_buf_def ret_app)
next
  case (Cons b bs)
  obtain d where d: "GetPolicyDigest ossl b alg = Ok d"
    using Cons.prems by (auto elim: branch_digest [OF assms])
  then have w: "write_branches ossl (b # bs) alg buf =
      obind (on_buf (writeByteBuf (TPMT_HA_digest d)) buf) (\<lambda>(_, buf). write_branches ossl bs alg buf)"
    by (simp add: GetPolicyDigest_def)
  have "write_branches ossl (b # bs) alg buf =
      obind (obind (on_buf (writeByteBuf (TPMT_HA_digest d)) buf)
        (\<lambda>(_, b). on_buf (wseq (map writeByteBuf (branch_digests ossl alg bs))) b)) (\<lambda>(_, b). Ok b)"
    unfolding w using Cons by (cases "on_buf (writeByteBuf (TPMT_HA_digest d)) buf") auto
  then show ?case unfolding on_buf_sseq by (simp add: branch_digests_def d)
qed

text \<open>\<open>PolicyOr\<close>: the software forgets the digest before it, and the TPM takes it only if it is one of the branches'.\<close>

lemma branch_digests_short:
  assumes "ossl_ok ossl" and "IsImplemented ossl alg" and "or_branches ossl alg bs"
  shows "length (branch_digests ossl alg bs) \<le> 8" and "\<forall>d \<in> set (branch_digests ossl alg bs). length d \<le> 64"
    and "length (concat (branch_digests ossl alg bs)) \<le> 512"
proof -
  show l: "length (branch_digests ossl alg bs) \<le> 8" using assms(3) by (simp add: branch_digests_def or_branches_def)
  show s: "\<forall>d \<in> set (branch_digests ossl alg bs). length d \<le> 64"
    using hashList_eq [OF assms(1,2), of bs] assms(3) IsImplemented_HashLength [OF assms(2)]
    by (auto simp: or_branches_def list_all_iff)
  have "length (concat ds) \<le> 64 * length ds" if "\<forall>d \<in> set ds. length d \<le> 64" for ds :: "ByteVec list"
    using that by (induction ds) auto
  from this [OF s] l show "length (concat (branch_digests ossl alg bs)) \<le> 512" by linarith
qed

lemma UpdatePolicyDigest_Or:
  assumes ok: "ossl_ok ossl" and acc: "ha_ok ossl acc" and bs: "or_branches ossl (TPMT_HA_hashAlg acc) bs"
  shows "UpdatePolicyDigest ossl (PolicyOr tag bs) acc = Ok (extended ossl (Reset acc)
    (enc32 TPM_CC_PolicyOR @ concat (branch_digests ossl (TPMT_HA_hashAlg acc) bs)))"
proof -
  let ?ds = "branch_digests ossl (TPMT_HA_hashAlg acc) bs"
  let ?m = "wseq (map writeByteBuf ?ds)"
  have impl: "IsImplemented ossl (TPMT_HA_hashAlg acc)" using acc by (simp add: ha_ok_def)
  have plain: "\<forall>b \<in> set bs. plain_chain ossl (TPMT_HA_hashAlg acc) b" using bs by (simp add: or_branches_def)
  have "writes ?m (enc_elems id ?ds)" by (rule writes_wseq_map) (simp add: writes_writeByteBuf)
  then have "writes (wseq (writeInt TPM_CC_PolicyOR # map writeByteBuf ?ds)) (enc32 TPM_CC_PolicyOR @ concat ?ds)"
    by (intro writes_wseq_Cons writes_writeInt) (simp add: enc_elems_def)
  then have bytes: "buf_bytes (writeInt TPM_CC_PolicyOR # map writeByteBuf ?ds) = Ok (enc32 TPM_CC_PolicyOR @ concat ?ds)"
    using branch_digests_short(3) [OF ok impl bs] by (intro buf_bytes_enc) simp_all
  have "UpdatePolicyDigest ossl (PolicyOr tag bs) acc =
      obind (obind (on_buf (writeInt TPM_CC_PolicyOR) (TpmBuffer_new default_capacity)) (\<lambda>(_, buf). on_buf ?m buf))
        (\<lambda>(_, buf). obind (outcome_of trim buf) (\<lambda>b. Extend ossl b (Reset acc)))"
    by (cases "on_buf (writeInt TPM_CC_PolicyOR) (TpmBuffer_new default_capacity)")
      (auto simp: PolicyOr_UpdatePolicyDigest_def write_branches_eq [OF ok impl plain] obind_assoc split_def)
  also have "\<dots> = obind (buf_bytes (writeInt TPM_CC_PolicyOR # map writeByteBuf ?ds)) (\<lambda>b. Extend ossl b (Reset acc))"
    unfolding on_buf_sseq buf_bytes_def wseq.simps
    by (cases "sseq (writeInt TPM_CC_PolicyOR) ?m (TpmBuffer_new default_capacity)" rule: prod.exhaust;
        cases "fst (sseq (writeInt TPM_CC_PolicyOR) ?m (TpmBuffer_new default_capacity))")
      (auto simp: on_buf_def outcome_of_def sseq_Ok sseq_def sbind_def)
  finally show ?thesis using bytes by (simp add: Extend_extended ha_ok_Reset [OF acc])
qed

lemma refines_Or:
  fixes dev :: "'d TpmDevice"
  assumes tpm: "policy_tpm there ossl alg h dev pd" and ok: "ossl_ok ossl" and impl: "IsImplemented ossl alg"
    and env: "pe_ossl env = ossl" and bs: "or_branches ossl alg bs"
  shows "refines ossl dev alg pd a h (\<lambda>acc. 2 \<le> length bs \<and> TPMT_HA_digest acc \<in> set (branch_digests ossl alg bs))
    (UpdatePolicyDigest ossl (PolicyOr tag bs)) (Execute_node env dev a (PolicyOr tag bs))"
  unfolding refines_def
proof (intro allI impI)
  fix d acc and t :: "'d Tpm2"
  assume ex: "executing a h alg d t" and acc: "ha_ok ossl acc" "TPMT_HA_hashAlg acc = alg" "TPMT_HA_digest acc = pd d"
  let ?ds = "branch_digests ossl alg bs"
  let ?list = "map (\<lambda>d. \<lparr>TPM2B_DIGEST_buffer = d\<rparr>) ?ds"
  let ?params = "enc_arr TPM2B_DIGEST_enc ?list"
  let ?acc' = "extended ossl (Reset acc) (enc32 TPM_CC_PolicyOR @ concat ?ds)"
  note short = branch_digests_short [OF ok impl bs]
  have length_ds: "length ?ds = length bs" by (simp add: branch_digests_def)
  have valid: "list_all TPM2B_DIGEST_valid ?list"
    using short(2) by (auto simp: list_all_iff TPM2B_DIGEST_valid_def sized_ok_def)
  then have arr: "arr_ok TPM2B_DIGEST_valid ?list" using short(1) by (simp add: arr_ok_def)
  have "length (enc_elems TPM2B_DIGEST_enc (map (\<lambda>d. \<lparr>TPM2B_DIGEST_buffer = d\<rparr>) ds)) = length (concat ds) + 2 * length ds"
    for ds by (induction ds) (simp_all add: TPM2B_DIGEST_enc_def length_enc_sized)
  then have len: "length ?params \<le> 4000" using short(1,3) by (simp add: enc_arr_def)
  have spec: "tpm_policy ossl alg TPM_CC_PolicyOR ?params (pd d) =
      (if 2 \<le> length bs \<and> pd d \<in> set ?ds then Some (TPMT_HA_digest ?acc') else None)"
    using sized_fields_enc [OF valid] acc(1,2) short(1) length_ds
    by (simp add: tpm_policy_def enc_arr_def comp_def extended_def Reset_of_alg TPMT_HA_of_alg_def Let_def split_def)
  have new: "ha_ok ossl ?acc' \<and> TPMT_HA_hashAlg ?acc' = alg"
    using ha_ok_extended [OF ok ha_ok_Reset [OF acc(1)]] acc(2) by (simp add: Reset_def)
  have list: "foldr (\<lambda>b r. obind (GetPolicyDigest ossl b alg) (\<lambda>d. obind r (\<lambda>ds.
      Ok (\<lparr>TPM2B_DIGEST_buffer = TPMT_HA_digest d\<rparr> # ds)))) bs (Ok []) = Ok ?list"
    using hashList_eq [OF ok impl, of bs] bs by (simp add: or_branches_def)
  have "policy_step ossl dev pd a h alg (tpm_policy ossl alg TPM_CC_PolicyOR ?params) (Execute_node env dev a (PolicyOr tag bs))"
    unfolding Execute_node.simps PolicyOr_Execute_def env
    by (rule session_call [OF tpm policy_params.or [OF arr] _ len]) (simp_all add: plain_code_def Let_def list sends_OR [OF arr])
  from this ex show "\<exists>r t'. Execute_node env dev a (PolicyOr tag bs) t = Some (r, t') \<and> ((r = Ok () \<and> (\<exists>d' acc'.
      UpdatePolicyDigest ossl (PolicyOr tag bs) acc = Ok acc' \<and> executing a h alg d' t' \<and> ha_ok ossl acc' \<and>
      TPMT_HA_hashAlg acc' = alg \<and> TPMT_HA_digest acc' = pd d')) \<or>
      stopped ossl alg h dev pd (2 \<le> length bs \<and> TPMT_HA_digest acc \<in> set ?ds) r t')"
  proof (cases rule: policy_stepD)
    case (ok t' d')
    then show ?thesis
      using UpdatePolicyDigest_Or [OF assms(2) acc(1), unfolded acc(2), OF bs, of tag] new spec
      by (auto simp del: UpdatePolicyDigest.simps split: if_splits)
  next
    case (stop r t')
    have "stopped ossl alg h dev pd (2 \<le> length bs \<and> TPMT_HA_digest acc \<in> set ?ds) r t'"
      by (rule stopped_mono [OF stop(2)]) (use spec acc(3) in simp)
    then show ?thesis using stop(1) by blast
  qed
qed

text \<open>
  All of \<open>Execute\<close>, for a policy that ends in a \<open>PolicyOr\<close>: the branch with the identifier, then the \<open>PolicyOr\<close>, then what stands
  before it in the chain.
\<close>

lemma update_branch:
  assumes "ossl_ok ossl" and "or_branches ossl alg bs" and "plain_chain ossl alg b"
    and "ha_ok ossl acc" and "TPMT_HA_hashAlg acc = alg"
  shows "obind (update_chain ossl b acc) (UpdatePolicyDigest ossl (PolicyOr tag bs)) =
    UpdatePolicyDigest ossl (PolicyOr tag bs) acc"
proof -
  obtain acc' where acc': "update_chain ossl b acc = Ok acc'" "ha_ok ossl acc'" "TPMT_HA_hashAlg acc' = alg"
    using plain_chain_digest [OF assms(1,4), of b] assms(3,5) by auto
  have "Reset acc' = Reset acc"
    using Reset_of_alg [OF acc'(2)] Reset_of_alg [OF assms(4)] acc'(3) assms(5) by simp
  then show ?thesis
    using UpdatePolicyDigest_Or [OF assms(1) acc'(2), unfolded acc'(3), OF assms(2)]
      UpdatePolicyDigest_Or [OF assms(1,4), unfolded assms(5), OF assms(2)]
    by (simp add: acc' del: UpdatePolicyDigest.simps)
qed

definition fresh :: "TPM_ALG_ID \<Rightarrow> TPMT_HA \<Rightarrow> bool" where
  "fresh alg acc \<longleftrightarrow> acc = TPMT_HA_of_alg alg"

lemma refines_or_chain:
  fixes dev :: "'d TpmDevice"
  assumes tpm: "policy_tpm there ossl alg h dev pd" and ok: "ossl_ok ossl" and impl: "IsImplemented ossl alg"
    and env: "pe_ossl env = ossl" and bs: "or_branches ossl alg bs" "2 \<le> length bs" and ps: "plain_chain ossl alg ps"
    and there: "\<forall>p \<in> set ps. registers there p" "\<forall>b \<in> set bs. \<forall>p \<in> set b. registers there p"
    and branch: "filter (\<lambda>b. ChainContainsBranch b bid) bs = [b]"
  shows "refines ossl dev alg pd a h (fresh alg) (update_chain ossl (ps @ [PolicyOr tag bs]))
    (Execute_chain env dev a bid (ps @ [PolicyOr tag bs]))"
proof -
  have "b \<in> set (filter (\<lambda>b. ChainContainsBranch b bid) bs)" unfolding branch by simp
  then have b: "b \<in> set bs" "ChainContainsBranch b bid" by simp_all
  then have plain: "plain_chain ossl alg b" "\<forall>p \<in> set b. registers there p"
    using bs(1) there(2) by (simp_all add: or_branches_def)
  have run: "Execute_chain env dev a bid (ps @ [PolicyOr tag bs]) =
      cbind (cbind (Execute_chain env dev a bid b) (\<lambda>_. Execute_node env dev a (PolicyOr tag bs)))
        (\<lambda>_. Execute_chain env dev a bid ps)"
    using b(2) Execute_branches_filter [of env dev a bid bs] by (simp add: Execute_chain_append branch)
  have "refines ossl dev alg pd a h (fresh alg)
      (\<lambda>acc. obind (update_chain ossl b acc) (UpdatePolicyDigest ossl (PolicyOr tag bs)))
      (cbind (Execute_chain env dev a bid b) (\<lambda>_. Execute_node env dev a (PolicyOr tag bs)))"
  proof (rule refines_bind [OF refines_chain [OF tpm ok env plain] refines_Or [OF tpm ok impl env bs(1)]])
    fix acc acc' assume "fresh alg acc" and "update_chain ossl b acc = Ok acc'"
    then have "GetPolicyDigest ossl b alg = Ok acc'" by (simp add: GetPolicyDigest_def fresh_def)
    then show "2 \<le> length bs \<and> TPMT_HA_digest acc' \<in> set (branch_digests ossl alg bs)"
      using b(1) bs(2) by (force simp: branch_digests_def)
  qed
  from refines_bind [OF this refines_chain [OF tpm ok env ps there(1), where P = "\<lambda>_. True"]]
  have "refines ossl dev alg pd a h (fresh alg)
      (\<lambda>acc. obind (obind (update_chain ossl b acc) (UpdatePolicyDigest ossl (PolicyOr tag bs))) (update_chain ossl ps))
      (Execute_chain env dev a bid (ps @ [PolicyOr tag bs]))"
    unfolding run by simp
  then show ?thesis
    using update_branch [OF ok bs(1) plain(1)] unfolding refines_def update_chain_append by (simp add: run)
qed

text \<open>The digest of a session's policy on the TPM and the digest of the policy in software.\<close>

lemma Execute_refines:
  fixes dev :: "'d TpmDevice"
  assumes tpm: "policy_tpm there ossl alg h dev pd" and ok: "ossl_ok ossl" and impl: "IsImplemented ossl alg"
    and env: "pe_ossl env = ossl"
    and policy: "policy = ps \<or> (\<exists>tag bs. policy = ps @ [PolicyOr tag bs] \<and> or_branches ossl alg bs \<and> 2 \<le> length bs \<and>
      (\<forall>b \<in> set bs. \<forall>p \<in> set b. registers there p))"
    and ps: "plain_chain ossl alg ps" "\<forall>p \<in> set ps. registers there p"
    and ids: "GetBranchIds policy = Ok ids" "bid \<in> set ids" "bid \<noteq> ''''"
    and ex: "executing a h alg d t" and zero: "pd d = replicate (unat (HashLength alg)) 0"
  shows "\<exists>r t'. Execute env dev a policy bid t = Some (r, t') \<and>
    ((r = Ok TPM_RC_SUCCESS \<and> (\<exists>d' D. tp_device t' = Some d' \<and> GetPolicyDigest ossl policy alg = Ok D \<and> pd d' = TPMT_HA_digest D)) \<or>
     stopped ossl alg h dev pd True r t')"
proof -
  have run: "refines ossl dev alg pd a h (fresh alg) (update_chain ossl policy) (Execute_chain env dev a bid policy)"
    using policy
  proof (elim disjE exE conjE)
    assume "policy = ps"
    then show ?thesis using refines_chain [OF tpm ok env ps] by simp
  next
    fix tag bs assume p: "policy = ps @ [PolicyOr tag bs]" and bs: "or_branches ossl alg bs" "2 \<le> length bs"
      and there: "\<forall>b \<in> set bs. \<forall>p \<in> set b. registers there p"
    have "\<forall>p \<in> set b. \<not> is_or p" if "b \<in> set bs" for b
      using bs(1) that plain_not_or unfolding or_branches_def plain_chain_def by blast
    moreover obtain allIds allIds' where "branches_ids bs ([], allIds) = Ok (ids, allIds')"
      using ids(1) by (auto simp: GetBranchIds_def GetBranchIdsInternal_def obind_eq_Ok p last_ids_or)
    ultimately obtain b where "filter (\<lambda>b. ChainContainsBranch b bid) bs = [b]"
      using branches_ids_plain [of bs "[]" allIds ids allIds'] ids(2,3) by (auto elim: unique_branch)
    then show ?thesis unfolding p by (rule refines_or_chain [OF tpm ok impl env bs ps there])
  qed
  have acc: "ha_ok ossl (TPMT_HA_of_alg alg)" "TPMT_HA_hashAlg (TPMT_HA_of_alg alg) = alg"
      "TPMT_HA_digest (TPMT_HA_of_alg alg) = pd d"
    using ha_ok_of_alg [OF impl] zero by (simp_all add: TPMT_HA_of_alg_def)
  from run ex acc show ?thesis
  proof (cases rule: refinesD)
    case (ok t' d' acc')
    then show ?thesis
      using ids by (auto simp: Execute_def cbind_def cret_def GetPolicyDigest_def executing_def)
  next
    case (stop r t')
    then obtain e where "r = Throw e" by (auto simp: stopped_def)
    then show ?thesis
      using stop ids stopped_Throw(2) [of ossl alg h dev pd True e t' e] by (auto simp: Execute_def cbind_def fresh_def)
  qed
qed

section \<open>Policies that the code mistreats\<close>

text \<open>A \<open>PolicyOr\<close> none of whose branches has the identifier executes none of them.\<close>

lemma skip_branches:
  "\<forall>b \<in> set bs. GetBranchId b \<noteq> bid \<Longrightarrow> Execute_branches env dev a bid bs = cret ()"
  by (induction bs) (auto simp: ChainContainsBranch_def)

text \<open>A \<open>PolicyOr\<close> before the end of its chain.\<close>

lemma last_ids_after: "qs \<noteq> [] \<Longrightarrow> last_ids (ps @ p # qs) st = last_ids qs st"
proof (induction ps)
  case Nil
  then show ?case by (cases qs) simp_all
next
  case (Cons p' ps)
  then show ?case by (cases ps) simp_all
qed

lemma or_in_the_middle:
  assumes ok: "ossl_ok ossl" and impl: "IsImplemented ossl alg" and bs: "or_branches ossl alg bs"
    and qs: "plain_chain ossl alg qs" and tags: "check_tags (ps @ PolicyOr tag bs # qs) [] = Ok tags" and "qs \<noteq> []"
  shows "GetBranchIds (ps @ PolicyOr tag bs # qs) = Ok [GetBranchId qs]"
    and "GetPolicyDigest ossl (ps @ PolicyOr tag bs # qs) alg = GetPolicyDigest ossl (ps @ [PolicyOr tag bs]) alg"
proof -
  have "\<forall>p \<in> set qs. \<not> is_or p" using qs plain_not_or unfolding plain_chain_def by blast
  then show "GetBranchIds (ps @ PolicyOr tag bs # qs) = Ok [GetBranchId qs]"
    using assms(6) by (simp add: GetBranchIds_def GetBranchIdsInternal_def tags last_ids_after last_ids_plain)
  have "obind (update_chain ossl qs (TPMT_HA_of_alg alg)) (UpdatePolicyDigest ossl (PolicyOr tag bs)) =
      UpdatePolicyDigest ossl (PolicyOr tag bs) (TPMT_HA_of_alg alg)"
    by (rule update_branch [OF ok bs qs ha_ok_of_alg [OF impl]]) (simp add: TPMT_HA_of_alg_def)
  then show "GetPolicyDigest ossl (ps @ PolicyOr tag bs # qs) alg = GetPolicyDigest ossl (ps @ [PolicyOr tag bs]) alg"
    by (simp add: GetPolicyDigest_def update_chain_append del: UpdatePolicyDigest.simps)
qed

end
