(* ===== verification/TypeBlobs.thy ===== *)
theory TypeBlobs
  imports PolicyRefinement
begin

unbundle bit_operations_syntax

text \<open>
  \<^verbatim>\<open>TSS.CPP/Src/TpmTypeExtensions.cpp\<close>, \<^verbatim>\<open>TSS.CPP/Src/Crypto.cpp\<close>: what software makes for a TPM to open:
  encrypted salts, credentials (\<open>CreateActivation\<close>) and duplicated keys (\<open>GetDuplicationBlob\<close>). The TPM's side
  is described after Parts 1 and 3 of the specification, over the private key operation that only it can do; it
  gets back what was put in.

  The RSA arithmetic of OpenSSL is the parameter \<open>rsa_oaep\<close>: OAEP encryption over a hash algorithm, under an exponent
  and a modulus, with a label; \<open>None\<close> is the result -1. The code always encrypts over SHA-1 and with the exponent 65537,
  whatever the key says; the TPM decrypts with the name algorithm and the exponent of the key. The random numbers are
  those of the \<open>i\<close>-th call and the ones after it.
\<close>

section \<open>RSA\<close>

type_synonym rsa_oaep = "TPM_ALG_ID \<Rightarrow> nat \<Rightarrow> ByteVec \<Rightarrow> ByteVec \<Rightarrow> ByteVec \<Rightarrow> ByteVec option"
  \<comment> \<open>hash algorithm, exponent, modulus, label, secret\<close>

text \<open>
  \<open>RsaEncrypt\<close> leaves the exponent of the key, the scheme and the hash algorithm aside: the padding functions of OpenSSL
  that it calls are those over SHA-1, and the exponent is the constant \<open>{1, 0, 1}\<close>.
\<close>

definition RsaEncrypt :: "rsa_oaep \<Rightarrow> ByteVec \<Rightarrow> UINT32 \<Rightarrow> TPM_ALG_ID \<Rightarrow> TPM_ALG_ID \<Rightarrow> ByteVec \<Rightarrow> ByteVec \<Rightarrow> ByteVec option" where
  "RsaEncrypt rsa publicKey exponent scheme hashAlg secret padding = rsa TPM_ALG_ID_SHA1 65537 publicKey padding secret"

text \<open>
  \<open>Crypto::Encrypt\<close>. The result is taken for a \<open>size_t\<close>: -1 is a length that no vector can
  have. The modulus and the result have 4096 bytes of room.
\<close>

definition Crypto_Encrypt :: "rsa_oaep \<Rightarrow> TPMT_PUBLIC \<Rightarrow> ByteVec \<Rightarrow> ByteVec \<Rightarrow> ByteVec outcome" where
  "Crypto_Encrypt rsa pubKey secret encodingParms =
     obind (oderef (TPMT_PUBLIC_parameters pubKey)) (\<lambda>u.
       case as_rsa_parms u of
         None \<Rightarrow> Throw (domain_error ''Only RSA encryption is supported'')
       | Some rsaParms \<Rightarrow> obind (oderef (TPMT_PUBLIC_unique pubKey)) (\<lambda>unique.
         case unique of
           PUBLIC_ID_TPM2B_PUBLIC_KEY_RSA k \<Rightarrow>
             let modulus = TPM2B_PUBLIC_KEY_RSA_buffer k in
             if 4096 < length modulus then Undef
             else (case RsaEncrypt rsa modulus (TPMS_RSA_PARMS_exponent rsaParms) TPM_ALG_ID_OAEP
                 (TPMT_PUBLIC_nameAlg pubKey) secret encodingParms of
                 None \<Rightarrow> Throw (length_error '''')
               | Some res \<Rightarrow> if 4096 < length res then Undef else Ok res)
         | _ \<Rightarrow> Undef))"

definition TPMT_PUBLIC_Encrypt :: "rsa_oaep \<Rightarrow> TPMT_PUBLIC \<Rightarrow> ByteVec \<Rightarrow> ByteVec \<Rightarrow> ByteVec outcome" where
  "TPMT_PUBLIC_Encrypt rsa self secret encodingParms = Crypto_Encrypt rsa self secret encodingParms"

text \<open>A string in a vector that is one byte longer.\<close>

definition label_bytes :: "string \<Rightarrow> ByteVec" where
  "label_bytes idString = overwrite 0 (map of_char idString) (replicate (length idString + 1) 0)"

definition EncryptSessionSalt :: "rsa_oaep \<Rightarrow> TPMT_PUBLIC \<Rightarrow> ByteVec \<Rightarrow> ByteVec outcome" where
  "EncryptSessionSalt rsa self secret = Crypto_Encrypt rsa self secret (label_bytes ''SECRET'')"

text \<open>
  \<open>TSS_KEY::CreateKey\<close> with \<open>Crypto::CreateRsaKey\<close>: \<open>generate\<close> makes a modulus and a prime for a number of bits
  and an exponent. When it fails the vectors stay empty.
\<close>

definition CreateRsaKey ::
  "(UINT16 \<Rightarrow> UINT32 \<Rightarrow> (ByteVec \<times> ByteVec) option) \<Rightarrow> UINT16 \<Rightarrow> UINT32 \<Rightarrow> ByteVec \<times> ByteVec" where
  "CreateRsaKey generate bits exponent =
     (case generate bits (if exponent = 0 then 65537 else exponent) of None \<Rightarrow> ([], []) | Some k \<Rightarrow> k)"

definition TSS_KEY_CreateKey ::
  "(UINT16 \<Rightarrow> UINT32 \<Rightarrow> (ByteVec \<times> ByteVec) option) \<Rightarrow> TSS_KEY \<Rightarrow> TSS_KEY outcome" where
  "TSS_KEY_CreateKey generate self =
     (let publicPart = TSS_KEY_publicPart self in
      obind (oderef (TPMT_PUBLIC_parameters publicPart)) (\<lambda>u.
        case as_rsa_parms u of
          None \<Rightarrow> Throw (domain_error ''Only RSA activation supported'')
        | Some parms \<Rightarrow>
            let (pub, priv) = CreateRsaKey generate (TPMS_RSA_PARMS_keyBits parms) (TPMS_RSA_PARMS_exponent parms) in
            obind (oderef (TPMT_PUBLIC_unique publicPart)) (\<lambda>unique.
              case unique of
                PUBLIC_ID_TPM2B_PUBLIC_KEY_RSA _ \<Rightarrow>
                  Ok \<lparr>TSS_KEY_publicPart = publicPart\<lparr>TPMT_PUBLIC_unique :=
                        Some (PUBLIC_ID_TPM2B_PUBLIC_KEY_RSA \<lparr>TPM2B_PUBLIC_KEY_RSA_buffer = pub\<rparr>)\<rparr>,
                      TSS_KEY_privatePart = priv\<rparr>
              | _ \<Rightarrow> Undef)))"

section \<open>Credentials\<close>

record ActivationData =
  act_CredentialBlob :: TPMS_ID_OBJECT
  act_Secret :: ByteVec

definition CreateActivation ::
  "Openssl \<Rightarrow> rsa_oaep \<Rightarrow> nat \<Rightarrow> TPMT_PUBLIC \<Rightarrow> ByteVec \<Rightarrow> ByteVec \<Rightarrow> ActivationData outcome" where
  "CreateActivation ossl rsa i self secret activatedName =
     obind (oderef (TPMT_PUBLIC_parameters self)) (\<lambda>u.
       case as_rsa_parms u of
         None \<Rightarrow> Throw (domain_error ''Only RSA activation supported'')
       | Some parms \<Rightarrow>
           let symDef = TPMS_RSA_PARMS_symmetric parms; nameAlg = TPMT_PUBLIC_nameAlg self in
           if TPMT_SYM_DEF_OBJECT_algorithm symDef \<noteq> TPM_ALG_ID_AES \<or> TPMT_SYM_DEF_OBJECT_keyBits symDef \<noteq> 128 \<or>
              TPMT_SYM_DEF_OBJECT_mode symDef \<noteq> TPM_ALG_ID_CFB
           then Throw (domain_error ''Unsupported wrapping scheme'')
           else
             let seed = ossl_rand ossl i 16 in
             obind (TPMT_PUBLIC_Encrypt rsa self seed (label_bytes ''IDENTITY'')) (\<lambda>encSeed.
             obind (toBytes TPM2B_DIGEST_toTpm \<lparr>TPM2B_DIGEST_buffer = secret\<rparr>) (\<lambda>lengthPrependedSecret.
             obind (KDFa ossl nameAlg seed ''STORAGE'' activatedName [] 128) (\<lambda>symKey.
             obind (CFBXcrypt ossl True TPM_ALG_ID_AES symKey [] lengthPrependedSecret) (\<lambda>encIdentity.
             obind (KDFa ossl nameAlg seed ''INTEGRITY'' [] [] (ucast (HashLength nameAlg) * 8)) (\<lambda>hmacKey.
             obind (HMAC ossl nameAlg hmacKey (Concatenate [encIdentity, activatedName])) (\<lambda>outerHmac.
               Ok \<lparr>act_CredentialBlob = \<lparr>TPMS_ID_OBJECT_integrityHMAC = outerHmac,
                     TPMS_ID_OBJECT_encIdentity = encIdentity\<rparr>, act_Secret = encSeed\<rparr>)))))))"

section \<open>Duplication\<close>

definition ToTpm2B :: "ByteVec \<Rightarrow> ByteVec outcome" where
  "ToTpm2B data = (case wseq [writeShort (of_nat (length data)), writeByteBuf data] (TpmBuffer_new (length data + 2)) of
     (r, buf) \<Rightarrow> obind r (\<lambda>_. Ok (tb_buf buf)))"

record DuplicationBlob =
  db_DuplicateObject :: ByteVec
  db_EncryptedSeed :: ByteVec
  db_InnerWrapperKey :: ByteVec

text \<open>The scheme is refused only when everything about it is wrong.\<close>

definition wrong_scheme :: "TPMT_SYM_DEF_OBJECT \<Rightarrow> bool" where
  "wrong_scheme s \<longleftrightarrow> TPMT_SYM_DEF_OBJECT_algorithm s \<noteq> TPM_ALG_ID_AES \<and>
     TPMT_SYM_DEF_OBJECT_keyBits s \<noteq> 128 \<and> TPMT_SYM_DEF_OBJECT_mode s \<noteq> TPM_ALG_ID_CFB"

text \<open>The inner wrapper: what is encrypted for the new parent, and the key of the wrapper.\<close>

definition inner_wrapper ::
  "Openssl \<Rightarrow> nat \<Rightarrow> TPM_ALG_ID \<Rightarrow> TPMT_PUBLIC \<Rightarrow> TPMT_SENSITIVE \<Rightarrow> TPMT_SYM_DEF_OBJECT \<Rightarrow>
     (ByteVec \<times> ByteVec \<times> nat) outcome" where
  "inner_wrapper ossl i nameAlg pub sensitive innerWrapper =
     (if TPMT_SYM_DEF_OBJECT_algorithm innerWrapper = TPM_ALG_ID_NULL
      then obind (asTpm2B TPMT_SENSITIVE_toTpm sensitive) (\<lambda>sens. Ok (sens, [], i))
      else if wrong_scheme innerWrapper
      then Throw (thrown_pointer ''innerWrapper KeyDef is not supported for import'')
      else
        obind (asTpm2B TPMT_SENSITIVE_toTpm sensitive) (\<lambda>sens.
        obind (TPMT_PUBLIC_GetName ossl pub) (\<lambda>name.
        obind (Hash_all ossl nameAlg (Concatenate [sens, name])) (\<lambda>integrity.
        obind (ToTpm2B integrity) (\<lambda>innerIntegrity.
          let innerWrapperKey = ossl_rand ossl i 16 in
          obind (CFBXcrypt ossl True TPM_ALG_ID_AES innerWrapperKey [] (Concatenate [innerIntegrity, sens]))
            (\<lambda>encryptedSensitive. Ok (encryptedSensitive, innerWrapperKey, i + 1)))))))"

definition GetDuplicationBlob ::
  "Openssl \<Rightarrow> rsa_oaep \<Rightarrow> nat \<Rightarrow> TPMT_PUBLIC \<Rightarrow> TPMT_PUBLIC \<Rightarrow> TPMT_SENSITIVE \<Rightarrow> TPMT_SYM_DEF_OBJECT \<Rightarrow>
     DuplicationBlob outcome" where
  "GetDuplicationBlob ossl rsa i self pub sensitive innerWrapper =
     obind (oderef (TPMT_PUBLIC_parameters self)) (\<lambda>u.
       if TPMU_PUBLIC_PARMS_GetUnionSelector u \<noteq> TPM_ALG_ID_RSA
       then Throw (thrown_pointer ''Only import of keys to RSA storage parents supported'')
       else
         let nameAlg = TPMT_PUBLIC_nameAlg self in
         obind (inner_wrapper ossl i nameAlg pub sensitive innerWrapper)
           (\<lambda>(encryptedSensitive, innerWrapperKey, i).
         obind (oderef (as_rsa_parms u)) (\<lambda>newParentParms.
         if wrong_scheme (TPMS_RSA_PARMS_symmetric newParentParms)
         then Throw (thrown_pointer ''new parent symmetric key is not supported for import'')
         else
           let seed = ossl_rand ossl i (unat (HashLength (TPMT_PUBLIC_nameAlg pub))) in
           obind (TPMT_PUBLIC_Encrypt rsa self seed (StringToEncodingParms ''DUPLICATE'')) (\<lambda>encryptedSeed.
           obind (TPMT_PUBLIC_GetName ossl pub) (\<lambda>name.
           obind (KDFa ossl nameAlg seed ''STORAGE'' name [] 128) (\<lambda>symmKey.
           obind (CFBXcrypt ossl True TPM_ALG_ID_AES symmKey [] encryptedSensitive) (\<lambda>dupSensitive.
           obind (KDFa ossl nameAlg seed ''INTEGRITY'' [] [] (ucast (HashLength nameAlg) * 8)) (\<lambda>hmacKey.
           obind (HMAC ossl nameAlg hmacKey (Concatenate [dupSensitive, name])) (\<lambda>outerHmacBytes.
           obind (ToTpm2B outerHmacBytes) (\<lambda>outerHmac.
             Ok \<lparr>db_DuplicateObject = Concatenate [outerHmac, dupSensitive], db_EncryptedSeed = encryptedSeed,
               db_InnerWrapperKey = innerWrapperKey\<rparr>))))))))))"

definition CreateImportableObject ::
  "Openssl \<Rightarrow> rsa_oaep \<Rightarrow> nat \<Rightarrow> TPMT_PUBLIC \<Rightarrow> TPMT_PUBLIC \<Rightarrow> TPMT_SENSITIVE \<Rightarrow> TPMT_SYM_DEF_OBJECT \<Rightarrow>
     DuplicationBlob outcome" where
  "CreateImportableObject ossl rsa i self pub sensitive innerWrapper =
     GetDuplicationBlob ossl rsa i self pub sensitive innerWrapper"

section \<open>The TPM's side\<close>

text \<open>
  \<open>unseal\<close> is the decryption with the private key that stays in the TPM. It undoes an encryption over the same hash
  algorithm, with the same label and with the exponent of the key, of what OAEP has room for.
\<close>

type_synonym unseal = "TPM_ALG_ID \<Rightarrow> ByteVec \<Rightarrow> ByteVec \<Rightarrow> ByteVec option"
  \<comment> \<open>hash algorithm, label, ciphertext\<close>

definition oaep_ok :: "rsa_oaep \<Rightarrow> unseal \<Rightarrow> nat \<Rightarrow> ByteVec \<Rightarrow> bool" where
  "oaep_ok rsa unseal e modulus \<longleftrightarrow> (\<forall>a label seed.
     a \<in> {TPM_ALG_ID_SHA1, TPM_ALG_ID_SHA256, TPM_ALG_ID_SHA384, TPM_ALG_ID_SHA512} \<and>
     length seed + 2 * unat (HashLength a) + 2 \<le> length modulus \<longrightarrow>
     (\<exists>c. rsa a e modulus label seed = Some c \<and> length c = length modulus \<and> unseal a label c = Some seed))"

text \<open>An RSA key of 1024 to 4096 bits that the TPM can decrypt with; the exponent 0 stands for 65537.\<close>

definition key_exponent :: "TPMS_RSA_PARMS \<Rightarrow> nat" where
  "key_exponent parms = (if TPMS_RSA_PARMS_exponent parms = 0 then 65537 else unat (TPMS_RSA_PARMS_exponent parms))"

definition rsa_key_ok :: "rsa_oaep \<Rightarrow> unseal \<Rightarrow> TPMT_PUBLIC \<Rightarrow> bool" where
  "rsa_key_ok rsa unseal pub \<longleftrightarrow> (\<exists>parms k. TPMT_PUBLIC_parameters pub = Some (PUBLIC_PARMS_TPMS_RSA_PARMS parms) \<and>
     TPMT_PUBLIC_unique pub = Some (PUBLIC_ID_TPM2B_PUBLIC_KEY_RSA k) \<and>
     length (TPM2B_PUBLIC_KEY_RSA_buffer k) \<in> {128..512} \<and>
     oaep_ok rsa unseal (key_exponent parms) (TPM2B_PUBLIC_KEY_RSA_buffer k))"

text \<open>The keys that what the code always does is right for.\<close>

definition sha1_key :: "TPMT_PUBLIC \<Rightarrow> bool" where
  "sha1_key pub \<longleftrightarrow> TPMT_PUBLIC_nameAlg pub = TPM_ALG_ID_SHA1 \<and>
     (\<exists>parms. TPMT_PUBLIC_parameters pub = Some (PUBLIC_PARMS_TPMS_RSA_PARMS parms) \<and> key_exponent parms = 65537)"

text \<open>A parent with AES-128 in CFB mode.\<close>

definition storage_parent :: "TPMT_PUBLIC \<Rightarrow> bool" where
  "storage_parent pub \<longleftrightarrow> (\<exists>parms. TPMT_PUBLIC_parameters pub = Some (PUBLIC_PARMS_TPMS_RSA_PARMS parms) \<and>
     TPMS_RSA_PARMS_symmetric parms = \<lparr>TPMT_SYM_DEF_OBJECT_algorithm = TPM_ALG_ID_AES,
       TPMT_SYM_DEF_OBJECT_keyBits = 128, TPMT_SYM_DEF_OBJECT_mode = TPM_ALG_ID_CFB\<rparr>)"

text \<open>
  The TPM decrypts over the name algorithm of the key and takes a seed that is no longer than a digest of it.
\<close>

definition unseal_seed :: "unseal \<Rightarrow> TPM_ALG_ID \<Rightarrow> string \<Rightarrow> ByteVec \<Rightarrow> ByteVec option" where
  "unseal_seed unseal a label c = Option.bind (unseal a (map of_char label @ [0]) c)
     (\<lambda>seed. if length seed \<le> unat (HashLength a) then Some seed else None)"

definition tpm_kdf :: "Openssl \<Rightarrow> TPM_ALG_ID \<Rightarrow> ByteVec \<Rightarrow> string \<Rightarrow> ByteVec \<Rightarrow> UINT32 \<Rightarrow> ByteVec" where
  "tpm_kdf ossl a key label u n = take (unat n div 8) (kdf_stream ossl a key label u [] n
     ((unat n + 8 * unat (HashLength a) - 1) div (8 * unat (HashLength a))))"

text \<open>The outer wrapper of credentials and of duplicated objects.\<close>

definition unwrap_outer :: "Openssl \<Rightarrow> TPM_ALG_ID \<Rightarrow> ByteVec \<Rightarrow> ByteVec \<Rightarrow> ByteVec \<Rightarrow> ByteVec \<Rightarrow> ByteVec option" where
  "unwrap_outer ossl a seed name integrity enc =
     (if integrity = ossl_hmac ossl a (tpm_kdf ossl a seed ''INTEGRITY'' [] (ucast (HashLength a) * 8)) (enc @ name)
      then Some (ossl_cfb128 ossl False (tpm_kdf ossl a seed ''STORAGE'' name 128) (replicate 16 0) enc) else None)"

text \<open>A size-prefixed field and the rest.\<close>

fun split2B :: "ByteVec \<Rightarrow> (ByteVec \<times> ByteVec) option" where
  "split2B (hi # lo # bs) = (let n = 256 * unat hi + unat lo in
     if n \<le> length bs then Some (take n bs, drop n bs) else None)"
| "split2B bs = None"

definition whole2B :: "ByteVec \<Rightarrow> ByteVec option" where
  "whole2B bs = (case split2B bs of Some (x, []) \<Rightarrow> Some x | _ \<Rightarrow> None)"

text \<open>\<open>TPM2_ActivateCredential\<close>, for the object with a name.\<close>

definition activate_credential ::
  "Openssl \<Rightarrow> unseal \<Rightarrow> TPM_ALG_ID \<Rightarrow> ByteVec \<Rightarrow> ActivationData \<Rightarrow> ByteVec option" where
  "activate_credential ossl unseal a name act =
     Option.bind (unseal_seed unseal a ''IDENTITY'' (act_Secret act)) (\<lambda>seed.
     Option.bind (unwrap_outer ossl a seed name (TPMS_ID_OBJECT_integrityHMAC (act_CredentialBlob act))
       (TPMS_ID_OBJECT_encIdentity (act_CredentialBlob act))) whole2B)"

text \<open>\<open>TPM2_Import\<close>: \<open>a\<close> is the name algorithm of the parent, \<open>oa\<close> the one of the object.\<close>

definition unwrap_inner :: "Openssl \<Rightarrow> TPM_ALG_ID \<Rightarrow> ByteVec \<Rightarrow> ByteVec \<Rightarrow> ByteVec \<Rightarrow> ByteVec option" where
  "unwrap_inner ossl oa name key data =
     (if key = [] then Some data
      else Option.bind (split2B (ossl_cfb128 ossl False key (replicate 16 0) data)) (\<lambda>(integrity, sens).
        if integrity = ossl_digest ossl oa (sens @ name) then Some sens else None))"

definition import_object ::
  "Openssl \<Rightarrow> unseal \<Rightarrow> TPM_ALG_ID \<Rightarrow> TPM_ALG_ID \<Rightarrow> ByteVec \<Rightarrow> DuplicationBlob \<Rightarrow> TPMT_SENSITIVE option" where
  "import_object ossl unseal a oa name blob =
     Option.bind (unseal_seed unseal a ''DUPLICATE'' (db_EncryptedSeed blob)) (\<lambda>seed.
     Option.bind (split2B (db_DuplicateObject blob)) (\<lambda>(integrity, enc).
     Option.bind (unwrap_outer ossl a seed name integrity enc) (\<lambda>data.
     Option.bind (unwrap_inner ossl oa name (db_InnerWrapperKey blob) data) (\<lambda>sens.
     Option.bind (whole2B sens) (\<lambda>area.
       case fromBytes TPMT_SENSITIVE_initFromTpm TPMT_SENSITIVE_default area of Ok s \<Rightarrow> Some s | _ \<Rightarrow> None)))))"

section \<open>What each step gives\<close>

lemma label_bytes: "label_bytes s = map of_char s @ [0]"
  by (simp add: label_bytes_def overwrite_def flip: replicate_append_same)

lemma Crypto_Encrypt_Ok:
  assumes "rsa_key_ok rsa unseal self" and "sha1_key self" and "length seed \<le> 20"
  obtains c where "TPMT_PUBLIC_Encrypt rsa self seed (map of_char label @ [0]) = Ok c" and "length c \<le> 512"
    and "unseal_seed unseal (TPMT_PUBLIC_nameAlg self) label c = Some seed"
proof -
  let ?label = "map of_char label @ [0]"
  obtain parms k where k: "TPMT_PUBLIC_parameters self = Some (PUBLIC_PARMS_TPMS_RSA_PARMS parms)"
      "TPMT_PUBLIC_unique self = Some (PUBLIC_ID_TPM2B_PUBLIC_KEY_RSA k)"
      "length (TPM2B_PUBLIC_KEY_RSA_buffer k) \<in> {128..512}"
      "oaep_ok rsa unseal (key_exponent parms) (TPM2B_PUBLIC_KEY_RSA_buffer k)"
    using assms(1) by (auto simp: rsa_key_ok_def)
  have e: "key_exponent parms = 65537" and a: "TPMT_PUBLIC_nameAlg self = TPM_ALG_ID_SHA1"
    using assms(2) k(1) by (auto simp: sha1_key_def)
  have h: "unat (HashLength TPM_ALG_ID_SHA1) = 20" by (simp add: HashLength_def)
  have room: "length seed + 2 * unat (HashLength TPM_ALG_ID_SHA1) + 2 \<le> length (TPM2B_PUBLIC_KEY_RSA_buffer k)"
    using k(3) assms(3) h by simp
  obtain c where "rsa TPM_ALG_ID_SHA1 65537 (TPM2B_PUBLIC_KEY_RSA_buffer k) ?label seed = Some c"
      "length c = length (TPM2B_PUBLIC_KEY_RSA_buffer k)" "unseal TPM_ALG_ID_SHA1 ?label c = Some seed"
    using k(4) room unfolding oaep_ok_def e by blast
  then show ?thesis
    using that k(1-3) assms(3) h
    by (simp add: TPMT_PUBLIC_Encrypt_def Crypto_Encrypt_def RsaEncrypt_def oderef_def as_rsa_parms_def unseal_seed_def a)
qed

lemma sha1_key_Implemented [simp]: "sha1_key self \<Longrightarrow> IsImplemented ossl (TPMT_PUBLIC_nameAlg self)"
  by (simp add: sha1_key_def IsImplemented_def)

lemma sha1_key_HashLength: "sha1_key self \<Longrightarrow> unat (HashLength (TPMT_PUBLIC_nameAlg self)) = 20"
  by (simp add: sha1_key_def HashLength_def)

lemma enc_sized_obj:
  assumes "sized_ok 2 x"
  shows "enc_sized 2 x = enc_obj x"
proof -
  have "length x < 65536" using assms by (simp add: sized_ok_def)
  then have "ucast (of_nat (length x) :: UINT32) = (ucast (of_nat (length x) :: UINT16) :: UINT64)"
    by (simp add: word_unat_eq_iff unsigned_ucast_eq unat_of_nat take_bit_nat_eq_self)
  then show ?thesis by (simp only: enc_sized_def enc_obj_def enc16_def)
qed

lemma split2B_obj: "sized_ok 2 x \<Longrightarrow> split2B (enc_obj x @ r) = Some (x, r)"
  by (subst enc_sized_obj [symmetric], assumption, erule sized_prefix) simp

lemma whole2B_obj: "sized_ok 2 x \<Longrightarrow> whole2B (enc_obj x) = Some x"
  using split2B_obj [of x "[]"] by (simp add: whole2B_def)

lemma ToTpm2B_Ok: "ToTpm2B data = Ok (enc_obj data)"
proof -
  have w: "writes (wseq [writeShort (of_nat (length data)), writeByteBuf data]) (enc_obj data)"
    unfolding enc_obj_def by (intro writes_intros)
  have l: "length (enc_obj data) = length data + 2" by (simp add: enc_obj_def)
  show ?thesis
    using writes_Ok [OF w buf_ok_new, of "length data + 2"] l
    by (simp add: ToTpm2B_def fits_new del: wseq.simps) (simp add: put_bytes_def TpmBuffer_new_def overwrite_def)
qed

lemma KDFa_tpm:
  assumes "ossl_ok ossl" and "IsImplemented ossl a" and "unat n \<le> 2 ^ 31" and "unat n mod 8 = 0"
    and "length label + length u + 9 \<le> 4096"
  shows "KDFa ossl a key label u [] n = Ok (tpm_kdf ossl a key label u n)"
  using KDFa_bytes [OF assms(1-4), of label u "[]" key] assms(5) by (simp add: tpm_kdf_def)

text \<open>Software wraps data as the TPM unwraps them.\<close>

lemma outer_wrapper:
  assumes ossl: "ossl_ok ossl" and a: "IsImplemented ossl a" and name: "length name \<le> 4000" and data: "data \<noteq> []"
  obtains symKey hmacKey enc integrity where "KDFa ossl a seed ''STORAGE'' name [] 128 = Ok symKey"
    and "CFBXcrypt ossl True TPM_ALG_ID_AES symKey [] data = Ok enc"
    and "KDFa ossl a seed ''INTEGRITY'' [] [] (ucast (HashLength a) * 8) = Ok hmacKey"
    and "HMAC ossl a hmacKey (Concatenate [enc, name]) = Ok integrity"
    and "unwrap_outer ossl a seed name integrity enc = Some data" and "length integrity = unat (HashLength a)"
    and "integrity = ossl_hmac ossl a (tpm_kdf ossl a seed ''INTEGRITY'' [] (ucast (HashLength a) * 8)) (enc @ name)"
proof -
  let ?symKey = "tpm_kdf ossl a seed ''STORAGE'' name 128"
    and ?hmacKey = "tpm_kdf ossl a seed ''INTEGRITY'' [] (ucast (HashLength a) * 8)"
  let ?enc = "ossl_cfb128 ossl True ?symKey (replicate 16 0) data"
  have h: "unat (HashLength a) \<in> {20, 32, 48, 64}" by (rule IsImplemented_HashLength [OF a])
  have n: "unat (ucast (HashLength a) * 8 :: UINT32) = 8 * unat (HashLength a)" by (rule unat_bitsPerLoop [OF a])
  have k: "KDFa ossl a seed ''STORAGE'' name [] 128 = Ok ?symKey"
    using KDFa_tpm [OF ossl a, of 128] name by simp
  have "length ?symKey = 16"
    using h by (auto simp: tpm_kdf_def length_kdf_stream [OF ossl a])
  then have e: "CFBXcrypt ossl True TPM_ALG_ID_AES ?symKey [] data = Ok ?enc"
    using data by (simp add: CFBXcrypt_def)
  have i: "KDFa ossl a seed ''INTEGRITY'' [] [] (ucast (HashLength a) * 8) = Ok ?hmacKey"
    using KDFa_tpm [OF ossl a, of "ucast (HashLength a) * 8"] n h by auto
  have "HMAC ossl a ?hmacKey (Concatenate [?enc, name]) = Ok (ossl_hmac ossl a ?hmacKey (?enc @ name))"
    by (simp add: HMAC_Ok [OF ossl a] Concatenate_def)
  moreover have "unwrap_outer ossl a seed name (ossl_hmac ossl a ?hmacKey (?enc @ name)) ?enc = Some data"
    using ossl by (simp add: unwrap_outer_def ossl_ok_def)
  moreover have "length (ossl_hmac ossl a ?hmacKey (?enc @ name)) = unat (HashLength a)"
    using ossl a by (simp add: ossl_ok_def)
  ultimately show ?thesis using that [OF k e i] by blast
qed

lemma sized_digest: "IsImplemented ossl a \<Longrightarrow> length x = unat (HashLength a) \<Longrightarrow> sized_ok 2 x"
  using IsImplemented_HashLength [of ossl a] by (auto simp: sized_ok_def)

section \<open>What was put in comes out\<close>

text \<open>The value that ties the encrypted credential to a name: its key is derived from the seed.\<close>

definition credential_hmac :: "Openssl \<Rightarrow> TPM_ALG_ID \<Rightarrow> ByteVec \<Rightarrow> ActivationData \<Rightarrow> ByteVec \<Rightarrow> ByteVec" where
  "credential_hmac ossl a seed act name = ossl_hmac ossl a (tpm_kdf ossl a seed ''INTEGRITY'' [] (ucast (HashLength a) * 8))
     (TPMS_ID_OBJECT_encIdentity (act_CredentialBlob act) @ name)"

lemma CreateActivation_opens:
  assumes ossl: "ossl_ok ossl" and key: "rsa_key_ok rsa unseal self" and sha1: "sha1_key self"
    and parent: "storage_parent self" and len: "length name \<le> 4000" "length secret \<le> 4094"
  shows "\<exists>act. CreateActivation ossl rsa i self secret name = Ok act \<and>
    activate_credential ossl unseal (TPMT_PUBLIC_nameAlg self) name act = Some secret \<and>
    (\<forall>name' s. activate_credential ossl unseal (TPMT_PUBLIC_nameAlg self) name' act = Some s \<longrightarrow>
      credential_hmac ossl (TPMT_PUBLIC_nameAlg self) (ossl_rand ossl i 16) act name' =
      credential_hmac ossl (TPMT_PUBLIC_nameAlg self) (ossl_rand ossl i 16) act name)"
proof -
  have a: "IsImplemented ossl (TPMT_PUBLIC_nameAlg self)" using sha1 by simp
  obtain parms where parms: "TPMT_PUBLIC_parameters self = Some (PUBLIC_PARMS_TPMS_RSA_PARMS parms)"
    and sym: "TPMS_RSA_PARMS_symmetric parms = \<lparr>TPMT_SYM_DEF_OBJECT_algorithm = TPM_ALG_ID_AES,
      TPMT_SYM_DEF_OBJECT_keyBits = 128, TPMT_SYM_DEF_OBJECT_mode = TPM_ALG_ID_CFB\<rparr>"
    using parent by (auto simp: storage_parent_def)
  let ?a = "TPMT_PUBLIC_nameAlg self" and ?seed = "ossl_rand ossl i 16"
  have seed: "length ?seed \<le> 20" using ossl by (simp add: ossl_ok_def)
  obtain c where c: "TPMT_PUBLIC_Encrypt rsa self ?seed (label_bytes ''IDENTITY'') = Ok c"
      "unseal_seed unseal ?a ''IDENTITY'' c = Some ?seed"
    unfolding label_bytes by (rule Crypto_Encrypt_Ok [OF key sha1 seed])
  have ok: "sized_ok 2 secret" using len(2) by (simp add: sized_ok_def)
  then have d: "toBytes TPM2B_DIGEST_toTpm \<lparr>TPM2B_DIGEST_buffer = secret\<rparr> = Ok (enc_obj secret)"
    using len(2) enc_sized_obj [OF ok]
    by (subst TPM2B_DIGEST_codec.toBytes_enc) (simp_all add: TPM2B_DIGEST_valid_def TPM2B_DIGEST_enc_def enc_obj_def)
  have ne: "enc_obj secret \<noteq> []" by (simp add: enc_obj_def)
  obtain symKey hmacKey enc integrity where w: "KDFa ossl ?a ?seed ''STORAGE'' name [] 128 = Ok symKey"
      "CFBXcrypt ossl True TPM_ALG_ID_AES symKey [] (enc_obj secret) = Ok enc"
      "KDFa ossl ?a ?seed ''INTEGRITY'' [] [] (ucast (HashLength ?a) * 8) = Ok hmacKey"
      "HMAC ossl ?a hmacKey (Concatenate [enc, name]) = Ok integrity"
      "unwrap_outer ossl ?a ?seed name integrity enc = Some (enc_obj secret)"
      "integrity = ossl_hmac ossl ?a (tpm_kdf ossl ?a ?seed ''INTEGRITY'' [] (ucast (HashLength ?a) * 8)) (enc @ name)"
    by (rule outer_wrapper [OF ossl a len(1) ne])
  let ?act = "\<lparr>act_CredentialBlob = \<lparr>TPMS_ID_OBJECT_integrityHMAC = integrity, TPMS_ID_OBJECT_encIdentity = enc\<rparr>, act_Secret = c\<rparr>"
  have "CreateActivation ossl rsa i self secret name = Ok ?act"
    using c(1) d w(1-4) by (simp add: CreateActivation_def parms oderef_def as_rsa_parms_def sym Let_def)
  moreover have "activate_credential ossl unseal ?a name ?act = Some secret"
    using c(2) w(5) whole2B_obj [OF ok] by (simp add: activate_credential_def)
  moreover have "credential_hmac ossl ?a ?seed ?act name' = credential_hmac ossl ?a ?seed ?act name"
    if "activate_credential ossl unseal ?a name' ?act = Some s" for name' s
    using that c(2) w(6) by (auto simp: activate_credential_def unwrap_outer_def credential_hmac_def split: if_splits)
  ultimately show ?thesis by blast
qed

text \<open>The sensitive area in its size-prefixed form.\<close>

lemma sensitive_2B:
  assumes "TPMT_SENSITIVE_valid x" and "length (TPMT_SENSITIVE_enc x) + 2 \<le> 4096"
  shows "asTpm2B TPMT_SENSITIVE_toTpm x = Ok (enc_obj (TPMT_SENSITIVE_enc x))"
    and "whole2B (enc_obj (TPMT_SENSITIVE_enc x)) = Some (TPMT_SENSITIVE_enc x)"
    and "fromBytes TPMT_SENSITIVE_initFromTpm TPMT_SENSITIVE_default (TPMT_SENSITIVE_enc x) = Ok x"
  using assms TPMT_SENSITIVE_codec.asTpm2B_enc [of x] TPMT_SENSITIVE_codec.fromBytes_enc [of x "[]"]
    whole2B_obj [of "TPMT_SENSITIVE_enc x"] by (simp_all add: sized_ok_def)

lemma enc_obj_nonempty [simp]: "enc_obj x \<noteq> []" "enc_obj x @ y \<noteq> []"
  by (simp_all add: enc_obj_def)

text \<open>
  The inner wrapper is hashed with the name algorithm of the new parent, where the specification has the one of the
  object, so the two have to be the same.
\<close>

lemma inner_wrapper_Ok:
  assumes ossl: "ossl_ok ossl" and a: "IsImplemented ossl a"
    and sens: "TPMT_SENSITIVE_valid sensitive" "length (TPMT_SENSITIVE_enc sensitive) + 2 \<le> 4096"
    and name: "TPMT_PUBLIC_GetName ossl pub = Ok name"
    and inner: "TPMT_SYM_DEF_OBJECT_algorithm innerWrapper \<in> {TPM_ALG_ID_NULL, TPM_ALG_ID_AES}"
      "TPMT_SYM_DEF_OBJECT_algorithm innerWrapper = TPM_ALG_ID_AES \<Longrightarrow> oa = a"
  obtains data key j where "inner_wrapper ossl i a pub sensitive innerWrapper = Ok (data, key, j)" and "data \<noteq> []"
    and "unwrap_inner ossl oa name key data = Some (enc_obj (TPMT_SENSITIVE_enc sensitive))"
proof (cases "TPMT_SYM_DEF_OBJECT_algorithm innerWrapper = TPM_ALG_ID_NULL")
  case True
  then show ?thesis
    using sensitive_2B(1) [OF sens]
    by (intro that [of "enc_obj (TPMT_SENSITIVE_enc sensitive)" "[]" i]) (simp_all add: inner_wrapper_def unwrap_inner_def)
next
  case False
  then have aes: "TPMT_SYM_DEF_OBJECT_algorithm innerWrapper = TPM_ALG_ID_AES" using inner(1) by simp
  let ?sens = "enc_obj (TPMT_SENSITIVE_enc sensitive)" and ?key = "ossl_rand ossl i 16"
  let ?hash = "ossl_digest ossl a (?sens @ name)"
  let ?plain = "enc_obj ?hash @ ?sens"
  let ?data = "ossl_cfb128 ossl True ?key (replicate 16 0) ?plain"
  have key: "length ?key = 16" using ossl by (simp add: ossl_ok_def)
  have inv: "ossl_cfb128 ossl False ?key (replicate 16 0) ?data = ?plain" and l: "length ?data = length ?plain"
    using ossl by (simp_all add: ossl_ok_def)
  have "Hash_all ossl a (Concatenate [?sens, name]) = Ok ?hash"
    by (simp add: Hash_all_Ok [OF a] Concatenate_def)
  moreover have "CFBXcrypt ossl True TPM_ALG_ID_AES ?key [] (Concatenate [enc_obj ?hash, ?sens]) = Ok ?data"
    using key by (simp add: CFBXcrypt_def Concatenate_def)
  ultimately have "inner_wrapper ossl i a pub sensitive innerWrapper = Ok (?data, ?key, i + 1)"
    using False aes name sensitive_2B(1) [OF sens]
    by (simp add: inner_wrapper_def wrong_scheme_def ToTpm2B_Ok Let_def)
  moreover have "?data \<noteq> []" using l by (metis enc_obj_nonempty(2) length_0_conv)
  moreover have "sized_ok 2 ?hash" using ossl a by (intro sized_digest [OF a]) (simp add: ossl_ok_def)
  then have "unwrap_inner ossl oa name ?key ?data = Some ?sens"
    using key inner(2) [OF aes] inv split2B_obj [of ?hash ?sens] by (auto simp: unwrap_inner_def)
  ultimately show ?thesis using that by blast
qed

lemma GetDuplicationBlob_imports:
  assumes ossl: "ossl_ok ossl" and key: "rsa_key_ok rsa unseal self" and sha1: "sha1_key self"
    and parent: "storage_parent self"
    and pub: "TPMT_PUBLIC_valid pub" "length (TPMT_PUBLIC_enc pub) \<le> 4096" "TPMT_PUBLIC_nameAlg pub = TPM_ALG_ID_SHA1"
    and sens: "TPMT_SENSITIVE_valid sensitive" "length (TPMT_SENSITIVE_enc sensitive) + 2 \<le> 4096"
    and inner: "TPMT_SYM_DEF_OBJECT_algorithm innerWrapper \<in> {TPM_ALG_ID_NULL, TPM_ALG_ID_AES}"
  shows "\<exists>blob name. GetDuplicationBlob ossl rsa i self pub sensitive innerWrapper = Ok blob \<and>
    TPMT_PUBLIC_GetName ossl pub = Ok name \<and>
    import_object ossl unseal (TPMT_PUBLIC_nameAlg self) (TPMT_PUBLIC_nameAlg pub) name blob = Some sensitive"
proof -
  obtain parms where parms: "TPMT_PUBLIC_parameters self = Some (PUBLIC_PARMS_TPMS_RSA_PARMS parms)"
    and sym: "TPMS_RSA_PARMS_symmetric parms = \<lparr>TPMT_SYM_DEF_OBJECT_algorithm = TPM_ALG_ID_AES,
      TPMT_SYM_DEF_OBJECT_keyBits = 128, TPMT_SYM_DEF_OBJECT_mode = TPM_ALG_ID_CFB\<rparr>"
    using parent by (auto simp: storage_parent_def)
  let ?a = "TPMT_PUBLIC_nameAlg self"
  have a: "IsImplemented ossl ?a" using sha1 by simp
  have pa: "TPMT_PUBLIC_nameAlg pub = ?a" using sha1 pub(3) by (simp add: sha1_key_def)
  obtain name where name: "TPMT_PUBLIC_GetName ossl pub = Ok name" "length name = 2 + unat (HashLength (TPMT_PUBLIC_nameAlg pub))"
    using TPMT_PUBLIC_GetName_enc [OF pub(1,2), of ossl] ossl a pa by (simp add: ossl_ok_def)
  have h: "unat (HashLength (TPMT_PUBLIC_nameAlg pub)) = 20" using sha1_key_HashLength [OF sha1] pa by simp
  have nl: "length name \<le> 4000" using name(2) h by auto
  obtain data wkey j where w: "inner_wrapper ossl i ?a pub sensitive innerWrapper = Ok (data, wkey, j)" "data \<noteq> []"
      "unwrap_inner ossl (TPMT_PUBLIC_nameAlg pub) name wkey data = Some (enc_obj (TPMT_SENSITIVE_enc sensitive))"
    by (rule inner_wrapper_Ok [OF ossl a sens name(1) inner pa])
  let ?seed = "ossl_rand ossl j (unat (HashLength (TPMT_PUBLIC_nameAlg pub)))"
  have seed: "length ?seed \<le> 20" using ossl h by (simp add: ossl_ok_def)
  obtain c where c: "TPMT_PUBLIC_Encrypt rsa self ?seed (StringToEncodingParms ''DUPLICATE'') = Ok c"
      "unseal_seed unseal ?a ''DUPLICATE'' c = Some ?seed"
    unfolding StringToEncodingParms_def by (rule Crypto_Encrypt_Ok [OF key sha1 seed])
  obtain symKey hmacKey enc integrity where o: "KDFa ossl ?a ?seed ''STORAGE'' name [] 128 = Ok symKey"
      "CFBXcrypt ossl True TPM_ALG_ID_AES symKey [] data = Ok enc"
      "KDFa ossl ?a ?seed ''INTEGRITY'' [] [] (ucast (HashLength ?a) * 8) = Ok hmacKey"
      "HMAC ossl ?a hmacKey (Concatenate [enc, name]) = Ok integrity"
      "unwrap_outer ossl ?a ?seed name integrity enc = Some data" "length integrity = unat (HashLength ?a)"
    by (rule outer_wrapper [OF ossl a nl w(2)])
  let ?blob = "\<lparr>db_DuplicateObject = Concatenate [enc_obj integrity, enc], db_EncryptedSeed = c, db_InnerWrapperKey = wkey\<rparr>"
  have "GetDuplicationBlob ossl rsa i self pub sensitive innerWrapper = Ok ?blob"
    using c(1) o(1-4) w(1) name(1)
    by (simp add: GetDuplicationBlob_def parms oderef_def as_rsa_parms_def sym Let_def wrong_scheme_def ToTpm2B_Ok)
  moreover have "import_object ossl unseal ?a (TPMT_PUBLIC_nameAlg pub) name ?blob = Some sensitive"
    using c(2) o(5) w(3) split2B_obj [OF sized_digest [OF a o(6)], of enc] sensitive_2B(2,3) [OF sens]
    by (simp add: import_object_def Concatenate_def)
  ultimately show ?thesis using name(1) by blast
qed

end
