(* ===== verification/Tpm2Sessions.thy ===== *)
theory Tpm2Sessions
  imports Tpm2Methods TypeBlobs Samples
begin

unbundle bit_operations_syntax

text \<open>
  \<^verbatim>\<open>TSS.CPP/Src/TpmAuthSessions.cpp\<close>: the overloads of \<open>Tpm2::StartAuthSession\<close> that make an \<open>AUTH_SESSION\<close> of
  the answer of the TPM, and what the session and the TPM have in common afterwards.
\<close>

section \<open>Starting a session\<close>

text \<open>A fresh nonce of the size of a digest.\<close>

definition with_nonce :: "Openssl \<Rightarrow> TPM_ALG_ID \<Rightarrow> (ByteVec \<Rightarrow> ('d, 'a) call) \<Rightarrow> ('d, 'a) call" where
  "with_nonce ossl authHash k t = (case RandomBytes ossl (unat (HashLength authHash)) t of
       (Ok nonceCaller, t) \<Rightarrow> k nonceCaller t
     | (r, t) \<Rightarrow> Some (obind r (\<lambda>_. Undef), t))"

definition session_of ::
  "Openssl \<Rightarrow> TPM_SE \<Rightarrow> TPM_ALG_ID \<Rightarrow> ByteVec \<Rightarrow> TPMA_SESSION \<Rightarrow> TPMT_SYM_DEF \<Rightarrow> ByteVec \<Rightarrow> TPM_HANDLE \<Rightarrow>
     StartAuthSessionResponse \<Rightarrow> AUTH_SESSION outcome" where
  "session_of ossl sessionType authHash nonceCaller attr symDef salt bindHandle resp =
     AUTH_SESSION_new ossl (StartAuthSessionResponse_handle resp) sessionType authHash nonceCaller
       (StartAuthSessionResponse_nonceTPM resp) attr symDef salt bindHandle"

definition then_outcome :: "('d, 'a) call \<Rightarrow> ('a \<Rightarrow> 'b outcome) \<Rightarrow> ('d, 'b) call" where
  "then_outcome m f t = map_option (\<lambda>(r, t). (obind r f, t)) (m t)"

definition no_sym_def :: TPMT_SYM_DEF where
  "no_sym_def = \<lparr>TPMT_SYM_DEF_algorithm = TPM_ALG_ID_NULL, TPMT_SYM_DEF_keyBits = 0, TPMT_SYM_DEF_mode = TPM_ALG_ID_NULL\<rparr>"

definition StartAuthSession :: "Openssl \<Rightarrow> 'd TpmDevice \<Rightarrow> TPM_SE \<Rightarrow> TPM_ALG_ID \<Rightarrow> ('d, AUTH_SESSION) call" where
  "StartAuthSession ossl dev sessionType authHash = with_nonce ossl authHash (\<lambda>nonceCaller.
     then_outcome (Tpm2_StartAuthSession ossl dev TPM_HANDLE_default TPM_HANDLE_default nonceCaller [] sessionType
         no_sym_def authHash)
       (session_of ossl sessionType authHash nonceCaller TPMA_SESSION_continueSession no_sym_def [] TPM_HANDLE_default))"

text \<open>With the attributes and the encryption of the caller.\<close>

definition StartAuthSession_unbound ::
  "Openssl \<Rightarrow> 'd TpmDevice \<Rightarrow> TPM_SE \<Rightarrow> TPM_ALG_ID \<Rightarrow> TPMA_SESSION \<Rightarrow> TPMT_SYM_DEF \<Rightarrow> ('d, AUTH_SESSION) call" where
  "StartAuthSession_unbound ossl dev sessionType authHash attr symDef = with_nonce ossl authHash (\<lambda>nonceCaller.
     then_outcome (Tpm2_StartAuthSession ossl dev TPM_HANDLE_default TPM_HANDLE_default nonceCaller [] sessionType
         symDef authHash)
       (session_of ossl sessionType authHash nonceCaller attr symDef [] TPM_HANDLE_default))"

definition StartAuthSession_salted ::
  "Openssl \<Rightarrow> 'd TpmDevice \<Rightarrow> TPM_HANDLE \<Rightarrow> TPM_HANDLE \<Rightarrow> TPM_SE \<Rightarrow> TPM_ALG_ID \<Rightarrow> TPMA_SESSION \<Rightarrow> TPMT_SYM_DEF \<Rightarrow>
     ByteVec \<Rightarrow> ByteVec \<Rightarrow> ('d, AUTH_SESSION) call" where
  "StartAuthSession_salted ossl dev saltKey bindHandle sessionType authHash attr symDef salt encryptedSalt =
     with_nonce ossl authHash (\<lambda>nonceCaller t.
       let bindHandle = SetRhAuthValue t bindHandle in
       then_outcome (Tpm2_StartAuthSession ossl dev saltKey bindHandle nonceCaller encryptedSalt sessionType
           symDef authHash)
         (session_of ossl sessionType authHash nonceCaller attr symDef salt bindHandle) t)"

section \<open>The TPM's side\<close>

text \<open>
  The session key after Part 1 of the specification: \<open>auth\<close> is the authorization value that the TPM keeps for an
  entity, without its trailing zeros, \<open>unseal\<close> the decryption with the private part of the salt key, and \<open>saltAlg\<close> the
  name algorithm of that key.
\<close>

definition tpm_session_key ::
  "Openssl \<Rightarrow> unseal \<Rightarrow> TPM_ALG_ID \<Rightarrow> (UINT32 \<Rightarrow> ByteVec) \<Rightarrow> TPM_ALG_ID \<Rightarrow> UINT32 \<Rightarrow> ByteVec \<Rightarrow> ByteVec \<Rightarrow> ByteVec \<Rightarrow>
     ByteVec option" where
  "tpm_session_key ossl unseal saltAlg auth authHash bindHandle nonceTPM nonceCaller encryptedSalt =
     (if encryptedSalt = [] \<and> bindHandle = TPM_RH_NULL then Some []
      else Option.bind (if encryptedSalt = [] then Some [] else unseal_seed unseal saltAlg ''SECRET'' encryptedSalt)
        (\<lambda>salt. Some (ossl_hmac ossl authHash (auth bindHandle @ salt)
          (enc32 1 @ map of_char ''ATH'' @ [0] @ nonceTPM @ nonceCaller @ enc32 (ucast (HashLength authHash) * 8)))))"

text \<open>The parameters of the command, as the specification lays them out.\<close>

definition start_params :: "ByteVec \<Rightarrow> ByteVec \<Rightarrow> TPM_SE \<Rightarrow> TPMT_SYM_DEF \<Rightarrow> TPM_ALG_ID \<Rightarrow> ByteVec" where
  "start_params nonceCaller encryptedSalt sessionType symDef authHash =
     enc_sized 2 nonceCaller @ enc_sized 2 encryptedSalt @ enc8 sessionType @ TPMT_SYM_DEF_enc symDef @ enc16 authHash"

definition start_command ::
  "TPM_HANDLE \<Rightarrow> TPM_HANDLE \<Rightarrow> ByteVec \<Rightarrow> ByteVec \<Rightarrow> TPM_SE \<Rightarrow> TPMT_SYM_DEF \<Rightarrow> TPM_ALG_ID \<Rightarrow> ByteVec" where
  "start_command tpmKey bindHandle nonceCaller encryptedSalt sessionType symDef authHash =
     command_bytes TPM_ST_NO_SESSIONS TPM_CC_StartAuthSession [tpmKey, bindHandle] []
       (start_params nonceCaller encryptedSalt sessionType symDef authHash)"

definition start_answer :: "UINT32 \<Rightarrow> ByteVec \<Rightarrow> ByteVec" where
  "start_answer h nonceTPM = raw_response TPM_ST_NO_SESSIONS TPM_RC_SUCCESS (enc32 h @ enc_sized 2 nonceTPM)"

section \<open>A response with a handle\<close>

lemma complete_command_handle:
  assumes tag: "tp_SessTag t = TPM_ST_NO_SESSIONS" and enc: "tp_EncSession t = None"
    and handles: "resp_numHandles m = 1"
    and params: "reads (resp_initFromTpm m (resp_setHandle m (TPM_HANDLE_of h) r)) r' body"
    and last: "UpdateRespHandle ossl cc (Resp_other r') t = (Ok resp', u)"
  shows "complete_command ossl m cc False TPM_ST_NO_SESSIONS (Resp_other r)
      (adv 10 (TpmBuffer_of (raw_response TPM_ST_NO_SESSIONS code (enc32 h @ body)))) t =
    (Ok (True, resp'), u\<lparr>tp_Sessions := []\<rparr>)"
proof -
  let ?b = "adv 10 (TpmBuffer_of (raw_response TPM_ST_NO_SESSIONS code (enc32 h @ body)))"
  obtain head where head: "length head = 10" "tb_buf ?b = head @ enc32 h @ body" by (rule raw_head)
  have pos: "tb_pos ?b = 10" by simp
  have "buf_ok ?b" by (simp add: buf_ok_def size_buf_def TpmBuffer_of_def adv_def raw_response_def)
  moreover have "continues ?b (enc32 h)" using head by (simp add: continues_def)
  ultimately have rd: "on_buf readInt ?b = Ok (h, adv 4 ?b)"
    using on_buf_reads [OF reads_readInt] by simp
  have b: "tb_buf (adv 4 ?b) = (head @ enc32 h) @ body" using head by simp
  from rd have handle: "sbind (lift (on_buf readInt ?b)) (\<lambda>(h, respBuf).
      ret (Resp_other (resp_setHandle m (TPM_HANDLE_of h) r), respBuf)) t =
      (Ok (Resp_other (resp_setHandle m (TPM_HANDLE_of h) r), adv 4 ?b), t)"
    by (simp add: lift_app sbind_Ok ret_app)
  have pos: "tb_pos (adv 4 ?b) = 14" "size_buf (adv 4 ?b) = 14 + length body" "length (head @ enc32 h) = 14"
    using b head(1) by (simp_all add: size_buf_def)
  show ?thesis
    using tag enc handles last read_params_at [OF params b] pos
    by (simp add: complete_command_def DoParmEncryption_def ret_app sbind_Ok lift_app
        sassert_app sseq_Ok [where m = "sassert True"] sbind_Ok [where m = "sbind (lift (on_buf readInt _)) _", OF handle]
        sbind_Ok [where m = "UpdateRespHandle _ _ _", OF last] del: adv_adv)
qed

lemma Dispatch_handle:
  assumes "idle t" and "plain_code cc" and "req_numAuthHandles (req_methods req) = 0"
    and "tp_device t = Some d" and "answers dev d (plain_command cc (req_methods req) params)
      (raw_response TPM_ST_NO_SESSIONS TPM_RC_SUCCESS (enc32 h @ body)) d'"
    and "writes (req_toTpm (req_methods req)) params"
    and "length (plain_command cc (req_methods req) params) \<le> 4096" and "length (enc32 h @ body) + 10 < 2 ^ 32"
    and enc: "tp_EncSession t = None"
    and resp: "resp_numHandles (m :: (TPM_HANDLE, 'r) RespStructure) = 1"
      "reads (resp_initFromTpm m (resp_setHandle m (TPM_HANDLE_of h) r)) r' body"
  shows "\<exists>t'. Dispatch ossl dev m cc req (Resp_other r) t = Some (Ok (Resp_other r'), t') \<and>
    idle t' \<and> tp_device t' = Some d'"
proof -
  obtain w where w: "idle w" "tp_SessTag w = TPM_ST_NO_SESSIONS" "tp_device w = Some d'" "tp_EncSession w = None"
    and result: "\<And>(m :: (TPM_HANDLE, 'r) RespStructure) resp resp' t'.
      complete_command ossl m cc False TPM_ST_NO_SESSIONS resp
        (adv 10 (TpmBuffer_of (raw_response TPM_ST_NO_SESSIONS TPM_RC_SUCCESS (enc32 h @ body)))) w = (Ok (True, resp'), t') \<Longrightarrow>
      Dispatch ossl dev m cc req resp t = Some (Ok resp', t')"
    by (rule Dispatch_success [OF assms(1-8)]) (use enc in auto)
  show ?thesis
    using result [OF complete_command_handle [OF w(2,4) resp plain_updates(3) [OF assms(2)]]] w
    by (simp add: idle_def)
qed

section \<open>The command\<close>

lemma start_writes:
  assumes "sized_ok 2 nonceCaller" and "sized_ok 2 encryptedSalt" and "TPMT_SYM_DEF_valid symDef"
  shows "writes (TPM2_StartAuthSession_REQUEST_toTpm
      \<lparr>TPM2_StartAuthSession_REQUEST_tpmKey = tpmKey, TPM2_StartAuthSession_REQUEST_bind = b,
       TPM2_StartAuthSession_REQUEST_nonceCaller = nonceCaller,
       TPM2_StartAuthSession_REQUEST_encryptedSalt = encryptedSalt,
       TPM2_StartAuthSession_REQUEST_sessionType = sessionType,
       TPM2_StartAuthSession_REQUEST_symmetric = symDef,
       TPM2_StartAuthSession_REQUEST_authHash = authHash\<rparr>)
    (start_params nonceCaller encryptedSalt sessionType symDef authHash)"
  unfolding TPM2_StartAuthSession_REQUEST_toTpm_def TPM2_StartAuthSession_REQUEST.select_convs start_params_def
  by (intro writes_intros; simp add: assms)

lemma start_reads:
  assumes "sized_ok 2 nonceTPM"
  shows "reads (StartAuthSessionResponse_initFromTpm (StartAuthSessionResponse_default\<lparr>StartAuthSessionResponse_handle := h\<rparr>))
    \<lparr>StartAuthSessionResponse_handle = h, StartAuthSessionResponse_nonceTPM = nonceTPM\<rparr> (enc_sized 2 nonceTPM)"
  by (simp only: StartAuthSessionResponse_initFromTpm_def StartAuthSessionResponse_default_def
      StartAuthSessionResponse.select_convs StartAuthSessionResponse.update_convs;
    intro reads_intros; (rule StartAuthSessionResponse.equality)?; simp add: assms)

text \<open>The TPM has the command as the specification lays it out, and its handle and its nonce are returned.\<close>

lemma Tpm2_StartAuthSession_answered:
  assumes "idle t" and "tp_EncSession t = None" and "tp_device t = Some d"
    and "answers dev d (start_command tpmKey b nonceCaller encryptedSalt sessionType symDef authHash) (start_answer h nonceTPM) d'"
    and "length nonceCaller + length encryptedSalt \<le> 4000" and "TPMT_SYM_DEF_valid symDef" and "sized_ok 2 nonceTPM"
  shows "\<exists>t'. Tpm2_StartAuthSession ossl dev tpmKey b nonceCaller encryptedSalt sessionType symDef authHash t =
    Some (Ok \<lparr>StartAuthSessionResponse_handle = TPM_HANDLE_of h, StartAuthSessionResponse_nonceTPM = nonceTPM\<rparr>, t') \<and>
    idle t' \<and> tp_device t' = Some d'"
proof -
  let ?req = "\<lparr>TPM2_StartAuthSession_REQUEST_tpmKey = tpmKey, TPM2_StartAuthSession_REQUEST_bind = b,
       TPM2_StartAuthSession_REQUEST_nonceCaller = nonceCaller,
       TPM2_StartAuthSession_REQUEST_encryptedSalt = encryptedSalt,
       TPM2_StartAuthSession_REQUEST_sessionType = sessionType,
       TPM2_StartAuthSession_REQUEST_symmetric = symDef,
       TPM2_StartAuthSession_REQUEST_authHash = authHash\<rparr>"
  let ?params = "start_params nonceCaller encryptedSalt sessionType symDef authHash"
  let ?resp = "\<lparr>StartAuthSessionResponse_handle = TPM_HANDLE_of h, StartAuthSessionResponse_nonceTPM = nonceTPM\<rparr>"
  have cmd: "plain_command TPM_CC_StartAuthSession (req_methods (Req_other (TPM2_StartAuthSession_REQUEST_req ?req))) ?params =
      start_command tpmKey b nonceCaller encryptedSalt sessionType symDef authHash"
    by (simp add: plain_command_def start_command_def TPM2_StartAuthSession_REQUEST_req_def)
  have "sized_ok 2 nonceCaller" "sized_ok 2 encryptedSalt" using assms(5) by (simp_all add: sized_ok_def)
  then have w: "writes (req_toTpm (req_methods (Req_other (TPM2_StartAuthSession_REQUEST_req ?req)))) ?params"
    using start_writes assms(6) by (simp add: TPM2_StartAuthSession_REQUEST_req_def)
  have l: "length (start_command tpmKey b nonceCaller encryptedSalt sessionType symDef authHash) \<le> 4096"
    using assms(5) by (simp add: start_command_def command_bytes_def start_params_def TPMT_SYM_DEF_enc_def enc_sized_def TPM_HANDLE_enc_def)
  have r: "length (enc32 h @ enc_sized 2 nonceTPM) + 10 < 2 ^ 32"
    using assms(7) by (simp add: sized_ok_def enc_sized_def)
  have "\<exists>t'. Dispatch ossl dev StartAuthSessionResponse_resp TPM_CC_StartAuthSession
      (Req_other (TPM2_StartAuthSession_REQUEST_req ?req)) (Resp_other StartAuthSessionResponse_default) t =
      Some (Ok (Resp_other ?resp), t') \<and> idle t' \<and> tp_device t' = Some d'"
  proof (rule Dispatch_handle [OF assms(1) _ _ assms(3) _ w _ r assms(2)])
    show "plain_code TPM_CC_StartAuthSession" by (simp add: plain_code_def)
    show "answers dev d (plain_command TPM_CC_StartAuthSession (req_methods (Req_other (TPM2_StartAuthSession_REQUEST_req ?req))) ?params)
      (raw_response TPM_ST_NO_SESSIONS TPM_RC_SUCCESS (enc32 h @ enc_sized 2 nonceTPM)) d'"
      using assms(4) by (simp only: cmd start_answer_def)
    show "reads (resp_initFromTpm StartAuthSessionResponse_resp (resp_setHandle StartAuthSessionResponse_resp
        (TPM_HANDLE_of h) StartAuthSessionResponse_default)) ?resp (enc_sized 2 nonceTPM)"
      using start_reads [OF assms(7)] by (simp add: StartAuthSessionResponse_resp_def)
  qed (use l cmd in \<open>simp_all add: TPM2_StartAuthSession_REQUEST_req_def StartAuthSessionResponse_resp_def\<close>)
  then show ?thesis by (auto simp: Tpm2_StartAuthSession_def returning_def)
qed


section \<open>What the two sides have in common\<close>

lemma AUTH_SESSION_new_key:
  assumes "ossl_ok ossl" and "IsImplemented ossl authHash" and "length nonceTPM + length nonceCaller \<le> 4000"
    and "salt \<noteq> [] \<or> TPM_HANDLE_handle b \<noteq> TPM_RH_NULL"
  shows "\<exists>s. AUTH_SESSION_new ossl h type authHash nonceCaller nonceTPM attr symDef salt b = Ok s \<and>
    as_handle s = h \<and> as_NonceTpm s = nonceTPM \<and> as_NonceCaller s = nonceCaller \<and> as_SessionInitted s \<and>
    as_HashAlg s = authHash \<and> as_SessionAttributes s = attr \<and> as_Symmetric s = symDef \<and>
    as_SessionKey s = ossl_hmac ossl authHash (TrimTrailingZeros (TPM_HANDLE_AuthValue b) @ salt)
      (enc32 1 @ map of_char ''ATH'' @ [0] @ nonceTPM @ nonceCaller @ enc32 (ucast (HashLength authHash) * 8))"
proof -
  let ?s = "\<lparr>as_handle = h, as_SessionType = type, as_NonceTpm = nonceTPM,
        as_NonceCaller = nonceCaller, as_HashAlg = authHash, as_SessionAttributes = attr,
        as_Symmetric = symDef, as_SessionKey = [],
        as_AuthValue = (if TPM_HANDLE_handle b \<noteq> TPM_RH_NULL then TPM_HANDLE_AuthValue b else []),
        as_Salt = salt, as_BindObject = b, as_NeedsHmac = False, as_NeedsPassword = False, as_SessionInitted = False\<rparr>"
  have "CalcSessionKey ossl ?s = Ok (?s\<lparr>as_SessionKey := session_key ossl ?s\<rparr>)"
    using assms by (intro CalcSessionKey_bound) (auto simp: nonces_ok_def)
  then show ?thesis
    by (simp only: AUTH_SESSION_new_def AUTH_SESSION_Init_def) (simp add: session_key_def)
qed

lemma AUTH_SESSION_new_plain:
  assumes "salt = []" and "TPM_HANDLE_handle b = TPM_RH_NULL"
  shows "\<exists>s. AUTH_SESSION_new ossl h type authHash nonceCaller nonceTPM attr symDef salt b = Ok s \<and>
    as_handle s = h \<and> as_NonceTpm s = nonceTPM \<and> as_NonceCaller s = nonceCaller \<and> as_SessionInitted s \<and>
    as_HashAlg s = authHash \<and> as_SessionAttributes s = attr \<and> as_Symmetric s = symDef \<and> as_SessionKey s = []"
  using assms by (simp add: AUTH_SESSION_new_def AUTH_SESSION_Init_def CalcSessionKey_none)

lemma SetRhAuthValue_sel [simp]:
  "TPM_HANDLE_handle (SetRhAuthValue t b) = TPM_HANDLE_handle b"
  "SetRhAuthValue (t\<lparr>tp_rands := n\<rparr>) b = SetRhAuthValue t b"
  by (simp_all add: SetRhAuthValue_def SetAuth_def)

lemma TPM_HANDLE_enc_SetRh [simp]: "TPM_HANDLE_enc (SetRhAuthValue t b) = TPM_HANDLE_enc b"
  by (simp add: TPM_HANDLE_enc_def)

lemma start_command_SetRh [simp]:
  "start_command tpmKey (SetRhAuthValue t b) n e ty sd a = start_command tpmKey b n e ty sd a"
  by (simp add: start_command_def command_bytes_def)

text \<open>The salt and its encryption are what \<open>EncryptSessionSalt\<close> makes of it, or both are left out.\<close>

definition salt_of :: "rsa_oaep \<Rightarrow> TPMT_PUBLIC \<Rightarrow> ByteVec \<Rightarrow> ByteVec \<Rightarrow> bool" where
  "salt_of rsa saltPub salt encryptedSalt \<longleftrightarrow>
     salt = [] \<and> encryptedSalt = [] \<or> salt \<noteq> [] \<and> encryptedSalt \<noteq> [] \<and> EncryptSessionSalt rsa saltPub salt = Ok encryptedSalt"

lemma salt_unsealed:
  assumes "salt_of rsa saltPub salt encryptedSalt" and "rsa_key_ok rsa unseal saltPub" and "sha1_key saltPub"
    and "length salt \<le> 20"
  shows "(if encryptedSalt = [] then Some []
      else unseal_seed unseal (TPMT_PUBLIC_nameAlg saltPub) ''SECRET'' encryptedSalt) = Some salt \<and> length encryptedSalt \<le> 512"
proof (cases "salt = []")
  case True
  then show ?thesis using assms(1) by (simp add: salt_of_def)
next
  case False
  obtain c where c: "TPMT_PUBLIC_Encrypt rsa saltPub salt (map of_char ''SECRET'' @ [0]) = Ok c"
      "unseal_seed unseal (TPMT_PUBLIC_nameAlg saltPub) ''SECRET'' c = Some salt" "length c \<le> 512"
    by (rule Crypto_Encrypt_Ok [OF assms(2-4)])
  then have "c = encryptedSalt"
    using assms(1) False by (simp add: salt_of_def EncryptSessionSalt_def TPMT_PUBLIC_Encrypt_def label_bytes)
  then show ?thesis using c(2,3) assms(1) False by (simp add: salt_of_def)
qed

text \<open>
  A salted or bound session: what the TPM is sent is the command, and the session has the handle, the nonces and the
  key that the TPM has for it.
\<close>

lemma StartAuthSession_agrees:
  assumes ossl: "ossl_ok ossl" "IsImplemented ossl authHash"
    and t: "idle t" "tp_EncSession t = None" "tp_device t = Some d"
    and salt: "salt_of rsa saltPub salt encryptedSalt" "length salt \<le> 20"
    and key: "rsa_key_ok rsa unseal saltPub" "sha1_key saltPub"
    and auth: "auth (TPM_HANDLE_handle bindHandle) = TrimTrailingZeros (TPM_HANDLE_AuthValue (SetRhAuthValue t bindHandle))"
    and sym: "TPMT_SYM_DEF_valid symDef" and nonce: "length nonceTPM \<le> 64"
    and dev: "answers dev d (start_command saltKey bindHandle (ossl_rand ossl (tp_rands t) (unat (HashLength authHash)))
      encryptedSalt sessionType symDef authHash) (start_answer h nonceTPM) d'"
  shows "\<exists>s t'. StartAuthSession_salted ossl dev saltKey bindHandle sessionType authHash attr symDef salt encryptedSalt t =
      Some (Ok s, t') \<and> idle t' \<and> tp_device t' = Some d' \<and> as_SessionInitted s \<and>
    as_handle s = TPM_HANDLE_of h \<and> as_NonceTpm s = nonceTPM \<and> as_SessionAttributes s = attr \<and> as_Symmetric s = symDef \<and>
    tpm_session_key ossl unseal (TPMT_PUBLIC_nameAlg saltPub) auth authHash (TPM_HANDLE_handle bindHandle) nonceTPM (as_NonceCaller s) encryptedSalt =
      Some (as_SessionKey s)"
proof -
  let ?nonce = "ossl_rand ossl (tp_rands t) (unat (HashLength authHash))" and ?b = "SetRhAuthValue t bindHandle"
  let ?t = "t\<lparr>tp_rands := tp_rands t + 1\<rparr>"
  note unsealed = salt_unsealed [OF salt(1) key salt(2)]
  have n: "length ?nonce \<le> 64" using ossl IsImplemented_HashLength [OF ossl(2)] by (auto simp: ossl_ok_def)
  have "idle ?t" "tp_EncSession ?t = None" "tp_device ?t = Some d" using t by (simp_all add: idle_def)
  then obtain t' where t': "Tpm2_StartAuthSession ossl dev saltKey ?b ?nonce encryptedSalt sessionType symDef authHash ?t =
      Some (Ok \<lparr>StartAuthSessionResponse_handle = TPM_HANDLE_of h, StartAuthSessionResponse_nonceTPM = nonceTPM\<rparr>, t')"
      "idle t'" "tp_device t' = Some d'"
    using Tpm2_StartAuthSession_answered [of ?t d dev saltKey ?b ?nonce encryptedSalt sessionType symDef authHash h nonceTPM d' ossl]
      dev n unsealed sym nonce by (auto simp: sized_ok_def)
  have "\<exists>s. AUTH_SESSION_new ossl (TPM_HANDLE_of h) sessionType authHash ?nonce nonceTPM attr symDef salt ?b = Ok s \<and>
      as_handle s = TPM_HANDLE_of h \<and> as_NonceTpm s = nonceTPM \<and> as_NonceCaller s = ?nonce \<and> as_SessionInitted s \<and>
      as_SessionAttributes s = attr \<and> as_Symmetric s = symDef \<and>
      tpm_session_key ossl unseal (TPMT_PUBLIC_nameAlg saltPub) auth authHash (TPM_HANDLE_handle bindHandle) nonceTPM ?nonce encryptedSalt = Some (as_SessionKey s)"
  proof (cases "salt = [] \<and> TPM_HANDLE_handle ?b = TPM_RH_NULL")
    case True
    then show ?thesis
      using AUTH_SESSION_new_plain [of salt ?b ossl "TPM_HANDLE_of h" sessionType authHash ?nonce nonceTPM attr symDef] salt(1)
      by (auto simp: tpm_session_key_def salt_of_def)
  next
    case False
    then have "\<not> (encryptedSalt = [] \<and> TPM_HANDLE_handle bindHandle = TPM_RH_NULL)" using salt(1) by (auto simp: salt_of_def)
    then show ?thesis
      using AUTH_SESSION_new_key [OF ossl, of nonceTPM ?nonce salt ?b "TPM_HANDLE_of h" sessionType attr symDef] False n nonce
        unsealed auth
      by (auto simp: tpm_session_key_def)
  qed
  then show ?thesis
    using t' by (auto simp: StartAuthSession_salted_def with_nonce_def RandomBytes_def then_outcome_def session_of_def Let_def)
qed


text \<open>The other overloads start a session without salt and binding.\<close>

lemma SetRhAuthValue_default [simp]: "SetRhAuthValue t TPM_HANDLE_default = TPM_HANDLE_default"
  by (simp add: SetRhAuthValue_def TPM_HANDLE_default_def)

lemma overloads:
  "StartAuthSession_unbound ossl dev sessionType authHash attr symDef =
     StartAuthSession_salted ossl dev TPM_HANDLE_default TPM_HANDLE_default sessionType authHash attr symDef [] []"
  "StartAuthSession ossl dev sessionType authHash =
     StartAuthSession_unbound ossl dev sessionType authHash TPMA_SESSION_continueSession no_sym_def"
  by (simp_all add: StartAuthSession_def StartAuthSession_unbound_def StartAuthSession_salted_def)

section \<open>A command with a session\<close>

text \<open>
  What the TPM expects in the authorization of a command, after Part 1 of the specification: the HMAC is computed with
  the session key and the authorization value of the entity. An HMAC session leaves the value out for the entity that it
  is bound to, as long as that has the value with which it was bound; a policy session that has to prove the knowledge of
  it never does.
\<close>

definition tpm_command_hmac ::
  "Openssl \<Rightarrow> TPM_ALG_ID \<Rightarrow> ByteVec \<Rightarrow> ByteVec \<Rightarrow> TPM_CC \<Rightarrow> ByteVec list \<Rightarrow> ByteVec \<Rightarrow> ByteVec \<Rightarrow> ByteVec \<Rightarrow> TPMA_SESSION \<Rightarrow> ByteVec" where
  "tpm_command_hmac ossl a sessionKey authValue cc names params nonceCaller nonceTPM attributes =
     ossl_hmac ossl a (sessionKey @ authValue)
       (ossl_digest ossl a (enc32 cc @ concat names @ params) @ nonceCaller @ nonceTPM @ [attributes])"

definition tpm_included_auth :: "(UINT32 \<Rightarrow> ByteVec) \<Rightarrow> TPM_SE \<Rightarrow> UINT32 \<Rightarrow> ByteVec \<Rightarrow> UINT32 \<Rightarrow> ByteVec" where
  "tpm_included_auth auth sessionType bound boundAuth h =
     (if sessionType = TPM_SE_HMAC \<and> h = bound \<and> auth h = boundAuth then [] else auth h)"

text \<open>
  The field of the authorization: the HMAC for an HMAC session and for a policy session with PolicyAuthValue, the plain
  value with PolicyPassword, and nothing for another policy session.
\<close>

definition tpm_auth_field ::
  "Openssl \<Rightarrow> AUTH_SESSION \<Rightarrow> (UINT32 \<Rightarrow> ByteVec) \<Rightarrow> ByteVec \<Rightarrow> TPM_CC \<Rightarrow> ByteVec list \<Rightarrow> ByteVec \<Rightarrow> ByteVec \<Rightarrow> UINT32 \<Rightarrow> ByteVec" where
  "tpm_auth_field ossl s auth password cc names params nonceCaller h =
     (if as_NeedsPassword s then password
      else if as_SessionType s = TPM_SE_HMAC \<or> as_NeedsHmac s
      then tpm_command_hmac ossl (as_HashAlg s) (as_SessionKey s)
        (tpm_included_auth auth (as_SessionType s) (TPM_HANDLE_handle (as_BindObject s))
          (TrimTrailingZeros (TPM_HANDLE_AuthValue (as_BindObject s))) h)
        cc names params nonceCaller (as_NonceTpm s) (as_SessionAttributes s)
      else [])"

definition session_auth ::
  "Openssl \<Rightarrow> 'd Tpm2 \<Rightarrow> AUTH_SESSION \<Rightarrow> (UINT32 \<Rightarrow> ByteVec) \<Rightarrow> TPM_CC \<Rightarrow> TPM_HANDLE \<Rightarrow> ByteVec list \<Rightarrow> ByteVec \<Rightarrow> TPMS_AUTH_COMMAND" where
  "session_auth ossl t s auth cc h names params =
     (let nonceCaller = ossl_rand ossl (tp_rands t) (length (as_NonceCaller s)) in
      \<lparr>TPMS_AUTH_COMMAND_sessionHandle = as_handle s, TPMS_AUTH_COMMAND_nonce = nonceCaller,
       TPMS_AUTH_COMMAND_sessionAttributes = as_SessionAttributes s,
       TPMS_AUTH_COMMAND_hmac = tpm_auth_field ossl s auth (TPM_HANDLE_AuthValue (SetRhAuthValue t h)) cc names params nonceCaller
         (TPM_HANDLE_handle h)\<rparr>)"

definition hmac_or_policy :: "AUTH_SESSION \<Rightarrow> bool" where
  "hmac_or_policy s \<longleftrightarrow> \<not> IsPWAP s \<and> as_SessionInitted s \<and> TPM_HANDLE_AuthValue (as_handle s) = [] \<and>
     (as_SessionType s = TPM_SE_HMAC \<or> as_SessionType s = TPM_SE_POLICY)"

lemma GetCpHashData_bytes:
  assumes "map (fst \<circ> TPM_HANDLE_GetName) hs = map Ok names" and "length (enc32 cc @ concat names @ params) \<le> 4096"
  shows "GetCpHashData hs cc params = Ok (enc32 cc @ concat names @ params)"
proof -
  have names: "writes (wseq (map (\<lambda>h. bindO (fst (TPM_HANDLE_GetName h)) writeByteBuf) hs)) (concat names)"
    using assms(1)
    by (induction hs arbitrary: names) (auto intro!: writes_sseq writes_writeByteBuf writes_ret simp: map_eq_Cons_conv Cons_eq_map_conv)
  have "writes (wseq ([writeInt cc] @ map (\<lambda>h. bindO (fst (TPM_HANDLE_GetName h)) writeByteBuf) hs @ [writeByteBuf params]))
      (enc32 cc @ concat names @ params)"
    unfolding wseq_append by (intro writes_sseq writes_wseq_single writes_writeInt writes_writeByteBuf names)
  from buf_bytes_enc [OF this assms(2)] show ?thesis by (simp only: GetCpHashData_def buf_bytes_def)
qed

lemma auth_session_first:
  fixes t :: "'d Tpm2"
  assumes ossl: "ossl_ok ossl" "IsImplemented ossl (as_HashAlg s)" and s: "tp_sess t a = s" "hmac_or_policy s"
    and t: "tp_InHandles t = H # hs" "tp_NonceTpmDec t = []" "tp_NonceTpmEnc t = []"
    and auth: "auth (TPM_HANDLE_handle H) = TrimTrailingZeros (TPM_HANDLE_AuthValue (SetRhAuthValue t H))"
    and bound: "TPM_HANDLE_handle H = TPM_HANDLE_handle (as_BindObject s) \<Longrightarrow>
      auth (TPM_HANDLE_handle H) = TrimTrailingZeros (TPM_HANDLE_AuthValue (as_BindObject s))"
    and H: "TPM_HANDLE_handle H \<noteq> TPM_RH_PW" and cp: "enc32 cc @ concat names @ params = cpHashData"
  shows "\<exists>u. auth_session ossl cpHashData 1 0 a TPMS_AUTH_COMMAND_default t =
      (Ok \<lparr>TPMS_AUTH_COMMAND_sessionHandle = as_handle s, TPMS_AUTH_COMMAND_nonce = as_NonceCaller s,
         TPMS_AUTH_COMMAND_sessionAttributes = as_SessionAttributes s,
         TPMS_AUTH_COMMAND_hmac = tpm_auth_field ossl s auth (TPM_HANDLE_AuthValue (SetRhAuthValue t H)) cc names params
           (as_NonceCaller s) (TPM_HANDLE_handle H)\<rparr>, u) \<and>
    tp_device u = tp_device t \<and> tp_CpHash u = tp_CpHash t \<and> tp_AuditCommand u = tp_AuditCommand t"
proof -
  have cp': "cpHashData \<noteq> []" using cp [symmetric] by (simp add: enc32_def be_bytes_def)
  have sel: "as_HashAlg (s\<lparr>as_AuthValue := v\<rparr>) = as_HashAlg s" for v by simp
  show ?thesis
    using s t auth H ossl bound
    by (auto simp: auth_session_def Let_def sseq_modifyS sbind_Ok getS_app getf_app ret_app lift_app nth_o_def set_sess_def
        hmac_or_policy_def tpm_auth_field_def GetAuthHmac_def oassert_def HMAC_Ok Hash_all_Ok [OF _ cp'] hmac_auth_def
        tpm_included_auth_def tpm_command_hmac_def nonceNewer_def nonceOlder_def Concatenate_def same_handle_def cp
        TPMS_AUTH_COMMAND_default_def GetAuth_def)
qed

text \<open>The authorization area of a command with one session that encrypts nothing.\<close>

lemma last_session_one:
  "last_session sess attr [a] None = (if \<not> IsPWAP (sess a) \<and> as_SessionAttributes (sess a) AND attr \<noteq> 0 then Some a else None)"
  by simp

lemma write_sessions_one:
  fixes t :: "'d Tpm2"
  assumes ossl: "ossl_ok ossl" "IsImplemented ossl (as_HashAlg s)" and s: "tp_sess t a = s" "hmac_or_policy s"
    and plain: "as_SessionAttributes s AND TPMA_SESSION_decrypt = 0"
    and t: "tp_Sessions t = [a]" "tp_InHandles t = H # hs"
    and auth: "auth (TPM_HANDLE_handle H) = TrimTrailingZeros (TPM_HANDLE_AuthValue (SetRhAuthValue t H))"
    and bound: "TPM_HANDLE_handle H = TPM_HANDLE_handle (as_BindObject s) \<Longrightarrow>
      auth (TPM_HANDLE_handle H) = TrimTrailingZeros (TPM_HANDLE_AuthValue (as_BindObject s))"
    and H: "TPM_HANDLE_handle H \<noteq> TPM_RH_PW" and req: "req_numAuthHandles req = 1"
    and names: "map (fst \<circ> TPM_HANDLE_GetName) (H # hs) = map Ok names"
    and len: "length (enc32 cc @ concat names @ params) \<le> 4096"
      "length (xs @ auth_area [session_auth ossl t s auth cc H names params]) \<le> 4096"
  shows "\<exists>u. write_sessions ossl cc req (built xs) (full params) t =
      (Ok (enc32 cc @ concat names @ params, built (xs @ auth_area [session_auth ossl t s auth cc H names params]), full params), u) \<and>
    tp_device u = tp_device t \<and> tp_CpHash u = tp_CpHash t \<and> tp_AuditCommand u = tp_AuditCommand t"
proof -
  let ?n = "ossl_rand ossl (tp_rands t) (length (as_NonceCaller s))" and ?cp = "enc32 cc @ concat names @ params"
  let ?s = "s\<lparr>as_NonceCaller := ?n\<rparr>" and ?area = "session_auth ossl t s auth cc H names params"
  let ?t1 = "t\<lparr>tp_rands := tp_rands t + 1, tp_sess := (tp_sess t)(a := ?s)\<rparr>"
  obtain t2 where prep: "PrepareParmEncryptionSessions ?t1 = (Ok (), t2)" and dec: "tp_DecSession t2 = None"
    and t2: "tp_sess t2 a = ?s" "tp_InHandles t2 = H # hs" "tp_NonceTpmDec t2 = []" "tp_NonceTpmEnc t2 = []"
      "tp_Sessions t2 = [a]" "SetRhAuthValue t2 H = SetRhAuthValue t H"
      "tp_device t2 = tp_device t" "tp_CpHash t2 = tp_CpHash t" "tp_AuditCommand t2 = tp_AuditCommand t"
    using plain t by (simp add: PrepareParmEncryptionSessions_def modifyS_app Let_def SetRhAuthValue_def)
  have roll: "RollNonces ossl t = (Ok (), ?t1)"
    using s t(1) by (simp add: RollNonces_def hmac_or_policy_def RandomBytes_def sbind_Ok set_sess_def ret_app)
  have s': "hmac_or_policy ?s" "as_HashAlg ?s = as_HashAlg s" using s(2) by (simp_all add: hmac_or_policy_def IsPWAP_def)
  have field: "tpm_auth_field ossl ?s auth pw cc names params n h = tpm_auth_field ossl s auth pw cc names params n h" for pw n h
    by (simp add: tpm_auth_field_def)
  obtain u where one: "auth_session ossl ?cp 1 0 a TPMS_AUTH_COMMAND_default t2 = (Ok ?area, u)"
    and u: "tp_device u = tp_device t" "tp_CpHash u = tp_CpHash t" "tp_AuditCommand u = tp_AuditCommand t"
    using auth_session_first [OF ossl(1) _ t2(1) s'(1) t2(2-4) _ _ H refl, of auth cc names params] ossl(2) auth bound t2
    by (auto simp: session_auth_def Let_def field)
  have 1: "to_buf (writeInt 0) (built xs) t = (Ok (built (xs @ enc32 0)), t)"
    using len(2) by (subst to_buf_built [OF writes_writeInt]) (simp_all add: auth_area_def Let_def)
  have 2: "to_buf (TPMS_AUTH_COMMAND_toTpm ?area) (built (xs @ enc32 0)) u =
      (Ok (built (xs @ enc32 0 @ TPMS_AUTH_COMMAND_enc ?area)), u)"
    using len(2) by (subst to_buf_built [OF TPMS_AUTH_COMMAND_writes_any]) (simp_all add: auth_area_def Let_def)
  have loop: "auth_loop ossl ?cp 1 0 [a] TPMS_AUTH_COMMAND_default (built (xs @ enc32 0)) t2 =
      (Ok (built (xs @ enc32 0 @ TPMS_AUTH_COMMAND_enc ?area)), u)"
    by (simp add: sbind_Ok [where m = "auth_session _ _ _ _ _ _", OF one] sbind_Ok [where m = "to_buf _ _", OF 2] ret_app
        del: One_nat_def)
  have "list_ex (\<lambda>a. \<not> IsPWAP (tp_sess t2 a)) (tp_Sessions t2)" using t2 s'(1) by (simp add: hmac_or_policy_def)
  then have auths: "ProcessAuthSessions ossl (built (xs @ enc32 0)) cc 1 params t2 =
      (Ok (?cp, built (xs @ enc32 0 @ TPMS_AUTH_COMMAND_enc ?area)), u)"
    using t2(2,5) GetCpHashData_bytes [OF names len(1)]
    by (simp add: ProcessAuthSessions_def sseq_Ok [where m = "sassert _"] sassert_app sbind_Ok [where m = "lift _"] lift_app
        sbind_Ok [where m = "auth_loop _ _ _ _ _ _ _", OF loop] ret_app del: One_nat_def auth_loop.simps)
  have fill: "to_buf (writeNumAtPos (of_nat (length (TPMS_AUTH_COMMAND_enc ?area))) (length xs) 4)
      (built (xs @ enc32 0 @ TPMS_AUTH_COMMAND_enc ?area)) u = (Ok (built (xs @ auth_area [?area])), u)"
    using len(2) by (subst to_buf_writeNumAtPos) (simp_all add: auth_area_def Let_def be_bytes_of_nat overwrite_def)
  have enc: "DoParmEncryption ossl (req_sessEncInfo req) (full params) 0 True t2 = (Ok (full params), t2)"
    using dec by (simp add: DoParmEncryption_def ret_app)
  show ?thesis
    using u t(1)
    by (simp add: write_sessions_def Let_def req sbind_Ok [where m = "to_buf _ _", OF 1] sseq_Ok [where m = "RollNonces _", OF roll]
        sseq_Ok [where m = PrepareParmEncryptionSessions, OF prep] sbind_Ok [where m = "DoParmEncryption _ _ _ _ _", OF enc]
        sbind_Ok [where m = "ProcessAuthSessions _ _ _ _ _", OF auths] sbind_Ok [where m = "to_buf _ _", OF fill] ret_app
        del: One_nat_def)
qed

definition session_command ::
  "Openssl \<Rightarrow> 'd Tpm2 \<Rightarrow> AUTH_SESSION \<Rightarrow> (UINT32 \<Rightarrow> ByteVec) \<Rightarrow> TPM_CC \<Rightarrow> TPM_HANDLE list \<Rightarrow> ByteVec list \<Rightarrow> ByteVec \<Rightarrow> ByteVec" where
  "session_command ossl t s auth cc hs names params =
     command_bytes TPM_ST_SESSIONS cc hs (auth_area [session_auth ossl t s auth cc (hd hs) names params]) params"

lemma session_auth_started [simp]:
  "session_auth ossl (t\<lparr>tp_SessTag := tag, tp_InHandles := hs\<rparr>) = session_auth ossl t"
  by (simp add: session_auth_def SetRhAuthValue_def fun_eq_iff)

lemma started_sel:
  "tp_sess (t\<lparr>tp_SessTag := tag, tp_InHandles := hs\<rparr>) = tp_sess t"
  "tp_Sessions (t\<lparr>tp_SessTag := tag, tp_InHandles := hs\<rparr>) = tp_Sessions t"
  "tp_InHandles (t\<lparr>tp_SessTag := tag, tp_InHandles := hs\<rparr>) = hs"
  "tp_device (t\<lparr>tp_SessTag := tag, tp_InHandles := hs\<rparr>) = tp_device t"
  "tp_CpHash (t\<lparr>tp_SessTag := tag, tp_InHandles := hs\<rparr>) = tp_CpHash t"
  "tp_AuditCommand (t\<lparr>tp_SessTag := tag, tp_InHandles := hs\<rparr>) = tp_AuditCommand t"
  "SetRhAuthValue (t\<lparr>tp_SessTag := tag, tp_InHandles := hs\<rparr>) H = SetRhAuthValue t H"
  by (simp_all add: SetRhAuthValue_def)

lemma make_command_one:
  fixes t :: "'d Tpm2"
  assumes ossl: "ossl_ok ossl" "IsImplemented ossl (as_HashAlg s)" and s: "tp_sess t a = s" "hmac_or_policy s"
    and plain: "as_SessionAttributes s AND TPMA_SESSION_decrypt = 0"
    and t: "tp_Sessions t = [a]" and hs: "req_getHandles req = H # hs"
    and auth: "auth (TPM_HANDLE_handle H) = TrimTrailingZeros (TPM_HANDLE_AuthValue (SetRhAuthValue t H))"
    and bound: "TPM_HANDLE_handle H = TPM_HANDLE_handle (as_BindObject s) \<Longrightarrow>
      auth (TPM_HANDLE_handle H) = TrimTrailingZeros (TPM_HANDLE_AuthValue (as_BindObject s))"
    and H: "TPM_HANDLE_handle H \<noteq> TPM_RH_PW" and req: "req_numAuthHandles req = 1"
    and names: "map (fst \<circ> TPM_HANDLE_GetName) (H # hs) = map Ok names"
    and params: "writes (req_toTpm req) params"
    and len: "length (enc32 cc @ concat names @ params) \<le> 4096"
      "length (session_command ossl t s auth cc (H # hs) names params) \<le> 4096"
  shows "\<exists>cp u. make_command ossl cc req True TPM_ST_SESSIONS t =
      (Ok (cp, built (session_command ossl t s auth cc (H # hs) names params), full params), u) \<and>
    tp_device u = tp_device t \<and> tp_CpHash u = tp_CpHash t \<and> tp_AuditCommand u = tp_AuditCommand t"
proof -
  let ?u = "t\<lparr>tp_SessTag := TPM_ST_SESSIONS, tp_InHandles := H # hs\<rparr>"
  let ?head = "enc16 TPM_ST_SESSIONS @ enc32 0 @ enc32 cc @ concat (map TPM_HANDLE_enc (H # hs))"
  let ?area = "auth_area [session_auth ossl t s auth cc H names params]" and ?cp = "enc32 cc @ concat names @ params"
  let ?all = "?head @ ?area @ params"
  have len': "length ?all \<le> 4096" using len(2) by (simp add: session_command_def command_bytes_def Let_def)
  have head: "writes (wseq ([writeShort TPM_ST_SESSIONS, writeInt 0, writeInt cc] @ map TPM_HANDLE_toTpm (H # hs))) ?head"
    by (simp only: append_Cons append_Nil, intro writes_wseq_Cons writes_writeInt writes_writeShort writes_all TPM_HANDLE_writes_any)
  have 1: "to_buf (wseq ([writeShort TPM_ST_SESSIONS, writeInt 0, writeInt cc] @ map TPM_HANDLE_toTpm (H # hs))) (built []) ?u =
      (Ok (built ?head), ?u)"
    using len' by (simp only: to_buf_built [OF head] list.size(3)) simp
  have 2: "to_buf (sseq (req_toTpm req) (sbind trim (\<lambda>_. ret ()))) (built []) ?u = (Ok (full params), ?u)"
    using len' by (simp add: to_buf_trim [OF params])
  have fits: "length (?head @ ?area) \<le> 4096" using len' by simp
  have "\<exists>u. write_sessions ossl cc req (built ?head) (full params) ?u =
      (Ok (?cp, built (?head @ auth_area [session_auth ossl ?u s auth cc H names params]), full params), u) \<and>
    tp_device u = tp_device ?u \<and> tp_CpHash u = tp_CpHash ?u \<and> tp_AuditCommand u = tp_AuditCommand ?u"
    by (rule write_sessions_one [OF ossl _ s(2) plain _ _ _ _ H req names len(1)], unfold session_auth_started started_sel)
      (rule s(1), rule t, rule refl, rule auth, erule bound, rule fits)
  then obtain u where 3: "write_sessions ossl cc req (built ?head) (full params) ?u = (Ok (?cp, built (?head @ ?area), full params), u)"
    and u: "tp_device u = tp_device t" "tp_CpHash u = tp_CpHash t" "tp_AuditCommand u = tp_AuditCommand t"
    by (auto simp only: session_auth_started started_sel)
  have 4: "to_buf (writeByteBuf params) (built (?head @ ?area)) u = (Ok (built ?all), u)"
    using len' by (subst to_buf_built [OF writes_writeByteBuf]) simp_all
  have "to_buf (writeNumAtPos (of_nat (length ?all)) 2 4) (built ?all) u =
      (Ok (built (overwrite 2 (enc32 (of_nat (length ?all))) ?all)), u)"
    unfolding be_bytes_of_nat [symmetric] by (rule to_buf_writeNumAtPos) (use len' in simp_all)
  moreover have "overwrite 2 (enc32 (of_nat (length ?all))) ?all = session_command ossl t s auth cc (H # hs) names params"
    by (simp add: session_command_def command_bytes_def Let_def overwrite_def)
  ultimately have 5: "to_buf (writeNumAtPos (of_nat (length ?all)) 2 4) (built ?all) u =
      (Ok (built (session_command ossl t s auth cc (H # hs) names params)), u)" by simp
  have "make_command ossl cc req True TPM_ST_SESSIONS t =
      (Ok (?cp, built (session_command ossl t s auth cc (H # hs) names params), full params), u)"
    unfolding make_command_def built_Nil sseq_modifyS hs
      sbind_Ok [where m = "to_buf _ _", OF 1] sbind_Ok [where m = "to_buf _ _", OF 2] if_True
      sbind_Ok [where m = "write_sessions _ _ _ _ _", OF 3] prod.case full_sel
      sbind_Ok [where m = "to_buf _ _", OF 4] built_sel sbind_Ok [where m = "to_buf _ _", OF 5] ret_app ..
  then show ?thesis using u by blast
qed

lemma DispatchOut_one:
  fixes t :: "'d Tpm2"
  assumes ossl: "ossl_ok ossl" "IsImplemented ossl (as_HashAlg s)" and s: "tp_sess t a = s" "hmac_or_policy s"
    and plain: "as_SessionAttributes s AND TPMA_SESSION_decrypt = 0"
    and t: "idle (t\<lparr>tp_Sessions := []\<rparr>)" "tp_Sessions t = [a]" and hs: "req_getHandles (req_methods req) = H # hs"
    and auth: "auth (TPM_HANDLE_handle H) = TrimTrailingZeros (TPM_HANDLE_AuthValue (SetRhAuthValue t H))"
    and bound: "TPM_HANDLE_handle H = TPM_HANDLE_handle (as_BindObject s) \<Longrightarrow>
      auth (TPM_HANDLE_handle H) = TrimTrailingZeros (TPM_HANDLE_AuthValue (as_BindObject s))"
    and H: "TPM_HANDLE_handle H \<noteq> TPM_RH_PW" and req: "req_numAuthHandles (req_methods req) = 1" "plain_code cc"
    and names: "map (fst \<circ> TPM_HANDLE_GetName) (H # hs) = map Ok names"
    and params: "writes (req_toTpm (req_methods req)) params"
    and len: "length (enc32 cc @ concat names @ params) \<le> 4096"
      "length (session_command ossl t s auth cc (H # hs) names params) \<le> 4096"
    and dev: "tp_device t = Some d"
      "dev_DispatchCommand dev (session_command ossl t s auth cc (H # hs) names params) d = (Ok (), d')"
  shows "\<exists>t'. DispatchOut ossl dev cc req t = (Ok (True, req), t') \<and>
    sent dev (session_command ossl t s auth cc (H # hs) names params) t t'"
proof -
  let ?cmd = "session_command ossl t s auth cc (H # hs) names params"
  have i: "tp_PendingCommand t = 0" "\<not> tp_AuditCommand t" "tp_CpHash t = None" using t(1) by (simp_all add: idle_def)
  obtain cp u where make: "make_command ossl cc (req_methods req) True TPM_ST_SESSIONS t = (Ok (cp, built ?cmd, full params), u)"
    and u: "tp_device u = Some d" "tp_CpHash u = None" "\<not> tp_AuditCommand u"
    using make_command_one [OF ossl s plain t(2) hs auth bound H req(1) names params len] i dev(1) by auto
  have "send_command ossl dev cc req cp (built ?cmd) u = (Ok (True, req), u\<lparr>tp_LastCommandBuf := ?cmd, tp_device := Some d',
      tp_objectInName := [], tp_PendingCommand := cc\<rparr>)"
    using u dev(2) len(2)
    by (simp add: send_command_def Let_def take_built sseq_Ok sbind_Ok on_device_def ret_app plain_updates(1) [OF req(2)])
  then have "DispatchOut ossl dev cc req t = (Ok (True, req), u\<lparr>tp_LastCommandBuf := ?cmd, tp_device := Some d',
      tp_objectInName := [], tp_PendingCommand := cc\<rparr>)"
    using i u t(2) by (simp add: DispatchOut_def Let_def sbind_Ok [where m = "make_command _ _ _ _ _", OF make] sbind_Ok ret_app)
  then show ?thesis using dev by (simp add: sent_def)
qed

section \<open>Concrete inputs\<close>

text \<open>
  A stand-in for RSA: the bytes of the seed, shifted by a number that depends on the hash algorithm, the exponent and the
  label, behind their number and filled up to the length of the modulus.
\<close>

definition sample_shift :: "TPM_ALG_ID \<Rightarrow> nat \<Rightarrow> ByteVec \<Rightarrow> byte" where
  "sample_shift a e label = ucast a + of_nat e + of_nat (length label)"

definition sample_rsa :: rsa_oaep where
  "sample_rsa a e modulus label s =
     (if length s + 2 * unat (HashLength a) + 2 \<le> length modulus
      then Some (of_nat (length s) # map (\<lambda>b. b + sample_shift a e label) s @ replicate (length modulus - 1 - length s) 0)
      else None)"

definition sample_unseal :: unseal where
  "sample_unseal a label c =
     Some (map (\<lambda>b. b - sample_shift a 65537 label) (take (unat (hd c)) (tl c)))"

definition sample_parent :: TPMT_PUBLIC where
  "sample_parent = sample_key\<lparr>TPMT_PUBLIC_nameAlg := TPM_ALG_ID_SHA1,
     TPMT_PUBLIC_unique := Some (PUBLIC_ID_TPM2B_PUBLIC_KEY_RSA \<lparr>TPM2B_PUBLIC_KEY_RSA_buffer = replicate 128 7\<rparr>),
     TPMT_PUBLIC_parameters := Some (PUBLIC_PARMS_TPMS_RSA_PARMS
     (sample_parms\<lparr>TPMS_RSA_PARMS_symmetric := \<lparr>TPMT_SYM_DEF_OBJECT_algorithm = TPM_ALG_ID_AES,
       TPMT_SYM_DEF_OBJECT_keyBits = 128, TPMT_SYM_DEF_OBJECT_mode = TPM_ALG_ID_CFB\<rparr>\<rparr>))\<rparr>"

definition sample_sensitive :: TPMT_SENSITIVE where
  "sample_sensitive = \<lparr>TPMT_SENSITIVE_authValue = [1], TPMT_SENSITIVE_seedValue = [],
     TPMT_SENSITIVE_sensitive = Some (SENSITIVE_COMPOSITE_TPM2B_PRIVATE_KEY_RSA \<lparr>TPM2B_PRIVATE_KEY_RSA_buffer = [5, 6]\<rparr>)\<rparr>"

lemma sample_oaep [simp]: "length modulus = 128 \<Longrightarrow> oaep_ok sample_rsa sample_unseal 65537 modulus"
  by (auto simp: oaep_ok_def sample_rsa_def sample_unseal_def o_def unat_of_nat take_bit_nat_eq_self)

lemma sample_parent_ok [simp]:
  "rsa_key_ok sample_rsa sample_unseal sample_parent" "storage_parent sample_parent" "sha1_key sample_parent"
  "TPMT_PUBLIC_nameAlg sample_parent = TPM_ALG_ID_SHA1"
  by (auto simp: rsa_key_ok_def storage_parent_def sha1_key_def key_exponent_def sample_parent_def sample_key_def sample_parms_def)

definition sample_object :: TPMT_PUBLIC where
  "sample_object = sample_key\<lparr>TPMT_PUBLIC_nameAlg := TPM_ALG_ID_SHA1\<rparr>"

lemma sample_object_ok [simp]:
  "TPMT_PUBLIC_valid sample_object" "TPMT_PUBLIC_nameAlg sample_object = TPM_ALG_ID_SHA1" "length (TPMT_PUBLIC_enc sample_object) = 56"
  by (simp_all add: sample_object_def sample_key_def sample_parms_def TPMT_PUBLIC_valid_def opt_ok_iff TPMS_RSA_PARMS_valid_def
      TPMT_SYM_DEF_OBJECT_valid_def TPMT_SYM_DEF_OBJECT_default_def TPMS_SCHEME_HASH_valid_def TPM2B_PUBLIC_KEY_RSA_valid_def
      sized_ok_def TPMT_PUBLIC_enc_def TPMS_RSA_PARMS_enc_def TPMT_SYM_DEF_OBJECT_enc_def TPMS_SCHEME_HASH_enc_def
      TPM2B_PUBLIC_KEY_RSA_enc_def enc_sized_def)

lemma sample_sensitive_ok [simp]:
  "TPMT_SENSITIVE_valid sample_sensitive" "length (TPMT_SENSITIVE_enc sample_sensitive) \<le> 100"
  by (simp_all add: sample_sensitive_def TPMT_SENSITIVE_valid_def TPMT_SENSITIVE_enc_def opt_ok_iff sized_ok_def
      TPM2B_PRIVATE_KEY_RSA_valid_def TPM2B_PRIVATE_KEY_RSA_enc_def enc_sized_def)

lemma sample_salt: "\<exists>c. EncryptSessionSalt sample_rsa sample_parent [9, 8] = Ok c \<and> c \<noteq> []"
  by (simp add: EncryptSessionSalt_def Crypto_Encrypt_def RsaEncrypt_def sample_parent_def sample_key_def sample_rsa_def oderef_def
      as_rsa_parms_def label_bytes HashLength_def)

end
