(* ===== verification/Tpm2Responses.thy ===== *)
theory Tpm2Responses
  imports Tpm2Calls
begin

unbundle bit_operations_syntax

text \<open>
  The response to a command that was sent in an HMAC session: which bytes its HMAC covers, and that it is taken in if
  and only if the HMAC in it is the one the session computes.
\<close>

section \<open>The hash of the response's parameters\<close>

lemma GetRpHash_at:
  assumes b: "tb_buf b = pre @ h8 @ body @ rest" "length h8 = 8" "tb_pos b \<le> size_buf b"
    and impl: "IsImplemented ossl alg"
  shows "GetRpHash ossl alg b cc (length pre + 8) (length body) False =
    Ok (ossl_digest ossl alg (enc32 TPM_RC_SUCCESS @ enc32 cc @ body),
      b\<lparr>tb_buf := pre @ enc32 TPM_RC_SUCCESS @ enc32 cc @ body @ rest, tb_outOfBounds := False\<rparr>)"
proof -
  let ?c = "b\<lparr>tb_pos := length pre, tb_outOfBounds := False\<rparr>"
  let ?new = "enc32 TPM_RC_SUCCESS @ enc32 cc"
  have sz: "size_buf b = length pre + 8 + length body + length rest" using b(1,2) by (simp add: size_buf_def)
  have seek: "set_curPos (length pre) b = (Ok (), ?c)" using sz by (simp add: set_curPos_def)
  have "writes (sseq (writeInt TPM_RC_SUCCESS) (writeInt cc)) ?new"
    by (intro writes_sseq writes_writeInt)
  from writes_Ok [OF this, of ?c] have wr: "sseq (writeInt TPM_RC_SUCCESS) (writeInt cc) ?c = (Ok (), put_bytes ?new ?c)"
    using sz by (simp add: buf_ok_def fits_def size_buf_def)
  have "overwrite (length pre) ?new (tb_buf b) = pre @ ?new @ body @ rest"
    using b(1,2) by (simp add: overwrite_def)
  then have home: "set_curPos (tb_pos b) (put_bytes ?new ?c) =
      (Ok (), b\<lparr>tb_buf := pre @ ?new @ body @ rest, tb_outOfBounds := False\<rparr>)"
    using b(3) sz by (simp add: set_curPos_def size_buf_def put_bytes_def)
  have "wseq [set_curPos (length pre), writeInt TPM_RC_SUCCESS, writeInt cc, set_curPos (tb_pos b)] b =
      sseq (sseq (writeInt TPM_RC_SUCCESS) (writeInt cc)) (sseq (set_curPos (tb_pos b)) (ret ())) ?c"
    by (simp add: sseq_Ok [where m = "set_curPos _", OF seek] sseq_app_assoc)
  also have "\<dots> = (Ok (), b\<lparr>tb_buf := pre @ ?new @ body @ rest, tb_outOfBounds := False\<rparr>)"
    by (simp only: sseq_Ok [where m = "sseq _ _", OF wr] sseq_Ok [where m = "set_curPos _", OF home] ret_app)
  finally show ?thesis
    using impl by (simp add: GetRpHash_def on_buf_def Let_def Hash_def enc_not_Nil)
qed

section \<open>One session in the response\<close>

text \<open>What the session is after the authorization area was read, and the handle it belongs to.\<close>

definition handle_of_first :: "'d Tpm2 \<Rightarrow> TPM_HANDLE option" where
  "handle_of_first t = (case tp_InHandles t of [] \<Rightarrow> None | h # _ \<Rightarrow> Some h)"

definition session_after :: "'d Tpm2 \<Rightarrow> TPMS_AUTH_RESPONSE \<Rightarrow> AUTH_SESSION \<Rightarrow> AUTH_SESSION" where
  "session_after t ar s = (case handle_of_first t of None \<Rightarrow> s | Some h \<Rightarrow> s\<lparr>as_AuthValue := GetAuth h\<rparr>)
     \<lparr>as_NonceTpm := TPMS_AUTH_RESPONSE_nonce ar, as_SessionAttributes := TPMS_AUTH_RESPONSE_sessionAttributes ar\<rparr>"

lemma session_after_sel [simp]:
  "as_handle (session_after t ar s) = as_handle s" "as_SessionType (session_after t ar s) = as_SessionType s"
  "as_HashAlg (session_after t ar s) = as_HashAlg s" "as_NonceTpm (session_after t ar s) = TPMS_AUTH_RESPONSE_nonce ar"
  "as_NonceCaller (session_after t ar s) = as_NonceCaller s" "as_SessionKey (session_after t ar s) = as_SessionKey s"
  "as_NeedsPassword (session_after t ar s) = as_NeedsPassword s"
  "as_SessionInitted (session_after t ar s) = as_SessionInitted s"
  by (simp_all add: session_after_def split: option.splits)

text \<open>The HMAC that the session expects: over the hash of code, command and parameters, with the TPM's new nonce first.\<close>

definition response_hmac :: "Openssl \<Rightarrow> 'd Tpm2 \<Rightarrow> AUTH_SESSION \<Rightarrow> TPM_CC \<Rightarrow> ByteVec \<Rightarrow> TPMS_AUTH_RESPONSE \<Rightarrow> ByteVec" where
  "response_hmac ossl t s cc body ar =
     (let s' = session_after t ar s in
      auth_hmac ossl s' (hmac_auth s' (handle_of_first t))
        (ossl_digest ossl (as_HashAlg s) (enc32 TPM_RC_SUCCESS @ enc32 cc @ body))
        (TPMS_AUTH_RESPONSE_nonce ar) (as_NonceCaller s))"

lemma length_response_hmac:
  "ossl_ok ossl \<Longrightarrow> IsImplemented ossl (as_HashAlg s) \<Longrightarrow>
   length (response_hmac ossl t s cc body ar) = unat (HashLength (as_HashAlg s))"
  by (simp add: response_hmac_def auth_hmac_def ossl_ok_def Let_def)

definition hmac_session :: "Openssl \<Rightarrow> AUTH_SESSION \<Rightarrow> bool" where
  "hmac_session ossl s \<longleftrightarrow> \<not> IsPWAP s \<and> as_SessionType s = TPM_SE_HMAC \<and> IsImplemented ossl (as_HashAlg s) \<and>
     as_SessionInitted s \<and> \<not> as_NeedsPassword s"

lemma resp_session_hmac:
  assumes ok: "ossl_ok ossl" and s: "hmac_session ossl (tp_sess t a)"
    and nonces: "tp_NonceTpmDec t = []" "tp_NonceTpmEnc t = []" and ar: "TPMS_AUTH_RESPONSE_valid ar"
    and b: "tb_buf b = pre @ h8 @ body @ TPMS_AUTH_RESPONSE_enc ar" "length h8 = 8"
      "tb_pos b = length pre + 8 + length body" "\<not> tb_outOfBounds b"
  defines "t' \<equiv> t\<lparr>tp_sess := (tp_sess t)(a := session_after t ar (tp_sess t a))\<rparr>"
  shows "resp_session ossl cc (length pre + 8) (length body) 0 a False b t =
    (if TPMS_AUTH_RESPONSE_hmac ar = response_hmac ossl t (tp_sess t a) cc body ar
     then (Ok (True, b\<lparr>tb_buf := pre @ enc32 TPM_RC_SUCCESS @ enc32 cc @ body @ TPMS_AUTH_RESPONSE_enc ar,
         tb_pos := size_buf b\<rparr>), t')
     else (Throw (runtime_error ''Invalid TPM response HMAC''), t'))"
proof -
  let ?s = "tp_sess t a" let ?s' = "session_after t ar ?s"
  let ?d = "adv (length (TPMS_AUTH_RESPONSE_enc ar)) b"
  note hs = s [unfolded hmac_session_def]
  have sz: "size_buf b = length pre + 8 + length body + length (TPMS_AUTH_RESPONSE_enc ar)"
    using b(1,2) by (simp add: size_buf_def)
  have "continues b (TPMS_AUTH_RESPONSE_enc ar)" using b by (simp add: continues_def)
  moreover have "buf_ok b" using b(3,4) sz by (simp add: buf_ok_def)
  ultimately have area: "on_buf (TPMS_AUTH_RESPONSE_initFromTpm TPMS_AUTH_RESPONSE_default) b = Ok (ar, ?d)"
    using reads_Ok [OF TPMS_AUTH_RESPONSE_reads [OF ar]] by (simp add: on_buf_def)
  have rp: "GetRpHash ossl (as_HashAlg ?s) ?d cc (length pre + 8) (length body) False =
      Ok (ossl_digest ossl (as_HashAlg ?s) (enc32 TPM_RC_SUCCESS @ enc32 cc @ body),
        b\<lparr>tb_buf := pre @ enc32 TPM_RC_SUCCESS @ enc32 cc @ body @ TPMS_AUTH_RESPONSE_enc ar, tb_pos := size_buf b\<rparr>)"
    using GetRpHash_at [of ?d pre h8 body "TPMS_AUTH_RESPONSE_enc ar" ossl "as_HashAlg ?s" cc] b hs sz
    by (simp add: adv_def size_buf_def)
  have hm: "GetAuthHmac ossl ?s' h False [] [] (handle_of_first t) =
      Ok (auth_hmac ossl ?s' (hmac_auth ?s' (handle_of_first t)) h (TPMS_AUTH_RESPONSE_nonce ar) (as_NonceCaller ?s))" for h
    using GetAuthHmac_response [OF ok, of ?s'] hs by simp
  show ?thesis
  proof (cases "tp_InHandles t")
    case Nil
    have h: "handle_of_first t = None" using Nil by (simp add: handle_of_first_def)
    have s': "?s' = ?s\<lparr>as_NonceTpm := TPMS_AUTH_RESPONSE_nonce ar,
        as_SessionAttributes := TPMS_AUTH_RESPONSE_sessionAttributes ar\<rparr>" by (simp add: session_after_def h)
    show ?thesis
      unfolding resp_session_def response_hmac_def t'_def using hs hm
      by (simp add: area Let_def Nil h s' rp nonces throw_app ret_app)
  next
    case (Cons k ks)
    have h: "handle_of_first t = Some k" using Cons by (simp add: handle_of_first_def)
    have s': "?s' = ?s\<lparr>as_AuthValue := GetAuth k, as_NonceTpm := TPMS_AUTH_RESPONSE_nonce ar,
        as_SessionAttributes := TPMS_AUTH_RESPONSE_sessionAttributes ar\<rparr>" by (simp add: session_after_def h)
    show ?thesis
      unfolding resp_session_def response_hmac_def t'_def using hs hm
      by (simp add: area Let_def Cons h s' rp nonces throw_app ret_app)
  qed
qed

section \<open>The whole response\<close>

text \<open>The bytes of a response with one session: the size of the parameters, the parameters, the authorization area.\<close>

definition session_body :: "ByteVec \<Rightarrow> TPMS_AUTH_RESPONSE \<Rightarrow> ByteVec" where
  "session_body body ar = enc32 (of_nat (length body)) @ body @ TPMS_AUTH_RESPONSE_enc ar"

lemma read_params_before:
  assumes params: "reads (resp_initFromTpm m r) r' body" and c: "tb_buf c = pre @ body @ rest"
  shows "on_buf (sseq (set_curPos (length pre)) (sbind (resp_initFromTpm m r) (\<lambda>r. ret (Resp_other r)))) c =
    Ok (Resp_other r', adv (length body) (c\<lparr>tb_pos := length pre, tb_outOfBounds := False\<rparr>))"
proof -
  let ?d = "c\<lparr>tb_pos := length pre, tb_outOfBounds := False\<rparr>"
  have seek: "set_curPos (length pre) c = (Ok (), ?d)" using c by (simp add: set_curPos_def size_buf_def)
  have "continues ?d body" using c by (simp add: continues_def)
  moreover have "buf_ok ?d" using c by (simp add: buf_ok_def size_buf_def)
  ultimately have "resp_initFromTpm m r ?d = (Ok r', adv (length body) ?d)"
    using reads_Ok [OF params] by simp
  then show ?thesis by (simp add: on_buf_def sseq_Ok [where m = "set_curPos _", OF seek] sbind_Ok ret_app)
qed

lemma complete_command_session:
  fixes m :: "(TPM_HANDLE, 'r) RespStructure"
  assumes ok: "ossl_ok ossl" and s: "hmac_session ossl (tp_sess t a)"
    and t: "tp_Sessions t = [a]" "tp_SessTag t = TPM_ST_SESSIONS" "tp_EncSession t = None"
      "tp_NonceTpmDec t = []" "tp_NonceTpmEnc t = []"
    and ar: "TPMS_AUTH_RESPONSE_valid ar" and len: "length body < 2 ^ 32"
    and m: "resp_numHandles m = 0" "reads (resp_initFromTpm m r) r' body"
  defines "t' \<equiv> t\<lparr>tp_sess := (tp_sess t)(a := session_after t ar (tp_sess t a))\<rparr>"
  assumes last: "UpdateRespHandle ossl cc (Resp_other r') t' = (Ok resp', u)"
  shows "complete_command ossl m cc False TPM_ST_SESSIONS (Resp_other r)
      (adv 10 (TpmBuffer_of (raw_response TPM_ST_SESSIONS code (session_body body ar)))) t =
    (if TPMS_AUTH_RESPONSE_hmac ar = response_hmac ossl t (tp_sess t a) cc body ar
     then (Ok (True, resp'), u\<lparr>tp_Sessions := []\<rparr>)
     else (Throw (runtime_error ''Invalid TPM response HMAC''), t'))"
proof -
  let ?area = "TPMS_AUTH_RESPONSE_enc ar" let ?n = "of_nat (length body) :: UINT32"
  let ?good = "TPMS_AUTH_RESPONSE_hmac ar = response_hmac ossl t (tp_sess t a) cc body ar"
  define pre where "pre = enc16 TPM_ST_SESSIONS @ enc32 (of_nat (length (session_body body ar) + 10))"
  define b where "b = adv 10 (TpmBuffer_of (raw_response TPM_ST_SESSIONS code (session_body body ar)))"
  define b4 where "b4 = adv 4 b"
  define c where "c = b4\<lparr>tb_pos := 14 + length body, tb_outOfBounds := False\<rparr>"
  define e where "e = c\<lparr>tb_buf := pre @ enc32 TPM_RC_SUCCESS @ enc32 cc @ body @ ?area, tb_pos := size_buf c\<rparr>"
  let ?h8 = "enc32 code @ enc32 ?n"
  have buf: "tb_buf b = pre @ ?h8 @ body @ ?area"
    by (simp add: b_def pre_def raw_response_def TpmBuffer_of_def session_body_def)
  have pos: "tb_pos b = 10" "\<not> tb_outOfBounds b" by (simp_all add: b_def TpmBuffer_of_def)
  have pre: "length pre = 6" "length ?h8 = 8" by (simp_all add: pre_def)
  have sz: "size_buf b = 14 + length body + length ?area" unfolding size_buf_def buf by (simp add: pre)
  have n: "unat ?n = length body" using len by (rule unat_of_nat_32)
  have "continues b (enc32 ?n)" "buf_ok b"
    using buf pos sz pre by (simp_all add: continues_def buf_ok_def)
  then have size: "on_buf readInt b = Ok (?n, b4)"
    using reads_Ok [OF reads_readInt, of b ?n] by (simp add: on_buf_def b4_def)
  have b4: "size_buf b4 = 14 + length body + length ?area" "tb_pos b4 = 14" "tb_buf b4 = pre @ ?h8 @ body @ ?area"
    using sz pos buf by (simp_all add: b4_def size_buf_def)
  have seek: "to_buf (set_curPos (14 + length body)) b4 t = (Ok c, t)"
    using b4 by (simp add: to_buf_def on_buf_def set_curPos_def lift_app size_buf_def c_def)
  have c: "tb_buf c = pre @ ?h8 @ body @ ?area" "tb_pos c = length pre + 8 + length body" "\<not> tb_outOfBounds c"
    using b4 pre by (simp_all add: c_def)
  note one = resp_session_hmac [OF ok s t(4,5) ar c(1) pre(2) c(2,3), of cc, folded t'_def e_def]
  have e: "size_buf e = 14 + length body + length ?area" "tb_pos e = 14 + length body + length ?area"
      "tb_buf e = pre @ enc32 TPM_RC_SUCCESS @ enc32 cc @ body @ ?area"
    using c(1) pre by (simp_all add: e_def size_buf_def)
  have loop: "ProcessRespSessions ossl b4 cc 14 (length body) t =
      (if ?good then (Ok (True, e), t') else (Throw (runtime_error ''Invalid TPM response HMAC''), t'))"
    using one e pre by (simp add: ProcessRespSessions_def t(1) sbind_def seek getf_app ret_app)
  have t': "tp_EncSession t' = None" by (simp add: t'_def t(3))
  have params: "on_buf (sseq (set_curPos 14) (sbind (resp_initFromTpm m r) (\<lambda>r. ret (Resp_other r)))) e =
      Ok (Resp_other r', adv (length body) (e\<lparr>tb_pos := 14, tb_outOfBounds := False\<rparr>))"
    using read_params_before [OF m(2), of e "pre @ enc32 TPM_RC_SUCCESS @ enc32 cc" ?area] e(3) pre(1) by simp
  have area: "sbind (ProcessRespSessions ossl b4 cc 14 (length body)) (\<lambda>(rpReady, respBuf).
      ret (14 :: nat, length body, rpReady, respBuf)) t =
      (if ?good then (Ok (14, length body, True, e), t') else (Throw (runtime_error ''Invalid TPM response HMAC''), t'))"
    by (simp add: sbind_def loop ret_app)
  have enc: "DoParmEncryption ossl sei e 14 False t' = (Ok e, t')" for sei
    by (simp add: DoParmEncryption_def t' ret_app)
  let ?f = "adv (length body) (e\<lparr>tb_pos := 14, tb_outOfBounds := False\<rparr>)"
  have f: "tb_pos ?f = 14 + length body" by simp
  show ?thesis
  proof (cases ?good)
    case True
    note area = area [unfolded if_P [OF True]]
    show ?thesis unfolding b_def [symmetric]
      using True t(2) m(1) params f
      by (simp add: complete_command_def size n b4(2) sbind_Ok [where m = "sbind (ProcessRespSessions _ _ _ _ _) _", OF area]
          sbind_Ok [where m = "DoParmEncryption _ _ _ _ _", OF enc]
          sbind_Ok [where m = "UpdateRespHandle _ _ _", OF last] ret_app)
  next
    case False
    note area = area [unfolded if_not_P [OF False]]
    show ?thesis unfolding b_def [symmetric]
      using False t(2) m(1)
      by (simp add: complete_command_def size n b4(2)
          sbind_Throw [where m = "sbind (ProcessRespSessions _ _ _ _ _) _", OF area] ret_app)
  qed
qed

text \<open>From the device's answer to the end of the command.\<close>

lemma DispatchIn_session:
  fixes m :: "(TPM_HANDLE, 'r) RespStructure"
  assumes ok: "ossl_ok ossl" and s: "hmac_session ossl (tp_sess t a)"
    and t: "tp_Sessions t = [a]" "tp_SessTag t = TPM_ST_SESSIONS" "tp_EncSession t = None"
      "tp_NonceTpmDec t = []" "tp_NonceTpmEnc t = []"
    and settings: "\<not> tp_AuditCommand t" "\<not> tp_DemandError t" "tp_ExpectedError t = TPM_RC_SUCCESS"
    and cc: "awaits cc t" "plain_code cc" and d: "tp_device t = Some d"
    and resp: "dev_GetResponse dev d = (Ok (raw_response TPM_ST_SESSIONS TPM_RC_SUCCESS (session_body body ar)), d')"
    and len: "length (session_body body ar) + 10 < 2 ^ 32" and ar: "TPMS_AUTH_RESPONSE_valid ar"
    and m: "resp_numHandles m = 0" "reads (resp_initFromTpm m r) r' body"
  shows "\<exists>u. DispatchIn ossl dev m cc (Resp_other r) t =
      (if TPMS_AUTH_RESPONSE_hmac ar = response_hmac ossl t (tp_sess t a) cc body ar
       then (Ok (True, Resp_other r'), u\<lparr>tp_Sessions := []\<rparr>)
       else (Throw (runtime_error ''Invalid TPM response HMAC''), u)) \<and>
    tp_Sessions u = [a] \<and> tp_sess u a = session_after t ar (tp_sess t a)"
proof -
  let ?raw = "raw_response TPM_ST_SESSIONS TPM_RC_SUCCESS (session_body body ar)"
  define v where "v = noted TPM_RC_SUCCESS (received d' ?raw t)"
  define w where "w = reset_invocation v"
  have v: "tp_LastResponseCode v = TPM_RC_SUCCESS" "tolerated v TPM_RC_SUCCESS" "\<not> tp_AuditCommand v"
    using settings by (simp_all add: v_def noted_def received_def tolerated_def ResponseCodeFromTpmError_def IsFmt1_def)
  have w: "tp_sess w = tp_sess t" "tp_Sessions w = [a]" "tp_SessTag w = TPM_ST_SESSIONS" "tp_EncSession w = None"
      "tp_NonceTpmDec w = []" "tp_NonceTpmEnc w = []" "tp_InHandles w = tp_InHandles t"
    using t by (simp_all add: w_def v_def reset_invocation_def noted_def received_def)
  have same: "session_after w ar = session_after t ar" "response_hmac ossl w = response_hmac ossl t"
    using w(7) by (simp_all add: session_after_def response_hmac_def handle_of_first_def fun_eq_iff)
  have "DispatchIn ossl dev m cc (Resp_other r) t =
      complete_command ossl m cc False TPM_ST_SESSIONS (Resp_other r) (adv 10 (TpmBuffer_of ?raw)) w"
    using v by (subst DispatchIn_success [OF cc(1) d resp len, where u = v])
      (simp_all add: plain_updates [OF cc(2)] v_def [symmetric] w_def)
  moreover have "length body < 2 ^ 32" using len by (simp add: session_body_def)
  moreover have "tp_Sessions (w\<lparr>tp_sess := f\<rparr>) = [a] \<and> tp_sess (w\<lparr>tp_sess := f\<rparr>) = f" for f
    using w(2) by simp
  ultimately show ?thesis
    using complete_command_session [OF ok _ w(2-6) ar _ m plain_updates(3) [OF cc(2)], where code = TPM_RC_SUCCESS] s
    by (intro exI [of _ "w\<lparr>tp_sess := (tp_sess t)(a := session_after t ar (tp_sess t a))\<rparr>"]) (simp add: w(1,2) same)
qed

end
