(* ===== verification/Serialize.thy ===== *)
theory Serialize
  imports EnumText TpmMarshal "HOL-Library.Sublist"
begin

text \<open>
  \<^verbatim>\<open>TSS.CPP/include/Serialize.h\<close> and \<^verbatim>\<open>TSS.CPP/Src/Serialize.cpp\<close>: the text serializers.
  \<open>TextSerializer\<close> holds the text that is being written or read, \<open>JsonSerializer\<close> and
  \<open>PlainTextSerializer\<close> override its virtual methods. One record carries the members of the base class
  and of \<open>PlainTextSerializer\<close>; \<open>ts_class\<close> is the dynamic class, by which \<open>virt\<close> chooses the override.
  A method is named after its class where it is overridden (\<open>JsonSerializer_WriteNum\<close>), and the public
  methods, whose names \<open>TpmBuffer\<close> has too, start with \<open>ser_\<close>.

  A \<open>const char*\<close> member points to a string literal or into the text itself (\<open>cstr\<close>). Whether two
  equal literals are one object, on which a comparison of pointers in \<open>WriteObj\<close> depends, is left to the
  compiler by C++ and is the parameter \<open>ts_pooled\<close> here. The object behind a \<open>Serializable&\<close> is the name
  \<open>TypeName()\<close> gives for it and the action of its \<open>Serialize\<close> or \<open>Deserialize\<close>.
\<close>

section \<open>Characters and numbers of the standard library\<close>

definition eol :: string where
  "eol = [CHR 0x0A]"

definition is_blank :: "char \<Rightarrow> bool" where
  "is_blank c \<longleftrightarrow> c = CHR '' '' \<or> c = CHR 0x09 \<or> c = CHR 0x0D \<or> c = CHR 0x0A"

definition is_tab :: "char \<Rightarrow> bool" where
  "is_tab c \<longleftrightarrow> c = CHR '' '' \<or> c = CHR 0x09"

definition isdigit :: "char \<Rightarrow> bool" where
  "isdigit c \<longleftrightarrow> 48 \<le> (of_char c :: nat) \<and> (of_char c :: nat) \<le> 57"

definition isdnum :: "char \<Rightarrow> bool" where
  "isdnum c \<longleftrightarrow> isdigit c \<or> c = CHR ''-'' \<or> c = CHR ''+''"

definition isspace :: "char \<Rightarrow> bool" where
  "isspace c \<longleftrightarrow> is_blank c \<or> c = CHR 0x0B \<or> c = CHR 0x0C"

text \<open>
  \<open>find_from P p xs\<close> is \<open>find_first_of\<close>, \<open>find_first_not_of\<close> and \<open>find\<close>: the first position from \<open>p\<close> on
  that satisfies \<open>P\<close>. \<open>find_last P lim xs\<close> is \<open>find_last_of\<close> and \<open>find_last_not_of\<close>: the last one up to
  \<open>lim\<close>; \<open>None\<close> stands for \<open>npos\<close> in the limit and in the result.
\<close>

definition find_from :: "(char \<Rightarrow> bool) \<Rightarrow> nat \<Rightarrow> string \<Rightarrow> nat option" where
  "find_from P p xs =
     (case dropWhile (\<lambda>c. \<not> P c) (drop p xs) of [] \<Rightarrow> None | ys \<Rightarrow> Some (length xs - length ys))"

definition find_last :: "(char \<Rightarrow> bool) \<Rightarrow> nat option \<Rightarrow> string \<Rightarrow> nat option" where
  "find_last P lim xs =
     (let ys = (case lim of None \<Rightarrow> xs | Some l \<Rightarrow> take (Suc l) xs)
      in case dropWhile (\<lambda>c. \<not> P c) (rev ys) of [] \<Rightarrow> None | zs \<Rightarrow> Some (length zs - 1))"

text \<open>\<open>npos + 1\<close> and \<open>pos - 1\<close> of a \<open>size_t\<close>.\<close>

definition after :: "nat option \<Rightarrow> nat" where
  "after p = (case p of None \<Rightarrow> 0 | Some q \<Rightarrow> Suc q)"

definition before :: "nat option \<Rightarrow> nat option" where
  "before p = (case p of Some (Suc q) \<Rightarrow> Some q | _ \<Rightarrow> None)"

definition dec_value :: "string \<Rightarrow> nat" where
  "dec_value ds = foldl (\<lambda>n c. 10 * n + (of_char c - 48)) 0 ds"

text \<open>\<open>std::stoull\<close> in base 10: white space, a sign and digits; a negative number wraps around.\<close>

definition stoull :: "string \<Rightarrow> UINT64 outcome" where
  "stoull str =
     (let t = dropWhile isspace str;
          neg = (t \<noteq> [] \<and> hd t = CHR ''-'');
          u = (if t \<noteq> [] \<and> hd t \<in> {CHR ''-'', CHR ''+''} then tl t else t);
          ds = takeWhile isdigit u
      in if ds = [] then Throw (invalid_argument ''stoull'')
         else if 2 ^ 64 \<le> dec_value ds then Throw (out_of_range ''stoull'')
         else Ok (if neg then - of_nat (dec_value ds) else of_nat (dec_value ds)))"

definition xdigit_value :: "char \<Rightarrow> nat option" where
  "xdigit_value c =
     (let n = of_char c :: nat
      in if 48 \<le> n \<and> n \<le> 57 then Some (n - 48)
         else if 65 \<le> n \<and> n \<le> 70 then Some (n - 55)
         else if 97 \<le> n \<and> n \<le> 102 then Some (n - 87)
         else None)"

definition isxdigit :: "char \<Rightarrow> bool" where
  "isxdigit c \<longleftrightarrow> xdigit_value c \<noteq> None"

definition hex_value :: "string \<Rightarrow> nat" where
  "hex_value ds = foldl (\<lambda>n c. 16 * n + the (xdigit_value c)) 0 ds"

text \<open>\<open>std::stoi(str, nullptr, 16)\<close>, with an optional \<open>0x\<close> before a hexadecimal digit.\<close>

definition stoi16 :: "string \<Rightarrow> int outcome" where
  "stoi16 str =
     (let t = dropWhile isspace str;
          neg = (t \<noteq> [] \<and> hd t = CHR ''-'');
          u = (if t \<noteq> [] \<and> hd t \<in> {CHR ''-'', CHR ''+''} then tl t else t);
          v = (if 2 < length u \<and> u ! 0 = CHR ''0'' \<and> u ! 1 \<in> {CHR ''x'', CHR ''X''} \<and> isxdigit (u ! 2)
               then drop 2 u else u);
          ds = takeWhile isxdigit v;
          n = (if neg then - int (hex_value ds) else int (hex_value ds))
      in if ds = [] then Throw (invalid_argument ''stoi'')
         else if n < - (2 ^ 31) \<or> 2 ^ 31 \<le> n then Throw (out_of_range ''stoi'')
         else Ok n)"

section \<open>The serializer\<close>

datatype cstr = Lit string | InBuf nat

datatype text_class = JsonSerializer | PlainTextSerializer

record TextSerializer =
  ts_class :: text_class
  ts_buf :: string
  ts_valName :: cstr
  ts_valType :: cstr
  ts_sizeName :: cstr
  ts_sizeType :: cstr
  ts_pos :: nat
  ts_indent :: int
  ts_commaExpected :: bool
  ts_newLine :: bool
  ts_useComma :: bool \<comment> \<open>members of \<open>PlainTextSerializer\<close>\<close>
  ts_precise :: bool
  ts_maxLineLen :: nat
  ts_pooled :: "string \<Rightarrow> bool"

type_synonym 'a ser = "(TextSerializer, 'a) sx"

definition nstr :: cstr where
  "nstr = Lit ''''"

definition TabSize :: int where
  "TabSize = 4"

definition DefaultMaxLineLen :: nat where
  "DefaultMaxLineLen = 120"

definition WordSize :: nat where
  "WordSize = 4"

definition BytesPerLine :: nat where
  "BytesPerLine = 32"

text \<open>The characters behind a pointer, up to the terminating NUL.\<close>

definition cstr_chars :: "string \<Rightarrow> cstr \<Rightarrow> string" where
  "cstr_chars buf p = (case p of Lit s \<Rightarrow> s | InBuf i \<Rightarrow> takeWhile (\<lambda>c. c \<noteq> CHR 0x00) (drop i buf))"

definition chars :: "(TextSerializer \<Rightarrow> cstr) \<Rightarrow> TextSerializer \<Rightarrow> string" where
  "chars f s = cstr_chars (ts_buf s) (f s)"

definition virt :: "'a ser \<Rightarrow> 'a ser \<Rightarrow> 'a ser" where
  "virt json plain s = (case ts_class s of JsonSerializer \<Rightarrow> json s | PlainTextSerializer \<Rightarrow> plain s)"

definition throwMissingAt :: "string \<Rightarrow> nat \<Rightarrow> exn" where
  "throwMissingAt what at =
     runtime_error (''Invalid serial data: '' @ [CHR 0x27] @ what @ [CHR 0x27] @ '' missing at pos '' @
       to_string at)"

definition throwWrongName :: "string \<Rightarrow> string \<Rightarrow> string \<Rightarrow> exn" where
  "throwWrongName what actual expected =
     runtime_error (''Wrong '' @ what @ '' name: '' @ [CHR 0x27] @ actual @ [CHR 0x27] @ '' instead of '' @
       [CHR 0x27] @ expected @ [CHR 0x27])"

text \<open>\<open>TextSerializer_Reset\<close>, and the two forms of \<open>reset\<close>.\<close>

definition TextSerializer_Reset :: "unit ser" where
  "TextSerializer_Reset = modifyS (\<lambda>s. s\<lparr>ts_buf := '''', ts_pos := 0, ts_indent := 0, ts_commaExpected := False,
     ts_newLine := True, ts_valName := nstr, ts_valType := nstr, ts_sizeName := nstr, ts_sizeType := nstr\<rparr>)"

definition ser_reset :: "unit ser" where
  "ser_reset = TextSerializer_Reset"

definition ser_reset_text :: "string \<Rightarrow> unit ser" where
  "ser_reset_text textBuf = wseq [TextSerializer_Reset, modifyS (\<lambda>s. s\<lparr>ts_buf := textBuf\<rparr>)]"

definition ser_getCurPos :: "nat ser" where
  "ser_getCurPos s = (Ok (ts_pos s), s)"

definition ser_setCurPos :: "nat \<Rightarrow> unit ser" where
  "ser_setCurPos pos = modifyS (\<lambda>s. s\<lparr>ts_pos := pos\<rparr>)"

definition ser_getTextBuffer :: "string ser" where
  "ser_getTextBuffer s = (Ok (ts_buf s), s)"

definition ser_with :: "string \<Rightarrow> string \<Rightarrow> string \<Rightarrow> string \<Rightarrow> unit ser" where
  "ser_with name type sizeName sizeType = modifyS (\<lambda>s. s\<lparr>ts_valName := Lit name, ts_valType := Lit type,
     ts_sizeName := Lit sizeName, ts_sizeType := Lit sizeType\<rparr>)"

text \<open>\<open>buf.with(...).op()\<close>.\<close>

definition withN :: "string \<Rightarrow> string \<Rightarrow> string \<Rightarrow> string \<Rightarrow> 'a ser \<Rightarrow> 'a ser" where
  "withN name type sizeName sizeType op = sseq (ser_with name type sizeName sizeType) op"

definition TabIn :: "unit ser" where
  "TabIn = modifyS (\<lambda>s. s\<lparr>ts_indent := ts_indent s + TabSize\<rparr>)"

definition TabOut :: "unit ser" where
  "TabOut = modifyS (\<lambda>s. s\<lparr>ts_indent := ts_indent s - TabSize\<rparr>)"

text \<open>
  \<open>Write\<close>. A negative indentation is a huge \<open>size_t\<close>, for which no string can be made. \<open>back()\<close> of an
  empty string has no meaning.
\<close>

definition Write :: "string \<Rightarrow> unit ser" where
  "Write str s =
     (if str = eol \<and> ts_newLine s then (Ok (), s)
      else if str = '''' then (Undef, s)
      else if ts_newLine s \<and> ts_indent s < 0 then (Throw (length_error ''''), s)
      else (Ok (), s\<lparr>ts_buf := ts_buf s @
                (if ts_newLine s then replicate (nat (ts_indent s)) (CHR '' '') else '''') @ str,
              ts_newLine := (last str = CHR 0x0A)\<rparr>))"

definition WriteLine :: "string \<Rightarrow> unit ser" where
  "WriteLine str = Write (str @ eol)"

section \<open>Reading positions\<close>

definition SkipSpace :: "unit ser" where
  "SkipSpace s =
     (case find_from (\<lambda>c. \<not> is_blank c) (ts_pos s) (ts_buf s) of
        None \<Rightarrow> (Throw (runtime_error (''Invalid JSON: Premature end @pos '' @ to_string (ts_pos s))), s)
      | Some p \<Rightarrow> (Ok (), s\<lparr>ts_pos := p\<rparr>))"

definition Find :: "char \<Rightarrow> unit ser" where
  "Find token s =
     (case find_from (\<lambda>c. c = token) (ts_pos s) (ts_buf s) of
        None \<Rightarrow> (Throw (throwMissingAt [token] (ts_pos s)), s)
      | Some p \<Rightarrow> (Ok (), s\<lparr>ts_pos := p\<rparr>))"

text \<open>\<open>my_buf[my_pos]\<close>: the terminating NUL may be read, nothing behind it.\<close>

definition cur_char :: "char ser" where
  "cur_char s =
     (if ts_pos s < length (ts_buf s) then Ok (ts_buf s ! ts_pos s)
      else if ts_pos s = length (ts_buf s) then Ok (CHR 0x00) else Undef, s)"

definition Next :: "char \<Rightarrow> unit ser" where
  "Next token = sseq SkipSpace (sbind cur_char (\<lambda>c s.
     if c \<noteq> token then (Throw (throwMissingAt [token] (ts_pos s)), s)
     else (Ok (), s\<lparr>ts_pos := Suc (ts_pos s)\<rparr>)))"

definition NextToken :: "string \<Rightarrow> unit ser" where
  "NextToken token = sseq SkipSpace (\<lambda>s.
     if prefix token (drop (ts_pos s) (ts_buf s))
     then (Ok (), s\<lparr>ts_pos := ts_pos s + length token\<rparr>)
     else (Throw (throwMissingAt token (ts_pos s)), s))"

text \<open>The digits and signs from the position on, over which \<open>ReadNum\<close> steps.\<close>

definition take_dnum :: "string ser" where
  "take_dnum s =
     (if length (ts_buf s) < ts_pos s then (Undef, s)
      else let ds = takeWhile isdnum (drop (ts_pos s) (ts_buf s))
        in (Ok ds, s\<lparr>ts_pos := ts_pos s + length ds\<rparr>))"

section \<open>Separators and brackets\<close>

definition TextSerializer_WriteComma :: "bool \<Rightarrow> unit ser" where
  "TextSerializer_WriteComma newLine s =
     (if ts_commaExpected s then Write ('','' @ (if newLine then eol else '' '')) s else (Ok (), s))"

definition TextSerializer_ReadComma :: "unit ser" where
  "TextSerializer_ReadComma s = (if ts_commaExpected s then Next (CHR '','') s else (Ok (), s))"

definition PlainTextSerializer_WriteComma :: "bool \<Rightarrow> unit ser" where
  "PlainTextSerializer_WriteComma newLine s =
     (if ts_useComma s then TextSerializer_WriteComma newLine s
      else if ts_commaExpected s then WriteLine '''' s else (Ok (), s))"

definition PlainTextSerializer_ReadComma :: "unit ser" where
  "PlainTextSerializer_ReadComma s = (if ts_useComma s then TextSerializer_ReadComma s else (Ok (), s))"

definition WriteComma :: "bool \<Rightarrow> unit ser" where
  "WriteComma newLine = virt (TextSerializer_WriteComma newLine) (PlainTextSerializer_WriteComma newLine)"

definition ReadComma :: "unit ser" where
  "ReadComma = virt TextSerializer_ReadComma PlainTextSerializer_ReadComma"

definition expectComma :: "bool \<Rightarrow> unit ser" where
  "expectComma c = modifyS (\<lambda>s. s\<lparr>ts_commaExpected := c\<rparr>)"

definition BeginWriteObj :: "string option \<Rightarrow> unit ser" where
  "BeginWriteObj objType = wseq
     [WriteComma True,
      (case objType of Some t \<Rightarrow> Write (t @ '' '') | None \<Rightarrow> ret ()),
      WriteLine ''{'', TabIn, expectComma False]"

definition BeginReadObj :: "string option \<Rightarrow> unit ser" where
  "BeginReadObj objType = wseq
     [ReadComma,
      (case objType of Some t \<Rightarrow> NextToken t | None \<Rightarrow> ret ()),
      Next (CHR ''{''), expectComma False]"

definition EndWriteObj :: "unit ser" where
  "EndWriteObj = wseq [TabOut, WriteLine '''', Write ''}'', expectComma True]"

definition EndReadObj :: "unit ser" where
  "EndReadObj = wseq [Next (CHR ''}''), expectComma True]"

definition BeginWriteArr :: "bool \<Rightarrow> unit ser" where
  "BeginWriteArr tabIn = wseq
     [WriteComma True,
      (if tabIn then wseq [WriteLine ''['', TabIn] else Write ''[''),
      expectComma False]"

definition BeginReadArr :: "unit ser" where
  "BeginReadArr = wseq [ReadComma, Next (CHR ''[''), expectComma False]"

definition EndWriteArr :: "bool \<Rightarrow> unit ser" where
  "EndWriteArr tabOut = wseq
     [(if tabOut then wseq [TabOut, WriteLine ''''] else ret ()),
      Write '']'', expectComma True]"

definition EndReadArr :: "unit ser" where
  "EndReadArr = wseq [Next (CHR '']''), expectComma True]"

section \<open>Named entries\<close>

definition JsonSerializer_BeginWriteNamedEntry :: "bool \<Rightarrow> unit ser" where
  "JsonSerializer_BeginWriteNamedEntry objEntry = sbind getS (\<lambda>s. wseq
     [(if chars ts_valName s \<noteq> ''''
       then wseq [WriteComma True, Write (CHR 0x22 # chars ts_valName s @ CHR 0x22 # '' : '')]
       else sassert objEntry),
      modifyS (\<lambda>s. s\<lparr>ts_valName := nstr, ts_commaExpected := False\<rparr>)])"

definition JsonSerializer_BeginReadNamedEntry :: "unit ser" where
  "JsonSerializer_BeginReadNamedEntry = sseq SkipSpace (sbind cur_char (\<lambda>c.
     if c = CHR ''{'' then ret ()
     else sseq ReadComma (sseq (Next (CHR 0x22)) (sbind ser_getCurPos (\<lambda>b.
       sseq (Find (CHR 0x22)) (sbind getS (\<lambda>s.
         let name = take (ts_pos s - b) (drop b (ts_buf s)) in wseq
         [modifyS (\<lambda>s. s\<lparr>ts_pos := Suc (ts_pos s)\<rparr>),
          (if chars ts_valName s \<noteq> '''' \<and> chars ts_valName s \<noteq> name
           then throw (throwWrongName ''value'' name (chars ts_valName s)) else ret ()),
          Next (CHR '':''), SkipSpace, expectComma False])))))))"

definition PlainTextSerializer_BeginWriteNamedEntry :: "bool \<Rightarrow> unit ser" where
  "PlainTextSerializer_BeginWriteNamedEntry objEntry = sbind getS (\<lambda>s. wseq
     [(if chars ts_valName s \<noteq> ''''
       then wseq
         [sassert (chars ts_valType s \<noteq> ''''),
          WriteComma True,
          Write (chars ts_valType s @ '' '' @ chars ts_valName s @ '' = ''),
          modifyS (\<lambda>s. s\<lparr>ts_valName := nstr\<rparr>),
          (if \<not> objEntry then modifyS (\<lambda>s. s\<lparr>ts_valType := nstr\<rparr>) else ret ())]
       else sassert (objEntry \<and> chars ts_valType s = '''')),
      expectComma False])"

text \<open>
  Without an expected name the entry's own type and name become NUL-terminated strings inside the text:
  \<open>mark_end e\<close> is \<open>my_buf[e] = 0\<close>, where \<open>e\<close> may be the place of the terminating NUL.
\<close>

definition mark_end :: "nat \<Rightarrow> unit ser" where
  "mark_end e = modifyS (\<lambda>s. s\<lparr>ts_buf := (ts_buf s)[e := CHR 0x00]\<rparr>)"

definition PlainTextSerializer_BeginReadNamedEntry :: "unit ser" where
  "PlainTextSerializer_BeginReadNamedEntry = sseq SkipSpace (sbind getS (\<lambda>s.
     if chars ts_valName s = ''''
     then
       let pos = find_from (\<lambda>c. c = CHR ''='' \<or> c = CHR ''{'') (ts_pos s) (ts_buf s)
       in if (case pos of Some p \<Rightarrow> ts_buf s ! p = CHR ''{'' | None \<Rightarrow> False) then ret ()
          else sseq ReadComma (sbind getS (\<lambda>s.
            let e = after (find_last (\<lambda>c. \<not> is_tab c) (before pos) (ts_buf s));
                b = after (find_last is_tab (Some e) (ts_buf s))
            in wseq [modifyS (\<lambda>s. s\<lparr>ts_valType := InBuf b\<rparr>), mark_end e,
              (\<lambda>s. let e = after (find_last (\<lambda>c. \<not> is_tab c) (Some b) (ts_buf s))
                 in wseq [modifyS (\<lambda>s. s\<lparr>ts_valName := InBuf (ts_pos s)\<rparr>), mark_end e] s),
              modifyS (\<lambda>s. s\<lparr>ts_pos := after pos\<rparr>),
              SkipSpace, expectComma False]))
     else wseq
       [sassert (chars ts_valType s \<noteq> ''''),
        ReadComma, NextToken (chars ts_valType s), SkipSpace, NextToken (chars ts_valName s),
        Next (CHR ''=''), SkipSpace, expectComma False]))"

definition BeginWriteNamedEntry :: "bool \<Rightarrow> unit ser" where
  "BeginWriteNamedEntry objEntry = virt (JsonSerializer_BeginWriteNamedEntry objEntry)
     (PlainTextSerializer_BeginWriteNamedEntry objEntry)"

definition BeginReadNamedEntry :: "unit ser" where
  "BeginReadNamedEntry = virt JsonSerializer_BeginReadNamedEntry PlainTextSerializer_BeginReadNamedEntry"

section \<open>Numbers and enumerators\<close>

definition JsonSerializer_WriteNum :: "UINT64 \<Rightarrow> unit ser" where
  "JsonSerializer_WriteNum val = wseq [WriteComma False, Write (to_string (unat val)), expectComma True]"

definition JsonSerializer_ReadNum :: "UINT64 ser" where
  "JsonSerializer_ReadNum =
     sseq ReadComma (sseq (expectComma True) (sseq SkipSpace (sbind take_dnum (\<lambda>ds. lift (stoull ds)))))"

definition WriteHexCopy :: "UINT64 \<Rightarrow> unit ser" where
  "WriteHexCopy val = Write ('' (0x'' @ to_hex val 0 @ '')'')"

definition NextHexCopy :: "UINT64 \<Rightarrow> unit ser" where
  "NextHexCopy val = sseq (NextToken ''(0x'') (sbind ser_getCurPos (\<lambda>b. sseq (Find (CHR '')''))
     (\<lambda>s. let hex = take (ts_pos s - b) (drop b (ts_buf s))
        in if val \<noteq> from_hex hex
           then (Throw (runtime_error (''Mismatching dec and hex values '' @ to_string (unat val) @
                   '' and 0x'' @ hex @ '' at pos '' @ to_string b)), s)
           else (Ok (), s\<lparr>ts_pos := Suc (ts_pos s)\<rparr>))))"

definition PlainTextSerializer_WriteNum :: "UINT64 \<Rightarrow> unit ser" where
  "PlainTextSerializer_WriteNum val =
     wseq [WriteComma False, Write (to_string (unat val)), WriteHexCopy val, expectComma True]"

definition PlainTextSerializer_ReadNum :: "UINT64 ser" where
  "PlainTextSerializer_ReadNum =
     sseq ReadComma (sseq (expectComma True) (sseq SkipSpace (sbind take_dnum (\<lambda>ds.
       sbind (lift (stoull ds)) (\<lambda>res. sseq (NextHexCopy res) (ret res))))))"

definition JsonSerializer_WriteEnum :: "UINT32 \<Rightarrow> enumID \<Rightarrow> unit ser" where
  "JsonSerializer_WriteEnum val enumID = JsonSerializer_WriteNum (ucast val)"

definition JsonSerializer_ReadEnum :: "enumID \<Rightarrow> UINT32 ser" where
  "JsonSerializer_ReadEnum enumID = sbind JsonSerializer_ReadNum (\<lambda>v. ret (ucast v))"

definition PlainTextSerializer_WriteEnum :: "UINT32 \<Rightarrow> enumID \<Rightarrow> unit ser" where
  "PlainTextSerializer_WriteEnum val enumID =
     wseq [WriteComma False, Write (EnumToStr val enumID), WriteHexCopy (ucast val), expectComma True]"

text \<open>The name is what stands before the blank in front of the bracket.\<close>

definition PlainTextSerializer_ReadEnum :: "enumID \<Rightarrow> UINT32 ser" where
  "PlainTextSerializer_ReadEnum enumID =
     sseq ReadComma (sseq (expectComma True) (sseq SkipSpace (sbind ser_getCurPos (\<lambda>b.
       sseq (Find (CHR ''('')) (sbind getS (\<lambda>s.
         let n = ts_pos s - b;
             enumName = (if n = 0 then drop b (ts_buf s) else take (n - 1) (drop b (ts_buf s)))
         in sbind (lift (StrToEnum enumName enumID)) (\<lambda>res. sseq (NextHexCopy (ucast res)) (ret res))))))))"

definition WriteNum :: "UINT64 \<Rightarrow> unit ser" where
  "WriteNum val = virt (JsonSerializer_WriteNum val) (PlainTextSerializer_WriteNum val)"

definition ReadNum :: "UINT64 ser" where
  "ReadNum = virt JsonSerializer_ReadNum PlainTextSerializer_ReadNum"

definition WriteEnum :: "UINT32 \<Rightarrow> enumID \<Rightarrow> unit ser" where
  "WriteEnum val enumID = virt (JsonSerializer_WriteEnum val enumID) (PlainTextSerializer_WriteEnum val enumID)"

definition ReadEnum :: "enumID \<Rightarrow> UINT32 ser" where
  "ReadEnum enumID = virt (JsonSerializer_ReadEnum enumID) (PlainTextSerializer_ReadEnum enumID)"

definition ser_writeNum :: "UINT64 \<Rightarrow> unit ser" where
  "ser_writeNum val = wseq [BeginWriteNamedEntry False, WriteNum val]"

definition ser_readNum :: "UINT64 ser" where
  "ser_readNum = sseq BeginReadNamedEntry ReadNum"

definition ser_writeEnum :: "UINT32 \<Rightarrow> enumID \<Rightarrow> unit ser" where
  "ser_writeEnum val enumID = wseq [BeginWriteNamedEntry False, WriteEnum val enumID]"

definition ser_readEnum :: "enumID \<Rightarrow> UINT32 ser" where
  "ser_readEnum enumID = sseq BeginReadNamedEntry (ReadEnum enumID)"

definition ser_writeByte :: "UINT8 \<Rightarrow> unit ser" where
  "ser_writeByte val = ser_writeNum (ucast val)"

definition ser_writeShort :: "UINT16 \<Rightarrow> unit ser" where
  "ser_writeShort val = ser_writeNum (ucast val)"

definition ser_writeInt :: "UINT32 \<Rightarrow> unit ser" where
  "ser_writeInt val = ser_writeNum (ucast val)"

definition ser_writeInt64 :: "UINT64 \<Rightarrow> unit ser" where
  "ser_writeInt64 val = ser_writeNum val"

definition ser_readByte :: "UINT8 ser" where
  "ser_readByte = sbind ser_readNum (\<lambda>v. ret (ucast v))"

definition ser_readShort :: "UINT16 ser" where
  "ser_readShort = sbind ser_readNum (\<lambda>v. ret (ucast v))"

definition ser_readInt :: "UINT32 ser" where
  "ser_readInt = sbind ser_readNum (\<lambda>v. ret (ucast v))"

definition ser_readInt64 :: "UINT64 ser" where
  "ser_readInt64 = ser_readNum"

section \<open>Objects\<close>

definition JsonSerializer_WriteObj :: "string \<Rightarrow> unit ser \<Rightarrow> unit ser" where
  "JsonSerializer_WriteObj typeName serialize = wseq [BeginWriteObj None, serialize, EndWriteObj]"

definition JsonSerializer_ReadObj :: "string \<Rightarrow> 'a ser \<Rightarrow> 'a ser" where
  "JsonSerializer_ReadObj typeName deserialize =
     sseq (BeginReadObj None) (sbind deserialize (\<lambda>x. sseq EndReadObj (ret x)))"

text \<open>\<open>my_valType == obj.TypeName()\<close> compares the pointers.\<close>

definition same_type :: "string \<Rightarrow> TextSerializer \<Rightarrow> bool" where
  "same_type typeName s \<longleftrightarrow> ts_valType s = Lit typeName \<and> ts_pooled s typeName"

definition PlainTextSerializer_WriteObj :: "string \<Rightarrow> unit ser \<Rightarrow> unit ser" where
  "PlainTextSerializer_WriteObj typeName serialize = sbind getS (\<lambda>s. wseq
     [modifyS (\<lambda>s. s\<lparr>ts_valType := nstr\<rparr>),
      BeginWriteObj (Some (if same_type typeName s then '''' else typeName)),
      modifyS (\<lambda>s. s\<lparr>ts_useComma := False\<rparr>),
      serialize,
      EndWriteObj,
      modifyS (\<lambda>t. t\<lparr>ts_useComma := ts_useComma s\<rparr>)])"

definition PlainTextSerializer_ReadObj :: "string \<Rightarrow> 'a ser \<Rightarrow> 'a ser" where
  "PlainTextSerializer_ReadObj typeName deserialize = sbind getS (\<lambda>s.
     sseq (BeginReadObj (Some (if same_type typeName s then '''' else typeName)))
     (sseq (modifyS (\<lambda>s. s\<lparr>ts_useComma := False\<rparr>))
     (sbind deserialize (\<lambda>x.
     sseq EndReadObj
     (sseq (modifyS (\<lambda>t. t\<lparr>ts_useComma := ts_useComma s\<rparr>)) (ret x))))))"

definition WriteObj :: "string \<Rightarrow> unit ser \<Rightarrow> unit ser" where
  "WriteObj typeName serialize = virt (JsonSerializer_WriteObj typeName serialize)
     (PlainTextSerializer_WriteObj typeName serialize)"

definition ReadObj :: "string \<Rightarrow> 'a ser \<Rightarrow> 'a ser" where
  "ReadObj typeName deserialize = virt (JsonSerializer_ReadObj typeName deserialize)
     (PlainTextSerializer_ReadObj typeName deserialize)"

definition ser_writeObj :: "string \<Rightarrow> unit ser \<Rightarrow> unit ser" where
  "ser_writeObj typeName serialize = wseq [BeginWriteNamedEntry True, WriteObj typeName serialize]"

definition ser_readObj :: "string \<Rightarrow> 'a ser \<Rightarrow> 'a ser" where
  "ser_readObj typeName deserialize = sseq BeginReadNamedEntry (ReadObj typeName deserialize)"

section \<open>Arrays\<close>

definition BeginArrSizeOp :: "unit ser" where
  "BeginArrSizeOp = modifyS (\<lambda>s. s\<lparr>ts_valName := ts_sizeName s, ts_sizeName := ts_valName s,
     ts_valType := ts_sizeType s, ts_sizeType := ts_valType s\<rparr>)"

definition EndArrSizeOp :: "unit ser" where
  "EndArrSizeOp = modifyS (\<lambda>s. s\<lparr>ts_valName := ts_sizeName s, ts_valType := ts_sizeType s,
     ts_sizeName := nstr, ts_sizeType := nstr\<rparr>)"

definition WriteArrSize :: "nat \<Rightarrow> unit ser" where
  "WriteArrSize size' = wseq [BeginArrSizeOp, ser_writeNum (of_nat size'), EndArrSizeOp]"

definition ReadArrSize :: "nat ser" where
  "ReadArrSize = sseq BeginArrSizeOp (sbind ser_readNum (\<lambda>size'. sseq EndArrSizeOp (ret (unat size'))))"

definition ser_writeObjArr :: "string \<Rightarrow> ('a \<Rightarrow> unit ser) \<Rightarrow> 'a list \<Rightarrow> unit ser" where
  "ser_writeObjArr typeName serialize arr = wseq
     [WriteArrSize (length arr),
      BeginWriteNamedEntry False,
      BeginWriteArr (arr \<noteq> []),
      wseq (map (\<lambda>obj. WriteObj typeName (serialize obj)) arr),
      EndWriteArr (arr \<noteq> [])]"

fun readElemsText :: "string \<Rightarrow> ('a \<Rightarrow> 'a ser) \<Rightarrow> 'a list \<Rightarrow> 'a list ser" where
  "readElemsText typeName deserialize [] = ret []"
| "readElemsText typeName deserialize (obj # objs) =
     sbind (ReadObj typeName (deserialize obj)) (\<lambda>x.
     sbind (readElemsText typeName deserialize objs) (\<lambda>xs. ret (x # xs)))"

definition ser_readObjArr :: "string \<Rightarrow> ('a \<Rightarrow> 'a ser) \<Rightarrow> 'a \<Rightarrow> 'a list \<Rightarrow> 'a list ser" where
  "ser_readObjArr typeName deserialize dflt arr =
     sbind ReadArrSize (\<lambda>size'.
     sseq (wseq [BeginReadNamedEntry, BeginReadArr, WriteLine '''', TabIn])
     (sbind (readElemsText typeName deserialize (resize dflt size' arr)) (\<lambda>xs.
     sseq (wseq [TabOut, EndReadArr]) (ret xs))))"

subsection \<open>Byte buffers\<close>

definition JsonSerializer_writeSizedByteBuf :: "ByteVec \<Rightarrow> unit ser" where
  "JsonSerializer_writeSizedByteBuf buf = wseq
     [WriteArrSize (length buf),
      BeginWriteNamedEntry False,
      BeginWriteArr False,
      wseq (map (\<lambda>b. WriteNum (ucast b)) buf),
      EndWriteArr False]"

fun read_byte_nums :: "nat \<Rightarrow> ByteVec ser" where
  "read_byte_nums 0 = ret []"
| "read_byte_nums (Suc n) =
     sbind ReadNum (\<lambda>b. sbind (read_byte_nums n) (\<lambda>bs. ret (ucast b # bs)))"

definition JsonSerializer_readSizedByteBuf :: "ByteVec ser" where
  "JsonSerializer_readSizedByteBuf =
     sbind ReadArrSize (\<lambda>size'.
     sseq (wseq [BeginReadNamedEntry, BeginReadArr])
     (sbind (read_byte_nums size') (\<lambda>buf.
     sseq EndReadArr (ret buf))))"

definition size_sub :: "nat \<Rightarrow> nat \<Rightarrow> nat" where
  "size_sub a b = nat ((int a - int b) mod 2 ^ 64)"

definition GetCurLineLen :: "TextSerializer \<Rightarrow> nat" where
  "GetCurLineLen s =
     (if ts_newLine s then 0
      else length (ts_buf s) -
        (case find_last (\<lambda>c. c = CHR 0x0A) None (ts_buf s) of None \<Rightarrow> 0 | Some pos \<Rightarrow> pos))"

text \<open>The bytes of a fragment, in groups of \<open>WordSize\<close> that a blank separates; what is left follows.\<close>

definition write_hex :: "byte \<Rightarrow> unit ser" where
  "write_hex b = Write (to_hex (ucast b) 0)"

fun write_words :: "ByteVec \<Rightarrow> nat \<Rightarrow> nat \<Rightarrow> unit ser" where
  "write_words buf pos 0 = ret ()"
| "write_words buf pos (Suc n) = wseq
     [wseq (map (\<lambda>j. write_hex (buf ! j)) [pos..<pos + WordSize]),
      (if n \<noteq> 0 then Write '' '' else ret ()),
      write_words buf (pos + WordSize) n]"

definition WriteByteBufFrag :: "ByteVec \<Rightarrow> nat \<Rightarrow> nat \<Rightarrow> unit ser" where
  "WriteByteBufFrag buf pos len = wseq
     [sassert (pos + len \<le> length buf),
      write_words buf pos (len div WordSize),
      wseq (map (\<lambda>j. write_hex (buf ! j)) [pos + len div WordSize * WordSize..<pos + len])]"

datatype buf_layout = one_line | own_line | indented | abbreviated

text \<open>
  How the buffer is laid out. The sizes are \<open>size_t\<close>: both differences can wrap around, and
  \<open>buf.size() / WordSize - 1\<close> does for a buffer of less than a word, but the sum is right again.
\<close>

definition buf_layout_of :: "ByteVec \<Rightarrow> TextSerializer \<Rightarrow> buf_layout" where
  "buf_layout_of buf s =
     (let size' = length buf * 2 + length buf div WordSize + 1
      in if size' < size_sub (ts_maxLineLen s) (GetCurLineLen s) then one_line
         else if length buf \<le> BytesPerLine \<or>
           size' < nat ((int (ts_maxLineLen s) - ts_indent s - TabSize) mod 2 ^ 64) then own_line
         else if ts_precise s then indented else abbreviated)"

definition PlainTextSerializer_writeSizedByteBuf :: "ByteVec \<Rightarrow> unit ser" where
  "PlainTextSerializer_writeSizedByteBuf buf =
     sseq (wseq [WriteArrSize (length buf), BeginWriteNamedEntry False]) (sbind getS (\<lambda>s.
       let layout = buf_layout_of buf s;
           fullRows = length buf div BytesPerLine
       in wseq
         [(if layout = own_line then wseq [WriteLine '''', TabIn] else ret ()),
          BeginWriteArr (layout = indented),
          (if layout = abbreviated then wseq
             [WriteByteBufFrag buf 0 (BytesPerLine div 2),
              Write '' ... '',
              WriteByteBufFrag buf (length buf - BytesPerLine div 2) (BytesPerLine div 2)]
           else wseq
             [wseq (map (\<lambda>row. wseq
                [WriteByteBufFrag buf (row * BytesPerLine) BytesPerLine,
                 (if layout = indented then WriteLine '''' else ret ())]) [0..<fullRows]),
              WriteByteBufFrag buf (fullRows * BytesPerLine) (length buf mod BytesPerLine)]),
          EndWriteArr (layout = indented),
          (if layout = own_line then TabOut else ret ())]))"

text \<open>\<open>substr(my_pos, 2)\<close> and the number it stands for.\<close>

definition read_hex_byte :: "byte ser" where
  "read_hex_byte s =
     (if length (ts_buf s) < ts_pos s then (Throw (out_of_range ''basic_string::substr''), s)
      else let hex = take 2 (drop (ts_pos s) (ts_buf s)); s' = s\<lparr>ts_pos := ts_pos s + 2\<rparr>
        in case stoi16 hex of
             Ok n \<Rightarrow> (Ok (of_int n), s')
           | Throw e \<Rightarrow> (Throw e, s')
           | AssertFailed \<Rightarrow> (AssertFailed, s')
           | Undef \<Rightarrow> (Undef, s'))"

fun read_hex_bytes :: "nat list \<Rightarrow> ByteVec ser" where
  "read_hex_bytes [] = ret []"
| "read_hex_bytes (i # is) =
     sseq (if i mod WordSize = 0 then SkipSpace else ret ())
     (sbind read_hex_byte (\<lambda>b. sbind (read_hex_bytes is) (\<lambda>bs. ret (b # bs))))"

definition PlainTextSerializer_readSizedByteBuf :: "ByteVec ser" where
  "PlainTextSerializer_readSizedByteBuf =
     sbind ReadArrSize (\<lambda>size'.
     sseq (wseq [BeginReadNamedEntry, BeginReadArr]) (sbind getS (\<lambda>s.
       let pos = find_from (\<lambda>c. c = CHR ''.'' \<or> c = CHR '']'') (ts_pos s) (ts_buf s)
       in if (case pos of Some p \<Rightarrow> ts_buf s ! p = CHR ''.'' | None \<Rightarrow> False)
          then sseq (wseq
            [sassert (prefix ''...'' (drop (the pos) (ts_buf s))),
             Find (CHR '']''),
             modifyS (\<lambda>s. s\<lparr>ts_pos := Suc (ts_pos s)\<rparr>)]) (ret (replicate size' 0))
          else sbind (read_hex_bytes [0..<size']) (\<lambda>buf. sseq EndReadArr (ret buf)))))"

definition ser_writeSizedByteBuf :: "ByteVec \<Rightarrow> unit ser" where
  "ser_writeSizedByteBuf buf = virt (JsonSerializer_writeSizedByteBuf buf) (PlainTextSerializer_writeSizedByteBuf buf)"

definition ser_readSizedByteBuf :: "ByteVec ser" where
  "ser_readSizedByteBuf = virt JsonSerializer_readSizedByteBuf PlainTextSerializer_readSizedByteBuf"

subsection \<open>Enumerators\<close>

text \<open>
  The elements are given as the numbers that the loop reads from the array; \<open>valSize\<close> is the size of the
  enumeration's type.
\<close>

definition bad_enum_size :: exn where
  "bad_enum_size = invalid_argument ''Only enums of 1-, 2-, and 4-byte size are supported''"

definition JsonSerializer_writeEnumArr :: "UINT32 list \<Rightarrow> nat \<Rightarrow> enumID \<Rightarrow> unit ser" where
  "JsonSerializer_writeEnumArr arr valSize enumID = wseq
     [WriteArrSize (length arr),
      BeginWriteNamedEntry False,
      BeginWriteArr False,
      wseq (map (\<lambda>val. if valSize \<in> {1, 2, 4} then WriteNum (ucast val) else throw bad_enum_size) arr),
      EndWriteArr False]"

definition PlainTextSerializer_writeEnumArr :: "UINT32 list \<Rightarrow> nat \<Rightarrow> enumID \<Rightarrow> unit ser" where
  "PlainTextSerializer_writeEnumArr arr valSize enumID =
     sseq (wseq [WriteArrSize (length arr), BeginWriteNamedEntry False, BeginWriteArr (1 < length arr)])
     (sbind getS (\<lambda>s. wseq
       [modifyS (\<lambda>s. s\<lparr>ts_useComma := True\<rparr>),
        wseq (map (\<lambda>val. wseq
          [(if 1 < length arr then WriteLine '''' else ret ()),
           (if valSize \<in> {1, 2, 4} then WriteEnum val enumID else throw bad_enum_size)]) arr),
        EndWriteArr (1 < length arr),
        modifyS (\<lambda>t. t\<lparr>ts_useComma := ts_useComma s\<rparr>)]))"

definition ser_writeEnumArr :: "UINT32 list \<Rightarrow> nat \<Rightarrow> enumID \<Rightarrow> unit ser" where
  "ser_writeEnumArr arr valSize enumID = virt (JsonSerializer_writeEnumArr arr valSize enumID)
     (PlainTextSerializer_writeEnumArr arr valSize enumID)"

fun read_enums :: "nat \<Rightarrow> nat \<Rightarrow> enumID \<Rightarrow> UINT32 list ser" where
  "read_enums 0 valSize enumID = ret []"
| "read_enums (Suc n) valSize enumID =
     sbind (ReadEnum enumID) (\<lambda>val.
       if valSize \<in> {1, 2, 4}
       then sbind (read_enums n valSize enumID) (\<lambda>vals. ret (take_bit (8 * valSize) val # vals))
       else throw bad_enum_size)"

text \<open>
  \<open>TextSerializer::readEnumArr\<close>; \<open>arr\<close> says whether a pointer is given, and the elements that are stored
  through it are the second result. Without a pointer the position goes back to the start.
\<close>

definition TextSerializer_readEnumArr :: "bool \<Rightarrow> nat \<Rightarrow> nat \<Rightarrow> enumID \<Rightarrow> (nat \<times> UINT32 list) ser" where
  "TextSerializer_readEnumArr arr arrSize valSize enumID =
     sbind ser_getCurPos (\<lambda>pos. sbind ReadArrSize (\<lambda>size'.
       if \<not> arr then sseq (ser_setCurPos pos) (ret (size', []))
       else if size' \<noteq> arrSize
       then throw (runtime_error (''Serialized array size ('' @ to_string size' @
              '') is diffrent from the expected size ('' @ to_string arrSize @ '')''))
       else sseq (wseq [BeginReadNamedEntry, BeginReadArr])
         (sbind (read_enums size' valSize enumID) (\<lambda>vals. sseq EndReadArr (ret (size', vals))))))"

text \<open>
  \<open>readEnumArr(vector<E>&)\<close>: both calls pass a null pointer, so the second reads the size again and stores
  nothing; the new elements are zero.
\<close>

definition ser_readEnumArr :: "'e::len word list \<Rightarrow> nat \<Rightarrow> enumID \<Rightarrow> 'e word list ser" where
  "ser_readEnumArr arr valSize enumID =
     sbind (TextSerializer_readEnumArr False 0 valSize No_enum) (\<lambda>(size', _).
     sbind (TextSerializer_readEnumArr False size' valSize enumID) (\<lambda>_.
     ret (resize 0 size' arr)))"

section \<open>What the methods of structures use\<close>

text \<open>
  The templates \<open>writeEnum<E>\<close> and \<open>readEnum<E>\<close>: the value as 32 bits, sign-extended where the
  enumeration's type is signed, and cut off again.
\<close>

definition ser_writeEnumT :: "'e::len word \<Rightarrow> enumID \<Rightarrow> unit ser" where
  "ser_writeEnumT val enumID = ser_writeEnum (ucast val) enumID"

definition ser_writeEnumS :: "'e::len word \<Rightarrow> enumID \<Rightarrow> unit ser" where
  "ser_writeEnumS val enumID = ser_writeEnum (scast val) enumID"

definition ser_readEnumT :: "enumID \<Rightarrow> 'e::len word ser" where
  "ser_readEnumT enumID = sbind (ser_readEnum enumID) (\<lambda>v. ret (ucast v))"

text \<open>
  A union member: \<open>if (u) buf.with(...).writeObj(*u)\<close>, \<open>if (u) buf.with(...).readObj(*u)\<close>, and
  \<open>if (!selector) u.reset(); else UnionFactory::Create(u, selector)\<close>.
\<close>

definition if_set :: "'u option \<Rightarrow> ('u \<Rightarrow> unit ser) \<Rightarrow> unit ser" where
  "if_set u op = (case u of None \<Rightarrow> ret () | Some x \<Rightarrow> op x)"

definition read_if_set :: "'u option \<Rightarrow> ('u \<Rightarrow> 'u ser) \<Rightarrow> 'u option ser" where
  "read_if_set u op = (case u of None \<Rightarrow> ret None | Some x \<Rightarrow> sbind (op x) (\<lambda>y. ret (Some y)))"

definition reset_or_create :: "('s::len word \<Rightarrow> 'u option outcome) \<Rightarrow> 's word \<Rightarrow> 'u option ser" where
  "reset_or_create create selector = (if selector = 0 then ret None else lift (create selector))"

text \<open>The two forms of the selector's accessor: \<open>u ? u->GetUnionSelector() : d\<close>, and \<open>!u ? 0 : sel()\<close>.\<close>

definition selector_or :: "'s \<Rightarrow> ('u \<Rightarrow> 's) \<Rightarrow> 'u option \<Rightarrow> 's" where
  "selector_or d sel u = (case u of None \<Rightarrow> d | Some x \<Rightarrow> sel x)"

section \<open>Whole objects\<close>

definition new_JsonSerializer :: "(string \<Rightarrow> bool) \<Rightarrow> TextSerializer" where
  "new_JsonSerializer pooled = \<lparr>ts_class = JsonSerializer, ts_buf = '''', ts_valName = nstr, ts_valType = nstr,
     ts_sizeName = nstr, ts_sizeType = nstr, ts_pos = 0, ts_indent = 0, ts_commaExpected = False,
     ts_newLine = True, ts_useComma = False, ts_precise = False, ts_maxLineLen = DefaultMaxLineLen,
     ts_pooled = pooled\<rparr>"

definition new_PlainTextSerializer :: "(string \<Rightarrow> bool) \<Rightarrow> bool \<Rightarrow> nat \<Rightarrow> TextSerializer" where
  "new_PlainTextSerializer pooled precise maxLineLen = (new_JsonSerializer pooled)
     \<lparr>ts_class := PlainTextSerializer, ts_precise := precise, ts_maxLineLen := maxLineLen\<rparr>"

definition json_reader :: "(string \<Rightarrow> bool) \<Rightarrow> string \<Rightarrow> TextSerializer" where
  "json_reader pooled textBuf = (new_JsonSerializer pooled)\<lparr>ts_buf := textBuf\<rparr>"

definition plain_reader :: "(string \<Rightarrow> bool) \<Rightarrow> string \<Rightarrow> TextSerializer" where
  "plain_reader pooled textBuf =
     (new_PlainTextSerializer pooled False DefaultMaxLineLen)\<lparr>ts_buf := textBuf\<rparr>"

definition ser_Serialize :: "string \<Rightarrow> unit ser \<Rightarrow> string ser" where
  "ser_Serialize typeName serialize = sseq (ser_writeObj typeName serialize) ser_getTextBuffer"

definition ser_Deserialize :: "string \<Rightarrow> 'a ser \<Rightarrow> 'a ser" where
  "ser_Deserialize typeName deserialize = ser_readObj typeName deserialize"

text \<open>\<open>TpmStructure::Serialize\<close> and \<open>TpmStructure::Deserialize\<close> (\<^verbatim>\<open>TpmStructure.cpp\<close>).\<close>

definition TpmStructure_Serialize ::
  "(string \<Rightarrow> bool) \<Rightarrow> text_class \<Rightarrow> string \<Rightarrow> unit ser \<Rightarrow> string outcome" where
  "TpmStructure_Serialize pooled format typeName serialize =
     fst (ser_Serialize typeName serialize
       (case format of JsonSerializer \<Rightarrow> new_JsonSerializer pooled
        | PlainTextSerializer \<Rightarrow> new_PlainTextSerializer pooled True DefaultMaxLineLen))"

definition TpmStructure_Deserialize ::
  "(string \<Rightarrow> bool) \<Rightarrow> text_class \<Rightarrow> string \<Rightarrow> string \<Rightarrow> 'a ser \<Rightarrow> 'a outcome" where
  "TpmStructure_Deserialize pooled format inBuf typeName deserialize =
     fst (ser_Deserialize typeName deserialize
       (case format of JsonSerializer \<Rightarrow> json_reader pooled inBuf
        | PlainTextSerializer \<Rightarrow> plain_reader pooled inBuf))"

end
