(* ===== verification/SerializeLaws.thy ===== *)
theory SerializeLaws
  imports Serialize
begin

unbundle bit_operations_syntax

text \<open>
  What the text serializers promise. \<open>carries\<close> is the contract between an action that writes a value and
  the one that reads it back: the text that was written, wherever it stands, is read as the value, up to its
  last character, and the expectation of a comma afterwards is the same for both. The laws below prove it
  for every entry that \<open>Serialize\<close> methods are made of, for both serializers; the structures then follow
  from them (theories \<open>Serial...\<close>).
\<close>

named_theorems carries_intros \<open>rules by which the body of a Serialize method is followed\<close>

section \<open>Text\<close>

abbreviation blanks :: "string \<Rightarrow> bool" where
  "blanks \<equiv> list_all is_blank"

text \<open>What is left to read.\<close>

definition rest_of :: "TextSerializer \<Rightarrow> string" where
  "rest_of t = drop (ts_pos t) (ts_buf t)"

definition skip :: "nat \<Rightarrow> TextSerializer \<Rightarrow> TextSerializer" where
  "skip n t = t\<lparr>ts_pos := ts_pos t + n\<rparr>"

lemma skip_simps [simp]:
  "rest_of (skip n t) = drop n (rest_of t)"
  "ts_pos (skip n t) = ts_pos t + n" "ts_buf (skip n t) = ts_buf t" "ts_class (skip n t) = ts_class t"
  "ts_valName (skip n t) = ts_valName t" "ts_valType (skip n t) = ts_valType t"
  "ts_sizeName (skip n t) = ts_sizeName t" "ts_sizeType (skip n t) = ts_sizeType t"
  "ts_indent (skip n t) = ts_indent t" "ts_commaExpected (skip n t) = ts_commaExpected t"
  "ts_newLine (skip n t) = ts_newLine t" "ts_useComma (skip n t) = ts_useComma t"
  "ts_precise (skip n t) = ts_precise t" "ts_maxLineLen (skip n t) = ts_maxLineLen t"
  "ts_pooled (skip n t) = ts_pooled t"
  by (simp_all add: skip_def rest_of_def add.commute)

lemma skip_skip [simp]: "skip m (skip n t) = skip (n + m) t"
  by (simp add: skip_def add.assoc)

lemma skip_0 [simp]: "skip 0 t = t"
  by (simp add: skip_def)

lemma rest_of_cong [simp]:
  "rest_of (t\<lparr>ts_commaExpected := b\<rparr>) = rest_of t" "rest_of (t\<lparr>ts_valName := n\<rparr>) = rest_of t"
  "rest_of (t\<lparr>ts_valType := n\<rparr>) = rest_of t" "rest_of (t\<lparr>ts_sizeName := n\<rparr>) = rest_of t"
  "rest_of (t\<lparr>ts_sizeType := n\<rparr>) = rest_of t" "rest_of (t\<lparr>ts_indent := i\<rparr>) = rest_of t"
  "rest_of (t\<lparr>ts_useComma := b\<rparr>) = rest_of t"
  by (simp_all add: rest_of_def)

lemma rest_of_step: "rest_of (skip a t) = xs @ ys \<Longrightarrow> b = a + length xs \<Longrightarrow> rest_of (skip b t) = ys"
  by (simp only: skip_simps) (metis append_eq_conv_conj drop_drop add.commute)

lemma skip_comm:
  "skip n (t\<lparr>ts_commaExpected := b\<rparr>) = (skip n t)\<lparr>ts_commaExpected := b\<rparr>"
  by (simp add: skip_def)

lemma rest_of_nth: "rest_of t = c # cs \<Longrightarrow> ts_pos t < length (ts_buf t) \<and> ts_buf t ! ts_pos t = c"
  unfolding rest_of_def by (metis drop_eq_Nil linorder_not_le list.discI nth_via_drop)

lemma find_from_split:
  assumes "drop p xs = ys @ c # zs" and "P c" and "\<And>y. y \<in> set ys \<Longrightarrow> \<not> P y"
  shows "find_from P p xs = Some (p + length ys)"
proof -
  have "dropWhile (\<lambda>c. \<not> P c) (drop p xs) = c # zs"
    using assms by (simp add: dropWhile_append)
  moreover have "length xs - length (c # zs) = p + length ys"
  proof -
    have "length (drop p xs) = length ys + length (c # zs)" using assms(1) by simp
    then show ?thesis by simp
  qed
  ultimately show ?thesis by (simp add: find_from_def)
qed

lemma SkipSpace_blanks:
  assumes "rest_of t = ws @ c # zs" and "blanks ws" and "\<not> is_blank c"
  shows "SkipSpace t = (Ok (), skip (length ws) t)"
proof -
  have "find_from (\<lambda>c. \<not> is_blank c) (ts_pos t) (ts_buf t) = Some (ts_pos t + length ws)"
    using assms by (intro find_from_split) (auto simp: rest_of_def list_all_iff)
  then show ?thesis by (simp add: SkipSpace_def skip_def)
qed

lemma cur_char_rest: "rest_of t = c # zs \<Longrightarrow> cur_char t = (Ok c, t)"
  using rest_of_nth [of t c zs] by (simp add: cur_char_def)

lemma Next_reads:
  assumes "rest_of t = ws @ c # zs" and "blanks ws" and "\<not> is_blank c"
  shows "Next c t = (Ok (), skip (Suc (length ws)) t)"
proof -
  have "cur_char (skip (length ws) t) = (Ok c, skip (length ws) t)"
    using assms by (intro cur_char_rest) simp
  then show ?thesis
    by (simp add: Next_def sseq_def sbind_def SkipSpace_blanks [OF assms])
qed

lemma NextToken_reads:
  assumes "rest_of t = ws @ tok @ zs" and "blanks ws" and "tok @ zs = c # cs" and "\<not> is_blank c"
  shows "NextToken tok t = (Ok (), skip (length ws + length tok) t)"
proof -
  have "rest_of t = ws @ c # cs" using assms by simp
  note ok = SkipSpace_blanks [OF this assms(2,4)]
  have "prefix tok (drop (ts_pos (skip (length ws) t)) (ts_buf (skip (length ws) t)))"
    using assms(1) by (simp add: rest_of_def prefix_def) (metis append_eq_conv_conj drop_drop add.commute)
  then show ?thesis
    by (simp add: NextToken_def sseq_def sbind_def ok)
qed

lemma Find_reads:
  assumes "rest_of t = xs @ c # zs" and "c \<notin> set xs"
  shows "Find c t = (Ok (), skip (length xs) t)"
proof -
  have "find_from (\<lambda>d. d = c) (ts_pos t) (ts_buf t) = Some (ts_pos t + length xs)"
    using assms by (intro find_from_split) (auto simp: rest_of_def)
  then show ?thesis by (simp add: Find_def skip_def)
qed

section \<open>Named entries\<close>

text \<open>Names and type names: no blank, no quote, nothing at which a plain text ends a name.\<close>

definition word_char :: "char \<Rightarrow> bool" where
  "word_char c \<longleftrightarrow> 34 < (of_char c :: nat) \<and> c \<noteq> CHR ''='' \<and> c \<noteq> CHR ''{''"

definition word_ok :: "string \<Rightarrow> bool" where
  "word_ok w \<longleftrightarrow> w \<noteq> '''' \<and> list_all word_char w"

lemma word_okD:
  assumes "word_ok w"
  obtains c cs where "w = c # cs" and "\<not> is_blank c" and "CHR 0x22 \<notin> set w" and "w \<noteq> ''''"
proof -
  have "w \<noteq> ''''" using assms by (simp add: word_ok_def)
  then obtain c cs where w: "w = c # cs" by (cases w) auto
  have no: "d \<notin> set w" if "of_char d \<le> (34 :: nat)" for d
  proof
    assume "d \<in> set w"
    then have "word_char d" using assms by (simp add: word_ok_def list_all_iff)
    then have "34 < (of_char d :: nat)" unfolding word_char_def by blast
    with that show False by simp
  qed
  have "\<not> is_blank c"
    using w no [of "CHR '' ''"] no [of "CHR 0x09"] no [of "CHR 0x0D"] no [of "CHR 0x0A"]
    by (auto simp: is_blank_def)
  moreover have "CHR 0x22 \<notin> set w" using no by simp
  ultimately show ?thesis using w that by simp
qed

abbreviation spaces :: "TextSerializer \<Rightarrow> string" where
  "spaces s \<equiv> replicate (nat (ts_indent s)) (CHR '' '')"

text \<open>The indentation at the start of a line.\<close>

definition ind :: "TextSerializer \<Rightarrow> string" where
  "ind s = (if ts_newLine s then spaces s else '''')"

lemma blanks_ind [simp]: "blanks (ind s)" "blanks (spaces s)" "blanks eol"
  by (simp_all add: ind_def is_blank_def eol_def list_all_length)

lemma Write_emits:
  "str \<noteq> '''' \<Longrightarrow> str \<noteq> eol \<or> \<not> ts_newLine s \<Longrightarrow> 0 \<le> ts_indent s \<Longrightarrow>
   Write str s = (Ok (), s\<lparr>ts_buf := ts_buf s @ ind s @ str, ts_newLine := (last str = CHR 0x0A)\<rparr>)"
  by (auto simp: Write_def ind_def)

lemma eol_simps [simp]:
  "eol \<noteq> ''''" "last eol = CHR 0x0A" "c # eol \<noteq> eol" "last (c # eol) = CHR 0x0A"
  "[c] = eol \<longleftrightarrow> c = CHR 0x0A"
  by (simp_all add: eol_def)

lemma Write_eol_again: "ts_newLine s \<Longrightarrow> Write eol s = (Ok (), s)"
  by (simp add: Write_def)

text \<open>What \<open>BeginWriteNamedEntry\<close> writes.\<close>

definition comma_text :: "TextSerializer \<Rightarrow> string" where
  "comma_text s =
     (case ts_class s of
        JsonSerializer \<Rightarrow> (if ts_commaExpected s then ind s @ '','' @ eol @ spaces s else ind s)
      | PlainTextSerializer \<Rightarrow>
          (if ts_commaExpected s \<and> \<not> ts_newLine s then eol @ spaces s else ind s))"

definition head_text :: "TextSerializer \<Rightarrow> string \<Rightarrow> string \<Rightarrow> string" where
  "head_text s ty n = comma_text s @
     (case ts_class s of
        JsonSerializer \<Rightarrow> CHR 0x22 # n @ CHR 0x22 # '' : ''
      | PlainTextSerializer \<Rightarrow> ty @ '' '' @ n @ '' = '')"

lemma WriteComma_emits:
  "0 \<le> ts_indent s \<Longrightarrow> \<not> ts_useComma s \<Longrightarrow> str \<noteq> '''' \<Longrightarrow> str \<noteq> eol \<Longrightarrow>
   sseq (WriteComma True) (Write str) s =
     (Ok (), s\<lparr>ts_buf := ts_buf s @ comma_text s @ str, ts_newLine := (last str = CHR 0x0A)\<rparr>)"
  by (cases "ts_class s"; cases "ts_commaExpected s"; cases "ts_newLine s")
    (simp_all add: sseq_def sbind_def WriteComma_def virt_def TextSerializer_WriteComma_def
      PlainTextSerializer_WriteComma_def WriteLine_def Write_emits Write_eol_again comma_text_def ind_def)

lemma BeginWriteNamedEntry_emits:
  assumes "ts_valName s = Lit n" and "ts_valType s = Lit ty" and "n \<noteq> ''''" and "ty \<noteq> ''''"
    and "0 \<le> ts_indent s" and "\<not> ts_useComma s"
  shows "BeginWriteNamedEntry objEntry s = (Ok (), s\<lparr>ts_buf := ts_buf s @ head_text s ty n,
     ts_newLine := False, ts_valName := nstr, ts_commaExpected := False,
     ts_valType := (if ts_class s = PlainTextSerializer \<and> \<not> objEntry then nstr else Lit ty)\<rparr>)"
proof (cases "ts_class s")
  case JsonSerializer
  have "sseq (WriteComma True) (Write (CHR 0x22 # n @ CHR 0x22 # '' : '')) s =
      (Ok (), s\<lparr>ts_buf := ts_buf s @ head_text s ty n, ts_newLine := False\<rparr>)"
    using assms JsonSerializer by (subst WriteComma_emits) (simp_all add: head_text_def eol_def)
  then show ?thesis
    using assms JsonSerializer
    by (simp add: BeginWriteNamedEntry_def virt_def JsonSerializer_BeginWriteNamedEntry_def chars_def
        cstr_chars_def expectComma_def sx_simps sseq_def sbind_def split: prod.splits outcome.splits)
next
  case PlainTextSerializer
  have "sseq (WriteComma True) (Write (ty @ '' '' @ n @ '' = '')) s =
      (Ok (), s\<lparr>ts_buf := ts_buf s @ head_text s ty n, ts_newLine := False\<rparr>)"
    using assms PlainTextSerializer
    by (subst WriteComma_emits) (simp_all add: head_text_def eol_def)
  then show ?thesis
    using assms PlainTextSerializer
    by (auto simp: BeginWriteNamedEntry_def virt_def PlainTextSerializer_BeginWriteNamedEntry_def chars_def
        cstr_chars_def expectComma_def sx_simps sseq_def sbind_def split: prod.splits outcome.splits)
qed

lemma comma_text_json:
  assumes "ts_class s = JsonSerializer"
  obtains v w where "comma_text s = v @ (if ts_commaExpected s then '','' else '''') @ w"
    and "blanks v" and "blanks w" and "\<not> ts_commaExpected s \<Longrightarrow> v = ''''"
proof (cases "ts_commaExpected s")
  case True
  then show ?thesis
    using assms that [of "ind s" "eol @ spaces s"] by (simp add: comma_text_def)
next
  case False
  then show ?thesis using assms that [of "''''" "ind s"] by (simp add: comma_text_def)
qed

lemma comma_text_plain: "ts_class s = PlainTextSerializer \<Longrightarrow> blanks (comma_text s)"
  by (simp add: comma_text_def)

lemma ReadComma_json:
  assumes "ts_class t = JsonSerializer" and "rest_of t = v @ (if ts_commaExpected t then '','' else '''') @ zs"
    and "blanks v" and "\<not> ts_commaExpected t \<Longrightarrow> v = ''''"
  shows "ReadComma t = (Ok (), skip (length v + (if ts_commaExpected t then 1 else 0)) t)"
proof (cases "ts_commaExpected t")
  case True
  then have "Next (CHR '','') t = (Ok (), skip (Suc (length v)) t)"
    using assms by (intro Next_reads) (auto simp: is_blank_def)
  then show ?thesis
    using assms True by (simp add: ReadComma_def virt_def TextSerializer_ReadComma_def)
next
  case False
  then show ?thesis using assms by (simp add: ReadComma_def virt_def TextSerializer_ReadComma_def)
qed

lemma ReadComma_plain:
  "ts_class t = PlainTextSerializer \<Longrightarrow> \<not> ts_useComma t \<Longrightarrow> ReadComma t = (Ok (), t)"
  by (simp add: ReadComma_def virt_def PlainTextSerializer_ReadComma_def)

lemma json_entry_reads:
  assumes c: "ts_class t = JsonSerializer" and n: "ts_valName t = Lit n" "word_ok n"
    and r: "rest_of t = v @ (if ts_commaExpected t then '','' else '''') @ w @
      CHR 0x22 # n @ CHR 0x22 # '' : '' @ ws @ y # zs"
    and b: "blanks v" "blanks w" "blanks ws" "\<not> is_blank y"
    and v: "\<not> ts_commaExpected t \<Longrightarrow> v = ''''"
  shows "BeginReadNamedEntry t = (Ok (), (skip (length v + (if ts_commaExpected t then 1 else 0) + length w +
    length n + 5 + length ws) t)\<lparr>ts_commaExpected := False\<rparr>)"
proof -
  have nq: "CHR 0x22 \<notin> set n" and ne: "n \<noteq> ''''"
    using word_okD [OF n(2)] by metis+
  define a where "a = length v + (if ts_commaExpected t then 1 else 0)"
  define q where "q = CHR 0x22 # n @ CHR 0x22 # '' : '' @ ws @ y # zs"
  obtain u c0 us where u: "rest_of t = u @ c0 # us" "blanks u" "\<not> is_blank c0" "c0 \<noteq> CHR ''{''"
    and vu: "length u \<le> a + length w"
    and rc: "ReadComma (skip (length u) t) = (Ok (), skip (max a (length u)) t)"
    and w': "rest_of (skip (max a (length u)) t) = drop (max a (length u) - a) w @ q"
  proof (cases "ts_commaExpected t")
    case True
    have r0: "rest_of t = v @ CHR '','' # w @ q" using r True by (simp add: q_def)
    moreover have "ReadComma (skip (length v) t) = (Ok (), skip 1 (skip (length v) t))"
      using ReadComma_json [of "skip (length v) t" "''''" "w @ q"] c True r0 by simp
    ultimately show ?thesis
      using True b(1) by (intro that [of v "CHR '','' " "w @ q"]) (simp_all add: a_def is_blank_def)
  next
    case False
    have r0: "rest_of t = w @ q" using r False v by (simp add: q_def)
    moreover have "ReadComma (skip (length w) t) = (Ok (), skip (length w) t)"
      using ReadComma_json [of "skip (length w) t" "''''" q] c False r0 by simp
    ultimately show ?thesis
      using False b(2) v
      by (intro that [of w "CHR 0x22" "n @ CHR 0x22 # '' : '' @ ws @ y # zs"])
        (simp_all add: a_def is_blank_def q_def)
  qed
  define k where "k = max a (length u)"
  define w2 where "w2 = drop (k - a) w"
  define e where "e = a + length w"
  have w2: "blanks w2" "k + length w2 = e"
    using b(2) vu by (auto simp: w2_def e_def k_def list_all_iff dest: in_set_dropD)
  have rk: "rest_of (skip k t) = w2 @ q" using w' by (simp add: k_def w2_def)
  have re: "drop e (rest_of t) = q"
  proof -
    have "drop e (rest_of t) = drop (length w2) (drop k (rest_of t))" using w2 by (simp add: add.commute)
    also have "\<dots> = q" using rk by simp
    finally show ?thesis .
  qed
  have 1: "SkipSpace t = (Ok (), skip (length u) t)" using u by (intro SkipSpace_blanks)
  have 2: "cur_char (skip (length u) t) = (Ok c0, skip (length u) t)"
    using u by (intro cur_char_rest) simp
  have 3: "Next (CHR 0x22) (skip k t) = (Ok (), skip (Suc e) t)"
    using Next_reads [of "skip k t" w2 "CHR 0x22"] rk w2 by (simp add: q_def is_blank_def)
  have re1: "drop (Suc e) (rest_of t) = n @ CHR 0x22 # '' : '' @ ws @ y # zs"
    using re by (simp add: q_def drop_Suc drop_tl flip: drop_Suc) (metis drop_Suc list.sel(3) tl_drop)
  have 4: "Find (CHR 0x22) (skip (Suc e) t) = (Ok (), skip (Suc e + length n) t)"
    using Find_reads [of "skip (Suc e) t" n "CHR 0x22"] re1 nq by simp
  have nm: "take (length n) (drop (ts_pos t + Suc e) (ts_buf t)) = n"
    using re1 by (simp add: rest_of_def add.commute)
  have re2: "drop (Suc (Suc e + length n)) (rest_of t) = '' : '' @ ws @ y # zs"
  proof -
    have "drop (Suc (Suc e + length n)) (rest_of t) = drop (Suc (length n)) (drop (Suc e) (rest_of t))"
      by (simp add: add.commute)
    then show ?thesis by (simp add: re1)
  qed
  let ?m = "Suc (Suc e + length n)"
  have 5: "Next (CHR '':'') (skip ?m t) = (Ok (), skip (?m + 2) t)"
    using Next_reads [of "skip ?m t" "'' ''" "CHR '':''"] re2 by (simp add: is_blank_def)
  have re3: "rest_of (skip (?m + 2) t) = ('' '' @ ws) @ y # zs"
  proof -
    have "rest_of (skip (?m + 2) t) = drop 2 (drop ?m (rest_of t))"
      by (simp only: skip_simps drop_drop add.commute)
    then show ?thesis by (simp only: re2) simp
  qed
  have 6: "SkipSpace (skip (?m + 2) t) = (Ok (), skip (?m + 2 + length ('' '' @ ws)) t)"
    using SkipSpace_blanks [OF re3] b by (simp add: is_blank_def)
  have 45: "(skip (Suc (e + length n)) t)\<lparr>ts_pos := Suc (Suc (ts_pos t + (e + length n)))\<rparr> = skip ?m t"
    by (simp add: skip_def)
  have end_pos: "?m + 2 + length ('' '' @ ws) = length v + (if ts_commaExpected t then 1 else 0) + length w +
      length n + 5 + length ws"
    by (simp add: e_def a_def)
  have "JsonSerializer_BeginReadNamedEntry t =
      (Ok (), (skip (?m + 2 + length ('' '' @ ws)) t)\<lparr>ts_commaExpected := False\<rparr>)"
    using 1 2 rc 3 4 5 6 u(4) nm n ne
    by (simp add: 45 JsonSerializer_BeginReadNamedEntry_def sseq_def sbind_def ser_getCurPos_def sx_simps
        k_def [symmetric] chars_def cstr_chars_def expectComma_def Let_def)
  then show ?thesis unfolding end_pos by (simp add: BeginReadNamedEntry_def virt_def c)
qed

lemma plain_entry_reads:
  assumes c: "ts_class t = PlainTextSerializer" "\<not> ts_useComma t"
    and n: "ts_valName t = Lit n" "word_ok n" and ty: "ts_valType t = Lit ty" "word_ok ty"
    and r: "rest_of t = w @ ty @ '' '' @ n @ '' = '' @ ws @ y # zs"
    and b: "blanks w" "blanks ws" "\<not> is_blank y"
  shows "BeginReadNamedEntry t = (Ok (), (skip (length w + length ty + 1 + length n + 3 + length ws) t)
    \<lparr>ts_commaExpected := False\<rparr>)"
proof -
  obtain c1 cs1 where ty1: "ty = c1 # cs1" "\<not> is_blank c1" using word_okD [OF ty(2)] by metis
  obtain c2 cs2 where n1: "n = c2 # cs2" "\<not> is_blank c2" using word_okD [OF n(2)] by metis
  let ?q = "'' = '' @ ws @ y # zs"
  let ?a = "length w"
  let ?b = "?a + length ty"
  let ?d = "Suc ?b + length n"
  have 1: "SkipSpace t = (Ok (), skip ?a t)"
    using SkipSpace_blanks [of t w c1] r b ty1 by simp
  have r1: "rest_of (skip ?a t) = ty @ '' '' @ n @ ?q" using r by simp
  have 2: "NextToken ty (skip ?a t) = (Ok (), skip ?b t)"
    using NextToken_reads [of "skip ?a t" "''''" ty "'' '' @ n @ ?q"] r1 ty1 by simp
  note r2 = rest_of_step [OF r1 refl]
  have 3: "SkipSpace (skip ?b t) = (Ok (), skip (Suc ?b) t)"
    using SkipSpace_blanks [of "skip ?b t" "'' ''" c2] r2 n1 by (simp add: is_blank_def)
  have r3: "rest_of (skip (Suc ?b) t) = n @ ?q" by (rule rest_of_step [OF r2]) simp
  have 4: "NextToken n (skip (Suc ?b) t) = (Ok (), skip ?d t)"
    using NextToken_reads [of "skip (Suc ?b) t" "''''" n ?q] r3 n1 by simp
  have r4: "rest_of (skip ?d t) = '' '' @ CHR ''='' # ('' '' @ ws) @ y # zs"
    using rest_of_step [OF r3 refl] by simp
  have 5: "Next (CHR ''='') (skip ?d t) = (Ok (), skip (?d + 2) t)"
    using Next_reads [OF r4] by (simp add: is_blank_def)
  have r5: "rest_of (skip (?d + 2) t) = ('' '' @ ws) @ y # zs"
    by (rule rest_of_step [of ?d t "'' =''"]) (use r4 in simp_all)
  have 6: "SkipSpace (skip (?d + 2) t) = (Ok (), skip (?d + 2 + length ('' '' @ ws)) t)"
    using SkipSpace_blanks [OF r5] b by (simp add: is_blank_def)
  have end_pos: "?d + 2 + length ('' '' @ ws) = length w + length ty + 1 + length n + 3 + length ws"
    by simp
  have "PlainTextSerializer_BeginReadNamedEntry t =
      (Ok (), (skip (?d + 2 + length ('' '' @ ws)) t)\<lparr>ts_commaExpected := False\<rparr>)"
    using 1 2 3 4 5 6 n1 n ty ty1 c
    by (simp add: PlainTextSerializer_BeginReadNamedEntry_def sseq_def sbind_def sx_simps
        chars_def cstr_chars_def expectComma_def ReadComma_plain)
  then show ?thesis unfolding end_pos by (simp add: BeginReadNamedEntry_def virt_def c)
qed

text \<open>The two together: the entry's head and the blanks before its value are read.\<close>

lemma BeginReadNamedEntry_reads:
  assumes s: "ts_class t = ts_class s" "ts_commaExpected t = ts_commaExpected s" "\<not> ts_useComma t"
    and n: "ts_valName t = Lit n" "word_ok n" and ty: "ts_valType t = Lit ty" "word_ok ty"
    and r: "rest_of t = u @ head_text s ty n @ ws @ y # zs" and b: "blanks u" "blanks ws" "\<not> is_blank y"
  shows "BeginReadNamedEntry t =
    (Ok (), (skip (length u + length (head_text s ty n) + length ws) t)\<lparr>ts_commaExpected := False\<rparr>)"
proof (cases "ts_class s")
  case JsonSerializer
  obtain v w where vw: "comma_text s = v @ (if ts_commaExpected s then '','' else '''') @ w"
    "blanks v" "blanks w" "\<not> ts_commaExpected s \<Longrightarrow> v = ''''"
    using comma_text_json [OF JsonSerializer] by blast
  have l: "length (head_text s ty n) =
      length v + (if ts_commaExpected s then 1 else 0) + length w + length n + 5"
    using vw(1) JsonSerializer by (simp add: head_text_def)
  show ?thesis
  proof (cases "ts_commaExpected s")
    case True
    then show ?thesis
      using json_entry_reads [of t n "u @ v" w ws y zs] vw s n r b l JsonSerializer
      by (simp add: head_text_def add.assoc)
  next
    case False
    then show ?thesis
      using json_entry_reads [of t n "''''" "u @ w" ws y zs] vw s n r b l JsonSerializer
      by (simp add: head_text_def add.assoc)
  qed
next
  case PlainTextSerializer
  have "length (head_text s ty n) = length (comma_text s) + length ty + 1 + length n + 3"
    using PlainTextSerializer by (simp add: head_text_def)
  then show ?thesis
    using plain_entry_reads [of t n ty "u @ comma_text s" ws y zs] comma_text_plain s n ty r b
      PlainTextSerializer
    by (simp add: head_text_def add.assoc)
qed

section \<open>Numbers\<close>

lemma isdigit_char_of: "k < 10 \<Longrightarrow> isdigit (char_of (48 + k :: nat))"
  by (simp add: isdigit_def)

lemma to_string_digits: "to_string n \<noteq> ''''" "list_all isdigit (to_string n)"
proof (induction n rule: to_string.induct)
  case (1 n)
  { case 1 show ?case by (subst to_string.simps) simp }
  { case 2 show ?case using 1 by (subst to_string.simps) (simp add: isdigit_char_of) }
qed

lemma dec_value_snoc: "dec_value (ds @ [c]) = 10 * dec_value ds + (of_char c - 48)"
  by (simp add: dec_value_def)

lemma dec_value_to_string: "dec_value (to_string n) = n"
proof (induction n rule: to_string.induct)
  case (1 n)
  show ?case
    using 1 by (subst to_string.simps) (simp add: dec_value_snoc, simp add: dec_value_def)
qed

lemma digit_chars:
  assumes "isdigit c"
  shows "\<not> is_blank c" and "\<not> isspace c" and "c \<noteq> CHR ''-''" and "c \<noteq> CHR ''+''" and "isdnum c"
    and "c \<noteq> CHR '',''"
  using assms by (auto simp: isdigit_def is_blank_def isspace_def isdnum_def)

lemma stoull_to_string:
  assumes "n < 2 ^ 64"
  shows "stoull (to_string n) = Ok (of_nat n)"
proof -
  obtain c cs where cs: "to_string n = c # cs" and c: "isdigit c"
    using to_string_digits [of n] by (cases "to_string n") auto
  have "takeWhile isdigit (to_string n) = to_string n"
    using to_string_digits(2) by (simp add: takeWhile_eq_all_conv list_all_iff)
  then show ?thesis
    using assms dec_value_to_string [of n] digit_chars [OF c] cs by (simp add: stoull_def)
qed

text \<open>A number ends where no digit follows; in plain text its hexadecimal copy ends it.\<close>

definition no_digit :: "text_class \<Rightarrow> string \<Rightarrow> bool" where
  "no_digit c rest \<longleftrightarrow> (c = JsonSerializer \<longrightarrow> rest \<noteq> '''' \<longrightarrow> \<not> isdnum (hd rest))"

lemma takeWhile_digits:
  assumes "list_all isdigit ds" and "no_digit JsonSerializer rest"
  shows "takeWhile isdnum (ds @ rest) = ds"
proof -
  have "takeWhile isdnum rest = ''''" using assms(2) by (cases rest) (auto simp: no_digit_def)
  then show ?thesis
    using assms(1) digit_chars(5) by (simp add: takeWhile_append list_all_iff)
qed

lemma take_dnum_reads:
  assumes "rest_of t = ds @ rest" and "list_all isdigit ds" and "ds \<noteq> ''''"
    and "no_digit JsonSerializer rest"
  shows "take_dnum t = (Ok ds, skip (length ds) t)"
proof -
  have "ts_pos t < length (ts_buf t)"
    using assms(1,3) by (cases ds) (auto dest: rest_of_nth)
  then show ?thesis
    using takeWhile_digits [OF assms(2,4)] assms(1) by (simp add: take_dnum_def rest_of_def skip_def)
qed

definition is_hex :: "char \<Rightarrow> bool" where
  "is_hex c \<longleftrightarrow> (48 \<le> (of_char c :: nat) \<and> (of_char c :: nat) \<le> 57) \<or>
     (65 \<le> (of_char c :: nat) \<and> (of_char c :: nat) \<le> 70)"

lemma is_hex_hexDigit: "d < 16 \<Longrightarrow> is_hex (hexDigit d)"
proof -
  assume "d < 16"
  then have "unat d < 16" by (simp add: word_less_nat_alt)
  then show ?thesis by (auto simp: hexDigit_def is_hex_def word_less_nat_alt)
qed

lemma hex_loop_chars: "list_all is_hex res \<Longrightarrow> list_all is_hex (hex_loop os v res)"
proof (induction os v res rule: hex_loop.induct)
  case (2 offs os val res)
  have "ucast (drop_bit offs (val AND push_bit offs 0x0F) AND 0x0F) < (16 :: UINT8)"
  proof -
    have "ucast (drop_bit offs (val AND push_bit offs 0x0F) AND 0x0F) =
        take_bit 4 (ucast (drop_bit offs (val AND push_bit offs 0x0F)) :: UINT8)"
      by (rule bit_word_eqI) (auto simp: bit_simps mask4)
    moreover have "take_bit 4 w < 16" for w :: UINT8
      using take_bit_nat_less_exp [of 4 "unat w"] by (simp add: word_less_nat_alt unsigned_take_bit_eq)
    ultimately show ?thesis by simp
  qed
  then show ?case using 2 by (simp add: Let_def is_hex_hexDigit)
qed simp

lemma to_hex_chars: "list_all is_hex (to_hex v width)"
  by (auto simp: to_hex_def Let_def is_hex_def intro!: hex_loop_chars)
    (simp_all add: list_all_iff is_hex_def)

definition num_text :: "text_class \<Rightarrow> UINT64 \<Rightarrow> string" where
  "num_text c v = to_string (unat v) @
     (case c of JsonSerializer \<Rightarrow> '''' | PlainTextSerializer \<Rightarrow> '' (0x'' @ to_hex v 0 @ '')'')"

lemma NextHexCopy_reads:
  assumes "rest_of t = '' (0x'' @ to_hex v 0 @ '')'' @ rest"
  shows "NextHexCopy v t = (Ok (), skip (length (to_hex v 0) + 5) t)"
proof -
  have 1: "NextToken ''(0x'' t = (Ok (), skip 4 t)"
    using NextToken_reads [of t "'' ''" "''(0x''" "to_hex v 0 @ '')'' @ rest"] assms
    by (simp add: is_blank_def)
  have r: "rest_of (skip 4 t) = to_hex v 0 @ CHR '')'' # rest" using assms by simp
  have "CHR '')'' \<notin> set (to_hex v 0)"
    using to_hex_chars [of v 0] by (auto simp: list_all_iff is_hex_def)
  then have 2: "Find (CHR '')'') (skip 4 t) = (Ok (), skip (4 + length (to_hex v 0)) t)"
    using Find_reads [OF r] by simp
  have "take (length (to_hex v 0)) (drop (ts_pos t + 4) (ts_buf t)) = to_hex v 0"
    using r by (simp add: rest_of_def)
  then show ?thesis
    by (simp add: NextHexCopy_def sseq_def sbind_def 1 2 ser_getCurPos_def from_hex_to_hex)
      (simp add: skip_def)
qed

lemma num_text_hd: "\<exists>y ys. num_text c v = y # ys \<and> isdigit y"
  using to_string_digits [of "unat v"] by (cases "to_string (unat v)") (auto simp: num_text_def)

lemma ReadNum_reads:
  assumes "ts_class t = c" and "\<not> ts_commaExpected t" and "\<not> ts_useComma t"
    and r: "rest_of t = num_text c v @ rest" and "no_digit c rest"
  shows "ReadNum t = (Ok v, (skip (length (num_text c v)) t)\<lparr>ts_commaExpected := True\<rparr>)"
proof -
  let ?ds = "to_string (unat v)" and ?t = "t\<lparr>ts_commaExpected := True\<rparr>"
  obtain y ys where y: "num_text c v = y # ys" "isdigit y" using num_text_hd by blast
  have rc: "ReadComma t = (Ok (), t)"
    using assms by (cases c) (simp_all add: ReadComma_def virt_def TextSerializer_ReadComma_def
        PlainTextSerializer_ReadComma_def)
  have sk: "SkipSpace ?t = (Ok (), ?t)"
    using SkipSpace_blanks [of ?t "''''" y] r y digit_chars by simp
  have dv: "stoull ?ds = Ok v"
    using stoull_to_string [of "unat v"] unsigned_less [of v] by simp
  show ?thesis
  proof (cases c)
    case JsonSerializer
    then have "take_dnum ?t = (Ok ?ds, skip (length ?ds) ?t)"
      using assms to_string_digits by (intro take_dnum_reads) (simp_all add: num_text_def)
    then show ?thesis
      using JsonSerializer assms(1) rc sk dv
      by (simp add: ReadNum_def virt_def JsonSerializer_ReadNum_def sseq_def sbind_def sx_simps
          expectComma_def num_text_def skip_def)
  next
    case PlainTextSerializer
    have nd: "no_digit JsonSerializer ('' (0x'' @ zs)" for zs by (simp add: no_digit_def isdnum_def isdigit_def)
    have "take_dnum ?t = (Ok ?ds, skip (length ?ds) ?t)"
      using PlainTextSerializer assms(4) to_string_digits nd
      by (intro take_dnum_reads [where rest = "'' (0x'' @ to_hex v 0 @ '')'' @ rest"])
        (simp_all add: num_text_def)
    moreover have "NextHexCopy v (skip (length ?ds) ?t) = (Ok (), skip (length (to_hex v 0) + 5) (skip (length ?ds) ?t))"
      using PlainTextSerializer assms(4) by (intro NextHexCopy_reads) (simp add: num_text_def)
    ultimately show ?thesis
      using PlainTextSerializer assms(1) rc sk dv
      by (simp add: ReadNum_def virt_def PlainTextSerializer_ReadNum_def sseq_def sbind_def sx_simps
          expectComma_def num_text_def skip_def)
  qed
qed

lemma WriteNum_emits:
  assumes "\<not> ts_commaExpected s" and "\<not> ts_newLine s" and "0 \<le> ts_indent s" and "\<not> ts_useComma s"
  shows "WriteNum v s = (Ok (), s\<lparr>ts_buf := ts_buf s @ num_text (ts_class s) v, ts_commaExpected := True\<rparr>)"
proof -
  have "isdigit (last (to_string (unat v)))"
    using to_string_digits [of "unat v"] by (metis last_in_set list_all_iff)
  then have last: "last (to_string (unat v)) \<noteq> CHR 0x0A" by (auto simp: isdigit_def)
  then have ne: "to_string (unat v) \<noteq> eol" by (auto simp: eol_def)
  show ?thesis
  proof (cases "ts_class s")
    case JsonSerializer
    then show ?thesis
      using assms ne last to_string_digits(1)
      by (simp add: WriteNum_def virt_def JsonSerializer_WriteNum_def sseq_def sbind_def sx_simps
          WriteComma_def TextSerializer_WriteComma_def Write_emits expectComma_def num_text_def ind_def)
  next
    case PlainTextSerializer
    then show ?thesis
      using assms ne last to_string_digits(1)
      by (simp add: WriteNum_def virt_def PlainTextSerializer_WriteNum_def sseq_def sbind_def sx_simps
          WriteComma_def PlainTextSerializer_WriteComma_def Write_emits expectComma_def num_text_def ind_def
          WriteHexCopy_def)
  qed
qed

section \<open>The contract\<close>

text \<open>
  The classes whose objects are elements of an array. An element is written with its type name when the
  type of the last entry is not its own (\<open>same_type\<close>), on both sides; a \<open>leaf\<close> type is none of them.
\<close>

definition elem_types :: "string list" where
  "elem_types = [''TPM_HANDLE'', ''TPM2B_DIGEST'', ''TPMT_HA'', ''TPMS_ALG_PROPERTY'', ''TPMS_PCR_SELECTION'',
     ''TPMS_TAGGED_PROPERTY'', ''TPMS_TAGGED_PCR_SELECT'', ''TPMS_TAGGED_POLICY'', ''TPMS_ACT_DATA'',
     ''TPMS_AC_OUTPUT'']"

definition leaf :: "cstr \<Rightarrow> bool" where
  "leaf v \<longleftrightarrow> (\<forall>ty \<in> set elem_types. v \<noteq> Lit ty)"

definition writer_ok :: "text_class \<Rightarrow> (string \<Rightarrow> bool) \<Rightarrow> TextSerializer \<Rightarrow> bool" where
  "writer_ok c p s \<longleftrightarrow> ts_class s = c \<and> ts_pooled s = p \<and> 0 \<le> ts_indent s \<and> \<not> ts_useComma s \<and>
     (c = PlainTextSerializer \<longrightarrow> ts_precise s \<and> ts_valType s = nstr)"

definition reader_ok :: "text_class \<Rightarrow> (string \<Rightarrow> bool) \<Rightarrow> TextSerializer \<Rightarrow> bool" where
  "reader_ok c p t \<longleftrightarrow> ts_class t = c \<and> ts_pooled t = p \<and> ts_newLine t \<and> \<not> ts_useComma t"

text \<open>
  \<open>reads_back\<close>: from a text that begins with blanks and \<open>out\<close>, \<open>r\<close> reads \<open>v\<close> and stops behind \<open>out\<close>, up
  to blanks. The flags are
  the expectation of a comma before and after; when one is expected what follows must not be a digit, and
  \<open>keeps_end\<close> says that \<open>out\<close> passes this on. \<open>fresh\<close> says that the type of the entry before \<open>out\<close> does not
  matter.
\<close>

definition reads_back ::
  "text_class \<Rightarrow> (string \<Rightarrow> bool) \<Rightarrow> bool \<Rightarrow> 'a ser \<Rightarrow> 'a \<Rightarrow> bool \<Rightarrow> bool \<Rightarrow> string \<Rightarrow> bool" where
  "reads_back c p fresh r v comma comma' out \<longleftrightarrow> (\<forall>t ws rest. reader_ok c p t \<longrightarrow>
     ts_commaExpected t = comma \<longrightarrow> blanks ws \<longrightarrow> rest_of t = ws @ out @ rest \<longrightarrow>
     (comma' \<longrightarrow> no_digit c rest) \<longrightarrow> fresh \<or> leaf (ts_valType t) \<longrightarrow>
     (\<exists>t' ws'. r t = (Ok v, t') \<and> reader_ok c p t' \<and> blanks ws' \<and> rest_of t' = ws' @ rest \<and>
        ts_commaExpected t' = comma' \<and> leaf (ts_valType t')))"

lemma reads_backI:
  assumes "\<And>t ws rest. reader_ok c p t \<Longrightarrow> ts_commaExpected t = comma \<Longrightarrow> blanks ws \<Longrightarrow>
     rest_of t = ws @ out @ rest \<Longrightarrow> (comma' \<Longrightarrow> no_digit c rest) \<Longrightarrow> fresh \<or> leaf (ts_valType t) \<Longrightarrow>
     \<exists>t' ws'. r t = (Ok v, t') \<and> reader_ok c p t' \<and> blanks ws' \<and> rest_of t' = ws' @ rest \<and>
        ts_commaExpected t' = comma' \<and> leaf (ts_valType t')"
  shows "reads_back c p fresh r v comma comma' out"
  using assms unfolding reads_back_def by blast

lemma reads_backE:
  assumes "reads_back c p fresh r v comma comma' out" and "reader_ok c p t" and "ts_commaExpected t = comma"
    and "blanks ws" and "rest_of t = ws @ out @ rest" and "comma' \<Longrightarrow> no_digit c rest"
    and "fresh \<or> leaf (ts_valType t)"
  obtains t' ws' where "r t = (Ok v, t')" and "reader_ok c p t'" and "blanks ws'"
    and "rest_of t' = ws' @ rest" and "ts_commaExpected t' = comma'" and "leaf (ts_valType t')"
  using assms unfolding reads_back_def by blast

definition keeps_end :: "text_class \<Rightarrow> bool \<Rightarrow> bool \<Rightarrow> string \<Rightarrow> bool" where
  "keeps_end c comma comma' out \<longleftrightarrow>
     (\<forall>rest. (comma' \<longrightarrow> no_digit c rest) \<longrightarrow> comma \<longrightarrow> no_digit c (out @ rest))"

definition carries :: "text_class \<Rightarrow> bool \<Rightarrow> unit ser \<Rightarrow> 'a ser \<Rightarrow> 'a \<Rightarrow> bool" where
  "carries c fresh w r v \<longleftrightarrow> (\<forall>p s. writer_ok c p s \<longrightarrow>
     (\<exists>out s'. w s = (Ok (), s') \<and> writer_ok c p s' \<and> ts_buf s' = ts_buf s @ out \<and>
        ts_indent s' = ts_indent s \<and>
        keeps_end c (ts_commaExpected s) (ts_commaExpected s') out \<and>
        reads_back c p fresh r v (ts_commaExpected s) (ts_commaExpected s') out))"

lemma carriesE:
  assumes "carries c fresh w r v" and "writer_ok c p s"
  obtains out s' where "w s = (Ok (), s')" and "writer_ok c p s'" and "ts_buf s' = ts_buf s @ out"
    and "ts_indent s' = ts_indent s" and "keeps_end c (ts_commaExpected s) (ts_commaExpected s') out"
    and "reads_back c p fresh r v (ts_commaExpected s) (ts_commaExpected s') out"
  using assms unfolding carries_def by blast

lemma carriesI:
  assumes "\<And>p s. writer_ok c p s \<Longrightarrow>
     \<exists>out s'. w s = (Ok (), s') \<and> writer_ok c p s' \<and> ts_buf s' = ts_buf s @ out \<and>
        ts_indent s' = ts_indent s \<and>
        keeps_end c (ts_commaExpected s) (ts_commaExpected s') out \<and>
        reads_back c p fresh r v (ts_commaExpected s) (ts_commaExpected s') out"
  shows "carries c fresh w r v"
  using assms unfolding carries_def by blast


lemma keeps_end_append:
  "keeps_end c a b xs \<Longrightarrow> keeps_end c b d ys \<Longrightarrow> keeps_end c a d (xs @ ys)"
  by (simp add: keeps_end_def)

lemma reads_back_mono: "reads_back c p True r v a b out \<Longrightarrow> reads_back c p False r v a b out"
  by (simp add: reads_back_def)

lemma reads_back_sbind:
  assumes r: "reads_back c p fresh r v a b xs" and k: "reads_back c p False (k v) x b d ys"
    and e: "keeps_end c b d ys"
  shows "reads_back c p fresh (sbind r k) x a d (xs @ ys)"
proof (rule reads_backI)
  fix t ws rest
  assume t: "reader_ok c p t" "ts_commaExpected t = a" "blanks ws" "rest_of t = ws @ (xs @ ys) @ rest"
    and nd: "d \<Longrightarrow> no_digit c rest" and f: "fresh \<or> leaf (ts_valType t)"
  have t4: "rest_of t = ws @ xs @ (ys @ rest)" using t(4) by simp
  have nd1: "b \<Longrightarrow> no_digit c (ys @ rest)" using e nd by (simp add: keeps_end_def)
  obtain t1 ws1 where t1: "r t = (Ok v, t1)" "reader_ok c p t1" "blanks ws1"
      "rest_of t1 = ws1 @ ys @ rest" "ts_commaExpected t1 = b" "leaf (ts_valType t1)"
    using reads_backE [OF r t(1-3) t4 nd1 f] by blast
  obtain t2 ws2 where "k v t1 = (Ok x, t2)" "reader_ok c p t2" "blanks ws2" "rest_of t2 = ws2 @ rest"
      "ts_commaExpected t2 = d" "leaf (ts_valType t2)"
    using reads_backE [OF k t1(2,5,3,4) nd disjI2 [OF t1(6)]] by blast
  then show "\<exists>t' ws'. sbind r k t = (Ok x, t') \<and> reader_ok c p t' \<and> blanks ws' \<and>
      rest_of t' = ws' @ rest \<and> ts_commaExpected t' = d \<and> leaf (ts_valType t')"
    using t1 by (simp add: sbind_def)
qed

lemma carries_mono:
  assumes "carries c True w r v"
  shows "carries c False w r v"
proof (rule carriesI)
  fix p s assume "writer_ok c p s"
  with assms obtain out s' where "w s = (Ok (), s')" "writer_ok c p s'" "ts_buf s' = ts_buf s @ out"
      "ts_indent s' = ts_indent s" "keeps_end c (ts_commaExpected s) (ts_commaExpected s') out"
      "reads_back c p True r v (ts_commaExpected s) (ts_commaExpected s') out"
    by (elim carriesE)
  then show "\<exists>out s'. w s = (Ok (), s') \<and> writer_ok c p s' \<and> ts_buf s' = ts_buf s @ out \<and>
        ts_indent s' = ts_indent s \<and> keeps_end c (ts_commaExpected s) (ts_commaExpected s') out \<and>
        reads_back c p False r v (ts_commaExpected s) (ts_commaExpected s') out"
    by (intro exI [of _ out] exI [of _ s']) (simp add: reads_back_mono)
qed

lemma carries_ret: "carries c False (wseq []) (ret v) v"
proof (rule carriesI)
  fix p s assume "writer_ok c p s"
  then show "\<exists>out s'. wseq [] s = (Ok (), s') \<and> writer_ok c p s' \<and> ts_buf s' = ts_buf s @ out \<and>
        ts_indent s' = ts_indent s \<and>
        keeps_end c (ts_commaExpected s) (ts_commaExpected s') out \<and>
        reads_back c p False (ret v) v (ts_commaExpected s) (ts_commaExpected s') out"
    by (intro exI [of _ "''''"] exI [of _ s]) (auto simp: ret_app keeps_end_def intro!: reads_backI)
qed

lemma carries_sseq:
  assumes m: "carries c fresh w r v" and ms: "carries c False ws (k v) x"
  shows "carries c fresh (sseq w ws) (sbind r k) x"
proof (rule carriesI)
  fix p s assume "writer_ok c p s"
  then obtain out1 s1 where 1: "w s = (Ok (), s1)" "writer_ok c p s1" "ts_buf s1 = ts_buf s @ out1"
      "ts_indent s1 = ts_indent s" "keeps_end c (ts_commaExpected s) (ts_commaExpected s1) out1"
      "reads_back c p fresh r v (ts_commaExpected s) (ts_commaExpected s1) out1"
    using m by (elim carriesE)
  obtain out2 s2 where 2: "ws s1 = (Ok (), s2)" "writer_ok c p s2" "ts_buf s2 = ts_buf s1 @ out2"
      "ts_indent s2 = ts_indent s1" "keeps_end c (ts_commaExpected s1) (ts_commaExpected s2) out2"
      "reads_back c p False (k v) x (ts_commaExpected s1) (ts_commaExpected s2) out2"
    using ms 1(2) by (elim carriesE)
  have "sseq w ws s = (Ok (), s2)" using 1 2 by (simp add: sseq_def sbind_def)
  then show "\<exists>out s'. sseq w ws s = (Ok (), s') \<and> writer_ok c p s' \<and> ts_buf s' = ts_buf s @ out \<and>
        ts_indent s' = ts_indent s \<and>
        keeps_end c (ts_commaExpected s) (ts_commaExpected s') out \<and>
        reads_back c p fresh (sbind r k) x (ts_commaExpected s) (ts_commaExpected s') out"
    using 1 2 by (intro exI [of _ "out1 @ out2"] exI [of _ s2])
      (simp add: keeps_end_append reads_back_sbind)
qed

lemma carries_Cons:
  "carries c fresh w r v \<Longrightarrow> carries c False (wseq ws) (k v) x \<Longrightarrow> carries c fresh (wseq (w # ws)) (sbind r k) x"
  by (simp add: carries_sseq)

section \<open>Entries with a number or an enumerator\<close>

lemma keeps_end_head: "ts_class s = c \<Longrightarrow> keeps_end c (ts_commaExpected s) d (head_text s ty n @ xs)"
proof (cases c)
  case JsonSerializer
  assume "ts_class s = c"
  then show ?thesis
    using JsonSerializer by (cases "ts_newLine s"; cases "nat (ts_indent s)")
      (auto simp: keeps_end_def head_text_def comma_text_def ind_def no_digit_def isdnum_def isdigit_def)
qed (simp add: keeps_end_def no_digit_def)

text \<open>An entry whose value is written and read as \<open>tx\<close>.\<close>

lemma carries_entry:
  assumes n: "word_ok n" and ty: "word_ok ty" and lf: "leaf (Lit ty)"
    and tx: "tx \<noteq> ''''" "\<not> is_blank (hd tx)"
    and w: "\<And>s. ts_class s = c \<Longrightarrow> 0 \<le> ts_indent s \<Longrightarrow> \<not> ts_useComma s \<Longrightarrow> \<not> ts_newLine s \<Longrightarrow>
      \<not> ts_commaExpected s \<Longrightarrow> W s = (Ok (), s\<lparr>ts_buf := ts_buf s @ tx, ts_commaExpected := True\<rparr>)"
    and r: "\<And>t rest. ts_class t = c \<Longrightarrow> \<not> ts_useComma t \<Longrightarrow> \<not> ts_commaExpected t \<Longrightarrow>
      rest_of t = tx @ rest \<Longrightarrow> no_digit c rest \<Longrightarrow>
      R t = (Ok v, (skip (length tx) t)\<lparr>ts_commaExpected := True\<rparr>)"
  shows "carries c True (withN n ty sn st (wseq [BeginWriteNamedEntry False, W]))
    (withN n ty sn st (sseq BeginReadNamedEntry R)) v"
proof (rule carriesI)
  fix p s assume s: "writer_ok c p s"
  let ?with = "\<lambda>s. s\<lparr>ts_valName := Lit n, ts_valType := Lit ty, ts_sizeName := Lit sn, ts_sizeType := Lit st\<rparr>"
  let ?s = "?with s"
  define s' where "s' = ?s\<lparr>ts_buf := ts_buf s @ head_text ?s ty n @ tx, ts_newLine := False, ts_valName := nstr,
    ts_commaExpected := True, ts_valType := (if c = PlainTextSerializer then nstr else Lit ty)\<rparr>"
  have ne: "n \<noteq> ''''" "ty \<noteq> ''''" using word_okD n ty by blast+
  have "withN n ty sn st (wseq [BeginWriteNamedEntry False, W]) s = (Ok (), s')"
    using s ne w by (simp add: withN_def ser_with_def modifyS_app sseq_def sbind_def writer_ok_def s'_def
        BeginWriteNamedEntry_emits ret_app)
  moreover have "writer_ok c p s'" "ts_indent s' = ts_indent s" "ts_commaExpected s'"
    using s by (simp_all add: s'_def writer_ok_def)
  moreover have "keeps_end c (ts_commaExpected s) True (head_text ?s ty n @ tx)"
    using keeps_end_head [of ?s c] s by (simp add: writer_ok_def)
  moreover have "reads_back c p True (withN n ty sn st (sseq BeginReadNamedEntry R)) v
      (ts_commaExpected s) True (head_text ?s ty n @ tx)"
  proof (rule reads_backI)
    fix t u rest
    assume t: "reader_ok c p t" "ts_commaExpected t = ts_commaExpected s" "blanks u"
      "rest_of t = u @ (head_text ?s ty n @ tx) @ rest" "True \<Longrightarrow> no_digit c rest"
    let ?h = "length u + length (head_text ?s ty n)"
    obtain y ys where y: "tx = y # ys" "\<not> is_blank y" using tx by (cases tx) auto
    have 1: "BeginReadNamedEntry (?with t) = (Ok (), (skip ?h (?with t))\<lparr>ts_commaExpected := False\<rparr>)"
      using BeginReadNamedEntry_reads [of "?with t" ?s n ty u "''''" y "ys @ rest"] s t n ty y
      by (simp add: writer_ok_def reader_ok_def)
    have 2: "R ((skip ?h (?with t))\<lparr>ts_commaExpected := False\<rparr>) =
        (Ok v, (skip (length tx) ((skip ?h (?with t))\<lparr>ts_commaExpected := False\<rparr>))\<lparr>ts_commaExpected := True\<rparr>)"
      using t by (intro r [of _ rest]) (simp_all add: reader_ok_def)
    show "\<exists>t' ws'. withN n ty sn st (sseq BeginReadNamedEntry R) t = (Ok v, t') \<and> reader_ok c p t' \<and>
        blanks ws' \<and> rest_of t' = ws' @ rest \<and> ts_commaExpected t' = True \<and> leaf (ts_valType t')"
      using t(1,4) lf
      by (simp add: withN_def ser_with_def modifyS_app sseq_def sbind_def 1 2 reader_ok_def exI [of _ "''''"])
  qed
  ultimately show "\<exists>out s'. withN n ty sn st (wseq [BeginWriteNamedEntry False, W]) s = (Ok (), s') \<and>
        writer_ok c p s' \<and> ts_buf s' = ts_buf s @ out \<and> ts_indent s' = ts_indent s \<and>
        keeps_end c (ts_commaExpected s) (ts_commaExpected s') out \<and>
        reads_back c p True (withN n ty sn st (sseq BeginReadNamedEntry R)) v
          (ts_commaExpected s) (ts_commaExpected s') out"
    by (intro exI [of _ "head_text ?s ty n @ tx"] exI [of _ s']) (simp add: s'_def)
qed

lemma carries_map: "carries c fresh w r v \<Longrightarrow> f v = x \<Longrightarrow> carries c fresh w (sbind r (\<lambda>y. ret (f y))) x"
  using carries_sseq [of c fresh w r v "wseq []" "\<lambda>y. ret (f y)" x] carries_ret [of c x]
  by (simp add: sseq_def)

lemma ucast_back [simp]:
  "(ucast (ucast (a :: UINT8) :: UINT64) :: UINT8) = a" "(ucast (ucast (b :: UINT16) :: UINT64) :: UINT16) = b"
  "(ucast (ucast (d :: UINT32) :: UINT64) :: UINT32) = d" "(ucast (ucast (a :: UINT8) :: UINT32) :: UINT8) = a"
  "(ucast (ucast (b :: UINT16) :: UINT32) :: UINT16) = b"
  by (rule bit_word_eqI; simp add: bit_simps)+

lemma withN_sbind: "withN n ty sn st (sbind r f) = sbind (withN n ty sn st r) f"
  by (simp add: withN_def sseq_def sbind_assoc)

lemma carries_writeNum:
  assumes "word_ok n" and "word_ok ty" and "leaf (Lit ty)"
  shows "carries c True (withN n ty sn st (ser_writeNum v)) (withN n ty sn st ser_readNum) v"
proof -
  have "num_text c v \<noteq> ''''" "\<not> is_blank (hd (num_text c v))"
    using num_text_hd [of c v] digit_chars by auto
  then show ?thesis
    unfolding ser_writeNum_def ser_readNum_def
    using assms by (intro carries_entry [where tx = "num_text c v"])
      (auto simp: WriteNum_emits ReadNum_reads)
qed

lemma carries_writeByte [carries_intros]:
  "word_ok n \<Longrightarrow> word_ok ty \<Longrightarrow> leaf (Lit ty) \<Longrightarrow>
   carries c True (withN n ty sn st (ser_writeByte v)) (withN n ty sn st ser_readByte) v"
  unfolding ser_writeByte_def ser_readByte_def withN_sbind
  by (rule carries_map [OF carries_writeNum]) simp_all

lemma carries_writeShort [carries_intros]:
  "word_ok n \<Longrightarrow> word_ok ty \<Longrightarrow> leaf (Lit ty) \<Longrightarrow>
   carries c True (withN n ty sn st (ser_writeShort v)) (withN n ty sn st ser_readShort) v"
  unfolding ser_writeShort_def ser_readShort_def withN_sbind
  by (rule carries_map [OF carries_writeNum]) simp_all

lemma carries_writeInt [carries_intros]:
  "word_ok n \<Longrightarrow> word_ok ty \<Longrightarrow> leaf (Lit ty) \<Longrightarrow>
   carries c True (withN n ty sn st (ser_writeInt v)) (withN n ty sn st ser_readInt) v"
  unfolding ser_writeInt_def ser_readInt_def withN_sbind
  by (rule carries_map [OF carries_writeNum]) simp_all

lemma carries_writeInt64 [carries_intros]:
  "word_ok n \<Longrightarrow> word_ok ty \<Longrightarrow> leaf (Lit ty) \<Longrightarrow>
   carries c True (withN n ty sn st (ser_writeInt64 v)) (withN n ty sn st ser_readInt64) v"
  unfolding ser_writeInt64_def ser_readInt64_def by (rule carries_writeNum)

text \<open>
  An enumerator in plain text: its name must not be empty (\<open>Write\<close> of an empty string has no meaning), and
  be the name of the same value. In JSON it is a number.
\<close>

definition named_enum :: "UINT32 \<Rightarrow> enumID \<Rightarrow> bool" where
  "named_enum val enumID \<longleftrightarrow> (let str = EnumToStr val enumID in
     str \<noteq> '''' \<and> \<not> is_blank (hd str) \<and> CHR ''('' \<notin> set str \<and> last str \<noteq> CHR 0x0A \<and>
     StrToEnum str enumID = Ok val)"

definition enum_ok :: "text_class \<Rightarrow> UINT32 \<Rightarrow> enumID \<Rightarrow> bool" where
  "enum_ok c val enumID \<longleftrightarrow> (c = PlainTextSerializer \<longrightarrow> named_enum val enumID)"

lemma enum_ok_json [simp]: "enum_ok JsonSerializer val enumID"
  by (simp add: enum_ok_def)

definition enum_text :: "text_class \<Rightarrow> UINT32 \<Rightarrow> enumID \<Rightarrow> string" where
  "enum_text c val enumID = (case c of JsonSerializer \<Rightarrow> num_text c (ucast val)
     | PlainTextSerializer \<Rightarrow> EnumToStr val enumID @ '' (0x'' @ to_hex (ucast val) 0 @ '')'')"

lemma WriteEnum_emits:
  assumes "enum_ok (ts_class s) val enumID" and "\<not> ts_commaExpected s" and "\<not> ts_newLine s"
    and "0 \<le> ts_indent s" and "\<not> ts_useComma s"
  shows "WriteEnum val enumID s =
    (Ok (), s\<lparr>ts_buf := ts_buf s @ enum_text (ts_class s) val enumID, ts_commaExpected := True\<rparr>)"
proof (cases "ts_class s")
  case JsonSerializer
  then show ?thesis
    using WriteNum_emits [of s "ucast val"] assms
    by (simp add: WriteEnum_def WriteNum_def virt_def JsonSerializer_WriteEnum_def enum_text_def)
next
  case PlainTextSerializer
  then have "EnumToStr val enumID \<noteq> ''''" "last (EnumToStr val enumID) \<noteq> CHR 0x0A"
    using assms by (simp_all add: enum_ok_def named_enum_def Let_def)
  moreover from this(2) have "EnumToStr val enumID \<noteq> eol" by (auto simp: eol_def)
  ultimately show ?thesis
    using assms PlainTextSerializer
    by (simp add: WriteEnum_def virt_def PlainTextSerializer_WriteEnum_def sseq_def sbind_def sx_simps
        WriteComma_def PlainTextSerializer_WriteComma_def Write_emits expectComma_def enum_text_def ind_def
        WriteHexCopy_def)
qed

lemma ReadEnum_reads:
  assumes "ts_class t = c" and "\<not> ts_commaExpected t" and "\<not> ts_useComma t" and e: "enum_ok c val enumID"
    and r: "rest_of t = enum_text c val enumID @ rest" and "no_digit c rest"
  shows "ReadEnum enumID t =
    (Ok val, (skip (length (enum_text c val enumID)) t)\<lparr>ts_commaExpected := True\<rparr>)"
proof (cases c)
  case JsonSerializer
  then have "JsonSerializer_ReadNum t =
      (Ok (ucast val), (skip (length (num_text c (ucast val))) t)\<lparr>ts_commaExpected := True\<rparr>)"
    using ReadNum_reads [of t c "ucast val" rest] assms by (simp add: ReadNum_def virt_def enum_text_def)
  then show ?thesis
    using JsonSerializer assms(1)
    by (simp add: ReadEnum_def virt_def JsonSerializer_ReadEnum_def sbind_def ret_app enum_text_def)
next
  case PlainTextSerializer
  let ?t = "t\<lparr>ts_commaExpected := True\<rparr>"
  define str where "str = EnumToStr val enumID"
  define hex where "hex = to_hex (ucast val) 0"
  have str: "str \<noteq> ''''" "\<not> is_blank (hd str)" "CHR ''('' \<notin> set str" "StrToEnum str enumID = Ok val"
    using e PlainTextSerializer by (simp_all add: enum_ok_def named_enum_def Let_def str_def)
  have r': "rest_of ?t = str @ '' (0x'' @ hex @ '')'' @ rest"
    using r PlainTextSerializer by (simp add: enum_text_def str_def hex_def)
  have sk: "SkipSpace ?t = (Ok (), ?t)"
    using SkipSpace_blanks [of ?t "''''" "hd str" "tl str @ '' (0x'' @ hex @ '')'' @ rest"] r' str by simp
  have fd: "Find (CHR ''('') ?t = (Ok (), skip (Suc (length str)) ?t)"
    using Find_reads [of ?t "str @ '' ''" "CHR ''(''" "''0x'' @ hex @ '')'' @ rest"] r' str by simp
  have nm: "take (length str) (drop (ts_pos t) (ts_buf t)) = str"
    using r' by (simp add: rest_of_def)
  have rk: "rest_of (skip (Suc (length str)) ?t) = ''(0x'' @ hex @ '')'' @ rest"
    by (rule rest_of_step [of 0 ?t "str @ '' ''"]) (use r' in simp_all)
  have "NextHexCopy (ucast val) (skip (Suc (length str)) ?t) = (Ok (), skip (length hex + 4) (skip (Suc (length str)) ?t))"
  proof -
    let ?u = "skip (Suc (length str)) ?t"
    have 1: "NextToken ''(0x'' ?u = (Ok (), skip 3 ?u)"
      using NextToken_reads [of ?u "''''" "''(0x''" "hex @ '')'' @ rest"] rk by (simp add: is_blank_def)
    have r3: "rest_of (skip 3 ?u) = hex @ CHR '')'' # rest"
      using rk by (simp del: skip_skip)
    have "CHR '')'' \<notin> set hex"
      using to_hex_chars [of "ucast val" 0] by (auto simp: list_all_iff is_hex_def hex_def)
    then have 2: "Find (CHR '')'') (skip 3 ?u) = (Ok (), skip (length hex) (skip 3 ?u))"
      using Find_reads [OF r3] by simp
    have "take (length hex) (drop (ts_pos (skip 3 ?u)) (ts_buf t)) = hex"
      using r3 by (simp add: rest_of_def)
    then show ?thesis
      using 1 2 by (simp add: NextHexCopy_def sseq_def sbind_def ser_getCurPos_def from_hex_to_hex hex_def)
        (simp add: skip_def)
  qed
  then show ?thesis
    using PlainTextSerializer assms(1,2,3) sk fd nm str
    by (simp add: ReadEnum_def virt_def PlainTextSerializer_ReadEnum_def sseq_def sbind_def sx_simps
        ReadComma_plain expectComma_def ser_getCurPos_def Let_def enum_text_def hex_def str_def)
qed

lemma carries_writeEnum32:
  assumes "word_ok n" and "word_ok ty" and "leaf (Lit ty)" and e: "enum_ok c val enumID"
  shows "carries c True (withN n ty sn st (ser_writeEnum val enumID)) (withN n ty sn st (ser_readEnum enumID)) val"
proof -
  have "enum_text c val enumID \<noteq> '''' \<and> \<not> is_blank (hd (enum_text c val enumID))"
  proof (cases c)
    case JsonSerializer
    then show ?thesis
      using num_text_hd [of c "ucast val"] digit_chars by (auto simp: enum_text_def)
  next
    case PlainTextSerializer
    then show ?thesis
      using e by (auto simp: enum_text_def enum_ok_def named_enum_def Let_def)
  qed
  then show ?thesis
    unfolding ser_writeEnum_def ser_readEnum_def
    using assms by (intro carries_entry [where tx = "enum_text c val enumID"])
      (auto simp: WriteEnum_emits ReadEnum_reads)
qed

section \<open>Objects\<close>

text \<open>
  The text of an object: what separates it from the element before it, its type name where the serializer
  writes one, and the bracketed body.
\<close>

definition pre_ok :: "text_class \<Rightarrow> bool \<Rightarrow> string \<Rightarrow> bool" where
  "pre_ok c comma pre \<longleftrightarrow> (case c of
     JsonSerializer \<Rightarrow> (\<exists>v w. pre = v @ (if comma then '','' else '''') @ w \<and> blanks v \<and> blanks w \<and>
       (\<not> comma \<longrightarrow> v = ''''))
   | PlainTextSerializer \<Rightarrow> blanks pre)"

definition obj_name :: "text_class \<Rightarrow> bool \<Rightarrow> string \<Rightarrow> string" where
  "obj_name c same tn = (if c = PlainTextSerializer \<and> \<not> same then tn @ '' '' else '''')"

definition obj_gap :: "text_class \<Rightarrow> bool \<Rightarrow> string" where
  "obj_gap c same = (if c = PlainTextSerializer \<and> same then '' '' else '''')"

lemma pre_ok_comma: "pre_ok (ts_class s) (ts_commaExpected s) (comma_text s @ obj_gap (ts_class s) same)"
proof (cases "ts_class s")
  case JsonSerializer
  obtain v w where "comma_text s = v @ (if ts_commaExpected s then '','' else '''') @ w"
    and "blanks v" and "blanks w" and "\<not> ts_commaExpected s \<Longrightarrow> v = ''''"
    using comma_text_json [OF JsonSerializer] by blast
  then show ?thesis
    using JsonSerializer unfolding pre_ok_def by (simp add: obj_gap_def) blast
next
  case PlainTextSerializer
  then show ?thesis using comma_text_plain [of s] by (simp add: pre_ok_def obj_gap_def is_blank_def)
qed

lemma BeginWriteObj_emits:
  assumes "0 \<le> ts_indent s" and "\<not> ts_useComma s" and "tn \<noteq> ''''"
    and o: "objType = (case ts_class s of JsonSerializer \<Rightarrow> None
      | PlainTextSerializer \<Rightarrow> Some (if same then '''' else tn))"
  shows "BeginWriteObj objType s = (Ok (), s\<lparr>ts_buf := ts_buf s @ comma_text s @ obj_gap (ts_class s) same @
      obj_name (ts_class s) same tn @ ''{'' @ eol,
    ts_newLine := True, ts_indent := ts_indent s + 4, ts_commaExpected := False\<rparr>)"
proof (cases "ts_class s")
  case JsonSerializer
  have "sseq (WriteComma True) (Write (''{'' @ eol)) s =
      (Ok (), s\<lparr>ts_buf := ts_buf s @ comma_text s @ ''{'' @ eol, ts_newLine := True\<rparr>)"
    using assms by (subst WriteComma_emits) (simp_all add: eol_def)
  then obtain u where "WriteComma True s = (Ok (), u)"
      "Write (''{'' @ eol) u = (Ok (), s\<lparr>ts_buf := ts_buf s @ comma_text s @ ''{'' @ eol, ts_newLine := True\<rparr>)"
    unfolding sseq_eq_Ok by blast
  then show ?thesis
    using assms JsonSerializer
    by (simp add: BeginWriteObj_def sseq_def sbind_def sx_simps WriteLine_def TabIn_def TabSize_def
        expectComma_def obj_gap_def obj_name_def)
next
  case PlainTextSerializer
  let ?str = "(if same then '''' else tn) @ '' ''"
  have l: "last ?str \<noteq> CHR 0x0A" by simp
  then have "?str \<noteq> eol" by (auto simp: eol_def)
  then have "sseq (WriteComma True) (Write ?str) s =
      (Ok (), s\<lparr>ts_buf := ts_buf s @ comma_text s @ ?str, ts_newLine := False\<rparr>)"
    using assms l by (subst WriteComma_emits) simp_all
  then obtain u where "WriteComma True s = (Ok (), u)"
      "Write ?str u = (Ok (), s\<lparr>ts_buf := ts_buf s @ comma_text s @ ?str, ts_newLine := False\<rparr>)"
    unfolding sseq_eq_Ok by blast
  then show ?thesis
    using assms PlainTextSerializer
    by (simp add: BeginWriteObj_def sseq_def sbind_def sx_simps WriteLine_def TabIn_def TabSize_def Write_emits
        ind_def expectComma_def obj_gap_def obj_name_def)
qed

lemma EndWriteObj_emits:
  assumes "0 \<le> ts_indent s - 4"
  shows "EndWriteObj s = (Ok (), s\<lparr>ts_buf := ts_buf s @ (if ts_newLine s then '''' else eol) @
      replicate (nat (ts_indent s - 4)) (CHR '' '') @ ''}'',
    ts_newLine := False, ts_indent := ts_indent s - 4, ts_commaExpected := True\<rparr>)"
  using assms
  by (cases "ts_newLine s") (simp_all add: EndWriteObj_def sseq_def sbind_def sx_simps WriteLine_def TabOut_def
      TabSize_def Write_emits Write_eol_again ind_def expectComma_def eol_def Write_def)

lemma BeginReadObj_reads:
  assumes t: "ts_class t = c" "\<not> ts_useComma t" and tn: "word_ok tn"
    and o: "objType = (case c of JsonSerializer \<Rightarrow> None | PlainTextSerializer \<Rightarrow> Some (if same then '''' else tn))"
    and p: "pre_ok c (ts_commaExpected t) pre" and r: "rest_of t = pre @ obj_name c same tn @ ''{'' @ zs"
  shows "BeginReadObj objType t =
    (Ok (), (skip (length (pre @ obj_name c same tn @ ''{'')) t)\<lparr>ts_commaExpected := False\<rparr>)"
proof (cases c)
  case JsonSerializer
  obtain v w where vw: "pre = v @ (if ts_commaExpected t then '','' else '''') @ w" "blanks v" "blanks w"
    "\<not> ts_commaExpected t \<Longrightarrow> v = ''''"
    using p JsonSerializer unfolding pre_ok_def by simp metis
  let ?k = "length v + (if ts_commaExpected t then 1 else 0)"
  have 1: "ReadComma t = (Ok (), skip ?k t)"
    using ReadComma_json [of t v "w @ ''{'' @ zs"] vw t r JsonSerializer by (simp add: obj_name_def)
  have "rest_of (skip ?k t) = w @ CHR ''{'' # zs"
    by (rule rest_of_step [of 0 t "v @ (if ts_commaExpected t then '','' else '''')"])
      (use r vw JsonSerializer in \<open>simp_all add: obj_name_def\<close>)
  then have 2: "Next (CHR ''{'') (skip ?k t) = (Ok (), skip (Suc (length w)) (skip ?k t))"
    using vw by (intro Next_reads) (simp_all add: is_blank_def)
  show ?thesis
    using 1 2 o JsonSerializer vw(1)
    by (simp add: BeginReadObj_def sseq_def sbind_def sx_simps expectComma_def obj_name_def)
next
  case PlainTextSerializer
  have pre: "blanks pre" using p PlainTextSerializer by (simp add: pre_ok_def)
  let ?nm = "if same then '''' else tn"
  obtain d ds where d: "tn = d # ds" "\<not> is_blank d" using word_okD [OF tn] by metis
  have 1: "NextToken ?nm t = (Ok (), skip (length pre + length ?nm) t)"
  proof (cases same)
    case True
    then show ?thesis
      using NextToken_reads [of t pre "''''" "''{'' @ zs" "CHR ''{''" zs] r pre PlainTextSerializer
      by (simp add: obj_name_def is_blank_def)
  next
    case False
    then show ?thesis
      using NextToken_reads [of t pre tn "'' {'' @ zs" d "ds @ '' {'' @ zs"] r pre d PlainTextSerializer
      by (simp add: obj_name_def)
  qed
  have "rest_of (skip (length pre + length ?nm) t) = (if same then '''' else '' '') @ CHR ''{'' # zs"
    by (rule rest_of_step [of 0 t "pre @ ?nm"]) (use r PlainTextSerializer in \<open>simp_all add: obj_name_def\<close>)
  then have 2: "Next (CHR ''{'') (skip (length pre + length ?nm) t) =
      (Ok (), skip (Suc (length (if same then '''' else '' ''))) (skip (length pre + length ?nm) t))"
    by (intro Next_reads) (simp_all add: is_blank_def)
  show ?thesis
    using 1 2 o PlainTextSerializer t
    by (simp add: BeginReadObj_def sseq_def sbind_def sx_simps ReadComma_plain expectComma_def obj_name_def
        split: if_splits)
qed

lemma EndReadObj_reads:
  assumes "rest_of t = ws @ ''}'' @ zs" and "blanks ws"
  shows "EndReadObj t = (Ok (), (skip (length ws + 1) t)\<lparr>ts_commaExpected := True\<rparr>)"
proof -
  have "Next (CHR ''}'') t = (Ok (), skip (Suc (length ws)) t)"
    using assms by (intro Next_reads) (simp_all add: is_blank_def)
  then show ?thesis by (simp add: EndReadObj_def sseq_def sbind_def sx_simps expectComma_def)
qed

lemma no_digit_close: "no_digit c ((if b then '''' else eol) @ replicate n (CHR '' '') @ d # rest)" if "\<not> isdnum d"
  using that by (cases n) (auto simp: no_digit_def eol_def isdnum_def isdigit_def)

lemma comma_text_cong [simp]: "comma_text (s\<lparr>ts_valType := v\<rparr>) = comma_text s"
  by (cases "ts_class s") (simp_all add: comma_text_def ind_def)

text \<open>The object \<open>tn\<close>, read back behind any separator.\<close>

lemma WriteObj_carries:
  assumes body: "carries c b ser deser v" and tn: "word_ok tn"
    and s: "ts_class s = c" "ts_pooled s = p" "0 \<le> ts_indent s" "\<not> ts_useComma s"
      "c = PlainTextSerializer \<longrightarrow> ts_precise s"
  defines "same \<equiv> same_type tn s"
  obtains tail s' where "WriteObj tn ser s = (Ok (), s')" and "writer_ok c p s'"
    and "ts_buf s' = ts_buf s @ comma_text s @ obj_gap c same @ obj_name c same tn @ ''{'' @ tail"
    and "ts_indent s' = ts_indent s" and "ts_commaExpected s'"
    and "\<And>t pre rest. reader_ok c p t \<Longrightarrow> pre_ok c (ts_commaExpected t) pre \<Longrightarrow>
      rest_of t = pre @ obj_name c same tn @ ''{'' @ tail @ rest \<Longrightarrow>
      (c = PlainTextSerializer \<Longrightarrow> same_type tn t = same) \<Longrightarrow> b \<or> leaf (ts_valType t) \<Longrightarrow>
      \<exists>t'. ReadObj tn deser t = (Ok v, t') \<and> reader_ok c p t' \<and> rest_of t' = rest \<and>
        ts_commaExpected t' \<and> leaf (ts_valType t')"
proof -
  have tn0: "tn \<noteq> ''''" using word_okD [OF tn] by blast
  define objType where "objType = (case c of JsonSerializer \<Rightarrow> None
    | PlainTextSerializer \<Rightarrow> Some (if same then '''' else tn))"
  define s0 where "s0 = (if c = PlainTextSerializer then s\<lparr>ts_valType := nstr\<rparr> else s)"
  have s0: "ts_class s0 = c" "ts_buf s0 = ts_buf s" "ts_indent s0 = ts_indent s" "\<not> ts_useComma s0"
    "comma_text s0 = comma_text s"
    using s by (simp_all add: s0_def)
  define s1 where "s1 = s0\<lparr>ts_buf := ts_buf s @ comma_text s @ obj_gap c same @ obj_name c same tn @ ''{'' @ eol,
    ts_newLine := True, ts_indent := ts_indent s + 4, ts_commaExpected := False\<rparr>"
  have b0: "BeginWriteObj objType s0 = (Ok (), s1)"
    using BeginWriteObj_emits [of s0 tn objType same] s s0 tn0 by (simp add: s1_def objType_def)
  have ok1: "writer_ok c p s1" using s by (simp add: writer_ok_def s1_def s0_def)
  have ce1: "\<not> ts_commaExpected s1" and in1: "ts_indent s1 = ts_indent s + 4"
    by (simp_all add: s1_def)
  obtain out s2 where s2: "ser s1 = (Ok (), s2)" "writer_ok c p s2" "ts_buf s2 = ts_buf s1 @ out"
      "ts_indent s2 = ts_indent s1" "keeps_end c False (ts_commaExpected s2) out"
      "reads_back c p b deser v False (ts_commaExpected s2) out"
    using carriesE [OF body ok1] ce1 by metis
  define close where "close = (if ts_newLine s2 then '''' else eol) @ spaces s @ ''}''"
  define s3 where "s3 = s2\<lparr>ts_buf := ts_buf s2 @ close, ts_newLine := False, ts_indent := ts_indent s,
    ts_commaExpected := True\<rparr>"
  have e3: "EndWriteObj s2 = (Ok (), s3)"
    using EndWriteObj_emits [of s2] s2(4) s(3) in1 by (simp add: s3_def close_def)
  have w: "WriteObj tn ser s = (Ok (), s3)"
  proof (cases c)
    case JsonSerializer
    then show ?thesis
      using b0 s2(1) e3 s
      by (simp add: WriteObj_def virt_def JsonSerializer_WriteObj_def sseq_def sbind_def sx_simps
          objType_def s0_def)
  next
    case PlainTextSerializer
    have u1: "s1\<lparr>ts_useComma := False\<rparr> = s1" and u3: "s3\<lparr>ts_useComma := False\<rparr> = s3"
      using ok1 s2(2) by (simp_all add: writer_ok_def s3_def)
    show ?thesis
      using PlainTextSerializer b0 s2(1) e3 s u1 u3
      by (simp add: WriteObj_def virt_def PlainTextSerializer_WriteObj_def sseq_def sbind_def sx_simps
          objType_def s0_def same_def [symmetric])
  qed
  let ?tail = "eol @ out @ close"
  have ok3: "writer_ok c p s3" using s2(2) s(3) by (simp add: writer_ok_def s3_def)
  have buf3: "ts_buf s3 = ts_buf s @ comma_text s @ obj_gap c same @ obj_name c same tn @ ''{'' @ ?tail"
    by (simp add: s3_def s2(3)) (simp add: s1_def)
  have rd: "\<exists>t'. ReadObj tn deser t = (Ok v, t') \<and> reader_ok c p t' \<and> rest_of t' = rest \<and>
        ts_commaExpected t' \<and> leaf (ts_valType t')"
    if t: "reader_ok c p t" "pre_ok c (ts_commaExpected t) pre"
        "rest_of t = pre @ obj_name c same tn @ ''{'' @ ?tail @ rest"
      and ts: "c = PlainTextSerializer \<Longrightarrow> same_type tn t = same" and f: "b \<or> leaf (ts_valType t)"
    for t pre rest
  proof -
    let ?n = "length (pre @ obj_name c same tn @ ''{'')"
    define t1 where "t1 = (skip ?n t)\<lparr>ts_commaExpected := False\<rparr>"
    have 1: "BeginReadObj objType t = (Ok (), t1)"
      using BeginReadObj_reads [of t c tn objType same pre "?tail @ rest"] t tn
      by (simp add: reader_ok_def objType_def t1_def)
    have t1: "reader_ok c p t1" "ts_commaExpected t1 = False" "b \<or> leaf (ts_valType t1)"
      using t f by (simp_all add: t1_def reader_ok_def)
    have r1: "rest_of t1 = eol @ out @ close @ rest" using t(3) by (simp add: t1_def)
    have nd: "ts_commaExpected s2 \<Longrightarrow> no_digit c (close @ rest)"
      by (simp add: close_def no_digit_close isdnum_def isdigit_def)
    obtain t2 ws where t2: "deser t1 = (Ok v, t2)" "reader_ok c p t2" "blanks ws"
        "rest_of t2 = ws @ close @ rest" "leaf (ts_valType t2)"
      using reads_backE [OF s2(6) t1(1,2) blanks_ind(3) r1 nd t1(3)] by blast
    let ?ws = "ws @ (if ts_newLine s2 then '''' else eol) @ spaces s"
    have 2: "EndReadObj t2 = (Ok (), (skip (length ?ws + 1) t2)\<lparr>ts_commaExpected := True\<rparr>)"
      using EndReadObj_reads [of t2 ?ws rest] t2(3,4) by (simp add: close_def)
    have r2: "rest_of (skip (length ?ws + 1) t2) = rest"
      by (rule rest_of_step [of 0 t2 "?ws @ ''}''"]) (use t2(4) in \<open>simp_all add: close_def\<close>)
    define t3 where "t3 = (skip (length ?ws + 1) t2)\<lparr>ts_commaExpected := True\<rparr>"
    have t3: "reader_ok c p t3" "rest_of t3 = rest" "ts_commaExpected t3" "leaf (ts_valType t3)"
      using t2 r2 by (simp_all only: t3_def reader_ok_def rest_of_cong skip_simps) simp_all
    have 3: "EndReadObj t2 = (Ok (), t3)" using 2 by (simp only: t3_def)
    have "ReadObj tn deser t = (Ok v, t3)"
    proof (cases c)
      case JsonSerializer
      then show ?thesis
        using 1 t2(1) 3 t
        by (simp add: ReadObj_def virt_def JsonSerializer_ReadObj_def sseq_def sbind_def sx_simps
            objType_def reader_ok_def)
    next
      case PlainTextSerializer
      have u: "t1\<lparr>ts_useComma := False\<rparr> = t1" "t3\<lparr>ts_useComma := False\<rparr> = t3" "\<not> ts_useComma t"
        using t1(1) t3(1) t(1) by (simp_all add: reader_ok_def)
      then show ?thesis
        using PlainTextSerializer 1 t2(1) 3 t ts
        by (simp add: ReadObj_def virt_def PlainTextSerializer_ReadObj_def sseq_def sbind_def sx_simps
            objType_def reader_ok_def)
    qed
    then show ?thesis using t3 by blast
  qed
  show ?thesis
    using that [OF w ok3 buf3 _ _ rd] by (simp add: s3_def)
qed

lemma pre_ok_blanks: "blanks ws \<Longrightarrow> pre_ok c comma pre \<Longrightarrow> pre_ok c comma (ws @ pre)"
proof (cases c)
  case JsonSerializer
  assume ws: "blanks ws" and "pre_ok c comma pre"
  then obtain v w where "pre = v @ (if comma then '','' else '''') @ w" "blanks v" "blanks w"
    "\<not> comma \<Longrightarrow> v = ''''"
    using JsonSerializer unfolding pre_ok_def by simp metis
  then show ?thesis
    using ws JsonSerializer unfolding pre_ok_def
    by (cases comma)
      (simp_all add: exI [of _ "ws @ v"] exI [of _ w] exI [of _ "''''"] exI [of _ "ws @ w"])
qed (simp add: pre_ok_def)

lemma keeps_end_comma: "keeps_end c (ts_commaExpected s) d (comma_text s @ xs)" if "ts_class s = c"
proof (cases c)
  case JsonSerializer
  then show ?thesis
    using that by (cases "ts_newLine s"; cases "nat (ts_indent s)")
      (auto simp: keeps_end_def comma_text_def ind_def no_digit_def isdnum_def isdigit_def)
qed (simp add: keeps_end_def no_digit_def)

lemma carries_writeObj [carries_intros]:
  assumes body: "carries c b ser deser v" and n: "word_ok n" and ty: "word_ok ty" and tn: "word_ok tn"
    and lf: "b \<or> leaf (Lit ty)"
  shows "carries c True (withN n ty sn st (ser_writeObj tn ser)) (withN n ty sn st (ser_readObj tn deser)) v"
proof (rule carriesI)
  fix p s assume s: "writer_ok c p s"
  let ?with = "\<lambda>s. s\<lparr>ts_valName := Lit n, ts_valType := Lit ty, ts_sizeName := Lit sn, ts_sizeType := Lit st\<rparr>"
  let ?s = "?with s"
  define s1 where "s1 = ?s\<lparr>ts_buf := ts_buf s @ head_text ?s ty n, ts_newLine := False,
    ts_valName := nstr, ts_commaExpected := False\<rparr>"
  have ne: "n \<noteq> ''''" "ty \<noteq> ''''" using word_okD n ty by blast+
  have 1: "BeginWriteNamedEntry True ?s = (Ok (), s1)"
    using BeginWriteNamedEntry_emits [of ?s n ty True] ne s by (simp add: writer_ok_def s1_def)
  have c1: "comma_text s1 = ''''"
    by (cases "ts_class s1") (simp_all add: comma_text_def ind_def s1_def)
  let ?same = "same_type tn s1"
  obtain tail s2 where 2: "WriteObj tn ser s1 = (Ok (), s2)" "writer_ok c p s2"
      "ts_buf s2 = ts_buf s1 @ comma_text s1 @ obj_gap c ?same @ obj_name c ?same tn @ ''{'' @ tail"
      "ts_indent s2 = ts_indent s1" "ts_commaExpected s2"
    and rd: "\<And>t pre rest. reader_ok c p t \<Longrightarrow> pre_ok c (ts_commaExpected t) pre \<Longrightarrow>
      rest_of t = pre @ obj_name c ?same tn @ ''{'' @ tail @ rest \<Longrightarrow>
      (c = PlainTextSerializer \<Longrightarrow> same_type tn t = ?same) \<Longrightarrow> b \<or> leaf (ts_valType t) \<Longrightarrow>
      \<exists>t'. ReadObj tn deser t = (Ok v, t') \<and> reader_ok c p t' \<and> rest_of t' = rest \<and>
        ts_commaExpected t' \<and> leaf (ts_valType t')"
    by (rule WriteObj_carries [OF body tn, of s1 p]) (use s in \<open>simp_all add: writer_ok_def s1_def\<close>)
  let ?out = "head_text ?s ty n @ obj_gap c ?same @ obj_name c ?same tn @ ''{'' @ tail"
  have w: "withN n ty sn st (ser_writeObj tn ser) s = (Ok (), s2)"
    using 1 2(1) by (simp add: withN_def ser_with_def ser_writeObj_def sseq_def sbind_def sx_simps)
  have buf: "ts_buf s2 = ts_buf s @ ?out" using 2(3) c1 by (simp add: s1_def)
  have ke: "keeps_end c (ts_commaExpected s) True ?out"
    using keeps_end_head [of ?s c] s by (simp add: writer_ok_def)
  have rb: "reads_back c p True (withN n ty sn st (ser_readObj tn deser)) v (ts_commaExpected s) True ?out"
  proof (rule reads_backI)
    fix t u rest
    assume t: "reader_ok c p t" "ts_commaExpected t = ts_commaExpected s" "blanks u"
      "rest_of t = u @ ?out @ rest" "True \<Longrightarrow> no_digit c rest"
    let ?gap = "obj_gap c ?same"
    obtain y ys where y: "obj_name c ?same tn @ ''{'' @ tail @ rest = y # ys" "\<not> is_blank y"
    proof -
      obtain d ds where "tn = d # ds" "\<not> is_blank d" using word_okD [OF tn] by metis
      then show ?thesis
        using that by (cases "c = PlainTextSerializer \<and> \<not> ?same") (auto simp: obj_name_def is_blank_def)
    qed
    let ?n = "length u + length (head_text ?s ty n) + length ?gap"
    define t1 where "t1 = (skip ?n (?with t))\<lparr>ts_commaExpected := False\<rparr>"
    have gap: "blanks ?gap" by (simp add: obj_gap_def is_blank_def)
    have r: "rest_of (?with t) = u @ head_text ?s ty n @ ?gap @ y # ys" using t(4) y(1) by simp
    have b1: "BeginReadNamedEntry (?with t) = (Ok (), t1)"
      unfolding t1_def
      by (rule BeginReadNamedEntry_reads [OF _ _ _ _ n _ ty r t(3) gap y(2)])
        (use s t in \<open>simp_all add: writer_ok_def reader_ok_def\<close>)
    have r1: "rest_of t1 = '''' @ obj_name c ?same tn @ ''{'' @ tail @ rest"
    proof -
      have "rest_of (skip ?n (?with t)) = y # ys"
        by (rule rest_of_step [of 0 _ "u @ head_text ?s ty n @ ?gap"]) (use r in simp_all)
      then show ?thesis using y(1) by (simp add: t1_def)
    qed
    have ok1: "reader_ok c p t1" using t(1) by (simp add: t1_def reader_ok_def)
    have same: "c = PlainTextSerializer \<Longrightarrow> same_type tn t1 = ?same"
      using s t(1) by (auto simp: same_type_def t1_def s1_def writer_ok_def reader_ok_def)
    have pre: "pre_ok c (ts_commaExpected t1) ''''" by (cases c) (simp_all add: pre_ok_def t1_def)
    have lf1: "b \<or> leaf (ts_valType t1)" using lf by (simp add: t1_def)
    obtain t2 where "ReadObj tn deser t1 = (Ok v, t2)" "reader_ok c p t2" "rest_of t2 = rest"
        "ts_commaExpected t2" "leaf (ts_valType t2)"
      using rd [OF ok1 pre r1 same lf1] by blast
    then show "\<exists>t' ws'. withN n ty sn st (ser_readObj tn deser) t = (Ok v, t') \<and> reader_ok c p t' \<and>
        blanks ws' \<and> rest_of t' = ws' @ rest \<and> ts_commaExpected t' = True \<and> leaf (ts_valType t')"
      using b1 by (simp add: withN_def ser_with_def ser_readObj_def sseq_def sbind_def sx_simps
          exI [of _ "''''"])
  qed
  show "\<exists>out s'. withN n ty sn st (ser_writeObj tn ser) s = (Ok (), s') \<and> writer_ok c p s' \<and>
        ts_buf s' = ts_buf s @ out \<and> ts_indent s' = ts_indent s \<and>
        keeps_end c (ts_commaExpected s) (ts_commaExpected s') out \<and>
        reads_back c p True (withN n ty sn st (ser_readObj tn deser)) v (ts_commaExpected s) (ts_commaExpected s') out"
    using w 2 buf ke rb by (intro exI [of _ ?out] exI [of _ s2]) (simp add: s1_def)
qed

section \<open>Arrays\<close>

text \<open>An element of an array of objects of type \<open>tn\<close>.\<close>

lemma carries_elem:
  assumes body: "carries c b ser deser v" and tn: "word_ok tn" and elem: "\<not> leaf (Lit tn)"
  shows "carries c False (WriteObj tn ser) (ReadObj tn deser) v"
proof (rule carriesI)
  fix p s assume s: "writer_ok c p s"
  have ns: "c = PlainTextSerializer \<Longrightarrow> \<not> same_type tn s"
    using s word_okD [OF tn] by (auto simp: same_type_def writer_ok_def nstr_def)
  let ?same = "same_type tn s"
  obtain tail s' where w: "WriteObj tn ser s = (Ok (), s')" "writer_ok c p s'"
      "ts_buf s' = ts_buf s @ comma_text s @ obj_gap c ?same @ obj_name c ?same tn @ ''{'' @ tail"
      "ts_indent s' = ts_indent s" "ts_commaExpected s'"
    and rd: "\<And>t pre rest. reader_ok c p t \<Longrightarrow> pre_ok c (ts_commaExpected t) pre \<Longrightarrow>
      rest_of t = pre @ obj_name c ?same tn @ ''{'' @ tail @ rest \<Longrightarrow>
      (c = PlainTextSerializer \<Longrightarrow> same_type tn t = ?same) \<Longrightarrow> b \<or> leaf (ts_valType t) \<Longrightarrow>
      \<exists>t'. ReadObj tn deser t = (Ok v, t') \<and> reader_ok c p t' \<and> rest_of t' = rest \<and>
        ts_commaExpected t' \<and> leaf (ts_valType t')"
    by (rule WriteObj_carries [OF body tn, of s p]) (use s in \<open>simp_all add: writer_ok_def\<close>)
  let ?pre = "comma_text s @ obj_gap c ?same"
  let ?out = "comma_text s @ obj_gap c ?same @ obj_name c ?same tn @ ''{'' @ tail"
  have cs: "ts_class s = c" using s by (simp add: writer_ok_def)
  have rb: "reads_back c p False (ReadObj tn deser) v (ts_commaExpected s) True ?out"
  proof (rule reads_backI)
    fix t u rest
    assume t: "reader_ok c p t" "ts_commaExpected t = ts_commaExpected s" "blanks u"
      "rest_of t = u @ ?out @ rest" "True \<Longrightarrow> no_digit c rest" and f: "False \<or> leaf (ts_valType t)"
    have pre: "pre_ok c (ts_commaExpected t) (u @ ?pre)"
      using pre_ok_blanks [OF t(3) pre_ok_comma [of s ?same]] cs t(2) by simp
    have same: "c = PlainTextSerializer \<Longrightarrow> same_type tn t = ?same"
      using ns f elem by (auto simp: same_type_def)
    have r: "rest_of t = (u @ ?pre) @ obj_name c ?same tn @ ''{'' @ tail @ rest" using t(4) by simp
    have lf: "b \<or> leaf (ts_valType t)" using f by simp
    obtain t' where "ReadObj tn deser t = (Ok v, t')" "reader_ok c p t'" "rest_of t' = rest"
        "ts_commaExpected t'" "leaf (ts_valType t')"
      using rd [OF t(1) pre r same lf] by blast
    then show "\<exists>t' ws'. ReadObj tn deser t = (Ok v, t') \<and> reader_ok c p t' \<and> blanks ws' \<and>
        rest_of t' = ws' @ rest \<and> ts_commaExpected t' = True \<and> leaf (ts_valType t')"
      by (simp add: exI [of _ "''''"])
  qed
  show "\<exists>out s'. WriteObj tn ser s = (Ok (), s') \<and> writer_ok c p s' \<and> ts_buf s' = ts_buf s @ out \<and>
        ts_indent s' = ts_indent s \<and> keeps_end c (ts_commaExpected s) (ts_commaExpected s') out \<and>
        reads_back c p False (ReadObj tn deser) v (ts_commaExpected s) (ts_commaExpected s') out"
    using w rb keeps_end_comma [OF cs] by (intro exI [of _ ?out] exI [of _ s']) simp
qed

lemma carries_elems:
  assumes "\<And>x. x \<in> set xs \<Longrightarrow> carries c b (ser x) (deser d) x" and "word_ok tn" and "\<not> leaf (Lit tn)"
  shows "carries c False (wseq (map (\<lambda>x. WriteObj tn (ser x)) xs))
    (readElemsText tn deser (replicate (length xs) d)) xs"
  using assms(1)
proof (induction xs)
  case Nil
  then show ?case using carries_ret by simp
next
  case (Cons x xs)
  have "carries c False (wseq (map (\<lambda>x. WriteObj tn (ser x)) xs))
      (sbind (readElemsText tn deser (replicate (length xs) d)) (\<lambda>ys. ret (x # ys))) (x # xs)"
    using Cons by (intro carries_map) simp_all
  moreover have "carries c False (WriteObj tn (ser x)) (ReadObj tn (deser d)) x"
    using Cons.prems assms(2,3) by (intro carries_elem [where b = b]) simp_all
  ultimately show ?case by (simp add: carries_sseq)
qed

text \<open>The size of an array, and the head of the entry that holds its elements.\<close>

lemma head_text_cong [simp]:
  "head_text (s\<lparr>ts_valName := a\<rparr>) = head_text s" "head_text (s\<lparr>ts_valType := a\<rparr>) = head_text s"
  "head_text (s\<lparr>ts_sizeName := a\<rparr>) = head_text s" "head_text (s\<lparr>ts_sizeType := a\<rparr>) = head_text s"
  "head_text (s\<lparr>ts_buf := b\<rparr>) = head_text s"
  by (cases "ts_class s"; simp add: fun_eq_iff head_text_def comma_text_def ind_def)+

lemma WriteArrSize_emits:
  assumes "ts_valName s = Lit n" and "ts_valType s = Lit ty" and "ts_sizeName s = Lit sn" and "ts_sizeType s = Lit st"
    and "sn \<noteq> ''''" and "st \<noteq> ''''" and "0 \<le> ts_indent s" and "\<not> ts_useComma s"
  shows "WriteArrSize k s = (Ok (), s\<lparr>ts_buf := ts_buf s @ head_text s st sn @ num_text (ts_class s) (of_nat k),
    ts_newLine := False, ts_commaExpected := True, ts_sizeName := nstr, ts_sizeType := nstr\<rparr>)"
  using assms
  by (simp add: WriteArrSize_def BeginArrSizeOp_def EndArrSizeOp_def ser_writeNum_def sseq_def sbind_def sx_simps
      BeginWriteNamedEntry_emits WriteNum_emits)

lemma ReadArrSize_reads:
  assumes t: "ts_class t = ts_class s" "ts_commaExpected t = ts_commaExpected s" "\<not> ts_useComma t"
    and n: "ts_valName t = Lit n" "ts_valType t = Lit ty"
    and sn: "ts_sizeName t = Lit sn" "word_ok sn" and st: "ts_sizeType t = Lit st" "word_ok st"
    and k: "k < 2 ^ 64" and nd: "no_digit (ts_class s) rest"
    and r: "rest_of t = u @ head_text s st sn @ num_text (ts_class s) (of_nat k) @ rest" and u: "blanks u"
  shows "ReadArrSize t = (Ok k, (skip (length u + length (head_text s st sn) +
      length (num_text (ts_class s) (of_nat k))) t)
    \<lparr>ts_commaExpected := True, ts_sizeName := nstr, ts_sizeType := nstr\<rparr>)"
proof -
  let ?sw = "t\<lparr>ts_valName := Lit sn, ts_sizeName := Lit n, ts_valType := Lit st, ts_sizeType := Lit ty\<rparr>"
  let ?num = "num_text (ts_class s) (of_nat k)"
  let ?h = "length u + length (head_text s st sn)"
  obtain y ys where y: "?num = y # ys" "isdigit y" using num_text_hd by blast
  have 0: "BeginArrSizeOp t = (Ok (), ?sw)" using n sn st by (simp add: BeginArrSizeOp_def modifyS_app)
  have r0: "rest_of ?sw = u @ head_text s st sn @ '''' @ y # (ys @ rest)" using r y by simp
  have 1: "BeginReadNamedEntry ?sw = (Ok (), (skip ?h ?sw)\<lparr>ts_commaExpected := False\<rparr>)"
    using BeginReadNamedEntry_reads [OF _ _ _ _ sn(2) _ st(2) r0 u] t digit_chars [OF y(2)] by simp
  have "rest_of (skip ?h ?sw) = ?num @ rest"
    by (rule rest_of_step [of 0 _ "u @ head_text s st sn"]) (use r0 y in simp_all)
  then have 2: "ReadNum ((skip ?h ?sw)\<lparr>ts_commaExpected := False\<rparr>) = (Ok (of_nat k),
      (skip (length ?num) ((skip ?h ?sw)\<lparr>ts_commaExpected := False\<rparr>))\<lparr>ts_commaExpected := True\<rparr>)"
    using t nd by (intro ReadNum_reads [where rest = rest]) simp_all
  have k': "unat (of_nat k :: UINT64) = k" using k by (simp add: unat_of_nat take_bit_nat_eq_self)
  show ?thesis
    using n by (simp add: ReadArrSize_def ser_readNum_def sseq_def sbind_def 0 1 2 k' EndArrSizeOp_def sx_simps)
qed

text \<open>An entry with a size: \<open>W\<close> writes and \<open>R\<close> reads the value behind its name.\<close>

lemma carries_array:
  assumes n: "word_ok n" and ty: "word_ok ty" and sn: "word_ok sn" and st: "word_ok st" and lf: "leaf (Lit ty)"
    and k: "k < 2 ^ 64"
    and W: "\<And>p s. writer_ok c p s \<Longrightarrow> \<not> ts_newLine s \<Longrightarrow> \<not> ts_commaExpected s \<Longrightarrow>
      \<exists>ws tx s'. W s = (Ok (), s') \<and> writer_ok c p s' \<and> ts_buf s' = ts_buf s @ ws @ tx \<and>
        ts_indent s' = ts_indent s \<and> ts_commaExpected s' \<and> blanks ws \<and> tx \<noteq> '''' \<and> \<not> is_blank (hd tx) \<and>
        (\<forall>t rest. reader_ok c p t \<longrightarrow> \<not> ts_commaExpected t \<longrightarrow> rest_of t = tx @ rest \<longrightarrow>
           leaf (ts_valType t) \<longrightarrow>
           (\<exists>t'. R k t = (Ok v, t') \<and> reader_ok c p t' \<and> rest_of t' = rest \<and> ts_commaExpected t' \<and>
              leaf (ts_valType t')))"
  shows "carries c True (withN n ty sn st (sseq (wseq [WriteArrSize k, BeginWriteNamedEntry False]) W))
    (withN n ty sn st (sbind ReadArrSize (\<lambda>k. sseq BeginReadNamedEntry (R k)))) v"
proof (rule carriesI)
  fix p s assume s: "writer_ok c p s"
  let ?with = "\<lambda>s. s\<lparr>ts_valName := Lit n, ts_valType := Lit ty, ts_sizeName := Lit sn, ts_sizeType := Lit st\<rparr>"
  let ?num = "num_text c (of_nat k)"
  define s1 where "s1 = (?with s)\<lparr>ts_buf := ts_buf s @ head_text s st sn @ ?num, ts_newLine := False,
    ts_commaExpected := True, ts_sizeName := nstr, ts_sizeType := nstr\<rparr>"
  define s2 where "s2 = s1\<lparr>ts_buf := ts_buf s1 @ head_text s1 ty n, ts_newLine := False, ts_valName := nstr,
    ts_commaExpected := False, ts_valType := (if c = PlainTextSerializer then nstr else Lit ty)\<rparr>"
  have ne: "n \<noteq> ''''" "ty \<noteq> ''''" "sn \<noteq> ''''" "st \<noteq> ''''" using word_okD n ty sn st by blast+
  have 1: "WriteArrSize k (?with s) = (Ok (), s1)"
    using WriteArrSize_emits [of "?with s" n ty sn st k] ne s by (simp add: writer_ok_def s1_def)
  have 2: "BeginWriteNamedEntry False s1 = (Ok (), s2)"
    using BeginWriteNamedEntry_emits [of s1 n ty False] ne s by (simp add: writer_ok_def s1_def s2_def)
  have ok2: "writer_ok c p s2" "\<not> ts_newLine s2" "\<not> ts_commaExpected s2"
    using s by (simp_all add: writer_ok_def s1_def s2_def)
  obtain ws tx s3 where 3: "W s2 = (Ok (), s3)" "writer_ok c p s3" "ts_buf s3 = ts_buf s2 @ ws @ tx"
      "ts_indent s3 = ts_indent s2" "ts_commaExpected s3" "blanks ws" "tx \<noteq> ''''" "\<not> is_blank (hd tx)"
    and rd: "\<And>t rest. reader_ok c p t \<Longrightarrow> \<not> ts_commaExpected t \<Longrightarrow> rest_of t = tx @ rest \<Longrightarrow>
      leaf (ts_valType t) \<Longrightarrow> \<exists>t'. R k t = (Ok v, t') \<and> reader_ok c p t' \<and> rest_of t' = rest \<and>
        ts_commaExpected t' \<and> leaf (ts_valType t')"
    using W [OF ok2] by blast
  let ?out = "head_text s st sn @ ?num @ head_text s1 ty n @ ws @ tx"
  have cs: "ts_class s = c" "ts_class s1 = c" "ts_commaExpected s1" using s by (simp_all add: writer_ok_def s1_def)
  have w: "withN n ty sn st (sseq (wseq [WriteArrSize k, BeginWriteNamedEntry False]) W) s = (Ok (), s3)"
    using 1 2 3(1) by (simp add: withN_def ser_with_def sseq_def sbind_def sx_simps)
  have buf: "ts_buf s3 = ts_buf s @ ?out" using 3(3) by (simp add: s1_def s2_def)
  have rb: "reads_back c p True (withN n ty sn st (sbind ReadArrSize (\<lambda>k. sseq BeginReadNamedEntry (R k)))) v
      (ts_commaExpected s) True ?out"
  proof (rule reads_backI)
    fix t u rest
    assume t: "reader_ok c p t" "ts_commaExpected t = ts_commaExpected s" "blanks u" "rest_of t = u @ ?out @ rest"
      "True \<Longrightarrow> no_digit c rest"
    obtain y ys where y: "tx = y # ys" "\<not> is_blank y" using 3(7,8) by (cases tx) auto
    let ?h1 = "length u + length (head_text s st sn) + length ?num"
    define t1 where "t1 = (skip ?h1 (?with t))\<lparr>ts_commaExpected := True, ts_sizeName := nstr, ts_sizeType := nstr\<rparr>"
    have r: "rest_of (?with t) = u @ head_text s st sn @ num_text (ts_class s) (of_nat k) @ head_text s1 ty n @ ws @ tx @ rest"
      using t(4) cs by simp
    have nd: "no_digit (ts_class s) (head_text s1 ty n @ ws @ tx @ rest)"
      using keeps_end_head [OF cs(2), of False ty n "ws @ tx"] cs by (simp add: keeps_end_def)
    have 1: "ReadArrSize (?with t) = (Ok k, t1)"
      using ReadArrSize_reads [OF _ _ _ _ _ _ sn _ st k nd r t(3)] s t cs
      by (simp add: t1_def writer_ok_def reader_ok_def)
    have r1: "rest_of t1 = '''' @ head_text s1 ty n @ ws @ y # (ys @ rest)"
    proof -
      have "rest_of (skip ?h1 (?with t)) = head_text s1 ty n @ ws @ tx @ rest"
        by (rule rest_of_step [of 0 _ "u @ head_text s st sn @ ?num"]) (use r cs in simp_all)
      then show ?thesis using y by (simp add: t1_def)
    qed
    let ?h2 = "length (head_text s1 ty n) + length ws"
    define t2 where "t2 = (skip ?h2 t1)\<lparr>ts_commaExpected := False\<rparr>"
    have 2: "BeginReadNamedEntry t1 = (Ok (), t2)"
      using BeginReadNamedEntry_reads [OF _ _ _ _ n _ ty r1 _ 3(6) y(2)] t(1) cs
      by (simp add: t1_def t2_def reader_ok_def)
    have r2: "rest_of t2 = tx @ rest"
    proof -
      have "rest_of (skip ?h2 t1) = y # (ys @ rest)"
        by (rule rest_of_step [of 0 _ "head_text s1 ty n @ ws"]) (use r1 in simp_all)
      then show ?thesis using y by (simp add: t2_def)
    qed
    have ok2: "reader_ok c p t2" "\<not> ts_commaExpected t2" "leaf (ts_valType t2)"
      using t(1) lf by (simp_all add: t1_def t2_def reader_ok_def)
    obtain t3 where "R k t2 = (Ok v, t3)" "reader_ok c p t3" "rest_of t3 = rest" "ts_commaExpected t3"
        "leaf (ts_valType t3)"
      using rd [OF ok2(1,2) r2 ok2(3)] by blast
    then show "\<exists>t' ws'. withN n ty sn st (sbind ReadArrSize (\<lambda>k. sseq BeginReadNamedEntry (R k))) t = (Ok v, t') \<and>
        reader_ok c p t' \<and> blanks ws' \<and> rest_of t' = ws' @ rest \<and> ts_commaExpected t' = True \<and>
        leaf (ts_valType t')"
      using 1 2 by (simp add: withN_def ser_with_def sseq_def sbind_def sx_simps exI [of _ "''''"])
  qed
  show "\<exists>out s'. withN n ty sn st (sseq (wseq [WriteArrSize k, BeginWriteNamedEntry False]) W) s = (Ok (), s') \<and>
        writer_ok c p s' \<and> ts_buf s' = ts_buf s @ out \<and> ts_indent s' = ts_indent s \<and>
        keeps_end c (ts_commaExpected s) (ts_commaExpected s') out \<and>
        reads_back c p True (withN n ty sn st (sbind ReadArrSize (\<lambda>k. sseq BeginReadNamedEntry (R k)))) v
          (ts_commaExpected s) (ts_commaExpected s') out"
    using w 3 buf rb keeps_end_head [OF cs(1)]
    by (intro exI [of _ ?out] exI [of _ s3]) (simp add: s1_def s2_def)
qed

lemma no_digit_blanks: "blanks b \<Longrightarrow> \<not> isdnum d \<Longrightarrow> no_digit c (b @ d # rest)"
  by (cases b) (auto simp: no_digit_def is_blank_def isdnum_def isdigit_def)

lemma BeginReadArr_reads:
  assumes "reader_ok c p t" and "\<not> ts_commaExpected t" and "rest_of t = ''['' @ rest"
  shows "BeginReadArr t = (Ok (), (skip 1 t)\<lparr>ts_commaExpected := False\<rparr>)"
proof -
  have "ReadComma t = (Ok (), t)"
    using assms(1,2) by (cases c) (simp_all add: ReadComma_def virt_def TextSerializer_ReadComma_def
        PlainTextSerializer_ReadComma_def reader_ok_def)
  moreover have "Next (CHR ''['') t = (Ok (), skip 1 t)"
    using Next_reads [of t "''''" "CHR ''[''" rest] assms(3) by (simp add: is_blank_def)
  ultimately show ?thesis by (simp add: BeginReadArr_def sseq_def sbind_def sx_simps expectComma_def)
qed

lemma EndReadArr_reads:
  assumes "rest_of t = ws @ '']'' @ zs" and "blanks ws"
  shows "EndReadArr t = (Ok (), (skip (length ws + 1) t)\<lparr>ts_commaExpected := True\<rparr>)"
proof -
  have "Next (CHR '']'') t = (Ok (), skip (Suc (length ws)) t)"
    using assms by (intro Next_reads) (simp_all add: is_blank_def)
  then show ?thesis by (simp add: EndReadArr_def sseq_def sbind_def sx_simps expectComma_def)
qed

text \<open>What stands between brackets; the indentation of the reader does not matter.\<close>

lemma bracketed:
  assumes body: "carries c False body rbody v" and s: "writer_ok c p s" "\<not> ts_newLine s" "\<not> ts_commaExpected s"
  shows "\<exists>tx s'. wseq [BeginWriteArr ne, body, EndWriteArr ne] s = (Ok (), s') \<and> writer_ok c p s' \<and>
    ts_buf s' = ts_buf s @ ''['' @ tx \<and> ts_indent s' = ts_indent s \<and> ts_commaExpected s' \<and>
    (\<forall>t rest. reader_ok c p t \<longrightarrow> \<not> ts_commaExpected t \<longrightarrow> rest_of t = ''['' @ tx @ rest \<longrightarrow>
       leaf (ts_valType t) \<longrightarrow>
       (\<forall>i j. \<exists>t1 t2 t3. BeginReadArr t = (Ok (), t1) \<and> reader_ok c p t1 \<and>
          rbody (t1\<lparr>ts_indent := i\<rparr>) = (Ok v, t2) \<and>
          EndReadArr (t2\<lparr>ts_indent := j\<rparr>) = (Ok (), t3) \<and> reader_ok c p t3 \<and> rest_of t3 = rest \<and>
          ts_commaExpected t3 \<and> leaf (ts_valType t3)))"
proof -
  define s1 where "s1 = s\<lparr>ts_buf := ts_buf s @ ''['' @ (if ne then eol else ''''), ts_newLine := ne,
    ts_indent := (if ne then ts_indent s + 4 else ts_indent s), ts_commaExpected := False\<rparr>"
  have wc: "WriteComma True s = (Ok (), s)"
    using s by (cases c) (simp_all add: WriteComma_def virt_def TextSerializer_WriteComma_def
        PlainTextSerializer_WriteComma_def writer_ok_def)
  have 1: "BeginWriteArr ne s = (Ok (), s1)"
    using s wc by (cases ne) (simp_all add: BeginWriteArr_def sseq_def sbind_def sx_simps WriteLine_def Write_emits
        TabIn_def TabSize_def expectComma_def s1_def ind_def writer_ok_def eol_def)
  have ok1: "writer_ok c p s1" using s by (simp add: s1_def writer_ok_def)
  obtain out s2 where 2: "body s1 = (Ok (), s2)" "writer_ok c p s2" "ts_buf s2 = ts_buf s1 @ out"
      "ts_indent s2 = ts_indent s1" "keeps_end c (ts_commaExpected s1) (ts_commaExpected s2) out"
      "reads_back c p False rbody v (ts_commaExpected s1) (ts_commaExpected s2) out"
    using carriesE [OF body ok1] by blast
  define gap where "gap = (if ne then (if ts_newLine s2 then '''' else eol) @ spaces s else ind s2)"
  define s3 where "s3 = s2\<lparr>ts_buf := ts_buf s2 @ gap @ '']'', ts_newLine := False, ts_indent := ts_indent s,
    ts_commaExpected := True\<rparr>"
  have "0 \<le> ts_indent s" using s by (simp add: writer_ok_def)
  then have 3: "EndWriteArr ne s2 = (Ok (), s3)"
    using 2(2,4) by (cases ne; cases "ts_newLine s2") (simp_all add: EndWriteArr_def sseq_def sbind_def sx_simps
        WriteLine_def Write_emits Write_eol_again TabOut_def TabSize_def expectComma_def s3_def gap_def ind_def
        s1_def writer_ok_def)
  have gap: "blanks gap" by (simp add: gap_def)
  let ?tx = "(if ne then eol else '''') @ out @ gap @ '']''"
  have rd: "\<exists>t1 t2 t3. BeginReadArr t = (Ok (), t1) \<and> reader_ok c p t1 \<and>
          rbody (t1\<lparr>ts_indent := i\<rparr>) = (Ok v, t2) \<and>
          EndReadArr (t2\<lparr>ts_indent := j\<rparr>) = (Ok (), t3) \<and> reader_ok c p t3 \<and> rest_of t3 = rest \<and>
          ts_commaExpected t3 \<and> leaf (ts_valType t3)"
    if t: "reader_ok c p t" "\<not> ts_commaExpected t" "rest_of t = ''['' @ ?tx @ rest" "leaf (ts_valType t)"
    for t rest i j
  proof -
    define t1 where "t1 = (skip 1 t)\<lparr>ts_commaExpected := False\<rparr>"
    have b: "BeginReadArr t = (Ok (), t1)" using BeginReadArr_reads [OF t(1-3)] by (simp only: t1_def)
    let ?t1 = "t1\<lparr>ts_indent := i\<rparr>"
    have t1: "reader_ok c p t1" "reader_ok c p ?t1" "ts_commaExpected ?t1 = ts_commaExpected s1"
        "False \<or> leaf (ts_valType ?t1)"
      using t by (simp_all add: t1_def reader_ok_def s1_def)
    have r1: "rest_of ?t1 = (if ne then eol else '''') @ out @ (gap @ '']'' @ rest)"
      using t(3) by (simp add: t1_def)
    have bl: "blanks (if ne then eol else '''')" by simp
    have nd: "ts_commaExpected s2 \<Longrightarrow> no_digit c (gap @ '']'' @ rest)"
      using no_digit_blanks [OF gap, of "CHR '']''"] by (simp add: isdnum_def isdigit_def)
    obtain t2 ws where t2: "rbody ?t1 = (Ok v, t2)" "reader_ok c p t2" "blanks ws"
        "rest_of t2 = ws @ gap @ '']'' @ rest" "leaf (ts_valType t2)"
      using reads_backE [OF 2(6) t1(2,3) bl r1 nd t1(4)] by blast
    let ?t2 = "t2\<lparr>ts_indent := j\<rparr>"
    define t3 where "t3 = (skip (length (ws @ gap) + 1) ?t2)\<lparr>ts_commaExpected := True\<rparr>"
    have e: "EndReadArr ?t2 = (Ok (), t3)"
      unfolding t3_def by (rule EndReadArr_reads) (use t2(3,4) gap in simp_all)
    have "rest_of (skip (length (ws @ gap) + 1) ?t2) = rest"
      by (rule rest_of_step [of 0 _ "(ws @ gap) @ '']''"]) (use t2(4) in simp_all)
    then have "reader_ok c p t3" "rest_of t3 = rest" "ts_commaExpected t3" "leaf (ts_valType t3)"
      using t2 by (simp_all only: t3_def reader_ok_def rest_of_cong) simp_all
    then show ?thesis using b t1(1) t2(1) e by blast
  qed
  have w: "wseq [BeginWriteArr ne, body, EndWriteArr ne] s = (Ok (), s3)"
    using 1 2(1) 3 by (simp add: sseq_def sbind_def sx_simps)
  have ok3: "writer_ok c p s3" using 2(2) s by (simp add: s3_def writer_ok_def)
  have buf3: "ts_buf s3 = ts_buf s @ ''['' @ ?tx" by (simp add: s3_def 2(3)) (simp add: s1_def)
  show ?thesis
    by (rule exI [of _ ?tx], rule exI [of _ s3]) (use w ok3 buf3 rd in \<open>simp add: s3_def\<close>)
qed

lemma carries_writeObjArr:
  assumes n: "word_ok n" "word_ok ty" "word_ok sn" "word_ok st" "leaf (Lit ty)"
    and len: "length xs < 2 ^ 64" and tn: "word_ok tn" "\<not> leaf (Lit tn)"
    and body: "\<And>x. x \<in> set xs \<Longrightarrow> carries c b (ser x) (deser d) x"
  shows "carries c True (withN n ty sn st (ser_writeObjArr tn ser xs))
    (withN n ty sn st (ser_readObjArr tn deser d [])) xs"
proof -
  let ?ne = "xs \<noteq> []" and ?els = "wseq (map (\<lambda>x. WriteObj tn (ser x)) xs)"
  let ?W = "wseq [BeginWriteArr ?ne, ?els, EndWriteArr ?ne]"
  let ?R = "\<lambda>k. sseq BeginReadArr (sseq (wseq [WriteLine '''', TabIn])
     (sbind (readElemsText tn deser (resize d k [])) (\<lambda>xs. sseq (wseq [TabOut, EndReadArr]) (ret xs))))"
  have els: "carries c False ?els (readElemsText tn deser (resize d (length xs) [])) xs"
    using carries_elems [of xs c b ser deser d tn] body tn by (simp add: resize_def)
  have "\<exists>ws tx s'. ?W s = (Ok (), s') \<and> writer_ok c p s' \<and> ts_buf s' = ts_buf s @ ws @ tx \<and>
        ts_indent s' = ts_indent s \<and> ts_commaExpected s' \<and> blanks ws \<and> tx \<noteq> '''' \<and> \<not> is_blank (hd tx) \<and>
        (\<forall>t rest. reader_ok c p t \<longrightarrow> \<not> ts_commaExpected t \<longrightarrow> rest_of t = tx @ rest \<longrightarrow>
           leaf (ts_valType t) \<longrightarrow>
           (\<exists>t'. ?R (length xs) t = (Ok xs, t') \<and> reader_ok c p t' \<and> rest_of t' = rest \<and> ts_commaExpected t' \<and>
              leaf (ts_valType t')))"
    if s: "writer_ok c p s" "\<not> ts_newLine s" "\<not> ts_commaExpected s" for p s
  proof -
    obtain tx s' where tx: "?W s = (Ok (), s')" "writer_ok c p s'" "ts_buf s' = ts_buf s @ ''['' @ tx"
        "ts_indent s' = ts_indent s" "ts_commaExpected s'"
      and rd: "\<And>t rest i j. reader_ok c p t \<Longrightarrow> \<not> ts_commaExpected t \<Longrightarrow> rest_of t = ''['' @ tx @ rest \<Longrightarrow>
       leaf (ts_valType t) \<Longrightarrow> \<exists>t1 t2 t3. BeginReadArr t = (Ok (), t1) \<and> reader_ok c p t1 \<and>
          readElemsText tn deser (resize d (length xs) []) (t1\<lparr>ts_indent := i\<rparr>) = (Ok xs, t2) \<and>
          EndReadArr (t2\<lparr>ts_indent := j\<rparr>) = (Ok (), t3) \<and> reader_ok c p t3 \<and> rest_of t3 = rest \<and>
          ts_commaExpected t3 \<and> leaf (ts_valType t3)"
      using bracketed [OF els s, of ?ne] by blast
    have "\<exists>t'. ?R (length xs) t = (Ok xs, t') \<and> reader_ok c p t' \<and> rest_of t' = rest \<and> ts_commaExpected t' \<and>
        leaf (ts_valType t')"
      if t: "reader_ok c p t" "\<not> ts_commaExpected t" "rest_of t = ''['' @ tx @ rest" "leaf (ts_valType t)"
      for t rest
    proof -
      obtain t1 where t1: "BeginReadArr t = (Ok (), t1)" "reader_ok c p t1" using rd [OF t] by blast
      let ?i = "ts_indent t1 + 4"
      obtain t2 where t2: "readElemsText tn deser (resize d (length xs) []) (t1\<lparr>ts_indent := ?i\<rparr>) = (Ok xs, t2)"
        using rd [OF t, of ?i] t1 by auto
      obtain t3 where "EndReadArr (t2\<lparr>ts_indent := ts_indent t2 - 4\<rparr>) = (Ok (), t3)" "reader_ok c p t3"
          "rest_of t3 = rest" "ts_commaExpected t3" "leaf (ts_valType t3)"
        using rd [OF t, of ?i "ts_indent t2 - 4"] t1 t2 by auto
      moreover have "WriteLine '''' t1 = (Ok (), t1)"
        using t1(2) by (simp add: WriteLine_def Write_eol_again reader_ok_def)
      ultimately show ?thesis
        using t1 t2 by (simp add: sseq_def sbind_def sx_simps TabIn_def TabOut_def TabSize_def)
    qed
    then show ?thesis
      using tx by (intro exI [of _ "''''"] exI [of _ "''['' @ tx"] exI [of _ s']) (simp add: is_blank_def)
  qed
  then have "carries c True (withN n ty sn st (sseq (wseq [WriteArrSize (length xs), BeginWriteNamedEntry False]) ?W))
      (withN n ty sn st (sbind ReadArrSize (\<lambda>k. sseq BeginReadNamedEntry (?R k)))) xs"
    using n len by (intro carries_array) blast+
  moreover have "ser_writeObjArr tn ser xs = sseq (wseq [WriteArrSize (length xs), BeginWriteNamedEntry False]) ?W"
    by (simp add: ser_writeObjArr_def sseq_def sbind_assoc)
  moreover have "ser_readObjArr tn deser d [] = sbind ReadArrSize (\<lambda>k. sseq BeginReadNamedEntry (?R k))"
    by (simp add: ser_readObjArr_def sseq_def sbind_assoc)
  ultimately show ?thesis by simp
qed

section \<open>Byte buffers in JSON\<close>

lemma carries_json_num: "carries JsonSerializer False (WriteNum v) ReadNum v"
proof (rule carriesI)
  fix p s assume s: "writer_ok JsonSerializer p s"
  let ?ds = "to_string (unat v)"
  let ?out = "ind s @ (if ts_commaExpected s then '','' @ '' '' else '''') @ ?ds"
  have "isdigit (last ?ds)"
    using to_string_digits [of "unat v"] by (metis last_in_set list_all_iff)
  then have last: "last ?ds \<noteq> CHR 0x0A" by (auto simp: isdigit_def)
  then have ne: "?ds \<noteq> eol" by (auto simp: eol_def)
  define s1 where "s1 = s\<lparr>ts_buf := ts_buf s @ ?out, ts_newLine := False, ts_commaExpected := True\<rparr>"
  have w: "WriteNum v s = (Ok (), s1)"
    using s last ne to_string_digits(1)
    by (simp add: WriteNum_def virt_def JsonSerializer_WriteNum_def sseq_def sbind_def sx_simps WriteComma_def
        TextSerializer_WriteComma_def Write_emits expectComma_def ind_def writer_ok_def s1_def eol_def)
  have rb: "reads_back JsonSerializer p False ReadNum v (ts_commaExpected s) True ?out"
  proof (rule reads_backI)
    fix t u rest
    assume t: "reader_ok JsonSerializer p t" "ts_commaExpected t = ts_commaExpected s" "blanks u"
      "rest_of t = u @ ?out @ rest" "True \<Longrightarrow> no_digit JsonSerializer rest" "False \<or> leaf (ts_valType t)"
    let ?v = "if ts_commaExpected s then u @ ind s else ''''"
    let ?w = "if ts_commaExpected s then '' '' else u @ ind s"
    let ?k = "length ?v + (if ts_commaExpected t then 1 else 0)"
    have r: "rest_of t = ?v @ (if ts_commaExpected t then '','' else '''') @ ?w @ ?ds @ rest"
      using t(2,4) by simp
    have 1: "ReadComma t = (Ok (), skip ?k t)"
      by (rule ReadComma_json [OF _ r]) (use t in \<open>simp_all add: reader_ok_def\<close>)
    have r1: "rest_of (skip ?k t) = ?w @ ?ds @ rest"
      by (rule rest_of_step [of 0 _ "?v @ (if ts_commaExpected t then '','' else '''')"]) (use r in simp_all)
    define t1 where "t1 = (skip ?k t)\<lparr>ts_commaExpected := True\<rparr>"
    obtain y ys where y: "?ds = y # ys" "isdigit y"
      using to_string_digits [of "unat v"] by (cases ?ds) auto
    have wb: "blanks ?w" using t(3) by (simp add: is_blank_def)
    have 2: "SkipSpace t1 = (Ok (), skip (length ?w) t1)"
      using SkipSpace_blanks [of t1 ?w y "ys @ rest"] r1 y wb digit_chars by (simp add: t1_def)
    have r2: "rest_of (skip (length ?w) t1) = ?ds @ rest"
      by (rule rest_of_step [of 0 _ ?w]) (use r1 in \<open>simp_all add: t1_def\<close>)
    have 3: "take_dnum (skip (length ?w) t1) = (Ok ?ds, skip (length ?ds) (skip (length ?w) t1))"
      using t(5) to_string_digits by (intro take_dnum_reads [OF r2]) simp_all
    have r3: "rest_of (skip (length ?ds) (skip (length ?w) t1)) = rest"
      using r2 by (simp del: skip_skip)
    have dv: "stoull ?ds = Ok v"
      using stoull_to_string [of "unat v"] unsigned_less [of v] by simp
    have "ReadNum t = (Ok v, skip (length ?ds) (skip (length ?w) t1))"
      using t(1) 1 2 3 dv by (simp add: ReadNum_def virt_def JsonSerializer_ReadNum_def sseq_def sbind_def sx_simps
          expectComma_def reader_ok_def del: skip_skip flip: t1_def)
    then show "\<exists>t' ws'. ReadNum t = (Ok v, t') \<and> reader_ok JsonSerializer p t' \<and> blanks ws' \<and>
        rest_of t' = ws' @ rest \<and> ts_commaExpected t' = True \<and> leaf (ts_valType t')"
      using r3 t(1,6) by (intro exI [of _ "skip (length ?ds) (skip (length ?w) t1)"] exI [of _ "''''"])
        (simp add: t1_def reader_ok_def del: skip_skip)
  qed
  have "keeps_end JsonSerializer (ts_commaExpected s) True ?out"
    by (cases "ts_newLine s"; cases "nat (ts_indent s)")
      (auto simp: keeps_end_def ind_def no_digit_def isdnum_def isdigit_def)
  then show "\<exists>out s'. WriteNum v s = (Ok (), s') \<and> writer_ok JsonSerializer p s' \<and>
        ts_buf s' = ts_buf s @ out \<and> ts_indent s' = ts_indent s \<and>
        keeps_end JsonSerializer (ts_commaExpected s) (ts_commaExpected s') out \<and>
        reads_back JsonSerializer p False ReadNum v (ts_commaExpected s) (ts_commaExpected s') out"
    using w rb s by (intro exI [of _ ?out] exI [of _ s1]) (simp add: s1_def writer_ok_def)
qed

lemma carries_byte_nums:
  "carries JsonSerializer False (wseq (map (\<lambda>b. WriteNum (ucast b)) bs)) (read_byte_nums (length bs)) bs"
proof (induction bs)
  case Nil
  then show ?case using carries_ret by simp
next
  case (Cons b bs)
  have "carries JsonSerializer False (wseq (map (\<lambda>b. WriteNum (ucast b)) bs))
      (sbind (read_byte_nums (length bs)) (\<lambda>bs. ret (ucast (ucast b :: UINT64) # bs))) (b # bs)"
    using Cons by (intro carries_map) simp_all
  then show ?case by (simp add: carries_sseq [OF carries_json_num])
qed

section \<open>Byte buffers in plain text\<close>

definition hex2 :: "byte \<Rightarrow> string" where
  "hex2 b = to_hex (ucast b) 0"

lemma xdigit_hexDigit: "d < 16 \<Longrightarrow> xdigit_value (hexDigit d) = Some (unat d)"
proof -
  assume "d < 16"
  then have "unat d < 16" by (simp add: word_less_nat_alt)
  then show ?thesis by (auto simp: hexDigit_def xdigit_value_def word_less_nat_alt)
qed

lemma byte_less: "unat (b :: byte) < 256"
  by (rule order_less_le_trans [OF unsigned_less]) simp

lemma hexDigit_0: "hexDigit 0 = CHR ''0''"
  by code_simp

lemma nibbles_byte: "unat b = 16 * unat (nibble 1 (ucast b)) + unat (nibble 0 (ucast b))" for b :: byte
proof -
  let ?v = "ucast b :: UINT64"
  have lo: "take_bit 4 ?v = ucast (nibble 0 ?v)"
    by (rule bit_word_eqI) (auto simp: bit_simps bit_nibble)
  have hi: "drop_bit 4 ?v = ucast (nibble 1 ?v)"
    by (rule bit_word_eqI) (auto simp: bit_simps bit_nibble dest: bit_imp_le_length)
  have "unat b < 2 ^ 64" using byte_less [of b] by simp
  then have "unat b = unat ?v" by (simp add: unsigned_ucast_eq take_bit_nat_eq_self)
  also have "\<dots> = 16 * (unat ?v div 16) + unat ?v mod 16" by simp
  also have "unat ?v div 16 = unat (drop_bit 4 ?v)" by (simp add: drop_bit_eq_div unat_div_distrib)
  also have "unat ?v mod 16 = unat (take_bit 4 ?v)" by (simp add: take_bit_eq_mod unat_mod_distrib)
  also have "unat (drop_bit 4 ?v) = unat (nibble 1 ?v)"
    unfolding hi using byte_less [of "nibble 1 ?v"] by (simp add: unsigned_ucast_eq take_bit_nat_eq_self)
  also have "unat (take_bit 4 ?v) = unat (nibble 0 ?v)"
    unfolding lo using byte_less [of "nibble 0 ?v"] by (simp add: unsigned_ucast_eq take_bit_nat_eq_self)
  finally show ?thesis .
qed

lemma hex2_digits: "hex2 b = [hexDigit (nibble 1 (ucast b)), hexDigit (nibble 0 (ucast b))]"
proof -
  let ?v = "ucast b :: UINT64"
  have os: "map (\<lambda>k. 4 * k) [0..<16] = 0 # 4 # 8 # map (\<lambda>k. 4 * k) [3..<16]"
    by (simp add: upt_rec [of 0] upt_rec [of "Suc 0"] upt_rec [of 2] numeral_eq_Suc)
  have m: "(15 :: UINT64) = mask 4" "(240 :: UINT64) = push_bit 4 (mask 4)"
    by (simp_all add: mask_eq_exp_minus_1)
  have v2: "(?v AND NOT 15) AND NOT 240 = 0"
    unfolding m by (rule bit_word_eqI) (auto simp: bit_simps dest: bit_imp_le_length)
  have n1: "nibble 1 ?v = 0" if "?v AND NOT 15 = 0"
  proof (rule bit_word_eqI)
    fix n
    have "\<not> bit (?v AND NOT 15) (n + 4)" using that by simp
    then show "bit (nibble 1 ?v) n \<longleftrightarrow> bit (0 :: UINT8) n"
      unfolding m by (auto simp: bit_nibble bit_simps add.commute)
  qed
  have n10: "nibble 1 (?v AND NOT 15) = nibble 1 ?v"
    unfolding m by (rule bit_word_eqI) (auto simp: bit_nibble bit_simps)
  have step: "hex_loop (map (\<lambda>k. 4 * k) [0..<16]) ?v '''' =
      (if ?v = 0 then '''' else if ?v AND NOT 15 = 0 then [hexDigit (nibble 0 ?v)]
       else [hexDigit (nibble 1 ?v), hexDigit (nibble 0 ?v)])"
  proof -
    have a: "ucast (drop_bit 0 (?v AND 15) AND 15) = nibble 0 ?v" by (simp add: nibble_def)
    have b: "ucast (drop_bit 4 ((?v AND NOT 15) AND 240) AND 15) = nibble 1 ?v"
      using n10 by (simp add: nibble_def)
    have h1: "hex_loop (0 # os) v r = (if v = 0 then r
        else hex_loop os (v AND NOT 15) (hexDigit (ucast (drop_bit 0 (v AND 15) AND 15)) # r))" for os v r
      by (simp add: Let_def)
    have h2: "hex_loop (4 # os) v r = (if v = 0 then r
        else hex_loop os (v AND NOT 240) (hexDigit (ucast (drop_bit 4 (v AND 240) AND 15)) # r))" for os v r
      by (simp add: Let_def)
    have h3: "hex_loop (k # os) 0 r = r" for k os r by simp
    show ?thesis unfolding os h1 a h2 b v2 h3 by (rule refl)
  qed
  show ?thesis
  proof (cases "?v = 0")
    case True
    then show ?thesis by (simp add: hex2_def to_hex_def nibble_def hexDigit_0)
  next
    case False
    then show ?thesis
      using step n1 by (cases "?v AND NOT 15 = 0") (simp_all add: hex2_def to_hex_def Let_def hexDigit_0)
  qed
qed

lemma hex2_props: "length (hex2 b) = 2" "stoi16 (hex2 b) = Ok (uint b)" "list_all is_hex (hex2 b)"
proof -
  have h: "is_hex (hexDigit (nibble k (ucast b)))" for k using is_hex_hexDigit nibble_less by blast
  have x: "xdigit_value (hexDigit (nibble k (ucast b))) = Some (unat (nibble k (ucast b)))" for k
    using xdigit_hexDigit nibble_less by blast
  have "is_hex c \<Longrightarrow> \<not> isspace c \<and> c \<noteq> CHR ''-'' \<and> c \<noteq> CHR ''+''" for c
    by (auto simp: is_hex_def isspace_def is_blank_def)
  moreover have "16 * unat (nibble 1 (ucast b)) + unat (nibble 0 (ucast b)) < 2 ^ 31"
    using nibbles_byte [of b] byte_less [of b] by simp
  moreover have "uint b = 16 * uint (nibble 1 (ucast b)) + uint (nibble 0 (ucast b))"
    using arg_cong [OF nibbles_byte [of b], of int] by simp
  moreover have "\<not> 16 * uint (nibble 1 (ucast b)) + uint (nibble 0 (ucast b)) < - (2 ^ 31)"
    by (rule leD, rule order_trans [of _ 0]) simp_all
  moreover have "uint b < 2 ^ 31" "0 \<le> uint b"
  proof -
    have "uint b = int (unat b)" by simp
    moreover have "int (unat b) < 256" using byte_less [of b] by linarith
    ultimately show "uint b < 2 ^ 31" by simp
  qed simp
  ultimately show "stoi16 (hex2 b) = Ok (uint b)"
    using h by (simp add: hex2_digits stoi16_def isxdigit_def x hex_value_def Let_def)
      (rule leD, rule order_trans [of _ 0], simp_all)
  show "length (hex2 b) = 2" by (simp add: hex2_digits)
  show "list_all is_hex (hex2 b)" by (simp add: hex2_def to_hex_chars)
qed

text \<open>
  \<open>hexrun i bs tx\<close>: \<open>tx\<close> holds the bytes \<open>bs\<close> from index \<open>i\<close> on, with blanks only where \<open>readSizedByteBuf\<close>
  skips them.
\<close>

fun hexrun :: "nat \<Rightarrow> ByteVec \<Rightarrow> string \<Rightarrow> bool" where
  "hexrun i [] tx \<longleftrightarrow> blanks tx"
| "hexrun i (b # bs) tx \<longleftrightarrow> (\<exists>ws rest. tx = ws @ hex2 b @ rest \<and> blanks ws \<and> (ws = '''' \<or> i mod WordSize = 0) \<and>
     hexrun (Suc i) bs rest)"

definition hexpart :: "nat \<Rightarrow> ByteVec \<Rightarrow> string \<Rightarrow> bool" where
  "hexpart i xs tx \<longleftrightarrow> (\<forall>bs rest. hexrun (i + length xs) bs rest \<longrightarrow> hexrun i (xs @ bs) (tx @ rest))"

lemma hexrun_blanks: "blanks ws \<Longrightarrow> i mod WordSize = 0 \<Longrightarrow> hexrun i bs tx \<Longrightarrow> hexrun i bs (ws @ tx)"
proof (cases bs)
  case (Cons b bs')
  assume ws: "blanks ws" "i mod WordSize = 0" "hexrun i bs tx"
  then obtain ws' rest where "tx = ws' @ hex2 b @ rest" "blanks ws'" "hexrun (Suc i) bs' rest"
    using Cons by auto
  then show ?thesis
    unfolding Cons hexrun.simps using ws by (intro exI [of _ "ws @ ws'"] exI [of _ rest]) simp
qed simp

lemma hexpart_Nil: "i mod WordSize = 0 \<Longrightarrow> blanks ws \<Longrightarrow> hexpart i [] ws"
  by (simp add: hexpart_def hexrun_blanks)

lemma hexpart_append: "hexpart i xs t \<Longrightarrow> hexpart (i + length xs) ys u \<Longrightarrow> hexpart i (xs @ ys) (t @ u)"
  by (simp add: hexpart_def add.assoc)

lemma hexpart_blanks: "blanks ws \<Longrightarrow> i mod WordSize = 0 \<Longrightarrow> hexpart i xs t \<Longrightarrow> hexpart i xs (ws @ t)"
  by (simp add: hexpart_def hexrun_blanks)

lemma hexpart_bytes: "hexpart i xs (concat (map hex2 xs))"
proof (induction xs arbitrary: i)
  case Nil
  then show ?case by (simp add: hexpart_def)
next
  case (Cons x xs)
  have "hexrun i (x # (xs @ bs)) (hex2 x @ concat (map hex2 xs) @ rest)"
    if "hexrun (Suc i + length xs) bs rest" for bs rest
    unfolding hexrun.simps using that Cons [of "Suc i"]
    by (intro exI [of _ "''''"] exI [of _ "concat (map hex2 xs) @ rest"]) (simp add: hexpart_def)
  then show ?case by (simp add: hexpart_def)
qed

lemma write_hexes:
  assumes "0 \<le> ts_indent s"
  shows "wseq (map write_hex bs) s = (Ok (), s\<lparr>ts_buf := ts_buf s @ (if bs = [] then '''' else ind s) @
    concat (map hex2 bs), ts_newLine := (ts_newLine s \<and> bs = [])\<rparr>)"
  using assms
proof (induction bs arbitrary: s)
  case Nil
  then show ?case by (simp add: ret_app)
next
  case (Cons b bs)
  have ne: "hex2 b \<noteq> ''''" using hex2_props(1) [of b] by auto
  then have "is_hex (last (hex2 b))"
    using hex2_props(3) [of b] by (simp add: list_all_iff)
  then have "last (hex2 b) \<noteq> CHR 0x0A" by (auto simp: is_hex_def)
  then have "hex2 b \<noteq> eol" by (auto simp: eol_def)
  then have "write_hex b s = (Ok (), s\<lparr>ts_buf := ts_buf s @ ind s @ hex2 b, ts_newLine := False\<rparr>)"
    using Cons.prems ne \<open>last (hex2 b) \<noteq> CHR 0x0A\<close> by (simp add: write_hex_def Write_emits flip: hex2_def)
  then show ?case
    using Cons by (simp add: sseq_def sbind_def ind_def)
qed

lemma map_nth_range:
  "pos + k \<le> length buf \<Longrightarrow> map (\<lambda>j. f (buf ! j)) [pos..<pos + k] = map f (take k (drop pos buf))"
  by (simp add: list_eq_iff_nth_eq)

text \<open>What a piece of the buffer's text is: it holds the bytes, and only an empty piece stays at a line's start.\<close>

definition emits_hex :: "unit ser \<Rightarrow> nat \<Rightarrow> ByteVec \<Rightarrow> bool" where
  "emits_hex m i bs \<longleftrightarrow> (\<forall>s. 0 \<le> ts_indent s \<longrightarrow> (\<exists>tx nl. m s =
     (Ok (), s\<lparr>ts_buf := ts_buf s @ tx, ts_newLine := nl\<rparr>) \<and> hexpart i bs tx))"

lemma emits_hexE:
  assumes "emits_hex m i bs" and "0 \<le> ts_indent s"
  obtains tx nl where "m s = (Ok (), s\<lparr>ts_buf := ts_buf s @ tx, ts_newLine := nl\<rparr>)" and "hexpart i bs tx"
  using assms unfolding emits_hex_def by blast

lemma emits_hex_ret: "i mod WordSize = 0 \<Longrightarrow> emits_hex (ret ()) i []"
  unfolding emits_hex_def
proof (intro allI impI)
  fix s :: TextSerializer assume "i mod WordSize = 0"
  then show "\<exists>tx nl. ret () s = (Ok (), s\<lparr>ts_buf := ts_buf s @ tx, ts_newLine := nl\<rparr>) \<and> hexpart i [] tx"
    by (intro exI [of _ "''''"] exI [of _ "ts_newLine s"]) (simp add: ret_app hexpart_Nil)
qed

lemma emits_hex_blank:
  assumes "i mod WordSize = 0"
  shows "emits_hex (Write '' '') i []" and "emits_hex (WriteLine '''') i []"
proof -
  have "\<exists>tx nl. Write '' '' s = (Ok (), s\<lparr>ts_buf := ts_buf s @ tx, ts_newLine := nl\<rparr>) \<and> hexpart i [] tx"
    if "0 \<le> ts_indent s" for s
    using that assms by (intro exI [of _ "ind s @ '' ''"] exI [of _ False])
      (simp add: Write_emits hexpart_Nil is_blank_def)
  then show "emits_hex (Write '' '') i []" by (simp add: emits_hex_def)
  have "\<exists>tx nl. WriteLine '''' s = (Ok (), s\<lparr>ts_buf := ts_buf s @ tx, ts_newLine := nl\<rparr>) \<and> hexpart i [] tx"
    if "0 \<le> ts_indent s" for s
    using that assms by (cases "ts_newLine s")
      (auto simp: WriteLine_def Write_emits Write_eol_again hexpart_Nil ind_def
        intro!: exI [of _ "if ts_newLine s then '''' else eol"] exI [of _ True])
  then show "emits_hex (WriteLine '''') i []" by (simp add: emits_hex_def)
qed

lemma emits_hex_sseq:
  assumes "emits_hex m i xs" and "emits_hex k (i + length xs) ys"
  shows "emits_hex (sseq m k) i (xs @ ys)"
  unfolding emits_hex_def
proof (intro allI impI)
  fix s :: TextSerializer assume i: "0 \<le> ts_indent s"
  obtain t nl where 1: "m s = (Ok (), s\<lparr>ts_buf := ts_buf s @ t, ts_newLine := nl\<rparr>)" "hexpart i xs t"
    using emits_hexE [OF assms(1) i] by blast
  let ?s = "s\<lparr>ts_buf := ts_buf s @ t, ts_newLine := nl\<rparr>"
  have i2: "0 \<le> ts_indent ?s" using i by simp
  obtain u nl' where 2: "k ?s = (Ok (), ?s\<lparr>ts_buf := ts_buf ?s @ u, ts_newLine := nl'\<rparr>)"
      "hexpart (i + length xs) ys u"
    using emits_hexE [OF assms(2) i2] by blast
  show "\<exists>tx nl. sseq m k s = (Ok (), s\<lparr>ts_buf := ts_buf s @ tx, ts_newLine := nl\<rparr>) \<and> hexpart i (xs @ ys) tx"
    using 1 2 hexpart_append [OF 1(2) 2(2)]
    by (intro exI [of _ "t @ u"] exI [of _ nl']) (simp add: sseq_def sbind_def)
qed

lemma emits_hex_bytes:
  assumes "i mod WordSize = 0"
  shows "emits_hex (wseq (map write_hex bs)) i bs"
  unfolding emits_hex_def
proof (intro allI impI)
  fix s :: TextSerializer assume "0 \<le> ts_indent s"
  then show "\<exists>tx nl. wseq (map write_hex bs) s = (Ok (), s\<lparr>ts_buf := ts_buf s @ tx, ts_newLine := nl\<rparr>) \<and>
      hexpart i bs tx"
    using assms by (intro exI [of _ "(if bs = [] then '''' else ind s) @ concat (map hex2 bs)"]
        exI [of _ "ts_newLine s \<and> bs = []"]) (simp add: write_hexes hexpart_blanks hexpart_bytes)
qed

lemma emits_hex_words:
  "pos + n * WordSize \<le> length buf \<Longrightarrow> pos mod WordSize = 0 \<Longrightarrow>
   emits_hex (write_words buf pos n) pos (take (n * WordSize) (drop pos buf))"
proof (induction n arbitrary: pos)
  case 0
  then show ?case by (simp add: emits_hex_ret)
next
  case (Suc n)
  let ?word = "take WordSize (drop pos buf)"
  have len: "length ?word = WordSize" using Suc.prems by simp
  have w: "emits_hex (wseq (map (\<lambda>j. write_hex (buf ! j)) [pos..<pos + WordSize])) pos ?word"
    using emits_hex_bytes [OF Suc.prems(2)] Suc.prems(1) by (subst map_nth_range) simp_all
  have sp: "emits_hex (if n \<noteq> 0 then Write '' '' else ret ()) (pos + WordSize) []"
    using Suc.prems emits_hex_blank emits_hex_ret by simp
  have "emits_hex (write_words buf (pos + WordSize) n) (pos + WordSize)
      (take (n * WordSize) (drop (pos + WordSize) buf))"
    using Suc.prems by (intro Suc.IH) simp_all
  then have "emits_hex (sseq (if n \<noteq> 0 then Write '' '' else ret ()) (write_words buf (pos + WordSize) n))
      (pos + WordSize) (take (n * WordSize) (drop (pos + WordSize) buf))"
    using emits_hex_sseq [OF sp] by simp
  then have "emits_hex (sseq (wseq (map (\<lambda>j. write_hex (buf ! j)) [pos..<pos + WordSize]))
      (sseq (if n \<noteq> 0 then Write '' '' else ret ()) (write_words buf (pos + WordSize) n))) pos
      (?word @ take (n * WordSize) (drop (pos + WordSize) buf))"
    using emits_hex_sseq [OF w] len by simp
  moreover have "?word @ take (n * WordSize) (drop (pos + WordSize) buf) =
      take (Suc n * WordSize) (drop pos buf)"
    by (simp add: take_add add.commute)
  ultimately show ?case by (simp add: sseq_def)
qed

lemma emits_hex_frag:
  assumes "pos + len \<le> length buf" and "pos mod WordSize = 0"
  shows "emits_hex (WriteByteBufFrag buf pos len) pos (take len (drop pos buf))"
proof -
  let ?w = "len div WordSize * WordSize"
  let ?tail = "take (len - ?w) (drop (pos + ?w) buf)"
  have le: "?w \<le> len" by simp
  have a: "emits_hex (write_words buf pos (len div WordSize)) pos (take ?w (drop pos buf))"
    using assms le by (intro emits_hex_words) linarith+
  have "map (\<lambda>j. write_hex (buf ! j)) [pos + ?w..<pos + len] = map write_hex ?tail"
    using map_nth_range [of "pos + ?w" "len - ?w" buf write_hex] assms le by simp
  moreover have "(pos + ?w) mod WordSize = 0" using assms(2) by simp
  ultimately have b: "emits_hex (wseq (map (\<lambda>j. write_hex (buf ! j)) [pos + ?w..<pos + len])) (pos + ?w) ?tail"
    using emits_hex_bytes by simp
  have "?w \<le> length buf - pos" using assms(1) le by linarith
  then have "length (take ?w (drop pos buf)) = ?w" by simp
  then have "emits_hex (sseq (write_words buf pos (len div WordSize))
      (wseq (map (\<lambda>j. write_hex (buf ! j)) [pos + ?w..<pos + len]))) pos (take ?w (drop pos buf) @ ?tail)"
    using emits_hex_sseq [OF a] b by simp
  moreover have "take ?w (drop pos buf) @ ?tail = take len (drop pos buf)"
    using le by (metis drop_drop le_add_diff_inverse take_add add.commute)
  moreover have "WriteByteBufFrag buf pos len = sseq (write_words buf pos (len div WordSize))
      (wseq (map (\<lambda>j. write_hex (buf ! j)) [pos + ?w..<pos + len]))"
    using assms by (simp add: WriteByteBufFrag_def fun_eq_iff sseq_def sbind_def sassert_app)
  ultimately show ?thesis by simp
qed

lemma sseq_ret_right: "sseq m (ret ()) = (m :: ('s, unit) sx)"
  using sbind_ret_right [of m] by (simp add: sseq_def)

lemma emits_hex_rows:
  "m * BytesPerLine \<le> length buf \<Longrightarrow>
   emits_hex (wseq (map (\<lambda>row. wseq [WriteByteBufFrag buf (row * BytesPerLine) BytesPerLine,
     (if brk then WriteLine '''' else ret ())]) [0..<m])) 0 (take (m * BytesPerLine) buf)"
proof (induction m)
  case 0
  then show ?case by (simp add: emits_hex_ret)
next
  case (Suc m)
  let ?row = "\<lambda>row. wseq [WriteByteBufFrag buf (row * BytesPerLine) BytesPerLine,
     (if brk then WriteLine '''' else ret ())]"
  have dvd: "(k * BytesPerLine) mod WordSize = 0" for k by (simp add: BytesPerLine_def WordSize_def mod_mult_left_eq mult.commute)
  have a: "emits_hex (wseq (map ?row [0..<m])) 0 (take (m * BytesPerLine) buf)"
    using Suc by simp
  have len: "length (take (m * BytesPerLine) buf) = m * BytesPerLine" using Suc.prems by simp
  let ?r = "take BytesPerLine (drop (m * BytesPerLine) buf)"
  have lr: "m * BytesPerLine + length ?r = Suc m * BytesPerLine" using Suc.prems by simp
  have b: "emits_hex (WriteByteBufFrag buf (m * BytesPerLine) BytesPerLine) (m * BytesPerLine) ?r"
    using Suc.prems dvd by (intro emits_hex_frag) simp_all
  have "emits_hex (if brk then WriteLine '''' else ret ()) (Suc m * BytesPerLine) []"
    using emits_hex_blank(2) emits_hex_ret dvd [of "Suc m"] by auto
  then have "emits_hex (?row m) (m * BytesPerLine) ?r"
    using emits_hex_sseq [OF b, of "if brk then WriteLine '''' else ret ()" "[]"]
    unfolding lr wseq.simps sseq_ret_right append_Nil2 by blast
  then have "emits_hex (sseq (wseq (map ?row [0..<m])) (wseq [?row m])) 0 (take (m * BytesPerLine) buf @ ?r)"
    using emits_hex_sseq [OF a, of "?row m" ?r] unfolding len add_0 wseq.simps sseq_ret_right by blast
  moreover have "take (m * BytesPerLine) buf @ ?r = take (Suc m * BytesPerLine) buf"
    by (simp only: mult_Suc add.commute [of BytesPerLine] take_add)
  ultimately show ?case by (simp only: upt_Suc_append map_append list.map wseq_append le0)
qed

text \<open>The whole buffer.\<close>

definition write_hex_buf :: "bool \<Rightarrow> ByteVec \<Rightarrow> unit ser" where
  "write_hex_buf brk buf = wseq
     [wseq (map (\<lambda>row. wseq [WriteByteBufFrag buf (row * BytesPerLine) BytesPerLine,
        (if brk then WriteLine '''' else ret ())]) [0..<length buf div BytesPerLine]),
      WriteByteBufFrag buf (length buf div BytesPerLine * BytesPerLine) (length buf mod BytesPerLine)]"

lemma emits_hex_buf: "emits_hex (write_hex_buf brk buf) 0 buf"
proof -
  let ?m = "length buf div BytesPerLine"
  have m: "?m * BytesPerLine \<le> length buf" by simp
  have dvd: "(?m * BytesPerLine) mod WordSize = 0" by (simp add: BytesPerLine_def WordSize_def mod_mult_left_eq mult.commute)
  have "emits_hex (WriteByteBufFrag buf (?m * BytesPerLine) (length buf mod BytesPerLine)) (?m * BytesPerLine)
      (take (length buf mod BytesPerLine) (drop (?m * BytesPerLine) buf))"
    using dvd by (intro emits_hex_frag) simp_all
  moreover have "take (length buf mod BytesPerLine) (drop (?m * BytesPerLine) buf) = drop (?m * BytesPerLine) buf"
    by (simp add: minus_div_mult_eq_mod)
  moreover have "0 + length (take (?m * BytesPerLine) buf) = ?m * BytesPerLine" using m by simp
  ultimately have tl: "emits_hex (WriteByteBufFrag buf (?m * BytesPerLine) (length buf mod BytesPerLine))
      (0 + length (take (?m * BytesPerLine) buf)) (drop (?m * BytesPerLine) buf)"
    by (simp only:)
  have "emits_hex (sseq (wseq (map (\<lambda>row. wseq [WriteByteBufFrag buf (row * BytesPerLine) BytesPerLine,
        (if brk then WriteLine '''' else ret ())]) [0..<?m]))
      (WriteByteBufFrag buf (?m * BytesPerLine) (length buf mod BytesPerLine))) 0
      (take (?m * BytesPerLine) buf @ drop (?m * BytesPerLine) buf)"
    by (rule emits_hex_sseq [OF emits_hex_rows [OF m, of brk] tl])
  then show ?thesis
    by (simp only: write_hex_buf_def append_take_drop_id wseq.simps sseq_ret_right)
qed

text \<open>Reading the bytes.\<close>

lemma read_hex_byte_reads:
  assumes "rest_of t = hex2 b @ zs"
  shows "read_hex_byte t = (Ok b, skip 2 t)"
proof -
  have "take 2 (rest_of t) = hex2 b" using assms hex2_props(1) [of b] by simp
  moreover have "ts_pos t \<le> length (ts_buf t)"
  proof (rule ccontr)
    assume "\<not> ts_pos t \<le> length (ts_buf t)"
    then have "rest_of t = ''''" by (simp add: rest_of_def)
    then show False using assms hex2_props(1) [of b] by simp
  qed
  ultimately show ?thesis
    using hex2_props(2) by (simp add: read_hex_byte_def rest_of_def Let_def skip_def)
qed

lemma read_hex_bytes_reads:
  "hexrun i bs tx \<Longrightarrow> rest_of t = tx @ rest \<Longrightarrow>
   \<exists>n ws. read_hex_bytes [i..<i + length bs] t = (Ok bs, skip n t) \<and> blanks ws \<and> rest_of (skip n t) = ws @ rest"
proof (induction bs arbitrary: i tx t)
  case Nil
  then show ?case by (auto simp: ret_app intro!: exI [of _ 0] exI [of _ tx])
next
  case (Cons b bs)
  obtain ws tx' where tx: "tx = ws @ hex2 b @ tx'" "blanks ws" "ws = '''' \<or> i mod WordSize = 0"
      "hexrun (Suc i) bs tx'"
    using Cons.prems(1) by auto
  obtain d ds where d: "hex2 b = d # ds" "is_hex d" using hex2_props [of b] by (cases "hex2 b") auto
  then have nb: "\<not> is_blank d" by (auto simp: is_hex_def is_blank_def)
  have r: "rest_of t = ws @ hex2 b @ tx' @ rest" using Cons.prems(2) tx by simp
  have 1: "(if i mod WordSize = 0 then SkipSpace else ret ()) t = (Ok (), skip (length ws) t)"
    using SkipSpace_blanks [of t ws d "ds @ tx' @ rest"] r d nb tx by (auto simp: ret_app)
  have r1: "rest_of (skip (length ws) t) = hex2 b @ tx' @ rest"
    by (rule rest_of_step [of 0 _ ws]) (use r in simp_all)
  have 2: "read_hex_byte (skip (length ws) t) = (Ok b, skip 2 (skip (length ws) t))"
    by (rule read_hex_byte_reads [OF r1])
  let ?t = "skip 2 (skip (length ws) t)"
  have r2: "rest_of ?t = tx' @ rest"
    using r1 hex2_props(1) [of b] by (simp del: skip_skip)
  obtain n ws' where 3: "read_hex_bytes [Suc i..<Suc i + length bs] ?t = (Ok bs, skip n ?t)" "blanks ws'"
      "rest_of (skip n ?t) = ws' @ rest"
    using Cons.IH [OF tx(4) r2] by blast
  have "[i..<i + length (b # bs)] = i # [Suc i..<Suc i + length bs]" by (subst upt_conv_Cons) simp_all
  then have "read_hex_bytes [i..<i + length (b # bs)] t = (Ok (b # bs), skip n ?t)"
    using 1 2 3(1) by (simp add: sseq_def sbind_def ret_app del: skip_skip)
  then show ?case using 3 by (intro exI [of _ "length ws + 2 + n"] exI [of _ ws']) (simp add: add.assoc)
qed

lemma hexrun_chars: "hexrun i bs tx \<Longrightarrow> list_all (\<lambda>c. is_blank c \<or> is_hex c) tx"
proof (induction bs arbitrary: i tx)
  case (Cons b bs)
  then obtain ws tx' where "tx = ws @ hex2 b @ tx'" "blanks ws" "hexrun (Suc i) bs tx'" by auto
  then show ?case using Cons.IH hex2_props(3) [of b] by (fastforce simp: list_all_iff)
qed (simp add: list_all_iff)

text \<open>What a bracketed entry of \<open>carries_array\<close> needs.\<close>

definition array_text :: "text_class \<Rightarrow> (string \<Rightarrow> bool) \<Rightarrow> unit ser \<Rightarrow> 'a ser \<Rightarrow> 'a \<Rightarrow> TextSerializer \<Rightarrow> bool" where
  "array_text c p W R v s \<longleftrightarrow>
     (\<exists>ws tx s'. W s = (Ok (), s') \<and> writer_ok c p s' \<and> ts_buf s' = ts_buf s @ ws @ tx \<and>
        ts_indent s' = ts_indent s \<and> ts_commaExpected s' \<and> blanks ws \<and> tx \<noteq> '''' \<and> \<not> is_blank (hd tx) \<and>
        (\<forall>t rest. reader_ok c p t \<longrightarrow> \<not> ts_commaExpected t \<longrightarrow> rest_of t = tx @ rest \<longrightarrow>
           leaf (ts_valType t) \<longrightarrow>
           (\<exists>t'. R t = (Ok v, t') \<and> reader_ok c p t' \<and> rest_of t' = rest \<and> ts_commaExpected t' \<and>
              leaf (ts_valType t'))))"

lemma json_buf_text:
  assumes s: "writer_ok JsonSerializer p s" "\<not> ts_newLine s" "\<not> ts_commaExpected s"
  shows "array_text JsonSerializer p
    (wseq [BeginWriteArr False, wseq (map (\<lambda>b. WriteNum (ucast b)) buf), EndWriteArr False])
    (sseq BeginReadArr (sbind (read_byte_nums (length buf)) (\<lambda>buf. sseq EndReadArr (ret buf)))) buf s"
proof -
  let ?R = "sseq BeginReadArr (sbind (read_byte_nums (length buf)) (\<lambda>buf. sseq EndReadArr (ret buf)))"
  let ?W = "wseq [BeginWriteArr False, wseq (map (\<lambda>b. WriteNum (ucast b)) buf), EndWriteArr False]"
  obtain tx s' where tx: "?W s = (Ok (), s')" "writer_ok JsonSerializer p s'" "ts_buf s' = ts_buf s @ ''['' @ tx"
      "ts_indent s' = ts_indent s" "ts_commaExpected s'"
    and rd: "\<And>t rest i j. reader_ok JsonSerializer p t \<Longrightarrow> \<not> ts_commaExpected t \<Longrightarrow>
       rest_of t = ''['' @ tx @ rest \<Longrightarrow> leaf (ts_valType t) \<Longrightarrow>
       \<exists>t1 t2 t3. BeginReadArr t = (Ok (), t1) \<and> reader_ok JsonSerializer p t1 \<and>
          read_byte_nums (length buf) (t1\<lparr>ts_indent := i\<rparr>) = (Ok buf, t2) \<and>
          EndReadArr (t2\<lparr>ts_indent := j\<rparr>) = (Ok (), t3) \<and> reader_ok JsonSerializer p t3 \<and> rest_of t3 = rest \<and>
          ts_commaExpected t3 \<and> leaf (ts_valType t3)"
    using bracketed [OF carries_byte_nums s, of False buf] by blast
  have "\<exists>t'. ?R t = (Ok buf, t') \<and> reader_ok JsonSerializer p t' \<and> rest_of t' = rest \<and> ts_commaExpected t' \<and>
        leaf (ts_valType t')"
    if t: "reader_ok JsonSerializer p t" "\<not> ts_commaExpected t" "rest_of t = ''['' @ tx @ rest" "leaf (ts_valType t)"
    for t rest
  proof -
    obtain t1 where t1: "BeginReadArr t = (Ok (), t1)" using rd [OF t] by blast
    obtain t2 where t2: "read_byte_nums (length buf) t1 = (Ok buf, t2)"
      using rd [OF t, of "ts_indent t1"] t1 by auto
    obtain t3 where "EndReadArr t2 = (Ok (), t3)" "reader_ok JsonSerializer p t3" "rest_of t3 = rest"
        "ts_commaExpected t3" "leaf (ts_valType t3)"
      using rd [OF t, of "ts_indent t1" "ts_indent t2"] t1 t2 by auto
    then show ?thesis using t1 t2 by (simp add: sseq_def sbind_def sx_simps)
  qed
  then show ?thesis
    using tx unfolding array_text_def
    by (intro exI [of _ "''''"] exI [of _ "''['' @ tx"] exI [of _ s']) (simp add: is_blank_def)
qed

lemma carries_json_buf:
  assumes "word_ok n" and "word_ok ty" and "word_ok sn" and "word_ok st" and "leaf (Lit ty)"
    and "length buf < 2 ^ 64"
  shows "carries JsonSerializer True (withN n ty sn st (JsonSerializer_writeSizedByteBuf buf))
    (withN n ty sn st JsonSerializer_readSizedByteBuf) buf"
proof -
  let ?W = "wseq [BeginWriteArr False, wseq (map (\<lambda>b. WriteNum (ucast b)) buf), EndWriteArr False]"
  let ?R = "\<lambda>k. sseq BeginReadArr (sbind (read_byte_nums k) (\<lambda>buf. sseq EndReadArr (ret buf)))"
  have "carries JsonSerializer True
      (withN n ty sn st (sseq (wseq [WriteArrSize (length buf), BeginWriteNamedEntry False]) ?W))
      (withN n ty sn st (sbind ReadArrSize (\<lambda>k. sseq BeginReadNamedEntry (?R k)))) buf"
    using assms json_buf_text [of _ _ buf] unfolding array_text_def by (intro carries_array) blast+
  moreover have "JsonSerializer_writeSizedByteBuf buf =
      sseq (wseq [WriteArrSize (length buf), BeginWriteNamedEntry False]) ?W"
    by (simp add: JsonSerializer_writeSizedByteBuf_def sseq_def sbind_assoc)
  moreover have "JsonSerializer_readSizedByteBuf = sbind ReadArrSize (\<lambda>k. sseq BeginReadNamedEntry (?R k))"
    by (simp add: JsonSerializer_readSizedByteBuf_def sseq_def sbind_assoc)
  ultimately show ?thesis by simp
qed

text \<open>The reader of a plain buffer behind the opening bracket.\<close>

definition read_plain_buf :: "nat \<Rightarrow> ByteVec ser" where
  "read_plain_buf k = sbind getS (\<lambda>s.
     let pos = find_from (\<lambda>c. c = CHR ''.'' \<or> c = CHR '']'') (ts_pos s) (ts_buf s)
     in if (case pos of Some p \<Rightarrow> ts_buf s ! p = CHR ''.'' | None \<Rightarrow> False)
        then sseq (wseq
          [sassert (prefix ''...'' (drop (the pos) (ts_buf s))),
           Find (CHR '']''),
           modifyS (\<lambda>s. s\<lparr>ts_pos := Suc (ts_pos s)\<rparr>)]) (ret (replicate k 0))
        else sbind (read_hex_bytes [0..<k]) (\<lambda>buf. sseq EndReadArr (ret buf)))"

lemma read_plain_buf_reads:
  assumes hex: "hexrun 0 buf tx" and gap: "blanks gap" and r: "rest_of t = tx @ gap @ '']'' @ rest"
  shows "\<exists>n. read_plain_buf (length buf) t = (Ok buf, (skip n t)\<lparr>ts_commaExpected := True\<rparr>) \<and>
    rest_of (skip n t) = rest"
proof -
  have no: "\<not> (y = CHR ''.'' \<or> y = CHR '']'')" if "y \<in> set (tx @ gap)" for y
  proof -
    have "is_blank y \<or> is_hex y"
      using that hexrun_chars [OF hex] gap by (auto simp only: list_all_iff set_append)
    then show ?thesis by (auto simp add: is_blank_def is_hex_def)
  qed
  have dr: "drop (ts_pos t) (ts_buf t) = (tx @ gap) @ CHR '']'' # rest" using r by (simp add: rest_of_def)
  have pos: "find_from (\<lambda>c. c = CHR ''.'' \<or> c = CHR '']'') (ts_pos t) (ts_buf t) =
      Some (ts_pos t + length (tx @ gap))"
    by (rule find_from_split [OF dr _ no]) simp_all
  have "drop (length (tx @ gap)) (drop (ts_pos t) (ts_buf t)) = CHR '']'' # rest" unfolding dr by simp
  then have "drop (ts_pos t + length (tx @ gap)) (ts_buf t) = CHR '']'' # rest"
    by (simp only: drop_drop add.commute)
  then have at: "ts_buf t ! (ts_pos t + length (tx @ gap)) = CHR '']''" by (rule nth_via_drop)
  obtain n ws where n: "read_hex_bytes [0..<length buf] t = (Ok buf, skip n t)" "blanks ws"
      "rest_of (skip n t) = ws @ gap @ '']'' @ rest"
    using read_hex_bytes_reads [OF hex r] by auto
  have e: "EndReadArr (skip n t) = (Ok (), (skip (length (ws @ gap) + 1) (skip n t))\<lparr>ts_commaExpected := True\<rparr>)"
    by (rule EndReadArr_reads) (use n gap in simp_all)
  have "rest_of (skip (length (ws @ gap) + 1) (skip n t)) = rest"
    by (rule rest_of_step [of 0 "skip n t" "(ws @ gap) @ '']''"]) (use n in \<open>simp_all del: skip_skip\<close>)
  then show ?thesis
    using pos at n(1) e
    by (intro exI [of _ "n + (length (ws @ gap) + 1)"])
      (simp add: read_plain_buf_def sbind_def sseq_def sx_simps Let_def)
qed

text \<open>The text of a buffer, with its brackets, in each of the three layouts that keep all its bytes.\<close>

lemma plain_buf_text:
  assumes s: "writer_ok PlainTextSerializer p s" "\<not> ts_newLine s" "\<not> ts_commaExpected s"
  obtains ws tx gap s' where
    "wseq [(if own then wseq [WriteLine '''', TabIn] else ret ()), BeginWriteArr brk, write_hex_buf brk buf,
       EndWriteArr brk, (if own then TabOut else ret ())] s = (Ok (), s')"
    and "writer_ok PlainTextSerializer p s'" and "ts_buf s' = ts_buf s @ ws @ ''['' @ tx @ gap @ '']''"
    and "ts_indent s' = ts_indent s" and "ts_commaExpected s'" and "blanks ws" and "hexrun 0 buf tx" and "blanks gap"
proof -
  define s1 where "s1 = (if own then s\<lparr>ts_buf := ts_buf s @ eol, ts_newLine := True, ts_indent := ts_indent s + 4\<rparr>
    else s)"
  have in0: "0 \<le> ts_indent s" using s by (simp add: writer_ok_def)
  have 1: "(if own then wseq [WriteLine '''', TabIn] else ret ()) s = (Ok (), s1)"
    using s in0 by (cases own) (simp_all add: s1_def sseq_def sbind_def sx_simps WriteLine_def Write_emits
        TabIn_def TabSize_def ind_def)
  have ok1: "writer_ok PlainTextSerializer p s1" "\<not> ts_commaExpected s1" "0 \<le> ts_indent s1"
    using s in0 by (simp_all add: s1_def writer_ok_def)
  define s2 where "s2 = s1\<lparr>ts_buf := ts_buf s1 @ ind s1 @ ''['' @ (if brk then eol else ''''), ts_newLine := brk,
    ts_indent := (if brk then ts_indent s1 + 4 else ts_indent s1), ts_commaExpected := False\<rparr>"
  have wc: "WriteComma True s1 = (Ok (), s1)"
    using ok1 by (simp add: WriteComma_def virt_def TextSerializer_WriteComma_def
        PlainTextSerializer_WriteComma_def writer_ok_def)
  have 2: "BeginWriteArr brk s1 = (Ok (), s2)"
    using ok1 wc by (cases brk) (simp_all add: BeginWriteArr_def sseq_def sbind_def sx_simps WriteLine_def
        Write_emits TabIn_def TabSize_def expectComma_def s2_def writer_ok_def)
  have in2: "0 \<le> ts_indent s2" using ok1 by (simp add: s2_def)
  obtain hx nl where 3: "write_hex_buf brk buf s2 = (Ok (), s2\<lparr>ts_buf := ts_buf s2 @ hx, ts_newLine := nl\<rparr>)"
      "hexpart 0 buf hx"
    using emits_hexE [OF emits_hex_buf in2] by blast
  define s3 where "s3 = s2\<lparr>ts_buf := ts_buf s2 @ hx, ts_newLine := nl\<rparr>"
  define gap where "gap = (if brk then (if nl then '''' else eol) @ spaces s1 else ind s3)"
  define s4 where "s4 = s3\<lparr>ts_buf := ts_buf s3 @ gap @ '']'', ts_newLine := False, ts_indent := ts_indent s1,
    ts_commaExpected := True\<rparr>"
  have 4: "EndWriteArr brk s3 = (Ok (), s4)"
    using ok1 by (cases brk; cases nl) (simp_all add: EndWriteArr_def sseq_def sbind_def sx_simps
        WriteLine_def Write_emits Write_eol_again TabOut_def TabSize_def expectComma_def s4_def s3_def gap_def
        ind_def s2_def writer_ok_def)
  define s5 where "s5 = s4\<lparr>ts_indent := ts_indent s\<rparr>"
  have 5: "(if own then TabOut else ret ()) s4 = (Ok (), s5)"
    by (cases own) (simp_all add: TabOut_def TabSize_def sx_simps s5_def s4_def s1_def)
  have w: "wseq [(if own then wseq [WriteLine '''', TabIn] else ret ()), BeginWriteArr brk, write_hex_buf brk buf,
       EndWriteArr brk, (if own then TabOut else ret ())] s = (Ok (), s5)"
    using 1 2 3(1) 4 5 by (simp add: sseq_def sbind_def sx_simps s3_def split del: if_split)
  have "hexrun 0 buf hx"
    using 3(2) [unfolded hexpart_def, rule_format, of "[]" "''''"] by simp
  then have hx: "hexrun 0 buf ((if brk then eol else '''') @ hx)" by (intro hexrun_blanks) simp_all
  show ?thesis
  proof (rule that [OF w _ _ _ _ _ hx])
    show "writer_ok PlainTextSerializer p s5"
      using s by (simp add: writer_ok_def s5_def s4_def s3_def s2_def s1_def)
    show "ts_buf s5 = ts_buf s @ ((if own then eol else '''') @ ind s1) @ ''['' @
        ((if brk then eol else '''') @ hx) @ gap @ '']''"
      by (simp add: s5_def s4_def s3_def s2_def) (simp add: s1_def)
    show "blanks ((if own then eol else '''') @ ind s1)" by simp
    show "blanks gap" by (simp add: gap_def)
  qed (simp_all add: s5_def s4_def)
qed

lemma plain_buf_array:
  assumes s: "writer_ok PlainTextSerializer p s" "\<not> ts_newLine s" "\<not> ts_commaExpected s"
  shows "array_text PlainTextSerializer p
    (wseq [(if own then wseq [WriteLine '''', TabIn] else ret ()), BeginWriteArr brk, write_hex_buf brk buf,
       EndWriteArr brk, (if own then TabOut else ret ())])
    (sseq BeginReadArr (read_plain_buf (length buf))) buf s"
proof -
  obtain ws tx gap s' where w:
    "wseq [(if own then wseq [WriteLine '''', TabIn] else ret ()), BeginWriteArr brk, write_hex_buf brk buf,
       EndWriteArr brk, (if own then TabOut else ret ())] s = (Ok (), s')"
    "writer_ok PlainTextSerializer p s'" "ts_buf s' = ts_buf s @ ws @ ''['' @ tx @ gap @ '']''"
    "ts_indent s' = ts_indent s" "ts_commaExpected s'" "blanks ws" "hexrun 0 buf tx" "blanks gap"
    using plain_buf_text [OF s] by metis
  have "\<exists>t'. sseq BeginReadArr (read_plain_buf (length buf)) t = (Ok buf, t') \<and> reader_ok PlainTextSerializer p t' \<and>
      rest_of t' = rest \<and> ts_commaExpected t' \<and> leaf (ts_valType t')"
    if t: "reader_ok PlainTextSerializer p t" "\<not> ts_commaExpected t" "leaf (ts_valType t)"
      and r: "rest_of t = ''['' @ (tx @ gap @ '']'') @ rest"
    for t rest
  proof -
    let ?t1 = "(skip 1 t)\<lparr>ts_commaExpected := False\<rparr>"
    have 1: "BeginReadArr t = (Ok (), ?t1)" by (rule BeginReadArr_reads [OF t(1,2) r])
    have "rest_of ?t1 = tx @ gap @ '']'' @ rest" using r by simp
    then obtain n where "read_plain_buf (length buf) ?t1 = (Ok buf, (skip n ?t1)\<lparr>ts_commaExpected := True\<rparr>)"
        "rest_of (skip n ?t1) = rest"
      using read_plain_buf_reads [OF w(7,8)] by blast
    then show ?thesis
      using 1 t by (simp add: sseq_def sbind_def reader_ok_def)
  qed
  then show ?thesis
    unfolding array_text_def using w
    by (intro exI [of _ ws] exI [of _ "''['' @ tx @ gap @ '']''"] exI [of _ s']) (simp add: is_blank_def)
qed

lemma carries_plain_buf:
  assumes "word_ok n" and "word_ok ty" and "word_ok sn" and "word_ok st" and "leaf (Lit ty)"
    and "length buf < 2 ^ 64"
  shows "carries PlainTextSerializer True (withN n ty sn st (PlainTextSerializer_writeSizedByteBuf buf))
    (withN n ty sn st PlainTextSerializer_readSizedByteBuf) buf"
proof -
  let ?V = "\<lambda>own brk. wseq [(if own then wseq [WriteLine '''', TabIn] else ret ()), BeginWriteArr brk,
    write_hex_buf brk buf, EndWriteArr brk, (if own then TabOut else ret ())]"
  let ?W = "sbind getS (\<lambda>s.
       let layout = buf_layout_of buf s;
           fullRows = length buf div BytesPerLine
       in wseq
         [(if layout = own_line then wseq [WriteLine '''', TabIn] else ret ()),
          BeginWriteArr (layout = indented),
          (if layout = abbreviated then wseq
             [WriteByteBufFrag buf 0 (BytesPerLine div 2),
              Write '' ... '',
              WriteByteBufFrag buf (length buf - BytesPerLine div 2) (BytesPerLine div 2)]
           else wseq
             [wseq (map (\<lambda>row. wseq
                [WriteByteBufFrag buf (row * BytesPerLine) BytesPerLine,
                 (if layout = indented then WriteLine '''' else ret ())]) [0..<fullRows]),
              WriteByteBufFrag buf (fullRows * BytesPerLine) (length buf mod BytesPerLine)]),
          EndWriteArr (layout = indented),
          (if layout = own_line then TabOut else ret ())])"
  let ?R = "\<lambda>k. sseq BeginReadArr (read_plain_buf k)"
  have lay: "buf_layout_of buf s \<noteq> abbreviated" if "writer_ok PlainTextSerializer p s" for p s
    using that by (simp add: buf_layout_of_def Let_def writer_ok_def)
  have eq: "?W s = ?V (buf_layout_of buf s = own_line) (buf_layout_of buf s = indented) s"
    if "writer_ok PlainTextSerializer p s" for p s
    using lay [OF that] unfolding write_hex_buf_def by (simp only: Let_def sbind_def getS_app prod.case outcome.case if_False)
  have W: "array_text PlainTextSerializer p ?W (?R (length buf)) buf s"
    if "writer_ok PlainTextSerializer p s" "\<not> ts_newLine s" "\<not> ts_commaExpected s" for p s
    using plain_buf_array [OF that, of "buf_layout_of buf s = own_line" "buf_layout_of buf s = indented" buf]
    unfolding array_text_def eq [OF that(1)] .
  have "carries PlainTextSerializer True
      (withN n ty sn st (sseq (wseq [WriteArrSize (length buf), BeginWriteNamedEntry False]) ?W))
      (withN n ty sn st (sbind ReadArrSize (\<lambda>k. sseq BeginReadNamedEntry (?R k)))) buf"
    using assms W unfolding array_text_def by (intro carries_array) blast+
  moreover have "PlainTextSerializer_readSizedByteBuf = sbind ReadArrSize (\<lambda>k. sseq BeginReadNamedEntry (?R k))"
    by (simp add: PlainTextSerializer_readSizedByteBuf_def read_plain_buf_def sseq_def sbind_assoc)
  ultimately show ?thesis by (simp only: PlainTextSerializer_writeSizedByteBuf_def)
qed

lemma withN_virt: "withN n ty sn st (virt a b) = virt (withN n ty sn st a) (withN n ty sn st b)"
  by (simp add: fun_eq_iff withN_def sseq_def sbind_def ser_with_def modifyS_app virt_def split: text_class.splits)

lemma carries_virt:
  "(c = JsonSerializer \<Longrightarrow> carries c f w1 r1 v) \<Longrightarrow> (c = PlainTextSerializer \<Longrightarrow> carries c f w2 r2 v) \<Longrightarrow>
   carries c f (virt w1 w2) (virt r1 r2) v"
  by (cases c) (auto simp: carries_def reads_back_def virt_def writer_ok_def reader_ok_def)

lemma carries_writeSizedByteBuf [carries_intros]:
  "word_ok n \<Longrightarrow> word_ok ty \<Longrightarrow> word_ok sn \<Longrightarrow> word_ok st \<Longrightarrow> leaf (Lit ty) \<Longrightarrow> length buf < 2 ^ 64 \<Longrightarrow>
   carries c True (withN n ty sn st (ser_writeSizedByteBuf buf)) (withN n ty sn st ser_readSizedByteBuf) buf"
  unfolding ser_writeSizedByteBuf_def ser_readSizedByteBuf_def withN_virt
  by (intro carries_virt) (simp_all add: carries_json_buf carries_plain_buf)

section \<open>Whole texts\<close>

text \<open>
  An object that is written with nothing around it, and read from the text as \<open>TpmStructure::Serialize\<close>
  and \<open>TpmStructure::Deserialize\<close> do it.
\<close>

lemma TpmStructure_text_round_trip:
  assumes body: "carries c b ser deser v" and tn: "word_ok tn"
  shows "\<exists>str. TpmStructure_Serialize p c tn ser = Ok str \<and> TpmStructure_Deserialize p c str tn deser = Ok v"
proof -
  define s0 where "s0 = (case c of JsonSerializer \<Rightarrow> new_JsonSerializer p
    | PlainTextSerializer \<Rightarrow> new_PlainTextSerializer p True DefaultMaxLineLen)"
  have s0: "ts_class s0 = c" "ts_pooled s0 = p" "ts_buf s0 = ''''" "ts_valName s0 = nstr" "ts_valType s0 = nstr"
    "ts_indent s0 = 0" "\<not> ts_commaExpected s0" "ts_newLine s0" "\<not> ts_useComma s0"
    "c = PlainTextSerializer \<longrightarrow> ts_precise s0"
    by (cases c; simp add: s0_def new_JsonSerializer_def new_PlainTextSerializer_def)+
  have ct: "comma_text s0 = ''''" using s0 by (cases c) (simp_all add: comma_text_def ind_def)
  have b0: "BeginWriteNamedEntry True s0 = (Ok (), s0)"
    using s0 by (cases c) (simp_all add: BeginWriteNamedEntry_def virt_def JsonSerializer_BeginWriteNamedEntry_def
        PlainTextSerializer_BeginWriteNamedEntry_def chars_def cstr_chars_def nstr_def expectComma_def
        sseq_def sbind_def sx_simps)
  have ns: "\<not> same_type tn s0" using s0 word_okD [OF tn] by (auto simp: same_type_def nstr_def)
  obtain tail s' where w: "WriteObj tn ser s0 = (Ok (), s')"
      "ts_buf s' = ts_buf s0 @ comma_text s0 @ obj_gap c (same_type tn s0) @ obj_name c (same_type tn s0) tn @ ''{'' @ tail"
    and rd: "\<And>t pre rest. reader_ok c p t \<Longrightarrow> pre_ok c (ts_commaExpected t) pre \<Longrightarrow>
      rest_of t = pre @ obj_name c (same_type tn s0) tn @ ''{'' @ tail @ rest \<Longrightarrow>
      (c = PlainTextSerializer \<Longrightarrow> same_type tn t = same_type tn s0) \<Longrightarrow> b \<or> leaf (ts_valType t) \<Longrightarrow>
      \<exists>t'. ReadObj tn deser t = (Ok v, t') \<and> reader_ok c p t' \<and> rest_of t' = rest \<and>
        ts_commaExpected t' \<and> leaf (ts_valType t')"
    by (rule WriteObj_carries [OF body tn, of s0 p]) (use s0 in simp_all)
  define out where "out = obj_name c False tn @ ''{'' @ tail"
  have W: "TpmStructure_Serialize p c tn ser = Ok out"
    using b0 w s0 ns ct by (simp add: TpmStructure_Serialize_def ser_Serialize_def ser_writeObj_def
        ser_getTextBuffer_def sseq_def sbind_def sx_simps out_def obj_gap_def flip: s0_def)
  define t0 where "t0 = (case c of JsonSerializer \<Rightarrow> json_reader p out | PlainTextSerializer \<Rightarrow> plain_reader p out)"
  have t0: "reader_ok c p t0" "ts_buf t0 = out" "ts_pos t0 = 0" "\<not> ts_commaExpected t0" "ts_valType t0 = nstr"
    "ts_valName t0 = nstr" "ts_class t0 = c"
    by (cases c; simp add: t0_def json_reader_def plain_reader_def new_JsonSerializer_def
        new_PlainTextSerializer_def reader_ok_def)+
  have r0: "rest_of t0 = '''' @ obj_name c False tn @ ''{'' @ tail" using t0 by (simp add: rest_of_def out_def)
  have b1: "BeginReadNamedEntry t0 = (Ok (), t0)"
  proof (cases c)
    case JsonSerializer
    then have "SkipSpace t0 = (Ok (), t0)" "cur_char t0 = (Ok (CHR ''{''), t0)"
      using SkipSpace_blanks [of t0 "''''" "CHR ''{''" tail] cur_char_rest [of t0 "CHR ''{''" tail] r0
      by (simp_all add: obj_name_def is_blank_def)
    then show ?thesis
      using JsonSerializer t0 by (simp add: BeginReadNamedEntry_def virt_def JsonSerializer_BeginReadNamedEntry_def
          sseq_def sbind_def sx_simps)
  next
    case PlainTextSerializer
    obtain d ds where d: "tn = d # ds" "\<not> is_blank d" using word_okD [OF tn] by metis
    have "SkipSpace t0 = (Ok (), t0)"
      using SkipSpace_blanks [of t0 "''''" d "ds @ '' {'' @ tail"] r0 d PlainTextSerializer by (simp add: obj_name_def)
    moreover have "find_from (\<lambda>c. c = CHR ''='' \<or> c = CHR ''{'') 0 out = Some (Suc (length tn))"
      using find_from_split [of 0 out "tn @ '' ''" "CHR ''{''" tail "\<lambda>c. c = CHR ''='' \<or> c = CHR ''{''"] tn
        PlainTextSerializer
      by (auto simp: out_def obj_name_def word_ok_def word_char_def list_all_iff)
    moreover have "out ! Suc (length tn) = CHR ''{''"
      using PlainTextSerializer by (simp add: out_def obj_name_def nth_append)
    ultimately show ?thesis
      using PlainTextSerializer t0
      by (simp add: BeginReadNamedEntry_def virt_def PlainTextSerializer_BeginReadNamedEntry_def chars_def
          cstr_chars_def nstr_def sseq_def sbind_def sx_simps)
  qed
  have pre: "pre_ok c (ts_commaExpected t0) ''''" using t0 by (cases c) (simp_all add: pre_ok_def)
  have same: "c = PlainTextSerializer \<Longrightarrow> same_type tn t0 = same_type tn s0"
    using t0 ns word_okD [OF tn] by (auto simp: same_type_def nstr_def)
  have lf: "b \<or> leaf (ts_valType t0)" using t0 by (simp add: leaf_def elem_types_def nstr_def)
  have r: "rest_of t0 = '''' @ obj_name c (same_type tn s0) tn @ ''{'' @ tail @ ''''" using r0 ns by simp
  obtain t' where "ReadObj tn deser t0 = (Ok v, t')" using rd [OF t0(1) pre r same lf] by blast
  then have "TpmStructure_Deserialize p c out tn deser = Ok v"
    using b1 by (simp add: TpmStructure_Deserialize_def ser_Deserialize_def ser_readObj_def sseq_def sbind_def
        flip: t0_def)
  then show ?thesis using W by blast
qed

end
