(* ===== verification/TextCodec.thy ===== *)
theory TextCodec
  imports SerializeLaws
begin

text \<open>
  The interface between the serializers and the structures. \<open>text_codec\<close> is what a structure's
  \<open>Serialize\<close> and \<open>Deserialize\<close> promise of each other, \<open>text_union\<close> the same for the members of a
  union together with its factory. What the clients need is proved once: the object as an entry of
  another, as the element of an array, and as a whole text. Every structure interprets its locale.
\<close>

section \<open>Enumerators of a given width\<close>

lemma carries_writeEnumT [carries_intros]:
  assumes "word_ok n" and "word_ok ty" and "leaf (Lit ty)" and "enum_ok c (ucast v) enumID"
    and "ucast (ucast v :: UINT32) = v"
  shows "carries c True (withN n ty sn st (ser_writeEnumT v enumID)) (withN n ty sn st (ser_readEnumT enumID)) v"
  unfolding ser_writeEnumT_def ser_readEnumT_def withN_sbind
  by (rule carries_map [OF carries_writeEnum32]) (use assms in simp_all)

lemma carries_writeEnumS [carries_intros]:
  assumes "word_ok n" and "word_ok ty" and "leaf (Lit ty)" and "enum_ok c (scast v) enumID"
    and "ucast (scast v :: UINT32) = v"
  shows "carries c True (withN n ty sn st (ser_writeEnumS v enumID)) (withN n ty sn st (ser_readEnumT enumID)) v"
  unfolding ser_writeEnumS_def ser_readEnumT_def withN_sbind
  by (rule carries_map [OF carries_writeEnum32]) (use assms in simp_all)

lemma scast_back [simp]: "(ucast (scast (a :: UINT8) :: UINT32) :: UINT8) = a"
  by (rule bit_word_eqI) (simp add: bit_simps)

section \<open>The body of a Serialize method\<close>

lemma carries_done: "v = x \<Longrightarrow> carries c False (wseq []) (ret v) x"
  using carries_ret by simp

lemma sbind_lift_Ok: "sbind (lift (Ok y)) k = k y"
  by (simp add: fun_eq_iff sbind_def lift_app)

lemma carries_entry_Cons:
  assumes "carries c True w (withN n ty sn st r) v" and "carries c False (wseq ws) (k v) x"
  shows "carries c b (wseq (w # ws)) (sbind (withN n ty sn st r) k) x"
proof -
  have "carries c True (wseq (w # ws)) (sbind (withN n ty sn st r) k) x"
    by (rule carries_Cons) (rule assms)+
  then show ?thesis using carries_mono by (cases b) auto
qed

lemma carries_member_Cons:
  "carries c False (if_set u w) (read_if_set y r) v \<Longrightarrow> carries c False (wseq ws) (k v) x \<Longrightarrow>
   carries c False (wseq (if_set u w # ws)) (sbind (read_if_set y r) k) x"
  by (rule carries_Cons)

lemma carries_nothing: "carries c False (ret ()) (ret v) v"
  using carries_ret by simp

lemma carries_member: "carries c True w r v \<Longrightarrow> carries c False w (sbind r (\<lambda>y. ret (f y))) (f v)"
  by (rule carries_mono, rule carries_map) simp_all

text \<open>An optional member, and the factory that prepares it.\<close>

fun if_set_ok :: "('u \<Rightarrow> bool) \<Rightarrow> 'u option \<Rightarrow> bool" where
  "if_set_ok ok None = True"
| "if_set_ok ok (Some x) = ok x"

lemma carries_if_set:
  assumes "\<And>y. u = Some y \<Longrightarrow> carries c b (w y) (r (fresh y)) y"
  shows "carries c False (if_set u w) (read_if_set (map_option fresh u) r) u"
proof (cases u)
  case None
  then show ?thesis using carries_ret [of c None] by (simp add: if_set_def read_if_set_def)
next
  case (Some y)
  then have "carries c b (w y) (r (fresh y)) y" using assms by blast
  then have "carries c b (w y) (sbind (r (fresh y)) (\<lambda>z. ret (Some z))) u"
    by (rule carries_map) (simp add: Some)
  then show ?thesis
    using carries_mono by (cases b) (simp_all add: Some if_set_def read_if_set_def)
qed

lemma carries_create:
  assumes "reset_or_create create s = lift (Ok y)" and "carries c b w (k y) x"
  shows "carries c b w (sbind (reset_or_create create s) k) x"
  unfolding assms(1) sbind_lift_Ok by (rule assms(2))

lemmas carries_body = carries_intros [THEN carries_entry_Cons] carries_done

lemmas word_simps = word_ok_def word_char_def leaf_def elem_types_def

section \<open>Structures\<close>

locale text_codec =
  fixes tn :: string and ser :: "'a \<Rightarrow> unit ser" and deser :: "'a \<Rightarrow> 'a ser" and dflt :: 'a
    and ok :: "text_class \<Rightarrow> 'a \<Rightarrow> bool"
  assumes name_ok: "word_ok tn"
    and carried: "ok c x \<Longrightarrow> carries c True (ser x) (deser dflt) x"
begin

lemma as_entry:
  "ok c x \<Longrightarrow> word_ok n \<Longrightarrow> word_ok ty \<Longrightarrow>
   carries c True (withN n ty sn st (ser_writeObj tn (ser x))) (withN n ty sn st (ser_readObj tn (deser dflt))) x"
  by (rule carries_writeObj [OF carried]) (simp_all add: name_ok)

lemma as_elements:
  "length xs < 2 ^ 64 \<and> (\<forall>x \<in> set xs. ok c x) \<Longrightarrow> \<not> leaf (Lit tn) \<Longrightarrow> word_ok n \<Longrightarrow> word_ok ty \<Longrightarrow>
   word_ok sn \<Longrightarrow> word_ok st \<Longrightarrow> leaf (Lit ty) \<Longrightarrow>
   carries c True (withN n ty sn st (ser_writeObjArr tn ser xs)) (withN n ty sn st (ser_readObjArr tn deser dflt [])) xs"
  by (rule carries_writeObjArr [where b = True]) (simp_all add: name_ok carried)

lemma text_round_trip:
  "ok c x \<Longrightarrow> \<exists>str. TpmStructure_Serialize p c tn (ser x) = Ok str \<and>
     TpmStructure_Deserialize p c str tn (deser dflt) = Ok x"
  by (rule TpmStructure_text_round_trip [OF carried name_ok])

end

section \<open>Unions\<close>

locale text_union =
  fixes tn :: "'u \<Rightarrow> string" and ser :: "'u \<Rightarrow> unit ser" and deser :: "'u \<Rightarrow> 'u ser" and fresh :: "'u \<Rightarrow> 'u"
    and sel :: "'u \<Rightarrow> 's::len word" and create :: "'s word \<Rightarrow> 'u option outcome"
    and ok :: "text_class \<Rightarrow> 'u \<Rightarrow> bool"
  assumes name_ok: "word_ok (tn u)" and fresh_name: "tn (fresh u) = tn u"
    and carried: "ok c u \<Longrightarrow> carries c False (ser u) (deser (fresh u)) u"
    and created: "ok c u \<Longrightarrow> sel u \<noteq> 0 \<and> create (sel u) = Ok (Some (fresh u))"
begin

lemma as_member:
  assumes "if_set_ok (ok c) u" and "word_ok n" and "word_ok ty" and "leaf (Lit ty)"
  shows "carries c False (if_set u (\<lambda>u. withN n ty sn st (ser_writeObj (tn u) (ser u))))
    (read_if_set (map_option fresh u) (\<lambda>u. withN n ty sn st (ser_readObj (tn u) (deser u)))) u"
proof (rule carries_if_set)
  fix y assume "u = Some y"
  then have "ok c y" using assms(1) by simp
  then show "carries c True (withN n ty sn st (ser_writeObj (tn y) (ser y)))
      (withN n ty sn st (ser_readObj (tn (fresh y)) (deser (fresh y)))) y"
    unfolding fresh_name by (rule carries_writeObj [OF carried]) (use assms name_ok in simp_all)
qed

lemma member_created:
  assumes "if_set_ok (ok c) u" and "u = None \<Longrightarrow> d = 0"
  shows "reset_or_create create (selector_or d sel u) = lift (Ok (map_option fresh u))"
proof (cases u)
  case None
  then show ?thesis
    using assms(2) by (simp add: reset_or_create_def selector_or_def fun_eq_iff lift_app ret_app)
next
  case (Some y)
  then show ?thesis
    using assms(1) created [of c y] by (simp add: reset_or_create_def selector_or_def)
qed

end

end
