(* ===== verification/TextBasicTypes.thy ===== *)
theory TextBasicTypes
  imports TextCodec TpmBasicTypes
begin

text \<open>
  \<^verbatim>\<open>TSS.CPP/Src/TpmTypes.cpp\<close>, the text form of the structures of theory \<open>TpmBasicTypes\<close>: \<open>X_Serialize\<close> and
  \<open>X_Deserialize\<close> of each class \<open>X\<close>, the values \<open>X_text_ok\<close> that a text of the given kind can carry, and
  the proof that the second method reads what the first one writes (the interpretation \<open>X_text\<close>).
  A class with an array of enumerators has no such interpretation: \<open>readEnumArr\<close> does not read it.
\<close>

subsection \<open>TPM_HANDLE\<close>

definition TPM_HANDLE_Serialize :: "TPM_HANDLE \<Rightarrow> unit ser" where
  "TPM_HANDLE_Serialize self = wseq
     [withN ''handle'' ''UINT32'' '''' '''' (ser_writeInt (TPM_HANDLE_handle self))]"

definition TPM_HANDLE_Deserialize :: "TPM_HANDLE \<Rightarrow> TPM_HANDLE ser" where
  "TPM_HANDLE_Deserialize self =
     sbind (withN ''handle'' ''UINT32'' '''' '''' ser_readInt) (\<lambda>handle.
     ret (self\<lparr>TPM_HANDLE_handle := handle\<rparr>))"

definition TPM_HANDLE_text_ok :: "text_class \<Rightarrow> TPM_HANDLE \<Rightarrow> bool" where
  "TPM_HANDLE_text_ok c x \<longleftrightarrow>
     TPM_HANDLE_AuthValue x = [] \<and>
     TPM_HANDLE_Name x = []"

interpretation TPM_HANDLE_text: text_codec "''TPM_HANDLE''" TPM_HANDLE_Serialize TPM_HANDLE_Deserialize TPM_HANDLE_default TPM_HANDLE_text_ok
proof
  show "word_ok ''TPM_HANDLE''" by (simp add: word_simps)
  fix c x assume ok: "TPM_HANDLE_text_ok c x"
  from ok show "carries c True (TPM_HANDLE_Serialize x) (TPM_HANDLE_Deserialize TPM_HANDLE_default) x"
    by (simp only: TPM_HANDLE_Serialize_def TPM_HANDLE_Deserialize_def TPM_HANDLE_default_def
       TPM_HANDLE.select_convs TPM_HANDLE.update_convs;
      intro carries_body;
      (rule TPM_HANDLE.equality)?; simp add: TPM_HANDLE_text_ok_def word_simps)
qed

subsection \<open>TPMS_ALGORITHM_DESCRIPTION\<close>

definition TPMS_ALGORITHM_DESCRIPTION_Serialize :: "TPMS_ALGORITHM_DESCRIPTION \<Rightarrow> unit ser" where
  "TPMS_ALGORITHM_DESCRIPTION_Serialize self = wseq
     [withN ''alg'' ''TPM_ALG_ID'' '''' '''' (ser_writeEnumT (TPMS_ALGORITHM_DESCRIPTION_alg self) TPM_ALG_ID_ID),
      withN ''attributes'' ''TPMA_ALGORITHM'' '''' '''' (ser_writeEnumT (TPMS_ALGORITHM_DESCRIPTION_attributes self) TPMA_ALGORITHM_ID)]"

definition TPMS_ALGORITHM_DESCRIPTION_Deserialize :: "TPMS_ALGORITHM_DESCRIPTION \<Rightarrow> TPMS_ALGORITHM_DESCRIPTION ser" where
  "TPMS_ALGORITHM_DESCRIPTION_Deserialize self =
     sbind (withN ''alg'' ''TPM_ALG_ID'' '''' '''' (ser_readEnumT TPM_ALG_ID_ID)) (\<lambda>alg.
     sbind (withN ''attributes'' ''TPMA_ALGORITHM'' '''' '''' (ser_readEnumT TPMA_ALGORITHM_ID)) (\<lambda>attributes.
     ret (self\<lparr>TPMS_ALGORITHM_DESCRIPTION_alg := alg, TPMS_ALGORITHM_DESCRIPTION_attributes := attributes\<rparr>)))"

definition TPMS_ALGORITHM_DESCRIPTION_text_ok :: "text_class \<Rightarrow> TPMS_ALGORITHM_DESCRIPTION \<Rightarrow> bool" where
  "TPMS_ALGORITHM_DESCRIPTION_text_ok c x \<longleftrightarrow>
     enum_ok c (ucast (TPMS_ALGORITHM_DESCRIPTION_alg x)) TPM_ALG_ID_ID \<and>
     enum_ok c (ucast (TPMS_ALGORITHM_DESCRIPTION_attributes x)) TPMA_ALGORITHM_ID"

interpretation TPMS_ALGORITHM_DESCRIPTION_text: text_codec "''TPMS_ALGORITHM_DESCRIPTION''" TPMS_ALGORITHM_DESCRIPTION_Serialize TPMS_ALGORITHM_DESCRIPTION_Deserialize TPMS_ALGORITHM_DESCRIPTION_default TPMS_ALGORITHM_DESCRIPTION_text_ok
proof
  show "word_ok ''TPMS_ALGORITHM_DESCRIPTION''" by (simp add: word_simps)
  fix c x assume ok: "TPMS_ALGORITHM_DESCRIPTION_text_ok c x"
  from ok show "carries c True (TPMS_ALGORITHM_DESCRIPTION_Serialize x) (TPMS_ALGORITHM_DESCRIPTION_Deserialize TPMS_ALGORITHM_DESCRIPTION_default) x"
    by (simp only: TPMS_ALGORITHM_DESCRIPTION_Serialize_def TPMS_ALGORITHM_DESCRIPTION_Deserialize_def TPMS_ALGORITHM_DESCRIPTION_default_def
       TPMS_ALGORITHM_DESCRIPTION.select_convs TPMS_ALGORITHM_DESCRIPTION.update_convs;
      intro carries_body;
      (rule TPMS_ALGORITHM_DESCRIPTION.equality)?; simp add: TPMS_ALGORITHM_DESCRIPTION_text_ok_def word_simps)
qed

subsection \<open>TPMT_HA\<close>

definition TPMT_HA_Serialize :: "TPMT_HA \<Rightarrow> unit ser" where
  "TPMT_HA_Serialize self = wseq
     [withN ''hashAlg'' ''TPM_ALG_ID'' '''' '''' (ser_writeEnumT (TPMT_HA_hashAlg self) TPM_ALG_ID_ID),
      withN ''digest'' ''BYTE[]'' ''hashAlg'' ''TPM_ALG_ID'' (ser_writeSizedByteBuf (TPMT_HA_digest self))]"

definition TPMT_HA_Deserialize :: "TPMT_HA \<Rightarrow> TPMT_HA ser" where
  "TPMT_HA_Deserialize self =
     sbind (withN ''hashAlg'' ''TPM_ALG_ID'' '''' '''' (ser_readEnumT TPM_ALG_ID_ID)) (\<lambda>hashAlg.
     sbind (withN ''digest'' ''BYTE[]'' ''hashAlg'' ''TPM_ALG_ID'' ser_readSizedByteBuf) (\<lambda>digest.
     ret (self\<lparr>TPMT_HA_hashAlg := hashAlg, TPMT_HA_digest := digest\<rparr>)))"

definition TPMT_HA_text_ok :: "text_class \<Rightarrow> TPMT_HA \<Rightarrow> bool" where
  "TPMT_HA_text_ok c x \<longleftrightarrow>
     enum_ok c (ucast (TPMT_HA_hashAlg x)) TPM_ALG_ID_ID \<and>
     length (TPMT_HA_digest x) < 2 ^ 64"

interpretation TPMT_HA_text: text_codec "''TPMT_HA''" TPMT_HA_Serialize TPMT_HA_Deserialize TPMT_HA_default TPMT_HA_text_ok
proof
  show "word_ok ''TPMT_HA''" by (simp add: word_simps)
  fix c x assume ok: "TPMT_HA_text_ok c x"
  from ok show "carries c True (TPMT_HA_Serialize x) (TPMT_HA_Deserialize TPMT_HA_default) x"
    by (simp only: TPMT_HA_Serialize_def TPMT_HA_Deserialize_def TPMT_HA_default_def
       TPMT_HA.select_convs TPMT_HA.update_convs;
      intro carries_body;
      (rule TPMT_HA.equality)?; simp add: TPMT_HA_text_ok_def word_simps)
qed

subsection \<open>TPM2B_DIGEST\<close>

definition TPM2B_DIGEST_Serialize :: "TPM2B_DIGEST \<Rightarrow> unit ser" where
  "TPM2B_DIGEST_Serialize self = wseq
     [withN ''buffer'' ''BYTE[]'' ''size'' ''UINT16'' (ser_writeSizedByteBuf (TPM2B_DIGEST_buffer self))]"

definition TPM2B_DIGEST_Deserialize :: "TPM2B_DIGEST \<Rightarrow> TPM2B_DIGEST ser" where
  "TPM2B_DIGEST_Deserialize self =
     sbind (withN ''buffer'' ''BYTE[]'' ''size'' ''UINT16'' ser_readSizedByteBuf) (\<lambda>buffer.
     ret (self\<lparr>TPM2B_DIGEST_buffer := buffer\<rparr>))"

definition TPM2B_DIGEST_text_ok :: "text_class \<Rightarrow> TPM2B_DIGEST \<Rightarrow> bool" where
  "TPM2B_DIGEST_text_ok c x \<longleftrightarrow>
     length (TPM2B_DIGEST_buffer x) < 2 ^ 64"

interpretation TPM2B_DIGEST_text: text_codec "''TPM2B_DIGEST''" TPM2B_DIGEST_Serialize TPM2B_DIGEST_Deserialize TPM2B_DIGEST_default TPM2B_DIGEST_text_ok
proof
  show "word_ok ''TPM2B_DIGEST''" by (simp add: word_simps)
  fix c x assume ok: "TPM2B_DIGEST_text_ok c x"
  from ok show "carries c True (TPM2B_DIGEST_Serialize x) (TPM2B_DIGEST_Deserialize TPM2B_DIGEST_default) x"
    by (simp only: TPM2B_DIGEST_Serialize_def TPM2B_DIGEST_Deserialize_def TPM2B_DIGEST_default_def
       TPM2B_DIGEST.select_convs TPM2B_DIGEST.update_convs;
      intro carries_body;
      (rule TPM2B_DIGEST.equality)?; simp add: TPM2B_DIGEST_text_ok_def word_simps)
qed

subsection \<open>TPM2B_DATA\<close>

definition TPM2B_DATA_Serialize :: "TPM2B_DATA \<Rightarrow> unit ser" where
  "TPM2B_DATA_Serialize self = wseq
     [withN ''buffer'' ''BYTE[]'' ''size'' ''UINT16'' (ser_writeSizedByteBuf (TPM2B_DATA_buffer self))]"

definition TPM2B_DATA_Deserialize :: "TPM2B_DATA \<Rightarrow> TPM2B_DATA ser" where
  "TPM2B_DATA_Deserialize self =
     sbind (withN ''buffer'' ''BYTE[]'' ''size'' ''UINT16'' ser_readSizedByteBuf) (\<lambda>buffer.
     ret (self\<lparr>TPM2B_DATA_buffer := buffer\<rparr>))"

definition TPM2B_DATA_text_ok :: "text_class \<Rightarrow> TPM2B_DATA \<Rightarrow> bool" where
  "TPM2B_DATA_text_ok c x \<longleftrightarrow>
     length (TPM2B_DATA_buffer x) < 2 ^ 64"

interpretation TPM2B_DATA_text: text_codec "''TPM2B_DATA''" TPM2B_DATA_Serialize TPM2B_DATA_Deserialize TPM2B_DATA_default TPM2B_DATA_text_ok
proof
  show "word_ok ''TPM2B_DATA''" by (simp add: word_simps)
  fix c x assume ok: "TPM2B_DATA_text_ok c x"
  from ok show "carries c True (TPM2B_DATA_Serialize x) (TPM2B_DATA_Deserialize TPM2B_DATA_default) x"
    by (simp only: TPM2B_DATA_Serialize_def TPM2B_DATA_Deserialize_def TPM2B_DATA_default_def
       TPM2B_DATA.select_convs TPM2B_DATA.update_convs;
      intro carries_body;
      (rule TPM2B_DATA.equality)?; simp add: TPM2B_DATA_text_ok_def word_simps)
qed

subsection \<open>TPM2B_EVENT\<close>

definition TPM2B_EVENT_Serialize :: "TPM2B_EVENT \<Rightarrow> unit ser" where
  "TPM2B_EVENT_Serialize self = wseq
     [withN ''buffer'' ''BYTE[]'' ''size'' ''UINT16'' (ser_writeSizedByteBuf (TPM2B_EVENT_buffer self))]"

definition TPM2B_EVENT_Deserialize :: "TPM2B_EVENT \<Rightarrow> TPM2B_EVENT ser" where
  "TPM2B_EVENT_Deserialize self =
     sbind (withN ''buffer'' ''BYTE[]'' ''size'' ''UINT16'' ser_readSizedByteBuf) (\<lambda>buffer.
     ret (self\<lparr>TPM2B_EVENT_buffer := buffer\<rparr>))"

definition TPM2B_EVENT_text_ok :: "text_class \<Rightarrow> TPM2B_EVENT \<Rightarrow> bool" where
  "TPM2B_EVENT_text_ok c x \<longleftrightarrow>
     length (TPM2B_EVENT_buffer x) < 2 ^ 64"

interpretation TPM2B_EVENT_text: text_codec "''TPM2B_EVENT''" TPM2B_EVENT_Serialize TPM2B_EVENT_Deserialize TPM2B_EVENT_default TPM2B_EVENT_text_ok
proof
  show "word_ok ''TPM2B_EVENT''" by (simp add: word_simps)
  fix c x assume ok: "TPM2B_EVENT_text_ok c x"
  from ok show "carries c True (TPM2B_EVENT_Serialize x) (TPM2B_EVENT_Deserialize TPM2B_EVENT_default) x"
    by (simp only: TPM2B_EVENT_Serialize_def TPM2B_EVENT_Deserialize_def TPM2B_EVENT_default_def
       TPM2B_EVENT.select_convs TPM2B_EVENT.update_convs;
      intro carries_body;
      (rule TPM2B_EVENT.equality)?; simp add: TPM2B_EVENT_text_ok_def word_simps)
qed

subsection \<open>TPM2B_MAX_BUFFER\<close>

definition TPM2B_MAX_BUFFER_Serialize :: "TPM2B_MAX_BUFFER \<Rightarrow> unit ser" where
  "TPM2B_MAX_BUFFER_Serialize self = wseq
     [withN ''buffer'' ''BYTE[]'' ''size'' ''UINT16'' (ser_writeSizedByteBuf (TPM2B_MAX_BUFFER_buffer self))]"

definition TPM2B_MAX_BUFFER_Deserialize :: "TPM2B_MAX_BUFFER \<Rightarrow> TPM2B_MAX_BUFFER ser" where
  "TPM2B_MAX_BUFFER_Deserialize self =
     sbind (withN ''buffer'' ''BYTE[]'' ''size'' ''UINT16'' ser_readSizedByteBuf) (\<lambda>buffer.
     ret (self\<lparr>TPM2B_MAX_BUFFER_buffer := buffer\<rparr>))"

definition TPM2B_MAX_BUFFER_text_ok :: "text_class \<Rightarrow> TPM2B_MAX_BUFFER \<Rightarrow> bool" where
  "TPM2B_MAX_BUFFER_text_ok c x \<longleftrightarrow>
     length (TPM2B_MAX_BUFFER_buffer x) < 2 ^ 64"

interpretation TPM2B_MAX_BUFFER_text: text_codec "''TPM2B_MAX_BUFFER''" TPM2B_MAX_BUFFER_Serialize TPM2B_MAX_BUFFER_Deserialize TPM2B_MAX_BUFFER_default TPM2B_MAX_BUFFER_text_ok
proof
  show "word_ok ''TPM2B_MAX_BUFFER''" by (simp add: word_simps)
  fix c x assume ok: "TPM2B_MAX_BUFFER_text_ok c x"
  from ok show "carries c True (TPM2B_MAX_BUFFER_Serialize x) (TPM2B_MAX_BUFFER_Deserialize TPM2B_MAX_BUFFER_default) x"
    by (simp only: TPM2B_MAX_BUFFER_Serialize_def TPM2B_MAX_BUFFER_Deserialize_def TPM2B_MAX_BUFFER_default_def
       TPM2B_MAX_BUFFER.select_convs TPM2B_MAX_BUFFER.update_convs;
      intro carries_body;
      (rule TPM2B_MAX_BUFFER.equality)?; simp add: TPM2B_MAX_BUFFER_text_ok_def word_simps)
qed

subsection \<open>TPM2B_MAX_NV_BUFFER\<close>

definition TPM2B_MAX_NV_BUFFER_Serialize :: "TPM2B_MAX_NV_BUFFER \<Rightarrow> unit ser" where
  "TPM2B_MAX_NV_BUFFER_Serialize self = wseq
     [withN ''buffer'' ''BYTE[]'' ''size'' ''UINT16'' (ser_writeSizedByteBuf (TPM2B_MAX_NV_BUFFER_buffer self))]"

definition TPM2B_MAX_NV_BUFFER_Deserialize :: "TPM2B_MAX_NV_BUFFER \<Rightarrow> TPM2B_MAX_NV_BUFFER ser" where
  "TPM2B_MAX_NV_BUFFER_Deserialize self =
     sbind (withN ''buffer'' ''BYTE[]'' ''size'' ''UINT16'' ser_readSizedByteBuf) (\<lambda>buffer.
     ret (self\<lparr>TPM2B_MAX_NV_BUFFER_buffer := buffer\<rparr>))"

definition TPM2B_MAX_NV_BUFFER_text_ok :: "text_class \<Rightarrow> TPM2B_MAX_NV_BUFFER \<Rightarrow> bool" where
  "TPM2B_MAX_NV_BUFFER_text_ok c x \<longleftrightarrow>
     length (TPM2B_MAX_NV_BUFFER_buffer x) < 2 ^ 64"

interpretation TPM2B_MAX_NV_BUFFER_text: text_codec "''TPM2B_MAX_NV_BUFFER''" TPM2B_MAX_NV_BUFFER_Serialize TPM2B_MAX_NV_BUFFER_Deserialize TPM2B_MAX_NV_BUFFER_default TPM2B_MAX_NV_BUFFER_text_ok
proof
  show "word_ok ''TPM2B_MAX_NV_BUFFER''" by (simp add: word_simps)
  fix c x assume ok: "TPM2B_MAX_NV_BUFFER_text_ok c x"
  from ok show "carries c True (TPM2B_MAX_NV_BUFFER_Serialize x) (TPM2B_MAX_NV_BUFFER_Deserialize TPM2B_MAX_NV_BUFFER_default) x"
    by (simp only: TPM2B_MAX_NV_BUFFER_Serialize_def TPM2B_MAX_NV_BUFFER_Deserialize_def TPM2B_MAX_NV_BUFFER_default_def
       TPM2B_MAX_NV_BUFFER.select_convs TPM2B_MAX_NV_BUFFER.update_convs;
      intro carries_body;
      (rule TPM2B_MAX_NV_BUFFER.equality)?; simp add: TPM2B_MAX_NV_BUFFER_text_ok_def word_simps)
qed

subsection \<open>TPM2B_TIMEOUT\<close>

definition TPM2B_TIMEOUT_Serialize :: "TPM2B_TIMEOUT \<Rightarrow> unit ser" where
  "TPM2B_TIMEOUT_Serialize self = wseq
     [withN ''buffer'' ''BYTE[]'' ''size'' ''UINT16'' (ser_writeSizedByteBuf (TPM2B_TIMEOUT_buffer self))]"

definition TPM2B_TIMEOUT_Deserialize :: "TPM2B_TIMEOUT \<Rightarrow> TPM2B_TIMEOUT ser" where
  "TPM2B_TIMEOUT_Deserialize self =
     sbind (withN ''buffer'' ''BYTE[]'' ''size'' ''UINT16'' ser_readSizedByteBuf) (\<lambda>buffer.
     ret (self\<lparr>TPM2B_TIMEOUT_buffer := buffer\<rparr>))"

definition TPM2B_TIMEOUT_text_ok :: "text_class \<Rightarrow> TPM2B_TIMEOUT \<Rightarrow> bool" where
  "TPM2B_TIMEOUT_text_ok c x \<longleftrightarrow>
     length (TPM2B_TIMEOUT_buffer x) < 2 ^ 64"

interpretation TPM2B_TIMEOUT_text: text_codec "''TPM2B_TIMEOUT''" TPM2B_TIMEOUT_Serialize TPM2B_TIMEOUT_Deserialize TPM2B_TIMEOUT_default TPM2B_TIMEOUT_text_ok
proof
  show "word_ok ''TPM2B_TIMEOUT''" by (simp add: word_simps)
  fix c x assume ok: "TPM2B_TIMEOUT_text_ok c x"
  from ok show "carries c True (TPM2B_TIMEOUT_Serialize x) (TPM2B_TIMEOUT_Deserialize TPM2B_TIMEOUT_default) x"
    by (simp only: TPM2B_TIMEOUT_Serialize_def TPM2B_TIMEOUT_Deserialize_def TPM2B_TIMEOUT_default_def
       TPM2B_TIMEOUT.select_convs TPM2B_TIMEOUT.update_convs;
      intro carries_body;
      (rule TPM2B_TIMEOUT.equality)?; simp add: TPM2B_TIMEOUT_text_ok_def word_simps)
qed

subsection \<open>TPM2B_IV\<close>

definition TPM2B_IV_Serialize :: "TPM2B_IV \<Rightarrow> unit ser" where
  "TPM2B_IV_Serialize self = wseq
     [withN ''buffer'' ''BYTE[]'' ''size'' ''UINT16'' (ser_writeSizedByteBuf (TPM2B_IV_buffer self))]"

definition TPM2B_IV_Deserialize :: "TPM2B_IV \<Rightarrow> TPM2B_IV ser" where
  "TPM2B_IV_Deserialize self =
     sbind (withN ''buffer'' ''BYTE[]'' ''size'' ''UINT16'' ser_readSizedByteBuf) (\<lambda>buffer.
     ret (self\<lparr>TPM2B_IV_buffer := buffer\<rparr>))"

definition TPM2B_IV_text_ok :: "text_class \<Rightarrow> TPM2B_IV \<Rightarrow> bool" where
  "TPM2B_IV_text_ok c x \<longleftrightarrow>
     length (TPM2B_IV_buffer x) < 2 ^ 64"

interpretation TPM2B_IV_text: text_codec "''TPM2B_IV''" TPM2B_IV_Serialize TPM2B_IV_Deserialize TPM2B_IV_default TPM2B_IV_text_ok
proof
  show "word_ok ''TPM2B_IV''" by (simp add: word_simps)
  fix c x assume ok: "TPM2B_IV_text_ok c x"
  from ok show "carries c True (TPM2B_IV_Serialize x) (TPM2B_IV_Deserialize TPM2B_IV_default) x"
    by (simp only: TPM2B_IV_Serialize_def TPM2B_IV_Deserialize_def TPM2B_IV_default_def
       TPM2B_IV.select_convs TPM2B_IV.update_convs;
      intro carries_body;
      (rule TPM2B_IV.equality)?; simp add: TPM2B_IV_text_ok_def word_simps)
qed

subsection \<open>TPM2B_NAME\<close>

definition TPM2B_NAME_Serialize :: "TPM2B_NAME \<Rightarrow> unit ser" where
  "TPM2B_NAME_Serialize self = wseq
     [withN ''name'' ''BYTE[]'' ''size'' ''UINT16'' (ser_writeSizedByteBuf (TPM2B_NAME_name self))]"

definition TPM2B_NAME_Deserialize :: "TPM2B_NAME \<Rightarrow> TPM2B_NAME ser" where
  "TPM2B_NAME_Deserialize self =
     sbind (withN ''name'' ''BYTE[]'' ''size'' ''UINT16'' ser_readSizedByteBuf) (\<lambda>name.
     ret (self\<lparr>TPM2B_NAME_name := name\<rparr>))"

definition TPM2B_NAME_text_ok :: "text_class \<Rightarrow> TPM2B_NAME \<Rightarrow> bool" where
  "TPM2B_NAME_text_ok c x \<longleftrightarrow>
     length (TPM2B_NAME_name x) < 2 ^ 64"

interpretation TPM2B_NAME_text: text_codec "''TPM2B_NAME''" TPM2B_NAME_Serialize TPM2B_NAME_Deserialize TPM2B_NAME_default TPM2B_NAME_text_ok
proof
  show "word_ok ''TPM2B_NAME''" by (simp add: word_simps)
  fix c x assume ok: "TPM2B_NAME_text_ok c x"
  from ok show "carries c True (TPM2B_NAME_Serialize x) (TPM2B_NAME_Deserialize TPM2B_NAME_default) x"
    by (simp only: TPM2B_NAME_Serialize_def TPM2B_NAME_Deserialize_def TPM2B_NAME_default_def
       TPM2B_NAME.select_convs TPM2B_NAME.update_convs;
      intro carries_body;
      (rule TPM2B_NAME.equality)?; simp add: TPM2B_NAME_text_ok_def word_simps)
qed

subsection \<open>TPMS_PCR_SELECT\<close>

definition TPMS_PCR_SELECT_Serialize :: "TPMS_PCR_SELECT \<Rightarrow> unit ser" where
  "TPMS_PCR_SELECT_Serialize self = wseq
     [withN ''pcrSelect'' ''BYTE[]'' ''sizeofSelect'' ''UINT8'' (ser_writeSizedByteBuf (TPMS_PCR_SELECT_pcrSelect self))]"

definition TPMS_PCR_SELECT_Deserialize :: "TPMS_PCR_SELECT \<Rightarrow> TPMS_PCR_SELECT ser" where
  "TPMS_PCR_SELECT_Deserialize self =
     sbind (withN ''pcrSelect'' ''BYTE[]'' ''sizeofSelect'' ''UINT8'' ser_readSizedByteBuf) (\<lambda>pcrSelect.
     ret (self\<lparr>TPMS_PCR_SELECT_pcrSelect := pcrSelect\<rparr>))"

definition TPMS_PCR_SELECT_text_ok :: "text_class \<Rightarrow> TPMS_PCR_SELECT \<Rightarrow> bool" where
  "TPMS_PCR_SELECT_text_ok c x \<longleftrightarrow>
     length (TPMS_PCR_SELECT_pcrSelect x) < 2 ^ 64"

interpretation TPMS_PCR_SELECT_text: text_codec "''TPMS_PCR_SELECT''" TPMS_PCR_SELECT_Serialize TPMS_PCR_SELECT_Deserialize TPMS_PCR_SELECT_default TPMS_PCR_SELECT_text_ok
proof
  show "word_ok ''TPMS_PCR_SELECT''" by (simp add: word_simps)
  fix c x assume ok: "TPMS_PCR_SELECT_text_ok c x"
  from ok show "carries c True (TPMS_PCR_SELECT_Serialize x) (TPMS_PCR_SELECT_Deserialize TPMS_PCR_SELECT_default) x"
    by (simp only: TPMS_PCR_SELECT_Serialize_def TPMS_PCR_SELECT_Deserialize_def TPMS_PCR_SELECT_default_def
       TPMS_PCR_SELECT.select_convs TPMS_PCR_SELECT.update_convs;
      intro carries_body;
      (rule TPMS_PCR_SELECT.equality)?; simp add: TPMS_PCR_SELECT_text_ok_def word_simps)
qed

subsection \<open>TPMS_PCR_SELECTION\<close>

definition TPMS_PCR_SELECTION_Serialize :: "TPMS_PCR_SELECTION \<Rightarrow> unit ser" where
  "TPMS_PCR_SELECTION_Serialize self = wseq
     [withN ''hash'' ''TPM_ALG_ID'' '''' '''' (ser_writeEnumT (TPMS_PCR_SELECTION_hash self) TPM_ALG_ID_ID),
      withN ''pcrSelect'' ''BYTE[]'' ''sizeofSelect'' ''UINT8'' (ser_writeSizedByteBuf (TPMS_PCR_SELECTION_pcrSelect self))]"

definition TPMS_PCR_SELECTION_Deserialize :: "TPMS_PCR_SELECTION \<Rightarrow> TPMS_PCR_SELECTION ser" where
  "TPMS_PCR_SELECTION_Deserialize self =
     sbind (withN ''hash'' ''TPM_ALG_ID'' '''' '''' (ser_readEnumT TPM_ALG_ID_ID)) (\<lambda>hash.
     sbind (withN ''pcrSelect'' ''BYTE[]'' ''sizeofSelect'' ''UINT8'' ser_readSizedByteBuf) (\<lambda>pcrSelect.
     ret (self\<lparr>TPMS_PCR_SELECTION_hash := hash, TPMS_PCR_SELECTION_pcrSelect := pcrSelect\<rparr>)))"

definition TPMS_PCR_SELECTION_text_ok :: "text_class \<Rightarrow> TPMS_PCR_SELECTION \<Rightarrow> bool" where
  "TPMS_PCR_SELECTION_text_ok c x \<longleftrightarrow>
     enum_ok c (ucast (TPMS_PCR_SELECTION_hash x)) TPM_ALG_ID_ID \<and>
     length (TPMS_PCR_SELECTION_pcrSelect x) < 2 ^ 64"

interpretation TPMS_PCR_SELECTION_text: text_codec "''TPMS_PCR_SELECTION''" TPMS_PCR_SELECTION_Serialize TPMS_PCR_SELECTION_Deserialize TPMS_PCR_SELECTION_default TPMS_PCR_SELECTION_text_ok
proof
  show "word_ok ''TPMS_PCR_SELECTION''" by (simp add: word_simps)
  fix c x assume ok: "TPMS_PCR_SELECTION_text_ok c x"
  from ok show "carries c True (TPMS_PCR_SELECTION_Serialize x) (TPMS_PCR_SELECTION_Deserialize TPMS_PCR_SELECTION_default) x"
    by (simp only: TPMS_PCR_SELECTION_Serialize_def TPMS_PCR_SELECTION_Deserialize_def TPMS_PCR_SELECTION_default_def
       TPMS_PCR_SELECTION.select_convs TPMS_PCR_SELECTION.update_convs;
      intro carries_body;
      (rule TPMS_PCR_SELECTION.equality)?; simp add: TPMS_PCR_SELECTION_text_ok_def word_simps)
qed

subsection \<open>TPMT_TK_CREATION\<close>

definition TPMT_TK_CREATION_Serialize :: "TPMT_TK_CREATION \<Rightarrow> unit ser" where
  "TPMT_TK_CREATION_Serialize self = wseq
     [withN ''tag'' ''TPM_ST'' '''' '''' (ser_writeShort TPM_ST_CREATION),
      withN ''hierarchy'' ''TPM_HANDLE'' '''' '''' (ser_writeObj ''TPM_HANDLE'' (TPM_HANDLE_Serialize (TPMT_TK_CREATION_hierarchy self))),
      withN ''digest'' ''BYTE[]'' ''digestSize'' ''UINT16'' (ser_writeSizedByteBuf (TPMT_TK_CREATION_digest self))]"

definition TPMT_TK_CREATION_Deserialize :: "TPMT_TK_CREATION \<Rightarrow> TPMT_TK_CREATION ser" where
  "TPMT_TK_CREATION_Deserialize self =
     sbind (withN ''tag'' ''TPM_ST'' '''' '''' ser_readShort) (\<lambda>_.
     sbind (withN ''hierarchy'' ''TPM_HANDLE'' '''' '''' (ser_readObj ''TPM_HANDLE'' (TPM_HANDLE_Deserialize (TPMT_TK_CREATION_hierarchy self)))) (\<lambda>hierarchy.
     sbind (withN ''digest'' ''BYTE[]'' ''digestSize'' ''UINT16'' ser_readSizedByteBuf) (\<lambda>digest.
     ret (self\<lparr>TPMT_TK_CREATION_hierarchy := hierarchy, TPMT_TK_CREATION_digest := digest\<rparr>))))"

definition TPMT_TK_CREATION_text_ok :: "text_class \<Rightarrow> TPMT_TK_CREATION \<Rightarrow> bool" where
  "TPMT_TK_CREATION_text_ok c x \<longleftrightarrow>
     TPM_HANDLE_text_ok c (TPMT_TK_CREATION_hierarchy x) \<and>
     length (TPMT_TK_CREATION_digest x) < 2 ^ 64"

interpretation TPMT_TK_CREATION_text: text_codec "''TPMT_TK_CREATION''" TPMT_TK_CREATION_Serialize TPMT_TK_CREATION_Deserialize TPMT_TK_CREATION_default TPMT_TK_CREATION_text_ok
proof
  show "word_ok ''TPMT_TK_CREATION''" by (simp add: word_simps)
  fix c x assume ok: "TPMT_TK_CREATION_text_ok c x"
  from ok show "carries c True (TPMT_TK_CREATION_Serialize x) (TPMT_TK_CREATION_Deserialize TPMT_TK_CREATION_default) x"
    by (simp only: TPMT_TK_CREATION_Serialize_def TPMT_TK_CREATION_Deserialize_def TPMT_TK_CREATION_default_def
       TPMT_TK_CREATION.select_convs TPMT_TK_CREATION.update_convs;
      intro TPM_HANDLE_text.as_entry [THEN carries_entry_Cons] carries_body;
      (rule TPMT_TK_CREATION.equality)?; simp add: TPMT_TK_CREATION_text_ok_def word_simps)
qed

subsection \<open>TPMT_TK_VERIFIED\<close>

definition TPMT_TK_VERIFIED_Serialize :: "TPMT_TK_VERIFIED \<Rightarrow> unit ser" where
  "TPMT_TK_VERIFIED_Serialize self = wseq
     [withN ''tag'' ''TPM_ST'' '''' '''' (ser_writeShort TPM_ST_VERIFIED),
      withN ''hierarchy'' ''TPM_HANDLE'' '''' '''' (ser_writeObj ''TPM_HANDLE'' (TPM_HANDLE_Serialize (TPMT_TK_VERIFIED_hierarchy self))),
      withN ''digest'' ''BYTE[]'' ''digestSize'' ''UINT16'' (ser_writeSizedByteBuf (TPMT_TK_VERIFIED_digest self))]"

definition TPMT_TK_VERIFIED_Deserialize :: "TPMT_TK_VERIFIED \<Rightarrow> TPMT_TK_VERIFIED ser" where
  "TPMT_TK_VERIFIED_Deserialize self =
     sbind (withN ''tag'' ''TPM_ST'' '''' '''' ser_readShort) (\<lambda>_.
     sbind (withN ''hierarchy'' ''TPM_HANDLE'' '''' '''' (ser_readObj ''TPM_HANDLE'' (TPM_HANDLE_Deserialize (TPMT_TK_VERIFIED_hierarchy self)))) (\<lambda>hierarchy.
     sbind (withN ''digest'' ''BYTE[]'' ''digestSize'' ''UINT16'' ser_readSizedByteBuf) (\<lambda>digest.
     ret (self\<lparr>TPMT_TK_VERIFIED_hierarchy := hierarchy, TPMT_TK_VERIFIED_digest := digest\<rparr>))))"

definition TPMT_TK_VERIFIED_text_ok :: "text_class \<Rightarrow> TPMT_TK_VERIFIED \<Rightarrow> bool" where
  "TPMT_TK_VERIFIED_text_ok c x \<longleftrightarrow>
     TPM_HANDLE_text_ok c (TPMT_TK_VERIFIED_hierarchy x) \<and>
     length (TPMT_TK_VERIFIED_digest x) < 2 ^ 64"

interpretation TPMT_TK_VERIFIED_text: text_codec "''TPMT_TK_VERIFIED''" TPMT_TK_VERIFIED_Serialize TPMT_TK_VERIFIED_Deserialize TPMT_TK_VERIFIED_default TPMT_TK_VERIFIED_text_ok
proof
  show "word_ok ''TPMT_TK_VERIFIED''" by (simp add: word_simps)
  fix c x assume ok: "TPMT_TK_VERIFIED_text_ok c x"
  from ok show "carries c True (TPMT_TK_VERIFIED_Serialize x) (TPMT_TK_VERIFIED_Deserialize TPMT_TK_VERIFIED_default) x"
    by (simp only: TPMT_TK_VERIFIED_Serialize_def TPMT_TK_VERIFIED_Deserialize_def TPMT_TK_VERIFIED_default_def
       TPMT_TK_VERIFIED.select_convs TPMT_TK_VERIFIED.update_convs;
      intro TPM_HANDLE_text.as_entry [THEN carries_entry_Cons] carries_body;
      (rule TPMT_TK_VERIFIED.equality)?; simp add: TPMT_TK_VERIFIED_text_ok_def word_simps)
qed

subsection \<open>TPMT_TK_AUTH\<close>

definition TPMT_TK_AUTH_Serialize :: "TPMT_TK_AUTH \<Rightarrow> unit ser" where
  "TPMT_TK_AUTH_Serialize self = wseq
     [withN ''tag'' ''TPM_ST'' '''' '''' (ser_writeEnumT (TPMT_TK_AUTH_tag self) TPM_ST_ID),
      withN ''hierarchy'' ''TPM_HANDLE'' '''' '''' (ser_writeObj ''TPM_HANDLE'' (TPM_HANDLE_Serialize (TPMT_TK_AUTH_hierarchy self))),
      withN ''digest'' ''BYTE[]'' ''digestSize'' ''UINT16'' (ser_writeSizedByteBuf (TPMT_TK_AUTH_digest self))]"

definition TPMT_TK_AUTH_Deserialize :: "TPMT_TK_AUTH \<Rightarrow> TPMT_TK_AUTH ser" where
  "TPMT_TK_AUTH_Deserialize self =
     sbind (withN ''tag'' ''TPM_ST'' '''' '''' (ser_readEnumT TPM_ST_ID)) (\<lambda>tag.
     sbind (withN ''hierarchy'' ''TPM_HANDLE'' '''' '''' (ser_readObj ''TPM_HANDLE'' (TPM_HANDLE_Deserialize (TPMT_TK_AUTH_hierarchy self)))) (\<lambda>hierarchy.
     sbind (withN ''digest'' ''BYTE[]'' ''digestSize'' ''UINT16'' ser_readSizedByteBuf) (\<lambda>digest.
     ret (self\<lparr>TPMT_TK_AUTH_tag := tag, TPMT_TK_AUTH_hierarchy := hierarchy, TPMT_TK_AUTH_digest := digest\<rparr>))))"

definition TPMT_TK_AUTH_text_ok :: "text_class \<Rightarrow> TPMT_TK_AUTH \<Rightarrow> bool" where
  "TPMT_TK_AUTH_text_ok c x \<longleftrightarrow>
     enum_ok c (ucast (TPMT_TK_AUTH_tag x)) TPM_ST_ID \<and>
     TPM_HANDLE_text_ok c (TPMT_TK_AUTH_hierarchy x) \<and>
     length (TPMT_TK_AUTH_digest x) < 2 ^ 64"

interpretation TPMT_TK_AUTH_text: text_codec "''TPMT_TK_AUTH''" TPMT_TK_AUTH_Serialize TPMT_TK_AUTH_Deserialize TPMT_TK_AUTH_default TPMT_TK_AUTH_text_ok
proof
  show "word_ok ''TPMT_TK_AUTH''" by (simp add: word_simps)
  fix c x assume ok: "TPMT_TK_AUTH_text_ok c x"
  from ok show "carries c True (TPMT_TK_AUTH_Serialize x) (TPMT_TK_AUTH_Deserialize TPMT_TK_AUTH_default) x"
    by (simp only: TPMT_TK_AUTH_Serialize_def TPMT_TK_AUTH_Deserialize_def TPMT_TK_AUTH_default_def
       TPMT_TK_AUTH.select_convs TPMT_TK_AUTH.update_convs;
      intro TPM_HANDLE_text.as_entry [THEN carries_entry_Cons] carries_body;
      (rule TPMT_TK_AUTH.equality)?; simp add: TPMT_TK_AUTH_text_ok_def word_simps)
qed

subsection \<open>TPMT_TK_HASHCHECK\<close>

definition TPMT_TK_HASHCHECK_Serialize :: "TPMT_TK_HASHCHECK \<Rightarrow> unit ser" where
  "TPMT_TK_HASHCHECK_Serialize self = wseq
     [withN ''tag'' ''TPM_ST'' '''' '''' (ser_writeShort TPM_ST_HASHCHECK),
      withN ''hierarchy'' ''TPM_HANDLE'' '''' '''' (ser_writeObj ''TPM_HANDLE'' (TPM_HANDLE_Serialize (TPMT_TK_HASHCHECK_hierarchy self))),
      withN ''digest'' ''BYTE[]'' ''digestSize'' ''UINT16'' (ser_writeSizedByteBuf (TPMT_TK_HASHCHECK_digest self))]"

definition TPMT_TK_HASHCHECK_Deserialize :: "TPMT_TK_HASHCHECK \<Rightarrow> TPMT_TK_HASHCHECK ser" where
  "TPMT_TK_HASHCHECK_Deserialize self =
     sbind (withN ''tag'' ''TPM_ST'' '''' '''' ser_readShort) (\<lambda>_.
     sbind (withN ''hierarchy'' ''TPM_HANDLE'' '''' '''' (ser_readObj ''TPM_HANDLE'' (TPM_HANDLE_Deserialize (TPMT_TK_HASHCHECK_hierarchy self)))) (\<lambda>hierarchy.
     sbind (withN ''digest'' ''BYTE[]'' ''digestSize'' ''UINT16'' ser_readSizedByteBuf) (\<lambda>digest.
     ret (self\<lparr>TPMT_TK_HASHCHECK_hierarchy := hierarchy, TPMT_TK_HASHCHECK_digest := digest\<rparr>))))"

definition TPMT_TK_HASHCHECK_text_ok :: "text_class \<Rightarrow> TPMT_TK_HASHCHECK \<Rightarrow> bool" where
  "TPMT_TK_HASHCHECK_text_ok c x \<longleftrightarrow>
     TPM_HANDLE_text_ok c (TPMT_TK_HASHCHECK_hierarchy x) \<and>
     length (TPMT_TK_HASHCHECK_digest x) < 2 ^ 64"

interpretation TPMT_TK_HASHCHECK_text: text_codec "''TPMT_TK_HASHCHECK''" TPMT_TK_HASHCHECK_Serialize TPMT_TK_HASHCHECK_Deserialize TPMT_TK_HASHCHECK_default TPMT_TK_HASHCHECK_text_ok
proof
  show "word_ok ''TPMT_TK_HASHCHECK''" by (simp add: word_simps)
  fix c x assume ok: "TPMT_TK_HASHCHECK_text_ok c x"
  from ok show "carries c True (TPMT_TK_HASHCHECK_Serialize x) (TPMT_TK_HASHCHECK_Deserialize TPMT_TK_HASHCHECK_default) x"
    by (simp only: TPMT_TK_HASHCHECK_Serialize_def TPMT_TK_HASHCHECK_Deserialize_def TPMT_TK_HASHCHECK_default_def
       TPMT_TK_HASHCHECK.select_convs TPMT_TK_HASHCHECK.update_convs;
      intro TPM_HANDLE_text.as_entry [THEN carries_entry_Cons] carries_body;
      (rule TPMT_TK_HASHCHECK.equality)?; simp add: TPMT_TK_HASHCHECK_text_ok_def word_simps)
qed

subsection \<open>TPMS_ALG_PROPERTY\<close>

definition TPMS_ALG_PROPERTY_Serialize :: "TPMS_ALG_PROPERTY \<Rightarrow> unit ser" where
  "TPMS_ALG_PROPERTY_Serialize self = wseq
     [withN ''alg'' ''TPM_ALG_ID'' '''' '''' (ser_writeEnumT (TPMS_ALG_PROPERTY_alg self) TPM_ALG_ID_ID),
      withN ''algProperties'' ''TPMA_ALGORITHM'' '''' '''' (ser_writeEnumT (TPMS_ALG_PROPERTY_algProperties self) TPMA_ALGORITHM_ID)]"

definition TPMS_ALG_PROPERTY_Deserialize :: "TPMS_ALG_PROPERTY \<Rightarrow> TPMS_ALG_PROPERTY ser" where
  "TPMS_ALG_PROPERTY_Deserialize self =
     sbind (withN ''alg'' ''TPM_ALG_ID'' '''' '''' (ser_readEnumT TPM_ALG_ID_ID)) (\<lambda>alg.
     sbind (withN ''algProperties'' ''TPMA_ALGORITHM'' '''' '''' (ser_readEnumT TPMA_ALGORITHM_ID)) (\<lambda>algProperties.
     ret (self\<lparr>TPMS_ALG_PROPERTY_alg := alg, TPMS_ALG_PROPERTY_algProperties := algProperties\<rparr>)))"

definition TPMS_ALG_PROPERTY_text_ok :: "text_class \<Rightarrow> TPMS_ALG_PROPERTY \<Rightarrow> bool" where
  "TPMS_ALG_PROPERTY_text_ok c x \<longleftrightarrow>
     enum_ok c (ucast (TPMS_ALG_PROPERTY_alg x)) TPM_ALG_ID_ID \<and>
     enum_ok c (ucast (TPMS_ALG_PROPERTY_algProperties x)) TPMA_ALGORITHM_ID"

interpretation TPMS_ALG_PROPERTY_text: text_codec "''TPMS_ALG_PROPERTY''" TPMS_ALG_PROPERTY_Serialize TPMS_ALG_PROPERTY_Deserialize TPMS_ALG_PROPERTY_default TPMS_ALG_PROPERTY_text_ok
proof
  show "word_ok ''TPMS_ALG_PROPERTY''" by (simp add: word_simps)
  fix c x assume ok: "TPMS_ALG_PROPERTY_text_ok c x"
  from ok show "carries c True (TPMS_ALG_PROPERTY_Serialize x) (TPMS_ALG_PROPERTY_Deserialize TPMS_ALG_PROPERTY_default) x"
    by (simp only: TPMS_ALG_PROPERTY_Serialize_def TPMS_ALG_PROPERTY_Deserialize_def TPMS_ALG_PROPERTY_default_def
       TPMS_ALG_PROPERTY.select_convs TPMS_ALG_PROPERTY.update_convs;
      intro carries_body;
      (rule TPMS_ALG_PROPERTY.equality)?; simp add: TPMS_ALG_PROPERTY_text_ok_def word_simps)
qed

subsection \<open>TPMS_TAGGED_PROPERTY\<close>

definition TPMS_TAGGED_PROPERTY_Serialize :: "TPMS_TAGGED_PROPERTY \<Rightarrow> unit ser" where
  "TPMS_TAGGED_PROPERTY_Serialize self = wseq
     [withN ''property'' ''TPM_PT'' '''' '''' (ser_writeEnumT (TPMS_TAGGED_PROPERTY_property self) TPM_PT_ID),
      withN ''value'' ''UINT32'' '''' '''' (ser_writeInt (TPMS_TAGGED_PROPERTY_value self))]"

definition TPMS_TAGGED_PROPERTY_Deserialize :: "TPMS_TAGGED_PROPERTY \<Rightarrow> TPMS_TAGGED_PROPERTY ser" where
  "TPMS_TAGGED_PROPERTY_Deserialize self =
     sbind (withN ''property'' ''TPM_PT'' '''' '''' (ser_readEnumT TPM_PT_ID)) (\<lambda>property.
     sbind (withN ''value'' ''UINT32'' '''' '''' ser_readInt) (\<lambda>value.
     ret (self\<lparr>TPMS_TAGGED_PROPERTY_property := property, TPMS_TAGGED_PROPERTY_value := value\<rparr>)))"

definition TPMS_TAGGED_PROPERTY_text_ok :: "text_class \<Rightarrow> TPMS_TAGGED_PROPERTY \<Rightarrow> bool" where
  "TPMS_TAGGED_PROPERTY_text_ok c x \<longleftrightarrow>
     enum_ok c (ucast (TPMS_TAGGED_PROPERTY_property x)) TPM_PT_ID"

interpretation TPMS_TAGGED_PROPERTY_text: text_codec "''TPMS_TAGGED_PROPERTY''" TPMS_TAGGED_PROPERTY_Serialize TPMS_TAGGED_PROPERTY_Deserialize TPMS_TAGGED_PROPERTY_default TPMS_TAGGED_PROPERTY_text_ok
proof
  show "word_ok ''TPMS_TAGGED_PROPERTY''" by (simp add: word_simps)
  fix c x assume ok: "TPMS_TAGGED_PROPERTY_text_ok c x"
  from ok show "carries c True (TPMS_TAGGED_PROPERTY_Serialize x) (TPMS_TAGGED_PROPERTY_Deserialize TPMS_TAGGED_PROPERTY_default) x"
    by (simp only: TPMS_TAGGED_PROPERTY_Serialize_def TPMS_TAGGED_PROPERTY_Deserialize_def TPMS_TAGGED_PROPERTY_default_def
       TPMS_TAGGED_PROPERTY.select_convs TPMS_TAGGED_PROPERTY.update_convs;
      intro carries_body;
      (rule TPMS_TAGGED_PROPERTY.equality)?; simp add: TPMS_TAGGED_PROPERTY_text_ok_def word_simps)
qed

subsection \<open>TPMS_TAGGED_PCR_SELECT\<close>

definition TPMS_TAGGED_PCR_SELECT_Serialize :: "TPMS_TAGGED_PCR_SELECT \<Rightarrow> unit ser" where
  "TPMS_TAGGED_PCR_SELECT_Serialize self = wseq
     [withN ''tag'' ''TPM_PT_PCR'' '''' '''' (ser_writeEnumT (TPMS_TAGGED_PCR_SELECT_tag self) TPM_PT_PCR_ID),
      withN ''pcrSelect'' ''BYTE[]'' ''sizeofSelect'' ''UINT8'' (ser_writeSizedByteBuf (TPMS_TAGGED_PCR_SELECT_pcrSelect self))]"

definition TPMS_TAGGED_PCR_SELECT_Deserialize :: "TPMS_TAGGED_PCR_SELECT \<Rightarrow> TPMS_TAGGED_PCR_SELECT ser" where
  "TPMS_TAGGED_PCR_SELECT_Deserialize self =
     sbind (withN ''tag'' ''TPM_PT_PCR'' '''' '''' (ser_readEnumT TPM_PT_PCR_ID)) (\<lambda>tag.
     sbind (withN ''pcrSelect'' ''BYTE[]'' ''sizeofSelect'' ''UINT8'' ser_readSizedByteBuf) (\<lambda>pcrSelect.
     ret (self\<lparr>TPMS_TAGGED_PCR_SELECT_tag := tag, TPMS_TAGGED_PCR_SELECT_pcrSelect := pcrSelect\<rparr>)))"

definition TPMS_TAGGED_PCR_SELECT_text_ok :: "text_class \<Rightarrow> TPMS_TAGGED_PCR_SELECT \<Rightarrow> bool" where
  "TPMS_TAGGED_PCR_SELECT_text_ok c x \<longleftrightarrow>
     enum_ok c (ucast (TPMS_TAGGED_PCR_SELECT_tag x)) TPM_PT_PCR_ID \<and>
     length (TPMS_TAGGED_PCR_SELECT_pcrSelect x) < 2 ^ 64"

interpretation TPMS_TAGGED_PCR_SELECT_text: text_codec "''TPMS_TAGGED_PCR_SELECT''" TPMS_TAGGED_PCR_SELECT_Serialize TPMS_TAGGED_PCR_SELECT_Deserialize TPMS_TAGGED_PCR_SELECT_default TPMS_TAGGED_PCR_SELECT_text_ok
proof
  show "word_ok ''TPMS_TAGGED_PCR_SELECT''" by (simp add: word_simps)
  fix c x assume ok: "TPMS_TAGGED_PCR_SELECT_text_ok c x"
  from ok show "carries c True (TPMS_TAGGED_PCR_SELECT_Serialize x) (TPMS_TAGGED_PCR_SELECT_Deserialize TPMS_TAGGED_PCR_SELECT_default) x"
    by (simp only: TPMS_TAGGED_PCR_SELECT_Serialize_def TPMS_TAGGED_PCR_SELECT_Deserialize_def TPMS_TAGGED_PCR_SELECT_default_def
       TPMS_TAGGED_PCR_SELECT.select_convs TPMS_TAGGED_PCR_SELECT.update_convs;
      intro carries_body;
      (rule TPMS_TAGGED_PCR_SELECT.equality)?; simp add: TPMS_TAGGED_PCR_SELECT_text_ok_def word_simps)
qed

subsection \<open>TPMS_TAGGED_POLICY\<close>

definition TPMS_TAGGED_POLICY_Serialize :: "TPMS_TAGGED_POLICY \<Rightarrow> unit ser" where
  "TPMS_TAGGED_POLICY_Serialize self = wseq
     [withN ''handle'' ''TPM_HANDLE'' '''' '''' (ser_writeObj ''TPM_HANDLE'' (TPM_HANDLE_Serialize (TPMS_TAGGED_POLICY_handle self))),
      withN ''policyHash'' ''TPMT_HA'' '''' '''' (ser_writeObj ''TPMT_HA'' (TPMT_HA_Serialize (TPMS_TAGGED_POLICY_policyHash self)))]"

definition TPMS_TAGGED_POLICY_Deserialize :: "TPMS_TAGGED_POLICY \<Rightarrow> TPMS_TAGGED_POLICY ser" where
  "TPMS_TAGGED_POLICY_Deserialize self =
     sbind (withN ''handle'' ''TPM_HANDLE'' '''' '''' (ser_readObj ''TPM_HANDLE'' (TPM_HANDLE_Deserialize (TPMS_TAGGED_POLICY_handle self)))) (\<lambda>handle.
     sbind (withN ''policyHash'' ''TPMT_HA'' '''' '''' (ser_readObj ''TPMT_HA'' (TPMT_HA_Deserialize (TPMS_TAGGED_POLICY_policyHash self)))) (\<lambda>policyHash.
     ret (self\<lparr>TPMS_TAGGED_POLICY_handle := handle, TPMS_TAGGED_POLICY_policyHash := policyHash\<rparr>)))"

definition TPMS_TAGGED_POLICY_text_ok :: "text_class \<Rightarrow> TPMS_TAGGED_POLICY \<Rightarrow> bool" where
  "TPMS_TAGGED_POLICY_text_ok c x \<longleftrightarrow>
     TPM_HANDLE_text_ok c (TPMS_TAGGED_POLICY_handle x) \<and>
     TPMT_HA_text_ok c (TPMS_TAGGED_POLICY_policyHash x)"

interpretation TPMS_TAGGED_POLICY_text: text_codec "''TPMS_TAGGED_POLICY''" TPMS_TAGGED_POLICY_Serialize TPMS_TAGGED_POLICY_Deserialize TPMS_TAGGED_POLICY_default TPMS_TAGGED_POLICY_text_ok
proof
  show "word_ok ''TPMS_TAGGED_POLICY''" by (simp add: word_simps)
  fix c x assume ok: "TPMS_TAGGED_POLICY_text_ok c x"
  from ok show "carries c True (TPMS_TAGGED_POLICY_Serialize x) (TPMS_TAGGED_POLICY_Deserialize TPMS_TAGGED_POLICY_default) x"
    by (simp only: TPMS_TAGGED_POLICY_Serialize_def TPMS_TAGGED_POLICY_Deserialize_def TPMS_TAGGED_POLICY_default_def
       TPMS_TAGGED_POLICY.select_convs TPMS_TAGGED_POLICY.update_convs;
      intro TPMT_HA_text.as_entry [THEN carries_entry_Cons] TPM_HANDLE_text.as_entry [THEN carries_entry_Cons] carries_body;
      (rule TPMS_TAGGED_POLICY.equality)?; simp add: TPMS_TAGGED_POLICY_text_ok_def word_simps)
qed

subsection \<open>TPMS_ACT_DATA\<close>

definition TPMS_ACT_DATA_Serialize :: "TPMS_ACT_DATA \<Rightarrow> unit ser" where
  "TPMS_ACT_DATA_Serialize self = wseq
     [withN ''handle'' ''TPM_HANDLE'' '''' '''' (ser_writeObj ''TPM_HANDLE'' (TPM_HANDLE_Serialize (TPMS_ACT_DATA_handle self))),
      withN ''timeout'' ''UINT32'' '''' '''' (ser_writeInt (TPMS_ACT_DATA_timeout self)),
      withN ''attributes'' ''TPMA_ACT'' '''' '''' (ser_writeEnumT (TPMS_ACT_DATA_attributes self) TPMA_ACT_ID)]"

definition TPMS_ACT_DATA_Deserialize :: "TPMS_ACT_DATA \<Rightarrow> TPMS_ACT_DATA ser" where
  "TPMS_ACT_DATA_Deserialize self =
     sbind (withN ''handle'' ''TPM_HANDLE'' '''' '''' (ser_readObj ''TPM_HANDLE'' (TPM_HANDLE_Deserialize (TPMS_ACT_DATA_handle self)))) (\<lambda>handle.
     sbind (withN ''timeout'' ''UINT32'' '''' '''' ser_readInt) (\<lambda>timeout.
     sbind (withN ''attributes'' ''TPMA_ACT'' '''' '''' (ser_readEnumT TPMA_ACT_ID)) (\<lambda>attributes.
     ret (self\<lparr>TPMS_ACT_DATA_handle := handle, TPMS_ACT_DATA_timeout := timeout, TPMS_ACT_DATA_attributes := attributes\<rparr>))))"

definition TPMS_ACT_DATA_text_ok :: "text_class \<Rightarrow> TPMS_ACT_DATA \<Rightarrow> bool" where
  "TPMS_ACT_DATA_text_ok c x \<longleftrightarrow>
     TPM_HANDLE_text_ok c (TPMS_ACT_DATA_handle x) \<and>
     enum_ok c (ucast (TPMS_ACT_DATA_attributes x)) TPMA_ACT_ID"

interpretation TPMS_ACT_DATA_text: text_codec "''TPMS_ACT_DATA''" TPMS_ACT_DATA_Serialize TPMS_ACT_DATA_Deserialize TPMS_ACT_DATA_default TPMS_ACT_DATA_text_ok
proof
  show "word_ok ''TPMS_ACT_DATA''" by (simp add: word_simps)
  fix c x assume ok: "TPMS_ACT_DATA_text_ok c x"
  from ok show "carries c True (TPMS_ACT_DATA_Serialize x) (TPMS_ACT_DATA_Deserialize TPMS_ACT_DATA_default) x"
    by (simp only: TPMS_ACT_DATA_Serialize_def TPMS_ACT_DATA_Deserialize_def TPMS_ACT_DATA_default_def
       TPMS_ACT_DATA.select_convs TPMS_ACT_DATA.update_convs;
      intro TPM_HANDLE_text.as_entry [THEN carries_entry_Cons] carries_body;
      (rule TPMS_ACT_DATA.equality)?; simp add: TPMS_ACT_DATA_text_ok_def word_simps)
qed

end
