(* ===== verification/TextListTypes.thy ===== *)
theory TextListTypes
  imports TextBasicTypes TpmListTypes
begin

text \<open>
  \<^verbatim>\<open>TSS.CPP/Src/TpmTypes.cpp\<close>, the text form of the structures of theory \<open>TpmListTypes\<close>: \<open>X_Serialize\<close> and
  \<open>X_Deserialize\<close> of each class \<open>X\<close>, the values \<open>X_text_ok\<close> that a text of the given kind can carry, and
  the proof that the second method reads what the first one writes (the interpretation \<open>X_text\<close>).
  A class with an array of enumerators has no such interpretation: \<open>readEnumArr\<close> does not read it.
\<close>

subsection \<open>TPML_CC\<close>

definition TPML_CC_Serialize :: "TPML_CC \<Rightarrow> unit ser" where
  "TPML_CC_Serialize self = wseq
     [withN ''commandCodes'' ''TPM_CC[]'' ''count'' ''UINT32'' (ser_writeEnumArr (map ucast (TPML_CC_commandCodes self)) 4 TPM_CC_ID)]"

definition TPML_CC_Deserialize :: "TPML_CC \<Rightarrow> TPML_CC ser" where
  "TPML_CC_Deserialize self =
     sbind (withN ''commandCodes'' ''TPM_CC[]'' ''count'' ''UINT32'' (ser_readEnumArr (TPML_CC_commandCodes self) 4 TPM_CC_ID)) (\<lambda>commandCodes.
     ret (self\<lparr>TPML_CC_commandCodes := commandCodes\<rparr>))"

subsection \<open>TPML_CCA\<close>

definition TPML_CCA_Serialize :: "TPML_CCA \<Rightarrow> unit ser" where
  "TPML_CCA_Serialize self = wseq
     [withN ''commandAttributes'' ''TPMA_CC[]'' ''count'' ''UINT32'' (ser_writeEnumArr (map ucast (TPML_CCA_commandAttributes self)) 4 TPMA_CC_ID)]"

definition TPML_CCA_Deserialize :: "TPML_CCA \<Rightarrow> TPML_CCA ser" where
  "TPML_CCA_Deserialize self =
     sbind (withN ''commandAttributes'' ''TPMA_CC[]'' ''count'' ''UINT32'' (ser_readEnumArr (TPML_CCA_commandAttributes self) 4 TPMA_CC_ID)) (\<lambda>commandAttributes.
     ret (self\<lparr>TPML_CCA_commandAttributes := commandAttributes\<rparr>))"

subsection \<open>TPML_ALG\<close>

definition TPML_ALG_Serialize :: "TPML_ALG \<Rightarrow> unit ser" where
  "TPML_ALG_Serialize self = wseq
     [withN ''algorithms'' ''TPM_ALG_ID[]'' ''count'' ''UINT32'' (ser_writeEnumArr (map ucast (TPML_ALG_algorithms self)) 2 TPM_ALG_ID_ID)]"

definition TPML_ALG_Deserialize :: "TPML_ALG \<Rightarrow> TPML_ALG ser" where
  "TPML_ALG_Deserialize self =
     sbind (withN ''algorithms'' ''TPM_ALG_ID[]'' ''count'' ''UINT32'' (ser_readEnumArr (TPML_ALG_algorithms self) 2 TPM_ALG_ID_ID)) (\<lambda>algorithms.
     ret (self\<lparr>TPML_ALG_algorithms := algorithms\<rparr>))"

subsection \<open>TPML_HANDLE\<close>

definition TPML_HANDLE_Serialize :: "TPML_HANDLE \<Rightarrow> unit ser" where
  "TPML_HANDLE_Serialize self = wseq
     [withN ''handle'' ''TPM_HANDLE[]'' ''count'' ''UINT32'' (ser_writeObjArr ''TPM_HANDLE'' TPM_HANDLE_Serialize (TPML_HANDLE_handle self))]"

definition TPML_HANDLE_Deserialize :: "TPML_HANDLE \<Rightarrow> TPML_HANDLE ser" where
  "TPML_HANDLE_Deserialize self =
     sbind (withN ''handle'' ''TPM_HANDLE[]'' ''count'' ''UINT32'' (ser_readObjArr ''TPM_HANDLE'' TPM_HANDLE_Deserialize TPM_HANDLE_default (TPML_HANDLE_handle self))) (\<lambda>handle.
     ret (self\<lparr>TPML_HANDLE_handle := handle\<rparr>))"

definition TPML_HANDLE_text_ok :: "text_class \<Rightarrow> TPML_HANDLE \<Rightarrow> bool" where
  "TPML_HANDLE_text_ok c x \<longleftrightarrow>
     length (TPML_HANDLE_handle x) < 2 ^ 64 \<and> (\<forall>y \<in> set (TPML_HANDLE_handle x). TPM_HANDLE_text_ok c y)"

interpretation TPML_HANDLE_text: text_codec "''TPML_HANDLE''" TPML_HANDLE_Serialize TPML_HANDLE_Deserialize TPML_HANDLE_default TPML_HANDLE_text_ok
proof
  show "word_ok ''TPML_HANDLE''" by (simp add: word_simps)
  fix c x assume ok: "TPML_HANDLE_text_ok c x"
  from ok show "carries c True (TPML_HANDLE_Serialize x) (TPML_HANDLE_Deserialize TPML_HANDLE_default) x"
    by (simp only: TPML_HANDLE_Serialize_def TPML_HANDLE_Deserialize_def TPML_HANDLE_default_def
       TPML_HANDLE.select_convs TPML_HANDLE.update_convs;
      intro TPM_HANDLE_text.as_elements [THEN carries_entry_Cons] carries_body;
      (rule TPML_HANDLE.equality)?; simp add: TPML_HANDLE_text_ok_def word_simps)
qed

subsection \<open>TPML_DIGEST\<close>

definition TPML_DIGEST_Serialize :: "TPML_DIGEST \<Rightarrow> unit ser" where
  "TPML_DIGEST_Serialize self = wseq
     [withN ''digests'' ''TPM2B_DIGEST[]'' ''count'' ''UINT32'' (ser_writeObjArr ''TPM2B_DIGEST'' TPM2B_DIGEST_Serialize (TPML_DIGEST_digests self))]"

definition TPML_DIGEST_Deserialize :: "TPML_DIGEST \<Rightarrow> TPML_DIGEST ser" where
  "TPML_DIGEST_Deserialize self =
     sbind (withN ''digests'' ''TPM2B_DIGEST[]'' ''count'' ''UINT32'' (ser_readObjArr ''TPM2B_DIGEST'' TPM2B_DIGEST_Deserialize TPM2B_DIGEST_default (TPML_DIGEST_digests self))) (\<lambda>digests.
     ret (self\<lparr>TPML_DIGEST_digests := digests\<rparr>))"

definition TPML_DIGEST_text_ok :: "text_class \<Rightarrow> TPML_DIGEST \<Rightarrow> bool" where
  "TPML_DIGEST_text_ok c x \<longleftrightarrow>
     length (TPML_DIGEST_digests x) < 2 ^ 64 \<and> (\<forall>y \<in> set (TPML_DIGEST_digests x). TPM2B_DIGEST_text_ok c y)"

interpretation TPML_DIGEST_text: text_codec "''TPML_DIGEST''" TPML_DIGEST_Serialize TPML_DIGEST_Deserialize TPML_DIGEST_default TPML_DIGEST_text_ok
proof
  show "word_ok ''TPML_DIGEST''" by (simp add: word_simps)
  fix c x assume ok: "TPML_DIGEST_text_ok c x"
  from ok show "carries c True (TPML_DIGEST_Serialize x) (TPML_DIGEST_Deserialize TPML_DIGEST_default) x"
    by (simp only: TPML_DIGEST_Serialize_def TPML_DIGEST_Deserialize_def TPML_DIGEST_default_def
       TPML_DIGEST.select_convs TPML_DIGEST.update_convs;
      intro TPM2B_DIGEST_text.as_elements [THEN carries_entry_Cons] carries_body;
      (rule TPML_DIGEST.equality)?; simp add: TPML_DIGEST_text_ok_def word_simps)
qed

subsection \<open>TPML_DIGEST_VALUES\<close>

definition TPML_DIGEST_VALUES_Serialize :: "TPML_DIGEST_VALUES \<Rightarrow> unit ser" where
  "TPML_DIGEST_VALUES_Serialize self = wseq
     [withN ''digests'' ''TPMT_HA[]'' ''count'' ''UINT32'' (ser_writeObjArr ''TPMT_HA'' TPMT_HA_Serialize (TPML_DIGEST_VALUES_digests self))]"

definition TPML_DIGEST_VALUES_Deserialize :: "TPML_DIGEST_VALUES \<Rightarrow> TPML_DIGEST_VALUES ser" where
  "TPML_DIGEST_VALUES_Deserialize self =
     sbind (withN ''digests'' ''TPMT_HA[]'' ''count'' ''UINT32'' (ser_readObjArr ''TPMT_HA'' TPMT_HA_Deserialize TPMT_HA_default (TPML_DIGEST_VALUES_digests self))) (\<lambda>digests.
     ret (self\<lparr>TPML_DIGEST_VALUES_digests := digests\<rparr>))"

definition TPML_DIGEST_VALUES_text_ok :: "text_class \<Rightarrow> TPML_DIGEST_VALUES \<Rightarrow> bool" where
  "TPML_DIGEST_VALUES_text_ok c x \<longleftrightarrow>
     length (TPML_DIGEST_VALUES_digests x) < 2 ^ 64 \<and> (\<forall>y \<in> set (TPML_DIGEST_VALUES_digests x). TPMT_HA_text_ok c y)"

interpretation TPML_DIGEST_VALUES_text: text_codec "''TPML_DIGEST_VALUES''" TPML_DIGEST_VALUES_Serialize TPML_DIGEST_VALUES_Deserialize TPML_DIGEST_VALUES_default TPML_DIGEST_VALUES_text_ok
proof
  show "word_ok ''TPML_DIGEST_VALUES''" by (simp add: word_simps)
  fix c x assume ok: "TPML_DIGEST_VALUES_text_ok c x"
  from ok show "carries c True (TPML_DIGEST_VALUES_Serialize x) (TPML_DIGEST_VALUES_Deserialize TPML_DIGEST_VALUES_default) x"
    by (simp only: TPML_DIGEST_VALUES_Serialize_def TPML_DIGEST_VALUES_Deserialize_def TPML_DIGEST_VALUES_default_def
       TPML_DIGEST_VALUES.select_convs TPML_DIGEST_VALUES.update_convs;
      intro TPMT_HA_text.as_elements [THEN carries_entry_Cons] carries_body;
      (rule TPML_DIGEST_VALUES.equality)?; simp add: TPML_DIGEST_VALUES_text_ok_def word_simps)
qed

subsection \<open>TPML_PCR_SELECTION\<close>

definition TPML_PCR_SELECTION_Serialize :: "TPML_PCR_SELECTION \<Rightarrow> unit ser" where
  "TPML_PCR_SELECTION_Serialize self = wseq
     [withN ''pcrSelections'' ''TPMS_PCR_SELECTION[]'' ''count'' ''UINT32'' (ser_writeObjArr ''TPMS_PCR_SELECTION'' TPMS_PCR_SELECTION_Serialize (TPML_PCR_SELECTION_pcrSelections self))]"

definition TPML_PCR_SELECTION_Deserialize :: "TPML_PCR_SELECTION \<Rightarrow> TPML_PCR_SELECTION ser" where
  "TPML_PCR_SELECTION_Deserialize self =
     sbind (withN ''pcrSelections'' ''TPMS_PCR_SELECTION[]'' ''count'' ''UINT32'' (ser_readObjArr ''TPMS_PCR_SELECTION'' TPMS_PCR_SELECTION_Deserialize TPMS_PCR_SELECTION_default (TPML_PCR_SELECTION_pcrSelections self))) (\<lambda>pcrSelections.
     ret (self\<lparr>TPML_PCR_SELECTION_pcrSelections := pcrSelections\<rparr>))"

definition TPML_PCR_SELECTION_text_ok :: "text_class \<Rightarrow> TPML_PCR_SELECTION \<Rightarrow> bool" where
  "TPML_PCR_SELECTION_text_ok c x \<longleftrightarrow>
     length (TPML_PCR_SELECTION_pcrSelections x) < 2 ^ 64 \<and> (\<forall>y \<in> set (TPML_PCR_SELECTION_pcrSelections x). TPMS_PCR_SELECTION_text_ok c y)"

interpretation TPML_PCR_SELECTION_text: text_codec "''TPML_PCR_SELECTION''" TPML_PCR_SELECTION_Serialize TPML_PCR_SELECTION_Deserialize TPML_PCR_SELECTION_default TPML_PCR_SELECTION_text_ok
proof
  show "word_ok ''TPML_PCR_SELECTION''" by (simp add: word_simps)
  fix c x assume ok: "TPML_PCR_SELECTION_text_ok c x"
  from ok show "carries c True (TPML_PCR_SELECTION_Serialize x) (TPML_PCR_SELECTION_Deserialize TPML_PCR_SELECTION_default) x"
    by (simp only: TPML_PCR_SELECTION_Serialize_def TPML_PCR_SELECTION_Deserialize_def TPML_PCR_SELECTION_default_def
       TPML_PCR_SELECTION.select_convs TPML_PCR_SELECTION.update_convs;
      intro TPMS_PCR_SELECTION_text.as_elements [THEN carries_entry_Cons] carries_body;
      (rule TPML_PCR_SELECTION.equality)?; simp add: TPML_PCR_SELECTION_text_ok_def word_simps)
qed

subsection \<open>TPML_ALG_PROPERTY\<close>

definition TPML_ALG_PROPERTY_Serialize :: "TPML_ALG_PROPERTY \<Rightarrow> unit ser" where
  "TPML_ALG_PROPERTY_Serialize self = wseq
     [withN ''algProperties'' ''TPMS_ALG_PROPERTY[]'' ''count'' ''UINT32'' (ser_writeObjArr ''TPMS_ALG_PROPERTY'' TPMS_ALG_PROPERTY_Serialize (TPML_ALG_PROPERTY_algProperties self))]"

definition TPML_ALG_PROPERTY_Deserialize :: "TPML_ALG_PROPERTY \<Rightarrow> TPML_ALG_PROPERTY ser" where
  "TPML_ALG_PROPERTY_Deserialize self =
     sbind (withN ''algProperties'' ''TPMS_ALG_PROPERTY[]'' ''count'' ''UINT32'' (ser_readObjArr ''TPMS_ALG_PROPERTY'' TPMS_ALG_PROPERTY_Deserialize TPMS_ALG_PROPERTY_default (TPML_ALG_PROPERTY_algProperties self))) (\<lambda>algProperties.
     ret (self\<lparr>TPML_ALG_PROPERTY_algProperties := algProperties\<rparr>))"

definition TPML_ALG_PROPERTY_text_ok :: "text_class \<Rightarrow> TPML_ALG_PROPERTY \<Rightarrow> bool" where
  "TPML_ALG_PROPERTY_text_ok c x \<longleftrightarrow>
     length (TPML_ALG_PROPERTY_algProperties x) < 2 ^ 64 \<and> (\<forall>y \<in> set (TPML_ALG_PROPERTY_algProperties x). TPMS_ALG_PROPERTY_text_ok c y)"

interpretation TPML_ALG_PROPERTY_text: text_codec "''TPML_ALG_PROPERTY''" TPML_ALG_PROPERTY_Serialize TPML_ALG_PROPERTY_Deserialize TPML_ALG_PROPERTY_default TPML_ALG_PROPERTY_text_ok
proof
  show "word_ok ''TPML_ALG_PROPERTY''" by (simp add: word_simps)
  fix c x assume ok: "TPML_ALG_PROPERTY_text_ok c x"
  from ok show "carries c True (TPML_ALG_PROPERTY_Serialize x) (TPML_ALG_PROPERTY_Deserialize TPML_ALG_PROPERTY_default) x"
    by (simp only: TPML_ALG_PROPERTY_Serialize_def TPML_ALG_PROPERTY_Deserialize_def TPML_ALG_PROPERTY_default_def
       TPML_ALG_PROPERTY.select_convs TPML_ALG_PROPERTY.update_convs;
      intro TPMS_ALG_PROPERTY_text.as_elements [THEN carries_entry_Cons] carries_body;
      (rule TPML_ALG_PROPERTY.equality)?; simp add: TPML_ALG_PROPERTY_text_ok_def word_simps)
qed

subsection \<open>TPML_TAGGED_TPM_PROPERTY\<close>

definition TPML_TAGGED_TPM_PROPERTY_Serialize :: "TPML_TAGGED_TPM_PROPERTY \<Rightarrow> unit ser" where
  "TPML_TAGGED_TPM_PROPERTY_Serialize self = wseq
     [withN ''tpmProperty'' ''TPMS_TAGGED_PROPERTY[]'' ''count'' ''UINT32'' (ser_writeObjArr ''TPMS_TAGGED_PROPERTY'' TPMS_TAGGED_PROPERTY_Serialize (TPML_TAGGED_TPM_PROPERTY_tpmProperty self))]"

definition TPML_TAGGED_TPM_PROPERTY_Deserialize :: "TPML_TAGGED_TPM_PROPERTY \<Rightarrow> TPML_TAGGED_TPM_PROPERTY ser" where
  "TPML_TAGGED_TPM_PROPERTY_Deserialize self =
     sbind (withN ''tpmProperty'' ''TPMS_TAGGED_PROPERTY[]'' ''count'' ''UINT32'' (ser_readObjArr ''TPMS_TAGGED_PROPERTY'' TPMS_TAGGED_PROPERTY_Deserialize TPMS_TAGGED_PROPERTY_default (TPML_TAGGED_TPM_PROPERTY_tpmProperty self))) (\<lambda>tpmProperty.
     ret (self\<lparr>TPML_TAGGED_TPM_PROPERTY_tpmProperty := tpmProperty\<rparr>))"

definition TPML_TAGGED_TPM_PROPERTY_text_ok :: "text_class \<Rightarrow> TPML_TAGGED_TPM_PROPERTY \<Rightarrow> bool" where
  "TPML_TAGGED_TPM_PROPERTY_text_ok c x \<longleftrightarrow>
     length (TPML_TAGGED_TPM_PROPERTY_tpmProperty x) < 2 ^ 64 \<and> (\<forall>y \<in> set (TPML_TAGGED_TPM_PROPERTY_tpmProperty x). TPMS_TAGGED_PROPERTY_text_ok c y)"

interpretation TPML_TAGGED_TPM_PROPERTY_text: text_codec "''TPML_TAGGED_TPM_PROPERTY''" TPML_TAGGED_TPM_PROPERTY_Serialize TPML_TAGGED_TPM_PROPERTY_Deserialize TPML_TAGGED_TPM_PROPERTY_default TPML_TAGGED_TPM_PROPERTY_text_ok
proof
  show "word_ok ''TPML_TAGGED_TPM_PROPERTY''" by (simp add: word_simps)
  fix c x assume ok: "TPML_TAGGED_TPM_PROPERTY_text_ok c x"
  from ok show "carries c True (TPML_TAGGED_TPM_PROPERTY_Serialize x) (TPML_TAGGED_TPM_PROPERTY_Deserialize TPML_TAGGED_TPM_PROPERTY_default) x"
    by (simp only: TPML_TAGGED_TPM_PROPERTY_Serialize_def TPML_TAGGED_TPM_PROPERTY_Deserialize_def TPML_TAGGED_TPM_PROPERTY_default_def
       TPML_TAGGED_TPM_PROPERTY.select_convs TPML_TAGGED_TPM_PROPERTY.update_convs;
      intro TPMS_TAGGED_PROPERTY_text.as_elements [THEN carries_entry_Cons] carries_body;
      (rule TPML_TAGGED_TPM_PROPERTY.equality)?; simp add: TPML_TAGGED_TPM_PROPERTY_text_ok_def word_simps)
qed

subsection \<open>TPML_TAGGED_PCR_PROPERTY\<close>

definition TPML_TAGGED_PCR_PROPERTY_Serialize :: "TPML_TAGGED_PCR_PROPERTY \<Rightarrow> unit ser" where
  "TPML_TAGGED_PCR_PROPERTY_Serialize self = wseq
     [withN ''pcrProperty'' ''TPMS_TAGGED_PCR_SELECT[]'' ''count'' ''UINT32'' (ser_writeObjArr ''TPMS_TAGGED_PCR_SELECT'' TPMS_TAGGED_PCR_SELECT_Serialize (TPML_TAGGED_PCR_PROPERTY_pcrProperty self))]"

definition TPML_TAGGED_PCR_PROPERTY_Deserialize :: "TPML_TAGGED_PCR_PROPERTY \<Rightarrow> TPML_TAGGED_PCR_PROPERTY ser" where
  "TPML_TAGGED_PCR_PROPERTY_Deserialize self =
     sbind (withN ''pcrProperty'' ''TPMS_TAGGED_PCR_SELECT[]'' ''count'' ''UINT32'' (ser_readObjArr ''TPMS_TAGGED_PCR_SELECT'' TPMS_TAGGED_PCR_SELECT_Deserialize TPMS_TAGGED_PCR_SELECT_default (TPML_TAGGED_PCR_PROPERTY_pcrProperty self))) (\<lambda>pcrProperty.
     ret (self\<lparr>TPML_TAGGED_PCR_PROPERTY_pcrProperty := pcrProperty\<rparr>))"

definition TPML_TAGGED_PCR_PROPERTY_text_ok :: "text_class \<Rightarrow> TPML_TAGGED_PCR_PROPERTY \<Rightarrow> bool" where
  "TPML_TAGGED_PCR_PROPERTY_text_ok c x \<longleftrightarrow>
     length (TPML_TAGGED_PCR_PROPERTY_pcrProperty x) < 2 ^ 64 \<and> (\<forall>y \<in> set (TPML_TAGGED_PCR_PROPERTY_pcrProperty x). TPMS_TAGGED_PCR_SELECT_text_ok c y)"

interpretation TPML_TAGGED_PCR_PROPERTY_text: text_codec "''TPML_TAGGED_PCR_PROPERTY''" TPML_TAGGED_PCR_PROPERTY_Serialize TPML_TAGGED_PCR_PROPERTY_Deserialize TPML_TAGGED_PCR_PROPERTY_default TPML_TAGGED_PCR_PROPERTY_text_ok
proof
  show "word_ok ''TPML_TAGGED_PCR_PROPERTY''" by (simp add: word_simps)
  fix c x assume ok: "TPML_TAGGED_PCR_PROPERTY_text_ok c x"
  from ok show "carries c True (TPML_TAGGED_PCR_PROPERTY_Serialize x) (TPML_TAGGED_PCR_PROPERTY_Deserialize TPML_TAGGED_PCR_PROPERTY_default) x"
    by (simp only: TPML_TAGGED_PCR_PROPERTY_Serialize_def TPML_TAGGED_PCR_PROPERTY_Deserialize_def TPML_TAGGED_PCR_PROPERTY_default_def
       TPML_TAGGED_PCR_PROPERTY.select_convs TPML_TAGGED_PCR_PROPERTY.update_convs;
      intro TPMS_TAGGED_PCR_SELECT_text.as_elements [THEN carries_entry_Cons] carries_body;
      (rule TPML_TAGGED_PCR_PROPERTY.equality)?; simp add: TPML_TAGGED_PCR_PROPERTY_text_ok_def word_simps)
qed

subsection \<open>TPML_ECC_CURVE\<close>

definition TPML_ECC_CURVE_Serialize :: "TPML_ECC_CURVE \<Rightarrow> unit ser" where
  "TPML_ECC_CURVE_Serialize self = wseq
     [withN ''eccCurves'' ''TPM_ECC_CURVE[]'' ''count'' ''UINT32'' (ser_writeEnumArr (map ucast (TPML_ECC_CURVE_eccCurves self)) 2 TPM_ECC_CURVE_ID)]"

definition TPML_ECC_CURVE_Deserialize :: "TPML_ECC_CURVE \<Rightarrow> TPML_ECC_CURVE ser" where
  "TPML_ECC_CURVE_Deserialize self =
     sbind (withN ''eccCurves'' ''TPM_ECC_CURVE[]'' ''count'' ''UINT32'' (ser_readEnumArr (TPML_ECC_CURVE_eccCurves self) 2 TPM_ECC_CURVE_ID)) (\<lambda>eccCurves.
     ret (self\<lparr>TPML_ECC_CURVE_eccCurves := eccCurves\<rparr>))"

subsection \<open>TPML_TAGGED_POLICY\<close>

definition TPML_TAGGED_POLICY_Serialize :: "TPML_TAGGED_POLICY \<Rightarrow> unit ser" where
  "TPML_TAGGED_POLICY_Serialize self = wseq
     [withN ''policies'' ''TPMS_TAGGED_POLICY[]'' ''count'' ''UINT32'' (ser_writeObjArr ''TPMS_TAGGED_POLICY'' TPMS_TAGGED_POLICY_Serialize (TPML_TAGGED_POLICY_policies self))]"

definition TPML_TAGGED_POLICY_Deserialize :: "TPML_TAGGED_POLICY \<Rightarrow> TPML_TAGGED_POLICY ser" where
  "TPML_TAGGED_POLICY_Deserialize self =
     sbind (withN ''policies'' ''TPMS_TAGGED_POLICY[]'' ''count'' ''UINT32'' (ser_readObjArr ''TPMS_TAGGED_POLICY'' TPMS_TAGGED_POLICY_Deserialize TPMS_TAGGED_POLICY_default (TPML_TAGGED_POLICY_policies self))) (\<lambda>policies.
     ret (self\<lparr>TPML_TAGGED_POLICY_policies := policies\<rparr>))"

definition TPML_TAGGED_POLICY_text_ok :: "text_class \<Rightarrow> TPML_TAGGED_POLICY \<Rightarrow> bool" where
  "TPML_TAGGED_POLICY_text_ok c x \<longleftrightarrow>
     length (TPML_TAGGED_POLICY_policies x) < 2 ^ 64 \<and> (\<forall>y \<in> set (TPML_TAGGED_POLICY_policies x). TPMS_TAGGED_POLICY_text_ok c y)"

interpretation TPML_TAGGED_POLICY_text: text_codec "''TPML_TAGGED_POLICY''" TPML_TAGGED_POLICY_Serialize TPML_TAGGED_POLICY_Deserialize TPML_TAGGED_POLICY_default TPML_TAGGED_POLICY_text_ok
proof
  show "word_ok ''TPML_TAGGED_POLICY''" by (simp add: word_simps)
  fix c x assume ok: "TPML_TAGGED_POLICY_text_ok c x"
  from ok show "carries c True (TPML_TAGGED_POLICY_Serialize x) (TPML_TAGGED_POLICY_Deserialize TPML_TAGGED_POLICY_default) x"
    by (simp only: TPML_TAGGED_POLICY_Serialize_def TPML_TAGGED_POLICY_Deserialize_def TPML_TAGGED_POLICY_default_def
       TPML_TAGGED_POLICY.select_convs TPML_TAGGED_POLICY.update_convs;
      intro TPMS_TAGGED_POLICY_text.as_elements [THEN carries_entry_Cons] carries_body;
      (rule TPML_TAGGED_POLICY.equality)?; simp add: TPML_TAGGED_POLICY_text_ok_def word_simps)
qed

subsection \<open>TPML_ACT_DATA\<close>

definition TPML_ACT_DATA_Serialize :: "TPML_ACT_DATA \<Rightarrow> unit ser" where
  "TPML_ACT_DATA_Serialize self = wseq
     [withN ''actData'' ''TPMS_ACT_DATA[]'' ''count'' ''UINT32'' (ser_writeObjArr ''TPMS_ACT_DATA'' TPMS_ACT_DATA_Serialize (TPML_ACT_DATA_actData self))]"

definition TPML_ACT_DATA_Deserialize :: "TPML_ACT_DATA \<Rightarrow> TPML_ACT_DATA ser" where
  "TPML_ACT_DATA_Deserialize self =
     sbind (withN ''actData'' ''TPMS_ACT_DATA[]'' ''count'' ''UINT32'' (ser_readObjArr ''TPMS_ACT_DATA'' TPMS_ACT_DATA_Deserialize TPMS_ACT_DATA_default (TPML_ACT_DATA_actData self))) (\<lambda>actData.
     ret (self\<lparr>TPML_ACT_DATA_actData := actData\<rparr>))"

definition TPML_ACT_DATA_text_ok :: "text_class \<Rightarrow> TPML_ACT_DATA \<Rightarrow> bool" where
  "TPML_ACT_DATA_text_ok c x \<longleftrightarrow>
     length (TPML_ACT_DATA_actData x) < 2 ^ 64 \<and> (\<forall>y \<in> set (TPML_ACT_DATA_actData x). TPMS_ACT_DATA_text_ok c y)"

interpretation TPML_ACT_DATA_text: text_codec "''TPML_ACT_DATA''" TPML_ACT_DATA_Serialize TPML_ACT_DATA_Deserialize TPML_ACT_DATA_default TPML_ACT_DATA_text_ok
proof
  show "word_ok ''TPML_ACT_DATA''" by (simp add: word_simps)
  fix c x assume ok: "TPML_ACT_DATA_text_ok c x"
  from ok show "carries c True (TPML_ACT_DATA_Serialize x) (TPML_ACT_DATA_Deserialize TPML_ACT_DATA_default) x"
    by (simp only: TPML_ACT_DATA_Serialize_def TPML_ACT_DATA_Deserialize_def TPML_ACT_DATA_default_def
       TPML_ACT_DATA.select_convs TPML_ACT_DATA.update_convs;
      intro TPMS_ACT_DATA_text.as_elements [THEN carries_entry_Cons] carries_body;
      (rule TPML_ACT_DATA.equality)?; simp add: TPML_ACT_DATA_text_ok_def word_simps)
qed

subsection \<open>The union TPMU_CAPABILITIES\<close>

fun TPMU_CAPABILITIES_TypeName :: "TPMU_CAPABILITIES \<Rightarrow> string" where
  "TPMU_CAPABILITIES_TypeName (CAPABILITIES_TPML_ALG_PROPERTY _) = ''TPML_ALG_PROPERTY''"
| "TPMU_CAPABILITIES_TypeName (CAPABILITIES_TPML_HANDLE _) = ''TPML_HANDLE''"
| "TPMU_CAPABILITIES_TypeName (CAPABILITIES_TPML_CCA _) = ''TPML_CCA''"
| "TPMU_CAPABILITIES_TypeName (CAPABILITIES_TPML_CC _) = ''TPML_CC''"
| "TPMU_CAPABILITIES_TypeName (CAPABILITIES_TPML_PCR_SELECTION _) = ''TPML_PCR_SELECTION''"
| "TPMU_CAPABILITIES_TypeName (CAPABILITIES_TPML_TAGGED_TPM_PROPERTY _) = ''TPML_TAGGED_TPM_PROPERTY''"
| "TPMU_CAPABILITIES_TypeName (CAPABILITIES_TPML_TAGGED_PCR_PROPERTY _) = ''TPML_TAGGED_PCR_PROPERTY''"
| "TPMU_CAPABILITIES_TypeName (CAPABILITIES_TPML_ECC_CURVE _) = ''TPML_ECC_CURVE''"
| "TPMU_CAPABILITIES_TypeName (CAPABILITIES_TPML_TAGGED_POLICY _) = ''TPML_TAGGED_POLICY''"
| "TPMU_CAPABILITIES_TypeName (CAPABILITIES_TPML_ACT_DATA _) = ''TPML_ACT_DATA''"

fun TPMU_CAPABILITIES_Serialize :: "TPMU_CAPABILITIES \<Rightarrow> unit ser" where
  "TPMU_CAPABILITIES_Serialize (CAPABILITIES_TPML_ALG_PROPERTY x) = TPML_ALG_PROPERTY_Serialize x"
| "TPMU_CAPABILITIES_Serialize (CAPABILITIES_TPML_HANDLE x) = TPML_HANDLE_Serialize x"
| "TPMU_CAPABILITIES_Serialize (CAPABILITIES_TPML_CCA x) = TPML_CCA_Serialize x"
| "TPMU_CAPABILITIES_Serialize (CAPABILITIES_TPML_CC x) = TPML_CC_Serialize x"
| "TPMU_CAPABILITIES_Serialize (CAPABILITIES_TPML_PCR_SELECTION x) = TPML_PCR_SELECTION_Serialize x"
| "TPMU_CAPABILITIES_Serialize (CAPABILITIES_TPML_TAGGED_TPM_PROPERTY x) = TPML_TAGGED_TPM_PROPERTY_Serialize x"
| "TPMU_CAPABILITIES_Serialize (CAPABILITIES_TPML_TAGGED_PCR_PROPERTY x) = TPML_TAGGED_PCR_PROPERTY_Serialize x"
| "TPMU_CAPABILITIES_Serialize (CAPABILITIES_TPML_ECC_CURVE x) = TPML_ECC_CURVE_Serialize x"
| "TPMU_CAPABILITIES_Serialize (CAPABILITIES_TPML_TAGGED_POLICY x) = TPML_TAGGED_POLICY_Serialize x"
| "TPMU_CAPABILITIES_Serialize (CAPABILITIES_TPML_ACT_DATA x) = TPML_ACT_DATA_Serialize x"

fun TPMU_CAPABILITIES_Deserialize :: "TPMU_CAPABILITIES \<Rightarrow> TPMU_CAPABILITIES ser" where
  "TPMU_CAPABILITIES_Deserialize (CAPABILITIES_TPML_ALG_PROPERTY x) = sbind (TPML_ALG_PROPERTY_Deserialize x) (\<lambda>y. ret (CAPABILITIES_TPML_ALG_PROPERTY y))"
| "TPMU_CAPABILITIES_Deserialize (CAPABILITIES_TPML_HANDLE x) = sbind (TPML_HANDLE_Deserialize x) (\<lambda>y. ret (CAPABILITIES_TPML_HANDLE y))"
| "TPMU_CAPABILITIES_Deserialize (CAPABILITIES_TPML_CCA x) = sbind (TPML_CCA_Deserialize x) (\<lambda>y. ret (CAPABILITIES_TPML_CCA y))"
| "TPMU_CAPABILITIES_Deserialize (CAPABILITIES_TPML_CC x) = sbind (TPML_CC_Deserialize x) (\<lambda>y. ret (CAPABILITIES_TPML_CC y))"
| "TPMU_CAPABILITIES_Deserialize (CAPABILITIES_TPML_PCR_SELECTION x) = sbind (TPML_PCR_SELECTION_Deserialize x) (\<lambda>y. ret (CAPABILITIES_TPML_PCR_SELECTION y))"
| "TPMU_CAPABILITIES_Deserialize (CAPABILITIES_TPML_TAGGED_TPM_PROPERTY x) = sbind (TPML_TAGGED_TPM_PROPERTY_Deserialize x) (\<lambda>y. ret (CAPABILITIES_TPML_TAGGED_TPM_PROPERTY y))"
| "TPMU_CAPABILITIES_Deserialize (CAPABILITIES_TPML_TAGGED_PCR_PROPERTY x) = sbind (TPML_TAGGED_PCR_PROPERTY_Deserialize x) (\<lambda>y. ret (CAPABILITIES_TPML_TAGGED_PCR_PROPERTY y))"
| "TPMU_CAPABILITIES_Deserialize (CAPABILITIES_TPML_ECC_CURVE x) = sbind (TPML_ECC_CURVE_Deserialize x) (\<lambda>y. ret (CAPABILITIES_TPML_ECC_CURVE y))"
| "TPMU_CAPABILITIES_Deserialize (CAPABILITIES_TPML_TAGGED_POLICY x) = sbind (TPML_TAGGED_POLICY_Deserialize x) (\<lambda>y. ret (CAPABILITIES_TPML_TAGGED_POLICY y))"
| "TPMU_CAPABILITIES_Deserialize (CAPABILITIES_TPML_ACT_DATA x) = sbind (TPML_ACT_DATA_Deserialize x) (\<lambda>y. ret (CAPABILITIES_TPML_ACT_DATA y))"

fun TPMU_CAPABILITIES_text_ok :: "text_class \<Rightarrow> TPMU_CAPABILITIES \<Rightarrow> bool" where
  "TPMU_CAPABILITIES_text_ok _ (CAPABILITIES_TPML_ALG_PROPERTY _) = False"
| "TPMU_CAPABILITIES_text_ok c (CAPABILITIES_TPML_HANDLE x) = TPML_HANDLE_text_ok c x"
| "TPMU_CAPABILITIES_text_ok _ (CAPABILITIES_TPML_CCA _) = False"
| "TPMU_CAPABILITIES_text_ok _ (CAPABILITIES_TPML_CC _) = False"
| "TPMU_CAPABILITIES_text_ok c (CAPABILITIES_TPML_PCR_SELECTION x) = TPML_PCR_SELECTION_text_ok c x"
| "TPMU_CAPABILITIES_text_ok c (CAPABILITIES_TPML_TAGGED_TPM_PROPERTY x) = TPML_TAGGED_TPM_PROPERTY_text_ok c x"
| "TPMU_CAPABILITIES_text_ok c (CAPABILITIES_TPML_TAGGED_PCR_PROPERTY x) = TPML_TAGGED_PCR_PROPERTY_text_ok c x"
| "TPMU_CAPABILITIES_text_ok _ (CAPABILITIES_TPML_ECC_CURVE _) = False"
| "TPMU_CAPABILITIES_text_ok c (CAPABILITIES_TPML_TAGGED_POLICY x) = TPML_TAGGED_POLICY_text_ok c x"
| "TPMU_CAPABILITIES_text_ok c (CAPABILITIES_TPML_ACT_DATA x) = TPML_ACT_DATA_text_ok c x"

interpretation TPMU_CAPABILITIES_text: text_union TPMU_CAPABILITIES_TypeName TPMU_CAPABILITIES_Serialize TPMU_CAPABILITIES_Deserialize TPMU_CAPABILITIES_fresh
    TPMU_CAPABILITIES_GetUnionSelector UnionFactory_Create_TPMU_CAPABILITIES TPMU_CAPABILITIES_text_ok
proof
  fix u :: TPMU_CAPABILITIES and c
  show "word_ok (TPMU_CAPABILITIES_TypeName u)" by (cases u) (simp_all add: word_simps)
  show "TPMU_CAPABILITIES_TypeName (TPMU_CAPABILITIES_fresh u) = TPMU_CAPABILITIES_TypeName u" by (cases u) simp_all
  show "TPMU_CAPABILITIES_text_ok c u \<Longrightarrow> carries c False (TPMU_CAPABILITIES_Serialize u) (TPMU_CAPABILITIES_Deserialize (TPMU_CAPABILITIES_fresh u)) u"
    by (cases u) (simp_all add: carries_nothing TPML_ACT_DATA_text.carried [THEN carries_member] TPML_HANDLE_text.carried [THEN carries_member] TPML_PCR_SELECTION_text.carried [THEN carries_member] TPML_TAGGED_PCR_PROPERTY_text.carried [THEN carries_member] TPML_TAGGED_POLICY_text.carried [THEN carries_member] TPML_TAGGED_TPM_PROPERTY_text.carried [THEN carries_member])
  show "TPMU_CAPABILITIES_text_ok c u \<Longrightarrow> TPMU_CAPABILITIES_GetUnionSelector u \<noteq> 0 \<and>
      UnionFactory_Create_TPMU_CAPABILITIES (TPMU_CAPABILITIES_GetUnionSelector u) = Ok (Some (TPMU_CAPABILITIES_fresh u))"
    by (cases u) (simp_all add: UnionFactory_Create_TPMU_CAPABILITIES_def)
qed

subsection \<open>TPMS_CAPABILITY_DATA\<close>

definition TPMS_CAPABILITY_DATA_Serialize :: "TPMS_CAPABILITY_DATA \<Rightarrow> unit ser" where
  "TPMS_CAPABILITY_DATA_Serialize self = wseq
     [withN ''capability'' ''TPM_CAP'' '''' '''' (ser_writeEnumT (selector_or 0 TPMU_CAPABILITIES_GetUnionSelector (TPMS_CAPABILITY_DATA_data self)) TPM_CAP_ID),
      if_set (TPMS_CAPABILITY_DATA_data self) (\<lambda>u. withN ''data'' ''TPMU_CAPABILITIES'' '''' '''' (ser_writeObj (TPMU_CAPABILITIES_TypeName u) (TPMU_CAPABILITIES_Serialize u)))]"

definition TPMS_CAPABILITY_DATA_Deserialize :: "TPMS_CAPABILITY_DATA \<Rightarrow> TPMS_CAPABILITY_DATA ser" where
  "TPMS_CAPABILITY_DATA_Deserialize self =
     sbind (withN ''capability'' ''TPM_CAP'' '''' '''' (ser_readEnumT TPM_CAP_ID)) (\<lambda>capability.
     sbind (reset_or_create UnionFactory_Create_TPMU_CAPABILITIES capability) (\<lambda>data.
     sbind (read_if_set data (\<lambda>u. withN ''data'' ''TPMU_CAPABILITIES'' '''' '''' (ser_readObj (TPMU_CAPABILITIES_TypeName u) (TPMU_CAPABILITIES_Deserialize u)))) (\<lambda>data.
     ret (self\<lparr>TPMS_CAPABILITY_DATA_data := data\<rparr>))))"

definition TPMS_CAPABILITY_DATA_text_ok :: "text_class \<Rightarrow> TPMS_CAPABILITY_DATA \<Rightarrow> bool" where
  "TPMS_CAPABILITY_DATA_text_ok c x \<longleftrightarrow>
     enum_ok c (ucast (selector_or 0 TPMU_CAPABILITIES_GetUnionSelector (TPMS_CAPABILITY_DATA_data x))) TPM_CAP_ID \<and>
     if_set_ok (TPMU_CAPABILITIES_text_ok c) (TPMS_CAPABILITY_DATA_data x)"

interpretation TPMS_CAPABILITY_DATA_text: text_codec "''TPMS_CAPABILITY_DATA''" TPMS_CAPABILITY_DATA_Serialize TPMS_CAPABILITY_DATA_Deserialize TPMS_CAPABILITY_DATA_default TPMS_CAPABILITY_DATA_text_ok
proof
  show "word_ok ''TPMS_CAPABILITY_DATA''" by (simp add: word_simps)
  fix c x assume ok: "TPMS_CAPABILITY_DATA_text_ok c x"
  from ok show "carries c True (TPMS_CAPABILITY_DATA_Serialize x) (TPMS_CAPABILITY_DATA_Deserialize TPMS_CAPABILITY_DATA_default) x"
    by (simp only: TPMS_CAPABILITY_DATA_Serialize_def TPMS_CAPABILITY_DATA_Deserialize_def TPMS_CAPABILITY_DATA_default_def
       TPMS_CAPABILITY_DATA.select_convs TPMS_CAPABILITY_DATA.update_convs;
      intro TPMU_CAPABILITIES_text.as_member [THEN carries_member_Cons] TPMU_CAPABILITIES_text.member_created [of c, THEN carries_create] carries_body;
      (rule TPMS_CAPABILITY_DATA.equality)?; simp add: TPMS_CAPABILITY_DATA_text_ok_def word_simps)
qed

end
