(* ===== verification/TextAttestTypes.thy ===== *)
theory TextAttestTypes
  imports TextListTypes TpmAttestTypes
begin

text \<open>
  \<^verbatim>\<open>TSS.CPP/Src/TpmTypes.cpp\<close>, the text form of the structures of theory \<open>TpmAttestTypes\<close>: \<open>X_Serialize\<close> and
  \<open>X_Deserialize\<close> of each class \<open>X\<close>, the values \<open>X_text_ok\<close> that a text of the given kind can carry, and
  the proof that the second method reads what the first one writes (the interpretation \<open>X_text\<close>).
  A class with an array of enumerators has no such interpretation: \<open>readEnumArr\<close> does not read it.
\<close>

subsection \<open>TPMS_CLOCK_INFO\<close>

definition TPMS_CLOCK_INFO_Serialize :: "TPMS_CLOCK_INFO \<Rightarrow> unit ser" where
  "TPMS_CLOCK_INFO_Serialize self = wseq
     [withN ''clock'' ''UINT64'' '''' '''' (ser_writeInt64 (TPMS_CLOCK_INFO_clock self)),
      withN ''resetCount'' ''UINT32'' '''' '''' (ser_writeInt (TPMS_CLOCK_INFO_resetCount self)),
      withN ''restartCount'' ''UINT32'' '''' '''' (ser_writeInt (TPMS_CLOCK_INFO_restartCount self)),
      withN ''safe'' ''BYTE'' '''' '''' (ser_writeByte (TPMS_CLOCK_INFO_safe self))]"

definition TPMS_CLOCK_INFO_Deserialize :: "TPMS_CLOCK_INFO \<Rightarrow> TPMS_CLOCK_INFO ser" where
  "TPMS_CLOCK_INFO_Deserialize self =
     sbind (withN ''clock'' ''UINT64'' '''' '''' ser_readInt64) (\<lambda>clock.
     sbind (withN ''resetCount'' ''UINT32'' '''' '''' ser_readInt) (\<lambda>resetCount.
     sbind (withN ''restartCount'' ''UINT32'' '''' '''' ser_readInt) (\<lambda>restartCount.
     sbind (withN ''safe'' ''BYTE'' '''' '''' ser_readByte) (\<lambda>safe.
     ret (self\<lparr>TPMS_CLOCK_INFO_clock := clock, TPMS_CLOCK_INFO_resetCount := resetCount, TPMS_CLOCK_INFO_restartCount := restartCount, TPMS_CLOCK_INFO_safe := safe\<rparr>)))))"

definition TPMS_CLOCK_INFO_text_ok :: "text_class \<Rightarrow> TPMS_CLOCK_INFO \<Rightarrow> bool" where
  "TPMS_CLOCK_INFO_text_ok c x \<longleftrightarrow>
     True"

interpretation TPMS_CLOCK_INFO_text: text_codec "''TPMS_CLOCK_INFO''" TPMS_CLOCK_INFO_Serialize TPMS_CLOCK_INFO_Deserialize TPMS_CLOCK_INFO_default TPMS_CLOCK_INFO_text_ok
proof
  show "word_ok ''TPMS_CLOCK_INFO''" by (simp add: word_simps)
  fix c x assume ok: "TPMS_CLOCK_INFO_text_ok c x"
  from ok show "carries c True (TPMS_CLOCK_INFO_Serialize x) (TPMS_CLOCK_INFO_Deserialize TPMS_CLOCK_INFO_default) x"
    by (simp only: TPMS_CLOCK_INFO_Serialize_def TPMS_CLOCK_INFO_Deserialize_def TPMS_CLOCK_INFO_default_def
       TPMS_CLOCK_INFO.select_convs TPMS_CLOCK_INFO.update_convs;
      intro carries_body;
      (rule TPMS_CLOCK_INFO.equality)?; simp add: TPMS_CLOCK_INFO_text_ok_def word_simps)
qed

subsection \<open>TPMS_TIME_INFO\<close>

definition TPMS_TIME_INFO_Serialize :: "TPMS_TIME_INFO \<Rightarrow> unit ser" where
  "TPMS_TIME_INFO_Serialize self = wseq
     [withN ''time'' ''UINT64'' '''' '''' (ser_writeInt64 (TPMS_TIME_INFO_time self)),
      withN ''clockInfo'' ''TPMS_CLOCK_INFO'' '''' '''' (ser_writeObj ''TPMS_CLOCK_INFO'' (TPMS_CLOCK_INFO_Serialize (TPMS_TIME_INFO_clockInfo self)))]"

definition TPMS_TIME_INFO_Deserialize :: "TPMS_TIME_INFO \<Rightarrow> TPMS_TIME_INFO ser" where
  "TPMS_TIME_INFO_Deserialize self =
     sbind (withN ''time'' ''UINT64'' '''' '''' ser_readInt64) (\<lambda>time.
     sbind (withN ''clockInfo'' ''TPMS_CLOCK_INFO'' '''' '''' (ser_readObj ''TPMS_CLOCK_INFO'' (TPMS_CLOCK_INFO_Deserialize (TPMS_TIME_INFO_clockInfo self)))) (\<lambda>clockInfo.
     ret (self\<lparr>TPMS_TIME_INFO_time := time, TPMS_TIME_INFO_clockInfo := clockInfo\<rparr>)))"

definition TPMS_TIME_INFO_text_ok :: "text_class \<Rightarrow> TPMS_TIME_INFO \<Rightarrow> bool" where
  "TPMS_TIME_INFO_text_ok c x \<longleftrightarrow>
     TPMS_CLOCK_INFO_text_ok c (TPMS_TIME_INFO_clockInfo x)"

interpretation TPMS_TIME_INFO_text: text_codec "''TPMS_TIME_INFO''" TPMS_TIME_INFO_Serialize TPMS_TIME_INFO_Deserialize TPMS_TIME_INFO_default TPMS_TIME_INFO_text_ok
proof
  show "word_ok ''TPMS_TIME_INFO''" by (simp add: word_simps)
  fix c x assume ok: "TPMS_TIME_INFO_text_ok c x"
  from ok show "carries c True (TPMS_TIME_INFO_Serialize x) (TPMS_TIME_INFO_Deserialize TPMS_TIME_INFO_default) x"
    by (simp only: TPMS_TIME_INFO_Serialize_def TPMS_TIME_INFO_Deserialize_def TPMS_TIME_INFO_default_def
       TPMS_TIME_INFO.select_convs TPMS_TIME_INFO.update_convs;
      intro TPMS_CLOCK_INFO_text.as_entry [THEN carries_entry_Cons] carries_body;
      (rule TPMS_TIME_INFO.equality)?; simp add: TPMS_TIME_INFO_text_ok_def word_simps)
qed

subsection \<open>TPMS_TIME_ATTEST_INFO\<close>

definition TPMS_TIME_ATTEST_INFO_Serialize :: "TPMS_TIME_ATTEST_INFO \<Rightarrow> unit ser" where
  "TPMS_TIME_ATTEST_INFO_Serialize self = wseq
     [withN ''time'' ''TPMS_TIME_INFO'' '''' '''' (ser_writeObj ''TPMS_TIME_INFO'' (TPMS_TIME_INFO_Serialize (TPMS_TIME_ATTEST_INFO_time self))),
      withN ''firmwareVersion'' ''UINT64'' '''' '''' (ser_writeInt64 (TPMS_TIME_ATTEST_INFO_firmwareVersion self))]"

definition TPMS_TIME_ATTEST_INFO_Deserialize :: "TPMS_TIME_ATTEST_INFO \<Rightarrow> TPMS_TIME_ATTEST_INFO ser" where
  "TPMS_TIME_ATTEST_INFO_Deserialize self =
     sbind (withN ''time'' ''TPMS_TIME_INFO'' '''' '''' (ser_readObj ''TPMS_TIME_INFO'' (TPMS_TIME_INFO_Deserialize (TPMS_TIME_ATTEST_INFO_time self)))) (\<lambda>time.
     sbind (withN ''firmwareVersion'' ''UINT64'' '''' '''' ser_readInt64) (\<lambda>firmwareVersion.
     ret (self\<lparr>TPMS_TIME_ATTEST_INFO_time := time, TPMS_TIME_ATTEST_INFO_firmwareVersion := firmwareVersion\<rparr>)))"

definition TPMS_TIME_ATTEST_INFO_text_ok :: "text_class \<Rightarrow> TPMS_TIME_ATTEST_INFO \<Rightarrow> bool" where
  "TPMS_TIME_ATTEST_INFO_text_ok c x \<longleftrightarrow>
     TPMS_TIME_INFO_text_ok c (TPMS_TIME_ATTEST_INFO_time x)"

interpretation TPMS_TIME_ATTEST_INFO_text: text_codec "''TPMS_TIME_ATTEST_INFO''" TPMS_TIME_ATTEST_INFO_Serialize TPMS_TIME_ATTEST_INFO_Deserialize TPMS_TIME_ATTEST_INFO_default TPMS_TIME_ATTEST_INFO_text_ok
proof
  show "word_ok ''TPMS_TIME_ATTEST_INFO''" by (simp add: word_simps)
  fix c x assume ok: "TPMS_TIME_ATTEST_INFO_text_ok c x"
  from ok show "carries c True (TPMS_TIME_ATTEST_INFO_Serialize x) (TPMS_TIME_ATTEST_INFO_Deserialize TPMS_TIME_ATTEST_INFO_default) x"
    by (simp only: TPMS_TIME_ATTEST_INFO_Serialize_def TPMS_TIME_ATTEST_INFO_Deserialize_def TPMS_TIME_ATTEST_INFO_default_def
       TPMS_TIME_ATTEST_INFO.select_convs TPMS_TIME_ATTEST_INFO.update_convs;
      intro TPMS_TIME_INFO_text.as_entry [THEN carries_entry_Cons] carries_body;
      (rule TPMS_TIME_ATTEST_INFO.equality)?; simp add: TPMS_TIME_ATTEST_INFO_text_ok_def word_simps)
qed

subsection \<open>TPMS_CERTIFY_INFO\<close>

definition TPMS_CERTIFY_INFO_Serialize :: "TPMS_CERTIFY_INFO \<Rightarrow> unit ser" where
  "TPMS_CERTIFY_INFO_Serialize self = wseq
     [withN ''name'' ''BYTE[]'' ''nameSize'' ''UINT16'' (ser_writeSizedByteBuf (TPMS_CERTIFY_INFO_name self)),
      withN ''qualifiedName'' ''BYTE[]'' ''qualifiedNameSize'' ''UINT16'' (ser_writeSizedByteBuf (TPMS_CERTIFY_INFO_qualifiedName self))]"

definition TPMS_CERTIFY_INFO_Deserialize :: "TPMS_CERTIFY_INFO \<Rightarrow> TPMS_CERTIFY_INFO ser" where
  "TPMS_CERTIFY_INFO_Deserialize self =
     sbind (withN ''name'' ''BYTE[]'' ''nameSize'' ''UINT16'' ser_readSizedByteBuf) (\<lambda>name.
     sbind (withN ''qualifiedName'' ''BYTE[]'' ''qualifiedNameSize'' ''UINT16'' ser_readSizedByteBuf) (\<lambda>qualifiedName.
     ret (self\<lparr>TPMS_CERTIFY_INFO_name := name, TPMS_CERTIFY_INFO_qualifiedName := qualifiedName\<rparr>)))"

definition TPMS_CERTIFY_INFO_text_ok :: "text_class \<Rightarrow> TPMS_CERTIFY_INFO \<Rightarrow> bool" where
  "TPMS_CERTIFY_INFO_text_ok c x \<longleftrightarrow>
     length (TPMS_CERTIFY_INFO_name x) < 2 ^ 64 \<and>
     length (TPMS_CERTIFY_INFO_qualifiedName x) < 2 ^ 64"

interpretation TPMS_CERTIFY_INFO_text: text_codec "''TPMS_CERTIFY_INFO''" TPMS_CERTIFY_INFO_Serialize TPMS_CERTIFY_INFO_Deserialize TPMS_CERTIFY_INFO_default TPMS_CERTIFY_INFO_text_ok
proof
  show "word_ok ''TPMS_CERTIFY_INFO''" by (simp add: word_simps)
  fix c x assume ok: "TPMS_CERTIFY_INFO_text_ok c x"
  from ok show "carries c True (TPMS_CERTIFY_INFO_Serialize x) (TPMS_CERTIFY_INFO_Deserialize TPMS_CERTIFY_INFO_default) x"
    by (simp only: TPMS_CERTIFY_INFO_Serialize_def TPMS_CERTIFY_INFO_Deserialize_def TPMS_CERTIFY_INFO_default_def
       TPMS_CERTIFY_INFO.select_convs TPMS_CERTIFY_INFO.update_convs;
      intro carries_body;
      (rule TPMS_CERTIFY_INFO.equality)?; simp add: TPMS_CERTIFY_INFO_text_ok_def word_simps)
qed

subsection \<open>TPMS_QUOTE_INFO\<close>

definition TPMS_QUOTE_INFO_Serialize :: "TPMS_QUOTE_INFO \<Rightarrow> unit ser" where
  "TPMS_QUOTE_INFO_Serialize self = wseq
     [withN ''pcrSelect'' ''TPMS_PCR_SELECTION[]'' ''pcrSelectCount'' ''UINT32'' (ser_writeObjArr ''TPMS_PCR_SELECTION'' TPMS_PCR_SELECTION_Serialize (TPMS_QUOTE_INFO_pcrSelect self)),
      withN ''pcrDigest'' ''BYTE[]'' ''pcrDigestSize'' ''UINT16'' (ser_writeSizedByteBuf (TPMS_QUOTE_INFO_pcrDigest self))]"

definition TPMS_QUOTE_INFO_Deserialize :: "TPMS_QUOTE_INFO \<Rightarrow> TPMS_QUOTE_INFO ser" where
  "TPMS_QUOTE_INFO_Deserialize self =
     sbind (withN ''pcrSelect'' ''TPMS_PCR_SELECTION[]'' ''pcrSelectCount'' ''UINT32'' (ser_readObjArr ''TPMS_PCR_SELECTION'' TPMS_PCR_SELECTION_Deserialize TPMS_PCR_SELECTION_default (TPMS_QUOTE_INFO_pcrSelect self))) (\<lambda>pcrSelect.
     sbind (withN ''pcrDigest'' ''BYTE[]'' ''pcrDigestSize'' ''UINT16'' ser_readSizedByteBuf) (\<lambda>pcrDigest.
     ret (self\<lparr>TPMS_QUOTE_INFO_pcrSelect := pcrSelect, TPMS_QUOTE_INFO_pcrDigest := pcrDigest\<rparr>)))"

definition TPMS_QUOTE_INFO_text_ok :: "text_class \<Rightarrow> TPMS_QUOTE_INFO \<Rightarrow> bool" where
  "TPMS_QUOTE_INFO_text_ok c x \<longleftrightarrow>
     length (TPMS_QUOTE_INFO_pcrSelect x) < 2 ^ 64 \<and> (\<forall>y \<in> set (TPMS_QUOTE_INFO_pcrSelect x). TPMS_PCR_SELECTION_text_ok c y) \<and>
     length (TPMS_QUOTE_INFO_pcrDigest x) < 2 ^ 64"

interpretation TPMS_QUOTE_INFO_text: text_codec "''TPMS_QUOTE_INFO''" TPMS_QUOTE_INFO_Serialize TPMS_QUOTE_INFO_Deserialize TPMS_QUOTE_INFO_default TPMS_QUOTE_INFO_text_ok
proof
  show "word_ok ''TPMS_QUOTE_INFO''" by (simp add: word_simps)
  fix c x assume ok: "TPMS_QUOTE_INFO_text_ok c x"
  from ok show "carries c True (TPMS_QUOTE_INFO_Serialize x) (TPMS_QUOTE_INFO_Deserialize TPMS_QUOTE_INFO_default) x"
    by (simp only: TPMS_QUOTE_INFO_Serialize_def TPMS_QUOTE_INFO_Deserialize_def TPMS_QUOTE_INFO_default_def
       TPMS_QUOTE_INFO.select_convs TPMS_QUOTE_INFO.update_convs;
      intro TPMS_PCR_SELECTION_text.as_elements [THEN carries_entry_Cons] carries_body;
      (rule TPMS_QUOTE_INFO.equality)?; simp add: TPMS_QUOTE_INFO_text_ok_def word_simps)
qed

subsection \<open>TPMS_COMMAND_AUDIT_INFO\<close>

definition TPMS_COMMAND_AUDIT_INFO_Serialize :: "TPMS_COMMAND_AUDIT_INFO \<Rightarrow> unit ser" where
  "TPMS_COMMAND_AUDIT_INFO_Serialize self = wseq
     [withN ''auditCounter'' ''UINT64'' '''' '''' (ser_writeInt64 (TPMS_COMMAND_AUDIT_INFO_auditCounter self)),
      withN ''digestAlg'' ''TPM_ALG_ID'' '''' '''' (ser_writeEnumT (TPMS_COMMAND_AUDIT_INFO_digestAlg self) TPM_ALG_ID_ID),
      withN ''auditDigest'' ''BYTE[]'' ''auditDigestSize'' ''UINT16'' (ser_writeSizedByteBuf (TPMS_COMMAND_AUDIT_INFO_auditDigest self)),
      withN ''commandDigest'' ''BYTE[]'' ''commandDigestSize'' ''UINT16'' (ser_writeSizedByteBuf (TPMS_COMMAND_AUDIT_INFO_commandDigest self))]"

definition TPMS_COMMAND_AUDIT_INFO_Deserialize :: "TPMS_COMMAND_AUDIT_INFO \<Rightarrow> TPMS_COMMAND_AUDIT_INFO ser" where
  "TPMS_COMMAND_AUDIT_INFO_Deserialize self =
     sbind (withN ''auditCounter'' ''UINT64'' '''' '''' ser_readInt64) (\<lambda>auditCounter.
     sbind (withN ''digestAlg'' ''TPM_ALG_ID'' '''' '''' (ser_readEnumT TPM_ALG_ID_ID)) (\<lambda>digestAlg.
     sbind (withN ''auditDigest'' ''BYTE[]'' ''auditDigestSize'' ''UINT16'' ser_readSizedByteBuf) (\<lambda>auditDigest.
     sbind (withN ''commandDigest'' ''BYTE[]'' ''commandDigestSize'' ''UINT16'' ser_readSizedByteBuf) (\<lambda>commandDigest.
     ret (self\<lparr>TPMS_COMMAND_AUDIT_INFO_auditCounter := auditCounter, TPMS_COMMAND_AUDIT_INFO_digestAlg := digestAlg, TPMS_COMMAND_AUDIT_INFO_auditDigest := auditDigest, TPMS_COMMAND_AUDIT_INFO_commandDigest := commandDigest\<rparr>)))))"

definition TPMS_COMMAND_AUDIT_INFO_text_ok :: "text_class \<Rightarrow> TPMS_COMMAND_AUDIT_INFO \<Rightarrow> bool" where
  "TPMS_COMMAND_AUDIT_INFO_text_ok c x \<longleftrightarrow>
     enum_ok c (ucast (TPMS_COMMAND_AUDIT_INFO_digestAlg x)) TPM_ALG_ID_ID \<and>
     length (TPMS_COMMAND_AUDIT_INFO_auditDigest x) < 2 ^ 64 \<and>
     length (TPMS_COMMAND_AUDIT_INFO_commandDigest x) < 2 ^ 64"

interpretation TPMS_COMMAND_AUDIT_INFO_text: text_codec "''TPMS_COMMAND_AUDIT_INFO''" TPMS_COMMAND_AUDIT_INFO_Serialize TPMS_COMMAND_AUDIT_INFO_Deserialize TPMS_COMMAND_AUDIT_INFO_default TPMS_COMMAND_AUDIT_INFO_text_ok
proof
  show "word_ok ''TPMS_COMMAND_AUDIT_INFO''" by (simp add: word_simps)
  fix c x assume ok: "TPMS_COMMAND_AUDIT_INFO_text_ok c x"
  from ok show "carries c True (TPMS_COMMAND_AUDIT_INFO_Serialize x) (TPMS_COMMAND_AUDIT_INFO_Deserialize TPMS_COMMAND_AUDIT_INFO_default) x"
    by (simp only: TPMS_COMMAND_AUDIT_INFO_Serialize_def TPMS_COMMAND_AUDIT_INFO_Deserialize_def TPMS_COMMAND_AUDIT_INFO_default_def
       TPMS_COMMAND_AUDIT_INFO.select_convs TPMS_COMMAND_AUDIT_INFO.update_convs;
      intro carries_body;
      (rule TPMS_COMMAND_AUDIT_INFO.equality)?; simp add: TPMS_COMMAND_AUDIT_INFO_text_ok_def word_simps)
qed

subsection \<open>TPMS_SESSION_AUDIT_INFO\<close>

definition TPMS_SESSION_AUDIT_INFO_Serialize :: "TPMS_SESSION_AUDIT_INFO \<Rightarrow> unit ser" where
  "TPMS_SESSION_AUDIT_INFO_Serialize self = wseq
     [withN ''exclusiveSession'' ''BYTE'' '''' '''' (ser_writeByte (TPMS_SESSION_AUDIT_INFO_exclusiveSession self)),
      withN ''sessionDigest'' ''BYTE[]'' ''sessionDigestSize'' ''UINT16'' (ser_writeSizedByteBuf (TPMS_SESSION_AUDIT_INFO_sessionDigest self))]"

definition TPMS_SESSION_AUDIT_INFO_Deserialize :: "TPMS_SESSION_AUDIT_INFO \<Rightarrow> TPMS_SESSION_AUDIT_INFO ser" where
  "TPMS_SESSION_AUDIT_INFO_Deserialize self =
     sbind (withN ''exclusiveSession'' ''BYTE'' '''' '''' ser_readByte) (\<lambda>exclusiveSession.
     sbind (withN ''sessionDigest'' ''BYTE[]'' ''sessionDigestSize'' ''UINT16'' ser_readSizedByteBuf) (\<lambda>sessionDigest.
     ret (self\<lparr>TPMS_SESSION_AUDIT_INFO_exclusiveSession := exclusiveSession, TPMS_SESSION_AUDIT_INFO_sessionDigest := sessionDigest\<rparr>)))"

definition TPMS_SESSION_AUDIT_INFO_text_ok :: "text_class \<Rightarrow> TPMS_SESSION_AUDIT_INFO \<Rightarrow> bool" where
  "TPMS_SESSION_AUDIT_INFO_text_ok c x \<longleftrightarrow>
     length (TPMS_SESSION_AUDIT_INFO_sessionDigest x) < 2 ^ 64"

interpretation TPMS_SESSION_AUDIT_INFO_text: text_codec "''TPMS_SESSION_AUDIT_INFO''" TPMS_SESSION_AUDIT_INFO_Serialize TPMS_SESSION_AUDIT_INFO_Deserialize TPMS_SESSION_AUDIT_INFO_default TPMS_SESSION_AUDIT_INFO_text_ok
proof
  show "word_ok ''TPMS_SESSION_AUDIT_INFO''" by (simp add: word_simps)
  fix c x assume ok: "TPMS_SESSION_AUDIT_INFO_text_ok c x"
  from ok show "carries c True (TPMS_SESSION_AUDIT_INFO_Serialize x) (TPMS_SESSION_AUDIT_INFO_Deserialize TPMS_SESSION_AUDIT_INFO_default) x"
    by (simp only: TPMS_SESSION_AUDIT_INFO_Serialize_def TPMS_SESSION_AUDIT_INFO_Deserialize_def TPMS_SESSION_AUDIT_INFO_default_def
       TPMS_SESSION_AUDIT_INFO.select_convs TPMS_SESSION_AUDIT_INFO.update_convs;
      intro carries_body;
      (rule TPMS_SESSION_AUDIT_INFO.equality)?; simp add: TPMS_SESSION_AUDIT_INFO_text_ok_def word_simps)
qed

subsection \<open>TPMS_CREATION_INFO\<close>

definition TPMS_CREATION_INFO_Serialize :: "TPMS_CREATION_INFO \<Rightarrow> unit ser" where
  "TPMS_CREATION_INFO_Serialize self = wseq
     [withN ''objectName'' ''BYTE[]'' ''objectNameSize'' ''UINT16'' (ser_writeSizedByteBuf (TPMS_CREATION_INFO_objectName self)),
      withN ''creationHash'' ''BYTE[]'' ''creationHashSize'' ''UINT16'' (ser_writeSizedByteBuf (TPMS_CREATION_INFO_creationHash self))]"

definition TPMS_CREATION_INFO_Deserialize :: "TPMS_CREATION_INFO \<Rightarrow> TPMS_CREATION_INFO ser" where
  "TPMS_CREATION_INFO_Deserialize self =
     sbind (withN ''objectName'' ''BYTE[]'' ''objectNameSize'' ''UINT16'' ser_readSizedByteBuf) (\<lambda>objectName.
     sbind (withN ''creationHash'' ''BYTE[]'' ''creationHashSize'' ''UINT16'' ser_readSizedByteBuf) (\<lambda>creationHash.
     ret (self\<lparr>TPMS_CREATION_INFO_objectName := objectName, TPMS_CREATION_INFO_creationHash := creationHash\<rparr>)))"

definition TPMS_CREATION_INFO_text_ok :: "text_class \<Rightarrow> TPMS_CREATION_INFO \<Rightarrow> bool" where
  "TPMS_CREATION_INFO_text_ok c x \<longleftrightarrow>
     length (TPMS_CREATION_INFO_objectName x) < 2 ^ 64 \<and>
     length (TPMS_CREATION_INFO_creationHash x) < 2 ^ 64"

interpretation TPMS_CREATION_INFO_text: text_codec "''TPMS_CREATION_INFO''" TPMS_CREATION_INFO_Serialize TPMS_CREATION_INFO_Deserialize TPMS_CREATION_INFO_default TPMS_CREATION_INFO_text_ok
proof
  show "word_ok ''TPMS_CREATION_INFO''" by (simp add: word_simps)
  fix c x assume ok: "TPMS_CREATION_INFO_text_ok c x"
  from ok show "carries c True (TPMS_CREATION_INFO_Serialize x) (TPMS_CREATION_INFO_Deserialize TPMS_CREATION_INFO_default) x"
    by (simp only: TPMS_CREATION_INFO_Serialize_def TPMS_CREATION_INFO_Deserialize_def TPMS_CREATION_INFO_default_def
       TPMS_CREATION_INFO.select_convs TPMS_CREATION_INFO.update_convs;
      intro carries_body;
      (rule TPMS_CREATION_INFO.equality)?; simp add: TPMS_CREATION_INFO_text_ok_def word_simps)
qed

subsection \<open>TPMS_NV_CERTIFY_INFO\<close>

definition TPMS_NV_CERTIFY_INFO_Serialize :: "TPMS_NV_CERTIFY_INFO \<Rightarrow> unit ser" where
  "TPMS_NV_CERTIFY_INFO_Serialize self = wseq
     [withN ''indexName'' ''BYTE[]'' ''indexNameSize'' ''UINT16'' (ser_writeSizedByteBuf (TPMS_NV_CERTIFY_INFO_indexName self)),
      withN ''offset'' ''UINT16'' '''' '''' (ser_writeShort (TPMS_NV_CERTIFY_INFO_offset self)),
      withN ''nvContents'' ''BYTE[]'' ''nvContentsSize'' ''UINT16'' (ser_writeSizedByteBuf (TPMS_NV_CERTIFY_INFO_nvContents self))]"

definition TPMS_NV_CERTIFY_INFO_Deserialize :: "TPMS_NV_CERTIFY_INFO \<Rightarrow> TPMS_NV_CERTIFY_INFO ser" where
  "TPMS_NV_CERTIFY_INFO_Deserialize self =
     sbind (withN ''indexName'' ''BYTE[]'' ''indexNameSize'' ''UINT16'' ser_readSizedByteBuf) (\<lambda>indexName.
     sbind (withN ''offset'' ''UINT16'' '''' '''' ser_readShort) (\<lambda>offset.
     sbind (withN ''nvContents'' ''BYTE[]'' ''nvContentsSize'' ''UINT16'' ser_readSizedByteBuf) (\<lambda>nvContents.
     ret (self\<lparr>TPMS_NV_CERTIFY_INFO_indexName := indexName, TPMS_NV_CERTIFY_INFO_offset := offset, TPMS_NV_CERTIFY_INFO_nvContents := nvContents\<rparr>))))"

definition TPMS_NV_CERTIFY_INFO_text_ok :: "text_class \<Rightarrow> TPMS_NV_CERTIFY_INFO \<Rightarrow> bool" where
  "TPMS_NV_CERTIFY_INFO_text_ok c x \<longleftrightarrow>
     length (TPMS_NV_CERTIFY_INFO_indexName x) < 2 ^ 64 \<and>
     length (TPMS_NV_CERTIFY_INFO_nvContents x) < 2 ^ 64"

interpretation TPMS_NV_CERTIFY_INFO_text: text_codec "''TPMS_NV_CERTIFY_INFO''" TPMS_NV_CERTIFY_INFO_Serialize TPMS_NV_CERTIFY_INFO_Deserialize TPMS_NV_CERTIFY_INFO_default TPMS_NV_CERTIFY_INFO_text_ok
proof
  show "word_ok ''TPMS_NV_CERTIFY_INFO''" by (simp add: word_simps)
  fix c x assume ok: "TPMS_NV_CERTIFY_INFO_text_ok c x"
  from ok show "carries c True (TPMS_NV_CERTIFY_INFO_Serialize x) (TPMS_NV_CERTIFY_INFO_Deserialize TPMS_NV_CERTIFY_INFO_default) x"
    by (simp only: TPMS_NV_CERTIFY_INFO_Serialize_def TPMS_NV_CERTIFY_INFO_Deserialize_def TPMS_NV_CERTIFY_INFO_default_def
       TPMS_NV_CERTIFY_INFO.select_convs TPMS_NV_CERTIFY_INFO.update_convs;
      intro carries_body;
      (rule TPMS_NV_CERTIFY_INFO.equality)?; simp add: TPMS_NV_CERTIFY_INFO_text_ok_def word_simps)
qed

subsection \<open>TPMS_NV_DIGEST_CERTIFY_INFO\<close>

definition TPMS_NV_DIGEST_CERTIFY_INFO_Serialize :: "TPMS_NV_DIGEST_CERTIFY_INFO \<Rightarrow> unit ser" where
  "TPMS_NV_DIGEST_CERTIFY_INFO_Serialize self = wseq
     [withN ''indexName'' ''BYTE[]'' ''indexNameSize'' ''UINT16'' (ser_writeSizedByteBuf (TPMS_NV_DIGEST_CERTIFY_INFO_indexName self)),
      withN ''nvDigest'' ''BYTE[]'' ''nvDigestSize'' ''UINT16'' (ser_writeSizedByteBuf (TPMS_NV_DIGEST_CERTIFY_INFO_nvDigest self))]"

definition TPMS_NV_DIGEST_CERTIFY_INFO_Deserialize :: "TPMS_NV_DIGEST_CERTIFY_INFO \<Rightarrow> TPMS_NV_DIGEST_CERTIFY_INFO ser" where
  "TPMS_NV_DIGEST_CERTIFY_INFO_Deserialize self =
     sbind (withN ''indexName'' ''BYTE[]'' ''indexNameSize'' ''UINT16'' ser_readSizedByteBuf) (\<lambda>indexName.
     sbind (withN ''nvDigest'' ''BYTE[]'' ''nvDigestSize'' ''UINT16'' ser_readSizedByteBuf) (\<lambda>nvDigest.
     ret (self\<lparr>TPMS_NV_DIGEST_CERTIFY_INFO_indexName := indexName, TPMS_NV_DIGEST_CERTIFY_INFO_nvDigest := nvDigest\<rparr>)))"

definition TPMS_NV_DIGEST_CERTIFY_INFO_text_ok :: "text_class \<Rightarrow> TPMS_NV_DIGEST_CERTIFY_INFO \<Rightarrow> bool" where
  "TPMS_NV_DIGEST_CERTIFY_INFO_text_ok c x \<longleftrightarrow>
     length (TPMS_NV_DIGEST_CERTIFY_INFO_indexName x) < 2 ^ 64 \<and>
     length (TPMS_NV_DIGEST_CERTIFY_INFO_nvDigest x) < 2 ^ 64"

interpretation TPMS_NV_DIGEST_CERTIFY_INFO_text: text_codec "''TPMS_NV_DIGEST_CERTIFY_INFO''" TPMS_NV_DIGEST_CERTIFY_INFO_Serialize TPMS_NV_DIGEST_CERTIFY_INFO_Deserialize TPMS_NV_DIGEST_CERTIFY_INFO_default TPMS_NV_DIGEST_CERTIFY_INFO_text_ok
proof
  show "word_ok ''TPMS_NV_DIGEST_CERTIFY_INFO''" by (simp add: word_simps)
  fix c x assume ok: "TPMS_NV_DIGEST_CERTIFY_INFO_text_ok c x"
  from ok show "carries c True (TPMS_NV_DIGEST_CERTIFY_INFO_Serialize x) (TPMS_NV_DIGEST_CERTIFY_INFO_Deserialize TPMS_NV_DIGEST_CERTIFY_INFO_default) x"
    by (simp only: TPMS_NV_DIGEST_CERTIFY_INFO_Serialize_def TPMS_NV_DIGEST_CERTIFY_INFO_Deserialize_def TPMS_NV_DIGEST_CERTIFY_INFO_default_def
       TPMS_NV_DIGEST_CERTIFY_INFO.select_convs TPMS_NV_DIGEST_CERTIFY_INFO.update_convs;
      intro carries_body;
      (rule TPMS_NV_DIGEST_CERTIFY_INFO.equality)?; simp add: TPMS_NV_DIGEST_CERTIFY_INFO_text_ok_def word_simps)
qed

subsection \<open>The union TPMU_ATTEST\<close>

fun TPMU_ATTEST_TypeName :: "TPMU_ATTEST \<Rightarrow> string" where
  "TPMU_ATTEST_TypeName (ATTEST_TPMS_CERTIFY_INFO _) = ''TPMS_CERTIFY_INFO''"
| "TPMU_ATTEST_TypeName (ATTEST_TPMS_CREATION_INFO _) = ''TPMS_CREATION_INFO''"
| "TPMU_ATTEST_TypeName (ATTEST_TPMS_QUOTE_INFO _) = ''TPMS_QUOTE_INFO''"
| "TPMU_ATTEST_TypeName (ATTEST_TPMS_COMMAND_AUDIT_INFO _) = ''TPMS_COMMAND_AUDIT_INFO''"
| "TPMU_ATTEST_TypeName (ATTEST_TPMS_SESSION_AUDIT_INFO _) = ''TPMS_SESSION_AUDIT_INFO''"
| "TPMU_ATTEST_TypeName (ATTEST_TPMS_TIME_ATTEST_INFO _) = ''TPMS_TIME_ATTEST_INFO''"
| "TPMU_ATTEST_TypeName (ATTEST_TPMS_NV_CERTIFY_INFO _) = ''TPMS_NV_CERTIFY_INFO''"
| "TPMU_ATTEST_TypeName (ATTEST_TPMS_NV_DIGEST_CERTIFY_INFO _) = ''TPMS_NV_DIGEST_CERTIFY_INFO''"

fun TPMU_ATTEST_Serialize :: "TPMU_ATTEST \<Rightarrow> unit ser" where
  "TPMU_ATTEST_Serialize (ATTEST_TPMS_CERTIFY_INFO x) = TPMS_CERTIFY_INFO_Serialize x"
| "TPMU_ATTEST_Serialize (ATTEST_TPMS_CREATION_INFO x) = TPMS_CREATION_INFO_Serialize x"
| "TPMU_ATTEST_Serialize (ATTEST_TPMS_QUOTE_INFO x) = TPMS_QUOTE_INFO_Serialize x"
| "TPMU_ATTEST_Serialize (ATTEST_TPMS_COMMAND_AUDIT_INFO x) = TPMS_COMMAND_AUDIT_INFO_Serialize x"
| "TPMU_ATTEST_Serialize (ATTEST_TPMS_SESSION_AUDIT_INFO x) = TPMS_SESSION_AUDIT_INFO_Serialize x"
| "TPMU_ATTEST_Serialize (ATTEST_TPMS_TIME_ATTEST_INFO x) = TPMS_TIME_ATTEST_INFO_Serialize x"
| "TPMU_ATTEST_Serialize (ATTEST_TPMS_NV_CERTIFY_INFO x) = TPMS_NV_CERTIFY_INFO_Serialize x"
| "TPMU_ATTEST_Serialize (ATTEST_TPMS_NV_DIGEST_CERTIFY_INFO x) = TPMS_NV_DIGEST_CERTIFY_INFO_Serialize x"

fun TPMU_ATTEST_Deserialize :: "TPMU_ATTEST \<Rightarrow> TPMU_ATTEST ser" where
  "TPMU_ATTEST_Deserialize (ATTEST_TPMS_CERTIFY_INFO x) = sbind (TPMS_CERTIFY_INFO_Deserialize x) (\<lambda>y. ret (ATTEST_TPMS_CERTIFY_INFO y))"
| "TPMU_ATTEST_Deserialize (ATTEST_TPMS_CREATION_INFO x) = sbind (TPMS_CREATION_INFO_Deserialize x) (\<lambda>y. ret (ATTEST_TPMS_CREATION_INFO y))"
| "TPMU_ATTEST_Deserialize (ATTEST_TPMS_QUOTE_INFO x) = sbind (TPMS_QUOTE_INFO_Deserialize x) (\<lambda>y. ret (ATTEST_TPMS_QUOTE_INFO y))"
| "TPMU_ATTEST_Deserialize (ATTEST_TPMS_COMMAND_AUDIT_INFO x) = sbind (TPMS_COMMAND_AUDIT_INFO_Deserialize x) (\<lambda>y. ret (ATTEST_TPMS_COMMAND_AUDIT_INFO y))"
| "TPMU_ATTEST_Deserialize (ATTEST_TPMS_SESSION_AUDIT_INFO x) = sbind (TPMS_SESSION_AUDIT_INFO_Deserialize x) (\<lambda>y. ret (ATTEST_TPMS_SESSION_AUDIT_INFO y))"
| "TPMU_ATTEST_Deserialize (ATTEST_TPMS_TIME_ATTEST_INFO x) = sbind (TPMS_TIME_ATTEST_INFO_Deserialize x) (\<lambda>y. ret (ATTEST_TPMS_TIME_ATTEST_INFO y))"
| "TPMU_ATTEST_Deserialize (ATTEST_TPMS_NV_CERTIFY_INFO x) = sbind (TPMS_NV_CERTIFY_INFO_Deserialize x) (\<lambda>y. ret (ATTEST_TPMS_NV_CERTIFY_INFO y))"
| "TPMU_ATTEST_Deserialize (ATTEST_TPMS_NV_DIGEST_CERTIFY_INFO x) = sbind (TPMS_NV_DIGEST_CERTIFY_INFO_Deserialize x) (\<lambda>y. ret (ATTEST_TPMS_NV_DIGEST_CERTIFY_INFO y))"

fun TPMU_ATTEST_text_ok :: "text_class \<Rightarrow> TPMU_ATTEST \<Rightarrow> bool" where
  "TPMU_ATTEST_text_ok c (ATTEST_TPMS_CERTIFY_INFO x) = TPMS_CERTIFY_INFO_text_ok c x"
| "TPMU_ATTEST_text_ok c (ATTEST_TPMS_CREATION_INFO x) = TPMS_CREATION_INFO_text_ok c x"
| "TPMU_ATTEST_text_ok c (ATTEST_TPMS_QUOTE_INFO x) = TPMS_QUOTE_INFO_text_ok c x"
| "TPMU_ATTEST_text_ok c (ATTEST_TPMS_COMMAND_AUDIT_INFO x) = TPMS_COMMAND_AUDIT_INFO_text_ok c x"
| "TPMU_ATTEST_text_ok c (ATTEST_TPMS_SESSION_AUDIT_INFO x) = TPMS_SESSION_AUDIT_INFO_text_ok c x"
| "TPMU_ATTEST_text_ok c (ATTEST_TPMS_TIME_ATTEST_INFO x) = TPMS_TIME_ATTEST_INFO_text_ok c x"
| "TPMU_ATTEST_text_ok c (ATTEST_TPMS_NV_CERTIFY_INFO x) = TPMS_NV_CERTIFY_INFO_text_ok c x"
| "TPMU_ATTEST_text_ok c (ATTEST_TPMS_NV_DIGEST_CERTIFY_INFO x) = TPMS_NV_DIGEST_CERTIFY_INFO_text_ok c x"

interpretation TPMU_ATTEST_text: text_union TPMU_ATTEST_TypeName TPMU_ATTEST_Serialize TPMU_ATTEST_Deserialize TPMU_ATTEST_fresh
    TPMU_ATTEST_GetUnionSelector UnionFactory_Create_TPMU_ATTEST TPMU_ATTEST_text_ok
proof
  fix u :: TPMU_ATTEST and c
  show "word_ok (TPMU_ATTEST_TypeName u)" by (cases u) (simp_all add: word_simps)
  show "TPMU_ATTEST_TypeName (TPMU_ATTEST_fresh u) = TPMU_ATTEST_TypeName u" by (cases u) simp_all
  show "TPMU_ATTEST_text_ok c u \<Longrightarrow> carries c False (TPMU_ATTEST_Serialize u) (TPMU_ATTEST_Deserialize (TPMU_ATTEST_fresh u)) u"
    by (cases u) (simp_all add: carries_nothing TPMS_CERTIFY_INFO_text.carried [THEN carries_member] TPMS_COMMAND_AUDIT_INFO_text.carried [THEN carries_member] TPMS_CREATION_INFO_text.carried [THEN carries_member] TPMS_NV_CERTIFY_INFO_text.carried [THEN carries_member] TPMS_NV_DIGEST_CERTIFY_INFO_text.carried [THEN carries_member] TPMS_QUOTE_INFO_text.carried [THEN carries_member] TPMS_SESSION_AUDIT_INFO_text.carried [THEN carries_member] TPMS_TIME_ATTEST_INFO_text.carried [THEN carries_member])
  show "TPMU_ATTEST_text_ok c u \<Longrightarrow> TPMU_ATTEST_GetUnionSelector u \<noteq> 0 \<and>
      UnionFactory_Create_TPMU_ATTEST (TPMU_ATTEST_GetUnionSelector u) = Ok (Some (TPMU_ATTEST_fresh u))"
    by (cases u) (simp_all add: UnionFactory_Create_TPMU_ATTEST_def)
qed

subsection \<open>TPMS_ATTEST\<close>

definition TPMS_ATTEST_Serialize :: "TPMS_ATTEST \<Rightarrow> unit ser" where
  "TPMS_ATTEST_Serialize self = wseq
     [withN ''magic'' ''TPM_GENERATED'' '''' '''' (ser_writeEnumT (TPMS_ATTEST_magic self) TPM_GENERATED_ID),
      withN ''type'' ''TPM_ST'' '''' '''' (ser_writeEnumT (selector_or 0 TPMU_ATTEST_GetUnionSelector (TPMS_ATTEST_attested self)) TPM_ST_ID),
      withN ''qualifiedSigner'' ''BYTE[]'' ''qualifiedSignerSize'' ''UINT16'' (ser_writeSizedByteBuf (TPMS_ATTEST_qualifiedSigner self)),
      withN ''extraData'' ''BYTE[]'' ''extraDataSize'' ''UINT16'' (ser_writeSizedByteBuf (TPMS_ATTEST_extraData self)),
      withN ''clockInfo'' ''TPMS_CLOCK_INFO'' '''' '''' (ser_writeObj ''TPMS_CLOCK_INFO'' (TPMS_CLOCK_INFO_Serialize (TPMS_ATTEST_clockInfo self))),
      withN ''firmwareVersion'' ''UINT64'' '''' '''' (ser_writeInt64 (TPMS_ATTEST_firmwareVersion self)),
      if_set (TPMS_ATTEST_attested self) (\<lambda>u. withN ''attested'' ''TPMU_ATTEST'' '''' '''' (ser_writeObj (TPMU_ATTEST_TypeName u) (TPMU_ATTEST_Serialize u)))]"

definition TPMS_ATTEST_Deserialize :: "TPMS_ATTEST \<Rightarrow> TPMS_ATTEST ser" where
  "TPMS_ATTEST_Deserialize self =
     sbind (withN ''magic'' ''TPM_GENERATED'' '''' '''' (ser_readEnumT TPM_GENERATED_ID)) (\<lambda>magic.
     sbind (withN ''type'' ''TPM_ST'' '''' '''' (ser_readEnumT TPM_ST_ID)) (\<lambda>type.
     sbind (withN ''qualifiedSigner'' ''BYTE[]'' ''qualifiedSignerSize'' ''UINT16'' ser_readSizedByteBuf) (\<lambda>qualifiedSigner.
     sbind (withN ''extraData'' ''BYTE[]'' ''extraDataSize'' ''UINT16'' ser_readSizedByteBuf) (\<lambda>extraData.
     sbind (withN ''clockInfo'' ''TPMS_CLOCK_INFO'' '''' '''' (ser_readObj ''TPMS_CLOCK_INFO'' (TPMS_CLOCK_INFO_Deserialize (TPMS_ATTEST_clockInfo self)))) (\<lambda>clockInfo.
     sbind (withN ''firmwareVersion'' ''UINT64'' '''' '''' ser_readInt64) (\<lambda>firmwareVersion.
     sbind (reset_or_create UnionFactory_Create_TPMU_ATTEST type) (\<lambda>attested.
     sbind (read_if_set attested (\<lambda>u. withN ''attested'' ''TPMU_ATTEST'' '''' '''' (ser_readObj (TPMU_ATTEST_TypeName u) (TPMU_ATTEST_Deserialize u)))) (\<lambda>attested.
     ret (self\<lparr>TPMS_ATTEST_magic := magic, TPMS_ATTEST_qualifiedSigner := qualifiedSigner, TPMS_ATTEST_extraData := extraData, TPMS_ATTEST_clockInfo := clockInfo, TPMS_ATTEST_firmwareVersion := firmwareVersion, TPMS_ATTEST_attested := attested\<rparr>)))))))))"

definition TPMS_ATTEST_text_ok :: "text_class \<Rightarrow> TPMS_ATTEST \<Rightarrow> bool" where
  "TPMS_ATTEST_text_ok c x \<longleftrightarrow>
     enum_ok c (ucast (TPMS_ATTEST_magic x)) TPM_GENERATED_ID \<and>
     enum_ok c (ucast (selector_or 0 TPMU_ATTEST_GetUnionSelector (TPMS_ATTEST_attested x))) TPM_ST_ID \<and>
     length (TPMS_ATTEST_qualifiedSigner x) < 2 ^ 64 \<and>
     length (TPMS_ATTEST_extraData x) < 2 ^ 64 \<and>
     TPMS_CLOCK_INFO_text_ok c (TPMS_ATTEST_clockInfo x) \<and>
     if_set_ok (TPMU_ATTEST_text_ok c) (TPMS_ATTEST_attested x)"

interpretation TPMS_ATTEST_text: text_codec "''TPMS_ATTEST''" TPMS_ATTEST_Serialize TPMS_ATTEST_Deserialize TPMS_ATTEST_default TPMS_ATTEST_text_ok
proof
  show "word_ok ''TPMS_ATTEST''" by (simp add: word_simps)
  fix c x assume ok: "TPMS_ATTEST_text_ok c x"
  from ok show "carries c True (TPMS_ATTEST_Serialize x) (TPMS_ATTEST_Deserialize TPMS_ATTEST_default) x"
    by (simp only: TPMS_ATTEST_Serialize_def TPMS_ATTEST_Deserialize_def TPMS_ATTEST_default_def
       TPMS_ATTEST.select_convs TPMS_ATTEST.update_convs;
      intro TPMS_CLOCK_INFO_text.as_entry [THEN carries_entry_Cons] TPMU_ATTEST_text.as_member [THEN carries_member_Cons] TPMU_ATTEST_text.member_created [of c, THEN carries_create] carries_body;
      (rule TPMS_ATTEST.equality)?; simp add: TPMS_ATTEST_text_ok_def word_simps)
qed

subsection \<open>TPM2B_ATTEST\<close>

definition TPM2B_ATTEST_Serialize :: "TPM2B_ATTEST \<Rightarrow> unit ser" where
  "TPM2B_ATTEST_Serialize self = wseq
     [withN ''attestationData'' ''TPMS_ATTEST'' ''size'' ''UINT16'' (ser_writeObj ''TPMS_ATTEST'' (TPMS_ATTEST_Serialize (TPM2B_ATTEST_attestationData self)))]"

definition TPM2B_ATTEST_Deserialize :: "TPM2B_ATTEST \<Rightarrow> TPM2B_ATTEST ser" where
  "TPM2B_ATTEST_Deserialize self =
     sbind (withN ''attestationData'' ''TPMS_ATTEST'' ''size'' ''UINT16'' (ser_readObj ''TPMS_ATTEST'' (TPMS_ATTEST_Deserialize (TPM2B_ATTEST_attestationData self)))) (\<lambda>attestationData.
     ret (self\<lparr>TPM2B_ATTEST_attestationData := attestationData\<rparr>))"

definition TPM2B_ATTEST_text_ok :: "text_class \<Rightarrow> TPM2B_ATTEST \<Rightarrow> bool" where
  "TPM2B_ATTEST_text_ok c x \<longleftrightarrow>
     TPMS_ATTEST_text_ok c (TPM2B_ATTEST_attestationData x)"

interpretation TPM2B_ATTEST_text: text_codec "''TPM2B_ATTEST''" TPM2B_ATTEST_Serialize TPM2B_ATTEST_Deserialize TPM2B_ATTEST_default TPM2B_ATTEST_text_ok
proof
  show "word_ok ''TPM2B_ATTEST''" by (simp add: word_simps)
  fix c x assume ok: "TPM2B_ATTEST_text_ok c x"
  from ok show "carries c True (TPM2B_ATTEST_Serialize x) (TPM2B_ATTEST_Deserialize TPM2B_ATTEST_default) x"
    by (simp only: TPM2B_ATTEST_Serialize_def TPM2B_ATTEST_Deserialize_def TPM2B_ATTEST_default_def
       TPM2B_ATTEST.select_convs TPM2B_ATTEST.update_convs;
      intro TPMS_ATTEST_text.as_entry [THEN carries_entry_Cons] carries_body;
      (rule TPM2B_ATTEST.equality)?; simp add: TPM2B_ATTEST_text_ok_def word_simps)
qed

subsection \<open>TPMS_AUTH_COMMAND\<close>

definition TPMS_AUTH_COMMAND_Serialize :: "TPMS_AUTH_COMMAND \<Rightarrow> unit ser" where
  "TPMS_AUTH_COMMAND_Serialize self = wseq
     [withN ''sessionHandle'' ''TPM_HANDLE'' '''' '''' (ser_writeObj ''TPM_HANDLE'' (TPM_HANDLE_Serialize (TPMS_AUTH_COMMAND_sessionHandle self))),
      withN ''nonce'' ''BYTE[]'' ''nonceSize'' ''UINT16'' (ser_writeSizedByteBuf (TPMS_AUTH_COMMAND_nonce self)),
      withN ''sessionAttributes'' ''TPMA_SESSION'' '''' '''' (ser_writeEnumT (TPMS_AUTH_COMMAND_sessionAttributes self) TPMA_SESSION_ID),
      withN ''hmac'' ''BYTE[]'' ''hmacSize'' ''UINT16'' (ser_writeSizedByteBuf (TPMS_AUTH_COMMAND_hmac self))]"

definition TPMS_AUTH_COMMAND_Deserialize :: "TPMS_AUTH_COMMAND \<Rightarrow> TPMS_AUTH_COMMAND ser" where
  "TPMS_AUTH_COMMAND_Deserialize self =
     sbind (withN ''sessionHandle'' ''TPM_HANDLE'' '''' '''' (ser_readObj ''TPM_HANDLE'' (TPM_HANDLE_Deserialize (TPMS_AUTH_COMMAND_sessionHandle self)))) (\<lambda>sessionHandle.
     sbind (withN ''nonce'' ''BYTE[]'' ''nonceSize'' ''UINT16'' ser_readSizedByteBuf) (\<lambda>nonce.
     sbind (withN ''sessionAttributes'' ''TPMA_SESSION'' '''' '''' (ser_readEnumT TPMA_SESSION_ID)) (\<lambda>sessionAttributes.
     sbind (withN ''hmac'' ''BYTE[]'' ''hmacSize'' ''UINT16'' ser_readSizedByteBuf) (\<lambda>hmac.
     ret (self\<lparr>TPMS_AUTH_COMMAND_sessionHandle := sessionHandle, TPMS_AUTH_COMMAND_nonce := nonce, TPMS_AUTH_COMMAND_sessionAttributes := sessionAttributes, TPMS_AUTH_COMMAND_hmac := hmac\<rparr>)))))"

definition TPMS_AUTH_COMMAND_text_ok :: "text_class \<Rightarrow> TPMS_AUTH_COMMAND \<Rightarrow> bool" where
  "TPMS_AUTH_COMMAND_text_ok c x \<longleftrightarrow>
     TPM_HANDLE_text_ok c (TPMS_AUTH_COMMAND_sessionHandle x) \<and>
     length (TPMS_AUTH_COMMAND_nonce x) < 2 ^ 64 \<and>
     enum_ok c (ucast (TPMS_AUTH_COMMAND_sessionAttributes x)) TPMA_SESSION_ID \<and>
     length (TPMS_AUTH_COMMAND_hmac x) < 2 ^ 64"

interpretation TPMS_AUTH_COMMAND_text: text_codec "''TPMS_AUTH_COMMAND''" TPMS_AUTH_COMMAND_Serialize TPMS_AUTH_COMMAND_Deserialize TPMS_AUTH_COMMAND_default TPMS_AUTH_COMMAND_text_ok
proof
  show "word_ok ''TPMS_AUTH_COMMAND''" by (simp add: word_simps)
  fix c x assume ok: "TPMS_AUTH_COMMAND_text_ok c x"
  from ok show "carries c True (TPMS_AUTH_COMMAND_Serialize x) (TPMS_AUTH_COMMAND_Deserialize TPMS_AUTH_COMMAND_default) x"
    by (simp only: TPMS_AUTH_COMMAND_Serialize_def TPMS_AUTH_COMMAND_Deserialize_def TPMS_AUTH_COMMAND_default_def
       TPMS_AUTH_COMMAND.select_convs TPMS_AUTH_COMMAND.update_convs;
      intro TPM_HANDLE_text.as_entry [THEN carries_entry_Cons] carries_body;
      (rule TPMS_AUTH_COMMAND.equality)?; simp add: TPMS_AUTH_COMMAND_text_ok_def word_simps)
qed

subsection \<open>TPMS_AUTH_RESPONSE\<close>

definition TPMS_AUTH_RESPONSE_Serialize :: "TPMS_AUTH_RESPONSE \<Rightarrow> unit ser" where
  "TPMS_AUTH_RESPONSE_Serialize self = wseq
     [withN ''nonce'' ''BYTE[]'' ''nonceSize'' ''UINT16'' (ser_writeSizedByteBuf (TPMS_AUTH_RESPONSE_nonce self)),
      withN ''sessionAttributes'' ''TPMA_SESSION'' '''' '''' (ser_writeEnumT (TPMS_AUTH_RESPONSE_sessionAttributes self) TPMA_SESSION_ID),
      withN ''hmac'' ''BYTE[]'' ''hmacSize'' ''UINT16'' (ser_writeSizedByteBuf (TPMS_AUTH_RESPONSE_hmac self))]"

definition TPMS_AUTH_RESPONSE_Deserialize :: "TPMS_AUTH_RESPONSE \<Rightarrow> TPMS_AUTH_RESPONSE ser" where
  "TPMS_AUTH_RESPONSE_Deserialize self =
     sbind (withN ''nonce'' ''BYTE[]'' ''nonceSize'' ''UINT16'' ser_readSizedByteBuf) (\<lambda>nonce.
     sbind (withN ''sessionAttributes'' ''TPMA_SESSION'' '''' '''' (ser_readEnumT TPMA_SESSION_ID)) (\<lambda>sessionAttributes.
     sbind (withN ''hmac'' ''BYTE[]'' ''hmacSize'' ''UINT16'' ser_readSizedByteBuf) (\<lambda>hmac.
     ret (self\<lparr>TPMS_AUTH_RESPONSE_nonce := nonce, TPMS_AUTH_RESPONSE_sessionAttributes := sessionAttributes, TPMS_AUTH_RESPONSE_hmac := hmac\<rparr>))))"

definition TPMS_AUTH_RESPONSE_text_ok :: "text_class \<Rightarrow> TPMS_AUTH_RESPONSE \<Rightarrow> bool" where
  "TPMS_AUTH_RESPONSE_text_ok c x \<longleftrightarrow>
     length (TPMS_AUTH_RESPONSE_nonce x) < 2 ^ 64 \<and>
     enum_ok c (ucast (TPMS_AUTH_RESPONSE_sessionAttributes x)) TPMA_SESSION_ID \<and>
     length (TPMS_AUTH_RESPONSE_hmac x) < 2 ^ 64"

interpretation TPMS_AUTH_RESPONSE_text: text_codec "''TPMS_AUTH_RESPONSE''" TPMS_AUTH_RESPONSE_Serialize TPMS_AUTH_RESPONSE_Deserialize TPMS_AUTH_RESPONSE_default TPMS_AUTH_RESPONSE_text_ok
proof
  show "word_ok ''TPMS_AUTH_RESPONSE''" by (simp add: word_simps)
  fix c x assume ok: "TPMS_AUTH_RESPONSE_text_ok c x"
  from ok show "carries c True (TPMS_AUTH_RESPONSE_Serialize x) (TPMS_AUTH_RESPONSE_Deserialize TPMS_AUTH_RESPONSE_default) x"
    by (simp only: TPMS_AUTH_RESPONSE_Serialize_def TPMS_AUTH_RESPONSE_Deserialize_def TPMS_AUTH_RESPONSE_default_def
       TPMS_AUTH_RESPONSE.select_convs TPMS_AUTH_RESPONSE.update_convs;
      intro carries_body;
      (rule TPMS_AUTH_RESPONSE.equality)?; simp add: TPMS_AUTH_RESPONSE_text_ok_def word_simps)
qed

end
