(* ===== verification/TextSchemeTypes.thy ===== *)
theory TextSchemeTypes
  imports TextAttestTypes TpmSchemeTypes
begin

text \<open>
  \<^verbatim>\<open>TSS.CPP/Src/TpmTypes.cpp\<close>, the text form of the structures of theory \<open>TpmSchemeTypes\<close>: \<open>X_Serialize\<close> and
  \<open>X_Deserialize\<close> of each class \<open>X\<close>, the values \<open>X_text_ok\<close> that a text of the given kind can carry, and
  the proof that the second method reads what the first one writes (the interpretation \<open>X_text\<close>).
  A class with an array of enumerators has no such interpretation: \<open>readEnumArr\<close> does not read it.
\<close>

subsection \<open>TPMT_SYM_DEF\<close>

definition TPMT_SYM_DEF_Serialize :: "TPMT_SYM_DEF \<Rightarrow> unit ser" where
  "TPMT_SYM_DEF_Serialize self = wseq
     [withN ''algorithm'' ''TPM_ALG_ID'' '''' '''' (ser_writeEnumT (TPMT_SYM_DEF_algorithm self) TPM_ALG_ID_ID),
      withN ''keyBits'' ''UINT16'' '''' '''' (ser_writeShort (TPMT_SYM_DEF_keyBits self)),
      withN ''mode'' ''TPM_ALG_ID'' '''' '''' (ser_writeEnumT (TPMT_SYM_DEF_mode self) TPM_ALG_ID_ID)]"

definition TPMT_SYM_DEF_Deserialize :: "TPMT_SYM_DEF \<Rightarrow> TPMT_SYM_DEF ser" where
  "TPMT_SYM_DEF_Deserialize self =
     sbind (withN ''algorithm'' ''TPM_ALG_ID'' '''' '''' (ser_readEnumT TPM_ALG_ID_ID)) (\<lambda>algorithm.
     sbind (withN ''keyBits'' ''UINT16'' '''' '''' ser_readShort) (\<lambda>keyBits.
     sbind (withN ''mode'' ''TPM_ALG_ID'' '''' '''' (ser_readEnumT TPM_ALG_ID_ID)) (\<lambda>mode.
     ret (self\<lparr>TPMT_SYM_DEF_algorithm := algorithm, TPMT_SYM_DEF_keyBits := keyBits, TPMT_SYM_DEF_mode := mode\<rparr>))))"

definition TPMT_SYM_DEF_text_ok :: "text_class \<Rightarrow> TPMT_SYM_DEF \<Rightarrow> bool" where
  "TPMT_SYM_DEF_text_ok c x \<longleftrightarrow>
     enum_ok c (ucast (TPMT_SYM_DEF_algorithm x)) TPM_ALG_ID_ID \<and>
     enum_ok c (ucast (TPMT_SYM_DEF_mode x)) TPM_ALG_ID_ID"

interpretation TPMT_SYM_DEF_text: text_codec "''TPMT_SYM_DEF''" TPMT_SYM_DEF_Serialize TPMT_SYM_DEF_Deserialize TPMT_SYM_DEF_default TPMT_SYM_DEF_text_ok
proof
  show "word_ok ''TPMT_SYM_DEF''" by (simp add: word_simps)
  fix c x assume ok: "TPMT_SYM_DEF_text_ok c x"
  from ok show "carries c True (TPMT_SYM_DEF_Serialize x) (TPMT_SYM_DEF_Deserialize TPMT_SYM_DEF_default) x"
    by (simp only: TPMT_SYM_DEF_Serialize_def TPMT_SYM_DEF_Deserialize_def TPMT_SYM_DEF_default_def
       TPMT_SYM_DEF.select_convs TPMT_SYM_DEF.update_convs;
      intro carries_body;
      (rule TPMT_SYM_DEF.equality)?; simp add: TPMT_SYM_DEF_text_ok_def word_simps)
qed

subsection \<open>TPMT_SYM_DEF_OBJECT\<close>

definition TPMT_SYM_DEF_OBJECT_Serialize :: "TPMT_SYM_DEF_OBJECT \<Rightarrow> unit ser" where
  "TPMT_SYM_DEF_OBJECT_Serialize self = wseq
     [withN ''algorithm'' ''TPM_ALG_ID'' '''' '''' (ser_writeEnumT (TPMT_SYM_DEF_OBJECT_algorithm self) TPM_ALG_ID_ID),
      withN ''keyBits'' ''UINT16'' '''' '''' (ser_writeShort (TPMT_SYM_DEF_OBJECT_keyBits self)),
      withN ''mode'' ''TPM_ALG_ID'' '''' '''' (ser_writeEnumT (TPMT_SYM_DEF_OBJECT_mode self) TPM_ALG_ID_ID)]"

definition TPMT_SYM_DEF_OBJECT_Deserialize :: "TPMT_SYM_DEF_OBJECT \<Rightarrow> TPMT_SYM_DEF_OBJECT ser" where
  "TPMT_SYM_DEF_OBJECT_Deserialize self =
     sbind (withN ''algorithm'' ''TPM_ALG_ID'' '''' '''' (ser_readEnumT TPM_ALG_ID_ID)) (\<lambda>algorithm.
     sbind (withN ''keyBits'' ''UINT16'' '''' '''' ser_readShort) (\<lambda>keyBits.
     sbind (withN ''mode'' ''TPM_ALG_ID'' '''' '''' (ser_readEnumT TPM_ALG_ID_ID)) (\<lambda>mode.
     ret (self\<lparr>TPMT_SYM_DEF_OBJECT_algorithm := algorithm, TPMT_SYM_DEF_OBJECT_keyBits := keyBits, TPMT_SYM_DEF_OBJECT_mode := mode\<rparr>))))"

definition TPMT_SYM_DEF_OBJECT_text_ok :: "text_class \<Rightarrow> TPMT_SYM_DEF_OBJECT \<Rightarrow> bool" where
  "TPMT_SYM_DEF_OBJECT_text_ok c x \<longleftrightarrow>
     enum_ok c (ucast (TPMT_SYM_DEF_OBJECT_algorithm x)) TPM_ALG_ID_ID \<and>
     enum_ok c (ucast (TPMT_SYM_DEF_OBJECT_mode x)) TPM_ALG_ID_ID"

interpretation TPMT_SYM_DEF_OBJECT_text: text_codec "''TPMT_SYM_DEF_OBJECT''" TPMT_SYM_DEF_OBJECT_Serialize TPMT_SYM_DEF_OBJECT_Deserialize TPMT_SYM_DEF_OBJECT_default TPMT_SYM_DEF_OBJECT_text_ok
proof
  show "word_ok ''TPMT_SYM_DEF_OBJECT''" by (simp add: word_simps)
  fix c x assume ok: "TPMT_SYM_DEF_OBJECT_text_ok c x"
  from ok show "carries c True (TPMT_SYM_DEF_OBJECT_Serialize x) (TPMT_SYM_DEF_OBJECT_Deserialize TPMT_SYM_DEF_OBJECT_default) x"
    by (simp only: TPMT_SYM_DEF_OBJECT_Serialize_def TPMT_SYM_DEF_OBJECT_Deserialize_def TPMT_SYM_DEF_OBJECT_default_def
       TPMT_SYM_DEF_OBJECT.select_convs TPMT_SYM_DEF_OBJECT.update_convs;
      intro carries_body;
      (rule TPMT_SYM_DEF_OBJECT.equality)?; simp add: TPMT_SYM_DEF_OBJECT_text_ok_def word_simps)
qed

subsection \<open>TPM2B_SYM_KEY\<close>

definition TPM2B_SYM_KEY_Serialize :: "TPM2B_SYM_KEY \<Rightarrow> unit ser" where
  "TPM2B_SYM_KEY_Serialize self = wseq
     [withN ''buffer'' ''BYTE[]'' ''size'' ''UINT16'' (ser_writeSizedByteBuf (TPM2B_SYM_KEY_buffer self))]"

definition TPM2B_SYM_KEY_Deserialize :: "TPM2B_SYM_KEY \<Rightarrow> TPM2B_SYM_KEY ser" where
  "TPM2B_SYM_KEY_Deserialize self =
     sbind (withN ''buffer'' ''BYTE[]'' ''size'' ''UINT16'' ser_readSizedByteBuf) (\<lambda>buffer.
     ret (self\<lparr>TPM2B_SYM_KEY_buffer := buffer\<rparr>))"

definition TPM2B_SYM_KEY_text_ok :: "text_class \<Rightarrow> TPM2B_SYM_KEY \<Rightarrow> bool" where
  "TPM2B_SYM_KEY_text_ok c x \<longleftrightarrow>
     length (TPM2B_SYM_KEY_buffer x) < 2 ^ 64"

interpretation TPM2B_SYM_KEY_text: text_codec "''TPM2B_SYM_KEY''" TPM2B_SYM_KEY_Serialize TPM2B_SYM_KEY_Deserialize TPM2B_SYM_KEY_default TPM2B_SYM_KEY_text_ok
proof
  show "word_ok ''TPM2B_SYM_KEY''" by (simp add: word_simps)
  fix c x assume ok: "TPM2B_SYM_KEY_text_ok c x"
  from ok show "carries c True (TPM2B_SYM_KEY_Serialize x) (TPM2B_SYM_KEY_Deserialize TPM2B_SYM_KEY_default) x"
    by (simp only: TPM2B_SYM_KEY_Serialize_def TPM2B_SYM_KEY_Deserialize_def TPM2B_SYM_KEY_default_def
       TPM2B_SYM_KEY.select_convs TPM2B_SYM_KEY.update_convs;
      intro carries_body;
      (rule TPM2B_SYM_KEY.equality)?; simp add: TPM2B_SYM_KEY_text_ok_def word_simps)
qed

subsection \<open>TPMS_SYMCIPHER_PARMS\<close>

definition TPMS_SYMCIPHER_PARMS_Serialize :: "TPMS_SYMCIPHER_PARMS \<Rightarrow> unit ser" where
  "TPMS_SYMCIPHER_PARMS_Serialize self = wseq
     [withN ''sym'' ''TPMT_SYM_DEF_OBJECT'' '''' '''' (ser_writeObj ''TPMT_SYM_DEF_OBJECT'' (TPMT_SYM_DEF_OBJECT_Serialize (TPMS_SYMCIPHER_PARMS_sym self)))]"

definition TPMS_SYMCIPHER_PARMS_Deserialize :: "TPMS_SYMCIPHER_PARMS \<Rightarrow> TPMS_SYMCIPHER_PARMS ser" where
  "TPMS_SYMCIPHER_PARMS_Deserialize self =
     sbind (withN ''sym'' ''TPMT_SYM_DEF_OBJECT'' '''' '''' (ser_readObj ''TPMT_SYM_DEF_OBJECT'' (TPMT_SYM_DEF_OBJECT_Deserialize (TPMS_SYMCIPHER_PARMS_sym self)))) (\<lambda>sym.
     ret (self\<lparr>TPMS_SYMCIPHER_PARMS_sym := sym\<rparr>))"

definition TPMS_SYMCIPHER_PARMS_text_ok :: "text_class \<Rightarrow> TPMS_SYMCIPHER_PARMS \<Rightarrow> bool" where
  "TPMS_SYMCIPHER_PARMS_text_ok c x \<longleftrightarrow>
     TPMT_SYM_DEF_OBJECT_text_ok c (TPMS_SYMCIPHER_PARMS_sym x)"

interpretation TPMS_SYMCIPHER_PARMS_text: text_codec "''TPMS_SYMCIPHER_PARMS''" TPMS_SYMCIPHER_PARMS_Serialize TPMS_SYMCIPHER_PARMS_Deserialize TPMS_SYMCIPHER_PARMS_default TPMS_SYMCIPHER_PARMS_text_ok
proof
  show "word_ok ''TPMS_SYMCIPHER_PARMS''" by (simp add: word_simps)
  fix c x assume ok: "TPMS_SYMCIPHER_PARMS_text_ok c x"
  from ok show "carries c True (TPMS_SYMCIPHER_PARMS_Serialize x) (TPMS_SYMCIPHER_PARMS_Deserialize TPMS_SYMCIPHER_PARMS_default) x"
    by (simp only: TPMS_SYMCIPHER_PARMS_Serialize_def TPMS_SYMCIPHER_PARMS_Deserialize_def TPMS_SYMCIPHER_PARMS_default_def
       TPMS_SYMCIPHER_PARMS.select_convs TPMS_SYMCIPHER_PARMS.update_convs;
      intro TPMT_SYM_DEF_OBJECT_text.as_entry [THEN carries_entry_Cons] carries_body;
      (rule TPMS_SYMCIPHER_PARMS.equality)?; simp add: TPMS_SYMCIPHER_PARMS_text_ok_def word_simps)
qed

subsection \<open>TPM2B_LABEL\<close>

definition TPM2B_LABEL_Serialize :: "TPM2B_LABEL \<Rightarrow> unit ser" where
  "TPM2B_LABEL_Serialize self = wseq
     [withN ''buffer'' ''BYTE[]'' ''size'' ''UINT16'' (ser_writeSizedByteBuf (TPM2B_LABEL_buffer self))]"

definition TPM2B_LABEL_Deserialize :: "TPM2B_LABEL \<Rightarrow> TPM2B_LABEL ser" where
  "TPM2B_LABEL_Deserialize self =
     sbind (withN ''buffer'' ''BYTE[]'' ''size'' ''UINT16'' ser_readSizedByteBuf) (\<lambda>buffer.
     ret (self\<lparr>TPM2B_LABEL_buffer := buffer\<rparr>))"

definition TPM2B_LABEL_text_ok :: "text_class \<Rightarrow> TPM2B_LABEL \<Rightarrow> bool" where
  "TPM2B_LABEL_text_ok c x \<longleftrightarrow>
     length (TPM2B_LABEL_buffer x) < 2 ^ 64"

interpretation TPM2B_LABEL_text: text_codec "''TPM2B_LABEL''" TPM2B_LABEL_Serialize TPM2B_LABEL_Deserialize TPM2B_LABEL_default TPM2B_LABEL_text_ok
proof
  show "word_ok ''TPM2B_LABEL''" by (simp add: word_simps)
  fix c x assume ok: "TPM2B_LABEL_text_ok c x"
  from ok show "carries c True (TPM2B_LABEL_Serialize x) (TPM2B_LABEL_Deserialize TPM2B_LABEL_default) x"
    by (simp only: TPM2B_LABEL_Serialize_def TPM2B_LABEL_Deserialize_def TPM2B_LABEL_default_def
       TPM2B_LABEL.select_convs TPM2B_LABEL.update_convs;
      intro carries_body;
      (rule TPM2B_LABEL.equality)?; simp add: TPM2B_LABEL_text_ok_def word_simps)
qed

subsection \<open>TPMS_DERIVE\<close>

definition TPMS_DERIVE_Serialize :: "TPMS_DERIVE \<Rightarrow> unit ser" where
  "TPMS_DERIVE_Serialize self = wseq
     [withN ''label'' ''BYTE[]'' ''labelSize'' ''UINT16'' (ser_writeSizedByteBuf (TPMS_DERIVE_label self)),
      withN ''context'' ''BYTE[]'' ''contextSize'' ''UINT16'' (ser_writeSizedByteBuf (TPMS_DERIVE_context self))]"

definition TPMS_DERIVE_Deserialize :: "TPMS_DERIVE \<Rightarrow> TPMS_DERIVE ser" where
  "TPMS_DERIVE_Deserialize self =
     sbind (withN ''label'' ''BYTE[]'' ''labelSize'' ''UINT16'' ser_readSizedByteBuf) (\<lambda>label.
     sbind (withN ''context'' ''BYTE[]'' ''contextSize'' ''UINT16'' ser_readSizedByteBuf) (\<lambda>context.
     ret (self\<lparr>TPMS_DERIVE_label := label, TPMS_DERIVE_context := context\<rparr>)))"

definition TPMS_DERIVE_text_ok :: "text_class \<Rightarrow> TPMS_DERIVE \<Rightarrow> bool" where
  "TPMS_DERIVE_text_ok c x \<longleftrightarrow>
     length (TPMS_DERIVE_label x) < 2 ^ 64 \<and>
     length (TPMS_DERIVE_context x) < 2 ^ 64"

interpretation TPMS_DERIVE_text: text_codec "''TPMS_DERIVE''" TPMS_DERIVE_Serialize TPMS_DERIVE_Deserialize TPMS_DERIVE_default TPMS_DERIVE_text_ok
proof
  show "word_ok ''TPMS_DERIVE''" by (simp add: word_simps)
  fix c x assume ok: "TPMS_DERIVE_text_ok c x"
  from ok show "carries c True (TPMS_DERIVE_Serialize x) (TPMS_DERIVE_Deserialize TPMS_DERIVE_default) x"
    by (simp only: TPMS_DERIVE_Serialize_def TPMS_DERIVE_Deserialize_def TPMS_DERIVE_default_def
       TPMS_DERIVE.select_convs TPMS_DERIVE.update_convs;
      intro carries_body;
      (rule TPMS_DERIVE.equality)?; simp add: TPMS_DERIVE_text_ok_def word_simps)
qed

subsection \<open>TPM2B_DERIVE\<close>

definition TPM2B_DERIVE_Serialize :: "TPM2B_DERIVE \<Rightarrow> unit ser" where
  "TPM2B_DERIVE_Serialize self = wseq
     [withN ''buffer'' ''TPMS_DERIVE'' ''size'' ''UINT16'' (ser_writeObj ''TPMS_DERIVE'' (TPMS_DERIVE_Serialize (TPM2B_DERIVE_buffer self)))]"

definition TPM2B_DERIVE_Deserialize :: "TPM2B_DERIVE \<Rightarrow> TPM2B_DERIVE ser" where
  "TPM2B_DERIVE_Deserialize self =
     sbind (withN ''buffer'' ''TPMS_DERIVE'' ''size'' ''UINT16'' (ser_readObj ''TPMS_DERIVE'' (TPMS_DERIVE_Deserialize (TPM2B_DERIVE_buffer self)))) (\<lambda>buffer.
     ret (self\<lparr>TPM2B_DERIVE_buffer := buffer\<rparr>))"

definition TPM2B_DERIVE_text_ok :: "text_class \<Rightarrow> TPM2B_DERIVE \<Rightarrow> bool" where
  "TPM2B_DERIVE_text_ok c x \<longleftrightarrow>
     TPMS_DERIVE_text_ok c (TPM2B_DERIVE_buffer x)"

interpretation TPM2B_DERIVE_text: text_codec "''TPM2B_DERIVE''" TPM2B_DERIVE_Serialize TPM2B_DERIVE_Deserialize TPM2B_DERIVE_default TPM2B_DERIVE_text_ok
proof
  show "word_ok ''TPM2B_DERIVE''" by (simp add: word_simps)
  fix c x assume ok: "TPM2B_DERIVE_text_ok c x"
  from ok show "carries c True (TPM2B_DERIVE_Serialize x) (TPM2B_DERIVE_Deserialize TPM2B_DERIVE_default) x"
    by (simp only: TPM2B_DERIVE_Serialize_def TPM2B_DERIVE_Deserialize_def TPM2B_DERIVE_default_def
       TPM2B_DERIVE.select_convs TPM2B_DERIVE.update_convs;
      intro TPMS_DERIVE_text.as_entry [THEN carries_entry_Cons] carries_body;
      (rule TPM2B_DERIVE.equality)?; simp add: TPM2B_DERIVE_text_ok_def word_simps)
qed

subsection \<open>TPM2B_SENSITIVE_DATA\<close>

definition TPM2B_SENSITIVE_DATA_Serialize :: "TPM2B_SENSITIVE_DATA \<Rightarrow> unit ser" where
  "TPM2B_SENSITIVE_DATA_Serialize self = wseq
     [withN ''buffer'' ''BYTE[]'' ''size'' ''UINT16'' (ser_writeSizedByteBuf (TPM2B_SENSITIVE_DATA_buffer self))]"

definition TPM2B_SENSITIVE_DATA_Deserialize :: "TPM2B_SENSITIVE_DATA \<Rightarrow> TPM2B_SENSITIVE_DATA ser" where
  "TPM2B_SENSITIVE_DATA_Deserialize self =
     sbind (withN ''buffer'' ''BYTE[]'' ''size'' ''UINT16'' ser_readSizedByteBuf) (\<lambda>buffer.
     ret (self\<lparr>TPM2B_SENSITIVE_DATA_buffer := buffer\<rparr>))"

definition TPM2B_SENSITIVE_DATA_text_ok :: "text_class \<Rightarrow> TPM2B_SENSITIVE_DATA \<Rightarrow> bool" where
  "TPM2B_SENSITIVE_DATA_text_ok c x \<longleftrightarrow>
     length (TPM2B_SENSITIVE_DATA_buffer x) < 2 ^ 64"

interpretation TPM2B_SENSITIVE_DATA_text: text_codec "''TPM2B_SENSITIVE_DATA''" TPM2B_SENSITIVE_DATA_Serialize TPM2B_SENSITIVE_DATA_Deserialize TPM2B_SENSITIVE_DATA_default TPM2B_SENSITIVE_DATA_text_ok
proof
  show "word_ok ''TPM2B_SENSITIVE_DATA''" by (simp add: word_simps)
  fix c x assume ok: "TPM2B_SENSITIVE_DATA_text_ok c x"
  from ok show "carries c True (TPM2B_SENSITIVE_DATA_Serialize x) (TPM2B_SENSITIVE_DATA_Deserialize TPM2B_SENSITIVE_DATA_default) x"
    by (simp only: TPM2B_SENSITIVE_DATA_Serialize_def TPM2B_SENSITIVE_DATA_Deserialize_def TPM2B_SENSITIVE_DATA_default_def
       TPM2B_SENSITIVE_DATA.select_convs TPM2B_SENSITIVE_DATA.update_convs;
      intro carries_body;
      (rule TPM2B_SENSITIVE_DATA.equality)?; simp add: TPM2B_SENSITIVE_DATA_text_ok_def word_simps)
qed

subsection \<open>TPMS_SENSITIVE_CREATE\<close>

definition TPMS_SENSITIVE_CREATE_Serialize :: "TPMS_SENSITIVE_CREATE \<Rightarrow> unit ser" where
  "TPMS_SENSITIVE_CREATE_Serialize self = wseq
     [withN ''userAuth'' ''BYTE[]'' ''userAuthSize'' ''UINT16'' (ser_writeSizedByteBuf (TPMS_SENSITIVE_CREATE_userAuth self)),
      withN ''data'' ''BYTE[]'' ''dataSize'' ''UINT16'' (ser_writeSizedByteBuf (TPMS_SENSITIVE_CREATE_data self))]"

definition TPMS_SENSITIVE_CREATE_Deserialize :: "TPMS_SENSITIVE_CREATE \<Rightarrow> TPMS_SENSITIVE_CREATE ser" where
  "TPMS_SENSITIVE_CREATE_Deserialize self =
     sbind (withN ''userAuth'' ''BYTE[]'' ''userAuthSize'' ''UINT16'' ser_readSizedByteBuf) (\<lambda>userAuth.
     sbind (withN ''data'' ''BYTE[]'' ''dataSize'' ''UINT16'' ser_readSizedByteBuf) (\<lambda>data.
     ret (self\<lparr>TPMS_SENSITIVE_CREATE_userAuth := userAuth, TPMS_SENSITIVE_CREATE_data := data\<rparr>)))"

definition TPMS_SENSITIVE_CREATE_text_ok :: "text_class \<Rightarrow> TPMS_SENSITIVE_CREATE \<Rightarrow> bool" where
  "TPMS_SENSITIVE_CREATE_text_ok c x \<longleftrightarrow>
     length (TPMS_SENSITIVE_CREATE_userAuth x) < 2 ^ 64 \<and>
     length (TPMS_SENSITIVE_CREATE_data x) < 2 ^ 64"

interpretation TPMS_SENSITIVE_CREATE_text: text_codec "''TPMS_SENSITIVE_CREATE''" TPMS_SENSITIVE_CREATE_Serialize TPMS_SENSITIVE_CREATE_Deserialize TPMS_SENSITIVE_CREATE_default TPMS_SENSITIVE_CREATE_text_ok
proof
  show "word_ok ''TPMS_SENSITIVE_CREATE''" by (simp add: word_simps)
  fix c x assume ok: "TPMS_SENSITIVE_CREATE_text_ok c x"
  from ok show "carries c True (TPMS_SENSITIVE_CREATE_Serialize x) (TPMS_SENSITIVE_CREATE_Deserialize TPMS_SENSITIVE_CREATE_default) x"
    by (simp only: TPMS_SENSITIVE_CREATE_Serialize_def TPMS_SENSITIVE_CREATE_Deserialize_def TPMS_SENSITIVE_CREATE_default_def
       TPMS_SENSITIVE_CREATE.select_convs TPMS_SENSITIVE_CREATE.update_convs;
      intro carries_body;
      (rule TPMS_SENSITIVE_CREATE.equality)?; simp add: TPMS_SENSITIVE_CREATE_text_ok_def word_simps)
qed

subsection \<open>TPM2B_SENSITIVE_CREATE\<close>

definition TPM2B_SENSITIVE_CREATE_Serialize :: "TPM2B_SENSITIVE_CREATE \<Rightarrow> unit ser" where
  "TPM2B_SENSITIVE_CREATE_Serialize self = wseq
     [withN ''sensitive'' ''TPMS_SENSITIVE_CREATE'' ''size'' ''UINT16'' (ser_writeObj ''TPMS_SENSITIVE_CREATE'' (TPMS_SENSITIVE_CREATE_Serialize (TPM2B_SENSITIVE_CREATE_sensitive self)))]"

definition TPM2B_SENSITIVE_CREATE_Deserialize :: "TPM2B_SENSITIVE_CREATE \<Rightarrow> TPM2B_SENSITIVE_CREATE ser" where
  "TPM2B_SENSITIVE_CREATE_Deserialize self =
     sbind (withN ''sensitive'' ''TPMS_SENSITIVE_CREATE'' ''size'' ''UINT16'' (ser_readObj ''TPMS_SENSITIVE_CREATE'' (TPMS_SENSITIVE_CREATE_Deserialize (TPM2B_SENSITIVE_CREATE_sensitive self)))) (\<lambda>sensitive.
     ret (self\<lparr>TPM2B_SENSITIVE_CREATE_sensitive := sensitive\<rparr>))"

definition TPM2B_SENSITIVE_CREATE_text_ok :: "text_class \<Rightarrow> TPM2B_SENSITIVE_CREATE \<Rightarrow> bool" where
  "TPM2B_SENSITIVE_CREATE_text_ok c x \<longleftrightarrow>
     TPMS_SENSITIVE_CREATE_text_ok c (TPM2B_SENSITIVE_CREATE_sensitive x)"

interpretation TPM2B_SENSITIVE_CREATE_text: text_codec "''TPM2B_SENSITIVE_CREATE''" TPM2B_SENSITIVE_CREATE_Serialize TPM2B_SENSITIVE_CREATE_Deserialize TPM2B_SENSITIVE_CREATE_default TPM2B_SENSITIVE_CREATE_text_ok
proof
  show "word_ok ''TPM2B_SENSITIVE_CREATE''" by (simp add: word_simps)
  fix c x assume ok: "TPM2B_SENSITIVE_CREATE_text_ok c x"
  from ok show "carries c True (TPM2B_SENSITIVE_CREATE_Serialize x) (TPM2B_SENSITIVE_CREATE_Deserialize TPM2B_SENSITIVE_CREATE_default) x"
    by (simp only: TPM2B_SENSITIVE_CREATE_Serialize_def TPM2B_SENSITIVE_CREATE_Deserialize_def TPM2B_SENSITIVE_CREATE_default_def
       TPM2B_SENSITIVE_CREATE.select_convs TPM2B_SENSITIVE_CREATE.update_convs;
      intro TPMS_SENSITIVE_CREATE_text.as_entry [THEN carries_entry_Cons] carries_body;
      (rule TPM2B_SENSITIVE_CREATE.equality)?; simp add: TPM2B_SENSITIVE_CREATE_text_ok_def word_simps)
qed

subsection \<open>TPMS_SCHEME_HASH\<close>

definition TPMS_SCHEME_HASH_Serialize :: "TPMS_SCHEME_HASH \<Rightarrow> unit ser" where
  "TPMS_SCHEME_HASH_Serialize self = wseq
     [withN ''hashAlg'' ''TPM_ALG_ID'' '''' '''' (ser_writeEnumT (TPMS_SCHEME_HASH_hashAlg self) TPM_ALG_ID_ID)]"

definition TPMS_SCHEME_HASH_Deserialize :: "TPMS_SCHEME_HASH \<Rightarrow> TPMS_SCHEME_HASH ser" where
  "TPMS_SCHEME_HASH_Deserialize self =
     sbind (withN ''hashAlg'' ''TPM_ALG_ID'' '''' '''' (ser_readEnumT TPM_ALG_ID_ID)) (\<lambda>hashAlg.
     ret (self\<lparr>TPMS_SCHEME_HASH_hashAlg := hashAlg\<rparr>))"

definition TPMS_SCHEME_HASH_text_ok :: "text_class \<Rightarrow> TPMS_SCHEME_HASH \<Rightarrow> bool" where
  "TPMS_SCHEME_HASH_text_ok c x \<longleftrightarrow>
     enum_ok c (ucast (TPMS_SCHEME_HASH_hashAlg x)) TPM_ALG_ID_ID"

interpretation TPMS_SCHEME_HASH_text: text_codec "''TPMS_SCHEME_HASH''" TPMS_SCHEME_HASH_Serialize TPMS_SCHEME_HASH_Deserialize TPMS_SCHEME_HASH_default TPMS_SCHEME_HASH_text_ok
proof
  show "word_ok ''TPMS_SCHEME_HASH''" by (simp add: word_simps)
  fix c x assume ok: "TPMS_SCHEME_HASH_text_ok c x"
  from ok show "carries c True (TPMS_SCHEME_HASH_Serialize x) (TPMS_SCHEME_HASH_Deserialize TPMS_SCHEME_HASH_default) x"
    by (simp only: TPMS_SCHEME_HASH_Serialize_def TPMS_SCHEME_HASH_Deserialize_def TPMS_SCHEME_HASH_default_def
       TPMS_SCHEME_HASH.select_convs TPMS_SCHEME_HASH.update_convs;
      intro carries_body;
      (rule TPMS_SCHEME_HASH.equality)?; simp add: TPMS_SCHEME_HASH_text_ok_def word_simps)
qed

subsection \<open>TPMS_SCHEME_ECDAA\<close>

definition TPMS_SCHEME_ECDAA_Serialize :: "TPMS_SCHEME_ECDAA \<Rightarrow> unit ser" where
  "TPMS_SCHEME_ECDAA_Serialize self = wseq
     [withN ''hashAlg'' ''TPM_ALG_ID'' '''' '''' (ser_writeEnumT (TPMS_SCHEME_ECDAA_hashAlg self) TPM_ALG_ID_ID),
      withN ''count'' ''UINT16'' '''' '''' (ser_writeShort (TPMS_SCHEME_ECDAA_count self))]"

definition TPMS_SCHEME_ECDAA_Deserialize :: "TPMS_SCHEME_ECDAA \<Rightarrow> TPMS_SCHEME_ECDAA ser" where
  "TPMS_SCHEME_ECDAA_Deserialize self =
     sbind (withN ''hashAlg'' ''TPM_ALG_ID'' '''' '''' (ser_readEnumT TPM_ALG_ID_ID)) (\<lambda>hashAlg.
     sbind (withN ''count'' ''UINT16'' '''' '''' ser_readShort) (\<lambda>count.
     ret (self\<lparr>TPMS_SCHEME_ECDAA_hashAlg := hashAlg, TPMS_SCHEME_ECDAA_count := count\<rparr>)))"

definition TPMS_SCHEME_ECDAA_text_ok :: "text_class \<Rightarrow> TPMS_SCHEME_ECDAA \<Rightarrow> bool" where
  "TPMS_SCHEME_ECDAA_text_ok c x \<longleftrightarrow>
     enum_ok c (ucast (TPMS_SCHEME_ECDAA_hashAlg x)) TPM_ALG_ID_ID"

interpretation TPMS_SCHEME_ECDAA_text: text_codec "''TPMS_SCHEME_ECDAA''" TPMS_SCHEME_ECDAA_Serialize TPMS_SCHEME_ECDAA_Deserialize TPMS_SCHEME_ECDAA_default TPMS_SCHEME_ECDAA_text_ok
proof
  show "word_ok ''TPMS_SCHEME_ECDAA''" by (simp add: word_simps)
  fix c x assume ok: "TPMS_SCHEME_ECDAA_text_ok c x"
  from ok show "carries c True (TPMS_SCHEME_ECDAA_Serialize x) (TPMS_SCHEME_ECDAA_Deserialize TPMS_SCHEME_ECDAA_default) x"
    by (simp only: TPMS_SCHEME_ECDAA_Serialize_def TPMS_SCHEME_ECDAA_Deserialize_def TPMS_SCHEME_ECDAA_default_def
       TPMS_SCHEME_ECDAA.select_convs TPMS_SCHEME_ECDAA.update_convs;
      intro carries_body;
      (rule TPMS_SCHEME_ECDAA.equality)?; simp add: TPMS_SCHEME_ECDAA_text_ok_def word_simps)
qed

subsection \<open>TPMS_SCHEME_XOR\<close>

definition TPMS_SCHEME_XOR_Serialize :: "TPMS_SCHEME_XOR \<Rightarrow> unit ser" where
  "TPMS_SCHEME_XOR_Serialize self = wseq
     [withN ''hashAlg'' ''TPM_ALG_ID'' '''' '''' (ser_writeEnumT (TPMS_SCHEME_XOR_hashAlg self) TPM_ALG_ID_ID),
      withN ''kdf'' ''TPM_ALG_ID'' '''' '''' (ser_writeEnumT (TPMS_SCHEME_XOR_kdf self) TPM_ALG_ID_ID)]"

definition TPMS_SCHEME_XOR_Deserialize :: "TPMS_SCHEME_XOR \<Rightarrow> TPMS_SCHEME_XOR ser" where
  "TPMS_SCHEME_XOR_Deserialize self =
     sbind (withN ''hashAlg'' ''TPM_ALG_ID'' '''' '''' (ser_readEnumT TPM_ALG_ID_ID)) (\<lambda>hashAlg.
     sbind (withN ''kdf'' ''TPM_ALG_ID'' '''' '''' (ser_readEnumT TPM_ALG_ID_ID)) (\<lambda>kdf.
     ret (self\<lparr>TPMS_SCHEME_XOR_hashAlg := hashAlg, TPMS_SCHEME_XOR_kdf := kdf\<rparr>)))"

definition TPMS_SCHEME_XOR_text_ok :: "text_class \<Rightarrow> TPMS_SCHEME_XOR \<Rightarrow> bool" where
  "TPMS_SCHEME_XOR_text_ok c x \<longleftrightarrow>
     enum_ok c (ucast (TPMS_SCHEME_XOR_hashAlg x)) TPM_ALG_ID_ID \<and>
     enum_ok c (ucast (TPMS_SCHEME_XOR_kdf x)) TPM_ALG_ID_ID"

interpretation TPMS_SCHEME_XOR_text: text_codec "''TPMS_SCHEME_XOR''" TPMS_SCHEME_XOR_Serialize TPMS_SCHEME_XOR_Deserialize TPMS_SCHEME_XOR_default TPMS_SCHEME_XOR_text_ok
proof
  show "word_ok ''TPMS_SCHEME_XOR''" by (simp add: word_simps)
  fix c x assume ok: "TPMS_SCHEME_XOR_text_ok c x"
  from ok show "carries c True (TPMS_SCHEME_XOR_Serialize x) (TPMS_SCHEME_XOR_Deserialize TPMS_SCHEME_XOR_default) x"
    by (simp only: TPMS_SCHEME_XOR_Serialize_def TPMS_SCHEME_XOR_Deserialize_def TPMS_SCHEME_XOR_default_def
       TPMS_SCHEME_XOR.select_convs TPMS_SCHEME_XOR.update_convs;
      intro carries_body;
      (rule TPMS_SCHEME_XOR.equality)?; simp add: TPMS_SCHEME_XOR_text_ok_def word_simps)
qed

subsection \<open>The union TPMU_SCHEME_KEYEDHASH\<close>

fun TPMU_SCHEME_KEYEDHASH_TypeName :: "TPMU_SCHEME_KEYEDHASH \<Rightarrow> string" where
  "TPMU_SCHEME_KEYEDHASH_TypeName (SCHEME_KEYEDHASH_TPMS_SCHEME_HMAC _) = ''TPMS_SCHEME_HMAC''"
| "TPMU_SCHEME_KEYEDHASH_TypeName (SCHEME_KEYEDHASH_TPMS_SCHEME_XOR _) = ''TPMS_SCHEME_XOR''"
| "TPMU_SCHEME_KEYEDHASH_TypeName SCHEME_KEYEDHASH_TPMS_NULL_SCHEME_KEYEDHASH = ''TPMS_NULL_SCHEME_KEYEDHASH''"

fun TPMU_SCHEME_KEYEDHASH_Serialize :: "TPMU_SCHEME_KEYEDHASH \<Rightarrow> unit ser" where
  "TPMU_SCHEME_KEYEDHASH_Serialize (SCHEME_KEYEDHASH_TPMS_SCHEME_HMAC x) = TPMS_SCHEME_HASH_Serialize x"
| "TPMU_SCHEME_KEYEDHASH_Serialize (SCHEME_KEYEDHASH_TPMS_SCHEME_XOR x) = TPMS_SCHEME_XOR_Serialize x"
| "TPMU_SCHEME_KEYEDHASH_Serialize SCHEME_KEYEDHASH_TPMS_NULL_SCHEME_KEYEDHASH = ret ()"

fun TPMU_SCHEME_KEYEDHASH_Deserialize :: "TPMU_SCHEME_KEYEDHASH \<Rightarrow> TPMU_SCHEME_KEYEDHASH ser" where
  "TPMU_SCHEME_KEYEDHASH_Deserialize (SCHEME_KEYEDHASH_TPMS_SCHEME_HMAC x) = sbind (TPMS_SCHEME_HASH_Deserialize x) (\<lambda>y. ret (SCHEME_KEYEDHASH_TPMS_SCHEME_HMAC y))"
| "TPMU_SCHEME_KEYEDHASH_Deserialize (SCHEME_KEYEDHASH_TPMS_SCHEME_XOR x) = sbind (TPMS_SCHEME_XOR_Deserialize x) (\<lambda>y. ret (SCHEME_KEYEDHASH_TPMS_SCHEME_XOR y))"
| "TPMU_SCHEME_KEYEDHASH_Deserialize SCHEME_KEYEDHASH_TPMS_NULL_SCHEME_KEYEDHASH = ret SCHEME_KEYEDHASH_TPMS_NULL_SCHEME_KEYEDHASH"

fun TPMU_SCHEME_KEYEDHASH_text_ok :: "text_class \<Rightarrow> TPMU_SCHEME_KEYEDHASH \<Rightarrow> bool" where
  "TPMU_SCHEME_KEYEDHASH_text_ok c (SCHEME_KEYEDHASH_TPMS_SCHEME_HMAC x) = TPMS_SCHEME_HASH_text_ok c x"
| "TPMU_SCHEME_KEYEDHASH_text_ok c (SCHEME_KEYEDHASH_TPMS_SCHEME_XOR x) = TPMS_SCHEME_XOR_text_ok c x"
| "TPMU_SCHEME_KEYEDHASH_text_ok _ SCHEME_KEYEDHASH_TPMS_NULL_SCHEME_KEYEDHASH = True"

interpretation TPMU_SCHEME_KEYEDHASH_text: text_union TPMU_SCHEME_KEYEDHASH_TypeName TPMU_SCHEME_KEYEDHASH_Serialize TPMU_SCHEME_KEYEDHASH_Deserialize TPMU_SCHEME_KEYEDHASH_fresh
    TPMU_SCHEME_KEYEDHASH_GetUnionSelector UnionFactory_Create_TPMU_SCHEME_KEYEDHASH TPMU_SCHEME_KEYEDHASH_text_ok
proof
  fix u :: TPMU_SCHEME_KEYEDHASH and c
  show "word_ok (TPMU_SCHEME_KEYEDHASH_TypeName u)" by (cases u) (simp_all add: word_simps)
  show "TPMU_SCHEME_KEYEDHASH_TypeName (TPMU_SCHEME_KEYEDHASH_fresh u) = TPMU_SCHEME_KEYEDHASH_TypeName u" by (cases u) simp_all
  show "TPMU_SCHEME_KEYEDHASH_text_ok c u \<Longrightarrow> carries c False (TPMU_SCHEME_KEYEDHASH_Serialize u) (TPMU_SCHEME_KEYEDHASH_Deserialize (TPMU_SCHEME_KEYEDHASH_fresh u)) u"
    by (cases u) (simp_all add: carries_nothing TPMS_SCHEME_HASH_text.carried [THEN carries_member] TPMS_SCHEME_XOR_text.carried [THEN carries_member])
  show "TPMU_SCHEME_KEYEDHASH_text_ok c u \<Longrightarrow> TPMU_SCHEME_KEYEDHASH_GetUnionSelector u \<noteq> 0 \<and>
      UnionFactory_Create_TPMU_SCHEME_KEYEDHASH (TPMU_SCHEME_KEYEDHASH_GetUnionSelector u) = Ok (Some (TPMU_SCHEME_KEYEDHASH_fresh u))"
    by (cases u) (simp_all add: UnionFactory_Create_TPMU_SCHEME_KEYEDHASH_def)
qed

subsection \<open>TPMT_KEYEDHASH_SCHEME\<close>

definition TPMT_KEYEDHASH_SCHEME_Serialize :: "TPMT_KEYEDHASH_SCHEME \<Rightarrow> unit ser" where
  "TPMT_KEYEDHASH_SCHEME_Serialize self = wseq
     [withN ''scheme'' ''TPM_ALG_ID'' '''' '''' (ser_writeEnumT (selector_or TPM_ALG_ID_NULL TPMU_SCHEME_KEYEDHASH_GetUnionSelector (TPMT_KEYEDHASH_SCHEME_details self)) TPM_ALG_ID_ID),
      if_set (TPMT_KEYEDHASH_SCHEME_details self) (\<lambda>u. withN ''details'' ''TPMU_SCHEME_KEYEDHASH'' '''' '''' (ser_writeObj (TPMU_SCHEME_KEYEDHASH_TypeName u) (TPMU_SCHEME_KEYEDHASH_Serialize u)))]"

definition TPMT_KEYEDHASH_SCHEME_Deserialize :: "TPMT_KEYEDHASH_SCHEME \<Rightarrow> TPMT_KEYEDHASH_SCHEME ser" where
  "TPMT_KEYEDHASH_SCHEME_Deserialize self =
     sbind (withN ''scheme'' ''TPM_ALG_ID'' '''' '''' (ser_readEnumT TPM_ALG_ID_ID)) (\<lambda>scheme.
     sbind (reset_or_create UnionFactory_Create_TPMU_SCHEME_KEYEDHASH scheme) (\<lambda>details.
     sbind (read_if_set details (\<lambda>u. withN ''details'' ''TPMU_SCHEME_KEYEDHASH'' '''' '''' (ser_readObj (TPMU_SCHEME_KEYEDHASH_TypeName u) (TPMU_SCHEME_KEYEDHASH_Deserialize u)))) (\<lambda>details.
     ret (self\<lparr>TPMT_KEYEDHASH_SCHEME_details := details\<rparr>))))"

definition TPMT_KEYEDHASH_SCHEME_text_ok :: "text_class \<Rightarrow> TPMT_KEYEDHASH_SCHEME \<Rightarrow> bool" where
  "TPMT_KEYEDHASH_SCHEME_text_ok c x \<longleftrightarrow>
     TPMT_KEYEDHASH_SCHEME_details x \<noteq> None \<and>
     enum_ok c (ucast (selector_or TPM_ALG_ID_NULL TPMU_SCHEME_KEYEDHASH_GetUnionSelector (TPMT_KEYEDHASH_SCHEME_details x))) TPM_ALG_ID_ID \<and>
     if_set_ok (TPMU_SCHEME_KEYEDHASH_text_ok c) (TPMT_KEYEDHASH_SCHEME_details x)"

interpretation TPMT_KEYEDHASH_SCHEME_text: text_codec "''TPMT_KEYEDHASH_SCHEME''" TPMT_KEYEDHASH_SCHEME_Serialize TPMT_KEYEDHASH_SCHEME_Deserialize TPMT_KEYEDHASH_SCHEME_default TPMT_KEYEDHASH_SCHEME_text_ok
proof
  show "word_ok ''TPMT_KEYEDHASH_SCHEME''" by (simp add: word_simps)
  fix c x assume ok: "TPMT_KEYEDHASH_SCHEME_text_ok c x"
  from ok show "carries c True (TPMT_KEYEDHASH_SCHEME_Serialize x) (TPMT_KEYEDHASH_SCHEME_Deserialize TPMT_KEYEDHASH_SCHEME_default) x"
    by (simp only: TPMT_KEYEDHASH_SCHEME_Serialize_def TPMT_KEYEDHASH_SCHEME_Deserialize_def TPMT_KEYEDHASH_SCHEME_default_def
       TPMT_KEYEDHASH_SCHEME.select_convs TPMT_KEYEDHASH_SCHEME.update_convs;
      intro TPMU_SCHEME_KEYEDHASH_text.as_member [THEN carries_member_Cons] TPMU_SCHEME_KEYEDHASH_text.member_created [of c, THEN carries_create] carries_body;
      (rule TPMT_KEYEDHASH_SCHEME.equality)?; simp add: TPMT_KEYEDHASH_SCHEME_text_ok_def word_simps)
qed

subsection \<open>The union TPMU_SIG_SCHEME\<close>

fun TPMU_SIG_SCHEME_TypeName :: "TPMU_SIG_SCHEME \<Rightarrow> string" where
  "TPMU_SIG_SCHEME_TypeName (SIG_SCHEME_TPMS_SIG_SCHEME_RSASSA _) = ''TPMS_SIG_SCHEME_RSASSA''"
| "TPMU_SIG_SCHEME_TypeName (SIG_SCHEME_TPMS_SIG_SCHEME_RSAPSS _) = ''TPMS_SIG_SCHEME_RSAPSS''"
| "TPMU_SIG_SCHEME_TypeName (SIG_SCHEME_TPMS_SIG_SCHEME_ECDSA _) = ''TPMS_SIG_SCHEME_ECDSA''"
| "TPMU_SIG_SCHEME_TypeName (SIG_SCHEME_TPMS_SIG_SCHEME_ECDAA _) = ''TPMS_SIG_SCHEME_ECDAA''"
| "TPMU_SIG_SCHEME_TypeName (SIG_SCHEME_TPMS_SIG_SCHEME_SM2 _) = ''TPMS_SIG_SCHEME_SM2''"
| "TPMU_SIG_SCHEME_TypeName (SIG_SCHEME_TPMS_SIG_SCHEME_ECSCHNORR _) = ''TPMS_SIG_SCHEME_ECSCHNORR''"
| "TPMU_SIG_SCHEME_TypeName (SIG_SCHEME_TPMS_SCHEME_HMAC _) = ''TPMS_SCHEME_HMAC''"
| "TPMU_SIG_SCHEME_TypeName (SIG_SCHEME_TPMS_SCHEME_HASH _) = ''TPMS_SCHEME_HASH''"
| "TPMU_SIG_SCHEME_TypeName SIG_SCHEME_TPMS_NULL_SIG_SCHEME = ''TPMS_NULL_SIG_SCHEME''"

fun TPMU_SIG_SCHEME_Serialize :: "TPMU_SIG_SCHEME \<Rightarrow> unit ser" where
  "TPMU_SIG_SCHEME_Serialize (SIG_SCHEME_TPMS_SIG_SCHEME_RSASSA x) = TPMS_SCHEME_HASH_Serialize x"
| "TPMU_SIG_SCHEME_Serialize (SIG_SCHEME_TPMS_SIG_SCHEME_RSAPSS x) = TPMS_SCHEME_HASH_Serialize x"
| "TPMU_SIG_SCHEME_Serialize (SIG_SCHEME_TPMS_SIG_SCHEME_ECDSA x) = TPMS_SCHEME_HASH_Serialize x"
| "TPMU_SIG_SCHEME_Serialize (SIG_SCHEME_TPMS_SIG_SCHEME_ECDAA x) = TPMS_SCHEME_ECDAA_Serialize x"
| "TPMU_SIG_SCHEME_Serialize (SIG_SCHEME_TPMS_SIG_SCHEME_SM2 x) = TPMS_SCHEME_HASH_Serialize x"
| "TPMU_SIG_SCHEME_Serialize (SIG_SCHEME_TPMS_SIG_SCHEME_ECSCHNORR x) = TPMS_SCHEME_HASH_Serialize x"
| "TPMU_SIG_SCHEME_Serialize (SIG_SCHEME_TPMS_SCHEME_HMAC x) = TPMS_SCHEME_HASH_Serialize x"
| "TPMU_SIG_SCHEME_Serialize (SIG_SCHEME_TPMS_SCHEME_HASH x) = TPMS_SCHEME_HASH_Serialize x"
| "TPMU_SIG_SCHEME_Serialize SIG_SCHEME_TPMS_NULL_SIG_SCHEME = ret ()"

fun TPMU_SIG_SCHEME_Deserialize :: "TPMU_SIG_SCHEME \<Rightarrow> TPMU_SIG_SCHEME ser" where
  "TPMU_SIG_SCHEME_Deserialize (SIG_SCHEME_TPMS_SIG_SCHEME_RSASSA x) = sbind (TPMS_SCHEME_HASH_Deserialize x) (\<lambda>y. ret (SIG_SCHEME_TPMS_SIG_SCHEME_RSASSA y))"
| "TPMU_SIG_SCHEME_Deserialize (SIG_SCHEME_TPMS_SIG_SCHEME_RSAPSS x) = sbind (TPMS_SCHEME_HASH_Deserialize x) (\<lambda>y. ret (SIG_SCHEME_TPMS_SIG_SCHEME_RSAPSS y))"
| "TPMU_SIG_SCHEME_Deserialize (SIG_SCHEME_TPMS_SIG_SCHEME_ECDSA x) = sbind (TPMS_SCHEME_HASH_Deserialize x) (\<lambda>y. ret (SIG_SCHEME_TPMS_SIG_SCHEME_ECDSA y))"
| "TPMU_SIG_SCHEME_Deserialize (SIG_SCHEME_TPMS_SIG_SCHEME_ECDAA x) = sbind (TPMS_SCHEME_ECDAA_Deserialize x) (\<lambda>y. ret (SIG_SCHEME_TPMS_SIG_SCHEME_ECDAA y))"
| "TPMU_SIG_SCHEME_Deserialize (SIG_SCHEME_TPMS_SIG_SCHEME_SM2 x) = sbind (TPMS_SCHEME_HASH_Deserialize x) (\<lambda>y. ret (SIG_SCHEME_TPMS_SIG_SCHEME_SM2 y))"
| "TPMU_SIG_SCHEME_Deserialize (SIG_SCHEME_TPMS_SIG_SCHEME_ECSCHNORR x) = sbind (TPMS_SCHEME_HASH_Deserialize x) (\<lambda>y. ret (SIG_SCHEME_TPMS_SIG_SCHEME_ECSCHNORR y))"
| "TPMU_SIG_SCHEME_Deserialize (SIG_SCHEME_TPMS_SCHEME_HMAC x) = sbind (TPMS_SCHEME_HASH_Deserialize x) (\<lambda>y. ret (SIG_SCHEME_TPMS_SCHEME_HMAC y))"
| "TPMU_SIG_SCHEME_Deserialize (SIG_SCHEME_TPMS_SCHEME_HASH x) = sbind (TPMS_SCHEME_HASH_Deserialize x) (\<lambda>y. ret (SIG_SCHEME_TPMS_SCHEME_HASH y))"
| "TPMU_SIG_SCHEME_Deserialize SIG_SCHEME_TPMS_NULL_SIG_SCHEME = ret SIG_SCHEME_TPMS_NULL_SIG_SCHEME"

fun TPMU_SIG_SCHEME_text_ok :: "text_class \<Rightarrow> TPMU_SIG_SCHEME \<Rightarrow> bool" where
  "TPMU_SIG_SCHEME_text_ok c (SIG_SCHEME_TPMS_SIG_SCHEME_RSASSA x) = TPMS_SCHEME_HASH_text_ok c x"
| "TPMU_SIG_SCHEME_text_ok c (SIG_SCHEME_TPMS_SIG_SCHEME_RSAPSS x) = TPMS_SCHEME_HASH_text_ok c x"
| "TPMU_SIG_SCHEME_text_ok c (SIG_SCHEME_TPMS_SIG_SCHEME_ECDSA x) = TPMS_SCHEME_HASH_text_ok c x"
| "TPMU_SIG_SCHEME_text_ok c (SIG_SCHEME_TPMS_SIG_SCHEME_ECDAA x) = TPMS_SCHEME_ECDAA_text_ok c x"
| "TPMU_SIG_SCHEME_text_ok c (SIG_SCHEME_TPMS_SIG_SCHEME_SM2 x) = TPMS_SCHEME_HASH_text_ok c x"
| "TPMU_SIG_SCHEME_text_ok c (SIG_SCHEME_TPMS_SIG_SCHEME_ECSCHNORR x) = TPMS_SCHEME_HASH_text_ok c x"
| "TPMU_SIG_SCHEME_text_ok c (SIG_SCHEME_TPMS_SCHEME_HMAC x) = TPMS_SCHEME_HASH_text_ok c x"
| "TPMU_SIG_SCHEME_text_ok _ (SIG_SCHEME_TPMS_SCHEME_HASH _) = False"
| "TPMU_SIG_SCHEME_text_ok _ SIG_SCHEME_TPMS_NULL_SIG_SCHEME = True"

interpretation TPMU_SIG_SCHEME_text: text_union TPMU_SIG_SCHEME_TypeName TPMU_SIG_SCHEME_Serialize TPMU_SIG_SCHEME_Deserialize TPMU_SIG_SCHEME_fresh
    TPMU_SIG_SCHEME_GetUnionSelector UnionFactory_Create_TPMU_SIG_SCHEME TPMU_SIG_SCHEME_text_ok
proof
  fix u :: TPMU_SIG_SCHEME and c
  show "word_ok (TPMU_SIG_SCHEME_TypeName u)" by (cases u) (simp_all add: word_simps)
  show "TPMU_SIG_SCHEME_TypeName (TPMU_SIG_SCHEME_fresh u) = TPMU_SIG_SCHEME_TypeName u" by (cases u) simp_all
  show "TPMU_SIG_SCHEME_text_ok c u \<Longrightarrow> carries c False (TPMU_SIG_SCHEME_Serialize u) (TPMU_SIG_SCHEME_Deserialize (TPMU_SIG_SCHEME_fresh u)) u"
    by (cases u) (simp_all add: carries_nothing TPMS_SCHEME_ECDAA_text.carried [THEN carries_member] TPMS_SCHEME_HASH_text.carried [THEN carries_member])
  show "TPMU_SIG_SCHEME_text_ok c u \<Longrightarrow> TPMU_SIG_SCHEME_GetUnionSelector u \<noteq> 0 \<and>
      UnionFactory_Create_TPMU_SIG_SCHEME (TPMU_SIG_SCHEME_GetUnionSelector u) = Ok (Some (TPMU_SIG_SCHEME_fresh u))"
    by (cases u) (simp_all add: UnionFactory_Create_TPMU_SIG_SCHEME_def)
qed

subsection \<open>TPMT_SIG_SCHEME\<close>

definition TPMT_SIG_SCHEME_Serialize :: "TPMT_SIG_SCHEME \<Rightarrow> unit ser" where
  "TPMT_SIG_SCHEME_Serialize self = wseq
     [withN ''scheme'' ''TPM_ALG_ID'' '''' '''' (ser_writeEnumT (selector_or TPM_ALG_ID_NULL TPMU_SIG_SCHEME_GetUnionSelector (TPMT_SIG_SCHEME_details self)) TPM_ALG_ID_ID),
      if_set (TPMT_SIG_SCHEME_details self) (\<lambda>u. withN ''details'' ''TPMU_SIG_SCHEME'' '''' '''' (ser_writeObj (TPMU_SIG_SCHEME_TypeName u) (TPMU_SIG_SCHEME_Serialize u)))]"

definition TPMT_SIG_SCHEME_Deserialize :: "TPMT_SIG_SCHEME \<Rightarrow> TPMT_SIG_SCHEME ser" where
  "TPMT_SIG_SCHEME_Deserialize self =
     sbind (withN ''scheme'' ''TPM_ALG_ID'' '''' '''' (ser_readEnumT TPM_ALG_ID_ID)) (\<lambda>scheme.
     sbind (reset_or_create UnionFactory_Create_TPMU_SIG_SCHEME scheme) (\<lambda>details.
     sbind (read_if_set details (\<lambda>u. withN ''details'' ''TPMU_SIG_SCHEME'' '''' '''' (ser_readObj (TPMU_SIG_SCHEME_TypeName u) (TPMU_SIG_SCHEME_Deserialize u)))) (\<lambda>details.
     ret (self\<lparr>TPMT_SIG_SCHEME_details := details\<rparr>))))"

definition TPMT_SIG_SCHEME_text_ok :: "text_class \<Rightarrow> TPMT_SIG_SCHEME \<Rightarrow> bool" where
  "TPMT_SIG_SCHEME_text_ok c x \<longleftrightarrow>
     TPMT_SIG_SCHEME_details x \<noteq> None \<and>
     enum_ok c (ucast (selector_or TPM_ALG_ID_NULL TPMU_SIG_SCHEME_GetUnionSelector (TPMT_SIG_SCHEME_details x))) TPM_ALG_ID_ID \<and>
     if_set_ok (TPMU_SIG_SCHEME_text_ok c) (TPMT_SIG_SCHEME_details x)"

interpretation TPMT_SIG_SCHEME_text: text_codec "''TPMT_SIG_SCHEME''" TPMT_SIG_SCHEME_Serialize TPMT_SIG_SCHEME_Deserialize TPMT_SIG_SCHEME_default TPMT_SIG_SCHEME_text_ok
proof
  show "word_ok ''TPMT_SIG_SCHEME''" by (simp add: word_simps)
  fix c x assume ok: "TPMT_SIG_SCHEME_text_ok c x"
  from ok show "carries c True (TPMT_SIG_SCHEME_Serialize x) (TPMT_SIG_SCHEME_Deserialize TPMT_SIG_SCHEME_default) x"
    by (simp only: TPMT_SIG_SCHEME_Serialize_def TPMT_SIG_SCHEME_Deserialize_def TPMT_SIG_SCHEME_default_def
       TPMT_SIG_SCHEME.select_convs TPMT_SIG_SCHEME.update_convs;
      intro TPMU_SIG_SCHEME_text.as_member [THEN carries_member_Cons] TPMU_SIG_SCHEME_text.member_created [of c, THEN carries_create] carries_body;
      (rule TPMT_SIG_SCHEME.equality)?; simp add: TPMT_SIG_SCHEME_text_ok_def word_simps)
qed

subsection \<open>The union TPMU_KDF_SCHEME\<close>

fun TPMU_KDF_SCHEME_TypeName :: "TPMU_KDF_SCHEME \<Rightarrow> string" where
  "TPMU_KDF_SCHEME_TypeName (KDF_SCHEME_TPMS_KDF_SCHEME_MGF1 _) = ''TPMS_KDF_SCHEME_MGF1''"
| "TPMU_KDF_SCHEME_TypeName (KDF_SCHEME_TPMS_KDF_SCHEME_KDF1_SP800_56A _) = ''TPMS_KDF_SCHEME_KDF1_SP800_56A''"
| "TPMU_KDF_SCHEME_TypeName (KDF_SCHEME_TPMS_KDF_SCHEME_KDF2 _) = ''TPMS_KDF_SCHEME_KDF2''"
| "TPMU_KDF_SCHEME_TypeName (KDF_SCHEME_TPMS_KDF_SCHEME_KDF1_SP800_108 _) = ''TPMS_KDF_SCHEME_KDF1_SP800_108''"
| "TPMU_KDF_SCHEME_TypeName (KDF_SCHEME_TPMS_SCHEME_HASH _) = ''TPMS_SCHEME_HASH''"
| "TPMU_KDF_SCHEME_TypeName KDF_SCHEME_TPMS_NULL_KDF_SCHEME = ''TPMS_NULL_KDF_SCHEME''"

fun TPMU_KDF_SCHEME_Serialize :: "TPMU_KDF_SCHEME \<Rightarrow> unit ser" where
  "TPMU_KDF_SCHEME_Serialize (KDF_SCHEME_TPMS_KDF_SCHEME_MGF1 x) = TPMS_SCHEME_HASH_Serialize x"
| "TPMU_KDF_SCHEME_Serialize (KDF_SCHEME_TPMS_KDF_SCHEME_KDF1_SP800_56A x) = TPMS_SCHEME_HASH_Serialize x"
| "TPMU_KDF_SCHEME_Serialize (KDF_SCHEME_TPMS_KDF_SCHEME_KDF2 x) = TPMS_SCHEME_HASH_Serialize x"
| "TPMU_KDF_SCHEME_Serialize (KDF_SCHEME_TPMS_KDF_SCHEME_KDF1_SP800_108 x) = TPMS_SCHEME_HASH_Serialize x"
| "TPMU_KDF_SCHEME_Serialize (KDF_SCHEME_TPMS_SCHEME_HASH x) = TPMS_SCHEME_HASH_Serialize x"
| "TPMU_KDF_SCHEME_Serialize KDF_SCHEME_TPMS_NULL_KDF_SCHEME = ret ()"

fun TPMU_KDF_SCHEME_Deserialize :: "TPMU_KDF_SCHEME \<Rightarrow> TPMU_KDF_SCHEME ser" where
  "TPMU_KDF_SCHEME_Deserialize (KDF_SCHEME_TPMS_KDF_SCHEME_MGF1 x) = sbind (TPMS_SCHEME_HASH_Deserialize x) (\<lambda>y. ret (KDF_SCHEME_TPMS_KDF_SCHEME_MGF1 y))"
| "TPMU_KDF_SCHEME_Deserialize (KDF_SCHEME_TPMS_KDF_SCHEME_KDF1_SP800_56A x) = sbind (TPMS_SCHEME_HASH_Deserialize x) (\<lambda>y. ret (KDF_SCHEME_TPMS_KDF_SCHEME_KDF1_SP800_56A y))"
| "TPMU_KDF_SCHEME_Deserialize (KDF_SCHEME_TPMS_KDF_SCHEME_KDF2 x) = sbind (TPMS_SCHEME_HASH_Deserialize x) (\<lambda>y. ret (KDF_SCHEME_TPMS_KDF_SCHEME_KDF2 y))"
| "TPMU_KDF_SCHEME_Deserialize (KDF_SCHEME_TPMS_KDF_SCHEME_KDF1_SP800_108 x) = sbind (TPMS_SCHEME_HASH_Deserialize x) (\<lambda>y. ret (KDF_SCHEME_TPMS_KDF_SCHEME_KDF1_SP800_108 y))"
| "TPMU_KDF_SCHEME_Deserialize (KDF_SCHEME_TPMS_SCHEME_HASH x) = sbind (TPMS_SCHEME_HASH_Deserialize x) (\<lambda>y. ret (KDF_SCHEME_TPMS_SCHEME_HASH y))"
| "TPMU_KDF_SCHEME_Deserialize KDF_SCHEME_TPMS_NULL_KDF_SCHEME = ret KDF_SCHEME_TPMS_NULL_KDF_SCHEME"

fun TPMU_KDF_SCHEME_text_ok :: "text_class \<Rightarrow> TPMU_KDF_SCHEME \<Rightarrow> bool" where
  "TPMU_KDF_SCHEME_text_ok c (KDF_SCHEME_TPMS_KDF_SCHEME_MGF1 x) = TPMS_SCHEME_HASH_text_ok c x"
| "TPMU_KDF_SCHEME_text_ok c (KDF_SCHEME_TPMS_KDF_SCHEME_KDF1_SP800_56A x) = TPMS_SCHEME_HASH_text_ok c x"
| "TPMU_KDF_SCHEME_text_ok c (KDF_SCHEME_TPMS_KDF_SCHEME_KDF2 x) = TPMS_SCHEME_HASH_text_ok c x"
| "TPMU_KDF_SCHEME_text_ok c (KDF_SCHEME_TPMS_KDF_SCHEME_KDF1_SP800_108 x) = TPMS_SCHEME_HASH_text_ok c x"
| "TPMU_KDF_SCHEME_text_ok _ (KDF_SCHEME_TPMS_SCHEME_HASH _) = False"
| "TPMU_KDF_SCHEME_text_ok _ KDF_SCHEME_TPMS_NULL_KDF_SCHEME = True"

interpretation TPMU_KDF_SCHEME_text: text_union TPMU_KDF_SCHEME_TypeName TPMU_KDF_SCHEME_Serialize TPMU_KDF_SCHEME_Deserialize TPMU_KDF_SCHEME_fresh
    TPMU_KDF_SCHEME_GetUnionSelector UnionFactory_Create_TPMU_KDF_SCHEME TPMU_KDF_SCHEME_text_ok
proof
  fix u :: TPMU_KDF_SCHEME and c
  show "word_ok (TPMU_KDF_SCHEME_TypeName u)" by (cases u) (simp_all add: word_simps)
  show "TPMU_KDF_SCHEME_TypeName (TPMU_KDF_SCHEME_fresh u) = TPMU_KDF_SCHEME_TypeName u" by (cases u) simp_all
  show "TPMU_KDF_SCHEME_text_ok c u \<Longrightarrow> carries c False (TPMU_KDF_SCHEME_Serialize u) (TPMU_KDF_SCHEME_Deserialize (TPMU_KDF_SCHEME_fresh u)) u"
    by (cases u) (simp_all add: carries_nothing TPMS_SCHEME_HASH_text.carried [THEN carries_member])
  show "TPMU_KDF_SCHEME_text_ok c u \<Longrightarrow> TPMU_KDF_SCHEME_GetUnionSelector u \<noteq> 0 \<and>
      UnionFactory_Create_TPMU_KDF_SCHEME (TPMU_KDF_SCHEME_GetUnionSelector u) = Ok (Some (TPMU_KDF_SCHEME_fresh u))"
    by (cases u) (simp_all add: UnionFactory_Create_TPMU_KDF_SCHEME_def)
qed

subsection \<open>TPMT_KDF_SCHEME\<close>

definition TPMT_KDF_SCHEME_Serialize :: "TPMT_KDF_SCHEME \<Rightarrow> unit ser" where
  "TPMT_KDF_SCHEME_Serialize self = wseq
     [withN ''scheme'' ''TPM_ALG_ID'' '''' '''' (ser_writeEnumT (selector_or TPM_ALG_ID_NULL TPMU_KDF_SCHEME_GetUnionSelector (TPMT_KDF_SCHEME_details self)) TPM_ALG_ID_ID),
      if_set (TPMT_KDF_SCHEME_details self) (\<lambda>u. withN ''details'' ''TPMU_KDF_SCHEME'' '''' '''' (ser_writeObj (TPMU_KDF_SCHEME_TypeName u) (TPMU_KDF_SCHEME_Serialize u)))]"

definition TPMT_KDF_SCHEME_Deserialize :: "TPMT_KDF_SCHEME \<Rightarrow> TPMT_KDF_SCHEME ser" where
  "TPMT_KDF_SCHEME_Deserialize self =
     sbind (withN ''scheme'' ''TPM_ALG_ID'' '''' '''' (ser_readEnumT TPM_ALG_ID_ID)) (\<lambda>scheme.
     sbind (reset_or_create UnionFactory_Create_TPMU_KDF_SCHEME scheme) (\<lambda>details.
     sbind (read_if_set details (\<lambda>u. withN ''details'' ''TPMU_KDF_SCHEME'' '''' '''' (ser_readObj (TPMU_KDF_SCHEME_TypeName u) (TPMU_KDF_SCHEME_Deserialize u)))) (\<lambda>details.
     ret (self\<lparr>TPMT_KDF_SCHEME_details := details\<rparr>))))"

definition TPMT_KDF_SCHEME_text_ok :: "text_class \<Rightarrow> TPMT_KDF_SCHEME \<Rightarrow> bool" where
  "TPMT_KDF_SCHEME_text_ok c x \<longleftrightarrow>
     TPMT_KDF_SCHEME_details x \<noteq> None \<and>
     enum_ok c (ucast (selector_or TPM_ALG_ID_NULL TPMU_KDF_SCHEME_GetUnionSelector (TPMT_KDF_SCHEME_details x))) TPM_ALG_ID_ID \<and>
     if_set_ok (TPMU_KDF_SCHEME_text_ok c) (TPMT_KDF_SCHEME_details x)"

interpretation TPMT_KDF_SCHEME_text: text_codec "''TPMT_KDF_SCHEME''" TPMT_KDF_SCHEME_Serialize TPMT_KDF_SCHEME_Deserialize TPMT_KDF_SCHEME_default TPMT_KDF_SCHEME_text_ok
proof
  show "word_ok ''TPMT_KDF_SCHEME''" by (simp add: word_simps)
  fix c x assume ok: "TPMT_KDF_SCHEME_text_ok c x"
  from ok show "carries c True (TPMT_KDF_SCHEME_Serialize x) (TPMT_KDF_SCHEME_Deserialize TPMT_KDF_SCHEME_default) x"
    by (simp only: TPMT_KDF_SCHEME_Serialize_def TPMT_KDF_SCHEME_Deserialize_def TPMT_KDF_SCHEME_default_def
       TPMT_KDF_SCHEME.select_convs TPMT_KDF_SCHEME.update_convs;
      intro TPMU_KDF_SCHEME_text.as_member [THEN carries_member_Cons] TPMU_KDF_SCHEME_text.member_created [of c, THEN carries_create] carries_body;
      (rule TPMT_KDF_SCHEME.equality)?; simp add: TPMT_KDF_SCHEME_text_ok_def word_simps)
qed

subsection \<open>The union TPMU_ASYM_SCHEME\<close>

fun TPMU_ASYM_SCHEME_TypeName :: "TPMU_ASYM_SCHEME \<Rightarrow> string" where
  "TPMU_ASYM_SCHEME_TypeName (ASYM_SCHEME_TPMS_KEY_SCHEME_ECDH _) = ''TPMS_KEY_SCHEME_ECDH''"
| "TPMU_ASYM_SCHEME_TypeName (ASYM_SCHEME_TPMS_KEY_SCHEME_ECMQV _) = ''TPMS_KEY_SCHEME_ECMQV''"
| "TPMU_ASYM_SCHEME_TypeName (ASYM_SCHEME_TPMS_SIG_SCHEME_RSASSA _) = ''TPMS_SIG_SCHEME_RSASSA''"
| "TPMU_ASYM_SCHEME_TypeName (ASYM_SCHEME_TPMS_SIG_SCHEME_RSAPSS _) = ''TPMS_SIG_SCHEME_RSAPSS''"
| "TPMU_ASYM_SCHEME_TypeName (ASYM_SCHEME_TPMS_SIG_SCHEME_ECDSA _) = ''TPMS_SIG_SCHEME_ECDSA''"
| "TPMU_ASYM_SCHEME_TypeName (ASYM_SCHEME_TPMS_SIG_SCHEME_ECDAA _) = ''TPMS_SIG_SCHEME_ECDAA''"
| "TPMU_ASYM_SCHEME_TypeName (ASYM_SCHEME_TPMS_SIG_SCHEME_SM2 _) = ''TPMS_SIG_SCHEME_SM2''"
| "TPMU_ASYM_SCHEME_TypeName (ASYM_SCHEME_TPMS_SIG_SCHEME_ECSCHNORR _) = ''TPMS_SIG_SCHEME_ECSCHNORR''"
| "TPMU_ASYM_SCHEME_TypeName ASYM_SCHEME_TPMS_ENC_SCHEME_RSAES = ''TPMS_ENC_SCHEME_RSAES''"
| "TPMU_ASYM_SCHEME_TypeName (ASYM_SCHEME_TPMS_ENC_SCHEME_OAEP _) = ''TPMS_ENC_SCHEME_OAEP''"
| "TPMU_ASYM_SCHEME_TypeName (ASYM_SCHEME_TPMS_SCHEME_HASH _) = ''TPMS_SCHEME_HASH''"
| "TPMU_ASYM_SCHEME_TypeName ASYM_SCHEME_TPMS_NULL_ASYM_SCHEME = ''TPMS_NULL_ASYM_SCHEME''"

fun TPMU_ASYM_SCHEME_Serialize :: "TPMU_ASYM_SCHEME \<Rightarrow> unit ser" where
  "TPMU_ASYM_SCHEME_Serialize (ASYM_SCHEME_TPMS_KEY_SCHEME_ECDH x) = TPMS_SCHEME_HASH_Serialize x"
| "TPMU_ASYM_SCHEME_Serialize (ASYM_SCHEME_TPMS_KEY_SCHEME_ECMQV x) = TPMS_SCHEME_HASH_Serialize x"
| "TPMU_ASYM_SCHEME_Serialize (ASYM_SCHEME_TPMS_SIG_SCHEME_RSASSA x) = TPMS_SCHEME_HASH_Serialize x"
| "TPMU_ASYM_SCHEME_Serialize (ASYM_SCHEME_TPMS_SIG_SCHEME_RSAPSS x) = TPMS_SCHEME_HASH_Serialize x"
| "TPMU_ASYM_SCHEME_Serialize (ASYM_SCHEME_TPMS_SIG_SCHEME_ECDSA x) = TPMS_SCHEME_HASH_Serialize x"
| "TPMU_ASYM_SCHEME_Serialize (ASYM_SCHEME_TPMS_SIG_SCHEME_ECDAA x) = TPMS_SCHEME_ECDAA_Serialize x"
| "TPMU_ASYM_SCHEME_Serialize (ASYM_SCHEME_TPMS_SIG_SCHEME_SM2 x) = TPMS_SCHEME_HASH_Serialize x"
| "TPMU_ASYM_SCHEME_Serialize (ASYM_SCHEME_TPMS_SIG_SCHEME_ECSCHNORR x) = TPMS_SCHEME_HASH_Serialize x"
| "TPMU_ASYM_SCHEME_Serialize ASYM_SCHEME_TPMS_ENC_SCHEME_RSAES = ret ()"
| "TPMU_ASYM_SCHEME_Serialize (ASYM_SCHEME_TPMS_ENC_SCHEME_OAEP x) = TPMS_SCHEME_HASH_Serialize x"
| "TPMU_ASYM_SCHEME_Serialize (ASYM_SCHEME_TPMS_SCHEME_HASH x) = TPMS_SCHEME_HASH_Serialize x"
| "TPMU_ASYM_SCHEME_Serialize ASYM_SCHEME_TPMS_NULL_ASYM_SCHEME = ret ()"

fun TPMU_ASYM_SCHEME_Deserialize :: "TPMU_ASYM_SCHEME \<Rightarrow> TPMU_ASYM_SCHEME ser" where
  "TPMU_ASYM_SCHEME_Deserialize (ASYM_SCHEME_TPMS_KEY_SCHEME_ECDH x) = sbind (TPMS_SCHEME_HASH_Deserialize x) (\<lambda>y. ret (ASYM_SCHEME_TPMS_KEY_SCHEME_ECDH y))"
| "TPMU_ASYM_SCHEME_Deserialize (ASYM_SCHEME_TPMS_KEY_SCHEME_ECMQV x) = sbind (TPMS_SCHEME_HASH_Deserialize x) (\<lambda>y. ret (ASYM_SCHEME_TPMS_KEY_SCHEME_ECMQV y))"
| "TPMU_ASYM_SCHEME_Deserialize (ASYM_SCHEME_TPMS_SIG_SCHEME_RSASSA x) = sbind (TPMS_SCHEME_HASH_Deserialize x) (\<lambda>y. ret (ASYM_SCHEME_TPMS_SIG_SCHEME_RSASSA y))"
| "TPMU_ASYM_SCHEME_Deserialize (ASYM_SCHEME_TPMS_SIG_SCHEME_RSAPSS x) = sbind (TPMS_SCHEME_HASH_Deserialize x) (\<lambda>y. ret (ASYM_SCHEME_TPMS_SIG_SCHEME_RSAPSS y))"
| "TPMU_ASYM_SCHEME_Deserialize (ASYM_SCHEME_TPMS_SIG_SCHEME_ECDSA x) = sbind (TPMS_SCHEME_HASH_Deserialize x) (\<lambda>y. ret (ASYM_SCHEME_TPMS_SIG_SCHEME_ECDSA y))"
| "TPMU_ASYM_SCHEME_Deserialize (ASYM_SCHEME_TPMS_SIG_SCHEME_ECDAA x) = sbind (TPMS_SCHEME_ECDAA_Deserialize x) (\<lambda>y. ret (ASYM_SCHEME_TPMS_SIG_SCHEME_ECDAA y))"
| "TPMU_ASYM_SCHEME_Deserialize (ASYM_SCHEME_TPMS_SIG_SCHEME_SM2 x) = sbind (TPMS_SCHEME_HASH_Deserialize x) (\<lambda>y. ret (ASYM_SCHEME_TPMS_SIG_SCHEME_SM2 y))"
| "TPMU_ASYM_SCHEME_Deserialize (ASYM_SCHEME_TPMS_SIG_SCHEME_ECSCHNORR x) = sbind (TPMS_SCHEME_HASH_Deserialize x) (\<lambda>y. ret (ASYM_SCHEME_TPMS_SIG_SCHEME_ECSCHNORR y))"
| "TPMU_ASYM_SCHEME_Deserialize ASYM_SCHEME_TPMS_ENC_SCHEME_RSAES = ret ASYM_SCHEME_TPMS_ENC_SCHEME_RSAES"
| "TPMU_ASYM_SCHEME_Deserialize (ASYM_SCHEME_TPMS_ENC_SCHEME_OAEP x) = sbind (TPMS_SCHEME_HASH_Deserialize x) (\<lambda>y. ret (ASYM_SCHEME_TPMS_ENC_SCHEME_OAEP y))"
| "TPMU_ASYM_SCHEME_Deserialize (ASYM_SCHEME_TPMS_SCHEME_HASH x) = sbind (TPMS_SCHEME_HASH_Deserialize x) (\<lambda>y. ret (ASYM_SCHEME_TPMS_SCHEME_HASH y))"
| "TPMU_ASYM_SCHEME_Deserialize ASYM_SCHEME_TPMS_NULL_ASYM_SCHEME = ret ASYM_SCHEME_TPMS_NULL_ASYM_SCHEME"

fun TPMU_ASYM_SCHEME_text_ok :: "text_class \<Rightarrow> TPMU_ASYM_SCHEME \<Rightarrow> bool" where
  "TPMU_ASYM_SCHEME_text_ok c (ASYM_SCHEME_TPMS_KEY_SCHEME_ECDH x) = TPMS_SCHEME_HASH_text_ok c x"
| "TPMU_ASYM_SCHEME_text_ok c (ASYM_SCHEME_TPMS_KEY_SCHEME_ECMQV x) = TPMS_SCHEME_HASH_text_ok c x"
| "TPMU_ASYM_SCHEME_text_ok c (ASYM_SCHEME_TPMS_SIG_SCHEME_RSASSA x) = TPMS_SCHEME_HASH_text_ok c x"
| "TPMU_ASYM_SCHEME_text_ok c (ASYM_SCHEME_TPMS_SIG_SCHEME_RSAPSS x) = TPMS_SCHEME_HASH_text_ok c x"
| "TPMU_ASYM_SCHEME_text_ok c (ASYM_SCHEME_TPMS_SIG_SCHEME_ECDSA x) = TPMS_SCHEME_HASH_text_ok c x"
| "TPMU_ASYM_SCHEME_text_ok c (ASYM_SCHEME_TPMS_SIG_SCHEME_ECDAA x) = TPMS_SCHEME_ECDAA_text_ok c x"
| "TPMU_ASYM_SCHEME_text_ok c (ASYM_SCHEME_TPMS_SIG_SCHEME_SM2 x) = TPMS_SCHEME_HASH_text_ok c x"
| "TPMU_ASYM_SCHEME_text_ok c (ASYM_SCHEME_TPMS_SIG_SCHEME_ECSCHNORR x) = TPMS_SCHEME_HASH_text_ok c x"
| "TPMU_ASYM_SCHEME_text_ok _ ASYM_SCHEME_TPMS_ENC_SCHEME_RSAES = True"
| "TPMU_ASYM_SCHEME_text_ok c (ASYM_SCHEME_TPMS_ENC_SCHEME_OAEP x) = TPMS_SCHEME_HASH_text_ok c x"
| "TPMU_ASYM_SCHEME_text_ok _ (ASYM_SCHEME_TPMS_SCHEME_HASH _) = False"
| "TPMU_ASYM_SCHEME_text_ok _ ASYM_SCHEME_TPMS_NULL_ASYM_SCHEME = True"

interpretation TPMU_ASYM_SCHEME_text: text_union TPMU_ASYM_SCHEME_TypeName TPMU_ASYM_SCHEME_Serialize TPMU_ASYM_SCHEME_Deserialize TPMU_ASYM_SCHEME_fresh
    TPMU_ASYM_SCHEME_GetUnionSelector UnionFactory_Create_TPMU_ASYM_SCHEME TPMU_ASYM_SCHEME_text_ok
proof
  fix u :: TPMU_ASYM_SCHEME and c
  show "word_ok (TPMU_ASYM_SCHEME_TypeName u)" by (cases u) (simp_all add: word_simps)
  show "TPMU_ASYM_SCHEME_TypeName (TPMU_ASYM_SCHEME_fresh u) = TPMU_ASYM_SCHEME_TypeName u" by (cases u) simp_all
  show "TPMU_ASYM_SCHEME_text_ok c u \<Longrightarrow> carries c False (TPMU_ASYM_SCHEME_Serialize u) (TPMU_ASYM_SCHEME_Deserialize (TPMU_ASYM_SCHEME_fresh u)) u"
    by (cases u) (simp_all add: carries_nothing TPMS_SCHEME_ECDAA_text.carried [THEN carries_member] TPMS_SCHEME_HASH_text.carried [THEN carries_member])
  show "TPMU_ASYM_SCHEME_text_ok c u \<Longrightarrow> TPMU_ASYM_SCHEME_GetUnionSelector u \<noteq> 0 \<and>
      UnionFactory_Create_TPMU_ASYM_SCHEME (TPMU_ASYM_SCHEME_GetUnionSelector u) = Ok (Some (TPMU_ASYM_SCHEME_fresh u))"
    by (cases u) (simp_all add: UnionFactory_Create_TPMU_ASYM_SCHEME_def)
qed

subsection \<open>TPMT_ASYM_SCHEME\<close>

definition TPMT_ASYM_SCHEME_Serialize :: "TPMT_ASYM_SCHEME \<Rightarrow> unit ser" where
  "TPMT_ASYM_SCHEME_Serialize self = wseq
     [withN ''scheme'' ''TPM_ALG_ID'' '''' '''' (ser_writeEnumT (selector_or TPM_ALG_ID_NULL TPMU_ASYM_SCHEME_GetUnionSelector (TPMT_ASYM_SCHEME_details self)) TPM_ALG_ID_ID),
      if_set (TPMT_ASYM_SCHEME_details self) (\<lambda>u. withN ''details'' ''TPMU_ASYM_SCHEME'' '''' '''' (ser_writeObj (TPMU_ASYM_SCHEME_TypeName u) (TPMU_ASYM_SCHEME_Serialize u)))]"

definition TPMT_ASYM_SCHEME_Deserialize :: "TPMT_ASYM_SCHEME \<Rightarrow> TPMT_ASYM_SCHEME ser" where
  "TPMT_ASYM_SCHEME_Deserialize self =
     sbind (withN ''scheme'' ''TPM_ALG_ID'' '''' '''' (ser_readEnumT TPM_ALG_ID_ID)) (\<lambda>scheme.
     sbind (reset_or_create UnionFactory_Create_TPMU_ASYM_SCHEME scheme) (\<lambda>details.
     sbind (read_if_set details (\<lambda>u. withN ''details'' ''TPMU_ASYM_SCHEME'' '''' '''' (ser_readObj (TPMU_ASYM_SCHEME_TypeName u) (TPMU_ASYM_SCHEME_Deserialize u)))) (\<lambda>details.
     ret (self\<lparr>TPMT_ASYM_SCHEME_details := details\<rparr>))))"

definition TPMT_ASYM_SCHEME_text_ok :: "text_class \<Rightarrow> TPMT_ASYM_SCHEME \<Rightarrow> bool" where
  "TPMT_ASYM_SCHEME_text_ok c x \<longleftrightarrow>
     TPMT_ASYM_SCHEME_details x \<noteq> None \<and>
     enum_ok c (ucast (selector_or TPM_ALG_ID_NULL TPMU_ASYM_SCHEME_GetUnionSelector (TPMT_ASYM_SCHEME_details x))) TPM_ALG_ID_ID \<and>
     if_set_ok (TPMU_ASYM_SCHEME_text_ok c) (TPMT_ASYM_SCHEME_details x)"

interpretation TPMT_ASYM_SCHEME_text: text_codec "''TPMT_ASYM_SCHEME''" TPMT_ASYM_SCHEME_Serialize TPMT_ASYM_SCHEME_Deserialize TPMT_ASYM_SCHEME_default TPMT_ASYM_SCHEME_text_ok
proof
  show "word_ok ''TPMT_ASYM_SCHEME''" by (simp add: word_simps)
  fix c x assume ok: "TPMT_ASYM_SCHEME_text_ok c x"
  from ok show "carries c True (TPMT_ASYM_SCHEME_Serialize x) (TPMT_ASYM_SCHEME_Deserialize TPMT_ASYM_SCHEME_default) x"
    by (simp only: TPMT_ASYM_SCHEME_Serialize_def TPMT_ASYM_SCHEME_Deserialize_def TPMT_ASYM_SCHEME_default_def
       TPMT_ASYM_SCHEME.select_convs TPMT_ASYM_SCHEME.update_convs;
      intro TPMU_ASYM_SCHEME_text.as_member [THEN carries_member_Cons] TPMU_ASYM_SCHEME_text.member_created [of c, THEN carries_create] carries_body;
      (rule TPMT_ASYM_SCHEME.equality)?; simp add: TPMT_ASYM_SCHEME_text_ok_def word_simps)
qed

subsection \<open>TPMT_RSA_SCHEME\<close>

definition TPMT_RSA_SCHEME_Serialize :: "TPMT_RSA_SCHEME \<Rightarrow> unit ser" where
  "TPMT_RSA_SCHEME_Serialize self = wseq
     [withN ''scheme'' ''TPM_ALG_ID'' '''' '''' (ser_writeEnumT (selector_or TPM_ALG_ID_NULL TPMU_ASYM_SCHEME_GetUnionSelector (TPMT_RSA_SCHEME_details self)) TPM_ALG_ID_ID),
      if_set (TPMT_RSA_SCHEME_details self) (\<lambda>u. withN ''details'' ''TPMU_ASYM_SCHEME'' '''' '''' (ser_writeObj (TPMU_ASYM_SCHEME_TypeName u) (TPMU_ASYM_SCHEME_Serialize u)))]"

definition TPMT_RSA_SCHEME_Deserialize :: "TPMT_RSA_SCHEME \<Rightarrow> TPMT_RSA_SCHEME ser" where
  "TPMT_RSA_SCHEME_Deserialize self =
     sbind (withN ''scheme'' ''TPM_ALG_ID'' '''' '''' (ser_readEnumT TPM_ALG_ID_ID)) (\<lambda>scheme.
     sbind (reset_or_create UnionFactory_Create_TPMU_ASYM_SCHEME scheme) (\<lambda>details.
     sbind (read_if_set details (\<lambda>u. withN ''details'' ''TPMU_ASYM_SCHEME'' '''' '''' (ser_readObj (TPMU_ASYM_SCHEME_TypeName u) (TPMU_ASYM_SCHEME_Deserialize u)))) (\<lambda>details.
     ret (self\<lparr>TPMT_RSA_SCHEME_details := details\<rparr>))))"

definition TPMT_RSA_SCHEME_text_ok :: "text_class \<Rightarrow> TPMT_RSA_SCHEME \<Rightarrow> bool" where
  "TPMT_RSA_SCHEME_text_ok c x \<longleftrightarrow>
     TPMT_RSA_SCHEME_details x \<noteq> None \<and>
     enum_ok c (ucast (selector_or TPM_ALG_ID_NULL TPMU_ASYM_SCHEME_GetUnionSelector (TPMT_RSA_SCHEME_details x))) TPM_ALG_ID_ID \<and>
     if_set_ok (TPMU_ASYM_SCHEME_text_ok c) (TPMT_RSA_SCHEME_details x)"

interpretation TPMT_RSA_SCHEME_text: text_codec "''TPMT_RSA_SCHEME''" TPMT_RSA_SCHEME_Serialize TPMT_RSA_SCHEME_Deserialize TPMT_RSA_SCHEME_default TPMT_RSA_SCHEME_text_ok
proof
  show "word_ok ''TPMT_RSA_SCHEME''" by (simp add: word_simps)
  fix c x assume ok: "TPMT_RSA_SCHEME_text_ok c x"
  from ok show "carries c True (TPMT_RSA_SCHEME_Serialize x) (TPMT_RSA_SCHEME_Deserialize TPMT_RSA_SCHEME_default) x"
    by (simp only: TPMT_RSA_SCHEME_Serialize_def TPMT_RSA_SCHEME_Deserialize_def TPMT_RSA_SCHEME_default_def
       TPMT_RSA_SCHEME.select_convs TPMT_RSA_SCHEME.update_convs;
      intro TPMU_ASYM_SCHEME_text.as_member [THEN carries_member_Cons] TPMU_ASYM_SCHEME_text.member_created [of c, THEN carries_create] carries_body;
      (rule TPMT_RSA_SCHEME.equality)?; simp add: TPMT_RSA_SCHEME_text_ok_def word_simps)
qed

subsection \<open>TPMT_RSA_DECRYPT\<close>

definition TPMT_RSA_DECRYPT_Serialize :: "TPMT_RSA_DECRYPT \<Rightarrow> unit ser" where
  "TPMT_RSA_DECRYPT_Serialize self = wseq
     [withN ''scheme'' ''TPM_ALG_ID'' '''' '''' (ser_writeEnumT (selector_or TPM_ALG_ID_NULL TPMU_ASYM_SCHEME_GetUnionSelector (TPMT_RSA_DECRYPT_details self)) TPM_ALG_ID_ID),
      if_set (TPMT_RSA_DECRYPT_details self) (\<lambda>u. withN ''details'' ''TPMU_ASYM_SCHEME'' '''' '''' (ser_writeObj (TPMU_ASYM_SCHEME_TypeName u) (TPMU_ASYM_SCHEME_Serialize u)))]"

definition TPMT_RSA_DECRYPT_Deserialize :: "TPMT_RSA_DECRYPT \<Rightarrow> TPMT_RSA_DECRYPT ser" where
  "TPMT_RSA_DECRYPT_Deserialize self =
     sbind (withN ''scheme'' ''TPM_ALG_ID'' '''' '''' (ser_readEnumT TPM_ALG_ID_ID)) (\<lambda>scheme.
     sbind (reset_or_create UnionFactory_Create_TPMU_ASYM_SCHEME scheme) (\<lambda>details.
     sbind (read_if_set details (\<lambda>u. withN ''details'' ''TPMU_ASYM_SCHEME'' '''' '''' (ser_readObj (TPMU_ASYM_SCHEME_TypeName u) (TPMU_ASYM_SCHEME_Deserialize u)))) (\<lambda>details.
     ret (self\<lparr>TPMT_RSA_DECRYPT_details := details\<rparr>))))"

definition TPMT_RSA_DECRYPT_text_ok :: "text_class \<Rightarrow> TPMT_RSA_DECRYPT \<Rightarrow> bool" where
  "TPMT_RSA_DECRYPT_text_ok c x \<longleftrightarrow>
     TPMT_RSA_DECRYPT_details x \<noteq> None \<and>
     enum_ok c (ucast (selector_or TPM_ALG_ID_NULL TPMU_ASYM_SCHEME_GetUnionSelector (TPMT_RSA_DECRYPT_details x))) TPM_ALG_ID_ID \<and>
     if_set_ok (TPMU_ASYM_SCHEME_text_ok c) (TPMT_RSA_DECRYPT_details x)"

interpretation TPMT_RSA_DECRYPT_text: text_codec "''TPMT_RSA_DECRYPT''" TPMT_RSA_DECRYPT_Serialize TPMT_RSA_DECRYPT_Deserialize TPMT_RSA_DECRYPT_default TPMT_RSA_DECRYPT_text_ok
proof
  show "word_ok ''TPMT_RSA_DECRYPT''" by (simp add: word_simps)
  fix c x assume ok: "TPMT_RSA_DECRYPT_text_ok c x"
  from ok show "carries c True (TPMT_RSA_DECRYPT_Serialize x) (TPMT_RSA_DECRYPT_Deserialize TPMT_RSA_DECRYPT_default) x"
    by (simp only: TPMT_RSA_DECRYPT_Serialize_def TPMT_RSA_DECRYPT_Deserialize_def TPMT_RSA_DECRYPT_default_def
       TPMT_RSA_DECRYPT.select_convs TPMT_RSA_DECRYPT.update_convs;
      intro TPMU_ASYM_SCHEME_text.as_member [THEN carries_member_Cons] TPMU_ASYM_SCHEME_text.member_created [of c, THEN carries_create] carries_body;
      (rule TPMT_RSA_DECRYPT.equality)?; simp add: TPMT_RSA_DECRYPT_text_ok_def word_simps)
qed

end
