(* ===== verification/TextKeyTypes.thy ===== *)
theory TextKeyTypes
  imports TextSchemeTypes TpmKeyTypes
begin

text \<open>
  \<^verbatim>\<open>TSS.CPP/Src/TpmTypes.cpp\<close>, the text form of the structures of theory \<open>TpmKeyTypes\<close>: \<open>X_Serialize\<close> and
  \<open>X_Deserialize\<close> of each class \<open>X\<close>, the values \<open>X_text_ok\<close> that a text of the given kind can carry, and
  the proof that the second method reads what the first one writes (the interpretation \<open>X_text\<close>).
  A class with an array of enumerators has no such interpretation: \<open>readEnumArr\<close> does not read it.
\<close>

subsection \<open>TPM2B_PUBLIC_KEY_RSA\<close>

definition TPM2B_PUBLIC_KEY_RSA_Serialize :: "TPM2B_PUBLIC_KEY_RSA \<Rightarrow> unit ser" where
  "TPM2B_PUBLIC_KEY_RSA_Serialize self = wseq
     [withN ''buffer'' ''BYTE[]'' ''size'' ''UINT16'' (ser_writeSizedByteBuf (TPM2B_PUBLIC_KEY_RSA_buffer self))]"

definition TPM2B_PUBLIC_KEY_RSA_Deserialize :: "TPM2B_PUBLIC_KEY_RSA \<Rightarrow> TPM2B_PUBLIC_KEY_RSA ser" where
  "TPM2B_PUBLIC_KEY_RSA_Deserialize self =
     sbind (withN ''buffer'' ''BYTE[]'' ''size'' ''UINT16'' ser_readSizedByteBuf) (\<lambda>buffer.
     ret (self\<lparr>TPM2B_PUBLIC_KEY_RSA_buffer := buffer\<rparr>))"

definition TPM2B_PUBLIC_KEY_RSA_text_ok :: "text_class \<Rightarrow> TPM2B_PUBLIC_KEY_RSA \<Rightarrow> bool" where
  "TPM2B_PUBLIC_KEY_RSA_text_ok c x \<longleftrightarrow>
     length (TPM2B_PUBLIC_KEY_RSA_buffer x) < 2 ^ 64"

interpretation TPM2B_PUBLIC_KEY_RSA_text: text_codec "''TPM2B_PUBLIC_KEY_RSA''" TPM2B_PUBLIC_KEY_RSA_Serialize TPM2B_PUBLIC_KEY_RSA_Deserialize TPM2B_PUBLIC_KEY_RSA_default TPM2B_PUBLIC_KEY_RSA_text_ok
proof
  show "word_ok ''TPM2B_PUBLIC_KEY_RSA''" by (simp add: word_simps)
  fix c x assume ok: "TPM2B_PUBLIC_KEY_RSA_text_ok c x"
  from ok show "carries c True (TPM2B_PUBLIC_KEY_RSA_Serialize x) (TPM2B_PUBLIC_KEY_RSA_Deserialize TPM2B_PUBLIC_KEY_RSA_default) x"
    by (simp only: TPM2B_PUBLIC_KEY_RSA_Serialize_def TPM2B_PUBLIC_KEY_RSA_Deserialize_def TPM2B_PUBLIC_KEY_RSA_default_def
       TPM2B_PUBLIC_KEY_RSA.select_convs TPM2B_PUBLIC_KEY_RSA.update_convs;
      intro carries_body;
      (rule TPM2B_PUBLIC_KEY_RSA.equality)?; simp add: TPM2B_PUBLIC_KEY_RSA_text_ok_def word_simps)
qed

subsection \<open>TPM2B_PRIVATE_KEY_RSA\<close>

definition TPM2B_PRIVATE_KEY_RSA_Serialize :: "TPM2B_PRIVATE_KEY_RSA \<Rightarrow> unit ser" where
  "TPM2B_PRIVATE_KEY_RSA_Serialize self = wseq
     [withN ''buffer'' ''BYTE[]'' ''size'' ''UINT16'' (ser_writeSizedByteBuf (TPM2B_PRIVATE_KEY_RSA_buffer self))]"

definition TPM2B_PRIVATE_KEY_RSA_Deserialize :: "TPM2B_PRIVATE_KEY_RSA \<Rightarrow> TPM2B_PRIVATE_KEY_RSA ser" where
  "TPM2B_PRIVATE_KEY_RSA_Deserialize self =
     sbind (withN ''buffer'' ''BYTE[]'' ''size'' ''UINT16'' ser_readSizedByteBuf) (\<lambda>buffer.
     ret (self\<lparr>TPM2B_PRIVATE_KEY_RSA_buffer := buffer\<rparr>))"

definition TPM2B_PRIVATE_KEY_RSA_text_ok :: "text_class \<Rightarrow> TPM2B_PRIVATE_KEY_RSA \<Rightarrow> bool" where
  "TPM2B_PRIVATE_KEY_RSA_text_ok c x \<longleftrightarrow>
     length (TPM2B_PRIVATE_KEY_RSA_buffer x) < 2 ^ 64"

interpretation TPM2B_PRIVATE_KEY_RSA_text: text_codec "''TPM2B_PRIVATE_KEY_RSA''" TPM2B_PRIVATE_KEY_RSA_Serialize TPM2B_PRIVATE_KEY_RSA_Deserialize TPM2B_PRIVATE_KEY_RSA_default TPM2B_PRIVATE_KEY_RSA_text_ok
proof
  show "word_ok ''TPM2B_PRIVATE_KEY_RSA''" by (simp add: word_simps)
  fix c x assume ok: "TPM2B_PRIVATE_KEY_RSA_text_ok c x"
  from ok show "carries c True (TPM2B_PRIVATE_KEY_RSA_Serialize x) (TPM2B_PRIVATE_KEY_RSA_Deserialize TPM2B_PRIVATE_KEY_RSA_default) x"
    by (simp only: TPM2B_PRIVATE_KEY_RSA_Serialize_def TPM2B_PRIVATE_KEY_RSA_Deserialize_def TPM2B_PRIVATE_KEY_RSA_default_def
       TPM2B_PRIVATE_KEY_RSA.select_convs TPM2B_PRIVATE_KEY_RSA.update_convs;
      intro carries_body;
      (rule TPM2B_PRIVATE_KEY_RSA.equality)?; simp add: TPM2B_PRIVATE_KEY_RSA_text_ok_def word_simps)
qed

subsection \<open>TPM2B_ECC_PARAMETER\<close>

definition TPM2B_ECC_PARAMETER_Serialize :: "TPM2B_ECC_PARAMETER \<Rightarrow> unit ser" where
  "TPM2B_ECC_PARAMETER_Serialize self = wseq
     [withN ''buffer'' ''BYTE[]'' ''size'' ''UINT16'' (ser_writeSizedByteBuf (TPM2B_ECC_PARAMETER_buffer self))]"

definition TPM2B_ECC_PARAMETER_Deserialize :: "TPM2B_ECC_PARAMETER \<Rightarrow> TPM2B_ECC_PARAMETER ser" where
  "TPM2B_ECC_PARAMETER_Deserialize self =
     sbind (withN ''buffer'' ''BYTE[]'' ''size'' ''UINT16'' ser_readSizedByteBuf) (\<lambda>buffer.
     ret (self\<lparr>TPM2B_ECC_PARAMETER_buffer := buffer\<rparr>))"

definition TPM2B_ECC_PARAMETER_text_ok :: "text_class \<Rightarrow> TPM2B_ECC_PARAMETER \<Rightarrow> bool" where
  "TPM2B_ECC_PARAMETER_text_ok c x \<longleftrightarrow>
     length (TPM2B_ECC_PARAMETER_buffer x) < 2 ^ 64"

interpretation TPM2B_ECC_PARAMETER_text: text_codec "''TPM2B_ECC_PARAMETER''" TPM2B_ECC_PARAMETER_Serialize TPM2B_ECC_PARAMETER_Deserialize TPM2B_ECC_PARAMETER_default TPM2B_ECC_PARAMETER_text_ok
proof
  show "word_ok ''TPM2B_ECC_PARAMETER''" by (simp add: word_simps)
  fix c x assume ok: "TPM2B_ECC_PARAMETER_text_ok c x"
  from ok show "carries c True (TPM2B_ECC_PARAMETER_Serialize x) (TPM2B_ECC_PARAMETER_Deserialize TPM2B_ECC_PARAMETER_default) x"
    by (simp only: TPM2B_ECC_PARAMETER_Serialize_def TPM2B_ECC_PARAMETER_Deserialize_def TPM2B_ECC_PARAMETER_default_def
       TPM2B_ECC_PARAMETER.select_convs TPM2B_ECC_PARAMETER.update_convs;
      intro carries_body;
      (rule TPM2B_ECC_PARAMETER.equality)?; simp add: TPM2B_ECC_PARAMETER_text_ok_def word_simps)
qed

subsection \<open>TPMS_ECC_POINT\<close>

definition TPMS_ECC_POINT_Serialize :: "TPMS_ECC_POINT \<Rightarrow> unit ser" where
  "TPMS_ECC_POINT_Serialize self = wseq
     [withN ''x'' ''BYTE[]'' ''xSize'' ''UINT16'' (ser_writeSizedByteBuf (TPMS_ECC_POINT_x self)),
      withN ''y'' ''BYTE[]'' ''ySize'' ''UINT16'' (ser_writeSizedByteBuf (TPMS_ECC_POINT_y self))]"

definition TPMS_ECC_POINT_Deserialize :: "TPMS_ECC_POINT \<Rightarrow> TPMS_ECC_POINT ser" where
  "TPMS_ECC_POINT_Deserialize self =
     sbind (withN ''x'' ''BYTE[]'' ''xSize'' ''UINT16'' ser_readSizedByteBuf) (\<lambda>x.
     sbind (withN ''y'' ''BYTE[]'' ''ySize'' ''UINT16'' ser_readSizedByteBuf) (\<lambda>y.
     ret (self\<lparr>TPMS_ECC_POINT_x := x, TPMS_ECC_POINT_y := y\<rparr>)))"

definition TPMS_ECC_POINT_text_ok :: "text_class \<Rightarrow> TPMS_ECC_POINT \<Rightarrow> bool" where
  "TPMS_ECC_POINT_text_ok c x \<longleftrightarrow>
     length (TPMS_ECC_POINT_x x) < 2 ^ 64 \<and>
     length (TPMS_ECC_POINT_y x) < 2 ^ 64"

interpretation TPMS_ECC_POINT_text: text_codec "''TPMS_ECC_POINT''" TPMS_ECC_POINT_Serialize TPMS_ECC_POINT_Deserialize TPMS_ECC_POINT_default TPMS_ECC_POINT_text_ok
proof
  show "word_ok ''TPMS_ECC_POINT''" by (simp add: word_simps)
  fix c x assume ok: "TPMS_ECC_POINT_text_ok c x"
  from ok show "carries c True (TPMS_ECC_POINT_Serialize x) (TPMS_ECC_POINT_Deserialize TPMS_ECC_POINT_default) x"
    by (simp only: TPMS_ECC_POINT_Serialize_def TPMS_ECC_POINT_Deserialize_def TPMS_ECC_POINT_default_def
       TPMS_ECC_POINT.select_convs TPMS_ECC_POINT.update_convs;
      intro carries_body;
      (rule TPMS_ECC_POINT.equality)?; simp add: TPMS_ECC_POINT_text_ok_def word_simps)
qed

subsection \<open>TPM2B_ECC_POINT\<close>

definition TPM2B_ECC_POINT_Serialize :: "TPM2B_ECC_POINT \<Rightarrow> unit ser" where
  "TPM2B_ECC_POINT_Serialize self = wseq
     [withN ''point'' ''TPMS_ECC_POINT'' ''size'' ''UINT16'' (ser_writeObj ''TPMS_ECC_POINT'' (TPMS_ECC_POINT_Serialize (TPM2B_ECC_POINT_point self)))]"

definition TPM2B_ECC_POINT_Deserialize :: "TPM2B_ECC_POINT \<Rightarrow> TPM2B_ECC_POINT ser" where
  "TPM2B_ECC_POINT_Deserialize self =
     sbind (withN ''point'' ''TPMS_ECC_POINT'' ''size'' ''UINT16'' (ser_readObj ''TPMS_ECC_POINT'' (TPMS_ECC_POINT_Deserialize (TPM2B_ECC_POINT_point self)))) (\<lambda>point.
     ret (self\<lparr>TPM2B_ECC_POINT_point := point\<rparr>))"

definition TPM2B_ECC_POINT_text_ok :: "text_class \<Rightarrow> TPM2B_ECC_POINT \<Rightarrow> bool" where
  "TPM2B_ECC_POINT_text_ok c x \<longleftrightarrow>
     TPMS_ECC_POINT_text_ok c (TPM2B_ECC_POINT_point x)"

interpretation TPM2B_ECC_POINT_text: text_codec "''TPM2B_ECC_POINT''" TPM2B_ECC_POINT_Serialize TPM2B_ECC_POINT_Deserialize TPM2B_ECC_POINT_default TPM2B_ECC_POINT_text_ok
proof
  show "word_ok ''TPM2B_ECC_POINT''" by (simp add: word_simps)
  fix c x assume ok: "TPM2B_ECC_POINT_text_ok c x"
  from ok show "carries c True (TPM2B_ECC_POINT_Serialize x) (TPM2B_ECC_POINT_Deserialize TPM2B_ECC_POINT_default) x"
    by (simp only: TPM2B_ECC_POINT_Serialize_def TPM2B_ECC_POINT_Deserialize_def TPM2B_ECC_POINT_default_def
       TPM2B_ECC_POINT.select_convs TPM2B_ECC_POINT.update_convs;
      intro TPMS_ECC_POINT_text.as_entry [THEN carries_entry_Cons] carries_body;
      (rule TPM2B_ECC_POINT.equality)?; simp add: TPM2B_ECC_POINT_text_ok_def word_simps)
qed

subsection \<open>TPMT_ECC_SCHEME\<close>

definition TPMT_ECC_SCHEME_Serialize :: "TPMT_ECC_SCHEME \<Rightarrow> unit ser" where
  "TPMT_ECC_SCHEME_Serialize self = wseq
     [withN ''scheme'' ''TPM_ALG_ID'' '''' '''' (ser_writeEnumT (selector_or TPM_ALG_ID_NULL TPMU_ASYM_SCHEME_GetUnionSelector (TPMT_ECC_SCHEME_details self)) TPM_ALG_ID_ID),
      if_set (TPMT_ECC_SCHEME_details self) (\<lambda>u. withN ''details'' ''TPMU_ASYM_SCHEME'' '''' '''' (ser_writeObj (TPMU_ASYM_SCHEME_TypeName u) (TPMU_ASYM_SCHEME_Serialize u)))]"

definition TPMT_ECC_SCHEME_Deserialize :: "TPMT_ECC_SCHEME \<Rightarrow> TPMT_ECC_SCHEME ser" where
  "TPMT_ECC_SCHEME_Deserialize self =
     sbind (withN ''scheme'' ''TPM_ALG_ID'' '''' '''' (ser_readEnumT TPM_ALG_ID_ID)) (\<lambda>scheme.
     sbind (reset_or_create UnionFactory_Create_TPMU_ASYM_SCHEME scheme) (\<lambda>details.
     sbind (read_if_set details (\<lambda>u. withN ''details'' ''TPMU_ASYM_SCHEME'' '''' '''' (ser_readObj (TPMU_ASYM_SCHEME_TypeName u) (TPMU_ASYM_SCHEME_Deserialize u)))) (\<lambda>details.
     ret (self\<lparr>TPMT_ECC_SCHEME_details := details\<rparr>))))"

definition TPMT_ECC_SCHEME_text_ok :: "text_class \<Rightarrow> TPMT_ECC_SCHEME \<Rightarrow> bool" where
  "TPMT_ECC_SCHEME_text_ok c x \<longleftrightarrow>
     TPMT_ECC_SCHEME_details x \<noteq> None \<and>
     enum_ok c (ucast (selector_or TPM_ALG_ID_NULL TPMU_ASYM_SCHEME_GetUnionSelector (TPMT_ECC_SCHEME_details x))) TPM_ALG_ID_ID \<and>
     if_set_ok (TPMU_ASYM_SCHEME_text_ok c) (TPMT_ECC_SCHEME_details x)"

interpretation TPMT_ECC_SCHEME_text: text_codec "''TPMT_ECC_SCHEME''" TPMT_ECC_SCHEME_Serialize TPMT_ECC_SCHEME_Deserialize TPMT_ECC_SCHEME_default TPMT_ECC_SCHEME_text_ok
proof
  show "word_ok ''TPMT_ECC_SCHEME''" by (simp add: word_simps)
  fix c x assume ok: "TPMT_ECC_SCHEME_text_ok c x"
  from ok show "carries c True (TPMT_ECC_SCHEME_Serialize x) (TPMT_ECC_SCHEME_Deserialize TPMT_ECC_SCHEME_default) x"
    by (simp only: TPMT_ECC_SCHEME_Serialize_def TPMT_ECC_SCHEME_Deserialize_def TPMT_ECC_SCHEME_default_def
       TPMT_ECC_SCHEME.select_convs TPMT_ECC_SCHEME.update_convs;
      intro TPMU_ASYM_SCHEME_text.as_member [THEN carries_member_Cons] TPMU_ASYM_SCHEME_text.member_created [of c, THEN carries_create] carries_body;
      (rule TPMT_ECC_SCHEME.equality)?; simp add: TPMT_ECC_SCHEME_text_ok_def word_simps)
qed

subsection \<open>TPMS_ALGORITHM_DETAIL_ECC\<close>

definition TPMS_ALGORITHM_DETAIL_ECC_Serialize :: "TPMS_ALGORITHM_DETAIL_ECC \<Rightarrow> unit ser" where
  "TPMS_ALGORITHM_DETAIL_ECC_Serialize self = wseq
     [withN ''curveID'' ''TPM_ECC_CURVE'' '''' '''' (ser_writeEnumT (TPMS_ALGORITHM_DETAIL_ECC_curveID self) TPM_ECC_CURVE_ID),
      withN ''keySize'' ''UINT16'' '''' '''' (ser_writeShort (TPMS_ALGORITHM_DETAIL_ECC_keySize self)),
      withN ''kdfScheme'' ''TPM_ALG_ID'' '''' '''' (ser_writeEnumT (selector_or TPM_ALG_ID_NULL TPMU_KDF_SCHEME_GetUnionSelector (TPMS_ALGORITHM_DETAIL_ECC_kdf self)) TPM_ALG_ID_ID),
      if_set (TPMS_ALGORITHM_DETAIL_ECC_kdf self) (\<lambda>u. withN ''kdf'' ''TPMU_KDF_SCHEME'' '''' '''' (ser_writeObj (TPMU_KDF_SCHEME_TypeName u) (TPMU_KDF_SCHEME_Serialize u))),
      withN ''signScheme'' ''TPM_ALG_ID'' '''' '''' (ser_writeEnumT (selector_or TPM_ALG_ID_NULL TPMU_ASYM_SCHEME_GetUnionSelector (TPMS_ALGORITHM_DETAIL_ECC_sign self)) TPM_ALG_ID_ID),
      if_set (TPMS_ALGORITHM_DETAIL_ECC_sign self) (\<lambda>u. withN ''sign'' ''TPMU_ASYM_SCHEME'' '''' '''' (ser_writeObj (TPMU_ASYM_SCHEME_TypeName u) (TPMU_ASYM_SCHEME_Serialize u))),
      withN ''p'' ''BYTE[]'' ''pSize'' ''UINT16'' (ser_writeSizedByteBuf (TPMS_ALGORITHM_DETAIL_ECC_p self)),
      withN ''a'' ''BYTE[]'' ''aSize'' ''UINT16'' (ser_writeSizedByteBuf (TPMS_ALGORITHM_DETAIL_ECC_a self)),
      withN ''b'' ''BYTE[]'' ''bSize'' ''UINT16'' (ser_writeSizedByteBuf (TPMS_ALGORITHM_DETAIL_ECC_b self)),
      withN ''gX'' ''BYTE[]'' ''gXSize'' ''UINT16'' (ser_writeSizedByteBuf (TPMS_ALGORITHM_DETAIL_ECC_gX self)),
      withN ''gY'' ''BYTE[]'' ''gYSize'' ''UINT16'' (ser_writeSizedByteBuf (TPMS_ALGORITHM_DETAIL_ECC_gY self)),
      withN ''n'' ''BYTE[]'' ''nSize'' ''UINT16'' (ser_writeSizedByteBuf (TPMS_ALGORITHM_DETAIL_ECC_n self)),
      withN ''h'' ''BYTE[]'' ''hSize'' ''UINT16'' (ser_writeSizedByteBuf (TPMS_ALGORITHM_DETAIL_ECC_h self))]"

definition TPMS_ALGORITHM_DETAIL_ECC_Deserialize :: "TPMS_ALGORITHM_DETAIL_ECC \<Rightarrow> TPMS_ALGORITHM_DETAIL_ECC ser" where
  "TPMS_ALGORITHM_DETAIL_ECC_Deserialize self =
     sbind (withN ''curveID'' ''TPM_ECC_CURVE'' '''' '''' (ser_readEnumT TPM_ECC_CURVE_ID)) (\<lambda>curveID.
     sbind (withN ''keySize'' ''UINT16'' '''' '''' ser_readShort) (\<lambda>keySize.
     sbind (withN ''kdfScheme'' ''TPM_ALG_ID'' '''' '''' (ser_readEnumT TPM_ALG_ID_ID)) (\<lambda>kdfScheme.
     sbind (reset_or_create UnionFactory_Create_TPMU_KDF_SCHEME kdfScheme) (\<lambda>kdf.
     sbind (read_if_set kdf (\<lambda>u. withN ''kdf'' ''TPMU_KDF_SCHEME'' '''' '''' (ser_readObj (TPMU_KDF_SCHEME_TypeName u) (TPMU_KDF_SCHEME_Deserialize u)))) (\<lambda>kdf.
     sbind (withN ''signScheme'' ''TPM_ALG_ID'' '''' '''' (ser_readEnumT TPM_ALG_ID_ID)) (\<lambda>signScheme.
     sbind (reset_or_create UnionFactory_Create_TPMU_ASYM_SCHEME signScheme) (\<lambda>sign.
     sbind (read_if_set sign (\<lambda>u. withN ''sign'' ''TPMU_ASYM_SCHEME'' '''' '''' (ser_readObj (TPMU_ASYM_SCHEME_TypeName u) (TPMU_ASYM_SCHEME_Deserialize u)))) (\<lambda>sign.
     sbind (withN ''p'' ''BYTE[]'' ''pSize'' ''UINT16'' ser_readSizedByteBuf) (\<lambda>p.
     sbind (withN ''a'' ''BYTE[]'' ''aSize'' ''UINT16'' ser_readSizedByteBuf) (\<lambda>a.
     sbind (withN ''b'' ''BYTE[]'' ''bSize'' ''UINT16'' ser_readSizedByteBuf) (\<lambda>b.
     sbind (withN ''gX'' ''BYTE[]'' ''gXSize'' ''UINT16'' ser_readSizedByteBuf) (\<lambda>gX.
     sbind (withN ''gY'' ''BYTE[]'' ''gYSize'' ''UINT16'' ser_readSizedByteBuf) (\<lambda>gY.
     sbind (withN ''n'' ''BYTE[]'' ''nSize'' ''UINT16'' ser_readSizedByteBuf) (\<lambda>n.
     sbind (withN ''h'' ''BYTE[]'' ''hSize'' ''UINT16'' ser_readSizedByteBuf) (\<lambda>h.
     ret (self\<lparr>TPMS_ALGORITHM_DETAIL_ECC_curveID := curveID, TPMS_ALGORITHM_DETAIL_ECC_keySize := keySize, TPMS_ALGORITHM_DETAIL_ECC_kdf := kdf, TPMS_ALGORITHM_DETAIL_ECC_sign := sign, TPMS_ALGORITHM_DETAIL_ECC_p := p, TPMS_ALGORITHM_DETAIL_ECC_a := a, TPMS_ALGORITHM_DETAIL_ECC_b := b, TPMS_ALGORITHM_DETAIL_ECC_gX := gX, TPMS_ALGORITHM_DETAIL_ECC_gY := gY, TPMS_ALGORITHM_DETAIL_ECC_n := n, TPMS_ALGORITHM_DETAIL_ECC_h := h\<rparr>))))))))))))))))"

definition TPMS_ALGORITHM_DETAIL_ECC_text_ok :: "text_class \<Rightarrow> TPMS_ALGORITHM_DETAIL_ECC \<Rightarrow> bool" where
  "TPMS_ALGORITHM_DETAIL_ECC_text_ok c x \<longleftrightarrow>
     enum_ok c (ucast (TPMS_ALGORITHM_DETAIL_ECC_curveID x)) TPM_ECC_CURVE_ID \<and>
     TPMS_ALGORITHM_DETAIL_ECC_kdf x \<noteq> None \<and>
     enum_ok c (ucast (selector_or TPM_ALG_ID_NULL TPMU_KDF_SCHEME_GetUnionSelector (TPMS_ALGORITHM_DETAIL_ECC_kdf x))) TPM_ALG_ID_ID \<and>
     if_set_ok (TPMU_KDF_SCHEME_text_ok c) (TPMS_ALGORITHM_DETAIL_ECC_kdf x) \<and>
     TPMS_ALGORITHM_DETAIL_ECC_sign x \<noteq> None \<and>
     enum_ok c (ucast (selector_or TPM_ALG_ID_NULL TPMU_ASYM_SCHEME_GetUnionSelector (TPMS_ALGORITHM_DETAIL_ECC_sign x))) TPM_ALG_ID_ID \<and>
     if_set_ok (TPMU_ASYM_SCHEME_text_ok c) (TPMS_ALGORITHM_DETAIL_ECC_sign x) \<and>
     length (TPMS_ALGORITHM_DETAIL_ECC_p x) < 2 ^ 64 \<and>
     length (TPMS_ALGORITHM_DETAIL_ECC_a x) < 2 ^ 64 \<and>
     length (TPMS_ALGORITHM_DETAIL_ECC_b x) < 2 ^ 64 \<and>
     length (TPMS_ALGORITHM_DETAIL_ECC_gX x) < 2 ^ 64 \<and>
     length (TPMS_ALGORITHM_DETAIL_ECC_gY x) < 2 ^ 64 \<and>
     length (TPMS_ALGORITHM_DETAIL_ECC_n x) < 2 ^ 64 \<and>
     length (TPMS_ALGORITHM_DETAIL_ECC_h x) < 2 ^ 64"

interpretation TPMS_ALGORITHM_DETAIL_ECC_text: text_codec "''TPMS_ALGORITHM_DETAIL_ECC''" TPMS_ALGORITHM_DETAIL_ECC_Serialize TPMS_ALGORITHM_DETAIL_ECC_Deserialize TPMS_ALGORITHM_DETAIL_ECC_default TPMS_ALGORITHM_DETAIL_ECC_text_ok
proof
  show "word_ok ''TPMS_ALGORITHM_DETAIL_ECC''" by (simp add: word_simps)
  fix c x assume ok: "TPMS_ALGORITHM_DETAIL_ECC_text_ok c x"
  from ok show "carries c True (TPMS_ALGORITHM_DETAIL_ECC_Serialize x) (TPMS_ALGORITHM_DETAIL_ECC_Deserialize TPMS_ALGORITHM_DETAIL_ECC_default) x"
    by (simp only: TPMS_ALGORITHM_DETAIL_ECC_Serialize_def TPMS_ALGORITHM_DETAIL_ECC_Deserialize_def TPMS_ALGORITHM_DETAIL_ECC_default_def
       TPMS_ALGORITHM_DETAIL_ECC.select_convs TPMS_ALGORITHM_DETAIL_ECC.update_convs;
      intro TPMU_ASYM_SCHEME_text.as_member [THEN carries_member_Cons] TPMU_ASYM_SCHEME_text.member_created [of c, THEN carries_create] TPMU_KDF_SCHEME_text.as_member [THEN carries_member_Cons] TPMU_KDF_SCHEME_text.member_created [of c, THEN carries_create] carries_body;
      (rule TPMS_ALGORITHM_DETAIL_ECC.equality)?; simp add: TPMS_ALGORITHM_DETAIL_ECC_text_ok_def word_simps)
qed

subsection \<open>TPMS_SIGNATURE_RSA\<close>

definition TPMS_SIGNATURE_RSA_Serialize :: "TPMS_SIGNATURE_RSA \<Rightarrow> unit ser" where
  "TPMS_SIGNATURE_RSA_Serialize self = wseq
     [withN ''hash'' ''TPM_ALG_ID'' '''' '''' (ser_writeEnumT (TPMS_SIGNATURE_RSA_hash self) TPM_ALG_ID_ID),
      withN ''sig'' ''BYTE[]'' ''sigSize'' ''UINT16'' (ser_writeSizedByteBuf (TPMS_SIGNATURE_RSA_sig self))]"

definition TPMS_SIGNATURE_RSA_Deserialize :: "TPMS_SIGNATURE_RSA \<Rightarrow> TPMS_SIGNATURE_RSA ser" where
  "TPMS_SIGNATURE_RSA_Deserialize self =
     sbind (withN ''hash'' ''TPM_ALG_ID'' '''' '''' (ser_readEnumT TPM_ALG_ID_ID)) (\<lambda>hash.
     sbind (withN ''sig'' ''BYTE[]'' ''sigSize'' ''UINT16'' ser_readSizedByteBuf) (\<lambda>sig.
     ret (self\<lparr>TPMS_SIGNATURE_RSA_hash := hash, TPMS_SIGNATURE_RSA_sig := sig\<rparr>)))"

definition TPMS_SIGNATURE_RSA_text_ok :: "text_class \<Rightarrow> TPMS_SIGNATURE_RSA \<Rightarrow> bool" where
  "TPMS_SIGNATURE_RSA_text_ok c x \<longleftrightarrow>
     enum_ok c (ucast (TPMS_SIGNATURE_RSA_hash x)) TPM_ALG_ID_ID \<and>
     length (TPMS_SIGNATURE_RSA_sig x) < 2 ^ 64"

interpretation TPMS_SIGNATURE_RSA_text: text_codec "''TPMS_SIGNATURE_RSA''" TPMS_SIGNATURE_RSA_Serialize TPMS_SIGNATURE_RSA_Deserialize TPMS_SIGNATURE_RSA_default TPMS_SIGNATURE_RSA_text_ok
proof
  show "word_ok ''TPMS_SIGNATURE_RSA''" by (simp add: word_simps)
  fix c x assume ok: "TPMS_SIGNATURE_RSA_text_ok c x"
  from ok show "carries c True (TPMS_SIGNATURE_RSA_Serialize x) (TPMS_SIGNATURE_RSA_Deserialize TPMS_SIGNATURE_RSA_default) x"
    by (simp only: TPMS_SIGNATURE_RSA_Serialize_def TPMS_SIGNATURE_RSA_Deserialize_def TPMS_SIGNATURE_RSA_default_def
       TPMS_SIGNATURE_RSA.select_convs TPMS_SIGNATURE_RSA.update_convs;
      intro carries_body;
      (rule TPMS_SIGNATURE_RSA.equality)?; simp add: TPMS_SIGNATURE_RSA_text_ok_def word_simps)
qed

subsection \<open>TPMS_SIGNATURE_ECC\<close>

definition TPMS_SIGNATURE_ECC_Serialize :: "TPMS_SIGNATURE_ECC \<Rightarrow> unit ser" where
  "TPMS_SIGNATURE_ECC_Serialize self = wseq
     [withN ''hash'' ''TPM_ALG_ID'' '''' '''' (ser_writeEnumT (TPMS_SIGNATURE_ECC_hash self) TPM_ALG_ID_ID),
      withN ''signatureR'' ''BYTE[]'' ''signatureRSize'' ''UINT16'' (ser_writeSizedByteBuf (TPMS_SIGNATURE_ECC_signatureR self)),
      withN ''signatureS'' ''BYTE[]'' ''signatureSSize'' ''UINT16'' (ser_writeSizedByteBuf (TPMS_SIGNATURE_ECC_signatureS self))]"

definition TPMS_SIGNATURE_ECC_Deserialize :: "TPMS_SIGNATURE_ECC \<Rightarrow> TPMS_SIGNATURE_ECC ser" where
  "TPMS_SIGNATURE_ECC_Deserialize self =
     sbind (withN ''hash'' ''TPM_ALG_ID'' '''' '''' (ser_readEnumT TPM_ALG_ID_ID)) (\<lambda>hash.
     sbind (withN ''signatureR'' ''BYTE[]'' ''signatureRSize'' ''UINT16'' ser_readSizedByteBuf) (\<lambda>signatureR.
     sbind (withN ''signatureS'' ''BYTE[]'' ''signatureSSize'' ''UINT16'' ser_readSizedByteBuf) (\<lambda>signatureS.
     ret (self\<lparr>TPMS_SIGNATURE_ECC_hash := hash, TPMS_SIGNATURE_ECC_signatureR := signatureR, TPMS_SIGNATURE_ECC_signatureS := signatureS\<rparr>))))"

definition TPMS_SIGNATURE_ECC_text_ok :: "text_class \<Rightarrow> TPMS_SIGNATURE_ECC \<Rightarrow> bool" where
  "TPMS_SIGNATURE_ECC_text_ok c x \<longleftrightarrow>
     enum_ok c (ucast (TPMS_SIGNATURE_ECC_hash x)) TPM_ALG_ID_ID \<and>
     length (TPMS_SIGNATURE_ECC_signatureR x) < 2 ^ 64 \<and>
     length (TPMS_SIGNATURE_ECC_signatureS x) < 2 ^ 64"

interpretation TPMS_SIGNATURE_ECC_text: text_codec "''TPMS_SIGNATURE_ECC''" TPMS_SIGNATURE_ECC_Serialize TPMS_SIGNATURE_ECC_Deserialize TPMS_SIGNATURE_ECC_default TPMS_SIGNATURE_ECC_text_ok
proof
  show "word_ok ''TPMS_SIGNATURE_ECC''" by (simp add: word_simps)
  fix c x assume ok: "TPMS_SIGNATURE_ECC_text_ok c x"
  from ok show "carries c True (TPMS_SIGNATURE_ECC_Serialize x) (TPMS_SIGNATURE_ECC_Deserialize TPMS_SIGNATURE_ECC_default) x"
    by (simp only: TPMS_SIGNATURE_ECC_Serialize_def TPMS_SIGNATURE_ECC_Deserialize_def TPMS_SIGNATURE_ECC_default_def
       TPMS_SIGNATURE_ECC.select_convs TPMS_SIGNATURE_ECC.update_convs;
      intro carries_body;
      (rule TPMS_SIGNATURE_ECC.equality)?; simp add: TPMS_SIGNATURE_ECC_text_ok_def word_simps)
qed

subsection \<open>The union TPMU_SIGNATURE\<close>

fun TPMU_SIGNATURE_TypeName :: "TPMU_SIGNATURE \<Rightarrow> string" where
  "TPMU_SIGNATURE_TypeName (SIGNATURE_TPMS_SIGNATURE_RSASSA _) = ''TPMS_SIGNATURE_RSASSA''"
| "TPMU_SIGNATURE_TypeName (SIGNATURE_TPMS_SIGNATURE_RSAPSS _) = ''TPMS_SIGNATURE_RSAPSS''"
| "TPMU_SIGNATURE_TypeName (SIGNATURE_TPMS_SIGNATURE_ECDSA _) = ''TPMS_SIGNATURE_ECDSA''"
| "TPMU_SIGNATURE_TypeName (SIGNATURE_TPMS_SIGNATURE_ECDAA _) = ''TPMS_SIGNATURE_ECDAA''"
| "TPMU_SIGNATURE_TypeName (SIGNATURE_TPMS_SIGNATURE_SM2 _) = ''TPMS_SIGNATURE_SM2''"
| "TPMU_SIGNATURE_TypeName (SIGNATURE_TPMS_SIGNATURE_ECSCHNORR _) = ''TPMS_SIGNATURE_ECSCHNORR''"
| "TPMU_SIGNATURE_TypeName (SIGNATURE_TPMT_HA _) = ''TPMT_HA''"
| "TPMU_SIGNATURE_TypeName (SIGNATURE_TPMS_SCHEME_HASH _) = ''TPMS_SCHEME_HASH''"
| "TPMU_SIGNATURE_TypeName SIGNATURE_TPMS_NULL_SIGNATURE = ''TPMS_NULL_SIGNATURE''"

fun TPMU_SIGNATURE_Serialize :: "TPMU_SIGNATURE \<Rightarrow> unit ser" where
  "TPMU_SIGNATURE_Serialize (SIGNATURE_TPMS_SIGNATURE_RSASSA x) = TPMS_SIGNATURE_RSA_Serialize x"
| "TPMU_SIGNATURE_Serialize (SIGNATURE_TPMS_SIGNATURE_RSAPSS x) = TPMS_SIGNATURE_RSA_Serialize x"
| "TPMU_SIGNATURE_Serialize (SIGNATURE_TPMS_SIGNATURE_ECDSA x) = TPMS_SIGNATURE_ECC_Serialize x"
| "TPMU_SIGNATURE_Serialize (SIGNATURE_TPMS_SIGNATURE_ECDAA x) = TPMS_SIGNATURE_ECC_Serialize x"
| "TPMU_SIGNATURE_Serialize (SIGNATURE_TPMS_SIGNATURE_SM2 x) = TPMS_SIGNATURE_ECC_Serialize x"
| "TPMU_SIGNATURE_Serialize (SIGNATURE_TPMS_SIGNATURE_ECSCHNORR x) = TPMS_SIGNATURE_ECC_Serialize x"
| "TPMU_SIGNATURE_Serialize (SIGNATURE_TPMT_HA x) = TPMT_HA_Serialize x"
| "TPMU_SIGNATURE_Serialize (SIGNATURE_TPMS_SCHEME_HASH x) = TPMS_SCHEME_HASH_Serialize x"
| "TPMU_SIGNATURE_Serialize SIGNATURE_TPMS_NULL_SIGNATURE = ret ()"

fun TPMU_SIGNATURE_Deserialize :: "TPMU_SIGNATURE \<Rightarrow> TPMU_SIGNATURE ser" where
  "TPMU_SIGNATURE_Deserialize (SIGNATURE_TPMS_SIGNATURE_RSASSA x) = sbind (TPMS_SIGNATURE_RSA_Deserialize x) (\<lambda>y. ret (SIGNATURE_TPMS_SIGNATURE_RSASSA y))"
| "TPMU_SIGNATURE_Deserialize (SIGNATURE_TPMS_SIGNATURE_RSAPSS x) = sbind (TPMS_SIGNATURE_RSA_Deserialize x) (\<lambda>y. ret (SIGNATURE_TPMS_SIGNATURE_RSAPSS y))"
| "TPMU_SIGNATURE_Deserialize (SIGNATURE_TPMS_SIGNATURE_ECDSA x) = sbind (TPMS_SIGNATURE_ECC_Deserialize x) (\<lambda>y. ret (SIGNATURE_TPMS_SIGNATURE_ECDSA y))"
| "TPMU_SIGNATURE_Deserialize (SIGNATURE_TPMS_SIGNATURE_ECDAA x) = sbind (TPMS_SIGNATURE_ECC_Deserialize x) (\<lambda>y. ret (SIGNATURE_TPMS_SIGNATURE_ECDAA y))"
| "TPMU_SIGNATURE_Deserialize (SIGNATURE_TPMS_SIGNATURE_SM2 x) = sbind (TPMS_SIGNATURE_ECC_Deserialize x) (\<lambda>y. ret (SIGNATURE_TPMS_SIGNATURE_SM2 y))"
| "TPMU_SIGNATURE_Deserialize (SIGNATURE_TPMS_SIGNATURE_ECSCHNORR x) = sbind (TPMS_SIGNATURE_ECC_Deserialize x) (\<lambda>y. ret (SIGNATURE_TPMS_SIGNATURE_ECSCHNORR y))"
| "TPMU_SIGNATURE_Deserialize (SIGNATURE_TPMT_HA x) = sbind (TPMT_HA_Deserialize x) (\<lambda>y. ret (SIGNATURE_TPMT_HA y))"
| "TPMU_SIGNATURE_Deserialize (SIGNATURE_TPMS_SCHEME_HASH x) = sbind (TPMS_SCHEME_HASH_Deserialize x) (\<lambda>y. ret (SIGNATURE_TPMS_SCHEME_HASH y))"
| "TPMU_SIGNATURE_Deserialize SIGNATURE_TPMS_NULL_SIGNATURE = ret SIGNATURE_TPMS_NULL_SIGNATURE"

fun TPMU_SIGNATURE_text_ok :: "text_class \<Rightarrow> TPMU_SIGNATURE \<Rightarrow> bool" where
  "TPMU_SIGNATURE_text_ok c (SIGNATURE_TPMS_SIGNATURE_RSASSA x) = TPMS_SIGNATURE_RSA_text_ok c x"
| "TPMU_SIGNATURE_text_ok c (SIGNATURE_TPMS_SIGNATURE_RSAPSS x) = TPMS_SIGNATURE_RSA_text_ok c x"
| "TPMU_SIGNATURE_text_ok c (SIGNATURE_TPMS_SIGNATURE_ECDSA x) = TPMS_SIGNATURE_ECC_text_ok c x"
| "TPMU_SIGNATURE_text_ok c (SIGNATURE_TPMS_SIGNATURE_ECDAA x) = TPMS_SIGNATURE_ECC_text_ok c x"
| "TPMU_SIGNATURE_text_ok c (SIGNATURE_TPMS_SIGNATURE_SM2 x) = TPMS_SIGNATURE_ECC_text_ok c x"
| "TPMU_SIGNATURE_text_ok c (SIGNATURE_TPMS_SIGNATURE_ECSCHNORR x) = TPMS_SIGNATURE_ECC_text_ok c x"
| "TPMU_SIGNATURE_text_ok c (SIGNATURE_TPMT_HA x) = TPMT_HA_text_ok c x"
| "TPMU_SIGNATURE_text_ok _ (SIGNATURE_TPMS_SCHEME_HASH _) = False"
| "TPMU_SIGNATURE_text_ok _ SIGNATURE_TPMS_NULL_SIGNATURE = True"

interpretation TPMU_SIGNATURE_text: text_union TPMU_SIGNATURE_TypeName TPMU_SIGNATURE_Serialize TPMU_SIGNATURE_Deserialize TPMU_SIGNATURE_fresh
    TPMU_SIGNATURE_GetUnionSelector UnionFactory_Create_TPMU_SIGNATURE TPMU_SIGNATURE_text_ok
proof
  fix u :: TPMU_SIGNATURE and c
  show "word_ok (TPMU_SIGNATURE_TypeName u)" by (cases u) (simp_all add: word_simps)
  show "TPMU_SIGNATURE_TypeName (TPMU_SIGNATURE_fresh u) = TPMU_SIGNATURE_TypeName u" by (cases u) simp_all
  show "TPMU_SIGNATURE_text_ok c u \<Longrightarrow> carries c False (TPMU_SIGNATURE_Serialize u) (TPMU_SIGNATURE_Deserialize (TPMU_SIGNATURE_fresh u)) u"
    by (cases u) (simp_all add: carries_nothing TPMS_SIGNATURE_ECC_text.carried [THEN carries_member] TPMS_SIGNATURE_RSA_text.carried [THEN carries_member] TPMT_HA_text.carried [THEN carries_member])
  show "TPMU_SIGNATURE_text_ok c u \<Longrightarrow> TPMU_SIGNATURE_GetUnionSelector u \<noteq> 0 \<and>
      UnionFactory_Create_TPMU_SIGNATURE (TPMU_SIGNATURE_GetUnionSelector u) = Ok (Some (TPMU_SIGNATURE_fresh u))"
    by (cases u) (simp_all add: UnionFactory_Create_TPMU_SIGNATURE_def)
qed

subsection \<open>TPMT_SIGNATURE\<close>

definition TPMT_SIGNATURE_Serialize :: "TPMT_SIGNATURE \<Rightarrow> unit ser" where
  "TPMT_SIGNATURE_Serialize self = wseq
     [withN ''sigAlg'' ''TPM_ALG_ID'' '''' '''' (ser_writeEnumT (selector_or TPM_ALG_ID_NULL TPMU_SIGNATURE_GetUnionSelector (TPMT_SIGNATURE_signature self)) TPM_ALG_ID_ID),
      if_set (TPMT_SIGNATURE_signature self) (\<lambda>u. withN ''signature'' ''TPMU_SIGNATURE'' '''' '''' (ser_writeObj (TPMU_SIGNATURE_TypeName u) (TPMU_SIGNATURE_Serialize u)))]"

definition TPMT_SIGNATURE_Deserialize :: "TPMT_SIGNATURE \<Rightarrow> TPMT_SIGNATURE ser" where
  "TPMT_SIGNATURE_Deserialize self =
     sbind (withN ''sigAlg'' ''TPM_ALG_ID'' '''' '''' (ser_readEnumT TPM_ALG_ID_ID)) (\<lambda>sigAlg.
     sbind (reset_or_create UnionFactory_Create_TPMU_SIGNATURE sigAlg) (\<lambda>signature.
     sbind (read_if_set signature (\<lambda>u. withN ''signature'' ''TPMU_SIGNATURE'' '''' '''' (ser_readObj (TPMU_SIGNATURE_TypeName u) (TPMU_SIGNATURE_Deserialize u)))) (\<lambda>signature.
     ret (self\<lparr>TPMT_SIGNATURE_signature := signature\<rparr>))))"

definition TPMT_SIGNATURE_text_ok :: "text_class \<Rightarrow> TPMT_SIGNATURE \<Rightarrow> bool" where
  "TPMT_SIGNATURE_text_ok c x \<longleftrightarrow>
     TPMT_SIGNATURE_signature x \<noteq> None \<and>
     enum_ok c (ucast (selector_or TPM_ALG_ID_NULL TPMU_SIGNATURE_GetUnionSelector (TPMT_SIGNATURE_signature x))) TPM_ALG_ID_ID \<and>
     if_set_ok (TPMU_SIGNATURE_text_ok c) (TPMT_SIGNATURE_signature x)"

interpretation TPMT_SIGNATURE_text: text_codec "''TPMT_SIGNATURE''" TPMT_SIGNATURE_Serialize TPMT_SIGNATURE_Deserialize TPMT_SIGNATURE_default TPMT_SIGNATURE_text_ok
proof
  show "word_ok ''TPMT_SIGNATURE''" by (simp add: word_simps)
  fix c x assume ok: "TPMT_SIGNATURE_text_ok c x"
  from ok show "carries c True (TPMT_SIGNATURE_Serialize x) (TPMT_SIGNATURE_Deserialize TPMT_SIGNATURE_default) x"
    by (simp only: TPMT_SIGNATURE_Serialize_def TPMT_SIGNATURE_Deserialize_def TPMT_SIGNATURE_default_def
       TPMT_SIGNATURE.select_convs TPMT_SIGNATURE.update_convs;
      intro TPMU_SIGNATURE_text.as_member [THEN carries_member_Cons] TPMU_SIGNATURE_text.member_created [of c, THEN carries_create] carries_body;
      (rule TPMT_SIGNATURE.equality)?; simp add: TPMT_SIGNATURE_text_ok_def word_simps)
qed

subsection \<open>TPM2B_ENCRYPTED_SECRET\<close>

definition TPM2B_ENCRYPTED_SECRET_Serialize :: "TPM2B_ENCRYPTED_SECRET \<Rightarrow> unit ser" where
  "TPM2B_ENCRYPTED_SECRET_Serialize self = wseq
     [withN ''secret'' ''BYTE[]'' ''size'' ''UINT16'' (ser_writeSizedByteBuf (TPM2B_ENCRYPTED_SECRET_secret self))]"

definition TPM2B_ENCRYPTED_SECRET_Deserialize :: "TPM2B_ENCRYPTED_SECRET \<Rightarrow> TPM2B_ENCRYPTED_SECRET ser" where
  "TPM2B_ENCRYPTED_SECRET_Deserialize self =
     sbind (withN ''secret'' ''BYTE[]'' ''size'' ''UINT16'' ser_readSizedByteBuf) (\<lambda>secret.
     ret (self\<lparr>TPM2B_ENCRYPTED_SECRET_secret := secret\<rparr>))"

definition TPM2B_ENCRYPTED_SECRET_text_ok :: "text_class \<Rightarrow> TPM2B_ENCRYPTED_SECRET \<Rightarrow> bool" where
  "TPM2B_ENCRYPTED_SECRET_text_ok c x \<longleftrightarrow>
     length (TPM2B_ENCRYPTED_SECRET_secret x) < 2 ^ 64"

interpretation TPM2B_ENCRYPTED_SECRET_text: text_codec "''TPM2B_ENCRYPTED_SECRET''" TPM2B_ENCRYPTED_SECRET_Serialize TPM2B_ENCRYPTED_SECRET_Deserialize TPM2B_ENCRYPTED_SECRET_default TPM2B_ENCRYPTED_SECRET_text_ok
proof
  show "word_ok ''TPM2B_ENCRYPTED_SECRET''" by (simp add: word_simps)
  fix c x assume ok: "TPM2B_ENCRYPTED_SECRET_text_ok c x"
  from ok show "carries c True (TPM2B_ENCRYPTED_SECRET_Serialize x) (TPM2B_ENCRYPTED_SECRET_Deserialize TPM2B_ENCRYPTED_SECRET_default) x"
    by (simp only: TPM2B_ENCRYPTED_SECRET_Serialize_def TPM2B_ENCRYPTED_SECRET_Deserialize_def TPM2B_ENCRYPTED_SECRET_default_def
       TPM2B_ENCRYPTED_SECRET.select_convs TPM2B_ENCRYPTED_SECRET.update_convs;
      intro carries_body;
      (rule TPM2B_ENCRYPTED_SECRET.equality)?; simp add: TPM2B_ENCRYPTED_SECRET_text_ok_def word_simps)
qed

subsection \<open>TPMS_KEYEDHASH_PARMS\<close>

definition TPMS_KEYEDHASH_PARMS_Serialize :: "TPMS_KEYEDHASH_PARMS \<Rightarrow> unit ser" where
  "TPMS_KEYEDHASH_PARMS_Serialize self = wseq
     [withN ''schemeScheme'' ''TPM_ALG_ID'' '''' '''' (ser_writeEnumT (selector_or TPM_ALG_ID_NULL TPMU_SCHEME_KEYEDHASH_GetUnionSelector (TPMS_KEYEDHASH_PARMS_scheme self)) TPM_ALG_ID_ID),
      if_set (TPMS_KEYEDHASH_PARMS_scheme self) (\<lambda>u. withN ''scheme'' ''TPMU_SCHEME_KEYEDHASH'' '''' '''' (ser_writeObj (TPMU_SCHEME_KEYEDHASH_TypeName u) (TPMU_SCHEME_KEYEDHASH_Serialize u)))]"

definition TPMS_KEYEDHASH_PARMS_Deserialize :: "TPMS_KEYEDHASH_PARMS \<Rightarrow> TPMS_KEYEDHASH_PARMS ser" where
  "TPMS_KEYEDHASH_PARMS_Deserialize self =
     sbind (withN ''schemeScheme'' ''TPM_ALG_ID'' '''' '''' (ser_readEnumT TPM_ALG_ID_ID)) (\<lambda>schemeScheme.
     sbind (reset_or_create UnionFactory_Create_TPMU_SCHEME_KEYEDHASH schemeScheme) (\<lambda>scheme.
     sbind (read_if_set scheme (\<lambda>u. withN ''scheme'' ''TPMU_SCHEME_KEYEDHASH'' '''' '''' (ser_readObj (TPMU_SCHEME_KEYEDHASH_TypeName u) (TPMU_SCHEME_KEYEDHASH_Deserialize u)))) (\<lambda>scheme.
     ret (self\<lparr>TPMS_KEYEDHASH_PARMS_scheme := scheme\<rparr>))))"

definition TPMS_KEYEDHASH_PARMS_text_ok :: "text_class \<Rightarrow> TPMS_KEYEDHASH_PARMS \<Rightarrow> bool" where
  "TPMS_KEYEDHASH_PARMS_text_ok c x \<longleftrightarrow>
     TPMS_KEYEDHASH_PARMS_scheme x \<noteq> None \<and>
     enum_ok c (ucast (selector_or TPM_ALG_ID_NULL TPMU_SCHEME_KEYEDHASH_GetUnionSelector (TPMS_KEYEDHASH_PARMS_scheme x))) TPM_ALG_ID_ID \<and>
     if_set_ok (TPMU_SCHEME_KEYEDHASH_text_ok c) (TPMS_KEYEDHASH_PARMS_scheme x)"

interpretation TPMS_KEYEDHASH_PARMS_text: text_codec "''TPMS_KEYEDHASH_PARMS''" TPMS_KEYEDHASH_PARMS_Serialize TPMS_KEYEDHASH_PARMS_Deserialize TPMS_KEYEDHASH_PARMS_default TPMS_KEYEDHASH_PARMS_text_ok
proof
  show "word_ok ''TPMS_KEYEDHASH_PARMS''" by (simp add: word_simps)
  fix c x assume ok: "TPMS_KEYEDHASH_PARMS_text_ok c x"
  from ok show "carries c True (TPMS_KEYEDHASH_PARMS_Serialize x) (TPMS_KEYEDHASH_PARMS_Deserialize TPMS_KEYEDHASH_PARMS_default) x"
    by (simp only: TPMS_KEYEDHASH_PARMS_Serialize_def TPMS_KEYEDHASH_PARMS_Deserialize_def TPMS_KEYEDHASH_PARMS_default_def
       TPMS_KEYEDHASH_PARMS.select_convs TPMS_KEYEDHASH_PARMS.update_convs;
      intro TPMU_SCHEME_KEYEDHASH_text.as_member [THEN carries_member_Cons] TPMU_SCHEME_KEYEDHASH_text.member_created [of c, THEN carries_create] carries_body;
      (rule TPMS_KEYEDHASH_PARMS.equality)?; simp add: TPMS_KEYEDHASH_PARMS_text_ok_def word_simps)
qed

subsection \<open>TPMS_ASYM_PARMS\<close>

definition TPMS_ASYM_PARMS_Serialize :: "TPMS_ASYM_PARMS \<Rightarrow> unit ser" where
  "TPMS_ASYM_PARMS_Serialize self = wseq
     [withN ''symmetric'' ''TPMT_SYM_DEF_OBJECT'' '''' '''' (ser_writeObj ''TPMT_SYM_DEF_OBJECT'' (TPMT_SYM_DEF_OBJECT_Serialize (TPMS_ASYM_PARMS_symmetric self))),
      withN ''schemeScheme'' ''TPM_ALG_ID'' '''' '''' (ser_writeEnumT (selector_or TPM_ALG_ID_NULL TPMU_ASYM_SCHEME_GetUnionSelector (TPMS_ASYM_PARMS_scheme self)) TPM_ALG_ID_ID),
      if_set (TPMS_ASYM_PARMS_scheme self) (\<lambda>u. withN ''scheme'' ''TPMU_ASYM_SCHEME'' '''' '''' (ser_writeObj (TPMU_ASYM_SCHEME_TypeName u) (TPMU_ASYM_SCHEME_Serialize u)))]"

definition TPMS_ASYM_PARMS_Deserialize :: "TPMS_ASYM_PARMS \<Rightarrow> TPMS_ASYM_PARMS ser" where
  "TPMS_ASYM_PARMS_Deserialize self =
     sbind (withN ''symmetric'' ''TPMT_SYM_DEF_OBJECT'' '''' '''' (ser_readObj ''TPMT_SYM_DEF_OBJECT'' (TPMT_SYM_DEF_OBJECT_Deserialize (TPMS_ASYM_PARMS_symmetric self)))) (\<lambda>symmetric.
     sbind (withN ''schemeScheme'' ''TPM_ALG_ID'' '''' '''' (ser_readEnumT TPM_ALG_ID_ID)) (\<lambda>schemeScheme.
     sbind (reset_or_create UnionFactory_Create_TPMU_ASYM_SCHEME schemeScheme) (\<lambda>scheme.
     sbind (read_if_set scheme (\<lambda>u. withN ''scheme'' ''TPMU_ASYM_SCHEME'' '''' '''' (ser_readObj (TPMU_ASYM_SCHEME_TypeName u) (TPMU_ASYM_SCHEME_Deserialize u)))) (\<lambda>scheme.
     ret (self\<lparr>TPMS_ASYM_PARMS_symmetric := symmetric, TPMS_ASYM_PARMS_scheme := scheme\<rparr>)))))"

definition TPMS_ASYM_PARMS_text_ok :: "text_class \<Rightarrow> TPMS_ASYM_PARMS \<Rightarrow> bool" where
  "TPMS_ASYM_PARMS_text_ok c x \<longleftrightarrow>
     TPMT_SYM_DEF_OBJECT_text_ok c (TPMS_ASYM_PARMS_symmetric x) \<and>
     TPMS_ASYM_PARMS_scheme x \<noteq> None \<and>
     enum_ok c (ucast (selector_or TPM_ALG_ID_NULL TPMU_ASYM_SCHEME_GetUnionSelector (TPMS_ASYM_PARMS_scheme x))) TPM_ALG_ID_ID \<and>
     if_set_ok (TPMU_ASYM_SCHEME_text_ok c) (TPMS_ASYM_PARMS_scheme x)"

interpretation TPMS_ASYM_PARMS_text: text_codec "''TPMS_ASYM_PARMS''" TPMS_ASYM_PARMS_Serialize TPMS_ASYM_PARMS_Deserialize TPMS_ASYM_PARMS_default TPMS_ASYM_PARMS_text_ok
proof
  show "word_ok ''TPMS_ASYM_PARMS''" by (simp add: word_simps)
  fix c x assume ok: "TPMS_ASYM_PARMS_text_ok c x"
  from ok show "carries c True (TPMS_ASYM_PARMS_Serialize x) (TPMS_ASYM_PARMS_Deserialize TPMS_ASYM_PARMS_default) x"
    by (simp only: TPMS_ASYM_PARMS_Serialize_def TPMS_ASYM_PARMS_Deserialize_def TPMS_ASYM_PARMS_default_def
       TPMS_ASYM_PARMS.select_convs TPMS_ASYM_PARMS.update_convs;
      intro TPMT_SYM_DEF_OBJECT_text.as_entry [THEN carries_entry_Cons] TPMU_ASYM_SCHEME_text.as_member [THEN carries_member_Cons] TPMU_ASYM_SCHEME_text.member_created [of c, THEN carries_create] carries_body;
      (rule TPMS_ASYM_PARMS.equality)?; simp add: TPMS_ASYM_PARMS_text_ok_def word_simps)
qed

subsection \<open>TPMS_RSA_PARMS\<close>

definition TPMS_RSA_PARMS_Serialize :: "TPMS_RSA_PARMS \<Rightarrow> unit ser" where
  "TPMS_RSA_PARMS_Serialize self = wseq
     [withN ''symmetric'' ''TPMT_SYM_DEF_OBJECT'' '''' '''' (ser_writeObj ''TPMT_SYM_DEF_OBJECT'' (TPMT_SYM_DEF_OBJECT_Serialize (TPMS_RSA_PARMS_symmetric self))),
      withN ''schemeScheme'' ''TPM_ALG_ID'' '''' '''' (ser_writeEnumT (selector_or TPM_ALG_ID_NULL TPMU_ASYM_SCHEME_GetUnionSelector (TPMS_RSA_PARMS_scheme self)) TPM_ALG_ID_ID),
      if_set (TPMS_RSA_PARMS_scheme self) (\<lambda>u. withN ''scheme'' ''TPMU_ASYM_SCHEME'' '''' '''' (ser_writeObj (TPMU_ASYM_SCHEME_TypeName u) (TPMU_ASYM_SCHEME_Serialize u))),
      withN ''keyBits'' ''UINT16'' '''' '''' (ser_writeShort (TPMS_RSA_PARMS_keyBits self)),
      withN ''exponent'' ''UINT32'' '''' '''' (ser_writeInt (TPMS_RSA_PARMS_exponent self))]"

definition TPMS_RSA_PARMS_Deserialize :: "TPMS_RSA_PARMS \<Rightarrow> TPMS_RSA_PARMS ser" where
  "TPMS_RSA_PARMS_Deserialize self =
     sbind (withN ''symmetric'' ''TPMT_SYM_DEF_OBJECT'' '''' '''' (ser_readObj ''TPMT_SYM_DEF_OBJECT'' (TPMT_SYM_DEF_OBJECT_Deserialize (TPMS_RSA_PARMS_symmetric self)))) (\<lambda>symmetric.
     sbind (withN ''schemeScheme'' ''TPM_ALG_ID'' '''' '''' (ser_readEnumT TPM_ALG_ID_ID)) (\<lambda>schemeScheme.
     sbind (reset_or_create UnionFactory_Create_TPMU_ASYM_SCHEME schemeScheme) (\<lambda>scheme.
     sbind (read_if_set scheme (\<lambda>u. withN ''scheme'' ''TPMU_ASYM_SCHEME'' '''' '''' (ser_readObj (TPMU_ASYM_SCHEME_TypeName u) (TPMU_ASYM_SCHEME_Deserialize u)))) (\<lambda>scheme.
     sbind (withN ''keyBits'' ''UINT16'' '''' '''' ser_readShort) (\<lambda>keyBits.
     sbind (withN ''exponent'' ''UINT32'' '''' '''' ser_readInt) (\<lambda>exponent.
     ret (self\<lparr>TPMS_RSA_PARMS_symmetric := symmetric, TPMS_RSA_PARMS_scheme := scheme, TPMS_RSA_PARMS_keyBits := keyBits, TPMS_RSA_PARMS_exponent := exponent\<rparr>)))))))"

definition TPMS_RSA_PARMS_text_ok :: "text_class \<Rightarrow> TPMS_RSA_PARMS \<Rightarrow> bool" where
  "TPMS_RSA_PARMS_text_ok c x \<longleftrightarrow>
     TPMT_SYM_DEF_OBJECT_text_ok c (TPMS_RSA_PARMS_symmetric x) \<and>
     TPMS_RSA_PARMS_scheme x \<noteq> None \<and>
     enum_ok c (ucast (selector_or TPM_ALG_ID_NULL TPMU_ASYM_SCHEME_GetUnionSelector (TPMS_RSA_PARMS_scheme x))) TPM_ALG_ID_ID \<and>
     if_set_ok (TPMU_ASYM_SCHEME_text_ok c) (TPMS_RSA_PARMS_scheme x)"

interpretation TPMS_RSA_PARMS_text: text_codec "''TPMS_RSA_PARMS''" TPMS_RSA_PARMS_Serialize TPMS_RSA_PARMS_Deserialize TPMS_RSA_PARMS_default TPMS_RSA_PARMS_text_ok
proof
  show "word_ok ''TPMS_RSA_PARMS''" by (simp add: word_simps)
  fix c x assume ok: "TPMS_RSA_PARMS_text_ok c x"
  from ok show "carries c True (TPMS_RSA_PARMS_Serialize x) (TPMS_RSA_PARMS_Deserialize TPMS_RSA_PARMS_default) x"
    by (simp only: TPMS_RSA_PARMS_Serialize_def TPMS_RSA_PARMS_Deserialize_def TPMS_RSA_PARMS_default_def
       TPMS_RSA_PARMS.select_convs TPMS_RSA_PARMS.update_convs;
      intro TPMT_SYM_DEF_OBJECT_text.as_entry [THEN carries_entry_Cons] TPMU_ASYM_SCHEME_text.as_member [THEN carries_member_Cons] TPMU_ASYM_SCHEME_text.member_created [of c, THEN carries_create] carries_body;
      (rule TPMS_RSA_PARMS.equality)?; simp add: TPMS_RSA_PARMS_text_ok_def word_simps)
qed

subsection \<open>TPMS_ECC_PARMS\<close>

definition TPMS_ECC_PARMS_Serialize :: "TPMS_ECC_PARMS \<Rightarrow> unit ser" where
  "TPMS_ECC_PARMS_Serialize self = wseq
     [withN ''symmetric'' ''TPMT_SYM_DEF_OBJECT'' '''' '''' (ser_writeObj ''TPMT_SYM_DEF_OBJECT'' (TPMT_SYM_DEF_OBJECT_Serialize (TPMS_ECC_PARMS_symmetric self))),
      withN ''schemeScheme'' ''TPM_ALG_ID'' '''' '''' (ser_writeEnumT (selector_or TPM_ALG_ID_NULL TPMU_ASYM_SCHEME_GetUnionSelector (TPMS_ECC_PARMS_scheme self)) TPM_ALG_ID_ID),
      if_set (TPMS_ECC_PARMS_scheme self) (\<lambda>u. withN ''scheme'' ''TPMU_ASYM_SCHEME'' '''' '''' (ser_writeObj (TPMU_ASYM_SCHEME_TypeName u) (TPMU_ASYM_SCHEME_Serialize u))),
      withN ''curveID'' ''TPM_ECC_CURVE'' '''' '''' (ser_writeEnumT (TPMS_ECC_PARMS_curveID self) TPM_ECC_CURVE_ID),
      withN ''kdfScheme'' ''TPM_ALG_ID'' '''' '''' (ser_writeEnumT (selector_or TPM_ALG_ID_NULL TPMU_KDF_SCHEME_GetUnionSelector (TPMS_ECC_PARMS_kdf self)) TPM_ALG_ID_ID),
      if_set (TPMS_ECC_PARMS_kdf self) (\<lambda>u. withN ''kdf'' ''TPMU_KDF_SCHEME'' '''' '''' (ser_writeObj (TPMU_KDF_SCHEME_TypeName u) (TPMU_KDF_SCHEME_Serialize u)))]"

definition TPMS_ECC_PARMS_Deserialize :: "TPMS_ECC_PARMS \<Rightarrow> TPMS_ECC_PARMS ser" where
  "TPMS_ECC_PARMS_Deserialize self =
     sbind (withN ''symmetric'' ''TPMT_SYM_DEF_OBJECT'' '''' '''' (ser_readObj ''TPMT_SYM_DEF_OBJECT'' (TPMT_SYM_DEF_OBJECT_Deserialize (TPMS_ECC_PARMS_symmetric self)))) (\<lambda>symmetric.
     sbind (withN ''schemeScheme'' ''TPM_ALG_ID'' '''' '''' (ser_readEnumT TPM_ALG_ID_ID)) (\<lambda>schemeScheme.
     sbind (reset_or_create UnionFactory_Create_TPMU_ASYM_SCHEME schemeScheme) (\<lambda>scheme.
     sbind (read_if_set scheme (\<lambda>u. withN ''scheme'' ''TPMU_ASYM_SCHEME'' '''' '''' (ser_readObj (TPMU_ASYM_SCHEME_TypeName u) (TPMU_ASYM_SCHEME_Deserialize u)))) (\<lambda>scheme.
     sbind (withN ''curveID'' ''TPM_ECC_CURVE'' '''' '''' (ser_readEnumT TPM_ECC_CURVE_ID)) (\<lambda>curveID.
     sbind (withN ''kdfScheme'' ''TPM_ALG_ID'' '''' '''' (ser_readEnumT TPM_ALG_ID_ID)) (\<lambda>kdfScheme.
     sbind (reset_or_create UnionFactory_Create_TPMU_KDF_SCHEME kdfScheme) (\<lambda>kdf.
     sbind (read_if_set kdf (\<lambda>u. withN ''kdf'' ''TPMU_KDF_SCHEME'' '''' '''' (ser_readObj (TPMU_KDF_SCHEME_TypeName u) (TPMU_KDF_SCHEME_Deserialize u)))) (\<lambda>kdf.
     ret (self\<lparr>TPMS_ECC_PARMS_symmetric := symmetric, TPMS_ECC_PARMS_scheme := scheme, TPMS_ECC_PARMS_curveID := curveID, TPMS_ECC_PARMS_kdf := kdf\<rparr>)))))))))"

definition TPMS_ECC_PARMS_text_ok :: "text_class \<Rightarrow> TPMS_ECC_PARMS \<Rightarrow> bool" where
  "TPMS_ECC_PARMS_text_ok c x \<longleftrightarrow>
     TPMT_SYM_DEF_OBJECT_text_ok c (TPMS_ECC_PARMS_symmetric x) \<and>
     TPMS_ECC_PARMS_scheme x \<noteq> None \<and>
     enum_ok c (ucast (selector_or TPM_ALG_ID_NULL TPMU_ASYM_SCHEME_GetUnionSelector (TPMS_ECC_PARMS_scheme x))) TPM_ALG_ID_ID \<and>
     if_set_ok (TPMU_ASYM_SCHEME_text_ok c) (TPMS_ECC_PARMS_scheme x) \<and>
     enum_ok c (ucast (TPMS_ECC_PARMS_curveID x)) TPM_ECC_CURVE_ID \<and>
     TPMS_ECC_PARMS_kdf x \<noteq> None \<and>
     enum_ok c (ucast (selector_or TPM_ALG_ID_NULL TPMU_KDF_SCHEME_GetUnionSelector (TPMS_ECC_PARMS_kdf x))) TPM_ALG_ID_ID \<and>
     if_set_ok (TPMU_KDF_SCHEME_text_ok c) (TPMS_ECC_PARMS_kdf x)"

interpretation TPMS_ECC_PARMS_text: text_codec "''TPMS_ECC_PARMS''" TPMS_ECC_PARMS_Serialize TPMS_ECC_PARMS_Deserialize TPMS_ECC_PARMS_default TPMS_ECC_PARMS_text_ok
proof
  show "word_ok ''TPMS_ECC_PARMS''" by (simp add: word_simps)
  fix c x assume ok: "TPMS_ECC_PARMS_text_ok c x"
  from ok show "carries c True (TPMS_ECC_PARMS_Serialize x) (TPMS_ECC_PARMS_Deserialize TPMS_ECC_PARMS_default) x"
    by (simp only: TPMS_ECC_PARMS_Serialize_def TPMS_ECC_PARMS_Deserialize_def TPMS_ECC_PARMS_default_def
       TPMS_ECC_PARMS.select_convs TPMS_ECC_PARMS.update_convs;
      intro TPMT_SYM_DEF_OBJECT_text.as_entry [THEN carries_entry_Cons] TPMU_ASYM_SCHEME_text.as_member [THEN carries_member_Cons] TPMU_ASYM_SCHEME_text.member_created [of c, THEN carries_create] TPMU_KDF_SCHEME_text.as_member [THEN carries_member_Cons] TPMU_KDF_SCHEME_text.member_created [of c, THEN carries_create] carries_body;
      (rule TPMS_ECC_PARMS.equality)?; simp add: TPMS_ECC_PARMS_text_ok_def word_simps)
qed

subsection \<open>The union TPMU_PUBLIC_PARMS\<close>

fun TPMU_PUBLIC_PARMS_TypeName :: "TPMU_PUBLIC_PARMS \<Rightarrow> string" where
  "TPMU_PUBLIC_PARMS_TypeName (PUBLIC_PARMS_TPMS_KEYEDHASH_PARMS _) = ''TPMS_KEYEDHASH_PARMS''"
| "TPMU_PUBLIC_PARMS_TypeName (PUBLIC_PARMS_TPMS_SYMCIPHER_PARMS _) = ''TPMS_SYMCIPHER_PARMS''"
| "TPMU_PUBLIC_PARMS_TypeName (PUBLIC_PARMS_TPMS_RSA_PARMS _) = ''TPMS_RSA_PARMS''"
| "TPMU_PUBLIC_PARMS_TypeName (PUBLIC_PARMS_TPMS_ECC_PARMS _) = ''TPMS_ECC_PARMS''"
| "TPMU_PUBLIC_PARMS_TypeName (PUBLIC_PARMS_TPMS_ASYM_PARMS _) = ''TPMS_ASYM_PARMS''"

fun TPMU_PUBLIC_PARMS_Serialize :: "TPMU_PUBLIC_PARMS \<Rightarrow> unit ser" where
  "TPMU_PUBLIC_PARMS_Serialize (PUBLIC_PARMS_TPMS_KEYEDHASH_PARMS x) = TPMS_KEYEDHASH_PARMS_Serialize x"
| "TPMU_PUBLIC_PARMS_Serialize (PUBLIC_PARMS_TPMS_SYMCIPHER_PARMS x) = TPMS_SYMCIPHER_PARMS_Serialize x"
| "TPMU_PUBLIC_PARMS_Serialize (PUBLIC_PARMS_TPMS_RSA_PARMS x) = TPMS_RSA_PARMS_Serialize x"
| "TPMU_PUBLIC_PARMS_Serialize (PUBLIC_PARMS_TPMS_ECC_PARMS x) = TPMS_ECC_PARMS_Serialize x"
| "TPMU_PUBLIC_PARMS_Serialize (PUBLIC_PARMS_TPMS_ASYM_PARMS x) = TPMS_ASYM_PARMS_Serialize x"

fun TPMU_PUBLIC_PARMS_Deserialize :: "TPMU_PUBLIC_PARMS \<Rightarrow> TPMU_PUBLIC_PARMS ser" where
  "TPMU_PUBLIC_PARMS_Deserialize (PUBLIC_PARMS_TPMS_KEYEDHASH_PARMS x) = sbind (TPMS_KEYEDHASH_PARMS_Deserialize x) (\<lambda>y. ret (PUBLIC_PARMS_TPMS_KEYEDHASH_PARMS y))"
| "TPMU_PUBLIC_PARMS_Deserialize (PUBLIC_PARMS_TPMS_SYMCIPHER_PARMS x) = sbind (TPMS_SYMCIPHER_PARMS_Deserialize x) (\<lambda>y. ret (PUBLIC_PARMS_TPMS_SYMCIPHER_PARMS y))"
| "TPMU_PUBLIC_PARMS_Deserialize (PUBLIC_PARMS_TPMS_RSA_PARMS x) = sbind (TPMS_RSA_PARMS_Deserialize x) (\<lambda>y. ret (PUBLIC_PARMS_TPMS_RSA_PARMS y))"
| "TPMU_PUBLIC_PARMS_Deserialize (PUBLIC_PARMS_TPMS_ECC_PARMS x) = sbind (TPMS_ECC_PARMS_Deserialize x) (\<lambda>y. ret (PUBLIC_PARMS_TPMS_ECC_PARMS y))"
| "TPMU_PUBLIC_PARMS_Deserialize (PUBLIC_PARMS_TPMS_ASYM_PARMS x) = sbind (TPMS_ASYM_PARMS_Deserialize x) (\<lambda>y. ret (PUBLIC_PARMS_TPMS_ASYM_PARMS y))"

fun TPMU_PUBLIC_PARMS_text_ok :: "text_class \<Rightarrow> TPMU_PUBLIC_PARMS \<Rightarrow> bool" where
  "TPMU_PUBLIC_PARMS_text_ok c (PUBLIC_PARMS_TPMS_KEYEDHASH_PARMS x) = TPMS_KEYEDHASH_PARMS_text_ok c x"
| "TPMU_PUBLIC_PARMS_text_ok c (PUBLIC_PARMS_TPMS_SYMCIPHER_PARMS x) = TPMS_SYMCIPHER_PARMS_text_ok c x"
| "TPMU_PUBLIC_PARMS_text_ok c (PUBLIC_PARMS_TPMS_RSA_PARMS x) = TPMS_RSA_PARMS_text_ok c x"
| "TPMU_PUBLIC_PARMS_text_ok c (PUBLIC_PARMS_TPMS_ECC_PARMS x) = TPMS_ECC_PARMS_text_ok c x"
| "TPMU_PUBLIC_PARMS_text_ok c (PUBLIC_PARMS_TPMS_ASYM_PARMS x) = TPMS_ASYM_PARMS_text_ok c x"

interpretation TPMU_PUBLIC_PARMS_text: text_union TPMU_PUBLIC_PARMS_TypeName TPMU_PUBLIC_PARMS_Serialize TPMU_PUBLIC_PARMS_Deserialize TPMU_PUBLIC_PARMS_fresh
    TPMU_PUBLIC_PARMS_GetUnionSelector UnionFactory_Create_TPMU_PUBLIC_PARMS TPMU_PUBLIC_PARMS_text_ok
proof
  fix u :: TPMU_PUBLIC_PARMS and c
  show "word_ok (TPMU_PUBLIC_PARMS_TypeName u)" by (cases u) (simp_all add: word_simps)
  show "TPMU_PUBLIC_PARMS_TypeName (TPMU_PUBLIC_PARMS_fresh u) = TPMU_PUBLIC_PARMS_TypeName u" by (cases u) simp_all
  show "TPMU_PUBLIC_PARMS_text_ok c u \<Longrightarrow> carries c False (TPMU_PUBLIC_PARMS_Serialize u) (TPMU_PUBLIC_PARMS_Deserialize (TPMU_PUBLIC_PARMS_fresh u)) u"
    by (cases u) (simp_all add: carries_nothing TPMS_ASYM_PARMS_text.carried [THEN carries_member] TPMS_ECC_PARMS_text.carried [THEN carries_member] TPMS_KEYEDHASH_PARMS_text.carried [THEN carries_member] TPMS_RSA_PARMS_text.carried [THEN carries_member] TPMS_SYMCIPHER_PARMS_text.carried [THEN carries_member])
  show "TPMU_PUBLIC_PARMS_text_ok c u \<Longrightarrow> TPMU_PUBLIC_PARMS_GetUnionSelector u \<noteq> 0 \<and>
      UnionFactory_Create_TPMU_PUBLIC_PARMS (TPMU_PUBLIC_PARMS_GetUnionSelector u) = Ok (Some (TPMU_PUBLIC_PARMS_fresh u))"
    by (cases u) (simp_all add: UnionFactory_Create_TPMU_PUBLIC_PARMS_def)
qed

subsection \<open>TPMT_PUBLIC_PARMS\<close>

definition TPMT_PUBLIC_PARMS_Serialize :: "TPMT_PUBLIC_PARMS \<Rightarrow> unit ser" where
  "TPMT_PUBLIC_PARMS_Serialize self = wseq
     [withN ''type'' ''TPM_ALG_ID'' '''' '''' (ser_writeEnumT (selector_or 0 TPMU_PUBLIC_PARMS_GetUnionSelector (TPMT_PUBLIC_PARMS_parameters self)) TPM_ALG_ID_ID),
      if_set (TPMT_PUBLIC_PARMS_parameters self) (\<lambda>u. withN ''parameters'' ''TPMU_PUBLIC_PARMS'' '''' '''' (ser_writeObj (TPMU_PUBLIC_PARMS_TypeName u) (TPMU_PUBLIC_PARMS_Serialize u)))]"

definition TPMT_PUBLIC_PARMS_Deserialize :: "TPMT_PUBLIC_PARMS \<Rightarrow> TPMT_PUBLIC_PARMS ser" where
  "TPMT_PUBLIC_PARMS_Deserialize self =
     sbind (withN ''type'' ''TPM_ALG_ID'' '''' '''' (ser_readEnumT TPM_ALG_ID_ID)) (\<lambda>type.
     sbind (reset_or_create UnionFactory_Create_TPMU_PUBLIC_PARMS type) (\<lambda>parameters.
     sbind (read_if_set parameters (\<lambda>u. withN ''parameters'' ''TPMU_PUBLIC_PARMS'' '''' '''' (ser_readObj (TPMU_PUBLIC_PARMS_TypeName u) (TPMU_PUBLIC_PARMS_Deserialize u)))) (\<lambda>parameters.
     ret (self\<lparr>TPMT_PUBLIC_PARMS_parameters := parameters\<rparr>))))"

definition TPMT_PUBLIC_PARMS_text_ok :: "text_class \<Rightarrow> TPMT_PUBLIC_PARMS \<Rightarrow> bool" where
  "TPMT_PUBLIC_PARMS_text_ok c x \<longleftrightarrow>
     enum_ok c (ucast (selector_or 0 TPMU_PUBLIC_PARMS_GetUnionSelector (TPMT_PUBLIC_PARMS_parameters x))) TPM_ALG_ID_ID \<and>
     if_set_ok (TPMU_PUBLIC_PARMS_text_ok c) (TPMT_PUBLIC_PARMS_parameters x)"

interpretation TPMT_PUBLIC_PARMS_text: text_codec "''TPMT_PUBLIC_PARMS''" TPMT_PUBLIC_PARMS_Serialize TPMT_PUBLIC_PARMS_Deserialize TPMT_PUBLIC_PARMS_default TPMT_PUBLIC_PARMS_text_ok
proof
  show "word_ok ''TPMT_PUBLIC_PARMS''" by (simp add: word_simps)
  fix c x assume ok: "TPMT_PUBLIC_PARMS_text_ok c x"
  from ok show "carries c True (TPMT_PUBLIC_PARMS_Serialize x) (TPMT_PUBLIC_PARMS_Deserialize TPMT_PUBLIC_PARMS_default) x"
    by (simp only: TPMT_PUBLIC_PARMS_Serialize_def TPMT_PUBLIC_PARMS_Deserialize_def TPMT_PUBLIC_PARMS_default_def
       TPMT_PUBLIC_PARMS.select_convs TPMT_PUBLIC_PARMS.update_convs;
      intro TPMU_PUBLIC_PARMS_text.as_member [THEN carries_member_Cons] TPMU_PUBLIC_PARMS_text.member_created [of c, THEN carries_create] carries_body;
      (rule TPMT_PUBLIC_PARMS.equality)?; simp add: TPMT_PUBLIC_PARMS_text_ok_def word_simps)
qed

subsection \<open>The union TPMU_PUBLIC_ID\<close>

fun TPMU_PUBLIC_ID_TypeName :: "TPMU_PUBLIC_ID \<Rightarrow> string" where
  "TPMU_PUBLIC_ID_TypeName (PUBLIC_ID_TPM2B_DIGEST_KEYEDHASH _) = ''TPM2B_DIGEST_KEYEDHASH''"
| "TPMU_PUBLIC_ID_TypeName (PUBLIC_ID_TPM2B_DIGEST_SYMCIPHER _) = ''TPM2B_DIGEST_SYMCIPHER''"
| "TPMU_PUBLIC_ID_TypeName (PUBLIC_ID_TPM2B_PUBLIC_KEY_RSA _) = ''TPM2B_PUBLIC_KEY_RSA''"
| "TPMU_PUBLIC_ID_TypeName (PUBLIC_ID_TPMS_ECC_POINT _) = ''TPMS_ECC_POINT''"
| "TPMU_PUBLIC_ID_TypeName (PUBLIC_ID_TPMS_DERIVE _) = ''TPMS_DERIVE''"

fun TPMU_PUBLIC_ID_Serialize :: "TPMU_PUBLIC_ID \<Rightarrow> unit ser" where
  "TPMU_PUBLIC_ID_Serialize (PUBLIC_ID_TPM2B_DIGEST_KEYEDHASH x) = TPM2B_DIGEST_Serialize x"
| "TPMU_PUBLIC_ID_Serialize (PUBLIC_ID_TPM2B_DIGEST_SYMCIPHER x) = TPM2B_DIGEST_Serialize x"
| "TPMU_PUBLIC_ID_Serialize (PUBLIC_ID_TPM2B_PUBLIC_KEY_RSA x) = TPM2B_PUBLIC_KEY_RSA_Serialize x"
| "TPMU_PUBLIC_ID_Serialize (PUBLIC_ID_TPMS_ECC_POINT x) = TPMS_ECC_POINT_Serialize x"
| "TPMU_PUBLIC_ID_Serialize (PUBLIC_ID_TPMS_DERIVE x) = TPMS_DERIVE_Serialize x"

fun TPMU_PUBLIC_ID_Deserialize :: "TPMU_PUBLIC_ID \<Rightarrow> TPMU_PUBLIC_ID ser" where
  "TPMU_PUBLIC_ID_Deserialize (PUBLIC_ID_TPM2B_DIGEST_KEYEDHASH x) = sbind (TPM2B_DIGEST_Deserialize x) (\<lambda>y. ret (PUBLIC_ID_TPM2B_DIGEST_KEYEDHASH y))"
| "TPMU_PUBLIC_ID_Deserialize (PUBLIC_ID_TPM2B_DIGEST_SYMCIPHER x) = sbind (TPM2B_DIGEST_Deserialize x) (\<lambda>y. ret (PUBLIC_ID_TPM2B_DIGEST_SYMCIPHER y))"
| "TPMU_PUBLIC_ID_Deserialize (PUBLIC_ID_TPM2B_PUBLIC_KEY_RSA x) = sbind (TPM2B_PUBLIC_KEY_RSA_Deserialize x) (\<lambda>y. ret (PUBLIC_ID_TPM2B_PUBLIC_KEY_RSA y))"
| "TPMU_PUBLIC_ID_Deserialize (PUBLIC_ID_TPMS_ECC_POINT x) = sbind (TPMS_ECC_POINT_Deserialize x) (\<lambda>y. ret (PUBLIC_ID_TPMS_ECC_POINT y))"
| "TPMU_PUBLIC_ID_Deserialize (PUBLIC_ID_TPMS_DERIVE x) = sbind (TPMS_DERIVE_Deserialize x) (\<lambda>y. ret (PUBLIC_ID_TPMS_DERIVE y))"

fun TPMU_PUBLIC_ID_text_ok :: "text_class \<Rightarrow> TPMU_PUBLIC_ID \<Rightarrow> bool" where
  "TPMU_PUBLIC_ID_text_ok c (PUBLIC_ID_TPM2B_DIGEST_KEYEDHASH x) = TPM2B_DIGEST_text_ok c x"
| "TPMU_PUBLIC_ID_text_ok c (PUBLIC_ID_TPM2B_DIGEST_SYMCIPHER x) = TPM2B_DIGEST_text_ok c x"
| "TPMU_PUBLIC_ID_text_ok c (PUBLIC_ID_TPM2B_PUBLIC_KEY_RSA x) = TPM2B_PUBLIC_KEY_RSA_text_ok c x"
| "TPMU_PUBLIC_ID_text_ok c (PUBLIC_ID_TPMS_ECC_POINT x) = TPMS_ECC_POINT_text_ok c x"
| "TPMU_PUBLIC_ID_text_ok _ (PUBLIC_ID_TPMS_DERIVE _) = False"

interpretation TPMU_PUBLIC_ID_text: text_union TPMU_PUBLIC_ID_TypeName TPMU_PUBLIC_ID_Serialize TPMU_PUBLIC_ID_Deserialize TPMU_PUBLIC_ID_fresh
    TPMU_PUBLIC_ID_GetUnionSelector UnionFactory_Create_TPMU_PUBLIC_ID TPMU_PUBLIC_ID_text_ok
proof
  fix u :: TPMU_PUBLIC_ID and c
  show "word_ok (TPMU_PUBLIC_ID_TypeName u)" by (cases u) (simp_all add: word_simps)
  show "TPMU_PUBLIC_ID_TypeName (TPMU_PUBLIC_ID_fresh u) = TPMU_PUBLIC_ID_TypeName u" by (cases u) simp_all
  show "TPMU_PUBLIC_ID_text_ok c u \<Longrightarrow> carries c False (TPMU_PUBLIC_ID_Serialize u) (TPMU_PUBLIC_ID_Deserialize (TPMU_PUBLIC_ID_fresh u)) u"
    by (cases u) (simp_all add: carries_nothing TPM2B_DIGEST_text.carried [THEN carries_member] TPM2B_PUBLIC_KEY_RSA_text.carried [THEN carries_member] TPMS_ECC_POINT_text.carried [THEN carries_member])
  show "TPMU_PUBLIC_ID_text_ok c u \<Longrightarrow> TPMU_PUBLIC_ID_GetUnionSelector u \<noteq> 0 \<and>
      UnionFactory_Create_TPMU_PUBLIC_ID (TPMU_PUBLIC_ID_GetUnionSelector u) = Ok (Some (TPMU_PUBLIC_ID_fresh u))"
    by (cases u) (simp_all add: UnionFactory_Create_TPMU_PUBLIC_ID_def)
qed

subsection \<open>TPMT_PUBLIC\<close>

definition TPMT_PUBLIC_Serialize :: "TPMT_PUBLIC \<Rightarrow> unit ser" where
  "TPMT_PUBLIC_Serialize self = wseq
     [withN ''type'' ''TPM_ALG_ID'' '''' '''' (ser_writeEnumT (selector_or 0 TPMU_PUBLIC_PARMS_GetUnionSelector (TPMT_PUBLIC_parameters self)) TPM_ALG_ID_ID),
      withN ''nameAlg'' ''TPM_ALG_ID'' '''' '''' (ser_writeEnumT (TPMT_PUBLIC_nameAlg self) TPM_ALG_ID_ID),
      withN ''objectAttributes'' ''TPMA_OBJECT'' '''' '''' (ser_writeEnumT (TPMT_PUBLIC_objectAttributes self) TPMA_OBJECT_ID),
      withN ''authPolicy'' ''BYTE[]'' ''authPolicySize'' ''UINT16'' (ser_writeSizedByteBuf (TPMT_PUBLIC_authPolicy self)),
      if_set (TPMT_PUBLIC_parameters self) (\<lambda>u. withN ''parameters'' ''TPMU_PUBLIC_PARMS'' '''' '''' (ser_writeObj (TPMU_PUBLIC_PARMS_TypeName u) (TPMU_PUBLIC_PARMS_Serialize u))),
      if_set (TPMT_PUBLIC_unique self) (\<lambda>u. withN ''unique'' ''TPMU_PUBLIC_ID'' '''' '''' (ser_writeObj (TPMU_PUBLIC_ID_TypeName u) (TPMU_PUBLIC_ID_Serialize u)))]"

definition TPMT_PUBLIC_Deserialize :: "TPMT_PUBLIC \<Rightarrow> TPMT_PUBLIC ser" where
  "TPMT_PUBLIC_Deserialize self =
     sbind (withN ''type'' ''TPM_ALG_ID'' '''' '''' (ser_readEnumT TPM_ALG_ID_ID)) (\<lambda>type.
     sbind (withN ''nameAlg'' ''TPM_ALG_ID'' '''' '''' (ser_readEnumT TPM_ALG_ID_ID)) (\<lambda>nameAlg.
     sbind (withN ''objectAttributes'' ''TPMA_OBJECT'' '''' '''' (ser_readEnumT TPMA_OBJECT_ID)) (\<lambda>objectAttributes.
     sbind (withN ''authPolicy'' ''BYTE[]'' ''authPolicySize'' ''UINT16'' ser_readSizedByteBuf) (\<lambda>authPolicy.
     sbind (reset_or_create UnionFactory_Create_TPMU_PUBLIC_PARMS type) (\<lambda>parameters.
     sbind (read_if_set parameters (\<lambda>u. withN ''parameters'' ''TPMU_PUBLIC_PARMS'' '''' '''' (ser_readObj (TPMU_PUBLIC_PARMS_TypeName u) (TPMU_PUBLIC_PARMS_Deserialize u)))) (\<lambda>parameters.
     sbind (reset_or_create UnionFactory_Create_TPMU_PUBLIC_ID type) (\<lambda>unique.
     sbind (read_if_set unique (\<lambda>u. withN ''unique'' ''TPMU_PUBLIC_ID'' '''' '''' (ser_readObj (TPMU_PUBLIC_ID_TypeName u) (TPMU_PUBLIC_ID_Deserialize u)))) (\<lambda>unique.
     ret (self\<lparr>TPMT_PUBLIC_nameAlg := nameAlg, TPMT_PUBLIC_objectAttributes := objectAttributes, TPMT_PUBLIC_authPolicy := authPolicy, TPMT_PUBLIC_parameters := parameters, TPMT_PUBLIC_unique := unique\<rparr>)))))))))"

definition TPMT_PUBLIC_text_ok :: "text_class \<Rightarrow> TPMT_PUBLIC \<Rightarrow> bool" where
  "TPMT_PUBLIC_text_ok c x \<longleftrightarrow>
     enum_ok c (ucast (selector_or 0 TPMU_PUBLIC_PARMS_GetUnionSelector (TPMT_PUBLIC_parameters x))) TPM_ALG_ID_ID \<and>
     enum_ok c (ucast (TPMT_PUBLIC_nameAlg x)) TPM_ALG_ID_ID \<and>
     enum_ok c (ucast (TPMT_PUBLIC_objectAttributes x)) TPMA_OBJECT_ID \<and>
     length (TPMT_PUBLIC_authPolicy x) < 2 ^ 64 \<and>
     if_set_ok (TPMU_PUBLIC_PARMS_text_ok c) (TPMT_PUBLIC_parameters x) \<and>
     if_set_ok (TPMU_PUBLIC_ID_text_ok c) (TPMT_PUBLIC_unique x) \<and>
     selector_or 0 TPMU_PUBLIC_ID_GetUnionSelector (TPMT_PUBLIC_unique x) =
       selector_or 0 TPMU_PUBLIC_PARMS_GetUnionSelector (TPMT_PUBLIC_parameters x)"

interpretation TPMT_PUBLIC_text: text_codec "''TPMT_PUBLIC''" TPMT_PUBLIC_Serialize TPMT_PUBLIC_Deserialize TPMT_PUBLIC_default TPMT_PUBLIC_text_ok
proof
  show "word_ok ''TPMT_PUBLIC''" by (simp add: word_simps)
  fix c x assume ok: "TPMT_PUBLIC_text_ok c x"
  have created: "reset_or_create UnionFactory_Create_TPMU_PUBLIC_ID
      (selector_or 0 TPMU_PUBLIC_PARMS_GetUnionSelector (TPMT_PUBLIC_parameters x)) =
      lift (Ok (map_option TPMU_PUBLIC_ID_fresh (TPMT_PUBLIC_unique x)))"
    using ok TPMU_PUBLIC_ID_text.member_created [of c "TPMT_PUBLIC_unique x" 0]
    by (simp add: TPMT_PUBLIC_text_ok_def)
  from ok show "carries c True (TPMT_PUBLIC_Serialize x) (TPMT_PUBLIC_Deserialize TPMT_PUBLIC_default) x"
    by (simp only: TPMT_PUBLIC_Serialize_def TPMT_PUBLIC_Deserialize_def TPMT_PUBLIC_default_def
       TPMT_PUBLIC.select_convs TPMT_PUBLIC.update_convs;
      intro created [THEN carries_create] TPMU_PUBLIC_ID_text.as_member [THEN carries_member_Cons] TPMU_PUBLIC_ID_text.member_created [of c, THEN carries_create] TPMU_PUBLIC_PARMS_text.as_member [THEN carries_member_Cons] TPMU_PUBLIC_PARMS_text.member_created [of c, THEN carries_create] carries_body;
      (rule TPMT_PUBLIC.equality)?; simp add: TPMT_PUBLIC_text_ok_def word_simps)
qed

subsection \<open>TPM2B_PUBLIC\<close>

definition TPM2B_PUBLIC_Serialize :: "TPM2B_PUBLIC \<Rightarrow> unit ser" where
  "TPM2B_PUBLIC_Serialize self = wseq
     [withN ''publicArea'' ''TPMT_PUBLIC'' ''size'' ''UINT16'' (ser_writeObj ''TPMT_PUBLIC'' (TPMT_PUBLIC_Serialize (TPM2B_PUBLIC_publicArea self)))]"

definition TPM2B_PUBLIC_Deserialize :: "TPM2B_PUBLIC \<Rightarrow> TPM2B_PUBLIC ser" where
  "TPM2B_PUBLIC_Deserialize self =
     sbind (withN ''publicArea'' ''TPMT_PUBLIC'' ''size'' ''UINT16'' (ser_readObj ''TPMT_PUBLIC'' (TPMT_PUBLIC_Deserialize (TPM2B_PUBLIC_publicArea self)))) (\<lambda>publicArea.
     ret (self\<lparr>TPM2B_PUBLIC_publicArea := publicArea\<rparr>))"

definition TPM2B_PUBLIC_text_ok :: "text_class \<Rightarrow> TPM2B_PUBLIC \<Rightarrow> bool" where
  "TPM2B_PUBLIC_text_ok c x \<longleftrightarrow>
     TPMT_PUBLIC_text_ok c (TPM2B_PUBLIC_publicArea x)"

interpretation TPM2B_PUBLIC_text: text_codec "''TPM2B_PUBLIC''" TPM2B_PUBLIC_Serialize TPM2B_PUBLIC_Deserialize TPM2B_PUBLIC_default TPM2B_PUBLIC_text_ok
proof
  show "word_ok ''TPM2B_PUBLIC''" by (simp add: word_simps)
  fix c x assume ok: "TPM2B_PUBLIC_text_ok c x"
  from ok show "carries c True (TPM2B_PUBLIC_Serialize x) (TPM2B_PUBLIC_Deserialize TPM2B_PUBLIC_default) x"
    by (simp only: TPM2B_PUBLIC_Serialize_def TPM2B_PUBLIC_Deserialize_def TPM2B_PUBLIC_default_def
       TPM2B_PUBLIC.select_convs TPM2B_PUBLIC.update_convs;
      intro TPMT_PUBLIC_text.as_entry [THEN carries_entry_Cons] carries_body;
      (rule TPM2B_PUBLIC.equality)?; simp add: TPM2B_PUBLIC_text_ok_def word_simps)
qed

subsection \<open>TPM2B_TEMPLATE\<close>

definition TPM2B_TEMPLATE_Serialize :: "TPM2B_TEMPLATE \<Rightarrow> unit ser" where
  "TPM2B_TEMPLATE_Serialize self = wseq
     [withN ''buffer'' ''BYTE[]'' ''size'' ''UINT16'' (ser_writeSizedByteBuf (TPM2B_TEMPLATE_buffer self))]"

definition TPM2B_TEMPLATE_Deserialize :: "TPM2B_TEMPLATE \<Rightarrow> TPM2B_TEMPLATE ser" where
  "TPM2B_TEMPLATE_Deserialize self =
     sbind (withN ''buffer'' ''BYTE[]'' ''size'' ''UINT16'' ser_readSizedByteBuf) (\<lambda>buffer.
     ret (self\<lparr>TPM2B_TEMPLATE_buffer := buffer\<rparr>))"

definition TPM2B_TEMPLATE_text_ok :: "text_class \<Rightarrow> TPM2B_TEMPLATE \<Rightarrow> bool" where
  "TPM2B_TEMPLATE_text_ok c x \<longleftrightarrow>
     length (TPM2B_TEMPLATE_buffer x) < 2 ^ 64"

interpretation TPM2B_TEMPLATE_text: text_codec "''TPM2B_TEMPLATE''" TPM2B_TEMPLATE_Serialize TPM2B_TEMPLATE_Deserialize TPM2B_TEMPLATE_default TPM2B_TEMPLATE_text_ok
proof
  show "word_ok ''TPM2B_TEMPLATE''" by (simp add: word_simps)
  fix c x assume ok: "TPM2B_TEMPLATE_text_ok c x"
  from ok show "carries c True (TPM2B_TEMPLATE_Serialize x) (TPM2B_TEMPLATE_Deserialize TPM2B_TEMPLATE_default) x"
    by (simp only: TPM2B_TEMPLATE_Serialize_def TPM2B_TEMPLATE_Deserialize_def TPM2B_TEMPLATE_default_def
       TPM2B_TEMPLATE.select_convs TPM2B_TEMPLATE.update_convs;
      intro carries_body;
      (rule TPM2B_TEMPLATE.equality)?; simp add: TPM2B_TEMPLATE_text_ok_def word_simps)
qed

subsection \<open>TPM2B_PRIVATE_VENDOR_SPECIFIC\<close>

definition TPM2B_PRIVATE_VENDOR_SPECIFIC_Serialize :: "TPM2B_PRIVATE_VENDOR_SPECIFIC \<Rightarrow> unit ser" where
  "TPM2B_PRIVATE_VENDOR_SPECIFIC_Serialize self = wseq
     [withN ''buffer'' ''BYTE[]'' ''size'' ''UINT16'' (ser_writeSizedByteBuf (TPM2B_PRIVATE_VENDOR_SPECIFIC_buffer self))]"

definition TPM2B_PRIVATE_VENDOR_SPECIFIC_Deserialize :: "TPM2B_PRIVATE_VENDOR_SPECIFIC \<Rightarrow> TPM2B_PRIVATE_VENDOR_SPECIFIC ser" where
  "TPM2B_PRIVATE_VENDOR_SPECIFIC_Deserialize self =
     sbind (withN ''buffer'' ''BYTE[]'' ''size'' ''UINT16'' ser_readSizedByteBuf) (\<lambda>buffer.
     ret (self\<lparr>TPM2B_PRIVATE_VENDOR_SPECIFIC_buffer := buffer\<rparr>))"

definition TPM2B_PRIVATE_VENDOR_SPECIFIC_text_ok :: "text_class \<Rightarrow> TPM2B_PRIVATE_VENDOR_SPECIFIC \<Rightarrow> bool" where
  "TPM2B_PRIVATE_VENDOR_SPECIFIC_text_ok c x \<longleftrightarrow>
     length (TPM2B_PRIVATE_VENDOR_SPECIFIC_buffer x) < 2 ^ 64"

interpretation TPM2B_PRIVATE_VENDOR_SPECIFIC_text: text_codec "''TPM2B_PRIVATE_VENDOR_SPECIFIC''" TPM2B_PRIVATE_VENDOR_SPECIFIC_Serialize TPM2B_PRIVATE_VENDOR_SPECIFIC_Deserialize TPM2B_PRIVATE_VENDOR_SPECIFIC_default TPM2B_PRIVATE_VENDOR_SPECIFIC_text_ok
proof
  show "word_ok ''TPM2B_PRIVATE_VENDOR_SPECIFIC''" by (simp add: word_simps)
  fix c x assume ok: "TPM2B_PRIVATE_VENDOR_SPECIFIC_text_ok c x"
  from ok show "carries c True (TPM2B_PRIVATE_VENDOR_SPECIFIC_Serialize x) (TPM2B_PRIVATE_VENDOR_SPECIFIC_Deserialize TPM2B_PRIVATE_VENDOR_SPECIFIC_default) x"
    by (simp only: TPM2B_PRIVATE_VENDOR_SPECIFIC_Serialize_def TPM2B_PRIVATE_VENDOR_SPECIFIC_Deserialize_def TPM2B_PRIVATE_VENDOR_SPECIFIC_default_def
       TPM2B_PRIVATE_VENDOR_SPECIFIC.select_convs TPM2B_PRIVATE_VENDOR_SPECIFIC.update_convs;
      intro carries_body;
      (rule TPM2B_PRIVATE_VENDOR_SPECIFIC.equality)?; simp add: TPM2B_PRIVATE_VENDOR_SPECIFIC_text_ok_def word_simps)
qed

subsection \<open>The union TPMU_SENSITIVE_COMPOSITE\<close>

fun TPMU_SENSITIVE_COMPOSITE_TypeName :: "TPMU_SENSITIVE_COMPOSITE \<Rightarrow> string" where
  "TPMU_SENSITIVE_COMPOSITE_TypeName (SENSITIVE_COMPOSITE_TPM2B_PRIVATE_KEY_RSA _) = ''TPM2B_PRIVATE_KEY_RSA''"
| "TPMU_SENSITIVE_COMPOSITE_TypeName (SENSITIVE_COMPOSITE_TPM2B_ECC_PARAMETER _) = ''TPM2B_ECC_PARAMETER''"
| "TPMU_SENSITIVE_COMPOSITE_TypeName (SENSITIVE_COMPOSITE_TPM2B_SENSITIVE_DATA _) = ''TPM2B_SENSITIVE_DATA''"
| "TPMU_SENSITIVE_COMPOSITE_TypeName (SENSITIVE_COMPOSITE_TPM2B_SYM_KEY _) = ''TPM2B_SYM_KEY''"
| "TPMU_SENSITIVE_COMPOSITE_TypeName (SENSITIVE_COMPOSITE_TPM2B_PRIVATE_VENDOR_SPECIFIC _) = ''TPM2B_PRIVATE_VENDOR_SPECIFIC''"

fun TPMU_SENSITIVE_COMPOSITE_Serialize :: "TPMU_SENSITIVE_COMPOSITE \<Rightarrow> unit ser" where
  "TPMU_SENSITIVE_COMPOSITE_Serialize (SENSITIVE_COMPOSITE_TPM2B_PRIVATE_KEY_RSA x) = TPM2B_PRIVATE_KEY_RSA_Serialize x"
| "TPMU_SENSITIVE_COMPOSITE_Serialize (SENSITIVE_COMPOSITE_TPM2B_ECC_PARAMETER x) = TPM2B_ECC_PARAMETER_Serialize x"
| "TPMU_SENSITIVE_COMPOSITE_Serialize (SENSITIVE_COMPOSITE_TPM2B_SENSITIVE_DATA x) = TPM2B_SENSITIVE_DATA_Serialize x"
| "TPMU_SENSITIVE_COMPOSITE_Serialize (SENSITIVE_COMPOSITE_TPM2B_SYM_KEY x) = TPM2B_SYM_KEY_Serialize x"
| "TPMU_SENSITIVE_COMPOSITE_Serialize (SENSITIVE_COMPOSITE_TPM2B_PRIVATE_VENDOR_SPECIFIC x) = TPM2B_PRIVATE_VENDOR_SPECIFIC_Serialize x"

fun TPMU_SENSITIVE_COMPOSITE_Deserialize :: "TPMU_SENSITIVE_COMPOSITE \<Rightarrow> TPMU_SENSITIVE_COMPOSITE ser" where
  "TPMU_SENSITIVE_COMPOSITE_Deserialize (SENSITIVE_COMPOSITE_TPM2B_PRIVATE_KEY_RSA x) = sbind (TPM2B_PRIVATE_KEY_RSA_Deserialize x) (\<lambda>y. ret (SENSITIVE_COMPOSITE_TPM2B_PRIVATE_KEY_RSA y))"
| "TPMU_SENSITIVE_COMPOSITE_Deserialize (SENSITIVE_COMPOSITE_TPM2B_ECC_PARAMETER x) = sbind (TPM2B_ECC_PARAMETER_Deserialize x) (\<lambda>y. ret (SENSITIVE_COMPOSITE_TPM2B_ECC_PARAMETER y))"
| "TPMU_SENSITIVE_COMPOSITE_Deserialize (SENSITIVE_COMPOSITE_TPM2B_SENSITIVE_DATA x) = sbind (TPM2B_SENSITIVE_DATA_Deserialize x) (\<lambda>y. ret (SENSITIVE_COMPOSITE_TPM2B_SENSITIVE_DATA y))"
| "TPMU_SENSITIVE_COMPOSITE_Deserialize (SENSITIVE_COMPOSITE_TPM2B_SYM_KEY x) = sbind (TPM2B_SYM_KEY_Deserialize x) (\<lambda>y. ret (SENSITIVE_COMPOSITE_TPM2B_SYM_KEY y))"
| "TPMU_SENSITIVE_COMPOSITE_Deserialize (SENSITIVE_COMPOSITE_TPM2B_PRIVATE_VENDOR_SPECIFIC x) = sbind (TPM2B_PRIVATE_VENDOR_SPECIFIC_Deserialize x) (\<lambda>y. ret (SENSITIVE_COMPOSITE_TPM2B_PRIVATE_VENDOR_SPECIFIC y))"

fun TPMU_SENSITIVE_COMPOSITE_text_ok :: "text_class \<Rightarrow> TPMU_SENSITIVE_COMPOSITE \<Rightarrow> bool" where
  "TPMU_SENSITIVE_COMPOSITE_text_ok c (SENSITIVE_COMPOSITE_TPM2B_PRIVATE_KEY_RSA x) = TPM2B_PRIVATE_KEY_RSA_text_ok c x"
| "TPMU_SENSITIVE_COMPOSITE_text_ok c (SENSITIVE_COMPOSITE_TPM2B_ECC_PARAMETER x) = TPM2B_ECC_PARAMETER_text_ok c x"
| "TPMU_SENSITIVE_COMPOSITE_text_ok c (SENSITIVE_COMPOSITE_TPM2B_SENSITIVE_DATA x) = TPM2B_SENSITIVE_DATA_text_ok c x"
| "TPMU_SENSITIVE_COMPOSITE_text_ok c (SENSITIVE_COMPOSITE_TPM2B_SYM_KEY x) = TPM2B_SYM_KEY_text_ok c x"
| "TPMU_SENSITIVE_COMPOSITE_text_ok c (SENSITIVE_COMPOSITE_TPM2B_PRIVATE_VENDOR_SPECIFIC x) = TPM2B_PRIVATE_VENDOR_SPECIFIC_text_ok c x"

interpretation TPMU_SENSITIVE_COMPOSITE_text: text_union TPMU_SENSITIVE_COMPOSITE_TypeName TPMU_SENSITIVE_COMPOSITE_Serialize TPMU_SENSITIVE_COMPOSITE_Deserialize TPMU_SENSITIVE_COMPOSITE_fresh
    TPMU_SENSITIVE_COMPOSITE_GetUnionSelector UnionFactory_Create_TPMU_SENSITIVE_COMPOSITE TPMU_SENSITIVE_COMPOSITE_text_ok
proof
  fix u :: TPMU_SENSITIVE_COMPOSITE and c
  show "word_ok (TPMU_SENSITIVE_COMPOSITE_TypeName u)" by (cases u) (simp_all add: word_simps)
  show "TPMU_SENSITIVE_COMPOSITE_TypeName (TPMU_SENSITIVE_COMPOSITE_fresh u) = TPMU_SENSITIVE_COMPOSITE_TypeName u" by (cases u) simp_all
  show "TPMU_SENSITIVE_COMPOSITE_text_ok c u \<Longrightarrow> carries c False (TPMU_SENSITIVE_COMPOSITE_Serialize u) (TPMU_SENSITIVE_COMPOSITE_Deserialize (TPMU_SENSITIVE_COMPOSITE_fresh u)) u"
    by (cases u) (simp_all add: carries_nothing TPM2B_ECC_PARAMETER_text.carried [THEN carries_member] TPM2B_PRIVATE_KEY_RSA_text.carried [THEN carries_member] TPM2B_PRIVATE_VENDOR_SPECIFIC_text.carried [THEN carries_member] TPM2B_SENSITIVE_DATA_text.carried [THEN carries_member] TPM2B_SYM_KEY_text.carried [THEN carries_member])
  show "TPMU_SENSITIVE_COMPOSITE_text_ok c u \<Longrightarrow> TPMU_SENSITIVE_COMPOSITE_GetUnionSelector u \<noteq> 0 \<and>
      UnionFactory_Create_TPMU_SENSITIVE_COMPOSITE (TPMU_SENSITIVE_COMPOSITE_GetUnionSelector u) = Ok (Some (TPMU_SENSITIVE_COMPOSITE_fresh u))"
    by (cases u) (simp_all add: UnionFactory_Create_TPMU_SENSITIVE_COMPOSITE_def)
qed

subsection \<open>TPMT_SENSITIVE\<close>

definition TPMT_SENSITIVE_Serialize :: "TPMT_SENSITIVE \<Rightarrow> unit ser" where
  "TPMT_SENSITIVE_Serialize self = wseq
     [withN ''sensitiveType'' ''TPM_ALG_ID'' '''' '''' (ser_writeEnumT (selector_or 0 TPMU_SENSITIVE_COMPOSITE_GetUnionSelector (TPMT_SENSITIVE_sensitive self)) TPM_ALG_ID_ID),
      withN ''authValue'' ''BYTE[]'' ''authValueSize'' ''UINT16'' (ser_writeSizedByteBuf (TPMT_SENSITIVE_authValue self)),
      withN ''seedValue'' ''BYTE[]'' ''seedValueSize'' ''UINT16'' (ser_writeSizedByteBuf (TPMT_SENSITIVE_seedValue self)),
      if_set (TPMT_SENSITIVE_sensitive self) (\<lambda>u. withN ''sensitive'' ''TPMU_SENSITIVE_COMPOSITE'' '''' '''' (ser_writeObj (TPMU_SENSITIVE_COMPOSITE_TypeName u) (TPMU_SENSITIVE_COMPOSITE_Serialize u)))]"

definition TPMT_SENSITIVE_Deserialize :: "TPMT_SENSITIVE \<Rightarrow> TPMT_SENSITIVE ser" where
  "TPMT_SENSITIVE_Deserialize self =
     sbind (withN ''sensitiveType'' ''TPM_ALG_ID'' '''' '''' (ser_readEnumT TPM_ALG_ID_ID)) (\<lambda>sensitiveType.
     sbind (withN ''authValue'' ''BYTE[]'' ''authValueSize'' ''UINT16'' ser_readSizedByteBuf) (\<lambda>authValue.
     sbind (withN ''seedValue'' ''BYTE[]'' ''seedValueSize'' ''UINT16'' ser_readSizedByteBuf) (\<lambda>seedValue.
     sbind (reset_or_create UnionFactory_Create_TPMU_SENSITIVE_COMPOSITE sensitiveType) (\<lambda>sensitive.
     sbind (read_if_set sensitive (\<lambda>u. withN ''sensitive'' ''TPMU_SENSITIVE_COMPOSITE'' '''' '''' (ser_readObj (TPMU_SENSITIVE_COMPOSITE_TypeName u) (TPMU_SENSITIVE_COMPOSITE_Deserialize u)))) (\<lambda>sensitive.
     ret (self\<lparr>TPMT_SENSITIVE_authValue := authValue, TPMT_SENSITIVE_seedValue := seedValue, TPMT_SENSITIVE_sensitive := sensitive\<rparr>))))))"

definition TPMT_SENSITIVE_text_ok :: "text_class \<Rightarrow> TPMT_SENSITIVE \<Rightarrow> bool" where
  "TPMT_SENSITIVE_text_ok c x \<longleftrightarrow>
     enum_ok c (ucast (selector_or 0 TPMU_SENSITIVE_COMPOSITE_GetUnionSelector (TPMT_SENSITIVE_sensitive x))) TPM_ALG_ID_ID \<and>
     length (TPMT_SENSITIVE_authValue x) < 2 ^ 64 \<and>
     length (TPMT_SENSITIVE_seedValue x) < 2 ^ 64 \<and>
     if_set_ok (TPMU_SENSITIVE_COMPOSITE_text_ok c) (TPMT_SENSITIVE_sensitive x)"

interpretation TPMT_SENSITIVE_text: text_codec "''TPMT_SENSITIVE''" TPMT_SENSITIVE_Serialize TPMT_SENSITIVE_Deserialize TPMT_SENSITIVE_default TPMT_SENSITIVE_text_ok
proof
  show "word_ok ''TPMT_SENSITIVE''" by (simp add: word_simps)
  fix c x assume ok: "TPMT_SENSITIVE_text_ok c x"
  from ok show "carries c True (TPMT_SENSITIVE_Serialize x) (TPMT_SENSITIVE_Deserialize TPMT_SENSITIVE_default) x"
    by (simp only: TPMT_SENSITIVE_Serialize_def TPMT_SENSITIVE_Deserialize_def TPMT_SENSITIVE_default_def
       TPMT_SENSITIVE.select_convs TPMT_SENSITIVE.update_convs;
      intro TPMU_SENSITIVE_COMPOSITE_text.as_member [THEN carries_member_Cons] TPMU_SENSITIVE_COMPOSITE_text.member_created [of c, THEN carries_create] carries_body;
      (rule TPMT_SENSITIVE.equality)?; simp add: TPMT_SENSITIVE_text_ok_def word_simps)
qed

subsection \<open>TPM2B_SENSITIVE\<close>

definition TPM2B_SENSITIVE_Serialize :: "TPM2B_SENSITIVE \<Rightarrow> unit ser" where
  "TPM2B_SENSITIVE_Serialize self = wseq
     [withN ''sensitiveArea'' ''TPMT_SENSITIVE'' ''size'' ''UINT16'' (ser_writeObj ''TPMT_SENSITIVE'' (TPMT_SENSITIVE_Serialize (TPM2B_SENSITIVE_sensitiveArea self)))]"

definition TPM2B_SENSITIVE_Deserialize :: "TPM2B_SENSITIVE \<Rightarrow> TPM2B_SENSITIVE ser" where
  "TPM2B_SENSITIVE_Deserialize self =
     sbind (withN ''sensitiveArea'' ''TPMT_SENSITIVE'' ''size'' ''UINT16'' (ser_readObj ''TPMT_SENSITIVE'' (TPMT_SENSITIVE_Deserialize (TPM2B_SENSITIVE_sensitiveArea self)))) (\<lambda>sensitiveArea.
     ret (self\<lparr>TPM2B_SENSITIVE_sensitiveArea := sensitiveArea\<rparr>))"

definition TPM2B_SENSITIVE_text_ok :: "text_class \<Rightarrow> TPM2B_SENSITIVE \<Rightarrow> bool" where
  "TPM2B_SENSITIVE_text_ok c x \<longleftrightarrow>
     TPMT_SENSITIVE_text_ok c (TPM2B_SENSITIVE_sensitiveArea x)"

interpretation TPM2B_SENSITIVE_text: text_codec "''TPM2B_SENSITIVE''" TPM2B_SENSITIVE_Serialize TPM2B_SENSITIVE_Deserialize TPM2B_SENSITIVE_default TPM2B_SENSITIVE_text_ok
proof
  show "word_ok ''TPM2B_SENSITIVE''" by (simp add: word_simps)
  fix c x assume ok: "TPM2B_SENSITIVE_text_ok c x"
  from ok show "carries c True (TPM2B_SENSITIVE_Serialize x) (TPM2B_SENSITIVE_Deserialize TPM2B_SENSITIVE_default) x"
    by (simp only: TPM2B_SENSITIVE_Serialize_def TPM2B_SENSITIVE_Deserialize_def TPM2B_SENSITIVE_default_def
       TPM2B_SENSITIVE.select_convs TPM2B_SENSITIVE.update_convs;
      intro TPMT_SENSITIVE_text.as_entry [THEN carries_entry_Cons] carries_body;
      (rule TPM2B_SENSITIVE.equality)?; simp add: TPM2B_SENSITIVE_text_ok_def word_simps)
qed

subsection \<open>PRIVATE_AREA\<close>

definition PRIVATE_AREA_Serialize :: "PRIVATE_AREA \<Rightarrow> unit ser" where
  "PRIVATE_AREA_Serialize self = wseq
     [withN ''integrityOuter'' ''BYTE[]'' ''integrityOuterSize'' ''UINT16'' (ser_writeSizedByteBuf (PRIVATE_AREA_integrityOuter self)),
      withN ''integrityInner'' ''BYTE[]'' ''integrityInnerSize'' ''UINT16'' (ser_writeSizedByteBuf (PRIVATE_AREA_integrityInner self)),
      withN ''sensitive'' ''TPMT_SENSITIVE'' ''sensitiveSize'' ''UINT16'' (ser_writeObj ''TPMT_SENSITIVE'' (TPMT_SENSITIVE_Serialize (PRIVATE_AREA_sensitive self)))]"

definition PRIVATE_AREA_Deserialize :: "PRIVATE_AREA \<Rightarrow> PRIVATE_AREA ser" where
  "PRIVATE_AREA_Deserialize self =
     sbind (withN ''integrityOuter'' ''BYTE[]'' ''integrityOuterSize'' ''UINT16'' ser_readSizedByteBuf) (\<lambda>integrityOuter.
     sbind (withN ''integrityInner'' ''BYTE[]'' ''integrityInnerSize'' ''UINT16'' ser_readSizedByteBuf) (\<lambda>integrityInner.
     sbind (withN ''sensitive'' ''TPMT_SENSITIVE'' ''sensitiveSize'' ''UINT16'' (ser_readObj ''TPMT_SENSITIVE'' (TPMT_SENSITIVE_Deserialize (PRIVATE_AREA_sensitive self)))) (\<lambda>sensitive.
     ret (self\<lparr>PRIVATE_AREA_integrityOuter := integrityOuter, PRIVATE_AREA_integrityInner := integrityInner, PRIVATE_AREA_sensitive := sensitive\<rparr>))))"

definition PRIVATE_AREA_text_ok :: "text_class \<Rightarrow> PRIVATE_AREA \<Rightarrow> bool" where
  "PRIVATE_AREA_text_ok c x \<longleftrightarrow>
     length (PRIVATE_AREA_integrityOuter x) < 2 ^ 64 \<and>
     length (PRIVATE_AREA_integrityInner x) < 2 ^ 64 \<and>
     TPMT_SENSITIVE_text_ok c (PRIVATE_AREA_sensitive x)"

interpretation PRIVATE_AREA_text: text_codec "''_PRIVATE''" PRIVATE_AREA_Serialize PRIVATE_AREA_Deserialize PRIVATE_AREA_default PRIVATE_AREA_text_ok
proof
  show "word_ok ''_PRIVATE''" by (simp add: word_simps)
  fix c x assume ok: "PRIVATE_AREA_text_ok c x"
  from ok show "carries c True (PRIVATE_AREA_Serialize x) (PRIVATE_AREA_Deserialize PRIVATE_AREA_default) x"
    by (simp only: PRIVATE_AREA_Serialize_def PRIVATE_AREA_Deserialize_def PRIVATE_AREA_default_def
       PRIVATE_AREA.select_convs PRIVATE_AREA.update_convs;
      intro TPMT_SENSITIVE_text.as_entry [THEN carries_entry_Cons] carries_body;
      (rule PRIVATE_AREA.equality)?; simp add: PRIVATE_AREA_text_ok_def word_simps)
qed

subsection \<open>TPM2B_PRIVATE\<close>

definition TPM2B_PRIVATE_Serialize :: "TPM2B_PRIVATE \<Rightarrow> unit ser" where
  "TPM2B_PRIVATE_Serialize self = wseq
     [withN ''buffer'' ''BYTE[]'' ''size'' ''UINT16'' (ser_writeSizedByteBuf (TPM2B_PRIVATE_buffer self))]"

definition TPM2B_PRIVATE_Deserialize :: "TPM2B_PRIVATE \<Rightarrow> TPM2B_PRIVATE ser" where
  "TPM2B_PRIVATE_Deserialize self =
     sbind (withN ''buffer'' ''BYTE[]'' ''size'' ''UINT16'' ser_readSizedByteBuf) (\<lambda>buffer.
     ret (self\<lparr>TPM2B_PRIVATE_buffer := buffer\<rparr>))"

definition TPM2B_PRIVATE_text_ok :: "text_class \<Rightarrow> TPM2B_PRIVATE \<Rightarrow> bool" where
  "TPM2B_PRIVATE_text_ok c x \<longleftrightarrow>
     length (TPM2B_PRIVATE_buffer x) < 2 ^ 64"

interpretation TPM2B_PRIVATE_text: text_codec "''TPM2B_PRIVATE''" TPM2B_PRIVATE_Serialize TPM2B_PRIVATE_Deserialize TPM2B_PRIVATE_default TPM2B_PRIVATE_text_ok
proof
  show "word_ok ''TPM2B_PRIVATE''" by (simp add: word_simps)
  fix c x assume ok: "TPM2B_PRIVATE_text_ok c x"
  from ok show "carries c True (TPM2B_PRIVATE_Serialize x) (TPM2B_PRIVATE_Deserialize TPM2B_PRIVATE_default) x"
    by (simp only: TPM2B_PRIVATE_Serialize_def TPM2B_PRIVATE_Deserialize_def TPM2B_PRIVATE_default_def
       TPM2B_PRIVATE.select_convs TPM2B_PRIVATE.update_convs;
      intro carries_body;
      (rule TPM2B_PRIVATE.equality)?; simp add: TPM2B_PRIVATE_text_ok_def word_simps)
qed

subsection \<open>TPMS_ID_OBJECT\<close>

definition TPMS_ID_OBJECT_Serialize :: "TPMS_ID_OBJECT \<Rightarrow> unit ser" where
  "TPMS_ID_OBJECT_Serialize self = wseq
     [withN ''integrityHMAC'' ''BYTE[]'' ''integrityHMACSize'' ''UINT16'' (ser_writeSizedByteBuf (TPMS_ID_OBJECT_integrityHMAC self)),
      withN ''encIdentity'' ''BYTE[]'' ''encIdentitySize'' ''UINT16'' (ser_writeSizedByteBuf (TPMS_ID_OBJECT_encIdentity self))]"

definition TPMS_ID_OBJECT_Deserialize :: "TPMS_ID_OBJECT \<Rightarrow> TPMS_ID_OBJECT ser" where
  "TPMS_ID_OBJECT_Deserialize self =
     sbind (withN ''integrityHMAC'' ''BYTE[]'' ''integrityHMACSize'' ''UINT16'' ser_readSizedByteBuf) (\<lambda>integrityHMAC.
     sbind (withN ''encIdentity'' ''BYTE[]'' ''encIdentitySize'' ''UINT16'' ser_readSizedByteBuf) (\<lambda>encIdentity.
     ret (self\<lparr>TPMS_ID_OBJECT_integrityHMAC := integrityHMAC, TPMS_ID_OBJECT_encIdentity := encIdentity\<rparr>)))"

definition TPMS_ID_OBJECT_text_ok :: "text_class \<Rightarrow> TPMS_ID_OBJECT \<Rightarrow> bool" where
  "TPMS_ID_OBJECT_text_ok c x \<longleftrightarrow>
     length (TPMS_ID_OBJECT_integrityHMAC x) < 2 ^ 64 \<and>
     length (TPMS_ID_OBJECT_encIdentity x) < 2 ^ 64"

interpretation TPMS_ID_OBJECT_text: text_codec "''TPMS_ID_OBJECT''" TPMS_ID_OBJECT_Serialize TPMS_ID_OBJECT_Deserialize TPMS_ID_OBJECT_default TPMS_ID_OBJECT_text_ok
proof
  show "word_ok ''TPMS_ID_OBJECT''" by (simp add: word_simps)
  fix c x assume ok: "TPMS_ID_OBJECT_text_ok c x"
  from ok show "carries c True (TPMS_ID_OBJECT_Serialize x) (TPMS_ID_OBJECT_Deserialize TPMS_ID_OBJECT_default) x"
    by (simp only: TPMS_ID_OBJECT_Serialize_def TPMS_ID_OBJECT_Deserialize_def TPMS_ID_OBJECT_default_def
       TPMS_ID_OBJECT.select_convs TPMS_ID_OBJECT.update_convs;
      intro carries_body;
      (rule TPMS_ID_OBJECT.equality)?; simp add: TPMS_ID_OBJECT_text_ok_def word_simps)
qed

subsection \<open>TPM2B_ID_OBJECT\<close>

definition TPM2B_ID_OBJECT_Serialize :: "TPM2B_ID_OBJECT \<Rightarrow> unit ser" where
  "TPM2B_ID_OBJECT_Serialize self = wseq
     [withN ''credential'' ''TPMS_ID_OBJECT'' ''size'' ''UINT16'' (ser_writeObj ''TPMS_ID_OBJECT'' (TPMS_ID_OBJECT_Serialize (TPM2B_ID_OBJECT_credential self)))]"

definition TPM2B_ID_OBJECT_Deserialize :: "TPM2B_ID_OBJECT \<Rightarrow> TPM2B_ID_OBJECT ser" where
  "TPM2B_ID_OBJECT_Deserialize self =
     sbind (withN ''credential'' ''TPMS_ID_OBJECT'' ''size'' ''UINT16'' (ser_readObj ''TPMS_ID_OBJECT'' (TPMS_ID_OBJECT_Deserialize (TPM2B_ID_OBJECT_credential self)))) (\<lambda>credential.
     ret (self\<lparr>TPM2B_ID_OBJECT_credential := credential\<rparr>))"

definition TPM2B_ID_OBJECT_text_ok :: "text_class \<Rightarrow> TPM2B_ID_OBJECT \<Rightarrow> bool" where
  "TPM2B_ID_OBJECT_text_ok c x \<longleftrightarrow>
     TPMS_ID_OBJECT_text_ok c (TPM2B_ID_OBJECT_credential x)"

interpretation TPM2B_ID_OBJECT_text: text_codec "''TPM2B_ID_OBJECT''" TPM2B_ID_OBJECT_Serialize TPM2B_ID_OBJECT_Deserialize TPM2B_ID_OBJECT_default TPM2B_ID_OBJECT_text_ok
proof
  show "word_ok ''TPM2B_ID_OBJECT''" by (simp add: word_simps)
  fix c x assume ok: "TPM2B_ID_OBJECT_text_ok c x"
  from ok show "carries c True (TPM2B_ID_OBJECT_Serialize x) (TPM2B_ID_OBJECT_Deserialize TPM2B_ID_OBJECT_default) x"
    by (simp only: TPM2B_ID_OBJECT_Serialize_def TPM2B_ID_OBJECT_Deserialize_def TPM2B_ID_OBJECT_default_def
       TPM2B_ID_OBJECT.select_convs TPM2B_ID_OBJECT.update_convs;
      intro TPMS_ID_OBJECT_text.as_entry [THEN carries_entry_Cons] carries_body;
      (rule TPM2B_ID_OBJECT.equality)?; simp add: TPM2B_ID_OBJECT_text_ok_def word_simps)
qed

end
