(* ===== verification/TextNvTypes.thy ===== *)
theory TextNvTypes
  imports TextKeyTypes TpmNvTypes
begin

text \<open>
  \<^verbatim>\<open>TSS.CPP/Src/TpmTypes.cpp\<close>, the text form of the structures of theory \<open>TpmNvTypes\<close>: \<open>X_Serialize\<close> and
  \<open>X_Deserialize\<close> of each class \<open>X\<close>, the values \<open>X_text_ok\<close> that a text of the given kind can carry, and
  the proof that the second method reads what the first one writes (the interpretation \<open>X_text\<close>).
  A class with an array of enumerators has no such interpretation: \<open>readEnumArr\<close> does not read it.
\<close>

subsection \<open>TPMS_NV_PIN_COUNTER_PARAMETERS\<close>

definition TPMS_NV_PIN_COUNTER_PARAMETERS_Serialize :: "TPMS_NV_PIN_COUNTER_PARAMETERS \<Rightarrow> unit ser" where
  "TPMS_NV_PIN_COUNTER_PARAMETERS_Serialize self = wseq
     [withN ''pinCount'' ''UINT32'' '''' '''' (ser_writeInt (TPMS_NV_PIN_COUNTER_PARAMETERS_pinCount self)),
      withN ''pinLimit'' ''UINT32'' '''' '''' (ser_writeInt (TPMS_NV_PIN_COUNTER_PARAMETERS_pinLimit self))]"

definition TPMS_NV_PIN_COUNTER_PARAMETERS_Deserialize :: "TPMS_NV_PIN_COUNTER_PARAMETERS \<Rightarrow> TPMS_NV_PIN_COUNTER_PARAMETERS ser" where
  "TPMS_NV_PIN_COUNTER_PARAMETERS_Deserialize self =
     sbind (withN ''pinCount'' ''UINT32'' '''' '''' ser_readInt) (\<lambda>pinCount.
     sbind (withN ''pinLimit'' ''UINT32'' '''' '''' ser_readInt) (\<lambda>pinLimit.
     ret (self\<lparr>TPMS_NV_PIN_COUNTER_PARAMETERS_pinCount := pinCount, TPMS_NV_PIN_COUNTER_PARAMETERS_pinLimit := pinLimit\<rparr>)))"

definition TPMS_NV_PIN_COUNTER_PARAMETERS_text_ok :: "text_class \<Rightarrow> TPMS_NV_PIN_COUNTER_PARAMETERS \<Rightarrow> bool" where
  "TPMS_NV_PIN_COUNTER_PARAMETERS_text_ok c x \<longleftrightarrow>
     True"

interpretation TPMS_NV_PIN_COUNTER_PARAMETERS_text: text_codec "''TPMS_NV_PIN_COUNTER_PARAMETERS''" TPMS_NV_PIN_COUNTER_PARAMETERS_Serialize TPMS_NV_PIN_COUNTER_PARAMETERS_Deserialize TPMS_NV_PIN_COUNTER_PARAMETERS_default TPMS_NV_PIN_COUNTER_PARAMETERS_text_ok
proof
  show "word_ok ''TPMS_NV_PIN_COUNTER_PARAMETERS''" by (simp add: word_simps)
  fix c x assume ok: "TPMS_NV_PIN_COUNTER_PARAMETERS_text_ok c x"
  from ok show "carries c True (TPMS_NV_PIN_COUNTER_PARAMETERS_Serialize x) (TPMS_NV_PIN_COUNTER_PARAMETERS_Deserialize TPMS_NV_PIN_COUNTER_PARAMETERS_default) x"
    by (simp only: TPMS_NV_PIN_COUNTER_PARAMETERS_Serialize_def TPMS_NV_PIN_COUNTER_PARAMETERS_Deserialize_def TPMS_NV_PIN_COUNTER_PARAMETERS_default_def
       TPMS_NV_PIN_COUNTER_PARAMETERS.select_convs TPMS_NV_PIN_COUNTER_PARAMETERS.update_convs;
      intro carries_body;
      (rule TPMS_NV_PIN_COUNTER_PARAMETERS.equality)?; simp add: TPMS_NV_PIN_COUNTER_PARAMETERS_text_ok_def word_simps)
qed

subsection \<open>TPMS_NV_PUBLIC\<close>

definition TPMS_NV_PUBLIC_Serialize :: "TPMS_NV_PUBLIC \<Rightarrow> unit ser" where
  "TPMS_NV_PUBLIC_Serialize self = wseq
     [withN ''nvIndex'' ''TPM_HANDLE'' '''' '''' (ser_writeObj ''TPM_HANDLE'' (TPM_HANDLE_Serialize (TPMS_NV_PUBLIC_nvIndex self))),
      withN ''nameAlg'' ''TPM_ALG_ID'' '''' '''' (ser_writeEnumT (TPMS_NV_PUBLIC_nameAlg self) TPM_ALG_ID_ID),
      withN ''attributes'' ''TPMA_NV'' '''' '''' (ser_writeEnumT (TPMS_NV_PUBLIC_attributes self) TPMA_NV_ID),
      withN ''authPolicy'' ''BYTE[]'' ''authPolicySize'' ''UINT16'' (ser_writeSizedByteBuf (TPMS_NV_PUBLIC_authPolicy self)),
      withN ''dataSize'' ''UINT16'' '''' '''' (ser_writeShort (TPMS_NV_PUBLIC_dataSize self))]"

definition TPMS_NV_PUBLIC_Deserialize :: "TPMS_NV_PUBLIC \<Rightarrow> TPMS_NV_PUBLIC ser" where
  "TPMS_NV_PUBLIC_Deserialize self =
     sbind (withN ''nvIndex'' ''TPM_HANDLE'' '''' '''' (ser_readObj ''TPM_HANDLE'' (TPM_HANDLE_Deserialize (TPMS_NV_PUBLIC_nvIndex self)))) (\<lambda>nvIndex.
     sbind (withN ''nameAlg'' ''TPM_ALG_ID'' '''' '''' (ser_readEnumT TPM_ALG_ID_ID)) (\<lambda>nameAlg.
     sbind (withN ''attributes'' ''TPMA_NV'' '''' '''' (ser_readEnumT TPMA_NV_ID)) (\<lambda>attributes.
     sbind (withN ''authPolicy'' ''BYTE[]'' ''authPolicySize'' ''UINT16'' ser_readSizedByteBuf) (\<lambda>authPolicy.
     sbind (withN ''dataSize'' ''UINT16'' '''' '''' ser_readShort) (\<lambda>dataSize.
     ret (self\<lparr>TPMS_NV_PUBLIC_nvIndex := nvIndex, TPMS_NV_PUBLIC_nameAlg := nameAlg, TPMS_NV_PUBLIC_attributes := attributes, TPMS_NV_PUBLIC_authPolicy := authPolicy, TPMS_NV_PUBLIC_dataSize := dataSize\<rparr>))))))"

definition TPMS_NV_PUBLIC_text_ok :: "text_class \<Rightarrow> TPMS_NV_PUBLIC \<Rightarrow> bool" where
  "TPMS_NV_PUBLIC_text_ok c x \<longleftrightarrow>
     TPM_HANDLE_text_ok c (TPMS_NV_PUBLIC_nvIndex x) \<and>
     enum_ok c (ucast (TPMS_NV_PUBLIC_nameAlg x)) TPM_ALG_ID_ID \<and>
     enum_ok c (ucast (TPMS_NV_PUBLIC_attributes x)) TPMA_NV_ID \<and>
     length (TPMS_NV_PUBLIC_authPolicy x) < 2 ^ 64"

interpretation TPMS_NV_PUBLIC_text: text_codec "''TPMS_NV_PUBLIC''" TPMS_NV_PUBLIC_Serialize TPMS_NV_PUBLIC_Deserialize TPMS_NV_PUBLIC_default TPMS_NV_PUBLIC_text_ok
proof
  show "word_ok ''TPMS_NV_PUBLIC''" by (simp add: word_simps)
  fix c x assume ok: "TPMS_NV_PUBLIC_text_ok c x"
  from ok show "carries c True (TPMS_NV_PUBLIC_Serialize x) (TPMS_NV_PUBLIC_Deserialize TPMS_NV_PUBLIC_default) x"
    by (simp only: TPMS_NV_PUBLIC_Serialize_def TPMS_NV_PUBLIC_Deserialize_def TPMS_NV_PUBLIC_default_def
       TPMS_NV_PUBLIC.select_convs TPMS_NV_PUBLIC.update_convs;
      intro TPM_HANDLE_text.as_entry [THEN carries_entry_Cons] carries_body;
      (rule TPMS_NV_PUBLIC.equality)?; simp add: TPMS_NV_PUBLIC_text_ok_def word_simps)
qed

subsection \<open>TPM2B_NV_PUBLIC\<close>

definition TPM2B_NV_PUBLIC_Serialize :: "TPM2B_NV_PUBLIC \<Rightarrow> unit ser" where
  "TPM2B_NV_PUBLIC_Serialize self = wseq
     [withN ''nvPublic'' ''TPMS_NV_PUBLIC'' ''size'' ''UINT16'' (ser_writeObj ''TPMS_NV_PUBLIC'' (TPMS_NV_PUBLIC_Serialize (TPM2B_NV_PUBLIC_nvPublic self)))]"

definition TPM2B_NV_PUBLIC_Deserialize :: "TPM2B_NV_PUBLIC \<Rightarrow> TPM2B_NV_PUBLIC ser" where
  "TPM2B_NV_PUBLIC_Deserialize self =
     sbind (withN ''nvPublic'' ''TPMS_NV_PUBLIC'' ''size'' ''UINT16'' (ser_readObj ''TPMS_NV_PUBLIC'' (TPMS_NV_PUBLIC_Deserialize (TPM2B_NV_PUBLIC_nvPublic self)))) (\<lambda>nvPublic.
     ret (self\<lparr>TPM2B_NV_PUBLIC_nvPublic := nvPublic\<rparr>))"

definition TPM2B_NV_PUBLIC_text_ok :: "text_class \<Rightarrow> TPM2B_NV_PUBLIC \<Rightarrow> bool" where
  "TPM2B_NV_PUBLIC_text_ok c x \<longleftrightarrow>
     TPMS_NV_PUBLIC_text_ok c (TPM2B_NV_PUBLIC_nvPublic x)"

interpretation TPM2B_NV_PUBLIC_text: text_codec "''TPM2B_NV_PUBLIC''" TPM2B_NV_PUBLIC_Serialize TPM2B_NV_PUBLIC_Deserialize TPM2B_NV_PUBLIC_default TPM2B_NV_PUBLIC_text_ok
proof
  show "word_ok ''TPM2B_NV_PUBLIC''" by (simp add: word_simps)
  fix c x assume ok: "TPM2B_NV_PUBLIC_text_ok c x"
  from ok show "carries c True (TPM2B_NV_PUBLIC_Serialize x) (TPM2B_NV_PUBLIC_Deserialize TPM2B_NV_PUBLIC_default) x"
    by (simp only: TPM2B_NV_PUBLIC_Serialize_def TPM2B_NV_PUBLIC_Deserialize_def TPM2B_NV_PUBLIC_default_def
       TPM2B_NV_PUBLIC.select_convs TPM2B_NV_PUBLIC.update_convs;
      intro TPMS_NV_PUBLIC_text.as_entry [THEN carries_entry_Cons] carries_body;
      (rule TPM2B_NV_PUBLIC.equality)?; simp add: TPM2B_NV_PUBLIC_text_ok_def word_simps)
qed

subsection \<open>TPM2B_CONTEXT_SENSITIVE\<close>

definition TPM2B_CONTEXT_SENSITIVE_Serialize :: "TPM2B_CONTEXT_SENSITIVE \<Rightarrow> unit ser" where
  "TPM2B_CONTEXT_SENSITIVE_Serialize self = wseq
     [withN ''buffer'' ''BYTE[]'' ''size'' ''UINT16'' (ser_writeSizedByteBuf (TPM2B_CONTEXT_SENSITIVE_buffer self))]"

definition TPM2B_CONTEXT_SENSITIVE_Deserialize :: "TPM2B_CONTEXT_SENSITIVE \<Rightarrow> TPM2B_CONTEXT_SENSITIVE ser" where
  "TPM2B_CONTEXT_SENSITIVE_Deserialize self =
     sbind (withN ''buffer'' ''BYTE[]'' ''size'' ''UINT16'' ser_readSizedByteBuf) (\<lambda>buffer.
     ret (self\<lparr>TPM2B_CONTEXT_SENSITIVE_buffer := buffer\<rparr>))"

definition TPM2B_CONTEXT_SENSITIVE_text_ok :: "text_class \<Rightarrow> TPM2B_CONTEXT_SENSITIVE \<Rightarrow> bool" where
  "TPM2B_CONTEXT_SENSITIVE_text_ok c x \<longleftrightarrow>
     length (TPM2B_CONTEXT_SENSITIVE_buffer x) < 2 ^ 64"

interpretation TPM2B_CONTEXT_SENSITIVE_text: text_codec "''TPM2B_CONTEXT_SENSITIVE''" TPM2B_CONTEXT_SENSITIVE_Serialize TPM2B_CONTEXT_SENSITIVE_Deserialize TPM2B_CONTEXT_SENSITIVE_default TPM2B_CONTEXT_SENSITIVE_text_ok
proof
  show "word_ok ''TPM2B_CONTEXT_SENSITIVE''" by (simp add: word_simps)
  fix c x assume ok: "TPM2B_CONTEXT_SENSITIVE_text_ok c x"
  from ok show "carries c True (TPM2B_CONTEXT_SENSITIVE_Serialize x) (TPM2B_CONTEXT_SENSITIVE_Deserialize TPM2B_CONTEXT_SENSITIVE_default) x"
    by (simp only: TPM2B_CONTEXT_SENSITIVE_Serialize_def TPM2B_CONTEXT_SENSITIVE_Deserialize_def TPM2B_CONTEXT_SENSITIVE_default_def
       TPM2B_CONTEXT_SENSITIVE.select_convs TPM2B_CONTEXT_SENSITIVE.update_convs;
      intro carries_body;
      (rule TPM2B_CONTEXT_SENSITIVE.equality)?; simp add: TPM2B_CONTEXT_SENSITIVE_text_ok_def word_simps)
qed

subsection \<open>TPMS_CONTEXT_DATA\<close>

definition TPMS_CONTEXT_DATA_Serialize :: "TPMS_CONTEXT_DATA \<Rightarrow> unit ser" where
  "TPMS_CONTEXT_DATA_Serialize self = wseq
     [withN ''integrity'' ''BYTE[]'' ''integritySize'' ''UINT16'' (ser_writeSizedByteBuf (TPMS_CONTEXT_DATA_integrity self)),
      withN ''encrypted'' ''BYTE[]'' ''encryptedSize'' ''UINT16'' (ser_writeSizedByteBuf (TPMS_CONTEXT_DATA_encrypted self))]"

definition TPMS_CONTEXT_DATA_Deserialize :: "TPMS_CONTEXT_DATA \<Rightarrow> TPMS_CONTEXT_DATA ser" where
  "TPMS_CONTEXT_DATA_Deserialize self =
     sbind (withN ''integrity'' ''BYTE[]'' ''integritySize'' ''UINT16'' ser_readSizedByteBuf) (\<lambda>integrity.
     sbind (withN ''encrypted'' ''BYTE[]'' ''encryptedSize'' ''UINT16'' ser_readSizedByteBuf) (\<lambda>encrypted.
     ret (self\<lparr>TPMS_CONTEXT_DATA_integrity := integrity, TPMS_CONTEXT_DATA_encrypted := encrypted\<rparr>)))"

definition TPMS_CONTEXT_DATA_text_ok :: "text_class \<Rightarrow> TPMS_CONTEXT_DATA \<Rightarrow> bool" where
  "TPMS_CONTEXT_DATA_text_ok c x \<longleftrightarrow>
     length (TPMS_CONTEXT_DATA_integrity x) < 2 ^ 64 \<and>
     length (TPMS_CONTEXT_DATA_encrypted x) < 2 ^ 64"

interpretation TPMS_CONTEXT_DATA_text: text_codec "''TPMS_CONTEXT_DATA''" TPMS_CONTEXT_DATA_Serialize TPMS_CONTEXT_DATA_Deserialize TPMS_CONTEXT_DATA_default TPMS_CONTEXT_DATA_text_ok
proof
  show "word_ok ''TPMS_CONTEXT_DATA''" by (simp add: word_simps)
  fix c x assume ok: "TPMS_CONTEXT_DATA_text_ok c x"
  from ok show "carries c True (TPMS_CONTEXT_DATA_Serialize x) (TPMS_CONTEXT_DATA_Deserialize TPMS_CONTEXT_DATA_default) x"
    by (simp only: TPMS_CONTEXT_DATA_Serialize_def TPMS_CONTEXT_DATA_Deserialize_def TPMS_CONTEXT_DATA_default_def
       TPMS_CONTEXT_DATA.select_convs TPMS_CONTEXT_DATA.update_convs;
      intro carries_body;
      (rule TPMS_CONTEXT_DATA.equality)?; simp add: TPMS_CONTEXT_DATA_text_ok_def word_simps)
qed

subsection \<open>TPM2B_CONTEXT_DATA\<close>

definition TPM2B_CONTEXT_DATA_Serialize :: "TPM2B_CONTEXT_DATA \<Rightarrow> unit ser" where
  "TPM2B_CONTEXT_DATA_Serialize self = wseq
     [withN ''buffer'' ''TPMS_CONTEXT_DATA'' ''size'' ''UINT16'' (ser_writeObj ''TPMS_CONTEXT_DATA'' (TPMS_CONTEXT_DATA_Serialize (TPM2B_CONTEXT_DATA_buffer self)))]"

definition TPM2B_CONTEXT_DATA_Deserialize :: "TPM2B_CONTEXT_DATA \<Rightarrow> TPM2B_CONTEXT_DATA ser" where
  "TPM2B_CONTEXT_DATA_Deserialize self =
     sbind (withN ''buffer'' ''TPMS_CONTEXT_DATA'' ''size'' ''UINT16'' (ser_readObj ''TPMS_CONTEXT_DATA'' (TPMS_CONTEXT_DATA_Deserialize (TPM2B_CONTEXT_DATA_buffer self)))) (\<lambda>buffer.
     ret (self\<lparr>TPM2B_CONTEXT_DATA_buffer := buffer\<rparr>))"

definition TPM2B_CONTEXT_DATA_text_ok :: "text_class \<Rightarrow> TPM2B_CONTEXT_DATA \<Rightarrow> bool" where
  "TPM2B_CONTEXT_DATA_text_ok c x \<longleftrightarrow>
     TPMS_CONTEXT_DATA_text_ok c (TPM2B_CONTEXT_DATA_buffer x)"

interpretation TPM2B_CONTEXT_DATA_text: text_codec "''TPM2B_CONTEXT_DATA''" TPM2B_CONTEXT_DATA_Serialize TPM2B_CONTEXT_DATA_Deserialize TPM2B_CONTEXT_DATA_default TPM2B_CONTEXT_DATA_text_ok
proof
  show "word_ok ''TPM2B_CONTEXT_DATA''" by (simp add: word_simps)
  fix c x assume ok: "TPM2B_CONTEXT_DATA_text_ok c x"
  from ok show "carries c True (TPM2B_CONTEXT_DATA_Serialize x) (TPM2B_CONTEXT_DATA_Deserialize TPM2B_CONTEXT_DATA_default) x"
    by (simp only: TPM2B_CONTEXT_DATA_Serialize_def TPM2B_CONTEXT_DATA_Deserialize_def TPM2B_CONTEXT_DATA_default_def
       TPM2B_CONTEXT_DATA.select_convs TPM2B_CONTEXT_DATA.update_convs;
      intro TPMS_CONTEXT_DATA_text.as_entry [THEN carries_entry_Cons] carries_body;
      (rule TPM2B_CONTEXT_DATA.equality)?; simp add: TPM2B_CONTEXT_DATA_text_ok_def word_simps)
qed

subsection \<open>TPMS_CONTEXT\<close>

definition TPMS_CONTEXT_Serialize :: "TPMS_CONTEXT \<Rightarrow> unit ser" where
  "TPMS_CONTEXT_Serialize self = wseq
     [withN ''sequence'' ''UINT64'' '''' '''' (ser_writeInt64 (TPMS_CONTEXT_sequence self)),
      withN ''savedHandle'' ''TPM_HANDLE'' '''' '''' (ser_writeObj ''TPM_HANDLE'' (TPM_HANDLE_Serialize (TPMS_CONTEXT_savedHandle self))),
      withN ''hierarchy'' ''TPM_HANDLE'' '''' '''' (ser_writeObj ''TPM_HANDLE'' (TPM_HANDLE_Serialize (TPMS_CONTEXT_hierarchy self))),
      withN ''contextBlob'' ''TPMS_CONTEXT_DATA'' ''contextBlobSize'' ''UINT16'' (ser_writeObj ''TPMS_CONTEXT_DATA'' (TPMS_CONTEXT_DATA_Serialize (TPMS_CONTEXT_contextBlob self)))]"

definition TPMS_CONTEXT_Deserialize :: "TPMS_CONTEXT \<Rightarrow> TPMS_CONTEXT ser" where
  "TPMS_CONTEXT_Deserialize self =
     sbind (withN ''sequence'' ''UINT64'' '''' '''' ser_readInt64) (\<lambda>sequence.
     sbind (withN ''savedHandle'' ''TPM_HANDLE'' '''' '''' (ser_readObj ''TPM_HANDLE'' (TPM_HANDLE_Deserialize (TPMS_CONTEXT_savedHandle self)))) (\<lambda>savedHandle.
     sbind (withN ''hierarchy'' ''TPM_HANDLE'' '''' '''' (ser_readObj ''TPM_HANDLE'' (TPM_HANDLE_Deserialize (TPMS_CONTEXT_hierarchy self)))) (\<lambda>hierarchy.
     sbind (withN ''contextBlob'' ''TPMS_CONTEXT_DATA'' ''contextBlobSize'' ''UINT16'' (ser_readObj ''TPMS_CONTEXT_DATA'' (TPMS_CONTEXT_DATA_Deserialize (TPMS_CONTEXT_contextBlob self)))) (\<lambda>contextBlob.
     ret (self\<lparr>TPMS_CONTEXT_sequence := sequence, TPMS_CONTEXT_savedHandle := savedHandle, TPMS_CONTEXT_hierarchy := hierarchy, TPMS_CONTEXT_contextBlob := contextBlob\<rparr>)))))"

definition TPMS_CONTEXT_text_ok :: "text_class \<Rightarrow> TPMS_CONTEXT \<Rightarrow> bool" where
  "TPMS_CONTEXT_text_ok c x \<longleftrightarrow>
     TPM_HANDLE_text_ok c (TPMS_CONTEXT_savedHandle x) \<and>
     TPM_HANDLE_text_ok c (TPMS_CONTEXT_hierarchy x) \<and>
     TPMS_CONTEXT_DATA_text_ok c (TPMS_CONTEXT_contextBlob x)"

interpretation TPMS_CONTEXT_text: text_codec "''TPMS_CONTEXT''" TPMS_CONTEXT_Serialize TPMS_CONTEXT_Deserialize TPMS_CONTEXT_default TPMS_CONTEXT_text_ok
proof
  show "word_ok ''TPMS_CONTEXT''" by (simp add: word_simps)
  fix c x assume ok: "TPMS_CONTEXT_text_ok c x"
  from ok show "carries c True (TPMS_CONTEXT_Serialize x) (TPMS_CONTEXT_Deserialize TPMS_CONTEXT_default) x"
    by (simp only: TPMS_CONTEXT_Serialize_def TPMS_CONTEXT_Deserialize_def TPMS_CONTEXT_default_def
       TPMS_CONTEXT.select_convs TPMS_CONTEXT.update_convs;
      intro TPMS_CONTEXT_DATA_text.as_entry [THEN carries_entry_Cons] TPM_HANDLE_text.as_entry [THEN carries_entry_Cons] carries_body;
      (rule TPMS_CONTEXT.equality)?; simp add: TPMS_CONTEXT_text_ok_def word_simps)
qed

subsection \<open>TPMS_CREATION_DATA\<close>

definition TPMS_CREATION_DATA_Serialize :: "TPMS_CREATION_DATA \<Rightarrow> unit ser" where
  "TPMS_CREATION_DATA_Serialize self = wseq
     [withN ''pcrSelect'' ''TPMS_PCR_SELECTION[]'' ''pcrSelectCount'' ''UINT32'' (ser_writeObjArr ''TPMS_PCR_SELECTION'' TPMS_PCR_SELECTION_Serialize (TPMS_CREATION_DATA_pcrSelect self)),
      withN ''pcrDigest'' ''BYTE[]'' ''pcrDigestSize'' ''UINT16'' (ser_writeSizedByteBuf (TPMS_CREATION_DATA_pcrDigest self)),
      withN ''locality'' ''TPMA_LOCALITY'' '''' '''' (ser_writeEnumT (TPMS_CREATION_DATA_locality self) TPMA_LOCALITY_ID),
      withN ''parentNameAlg'' ''TPM_ALG_ID'' '''' '''' (ser_writeEnumT (TPMS_CREATION_DATA_parentNameAlg self) TPM_ALG_ID_ID),
      withN ''parentName'' ''BYTE[]'' ''parentNameSize'' ''UINT16'' (ser_writeSizedByteBuf (TPMS_CREATION_DATA_parentName self)),
      withN ''parentQualifiedName'' ''BYTE[]'' ''parentQualifiedNameSize'' ''UINT16'' (ser_writeSizedByteBuf (TPMS_CREATION_DATA_parentQualifiedName self)),
      withN ''outsideInfo'' ''BYTE[]'' ''outsideInfoSize'' ''UINT16'' (ser_writeSizedByteBuf (TPMS_CREATION_DATA_outsideInfo self))]"

definition TPMS_CREATION_DATA_Deserialize :: "TPMS_CREATION_DATA \<Rightarrow> TPMS_CREATION_DATA ser" where
  "TPMS_CREATION_DATA_Deserialize self =
     sbind (withN ''pcrSelect'' ''TPMS_PCR_SELECTION[]'' ''pcrSelectCount'' ''UINT32'' (ser_readObjArr ''TPMS_PCR_SELECTION'' TPMS_PCR_SELECTION_Deserialize TPMS_PCR_SELECTION_default (TPMS_CREATION_DATA_pcrSelect self))) (\<lambda>pcrSelect.
     sbind (withN ''pcrDigest'' ''BYTE[]'' ''pcrDigestSize'' ''UINT16'' ser_readSizedByteBuf) (\<lambda>pcrDigest.
     sbind (withN ''locality'' ''TPMA_LOCALITY'' '''' '''' (ser_readEnumT TPMA_LOCALITY_ID)) (\<lambda>locality.
     sbind (withN ''parentNameAlg'' ''TPM_ALG_ID'' '''' '''' (ser_readEnumT TPM_ALG_ID_ID)) (\<lambda>parentNameAlg.
     sbind (withN ''parentName'' ''BYTE[]'' ''parentNameSize'' ''UINT16'' ser_readSizedByteBuf) (\<lambda>parentName.
     sbind (withN ''parentQualifiedName'' ''BYTE[]'' ''parentQualifiedNameSize'' ''UINT16'' ser_readSizedByteBuf) (\<lambda>parentQualifiedName.
     sbind (withN ''outsideInfo'' ''BYTE[]'' ''outsideInfoSize'' ''UINT16'' ser_readSizedByteBuf) (\<lambda>outsideInfo.
     ret (self\<lparr>TPMS_CREATION_DATA_pcrSelect := pcrSelect, TPMS_CREATION_DATA_pcrDigest := pcrDigest, TPMS_CREATION_DATA_locality := locality, TPMS_CREATION_DATA_parentNameAlg := parentNameAlg, TPMS_CREATION_DATA_parentName := parentName, TPMS_CREATION_DATA_parentQualifiedName := parentQualifiedName, TPMS_CREATION_DATA_outsideInfo := outsideInfo\<rparr>))))))))"

definition TPMS_CREATION_DATA_text_ok :: "text_class \<Rightarrow> TPMS_CREATION_DATA \<Rightarrow> bool" where
  "TPMS_CREATION_DATA_text_ok c x \<longleftrightarrow>
     length (TPMS_CREATION_DATA_pcrSelect x) < 2 ^ 64 \<and> (\<forall>y \<in> set (TPMS_CREATION_DATA_pcrSelect x). TPMS_PCR_SELECTION_text_ok c y) \<and>
     length (TPMS_CREATION_DATA_pcrDigest x) < 2 ^ 64 \<and>
     enum_ok c (ucast (TPMS_CREATION_DATA_locality x)) TPMA_LOCALITY_ID \<and>
     enum_ok c (ucast (TPMS_CREATION_DATA_parentNameAlg x)) TPM_ALG_ID_ID \<and>
     length (TPMS_CREATION_DATA_parentName x) < 2 ^ 64 \<and>
     length (TPMS_CREATION_DATA_parentQualifiedName x) < 2 ^ 64 \<and>
     length (TPMS_CREATION_DATA_outsideInfo x) < 2 ^ 64"

interpretation TPMS_CREATION_DATA_text: text_codec "''TPMS_CREATION_DATA''" TPMS_CREATION_DATA_Serialize TPMS_CREATION_DATA_Deserialize TPMS_CREATION_DATA_default TPMS_CREATION_DATA_text_ok
proof
  show "word_ok ''TPMS_CREATION_DATA''" by (simp add: word_simps)
  fix c x assume ok: "TPMS_CREATION_DATA_text_ok c x"
  from ok show "carries c True (TPMS_CREATION_DATA_Serialize x) (TPMS_CREATION_DATA_Deserialize TPMS_CREATION_DATA_default) x"
    by (simp only: TPMS_CREATION_DATA_Serialize_def TPMS_CREATION_DATA_Deserialize_def TPMS_CREATION_DATA_default_def
       TPMS_CREATION_DATA.select_convs TPMS_CREATION_DATA.update_convs;
      intro TPMS_PCR_SELECTION_text.as_elements [THEN carries_entry_Cons] carries_body;
      (rule TPMS_CREATION_DATA.equality)?; simp add: TPMS_CREATION_DATA_text_ok_def word_simps)
qed

subsection \<open>TPM2B_CREATION_DATA\<close>

definition TPM2B_CREATION_DATA_Serialize :: "TPM2B_CREATION_DATA \<Rightarrow> unit ser" where
  "TPM2B_CREATION_DATA_Serialize self = wseq
     [withN ''creationData'' ''TPMS_CREATION_DATA'' ''size'' ''UINT16'' (ser_writeObj ''TPMS_CREATION_DATA'' (TPMS_CREATION_DATA_Serialize (TPM2B_CREATION_DATA_creationData self)))]"

definition TPM2B_CREATION_DATA_Deserialize :: "TPM2B_CREATION_DATA \<Rightarrow> TPM2B_CREATION_DATA ser" where
  "TPM2B_CREATION_DATA_Deserialize self =
     sbind (withN ''creationData'' ''TPMS_CREATION_DATA'' ''size'' ''UINT16'' (ser_readObj ''TPMS_CREATION_DATA'' (TPMS_CREATION_DATA_Deserialize (TPM2B_CREATION_DATA_creationData self)))) (\<lambda>creationData.
     ret (self\<lparr>TPM2B_CREATION_DATA_creationData := creationData\<rparr>))"

definition TPM2B_CREATION_DATA_text_ok :: "text_class \<Rightarrow> TPM2B_CREATION_DATA \<Rightarrow> bool" where
  "TPM2B_CREATION_DATA_text_ok c x \<longleftrightarrow>
     TPMS_CREATION_DATA_text_ok c (TPM2B_CREATION_DATA_creationData x)"

interpretation TPM2B_CREATION_DATA_text: text_codec "''TPM2B_CREATION_DATA''" TPM2B_CREATION_DATA_Serialize TPM2B_CREATION_DATA_Deserialize TPM2B_CREATION_DATA_default TPM2B_CREATION_DATA_text_ok
proof
  show "word_ok ''TPM2B_CREATION_DATA''" by (simp add: word_simps)
  fix c x assume ok: "TPM2B_CREATION_DATA_text_ok c x"
  from ok show "carries c True (TPM2B_CREATION_DATA_Serialize x) (TPM2B_CREATION_DATA_Deserialize TPM2B_CREATION_DATA_default) x"
    by (simp only: TPM2B_CREATION_DATA_Serialize_def TPM2B_CREATION_DATA_Deserialize_def TPM2B_CREATION_DATA_default_def
       TPM2B_CREATION_DATA.select_convs TPM2B_CREATION_DATA.update_convs;
      intro TPMS_CREATION_DATA_text.as_entry [THEN carries_entry_Cons] carries_body;
      (rule TPM2B_CREATION_DATA.equality)?; simp add: TPM2B_CREATION_DATA_text_ok_def word_simps)
qed

subsection \<open>TPMS_AC_OUTPUT\<close>

definition TPMS_AC_OUTPUT_Serialize :: "TPMS_AC_OUTPUT \<Rightarrow> unit ser" where
  "TPMS_AC_OUTPUT_Serialize self = wseq
     [withN ''tag'' ''TPM_AT'' '''' '''' (ser_writeEnumT (TPMS_AC_OUTPUT_tag self) TPM_AT_ID),
      withN ''data'' ''UINT32'' '''' '''' (ser_writeInt (TPMS_AC_OUTPUT_data self))]"

definition TPMS_AC_OUTPUT_Deserialize :: "TPMS_AC_OUTPUT \<Rightarrow> TPMS_AC_OUTPUT ser" where
  "TPMS_AC_OUTPUT_Deserialize self =
     sbind (withN ''tag'' ''TPM_AT'' '''' '''' (ser_readEnumT TPM_AT_ID)) (\<lambda>tag.
     sbind (withN ''data'' ''UINT32'' '''' '''' ser_readInt) (\<lambda>data.
     ret (self\<lparr>TPMS_AC_OUTPUT_tag := tag, TPMS_AC_OUTPUT_data := data\<rparr>)))"

definition TPMS_AC_OUTPUT_text_ok :: "text_class \<Rightarrow> TPMS_AC_OUTPUT \<Rightarrow> bool" where
  "TPMS_AC_OUTPUT_text_ok c x \<longleftrightarrow>
     enum_ok c (ucast (TPMS_AC_OUTPUT_tag x)) TPM_AT_ID"

interpretation TPMS_AC_OUTPUT_text: text_codec "''TPMS_AC_OUTPUT''" TPMS_AC_OUTPUT_Serialize TPMS_AC_OUTPUT_Deserialize TPMS_AC_OUTPUT_default TPMS_AC_OUTPUT_text_ok
proof
  show "word_ok ''TPMS_AC_OUTPUT''" by (simp add: word_simps)
  fix c x assume ok: "TPMS_AC_OUTPUT_text_ok c x"
  from ok show "carries c True (TPMS_AC_OUTPUT_Serialize x) (TPMS_AC_OUTPUT_Deserialize TPMS_AC_OUTPUT_default) x"
    by (simp only: TPMS_AC_OUTPUT_Serialize_def TPMS_AC_OUTPUT_Deserialize_def TPMS_AC_OUTPUT_default_def
       TPMS_AC_OUTPUT.select_convs TPMS_AC_OUTPUT.update_convs;
      intro carries_body;
      (rule TPMS_AC_OUTPUT.equality)?; simp add: TPMS_AC_OUTPUT_text_ok_def word_simps)
qed

subsection \<open>TPML_AC_CAPABILITIES\<close>

definition TPML_AC_CAPABILITIES_Serialize :: "TPML_AC_CAPABILITIES \<Rightarrow> unit ser" where
  "TPML_AC_CAPABILITIES_Serialize self = wseq
     [withN ''acCapabilities'' ''TPMS_AC_OUTPUT[]'' ''count'' ''UINT32'' (ser_writeObjArr ''TPMS_AC_OUTPUT'' TPMS_AC_OUTPUT_Serialize (TPML_AC_CAPABILITIES_acCapabilities self))]"

definition TPML_AC_CAPABILITIES_Deserialize :: "TPML_AC_CAPABILITIES \<Rightarrow> TPML_AC_CAPABILITIES ser" where
  "TPML_AC_CAPABILITIES_Deserialize self =
     sbind (withN ''acCapabilities'' ''TPMS_AC_OUTPUT[]'' ''count'' ''UINT32'' (ser_readObjArr ''TPMS_AC_OUTPUT'' TPMS_AC_OUTPUT_Deserialize TPMS_AC_OUTPUT_default (TPML_AC_CAPABILITIES_acCapabilities self))) (\<lambda>acCapabilities.
     ret (self\<lparr>TPML_AC_CAPABILITIES_acCapabilities := acCapabilities\<rparr>))"

definition TPML_AC_CAPABILITIES_text_ok :: "text_class \<Rightarrow> TPML_AC_CAPABILITIES \<Rightarrow> bool" where
  "TPML_AC_CAPABILITIES_text_ok c x \<longleftrightarrow>
     length (TPML_AC_CAPABILITIES_acCapabilities x) < 2 ^ 64 \<and> (\<forall>y \<in> set (TPML_AC_CAPABILITIES_acCapabilities x). TPMS_AC_OUTPUT_text_ok c y)"

interpretation TPML_AC_CAPABILITIES_text: text_codec "''TPML_AC_CAPABILITIES''" TPML_AC_CAPABILITIES_Serialize TPML_AC_CAPABILITIES_Deserialize TPML_AC_CAPABILITIES_default TPML_AC_CAPABILITIES_text_ok
proof
  show "word_ok ''TPML_AC_CAPABILITIES''" by (simp add: word_simps)
  fix c x assume ok: "TPML_AC_CAPABILITIES_text_ok c x"
  from ok show "carries c True (TPML_AC_CAPABILITIES_Serialize x) (TPML_AC_CAPABILITIES_Deserialize TPML_AC_CAPABILITIES_default) x"
    by (simp only: TPML_AC_CAPABILITIES_Serialize_def TPML_AC_CAPABILITIES_Deserialize_def TPML_AC_CAPABILITIES_default_def
       TPML_AC_CAPABILITIES.select_convs TPML_AC_CAPABILITIES.update_convs;
      intro TPMS_AC_OUTPUT_text.as_elements [THEN carries_entry_Cons] carries_body;
      (rule TPML_AC_CAPABILITIES.equality)?; simp add: TPML_AC_CAPABILITIES_text_ok_def word_simps)
qed

end
