(* ===== verification/TextTssTypes.thy ===== *)
theory TextTssTypes
  imports TextNvTypes TpmTssTypes
begin

text \<open>
  \<^verbatim>\<open>TSS.CPP/Src/TpmTypes.cpp\<close>, the text form of the structures of theory \<open>TpmTssTypes\<close>: \<open>X_Serialize\<close> and
  \<open>X_Deserialize\<close> of each class \<open>X\<close>, the values \<open>X_text_ok\<close> that a text of the given kind can carry, and
  the proof that the second method reads what the first one writes (the interpretation \<open>X_text\<close>).
  A class with an array of enumerators has no such interpretation: \<open>readEnumArr\<close> does not read it.
\<close>

subsection \<open>TssObject\<close>

definition TssObject_Serialize :: "TssObject \<Rightarrow> unit ser" where
  "TssObject_Serialize self = wseq
     [withN ''Public'' ''TPMT_PUBLIC'' '''' '''' (ser_writeObj ''TPMT_PUBLIC'' (TPMT_PUBLIC_Serialize (TssObject_Public self))),
      withN ''Sensitive'' ''TPMT_SENSITIVE'' '''' '''' (ser_writeObj ''TPMT_SENSITIVE'' (TPMT_SENSITIVE_Serialize (TssObject_Sensitive self))),
      withN ''Private'' ''TPM2B_PRIVATE'' '''' '''' (ser_writeObj ''TPM2B_PRIVATE'' (TPM2B_PRIVATE_Serialize (TssObject_Private self)))]"

definition TssObject_Deserialize :: "TssObject \<Rightarrow> TssObject ser" where
  "TssObject_Deserialize self =
     sbind (withN ''Public'' ''TPMT_PUBLIC'' '''' '''' (ser_readObj ''TPMT_PUBLIC'' (TPMT_PUBLIC_Deserialize (TssObject_Public self)))) (\<lambda>Public.
     sbind (withN ''Sensitive'' ''TPMT_SENSITIVE'' '''' '''' (ser_readObj ''TPMT_SENSITIVE'' (TPMT_SENSITIVE_Deserialize (TssObject_Sensitive self)))) (\<lambda>Sensitive.
     sbind (withN ''Private'' ''TPM2B_PRIVATE'' '''' '''' (ser_readObj ''TPM2B_PRIVATE'' (TPM2B_PRIVATE_Deserialize (TssObject_Private self)))) (\<lambda>Private.
     ret (self\<lparr>TssObject_Public := Public, TssObject_Sensitive := Sensitive, TssObject_Private := Private\<rparr>))))"

definition TssObject_text_ok :: "text_class \<Rightarrow> TssObject \<Rightarrow> bool" where
  "TssObject_text_ok c x \<longleftrightarrow>
     TPMT_PUBLIC_text_ok c (TssObject_Public x) \<and>
     TPMT_SENSITIVE_text_ok c (TssObject_Sensitive x) \<and>
     TPM2B_PRIVATE_text_ok c (TssObject_Private x)"

interpretation TssObject_text: text_codec "''TssObject''" TssObject_Serialize TssObject_Deserialize TssObject_default TssObject_text_ok
proof
  show "word_ok ''TssObject''" by (simp add: word_simps)
  fix c x assume ok: "TssObject_text_ok c x"
  from ok show "carries c True (TssObject_Serialize x) (TssObject_Deserialize TssObject_default) x"
    by (simp only: TssObject_Serialize_def TssObject_Deserialize_def TssObject_default_def
       TssObject.select_convs TssObject.update_convs;
      intro TPM2B_PRIVATE_text.as_entry [THEN carries_entry_Cons] TPMT_PUBLIC_text.as_entry [THEN carries_entry_Cons] TPMT_SENSITIVE_text.as_entry [THEN carries_entry_Cons] carries_body;
      (rule TssObject.equality)?; simp add: TssObject_text_ok_def word_simps)
qed

subsection \<open>PcrValue\<close>

definition PcrValue_Serialize :: "PcrValue \<Rightarrow> unit ser" where
  "PcrValue_Serialize self = wseq
     [withN ''index'' ''UINT32'' '''' '''' (ser_writeInt (PcrValue_index self)),
      withN ''value'' ''TPMT_HA'' '''' '''' (ser_writeObj ''TPMT_HA'' (TPMT_HA_Serialize (PcrValue_value self)))]"

definition PcrValue_Deserialize :: "PcrValue \<Rightarrow> PcrValue ser" where
  "PcrValue_Deserialize self =
     sbind (withN ''index'' ''UINT32'' '''' '''' ser_readInt) (\<lambda>index.
     sbind (withN ''value'' ''TPMT_HA'' '''' '''' (ser_readObj ''TPMT_HA'' (TPMT_HA_Deserialize (PcrValue_value self)))) (\<lambda>value.
     ret (self\<lparr>PcrValue_index := index, PcrValue_value := value\<rparr>)))"

definition PcrValue_text_ok :: "text_class \<Rightarrow> PcrValue \<Rightarrow> bool" where
  "PcrValue_text_ok c x \<longleftrightarrow>
     TPMT_HA_text_ok c (PcrValue_value x)"

interpretation PcrValue_text: text_codec "''PcrValue''" PcrValue_Serialize PcrValue_Deserialize PcrValue_default PcrValue_text_ok
proof
  show "word_ok ''PcrValue''" by (simp add: word_simps)
  fix c x assume ok: "PcrValue_text_ok c x"
  from ok show "carries c True (PcrValue_Serialize x) (PcrValue_Deserialize PcrValue_default) x"
    by (simp only: PcrValue_Serialize_def PcrValue_Deserialize_def PcrValue_default_def
       PcrValue.select_convs PcrValue.update_convs;
      intro TPMT_HA_text.as_entry [THEN carries_entry_Cons] carries_body;
      (rule PcrValue.equality)?; simp add: PcrValue_text_ok_def word_simps)
qed

subsection \<open>SessionIn\<close>

definition SessionIn_Serialize :: "SessionIn \<Rightarrow> unit ser" where
  "SessionIn_Serialize self = wseq
     [withN ''handle'' ''TPM_HANDLE'' '''' '''' (ser_writeObj ''TPM_HANDLE'' (TPM_HANDLE_Serialize (SessionIn_handle self))),
      withN ''nonceCaller'' ''BYTE[]'' ''nonceCallerSize'' ''UINT16'' (ser_writeSizedByteBuf (SessionIn_nonceCaller self)),
      withN ''attributes'' ''TPMA_SESSION'' '''' '''' (ser_writeEnumT (SessionIn_attributes self) TPMA_SESSION_ID),
      withN ''auth'' ''BYTE[]'' ''authSize'' ''UINT16'' (ser_writeSizedByteBuf (SessionIn_auth self))]"

definition SessionIn_Deserialize :: "SessionIn \<Rightarrow> SessionIn ser" where
  "SessionIn_Deserialize self =
     sbind (withN ''handle'' ''TPM_HANDLE'' '''' '''' (ser_readObj ''TPM_HANDLE'' (TPM_HANDLE_Deserialize (SessionIn_handle self)))) (\<lambda>handle.
     sbind (withN ''nonceCaller'' ''BYTE[]'' ''nonceCallerSize'' ''UINT16'' ser_readSizedByteBuf) (\<lambda>nonceCaller.
     sbind (withN ''attributes'' ''TPMA_SESSION'' '''' '''' (ser_readEnumT TPMA_SESSION_ID)) (\<lambda>attributes.
     sbind (withN ''auth'' ''BYTE[]'' ''authSize'' ''UINT16'' ser_readSizedByteBuf) (\<lambda>auth.
     ret (self\<lparr>SessionIn_handle := handle, SessionIn_nonceCaller := nonceCaller, SessionIn_attributes := attributes, SessionIn_auth := auth\<rparr>)))))"

definition SessionIn_text_ok :: "text_class \<Rightarrow> SessionIn \<Rightarrow> bool" where
  "SessionIn_text_ok c x \<longleftrightarrow>
     TPM_HANDLE_text_ok c (SessionIn_handle x) \<and>
     length (SessionIn_nonceCaller x) < 2 ^ 64 \<and>
     enum_ok c (ucast (SessionIn_attributes x)) TPMA_SESSION_ID \<and>
     length (SessionIn_auth x) < 2 ^ 64"

interpretation SessionIn_text: text_codec "''SessionIn''" SessionIn_Serialize SessionIn_Deserialize SessionIn_default SessionIn_text_ok
proof
  show "word_ok ''SessionIn''" by (simp add: word_simps)
  fix c x assume ok: "SessionIn_text_ok c x"
  from ok show "carries c True (SessionIn_Serialize x) (SessionIn_Deserialize SessionIn_default) x"
    by (simp only: SessionIn_Serialize_def SessionIn_Deserialize_def SessionIn_default_def
       SessionIn.select_convs SessionIn.update_convs;
      intro TPM_HANDLE_text.as_entry [THEN carries_entry_Cons] carries_body;
      (rule SessionIn.equality)?; simp add: SessionIn_text_ok_def word_simps)
qed

subsection \<open>SessionOut\<close>

definition SessionOut_Serialize :: "SessionOut \<Rightarrow> unit ser" where
  "SessionOut_Serialize self = wseq
     [withN ''nonceTpm'' ''BYTE[]'' ''nonceTpmSize'' ''UINT16'' (ser_writeSizedByteBuf (SessionOut_nonceTpm self)),
      withN ''attributes'' ''TPMA_SESSION'' '''' '''' (ser_writeEnumT (SessionOut_attributes self) TPMA_SESSION_ID),
      withN ''auth'' ''BYTE[]'' ''authSize'' ''UINT16'' (ser_writeSizedByteBuf (SessionOut_auth self))]"

definition SessionOut_Deserialize :: "SessionOut \<Rightarrow> SessionOut ser" where
  "SessionOut_Deserialize self =
     sbind (withN ''nonceTpm'' ''BYTE[]'' ''nonceTpmSize'' ''UINT16'' ser_readSizedByteBuf) (\<lambda>nonceTpm.
     sbind (withN ''attributes'' ''TPMA_SESSION'' '''' '''' (ser_readEnumT TPMA_SESSION_ID)) (\<lambda>attributes.
     sbind (withN ''auth'' ''BYTE[]'' ''authSize'' ''UINT16'' ser_readSizedByteBuf) (\<lambda>auth.
     ret (self\<lparr>SessionOut_nonceTpm := nonceTpm, SessionOut_attributes := attributes, SessionOut_auth := auth\<rparr>))))"

definition SessionOut_text_ok :: "text_class \<Rightarrow> SessionOut \<Rightarrow> bool" where
  "SessionOut_text_ok c x \<longleftrightarrow>
     length (SessionOut_nonceTpm x) < 2 ^ 64 \<and>
     enum_ok c (ucast (SessionOut_attributes x)) TPMA_SESSION_ID \<and>
     length (SessionOut_auth x) < 2 ^ 64"

interpretation SessionOut_text: text_codec "''SessionOut''" SessionOut_Serialize SessionOut_Deserialize SessionOut_default SessionOut_text_ok
proof
  show "word_ok ''SessionOut''" by (simp add: word_simps)
  fix c x assume ok: "SessionOut_text_ok c x"
  from ok show "carries c True (SessionOut_Serialize x) (SessionOut_Deserialize SessionOut_default) x"
    by (simp only: SessionOut_Serialize_def SessionOut_Deserialize_def SessionOut_default_def
       SessionOut.select_convs SessionOut.update_convs;
      intro carries_body;
      (rule SessionOut.equality)?; simp add: SessionOut_text_ok_def word_simps)
qed

subsection \<open>CommandHeader\<close>

definition CommandHeader_Serialize :: "CommandHeader \<Rightarrow> unit ser" where
  "CommandHeader_Serialize self = wseq
     [withN ''Tag'' ''TPM_ST'' '''' '''' (ser_writeEnumT (CommandHeader_Tag self) TPM_ST_ID),
      withN ''CommandSize'' ''UINT32'' '''' '''' (ser_writeInt (CommandHeader_CommandSize self)),
      withN ''CommandCode'' ''TPM_CC'' '''' '''' (ser_writeEnumT (CommandHeader_CommandCode self) TPM_CC_ID)]"

definition CommandHeader_Deserialize :: "CommandHeader \<Rightarrow> CommandHeader ser" where
  "CommandHeader_Deserialize self =
     sbind (withN ''Tag'' ''TPM_ST'' '''' '''' (ser_readEnumT TPM_ST_ID)) (\<lambda>Tag.
     sbind (withN ''CommandSize'' ''UINT32'' '''' '''' ser_readInt) (\<lambda>CommandSize.
     sbind (withN ''CommandCode'' ''TPM_CC'' '''' '''' (ser_readEnumT TPM_CC_ID)) (\<lambda>CommandCode.
     ret (self\<lparr>CommandHeader_Tag := Tag, CommandHeader_CommandSize := CommandSize, CommandHeader_CommandCode := CommandCode\<rparr>))))"

definition CommandHeader_text_ok :: "text_class \<Rightarrow> CommandHeader \<Rightarrow> bool" where
  "CommandHeader_text_ok c x \<longleftrightarrow>
     enum_ok c (ucast (CommandHeader_Tag x)) TPM_ST_ID \<and>
     enum_ok c (ucast (CommandHeader_CommandCode x)) TPM_CC_ID"

interpretation CommandHeader_text: text_codec "''CommandHeader''" CommandHeader_Serialize CommandHeader_Deserialize CommandHeader_default CommandHeader_text_ok
proof
  show "word_ok ''CommandHeader''" by (simp add: word_simps)
  fix c x assume ok: "CommandHeader_text_ok c x"
  from ok show "carries c True (CommandHeader_Serialize x) (CommandHeader_Deserialize CommandHeader_default) x"
    by (simp only: CommandHeader_Serialize_def CommandHeader_Deserialize_def CommandHeader_default_def
       CommandHeader.select_convs CommandHeader.update_convs;
      intro carries_body;
      (rule CommandHeader.equality)?; simp add: CommandHeader_text_ok_def word_simps)
qed

subsection \<open>TSS_KEY\<close>

definition TSS_KEY_Serialize :: "TSS_KEY \<Rightarrow> unit ser" where
  "TSS_KEY_Serialize self = wseq
     [withN ''publicPart'' ''TPMT_PUBLIC'' '''' '''' (ser_writeObj ''TPMT_PUBLIC'' (TPMT_PUBLIC_Serialize (TSS_KEY_publicPart self))),
      withN ''privatePart'' ''BYTE[]'' ''privatePartSize'' ''UINT16'' (ser_writeSizedByteBuf (TSS_KEY_privatePart self))]"

definition TSS_KEY_Deserialize :: "TSS_KEY \<Rightarrow> TSS_KEY ser" where
  "TSS_KEY_Deserialize self =
     sbind (withN ''publicPart'' ''TPMT_PUBLIC'' '''' '''' (ser_readObj ''TPMT_PUBLIC'' (TPMT_PUBLIC_Deserialize (TSS_KEY_publicPart self)))) (\<lambda>publicPart.
     sbind (withN ''privatePart'' ''BYTE[]'' ''privatePartSize'' ''UINT16'' ser_readSizedByteBuf) (\<lambda>privatePart.
     ret (self\<lparr>TSS_KEY_publicPart := publicPart, TSS_KEY_privatePart := privatePart\<rparr>)))"

definition TSS_KEY_text_ok :: "text_class \<Rightarrow> TSS_KEY \<Rightarrow> bool" where
  "TSS_KEY_text_ok c x \<longleftrightarrow>
     TPMT_PUBLIC_text_ok c (TSS_KEY_publicPart x) \<and>
     length (TSS_KEY_privatePart x) < 2 ^ 64"

interpretation TSS_KEY_text: text_codec "''TSS_KEY''" TSS_KEY_Serialize TSS_KEY_Deserialize TSS_KEY_default TSS_KEY_text_ok
proof
  show "word_ok ''TSS_KEY''" by (simp add: word_simps)
  fix c x assume ok: "TSS_KEY_text_ok c x"
  from ok show "carries c True (TSS_KEY_Serialize x) (TSS_KEY_Deserialize TSS_KEY_default) x"
    by (simp only: TSS_KEY_Serialize_def TSS_KEY_Deserialize_def TSS_KEY_default_def
       TSS_KEY.select_convs TSS_KEY.update_convs;
      intro TPMT_PUBLIC_text.as_entry [THEN carries_entry_Cons] carries_body;
      (rule TSS_KEY.equality)?; simp add: TSS_KEY_text_ok_def word_simps)
qed

end
