(* ===== verification/SampleRuns.thy ===== *)
theory SampleRuns
  imports Samples Tpm2Sessions Tpm2Progress Tpm2Responses PolicyRefinement TextTssTypes
begin

unbundle bit_operations_syntax

text \<open>
  Runs of the library's operations on the concrete inputs of \<open>Samples\<close>: a quote that is accepted, commands that
  are sent, responses that are taken in.
\<close>

lemma sample_quote_accepted:
  "ValidateQuote sample_ossl sample_key
     \<lparr>PCR_ReadResponse_pcrUpdateCounter = n, PCR_ReadResponse_pcrSelectionOut = [], PCR_ReadResponse_pcrValues = []\<rparr>
     [1, 2, 3] \<lparr>QuoteResponse_quoted = sample_attest, QuoteResponse_signature = sample_signature\<rparr> = Ok True"
proof -
  have "toBytes TPMS_ATTEST_toTpm sample_attest = Ok (TPMS_ATTEST_enc sample_attest)"
    by (simp add: TPMS_ATTEST_codec.toBytes_enc)
  moreover have "TPMS_ATTEST_enc sample_attest \<noteq> []" using length_sample_attest by force
  moreover have "HashLength TPM_ALG_ID_SHA256 = 32" by (simp add: HashLength_def)
  ultimately have "verify_attest sample_ossl sample_key TPM_ALG_ID_SHA256 sample_attest sample_signature = Ok True"
    by (simp add: verify_attest_def Hash_all_Ok sample_signature_def oderef_def Crypto_ValidateSignature_def
        TpmAlgIdToNid_def, simp add: sample_key_def sample_parms_def Let_def as_rsa_parms_def,
        simp add: sample_key_alg [unfolded sample_key_def sample_parms_def] oderef_def
          TpmAlgIdToNid_def)
  then show ?thesis
    by (simp add: ValidateQuote_def Let_def check_attest_def, simp add: sample_attest_def oderef_def
        vectors_eq_def HashPcrs_def Hash_all_Nil HashLength_def)
qed

lemma sample_failure_tolerated:
  "DispatchIn sample_ossl (sample_dev (raw_response TPM_ST_NO_SESSIONS TPM_RC_FAILURE [])) m TPM_CC_Clear resp
      (sample_tpm\<lparr>tp_PendingCommand := TPM_CC_Clear, tp_AllowErrors := True, tp_Sessions := [7]\<rparr>) =
    (Ok (True, resp), (reset_invocation (noted TPM_RC_FAILURE (received ()
      (raw_response TPM_ST_NO_SESSIONS TPM_RC_FAILURE [])
      (sample_tpm\<lparr>tp_PendingCommand := TPM_CC_Clear, tp_AllowErrors := True, tp_Sessions := [7]\<rparr>))))
        \<lparr>tp_Sessions := []\<rparr>)"
  by (subst DispatchIn_error [where d = "()" and d' = "()" and code = TPM_RC_FAILURE
        and tag = TPM_ST_NO_SESSIONS and body = "[]"]) (simp_all add: awaits_def sample_client_def sample_dev_def ret_app received_def
      noted_def tolerated_def ResponseCodeFromTpmError_def IsFmt1_def)

lemma sample_Clear_updated:
  "\<exists>u. CompleteUpdateRequestHandles TPM_CC_Clear t = (Ok (), u) \<and> tp_Sessions u = tp_Sessions t \<and>
     tp_SessTag u = tp_SessTag t \<and> tp_LastResponseCode u = tp_LastResponseCode t \<and>
     tp_DemandError u = tp_DemandError t \<and> tp_ExpectedError u = tp_ExpectedError t"
  by (simp add: CompleteUpdateRequestHandles_def modifyS_app)

definition sample_request :: ReqObj where
  "sample_request = Req_other (TPM2_GetRandom_REQUEST_req \<lparr>TPM2_GetRandom_REQUEST_bytesRequested = 8\<rparr>)"

lemma sample_request_methods:
  "req_getHandles (req_methods sample_request) = []" "req_numAuthHandles (req_methods sample_request) = 0"
  by (simp_all add: sample_request_def TPM2_GetRandom_REQUEST_req_def)

lemma sample_request_writes: "writes (req_toTpm (req_methods sample_request)) (enc16 8)"
  by (simp add: sample_request_def TPM2_GetRandom_REQUEST_req_def TPM2_GetRandom_REQUEST_toTpm_def
      del: wseq.simps) (intro writes_intros)

lemma sample_ParamXcrypt:
  obtains res where "ParamXcrypt sample_ossl sample_session [8, 9] True = Ok res" and "length res = 2"
proof -
  have "aes_cfb 128 sample_session" "nonces_ok sample_session"
    by (simp_all add: aes_cfb_def nonces_ok_def sample_session_def)
  then show thesis
    using that ParamXcrypt_128 [of sample_ossl sample_session "[8, 9]" True] by (auto simp: sample_session_def)
qed




definition sample_keyed_session :: AUTH_SESSION where
  "sample_keyed_session = sample_session\<lparr>as_SessionKey := [5]\<rparr>"

lemma sample_ParamXcrypt_response:
  "ParamXcrypt sample_ossl sample_keyed_session [8, 9] False = Ok [13, 12]"
proof -
  have "aes_cfb 128 sample_keyed_session" "nonces_ok sample_keyed_session"
    by (simp_all add: aes_cfb_def nonces_ok_def sample_session_def sample_keyed_session_def)
  then have "ParamXcrypt sample_ossl sample_keyed_session [8, 9] False = Ok (ossl_cfb128 sample_ossl False
      (take 16 (xcrypt_stream sample_ossl sample_keyed_session False))
      (drop 16 (xcrypt_stream sample_ossl sample_keyed_session False)) [8, 9])"
    by (intro ParamXcrypt_128) (simp_all add: sample_session_def sample_keyed_session_def)
  moreover have "\<exists>xs. take 16 (xcrypt_stream sample_ossl sample_keyed_session False) = 5 # xs"
    by (simp add: xcrypt_stream_def kdf_stream_def Let_def HashLength_def sample_session_def sample_keyed_session_def)
  ultimately show ?thesis by auto
qed

lemma sample_request_updated:
  "UpdateRequestHandles ossl TPM_CC_GetRandom sample_request t = (Ok sample_request, t\<lparr>tp_objectInName := []\<rparr>)"
  by (simp add: UpdateRequestHandles_def set_objectInName_def sample_request_def ret_app)

lemma sample_request_plain: "\<not> uses_sessions sample_tpm sample_request"
  by (simp add: uses_sessions_def sample_request_methods) (simp add: sample_client_def)

lemma sample_request_sent:
  "DispatchOut sample_ossl (sample_dev resp) TPM_CC_GetRandom sample_request sample_tpm =
     (Ok (True, sample_request), sample_tpm
       \<lparr>tp_LastCommandBuf := command_bytes TPM_ST_NO_SESSIONS TPM_CC_GetRandom [] [] (enc16 8),
        tp_PendingCommand := TPM_CC_GetRandom\<rparr>)"
  by (subst DispatchOut_plain [OF _ _ _ sample_request_plain _ sample_request_writes refl _ _
        sample_request_updated, where d = "()" and d' = "()"])
    (simp_all add: sample_request_methods command_bytes_def, simp_all add: sample_client_def sample_dev_def ret_app)

text \<open>A command with one handle, whose authorization value is that of the client.\<close>

definition sample_pcr :: TPM_HANDLE where
  "sample_pcr = (TPM_HANDLE_of 16)\<lparr>TPM_HANDLE_AuthValue := [7, 0]\<rparr>"

definition sample_reset :: ReqObj where
  "sample_reset = Req_other (TPM2_PCR_Reset_REQUEST_req \<lparr>TPM2_PCR_Reset_REQUEST_pcrHandle = sample_pcr\<rparr>)"

lemma sample_reset_methods:
  "req_getHandles (req_methods sample_reset) = [sample_pcr]" "req_numAuthHandles (req_methods sample_reset) = 1"
  by (simp_all add: sample_reset_def TPM2_PCR_Reset_REQUEST_req_def)

lemma sample_reset_writes: "writes (req_toTpm (req_methods sample_reset)) []"
  by (simp add: sample_reset_def TPM2_PCR_Reset_REQUEST_req_def TPM2_PCR_Reset_REQUEST_toTpm_def writes_ret)

lemma sample_pcr_name: "map (fst \<circ> TPM_HANDLE_GetName) [sample_pcr] = map Ok [enc32 16]"
  by (simp add: TPM_HANDLE_GetName_def sample_pcr_def GetHandleType_def TPM_HANDLE_of_def TPM_HANDLE_default_def Int32ToTpm_enc)

lemma sample_session_hmac: "hmac_or_policy sample_session"
  by (simp add: hmac_or_policy_def sample_session_def IsPWAP_def TPM_HANDLE_of_def TPM_HANDLE_default_def)

text \<open>A client with that session, and the bytes that it sends.\<close>

definition sample_attached :: "unit Tpm2" where
  "sample_attached = sample_tpm\<lparr>tp_Sessions := [7]\<rparr>"

lemma sample_attached_facts:
  "tp_sess sample_attached 7 = sample_session" "idle (sample_attached\<lparr>tp_Sessions := []\<rparr>)" "tp_Sessions sample_attached = [7]"
  "tp_device sample_attached = Some ()" "SetRhAuthValue sample_attached sample_pcr = sample_pcr"
  by (simp_all add: sample_attached_def sample_client_def idle_def PwapSession_def SetRhAuthValue_def sample_pcr_def
      TPM_HANDLE_of_def TPM_HANDLE_default_def)

lemma sample_reset_short:
  "length (session_command sample_ossl sample_attached sample_session auth TPM_CC_PCR_Reset [sample_pcr] [enc32 16] []) \<le> 4096"
  by (simp add: session_command_def command_bytes_def Let_def auth_area_def session_auth_def TPMS_AUTH_COMMAND_enc_def enc_sized_def
      TPM_HANDLE_enc_def tpm_auth_field_def tpm_command_hmac_def sample_session_def HashLength_def)

section \<open>Responses\<close>

text \<open>A client that waits for the response to a command in an HMAC session, and responses for it.\<close>

definition sample_waiting :: "unit Tpm2" where
  "sample_waiting = sample_tpm\<lparr>tp_PendingCommand := TPM_CC_SelfTest, tp_SessTag := TPM_ST_SESSIONS, tp_Sessions := [7]\<rparr>"

definition sample_area :: "ByteVec \<Rightarrow> TPMS_AUTH_RESPONSE" where
  "sample_area h = \<lparr>TPMS_AUTH_RESPONSE_nonce = [9, 9], TPMS_AUTH_RESPONSE_sessionAttributes = 1,
     TPMS_AUTH_RESPONSE_hmac = h\<rparr>"

definition sample_hmac :: ByteVec where
  "sample_hmac = response_hmac sample_ossl sample_waiting (tp_sess sample_waiting 7) TPM_CC_SelfTest [] (sample_area [])"

lemma sample_waiting_session: "hmac_session sample_ossl (tp_sess sample_waiting 7)"
  by (simp add: sample_waiting_def sample_client_def hmac_session_def sample_session_def IsPWAP_def TPM_HANDLE_of_def
      PwapSession_def)

lemma sample_waiting_facts:
  "tp_Sessions sample_waiting = [7]" "tp_SessTag sample_waiting = TPM_ST_SESSIONS" "tp_EncSession sample_waiting = None"
  "tp_NonceTpmDec sample_waiting = []" "tp_NonceTpmEnc sample_waiting = []" "\<not> tp_AuditCommand sample_waiting"
  "\<not> tp_DemandError sample_waiting" "tp_ExpectedError sample_waiting = TPM_RC_SUCCESS"
  "awaits TPM_CC_SelfTest sample_waiting" "plain_code TPM_CC_SelfTest" "tp_device sample_waiting = Some ()"
  by (simp_all add: sample_waiting_def sample_client_def awaits_def plain_code_def)

lemma sample_area_sel [simp]:
  "TPMS_AUTH_RESPONSE_hmac (sample_area h) = h" "TPMS_AUTH_RESPONSE_nonce (sample_area h) = [9, 9]"
  by (simp_all add: sample_area_def)

lemma sample_area_bytes:
  "length h \<le> 64 \<Longrightarrow> TPMS_AUTH_RESPONSE_valid (sample_area h)"
  "length h \<le> 64 \<Longrightarrow> length (session_body [] (sample_area h)) + 10 < 2 ^ 32"
  by (simp_all add: sample_area_def TPMS_AUTH_RESPONSE_valid_def sized_ok_def session_body_def
      TPMS_AUTH_RESPONSE_enc_def enc_sized_def)

lemma response_hmac_area: "response_hmac ossl t s cc body (sample_area h) = response_hmac ossl t s cc body (sample_area [])"
  by (simp add: response_hmac_def session_after_def sample_area_def)

lemma sample_hmac: "response_hmac sample_ossl sample_waiting (tp_sess sample_waiting 7) TPM_CC_SelfTest [] (sample_area h) = sample_hmac"
  unfolding sample_hmac_def by (rule response_hmac_area)

lemma length_sample_hmac: "length sample_hmac = 32"
proof -
  have alg: "as_HashAlg (tp_sess sample_waiting 7) = TPM_ALG_ID_SHA256"
    by (simp add: sample_waiting_def sample_client_def sample_session_def PwapSession_def)
  show ?thesis unfolding sample_hmac_def
    by (subst length_response_hmac) (simp_all add: alg HashLength_def)
qed

section \<open>Policies\<close>

text \<open>
  A TPM that carries out every policy command as specified, and a policy to be executed on it: the concrete inputs of
  the properties on policies.
\<close>

text \<open>A digest that depends on the end of its input.\<close>

definition policy_ossl :: Openssl where
  "policy_ossl = sample_ossl\<lparr>ossl_digest := (\<lambda>a m. take (unat (HashLength a)) (rev m @ replicate 64 0))\<rparr>"

lemma policy_ossl_digest [simp]:
  "ossl_digest policy_ossl a m = take (unat (HashLength a)) (rev m @ replicate 64 0)"
  by (simp add: policy_ossl_def)

lemma policy_implements [simp]: "IsImplemented policy_ossl a = IsImplemented sample_ossl a"
  by (simp add: policy_ossl_def IsImplemented_def)

lemma policy_ossl_ok [simp]: "ossl_ok policy_ossl"
proof -
  have "length (take (unat (HashLength a)) (xs @ replicate 64 (0::byte))) = unat (HashLength a)"
    if "IsImplemented sample_ossl a" for a xs
    using IsImplemented_HashLength [OF that] by auto
  then show ?thesis
    using sample_ossl_ok by (simp add: ossl_ok_def) (simp add: policy_ossl_def)
qed

text \<open>The TPM's state is the digest of the policy session and the response to the last command.\<close>

definition command_code :: "ByteVec \<Rightarrow> TPM_CC" where
  "command_code cmd = ucast (shift_sum [24, 16, 8, 0] (take 4 (drop 6 cmd)))"

definition policy_dispatch :: "ByteVec \<Rightarrow> ByteVec \<times> ByteVec \<Rightarrow> unit outcome \<times> ByteVec \<times> ByteVec" where
  "policy_dispatch cmd s = (Ok (), case tpm_policy policy_ossl TPM_ALG_ID_SHA256 (command_code cmd) (drop 14 cmd) (fst s) of
     Some D \<Rightarrow> (D, raw_response TPM_ST_NO_SESSIONS TPM_RC_SUCCESS [])
   | None \<Rightarrow> (fst s, raw_response TPM_ST_NO_SESSIONS TPM_RC_FAILURE []))"

definition policy_dev :: "(ByteVec \<times> ByteVec) TpmDevice" where
  "policy_dev = \<lparr>dev_DispatchCommand = policy_dispatch, dev_GetResponse = (\<lambda>s. (Ok (snd s), s))\<rparr>"

lemma command_code_bytes:
  "command_code (command_bytes tag cc [H] [] params) = cc" "drop 14 (command_bytes tag cc [H] [] params) = params"
  using shift_sum_be(3) [of "ucast cc"]
  by (simp_all add: command_code_def command_bytes_def TPM_HANDLE_enc_def enc32_def)
    (rule bit_word_eqI, auto simp: bit_simps)

lemma policy_dev_answers:
  "answers policy_dev d (command_bytes TPM_ST_NO_SESSIONS cc [H] [] params) resp d' \<longleftrightarrow>
   (resp, d') = (case tpm_policy policy_ossl TPM_ALG_ID_SHA256 cc params (fst d) of
      Some D \<Rightarrow> (raw_response TPM_ST_NO_SESSIONS TPM_RC_SUCCESS [], D, raw_response TPM_ST_NO_SESSIONS TPM_RC_SUCCESS [])
    | None \<Rightarrow> (raw_response TPM_ST_NO_SESSIONS TPM_RC_FAILURE [], fst d, raw_response TPM_ST_NO_SESSIONS TPM_RC_FAILURE []))"
  by (auto simp: answers_def policy_dev_def policy_dispatch_def command_code_bytes split: option.splits)

lemma policy_dev_tpm: "policy_tpm (\<lambda>_. True) policy_ossl TPM_ALG_ID_SHA256 h policy_dev fst"
  unfolding policy_tpm_def Let_def
proof (intro allI impI)
  fix d :: "ByteVec \<times> ByteVec" and cc params H
  let ?cmd = "command_bytes TPM_ST_NO_SESSIONS cc [H] [] params"
  let ?F = "tpm_policy policy_ossl TPM_ALG_ID_SHA256 cc params (fst d)"
  show "(\<exists>d'. refuses policy_dev d ?cmd d') \<or>
    (\<exists>d'. answers policy_dev d ?cmd (raw_response TPM_ST_NO_SESSIONS TPM_RC_SUCCESS []) d' \<and> ?F = Some (fst d'))"
  proof (cases ?F)
    case None
    then have "refuses policy_dev d ?cmd (fst d, raw_response TPM_ST_NO_SESSIONS TPM_RC_FAILURE [])"
      unfolding refuses_def policy_dev_answers
      by (intro exI [of _ TPM_ST_NO_SESSIONS] exI [of _ TPM_RC_FAILURE] exI [of _ "[]"])
        (simp add: ResponseCodeFromTpmError_def IsFmt1_def)
    then show ?thesis by blast
  next
    case (Some D)
    then show ?thesis unfolding policy_dev_answers by auto
  qed
qed

text \<open>It refuses nothing that the specification does not have fail.\<close>

lemma policy_dev_willing:
  assumes "refuses policy_dev d (command_bytes TPM_ST_NO_SESSIONS cc [H] [] params) d'"
  shows "tpm_policy policy_ossl TPM_ALG_ID_SHA256 cc params (fst d) = None"
proof (rule ccontr)
  assume "tpm_policy policy_ossl TPM_ALG_ID_SHA256 cc params (fst d) \<noteq> None"
  then obtain tag code body where r: "raw_response tag code body = raw_response TPM_ST_NO_SESSIONS TPM_RC_SUCCESS []"
      "code \<noteq> TPM_RC_SUCCESS"
    using assms by (auto simp: refuses_def policy_dev_answers)
  have "take 4 (drop 6 (raw_response tag code body)) = enc32 code" for tag code body
    by (simp add: raw_response_def enc16_def enc32_def be_bytes_def)
  then have "enc32 code = enc32 TPM_RC_SUCCESS" using r(1) by metis
  then have "code = TPM_RC_SUCCESS" using reads_unique [OF reads_readInt reads_readInt, of code "[]" TPM_RC_SUCCESS "[]"] by simp
  then show False using r(2) by simp
qed

lemma policy_dev_not_stopped [simp]: "\<not> stopped policy_ossl TPM_ALG_ID_SHA256 h policy_dev fst True r t"
  unfolding stopped_def using policy_dev_willing by metis

definition policy_env :: PolicyEnv where
  "policy_env = \<lparr>theNvCallback = None, theSignCallback = None, pe_ossl = policy_ossl, pe_rsa_sign = (\<lambda>_ _ _ _. None)\<rparr>"

definition sample_branches :: "PABase list list" where
  "sample_branches = [[PolicyCommandCode ''sign'' TPM_CC_Sign], [PolicyAuthValue '''', PolicyCpHash ''once'' [1, 2, 3]]]"

definition sample_policy :: "PABase list" where
  "sample_policy = [PolicyLocality '''' 1, PolicyOr '''' sample_branches]"

lemma sample_policy_ids: "GetBranchIds sample_policy = Ok [''sign'', ''once'']"
  by (simp add: sample_policy_def sample_branches_def GetBranchIds_def GetBranchIdsInternal_def)

lemma sample_policy_plain:
  "or_branches policy_ossl alg sample_branches" "plain_chain policy_ossl alg [PolicyLocality '''' 1]"
  by (simp_all add: or_branches_def plain_chain_def sample_branches_def)

text \<open>A client whose TPM holds a new policy session, with a digest of zeros.\<close>

abbreviation policy_client :: "(ByteVec \<times> ByteVec) Tpm2" where
  "policy_client \<equiv> sample_client (replicate 32 0, [])"

lemma policy_client_executing:
  "executing 3 0x2000000 TPM_ALG_ID_SHA256 (replicate 32 0, []) policy_client"
  by (simp add: executing_def idle_def sample_client_def sample_session_def TPM_HANDLE_of_def PwapSession_def)

section \<open>Text\<close>

text \<open>A key of the library, with its private part, that both text formats can carry.\<close>

definition sample_tss_key :: TSS_KEY where
  "sample_tss_key = \<lparr>TSS_KEY_publicPart = sample_key, TSS_KEY_privatePart = replicate 40 9\<rparr>"

lemma sample_enums:
  "named_enum 1 TPM_ALG_ID_ID" "named_enum 11 TPM_ALG_ID_ID" "named_enum 16 TPM_ALG_ID_ID" "named_enum 20 TPM_ALG_ID_ID"
  "named_enum 0x40040 TPMA_OBJECT_ID"
  by code_simp+

lemma sample_tss_key_text: "TSS_KEY_text_ok JsonSerializer sample_tss_key" "TSS_KEY_text_ok PlainTextSerializer sample_tss_key"
  using sample_enums
  by (simp_all add: enum_ok_def sample_tss_key_def TSS_KEY_text_ok_def sample_key_def sample_parms_def
      TPMT_PUBLIC_text_ok_def TPMS_RSA_PARMS_text_ok_def TPMT_SYM_DEF_OBJECT_text_ok_def TPMS_SCHEME_HASH_text_ok_def
      TPM2B_PUBLIC_KEY_RSA_text_ok_def selector_or_def TPMT_SYM_DEF_OBJECT_default_def)

lemma sample_property_text:
  "TPML_ALG_PROPERTY_text_ok JsonSerializer \<lparr>TPML_ALG_PROPERTY_algProperties =
     [\<lparr>TPMS_ALG_PROPERTY_alg = TPM_ALG_ID_RSA, TPMS_ALG_PROPERTY_algProperties = 9\<rparr>]\<rparr>"
  by (simp add: TPML_ALG_PROPERTY_text_ok_def TPMS_ALG_PROPERTY_text_ok_def)

end
