(* ===== verification/Tpm2Encryption.thy ===== *)
theory Tpm2Encryption
  imports Tpm2Calls Tpm2Methods
begin

unbundle bit_operations_syntax

text \<open>
  Decryption of the first parameter of a response, and what becomes of it when an earlier command was
  answered with an error: the encryption session of that command is still set.
\<close>

section \<open>The first parameter, anywhere in a buffer\<close>

lemma DoParmEncryption_at:
  assumes sess: "(if request then tp_DecSession t else tp_EncSession t) = Some a"
    and sei: "sizeLen sei = 2" "valLen sei = 1" and ok: "sized_ok 2 data"
    and b: "tb_buf b = pre @ enc_sized 2 data @ rest" "tb_pos b \<le> size_buf b"
    and xcrypt: "ParamXcrypt ossl (tp_sess t a) data request = Ok res" and len: "length res = length data"
  shows "DoParmEncryption ossl sei b (length pre) request t =
    (Ok (b\<lparr>tb_buf := pre @ enc_sized 2 res @ rest, tb_outOfBounds := False\<rparr>),
     t\<lparr>tp_EncSession := None, tp_DecSession := None\<rparr>)"
proof -
  let ?size = "ucast (of_nat (length data) :: UINT32) :: UINT64"
  let ?c = "b\<lparr>tb_pos := length pre, tb_outOfBounds := False\<rparr>"
  have sz: "size_buf b = length pre + 2 + length data + length rest"
    using b(1) by (simp add: size_buf_def enc_sized_def)
  have seek: "set_curPos (length pre) b = (Ok (), ?c)" using sz by (simp add: set_curPos_def)
  have ok_c: "buf_ok ?c" and buf_c: "drop (tb_pos ?c) (tb_buf ?c) = enc_sized 2 data @ rest"
    using b sz by (simp_all add: buf_ok_def size_buf_def)
  have read: "reads (readNum 2) (take_bit 16 ?size) (be_bytes 2 ?size)"
    using reads_readNum [of 2 ?size] by simp
  have size: "unat (take_bit 16 ?size) = length data"
    using unat_size_field [OF ok] by simp
  have read1: "readNum 2 ?c = (Ok (take_bit 16 ?size), adv 2 ?c)"
    using reads_Ok [OF read ok_c] b(1) by (simp add: continues_def enc_sized_def)
  have ok_d: "buf_ok (adv 2 ?c)" using b sz by (simp add: buf_ok_def size_buf_def)
  have read2: "readByteBuf (length data) (adv 2 ?c) = (Ok data, adv (2 + length data) ?c)"
    using reads_Ok [OF reads_readByteBuf ok_d, of _ data] b(1)
    by (simp add: continues_def enc_sized_def)
  have get: "on_buf (sseq (set_curPos (length pre)) (sbind (readNum 2) (\<lambda>arrSize. sbind curPos (\<lambda>arrPos.
      sbind (readByteBuf (unat arrSize)) (\<lambda>x. ret (arrPos, x)))))) b =
    Ok ((length pre + 2, data), adv (2 + length data) ?c)"
    using read1 read2 seek by (simp add: on_buf_def sseq_Ok sbind_Ok curPos_def size ret_app)
  let ?d = "(adv (2 + length data) ?c)\<lparr>tb_pos := length pre + 2, tb_outOfBounds := False\<rparr>"
  have seek2: "set_curPos (length pre + 2) (adv (2 + length data) ?c) = (Ok (), ?d)"
    using sz by (simp add: set_curPos_def size_buf_def)
  have wr: "writeByteBuf res ?d = (Ok (), put_bytes res ?d)"
    using len sz by (intro writes_Ok [OF writes_writeByteBuf])
      (simp_all add: buf_ok_def fits_def size_buf_def)
  have "overwrite (length pre + 2) res (tb_buf b) = pre @ enc_sized 2 res @ rest"
    using b(1) len by (simp add: overwrite_def enc_sized_def)
  then have home: "set_curPos (tb_pos b) (put_bytes res ?d) =
      (Ok (), b\<lparr>tb_buf := pre @ enc_sized 2 res @ rest, tb_outOfBounds := False\<rparr>)"
    using b(2) len sz by (simp add: set_curPos_def size_buf_def put_bytes_def enc_sized_def)
  have put: "to_buf (wseq [set_curPos (length pre + 2), writeByteBuf res, set_curPos (tb_pos b)])
      (adv (2 + length data) ?c) t =
    (Ok (b\<lparr>tb_buf := pre @ enc_sized 2 res @ rest, tb_outOfBounds := False\<rparr>), t)"
    using seek2 wr home by (simp add: to_buf_def on_buf_def lift_app sseq_Ok ret_app)
  show ?thesis
    using sess sei xcrypt get put
    by (cases request) (simp_all add: DoParmEncryption_def sseq_def sbind_def sassert_app lift_app Let_def ret_app modifyS_app
        getf_app)
qed

section \<open>A response that is decrypted\<close>

text \<open>A response to a command without sessions, taken in while an encryption session is set.\<close>

lemma complete_command_decrypts:
  assumes tag: "tp_SessTag t = TPM_ST_NO_SESSIONS" and enc: "tp_EncSession t = Some a"
    and m: "resp_numHandles m = 0" "sizeLen (resp_sessEncInfo m) = 2" "valLen (resp_sessEncInfo m) = 1"
    and ok: "sized_ok 2 data" and xcrypt: "ParamXcrypt ossl (tp_sess t a) data False = Ok res" "length res = length data"
    and params: "reads (resp_initFromTpm m r) r' (enc_sized 2 res @ rest)"
    and last: "UpdateRespHandle ossl cc (Resp_other r') (t\<lparr>tp_EncSession := None, tp_DecSession := None\<rparr>) = (Ok resp', u)"
  shows "complete_command ossl m cc False TPM_ST_NO_SESSIONS (Resp_other r)
      (adv 10 (TpmBuffer_of (raw_response TPM_ST_NO_SESSIONS code (enc_sized 2 data @ rest)))) t =
    (Ok (True, resp'), u\<lparr>tp_Sessions := []\<rparr>)"
proof -
  let ?b = "adv 10 (TpmBuffer_of (raw_response TPM_ST_NO_SESSIONS code (enc_sized 2 data @ rest)))"
  let ?u = "t\<lparr>tp_EncSession := None, tp_DecSession := None\<rparr>"
  obtain head where head: "length head = 10" and buf: "tb_buf ?b = head @ enc_sized 2 data @ rest"
    by (rule raw_head)
  let ?c = "?b\<lparr>tb_buf := head @ enc_sized 2 res @ rest, tb_outOfBounds := False\<rparr>"
  have 1: "DoParmEncryption ossl (resp_sessEncInfo m) ?b 10 False t = (Ok ?c, ?u)"
    using DoParmEncryption_at [where request = False, OF _ m(2,3) ok buf _ xcrypt] enc head by simp
  have 2: "on_buf (sseq (set_curPos 10) (sbind (resp_initFromTpm m r) (\<lambda>r. ret (Resp_other r)))) ?c =
      Ok (Resp_other r', adv (length (enc_sized 2 res @ rest)) (?c\<lparr>tb_pos := 10, tb_outOfBounds := False\<rparr>))"
    using read_params_at [OF params, of ?c head] head by simp
  have len: "length (enc_sized 2 res) = length (enc_sized 2 data)" using xcrypt(2) by (simp add: enc_sized_def)
  show ?thesis
    using tag m(1) last
    by (simp add: complete_command_def sbind_Ok [where m = "DoParmEncryption _ _ _ _ _", OF 1] ret_app 2 [simplified]
        sbind_Ok [where m = "UpdateRespHandle _ _ _", OF last] len)
qed

text \<open>
  An encryption session that is set, for whatever reason, decrypts the response of the next command,
  even if that was sent without sessions and its response is not encrypted.
\<close>

lemma Dispatch_decrypts:
  assumes "idle t" and cc: "plain_code cc" and "req_numAuthHandles (req_methods req) = 0"
    and "tp_device t = Some d" and "answers dev d (plain_command cc (req_methods req) params)
      (raw_response TPM_ST_NO_SESSIONS TPM_RC_SUCCESS (enc_sized 2 data @ rest)) d'"
    and "writes (req_toTpm (req_methods req)) params"
    and "length (plain_command cc (req_methods req) params) \<le> 4096"
    and "length (enc_sized 2 data @ rest) + 10 < 2 ^ 32"
    and enc: "tp_EncSession t = Some a"
    and m: "resp_numHandles (m :: (TPM_HANDLE, 'r) RespStructure) = 0"
      "sizeLen (resp_sessEncInfo m) = 2" "valLen (resp_sessEncInfo m) = 1"
    and ok: "sized_ok 2 data" and xcrypt: "ParamXcrypt ossl (tp_sess t a) data False = Ok res" "length res = length data"
    and params: "reads (resp_initFromTpm m r) r' (enc_sized 2 res @ rest)"
  shows "\<exists>t'. Dispatch ossl dev m cc req (Resp_other r) t = Some (Ok (Resp_other r'), t') \<and> idle t'"
proof -
  obtain w where w: "idle w" "tp_SessTag w = TPM_ST_NO_SESSIONS" "tp_EncSession w = Some a" "tp_sess w = tp_sess t"
    and result: "\<And>(m :: (TPM_HANDLE, 'r) RespStructure) resp resp' t'.
      complete_command ossl m cc False TPM_ST_NO_SESSIONS resp
        (adv 10 (TpmBuffer_of (raw_response TPM_ST_NO_SESSIONS TPM_RC_SUCCESS (enc_sized 2 data @ rest)))) w =
          (Ok (True, resp'), t') \<Longrightarrow>
      Dispatch ossl dev m cc req resp t = Some (Ok resp', t')"
    by (rule Dispatch_success [OF assms(1-8)]) (use enc in auto)
  have x: "ParamXcrypt ossl (tp_sess w a) data False = Ok res" using xcrypt(1) w(4) by simp
  show ?thesis
    using result [OF complete_command_decrypts [OF w(2,3) m ok x xcrypt(2) params plain_updates(3) [OF cc]]] w
    by (simp add: idle_def)
qed

section \<open>An instance\<close>

lemma GetRandom_facts:
  "plain_code TPM_CC_GetRandom"
  "req_numAuthHandles (TPM2_GetRandom_REQUEST_req r) = 0" "req_getHandles (TPM2_GetRandom_REQUEST_req r) = []"
  "writes (req_toTpm (TPM2_GetRandom_REQUEST_req \<lparr>TPM2_GetRandom_REQUEST_bytesRequested = n\<rparr>)) (enc16 n)"
  "resp_numHandles GetRandomResponse_resp = 0" "sizeLen (resp_sessEncInfo GetRandomResponse_resp) = 2"
  "valLen (resp_sessEncInfo GetRandomResponse_resp) = 1"
  "sized_ok 2 bytes \<Longrightarrow> reads (resp_initFromTpm GetRandomResponse_resp GetRandomResponse_default)
     \<lparr>GetRandomResponse_randomBytes = bytes\<rparr> (enc_sized 2 bytes)"
  "length (plain_command TPM_CC_GetRandom (TPM2_GetRandom_REQUEST_req r) (enc16 n)) = 12"
  using TPM2_GetRandom_REQUEST_writes [of "\<lparr>TPM2_GetRandom_REQUEST_bytesRequested = n\<rparr>"]
    GetRandomResponse_reads [of "\<lparr>GetRandomResponse_randomBytes = bytes\<rparr>"]
  by (simp_all add: plain_code_def TPM2_GetRandom_REQUEST_req_def TPM2_GetRandom_REQUEST_enc_def
      TPM2_GetRandom_REQUEST_valid_def GetRandomResponse_resp_def GetRandomResponse_enc_def
      GetRandomResponse_valid_def plain_command_def command_bytes_def)

lemma length_sized: "sized_ok 2 bytes \<Longrightarrow> length (enc_sized 2 bytes) + 10 < 2 ^ 32"
  by (simp add: sized_ok_def enc_sized_def)

lemma GetRandom_plain:
  assumes "idle t" and "tp_EncSession t = None" and "tp_device t = Some d"
    and "answers dev d (command_bytes TPM_ST_NO_SESSIONS TPM_CC_GetRandom [] [] (enc16 n))
      (raw_response TPM_ST_NO_SESSIONS TPM_RC_SUCCESS (enc_sized 2 bytes)) d'"
    and ok: "sized_ok 2 bytes"
  shows "\<exists>t'. Tpm2_GetRandom ossl dev n t = Some (Ok bytes, t') \<and> idle t' \<and> tp_device t' = Some d'"
proof -
  let ?req = "TPM2_GetRandom_REQUEST_req \<lparr>TPM2_GetRandom_REQUEST_bytesRequested = n\<rparr>"
  have "\<exists>t'. Dispatch ossl dev GetRandomResponse_resp TPM_CC_GetRandom (Req_other ?req)
      (Resp_other GetRandomResponse_default) t =
        Some (Ok (Resp_other \<lparr>GetRandomResponse_randomBytes = bytes\<rparr>), t') \<and> idle t' \<and> tp_device t' = Some d'"
    using assms(4) length_sized [OF ok]
    by (intro Dispatch_plain [OF assms(1) _ _ assms(3) _ _ _ _ assms(2), where params = "enc16 n" and body = "enc_sized 2 bytes"])
      (simp_all add: GetRandom_facts ok plain_command_def command_bytes_def)
  then show ?thesis by (auto simp: Tpm2_GetRandom_def returning_def)
qed

lemma GetRandom_decrypted:
  assumes "idle t" and "tp_EncSession t = Some a" and "tp_device t = Some d"
    and "answers dev d (command_bytes TPM_ST_NO_SESSIONS TPM_CC_GetRandom [] [] (enc16 n))
      (raw_response TPM_ST_NO_SESSIONS TPM_RC_SUCCESS (enc_sized 2 bytes)) d'"
    and ok: "sized_ok 2 bytes" and x: "ParamXcrypt ossl (tp_sess t a) bytes False = Ok res" "length res = length bytes"
  shows "\<exists>t'. Tpm2_GetRandom ossl dev n t = Some (Ok res, t')"
proof -
  let ?req = "TPM2_GetRandom_REQUEST_req \<lparr>TPM2_GetRandom_REQUEST_bytesRequested = n\<rparr>"
  have ok': "sized_ok 2 res" using ok x(2) by (simp add: sized_ok_def)
  have "\<exists>t'. Dispatch ossl dev GetRandomResponse_resp TPM_CC_GetRandom (Req_other ?req)
      (Resp_other GetRandomResponse_default) t =
        Some (Ok (Resp_other \<lparr>GetRandomResponse_randomBytes = res\<rparr>), t') \<and> idle t'"
    using assms(4) length_sized [OF ok]
    by (intro Dispatch_decrypts [OF assms(1) _ _ assms(3) _ _ _ _ assms(2) _ _ _ ok x,
          where params = "enc16 n" and rest = "[]"])
      (simp_all add: GetRandom_facts ok' plain_command_def command_bytes_def)
  then show ?thesis by (auto simp: Tpm2_GetRandom_def returning_def)
qed

text \<open>One failure is enough: what GetRandom returns after it is not what the TPM sent.\<close>

lemma error_then_GetRandom:
  assumes "awaits cc s" and "tp_device s = Some c"
    and "dev_GetResponse dev c = (Ok (raw_response tag code body), d)" and "length body + 10 < 2 ^ 32"
    and "code \<noteq> TPM_RC_RETRY" and "code \<noteq> TPM_RC_SUCCESS" and "ResponseCodeFromTpmError code \<noteq> TPM_RC_SUCCESS"
    and "tp_EncSession s = Some a"
    and "answers dev d (command_bytes TPM_ST_NO_SESSIONS TPM_CC_GetRandom [] [] (enc16 n))
      (raw_response TPM_ST_NO_SESSIONS TPM_RC_SUCCESS (enc_sized 2 bytes)) d'"
    and "sized_ok 2 bytes" and "ParamXcrypt ossl (tp_sess s a) bytes False = Ok res" and "length res = length bytes"
  shows "\<exists>t'. Tpm2_GetRandom ossl dev n (snd (DispatchIn ossl dev m cc resp s)) = Some (Ok res, t')"
proof (rule GetRandom_decrypted [OF _ _ _ assms(9,10) _ assms(12)])
  let ?t = "snd (DispatchIn ossl dev m cc resp s)"
  let ?u = "(reset_invocation (noted code (received d (raw_response tag code body) s)))\<lparr>tp_Sessions := []\<rparr>"
  have t: "?t = ?u" by (simp add: DispatchIn_error [OF assms(1-7)])
  show "idle ?t" unfolding t by (simp add: idle_def reset_invocation_def)
  show "tp_EncSession ?t = Some a" "tp_device ?t = Some d" "ParamXcrypt ossl (tp_sess ?t a) bytes False = Ok res"
    unfolding t using assms(8,11) by (simp_all add: reset_invocation_def noted_def received_def)
qed

end
