(* ===== verification/Tpm2Async.thy ===== *)
theory Tpm2Async
  imports Tpm2Calls TpmObjectCommands TpmCryptoCommands TpmAttestCommands TpmPolicyCommands TpmAdminCommands TpmNvCommands
begin

text \<open>
  The methods of \<^verbatim>\<open>Tpm2::AsyncMethods\<close> in \<^verbatim>\<open>TSS.CPP/Src/TpmTypes.cpp\<close>: for every command one that sends
  the request and one that takes in the response. The result of \<open>DispatchIn\<close>, which tells whether the command has
  to be retried, is dropped.
\<close>

definition Async_Startup ::
  "Openssl \<Rightarrow> 'd TpmDevice \<Rightarrow> TPM_SU \<Rightarrow> ('d, unit) tp" where
  "Async_Startup ossl dev startupType =
     sbind (DispatchOut ossl dev TPM_CC_Startup
       (Req_other (TPM2_Startup_REQUEST_req
         \<lparr>TPM2_Startup_REQUEST_startupType = startupType\<rparr>))) (\<lambda>_. ret ())"

definition Async_Shutdown ::
  "Openssl \<Rightarrow> 'd TpmDevice \<Rightarrow> TPM_SU \<Rightarrow> ('d, unit) tp" where
  "Async_Shutdown ossl dev shutdownType =
     sbind (DispatchOut ossl dev TPM_CC_Shutdown
       (Req_other (TPM2_Shutdown_REQUEST_req
         \<lparr>TPM2_Shutdown_REQUEST_shutdownType = shutdownType\<rparr>))) (\<lambda>_. ret ())"

definition Async_SelfTest ::
  "Openssl \<Rightarrow> 'd TpmDevice \<Rightarrow> byte \<Rightarrow> ('d, unit) tp" where
  "Async_SelfTest ossl dev fullTest =
     sbind (DispatchOut ossl dev TPM_CC_SelfTest
       (Req_other (TPM2_SelfTest_REQUEST_req
         \<lparr>TPM2_SelfTest_REQUEST_fullTest = fullTest\<rparr>))) (\<lambda>_. ret ())"

definition Async_IncrementalSelfTest ::
  "Openssl \<Rightarrow> 'd TpmDevice \<Rightarrow> TPM_ALG_ID list \<Rightarrow> ('d, unit) tp" where
  "Async_IncrementalSelfTest ossl dev toTest =
     sbind (DispatchOut ossl dev TPM_CC_IncrementalSelfTest
       (Req_other (TPM2_IncrementalSelfTest_REQUEST_req
         \<lparr>TPM2_IncrementalSelfTest_REQUEST_toTest = toTest\<rparr>))) (\<lambda>_. ret ())"

definition Async_GetTestResult ::
  "Openssl \<Rightarrow> 'd TpmDevice \<Rightarrow> ('d, unit) tp" where
  "Async_GetTestResult ossl dev =
     sbind (DispatchOut ossl dev TPM_CC_GetTestResult
       (Req_other empty_req)) (\<lambda>_. ret ())"

definition Async_StartAuthSession ::
  "Openssl \<Rightarrow> 'd TpmDevice \<Rightarrow> TPM_HANDLE \<Rightarrow> TPM_HANDLE \<Rightarrow> ByteVec \<Rightarrow> ByteVec \<Rightarrow> TPM_SE \<Rightarrow> TPMT_SYM_DEF \<Rightarrow>
     TPM_ALG_ID \<Rightarrow> ('d, unit) tp" where
  "Async_StartAuthSession ossl dev tpmKey bind nonceCaller encryptedSalt sessionType symmetric
     authHash =
     sbind (DispatchOut ossl dev TPM_CC_StartAuthSession
       (Req_other (TPM2_StartAuthSession_REQUEST_req
         \<lparr>TPM2_StartAuthSession_REQUEST_tpmKey = tpmKey, TPM2_StartAuthSession_REQUEST_bind = bind,
          TPM2_StartAuthSession_REQUEST_nonceCaller = nonceCaller,
          TPM2_StartAuthSession_REQUEST_encryptedSalt = encryptedSalt,
          TPM2_StartAuthSession_REQUEST_sessionType = sessionType,
          TPM2_StartAuthSession_REQUEST_symmetric = symmetric,
          TPM2_StartAuthSession_REQUEST_authHash = authHash\<rparr>))) (\<lambda>_. ret ())"

definition Async_PolicyRestart ::
  "Openssl \<Rightarrow> 'd TpmDevice \<Rightarrow> TPM_HANDLE \<Rightarrow> ('d, unit) tp" where
  "Async_PolicyRestart ossl dev sessionHandle =
     sbind (DispatchOut ossl dev TPM_CC_PolicyRestart
       (Req_other (TPM2_PolicyRestart_REQUEST_req
         \<lparr>TPM2_PolicyRestart_REQUEST_sessionHandle = sessionHandle\<rparr>))) (\<lambda>_. ret ())"

definition Async_Create ::
  "Openssl \<Rightarrow> 'd TpmDevice \<Rightarrow> TPM_HANDLE \<Rightarrow> TPMS_SENSITIVE_CREATE \<Rightarrow> TPMT_PUBLIC \<Rightarrow> ByteVec \<Rightarrow>
     TPMS_PCR_SELECTION list \<Rightarrow> ('d, unit) tp" where
  "Async_Create ossl dev parentHandle inSensitive inPublic outsideInfo creationPCR =
     sbind (DispatchOut ossl dev TPM_CC_Create
       (Req_other (TPM2_Create_REQUEST_req
         \<lparr>TPM2_Create_REQUEST_parentHandle = parentHandle,
          TPM2_Create_REQUEST_inSensitive = inSensitive, TPM2_Create_REQUEST_inPublic = inPublic,
          TPM2_Create_REQUEST_outsideInfo = outsideInfo, TPM2_Create_REQUEST_creationPCR =
            creationPCR\<rparr>))) (\<lambda>_. ret ())"

definition Async_Load ::
  "Openssl \<Rightarrow> 'd TpmDevice \<Rightarrow> TPM_HANDLE \<Rightarrow> TPM2B_PRIVATE \<Rightarrow> TPMT_PUBLIC \<Rightarrow> ('d, unit) tp" where
  "Async_Load ossl dev parentHandle inPrivate inPublic =
     sbind (DispatchOut ossl dev TPM_CC_Load
       (Req_Load
         \<lparr>TPM2_Load_REQUEST_parentHandle = parentHandle, TPM2_Load_REQUEST_inPrivate = inPrivate,
          TPM2_Load_REQUEST_inPublic = inPublic\<rparr>)) (\<lambda>_. ret ())"

definition Async_LoadExternal ::
  "Openssl \<Rightarrow> 'd TpmDevice \<Rightarrow> TPMT_SENSITIVE \<Rightarrow> TPMT_PUBLIC \<Rightarrow> TPM_HANDLE \<Rightarrow> ('d, unit) tp" where
  "Async_LoadExternal ossl dev inPrivate inPublic hierarchy =
     sbind (DispatchOut ossl dev TPM_CC_LoadExternal
       (Req_LoadExternal
         \<lparr>TPM2_LoadExternal_REQUEST_inPrivate = inPrivate,
          TPM2_LoadExternal_REQUEST_inPublic = inPublic, TPM2_LoadExternal_REQUEST_hierarchy =
            hierarchy\<rparr>)) (\<lambda>_. ret ())"

definition Async_ReadPublic ::
  "Openssl \<Rightarrow> 'd TpmDevice \<Rightarrow> TPM_HANDLE \<Rightarrow> ('d, unit) tp" where
  "Async_ReadPublic ossl dev objectHandle =
     sbind (DispatchOut ossl dev TPM_CC_ReadPublic
       (Req_other (TPM2_ReadPublic_REQUEST_req
         \<lparr>TPM2_ReadPublic_REQUEST_objectHandle = objectHandle\<rparr>))) (\<lambda>_. ret ())"

definition Async_ActivateCredential ::
  "Openssl \<Rightarrow> 'd TpmDevice \<Rightarrow> TPM_HANDLE \<Rightarrow> TPM_HANDLE \<Rightarrow> TPMS_ID_OBJECT \<Rightarrow> ByteVec \<Rightarrow> ('d, unit) tp" where
  "Async_ActivateCredential ossl dev activateHandle keyHandle credentialBlob secret =
     sbind (DispatchOut ossl dev TPM_CC_ActivateCredential
       (Req_other (TPM2_ActivateCredential_REQUEST_req
         \<lparr>TPM2_ActivateCredential_REQUEST_activateHandle = activateHandle,
          TPM2_ActivateCredential_REQUEST_keyHandle = keyHandle,
          TPM2_ActivateCredential_REQUEST_credentialBlob = credentialBlob,
          TPM2_ActivateCredential_REQUEST_secret = secret\<rparr>))) (\<lambda>_. ret ())"

definition Async_MakeCredential ::
  "Openssl \<Rightarrow> 'd TpmDevice \<Rightarrow> TPM_HANDLE \<Rightarrow> ByteVec \<Rightarrow> ByteVec \<Rightarrow> ('d, unit) tp" where
  "Async_MakeCredential ossl dev handle credential objectName =
     sbind (DispatchOut ossl dev TPM_CC_MakeCredential
       (Req_other (TPM2_MakeCredential_REQUEST_req
         \<lparr>TPM2_MakeCredential_REQUEST_handle = handle,
          TPM2_MakeCredential_REQUEST_credential = credential,
          TPM2_MakeCredential_REQUEST_objectName = objectName\<rparr>))) (\<lambda>_. ret ())"

definition Async_Unseal ::
  "Openssl \<Rightarrow> 'd TpmDevice \<Rightarrow> TPM_HANDLE \<Rightarrow> ('d, unit) tp" where
  "Async_Unseal ossl dev itemHandle =
     sbind (DispatchOut ossl dev TPM_CC_Unseal
       (Req_other (TPM2_Unseal_REQUEST_req
         \<lparr>TPM2_Unseal_REQUEST_itemHandle = itemHandle\<rparr>))) (\<lambda>_. ret ())"

definition Async_ObjectChangeAuth ::
  "Openssl \<Rightarrow> 'd TpmDevice \<Rightarrow> TPM_HANDLE \<Rightarrow> TPM_HANDLE \<Rightarrow> ByteVec \<Rightarrow> ('d, unit) tp" where
  "Async_ObjectChangeAuth ossl dev objectHandle parentHandle newAuth =
     sbind (DispatchOut ossl dev TPM_CC_ObjectChangeAuth
       (Req_ObjectChangeAuth
         \<lparr>TPM2_ObjectChangeAuth_REQUEST_objectHandle = objectHandle,
          TPM2_ObjectChangeAuth_REQUEST_parentHandle = parentHandle,
          TPM2_ObjectChangeAuth_REQUEST_newAuth = newAuth\<rparr>)) (\<lambda>_. ret ())"

definition Async_CreateLoaded ::
  "Openssl \<Rightarrow> 'd TpmDevice \<Rightarrow> TPM_HANDLE \<Rightarrow> TPMS_SENSITIVE_CREATE \<Rightarrow> ByteVec \<Rightarrow> ('d, unit) tp" where
  "Async_CreateLoaded ossl dev parentHandle inSensitive inPublic =
     sbind (DispatchOut ossl dev TPM_CC_CreateLoaded
       (Req_other (TPM2_CreateLoaded_REQUEST_req
         \<lparr>TPM2_CreateLoaded_REQUEST_parentHandle = parentHandle,
          TPM2_CreateLoaded_REQUEST_inSensitive = inSensitive,
          TPM2_CreateLoaded_REQUEST_inPublic = inPublic\<rparr>))) (\<lambda>_. ret ())"

definition Async_Duplicate ::
  "Openssl \<Rightarrow> 'd TpmDevice \<Rightarrow> TPM_HANDLE \<Rightarrow> TPM_HANDLE \<Rightarrow> ByteVec \<Rightarrow> TPMT_SYM_DEF_OBJECT \<Rightarrow>
     ('d, unit) tp" where
  "Async_Duplicate ossl dev objectHandle newParentHandle encryptionKeyIn symmetricAlg =
     sbind (DispatchOut ossl dev TPM_CC_Duplicate
       (Req_other (TPM2_Duplicate_REQUEST_req
         \<lparr>TPM2_Duplicate_REQUEST_objectHandle = objectHandle,
          TPM2_Duplicate_REQUEST_newParentHandle = newParentHandle,
          TPM2_Duplicate_REQUEST_encryptionKeyIn = encryptionKeyIn,
          TPM2_Duplicate_REQUEST_symmetricAlg = symmetricAlg\<rparr>))) (\<lambda>_. ret ())"

definition Async_Rewrap ::
  "Openssl \<Rightarrow> 'd TpmDevice \<Rightarrow> TPM_HANDLE \<Rightarrow> TPM_HANDLE \<Rightarrow> TPM2B_PRIVATE \<Rightarrow> ByteVec \<Rightarrow> ByteVec \<Rightarrow>
     ('d, unit) tp" where
  "Async_Rewrap ossl dev oldParent newParent inDuplicate name inSymSeed =
     sbind (DispatchOut ossl dev TPM_CC_Rewrap
       (Req_other (TPM2_Rewrap_REQUEST_req
         \<lparr>TPM2_Rewrap_REQUEST_oldParent = oldParent, TPM2_Rewrap_REQUEST_newParent = newParent,
          TPM2_Rewrap_REQUEST_inDuplicate = inDuplicate, TPM2_Rewrap_REQUEST_name = name,
          TPM2_Rewrap_REQUEST_inSymSeed = inSymSeed\<rparr>))) (\<lambda>_. ret ())"

definition Async_Import ::
  "Openssl \<Rightarrow> 'd TpmDevice \<Rightarrow> TPM_HANDLE \<Rightarrow> ByteVec \<Rightarrow> TPMT_PUBLIC \<Rightarrow> TPM2B_PRIVATE \<Rightarrow> ByteVec \<Rightarrow>
     TPMT_SYM_DEF_OBJECT \<Rightarrow> ('d, unit) tp" where
  "Async_Import ossl dev parentHandle encryptionKey objectPublic duplicate inSymSeed symmetricAlg =
     sbind (DispatchOut ossl dev TPM_CC_Import
       (Req_other (TPM2_Import_REQUEST_req
         \<lparr>TPM2_Import_REQUEST_parentHandle = parentHandle,
          TPM2_Import_REQUEST_encryptionKey = encryptionKey,
          TPM2_Import_REQUEST_objectPublic = objectPublic, TPM2_Import_REQUEST_duplicate = duplicate,
          TPM2_Import_REQUEST_inSymSeed = inSymSeed, TPM2_Import_REQUEST_symmetricAlg =
            symmetricAlg\<rparr>))) (\<lambda>_. ret ())"

definition Async_RSA_Encrypt ::
  "Openssl \<Rightarrow> 'd TpmDevice \<Rightarrow> TPM_HANDLE \<Rightarrow> ByteVec \<Rightarrow> TPMU_ASYM_SCHEME \<Rightarrow> ByteVec \<Rightarrow> ('d, unit) tp" where
  "Async_RSA_Encrypt ossl dev keyHandle message inScheme label =
     sbind (DispatchOut ossl dev TPM_CC_RSA_Encrypt
       (Req_other (TPM2_RSA_Encrypt_REQUEST_req
         \<lparr>TPM2_RSA_Encrypt_REQUEST_keyHandle = keyHandle, TPM2_RSA_Encrypt_REQUEST_message = message,
          TPM2_RSA_Encrypt_REQUEST_inScheme = Some inScheme, TPM2_RSA_Encrypt_REQUEST_label =
            label\<rparr>))) (\<lambda>_. ret ())"

definition Async_RSA_Decrypt ::
  "Openssl \<Rightarrow> 'd TpmDevice \<Rightarrow> TPM_HANDLE \<Rightarrow> ByteVec \<Rightarrow> TPMU_ASYM_SCHEME \<Rightarrow> ByteVec \<Rightarrow> ('d, unit) tp" where
  "Async_RSA_Decrypt ossl dev keyHandle cipherText inScheme label =
     sbind (DispatchOut ossl dev TPM_CC_RSA_Decrypt
       (Req_other (TPM2_RSA_Decrypt_REQUEST_req
         \<lparr>TPM2_RSA_Decrypt_REQUEST_keyHandle = keyHandle,
          TPM2_RSA_Decrypt_REQUEST_cipherText = cipherText,
          TPM2_RSA_Decrypt_REQUEST_inScheme = Some inScheme, TPM2_RSA_Decrypt_REQUEST_label =
            label\<rparr>))) (\<lambda>_. ret ())"

definition Async_ECDH_KeyGen ::
  "Openssl \<Rightarrow> 'd TpmDevice \<Rightarrow> TPM_HANDLE \<Rightarrow> ('d, unit) tp" where
  "Async_ECDH_KeyGen ossl dev keyHandle =
     sbind (DispatchOut ossl dev TPM_CC_ECDH_KeyGen
       (Req_other (TPM2_ECDH_KeyGen_REQUEST_req
         \<lparr>TPM2_ECDH_KeyGen_REQUEST_keyHandle = keyHandle\<rparr>))) (\<lambda>_. ret ())"

definition Async_ECDH_ZGen ::
  "Openssl \<Rightarrow> 'd TpmDevice \<Rightarrow> TPM_HANDLE \<Rightarrow> TPMS_ECC_POINT \<Rightarrow> ('d, unit) tp" where
  "Async_ECDH_ZGen ossl dev keyHandle inPoint =
     sbind (DispatchOut ossl dev TPM_CC_ECDH_ZGen
       (Req_other (TPM2_ECDH_ZGen_REQUEST_req
         \<lparr>TPM2_ECDH_ZGen_REQUEST_keyHandle = keyHandle, TPM2_ECDH_ZGen_REQUEST_inPoint = inPoint\<rparr>)))
           (\<lambda>_. ret ())"

definition Async_ECC_Parameters ::
  "Openssl \<Rightarrow> 'd TpmDevice \<Rightarrow> TPM_ECC_CURVE \<Rightarrow> ('d, unit) tp" where
  "Async_ECC_Parameters ossl dev curveID =
     sbind (DispatchOut ossl dev TPM_CC_ECC_Parameters
       (Req_other (TPM2_ECC_Parameters_REQUEST_req
         \<lparr>TPM2_ECC_Parameters_REQUEST_curveID = curveID\<rparr>))) (\<lambda>_. ret ())"

definition Async_ZGen_2Phase ::
  "Openssl \<Rightarrow> 'd TpmDevice \<Rightarrow> TPM_HANDLE \<Rightarrow> TPMS_ECC_POINT \<Rightarrow> TPMS_ECC_POINT \<Rightarrow> TPM_ALG_ID \<Rightarrow> UINT16 \<Rightarrow>
     ('d, unit) tp" where
  "Async_ZGen_2Phase ossl dev keyA inQsB inQeB inScheme counter =
     sbind (DispatchOut ossl dev TPM_CC_ZGen_2Phase
       (Req_other (TPM2_ZGen_2Phase_REQUEST_req
         \<lparr>TPM2_ZGen_2Phase_REQUEST_keyA = keyA, TPM2_ZGen_2Phase_REQUEST_inQsB = inQsB,
          TPM2_ZGen_2Phase_REQUEST_inQeB = inQeB, TPM2_ZGen_2Phase_REQUEST_inScheme = inScheme,
          TPM2_ZGen_2Phase_REQUEST_counter = counter\<rparr>))) (\<lambda>_. ret ())"

definition Async_ECC_Encrypt ::
  "Openssl \<Rightarrow> 'd TpmDevice \<Rightarrow> TPM_HANDLE \<Rightarrow> ByteVec \<Rightarrow> TPMU_KDF_SCHEME \<Rightarrow> ('d, unit) tp" where
  "Async_ECC_Encrypt ossl dev keyHandle plainText inScheme =
     sbind (DispatchOut ossl dev TPM_CC_ECC_Encrypt
       (Req_other (TPM2_ECC_Encrypt_REQUEST_req
         \<lparr>TPM2_ECC_Encrypt_REQUEST_keyHandle = keyHandle,
          TPM2_ECC_Encrypt_REQUEST_plainText = plainText,
          TPM2_ECC_Encrypt_REQUEST_inScheme = Some inScheme\<rparr>))) (\<lambda>_. ret ())"

definition Async_ECC_Decrypt ::
  "Openssl \<Rightarrow> 'd TpmDevice \<Rightarrow> TPM_HANDLE \<Rightarrow> TPMS_ECC_POINT \<Rightarrow> ByteVec \<Rightarrow> ByteVec \<Rightarrow> TPMU_KDF_SCHEME \<Rightarrow>
     ('d, unit) tp" where
  "Async_ECC_Decrypt ossl dev keyHandle C1 C2 C3 inScheme =
     sbind (DispatchOut ossl dev TPM_CC_ECC_Decrypt
       (Req_other (TPM2_ECC_Decrypt_REQUEST_req
         \<lparr>TPM2_ECC_Decrypt_REQUEST_keyHandle = keyHandle, TPM2_ECC_Decrypt_REQUEST_C1 = C1,
          TPM2_ECC_Decrypt_REQUEST_C2 = C2, TPM2_ECC_Decrypt_REQUEST_C3 = C3,
          TPM2_ECC_Decrypt_REQUEST_inScheme = Some inScheme\<rparr>))) (\<lambda>_. ret ())"

definition Async_EncryptDecrypt ::
  "Openssl \<Rightarrow> 'd TpmDevice \<Rightarrow> TPM_HANDLE \<Rightarrow> byte \<Rightarrow> TPM_ALG_ID \<Rightarrow> ByteVec \<Rightarrow> ByteVec \<Rightarrow> ('d, unit) tp" where
  "Async_EncryptDecrypt ossl dev keyHandle decrypt mode ivIn inData =
     sbind (DispatchOut ossl dev TPM_CC_EncryptDecrypt
       (Req_other (TPM2_EncryptDecrypt_REQUEST_req
         \<lparr>TPM2_EncryptDecrypt_REQUEST_keyHandle = keyHandle,
          TPM2_EncryptDecrypt_REQUEST_decrypt = decrypt, TPM2_EncryptDecrypt_REQUEST_mode = mode,
          TPM2_EncryptDecrypt_REQUEST_ivIn = ivIn, TPM2_EncryptDecrypt_REQUEST_inData = inData\<rparr>)))
            (\<lambda>_. ret ())"

definition Async_EncryptDecrypt2 ::
  "Openssl \<Rightarrow> 'd TpmDevice \<Rightarrow> TPM_HANDLE \<Rightarrow> ByteVec \<Rightarrow> byte \<Rightarrow> TPM_ALG_ID \<Rightarrow> ByteVec \<Rightarrow> ('d, unit) tp" where
  "Async_EncryptDecrypt2 ossl dev keyHandle inData decrypt mode ivIn =
     sbind (DispatchOut ossl dev TPM_CC_EncryptDecrypt2
       (Req_other (TPM2_EncryptDecrypt2_REQUEST_req
         \<lparr>TPM2_EncryptDecrypt2_REQUEST_keyHandle = keyHandle,
          TPM2_EncryptDecrypt2_REQUEST_inData = inData, TPM2_EncryptDecrypt2_REQUEST_decrypt = decrypt,
          TPM2_EncryptDecrypt2_REQUEST_mode = mode, TPM2_EncryptDecrypt2_REQUEST_ivIn = ivIn\<rparr>))) (\<lambda>_.
            ret ())"

definition Async_Hash ::
  "Openssl \<Rightarrow> 'd TpmDevice \<Rightarrow> ByteVec \<Rightarrow> TPM_ALG_ID \<Rightarrow> TPM_HANDLE \<Rightarrow> ('d, unit) tp" where
  "Async_Hash ossl dev data hashAlg hierarchy =
     sbind (DispatchOut ossl dev TPM_CC_Hash
       (Req_other (TPM2_Hash_REQUEST_req
         \<lparr>TPM2_Hash_REQUEST_data = data, TPM2_Hash_REQUEST_hashAlg = hashAlg,
          TPM2_Hash_REQUEST_hierarchy = hierarchy\<rparr>))) (\<lambda>_. ret ())"

definition Async_HMAC ::
  "Openssl \<Rightarrow> 'd TpmDevice \<Rightarrow> TPM_HANDLE \<Rightarrow> ByteVec \<Rightarrow> TPM_ALG_ID \<Rightarrow> ('d, unit) tp" where
  "Async_HMAC ossl dev handle buffer hashAlg =
     sbind (DispatchOut ossl dev TPM_CC_HMAC
       (Req_other (TPM2_HMAC_REQUEST_req
         \<lparr>TPM2_HMAC_REQUEST_handle = handle, TPM2_HMAC_REQUEST_buffer = buffer,
          TPM2_HMAC_REQUEST_hashAlg = hashAlg\<rparr>))) (\<lambda>_. ret ())"

definition Async_MAC ::
  "Openssl \<Rightarrow> 'd TpmDevice \<Rightarrow> TPM_HANDLE \<Rightarrow> ByteVec \<Rightarrow> TPM_ALG_ID \<Rightarrow> ('d, unit) tp" where
  "Async_MAC ossl dev handle buffer inScheme =
     sbind (DispatchOut ossl dev TPM_CC_MAC
       (Req_other (TPM2_MAC_REQUEST_req
         \<lparr>TPM2_MAC_REQUEST_handle = handle, TPM2_MAC_REQUEST_buffer = buffer,
          TPM2_MAC_REQUEST_inScheme = inScheme\<rparr>))) (\<lambda>_. ret ())"

definition Async_GetRandom ::
  "Openssl \<Rightarrow> 'd TpmDevice \<Rightarrow> UINT16 \<Rightarrow> ('d, unit) tp" where
  "Async_GetRandom ossl dev bytesRequested =
     sbind (DispatchOut ossl dev TPM_CC_GetRandom
       (Req_other (TPM2_GetRandom_REQUEST_req
         \<lparr>TPM2_GetRandom_REQUEST_bytesRequested = bytesRequested\<rparr>))) (\<lambda>_. ret ())"

definition Async_StirRandom ::
  "Openssl \<Rightarrow> 'd TpmDevice \<Rightarrow> ByteVec \<Rightarrow> ('d, unit) tp" where
  "Async_StirRandom ossl dev inData =
     sbind (DispatchOut ossl dev TPM_CC_StirRandom
       (Req_other (TPM2_StirRandom_REQUEST_req
         \<lparr>TPM2_StirRandom_REQUEST_inData = inData\<rparr>))) (\<lambda>_. ret ())"

definition Async_HMAC_Start ::
  "Openssl \<Rightarrow> 'd TpmDevice \<Rightarrow> TPM_HANDLE \<Rightarrow> ByteVec \<Rightarrow> TPM_ALG_ID \<Rightarrow> ('d, unit) tp" where
  "Async_HMAC_Start ossl dev handle auth hashAlg =
     sbind (DispatchOut ossl dev TPM_CC_HMAC_Start
       (Req_other (TPM2_HMAC_Start_REQUEST_req
         \<lparr>TPM2_HMAC_Start_REQUEST_handle = handle, TPM2_HMAC_Start_REQUEST_auth = auth,
          TPM2_HMAC_Start_REQUEST_hashAlg = hashAlg\<rparr>))) (\<lambda>_. ret ())"

definition Async_MAC_Start ::
  "Openssl \<Rightarrow> 'd TpmDevice \<Rightarrow> TPM_HANDLE \<Rightarrow> ByteVec \<Rightarrow> TPM_ALG_ID \<Rightarrow> ('d, unit) tp" where
  "Async_MAC_Start ossl dev handle auth inScheme =
     sbind (DispatchOut ossl dev TPM_CC_MAC_Start
       (Req_other (TPM2_MAC_Start_REQUEST_req
         \<lparr>TPM2_MAC_Start_REQUEST_handle = handle, TPM2_MAC_Start_REQUEST_auth = auth,
          TPM2_MAC_Start_REQUEST_inScheme = inScheme\<rparr>))) (\<lambda>_. ret ())"

definition Async_HashSequenceStart ::
  "Openssl \<Rightarrow> 'd TpmDevice \<Rightarrow> ByteVec \<Rightarrow> TPM_ALG_ID \<Rightarrow> ('d, unit) tp" where
  "Async_HashSequenceStart ossl dev auth hashAlg =
     sbind (DispatchOut ossl dev TPM_CC_HashSequenceStart
       (Req_HashSequenceStart
         \<lparr>TPM2_HashSequenceStart_REQUEST_auth = auth, TPM2_HashSequenceStart_REQUEST_hashAlg =
           hashAlg\<rparr>)) (\<lambda>_. ret ())"

definition Async_SequenceUpdate ::
  "Openssl \<Rightarrow> 'd TpmDevice \<Rightarrow> TPM_HANDLE \<Rightarrow> ByteVec \<Rightarrow> ('d, unit) tp" where
  "Async_SequenceUpdate ossl dev sequenceHandle buffer =
     sbind (DispatchOut ossl dev TPM_CC_SequenceUpdate
       (Req_other (TPM2_SequenceUpdate_REQUEST_req
         \<lparr>TPM2_SequenceUpdate_REQUEST_sequenceHandle = sequenceHandle,
          TPM2_SequenceUpdate_REQUEST_buffer = buffer\<rparr>))) (\<lambda>_. ret ())"

definition Async_SequenceComplete ::
  "Openssl \<Rightarrow> 'd TpmDevice \<Rightarrow> TPM_HANDLE \<Rightarrow> ByteVec \<Rightarrow> TPM_HANDLE \<Rightarrow> ('d, unit) tp" where
  "Async_SequenceComplete ossl dev sequenceHandle buffer hierarchy =
     sbind (DispatchOut ossl dev TPM_CC_SequenceComplete
       (Req_other (TPM2_SequenceComplete_REQUEST_req
         \<lparr>TPM2_SequenceComplete_REQUEST_sequenceHandle = sequenceHandle,
          TPM2_SequenceComplete_REQUEST_buffer = buffer,
          TPM2_SequenceComplete_REQUEST_hierarchy = hierarchy\<rparr>))) (\<lambda>_. ret ())"

definition Async_EventSequenceComplete ::
  "Openssl \<Rightarrow> 'd TpmDevice \<Rightarrow> TPM_HANDLE \<Rightarrow> TPM_HANDLE \<Rightarrow> ByteVec \<Rightarrow> ('d, unit) tp" where
  "Async_EventSequenceComplete ossl dev pcrHandle sequenceHandle buffer =
     sbind (DispatchOut ossl dev TPM_CC_EventSequenceComplete
       (Req_other (TPM2_EventSequenceComplete_REQUEST_req
         \<lparr>TPM2_EventSequenceComplete_REQUEST_pcrHandle = pcrHandle,
          TPM2_EventSequenceComplete_REQUEST_sequenceHandle = sequenceHandle,
          TPM2_EventSequenceComplete_REQUEST_buffer = buffer\<rparr>))) (\<lambda>_. ret ())"

definition Async_Certify ::
  "Openssl \<Rightarrow> 'd TpmDevice \<Rightarrow> TPM_HANDLE \<Rightarrow> TPM_HANDLE \<Rightarrow> ByteVec \<Rightarrow> TPMU_SIG_SCHEME \<Rightarrow> ('d, unit) tp" where
  "Async_Certify ossl dev objectHandle signHandle qualifyingData inScheme =
     sbind (DispatchOut ossl dev TPM_CC_Certify
       (Req_other (TPM2_Certify_REQUEST_req
         \<lparr>TPM2_Certify_REQUEST_objectHandle = objectHandle,
          TPM2_Certify_REQUEST_signHandle = signHandle,
          TPM2_Certify_REQUEST_qualifyingData = qualifyingData,
          TPM2_Certify_REQUEST_inScheme = Some inScheme\<rparr>))) (\<lambda>_. ret ())"

definition Async_CertifyCreation ::
  "Openssl \<Rightarrow> 'd TpmDevice \<Rightarrow> TPM_HANDLE \<Rightarrow> TPM_HANDLE \<Rightarrow> ByteVec \<Rightarrow> ByteVec \<Rightarrow> TPMU_SIG_SCHEME \<Rightarrow>
     TPMT_TK_CREATION \<Rightarrow> ('d, unit) tp" where
  "Async_CertifyCreation ossl dev signHandle objectHandle qualifyingData creationHash inScheme
     creationTicket =
     sbind (DispatchOut ossl dev TPM_CC_CertifyCreation
       (Req_other (TPM2_CertifyCreation_REQUEST_req
         \<lparr>TPM2_CertifyCreation_REQUEST_signHandle = signHandle,
          TPM2_CertifyCreation_REQUEST_objectHandle = objectHandle,
          TPM2_CertifyCreation_REQUEST_qualifyingData = qualifyingData,
          TPM2_CertifyCreation_REQUEST_creationHash = creationHash,
          TPM2_CertifyCreation_REQUEST_inScheme = Some inScheme,
          TPM2_CertifyCreation_REQUEST_creationTicket = creationTicket\<rparr>))) (\<lambda>_. ret ())"

definition Async_Quote ::
  "Openssl \<Rightarrow> 'd TpmDevice \<Rightarrow> TPM_HANDLE \<Rightarrow> ByteVec \<Rightarrow> TPMU_SIG_SCHEME \<Rightarrow> TPMS_PCR_SELECTION list \<Rightarrow>
     ('d, unit) tp" where
  "Async_Quote ossl dev signHandle qualifyingData inScheme PCRselect =
     sbind (DispatchOut ossl dev TPM_CC_Quote
       (Req_other (TPM2_Quote_REQUEST_req
         \<lparr>TPM2_Quote_REQUEST_signHandle = signHandle,
          TPM2_Quote_REQUEST_qualifyingData = qualifyingData,
          TPM2_Quote_REQUEST_inScheme = Some inScheme, TPM2_Quote_REQUEST_PCRselect = PCRselect\<rparr>)))
            (\<lambda>_. ret ())"

definition Async_GetSessionAuditDigest ::
  "Openssl \<Rightarrow> 'd TpmDevice \<Rightarrow> TPM_HANDLE \<Rightarrow> TPM_HANDLE \<Rightarrow> TPM_HANDLE \<Rightarrow> ByteVec \<Rightarrow> TPMU_SIG_SCHEME \<Rightarrow>
     ('d, unit) tp" where
  "Async_GetSessionAuditDigest ossl dev privacyAdminHandle signHandle sessionHandle qualifyingData
     inScheme =
     sbind (DispatchOut ossl dev TPM_CC_GetSessionAuditDigest
       (Req_other (TPM2_GetSessionAuditDigest_REQUEST_req
         \<lparr>TPM2_GetSessionAuditDigest_REQUEST_privacyAdminHandle = privacyAdminHandle,
          TPM2_GetSessionAuditDigest_REQUEST_signHandle = signHandle,
          TPM2_GetSessionAuditDigest_REQUEST_sessionHandle = sessionHandle,
          TPM2_GetSessionAuditDigest_REQUEST_qualifyingData = qualifyingData,
          TPM2_GetSessionAuditDigest_REQUEST_inScheme = Some inScheme\<rparr>))) (\<lambda>_. ret ())"

definition Async_GetCommandAuditDigest ::
  "Openssl \<Rightarrow> 'd TpmDevice \<Rightarrow> TPM_HANDLE \<Rightarrow> TPM_HANDLE \<Rightarrow> ByteVec \<Rightarrow> TPMU_SIG_SCHEME \<Rightarrow> ('d, unit) tp" where
  "Async_GetCommandAuditDigest ossl dev privacyHandle signHandle qualifyingData inScheme =
     sbind (DispatchOut ossl dev TPM_CC_GetCommandAuditDigest
       (Req_other (TPM2_GetCommandAuditDigest_REQUEST_req
         \<lparr>TPM2_GetCommandAuditDigest_REQUEST_privacyHandle = privacyHandle,
          TPM2_GetCommandAuditDigest_REQUEST_signHandle = signHandle,
          TPM2_GetCommandAuditDigest_REQUEST_qualifyingData = qualifyingData,
          TPM2_GetCommandAuditDigest_REQUEST_inScheme = Some inScheme\<rparr>))) (\<lambda>_. ret ())"

definition Async_GetTime ::
  "Openssl \<Rightarrow> 'd TpmDevice \<Rightarrow> TPM_HANDLE \<Rightarrow> TPM_HANDLE \<Rightarrow> ByteVec \<Rightarrow> TPMU_SIG_SCHEME \<Rightarrow> ('d, unit) tp" where
  "Async_GetTime ossl dev privacyAdminHandle signHandle qualifyingData inScheme =
     sbind (DispatchOut ossl dev TPM_CC_GetTime
       (Req_other (TPM2_GetTime_REQUEST_req
         \<lparr>TPM2_GetTime_REQUEST_privacyAdminHandle = privacyAdminHandle,
          TPM2_GetTime_REQUEST_signHandle = signHandle,
          TPM2_GetTime_REQUEST_qualifyingData = qualifyingData,
          TPM2_GetTime_REQUEST_inScheme = Some inScheme\<rparr>))) (\<lambda>_. ret ())"

definition Async_CertifyX509 ::
  "Openssl \<Rightarrow> 'd TpmDevice \<Rightarrow> TPM_HANDLE \<Rightarrow> TPM_HANDLE \<Rightarrow> ByteVec \<Rightarrow> TPMU_SIG_SCHEME \<Rightarrow> ByteVec \<Rightarrow>
     ('d, unit) tp" where
  "Async_CertifyX509 ossl dev objectHandle signHandle reserved inScheme partialCertificate =
     sbind (DispatchOut ossl dev TPM_CC_CertifyX509
       (Req_other (TPM2_CertifyX509_REQUEST_req
         \<lparr>TPM2_CertifyX509_REQUEST_objectHandle = objectHandle,
          TPM2_CertifyX509_REQUEST_signHandle = signHandle,
          TPM2_CertifyX509_REQUEST_reserved = reserved,
          TPM2_CertifyX509_REQUEST_inScheme = Some inScheme,
          TPM2_CertifyX509_REQUEST_partialCertificate = partialCertificate\<rparr>))) (\<lambda>_. ret ())"

definition Async_Commit ::
  "Openssl \<Rightarrow> 'd TpmDevice \<Rightarrow> TPM_HANDLE \<Rightarrow> TPMS_ECC_POINT \<Rightarrow> ByteVec \<Rightarrow> ByteVec \<Rightarrow> ('d, unit) tp" where
  "Async_Commit ossl dev signHandle P1 s2 y2 =
     sbind (DispatchOut ossl dev TPM_CC_Commit
       (Req_other (TPM2_Commit_REQUEST_req
         \<lparr>TPM2_Commit_REQUEST_signHandle = signHandle, TPM2_Commit_REQUEST_P1 = P1,
          TPM2_Commit_REQUEST_s2 = s2, TPM2_Commit_REQUEST_y2 = y2\<rparr>))) (\<lambda>_. ret ())"

definition Async_EC_Ephemeral ::
  "Openssl \<Rightarrow> 'd TpmDevice \<Rightarrow> TPM_ECC_CURVE \<Rightarrow> ('d, unit) tp" where
  "Async_EC_Ephemeral ossl dev curveID =
     sbind (DispatchOut ossl dev TPM_CC_EC_Ephemeral
       (Req_other (TPM2_EC_Ephemeral_REQUEST_req
         \<lparr>TPM2_EC_Ephemeral_REQUEST_curveID = curveID\<rparr>))) (\<lambda>_. ret ())"

definition Async_VerifySignature ::
  "Openssl \<Rightarrow> 'd TpmDevice \<Rightarrow> TPM_HANDLE \<Rightarrow> ByteVec \<Rightarrow> TPMU_SIGNATURE \<Rightarrow> ('d, unit) tp" where
  "Async_VerifySignature ossl dev keyHandle digest signature =
     sbind (DispatchOut ossl dev TPM_CC_VerifySignature
       (Req_other (TPM2_VerifySignature_REQUEST_req
         \<lparr>TPM2_VerifySignature_REQUEST_keyHandle = keyHandle,
          TPM2_VerifySignature_REQUEST_digest = digest,
          TPM2_VerifySignature_REQUEST_signature = Some signature\<rparr>))) (\<lambda>_. ret ())"

definition Async_Sign ::
  "Openssl \<Rightarrow> 'd TpmDevice \<Rightarrow> TPM_HANDLE \<Rightarrow> ByteVec \<Rightarrow> TPMU_SIG_SCHEME \<Rightarrow> TPMT_TK_HASHCHECK \<Rightarrow>
     ('d, unit) tp" where
  "Async_Sign ossl dev keyHandle digest inScheme validation =
     sbind (DispatchOut ossl dev TPM_CC_Sign
       (Req_other (TPM2_Sign_REQUEST_req
         \<lparr>TPM2_Sign_REQUEST_keyHandle = keyHandle, TPM2_Sign_REQUEST_digest = digest,
          TPM2_Sign_REQUEST_inScheme = Some inScheme, TPM2_Sign_REQUEST_validation = validation\<rparr>)))
            (\<lambda>_. ret ())"

definition Async_SetCommandCodeAuditStatus ::
  "Openssl \<Rightarrow> 'd TpmDevice \<Rightarrow> TPM_HANDLE \<Rightarrow> TPM_ALG_ID \<Rightarrow> TPM_CC list \<Rightarrow> TPM_CC list \<Rightarrow> ('d, unit) tp" where
  "Async_SetCommandCodeAuditStatus ossl dev auth auditAlg setList clearList =
     sbind (DispatchOut ossl dev TPM_CC_SetCommandCodeAuditStatus
       (Req_other (TPM2_SetCommandCodeAuditStatus_REQUEST_req
         \<lparr>TPM2_SetCommandCodeAuditStatus_REQUEST_auth = auth,
          TPM2_SetCommandCodeAuditStatus_REQUEST_auditAlg = auditAlg,
          TPM2_SetCommandCodeAuditStatus_REQUEST_setList = setList,
          TPM2_SetCommandCodeAuditStatus_REQUEST_clearList = clearList\<rparr>))) (\<lambda>_. ret ())"

definition Async_PCR_Extend ::
  "Openssl \<Rightarrow> 'd TpmDevice \<Rightarrow> TPM_HANDLE \<Rightarrow> TPMT_HA list \<Rightarrow> ('d, unit) tp" where
  "Async_PCR_Extend ossl dev pcrHandle digests =
     sbind (DispatchOut ossl dev TPM_CC_PCR_Extend
       (Req_other (TPM2_PCR_Extend_REQUEST_req
         \<lparr>TPM2_PCR_Extend_REQUEST_pcrHandle = pcrHandle, TPM2_PCR_Extend_REQUEST_digests = digests\<rparr>)))
           (\<lambda>_. ret ())"

definition Async_PCR_Event ::
  "Openssl \<Rightarrow> 'd TpmDevice \<Rightarrow> TPM_HANDLE \<Rightarrow> ByteVec \<Rightarrow> ('d, unit) tp" where
  "Async_PCR_Event ossl dev pcrHandle eventData =
     sbind (DispatchOut ossl dev TPM_CC_PCR_Event
       (Req_other (TPM2_PCR_Event_REQUEST_req
         \<lparr>TPM2_PCR_Event_REQUEST_pcrHandle = pcrHandle, TPM2_PCR_Event_REQUEST_eventData =
           eventData\<rparr>))) (\<lambda>_. ret ())"

definition Async_PCR_Read ::
  "Openssl \<Rightarrow> 'd TpmDevice \<Rightarrow> TPMS_PCR_SELECTION list \<Rightarrow> ('d, unit) tp" where
  "Async_PCR_Read ossl dev pcrSelectionIn =
     sbind (DispatchOut ossl dev TPM_CC_PCR_Read
       (Req_other (TPM2_PCR_Read_REQUEST_req
         \<lparr>TPM2_PCR_Read_REQUEST_pcrSelectionIn = pcrSelectionIn\<rparr>))) (\<lambda>_. ret ())"

definition Async_PCR_Allocate ::
  "Openssl \<Rightarrow> 'd TpmDevice \<Rightarrow> TPM_HANDLE \<Rightarrow> TPMS_PCR_SELECTION list \<Rightarrow> ('d, unit) tp" where
  "Async_PCR_Allocate ossl dev authHandle pcrAllocation =
     sbind (DispatchOut ossl dev TPM_CC_PCR_Allocate
       (Req_other (TPM2_PCR_Allocate_REQUEST_req
         \<lparr>TPM2_PCR_Allocate_REQUEST_authHandle = authHandle,
          TPM2_PCR_Allocate_REQUEST_pcrAllocation = pcrAllocation\<rparr>))) (\<lambda>_. ret ())"

definition Async_PCR_SetAuthPolicy ::
  "Openssl \<Rightarrow> 'd TpmDevice \<Rightarrow> TPM_HANDLE \<Rightarrow> ByteVec \<Rightarrow> TPM_ALG_ID \<Rightarrow> TPM_HANDLE \<Rightarrow> ('d, unit) tp" where
  "Async_PCR_SetAuthPolicy ossl dev authHandle authPolicy hashAlg pcrNum =
     sbind (DispatchOut ossl dev TPM_CC_PCR_SetAuthPolicy
       (Req_other (TPM2_PCR_SetAuthPolicy_REQUEST_req
         \<lparr>TPM2_PCR_SetAuthPolicy_REQUEST_authHandle = authHandle,
          TPM2_PCR_SetAuthPolicy_REQUEST_authPolicy = authPolicy,
          TPM2_PCR_SetAuthPolicy_REQUEST_hashAlg = hashAlg,
          TPM2_PCR_SetAuthPolicy_REQUEST_pcrNum = pcrNum\<rparr>))) (\<lambda>_. ret ())"

definition Async_PCR_SetAuthValue ::
  "Openssl \<Rightarrow> 'd TpmDevice \<Rightarrow> TPM_HANDLE \<Rightarrow> ByteVec \<Rightarrow> ('d, unit) tp" where
  "Async_PCR_SetAuthValue ossl dev pcrHandle auth =
     sbind (DispatchOut ossl dev TPM_CC_PCR_SetAuthValue
       (Req_PCR_SetAuthValue
         \<lparr>TPM2_PCR_SetAuthValue_REQUEST_pcrHandle = pcrHandle, TPM2_PCR_SetAuthValue_REQUEST_auth =
           auth\<rparr>)) (\<lambda>_. ret ())"

definition Async_PCR_Reset ::
  "Openssl \<Rightarrow> 'd TpmDevice \<Rightarrow> TPM_HANDLE \<Rightarrow> ('d, unit) tp" where
  "Async_PCR_Reset ossl dev pcrHandle =
     sbind (DispatchOut ossl dev TPM_CC_PCR_Reset
       (Req_other (TPM2_PCR_Reset_REQUEST_req
         \<lparr>TPM2_PCR_Reset_REQUEST_pcrHandle = pcrHandle\<rparr>))) (\<lambda>_. ret ())"

definition Async_PolicySigned ::
  "Openssl \<Rightarrow> 'd TpmDevice \<Rightarrow> TPM_HANDLE \<Rightarrow> TPM_HANDLE \<Rightarrow> ByteVec \<Rightarrow> ByteVec \<Rightarrow> ByteVec \<Rightarrow> UINT32 \<Rightarrow>
     TPMU_SIGNATURE \<Rightarrow> ('d, unit) tp" where
  "Async_PolicySigned ossl dev authObject policySession nonceTPM cpHashA policyRef expiration auth =
     sbind (DispatchOut ossl dev TPM_CC_PolicySigned
       (Req_other (TPM2_PolicySigned_REQUEST_req
         \<lparr>TPM2_PolicySigned_REQUEST_authObject = authObject,
          TPM2_PolicySigned_REQUEST_policySession = policySession,
          TPM2_PolicySigned_REQUEST_nonceTPM = nonceTPM, TPM2_PolicySigned_REQUEST_cpHashA = cpHashA,
          TPM2_PolicySigned_REQUEST_policyRef = policyRef,
          TPM2_PolicySigned_REQUEST_expiration = expiration, TPM2_PolicySigned_REQUEST_auth = Some
            auth\<rparr>))) (\<lambda>_. ret ())"

definition Async_PolicySecret ::
  "Openssl \<Rightarrow> 'd TpmDevice \<Rightarrow> TPM_HANDLE \<Rightarrow> TPM_HANDLE \<Rightarrow> ByteVec \<Rightarrow> ByteVec \<Rightarrow> ByteVec \<Rightarrow> UINT32 \<Rightarrow>
     ('d, unit) tp" where
  "Async_PolicySecret ossl dev authHandle policySession nonceTPM cpHashA policyRef expiration =
     sbind (DispatchOut ossl dev TPM_CC_PolicySecret
       (Req_other (TPM2_PolicySecret_REQUEST_req
         \<lparr>TPM2_PolicySecret_REQUEST_authHandle = authHandle,
          TPM2_PolicySecret_REQUEST_policySession = policySession,
          TPM2_PolicySecret_REQUEST_nonceTPM = nonceTPM, TPM2_PolicySecret_REQUEST_cpHashA = cpHashA,
          TPM2_PolicySecret_REQUEST_policyRef = policyRef,
          TPM2_PolicySecret_REQUEST_expiration = expiration\<rparr>))) (\<lambda>_. ret ())"

definition Async_PolicyTicket ::
  "Openssl \<Rightarrow> 'd TpmDevice \<Rightarrow> TPM_HANDLE \<Rightarrow> ByteVec \<Rightarrow> ByteVec \<Rightarrow> ByteVec \<Rightarrow> ByteVec \<Rightarrow> TPMT_TK_AUTH \<Rightarrow>
     ('d, unit) tp" where
  "Async_PolicyTicket ossl dev policySession timeout cpHashA policyRef authName ticket =
     sbind (DispatchOut ossl dev TPM_CC_PolicyTicket
       (Req_other (TPM2_PolicyTicket_REQUEST_req
         \<lparr>TPM2_PolicyTicket_REQUEST_policySession = policySession,
          TPM2_PolicyTicket_REQUEST_timeout = timeout, TPM2_PolicyTicket_REQUEST_cpHashA = cpHashA,
          TPM2_PolicyTicket_REQUEST_policyRef = policyRef,
          TPM2_PolicyTicket_REQUEST_authName = authName, TPM2_PolicyTicket_REQUEST_ticket = ticket\<rparr>)))
            (\<lambda>_. ret ())"

definition Async_PolicyOR ::
  "Openssl \<Rightarrow> 'd TpmDevice \<Rightarrow> TPM_HANDLE \<Rightarrow> TPM2B_DIGEST list \<Rightarrow> ('d, unit) tp" where
  "Async_PolicyOR ossl dev policySession pHashList =
     sbind (DispatchOut ossl dev TPM_CC_PolicyOR
       (Req_other (TPM2_PolicyOR_REQUEST_req
         \<lparr>TPM2_PolicyOR_REQUEST_policySession = policySession,
          TPM2_PolicyOR_REQUEST_pHashList = pHashList\<rparr>))) (\<lambda>_. ret ())"

definition Async_PolicyPCR ::
  "Openssl \<Rightarrow> 'd TpmDevice \<Rightarrow> TPM_HANDLE \<Rightarrow> ByteVec \<Rightarrow> TPMS_PCR_SELECTION list \<Rightarrow> ('d, unit) tp" where
  "Async_PolicyPCR ossl dev policySession pcrDigest pcrs =
     sbind (DispatchOut ossl dev TPM_CC_PolicyPCR
       (Req_other (TPM2_PolicyPCR_REQUEST_req
         \<lparr>TPM2_PolicyPCR_REQUEST_policySession = policySession,
          TPM2_PolicyPCR_REQUEST_pcrDigest = pcrDigest, TPM2_PolicyPCR_REQUEST_pcrs = pcrs\<rparr>))) (\<lambda>_.
            ret ())"

definition Async_PolicyLocality ::
  "Openssl \<Rightarrow> 'd TpmDevice \<Rightarrow> TPM_HANDLE \<Rightarrow> TPMA_LOCALITY \<Rightarrow> ('d, unit) tp" where
  "Async_PolicyLocality ossl dev policySession locality =
     sbind (DispatchOut ossl dev TPM_CC_PolicyLocality
       (Req_other (TPM2_PolicyLocality_REQUEST_req
         \<lparr>TPM2_PolicyLocality_REQUEST_policySession = policySession,
          TPM2_PolicyLocality_REQUEST_locality = locality\<rparr>))) (\<lambda>_. ret ())"

definition Async_PolicyNV ::
  "Openssl \<Rightarrow> 'd TpmDevice \<Rightarrow> TPM_HANDLE \<Rightarrow> TPM_HANDLE \<Rightarrow> TPM_HANDLE \<Rightarrow> ByteVec \<Rightarrow> UINT16 \<Rightarrow> TPM_EO \<Rightarrow>
     ('d, unit) tp" where
  "Async_PolicyNV ossl dev authHandle nvIndex policySession operandB offset operation =
     sbind (DispatchOut ossl dev TPM_CC_PolicyNV
       (Req_other (TPM2_PolicyNV_REQUEST_req
         \<lparr>TPM2_PolicyNV_REQUEST_authHandle = authHandle, TPM2_PolicyNV_REQUEST_nvIndex = nvIndex,
          TPM2_PolicyNV_REQUEST_policySession = policySession,
          TPM2_PolicyNV_REQUEST_operandB = operandB, TPM2_PolicyNV_REQUEST_offset = offset,
          TPM2_PolicyNV_REQUEST_operation = operation\<rparr>))) (\<lambda>_. ret ())"

definition Async_PolicyCounterTimer ::
  "Openssl \<Rightarrow> 'd TpmDevice \<Rightarrow> TPM_HANDLE \<Rightarrow> ByteVec \<Rightarrow> UINT16 \<Rightarrow> TPM_EO \<Rightarrow> ('d, unit) tp" where
  "Async_PolicyCounterTimer ossl dev policySession operandB offset operation =
     sbind (DispatchOut ossl dev TPM_CC_PolicyCounterTimer
       (Req_other (TPM2_PolicyCounterTimer_REQUEST_req
         \<lparr>TPM2_PolicyCounterTimer_REQUEST_policySession = policySession,
          TPM2_PolicyCounterTimer_REQUEST_operandB = operandB,
          TPM2_PolicyCounterTimer_REQUEST_offset = offset,
          TPM2_PolicyCounterTimer_REQUEST_operation = operation\<rparr>))) (\<lambda>_. ret ())"

definition Async_PolicyCommandCode ::
  "Openssl \<Rightarrow> 'd TpmDevice \<Rightarrow> TPM_HANDLE \<Rightarrow> TPM_CC \<Rightarrow> ('d, unit) tp" where
  "Async_PolicyCommandCode ossl dev policySession code =
     sbind (DispatchOut ossl dev TPM_CC_PolicyCommandCode
       (Req_other (TPM2_PolicyCommandCode_REQUEST_req
         \<lparr>TPM2_PolicyCommandCode_REQUEST_policySession = policySession,
          TPM2_PolicyCommandCode_REQUEST_code = code\<rparr>))) (\<lambda>_. ret ())"

definition Async_PolicyPhysicalPresence ::
  "Openssl \<Rightarrow> 'd TpmDevice \<Rightarrow> TPM_HANDLE \<Rightarrow> ('d, unit) tp" where
  "Async_PolicyPhysicalPresence ossl dev policySession =
     sbind (DispatchOut ossl dev TPM_CC_PolicyPhysicalPresence
       (Req_other (TPM2_PolicyPhysicalPresence_REQUEST_req
         \<lparr>TPM2_PolicyPhysicalPresence_REQUEST_policySession = policySession\<rparr>))) (\<lambda>_. ret ())"

definition Async_PolicyCpHash ::
  "Openssl \<Rightarrow> 'd TpmDevice \<Rightarrow> TPM_HANDLE \<Rightarrow> ByteVec \<Rightarrow> ('d, unit) tp" where
  "Async_PolicyCpHash ossl dev policySession cpHashA =
     sbind (DispatchOut ossl dev TPM_CC_PolicyCpHash
       (Req_other (TPM2_PolicyCpHash_REQUEST_req
         \<lparr>TPM2_PolicyCpHash_REQUEST_policySession = policySession,
          TPM2_PolicyCpHash_REQUEST_cpHashA = cpHashA\<rparr>))) (\<lambda>_. ret ())"

definition Async_PolicyNameHash ::
  "Openssl \<Rightarrow> 'd TpmDevice \<Rightarrow> TPM_HANDLE \<Rightarrow> ByteVec \<Rightarrow> ('d, unit) tp" where
  "Async_PolicyNameHash ossl dev policySession nameHash =
     sbind (DispatchOut ossl dev TPM_CC_PolicyNameHash
       (Req_other (TPM2_PolicyNameHash_REQUEST_req
         \<lparr>TPM2_PolicyNameHash_REQUEST_policySession = policySession,
          TPM2_PolicyNameHash_REQUEST_nameHash = nameHash\<rparr>))) (\<lambda>_. ret ())"

definition Async_PolicyDuplicationSelect ::
  "Openssl \<Rightarrow> 'd TpmDevice \<Rightarrow> TPM_HANDLE \<Rightarrow> ByteVec \<Rightarrow> ByteVec \<Rightarrow> byte \<Rightarrow> ('d, unit) tp" where
  "Async_PolicyDuplicationSelect ossl dev policySession objectName newParentName includeObject =
     sbind (DispatchOut ossl dev TPM_CC_PolicyDuplicationSelect
       (Req_other (TPM2_PolicyDuplicationSelect_REQUEST_req
         \<lparr>TPM2_PolicyDuplicationSelect_REQUEST_policySession = policySession,
          TPM2_PolicyDuplicationSelect_REQUEST_objectName = objectName,
          TPM2_PolicyDuplicationSelect_REQUEST_newParentName = newParentName,
          TPM2_PolicyDuplicationSelect_REQUEST_includeObject = includeObject\<rparr>))) (\<lambda>_. ret ())"

definition Async_PolicyAuthorize ::
  "Openssl \<Rightarrow> 'd TpmDevice \<Rightarrow> TPM_HANDLE \<Rightarrow> ByteVec \<Rightarrow> ByteVec \<Rightarrow> ByteVec \<Rightarrow> TPMT_TK_VERIFIED \<Rightarrow>
     ('d, unit) tp" where
  "Async_PolicyAuthorize ossl dev policySession approvedPolicy policyRef keySign checkTicket =
     sbind (DispatchOut ossl dev TPM_CC_PolicyAuthorize
       (Req_other (TPM2_PolicyAuthorize_REQUEST_req
         \<lparr>TPM2_PolicyAuthorize_REQUEST_policySession = policySession,
          TPM2_PolicyAuthorize_REQUEST_approvedPolicy = approvedPolicy,
          TPM2_PolicyAuthorize_REQUEST_policyRef = policyRef,
          TPM2_PolicyAuthorize_REQUEST_keySign = keySign,
          TPM2_PolicyAuthorize_REQUEST_checkTicket = checkTicket\<rparr>))) (\<lambda>_. ret ())"

definition Async_PolicyAuthValue ::
  "Openssl \<Rightarrow> 'd TpmDevice \<Rightarrow> TPM_HANDLE \<Rightarrow> ('d, unit) tp" where
  "Async_PolicyAuthValue ossl dev policySession =
     sbind (DispatchOut ossl dev TPM_CC_PolicyAuthValue
       (Req_other (TPM2_PolicyAuthValue_REQUEST_req
         \<lparr>TPM2_PolicyAuthValue_REQUEST_policySession = policySession\<rparr>))) (\<lambda>_. ret ())"

definition Async_PolicyPassword ::
  "Openssl \<Rightarrow> 'd TpmDevice \<Rightarrow> TPM_HANDLE \<Rightarrow> ('d, unit) tp" where
  "Async_PolicyPassword ossl dev policySession =
     sbind (DispatchOut ossl dev TPM_CC_PolicyPassword
       (Req_other (TPM2_PolicyPassword_REQUEST_req
         \<lparr>TPM2_PolicyPassword_REQUEST_policySession = policySession\<rparr>))) (\<lambda>_. ret ())"

definition Async_PolicyGetDigest ::
  "Openssl \<Rightarrow> 'd TpmDevice \<Rightarrow> TPM_HANDLE \<Rightarrow> ('d, unit) tp" where
  "Async_PolicyGetDigest ossl dev policySession =
     sbind (DispatchOut ossl dev TPM_CC_PolicyGetDigest
       (Req_other (TPM2_PolicyGetDigest_REQUEST_req
         \<lparr>TPM2_PolicyGetDigest_REQUEST_policySession = policySession\<rparr>))) (\<lambda>_. ret ())"

definition Async_PolicyNvWritten ::
  "Openssl \<Rightarrow> 'd TpmDevice \<Rightarrow> TPM_HANDLE \<Rightarrow> byte \<Rightarrow> ('d, unit) tp" where
  "Async_PolicyNvWritten ossl dev policySession writtenSet =
     sbind (DispatchOut ossl dev TPM_CC_PolicyNvWritten
       (Req_other (TPM2_PolicyNvWritten_REQUEST_req
         \<lparr>TPM2_PolicyNvWritten_REQUEST_policySession = policySession,
          TPM2_PolicyNvWritten_REQUEST_writtenSet = writtenSet\<rparr>))) (\<lambda>_. ret ())"

definition Async_PolicyTemplate ::
  "Openssl \<Rightarrow> 'd TpmDevice \<Rightarrow> TPM_HANDLE \<Rightarrow> ByteVec \<Rightarrow> ('d, unit) tp" where
  "Async_PolicyTemplate ossl dev policySession templateHash =
     sbind (DispatchOut ossl dev TPM_CC_PolicyTemplate
       (Req_other (TPM2_PolicyTemplate_REQUEST_req
         \<lparr>TPM2_PolicyTemplate_REQUEST_policySession = policySession,
          TPM2_PolicyTemplate_REQUEST_templateHash = templateHash\<rparr>))) (\<lambda>_. ret ())"

definition Async_PolicyAuthorizeNV ::
  "Openssl \<Rightarrow> 'd TpmDevice \<Rightarrow> TPM_HANDLE \<Rightarrow> TPM_HANDLE \<Rightarrow> TPM_HANDLE \<Rightarrow> ('d, unit) tp" where
  "Async_PolicyAuthorizeNV ossl dev authHandle nvIndex policySession =
     sbind (DispatchOut ossl dev TPM_CC_PolicyAuthorizeNV
       (Req_other (TPM2_PolicyAuthorizeNV_REQUEST_req
         \<lparr>TPM2_PolicyAuthorizeNV_REQUEST_authHandle = authHandle,
          TPM2_PolicyAuthorizeNV_REQUEST_nvIndex = nvIndex,
          TPM2_PolicyAuthorizeNV_REQUEST_policySession = policySession\<rparr>))) (\<lambda>_. ret ())"

definition Async_CreatePrimary ::
  "Openssl \<Rightarrow> 'd TpmDevice \<Rightarrow> TPM_HANDLE \<Rightarrow> TPMS_SENSITIVE_CREATE \<Rightarrow> TPMT_PUBLIC \<Rightarrow> ByteVec \<Rightarrow>
     TPMS_PCR_SELECTION list \<Rightarrow> ('d, unit) tp" where
  "Async_CreatePrimary ossl dev primaryHandle inSensitive inPublic outsideInfo creationPCR =
     sbind (DispatchOut ossl dev TPM_CC_CreatePrimary
       (Req_other (TPM2_CreatePrimary_REQUEST_req
         \<lparr>TPM2_CreatePrimary_REQUEST_primaryHandle = primaryHandle,
          TPM2_CreatePrimary_REQUEST_inSensitive = inSensitive,
          TPM2_CreatePrimary_REQUEST_inPublic = inPublic,
          TPM2_CreatePrimary_REQUEST_outsideInfo = outsideInfo,
          TPM2_CreatePrimary_REQUEST_creationPCR = creationPCR\<rparr>))) (\<lambda>_. ret ())"

definition Async_HierarchyControl ::
  "Openssl \<Rightarrow> 'd TpmDevice \<Rightarrow> TPM_HANDLE \<Rightarrow> TPM_HANDLE \<Rightarrow> byte \<Rightarrow> ('d, unit) tp" where
  "Async_HierarchyControl ossl dev authHandle enable state =
     sbind (DispatchOut ossl dev TPM_CC_HierarchyControl
       (Req_other (TPM2_HierarchyControl_REQUEST_req
         \<lparr>TPM2_HierarchyControl_REQUEST_authHandle = authHandle,
          TPM2_HierarchyControl_REQUEST_enable = enable, TPM2_HierarchyControl_REQUEST_state =
            state\<rparr>))) (\<lambda>_. ret ())"

definition Async_SetPrimaryPolicy ::
  "Openssl \<Rightarrow> 'd TpmDevice \<Rightarrow> TPM_HANDLE \<Rightarrow> ByteVec \<Rightarrow> TPM_ALG_ID \<Rightarrow> ('d, unit) tp" where
  "Async_SetPrimaryPolicy ossl dev authHandle authPolicy hashAlg =
     sbind (DispatchOut ossl dev TPM_CC_SetPrimaryPolicy
       (Req_other (TPM2_SetPrimaryPolicy_REQUEST_req
         \<lparr>TPM2_SetPrimaryPolicy_REQUEST_authHandle = authHandle,
          TPM2_SetPrimaryPolicy_REQUEST_authPolicy = authPolicy,
          TPM2_SetPrimaryPolicy_REQUEST_hashAlg = hashAlg\<rparr>))) (\<lambda>_. ret ())"

definition Async_ChangePPS ::
  "Openssl \<Rightarrow> 'd TpmDevice \<Rightarrow> TPM_HANDLE \<Rightarrow> ('d, unit) tp" where
  "Async_ChangePPS ossl dev authHandle =
     sbind (DispatchOut ossl dev TPM_CC_ChangePPS
       (Req_other (TPM2_ChangePPS_REQUEST_req
         \<lparr>TPM2_ChangePPS_REQUEST_authHandle = authHandle\<rparr>))) (\<lambda>_. ret ())"

definition Async_ChangeEPS ::
  "Openssl \<Rightarrow> 'd TpmDevice \<Rightarrow> TPM_HANDLE \<Rightarrow> ('d, unit) tp" where
  "Async_ChangeEPS ossl dev authHandle =
     sbind (DispatchOut ossl dev TPM_CC_ChangeEPS
       (Req_other (TPM2_ChangeEPS_REQUEST_req
         \<lparr>TPM2_ChangeEPS_REQUEST_authHandle = authHandle\<rparr>))) (\<lambda>_. ret ())"

definition Async_Clear ::
  "Openssl \<Rightarrow> 'd TpmDevice \<Rightarrow> TPM_HANDLE \<Rightarrow> ('d, unit) tp" where
  "Async_Clear ossl dev authHandle =
     sbind (DispatchOut ossl dev TPM_CC_Clear
       (Req_Clear
         \<lparr>TPM2_Clear_REQUEST_authHandle = authHandle\<rparr>)) (\<lambda>_. ret ())"

definition Async_ClearControl ::
  "Openssl \<Rightarrow> 'd TpmDevice \<Rightarrow> TPM_HANDLE \<Rightarrow> byte \<Rightarrow> ('d, unit) tp" where
  "Async_ClearControl ossl dev auth disable =
     sbind (DispatchOut ossl dev TPM_CC_ClearControl
       (Req_other (TPM2_ClearControl_REQUEST_req
         \<lparr>TPM2_ClearControl_REQUEST_auth = auth, TPM2_ClearControl_REQUEST_disable = disable\<rparr>))) (\<lambda>_.
           ret ())"

definition Async_HierarchyChangeAuth ::
  "Openssl \<Rightarrow> 'd TpmDevice \<Rightarrow> TPM_HANDLE \<Rightarrow> ByteVec \<Rightarrow> ('d, unit) tp" where
  "Async_HierarchyChangeAuth ossl dev authHandle newAuth =
     sbind (DispatchOut ossl dev TPM_CC_HierarchyChangeAuth
       (Req_HierarchyChangeAuth
         \<lparr>TPM2_HierarchyChangeAuth_REQUEST_authHandle = authHandle,
          TPM2_HierarchyChangeAuth_REQUEST_newAuth = newAuth\<rparr>)) (\<lambda>_. ret ())"

definition Async_DictionaryAttackLockReset ::
  "Openssl \<Rightarrow> 'd TpmDevice \<Rightarrow> TPM_HANDLE \<Rightarrow> ('d, unit) tp" where
  "Async_DictionaryAttackLockReset ossl dev lockHandle =
     sbind (DispatchOut ossl dev TPM_CC_DictionaryAttackLockReset
       (Req_other (TPM2_DictionaryAttackLockReset_REQUEST_req
         \<lparr>TPM2_DictionaryAttackLockReset_REQUEST_lockHandle = lockHandle\<rparr>))) (\<lambda>_. ret ())"

definition Async_DictionaryAttackParameters ::
  "Openssl \<Rightarrow> 'd TpmDevice \<Rightarrow> TPM_HANDLE \<Rightarrow> UINT32 \<Rightarrow> UINT32 \<Rightarrow> UINT32 \<Rightarrow> ('d, unit) tp" where
  "Async_DictionaryAttackParameters ossl dev lockHandle newMaxTries newRecoveryTime lockoutRecovery =
     sbind (DispatchOut ossl dev TPM_CC_DictionaryAttackParameters
       (Req_other (TPM2_DictionaryAttackParameters_REQUEST_req
         \<lparr>TPM2_DictionaryAttackParameters_REQUEST_lockHandle = lockHandle,
          TPM2_DictionaryAttackParameters_REQUEST_newMaxTries = newMaxTries,
          TPM2_DictionaryAttackParameters_REQUEST_newRecoveryTime = newRecoveryTime,
          TPM2_DictionaryAttackParameters_REQUEST_lockoutRecovery = lockoutRecovery\<rparr>))) (\<lambda>_. ret ())"

definition Async_PP_Commands ::
  "Openssl \<Rightarrow> 'd TpmDevice \<Rightarrow> TPM_HANDLE \<Rightarrow> TPM_CC list \<Rightarrow> TPM_CC list \<Rightarrow> ('d, unit) tp" where
  "Async_PP_Commands ossl dev auth setList clearList =
     sbind (DispatchOut ossl dev TPM_CC_PP_Commands
       (Req_other (TPM2_PP_Commands_REQUEST_req
         \<lparr>TPM2_PP_Commands_REQUEST_auth = auth, TPM2_PP_Commands_REQUEST_setList = setList,
          TPM2_PP_Commands_REQUEST_clearList = clearList\<rparr>))) (\<lambda>_. ret ())"

definition Async_SetAlgorithmSet ::
  "Openssl \<Rightarrow> 'd TpmDevice \<Rightarrow> TPM_HANDLE \<Rightarrow> UINT32 \<Rightarrow> ('d, unit) tp" where
  "Async_SetAlgorithmSet ossl dev authHandle algorithmSet =
     sbind (DispatchOut ossl dev TPM_CC_SetAlgorithmSet
       (Req_other (TPM2_SetAlgorithmSet_REQUEST_req
         \<lparr>TPM2_SetAlgorithmSet_REQUEST_authHandle = authHandle,
          TPM2_SetAlgorithmSet_REQUEST_algorithmSet = algorithmSet\<rparr>))) (\<lambda>_. ret ())"

definition Async_FieldUpgradeStart ::
  "Openssl \<Rightarrow> 'd TpmDevice \<Rightarrow> TPM_HANDLE \<Rightarrow> TPM_HANDLE \<Rightarrow> ByteVec \<Rightarrow> TPMU_SIGNATURE \<Rightarrow> ('d, unit) tp" where
  "Async_FieldUpgradeStart ossl dev authorization keyHandle fuDigest manifestSignature =
     sbind (DispatchOut ossl dev TPM_CC_FieldUpgradeStart
       (Req_other (TPM2_FieldUpgradeStart_REQUEST_req
         \<lparr>TPM2_FieldUpgradeStart_REQUEST_authorization = authorization,
          TPM2_FieldUpgradeStart_REQUEST_keyHandle = keyHandle,
          TPM2_FieldUpgradeStart_REQUEST_fuDigest = fuDigest,
          TPM2_FieldUpgradeStart_REQUEST_manifestSignature = Some manifestSignature\<rparr>))) (\<lambda>_. ret ())"

definition Async_FieldUpgradeData ::
  "Openssl \<Rightarrow> 'd TpmDevice \<Rightarrow> ByteVec \<Rightarrow> ('d, unit) tp" where
  "Async_FieldUpgradeData ossl dev fuData =
     sbind (DispatchOut ossl dev TPM_CC_FieldUpgradeData
       (Req_other (TPM2_FieldUpgradeData_REQUEST_req
         \<lparr>TPM2_FieldUpgradeData_REQUEST_fuData = fuData\<rparr>))) (\<lambda>_. ret ())"

definition Async_FirmwareRead ::
  "Openssl \<Rightarrow> 'd TpmDevice \<Rightarrow> UINT32 \<Rightarrow> ('d, unit) tp" where
  "Async_FirmwareRead ossl dev sequenceNumber =
     sbind (DispatchOut ossl dev TPM_CC_FirmwareRead
       (Req_other (TPM2_FirmwareRead_REQUEST_req
         \<lparr>TPM2_FirmwareRead_REQUEST_sequenceNumber = sequenceNumber\<rparr>))) (\<lambda>_. ret ())"

definition Async_ContextSave ::
  "Openssl \<Rightarrow> 'd TpmDevice \<Rightarrow> TPM_HANDLE \<Rightarrow> ('d, unit) tp" where
  "Async_ContextSave ossl dev saveHandle =
     sbind (DispatchOut ossl dev TPM_CC_ContextSave
       (Req_other (TPM2_ContextSave_REQUEST_req
         \<lparr>TPM2_ContextSave_REQUEST_saveHandle = saveHandle\<rparr>))) (\<lambda>_. ret ())"

definition Async_ContextLoad ::
  "Openssl \<Rightarrow> 'd TpmDevice \<Rightarrow> TPMS_CONTEXT \<Rightarrow> ('d, unit) tp" where
  "Async_ContextLoad ossl dev context =
     sbind (DispatchOut ossl dev TPM_CC_ContextLoad
       (Req_other (TPM2_ContextLoad_REQUEST_req
         \<lparr>TPM2_ContextLoad_REQUEST_context = context\<rparr>))) (\<lambda>_. ret ())"

definition Async_FlushContext ::
  "Openssl \<Rightarrow> 'd TpmDevice \<Rightarrow> TPM_HANDLE \<Rightarrow> ('d, unit) tp" where
  "Async_FlushContext ossl dev flushHandle =
     sbind (DispatchOut ossl dev TPM_CC_FlushContext
       (Req_other (TPM2_FlushContext_REQUEST_req
         \<lparr>TPM2_FlushContext_REQUEST_flushHandle = flushHandle\<rparr>))) (\<lambda>_. ret ())"

definition Async_EvictControl ::
  "Openssl \<Rightarrow> 'd TpmDevice \<Rightarrow> TPM_HANDLE \<Rightarrow> TPM_HANDLE \<Rightarrow> TPM_HANDLE \<Rightarrow> ('d, unit) tp" where
  "Async_EvictControl ossl dev auth objectHandle persistentHandle =
     sbind (DispatchOut ossl dev TPM_CC_EvictControl
       (Req_EvictControl
         \<lparr>TPM2_EvictControl_REQUEST_auth = auth, TPM2_EvictControl_REQUEST_objectHandle = objectHandle,
          TPM2_EvictControl_REQUEST_persistentHandle = persistentHandle\<rparr>)) (\<lambda>_. ret ())"

definition Async_ReadClock ::
  "Openssl \<Rightarrow> 'd TpmDevice \<Rightarrow> ('d, unit) tp" where
  "Async_ReadClock ossl dev =
     sbind (DispatchOut ossl dev TPM_CC_ReadClock
       (Req_other empty_req)) (\<lambda>_. ret ())"

definition Async_ClockSet ::
  "Openssl \<Rightarrow> 'd TpmDevice \<Rightarrow> TPM_HANDLE \<Rightarrow> UINT64 \<Rightarrow> ('d, unit) tp" where
  "Async_ClockSet ossl dev auth newTime =
     sbind (DispatchOut ossl dev TPM_CC_ClockSet
       (Req_other (TPM2_ClockSet_REQUEST_req
         \<lparr>TPM2_ClockSet_REQUEST_auth = auth, TPM2_ClockSet_REQUEST_newTime = newTime\<rparr>))) (\<lambda>_. ret ())"

definition Async_ClockRateAdjust ::
  "Openssl \<Rightarrow> 'd TpmDevice \<Rightarrow> TPM_HANDLE \<Rightarrow> TPM_CLOCK_ADJUST \<Rightarrow> ('d, unit) tp" where
  "Async_ClockRateAdjust ossl dev auth rateAdjust =
     sbind (DispatchOut ossl dev TPM_CC_ClockRateAdjust
       (Req_other (TPM2_ClockRateAdjust_REQUEST_req
         \<lparr>TPM2_ClockRateAdjust_REQUEST_auth = auth, TPM2_ClockRateAdjust_REQUEST_rateAdjust =
           rateAdjust\<rparr>))) (\<lambda>_. ret ())"

definition Async_GetCapability ::
  "Openssl \<Rightarrow> 'd TpmDevice \<Rightarrow> TPM_CAP \<Rightarrow> UINT32 \<Rightarrow> UINT32 \<Rightarrow> ('d, unit) tp" where
  "Async_GetCapability ossl dev capability property propertyCount =
     sbind (DispatchOut ossl dev TPM_CC_GetCapability
       (Req_other (TPM2_GetCapability_REQUEST_req
         \<lparr>TPM2_GetCapability_REQUEST_capability = capability,
          TPM2_GetCapability_REQUEST_property = property,
          TPM2_GetCapability_REQUEST_propertyCount = propertyCount\<rparr>))) (\<lambda>_. ret ())"

definition Async_TestParms ::
  "Openssl \<Rightarrow> 'd TpmDevice \<Rightarrow> TPMU_PUBLIC_PARMS \<Rightarrow> ('d, unit) tp" where
  "Async_TestParms ossl dev parameters =
     sbind (DispatchOut ossl dev TPM_CC_TestParms
       (Req_other (TPM2_TestParms_REQUEST_req
         \<lparr>TPM2_TestParms_REQUEST_parameters = Some parameters\<rparr>))) (\<lambda>_. ret ())"

definition Async_NV_DefineSpace ::
  "Openssl \<Rightarrow> 'd TpmDevice \<Rightarrow> TPM_HANDLE \<Rightarrow> ByteVec \<Rightarrow> TPMS_NV_PUBLIC \<Rightarrow> ('d, unit) tp" where
  "Async_NV_DefineSpace ossl dev authHandle auth publicInfo =
     sbind (DispatchOut ossl dev TPM_CC_NV_DefineSpace
       (Req_other (TPM2_NV_DefineSpace_REQUEST_req
         \<lparr>TPM2_NV_DefineSpace_REQUEST_authHandle = authHandle, TPM2_NV_DefineSpace_REQUEST_auth = auth,
          TPM2_NV_DefineSpace_REQUEST_publicInfo = publicInfo\<rparr>))) (\<lambda>_. ret ())"

definition Async_NV_UndefineSpace ::
  "Openssl \<Rightarrow> 'd TpmDevice \<Rightarrow> TPM_HANDLE \<Rightarrow> TPM_HANDLE \<Rightarrow> ('d, unit) tp" where
  "Async_NV_UndefineSpace ossl dev authHandle nvIndex =
     sbind (DispatchOut ossl dev TPM_CC_NV_UndefineSpace
       (Req_other (TPM2_NV_UndefineSpace_REQUEST_req
         \<lparr>TPM2_NV_UndefineSpace_REQUEST_authHandle = authHandle,
          TPM2_NV_UndefineSpace_REQUEST_nvIndex = nvIndex\<rparr>))) (\<lambda>_. ret ())"

definition Async_NV_UndefineSpaceSpecial ::
  "Openssl \<Rightarrow> 'd TpmDevice \<Rightarrow> TPM_HANDLE \<Rightarrow> TPM_HANDLE \<Rightarrow> ('d, unit) tp" where
  "Async_NV_UndefineSpaceSpecial ossl dev nvIndex platform =
     sbind (DispatchOut ossl dev TPM_CC_NV_UndefineSpaceSpecial
       (Req_other (TPM2_NV_UndefineSpaceSpecial_REQUEST_req
         \<lparr>TPM2_NV_UndefineSpaceSpecial_REQUEST_nvIndex = nvIndex,
          TPM2_NV_UndefineSpaceSpecial_REQUEST_platform = platform\<rparr>))) (\<lambda>_. ret ())"

definition Async_NV_ReadPublic ::
  "Openssl \<Rightarrow> 'd TpmDevice \<Rightarrow> TPM_HANDLE \<Rightarrow> ('d, unit) tp" where
  "Async_NV_ReadPublic ossl dev nvIndex =
     sbind (DispatchOut ossl dev TPM_CC_NV_ReadPublic
       (Req_other (TPM2_NV_ReadPublic_REQUEST_req
         \<lparr>TPM2_NV_ReadPublic_REQUEST_nvIndex = nvIndex\<rparr>))) (\<lambda>_. ret ())"

definition Async_NV_Write ::
  "Openssl \<Rightarrow> 'd TpmDevice \<Rightarrow> TPM_HANDLE \<Rightarrow> TPM_HANDLE \<Rightarrow> ByteVec \<Rightarrow> UINT16 \<Rightarrow> ('d, unit) tp" where
  "Async_NV_Write ossl dev authHandle nvIndex data offset =
     sbind (DispatchOut ossl dev TPM_CC_NV_Write
       (Req_other (TPM2_NV_Write_REQUEST_req
         \<lparr>TPM2_NV_Write_REQUEST_authHandle = authHandle, TPM2_NV_Write_REQUEST_nvIndex = nvIndex,
          TPM2_NV_Write_REQUEST_data = data, TPM2_NV_Write_REQUEST_offset = offset\<rparr>))) (\<lambda>_. ret ())"

definition Async_NV_Increment ::
  "Openssl \<Rightarrow> 'd TpmDevice \<Rightarrow> TPM_HANDLE \<Rightarrow> TPM_HANDLE \<Rightarrow> ('d, unit) tp" where
  "Async_NV_Increment ossl dev authHandle nvIndex =
     sbind (DispatchOut ossl dev TPM_CC_NV_Increment
       (Req_other (TPM2_NV_Increment_REQUEST_req
         \<lparr>TPM2_NV_Increment_REQUEST_authHandle = authHandle, TPM2_NV_Increment_REQUEST_nvIndex =
           nvIndex\<rparr>))) (\<lambda>_. ret ())"

definition Async_NV_Extend ::
  "Openssl \<Rightarrow> 'd TpmDevice \<Rightarrow> TPM_HANDLE \<Rightarrow> TPM_HANDLE \<Rightarrow> ByteVec \<Rightarrow> ('d, unit) tp" where
  "Async_NV_Extend ossl dev authHandle nvIndex data =
     sbind (DispatchOut ossl dev TPM_CC_NV_Extend
       (Req_other (TPM2_NV_Extend_REQUEST_req
         \<lparr>TPM2_NV_Extend_REQUEST_authHandle = authHandle, TPM2_NV_Extend_REQUEST_nvIndex = nvIndex,
          TPM2_NV_Extend_REQUEST_data = data\<rparr>))) (\<lambda>_. ret ())"

definition Async_NV_SetBits ::
  "Openssl \<Rightarrow> 'd TpmDevice \<Rightarrow> TPM_HANDLE \<Rightarrow> TPM_HANDLE \<Rightarrow> UINT64 \<Rightarrow> ('d, unit) tp" where
  "Async_NV_SetBits ossl dev authHandle nvIndex bits =
     sbind (DispatchOut ossl dev TPM_CC_NV_SetBits
       (Req_other (TPM2_NV_SetBits_REQUEST_req
         \<lparr>TPM2_NV_SetBits_REQUEST_authHandle = authHandle, TPM2_NV_SetBits_REQUEST_nvIndex = nvIndex,
          TPM2_NV_SetBits_REQUEST_bits = bits\<rparr>))) (\<lambda>_. ret ())"

definition Async_NV_WriteLock ::
  "Openssl \<Rightarrow> 'd TpmDevice \<Rightarrow> TPM_HANDLE \<Rightarrow> TPM_HANDLE \<Rightarrow> ('d, unit) tp" where
  "Async_NV_WriteLock ossl dev authHandle nvIndex =
     sbind (DispatchOut ossl dev TPM_CC_NV_WriteLock
       (Req_other (TPM2_NV_WriteLock_REQUEST_req
         \<lparr>TPM2_NV_WriteLock_REQUEST_authHandle = authHandle, TPM2_NV_WriteLock_REQUEST_nvIndex =
           nvIndex\<rparr>))) (\<lambda>_. ret ())"

definition Async_NV_GlobalWriteLock ::
  "Openssl \<Rightarrow> 'd TpmDevice \<Rightarrow> TPM_HANDLE \<Rightarrow> ('d, unit) tp" where
  "Async_NV_GlobalWriteLock ossl dev authHandle =
     sbind (DispatchOut ossl dev TPM_CC_NV_GlobalWriteLock
       (Req_other (TPM2_NV_GlobalWriteLock_REQUEST_req
         \<lparr>TPM2_NV_GlobalWriteLock_REQUEST_authHandle = authHandle\<rparr>))) (\<lambda>_. ret ())"

definition Async_NV_Read ::
  "Openssl \<Rightarrow> 'd TpmDevice \<Rightarrow> TPM_HANDLE \<Rightarrow> TPM_HANDLE \<Rightarrow> UINT16 \<Rightarrow> UINT16 \<Rightarrow> ('d, unit) tp" where
  "Async_NV_Read ossl dev authHandle nvIndex sizeVal offset =
     sbind (DispatchOut ossl dev TPM_CC_NV_Read
       (Req_other (TPM2_NV_Read_REQUEST_req
         \<lparr>TPM2_NV_Read_REQUEST_authHandle = authHandle, TPM2_NV_Read_REQUEST_nvIndex = nvIndex,
          TPM2_NV_Read_REQUEST_size = sizeVal, TPM2_NV_Read_REQUEST_offset = offset\<rparr>))) (\<lambda>_. ret ())"

definition Async_NV_ReadLock ::
  "Openssl \<Rightarrow> 'd TpmDevice \<Rightarrow> TPM_HANDLE \<Rightarrow> TPM_HANDLE \<Rightarrow> ('d, unit) tp" where
  "Async_NV_ReadLock ossl dev authHandle nvIndex =
     sbind (DispatchOut ossl dev TPM_CC_NV_ReadLock
       (Req_other (TPM2_NV_ReadLock_REQUEST_req
         \<lparr>TPM2_NV_ReadLock_REQUEST_authHandle = authHandle, TPM2_NV_ReadLock_REQUEST_nvIndex =
           nvIndex\<rparr>))) (\<lambda>_. ret ())"

definition Async_NV_ChangeAuth ::
  "Openssl \<Rightarrow> 'd TpmDevice \<Rightarrow> TPM_HANDLE \<Rightarrow> ByteVec \<Rightarrow> ('d, unit) tp" where
  "Async_NV_ChangeAuth ossl dev nvIndex newAuth =
     sbind (DispatchOut ossl dev TPM_CC_NV_ChangeAuth
       (Req_NV_ChangeAuth
         \<lparr>TPM2_NV_ChangeAuth_REQUEST_nvIndex = nvIndex, TPM2_NV_ChangeAuth_REQUEST_newAuth =
           newAuth\<rparr>)) (\<lambda>_. ret ())"

definition Async_NV_Certify ::
  "Openssl \<Rightarrow> 'd TpmDevice \<Rightarrow> TPM_HANDLE \<Rightarrow> TPM_HANDLE \<Rightarrow> TPM_HANDLE \<Rightarrow> ByteVec \<Rightarrow> TPMU_SIG_SCHEME \<Rightarrow>
     UINT16 \<Rightarrow> UINT16 \<Rightarrow> ('d, unit) tp" where
  "Async_NV_Certify ossl dev signHandle authHandle nvIndex qualifyingData inScheme sizeVal offset =
     sbind (DispatchOut ossl dev TPM_CC_NV_Certify
       (Req_other (TPM2_NV_Certify_REQUEST_req
         \<lparr>TPM2_NV_Certify_REQUEST_signHandle = signHandle,
          TPM2_NV_Certify_REQUEST_authHandle = authHandle, TPM2_NV_Certify_REQUEST_nvIndex = nvIndex,
          TPM2_NV_Certify_REQUEST_qualifyingData = qualifyingData,
          TPM2_NV_Certify_REQUEST_inScheme = Some inScheme, TPM2_NV_Certify_REQUEST_size = sizeVal,
          TPM2_NV_Certify_REQUEST_offset = offset\<rparr>))) (\<lambda>_. ret ())"

definition Async_AC_GetCapability ::
  "Openssl \<Rightarrow> 'd TpmDevice \<Rightarrow> TPM_HANDLE \<Rightarrow> TPM_AT \<Rightarrow> UINT32 \<Rightarrow> ('d, unit) tp" where
  "Async_AC_GetCapability ossl dev ac capability count =
     sbind (DispatchOut ossl dev TPM_CC_AC_GetCapability
       (Req_other (TPM2_AC_GetCapability_REQUEST_req
         \<lparr>TPM2_AC_GetCapability_REQUEST_ac = ac, TPM2_AC_GetCapability_REQUEST_capability = capability,
          TPM2_AC_GetCapability_REQUEST_count = count\<rparr>))) (\<lambda>_. ret ())"

definition Async_AC_Send ::
  "Openssl \<Rightarrow> 'd TpmDevice \<Rightarrow> TPM_HANDLE \<Rightarrow> TPM_HANDLE \<Rightarrow> TPM_HANDLE \<Rightarrow> ByteVec \<Rightarrow> ('d, unit) tp" where
  "Async_AC_Send ossl dev sendObject authHandle ac acDataIn =
     sbind (DispatchOut ossl dev TPM_CC_AC_Send
       (Req_other (TPM2_AC_Send_REQUEST_req
         \<lparr>TPM2_AC_Send_REQUEST_sendObject = sendObject, TPM2_AC_Send_REQUEST_authHandle = authHandle,
          TPM2_AC_Send_REQUEST_ac = ac, TPM2_AC_Send_REQUEST_acDataIn = acDataIn\<rparr>))) (\<lambda>_. ret ())"

definition Async_Policy_AC_SendSelect ::
  "Openssl \<Rightarrow> 'd TpmDevice \<Rightarrow> TPM_HANDLE \<Rightarrow> ByteVec \<Rightarrow> ByteVec \<Rightarrow> ByteVec \<Rightarrow> byte \<Rightarrow> ('d, unit) tp" where
  "Async_Policy_AC_SendSelect ossl dev policySession objectName authHandleName acName includeObject =
     sbind (DispatchOut ossl dev TPM_CC_Policy_AC_SendSelect
       (Req_other (TPM2_Policy_AC_SendSelect_REQUEST_req
         \<lparr>TPM2_Policy_AC_SendSelect_REQUEST_policySession = policySession,
          TPM2_Policy_AC_SendSelect_REQUEST_objectName = objectName,
          TPM2_Policy_AC_SendSelect_REQUEST_authHandleName = authHandleName,
          TPM2_Policy_AC_SendSelect_REQUEST_acName = acName,
          TPM2_Policy_AC_SendSelect_REQUEST_includeObject = includeObject\<rparr>))) (\<lambda>_. ret ())"

definition Async_ACT_SetTimeout ::
  "Openssl \<Rightarrow> 'd TpmDevice \<Rightarrow> TPM_HANDLE \<Rightarrow> UINT32 \<Rightarrow> ('d, unit) tp" where
  "Async_ACT_SetTimeout ossl dev actHandle startTimeout =
     sbind (DispatchOut ossl dev TPM_CC_ACT_SetTimeout
       (Req_other (TPM2_ACT_SetTimeout_REQUEST_req
         \<lparr>TPM2_ACT_SetTimeout_REQUEST_actHandle = actHandle,
          TPM2_ACT_SetTimeout_REQUEST_startTimeout = startTimeout\<rparr>))) (\<lambda>_. ret ())"

definition Async_Vendor_TCG_Test ::
  "Openssl \<Rightarrow> 'd TpmDevice \<Rightarrow> ByteVec \<Rightarrow> ('d, unit) tp" where
  "Async_Vendor_TCG_Test ossl dev inputData =
     sbind (DispatchOut ossl dev TPM_CC_Vendor_TCG_Test
       (Req_other (TPM2_Vendor_TCG_Test_REQUEST_req
         \<lparr>TPM2_Vendor_TCG_Test_REQUEST_inputData = inputData\<rparr>))) (\<lambda>_. ret ())"

end
