(* ===== verification/Tpm2Complete.thy ===== *)
theory Tpm2Complete
  imports Tpm2Calls TpmObjectCommands TpmCryptoCommands TpmAttestCommands TpmPolicyCommands TpmAdminCommands TpmNvCommands
begin

text \<open>
  The methods of \<^verbatim>\<open>Tpm2::AsyncMethods\<close> in \<^verbatim>\<open>TSS.CPP/Src/TpmTypes.cpp\<close>: for every command one that sends
  the request and one that takes in the response. The result of \<open>DispatchIn\<close>, which tells whether the command has
  to be retried, is dropped.
\<close>

definition Async_StartupComplete :: "Openssl \<Rightarrow> 'd TpmDevice \<Rightarrow> ('d, unit) tp" where
  "Async_StartupComplete ossl dev = sbind (DispatchIn ossl dev no_response TPM_CC_Startup (Resp_other
     ()))
     (\<lambda>(_, resp). lift (the_resp id resp))"

definition Async_ShutdownComplete :: "Openssl \<Rightarrow> 'd TpmDevice \<Rightarrow> ('d, unit) tp" where
  "Async_ShutdownComplete ossl dev = sbind (DispatchIn ossl dev no_response TPM_CC_Shutdown
     (Resp_other ()))
     (\<lambda>(_, resp). lift (the_resp id resp))"

definition Async_SelfTestComplete :: "Openssl \<Rightarrow> 'd TpmDevice \<Rightarrow> ('d, unit) tp" where
  "Async_SelfTestComplete ossl dev = sbind (DispatchIn ossl dev no_response TPM_CC_SelfTest
     (Resp_other ()))
     (\<lambda>(_, resp). lift (the_resp id resp))"

definition Async_IncrementalSelfTestComplete ::
  "Openssl \<Rightarrow> 'd TpmDevice \<Rightarrow> ('d, TPM_ALG_ID list) tp" where
  "Async_IncrementalSelfTestComplete ossl dev = sbind (DispatchIn ossl dev
     IncrementalSelfTestResponse_resp TPM_CC_IncrementalSelfTest (Resp_other
     IncrementalSelfTestResponse_default))
     (\<lambda>(_, resp). lift (the_resp IncrementalSelfTestResponse_toDoList resp))"

definition Async_GetTestResultComplete ::
  "Openssl \<Rightarrow> 'd TpmDevice \<Rightarrow> ('d, GetTestResultResponse) tp" where
  "Async_GetTestResultComplete ossl dev = sbind (DispatchIn ossl dev GetTestResultResponse_resp
     TPM_CC_GetTestResult (Resp_other GetTestResultResponse_default))
     (\<lambda>(_, resp). lift (the_resp id resp))"

definition Async_StartAuthSessionComplete ::
  "Openssl \<Rightarrow> 'd TpmDevice \<Rightarrow> ('d, StartAuthSessionResponse) tp" where
  "Async_StartAuthSessionComplete ossl dev = sbind (DispatchIn ossl dev StartAuthSessionResponse_resp
     TPM_CC_StartAuthSession (Resp_other StartAuthSessionResponse_default))
     (\<lambda>(_, resp). lift (the_resp id resp))"

definition Async_PolicyRestartComplete :: "Openssl \<Rightarrow> 'd TpmDevice \<Rightarrow> ('d, unit) tp" where
  "Async_PolicyRestartComplete ossl dev = sbind (DispatchIn ossl dev no_response TPM_CC_PolicyRestart
     (Resp_other ()))
     (\<lambda>(_, resp). lift (the_resp id resp))"

definition Async_CreateComplete :: "Openssl \<Rightarrow> 'd TpmDevice \<Rightarrow> ('d, CreateResponse) tp" where
  "Async_CreateComplete ossl dev = sbind (DispatchIn ossl dev CreateResponse_resp TPM_CC_Create
     (Resp_other CreateResponse_default))
     (\<lambda>(_, resp). lift (the_resp id resp))"

definition Async_LoadComplete :: "Openssl \<Rightarrow> 'd TpmDevice \<Rightarrow> ('d, LoadResponse) tp" where
  "Async_LoadComplete ossl dev = sbind (DispatchIn ossl dev no_response TPM_CC_Load (Resp_Load
     LoadResponse_default))
     (\<lambda>(_, resp). lift ((\<lambda>resp. case resp of Resp_Load r \<Rightarrow> Ok r | _ \<Rightarrow> Undef) resp))"

definition Async_LoadExternalComplete :: "Openssl \<Rightarrow> 'd TpmDevice \<Rightarrow> ('d, LoadExternalResponse) tp" where
  "Async_LoadExternalComplete ossl dev = sbind (DispatchIn ossl dev no_response TPM_CC_LoadExternal
     (Resp_LoadExternal LoadExternalResponse_default))
     (\<lambda>(_, resp). lift ((\<lambda>resp. case resp of Resp_LoadExternal r \<Rightarrow> Ok r | _ \<Rightarrow> Undef) resp))"

definition Async_ReadPublicComplete :: "Openssl \<Rightarrow> 'd TpmDevice \<Rightarrow> ('d, ReadPublicResponse) tp" where
  "Async_ReadPublicComplete ossl dev = sbind (DispatchIn ossl dev ReadPublicResponse_resp
     TPM_CC_ReadPublic (Resp_other ReadPublicResponse_default))
     (\<lambda>(_, resp). lift (the_resp id resp))"

definition Async_ActivateCredentialComplete :: "Openssl \<Rightarrow> 'd TpmDevice \<Rightarrow> ('d, ByteVec) tp" where
  "Async_ActivateCredentialComplete ossl dev = sbind (DispatchIn ossl dev
     ActivateCredentialResponse_resp TPM_CC_ActivateCredential (Resp_other
     ActivateCredentialResponse_default))
     (\<lambda>(_, resp). lift (the_resp ActivateCredentialResponse_certInfo resp))"

definition Async_MakeCredentialComplete ::
  "Openssl \<Rightarrow> 'd TpmDevice \<Rightarrow> ('d, MakeCredentialResponse) tp" where
  "Async_MakeCredentialComplete ossl dev = sbind (DispatchIn ossl dev MakeCredentialResponse_resp
     TPM_CC_MakeCredential (Resp_other MakeCredentialResponse_default))
     (\<lambda>(_, resp). lift (the_resp id resp))"

definition Async_UnsealComplete :: "Openssl \<Rightarrow> 'd TpmDevice \<Rightarrow> ('d, ByteVec) tp" where
  "Async_UnsealComplete ossl dev = sbind (DispatchIn ossl dev UnsealResponse_resp TPM_CC_Unseal
     (Resp_other UnsealResponse_default))
     (\<lambda>(_, resp). lift (the_resp UnsealResponse_outData resp))"

definition Async_ObjectChangeAuthComplete :: "Openssl \<Rightarrow> 'd TpmDevice \<Rightarrow> ('d, TPM2B_PRIVATE) tp" where
  "Async_ObjectChangeAuthComplete ossl dev = sbind (DispatchIn ossl dev ObjectChangeAuthResponse_resp
     TPM_CC_ObjectChangeAuth (Resp_other ObjectChangeAuthResponse_default))
     (\<lambda>(_, resp). lift (the_resp ObjectChangeAuthResponse_outPrivate resp))"

definition Async_CreateLoadedComplete :: "Openssl \<Rightarrow> 'd TpmDevice \<Rightarrow> ('d, CreateLoadedResponse) tp" where
  "Async_CreateLoadedComplete ossl dev = sbind (DispatchIn ossl dev CreateLoadedResponse_resp
     TPM_CC_CreateLoaded (Resp_other CreateLoadedResponse_default))
     (\<lambda>(_, resp). lift (the_resp id resp))"

definition Async_DuplicateComplete :: "Openssl \<Rightarrow> 'd TpmDevice \<Rightarrow> ('d, DuplicateResponse) tp" where
  "Async_DuplicateComplete ossl dev = sbind (DispatchIn ossl dev DuplicateResponse_resp
     TPM_CC_Duplicate (Resp_other DuplicateResponse_default))
     (\<lambda>(_, resp). lift (the_resp id resp))"

definition Async_RewrapComplete :: "Openssl \<Rightarrow> 'd TpmDevice \<Rightarrow> ('d, RewrapResponse) tp" where
  "Async_RewrapComplete ossl dev = sbind (DispatchIn ossl dev RewrapResponse_resp TPM_CC_Rewrap
     (Resp_other RewrapResponse_default))
     (\<lambda>(_, resp). lift (the_resp id resp))"

definition Async_ImportComplete :: "Openssl \<Rightarrow> 'd TpmDevice \<Rightarrow> ('d, TPM2B_PRIVATE) tp" where
  "Async_ImportComplete ossl dev = sbind (DispatchIn ossl dev ImportResponse_resp TPM_CC_Import
     (Resp_other ImportResponse_default))
     (\<lambda>(_, resp). lift (the_resp ImportResponse_outPrivate resp))"

definition Async_RSA_EncryptComplete :: "Openssl \<Rightarrow> 'd TpmDevice \<Rightarrow> ('d, ByteVec) tp" where
  "Async_RSA_EncryptComplete ossl dev = sbind (DispatchIn ossl dev RSA_EncryptResponse_resp
     TPM_CC_RSA_Encrypt (Resp_other RSA_EncryptResponse_default))
     (\<lambda>(_, resp). lift (the_resp RSA_EncryptResponse_outData resp))"

definition Async_RSA_DecryptComplete :: "Openssl \<Rightarrow> 'd TpmDevice \<Rightarrow> ('d, ByteVec) tp" where
  "Async_RSA_DecryptComplete ossl dev = sbind (DispatchIn ossl dev RSA_DecryptResponse_resp
     TPM_CC_RSA_Decrypt (Resp_other RSA_DecryptResponse_default))
     (\<lambda>(_, resp). lift (the_resp RSA_DecryptResponse_message resp))"

definition Async_ECDH_KeyGenComplete :: "Openssl \<Rightarrow> 'd TpmDevice \<Rightarrow> ('d, ECDH_KeyGenResponse) tp" where
  "Async_ECDH_KeyGenComplete ossl dev = sbind (DispatchIn ossl dev ECDH_KeyGenResponse_resp
     TPM_CC_ECDH_KeyGen (Resp_other ECDH_KeyGenResponse_default))
     (\<lambda>(_, resp). lift (the_resp id resp))"

definition Async_ECDH_ZGenComplete :: "Openssl \<Rightarrow> 'd TpmDevice \<Rightarrow> ('d, TPMS_ECC_POINT) tp" where
  "Async_ECDH_ZGenComplete ossl dev = sbind (DispatchIn ossl dev ECDH_ZGenResponse_resp
     TPM_CC_ECDH_ZGen (Resp_other ECDH_ZGenResponse_default))
     (\<lambda>(_, resp). lift (the_resp ECDH_ZGenResponse_outPoint resp))"

definition Async_ECC_ParametersComplete ::
  "Openssl \<Rightarrow> 'd TpmDevice \<Rightarrow> ('d, TPMS_ALGORITHM_DETAIL_ECC) tp" where
  "Async_ECC_ParametersComplete ossl dev = sbind (DispatchIn ossl dev ECC_ParametersResponse_resp
     TPM_CC_ECC_Parameters (Resp_other ECC_ParametersResponse_default))
     (\<lambda>(_, resp). lift (the_resp ECC_ParametersResponse_parameters resp))"

definition Async_ZGen_2PhaseComplete :: "Openssl \<Rightarrow> 'd TpmDevice \<Rightarrow> ('d, ZGen_2PhaseResponse) tp" where
  "Async_ZGen_2PhaseComplete ossl dev = sbind (DispatchIn ossl dev ZGen_2PhaseResponse_resp
     TPM_CC_ZGen_2Phase (Resp_other ZGen_2PhaseResponse_default))
     (\<lambda>(_, resp). lift (the_resp id resp))"

definition Async_ECC_EncryptComplete :: "Openssl \<Rightarrow> 'd TpmDevice \<Rightarrow> ('d, ECC_EncryptResponse) tp" where
  "Async_ECC_EncryptComplete ossl dev = sbind (DispatchIn ossl dev ECC_EncryptResponse_resp
     TPM_CC_ECC_Encrypt (Resp_other ECC_EncryptResponse_default))
     (\<lambda>(_, resp). lift (the_resp id resp))"

definition Async_ECC_DecryptComplete :: "Openssl \<Rightarrow> 'd TpmDevice \<Rightarrow> ('d, ByteVec) tp" where
  "Async_ECC_DecryptComplete ossl dev = sbind (DispatchIn ossl dev ECC_DecryptResponse_resp
     TPM_CC_ECC_Decrypt (Resp_other ECC_DecryptResponse_default))
     (\<lambda>(_, resp). lift (the_resp ECC_DecryptResponse_plainText resp))"

definition Async_EncryptDecryptComplete ::
  "Openssl \<Rightarrow> 'd TpmDevice \<Rightarrow> ('d, EncryptDecryptResponse) tp" where
  "Async_EncryptDecryptComplete ossl dev = sbind (DispatchIn ossl dev EncryptDecryptResponse_resp
     TPM_CC_EncryptDecrypt (Resp_other EncryptDecryptResponse_default))
     (\<lambda>(_, resp). lift (the_resp id resp))"

definition Async_EncryptDecrypt2Complete ::
  "Openssl \<Rightarrow> 'd TpmDevice \<Rightarrow> ('d, EncryptDecrypt2Response) tp" where
  "Async_EncryptDecrypt2Complete ossl dev = sbind (DispatchIn ossl dev EncryptDecrypt2Response_resp
     TPM_CC_EncryptDecrypt2 (Resp_other EncryptDecrypt2Response_default))
     (\<lambda>(_, resp). lift (the_resp id resp))"

definition Async_HashComplete :: "Openssl \<Rightarrow> 'd TpmDevice \<Rightarrow> ('d, HashResponse) tp" where
  "Async_HashComplete ossl dev = sbind (DispatchIn ossl dev HashResponse_resp TPM_CC_Hash (Resp_other
     HashResponse_default))
     (\<lambda>(_, resp). lift (the_resp id resp))"

definition Async_HMACComplete :: "Openssl \<Rightarrow> 'd TpmDevice \<Rightarrow> ('d, ByteVec) tp" where
  "Async_HMACComplete ossl dev = sbind (DispatchIn ossl dev HMACResponse_resp TPM_CC_HMAC (Resp_other
     HMACResponse_default))
     (\<lambda>(_, resp). lift (the_resp HMACResponse_outHMAC resp))"

definition Async_MACComplete :: "Openssl \<Rightarrow> 'd TpmDevice \<Rightarrow> ('d, ByteVec) tp" where
  "Async_MACComplete ossl dev = sbind (DispatchIn ossl dev MACResponse_resp TPM_CC_MAC (Resp_other
     MACResponse_default))
     (\<lambda>(_, resp). lift (the_resp MACResponse_outMAC resp))"

definition Async_GetRandomComplete :: "Openssl \<Rightarrow> 'd TpmDevice \<Rightarrow> ('d, ByteVec) tp" where
  "Async_GetRandomComplete ossl dev = sbind (DispatchIn ossl dev GetRandomResponse_resp
     TPM_CC_GetRandom (Resp_other GetRandomResponse_default))
     (\<lambda>(_, resp). lift (the_resp GetRandomResponse_randomBytes resp))"

definition Async_StirRandomComplete :: "Openssl \<Rightarrow> 'd TpmDevice \<Rightarrow> ('d, unit) tp" where
  "Async_StirRandomComplete ossl dev = sbind (DispatchIn ossl dev no_response TPM_CC_StirRandom
     (Resp_other ()))
     (\<lambda>(_, resp). lift (the_resp id resp))"

definition Async_HMAC_StartComplete :: "Openssl \<Rightarrow> 'd TpmDevice \<Rightarrow> ('d, TPM_HANDLE) tp" where
  "Async_HMAC_StartComplete ossl dev = sbind (DispatchIn ossl dev HMAC_StartResponse_resp
     TPM_CC_HMAC_Start (Resp_other HMAC_StartResponse_default))
     (\<lambda>(_, resp). lift (the_resp HMAC_StartResponse_handle resp))"

definition Async_MAC_StartComplete :: "Openssl \<Rightarrow> 'd TpmDevice \<Rightarrow> ('d, TPM_HANDLE) tp" where
  "Async_MAC_StartComplete ossl dev = sbind (DispatchIn ossl dev MAC_StartResponse_resp
     TPM_CC_MAC_Start (Resp_other MAC_StartResponse_default))
     (\<lambda>(_, resp). lift (the_resp MAC_StartResponse_handle resp))"

definition Async_HashSequenceStartComplete :: "Openssl \<Rightarrow> 'd TpmDevice \<Rightarrow> ('d, TPM_HANDLE) tp" where
  "Async_HashSequenceStartComplete ossl dev = sbind (DispatchIn ossl dev no_response
     TPM_CC_HashSequenceStart (Resp_HashSequenceStart HashSequenceStartResponse_default))
     (\<lambda>(_, resp). lift ((\<lambda>resp. case resp of Resp_HashSequenceStart r \<Rightarrow> Ok
       (HashSequenceStartResponse_handle r) | _ \<Rightarrow> Undef) resp))"

definition Async_SequenceUpdateComplete :: "Openssl \<Rightarrow> 'd TpmDevice \<Rightarrow> ('d, unit) tp" where
  "Async_SequenceUpdateComplete ossl dev = sbind (DispatchIn ossl dev no_response
     TPM_CC_SequenceUpdate (Resp_other ()))
     (\<lambda>(_, resp). lift (the_resp id resp))"

definition Async_SequenceCompleteComplete ::
  "Openssl \<Rightarrow> 'd TpmDevice \<Rightarrow> ('d, SequenceCompleteResponse) tp" where
  "Async_SequenceCompleteComplete ossl dev = sbind (DispatchIn ossl dev SequenceCompleteResponse_resp
     TPM_CC_SequenceComplete (Resp_other SequenceCompleteResponse_default))
     (\<lambda>(_, resp). lift (the_resp id resp))"

definition Async_EventSequenceCompleteComplete :: "Openssl \<Rightarrow> 'd TpmDevice \<Rightarrow> ('d, TPMT_HA list) tp" where
  "Async_EventSequenceCompleteComplete ossl dev = sbind (DispatchIn ossl dev
     EventSequenceCompleteResponse_resp TPM_CC_EventSequenceComplete (Resp_other
     EventSequenceCompleteResponse_default))
     (\<lambda>(_, resp). lift (the_resp EventSequenceCompleteResponse_results resp))"

definition Async_CertifyComplete :: "Openssl \<Rightarrow> 'd TpmDevice \<Rightarrow> ('d, CertifyResponse) tp" where
  "Async_CertifyComplete ossl dev = sbind (DispatchIn ossl dev CertifyResponse_resp TPM_CC_Certify
     (Resp_other CertifyResponse_default))
     (\<lambda>(_, resp). lift (the_resp id resp))"

definition Async_CertifyCreationComplete ::
  "Openssl \<Rightarrow> 'd TpmDevice \<Rightarrow> ('d, CertifyCreationResponse) tp" where
  "Async_CertifyCreationComplete ossl dev = sbind (DispatchIn ossl dev CertifyCreationResponse_resp
     TPM_CC_CertifyCreation (Resp_other CertifyCreationResponse_default))
     (\<lambda>(_, resp). lift (the_resp id resp))"

definition Async_QuoteComplete :: "Openssl \<Rightarrow> 'd TpmDevice \<Rightarrow> ('d, QuoteResponse) tp" where
  "Async_QuoteComplete ossl dev = sbind (DispatchIn ossl dev QuoteResponse_resp TPM_CC_Quote
     (Resp_other QuoteResponse_default))
     (\<lambda>(_, resp). lift (the_resp id resp))"

definition Async_GetSessionAuditDigestComplete ::
  "Openssl \<Rightarrow> 'd TpmDevice \<Rightarrow> ('d, GetSessionAuditDigestResponse) tp" where
  "Async_GetSessionAuditDigestComplete ossl dev = sbind (DispatchIn ossl dev
     GetSessionAuditDigestResponse_resp TPM_CC_GetSessionAuditDigest (Resp_other
     GetSessionAuditDigestResponse_default))
     (\<lambda>(_, resp). lift (the_resp id resp))"

definition Async_GetCommandAuditDigestComplete ::
  "Openssl \<Rightarrow> 'd TpmDevice \<Rightarrow> ('d, GetCommandAuditDigestResponse) tp" where
  "Async_GetCommandAuditDigestComplete ossl dev = sbind (DispatchIn ossl dev
     GetCommandAuditDigestResponse_resp TPM_CC_GetCommandAuditDigest (Resp_other
     GetCommandAuditDigestResponse_default))
     (\<lambda>(_, resp). lift (the_resp id resp))"

definition Async_GetTimeComplete :: "Openssl \<Rightarrow> 'd TpmDevice \<Rightarrow> ('d, GetTimeResponse) tp" where
  "Async_GetTimeComplete ossl dev = sbind (DispatchIn ossl dev GetTimeResponse_resp TPM_CC_GetTime
     (Resp_other GetTimeResponse_default))
     (\<lambda>(_, resp). lift (the_resp id resp))"

definition Async_CertifyX509Complete :: "Openssl \<Rightarrow> 'd TpmDevice \<Rightarrow> ('d, CertifyX509Response) tp" where
  "Async_CertifyX509Complete ossl dev = sbind (DispatchIn ossl dev CertifyX509Response_resp
     TPM_CC_CertifyX509 (Resp_other CertifyX509Response_default))
     (\<lambda>(_, resp). lift (the_resp id resp))"

definition Async_CommitComplete :: "Openssl \<Rightarrow> 'd TpmDevice \<Rightarrow> ('d, CommitResponse) tp" where
  "Async_CommitComplete ossl dev = sbind (DispatchIn ossl dev CommitResponse_resp TPM_CC_Commit
     (Resp_other CommitResponse_default))
     (\<lambda>(_, resp). lift (the_resp id resp))"

definition Async_EC_EphemeralComplete :: "Openssl \<Rightarrow> 'd TpmDevice \<Rightarrow> ('d, EC_EphemeralResponse) tp" where
  "Async_EC_EphemeralComplete ossl dev = sbind (DispatchIn ossl dev EC_EphemeralResponse_resp
     TPM_CC_EC_Ephemeral (Resp_other EC_EphemeralResponse_default))
     (\<lambda>(_, resp). lift (the_resp id resp))"

definition Async_VerifySignatureComplete :: "Openssl \<Rightarrow> 'd TpmDevice \<Rightarrow> ('d, TPMT_TK_VERIFIED) tp" where
  "Async_VerifySignatureComplete ossl dev = sbind (DispatchIn ossl dev VerifySignatureResponse_resp
     TPM_CC_VerifySignature (Resp_other VerifySignatureResponse_default))
     (\<lambda>(_, resp). lift (the_resp VerifySignatureResponse_validation resp))"

definition Async_SignComplete :: "Openssl \<Rightarrow> 'd TpmDevice \<Rightarrow> ('d, TPMU_SIGNATURE option) tp" where
  "Async_SignComplete ossl dev = sbind (DispatchIn ossl dev SignResponse_resp TPM_CC_Sign (Resp_other
     SignResponse_default))
     (\<lambda>(_, resp). lift (the_resp SignResponse_signature resp))"

definition Async_SetCommandCodeAuditStatusComplete :: "Openssl \<Rightarrow> 'd TpmDevice \<Rightarrow> ('d, unit) tp" where
  "Async_SetCommandCodeAuditStatusComplete ossl dev = sbind (DispatchIn ossl dev no_response
     TPM_CC_SetCommandCodeAuditStatus (Resp_other ()))
     (\<lambda>(_, resp). lift (the_resp id resp))"

definition Async_PCR_ExtendComplete :: "Openssl \<Rightarrow> 'd TpmDevice \<Rightarrow> ('d, unit) tp" where
  "Async_PCR_ExtendComplete ossl dev = sbind (DispatchIn ossl dev no_response TPM_CC_PCR_Extend
     (Resp_other ()))
     (\<lambda>(_, resp). lift (the_resp id resp))"

definition Async_PCR_EventComplete :: "Openssl \<Rightarrow> 'd TpmDevice \<Rightarrow> ('d, TPMT_HA list) tp" where
  "Async_PCR_EventComplete ossl dev = sbind (DispatchIn ossl dev PCR_EventResponse_resp
     TPM_CC_PCR_Event (Resp_other PCR_EventResponse_default))
     (\<lambda>(_, resp). lift (the_resp PCR_EventResponse_digests resp))"

definition Async_PCR_ReadComplete :: "Openssl \<Rightarrow> 'd TpmDevice \<Rightarrow> ('d, PCR_ReadResponse) tp" where
  "Async_PCR_ReadComplete ossl dev = sbind (DispatchIn ossl dev PCR_ReadResponse_resp TPM_CC_PCR_Read
     (Resp_other PCR_ReadResponse_default))
     (\<lambda>(_, resp). lift (the_resp id resp))"

definition Async_PCR_AllocateComplete :: "Openssl \<Rightarrow> 'd TpmDevice \<Rightarrow> ('d, PCR_AllocateResponse) tp" where
  "Async_PCR_AllocateComplete ossl dev = sbind (DispatchIn ossl dev PCR_AllocateResponse_resp
     TPM_CC_PCR_Allocate (Resp_other PCR_AllocateResponse_default))
     (\<lambda>(_, resp). lift (the_resp id resp))"

definition Async_PCR_SetAuthPolicyComplete :: "Openssl \<Rightarrow> 'd TpmDevice \<Rightarrow> ('d, unit) tp" where
  "Async_PCR_SetAuthPolicyComplete ossl dev = sbind (DispatchIn ossl dev no_response
     TPM_CC_PCR_SetAuthPolicy (Resp_other ()))
     (\<lambda>(_, resp). lift (the_resp id resp))"

definition Async_PCR_SetAuthValueComplete :: "Openssl \<Rightarrow> 'd TpmDevice \<Rightarrow> ('d, unit) tp" where
  "Async_PCR_SetAuthValueComplete ossl dev = sbind (DispatchIn ossl dev no_response
     TPM_CC_PCR_SetAuthValue (Resp_other ()))
     (\<lambda>(_, resp). lift (the_resp id resp))"

definition Async_PCR_ResetComplete :: "Openssl \<Rightarrow> 'd TpmDevice \<Rightarrow> ('d, unit) tp" where
  "Async_PCR_ResetComplete ossl dev = sbind (DispatchIn ossl dev no_response TPM_CC_PCR_Reset
     (Resp_other ()))
     (\<lambda>(_, resp). lift (the_resp id resp))"

definition Async_PolicySignedComplete :: "Openssl \<Rightarrow> 'd TpmDevice \<Rightarrow> ('d, PolicySignedResponse) tp" where
  "Async_PolicySignedComplete ossl dev = sbind (DispatchIn ossl dev PolicySignedResponse_resp
     TPM_CC_PolicySigned (Resp_other PolicySignedResponse_default))
     (\<lambda>(_, resp). lift (the_resp id resp))"

definition Async_PolicySecretComplete :: "Openssl \<Rightarrow> 'd TpmDevice \<Rightarrow> ('d, PolicySecretResponse) tp" where
  "Async_PolicySecretComplete ossl dev = sbind (DispatchIn ossl dev PolicySecretResponse_resp
     TPM_CC_PolicySecret (Resp_other PolicySecretResponse_default))
     (\<lambda>(_, resp). lift (the_resp id resp))"

definition Async_PolicyTicketComplete :: "Openssl \<Rightarrow> 'd TpmDevice \<Rightarrow> ('d, unit) tp" where
  "Async_PolicyTicketComplete ossl dev = sbind (DispatchIn ossl dev no_response TPM_CC_PolicyTicket
     (Resp_other ()))
     (\<lambda>(_, resp). lift (the_resp id resp))"

definition Async_PolicyORComplete :: "Openssl \<Rightarrow> 'd TpmDevice \<Rightarrow> ('d, unit) tp" where
  "Async_PolicyORComplete ossl dev = sbind (DispatchIn ossl dev no_response TPM_CC_PolicyOR
     (Resp_other ()))
     (\<lambda>(_, resp). lift (the_resp id resp))"

definition Async_PolicyPCRComplete :: "Openssl \<Rightarrow> 'd TpmDevice \<Rightarrow> ('d, unit) tp" where
  "Async_PolicyPCRComplete ossl dev = sbind (DispatchIn ossl dev no_response TPM_CC_PolicyPCR
     (Resp_other ()))
     (\<lambda>(_, resp). lift (the_resp id resp))"

definition Async_PolicyLocalityComplete :: "Openssl \<Rightarrow> 'd TpmDevice \<Rightarrow> ('d, unit) tp" where
  "Async_PolicyLocalityComplete ossl dev = sbind (DispatchIn ossl dev no_response
     TPM_CC_PolicyLocality (Resp_other ()))
     (\<lambda>(_, resp). lift (the_resp id resp))"

definition Async_PolicyNVComplete :: "Openssl \<Rightarrow> 'd TpmDevice \<Rightarrow> ('d, unit) tp" where
  "Async_PolicyNVComplete ossl dev = sbind (DispatchIn ossl dev no_response TPM_CC_PolicyNV
     (Resp_other ()))
     (\<lambda>(_, resp). lift (the_resp id resp))"

definition Async_PolicyCounterTimerComplete :: "Openssl \<Rightarrow> 'd TpmDevice \<Rightarrow> ('d, unit) tp" where
  "Async_PolicyCounterTimerComplete ossl dev = sbind (DispatchIn ossl dev no_response
     TPM_CC_PolicyCounterTimer (Resp_other ()))
     (\<lambda>(_, resp). lift (the_resp id resp))"

definition Async_PolicyCommandCodeComplete :: "Openssl \<Rightarrow> 'd TpmDevice \<Rightarrow> ('d, unit) tp" where
  "Async_PolicyCommandCodeComplete ossl dev = sbind (DispatchIn ossl dev no_response
     TPM_CC_PolicyCommandCode (Resp_other ()))
     (\<lambda>(_, resp). lift (the_resp id resp))"

definition Async_PolicyPhysicalPresenceComplete :: "Openssl \<Rightarrow> 'd TpmDevice \<Rightarrow> ('d, unit) tp" where
  "Async_PolicyPhysicalPresenceComplete ossl dev = sbind (DispatchIn ossl dev no_response
     TPM_CC_PolicyPhysicalPresence (Resp_other ()))
     (\<lambda>(_, resp). lift (the_resp id resp))"

definition Async_PolicyCpHashComplete :: "Openssl \<Rightarrow> 'd TpmDevice \<Rightarrow> ('d, unit) tp" where
  "Async_PolicyCpHashComplete ossl dev = sbind (DispatchIn ossl dev no_response TPM_CC_PolicyCpHash
     (Resp_other ()))
     (\<lambda>(_, resp). lift (the_resp id resp))"

definition Async_PolicyNameHashComplete :: "Openssl \<Rightarrow> 'd TpmDevice \<Rightarrow> ('d, unit) tp" where
  "Async_PolicyNameHashComplete ossl dev = sbind (DispatchIn ossl dev no_response
     TPM_CC_PolicyNameHash (Resp_other ()))
     (\<lambda>(_, resp). lift (the_resp id resp))"

definition Async_PolicyDuplicationSelectComplete :: "Openssl \<Rightarrow> 'd TpmDevice \<Rightarrow> ('d, unit) tp" where
  "Async_PolicyDuplicationSelectComplete ossl dev = sbind (DispatchIn ossl dev no_response
     TPM_CC_PolicyDuplicationSelect (Resp_other ()))
     (\<lambda>(_, resp). lift (the_resp id resp))"

definition Async_PolicyAuthorizeComplete :: "Openssl \<Rightarrow> 'd TpmDevice \<Rightarrow> ('d, unit) tp" where
  "Async_PolicyAuthorizeComplete ossl dev = sbind (DispatchIn ossl dev no_response
     TPM_CC_PolicyAuthorize (Resp_other ()))
     (\<lambda>(_, resp). lift (the_resp id resp))"

definition Async_PolicyAuthValueComplete :: "Openssl \<Rightarrow> 'd TpmDevice \<Rightarrow> ('d, unit) tp" where
  "Async_PolicyAuthValueComplete ossl dev = sbind (DispatchIn ossl dev no_response
     TPM_CC_PolicyAuthValue (Resp_other ()))
     (\<lambda>(_, resp). lift (the_resp id resp))"

definition Async_PolicyPasswordComplete :: "Openssl \<Rightarrow> 'd TpmDevice \<Rightarrow> ('d, unit) tp" where
  "Async_PolicyPasswordComplete ossl dev = sbind (DispatchIn ossl dev no_response
     TPM_CC_PolicyPassword (Resp_other ()))
     (\<lambda>(_, resp). lift (the_resp id resp))"

definition Async_PolicyGetDigestComplete :: "Openssl \<Rightarrow> 'd TpmDevice \<Rightarrow> ('d, ByteVec) tp" where
  "Async_PolicyGetDigestComplete ossl dev = sbind (DispatchIn ossl dev PolicyGetDigestResponse_resp
     TPM_CC_PolicyGetDigest (Resp_other PolicyGetDigestResponse_default))
     (\<lambda>(_, resp). lift (the_resp PolicyGetDigestResponse_policyDigest resp))"

definition Async_PolicyNvWrittenComplete :: "Openssl \<Rightarrow> 'd TpmDevice \<Rightarrow> ('d, unit) tp" where
  "Async_PolicyNvWrittenComplete ossl dev = sbind (DispatchIn ossl dev no_response
     TPM_CC_PolicyNvWritten (Resp_other ()))
     (\<lambda>(_, resp). lift (the_resp id resp))"

definition Async_PolicyTemplateComplete :: "Openssl \<Rightarrow> 'd TpmDevice \<Rightarrow> ('d, unit) tp" where
  "Async_PolicyTemplateComplete ossl dev = sbind (DispatchIn ossl dev no_response
     TPM_CC_PolicyTemplate (Resp_other ()))
     (\<lambda>(_, resp). lift (the_resp id resp))"

definition Async_PolicyAuthorizeNVComplete :: "Openssl \<Rightarrow> 'd TpmDevice \<Rightarrow> ('d, unit) tp" where
  "Async_PolicyAuthorizeNVComplete ossl dev = sbind (DispatchIn ossl dev no_response
     TPM_CC_PolicyAuthorizeNV (Resp_other ()))
     (\<lambda>(_, resp). lift (the_resp id resp))"

definition Async_CreatePrimaryComplete ::
  "Openssl \<Rightarrow> 'd TpmDevice \<Rightarrow> ('d, CreatePrimaryResponse) tp" where
  "Async_CreatePrimaryComplete ossl dev = sbind (DispatchIn ossl dev no_response TPM_CC_CreatePrimary
     (Resp_CreatePrimary CreatePrimaryResponse_default))
     (\<lambda>(_, resp). lift ((\<lambda>resp. case resp of Resp_CreatePrimary r \<Rightarrow> Ok r | _ \<Rightarrow> Undef) resp))"

definition Async_HierarchyControlComplete :: "Openssl \<Rightarrow> 'd TpmDevice \<Rightarrow> ('d, unit) tp" where
  "Async_HierarchyControlComplete ossl dev = sbind (DispatchIn ossl dev no_response
     TPM_CC_HierarchyControl (Resp_other ()))
     (\<lambda>(_, resp). lift (the_resp id resp))"

definition Async_SetPrimaryPolicyComplete :: "Openssl \<Rightarrow> 'd TpmDevice \<Rightarrow> ('d, unit) tp" where
  "Async_SetPrimaryPolicyComplete ossl dev = sbind (DispatchIn ossl dev no_response
     TPM_CC_SetPrimaryPolicy (Resp_other ()))
     (\<lambda>(_, resp). lift (the_resp id resp))"

definition Async_ChangePPSComplete :: "Openssl \<Rightarrow> 'd TpmDevice \<Rightarrow> ('d, unit) tp" where
  "Async_ChangePPSComplete ossl dev = sbind (DispatchIn ossl dev no_response TPM_CC_ChangePPS
     (Resp_other ()))
     (\<lambda>(_, resp). lift (the_resp id resp))"

definition Async_ChangeEPSComplete :: "Openssl \<Rightarrow> 'd TpmDevice \<Rightarrow> ('d, unit) tp" where
  "Async_ChangeEPSComplete ossl dev = sbind (DispatchIn ossl dev no_response TPM_CC_ChangeEPS
     (Resp_other ()))
     (\<lambda>(_, resp). lift (the_resp id resp))"

definition Async_ClearComplete :: "Openssl \<Rightarrow> 'd TpmDevice \<Rightarrow> ('d, unit) tp" where
  "Async_ClearComplete ossl dev = sbind (DispatchIn ossl dev no_response TPM_CC_Clear (Resp_other ()))
     (\<lambda>(_, resp). lift (the_resp id resp))"

definition Async_ClearControlComplete :: "Openssl \<Rightarrow> 'd TpmDevice \<Rightarrow> ('d, unit) tp" where
  "Async_ClearControlComplete ossl dev = sbind (DispatchIn ossl dev no_response TPM_CC_ClearControl
     (Resp_other ()))
     (\<lambda>(_, resp). lift (the_resp id resp))"

definition Async_HierarchyChangeAuthComplete :: "Openssl \<Rightarrow> 'd TpmDevice \<Rightarrow> ('d, unit) tp" where
  "Async_HierarchyChangeAuthComplete ossl dev = sbind (DispatchIn ossl dev no_response
     TPM_CC_HierarchyChangeAuth (Resp_other ()))
     (\<lambda>(_, resp). lift (the_resp id resp))"

definition Async_DictionaryAttackLockResetComplete :: "Openssl \<Rightarrow> 'd TpmDevice \<Rightarrow> ('d, unit) tp" where
  "Async_DictionaryAttackLockResetComplete ossl dev = sbind (DispatchIn ossl dev no_response
     TPM_CC_DictionaryAttackLockReset (Resp_other ()))
     (\<lambda>(_, resp). lift (the_resp id resp))"

definition Async_DictionaryAttackParametersComplete :: "Openssl \<Rightarrow> 'd TpmDevice \<Rightarrow> ('d, unit) tp" where
  "Async_DictionaryAttackParametersComplete ossl dev = sbind (DispatchIn ossl dev no_response
     TPM_CC_DictionaryAttackParameters (Resp_other ()))
     (\<lambda>(_, resp). lift (the_resp id resp))"

definition Async_PP_CommandsComplete :: "Openssl \<Rightarrow> 'd TpmDevice \<Rightarrow> ('d, unit) tp" where
  "Async_PP_CommandsComplete ossl dev = sbind (DispatchIn ossl dev no_response TPM_CC_PP_Commands
     (Resp_other ()))
     (\<lambda>(_, resp). lift (the_resp id resp))"

definition Async_SetAlgorithmSetComplete :: "Openssl \<Rightarrow> 'd TpmDevice \<Rightarrow> ('d, unit) tp" where
  "Async_SetAlgorithmSetComplete ossl dev = sbind (DispatchIn ossl dev no_response
     TPM_CC_SetAlgorithmSet (Resp_other ()))
     (\<lambda>(_, resp). lift (the_resp id resp))"

definition Async_FieldUpgradeStartComplete :: "Openssl \<Rightarrow> 'd TpmDevice \<Rightarrow> ('d, unit) tp" where
  "Async_FieldUpgradeStartComplete ossl dev = sbind (DispatchIn ossl dev no_response
     TPM_CC_FieldUpgradeStart (Resp_other ()))
     (\<lambda>(_, resp). lift (the_resp id resp))"

definition Async_FieldUpgradeDataComplete ::
  "Openssl \<Rightarrow> 'd TpmDevice \<Rightarrow> ('d, FieldUpgradeDataResponse) tp" where
  "Async_FieldUpgradeDataComplete ossl dev = sbind (DispatchIn ossl dev FieldUpgradeDataResponse_resp
     TPM_CC_FieldUpgradeData (Resp_other FieldUpgradeDataResponse_default))
     (\<lambda>(_, resp). lift (the_resp id resp))"

definition Async_FirmwareReadComplete :: "Openssl \<Rightarrow> 'd TpmDevice \<Rightarrow> ('d, ByteVec) tp" where
  "Async_FirmwareReadComplete ossl dev = sbind (DispatchIn ossl dev FirmwareReadResponse_resp
     TPM_CC_FirmwareRead (Resp_other FirmwareReadResponse_default))
     (\<lambda>(_, resp). lift (the_resp FirmwareReadResponse_fuData resp))"

definition Async_ContextSaveComplete :: "Openssl \<Rightarrow> 'd TpmDevice \<Rightarrow> ('d, TPMS_CONTEXT) tp" where
  "Async_ContextSaveComplete ossl dev = sbind (DispatchIn ossl dev ContextSaveResponse_resp
     TPM_CC_ContextSave (Resp_other ContextSaveResponse_default))
     (\<lambda>(_, resp). lift (the_resp ContextSaveResponse_context resp))"

definition Async_ContextLoadComplete :: "Openssl \<Rightarrow> 'd TpmDevice \<Rightarrow> ('d, TPM_HANDLE) tp" where
  "Async_ContextLoadComplete ossl dev = sbind (DispatchIn ossl dev ContextLoadResponse_resp
     TPM_CC_ContextLoad (Resp_other ContextLoadResponse_default))
     (\<lambda>(_, resp). lift (the_resp ContextLoadResponse_handle resp))"

definition Async_FlushContextComplete :: "Openssl \<Rightarrow> 'd TpmDevice \<Rightarrow> ('d, unit) tp" where
  "Async_FlushContextComplete ossl dev = sbind (DispatchIn ossl dev no_response TPM_CC_FlushContext
     (Resp_other ()))
     (\<lambda>(_, resp). lift (the_resp id resp))"

definition Async_EvictControlComplete :: "Openssl \<Rightarrow> 'd TpmDevice \<Rightarrow> ('d, unit) tp" where
  "Async_EvictControlComplete ossl dev = sbind (DispatchIn ossl dev no_response TPM_CC_EvictControl
     (Resp_other ()))
     (\<lambda>(_, resp). lift (the_resp id resp))"

definition Async_ReadClockComplete :: "Openssl \<Rightarrow> 'd TpmDevice \<Rightarrow> ('d, TPMS_TIME_INFO) tp" where
  "Async_ReadClockComplete ossl dev = sbind (DispatchIn ossl dev ReadClockResponse_resp
     TPM_CC_ReadClock (Resp_other ReadClockResponse_default))
     (\<lambda>(_, resp). lift (the_resp ReadClockResponse_currentTime resp))"

definition Async_ClockSetComplete :: "Openssl \<Rightarrow> 'd TpmDevice \<Rightarrow> ('d, unit) tp" where
  "Async_ClockSetComplete ossl dev = sbind (DispatchIn ossl dev no_response TPM_CC_ClockSet
     (Resp_other ()))
     (\<lambda>(_, resp). lift (the_resp id resp))"

definition Async_ClockRateAdjustComplete :: "Openssl \<Rightarrow> 'd TpmDevice \<Rightarrow> ('d, unit) tp" where
  "Async_ClockRateAdjustComplete ossl dev = sbind (DispatchIn ossl dev no_response
     TPM_CC_ClockRateAdjust (Resp_other ()))
     (\<lambda>(_, resp). lift (the_resp id resp))"

definition Async_GetCapabilityComplete ::
  "Openssl \<Rightarrow> 'd TpmDevice \<Rightarrow> ('d, GetCapabilityResponse) tp" where
  "Async_GetCapabilityComplete ossl dev = sbind (DispatchIn ossl dev GetCapabilityResponse_resp
     TPM_CC_GetCapability (Resp_other GetCapabilityResponse_default))
     (\<lambda>(_, resp). lift (the_resp id resp))"

definition Async_TestParmsComplete :: "Openssl \<Rightarrow> 'd TpmDevice \<Rightarrow> ('d, unit) tp" where
  "Async_TestParmsComplete ossl dev = sbind (DispatchIn ossl dev no_response TPM_CC_TestParms
     (Resp_other ()))
     (\<lambda>(_, resp). lift (the_resp id resp))"

definition Async_NV_DefineSpaceComplete :: "Openssl \<Rightarrow> 'd TpmDevice \<Rightarrow> ('d, unit) tp" where
  "Async_NV_DefineSpaceComplete ossl dev = sbind (DispatchIn ossl dev no_response
     TPM_CC_NV_DefineSpace (Resp_other ()))
     (\<lambda>(_, resp). lift (the_resp id resp))"

definition Async_NV_UndefineSpaceComplete :: "Openssl \<Rightarrow> 'd TpmDevice \<Rightarrow> ('d, unit) tp" where
  "Async_NV_UndefineSpaceComplete ossl dev = sbind (DispatchIn ossl dev no_response
     TPM_CC_NV_UndefineSpace (Resp_other ()))
     (\<lambda>(_, resp). lift (the_resp id resp))"

definition Async_NV_UndefineSpaceSpecialComplete :: "Openssl \<Rightarrow> 'd TpmDevice \<Rightarrow> ('d, unit) tp" where
  "Async_NV_UndefineSpaceSpecialComplete ossl dev = sbind (DispatchIn ossl dev no_response
     TPM_CC_NV_UndefineSpaceSpecial (Resp_other ()))
     (\<lambda>(_, resp). lift (the_resp id resp))"

definition Async_NV_ReadPublicComplete ::
  "Openssl \<Rightarrow> 'd TpmDevice \<Rightarrow> ('d, NV_ReadPublicResponse) tp" where
  "Async_NV_ReadPublicComplete ossl dev = sbind (DispatchIn ossl dev NV_ReadPublicResponse_resp
     TPM_CC_NV_ReadPublic (Resp_other NV_ReadPublicResponse_default))
     (\<lambda>(_, resp). lift (the_resp id resp))"

definition Async_NV_WriteComplete :: "Openssl \<Rightarrow> 'd TpmDevice \<Rightarrow> ('d, unit) tp" where
  "Async_NV_WriteComplete ossl dev = sbind (DispatchIn ossl dev no_response TPM_CC_NV_Write
     (Resp_other ()))
     (\<lambda>(_, resp). lift (the_resp id resp))"

definition Async_NV_IncrementComplete :: "Openssl \<Rightarrow> 'd TpmDevice \<Rightarrow> ('d, unit) tp" where
  "Async_NV_IncrementComplete ossl dev = sbind (DispatchIn ossl dev no_response TPM_CC_NV_Increment
     (Resp_other ()))
     (\<lambda>(_, resp). lift (the_resp id resp))"

definition Async_NV_ExtendComplete :: "Openssl \<Rightarrow> 'd TpmDevice \<Rightarrow> ('d, unit) tp" where
  "Async_NV_ExtendComplete ossl dev = sbind (DispatchIn ossl dev no_response TPM_CC_NV_Extend
     (Resp_other ()))
     (\<lambda>(_, resp). lift (the_resp id resp))"

definition Async_NV_SetBitsComplete :: "Openssl \<Rightarrow> 'd TpmDevice \<Rightarrow> ('d, unit) tp" where
  "Async_NV_SetBitsComplete ossl dev = sbind (DispatchIn ossl dev no_response TPM_CC_NV_SetBits
     (Resp_other ()))
     (\<lambda>(_, resp). lift (the_resp id resp))"

definition Async_NV_WriteLockComplete :: "Openssl \<Rightarrow> 'd TpmDevice \<Rightarrow> ('d, unit) tp" where
  "Async_NV_WriteLockComplete ossl dev = sbind (DispatchIn ossl dev no_response TPM_CC_NV_WriteLock
     (Resp_other ()))
     (\<lambda>(_, resp). lift (the_resp id resp))"

definition Async_NV_GlobalWriteLockComplete :: "Openssl \<Rightarrow> 'd TpmDevice \<Rightarrow> ('d, unit) tp" where
  "Async_NV_GlobalWriteLockComplete ossl dev = sbind (DispatchIn ossl dev no_response
     TPM_CC_NV_GlobalWriteLock (Resp_other ()))
     (\<lambda>(_, resp). lift (the_resp id resp))"

definition Async_NV_ReadComplete :: "Openssl \<Rightarrow> 'd TpmDevice \<Rightarrow> ('d, ByteVec) tp" where
  "Async_NV_ReadComplete ossl dev = sbind (DispatchIn ossl dev NV_ReadResponse_resp TPM_CC_NV_Read
     (Resp_other NV_ReadResponse_default))
     (\<lambda>(_, resp). lift (the_resp NV_ReadResponse_data resp))"

definition Async_NV_ReadLockComplete :: "Openssl \<Rightarrow> 'd TpmDevice \<Rightarrow> ('d, unit) tp" where
  "Async_NV_ReadLockComplete ossl dev = sbind (DispatchIn ossl dev no_response TPM_CC_NV_ReadLock
     (Resp_other ()))
     (\<lambda>(_, resp). lift (the_resp id resp))"

definition Async_NV_ChangeAuthComplete :: "Openssl \<Rightarrow> 'd TpmDevice \<Rightarrow> ('d, unit) tp" where
  "Async_NV_ChangeAuthComplete ossl dev = sbind (DispatchIn ossl dev no_response TPM_CC_NV_ChangeAuth
     (Resp_other ()))
     (\<lambda>(_, resp). lift (the_resp id resp))"

definition Async_NV_CertifyComplete :: "Openssl \<Rightarrow> 'd TpmDevice \<Rightarrow> ('d, NV_CertifyResponse) tp" where
  "Async_NV_CertifyComplete ossl dev = sbind (DispatchIn ossl dev NV_CertifyResponse_resp
     TPM_CC_NV_Certify (Resp_other NV_CertifyResponse_default))
     (\<lambda>(_, resp). lift (the_resp id resp))"

definition Async_AC_GetCapabilityComplete ::
  "Openssl \<Rightarrow> 'd TpmDevice \<Rightarrow> ('d, AC_GetCapabilityResponse) tp" where
  "Async_AC_GetCapabilityComplete ossl dev = sbind (DispatchIn ossl dev AC_GetCapabilityResponse_resp
     TPM_CC_AC_GetCapability (Resp_other AC_GetCapabilityResponse_default))
     (\<lambda>(_, resp). lift (the_resp id resp))"

definition Async_AC_SendComplete :: "Openssl \<Rightarrow> 'd TpmDevice \<Rightarrow> ('d, TPMS_AC_OUTPUT) tp" where
  "Async_AC_SendComplete ossl dev = sbind (DispatchIn ossl dev AC_SendResponse_resp TPM_CC_AC_Send
     (Resp_other AC_SendResponse_default))
     (\<lambda>(_, resp). lift (the_resp AC_SendResponse_acDataOut resp))"

definition Async_Policy_AC_SendSelectComplete :: "Openssl \<Rightarrow> 'd TpmDevice \<Rightarrow> ('d, unit) tp" where
  "Async_Policy_AC_SendSelectComplete ossl dev = sbind (DispatchIn ossl dev no_response
     TPM_CC_Policy_AC_SendSelect (Resp_other ()))
     (\<lambda>(_, resp). lift (the_resp id resp))"

definition Async_ACT_SetTimeoutComplete :: "Openssl \<Rightarrow> 'd TpmDevice \<Rightarrow> ('d, unit) tp" where
  "Async_ACT_SetTimeoutComplete ossl dev = sbind (DispatchIn ossl dev no_response
     TPM_CC_ACT_SetTimeout (Resp_other ()))
     (\<lambda>(_, resp). lift (the_resp id resp))"

definition Async_Vendor_TCG_TestComplete :: "Openssl \<Rightarrow> 'd TpmDevice \<Rightarrow> ('d, ByteVec) tp" where
  "Async_Vendor_TCG_TestComplete ossl dev = sbind (DispatchIn ossl dev Vendor_TCG_TestResponse_resp
     TPM_CC_Vendor_TCG_Test (Resp_other Vendor_TCG_TestResponse_default))
     (\<lambda>(_, resp). lift (the_resp Vendor_TCG_TestResponse_outputData resp))"

end
