(* ===== verification/TextObjectCommands.thy ===== *)
theory TextObjectCommands
  imports TextNvTypes TpmObjectCommands
begin

text \<open>
  \<^verbatim>\<open>TSS.CPP/Src/TpmTypes.cpp\<close>, the text form of the structures of theory \<open>TpmObjectCommands\<close>: \<open>X_Serialize\<close> and
  \<open>X_Deserialize\<close> of each class \<open>X\<close>, the values \<open>X_text_ok\<close> that a text of the given kind can carry, and
  the proof that the second method reads what the first one writes (the interpretation \<open>X_text\<close>).
  A class with an array of enumerators has no such interpretation: \<open>readEnumArr\<close> does not read it.
\<close>

subsection \<open>TPM2_Startup_REQUEST\<close>

definition TPM2_Startup_REQUEST_Serialize :: "TPM2_Startup_REQUEST \<Rightarrow> unit ser" where
  "TPM2_Startup_REQUEST_Serialize self = wseq
     [withN ''startupType'' ''TPM_SU'' '''' '''' (ser_writeEnumT (TPM2_Startup_REQUEST_startupType self) TPM_SU_ID)]"

definition TPM2_Startup_REQUEST_Deserialize :: "TPM2_Startup_REQUEST \<Rightarrow> TPM2_Startup_REQUEST ser" where
  "TPM2_Startup_REQUEST_Deserialize self =
     sbind (withN ''startupType'' ''TPM_SU'' '''' '''' (ser_readEnumT TPM_SU_ID)) (\<lambda>startupType.
     ret (self\<lparr>TPM2_Startup_REQUEST_startupType := startupType\<rparr>))"

definition TPM2_Startup_REQUEST_text_ok :: "text_class \<Rightarrow> TPM2_Startup_REQUEST \<Rightarrow> bool" where
  "TPM2_Startup_REQUEST_text_ok c x \<longleftrightarrow>
     enum_ok c (ucast (TPM2_Startup_REQUEST_startupType x)) TPM_SU_ID"

interpretation TPM2_Startup_REQUEST_text: text_codec "''TPM2_Startup_REQUEST''" TPM2_Startup_REQUEST_Serialize TPM2_Startup_REQUEST_Deserialize TPM2_Startup_REQUEST_default TPM2_Startup_REQUEST_text_ok
proof
  show "word_ok ''TPM2_Startup_REQUEST''" by (simp add: word_simps)
  fix c x assume ok: "TPM2_Startup_REQUEST_text_ok c x"
  from ok show "carries c True (TPM2_Startup_REQUEST_Serialize x) (TPM2_Startup_REQUEST_Deserialize TPM2_Startup_REQUEST_default) x"
    by (simp only: TPM2_Startup_REQUEST_Serialize_def TPM2_Startup_REQUEST_Deserialize_def TPM2_Startup_REQUEST_default_def
       TPM2_Startup_REQUEST.select_convs TPM2_Startup_REQUEST.update_convs;
      intro carries_body;
      (rule TPM2_Startup_REQUEST.equality)?; simp add: TPM2_Startup_REQUEST_text_ok_def word_simps)
qed

subsection \<open>TPM2_Shutdown_REQUEST\<close>

definition TPM2_Shutdown_REQUEST_Serialize :: "TPM2_Shutdown_REQUEST \<Rightarrow> unit ser" where
  "TPM2_Shutdown_REQUEST_Serialize self = wseq
     [withN ''shutdownType'' ''TPM_SU'' '''' '''' (ser_writeEnumT (TPM2_Shutdown_REQUEST_shutdownType self) TPM_SU_ID)]"

definition TPM2_Shutdown_REQUEST_Deserialize :: "TPM2_Shutdown_REQUEST \<Rightarrow> TPM2_Shutdown_REQUEST ser" where
  "TPM2_Shutdown_REQUEST_Deserialize self =
     sbind (withN ''shutdownType'' ''TPM_SU'' '''' '''' (ser_readEnumT TPM_SU_ID)) (\<lambda>shutdownType.
     ret (self\<lparr>TPM2_Shutdown_REQUEST_shutdownType := shutdownType\<rparr>))"

definition TPM2_Shutdown_REQUEST_text_ok :: "text_class \<Rightarrow> TPM2_Shutdown_REQUEST \<Rightarrow> bool" where
  "TPM2_Shutdown_REQUEST_text_ok c x \<longleftrightarrow>
     enum_ok c (ucast (TPM2_Shutdown_REQUEST_shutdownType x)) TPM_SU_ID"

interpretation TPM2_Shutdown_REQUEST_text: text_codec "''TPM2_Shutdown_REQUEST''" TPM2_Shutdown_REQUEST_Serialize TPM2_Shutdown_REQUEST_Deserialize TPM2_Shutdown_REQUEST_default TPM2_Shutdown_REQUEST_text_ok
proof
  show "word_ok ''TPM2_Shutdown_REQUEST''" by (simp add: word_simps)
  fix c x assume ok: "TPM2_Shutdown_REQUEST_text_ok c x"
  from ok show "carries c True (TPM2_Shutdown_REQUEST_Serialize x) (TPM2_Shutdown_REQUEST_Deserialize TPM2_Shutdown_REQUEST_default) x"
    by (simp only: TPM2_Shutdown_REQUEST_Serialize_def TPM2_Shutdown_REQUEST_Deserialize_def TPM2_Shutdown_REQUEST_default_def
       TPM2_Shutdown_REQUEST.select_convs TPM2_Shutdown_REQUEST.update_convs;
      intro carries_body;
      (rule TPM2_Shutdown_REQUEST.equality)?; simp add: TPM2_Shutdown_REQUEST_text_ok_def word_simps)
qed

subsection \<open>TPM2_SelfTest_REQUEST\<close>

definition TPM2_SelfTest_REQUEST_Serialize :: "TPM2_SelfTest_REQUEST \<Rightarrow> unit ser" where
  "TPM2_SelfTest_REQUEST_Serialize self = wseq
     [withN ''fullTest'' ''BYTE'' '''' '''' (ser_writeByte (TPM2_SelfTest_REQUEST_fullTest self))]"

definition TPM2_SelfTest_REQUEST_Deserialize :: "TPM2_SelfTest_REQUEST \<Rightarrow> TPM2_SelfTest_REQUEST ser" where
  "TPM2_SelfTest_REQUEST_Deserialize self =
     sbind (withN ''fullTest'' ''BYTE'' '''' '''' ser_readByte) (\<lambda>fullTest.
     ret (self\<lparr>TPM2_SelfTest_REQUEST_fullTest := fullTest\<rparr>))"

definition TPM2_SelfTest_REQUEST_text_ok :: "text_class \<Rightarrow> TPM2_SelfTest_REQUEST \<Rightarrow> bool" where
  "TPM2_SelfTest_REQUEST_text_ok c x \<longleftrightarrow>
     True"

interpretation TPM2_SelfTest_REQUEST_text: text_codec "''TPM2_SelfTest_REQUEST''" TPM2_SelfTest_REQUEST_Serialize TPM2_SelfTest_REQUEST_Deserialize TPM2_SelfTest_REQUEST_default TPM2_SelfTest_REQUEST_text_ok
proof
  show "word_ok ''TPM2_SelfTest_REQUEST''" by (simp add: word_simps)
  fix c x assume ok: "TPM2_SelfTest_REQUEST_text_ok c x"
  from ok show "carries c True (TPM2_SelfTest_REQUEST_Serialize x) (TPM2_SelfTest_REQUEST_Deserialize TPM2_SelfTest_REQUEST_default) x"
    by (simp only: TPM2_SelfTest_REQUEST_Serialize_def TPM2_SelfTest_REQUEST_Deserialize_def TPM2_SelfTest_REQUEST_default_def
       TPM2_SelfTest_REQUEST.select_convs TPM2_SelfTest_REQUEST.update_convs;
      intro carries_body;
      (rule TPM2_SelfTest_REQUEST.equality)?; simp add: TPM2_SelfTest_REQUEST_text_ok_def word_simps)
qed

subsection \<open>TPM2_IncrementalSelfTest_REQUEST\<close>

definition TPM2_IncrementalSelfTest_REQUEST_Serialize :: "TPM2_IncrementalSelfTest_REQUEST \<Rightarrow> unit ser" where
  "TPM2_IncrementalSelfTest_REQUEST_Serialize self = wseq
     [withN ''toTest'' ''TPM_ALG_ID[]'' ''toTestCount'' ''UINT32'' (ser_writeEnumArr (map ucast (TPM2_IncrementalSelfTest_REQUEST_toTest self)) 2 TPM_ALG_ID_ID)]"

definition TPM2_IncrementalSelfTest_REQUEST_Deserialize :: "TPM2_IncrementalSelfTest_REQUEST \<Rightarrow> TPM2_IncrementalSelfTest_REQUEST ser" where
  "TPM2_IncrementalSelfTest_REQUEST_Deserialize self =
     sbind (withN ''toTest'' ''TPM_ALG_ID[]'' ''toTestCount'' ''UINT32'' (ser_readEnumArr (TPM2_IncrementalSelfTest_REQUEST_toTest self) 2 TPM_ALG_ID_ID)) (\<lambda>toTest.
     ret (self\<lparr>TPM2_IncrementalSelfTest_REQUEST_toTest := toTest\<rparr>))"

subsection \<open>IncrementalSelfTestResponse\<close>

definition IncrementalSelfTestResponse_Serialize :: "IncrementalSelfTestResponse \<Rightarrow> unit ser" where
  "IncrementalSelfTestResponse_Serialize self = wseq
     [withN ''toDoList'' ''TPM_ALG_ID[]'' ''toDoListCount'' ''UINT32'' (ser_writeEnumArr (map ucast (IncrementalSelfTestResponse_toDoList self)) 2 TPM_ALG_ID_ID)]"

definition IncrementalSelfTestResponse_Deserialize :: "IncrementalSelfTestResponse \<Rightarrow> IncrementalSelfTestResponse ser" where
  "IncrementalSelfTestResponse_Deserialize self =
     sbind (withN ''toDoList'' ''TPM_ALG_ID[]'' ''toDoListCount'' ''UINT32'' (ser_readEnumArr (IncrementalSelfTestResponse_toDoList self) 2 TPM_ALG_ID_ID)) (\<lambda>toDoList.
     ret (self\<lparr>IncrementalSelfTestResponse_toDoList := toDoList\<rparr>))"

subsection \<open>GetTestResultResponse\<close>

definition GetTestResultResponse_Serialize :: "GetTestResultResponse \<Rightarrow> unit ser" where
  "GetTestResultResponse_Serialize self = wseq
     [withN ''outData'' ''BYTE[]'' ''outDataSize'' ''UINT16'' (ser_writeSizedByteBuf (GetTestResultResponse_outData self)),
      withN ''testResult'' ''TPM_RC'' '''' '''' (ser_writeEnumT (GetTestResultResponse_testResult self) TPM_RC_ID)]"

definition GetTestResultResponse_Deserialize :: "GetTestResultResponse \<Rightarrow> GetTestResultResponse ser" where
  "GetTestResultResponse_Deserialize self =
     sbind (withN ''outData'' ''BYTE[]'' ''outDataSize'' ''UINT16'' ser_readSizedByteBuf) (\<lambda>outData.
     sbind (withN ''testResult'' ''TPM_RC'' '''' '''' (ser_readEnumT TPM_RC_ID)) (\<lambda>testResult.
     ret (self\<lparr>GetTestResultResponse_outData := outData, GetTestResultResponse_testResult := testResult\<rparr>)))"

definition GetTestResultResponse_text_ok :: "text_class \<Rightarrow> GetTestResultResponse \<Rightarrow> bool" where
  "GetTestResultResponse_text_ok c x \<longleftrightarrow>
     length (GetTestResultResponse_outData x) < 2 ^ 64 \<and>
     enum_ok c (ucast (GetTestResultResponse_testResult x)) TPM_RC_ID"

interpretation GetTestResultResponse_text: text_codec "''GetTestResultResponse''" GetTestResultResponse_Serialize GetTestResultResponse_Deserialize GetTestResultResponse_default GetTestResultResponse_text_ok
proof
  show "word_ok ''GetTestResultResponse''" by (simp add: word_simps)
  fix c x assume ok: "GetTestResultResponse_text_ok c x"
  from ok show "carries c True (GetTestResultResponse_Serialize x) (GetTestResultResponse_Deserialize GetTestResultResponse_default) x"
    by (simp only: GetTestResultResponse_Serialize_def GetTestResultResponse_Deserialize_def GetTestResultResponse_default_def
       GetTestResultResponse.select_convs GetTestResultResponse.update_convs;
      intro carries_body;
      (rule GetTestResultResponse.equality)?; simp add: GetTestResultResponse_text_ok_def word_simps)
qed

subsection \<open>TPM2_StartAuthSession_REQUEST\<close>

definition TPM2_StartAuthSession_REQUEST_Serialize :: "TPM2_StartAuthSession_REQUEST \<Rightarrow> unit ser" where
  "TPM2_StartAuthSession_REQUEST_Serialize self = wseq
     [withN ''tpmKey'' ''TPM_HANDLE'' '''' '''' (ser_writeObj ''TPM_HANDLE'' (TPM_HANDLE_Serialize (TPM2_StartAuthSession_REQUEST_tpmKey self))),
      withN ''bind'' ''TPM_HANDLE'' '''' '''' (ser_writeObj ''TPM_HANDLE'' (TPM_HANDLE_Serialize (TPM2_StartAuthSession_REQUEST_bind self))),
      withN ''nonceCaller'' ''BYTE[]'' ''nonceCallerSize'' ''UINT16'' (ser_writeSizedByteBuf (TPM2_StartAuthSession_REQUEST_nonceCaller self)),
      withN ''encryptedSalt'' ''BYTE[]'' ''encryptedSaltSize'' ''UINT16'' (ser_writeSizedByteBuf (TPM2_StartAuthSession_REQUEST_encryptedSalt self)),
      withN ''sessionType'' ''TPM_SE'' '''' '''' (ser_writeEnumT (TPM2_StartAuthSession_REQUEST_sessionType self) TPM_SE_ID),
      withN ''symmetric'' ''TPMT_SYM_DEF'' '''' '''' (ser_writeObj ''TPMT_SYM_DEF'' (TPMT_SYM_DEF_Serialize (TPM2_StartAuthSession_REQUEST_symmetric self))),
      withN ''authHash'' ''TPM_ALG_ID'' '''' '''' (ser_writeEnumT (TPM2_StartAuthSession_REQUEST_authHash self) TPM_ALG_ID_ID)]"

definition TPM2_StartAuthSession_REQUEST_Deserialize :: "TPM2_StartAuthSession_REQUEST \<Rightarrow> TPM2_StartAuthSession_REQUEST ser" where
  "TPM2_StartAuthSession_REQUEST_Deserialize self =
     sbind (withN ''tpmKey'' ''TPM_HANDLE'' '''' '''' (ser_readObj ''TPM_HANDLE'' (TPM_HANDLE_Deserialize (TPM2_StartAuthSession_REQUEST_tpmKey self)))) (\<lambda>tpmKey.
     sbind (withN ''bind'' ''TPM_HANDLE'' '''' '''' (ser_readObj ''TPM_HANDLE'' (TPM_HANDLE_Deserialize (TPM2_StartAuthSession_REQUEST_bind self)))) (\<lambda>bind.
     sbind (withN ''nonceCaller'' ''BYTE[]'' ''nonceCallerSize'' ''UINT16'' ser_readSizedByteBuf) (\<lambda>nonceCaller.
     sbind (withN ''encryptedSalt'' ''BYTE[]'' ''encryptedSaltSize'' ''UINT16'' ser_readSizedByteBuf) (\<lambda>encryptedSalt.
     sbind (withN ''sessionType'' ''TPM_SE'' '''' '''' (ser_readEnumT TPM_SE_ID)) (\<lambda>sessionType.
     sbind (withN ''symmetric'' ''TPMT_SYM_DEF'' '''' '''' (ser_readObj ''TPMT_SYM_DEF'' (TPMT_SYM_DEF_Deserialize (TPM2_StartAuthSession_REQUEST_symmetric self)))) (\<lambda>symmetric.
     sbind (withN ''authHash'' ''TPM_ALG_ID'' '''' '''' (ser_readEnumT TPM_ALG_ID_ID)) (\<lambda>authHash.
     ret (self\<lparr>TPM2_StartAuthSession_REQUEST_tpmKey := tpmKey, TPM2_StartAuthSession_REQUEST_bind := bind, TPM2_StartAuthSession_REQUEST_nonceCaller := nonceCaller, TPM2_StartAuthSession_REQUEST_encryptedSalt := encryptedSalt, TPM2_StartAuthSession_REQUEST_sessionType := sessionType, TPM2_StartAuthSession_REQUEST_symmetric := symmetric, TPM2_StartAuthSession_REQUEST_authHash := authHash\<rparr>))))))))"

definition TPM2_StartAuthSession_REQUEST_text_ok :: "text_class \<Rightarrow> TPM2_StartAuthSession_REQUEST \<Rightarrow> bool" where
  "TPM2_StartAuthSession_REQUEST_text_ok c x \<longleftrightarrow>
     TPM_HANDLE_text_ok c (TPM2_StartAuthSession_REQUEST_tpmKey x) \<and>
     TPM_HANDLE_text_ok c (TPM2_StartAuthSession_REQUEST_bind x) \<and>
     length (TPM2_StartAuthSession_REQUEST_nonceCaller x) < 2 ^ 64 \<and>
     length (TPM2_StartAuthSession_REQUEST_encryptedSalt x) < 2 ^ 64 \<and>
     enum_ok c (ucast (TPM2_StartAuthSession_REQUEST_sessionType x)) TPM_SE_ID \<and>
     TPMT_SYM_DEF_text_ok c (TPM2_StartAuthSession_REQUEST_symmetric x) \<and>
     enum_ok c (ucast (TPM2_StartAuthSession_REQUEST_authHash x)) TPM_ALG_ID_ID"

interpretation TPM2_StartAuthSession_REQUEST_text: text_codec "''TPM2_StartAuthSession_REQUEST''" TPM2_StartAuthSession_REQUEST_Serialize TPM2_StartAuthSession_REQUEST_Deserialize TPM2_StartAuthSession_REQUEST_default TPM2_StartAuthSession_REQUEST_text_ok
proof
  show "word_ok ''TPM2_StartAuthSession_REQUEST''" by (simp add: word_simps)
  fix c x assume ok: "TPM2_StartAuthSession_REQUEST_text_ok c x"
  from ok show "carries c True (TPM2_StartAuthSession_REQUEST_Serialize x) (TPM2_StartAuthSession_REQUEST_Deserialize TPM2_StartAuthSession_REQUEST_default) x"
    by (simp only: TPM2_StartAuthSession_REQUEST_Serialize_def TPM2_StartAuthSession_REQUEST_Deserialize_def TPM2_StartAuthSession_REQUEST_default_def
       TPM2_StartAuthSession_REQUEST.select_convs TPM2_StartAuthSession_REQUEST.update_convs;
      intro TPMT_SYM_DEF_text.as_entry [THEN carries_entry_Cons] TPM_HANDLE_text.as_entry [THEN carries_entry_Cons] carries_body;
      (rule TPM2_StartAuthSession_REQUEST.equality)?; simp add: TPM2_StartAuthSession_REQUEST_text_ok_def word_simps)
qed

subsection \<open>StartAuthSessionResponse\<close>

definition StartAuthSessionResponse_Serialize :: "StartAuthSessionResponse \<Rightarrow> unit ser" where
  "StartAuthSessionResponse_Serialize self = wseq
     [withN ''handle'' ''TPM_HANDLE'' '''' '''' (ser_writeObj ''TPM_HANDLE'' (TPM_HANDLE_Serialize (StartAuthSessionResponse_handle self))),
      withN ''nonceTPM'' ''BYTE[]'' ''nonceTPMSize'' ''UINT16'' (ser_writeSizedByteBuf (StartAuthSessionResponse_nonceTPM self))]"

definition StartAuthSessionResponse_Deserialize :: "StartAuthSessionResponse \<Rightarrow> StartAuthSessionResponse ser" where
  "StartAuthSessionResponse_Deserialize self =
     sbind (withN ''handle'' ''TPM_HANDLE'' '''' '''' (ser_readObj ''TPM_HANDLE'' (TPM_HANDLE_Deserialize (StartAuthSessionResponse_handle self)))) (\<lambda>handle.
     sbind (withN ''nonceTPM'' ''BYTE[]'' ''nonceTPMSize'' ''UINT16'' ser_readSizedByteBuf) (\<lambda>nonceTPM.
     ret (self\<lparr>StartAuthSessionResponse_handle := handle, StartAuthSessionResponse_nonceTPM := nonceTPM\<rparr>)))"

definition StartAuthSessionResponse_text_ok :: "text_class \<Rightarrow> StartAuthSessionResponse \<Rightarrow> bool" where
  "StartAuthSessionResponse_text_ok c x \<longleftrightarrow>
     TPM_HANDLE_text_ok c (StartAuthSessionResponse_handle x) \<and>
     length (StartAuthSessionResponse_nonceTPM x) < 2 ^ 64"

interpretation StartAuthSessionResponse_text: text_codec "''StartAuthSessionResponse''" StartAuthSessionResponse_Serialize StartAuthSessionResponse_Deserialize StartAuthSessionResponse_default StartAuthSessionResponse_text_ok
proof
  show "word_ok ''StartAuthSessionResponse''" by (simp add: word_simps)
  fix c x assume ok: "StartAuthSessionResponse_text_ok c x"
  from ok show "carries c True (StartAuthSessionResponse_Serialize x) (StartAuthSessionResponse_Deserialize StartAuthSessionResponse_default) x"
    by (simp only: StartAuthSessionResponse_Serialize_def StartAuthSessionResponse_Deserialize_def StartAuthSessionResponse_default_def
       StartAuthSessionResponse.select_convs StartAuthSessionResponse.update_convs;
      intro TPM_HANDLE_text.as_entry [THEN carries_entry_Cons] carries_body;
      (rule StartAuthSessionResponse.equality)?; simp add: StartAuthSessionResponse_text_ok_def word_simps)
qed

subsection \<open>TPM2_PolicyRestart_REQUEST\<close>

definition TPM2_PolicyRestart_REQUEST_Serialize :: "TPM2_PolicyRestart_REQUEST \<Rightarrow> unit ser" where
  "TPM2_PolicyRestart_REQUEST_Serialize self = wseq
     [withN ''sessionHandle'' ''TPM_HANDLE'' '''' '''' (ser_writeObj ''TPM_HANDLE'' (TPM_HANDLE_Serialize (TPM2_PolicyRestart_REQUEST_sessionHandle self)))]"

definition TPM2_PolicyRestart_REQUEST_Deserialize :: "TPM2_PolicyRestart_REQUEST \<Rightarrow> TPM2_PolicyRestart_REQUEST ser" where
  "TPM2_PolicyRestart_REQUEST_Deserialize self =
     sbind (withN ''sessionHandle'' ''TPM_HANDLE'' '''' '''' (ser_readObj ''TPM_HANDLE'' (TPM_HANDLE_Deserialize (TPM2_PolicyRestart_REQUEST_sessionHandle self)))) (\<lambda>sessionHandle.
     ret (self\<lparr>TPM2_PolicyRestart_REQUEST_sessionHandle := sessionHandle\<rparr>))"

definition TPM2_PolicyRestart_REQUEST_text_ok :: "text_class \<Rightarrow> TPM2_PolicyRestart_REQUEST \<Rightarrow> bool" where
  "TPM2_PolicyRestart_REQUEST_text_ok c x \<longleftrightarrow>
     TPM_HANDLE_text_ok c (TPM2_PolicyRestart_REQUEST_sessionHandle x)"

interpretation TPM2_PolicyRestart_REQUEST_text: text_codec "''TPM2_PolicyRestart_REQUEST''" TPM2_PolicyRestart_REQUEST_Serialize TPM2_PolicyRestart_REQUEST_Deserialize TPM2_PolicyRestart_REQUEST_default TPM2_PolicyRestart_REQUEST_text_ok
proof
  show "word_ok ''TPM2_PolicyRestart_REQUEST''" by (simp add: word_simps)
  fix c x assume ok: "TPM2_PolicyRestart_REQUEST_text_ok c x"
  from ok show "carries c True (TPM2_PolicyRestart_REQUEST_Serialize x) (TPM2_PolicyRestart_REQUEST_Deserialize TPM2_PolicyRestart_REQUEST_default) x"
    by (simp only: TPM2_PolicyRestart_REQUEST_Serialize_def TPM2_PolicyRestart_REQUEST_Deserialize_def TPM2_PolicyRestart_REQUEST_default_def
       TPM2_PolicyRestart_REQUEST.select_convs TPM2_PolicyRestart_REQUEST.update_convs;
      intro TPM_HANDLE_text.as_entry [THEN carries_entry_Cons] carries_body;
      (rule TPM2_PolicyRestart_REQUEST.equality)?; simp add: TPM2_PolicyRestart_REQUEST_text_ok_def word_simps)
qed

subsection \<open>TPM2_Create_REQUEST\<close>

definition TPM2_Create_REQUEST_Serialize :: "TPM2_Create_REQUEST \<Rightarrow> unit ser" where
  "TPM2_Create_REQUEST_Serialize self = wseq
     [withN ''parentHandle'' ''TPM_HANDLE'' '''' '''' (ser_writeObj ''TPM_HANDLE'' (TPM_HANDLE_Serialize (TPM2_Create_REQUEST_parentHandle self))),
      withN ''inSensitive'' ''TPMS_SENSITIVE_CREATE'' ''inSensitiveSize'' ''UINT16'' (ser_writeObj ''TPMS_SENSITIVE_CREATE'' (TPMS_SENSITIVE_CREATE_Serialize (TPM2_Create_REQUEST_inSensitive self))),
      withN ''inPublic'' ''TPMT_PUBLIC'' ''inPublicSize'' ''UINT16'' (ser_writeObj ''TPMT_PUBLIC'' (TPMT_PUBLIC_Serialize (TPM2_Create_REQUEST_inPublic self))),
      withN ''outsideInfo'' ''BYTE[]'' ''outsideInfoSize'' ''UINT16'' (ser_writeSizedByteBuf (TPM2_Create_REQUEST_outsideInfo self)),
      withN ''creationPCR'' ''TPMS_PCR_SELECTION[]'' ''creationPCRCount'' ''UINT32'' (ser_writeObjArr ''TPMS_PCR_SELECTION'' TPMS_PCR_SELECTION_Serialize (TPM2_Create_REQUEST_creationPCR self))]"

definition TPM2_Create_REQUEST_Deserialize :: "TPM2_Create_REQUEST \<Rightarrow> TPM2_Create_REQUEST ser" where
  "TPM2_Create_REQUEST_Deserialize self =
     sbind (withN ''parentHandle'' ''TPM_HANDLE'' '''' '''' (ser_readObj ''TPM_HANDLE'' (TPM_HANDLE_Deserialize (TPM2_Create_REQUEST_parentHandle self)))) (\<lambda>parentHandle.
     sbind (withN ''inSensitive'' ''TPMS_SENSITIVE_CREATE'' ''inSensitiveSize'' ''UINT16'' (ser_readObj ''TPMS_SENSITIVE_CREATE'' (TPMS_SENSITIVE_CREATE_Deserialize (TPM2_Create_REQUEST_inSensitive self)))) (\<lambda>inSensitive.
     sbind (withN ''inPublic'' ''TPMT_PUBLIC'' ''inPublicSize'' ''UINT16'' (ser_readObj ''TPMT_PUBLIC'' (TPMT_PUBLIC_Deserialize (TPM2_Create_REQUEST_inPublic self)))) (\<lambda>inPublic.
     sbind (withN ''outsideInfo'' ''BYTE[]'' ''outsideInfoSize'' ''UINT16'' ser_readSizedByteBuf) (\<lambda>outsideInfo.
     sbind (withN ''creationPCR'' ''TPMS_PCR_SELECTION[]'' ''creationPCRCount'' ''UINT32'' (ser_readObjArr ''TPMS_PCR_SELECTION'' TPMS_PCR_SELECTION_Deserialize TPMS_PCR_SELECTION_default (TPM2_Create_REQUEST_creationPCR self))) (\<lambda>creationPCR.
     ret (self\<lparr>TPM2_Create_REQUEST_parentHandle := parentHandle, TPM2_Create_REQUEST_inSensitive := inSensitive, TPM2_Create_REQUEST_inPublic := inPublic, TPM2_Create_REQUEST_outsideInfo := outsideInfo, TPM2_Create_REQUEST_creationPCR := creationPCR\<rparr>))))))"

definition TPM2_Create_REQUEST_text_ok :: "text_class \<Rightarrow> TPM2_Create_REQUEST \<Rightarrow> bool" where
  "TPM2_Create_REQUEST_text_ok c x \<longleftrightarrow>
     TPM_HANDLE_text_ok c (TPM2_Create_REQUEST_parentHandle x) \<and>
     TPMS_SENSITIVE_CREATE_text_ok c (TPM2_Create_REQUEST_inSensitive x) \<and>
     TPMT_PUBLIC_text_ok c (TPM2_Create_REQUEST_inPublic x) \<and>
     length (TPM2_Create_REQUEST_outsideInfo x) < 2 ^ 64 \<and>
     length (TPM2_Create_REQUEST_creationPCR x) < 2 ^ 64 \<and> (\<forall>y \<in> set (TPM2_Create_REQUEST_creationPCR x). TPMS_PCR_SELECTION_text_ok c y)"

interpretation TPM2_Create_REQUEST_text: text_codec "''TPM2_Create_REQUEST''" TPM2_Create_REQUEST_Serialize TPM2_Create_REQUEST_Deserialize TPM2_Create_REQUEST_default TPM2_Create_REQUEST_text_ok
proof
  show "word_ok ''TPM2_Create_REQUEST''" by (simp add: word_simps)
  fix c x assume ok: "TPM2_Create_REQUEST_text_ok c x"
  from ok show "carries c True (TPM2_Create_REQUEST_Serialize x) (TPM2_Create_REQUEST_Deserialize TPM2_Create_REQUEST_default) x"
    by (simp only: TPM2_Create_REQUEST_Serialize_def TPM2_Create_REQUEST_Deserialize_def TPM2_Create_REQUEST_default_def
       TPM2_Create_REQUEST.select_convs TPM2_Create_REQUEST.update_convs;
      intro TPMS_PCR_SELECTION_text.as_elements [THEN carries_entry_Cons] TPMS_SENSITIVE_CREATE_text.as_entry [THEN carries_entry_Cons] TPMT_PUBLIC_text.as_entry [THEN carries_entry_Cons] TPM_HANDLE_text.as_entry [THEN carries_entry_Cons] carries_body;
      (rule TPM2_Create_REQUEST.equality)?; simp add: TPM2_Create_REQUEST_text_ok_def word_simps)
qed

subsection \<open>CreateResponse\<close>

definition CreateResponse_Serialize :: "CreateResponse \<Rightarrow> unit ser" where
  "CreateResponse_Serialize self = wseq
     [withN ''outPrivate'' ''TPM2B_PRIVATE'' '''' '''' (ser_writeObj ''TPM2B_PRIVATE'' (TPM2B_PRIVATE_Serialize (CreateResponse_outPrivate self))),
      withN ''outPublic'' ''TPMT_PUBLIC'' ''outPublicSize'' ''UINT16'' (ser_writeObj ''TPMT_PUBLIC'' (TPMT_PUBLIC_Serialize (CreateResponse_outPublic self))),
      withN ''creationData'' ''TPMS_CREATION_DATA'' ''creationDataSize'' ''UINT16'' (ser_writeObj ''TPMS_CREATION_DATA'' (TPMS_CREATION_DATA_Serialize (CreateResponse_creationData self))),
      withN ''creationHash'' ''BYTE[]'' ''creationHashSize'' ''UINT16'' (ser_writeSizedByteBuf (CreateResponse_creationHash self)),
      withN ''creationTicket'' ''TPMT_TK_CREATION'' '''' '''' (ser_writeObj ''TPMT_TK_CREATION'' (TPMT_TK_CREATION_Serialize (CreateResponse_creationTicket self)))]"

definition CreateResponse_Deserialize :: "CreateResponse \<Rightarrow> CreateResponse ser" where
  "CreateResponse_Deserialize self =
     sbind (withN ''outPrivate'' ''TPM2B_PRIVATE'' '''' '''' (ser_readObj ''TPM2B_PRIVATE'' (TPM2B_PRIVATE_Deserialize (CreateResponse_outPrivate self)))) (\<lambda>outPrivate.
     sbind (withN ''outPublic'' ''TPMT_PUBLIC'' ''outPublicSize'' ''UINT16'' (ser_readObj ''TPMT_PUBLIC'' (TPMT_PUBLIC_Deserialize (CreateResponse_outPublic self)))) (\<lambda>outPublic.
     sbind (withN ''creationData'' ''TPMS_CREATION_DATA'' ''creationDataSize'' ''UINT16'' (ser_readObj ''TPMS_CREATION_DATA'' (TPMS_CREATION_DATA_Deserialize (CreateResponse_creationData self)))) (\<lambda>creationData.
     sbind (withN ''creationHash'' ''BYTE[]'' ''creationHashSize'' ''UINT16'' ser_readSizedByteBuf) (\<lambda>creationHash.
     sbind (withN ''creationTicket'' ''TPMT_TK_CREATION'' '''' '''' (ser_readObj ''TPMT_TK_CREATION'' (TPMT_TK_CREATION_Deserialize (CreateResponse_creationTicket self)))) (\<lambda>creationTicket.
     ret (self\<lparr>CreateResponse_outPrivate := outPrivate, CreateResponse_outPublic := outPublic, CreateResponse_creationData := creationData, CreateResponse_creationHash := creationHash, CreateResponse_creationTicket := creationTicket\<rparr>))))))"

definition CreateResponse_text_ok :: "text_class \<Rightarrow> CreateResponse \<Rightarrow> bool" where
  "CreateResponse_text_ok c x \<longleftrightarrow>
     TPM2B_PRIVATE_text_ok c (CreateResponse_outPrivate x) \<and>
     TPMT_PUBLIC_text_ok c (CreateResponse_outPublic x) \<and>
     TPMS_CREATION_DATA_text_ok c (CreateResponse_creationData x) \<and>
     length (CreateResponse_creationHash x) < 2 ^ 64 \<and>
     TPMT_TK_CREATION_text_ok c (CreateResponse_creationTicket x)"

interpretation CreateResponse_text: text_codec "''CreateResponse''" CreateResponse_Serialize CreateResponse_Deserialize CreateResponse_default CreateResponse_text_ok
proof
  show "word_ok ''CreateResponse''" by (simp add: word_simps)
  fix c x assume ok: "CreateResponse_text_ok c x"
  from ok show "carries c True (CreateResponse_Serialize x) (CreateResponse_Deserialize CreateResponse_default) x"
    by (simp only: CreateResponse_Serialize_def CreateResponse_Deserialize_def CreateResponse_default_def
       CreateResponse.select_convs CreateResponse.update_convs;
      intro TPM2B_PRIVATE_text.as_entry [THEN carries_entry_Cons] TPMS_CREATION_DATA_text.as_entry [THEN carries_entry_Cons] TPMT_PUBLIC_text.as_entry [THEN carries_entry_Cons] TPMT_TK_CREATION_text.as_entry [THEN carries_entry_Cons] carries_body;
      (rule CreateResponse.equality)?; simp add: CreateResponse_text_ok_def word_simps)
qed

subsection \<open>TPM2_Load_REQUEST\<close>

definition TPM2_Load_REQUEST_Serialize :: "TPM2_Load_REQUEST \<Rightarrow> unit ser" where
  "TPM2_Load_REQUEST_Serialize self = wseq
     [withN ''parentHandle'' ''TPM_HANDLE'' '''' '''' (ser_writeObj ''TPM_HANDLE'' (TPM_HANDLE_Serialize (TPM2_Load_REQUEST_parentHandle self))),
      withN ''inPrivate'' ''TPM2B_PRIVATE'' '''' '''' (ser_writeObj ''TPM2B_PRIVATE'' (TPM2B_PRIVATE_Serialize (TPM2_Load_REQUEST_inPrivate self))),
      withN ''inPublic'' ''TPMT_PUBLIC'' ''inPublicSize'' ''UINT16'' (ser_writeObj ''TPMT_PUBLIC'' (TPMT_PUBLIC_Serialize (TPM2_Load_REQUEST_inPublic self)))]"

definition TPM2_Load_REQUEST_Deserialize :: "TPM2_Load_REQUEST \<Rightarrow> TPM2_Load_REQUEST ser" where
  "TPM2_Load_REQUEST_Deserialize self =
     sbind (withN ''parentHandle'' ''TPM_HANDLE'' '''' '''' (ser_readObj ''TPM_HANDLE'' (TPM_HANDLE_Deserialize (TPM2_Load_REQUEST_parentHandle self)))) (\<lambda>parentHandle.
     sbind (withN ''inPrivate'' ''TPM2B_PRIVATE'' '''' '''' (ser_readObj ''TPM2B_PRIVATE'' (TPM2B_PRIVATE_Deserialize (TPM2_Load_REQUEST_inPrivate self)))) (\<lambda>inPrivate.
     sbind (withN ''inPublic'' ''TPMT_PUBLIC'' ''inPublicSize'' ''UINT16'' (ser_readObj ''TPMT_PUBLIC'' (TPMT_PUBLIC_Deserialize (TPM2_Load_REQUEST_inPublic self)))) (\<lambda>inPublic.
     ret (self\<lparr>TPM2_Load_REQUEST_parentHandle := parentHandle, TPM2_Load_REQUEST_inPrivate := inPrivate, TPM2_Load_REQUEST_inPublic := inPublic\<rparr>))))"

definition TPM2_Load_REQUEST_text_ok :: "text_class \<Rightarrow> TPM2_Load_REQUEST \<Rightarrow> bool" where
  "TPM2_Load_REQUEST_text_ok c x \<longleftrightarrow>
     TPM_HANDLE_text_ok c (TPM2_Load_REQUEST_parentHandle x) \<and>
     TPM2B_PRIVATE_text_ok c (TPM2_Load_REQUEST_inPrivate x) \<and>
     TPMT_PUBLIC_text_ok c (TPM2_Load_REQUEST_inPublic x)"

interpretation TPM2_Load_REQUEST_text: text_codec "''TPM2_Load_REQUEST''" TPM2_Load_REQUEST_Serialize TPM2_Load_REQUEST_Deserialize TPM2_Load_REQUEST_default TPM2_Load_REQUEST_text_ok
proof
  show "word_ok ''TPM2_Load_REQUEST''" by (simp add: word_simps)
  fix c x assume ok: "TPM2_Load_REQUEST_text_ok c x"
  from ok show "carries c True (TPM2_Load_REQUEST_Serialize x) (TPM2_Load_REQUEST_Deserialize TPM2_Load_REQUEST_default) x"
    by (simp only: TPM2_Load_REQUEST_Serialize_def TPM2_Load_REQUEST_Deserialize_def TPM2_Load_REQUEST_default_def
       TPM2_Load_REQUEST.select_convs TPM2_Load_REQUEST.update_convs;
      intro TPM2B_PRIVATE_text.as_entry [THEN carries_entry_Cons] TPMT_PUBLIC_text.as_entry [THEN carries_entry_Cons] TPM_HANDLE_text.as_entry [THEN carries_entry_Cons] carries_body;
      (rule TPM2_Load_REQUEST.equality)?; simp add: TPM2_Load_REQUEST_text_ok_def word_simps)
qed

subsection \<open>LoadResponse\<close>

definition LoadResponse_Serialize :: "LoadResponse \<Rightarrow> unit ser" where
  "LoadResponse_Serialize self = wseq
     [withN ''handle'' ''TPM_HANDLE'' '''' '''' (ser_writeObj ''TPM_HANDLE'' (TPM_HANDLE_Serialize (LoadResponse_handle self))),
      withN ''name'' ''BYTE[]'' ''nameSize'' ''UINT16'' (ser_writeSizedByteBuf (LoadResponse_name self))]"

definition LoadResponse_Deserialize :: "LoadResponse \<Rightarrow> LoadResponse ser" where
  "LoadResponse_Deserialize self =
     sbind (withN ''handle'' ''TPM_HANDLE'' '''' '''' (ser_readObj ''TPM_HANDLE'' (TPM_HANDLE_Deserialize (LoadResponse_handle self)))) (\<lambda>handle.
     sbind (withN ''name'' ''BYTE[]'' ''nameSize'' ''UINT16'' ser_readSizedByteBuf) (\<lambda>name.
     ret (self\<lparr>LoadResponse_handle := handle, LoadResponse_name := name\<rparr>)))"

definition LoadResponse_text_ok :: "text_class \<Rightarrow> LoadResponse \<Rightarrow> bool" where
  "LoadResponse_text_ok c x \<longleftrightarrow>
     TPM_HANDLE_text_ok c (LoadResponse_handle x) \<and>
     length (LoadResponse_name x) < 2 ^ 64"

interpretation LoadResponse_text: text_codec "''LoadResponse''" LoadResponse_Serialize LoadResponse_Deserialize LoadResponse_default LoadResponse_text_ok
proof
  show "word_ok ''LoadResponse''" by (simp add: word_simps)
  fix c x assume ok: "LoadResponse_text_ok c x"
  from ok show "carries c True (LoadResponse_Serialize x) (LoadResponse_Deserialize LoadResponse_default) x"
    by (simp only: LoadResponse_Serialize_def LoadResponse_Deserialize_def LoadResponse_default_def
       LoadResponse.select_convs LoadResponse.update_convs;
      intro TPM_HANDLE_text.as_entry [THEN carries_entry_Cons] carries_body;
      (rule LoadResponse.equality)?; simp add: LoadResponse_text_ok_def word_simps)
qed

subsection \<open>TPM2_LoadExternal_REQUEST\<close>

definition TPM2_LoadExternal_REQUEST_Serialize :: "TPM2_LoadExternal_REQUEST \<Rightarrow> unit ser" where
  "TPM2_LoadExternal_REQUEST_Serialize self = wseq
     [withN ''inPrivate'' ''TPMT_SENSITIVE'' ''inPrivateSize'' ''UINT16'' (ser_writeObj ''TPMT_SENSITIVE'' (TPMT_SENSITIVE_Serialize (TPM2_LoadExternal_REQUEST_inPrivate self))),
      withN ''inPublic'' ''TPMT_PUBLIC'' ''inPublicSize'' ''UINT16'' (ser_writeObj ''TPMT_PUBLIC'' (TPMT_PUBLIC_Serialize (TPM2_LoadExternal_REQUEST_inPublic self))),
      withN ''hierarchy'' ''TPM_HANDLE'' '''' '''' (ser_writeObj ''TPM_HANDLE'' (TPM_HANDLE_Serialize (TPM2_LoadExternal_REQUEST_hierarchy self)))]"

definition TPM2_LoadExternal_REQUEST_Deserialize :: "TPM2_LoadExternal_REQUEST \<Rightarrow> TPM2_LoadExternal_REQUEST ser" where
  "TPM2_LoadExternal_REQUEST_Deserialize self =
     sbind (withN ''inPrivate'' ''TPMT_SENSITIVE'' ''inPrivateSize'' ''UINT16'' (ser_readObj ''TPMT_SENSITIVE'' (TPMT_SENSITIVE_Deserialize (TPM2_LoadExternal_REQUEST_inPrivate self)))) (\<lambda>inPrivate.
     sbind (withN ''inPublic'' ''TPMT_PUBLIC'' ''inPublicSize'' ''UINT16'' (ser_readObj ''TPMT_PUBLIC'' (TPMT_PUBLIC_Deserialize (TPM2_LoadExternal_REQUEST_inPublic self)))) (\<lambda>inPublic.
     sbind (withN ''hierarchy'' ''TPM_HANDLE'' '''' '''' (ser_readObj ''TPM_HANDLE'' (TPM_HANDLE_Deserialize (TPM2_LoadExternal_REQUEST_hierarchy self)))) (\<lambda>hierarchy.
     ret (self\<lparr>TPM2_LoadExternal_REQUEST_inPrivate := inPrivate, TPM2_LoadExternal_REQUEST_inPublic := inPublic, TPM2_LoadExternal_REQUEST_hierarchy := hierarchy\<rparr>))))"

definition TPM2_LoadExternal_REQUEST_text_ok :: "text_class \<Rightarrow> TPM2_LoadExternal_REQUEST \<Rightarrow> bool" where
  "TPM2_LoadExternal_REQUEST_text_ok c x \<longleftrightarrow>
     TPMT_SENSITIVE_text_ok c (TPM2_LoadExternal_REQUEST_inPrivate x) \<and>
     TPMT_PUBLIC_text_ok c (TPM2_LoadExternal_REQUEST_inPublic x) \<and>
     TPM_HANDLE_text_ok c (TPM2_LoadExternal_REQUEST_hierarchy x)"

interpretation TPM2_LoadExternal_REQUEST_text: text_codec "''TPM2_LoadExternal_REQUEST''" TPM2_LoadExternal_REQUEST_Serialize TPM2_LoadExternal_REQUEST_Deserialize TPM2_LoadExternal_REQUEST_default TPM2_LoadExternal_REQUEST_text_ok
proof
  show "word_ok ''TPM2_LoadExternal_REQUEST''" by (simp add: word_simps)
  fix c x assume ok: "TPM2_LoadExternal_REQUEST_text_ok c x"
  from ok show "carries c True (TPM2_LoadExternal_REQUEST_Serialize x) (TPM2_LoadExternal_REQUEST_Deserialize TPM2_LoadExternal_REQUEST_default) x"
    by (simp only: TPM2_LoadExternal_REQUEST_Serialize_def TPM2_LoadExternal_REQUEST_Deserialize_def TPM2_LoadExternal_REQUEST_default_def
       TPM2_LoadExternal_REQUEST.select_convs TPM2_LoadExternal_REQUEST.update_convs;
      intro TPMT_PUBLIC_text.as_entry [THEN carries_entry_Cons] TPMT_SENSITIVE_text.as_entry [THEN carries_entry_Cons] TPM_HANDLE_text.as_entry [THEN carries_entry_Cons] carries_body;
      (rule TPM2_LoadExternal_REQUEST.equality)?; simp add: TPM2_LoadExternal_REQUEST_text_ok_def word_simps)
qed

subsection \<open>LoadExternalResponse\<close>

definition LoadExternalResponse_Serialize :: "LoadExternalResponse \<Rightarrow> unit ser" where
  "LoadExternalResponse_Serialize self = wseq
     [withN ''handle'' ''TPM_HANDLE'' '''' '''' (ser_writeObj ''TPM_HANDLE'' (TPM_HANDLE_Serialize (LoadExternalResponse_handle self))),
      withN ''name'' ''BYTE[]'' ''nameSize'' ''UINT16'' (ser_writeSizedByteBuf (LoadExternalResponse_name self))]"

definition LoadExternalResponse_Deserialize :: "LoadExternalResponse \<Rightarrow> LoadExternalResponse ser" where
  "LoadExternalResponse_Deserialize self =
     sbind (withN ''handle'' ''TPM_HANDLE'' '''' '''' (ser_readObj ''TPM_HANDLE'' (TPM_HANDLE_Deserialize (LoadExternalResponse_handle self)))) (\<lambda>handle.
     sbind (withN ''name'' ''BYTE[]'' ''nameSize'' ''UINT16'' ser_readSizedByteBuf) (\<lambda>name.
     ret (self\<lparr>LoadExternalResponse_handle := handle, LoadExternalResponse_name := name\<rparr>)))"

definition LoadExternalResponse_text_ok :: "text_class \<Rightarrow> LoadExternalResponse \<Rightarrow> bool" where
  "LoadExternalResponse_text_ok c x \<longleftrightarrow>
     TPM_HANDLE_text_ok c (LoadExternalResponse_handle x) \<and>
     length (LoadExternalResponse_name x) < 2 ^ 64"

interpretation LoadExternalResponse_text: text_codec "''LoadExternalResponse''" LoadExternalResponse_Serialize LoadExternalResponse_Deserialize LoadExternalResponse_default LoadExternalResponse_text_ok
proof
  show "word_ok ''LoadExternalResponse''" by (simp add: word_simps)
  fix c x assume ok: "LoadExternalResponse_text_ok c x"
  from ok show "carries c True (LoadExternalResponse_Serialize x) (LoadExternalResponse_Deserialize LoadExternalResponse_default) x"
    by (simp only: LoadExternalResponse_Serialize_def LoadExternalResponse_Deserialize_def LoadExternalResponse_default_def
       LoadExternalResponse.select_convs LoadExternalResponse.update_convs;
      intro TPM_HANDLE_text.as_entry [THEN carries_entry_Cons] carries_body;
      (rule LoadExternalResponse.equality)?; simp add: LoadExternalResponse_text_ok_def word_simps)
qed

subsection \<open>TPM2_ReadPublic_REQUEST\<close>

definition TPM2_ReadPublic_REQUEST_Serialize :: "TPM2_ReadPublic_REQUEST \<Rightarrow> unit ser" where
  "TPM2_ReadPublic_REQUEST_Serialize self = wseq
     [withN ''objectHandle'' ''TPM_HANDLE'' '''' '''' (ser_writeObj ''TPM_HANDLE'' (TPM_HANDLE_Serialize (TPM2_ReadPublic_REQUEST_objectHandle self)))]"

definition TPM2_ReadPublic_REQUEST_Deserialize :: "TPM2_ReadPublic_REQUEST \<Rightarrow> TPM2_ReadPublic_REQUEST ser" where
  "TPM2_ReadPublic_REQUEST_Deserialize self =
     sbind (withN ''objectHandle'' ''TPM_HANDLE'' '''' '''' (ser_readObj ''TPM_HANDLE'' (TPM_HANDLE_Deserialize (TPM2_ReadPublic_REQUEST_objectHandle self)))) (\<lambda>objectHandle.
     ret (self\<lparr>TPM2_ReadPublic_REQUEST_objectHandle := objectHandle\<rparr>))"

definition TPM2_ReadPublic_REQUEST_text_ok :: "text_class \<Rightarrow> TPM2_ReadPublic_REQUEST \<Rightarrow> bool" where
  "TPM2_ReadPublic_REQUEST_text_ok c x \<longleftrightarrow>
     TPM_HANDLE_text_ok c (TPM2_ReadPublic_REQUEST_objectHandle x)"

interpretation TPM2_ReadPublic_REQUEST_text: text_codec "''TPM2_ReadPublic_REQUEST''" TPM2_ReadPublic_REQUEST_Serialize TPM2_ReadPublic_REQUEST_Deserialize TPM2_ReadPublic_REQUEST_default TPM2_ReadPublic_REQUEST_text_ok
proof
  show "word_ok ''TPM2_ReadPublic_REQUEST''" by (simp add: word_simps)
  fix c x assume ok: "TPM2_ReadPublic_REQUEST_text_ok c x"
  from ok show "carries c True (TPM2_ReadPublic_REQUEST_Serialize x) (TPM2_ReadPublic_REQUEST_Deserialize TPM2_ReadPublic_REQUEST_default) x"
    by (simp only: TPM2_ReadPublic_REQUEST_Serialize_def TPM2_ReadPublic_REQUEST_Deserialize_def TPM2_ReadPublic_REQUEST_default_def
       TPM2_ReadPublic_REQUEST.select_convs TPM2_ReadPublic_REQUEST.update_convs;
      intro TPM_HANDLE_text.as_entry [THEN carries_entry_Cons] carries_body;
      (rule TPM2_ReadPublic_REQUEST.equality)?; simp add: TPM2_ReadPublic_REQUEST_text_ok_def word_simps)
qed

subsection \<open>ReadPublicResponse\<close>

definition ReadPublicResponse_Serialize :: "ReadPublicResponse \<Rightarrow> unit ser" where
  "ReadPublicResponse_Serialize self = wseq
     [withN ''outPublic'' ''TPMT_PUBLIC'' ''outPublicSize'' ''UINT16'' (ser_writeObj ''TPMT_PUBLIC'' (TPMT_PUBLIC_Serialize (ReadPublicResponse_outPublic self))),
      withN ''name'' ''BYTE[]'' ''nameSize'' ''UINT16'' (ser_writeSizedByteBuf (ReadPublicResponse_name self)),
      withN ''qualifiedName'' ''BYTE[]'' ''qualifiedNameSize'' ''UINT16'' (ser_writeSizedByteBuf (ReadPublicResponse_qualifiedName self))]"

definition ReadPublicResponse_Deserialize :: "ReadPublicResponse \<Rightarrow> ReadPublicResponse ser" where
  "ReadPublicResponse_Deserialize self =
     sbind (withN ''outPublic'' ''TPMT_PUBLIC'' ''outPublicSize'' ''UINT16'' (ser_readObj ''TPMT_PUBLIC'' (TPMT_PUBLIC_Deserialize (ReadPublicResponse_outPublic self)))) (\<lambda>outPublic.
     sbind (withN ''name'' ''BYTE[]'' ''nameSize'' ''UINT16'' ser_readSizedByteBuf) (\<lambda>name.
     sbind (withN ''qualifiedName'' ''BYTE[]'' ''qualifiedNameSize'' ''UINT16'' ser_readSizedByteBuf) (\<lambda>qualifiedName.
     ret (self\<lparr>ReadPublicResponse_outPublic := outPublic, ReadPublicResponse_name := name, ReadPublicResponse_qualifiedName := qualifiedName\<rparr>))))"

definition ReadPublicResponse_text_ok :: "text_class \<Rightarrow> ReadPublicResponse \<Rightarrow> bool" where
  "ReadPublicResponse_text_ok c x \<longleftrightarrow>
     TPMT_PUBLIC_text_ok c (ReadPublicResponse_outPublic x) \<and>
     length (ReadPublicResponse_name x) < 2 ^ 64 \<and>
     length (ReadPublicResponse_qualifiedName x) < 2 ^ 64"

interpretation ReadPublicResponse_text: text_codec "''ReadPublicResponse''" ReadPublicResponse_Serialize ReadPublicResponse_Deserialize ReadPublicResponse_default ReadPublicResponse_text_ok
proof
  show "word_ok ''ReadPublicResponse''" by (simp add: word_simps)
  fix c x assume ok: "ReadPublicResponse_text_ok c x"
  from ok show "carries c True (ReadPublicResponse_Serialize x) (ReadPublicResponse_Deserialize ReadPublicResponse_default) x"
    by (simp only: ReadPublicResponse_Serialize_def ReadPublicResponse_Deserialize_def ReadPublicResponse_default_def
       ReadPublicResponse.select_convs ReadPublicResponse.update_convs;
      intro TPMT_PUBLIC_text.as_entry [THEN carries_entry_Cons] carries_body;
      (rule ReadPublicResponse.equality)?; simp add: ReadPublicResponse_text_ok_def word_simps)
qed

subsection \<open>TPM2_ActivateCredential_REQUEST\<close>

definition TPM2_ActivateCredential_REQUEST_Serialize :: "TPM2_ActivateCredential_REQUEST \<Rightarrow> unit ser" where
  "TPM2_ActivateCredential_REQUEST_Serialize self = wseq
     [withN ''activateHandle'' ''TPM_HANDLE'' '''' '''' (ser_writeObj ''TPM_HANDLE'' (TPM_HANDLE_Serialize (TPM2_ActivateCredential_REQUEST_activateHandle self))),
      withN ''keyHandle'' ''TPM_HANDLE'' '''' '''' (ser_writeObj ''TPM_HANDLE'' (TPM_HANDLE_Serialize (TPM2_ActivateCredential_REQUEST_keyHandle self))),
      withN ''credentialBlob'' ''TPMS_ID_OBJECT'' ''credentialBlobSize'' ''UINT16'' (ser_writeObj ''TPMS_ID_OBJECT'' (TPMS_ID_OBJECT_Serialize (TPM2_ActivateCredential_REQUEST_credentialBlob self))),
      withN ''secret'' ''BYTE[]'' ''secretSize'' ''UINT16'' (ser_writeSizedByteBuf (TPM2_ActivateCredential_REQUEST_secret self))]"

definition TPM2_ActivateCredential_REQUEST_Deserialize :: "TPM2_ActivateCredential_REQUEST \<Rightarrow> TPM2_ActivateCredential_REQUEST ser" where
  "TPM2_ActivateCredential_REQUEST_Deserialize self =
     sbind (withN ''activateHandle'' ''TPM_HANDLE'' '''' '''' (ser_readObj ''TPM_HANDLE'' (TPM_HANDLE_Deserialize (TPM2_ActivateCredential_REQUEST_activateHandle self)))) (\<lambda>activateHandle.
     sbind (withN ''keyHandle'' ''TPM_HANDLE'' '''' '''' (ser_readObj ''TPM_HANDLE'' (TPM_HANDLE_Deserialize (TPM2_ActivateCredential_REQUEST_keyHandle self)))) (\<lambda>keyHandle.
     sbind (withN ''credentialBlob'' ''TPMS_ID_OBJECT'' ''credentialBlobSize'' ''UINT16'' (ser_readObj ''TPMS_ID_OBJECT'' (TPMS_ID_OBJECT_Deserialize (TPM2_ActivateCredential_REQUEST_credentialBlob self)))) (\<lambda>credentialBlob.
     sbind (withN ''secret'' ''BYTE[]'' ''secretSize'' ''UINT16'' ser_readSizedByteBuf) (\<lambda>secret.
     ret (self\<lparr>TPM2_ActivateCredential_REQUEST_activateHandle := activateHandle, TPM2_ActivateCredential_REQUEST_keyHandle := keyHandle, TPM2_ActivateCredential_REQUEST_credentialBlob := credentialBlob, TPM2_ActivateCredential_REQUEST_secret := secret\<rparr>)))))"

definition TPM2_ActivateCredential_REQUEST_text_ok :: "text_class \<Rightarrow> TPM2_ActivateCredential_REQUEST \<Rightarrow> bool" where
  "TPM2_ActivateCredential_REQUEST_text_ok c x \<longleftrightarrow>
     TPM_HANDLE_text_ok c (TPM2_ActivateCredential_REQUEST_activateHandle x) \<and>
     TPM_HANDLE_text_ok c (TPM2_ActivateCredential_REQUEST_keyHandle x) \<and>
     TPMS_ID_OBJECT_text_ok c (TPM2_ActivateCredential_REQUEST_credentialBlob x) \<and>
     length (TPM2_ActivateCredential_REQUEST_secret x) < 2 ^ 64"

interpretation TPM2_ActivateCredential_REQUEST_text: text_codec "''TPM2_ActivateCredential_REQUEST''" TPM2_ActivateCredential_REQUEST_Serialize TPM2_ActivateCredential_REQUEST_Deserialize TPM2_ActivateCredential_REQUEST_default TPM2_ActivateCredential_REQUEST_text_ok
proof
  show "word_ok ''TPM2_ActivateCredential_REQUEST''" by (simp add: word_simps)
  fix c x assume ok: "TPM2_ActivateCredential_REQUEST_text_ok c x"
  from ok show "carries c True (TPM2_ActivateCredential_REQUEST_Serialize x) (TPM2_ActivateCredential_REQUEST_Deserialize TPM2_ActivateCredential_REQUEST_default) x"
    by (simp only: TPM2_ActivateCredential_REQUEST_Serialize_def TPM2_ActivateCredential_REQUEST_Deserialize_def TPM2_ActivateCredential_REQUEST_default_def
       TPM2_ActivateCredential_REQUEST.select_convs TPM2_ActivateCredential_REQUEST.update_convs;
      intro TPMS_ID_OBJECT_text.as_entry [THEN carries_entry_Cons] TPM_HANDLE_text.as_entry [THEN carries_entry_Cons] carries_body;
      (rule TPM2_ActivateCredential_REQUEST.equality)?; simp add: TPM2_ActivateCredential_REQUEST_text_ok_def word_simps)
qed

subsection \<open>ActivateCredentialResponse\<close>

definition ActivateCredentialResponse_Serialize :: "ActivateCredentialResponse \<Rightarrow> unit ser" where
  "ActivateCredentialResponse_Serialize self = wseq
     [withN ''certInfo'' ''BYTE[]'' ''certInfoSize'' ''UINT16'' (ser_writeSizedByteBuf (ActivateCredentialResponse_certInfo self))]"

definition ActivateCredentialResponse_Deserialize :: "ActivateCredentialResponse \<Rightarrow> ActivateCredentialResponse ser" where
  "ActivateCredentialResponse_Deserialize self =
     sbind (withN ''certInfo'' ''BYTE[]'' ''certInfoSize'' ''UINT16'' ser_readSizedByteBuf) (\<lambda>certInfo.
     ret (self\<lparr>ActivateCredentialResponse_certInfo := certInfo\<rparr>))"

definition ActivateCredentialResponse_text_ok :: "text_class \<Rightarrow> ActivateCredentialResponse \<Rightarrow> bool" where
  "ActivateCredentialResponse_text_ok c x \<longleftrightarrow>
     length (ActivateCredentialResponse_certInfo x) < 2 ^ 64"

interpretation ActivateCredentialResponse_text: text_codec "''ActivateCredentialResponse''" ActivateCredentialResponse_Serialize ActivateCredentialResponse_Deserialize ActivateCredentialResponse_default ActivateCredentialResponse_text_ok
proof
  show "word_ok ''ActivateCredentialResponse''" by (simp add: word_simps)
  fix c x assume ok: "ActivateCredentialResponse_text_ok c x"
  from ok show "carries c True (ActivateCredentialResponse_Serialize x) (ActivateCredentialResponse_Deserialize ActivateCredentialResponse_default) x"
    by (simp only: ActivateCredentialResponse_Serialize_def ActivateCredentialResponse_Deserialize_def ActivateCredentialResponse_default_def
       ActivateCredentialResponse.select_convs ActivateCredentialResponse.update_convs;
      intro carries_body;
      (rule ActivateCredentialResponse.equality)?; simp add: ActivateCredentialResponse_text_ok_def word_simps)
qed

subsection \<open>TPM2_MakeCredential_REQUEST\<close>

definition TPM2_MakeCredential_REQUEST_Serialize :: "TPM2_MakeCredential_REQUEST \<Rightarrow> unit ser" where
  "TPM2_MakeCredential_REQUEST_Serialize self = wseq
     [withN ''handle'' ''TPM_HANDLE'' '''' '''' (ser_writeObj ''TPM_HANDLE'' (TPM_HANDLE_Serialize (TPM2_MakeCredential_REQUEST_handle self))),
      withN ''credential'' ''BYTE[]'' ''credentialSize'' ''UINT16'' (ser_writeSizedByteBuf (TPM2_MakeCredential_REQUEST_credential self)),
      withN ''objectName'' ''BYTE[]'' ''objectNameSize'' ''UINT16'' (ser_writeSizedByteBuf (TPM2_MakeCredential_REQUEST_objectName self))]"

definition TPM2_MakeCredential_REQUEST_Deserialize :: "TPM2_MakeCredential_REQUEST \<Rightarrow> TPM2_MakeCredential_REQUEST ser" where
  "TPM2_MakeCredential_REQUEST_Deserialize self =
     sbind (withN ''handle'' ''TPM_HANDLE'' '''' '''' (ser_readObj ''TPM_HANDLE'' (TPM_HANDLE_Deserialize (TPM2_MakeCredential_REQUEST_handle self)))) (\<lambda>handle.
     sbind (withN ''credential'' ''BYTE[]'' ''credentialSize'' ''UINT16'' ser_readSizedByteBuf) (\<lambda>credential.
     sbind (withN ''objectName'' ''BYTE[]'' ''objectNameSize'' ''UINT16'' ser_readSizedByteBuf) (\<lambda>objectName.
     ret (self\<lparr>TPM2_MakeCredential_REQUEST_handle := handle, TPM2_MakeCredential_REQUEST_credential := credential, TPM2_MakeCredential_REQUEST_objectName := objectName\<rparr>))))"

definition TPM2_MakeCredential_REQUEST_text_ok :: "text_class \<Rightarrow> TPM2_MakeCredential_REQUEST \<Rightarrow> bool" where
  "TPM2_MakeCredential_REQUEST_text_ok c x \<longleftrightarrow>
     TPM_HANDLE_text_ok c (TPM2_MakeCredential_REQUEST_handle x) \<and>
     length (TPM2_MakeCredential_REQUEST_credential x) < 2 ^ 64 \<and>
     length (TPM2_MakeCredential_REQUEST_objectName x) < 2 ^ 64"

interpretation TPM2_MakeCredential_REQUEST_text: text_codec "''TPM2_MakeCredential_REQUEST''" TPM2_MakeCredential_REQUEST_Serialize TPM2_MakeCredential_REQUEST_Deserialize TPM2_MakeCredential_REQUEST_default TPM2_MakeCredential_REQUEST_text_ok
proof
  show "word_ok ''TPM2_MakeCredential_REQUEST''" by (simp add: word_simps)
  fix c x assume ok: "TPM2_MakeCredential_REQUEST_text_ok c x"
  from ok show "carries c True (TPM2_MakeCredential_REQUEST_Serialize x) (TPM2_MakeCredential_REQUEST_Deserialize TPM2_MakeCredential_REQUEST_default) x"
    by (simp only: TPM2_MakeCredential_REQUEST_Serialize_def TPM2_MakeCredential_REQUEST_Deserialize_def TPM2_MakeCredential_REQUEST_default_def
       TPM2_MakeCredential_REQUEST.select_convs TPM2_MakeCredential_REQUEST.update_convs;
      intro TPM_HANDLE_text.as_entry [THEN carries_entry_Cons] carries_body;
      (rule TPM2_MakeCredential_REQUEST.equality)?; simp add: TPM2_MakeCredential_REQUEST_text_ok_def word_simps)
qed

subsection \<open>MakeCredentialResponse\<close>

definition MakeCredentialResponse_Serialize :: "MakeCredentialResponse \<Rightarrow> unit ser" where
  "MakeCredentialResponse_Serialize self = wseq
     [withN ''credentialBlob'' ''TPMS_ID_OBJECT'' ''credentialBlobSize'' ''UINT16'' (ser_writeObj ''TPMS_ID_OBJECT'' (TPMS_ID_OBJECT_Serialize (MakeCredentialResponse_credentialBlob self))),
      withN ''secret'' ''BYTE[]'' ''secretSize'' ''UINT16'' (ser_writeSizedByteBuf (MakeCredentialResponse_secret self))]"

definition MakeCredentialResponse_Deserialize :: "MakeCredentialResponse \<Rightarrow> MakeCredentialResponse ser" where
  "MakeCredentialResponse_Deserialize self =
     sbind (withN ''credentialBlob'' ''TPMS_ID_OBJECT'' ''credentialBlobSize'' ''UINT16'' (ser_readObj ''TPMS_ID_OBJECT'' (TPMS_ID_OBJECT_Deserialize (MakeCredentialResponse_credentialBlob self)))) (\<lambda>credentialBlob.
     sbind (withN ''secret'' ''BYTE[]'' ''secretSize'' ''UINT16'' ser_readSizedByteBuf) (\<lambda>secret.
     ret (self\<lparr>MakeCredentialResponse_credentialBlob := credentialBlob, MakeCredentialResponse_secret := secret\<rparr>)))"

definition MakeCredentialResponse_text_ok :: "text_class \<Rightarrow> MakeCredentialResponse \<Rightarrow> bool" where
  "MakeCredentialResponse_text_ok c x \<longleftrightarrow>
     TPMS_ID_OBJECT_text_ok c (MakeCredentialResponse_credentialBlob x) \<and>
     length (MakeCredentialResponse_secret x) < 2 ^ 64"

interpretation MakeCredentialResponse_text: text_codec "''MakeCredentialResponse''" MakeCredentialResponse_Serialize MakeCredentialResponse_Deserialize MakeCredentialResponse_default MakeCredentialResponse_text_ok
proof
  show "word_ok ''MakeCredentialResponse''" by (simp add: word_simps)
  fix c x assume ok: "MakeCredentialResponse_text_ok c x"
  from ok show "carries c True (MakeCredentialResponse_Serialize x) (MakeCredentialResponse_Deserialize MakeCredentialResponse_default) x"
    by (simp only: MakeCredentialResponse_Serialize_def MakeCredentialResponse_Deserialize_def MakeCredentialResponse_default_def
       MakeCredentialResponse.select_convs MakeCredentialResponse.update_convs;
      intro TPMS_ID_OBJECT_text.as_entry [THEN carries_entry_Cons] carries_body;
      (rule MakeCredentialResponse.equality)?; simp add: MakeCredentialResponse_text_ok_def word_simps)
qed

subsection \<open>TPM2_Unseal_REQUEST\<close>

definition TPM2_Unseal_REQUEST_Serialize :: "TPM2_Unseal_REQUEST \<Rightarrow> unit ser" where
  "TPM2_Unseal_REQUEST_Serialize self = wseq
     [withN ''itemHandle'' ''TPM_HANDLE'' '''' '''' (ser_writeObj ''TPM_HANDLE'' (TPM_HANDLE_Serialize (TPM2_Unseal_REQUEST_itemHandle self)))]"

definition TPM2_Unseal_REQUEST_Deserialize :: "TPM2_Unseal_REQUEST \<Rightarrow> TPM2_Unseal_REQUEST ser" where
  "TPM2_Unseal_REQUEST_Deserialize self =
     sbind (withN ''itemHandle'' ''TPM_HANDLE'' '''' '''' (ser_readObj ''TPM_HANDLE'' (TPM_HANDLE_Deserialize (TPM2_Unseal_REQUEST_itemHandle self)))) (\<lambda>itemHandle.
     ret (self\<lparr>TPM2_Unseal_REQUEST_itemHandle := itemHandle\<rparr>))"

definition TPM2_Unseal_REQUEST_text_ok :: "text_class \<Rightarrow> TPM2_Unseal_REQUEST \<Rightarrow> bool" where
  "TPM2_Unseal_REQUEST_text_ok c x \<longleftrightarrow>
     TPM_HANDLE_text_ok c (TPM2_Unseal_REQUEST_itemHandle x)"

interpretation TPM2_Unseal_REQUEST_text: text_codec "''TPM2_Unseal_REQUEST''" TPM2_Unseal_REQUEST_Serialize TPM2_Unseal_REQUEST_Deserialize TPM2_Unseal_REQUEST_default TPM2_Unseal_REQUEST_text_ok
proof
  show "word_ok ''TPM2_Unseal_REQUEST''" by (simp add: word_simps)
  fix c x assume ok: "TPM2_Unseal_REQUEST_text_ok c x"
  from ok show "carries c True (TPM2_Unseal_REQUEST_Serialize x) (TPM2_Unseal_REQUEST_Deserialize TPM2_Unseal_REQUEST_default) x"
    by (simp only: TPM2_Unseal_REQUEST_Serialize_def TPM2_Unseal_REQUEST_Deserialize_def TPM2_Unseal_REQUEST_default_def
       TPM2_Unseal_REQUEST.select_convs TPM2_Unseal_REQUEST.update_convs;
      intro TPM_HANDLE_text.as_entry [THEN carries_entry_Cons] carries_body;
      (rule TPM2_Unseal_REQUEST.equality)?; simp add: TPM2_Unseal_REQUEST_text_ok_def word_simps)
qed

subsection \<open>UnsealResponse\<close>

definition UnsealResponse_Serialize :: "UnsealResponse \<Rightarrow> unit ser" where
  "UnsealResponse_Serialize self = wseq
     [withN ''outData'' ''BYTE[]'' ''outDataSize'' ''UINT16'' (ser_writeSizedByteBuf (UnsealResponse_outData self))]"

definition UnsealResponse_Deserialize :: "UnsealResponse \<Rightarrow> UnsealResponse ser" where
  "UnsealResponse_Deserialize self =
     sbind (withN ''outData'' ''BYTE[]'' ''outDataSize'' ''UINT16'' ser_readSizedByteBuf) (\<lambda>outData.
     ret (self\<lparr>UnsealResponse_outData := outData\<rparr>))"

definition UnsealResponse_text_ok :: "text_class \<Rightarrow> UnsealResponse \<Rightarrow> bool" where
  "UnsealResponse_text_ok c x \<longleftrightarrow>
     length (UnsealResponse_outData x) < 2 ^ 64"

interpretation UnsealResponse_text: text_codec "''UnsealResponse''" UnsealResponse_Serialize UnsealResponse_Deserialize UnsealResponse_default UnsealResponse_text_ok
proof
  show "word_ok ''UnsealResponse''" by (simp add: word_simps)
  fix c x assume ok: "UnsealResponse_text_ok c x"
  from ok show "carries c True (UnsealResponse_Serialize x) (UnsealResponse_Deserialize UnsealResponse_default) x"
    by (simp only: UnsealResponse_Serialize_def UnsealResponse_Deserialize_def UnsealResponse_default_def
       UnsealResponse.select_convs UnsealResponse.update_convs;
      intro carries_body;
      (rule UnsealResponse.equality)?; simp add: UnsealResponse_text_ok_def word_simps)
qed

subsection \<open>TPM2_ObjectChangeAuth_REQUEST\<close>

definition TPM2_ObjectChangeAuth_REQUEST_Serialize :: "TPM2_ObjectChangeAuth_REQUEST \<Rightarrow> unit ser" where
  "TPM2_ObjectChangeAuth_REQUEST_Serialize self = wseq
     [withN ''objectHandle'' ''TPM_HANDLE'' '''' '''' (ser_writeObj ''TPM_HANDLE'' (TPM_HANDLE_Serialize (TPM2_ObjectChangeAuth_REQUEST_objectHandle self))),
      withN ''parentHandle'' ''TPM_HANDLE'' '''' '''' (ser_writeObj ''TPM_HANDLE'' (TPM_HANDLE_Serialize (TPM2_ObjectChangeAuth_REQUEST_parentHandle self))),
      withN ''newAuth'' ''BYTE[]'' ''newAuthSize'' ''UINT16'' (ser_writeSizedByteBuf (TPM2_ObjectChangeAuth_REQUEST_newAuth self))]"

definition TPM2_ObjectChangeAuth_REQUEST_Deserialize :: "TPM2_ObjectChangeAuth_REQUEST \<Rightarrow> TPM2_ObjectChangeAuth_REQUEST ser" where
  "TPM2_ObjectChangeAuth_REQUEST_Deserialize self =
     sbind (withN ''objectHandle'' ''TPM_HANDLE'' '''' '''' (ser_readObj ''TPM_HANDLE'' (TPM_HANDLE_Deserialize (TPM2_ObjectChangeAuth_REQUEST_objectHandle self)))) (\<lambda>objectHandle.
     sbind (withN ''parentHandle'' ''TPM_HANDLE'' '''' '''' (ser_readObj ''TPM_HANDLE'' (TPM_HANDLE_Deserialize (TPM2_ObjectChangeAuth_REQUEST_parentHandle self)))) (\<lambda>parentHandle.
     sbind (withN ''newAuth'' ''BYTE[]'' ''newAuthSize'' ''UINT16'' ser_readSizedByteBuf) (\<lambda>newAuth.
     ret (self\<lparr>TPM2_ObjectChangeAuth_REQUEST_objectHandle := objectHandle, TPM2_ObjectChangeAuth_REQUEST_parentHandle := parentHandle, TPM2_ObjectChangeAuth_REQUEST_newAuth := newAuth\<rparr>))))"

definition TPM2_ObjectChangeAuth_REQUEST_text_ok :: "text_class \<Rightarrow> TPM2_ObjectChangeAuth_REQUEST \<Rightarrow> bool" where
  "TPM2_ObjectChangeAuth_REQUEST_text_ok c x \<longleftrightarrow>
     TPM_HANDLE_text_ok c (TPM2_ObjectChangeAuth_REQUEST_objectHandle x) \<and>
     TPM_HANDLE_text_ok c (TPM2_ObjectChangeAuth_REQUEST_parentHandle x) \<and>
     length (TPM2_ObjectChangeAuth_REQUEST_newAuth x) < 2 ^ 64"

interpretation TPM2_ObjectChangeAuth_REQUEST_text: text_codec "''TPM2_ObjectChangeAuth_REQUEST''" TPM2_ObjectChangeAuth_REQUEST_Serialize TPM2_ObjectChangeAuth_REQUEST_Deserialize TPM2_ObjectChangeAuth_REQUEST_default TPM2_ObjectChangeAuth_REQUEST_text_ok
proof
  show "word_ok ''TPM2_ObjectChangeAuth_REQUEST''" by (simp add: word_simps)
  fix c x assume ok: "TPM2_ObjectChangeAuth_REQUEST_text_ok c x"
  from ok show "carries c True (TPM2_ObjectChangeAuth_REQUEST_Serialize x) (TPM2_ObjectChangeAuth_REQUEST_Deserialize TPM2_ObjectChangeAuth_REQUEST_default) x"
    by (simp only: TPM2_ObjectChangeAuth_REQUEST_Serialize_def TPM2_ObjectChangeAuth_REQUEST_Deserialize_def TPM2_ObjectChangeAuth_REQUEST_default_def
       TPM2_ObjectChangeAuth_REQUEST.select_convs TPM2_ObjectChangeAuth_REQUEST.update_convs;
      intro TPM_HANDLE_text.as_entry [THEN carries_entry_Cons] carries_body;
      (rule TPM2_ObjectChangeAuth_REQUEST.equality)?; simp add: TPM2_ObjectChangeAuth_REQUEST_text_ok_def word_simps)
qed

subsection \<open>ObjectChangeAuthResponse\<close>

definition ObjectChangeAuthResponse_Serialize :: "ObjectChangeAuthResponse \<Rightarrow> unit ser" where
  "ObjectChangeAuthResponse_Serialize self = wseq
     [withN ''outPrivate'' ''TPM2B_PRIVATE'' '''' '''' (ser_writeObj ''TPM2B_PRIVATE'' (TPM2B_PRIVATE_Serialize (ObjectChangeAuthResponse_outPrivate self)))]"

definition ObjectChangeAuthResponse_Deserialize :: "ObjectChangeAuthResponse \<Rightarrow> ObjectChangeAuthResponse ser" where
  "ObjectChangeAuthResponse_Deserialize self =
     sbind (withN ''outPrivate'' ''TPM2B_PRIVATE'' '''' '''' (ser_readObj ''TPM2B_PRIVATE'' (TPM2B_PRIVATE_Deserialize (ObjectChangeAuthResponse_outPrivate self)))) (\<lambda>outPrivate.
     ret (self\<lparr>ObjectChangeAuthResponse_outPrivate := outPrivate\<rparr>))"

definition ObjectChangeAuthResponse_text_ok :: "text_class \<Rightarrow> ObjectChangeAuthResponse \<Rightarrow> bool" where
  "ObjectChangeAuthResponse_text_ok c x \<longleftrightarrow>
     TPM2B_PRIVATE_text_ok c (ObjectChangeAuthResponse_outPrivate x)"

interpretation ObjectChangeAuthResponse_text: text_codec "''ObjectChangeAuthResponse''" ObjectChangeAuthResponse_Serialize ObjectChangeAuthResponse_Deserialize ObjectChangeAuthResponse_default ObjectChangeAuthResponse_text_ok
proof
  show "word_ok ''ObjectChangeAuthResponse''" by (simp add: word_simps)
  fix c x assume ok: "ObjectChangeAuthResponse_text_ok c x"
  from ok show "carries c True (ObjectChangeAuthResponse_Serialize x) (ObjectChangeAuthResponse_Deserialize ObjectChangeAuthResponse_default) x"
    by (simp only: ObjectChangeAuthResponse_Serialize_def ObjectChangeAuthResponse_Deserialize_def ObjectChangeAuthResponse_default_def
       ObjectChangeAuthResponse.select_convs ObjectChangeAuthResponse.update_convs;
      intro TPM2B_PRIVATE_text.as_entry [THEN carries_entry_Cons] carries_body;
      (rule ObjectChangeAuthResponse.equality)?; simp add: ObjectChangeAuthResponse_text_ok_def word_simps)
qed

subsection \<open>TPM2_CreateLoaded_REQUEST\<close>

definition TPM2_CreateLoaded_REQUEST_Serialize :: "TPM2_CreateLoaded_REQUEST \<Rightarrow> unit ser" where
  "TPM2_CreateLoaded_REQUEST_Serialize self = wseq
     [withN ''parentHandle'' ''TPM_HANDLE'' '''' '''' (ser_writeObj ''TPM_HANDLE'' (TPM_HANDLE_Serialize (TPM2_CreateLoaded_REQUEST_parentHandle self))),
      withN ''inSensitive'' ''TPMS_SENSITIVE_CREATE'' ''inSensitiveSize'' ''UINT16'' (ser_writeObj ''TPMS_SENSITIVE_CREATE'' (TPMS_SENSITIVE_CREATE_Serialize (TPM2_CreateLoaded_REQUEST_inSensitive self))),
      withN ''inPublic'' ''BYTE[]'' ''inPublicSize'' ''UINT16'' (ser_writeSizedByteBuf (TPM2_CreateLoaded_REQUEST_inPublic self))]"

definition TPM2_CreateLoaded_REQUEST_Deserialize :: "TPM2_CreateLoaded_REQUEST \<Rightarrow> TPM2_CreateLoaded_REQUEST ser" where
  "TPM2_CreateLoaded_REQUEST_Deserialize self =
     sbind (withN ''parentHandle'' ''TPM_HANDLE'' '''' '''' (ser_readObj ''TPM_HANDLE'' (TPM_HANDLE_Deserialize (TPM2_CreateLoaded_REQUEST_parentHandle self)))) (\<lambda>parentHandle.
     sbind (withN ''inSensitive'' ''TPMS_SENSITIVE_CREATE'' ''inSensitiveSize'' ''UINT16'' (ser_readObj ''TPMS_SENSITIVE_CREATE'' (TPMS_SENSITIVE_CREATE_Deserialize (TPM2_CreateLoaded_REQUEST_inSensitive self)))) (\<lambda>inSensitive.
     sbind (withN ''inPublic'' ''BYTE[]'' ''inPublicSize'' ''UINT16'' ser_readSizedByteBuf) (\<lambda>inPublic.
     ret (self\<lparr>TPM2_CreateLoaded_REQUEST_parentHandle := parentHandle, TPM2_CreateLoaded_REQUEST_inSensitive := inSensitive, TPM2_CreateLoaded_REQUEST_inPublic := inPublic\<rparr>))))"

definition TPM2_CreateLoaded_REQUEST_text_ok :: "text_class \<Rightarrow> TPM2_CreateLoaded_REQUEST \<Rightarrow> bool" where
  "TPM2_CreateLoaded_REQUEST_text_ok c x \<longleftrightarrow>
     TPM_HANDLE_text_ok c (TPM2_CreateLoaded_REQUEST_parentHandle x) \<and>
     TPMS_SENSITIVE_CREATE_text_ok c (TPM2_CreateLoaded_REQUEST_inSensitive x) \<and>
     length (TPM2_CreateLoaded_REQUEST_inPublic x) < 2 ^ 64"

interpretation TPM2_CreateLoaded_REQUEST_text: text_codec "''TPM2_CreateLoaded_REQUEST''" TPM2_CreateLoaded_REQUEST_Serialize TPM2_CreateLoaded_REQUEST_Deserialize TPM2_CreateLoaded_REQUEST_default TPM2_CreateLoaded_REQUEST_text_ok
proof
  show "word_ok ''TPM2_CreateLoaded_REQUEST''" by (simp add: word_simps)
  fix c x assume ok: "TPM2_CreateLoaded_REQUEST_text_ok c x"
  from ok show "carries c True (TPM2_CreateLoaded_REQUEST_Serialize x) (TPM2_CreateLoaded_REQUEST_Deserialize TPM2_CreateLoaded_REQUEST_default) x"
    by (simp only: TPM2_CreateLoaded_REQUEST_Serialize_def TPM2_CreateLoaded_REQUEST_Deserialize_def TPM2_CreateLoaded_REQUEST_default_def
       TPM2_CreateLoaded_REQUEST.select_convs TPM2_CreateLoaded_REQUEST.update_convs;
      intro TPMS_SENSITIVE_CREATE_text.as_entry [THEN carries_entry_Cons] TPM_HANDLE_text.as_entry [THEN carries_entry_Cons] carries_body;
      (rule TPM2_CreateLoaded_REQUEST.equality)?; simp add: TPM2_CreateLoaded_REQUEST_text_ok_def word_simps)
qed

subsection \<open>CreateLoadedResponse\<close>

definition CreateLoadedResponse_Serialize :: "CreateLoadedResponse \<Rightarrow> unit ser" where
  "CreateLoadedResponse_Serialize self = wseq
     [withN ''handle'' ''TPM_HANDLE'' '''' '''' (ser_writeObj ''TPM_HANDLE'' (TPM_HANDLE_Serialize (CreateLoadedResponse_handle self))),
      withN ''outPrivate'' ''TPM2B_PRIVATE'' '''' '''' (ser_writeObj ''TPM2B_PRIVATE'' (TPM2B_PRIVATE_Serialize (CreateLoadedResponse_outPrivate self))),
      withN ''outPublic'' ''TPMT_PUBLIC'' ''outPublicSize'' ''UINT16'' (ser_writeObj ''TPMT_PUBLIC'' (TPMT_PUBLIC_Serialize (CreateLoadedResponse_outPublic self))),
      withN ''name'' ''BYTE[]'' ''nameSize'' ''UINT16'' (ser_writeSizedByteBuf (CreateLoadedResponse_name self))]"

definition CreateLoadedResponse_Deserialize :: "CreateLoadedResponse \<Rightarrow> CreateLoadedResponse ser" where
  "CreateLoadedResponse_Deserialize self =
     sbind (withN ''handle'' ''TPM_HANDLE'' '''' '''' (ser_readObj ''TPM_HANDLE'' (TPM_HANDLE_Deserialize (CreateLoadedResponse_handle self)))) (\<lambda>handle.
     sbind (withN ''outPrivate'' ''TPM2B_PRIVATE'' '''' '''' (ser_readObj ''TPM2B_PRIVATE'' (TPM2B_PRIVATE_Deserialize (CreateLoadedResponse_outPrivate self)))) (\<lambda>outPrivate.
     sbind (withN ''outPublic'' ''TPMT_PUBLIC'' ''outPublicSize'' ''UINT16'' (ser_readObj ''TPMT_PUBLIC'' (TPMT_PUBLIC_Deserialize (CreateLoadedResponse_outPublic self)))) (\<lambda>outPublic.
     sbind (withN ''name'' ''BYTE[]'' ''nameSize'' ''UINT16'' ser_readSizedByteBuf) (\<lambda>name.
     ret (self\<lparr>CreateLoadedResponse_handle := handle, CreateLoadedResponse_outPrivate := outPrivate, CreateLoadedResponse_outPublic := outPublic, CreateLoadedResponse_name := name\<rparr>)))))"

definition CreateLoadedResponse_text_ok :: "text_class \<Rightarrow> CreateLoadedResponse \<Rightarrow> bool" where
  "CreateLoadedResponse_text_ok c x \<longleftrightarrow>
     TPM_HANDLE_text_ok c (CreateLoadedResponse_handle x) \<and>
     TPM2B_PRIVATE_text_ok c (CreateLoadedResponse_outPrivate x) \<and>
     TPMT_PUBLIC_text_ok c (CreateLoadedResponse_outPublic x) \<and>
     length (CreateLoadedResponse_name x) < 2 ^ 64"

interpretation CreateLoadedResponse_text: text_codec "''CreateLoadedResponse''" CreateLoadedResponse_Serialize CreateLoadedResponse_Deserialize CreateLoadedResponse_default CreateLoadedResponse_text_ok
proof
  show "word_ok ''CreateLoadedResponse''" by (simp add: word_simps)
  fix c x assume ok: "CreateLoadedResponse_text_ok c x"
  from ok show "carries c True (CreateLoadedResponse_Serialize x) (CreateLoadedResponse_Deserialize CreateLoadedResponse_default) x"
    by (simp only: CreateLoadedResponse_Serialize_def CreateLoadedResponse_Deserialize_def CreateLoadedResponse_default_def
       CreateLoadedResponse.select_convs CreateLoadedResponse.update_convs;
      intro TPM2B_PRIVATE_text.as_entry [THEN carries_entry_Cons] TPMT_PUBLIC_text.as_entry [THEN carries_entry_Cons] TPM_HANDLE_text.as_entry [THEN carries_entry_Cons] carries_body;
      (rule CreateLoadedResponse.equality)?; simp add: CreateLoadedResponse_text_ok_def word_simps)
qed

subsection \<open>TPM2_Duplicate_REQUEST\<close>

definition TPM2_Duplicate_REQUEST_Serialize :: "TPM2_Duplicate_REQUEST \<Rightarrow> unit ser" where
  "TPM2_Duplicate_REQUEST_Serialize self = wseq
     [withN ''objectHandle'' ''TPM_HANDLE'' '''' '''' (ser_writeObj ''TPM_HANDLE'' (TPM_HANDLE_Serialize (TPM2_Duplicate_REQUEST_objectHandle self))),
      withN ''newParentHandle'' ''TPM_HANDLE'' '''' '''' (ser_writeObj ''TPM_HANDLE'' (TPM_HANDLE_Serialize (TPM2_Duplicate_REQUEST_newParentHandle self))),
      withN ''encryptionKeyIn'' ''BYTE[]'' ''encryptionKeyInSize'' ''UINT16'' (ser_writeSizedByteBuf (TPM2_Duplicate_REQUEST_encryptionKeyIn self)),
      withN ''symmetricAlg'' ''TPMT_SYM_DEF_OBJECT'' '''' '''' (ser_writeObj ''TPMT_SYM_DEF_OBJECT'' (TPMT_SYM_DEF_OBJECT_Serialize (TPM2_Duplicate_REQUEST_symmetricAlg self)))]"

definition TPM2_Duplicate_REQUEST_Deserialize :: "TPM2_Duplicate_REQUEST \<Rightarrow> TPM2_Duplicate_REQUEST ser" where
  "TPM2_Duplicate_REQUEST_Deserialize self =
     sbind (withN ''objectHandle'' ''TPM_HANDLE'' '''' '''' (ser_readObj ''TPM_HANDLE'' (TPM_HANDLE_Deserialize (TPM2_Duplicate_REQUEST_objectHandle self)))) (\<lambda>objectHandle.
     sbind (withN ''newParentHandle'' ''TPM_HANDLE'' '''' '''' (ser_readObj ''TPM_HANDLE'' (TPM_HANDLE_Deserialize (TPM2_Duplicate_REQUEST_newParentHandle self)))) (\<lambda>newParentHandle.
     sbind (withN ''encryptionKeyIn'' ''BYTE[]'' ''encryptionKeyInSize'' ''UINT16'' ser_readSizedByteBuf) (\<lambda>encryptionKeyIn.
     sbind (withN ''symmetricAlg'' ''TPMT_SYM_DEF_OBJECT'' '''' '''' (ser_readObj ''TPMT_SYM_DEF_OBJECT'' (TPMT_SYM_DEF_OBJECT_Deserialize (TPM2_Duplicate_REQUEST_symmetricAlg self)))) (\<lambda>symmetricAlg.
     ret (self\<lparr>TPM2_Duplicate_REQUEST_objectHandle := objectHandle, TPM2_Duplicate_REQUEST_newParentHandle := newParentHandle, TPM2_Duplicate_REQUEST_encryptionKeyIn := encryptionKeyIn, TPM2_Duplicate_REQUEST_symmetricAlg := symmetricAlg\<rparr>)))))"

definition TPM2_Duplicate_REQUEST_text_ok :: "text_class \<Rightarrow> TPM2_Duplicate_REQUEST \<Rightarrow> bool" where
  "TPM2_Duplicate_REQUEST_text_ok c x \<longleftrightarrow>
     TPM_HANDLE_text_ok c (TPM2_Duplicate_REQUEST_objectHandle x) \<and>
     TPM_HANDLE_text_ok c (TPM2_Duplicate_REQUEST_newParentHandle x) \<and>
     length (TPM2_Duplicate_REQUEST_encryptionKeyIn x) < 2 ^ 64 \<and>
     TPMT_SYM_DEF_OBJECT_text_ok c (TPM2_Duplicate_REQUEST_symmetricAlg x)"

interpretation TPM2_Duplicate_REQUEST_text: text_codec "''TPM2_Duplicate_REQUEST''" TPM2_Duplicate_REQUEST_Serialize TPM2_Duplicate_REQUEST_Deserialize TPM2_Duplicate_REQUEST_default TPM2_Duplicate_REQUEST_text_ok
proof
  show "word_ok ''TPM2_Duplicate_REQUEST''" by (simp add: word_simps)
  fix c x assume ok: "TPM2_Duplicate_REQUEST_text_ok c x"
  from ok show "carries c True (TPM2_Duplicate_REQUEST_Serialize x) (TPM2_Duplicate_REQUEST_Deserialize TPM2_Duplicate_REQUEST_default) x"
    by (simp only: TPM2_Duplicate_REQUEST_Serialize_def TPM2_Duplicate_REQUEST_Deserialize_def TPM2_Duplicate_REQUEST_default_def
       TPM2_Duplicate_REQUEST.select_convs TPM2_Duplicate_REQUEST.update_convs;
      intro TPMT_SYM_DEF_OBJECT_text.as_entry [THEN carries_entry_Cons] TPM_HANDLE_text.as_entry [THEN carries_entry_Cons] carries_body;
      (rule TPM2_Duplicate_REQUEST.equality)?; simp add: TPM2_Duplicate_REQUEST_text_ok_def word_simps)
qed

subsection \<open>DuplicateResponse\<close>

definition DuplicateResponse_Serialize :: "DuplicateResponse \<Rightarrow> unit ser" where
  "DuplicateResponse_Serialize self = wseq
     [withN ''encryptionKeyOut'' ''BYTE[]'' ''encryptionKeyOutSize'' ''UINT16'' (ser_writeSizedByteBuf (DuplicateResponse_encryptionKeyOut self)),
      withN ''duplicate'' ''TPM2B_PRIVATE'' '''' '''' (ser_writeObj ''TPM2B_PRIVATE'' (TPM2B_PRIVATE_Serialize (DuplicateResponse_duplicate self))),
      withN ''outSymSeed'' ''BYTE[]'' ''outSymSeedSize'' ''UINT16'' (ser_writeSizedByteBuf (DuplicateResponse_outSymSeed self))]"

definition DuplicateResponse_Deserialize :: "DuplicateResponse \<Rightarrow> DuplicateResponse ser" where
  "DuplicateResponse_Deserialize self =
     sbind (withN ''encryptionKeyOut'' ''BYTE[]'' ''encryptionKeyOutSize'' ''UINT16'' ser_readSizedByteBuf) (\<lambda>encryptionKeyOut.
     sbind (withN ''duplicate'' ''TPM2B_PRIVATE'' '''' '''' (ser_readObj ''TPM2B_PRIVATE'' (TPM2B_PRIVATE_Deserialize (DuplicateResponse_duplicate self)))) (\<lambda>duplicate.
     sbind (withN ''outSymSeed'' ''BYTE[]'' ''outSymSeedSize'' ''UINT16'' ser_readSizedByteBuf) (\<lambda>outSymSeed.
     ret (self\<lparr>DuplicateResponse_encryptionKeyOut := encryptionKeyOut, DuplicateResponse_duplicate := duplicate, DuplicateResponse_outSymSeed := outSymSeed\<rparr>))))"

definition DuplicateResponse_text_ok :: "text_class \<Rightarrow> DuplicateResponse \<Rightarrow> bool" where
  "DuplicateResponse_text_ok c x \<longleftrightarrow>
     length (DuplicateResponse_encryptionKeyOut x) < 2 ^ 64 \<and>
     TPM2B_PRIVATE_text_ok c (DuplicateResponse_duplicate x) \<and>
     length (DuplicateResponse_outSymSeed x) < 2 ^ 64"

interpretation DuplicateResponse_text: text_codec "''DuplicateResponse''" DuplicateResponse_Serialize DuplicateResponse_Deserialize DuplicateResponse_default DuplicateResponse_text_ok
proof
  show "word_ok ''DuplicateResponse''" by (simp add: word_simps)
  fix c x assume ok: "DuplicateResponse_text_ok c x"
  from ok show "carries c True (DuplicateResponse_Serialize x) (DuplicateResponse_Deserialize DuplicateResponse_default) x"
    by (simp only: DuplicateResponse_Serialize_def DuplicateResponse_Deserialize_def DuplicateResponse_default_def
       DuplicateResponse.select_convs DuplicateResponse.update_convs;
      intro TPM2B_PRIVATE_text.as_entry [THEN carries_entry_Cons] carries_body;
      (rule DuplicateResponse.equality)?; simp add: DuplicateResponse_text_ok_def word_simps)
qed

subsection \<open>TPM2_Rewrap_REQUEST\<close>

definition TPM2_Rewrap_REQUEST_Serialize :: "TPM2_Rewrap_REQUEST \<Rightarrow> unit ser" where
  "TPM2_Rewrap_REQUEST_Serialize self = wseq
     [withN ''oldParent'' ''TPM_HANDLE'' '''' '''' (ser_writeObj ''TPM_HANDLE'' (TPM_HANDLE_Serialize (TPM2_Rewrap_REQUEST_oldParent self))),
      withN ''newParent'' ''TPM_HANDLE'' '''' '''' (ser_writeObj ''TPM_HANDLE'' (TPM_HANDLE_Serialize (TPM2_Rewrap_REQUEST_newParent self))),
      withN ''inDuplicate'' ''TPM2B_PRIVATE'' '''' '''' (ser_writeObj ''TPM2B_PRIVATE'' (TPM2B_PRIVATE_Serialize (TPM2_Rewrap_REQUEST_inDuplicate self))),
      withN ''name'' ''BYTE[]'' ''nameSize'' ''UINT16'' (ser_writeSizedByteBuf (TPM2_Rewrap_REQUEST_name self)),
      withN ''inSymSeed'' ''BYTE[]'' ''inSymSeedSize'' ''UINT16'' (ser_writeSizedByteBuf (TPM2_Rewrap_REQUEST_inSymSeed self))]"

definition TPM2_Rewrap_REQUEST_Deserialize :: "TPM2_Rewrap_REQUEST \<Rightarrow> TPM2_Rewrap_REQUEST ser" where
  "TPM2_Rewrap_REQUEST_Deserialize self =
     sbind (withN ''oldParent'' ''TPM_HANDLE'' '''' '''' (ser_readObj ''TPM_HANDLE'' (TPM_HANDLE_Deserialize (TPM2_Rewrap_REQUEST_oldParent self)))) (\<lambda>oldParent.
     sbind (withN ''newParent'' ''TPM_HANDLE'' '''' '''' (ser_readObj ''TPM_HANDLE'' (TPM_HANDLE_Deserialize (TPM2_Rewrap_REQUEST_newParent self)))) (\<lambda>newParent.
     sbind (withN ''inDuplicate'' ''TPM2B_PRIVATE'' '''' '''' (ser_readObj ''TPM2B_PRIVATE'' (TPM2B_PRIVATE_Deserialize (TPM2_Rewrap_REQUEST_inDuplicate self)))) (\<lambda>inDuplicate.
     sbind (withN ''name'' ''BYTE[]'' ''nameSize'' ''UINT16'' ser_readSizedByteBuf) (\<lambda>name.
     sbind (withN ''inSymSeed'' ''BYTE[]'' ''inSymSeedSize'' ''UINT16'' ser_readSizedByteBuf) (\<lambda>inSymSeed.
     ret (self\<lparr>TPM2_Rewrap_REQUEST_oldParent := oldParent, TPM2_Rewrap_REQUEST_newParent := newParent, TPM2_Rewrap_REQUEST_inDuplicate := inDuplicate, TPM2_Rewrap_REQUEST_name := name, TPM2_Rewrap_REQUEST_inSymSeed := inSymSeed\<rparr>))))))"

definition TPM2_Rewrap_REQUEST_text_ok :: "text_class \<Rightarrow> TPM2_Rewrap_REQUEST \<Rightarrow> bool" where
  "TPM2_Rewrap_REQUEST_text_ok c x \<longleftrightarrow>
     TPM_HANDLE_text_ok c (TPM2_Rewrap_REQUEST_oldParent x) \<and>
     TPM_HANDLE_text_ok c (TPM2_Rewrap_REQUEST_newParent x) \<and>
     TPM2B_PRIVATE_text_ok c (TPM2_Rewrap_REQUEST_inDuplicate x) \<and>
     length (TPM2_Rewrap_REQUEST_name x) < 2 ^ 64 \<and>
     length (TPM2_Rewrap_REQUEST_inSymSeed x) < 2 ^ 64"

interpretation TPM2_Rewrap_REQUEST_text: text_codec "''TPM2_Rewrap_REQUEST''" TPM2_Rewrap_REQUEST_Serialize TPM2_Rewrap_REQUEST_Deserialize TPM2_Rewrap_REQUEST_default TPM2_Rewrap_REQUEST_text_ok
proof
  show "word_ok ''TPM2_Rewrap_REQUEST''" by (simp add: word_simps)
  fix c x assume ok: "TPM2_Rewrap_REQUEST_text_ok c x"
  from ok show "carries c True (TPM2_Rewrap_REQUEST_Serialize x) (TPM2_Rewrap_REQUEST_Deserialize TPM2_Rewrap_REQUEST_default) x"
    by (simp only: TPM2_Rewrap_REQUEST_Serialize_def TPM2_Rewrap_REQUEST_Deserialize_def TPM2_Rewrap_REQUEST_default_def
       TPM2_Rewrap_REQUEST.select_convs TPM2_Rewrap_REQUEST.update_convs;
      intro TPM2B_PRIVATE_text.as_entry [THEN carries_entry_Cons] TPM_HANDLE_text.as_entry [THEN carries_entry_Cons] carries_body;
      (rule TPM2_Rewrap_REQUEST.equality)?; simp add: TPM2_Rewrap_REQUEST_text_ok_def word_simps)
qed

subsection \<open>RewrapResponse\<close>

definition RewrapResponse_Serialize :: "RewrapResponse \<Rightarrow> unit ser" where
  "RewrapResponse_Serialize self = wseq
     [withN ''outDuplicate'' ''TPM2B_PRIVATE'' '''' '''' (ser_writeObj ''TPM2B_PRIVATE'' (TPM2B_PRIVATE_Serialize (RewrapResponse_outDuplicate self))),
      withN ''outSymSeed'' ''BYTE[]'' ''outSymSeedSize'' ''UINT16'' (ser_writeSizedByteBuf (RewrapResponse_outSymSeed self))]"

definition RewrapResponse_Deserialize :: "RewrapResponse \<Rightarrow> RewrapResponse ser" where
  "RewrapResponse_Deserialize self =
     sbind (withN ''outDuplicate'' ''TPM2B_PRIVATE'' '''' '''' (ser_readObj ''TPM2B_PRIVATE'' (TPM2B_PRIVATE_Deserialize (RewrapResponse_outDuplicate self)))) (\<lambda>outDuplicate.
     sbind (withN ''outSymSeed'' ''BYTE[]'' ''outSymSeedSize'' ''UINT16'' ser_readSizedByteBuf) (\<lambda>outSymSeed.
     ret (self\<lparr>RewrapResponse_outDuplicate := outDuplicate, RewrapResponse_outSymSeed := outSymSeed\<rparr>)))"

definition RewrapResponse_text_ok :: "text_class \<Rightarrow> RewrapResponse \<Rightarrow> bool" where
  "RewrapResponse_text_ok c x \<longleftrightarrow>
     TPM2B_PRIVATE_text_ok c (RewrapResponse_outDuplicate x) \<and>
     length (RewrapResponse_outSymSeed x) < 2 ^ 64"

interpretation RewrapResponse_text: text_codec "''RewrapResponse''" RewrapResponse_Serialize RewrapResponse_Deserialize RewrapResponse_default RewrapResponse_text_ok
proof
  show "word_ok ''RewrapResponse''" by (simp add: word_simps)
  fix c x assume ok: "RewrapResponse_text_ok c x"
  from ok show "carries c True (RewrapResponse_Serialize x) (RewrapResponse_Deserialize RewrapResponse_default) x"
    by (simp only: RewrapResponse_Serialize_def RewrapResponse_Deserialize_def RewrapResponse_default_def
       RewrapResponse.select_convs RewrapResponse.update_convs;
      intro TPM2B_PRIVATE_text.as_entry [THEN carries_entry_Cons] carries_body;
      (rule RewrapResponse.equality)?; simp add: RewrapResponse_text_ok_def word_simps)
qed

subsection \<open>TPM2_Import_REQUEST\<close>

definition TPM2_Import_REQUEST_Serialize :: "TPM2_Import_REQUEST \<Rightarrow> unit ser" where
  "TPM2_Import_REQUEST_Serialize self = wseq
     [withN ''parentHandle'' ''TPM_HANDLE'' '''' '''' (ser_writeObj ''TPM_HANDLE'' (TPM_HANDLE_Serialize (TPM2_Import_REQUEST_parentHandle self))),
      withN ''encryptionKey'' ''BYTE[]'' ''encryptionKeySize'' ''UINT16'' (ser_writeSizedByteBuf (TPM2_Import_REQUEST_encryptionKey self)),
      withN ''objectPublic'' ''TPMT_PUBLIC'' ''objectPublicSize'' ''UINT16'' (ser_writeObj ''TPMT_PUBLIC'' (TPMT_PUBLIC_Serialize (TPM2_Import_REQUEST_objectPublic self))),
      withN ''duplicate'' ''TPM2B_PRIVATE'' '''' '''' (ser_writeObj ''TPM2B_PRIVATE'' (TPM2B_PRIVATE_Serialize (TPM2_Import_REQUEST_duplicate self))),
      withN ''inSymSeed'' ''BYTE[]'' ''inSymSeedSize'' ''UINT16'' (ser_writeSizedByteBuf (TPM2_Import_REQUEST_inSymSeed self)),
      withN ''symmetricAlg'' ''TPMT_SYM_DEF_OBJECT'' '''' '''' (ser_writeObj ''TPMT_SYM_DEF_OBJECT'' (TPMT_SYM_DEF_OBJECT_Serialize (TPM2_Import_REQUEST_symmetricAlg self)))]"

definition TPM2_Import_REQUEST_Deserialize :: "TPM2_Import_REQUEST \<Rightarrow> TPM2_Import_REQUEST ser" where
  "TPM2_Import_REQUEST_Deserialize self =
     sbind (withN ''parentHandle'' ''TPM_HANDLE'' '''' '''' (ser_readObj ''TPM_HANDLE'' (TPM_HANDLE_Deserialize (TPM2_Import_REQUEST_parentHandle self)))) (\<lambda>parentHandle.
     sbind (withN ''encryptionKey'' ''BYTE[]'' ''encryptionKeySize'' ''UINT16'' ser_readSizedByteBuf) (\<lambda>encryptionKey.
     sbind (withN ''objectPublic'' ''TPMT_PUBLIC'' ''objectPublicSize'' ''UINT16'' (ser_readObj ''TPMT_PUBLIC'' (TPMT_PUBLIC_Deserialize (TPM2_Import_REQUEST_objectPublic self)))) (\<lambda>objectPublic.
     sbind (withN ''duplicate'' ''TPM2B_PRIVATE'' '''' '''' (ser_readObj ''TPM2B_PRIVATE'' (TPM2B_PRIVATE_Deserialize (TPM2_Import_REQUEST_duplicate self)))) (\<lambda>duplicate.
     sbind (withN ''inSymSeed'' ''BYTE[]'' ''inSymSeedSize'' ''UINT16'' ser_readSizedByteBuf) (\<lambda>inSymSeed.
     sbind (withN ''symmetricAlg'' ''TPMT_SYM_DEF_OBJECT'' '''' '''' (ser_readObj ''TPMT_SYM_DEF_OBJECT'' (TPMT_SYM_DEF_OBJECT_Deserialize (TPM2_Import_REQUEST_symmetricAlg self)))) (\<lambda>symmetricAlg.
     ret (self\<lparr>TPM2_Import_REQUEST_parentHandle := parentHandle, TPM2_Import_REQUEST_encryptionKey := encryptionKey, TPM2_Import_REQUEST_objectPublic := objectPublic, TPM2_Import_REQUEST_duplicate := duplicate, TPM2_Import_REQUEST_inSymSeed := inSymSeed, TPM2_Import_REQUEST_symmetricAlg := symmetricAlg\<rparr>)))))))"

definition TPM2_Import_REQUEST_text_ok :: "text_class \<Rightarrow> TPM2_Import_REQUEST \<Rightarrow> bool" where
  "TPM2_Import_REQUEST_text_ok c x \<longleftrightarrow>
     TPM_HANDLE_text_ok c (TPM2_Import_REQUEST_parentHandle x) \<and>
     length (TPM2_Import_REQUEST_encryptionKey x) < 2 ^ 64 \<and>
     TPMT_PUBLIC_text_ok c (TPM2_Import_REQUEST_objectPublic x) \<and>
     TPM2B_PRIVATE_text_ok c (TPM2_Import_REQUEST_duplicate x) \<and>
     length (TPM2_Import_REQUEST_inSymSeed x) < 2 ^ 64 \<and>
     TPMT_SYM_DEF_OBJECT_text_ok c (TPM2_Import_REQUEST_symmetricAlg x)"

interpretation TPM2_Import_REQUEST_text: text_codec "''TPM2_Import_REQUEST''" TPM2_Import_REQUEST_Serialize TPM2_Import_REQUEST_Deserialize TPM2_Import_REQUEST_default TPM2_Import_REQUEST_text_ok
proof
  show "word_ok ''TPM2_Import_REQUEST''" by (simp add: word_simps)
  fix c x assume ok: "TPM2_Import_REQUEST_text_ok c x"
  from ok show "carries c True (TPM2_Import_REQUEST_Serialize x) (TPM2_Import_REQUEST_Deserialize TPM2_Import_REQUEST_default) x"
    by (simp only: TPM2_Import_REQUEST_Serialize_def TPM2_Import_REQUEST_Deserialize_def TPM2_Import_REQUEST_default_def
       TPM2_Import_REQUEST.select_convs TPM2_Import_REQUEST.update_convs;
      intro TPM2B_PRIVATE_text.as_entry [THEN carries_entry_Cons] TPMT_PUBLIC_text.as_entry [THEN carries_entry_Cons] TPMT_SYM_DEF_OBJECT_text.as_entry [THEN carries_entry_Cons] TPM_HANDLE_text.as_entry [THEN carries_entry_Cons] carries_body;
      (rule TPM2_Import_REQUEST.equality)?; simp add: TPM2_Import_REQUEST_text_ok_def word_simps)
qed

subsection \<open>ImportResponse\<close>

definition ImportResponse_Serialize :: "ImportResponse \<Rightarrow> unit ser" where
  "ImportResponse_Serialize self = wseq
     [withN ''outPrivate'' ''TPM2B_PRIVATE'' '''' '''' (ser_writeObj ''TPM2B_PRIVATE'' (TPM2B_PRIVATE_Serialize (ImportResponse_outPrivate self)))]"

definition ImportResponse_Deserialize :: "ImportResponse \<Rightarrow> ImportResponse ser" where
  "ImportResponse_Deserialize self =
     sbind (withN ''outPrivate'' ''TPM2B_PRIVATE'' '''' '''' (ser_readObj ''TPM2B_PRIVATE'' (TPM2B_PRIVATE_Deserialize (ImportResponse_outPrivate self)))) (\<lambda>outPrivate.
     ret (self\<lparr>ImportResponse_outPrivate := outPrivate\<rparr>))"

definition ImportResponse_text_ok :: "text_class \<Rightarrow> ImportResponse \<Rightarrow> bool" where
  "ImportResponse_text_ok c x \<longleftrightarrow>
     TPM2B_PRIVATE_text_ok c (ImportResponse_outPrivate x)"

interpretation ImportResponse_text: text_codec "''ImportResponse''" ImportResponse_Serialize ImportResponse_Deserialize ImportResponse_default ImportResponse_text_ok
proof
  show "word_ok ''ImportResponse''" by (simp add: word_simps)
  fix c x assume ok: "ImportResponse_text_ok c x"
  from ok show "carries c True (ImportResponse_Serialize x) (ImportResponse_Deserialize ImportResponse_default) x"
    by (simp only: ImportResponse_Serialize_def ImportResponse_Deserialize_def ImportResponse_default_def
       ImportResponse.select_convs ImportResponse.update_convs;
      intro TPM2B_PRIVATE_text.as_entry [THEN carries_entry_Cons] carries_body;
      (rule ImportResponse.equality)?; simp add: ImportResponse_text_ok_def word_simps)
qed

end
