(* ===== verification/TextCryptoCommands.thy ===== *)
theory TextCryptoCommands
  imports TextNvTypes TpmCryptoCommands
begin

text \<open>
  \<^verbatim>\<open>TSS.CPP/Src/TpmTypes.cpp\<close>, the text form of the structures of theory \<open>TpmCryptoCommands\<close>: \<open>X_Serialize\<close> and
  \<open>X_Deserialize\<close> of each class \<open>X\<close>, the values \<open>X_text_ok\<close> that a text of the given kind can carry, and
  the proof that the second method reads what the first one writes (the interpretation \<open>X_text\<close>).
  A class with an array of enumerators has no such interpretation: \<open>readEnumArr\<close> does not read it.
\<close>

subsection \<open>TPM2_RSA_Encrypt_REQUEST\<close>

definition TPM2_RSA_Encrypt_REQUEST_Serialize :: "TPM2_RSA_Encrypt_REQUEST \<Rightarrow> unit ser" where
  "TPM2_RSA_Encrypt_REQUEST_Serialize self = wseq
     [withN ''keyHandle'' ''TPM_HANDLE'' '''' '''' (ser_writeObj ''TPM_HANDLE'' (TPM_HANDLE_Serialize (TPM2_RSA_Encrypt_REQUEST_keyHandle self))),
      withN ''message'' ''BYTE[]'' ''messageSize'' ''UINT16'' (ser_writeSizedByteBuf (TPM2_RSA_Encrypt_REQUEST_message self)),
      withN ''inSchemeScheme'' ''TPM_ALG_ID'' '''' '''' (ser_writeEnumT (selector_or TPM_ALG_ID_NULL TPMU_ASYM_SCHEME_GetUnionSelector (TPM2_RSA_Encrypt_REQUEST_inScheme self)) TPM_ALG_ID_ID),
      if_set (TPM2_RSA_Encrypt_REQUEST_inScheme self) (\<lambda>u. withN ''inScheme'' ''TPMU_ASYM_SCHEME'' '''' '''' (ser_writeObj (TPMU_ASYM_SCHEME_TypeName u) (TPMU_ASYM_SCHEME_Serialize u))),
      withN ''label'' ''BYTE[]'' ''labelSize'' ''UINT16'' (ser_writeSizedByteBuf (TPM2_RSA_Encrypt_REQUEST_label self))]"

definition TPM2_RSA_Encrypt_REQUEST_Deserialize :: "TPM2_RSA_Encrypt_REQUEST \<Rightarrow> TPM2_RSA_Encrypt_REQUEST ser" where
  "TPM2_RSA_Encrypt_REQUEST_Deserialize self =
     sbind (withN ''keyHandle'' ''TPM_HANDLE'' '''' '''' (ser_readObj ''TPM_HANDLE'' (TPM_HANDLE_Deserialize (TPM2_RSA_Encrypt_REQUEST_keyHandle self)))) (\<lambda>keyHandle.
     sbind (withN ''message'' ''BYTE[]'' ''messageSize'' ''UINT16'' ser_readSizedByteBuf) (\<lambda>message.
     sbind (withN ''inSchemeScheme'' ''TPM_ALG_ID'' '''' '''' (ser_readEnumT TPM_ALG_ID_ID)) (\<lambda>inSchemeScheme.
     sbind (reset_or_create UnionFactory_Create_TPMU_ASYM_SCHEME inSchemeScheme) (\<lambda>inScheme.
     sbind (read_if_set inScheme (\<lambda>u. withN ''inScheme'' ''TPMU_ASYM_SCHEME'' '''' '''' (ser_readObj (TPMU_ASYM_SCHEME_TypeName u) (TPMU_ASYM_SCHEME_Deserialize u)))) (\<lambda>inScheme.
     sbind (withN ''label'' ''BYTE[]'' ''labelSize'' ''UINT16'' ser_readSizedByteBuf) (\<lambda>label.
     ret (self\<lparr>TPM2_RSA_Encrypt_REQUEST_keyHandle := keyHandle, TPM2_RSA_Encrypt_REQUEST_message := message, TPM2_RSA_Encrypt_REQUEST_inScheme := inScheme, TPM2_RSA_Encrypt_REQUEST_label := label\<rparr>)))))))"

definition TPM2_RSA_Encrypt_REQUEST_text_ok :: "text_class \<Rightarrow> TPM2_RSA_Encrypt_REQUEST \<Rightarrow> bool" where
  "TPM2_RSA_Encrypt_REQUEST_text_ok c x \<longleftrightarrow>
     TPM_HANDLE_text_ok c (TPM2_RSA_Encrypt_REQUEST_keyHandle x) \<and>
     length (TPM2_RSA_Encrypt_REQUEST_message x) < 2 ^ 64 \<and>
     TPM2_RSA_Encrypt_REQUEST_inScheme x \<noteq> None \<and>
     enum_ok c (ucast (selector_or TPM_ALG_ID_NULL TPMU_ASYM_SCHEME_GetUnionSelector (TPM2_RSA_Encrypt_REQUEST_inScheme x))) TPM_ALG_ID_ID \<and>
     if_set_ok (TPMU_ASYM_SCHEME_text_ok c) (TPM2_RSA_Encrypt_REQUEST_inScheme x) \<and>
     length (TPM2_RSA_Encrypt_REQUEST_label x) < 2 ^ 64"

interpretation TPM2_RSA_Encrypt_REQUEST_text: text_codec "''TPM2_RSA_Encrypt_REQUEST''" TPM2_RSA_Encrypt_REQUEST_Serialize TPM2_RSA_Encrypt_REQUEST_Deserialize TPM2_RSA_Encrypt_REQUEST_default TPM2_RSA_Encrypt_REQUEST_text_ok
proof
  show "word_ok ''TPM2_RSA_Encrypt_REQUEST''" by (simp add: word_simps)
  fix c x assume ok: "TPM2_RSA_Encrypt_REQUEST_text_ok c x"
  from ok show "carries c True (TPM2_RSA_Encrypt_REQUEST_Serialize x) (TPM2_RSA_Encrypt_REQUEST_Deserialize TPM2_RSA_Encrypt_REQUEST_default) x"
    by (simp only: TPM2_RSA_Encrypt_REQUEST_Serialize_def TPM2_RSA_Encrypt_REQUEST_Deserialize_def TPM2_RSA_Encrypt_REQUEST_default_def
       TPM2_RSA_Encrypt_REQUEST.select_convs TPM2_RSA_Encrypt_REQUEST.update_convs;
      intro TPMU_ASYM_SCHEME_text.as_member [THEN carries_member_Cons] TPMU_ASYM_SCHEME_text.member_created [of c, THEN carries_create] TPM_HANDLE_text.as_entry [THEN carries_entry_Cons] carries_body;
      (rule TPM2_RSA_Encrypt_REQUEST.equality)?; simp add: TPM2_RSA_Encrypt_REQUEST_text_ok_def word_simps)
qed

subsection \<open>RSA_EncryptResponse\<close>

definition RSA_EncryptResponse_Serialize :: "RSA_EncryptResponse \<Rightarrow> unit ser" where
  "RSA_EncryptResponse_Serialize self = wseq
     [withN ''outData'' ''BYTE[]'' ''outDataSize'' ''UINT16'' (ser_writeSizedByteBuf (RSA_EncryptResponse_outData self))]"

definition RSA_EncryptResponse_Deserialize :: "RSA_EncryptResponse \<Rightarrow> RSA_EncryptResponse ser" where
  "RSA_EncryptResponse_Deserialize self =
     sbind (withN ''outData'' ''BYTE[]'' ''outDataSize'' ''UINT16'' ser_readSizedByteBuf) (\<lambda>outData.
     ret (self\<lparr>RSA_EncryptResponse_outData := outData\<rparr>))"

definition RSA_EncryptResponse_text_ok :: "text_class \<Rightarrow> RSA_EncryptResponse \<Rightarrow> bool" where
  "RSA_EncryptResponse_text_ok c x \<longleftrightarrow>
     length (RSA_EncryptResponse_outData x) < 2 ^ 64"

interpretation RSA_EncryptResponse_text: text_codec "''RSA_EncryptResponse''" RSA_EncryptResponse_Serialize RSA_EncryptResponse_Deserialize RSA_EncryptResponse_default RSA_EncryptResponse_text_ok
proof
  show "word_ok ''RSA_EncryptResponse''" by (simp add: word_simps)
  fix c x assume ok: "RSA_EncryptResponse_text_ok c x"
  from ok show "carries c True (RSA_EncryptResponse_Serialize x) (RSA_EncryptResponse_Deserialize RSA_EncryptResponse_default) x"
    by (simp only: RSA_EncryptResponse_Serialize_def RSA_EncryptResponse_Deserialize_def RSA_EncryptResponse_default_def
       RSA_EncryptResponse.select_convs RSA_EncryptResponse.update_convs;
      intro carries_body;
      (rule RSA_EncryptResponse.equality)?; simp add: RSA_EncryptResponse_text_ok_def word_simps)
qed

subsection \<open>TPM2_RSA_Decrypt_REQUEST\<close>

definition TPM2_RSA_Decrypt_REQUEST_Serialize :: "TPM2_RSA_Decrypt_REQUEST \<Rightarrow> unit ser" where
  "TPM2_RSA_Decrypt_REQUEST_Serialize self = wseq
     [withN ''keyHandle'' ''TPM_HANDLE'' '''' '''' (ser_writeObj ''TPM_HANDLE'' (TPM_HANDLE_Serialize (TPM2_RSA_Decrypt_REQUEST_keyHandle self))),
      withN ''cipherText'' ''BYTE[]'' ''cipherTextSize'' ''UINT16'' (ser_writeSizedByteBuf (TPM2_RSA_Decrypt_REQUEST_cipherText self)),
      withN ''inSchemeScheme'' ''TPM_ALG_ID'' '''' '''' (ser_writeEnumT (selector_or TPM_ALG_ID_NULL TPMU_ASYM_SCHEME_GetUnionSelector (TPM2_RSA_Decrypt_REQUEST_inScheme self)) TPM_ALG_ID_ID),
      if_set (TPM2_RSA_Decrypt_REQUEST_inScheme self) (\<lambda>u. withN ''inScheme'' ''TPMU_ASYM_SCHEME'' '''' '''' (ser_writeObj (TPMU_ASYM_SCHEME_TypeName u) (TPMU_ASYM_SCHEME_Serialize u))),
      withN ''label'' ''BYTE[]'' ''labelSize'' ''UINT16'' (ser_writeSizedByteBuf (TPM2_RSA_Decrypt_REQUEST_label self))]"

definition TPM2_RSA_Decrypt_REQUEST_Deserialize :: "TPM2_RSA_Decrypt_REQUEST \<Rightarrow> TPM2_RSA_Decrypt_REQUEST ser" where
  "TPM2_RSA_Decrypt_REQUEST_Deserialize self =
     sbind (withN ''keyHandle'' ''TPM_HANDLE'' '''' '''' (ser_readObj ''TPM_HANDLE'' (TPM_HANDLE_Deserialize (TPM2_RSA_Decrypt_REQUEST_keyHandle self)))) (\<lambda>keyHandle.
     sbind (withN ''cipherText'' ''BYTE[]'' ''cipherTextSize'' ''UINT16'' ser_readSizedByteBuf) (\<lambda>cipherText.
     sbind (withN ''inSchemeScheme'' ''TPM_ALG_ID'' '''' '''' (ser_readEnumT TPM_ALG_ID_ID)) (\<lambda>inSchemeScheme.
     sbind (reset_or_create UnionFactory_Create_TPMU_ASYM_SCHEME inSchemeScheme) (\<lambda>inScheme.
     sbind (read_if_set inScheme (\<lambda>u. withN ''inScheme'' ''TPMU_ASYM_SCHEME'' '''' '''' (ser_readObj (TPMU_ASYM_SCHEME_TypeName u) (TPMU_ASYM_SCHEME_Deserialize u)))) (\<lambda>inScheme.
     sbind (withN ''label'' ''BYTE[]'' ''labelSize'' ''UINT16'' ser_readSizedByteBuf) (\<lambda>label.
     ret (self\<lparr>TPM2_RSA_Decrypt_REQUEST_keyHandle := keyHandle, TPM2_RSA_Decrypt_REQUEST_cipherText := cipherText, TPM2_RSA_Decrypt_REQUEST_inScheme := inScheme, TPM2_RSA_Decrypt_REQUEST_label := label\<rparr>)))))))"

definition TPM2_RSA_Decrypt_REQUEST_text_ok :: "text_class \<Rightarrow> TPM2_RSA_Decrypt_REQUEST \<Rightarrow> bool" where
  "TPM2_RSA_Decrypt_REQUEST_text_ok c x \<longleftrightarrow>
     TPM_HANDLE_text_ok c (TPM2_RSA_Decrypt_REQUEST_keyHandle x) \<and>
     length (TPM2_RSA_Decrypt_REQUEST_cipherText x) < 2 ^ 64 \<and>
     TPM2_RSA_Decrypt_REQUEST_inScheme x \<noteq> None \<and>
     enum_ok c (ucast (selector_or TPM_ALG_ID_NULL TPMU_ASYM_SCHEME_GetUnionSelector (TPM2_RSA_Decrypt_REQUEST_inScheme x))) TPM_ALG_ID_ID \<and>
     if_set_ok (TPMU_ASYM_SCHEME_text_ok c) (TPM2_RSA_Decrypt_REQUEST_inScheme x) \<and>
     length (TPM2_RSA_Decrypt_REQUEST_label x) < 2 ^ 64"

interpretation TPM2_RSA_Decrypt_REQUEST_text: text_codec "''TPM2_RSA_Decrypt_REQUEST''" TPM2_RSA_Decrypt_REQUEST_Serialize TPM2_RSA_Decrypt_REQUEST_Deserialize TPM2_RSA_Decrypt_REQUEST_default TPM2_RSA_Decrypt_REQUEST_text_ok
proof
  show "word_ok ''TPM2_RSA_Decrypt_REQUEST''" by (simp add: word_simps)
  fix c x assume ok: "TPM2_RSA_Decrypt_REQUEST_text_ok c x"
  from ok show "carries c True (TPM2_RSA_Decrypt_REQUEST_Serialize x) (TPM2_RSA_Decrypt_REQUEST_Deserialize TPM2_RSA_Decrypt_REQUEST_default) x"
    by (simp only: TPM2_RSA_Decrypt_REQUEST_Serialize_def TPM2_RSA_Decrypt_REQUEST_Deserialize_def TPM2_RSA_Decrypt_REQUEST_default_def
       TPM2_RSA_Decrypt_REQUEST.select_convs TPM2_RSA_Decrypt_REQUEST.update_convs;
      intro TPMU_ASYM_SCHEME_text.as_member [THEN carries_member_Cons] TPMU_ASYM_SCHEME_text.member_created [of c, THEN carries_create] TPM_HANDLE_text.as_entry [THEN carries_entry_Cons] carries_body;
      (rule TPM2_RSA_Decrypt_REQUEST.equality)?; simp add: TPM2_RSA_Decrypt_REQUEST_text_ok_def word_simps)
qed

subsection \<open>RSA_DecryptResponse\<close>

definition RSA_DecryptResponse_Serialize :: "RSA_DecryptResponse \<Rightarrow> unit ser" where
  "RSA_DecryptResponse_Serialize self = wseq
     [withN ''message'' ''BYTE[]'' ''messageSize'' ''UINT16'' (ser_writeSizedByteBuf (RSA_DecryptResponse_message self))]"

definition RSA_DecryptResponse_Deserialize :: "RSA_DecryptResponse \<Rightarrow> RSA_DecryptResponse ser" where
  "RSA_DecryptResponse_Deserialize self =
     sbind (withN ''message'' ''BYTE[]'' ''messageSize'' ''UINT16'' ser_readSizedByteBuf) (\<lambda>message.
     ret (self\<lparr>RSA_DecryptResponse_message := message\<rparr>))"

definition RSA_DecryptResponse_text_ok :: "text_class \<Rightarrow> RSA_DecryptResponse \<Rightarrow> bool" where
  "RSA_DecryptResponse_text_ok c x \<longleftrightarrow>
     length (RSA_DecryptResponse_message x) < 2 ^ 64"

interpretation RSA_DecryptResponse_text: text_codec "''RSA_DecryptResponse''" RSA_DecryptResponse_Serialize RSA_DecryptResponse_Deserialize RSA_DecryptResponse_default RSA_DecryptResponse_text_ok
proof
  show "word_ok ''RSA_DecryptResponse''" by (simp add: word_simps)
  fix c x assume ok: "RSA_DecryptResponse_text_ok c x"
  from ok show "carries c True (RSA_DecryptResponse_Serialize x) (RSA_DecryptResponse_Deserialize RSA_DecryptResponse_default) x"
    by (simp only: RSA_DecryptResponse_Serialize_def RSA_DecryptResponse_Deserialize_def RSA_DecryptResponse_default_def
       RSA_DecryptResponse.select_convs RSA_DecryptResponse.update_convs;
      intro carries_body;
      (rule RSA_DecryptResponse.equality)?; simp add: RSA_DecryptResponse_text_ok_def word_simps)
qed

subsection \<open>TPM2_ECDH_KeyGen_REQUEST\<close>

definition TPM2_ECDH_KeyGen_REQUEST_Serialize :: "TPM2_ECDH_KeyGen_REQUEST \<Rightarrow> unit ser" where
  "TPM2_ECDH_KeyGen_REQUEST_Serialize self = wseq
     [withN ''keyHandle'' ''TPM_HANDLE'' '''' '''' (ser_writeObj ''TPM_HANDLE'' (TPM_HANDLE_Serialize (TPM2_ECDH_KeyGen_REQUEST_keyHandle self)))]"

definition TPM2_ECDH_KeyGen_REQUEST_Deserialize :: "TPM2_ECDH_KeyGen_REQUEST \<Rightarrow> TPM2_ECDH_KeyGen_REQUEST ser" where
  "TPM2_ECDH_KeyGen_REQUEST_Deserialize self =
     sbind (withN ''keyHandle'' ''TPM_HANDLE'' '''' '''' (ser_readObj ''TPM_HANDLE'' (TPM_HANDLE_Deserialize (TPM2_ECDH_KeyGen_REQUEST_keyHandle self)))) (\<lambda>keyHandle.
     ret (self\<lparr>TPM2_ECDH_KeyGen_REQUEST_keyHandle := keyHandle\<rparr>))"

definition TPM2_ECDH_KeyGen_REQUEST_text_ok :: "text_class \<Rightarrow> TPM2_ECDH_KeyGen_REQUEST \<Rightarrow> bool" where
  "TPM2_ECDH_KeyGen_REQUEST_text_ok c x \<longleftrightarrow>
     TPM_HANDLE_text_ok c (TPM2_ECDH_KeyGen_REQUEST_keyHandle x)"

interpretation TPM2_ECDH_KeyGen_REQUEST_text: text_codec "''TPM2_ECDH_KeyGen_REQUEST''" TPM2_ECDH_KeyGen_REQUEST_Serialize TPM2_ECDH_KeyGen_REQUEST_Deserialize TPM2_ECDH_KeyGen_REQUEST_default TPM2_ECDH_KeyGen_REQUEST_text_ok
proof
  show "word_ok ''TPM2_ECDH_KeyGen_REQUEST''" by (simp add: word_simps)
  fix c x assume ok: "TPM2_ECDH_KeyGen_REQUEST_text_ok c x"
  from ok show "carries c True (TPM2_ECDH_KeyGen_REQUEST_Serialize x) (TPM2_ECDH_KeyGen_REQUEST_Deserialize TPM2_ECDH_KeyGen_REQUEST_default) x"
    by (simp only: TPM2_ECDH_KeyGen_REQUEST_Serialize_def TPM2_ECDH_KeyGen_REQUEST_Deserialize_def TPM2_ECDH_KeyGen_REQUEST_default_def
       TPM2_ECDH_KeyGen_REQUEST.select_convs TPM2_ECDH_KeyGen_REQUEST.update_convs;
      intro TPM_HANDLE_text.as_entry [THEN carries_entry_Cons] carries_body;
      (rule TPM2_ECDH_KeyGen_REQUEST.equality)?; simp add: TPM2_ECDH_KeyGen_REQUEST_text_ok_def word_simps)
qed

subsection \<open>ECDH_KeyGenResponse\<close>

definition ECDH_KeyGenResponse_Serialize :: "ECDH_KeyGenResponse \<Rightarrow> unit ser" where
  "ECDH_KeyGenResponse_Serialize self = wseq
     [withN ''zPoint'' ''TPMS_ECC_POINT'' ''zPointSize'' ''UINT16'' (ser_writeObj ''TPMS_ECC_POINT'' (TPMS_ECC_POINT_Serialize (ECDH_KeyGenResponse_zPoint self))),
      withN ''pubPoint'' ''TPMS_ECC_POINT'' ''pubPointSize'' ''UINT16'' (ser_writeObj ''TPMS_ECC_POINT'' (TPMS_ECC_POINT_Serialize (ECDH_KeyGenResponse_pubPoint self)))]"

definition ECDH_KeyGenResponse_Deserialize :: "ECDH_KeyGenResponse \<Rightarrow> ECDH_KeyGenResponse ser" where
  "ECDH_KeyGenResponse_Deserialize self =
     sbind (withN ''zPoint'' ''TPMS_ECC_POINT'' ''zPointSize'' ''UINT16'' (ser_readObj ''TPMS_ECC_POINT'' (TPMS_ECC_POINT_Deserialize (ECDH_KeyGenResponse_zPoint self)))) (\<lambda>zPoint.
     sbind (withN ''pubPoint'' ''TPMS_ECC_POINT'' ''pubPointSize'' ''UINT16'' (ser_readObj ''TPMS_ECC_POINT'' (TPMS_ECC_POINT_Deserialize (ECDH_KeyGenResponse_pubPoint self)))) (\<lambda>pubPoint.
     ret (self\<lparr>ECDH_KeyGenResponse_zPoint := zPoint, ECDH_KeyGenResponse_pubPoint := pubPoint\<rparr>)))"

definition ECDH_KeyGenResponse_text_ok :: "text_class \<Rightarrow> ECDH_KeyGenResponse \<Rightarrow> bool" where
  "ECDH_KeyGenResponse_text_ok c x \<longleftrightarrow>
     TPMS_ECC_POINT_text_ok c (ECDH_KeyGenResponse_zPoint x) \<and>
     TPMS_ECC_POINT_text_ok c (ECDH_KeyGenResponse_pubPoint x)"

interpretation ECDH_KeyGenResponse_text: text_codec "''ECDH_KeyGenResponse''" ECDH_KeyGenResponse_Serialize ECDH_KeyGenResponse_Deserialize ECDH_KeyGenResponse_default ECDH_KeyGenResponse_text_ok
proof
  show "word_ok ''ECDH_KeyGenResponse''" by (simp add: word_simps)
  fix c x assume ok: "ECDH_KeyGenResponse_text_ok c x"
  from ok show "carries c True (ECDH_KeyGenResponse_Serialize x) (ECDH_KeyGenResponse_Deserialize ECDH_KeyGenResponse_default) x"
    by (simp only: ECDH_KeyGenResponse_Serialize_def ECDH_KeyGenResponse_Deserialize_def ECDH_KeyGenResponse_default_def
       ECDH_KeyGenResponse.select_convs ECDH_KeyGenResponse.update_convs;
      intro TPMS_ECC_POINT_text.as_entry [THEN carries_entry_Cons] carries_body;
      (rule ECDH_KeyGenResponse.equality)?; simp add: ECDH_KeyGenResponse_text_ok_def word_simps)
qed

subsection \<open>TPM2_ECDH_ZGen_REQUEST\<close>

definition TPM2_ECDH_ZGen_REQUEST_Serialize :: "TPM2_ECDH_ZGen_REQUEST \<Rightarrow> unit ser" where
  "TPM2_ECDH_ZGen_REQUEST_Serialize self = wseq
     [withN ''keyHandle'' ''TPM_HANDLE'' '''' '''' (ser_writeObj ''TPM_HANDLE'' (TPM_HANDLE_Serialize (TPM2_ECDH_ZGen_REQUEST_keyHandle self))),
      withN ''inPoint'' ''TPMS_ECC_POINT'' ''inPointSize'' ''UINT16'' (ser_writeObj ''TPMS_ECC_POINT'' (TPMS_ECC_POINT_Serialize (TPM2_ECDH_ZGen_REQUEST_inPoint self)))]"

definition TPM2_ECDH_ZGen_REQUEST_Deserialize :: "TPM2_ECDH_ZGen_REQUEST \<Rightarrow> TPM2_ECDH_ZGen_REQUEST ser" where
  "TPM2_ECDH_ZGen_REQUEST_Deserialize self =
     sbind (withN ''keyHandle'' ''TPM_HANDLE'' '''' '''' (ser_readObj ''TPM_HANDLE'' (TPM_HANDLE_Deserialize (TPM2_ECDH_ZGen_REQUEST_keyHandle self)))) (\<lambda>keyHandle.
     sbind (withN ''inPoint'' ''TPMS_ECC_POINT'' ''inPointSize'' ''UINT16'' (ser_readObj ''TPMS_ECC_POINT'' (TPMS_ECC_POINT_Deserialize (TPM2_ECDH_ZGen_REQUEST_inPoint self)))) (\<lambda>inPoint.
     ret (self\<lparr>TPM2_ECDH_ZGen_REQUEST_keyHandle := keyHandle, TPM2_ECDH_ZGen_REQUEST_inPoint := inPoint\<rparr>)))"

definition TPM2_ECDH_ZGen_REQUEST_text_ok :: "text_class \<Rightarrow> TPM2_ECDH_ZGen_REQUEST \<Rightarrow> bool" where
  "TPM2_ECDH_ZGen_REQUEST_text_ok c x \<longleftrightarrow>
     TPM_HANDLE_text_ok c (TPM2_ECDH_ZGen_REQUEST_keyHandle x) \<and>
     TPMS_ECC_POINT_text_ok c (TPM2_ECDH_ZGen_REQUEST_inPoint x)"

interpretation TPM2_ECDH_ZGen_REQUEST_text: text_codec "''TPM2_ECDH_ZGen_REQUEST''" TPM2_ECDH_ZGen_REQUEST_Serialize TPM2_ECDH_ZGen_REQUEST_Deserialize TPM2_ECDH_ZGen_REQUEST_default TPM2_ECDH_ZGen_REQUEST_text_ok
proof
  show "word_ok ''TPM2_ECDH_ZGen_REQUEST''" by (simp add: word_simps)
  fix c x assume ok: "TPM2_ECDH_ZGen_REQUEST_text_ok c x"
  from ok show "carries c True (TPM2_ECDH_ZGen_REQUEST_Serialize x) (TPM2_ECDH_ZGen_REQUEST_Deserialize TPM2_ECDH_ZGen_REQUEST_default) x"
    by (simp only: TPM2_ECDH_ZGen_REQUEST_Serialize_def TPM2_ECDH_ZGen_REQUEST_Deserialize_def TPM2_ECDH_ZGen_REQUEST_default_def
       TPM2_ECDH_ZGen_REQUEST.select_convs TPM2_ECDH_ZGen_REQUEST.update_convs;
      intro TPMS_ECC_POINT_text.as_entry [THEN carries_entry_Cons] TPM_HANDLE_text.as_entry [THEN carries_entry_Cons] carries_body;
      (rule TPM2_ECDH_ZGen_REQUEST.equality)?; simp add: TPM2_ECDH_ZGen_REQUEST_text_ok_def word_simps)
qed

subsection \<open>ECDH_ZGenResponse\<close>

definition ECDH_ZGenResponse_Serialize :: "ECDH_ZGenResponse \<Rightarrow> unit ser" where
  "ECDH_ZGenResponse_Serialize self = wseq
     [withN ''outPoint'' ''TPMS_ECC_POINT'' ''outPointSize'' ''UINT16'' (ser_writeObj ''TPMS_ECC_POINT'' (TPMS_ECC_POINT_Serialize (ECDH_ZGenResponse_outPoint self)))]"

definition ECDH_ZGenResponse_Deserialize :: "ECDH_ZGenResponse \<Rightarrow> ECDH_ZGenResponse ser" where
  "ECDH_ZGenResponse_Deserialize self =
     sbind (withN ''outPoint'' ''TPMS_ECC_POINT'' ''outPointSize'' ''UINT16'' (ser_readObj ''TPMS_ECC_POINT'' (TPMS_ECC_POINT_Deserialize (ECDH_ZGenResponse_outPoint self)))) (\<lambda>outPoint.
     ret (self\<lparr>ECDH_ZGenResponse_outPoint := outPoint\<rparr>))"

definition ECDH_ZGenResponse_text_ok :: "text_class \<Rightarrow> ECDH_ZGenResponse \<Rightarrow> bool" where
  "ECDH_ZGenResponse_text_ok c x \<longleftrightarrow>
     TPMS_ECC_POINT_text_ok c (ECDH_ZGenResponse_outPoint x)"

interpretation ECDH_ZGenResponse_text: text_codec "''ECDH_ZGenResponse''" ECDH_ZGenResponse_Serialize ECDH_ZGenResponse_Deserialize ECDH_ZGenResponse_default ECDH_ZGenResponse_text_ok
proof
  show "word_ok ''ECDH_ZGenResponse''" by (simp add: word_simps)
  fix c x assume ok: "ECDH_ZGenResponse_text_ok c x"
  from ok show "carries c True (ECDH_ZGenResponse_Serialize x) (ECDH_ZGenResponse_Deserialize ECDH_ZGenResponse_default) x"
    by (simp only: ECDH_ZGenResponse_Serialize_def ECDH_ZGenResponse_Deserialize_def ECDH_ZGenResponse_default_def
       ECDH_ZGenResponse.select_convs ECDH_ZGenResponse.update_convs;
      intro TPMS_ECC_POINT_text.as_entry [THEN carries_entry_Cons] carries_body;
      (rule ECDH_ZGenResponse.equality)?; simp add: ECDH_ZGenResponse_text_ok_def word_simps)
qed

subsection \<open>TPM2_ECC_Parameters_REQUEST\<close>

definition TPM2_ECC_Parameters_REQUEST_Serialize :: "TPM2_ECC_Parameters_REQUEST \<Rightarrow> unit ser" where
  "TPM2_ECC_Parameters_REQUEST_Serialize self = wseq
     [withN ''curveID'' ''TPM_ECC_CURVE'' '''' '''' (ser_writeEnumT (TPM2_ECC_Parameters_REQUEST_curveID self) TPM_ECC_CURVE_ID)]"

definition TPM2_ECC_Parameters_REQUEST_Deserialize :: "TPM2_ECC_Parameters_REQUEST \<Rightarrow> TPM2_ECC_Parameters_REQUEST ser" where
  "TPM2_ECC_Parameters_REQUEST_Deserialize self =
     sbind (withN ''curveID'' ''TPM_ECC_CURVE'' '''' '''' (ser_readEnumT TPM_ECC_CURVE_ID)) (\<lambda>curveID.
     ret (self\<lparr>TPM2_ECC_Parameters_REQUEST_curveID := curveID\<rparr>))"

definition TPM2_ECC_Parameters_REQUEST_text_ok :: "text_class \<Rightarrow> TPM2_ECC_Parameters_REQUEST \<Rightarrow> bool" where
  "TPM2_ECC_Parameters_REQUEST_text_ok c x \<longleftrightarrow>
     enum_ok c (ucast (TPM2_ECC_Parameters_REQUEST_curveID x)) TPM_ECC_CURVE_ID"

interpretation TPM2_ECC_Parameters_REQUEST_text: text_codec "''TPM2_ECC_Parameters_REQUEST''" TPM2_ECC_Parameters_REQUEST_Serialize TPM2_ECC_Parameters_REQUEST_Deserialize TPM2_ECC_Parameters_REQUEST_default TPM2_ECC_Parameters_REQUEST_text_ok
proof
  show "word_ok ''TPM2_ECC_Parameters_REQUEST''" by (simp add: word_simps)
  fix c x assume ok: "TPM2_ECC_Parameters_REQUEST_text_ok c x"
  from ok show "carries c True (TPM2_ECC_Parameters_REQUEST_Serialize x) (TPM2_ECC_Parameters_REQUEST_Deserialize TPM2_ECC_Parameters_REQUEST_default) x"
    by (simp only: TPM2_ECC_Parameters_REQUEST_Serialize_def TPM2_ECC_Parameters_REQUEST_Deserialize_def TPM2_ECC_Parameters_REQUEST_default_def
       TPM2_ECC_Parameters_REQUEST.select_convs TPM2_ECC_Parameters_REQUEST.update_convs;
      intro carries_body;
      (rule TPM2_ECC_Parameters_REQUEST.equality)?; simp add: TPM2_ECC_Parameters_REQUEST_text_ok_def word_simps)
qed

subsection \<open>ECC_ParametersResponse\<close>

definition ECC_ParametersResponse_Serialize :: "ECC_ParametersResponse \<Rightarrow> unit ser" where
  "ECC_ParametersResponse_Serialize self = wseq
     [withN ''parameters'' ''TPMS_ALGORITHM_DETAIL_ECC'' '''' '''' (ser_writeObj ''TPMS_ALGORITHM_DETAIL_ECC'' (TPMS_ALGORITHM_DETAIL_ECC_Serialize (ECC_ParametersResponse_parameters self)))]"

definition ECC_ParametersResponse_Deserialize :: "ECC_ParametersResponse \<Rightarrow> ECC_ParametersResponse ser" where
  "ECC_ParametersResponse_Deserialize self =
     sbind (withN ''parameters'' ''TPMS_ALGORITHM_DETAIL_ECC'' '''' '''' (ser_readObj ''TPMS_ALGORITHM_DETAIL_ECC'' (TPMS_ALGORITHM_DETAIL_ECC_Deserialize (ECC_ParametersResponse_parameters self)))) (\<lambda>parameters.
     ret (self\<lparr>ECC_ParametersResponse_parameters := parameters\<rparr>))"

definition ECC_ParametersResponse_text_ok :: "text_class \<Rightarrow> ECC_ParametersResponse \<Rightarrow> bool" where
  "ECC_ParametersResponse_text_ok c x \<longleftrightarrow>
     TPMS_ALGORITHM_DETAIL_ECC_text_ok c (ECC_ParametersResponse_parameters x)"

interpretation ECC_ParametersResponse_text: text_codec "''ECC_ParametersResponse''" ECC_ParametersResponse_Serialize ECC_ParametersResponse_Deserialize ECC_ParametersResponse_default ECC_ParametersResponse_text_ok
proof
  show "word_ok ''ECC_ParametersResponse''" by (simp add: word_simps)
  fix c x assume ok: "ECC_ParametersResponse_text_ok c x"
  from ok show "carries c True (ECC_ParametersResponse_Serialize x) (ECC_ParametersResponse_Deserialize ECC_ParametersResponse_default) x"
    by (simp only: ECC_ParametersResponse_Serialize_def ECC_ParametersResponse_Deserialize_def ECC_ParametersResponse_default_def
       ECC_ParametersResponse.select_convs ECC_ParametersResponse.update_convs;
      intro TPMS_ALGORITHM_DETAIL_ECC_text.as_entry [THEN carries_entry_Cons] carries_body;
      (rule ECC_ParametersResponse.equality)?; simp add: ECC_ParametersResponse_text_ok_def word_simps)
qed

subsection \<open>TPM2_ZGen_2Phase_REQUEST\<close>

definition TPM2_ZGen_2Phase_REQUEST_Serialize :: "TPM2_ZGen_2Phase_REQUEST \<Rightarrow> unit ser" where
  "TPM2_ZGen_2Phase_REQUEST_Serialize self = wseq
     [withN ''keyA'' ''TPM_HANDLE'' '''' '''' (ser_writeObj ''TPM_HANDLE'' (TPM_HANDLE_Serialize (TPM2_ZGen_2Phase_REQUEST_keyA self))),
      withN ''inQsB'' ''TPMS_ECC_POINT'' ''inQsBSize'' ''UINT16'' (ser_writeObj ''TPMS_ECC_POINT'' (TPMS_ECC_POINT_Serialize (TPM2_ZGen_2Phase_REQUEST_inQsB self))),
      withN ''inQeB'' ''TPMS_ECC_POINT'' ''inQeBSize'' ''UINT16'' (ser_writeObj ''TPMS_ECC_POINT'' (TPMS_ECC_POINT_Serialize (TPM2_ZGen_2Phase_REQUEST_inQeB self))),
      withN ''inScheme'' ''TPM_ALG_ID'' '''' '''' (ser_writeEnumT (TPM2_ZGen_2Phase_REQUEST_inScheme self) TPM_ALG_ID_ID),
      withN ''counter'' ''UINT16'' '''' '''' (ser_writeShort (TPM2_ZGen_2Phase_REQUEST_counter self))]"

definition TPM2_ZGen_2Phase_REQUEST_Deserialize :: "TPM2_ZGen_2Phase_REQUEST \<Rightarrow> TPM2_ZGen_2Phase_REQUEST ser" where
  "TPM2_ZGen_2Phase_REQUEST_Deserialize self =
     sbind (withN ''keyA'' ''TPM_HANDLE'' '''' '''' (ser_readObj ''TPM_HANDLE'' (TPM_HANDLE_Deserialize (TPM2_ZGen_2Phase_REQUEST_keyA self)))) (\<lambda>keyA.
     sbind (withN ''inQsB'' ''TPMS_ECC_POINT'' ''inQsBSize'' ''UINT16'' (ser_readObj ''TPMS_ECC_POINT'' (TPMS_ECC_POINT_Deserialize (TPM2_ZGen_2Phase_REQUEST_inQsB self)))) (\<lambda>inQsB.
     sbind (withN ''inQeB'' ''TPMS_ECC_POINT'' ''inQeBSize'' ''UINT16'' (ser_readObj ''TPMS_ECC_POINT'' (TPMS_ECC_POINT_Deserialize (TPM2_ZGen_2Phase_REQUEST_inQeB self)))) (\<lambda>inQeB.
     sbind (withN ''inScheme'' ''TPM_ALG_ID'' '''' '''' (ser_readEnumT TPM_ALG_ID_ID)) (\<lambda>inScheme.
     sbind (withN ''counter'' ''UINT16'' '''' '''' ser_readShort) (\<lambda>counter.
     ret (self\<lparr>TPM2_ZGen_2Phase_REQUEST_keyA := keyA, TPM2_ZGen_2Phase_REQUEST_inQsB := inQsB, TPM2_ZGen_2Phase_REQUEST_inQeB := inQeB, TPM2_ZGen_2Phase_REQUEST_inScheme := inScheme, TPM2_ZGen_2Phase_REQUEST_counter := counter\<rparr>))))))"

definition TPM2_ZGen_2Phase_REQUEST_text_ok :: "text_class \<Rightarrow> TPM2_ZGen_2Phase_REQUEST \<Rightarrow> bool" where
  "TPM2_ZGen_2Phase_REQUEST_text_ok c x \<longleftrightarrow>
     TPM_HANDLE_text_ok c (TPM2_ZGen_2Phase_REQUEST_keyA x) \<and>
     TPMS_ECC_POINT_text_ok c (TPM2_ZGen_2Phase_REQUEST_inQsB x) \<and>
     TPMS_ECC_POINT_text_ok c (TPM2_ZGen_2Phase_REQUEST_inQeB x) \<and>
     enum_ok c (ucast (TPM2_ZGen_2Phase_REQUEST_inScheme x)) TPM_ALG_ID_ID"

interpretation TPM2_ZGen_2Phase_REQUEST_text: text_codec "''TPM2_ZGen_2Phase_REQUEST''" TPM2_ZGen_2Phase_REQUEST_Serialize TPM2_ZGen_2Phase_REQUEST_Deserialize TPM2_ZGen_2Phase_REQUEST_default TPM2_ZGen_2Phase_REQUEST_text_ok
proof
  show "word_ok ''TPM2_ZGen_2Phase_REQUEST''" by (simp add: word_simps)
  fix c x assume ok: "TPM2_ZGen_2Phase_REQUEST_text_ok c x"
  from ok show "carries c True (TPM2_ZGen_2Phase_REQUEST_Serialize x) (TPM2_ZGen_2Phase_REQUEST_Deserialize TPM2_ZGen_2Phase_REQUEST_default) x"
    by (simp only: TPM2_ZGen_2Phase_REQUEST_Serialize_def TPM2_ZGen_2Phase_REQUEST_Deserialize_def TPM2_ZGen_2Phase_REQUEST_default_def
       TPM2_ZGen_2Phase_REQUEST.select_convs TPM2_ZGen_2Phase_REQUEST.update_convs;
      intro TPMS_ECC_POINT_text.as_entry [THEN carries_entry_Cons] TPM_HANDLE_text.as_entry [THEN carries_entry_Cons] carries_body;
      (rule TPM2_ZGen_2Phase_REQUEST.equality)?; simp add: TPM2_ZGen_2Phase_REQUEST_text_ok_def word_simps)
qed

subsection \<open>ZGen_2PhaseResponse\<close>

definition ZGen_2PhaseResponse_Serialize :: "ZGen_2PhaseResponse \<Rightarrow> unit ser" where
  "ZGen_2PhaseResponse_Serialize self = wseq
     [withN ''outZ1'' ''TPMS_ECC_POINT'' ''outZ1Size'' ''UINT16'' (ser_writeObj ''TPMS_ECC_POINT'' (TPMS_ECC_POINT_Serialize (ZGen_2PhaseResponse_outZ1 self))),
      withN ''outZ2'' ''TPMS_ECC_POINT'' ''outZ2Size'' ''UINT16'' (ser_writeObj ''TPMS_ECC_POINT'' (TPMS_ECC_POINT_Serialize (ZGen_2PhaseResponse_outZ2 self)))]"

definition ZGen_2PhaseResponse_Deserialize :: "ZGen_2PhaseResponse \<Rightarrow> ZGen_2PhaseResponse ser" where
  "ZGen_2PhaseResponse_Deserialize self =
     sbind (withN ''outZ1'' ''TPMS_ECC_POINT'' ''outZ1Size'' ''UINT16'' (ser_readObj ''TPMS_ECC_POINT'' (TPMS_ECC_POINT_Deserialize (ZGen_2PhaseResponse_outZ1 self)))) (\<lambda>outZ1.
     sbind (withN ''outZ2'' ''TPMS_ECC_POINT'' ''outZ2Size'' ''UINT16'' (ser_readObj ''TPMS_ECC_POINT'' (TPMS_ECC_POINT_Deserialize (ZGen_2PhaseResponse_outZ2 self)))) (\<lambda>outZ2.
     ret (self\<lparr>ZGen_2PhaseResponse_outZ1 := outZ1, ZGen_2PhaseResponse_outZ2 := outZ2\<rparr>)))"

definition ZGen_2PhaseResponse_text_ok :: "text_class \<Rightarrow> ZGen_2PhaseResponse \<Rightarrow> bool" where
  "ZGen_2PhaseResponse_text_ok c x \<longleftrightarrow>
     TPMS_ECC_POINT_text_ok c (ZGen_2PhaseResponse_outZ1 x) \<and>
     TPMS_ECC_POINT_text_ok c (ZGen_2PhaseResponse_outZ2 x)"

interpretation ZGen_2PhaseResponse_text: text_codec "''ZGen_2PhaseResponse''" ZGen_2PhaseResponse_Serialize ZGen_2PhaseResponse_Deserialize ZGen_2PhaseResponse_default ZGen_2PhaseResponse_text_ok
proof
  show "word_ok ''ZGen_2PhaseResponse''" by (simp add: word_simps)
  fix c x assume ok: "ZGen_2PhaseResponse_text_ok c x"
  from ok show "carries c True (ZGen_2PhaseResponse_Serialize x) (ZGen_2PhaseResponse_Deserialize ZGen_2PhaseResponse_default) x"
    by (simp only: ZGen_2PhaseResponse_Serialize_def ZGen_2PhaseResponse_Deserialize_def ZGen_2PhaseResponse_default_def
       ZGen_2PhaseResponse.select_convs ZGen_2PhaseResponse.update_convs;
      intro TPMS_ECC_POINT_text.as_entry [THEN carries_entry_Cons] carries_body;
      (rule ZGen_2PhaseResponse.equality)?; simp add: ZGen_2PhaseResponse_text_ok_def word_simps)
qed

subsection \<open>TPM2_ECC_Encrypt_REQUEST\<close>

definition TPM2_ECC_Encrypt_REQUEST_Serialize :: "TPM2_ECC_Encrypt_REQUEST \<Rightarrow> unit ser" where
  "TPM2_ECC_Encrypt_REQUEST_Serialize self = wseq
     [withN ''keyHandle'' ''TPM_HANDLE'' '''' '''' (ser_writeObj ''TPM_HANDLE'' (TPM_HANDLE_Serialize (TPM2_ECC_Encrypt_REQUEST_keyHandle self))),
      withN ''plainText'' ''BYTE[]'' ''plainTextSize'' ''UINT16'' (ser_writeSizedByteBuf (TPM2_ECC_Encrypt_REQUEST_plainText self)),
      withN ''inSchemeScheme'' ''TPM_ALG_ID'' '''' '''' (ser_writeEnumT (selector_or TPM_ALG_ID_NULL TPMU_KDF_SCHEME_GetUnionSelector (TPM2_ECC_Encrypt_REQUEST_inScheme self)) TPM_ALG_ID_ID),
      if_set (TPM2_ECC_Encrypt_REQUEST_inScheme self) (\<lambda>u. withN ''inScheme'' ''TPMU_KDF_SCHEME'' '''' '''' (ser_writeObj (TPMU_KDF_SCHEME_TypeName u) (TPMU_KDF_SCHEME_Serialize u)))]"

definition TPM2_ECC_Encrypt_REQUEST_Deserialize :: "TPM2_ECC_Encrypt_REQUEST \<Rightarrow> TPM2_ECC_Encrypt_REQUEST ser" where
  "TPM2_ECC_Encrypt_REQUEST_Deserialize self =
     sbind (withN ''keyHandle'' ''TPM_HANDLE'' '''' '''' (ser_readObj ''TPM_HANDLE'' (TPM_HANDLE_Deserialize (TPM2_ECC_Encrypt_REQUEST_keyHandle self)))) (\<lambda>keyHandle.
     sbind (withN ''plainText'' ''BYTE[]'' ''plainTextSize'' ''UINT16'' ser_readSizedByteBuf) (\<lambda>plainText.
     sbind (withN ''inSchemeScheme'' ''TPM_ALG_ID'' '''' '''' (ser_readEnumT TPM_ALG_ID_ID)) (\<lambda>inSchemeScheme.
     sbind (reset_or_create UnionFactory_Create_TPMU_KDF_SCHEME inSchemeScheme) (\<lambda>inScheme.
     sbind (read_if_set inScheme (\<lambda>u. withN ''inScheme'' ''TPMU_KDF_SCHEME'' '''' '''' (ser_readObj (TPMU_KDF_SCHEME_TypeName u) (TPMU_KDF_SCHEME_Deserialize u)))) (\<lambda>inScheme.
     ret (self\<lparr>TPM2_ECC_Encrypt_REQUEST_keyHandle := keyHandle, TPM2_ECC_Encrypt_REQUEST_plainText := plainText, TPM2_ECC_Encrypt_REQUEST_inScheme := inScheme\<rparr>))))))"

definition TPM2_ECC_Encrypt_REQUEST_text_ok :: "text_class \<Rightarrow> TPM2_ECC_Encrypt_REQUEST \<Rightarrow> bool" where
  "TPM2_ECC_Encrypt_REQUEST_text_ok c x \<longleftrightarrow>
     TPM_HANDLE_text_ok c (TPM2_ECC_Encrypt_REQUEST_keyHandle x) \<and>
     length (TPM2_ECC_Encrypt_REQUEST_plainText x) < 2 ^ 64 \<and>
     TPM2_ECC_Encrypt_REQUEST_inScheme x \<noteq> None \<and>
     enum_ok c (ucast (selector_or TPM_ALG_ID_NULL TPMU_KDF_SCHEME_GetUnionSelector (TPM2_ECC_Encrypt_REQUEST_inScheme x))) TPM_ALG_ID_ID \<and>
     if_set_ok (TPMU_KDF_SCHEME_text_ok c) (TPM2_ECC_Encrypt_REQUEST_inScheme x)"

interpretation TPM2_ECC_Encrypt_REQUEST_text: text_codec "''TPM2_ECC_Encrypt_REQUEST''" TPM2_ECC_Encrypt_REQUEST_Serialize TPM2_ECC_Encrypt_REQUEST_Deserialize TPM2_ECC_Encrypt_REQUEST_default TPM2_ECC_Encrypt_REQUEST_text_ok
proof
  show "word_ok ''TPM2_ECC_Encrypt_REQUEST''" by (simp add: word_simps)
  fix c x assume ok: "TPM2_ECC_Encrypt_REQUEST_text_ok c x"
  from ok show "carries c True (TPM2_ECC_Encrypt_REQUEST_Serialize x) (TPM2_ECC_Encrypt_REQUEST_Deserialize TPM2_ECC_Encrypt_REQUEST_default) x"
    by (simp only: TPM2_ECC_Encrypt_REQUEST_Serialize_def TPM2_ECC_Encrypt_REQUEST_Deserialize_def TPM2_ECC_Encrypt_REQUEST_default_def
       TPM2_ECC_Encrypt_REQUEST.select_convs TPM2_ECC_Encrypt_REQUEST.update_convs;
      intro TPMU_KDF_SCHEME_text.as_member [THEN carries_member_Cons] TPMU_KDF_SCHEME_text.member_created [of c, THEN carries_create] TPM_HANDLE_text.as_entry [THEN carries_entry_Cons] carries_body;
      (rule TPM2_ECC_Encrypt_REQUEST.equality)?; simp add: TPM2_ECC_Encrypt_REQUEST_text_ok_def word_simps)
qed

subsection \<open>ECC_EncryptResponse\<close>

definition ECC_EncryptResponse_Serialize :: "ECC_EncryptResponse \<Rightarrow> unit ser" where
  "ECC_EncryptResponse_Serialize self = wseq
     [withN ''C1'' ''TPMS_ECC_POINT'' ''C1Size'' ''UINT16'' (ser_writeObj ''TPMS_ECC_POINT'' (TPMS_ECC_POINT_Serialize (ECC_EncryptResponse_C1 self))),
      withN ''C2'' ''BYTE[]'' ''C2Size'' ''UINT16'' (ser_writeSizedByteBuf (ECC_EncryptResponse_C2 self)),
      withN ''C3'' ''BYTE[]'' ''C3Size'' ''UINT16'' (ser_writeSizedByteBuf (ECC_EncryptResponse_C3 self))]"

definition ECC_EncryptResponse_Deserialize :: "ECC_EncryptResponse \<Rightarrow> ECC_EncryptResponse ser" where
  "ECC_EncryptResponse_Deserialize self =
     sbind (withN ''C1'' ''TPMS_ECC_POINT'' ''C1Size'' ''UINT16'' (ser_readObj ''TPMS_ECC_POINT'' (TPMS_ECC_POINT_Deserialize (ECC_EncryptResponse_C1 self)))) (\<lambda>C1.
     sbind (withN ''C2'' ''BYTE[]'' ''C2Size'' ''UINT16'' ser_readSizedByteBuf) (\<lambda>C2.
     sbind (withN ''C3'' ''BYTE[]'' ''C3Size'' ''UINT16'' ser_readSizedByteBuf) (\<lambda>C3.
     ret (self\<lparr>ECC_EncryptResponse_C1 := C1, ECC_EncryptResponse_C2 := C2, ECC_EncryptResponse_C3 := C3\<rparr>))))"

definition ECC_EncryptResponse_text_ok :: "text_class \<Rightarrow> ECC_EncryptResponse \<Rightarrow> bool" where
  "ECC_EncryptResponse_text_ok c x \<longleftrightarrow>
     TPMS_ECC_POINT_text_ok c (ECC_EncryptResponse_C1 x) \<and>
     length (ECC_EncryptResponse_C2 x) < 2 ^ 64 \<and>
     length (ECC_EncryptResponse_C3 x) < 2 ^ 64"

interpretation ECC_EncryptResponse_text: text_codec "''ECC_EncryptResponse''" ECC_EncryptResponse_Serialize ECC_EncryptResponse_Deserialize ECC_EncryptResponse_default ECC_EncryptResponse_text_ok
proof
  show "word_ok ''ECC_EncryptResponse''" by (simp add: word_simps)
  fix c x assume ok: "ECC_EncryptResponse_text_ok c x"
  from ok show "carries c True (ECC_EncryptResponse_Serialize x) (ECC_EncryptResponse_Deserialize ECC_EncryptResponse_default) x"
    by (simp only: ECC_EncryptResponse_Serialize_def ECC_EncryptResponse_Deserialize_def ECC_EncryptResponse_default_def
       ECC_EncryptResponse.select_convs ECC_EncryptResponse.update_convs;
      intro TPMS_ECC_POINT_text.as_entry [THEN carries_entry_Cons] carries_body;
      (rule ECC_EncryptResponse.equality)?; simp add: ECC_EncryptResponse_text_ok_def word_simps)
qed

subsection \<open>TPM2_ECC_Decrypt_REQUEST\<close>

definition TPM2_ECC_Decrypt_REQUEST_Serialize :: "TPM2_ECC_Decrypt_REQUEST \<Rightarrow> unit ser" where
  "TPM2_ECC_Decrypt_REQUEST_Serialize self = wseq
     [withN ''keyHandle'' ''TPM_HANDLE'' '''' '''' (ser_writeObj ''TPM_HANDLE'' (TPM_HANDLE_Serialize (TPM2_ECC_Decrypt_REQUEST_keyHandle self))),
      withN ''C1'' ''TPMS_ECC_POINT'' ''C1Size'' ''UINT16'' (ser_writeObj ''TPMS_ECC_POINT'' (TPMS_ECC_POINT_Serialize (TPM2_ECC_Decrypt_REQUEST_C1 self))),
      withN ''C2'' ''BYTE[]'' ''C2Size'' ''UINT16'' (ser_writeSizedByteBuf (TPM2_ECC_Decrypt_REQUEST_C2 self)),
      withN ''C3'' ''BYTE[]'' ''C3Size'' ''UINT16'' (ser_writeSizedByteBuf (TPM2_ECC_Decrypt_REQUEST_C3 self)),
      withN ''inSchemeScheme'' ''TPM_ALG_ID'' '''' '''' (ser_writeEnumT (selector_or TPM_ALG_ID_NULL TPMU_KDF_SCHEME_GetUnionSelector (TPM2_ECC_Decrypt_REQUEST_inScheme self)) TPM_ALG_ID_ID),
      if_set (TPM2_ECC_Decrypt_REQUEST_inScheme self) (\<lambda>u. withN ''inScheme'' ''TPMU_KDF_SCHEME'' '''' '''' (ser_writeObj (TPMU_KDF_SCHEME_TypeName u) (TPMU_KDF_SCHEME_Serialize u)))]"

definition TPM2_ECC_Decrypt_REQUEST_Deserialize :: "TPM2_ECC_Decrypt_REQUEST \<Rightarrow> TPM2_ECC_Decrypt_REQUEST ser" where
  "TPM2_ECC_Decrypt_REQUEST_Deserialize self =
     sbind (withN ''keyHandle'' ''TPM_HANDLE'' '''' '''' (ser_readObj ''TPM_HANDLE'' (TPM_HANDLE_Deserialize (TPM2_ECC_Decrypt_REQUEST_keyHandle self)))) (\<lambda>keyHandle.
     sbind (withN ''C1'' ''TPMS_ECC_POINT'' ''C1Size'' ''UINT16'' (ser_readObj ''TPMS_ECC_POINT'' (TPMS_ECC_POINT_Deserialize (TPM2_ECC_Decrypt_REQUEST_C1 self)))) (\<lambda>C1.
     sbind (withN ''C2'' ''BYTE[]'' ''C2Size'' ''UINT16'' ser_readSizedByteBuf) (\<lambda>C2.
     sbind (withN ''C3'' ''BYTE[]'' ''C3Size'' ''UINT16'' ser_readSizedByteBuf) (\<lambda>C3.
     sbind (withN ''inSchemeScheme'' ''TPM_ALG_ID'' '''' '''' (ser_readEnumT TPM_ALG_ID_ID)) (\<lambda>inSchemeScheme.
     sbind (reset_or_create UnionFactory_Create_TPMU_KDF_SCHEME inSchemeScheme) (\<lambda>inScheme.
     sbind (read_if_set inScheme (\<lambda>u. withN ''inScheme'' ''TPMU_KDF_SCHEME'' '''' '''' (ser_readObj (TPMU_KDF_SCHEME_TypeName u) (TPMU_KDF_SCHEME_Deserialize u)))) (\<lambda>inScheme.
     ret (self\<lparr>TPM2_ECC_Decrypt_REQUEST_keyHandle := keyHandle, TPM2_ECC_Decrypt_REQUEST_C1 := C1, TPM2_ECC_Decrypt_REQUEST_C2 := C2, TPM2_ECC_Decrypt_REQUEST_C3 := C3, TPM2_ECC_Decrypt_REQUEST_inScheme := inScheme\<rparr>))))))))"

definition TPM2_ECC_Decrypt_REQUEST_text_ok :: "text_class \<Rightarrow> TPM2_ECC_Decrypt_REQUEST \<Rightarrow> bool" where
  "TPM2_ECC_Decrypt_REQUEST_text_ok c x \<longleftrightarrow>
     TPM_HANDLE_text_ok c (TPM2_ECC_Decrypt_REQUEST_keyHandle x) \<and>
     TPMS_ECC_POINT_text_ok c (TPM2_ECC_Decrypt_REQUEST_C1 x) \<and>
     length (TPM2_ECC_Decrypt_REQUEST_C2 x) < 2 ^ 64 \<and>
     length (TPM2_ECC_Decrypt_REQUEST_C3 x) < 2 ^ 64 \<and>
     TPM2_ECC_Decrypt_REQUEST_inScheme x \<noteq> None \<and>
     enum_ok c (ucast (selector_or TPM_ALG_ID_NULL TPMU_KDF_SCHEME_GetUnionSelector (TPM2_ECC_Decrypt_REQUEST_inScheme x))) TPM_ALG_ID_ID \<and>
     if_set_ok (TPMU_KDF_SCHEME_text_ok c) (TPM2_ECC_Decrypt_REQUEST_inScheme x)"

interpretation TPM2_ECC_Decrypt_REQUEST_text: text_codec "''TPM2_ECC_Decrypt_REQUEST''" TPM2_ECC_Decrypt_REQUEST_Serialize TPM2_ECC_Decrypt_REQUEST_Deserialize TPM2_ECC_Decrypt_REQUEST_default TPM2_ECC_Decrypt_REQUEST_text_ok
proof
  show "word_ok ''TPM2_ECC_Decrypt_REQUEST''" by (simp add: word_simps)
  fix c x assume ok: "TPM2_ECC_Decrypt_REQUEST_text_ok c x"
  from ok show "carries c True (TPM2_ECC_Decrypt_REQUEST_Serialize x) (TPM2_ECC_Decrypt_REQUEST_Deserialize TPM2_ECC_Decrypt_REQUEST_default) x"
    by (simp only: TPM2_ECC_Decrypt_REQUEST_Serialize_def TPM2_ECC_Decrypt_REQUEST_Deserialize_def TPM2_ECC_Decrypt_REQUEST_default_def
       TPM2_ECC_Decrypt_REQUEST.select_convs TPM2_ECC_Decrypt_REQUEST.update_convs;
      intro TPMS_ECC_POINT_text.as_entry [THEN carries_entry_Cons] TPMU_KDF_SCHEME_text.as_member [THEN carries_member_Cons] TPMU_KDF_SCHEME_text.member_created [of c, THEN carries_create] TPM_HANDLE_text.as_entry [THEN carries_entry_Cons] carries_body;
      (rule TPM2_ECC_Decrypt_REQUEST.equality)?; simp add: TPM2_ECC_Decrypt_REQUEST_text_ok_def word_simps)
qed

subsection \<open>ECC_DecryptResponse\<close>

definition ECC_DecryptResponse_Serialize :: "ECC_DecryptResponse \<Rightarrow> unit ser" where
  "ECC_DecryptResponse_Serialize self = wseq
     [withN ''plainText'' ''BYTE[]'' ''plainTextSize'' ''UINT16'' (ser_writeSizedByteBuf (ECC_DecryptResponse_plainText self))]"

definition ECC_DecryptResponse_Deserialize :: "ECC_DecryptResponse \<Rightarrow> ECC_DecryptResponse ser" where
  "ECC_DecryptResponse_Deserialize self =
     sbind (withN ''plainText'' ''BYTE[]'' ''plainTextSize'' ''UINT16'' ser_readSizedByteBuf) (\<lambda>plainText.
     ret (self\<lparr>ECC_DecryptResponse_plainText := plainText\<rparr>))"

definition ECC_DecryptResponse_text_ok :: "text_class \<Rightarrow> ECC_DecryptResponse \<Rightarrow> bool" where
  "ECC_DecryptResponse_text_ok c x \<longleftrightarrow>
     length (ECC_DecryptResponse_plainText x) < 2 ^ 64"

interpretation ECC_DecryptResponse_text: text_codec "''ECC_DecryptResponse''" ECC_DecryptResponse_Serialize ECC_DecryptResponse_Deserialize ECC_DecryptResponse_default ECC_DecryptResponse_text_ok
proof
  show "word_ok ''ECC_DecryptResponse''" by (simp add: word_simps)
  fix c x assume ok: "ECC_DecryptResponse_text_ok c x"
  from ok show "carries c True (ECC_DecryptResponse_Serialize x) (ECC_DecryptResponse_Deserialize ECC_DecryptResponse_default) x"
    by (simp only: ECC_DecryptResponse_Serialize_def ECC_DecryptResponse_Deserialize_def ECC_DecryptResponse_default_def
       ECC_DecryptResponse.select_convs ECC_DecryptResponse.update_convs;
      intro carries_body;
      (rule ECC_DecryptResponse.equality)?; simp add: ECC_DecryptResponse_text_ok_def word_simps)
qed

subsection \<open>TPM2_EncryptDecrypt_REQUEST\<close>

definition TPM2_EncryptDecrypt_REQUEST_Serialize :: "TPM2_EncryptDecrypt_REQUEST \<Rightarrow> unit ser" where
  "TPM2_EncryptDecrypt_REQUEST_Serialize self = wseq
     [withN ''keyHandle'' ''TPM_HANDLE'' '''' '''' (ser_writeObj ''TPM_HANDLE'' (TPM_HANDLE_Serialize (TPM2_EncryptDecrypt_REQUEST_keyHandle self))),
      withN ''decrypt'' ''BYTE'' '''' '''' (ser_writeByte (TPM2_EncryptDecrypt_REQUEST_decrypt self)),
      withN ''mode'' ''TPM_ALG_ID'' '''' '''' (ser_writeEnumT (TPM2_EncryptDecrypt_REQUEST_mode self) TPM_ALG_ID_ID),
      withN ''ivIn'' ''BYTE[]'' ''ivInSize'' ''UINT16'' (ser_writeSizedByteBuf (TPM2_EncryptDecrypt_REQUEST_ivIn self)),
      withN ''inData'' ''BYTE[]'' ''inDataSize'' ''UINT16'' (ser_writeSizedByteBuf (TPM2_EncryptDecrypt_REQUEST_inData self))]"

definition TPM2_EncryptDecrypt_REQUEST_Deserialize :: "TPM2_EncryptDecrypt_REQUEST \<Rightarrow> TPM2_EncryptDecrypt_REQUEST ser" where
  "TPM2_EncryptDecrypt_REQUEST_Deserialize self =
     sbind (withN ''keyHandle'' ''TPM_HANDLE'' '''' '''' (ser_readObj ''TPM_HANDLE'' (TPM_HANDLE_Deserialize (TPM2_EncryptDecrypt_REQUEST_keyHandle self)))) (\<lambda>keyHandle.
     sbind (withN ''decrypt'' ''BYTE'' '''' '''' ser_readByte) (\<lambda>decrypt.
     sbind (withN ''mode'' ''TPM_ALG_ID'' '''' '''' (ser_readEnumT TPM_ALG_ID_ID)) (\<lambda>mode.
     sbind (withN ''ivIn'' ''BYTE[]'' ''ivInSize'' ''UINT16'' ser_readSizedByteBuf) (\<lambda>ivIn.
     sbind (withN ''inData'' ''BYTE[]'' ''inDataSize'' ''UINT16'' ser_readSizedByteBuf) (\<lambda>inData.
     ret (self\<lparr>TPM2_EncryptDecrypt_REQUEST_keyHandle := keyHandle, TPM2_EncryptDecrypt_REQUEST_decrypt := decrypt, TPM2_EncryptDecrypt_REQUEST_mode := mode, TPM2_EncryptDecrypt_REQUEST_ivIn := ivIn, TPM2_EncryptDecrypt_REQUEST_inData := inData\<rparr>))))))"

definition TPM2_EncryptDecrypt_REQUEST_text_ok :: "text_class \<Rightarrow> TPM2_EncryptDecrypt_REQUEST \<Rightarrow> bool" where
  "TPM2_EncryptDecrypt_REQUEST_text_ok c x \<longleftrightarrow>
     TPM_HANDLE_text_ok c (TPM2_EncryptDecrypt_REQUEST_keyHandle x) \<and>
     enum_ok c (ucast (TPM2_EncryptDecrypt_REQUEST_mode x)) TPM_ALG_ID_ID \<and>
     length (TPM2_EncryptDecrypt_REQUEST_ivIn x) < 2 ^ 64 \<and>
     length (TPM2_EncryptDecrypt_REQUEST_inData x) < 2 ^ 64"

interpretation TPM2_EncryptDecrypt_REQUEST_text: text_codec "''TPM2_EncryptDecrypt_REQUEST''" TPM2_EncryptDecrypt_REQUEST_Serialize TPM2_EncryptDecrypt_REQUEST_Deserialize TPM2_EncryptDecrypt_REQUEST_default TPM2_EncryptDecrypt_REQUEST_text_ok
proof
  show "word_ok ''TPM2_EncryptDecrypt_REQUEST''" by (simp add: word_simps)
  fix c x assume ok: "TPM2_EncryptDecrypt_REQUEST_text_ok c x"
  from ok show "carries c True (TPM2_EncryptDecrypt_REQUEST_Serialize x) (TPM2_EncryptDecrypt_REQUEST_Deserialize TPM2_EncryptDecrypt_REQUEST_default) x"
    by (simp only: TPM2_EncryptDecrypt_REQUEST_Serialize_def TPM2_EncryptDecrypt_REQUEST_Deserialize_def TPM2_EncryptDecrypt_REQUEST_default_def
       TPM2_EncryptDecrypt_REQUEST.select_convs TPM2_EncryptDecrypt_REQUEST.update_convs;
      intro TPM_HANDLE_text.as_entry [THEN carries_entry_Cons] carries_body;
      (rule TPM2_EncryptDecrypt_REQUEST.equality)?; simp add: TPM2_EncryptDecrypt_REQUEST_text_ok_def word_simps)
qed

subsection \<open>EncryptDecryptResponse\<close>

definition EncryptDecryptResponse_Serialize :: "EncryptDecryptResponse \<Rightarrow> unit ser" where
  "EncryptDecryptResponse_Serialize self = wseq
     [withN ''outData'' ''BYTE[]'' ''outDataSize'' ''UINT16'' (ser_writeSizedByteBuf (EncryptDecryptResponse_outData self)),
      withN ''ivOut'' ''BYTE[]'' ''ivOutSize'' ''UINT16'' (ser_writeSizedByteBuf (EncryptDecryptResponse_ivOut self))]"

definition EncryptDecryptResponse_Deserialize :: "EncryptDecryptResponse \<Rightarrow> EncryptDecryptResponse ser" where
  "EncryptDecryptResponse_Deserialize self =
     sbind (withN ''outData'' ''BYTE[]'' ''outDataSize'' ''UINT16'' ser_readSizedByteBuf) (\<lambda>outData.
     sbind (withN ''ivOut'' ''BYTE[]'' ''ivOutSize'' ''UINT16'' ser_readSizedByteBuf) (\<lambda>ivOut.
     ret (self\<lparr>EncryptDecryptResponse_outData := outData, EncryptDecryptResponse_ivOut := ivOut\<rparr>)))"

definition EncryptDecryptResponse_text_ok :: "text_class \<Rightarrow> EncryptDecryptResponse \<Rightarrow> bool" where
  "EncryptDecryptResponse_text_ok c x \<longleftrightarrow>
     length (EncryptDecryptResponse_outData x) < 2 ^ 64 \<and>
     length (EncryptDecryptResponse_ivOut x) < 2 ^ 64"

interpretation EncryptDecryptResponse_text: text_codec "''EncryptDecryptResponse''" EncryptDecryptResponse_Serialize EncryptDecryptResponse_Deserialize EncryptDecryptResponse_default EncryptDecryptResponse_text_ok
proof
  show "word_ok ''EncryptDecryptResponse''" by (simp add: word_simps)
  fix c x assume ok: "EncryptDecryptResponse_text_ok c x"
  from ok show "carries c True (EncryptDecryptResponse_Serialize x) (EncryptDecryptResponse_Deserialize EncryptDecryptResponse_default) x"
    by (simp only: EncryptDecryptResponse_Serialize_def EncryptDecryptResponse_Deserialize_def EncryptDecryptResponse_default_def
       EncryptDecryptResponse.select_convs EncryptDecryptResponse.update_convs;
      intro carries_body;
      (rule EncryptDecryptResponse.equality)?; simp add: EncryptDecryptResponse_text_ok_def word_simps)
qed

subsection \<open>TPM2_EncryptDecrypt2_REQUEST\<close>

definition TPM2_EncryptDecrypt2_REQUEST_Serialize :: "TPM2_EncryptDecrypt2_REQUEST \<Rightarrow> unit ser" where
  "TPM2_EncryptDecrypt2_REQUEST_Serialize self = wseq
     [withN ''keyHandle'' ''TPM_HANDLE'' '''' '''' (ser_writeObj ''TPM_HANDLE'' (TPM_HANDLE_Serialize (TPM2_EncryptDecrypt2_REQUEST_keyHandle self))),
      withN ''inData'' ''BYTE[]'' ''inDataSize'' ''UINT16'' (ser_writeSizedByteBuf (TPM2_EncryptDecrypt2_REQUEST_inData self)),
      withN ''decrypt'' ''BYTE'' '''' '''' (ser_writeByte (TPM2_EncryptDecrypt2_REQUEST_decrypt self)),
      withN ''mode'' ''TPM_ALG_ID'' '''' '''' (ser_writeEnumT (TPM2_EncryptDecrypt2_REQUEST_mode self) TPM_ALG_ID_ID),
      withN ''ivIn'' ''BYTE[]'' ''ivInSize'' ''UINT16'' (ser_writeSizedByteBuf (TPM2_EncryptDecrypt2_REQUEST_ivIn self))]"

definition TPM2_EncryptDecrypt2_REQUEST_Deserialize :: "TPM2_EncryptDecrypt2_REQUEST \<Rightarrow> TPM2_EncryptDecrypt2_REQUEST ser" where
  "TPM2_EncryptDecrypt2_REQUEST_Deserialize self =
     sbind (withN ''keyHandle'' ''TPM_HANDLE'' '''' '''' (ser_readObj ''TPM_HANDLE'' (TPM_HANDLE_Deserialize (TPM2_EncryptDecrypt2_REQUEST_keyHandle self)))) (\<lambda>keyHandle.
     sbind (withN ''inData'' ''BYTE[]'' ''inDataSize'' ''UINT16'' ser_readSizedByteBuf) (\<lambda>inData.
     sbind (withN ''decrypt'' ''BYTE'' '''' '''' ser_readByte) (\<lambda>decrypt.
     sbind (withN ''mode'' ''TPM_ALG_ID'' '''' '''' (ser_readEnumT TPM_ALG_ID_ID)) (\<lambda>mode.
     sbind (withN ''ivIn'' ''BYTE[]'' ''ivInSize'' ''UINT16'' ser_readSizedByteBuf) (\<lambda>ivIn.
     ret (self\<lparr>TPM2_EncryptDecrypt2_REQUEST_keyHandle := keyHandle, TPM2_EncryptDecrypt2_REQUEST_inData := inData, TPM2_EncryptDecrypt2_REQUEST_decrypt := decrypt, TPM2_EncryptDecrypt2_REQUEST_mode := mode, TPM2_EncryptDecrypt2_REQUEST_ivIn := ivIn\<rparr>))))))"

definition TPM2_EncryptDecrypt2_REQUEST_text_ok :: "text_class \<Rightarrow> TPM2_EncryptDecrypt2_REQUEST \<Rightarrow> bool" where
  "TPM2_EncryptDecrypt2_REQUEST_text_ok c x \<longleftrightarrow>
     TPM_HANDLE_text_ok c (TPM2_EncryptDecrypt2_REQUEST_keyHandle x) \<and>
     length (TPM2_EncryptDecrypt2_REQUEST_inData x) < 2 ^ 64 \<and>
     enum_ok c (ucast (TPM2_EncryptDecrypt2_REQUEST_mode x)) TPM_ALG_ID_ID \<and>
     length (TPM2_EncryptDecrypt2_REQUEST_ivIn x) < 2 ^ 64"

interpretation TPM2_EncryptDecrypt2_REQUEST_text: text_codec "''TPM2_EncryptDecrypt2_REQUEST''" TPM2_EncryptDecrypt2_REQUEST_Serialize TPM2_EncryptDecrypt2_REQUEST_Deserialize TPM2_EncryptDecrypt2_REQUEST_default TPM2_EncryptDecrypt2_REQUEST_text_ok
proof
  show "word_ok ''TPM2_EncryptDecrypt2_REQUEST''" by (simp add: word_simps)
  fix c x assume ok: "TPM2_EncryptDecrypt2_REQUEST_text_ok c x"
  from ok show "carries c True (TPM2_EncryptDecrypt2_REQUEST_Serialize x) (TPM2_EncryptDecrypt2_REQUEST_Deserialize TPM2_EncryptDecrypt2_REQUEST_default) x"
    by (simp only: TPM2_EncryptDecrypt2_REQUEST_Serialize_def TPM2_EncryptDecrypt2_REQUEST_Deserialize_def TPM2_EncryptDecrypt2_REQUEST_default_def
       TPM2_EncryptDecrypt2_REQUEST.select_convs TPM2_EncryptDecrypt2_REQUEST.update_convs;
      intro TPM_HANDLE_text.as_entry [THEN carries_entry_Cons] carries_body;
      (rule TPM2_EncryptDecrypt2_REQUEST.equality)?; simp add: TPM2_EncryptDecrypt2_REQUEST_text_ok_def word_simps)
qed

subsection \<open>EncryptDecrypt2Response\<close>

definition EncryptDecrypt2Response_Serialize :: "EncryptDecrypt2Response \<Rightarrow> unit ser" where
  "EncryptDecrypt2Response_Serialize self = wseq
     [withN ''outData'' ''BYTE[]'' ''outDataSize'' ''UINT16'' (ser_writeSizedByteBuf (EncryptDecrypt2Response_outData self)),
      withN ''ivOut'' ''BYTE[]'' ''ivOutSize'' ''UINT16'' (ser_writeSizedByteBuf (EncryptDecrypt2Response_ivOut self))]"

definition EncryptDecrypt2Response_Deserialize :: "EncryptDecrypt2Response \<Rightarrow> EncryptDecrypt2Response ser" where
  "EncryptDecrypt2Response_Deserialize self =
     sbind (withN ''outData'' ''BYTE[]'' ''outDataSize'' ''UINT16'' ser_readSizedByteBuf) (\<lambda>outData.
     sbind (withN ''ivOut'' ''BYTE[]'' ''ivOutSize'' ''UINT16'' ser_readSizedByteBuf) (\<lambda>ivOut.
     ret (self\<lparr>EncryptDecrypt2Response_outData := outData, EncryptDecrypt2Response_ivOut := ivOut\<rparr>)))"

definition EncryptDecrypt2Response_text_ok :: "text_class \<Rightarrow> EncryptDecrypt2Response \<Rightarrow> bool" where
  "EncryptDecrypt2Response_text_ok c x \<longleftrightarrow>
     length (EncryptDecrypt2Response_outData x) < 2 ^ 64 \<and>
     length (EncryptDecrypt2Response_ivOut x) < 2 ^ 64"

interpretation EncryptDecrypt2Response_text: text_codec "''EncryptDecrypt2Response''" EncryptDecrypt2Response_Serialize EncryptDecrypt2Response_Deserialize EncryptDecrypt2Response_default EncryptDecrypt2Response_text_ok
proof
  show "word_ok ''EncryptDecrypt2Response''" by (simp add: word_simps)
  fix c x assume ok: "EncryptDecrypt2Response_text_ok c x"
  from ok show "carries c True (EncryptDecrypt2Response_Serialize x) (EncryptDecrypt2Response_Deserialize EncryptDecrypt2Response_default) x"
    by (simp only: EncryptDecrypt2Response_Serialize_def EncryptDecrypt2Response_Deserialize_def EncryptDecrypt2Response_default_def
       EncryptDecrypt2Response.select_convs EncryptDecrypt2Response.update_convs;
      intro carries_body;
      (rule EncryptDecrypt2Response.equality)?; simp add: EncryptDecrypt2Response_text_ok_def word_simps)
qed

subsection \<open>TPM2_Hash_REQUEST\<close>

definition TPM2_Hash_REQUEST_Serialize :: "TPM2_Hash_REQUEST \<Rightarrow> unit ser" where
  "TPM2_Hash_REQUEST_Serialize self = wseq
     [withN ''data'' ''BYTE[]'' ''dataSize'' ''UINT16'' (ser_writeSizedByteBuf (TPM2_Hash_REQUEST_data self)),
      withN ''hashAlg'' ''TPM_ALG_ID'' '''' '''' (ser_writeEnumT (TPM2_Hash_REQUEST_hashAlg self) TPM_ALG_ID_ID),
      withN ''hierarchy'' ''TPM_HANDLE'' '''' '''' (ser_writeObj ''TPM_HANDLE'' (TPM_HANDLE_Serialize (TPM2_Hash_REQUEST_hierarchy self)))]"

definition TPM2_Hash_REQUEST_Deserialize :: "TPM2_Hash_REQUEST \<Rightarrow> TPM2_Hash_REQUEST ser" where
  "TPM2_Hash_REQUEST_Deserialize self =
     sbind (withN ''data'' ''BYTE[]'' ''dataSize'' ''UINT16'' ser_readSizedByteBuf) (\<lambda>data.
     sbind (withN ''hashAlg'' ''TPM_ALG_ID'' '''' '''' (ser_readEnumT TPM_ALG_ID_ID)) (\<lambda>hashAlg.
     sbind (withN ''hierarchy'' ''TPM_HANDLE'' '''' '''' (ser_readObj ''TPM_HANDLE'' (TPM_HANDLE_Deserialize (TPM2_Hash_REQUEST_hierarchy self)))) (\<lambda>hierarchy.
     ret (self\<lparr>TPM2_Hash_REQUEST_data := data, TPM2_Hash_REQUEST_hashAlg := hashAlg, TPM2_Hash_REQUEST_hierarchy := hierarchy\<rparr>))))"

definition TPM2_Hash_REQUEST_text_ok :: "text_class \<Rightarrow> TPM2_Hash_REQUEST \<Rightarrow> bool" where
  "TPM2_Hash_REQUEST_text_ok c x \<longleftrightarrow>
     length (TPM2_Hash_REQUEST_data x) < 2 ^ 64 \<and>
     enum_ok c (ucast (TPM2_Hash_REQUEST_hashAlg x)) TPM_ALG_ID_ID \<and>
     TPM_HANDLE_text_ok c (TPM2_Hash_REQUEST_hierarchy x)"

interpretation TPM2_Hash_REQUEST_text: text_codec "''TPM2_Hash_REQUEST''" TPM2_Hash_REQUEST_Serialize TPM2_Hash_REQUEST_Deserialize TPM2_Hash_REQUEST_default TPM2_Hash_REQUEST_text_ok
proof
  show "word_ok ''TPM2_Hash_REQUEST''" by (simp add: word_simps)
  fix c x assume ok: "TPM2_Hash_REQUEST_text_ok c x"
  from ok show "carries c True (TPM2_Hash_REQUEST_Serialize x) (TPM2_Hash_REQUEST_Deserialize TPM2_Hash_REQUEST_default) x"
    by (simp only: TPM2_Hash_REQUEST_Serialize_def TPM2_Hash_REQUEST_Deserialize_def TPM2_Hash_REQUEST_default_def
       TPM2_Hash_REQUEST.select_convs TPM2_Hash_REQUEST.update_convs;
      intro TPM_HANDLE_text.as_entry [THEN carries_entry_Cons] carries_body;
      (rule TPM2_Hash_REQUEST.equality)?; simp add: TPM2_Hash_REQUEST_text_ok_def word_simps)
qed

subsection \<open>HashResponse\<close>

definition HashResponse_Serialize :: "HashResponse \<Rightarrow> unit ser" where
  "HashResponse_Serialize self = wseq
     [withN ''outHash'' ''BYTE[]'' ''outHashSize'' ''UINT16'' (ser_writeSizedByteBuf (HashResponse_outHash self)),
      withN ''validation'' ''TPMT_TK_HASHCHECK'' '''' '''' (ser_writeObj ''TPMT_TK_HASHCHECK'' (TPMT_TK_HASHCHECK_Serialize (HashResponse_validation self)))]"

definition HashResponse_Deserialize :: "HashResponse \<Rightarrow> HashResponse ser" where
  "HashResponse_Deserialize self =
     sbind (withN ''outHash'' ''BYTE[]'' ''outHashSize'' ''UINT16'' ser_readSizedByteBuf) (\<lambda>outHash.
     sbind (withN ''validation'' ''TPMT_TK_HASHCHECK'' '''' '''' (ser_readObj ''TPMT_TK_HASHCHECK'' (TPMT_TK_HASHCHECK_Deserialize (HashResponse_validation self)))) (\<lambda>validation.
     ret (self\<lparr>HashResponse_outHash := outHash, HashResponse_validation := validation\<rparr>)))"

definition HashResponse_text_ok :: "text_class \<Rightarrow> HashResponse \<Rightarrow> bool" where
  "HashResponse_text_ok c x \<longleftrightarrow>
     length (HashResponse_outHash x) < 2 ^ 64 \<and>
     TPMT_TK_HASHCHECK_text_ok c (HashResponse_validation x)"

interpretation HashResponse_text: text_codec "''HashResponse''" HashResponse_Serialize HashResponse_Deserialize HashResponse_default HashResponse_text_ok
proof
  show "word_ok ''HashResponse''" by (simp add: word_simps)
  fix c x assume ok: "HashResponse_text_ok c x"
  from ok show "carries c True (HashResponse_Serialize x) (HashResponse_Deserialize HashResponse_default) x"
    by (simp only: HashResponse_Serialize_def HashResponse_Deserialize_def HashResponse_default_def
       HashResponse.select_convs HashResponse.update_convs;
      intro TPMT_TK_HASHCHECK_text.as_entry [THEN carries_entry_Cons] carries_body;
      (rule HashResponse.equality)?; simp add: HashResponse_text_ok_def word_simps)
qed

subsection \<open>TPM2_HMAC_REQUEST\<close>

definition TPM2_HMAC_REQUEST_Serialize :: "TPM2_HMAC_REQUEST \<Rightarrow> unit ser" where
  "TPM2_HMAC_REQUEST_Serialize self = wseq
     [withN ''handle'' ''TPM_HANDLE'' '''' '''' (ser_writeObj ''TPM_HANDLE'' (TPM_HANDLE_Serialize (TPM2_HMAC_REQUEST_handle self))),
      withN ''buffer'' ''BYTE[]'' ''bufferSize'' ''UINT16'' (ser_writeSizedByteBuf (TPM2_HMAC_REQUEST_buffer self)),
      withN ''hashAlg'' ''TPM_ALG_ID'' '''' '''' (ser_writeEnumT (TPM2_HMAC_REQUEST_hashAlg self) TPM_ALG_ID_ID)]"

definition TPM2_HMAC_REQUEST_Deserialize :: "TPM2_HMAC_REQUEST \<Rightarrow> TPM2_HMAC_REQUEST ser" where
  "TPM2_HMAC_REQUEST_Deserialize self =
     sbind (withN ''handle'' ''TPM_HANDLE'' '''' '''' (ser_readObj ''TPM_HANDLE'' (TPM_HANDLE_Deserialize (TPM2_HMAC_REQUEST_handle self)))) (\<lambda>handle.
     sbind (withN ''buffer'' ''BYTE[]'' ''bufferSize'' ''UINT16'' ser_readSizedByteBuf) (\<lambda>buffer.
     sbind (withN ''hashAlg'' ''TPM_ALG_ID'' '''' '''' (ser_readEnumT TPM_ALG_ID_ID)) (\<lambda>hashAlg.
     ret (self\<lparr>TPM2_HMAC_REQUEST_handle := handle, TPM2_HMAC_REQUEST_buffer := buffer, TPM2_HMAC_REQUEST_hashAlg := hashAlg\<rparr>))))"

definition TPM2_HMAC_REQUEST_text_ok :: "text_class \<Rightarrow> TPM2_HMAC_REQUEST \<Rightarrow> bool" where
  "TPM2_HMAC_REQUEST_text_ok c x \<longleftrightarrow>
     TPM_HANDLE_text_ok c (TPM2_HMAC_REQUEST_handle x) \<and>
     length (TPM2_HMAC_REQUEST_buffer x) < 2 ^ 64 \<and>
     enum_ok c (ucast (TPM2_HMAC_REQUEST_hashAlg x)) TPM_ALG_ID_ID"

interpretation TPM2_HMAC_REQUEST_text: text_codec "''TPM2_HMAC_REQUEST''" TPM2_HMAC_REQUEST_Serialize TPM2_HMAC_REQUEST_Deserialize TPM2_HMAC_REQUEST_default TPM2_HMAC_REQUEST_text_ok
proof
  show "word_ok ''TPM2_HMAC_REQUEST''" by (simp add: word_simps)
  fix c x assume ok: "TPM2_HMAC_REQUEST_text_ok c x"
  from ok show "carries c True (TPM2_HMAC_REQUEST_Serialize x) (TPM2_HMAC_REQUEST_Deserialize TPM2_HMAC_REQUEST_default) x"
    by (simp only: TPM2_HMAC_REQUEST_Serialize_def TPM2_HMAC_REQUEST_Deserialize_def TPM2_HMAC_REQUEST_default_def
       TPM2_HMAC_REQUEST.select_convs TPM2_HMAC_REQUEST.update_convs;
      intro TPM_HANDLE_text.as_entry [THEN carries_entry_Cons] carries_body;
      (rule TPM2_HMAC_REQUEST.equality)?; simp add: TPM2_HMAC_REQUEST_text_ok_def word_simps)
qed

subsection \<open>HMACResponse\<close>

definition HMACResponse_Serialize :: "HMACResponse \<Rightarrow> unit ser" where
  "HMACResponse_Serialize self = wseq
     [withN ''outHMAC'' ''BYTE[]'' ''outHMACSize'' ''UINT16'' (ser_writeSizedByteBuf (HMACResponse_outHMAC self))]"

definition HMACResponse_Deserialize :: "HMACResponse \<Rightarrow> HMACResponse ser" where
  "HMACResponse_Deserialize self =
     sbind (withN ''outHMAC'' ''BYTE[]'' ''outHMACSize'' ''UINT16'' ser_readSizedByteBuf) (\<lambda>outHMAC.
     ret (self\<lparr>HMACResponse_outHMAC := outHMAC\<rparr>))"

definition HMACResponse_text_ok :: "text_class \<Rightarrow> HMACResponse \<Rightarrow> bool" where
  "HMACResponse_text_ok c x \<longleftrightarrow>
     length (HMACResponse_outHMAC x) < 2 ^ 64"

interpretation HMACResponse_text: text_codec "''HMACResponse''" HMACResponse_Serialize HMACResponse_Deserialize HMACResponse_default HMACResponse_text_ok
proof
  show "word_ok ''HMACResponse''" by (simp add: word_simps)
  fix c x assume ok: "HMACResponse_text_ok c x"
  from ok show "carries c True (HMACResponse_Serialize x) (HMACResponse_Deserialize HMACResponse_default) x"
    by (simp only: HMACResponse_Serialize_def HMACResponse_Deserialize_def HMACResponse_default_def
       HMACResponse.select_convs HMACResponse.update_convs;
      intro carries_body;
      (rule HMACResponse.equality)?; simp add: HMACResponse_text_ok_def word_simps)
qed

subsection \<open>TPM2_MAC_REQUEST\<close>

definition TPM2_MAC_REQUEST_Serialize :: "TPM2_MAC_REQUEST \<Rightarrow> unit ser" where
  "TPM2_MAC_REQUEST_Serialize self = wseq
     [withN ''handle'' ''TPM_HANDLE'' '''' '''' (ser_writeObj ''TPM_HANDLE'' (TPM_HANDLE_Serialize (TPM2_MAC_REQUEST_handle self))),
      withN ''buffer'' ''BYTE[]'' ''bufferSize'' ''UINT16'' (ser_writeSizedByteBuf (TPM2_MAC_REQUEST_buffer self)),
      withN ''inScheme'' ''TPM_ALG_ID'' '''' '''' (ser_writeEnumT (TPM2_MAC_REQUEST_inScheme self) TPM_ALG_ID_ID)]"

definition TPM2_MAC_REQUEST_Deserialize :: "TPM2_MAC_REQUEST \<Rightarrow> TPM2_MAC_REQUEST ser" where
  "TPM2_MAC_REQUEST_Deserialize self =
     sbind (withN ''handle'' ''TPM_HANDLE'' '''' '''' (ser_readObj ''TPM_HANDLE'' (TPM_HANDLE_Deserialize (TPM2_MAC_REQUEST_handle self)))) (\<lambda>handle.
     sbind (withN ''buffer'' ''BYTE[]'' ''bufferSize'' ''UINT16'' ser_readSizedByteBuf) (\<lambda>buffer.
     sbind (withN ''inScheme'' ''TPM_ALG_ID'' '''' '''' (ser_readEnumT TPM_ALG_ID_ID)) (\<lambda>inScheme.
     ret (self\<lparr>TPM2_MAC_REQUEST_handle := handle, TPM2_MAC_REQUEST_buffer := buffer, TPM2_MAC_REQUEST_inScheme := inScheme\<rparr>))))"

definition TPM2_MAC_REQUEST_text_ok :: "text_class \<Rightarrow> TPM2_MAC_REQUEST \<Rightarrow> bool" where
  "TPM2_MAC_REQUEST_text_ok c x \<longleftrightarrow>
     TPM_HANDLE_text_ok c (TPM2_MAC_REQUEST_handle x) \<and>
     length (TPM2_MAC_REQUEST_buffer x) < 2 ^ 64 \<and>
     enum_ok c (ucast (TPM2_MAC_REQUEST_inScheme x)) TPM_ALG_ID_ID"

interpretation TPM2_MAC_REQUEST_text: text_codec "''TPM2_MAC_REQUEST''" TPM2_MAC_REQUEST_Serialize TPM2_MAC_REQUEST_Deserialize TPM2_MAC_REQUEST_default TPM2_MAC_REQUEST_text_ok
proof
  show "word_ok ''TPM2_MAC_REQUEST''" by (simp add: word_simps)
  fix c x assume ok: "TPM2_MAC_REQUEST_text_ok c x"
  from ok show "carries c True (TPM2_MAC_REQUEST_Serialize x) (TPM2_MAC_REQUEST_Deserialize TPM2_MAC_REQUEST_default) x"
    by (simp only: TPM2_MAC_REQUEST_Serialize_def TPM2_MAC_REQUEST_Deserialize_def TPM2_MAC_REQUEST_default_def
       TPM2_MAC_REQUEST.select_convs TPM2_MAC_REQUEST.update_convs;
      intro TPM_HANDLE_text.as_entry [THEN carries_entry_Cons] carries_body;
      (rule TPM2_MAC_REQUEST.equality)?; simp add: TPM2_MAC_REQUEST_text_ok_def word_simps)
qed

subsection \<open>MACResponse\<close>

definition MACResponse_Serialize :: "MACResponse \<Rightarrow> unit ser" where
  "MACResponse_Serialize self = wseq
     [withN ''outMAC'' ''BYTE[]'' ''outMACSize'' ''UINT16'' (ser_writeSizedByteBuf (MACResponse_outMAC self))]"

definition MACResponse_Deserialize :: "MACResponse \<Rightarrow> MACResponse ser" where
  "MACResponse_Deserialize self =
     sbind (withN ''outMAC'' ''BYTE[]'' ''outMACSize'' ''UINT16'' ser_readSizedByteBuf) (\<lambda>outMAC.
     ret (self\<lparr>MACResponse_outMAC := outMAC\<rparr>))"

definition MACResponse_text_ok :: "text_class \<Rightarrow> MACResponse \<Rightarrow> bool" where
  "MACResponse_text_ok c x \<longleftrightarrow>
     length (MACResponse_outMAC x) < 2 ^ 64"

interpretation MACResponse_text: text_codec "''MACResponse''" MACResponse_Serialize MACResponse_Deserialize MACResponse_default MACResponse_text_ok
proof
  show "word_ok ''MACResponse''" by (simp add: word_simps)
  fix c x assume ok: "MACResponse_text_ok c x"
  from ok show "carries c True (MACResponse_Serialize x) (MACResponse_Deserialize MACResponse_default) x"
    by (simp only: MACResponse_Serialize_def MACResponse_Deserialize_def MACResponse_default_def
       MACResponse.select_convs MACResponse.update_convs;
      intro carries_body;
      (rule MACResponse.equality)?; simp add: MACResponse_text_ok_def word_simps)
qed

subsection \<open>TPM2_GetRandom_REQUEST\<close>

definition TPM2_GetRandom_REQUEST_Serialize :: "TPM2_GetRandom_REQUEST \<Rightarrow> unit ser" where
  "TPM2_GetRandom_REQUEST_Serialize self = wseq
     [withN ''bytesRequested'' ''UINT16'' '''' '''' (ser_writeShort (TPM2_GetRandom_REQUEST_bytesRequested self))]"

definition TPM2_GetRandom_REQUEST_Deserialize :: "TPM2_GetRandom_REQUEST \<Rightarrow> TPM2_GetRandom_REQUEST ser" where
  "TPM2_GetRandom_REQUEST_Deserialize self =
     sbind (withN ''bytesRequested'' ''UINT16'' '''' '''' ser_readShort) (\<lambda>bytesRequested.
     ret (self\<lparr>TPM2_GetRandom_REQUEST_bytesRequested := bytesRequested\<rparr>))"

definition TPM2_GetRandom_REQUEST_text_ok :: "text_class \<Rightarrow> TPM2_GetRandom_REQUEST \<Rightarrow> bool" where
  "TPM2_GetRandom_REQUEST_text_ok c x \<longleftrightarrow>
     True"

interpretation TPM2_GetRandom_REQUEST_text: text_codec "''TPM2_GetRandom_REQUEST''" TPM2_GetRandom_REQUEST_Serialize TPM2_GetRandom_REQUEST_Deserialize TPM2_GetRandom_REQUEST_default TPM2_GetRandom_REQUEST_text_ok
proof
  show "word_ok ''TPM2_GetRandom_REQUEST''" by (simp add: word_simps)
  fix c x assume ok: "TPM2_GetRandom_REQUEST_text_ok c x"
  from ok show "carries c True (TPM2_GetRandom_REQUEST_Serialize x) (TPM2_GetRandom_REQUEST_Deserialize TPM2_GetRandom_REQUEST_default) x"
    by (simp only: TPM2_GetRandom_REQUEST_Serialize_def TPM2_GetRandom_REQUEST_Deserialize_def TPM2_GetRandom_REQUEST_default_def
       TPM2_GetRandom_REQUEST.select_convs TPM2_GetRandom_REQUEST.update_convs;
      intro carries_body;
      (rule TPM2_GetRandom_REQUEST.equality)?; simp add: TPM2_GetRandom_REQUEST_text_ok_def word_simps)
qed

subsection \<open>GetRandomResponse\<close>

definition GetRandomResponse_Serialize :: "GetRandomResponse \<Rightarrow> unit ser" where
  "GetRandomResponse_Serialize self = wseq
     [withN ''randomBytes'' ''BYTE[]'' ''randomBytesSize'' ''UINT16'' (ser_writeSizedByteBuf (GetRandomResponse_randomBytes self))]"

definition GetRandomResponse_Deserialize :: "GetRandomResponse \<Rightarrow> GetRandomResponse ser" where
  "GetRandomResponse_Deserialize self =
     sbind (withN ''randomBytes'' ''BYTE[]'' ''randomBytesSize'' ''UINT16'' ser_readSizedByteBuf) (\<lambda>randomBytes.
     ret (self\<lparr>GetRandomResponse_randomBytes := randomBytes\<rparr>))"

definition GetRandomResponse_text_ok :: "text_class \<Rightarrow> GetRandomResponse \<Rightarrow> bool" where
  "GetRandomResponse_text_ok c x \<longleftrightarrow>
     length (GetRandomResponse_randomBytes x) < 2 ^ 64"

interpretation GetRandomResponse_text: text_codec "''GetRandomResponse''" GetRandomResponse_Serialize GetRandomResponse_Deserialize GetRandomResponse_default GetRandomResponse_text_ok
proof
  show "word_ok ''GetRandomResponse''" by (simp add: word_simps)
  fix c x assume ok: "GetRandomResponse_text_ok c x"
  from ok show "carries c True (GetRandomResponse_Serialize x) (GetRandomResponse_Deserialize GetRandomResponse_default) x"
    by (simp only: GetRandomResponse_Serialize_def GetRandomResponse_Deserialize_def GetRandomResponse_default_def
       GetRandomResponse.select_convs GetRandomResponse.update_convs;
      intro carries_body;
      (rule GetRandomResponse.equality)?; simp add: GetRandomResponse_text_ok_def word_simps)
qed

subsection \<open>TPM2_StirRandom_REQUEST\<close>

definition TPM2_StirRandom_REQUEST_Serialize :: "TPM2_StirRandom_REQUEST \<Rightarrow> unit ser" where
  "TPM2_StirRandom_REQUEST_Serialize self = wseq
     [withN ''inData'' ''BYTE[]'' ''inDataSize'' ''UINT16'' (ser_writeSizedByteBuf (TPM2_StirRandom_REQUEST_inData self))]"

definition TPM2_StirRandom_REQUEST_Deserialize :: "TPM2_StirRandom_REQUEST \<Rightarrow> TPM2_StirRandom_REQUEST ser" where
  "TPM2_StirRandom_REQUEST_Deserialize self =
     sbind (withN ''inData'' ''BYTE[]'' ''inDataSize'' ''UINT16'' ser_readSizedByteBuf) (\<lambda>inData.
     ret (self\<lparr>TPM2_StirRandom_REQUEST_inData := inData\<rparr>))"

definition TPM2_StirRandom_REQUEST_text_ok :: "text_class \<Rightarrow> TPM2_StirRandom_REQUEST \<Rightarrow> bool" where
  "TPM2_StirRandom_REQUEST_text_ok c x \<longleftrightarrow>
     length (TPM2_StirRandom_REQUEST_inData x) < 2 ^ 64"

interpretation TPM2_StirRandom_REQUEST_text: text_codec "''TPM2_StirRandom_REQUEST''" TPM2_StirRandom_REQUEST_Serialize TPM2_StirRandom_REQUEST_Deserialize TPM2_StirRandom_REQUEST_default TPM2_StirRandom_REQUEST_text_ok
proof
  show "word_ok ''TPM2_StirRandom_REQUEST''" by (simp add: word_simps)
  fix c x assume ok: "TPM2_StirRandom_REQUEST_text_ok c x"
  from ok show "carries c True (TPM2_StirRandom_REQUEST_Serialize x) (TPM2_StirRandom_REQUEST_Deserialize TPM2_StirRandom_REQUEST_default) x"
    by (simp only: TPM2_StirRandom_REQUEST_Serialize_def TPM2_StirRandom_REQUEST_Deserialize_def TPM2_StirRandom_REQUEST_default_def
       TPM2_StirRandom_REQUEST.select_convs TPM2_StirRandom_REQUEST.update_convs;
      intro carries_body;
      (rule TPM2_StirRandom_REQUEST.equality)?; simp add: TPM2_StirRandom_REQUEST_text_ok_def word_simps)
qed

subsection \<open>TPM2_HMAC_Start_REQUEST\<close>

definition TPM2_HMAC_Start_REQUEST_Serialize :: "TPM2_HMAC_Start_REQUEST \<Rightarrow> unit ser" where
  "TPM2_HMAC_Start_REQUEST_Serialize self = wseq
     [withN ''handle'' ''TPM_HANDLE'' '''' '''' (ser_writeObj ''TPM_HANDLE'' (TPM_HANDLE_Serialize (TPM2_HMAC_Start_REQUEST_handle self))),
      withN ''auth'' ''BYTE[]'' ''authSize'' ''UINT16'' (ser_writeSizedByteBuf (TPM2_HMAC_Start_REQUEST_auth self)),
      withN ''hashAlg'' ''TPM_ALG_ID'' '''' '''' (ser_writeEnumT (TPM2_HMAC_Start_REQUEST_hashAlg self) TPM_ALG_ID_ID)]"

definition TPM2_HMAC_Start_REQUEST_Deserialize :: "TPM2_HMAC_Start_REQUEST \<Rightarrow> TPM2_HMAC_Start_REQUEST ser" where
  "TPM2_HMAC_Start_REQUEST_Deserialize self =
     sbind (withN ''handle'' ''TPM_HANDLE'' '''' '''' (ser_readObj ''TPM_HANDLE'' (TPM_HANDLE_Deserialize (TPM2_HMAC_Start_REQUEST_handle self)))) (\<lambda>handle.
     sbind (withN ''auth'' ''BYTE[]'' ''authSize'' ''UINT16'' ser_readSizedByteBuf) (\<lambda>auth.
     sbind (withN ''hashAlg'' ''TPM_ALG_ID'' '''' '''' (ser_readEnumT TPM_ALG_ID_ID)) (\<lambda>hashAlg.
     ret (self\<lparr>TPM2_HMAC_Start_REQUEST_handle := handle, TPM2_HMAC_Start_REQUEST_auth := auth, TPM2_HMAC_Start_REQUEST_hashAlg := hashAlg\<rparr>))))"

definition TPM2_HMAC_Start_REQUEST_text_ok :: "text_class \<Rightarrow> TPM2_HMAC_Start_REQUEST \<Rightarrow> bool" where
  "TPM2_HMAC_Start_REQUEST_text_ok c x \<longleftrightarrow>
     TPM_HANDLE_text_ok c (TPM2_HMAC_Start_REQUEST_handle x) \<and>
     length (TPM2_HMAC_Start_REQUEST_auth x) < 2 ^ 64 \<and>
     enum_ok c (ucast (TPM2_HMAC_Start_REQUEST_hashAlg x)) TPM_ALG_ID_ID"

interpretation TPM2_HMAC_Start_REQUEST_text: text_codec "''TPM2_HMAC_Start_REQUEST''" TPM2_HMAC_Start_REQUEST_Serialize TPM2_HMAC_Start_REQUEST_Deserialize TPM2_HMAC_Start_REQUEST_default TPM2_HMAC_Start_REQUEST_text_ok
proof
  show "word_ok ''TPM2_HMAC_Start_REQUEST''" by (simp add: word_simps)
  fix c x assume ok: "TPM2_HMAC_Start_REQUEST_text_ok c x"
  from ok show "carries c True (TPM2_HMAC_Start_REQUEST_Serialize x) (TPM2_HMAC_Start_REQUEST_Deserialize TPM2_HMAC_Start_REQUEST_default) x"
    by (simp only: TPM2_HMAC_Start_REQUEST_Serialize_def TPM2_HMAC_Start_REQUEST_Deserialize_def TPM2_HMAC_Start_REQUEST_default_def
       TPM2_HMAC_Start_REQUEST.select_convs TPM2_HMAC_Start_REQUEST.update_convs;
      intro TPM_HANDLE_text.as_entry [THEN carries_entry_Cons] carries_body;
      (rule TPM2_HMAC_Start_REQUEST.equality)?; simp add: TPM2_HMAC_Start_REQUEST_text_ok_def word_simps)
qed

subsection \<open>HMAC_StartResponse\<close>

definition HMAC_StartResponse_Serialize :: "HMAC_StartResponse \<Rightarrow> unit ser" where
  "HMAC_StartResponse_Serialize self = wseq
     [withN ''handle'' ''TPM_HANDLE'' '''' '''' (ser_writeObj ''TPM_HANDLE'' (TPM_HANDLE_Serialize (HMAC_StartResponse_handle self)))]"

definition HMAC_StartResponse_Deserialize :: "HMAC_StartResponse \<Rightarrow> HMAC_StartResponse ser" where
  "HMAC_StartResponse_Deserialize self =
     sbind (withN ''handle'' ''TPM_HANDLE'' '''' '''' (ser_readObj ''TPM_HANDLE'' (TPM_HANDLE_Deserialize (HMAC_StartResponse_handle self)))) (\<lambda>handle.
     ret (self\<lparr>HMAC_StartResponse_handle := handle\<rparr>))"

definition HMAC_StartResponse_text_ok :: "text_class \<Rightarrow> HMAC_StartResponse \<Rightarrow> bool" where
  "HMAC_StartResponse_text_ok c x \<longleftrightarrow>
     TPM_HANDLE_text_ok c (HMAC_StartResponse_handle x)"

interpretation HMAC_StartResponse_text: text_codec "''HMAC_StartResponse''" HMAC_StartResponse_Serialize HMAC_StartResponse_Deserialize HMAC_StartResponse_default HMAC_StartResponse_text_ok
proof
  show "word_ok ''HMAC_StartResponse''" by (simp add: word_simps)
  fix c x assume ok: "HMAC_StartResponse_text_ok c x"
  from ok show "carries c True (HMAC_StartResponse_Serialize x) (HMAC_StartResponse_Deserialize HMAC_StartResponse_default) x"
    by (simp only: HMAC_StartResponse_Serialize_def HMAC_StartResponse_Deserialize_def HMAC_StartResponse_default_def
       HMAC_StartResponse.select_convs HMAC_StartResponse.update_convs;
      intro TPM_HANDLE_text.as_entry [THEN carries_entry_Cons] carries_body;
      (rule HMAC_StartResponse.equality)?; simp add: HMAC_StartResponse_text_ok_def word_simps)
qed

subsection \<open>TPM2_MAC_Start_REQUEST\<close>

definition TPM2_MAC_Start_REQUEST_Serialize :: "TPM2_MAC_Start_REQUEST \<Rightarrow> unit ser" where
  "TPM2_MAC_Start_REQUEST_Serialize self = wseq
     [withN ''handle'' ''TPM_HANDLE'' '''' '''' (ser_writeObj ''TPM_HANDLE'' (TPM_HANDLE_Serialize (TPM2_MAC_Start_REQUEST_handle self))),
      withN ''auth'' ''BYTE[]'' ''authSize'' ''UINT16'' (ser_writeSizedByteBuf (TPM2_MAC_Start_REQUEST_auth self)),
      withN ''inScheme'' ''TPM_ALG_ID'' '''' '''' (ser_writeEnumT (TPM2_MAC_Start_REQUEST_inScheme self) TPM_ALG_ID_ID)]"

definition TPM2_MAC_Start_REQUEST_Deserialize :: "TPM2_MAC_Start_REQUEST \<Rightarrow> TPM2_MAC_Start_REQUEST ser" where
  "TPM2_MAC_Start_REQUEST_Deserialize self =
     sbind (withN ''handle'' ''TPM_HANDLE'' '''' '''' (ser_readObj ''TPM_HANDLE'' (TPM_HANDLE_Deserialize (TPM2_MAC_Start_REQUEST_handle self)))) (\<lambda>handle.
     sbind (withN ''auth'' ''BYTE[]'' ''authSize'' ''UINT16'' ser_readSizedByteBuf) (\<lambda>auth.
     sbind (withN ''inScheme'' ''TPM_ALG_ID'' '''' '''' (ser_readEnumT TPM_ALG_ID_ID)) (\<lambda>inScheme.
     ret (self\<lparr>TPM2_MAC_Start_REQUEST_handle := handle, TPM2_MAC_Start_REQUEST_auth := auth, TPM2_MAC_Start_REQUEST_inScheme := inScheme\<rparr>))))"

definition TPM2_MAC_Start_REQUEST_text_ok :: "text_class \<Rightarrow> TPM2_MAC_Start_REQUEST \<Rightarrow> bool" where
  "TPM2_MAC_Start_REQUEST_text_ok c x \<longleftrightarrow>
     TPM_HANDLE_text_ok c (TPM2_MAC_Start_REQUEST_handle x) \<and>
     length (TPM2_MAC_Start_REQUEST_auth x) < 2 ^ 64 \<and>
     enum_ok c (ucast (TPM2_MAC_Start_REQUEST_inScheme x)) TPM_ALG_ID_ID"

interpretation TPM2_MAC_Start_REQUEST_text: text_codec "''TPM2_MAC_Start_REQUEST''" TPM2_MAC_Start_REQUEST_Serialize TPM2_MAC_Start_REQUEST_Deserialize TPM2_MAC_Start_REQUEST_default TPM2_MAC_Start_REQUEST_text_ok
proof
  show "word_ok ''TPM2_MAC_Start_REQUEST''" by (simp add: word_simps)
  fix c x assume ok: "TPM2_MAC_Start_REQUEST_text_ok c x"
  from ok show "carries c True (TPM2_MAC_Start_REQUEST_Serialize x) (TPM2_MAC_Start_REQUEST_Deserialize TPM2_MAC_Start_REQUEST_default) x"
    by (simp only: TPM2_MAC_Start_REQUEST_Serialize_def TPM2_MAC_Start_REQUEST_Deserialize_def TPM2_MAC_Start_REQUEST_default_def
       TPM2_MAC_Start_REQUEST.select_convs TPM2_MAC_Start_REQUEST.update_convs;
      intro TPM_HANDLE_text.as_entry [THEN carries_entry_Cons] carries_body;
      (rule TPM2_MAC_Start_REQUEST.equality)?; simp add: TPM2_MAC_Start_REQUEST_text_ok_def word_simps)
qed

subsection \<open>MAC_StartResponse\<close>

definition MAC_StartResponse_Serialize :: "MAC_StartResponse \<Rightarrow> unit ser" where
  "MAC_StartResponse_Serialize self = wseq
     [withN ''handle'' ''TPM_HANDLE'' '''' '''' (ser_writeObj ''TPM_HANDLE'' (TPM_HANDLE_Serialize (MAC_StartResponse_handle self)))]"

definition MAC_StartResponse_Deserialize :: "MAC_StartResponse \<Rightarrow> MAC_StartResponse ser" where
  "MAC_StartResponse_Deserialize self =
     sbind (withN ''handle'' ''TPM_HANDLE'' '''' '''' (ser_readObj ''TPM_HANDLE'' (TPM_HANDLE_Deserialize (MAC_StartResponse_handle self)))) (\<lambda>handle.
     ret (self\<lparr>MAC_StartResponse_handle := handle\<rparr>))"

definition MAC_StartResponse_text_ok :: "text_class \<Rightarrow> MAC_StartResponse \<Rightarrow> bool" where
  "MAC_StartResponse_text_ok c x \<longleftrightarrow>
     TPM_HANDLE_text_ok c (MAC_StartResponse_handle x)"

interpretation MAC_StartResponse_text: text_codec "''MAC_StartResponse''" MAC_StartResponse_Serialize MAC_StartResponse_Deserialize MAC_StartResponse_default MAC_StartResponse_text_ok
proof
  show "word_ok ''MAC_StartResponse''" by (simp add: word_simps)
  fix c x assume ok: "MAC_StartResponse_text_ok c x"
  from ok show "carries c True (MAC_StartResponse_Serialize x) (MAC_StartResponse_Deserialize MAC_StartResponse_default) x"
    by (simp only: MAC_StartResponse_Serialize_def MAC_StartResponse_Deserialize_def MAC_StartResponse_default_def
       MAC_StartResponse.select_convs MAC_StartResponse.update_convs;
      intro TPM_HANDLE_text.as_entry [THEN carries_entry_Cons] carries_body;
      (rule MAC_StartResponse.equality)?; simp add: MAC_StartResponse_text_ok_def word_simps)
qed

subsection \<open>TPM2_HashSequenceStart_REQUEST\<close>

definition TPM2_HashSequenceStart_REQUEST_Serialize :: "TPM2_HashSequenceStart_REQUEST \<Rightarrow> unit ser" where
  "TPM2_HashSequenceStart_REQUEST_Serialize self = wseq
     [withN ''auth'' ''BYTE[]'' ''authSize'' ''UINT16'' (ser_writeSizedByteBuf (TPM2_HashSequenceStart_REQUEST_auth self)),
      withN ''hashAlg'' ''TPM_ALG_ID'' '''' '''' (ser_writeEnumT (TPM2_HashSequenceStart_REQUEST_hashAlg self) TPM_ALG_ID_ID)]"

definition TPM2_HashSequenceStart_REQUEST_Deserialize :: "TPM2_HashSequenceStart_REQUEST \<Rightarrow> TPM2_HashSequenceStart_REQUEST ser" where
  "TPM2_HashSequenceStart_REQUEST_Deserialize self =
     sbind (withN ''auth'' ''BYTE[]'' ''authSize'' ''UINT16'' ser_readSizedByteBuf) (\<lambda>auth.
     sbind (withN ''hashAlg'' ''TPM_ALG_ID'' '''' '''' (ser_readEnumT TPM_ALG_ID_ID)) (\<lambda>hashAlg.
     ret (self\<lparr>TPM2_HashSequenceStart_REQUEST_auth := auth, TPM2_HashSequenceStart_REQUEST_hashAlg := hashAlg\<rparr>)))"

definition TPM2_HashSequenceStart_REQUEST_text_ok :: "text_class \<Rightarrow> TPM2_HashSequenceStart_REQUEST \<Rightarrow> bool" where
  "TPM2_HashSequenceStart_REQUEST_text_ok c x \<longleftrightarrow>
     length (TPM2_HashSequenceStart_REQUEST_auth x) < 2 ^ 64 \<and>
     enum_ok c (ucast (TPM2_HashSequenceStart_REQUEST_hashAlg x)) TPM_ALG_ID_ID"

interpretation TPM2_HashSequenceStart_REQUEST_text: text_codec "''TPM2_HashSequenceStart_REQUEST''" TPM2_HashSequenceStart_REQUEST_Serialize TPM2_HashSequenceStart_REQUEST_Deserialize TPM2_HashSequenceStart_REQUEST_default TPM2_HashSequenceStart_REQUEST_text_ok
proof
  show "word_ok ''TPM2_HashSequenceStart_REQUEST''" by (simp add: word_simps)
  fix c x assume ok: "TPM2_HashSequenceStart_REQUEST_text_ok c x"
  from ok show "carries c True (TPM2_HashSequenceStart_REQUEST_Serialize x) (TPM2_HashSequenceStart_REQUEST_Deserialize TPM2_HashSequenceStart_REQUEST_default) x"
    by (simp only: TPM2_HashSequenceStart_REQUEST_Serialize_def TPM2_HashSequenceStart_REQUEST_Deserialize_def TPM2_HashSequenceStart_REQUEST_default_def
       TPM2_HashSequenceStart_REQUEST.select_convs TPM2_HashSequenceStart_REQUEST.update_convs;
      intro carries_body;
      (rule TPM2_HashSequenceStart_REQUEST.equality)?; simp add: TPM2_HashSequenceStart_REQUEST_text_ok_def word_simps)
qed

subsection \<open>HashSequenceStartResponse\<close>

definition HashSequenceStartResponse_Serialize :: "HashSequenceStartResponse \<Rightarrow> unit ser" where
  "HashSequenceStartResponse_Serialize self = wseq
     [withN ''handle'' ''TPM_HANDLE'' '''' '''' (ser_writeObj ''TPM_HANDLE'' (TPM_HANDLE_Serialize (HashSequenceStartResponse_handle self)))]"

definition HashSequenceStartResponse_Deserialize :: "HashSequenceStartResponse \<Rightarrow> HashSequenceStartResponse ser" where
  "HashSequenceStartResponse_Deserialize self =
     sbind (withN ''handle'' ''TPM_HANDLE'' '''' '''' (ser_readObj ''TPM_HANDLE'' (TPM_HANDLE_Deserialize (HashSequenceStartResponse_handle self)))) (\<lambda>handle.
     ret (self\<lparr>HashSequenceStartResponse_handle := handle\<rparr>))"

definition HashSequenceStartResponse_text_ok :: "text_class \<Rightarrow> HashSequenceStartResponse \<Rightarrow> bool" where
  "HashSequenceStartResponse_text_ok c x \<longleftrightarrow>
     TPM_HANDLE_text_ok c (HashSequenceStartResponse_handle x)"

interpretation HashSequenceStartResponse_text: text_codec "''HashSequenceStartResponse''" HashSequenceStartResponse_Serialize HashSequenceStartResponse_Deserialize HashSequenceStartResponse_default HashSequenceStartResponse_text_ok
proof
  show "word_ok ''HashSequenceStartResponse''" by (simp add: word_simps)
  fix c x assume ok: "HashSequenceStartResponse_text_ok c x"
  from ok show "carries c True (HashSequenceStartResponse_Serialize x) (HashSequenceStartResponse_Deserialize HashSequenceStartResponse_default) x"
    by (simp only: HashSequenceStartResponse_Serialize_def HashSequenceStartResponse_Deserialize_def HashSequenceStartResponse_default_def
       HashSequenceStartResponse.select_convs HashSequenceStartResponse.update_convs;
      intro TPM_HANDLE_text.as_entry [THEN carries_entry_Cons] carries_body;
      (rule HashSequenceStartResponse.equality)?; simp add: HashSequenceStartResponse_text_ok_def word_simps)
qed

subsection \<open>TPM2_SequenceUpdate_REQUEST\<close>

definition TPM2_SequenceUpdate_REQUEST_Serialize :: "TPM2_SequenceUpdate_REQUEST \<Rightarrow> unit ser" where
  "TPM2_SequenceUpdate_REQUEST_Serialize self = wseq
     [withN ''sequenceHandle'' ''TPM_HANDLE'' '''' '''' (ser_writeObj ''TPM_HANDLE'' (TPM_HANDLE_Serialize (TPM2_SequenceUpdate_REQUEST_sequenceHandle self))),
      withN ''buffer'' ''BYTE[]'' ''bufferSize'' ''UINT16'' (ser_writeSizedByteBuf (TPM2_SequenceUpdate_REQUEST_buffer self))]"

definition TPM2_SequenceUpdate_REQUEST_Deserialize :: "TPM2_SequenceUpdate_REQUEST \<Rightarrow> TPM2_SequenceUpdate_REQUEST ser" where
  "TPM2_SequenceUpdate_REQUEST_Deserialize self =
     sbind (withN ''sequenceHandle'' ''TPM_HANDLE'' '''' '''' (ser_readObj ''TPM_HANDLE'' (TPM_HANDLE_Deserialize (TPM2_SequenceUpdate_REQUEST_sequenceHandle self)))) (\<lambda>sequenceHandle.
     sbind (withN ''buffer'' ''BYTE[]'' ''bufferSize'' ''UINT16'' ser_readSizedByteBuf) (\<lambda>buffer.
     ret (self\<lparr>TPM2_SequenceUpdate_REQUEST_sequenceHandle := sequenceHandle, TPM2_SequenceUpdate_REQUEST_buffer := buffer\<rparr>)))"

definition TPM2_SequenceUpdate_REQUEST_text_ok :: "text_class \<Rightarrow> TPM2_SequenceUpdate_REQUEST \<Rightarrow> bool" where
  "TPM2_SequenceUpdate_REQUEST_text_ok c x \<longleftrightarrow>
     TPM_HANDLE_text_ok c (TPM2_SequenceUpdate_REQUEST_sequenceHandle x) \<and>
     length (TPM2_SequenceUpdate_REQUEST_buffer x) < 2 ^ 64"

interpretation TPM2_SequenceUpdate_REQUEST_text: text_codec "''TPM2_SequenceUpdate_REQUEST''" TPM2_SequenceUpdate_REQUEST_Serialize TPM2_SequenceUpdate_REQUEST_Deserialize TPM2_SequenceUpdate_REQUEST_default TPM2_SequenceUpdate_REQUEST_text_ok
proof
  show "word_ok ''TPM2_SequenceUpdate_REQUEST''" by (simp add: word_simps)
  fix c x assume ok: "TPM2_SequenceUpdate_REQUEST_text_ok c x"
  from ok show "carries c True (TPM2_SequenceUpdate_REQUEST_Serialize x) (TPM2_SequenceUpdate_REQUEST_Deserialize TPM2_SequenceUpdate_REQUEST_default) x"
    by (simp only: TPM2_SequenceUpdate_REQUEST_Serialize_def TPM2_SequenceUpdate_REQUEST_Deserialize_def TPM2_SequenceUpdate_REQUEST_default_def
       TPM2_SequenceUpdate_REQUEST.select_convs TPM2_SequenceUpdate_REQUEST.update_convs;
      intro TPM_HANDLE_text.as_entry [THEN carries_entry_Cons] carries_body;
      (rule TPM2_SequenceUpdate_REQUEST.equality)?; simp add: TPM2_SequenceUpdate_REQUEST_text_ok_def word_simps)
qed

subsection \<open>TPM2_SequenceComplete_REQUEST\<close>

definition TPM2_SequenceComplete_REQUEST_Serialize :: "TPM2_SequenceComplete_REQUEST \<Rightarrow> unit ser" where
  "TPM2_SequenceComplete_REQUEST_Serialize self = wseq
     [withN ''sequenceHandle'' ''TPM_HANDLE'' '''' '''' (ser_writeObj ''TPM_HANDLE'' (TPM_HANDLE_Serialize (TPM2_SequenceComplete_REQUEST_sequenceHandle self))),
      withN ''buffer'' ''BYTE[]'' ''bufferSize'' ''UINT16'' (ser_writeSizedByteBuf (TPM2_SequenceComplete_REQUEST_buffer self)),
      withN ''hierarchy'' ''TPM_HANDLE'' '''' '''' (ser_writeObj ''TPM_HANDLE'' (TPM_HANDLE_Serialize (TPM2_SequenceComplete_REQUEST_hierarchy self)))]"

definition TPM2_SequenceComplete_REQUEST_Deserialize :: "TPM2_SequenceComplete_REQUEST \<Rightarrow> TPM2_SequenceComplete_REQUEST ser" where
  "TPM2_SequenceComplete_REQUEST_Deserialize self =
     sbind (withN ''sequenceHandle'' ''TPM_HANDLE'' '''' '''' (ser_readObj ''TPM_HANDLE'' (TPM_HANDLE_Deserialize (TPM2_SequenceComplete_REQUEST_sequenceHandle self)))) (\<lambda>sequenceHandle.
     sbind (withN ''buffer'' ''BYTE[]'' ''bufferSize'' ''UINT16'' ser_readSizedByteBuf) (\<lambda>buffer.
     sbind (withN ''hierarchy'' ''TPM_HANDLE'' '''' '''' (ser_readObj ''TPM_HANDLE'' (TPM_HANDLE_Deserialize (TPM2_SequenceComplete_REQUEST_hierarchy self)))) (\<lambda>hierarchy.
     ret (self\<lparr>TPM2_SequenceComplete_REQUEST_sequenceHandle := sequenceHandle, TPM2_SequenceComplete_REQUEST_buffer := buffer, TPM2_SequenceComplete_REQUEST_hierarchy := hierarchy\<rparr>))))"

definition TPM2_SequenceComplete_REQUEST_text_ok :: "text_class \<Rightarrow> TPM2_SequenceComplete_REQUEST \<Rightarrow> bool" where
  "TPM2_SequenceComplete_REQUEST_text_ok c x \<longleftrightarrow>
     TPM_HANDLE_text_ok c (TPM2_SequenceComplete_REQUEST_sequenceHandle x) \<and>
     length (TPM2_SequenceComplete_REQUEST_buffer x) < 2 ^ 64 \<and>
     TPM_HANDLE_text_ok c (TPM2_SequenceComplete_REQUEST_hierarchy x)"

interpretation TPM2_SequenceComplete_REQUEST_text: text_codec "''TPM2_SequenceComplete_REQUEST''" TPM2_SequenceComplete_REQUEST_Serialize TPM2_SequenceComplete_REQUEST_Deserialize TPM2_SequenceComplete_REQUEST_default TPM2_SequenceComplete_REQUEST_text_ok
proof
  show "word_ok ''TPM2_SequenceComplete_REQUEST''" by (simp add: word_simps)
  fix c x assume ok: "TPM2_SequenceComplete_REQUEST_text_ok c x"
  from ok show "carries c True (TPM2_SequenceComplete_REQUEST_Serialize x) (TPM2_SequenceComplete_REQUEST_Deserialize TPM2_SequenceComplete_REQUEST_default) x"
    by (simp only: TPM2_SequenceComplete_REQUEST_Serialize_def TPM2_SequenceComplete_REQUEST_Deserialize_def TPM2_SequenceComplete_REQUEST_default_def
       TPM2_SequenceComplete_REQUEST.select_convs TPM2_SequenceComplete_REQUEST.update_convs;
      intro TPM_HANDLE_text.as_entry [THEN carries_entry_Cons] carries_body;
      (rule TPM2_SequenceComplete_REQUEST.equality)?; simp add: TPM2_SequenceComplete_REQUEST_text_ok_def word_simps)
qed

subsection \<open>SequenceCompleteResponse\<close>

definition SequenceCompleteResponse_Serialize :: "SequenceCompleteResponse \<Rightarrow> unit ser" where
  "SequenceCompleteResponse_Serialize self = wseq
     [withN ''result'' ''BYTE[]'' ''resultSize'' ''UINT16'' (ser_writeSizedByteBuf (SequenceCompleteResponse_result self)),
      withN ''validation'' ''TPMT_TK_HASHCHECK'' '''' '''' (ser_writeObj ''TPMT_TK_HASHCHECK'' (TPMT_TK_HASHCHECK_Serialize (SequenceCompleteResponse_validation self)))]"

definition SequenceCompleteResponse_Deserialize :: "SequenceCompleteResponse \<Rightarrow> SequenceCompleteResponse ser" where
  "SequenceCompleteResponse_Deserialize self =
     sbind (withN ''result'' ''BYTE[]'' ''resultSize'' ''UINT16'' ser_readSizedByteBuf) (\<lambda>result.
     sbind (withN ''validation'' ''TPMT_TK_HASHCHECK'' '''' '''' (ser_readObj ''TPMT_TK_HASHCHECK'' (TPMT_TK_HASHCHECK_Deserialize (SequenceCompleteResponse_validation self)))) (\<lambda>validation.
     ret (self\<lparr>SequenceCompleteResponse_result := result, SequenceCompleteResponse_validation := validation\<rparr>)))"

definition SequenceCompleteResponse_text_ok :: "text_class \<Rightarrow> SequenceCompleteResponse \<Rightarrow> bool" where
  "SequenceCompleteResponse_text_ok c x \<longleftrightarrow>
     length (SequenceCompleteResponse_result x) < 2 ^ 64 \<and>
     TPMT_TK_HASHCHECK_text_ok c (SequenceCompleteResponse_validation x)"

interpretation SequenceCompleteResponse_text: text_codec "''SequenceCompleteResponse''" SequenceCompleteResponse_Serialize SequenceCompleteResponse_Deserialize SequenceCompleteResponse_default SequenceCompleteResponse_text_ok
proof
  show "word_ok ''SequenceCompleteResponse''" by (simp add: word_simps)
  fix c x assume ok: "SequenceCompleteResponse_text_ok c x"
  from ok show "carries c True (SequenceCompleteResponse_Serialize x) (SequenceCompleteResponse_Deserialize SequenceCompleteResponse_default) x"
    by (simp only: SequenceCompleteResponse_Serialize_def SequenceCompleteResponse_Deserialize_def SequenceCompleteResponse_default_def
       SequenceCompleteResponse.select_convs SequenceCompleteResponse.update_convs;
      intro TPMT_TK_HASHCHECK_text.as_entry [THEN carries_entry_Cons] carries_body;
      (rule SequenceCompleteResponse.equality)?; simp add: SequenceCompleteResponse_text_ok_def word_simps)
qed

subsection \<open>TPM2_EventSequenceComplete_REQUEST\<close>

definition TPM2_EventSequenceComplete_REQUEST_Serialize :: "TPM2_EventSequenceComplete_REQUEST \<Rightarrow> unit ser" where
  "TPM2_EventSequenceComplete_REQUEST_Serialize self = wseq
     [withN ''pcrHandle'' ''TPM_HANDLE'' '''' '''' (ser_writeObj ''TPM_HANDLE'' (TPM_HANDLE_Serialize (TPM2_EventSequenceComplete_REQUEST_pcrHandle self))),
      withN ''sequenceHandle'' ''TPM_HANDLE'' '''' '''' (ser_writeObj ''TPM_HANDLE'' (TPM_HANDLE_Serialize (TPM2_EventSequenceComplete_REQUEST_sequenceHandle self))),
      withN ''buffer'' ''BYTE[]'' ''bufferSize'' ''UINT16'' (ser_writeSizedByteBuf (TPM2_EventSequenceComplete_REQUEST_buffer self))]"

definition TPM2_EventSequenceComplete_REQUEST_Deserialize :: "TPM2_EventSequenceComplete_REQUEST \<Rightarrow> TPM2_EventSequenceComplete_REQUEST ser" where
  "TPM2_EventSequenceComplete_REQUEST_Deserialize self =
     sbind (withN ''pcrHandle'' ''TPM_HANDLE'' '''' '''' (ser_readObj ''TPM_HANDLE'' (TPM_HANDLE_Deserialize (TPM2_EventSequenceComplete_REQUEST_pcrHandle self)))) (\<lambda>pcrHandle.
     sbind (withN ''sequenceHandle'' ''TPM_HANDLE'' '''' '''' (ser_readObj ''TPM_HANDLE'' (TPM_HANDLE_Deserialize (TPM2_EventSequenceComplete_REQUEST_sequenceHandle self)))) (\<lambda>sequenceHandle.
     sbind (withN ''buffer'' ''BYTE[]'' ''bufferSize'' ''UINT16'' ser_readSizedByteBuf) (\<lambda>buffer.
     ret (self\<lparr>TPM2_EventSequenceComplete_REQUEST_pcrHandle := pcrHandle, TPM2_EventSequenceComplete_REQUEST_sequenceHandle := sequenceHandle, TPM2_EventSequenceComplete_REQUEST_buffer := buffer\<rparr>))))"

definition TPM2_EventSequenceComplete_REQUEST_text_ok :: "text_class \<Rightarrow> TPM2_EventSequenceComplete_REQUEST \<Rightarrow> bool" where
  "TPM2_EventSequenceComplete_REQUEST_text_ok c x \<longleftrightarrow>
     TPM_HANDLE_text_ok c (TPM2_EventSequenceComplete_REQUEST_pcrHandle x) \<and>
     TPM_HANDLE_text_ok c (TPM2_EventSequenceComplete_REQUEST_sequenceHandle x) \<and>
     length (TPM2_EventSequenceComplete_REQUEST_buffer x) < 2 ^ 64"

interpretation TPM2_EventSequenceComplete_REQUEST_text: text_codec "''TPM2_EventSequenceComplete_REQUEST''" TPM2_EventSequenceComplete_REQUEST_Serialize TPM2_EventSequenceComplete_REQUEST_Deserialize TPM2_EventSequenceComplete_REQUEST_default TPM2_EventSequenceComplete_REQUEST_text_ok
proof
  show "word_ok ''TPM2_EventSequenceComplete_REQUEST''" by (simp add: word_simps)
  fix c x assume ok: "TPM2_EventSequenceComplete_REQUEST_text_ok c x"
  from ok show "carries c True (TPM2_EventSequenceComplete_REQUEST_Serialize x) (TPM2_EventSequenceComplete_REQUEST_Deserialize TPM2_EventSequenceComplete_REQUEST_default) x"
    by (simp only: TPM2_EventSequenceComplete_REQUEST_Serialize_def TPM2_EventSequenceComplete_REQUEST_Deserialize_def TPM2_EventSequenceComplete_REQUEST_default_def
       TPM2_EventSequenceComplete_REQUEST.select_convs TPM2_EventSequenceComplete_REQUEST.update_convs;
      intro TPM_HANDLE_text.as_entry [THEN carries_entry_Cons] carries_body;
      (rule TPM2_EventSequenceComplete_REQUEST.equality)?; simp add: TPM2_EventSequenceComplete_REQUEST_text_ok_def word_simps)
qed

subsection \<open>EventSequenceCompleteResponse\<close>

definition EventSequenceCompleteResponse_Serialize :: "EventSequenceCompleteResponse \<Rightarrow> unit ser" where
  "EventSequenceCompleteResponse_Serialize self = wseq
     [withN ''results'' ''TPMT_HA[]'' ''resultsCount'' ''UINT32'' (ser_writeObjArr ''TPMT_HA'' TPMT_HA_Serialize (EventSequenceCompleteResponse_results self))]"

definition EventSequenceCompleteResponse_Deserialize :: "EventSequenceCompleteResponse \<Rightarrow> EventSequenceCompleteResponse ser" where
  "EventSequenceCompleteResponse_Deserialize self =
     sbind (withN ''results'' ''TPMT_HA[]'' ''resultsCount'' ''UINT32'' (ser_readObjArr ''TPMT_HA'' TPMT_HA_Deserialize TPMT_HA_default (EventSequenceCompleteResponse_results self))) (\<lambda>results.
     ret (self\<lparr>EventSequenceCompleteResponse_results := results\<rparr>))"

definition EventSequenceCompleteResponse_text_ok :: "text_class \<Rightarrow> EventSequenceCompleteResponse \<Rightarrow> bool" where
  "EventSequenceCompleteResponse_text_ok c x \<longleftrightarrow>
     length (EventSequenceCompleteResponse_results x) < 2 ^ 64 \<and> (\<forall>y \<in> set (EventSequenceCompleteResponse_results x). TPMT_HA_text_ok c y)"

interpretation EventSequenceCompleteResponse_text: text_codec "''EventSequenceCompleteResponse''" EventSequenceCompleteResponse_Serialize EventSequenceCompleteResponse_Deserialize EventSequenceCompleteResponse_default EventSequenceCompleteResponse_text_ok
proof
  show "word_ok ''EventSequenceCompleteResponse''" by (simp add: word_simps)
  fix c x assume ok: "EventSequenceCompleteResponse_text_ok c x"
  from ok show "carries c True (EventSequenceCompleteResponse_Serialize x) (EventSequenceCompleteResponse_Deserialize EventSequenceCompleteResponse_default) x"
    by (simp only: EventSequenceCompleteResponse_Serialize_def EventSequenceCompleteResponse_Deserialize_def EventSequenceCompleteResponse_default_def
       EventSequenceCompleteResponse.select_convs EventSequenceCompleteResponse.update_convs;
      intro TPMT_HA_text.as_elements [THEN carries_entry_Cons] carries_body;
      (rule EventSequenceCompleteResponse.equality)?; simp add: EventSequenceCompleteResponse_text_ok_def word_simps)
qed

end
