(* ===== verification/TextAttestCommands.thy ===== *)
theory TextAttestCommands
  imports TextNvTypes TpmAttestCommands
begin

text \<open>
  \<^verbatim>\<open>TSS.CPP/Src/TpmTypes.cpp\<close>, the text form of the structures of theory \<open>TpmAttestCommands\<close>: \<open>X_Serialize\<close> and
  \<open>X_Deserialize\<close> of each class \<open>X\<close>, the values \<open>X_text_ok\<close> that a text of the given kind can carry, and
  the proof that the second method reads what the first one writes (the interpretation \<open>X_text\<close>).
  A class with an array of enumerators has no such interpretation: \<open>readEnumArr\<close> does not read it.
\<close>

subsection \<open>TPM2_Certify_REQUEST\<close>

definition TPM2_Certify_REQUEST_Serialize :: "TPM2_Certify_REQUEST \<Rightarrow> unit ser" where
  "TPM2_Certify_REQUEST_Serialize self = wseq
     [withN ''objectHandle'' ''TPM_HANDLE'' '''' '''' (ser_writeObj ''TPM_HANDLE'' (TPM_HANDLE_Serialize (TPM2_Certify_REQUEST_objectHandle self))),
      withN ''signHandle'' ''TPM_HANDLE'' '''' '''' (ser_writeObj ''TPM_HANDLE'' (TPM_HANDLE_Serialize (TPM2_Certify_REQUEST_signHandle self))),
      withN ''qualifyingData'' ''BYTE[]'' ''qualifyingDataSize'' ''UINT16'' (ser_writeSizedByteBuf (TPM2_Certify_REQUEST_qualifyingData self)),
      withN ''inSchemeScheme'' ''TPM_ALG_ID'' '''' '''' (ser_writeEnumT (selector_or TPM_ALG_ID_NULL TPMU_SIG_SCHEME_GetUnionSelector (TPM2_Certify_REQUEST_inScheme self)) TPM_ALG_ID_ID),
      if_set (TPM2_Certify_REQUEST_inScheme self) (\<lambda>u. withN ''inScheme'' ''TPMU_SIG_SCHEME'' '''' '''' (ser_writeObj (TPMU_SIG_SCHEME_TypeName u) (TPMU_SIG_SCHEME_Serialize u)))]"

definition TPM2_Certify_REQUEST_Deserialize :: "TPM2_Certify_REQUEST \<Rightarrow> TPM2_Certify_REQUEST ser" where
  "TPM2_Certify_REQUEST_Deserialize self =
     sbind (withN ''objectHandle'' ''TPM_HANDLE'' '''' '''' (ser_readObj ''TPM_HANDLE'' (TPM_HANDLE_Deserialize (TPM2_Certify_REQUEST_objectHandle self)))) (\<lambda>objectHandle.
     sbind (withN ''signHandle'' ''TPM_HANDLE'' '''' '''' (ser_readObj ''TPM_HANDLE'' (TPM_HANDLE_Deserialize (TPM2_Certify_REQUEST_signHandle self)))) (\<lambda>signHandle.
     sbind (withN ''qualifyingData'' ''BYTE[]'' ''qualifyingDataSize'' ''UINT16'' ser_readSizedByteBuf) (\<lambda>qualifyingData.
     sbind (withN ''inSchemeScheme'' ''TPM_ALG_ID'' '''' '''' (ser_readEnumT TPM_ALG_ID_ID)) (\<lambda>inSchemeScheme.
     sbind (reset_or_create UnionFactory_Create_TPMU_SIG_SCHEME inSchemeScheme) (\<lambda>inScheme.
     sbind (read_if_set inScheme (\<lambda>u. withN ''inScheme'' ''TPMU_SIG_SCHEME'' '''' '''' (ser_readObj (TPMU_SIG_SCHEME_TypeName u) (TPMU_SIG_SCHEME_Deserialize u)))) (\<lambda>inScheme.
     ret (self\<lparr>TPM2_Certify_REQUEST_objectHandle := objectHandle, TPM2_Certify_REQUEST_signHandle := signHandle, TPM2_Certify_REQUEST_qualifyingData := qualifyingData, TPM2_Certify_REQUEST_inScheme := inScheme\<rparr>)))))))"

definition TPM2_Certify_REQUEST_text_ok :: "text_class \<Rightarrow> TPM2_Certify_REQUEST \<Rightarrow> bool" where
  "TPM2_Certify_REQUEST_text_ok c x \<longleftrightarrow>
     TPM_HANDLE_text_ok c (TPM2_Certify_REQUEST_objectHandle x) \<and>
     TPM_HANDLE_text_ok c (TPM2_Certify_REQUEST_signHandle x) \<and>
     length (TPM2_Certify_REQUEST_qualifyingData x) < 2 ^ 64 \<and>
     TPM2_Certify_REQUEST_inScheme x \<noteq> None \<and>
     enum_ok c (ucast (selector_or TPM_ALG_ID_NULL TPMU_SIG_SCHEME_GetUnionSelector (TPM2_Certify_REQUEST_inScheme x))) TPM_ALG_ID_ID \<and>
     if_set_ok (TPMU_SIG_SCHEME_text_ok c) (TPM2_Certify_REQUEST_inScheme x)"

interpretation TPM2_Certify_REQUEST_text: text_codec "''TPM2_Certify_REQUEST''" TPM2_Certify_REQUEST_Serialize TPM2_Certify_REQUEST_Deserialize TPM2_Certify_REQUEST_default TPM2_Certify_REQUEST_text_ok
proof
  show "word_ok ''TPM2_Certify_REQUEST''" by (simp add: word_simps)
  fix c x assume ok: "TPM2_Certify_REQUEST_text_ok c x"
  from ok show "carries c True (TPM2_Certify_REQUEST_Serialize x) (TPM2_Certify_REQUEST_Deserialize TPM2_Certify_REQUEST_default) x"
    by (simp only: TPM2_Certify_REQUEST_Serialize_def TPM2_Certify_REQUEST_Deserialize_def TPM2_Certify_REQUEST_default_def
       TPM2_Certify_REQUEST.select_convs TPM2_Certify_REQUEST.update_convs;
      intro TPMU_SIG_SCHEME_text.as_member [THEN carries_member_Cons] TPMU_SIG_SCHEME_text.member_created [of c, THEN carries_create] TPM_HANDLE_text.as_entry [THEN carries_entry_Cons] carries_body;
      (rule TPM2_Certify_REQUEST.equality)?; simp add: TPM2_Certify_REQUEST_text_ok_def word_simps)
qed

subsection \<open>CertifyResponse\<close>

definition CertifyResponse_Serialize :: "CertifyResponse \<Rightarrow> unit ser" where
  "CertifyResponse_Serialize self = wseq
     [withN ''certifyInfo'' ''TPMS_ATTEST'' ''certifyInfoSize'' ''UINT16'' (ser_writeObj ''TPMS_ATTEST'' (TPMS_ATTEST_Serialize (CertifyResponse_certifyInfo self))),
      withN ''signatureSigAlg'' ''TPM_ALG_ID'' '''' '''' (ser_writeEnumT (selector_or TPM_ALG_ID_NULL TPMU_SIGNATURE_GetUnionSelector (CertifyResponse_signature self)) TPM_ALG_ID_ID),
      if_set (CertifyResponse_signature self) (\<lambda>u. withN ''signature'' ''TPMU_SIGNATURE'' '''' '''' (ser_writeObj (TPMU_SIGNATURE_TypeName u) (TPMU_SIGNATURE_Serialize u)))]"

definition CertifyResponse_Deserialize :: "CertifyResponse \<Rightarrow> CertifyResponse ser" where
  "CertifyResponse_Deserialize self =
     sbind (withN ''certifyInfo'' ''TPMS_ATTEST'' ''certifyInfoSize'' ''UINT16'' (ser_readObj ''TPMS_ATTEST'' (TPMS_ATTEST_Deserialize (CertifyResponse_certifyInfo self)))) (\<lambda>certifyInfo.
     sbind (withN ''signatureSigAlg'' ''TPM_ALG_ID'' '''' '''' (ser_readEnumT TPM_ALG_ID_ID)) (\<lambda>signatureSigAlg.
     sbind (reset_or_create UnionFactory_Create_TPMU_SIGNATURE signatureSigAlg) (\<lambda>signature.
     sbind (read_if_set signature (\<lambda>u. withN ''signature'' ''TPMU_SIGNATURE'' '''' '''' (ser_readObj (TPMU_SIGNATURE_TypeName u) (TPMU_SIGNATURE_Deserialize u)))) (\<lambda>signature.
     ret (self\<lparr>CertifyResponse_certifyInfo := certifyInfo, CertifyResponse_signature := signature\<rparr>)))))"

definition CertifyResponse_text_ok :: "text_class \<Rightarrow> CertifyResponse \<Rightarrow> bool" where
  "CertifyResponse_text_ok c x \<longleftrightarrow>
     TPMS_ATTEST_text_ok c (CertifyResponse_certifyInfo x) \<and>
     CertifyResponse_signature x \<noteq> None \<and>
     enum_ok c (ucast (selector_or TPM_ALG_ID_NULL TPMU_SIGNATURE_GetUnionSelector (CertifyResponse_signature x))) TPM_ALG_ID_ID \<and>
     if_set_ok (TPMU_SIGNATURE_text_ok c) (CertifyResponse_signature x)"

interpretation CertifyResponse_text: text_codec "''CertifyResponse''" CertifyResponse_Serialize CertifyResponse_Deserialize CertifyResponse_default CertifyResponse_text_ok
proof
  show "word_ok ''CertifyResponse''" by (simp add: word_simps)
  fix c x assume ok: "CertifyResponse_text_ok c x"
  from ok show "carries c True (CertifyResponse_Serialize x) (CertifyResponse_Deserialize CertifyResponse_default) x"
    by (simp only: CertifyResponse_Serialize_def CertifyResponse_Deserialize_def CertifyResponse_default_def
       CertifyResponse.select_convs CertifyResponse.update_convs;
      intro TPMS_ATTEST_text.as_entry [THEN carries_entry_Cons] TPMU_SIGNATURE_text.as_member [THEN carries_member_Cons] TPMU_SIGNATURE_text.member_created [of c, THEN carries_create] carries_body;
      (rule CertifyResponse.equality)?; simp add: CertifyResponse_text_ok_def word_simps)
qed

subsection \<open>TPM2_CertifyCreation_REQUEST\<close>

definition TPM2_CertifyCreation_REQUEST_Serialize :: "TPM2_CertifyCreation_REQUEST \<Rightarrow> unit ser" where
  "TPM2_CertifyCreation_REQUEST_Serialize self = wseq
     [withN ''signHandle'' ''TPM_HANDLE'' '''' '''' (ser_writeObj ''TPM_HANDLE'' (TPM_HANDLE_Serialize (TPM2_CertifyCreation_REQUEST_signHandle self))),
      withN ''objectHandle'' ''TPM_HANDLE'' '''' '''' (ser_writeObj ''TPM_HANDLE'' (TPM_HANDLE_Serialize (TPM2_CertifyCreation_REQUEST_objectHandle self))),
      withN ''qualifyingData'' ''BYTE[]'' ''qualifyingDataSize'' ''UINT16'' (ser_writeSizedByteBuf (TPM2_CertifyCreation_REQUEST_qualifyingData self)),
      withN ''creationHash'' ''BYTE[]'' ''creationHashSize'' ''UINT16'' (ser_writeSizedByteBuf (TPM2_CertifyCreation_REQUEST_creationHash self)),
      withN ''inSchemeScheme'' ''TPM_ALG_ID'' '''' '''' (ser_writeEnumT (selector_or TPM_ALG_ID_NULL TPMU_SIG_SCHEME_GetUnionSelector (TPM2_CertifyCreation_REQUEST_inScheme self)) TPM_ALG_ID_ID),
      if_set (TPM2_CertifyCreation_REQUEST_inScheme self) (\<lambda>u. withN ''inScheme'' ''TPMU_SIG_SCHEME'' '''' '''' (ser_writeObj (TPMU_SIG_SCHEME_TypeName u) (TPMU_SIG_SCHEME_Serialize u))),
      withN ''creationTicket'' ''TPMT_TK_CREATION'' '''' '''' (ser_writeObj ''TPMT_TK_CREATION'' (TPMT_TK_CREATION_Serialize (TPM2_CertifyCreation_REQUEST_creationTicket self)))]"

definition TPM2_CertifyCreation_REQUEST_Deserialize :: "TPM2_CertifyCreation_REQUEST \<Rightarrow> TPM2_CertifyCreation_REQUEST ser" where
  "TPM2_CertifyCreation_REQUEST_Deserialize self =
     sbind (withN ''signHandle'' ''TPM_HANDLE'' '''' '''' (ser_readObj ''TPM_HANDLE'' (TPM_HANDLE_Deserialize (TPM2_CertifyCreation_REQUEST_signHandle self)))) (\<lambda>signHandle.
     sbind (withN ''objectHandle'' ''TPM_HANDLE'' '''' '''' (ser_readObj ''TPM_HANDLE'' (TPM_HANDLE_Deserialize (TPM2_CertifyCreation_REQUEST_objectHandle self)))) (\<lambda>objectHandle.
     sbind (withN ''qualifyingData'' ''BYTE[]'' ''qualifyingDataSize'' ''UINT16'' ser_readSizedByteBuf) (\<lambda>qualifyingData.
     sbind (withN ''creationHash'' ''BYTE[]'' ''creationHashSize'' ''UINT16'' ser_readSizedByteBuf) (\<lambda>creationHash.
     sbind (withN ''inSchemeScheme'' ''TPM_ALG_ID'' '''' '''' (ser_readEnumT TPM_ALG_ID_ID)) (\<lambda>inSchemeScheme.
     sbind (reset_or_create UnionFactory_Create_TPMU_SIG_SCHEME inSchemeScheme) (\<lambda>inScheme.
     sbind (read_if_set inScheme (\<lambda>u. withN ''inScheme'' ''TPMU_SIG_SCHEME'' '''' '''' (ser_readObj (TPMU_SIG_SCHEME_TypeName u) (TPMU_SIG_SCHEME_Deserialize u)))) (\<lambda>inScheme.
     sbind (withN ''creationTicket'' ''TPMT_TK_CREATION'' '''' '''' (ser_readObj ''TPMT_TK_CREATION'' (TPMT_TK_CREATION_Deserialize (TPM2_CertifyCreation_REQUEST_creationTicket self)))) (\<lambda>creationTicket.
     ret (self\<lparr>TPM2_CertifyCreation_REQUEST_signHandle := signHandle, TPM2_CertifyCreation_REQUEST_objectHandle := objectHandle, TPM2_CertifyCreation_REQUEST_qualifyingData := qualifyingData, TPM2_CertifyCreation_REQUEST_creationHash := creationHash, TPM2_CertifyCreation_REQUEST_inScheme := inScheme, TPM2_CertifyCreation_REQUEST_creationTicket := creationTicket\<rparr>)))))))))"

definition TPM2_CertifyCreation_REQUEST_text_ok :: "text_class \<Rightarrow> TPM2_CertifyCreation_REQUEST \<Rightarrow> bool" where
  "TPM2_CertifyCreation_REQUEST_text_ok c x \<longleftrightarrow>
     TPM_HANDLE_text_ok c (TPM2_CertifyCreation_REQUEST_signHandle x) \<and>
     TPM_HANDLE_text_ok c (TPM2_CertifyCreation_REQUEST_objectHandle x) \<and>
     length (TPM2_CertifyCreation_REQUEST_qualifyingData x) < 2 ^ 64 \<and>
     length (TPM2_CertifyCreation_REQUEST_creationHash x) < 2 ^ 64 \<and>
     TPM2_CertifyCreation_REQUEST_inScheme x \<noteq> None \<and>
     enum_ok c (ucast (selector_or TPM_ALG_ID_NULL TPMU_SIG_SCHEME_GetUnionSelector (TPM2_CertifyCreation_REQUEST_inScheme x))) TPM_ALG_ID_ID \<and>
     if_set_ok (TPMU_SIG_SCHEME_text_ok c) (TPM2_CertifyCreation_REQUEST_inScheme x) \<and>
     TPMT_TK_CREATION_text_ok c (TPM2_CertifyCreation_REQUEST_creationTicket x)"

interpretation TPM2_CertifyCreation_REQUEST_text: text_codec "''TPM2_CertifyCreation_REQUEST''" TPM2_CertifyCreation_REQUEST_Serialize TPM2_CertifyCreation_REQUEST_Deserialize TPM2_CertifyCreation_REQUEST_default TPM2_CertifyCreation_REQUEST_text_ok
proof
  show "word_ok ''TPM2_CertifyCreation_REQUEST''" by (simp add: word_simps)
  fix c x assume ok: "TPM2_CertifyCreation_REQUEST_text_ok c x"
  from ok show "carries c True (TPM2_CertifyCreation_REQUEST_Serialize x) (TPM2_CertifyCreation_REQUEST_Deserialize TPM2_CertifyCreation_REQUEST_default) x"
    by (simp only: TPM2_CertifyCreation_REQUEST_Serialize_def TPM2_CertifyCreation_REQUEST_Deserialize_def TPM2_CertifyCreation_REQUEST_default_def
       TPM2_CertifyCreation_REQUEST.select_convs TPM2_CertifyCreation_REQUEST.update_convs;
      intro TPMT_TK_CREATION_text.as_entry [THEN carries_entry_Cons] TPMU_SIG_SCHEME_text.as_member [THEN carries_member_Cons] TPMU_SIG_SCHEME_text.member_created [of c, THEN carries_create] TPM_HANDLE_text.as_entry [THEN carries_entry_Cons] carries_body;
      (rule TPM2_CertifyCreation_REQUEST.equality)?; simp add: TPM2_CertifyCreation_REQUEST_text_ok_def word_simps)
qed

subsection \<open>CertifyCreationResponse\<close>

definition CertifyCreationResponse_Serialize :: "CertifyCreationResponse \<Rightarrow> unit ser" where
  "CertifyCreationResponse_Serialize self = wseq
     [withN ''certifyInfo'' ''TPMS_ATTEST'' ''certifyInfoSize'' ''UINT16'' (ser_writeObj ''TPMS_ATTEST'' (TPMS_ATTEST_Serialize (CertifyCreationResponse_certifyInfo self))),
      withN ''signatureSigAlg'' ''TPM_ALG_ID'' '''' '''' (ser_writeEnumT (selector_or TPM_ALG_ID_NULL TPMU_SIGNATURE_GetUnionSelector (CertifyCreationResponse_signature self)) TPM_ALG_ID_ID),
      if_set (CertifyCreationResponse_signature self) (\<lambda>u. withN ''signature'' ''TPMU_SIGNATURE'' '''' '''' (ser_writeObj (TPMU_SIGNATURE_TypeName u) (TPMU_SIGNATURE_Serialize u)))]"

definition CertifyCreationResponse_Deserialize :: "CertifyCreationResponse \<Rightarrow> CertifyCreationResponse ser" where
  "CertifyCreationResponse_Deserialize self =
     sbind (withN ''certifyInfo'' ''TPMS_ATTEST'' ''certifyInfoSize'' ''UINT16'' (ser_readObj ''TPMS_ATTEST'' (TPMS_ATTEST_Deserialize (CertifyCreationResponse_certifyInfo self)))) (\<lambda>certifyInfo.
     sbind (withN ''signatureSigAlg'' ''TPM_ALG_ID'' '''' '''' (ser_readEnumT TPM_ALG_ID_ID)) (\<lambda>signatureSigAlg.
     sbind (reset_or_create UnionFactory_Create_TPMU_SIGNATURE signatureSigAlg) (\<lambda>signature.
     sbind (read_if_set signature (\<lambda>u. withN ''signature'' ''TPMU_SIGNATURE'' '''' '''' (ser_readObj (TPMU_SIGNATURE_TypeName u) (TPMU_SIGNATURE_Deserialize u)))) (\<lambda>signature.
     ret (self\<lparr>CertifyCreationResponse_certifyInfo := certifyInfo, CertifyCreationResponse_signature := signature\<rparr>)))))"

definition CertifyCreationResponse_text_ok :: "text_class \<Rightarrow> CertifyCreationResponse \<Rightarrow> bool" where
  "CertifyCreationResponse_text_ok c x \<longleftrightarrow>
     TPMS_ATTEST_text_ok c (CertifyCreationResponse_certifyInfo x) \<and>
     CertifyCreationResponse_signature x \<noteq> None \<and>
     enum_ok c (ucast (selector_or TPM_ALG_ID_NULL TPMU_SIGNATURE_GetUnionSelector (CertifyCreationResponse_signature x))) TPM_ALG_ID_ID \<and>
     if_set_ok (TPMU_SIGNATURE_text_ok c) (CertifyCreationResponse_signature x)"

interpretation CertifyCreationResponse_text: text_codec "''CertifyCreationResponse''" CertifyCreationResponse_Serialize CertifyCreationResponse_Deserialize CertifyCreationResponse_default CertifyCreationResponse_text_ok
proof
  show "word_ok ''CertifyCreationResponse''" by (simp add: word_simps)
  fix c x assume ok: "CertifyCreationResponse_text_ok c x"
  from ok show "carries c True (CertifyCreationResponse_Serialize x) (CertifyCreationResponse_Deserialize CertifyCreationResponse_default) x"
    by (simp only: CertifyCreationResponse_Serialize_def CertifyCreationResponse_Deserialize_def CertifyCreationResponse_default_def
       CertifyCreationResponse.select_convs CertifyCreationResponse.update_convs;
      intro TPMS_ATTEST_text.as_entry [THEN carries_entry_Cons] TPMU_SIGNATURE_text.as_member [THEN carries_member_Cons] TPMU_SIGNATURE_text.member_created [of c, THEN carries_create] carries_body;
      (rule CertifyCreationResponse.equality)?; simp add: CertifyCreationResponse_text_ok_def word_simps)
qed

subsection \<open>TPM2_Quote_REQUEST\<close>

definition TPM2_Quote_REQUEST_Serialize :: "TPM2_Quote_REQUEST \<Rightarrow> unit ser" where
  "TPM2_Quote_REQUEST_Serialize self = wseq
     [withN ''signHandle'' ''TPM_HANDLE'' '''' '''' (ser_writeObj ''TPM_HANDLE'' (TPM_HANDLE_Serialize (TPM2_Quote_REQUEST_signHandle self))),
      withN ''qualifyingData'' ''BYTE[]'' ''qualifyingDataSize'' ''UINT16'' (ser_writeSizedByteBuf (TPM2_Quote_REQUEST_qualifyingData self)),
      withN ''inSchemeScheme'' ''TPM_ALG_ID'' '''' '''' (ser_writeEnumT (selector_or TPM_ALG_ID_NULL TPMU_SIG_SCHEME_GetUnionSelector (TPM2_Quote_REQUEST_inScheme self)) TPM_ALG_ID_ID),
      if_set (TPM2_Quote_REQUEST_inScheme self) (\<lambda>u. withN ''inScheme'' ''TPMU_SIG_SCHEME'' '''' '''' (ser_writeObj (TPMU_SIG_SCHEME_TypeName u) (TPMU_SIG_SCHEME_Serialize u))),
      withN ''PCRselect'' ''TPMS_PCR_SELECTION[]'' ''PCRselectCount'' ''UINT32'' (ser_writeObjArr ''TPMS_PCR_SELECTION'' TPMS_PCR_SELECTION_Serialize (TPM2_Quote_REQUEST_PCRselect self))]"

definition TPM2_Quote_REQUEST_Deserialize :: "TPM2_Quote_REQUEST \<Rightarrow> TPM2_Quote_REQUEST ser" where
  "TPM2_Quote_REQUEST_Deserialize self =
     sbind (withN ''signHandle'' ''TPM_HANDLE'' '''' '''' (ser_readObj ''TPM_HANDLE'' (TPM_HANDLE_Deserialize (TPM2_Quote_REQUEST_signHandle self)))) (\<lambda>signHandle.
     sbind (withN ''qualifyingData'' ''BYTE[]'' ''qualifyingDataSize'' ''UINT16'' ser_readSizedByteBuf) (\<lambda>qualifyingData.
     sbind (withN ''inSchemeScheme'' ''TPM_ALG_ID'' '''' '''' (ser_readEnumT TPM_ALG_ID_ID)) (\<lambda>inSchemeScheme.
     sbind (reset_or_create UnionFactory_Create_TPMU_SIG_SCHEME inSchemeScheme) (\<lambda>inScheme.
     sbind (read_if_set inScheme (\<lambda>u. withN ''inScheme'' ''TPMU_SIG_SCHEME'' '''' '''' (ser_readObj (TPMU_SIG_SCHEME_TypeName u) (TPMU_SIG_SCHEME_Deserialize u)))) (\<lambda>inScheme.
     sbind (withN ''PCRselect'' ''TPMS_PCR_SELECTION[]'' ''PCRselectCount'' ''UINT32'' (ser_readObjArr ''TPMS_PCR_SELECTION'' TPMS_PCR_SELECTION_Deserialize TPMS_PCR_SELECTION_default (TPM2_Quote_REQUEST_PCRselect self))) (\<lambda>PCRselect.
     ret (self\<lparr>TPM2_Quote_REQUEST_signHandle := signHandle, TPM2_Quote_REQUEST_qualifyingData := qualifyingData, TPM2_Quote_REQUEST_inScheme := inScheme, TPM2_Quote_REQUEST_PCRselect := PCRselect\<rparr>)))))))"

definition TPM2_Quote_REQUEST_text_ok :: "text_class \<Rightarrow> TPM2_Quote_REQUEST \<Rightarrow> bool" where
  "TPM2_Quote_REQUEST_text_ok c x \<longleftrightarrow>
     TPM_HANDLE_text_ok c (TPM2_Quote_REQUEST_signHandle x) \<and>
     length (TPM2_Quote_REQUEST_qualifyingData x) < 2 ^ 64 \<and>
     TPM2_Quote_REQUEST_inScheme x \<noteq> None \<and>
     enum_ok c (ucast (selector_or TPM_ALG_ID_NULL TPMU_SIG_SCHEME_GetUnionSelector (TPM2_Quote_REQUEST_inScheme x))) TPM_ALG_ID_ID \<and>
     if_set_ok (TPMU_SIG_SCHEME_text_ok c) (TPM2_Quote_REQUEST_inScheme x) \<and>
     length (TPM2_Quote_REQUEST_PCRselect x) < 2 ^ 64 \<and> (\<forall>y \<in> set (TPM2_Quote_REQUEST_PCRselect x). TPMS_PCR_SELECTION_text_ok c y)"

interpretation TPM2_Quote_REQUEST_text: text_codec "''TPM2_Quote_REQUEST''" TPM2_Quote_REQUEST_Serialize TPM2_Quote_REQUEST_Deserialize TPM2_Quote_REQUEST_default TPM2_Quote_REQUEST_text_ok
proof
  show "word_ok ''TPM2_Quote_REQUEST''" by (simp add: word_simps)
  fix c x assume ok: "TPM2_Quote_REQUEST_text_ok c x"
  from ok show "carries c True (TPM2_Quote_REQUEST_Serialize x) (TPM2_Quote_REQUEST_Deserialize TPM2_Quote_REQUEST_default) x"
    by (simp only: TPM2_Quote_REQUEST_Serialize_def TPM2_Quote_REQUEST_Deserialize_def TPM2_Quote_REQUEST_default_def
       TPM2_Quote_REQUEST.select_convs TPM2_Quote_REQUEST.update_convs;
      intro TPMS_PCR_SELECTION_text.as_elements [THEN carries_entry_Cons] TPMU_SIG_SCHEME_text.as_member [THEN carries_member_Cons] TPMU_SIG_SCHEME_text.member_created [of c, THEN carries_create] TPM_HANDLE_text.as_entry [THEN carries_entry_Cons] carries_body;
      (rule TPM2_Quote_REQUEST.equality)?; simp add: TPM2_Quote_REQUEST_text_ok_def word_simps)
qed

subsection \<open>QuoteResponse\<close>

definition QuoteResponse_Serialize :: "QuoteResponse \<Rightarrow> unit ser" where
  "QuoteResponse_Serialize self = wseq
     [withN ''quoted'' ''TPMS_ATTEST'' ''quotedSize'' ''UINT16'' (ser_writeObj ''TPMS_ATTEST'' (TPMS_ATTEST_Serialize (QuoteResponse_quoted self))),
      withN ''signatureSigAlg'' ''TPM_ALG_ID'' '''' '''' (ser_writeEnumT (selector_or TPM_ALG_ID_NULL TPMU_SIGNATURE_GetUnionSelector (QuoteResponse_signature self)) TPM_ALG_ID_ID),
      if_set (QuoteResponse_signature self) (\<lambda>u. withN ''signature'' ''TPMU_SIGNATURE'' '''' '''' (ser_writeObj (TPMU_SIGNATURE_TypeName u) (TPMU_SIGNATURE_Serialize u)))]"

definition QuoteResponse_Deserialize :: "QuoteResponse \<Rightarrow> QuoteResponse ser" where
  "QuoteResponse_Deserialize self =
     sbind (withN ''quoted'' ''TPMS_ATTEST'' ''quotedSize'' ''UINT16'' (ser_readObj ''TPMS_ATTEST'' (TPMS_ATTEST_Deserialize (QuoteResponse_quoted self)))) (\<lambda>quoted.
     sbind (withN ''signatureSigAlg'' ''TPM_ALG_ID'' '''' '''' (ser_readEnumT TPM_ALG_ID_ID)) (\<lambda>signatureSigAlg.
     sbind (reset_or_create UnionFactory_Create_TPMU_SIGNATURE signatureSigAlg) (\<lambda>signature.
     sbind (read_if_set signature (\<lambda>u. withN ''signature'' ''TPMU_SIGNATURE'' '''' '''' (ser_readObj (TPMU_SIGNATURE_TypeName u) (TPMU_SIGNATURE_Deserialize u)))) (\<lambda>signature.
     ret (self\<lparr>QuoteResponse_quoted := quoted, QuoteResponse_signature := signature\<rparr>)))))"

definition QuoteResponse_text_ok :: "text_class \<Rightarrow> QuoteResponse \<Rightarrow> bool" where
  "QuoteResponse_text_ok c x \<longleftrightarrow>
     TPMS_ATTEST_text_ok c (QuoteResponse_quoted x) \<and>
     QuoteResponse_signature x \<noteq> None \<and>
     enum_ok c (ucast (selector_or TPM_ALG_ID_NULL TPMU_SIGNATURE_GetUnionSelector (QuoteResponse_signature x))) TPM_ALG_ID_ID \<and>
     if_set_ok (TPMU_SIGNATURE_text_ok c) (QuoteResponse_signature x)"

interpretation QuoteResponse_text: text_codec "''QuoteResponse''" QuoteResponse_Serialize QuoteResponse_Deserialize QuoteResponse_default QuoteResponse_text_ok
proof
  show "word_ok ''QuoteResponse''" by (simp add: word_simps)
  fix c x assume ok: "QuoteResponse_text_ok c x"
  from ok show "carries c True (QuoteResponse_Serialize x) (QuoteResponse_Deserialize QuoteResponse_default) x"
    by (simp only: QuoteResponse_Serialize_def QuoteResponse_Deserialize_def QuoteResponse_default_def
       QuoteResponse.select_convs QuoteResponse.update_convs;
      intro TPMS_ATTEST_text.as_entry [THEN carries_entry_Cons] TPMU_SIGNATURE_text.as_member [THEN carries_member_Cons] TPMU_SIGNATURE_text.member_created [of c, THEN carries_create] carries_body;
      (rule QuoteResponse.equality)?; simp add: QuoteResponse_text_ok_def word_simps)
qed

subsection \<open>TPM2_GetSessionAuditDigest_REQUEST\<close>

definition TPM2_GetSessionAuditDigest_REQUEST_Serialize :: "TPM2_GetSessionAuditDigest_REQUEST \<Rightarrow> unit ser" where
  "TPM2_GetSessionAuditDigest_REQUEST_Serialize self = wseq
     [withN ''privacyAdminHandle'' ''TPM_HANDLE'' '''' '''' (ser_writeObj ''TPM_HANDLE'' (TPM_HANDLE_Serialize (TPM2_GetSessionAuditDigest_REQUEST_privacyAdminHandle self))),
      withN ''signHandle'' ''TPM_HANDLE'' '''' '''' (ser_writeObj ''TPM_HANDLE'' (TPM_HANDLE_Serialize (TPM2_GetSessionAuditDigest_REQUEST_signHandle self))),
      withN ''sessionHandle'' ''TPM_HANDLE'' '''' '''' (ser_writeObj ''TPM_HANDLE'' (TPM_HANDLE_Serialize (TPM2_GetSessionAuditDigest_REQUEST_sessionHandle self))),
      withN ''qualifyingData'' ''BYTE[]'' ''qualifyingDataSize'' ''UINT16'' (ser_writeSizedByteBuf (TPM2_GetSessionAuditDigest_REQUEST_qualifyingData self)),
      withN ''inSchemeScheme'' ''TPM_ALG_ID'' '''' '''' (ser_writeEnumT (selector_or TPM_ALG_ID_NULL TPMU_SIG_SCHEME_GetUnionSelector (TPM2_GetSessionAuditDigest_REQUEST_inScheme self)) TPM_ALG_ID_ID),
      if_set (TPM2_GetSessionAuditDigest_REQUEST_inScheme self) (\<lambda>u. withN ''inScheme'' ''TPMU_SIG_SCHEME'' '''' '''' (ser_writeObj (TPMU_SIG_SCHEME_TypeName u) (TPMU_SIG_SCHEME_Serialize u)))]"

definition TPM2_GetSessionAuditDigest_REQUEST_Deserialize :: "TPM2_GetSessionAuditDigest_REQUEST \<Rightarrow> TPM2_GetSessionAuditDigest_REQUEST ser" where
  "TPM2_GetSessionAuditDigest_REQUEST_Deserialize self =
     sbind (withN ''privacyAdminHandle'' ''TPM_HANDLE'' '''' '''' (ser_readObj ''TPM_HANDLE'' (TPM_HANDLE_Deserialize (TPM2_GetSessionAuditDigest_REQUEST_privacyAdminHandle self)))) (\<lambda>privacyAdminHandle.
     sbind (withN ''signHandle'' ''TPM_HANDLE'' '''' '''' (ser_readObj ''TPM_HANDLE'' (TPM_HANDLE_Deserialize (TPM2_GetSessionAuditDigest_REQUEST_signHandle self)))) (\<lambda>signHandle.
     sbind (withN ''sessionHandle'' ''TPM_HANDLE'' '''' '''' (ser_readObj ''TPM_HANDLE'' (TPM_HANDLE_Deserialize (TPM2_GetSessionAuditDigest_REQUEST_sessionHandle self)))) (\<lambda>sessionHandle.
     sbind (withN ''qualifyingData'' ''BYTE[]'' ''qualifyingDataSize'' ''UINT16'' ser_readSizedByteBuf) (\<lambda>qualifyingData.
     sbind (withN ''inSchemeScheme'' ''TPM_ALG_ID'' '''' '''' (ser_readEnumT TPM_ALG_ID_ID)) (\<lambda>inSchemeScheme.
     sbind (reset_or_create UnionFactory_Create_TPMU_SIG_SCHEME inSchemeScheme) (\<lambda>inScheme.
     sbind (read_if_set inScheme (\<lambda>u. withN ''inScheme'' ''TPMU_SIG_SCHEME'' '''' '''' (ser_readObj (TPMU_SIG_SCHEME_TypeName u) (TPMU_SIG_SCHEME_Deserialize u)))) (\<lambda>inScheme.
     ret (self\<lparr>TPM2_GetSessionAuditDigest_REQUEST_privacyAdminHandle := privacyAdminHandle, TPM2_GetSessionAuditDigest_REQUEST_signHandle := signHandle, TPM2_GetSessionAuditDigest_REQUEST_sessionHandle := sessionHandle, TPM2_GetSessionAuditDigest_REQUEST_qualifyingData := qualifyingData, TPM2_GetSessionAuditDigest_REQUEST_inScheme := inScheme\<rparr>))))))))"

definition TPM2_GetSessionAuditDigest_REQUEST_text_ok :: "text_class \<Rightarrow> TPM2_GetSessionAuditDigest_REQUEST \<Rightarrow> bool" where
  "TPM2_GetSessionAuditDigest_REQUEST_text_ok c x \<longleftrightarrow>
     TPM_HANDLE_text_ok c (TPM2_GetSessionAuditDigest_REQUEST_privacyAdminHandle x) \<and>
     TPM_HANDLE_text_ok c (TPM2_GetSessionAuditDigest_REQUEST_signHandle x) \<and>
     TPM_HANDLE_text_ok c (TPM2_GetSessionAuditDigest_REQUEST_sessionHandle x) \<and>
     length (TPM2_GetSessionAuditDigest_REQUEST_qualifyingData x) < 2 ^ 64 \<and>
     TPM2_GetSessionAuditDigest_REQUEST_inScheme x \<noteq> None \<and>
     enum_ok c (ucast (selector_or TPM_ALG_ID_NULL TPMU_SIG_SCHEME_GetUnionSelector (TPM2_GetSessionAuditDigest_REQUEST_inScheme x))) TPM_ALG_ID_ID \<and>
     if_set_ok (TPMU_SIG_SCHEME_text_ok c) (TPM2_GetSessionAuditDigest_REQUEST_inScheme x)"

interpretation TPM2_GetSessionAuditDigest_REQUEST_text: text_codec "''TPM2_GetSessionAuditDigest_REQUEST''" TPM2_GetSessionAuditDigest_REQUEST_Serialize TPM2_GetSessionAuditDigest_REQUEST_Deserialize TPM2_GetSessionAuditDigest_REQUEST_default TPM2_GetSessionAuditDigest_REQUEST_text_ok
proof
  show "word_ok ''TPM2_GetSessionAuditDigest_REQUEST''" by (simp add: word_simps)
  fix c x assume ok: "TPM2_GetSessionAuditDigest_REQUEST_text_ok c x"
  from ok show "carries c True (TPM2_GetSessionAuditDigest_REQUEST_Serialize x) (TPM2_GetSessionAuditDigest_REQUEST_Deserialize TPM2_GetSessionAuditDigest_REQUEST_default) x"
    by (simp only: TPM2_GetSessionAuditDigest_REQUEST_Serialize_def TPM2_GetSessionAuditDigest_REQUEST_Deserialize_def TPM2_GetSessionAuditDigest_REQUEST_default_def
       TPM2_GetSessionAuditDigest_REQUEST.select_convs TPM2_GetSessionAuditDigest_REQUEST.update_convs;
      intro TPMU_SIG_SCHEME_text.as_member [THEN carries_member_Cons] TPMU_SIG_SCHEME_text.member_created [of c, THEN carries_create] TPM_HANDLE_text.as_entry [THEN carries_entry_Cons] carries_body;
      (rule TPM2_GetSessionAuditDigest_REQUEST.equality)?; simp add: TPM2_GetSessionAuditDigest_REQUEST_text_ok_def word_simps)
qed

subsection \<open>GetSessionAuditDigestResponse\<close>

definition GetSessionAuditDigestResponse_Serialize :: "GetSessionAuditDigestResponse \<Rightarrow> unit ser" where
  "GetSessionAuditDigestResponse_Serialize self = wseq
     [withN ''auditInfo'' ''TPMS_ATTEST'' ''auditInfoSize'' ''UINT16'' (ser_writeObj ''TPMS_ATTEST'' (TPMS_ATTEST_Serialize (GetSessionAuditDigestResponse_auditInfo self))),
      withN ''signatureSigAlg'' ''TPM_ALG_ID'' '''' '''' (ser_writeEnumT (selector_or TPM_ALG_ID_NULL TPMU_SIGNATURE_GetUnionSelector (GetSessionAuditDigestResponse_signature self)) TPM_ALG_ID_ID),
      if_set (GetSessionAuditDigestResponse_signature self) (\<lambda>u. withN ''signature'' ''TPMU_SIGNATURE'' '''' '''' (ser_writeObj (TPMU_SIGNATURE_TypeName u) (TPMU_SIGNATURE_Serialize u)))]"

definition GetSessionAuditDigestResponse_Deserialize :: "GetSessionAuditDigestResponse \<Rightarrow> GetSessionAuditDigestResponse ser" where
  "GetSessionAuditDigestResponse_Deserialize self =
     sbind (withN ''auditInfo'' ''TPMS_ATTEST'' ''auditInfoSize'' ''UINT16'' (ser_readObj ''TPMS_ATTEST'' (TPMS_ATTEST_Deserialize (GetSessionAuditDigestResponse_auditInfo self)))) (\<lambda>auditInfo.
     sbind (withN ''signatureSigAlg'' ''TPM_ALG_ID'' '''' '''' (ser_readEnumT TPM_ALG_ID_ID)) (\<lambda>signatureSigAlg.
     sbind (reset_or_create UnionFactory_Create_TPMU_SIGNATURE signatureSigAlg) (\<lambda>signature.
     sbind (read_if_set signature (\<lambda>u. withN ''signature'' ''TPMU_SIGNATURE'' '''' '''' (ser_readObj (TPMU_SIGNATURE_TypeName u) (TPMU_SIGNATURE_Deserialize u)))) (\<lambda>signature.
     ret (self\<lparr>GetSessionAuditDigestResponse_auditInfo := auditInfo, GetSessionAuditDigestResponse_signature := signature\<rparr>)))))"

definition GetSessionAuditDigestResponse_text_ok :: "text_class \<Rightarrow> GetSessionAuditDigestResponse \<Rightarrow> bool" where
  "GetSessionAuditDigestResponse_text_ok c x \<longleftrightarrow>
     TPMS_ATTEST_text_ok c (GetSessionAuditDigestResponse_auditInfo x) \<and>
     GetSessionAuditDigestResponse_signature x \<noteq> None \<and>
     enum_ok c (ucast (selector_or TPM_ALG_ID_NULL TPMU_SIGNATURE_GetUnionSelector (GetSessionAuditDigestResponse_signature x))) TPM_ALG_ID_ID \<and>
     if_set_ok (TPMU_SIGNATURE_text_ok c) (GetSessionAuditDigestResponse_signature x)"

interpretation GetSessionAuditDigestResponse_text: text_codec "''GetSessionAuditDigestResponse''" GetSessionAuditDigestResponse_Serialize GetSessionAuditDigestResponse_Deserialize GetSessionAuditDigestResponse_default GetSessionAuditDigestResponse_text_ok
proof
  show "word_ok ''GetSessionAuditDigestResponse''" by (simp add: word_simps)
  fix c x assume ok: "GetSessionAuditDigestResponse_text_ok c x"
  from ok show "carries c True (GetSessionAuditDigestResponse_Serialize x) (GetSessionAuditDigestResponse_Deserialize GetSessionAuditDigestResponse_default) x"
    by (simp only: GetSessionAuditDigestResponse_Serialize_def GetSessionAuditDigestResponse_Deserialize_def GetSessionAuditDigestResponse_default_def
       GetSessionAuditDigestResponse.select_convs GetSessionAuditDigestResponse.update_convs;
      intro TPMS_ATTEST_text.as_entry [THEN carries_entry_Cons] TPMU_SIGNATURE_text.as_member [THEN carries_member_Cons] TPMU_SIGNATURE_text.member_created [of c, THEN carries_create] carries_body;
      (rule GetSessionAuditDigestResponse.equality)?; simp add: GetSessionAuditDigestResponse_text_ok_def word_simps)
qed

subsection \<open>TPM2_GetCommandAuditDigest_REQUEST\<close>

definition TPM2_GetCommandAuditDigest_REQUEST_Serialize :: "TPM2_GetCommandAuditDigest_REQUEST \<Rightarrow> unit ser" where
  "TPM2_GetCommandAuditDigest_REQUEST_Serialize self = wseq
     [withN ''privacyHandle'' ''TPM_HANDLE'' '''' '''' (ser_writeObj ''TPM_HANDLE'' (TPM_HANDLE_Serialize (TPM2_GetCommandAuditDigest_REQUEST_privacyHandle self))),
      withN ''signHandle'' ''TPM_HANDLE'' '''' '''' (ser_writeObj ''TPM_HANDLE'' (TPM_HANDLE_Serialize (TPM2_GetCommandAuditDigest_REQUEST_signHandle self))),
      withN ''qualifyingData'' ''BYTE[]'' ''qualifyingDataSize'' ''UINT16'' (ser_writeSizedByteBuf (TPM2_GetCommandAuditDigest_REQUEST_qualifyingData self)),
      withN ''inSchemeScheme'' ''TPM_ALG_ID'' '''' '''' (ser_writeEnumT (selector_or TPM_ALG_ID_NULL TPMU_SIG_SCHEME_GetUnionSelector (TPM2_GetCommandAuditDigest_REQUEST_inScheme self)) TPM_ALG_ID_ID),
      if_set (TPM2_GetCommandAuditDigest_REQUEST_inScheme self) (\<lambda>u. withN ''inScheme'' ''TPMU_SIG_SCHEME'' '''' '''' (ser_writeObj (TPMU_SIG_SCHEME_TypeName u) (TPMU_SIG_SCHEME_Serialize u)))]"

definition TPM2_GetCommandAuditDigest_REQUEST_Deserialize :: "TPM2_GetCommandAuditDigest_REQUEST \<Rightarrow> TPM2_GetCommandAuditDigest_REQUEST ser" where
  "TPM2_GetCommandAuditDigest_REQUEST_Deserialize self =
     sbind (withN ''privacyHandle'' ''TPM_HANDLE'' '''' '''' (ser_readObj ''TPM_HANDLE'' (TPM_HANDLE_Deserialize (TPM2_GetCommandAuditDigest_REQUEST_privacyHandle self)))) (\<lambda>privacyHandle.
     sbind (withN ''signHandle'' ''TPM_HANDLE'' '''' '''' (ser_readObj ''TPM_HANDLE'' (TPM_HANDLE_Deserialize (TPM2_GetCommandAuditDigest_REQUEST_signHandle self)))) (\<lambda>signHandle.
     sbind (withN ''qualifyingData'' ''BYTE[]'' ''qualifyingDataSize'' ''UINT16'' ser_readSizedByteBuf) (\<lambda>qualifyingData.
     sbind (withN ''inSchemeScheme'' ''TPM_ALG_ID'' '''' '''' (ser_readEnumT TPM_ALG_ID_ID)) (\<lambda>inSchemeScheme.
     sbind (reset_or_create UnionFactory_Create_TPMU_SIG_SCHEME inSchemeScheme) (\<lambda>inScheme.
     sbind (read_if_set inScheme (\<lambda>u. withN ''inScheme'' ''TPMU_SIG_SCHEME'' '''' '''' (ser_readObj (TPMU_SIG_SCHEME_TypeName u) (TPMU_SIG_SCHEME_Deserialize u)))) (\<lambda>inScheme.
     ret (self\<lparr>TPM2_GetCommandAuditDigest_REQUEST_privacyHandle := privacyHandle, TPM2_GetCommandAuditDigest_REQUEST_signHandle := signHandle, TPM2_GetCommandAuditDigest_REQUEST_qualifyingData := qualifyingData, TPM2_GetCommandAuditDigest_REQUEST_inScheme := inScheme\<rparr>)))))))"

definition TPM2_GetCommandAuditDigest_REQUEST_text_ok :: "text_class \<Rightarrow> TPM2_GetCommandAuditDigest_REQUEST \<Rightarrow> bool" where
  "TPM2_GetCommandAuditDigest_REQUEST_text_ok c x \<longleftrightarrow>
     TPM_HANDLE_text_ok c (TPM2_GetCommandAuditDigest_REQUEST_privacyHandle x) \<and>
     TPM_HANDLE_text_ok c (TPM2_GetCommandAuditDigest_REQUEST_signHandle x) \<and>
     length (TPM2_GetCommandAuditDigest_REQUEST_qualifyingData x) < 2 ^ 64 \<and>
     TPM2_GetCommandAuditDigest_REQUEST_inScheme x \<noteq> None \<and>
     enum_ok c (ucast (selector_or TPM_ALG_ID_NULL TPMU_SIG_SCHEME_GetUnionSelector (TPM2_GetCommandAuditDigest_REQUEST_inScheme x))) TPM_ALG_ID_ID \<and>
     if_set_ok (TPMU_SIG_SCHEME_text_ok c) (TPM2_GetCommandAuditDigest_REQUEST_inScheme x)"

interpretation TPM2_GetCommandAuditDigest_REQUEST_text: text_codec "''TPM2_GetCommandAuditDigest_REQUEST''" TPM2_GetCommandAuditDigest_REQUEST_Serialize TPM2_GetCommandAuditDigest_REQUEST_Deserialize TPM2_GetCommandAuditDigest_REQUEST_default TPM2_GetCommandAuditDigest_REQUEST_text_ok
proof
  show "word_ok ''TPM2_GetCommandAuditDigest_REQUEST''" by (simp add: word_simps)
  fix c x assume ok: "TPM2_GetCommandAuditDigest_REQUEST_text_ok c x"
  from ok show "carries c True (TPM2_GetCommandAuditDigest_REQUEST_Serialize x) (TPM2_GetCommandAuditDigest_REQUEST_Deserialize TPM2_GetCommandAuditDigest_REQUEST_default) x"
    by (simp only: TPM2_GetCommandAuditDigest_REQUEST_Serialize_def TPM2_GetCommandAuditDigest_REQUEST_Deserialize_def TPM2_GetCommandAuditDigest_REQUEST_default_def
       TPM2_GetCommandAuditDigest_REQUEST.select_convs TPM2_GetCommandAuditDigest_REQUEST.update_convs;
      intro TPMU_SIG_SCHEME_text.as_member [THEN carries_member_Cons] TPMU_SIG_SCHEME_text.member_created [of c, THEN carries_create] TPM_HANDLE_text.as_entry [THEN carries_entry_Cons] carries_body;
      (rule TPM2_GetCommandAuditDigest_REQUEST.equality)?; simp add: TPM2_GetCommandAuditDigest_REQUEST_text_ok_def word_simps)
qed

subsection \<open>GetCommandAuditDigestResponse\<close>

definition GetCommandAuditDigestResponse_Serialize :: "GetCommandAuditDigestResponse \<Rightarrow> unit ser" where
  "GetCommandAuditDigestResponse_Serialize self = wseq
     [withN ''auditInfo'' ''TPMS_ATTEST'' ''auditInfoSize'' ''UINT16'' (ser_writeObj ''TPMS_ATTEST'' (TPMS_ATTEST_Serialize (GetCommandAuditDigestResponse_auditInfo self))),
      withN ''signatureSigAlg'' ''TPM_ALG_ID'' '''' '''' (ser_writeEnumT (selector_or TPM_ALG_ID_NULL TPMU_SIGNATURE_GetUnionSelector (GetCommandAuditDigestResponse_signature self)) TPM_ALG_ID_ID),
      if_set (GetCommandAuditDigestResponse_signature self) (\<lambda>u. withN ''signature'' ''TPMU_SIGNATURE'' '''' '''' (ser_writeObj (TPMU_SIGNATURE_TypeName u) (TPMU_SIGNATURE_Serialize u)))]"

definition GetCommandAuditDigestResponse_Deserialize :: "GetCommandAuditDigestResponse \<Rightarrow> GetCommandAuditDigestResponse ser" where
  "GetCommandAuditDigestResponse_Deserialize self =
     sbind (withN ''auditInfo'' ''TPMS_ATTEST'' ''auditInfoSize'' ''UINT16'' (ser_readObj ''TPMS_ATTEST'' (TPMS_ATTEST_Deserialize (GetCommandAuditDigestResponse_auditInfo self)))) (\<lambda>auditInfo.
     sbind (withN ''signatureSigAlg'' ''TPM_ALG_ID'' '''' '''' (ser_readEnumT TPM_ALG_ID_ID)) (\<lambda>signatureSigAlg.
     sbind (reset_or_create UnionFactory_Create_TPMU_SIGNATURE signatureSigAlg) (\<lambda>signature.
     sbind (read_if_set signature (\<lambda>u. withN ''signature'' ''TPMU_SIGNATURE'' '''' '''' (ser_readObj (TPMU_SIGNATURE_TypeName u) (TPMU_SIGNATURE_Deserialize u)))) (\<lambda>signature.
     ret (self\<lparr>GetCommandAuditDigestResponse_auditInfo := auditInfo, GetCommandAuditDigestResponse_signature := signature\<rparr>)))))"

definition GetCommandAuditDigestResponse_text_ok :: "text_class \<Rightarrow> GetCommandAuditDigestResponse \<Rightarrow> bool" where
  "GetCommandAuditDigestResponse_text_ok c x \<longleftrightarrow>
     TPMS_ATTEST_text_ok c (GetCommandAuditDigestResponse_auditInfo x) \<and>
     GetCommandAuditDigestResponse_signature x \<noteq> None \<and>
     enum_ok c (ucast (selector_or TPM_ALG_ID_NULL TPMU_SIGNATURE_GetUnionSelector (GetCommandAuditDigestResponse_signature x))) TPM_ALG_ID_ID \<and>
     if_set_ok (TPMU_SIGNATURE_text_ok c) (GetCommandAuditDigestResponse_signature x)"

interpretation GetCommandAuditDigestResponse_text: text_codec "''GetCommandAuditDigestResponse''" GetCommandAuditDigestResponse_Serialize GetCommandAuditDigestResponse_Deserialize GetCommandAuditDigestResponse_default GetCommandAuditDigestResponse_text_ok
proof
  show "word_ok ''GetCommandAuditDigestResponse''" by (simp add: word_simps)
  fix c x assume ok: "GetCommandAuditDigestResponse_text_ok c x"
  from ok show "carries c True (GetCommandAuditDigestResponse_Serialize x) (GetCommandAuditDigestResponse_Deserialize GetCommandAuditDigestResponse_default) x"
    by (simp only: GetCommandAuditDigestResponse_Serialize_def GetCommandAuditDigestResponse_Deserialize_def GetCommandAuditDigestResponse_default_def
       GetCommandAuditDigestResponse.select_convs GetCommandAuditDigestResponse.update_convs;
      intro TPMS_ATTEST_text.as_entry [THEN carries_entry_Cons] TPMU_SIGNATURE_text.as_member [THEN carries_member_Cons] TPMU_SIGNATURE_text.member_created [of c, THEN carries_create] carries_body;
      (rule GetCommandAuditDigestResponse.equality)?; simp add: GetCommandAuditDigestResponse_text_ok_def word_simps)
qed

subsection \<open>TPM2_GetTime_REQUEST\<close>

definition TPM2_GetTime_REQUEST_Serialize :: "TPM2_GetTime_REQUEST \<Rightarrow> unit ser" where
  "TPM2_GetTime_REQUEST_Serialize self = wseq
     [withN ''privacyAdminHandle'' ''TPM_HANDLE'' '''' '''' (ser_writeObj ''TPM_HANDLE'' (TPM_HANDLE_Serialize (TPM2_GetTime_REQUEST_privacyAdminHandle self))),
      withN ''signHandle'' ''TPM_HANDLE'' '''' '''' (ser_writeObj ''TPM_HANDLE'' (TPM_HANDLE_Serialize (TPM2_GetTime_REQUEST_signHandle self))),
      withN ''qualifyingData'' ''BYTE[]'' ''qualifyingDataSize'' ''UINT16'' (ser_writeSizedByteBuf (TPM2_GetTime_REQUEST_qualifyingData self)),
      withN ''inSchemeScheme'' ''TPM_ALG_ID'' '''' '''' (ser_writeEnumT (selector_or TPM_ALG_ID_NULL TPMU_SIG_SCHEME_GetUnionSelector (TPM2_GetTime_REQUEST_inScheme self)) TPM_ALG_ID_ID),
      if_set (TPM2_GetTime_REQUEST_inScheme self) (\<lambda>u. withN ''inScheme'' ''TPMU_SIG_SCHEME'' '''' '''' (ser_writeObj (TPMU_SIG_SCHEME_TypeName u) (TPMU_SIG_SCHEME_Serialize u)))]"

definition TPM2_GetTime_REQUEST_Deserialize :: "TPM2_GetTime_REQUEST \<Rightarrow> TPM2_GetTime_REQUEST ser" where
  "TPM2_GetTime_REQUEST_Deserialize self =
     sbind (withN ''privacyAdminHandle'' ''TPM_HANDLE'' '''' '''' (ser_readObj ''TPM_HANDLE'' (TPM_HANDLE_Deserialize (TPM2_GetTime_REQUEST_privacyAdminHandle self)))) (\<lambda>privacyAdminHandle.
     sbind (withN ''signHandle'' ''TPM_HANDLE'' '''' '''' (ser_readObj ''TPM_HANDLE'' (TPM_HANDLE_Deserialize (TPM2_GetTime_REQUEST_signHandle self)))) (\<lambda>signHandle.
     sbind (withN ''qualifyingData'' ''BYTE[]'' ''qualifyingDataSize'' ''UINT16'' ser_readSizedByteBuf) (\<lambda>qualifyingData.
     sbind (withN ''inSchemeScheme'' ''TPM_ALG_ID'' '''' '''' (ser_readEnumT TPM_ALG_ID_ID)) (\<lambda>inSchemeScheme.
     sbind (reset_or_create UnionFactory_Create_TPMU_SIG_SCHEME inSchemeScheme) (\<lambda>inScheme.
     sbind (read_if_set inScheme (\<lambda>u. withN ''inScheme'' ''TPMU_SIG_SCHEME'' '''' '''' (ser_readObj (TPMU_SIG_SCHEME_TypeName u) (TPMU_SIG_SCHEME_Deserialize u)))) (\<lambda>inScheme.
     ret (self\<lparr>TPM2_GetTime_REQUEST_privacyAdminHandle := privacyAdminHandle, TPM2_GetTime_REQUEST_signHandle := signHandle, TPM2_GetTime_REQUEST_qualifyingData := qualifyingData, TPM2_GetTime_REQUEST_inScheme := inScheme\<rparr>)))))))"

definition TPM2_GetTime_REQUEST_text_ok :: "text_class \<Rightarrow> TPM2_GetTime_REQUEST \<Rightarrow> bool" where
  "TPM2_GetTime_REQUEST_text_ok c x \<longleftrightarrow>
     TPM_HANDLE_text_ok c (TPM2_GetTime_REQUEST_privacyAdminHandle x) \<and>
     TPM_HANDLE_text_ok c (TPM2_GetTime_REQUEST_signHandle x) \<and>
     length (TPM2_GetTime_REQUEST_qualifyingData x) < 2 ^ 64 \<and>
     TPM2_GetTime_REQUEST_inScheme x \<noteq> None \<and>
     enum_ok c (ucast (selector_or TPM_ALG_ID_NULL TPMU_SIG_SCHEME_GetUnionSelector (TPM2_GetTime_REQUEST_inScheme x))) TPM_ALG_ID_ID \<and>
     if_set_ok (TPMU_SIG_SCHEME_text_ok c) (TPM2_GetTime_REQUEST_inScheme x)"

interpretation TPM2_GetTime_REQUEST_text: text_codec "''TPM2_GetTime_REQUEST''" TPM2_GetTime_REQUEST_Serialize TPM2_GetTime_REQUEST_Deserialize TPM2_GetTime_REQUEST_default TPM2_GetTime_REQUEST_text_ok
proof
  show "word_ok ''TPM2_GetTime_REQUEST''" by (simp add: word_simps)
  fix c x assume ok: "TPM2_GetTime_REQUEST_text_ok c x"
  from ok show "carries c True (TPM2_GetTime_REQUEST_Serialize x) (TPM2_GetTime_REQUEST_Deserialize TPM2_GetTime_REQUEST_default) x"
    by (simp only: TPM2_GetTime_REQUEST_Serialize_def TPM2_GetTime_REQUEST_Deserialize_def TPM2_GetTime_REQUEST_default_def
       TPM2_GetTime_REQUEST.select_convs TPM2_GetTime_REQUEST.update_convs;
      intro TPMU_SIG_SCHEME_text.as_member [THEN carries_member_Cons] TPMU_SIG_SCHEME_text.member_created [of c, THEN carries_create] TPM_HANDLE_text.as_entry [THEN carries_entry_Cons] carries_body;
      (rule TPM2_GetTime_REQUEST.equality)?; simp add: TPM2_GetTime_REQUEST_text_ok_def word_simps)
qed

subsection \<open>GetTimeResponse\<close>

definition GetTimeResponse_Serialize :: "GetTimeResponse \<Rightarrow> unit ser" where
  "GetTimeResponse_Serialize self = wseq
     [withN ''timeInfo'' ''TPMS_ATTEST'' ''timeInfoSize'' ''UINT16'' (ser_writeObj ''TPMS_ATTEST'' (TPMS_ATTEST_Serialize (GetTimeResponse_timeInfo self))),
      withN ''signatureSigAlg'' ''TPM_ALG_ID'' '''' '''' (ser_writeEnumT (selector_or TPM_ALG_ID_NULL TPMU_SIGNATURE_GetUnionSelector (GetTimeResponse_signature self)) TPM_ALG_ID_ID),
      if_set (GetTimeResponse_signature self) (\<lambda>u. withN ''signature'' ''TPMU_SIGNATURE'' '''' '''' (ser_writeObj (TPMU_SIGNATURE_TypeName u) (TPMU_SIGNATURE_Serialize u)))]"

definition GetTimeResponse_Deserialize :: "GetTimeResponse \<Rightarrow> GetTimeResponse ser" where
  "GetTimeResponse_Deserialize self =
     sbind (withN ''timeInfo'' ''TPMS_ATTEST'' ''timeInfoSize'' ''UINT16'' (ser_readObj ''TPMS_ATTEST'' (TPMS_ATTEST_Deserialize (GetTimeResponse_timeInfo self)))) (\<lambda>timeInfo.
     sbind (withN ''signatureSigAlg'' ''TPM_ALG_ID'' '''' '''' (ser_readEnumT TPM_ALG_ID_ID)) (\<lambda>signatureSigAlg.
     sbind (reset_or_create UnionFactory_Create_TPMU_SIGNATURE signatureSigAlg) (\<lambda>signature.
     sbind (read_if_set signature (\<lambda>u. withN ''signature'' ''TPMU_SIGNATURE'' '''' '''' (ser_readObj (TPMU_SIGNATURE_TypeName u) (TPMU_SIGNATURE_Deserialize u)))) (\<lambda>signature.
     ret (self\<lparr>GetTimeResponse_timeInfo := timeInfo, GetTimeResponse_signature := signature\<rparr>)))))"

definition GetTimeResponse_text_ok :: "text_class \<Rightarrow> GetTimeResponse \<Rightarrow> bool" where
  "GetTimeResponse_text_ok c x \<longleftrightarrow>
     TPMS_ATTEST_text_ok c (GetTimeResponse_timeInfo x) \<and>
     GetTimeResponse_signature x \<noteq> None \<and>
     enum_ok c (ucast (selector_or TPM_ALG_ID_NULL TPMU_SIGNATURE_GetUnionSelector (GetTimeResponse_signature x))) TPM_ALG_ID_ID \<and>
     if_set_ok (TPMU_SIGNATURE_text_ok c) (GetTimeResponse_signature x)"

interpretation GetTimeResponse_text: text_codec "''GetTimeResponse''" GetTimeResponse_Serialize GetTimeResponse_Deserialize GetTimeResponse_default GetTimeResponse_text_ok
proof
  show "word_ok ''GetTimeResponse''" by (simp add: word_simps)
  fix c x assume ok: "GetTimeResponse_text_ok c x"
  from ok show "carries c True (GetTimeResponse_Serialize x) (GetTimeResponse_Deserialize GetTimeResponse_default) x"
    by (simp only: GetTimeResponse_Serialize_def GetTimeResponse_Deserialize_def GetTimeResponse_default_def
       GetTimeResponse.select_convs GetTimeResponse.update_convs;
      intro TPMS_ATTEST_text.as_entry [THEN carries_entry_Cons] TPMU_SIGNATURE_text.as_member [THEN carries_member_Cons] TPMU_SIGNATURE_text.member_created [of c, THEN carries_create] carries_body;
      (rule GetTimeResponse.equality)?; simp add: GetTimeResponse_text_ok_def word_simps)
qed

subsection \<open>TPM2_CertifyX509_REQUEST\<close>

definition TPM2_CertifyX509_REQUEST_Serialize :: "TPM2_CertifyX509_REQUEST \<Rightarrow> unit ser" where
  "TPM2_CertifyX509_REQUEST_Serialize self = wseq
     [withN ''objectHandle'' ''TPM_HANDLE'' '''' '''' (ser_writeObj ''TPM_HANDLE'' (TPM_HANDLE_Serialize (TPM2_CertifyX509_REQUEST_objectHandle self))),
      withN ''signHandle'' ''TPM_HANDLE'' '''' '''' (ser_writeObj ''TPM_HANDLE'' (TPM_HANDLE_Serialize (TPM2_CertifyX509_REQUEST_signHandle self))),
      withN ''reserved'' ''BYTE[]'' ''reservedSize'' ''UINT16'' (ser_writeSizedByteBuf (TPM2_CertifyX509_REQUEST_reserved self)),
      withN ''inSchemeScheme'' ''TPM_ALG_ID'' '''' '''' (ser_writeEnumT (selector_or TPM_ALG_ID_NULL TPMU_SIG_SCHEME_GetUnionSelector (TPM2_CertifyX509_REQUEST_inScheme self)) TPM_ALG_ID_ID),
      if_set (TPM2_CertifyX509_REQUEST_inScheme self) (\<lambda>u. withN ''inScheme'' ''TPMU_SIG_SCHEME'' '''' '''' (ser_writeObj (TPMU_SIG_SCHEME_TypeName u) (TPMU_SIG_SCHEME_Serialize u))),
      withN ''partialCertificate'' ''BYTE[]'' ''partialCertificateSize'' ''UINT16'' (ser_writeSizedByteBuf (TPM2_CertifyX509_REQUEST_partialCertificate self))]"

definition TPM2_CertifyX509_REQUEST_Deserialize :: "TPM2_CertifyX509_REQUEST \<Rightarrow> TPM2_CertifyX509_REQUEST ser" where
  "TPM2_CertifyX509_REQUEST_Deserialize self =
     sbind (withN ''objectHandle'' ''TPM_HANDLE'' '''' '''' (ser_readObj ''TPM_HANDLE'' (TPM_HANDLE_Deserialize (TPM2_CertifyX509_REQUEST_objectHandle self)))) (\<lambda>objectHandle.
     sbind (withN ''signHandle'' ''TPM_HANDLE'' '''' '''' (ser_readObj ''TPM_HANDLE'' (TPM_HANDLE_Deserialize (TPM2_CertifyX509_REQUEST_signHandle self)))) (\<lambda>signHandle.
     sbind (withN ''reserved'' ''BYTE[]'' ''reservedSize'' ''UINT16'' ser_readSizedByteBuf) (\<lambda>reserved.
     sbind (withN ''inSchemeScheme'' ''TPM_ALG_ID'' '''' '''' (ser_readEnumT TPM_ALG_ID_ID)) (\<lambda>inSchemeScheme.
     sbind (reset_or_create UnionFactory_Create_TPMU_SIG_SCHEME inSchemeScheme) (\<lambda>inScheme.
     sbind (read_if_set inScheme (\<lambda>u. withN ''inScheme'' ''TPMU_SIG_SCHEME'' '''' '''' (ser_readObj (TPMU_SIG_SCHEME_TypeName u) (TPMU_SIG_SCHEME_Deserialize u)))) (\<lambda>inScheme.
     sbind (withN ''partialCertificate'' ''BYTE[]'' ''partialCertificateSize'' ''UINT16'' ser_readSizedByteBuf) (\<lambda>partialCertificate.
     ret (self\<lparr>TPM2_CertifyX509_REQUEST_objectHandle := objectHandle, TPM2_CertifyX509_REQUEST_signHandle := signHandle, TPM2_CertifyX509_REQUEST_reserved := reserved, TPM2_CertifyX509_REQUEST_inScheme := inScheme, TPM2_CertifyX509_REQUEST_partialCertificate := partialCertificate\<rparr>))))))))"

definition TPM2_CertifyX509_REQUEST_text_ok :: "text_class \<Rightarrow> TPM2_CertifyX509_REQUEST \<Rightarrow> bool" where
  "TPM2_CertifyX509_REQUEST_text_ok c x \<longleftrightarrow>
     TPM_HANDLE_text_ok c (TPM2_CertifyX509_REQUEST_objectHandle x) \<and>
     TPM_HANDLE_text_ok c (TPM2_CertifyX509_REQUEST_signHandle x) \<and>
     length (TPM2_CertifyX509_REQUEST_reserved x) < 2 ^ 64 \<and>
     TPM2_CertifyX509_REQUEST_inScheme x \<noteq> None \<and>
     enum_ok c (ucast (selector_or TPM_ALG_ID_NULL TPMU_SIG_SCHEME_GetUnionSelector (TPM2_CertifyX509_REQUEST_inScheme x))) TPM_ALG_ID_ID \<and>
     if_set_ok (TPMU_SIG_SCHEME_text_ok c) (TPM2_CertifyX509_REQUEST_inScheme x) \<and>
     length (TPM2_CertifyX509_REQUEST_partialCertificate x) < 2 ^ 64"

interpretation TPM2_CertifyX509_REQUEST_text: text_codec "''TPM2_CertifyX509_REQUEST''" TPM2_CertifyX509_REQUEST_Serialize TPM2_CertifyX509_REQUEST_Deserialize TPM2_CertifyX509_REQUEST_default TPM2_CertifyX509_REQUEST_text_ok
proof
  show "word_ok ''TPM2_CertifyX509_REQUEST''" by (simp add: word_simps)
  fix c x assume ok: "TPM2_CertifyX509_REQUEST_text_ok c x"
  from ok show "carries c True (TPM2_CertifyX509_REQUEST_Serialize x) (TPM2_CertifyX509_REQUEST_Deserialize TPM2_CertifyX509_REQUEST_default) x"
    by (simp only: TPM2_CertifyX509_REQUEST_Serialize_def TPM2_CertifyX509_REQUEST_Deserialize_def TPM2_CertifyX509_REQUEST_default_def
       TPM2_CertifyX509_REQUEST.select_convs TPM2_CertifyX509_REQUEST.update_convs;
      intro TPMU_SIG_SCHEME_text.as_member [THEN carries_member_Cons] TPMU_SIG_SCHEME_text.member_created [of c, THEN carries_create] TPM_HANDLE_text.as_entry [THEN carries_entry_Cons] carries_body;
      (rule TPM2_CertifyX509_REQUEST.equality)?; simp add: TPM2_CertifyX509_REQUEST_text_ok_def word_simps)
qed

subsection \<open>CertifyX509Response\<close>

definition CertifyX509Response_Serialize :: "CertifyX509Response \<Rightarrow> unit ser" where
  "CertifyX509Response_Serialize self = wseq
     [withN ''addedToCertificate'' ''BYTE[]'' ''addedToCertificateSize'' ''UINT16'' (ser_writeSizedByteBuf (CertifyX509Response_addedToCertificate self)),
      withN ''tbsDigest'' ''BYTE[]'' ''tbsDigestSize'' ''UINT16'' (ser_writeSizedByteBuf (CertifyX509Response_tbsDigest self)),
      withN ''signatureSigAlg'' ''TPM_ALG_ID'' '''' '''' (ser_writeEnumT (selector_or TPM_ALG_ID_NULL TPMU_SIGNATURE_GetUnionSelector (CertifyX509Response_signature self)) TPM_ALG_ID_ID),
      if_set (CertifyX509Response_signature self) (\<lambda>u. withN ''signature'' ''TPMU_SIGNATURE'' '''' '''' (ser_writeObj (TPMU_SIGNATURE_TypeName u) (TPMU_SIGNATURE_Serialize u)))]"

definition CertifyX509Response_Deserialize :: "CertifyX509Response \<Rightarrow> CertifyX509Response ser" where
  "CertifyX509Response_Deserialize self =
     sbind (withN ''addedToCertificate'' ''BYTE[]'' ''addedToCertificateSize'' ''UINT16'' ser_readSizedByteBuf) (\<lambda>addedToCertificate.
     sbind (withN ''tbsDigest'' ''BYTE[]'' ''tbsDigestSize'' ''UINT16'' ser_readSizedByteBuf) (\<lambda>tbsDigest.
     sbind (withN ''signatureSigAlg'' ''TPM_ALG_ID'' '''' '''' (ser_readEnumT TPM_ALG_ID_ID)) (\<lambda>signatureSigAlg.
     sbind (reset_or_create UnionFactory_Create_TPMU_SIGNATURE signatureSigAlg) (\<lambda>signature.
     sbind (read_if_set signature (\<lambda>u. withN ''signature'' ''TPMU_SIGNATURE'' '''' '''' (ser_readObj (TPMU_SIGNATURE_TypeName u) (TPMU_SIGNATURE_Deserialize u)))) (\<lambda>signature.
     ret (self\<lparr>CertifyX509Response_addedToCertificate := addedToCertificate, CertifyX509Response_tbsDigest := tbsDigest, CertifyX509Response_signature := signature\<rparr>))))))"

definition CertifyX509Response_text_ok :: "text_class \<Rightarrow> CertifyX509Response \<Rightarrow> bool" where
  "CertifyX509Response_text_ok c x \<longleftrightarrow>
     length (CertifyX509Response_addedToCertificate x) < 2 ^ 64 \<and>
     length (CertifyX509Response_tbsDigest x) < 2 ^ 64 \<and>
     CertifyX509Response_signature x \<noteq> None \<and>
     enum_ok c (ucast (selector_or TPM_ALG_ID_NULL TPMU_SIGNATURE_GetUnionSelector (CertifyX509Response_signature x))) TPM_ALG_ID_ID \<and>
     if_set_ok (TPMU_SIGNATURE_text_ok c) (CertifyX509Response_signature x)"

interpretation CertifyX509Response_text: text_codec "''CertifyX509Response''" CertifyX509Response_Serialize CertifyX509Response_Deserialize CertifyX509Response_default CertifyX509Response_text_ok
proof
  show "word_ok ''CertifyX509Response''" by (simp add: word_simps)
  fix c x assume ok: "CertifyX509Response_text_ok c x"
  from ok show "carries c True (CertifyX509Response_Serialize x) (CertifyX509Response_Deserialize CertifyX509Response_default) x"
    by (simp only: CertifyX509Response_Serialize_def CertifyX509Response_Deserialize_def CertifyX509Response_default_def
       CertifyX509Response.select_convs CertifyX509Response.update_convs;
      intro TPMU_SIGNATURE_text.as_member [THEN carries_member_Cons] TPMU_SIGNATURE_text.member_created [of c, THEN carries_create] carries_body;
      (rule CertifyX509Response.equality)?; simp add: CertifyX509Response_text_ok_def word_simps)
qed

subsection \<open>TPM2_Commit_REQUEST\<close>

definition TPM2_Commit_REQUEST_Serialize :: "TPM2_Commit_REQUEST \<Rightarrow> unit ser" where
  "TPM2_Commit_REQUEST_Serialize self = wseq
     [withN ''signHandle'' ''TPM_HANDLE'' '''' '''' (ser_writeObj ''TPM_HANDLE'' (TPM_HANDLE_Serialize (TPM2_Commit_REQUEST_signHandle self))),
      withN ''P1'' ''TPMS_ECC_POINT'' ''P1Size'' ''UINT16'' (ser_writeObj ''TPMS_ECC_POINT'' (TPMS_ECC_POINT_Serialize (TPM2_Commit_REQUEST_P1 self))),
      withN ''s2'' ''BYTE[]'' ''s2Size'' ''UINT16'' (ser_writeSizedByteBuf (TPM2_Commit_REQUEST_s2 self)),
      withN ''y2'' ''BYTE[]'' ''y2Size'' ''UINT16'' (ser_writeSizedByteBuf (TPM2_Commit_REQUEST_y2 self))]"

definition TPM2_Commit_REQUEST_Deserialize :: "TPM2_Commit_REQUEST \<Rightarrow> TPM2_Commit_REQUEST ser" where
  "TPM2_Commit_REQUEST_Deserialize self =
     sbind (withN ''signHandle'' ''TPM_HANDLE'' '''' '''' (ser_readObj ''TPM_HANDLE'' (TPM_HANDLE_Deserialize (TPM2_Commit_REQUEST_signHandle self)))) (\<lambda>signHandle.
     sbind (withN ''P1'' ''TPMS_ECC_POINT'' ''P1Size'' ''UINT16'' (ser_readObj ''TPMS_ECC_POINT'' (TPMS_ECC_POINT_Deserialize (TPM2_Commit_REQUEST_P1 self)))) (\<lambda>P1.
     sbind (withN ''s2'' ''BYTE[]'' ''s2Size'' ''UINT16'' ser_readSizedByteBuf) (\<lambda>s2.
     sbind (withN ''y2'' ''BYTE[]'' ''y2Size'' ''UINT16'' ser_readSizedByteBuf) (\<lambda>y2.
     ret (self\<lparr>TPM2_Commit_REQUEST_signHandle := signHandle, TPM2_Commit_REQUEST_P1 := P1, TPM2_Commit_REQUEST_s2 := s2, TPM2_Commit_REQUEST_y2 := y2\<rparr>)))))"

definition TPM2_Commit_REQUEST_text_ok :: "text_class \<Rightarrow> TPM2_Commit_REQUEST \<Rightarrow> bool" where
  "TPM2_Commit_REQUEST_text_ok c x \<longleftrightarrow>
     TPM_HANDLE_text_ok c (TPM2_Commit_REQUEST_signHandle x) \<and>
     TPMS_ECC_POINT_text_ok c (TPM2_Commit_REQUEST_P1 x) \<and>
     length (TPM2_Commit_REQUEST_s2 x) < 2 ^ 64 \<and>
     length (TPM2_Commit_REQUEST_y2 x) < 2 ^ 64"

interpretation TPM2_Commit_REQUEST_text: text_codec "''TPM2_Commit_REQUEST''" TPM2_Commit_REQUEST_Serialize TPM2_Commit_REQUEST_Deserialize TPM2_Commit_REQUEST_default TPM2_Commit_REQUEST_text_ok
proof
  show "word_ok ''TPM2_Commit_REQUEST''" by (simp add: word_simps)
  fix c x assume ok: "TPM2_Commit_REQUEST_text_ok c x"
  from ok show "carries c True (TPM2_Commit_REQUEST_Serialize x) (TPM2_Commit_REQUEST_Deserialize TPM2_Commit_REQUEST_default) x"
    by (simp only: TPM2_Commit_REQUEST_Serialize_def TPM2_Commit_REQUEST_Deserialize_def TPM2_Commit_REQUEST_default_def
       TPM2_Commit_REQUEST.select_convs TPM2_Commit_REQUEST.update_convs;
      intro TPMS_ECC_POINT_text.as_entry [THEN carries_entry_Cons] TPM_HANDLE_text.as_entry [THEN carries_entry_Cons] carries_body;
      (rule TPM2_Commit_REQUEST.equality)?; simp add: TPM2_Commit_REQUEST_text_ok_def word_simps)
qed

subsection \<open>CommitResponse\<close>

definition CommitResponse_Serialize :: "CommitResponse \<Rightarrow> unit ser" where
  "CommitResponse_Serialize self = wseq
     [withN ''K'' ''TPMS_ECC_POINT'' ''KSize'' ''UINT16'' (ser_writeObj ''TPMS_ECC_POINT'' (TPMS_ECC_POINT_Serialize (CommitResponse_K self))),
      withN ''L'' ''TPMS_ECC_POINT'' ''LSize'' ''UINT16'' (ser_writeObj ''TPMS_ECC_POINT'' (TPMS_ECC_POINT_Serialize (CommitResponse_L self))),
      withN ''E'' ''TPMS_ECC_POINT'' ''ESize'' ''UINT16'' (ser_writeObj ''TPMS_ECC_POINT'' (TPMS_ECC_POINT_Serialize (CommitResponse_E self))),
      withN ''counter'' ''UINT16'' '''' '''' (ser_writeShort (CommitResponse_counter self))]"

definition CommitResponse_Deserialize :: "CommitResponse \<Rightarrow> CommitResponse ser" where
  "CommitResponse_Deserialize self =
     sbind (withN ''K'' ''TPMS_ECC_POINT'' ''KSize'' ''UINT16'' (ser_readObj ''TPMS_ECC_POINT'' (TPMS_ECC_POINT_Deserialize (CommitResponse_K self)))) (\<lambda>K.
     sbind (withN ''L'' ''TPMS_ECC_POINT'' ''LSize'' ''UINT16'' (ser_readObj ''TPMS_ECC_POINT'' (TPMS_ECC_POINT_Deserialize (CommitResponse_L self)))) (\<lambda>L.
     sbind (withN ''E'' ''TPMS_ECC_POINT'' ''ESize'' ''UINT16'' (ser_readObj ''TPMS_ECC_POINT'' (TPMS_ECC_POINT_Deserialize (CommitResponse_E self)))) (\<lambda>E.
     sbind (withN ''counter'' ''UINT16'' '''' '''' ser_readShort) (\<lambda>counter.
     ret (self\<lparr>CommitResponse_K := K, CommitResponse_L := L, CommitResponse_E := E, CommitResponse_counter := counter\<rparr>)))))"

definition CommitResponse_text_ok :: "text_class \<Rightarrow> CommitResponse \<Rightarrow> bool" where
  "CommitResponse_text_ok c x \<longleftrightarrow>
     TPMS_ECC_POINT_text_ok c (CommitResponse_K x) \<and>
     TPMS_ECC_POINT_text_ok c (CommitResponse_L x) \<and>
     TPMS_ECC_POINT_text_ok c (CommitResponse_E x)"

interpretation CommitResponse_text: text_codec "''CommitResponse''" CommitResponse_Serialize CommitResponse_Deserialize CommitResponse_default CommitResponse_text_ok
proof
  show "word_ok ''CommitResponse''" by (simp add: word_simps)
  fix c x assume ok: "CommitResponse_text_ok c x"
  from ok show "carries c True (CommitResponse_Serialize x) (CommitResponse_Deserialize CommitResponse_default) x"
    by (simp only: CommitResponse_Serialize_def CommitResponse_Deserialize_def CommitResponse_default_def
       CommitResponse.select_convs CommitResponse.update_convs;
      intro TPMS_ECC_POINT_text.as_entry [THEN carries_entry_Cons] carries_body;
      (rule CommitResponse.equality)?; simp add: CommitResponse_text_ok_def word_simps)
qed

subsection \<open>TPM2_EC_Ephemeral_REQUEST\<close>

definition TPM2_EC_Ephemeral_REQUEST_Serialize :: "TPM2_EC_Ephemeral_REQUEST \<Rightarrow> unit ser" where
  "TPM2_EC_Ephemeral_REQUEST_Serialize self = wseq
     [withN ''curveID'' ''TPM_ECC_CURVE'' '''' '''' (ser_writeEnumT (TPM2_EC_Ephemeral_REQUEST_curveID self) TPM_ECC_CURVE_ID)]"

definition TPM2_EC_Ephemeral_REQUEST_Deserialize :: "TPM2_EC_Ephemeral_REQUEST \<Rightarrow> TPM2_EC_Ephemeral_REQUEST ser" where
  "TPM2_EC_Ephemeral_REQUEST_Deserialize self =
     sbind (withN ''curveID'' ''TPM_ECC_CURVE'' '''' '''' (ser_readEnumT TPM_ECC_CURVE_ID)) (\<lambda>curveID.
     ret (self\<lparr>TPM2_EC_Ephemeral_REQUEST_curveID := curveID\<rparr>))"

definition TPM2_EC_Ephemeral_REQUEST_text_ok :: "text_class \<Rightarrow> TPM2_EC_Ephemeral_REQUEST \<Rightarrow> bool" where
  "TPM2_EC_Ephemeral_REQUEST_text_ok c x \<longleftrightarrow>
     enum_ok c (ucast (TPM2_EC_Ephemeral_REQUEST_curveID x)) TPM_ECC_CURVE_ID"

interpretation TPM2_EC_Ephemeral_REQUEST_text: text_codec "''TPM2_EC_Ephemeral_REQUEST''" TPM2_EC_Ephemeral_REQUEST_Serialize TPM2_EC_Ephemeral_REQUEST_Deserialize TPM2_EC_Ephemeral_REQUEST_default TPM2_EC_Ephemeral_REQUEST_text_ok
proof
  show "word_ok ''TPM2_EC_Ephemeral_REQUEST''" by (simp add: word_simps)
  fix c x assume ok: "TPM2_EC_Ephemeral_REQUEST_text_ok c x"
  from ok show "carries c True (TPM2_EC_Ephemeral_REQUEST_Serialize x) (TPM2_EC_Ephemeral_REQUEST_Deserialize TPM2_EC_Ephemeral_REQUEST_default) x"
    by (simp only: TPM2_EC_Ephemeral_REQUEST_Serialize_def TPM2_EC_Ephemeral_REQUEST_Deserialize_def TPM2_EC_Ephemeral_REQUEST_default_def
       TPM2_EC_Ephemeral_REQUEST.select_convs TPM2_EC_Ephemeral_REQUEST.update_convs;
      intro carries_body;
      (rule TPM2_EC_Ephemeral_REQUEST.equality)?; simp add: TPM2_EC_Ephemeral_REQUEST_text_ok_def word_simps)
qed

subsection \<open>EC_EphemeralResponse\<close>

definition EC_EphemeralResponse_Serialize :: "EC_EphemeralResponse \<Rightarrow> unit ser" where
  "EC_EphemeralResponse_Serialize self = wseq
     [withN ''Q'' ''TPMS_ECC_POINT'' ''QSize'' ''UINT16'' (ser_writeObj ''TPMS_ECC_POINT'' (TPMS_ECC_POINT_Serialize (EC_EphemeralResponse_Q self))),
      withN ''counter'' ''UINT16'' '''' '''' (ser_writeShort (EC_EphemeralResponse_counter self))]"

definition EC_EphemeralResponse_Deserialize :: "EC_EphemeralResponse \<Rightarrow> EC_EphemeralResponse ser" where
  "EC_EphemeralResponse_Deserialize self =
     sbind (withN ''Q'' ''TPMS_ECC_POINT'' ''QSize'' ''UINT16'' (ser_readObj ''TPMS_ECC_POINT'' (TPMS_ECC_POINT_Deserialize (EC_EphemeralResponse_Q self)))) (\<lambda>Q.
     sbind (withN ''counter'' ''UINT16'' '''' '''' ser_readShort) (\<lambda>counter.
     ret (self\<lparr>EC_EphemeralResponse_Q := Q, EC_EphemeralResponse_counter := counter\<rparr>)))"

definition EC_EphemeralResponse_text_ok :: "text_class \<Rightarrow> EC_EphemeralResponse \<Rightarrow> bool" where
  "EC_EphemeralResponse_text_ok c x \<longleftrightarrow>
     TPMS_ECC_POINT_text_ok c (EC_EphemeralResponse_Q x)"

interpretation EC_EphemeralResponse_text: text_codec "''EC_EphemeralResponse''" EC_EphemeralResponse_Serialize EC_EphemeralResponse_Deserialize EC_EphemeralResponse_default EC_EphemeralResponse_text_ok
proof
  show "word_ok ''EC_EphemeralResponse''" by (simp add: word_simps)
  fix c x assume ok: "EC_EphemeralResponse_text_ok c x"
  from ok show "carries c True (EC_EphemeralResponse_Serialize x) (EC_EphemeralResponse_Deserialize EC_EphemeralResponse_default) x"
    by (simp only: EC_EphemeralResponse_Serialize_def EC_EphemeralResponse_Deserialize_def EC_EphemeralResponse_default_def
       EC_EphemeralResponse.select_convs EC_EphemeralResponse.update_convs;
      intro TPMS_ECC_POINT_text.as_entry [THEN carries_entry_Cons] carries_body;
      (rule EC_EphemeralResponse.equality)?; simp add: EC_EphemeralResponse_text_ok_def word_simps)
qed

subsection \<open>TPM2_VerifySignature_REQUEST\<close>

definition TPM2_VerifySignature_REQUEST_Serialize :: "TPM2_VerifySignature_REQUEST \<Rightarrow> unit ser" where
  "TPM2_VerifySignature_REQUEST_Serialize self = wseq
     [withN ''keyHandle'' ''TPM_HANDLE'' '''' '''' (ser_writeObj ''TPM_HANDLE'' (TPM_HANDLE_Serialize (TPM2_VerifySignature_REQUEST_keyHandle self))),
      withN ''digest'' ''BYTE[]'' ''digestSize'' ''UINT16'' (ser_writeSizedByteBuf (TPM2_VerifySignature_REQUEST_digest self)),
      withN ''signatureSigAlg'' ''TPM_ALG_ID'' '''' '''' (ser_writeEnumT (selector_or TPM_ALG_ID_NULL TPMU_SIGNATURE_GetUnionSelector (TPM2_VerifySignature_REQUEST_signature self)) TPM_ALG_ID_ID),
      if_set (TPM2_VerifySignature_REQUEST_signature self) (\<lambda>u. withN ''signature'' ''TPMU_SIGNATURE'' '''' '''' (ser_writeObj (TPMU_SIGNATURE_TypeName u) (TPMU_SIGNATURE_Serialize u)))]"

definition TPM2_VerifySignature_REQUEST_Deserialize :: "TPM2_VerifySignature_REQUEST \<Rightarrow> TPM2_VerifySignature_REQUEST ser" where
  "TPM2_VerifySignature_REQUEST_Deserialize self =
     sbind (withN ''keyHandle'' ''TPM_HANDLE'' '''' '''' (ser_readObj ''TPM_HANDLE'' (TPM_HANDLE_Deserialize (TPM2_VerifySignature_REQUEST_keyHandle self)))) (\<lambda>keyHandle.
     sbind (withN ''digest'' ''BYTE[]'' ''digestSize'' ''UINT16'' ser_readSizedByteBuf) (\<lambda>digest.
     sbind (withN ''signatureSigAlg'' ''TPM_ALG_ID'' '''' '''' (ser_readEnumT TPM_ALG_ID_ID)) (\<lambda>signatureSigAlg.
     sbind (reset_or_create UnionFactory_Create_TPMU_SIGNATURE signatureSigAlg) (\<lambda>signature.
     sbind (read_if_set signature (\<lambda>u. withN ''signature'' ''TPMU_SIGNATURE'' '''' '''' (ser_readObj (TPMU_SIGNATURE_TypeName u) (TPMU_SIGNATURE_Deserialize u)))) (\<lambda>signature.
     ret (self\<lparr>TPM2_VerifySignature_REQUEST_keyHandle := keyHandle, TPM2_VerifySignature_REQUEST_digest := digest, TPM2_VerifySignature_REQUEST_signature := signature\<rparr>))))))"

definition TPM2_VerifySignature_REQUEST_text_ok :: "text_class \<Rightarrow> TPM2_VerifySignature_REQUEST \<Rightarrow> bool" where
  "TPM2_VerifySignature_REQUEST_text_ok c x \<longleftrightarrow>
     TPM_HANDLE_text_ok c (TPM2_VerifySignature_REQUEST_keyHandle x) \<and>
     length (TPM2_VerifySignature_REQUEST_digest x) < 2 ^ 64 \<and>
     TPM2_VerifySignature_REQUEST_signature x \<noteq> None \<and>
     enum_ok c (ucast (selector_or TPM_ALG_ID_NULL TPMU_SIGNATURE_GetUnionSelector (TPM2_VerifySignature_REQUEST_signature x))) TPM_ALG_ID_ID \<and>
     if_set_ok (TPMU_SIGNATURE_text_ok c) (TPM2_VerifySignature_REQUEST_signature x)"

interpretation TPM2_VerifySignature_REQUEST_text: text_codec "''TPM2_VerifySignature_REQUEST''" TPM2_VerifySignature_REQUEST_Serialize TPM2_VerifySignature_REQUEST_Deserialize TPM2_VerifySignature_REQUEST_default TPM2_VerifySignature_REQUEST_text_ok
proof
  show "word_ok ''TPM2_VerifySignature_REQUEST''" by (simp add: word_simps)
  fix c x assume ok: "TPM2_VerifySignature_REQUEST_text_ok c x"
  from ok show "carries c True (TPM2_VerifySignature_REQUEST_Serialize x) (TPM2_VerifySignature_REQUEST_Deserialize TPM2_VerifySignature_REQUEST_default) x"
    by (simp only: TPM2_VerifySignature_REQUEST_Serialize_def TPM2_VerifySignature_REQUEST_Deserialize_def TPM2_VerifySignature_REQUEST_default_def
       TPM2_VerifySignature_REQUEST.select_convs TPM2_VerifySignature_REQUEST.update_convs;
      intro TPMU_SIGNATURE_text.as_member [THEN carries_member_Cons] TPMU_SIGNATURE_text.member_created [of c, THEN carries_create] TPM_HANDLE_text.as_entry [THEN carries_entry_Cons] carries_body;
      (rule TPM2_VerifySignature_REQUEST.equality)?; simp add: TPM2_VerifySignature_REQUEST_text_ok_def word_simps)
qed

subsection \<open>VerifySignatureResponse\<close>

definition VerifySignatureResponse_Serialize :: "VerifySignatureResponse \<Rightarrow> unit ser" where
  "VerifySignatureResponse_Serialize self = wseq
     [withN ''validation'' ''TPMT_TK_VERIFIED'' '''' '''' (ser_writeObj ''TPMT_TK_VERIFIED'' (TPMT_TK_VERIFIED_Serialize (VerifySignatureResponse_validation self)))]"

definition VerifySignatureResponse_Deserialize :: "VerifySignatureResponse \<Rightarrow> VerifySignatureResponse ser" where
  "VerifySignatureResponse_Deserialize self =
     sbind (withN ''validation'' ''TPMT_TK_VERIFIED'' '''' '''' (ser_readObj ''TPMT_TK_VERIFIED'' (TPMT_TK_VERIFIED_Deserialize (VerifySignatureResponse_validation self)))) (\<lambda>validation.
     ret (self\<lparr>VerifySignatureResponse_validation := validation\<rparr>))"

definition VerifySignatureResponse_text_ok :: "text_class \<Rightarrow> VerifySignatureResponse \<Rightarrow> bool" where
  "VerifySignatureResponse_text_ok c x \<longleftrightarrow>
     TPMT_TK_VERIFIED_text_ok c (VerifySignatureResponse_validation x)"

interpretation VerifySignatureResponse_text: text_codec "''VerifySignatureResponse''" VerifySignatureResponse_Serialize VerifySignatureResponse_Deserialize VerifySignatureResponse_default VerifySignatureResponse_text_ok
proof
  show "word_ok ''VerifySignatureResponse''" by (simp add: word_simps)
  fix c x assume ok: "VerifySignatureResponse_text_ok c x"
  from ok show "carries c True (VerifySignatureResponse_Serialize x) (VerifySignatureResponse_Deserialize VerifySignatureResponse_default) x"
    by (simp only: VerifySignatureResponse_Serialize_def VerifySignatureResponse_Deserialize_def VerifySignatureResponse_default_def
       VerifySignatureResponse.select_convs VerifySignatureResponse.update_convs;
      intro TPMT_TK_VERIFIED_text.as_entry [THEN carries_entry_Cons] carries_body;
      (rule VerifySignatureResponse.equality)?; simp add: VerifySignatureResponse_text_ok_def word_simps)
qed

subsection \<open>TPM2_Sign_REQUEST\<close>

definition TPM2_Sign_REQUEST_Serialize :: "TPM2_Sign_REQUEST \<Rightarrow> unit ser" where
  "TPM2_Sign_REQUEST_Serialize self = wseq
     [withN ''keyHandle'' ''TPM_HANDLE'' '''' '''' (ser_writeObj ''TPM_HANDLE'' (TPM_HANDLE_Serialize (TPM2_Sign_REQUEST_keyHandle self))),
      withN ''digest'' ''BYTE[]'' ''digestSize'' ''UINT16'' (ser_writeSizedByteBuf (TPM2_Sign_REQUEST_digest self)),
      withN ''inSchemeScheme'' ''TPM_ALG_ID'' '''' '''' (ser_writeEnumT (selector_or TPM_ALG_ID_NULL TPMU_SIG_SCHEME_GetUnionSelector (TPM2_Sign_REQUEST_inScheme self)) TPM_ALG_ID_ID),
      if_set (TPM2_Sign_REQUEST_inScheme self) (\<lambda>u. withN ''inScheme'' ''TPMU_SIG_SCHEME'' '''' '''' (ser_writeObj (TPMU_SIG_SCHEME_TypeName u) (TPMU_SIG_SCHEME_Serialize u))),
      withN ''validation'' ''TPMT_TK_HASHCHECK'' '''' '''' (ser_writeObj ''TPMT_TK_HASHCHECK'' (TPMT_TK_HASHCHECK_Serialize (TPM2_Sign_REQUEST_validation self)))]"

definition TPM2_Sign_REQUEST_Deserialize :: "TPM2_Sign_REQUEST \<Rightarrow> TPM2_Sign_REQUEST ser" where
  "TPM2_Sign_REQUEST_Deserialize self =
     sbind (withN ''keyHandle'' ''TPM_HANDLE'' '''' '''' (ser_readObj ''TPM_HANDLE'' (TPM_HANDLE_Deserialize (TPM2_Sign_REQUEST_keyHandle self)))) (\<lambda>keyHandle.
     sbind (withN ''digest'' ''BYTE[]'' ''digestSize'' ''UINT16'' ser_readSizedByteBuf) (\<lambda>digest.
     sbind (withN ''inSchemeScheme'' ''TPM_ALG_ID'' '''' '''' (ser_readEnumT TPM_ALG_ID_ID)) (\<lambda>inSchemeScheme.
     sbind (reset_or_create UnionFactory_Create_TPMU_SIG_SCHEME inSchemeScheme) (\<lambda>inScheme.
     sbind (read_if_set inScheme (\<lambda>u. withN ''inScheme'' ''TPMU_SIG_SCHEME'' '''' '''' (ser_readObj (TPMU_SIG_SCHEME_TypeName u) (TPMU_SIG_SCHEME_Deserialize u)))) (\<lambda>inScheme.
     sbind (withN ''validation'' ''TPMT_TK_HASHCHECK'' '''' '''' (ser_readObj ''TPMT_TK_HASHCHECK'' (TPMT_TK_HASHCHECK_Deserialize (TPM2_Sign_REQUEST_validation self)))) (\<lambda>validation.
     ret (self\<lparr>TPM2_Sign_REQUEST_keyHandle := keyHandle, TPM2_Sign_REQUEST_digest := digest, TPM2_Sign_REQUEST_inScheme := inScheme, TPM2_Sign_REQUEST_validation := validation\<rparr>)))))))"

definition TPM2_Sign_REQUEST_text_ok :: "text_class \<Rightarrow> TPM2_Sign_REQUEST \<Rightarrow> bool" where
  "TPM2_Sign_REQUEST_text_ok c x \<longleftrightarrow>
     TPM_HANDLE_text_ok c (TPM2_Sign_REQUEST_keyHandle x) \<and>
     length (TPM2_Sign_REQUEST_digest x) < 2 ^ 64 \<and>
     TPM2_Sign_REQUEST_inScheme x \<noteq> None \<and>
     enum_ok c (ucast (selector_or TPM_ALG_ID_NULL TPMU_SIG_SCHEME_GetUnionSelector (TPM2_Sign_REQUEST_inScheme x))) TPM_ALG_ID_ID \<and>
     if_set_ok (TPMU_SIG_SCHEME_text_ok c) (TPM2_Sign_REQUEST_inScheme x) \<and>
     TPMT_TK_HASHCHECK_text_ok c (TPM2_Sign_REQUEST_validation x)"

interpretation TPM2_Sign_REQUEST_text: text_codec "''TPM2_Sign_REQUEST''" TPM2_Sign_REQUEST_Serialize TPM2_Sign_REQUEST_Deserialize TPM2_Sign_REQUEST_default TPM2_Sign_REQUEST_text_ok
proof
  show "word_ok ''TPM2_Sign_REQUEST''" by (simp add: word_simps)
  fix c x assume ok: "TPM2_Sign_REQUEST_text_ok c x"
  from ok show "carries c True (TPM2_Sign_REQUEST_Serialize x) (TPM2_Sign_REQUEST_Deserialize TPM2_Sign_REQUEST_default) x"
    by (simp only: TPM2_Sign_REQUEST_Serialize_def TPM2_Sign_REQUEST_Deserialize_def TPM2_Sign_REQUEST_default_def
       TPM2_Sign_REQUEST.select_convs TPM2_Sign_REQUEST.update_convs;
      intro TPMT_TK_HASHCHECK_text.as_entry [THEN carries_entry_Cons] TPMU_SIG_SCHEME_text.as_member [THEN carries_member_Cons] TPMU_SIG_SCHEME_text.member_created [of c, THEN carries_create] TPM_HANDLE_text.as_entry [THEN carries_entry_Cons] carries_body;
      (rule TPM2_Sign_REQUEST.equality)?; simp add: TPM2_Sign_REQUEST_text_ok_def word_simps)
qed

subsection \<open>SignResponse\<close>

definition SignResponse_Serialize :: "SignResponse \<Rightarrow> unit ser" where
  "SignResponse_Serialize self = wseq
     [withN ''signatureSigAlg'' ''TPM_ALG_ID'' '''' '''' (ser_writeEnumT (selector_or TPM_ALG_ID_NULL TPMU_SIGNATURE_GetUnionSelector (SignResponse_signature self)) TPM_ALG_ID_ID),
      if_set (SignResponse_signature self) (\<lambda>u. withN ''signature'' ''TPMU_SIGNATURE'' '''' '''' (ser_writeObj (TPMU_SIGNATURE_TypeName u) (TPMU_SIGNATURE_Serialize u)))]"

definition SignResponse_Deserialize :: "SignResponse \<Rightarrow> SignResponse ser" where
  "SignResponse_Deserialize self =
     sbind (withN ''signatureSigAlg'' ''TPM_ALG_ID'' '''' '''' (ser_readEnumT TPM_ALG_ID_ID)) (\<lambda>signatureSigAlg.
     sbind (reset_or_create UnionFactory_Create_TPMU_SIGNATURE signatureSigAlg) (\<lambda>signature.
     sbind (read_if_set signature (\<lambda>u. withN ''signature'' ''TPMU_SIGNATURE'' '''' '''' (ser_readObj (TPMU_SIGNATURE_TypeName u) (TPMU_SIGNATURE_Deserialize u)))) (\<lambda>signature.
     ret (self\<lparr>SignResponse_signature := signature\<rparr>))))"

definition SignResponse_text_ok :: "text_class \<Rightarrow> SignResponse \<Rightarrow> bool" where
  "SignResponse_text_ok c x \<longleftrightarrow>
     SignResponse_signature x \<noteq> None \<and>
     enum_ok c (ucast (selector_or TPM_ALG_ID_NULL TPMU_SIGNATURE_GetUnionSelector (SignResponse_signature x))) TPM_ALG_ID_ID \<and>
     if_set_ok (TPMU_SIGNATURE_text_ok c) (SignResponse_signature x)"

interpretation SignResponse_text: text_codec "''SignResponse''" SignResponse_Serialize SignResponse_Deserialize SignResponse_default SignResponse_text_ok
proof
  show "word_ok ''SignResponse''" by (simp add: word_simps)
  fix c x assume ok: "SignResponse_text_ok c x"
  from ok show "carries c True (SignResponse_Serialize x) (SignResponse_Deserialize SignResponse_default) x"
    by (simp only: SignResponse_Serialize_def SignResponse_Deserialize_def SignResponse_default_def
       SignResponse.select_convs SignResponse.update_convs;
      intro TPMU_SIGNATURE_text.as_member [THEN carries_member_Cons] TPMU_SIGNATURE_text.member_created [of c, THEN carries_create] carries_body;
      (rule SignResponse.equality)?; simp add: SignResponse_text_ok_def word_simps)
qed

subsection \<open>TPM2_SetCommandCodeAuditStatus_REQUEST\<close>

definition TPM2_SetCommandCodeAuditStatus_REQUEST_Serialize :: "TPM2_SetCommandCodeAuditStatus_REQUEST \<Rightarrow> unit ser" where
  "TPM2_SetCommandCodeAuditStatus_REQUEST_Serialize self = wseq
     [withN ''auth'' ''TPM_HANDLE'' '''' '''' (ser_writeObj ''TPM_HANDLE'' (TPM_HANDLE_Serialize (TPM2_SetCommandCodeAuditStatus_REQUEST_auth self))),
      withN ''auditAlg'' ''TPM_ALG_ID'' '''' '''' (ser_writeEnumT (TPM2_SetCommandCodeAuditStatus_REQUEST_auditAlg self) TPM_ALG_ID_ID),
      withN ''setList'' ''TPM_CC[]'' ''setListCount'' ''UINT32'' (ser_writeEnumArr (map ucast (TPM2_SetCommandCodeAuditStatus_REQUEST_setList self)) 4 TPM_CC_ID),
      withN ''clearList'' ''TPM_CC[]'' ''clearListCount'' ''UINT32'' (ser_writeEnumArr (map ucast (TPM2_SetCommandCodeAuditStatus_REQUEST_clearList self)) 4 TPM_CC_ID)]"

definition TPM2_SetCommandCodeAuditStatus_REQUEST_Deserialize :: "TPM2_SetCommandCodeAuditStatus_REQUEST \<Rightarrow> TPM2_SetCommandCodeAuditStatus_REQUEST ser" where
  "TPM2_SetCommandCodeAuditStatus_REQUEST_Deserialize self =
     sbind (withN ''auth'' ''TPM_HANDLE'' '''' '''' (ser_readObj ''TPM_HANDLE'' (TPM_HANDLE_Deserialize (TPM2_SetCommandCodeAuditStatus_REQUEST_auth self)))) (\<lambda>auth.
     sbind (withN ''auditAlg'' ''TPM_ALG_ID'' '''' '''' (ser_readEnumT TPM_ALG_ID_ID)) (\<lambda>auditAlg.
     sbind (withN ''setList'' ''TPM_CC[]'' ''setListCount'' ''UINT32'' (ser_readEnumArr (TPM2_SetCommandCodeAuditStatus_REQUEST_setList self) 4 TPM_CC_ID)) (\<lambda>setList.
     sbind (withN ''clearList'' ''TPM_CC[]'' ''clearListCount'' ''UINT32'' (ser_readEnumArr (TPM2_SetCommandCodeAuditStatus_REQUEST_clearList self) 4 TPM_CC_ID)) (\<lambda>clearList.
     ret (self\<lparr>TPM2_SetCommandCodeAuditStatus_REQUEST_auth := auth, TPM2_SetCommandCodeAuditStatus_REQUEST_auditAlg := auditAlg, TPM2_SetCommandCodeAuditStatus_REQUEST_setList := setList, TPM2_SetCommandCodeAuditStatus_REQUEST_clearList := clearList\<rparr>)))))"

subsection \<open>TPM2_PCR_Extend_REQUEST\<close>

definition TPM2_PCR_Extend_REQUEST_Serialize :: "TPM2_PCR_Extend_REQUEST \<Rightarrow> unit ser" where
  "TPM2_PCR_Extend_REQUEST_Serialize self = wseq
     [withN ''pcrHandle'' ''TPM_HANDLE'' '''' '''' (ser_writeObj ''TPM_HANDLE'' (TPM_HANDLE_Serialize (TPM2_PCR_Extend_REQUEST_pcrHandle self))),
      withN ''digests'' ''TPMT_HA[]'' ''digestsCount'' ''UINT32'' (ser_writeObjArr ''TPMT_HA'' TPMT_HA_Serialize (TPM2_PCR_Extend_REQUEST_digests self))]"

definition TPM2_PCR_Extend_REQUEST_Deserialize :: "TPM2_PCR_Extend_REQUEST \<Rightarrow> TPM2_PCR_Extend_REQUEST ser" where
  "TPM2_PCR_Extend_REQUEST_Deserialize self =
     sbind (withN ''pcrHandle'' ''TPM_HANDLE'' '''' '''' (ser_readObj ''TPM_HANDLE'' (TPM_HANDLE_Deserialize (TPM2_PCR_Extend_REQUEST_pcrHandle self)))) (\<lambda>pcrHandle.
     sbind (withN ''digests'' ''TPMT_HA[]'' ''digestsCount'' ''UINT32'' (ser_readObjArr ''TPMT_HA'' TPMT_HA_Deserialize TPMT_HA_default (TPM2_PCR_Extend_REQUEST_digests self))) (\<lambda>digests.
     ret (self\<lparr>TPM2_PCR_Extend_REQUEST_pcrHandle := pcrHandle, TPM2_PCR_Extend_REQUEST_digests := digests\<rparr>)))"

definition TPM2_PCR_Extend_REQUEST_text_ok :: "text_class \<Rightarrow> TPM2_PCR_Extend_REQUEST \<Rightarrow> bool" where
  "TPM2_PCR_Extend_REQUEST_text_ok c x \<longleftrightarrow>
     TPM_HANDLE_text_ok c (TPM2_PCR_Extend_REQUEST_pcrHandle x) \<and>
     length (TPM2_PCR_Extend_REQUEST_digests x) < 2 ^ 64 \<and> (\<forall>y \<in> set (TPM2_PCR_Extend_REQUEST_digests x). TPMT_HA_text_ok c y)"

interpretation TPM2_PCR_Extend_REQUEST_text: text_codec "''TPM2_PCR_Extend_REQUEST''" TPM2_PCR_Extend_REQUEST_Serialize TPM2_PCR_Extend_REQUEST_Deserialize TPM2_PCR_Extend_REQUEST_default TPM2_PCR_Extend_REQUEST_text_ok
proof
  show "word_ok ''TPM2_PCR_Extend_REQUEST''" by (simp add: word_simps)
  fix c x assume ok: "TPM2_PCR_Extend_REQUEST_text_ok c x"
  from ok show "carries c True (TPM2_PCR_Extend_REQUEST_Serialize x) (TPM2_PCR_Extend_REQUEST_Deserialize TPM2_PCR_Extend_REQUEST_default) x"
    by (simp only: TPM2_PCR_Extend_REQUEST_Serialize_def TPM2_PCR_Extend_REQUEST_Deserialize_def TPM2_PCR_Extend_REQUEST_default_def
       TPM2_PCR_Extend_REQUEST.select_convs TPM2_PCR_Extend_REQUEST.update_convs;
      intro TPMT_HA_text.as_elements [THEN carries_entry_Cons] TPM_HANDLE_text.as_entry [THEN carries_entry_Cons] carries_body;
      (rule TPM2_PCR_Extend_REQUEST.equality)?; simp add: TPM2_PCR_Extend_REQUEST_text_ok_def word_simps)
qed

subsection \<open>TPM2_PCR_Event_REQUEST\<close>

definition TPM2_PCR_Event_REQUEST_Serialize :: "TPM2_PCR_Event_REQUEST \<Rightarrow> unit ser" where
  "TPM2_PCR_Event_REQUEST_Serialize self = wseq
     [withN ''pcrHandle'' ''TPM_HANDLE'' '''' '''' (ser_writeObj ''TPM_HANDLE'' (TPM_HANDLE_Serialize (TPM2_PCR_Event_REQUEST_pcrHandle self))),
      withN ''eventData'' ''BYTE[]'' ''eventDataSize'' ''UINT16'' (ser_writeSizedByteBuf (TPM2_PCR_Event_REQUEST_eventData self))]"

definition TPM2_PCR_Event_REQUEST_Deserialize :: "TPM2_PCR_Event_REQUEST \<Rightarrow> TPM2_PCR_Event_REQUEST ser" where
  "TPM2_PCR_Event_REQUEST_Deserialize self =
     sbind (withN ''pcrHandle'' ''TPM_HANDLE'' '''' '''' (ser_readObj ''TPM_HANDLE'' (TPM_HANDLE_Deserialize (TPM2_PCR_Event_REQUEST_pcrHandle self)))) (\<lambda>pcrHandle.
     sbind (withN ''eventData'' ''BYTE[]'' ''eventDataSize'' ''UINT16'' ser_readSizedByteBuf) (\<lambda>eventData.
     ret (self\<lparr>TPM2_PCR_Event_REQUEST_pcrHandle := pcrHandle, TPM2_PCR_Event_REQUEST_eventData := eventData\<rparr>)))"

definition TPM2_PCR_Event_REQUEST_text_ok :: "text_class \<Rightarrow> TPM2_PCR_Event_REQUEST \<Rightarrow> bool" where
  "TPM2_PCR_Event_REQUEST_text_ok c x \<longleftrightarrow>
     TPM_HANDLE_text_ok c (TPM2_PCR_Event_REQUEST_pcrHandle x) \<and>
     length (TPM2_PCR_Event_REQUEST_eventData x) < 2 ^ 64"

interpretation TPM2_PCR_Event_REQUEST_text: text_codec "''TPM2_PCR_Event_REQUEST''" TPM2_PCR_Event_REQUEST_Serialize TPM2_PCR_Event_REQUEST_Deserialize TPM2_PCR_Event_REQUEST_default TPM2_PCR_Event_REQUEST_text_ok
proof
  show "word_ok ''TPM2_PCR_Event_REQUEST''" by (simp add: word_simps)
  fix c x assume ok: "TPM2_PCR_Event_REQUEST_text_ok c x"
  from ok show "carries c True (TPM2_PCR_Event_REQUEST_Serialize x) (TPM2_PCR_Event_REQUEST_Deserialize TPM2_PCR_Event_REQUEST_default) x"
    by (simp only: TPM2_PCR_Event_REQUEST_Serialize_def TPM2_PCR_Event_REQUEST_Deserialize_def TPM2_PCR_Event_REQUEST_default_def
       TPM2_PCR_Event_REQUEST.select_convs TPM2_PCR_Event_REQUEST.update_convs;
      intro TPM_HANDLE_text.as_entry [THEN carries_entry_Cons] carries_body;
      (rule TPM2_PCR_Event_REQUEST.equality)?; simp add: TPM2_PCR_Event_REQUEST_text_ok_def word_simps)
qed

subsection \<open>PCR_EventResponse\<close>

definition PCR_EventResponse_Serialize :: "PCR_EventResponse \<Rightarrow> unit ser" where
  "PCR_EventResponse_Serialize self = wseq
     [withN ''digests'' ''TPMT_HA[]'' ''digestsCount'' ''UINT32'' (ser_writeObjArr ''TPMT_HA'' TPMT_HA_Serialize (PCR_EventResponse_digests self))]"

definition PCR_EventResponse_Deserialize :: "PCR_EventResponse \<Rightarrow> PCR_EventResponse ser" where
  "PCR_EventResponse_Deserialize self =
     sbind (withN ''digests'' ''TPMT_HA[]'' ''digestsCount'' ''UINT32'' (ser_readObjArr ''TPMT_HA'' TPMT_HA_Deserialize TPMT_HA_default (PCR_EventResponse_digests self))) (\<lambda>digests.
     ret (self\<lparr>PCR_EventResponse_digests := digests\<rparr>))"

definition PCR_EventResponse_text_ok :: "text_class \<Rightarrow> PCR_EventResponse \<Rightarrow> bool" where
  "PCR_EventResponse_text_ok c x \<longleftrightarrow>
     length (PCR_EventResponse_digests x) < 2 ^ 64 \<and> (\<forall>y \<in> set (PCR_EventResponse_digests x). TPMT_HA_text_ok c y)"

interpretation PCR_EventResponse_text: text_codec "''PCR_EventResponse''" PCR_EventResponse_Serialize PCR_EventResponse_Deserialize PCR_EventResponse_default PCR_EventResponse_text_ok
proof
  show "word_ok ''PCR_EventResponse''" by (simp add: word_simps)
  fix c x assume ok: "PCR_EventResponse_text_ok c x"
  from ok show "carries c True (PCR_EventResponse_Serialize x) (PCR_EventResponse_Deserialize PCR_EventResponse_default) x"
    by (simp only: PCR_EventResponse_Serialize_def PCR_EventResponse_Deserialize_def PCR_EventResponse_default_def
       PCR_EventResponse.select_convs PCR_EventResponse.update_convs;
      intro TPMT_HA_text.as_elements [THEN carries_entry_Cons] carries_body;
      (rule PCR_EventResponse.equality)?; simp add: PCR_EventResponse_text_ok_def word_simps)
qed

subsection \<open>TPM2_PCR_Read_REQUEST\<close>

definition TPM2_PCR_Read_REQUEST_Serialize :: "TPM2_PCR_Read_REQUEST \<Rightarrow> unit ser" where
  "TPM2_PCR_Read_REQUEST_Serialize self = wseq
     [withN ''pcrSelectionIn'' ''TPMS_PCR_SELECTION[]'' ''pcrSelectionInCount'' ''UINT32'' (ser_writeObjArr ''TPMS_PCR_SELECTION'' TPMS_PCR_SELECTION_Serialize (TPM2_PCR_Read_REQUEST_pcrSelectionIn self))]"

definition TPM2_PCR_Read_REQUEST_Deserialize :: "TPM2_PCR_Read_REQUEST \<Rightarrow> TPM2_PCR_Read_REQUEST ser" where
  "TPM2_PCR_Read_REQUEST_Deserialize self =
     sbind (withN ''pcrSelectionIn'' ''TPMS_PCR_SELECTION[]'' ''pcrSelectionInCount'' ''UINT32'' (ser_readObjArr ''TPMS_PCR_SELECTION'' TPMS_PCR_SELECTION_Deserialize TPMS_PCR_SELECTION_default (TPM2_PCR_Read_REQUEST_pcrSelectionIn self))) (\<lambda>pcrSelectionIn.
     ret (self\<lparr>TPM2_PCR_Read_REQUEST_pcrSelectionIn := pcrSelectionIn\<rparr>))"

definition TPM2_PCR_Read_REQUEST_text_ok :: "text_class \<Rightarrow> TPM2_PCR_Read_REQUEST \<Rightarrow> bool" where
  "TPM2_PCR_Read_REQUEST_text_ok c x \<longleftrightarrow>
     length (TPM2_PCR_Read_REQUEST_pcrSelectionIn x) < 2 ^ 64 \<and> (\<forall>y \<in> set (TPM2_PCR_Read_REQUEST_pcrSelectionIn x). TPMS_PCR_SELECTION_text_ok c y)"

interpretation TPM2_PCR_Read_REQUEST_text: text_codec "''TPM2_PCR_Read_REQUEST''" TPM2_PCR_Read_REQUEST_Serialize TPM2_PCR_Read_REQUEST_Deserialize TPM2_PCR_Read_REQUEST_default TPM2_PCR_Read_REQUEST_text_ok
proof
  show "word_ok ''TPM2_PCR_Read_REQUEST''" by (simp add: word_simps)
  fix c x assume ok: "TPM2_PCR_Read_REQUEST_text_ok c x"
  from ok show "carries c True (TPM2_PCR_Read_REQUEST_Serialize x) (TPM2_PCR_Read_REQUEST_Deserialize TPM2_PCR_Read_REQUEST_default) x"
    by (simp only: TPM2_PCR_Read_REQUEST_Serialize_def TPM2_PCR_Read_REQUEST_Deserialize_def TPM2_PCR_Read_REQUEST_default_def
       TPM2_PCR_Read_REQUEST.select_convs TPM2_PCR_Read_REQUEST.update_convs;
      intro TPMS_PCR_SELECTION_text.as_elements [THEN carries_entry_Cons] carries_body;
      (rule TPM2_PCR_Read_REQUEST.equality)?; simp add: TPM2_PCR_Read_REQUEST_text_ok_def word_simps)
qed

subsection \<open>PCR_ReadResponse\<close>

definition PCR_ReadResponse_Serialize :: "PCR_ReadResponse \<Rightarrow> unit ser" where
  "PCR_ReadResponse_Serialize self = wseq
     [withN ''pcrUpdateCounter'' ''UINT32'' '''' '''' (ser_writeInt (PCR_ReadResponse_pcrUpdateCounter self)),
      withN ''pcrSelectionOut'' ''TPMS_PCR_SELECTION[]'' ''pcrSelectionOutCount'' ''UINT32'' (ser_writeObjArr ''TPMS_PCR_SELECTION'' TPMS_PCR_SELECTION_Serialize (PCR_ReadResponse_pcrSelectionOut self)),
      withN ''pcrValues'' ''TPM2B_DIGEST[]'' ''pcrValuesCount'' ''UINT32'' (ser_writeObjArr ''TPM2B_DIGEST'' TPM2B_DIGEST_Serialize (PCR_ReadResponse_pcrValues self))]"

definition PCR_ReadResponse_Deserialize :: "PCR_ReadResponse \<Rightarrow> PCR_ReadResponse ser" where
  "PCR_ReadResponse_Deserialize self =
     sbind (withN ''pcrUpdateCounter'' ''UINT32'' '''' '''' ser_readInt) (\<lambda>pcrUpdateCounter.
     sbind (withN ''pcrSelectionOut'' ''TPMS_PCR_SELECTION[]'' ''pcrSelectionOutCount'' ''UINT32'' (ser_readObjArr ''TPMS_PCR_SELECTION'' TPMS_PCR_SELECTION_Deserialize TPMS_PCR_SELECTION_default (PCR_ReadResponse_pcrSelectionOut self))) (\<lambda>pcrSelectionOut.
     sbind (withN ''pcrValues'' ''TPM2B_DIGEST[]'' ''pcrValuesCount'' ''UINT32'' (ser_readObjArr ''TPM2B_DIGEST'' TPM2B_DIGEST_Deserialize TPM2B_DIGEST_default (PCR_ReadResponse_pcrValues self))) (\<lambda>pcrValues.
     ret (self\<lparr>PCR_ReadResponse_pcrUpdateCounter := pcrUpdateCounter, PCR_ReadResponse_pcrSelectionOut := pcrSelectionOut, PCR_ReadResponse_pcrValues := pcrValues\<rparr>))))"

definition PCR_ReadResponse_text_ok :: "text_class \<Rightarrow> PCR_ReadResponse \<Rightarrow> bool" where
  "PCR_ReadResponse_text_ok c x \<longleftrightarrow>
     length (PCR_ReadResponse_pcrSelectionOut x) < 2 ^ 64 \<and> (\<forall>y \<in> set (PCR_ReadResponse_pcrSelectionOut x). TPMS_PCR_SELECTION_text_ok c y) \<and>
     length (PCR_ReadResponse_pcrValues x) < 2 ^ 64 \<and> (\<forall>y \<in> set (PCR_ReadResponse_pcrValues x). TPM2B_DIGEST_text_ok c y)"

interpretation PCR_ReadResponse_text: text_codec "''PCR_ReadResponse''" PCR_ReadResponse_Serialize PCR_ReadResponse_Deserialize PCR_ReadResponse_default PCR_ReadResponse_text_ok
proof
  show "word_ok ''PCR_ReadResponse''" by (simp add: word_simps)
  fix c x assume ok: "PCR_ReadResponse_text_ok c x"
  from ok show "carries c True (PCR_ReadResponse_Serialize x) (PCR_ReadResponse_Deserialize PCR_ReadResponse_default) x"
    by (simp only: PCR_ReadResponse_Serialize_def PCR_ReadResponse_Deserialize_def PCR_ReadResponse_default_def
       PCR_ReadResponse.select_convs PCR_ReadResponse.update_convs;
      intro TPM2B_DIGEST_text.as_elements [THEN carries_entry_Cons] TPMS_PCR_SELECTION_text.as_elements [THEN carries_entry_Cons] carries_body;
      (rule PCR_ReadResponse.equality)?; simp add: PCR_ReadResponse_text_ok_def word_simps)
qed

subsection \<open>TPM2_PCR_Allocate_REQUEST\<close>

definition TPM2_PCR_Allocate_REQUEST_Serialize :: "TPM2_PCR_Allocate_REQUEST \<Rightarrow> unit ser" where
  "TPM2_PCR_Allocate_REQUEST_Serialize self = wseq
     [withN ''authHandle'' ''TPM_HANDLE'' '''' '''' (ser_writeObj ''TPM_HANDLE'' (TPM_HANDLE_Serialize (TPM2_PCR_Allocate_REQUEST_authHandle self))),
      withN ''pcrAllocation'' ''TPMS_PCR_SELECTION[]'' ''pcrAllocationCount'' ''UINT32'' (ser_writeObjArr ''TPMS_PCR_SELECTION'' TPMS_PCR_SELECTION_Serialize (TPM2_PCR_Allocate_REQUEST_pcrAllocation self))]"

definition TPM2_PCR_Allocate_REQUEST_Deserialize :: "TPM2_PCR_Allocate_REQUEST \<Rightarrow> TPM2_PCR_Allocate_REQUEST ser" where
  "TPM2_PCR_Allocate_REQUEST_Deserialize self =
     sbind (withN ''authHandle'' ''TPM_HANDLE'' '''' '''' (ser_readObj ''TPM_HANDLE'' (TPM_HANDLE_Deserialize (TPM2_PCR_Allocate_REQUEST_authHandle self)))) (\<lambda>authHandle.
     sbind (withN ''pcrAllocation'' ''TPMS_PCR_SELECTION[]'' ''pcrAllocationCount'' ''UINT32'' (ser_readObjArr ''TPMS_PCR_SELECTION'' TPMS_PCR_SELECTION_Deserialize TPMS_PCR_SELECTION_default (TPM2_PCR_Allocate_REQUEST_pcrAllocation self))) (\<lambda>pcrAllocation.
     ret (self\<lparr>TPM2_PCR_Allocate_REQUEST_authHandle := authHandle, TPM2_PCR_Allocate_REQUEST_pcrAllocation := pcrAllocation\<rparr>)))"

definition TPM2_PCR_Allocate_REQUEST_text_ok :: "text_class \<Rightarrow> TPM2_PCR_Allocate_REQUEST \<Rightarrow> bool" where
  "TPM2_PCR_Allocate_REQUEST_text_ok c x \<longleftrightarrow>
     TPM_HANDLE_text_ok c (TPM2_PCR_Allocate_REQUEST_authHandle x) \<and>
     length (TPM2_PCR_Allocate_REQUEST_pcrAllocation x) < 2 ^ 64 \<and> (\<forall>y \<in> set (TPM2_PCR_Allocate_REQUEST_pcrAllocation x). TPMS_PCR_SELECTION_text_ok c y)"

interpretation TPM2_PCR_Allocate_REQUEST_text: text_codec "''TPM2_PCR_Allocate_REQUEST''" TPM2_PCR_Allocate_REQUEST_Serialize TPM2_PCR_Allocate_REQUEST_Deserialize TPM2_PCR_Allocate_REQUEST_default TPM2_PCR_Allocate_REQUEST_text_ok
proof
  show "word_ok ''TPM2_PCR_Allocate_REQUEST''" by (simp add: word_simps)
  fix c x assume ok: "TPM2_PCR_Allocate_REQUEST_text_ok c x"
  from ok show "carries c True (TPM2_PCR_Allocate_REQUEST_Serialize x) (TPM2_PCR_Allocate_REQUEST_Deserialize TPM2_PCR_Allocate_REQUEST_default) x"
    by (simp only: TPM2_PCR_Allocate_REQUEST_Serialize_def TPM2_PCR_Allocate_REQUEST_Deserialize_def TPM2_PCR_Allocate_REQUEST_default_def
       TPM2_PCR_Allocate_REQUEST.select_convs TPM2_PCR_Allocate_REQUEST.update_convs;
      intro TPMS_PCR_SELECTION_text.as_elements [THEN carries_entry_Cons] TPM_HANDLE_text.as_entry [THEN carries_entry_Cons] carries_body;
      (rule TPM2_PCR_Allocate_REQUEST.equality)?; simp add: TPM2_PCR_Allocate_REQUEST_text_ok_def word_simps)
qed

subsection \<open>PCR_AllocateResponse\<close>

definition PCR_AllocateResponse_Serialize :: "PCR_AllocateResponse \<Rightarrow> unit ser" where
  "PCR_AllocateResponse_Serialize self = wseq
     [withN ''allocationSuccess'' ''BYTE'' '''' '''' (ser_writeByte (PCR_AllocateResponse_allocationSuccess self)),
      withN ''maxPCR'' ''UINT32'' '''' '''' (ser_writeInt (PCR_AllocateResponse_maxPCR self)),
      withN ''sizeNeeded'' ''UINT32'' '''' '''' (ser_writeInt (PCR_AllocateResponse_sizeNeeded self)),
      withN ''sizeAvailable'' ''UINT32'' '''' '''' (ser_writeInt (PCR_AllocateResponse_sizeAvailable self))]"

definition PCR_AllocateResponse_Deserialize :: "PCR_AllocateResponse \<Rightarrow> PCR_AllocateResponse ser" where
  "PCR_AllocateResponse_Deserialize self =
     sbind (withN ''allocationSuccess'' ''BYTE'' '''' '''' ser_readByte) (\<lambda>allocationSuccess.
     sbind (withN ''maxPCR'' ''UINT32'' '''' '''' ser_readInt) (\<lambda>maxPCR.
     sbind (withN ''sizeNeeded'' ''UINT32'' '''' '''' ser_readInt) (\<lambda>sizeNeeded.
     sbind (withN ''sizeAvailable'' ''UINT32'' '''' '''' ser_readInt) (\<lambda>sizeAvailable.
     ret (self\<lparr>PCR_AllocateResponse_allocationSuccess := allocationSuccess, PCR_AllocateResponse_maxPCR := maxPCR, PCR_AllocateResponse_sizeNeeded := sizeNeeded, PCR_AllocateResponse_sizeAvailable := sizeAvailable\<rparr>)))))"

definition PCR_AllocateResponse_text_ok :: "text_class \<Rightarrow> PCR_AllocateResponse \<Rightarrow> bool" where
  "PCR_AllocateResponse_text_ok c x \<longleftrightarrow>
     True"

interpretation PCR_AllocateResponse_text: text_codec "''PCR_AllocateResponse''" PCR_AllocateResponse_Serialize PCR_AllocateResponse_Deserialize PCR_AllocateResponse_default PCR_AllocateResponse_text_ok
proof
  show "word_ok ''PCR_AllocateResponse''" by (simp add: word_simps)
  fix c x assume ok: "PCR_AllocateResponse_text_ok c x"
  from ok show "carries c True (PCR_AllocateResponse_Serialize x) (PCR_AllocateResponse_Deserialize PCR_AllocateResponse_default) x"
    by (simp only: PCR_AllocateResponse_Serialize_def PCR_AllocateResponse_Deserialize_def PCR_AllocateResponse_default_def
       PCR_AllocateResponse.select_convs PCR_AllocateResponse.update_convs;
      intro carries_body;
      (rule PCR_AllocateResponse.equality)?; simp add: PCR_AllocateResponse_text_ok_def word_simps)
qed

subsection \<open>TPM2_PCR_SetAuthPolicy_REQUEST\<close>

definition TPM2_PCR_SetAuthPolicy_REQUEST_Serialize :: "TPM2_PCR_SetAuthPolicy_REQUEST \<Rightarrow> unit ser" where
  "TPM2_PCR_SetAuthPolicy_REQUEST_Serialize self = wseq
     [withN ''authHandle'' ''TPM_HANDLE'' '''' '''' (ser_writeObj ''TPM_HANDLE'' (TPM_HANDLE_Serialize (TPM2_PCR_SetAuthPolicy_REQUEST_authHandle self))),
      withN ''authPolicy'' ''BYTE[]'' ''authPolicySize'' ''UINT16'' (ser_writeSizedByteBuf (TPM2_PCR_SetAuthPolicy_REQUEST_authPolicy self)),
      withN ''hashAlg'' ''TPM_ALG_ID'' '''' '''' (ser_writeEnumT (TPM2_PCR_SetAuthPolicy_REQUEST_hashAlg self) TPM_ALG_ID_ID),
      withN ''pcrNum'' ''TPM_HANDLE'' '''' '''' (ser_writeObj ''TPM_HANDLE'' (TPM_HANDLE_Serialize (TPM2_PCR_SetAuthPolicy_REQUEST_pcrNum self)))]"

definition TPM2_PCR_SetAuthPolicy_REQUEST_Deserialize :: "TPM2_PCR_SetAuthPolicy_REQUEST \<Rightarrow> TPM2_PCR_SetAuthPolicy_REQUEST ser" where
  "TPM2_PCR_SetAuthPolicy_REQUEST_Deserialize self =
     sbind (withN ''authHandle'' ''TPM_HANDLE'' '''' '''' (ser_readObj ''TPM_HANDLE'' (TPM_HANDLE_Deserialize (TPM2_PCR_SetAuthPolicy_REQUEST_authHandle self)))) (\<lambda>authHandle.
     sbind (withN ''authPolicy'' ''BYTE[]'' ''authPolicySize'' ''UINT16'' ser_readSizedByteBuf) (\<lambda>authPolicy.
     sbind (withN ''hashAlg'' ''TPM_ALG_ID'' '''' '''' (ser_readEnumT TPM_ALG_ID_ID)) (\<lambda>hashAlg.
     sbind (withN ''pcrNum'' ''TPM_HANDLE'' '''' '''' (ser_readObj ''TPM_HANDLE'' (TPM_HANDLE_Deserialize (TPM2_PCR_SetAuthPolicy_REQUEST_pcrNum self)))) (\<lambda>pcrNum.
     ret (self\<lparr>TPM2_PCR_SetAuthPolicy_REQUEST_authHandle := authHandle, TPM2_PCR_SetAuthPolicy_REQUEST_authPolicy := authPolicy, TPM2_PCR_SetAuthPolicy_REQUEST_hashAlg := hashAlg, TPM2_PCR_SetAuthPolicy_REQUEST_pcrNum := pcrNum\<rparr>)))))"

definition TPM2_PCR_SetAuthPolicy_REQUEST_text_ok :: "text_class \<Rightarrow> TPM2_PCR_SetAuthPolicy_REQUEST \<Rightarrow> bool" where
  "TPM2_PCR_SetAuthPolicy_REQUEST_text_ok c x \<longleftrightarrow>
     TPM_HANDLE_text_ok c (TPM2_PCR_SetAuthPolicy_REQUEST_authHandle x) \<and>
     length (TPM2_PCR_SetAuthPolicy_REQUEST_authPolicy x) < 2 ^ 64 \<and>
     enum_ok c (ucast (TPM2_PCR_SetAuthPolicy_REQUEST_hashAlg x)) TPM_ALG_ID_ID \<and>
     TPM_HANDLE_text_ok c (TPM2_PCR_SetAuthPolicy_REQUEST_pcrNum x)"

interpretation TPM2_PCR_SetAuthPolicy_REQUEST_text: text_codec "''TPM2_PCR_SetAuthPolicy_REQUEST''" TPM2_PCR_SetAuthPolicy_REQUEST_Serialize TPM2_PCR_SetAuthPolicy_REQUEST_Deserialize TPM2_PCR_SetAuthPolicy_REQUEST_default TPM2_PCR_SetAuthPolicy_REQUEST_text_ok
proof
  show "word_ok ''TPM2_PCR_SetAuthPolicy_REQUEST''" by (simp add: word_simps)
  fix c x assume ok: "TPM2_PCR_SetAuthPolicy_REQUEST_text_ok c x"
  from ok show "carries c True (TPM2_PCR_SetAuthPolicy_REQUEST_Serialize x) (TPM2_PCR_SetAuthPolicy_REQUEST_Deserialize TPM2_PCR_SetAuthPolicy_REQUEST_default) x"
    by (simp only: TPM2_PCR_SetAuthPolicy_REQUEST_Serialize_def TPM2_PCR_SetAuthPolicy_REQUEST_Deserialize_def TPM2_PCR_SetAuthPolicy_REQUEST_default_def
       TPM2_PCR_SetAuthPolicy_REQUEST.select_convs TPM2_PCR_SetAuthPolicy_REQUEST.update_convs;
      intro TPM_HANDLE_text.as_entry [THEN carries_entry_Cons] carries_body;
      (rule TPM2_PCR_SetAuthPolicy_REQUEST.equality)?; simp add: TPM2_PCR_SetAuthPolicy_REQUEST_text_ok_def word_simps)
qed

subsection \<open>TPM2_PCR_SetAuthValue_REQUEST\<close>

definition TPM2_PCR_SetAuthValue_REQUEST_Serialize :: "TPM2_PCR_SetAuthValue_REQUEST \<Rightarrow> unit ser" where
  "TPM2_PCR_SetAuthValue_REQUEST_Serialize self = wseq
     [withN ''pcrHandle'' ''TPM_HANDLE'' '''' '''' (ser_writeObj ''TPM_HANDLE'' (TPM_HANDLE_Serialize (TPM2_PCR_SetAuthValue_REQUEST_pcrHandle self))),
      withN ''auth'' ''BYTE[]'' ''authSize'' ''UINT16'' (ser_writeSizedByteBuf (TPM2_PCR_SetAuthValue_REQUEST_auth self))]"

definition TPM2_PCR_SetAuthValue_REQUEST_Deserialize :: "TPM2_PCR_SetAuthValue_REQUEST \<Rightarrow> TPM2_PCR_SetAuthValue_REQUEST ser" where
  "TPM2_PCR_SetAuthValue_REQUEST_Deserialize self =
     sbind (withN ''pcrHandle'' ''TPM_HANDLE'' '''' '''' (ser_readObj ''TPM_HANDLE'' (TPM_HANDLE_Deserialize (TPM2_PCR_SetAuthValue_REQUEST_pcrHandle self)))) (\<lambda>pcrHandle.
     sbind (withN ''auth'' ''BYTE[]'' ''authSize'' ''UINT16'' ser_readSizedByteBuf) (\<lambda>auth.
     ret (self\<lparr>TPM2_PCR_SetAuthValue_REQUEST_pcrHandle := pcrHandle, TPM2_PCR_SetAuthValue_REQUEST_auth := auth\<rparr>)))"

definition TPM2_PCR_SetAuthValue_REQUEST_text_ok :: "text_class \<Rightarrow> TPM2_PCR_SetAuthValue_REQUEST \<Rightarrow> bool" where
  "TPM2_PCR_SetAuthValue_REQUEST_text_ok c x \<longleftrightarrow>
     TPM_HANDLE_text_ok c (TPM2_PCR_SetAuthValue_REQUEST_pcrHandle x) \<and>
     length (TPM2_PCR_SetAuthValue_REQUEST_auth x) < 2 ^ 64"

interpretation TPM2_PCR_SetAuthValue_REQUEST_text: text_codec "''TPM2_PCR_SetAuthValue_REQUEST''" TPM2_PCR_SetAuthValue_REQUEST_Serialize TPM2_PCR_SetAuthValue_REQUEST_Deserialize TPM2_PCR_SetAuthValue_REQUEST_default TPM2_PCR_SetAuthValue_REQUEST_text_ok
proof
  show "word_ok ''TPM2_PCR_SetAuthValue_REQUEST''" by (simp add: word_simps)
  fix c x assume ok: "TPM2_PCR_SetAuthValue_REQUEST_text_ok c x"
  from ok show "carries c True (TPM2_PCR_SetAuthValue_REQUEST_Serialize x) (TPM2_PCR_SetAuthValue_REQUEST_Deserialize TPM2_PCR_SetAuthValue_REQUEST_default) x"
    by (simp only: TPM2_PCR_SetAuthValue_REQUEST_Serialize_def TPM2_PCR_SetAuthValue_REQUEST_Deserialize_def TPM2_PCR_SetAuthValue_REQUEST_default_def
       TPM2_PCR_SetAuthValue_REQUEST.select_convs TPM2_PCR_SetAuthValue_REQUEST.update_convs;
      intro TPM_HANDLE_text.as_entry [THEN carries_entry_Cons] carries_body;
      (rule TPM2_PCR_SetAuthValue_REQUEST.equality)?; simp add: TPM2_PCR_SetAuthValue_REQUEST_text_ok_def word_simps)
qed

subsection \<open>TPM2_PCR_Reset_REQUEST\<close>

definition TPM2_PCR_Reset_REQUEST_Serialize :: "TPM2_PCR_Reset_REQUEST \<Rightarrow> unit ser" where
  "TPM2_PCR_Reset_REQUEST_Serialize self = wseq
     [withN ''pcrHandle'' ''TPM_HANDLE'' '''' '''' (ser_writeObj ''TPM_HANDLE'' (TPM_HANDLE_Serialize (TPM2_PCR_Reset_REQUEST_pcrHandle self)))]"

definition TPM2_PCR_Reset_REQUEST_Deserialize :: "TPM2_PCR_Reset_REQUEST \<Rightarrow> TPM2_PCR_Reset_REQUEST ser" where
  "TPM2_PCR_Reset_REQUEST_Deserialize self =
     sbind (withN ''pcrHandle'' ''TPM_HANDLE'' '''' '''' (ser_readObj ''TPM_HANDLE'' (TPM_HANDLE_Deserialize (TPM2_PCR_Reset_REQUEST_pcrHandle self)))) (\<lambda>pcrHandle.
     ret (self\<lparr>TPM2_PCR_Reset_REQUEST_pcrHandle := pcrHandle\<rparr>))"

definition TPM2_PCR_Reset_REQUEST_text_ok :: "text_class \<Rightarrow> TPM2_PCR_Reset_REQUEST \<Rightarrow> bool" where
  "TPM2_PCR_Reset_REQUEST_text_ok c x \<longleftrightarrow>
     TPM_HANDLE_text_ok c (TPM2_PCR_Reset_REQUEST_pcrHandle x)"

interpretation TPM2_PCR_Reset_REQUEST_text: text_codec "''TPM2_PCR_Reset_REQUEST''" TPM2_PCR_Reset_REQUEST_Serialize TPM2_PCR_Reset_REQUEST_Deserialize TPM2_PCR_Reset_REQUEST_default TPM2_PCR_Reset_REQUEST_text_ok
proof
  show "word_ok ''TPM2_PCR_Reset_REQUEST''" by (simp add: word_simps)
  fix c x assume ok: "TPM2_PCR_Reset_REQUEST_text_ok c x"
  from ok show "carries c True (TPM2_PCR_Reset_REQUEST_Serialize x) (TPM2_PCR_Reset_REQUEST_Deserialize TPM2_PCR_Reset_REQUEST_default) x"
    by (simp only: TPM2_PCR_Reset_REQUEST_Serialize_def TPM2_PCR_Reset_REQUEST_Deserialize_def TPM2_PCR_Reset_REQUEST_default_def
       TPM2_PCR_Reset_REQUEST.select_convs TPM2_PCR_Reset_REQUEST.update_convs;
      intro TPM_HANDLE_text.as_entry [THEN carries_entry_Cons] carries_body;
      (rule TPM2_PCR_Reset_REQUEST.equality)?; simp add: TPM2_PCR_Reset_REQUEST_text_ok_def word_simps)
qed

end
