(* ===== verification/TextPolicyCommands.thy ===== *)
theory TextPolicyCommands
  imports TextNvTypes TpmPolicyCommands
begin

text \<open>
  \<^verbatim>\<open>TSS.CPP/Src/TpmTypes.cpp\<close>, the text form of the structures of theory \<open>TpmPolicyCommands\<close>: \<open>X_Serialize\<close> and
  \<open>X_Deserialize\<close> of each class \<open>X\<close>, the values \<open>X_text_ok\<close> that a text of the given kind can carry, and
  the proof that the second method reads what the first one writes (the interpretation \<open>X_text\<close>).
  A class with an array of enumerators has no such interpretation: \<open>readEnumArr\<close> does not read it.
\<close>

subsection \<open>TPM2_PolicySigned_REQUEST\<close>

definition TPM2_PolicySigned_REQUEST_Serialize :: "TPM2_PolicySigned_REQUEST \<Rightarrow> unit ser" where
  "TPM2_PolicySigned_REQUEST_Serialize self = wseq
     [withN ''authObject'' ''TPM_HANDLE'' '''' '''' (ser_writeObj ''TPM_HANDLE'' (TPM_HANDLE_Serialize (TPM2_PolicySigned_REQUEST_authObject self))),
      withN ''policySession'' ''TPM_HANDLE'' '''' '''' (ser_writeObj ''TPM_HANDLE'' (TPM_HANDLE_Serialize (TPM2_PolicySigned_REQUEST_policySession self))),
      withN ''nonceTPM'' ''BYTE[]'' ''nonceTPMSize'' ''UINT16'' (ser_writeSizedByteBuf (TPM2_PolicySigned_REQUEST_nonceTPM self)),
      withN ''cpHashA'' ''BYTE[]'' ''cpHashASize'' ''UINT16'' (ser_writeSizedByteBuf (TPM2_PolicySigned_REQUEST_cpHashA self)),
      withN ''policyRef'' ''BYTE[]'' ''policyRefSize'' ''UINT16'' (ser_writeSizedByteBuf (TPM2_PolicySigned_REQUEST_policyRef self)),
      withN ''expiration'' ''INT32'' '''' '''' (ser_writeInt (TPM2_PolicySigned_REQUEST_expiration self)),
      withN ''authSigAlg'' ''TPM_ALG_ID'' '''' '''' (ser_writeEnumT (selector_or TPM_ALG_ID_NULL TPMU_SIGNATURE_GetUnionSelector (TPM2_PolicySigned_REQUEST_auth self)) TPM_ALG_ID_ID),
      if_set (TPM2_PolicySigned_REQUEST_auth self) (\<lambda>u. withN ''auth'' ''TPMU_SIGNATURE'' '''' '''' (ser_writeObj (TPMU_SIGNATURE_TypeName u) (TPMU_SIGNATURE_Serialize u)))]"

definition TPM2_PolicySigned_REQUEST_Deserialize :: "TPM2_PolicySigned_REQUEST \<Rightarrow> TPM2_PolicySigned_REQUEST ser" where
  "TPM2_PolicySigned_REQUEST_Deserialize self =
     sbind (withN ''authObject'' ''TPM_HANDLE'' '''' '''' (ser_readObj ''TPM_HANDLE'' (TPM_HANDLE_Deserialize (TPM2_PolicySigned_REQUEST_authObject self)))) (\<lambda>authObject.
     sbind (withN ''policySession'' ''TPM_HANDLE'' '''' '''' (ser_readObj ''TPM_HANDLE'' (TPM_HANDLE_Deserialize (TPM2_PolicySigned_REQUEST_policySession self)))) (\<lambda>policySession.
     sbind (withN ''nonceTPM'' ''BYTE[]'' ''nonceTPMSize'' ''UINT16'' ser_readSizedByteBuf) (\<lambda>nonceTPM.
     sbind (withN ''cpHashA'' ''BYTE[]'' ''cpHashASize'' ''UINT16'' ser_readSizedByteBuf) (\<lambda>cpHashA.
     sbind (withN ''policyRef'' ''BYTE[]'' ''policyRefSize'' ''UINT16'' ser_readSizedByteBuf) (\<lambda>policyRef.
     sbind (withN ''expiration'' ''INT32'' '''' '''' ser_readInt) (\<lambda>expiration.
     sbind (withN ''authSigAlg'' ''TPM_ALG_ID'' '''' '''' (ser_readEnumT TPM_ALG_ID_ID)) (\<lambda>authSigAlg.
     sbind (reset_or_create UnionFactory_Create_TPMU_SIGNATURE authSigAlg) (\<lambda>auth.
     sbind (read_if_set auth (\<lambda>u. withN ''auth'' ''TPMU_SIGNATURE'' '''' '''' (ser_readObj (TPMU_SIGNATURE_TypeName u) (TPMU_SIGNATURE_Deserialize u)))) (\<lambda>auth.
     ret (self\<lparr>TPM2_PolicySigned_REQUEST_authObject := authObject, TPM2_PolicySigned_REQUEST_policySession := policySession, TPM2_PolicySigned_REQUEST_nonceTPM := nonceTPM, TPM2_PolicySigned_REQUEST_cpHashA := cpHashA, TPM2_PolicySigned_REQUEST_policyRef := policyRef, TPM2_PolicySigned_REQUEST_expiration := expiration, TPM2_PolicySigned_REQUEST_auth := auth\<rparr>))))))))))"

definition TPM2_PolicySigned_REQUEST_text_ok :: "text_class \<Rightarrow> TPM2_PolicySigned_REQUEST \<Rightarrow> bool" where
  "TPM2_PolicySigned_REQUEST_text_ok c x \<longleftrightarrow>
     TPM_HANDLE_text_ok c (TPM2_PolicySigned_REQUEST_authObject x) \<and>
     TPM_HANDLE_text_ok c (TPM2_PolicySigned_REQUEST_policySession x) \<and>
     length (TPM2_PolicySigned_REQUEST_nonceTPM x) < 2 ^ 64 \<and>
     length (TPM2_PolicySigned_REQUEST_cpHashA x) < 2 ^ 64 \<and>
     length (TPM2_PolicySigned_REQUEST_policyRef x) < 2 ^ 64 \<and>
     TPM2_PolicySigned_REQUEST_auth x \<noteq> None \<and>
     enum_ok c (ucast (selector_or TPM_ALG_ID_NULL TPMU_SIGNATURE_GetUnionSelector (TPM2_PolicySigned_REQUEST_auth x))) TPM_ALG_ID_ID \<and>
     if_set_ok (TPMU_SIGNATURE_text_ok c) (TPM2_PolicySigned_REQUEST_auth x)"

interpretation TPM2_PolicySigned_REQUEST_text: text_codec "''TPM2_PolicySigned_REQUEST''" TPM2_PolicySigned_REQUEST_Serialize TPM2_PolicySigned_REQUEST_Deserialize TPM2_PolicySigned_REQUEST_default TPM2_PolicySigned_REQUEST_text_ok
proof
  show "word_ok ''TPM2_PolicySigned_REQUEST''" by (simp add: word_simps)
  fix c x assume ok: "TPM2_PolicySigned_REQUEST_text_ok c x"
  from ok show "carries c True (TPM2_PolicySigned_REQUEST_Serialize x) (TPM2_PolicySigned_REQUEST_Deserialize TPM2_PolicySigned_REQUEST_default) x"
    by (simp only: TPM2_PolicySigned_REQUEST_Serialize_def TPM2_PolicySigned_REQUEST_Deserialize_def TPM2_PolicySigned_REQUEST_default_def
       TPM2_PolicySigned_REQUEST.select_convs TPM2_PolicySigned_REQUEST.update_convs;
      intro TPMU_SIGNATURE_text.as_member [THEN carries_member_Cons] TPMU_SIGNATURE_text.member_created [of c, THEN carries_create] TPM_HANDLE_text.as_entry [THEN carries_entry_Cons] carries_body;
      (rule TPM2_PolicySigned_REQUEST.equality)?; simp add: TPM2_PolicySigned_REQUEST_text_ok_def word_simps)
qed

subsection \<open>PolicySignedResponse\<close>

definition PolicySignedResponse_Serialize :: "PolicySignedResponse \<Rightarrow> unit ser" where
  "PolicySignedResponse_Serialize self = wseq
     [withN ''timeout'' ''BYTE[]'' ''timeoutSize'' ''UINT16'' (ser_writeSizedByteBuf (PolicySignedResponse_timeout self)),
      withN ''policyTicket'' ''TPMT_TK_AUTH'' '''' '''' (ser_writeObj ''TPMT_TK_AUTH'' (TPMT_TK_AUTH_Serialize (PolicySignedResponse_policyTicket self)))]"

definition PolicySignedResponse_Deserialize :: "PolicySignedResponse \<Rightarrow> PolicySignedResponse ser" where
  "PolicySignedResponse_Deserialize self =
     sbind (withN ''timeout'' ''BYTE[]'' ''timeoutSize'' ''UINT16'' ser_readSizedByteBuf) (\<lambda>timeout.
     sbind (withN ''policyTicket'' ''TPMT_TK_AUTH'' '''' '''' (ser_readObj ''TPMT_TK_AUTH'' (TPMT_TK_AUTH_Deserialize (PolicySignedResponse_policyTicket self)))) (\<lambda>policyTicket.
     ret (self\<lparr>PolicySignedResponse_timeout := timeout, PolicySignedResponse_policyTicket := policyTicket\<rparr>)))"

definition PolicySignedResponse_text_ok :: "text_class \<Rightarrow> PolicySignedResponse \<Rightarrow> bool" where
  "PolicySignedResponse_text_ok c x \<longleftrightarrow>
     length (PolicySignedResponse_timeout x) < 2 ^ 64 \<and>
     TPMT_TK_AUTH_text_ok c (PolicySignedResponse_policyTicket x)"

interpretation PolicySignedResponse_text: text_codec "''PolicySignedResponse''" PolicySignedResponse_Serialize PolicySignedResponse_Deserialize PolicySignedResponse_default PolicySignedResponse_text_ok
proof
  show "word_ok ''PolicySignedResponse''" by (simp add: word_simps)
  fix c x assume ok: "PolicySignedResponse_text_ok c x"
  from ok show "carries c True (PolicySignedResponse_Serialize x) (PolicySignedResponse_Deserialize PolicySignedResponse_default) x"
    by (simp only: PolicySignedResponse_Serialize_def PolicySignedResponse_Deserialize_def PolicySignedResponse_default_def
       PolicySignedResponse.select_convs PolicySignedResponse.update_convs;
      intro TPMT_TK_AUTH_text.as_entry [THEN carries_entry_Cons] carries_body;
      (rule PolicySignedResponse.equality)?; simp add: PolicySignedResponse_text_ok_def word_simps)
qed

subsection \<open>TPM2_PolicySecret_REQUEST\<close>

definition TPM2_PolicySecret_REQUEST_Serialize :: "TPM2_PolicySecret_REQUEST \<Rightarrow> unit ser" where
  "TPM2_PolicySecret_REQUEST_Serialize self = wseq
     [withN ''authHandle'' ''TPM_HANDLE'' '''' '''' (ser_writeObj ''TPM_HANDLE'' (TPM_HANDLE_Serialize (TPM2_PolicySecret_REQUEST_authHandle self))),
      withN ''policySession'' ''TPM_HANDLE'' '''' '''' (ser_writeObj ''TPM_HANDLE'' (TPM_HANDLE_Serialize (TPM2_PolicySecret_REQUEST_policySession self))),
      withN ''nonceTPM'' ''BYTE[]'' ''nonceTPMSize'' ''UINT16'' (ser_writeSizedByteBuf (TPM2_PolicySecret_REQUEST_nonceTPM self)),
      withN ''cpHashA'' ''BYTE[]'' ''cpHashASize'' ''UINT16'' (ser_writeSizedByteBuf (TPM2_PolicySecret_REQUEST_cpHashA self)),
      withN ''policyRef'' ''BYTE[]'' ''policyRefSize'' ''UINT16'' (ser_writeSizedByteBuf (TPM2_PolicySecret_REQUEST_policyRef self)),
      withN ''expiration'' ''INT32'' '''' '''' (ser_writeInt (TPM2_PolicySecret_REQUEST_expiration self))]"

definition TPM2_PolicySecret_REQUEST_Deserialize :: "TPM2_PolicySecret_REQUEST \<Rightarrow> TPM2_PolicySecret_REQUEST ser" where
  "TPM2_PolicySecret_REQUEST_Deserialize self =
     sbind (withN ''authHandle'' ''TPM_HANDLE'' '''' '''' (ser_readObj ''TPM_HANDLE'' (TPM_HANDLE_Deserialize (TPM2_PolicySecret_REQUEST_authHandle self)))) (\<lambda>authHandle.
     sbind (withN ''policySession'' ''TPM_HANDLE'' '''' '''' (ser_readObj ''TPM_HANDLE'' (TPM_HANDLE_Deserialize (TPM2_PolicySecret_REQUEST_policySession self)))) (\<lambda>policySession.
     sbind (withN ''nonceTPM'' ''BYTE[]'' ''nonceTPMSize'' ''UINT16'' ser_readSizedByteBuf) (\<lambda>nonceTPM.
     sbind (withN ''cpHashA'' ''BYTE[]'' ''cpHashASize'' ''UINT16'' ser_readSizedByteBuf) (\<lambda>cpHashA.
     sbind (withN ''policyRef'' ''BYTE[]'' ''policyRefSize'' ''UINT16'' ser_readSizedByteBuf) (\<lambda>policyRef.
     sbind (withN ''expiration'' ''INT32'' '''' '''' ser_readInt) (\<lambda>expiration.
     ret (self\<lparr>TPM2_PolicySecret_REQUEST_authHandle := authHandle, TPM2_PolicySecret_REQUEST_policySession := policySession, TPM2_PolicySecret_REQUEST_nonceTPM := nonceTPM, TPM2_PolicySecret_REQUEST_cpHashA := cpHashA, TPM2_PolicySecret_REQUEST_policyRef := policyRef, TPM2_PolicySecret_REQUEST_expiration := expiration\<rparr>)))))))"

definition TPM2_PolicySecret_REQUEST_text_ok :: "text_class \<Rightarrow> TPM2_PolicySecret_REQUEST \<Rightarrow> bool" where
  "TPM2_PolicySecret_REQUEST_text_ok c x \<longleftrightarrow>
     TPM_HANDLE_text_ok c (TPM2_PolicySecret_REQUEST_authHandle x) \<and>
     TPM_HANDLE_text_ok c (TPM2_PolicySecret_REQUEST_policySession x) \<and>
     length (TPM2_PolicySecret_REQUEST_nonceTPM x) < 2 ^ 64 \<and>
     length (TPM2_PolicySecret_REQUEST_cpHashA x) < 2 ^ 64 \<and>
     length (TPM2_PolicySecret_REQUEST_policyRef x) < 2 ^ 64"

interpretation TPM2_PolicySecret_REQUEST_text: text_codec "''TPM2_PolicySecret_REQUEST''" TPM2_PolicySecret_REQUEST_Serialize TPM2_PolicySecret_REQUEST_Deserialize TPM2_PolicySecret_REQUEST_default TPM2_PolicySecret_REQUEST_text_ok
proof
  show "word_ok ''TPM2_PolicySecret_REQUEST''" by (simp add: word_simps)
  fix c x assume ok: "TPM2_PolicySecret_REQUEST_text_ok c x"
  from ok show "carries c True (TPM2_PolicySecret_REQUEST_Serialize x) (TPM2_PolicySecret_REQUEST_Deserialize TPM2_PolicySecret_REQUEST_default) x"
    by (simp only: TPM2_PolicySecret_REQUEST_Serialize_def TPM2_PolicySecret_REQUEST_Deserialize_def TPM2_PolicySecret_REQUEST_default_def
       TPM2_PolicySecret_REQUEST.select_convs TPM2_PolicySecret_REQUEST.update_convs;
      intro TPM_HANDLE_text.as_entry [THEN carries_entry_Cons] carries_body;
      (rule TPM2_PolicySecret_REQUEST.equality)?; simp add: TPM2_PolicySecret_REQUEST_text_ok_def word_simps)
qed

subsection \<open>PolicySecretResponse\<close>

definition PolicySecretResponse_Serialize :: "PolicySecretResponse \<Rightarrow> unit ser" where
  "PolicySecretResponse_Serialize self = wseq
     [withN ''timeout'' ''BYTE[]'' ''timeoutSize'' ''UINT16'' (ser_writeSizedByteBuf (PolicySecretResponse_timeout self)),
      withN ''policyTicket'' ''TPMT_TK_AUTH'' '''' '''' (ser_writeObj ''TPMT_TK_AUTH'' (TPMT_TK_AUTH_Serialize (PolicySecretResponse_policyTicket self)))]"

definition PolicySecretResponse_Deserialize :: "PolicySecretResponse \<Rightarrow> PolicySecretResponse ser" where
  "PolicySecretResponse_Deserialize self =
     sbind (withN ''timeout'' ''BYTE[]'' ''timeoutSize'' ''UINT16'' ser_readSizedByteBuf) (\<lambda>timeout.
     sbind (withN ''policyTicket'' ''TPMT_TK_AUTH'' '''' '''' (ser_readObj ''TPMT_TK_AUTH'' (TPMT_TK_AUTH_Deserialize (PolicySecretResponse_policyTicket self)))) (\<lambda>policyTicket.
     ret (self\<lparr>PolicySecretResponse_timeout := timeout, PolicySecretResponse_policyTicket := policyTicket\<rparr>)))"

definition PolicySecretResponse_text_ok :: "text_class \<Rightarrow> PolicySecretResponse \<Rightarrow> bool" where
  "PolicySecretResponse_text_ok c x \<longleftrightarrow>
     length (PolicySecretResponse_timeout x) < 2 ^ 64 \<and>
     TPMT_TK_AUTH_text_ok c (PolicySecretResponse_policyTicket x)"

interpretation PolicySecretResponse_text: text_codec "''PolicySecretResponse''" PolicySecretResponse_Serialize PolicySecretResponse_Deserialize PolicySecretResponse_default PolicySecretResponse_text_ok
proof
  show "word_ok ''PolicySecretResponse''" by (simp add: word_simps)
  fix c x assume ok: "PolicySecretResponse_text_ok c x"
  from ok show "carries c True (PolicySecretResponse_Serialize x) (PolicySecretResponse_Deserialize PolicySecretResponse_default) x"
    by (simp only: PolicySecretResponse_Serialize_def PolicySecretResponse_Deserialize_def PolicySecretResponse_default_def
       PolicySecretResponse.select_convs PolicySecretResponse.update_convs;
      intro TPMT_TK_AUTH_text.as_entry [THEN carries_entry_Cons] carries_body;
      (rule PolicySecretResponse.equality)?; simp add: PolicySecretResponse_text_ok_def word_simps)
qed

subsection \<open>TPM2_PolicyTicket_REQUEST\<close>

definition TPM2_PolicyTicket_REQUEST_Serialize :: "TPM2_PolicyTicket_REQUEST \<Rightarrow> unit ser" where
  "TPM2_PolicyTicket_REQUEST_Serialize self = wseq
     [withN ''policySession'' ''TPM_HANDLE'' '''' '''' (ser_writeObj ''TPM_HANDLE'' (TPM_HANDLE_Serialize (TPM2_PolicyTicket_REQUEST_policySession self))),
      withN ''timeout'' ''BYTE[]'' ''timeoutSize'' ''UINT16'' (ser_writeSizedByteBuf (TPM2_PolicyTicket_REQUEST_timeout self)),
      withN ''cpHashA'' ''BYTE[]'' ''cpHashASize'' ''UINT16'' (ser_writeSizedByteBuf (TPM2_PolicyTicket_REQUEST_cpHashA self)),
      withN ''policyRef'' ''BYTE[]'' ''policyRefSize'' ''UINT16'' (ser_writeSizedByteBuf (TPM2_PolicyTicket_REQUEST_policyRef self)),
      withN ''authName'' ''BYTE[]'' ''authNameSize'' ''UINT16'' (ser_writeSizedByteBuf (TPM2_PolicyTicket_REQUEST_authName self)),
      withN ''ticket'' ''TPMT_TK_AUTH'' '''' '''' (ser_writeObj ''TPMT_TK_AUTH'' (TPMT_TK_AUTH_Serialize (TPM2_PolicyTicket_REQUEST_ticket self)))]"

definition TPM2_PolicyTicket_REQUEST_Deserialize :: "TPM2_PolicyTicket_REQUEST \<Rightarrow> TPM2_PolicyTicket_REQUEST ser" where
  "TPM2_PolicyTicket_REQUEST_Deserialize self =
     sbind (withN ''policySession'' ''TPM_HANDLE'' '''' '''' (ser_readObj ''TPM_HANDLE'' (TPM_HANDLE_Deserialize (TPM2_PolicyTicket_REQUEST_policySession self)))) (\<lambda>policySession.
     sbind (withN ''timeout'' ''BYTE[]'' ''timeoutSize'' ''UINT16'' ser_readSizedByteBuf) (\<lambda>timeout.
     sbind (withN ''cpHashA'' ''BYTE[]'' ''cpHashASize'' ''UINT16'' ser_readSizedByteBuf) (\<lambda>cpHashA.
     sbind (withN ''policyRef'' ''BYTE[]'' ''policyRefSize'' ''UINT16'' ser_readSizedByteBuf) (\<lambda>policyRef.
     sbind (withN ''authName'' ''BYTE[]'' ''authNameSize'' ''UINT16'' ser_readSizedByteBuf) (\<lambda>authName.
     sbind (withN ''ticket'' ''TPMT_TK_AUTH'' '''' '''' (ser_readObj ''TPMT_TK_AUTH'' (TPMT_TK_AUTH_Deserialize (TPM2_PolicyTicket_REQUEST_ticket self)))) (\<lambda>ticket.
     ret (self\<lparr>TPM2_PolicyTicket_REQUEST_policySession := policySession, TPM2_PolicyTicket_REQUEST_timeout := timeout, TPM2_PolicyTicket_REQUEST_cpHashA := cpHashA, TPM2_PolicyTicket_REQUEST_policyRef := policyRef, TPM2_PolicyTicket_REQUEST_authName := authName, TPM2_PolicyTicket_REQUEST_ticket := ticket\<rparr>)))))))"

definition TPM2_PolicyTicket_REQUEST_text_ok :: "text_class \<Rightarrow> TPM2_PolicyTicket_REQUEST \<Rightarrow> bool" where
  "TPM2_PolicyTicket_REQUEST_text_ok c x \<longleftrightarrow>
     TPM_HANDLE_text_ok c (TPM2_PolicyTicket_REQUEST_policySession x) \<and>
     length (TPM2_PolicyTicket_REQUEST_timeout x) < 2 ^ 64 \<and>
     length (TPM2_PolicyTicket_REQUEST_cpHashA x) < 2 ^ 64 \<and>
     length (TPM2_PolicyTicket_REQUEST_policyRef x) < 2 ^ 64 \<and>
     length (TPM2_PolicyTicket_REQUEST_authName x) < 2 ^ 64 \<and>
     TPMT_TK_AUTH_text_ok c (TPM2_PolicyTicket_REQUEST_ticket x)"

interpretation TPM2_PolicyTicket_REQUEST_text: text_codec "''TPM2_PolicyTicket_REQUEST''" TPM2_PolicyTicket_REQUEST_Serialize TPM2_PolicyTicket_REQUEST_Deserialize TPM2_PolicyTicket_REQUEST_default TPM2_PolicyTicket_REQUEST_text_ok
proof
  show "word_ok ''TPM2_PolicyTicket_REQUEST''" by (simp add: word_simps)
  fix c x assume ok: "TPM2_PolicyTicket_REQUEST_text_ok c x"
  from ok show "carries c True (TPM2_PolicyTicket_REQUEST_Serialize x) (TPM2_PolicyTicket_REQUEST_Deserialize TPM2_PolicyTicket_REQUEST_default) x"
    by (simp only: TPM2_PolicyTicket_REQUEST_Serialize_def TPM2_PolicyTicket_REQUEST_Deserialize_def TPM2_PolicyTicket_REQUEST_default_def
       TPM2_PolicyTicket_REQUEST.select_convs TPM2_PolicyTicket_REQUEST.update_convs;
      intro TPMT_TK_AUTH_text.as_entry [THEN carries_entry_Cons] TPM_HANDLE_text.as_entry [THEN carries_entry_Cons] carries_body;
      (rule TPM2_PolicyTicket_REQUEST.equality)?; simp add: TPM2_PolicyTicket_REQUEST_text_ok_def word_simps)
qed

subsection \<open>TPM2_PolicyOR_REQUEST\<close>

definition TPM2_PolicyOR_REQUEST_Serialize :: "TPM2_PolicyOR_REQUEST \<Rightarrow> unit ser" where
  "TPM2_PolicyOR_REQUEST_Serialize self = wseq
     [withN ''policySession'' ''TPM_HANDLE'' '''' '''' (ser_writeObj ''TPM_HANDLE'' (TPM_HANDLE_Serialize (TPM2_PolicyOR_REQUEST_policySession self))),
      withN ''pHashList'' ''TPM2B_DIGEST[]'' ''pHashListCount'' ''UINT32'' (ser_writeObjArr ''TPM2B_DIGEST'' TPM2B_DIGEST_Serialize (TPM2_PolicyOR_REQUEST_pHashList self))]"

definition TPM2_PolicyOR_REQUEST_Deserialize :: "TPM2_PolicyOR_REQUEST \<Rightarrow> TPM2_PolicyOR_REQUEST ser" where
  "TPM2_PolicyOR_REQUEST_Deserialize self =
     sbind (withN ''policySession'' ''TPM_HANDLE'' '''' '''' (ser_readObj ''TPM_HANDLE'' (TPM_HANDLE_Deserialize (TPM2_PolicyOR_REQUEST_policySession self)))) (\<lambda>policySession.
     sbind (withN ''pHashList'' ''TPM2B_DIGEST[]'' ''pHashListCount'' ''UINT32'' (ser_readObjArr ''TPM2B_DIGEST'' TPM2B_DIGEST_Deserialize TPM2B_DIGEST_default (TPM2_PolicyOR_REQUEST_pHashList self))) (\<lambda>pHashList.
     ret (self\<lparr>TPM2_PolicyOR_REQUEST_policySession := policySession, TPM2_PolicyOR_REQUEST_pHashList := pHashList\<rparr>)))"

definition TPM2_PolicyOR_REQUEST_text_ok :: "text_class \<Rightarrow> TPM2_PolicyOR_REQUEST \<Rightarrow> bool" where
  "TPM2_PolicyOR_REQUEST_text_ok c x \<longleftrightarrow>
     TPM_HANDLE_text_ok c (TPM2_PolicyOR_REQUEST_policySession x) \<and>
     length (TPM2_PolicyOR_REQUEST_pHashList x) < 2 ^ 64 \<and> (\<forall>y \<in> set (TPM2_PolicyOR_REQUEST_pHashList x). TPM2B_DIGEST_text_ok c y)"

interpretation TPM2_PolicyOR_REQUEST_text: text_codec "''TPM2_PolicyOR_REQUEST''" TPM2_PolicyOR_REQUEST_Serialize TPM2_PolicyOR_REQUEST_Deserialize TPM2_PolicyOR_REQUEST_default TPM2_PolicyOR_REQUEST_text_ok
proof
  show "word_ok ''TPM2_PolicyOR_REQUEST''" by (simp add: word_simps)
  fix c x assume ok: "TPM2_PolicyOR_REQUEST_text_ok c x"
  from ok show "carries c True (TPM2_PolicyOR_REQUEST_Serialize x) (TPM2_PolicyOR_REQUEST_Deserialize TPM2_PolicyOR_REQUEST_default) x"
    by (simp only: TPM2_PolicyOR_REQUEST_Serialize_def TPM2_PolicyOR_REQUEST_Deserialize_def TPM2_PolicyOR_REQUEST_default_def
       TPM2_PolicyOR_REQUEST.select_convs TPM2_PolicyOR_REQUEST.update_convs;
      intro TPM2B_DIGEST_text.as_elements [THEN carries_entry_Cons] TPM_HANDLE_text.as_entry [THEN carries_entry_Cons] carries_body;
      (rule TPM2_PolicyOR_REQUEST.equality)?; simp add: TPM2_PolicyOR_REQUEST_text_ok_def word_simps)
qed

subsection \<open>TPM2_PolicyPCR_REQUEST\<close>

definition TPM2_PolicyPCR_REQUEST_Serialize :: "TPM2_PolicyPCR_REQUEST \<Rightarrow> unit ser" where
  "TPM2_PolicyPCR_REQUEST_Serialize self = wseq
     [withN ''policySession'' ''TPM_HANDLE'' '''' '''' (ser_writeObj ''TPM_HANDLE'' (TPM_HANDLE_Serialize (TPM2_PolicyPCR_REQUEST_policySession self))),
      withN ''pcrDigest'' ''BYTE[]'' ''pcrDigestSize'' ''UINT16'' (ser_writeSizedByteBuf (TPM2_PolicyPCR_REQUEST_pcrDigest self)),
      withN ''pcrs'' ''TPMS_PCR_SELECTION[]'' ''pcrsCount'' ''UINT32'' (ser_writeObjArr ''TPMS_PCR_SELECTION'' TPMS_PCR_SELECTION_Serialize (TPM2_PolicyPCR_REQUEST_pcrs self))]"

definition TPM2_PolicyPCR_REQUEST_Deserialize :: "TPM2_PolicyPCR_REQUEST \<Rightarrow> TPM2_PolicyPCR_REQUEST ser" where
  "TPM2_PolicyPCR_REQUEST_Deserialize self =
     sbind (withN ''policySession'' ''TPM_HANDLE'' '''' '''' (ser_readObj ''TPM_HANDLE'' (TPM_HANDLE_Deserialize (TPM2_PolicyPCR_REQUEST_policySession self)))) (\<lambda>policySession.
     sbind (withN ''pcrDigest'' ''BYTE[]'' ''pcrDigestSize'' ''UINT16'' ser_readSizedByteBuf) (\<lambda>pcrDigest.
     sbind (withN ''pcrs'' ''TPMS_PCR_SELECTION[]'' ''pcrsCount'' ''UINT32'' (ser_readObjArr ''TPMS_PCR_SELECTION'' TPMS_PCR_SELECTION_Deserialize TPMS_PCR_SELECTION_default (TPM2_PolicyPCR_REQUEST_pcrs self))) (\<lambda>pcrs.
     ret (self\<lparr>TPM2_PolicyPCR_REQUEST_policySession := policySession, TPM2_PolicyPCR_REQUEST_pcrDigest := pcrDigest, TPM2_PolicyPCR_REQUEST_pcrs := pcrs\<rparr>))))"

definition TPM2_PolicyPCR_REQUEST_text_ok :: "text_class \<Rightarrow> TPM2_PolicyPCR_REQUEST \<Rightarrow> bool" where
  "TPM2_PolicyPCR_REQUEST_text_ok c x \<longleftrightarrow>
     TPM_HANDLE_text_ok c (TPM2_PolicyPCR_REQUEST_policySession x) \<and>
     length (TPM2_PolicyPCR_REQUEST_pcrDigest x) < 2 ^ 64 \<and>
     length (TPM2_PolicyPCR_REQUEST_pcrs x) < 2 ^ 64 \<and> (\<forall>y \<in> set (TPM2_PolicyPCR_REQUEST_pcrs x). TPMS_PCR_SELECTION_text_ok c y)"

interpretation TPM2_PolicyPCR_REQUEST_text: text_codec "''TPM2_PolicyPCR_REQUEST''" TPM2_PolicyPCR_REQUEST_Serialize TPM2_PolicyPCR_REQUEST_Deserialize TPM2_PolicyPCR_REQUEST_default TPM2_PolicyPCR_REQUEST_text_ok
proof
  show "word_ok ''TPM2_PolicyPCR_REQUEST''" by (simp add: word_simps)
  fix c x assume ok: "TPM2_PolicyPCR_REQUEST_text_ok c x"
  from ok show "carries c True (TPM2_PolicyPCR_REQUEST_Serialize x) (TPM2_PolicyPCR_REQUEST_Deserialize TPM2_PolicyPCR_REQUEST_default) x"
    by (simp only: TPM2_PolicyPCR_REQUEST_Serialize_def TPM2_PolicyPCR_REQUEST_Deserialize_def TPM2_PolicyPCR_REQUEST_default_def
       TPM2_PolicyPCR_REQUEST.select_convs TPM2_PolicyPCR_REQUEST.update_convs;
      intro TPMS_PCR_SELECTION_text.as_elements [THEN carries_entry_Cons] TPM_HANDLE_text.as_entry [THEN carries_entry_Cons] carries_body;
      (rule TPM2_PolicyPCR_REQUEST.equality)?; simp add: TPM2_PolicyPCR_REQUEST_text_ok_def word_simps)
qed

subsection \<open>TPM2_PolicyLocality_REQUEST\<close>

definition TPM2_PolicyLocality_REQUEST_Serialize :: "TPM2_PolicyLocality_REQUEST \<Rightarrow> unit ser" where
  "TPM2_PolicyLocality_REQUEST_Serialize self = wseq
     [withN ''policySession'' ''TPM_HANDLE'' '''' '''' (ser_writeObj ''TPM_HANDLE'' (TPM_HANDLE_Serialize (TPM2_PolicyLocality_REQUEST_policySession self))),
      withN ''locality'' ''TPMA_LOCALITY'' '''' '''' (ser_writeEnumT (TPM2_PolicyLocality_REQUEST_locality self) TPMA_LOCALITY_ID)]"

definition TPM2_PolicyLocality_REQUEST_Deserialize :: "TPM2_PolicyLocality_REQUEST \<Rightarrow> TPM2_PolicyLocality_REQUEST ser" where
  "TPM2_PolicyLocality_REQUEST_Deserialize self =
     sbind (withN ''policySession'' ''TPM_HANDLE'' '''' '''' (ser_readObj ''TPM_HANDLE'' (TPM_HANDLE_Deserialize (TPM2_PolicyLocality_REQUEST_policySession self)))) (\<lambda>policySession.
     sbind (withN ''locality'' ''TPMA_LOCALITY'' '''' '''' (ser_readEnumT TPMA_LOCALITY_ID)) (\<lambda>locality.
     ret (self\<lparr>TPM2_PolicyLocality_REQUEST_policySession := policySession, TPM2_PolicyLocality_REQUEST_locality := locality\<rparr>)))"

definition TPM2_PolicyLocality_REQUEST_text_ok :: "text_class \<Rightarrow> TPM2_PolicyLocality_REQUEST \<Rightarrow> bool" where
  "TPM2_PolicyLocality_REQUEST_text_ok c x \<longleftrightarrow>
     TPM_HANDLE_text_ok c (TPM2_PolicyLocality_REQUEST_policySession x) \<and>
     enum_ok c (ucast (TPM2_PolicyLocality_REQUEST_locality x)) TPMA_LOCALITY_ID"

interpretation TPM2_PolicyLocality_REQUEST_text: text_codec "''TPM2_PolicyLocality_REQUEST''" TPM2_PolicyLocality_REQUEST_Serialize TPM2_PolicyLocality_REQUEST_Deserialize TPM2_PolicyLocality_REQUEST_default TPM2_PolicyLocality_REQUEST_text_ok
proof
  show "word_ok ''TPM2_PolicyLocality_REQUEST''" by (simp add: word_simps)
  fix c x assume ok: "TPM2_PolicyLocality_REQUEST_text_ok c x"
  from ok show "carries c True (TPM2_PolicyLocality_REQUEST_Serialize x) (TPM2_PolicyLocality_REQUEST_Deserialize TPM2_PolicyLocality_REQUEST_default) x"
    by (simp only: TPM2_PolicyLocality_REQUEST_Serialize_def TPM2_PolicyLocality_REQUEST_Deserialize_def TPM2_PolicyLocality_REQUEST_default_def
       TPM2_PolicyLocality_REQUEST.select_convs TPM2_PolicyLocality_REQUEST.update_convs;
      intro TPM_HANDLE_text.as_entry [THEN carries_entry_Cons] carries_body;
      (rule TPM2_PolicyLocality_REQUEST.equality)?; simp add: TPM2_PolicyLocality_REQUEST_text_ok_def word_simps)
qed

subsection \<open>TPM2_PolicyNV_REQUEST\<close>

definition TPM2_PolicyNV_REQUEST_Serialize :: "TPM2_PolicyNV_REQUEST \<Rightarrow> unit ser" where
  "TPM2_PolicyNV_REQUEST_Serialize self = wseq
     [withN ''authHandle'' ''TPM_HANDLE'' '''' '''' (ser_writeObj ''TPM_HANDLE'' (TPM_HANDLE_Serialize (TPM2_PolicyNV_REQUEST_authHandle self))),
      withN ''nvIndex'' ''TPM_HANDLE'' '''' '''' (ser_writeObj ''TPM_HANDLE'' (TPM_HANDLE_Serialize (TPM2_PolicyNV_REQUEST_nvIndex self))),
      withN ''policySession'' ''TPM_HANDLE'' '''' '''' (ser_writeObj ''TPM_HANDLE'' (TPM_HANDLE_Serialize (TPM2_PolicyNV_REQUEST_policySession self))),
      withN ''operandB'' ''BYTE[]'' ''operandBSize'' ''UINT16'' (ser_writeSizedByteBuf (TPM2_PolicyNV_REQUEST_operandB self)),
      withN ''offset'' ''UINT16'' '''' '''' (ser_writeShort (TPM2_PolicyNV_REQUEST_offset self)),
      withN ''operation'' ''TPM_EO'' '''' '''' (ser_writeEnumT (TPM2_PolicyNV_REQUEST_operation self) TPM_EO_ID)]"

definition TPM2_PolicyNV_REQUEST_Deserialize :: "TPM2_PolicyNV_REQUEST \<Rightarrow> TPM2_PolicyNV_REQUEST ser" where
  "TPM2_PolicyNV_REQUEST_Deserialize self =
     sbind (withN ''authHandle'' ''TPM_HANDLE'' '''' '''' (ser_readObj ''TPM_HANDLE'' (TPM_HANDLE_Deserialize (TPM2_PolicyNV_REQUEST_authHandle self)))) (\<lambda>authHandle.
     sbind (withN ''nvIndex'' ''TPM_HANDLE'' '''' '''' (ser_readObj ''TPM_HANDLE'' (TPM_HANDLE_Deserialize (TPM2_PolicyNV_REQUEST_nvIndex self)))) (\<lambda>nvIndex.
     sbind (withN ''policySession'' ''TPM_HANDLE'' '''' '''' (ser_readObj ''TPM_HANDLE'' (TPM_HANDLE_Deserialize (TPM2_PolicyNV_REQUEST_policySession self)))) (\<lambda>policySession.
     sbind (withN ''operandB'' ''BYTE[]'' ''operandBSize'' ''UINT16'' ser_readSizedByteBuf) (\<lambda>operandB.
     sbind (withN ''offset'' ''UINT16'' '''' '''' ser_readShort) (\<lambda>offset.
     sbind (withN ''operation'' ''TPM_EO'' '''' '''' (ser_readEnumT TPM_EO_ID)) (\<lambda>operation.
     ret (self\<lparr>TPM2_PolicyNV_REQUEST_authHandle := authHandle, TPM2_PolicyNV_REQUEST_nvIndex := nvIndex, TPM2_PolicyNV_REQUEST_policySession := policySession, TPM2_PolicyNV_REQUEST_operandB := operandB, TPM2_PolicyNV_REQUEST_offset := offset, TPM2_PolicyNV_REQUEST_operation := operation\<rparr>)))))))"

definition TPM2_PolicyNV_REQUEST_text_ok :: "text_class \<Rightarrow> TPM2_PolicyNV_REQUEST \<Rightarrow> bool" where
  "TPM2_PolicyNV_REQUEST_text_ok c x \<longleftrightarrow>
     TPM_HANDLE_text_ok c (TPM2_PolicyNV_REQUEST_authHandle x) \<and>
     TPM_HANDLE_text_ok c (TPM2_PolicyNV_REQUEST_nvIndex x) \<and>
     TPM_HANDLE_text_ok c (TPM2_PolicyNV_REQUEST_policySession x) \<and>
     length (TPM2_PolicyNV_REQUEST_operandB x) < 2 ^ 64 \<and>
     enum_ok c (ucast (TPM2_PolicyNV_REQUEST_operation x)) TPM_EO_ID"

interpretation TPM2_PolicyNV_REQUEST_text: text_codec "''TPM2_PolicyNV_REQUEST''" TPM2_PolicyNV_REQUEST_Serialize TPM2_PolicyNV_REQUEST_Deserialize TPM2_PolicyNV_REQUEST_default TPM2_PolicyNV_REQUEST_text_ok
proof
  show "word_ok ''TPM2_PolicyNV_REQUEST''" by (simp add: word_simps)
  fix c x assume ok: "TPM2_PolicyNV_REQUEST_text_ok c x"
  from ok show "carries c True (TPM2_PolicyNV_REQUEST_Serialize x) (TPM2_PolicyNV_REQUEST_Deserialize TPM2_PolicyNV_REQUEST_default) x"
    by (simp only: TPM2_PolicyNV_REQUEST_Serialize_def TPM2_PolicyNV_REQUEST_Deserialize_def TPM2_PolicyNV_REQUEST_default_def
       TPM2_PolicyNV_REQUEST.select_convs TPM2_PolicyNV_REQUEST.update_convs;
      intro TPM_HANDLE_text.as_entry [THEN carries_entry_Cons] carries_body;
      (rule TPM2_PolicyNV_REQUEST.equality)?; simp add: TPM2_PolicyNV_REQUEST_text_ok_def word_simps)
qed

subsection \<open>TPM2_PolicyCounterTimer_REQUEST\<close>

definition TPM2_PolicyCounterTimer_REQUEST_Serialize :: "TPM2_PolicyCounterTimer_REQUEST \<Rightarrow> unit ser" where
  "TPM2_PolicyCounterTimer_REQUEST_Serialize self = wseq
     [withN ''policySession'' ''TPM_HANDLE'' '''' '''' (ser_writeObj ''TPM_HANDLE'' (TPM_HANDLE_Serialize (TPM2_PolicyCounterTimer_REQUEST_policySession self))),
      withN ''operandB'' ''BYTE[]'' ''operandBSize'' ''UINT16'' (ser_writeSizedByteBuf (TPM2_PolicyCounterTimer_REQUEST_operandB self)),
      withN ''offset'' ''UINT16'' '''' '''' (ser_writeShort (TPM2_PolicyCounterTimer_REQUEST_offset self)),
      withN ''operation'' ''TPM_EO'' '''' '''' (ser_writeEnumT (TPM2_PolicyCounterTimer_REQUEST_operation self) TPM_EO_ID)]"

definition TPM2_PolicyCounterTimer_REQUEST_Deserialize :: "TPM2_PolicyCounterTimer_REQUEST \<Rightarrow> TPM2_PolicyCounterTimer_REQUEST ser" where
  "TPM2_PolicyCounterTimer_REQUEST_Deserialize self =
     sbind (withN ''policySession'' ''TPM_HANDLE'' '''' '''' (ser_readObj ''TPM_HANDLE'' (TPM_HANDLE_Deserialize (TPM2_PolicyCounterTimer_REQUEST_policySession self)))) (\<lambda>policySession.
     sbind (withN ''operandB'' ''BYTE[]'' ''operandBSize'' ''UINT16'' ser_readSizedByteBuf) (\<lambda>operandB.
     sbind (withN ''offset'' ''UINT16'' '''' '''' ser_readShort) (\<lambda>offset.
     sbind (withN ''operation'' ''TPM_EO'' '''' '''' (ser_readEnumT TPM_EO_ID)) (\<lambda>operation.
     ret (self\<lparr>TPM2_PolicyCounterTimer_REQUEST_policySession := policySession, TPM2_PolicyCounterTimer_REQUEST_operandB := operandB, TPM2_PolicyCounterTimer_REQUEST_offset := offset, TPM2_PolicyCounterTimer_REQUEST_operation := operation\<rparr>)))))"

definition TPM2_PolicyCounterTimer_REQUEST_text_ok :: "text_class \<Rightarrow> TPM2_PolicyCounterTimer_REQUEST \<Rightarrow> bool" where
  "TPM2_PolicyCounterTimer_REQUEST_text_ok c x \<longleftrightarrow>
     TPM_HANDLE_text_ok c (TPM2_PolicyCounterTimer_REQUEST_policySession x) \<and>
     length (TPM2_PolicyCounterTimer_REQUEST_operandB x) < 2 ^ 64 \<and>
     enum_ok c (ucast (TPM2_PolicyCounterTimer_REQUEST_operation x)) TPM_EO_ID"

interpretation TPM2_PolicyCounterTimer_REQUEST_text: text_codec "''TPM2_PolicyCounterTimer_REQUEST''" TPM2_PolicyCounterTimer_REQUEST_Serialize TPM2_PolicyCounterTimer_REQUEST_Deserialize TPM2_PolicyCounterTimer_REQUEST_default TPM2_PolicyCounterTimer_REQUEST_text_ok
proof
  show "word_ok ''TPM2_PolicyCounterTimer_REQUEST''" by (simp add: word_simps)
  fix c x assume ok: "TPM2_PolicyCounterTimer_REQUEST_text_ok c x"
  from ok show "carries c True (TPM2_PolicyCounterTimer_REQUEST_Serialize x) (TPM2_PolicyCounterTimer_REQUEST_Deserialize TPM2_PolicyCounterTimer_REQUEST_default) x"
    by (simp only: TPM2_PolicyCounterTimer_REQUEST_Serialize_def TPM2_PolicyCounterTimer_REQUEST_Deserialize_def TPM2_PolicyCounterTimer_REQUEST_default_def
       TPM2_PolicyCounterTimer_REQUEST.select_convs TPM2_PolicyCounterTimer_REQUEST.update_convs;
      intro TPM_HANDLE_text.as_entry [THEN carries_entry_Cons] carries_body;
      (rule TPM2_PolicyCounterTimer_REQUEST.equality)?; simp add: TPM2_PolicyCounterTimer_REQUEST_text_ok_def word_simps)
qed

subsection \<open>TPM2_PolicyCommandCode_REQUEST\<close>

definition TPM2_PolicyCommandCode_REQUEST_Serialize :: "TPM2_PolicyCommandCode_REQUEST \<Rightarrow> unit ser" where
  "TPM2_PolicyCommandCode_REQUEST_Serialize self = wseq
     [withN ''policySession'' ''TPM_HANDLE'' '''' '''' (ser_writeObj ''TPM_HANDLE'' (TPM_HANDLE_Serialize (TPM2_PolicyCommandCode_REQUEST_policySession self))),
      withN ''code'' ''TPM_CC'' '''' '''' (ser_writeEnumT (TPM2_PolicyCommandCode_REQUEST_code self) TPM_CC_ID)]"

definition TPM2_PolicyCommandCode_REQUEST_Deserialize :: "TPM2_PolicyCommandCode_REQUEST \<Rightarrow> TPM2_PolicyCommandCode_REQUEST ser" where
  "TPM2_PolicyCommandCode_REQUEST_Deserialize self =
     sbind (withN ''policySession'' ''TPM_HANDLE'' '''' '''' (ser_readObj ''TPM_HANDLE'' (TPM_HANDLE_Deserialize (TPM2_PolicyCommandCode_REQUEST_policySession self)))) (\<lambda>policySession.
     sbind (withN ''code'' ''TPM_CC'' '''' '''' (ser_readEnumT TPM_CC_ID)) (\<lambda>code.
     ret (self\<lparr>TPM2_PolicyCommandCode_REQUEST_policySession := policySession, TPM2_PolicyCommandCode_REQUEST_code := code\<rparr>)))"

definition TPM2_PolicyCommandCode_REQUEST_text_ok :: "text_class \<Rightarrow> TPM2_PolicyCommandCode_REQUEST \<Rightarrow> bool" where
  "TPM2_PolicyCommandCode_REQUEST_text_ok c x \<longleftrightarrow>
     TPM_HANDLE_text_ok c (TPM2_PolicyCommandCode_REQUEST_policySession x) \<and>
     enum_ok c (ucast (TPM2_PolicyCommandCode_REQUEST_code x)) TPM_CC_ID"

interpretation TPM2_PolicyCommandCode_REQUEST_text: text_codec "''TPM2_PolicyCommandCode_REQUEST''" TPM2_PolicyCommandCode_REQUEST_Serialize TPM2_PolicyCommandCode_REQUEST_Deserialize TPM2_PolicyCommandCode_REQUEST_default TPM2_PolicyCommandCode_REQUEST_text_ok
proof
  show "word_ok ''TPM2_PolicyCommandCode_REQUEST''" by (simp add: word_simps)
  fix c x assume ok: "TPM2_PolicyCommandCode_REQUEST_text_ok c x"
  from ok show "carries c True (TPM2_PolicyCommandCode_REQUEST_Serialize x) (TPM2_PolicyCommandCode_REQUEST_Deserialize TPM2_PolicyCommandCode_REQUEST_default) x"
    by (simp only: TPM2_PolicyCommandCode_REQUEST_Serialize_def TPM2_PolicyCommandCode_REQUEST_Deserialize_def TPM2_PolicyCommandCode_REQUEST_default_def
       TPM2_PolicyCommandCode_REQUEST.select_convs TPM2_PolicyCommandCode_REQUEST.update_convs;
      intro TPM_HANDLE_text.as_entry [THEN carries_entry_Cons] carries_body;
      (rule TPM2_PolicyCommandCode_REQUEST.equality)?; simp add: TPM2_PolicyCommandCode_REQUEST_text_ok_def word_simps)
qed

subsection \<open>TPM2_PolicyPhysicalPresence_REQUEST\<close>

definition TPM2_PolicyPhysicalPresence_REQUEST_Serialize :: "TPM2_PolicyPhysicalPresence_REQUEST \<Rightarrow> unit ser" where
  "TPM2_PolicyPhysicalPresence_REQUEST_Serialize self = wseq
     [withN ''policySession'' ''TPM_HANDLE'' '''' '''' (ser_writeObj ''TPM_HANDLE'' (TPM_HANDLE_Serialize (TPM2_PolicyPhysicalPresence_REQUEST_policySession self)))]"

definition TPM2_PolicyPhysicalPresence_REQUEST_Deserialize :: "TPM2_PolicyPhysicalPresence_REQUEST \<Rightarrow> TPM2_PolicyPhysicalPresence_REQUEST ser" where
  "TPM2_PolicyPhysicalPresence_REQUEST_Deserialize self =
     sbind (withN ''policySession'' ''TPM_HANDLE'' '''' '''' (ser_readObj ''TPM_HANDLE'' (TPM_HANDLE_Deserialize (TPM2_PolicyPhysicalPresence_REQUEST_policySession self)))) (\<lambda>policySession.
     ret (self\<lparr>TPM2_PolicyPhysicalPresence_REQUEST_policySession := policySession\<rparr>))"

definition TPM2_PolicyPhysicalPresence_REQUEST_text_ok :: "text_class \<Rightarrow> TPM2_PolicyPhysicalPresence_REQUEST \<Rightarrow> bool" where
  "TPM2_PolicyPhysicalPresence_REQUEST_text_ok c x \<longleftrightarrow>
     TPM_HANDLE_text_ok c (TPM2_PolicyPhysicalPresence_REQUEST_policySession x)"

interpretation TPM2_PolicyPhysicalPresence_REQUEST_text: text_codec "''TPM2_PolicyPhysicalPresence_REQUEST''" TPM2_PolicyPhysicalPresence_REQUEST_Serialize TPM2_PolicyPhysicalPresence_REQUEST_Deserialize TPM2_PolicyPhysicalPresence_REQUEST_default TPM2_PolicyPhysicalPresence_REQUEST_text_ok
proof
  show "word_ok ''TPM2_PolicyPhysicalPresence_REQUEST''" by (simp add: word_simps)
  fix c x assume ok: "TPM2_PolicyPhysicalPresence_REQUEST_text_ok c x"
  from ok show "carries c True (TPM2_PolicyPhysicalPresence_REQUEST_Serialize x) (TPM2_PolicyPhysicalPresence_REQUEST_Deserialize TPM2_PolicyPhysicalPresence_REQUEST_default) x"
    by (simp only: TPM2_PolicyPhysicalPresence_REQUEST_Serialize_def TPM2_PolicyPhysicalPresence_REQUEST_Deserialize_def TPM2_PolicyPhysicalPresence_REQUEST_default_def
       TPM2_PolicyPhysicalPresence_REQUEST.select_convs TPM2_PolicyPhysicalPresence_REQUEST.update_convs;
      intro TPM_HANDLE_text.as_entry [THEN carries_entry_Cons] carries_body;
      (rule TPM2_PolicyPhysicalPresence_REQUEST.equality)?; simp add: TPM2_PolicyPhysicalPresence_REQUEST_text_ok_def word_simps)
qed

subsection \<open>TPM2_PolicyCpHash_REQUEST\<close>

definition TPM2_PolicyCpHash_REQUEST_Serialize :: "TPM2_PolicyCpHash_REQUEST \<Rightarrow> unit ser" where
  "TPM2_PolicyCpHash_REQUEST_Serialize self = wseq
     [withN ''policySession'' ''TPM_HANDLE'' '''' '''' (ser_writeObj ''TPM_HANDLE'' (TPM_HANDLE_Serialize (TPM2_PolicyCpHash_REQUEST_policySession self))),
      withN ''cpHashA'' ''BYTE[]'' ''cpHashASize'' ''UINT16'' (ser_writeSizedByteBuf (TPM2_PolicyCpHash_REQUEST_cpHashA self))]"

definition TPM2_PolicyCpHash_REQUEST_Deserialize :: "TPM2_PolicyCpHash_REQUEST \<Rightarrow> TPM2_PolicyCpHash_REQUEST ser" where
  "TPM2_PolicyCpHash_REQUEST_Deserialize self =
     sbind (withN ''policySession'' ''TPM_HANDLE'' '''' '''' (ser_readObj ''TPM_HANDLE'' (TPM_HANDLE_Deserialize (TPM2_PolicyCpHash_REQUEST_policySession self)))) (\<lambda>policySession.
     sbind (withN ''cpHashA'' ''BYTE[]'' ''cpHashASize'' ''UINT16'' ser_readSizedByteBuf) (\<lambda>cpHashA.
     ret (self\<lparr>TPM2_PolicyCpHash_REQUEST_policySession := policySession, TPM2_PolicyCpHash_REQUEST_cpHashA := cpHashA\<rparr>)))"

definition TPM2_PolicyCpHash_REQUEST_text_ok :: "text_class \<Rightarrow> TPM2_PolicyCpHash_REQUEST \<Rightarrow> bool" where
  "TPM2_PolicyCpHash_REQUEST_text_ok c x \<longleftrightarrow>
     TPM_HANDLE_text_ok c (TPM2_PolicyCpHash_REQUEST_policySession x) \<and>
     length (TPM2_PolicyCpHash_REQUEST_cpHashA x) < 2 ^ 64"

interpretation TPM2_PolicyCpHash_REQUEST_text: text_codec "''TPM2_PolicyCpHash_REQUEST''" TPM2_PolicyCpHash_REQUEST_Serialize TPM2_PolicyCpHash_REQUEST_Deserialize TPM2_PolicyCpHash_REQUEST_default TPM2_PolicyCpHash_REQUEST_text_ok
proof
  show "word_ok ''TPM2_PolicyCpHash_REQUEST''" by (simp add: word_simps)
  fix c x assume ok: "TPM2_PolicyCpHash_REQUEST_text_ok c x"
  from ok show "carries c True (TPM2_PolicyCpHash_REQUEST_Serialize x) (TPM2_PolicyCpHash_REQUEST_Deserialize TPM2_PolicyCpHash_REQUEST_default) x"
    by (simp only: TPM2_PolicyCpHash_REQUEST_Serialize_def TPM2_PolicyCpHash_REQUEST_Deserialize_def TPM2_PolicyCpHash_REQUEST_default_def
       TPM2_PolicyCpHash_REQUEST.select_convs TPM2_PolicyCpHash_REQUEST.update_convs;
      intro TPM_HANDLE_text.as_entry [THEN carries_entry_Cons] carries_body;
      (rule TPM2_PolicyCpHash_REQUEST.equality)?; simp add: TPM2_PolicyCpHash_REQUEST_text_ok_def word_simps)
qed

subsection \<open>TPM2_PolicyNameHash_REQUEST\<close>

definition TPM2_PolicyNameHash_REQUEST_Serialize :: "TPM2_PolicyNameHash_REQUEST \<Rightarrow> unit ser" where
  "TPM2_PolicyNameHash_REQUEST_Serialize self = wseq
     [withN ''policySession'' ''TPM_HANDLE'' '''' '''' (ser_writeObj ''TPM_HANDLE'' (TPM_HANDLE_Serialize (TPM2_PolicyNameHash_REQUEST_policySession self))),
      withN ''nameHash'' ''BYTE[]'' ''nameHashSize'' ''UINT16'' (ser_writeSizedByteBuf (TPM2_PolicyNameHash_REQUEST_nameHash self))]"

definition TPM2_PolicyNameHash_REQUEST_Deserialize :: "TPM2_PolicyNameHash_REQUEST \<Rightarrow> TPM2_PolicyNameHash_REQUEST ser" where
  "TPM2_PolicyNameHash_REQUEST_Deserialize self =
     sbind (withN ''policySession'' ''TPM_HANDLE'' '''' '''' (ser_readObj ''TPM_HANDLE'' (TPM_HANDLE_Deserialize (TPM2_PolicyNameHash_REQUEST_policySession self)))) (\<lambda>policySession.
     sbind (withN ''nameHash'' ''BYTE[]'' ''nameHashSize'' ''UINT16'' ser_readSizedByteBuf) (\<lambda>nameHash.
     ret (self\<lparr>TPM2_PolicyNameHash_REQUEST_policySession := policySession, TPM2_PolicyNameHash_REQUEST_nameHash := nameHash\<rparr>)))"

definition TPM2_PolicyNameHash_REQUEST_text_ok :: "text_class \<Rightarrow> TPM2_PolicyNameHash_REQUEST \<Rightarrow> bool" where
  "TPM2_PolicyNameHash_REQUEST_text_ok c x \<longleftrightarrow>
     TPM_HANDLE_text_ok c (TPM2_PolicyNameHash_REQUEST_policySession x) \<and>
     length (TPM2_PolicyNameHash_REQUEST_nameHash x) < 2 ^ 64"

interpretation TPM2_PolicyNameHash_REQUEST_text: text_codec "''TPM2_PolicyNameHash_REQUEST''" TPM2_PolicyNameHash_REQUEST_Serialize TPM2_PolicyNameHash_REQUEST_Deserialize TPM2_PolicyNameHash_REQUEST_default TPM2_PolicyNameHash_REQUEST_text_ok
proof
  show "word_ok ''TPM2_PolicyNameHash_REQUEST''" by (simp add: word_simps)
  fix c x assume ok: "TPM2_PolicyNameHash_REQUEST_text_ok c x"
  from ok show "carries c True (TPM2_PolicyNameHash_REQUEST_Serialize x) (TPM2_PolicyNameHash_REQUEST_Deserialize TPM2_PolicyNameHash_REQUEST_default) x"
    by (simp only: TPM2_PolicyNameHash_REQUEST_Serialize_def TPM2_PolicyNameHash_REQUEST_Deserialize_def TPM2_PolicyNameHash_REQUEST_default_def
       TPM2_PolicyNameHash_REQUEST.select_convs TPM2_PolicyNameHash_REQUEST.update_convs;
      intro TPM_HANDLE_text.as_entry [THEN carries_entry_Cons] carries_body;
      (rule TPM2_PolicyNameHash_REQUEST.equality)?; simp add: TPM2_PolicyNameHash_REQUEST_text_ok_def word_simps)
qed

subsection \<open>TPM2_PolicyDuplicationSelect_REQUEST\<close>

definition TPM2_PolicyDuplicationSelect_REQUEST_Serialize :: "TPM2_PolicyDuplicationSelect_REQUEST \<Rightarrow> unit ser" where
  "TPM2_PolicyDuplicationSelect_REQUEST_Serialize self = wseq
     [withN ''policySession'' ''TPM_HANDLE'' '''' '''' (ser_writeObj ''TPM_HANDLE'' (TPM_HANDLE_Serialize (TPM2_PolicyDuplicationSelect_REQUEST_policySession self))),
      withN ''objectName'' ''BYTE[]'' ''objectNameSize'' ''UINT16'' (ser_writeSizedByteBuf (TPM2_PolicyDuplicationSelect_REQUEST_objectName self)),
      withN ''newParentName'' ''BYTE[]'' ''newParentNameSize'' ''UINT16'' (ser_writeSizedByteBuf (TPM2_PolicyDuplicationSelect_REQUEST_newParentName self)),
      withN ''includeObject'' ''BYTE'' '''' '''' (ser_writeByte (TPM2_PolicyDuplicationSelect_REQUEST_includeObject self))]"

definition TPM2_PolicyDuplicationSelect_REQUEST_Deserialize :: "TPM2_PolicyDuplicationSelect_REQUEST \<Rightarrow> TPM2_PolicyDuplicationSelect_REQUEST ser" where
  "TPM2_PolicyDuplicationSelect_REQUEST_Deserialize self =
     sbind (withN ''policySession'' ''TPM_HANDLE'' '''' '''' (ser_readObj ''TPM_HANDLE'' (TPM_HANDLE_Deserialize (TPM2_PolicyDuplicationSelect_REQUEST_policySession self)))) (\<lambda>policySession.
     sbind (withN ''objectName'' ''BYTE[]'' ''objectNameSize'' ''UINT16'' ser_readSizedByteBuf) (\<lambda>objectName.
     sbind (withN ''newParentName'' ''BYTE[]'' ''newParentNameSize'' ''UINT16'' ser_readSizedByteBuf) (\<lambda>newParentName.
     sbind (withN ''includeObject'' ''BYTE'' '''' '''' ser_readByte) (\<lambda>includeObject.
     ret (self\<lparr>TPM2_PolicyDuplicationSelect_REQUEST_policySession := policySession, TPM2_PolicyDuplicationSelect_REQUEST_objectName := objectName, TPM2_PolicyDuplicationSelect_REQUEST_newParentName := newParentName, TPM2_PolicyDuplicationSelect_REQUEST_includeObject := includeObject\<rparr>)))))"

definition TPM2_PolicyDuplicationSelect_REQUEST_text_ok :: "text_class \<Rightarrow> TPM2_PolicyDuplicationSelect_REQUEST \<Rightarrow> bool" where
  "TPM2_PolicyDuplicationSelect_REQUEST_text_ok c x \<longleftrightarrow>
     TPM_HANDLE_text_ok c (TPM2_PolicyDuplicationSelect_REQUEST_policySession x) \<and>
     length (TPM2_PolicyDuplicationSelect_REQUEST_objectName x) < 2 ^ 64 \<and>
     length (TPM2_PolicyDuplicationSelect_REQUEST_newParentName x) < 2 ^ 64"

interpretation TPM2_PolicyDuplicationSelect_REQUEST_text: text_codec "''TPM2_PolicyDuplicationSelect_REQUEST''" TPM2_PolicyDuplicationSelect_REQUEST_Serialize TPM2_PolicyDuplicationSelect_REQUEST_Deserialize TPM2_PolicyDuplicationSelect_REQUEST_default TPM2_PolicyDuplicationSelect_REQUEST_text_ok
proof
  show "word_ok ''TPM2_PolicyDuplicationSelect_REQUEST''" by (simp add: word_simps)
  fix c x assume ok: "TPM2_PolicyDuplicationSelect_REQUEST_text_ok c x"
  from ok show "carries c True (TPM2_PolicyDuplicationSelect_REQUEST_Serialize x) (TPM2_PolicyDuplicationSelect_REQUEST_Deserialize TPM2_PolicyDuplicationSelect_REQUEST_default) x"
    by (simp only: TPM2_PolicyDuplicationSelect_REQUEST_Serialize_def TPM2_PolicyDuplicationSelect_REQUEST_Deserialize_def TPM2_PolicyDuplicationSelect_REQUEST_default_def
       TPM2_PolicyDuplicationSelect_REQUEST.select_convs TPM2_PolicyDuplicationSelect_REQUEST.update_convs;
      intro TPM_HANDLE_text.as_entry [THEN carries_entry_Cons] carries_body;
      (rule TPM2_PolicyDuplicationSelect_REQUEST.equality)?; simp add: TPM2_PolicyDuplicationSelect_REQUEST_text_ok_def word_simps)
qed

subsection \<open>TPM2_PolicyAuthorize_REQUEST\<close>

definition TPM2_PolicyAuthorize_REQUEST_Serialize :: "TPM2_PolicyAuthorize_REQUEST \<Rightarrow> unit ser" where
  "TPM2_PolicyAuthorize_REQUEST_Serialize self = wseq
     [withN ''policySession'' ''TPM_HANDLE'' '''' '''' (ser_writeObj ''TPM_HANDLE'' (TPM_HANDLE_Serialize (TPM2_PolicyAuthorize_REQUEST_policySession self))),
      withN ''approvedPolicy'' ''BYTE[]'' ''approvedPolicySize'' ''UINT16'' (ser_writeSizedByteBuf (TPM2_PolicyAuthorize_REQUEST_approvedPolicy self)),
      withN ''policyRef'' ''BYTE[]'' ''policyRefSize'' ''UINT16'' (ser_writeSizedByteBuf (TPM2_PolicyAuthorize_REQUEST_policyRef self)),
      withN ''keySign'' ''BYTE[]'' ''keySignSize'' ''UINT16'' (ser_writeSizedByteBuf (TPM2_PolicyAuthorize_REQUEST_keySign self)),
      withN ''checkTicket'' ''TPMT_TK_VERIFIED'' '''' '''' (ser_writeObj ''TPMT_TK_VERIFIED'' (TPMT_TK_VERIFIED_Serialize (TPM2_PolicyAuthorize_REQUEST_checkTicket self)))]"

definition TPM2_PolicyAuthorize_REQUEST_Deserialize :: "TPM2_PolicyAuthorize_REQUEST \<Rightarrow> TPM2_PolicyAuthorize_REQUEST ser" where
  "TPM2_PolicyAuthorize_REQUEST_Deserialize self =
     sbind (withN ''policySession'' ''TPM_HANDLE'' '''' '''' (ser_readObj ''TPM_HANDLE'' (TPM_HANDLE_Deserialize (TPM2_PolicyAuthorize_REQUEST_policySession self)))) (\<lambda>policySession.
     sbind (withN ''approvedPolicy'' ''BYTE[]'' ''approvedPolicySize'' ''UINT16'' ser_readSizedByteBuf) (\<lambda>approvedPolicy.
     sbind (withN ''policyRef'' ''BYTE[]'' ''policyRefSize'' ''UINT16'' ser_readSizedByteBuf) (\<lambda>policyRef.
     sbind (withN ''keySign'' ''BYTE[]'' ''keySignSize'' ''UINT16'' ser_readSizedByteBuf) (\<lambda>keySign.
     sbind (withN ''checkTicket'' ''TPMT_TK_VERIFIED'' '''' '''' (ser_readObj ''TPMT_TK_VERIFIED'' (TPMT_TK_VERIFIED_Deserialize (TPM2_PolicyAuthorize_REQUEST_checkTicket self)))) (\<lambda>checkTicket.
     ret (self\<lparr>TPM2_PolicyAuthorize_REQUEST_policySession := policySession, TPM2_PolicyAuthorize_REQUEST_approvedPolicy := approvedPolicy, TPM2_PolicyAuthorize_REQUEST_policyRef := policyRef, TPM2_PolicyAuthorize_REQUEST_keySign := keySign, TPM2_PolicyAuthorize_REQUEST_checkTicket := checkTicket\<rparr>))))))"

definition TPM2_PolicyAuthorize_REQUEST_text_ok :: "text_class \<Rightarrow> TPM2_PolicyAuthorize_REQUEST \<Rightarrow> bool" where
  "TPM2_PolicyAuthorize_REQUEST_text_ok c x \<longleftrightarrow>
     TPM_HANDLE_text_ok c (TPM2_PolicyAuthorize_REQUEST_policySession x) \<and>
     length (TPM2_PolicyAuthorize_REQUEST_approvedPolicy x) < 2 ^ 64 \<and>
     length (TPM2_PolicyAuthorize_REQUEST_policyRef x) < 2 ^ 64 \<and>
     length (TPM2_PolicyAuthorize_REQUEST_keySign x) < 2 ^ 64 \<and>
     TPMT_TK_VERIFIED_text_ok c (TPM2_PolicyAuthorize_REQUEST_checkTicket x)"

interpretation TPM2_PolicyAuthorize_REQUEST_text: text_codec "''TPM2_PolicyAuthorize_REQUEST''" TPM2_PolicyAuthorize_REQUEST_Serialize TPM2_PolicyAuthorize_REQUEST_Deserialize TPM2_PolicyAuthorize_REQUEST_default TPM2_PolicyAuthorize_REQUEST_text_ok
proof
  show "word_ok ''TPM2_PolicyAuthorize_REQUEST''" by (simp add: word_simps)
  fix c x assume ok: "TPM2_PolicyAuthorize_REQUEST_text_ok c x"
  from ok show "carries c True (TPM2_PolicyAuthorize_REQUEST_Serialize x) (TPM2_PolicyAuthorize_REQUEST_Deserialize TPM2_PolicyAuthorize_REQUEST_default) x"
    by (simp only: TPM2_PolicyAuthorize_REQUEST_Serialize_def TPM2_PolicyAuthorize_REQUEST_Deserialize_def TPM2_PolicyAuthorize_REQUEST_default_def
       TPM2_PolicyAuthorize_REQUEST.select_convs TPM2_PolicyAuthorize_REQUEST.update_convs;
      intro TPMT_TK_VERIFIED_text.as_entry [THEN carries_entry_Cons] TPM_HANDLE_text.as_entry [THEN carries_entry_Cons] carries_body;
      (rule TPM2_PolicyAuthorize_REQUEST.equality)?; simp add: TPM2_PolicyAuthorize_REQUEST_text_ok_def word_simps)
qed

subsection \<open>TPM2_PolicyAuthValue_REQUEST\<close>

definition TPM2_PolicyAuthValue_REQUEST_Serialize :: "TPM2_PolicyAuthValue_REQUEST \<Rightarrow> unit ser" where
  "TPM2_PolicyAuthValue_REQUEST_Serialize self = wseq
     [withN ''policySession'' ''TPM_HANDLE'' '''' '''' (ser_writeObj ''TPM_HANDLE'' (TPM_HANDLE_Serialize (TPM2_PolicyAuthValue_REQUEST_policySession self)))]"

definition TPM2_PolicyAuthValue_REQUEST_Deserialize :: "TPM2_PolicyAuthValue_REQUEST \<Rightarrow> TPM2_PolicyAuthValue_REQUEST ser" where
  "TPM2_PolicyAuthValue_REQUEST_Deserialize self =
     sbind (withN ''policySession'' ''TPM_HANDLE'' '''' '''' (ser_readObj ''TPM_HANDLE'' (TPM_HANDLE_Deserialize (TPM2_PolicyAuthValue_REQUEST_policySession self)))) (\<lambda>policySession.
     ret (self\<lparr>TPM2_PolicyAuthValue_REQUEST_policySession := policySession\<rparr>))"

definition TPM2_PolicyAuthValue_REQUEST_text_ok :: "text_class \<Rightarrow> TPM2_PolicyAuthValue_REQUEST \<Rightarrow> bool" where
  "TPM2_PolicyAuthValue_REQUEST_text_ok c x \<longleftrightarrow>
     TPM_HANDLE_text_ok c (TPM2_PolicyAuthValue_REQUEST_policySession x)"

interpretation TPM2_PolicyAuthValue_REQUEST_text: text_codec "''TPM2_PolicyAuthValue_REQUEST''" TPM2_PolicyAuthValue_REQUEST_Serialize TPM2_PolicyAuthValue_REQUEST_Deserialize TPM2_PolicyAuthValue_REQUEST_default TPM2_PolicyAuthValue_REQUEST_text_ok
proof
  show "word_ok ''TPM2_PolicyAuthValue_REQUEST''" by (simp add: word_simps)
  fix c x assume ok: "TPM2_PolicyAuthValue_REQUEST_text_ok c x"
  from ok show "carries c True (TPM2_PolicyAuthValue_REQUEST_Serialize x) (TPM2_PolicyAuthValue_REQUEST_Deserialize TPM2_PolicyAuthValue_REQUEST_default) x"
    by (simp only: TPM2_PolicyAuthValue_REQUEST_Serialize_def TPM2_PolicyAuthValue_REQUEST_Deserialize_def TPM2_PolicyAuthValue_REQUEST_default_def
       TPM2_PolicyAuthValue_REQUEST.select_convs TPM2_PolicyAuthValue_REQUEST.update_convs;
      intro TPM_HANDLE_text.as_entry [THEN carries_entry_Cons] carries_body;
      (rule TPM2_PolicyAuthValue_REQUEST.equality)?; simp add: TPM2_PolicyAuthValue_REQUEST_text_ok_def word_simps)
qed

subsection \<open>TPM2_PolicyPassword_REQUEST\<close>

definition TPM2_PolicyPassword_REQUEST_Serialize :: "TPM2_PolicyPassword_REQUEST \<Rightarrow> unit ser" where
  "TPM2_PolicyPassword_REQUEST_Serialize self = wseq
     [withN ''policySession'' ''TPM_HANDLE'' '''' '''' (ser_writeObj ''TPM_HANDLE'' (TPM_HANDLE_Serialize (TPM2_PolicyPassword_REQUEST_policySession self)))]"

definition TPM2_PolicyPassword_REQUEST_Deserialize :: "TPM2_PolicyPassword_REQUEST \<Rightarrow> TPM2_PolicyPassword_REQUEST ser" where
  "TPM2_PolicyPassword_REQUEST_Deserialize self =
     sbind (withN ''policySession'' ''TPM_HANDLE'' '''' '''' (ser_readObj ''TPM_HANDLE'' (TPM_HANDLE_Deserialize (TPM2_PolicyPassword_REQUEST_policySession self)))) (\<lambda>policySession.
     ret (self\<lparr>TPM2_PolicyPassword_REQUEST_policySession := policySession\<rparr>))"

definition TPM2_PolicyPassword_REQUEST_text_ok :: "text_class \<Rightarrow> TPM2_PolicyPassword_REQUEST \<Rightarrow> bool" where
  "TPM2_PolicyPassword_REQUEST_text_ok c x \<longleftrightarrow>
     TPM_HANDLE_text_ok c (TPM2_PolicyPassword_REQUEST_policySession x)"

interpretation TPM2_PolicyPassword_REQUEST_text: text_codec "''TPM2_PolicyPassword_REQUEST''" TPM2_PolicyPassword_REQUEST_Serialize TPM2_PolicyPassword_REQUEST_Deserialize TPM2_PolicyPassword_REQUEST_default TPM2_PolicyPassword_REQUEST_text_ok
proof
  show "word_ok ''TPM2_PolicyPassword_REQUEST''" by (simp add: word_simps)
  fix c x assume ok: "TPM2_PolicyPassword_REQUEST_text_ok c x"
  from ok show "carries c True (TPM2_PolicyPassword_REQUEST_Serialize x) (TPM2_PolicyPassword_REQUEST_Deserialize TPM2_PolicyPassword_REQUEST_default) x"
    by (simp only: TPM2_PolicyPassword_REQUEST_Serialize_def TPM2_PolicyPassword_REQUEST_Deserialize_def TPM2_PolicyPassword_REQUEST_default_def
       TPM2_PolicyPassword_REQUEST.select_convs TPM2_PolicyPassword_REQUEST.update_convs;
      intro TPM_HANDLE_text.as_entry [THEN carries_entry_Cons] carries_body;
      (rule TPM2_PolicyPassword_REQUEST.equality)?; simp add: TPM2_PolicyPassword_REQUEST_text_ok_def word_simps)
qed

subsection \<open>TPM2_PolicyGetDigest_REQUEST\<close>

definition TPM2_PolicyGetDigest_REQUEST_Serialize :: "TPM2_PolicyGetDigest_REQUEST \<Rightarrow> unit ser" where
  "TPM2_PolicyGetDigest_REQUEST_Serialize self = wseq
     [withN ''policySession'' ''TPM_HANDLE'' '''' '''' (ser_writeObj ''TPM_HANDLE'' (TPM_HANDLE_Serialize (TPM2_PolicyGetDigest_REQUEST_policySession self)))]"

definition TPM2_PolicyGetDigest_REQUEST_Deserialize :: "TPM2_PolicyGetDigest_REQUEST \<Rightarrow> TPM2_PolicyGetDigest_REQUEST ser" where
  "TPM2_PolicyGetDigest_REQUEST_Deserialize self =
     sbind (withN ''policySession'' ''TPM_HANDLE'' '''' '''' (ser_readObj ''TPM_HANDLE'' (TPM_HANDLE_Deserialize (TPM2_PolicyGetDigest_REQUEST_policySession self)))) (\<lambda>policySession.
     ret (self\<lparr>TPM2_PolicyGetDigest_REQUEST_policySession := policySession\<rparr>))"

definition TPM2_PolicyGetDigest_REQUEST_text_ok :: "text_class \<Rightarrow> TPM2_PolicyGetDigest_REQUEST \<Rightarrow> bool" where
  "TPM2_PolicyGetDigest_REQUEST_text_ok c x \<longleftrightarrow>
     TPM_HANDLE_text_ok c (TPM2_PolicyGetDigest_REQUEST_policySession x)"

interpretation TPM2_PolicyGetDigest_REQUEST_text: text_codec "''TPM2_PolicyGetDigest_REQUEST''" TPM2_PolicyGetDigest_REQUEST_Serialize TPM2_PolicyGetDigest_REQUEST_Deserialize TPM2_PolicyGetDigest_REQUEST_default TPM2_PolicyGetDigest_REQUEST_text_ok
proof
  show "word_ok ''TPM2_PolicyGetDigest_REQUEST''" by (simp add: word_simps)
  fix c x assume ok: "TPM2_PolicyGetDigest_REQUEST_text_ok c x"
  from ok show "carries c True (TPM2_PolicyGetDigest_REQUEST_Serialize x) (TPM2_PolicyGetDigest_REQUEST_Deserialize TPM2_PolicyGetDigest_REQUEST_default) x"
    by (simp only: TPM2_PolicyGetDigest_REQUEST_Serialize_def TPM2_PolicyGetDigest_REQUEST_Deserialize_def TPM2_PolicyGetDigest_REQUEST_default_def
       TPM2_PolicyGetDigest_REQUEST.select_convs TPM2_PolicyGetDigest_REQUEST.update_convs;
      intro TPM_HANDLE_text.as_entry [THEN carries_entry_Cons] carries_body;
      (rule TPM2_PolicyGetDigest_REQUEST.equality)?; simp add: TPM2_PolicyGetDigest_REQUEST_text_ok_def word_simps)
qed

subsection \<open>PolicyGetDigestResponse\<close>

definition PolicyGetDigestResponse_Serialize :: "PolicyGetDigestResponse \<Rightarrow> unit ser" where
  "PolicyGetDigestResponse_Serialize self = wseq
     [withN ''policyDigest'' ''BYTE[]'' ''policyDigestSize'' ''UINT16'' (ser_writeSizedByteBuf (PolicyGetDigestResponse_policyDigest self))]"

definition PolicyGetDigestResponse_Deserialize :: "PolicyGetDigestResponse \<Rightarrow> PolicyGetDigestResponse ser" where
  "PolicyGetDigestResponse_Deserialize self =
     sbind (withN ''policyDigest'' ''BYTE[]'' ''policyDigestSize'' ''UINT16'' ser_readSizedByteBuf) (\<lambda>policyDigest.
     ret (self\<lparr>PolicyGetDigestResponse_policyDigest := policyDigest\<rparr>))"

definition PolicyGetDigestResponse_text_ok :: "text_class \<Rightarrow> PolicyGetDigestResponse \<Rightarrow> bool" where
  "PolicyGetDigestResponse_text_ok c x \<longleftrightarrow>
     length (PolicyGetDigestResponse_policyDigest x) < 2 ^ 64"

interpretation PolicyGetDigestResponse_text: text_codec "''PolicyGetDigestResponse''" PolicyGetDigestResponse_Serialize PolicyGetDigestResponse_Deserialize PolicyGetDigestResponse_default PolicyGetDigestResponse_text_ok
proof
  show "word_ok ''PolicyGetDigestResponse''" by (simp add: word_simps)
  fix c x assume ok: "PolicyGetDigestResponse_text_ok c x"
  from ok show "carries c True (PolicyGetDigestResponse_Serialize x) (PolicyGetDigestResponse_Deserialize PolicyGetDigestResponse_default) x"
    by (simp only: PolicyGetDigestResponse_Serialize_def PolicyGetDigestResponse_Deserialize_def PolicyGetDigestResponse_default_def
       PolicyGetDigestResponse.select_convs PolicyGetDigestResponse.update_convs;
      intro carries_body;
      (rule PolicyGetDigestResponse.equality)?; simp add: PolicyGetDigestResponse_text_ok_def word_simps)
qed

subsection \<open>TPM2_PolicyNvWritten_REQUEST\<close>

definition TPM2_PolicyNvWritten_REQUEST_Serialize :: "TPM2_PolicyNvWritten_REQUEST \<Rightarrow> unit ser" where
  "TPM2_PolicyNvWritten_REQUEST_Serialize self = wseq
     [withN ''policySession'' ''TPM_HANDLE'' '''' '''' (ser_writeObj ''TPM_HANDLE'' (TPM_HANDLE_Serialize (TPM2_PolicyNvWritten_REQUEST_policySession self))),
      withN ''writtenSet'' ''BYTE'' '''' '''' (ser_writeByte (TPM2_PolicyNvWritten_REQUEST_writtenSet self))]"

definition TPM2_PolicyNvWritten_REQUEST_Deserialize :: "TPM2_PolicyNvWritten_REQUEST \<Rightarrow> TPM2_PolicyNvWritten_REQUEST ser" where
  "TPM2_PolicyNvWritten_REQUEST_Deserialize self =
     sbind (withN ''policySession'' ''TPM_HANDLE'' '''' '''' (ser_readObj ''TPM_HANDLE'' (TPM_HANDLE_Deserialize (TPM2_PolicyNvWritten_REQUEST_policySession self)))) (\<lambda>policySession.
     sbind (withN ''writtenSet'' ''BYTE'' '''' '''' ser_readByte) (\<lambda>writtenSet.
     ret (self\<lparr>TPM2_PolicyNvWritten_REQUEST_policySession := policySession, TPM2_PolicyNvWritten_REQUEST_writtenSet := writtenSet\<rparr>)))"

definition TPM2_PolicyNvWritten_REQUEST_text_ok :: "text_class \<Rightarrow> TPM2_PolicyNvWritten_REQUEST \<Rightarrow> bool" where
  "TPM2_PolicyNvWritten_REQUEST_text_ok c x \<longleftrightarrow>
     TPM_HANDLE_text_ok c (TPM2_PolicyNvWritten_REQUEST_policySession x)"

interpretation TPM2_PolicyNvWritten_REQUEST_text: text_codec "''TPM2_PolicyNvWritten_REQUEST''" TPM2_PolicyNvWritten_REQUEST_Serialize TPM2_PolicyNvWritten_REQUEST_Deserialize TPM2_PolicyNvWritten_REQUEST_default TPM2_PolicyNvWritten_REQUEST_text_ok
proof
  show "word_ok ''TPM2_PolicyNvWritten_REQUEST''" by (simp add: word_simps)
  fix c x assume ok: "TPM2_PolicyNvWritten_REQUEST_text_ok c x"
  from ok show "carries c True (TPM2_PolicyNvWritten_REQUEST_Serialize x) (TPM2_PolicyNvWritten_REQUEST_Deserialize TPM2_PolicyNvWritten_REQUEST_default) x"
    by (simp only: TPM2_PolicyNvWritten_REQUEST_Serialize_def TPM2_PolicyNvWritten_REQUEST_Deserialize_def TPM2_PolicyNvWritten_REQUEST_default_def
       TPM2_PolicyNvWritten_REQUEST.select_convs TPM2_PolicyNvWritten_REQUEST.update_convs;
      intro TPM_HANDLE_text.as_entry [THEN carries_entry_Cons] carries_body;
      (rule TPM2_PolicyNvWritten_REQUEST.equality)?; simp add: TPM2_PolicyNvWritten_REQUEST_text_ok_def word_simps)
qed

subsection \<open>TPM2_PolicyTemplate_REQUEST\<close>

definition TPM2_PolicyTemplate_REQUEST_Serialize :: "TPM2_PolicyTemplate_REQUEST \<Rightarrow> unit ser" where
  "TPM2_PolicyTemplate_REQUEST_Serialize self = wseq
     [withN ''policySession'' ''TPM_HANDLE'' '''' '''' (ser_writeObj ''TPM_HANDLE'' (TPM_HANDLE_Serialize (TPM2_PolicyTemplate_REQUEST_policySession self))),
      withN ''templateHash'' ''BYTE[]'' ''templateHashSize'' ''UINT16'' (ser_writeSizedByteBuf (TPM2_PolicyTemplate_REQUEST_templateHash self))]"

definition TPM2_PolicyTemplate_REQUEST_Deserialize :: "TPM2_PolicyTemplate_REQUEST \<Rightarrow> TPM2_PolicyTemplate_REQUEST ser" where
  "TPM2_PolicyTemplate_REQUEST_Deserialize self =
     sbind (withN ''policySession'' ''TPM_HANDLE'' '''' '''' (ser_readObj ''TPM_HANDLE'' (TPM_HANDLE_Deserialize (TPM2_PolicyTemplate_REQUEST_policySession self)))) (\<lambda>policySession.
     sbind (withN ''templateHash'' ''BYTE[]'' ''templateHashSize'' ''UINT16'' ser_readSizedByteBuf) (\<lambda>templateHash.
     ret (self\<lparr>TPM2_PolicyTemplate_REQUEST_policySession := policySession, TPM2_PolicyTemplate_REQUEST_templateHash := templateHash\<rparr>)))"

definition TPM2_PolicyTemplate_REQUEST_text_ok :: "text_class \<Rightarrow> TPM2_PolicyTemplate_REQUEST \<Rightarrow> bool" where
  "TPM2_PolicyTemplate_REQUEST_text_ok c x \<longleftrightarrow>
     TPM_HANDLE_text_ok c (TPM2_PolicyTemplate_REQUEST_policySession x) \<and>
     length (TPM2_PolicyTemplate_REQUEST_templateHash x) < 2 ^ 64"

interpretation TPM2_PolicyTemplate_REQUEST_text: text_codec "''TPM2_PolicyTemplate_REQUEST''" TPM2_PolicyTemplate_REQUEST_Serialize TPM2_PolicyTemplate_REQUEST_Deserialize TPM2_PolicyTemplate_REQUEST_default TPM2_PolicyTemplate_REQUEST_text_ok
proof
  show "word_ok ''TPM2_PolicyTemplate_REQUEST''" by (simp add: word_simps)
  fix c x assume ok: "TPM2_PolicyTemplate_REQUEST_text_ok c x"
  from ok show "carries c True (TPM2_PolicyTemplate_REQUEST_Serialize x) (TPM2_PolicyTemplate_REQUEST_Deserialize TPM2_PolicyTemplate_REQUEST_default) x"
    by (simp only: TPM2_PolicyTemplate_REQUEST_Serialize_def TPM2_PolicyTemplate_REQUEST_Deserialize_def TPM2_PolicyTemplate_REQUEST_default_def
       TPM2_PolicyTemplate_REQUEST.select_convs TPM2_PolicyTemplate_REQUEST.update_convs;
      intro TPM_HANDLE_text.as_entry [THEN carries_entry_Cons] carries_body;
      (rule TPM2_PolicyTemplate_REQUEST.equality)?; simp add: TPM2_PolicyTemplate_REQUEST_text_ok_def word_simps)
qed

subsection \<open>TPM2_PolicyAuthorizeNV_REQUEST\<close>

definition TPM2_PolicyAuthorizeNV_REQUEST_Serialize :: "TPM2_PolicyAuthorizeNV_REQUEST \<Rightarrow> unit ser" where
  "TPM2_PolicyAuthorizeNV_REQUEST_Serialize self = wseq
     [withN ''authHandle'' ''TPM_HANDLE'' '''' '''' (ser_writeObj ''TPM_HANDLE'' (TPM_HANDLE_Serialize (TPM2_PolicyAuthorizeNV_REQUEST_authHandle self))),
      withN ''nvIndex'' ''TPM_HANDLE'' '''' '''' (ser_writeObj ''TPM_HANDLE'' (TPM_HANDLE_Serialize (TPM2_PolicyAuthorizeNV_REQUEST_nvIndex self))),
      withN ''policySession'' ''TPM_HANDLE'' '''' '''' (ser_writeObj ''TPM_HANDLE'' (TPM_HANDLE_Serialize (TPM2_PolicyAuthorizeNV_REQUEST_policySession self)))]"

definition TPM2_PolicyAuthorizeNV_REQUEST_Deserialize :: "TPM2_PolicyAuthorizeNV_REQUEST \<Rightarrow> TPM2_PolicyAuthorizeNV_REQUEST ser" where
  "TPM2_PolicyAuthorizeNV_REQUEST_Deserialize self =
     sbind (withN ''authHandle'' ''TPM_HANDLE'' '''' '''' (ser_readObj ''TPM_HANDLE'' (TPM_HANDLE_Deserialize (TPM2_PolicyAuthorizeNV_REQUEST_authHandle self)))) (\<lambda>authHandle.
     sbind (withN ''nvIndex'' ''TPM_HANDLE'' '''' '''' (ser_readObj ''TPM_HANDLE'' (TPM_HANDLE_Deserialize (TPM2_PolicyAuthorizeNV_REQUEST_nvIndex self)))) (\<lambda>nvIndex.
     sbind (withN ''policySession'' ''TPM_HANDLE'' '''' '''' (ser_readObj ''TPM_HANDLE'' (TPM_HANDLE_Deserialize (TPM2_PolicyAuthorizeNV_REQUEST_policySession self)))) (\<lambda>policySession.
     ret (self\<lparr>TPM2_PolicyAuthorizeNV_REQUEST_authHandle := authHandle, TPM2_PolicyAuthorizeNV_REQUEST_nvIndex := nvIndex, TPM2_PolicyAuthorizeNV_REQUEST_policySession := policySession\<rparr>))))"

definition TPM2_PolicyAuthorizeNV_REQUEST_text_ok :: "text_class \<Rightarrow> TPM2_PolicyAuthorizeNV_REQUEST \<Rightarrow> bool" where
  "TPM2_PolicyAuthorizeNV_REQUEST_text_ok c x \<longleftrightarrow>
     TPM_HANDLE_text_ok c (TPM2_PolicyAuthorizeNV_REQUEST_authHandle x) \<and>
     TPM_HANDLE_text_ok c (TPM2_PolicyAuthorizeNV_REQUEST_nvIndex x) \<and>
     TPM_HANDLE_text_ok c (TPM2_PolicyAuthorizeNV_REQUEST_policySession x)"

interpretation TPM2_PolicyAuthorizeNV_REQUEST_text: text_codec "''TPM2_PolicyAuthorizeNV_REQUEST''" TPM2_PolicyAuthorizeNV_REQUEST_Serialize TPM2_PolicyAuthorizeNV_REQUEST_Deserialize TPM2_PolicyAuthorizeNV_REQUEST_default TPM2_PolicyAuthorizeNV_REQUEST_text_ok
proof
  show "word_ok ''TPM2_PolicyAuthorizeNV_REQUEST''" by (simp add: word_simps)
  fix c x assume ok: "TPM2_PolicyAuthorizeNV_REQUEST_text_ok c x"
  from ok show "carries c True (TPM2_PolicyAuthorizeNV_REQUEST_Serialize x) (TPM2_PolicyAuthorizeNV_REQUEST_Deserialize TPM2_PolicyAuthorizeNV_REQUEST_default) x"
    by (simp only: TPM2_PolicyAuthorizeNV_REQUEST_Serialize_def TPM2_PolicyAuthorizeNV_REQUEST_Deserialize_def TPM2_PolicyAuthorizeNV_REQUEST_default_def
       TPM2_PolicyAuthorizeNV_REQUEST.select_convs TPM2_PolicyAuthorizeNV_REQUEST.update_convs;
      intro TPM_HANDLE_text.as_entry [THEN carries_entry_Cons] carries_body;
      (rule TPM2_PolicyAuthorizeNV_REQUEST.equality)?; simp add: TPM2_PolicyAuthorizeNV_REQUEST_text_ok_def word_simps)
qed

end
