(* ===== verification/TextAdminCommands.thy ===== *)
theory TextAdminCommands
  imports TextNvTypes TpmAdminCommands
begin

text \<open>
  \<^verbatim>\<open>TSS.CPP/Src/TpmTypes.cpp\<close>, the text form of the structures of theory \<open>TpmAdminCommands\<close>: \<open>X_Serialize\<close> and
  \<open>X_Deserialize\<close> of each class \<open>X\<close>, the values \<open>X_text_ok\<close> that a text of the given kind can carry, and
  the proof that the second method reads what the first one writes (the interpretation \<open>X_text\<close>).
  A class with an array of enumerators has no such interpretation: \<open>readEnumArr\<close> does not read it.
\<close>

subsection \<open>TPM2_CreatePrimary_REQUEST\<close>

definition TPM2_CreatePrimary_REQUEST_Serialize :: "TPM2_CreatePrimary_REQUEST \<Rightarrow> unit ser" where
  "TPM2_CreatePrimary_REQUEST_Serialize self = wseq
     [withN ''primaryHandle'' ''TPM_HANDLE'' '''' '''' (ser_writeObj ''TPM_HANDLE'' (TPM_HANDLE_Serialize (TPM2_CreatePrimary_REQUEST_primaryHandle self))),
      withN ''inSensitive'' ''TPMS_SENSITIVE_CREATE'' ''inSensitiveSize'' ''UINT16'' (ser_writeObj ''TPMS_SENSITIVE_CREATE'' (TPMS_SENSITIVE_CREATE_Serialize (TPM2_CreatePrimary_REQUEST_inSensitive self))),
      withN ''inPublic'' ''TPMT_PUBLIC'' ''inPublicSize'' ''UINT16'' (ser_writeObj ''TPMT_PUBLIC'' (TPMT_PUBLIC_Serialize (TPM2_CreatePrimary_REQUEST_inPublic self))),
      withN ''outsideInfo'' ''BYTE[]'' ''outsideInfoSize'' ''UINT16'' (ser_writeSizedByteBuf (TPM2_CreatePrimary_REQUEST_outsideInfo self)),
      withN ''creationPCR'' ''TPMS_PCR_SELECTION[]'' ''creationPCRCount'' ''UINT32'' (ser_writeObjArr ''TPMS_PCR_SELECTION'' TPMS_PCR_SELECTION_Serialize (TPM2_CreatePrimary_REQUEST_creationPCR self))]"

definition TPM2_CreatePrimary_REQUEST_Deserialize :: "TPM2_CreatePrimary_REQUEST \<Rightarrow> TPM2_CreatePrimary_REQUEST ser" where
  "TPM2_CreatePrimary_REQUEST_Deserialize self =
     sbind (withN ''primaryHandle'' ''TPM_HANDLE'' '''' '''' (ser_readObj ''TPM_HANDLE'' (TPM_HANDLE_Deserialize (TPM2_CreatePrimary_REQUEST_primaryHandle self)))) (\<lambda>primaryHandle.
     sbind (withN ''inSensitive'' ''TPMS_SENSITIVE_CREATE'' ''inSensitiveSize'' ''UINT16'' (ser_readObj ''TPMS_SENSITIVE_CREATE'' (TPMS_SENSITIVE_CREATE_Deserialize (TPM2_CreatePrimary_REQUEST_inSensitive self)))) (\<lambda>inSensitive.
     sbind (withN ''inPublic'' ''TPMT_PUBLIC'' ''inPublicSize'' ''UINT16'' (ser_readObj ''TPMT_PUBLIC'' (TPMT_PUBLIC_Deserialize (TPM2_CreatePrimary_REQUEST_inPublic self)))) (\<lambda>inPublic.
     sbind (withN ''outsideInfo'' ''BYTE[]'' ''outsideInfoSize'' ''UINT16'' ser_readSizedByteBuf) (\<lambda>outsideInfo.
     sbind (withN ''creationPCR'' ''TPMS_PCR_SELECTION[]'' ''creationPCRCount'' ''UINT32'' (ser_readObjArr ''TPMS_PCR_SELECTION'' TPMS_PCR_SELECTION_Deserialize TPMS_PCR_SELECTION_default (TPM2_CreatePrimary_REQUEST_creationPCR self))) (\<lambda>creationPCR.
     ret (self\<lparr>TPM2_CreatePrimary_REQUEST_primaryHandle := primaryHandle, TPM2_CreatePrimary_REQUEST_inSensitive := inSensitive, TPM2_CreatePrimary_REQUEST_inPublic := inPublic, TPM2_CreatePrimary_REQUEST_outsideInfo := outsideInfo, TPM2_CreatePrimary_REQUEST_creationPCR := creationPCR\<rparr>))))))"

definition TPM2_CreatePrimary_REQUEST_text_ok :: "text_class \<Rightarrow> TPM2_CreatePrimary_REQUEST \<Rightarrow> bool" where
  "TPM2_CreatePrimary_REQUEST_text_ok c x \<longleftrightarrow>
     TPM_HANDLE_text_ok c (TPM2_CreatePrimary_REQUEST_primaryHandle x) \<and>
     TPMS_SENSITIVE_CREATE_text_ok c (TPM2_CreatePrimary_REQUEST_inSensitive x) \<and>
     TPMT_PUBLIC_text_ok c (TPM2_CreatePrimary_REQUEST_inPublic x) \<and>
     length (TPM2_CreatePrimary_REQUEST_outsideInfo x) < 2 ^ 64 \<and>
     length (TPM2_CreatePrimary_REQUEST_creationPCR x) < 2 ^ 64 \<and> (\<forall>y \<in> set (TPM2_CreatePrimary_REQUEST_creationPCR x). TPMS_PCR_SELECTION_text_ok c y)"

interpretation TPM2_CreatePrimary_REQUEST_text: text_codec "''TPM2_CreatePrimary_REQUEST''" TPM2_CreatePrimary_REQUEST_Serialize TPM2_CreatePrimary_REQUEST_Deserialize TPM2_CreatePrimary_REQUEST_default TPM2_CreatePrimary_REQUEST_text_ok
proof
  show "word_ok ''TPM2_CreatePrimary_REQUEST''" by (simp add: word_simps)
  fix c x assume ok: "TPM2_CreatePrimary_REQUEST_text_ok c x"
  from ok show "carries c True (TPM2_CreatePrimary_REQUEST_Serialize x) (TPM2_CreatePrimary_REQUEST_Deserialize TPM2_CreatePrimary_REQUEST_default) x"
    by (simp only: TPM2_CreatePrimary_REQUEST_Serialize_def TPM2_CreatePrimary_REQUEST_Deserialize_def TPM2_CreatePrimary_REQUEST_default_def
       TPM2_CreatePrimary_REQUEST.select_convs TPM2_CreatePrimary_REQUEST.update_convs;
      intro TPMS_PCR_SELECTION_text.as_elements [THEN carries_entry_Cons] TPMS_SENSITIVE_CREATE_text.as_entry [THEN carries_entry_Cons] TPMT_PUBLIC_text.as_entry [THEN carries_entry_Cons] TPM_HANDLE_text.as_entry [THEN carries_entry_Cons] carries_body;
      (rule TPM2_CreatePrimary_REQUEST.equality)?; simp add: TPM2_CreatePrimary_REQUEST_text_ok_def word_simps)
qed

subsection \<open>CreatePrimaryResponse\<close>

definition CreatePrimaryResponse_Serialize :: "CreatePrimaryResponse \<Rightarrow> unit ser" where
  "CreatePrimaryResponse_Serialize self = wseq
     [withN ''handle'' ''TPM_HANDLE'' '''' '''' (ser_writeObj ''TPM_HANDLE'' (TPM_HANDLE_Serialize (CreatePrimaryResponse_handle self))),
      withN ''outPublic'' ''TPMT_PUBLIC'' ''outPublicSize'' ''UINT16'' (ser_writeObj ''TPMT_PUBLIC'' (TPMT_PUBLIC_Serialize (CreatePrimaryResponse_outPublic self))),
      withN ''creationData'' ''TPMS_CREATION_DATA'' ''creationDataSize'' ''UINT16'' (ser_writeObj ''TPMS_CREATION_DATA'' (TPMS_CREATION_DATA_Serialize (CreatePrimaryResponse_creationData self))),
      withN ''creationHash'' ''BYTE[]'' ''creationHashSize'' ''UINT16'' (ser_writeSizedByteBuf (CreatePrimaryResponse_creationHash self)),
      withN ''creationTicket'' ''TPMT_TK_CREATION'' '''' '''' (ser_writeObj ''TPMT_TK_CREATION'' (TPMT_TK_CREATION_Serialize (CreatePrimaryResponse_creationTicket self))),
      withN ''name'' ''BYTE[]'' ''nameSize'' ''UINT16'' (ser_writeSizedByteBuf (CreatePrimaryResponse_name self))]"

definition CreatePrimaryResponse_Deserialize :: "CreatePrimaryResponse \<Rightarrow> CreatePrimaryResponse ser" where
  "CreatePrimaryResponse_Deserialize self =
     sbind (withN ''handle'' ''TPM_HANDLE'' '''' '''' (ser_readObj ''TPM_HANDLE'' (TPM_HANDLE_Deserialize (CreatePrimaryResponse_handle self)))) (\<lambda>handle.
     sbind (withN ''outPublic'' ''TPMT_PUBLIC'' ''outPublicSize'' ''UINT16'' (ser_readObj ''TPMT_PUBLIC'' (TPMT_PUBLIC_Deserialize (CreatePrimaryResponse_outPublic self)))) (\<lambda>outPublic.
     sbind (withN ''creationData'' ''TPMS_CREATION_DATA'' ''creationDataSize'' ''UINT16'' (ser_readObj ''TPMS_CREATION_DATA'' (TPMS_CREATION_DATA_Deserialize (CreatePrimaryResponse_creationData self)))) (\<lambda>creationData.
     sbind (withN ''creationHash'' ''BYTE[]'' ''creationHashSize'' ''UINT16'' ser_readSizedByteBuf) (\<lambda>creationHash.
     sbind (withN ''creationTicket'' ''TPMT_TK_CREATION'' '''' '''' (ser_readObj ''TPMT_TK_CREATION'' (TPMT_TK_CREATION_Deserialize (CreatePrimaryResponse_creationTicket self)))) (\<lambda>creationTicket.
     sbind (withN ''name'' ''BYTE[]'' ''nameSize'' ''UINT16'' ser_readSizedByteBuf) (\<lambda>name.
     ret (self\<lparr>CreatePrimaryResponse_handle := handle, CreatePrimaryResponse_outPublic := outPublic, CreatePrimaryResponse_creationData := creationData, CreatePrimaryResponse_creationHash := creationHash, CreatePrimaryResponse_creationTicket := creationTicket, CreatePrimaryResponse_name := name\<rparr>)))))))"

definition CreatePrimaryResponse_text_ok :: "text_class \<Rightarrow> CreatePrimaryResponse \<Rightarrow> bool" where
  "CreatePrimaryResponse_text_ok c x \<longleftrightarrow>
     TPM_HANDLE_text_ok c (CreatePrimaryResponse_handle x) \<and>
     TPMT_PUBLIC_text_ok c (CreatePrimaryResponse_outPublic x) \<and>
     TPMS_CREATION_DATA_text_ok c (CreatePrimaryResponse_creationData x) \<and>
     length (CreatePrimaryResponse_creationHash x) < 2 ^ 64 \<and>
     TPMT_TK_CREATION_text_ok c (CreatePrimaryResponse_creationTicket x) \<and>
     length (CreatePrimaryResponse_name x) < 2 ^ 64"

interpretation CreatePrimaryResponse_text: text_codec "''CreatePrimaryResponse''" CreatePrimaryResponse_Serialize CreatePrimaryResponse_Deserialize CreatePrimaryResponse_default CreatePrimaryResponse_text_ok
proof
  show "word_ok ''CreatePrimaryResponse''" by (simp add: word_simps)
  fix c x assume ok: "CreatePrimaryResponse_text_ok c x"
  from ok show "carries c True (CreatePrimaryResponse_Serialize x) (CreatePrimaryResponse_Deserialize CreatePrimaryResponse_default) x"
    by (simp only: CreatePrimaryResponse_Serialize_def CreatePrimaryResponse_Deserialize_def CreatePrimaryResponse_default_def
       CreatePrimaryResponse.select_convs CreatePrimaryResponse.update_convs;
      intro TPMS_CREATION_DATA_text.as_entry [THEN carries_entry_Cons] TPMT_PUBLIC_text.as_entry [THEN carries_entry_Cons] TPMT_TK_CREATION_text.as_entry [THEN carries_entry_Cons] TPM_HANDLE_text.as_entry [THEN carries_entry_Cons] carries_body;
      (rule CreatePrimaryResponse.equality)?; simp add: CreatePrimaryResponse_text_ok_def word_simps)
qed

subsection \<open>TPM2_HierarchyControl_REQUEST\<close>

definition TPM2_HierarchyControl_REQUEST_Serialize :: "TPM2_HierarchyControl_REQUEST \<Rightarrow> unit ser" where
  "TPM2_HierarchyControl_REQUEST_Serialize self = wseq
     [withN ''authHandle'' ''TPM_HANDLE'' '''' '''' (ser_writeObj ''TPM_HANDLE'' (TPM_HANDLE_Serialize (TPM2_HierarchyControl_REQUEST_authHandle self))),
      withN ''enable'' ''TPM_HANDLE'' '''' '''' (ser_writeObj ''TPM_HANDLE'' (TPM_HANDLE_Serialize (TPM2_HierarchyControl_REQUEST_enable self))),
      withN ''state'' ''BYTE'' '''' '''' (ser_writeByte (TPM2_HierarchyControl_REQUEST_state self))]"

definition TPM2_HierarchyControl_REQUEST_Deserialize :: "TPM2_HierarchyControl_REQUEST \<Rightarrow> TPM2_HierarchyControl_REQUEST ser" where
  "TPM2_HierarchyControl_REQUEST_Deserialize self =
     sbind (withN ''authHandle'' ''TPM_HANDLE'' '''' '''' (ser_readObj ''TPM_HANDLE'' (TPM_HANDLE_Deserialize (TPM2_HierarchyControl_REQUEST_authHandle self)))) (\<lambda>authHandle.
     sbind (withN ''enable'' ''TPM_HANDLE'' '''' '''' (ser_readObj ''TPM_HANDLE'' (TPM_HANDLE_Deserialize (TPM2_HierarchyControl_REQUEST_enable self)))) (\<lambda>enable.
     sbind (withN ''state'' ''BYTE'' '''' '''' ser_readByte) (\<lambda>state.
     ret (self\<lparr>TPM2_HierarchyControl_REQUEST_authHandle := authHandle, TPM2_HierarchyControl_REQUEST_enable := enable, TPM2_HierarchyControl_REQUEST_state := state\<rparr>))))"

definition TPM2_HierarchyControl_REQUEST_text_ok :: "text_class \<Rightarrow> TPM2_HierarchyControl_REQUEST \<Rightarrow> bool" where
  "TPM2_HierarchyControl_REQUEST_text_ok c x \<longleftrightarrow>
     TPM_HANDLE_text_ok c (TPM2_HierarchyControl_REQUEST_authHandle x) \<and>
     TPM_HANDLE_text_ok c (TPM2_HierarchyControl_REQUEST_enable x)"

interpretation TPM2_HierarchyControl_REQUEST_text: text_codec "''TPM2_HierarchyControl_REQUEST''" TPM2_HierarchyControl_REQUEST_Serialize TPM2_HierarchyControl_REQUEST_Deserialize TPM2_HierarchyControl_REQUEST_default TPM2_HierarchyControl_REQUEST_text_ok
proof
  show "word_ok ''TPM2_HierarchyControl_REQUEST''" by (simp add: word_simps)
  fix c x assume ok: "TPM2_HierarchyControl_REQUEST_text_ok c x"
  from ok show "carries c True (TPM2_HierarchyControl_REQUEST_Serialize x) (TPM2_HierarchyControl_REQUEST_Deserialize TPM2_HierarchyControl_REQUEST_default) x"
    by (simp only: TPM2_HierarchyControl_REQUEST_Serialize_def TPM2_HierarchyControl_REQUEST_Deserialize_def TPM2_HierarchyControl_REQUEST_default_def
       TPM2_HierarchyControl_REQUEST.select_convs TPM2_HierarchyControl_REQUEST.update_convs;
      intro TPM_HANDLE_text.as_entry [THEN carries_entry_Cons] carries_body;
      (rule TPM2_HierarchyControl_REQUEST.equality)?; simp add: TPM2_HierarchyControl_REQUEST_text_ok_def word_simps)
qed

subsection \<open>TPM2_SetPrimaryPolicy_REQUEST\<close>

definition TPM2_SetPrimaryPolicy_REQUEST_Serialize :: "TPM2_SetPrimaryPolicy_REQUEST \<Rightarrow> unit ser" where
  "TPM2_SetPrimaryPolicy_REQUEST_Serialize self = wseq
     [withN ''authHandle'' ''TPM_HANDLE'' '''' '''' (ser_writeObj ''TPM_HANDLE'' (TPM_HANDLE_Serialize (TPM2_SetPrimaryPolicy_REQUEST_authHandle self))),
      withN ''authPolicy'' ''BYTE[]'' ''authPolicySize'' ''UINT16'' (ser_writeSizedByteBuf (TPM2_SetPrimaryPolicy_REQUEST_authPolicy self)),
      withN ''hashAlg'' ''TPM_ALG_ID'' '''' '''' (ser_writeEnumT (TPM2_SetPrimaryPolicy_REQUEST_hashAlg self) TPM_ALG_ID_ID)]"

definition TPM2_SetPrimaryPolicy_REQUEST_Deserialize :: "TPM2_SetPrimaryPolicy_REQUEST \<Rightarrow> TPM2_SetPrimaryPolicy_REQUEST ser" where
  "TPM2_SetPrimaryPolicy_REQUEST_Deserialize self =
     sbind (withN ''authHandle'' ''TPM_HANDLE'' '''' '''' (ser_readObj ''TPM_HANDLE'' (TPM_HANDLE_Deserialize (TPM2_SetPrimaryPolicy_REQUEST_authHandle self)))) (\<lambda>authHandle.
     sbind (withN ''authPolicy'' ''BYTE[]'' ''authPolicySize'' ''UINT16'' ser_readSizedByteBuf) (\<lambda>authPolicy.
     sbind (withN ''hashAlg'' ''TPM_ALG_ID'' '''' '''' (ser_readEnumT TPM_ALG_ID_ID)) (\<lambda>hashAlg.
     ret (self\<lparr>TPM2_SetPrimaryPolicy_REQUEST_authHandle := authHandle, TPM2_SetPrimaryPolicy_REQUEST_authPolicy := authPolicy, TPM2_SetPrimaryPolicy_REQUEST_hashAlg := hashAlg\<rparr>))))"

definition TPM2_SetPrimaryPolicy_REQUEST_text_ok :: "text_class \<Rightarrow> TPM2_SetPrimaryPolicy_REQUEST \<Rightarrow> bool" where
  "TPM2_SetPrimaryPolicy_REQUEST_text_ok c x \<longleftrightarrow>
     TPM_HANDLE_text_ok c (TPM2_SetPrimaryPolicy_REQUEST_authHandle x) \<and>
     length (TPM2_SetPrimaryPolicy_REQUEST_authPolicy x) < 2 ^ 64 \<and>
     enum_ok c (ucast (TPM2_SetPrimaryPolicy_REQUEST_hashAlg x)) TPM_ALG_ID_ID"

interpretation TPM2_SetPrimaryPolicy_REQUEST_text: text_codec "''TPM2_SetPrimaryPolicy_REQUEST''" TPM2_SetPrimaryPolicy_REQUEST_Serialize TPM2_SetPrimaryPolicy_REQUEST_Deserialize TPM2_SetPrimaryPolicy_REQUEST_default TPM2_SetPrimaryPolicy_REQUEST_text_ok
proof
  show "word_ok ''TPM2_SetPrimaryPolicy_REQUEST''" by (simp add: word_simps)
  fix c x assume ok: "TPM2_SetPrimaryPolicy_REQUEST_text_ok c x"
  from ok show "carries c True (TPM2_SetPrimaryPolicy_REQUEST_Serialize x) (TPM2_SetPrimaryPolicy_REQUEST_Deserialize TPM2_SetPrimaryPolicy_REQUEST_default) x"
    by (simp only: TPM2_SetPrimaryPolicy_REQUEST_Serialize_def TPM2_SetPrimaryPolicy_REQUEST_Deserialize_def TPM2_SetPrimaryPolicy_REQUEST_default_def
       TPM2_SetPrimaryPolicy_REQUEST.select_convs TPM2_SetPrimaryPolicy_REQUEST.update_convs;
      intro TPM_HANDLE_text.as_entry [THEN carries_entry_Cons] carries_body;
      (rule TPM2_SetPrimaryPolicy_REQUEST.equality)?; simp add: TPM2_SetPrimaryPolicy_REQUEST_text_ok_def word_simps)
qed

subsection \<open>TPM2_ChangePPS_REQUEST\<close>

definition TPM2_ChangePPS_REQUEST_Serialize :: "TPM2_ChangePPS_REQUEST \<Rightarrow> unit ser" where
  "TPM2_ChangePPS_REQUEST_Serialize self = wseq
     [withN ''authHandle'' ''TPM_HANDLE'' '''' '''' (ser_writeObj ''TPM_HANDLE'' (TPM_HANDLE_Serialize (TPM2_ChangePPS_REQUEST_authHandle self)))]"

definition TPM2_ChangePPS_REQUEST_Deserialize :: "TPM2_ChangePPS_REQUEST \<Rightarrow> TPM2_ChangePPS_REQUEST ser" where
  "TPM2_ChangePPS_REQUEST_Deserialize self =
     sbind (withN ''authHandle'' ''TPM_HANDLE'' '''' '''' (ser_readObj ''TPM_HANDLE'' (TPM_HANDLE_Deserialize (TPM2_ChangePPS_REQUEST_authHandle self)))) (\<lambda>authHandle.
     ret (self\<lparr>TPM2_ChangePPS_REQUEST_authHandle := authHandle\<rparr>))"

definition TPM2_ChangePPS_REQUEST_text_ok :: "text_class \<Rightarrow> TPM2_ChangePPS_REQUEST \<Rightarrow> bool" where
  "TPM2_ChangePPS_REQUEST_text_ok c x \<longleftrightarrow>
     TPM_HANDLE_text_ok c (TPM2_ChangePPS_REQUEST_authHandle x)"

interpretation TPM2_ChangePPS_REQUEST_text: text_codec "''TPM2_ChangePPS_REQUEST''" TPM2_ChangePPS_REQUEST_Serialize TPM2_ChangePPS_REQUEST_Deserialize TPM2_ChangePPS_REQUEST_default TPM2_ChangePPS_REQUEST_text_ok
proof
  show "word_ok ''TPM2_ChangePPS_REQUEST''" by (simp add: word_simps)
  fix c x assume ok: "TPM2_ChangePPS_REQUEST_text_ok c x"
  from ok show "carries c True (TPM2_ChangePPS_REQUEST_Serialize x) (TPM2_ChangePPS_REQUEST_Deserialize TPM2_ChangePPS_REQUEST_default) x"
    by (simp only: TPM2_ChangePPS_REQUEST_Serialize_def TPM2_ChangePPS_REQUEST_Deserialize_def TPM2_ChangePPS_REQUEST_default_def
       TPM2_ChangePPS_REQUEST.select_convs TPM2_ChangePPS_REQUEST.update_convs;
      intro TPM_HANDLE_text.as_entry [THEN carries_entry_Cons] carries_body;
      (rule TPM2_ChangePPS_REQUEST.equality)?; simp add: TPM2_ChangePPS_REQUEST_text_ok_def word_simps)
qed

subsection \<open>TPM2_ChangeEPS_REQUEST\<close>

definition TPM2_ChangeEPS_REQUEST_Serialize :: "TPM2_ChangeEPS_REQUEST \<Rightarrow> unit ser" where
  "TPM2_ChangeEPS_REQUEST_Serialize self = wseq
     [withN ''authHandle'' ''TPM_HANDLE'' '''' '''' (ser_writeObj ''TPM_HANDLE'' (TPM_HANDLE_Serialize (TPM2_ChangeEPS_REQUEST_authHandle self)))]"

definition TPM2_ChangeEPS_REQUEST_Deserialize :: "TPM2_ChangeEPS_REQUEST \<Rightarrow> TPM2_ChangeEPS_REQUEST ser" where
  "TPM2_ChangeEPS_REQUEST_Deserialize self =
     sbind (withN ''authHandle'' ''TPM_HANDLE'' '''' '''' (ser_readObj ''TPM_HANDLE'' (TPM_HANDLE_Deserialize (TPM2_ChangeEPS_REQUEST_authHandle self)))) (\<lambda>authHandle.
     ret (self\<lparr>TPM2_ChangeEPS_REQUEST_authHandle := authHandle\<rparr>))"

definition TPM2_ChangeEPS_REQUEST_text_ok :: "text_class \<Rightarrow> TPM2_ChangeEPS_REQUEST \<Rightarrow> bool" where
  "TPM2_ChangeEPS_REQUEST_text_ok c x \<longleftrightarrow>
     TPM_HANDLE_text_ok c (TPM2_ChangeEPS_REQUEST_authHandle x)"

interpretation TPM2_ChangeEPS_REQUEST_text: text_codec "''TPM2_ChangeEPS_REQUEST''" TPM2_ChangeEPS_REQUEST_Serialize TPM2_ChangeEPS_REQUEST_Deserialize TPM2_ChangeEPS_REQUEST_default TPM2_ChangeEPS_REQUEST_text_ok
proof
  show "word_ok ''TPM2_ChangeEPS_REQUEST''" by (simp add: word_simps)
  fix c x assume ok: "TPM2_ChangeEPS_REQUEST_text_ok c x"
  from ok show "carries c True (TPM2_ChangeEPS_REQUEST_Serialize x) (TPM2_ChangeEPS_REQUEST_Deserialize TPM2_ChangeEPS_REQUEST_default) x"
    by (simp only: TPM2_ChangeEPS_REQUEST_Serialize_def TPM2_ChangeEPS_REQUEST_Deserialize_def TPM2_ChangeEPS_REQUEST_default_def
       TPM2_ChangeEPS_REQUEST.select_convs TPM2_ChangeEPS_REQUEST.update_convs;
      intro TPM_HANDLE_text.as_entry [THEN carries_entry_Cons] carries_body;
      (rule TPM2_ChangeEPS_REQUEST.equality)?; simp add: TPM2_ChangeEPS_REQUEST_text_ok_def word_simps)
qed

subsection \<open>TPM2_Clear_REQUEST\<close>

definition TPM2_Clear_REQUEST_Serialize :: "TPM2_Clear_REQUEST \<Rightarrow> unit ser" where
  "TPM2_Clear_REQUEST_Serialize self = wseq
     [withN ''authHandle'' ''TPM_HANDLE'' '''' '''' (ser_writeObj ''TPM_HANDLE'' (TPM_HANDLE_Serialize (TPM2_Clear_REQUEST_authHandle self)))]"

definition TPM2_Clear_REQUEST_Deserialize :: "TPM2_Clear_REQUEST \<Rightarrow> TPM2_Clear_REQUEST ser" where
  "TPM2_Clear_REQUEST_Deserialize self =
     sbind (withN ''authHandle'' ''TPM_HANDLE'' '''' '''' (ser_readObj ''TPM_HANDLE'' (TPM_HANDLE_Deserialize (TPM2_Clear_REQUEST_authHandle self)))) (\<lambda>authHandle.
     ret (self\<lparr>TPM2_Clear_REQUEST_authHandle := authHandle\<rparr>))"

definition TPM2_Clear_REQUEST_text_ok :: "text_class \<Rightarrow> TPM2_Clear_REQUEST \<Rightarrow> bool" where
  "TPM2_Clear_REQUEST_text_ok c x \<longleftrightarrow>
     TPM_HANDLE_text_ok c (TPM2_Clear_REQUEST_authHandle x)"

interpretation TPM2_Clear_REQUEST_text: text_codec "''TPM2_Clear_REQUEST''" TPM2_Clear_REQUEST_Serialize TPM2_Clear_REQUEST_Deserialize TPM2_Clear_REQUEST_default TPM2_Clear_REQUEST_text_ok
proof
  show "word_ok ''TPM2_Clear_REQUEST''" by (simp add: word_simps)
  fix c x assume ok: "TPM2_Clear_REQUEST_text_ok c x"
  from ok show "carries c True (TPM2_Clear_REQUEST_Serialize x) (TPM2_Clear_REQUEST_Deserialize TPM2_Clear_REQUEST_default) x"
    by (simp only: TPM2_Clear_REQUEST_Serialize_def TPM2_Clear_REQUEST_Deserialize_def TPM2_Clear_REQUEST_default_def
       TPM2_Clear_REQUEST.select_convs TPM2_Clear_REQUEST.update_convs;
      intro TPM_HANDLE_text.as_entry [THEN carries_entry_Cons] carries_body;
      (rule TPM2_Clear_REQUEST.equality)?; simp add: TPM2_Clear_REQUEST_text_ok_def word_simps)
qed

subsection \<open>TPM2_ClearControl_REQUEST\<close>

definition TPM2_ClearControl_REQUEST_Serialize :: "TPM2_ClearControl_REQUEST \<Rightarrow> unit ser" where
  "TPM2_ClearControl_REQUEST_Serialize self = wseq
     [withN ''auth'' ''TPM_HANDLE'' '''' '''' (ser_writeObj ''TPM_HANDLE'' (TPM_HANDLE_Serialize (TPM2_ClearControl_REQUEST_auth self))),
      withN ''disable'' ''BYTE'' '''' '''' (ser_writeByte (TPM2_ClearControl_REQUEST_disable self))]"

definition TPM2_ClearControl_REQUEST_Deserialize :: "TPM2_ClearControl_REQUEST \<Rightarrow> TPM2_ClearControl_REQUEST ser" where
  "TPM2_ClearControl_REQUEST_Deserialize self =
     sbind (withN ''auth'' ''TPM_HANDLE'' '''' '''' (ser_readObj ''TPM_HANDLE'' (TPM_HANDLE_Deserialize (TPM2_ClearControl_REQUEST_auth self)))) (\<lambda>auth.
     sbind (withN ''disable'' ''BYTE'' '''' '''' ser_readByte) (\<lambda>disable.
     ret (self\<lparr>TPM2_ClearControl_REQUEST_auth := auth, TPM2_ClearControl_REQUEST_disable := disable\<rparr>)))"

definition TPM2_ClearControl_REQUEST_text_ok :: "text_class \<Rightarrow> TPM2_ClearControl_REQUEST \<Rightarrow> bool" where
  "TPM2_ClearControl_REQUEST_text_ok c x \<longleftrightarrow>
     TPM_HANDLE_text_ok c (TPM2_ClearControl_REQUEST_auth x)"

interpretation TPM2_ClearControl_REQUEST_text: text_codec "''TPM2_ClearControl_REQUEST''" TPM2_ClearControl_REQUEST_Serialize TPM2_ClearControl_REQUEST_Deserialize TPM2_ClearControl_REQUEST_default TPM2_ClearControl_REQUEST_text_ok
proof
  show "word_ok ''TPM2_ClearControl_REQUEST''" by (simp add: word_simps)
  fix c x assume ok: "TPM2_ClearControl_REQUEST_text_ok c x"
  from ok show "carries c True (TPM2_ClearControl_REQUEST_Serialize x) (TPM2_ClearControl_REQUEST_Deserialize TPM2_ClearControl_REQUEST_default) x"
    by (simp only: TPM2_ClearControl_REQUEST_Serialize_def TPM2_ClearControl_REQUEST_Deserialize_def TPM2_ClearControl_REQUEST_default_def
       TPM2_ClearControl_REQUEST.select_convs TPM2_ClearControl_REQUEST.update_convs;
      intro TPM_HANDLE_text.as_entry [THEN carries_entry_Cons] carries_body;
      (rule TPM2_ClearControl_REQUEST.equality)?; simp add: TPM2_ClearControl_REQUEST_text_ok_def word_simps)
qed

subsection \<open>TPM2_HierarchyChangeAuth_REQUEST\<close>

definition TPM2_HierarchyChangeAuth_REQUEST_Serialize :: "TPM2_HierarchyChangeAuth_REQUEST \<Rightarrow> unit ser" where
  "TPM2_HierarchyChangeAuth_REQUEST_Serialize self = wseq
     [withN ''authHandle'' ''TPM_HANDLE'' '''' '''' (ser_writeObj ''TPM_HANDLE'' (TPM_HANDLE_Serialize (TPM2_HierarchyChangeAuth_REQUEST_authHandle self))),
      withN ''newAuth'' ''BYTE[]'' ''newAuthSize'' ''UINT16'' (ser_writeSizedByteBuf (TPM2_HierarchyChangeAuth_REQUEST_newAuth self))]"

definition TPM2_HierarchyChangeAuth_REQUEST_Deserialize :: "TPM2_HierarchyChangeAuth_REQUEST \<Rightarrow> TPM2_HierarchyChangeAuth_REQUEST ser" where
  "TPM2_HierarchyChangeAuth_REQUEST_Deserialize self =
     sbind (withN ''authHandle'' ''TPM_HANDLE'' '''' '''' (ser_readObj ''TPM_HANDLE'' (TPM_HANDLE_Deserialize (TPM2_HierarchyChangeAuth_REQUEST_authHandle self)))) (\<lambda>authHandle.
     sbind (withN ''newAuth'' ''BYTE[]'' ''newAuthSize'' ''UINT16'' ser_readSizedByteBuf) (\<lambda>newAuth.
     ret (self\<lparr>TPM2_HierarchyChangeAuth_REQUEST_authHandle := authHandle, TPM2_HierarchyChangeAuth_REQUEST_newAuth := newAuth\<rparr>)))"

definition TPM2_HierarchyChangeAuth_REQUEST_text_ok :: "text_class \<Rightarrow> TPM2_HierarchyChangeAuth_REQUEST \<Rightarrow> bool" where
  "TPM2_HierarchyChangeAuth_REQUEST_text_ok c x \<longleftrightarrow>
     TPM_HANDLE_text_ok c (TPM2_HierarchyChangeAuth_REQUEST_authHandle x) \<and>
     length (TPM2_HierarchyChangeAuth_REQUEST_newAuth x) < 2 ^ 64"

interpretation TPM2_HierarchyChangeAuth_REQUEST_text: text_codec "''TPM2_HierarchyChangeAuth_REQUEST''" TPM2_HierarchyChangeAuth_REQUEST_Serialize TPM2_HierarchyChangeAuth_REQUEST_Deserialize TPM2_HierarchyChangeAuth_REQUEST_default TPM2_HierarchyChangeAuth_REQUEST_text_ok
proof
  show "word_ok ''TPM2_HierarchyChangeAuth_REQUEST''" by (simp add: word_simps)
  fix c x assume ok: "TPM2_HierarchyChangeAuth_REQUEST_text_ok c x"
  from ok show "carries c True (TPM2_HierarchyChangeAuth_REQUEST_Serialize x) (TPM2_HierarchyChangeAuth_REQUEST_Deserialize TPM2_HierarchyChangeAuth_REQUEST_default) x"
    by (simp only: TPM2_HierarchyChangeAuth_REQUEST_Serialize_def TPM2_HierarchyChangeAuth_REQUEST_Deserialize_def TPM2_HierarchyChangeAuth_REQUEST_default_def
       TPM2_HierarchyChangeAuth_REQUEST.select_convs TPM2_HierarchyChangeAuth_REQUEST.update_convs;
      intro TPM_HANDLE_text.as_entry [THEN carries_entry_Cons] carries_body;
      (rule TPM2_HierarchyChangeAuth_REQUEST.equality)?; simp add: TPM2_HierarchyChangeAuth_REQUEST_text_ok_def word_simps)
qed

subsection \<open>TPM2_DictionaryAttackLockReset_REQUEST\<close>

definition TPM2_DictionaryAttackLockReset_REQUEST_Serialize :: "TPM2_DictionaryAttackLockReset_REQUEST \<Rightarrow> unit ser" where
  "TPM2_DictionaryAttackLockReset_REQUEST_Serialize self = wseq
     [withN ''lockHandle'' ''TPM_HANDLE'' '''' '''' (ser_writeObj ''TPM_HANDLE'' (TPM_HANDLE_Serialize (TPM2_DictionaryAttackLockReset_REQUEST_lockHandle self)))]"

definition TPM2_DictionaryAttackLockReset_REQUEST_Deserialize :: "TPM2_DictionaryAttackLockReset_REQUEST \<Rightarrow> TPM2_DictionaryAttackLockReset_REQUEST ser" where
  "TPM2_DictionaryAttackLockReset_REQUEST_Deserialize self =
     sbind (withN ''lockHandle'' ''TPM_HANDLE'' '''' '''' (ser_readObj ''TPM_HANDLE'' (TPM_HANDLE_Deserialize (TPM2_DictionaryAttackLockReset_REQUEST_lockHandle self)))) (\<lambda>lockHandle.
     ret (self\<lparr>TPM2_DictionaryAttackLockReset_REQUEST_lockHandle := lockHandle\<rparr>))"

definition TPM2_DictionaryAttackLockReset_REQUEST_text_ok :: "text_class \<Rightarrow> TPM2_DictionaryAttackLockReset_REQUEST \<Rightarrow> bool" where
  "TPM2_DictionaryAttackLockReset_REQUEST_text_ok c x \<longleftrightarrow>
     TPM_HANDLE_text_ok c (TPM2_DictionaryAttackLockReset_REQUEST_lockHandle x)"

interpretation TPM2_DictionaryAttackLockReset_REQUEST_text: text_codec "''TPM2_DictionaryAttackLockReset_REQUEST''" TPM2_DictionaryAttackLockReset_REQUEST_Serialize TPM2_DictionaryAttackLockReset_REQUEST_Deserialize TPM2_DictionaryAttackLockReset_REQUEST_default TPM2_DictionaryAttackLockReset_REQUEST_text_ok
proof
  show "word_ok ''TPM2_DictionaryAttackLockReset_REQUEST''" by (simp add: word_simps)
  fix c x assume ok: "TPM2_DictionaryAttackLockReset_REQUEST_text_ok c x"
  from ok show "carries c True (TPM2_DictionaryAttackLockReset_REQUEST_Serialize x) (TPM2_DictionaryAttackLockReset_REQUEST_Deserialize TPM2_DictionaryAttackLockReset_REQUEST_default) x"
    by (simp only: TPM2_DictionaryAttackLockReset_REQUEST_Serialize_def TPM2_DictionaryAttackLockReset_REQUEST_Deserialize_def TPM2_DictionaryAttackLockReset_REQUEST_default_def
       TPM2_DictionaryAttackLockReset_REQUEST.select_convs TPM2_DictionaryAttackLockReset_REQUEST.update_convs;
      intro TPM_HANDLE_text.as_entry [THEN carries_entry_Cons] carries_body;
      (rule TPM2_DictionaryAttackLockReset_REQUEST.equality)?; simp add: TPM2_DictionaryAttackLockReset_REQUEST_text_ok_def word_simps)
qed

subsection \<open>TPM2_DictionaryAttackParameters_REQUEST\<close>

definition TPM2_DictionaryAttackParameters_REQUEST_Serialize :: "TPM2_DictionaryAttackParameters_REQUEST \<Rightarrow> unit ser" where
  "TPM2_DictionaryAttackParameters_REQUEST_Serialize self = wseq
     [withN ''lockHandle'' ''TPM_HANDLE'' '''' '''' (ser_writeObj ''TPM_HANDLE'' (TPM_HANDLE_Serialize (TPM2_DictionaryAttackParameters_REQUEST_lockHandle self))),
      withN ''newMaxTries'' ''UINT32'' '''' '''' (ser_writeInt (TPM2_DictionaryAttackParameters_REQUEST_newMaxTries self)),
      withN ''newRecoveryTime'' ''UINT32'' '''' '''' (ser_writeInt (TPM2_DictionaryAttackParameters_REQUEST_newRecoveryTime self)),
      withN ''lockoutRecovery'' ''UINT32'' '''' '''' (ser_writeInt (TPM2_DictionaryAttackParameters_REQUEST_lockoutRecovery self))]"

definition TPM2_DictionaryAttackParameters_REQUEST_Deserialize :: "TPM2_DictionaryAttackParameters_REQUEST \<Rightarrow> TPM2_DictionaryAttackParameters_REQUEST ser" where
  "TPM2_DictionaryAttackParameters_REQUEST_Deserialize self =
     sbind (withN ''lockHandle'' ''TPM_HANDLE'' '''' '''' (ser_readObj ''TPM_HANDLE'' (TPM_HANDLE_Deserialize (TPM2_DictionaryAttackParameters_REQUEST_lockHandle self)))) (\<lambda>lockHandle.
     sbind (withN ''newMaxTries'' ''UINT32'' '''' '''' ser_readInt) (\<lambda>newMaxTries.
     sbind (withN ''newRecoveryTime'' ''UINT32'' '''' '''' ser_readInt) (\<lambda>newRecoveryTime.
     sbind (withN ''lockoutRecovery'' ''UINT32'' '''' '''' ser_readInt) (\<lambda>lockoutRecovery.
     ret (self\<lparr>TPM2_DictionaryAttackParameters_REQUEST_lockHandle := lockHandle, TPM2_DictionaryAttackParameters_REQUEST_newMaxTries := newMaxTries, TPM2_DictionaryAttackParameters_REQUEST_newRecoveryTime := newRecoveryTime, TPM2_DictionaryAttackParameters_REQUEST_lockoutRecovery := lockoutRecovery\<rparr>)))))"

definition TPM2_DictionaryAttackParameters_REQUEST_text_ok :: "text_class \<Rightarrow> TPM2_DictionaryAttackParameters_REQUEST \<Rightarrow> bool" where
  "TPM2_DictionaryAttackParameters_REQUEST_text_ok c x \<longleftrightarrow>
     TPM_HANDLE_text_ok c (TPM2_DictionaryAttackParameters_REQUEST_lockHandle x)"

interpretation TPM2_DictionaryAttackParameters_REQUEST_text: text_codec "''TPM2_DictionaryAttackParameters_REQUEST''" TPM2_DictionaryAttackParameters_REQUEST_Serialize TPM2_DictionaryAttackParameters_REQUEST_Deserialize TPM2_DictionaryAttackParameters_REQUEST_default TPM2_DictionaryAttackParameters_REQUEST_text_ok
proof
  show "word_ok ''TPM2_DictionaryAttackParameters_REQUEST''" by (simp add: word_simps)
  fix c x assume ok: "TPM2_DictionaryAttackParameters_REQUEST_text_ok c x"
  from ok show "carries c True (TPM2_DictionaryAttackParameters_REQUEST_Serialize x) (TPM2_DictionaryAttackParameters_REQUEST_Deserialize TPM2_DictionaryAttackParameters_REQUEST_default) x"
    by (simp only: TPM2_DictionaryAttackParameters_REQUEST_Serialize_def TPM2_DictionaryAttackParameters_REQUEST_Deserialize_def TPM2_DictionaryAttackParameters_REQUEST_default_def
       TPM2_DictionaryAttackParameters_REQUEST.select_convs TPM2_DictionaryAttackParameters_REQUEST.update_convs;
      intro TPM_HANDLE_text.as_entry [THEN carries_entry_Cons] carries_body;
      (rule TPM2_DictionaryAttackParameters_REQUEST.equality)?; simp add: TPM2_DictionaryAttackParameters_REQUEST_text_ok_def word_simps)
qed

subsection \<open>TPM2_PP_Commands_REQUEST\<close>

definition TPM2_PP_Commands_REQUEST_Serialize :: "TPM2_PP_Commands_REQUEST \<Rightarrow> unit ser" where
  "TPM2_PP_Commands_REQUEST_Serialize self = wseq
     [withN ''auth'' ''TPM_HANDLE'' '''' '''' (ser_writeObj ''TPM_HANDLE'' (TPM_HANDLE_Serialize (TPM2_PP_Commands_REQUEST_auth self))),
      withN ''setList'' ''TPM_CC[]'' ''setListCount'' ''UINT32'' (ser_writeEnumArr (map ucast (TPM2_PP_Commands_REQUEST_setList self)) 4 TPM_CC_ID),
      withN ''clearList'' ''TPM_CC[]'' ''clearListCount'' ''UINT32'' (ser_writeEnumArr (map ucast (TPM2_PP_Commands_REQUEST_clearList self)) 4 TPM_CC_ID)]"

definition TPM2_PP_Commands_REQUEST_Deserialize :: "TPM2_PP_Commands_REQUEST \<Rightarrow> TPM2_PP_Commands_REQUEST ser" where
  "TPM2_PP_Commands_REQUEST_Deserialize self =
     sbind (withN ''auth'' ''TPM_HANDLE'' '''' '''' (ser_readObj ''TPM_HANDLE'' (TPM_HANDLE_Deserialize (TPM2_PP_Commands_REQUEST_auth self)))) (\<lambda>auth.
     sbind (withN ''setList'' ''TPM_CC[]'' ''setListCount'' ''UINT32'' (ser_readEnumArr (TPM2_PP_Commands_REQUEST_setList self) 4 TPM_CC_ID)) (\<lambda>setList.
     sbind (withN ''clearList'' ''TPM_CC[]'' ''clearListCount'' ''UINT32'' (ser_readEnumArr (TPM2_PP_Commands_REQUEST_clearList self) 4 TPM_CC_ID)) (\<lambda>clearList.
     ret (self\<lparr>TPM2_PP_Commands_REQUEST_auth := auth, TPM2_PP_Commands_REQUEST_setList := setList, TPM2_PP_Commands_REQUEST_clearList := clearList\<rparr>))))"

subsection \<open>TPM2_SetAlgorithmSet_REQUEST\<close>

definition TPM2_SetAlgorithmSet_REQUEST_Serialize :: "TPM2_SetAlgorithmSet_REQUEST \<Rightarrow> unit ser" where
  "TPM2_SetAlgorithmSet_REQUEST_Serialize self = wseq
     [withN ''authHandle'' ''TPM_HANDLE'' '''' '''' (ser_writeObj ''TPM_HANDLE'' (TPM_HANDLE_Serialize (TPM2_SetAlgorithmSet_REQUEST_authHandle self))),
      withN ''algorithmSet'' ''UINT32'' '''' '''' (ser_writeInt (TPM2_SetAlgorithmSet_REQUEST_algorithmSet self))]"

definition TPM2_SetAlgorithmSet_REQUEST_Deserialize :: "TPM2_SetAlgorithmSet_REQUEST \<Rightarrow> TPM2_SetAlgorithmSet_REQUEST ser" where
  "TPM2_SetAlgorithmSet_REQUEST_Deserialize self =
     sbind (withN ''authHandle'' ''TPM_HANDLE'' '''' '''' (ser_readObj ''TPM_HANDLE'' (TPM_HANDLE_Deserialize (TPM2_SetAlgorithmSet_REQUEST_authHandle self)))) (\<lambda>authHandle.
     sbind (withN ''algorithmSet'' ''UINT32'' '''' '''' ser_readInt) (\<lambda>algorithmSet.
     ret (self\<lparr>TPM2_SetAlgorithmSet_REQUEST_authHandle := authHandle, TPM2_SetAlgorithmSet_REQUEST_algorithmSet := algorithmSet\<rparr>)))"

definition TPM2_SetAlgorithmSet_REQUEST_text_ok :: "text_class \<Rightarrow> TPM2_SetAlgorithmSet_REQUEST \<Rightarrow> bool" where
  "TPM2_SetAlgorithmSet_REQUEST_text_ok c x \<longleftrightarrow>
     TPM_HANDLE_text_ok c (TPM2_SetAlgorithmSet_REQUEST_authHandle x)"

interpretation TPM2_SetAlgorithmSet_REQUEST_text: text_codec "''TPM2_SetAlgorithmSet_REQUEST''" TPM2_SetAlgorithmSet_REQUEST_Serialize TPM2_SetAlgorithmSet_REQUEST_Deserialize TPM2_SetAlgorithmSet_REQUEST_default TPM2_SetAlgorithmSet_REQUEST_text_ok
proof
  show "word_ok ''TPM2_SetAlgorithmSet_REQUEST''" by (simp add: word_simps)
  fix c x assume ok: "TPM2_SetAlgorithmSet_REQUEST_text_ok c x"
  from ok show "carries c True (TPM2_SetAlgorithmSet_REQUEST_Serialize x) (TPM2_SetAlgorithmSet_REQUEST_Deserialize TPM2_SetAlgorithmSet_REQUEST_default) x"
    by (simp only: TPM2_SetAlgorithmSet_REQUEST_Serialize_def TPM2_SetAlgorithmSet_REQUEST_Deserialize_def TPM2_SetAlgorithmSet_REQUEST_default_def
       TPM2_SetAlgorithmSet_REQUEST.select_convs TPM2_SetAlgorithmSet_REQUEST.update_convs;
      intro TPM_HANDLE_text.as_entry [THEN carries_entry_Cons] carries_body;
      (rule TPM2_SetAlgorithmSet_REQUEST.equality)?; simp add: TPM2_SetAlgorithmSet_REQUEST_text_ok_def word_simps)
qed

subsection \<open>TPM2_FieldUpgradeStart_REQUEST\<close>

definition TPM2_FieldUpgradeStart_REQUEST_Serialize :: "TPM2_FieldUpgradeStart_REQUEST \<Rightarrow> unit ser" where
  "TPM2_FieldUpgradeStart_REQUEST_Serialize self = wseq
     [withN ''authorization'' ''TPM_HANDLE'' '''' '''' (ser_writeObj ''TPM_HANDLE'' (TPM_HANDLE_Serialize (TPM2_FieldUpgradeStart_REQUEST_authorization self))),
      withN ''keyHandle'' ''TPM_HANDLE'' '''' '''' (ser_writeObj ''TPM_HANDLE'' (TPM_HANDLE_Serialize (TPM2_FieldUpgradeStart_REQUEST_keyHandle self))),
      withN ''fuDigest'' ''BYTE[]'' ''fuDigestSize'' ''UINT16'' (ser_writeSizedByteBuf (TPM2_FieldUpgradeStart_REQUEST_fuDigest self)),
      withN ''manifestSignatureSigAlg'' ''TPM_ALG_ID'' '''' '''' (ser_writeEnumT (selector_or TPM_ALG_ID_NULL TPMU_SIGNATURE_GetUnionSelector (TPM2_FieldUpgradeStart_REQUEST_manifestSignature self)) TPM_ALG_ID_ID),
      if_set (TPM2_FieldUpgradeStart_REQUEST_manifestSignature self) (\<lambda>u. withN ''manifestSignature'' ''TPMU_SIGNATURE'' '''' '''' (ser_writeObj (TPMU_SIGNATURE_TypeName u) (TPMU_SIGNATURE_Serialize u)))]"

definition TPM2_FieldUpgradeStart_REQUEST_Deserialize :: "TPM2_FieldUpgradeStart_REQUEST \<Rightarrow> TPM2_FieldUpgradeStart_REQUEST ser" where
  "TPM2_FieldUpgradeStart_REQUEST_Deserialize self =
     sbind (withN ''authorization'' ''TPM_HANDLE'' '''' '''' (ser_readObj ''TPM_HANDLE'' (TPM_HANDLE_Deserialize (TPM2_FieldUpgradeStart_REQUEST_authorization self)))) (\<lambda>authorization.
     sbind (withN ''keyHandle'' ''TPM_HANDLE'' '''' '''' (ser_readObj ''TPM_HANDLE'' (TPM_HANDLE_Deserialize (TPM2_FieldUpgradeStart_REQUEST_keyHandle self)))) (\<lambda>keyHandle.
     sbind (withN ''fuDigest'' ''BYTE[]'' ''fuDigestSize'' ''UINT16'' ser_readSizedByteBuf) (\<lambda>fuDigest.
     sbind (withN ''manifestSignatureSigAlg'' ''TPM_ALG_ID'' '''' '''' (ser_readEnumT TPM_ALG_ID_ID)) (\<lambda>manifestSignatureSigAlg.
     sbind (reset_or_create UnionFactory_Create_TPMU_SIGNATURE manifestSignatureSigAlg) (\<lambda>manifestSignature.
     sbind (read_if_set manifestSignature (\<lambda>u. withN ''manifestSignature'' ''TPMU_SIGNATURE'' '''' '''' (ser_readObj (TPMU_SIGNATURE_TypeName u) (TPMU_SIGNATURE_Deserialize u)))) (\<lambda>manifestSignature.
     ret (self\<lparr>TPM2_FieldUpgradeStart_REQUEST_authorization := authorization, TPM2_FieldUpgradeStart_REQUEST_keyHandle := keyHandle, TPM2_FieldUpgradeStart_REQUEST_fuDigest := fuDigest, TPM2_FieldUpgradeStart_REQUEST_manifestSignature := manifestSignature\<rparr>)))))))"

definition TPM2_FieldUpgradeStart_REQUEST_text_ok :: "text_class \<Rightarrow> TPM2_FieldUpgradeStart_REQUEST \<Rightarrow> bool" where
  "TPM2_FieldUpgradeStart_REQUEST_text_ok c x \<longleftrightarrow>
     TPM_HANDLE_text_ok c (TPM2_FieldUpgradeStart_REQUEST_authorization x) \<and>
     TPM_HANDLE_text_ok c (TPM2_FieldUpgradeStart_REQUEST_keyHandle x) \<and>
     length (TPM2_FieldUpgradeStart_REQUEST_fuDigest x) < 2 ^ 64 \<and>
     TPM2_FieldUpgradeStart_REQUEST_manifestSignature x \<noteq> None \<and>
     enum_ok c (ucast (selector_or TPM_ALG_ID_NULL TPMU_SIGNATURE_GetUnionSelector (TPM2_FieldUpgradeStart_REQUEST_manifestSignature x))) TPM_ALG_ID_ID \<and>
     if_set_ok (TPMU_SIGNATURE_text_ok c) (TPM2_FieldUpgradeStart_REQUEST_manifestSignature x)"

interpretation TPM2_FieldUpgradeStart_REQUEST_text: text_codec "''TPM2_FieldUpgradeStart_REQUEST''" TPM2_FieldUpgradeStart_REQUEST_Serialize TPM2_FieldUpgradeStart_REQUEST_Deserialize TPM2_FieldUpgradeStart_REQUEST_default TPM2_FieldUpgradeStart_REQUEST_text_ok
proof
  show "word_ok ''TPM2_FieldUpgradeStart_REQUEST''" by (simp add: word_simps)
  fix c x assume ok: "TPM2_FieldUpgradeStart_REQUEST_text_ok c x"
  from ok show "carries c True (TPM2_FieldUpgradeStart_REQUEST_Serialize x) (TPM2_FieldUpgradeStart_REQUEST_Deserialize TPM2_FieldUpgradeStart_REQUEST_default) x"
    by (simp only: TPM2_FieldUpgradeStart_REQUEST_Serialize_def TPM2_FieldUpgradeStart_REQUEST_Deserialize_def TPM2_FieldUpgradeStart_REQUEST_default_def
       TPM2_FieldUpgradeStart_REQUEST.select_convs TPM2_FieldUpgradeStart_REQUEST.update_convs;
      intro TPMU_SIGNATURE_text.as_member [THEN carries_member_Cons] TPMU_SIGNATURE_text.member_created [of c, THEN carries_create] TPM_HANDLE_text.as_entry [THEN carries_entry_Cons] carries_body;
      (rule TPM2_FieldUpgradeStart_REQUEST.equality)?; simp add: TPM2_FieldUpgradeStart_REQUEST_text_ok_def word_simps)
qed

subsection \<open>TPM2_FieldUpgradeData_REQUEST\<close>

definition TPM2_FieldUpgradeData_REQUEST_Serialize :: "TPM2_FieldUpgradeData_REQUEST \<Rightarrow> unit ser" where
  "TPM2_FieldUpgradeData_REQUEST_Serialize self = wseq
     [withN ''fuData'' ''BYTE[]'' ''fuDataSize'' ''UINT16'' (ser_writeSizedByteBuf (TPM2_FieldUpgradeData_REQUEST_fuData self))]"

definition TPM2_FieldUpgradeData_REQUEST_Deserialize :: "TPM2_FieldUpgradeData_REQUEST \<Rightarrow> TPM2_FieldUpgradeData_REQUEST ser" where
  "TPM2_FieldUpgradeData_REQUEST_Deserialize self =
     sbind (withN ''fuData'' ''BYTE[]'' ''fuDataSize'' ''UINT16'' ser_readSizedByteBuf) (\<lambda>fuData.
     ret (self\<lparr>TPM2_FieldUpgradeData_REQUEST_fuData := fuData\<rparr>))"

definition TPM2_FieldUpgradeData_REQUEST_text_ok :: "text_class \<Rightarrow> TPM2_FieldUpgradeData_REQUEST \<Rightarrow> bool" where
  "TPM2_FieldUpgradeData_REQUEST_text_ok c x \<longleftrightarrow>
     length (TPM2_FieldUpgradeData_REQUEST_fuData x) < 2 ^ 64"

interpretation TPM2_FieldUpgradeData_REQUEST_text: text_codec "''TPM2_FieldUpgradeData_REQUEST''" TPM2_FieldUpgradeData_REQUEST_Serialize TPM2_FieldUpgradeData_REQUEST_Deserialize TPM2_FieldUpgradeData_REQUEST_default TPM2_FieldUpgradeData_REQUEST_text_ok
proof
  show "word_ok ''TPM2_FieldUpgradeData_REQUEST''" by (simp add: word_simps)
  fix c x assume ok: "TPM2_FieldUpgradeData_REQUEST_text_ok c x"
  from ok show "carries c True (TPM2_FieldUpgradeData_REQUEST_Serialize x) (TPM2_FieldUpgradeData_REQUEST_Deserialize TPM2_FieldUpgradeData_REQUEST_default) x"
    by (simp only: TPM2_FieldUpgradeData_REQUEST_Serialize_def TPM2_FieldUpgradeData_REQUEST_Deserialize_def TPM2_FieldUpgradeData_REQUEST_default_def
       TPM2_FieldUpgradeData_REQUEST.select_convs TPM2_FieldUpgradeData_REQUEST.update_convs;
      intro carries_body;
      (rule TPM2_FieldUpgradeData_REQUEST.equality)?; simp add: TPM2_FieldUpgradeData_REQUEST_text_ok_def word_simps)
qed

subsection \<open>FieldUpgradeDataResponse\<close>

definition FieldUpgradeDataResponse_Serialize :: "FieldUpgradeDataResponse \<Rightarrow> unit ser" where
  "FieldUpgradeDataResponse_Serialize self = wseq
     [withN ''nextDigest'' ''TPMT_HA'' '''' '''' (ser_writeObj ''TPMT_HA'' (TPMT_HA_Serialize (FieldUpgradeDataResponse_nextDigest self))),
      withN ''firstDigest'' ''TPMT_HA'' '''' '''' (ser_writeObj ''TPMT_HA'' (TPMT_HA_Serialize (FieldUpgradeDataResponse_firstDigest self)))]"

definition FieldUpgradeDataResponse_Deserialize :: "FieldUpgradeDataResponse \<Rightarrow> FieldUpgradeDataResponse ser" where
  "FieldUpgradeDataResponse_Deserialize self =
     sbind (withN ''nextDigest'' ''TPMT_HA'' '''' '''' (ser_readObj ''TPMT_HA'' (TPMT_HA_Deserialize (FieldUpgradeDataResponse_nextDigest self)))) (\<lambda>nextDigest.
     sbind (withN ''firstDigest'' ''TPMT_HA'' '''' '''' (ser_readObj ''TPMT_HA'' (TPMT_HA_Deserialize (FieldUpgradeDataResponse_firstDigest self)))) (\<lambda>firstDigest.
     ret (self\<lparr>FieldUpgradeDataResponse_nextDigest := nextDigest, FieldUpgradeDataResponse_firstDigest := firstDigest\<rparr>)))"

definition FieldUpgradeDataResponse_text_ok :: "text_class \<Rightarrow> FieldUpgradeDataResponse \<Rightarrow> bool" where
  "FieldUpgradeDataResponse_text_ok c x \<longleftrightarrow>
     TPMT_HA_text_ok c (FieldUpgradeDataResponse_nextDigest x) \<and>
     TPMT_HA_text_ok c (FieldUpgradeDataResponse_firstDigest x)"

interpretation FieldUpgradeDataResponse_text: text_codec "''FieldUpgradeDataResponse''" FieldUpgradeDataResponse_Serialize FieldUpgradeDataResponse_Deserialize FieldUpgradeDataResponse_default FieldUpgradeDataResponse_text_ok
proof
  show "word_ok ''FieldUpgradeDataResponse''" by (simp add: word_simps)
  fix c x assume ok: "FieldUpgradeDataResponse_text_ok c x"
  from ok show "carries c True (FieldUpgradeDataResponse_Serialize x) (FieldUpgradeDataResponse_Deserialize FieldUpgradeDataResponse_default) x"
    by (simp only: FieldUpgradeDataResponse_Serialize_def FieldUpgradeDataResponse_Deserialize_def FieldUpgradeDataResponse_default_def
       FieldUpgradeDataResponse.select_convs FieldUpgradeDataResponse.update_convs;
      intro TPMT_HA_text.as_entry [THEN carries_entry_Cons] carries_body;
      (rule FieldUpgradeDataResponse.equality)?; simp add: FieldUpgradeDataResponse_text_ok_def word_simps)
qed

subsection \<open>TPM2_FirmwareRead_REQUEST\<close>

definition TPM2_FirmwareRead_REQUEST_Serialize :: "TPM2_FirmwareRead_REQUEST \<Rightarrow> unit ser" where
  "TPM2_FirmwareRead_REQUEST_Serialize self = wseq
     [withN ''sequenceNumber'' ''UINT32'' '''' '''' (ser_writeInt (TPM2_FirmwareRead_REQUEST_sequenceNumber self))]"

definition TPM2_FirmwareRead_REQUEST_Deserialize :: "TPM2_FirmwareRead_REQUEST \<Rightarrow> TPM2_FirmwareRead_REQUEST ser" where
  "TPM2_FirmwareRead_REQUEST_Deserialize self =
     sbind (withN ''sequenceNumber'' ''UINT32'' '''' '''' ser_readInt) (\<lambda>sequenceNumber.
     ret (self\<lparr>TPM2_FirmwareRead_REQUEST_sequenceNumber := sequenceNumber\<rparr>))"

definition TPM2_FirmwareRead_REQUEST_text_ok :: "text_class \<Rightarrow> TPM2_FirmwareRead_REQUEST \<Rightarrow> bool" where
  "TPM2_FirmwareRead_REQUEST_text_ok c x \<longleftrightarrow>
     True"

interpretation TPM2_FirmwareRead_REQUEST_text: text_codec "''TPM2_FirmwareRead_REQUEST''" TPM2_FirmwareRead_REQUEST_Serialize TPM2_FirmwareRead_REQUEST_Deserialize TPM2_FirmwareRead_REQUEST_default TPM2_FirmwareRead_REQUEST_text_ok
proof
  show "word_ok ''TPM2_FirmwareRead_REQUEST''" by (simp add: word_simps)
  fix c x assume ok: "TPM2_FirmwareRead_REQUEST_text_ok c x"
  from ok show "carries c True (TPM2_FirmwareRead_REQUEST_Serialize x) (TPM2_FirmwareRead_REQUEST_Deserialize TPM2_FirmwareRead_REQUEST_default) x"
    by (simp only: TPM2_FirmwareRead_REQUEST_Serialize_def TPM2_FirmwareRead_REQUEST_Deserialize_def TPM2_FirmwareRead_REQUEST_default_def
       TPM2_FirmwareRead_REQUEST.select_convs TPM2_FirmwareRead_REQUEST.update_convs;
      intro carries_body;
      (rule TPM2_FirmwareRead_REQUEST.equality)?; simp add: TPM2_FirmwareRead_REQUEST_text_ok_def word_simps)
qed

subsection \<open>FirmwareReadResponse\<close>

definition FirmwareReadResponse_Serialize :: "FirmwareReadResponse \<Rightarrow> unit ser" where
  "FirmwareReadResponse_Serialize self = wseq
     [withN ''fuData'' ''BYTE[]'' ''fuDataSize'' ''UINT16'' (ser_writeSizedByteBuf (FirmwareReadResponse_fuData self))]"

definition FirmwareReadResponse_Deserialize :: "FirmwareReadResponse \<Rightarrow> FirmwareReadResponse ser" where
  "FirmwareReadResponse_Deserialize self =
     sbind (withN ''fuData'' ''BYTE[]'' ''fuDataSize'' ''UINT16'' ser_readSizedByteBuf) (\<lambda>fuData.
     ret (self\<lparr>FirmwareReadResponse_fuData := fuData\<rparr>))"

definition FirmwareReadResponse_text_ok :: "text_class \<Rightarrow> FirmwareReadResponse \<Rightarrow> bool" where
  "FirmwareReadResponse_text_ok c x \<longleftrightarrow>
     length (FirmwareReadResponse_fuData x) < 2 ^ 64"

interpretation FirmwareReadResponse_text: text_codec "''FirmwareReadResponse''" FirmwareReadResponse_Serialize FirmwareReadResponse_Deserialize FirmwareReadResponse_default FirmwareReadResponse_text_ok
proof
  show "word_ok ''FirmwareReadResponse''" by (simp add: word_simps)
  fix c x assume ok: "FirmwareReadResponse_text_ok c x"
  from ok show "carries c True (FirmwareReadResponse_Serialize x) (FirmwareReadResponse_Deserialize FirmwareReadResponse_default) x"
    by (simp only: FirmwareReadResponse_Serialize_def FirmwareReadResponse_Deserialize_def FirmwareReadResponse_default_def
       FirmwareReadResponse.select_convs FirmwareReadResponse.update_convs;
      intro carries_body;
      (rule FirmwareReadResponse.equality)?; simp add: FirmwareReadResponse_text_ok_def word_simps)
qed

subsection \<open>TPM2_ContextSave_REQUEST\<close>

definition TPM2_ContextSave_REQUEST_Serialize :: "TPM2_ContextSave_REQUEST \<Rightarrow> unit ser" where
  "TPM2_ContextSave_REQUEST_Serialize self = wseq
     [withN ''saveHandle'' ''TPM_HANDLE'' '''' '''' (ser_writeObj ''TPM_HANDLE'' (TPM_HANDLE_Serialize (TPM2_ContextSave_REQUEST_saveHandle self)))]"

definition TPM2_ContextSave_REQUEST_Deserialize :: "TPM2_ContextSave_REQUEST \<Rightarrow> TPM2_ContextSave_REQUEST ser" where
  "TPM2_ContextSave_REQUEST_Deserialize self =
     sbind (withN ''saveHandle'' ''TPM_HANDLE'' '''' '''' (ser_readObj ''TPM_HANDLE'' (TPM_HANDLE_Deserialize (TPM2_ContextSave_REQUEST_saveHandle self)))) (\<lambda>saveHandle.
     ret (self\<lparr>TPM2_ContextSave_REQUEST_saveHandle := saveHandle\<rparr>))"

definition TPM2_ContextSave_REQUEST_text_ok :: "text_class \<Rightarrow> TPM2_ContextSave_REQUEST \<Rightarrow> bool" where
  "TPM2_ContextSave_REQUEST_text_ok c x \<longleftrightarrow>
     TPM_HANDLE_text_ok c (TPM2_ContextSave_REQUEST_saveHandle x)"

interpretation TPM2_ContextSave_REQUEST_text: text_codec "''TPM2_ContextSave_REQUEST''" TPM2_ContextSave_REQUEST_Serialize TPM2_ContextSave_REQUEST_Deserialize TPM2_ContextSave_REQUEST_default TPM2_ContextSave_REQUEST_text_ok
proof
  show "word_ok ''TPM2_ContextSave_REQUEST''" by (simp add: word_simps)
  fix c x assume ok: "TPM2_ContextSave_REQUEST_text_ok c x"
  from ok show "carries c True (TPM2_ContextSave_REQUEST_Serialize x) (TPM2_ContextSave_REQUEST_Deserialize TPM2_ContextSave_REQUEST_default) x"
    by (simp only: TPM2_ContextSave_REQUEST_Serialize_def TPM2_ContextSave_REQUEST_Deserialize_def TPM2_ContextSave_REQUEST_default_def
       TPM2_ContextSave_REQUEST.select_convs TPM2_ContextSave_REQUEST.update_convs;
      intro TPM_HANDLE_text.as_entry [THEN carries_entry_Cons] carries_body;
      (rule TPM2_ContextSave_REQUEST.equality)?; simp add: TPM2_ContextSave_REQUEST_text_ok_def word_simps)
qed

subsection \<open>ContextSaveResponse\<close>

definition ContextSaveResponse_Serialize :: "ContextSaveResponse \<Rightarrow> unit ser" where
  "ContextSaveResponse_Serialize self = wseq
     [withN ''context'' ''TPMS_CONTEXT'' '''' '''' (ser_writeObj ''TPMS_CONTEXT'' (TPMS_CONTEXT_Serialize (ContextSaveResponse_context self)))]"

definition ContextSaveResponse_Deserialize :: "ContextSaveResponse \<Rightarrow> ContextSaveResponse ser" where
  "ContextSaveResponse_Deserialize self =
     sbind (withN ''context'' ''TPMS_CONTEXT'' '''' '''' (ser_readObj ''TPMS_CONTEXT'' (TPMS_CONTEXT_Deserialize (ContextSaveResponse_context self)))) (\<lambda>context.
     ret (self\<lparr>ContextSaveResponse_context := context\<rparr>))"

definition ContextSaveResponse_text_ok :: "text_class \<Rightarrow> ContextSaveResponse \<Rightarrow> bool" where
  "ContextSaveResponse_text_ok c x \<longleftrightarrow>
     TPMS_CONTEXT_text_ok c (ContextSaveResponse_context x)"

interpretation ContextSaveResponse_text: text_codec "''ContextSaveResponse''" ContextSaveResponse_Serialize ContextSaveResponse_Deserialize ContextSaveResponse_default ContextSaveResponse_text_ok
proof
  show "word_ok ''ContextSaveResponse''" by (simp add: word_simps)
  fix c x assume ok: "ContextSaveResponse_text_ok c x"
  from ok show "carries c True (ContextSaveResponse_Serialize x) (ContextSaveResponse_Deserialize ContextSaveResponse_default) x"
    by (simp only: ContextSaveResponse_Serialize_def ContextSaveResponse_Deserialize_def ContextSaveResponse_default_def
       ContextSaveResponse.select_convs ContextSaveResponse.update_convs;
      intro TPMS_CONTEXT_text.as_entry [THEN carries_entry_Cons] carries_body;
      (rule ContextSaveResponse.equality)?; simp add: ContextSaveResponse_text_ok_def word_simps)
qed

subsection \<open>TPM2_ContextLoad_REQUEST\<close>

definition TPM2_ContextLoad_REQUEST_Serialize :: "TPM2_ContextLoad_REQUEST \<Rightarrow> unit ser" where
  "TPM2_ContextLoad_REQUEST_Serialize self = wseq
     [withN ''context'' ''TPMS_CONTEXT'' '''' '''' (ser_writeObj ''TPMS_CONTEXT'' (TPMS_CONTEXT_Serialize (TPM2_ContextLoad_REQUEST_context self)))]"

definition TPM2_ContextLoad_REQUEST_Deserialize :: "TPM2_ContextLoad_REQUEST \<Rightarrow> TPM2_ContextLoad_REQUEST ser" where
  "TPM2_ContextLoad_REQUEST_Deserialize self =
     sbind (withN ''context'' ''TPMS_CONTEXT'' '''' '''' (ser_readObj ''TPMS_CONTEXT'' (TPMS_CONTEXT_Deserialize (TPM2_ContextLoad_REQUEST_context self)))) (\<lambda>context.
     ret (self\<lparr>TPM2_ContextLoad_REQUEST_context := context\<rparr>))"

definition TPM2_ContextLoad_REQUEST_text_ok :: "text_class \<Rightarrow> TPM2_ContextLoad_REQUEST \<Rightarrow> bool" where
  "TPM2_ContextLoad_REQUEST_text_ok c x \<longleftrightarrow>
     TPMS_CONTEXT_text_ok c (TPM2_ContextLoad_REQUEST_context x)"

interpretation TPM2_ContextLoad_REQUEST_text: text_codec "''TPM2_ContextLoad_REQUEST''" TPM2_ContextLoad_REQUEST_Serialize TPM2_ContextLoad_REQUEST_Deserialize TPM2_ContextLoad_REQUEST_default TPM2_ContextLoad_REQUEST_text_ok
proof
  show "word_ok ''TPM2_ContextLoad_REQUEST''" by (simp add: word_simps)
  fix c x assume ok: "TPM2_ContextLoad_REQUEST_text_ok c x"
  from ok show "carries c True (TPM2_ContextLoad_REQUEST_Serialize x) (TPM2_ContextLoad_REQUEST_Deserialize TPM2_ContextLoad_REQUEST_default) x"
    by (simp only: TPM2_ContextLoad_REQUEST_Serialize_def TPM2_ContextLoad_REQUEST_Deserialize_def TPM2_ContextLoad_REQUEST_default_def
       TPM2_ContextLoad_REQUEST.select_convs TPM2_ContextLoad_REQUEST.update_convs;
      intro TPMS_CONTEXT_text.as_entry [THEN carries_entry_Cons] carries_body;
      (rule TPM2_ContextLoad_REQUEST.equality)?; simp add: TPM2_ContextLoad_REQUEST_text_ok_def word_simps)
qed

subsection \<open>ContextLoadResponse\<close>

definition ContextLoadResponse_Serialize :: "ContextLoadResponse \<Rightarrow> unit ser" where
  "ContextLoadResponse_Serialize self = wseq
     [withN ''handle'' ''TPM_HANDLE'' '''' '''' (ser_writeObj ''TPM_HANDLE'' (TPM_HANDLE_Serialize (ContextLoadResponse_handle self)))]"

definition ContextLoadResponse_Deserialize :: "ContextLoadResponse \<Rightarrow> ContextLoadResponse ser" where
  "ContextLoadResponse_Deserialize self =
     sbind (withN ''handle'' ''TPM_HANDLE'' '''' '''' (ser_readObj ''TPM_HANDLE'' (TPM_HANDLE_Deserialize (ContextLoadResponse_handle self)))) (\<lambda>handle.
     ret (self\<lparr>ContextLoadResponse_handle := handle\<rparr>))"

definition ContextLoadResponse_text_ok :: "text_class \<Rightarrow> ContextLoadResponse \<Rightarrow> bool" where
  "ContextLoadResponse_text_ok c x \<longleftrightarrow>
     TPM_HANDLE_text_ok c (ContextLoadResponse_handle x)"

interpretation ContextLoadResponse_text: text_codec "''ContextLoadResponse''" ContextLoadResponse_Serialize ContextLoadResponse_Deserialize ContextLoadResponse_default ContextLoadResponse_text_ok
proof
  show "word_ok ''ContextLoadResponse''" by (simp add: word_simps)
  fix c x assume ok: "ContextLoadResponse_text_ok c x"
  from ok show "carries c True (ContextLoadResponse_Serialize x) (ContextLoadResponse_Deserialize ContextLoadResponse_default) x"
    by (simp only: ContextLoadResponse_Serialize_def ContextLoadResponse_Deserialize_def ContextLoadResponse_default_def
       ContextLoadResponse.select_convs ContextLoadResponse.update_convs;
      intro TPM_HANDLE_text.as_entry [THEN carries_entry_Cons] carries_body;
      (rule ContextLoadResponse.equality)?; simp add: ContextLoadResponse_text_ok_def word_simps)
qed

subsection \<open>TPM2_FlushContext_REQUEST\<close>

definition TPM2_FlushContext_REQUEST_Serialize :: "TPM2_FlushContext_REQUEST \<Rightarrow> unit ser" where
  "TPM2_FlushContext_REQUEST_Serialize self = wseq
     [withN ''flushHandle'' ''TPM_HANDLE'' '''' '''' (ser_writeObj ''TPM_HANDLE'' (TPM_HANDLE_Serialize (TPM2_FlushContext_REQUEST_flushHandle self)))]"

definition TPM2_FlushContext_REQUEST_Deserialize :: "TPM2_FlushContext_REQUEST \<Rightarrow> TPM2_FlushContext_REQUEST ser" where
  "TPM2_FlushContext_REQUEST_Deserialize self =
     sbind (withN ''flushHandle'' ''TPM_HANDLE'' '''' '''' (ser_readObj ''TPM_HANDLE'' (TPM_HANDLE_Deserialize (TPM2_FlushContext_REQUEST_flushHandle self)))) (\<lambda>flushHandle.
     ret (self\<lparr>TPM2_FlushContext_REQUEST_flushHandle := flushHandle\<rparr>))"

definition TPM2_FlushContext_REQUEST_text_ok :: "text_class \<Rightarrow> TPM2_FlushContext_REQUEST \<Rightarrow> bool" where
  "TPM2_FlushContext_REQUEST_text_ok c x \<longleftrightarrow>
     TPM_HANDLE_text_ok c (TPM2_FlushContext_REQUEST_flushHandle x)"

interpretation TPM2_FlushContext_REQUEST_text: text_codec "''TPM2_FlushContext_REQUEST''" TPM2_FlushContext_REQUEST_Serialize TPM2_FlushContext_REQUEST_Deserialize TPM2_FlushContext_REQUEST_default TPM2_FlushContext_REQUEST_text_ok
proof
  show "word_ok ''TPM2_FlushContext_REQUEST''" by (simp add: word_simps)
  fix c x assume ok: "TPM2_FlushContext_REQUEST_text_ok c x"
  from ok show "carries c True (TPM2_FlushContext_REQUEST_Serialize x) (TPM2_FlushContext_REQUEST_Deserialize TPM2_FlushContext_REQUEST_default) x"
    by (simp only: TPM2_FlushContext_REQUEST_Serialize_def TPM2_FlushContext_REQUEST_Deserialize_def TPM2_FlushContext_REQUEST_default_def
       TPM2_FlushContext_REQUEST.select_convs TPM2_FlushContext_REQUEST.update_convs;
      intro TPM_HANDLE_text.as_entry [THEN carries_entry_Cons] carries_body;
      (rule TPM2_FlushContext_REQUEST.equality)?; simp add: TPM2_FlushContext_REQUEST_text_ok_def word_simps)
qed

subsection \<open>TPM2_EvictControl_REQUEST\<close>

definition TPM2_EvictControl_REQUEST_Serialize :: "TPM2_EvictControl_REQUEST \<Rightarrow> unit ser" where
  "TPM2_EvictControl_REQUEST_Serialize self = wseq
     [withN ''auth'' ''TPM_HANDLE'' '''' '''' (ser_writeObj ''TPM_HANDLE'' (TPM_HANDLE_Serialize (TPM2_EvictControl_REQUEST_auth self))),
      withN ''objectHandle'' ''TPM_HANDLE'' '''' '''' (ser_writeObj ''TPM_HANDLE'' (TPM_HANDLE_Serialize (TPM2_EvictControl_REQUEST_objectHandle self))),
      withN ''persistentHandle'' ''TPM_HANDLE'' '''' '''' (ser_writeObj ''TPM_HANDLE'' (TPM_HANDLE_Serialize (TPM2_EvictControl_REQUEST_persistentHandle self)))]"

definition TPM2_EvictControl_REQUEST_Deserialize :: "TPM2_EvictControl_REQUEST \<Rightarrow> TPM2_EvictControl_REQUEST ser" where
  "TPM2_EvictControl_REQUEST_Deserialize self =
     sbind (withN ''auth'' ''TPM_HANDLE'' '''' '''' (ser_readObj ''TPM_HANDLE'' (TPM_HANDLE_Deserialize (TPM2_EvictControl_REQUEST_auth self)))) (\<lambda>auth.
     sbind (withN ''objectHandle'' ''TPM_HANDLE'' '''' '''' (ser_readObj ''TPM_HANDLE'' (TPM_HANDLE_Deserialize (TPM2_EvictControl_REQUEST_objectHandle self)))) (\<lambda>objectHandle.
     sbind (withN ''persistentHandle'' ''TPM_HANDLE'' '''' '''' (ser_readObj ''TPM_HANDLE'' (TPM_HANDLE_Deserialize (TPM2_EvictControl_REQUEST_persistentHandle self)))) (\<lambda>persistentHandle.
     ret (self\<lparr>TPM2_EvictControl_REQUEST_auth := auth, TPM2_EvictControl_REQUEST_objectHandle := objectHandle, TPM2_EvictControl_REQUEST_persistentHandle := persistentHandle\<rparr>))))"

definition TPM2_EvictControl_REQUEST_text_ok :: "text_class \<Rightarrow> TPM2_EvictControl_REQUEST \<Rightarrow> bool" where
  "TPM2_EvictControl_REQUEST_text_ok c x \<longleftrightarrow>
     TPM_HANDLE_text_ok c (TPM2_EvictControl_REQUEST_auth x) \<and>
     TPM_HANDLE_text_ok c (TPM2_EvictControl_REQUEST_objectHandle x) \<and>
     TPM_HANDLE_text_ok c (TPM2_EvictControl_REQUEST_persistentHandle x)"

interpretation TPM2_EvictControl_REQUEST_text: text_codec "''TPM2_EvictControl_REQUEST''" TPM2_EvictControl_REQUEST_Serialize TPM2_EvictControl_REQUEST_Deserialize TPM2_EvictControl_REQUEST_default TPM2_EvictControl_REQUEST_text_ok
proof
  show "word_ok ''TPM2_EvictControl_REQUEST''" by (simp add: word_simps)
  fix c x assume ok: "TPM2_EvictControl_REQUEST_text_ok c x"
  from ok show "carries c True (TPM2_EvictControl_REQUEST_Serialize x) (TPM2_EvictControl_REQUEST_Deserialize TPM2_EvictControl_REQUEST_default) x"
    by (simp only: TPM2_EvictControl_REQUEST_Serialize_def TPM2_EvictControl_REQUEST_Deserialize_def TPM2_EvictControl_REQUEST_default_def
       TPM2_EvictControl_REQUEST.select_convs TPM2_EvictControl_REQUEST.update_convs;
      intro TPM_HANDLE_text.as_entry [THEN carries_entry_Cons] carries_body;
      (rule TPM2_EvictControl_REQUEST.equality)?; simp add: TPM2_EvictControl_REQUEST_text_ok_def word_simps)
qed

subsection \<open>ReadClockResponse\<close>

definition ReadClockResponse_Serialize :: "ReadClockResponse \<Rightarrow> unit ser" where
  "ReadClockResponse_Serialize self = wseq
     [withN ''currentTime'' ''TPMS_TIME_INFO'' '''' '''' (ser_writeObj ''TPMS_TIME_INFO'' (TPMS_TIME_INFO_Serialize (ReadClockResponse_currentTime self)))]"

definition ReadClockResponse_Deserialize :: "ReadClockResponse \<Rightarrow> ReadClockResponse ser" where
  "ReadClockResponse_Deserialize self =
     sbind (withN ''currentTime'' ''TPMS_TIME_INFO'' '''' '''' (ser_readObj ''TPMS_TIME_INFO'' (TPMS_TIME_INFO_Deserialize (ReadClockResponse_currentTime self)))) (\<lambda>currentTime.
     ret (self\<lparr>ReadClockResponse_currentTime := currentTime\<rparr>))"

definition ReadClockResponse_text_ok :: "text_class \<Rightarrow> ReadClockResponse \<Rightarrow> bool" where
  "ReadClockResponse_text_ok c x \<longleftrightarrow>
     TPMS_TIME_INFO_text_ok c (ReadClockResponse_currentTime x)"

interpretation ReadClockResponse_text: text_codec "''ReadClockResponse''" ReadClockResponse_Serialize ReadClockResponse_Deserialize ReadClockResponse_default ReadClockResponse_text_ok
proof
  show "word_ok ''ReadClockResponse''" by (simp add: word_simps)
  fix c x assume ok: "ReadClockResponse_text_ok c x"
  from ok show "carries c True (ReadClockResponse_Serialize x) (ReadClockResponse_Deserialize ReadClockResponse_default) x"
    by (simp only: ReadClockResponse_Serialize_def ReadClockResponse_Deserialize_def ReadClockResponse_default_def
       ReadClockResponse.select_convs ReadClockResponse.update_convs;
      intro TPMS_TIME_INFO_text.as_entry [THEN carries_entry_Cons] carries_body;
      (rule ReadClockResponse.equality)?; simp add: ReadClockResponse_text_ok_def word_simps)
qed

subsection \<open>TPM2_ClockSet_REQUEST\<close>

definition TPM2_ClockSet_REQUEST_Serialize :: "TPM2_ClockSet_REQUEST \<Rightarrow> unit ser" where
  "TPM2_ClockSet_REQUEST_Serialize self = wseq
     [withN ''auth'' ''TPM_HANDLE'' '''' '''' (ser_writeObj ''TPM_HANDLE'' (TPM_HANDLE_Serialize (TPM2_ClockSet_REQUEST_auth self))),
      withN ''newTime'' ''UINT64'' '''' '''' (ser_writeInt64 (TPM2_ClockSet_REQUEST_newTime self))]"

definition TPM2_ClockSet_REQUEST_Deserialize :: "TPM2_ClockSet_REQUEST \<Rightarrow> TPM2_ClockSet_REQUEST ser" where
  "TPM2_ClockSet_REQUEST_Deserialize self =
     sbind (withN ''auth'' ''TPM_HANDLE'' '''' '''' (ser_readObj ''TPM_HANDLE'' (TPM_HANDLE_Deserialize (TPM2_ClockSet_REQUEST_auth self)))) (\<lambda>auth.
     sbind (withN ''newTime'' ''UINT64'' '''' '''' ser_readInt64) (\<lambda>newTime.
     ret (self\<lparr>TPM2_ClockSet_REQUEST_auth := auth, TPM2_ClockSet_REQUEST_newTime := newTime\<rparr>)))"

definition TPM2_ClockSet_REQUEST_text_ok :: "text_class \<Rightarrow> TPM2_ClockSet_REQUEST \<Rightarrow> bool" where
  "TPM2_ClockSet_REQUEST_text_ok c x \<longleftrightarrow>
     TPM_HANDLE_text_ok c (TPM2_ClockSet_REQUEST_auth x)"

interpretation TPM2_ClockSet_REQUEST_text: text_codec "''TPM2_ClockSet_REQUEST''" TPM2_ClockSet_REQUEST_Serialize TPM2_ClockSet_REQUEST_Deserialize TPM2_ClockSet_REQUEST_default TPM2_ClockSet_REQUEST_text_ok
proof
  show "word_ok ''TPM2_ClockSet_REQUEST''" by (simp add: word_simps)
  fix c x assume ok: "TPM2_ClockSet_REQUEST_text_ok c x"
  from ok show "carries c True (TPM2_ClockSet_REQUEST_Serialize x) (TPM2_ClockSet_REQUEST_Deserialize TPM2_ClockSet_REQUEST_default) x"
    by (simp only: TPM2_ClockSet_REQUEST_Serialize_def TPM2_ClockSet_REQUEST_Deserialize_def TPM2_ClockSet_REQUEST_default_def
       TPM2_ClockSet_REQUEST.select_convs TPM2_ClockSet_REQUEST.update_convs;
      intro TPM_HANDLE_text.as_entry [THEN carries_entry_Cons] carries_body;
      (rule TPM2_ClockSet_REQUEST.equality)?; simp add: TPM2_ClockSet_REQUEST_text_ok_def word_simps)
qed

subsection \<open>TPM2_ClockRateAdjust_REQUEST\<close>

definition TPM2_ClockRateAdjust_REQUEST_Serialize :: "TPM2_ClockRateAdjust_REQUEST \<Rightarrow> unit ser" where
  "TPM2_ClockRateAdjust_REQUEST_Serialize self = wseq
     [withN ''auth'' ''TPM_HANDLE'' '''' '''' (ser_writeObj ''TPM_HANDLE'' (TPM_HANDLE_Serialize (TPM2_ClockRateAdjust_REQUEST_auth self))),
      withN ''rateAdjust'' ''TPM_CLOCK_ADJUST'' '''' '''' (ser_writeEnumS (TPM2_ClockRateAdjust_REQUEST_rateAdjust self) TPM_CLOCK_ADJUST_ID)]"

definition TPM2_ClockRateAdjust_REQUEST_Deserialize :: "TPM2_ClockRateAdjust_REQUEST \<Rightarrow> TPM2_ClockRateAdjust_REQUEST ser" where
  "TPM2_ClockRateAdjust_REQUEST_Deserialize self =
     sbind (withN ''auth'' ''TPM_HANDLE'' '''' '''' (ser_readObj ''TPM_HANDLE'' (TPM_HANDLE_Deserialize (TPM2_ClockRateAdjust_REQUEST_auth self)))) (\<lambda>auth.
     sbind (withN ''rateAdjust'' ''TPM_CLOCK_ADJUST'' '''' '''' (ser_readEnumT TPM_CLOCK_ADJUST_ID)) (\<lambda>rateAdjust.
     ret (self\<lparr>TPM2_ClockRateAdjust_REQUEST_auth := auth, TPM2_ClockRateAdjust_REQUEST_rateAdjust := rateAdjust\<rparr>)))"

definition TPM2_ClockRateAdjust_REQUEST_text_ok :: "text_class \<Rightarrow> TPM2_ClockRateAdjust_REQUEST \<Rightarrow> bool" where
  "TPM2_ClockRateAdjust_REQUEST_text_ok c x \<longleftrightarrow>
     TPM_HANDLE_text_ok c (TPM2_ClockRateAdjust_REQUEST_auth x) \<and>
     enum_ok c (scast (TPM2_ClockRateAdjust_REQUEST_rateAdjust x)) TPM_CLOCK_ADJUST_ID"

interpretation TPM2_ClockRateAdjust_REQUEST_text: text_codec "''TPM2_ClockRateAdjust_REQUEST''" TPM2_ClockRateAdjust_REQUEST_Serialize TPM2_ClockRateAdjust_REQUEST_Deserialize TPM2_ClockRateAdjust_REQUEST_default TPM2_ClockRateAdjust_REQUEST_text_ok
proof
  show "word_ok ''TPM2_ClockRateAdjust_REQUEST''" by (simp add: word_simps)
  fix c x assume ok: "TPM2_ClockRateAdjust_REQUEST_text_ok c x"
  from ok show "carries c True (TPM2_ClockRateAdjust_REQUEST_Serialize x) (TPM2_ClockRateAdjust_REQUEST_Deserialize TPM2_ClockRateAdjust_REQUEST_default) x"
    by (simp only: TPM2_ClockRateAdjust_REQUEST_Serialize_def TPM2_ClockRateAdjust_REQUEST_Deserialize_def TPM2_ClockRateAdjust_REQUEST_default_def
       TPM2_ClockRateAdjust_REQUEST.select_convs TPM2_ClockRateAdjust_REQUEST.update_convs;
      intro TPM_HANDLE_text.as_entry [THEN carries_entry_Cons] carries_body;
      (rule TPM2_ClockRateAdjust_REQUEST.equality)?; simp add: TPM2_ClockRateAdjust_REQUEST_text_ok_def word_simps)
qed

end
