(* ===== verification/TextNvCommands.thy ===== *)
theory TextNvCommands
  imports TextNvTypes TpmNvCommands
begin

text \<open>
  \<^verbatim>\<open>TSS.CPP/Src/TpmTypes.cpp\<close>, the text form of the structures of theory \<open>TpmNvCommands\<close>: \<open>X_Serialize\<close> and
  \<open>X_Deserialize\<close> of each class \<open>X\<close>, the values \<open>X_text_ok\<close> that a text of the given kind can carry, and
  the proof that the second method reads what the first one writes (the interpretation \<open>X_text\<close>).
  A class with an array of enumerators has no such interpretation: \<open>readEnumArr\<close> does not read it.
\<close>

subsection \<open>TPM2_GetCapability_REQUEST\<close>

definition TPM2_GetCapability_REQUEST_Serialize :: "TPM2_GetCapability_REQUEST \<Rightarrow> unit ser" where
  "TPM2_GetCapability_REQUEST_Serialize self = wseq
     [withN ''capability'' ''TPM_CAP'' '''' '''' (ser_writeEnumT (TPM2_GetCapability_REQUEST_capability self) TPM_CAP_ID),
      withN ''property'' ''UINT32'' '''' '''' (ser_writeInt (TPM2_GetCapability_REQUEST_property self)),
      withN ''propertyCount'' ''UINT32'' '''' '''' (ser_writeInt (TPM2_GetCapability_REQUEST_propertyCount self))]"

definition TPM2_GetCapability_REQUEST_Deserialize :: "TPM2_GetCapability_REQUEST \<Rightarrow> TPM2_GetCapability_REQUEST ser" where
  "TPM2_GetCapability_REQUEST_Deserialize self =
     sbind (withN ''capability'' ''TPM_CAP'' '''' '''' (ser_readEnumT TPM_CAP_ID)) (\<lambda>capability.
     sbind (withN ''property'' ''UINT32'' '''' '''' ser_readInt) (\<lambda>property.
     sbind (withN ''propertyCount'' ''UINT32'' '''' '''' ser_readInt) (\<lambda>propertyCount.
     ret (self\<lparr>TPM2_GetCapability_REQUEST_capability := capability, TPM2_GetCapability_REQUEST_property := property, TPM2_GetCapability_REQUEST_propertyCount := propertyCount\<rparr>))))"

definition TPM2_GetCapability_REQUEST_text_ok :: "text_class \<Rightarrow> TPM2_GetCapability_REQUEST \<Rightarrow> bool" where
  "TPM2_GetCapability_REQUEST_text_ok c x \<longleftrightarrow>
     enum_ok c (ucast (TPM2_GetCapability_REQUEST_capability x)) TPM_CAP_ID"

interpretation TPM2_GetCapability_REQUEST_text: text_codec "''TPM2_GetCapability_REQUEST''" TPM2_GetCapability_REQUEST_Serialize TPM2_GetCapability_REQUEST_Deserialize TPM2_GetCapability_REQUEST_default TPM2_GetCapability_REQUEST_text_ok
proof
  show "word_ok ''TPM2_GetCapability_REQUEST''" by (simp add: word_simps)
  fix c x assume ok: "TPM2_GetCapability_REQUEST_text_ok c x"
  from ok show "carries c True (TPM2_GetCapability_REQUEST_Serialize x) (TPM2_GetCapability_REQUEST_Deserialize TPM2_GetCapability_REQUEST_default) x"
    by (simp only: TPM2_GetCapability_REQUEST_Serialize_def TPM2_GetCapability_REQUEST_Deserialize_def TPM2_GetCapability_REQUEST_default_def
       TPM2_GetCapability_REQUEST.select_convs TPM2_GetCapability_REQUEST.update_convs;
      intro carries_body;
      (rule TPM2_GetCapability_REQUEST.equality)?; simp add: TPM2_GetCapability_REQUEST_text_ok_def word_simps)
qed

subsection \<open>GetCapabilityResponse\<close>

definition GetCapabilityResponse_Serialize :: "GetCapabilityResponse \<Rightarrow> unit ser" where
  "GetCapabilityResponse_Serialize self = wseq
     [withN ''moreData'' ''BYTE'' '''' '''' (ser_writeByte (GetCapabilityResponse_moreData self)),
      withN ''capabilityDataCapability'' ''TPM_CAP'' '''' '''' (ser_writeEnumT (selector_or 0 TPMU_CAPABILITIES_GetUnionSelector (GetCapabilityResponse_capabilityData self)) TPM_CAP_ID),
      if_set (GetCapabilityResponse_capabilityData self) (\<lambda>u. withN ''capabilityData'' ''TPMU_CAPABILITIES'' '''' '''' (ser_writeObj (TPMU_CAPABILITIES_TypeName u) (TPMU_CAPABILITIES_Serialize u)))]"

definition GetCapabilityResponse_Deserialize :: "GetCapabilityResponse \<Rightarrow> GetCapabilityResponse ser" where
  "GetCapabilityResponse_Deserialize self =
     sbind (withN ''moreData'' ''BYTE'' '''' '''' ser_readByte) (\<lambda>moreData.
     sbind (withN ''capabilityDataCapability'' ''TPM_CAP'' '''' '''' (ser_readEnumT TPM_CAP_ID)) (\<lambda>capabilityDataCapability.
     sbind (reset_or_create UnionFactory_Create_TPMU_CAPABILITIES capabilityDataCapability) (\<lambda>capabilityData.
     sbind (read_if_set capabilityData (\<lambda>u. withN ''capabilityData'' ''TPMU_CAPABILITIES'' '''' '''' (ser_readObj (TPMU_CAPABILITIES_TypeName u) (TPMU_CAPABILITIES_Deserialize u)))) (\<lambda>capabilityData.
     ret (self\<lparr>GetCapabilityResponse_moreData := moreData, GetCapabilityResponse_capabilityData := capabilityData\<rparr>)))))"

definition GetCapabilityResponse_text_ok :: "text_class \<Rightarrow> GetCapabilityResponse \<Rightarrow> bool" where
  "GetCapabilityResponse_text_ok c x \<longleftrightarrow>
     enum_ok c (ucast (selector_or 0 TPMU_CAPABILITIES_GetUnionSelector (GetCapabilityResponse_capabilityData x))) TPM_CAP_ID \<and>
     if_set_ok (TPMU_CAPABILITIES_text_ok c) (GetCapabilityResponse_capabilityData x)"

interpretation GetCapabilityResponse_text: text_codec "''GetCapabilityResponse''" GetCapabilityResponse_Serialize GetCapabilityResponse_Deserialize GetCapabilityResponse_default GetCapabilityResponse_text_ok
proof
  show "word_ok ''GetCapabilityResponse''" by (simp add: word_simps)
  fix c x assume ok: "GetCapabilityResponse_text_ok c x"
  from ok show "carries c True (GetCapabilityResponse_Serialize x) (GetCapabilityResponse_Deserialize GetCapabilityResponse_default) x"
    by (simp only: GetCapabilityResponse_Serialize_def GetCapabilityResponse_Deserialize_def GetCapabilityResponse_default_def
       GetCapabilityResponse.select_convs GetCapabilityResponse.update_convs;
      intro TPMU_CAPABILITIES_text.as_member [THEN carries_member_Cons] TPMU_CAPABILITIES_text.member_created [of c, THEN carries_create] carries_body;
      (rule GetCapabilityResponse.equality)?; simp add: GetCapabilityResponse_text_ok_def word_simps)
qed

subsection \<open>TPM2_TestParms_REQUEST\<close>

definition TPM2_TestParms_REQUEST_Serialize :: "TPM2_TestParms_REQUEST \<Rightarrow> unit ser" where
  "TPM2_TestParms_REQUEST_Serialize self = wseq
     [withN ''parametersType'' ''TPM_ALG_ID'' '''' '''' (ser_writeEnumT (selector_or 0 TPMU_PUBLIC_PARMS_GetUnionSelector (TPM2_TestParms_REQUEST_parameters self)) TPM_ALG_ID_ID),
      if_set (TPM2_TestParms_REQUEST_parameters self) (\<lambda>u. withN ''parameters'' ''TPMU_PUBLIC_PARMS'' '''' '''' (ser_writeObj (TPMU_PUBLIC_PARMS_TypeName u) (TPMU_PUBLIC_PARMS_Serialize u)))]"

definition TPM2_TestParms_REQUEST_Deserialize :: "TPM2_TestParms_REQUEST \<Rightarrow> TPM2_TestParms_REQUEST ser" where
  "TPM2_TestParms_REQUEST_Deserialize self =
     sbind (withN ''parametersType'' ''TPM_ALG_ID'' '''' '''' (ser_readEnumT TPM_ALG_ID_ID)) (\<lambda>parametersType.
     sbind (reset_or_create UnionFactory_Create_TPMU_PUBLIC_PARMS parametersType) (\<lambda>parameters.
     sbind (read_if_set parameters (\<lambda>u. withN ''parameters'' ''TPMU_PUBLIC_PARMS'' '''' '''' (ser_readObj (TPMU_PUBLIC_PARMS_TypeName u) (TPMU_PUBLIC_PARMS_Deserialize u)))) (\<lambda>parameters.
     ret (self\<lparr>TPM2_TestParms_REQUEST_parameters := parameters\<rparr>))))"

definition TPM2_TestParms_REQUEST_text_ok :: "text_class \<Rightarrow> TPM2_TestParms_REQUEST \<Rightarrow> bool" where
  "TPM2_TestParms_REQUEST_text_ok c x \<longleftrightarrow>
     enum_ok c (ucast (selector_or 0 TPMU_PUBLIC_PARMS_GetUnionSelector (TPM2_TestParms_REQUEST_parameters x))) TPM_ALG_ID_ID \<and>
     if_set_ok (TPMU_PUBLIC_PARMS_text_ok c) (TPM2_TestParms_REQUEST_parameters x)"

interpretation TPM2_TestParms_REQUEST_text: text_codec "''TPM2_TestParms_REQUEST''" TPM2_TestParms_REQUEST_Serialize TPM2_TestParms_REQUEST_Deserialize TPM2_TestParms_REQUEST_default TPM2_TestParms_REQUEST_text_ok
proof
  show "word_ok ''TPM2_TestParms_REQUEST''" by (simp add: word_simps)
  fix c x assume ok: "TPM2_TestParms_REQUEST_text_ok c x"
  from ok show "carries c True (TPM2_TestParms_REQUEST_Serialize x) (TPM2_TestParms_REQUEST_Deserialize TPM2_TestParms_REQUEST_default) x"
    by (simp only: TPM2_TestParms_REQUEST_Serialize_def TPM2_TestParms_REQUEST_Deserialize_def TPM2_TestParms_REQUEST_default_def
       TPM2_TestParms_REQUEST.select_convs TPM2_TestParms_REQUEST.update_convs;
      intro TPMU_PUBLIC_PARMS_text.as_member [THEN carries_member_Cons] TPMU_PUBLIC_PARMS_text.member_created [of c, THEN carries_create] carries_body;
      (rule TPM2_TestParms_REQUEST.equality)?; simp add: TPM2_TestParms_REQUEST_text_ok_def word_simps)
qed

subsection \<open>TPM2_NV_DefineSpace_REQUEST\<close>

definition TPM2_NV_DefineSpace_REQUEST_Serialize :: "TPM2_NV_DefineSpace_REQUEST \<Rightarrow> unit ser" where
  "TPM2_NV_DefineSpace_REQUEST_Serialize self = wseq
     [withN ''authHandle'' ''TPM_HANDLE'' '''' '''' (ser_writeObj ''TPM_HANDLE'' (TPM_HANDLE_Serialize (TPM2_NV_DefineSpace_REQUEST_authHandle self))),
      withN ''auth'' ''BYTE[]'' ''authSize'' ''UINT16'' (ser_writeSizedByteBuf (TPM2_NV_DefineSpace_REQUEST_auth self)),
      withN ''publicInfo'' ''TPMS_NV_PUBLIC'' ''publicInfoSize'' ''UINT16'' (ser_writeObj ''TPMS_NV_PUBLIC'' (TPMS_NV_PUBLIC_Serialize (TPM2_NV_DefineSpace_REQUEST_publicInfo self)))]"

definition TPM2_NV_DefineSpace_REQUEST_Deserialize :: "TPM2_NV_DefineSpace_REQUEST \<Rightarrow> TPM2_NV_DefineSpace_REQUEST ser" where
  "TPM2_NV_DefineSpace_REQUEST_Deserialize self =
     sbind (withN ''authHandle'' ''TPM_HANDLE'' '''' '''' (ser_readObj ''TPM_HANDLE'' (TPM_HANDLE_Deserialize (TPM2_NV_DefineSpace_REQUEST_authHandle self)))) (\<lambda>authHandle.
     sbind (withN ''auth'' ''BYTE[]'' ''authSize'' ''UINT16'' ser_readSizedByteBuf) (\<lambda>auth.
     sbind (withN ''publicInfo'' ''TPMS_NV_PUBLIC'' ''publicInfoSize'' ''UINT16'' (ser_readObj ''TPMS_NV_PUBLIC'' (TPMS_NV_PUBLIC_Deserialize (TPM2_NV_DefineSpace_REQUEST_publicInfo self)))) (\<lambda>publicInfo.
     ret (self\<lparr>TPM2_NV_DefineSpace_REQUEST_authHandle := authHandle, TPM2_NV_DefineSpace_REQUEST_auth := auth, TPM2_NV_DefineSpace_REQUEST_publicInfo := publicInfo\<rparr>))))"

definition TPM2_NV_DefineSpace_REQUEST_text_ok :: "text_class \<Rightarrow> TPM2_NV_DefineSpace_REQUEST \<Rightarrow> bool" where
  "TPM2_NV_DefineSpace_REQUEST_text_ok c x \<longleftrightarrow>
     TPM_HANDLE_text_ok c (TPM2_NV_DefineSpace_REQUEST_authHandle x) \<and>
     length (TPM2_NV_DefineSpace_REQUEST_auth x) < 2 ^ 64 \<and>
     TPMS_NV_PUBLIC_text_ok c (TPM2_NV_DefineSpace_REQUEST_publicInfo x)"

interpretation TPM2_NV_DefineSpace_REQUEST_text: text_codec "''TPM2_NV_DefineSpace_REQUEST''" TPM2_NV_DefineSpace_REQUEST_Serialize TPM2_NV_DefineSpace_REQUEST_Deserialize TPM2_NV_DefineSpace_REQUEST_default TPM2_NV_DefineSpace_REQUEST_text_ok
proof
  show "word_ok ''TPM2_NV_DefineSpace_REQUEST''" by (simp add: word_simps)
  fix c x assume ok: "TPM2_NV_DefineSpace_REQUEST_text_ok c x"
  from ok show "carries c True (TPM2_NV_DefineSpace_REQUEST_Serialize x) (TPM2_NV_DefineSpace_REQUEST_Deserialize TPM2_NV_DefineSpace_REQUEST_default) x"
    by (simp only: TPM2_NV_DefineSpace_REQUEST_Serialize_def TPM2_NV_DefineSpace_REQUEST_Deserialize_def TPM2_NV_DefineSpace_REQUEST_default_def
       TPM2_NV_DefineSpace_REQUEST.select_convs TPM2_NV_DefineSpace_REQUEST.update_convs;
      intro TPMS_NV_PUBLIC_text.as_entry [THEN carries_entry_Cons] TPM_HANDLE_text.as_entry [THEN carries_entry_Cons] carries_body;
      (rule TPM2_NV_DefineSpace_REQUEST.equality)?; simp add: TPM2_NV_DefineSpace_REQUEST_text_ok_def word_simps)
qed

subsection \<open>TPM2_NV_UndefineSpace_REQUEST\<close>

definition TPM2_NV_UndefineSpace_REQUEST_Serialize :: "TPM2_NV_UndefineSpace_REQUEST \<Rightarrow> unit ser" where
  "TPM2_NV_UndefineSpace_REQUEST_Serialize self = wseq
     [withN ''authHandle'' ''TPM_HANDLE'' '''' '''' (ser_writeObj ''TPM_HANDLE'' (TPM_HANDLE_Serialize (TPM2_NV_UndefineSpace_REQUEST_authHandle self))),
      withN ''nvIndex'' ''TPM_HANDLE'' '''' '''' (ser_writeObj ''TPM_HANDLE'' (TPM_HANDLE_Serialize (TPM2_NV_UndefineSpace_REQUEST_nvIndex self)))]"

definition TPM2_NV_UndefineSpace_REQUEST_Deserialize :: "TPM2_NV_UndefineSpace_REQUEST \<Rightarrow> TPM2_NV_UndefineSpace_REQUEST ser" where
  "TPM2_NV_UndefineSpace_REQUEST_Deserialize self =
     sbind (withN ''authHandle'' ''TPM_HANDLE'' '''' '''' (ser_readObj ''TPM_HANDLE'' (TPM_HANDLE_Deserialize (TPM2_NV_UndefineSpace_REQUEST_authHandle self)))) (\<lambda>authHandle.
     sbind (withN ''nvIndex'' ''TPM_HANDLE'' '''' '''' (ser_readObj ''TPM_HANDLE'' (TPM_HANDLE_Deserialize (TPM2_NV_UndefineSpace_REQUEST_nvIndex self)))) (\<lambda>nvIndex.
     ret (self\<lparr>TPM2_NV_UndefineSpace_REQUEST_authHandle := authHandle, TPM2_NV_UndefineSpace_REQUEST_nvIndex := nvIndex\<rparr>)))"

definition TPM2_NV_UndefineSpace_REQUEST_text_ok :: "text_class \<Rightarrow> TPM2_NV_UndefineSpace_REQUEST \<Rightarrow> bool" where
  "TPM2_NV_UndefineSpace_REQUEST_text_ok c x \<longleftrightarrow>
     TPM_HANDLE_text_ok c (TPM2_NV_UndefineSpace_REQUEST_authHandle x) \<and>
     TPM_HANDLE_text_ok c (TPM2_NV_UndefineSpace_REQUEST_nvIndex x)"

interpretation TPM2_NV_UndefineSpace_REQUEST_text: text_codec "''TPM2_NV_UndefineSpace_REQUEST''" TPM2_NV_UndefineSpace_REQUEST_Serialize TPM2_NV_UndefineSpace_REQUEST_Deserialize TPM2_NV_UndefineSpace_REQUEST_default TPM2_NV_UndefineSpace_REQUEST_text_ok
proof
  show "word_ok ''TPM2_NV_UndefineSpace_REQUEST''" by (simp add: word_simps)
  fix c x assume ok: "TPM2_NV_UndefineSpace_REQUEST_text_ok c x"
  from ok show "carries c True (TPM2_NV_UndefineSpace_REQUEST_Serialize x) (TPM2_NV_UndefineSpace_REQUEST_Deserialize TPM2_NV_UndefineSpace_REQUEST_default) x"
    by (simp only: TPM2_NV_UndefineSpace_REQUEST_Serialize_def TPM2_NV_UndefineSpace_REQUEST_Deserialize_def TPM2_NV_UndefineSpace_REQUEST_default_def
       TPM2_NV_UndefineSpace_REQUEST.select_convs TPM2_NV_UndefineSpace_REQUEST.update_convs;
      intro TPM_HANDLE_text.as_entry [THEN carries_entry_Cons] carries_body;
      (rule TPM2_NV_UndefineSpace_REQUEST.equality)?; simp add: TPM2_NV_UndefineSpace_REQUEST_text_ok_def word_simps)
qed

subsection \<open>TPM2_NV_UndefineSpaceSpecial_REQUEST\<close>

definition TPM2_NV_UndefineSpaceSpecial_REQUEST_Serialize :: "TPM2_NV_UndefineSpaceSpecial_REQUEST \<Rightarrow> unit ser" where
  "TPM2_NV_UndefineSpaceSpecial_REQUEST_Serialize self = wseq
     [withN ''nvIndex'' ''TPM_HANDLE'' '''' '''' (ser_writeObj ''TPM_HANDLE'' (TPM_HANDLE_Serialize (TPM2_NV_UndefineSpaceSpecial_REQUEST_nvIndex self))),
      withN ''platform'' ''TPM_HANDLE'' '''' '''' (ser_writeObj ''TPM_HANDLE'' (TPM_HANDLE_Serialize (TPM2_NV_UndefineSpaceSpecial_REQUEST_platform self)))]"

definition TPM2_NV_UndefineSpaceSpecial_REQUEST_Deserialize :: "TPM2_NV_UndefineSpaceSpecial_REQUEST \<Rightarrow> TPM2_NV_UndefineSpaceSpecial_REQUEST ser" where
  "TPM2_NV_UndefineSpaceSpecial_REQUEST_Deserialize self =
     sbind (withN ''nvIndex'' ''TPM_HANDLE'' '''' '''' (ser_readObj ''TPM_HANDLE'' (TPM_HANDLE_Deserialize (TPM2_NV_UndefineSpaceSpecial_REQUEST_nvIndex self)))) (\<lambda>nvIndex.
     sbind (withN ''platform'' ''TPM_HANDLE'' '''' '''' (ser_readObj ''TPM_HANDLE'' (TPM_HANDLE_Deserialize (TPM2_NV_UndefineSpaceSpecial_REQUEST_platform self)))) (\<lambda>platform.
     ret (self\<lparr>TPM2_NV_UndefineSpaceSpecial_REQUEST_nvIndex := nvIndex, TPM2_NV_UndefineSpaceSpecial_REQUEST_platform := platform\<rparr>)))"

definition TPM2_NV_UndefineSpaceSpecial_REQUEST_text_ok :: "text_class \<Rightarrow> TPM2_NV_UndefineSpaceSpecial_REQUEST \<Rightarrow> bool" where
  "TPM2_NV_UndefineSpaceSpecial_REQUEST_text_ok c x \<longleftrightarrow>
     TPM_HANDLE_text_ok c (TPM2_NV_UndefineSpaceSpecial_REQUEST_nvIndex x) \<and>
     TPM_HANDLE_text_ok c (TPM2_NV_UndefineSpaceSpecial_REQUEST_platform x)"

interpretation TPM2_NV_UndefineSpaceSpecial_REQUEST_text: text_codec "''TPM2_NV_UndefineSpaceSpecial_REQUEST''" TPM2_NV_UndefineSpaceSpecial_REQUEST_Serialize TPM2_NV_UndefineSpaceSpecial_REQUEST_Deserialize TPM2_NV_UndefineSpaceSpecial_REQUEST_default TPM2_NV_UndefineSpaceSpecial_REQUEST_text_ok
proof
  show "word_ok ''TPM2_NV_UndefineSpaceSpecial_REQUEST''" by (simp add: word_simps)
  fix c x assume ok: "TPM2_NV_UndefineSpaceSpecial_REQUEST_text_ok c x"
  from ok show "carries c True (TPM2_NV_UndefineSpaceSpecial_REQUEST_Serialize x) (TPM2_NV_UndefineSpaceSpecial_REQUEST_Deserialize TPM2_NV_UndefineSpaceSpecial_REQUEST_default) x"
    by (simp only: TPM2_NV_UndefineSpaceSpecial_REQUEST_Serialize_def TPM2_NV_UndefineSpaceSpecial_REQUEST_Deserialize_def TPM2_NV_UndefineSpaceSpecial_REQUEST_default_def
       TPM2_NV_UndefineSpaceSpecial_REQUEST.select_convs TPM2_NV_UndefineSpaceSpecial_REQUEST.update_convs;
      intro TPM_HANDLE_text.as_entry [THEN carries_entry_Cons] carries_body;
      (rule TPM2_NV_UndefineSpaceSpecial_REQUEST.equality)?; simp add: TPM2_NV_UndefineSpaceSpecial_REQUEST_text_ok_def word_simps)
qed

subsection \<open>TPM2_NV_ReadPublic_REQUEST\<close>

definition TPM2_NV_ReadPublic_REQUEST_Serialize :: "TPM2_NV_ReadPublic_REQUEST \<Rightarrow> unit ser" where
  "TPM2_NV_ReadPublic_REQUEST_Serialize self = wseq
     [withN ''nvIndex'' ''TPM_HANDLE'' '''' '''' (ser_writeObj ''TPM_HANDLE'' (TPM_HANDLE_Serialize (TPM2_NV_ReadPublic_REQUEST_nvIndex self)))]"

definition TPM2_NV_ReadPublic_REQUEST_Deserialize :: "TPM2_NV_ReadPublic_REQUEST \<Rightarrow> TPM2_NV_ReadPublic_REQUEST ser" where
  "TPM2_NV_ReadPublic_REQUEST_Deserialize self =
     sbind (withN ''nvIndex'' ''TPM_HANDLE'' '''' '''' (ser_readObj ''TPM_HANDLE'' (TPM_HANDLE_Deserialize (TPM2_NV_ReadPublic_REQUEST_nvIndex self)))) (\<lambda>nvIndex.
     ret (self\<lparr>TPM2_NV_ReadPublic_REQUEST_nvIndex := nvIndex\<rparr>))"

definition TPM2_NV_ReadPublic_REQUEST_text_ok :: "text_class \<Rightarrow> TPM2_NV_ReadPublic_REQUEST \<Rightarrow> bool" where
  "TPM2_NV_ReadPublic_REQUEST_text_ok c x \<longleftrightarrow>
     TPM_HANDLE_text_ok c (TPM2_NV_ReadPublic_REQUEST_nvIndex x)"

interpretation TPM2_NV_ReadPublic_REQUEST_text: text_codec "''TPM2_NV_ReadPublic_REQUEST''" TPM2_NV_ReadPublic_REQUEST_Serialize TPM2_NV_ReadPublic_REQUEST_Deserialize TPM2_NV_ReadPublic_REQUEST_default TPM2_NV_ReadPublic_REQUEST_text_ok
proof
  show "word_ok ''TPM2_NV_ReadPublic_REQUEST''" by (simp add: word_simps)
  fix c x assume ok: "TPM2_NV_ReadPublic_REQUEST_text_ok c x"
  from ok show "carries c True (TPM2_NV_ReadPublic_REQUEST_Serialize x) (TPM2_NV_ReadPublic_REQUEST_Deserialize TPM2_NV_ReadPublic_REQUEST_default) x"
    by (simp only: TPM2_NV_ReadPublic_REQUEST_Serialize_def TPM2_NV_ReadPublic_REQUEST_Deserialize_def TPM2_NV_ReadPublic_REQUEST_default_def
       TPM2_NV_ReadPublic_REQUEST.select_convs TPM2_NV_ReadPublic_REQUEST.update_convs;
      intro TPM_HANDLE_text.as_entry [THEN carries_entry_Cons] carries_body;
      (rule TPM2_NV_ReadPublic_REQUEST.equality)?; simp add: TPM2_NV_ReadPublic_REQUEST_text_ok_def word_simps)
qed

subsection \<open>NV_ReadPublicResponse\<close>

definition NV_ReadPublicResponse_Serialize :: "NV_ReadPublicResponse \<Rightarrow> unit ser" where
  "NV_ReadPublicResponse_Serialize self = wseq
     [withN ''nvPublic'' ''TPMS_NV_PUBLIC'' ''nvPublicSize'' ''UINT16'' (ser_writeObj ''TPMS_NV_PUBLIC'' (TPMS_NV_PUBLIC_Serialize (NV_ReadPublicResponse_nvPublic self))),
      withN ''nvName'' ''BYTE[]'' ''nvNameSize'' ''UINT16'' (ser_writeSizedByteBuf (NV_ReadPublicResponse_nvName self))]"

definition NV_ReadPublicResponse_Deserialize :: "NV_ReadPublicResponse \<Rightarrow> NV_ReadPublicResponse ser" where
  "NV_ReadPublicResponse_Deserialize self =
     sbind (withN ''nvPublic'' ''TPMS_NV_PUBLIC'' ''nvPublicSize'' ''UINT16'' (ser_readObj ''TPMS_NV_PUBLIC'' (TPMS_NV_PUBLIC_Deserialize (NV_ReadPublicResponse_nvPublic self)))) (\<lambda>nvPublic.
     sbind (withN ''nvName'' ''BYTE[]'' ''nvNameSize'' ''UINT16'' ser_readSizedByteBuf) (\<lambda>nvName.
     ret (self\<lparr>NV_ReadPublicResponse_nvPublic := nvPublic, NV_ReadPublicResponse_nvName := nvName\<rparr>)))"

definition NV_ReadPublicResponse_text_ok :: "text_class \<Rightarrow> NV_ReadPublicResponse \<Rightarrow> bool" where
  "NV_ReadPublicResponse_text_ok c x \<longleftrightarrow>
     TPMS_NV_PUBLIC_text_ok c (NV_ReadPublicResponse_nvPublic x) \<and>
     length (NV_ReadPublicResponse_nvName x) < 2 ^ 64"

interpretation NV_ReadPublicResponse_text: text_codec "''NV_ReadPublicResponse''" NV_ReadPublicResponse_Serialize NV_ReadPublicResponse_Deserialize NV_ReadPublicResponse_default NV_ReadPublicResponse_text_ok
proof
  show "word_ok ''NV_ReadPublicResponse''" by (simp add: word_simps)
  fix c x assume ok: "NV_ReadPublicResponse_text_ok c x"
  from ok show "carries c True (NV_ReadPublicResponse_Serialize x) (NV_ReadPublicResponse_Deserialize NV_ReadPublicResponse_default) x"
    by (simp only: NV_ReadPublicResponse_Serialize_def NV_ReadPublicResponse_Deserialize_def NV_ReadPublicResponse_default_def
       NV_ReadPublicResponse.select_convs NV_ReadPublicResponse.update_convs;
      intro TPMS_NV_PUBLIC_text.as_entry [THEN carries_entry_Cons] carries_body;
      (rule NV_ReadPublicResponse.equality)?; simp add: NV_ReadPublicResponse_text_ok_def word_simps)
qed

subsection \<open>TPM2_NV_Write_REQUEST\<close>

definition TPM2_NV_Write_REQUEST_Serialize :: "TPM2_NV_Write_REQUEST \<Rightarrow> unit ser" where
  "TPM2_NV_Write_REQUEST_Serialize self = wseq
     [withN ''authHandle'' ''TPM_HANDLE'' '''' '''' (ser_writeObj ''TPM_HANDLE'' (TPM_HANDLE_Serialize (TPM2_NV_Write_REQUEST_authHandle self))),
      withN ''nvIndex'' ''TPM_HANDLE'' '''' '''' (ser_writeObj ''TPM_HANDLE'' (TPM_HANDLE_Serialize (TPM2_NV_Write_REQUEST_nvIndex self))),
      withN ''data'' ''BYTE[]'' ''dataSize'' ''UINT16'' (ser_writeSizedByteBuf (TPM2_NV_Write_REQUEST_data self)),
      withN ''offset'' ''UINT16'' '''' '''' (ser_writeShort (TPM2_NV_Write_REQUEST_offset self))]"

definition TPM2_NV_Write_REQUEST_Deserialize :: "TPM2_NV_Write_REQUEST \<Rightarrow> TPM2_NV_Write_REQUEST ser" where
  "TPM2_NV_Write_REQUEST_Deserialize self =
     sbind (withN ''authHandle'' ''TPM_HANDLE'' '''' '''' (ser_readObj ''TPM_HANDLE'' (TPM_HANDLE_Deserialize (TPM2_NV_Write_REQUEST_authHandle self)))) (\<lambda>authHandle.
     sbind (withN ''nvIndex'' ''TPM_HANDLE'' '''' '''' (ser_readObj ''TPM_HANDLE'' (TPM_HANDLE_Deserialize (TPM2_NV_Write_REQUEST_nvIndex self)))) (\<lambda>nvIndex.
     sbind (withN ''data'' ''BYTE[]'' ''dataSize'' ''UINT16'' ser_readSizedByteBuf) (\<lambda>data.
     sbind (withN ''offset'' ''UINT16'' '''' '''' ser_readShort) (\<lambda>offset.
     ret (self\<lparr>TPM2_NV_Write_REQUEST_authHandle := authHandle, TPM2_NV_Write_REQUEST_nvIndex := nvIndex, TPM2_NV_Write_REQUEST_data := data, TPM2_NV_Write_REQUEST_offset := offset\<rparr>)))))"

definition TPM2_NV_Write_REQUEST_text_ok :: "text_class \<Rightarrow> TPM2_NV_Write_REQUEST \<Rightarrow> bool" where
  "TPM2_NV_Write_REQUEST_text_ok c x \<longleftrightarrow>
     TPM_HANDLE_text_ok c (TPM2_NV_Write_REQUEST_authHandle x) \<and>
     TPM_HANDLE_text_ok c (TPM2_NV_Write_REQUEST_nvIndex x) \<and>
     length (TPM2_NV_Write_REQUEST_data x) < 2 ^ 64"

interpretation TPM2_NV_Write_REQUEST_text: text_codec "''TPM2_NV_Write_REQUEST''" TPM2_NV_Write_REQUEST_Serialize TPM2_NV_Write_REQUEST_Deserialize TPM2_NV_Write_REQUEST_default TPM2_NV_Write_REQUEST_text_ok
proof
  show "word_ok ''TPM2_NV_Write_REQUEST''" by (simp add: word_simps)
  fix c x assume ok: "TPM2_NV_Write_REQUEST_text_ok c x"
  from ok show "carries c True (TPM2_NV_Write_REQUEST_Serialize x) (TPM2_NV_Write_REQUEST_Deserialize TPM2_NV_Write_REQUEST_default) x"
    by (simp only: TPM2_NV_Write_REQUEST_Serialize_def TPM2_NV_Write_REQUEST_Deserialize_def TPM2_NV_Write_REQUEST_default_def
       TPM2_NV_Write_REQUEST.select_convs TPM2_NV_Write_REQUEST.update_convs;
      intro TPM_HANDLE_text.as_entry [THEN carries_entry_Cons] carries_body;
      (rule TPM2_NV_Write_REQUEST.equality)?; simp add: TPM2_NV_Write_REQUEST_text_ok_def word_simps)
qed

subsection \<open>TPM2_NV_Increment_REQUEST\<close>

definition TPM2_NV_Increment_REQUEST_Serialize :: "TPM2_NV_Increment_REQUEST \<Rightarrow> unit ser" where
  "TPM2_NV_Increment_REQUEST_Serialize self = wseq
     [withN ''authHandle'' ''TPM_HANDLE'' '''' '''' (ser_writeObj ''TPM_HANDLE'' (TPM_HANDLE_Serialize (TPM2_NV_Increment_REQUEST_authHandle self))),
      withN ''nvIndex'' ''TPM_HANDLE'' '''' '''' (ser_writeObj ''TPM_HANDLE'' (TPM_HANDLE_Serialize (TPM2_NV_Increment_REQUEST_nvIndex self)))]"

definition TPM2_NV_Increment_REQUEST_Deserialize :: "TPM2_NV_Increment_REQUEST \<Rightarrow> TPM2_NV_Increment_REQUEST ser" where
  "TPM2_NV_Increment_REQUEST_Deserialize self =
     sbind (withN ''authHandle'' ''TPM_HANDLE'' '''' '''' (ser_readObj ''TPM_HANDLE'' (TPM_HANDLE_Deserialize (TPM2_NV_Increment_REQUEST_authHandle self)))) (\<lambda>authHandle.
     sbind (withN ''nvIndex'' ''TPM_HANDLE'' '''' '''' (ser_readObj ''TPM_HANDLE'' (TPM_HANDLE_Deserialize (TPM2_NV_Increment_REQUEST_nvIndex self)))) (\<lambda>nvIndex.
     ret (self\<lparr>TPM2_NV_Increment_REQUEST_authHandle := authHandle, TPM2_NV_Increment_REQUEST_nvIndex := nvIndex\<rparr>)))"

definition TPM2_NV_Increment_REQUEST_text_ok :: "text_class \<Rightarrow> TPM2_NV_Increment_REQUEST \<Rightarrow> bool" where
  "TPM2_NV_Increment_REQUEST_text_ok c x \<longleftrightarrow>
     TPM_HANDLE_text_ok c (TPM2_NV_Increment_REQUEST_authHandle x) \<and>
     TPM_HANDLE_text_ok c (TPM2_NV_Increment_REQUEST_nvIndex x)"

interpretation TPM2_NV_Increment_REQUEST_text: text_codec "''TPM2_NV_Increment_REQUEST''" TPM2_NV_Increment_REQUEST_Serialize TPM2_NV_Increment_REQUEST_Deserialize TPM2_NV_Increment_REQUEST_default TPM2_NV_Increment_REQUEST_text_ok
proof
  show "word_ok ''TPM2_NV_Increment_REQUEST''" by (simp add: word_simps)
  fix c x assume ok: "TPM2_NV_Increment_REQUEST_text_ok c x"
  from ok show "carries c True (TPM2_NV_Increment_REQUEST_Serialize x) (TPM2_NV_Increment_REQUEST_Deserialize TPM2_NV_Increment_REQUEST_default) x"
    by (simp only: TPM2_NV_Increment_REQUEST_Serialize_def TPM2_NV_Increment_REQUEST_Deserialize_def TPM2_NV_Increment_REQUEST_default_def
       TPM2_NV_Increment_REQUEST.select_convs TPM2_NV_Increment_REQUEST.update_convs;
      intro TPM_HANDLE_text.as_entry [THEN carries_entry_Cons] carries_body;
      (rule TPM2_NV_Increment_REQUEST.equality)?; simp add: TPM2_NV_Increment_REQUEST_text_ok_def word_simps)
qed

subsection \<open>TPM2_NV_Extend_REQUEST\<close>

definition TPM2_NV_Extend_REQUEST_Serialize :: "TPM2_NV_Extend_REQUEST \<Rightarrow> unit ser" where
  "TPM2_NV_Extend_REQUEST_Serialize self = wseq
     [withN ''authHandle'' ''TPM_HANDLE'' '''' '''' (ser_writeObj ''TPM_HANDLE'' (TPM_HANDLE_Serialize (TPM2_NV_Extend_REQUEST_authHandle self))),
      withN ''nvIndex'' ''TPM_HANDLE'' '''' '''' (ser_writeObj ''TPM_HANDLE'' (TPM_HANDLE_Serialize (TPM2_NV_Extend_REQUEST_nvIndex self))),
      withN ''data'' ''BYTE[]'' ''dataSize'' ''UINT16'' (ser_writeSizedByteBuf (TPM2_NV_Extend_REQUEST_data self))]"

definition TPM2_NV_Extend_REQUEST_Deserialize :: "TPM2_NV_Extend_REQUEST \<Rightarrow> TPM2_NV_Extend_REQUEST ser" where
  "TPM2_NV_Extend_REQUEST_Deserialize self =
     sbind (withN ''authHandle'' ''TPM_HANDLE'' '''' '''' (ser_readObj ''TPM_HANDLE'' (TPM_HANDLE_Deserialize (TPM2_NV_Extend_REQUEST_authHandle self)))) (\<lambda>authHandle.
     sbind (withN ''nvIndex'' ''TPM_HANDLE'' '''' '''' (ser_readObj ''TPM_HANDLE'' (TPM_HANDLE_Deserialize (TPM2_NV_Extend_REQUEST_nvIndex self)))) (\<lambda>nvIndex.
     sbind (withN ''data'' ''BYTE[]'' ''dataSize'' ''UINT16'' ser_readSizedByteBuf) (\<lambda>data.
     ret (self\<lparr>TPM2_NV_Extend_REQUEST_authHandle := authHandle, TPM2_NV_Extend_REQUEST_nvIndex := nvIndex, TPM2_NV_Extend_REQUEST_data := data\<rparr>))))"

definition TPM2_NV_Extend_REQUEST_text_ok :: "text_class \<Rightarrow> TPM2_NV_Extend_REQUEST \<Rightarrow> bool" where
  "TPM2_NV_Extend_REQUEST_text_ok c x \<longleftrightarrow>
     TPM_HANDLE_text_ok c (TPM2_NV_Extend_REQUEST_authHandle x) \<and>
     TPM_HANDLE_text_ok c (TPM2_NV_Extend_REQUEST_nvIndex x) \<and>
     length (TPM2_NV_Extend_REQUEST_data x) < 2 ^ 64"

interpretation TPM2_NV_Extend_REQUEST_text: text_codec "''TPM2_NV_Extend_REQUEST''" TPM2_NV_Extend_REQUEST_Serialize TPM2_NV_Extend_REQUEST_Deserialize TPM2_NV_Extend_REQUEST_default TPM2_NV_Extend_REQUEST_text_ok
proof
  show "word_ok ''TPM2_NV_Extend_REQUEST''" by (simp add: word_simps)
  fix c x assume ok: "TPM2_NV_Extend_REQUEST_text_ok c x"
  from ok show "carries c True (TPM2_NV_Extend_REQUEST_Serialize x) (TPM2_NV_Extend_REQUEST_Deserialize TPM2_NV_Extend_REQUEST_default) x"
    by (simp only: TPM2_NV_Extend_REQUEST_Serialize_def TPM2_NV_Extend_REQUEST_Deserialize_def TPM2_NV_Extend_REQUEST_default_def
       TPM2_NV_Extend_REQUEST.select_convs TPM2_NV_Extend_REQUEST.update_convs;
      intro TPM_HANDLE_text.as_entry [THEN carries_entry_Cons] carries_body;
      (rule TPM2_NV_Extend_REQUEST.equality)?; simp add: TPM2_NV_Extend_REQUEST_text_ok_def word_simps)
qed

subsection \<open>TPM2_NV_SetBits_REQUEST\<close>

definition TPM2_NV_SetBits_REQUEST_Serialize :: "TPM2_NV_SetBits_REQUEST \<Rightarrow> unit ser" where
  "TPM2_NV_SetBits_REQUEST_Serialize self = wseq
     [withN ''authHandle'' ''TPM_HANDLE'' '''' '''' (ser_writeObj ''TPM_HANDLE'' (TPM_HANDLE_Serialize (TPM2_NV_SetBits_REQUEST_authHandle self))),
      withN ''nvIndex'' ''TPM_HANDLE'' '''' '''' (ser_writeObj ''TPM_HANDLE'' (TPM_HANDLE_Serialize (TPM2_NV_SetBits_REQUEST_nvIndex self))),
      withN ''bits'' ''UINT64'' '''' '''' (ser_writeInt64 (TPM2_NV_SetBits_REQUEST_bits self))]"

definition TPM2_NV_SetBits_REQUEST_Deserialize :: "TPM2_NV_SetBits_REQUEST \<Rightarrow> TPM2_NV_SetBits_REQUEST ser" where
  "TPM2_NV_SetBits_REQUEST_Deserialize self =
     sbind (withN ''authHandle'' ''TPM_HANDLE'' '''' '''' (ser_readObj ''TPM_HANDLE'' (TPM_HANDLE_Deserialize (TPM2_NV_SetBits_REQUEST_authHandle self)))) (\<lambda>authHandle.
     sbind (withN ''nvIndex'' ''TPM_HANDLE'' '''' '''' (ser_readObj ''TPM_HANDLE'' (TPM_HANDLE_Deserialize (TPM2_NV_SetBits_REQUEST_nvIndex self)))) (\<lambda>nvIndex.
     sbind (withN ''bits'' ''UINT64'' '''' '''' ser_readInt64) (\<lambda>bits.
     ret (self\<lparr>TPM2_NV_SetBits_REQUEST_authHandle := authHandle, TPM2_NV_SetBits_REQUEST_nvIndex := nvIndex, TPM2_NV_SetBits_REQUEST_bits := bits\<rparr>))))"

definition TPM2_NV_SetBits_REQUEST_text_ok :: "text_class \<Rightarrow> TPM2_NV_SetBits_REQUEST \<Rightarrow> bool" where
  "TPM2_NV_SetBits_REQUEST_text_ok c x \<longleftrightarrow>
     TPM_HANDLE_text_ok c (TPM2_NV_SetBits_REQUEST_authHandle x) \<and>
     TPM_HANDLE_text_ok c (TPM2_NV_SetBits_REQUEST_nvIndex x)"

interpretation TPM2_NV_SetBits_REQUEST_text: text_codec "''TPM2_NV_SetBits_REQUEST''" TPM2_NV_SetBits_REQUEST_Serialize TPM2_NV_SetBits_REQUEST_Deserialize TPM2_NV_SetBits_REQUEST_default TPM2_NV_SetBits_REQUEST_text_ok
proof
  show "word_ok ''TPM2_NV_SetBits_REQUEST''" by (simp add: word_simps)
  fix c x assume ok: "TPM2_NV_SetBits_REQUEST_text_ok c x"
  from ok show "carries c True (TPM2_NV_SetBits_REQUEST_Serialize x) (TPM2_NV_SetBits_REQUEST_Deserialize TPM2_NV_SetBits_REQUEST_default) x"
    by (simp only: TPM2_NV_SetBits_REQUEST_Serialize_def TPM2_NV_SetBits_REQUEST_Deserialize_def TPM2_NV_SetBits_REQUEST_default_def
       TPM2_NV_SetBits_REQUEST.select_convs TPM2_NV_SetBits_REQUEST.update_convs;
      intro TPM_HANDLE_text.as_entry [THEN carries_entry_Cons] carries_body;
      (rule TPM2_NV_SetBits_REQUEST.equality)?; simp add: TPM2_NV_SetBits_REQUEST_text_ok_def word_simps)
qed

subsection \<open>TPM2_NV_WriteLock_REQUEST\<close>

definition TPM2_NV_WriteLock_REQUEST_Serialize :: "TPM2_NV_WriteLock_REQUEST \<Rightarrow> unit ser" where
  "TPM2_NV_WriteLock_REQUEST_Serialize self = wseq
     [withN ''authHandle'' ''TPM_HANDLE'' '''' '''' (ser_writeObj ''TPM_HANDLE'' (TPM_HANDLE_Serialize (TPM2_NV_WriteLock_REQUEST_authHandle self))),
      withN ''nvIndex'' ''TPM_HANDLE'' '''' '''' (ser_writeObj ''TPM_HANDLE'' (TPM_HANDLE_Serialize (TPM2_NV_WriteLock_REQUEST_nvIndex self)))]"

definition TPM2_NV_WriteLock_REQUEST_Deserialize :: "TPM2_NV_WriteLock_REQUEST \<Rightarrow> TPM2_NV_WriteLock_REQUEST ser" where
  "TPM2_NV_WriteLock_REQUEST_Deserialize self =
     sbind (withN ''authHandle'' ''TPM_HANDLE'' '''' '''' (ser_readObj ''TPM_HANDLE'' (TPM_HANDLE_Deserialize (TPM2_NV_WriteLock_REQUEST_authHandle self)))) (\<lambda>authHandle.
     sbind (withN ''nvIndex'' ''TPM_HANDLE'' '''' '''' (ser_readObj ''TPM_HANDLE'' (TPM_HANDLE_Deserialize (TPM2_NV_WriteLock_REQUEST_nvIndex self)))) (\<lambda>nvIndex.
     ret (self\<lparr>TPM2_NV_WriteLock_REQUEST_authHandle := authHandle, TPM2_NV_WriteLock_REQUEST_nvIndex := nvIndex\<rparr>)))"

definition TPM2_NV_WriteLock_REQUEST_text_ok :: "text_class \<Rightarrow> TPM2_NV_WriteLock_REQUEST \<Rightarrow> bool" where
  "TPM2_NV_WriteLock_REQUEST_text_ok c x \<longleftrightarrow>
     TPM_HANDLE_text_ok c (TPM2_NV_WriteLock_REQUEST_authHandle x) \<and>
     TPM_HANDLE_text_ok c (TPM2_NV_WriteLock_REQUEST_nvIndex x)"

interpretation TPM2_NV_WriteLock_REQUEST_text: text_codec "''TPM2_NV_WriteLock_REQUEST''" TPM2_NV_WriteLock_REQUEST_Serialize TPM2_NV_WriteLock_REQUEST_Deserialize TPM2_NV_WriteLock_REQUEST_default TPM2_NV_WriteLock_REQUEST_text_ok
proof
  show "word_ok ''TPM2_NV_WriteLock_REQUEST''" by (simp add: word_simps)
  fix c x assume ok: "TPM2_NV_WriteLock_REQUEST_text_ok c x"
  from ok show "carries c True (TPM2_NV_WriteLock_REQUEST_Serialize x) (TPM2_NV_WriteLock_REQUEST_Deserialize TPM2_NV_WriteLock_REQUEST_default) x"
    by (simp only: TPM2_NV_WriteLock_REQUEST_Serialize_def TPM2_NV_WriteLock_REQUEST_Deserialize_def TPM2_NV_WriteLock_REQUEST_default_def
       TPM2_NV_WriteLock_REQUEST.select_convs TPM2_NV_WriteLock_REQUEST.update_convs;
      intro TPM_HANDLE_text.as_entry [THEN carries_entry_Cons] carries_body;
      (rule TPM2_NV_WriteLock_REQUEST.equality)?; simp add: TPM2_NV_WriteLock_REQUEST_text_ok_def word_simps)
qed

subsection \<open>TPM2_NV_GlobalWriteLock_REQUEST\<close>

definition TPM2_NV_GlobalWriteLock_REQUEST_Serialize :: "TPM2_NV_GlobalWriteLock_REQUEST \<Rightarrow> unit ser" where
  "TPM2_NV_GlobalWriteLock_REQUEST_Serialize self = wseq
     [withN ''authHandle'' ''TPM_HANDLE'' '''' '''' (ser_writeObj ''TPM_HANDLE'' (TPM_HANDLE_Serialize (TPM2_NV_GlobalWriteLock_REQUEST_authHandle self)))]"

definition TPM2_NV_GlobalWriteLock_REQUEST_Deserialize :: "TPM2_NV_GlobalWriteLock_REQUEST \<Rightarrow> TPM2_NV_GlobalWriteLock_REQUEST ser" where
  "TPM2_NV_GlobalWriteLock_REQUEST_Deserialize self =
     sbind (withN ''authHandle'' ''TPM_HANDLE'' '''' '''' (ser_readObj ''TPM_HANDLE'' (TPM_HANDLE_Deserialize (TPM2_NV_GlobalWriteLock_REQUEST_authHandle self)))) (\<lambda>authHandle.
     ret (self\<lparr>TPM2_NV_GlobalWriteLock_REQUEST_authHandle := authHandle\<rparr>))"

definition TPM2_NV_GlobalWriteLock_REQUEST_text_ok :: "text_class \<Rightarrow> TPM2_NV_GlobalWriteLock_REQUEST \<Rightarrow> bool" where
  "TPM2_NV_GlobalWriteLock_REQUEST_text_ok c x \<longleftrightarrow>
     TPM_HANDLE_text_ok c (TPM2_NV_GlobalWriteLock_REQUEST_authHandle x)"

interpretation TPM2_NV_GlobalWriteLock_REQUEST_text: text_codec "''TPM2_NV_GlobalWriteLock_REQUEST''" TPM2_NV_GlobalWriteLock_REQUEST_Serialize TPM2_NV_GlobalWriteLock_REQUEST_Deserialize TPM2_NV_GlobalWriteLock_REQUEST_default TPM2_NV_GlobalWriteLock_REQUEST_text_ok
proof
  show "word_ok ''TPM2_NV_GlobalWriteLock_REQUEST''" by (simp add: word_simps)
  fix c x assume ok: "TPM2_NV_GlobalWriteLock_REQUEST_text_ok c x"
  from ok show "carries c True (TPM2_NV_GlobalWriteLock_REQUEST_Serialize x) (TPM2_NV_GlobalWriteLock_REQUEST_Deserialize TPM2_NV_GlobalWriteLock_REQUEST_default) x"
    by (simp only: TPM2_NV_GlobalWriteLock_REQUEST_Serialize_def TPM2_NV_GlobalWriteLock_REQUEST_Deserialize_def TPM2_NV_GlobalWriteLock_REQUEST_default_def
       TPM2_NV_GlobalWriteLock_REQUEST.select_convs TPM2_NV_GlobalWriteLock_REQUEST.update_convs;
      intro TPM_HANDLE_text.as_entry [THEN carries_entry_Cons] carries_body;
      (rule TPM2_NV_GlobalWriteLock_REQUEST.equality)?; simp add: TPM2_NV_GlobalWriteLock_REQUEST_text_ok_def word_simps)
qed

subsection \<open>TPM2_NV_Read_REQUEST\<close>

definition TPM2_NV_Read_REQUEST_Serialize :: "TPM2_NV_Read_REQUEST \<Rightarrow> unit ser" where
  "TPM2_NV_Read_REQUEST_Serialize self = wseq
     [withN ''authHandle'' ''TPM_HANDLE'' '''' '''' (ser_writeObj ''TPM_HANDLE'' (TPM_HANDLE_Serialize (TPM2_NV_Read_REQUEST_authHandle self))),
      withN ''nvIndex'' ''TPM_HANDLE'' '''' '''' (ser_writeObj ''TPM_HANDLE'' (TPM_HANDLE_Serialize (TPM2_NV_Read_REQUEST_nvIndex self))),
      withN ''size'' ''UINT16'' '''' '''' (ser_writeShort (TPM2_NV_Read_REQUEST_size self)),
      withN ''offset'' ''UINT16'' '''' '''' (ser_writeShort (TPM2_NV_Read_REQUEST_offset self))]"

definition TPM2_NV_Read_REQUEST_Deserialize :: "TPM2_NV_Read_REQUEST \<Rightarrow> TPM2_NV_Read_REQUEST ser" where
  "TPM2_NV_Read_REQUEST_Deserialize self =
     sbind (withN ''authHandle'' ''TPM_HANDLE'' '''' '''' (ser_readObj ''TPM_HANDLE'' (TPM_HANDLE_Deserialize (TPM2_NV_Read_REQUEST_authHandle self)))) (\<lambda>authHandle.
     sbind (withN ''nvIndex'' ''TPM_HANDLE'' '''' '''' (ser_readObj ''TPM_HANDLE'' (TPM_HANDLE_Deserialize (TPM2_NV_Read_REQUEST_nvIndex self)))) (\<lambda>nvIndex.
     sbind (withN ''size'' ''UINT16'' '''' '''' ser_readShort) (\<lambda>size.
     sbind (withN ''offset'' ''UINT16'' '''' '''' ser_readShort) (\<lambda>offset.
     ret (self\<lparr>TPM2_NV_Read_REQUEST_authHandle := authHandle, TPM2_NV_Read_REQUEST_nvIndex := nvIndex, TPM2_NV_Read_REQUEST_size := size, TPM2_NV_Read_REQUEST_offset := offset\<rparr>)))))"

definition TPM2_NV_Read_REQUEST_text_ok :: "text_class \<Rightarrow> TPM2_NV_Read_REQUEST \<Rightarrow> bool" where
  "TPM2_NV_Read_REQUEST_text_ok c x \<longleftrightarrow>
     TPM_HANDLE_text_ok c (TPM2_NV_Read_REQUEST_authHandle x) \<and>
     TPM_HANDLE_text_ok c (TPM2_NV_Read_REQUEST_nvIndex x)"

interpretation TPM2_NV_Read_REQUEST_text: text_codec "''TPM2_NV_Read_REQUEST''" TPM2_NV_Read_REQUEST_Serialize TPM2_NV_Read_REQUEST_Deserialize TPM2_NV_Read_REQUEST_default TPM2_NV_Read_REQUEST_text_ok
proof
  show "word_ok ''TPM2_NV_Read_REQUEST''" by (simp add: word_simps)
  fix c x assume ok: "TPM2_NV_Read_REQUEST_text_ok c x"
  from ok show "carries c True (TPM2_NV_Read_REQUEST_Serialize x) (TPM2_NV_Read_REQUEST_Deserialize TPM2_NV_Read_REQUEST_default) x"
    by (simp only: TPM2_NV_Read_REQUEST_Serialize_def TPM2_NV_Read_REQUEST_Deserialize_def TPM2_NV_Read_REQUEST_default_def
       TPM2_NV_Read_REQUEST.select_convs TPM2_NV_Read_REQUEST.update_convs;
      intro TPM_HANDLE_text.as_entry [THEN carries_entry_Cons] carries_body;
      (rule TPM2_NV_Read_REQUEST.equality)?; simp add: TPM2_NV_Read_REQUEST_text_ok_def word_simps)
qed

subsection \<open>NV_ReadResponse\<close>

definition NV_ReadResponse_Serialize :: "NV_ReadResponse \<Rightarrow> unit ser" where
  "NV_ReadResponse_Serialize self = wseq
     [withN ''data'' ''BYTE[]'' ''dataSize'' ''UINT16'' (ser_writeSizedByteBuf (NV_ReadResponse_data self))]"

definition NV_ReadResponse_Deserialize :: "NV_ReadResponse \<Rightarrow> NV_ReadResponse ser" where
  "NV_ReadResponse_Deserialize self =
     sbind (withN ''data'' ''BYTE[]'' ''dataSize'' ''UINT16'' ser_readSizedByteBuf) (\<lambda>data.
     ret (self\<lparr>NV_ReadResponse_data := data\<rparr>))"

definition NV_ReadResponse_text_ok :: "text_class \<Rightarrow> NV_ReadResponse \<Rightarrow> bool" where
  "NV_ReadResponse_text_ok c x \<longleftrightarrow>
     length (NV_ReadResponse_data x) < 2 ^ 64"

interpretation NV_ReadResponse_text: text_codec "''NV_ReadResponse''" NV_ReadResponse_Serialize NV_ReadResponse_Deserialize NV_ReadResponse_default NV_ReadResponse_text_ok
proof
  show "word_ok ''NV_ReadResponse''" by (simp add: word_simps)
  fix c x assume ok: "NV_ReadResponse_text_ok c x"
  from ok show "carries c True (NV_ReadResponse_Serialize x) (NV_ReadResponse_Deserialize NV_ReadResponse_default) x"
    by (simp only: NV_ReadResponse_Serialize_def NV_ReadResponse_Deserialize_def NV_ReadResponse_default_def
       NV_ReadResponse.select_convs NV_ReadResponse.update_convs;
      intro carries_body;
      (rule NV_ReadResponse.equality)?; simp add: NV_ReadResponse_text_ok_def word_simps)
qed

subsection \<open>TPM2_NV_ReadLock_REQUEST\<close>

definition TPM2_NV_ReadLock_REQUEST_Serialize :: "TPM2_NV_ReadLock_REQUEST \<Rightarrow> unit ser" where
  "TPM2_NV_ReadLock_REQUEST_Serialize self = wseq
     [withN ''authHandle'' ''TPM_HANDLE'' '''' '''' (ser_writeObj ''TPM_HANDLE'' (TPM_HANDLE_Serialize (TPM2_NV_ReadLock_REQUEST_authHandle self))),
      withN ''nvIndex'' ''TPM_HANDLE'' '''' '''' (ser_writeObj ''TPM_HANDLE'' (TPM_HANDLE_Serialize (TPM2_NV_ReadLock_REQUEST_nvIndex self)))]"

definition TPM2_NV_ReadLock_REQUEST_Deserialize :: "TPM2_NV_ReadLock_REQUEST \<Rightarrow> TPM2_NV_ReadLock_REQUEST ser" where
  "TPM2_NV_ReadLock_REQUEST_Deserialize self =
     sbind (withN ''authHandle'' ''TPM_HANDLE'' '''' '''' (ser_readObj ''TPM_HANDLE'' (TPM_HANDLE_Deserialize (TPM2_NV_ReadLock_REQUEST_authHandle self)))) (\<lambda>authHandle.
     sbind (withN ''nvIndex'' ''TPM_HANDLE'' '''' '''' (ser_readObj ''TPM_HANDLE'' (TPM_HANDLE_Deserialize (TPM2_NV_ReadLock_REQUEST_nvIndex self)))) (\<lambda>nvIndex.
     ret (self\<lparr>TPM2_NV_ReadLock_REQUEST_authHandle := authHandle, TPM2_NV_ReadLock_REQUEST_nvIndex := nvIndex\<rparr>)))"

definition TPM2_NV_ReadLock_REQUEST_text_ok :: "text_class \<Rightarrow> TPM2_NV_ReadLock_REQUEST \<Rightarrow> bool" where
  "TPM2_NV_ReadLock_REQUEST_text_ok c x \<longleftrightarrow>
     TPM_HANDLE_text_ok c (TPM2_NV_ReadLock_REQUEST_authHandle x) \<and>
     TPM_HANDLE_text_ok c (TPM2_NV_ReadLock_REQUEST_nvIndex x)"

interpretation TPM2_NV_ReadLock_REQUEST_text: text_codec "''TPM2_NV_ReadLock_REQUEST''" TPM2_NV_ReadLock_REQUEST_Serialize TPM2_NV_ReadLock_REQUEST_Deserialize TPM2_NV_ReadLock_REQUEST_default TPM2_NV_ReadLock_REQUEST_text_ok
proof
  show "word_ok ''TPM2_NV_ReadLock_REQUEST''" by (simp add: word_simps)
  fix c x assume ok: "TPM2_NV_ReadLock_REQUEST_text_ok c x"
  from ok show "carries c True (TPM2_NV_ReadLock_REQUEST_Serialize x) (TPM2_NV_ReadLock_REQUEST_Deserialize TPM2_NV_ReadLock_REQUEST_default) x"
    by (simp only: TPM2_NV_ReadLock_REQUEST_Serialize_def TPM2_NV_ReadLock_REQUEST_Deserialize_def TPM2_NV_ReadLock_REQUEST_default_def
       TPM2_NV_ReadLock_REQUEST.select_convs TPM2_NV_ReadLock_REQUEST.update_convs;
      intro TPM_HANDLE_text.as_entry [THEN carries_entry_Cons] carries_body;
      (rule TPM2_NV_ReadLock_REQUEST.equality)?; simp add: TPM2_NV_ReadLock_REQUEST_text_ok_def word_simps)
qed

subsection \<open>TPM2_NV_ChangeAuth_REQUEST\<close>

definition TPM2_NV_ChangeAuth_REQUEST_Serialize :: "TPM2_NV_ChangeAuth_REQUEST \<Rightarrow> unit ser" where
  "TPM2_NV_ChangeAuth_REQUEST_Serialize self = wseq
     [withN ''nvIndex'' ''TPM_HANDLE'' '''' '''' (ser_writeObj ''TPM_HANDLE'' (TPM_HANDLE_Serialize (TPM2_NV_ChangeAuth_REQUEST_nvIndex self))),
      withN ''newAuth'' ''BYTE[]'' ''newAuthSize'' ''UINT16'' (ser_writeSizedByteBuf (TPM2_NV_ChangeAuth_REQUEST_newAuth self))]"

definition TPM2_NV_ChangeAuth_REQUEST_Deserialize :: "TPM2_NV_ChangeAuth_REQUEST \<Rightarrow> TPM2_NV_ChangeAuth_REQUEST ser" where
  "TPM2_NV_ChangeAuth_REQUEST_Deserialize self =
     sbind (withN ''nvIndex'' ''TPM_HANDLE'' '''' '''' (ser_readObj ''TPM_HANDLE'' (TPM_HANDLE_Deserialize (TPM2_NV_ChangeAuth_REQUEST_nvIndex self)))) (\<lambda>nvIndex.
     sbind (withN ''newAuth'' ''BYTE[]'' ''newAuthSize'' ''UINT16'' ser_readSizedByteBuf) (\<lambda>newAuth.
     ret (self\<lparr>TPM2_NV_ChangeAuth_REQUEST_nvIndex := nvIndex, TPM2_NV_ChangeAuth_REQUEST_newAuth := newAuth\<rparr>)))"

definition TPM2_NV_ChangeAuth_REQUEST_text_ok :: "text_class \<Rightarrow> TPM2_NV_ChangeAuth_REQUEST \<Rightarrow> bool" where
  "TPM2_NV_ChangeAuth_REQUEST_text_ok c x \<longleftrightarrow>
     TPM_HANDLE_text_ok c (TPM2_NV_ChangeAuth_REQUEST_nvIndex x) \<and>
     length (TPM2_NV_ChangeAuth_REQUEST_newAuth x) < 2 ^ 64"

interpretation TPM2_NV_ChangeAuth_REQUEST_text: text_codec "''TPM2_NV_ChangeAuth_REQUEST''" TPM2_NV_ChangeAuth_REQUEST_Serialize TPM2_NV_ChangeAuth_REQUEST_Deserialize TPM2_NV_ChangeAuth_REQUEST_default TPM2_NV_ChangeAuth_REQUEST_text_ok
proof
  show "word_ok ''TPM2_NV_ChangeAuth_REQUEST''" by (simp add: word_simps)
  fix c x assume ok: "TPM2_NV_ChangeAuth_REQUEST_text_ok c x"
  from ok show "carries c True (TPM2_NV_ChangeAuth_REQUEST_Serialize x) (TPM2_NV_ChangeAuth_REQUEST_Deserialize TPM2_NV_ChangeAuth_REQUEST_default) x"
    by (simp only: TPM2_NV_ChangeAuth_REQUEST_Serialize_def TPM2_NV_ChangeAuth_REQUEST_Deserialize_def TPM2_NV_ChangeAuth_REQUEST_default_def
       TPM2_NV_ChangeAuth_REQUEST.select_convs TPM2_NV_ChangeAuth_REQUEST.update_convs;
      intro TPM_HANDLE_text.as_entry [THEN carries_entry_Cons] carries_body;
      (rule TPM2_NV_ChangeAuth_REQUEST.equality)?; simp add: TPM2_NV_ChangeAuth_REQUEST_text_ok_def word_simps)
qed

subsection \<open>TPM2_NV_Certify_REQUEST\<close>

definition TPM2_NV_Certify_REQUEST_Serialize :: "TPM2_NV_Certify_REQUEST \<Rightarrow> unit ser" where
  "TPM2_NV_Certify_REQUEST_Serialize self = wseq
     [withN ''signHandle'' ''TPM_HANDLE'' '''' '''' (ser_writeObj ''TPM_HANDLE'' (TPM_HANDLE_Serialize (TPM2_NV_Certify_REQUEST_signHandle self))),
      withN ''authHandle'' ''TPM_HANDLE'' '''' '''' (ser_writeObj ''TPM_HANDLE'' (TPM_HANDLE_Serialize (TPM2_NV_Certify_REQUEST_authHandle self))),
      withN ''nvIndex'' ''TPM_HANDLE'' '''' '''' (ser_writeObj ''TPM_HANDLE'' (TPM_HANDLE_Serialize (TPM2_NV_Certify_REQUEST_nvIndex self))),
      withN ''qualifyingData'' ''BYTE[]'' ''qualifyingDataSize'' ''UINT16'' (ser_writeSizedByteBuf (TPM2_NV_Certify_REQUEST_qualifyingData self)),
      withN ''inSchemeScheme'' ''TPM_ALG_ID'' '''' '''' (ser_writeEnumT (selector_or TPM_ALG_ID_NULL TPMU_SIG_SCHEME_GetUnionSelector (TPM2_NV_Certify_REQUEST_inScheme self)) TPM_ALG_ID_ID),
      if_set (TPM2_NV_Certify_REQUEST_inScheme self) (\<lambda>u. withN ''inScheme'' ''TPMU_SIG_SCHEME'' '''' '''' (ser_writeObj (TPMU_SIG_SCHEME_TypeName u) (TPMU_SIG_SCHEME_Serialize u))),
      withN ''size'' ''UINT16'' '''' '''' (ser_writeShort (TPM2_NV_Certify_REQUEST_size self)),
      withN ''offset'' ''UINT16'' '''' '''' (ser_writeShort (TPM2_NV_Certify_REQUEST_offset self))]"

definition TPM2_NV_Certify_REQUEST_Deserialize :: "TPM2_NV_Certify_REQUEST \<Rightarrow> TPM2_NV_Certify_REQUEST ser" where
  "TPM2_NV_Certify_REQUEST_Deserialize self =
     sbind (withN ''signHandle'' ''TPM_HANDLE'' '''' '''' (ser_readObj ''TPM_HANDLE'' (TPM_HANDLE_Deserialize (TPM2_NV_Certify_REQUEST_signHandle self)))) (\<lambda>signHandle.
     sbind (withN ''authHandle'' ''TPM_HANDLE'' '''' '''' (ser_readObj ''TPM_HANDLE'' (TPM_HANDLE_Deserialize (TPM2_NV_Certify_REQUEST_authHandle self)))) (\<lambda>authHandle.
     sbind (withN ''nvIndex'' ''TPM_HANDLE'' '''' '''' (ser_readObj ''TPM_HANDLE'' (TPM_HANDLE_Deserialize (TPM2_NV_Certify_REQUEST_nvIndex self)))) (\<lambda>nvIndex.
     sbind (withN ''qualifyingData'' ''BYTE[]'' ''qualifyingDataSize'' ''UINT16'' ser_readSizedByteBuf) (\<lambda>qualifyingData.
     sbind (withN ''inSchemeScheme'' ''TPM_ALG_ID'' '''' '''' (ser_readEnumT TPM_ALG_ID_ID)) (\<lambda>inSchemeScheme.
     sbind (reset_or_create UnionFactory_Create_TPMU_SIG_SCHEME inSchemeScheme) (\<lambda>inScheme.
     sbind (read_if_set inScheme (\<lambda>u. withN ''inScheme'' ''TPMU_SIG_SCHEME'' '''' '''' (ser_readObj (TPMU_SIG_SCHEME_TypeName u) (TPMU_SIG_SCHEME_Deserialize u)))) (\<lambda>inScheme.
     sbind (withN ''size'' ''UINT16'' '''' '''' ser_readShort) (\<lambda>size.
     sbind (withN ''offset'' ''UINT16'' '''' '''' ser_readShort) (\<lambda>offset.
     ret (self\<lparr>TPM2_NV_Certify_REQUEST_signHandle := signHandle, TPM2_NV_Certify_REQUEST_authHandle := authHandle, TPM2_NV_Certify_REQUEST_nvIndex := nvIndex, TPM2_NV_Certify_REQUEST_qualifyingData := qualifyingData, TPM2_NV_Certify_REQUEST_inScheme := inScheme, TPM2_NV_Certify_REQUEST_size := size, TPM2_NV_Certify_REQUEST_offset := offset\<rparr>))))))))))"

definition TPM2_NV_Certify_REQUEST_text_ok :: "text_class \<Rightarrow> TPM2_NV_Certify_REQUEST \<Rightarrow> bool" where
  "TPM2_NV_Certify_REQUEST_text_ok c x \<longleftrightarrow>
     TPM_HANDLE_text_ok c (TPM2_NV_Certify_REQUEST_signHandle x) \<and>
     TPM_HANDLE_text_ok c (TPM2_NV_Certify_REQUEST_authHandle x) \<and>
     TPM_HANDLE_text_ok c (TPM2_NV_Certify_REQUEST_nvIndex x) \<and>
     length (TPM2_NV_Certify_REQUEST_qualifyingData x) < 2 ^ 64 \<and>
     TPM2_NV_Certify_REQUEST_inScheme x \<noteq> None \<and>
     enum_ok c (ucast (selector_or TPM_ALG_ID_NULL TPMU_SIG_SCHEME_GetUnionSelector (TPM2_NV_Certify_REQUEST_inScheme x))) TPM_ALG_ID_ID \<and>
     if_set_ok (TPMU_SIG_SCHEME_text_ok c) (TPM2_NV_Certify_REQUEST_inScheme x)"

interpretation TPM2_NV_Certify_REQUEST_text: text_codec "''TPM2_NV_Certify_REQUEST''" TPM2_NV_Certify_REQUEST_Serialize TPM2_NV_Certify_REQUEST_Deserialize TPM2_NV_Certify_REQUEST_default TPM2_NV_Certify_REQUEST_text_ok
proof
  show "word_ok ''TPM2_NV_Certify_REQUEST''" by (simp add: word_simps)
  fix c x assume ok: "TPM2_NV_Certify_REQUEST_text_ok c x"
  from ok show "carries c True (TPM2_NV_Certify_REQUEST_Serialize x) (TPM2_NV_Certify_REQUEST_Deserialize TPM2_NV_Certify_REQUEST_default) x"
    by (simp only: TPM2_NV_Certify_REQUEST_Serialize_def TPM2_NV_Certify_REQUEST_Deserialize_def TPM2_NV_Certify_REQUEST_default_def
       TPM2_NV_Certify_REQUEST.select_convs TPM2_NV_Certify_REQUEST.update_convs;
      intro TPMU_SIG_SCHEME_text.as_member [THEN carries_member_Cons] TPMU_SIG_SCHEME_text.member_created [of c, THEN carries_create] TPM_HANDLE_text.as_entry [THEN carries_entry_Cons] carries_body;
      (rule TPM2_NV_Certify_REQUEST.equality)?; simp add: TPM2_NV_Certify_REQUEST_text_ok_def word_simps)
qed

subsection \<open>NV_CertifyResponse\<close>

definition NV_CertifyResponse_Serialize :: "NV_CertifyResponse \<Rightarrow> unit ser" where
  "NV_CertifyResponse_Serialize self = wseq
     [withN ''certifyInfo'' ''TPMS_ATTEST'' ''certifyInfoSize'' ''UINT16'' (ser_writeObj ''TPMS_ATTEST'' (TPMS_ATTEST_Serialize (NV_CertifyResponse_certifyInfo self))),
      withN ''signatureSigAlg'' ''TPM_ALG_ID'' '''' '''' (ser_writeEnumT (selector_or TPM_ALG_ID_NULL TPMU_SIGNATURE_GetUnionSelector (NV_CertifyResponse_signature self)) TPM_ALG_ID_ID),
      if_set (NV_CertifyResponse_signature self) (\<lambda>u. withN ''signature'' ''TPMU_SIGNATURE'' '''' '''' (ser_writeObj (TPMU_SIGNATURE_TypeName u) (TPMU_SIGNATURE_Serialize u)))]"

definition NV_CertifyResponse_Deserialize :: "NV_CertifyResponse \<Rightarrow> NV_CertifyResponse ser" where
  "NV_CertifyResponse_Deserialize self =
     sbind (withN ''certifyInfo'' ''TPMS_ATTEST'' ''certifyInfoSize'' ''UINT16'' (ser_readObj ''TPMS_ATTEST'' (TPMS_ATTEST_Deserialize (NV_CertifyResponse_certifyInfo self)))) (\<lambda>certifyInfo.
     sbind (withN ''signatureSigAlg'' ''TPM_ALG_ID'' '''' '''' (ser_readEnumT TPM_ALG_ID_ID)) (\<lambda>signatureSigAlg.
     sbind (reset_or_create UnionFactory_Create_TPMU_SIGNATURE signatureSigAlg) (\<lambda>signature.
     sbind (read_if_set signature (\<lambda>u. withN ''signature'' ''TPMU_SIGNATURE'' '''' '''' (ser_readObj (TPMU_SIGNATURE_TypeName u) (TPMU_SIGNATURE_Deserialize u)))) (\<lambda>signature.
     ret (self\<lparr>NV_CertifyResponse_certifyInfo := certifyInfo, NV_CertifyResponse_signature := signature\<rparr>)))))"

definition NV_CertifyResponse_text_ok :: "text_class \<Rightarrow> NV_CertifyResponse \<Rightarrow> bool" where
  "NV_CertifyResponse_text_ok c x \<longleftrightarrow>
     TPMS_ATTEST_text_ok c (NV_CertifyResponse_certifyInfo x) \<and>
     NV_CertifyResponse_signature x \<noteq> None \<and>
     enum_ok c (ucast (selector_or TPM_ALG_ID_NULL TPMU_SIGNATURE_GetUnionSelector (NV_CertifyResponse_signature x))) TPM_ALG_ID_ID \<and>
     if_set_ok (TPMU_SIGNATURE_text_ok c) (NV_CertifyResponse_signature x)"

interpretation NV_CertifyResponse_text: text_codec "''NV_CertifyResponse''" NV_CertifyResponse_Serialize NV_CertifyResponse_Deserialize NV_CertifyResponse_default NV_CertifyResponse_text_ok
proof
  show "word_ok ''NV_CertifyResponse''" by (simp add: word_simps)
  fix c x assume ok: "NV_CertifyResponse_text_ok c x"
  from ok show "carries c True (NV_CertifyResponse_Serialize x) (NV_CertifyResponse_Deserialize NV_CertifyResponse_default) x"
    by (simp only: NV_CertifyResponse_Serialize_def NV_CertifyResponse_Deserialize_def NV_CertifyResponse_default_def
       NV_CertifyResponse.select_convs NV_CertifyResponse.update_convs;
      intro TPMS_ATTEST_text.as_entry [THEN carries_entry_Cons] TPMU_SIGNATURE_text.as_member [THEN carries_member_Cons] TPMU_SIGNATURE_text.member_created [of c, THEN carries_create] carries_body;
      (rule NV_CertifyResponse.equality)?; simp add: NV_CertifyResponse_text_ok_def word_simps)
qed

subsection \<open>TPM2_AC_GetCapability_REQUEST\<close>

definition TPM2_AC_GetCapability_REQUEST_Serialize :: "TPM2_AC_GetCapability_REQUEST \<Rightarrow> unit ser" where
  "TPM2_AC_GetCapability_REQUEST_Serialize self = wseq
     [withN ''ac'' ''TPM_HANDLE'' '''' '''' (ser_writeObj ''TPM_HANDLE'' (TPM_HANDLE_Serialize (TPM2_AC_GetCapability_REQUEST_ac self))),
      withN ''capability'' ''TPM_AT'' '''' '''' (ser_writeEnumT (TPM2_AC_GetCapability_REQUEST_capability self) TPM_AT_ID),
      withN ''count'' ''UINT32'' '''' '''' (ser_writeInt (TPM2_AC_GetCapability_REQUEST_count self))]"

definition TPM2_AC_GetCapability_REQUEST_Deserialize :: "TPM2_AC_GetCapability_REQUEST \<Rightarrow> TPM2_AC_GetCapability_REQUEST ser" where
  "TPM2_AC_GetCapability_REQUEST_Deserialize self =
     sbind (withN ''ac'' ''TPM_HANDLE'' '''' '''' (ser_readObj ''TPM_HANDLE'' (TPM_HANDLE_Deserialize (TPM2_AC_GetCapability_REQUEST_ac self)))) (\<lambda>ac.
     sbind (withN ''capability'' ''TPM_AT'' '''' '''' (ser_readEnumT TPM_AT_ID)) (\<lambda>capability.
     sbind (withN ''count'' ''UINT32'' '''' '''' ser_readInt) (\<lambda>count.
     ret (self\<lparr>TPM2_AC_GetCapability_REQUEST_ac := ac, TPM2_AC_GetCapability_REQUEST_capability := capability, TPM2_AC_GetCapability_REQUEST_count := count\<rparr>))))"

definition TPM2_AC_GetCapability_REQUEST_text_ok :: "text_class \<Rightarrow> TPM2_AC_GetCapability_REQUEST \<Rightarrow> bool" where
  "TPM2_AC_GetCapability_REQUEST_text_ok c x \<longleftrightarrow>
     TPM_HANDLE_text_ok c (TPM2_AC_GetCapability_REQUEST_ac x) \<and>
     enum_ok c (ucast (TPM2_AC_GetCapability_REQUEST_capability x)) TPM_AT_ID"

interpretation TPM2_AC_GetCapability_REQUEST_text: text_codec "''TPM2_AC_GetCapability_REQUEST''" TPM2_AC_GetCapability_REQUEST_Serialize TPM2_AC_GetCapability_REQUEST_Deserialize TPM2_AC_GetCapability_REQUEST_default TPM2_AC_GetCapability_REQUEST_text_ok
proof
  show "word_ok ''TPM2_AC_GetCapability_REQUEST''" by (simp add: word_simps)
  fix c x assume ok: "TPM2_AC_GetCapability_REQUEST_text_ok c x"
  from ok show "carries c True (TPM2_AC_GetCapability_REQUEST_Serialize x) (TPM2_AC_GetCapability_REQUEST_Deserialize TPM2_AC_GetCapability_REQUEST_default) x"
    by (simp only: TPM2_AC_GetCapability_REQUEST_Serialize_def TPM2_AC_GetCapability_REQUEST_Deserialize_def TPM2_AC_GetCapability_REQUEST_default_def
       TPM2_AC_GetCapability_REQUEST.select_convs TPM2_AC_GetCapability_REQUEST.update_convs;
      intro TPM_HANDLE_text.as_entry [THEN carries_entry_Cons] carries_body;
      (rule TPM2_AC_GetCapability_REQUEST.equality)?; simp add: TPM2_AC_GetCapability_REQUEST_text_ok_def word_simps)
qed

subsection \<open>AC_GetCapabilityResponse\<close>

definition AC_GetCapabilityResponse_Serialize :: "AC_GetCapabilityResponse \<Rightarrow> unit ser" where
  "AC_GetCapabilityResponse_Serialize self = wseq
     [withN ''moreData'' ''BYTE'' '''' '''' (ser_writeByte (AC_GetCapabilityResponse_moreData self)),
      withN ''capabilitiesData'' ''TPMS_AC_OUTPUT[]'' ''capabilitiesDataCount'' ''UINT32'' (ser_writeObjArr ''TPMS_AC_OUTPUT'' TPMS_AC_OUTPUT_Serialize (AC_GetCapabilityResponse_capabilitiesData self))]"

definition AC_GetCapabilityResponse_Deserialize :: "AC_GetCapabilityResponse \<Rightarrow> AC_GetCapabilityResponse ser" where
  "AC_GetCapabilityResponse_Deserialize self =
     sbind (withN ''moreData'' ''BYTE'' '''' '''' ser_readByte) (\<lambda>moreData.
     sbind (withN ''capabilitiesData'' ''TPMS_AC_OUTPUT[]'' ''capabilitiesDataCount'' ''UINT32'' (ser_readObjArr ''TPMS_AC_OUTPUT'' TPMS_AC_OUTPUT_Deserialize TPMS_AC_OUTPUT_default (AC_GetCapabilityResponse_capabilitiesData self))) (\<lambda>capabilitiesData.
     ret (self\<lparr>AC_GetCapabilityResponse_moreData := moreData, AC_GetCapabilityResponse_capabilitiesData := capabilitiesData\<rparr>)))"

definition AC_GetCapabilityResponse_text_ok :: "text_class \<Rightarrow> AC_GetCapabilityResponse \<Rightarrow> bool" where
  "AC_GetCapabilityResponse_text_ok c x \<longleftrightarrow>
     length (AC_GetCapabilityResponse_capabilitiesData x) < 2 ^ 64 \<and> (\<forall>y \<in> set (AC_GetCapabilityResponse_capabilitiesData x). TPMS_AC_OUTPUT_text_ok c y)"

interpretation AC_GetCapabilityResponse_text: text_codec "''AC_GetCapabilityResponse''" AC_GetCapabilityResponse_Serialize AC_GetCapabilityResponse_Deserialize AC_GetCapabilityResponse_default AC_GetCapabilityResponse_text_ok
proof
  show "word_ok ''AC_GetCapabilityResponse''" by (simp add: word_simps)
  fix c x assume ok: "AC_GetCapabilityResponse_text_ok c x"
  from ok show "carries c True (AC_GetCapabilityResponse_Serialize x) (AC_GetCapabilityResponse_Deserialize AC_GetCapabilityResponse_default) x"
    by (simp only: AC_GetCapabilityResponse_Serialize_def AC_GetCapabilityResponse_Deserialize_def AC_GetCapabilityResponse_default_def
       AC_GetCapabilityResponse.select_convs AC_GetCapabilityResponse.update_convs;
      intro TPMS_AC_OUTPUT_text.as_elements [THEN carries_entry_Cons] carries_body;
      (rule AC_GetCapabilityResponse.equality)?; simp add: AC_GetCapabilityResponse_text_ok_def word_simps)
qed

subsection \<open>TPM2_AC_Send_REQUEST\<close>

definition TPM2_AC_Send_REQUEST_Serialize :: "TPM2_AC_Send_REQUEST \<Rightarrow> unit ser" where
  "TPM2_AC_Send_REQUEST_Serialize self = wseq
     [withN ''sendObject'' ''TPM_HANDLE'' '''' '''' (ser_writeObj ''TPM_HANDLE'' (TPM_HANDLE_Serialize (TPM2_AC_Send_REQUEST_sendObject self))),
      withN ''authHandle'' ''TPM_HANDLE'' '''' '''' (ser_writeObj ''TPM_HANDLE'' (TPM_HANDLE_Serialize (TPM2_AC_Send_REQUEST_authHandle self))),
      withN ''ac'' ''TPM_HANDLE'' '''' '''' (ser_writeObj ''TPM_HANDLE'' (TPM_HANDLE_Serialize (TPM2_AC_Send_REQUEST_ac self))),
      withN ''acDataIn'' ''BYTE[]'' ''acDataInSize'' ''UINT16'' (ser_writeSizedByteBuf (TPM2_AC_Send_REQUEST_acDataIn self))]"

definition TPM2_AC_Send_REQUEST_Deserialize :: "TPM2_AC_Send_REQUEST \<Rightarrow> TPM2_AC_Send_REQUEST ser" where
  "TPM2_AC_Send_REQUEST_Deserialize self =
     sbind (withN ''sendObject'' ''TPM_HANDLE'' '''' '''' (ser_readObj ''TPM_HANDLE'' (TPM_HANDLE_Deserialize (TPM2_AC_Send_REQUEST_sendObject self)))) (\<lambda>sendObject.
     sbind (withN ''authHandle'' ''TPM_HANDLE'' '''' '''' (ser_readObj ''TPM_HANDLE'' (TPM_HANDLE_Deserialize (TPM2_AC_Send_REQUEST_authHandle self)))) (\<lambda>authHandle.
     sbind (withN ''ac'' ''TPM_HANDLE'' '''' '''' (ser_readObj ''TPM_HANDLE'' (TPM_HANDLE_Deserialize (TPM2_AC_Send_REQUEST_ac self)))) (\<lambda>ac.
     sbind (withN ''acDataIn'' ''BYTE[]'' ''acDataInSize'' ''UINT16'' ser_readSizedByteBuf) (\<lambda>acDataIn.
     ret (self\<lparr>TPM2_AC_Send_REQUEST_sendObject := sendObject, TPM2_AC_Send_REQUEST_authHandle := authHandle, TPM2_AC_Send_REQUEST_ac := ac, TPM2_AC_Send_REQUEST_acDataIn := acDataIn\<rparr>)))))"

definition TPM2_AC_Send_REQUEST_text_ok :: "text_class \<Rightarrow> TPM2_AC_Send_REQUEST \<Rightarrow> bool" where
  "TPM2_AC_Send_REQUEST_text_ok c x \<longleftrightarrow>
     TPM_HANDLE_text_ok c (TPM2_AC_Send_REQUEST_sendObject x) \<and>
     TPM_HANDLE_text_ok c (TPM2_AC_Send_REQUEST_authHandle x) \<and>
     TPM_HANDLE_text_ok c (TPM2_AC_Send_REQUEST_ac x) \<and>
     length (TPM2_AC_Send_REQUEST_acDataIn x) < 2 ^ 64"

interpretation TPM2_AC_Send_REQUEST_text: text_codec "''TPM2_AC_Send_REQUEST''" TPM2_AC_Send_REQUEST_Serialize TPM2_AC_Send_REQUEST_Deserialize TPM2_AC_Send_REQUEST_default TPM2_AC_Send_REQUEST_text_ok
proof
  show "word_ok ''TPM2_AC_Send_REQUEST''" by (simp add: word_simps)
  fix c x assume ok: "TPM2_AC_Send_REQUEST_text_ok c x"
  from ok show "carries c True (TPM2_AC_Send_REQUEST_Serialize x) (TPM2_AC_Send_REQUEST_Deserialize TPM2_AC_Send_REQUEST_default) x"
    by (simp only: TPM2_AC_Send_REQUEST_Serialize_def TPM2_AC_Send_REQUEST_Deserialize_def TPM2_AC_Send_REQUEST_default_def
       TPM2_AC_Send_REQUEST.select_convs TPM2_AC_Send_REQUEST.update_convs;
      intro TPM_HANDLE_text.as_entry [THEN carries_entry_Cons] carries_body;
      (rule TPM2_AC_Send_REQUEST.equality)?; simp add: TPM2_AC_Send_REQUEST_text_ok_def word_simps)
qed

subsection \<open>AC_SendResponse\<close>

definition AC_SendResponse_Serialize :: "AC_SendResponse \<Rightarrow> unit ser" where
  "AC_SendResponse_Serialize self = wseq
     [withN ''acDataOut'' ''TPMS_AC_OUTPUT'' '''' '''' (ser_writeObj ''TPMS_AC_OUTPUT'' (TPMS_AC_OUTPUT_Serialize (AC_SendResponse_acDataOut self)))]"

definition AC_SendResponse_Deserialize :: "AC_SendResponse \<Rightarrow> AC_SendResponse ser" where
  "AC_SendResponse_Deserialize self =
     sbind (withN ''acDataOut'' ''TPMS_AC_OUTPUT'' '''' '''' (ser_readObj ''TPMS_AC_OUTPUT'' (TPMS_AC_OUTPUT_Deserialize (AC_SendResponse_acDataOut self)))) (\<lambda>acDataOut.
     ret (self\<lparr>AC_SendResponse_acDataOut := acDataOut\<rparr>))"

definition AC_SendResponse_text_ok :: "text_class \<Rightarrow> AC_SendResponse \<Rightarrow> bool" where
  "AC_SendResponse_text_ok c x \<longleftrightarrow>
     TPMS_AC_OUTPUT_text_ok c (AC_SendResponse_acDataOut x)"

interpretation AC_SendResponse_text: text_codec "''AC_SendResponse''" AC_SendResponse_Serialize AC_SendResponse_Deserialize AC_SendResponse_default AC_SendResponse_text_ok
proof
  show "word_ok ''AC_SendResponse''" by (simp add: word_simps)
  fix c x assume ok: "AC_SendResponse_text_ok c x"
  from ok show "carries c True (AC_SendResponse_Serialize x) (AC_SendResponse_Deserialize AC_SendResponse_default) x"
    by (simp only: AC_SendResponse_Serialize_def AC_SendResponse_Deserialize_def AC_SendResponse_default_def
       AC_SendResponse.select_convs AC_SendResponse.update_convs;
      intro TPMS_AC_OUTPUT_text.as_entry [THEN carries_entry_Cons] carries_body;
      (rule AC_SendResponse.equality)?; simp add: AC_SendResponse_text_ok_def word_simps)
qed

subsection \<open>TPM2_Policy_AC_SendSelect_REQUEST\<close>

definition TPM2_Policy_AC_SendSelect_REQUEST_Serialize :: "TPM2_Policy_AC_SendSelect_REQUEST \<Rightarrow> unit ser" where
  "TPM2_Policy_AC_SendSelect_REQUEST_Serialize self = wseq
     [withN ''policySession'' ''TPM_HANDLE'' '''' '''' (ser_writeObj ''TPM_HANDLE'' (TPM_HANDLE_Serialize (TPM2_Policy_AC_SendSelect_REQUEST_policySession self))),
      withN ''objectName'' ''BYTE[]'' ''objectNameSize'' ''UINT16'' (ser_writeSizedByteBuf (TPM2_Policy_AC_SendSelect_REQUEST_objectName self)),
      withN ''authHandleName'' ''BYTE[]'' ''authHandleNameSize'' ''UINT16'' (ser_writeSizedByteBuf (TPM2_Policy_AC_SendSelect_REQUEST_authHandleName self)),
      withN ''acName'' ''BYTE[]'' ''acNameSize'' ''UINT16'' (ser_writeSizedByteBuf (TPM2_Policy_AC_SendSelect_REQUEST_acName self)),
      withN ''includeObject'' ''BYTE'' '''' '''' (ser_writeByte (TPM2_Policy_AC_SendSelect_REQUEST_includeObject self))]"

definition TPM2_Policy_AC_SendSelect_REQUEST_Deserialize :: "TPM2_Policy_AC_SendSelect_REQUEST \<Rightarrow> TPM2_Policy_AC_SendSelect_REQUEST ser" where
  "TPM2_Policy_AC_SendSelect_REQUEST_Deserialize self =
     sbind (withN ''policySession'' ''TPM_HANDLE'' '''' '''' (ser_readObj ''TPM_HANDLE'' (TPM_HANDLE_Deserialize (TPM2_Policy_AC_SendSelect_REQUEST_policySession self)))) (\<lambda>policySession.
     sbind (withN ''objectName'' ''BYTE[]'' ''objectNameSize'' ''UINT16'' ser_readSizedByteBuf) (\<lambda>objectName.
     sbind (withN ''authHandleName'' ''BYTE[]'' ''authHandleNameSize'' ''UINT16'' ser_readSizedByteBuf) (\<lambda>authHandleName.
     sbind (withN ''acName'' ''BYTE[]'' ''acNameSize'' ''UINT16'' ser_readSizedByteBuf) (\<lambda>acName.
     sbind (withN ''includeObject'' ''BYTE'' '''' '''' ser_readByte) (\<lambda>includeObject.
     ret (self\<lparr>TPM2_Policy_AC_SendSelect_REQUEST_policySession := policySession, TPM2_Policy_AC_SendSelect_REQUEST_objectName := objectName, TPM2_Policy_AC_SendSelect_REQUEST_authHandleName := authHandleName, TPM2_Policy_AC_SendSelect_REQUEST_acName := acName, TPM2_Policy_AC_SendSelect_REQUEST_includeObject := includeObject\<rparr>))))))"

definition TPM2_Policy_AC_SendSelect_REQUEST_text_ok :: "text_class \<Rightarrow> TPM2_Policy_AC_SendSelect_REQUEST \<Rightarrow> bool" where
  "TPM2_Policy_AC_SendSelect_REQUEST_text_ok c x \<longleftrightarrow>
     TPM_HANDLE_text_ok c (TPM2_Policy_AC_SendSelect_REQUEST_policySession x) \<and>
     length (TPM2_Policy_AC_SendSelect_REQUEST_objectName x) < 2 ^ 64 \<and>
     length (TPM2_Policy_AC_SendSelect_REQUEST_authHandleName x) < 2 ^ 64 \<and>
     length (TPM2_Policy_AC_SendSelect_REQUEST_acName x) < 2 ^ 64"

interpretation TPM2_Policy_AC_SendSelect_REQUEST_text: text_codec "''TPM2_Policy_AC_SendSelect_REQUEST''" TPM2_Policy_AC_SendSelect_REQUEST_Serialize TPM2_Policy_AC_SendSelect_REQUEST_Deserialize TPM2_Policy_AC_SendSelect_REQUEST_default TPM2_Policy_AC_SendSelect_REQUEST_text_ok
proof
  show "word_ok ''TPM2_Policy_AC_SendSelect_REQUEST''" by (simp add: word_simps)
  fix c x assume ok: "TPM2_Policy_AC_SendSelect_REQUEST_text_ok c x"
  from ok show "carries c True (TPM2_Policy_AC_SendSelect_REQUEST_Serialize x) (TPM2_Policy_AC_SendSelect_REQUEST_Deserialize TPM2_Policy_AC_SendSelect_REQUEST_default) x"
    by (simp only: TPM2_Policy_AC_SendSelect_REQUEST_Serialize_def TPM2_Policy_AC_SendSelect_REQUEST_Deserialize_def TPM2_Policy_AC_SendSelect_REQUEST_default_def
       TPM2_Policy_AC_SendSelect_REQUEST.select_convs TPM2_Policy_AC_SendSelect_REQUEST.update_convs;
      intro TPM_HANDLE_text.as_entry [THEN carries_entry_Cons] carries_body;
      (rule TPM2_Policy_AC_SendSelect_REQUEST.equality)?; simp add: TPM2_Policy_AC_SendSelect_REQUEST_text_ok_def word_simps)
qed

subsection \<open>TPM2_ACT_SetTimeout_REQUEST\<close>

definition TPM2_ACT_SetTimeout_REQUEST_Serialize :: "TPM2_ACT_SetTimeout_REQUEST \<Rightarrow> unit ser" where
  "TPM2_ACT_SetTimeout_REQUEST_Serialize self = wseq
     [withN ''actHandle'' ''TPM_HANDLE'' '''' '''' (ser_writeObj ''TPM_HANDLE'' (TPM_HANDLE_Serialize (TPM2_ACT_SetTimeout_REQUEST_actHandle self))),
      withN ''startTimeout'' ''UINT32'' '''' '''' (ser_writeInt (TPM2_ACT_SetTimeout_REQUEST_startTimeout self))]"

definition TPM2_ACT_SetTimeout_REQUEST_Deserialize :: "TPM2_ACT_SetTimeout_REQUEST \<Rightarrow> TPM2_ACT_SetTimeout_REQUEST ser" where
  "TPM2_ACT_SetTimeout_REQUEST_Deserialize self =
     sbind (withN ''actHandle'' ''TPM_HANDLE'' '''' '''' (ser_readObj ''TPM_HANDLE'' (TPM_HANDLE_Deserialize (TPM2_ACT_SetTimeout_REQUEST_actHandle self)))) (\<lambda>actHandle.
     sbind (withN ''startTimeout'' ''UINT32'' '''' '''' ser_readInt) (\<lambda>startTimeout.
     ret (self\<lparr>TPM2_ACT_SetTimeout_REQUEST_actHandle := actHandle, TPM2_ACT_SetTimeout_REQUEST_startTimeout := startTimeout\<rparr>)))"

definition TPM2_ACT_SetTimeout_REQUEST_text_ok :: "text_class \<Rightarrow> TPM2_ACT_SetTimeout_REQUEST \<Rightarrow> bool" where
  "TPM2_ACT_SetTimeout_REQUEST_text_ok c x \<longleftrightarrow>
     TPM_HANDLE_text_ok c (TPM2_ACT_SetTimeout_REQUEST_actHandle x)"

interpretation TPM2_ACT_SetTimeout_REQUEST_text: text_codec "''TPM2_ACT_SetTimeout_REQUEST''" TPM2_ACT_SetTimeout_REQUEST_Serialize TPM2_ACT_SetTimeout_REQUEST_Deserialize TPM2_ACT_SetTimeout_REQUEST_default TPM2_ACT_SetTimeout_REQUEST_text_ok
proof
  show "word_ok ''TPM2_ACT_SetTimeout_REQUEST''" by (simp add: word_simps)
  fix c x assume ok: "TPM2_ACT_SetTimeout_REQUEST_text_ok c x"
  from ok show "carries c True (TPM2_ACT_SetTimeout_REQUEST_Serialize x) (TPM2_ACT_SetTimeout_REQUEST_Deserialize TPM2_ACT_SetTimeout_REQUEST_default) x"
    by (simp only: TPM2_ACT_SetTimeout_REQUEST_Serialize_def TPM2_ACT_SetTimeout_REQUEST_Deserialize_def TPM2_ACT_SetTimeout_REQUEST_default_def
       TPM2_ACT_SetTimeout_REQUEST.select_convs TPM2_ACT_SetTimeout_REQUEST.update_convs;
      intro TPM_HANDLE_text.as_entry [THEN carries_entry_Cons] carries_body;
      (rule TPM2_ACT_SetTimeout_REQUEST.equality)?; simp add: TPM2_ACT_SetTimeout_REQUEST_text_ok_def word_simps)
qed

subsection \<open>TPM2_Vendor_TCG_Test_REQUEST\<close>

definition TPM2_Vendor_TCG_Test_REQUEST_Serialize :: "TPM2_Vendor_TCG_Test_REQUEST \<Rightarrow> unit ser" where
  "TPM2_Vendor_TCG_Test_REQUEST_Serialize self = wseq
     [withN ''inputData'' ''BYTE[]'' ''inputDataSize'' ''UINT16'' (ser_writeSizedByteBuf (TPM2_Vendor_TCG_Test_REQUEST_inputData self))]"

definition TPM2_Vendor_TCG_Test_REQUEST_Deserialize :: "TPM2_Vendor_TCG_Test_REQUEST \<Rightarrow> TPM2_Vendor_TCG_Test_REQUEST ser" where
  "TPM2_Vendor_TCG_Test_REQUEST_Deserialize self =
     sbind (withN ''inputData'' ''BYTE[]'' ''inputDataSize'' ''UINT16'' ser_readSizedByteBuf) (\<lambda>inputData.
     ret (self\<lparr>TPM2_Vendor_TCG_Test_REQUEST_inputData := inputData\<rparr>))"

definition TPM2_Vendor_TCG_Test_REQUEST_text_ok :: "text_class \<Rightarrow> TPM2_Vendor_TCG_Test_REQUEST \<Rightarrow> bool" where
  "TPM2_Vendor_TCG_Test_REQUEST_text_ok c x \<longleftrightarrow>
     length (TPM2_Vendor_TCG_Test_REQUEST_inputData x) < 2 ^ 64"

interpretation TPM2_Vendor_TCG_Test_REQUEST_text: text_codec "''TPM2_Vendor_TCG_Test_REQUEST''" TPM2_Vendor_TCG_Test_REQUEST_Serialize TPM2_Vendor_TCG_Test_REQUEST_Deserialize TPM2_Vendor_TCG_Test_REQUEST_default TPM2_Vendor_TCG_Test_REQUEST_text_ok
proof
  show "word_ok ''TPM2_Vendor_TCG_Test_REQUEST''" by (simp add: word_simps)
  fix c x assume ok: "TPM2_Vendor_TCG_Test_REQUEST_text_ok c x"
  from ok show "carries c True (TPM2_Vendor_TCG_Test_REQUEST_Serialize x) (TPM2_Vendor_TCG_Test_REQUEST_Deserialize TPM2_Vendor_TCG_Test_REQUEST_default) x"
    by (simp only: TPM2_Vendor_TCG_Test_REQUEST_Serialize_def TPM2_Vendor_TCG_Test_REQUEST_Deserialize_def TPM2_Vendor_TCG_Test_REQUEST_default_def
       TPM2_Vendor_TCG_Test_REQUEST.select_convs TPM2_Vendor_TCG_Test_REQUEST.update_convs;
      intro carries_body;
      (rule TPM2_Vendor_TCG_Test_REQUEST.equality)?; simp add: TPM2_Vendor_TCG_Test_REQUEST_text_ok_def word_simps)
qed

subsection \<open>Vendor_TCG_TestResponse\<close>

definition Vendor_TCG_TestResponse_Serialize :: "Vendor_TCG_TestResponse \<Rightarrow> unit ser" where
  "Vendor_TCG_TestResponse_Serialize self = wseq
     [withN ''outputData'' ''BYTE[]'' ''outputDataSize'' ''UINT16'' (ser_writeSizedByteBuf (Vendor_TCG_TestResponse_outputData self))]"

definition Vendor_TCG_TestResponse_Deserialize :: "Vendor_TCG_TestResponse \<Rightarrow> Vendor_TCG_TestResponse ser" where
  "Vendor_TCG_TestResponse_Deserialize self =
     sbind (withN ''outputData'' ''BYTE[]'' ''outputDataSize'' ''UINT16'' ser_readSizedByteBuf) (\<lambda>outputData.
     ret (self\<lparr>Vendor_TCG_TestResponse_outputData := outputData\<rparr>))"

definition Vendor_TCG_TestResponse_text_ok :: "text_class \<Rightarrow> Vendor_TCG_TestResponse \<Rightarrow> bool" where
  "Vendor_TCG_TestResponse_text_ok c x \<longleftrightarrow>
     length (Vendor_TCG_TestResponse_outputData x) < 2 ^ 64"

interpretation Vendor_TCG_TestResponse_text: text_codec "''Vendor_TCG_TestResponse''" Vendor_TCG_TestResponse_Serialize Vendor_TCG_TestResponse_Deserialize Vendor_TCG_TestResponse_default Vendor_TCG_TestResponse_text_ok
proof
  show "word_ok ''Vendor_TCG_TestResponse''" by (simp add: word_simps)
  fix c x assume ok: "Vendor_TCG_TestResponse_text_ok c x"
  from ok show "carries c True (Vendor_TCG_TestResponse_Serialize x) (Vendor_TCG_TestResponse_Deserialize Vendor_TCG_TestResponse_default) x"
    by (simp only: Vendor_TCG_TestResponse_Serialize_def Vendor_TCG_TestResponse_Deserialize_def Vendor_TCG_TestResponse_default_def
       Vendor_TCG_TestResponse.select_convs Vendor_TCG_TestResponse.update_convs;
      intro carries_body;
      (rule Vendor_TCG_TestResponse.equality)?; simp add: Vendor_TCG_TestResponse_text_ok_def word_simps)
qed

end
