(* ===== verification/TextLimits.thy ===== *)
theory TextLimits
  imports TextNvTypes
begin

text \<open>
  What the text form does not carry. \<open>readEnumArr\<close> reads the size of an array twice and never its
  elements, so the text of an object with an array of enumerators is refused; a capability whose selector
  is 0 (\<open>TPM_CAP::ALGS\<close>) is taken for none, and its data is met where the object should end.
\<close>

section \<open>The start of a JSON text\<close>

definition json_start :: "(string \<Rightarrow> bool) \<Rightarrow> TextSerializer" where
  "json_start p = (new_JsonSerializer p)\<lparr>ts_buf := ''{'' @ eol, ts_newLine := True, ts_indent := 4\<rparr>"

lemma json_start_simps [simp]:
  "ts_class (json_start p) = JsonSerializer" "ts_buf (json_start p) = ''{'' @ eol"
  "ts_newLine (json_start p)" "ts_indent (json_start p) = 4" "\<not> ts_commaExpected (json_start p)"
  "\<not> ts_useComma (json_start p)" "writer_ok JsonSerializer p (json_start p)" "ts_pooled (json_start p) = p"
  by (simp_all add: json_start_def new_JsonSerializer_def writer_ok_def)

lemma JSON_Serialize:
  assumes "ser (json_start p) = (Ok (), s)" and "ts_indent s = 4" and "ts_buf s = ''{'' @ eol @ out"
  shows "\<exists>close. TpmStructure_Serialize p JsonSerializer tn ser = Ok (''{'' @ eol @ out @ close)"
proof -
  have "BeginWriteNamedEntry True (new_JsonSerializer p) = (Ok (), new_JsonSerializer p)"
    by (simp add: BeginWriteNamedEntry_def virt_def JsonSerializer_BeginWriteNamedEntry_def chars_def
        cstr_chars_def nstr_def sseq_def sbind_def sx_simps new_JsonSerializer_def)
  moreover have "BeginWriteObj None (new_JsonSerializer p) = (Ok (), json_start p)"
    by (simp add: BeginWriteObj_def WriteComma_def virt_def TextSerializer_WriteComma_def WriteLine_def Write_def
        TabIn_def TabSize_def expectComma_def sseq_def sbind_def sx_simps new_JsonSerializer_def json_start_def
        eol_def)
  moreover have "EndWriteObj s = (Ok (), s\<lparr>ts_buf := ts_buf s @ (if ts_newLine s then '''' else eol) @
      replicate (nat (ts_indent s - 4)) (CHR '' '') @ ''}'',
    ts_newLine := False, ts_indent := ts_indent s - 4, ts_commaExpected := True\<rparr>)"
    using assms(2) by (intro EndWriteObj_emits) simp
  moreover have "ts_class (new_JsonSerializer p) = JsonSerializer" by (simp add: new_JsonSerializer_def)
  ultimately show ?thesis
    using assms(1,3) by (simp add: TpmStructure_Serialize_def ser_Serialize_def ser_writeObj_def WriteObj_def
        virt_def JsonSerializer_WriteObj_def ser_getTextBuffer_def sseq_def sbind_def sx_simps)
qed

definition json_body :: "(string \<Rightarrow> bool) \<Rightarrow> string \<Rightarrow> TextSerializer" where
  "json_body p text' = (json_reader p text')\<lparr>ts_pos := 1\<rparr>"

lemma json_body_simps [simp]:
  "ts_class (json_body p str) = JsonSerializer" "ts_pos (json_body p str) = 1" "ts_buf (json_body p str) = str"
  "\<not> ts_commaExpected (json_body p str)" "\<not> ts_useComma (json_body p str)"
  "reader_ok JsonSerializer p (json_body p str)"
  by (simp_all add: json_body_def json_reader_def new_JsonSerializer_def reader_ok_def)

lemma JSON_Deserialize:
  assumes "str = ''{'' @ rest"
  shows "TpmStructure_Deserialize p JsonSerializer str tn deser =
    fst (sbind deser (\<lambda>x. sseq EndReadObj (ret x)) (json_body p str))"
proof -
  have b: "rest_of (json_reader p str) = '''' @ CHR ''{'' # rest"
    using assms by (simp add: rest_of_def json_reader_def new_JsonSerializer_def)
  have "SkipSpace (json_reader p str) = (Ok (), json_reader p str)"
    using SkipSpace_blanks [OF b] by (simp add: is_blank_def)
  moreover have "cur_char (json_reader p str) = (Ok (CHR ''{''), json_reader p str)"
    using cur_char_rest b by simp
  moreover have "Next (CHR ''{'') (json_reader p str) = (Ok (), skip 1 (json_reader p str))"
    using Next_reads [OF b] by (simp add: is_blank_def)
  moreover have "(skip 1 (json_reader p str))\<lparr>ts_commaExpected := False\<rparr> = json_body p str"
    by (simp add: skip_def json_body_def json_reader_def new_JsonSerializer_def)
  moreover have "ts_class (json_reader p str) = JsonSerializer" "\<not> ts_commaExpected (json_reader p str)"
    by (simp_all add: json_reader_def new_JsonSerializer_def)
  ultimately show ?thesis
    by (simp add: TpmStructure_Deserialize_def ser_Deserialize_def ser_readObj_def BeginReadNamedEntry_def virt_def
        JsonSerializer_BeginReadNamedEntry_def ReadObj_def JsonSerializer_ReadObj_def BeginReadObj_def ReadComma_def
        TextSerializer_ReadComma_def expectComma_def sseq_def sbind_def sx_simps)
qed

lemma Next_misses:
  assumes "rest_of t = ws @ d # zs" and "blanks ws" and "\<not> is_blank d" and "d \<noteq> c"
  shows "fst (Next c t) = Throw (throwMissingAt [c] (ts_pos t + length ws))"
proof -
  have "cur_char (skip (length ws) t) = (Ok d, skip (length ws) t)"
    using assms by (intro cur_char_rest) simp
  then show ?thesis
    using assms(4) by (simp add: Next_def sseq_def sbind_def SkipSpace_blanks [OF assms(1-3)])
qed

section \<open>Arrays of enumerators\<close>

lemma carries_nums: "carries JsonSerializer False (wseq (map (\<lambda>v. WriteNum (f v)) vs))
    (foldr (\<lambda>_ r. sbind ReadNum (\<lambda>_. r)) vs (ret ())) ()"
proof (induction vs)
  case Nil
  then show ?case using carries_ret by simp
next
  case (Cons v vs)
  then show ?case by (simp add: carries_sseq [OF carries_json_num])
qed

text \<open>The text has the size, and the elements behind it.\<close>

lemma JSON_writes_enum_array:
  assumes n: "n \<noteq> ''''" "ty \<noteq> ''''" "sn \<noteq> ''''" "st \<noteq> ''''" and k: "valSize \<in> {1, 2, 4}"
  shows "\<exists>s rest. withN n ty sn st (ser_writeEnumArr arr valSize enumID) (json_start p) = (Ok (), s) \<and>
    ts_indent s = 4 \<and> (\<forall>zs. no_digit JsonSerializer (rest @ zs)) \<and>
    ts_buf s = ''{'' @ eol @ head_text (json_start p) st sn @ num_text JsonSerializer (of_nat (length arr)) @ rest"
proof -
  let ?s = "(json_start p)\<lparr>ts_valName := Lit n, ts_valType := Lit ty, ts_sizeName := Lit sn, ts_sizeType := Lit st\<rparr>"
  let ?num = "num_text JsonSerializer (of_nat (length arr))"
  define s1 where "s1 = ?s\<lparr>ts_buf := ts_buf ?s @ head_text ?s st sn @ ?num, ts_newLine := False,
    ts_commaExpected := True, ts_sizeName := nstr, ts_sizeType := nstr\<rparr>"
  have 1: "WriteArrSize (length arr) ?s = (Ok (), s1)"
    using WriteArrSize_emits [of ?s n ty sn st "length arr"] n by (simp add: s1_def)
  define s2 where "s2 = s1\<lparr>ts_buf := ts_buf s1 @ head_text s1 ty n, ts_newLine := False, ts_valName := nstr,
    ts_commaExpected := False\<rparr>"
  have 2: "BeginWriteNamedEntry False s1 = (Ok (), s2)"
    using BeginWriteNamedEntry_emits [of s1 n ty False] n by (simp add: s1_def s2_def)
  have ok2: "writer_ok JsonSerializer p s2" "\<not> ts_newLine s2" "\<not> ts_commaExpected s2"
    by (simp_all add: s1_def s2_def writer_ok_def json_start_def new_JsonSerializer_def)
  obtain tx s3 where 3: "wseq [BeginWriteArr False, wseq (map (\<lambda>v. WriteNum (ucast v)) arr), EndWriteArr False] s2 =
      (Ok (), s3)" "ts_buf s3 = ts_buf s2 @ ''['' @ tx" "ts_indent s3 = ts_indent s2"
    using bracketed [OF carries_nums [of ucast arr] ok2, of False] by blast
  have "withN n ty sn st (ser_writeEnumArr arr valSize enumID) (json_start p) = (Ok (), s3)"
    using 1 2 3(1) k
    by (simp add: withN_def ser_with_def ser_writeEnumArr_def virt_def JsonSerializer_writeEnumArr_def sseq_def
        sbind_def sx_simps)
  moreover have "\<forall>zs. no_digit JsonSerializer ((head_text s1 ty n @ ''['' @ tx) @ zs)"
    using keeps_end_head [of s1 JsonSerializer False ty n "''['' @ tx"] by (simp add: s1_def keeps_end_def)
  moreover have "ts_buf s3 = ''{'' @ eol @ head_text (json_start p) st sn @ ?num @ head_text s1 ty n @ ''['' @ tx"
    using 3(2) by (simp add: s2_def) (simp add: s1_def)
  moreover have "ts_indent s3 = 4" using 3(3) by (simp add: s2_def s1_def)
  ultimately show ?thesis by blast
qed

text \<open>
  The reader finds the size, goes back to the start, and looks for the comma that separates an entry from
  the one before it.
\<close>

lemma head_text_start: "head_text (json_start p) st sn =
    replicate 4 (CHR '' '') @ CHR 0x22 # sn @ CHR 0x22 # '' : ''"
  by (simp add: head_text_def comma_text_def ind_def)

lemma ReadArrSize_at_start:
  assumes r: "rest_of t = eol @ replicate 4 (CHR '' '') @ CHR 0x22 # zs" and t: "ts_class t = JsonSerializer"
    "ts_commaExpected t"
  shows "fst (ReadArrSize t) = Throw (throwMissingAt '','' (ts_pos t + 5))"
proof -
  define t1 where "t1 = t\<lparr>ts_valName := ts_sizeName t, ts_sizeName := ts_valName t, ts_valType := ts_sizeType t,
    ts_sizeType := ts_valType t\<rparr>"
  have c1: "ts_class t1 = JsonSerializer" "ts_commaExpected t1" "ts_pos t1 = ts_pos t" using t by (simp_all add: t1_def)
  let ?ws = "eol @ replicate 4 (CHR '' '')"
  have r1: "rest_of t1 = ?ws @ CHR 0x22 # zs" using r by (simp add: t1_def)
  have 1: "SkipSpace t1 = (Ok (), skip 5 t1)"
    using SkipSpace_blanks [OF r1] by (simp add: is_blank_def eol_def numeral_eq_Suc)
  have r2: "rest_of (skip 5 t1) = '''' @ CHR 0x22 # zs"
    by (rule rest_of_step [of 0 _ ?ws]) (use r1 in \<open>simp_all add: eol_def\<close>)
  have 2: "cur_char (skip 5 t1) = (Ok (CHR 0x22), skip 5 t1)"
    using cur_char_rest r2 by simp
  have 3: "fst (Next (CHR '','') (skip 5 t1)) = Throw (throwMissingAt '','' (ts_pos t + 5))"
    using Next_misses [OF r2] c1 by (simp add: is_blank_def)
  have 4: "ReadComma (skip 5 t1) = Next (CHR '','') (skip 5 t1)"
    using c1 by (simp add: ReadComma_def virt_def TextSerializer_ReadComma_def)
  have "BeginArrSizeOp t = (Ok (), t1)" by (simp add: BeginArrSizeOp_def modifyS_app t1_def)
  then show ?thesis
    using 1 2 3 4 c1 by (cases "Next (CHR '','') (skip 5 t1)")
      (simp add: ReadArrSize_def ser_readNum_def BeginReadNamedEntry_def virt_def
        JsonSerializer_BeginReadNamedEntry_def sseq_def sbind_def)
qed

lemma JSON_reads_no_enum_array:
  assumes r: "rest_of t = eol @ head_text (json_start p) st sn @ num_text JsonSerializer (of_nat k) @ rest"
    and nd: "no_digit JsonSerializer rest" and w: "word_ok sn" "word_ok st"
    and t: "ts_class t = JsonSerializer" "\<not> ts_commaExpected t" "\<not> ts_useComma t"
  shows "fst (withN n ty sn st (ser_readEnumArr arr valSize enumID) t) =
    Throw (throwMissingAt '','' (ts_pos t + 5))"
proof -
  define t1 where "t1 = t\<lparr>ts_valName := Lit n, ts_valType := Lit ty, ts_sizeName := Lit sn, ts_sizeType := Lit st\<rparr>"
  define k' where "k' = unat (of_nat k :: UINT64)"
  have k': "k' < 2 ^ 64" using unsigned_less [of "of_nat k :: UINT64"] by (simp add: k'_def)
  have r1: "rest_of t1 = eol @ head_text (json_start p) st sn @
      num_text (ts_class (json_start p)) (of_nat k') @ rest"
    using r by (simp add: t1_def k'_def)
  define t2 where "t2 = (skip (length eol + length (head_text (json_start p) st sn) +
      length (num_text (ts_class (json_start p)) (of_nat k'))) t1)
    \<lparr>ts_commaExpected := True, ts_sizeName := nstr, ts_sizeType := nstr\<rparr>"
  have 1: "ReadArrSize t1 = (Ok k', t2)"
    unfolding t2_def
    by (rule ReadArrSize_reads [OF _ _ _ _ _ _ w(1) _ w(2) k' _ r1 blanks_ind(3)])
      (use t nd in \<open>simp_all add: t1_def\<close>)
  define t3 where "t3 = t2\<lparr>ts_pos := ts_pos t1\<rparr>"
  have r3: "rest_of t3 = eol @ replicate 4 (CHR '' '') @
      CHR 0x22 # sn @ CHR 0x22 # '' : '' @ num_text JsonSerializer (of_nat k') @ rest"
    using r1 by (simp add: rest_of_def t3_def t2_def head_text_start)
  have "fst (ReadArrSize t3) = Throw (throwMissingAt '','' (ts_pos t + 5))"
    using ReadArrSize_at_start [OF r3] t by (simp add: t3_def t2_def t1_def)
  moreover have "withN n ty sn st (ser_readEnumArr arr valSize enumID) t = ser_readEnumArr arr valSize enumID t1"
    by (simp add: withN_def ser_with_def sseq_def sbind_def modifyS_app t1_def)
  ultimately show ?thesis
    using 1 by (cases "ReadArrSize t3")
      (simp add: ser_readEnumArr_def TextSerializer_readEnumArr_def sbind_def sseq_def sx_simps ser_getCurPos_def
        ser_setCurPos_def t3_def)
qed

lemma enum_array_refused:
  assumes n: "word_ok n" "word_ok ty" "word_ok sn" "word_ok st" and k: "valSize \<in> {1, 2, 4}"
  shows "\<exists>str. TpmStructure_Serialize p JsonSerializer tn
      (wseq [withN n ty sn st (ser_writeEnumArr arr valSize enumID)]) = Ok str \<and>
    TpmStructure_Deserialize p JsonSerializer str tn
      (sbind (withN n ty sn st (ser_readEnumArr arr' valSize enumID)) f) = Throw (throwMissingAt '','' 6)"
proof -
  have ne: "n \<noteq> ''''" "ty \<noteq> ''''" "sn \<noteq> ''''" "st \<noteq> ''''" using word_okD n by blast+
  let ?num = "num_text JsonSerializer (of_nat (length arr))"
  let ?W = "withN n ty sn st (ser_writeEnumArr arr valSize enumID)"
  let ?R = "withN n ty sn st (ser_readEnumArr arr' valSize enumID)"
  obtain s rest where s: "?W (json_start p) = (Ok (), s)" "ts_indent s = 4" "\<And>zs. no_digit JsonSerializer (rest @ zs)"
      "ts_buf s = ''{'' @ eol @ head_text (json_start p) st sn @ ?num @ rest"
    using JSON_writes_enum_array [OF ne k] by blast
  have "wseq [?W] (json_start p) = (Ok (), s)" using s(1) by (simp add: sseq_def sbind_def sx_simps)
  then obtain close where str: "TpmStructure_Serialize p JsonSerializer tn (wseq [?W]) =
      Ok (''{'' @ eol @ (head_text (json_start p) st sn @ ?num @ rest) @ close)"
    using JSON_Serialize s(2,4) by blast
  let ?str = "''{'' @ eol @ (head_text (json_start p) st sn @ ?num @ rest) @ close"
  have r: "rest_of (json_body p ?str) = eol @ head_text (json_start p) st sn @ ?num @ rest @ close"
    by (simp add: rest_of_def)
  have "fst (?R (json_body p ?str)) = Throw (throwMissingAt '','' (ts_pos (json_body p ?str) + 5))"
    by (rule JSON_reads_no_enum_array [OF r s(3) n(3,4)]) simp_all
  then have "fst (sbind (sbind ?R f) (\<lambda>x. sseq EndReadObj (ret x)) (json_body p ?str)) = Throw (throwMissingAt '','' 6)"
    by (cases "?R (json_body p ?str)") (simp add: sbind_def)
  then have "TpmStructure_Deserialize p JsonSerializer ?str tn (sbind ?R f) = Throw (throwMissingAt '','' 6)"
    by (subst JSON_Deserialize [where rest = "eol @ (head_text (json_start p) st sn @ ?num @ rest) @ close"]) simp_all
  then show ?thesis using str by blast
qed

section \<open>The capability TPM_CAP::ALGS\<close>

text \<open>An entry with a number, at the start of a JSON object.\<close>

lemma JSON_writes_first_enum:
  assumes "n \<noteq> ''''" and "ty \<noteq> ''''"
  shows "\<exists>s. withN n ty sn st (ser_writeEnumT v enumID) (json_start p) = (Ok (), s) \<and>
    writer_ok JsonSerializer p s \<and> ts_indent s = 4 \<and> ts_commaExpected s \<and> \<not> ts_newLine s \<and>
    ts_buf s = ''{'' @ eol @ head_text (json_start p) ty n @ num_text JsonSerializer (ucast (ucast v :: UINT32))"
proof -
  let ?s = "(json_start p)\<lparr>ts_valName := Lit n, ts_valType := Lit ty, ts_sizeName := Lit sn, ts_sizeType := Lit st\<rparr>"
  define s1 where "s1 = ?s\<lparr>ts_buf := ts_buf ?s @ head_text ?s ty n, ts_newLine := False, ts_valName := nstr,
    ts_commaExpected := False\<rparr>"
  have 1: "BeginWriteNamedEntry False ?s = (Ok (), s1)"
    using BeginWriteNamedEntry_emits [of ?s n ty False] assms by (simp add: s1_def)
  have s1: "ts_class s1 = JsonSerializer" "\<not> ts_commaExpected s1" "\<not> ts_newLine s1" "0 \<le> ts_indent s1"
    "\<not> ts_useComma s1"
    by (simp_all add: s1_def)
  have 2: "WriteEnum (ucast v) enumID s1 = (Ok (), s1\<lparr>ts_buf := ts_buf s1 @ enum_text JsonSerializer (ucast v) enumID,
      ts_commaExpected := True\<rparr>)"
    using WriteEnum_emits [of s1 "ucast v" enumID] s1 by simp
  show ?thesis
    using 1 2 by (simp add: withN_def ser_with_def ser_writeEnumT_def ser_writeEnum_def sseq_def sbind_def sx_simps
        enum_text_def) (simp add: s1_def writer_ok_def)
qed

lemma JSON_reads_first_enum:
  assumes n: "word_ok n" "word_ok ty" and nd: "no_digit JsonSerializer rest"
    and r: "rest_of t = eol @ head_text (json_start p) ty n @ num_text JsonSerializer (ucast (ucast v :: UINT32)) @ rest"
    and t: "reader_ok JsonSerializer p t" "\<not> ts_commaExpected t" and v: "ucast (ucast v :: UINT32) = v"
  shows "\<exists>t'. withN n ty sn st (ser_readEnumT enumID) t = (Ok v, t') \<and> reader_ok JsonSerializer p t' \<and>
    rest_of t' = rest \<and> ts_commaExpected t' \<and>
    ts_pos t' = ts_pos t + 1 + length (head_text (json_start p) ty n) + length (num_text JsonSerializer (ucast (ucast v :: UINT32)))"
proof -
  let ?num = "num_text JsonSerializer (ucast (ucast v :: UINT32))"
  let ?h = "head_text (json_start p) ty n"
  let ?t = "t\<lparr>ts_valName := Lit n, ts_valType := Lit ty, ts_sizeName := Lit sn, ts_sizeType := Lit st\<rparr>"
  obtain y ys where y: "?num = y # ys" "isdigit y" using num_text_hd by blast
  have r0: "rest_of ?t = eol @ ?h @ '''' @ y # (ys @ rest)" using r y by simp
  define t1 where "t1 = (skip (length eol + length ?h + length '''') ?t)\<lparr>ts_commaExpected := False\<rparr>"
  have 1: "BeginReadNamedEntry ?t = (Ok (), t1)"
    using BeginReadNamedEntry_reads [OF _ _ _ _ n(1) _ n(2) r0 blanks_ind(3)] t digit_chars [OF y(2)]
    by (simp add: reader_ok_def t1_def)
  have "rest_of (skip (length eol + length ?h + length '''') ?t) = y # (ys @ rest)"
    by (rule rest_of_step [of 0 _ "eol @ ?h"]) (use r0 in simp_all)
  then have r1: "rest_of t1 = enum_text JsonSerializer (ucast v) enumID @ rest"
    using y by (simp add: t1_def enum_text_def)
  have 2: "ReadEnum enumID t1 = (Ok (ucast v), (skip (length (enum_text JsonSerializer (ucast v) enumID)) t1)
      \<lparr>ts_commaExpected := True\<rparr>)"
    by (rule ReadEnum_reads [OF _ _ _ _ r1 nd]) (use t in \<open>simp_all add: t1_def reader_ok_def\<close>)
  have r2: "rest_of (skip (length (enum_text JsonSerializer (ucast v) enumID)) t1) = rest"
    by (rule rest_of_step [of 0 _ "enum_text JsonSerializer (ucast v) enumID"]) (use r1 in simp_all)
  show ?thesis
    using 1 2 r2 v t(1)
    by (simp add: withN_def ser_with_def ser_readEnumT_def ser_readEnum_def sseq_def sbind_def sx_simps)
      (simp add: t1_def reader_ok_def enum_text_def eol_def)
qed

text \<open>An object as a further entry: its text begins with the comma.\<close>

lemma JSON_writes_next_obj:
  assumes body: "carries JsonSerializer b ser deser y" and n: "word_ok n" "word_ok ty" "word_ok tn"
    and s: "writer_ok JsonSerializer p s" "ts_commaExpected s" "\<not> ts_newLine s"
  shows "\<exists>s' tail. withN n ty sn st (ser_writeObj tn ser) s = (Ok (), s') \<and> ts_indent s' = ts_indent s \<and>
    ts_buf s' = ts_buf s @ CHR '','' # tail"
proof -
  let ?s = "s\<lparr>ts_valName := Lit n, ts_valType := Lit ty, ts_sizeName := Lit sn, ts_sizeType := Lit st\<rparr>"
  have ne: "n \<noteq> ''''" "ty \<noteq> ''''" using word_okD n by blast+
  define s1 where "s1 = ?s\<lparr>ts_buf := ts_buf s @ head_text ?s ty n, ts_newLine := False, ts_valName := nstr,
    ts_commaExpected := False\<rparr>"
  have 1: "BeginWriteNamedEntry True ?s = (Ok (), s1)"
    using BeginWriteNamedEntry_emits [of ?s n ty True] ne s by (simp add: s1_def writer_ok_def)
  obtain tail s2 where 2: "WriteObj tn ser s1 = (Ok (), s2)" "ts_indent s2 = ts_indent s1"
      "ts_buf s2 = ts_buf s1 @ comma_text s1 @ obj_gap JsonSerializer (same_type tn s1) @
        obj_name JsonSerializer (same_type tn s1) tn @ ''{'' @ tail"
    by (rule WriteObj_carries [OF body n(3), of s1 p]) (use s in \<open>simp_all add: writer_ok_def s1_def\<close>)
  have "head_text ?s ty n = CHR '','' # (eol @ spaces s @ CHR 0x22 # n @ CHR 0x22 # '' : '')"
    using s by (simp add: head_text_def comma_text_def ind_def writer_ok_def)
  then have "ts_buf s2 = ts_buf s @ CHR '','' # (eol @ spaces s @ CHR 0x22 # n @ CHR 0x22 # '' : '' @ comma_text s1 @
      obj_gap JsonSerializer (same_type tn s1) @ obj_name JsonSerializer (same_type tn s1) tn @ ''{'' @ tail)"
    using 2(3) by (simp add: s1_def)
  then show ?thesis
    using 1 2 by (simp add: withN_def ser_with_def ser_writeObj_def sseq_def sbind_def sx_simps s1_def)
qed

lemma ALGS_capability_refused:
  assumes ok: "TPML_ALG_PROPERTY_text_ok JsonSerializer x"
  shows "\<exists>str. TpmStructure_Serialize p JsonSerializer ''TPMS_CAPABILITY_DATA''
      (TPMS_CAPABILITY_DATA_Serialize \<lparr>TPMS_CAPABILITY_DATA_data = Some (CAPABILITIES_TPML_ALG_PROPERTY x)\<rparr>) = Ok str \<and>
    TpmStructure_Deserialize p JsonSerializer str ''TPMS_CAPABILITY_DATA''
      (TPMS_CAPABILITY_DATA_Deserialize TPMS_CAPABILITY_DATA_default) = Throw (throwMissingAt ''}'' 22)"
proof -
  let ?W1 = "withN ''capability'' ''TPM_CAP'' '''' '''' (ser_writeEnumT (0 :: TPM_CAP) TPM_CAP_ID)"
  let ?W2 = "withN ''data'' ''TPMU_CAPABILITIES'' '''' '''' (ser_writeObj ''TPML_ALG_PROPERTY'' (TPML_ALG_PROPERTY_Serialize x))"
  let ?R1 = "withN ''capability'' ''TPM_CAP'' '''' '''' (ser_readEnumT TPM_CAP_ID) :: TPM_CAP ser"
  have w: "word_ok ''capability''" "word_ok ''TPM_CAP''" "word_ok ''data''" "word_ok ''TPMU_CAPABILITIES''"
    by (simp_all add: word_simps)
  let ?h = "head_text (json_start p) ''TPM_CAP'' ''capability''"
  obtain s1 where s1: "?W1 (json_start p) = (Ok (), s1)" "writer_ok JsonSerializer p s1" "ts_indent s1 = 4"
      "ts_commaExpected s1" "\<not> ts_newLine s1" "ts_buf s1 = ''{'' @ eol @ ?h @ num_text JsonSerializer 0"
    using JSON_writes_first_enum [of "''capability''" "''TPM_CAP''" "''''" "''''" "0 :: TPM_CAP" TPM_CAP_ID p] by auto
  obtain s2 tail where s2: "?W2 s1 = (Ok (), s2)" "ts_indent s2 = 4" "ts_buf s2 = ts_buf s1 @ CHR '','' # tail"
    using JSON_writes_next_obj [OF TPML_ALG_PROPERTY_text.carried [OF ok] w(3,4) TPML_ALG_PROPERTY_text.name_ok s1(2,4,5)]
      s1(3) by metis
  let ?x = "\<lparr>TPMS_CAPABILITY_DATA_data = Some (CAPABILITIES_TPML_ALG_PROPERTY x)\<rparr>"
  have "TPMS_CAPABILITY_DATA_Serialize ?x = wseq [?W1, ?W2]"
    by (simp add: TPMS_CAPABILITY_DATA_Serialize_def selector_or_def if_set_def)
  moreover have "wseq [?W1, ?W2] (json_start p) = (Ok (), s2)"
    using s1(1) s2(1) by (simp add: sseq_def sbind_def sx_simps)
  ultimately have ser: "TPMS_CAPABILITY_DATA_Serialize ?x (json_start p) = (Ok (), s2)" by simp
  have buf: "ts_buf s2 = ''{'' @ eol @ (?h @ num_text JsonSerializer 0 @ CHR '','' # tail)"
    using s1(6) s2(3) by simp
  obtain close where str: "TpmStructure_Serialize p JsonSerializer ''TPMS_CAPABILITY_DATA''
      (TPMS_CAPABILITY_DATA_Serialize ?x) = Ok (''{'' @ eol @ (?h @ num_text JsonSerializer 0 @ CHR '','' # tail) @ close)"
    using JSON_Serialize [where p = p and s = s2 and ser = "TPMS_CAPABILITY_DATA_Serialize ?x", OF ser s2(2) buf] by blast
  let ?str = "''{'' @ eol @ (?h @ num_text JsonSerializer 0 @ CHR '','' # tail) @ close"
  have "no_digit JsonSerializer (CHR '','' # tail @ close)" by (simp add: no_digit_def isdnum_def isdigit_def)
  then obtain t where t: "?R1 (json_body p ?str) = (Ok 0, t)" "rest_of t = '''' @ CHR '','' # (tail @ close)"
      "ts_pos t = 1 + 1 + length ?h + length (num_text JsonSerializer 0)"
    using JSON_reads_first_enum [OF w(1,2), of "CHR '','' # tail @ close" "json_body p ?str" p "0 :: TPM_CAP" "''''" "''''" TPM_CAP_ID]
    by (auto simp: rest_of_def)
  have pos: "ts_pos t = 22"
    using t(3) by (simp add: head_text_start num_text_def to_string.simps [of 0])
  have "fst (Next (CHR ''}'') t) = Throw (throwMissingAt ''}'' 22)"
    using Next_misses [OF t(2)] pos by (simp add: is_blank_def)
  then have "fst (sbind (TPMS_CAPABILITY_DATA_Deserialize TPMS_CAPABILITY_DATA_default)
      (\<lambda>x. sseq EndReadObj (ret x)) (json_body p ?str)) = Throw (throwMissingAt ''}'' 22)"
    using t(1) by (cases "Next (CHR ''}'') t")
      (simp add: TPMS_CAPABILITY_DATA_Deserialize_def reset_or_create_def read_if_set_def EndReadObj_def sbind_def
        sseq_def sx_simps)
  then have "TpmStructure_Deserialize p JsonSerializer ?str ''TPMS_CAPABILITY_DATA''
      (TPMS_CAPABILITY_DATA_Deserialize TPMS_CAPABILITY_DATA_default) = Throw (throwMissingAt ''}'' 22)"
    by (subst JSON_Deserialize [where rest = "eol @ (?h @ num_text JsonSerializer 0 @ CHR '','' # tail) @ close"]) simp_all
  then show ?thesis using str by blast
qed

end
