(* ===== verification/Tpm2SyncAsync.thy ===== *)
theory Tpm2SyncAsync
  imports Tpm2Behaviour Tpm2Methods Tpm2Async Tpm2Complete
begin

text \<open>
  A command of \<open>Tpm2\<close> and the two halves of the same command in \<open>Tpm2::AsyncMethods\<close>. Both are made of
  \<open>DispatchOut\<close> and \<open>DispatchIn\<close>; they can only differ when the TPM asks for the command again, for which
  \<open>Dispatch\<close> has a loop and the methods of \<open>AsyncMethods\<close> have none.
\<close>

section \<open>DispatchIn is done unless the response asks for a retry\<close>

definition ends_done :: "('s, bool \<times> 'a) sx \<Rightarrow> bool" where
  "ends_done m \<longleftrightarrow> (\<forall>s b x t. m s = (Ok (b, x), t) \<longrightarrow> b)"

named_theorems done_intros \<open>sequences that end with the flag set\<close>

lemma ends_done_sbind [done_intros]: "(\<And>x. ends_done (f x)) \<Longrightarrow> ends_done (sbind m f)"
  by (fastforce simp: ends_done_def sbind_eq_Ok)

lemma ends_done_sseq [done_intros]: "ends_done k \<Longrightarrow> ends_done (sseq m k)"
  by (fastforce simp: ends_done_def sseq_eq_Ok)

lemma ends_done_ret [done_intros]: "ends_done (ret (True, x))"
  by (simp add: ends_done_def ret_app)

lemma ends_done_throw [done_intros]: "ends_done (throw e)"
  by (simp add: ends_done_def throw_app)

lemma ends_done_if [done_intros]: "ends_done m \<Longrightarrow> ends_done k \<Longrightarrow> ends_done (if c then m else k)"
  by simp

lemma ends_done_prod [done_intros]: "(\<And>a b. ends_done (f a b)) \<Longrightarrow> ends_done (case p of (a, b) \<Rightarrow> f a b)"
  by (cases p) simp

lemma complete_command_done: "ends_done (complete_command ossl m cc audit tag resp buf)"
  unfolding complete_command_def Let_def by (intro done_intros)

lemma DispatchIn_done:
  assumes "tp_device t = Some d" and "dev_GetResponse dev d = (Ok (raw_response tag code body), d')"
    and "length body + 10 < 2 ^ 32" and "code \<noteq> TPM_RC_RETRY"
  shows "DispatchIn ossl dev m cc resp t \<noteq> (Ok (False, resp'), v)"
proof (cases "awaits cc t")
  case True
  let ?u = "noted code (received d' (raw_response tag code body) t)"
  let ?k = "sseq (if code = TPM_RC_SUCCESS then CompleteUpdateRequestHandles cc else ret ())
       (sbind getS (\<lambda>w. sseq ClearInvocationState
         (if error_message w cc code \<noteq> ''''
          then sseq clear_Sessions (throw (system_error (tp_LastResponseCode w) (error_message w cc code)))
          else if tp_LastResponseCode w \<noteq> TPM_RC_SUCCESS then sseq clear_Sessions (ret (True, resp))
          else complete_command ossl m cc (tp_AuditCommand w) tag resp
            (adv 10 (TpmBuffer_of (raw_response tag code body))))))"
  have "ends_done (sseq (if code = TPM_RC_SUCCESS then CompleteUpdateRequestHandles cc else ret ())
       (sbind getS (\<lambda>w. sseq ClearInvocationState
         (if error_message w cc code \<noteq> ''''
          then sseq clear_Sessions (throw (system_error (tp_LastResponseCode w) (error_message w cc code)))
          else if tp_LastResponseCode w \<noteq> TPM_RC_SUCCESS then sseq clear_Sessions (ret (True, resp))
          else complete_command ossl m cc (tp_AuditCommand w) tag resp
            (adv 10 (TpmBuffer_of (raw_response tag code body)))))))"
    by (intro done_intros complete_command_done)
  then have "?k ?u \<noteq> (Ok (False, resp'), v)" unfolding ends_done_def by blast
  then show ?thesis
    unfolding DispatchIn_header [OF True assms(1-3), of ossl m resp] Let_def using assms(4) by (simp only: if_False not_False_eq_True)
next
  case False
  then show ?thesis by (auto simp: DispatchIn_def sbind_def getS_app throw_app awaits_def)
qed

section \<open>Both ways to run a command\<close>

lemma Dispatch_in_one_round:
  assumes "DispatchOut ossl dev cc req t = (Ok (True, req'), t1)"
    and "\<And>resp' v. DispatchIn ossl dev m cc resp t1 \<noteq> (Ok (False, resp'), v)"
  shows "Dispatch ossl dev m cc req resp t =
    Some (sbind (DispatchIn ossl dev m cc resp) (\<lambda>(_, resp). ret resp) t1)"
  using assms by (auto simp: Dispatch_def Dispatch_loop.simps [of ossl dev m cc req resp t] sbind_def ret_app
      split: prod.splits outcome.splits)

lemma returning_Some:
  "m t = Some (sbind k (\<lambda>(_, x). ret x) u) \<Longrightarrow>
   returning f m t = Some (sbind k (\<lambda>(_, x). lift (f x)) u)"
  by (auto simp: returning_def sbind_def ret_app lift_app split: prod.splits outcome.splits)

section \<open>A retry that is not noticed\<close>

text \<open>
  All the methods that take in a response, each with its command code, followed by the comparison of what it returns with
  the default of its response, with which it began.
\<close>

definition is_default :: "('d, 'a) tp \<Rightarrow> 'a \<Rightarrow> ('d, bool) tp" where
  "is_default m x = sbind m (\<lambda>r. ret (r = x))"

definition complete_methods :: "Openssl \<Rightarrow> 'd TpmDevice \<Rightarrow> (TPM_CC \<times> ('d, bool) tp) list" where
  "complete_methods ossl dev = [
     (TPM_CC_Startup, is_default (Async_StartupComplete ossl dev) ()),
     (TPM_CC_Shutdown, is_default (Async_ShutdownComplete ossl dev) ()),
     (TPM_CC_SelfTest, is_default (Async_SelfTestComplete ossl dev) ()),
     (TPM_CC_IncrementalSelfTest, is_default (Async_IncrementalSelfTestComplete ossl dev) (IncrementalSelfTestResponse_toDoList IncrementalSelfTestResponse_default)),
     (TPM_CC_GetTestResult, is_default (Async_GetTestResultComplete ossl dev) GetTestResultResponse_default),
     (TPM_CC_StartAuthSession, is_default (Async_StartAuthSessionComplete ossl dev) StartAuthSessionResponse_default),
     (TPM_CC_PolicyRestart, is_default (Async_PolicyRestartComplete ossl dev) ()),
     (TPM_CC_Create, is_default (Async_CreateComplete ossl dev) CreateResponse_default),
     (TPM_CC_Load, is_default (Async_LoadComplete ossl dev) LoadResponse_default),
     (TPM_CC_LoadExternal, is_default (Async_LoadExternalComplete ossl dev) LoadExternalResponse_default),
     (TPM_CC_ReadPublic, is_default (Async_ReadPublicComplete ossl dev) ReadPublicResponse_default),
     (TPM_CC_ActivateCredential, is_default (Async_ActivateCredentialComplete ossl dev) (ActivateCredentialResponse_certInfo ActivateCredentialResponse_default)),
     (TPM_CC_MakeCredential, is_default (Async_MakeCredentialComplete ossl dev) MakeCredentialResponse_default),
     (TPM_CC_Unseal, is_default (Async_UnsealComplete ossl dev) (UnsealResponse_outData UnsealResponse_default)),
     (TPM_CC_ObjectChangeAuth, is_default (Async_ObjectChangeAuthComplete ossl dev) (ObjectChangeAuthResponse_outPrivate ObjectChangeAuthResponse_default)),
     (TPM_CC_CreateLoaded, is_default (Async_CreateLoadedComplete ossl dev) CreateLoadedResponse_default),
     (TPM_CC_Duplicate, is_default (Async_DuplicateComplete ossl dev) DuplicateResponse_default),
     (TPM_CC_Rewrap, is_default (Async_RewrapComplete ossl dev) RewrapResponse_default),
     (TPM_CC_Import, is_default (Async_ImportComplete ossl dev) (ImportResponse_outPrivate ImportResponse_default)),
     (TPM_CC_RSA_Encrypt, is_default (Async_RSA_EncryptComplete ossl dev) (RSA_EncryptResponse_outData RSA_EncryptResponse_default)),
     (TPM_CC_RSA_Decrypt, is_default (Async_RSA_DecryptComplete ossl dev) (RSA_DecryptResponse_message RSA_DecryptResponse_default)),
     (TPM_CC_ECDH_KeyGen, is_default (Async_ECDH_KeyGenComplete ossl dev) ECDH_KeyGenResponse_default),
     (TPM_CC_ECDH_ZGen, is_default (Async_ECDH_ZGenComplete ossl dev) (ECDH_ZGenResponse_outPoint ECDH_ZGenResponse_default)),
     (TPM_CC_ECC_Parameters, is_default (Async_ECC_ParametersComplete ossl dev) (ECC_ParametersResponse_parameters ECC_ParametersResponse_default)),
     (TPM_CC_ZGen_2Phase, is_default (Async_ZGen_2PhaseComplete ossl dev) ZGen_2PhaseResponse_default),
     (TPM_CC_ECC_Encrypt, is_default (Async_ECC_EncryptComplete ossl dev) ECC_EncryptResponse_default),
     (TPM_CC_ECC_Decrypt, is_default (Async_ECC_DecryptComplete ossl dev) (ECC_DecryptResponse_plainText ECC_DecryptResponse_default)),
     (TPM_CC_EncryptDecrypt, is_default (Async_EncryptDecryptComplete ossl dev) EncryptDecryptResponse_default),
     (TPM_CC_EncryptDecrypt2, is_default (Async_EncryptDecrypt2Complete ossl dev) EncryptDecrypt2Response_default),
     (TPM_CC_Hash, is_default (Async_HashComplete ossl dev) HashResponse_default),
     (TPM_CC_HMAC, is_default (Async_HMACComplete ossl dev) (HMACResponse_outHMAC HMACResponse_default)),
     (TPM_CC_MAC, is_default (Async_MACComplete ossl dev) (MACResponse_outMAC MACResponse_default)),
     (TPM_CC_GetRandom, is_default (Async_GetRandomComplete ossl dev) (GetRandomResponse_randomBytes GetRandomResponse_default)),
     (TPM_CC_StirRandom, is_default (Async_StirRandomComplete ossl dev) ()),
     (TPM_CC_HMAC_Start, is_default (Async_HMAC_StartComplete ossl dev) (HMAC_StartResponse_handle HMAC_StartResponse_default)),
     (TPM_CC_MAC_Start, is_default (Async_MAC_StartComplete ossl dev) (MAC_StartResponse_handle MAC_StartResponse_default)),
     (TPM_CC_HashSequenceStart, is_default (Async_HashSequenceStartComplete ossl dev) (HashSequenceStartResponse_handle HashSequenceStartResponse_default)),
     (TPM_CC_SequenceUpdate, is_default (Async_SequenceUpdateComplete ossl dev) ()),
     (TPM_CC_SequenceComplete, is_default (Async_SequenceCompleteComplete ossl dev) SequenceCompleteResponse_default),
     (TPM_CC_EventSequenceComplete, is_default (Async_EventSequenceCompleteComplete ossl dev) (EventSequenceCompleteResponse_results EventSequenceCompleteResponse_default)),
     (TPM_CC_Certify, is_default (Async_CertifyComplete ossl dev) CertifyResponse_default),
     (TPM_CC_CertifyCreation, is_default (Async_CertifyCreationComplete ossl dev) CertifyCreationResponse_default),
     (TPM_CC_Quote, is_default (Async_QuoteComplete ossl dev) QuoteResponse_default),
     (TPM_CC_GetSessionAuditDigest, is_default (Async_GetSessionAuditDigestComplete ossl dev) GetSessionAuditDigestResponse_default),
     (TPM_CC_GetCommandAuditDigest, is_default (Async_GetCommandAuditDigestComplete ossl dev) GetCommandAuditDigestResponse_default),
     (TPM_CC_GetTime, is_default (Async_GetTimeComplete ossl dev) GetTimeResponse_default),
     (TPM_CC_CertifyX509, is_default (Async_CertifyX509Complete ossl dev) CertifyX509Response_default),
     (TPM_CC_Commit, is_default (Async_CommitComplete ossl dev) CommitResponse_default),
     (TPM_CC_EC_Ephemeral, is_default (Async_EC_EphemeralComplete ossl dev) EC_EphemeralResponse_default),
     (TPM_CC_VerifySignature, is_default (Async_VerifySignatureComplete ossl dev) (VerifySignatureResponse_validation VerifySignatureResponse_default)),
     (TPM_CC_Sign, is_default (Async_SignComplete ossl dev) (SignResponse_signature SignResponse_default)),
     (TPM_CC_SetCommandCodeAuditStatus, is_default (Async_SetCommandCodeAuditStatusComplete ossl dev) ()),
     (TPM_CC_PCR_Extend, is_default (Async_PCR_ExtendComplete ossl dev) ()),
     (TPM_CC_PCR_Event, is_default (Async_PCR_EventComplete ossl dev) (PCR_EventResponse_digests PCR_EventResponse_default)),
     (TPM_CC_PCR_Read, is_default (Async_PCR_ReadComplete ossl dev) PCR_ReadResponse_default),
     (TPM_CC_PCR_Allocate, is_default (Async_PCR_AllocateComplete ossl dev) PCR_AllocateResponse_default),
     (TPM_CC_PCR_SetAuthPolicy, is_default (Async_PCR_SetAuthPolicyComplete ossl dev) ()),
     (TPM_CC_PCR_SetAuthValue, is_default (Async_PCR_SetAuthValueComplete ossl dev) ()),
     (TPM_CC_PCR_Reset, is_default (Async_PCR_ResetComplete ossl dev) ()),
     (TPM_CC_PolicySigned, is_default (Async_PolicySignedComplete ossl dev) PolicySignedResponse_default),
     (TPM_CC_PolicySecret, is_default (Async_PolicySecretComplete ossl dev) PolicySecretResponse_default),
     (TPM_CC_PolicyTicket, is_default (Async_PolicyTicketComplete ossl dev) ()),
     (TPM_CC_PolicyOR, is_default (Async_PolicyORComplete ossl dev) ()),
     (TPM_CC_PolicyPCR, is_default (Async_PolicyPCRComplete ossl dev) ()),
     (TPM_CC_PolicyLocality, is_default (Async_PolicyLocalityComplete ossl dev) ()),
     (TPM_CC_PolicyNV, is_default (Async_PolicyNVComplete ossl dev) ()),
     (TPM_CC_PolicyCounterTimer, is_default (Async_PolicyCounterTimerComplete ossl dev) ()),
     (TPM_CC_PolicyCommandCode, is_default (Async_PolicyCommandCodeComplete ossl dev) ()),
     (TPM_CC_PolicyPhysicalPresence, is_default (Async_PolicyPhysicalPresenceComplete ossl dev) ()),
     (TPM_CC_PolicyCpHash, is_default (Async_PolicyCpHashComplete ossl dev) ()),
     (TPM_CC_PolicyNameHash, is_default (Async_PolicyNameHashComplete ossl dev) ()),
     (TPM_CC_PolicyDuplicationSelect, is_default (Async_PolicyDuplicationSelectComplete ossl dev) ()),
     (TPM_CC_PolicyAuthorize, is_default (Async_PolicyAuthorizeComplete ossl dev) ()),
     (TPM_CC_PolicyAuthValue, is_default (Async_PolicyAuthValueComplete ossl dev) ()),
     (TPM_CC_PolicyPassword, is_default (Async_PolicyPasswordComplete ossl dev) ()),
     (TPM_CC_PolicyGetDigest, is_default (Async_PolicyGetDigestComplete ossl dev) (PolicyGetDigestResponse_policyDigest PolicyGetDigestResponse_default)),
     (TPM_CC_PolicyNvWritten, is_default (Async_PolicyNvWrittenComplete ossl dev) ()),
     (TPM_CC_PolicyTemplate, is_default (Async_PolicyTemplateComplete ossl dev) ()),
     (TPM_CC_PolicyAuthorizeNV, is_default (Async_PolicyAuthorizeNVComplete ossl dev) ()),
     (TPM_CC_CreatePrimary, is_default (Async_CreatePrimaryComplete ossl dev) CreatePrimaryResponse_default),
     (TPM_CC_HierarchyControl, is_default (Async_HierarchyControlComplete ossl dev) ()),
     (TPM_CC_SetPrimaryPolicy, is_default (Async_SetPrimaryPolicyComplete ossl dev) ()),
     (TPM_CC_ChangePPS, is_default (Async_ChangePPSComplete ossl dev) ()),
     (TPM_CC_ChangeEPS, is_default (Async_ChangeEPSComplete ossl dev) ()),
     (TPM_CC_Clear, is_default (Async_ClearComplete ossl dev) ()),
     (TPM_CC_ClearControl, is_default (Async_ClearControlComplete ossl dev) ()),
     (TPM_CC_HierarchyChangeAuth, is_default (Async_HierarchyChangeAuthComplete ossl dev) ()),
     (TPM_CC_DictionaryAttackLockReset, is_default (Async_DictionaryAttackLockResetComplete ossl dev) ()),
     (TPM_CC_DictionaryAttackParameters, is_default (Async_DictionaryAttackParametersComplete ossl dev) ()),
     (TPM_CC_PP_Commands, is_default (Async_PP_CommandsComplete ossl dev) ()),
     (TPM_CC_SetAlgorithmSet, is_default (Async_SetAlgorithmSetComplete ossl dev) ()),
     (TPM_CC_FieldUpgradeStart, is_default (Async_FieldUpgradeStartComplete ossl dev) ()),
     (TPM_CC_FieldUpgradeData, is_default (Async_FieldUpgradeDataComplete ossl dev) FieldUpgradeDataResponse_default),
     (TPM_CC_FirmwareRead, is_default (Async_FirmwareReadComplete ossl dev) (FirmwareReadResponse_fuData FirmwareReadResponse_default)),
     (TPM_CC_ContextSave, is_default (Async_ContextSaveComplete ossl dev) (ContextSaveResponse_context ContextSaveResponse_default)),
     (TPM_CC_ContextLoad, is_default (Async_ContextLoadComplete ossl dev) (ContextLoadResponse_handle ContextLoadResponse_default)),
     (TPM_CC_FlushContext, is_default (Async_FlushContextComplete ossl dev) ()),
     (TPM_CC_EvictControl, is_default (Async_EvictControlComplete ossl dev) ()),
     (TPM_CC_ReadClock, is_default (Async_ReadClockComplete ossl dev) (ReadClockResponse_currentTime ReadClockResponse_default)),
     (TPM_CC_ClockSet, is_default (Async_ClockSetComplete ossl dev) ()),
     (TPM_CC_ClockRateAdjust, is_default (Async_ClockRateAdjustComplete ossl dev) ()),
     (TPM_CC_GetCapability, is_default (Async_GetCapabilityComplete ossl dev) GetCapabilityResponse_default),
     (TPM_CC_TestParms, is_default (Async_TestParmsComplete ossl dev) ()),
     (TPM_CC_NV_DefineSpace, is_default (Async_NV_DefineSpaceComplete ossl dev) ()),
     (TPM_CC_NV_UndefineSpace, is_default (Async_NV_UndefineSpaceComplete ossl dev) ()),
     (TPM_CC_NV_UndefineSpaceSpecial, is_default (Async_NV_UndefineSpaceSpecialComplete ossl dev) ()),
     (TPM_CC_NV_ReadPublic, is_default (Async_NV_ReadPublicComplete ossl dev) NV_ReadPublicResponse_default),
     (TPM_CC_NV_Write, is_default (Async_NV_WriteComplete ossl dev) ()),
     (TPM_CC_NV_Increment, is_default (Async_NV_IncrementComplete ossl dev) ()),
     (TPM_CC_NV_Extend, is_default (Async_NV_ExtendComplete ossl dev) ()),
     (TPM_CC_NV_SetBits, is_default (Async_NV_SetBitsComplete ossl dev) ()),
     (TPM_CC_NV_WriteLock, is_default (Async_NV_WriteLockComplete ossl dev) ()),
     (TPM_CC_NV_GlobalWriteLock, is_default (Async_NV_GlobalWriteLockComplete ossl dev) ()),
     (TPM_CC_NV_Read, is_default (Async_NV_ReadComplete ossl dev) (NV_ReadResponse_data NV_ReadResponse_default)),
     (TPM_CC_NV_ReadLock, is_default (Async_NV_ReadLockComplete ossl dev) ()),
     (TPM_CC_NV_ChangeAuth, is_default (Async_NV_ChangeAuthComplete ossl dev) ()),
     (TPM_CC_NV_Certify, is_default (Async_NV_CertifyComplete ossl dev) NV_CertifyResponse_default),
     (TPM_CC_AC_GetCapability, is_default (Async_AC_GetCapabilityComplete ossl dev) AC_GetCapabilityResponse_default),
     (TPM_CC_AC_Send, is_default (Async_AC_SendComplete ossl dev) (AC_SendResponse_acDataOut AC_SendResponse_default)),
     (TPM_CC_Policy_AC_SendSelect, is_default (Async_Policy_AC_SendSelectComplete ossl dev) ()),
     (TPM_CC_ACT_SetTimeout, is_default (Async_ACT_SetTimeoutComplete ossl dev) ()),
     (TPM_CC_Vendor_TCG_Test, is_default (Async_Vendor_TCG_TestComplete ossl dev) (Vendor_TCG_TestResponse_outputData Vendor_TCG_TestResponse_default))]"

definition takes_retry :: "'d TpmDevice \<Rightarrow> TPM_CC \<times> ('d, bool) tp \<Rightarrow> bool" where
  "takes_retry dev = (\<lambda>(cc, m). \<forall>t d d' tag body. awaits cc t \<and> tp_device t = Some d \<and>
     dev_GetResponse dev d = (Ok (raw_response tag TPM_RC_RETRY body), d') \<and> length body + 10 < 2 ^ 32 \<longrightarrow>
     m t = (Ok True, received d' (raw_response tag TPM_RC_RETRY body) t))"

lemma takes_retryI:
  "f resp = Ok x \<Longrightarrow> takes_retry dev (cc, is_default (sbind (DispatchIn ossl dev m cc resp) (\<lambda>(_, r). lift (f r))) x)"
  by (auto simp: takes_retry_def is_default_def DispatchIn_retry sbind_Ok lift_app ret_app)

lemmas complete_method_defs =
  Async_StartupComplete_def Async_ShutdownComplete_def Async_SelfTestComplete_def
  Async_IncrementalSelfTestComplete_def Async_GetTestResultComplete_def Async_StartAuthSessionComplete_def
  Async_PolicyRestartComplete_def Async_CreateComplete_def Async_LoadComplete_def
  Async_LoadExternalComplete_def Async_ReadPublicComplete_def Async_ActivateCredentialComplete_def
  Async_MakeCredentialComplete_def Async_UnsealComplete_def Async_ObjectChangeAuthComplete_def
  Async_CreateLoadedComplete_def Async_DuplicateComplete_def Async_RewrapComplete_def Async_ImportComplete_def
  Async_RSA_EncryptComplete_def Async_RSA_DecryptComplete_def Async_ECDH_KeyGenComplete_def
  Async_ECDH_ZGenComplete_def Async_ECC_ParametersComplete_def Async_ZGen_2PhaseComplete_def
  Async_ECC_EncryptComplete_def Async_ECC_DecryptComplete_def Async_EncryptDecryptComplete_def
  Async_EncryptDecrypt2Complete_def Async_HashComplete_def Async_HMACComplete_def Async_MACComplete_def
  Async_GetRandomComplete_def Async_StirRandomComplete_def Async_HMAC_StartComplete_def
  Async_MAC_StartComplete_def Async_HashSequenceStartComplete_def Async_SequenceUpdateComplete_def
  Async_SequenceCompleteComplete_def Async_EventSequenceCompleteComplete_def Async_CertifyComplete_def
  Async_CertifyCreationComplete_def Async_QuoteComplete_def Async_GetSessionAuditDigestComplete_def
  Async_GetCommandAuditDigestComplete_def Async_GetTimeComplete_def Async_CertifyX509Complete_def
  Async_CommitComplete_def Async_EC_EphemeralComplete_def Async_VerifySignatureComplete_def
  Async_SignComplete_def Async_SetCommandCodeAuditStatusComplete_def Async_PCR_ExtendComplete_def
  Async_PCR_EventComplete_def Async_PCR_ReadComplete_def Async_PCR_AllocateComplete_def
  Async_PCR_SetAuthPolicyComplete_def Async_PCR_SetAuthValueComplete_def Async_PCR_ResetComplete_def
  Async_PolicySignedComplete_def Async_PolicySecretComplete_def Async_PolicyTicketComplete_def
  Async_PolicyORComplete_def Async_PolicyPCRComplete_def Async_PolicyLocalityComplete_def
  Async_PolicyNVComplete_def Async_PolicyCounterTimerComplete_def Async_PolicyCommandCodeComplete_def
  Async_PolicyPhysicalPresenceComplete_def Async_PolicyCpHashComplete_def Async_PolicyNameHashComplete_def
  Async_PolicyDuplicationSelectComplete_def Async_PolicyAuthorizeComplete_def
  Async_PolicyAuthValueComplete_def Async_PolicyPasswordComplete_def Async_PolicyGetDigestComplete_def
  Async_PolicyNvWrittenComplete_def Async_PolicyTemplateComplete_def Async_PolicyAuthorizeNVComplete_def
  Async_CreatePrimaryComplete_def Async_HierarchyControlComplete_def Async_SetPrimaryPolicyComplete_def
  Async_ChangePPSComplete_def Async_ChangeEPSComplete_def Async_ClearComplete_def
  Async_ClearControlComplete_def Async_HierarchyChangeAuthComplete_def
  Async_DictionaryAttackLockResetComplete_def Async_DictionaryAttackParametersComplete_def
  Async_PP_CommandsComplete_def Async_SetAlgorithmSetComplete_def Async_FieldUpgradeStartComplete_def
  Async_FieldUpgradeDataComplete_def Async_FirmwareReadComplete_def Async_ContextSaveComplete_def
  Async_ContextLoadComplete_def Async_FlushContextComplete_def Async_EvictControlComplete_def
  Async_ReadClockComplete_def Async_ClockSetComplete_def Async_ClockRateAdjustComplete_def
  Async_GetCapabilityComplete_def Async_TestParmsComplete_def Async_NV_DefineSpaceComplete_def
  Async_NV_UndefineSpaceComplete_def Async_NV_UndefineSpaceSpecialComplete_def Async_NV_ReadPublicComplete_def
  Async_NV_WriteComplete_def Async_NV_IncrementComplete_def Async_NV_ExtendComplete_def
  Async_NV_SetBitsComplete_def Async_NV_WriteLockComplete_def Async_NV_GlobalWriteLockComplete_def
  Async_NV_ReadComplete_def Async_NV_ReadLockComplete_def Async_NV_ChangeAuthComplete_def
  Async_NV_CertifyComplete_def Async_AC_GetCapabilityComplete_def Async_AC_SendComplete_def
  Async_Policy_AC_SendSelectComplete_def Async_ACT_SetTimeoutComplete_def Async_Vendor_TCG_TestComplete_def

lemma complete_methods_retry: "list_all (takes_retry dev) (complete_methods ossl dev)"
  unfolding complete_methods_def complete_method_defs list.pred_inject
  by (intro conjI takes_retryI TrueI) simp_all

end
