(* ===== verification/Accepts.thy ===== *)
theory Accepts
  imports TpmStructure
begin

unbundle bit_operations_syntax

text \<open>
  What an unmarshaling call accepts. \<open>reads m v bs\<close> says that \<open>m\<close> takes the bytes \<open>bs\<close> for \<open>v\<close>;
  \<open>accepts m S\<close> is the converse: whenever \<open>m\<close> returns, from any bytes, it has taken bytes that are in the
  relation \<open>S\<close> to the result. The rules follow the body of a method from its end to its start.
\<close>

named_theorems accepts_intros \<open>what an unmarshaling call accepts\<close>

definition accepts :: "'a tpm \<Rightarrow> ('a \<Rightarrow> ByteVec \<Rightarrow> bool) \<Rightarrow> bool" where
  "accepts m S \<longleftrightarrow> (\<forall>b x b'. buf_ok b \<longrightarrow> m b = (Ok x, b') \<longrightarrow>
     (\<exists>bs. S x bs \<and> continues b bs \<and> b' = adv (length bs) b))"

lemma acceptsI:
  assumes "\<And>b x b'. buf_ok b \<Longrightarrow> m b = (Ok x, b') \<Longrightarrow> \<exists>bs. S x bs \<and> continues b bs \<and> b' = adv (length bs) b"
  shows "accepts m S"
  using assms by (simp add: accepts_def)

lemma acceptsE:
  assumes "accepts m S" and "buf_ok b" and "m b = (Ok x, b')"
  obtains bs where "S x bs" and "continues b bs" and "b' = adv (length bs) b"
  using assms unfolding accepts_def by blast

lemma accepts_mono: "accepts m S \<Longrightarrow> (\<And>x bs. S x bs \<Longrightarrow> T x bs) \<Longrightarrow> accepts m T"
  unfolding accepts_def by blast

section \<open>Sequences\<close>

lemma continues_append_iff:
  "continues b (xs @ ys) \<longleftrightarrow> continues b xs \<and> continues (adv (length xs) b) ys"
proof
  assume r: "continues b xs \<and> continues (adv (length xs) b) ys"
  then obtain rest rest' where "drop (tb_pos b) (tb_buf b) = xs @ rest"
      "drop (tb_pos b + length xs) (tb_buf b) = ys @ rest'"
    by (auto simp: continues_def)
  then have "drop (tb_pos b) (tb_buf b) = xs @ ys @ rest'"
    by (metis add.commute append_eq_conv_conj drop_drop)
  then show "continues b (xs @ ys)" by (simp add: continues_def)
qed (simp add: continues_append)

lemma accepts_ret [accepts_intros]: "S x [] \<Longrightarrow> accepts (ret x) S"
proof (rule acceptsI)
  fix b :: TpmBuffer and y b' assume "S x []" and "ret x b = (Ok y, b')"
  then show "\<exists>bs. S y bs \<and> continues b bs \<and> b' = adv (length bs) b"
    by (intro exI [of _ "[]"]) (simp add: ret_app continues_def)
qed

lemma accepts_sbind [accepts_intros]:
  assumes "accepts m (\<lambda>v xs. accepts (f v) (\<lambda>x ys. S x (xs @ ys)))"
  shows "accepts (sbind m f) S"
proof (rule acceptsI)
  fix b x b' assume b: "buf_ok b" and "sbind m f b = (Ok x, b')"
  then obtain v u where 1: "m b = (Ok v, u)" and 2: "f v u = (Ok x, b')"
    by (auto simp: sbind_eq_Ok)
  obtain xs where xs: "accepts (f v) (\<lambda>x ys. S x (xs @ ys))" "continues b xs" "u = adv (length xs) b"
    using acceptsE [OF assms b 1] by blast
  have "buf_ok u" using b xs continues_fits buf_ok_adv by blast
  then obtain ys where "S x (xs @ ys)" "continues u ys" "b' = adv (length ys) u"
    using acceptsE [OF xs(1) _ 2] by blast
  then show "\<exists>bs. S x bs \<and> continues b bs \<and> b' = adv (length bs) b"
    using xs by (intro exI [of _ "xs @ ys"]) (simp add: continues_append_iff)
qed

lemma accepts_if [accepts_intros]:
  "(c \<Longrightarrow> accepts m S) \<Longrightarrow> (\<not> c \<Longrightarrow> accepts k S) \<Longrightarrow> accepts (if c then m else k) S"
  by simp

lemma accepts_bindO [accepts_intros]:
  "(\<And>y. r = Ok y \<Longrightarrow> accepts (f y) S) \<Longrightarrow> accepts (bindO r f) S"
  by (cases r) (auto simp: accepts_def throw_app undef_app sbind_def sassert_app)

text \<open>The member that a factory has made for the selector \<open>s\<close>.\<close>

lemma accepts_deref:
  assumes "create s = Ok u" and "\<And>v. create s = Ok (Some v) \<Longrightarrow> accepts (init v) (\<lambda>v xs. ok v \<longrightarrow> sel v = s \<and> xs = enc v)"
    and "\<And>v xs. ok v \<longrightarrow> sel v = s \<and> xs = enc v \<Longrightarrow> S v xs"
  shows "accepts (deref u init) S"
proof (cases u)
  case None
  then show ?thesis by (simp add: accepts_def undef_app)
next
  case (Some v)
  then have "accepts (init v) (\<lambda>v xs. ok v \<longrightarrow> sel v = s \<and> xs = enc v)" using assms(1,2) by simp
  then show ?thesis unfolding Some deref.simps by (rule accepts_mono) (use assms(3) in blast)
qed

section \<open>Numbers\<close>

text \<open>Every sequence of the right length is the wire form of a number.\<close>

lemma enc8_onto: "length bs = 1 \<Longrightarrow> \<exists>v. enc8 v = bs"
proof -
  assume "length bs = 1"
  then obtain a where "bs = [a]" by (cases bs) auto
  then show ?thesis by (intro exI [of _ a]) (simp add: enc8_def)
qed

lemma enc16_onto: "length bs = 2 \<Longrightarrow> \<exists>v. enc16 v = bs"
proof -
  assume "length bs = 2"
  then obtain a b where bs: "bs = [a, b]" by (auto simp: length_Suc_conv numeral_eq_Suc)
  let ?v = "push_bit 8 (ucast a) OR ucast b :: UINT16"
  have "byte_at 8 (ucast ?v) = a" "byte_at 0 (ucast ?v) = b"
    by (rule bit_word_eqI; auto simp: bit_byte_at bit_simps dest: bit_imp_le_length)+
  then show ?thesis by (intro exI [of _ ?v]) (simp add: bs enc16_def be_bytes_def)
qed

lemma enc32_onto: "length bs = 4 \<Longrightarrow> \<exists>v. enc32 v = bs"
proof -
  assume "length bs = 4"
  then obtain a b c d where bs: "bs = [a, b, c, d]" by (auto simp: length_Suc_conv numeral_eq_Suc)
  let ?v = "push_bit 24 (ucast a) OR push_bit 16 (ucast b) OR push_bit 8 (ucast c) OR ucast d :: UINT32"
  have "byte_at 24 (ucast ?v) = a" "byte_at 16 (ucast ?v) = b" "byte_at 8 (ucast ?v) = c" "byte_at 0 (ucast ?v) = d"
    by (rule bit_word_eqI; auto simp: bit_byte_at bit_simps dest: bit_imp_le_length)+
  then show ?thesis by (intro exI [of _ ?v]) (simp add: bs enc32_def be_bytes_def)
qed

text \<open>A call that needs \<open>n\<close> bytes, and takes every sequence of \<open>n\<close> bytes for some value.\<close>

lemma accepts_checked:
  assumes fits: "\<And>b x b'. m b = (Ok x, b') \<Longrightarrow> fits b n" and onto: "\<And>bs. length bs = n \<Longrightarrow> \<exists>v. enc v = bs"
    and reads: "\<And>v. reads m v (enc v)" and S: "\<And>v. S v (enc v)"
  shows "accepts m S"
proof (rule acceptsI)
  fix b x b' assume b: "buf_ok b" and m: "m b = (Ok x, b')"
  let ?bs = "take n (drop (tb_pos b) (tb_buf b))"
  have "length ?bs = n" using fits [OF m] b by (simp add: fits_def buf_ok_def size_buf_def)
  then obtain v where v: "enc v = ?bs" using onto by blast
  have c: "continues b (enc v)"
    unfolding v continues_def by (rule exI [of _ "drop n (drop (tb_pos b) (tb_buf b))"]) (simp only: append_take_drop_id)
  then have "m b = (Ok v, adv (length (enc v)) b)" using reads b by (simp add: reads_def)
  then show "\<exists>bs. S x bs \<and> continues b bs \<and> b' = adv (length bs) b"
    using m c S by (intro exI [of _ "enc v"]) auto
qed

lemma checkLen_fits: "sseq (checkLen n) k b = (Ok x, b') \<Longrightarrow> fits b n"
  by (auto simp: sseq_def sbind_def checkLen_def fits_def split: if_splits)

lemma readNum_fits: "sbind (readNum n) f b = (Ok x, b') \<Longrightarrow> fits b n"
  by (auto simp: sbind_eq_Ok readNum_def dest: checkLen_fits)

lemma accepts_readByte [accepts_intros]: "(\<And>v. S v (enc8 v)) \<Longrightarrow> accepts readByte S"
  by (rule accepts_checked [OF _ enc8_onto reads_readByte]) (auto simp: readByte_def dest: checkLen_fits)

lemma accepts_readShort [accepts_intros]: "(\<And>v. S v (enc16 v)) \<Longrightarrow> accepts readShort S"
  by (rule accepts_checked [OF _ enc16_onto reads_readShort]) (auto simp: readShort_def dest: readNum_fits)

lemma accepts_readInt [accepts_intros]: "(\<And>v. S v (enc32 v)) \<Longrightarrow> accepts readInt S"
  by (rule accepts_checked [OF _ enc32_onto reads_readInt]) (auto simp: readInt_def dest: readNum_fits)

lemma accepts_readByteBuf [accepts_intros]: "(\<And>v. length v = n \<Longrightarrow> S v v) \<Longrightarrow> accepts (readByteBuf n) S"
proof (rule acceptsI)
  fix b x b' assume S: "\<And>v. length v = n \<Longrightarrow> S v v" and b: "buf_ok b" and m: "readByteBuf n b = (Ok x, b')"
  let ?bs = "take n (drop (tb_pos b) (tb_buf b))"
  have f: "fits b n" using m by (auto simp: readByteBuf_def dest: checkLen_fits)
  then have l: "length ?bs = n" using b by (simp add: fits_def buf_ok_def size_buf_def)
  have c: "continues b ?bs"
    unfolding continues_def by (rule exI [of _ "drop n (drop (tb_pos b) (tb_buf b))"]) (simp only: append_take_drop_id)
  then have "readByteBuf n b = (Ok ?bs, adv (length ?bs) b)"
    using reads_readByteBuf [of n ?bs] b l by (simp add: reads_def)
  then show "\<exists>bs. S x bs \<and> continues b bs \<and> b' = adv (length bs) b"
    using m c S [OF l] by (intro exI [of _ ?bs]) auto
qed

text \<open>A byte buffer behind a size of two bytes.\<close>

lemma accepts_readSizedByteBuf [accepts_intros]:
  assumes S: "\<And>v. sized_ok 2 v \<Longrightarrow> S v (enc_sized 2 v)"
  shows "accepts (readSizedByteBuf 2) S"
proof (rule acceptsI)
  fix b x b' assume b: "buf_ok b" and m: "readSizedByteBuf 2 b = (Ok x, b')"
  have "accepts readShort (\<lambda>v bs. bs = enc16 v)" by (rule accepts_readShort) simp
  moreover obtain w u where "readNum 2 b = (Ok w, u)"
    using m by (auto simp: readSizedByteBuf_def sbind_eq_Ok)
  ultimately obtain n :: UINT16 where n: "continues b (enc16 n)"
    using acceptsE [of readShort "\<lambda>v bs. bs = enc16 v" b] b by (auto simp: readShort_def sbind_def ret_app)
  have ok: "buf_ok (adv 2 b)" using buf_ok_adv [OF b] continues_fits [OF b n] by simp
  have "readNum 2 b = (Ok (take_bit 16 (ucast n)), adv 2 b)"
    using reads_readNum [of 2 "ucast n"] b n by (simp add: reads_def enc16_def)
  moreover have "unat (take_bit 16 (ucast n :: UINT64)) = unat n"
  proof -
    have "unat n < 2 ^ 16" using unsigned_less [of n] by simp
    then show ?thesis by (simp add: unsigned_take_bit_eq unsigned_ucast_eq take_bit_nat_eq_self)
  qed
  ultimately have sz: "tb_pos b + 2 + unat n \<le> size_buf b"
    and x: "x = take (unat n) (drop (tb_pos b + 2) (tb_buf b))" and b': "b' = adv (unat n) (adv 2 b)"
    using m by (auto simp: readSizedByteBuf_def sbind_def Let_def size_buf_def adv_def split: if_splits)
  have l: "length x = unat n" using sz x by (simp add: size_buf_def)
  have c: "continues (adv 2 b) x"
    unfolding continues_def x
    by (rule exI [of _ "drop (unat n) (drop (tb_pos b + 2) (tb_buf b))"]) (simp only: adv_sel append_take_drop_id)
  have e: "enc_sized 2 x = enc16 n @ x"
  proof -
    have "ucast (ucast n :: UINT32) = (ucast n :: UINT64)" by (rule bit_word_eqI) (auto simp: bit_simps dest: bit_imp_le_length)
    then show ?thesis using l by (simp add: enc_sized_def enc16_def)
  qed
  have "sized_ok 2 x" using l unsigned_less [of n] by (simp add: sized_ok_def)
  then have "S x (enc16 n @ x)" using S [of x] by (simp add: e)
  then show "\<exists>bs. S x bs \<and> continues b bs \<and> b' = adv (length bs) b"
    using n c b' l by (intro exI [of _ "enc16 n @ x"]) (simp add: continues_append_iff)
qed

section \<open>Parts of a structure\<close>

lemma accepts_part:
  "accepts m (\<lambda>x bs. ok x \<longrightarrow> bs = enc x) \<Longrightarrow> (\<And>x bs. ok x \<longrightarrow> bs = enc x \<Longrightarrow> S x bs) \<Longrightarrow> accepts m S"
  by (erule accepts_mono) blast

lemma accepts_member:
  assumes "accepts m (\<lambda>x bs. ok x \<longrightarrow> bs = enc x)" and "\<And>x bs. ok x \<longrightarrow> bs = enc x \<Longrightarrow> S (C x) bs"
  shows "accepts (sbind m (\<lambda>y. ret (C y))) S"
  by (rule accepts_sbind, rule accepts_part [OF assms(1)]) (simp add: accepts_ret assms(2))

text \<open>The whole input: \<open>fromBytes\<close> also asserts that nothing is left over.\<close>

lemma fromBytes_accepts:
  assumes a: "accepts (init y) S" and f: "fromBytes init y bs = Ok x"
  shows "S x bs"
proof -
  let ?b = "TpmBuffer_of bs"
  have b: "buf_ok ?b" "tb_buf ?b = bs" "tb_pos ?b = 0"
    by (simp_all add: buf_ok_def TpmBuffer_of_def size_buf_def)
  obtain u where m: "init y ?b = (Ok x, u)" and p: "tb_pos u = length bs"
    using f by (auto simp: fromBytes_def initFromBytes_def outcome_of_def sbind_def curPos_def sseq_def sassert_app ret_app split: outcome.splits prod.splits if_splits)
  obtain cs where "S x cs" "continues ?b cs" "u = adv (length cs) ?b"
    using acceptsE [OF a b(1) m] by blast
  with p b show ?thesis by (auto simp: continues_def)
qed

lemma fromBytes_NDEBUG_accepts:
  assumes a: "accepts (init y) S" and f: "fromBytes_NDEBUG init y bs = Ok x"
  shows "\<exists>cs rest. S x cs \<and> bs = cs @ rest"
proof -
  let ?b = "TpmBuffer_of bs"
  have b: "buf_ok ?b" "tb_buf ?b = bs" "tb_pos ?b = 0"
    by (simp_all add: buf_ok_def TpmBuffer_of_def size_buf_def)
  obtain u where m: "init y ?b = (Ok x, u)"
    using f by (cases "init y ?b") (simp add: fromBytes_NDEBUG_def outcome_of_def)
  obtain cs where "S x cs" "continues ?b cs"
    using acceptsE [OF a b(1) m] by blast
  with b show ?thesis
    by (intro exI [of _ cs] exI [of _ "drop (length cs) bs"]) (auto simp: continues_def intro: append_take_drop_id [symmetric])
qed

end
