(* ===== verification/Canonical.thy ===== *)
theory Canonical
  imports Accepts TpmKeyTypes
begin

text \<open>
  The public area of a key is unmarshaled from its wire format only: whatever bytes
  \<open>TPMT_PUBLIC::initFromTpm\<close> takes, they are the wire form of the result, and the result is a value that the
  format can carry. Theory \<open>TpmKeyTypes\<close> has the other direction.
\<close>

lemma TPMS_SCHEME_HASH_accepts: "accepts (TPMS_SCHEME_HASH_initFromTpm TPMS_SCHEME_HASH_default) (\<lambda>x bs. TPMS_SCHEME_HASH_valid x \<longrightarrow> bs = TPMS_SCHEME_HASH_enc x)"
  by (simp only: TPMS_SCHEME_HASH_initFromTpm_def TPMS_SCHEME_HASH_default_def TPMS_SCHEME_HASH.select_convs TPMS_SCHEME_HASH.update_convs; intro accepts_intros ;
      auto simp: TPMS_SCHEME_HASH_valid_def TPMS_SCHEME_HASH_enc_def; simp?)

lemma TPMS_SCHEME_XOR_accepts: "accepts (TPMS_SCHEME_XOR_initFromTpm TPMS_SCHEME_XOR_default) (\<lambda>x bs. TPMS_SCHEME_XOR_valid x \<longrightarrow> bs = TPMS_SCHEME_XOR_enc x)"
  by (simp only: TPMS_SCHEME_XOR_initFromTpm_def TPMS_SCHEME_XOR_default_def TPMS_SCHEME_XOR.select_convs TPMS_SCHEME_XOR.update_convs; intro accepts_intros ;
      auto simp: TPMS_SCHEME_XOR_valid_def TPMS_SCHEME_XOR_enc_def; simp?)

lemma TPMU_SCHEME_KEYEDHASH_accepts:
  assumes "UnionFactory_Create_TPMU_SCHEME_KEYEDHASH s = Ok (Some v)"
  shows "accepts (TPMU_SCHEME_KEYEDHASH_initFromTpm v) (\<lambda>v xs. TPMU_SCHEME_KEYEDHASH_valid v \<longrightarrow> TPMU_SCHEME_KEYEDHASH_GetUnionSelector v = s \<and> xs = TPMU_SCHEME_KEYEDHASH_enc v)"
  using assms unfolding UnionFactory_Create_TPMU_SCHEME_KEYEDHASH_def
  by (simp split: if_splits) (auto intro!: accepts_ret accepts_member TPMS_SCHEME_HASH_accepts TPMS_SCHEME_XOR_accepts)

lemma TPMS_KEYEDHASH_PARMS_accepts: "accepts (TPMS_KEYEDHASH_PARMS_initFromTpm TPMS_KEYEDHASH_PARMS_default) (\<lambda>x bs. TPMS_KEYEDHASH_PARMS_valid x \<longrightarrow> bs = TPMS_KEYEDHASH_PARMS_enc x)"
  by (simp only: TPMS_KEYEDHASH_PARMS_initFromTpm_def TPMS_KEYEDHASH_PARMS_default_def TPMS_KEYEDHASH_PARMS.select_convs TPMS_KEYEDHASH_PARMS.update_convs; intro accepts_intros accepts_deref [OF _ TPMU_SCHEME_KEYEDHASH_accepts];
      auto simp: TPMS_KEYEDHASH_PARMS_valid_def TPMS_KEYEDHASH_PARMS_enc_def; simp?)

lemma TPMT_SYM_DEF_OBJECT_accepts: "accepts (TPMT_SYM_DEF_OBJECT_initFromTpm TPMT_SYM_DEF_OBJECT_default) (\<lambda>x bs. TPMT_SYM_DEF_OBJECT_valid x \<longrightarrow> bs = TPMT_SYM_DEF_OBJECT_enc x)"
  by (simp only: TPMT_SYM_DEF_OBJECT_initFromTpm_def TPMT_SYM_DEF_OBJECT_default_def TPMT_SYM_DEF_OBJECT.select_convs TPMT_SYM_DEF_OBJECT.update_convs; intro accepts_intros ;
      auto simp: TPMT_SYM_DEF_OBJECT_valid_def TPMT_SYM_DEF_OBJECT_enc_def; simp?)

lemma TPMS_SYMCIPHER_PARMS_accepts: "accepts (TPMS_SYMCIPHER_PARMS_initFromTpm TPMS_SYMCIPHER_PARMS_default) (\<lambda>x bs. TPMS_SYMCIPHER_PARMS_valid x \<longrightarrow> bs = TPMS_SYMCIPHER_PARMS_enc x)"
  by (simp only: TPMS_SYMCIPHER_PARMS_initFromTpm_def TPMS_SYMCIPHER_PARMS_default_def TPMS_SYMCIPHER_PARMS.select_convs TPMS_SYMCIPHER_PARMS.update_convs; intro accepts_intros TPMT_SYM_DEF_OBJECT_accepts [THEN accepts_part];
      auto simp: TPMS_SYMCIPHER_PARMS_valid_def TPMS_SYMCIPHER_PARMS_enc_def; simp?)

lemma TPMS_SCHEME_ECDAA_accepts: "accepts (TPMS_SCHEME_ECDAA_initFromTpm TPMS_SCHEME_ECDAA_default) (\<lambda>x bs. TPMS_SCHEME_ECDAA_valid x \<longrightarrow> bs = TPMS_SCHEME_ECDAA_enc x)"
  by (simp only: TPMS_SCHEME_ECDAA_initFromTpm_def TPMS_SCHEME_ECDAA_default_def TPMS_SCHEME_ECDAA.select_convs TPMS_SCHEME_ECDAA.update_convs; intro accepts_intros ;
      auto simp: TPMS_SCHEME_ECDAA_valid_def TPMS_SCHEME_ECDAA_enc_def; simp?)

lemma TPMU_ASYM_SCHEME_accepts:
  assumes "UnionFactory_Create_TPMU_ASYM_SCHEME s = Ok (Some v)"
  shows "accepts (TPMU_ASYM_SCHEME_initFromTpm v) (\<lambda>v xs. TPMU_ASYM_SCHEME_valid v \<longrightarrow> TPMU_ASYM_SCHEME_GetUnionSelector v = s \<and> xs = TPMU_ASYM_SCHEME_enc v)"
  using assms unfolding UnionFactory_Create_TPMU_ASYM_SCHEME_def
  by (simp split: if_splits) (auto intro!: accepts_ret accepts_member TPMS_SCHEME_ECDAA_accepts TPMS_SCHEME_HASH_accepts)

lemma TPMS_RSA_PARMS_accepts: "accepts (TPMS_RSA_PARMS_initFromTpm TPMS_RSA_PARMS_default) (\<lambda>x bs. TPMS_RSA_PARMS_valid x \<longrightarrow> bs = TPMS_RSA_PARMS_enc x)"
  by (simp only: TPMS_RSA_PARMS_initFromTpm_def TPMS_RSA_PARMS_default_def TPMS_RSA_PARMS.select_convs TPMS_RSA_PARMS.update_convs; intro accepts_intros TPMT_SYM_DEF_OBJECT_accepts [THEN accepts_part] accepts_deref [OF _ TPMU_ASYM_SCHEME_accepts];
      auto simp: TPMS_RSA_PARMS_valid_def TPMS_RSA_PARMS_enc_def; simp?)

lemma TPMU_KDF_SCHEME_accepts:
  assumes "UnionFactory_Create_TPMU_KDF_SCHEME s = Ok (Some v)"
  shows "accepts (TPMU_KDF_SCHEME_initFromTpm v) (\<lambda>v xs. TPMU_KDF_SCHEME_valid v \<longrightarrow> TPMU_KDF_SCHEME_GetUnionSelector v = s \<and> xs = TPMU_KDF_SCHEME_enc v)"
  using assms unfolding UnionFactory_Create_TPMU_KDF_SCHEME_def
  by (simp split: if_splits) (auto intro!: accepts_ret accepts_member TPMS_SCHEME_HASH_accepts)

lemma TPMS_ECC_PARMS_accepts: "accepts (TPMS_ECC_PARMS_initFromTpm TPMS_ECC_PARMS_default) (\<lambda>x bs. TPMS_ECC_PARMS_valid x \<longrightarrow> bs = TPMS_ECC_PARMS_enc x)"
  by (simp only: TPMS_ECC_PARMS_initFromTpm_def TPMS_ECC_PARMS_default_def TPMS_ECC_PARMS.select_convs TPMS_ECC_PARMS.update_convs; intro accepts_intros TPMT_SYM_DEF_OBJECT_accepts [THEN accepts_part] accepts_deref [OF _ TPMU_ASYM_SCHEME_accepts] accepts_deref [OF _ TPMU_KDF_SCHEME_accepts];
      auto simp: TPMS_ECC_PARMS_valid_def TPMS_ECC_PARMS_enc_def; simp?)

lemma TPMS_ASYM_PARMS_accepts: "accepts (TPMS_ASYM_PARMS_initFromTpm TPMS_ASYM_PARMS_default) (\<lambda>x bs. TPMS_ASYM_PARMS_valid x \<longrightarrow> bs = TPMS_ASYM_PARMS_enc x)"
  by (simp only: TPMS_ASYM_PARMS_initFromTpm_def TPMS_ASYM_PARMS_default_def TPMS_ASYM_PARMS.select_convs TPMS_ASYM_PARMS.update_convs; intro accepts_intros TPMT_SYM_DEF_OBJECT_accepts [THEN accepts_part] accepts_deref [OF _ TPMU_ASYM_SCHEME_accepts];
      auto simp: TPMS_ASYM_PARMS_valid_def TPMS_ASYM_PARMS_enc_def; simp?)

lemma TPMU_PUBLIC_PARMS_accepts:
  assumes "UnionFactory_Create_TPMU_PUBLIC_PARMS s = Ok (Some v)"
  shows "accepts (TPMU_PUBLIC_PARMS_initFromTpm v) (\<lambda>v xs. TPMU_PUBLIC_PARMS_valid v \<longrightarrow> TPMU_PUBLIC_PARMS_GetUnionSelector v = s \<and> xs = TPMU_PUBLIC_PARMS_enc v)"
  using assms unfolding UnionFactory_Create_TPMU_PUBLIC_PARMS_def
  by (simp split: if_splits) (auto intro!: accepts_ret accepts_member TPMS_ASYM_PARMS_accepts TPMS_ECC_PARMS_accepts TPMS_KEYEDHASH_PARMS_accepts TPMS_RSA_PARMS_accepts TPMS_SYMCIPHER_PARMS_accepts)

lemma TPM2B_DIGEST_accepts: "accepts (TPM2B_DIGEST_initFromTpm TPM2B_DIGEST_default) (\<lambda>x bs. TPM2B_DIGEST_valid x \<longrightarrow> bs = TPM2B_DIGEST_enc x)"
  by (simp only: TPM2B_DIGEST_initFromTpm_def TPM2B_DIGEST_default_def TPM2B_DIGEST.select_convs TPM2B_DIGEST.update_convs; intro accepts_intros ;
      auto simp: TPM2B_DIGEST_valid_def TPM2B_DIGEST_enc_def; simp?)

lemma TPM2B_PUBLIC_KEY_RSA_accepts: "accepts (TPM2B_PUBLIC_KEY_RSA_initFromTpm TPM2B_PUBLIC_KEY_RSA_default) (\<lambda>x bs. TPM2B_PUBLIC_KEY_RSA_valid x \<longrightarrow> bs = TPM2B_PUBLIC_KEY_RSA_enc x)"
  by (simp only: TPM2B_PUBLIC_KEY_RSA_initFromTpm_def TPM2B_PUBLIC_KEY_RSA_default_def TPM2B_PUBLIC_KEY_RSA.select_convs TPM2B_PUBLIC_KEY_RSA.update_convs; intro accepts_intros ;
      auto simp: TPM2B_PUBLIC_KEY_RSA_valid_def TPM2B_PUBLIC_KEY_RSA_enc_def; simp?)

lemma TPMS_ECC_POINT_accepts: "accepts (TPMS_ECC_POINT_initFromTpm TPMS_ECC_POINT_default) (\<lambda>x bs. TPMS_ECC_POINT_valid x \<longrightarrow> bs = TPMS_ECC_POINT_enc x)"
  by (simp only: TPMS_ECC_POINT_initFromTpm_def TPMS_ECC_POINT_default_def TPMS_ECC_POINT.select_convs TPMS_ECC_POINT.update_convs; intro accepts_intros ;
      auto simp: TPMS_ECC_POINT_valid_def TPMS_ECC_POINT_enc_def; simp?)

lemma TPMS_DERIVE_accepts: "accepts (TPMS_DERIVE_initFromTpm TPMS_DERIVE_default) (\<lambda>x bs. TPMS_DERIVE_valid x \<longrightarrow> bs = TPMS_DERIVE_enc x)"
  by (simp only: TPMS_DERIVE_initFromTpm_def TPMS_DERIVE_default_def TPMS_DERIVE.select_convs TPMS_DERIVE.update_convs; intro accepts_intros ;
      auto simp: TPMS_DERIVE_valid_def TPMS_DERIVE_enc_def; simp?)

lemma TPMU_PUBLIC_ID_accepts:
  assumes "UnionFactory_Create_TPMU_PUBLIC_ID s = Ok (Some v)"
  shows "accepts (TPMU_PUBLIC_ID_initFromTpm v) (\<lambda>v xs. TPMU_PUBLIC_ID_valid v \<longrightarrow> TPMU_PUBLIC_ID_GetUnionSelector v = s \<and> xs = TPMU_PUBLIC_ID_enc v)"
  using assms unfolding UnionFactory_Create_TPMU_PUBLIC_ID_def
  by (simp split: if_splits) (auto intro!: accepts_ret accepts_member TPM2B_DIGEST_accepts TPM2B_PUBLIC_KEY_RSA_accepts TPMS_DERIVE_accepts TPMS_ECC_POINT_accepts)

lemma TPMT_PUBLIC_accepts: "accepts (TPMT_PUBLIC_initFromTpm TPMT_PUBLIC_default) (\<lambda>x bs. TPMT_PUBLIC_valid x \<longrightarrow> bs = TPMT_PUBLIC_enc x)"
  by (simp only: TPMT_PUBLIC_initFromTpm_def TPMT_PUBLIC_default_def TPMT_PUBLIC.select_convs TPMT_PUBLIC.update_convs; intro accepts_intros accepts_deref [OF _ TPMU_PUBLIC_PARMS_accepts] accepts_deref [OF _ TPMU_PUBLIC_ID_accepts];
      auto simp: TPMT_PUBLIC_valid_def TPMT_PUBLIC_enc_def; simp?)

end
