(* ===== verification/PcpWbcl.thy ===== *)
theory PcpWbcl
  imports InlineFn
begin

unbundle bit_operations_syntax

text \<open>
  \<^verbatim>\<open>PCPTool.v11/dll/PCPWbcl.cpp\<close>: the iterator over a measured-boot log (WBCL, a TCG event log), for the
  SHA-1 format and for the crypto-agile format.

  The log is the list of bytes that \<open>pLogBuffer\<close> points to; a pointer into it is its offset (64-bit
  pointers do not wrap), the null pointer is \<open>None\<close>, and a load from outside is \<open>Undef\<close>. Sizes and counts
  that the log supplies keep their width. An output that a function leaves unwritten is 0. The numbers of
  the log are little-endian, as the machines that the code runs on.
\<close>

section \<open>Result codes and loads\<close>

abbreviation (input) S_FALSE :: HRESULT where "S_FALSE \<equiv> 1"

definition FAILED :: "HRESULT \<Rightarrow> bool" where
  "FAILED hr \<longleftrightarrow> bit hr 31"

definition HRESULT_FROM_WIN32 :: "UINT32 \<Rightarrow> HRESULT" where
  "HRESULT_FROM_WIN32 x = (if sint x \<le> 0 then x else (x AND 0xFFFF) OR 0x80070000)"

abbreviation (input) ERROR_INVALID_DATA :: UINT32 where "ERROR_INVALID_DATA \<equiv> 13"
abbreviation (input) ERROR_NOT_SUPPORTED :: UINT32 where "ERROR_NOT_SUPPORTED \<equiv> 50"
abbreviation (input) ERROR_INSUFFICIENT_BUFFER :: UINT32 where "ERROR_INSUFFICIENT_BUFFER \<equiv> 122"

fun le_word :: "ByteVec \<Rightarrow> 'a::len word" where
  "le_word [] = 0"
| "le_word (b # bs) = ucast b OR push_bit 8 (le_word bs)"

fun le_bytes :: "nat \<Rightarrow> 'a::len word \<Rightarrow> ByteVec" where
  "le_bytes 0 v = []"
| "le_bytes (Suc n) v = ucast v # le_bytes n (drop_bit 8 v)"

definition LOAD :: "ByteVec \<Rightarrow> nat \<Rightarrow> nat \<Rightarrow> ByteVec outcome" where
  "LOAD mem p n = (if p + n \<le> length mem then Ok (take n (drop p mem)) else Undef)"

definition LOAD16 :: "ByteVec \<Rightarrow> nat \<Rightarrow> UINT16 outcome" where
  "LOAD16 mem p = obind (LOAD mem p 2) (\<lambda>bs. Ok (le_word bs))"

definition LOAD32 :: "ByteVec \<Rightarrow> nat \<Rightarrow> UINT32 outcome" where
  "LOAD32 mem p = obind (LOAD mem p 4) (\<lambda>bs. Ok (le_word bs))"

definition LOAD8 :: "ByteVec \<Rightarrow> nat \<Rightarrow> byte outcome" where
  "LOAD8 mem p = (if p < length mem then Ok (mem ! p) else Undef)"

text \<open>An access through a pointer that may be null.\<close>

definition at_ptr :: "nat option \<Rightarrow> (nat \<Rightarrow> 'a outcome) \<Rightarrow> 'a outcome" where
  "at_ptr p f = (case p of None \<Rightarrow> Undef | Some q \<Rightarrow> f q)"

section \<open>The iterator\<close>

abbreviation (input) SHA1_DIGEST_SIZE :: UINT16 where "SHA1_DIGEST_SIZE \<equiv> 20"
abbreviation (input) SHA256_DIGEST_SIZE :: UINT16 where "SHA256_DIGEST_SIZE \<equiv> 32"
abbreviation (input) WBCL_DIGEST_ALG_ID_SHA_1 :: UINT16 where "WBCL_DIGEST_ALG_ID_SHA_1 \<equiv> 0x0004"
abbreviation (input) WBCL_DIGEST_ALG_ID_SHA_2_256 :: UINT16 where "WBCL_DIGEST_ALG_ID_SHA_2_256 \<equiv> 0x000B"
abbreviation (input) TREE_EVENT_LOG_FORMAT_TCG_1_2 :: UINT16 where "TREE_EVENT_LOG_FORMAT_TCG_1_2 \<equiv> 1"
abbreviation (input) TREE_EVENT_LOG_FORMAT_TCG_2 :: UINT16 where "TREE_EVENT_LOG_FORMAT_TCG_2 \<equiv> 2"
abbreviation (input) MAX_NUMBER_OF_DIGESTS :: UINT32 where "MAX_NUMBER_OF_DIGESTS \<equiv> 5"
abbreviation (input) SIPAEV_NO_ACTION :: UINT32 where "SIPAEV_NO_ACTION \<equiv> 3"

record WBCL_Iterator =
  it_firstElementPtr :: "nat option"
  it_logSize :: UINT32
  it_currentElementPtr :: "nat option"
  it_currentElementSize :: UINT32
  it_digestSize :: UINT16
  it_logFormat :: UINT16
  it_numberOfDigests :: UINT32
  it_digestSizes :: "nat option"
  it_hashAlgorithm :: UINT16

text \<open>The lookup in the table of the header; \<open>current\<close> counts up to \<open>numberOfDigests\<close>.\<close>

fun digest_size_loop :: "ByteVec \<Rightarrow> nat option \<Rightarrow> UINT16 \<Rightarrow> nat list \<Rightarrow> UINT16 outcome" where
  "digest_size_loop mem table algorithmId [] = Ok SHA1_DIGEST_SIZE"
| "digest_size_loop mem table algorithmId (current # cs) =
     at_ptr table (\<lambda>t. obind (LOAD16 mem (t + 4 * current)) (\<lambda>id.
       if id = algorithmId then LOAD16 mem (t + 4 * current + 2)
       else digest_size_loop mem table algorithmId cs))"

definition WbclGetDigestSize :: "ByteVec \<Rightarrow> WBCL_Iterator \<Rightarrow> UINT16 \<Rightarrow> UINT32 outcome" where
  "WbclGetDigestSize mem it algorithmId =
     obind (digest_size_loop mem (it_digestSizes it) algorithmId [0..<unat (it_numberOfDigests it)])
       (\<lambda>digestSize. Ok (ucast digestSize))"

definition end_of_log :: "WBCL_Iterator \<Rightarrow> nat" where
  "end_of_log it = the (it_firstElementPtr it) + unat (it_logSize it)"

text \<open>The loop over the digests of an element, for the \<open>n\<close> that are left, with \<open>ptr\<close> at the next.\<close>

fun digests_size_loop ::
  "ByteVec \<Rightarrow> WBCL_Iterator \<Rightarrow> nat \<Rightarrow> nat \<Rightarrow> UINT32 \<Rightarrow> (HRESULT \<times> UINT32) outcome" where
  "digests_size_loop mem it 0 ptr sz = Ok (S_OK, sz)"
| "digests_size_loop mem it (Suc n) ptr sz =
     obind (LOAD16 mem ptr) (\<lambda>algId. obind (WbclGetDigestSize mem it algId) (\<lambda>digestSize.
       let tpmtHaSize = digestSize + 2; ptr = ptr + unat tpmtHaSize in
       if end_of_log it < ptr then Ok (E_INVALIDARG, 0)
       else digests_size_loop mem it n ptr (sz + tpmtHaSize)))"

definition WbclGetCurrentElementDigestSize :: "ByteVec \<Rightarrow> WBCL_Iterator \<Rightarrow> (HRESULT \<times> UINT32) outcome" where
  "WbclGetCurrentElementDigestSize mem it =
     (if it_logFormat it = TREE_EVENT_LOG_FORMAT_TCG_1_2 then Ok (S_OK, ucast SHA1_DIGEST_SIZE)
      else if it_logFormat it = TREE_EVENT_LOG_FORMAT_TCG_2
      then at_ptr (it_currentElementPtr it) (\<lambda>cur. obind (LOAD32 mem (cur + 8)) (\<lambda>numberOfDigests.
        if MAX_NUMBER_OF_DIGESTS < numberOfDigests then Ok (E_INVALIDARG, 0)
        else digests_size_loop mem it (unat numberOfDigests) (cur + 12) 4))
      else Ok (S_OK, 0))"

definition WbclGetCurrentElementDataSize :: "ByteVec \<Rightarrow> WBCL_Iterator \<Rightarrow> UINT32 outcome" where
  "WbclGetCurrentElementDataSize mem it =
     obind (WbclGetCurrentElementDigestSize mem it) (\<lambda>(hr, digestSize).
       if hr \<noteq> S_OK then Ok 0
       else at_ptr (it_currentElementPtr it) (\<lambda>cur. LOAD32 mem (cur + 8 + unat digestSize)))"

definition WbclGetCurrentElementSize :: "ByteVec \<Rightarrow> WBCL_Iterator \<Rightarrow> (HRESULT \<times> UINT32) outcome" where
  "WbclGetCurrentElementSize mem it =
     obind (WbclGetCurrentElementDigestSize mem it) (\<lambda>(hr, digestSize).
       if hr \<noteq> S_OK then Ok (hr, 0)
       else obind (WbclGetCurrentElementDataSize mem it) (\<lambda>dataSize.
         Ok (hr, 8 + digestSize + 4 + dataSize)))"

definition WbclGetCurrentElementData :: "ByteVec \<Rightarrow> WBCL_Iterator \<Rightarrow> nat option outcome" where
  "WbclGetCurrentElementData mem it =
     obind (WbclGetCurrentElementDataSize mem it) (\<lambda>dataSize.
       if dataSize = 0 then Ok None
       else obind (WbclGetCurrentElementDigestSize mem it) (\<lambda>(hr, digestSize).
         if hr \<noteq> S_OK then Ok None
         else at_ptr (it_currentElementPtr it) (\<lambda>cur. Ok (Some (cur + 8 + unat digestSize + 4)))))"

text \<open>The search for the digest of the log's algorithm, with \<open>ptr\<close> at the next algorithm identifier.\<close>

fun find_digest_loop :: "ByteVec \<Rightarrow> WBCL_Iterator \<Rightarrow> nat \<Rightarrow> nat \<Rightarrow> nat option outcome" where
  "find_digest_loop mem it 0 ptr = Ok None"
| "find_digest_loop mem it (Suc n) ptr =
     obind (LOAD16 mem ptr) (\<lambda>currentAlgorithm.
       let ptr = ptr + 2 in
       if currentAlgorithm = it_hashAlgorithm it then Ok (Some ptr)
       else obind (WbclGetDigestSize mem it currentAlgorithm) (\<lambda>currentDigestSize.
         let ptr = ptr + unat currentDigestSize in
         if end_of_log it < ptr then Ok None else find_digest_loop mem it n ptr))"

definition WbclGetCurrentElementDigest :: "ByteVec \<Rightarrow> WBCL_Iterator \<Rightarrow> nat option outcome" where
  "WbclGetCurrentElementDigest mem it =
     at_ptr (it_currentElementPtr it) (\<lambda>cur.
       if it_logFormat it = TREE_EVENT_LOG_FORMAT_TCG_1_2 then Ok (Some (cur + 8))
       else if it_logFormat it = TREE_EVENT_LOG_FORMAT_TCG_2
       then obind (LOAD32 mem (cur + 8)) (\<lambda>numberOfDigests.
         if MAX_NUMBER_OF_DIGESTS < numberOfDigests then Ok None
         else find_digest_loop mem it (unat numberOfDigests) (cur + 12))
       else Ok None)"

section \<open>The public functions\<close>

text \<open>
  What \<open>WbclApiGetCurrentElement\<close> writes through its pointers; the last three are optional, and an output
  that is not asked for stays as it is.
\<close>

record wbcl_element =
  el_pcrIndex :: UINT32
  el_eventType :: UINT32
  el_digest :: "nat option"
  el_dataSize :: UINT32
  el_data :: "nat option"

definition no_element :: wbcl_element where
  "no_element = \<lparr>el_pcrIndex = 0, el_eventType = 0, el_digest = None, el_dataSize = 0, el_data = None\<rparr>"

definition wanted :: "bool \<Rightarrow> 'a outcome \<Rightarrow> 'a \<Rightarrow> 'a outcome" where
  "wanted want r dflt = (if want then r else Ok dflt)"

definition WbclApiGetCurrentElement ::
  "ByteVec \<Rightarrow> WBCL_Iterator \<Rightarrow> bool \<Rightarrow> bool \<Rightarrow> bool \<Rightarrow> (HRESULT \<times> wbcl_element) outcome" where
  "WbclApiGetCurrentElement mem it ppDigest pcbElementDataSize ppbElementData =
     (case it_currentElementPtr it of
        None \<Rightarrow> Ok (E_INVALIDARG, no_element)
      | Some cur \<Rightarrow>
          if it_currentElementSize it = 0 then Ok (E_INVALIDARG, no_element)
          else obind (LOAD32 mem cur) (\<lambda>pcrIndex. obind (LOAD32 mem (cur + 4)) (\<lambda>eventType.
            obind (wanted ppDigest (WbclGetCurrentElementDigest mem it) None) (\<lambda>digest.
            obind (wanted pcbElementDataSize (WbclGetCurrentElementDataSize mem it) 0) (\<lambda>dataSize.
            obind (wanted ppbElementData (WbclGetCurrentElementData mem it) None) (\<lambda>data.
            Ok (S_OK, \<lparr>el_pcrIndex = pcrIndex, el_eventType = eventType, el_digest = digest,
              el_dataSize = dataSize, el_data = data\<rparr>)))))))"

text \<open>The end of the iteration: the iterator is left with no current element.\<close>

definition at_end :: "WBCL_Iterator \<Rightarrow> WBCL_Iterator" where
  "at_end it = it\<lparr>it_currentElementPtr := None, it_currentElementSize := 0\<rparr>"

definition minimum_size :: "WBCL_Iterator \<Rightarrow> UINT32" where
  "minimum_size it =
     (if it_logFormat it = TREE_EVENT_LOG_FORMAT_TCG_2 then 4 * 4 + 2 + ucast (it_digestSize it)
      else 3 * 4 + ucast SHA1_DIGEST_SIZE)"

definition WbclApiMoveToNextElement :: "ByteVec \<Rightarrow> WBCL_Iterator \<Rightarrow> (HRESULT \<times> WBCL_Iterator) outcome" where
  "WbclApiMoveToNextElement mem it =
     (case it_currentElementPtr it of
        None \<Rightarrow> Ok (S_OK, it)
      | Some cur \<Rightarrow>
          if it_currentElementSize it = 0 then Ok (S_OK, it)
          else
            let next = cur + unat (it_currentElementSize it) in
            if end_of_log it < next + unat (minimum_size it) then Ok (S_FALSE, at_end it)
            else
              let it = it\<lparr>it_currentElementPtr := Some next\<rparr> in
              obind (WbclGetCurrentElementSize mem it) (\<lambda>(hr, elementSize).
                if hr \<noteq> S_OK then Ok (S_FALSE, at_end it)
                else
                  let it = it\<lparr>it_currentElementSize := elementSize\<rparr> in
                  if end_of_log it < next + unat elementSize then Ok (S_FALSE, at_end it)
                  else Ok (S_OK, it)))"

text \<open>\<open>strcmp(p, sig) == 0\<close>, which stops at the first difference and at the end of the string.\<close>

fun strcmp_eq :: "ByteVec \<Rightarrow> nat \<Rightarrow> ByteVec \<Rightarrow> bool outcome" where
  "strcmp_eq mem p [] = Ok True"
| "strcmp_eq mem p (c # cs) = obind (LOAD8 mem p) (\<lambda>b.
     if b \<noteq> c then Ok False else if c = 0 then Ok True else strcmp_eq mem (Suc p) cs)"

definition TCG_EfiSpecIdEventStruct_Signature_03 :: ByteVec where
  "TCG_EfiSpecIdEventStruct_Signature_03 =
     [0x53, 0x70, 0x65, 0x63, 0x20, 0x49, 0x44, 0x20, 0x45, 0x76, 0x65, 0x6e, 0x74, 0x30, 0x33, 0x00]"

definition g_WbclAlgotihmIdToBitmapTable :: "UINT32 list" where
  "g_WbclAlgotihmIdToBitmapTable = [0, 0, 0, 0, 1, 0, 0, 0, 0, 0, 0, 2, 4, 8]"

fun algorithms_loop :: "ByteVec \<Rightarrow> nat \<Rightarrow> nat list \<Rightarrow> UINT32 \<Rightarrow> UINT32 outcome" where
  "algorithms_loop mem table [] supported = Ok supported"
| "algorithms_loop mem table (digestCounter # cs) supported =
     obind (LOAD16 mem (table + 4 * digestCounter)) (\<lambda>algId.
       if unat algId < length g_WbclAlgotihmIdToBitmapTable
       then algorithms_loop mem table cs (supported OR g_WbclAlgotihmIdToBitmapTable ! unat algId)
       else Undef)"

text \<open>
  The checks of the descriptor \<open>d\<close> in the first event and the choice of the log's algorithm. The fields of
  the packed \<open>TCG_EfiSpecIdEventStruct\<close> are at 20 (\<open>SpecVersionMinor\<close>), 21 (\<open>SpecVersionMajor\<close>),
  24 (\<open>NumberOfAlgorithms\<close>) and 28 (\<open>DigestSizes\<close>).
\<close>

definition use_descriptor ::
  "ByteVec \<Rightarrow> WBCL_Iterator \<Rightarrow> nat \<Rightarrow> UINT32 \<Rightarrow> (HRESULT \<times> WBCL_Iterator) outcome" where
  "use_descriptor mem it d firstElementDataSize =
     obind (LOAD8 mem (d + 21)) (\<lambda>major. obind (LOAD8 mem (d + 20)) (\<lambda>minor.
     if major < 1 \<or> major = 1 \<and> minor < 2 then Ok (HRESULT_FROM_WIN32 ERROR_NOT_SUPPORTED, it)
     else if firstElementDataSize < 28 then Ok (HRESULT_FROM_WIN32 ERROR_NOT_SUPPORTED, it)
     else obind (LOAD32 mem (d + 24)) (\<lambda>numberOfAlgorithms.
       if MAX_NUMBER_OF_DIGESTS < numberOfAlgorithms then Ok (HRESULT_FROM_WIN32 ERROR_NOT_SUPPORTED, it)
       else if firstElementDataSize < 28 + numberOfAlgorithms * 4
       then Ok (HRESULT_FROM_WIN32 ERROR_INVALID_DATA, it)
       else obind (algorithms_loop mem (d + 28) [0..<unat numberOfAlgorithms] 0) (\<lambda>supported.
         let it = it\<lparr>it_logFormat := TREE_EVENT_LOG_FORMAT_TCG_2, it_numberOfDigests := numberOfAlgorithms,
               it_digestSizes := Some (d + 28)\<rparr>;
             moved = (\<lambda>it. obind (WbclApiMoveToNextElement mem it) (\<lambda>(hr, it).
               if hr \<noteq> S_OK then Ok (HRESULT_FROM_WIN32 ERROR_INVALID_DATA, it) else Ok (hr, it)))
         in if supported AND 2 \<noteq> 0
            then moved (it\<lparr>it_hashAlgorithm := WBCL_DIGEST_ALG_ID_SHA_2_256, it_digestSize := SHA256_DIGEST_SIZE\<rparr>)
            else if supported AND 1 \<noteq> 0
            then moved (it\<lparr>it_hashAlgorithm := WBCL_DIGEST_ALG_ID_SHA_1, it_digestSize := SHA1_DIGEST_SIZE\<rparr>)
            else Ok (HRESULT_FROM_WIN32 ERROR_NOT_SUPPORTED, it)))))"

definition WbclApiInitIterator ::
  "ByteVec option \<Rightarrow> UINT32 \<Rightarrow> WBCL_Iterator \<Rightarrow> (HRESULT \<times> WBCL_Iterator) outcome" where
  "WbclApiInitIterator pLogBuffer logSize it =
     (case pLogBuffer of
        None \<Rightarrow> Ok (E_INVALIDARG, it)
      | Some mem \<Rightarrow>
          if logSize < 32 then Ok (E_INVALIDARG, it)
          else
            let it = it\<lparr>it_firstElementPtr := Some 0, it_logSize := logSize, it_currentElementPtr := Some 0,
                  it_digestSize := SHA1_DIGEST_SIZE, it_logFormat := TREE_EVENT_LOG_FORMAT_TCG_1_2,
                  it_numberOfDigests := 0, it_digestSizes := None, it_hashAlgorithm := WBCL_DIGEST_ALG_ID_SHA_1\<rparr>
            in obind (WbclGetCurrentElementSize mem it) (\<lambda>(hr, elementSize).
              if hr \<noteq> S_OK \<or> logSize < elementSize then Ok (HRESULT_FROM_WIN32 ERROR_INVALID_DATA, it)
              else
                let it = it\<lparr>it_currentElementSize := elementSize\<rparr> in
                obind (WbclApiGetCurrentElement mem it False True False) (\<lambda>(hr, el).
                  if hr \<noteq> S_OK then Ok (HRESULT_FROM_WIN32 ERROR_INVALID_DATA, it)
                  else if el_pcrIndex el = 0 \<and> el_eventType el = SIPAEV_NO_ACTION \<and> 33 \<le> el_dataSize el
                  then obind (WbclGetCurrentElementData mem it) (\<lambda>pLogDescriptor.
                    at_ptr pLogDescriptor (\<lambda>d.
                      obind (strcmp_eq mem d TCG_EfiSpecIdEventStruct_Signature_03) (\<lambda>same.
                        if same then use_descriptor mem it d (el_dataSize el) else Ok (S_OK, it))))
                  else Ok (S_OK, it))))"

text \<open>
  The loop that both users of the iterator run: the body is called with the current element, for as long as
  there is one; an element that cannot be read, or a body that fails, ends it with that error.
\<close>

lemma MoveToNext_progress:
  assumes "WbclApiMoveToNextElement mem it = Ok (S_OK, it')" and "it_currentElementPtr it = Some cur"
    and "it_currentElementSize it \<noteq> 0"
  shows "it_currentElementPtr it' = Some (cur + unat (it_currentElementSize it))"
    and "cur + unat (it_currentElementSize it) \<le> end_of_log it" and "end_of_log it' = end_of_log it"
  using assms by (auto simp: WbclApiMoveToNextElement_def Let_def obind_eq_Ok end_of_log_def split: if_splits)

definition left_in_log :: "WBCL_Iterator \<Rightarrow> nat" where
  "left_in_log it = Suc (end_of_log it) - the (it_currentElementPtr it)"

lemma GetCurrentElement_OK:
  "WbclApiGetCurrentElement mem it a b c = Ok (hr, el) \<Longrightarrow> \<not> FAILED hr \<Longrightarrow>
   (\<exists>cur. it_currentElementPtr it = Some cur) \<and> it_currentElementSize it \<noteq> 0"
  by (auto simp: WbclApiGetCurrentElement_def FAILED_def bit_simps split: option.splits if_splits)

function log_loop ::
  "ByteVec \<Rightarrow> (WBCL_Iterator \<Rightarrow> wbcl_element \<Rightarrow> 'a \<Rightarrow> (HRESULT \<times> 'a) outcome) \<Rightarrow> WBCL_Iterator \<Rightarrow> 'a \<Rightarrow>
     (HRESULT \<times> 'a) outcome" where
  "log_loop mem body it s =
     (case WbclApiGetCurrentElement mem it True True True of
        Ok (hr, el) \<Rightarrow>
          if FAILED hr then Ok (hr, s)
          else (case body it el s of
            Ok (hr, s) \<Rightarrow>
              if FAILED hr then Ok (hr, s)
              else (case WbclApiMoveToNextElement mem it of
                Ok (hr, it) \<Rightarrow> if hr = S_OK then log_loop mem body it s else Ok (S_OK, s)
              | Throw e \<Rightarrow> Throw e | AssertFailed \<Rightarrow> AssertFailed | Undef \<Rightarrow> Undef)
          | Throw e \<Rightarrow> Throw e | AssertFailed \<Rightarrow> AssertFailed | Undef \<Rightarrow> Undef)
      | Throw e \<Rightarrow> Throw e | AssertFailed \<Rightarrow> AssertFailed | Undef \<Rightarrow> Undef)"
  by pat_completeness auto
termination
proof (relation "measure (\<lambda>(mem, body, it, s). left_in_log it)", goal_cases)
  case (2 mem body it s p hr el q hr' s' r hr'' it')
  then obtain cur where cur: "it_currentElementPtr it = Some cur" "it_currentElementSize it \<noteq> 0"
    using GetCurrentElement_OK [of mem it True True True hr el] by auto
  then have "0 < unat (it_currentElementSize it)" by (simp add: unat_gt_0)
  moreover have "WbclApiMoveToNextElement mem it = Ok (S_OK, it')" using 2 by simp
  ultimately show ?case
    using MoveToNext_progress [OF _ cur] cur(1) by (fastforce simp: left_in_log_def)
qed simp

declare log_loop.simps [simp del]

end
