(* ===== verification/PcpWbclLaws.thy ===== *)
theory PcpWbclLaws
  imports PcpWbcl
begin

unbundle bit_operations_syntax

text \<open>
  What the iterator of \<open>PcpWbcl\<close> does on a log that is the encoding of a list of events, in either format:
  it visits the events in their order, and what it returns for each points to the event's parts.
\<close>

section \<open>Little-endian numbers\<close>

lemma le_word_le_bytes: "le_word (le_bytes n v) = take_bit (8 * n) v"
proof (induction n arbitrary: v)
  case (Suc n)
  show ?case
    by (rule bit_word_eqI) (auto simp: Suc.IH bit_simps not_le less_diff_conv2 add.commute dest: bit_imp_le_length)
qed simp

lemma length_le_bytes [simp]: "length (le_bytes n v) = n"
  by (induction n arbitrary: v) simp_all

lemma le_word_bytes [simp]:
  "le_word (le_bytes 2 (v :: UINT16)) = v" "le_word (le_bytes 4 (w :: UINT32)) = w"
  by (simp_all add: le_word_le_bytes take_bit_word_eq_self)

section \<open>Bytes at a place of the log\<close>

definition has_at :: "ByteVec \<Rightarrow> nat \<Rightarrow> ByteVec \<Rightarrow> bool" where
  "has_at mem p xs \<longleftrightarrow> p + length xs \<le> length mem \<and> take (length xs) (drop p mem) = xs"

lemma has_at_append: "has_at mem p (xs @ ys) \<longleftrightarrow> has_at mem p xs \<and> has_at mem (p + length xs) ys"
proof (cases "p + length xs \<le> length mem")
  case True
  then have "length (take (length xs) (drop p mem)) = length xs" by simp
  then show ?thesis
    by (auto simp: has_at_def take_add ac_simps)
qed (simp add: has_at_def)

lemma has_at_Nil: "has_at mem p [] \<longleftrightarrow> p \<le> length mem"
  by (simp add: has_at_def)

lemma has_at_le: "has_at mem p xs \<Longrightarrow> p + length xs \<le> length mem"
  by (simp add: has_at_def)

lemma has_at_all: "has_at mem 0 mem"
  by (auto simp: has_at_def)

lemma LOAD_has_at: "has_at mem p xs \<Longrightarrow> length xs = n \<Longrightarrow> LOAD mem p n = Ok xs"
  by (auto simp: has_at_def LOAD_def)

lemma LOAD32_has_at: "has_at mem p (le_bytes 4 v) \<Longrightarrow> LOAD32 mem p = Ok v"
  by (simp add: LOAD32_def LOAD_has_at)

lemma LOAD16_has_at: "has_at mem p (le_bytes 2 v) \<Longrightarrow> LOAD16 mem p = Ok v"
  by (simp add: LOAD16_def LOAD_has_at)

lemma LOAD8_has_at: "has_at mem p [b] \<Longrightarrow> LOAD8 mem p = Ok b"
  by (auto simp: has_at_def LOAD8_def take_Suc hd_drop_conv_nth split: if_splits dest!: arg_cong [of _ _ hd])

lemma has_at_concat_nth:
  assumes "has_at mem p (concat (map f xs))" and "\<And>x. length (f x) = n" and "i < length xs"
  shows "has_at mem (p + n * i) (f (xs ! i))"
  using assms(1,3)
proof (induction xs arbitrary: p i)
  case (Cons x xs)
  then show ?case using Cons.IH [of "p + n" "i - 1"] assms(2)
    by (cases i) (auto simp: has_at_append add.assoc)
qed simp

section \<open>The encoding of a log\<close>

record log_event =
  ev_pcr :: UINT32
  ev_type :: UINT32
  ev_digests :: "(UINT16 \<times> ByteVec) list"
  ev_data :: ByteVec

text \<open>
  The format of a log: whether it is crypto-agile, the digest sizes that its header declares, and the
  algorithm that the iterator picks with its digest size.
\<close>

record log_format =
  lf_agile :: bool
  lf_table :: "(UINT16 \<times> UINT16) list"
  lf_alg :: UINT16
  lf_size :: UINT16

definition digest_entry :: "UINT16 \<times> ByteVec \<Rightarrow> ByteVec" where
  "digest_entry = (\<lambda>(a, d). le_bytes 2 a @ d)"

definition digests_bytes :: "bool \<Rightarrow> log_event \<Rightarrow> ByteVec" where
  "digests_bytes agile e =
     (if agile then le_bytes 4 (of_nat (length (ev_digests e)) :: UINT32) @ concat (map digest_entry (ev_digests e))
      else snd (hd (ev_digests e)))"

definition event_bytes :: "bool \<Rightarrow> log_event \<Rightarrow> ByteVec" where
  "event_bytes agile e = le_bytes 4 (ev_pcr e) @ le_bytes 4 (ev_type e) @ digests_bytes agile e @
     le_bytes 4 (of_nat (length (ev_data e)) :: UINT32) @ ev_data e"

definition table_size :: "(UINT16 \<times> UINT16) list \<Rightarrow> UINT16 \<Rightarrow> UINT16" where
  "table_size tab alg = (case map_of tab alg of Some n \<Rightarrow> n | None \<Rightarrow> SHA1_DIGEST_SIZE)"

text \<open>The digest that the iterator picks.\<close>

definition event_digest :: "log_format \<Rightarrow> log_event \<Rightarrow> ByteVec" where
  "event_digest lf e = (if lf_agile lf then the (map_of (ev_digests e) (lf_alg lf)) else snd (hd (ev_digests e)))"

definition event_ok :: "log_format \<Rightarrow> log_event \<Rightarrow> bool" where
  "event_ok lf e \<longleftrightarrow>
     (if lf_agile lf
      then length (ev_digests e) \<le> 5 \<and> (\<forall>(a, d) \<in> set (ev_digests e). length d = unat (table_size (lf_table lf) a)) \<and>
        lf_alg lf \<in> fst ` set (ev_digests e)
      else length (ev_digests e) = 1 \<and> length (snd (hd (ev_digests e))) = 20)"

definition table_entry :: "UINT16 \<times> UINT16 \<Rightarrow> ByteVec" where
  "table_entry = (\<lambda>(a, n). le_bytes 2 a @ le_bytes 2 n)"

text \<open>An iterator over the log \<open>mem\<close> that has found its format.\<close>

definition iterates :: "ByteVec \<Rightarrow> log_format \<Rightarrow> WBCL_Iterator \<Rightarrow> bool" where
  "iterates mem lf it \<longleftrightarrow>
     length mem < 2 ^ 32 \<and> it_firstElementPtr it = Some 0 \<and> it_logSize it = of_nat (length mem) \<and>
     it_logFormat it = (if lf_agile lf then 2 else 1) \<and> it_hashAlgorithm it = lf_alg lf \<and>
     it_digestSize it = lf_size lf \<and> lf_size lf = table_size (lf_table lf) (lf_alg lf) \<and>
     unat (it_numberOfDigests it) = length (lf_table lf) \<and>
     (lf_table lf \<noteq> [] \<longrightarrow> (\<exists>t. it_digestSizes it = Some t \<and> has_at mem t (concat (map table_entry (lf_table lf)))))"

lemma iterates_cong:
  "iterates mem lf it \<Longrightarrow> iterates mem lf (it\<lparr>it_currentElementPtr := p, it_currentElementSize := s\<rparr>)"
  "iterates mem lf it \<Longrightarrow> iterates mem lf (it\<lparr>it_currentElementPtr := p\<rparr>)"
  "iterates mem lf it \<Longrightarrow> iterates mem lf (it\<lparr>it_currentElementSize := s\<rparr>)"
  by (simp_all add: iterates_def)

lemma end_of_log_iterates: "iterates mem lf it \<Longrightarrow> end_of_log it = length mem"
  by (simp add: iterates_def end_of_log_def unsigned_of_nat take_bit_nat_eq_self)

section \<open>The parts of an element\<close>

lemma digest_size_loop_table:
  assumes "has_at mem t (concat (map table_entry tab))" and "k \<le> length tab"
  shows "digest_size_loop mem (Some t) alg [k..<length tab] = Ok (table_size (drop k tab) alg)"
  using assms(2)
proof (induction rule: inc_induct)
  case base
  then show ?case by (simp add: table_size_def)
next
  case (step k)
  obtain a n where e: "tab ! k = (a, n)" by (cases "tab ! k")
  have d: "drop k tab = (a, n) # drop (Suc k) tab" using step e by (metis Cons_nth_drop_Suc)
  have "has_at mem (t + 4 * k) (table_entry (tab ! k))"
    by (rule has_at_concat_nth [OF assms(1)]) (use step in \<open>auto simp: table_entry_def split: prod.splits\<close>)
  then have h: "has_at mem (t + 4 * k) (le_bytes 2 a)" "has_at mem (t + 4 * k + 2) (le_bytes 2 n)"
    using e by (simp_all add: table_entry_def has_at_append)
  have u: "[k..<length tab] = k # [Suc k..<length tab]" using step by (simp add: upt_conv_Cons)
  have "LOAD16 mem (Suc (Suc (t + 4 * k))) = Ok n" using LOAD16_has_at [OF h(2)] by simp
  then show ?case
    by (simp add: u at_ptr_def LOAD16_has_at [OF h(1)] step.IH d table_size_def)
qed

lemma WbclGetDigestSize_table:
  assumes "iterates mem lf it"
  shows "WbclGetDigestSize mem it alg = Ok (ucast (table_size (lf_table lf) alg))"
proof (cases "lf_table lf = []")
  case True
  then show ?thesis using assms by (simp add: WbclGetDigestSize_def iterates_def table_size_def)
next
  case False
  then obtain t where t: "it_digestSizes it = Some t" "has_at mem t (concat (map table_entry (lf_table lf)))"
    using assms by (auto simp: iterates_def)
  then show ?thesis using digest_size_loop_table [OF t(2), of 0] assms
    by (simp add: WbclGetDigestSize_def iterates_def)
qed

lemma table_size_room: "unat (ucast (n :: UINT16) + 2 :: UINT32) = unat n + 2"
proof -
  have "unat n < 65536" using unsigned_less [of n] by simp
  then show ?thesis by (simp add: unat_word_ariths unsigned_ucast_eq take_bit_nat_eq_self)
qed

lemma digests_size_loop_bytes:
  assumes it: "iterates mem lf it" and d: "\<forall>(a, d) \<in> set ds. length d = unat (table_size (lf_table lf) a)"
    and m: "has_at mem ptr (concat (map digest_entry ds))"
  shows "digests_size_loop mem it (length ds) ptr sz = Ok (S_OK, sz + of_nat (length (concat (map digest_entry ds))))"
  using d m
proof (induction ds arbitrary: ptr sz)
  case (Cons x ds)
  obtain a d where x: "x = (a, d)" by (cases x)
  have l: "length d = unat (table_size (lf_table lf) a)" using Cons.prems x by simp
  have h: "has_at mem ptr (le_bytes 2 a)" "has_at mem (ptr + (2 + length d)) (concat (map digest_entry ds))"
    using Cons.prems(2) x by (simp_all add: digest_entry_def has_at_append add.assoc)
  have e: "ptr + (2 + length d) \<le> end_of_log it" using has_at_le [OF h(2)] end_of_log_iterates [OF it] by simp
  let ?n = "ucast (table_size (lf_table lf) a) + 2 :: UINT32"
  have n: "unat ?n = 2 + length d" using table_size_room [of "table_size (lf_table lf) a"] l by simp
  then have w: "?n = of_nat (2 + length d)" by (simp add: l)
  have "digests_size_loop mem it (length (x # ds)) ptr sz = digests_size_loop mem it (length ds) (ptr + (2 + length d)) (sz + ?n)"
    using e by (simp only: x list.size digests_size_loop.simps add_Suc_right add_0_right LOAD16_has_at [OF h(1)] obind.simps
        WbclGetDigestSize_table [OF it] Let_def n not_less [symmetric] if_False simp_thms)
  also have "\<dots> = Ok (S_OK, sz + ?n + of_nat (length (concat (map digest_entry ds))))"
    using Cons.prems(1) h(2) by (intro Cons.IH) simp_all
  also have "\<dots> = Ok (S_OK, sz + of_nat (length (concat (map digest_entry (x # ds)))))"
    unfolding w by (simp add: x digest_entry_def ac_simps)
  finally show ?case .
qed simp

lemma find_digest_loop_bytes:
  assumes it: "iterates mem lf it" and d: "\<forall>(a, d) \<in> set ds. length d = unat (table_size (lf_table lf) a)"
    and m: "has_at mem ptr (concat (map digest_entry ds))" and k: "map_of ds (lf_alg lf) = Some x"
  shows "\<exists>q. find_digest_loop mem it (length ds) ptr = Ok (Some q) \<and> has_at mem q x"
  using d m k
proof (induction ds arbitrary: ptr)
  case (Cons y ds)
  obtain a d where y: "y = (a, d)" by (cases y)
  have l: "length d = unat (table_size (lf_table lf) a)" using Cons.prems y by simp
  have h: "has_at mem ptr (le_bytes 2 a)" "has_at mem (ptr + 2) d"
    "has_at mem (ptr + 2 + length d) (concat (map digest_entry ds))"
    using Cons.prems(2) y by (simp_all add: digest_entry_def has_at_append add.assoc)
  have alg: "it_hashAlgorithm it = lf_alg lf" using it by (simp add: iterates_def)
  show ?case
  proof (cases "a = lf_alg lf")
    case True
    then show ?thesis using h Cons.prems(3) y by (simp add: LOAD16_has_at [OF h(1)] alg)
  next
    case False
    have e: "\<not> end_of_log it < ptr + 2 + unat (ucast (table_size (lf_table lf) a) :: UINT32)"
      using has_at_le [OF h(3)] end_of_log_iterates [OF it] l by simp
    have "find_digest_loop mem it (length (y # ds)) ptr = find_digest_loop mem it (length ds) (ptr + 2 + length d)"
      using e False by (simp only: y list.size find_digest_loop.simps add_Suc_right add_0_right LOAD16_has_at [OF h(1)]
          obind.simps WbclGetDigestSize_table [OF it] Let_def alg if_False l unat_ucast_16_32)
    then show ?thesis using Cons.IH [OF _ h(3)] Cons.prems y False by simp
  qed
qed simp

section \<open>The current element\<close>

text \<open>The iterator stands at \<open>cur\<close>, where the log has the event \<open>e\<close>.\<close>

definition stands_at :: "ByteVec \<Rightarrow> log_format \<Rightarrow> WBCL_Iterator \<Rightarrow> nat \<Rightarrow> log_event \<Rightarrow> bool" where
  "stands_at mem lf it cur e \<longleftrightarrow> iterates mem lf it \<and> event_ok lf e \<and> it_currentElementPtr it = Some cur \<and>
     has_at mem cur (event_bytes (lf_agile lf) e)"

abbreviation digests_length :: "log_format \<Rightarrow> log_event \<Rightarrow> nat" where
  "digests_length lf e \<equiv> length (digests_bytes (lf_agile lf) e)"

lemma length_event_bytes: "length (event_bytes ag e) = 12 + length (digests_bytes ag e) + length (ev_data e)"
  by (simp add: event_bytes_def)

lemma stands_at_parts:
  assumes "stands_at mem lf it cur e"
  shows "has_at mem cur (le_bytes 4 (ev_pcr e))" "has_at mem (cur + 4) (le_bytes 4 (ev_type e))"
    "has_at mem (cur + 8) (digests_bytes (lf_agile lf) e)"
    "has_at mem (cur + 8 + digests_length lf e) (le_bytes 4 (of_nat (length (ev_data e)) :: UINT32))"
    "has_at mem (cur + 12 + digests_length lf e) (ev_data e)"
    "cur + length (event_bytes (lf_agile lf) e) \<le> length mem" "length mem < 2 ^ 32"
  using assms has_at_le [of mem cur "event_bytes (lf_agile lf) e"]
  by (auto simp: stands_at_def iterates_def event_bytes_def has_at_append ac_simps)

lemma unat_small [simp]: "n < 2 ^ 32 \<Longrightarrow> unat (of_nat n :: UINT32) = n"
  by (simp add: unsigned_of_nat take_bit_nat_eq_self)

lemma digest_size_at:
  assumes "stands_at mem lf it cur e"
  shows "WbclGetCurrentElementDigestSize mem it = Ok (S_OK, of_nat (digests_length lf e))"
proof (cases "lf_agile lf")
  case True
  have it: "iterates mem lf it" and ok: "event_ok lf e" and cur: "it_currentElementPtr it = Some cur"
    using assms by (simp_all add: stands_at_def)
  have h: "has_at mem (cur + 8) (le_bytes 4 (of_nat (length (ev_digests e)) :: UINT32))"
    "has_at mem (cur + 12) (concat (map digest_entry (ev_digests e)))"
    using stands_at_parts(3) [OF assms] True by (simp_all add: digests_bytes_def has_at_append add.assoc)
  have n: "length (ev_digests e) \<le> 5" and d: "\<forall>(a, d) \<in> set (ev_digests e). length d = unat (table_size (lf_table lf) a)"
    using ok True by (simp_all add: event_ok_def)
  have u: "unat (of_nat (length (ev_digests e)) :: UINT32) = length (ev_digests e)" using n by simp
  then have "\<not> 5 < (of_nat (length (ev_digests e)) :: UINT32)" using n by (simp add: word_less_nat_alt)
  then show ?thesis
    using it True digests_size_loop_bytes [OF it d h(2), of 4]
    by (simp add: WbclGetCurrentElementDigestSize_def iterates_def at_ptr_def cur LOAD32_has_at [OF h(1)] u digests_bytes_def)
next
  case False
  then show ?thesis using assms
    by (simp add: WbclGetCurrentElementDigestSize_def stands_at_def iterates_def event_ok_def digests_bytes_def)
qed

lemma sizes_at:
  assumes "stands_at mem lf it cur e"
  shows "WbclGetCurrentElementDataSize mem it = Ok (of_nat (length (ev_data e)))"
    and "WbclGetCurrentElementSize mem it = Ok (S_OK, of_nat (length (event_bytes (lf_agile lf) e)))"
    and "WbclGetCurrentElementData mem it =
      Ok (if ev_data e = [] then None else Some (cur + 12 + digests_length lf e))"
proof -
  note p = stands_at_parts [OF assms] and ds = digest_size_at [OF assms]
  have cur: "it_currentElementPtr it = Some cur" using assms by (simp add: stands_at_def)
  have u: "unat (of_nat (digests_length lf e) :: UINT32) = digests_length lf e"
    "unat (of_nat (length (ev_data e)) :: UINT32) = length (ev_data e)"
    using p(6,7) by (simp_all add: length_event_bytes)
  show dsz: "WbclGetCurrentElementDataSize mem it = Ok (of_nat (length (ev_data e)))"
    by (simp add: WbclGetCurrentElementDataSize_def ds at_ptr_def cur u LOAD32_has_at [OF p(4)])
  show "WbclGetCurrentElementSize mem it = Ok (S_OK, of_nat (length (event_bytes (lf_agile lf) e)))"
    by (simp add: WbclGetCurrentElementSize_def ds dsz length_event_bytes)
  have "(of_nat (length (ev_data e)) :: UINT32) = 0 \<longleftrightarrow> ev_data e = []"
    using u(2) by (cases "(of_nat (length (ev_data e)) :: UINT32) = 0") auto
  then show "WbclGetCurrentElementData mem it =
      Ok (if ev_data e = [] then None else Some (cur + 12 + digests_length lf e))"
    by (simp add: WbclGetCurrentElementData_def dsz ds at_ptr_def cur u)
qed

lemma digest_at:
  assumes "stands_at mem lf it cur e"
  shows "\<exists>q. WbclGetCurrentElementDigest mem it = Ok (Some q) \<and> has_at mem q (event_digest lf e)"
proof (cases "lf_agile lf")
  case True
  have it: "iterates mem lf it" and ok: "event_ok lf e" and cur: "it_currentElementPtr it = Some cur"
    using assms by (simp_all add: stands_at_def)
  have h: "has_at mem (cur + 8) (le_bytes 4 (of_nat (length (ev_digests e)) :: UINT32))"
    "has_at mem (cur + 12) (concat (map digest_entry (ev_digests e)))"
    using stands_at_parts(3) [OF assms] True by (simp_all add: digests_bytes_def has_at_append add.assoc)
  have n: "length (ev_digests e) \<le> 5" and d: "\<forall>(a, d) \<in> set (ev_digests e). length d = unat (table_size (lf_table lf) a)"
    using ok True by (simp_all add: event_ok_def)
  obtain x where x: "map_of (ev_digests e) (lf_alg lf) = Some x"
    using ok True by (auto simp: event_ok_def dest: weak_map_of_SomeI)
  have u: "unat (of_nat (length (ev_digests e)) :: UINT32) = length (ev_digests e)" using n by simp
  then have "\<not> 5 < (of_nat (length (ev_digests e)) :: UINT32)" using n by (simp add: word_less_nat_alt)
  then show ?thesis
    using it True find_digest_loop_bytes [OF it d h(2) x] x
    by (simp add: WbclGetCurrentElementDigest_def iterates_def at_ptr_def cur LOAD32_has_at [OF h(1)] u event_digest_def)
next
  case False
  then show ?thesis using assms stands_at_parts(3) [OF assms]
    by (simp add: WbclGetCurrentElementDigest_def stands_at_def iterates_def event_digest_def at_ptr_def digests_bytes_def)
qed

text \<open>What the element that is returned points to.\<close>

definition shows_event :: "ByteVec \<Rightarrow> log_format \<Rightarrow> wbcl_element \<Rightarrow> log_event \<Rightarrow> bool" where
  "shows_event mem lf el e \<longleftrightarrow> el_pcrIndex el = ev_pcr e \<and> el_eventType el = ev_type e \<and>
     unat (el_dataSize el) = length (ev_data e) \<and> (\<exists>q. el_digest el = Some q \<and> has_at mem q (event_digest lf e)) \<and>
     (ev_data e \<noteq> [] \<longrightarrow> (\<exists>d. el_data el = Some d \<and> has_at mem d (ev_data e)))"

lemma GetCurrentElement_at:
  assumes "stands_at mem lf it cur e" and "it_currentElementSize it = of_nat (length (event_bytes (lf_agile lf) e))"
  shows "\<exists>el. WbclApiGetCurrentElement mem it True True True = Ok (S_OK, el) \<and> shows_event mem lf el e"
proof -
  note p = stands_at_parts [OF assms(1)]
  obtain q where q: "WbclGetCurrentElementDigest mem it = Ok (Some q)" "has_at mem q (event_digest lf e)"
    using digest_at [OF assms(1)] by blast
  have cur: "it_currentElementPtr it = Some cur" using assms(1) by (simp add: stands_at_def)
  have "unat (it_currentElementSize it) = length (event_bytes (lf_agile lf) e)" using assms(2) p(6,7) by simp
  then have nz: "it_currentElementSize it \<noteq> 0" by (auto simp: length_event_bytes)
  show ?thesis
    using q p(5,6,7) nz
    by (simp add: WbclApiGetCurrentElement_def cur LOAD32_has_at [OF p(1)] LOAD32_has_at [OF p(2)] wanted_def
        sizes_at [OF assms(1)] shows_event_def length_event_bytes)
qed

section \<open>Moving on\<close>

lemma digests_length_min:
  assumes "event_ok lf e" and "lf_size lf = table_size (lf_table lf) (lf_alg lf)"
  shows "(if lf_agile lf then 6 + unat (lf_size lf) else 20) \<le> digests_length lf e"
proof (cases "lf_agile lf")
  case True
  then obtain d where d: "(lf_alg lf, d) \<in> set (ev_digests e)" "length d = unat (lf_size lf)"
    using assms by (fastforce simp: event_ok_def)
  then have "length (digest_entry (lf_alg lf, d)) \<le> sum_list (map (length \<circ> digest_entry) (ev_digests e))"
    by (intro member_le_sum_list) (force, simp)
  then show ?thesis using True d by (simp add: digests_bytes_def digest_entry_def length_concat comp_def)
qed (use assms in \<open>simp add: event_ok_def digests_bytes_def\<close>)

lemma minimum_size_le:
  assumes "iterates mem lf it" and "event_ok lf e"
  shows "unat (minimum_size it) \<le> length (event_bytes (lf_agile lf) e)"
proof -
  have "unat (lf_size lf) < 65536" using unsigned_less [of "lf_size lf"] by simp
  then have "unat (18 + ucast (lf_size lf) :: UINT32) = 18 + unat (lf_size lf)"
    by (simp add: unat_word_ariths unsigned_ucast_eq take_bit_nat_eq_self)
  then show ?thesis
    using digests_length_min [OF assms(2)] assms(1)
    by (auto simp: minimum_size_def iterates_def length_event_bytes)
qed

text \<open>An iterator that is as the loops find it.\<close>

definition ready :: "ByteVec \<Rightarrow> log_format \<Rightarrow> WBCL_Iterator \<Rightarrow> nat \<Rightarrow> log_event \<Rightarrow> bool" where
  "ready mem lf it cur e \<longleftrightarrow> stands_at mem lf it cur e \<and>
     it_currentElementSize it = of_nat (length (event_bytes (lf_agile lf) e))"

lemma MoveToNext_event:
  assumes it: "iterates mem lf it" and cur: "it_currentElementPtr it = Some cur"
    and sz: "it_currentElementSize it = of_nat n" "0 < n"
    and m: "has_at mem (cur + n) (event_bytes (lf_agile lf) e)" and ok: "event_ok lf e"
  shows "\<exists>it'. WbclApiMoveToNextElement mem it = Ok (S_OK, it') \<and> ready mem lf it' (cur + n) e"
proof -
  let ?it = "it\<lparr>it_currentElementPtr := Some (cur + n)\<rparr>"
  let ?l = "length (event_bytes (lf_agile lf) e)"
  have l: "cur + n + ?l \<le> length mem" "length mem < 2 ^ 32"
    using has_at_le [OF m] it by (simp_all add: iterates_def)
  then have u: "unat (of_nat n :: UINT32) = n" "unat (of_nat ?l :: UINT32) = ?l" by simp_all
  then have nz: "(of_nat n :: UINT32) \<noteq> 0" using sz(2) by auto
  have s: "stands_at mem lf ?it (cur + n) e"
    using it ok m iterates_cong(2) [OF it] by (simp add: stands_at_def)
  have min: "\<not> end_of_log it < cur + n + unat (minimum_size it)"
    using minimum_size_le [OF it ok] l end_of_log_iterates [OF it] by simp
  have e: "\<not> end_of_log (?it\<lparr>it_currentElementSize := of_nat ?l\<rparr>) < cur + n + ?l"
    using end_of_log_iterates [OF it] l by (simp add: end_of_log_def)
  have "WbclApiMoveToNextElement mem it = Ok (S_OK, ?it\<lparr>it_currentElementSize := of_nat ?l\<rparr>)"
    using min e by (simp add: WbclApiMoveToNextElement_def cur sz(1) nz u Let_def sizes_at(2) [OF s])
  moreover have "ready mem lf (?it\<lparr>it_currentElementSize := of_nat ?l\<rparr>) (cur + n) e"
    using s iterates_cong(1) [OF it] by (simp add: ready_def stands_at_def)
  ultimately show ?thesis by blast
qed

lemma MoveToNext_end:
  assumes r: "ready mem lf it cur e" and e: "cur + length (event_bytes (lf_agile lf) e) = length mem"
  shows "\<exists>it'. WbclApiMoveToNextElement mem it = Ok (S_FALSE, it')"
proof -
  have it: "iterates mem lf it" and ok: "event_ok lf e" and cur: "it_currentElementPtr it = Some cur"
    and sz: "it_currentElementSize it = of_nat (length (event_bytes (lf_agile lf) e))"
    using r by (simp_all add: ready_def stands_at_def)
  let ?l = "length (event_bytes (lf_agile lf) e)"
  have u: "unat (of_nat ?l :: UINT32) = ?l" using e it by (simp add: iterates_def)
  moreover have "0 < ?l" by (simp add: length_event_bytes)
  ultimately have nz: "(of_nat ?l :: UINT32) \<noteq> 0" by auto
  have "0 < unat (minimum_size it)"
  proof -
    have "unat (lf_size lf) < 65536" using unsigned_less [of "lf_size lf"] by simp
    then have "unat (18 + ucast (lf_size lf) :: UINT32) = 18 + unat (lf_size lf)"
      by (simp add: unat_word_ariths unsigned_ucast_eq take_bit_nat_eq_self)
    then show ?thesis using it by (auto simp: minimum_size_def iterates_def)
  qed
  then show ?thesis
    using e end_of_log_iterates [OF it] by (simp add: WbclApiMoveToNextElement_def cur sz nz u Let_def)
qed

section \<open>The loop\<close>

fun run_events :: "('e \<Rightarrow> 'a \<Rightarrow> (HRESULT \<times> 'a) outcome) \<Rightarrow> 'e list \<Rightarrow> 'a \<Rightarrow> (HRESULT \<times> 'a) outcome" where
  "run_events f [] s = Ok (S_OK, s)"
| "run_events f (e # es) s =
     obind (f e s) (\<lambda>(hr, s). if FAILED hr then Ok (hr, s) else run_events f es s)"

text \<open>
  The loop over a log is the loop over its events, when the body does for an element what \<open>f\<close> does for the
  event it shows; \<open>I\<close> is what the body can rely on of the state.
\<close>

theorem log_loop_events:
  assumes body: "\<And>it cur el e s. ready mem lf it cur e \<Longrightarrow> shows_event mem lf el e \<Longrightarrow> I s \<Longrightarrow> body it el s = f e s"
    and inv: "\<And>e s hr s'. I s \<Longrightarrow> e \<in> set (e0 # es) \<Longrightarrow> f e s = Ok (hr, s') \<Longrightarrow> I s'"
    and I: "I s" and r: "ready mem lf it cur e0"
    and m: "has_at mem cur (concat (map (event_bytes (lf_agile lf)) (e0 # es)))"
      "cur + length (concat (map (event_bytes (lf_agile lf)) (e0 # es))) = length mem"
    and ok: "\<forall>e \<in> set es. event_ok lf e"
  shows "log_loop mem body it s = run_events f (e0 # es) s"
  using inv I r m ok
proof (induction es arbitrary: e0 cur it s)
  case Nil
  obtain el where el: "WbclApiGetCurrentElement mem it True True True = Ok (S_OK, el)" "shows_event mem lf el e0"
    using GetCurrentElement_at Nil.prems(3) unfolding ready_def by blast
  obtain it' where mv: "WbclApiMoveToNextElement mem it = Ok (S_FALSE, it')"
    using MoveToNext_end [OF Nil.prems(3)] Nil.prems(5) by auto
  show ?case
    by (subst log_loop.simps)
      (simp add: el(1) mv body [OF Nil.prems(3) el(2) Nil.prems(2)] FAILED_def bit_simps split: outcome.splits prod.splits)
next
  case (Cons e1 es)
  obtain el where el: "WbclApiGetCurrentElement mem it True True True = Ok (S_OK, el)" "shows_event mem lf el e0"
    using GetCurrentElement_at Cons.prems(3) unfolding ready_def by blast
  let ?n = "length (event_bytes (lf_agile lf) e0)"
  have n: "0 < ?n" by (simp add: length_event_bytes)
  have h: "has_at mem (cur + ?n) (event_bytes (lf_agile lf) e1)"
    "has_at mem (cur + ?n) (concat (map (event_bytes (lf_agile lf)) (e1 # es)))"
    using Cons.prems(4) by (simp_all add: has_at_append)
  obtain it' where mv: "WbclApiMoveToNextElement mem it = Ok (S_OK, it')" "ready mem lf it' (cur + ?n) e1"
    using MoveToNext_event [OF _ _ _ n h(1)] Cons.prems(3,6) by (auto simp: ready_def stands_at_def)
  have IH: "log_loop mem body it' s' = run_events f (e1 # es) s'" if "I s'" for s'
    by (rule Cons.IH [OF Cons.prems(1) that mv(2) h(2)]) (use Cons.prems(5,6) in auto)
  show ?case
  proof (cases "f e0 s")
    case (Ok p)
    obtain hr s' where p: "p = (hr, s')" by (cases p)
    then have "I s'" using Cons.prems(1) [of s e0 hr s'] Cons.prems(2) Ok by simp
    then show ?thesis
      by (subst log_loop.simps)
        (simp add: el(1) mv(1) body [OF Cons.prems(3) el(2) Cons.prems(2)] Ok p IH FAILED_def bit_simps)
  qed (subst log_loop.simps, simp add: el(1) body [OF Cons.prems(3) el(2) Cons.prems(2)] FAILED_def bit_simps)+
qed

section \<open>A whole log\<close>

text \<open>The descriptor in the first event of a crypto-agile log.\<close>

record log_header =
  lh_class :: UINT32
  lh_minor :: byte
  lh_major :: byte
  lh_errata :: byte
  lh_uintn :: byte
  lh_table :: "(UINT16 \<times> UINT16) list"
  lh_vendor :: ByteVec

definition descriptor_bytes :: "log_header \<Rightarrow> ByteVec" where
  "descriptor_bytes h = TCG_EfiSpecIdEventStruct_Signature_03 @ le_bytes 4 (lh_class h) @
     [lh_minor h] @ [lh_major h] @ [lh_errata h, lh_uintn h] @ le_bytes 4 (of_nat (length (lh_table h)) :: UINT32) @
     concat (map table_entry (lh_table h)) @ of_nat (length (lh_vendor h)) # lh_vendor h"

definition header_event :: "log_header \<Rightarrow> log_event" where
  "header_event h = \<lparr>ev_pcr = 0, ev_type = SIPAEV_NO_ACTION,
     ev_digests = [(WBCL_DIGEST_ALG_ID_SHA_1, replicate 20 0)], ev_data = descriptor_bytes h\<rparr>"

definition sha1_format :: log_format where
  "sha1_format = \<lparr>lf_agile = False, lf_table = [], lf_alg = WBCL_DIGEST_ALG_ID_SHA_1, lf_size = SHA1_DIGEST_SIZE\<rparr>"

definition agile_format :: "(UINT16 \<times> UINT16) list \<Rightarrow> log_format" where
  "agile_format tab =
     (if WBCL_DIGEST_ALG_ID_SHA_2_256 \<in> fst ` set tab
      then \<lparr>lf_agile = True, lf_table = tab, lf_alg = WBCL_DIGEST_ALG_ID_SHA_2_256, lf_size = SHA256_DIGEST_SIZE\<rparr>
      else \<lparr>lf_agile = True, lf_table = tab, lf_alg = WBCL_DIGEST_ALG_ID_SHA_1, lf_size = SHA1_DIGEST_SIZE\<rparr>)"

definition header_ok :: "log_header \<Rightarrow> bool" where
  "header_ok h \<longleftrightarrow> 1 < lh_major h \<or> lh_major h = 1 \<and> 2 \<le> lh_minor h"

definition table_ok :: "(UINT16 \<times> UINT16) list \<Rightarrow> bool" where
  "table_ok tab \<longleftrightarrow> 0 < length tab \<and> length tab \<le> 5 \<and> (\<forall>(a, n) \<in> set tab. a < 14) \<and>
     (WBCL_DIGEST_ALG_ID_SHA_2_256 \<in> fst ` set tab \<or> WBCL_DIGEST_ALG_ID_SHA_1 \<in> fst ` set tab) \<and>
     lf_size (agile_format tab) = table_size tab (lf_alg (agile_format tab))"

definition format_of :: "log_header option \<Rightarrow> log_format" where
  "format_of oh = (case oh of None \<Rightarrow> sha1_format | Some h \<Rightarrow> agile_format (lh_table h))"

definition header_bytes :: "log_header option \<Rightarrow> ByteVec" where
  "header_bytes oh = (case oh of None \<Rightarrow> [] | Some h \<Rightarrow> event_bytes False (header_event h))"

definition events_bytes :: "log_format \<Rightarrow> log_event list \<Rightarrow> ByteVec" where
  "events_bytes lf es = concat (map (event_bytes (lf_agile lf)) es)"

definition log_bytes :: "log_header option \<Rightarrow> log_event list \<Rightarrow> ByteVec" where
  "log_bytes oh es = header_bytes oh @ events_bytes (format_of oh) es"

text \<open>What the iterator takes for a descriptor.\<close>

definition looks_like_header :: "log_event \<Rightarrow> bool" where
  "looks_like_header e \<longleftrightarrow> ev_pcr e = 0 \<and> ev_type e = SIPAEV_NO_ACTION \<and> 33 \<le> length (ev_data e) \<and>
     take 16 (ev_data e) = TCG_EfiSpecIdEventStruct_Signature_03"

definition log_ok :: "log_header option \<Rightarrow> log_event list \<Rightarrow> bool" where
  "log_ok oh es \<longleftrightarrow> es \<noteq> [] \<and> length (log_bytes oh es) < 2 ^ 32 \<and> (\<forall>e \<in> set es. event_ok (format_of oh) e) \<and>
     (case oh of None \<Rightarrow> \<not> looks_like_header (hd es) | Some h \<Rightarrow> header_ok h \<and> table_ok (lh_table h))"

lemma format_simps [simp]:
  "lf_agile (format_of oh) = (oh \<noteq> None)"
  "lf_table (format_of oh) = (case oh of None \<Rightarrow> [] | Some h \<Rightarrow> lh_table h)"
  "lf_agile sha1_format = False" "lf_agile (agile_format tab) = True" "lf_table (agile_format tab) = tab"
  by (simp_all add: format_of_def sha1_format_def agile_format_def split: option.splits)

lemma strcmp_eq_bytes:
  assumes "has_at mem p xs" and "length xs = length sig" and "0 \<notin> set (butlast sig)"
  shows "strcmp_eq mem p sig = Ok (xs = sig)"
  using assms
proof (induction sig arbitrary: p xs)
  case (Cons c cs)
  then obtain x ys where xs: "xs = x # ys" by (cases xs) auto
  have h: "has_at mem p [x]" "has_at mem (Suc p) ys"
    using Cons.prems(1) xs has_at_append [of mem p "[x]" ys] by simp_all
  show ?case
  proof (cases "cs = []")
    case True
    then show ?thesis using Cons.prems(2) xs by (simp add: LOAD8_has_at [OF h(1)])
  next
    case False
    then have "strcmp_eq mem (Suc p) cs = Ok (ys = cs)"
      using Cons.prems h(2) xs by (intro Cons.IH) auto
    then show ?thesis using False Cons.prems(3) by (simp add: LOAD8_has_at [OF h(1)] xs)
  qed
qed simp

lemma algorithms_loop_bits:
  assumes m: "has_at mem t (concat (map table_entry tab))" and a: "\<forall>(a, n) \<in> set tab. a < 14" and k: "k \<le> length tab"
  shows "\<exists>r. algorithms_loop mem t [k..<length tab] acc = Ok r \<and>
    (r AND 2 \<noteq> 0 \<longleftrightarrow> acc AND 2 \<noteq> 0 \<or> 11 \<in> fst ` set (drop k tab)) \<and>
    (r AND 1 \<noteq> 0 \<longleftrightarrow> acc AND 1 \<noteq> 0 \<or> 4 \<in> fst ` set (drop k tab))"
  using k
proof (induction arbitrary: acc rule: inc_induct)
  case base
  then show ?case by simp
next
  case (step k)
  obtain a n where e: "tab ! k = (a, n)" by (cases "tab ! k")
  have d: "drop k tab = (a, n) # drop (Suc k) tab" using step e by (metis Cons_nth_drop_Suc)
  have "has_at mem (t + 4 * k) (table_entry (tab ! k))"
    by (rule has_at_concat_nth [OF m]) (use step in \<open>auto simp: table_entry_def split: prod.splits\<close>)
  then have h: "has_at mem (t + 4 * k) (le_bytes 2 a)"
    using e by (simp add: table_entry_def has_at_append)
  have u: "[k..<length tab] = k # [Suc k..<length tab]" using step by (simp add: upt_conv_Cons)
  have "(a, n) \<in> set tab" using e step(2) by (metis nth_mem)
  then have "a < 14" using assms(2) by blast
  then have lt: "unat a < 14" by (simp add: word_less_nat_alt)
  let ?b = "g_WbclAlgotihmIdToBitmapTable ! unat a"
  have "a = 11 \<longleftrightarrow> unat a = 11" "a = 4 \<longleftrightarrow> unat a = 4" by (simp_all add: word_unat_eq_iff)
  then have bits: "?b AND 2 \<noteq> 0 \<longleftrightarrow> a = 11" "?b AND 1 \<noteq> 0 \<longleftrightarrow> a = 4"
    using lt by (auto simp: g_WbclAlgotihmIdToBitmapTable_def less_Suc_eq numeral_eq_Suc)
  have or: "(acc OR ?b) AND c \<noteq> 0 \<longleftrightarrow> acc AND c \<noteq> 0 \<or> ?b AND c \<noteq> 0" for c :: UINT32
    by (auto simp: bit_eq_iff bit_simps)
  have tb: "length g_WbclAlgotihmIdToBitmapTable = 14" by (simp add: g_WbclAlgotihmIdToBitmapTable_def)
  have "algorithms_loop mem t [k..<length tab] acc = algorithms_loop mem t [Suc k..<length tab] (acc OR ?b)"
    using lt by (simp add: u LOAD16_has_at [OF h] tb)
  then show ?case
    using step.IH [of "acc OR ?b"] by (auto simp: or bits d)
qed

lemma length_table_entry [simp]: "length (table_entry x) = 4"
  by (simp add: table_entry_def split: prod.splits)

lemma length_table_entries: "length (concat (map table_entry tab)) = 4 * length tab"
  by (induction tab) simp_all

lemma descriptor_parts:
  assumes "has_at mem d (descriptor_bytes h)"
  shows "has_at mem d TCG_EfiSpecIdEventStruct_Signature_03" "has_at mem (d + 20) [lh_minor h]"
    "has_at mem (d + 21) [lh_major h]" "has_at mem (d + 24) (le_bytes 4 (of_nat (length (lh_table h)) :: UINT32))"
    "has_at mem (d + 28) (concat (map table_entry (lh_table h)))"
  using assms has_at_append [of mem "d + 22" "[lh_errata h, lh_uintn h]"]
  by (auto simp: descriptor_bytes_def has_at_append [of _ _ _ "_ @ _"] has_at_append [of _ _ _ "_ # _"]
      TCG_EfiSpecIdEventStruct_Signature_03_def eval_nat_numeral simp del: append_Cons append.simps(2))

lemma use_descriptor_ok:
  assumes d: "has_at mem d (descriptor_bytes h)" and h: "header_ok h" and t: "table_ok (lh_table h)"
    and sz: "28 + 4 * length (lh_table h) \<le> unat sz"
    and it: "iterates mem sha1_format it" and cur: "it_currentElementPtr it = Some cur"
    and n: "it_currentElementSize it = of_nat n" "0 < n"
    and m: "has_at mem (cur + n) (event_bytes True e)" and ok: "event_ok (agile_format (lh_table h)) e"
  shows "\<exists>it'. use_descriptor mem it d sz = Ok (S_OK, it') \<and> ready mem (agile_format (lh_table h)) it' (cur + n) e"
proof -
  note p = descriptor_parts [OF d]
  let ?tab = "lh_table h" and ?n = "of_nat (length (lh_table h)) :: UINT32"
  have l: "0 < length ?tab" "length ?tab \<le> 5" and ids: "\<forall>(a, n) \<in> set ?tab. a < 14"
    using t by (simp_all add: table_ok_def)
  have un: "unat ?n = length ?tab" using l by simp
  then have n5: "\<not> 5 < ?n" using l by (simp add: word_less_nat_alt)
  have "unat (28 + ?n * 4) = 28 + 4 * length ?tab"
    using l un by (simp add: unat_word_ariths)
  then have s1: "\<not> sz < 28 + ?n * 4" using sz by (simp add: word_less_nat_alt)
  have s2: "\<not> sz < 28" using sz l by (simp add: word_less_nat_alt)
  have v: "lh_major h \<noteq> 0" "lh_major h = 1 \<Longrightarrow> \<not> lh_minor h < 2"
    using h by (auto simp: header_ok_def)
  obtain r where r: "algorithms_loop mem (d + 28) [0..<length ?tab] 0 = Ok r"
    "r AND 2 \<noteq> 0 \<longleftrightarrow> 11 \<in> fst ` set ?tab" "r AND 1 \<noteq> 0 \<longleftrightarrow> 4 \<in> fst ` set ?tab"
    using algorithms_loop_bits [OF p(5) ids, of 0 0] by auto
  let ?lf = "agile_format ?tab"
  let ?it = "it\<lparr>it_logFormat := 2, it_numberOfDigests := ?n, it_digestSizes := Some (d + 28),
    it_hashAlgorithm := lf_alg ?lf, it_digestSize := lf_size ?lf\<rparr>"
  have "iterates mem ?lf ?it"
    using it p(5) un t by (simp add: iterates_def table_ok_def)
  then obtain it' where it': "WbclApiMoveToNextElement mem ?it = Ok (S_OK, it')" "ready mem ?lf it' (cur + n) e"
    using MoveToNext_event [of mem ?lf ?it cur n e] cur n m ok by auto
  have "use_descriptor mem it d sz = Ok (S_OK, it')"
    using it'(1) t
    by (auto simp: use_descriptor_def LOAD8_has_at [OF p(2)] LOAD8_has_at [OF p(3)] v s2 LOAD32_has_at [OF p(4)] n5 s1 un r
        Let_def agile_format_def table_ok_def split: if_splits)
  then show ?thesis using it'(2) by blast
qed

text \<open>The iterator on a whole log: it stands at the first event behind the header.\<close>

lemma log_bytes_parts:
  "has_at (log_bytes oh es) (length (header_bytes oh)) (events_bytes (format_of oh) es)"
  using has_at_all [of "log_bytes oh es"] by (simp add: log_bytes_def has_at_append)

lemma unat_le_32: "(33 :: UINT32) \<le> of_nat n \<longleftrightarrow> 33 \<le> n" if "n < 2 ^ 32"
  using that by (simp add: word_le_nat_alt)

lemma first_event:
  assumes "log_ok oh (e # es)"
  defines "e0 \<equiv> (case oh of None \<Rightarrow> e | Some h \<Rightarrow> header_event h)"
  shows "has_at (log_bytes oh (e # es)) 0 (event_bytes False e0)" and "event_ok sha1_format e0"
proof -
  let ?mem = "log_bytes oh (e # es)"
  have "has_at ?mem 0 ?mem" by (rule has_at_all)
  then show "has_at ?mem 0 (event_bytes False e0)"
    by (cases oh) (auto simp: e0_def log_bytes_def header_bytes_def events_bytes_def has_at_append)
  show "event_ok sha1_format e0"
    using assms(1) by (auto simp: e0_def log_ok_def format_of_def header_event_def event_ok_def split: option.splits)
qed

lemma looks_like_header_descriptor:
  "looks_like_header (header_event h) \<longleftrightarrow> lh_table h \<noteq> [] \<or> 4 \<le> length (lh_vendor h)"
  by (cases "lh_table h") (auto simp: looks_like_header_def header_event_def descriptor_bytes_def
      length_table_entries TCG_EfiSpecIdEventStruct_Signature_03_def numeral_eq_Suc)

theorem WbclApiInitIterator_log:
  assumes ok: "log_ok oh (e # es)"
  defines "mem \<equiv> log_bytes oh (e # es)"
  shows "\<exists>it'. WbclApiInitIterator (Some mem) (of_nat (length mem)) it = Ok (S_OK, it') \<and>
    ready mem (format_of oh) it' (length (header_bytes oh)) e"
proof -
  define e0 where "e0 = (case oh of None \<Rightarrow> e | Some h \<Rightarrow> header_event h)"
  have m0: "has_at mem 0 (event_bytes False e0)" and ok0: "event_ok sha1_format e0"
    using first_event [OF ok] by (simp_all add: mem_def e0_def)
  have lm: "length mem < 2 ^ 32" using ok by (simp add: log_ok_def mem_def)
  define it1 where "it1 = it\<lparr>it_firstElementPtr := Some 0, it_logSize := of_nat (length mem), it_currentElementPtr := Some 0,
      it_digestSize := SHA1_DIGEST_SIZE, it_logFormat := 1, it_numberOfDigests := 0, it_digestSizes := None,
      it_hashAlgorithm := 4\<rparr>"
  let ?l = "length (event_bytes False e0)"
  let ?it = "it1\<lparr>it_currentElementSize := of_nat ?l\<rparr>"
  have i1: "iterates mem sha1_format it1"
    using lm by (simp add: it1_def iterates_def) (simp add: sha1_format_def table_size_def)
  have s1: "stands_at mem sha1_format it1 0 e0"
    using i1 ok0 m0 by (simp add: stands_at_def) (simp add: it1_def)
  have l: "32 \<le> ?l" "?l \<le> length mem"
    using ok0 has_at_le [OF m0] by (simp_all add: length_event_bytes digests_bytes_def event_ok_def)
  then have ul: "unat (of_nat ?l :: UINT32) = ?l" using lm by simp
  have nz: "(of_nat ?l :: UINT32) \<noteq> 0" using ul l by auto
  have c1: "\<not> (of_nat (length mem) :: UINT32) < 32" using l lm by (simp add: word_less_nat_alt)
  have c2: "\<not> (of_nat (length mem) :: UINT32) < of_nat ?l" using l lm by (simp add: word_less_nat_alt)
  have i: "iterates mem sha1_format ?it" and s: "stands_at mem sha1_format ?it 0 e0"
    using iterates_cong(3) [OF i1] s1 by (simp_all add: stands_at_def)
  note p = stands_at_parts [OF s, simplified]
  have ld: "length (ev_data e0) < 2 ^ 32" using l lm by (simp add: length_event_bytes)
  have cur: "it_currentElementPtr ?it = Some 0" by (simp add: it1_def)
  have get: "WbclApiGetCurrentElement mem ?it False True False = Ok (S_OK, \<lparr>el_pcrIndex = ev_pcr e0,
      el_eventType = ev_type e0, el_digest = None, el_dataSize = of_nat (length (ev_data e0)), el_data = None\<rparr>)"
    using nz LOAD32_has_at [OF p(1)] LOAD32_has_at [OF p(2)]
    unfolding WbclApiGetCurrentElement_def cur by (simp add: wanted_def sizes_at(1) [OF s])
  let ?h = "ev_pcr e0 = 0 \<and> ev_type e0 = 3 \<and> 33 \<le> length (ev_data e0)"
  have start: "WbclApiInitIterator (Some mem) (of_nat (length mem)) it = (if ?h
      then obind (strcmp_eq mem 32 TCG_EfiSpecIdEventStruct_Signature_03) (\<lambda>same.
        if same then use_descriptor mem ?it 32 (of_nat (length (ev_data e0))) else Ok (S_OK, ?it))
      else Ok (S_OK, ?it))"
  proof -
    have g: "digests_length sha1_format e0 = 20" using ok0 by (simp add: event_ok_def digests_bytes_def)
    have d: "WbclGetCurrentElementData mem ?it = Ok (if ev_data e0 = [] then None else Some 32)"
      using sizes_at(3) [OF s] g by simp
    show ?thesis
      using get sizes_at(2) [OF s1] c1 c2 d
      by (auto simp: WbclApiInitIterator_def Let_def it1_def [symmetric] unat_le_32 [OF ld] at_ptr_def cong: if_cong)
  qed
  have h32: "has_at mem 32 (ev_data e0)"
    using p(5) ok0 by (simp add: event_ok_def digests_bytes_def)
  have str: "strcmp_eq mem 32 TCG_EfiSpecIdEventStruct_Signature_03 =
      Ok (take 16 (ev_data e0) = TCG_EfiSpecIdEventStruct_Signature_03)" if "33 \<le> length (ev_data e0)"
  proof (rule strcmp_eq_bytes)
    show "has_at mem 32 (take 16 (ev_data e0))"
      using has_at_append [of mem 32 "take 16 (ev_data e0)" "drop 16 (ev_data e0)"] h32 by simp
  qed (use that in \<open>simp_all add: TCG_EfiSpecIdEventStruct_Signature_03_def\<close>)
  show ?thesis
  proof (cases oh)
    case None
    then have e: "e0 = e" by (simp add: e0_def)
    then have "\<not> (?h \<and> take 16 (ev_data e0) = TCG_EfiSpecIdEventStruct_Signature_03)"
      using ok None by (auto simp: log_ok_def looks_like_header_def)
    then have "WbclApiInitIterator (Some mem) (of_nat (length mem)) it = Ok (S_OK, ?it)"
      using start str by auto
    moreover have "ready mem (format_of oh) ?it (length (header_bytes oh)) e"
      using s None e by (simp add: ready_def format_of_def header_bytes_def)
    ultimately show ?thesis by blast
  next
    case (Some h)
    then have e: "e0 = header_event h" by (simp add: e0_def)
    have hd: "header_ok h" and tb: "table_ok (lh_table h)" and oke: "event_ok (agile_format (lh_table h)) e"
      using ok Some by (simp_all add: log_ok_def format_of_def)
    have "looks_like_header (header_event h)" using tb by (auto simp: looks_like_header_descriptor table_ok_def)
    then have hh: "?h" "take 16 (ev_data e0) = TCG_EfiSpecIdEventStruct_Signature_03"
      by (auto simp: e looks_like_header_def)
    have "28 + 4 * length (lh_table h) \<le> length (ev_data e0)"
      by (simp add: e header_event_def descriptor_bytes_def length_table_entries TCG_EfiSpecIdEventStruct_Signature_03_def)
    then have sz: "28 + 4 * length (lh_table h) \<le> unat (of_nat (length (ev_data e0)) :: UINT32)" using ld by simp
    have d: "has_at mem 32 (descriptor_bytes h)" using h32 by (simp add: e header_event_def)
    have m: "has_at mem (0 + ?l) (event_bytes True e)"
      using log_bytes_parts [of oh "e # es"] Some e
      by (simp add: mem_def header_bytes_def events_bytes_def has_at_append)
    obtain it' where it': "use_descriptor mem ?it 32 (of_nat (length (ev_data e0))) = Ok (S_OK, it')"
        "ready mem (agile_format (lh_table h)) it' (0 + ?l) e"
      using use_descriptor_ok [OF d hd tb sz i _ _ _ m oke] l(1) \<open>it_currentElementPtr ?it = Some 0\<close> by fastforce
    then show ?thesis
      using start str hh Some e by (auto simp: format_of_def header_bytes_def)
  qed
qed

end
