(* ===== verification/PcpParse.thy ===== *)
theory PcpParse
  imports PcpWbclLaws
begin

text \<open>
  Sequences of cursor operations, as the tool writes them: each call's result goes through \<open>FAILED\<close>, and a
  failure ends the sequence. The laws say what such a sequence has seen of a buffer when it got to its end.
\<close>

section \<open>Sequencing\<close>

type_synonym 'a parse = "(BEBuf, HRESULT + 'a) sx"

definition skip_or :: "(BEBuf, HRESULT) sx \<Rightarrow> 'a parse \<Rightarrow> 'a parse" where
  "skip_or m k = sbind m (\<lambda>hr. if FAILED hr then ret (Inl hr) else k)"

definition read_or :: "(BEBuf, HRESULT \<times> 'v option) sx \<Rightarrow> ('v \<Rightarrow> 'a parse) \<Rightarrow> 'a parse" where
  "read_or m k = sbind m (\<lambda>(hr, v). if FAILED hr then ret (Inl hr) else k (the v))"

definition read2B_or :: "(BEBuf, HRESULT \<times> UINT16 option \<times> UINT32 option) sx \<Rightarrow> (UINT16 \<Rightarrow> UINT32 \<Rightarrow> 'a parse) \<Rightarrow> 'a parse" where
  "read2B_or m k = sbind m (\<lambda>(hr, n, p). if FAILED hr then ret (Inl hr) else k (the n) (the p))"

text \<open>The same for calls that only return their code.\<close>

definition check_failed :: "(BEBuf, HRESULT) sx \<Rightarrow> (BEBuf, HRESULT) sx \<Rightarrow> (BEBuf, HRESULT) sx" where
  "check_failed m k = sbind m (\<lambda>hr. if FAILED hr then ret hr else k)"

text \<open>A write through a second cursor into the same buffer.\<close>

definition write_at :: "UINT32 \<Rightarrow> (BEBuf, HRESULT) sx \<Rightarrow> (BEBuf, HRESULT) sx" where
  "write_at cur m b = (case m (b\<lparr>be_cursor := Some cur\<rparr>) of (r, c) \<Rightarrow> (r, c\<lparr>be_cursor := be_cursor b\<rparr>))"

text \<open>A check whose failure is \<open>E_INVALIDARG\<close>.\<close>

definition refuse_if :: "bool \<Rightarrow> 'a parse \<Rightarrow> 'a parse" where
  "refuse_if c k = (if c then ret (Inl E_INVALIDARG) else k)"

text \<open>\<open>memcmp\<close> of the bytes of the buffer at an offset with those of another memory, both of which it reads.\<close>

definition same_bytes :: "UINT32 \<Rightarrow> nat \<Rightarrow> ByteVec \<Rightarrow> (BEBuf, bool) sx" where
  "same_bytes p n mem b = (obind (LOAD (be_mem b) (unat p) n) (\<lambda>xs. obind (LOAD mem 0 n) (\<lambda>ys. Ok (xs = ys))), b)"

section \<open>A buffer that is only read\<close>

definition at_pos :: "ByteVec \<Rightarrow> nat \<Rightarrow> BEBuf" where
  "at_pos mem n = \<lparr>be_mem = mem, be_cursor = Some (of_nat n)\<rparr>"

text \<open>The size is that of the memory.\<close>

definition whole :: "UINT32 \<Rightarrow> ByteVec \<Rightarrow> bool" where
  "whole cb mem \<longleftrightarrow> length mem < 2 ^ 32 \<and> cb = of_nat (length mem)"

lemma at_pos_facts:
  assumes "whole cb mem" and "n \<le> length mem"
  shows "unat (cursor (at_pos mem n)) = n" "be_mem (at_pos mem n) = mem" "mem_ok cb (at_pos mem n)"
    "room cb k (at_pos mem n) \<longleftrightarrow> n + k \<le> length mem" "be_adv w (at_pos mem n) = at_pos mem (n + unat w)"
proof -
  show u: "unat (cursor (at_pos mem n)) = n" using assms by (simp add: cursor_def at_pos_def whole_def)
  show "be_mem (at_pos mem n) = mem" by (simp add: at_pos_def)
  show "mem_ok cb (at_pos mem n)" using assms(1) by (simp add: mem_ok_def at_pos_def whole_def)
  show "room cb k (at_pos mem n) \<longleftrightarrow> n + k \<le> length mem"
    using assms(1) u by (simp add: room_unat) (simp add: at_pos_def whole_def)
  show "be_adv w (at_pos mem n) = at_pos mem (n + unat w)"
    by (simp add: be_adv_def at_pos_def cursor_def)
qed

lemma holds_at_at_pos:
  "whole cb mem \<Longrightarrow> n \<le> length mem \<Longrightarrow> n + length xs \<le> length mem \<Longrightarrow> holds_at (at_pos mem n) xs \<longleftrightarrow> has_at mem n xs"
  by (simp add: holds_at_def has_at_def at_pos_facts)

lemma some_bytes: "n + k \<le> length mem \<Longrightarrow> \<exists>xs. length xs = k \<and> has_at mem n xs"
  by (rule exI [of _ "take k (drop n mem)"]) (auto simp: has_at_def min_def)

lemma FAILED_codes [simp]: "FAILED E_INVALIDARG" "FAILED E_FAIL" "\<not> FAILED S_OK"
  by code_simp+

section \<open>What a sequence has seen\<close>

lemma skip_at:
  assumes "whole cb mem" and "n \<le> length mem"
  shows "skip_or (SkipBigEndian cb w) k (at_pos mem n) =
    (if n + unat w \<le> length mem then k (at_pos mem (n + unat w)) else (Ok (Inl E_INVALIDARG), at_pos mem n))"
  by (simp add: skip_or_def sbind_def SkipBigEndian_room at_pos_facts [OF assms] ret_app)

lemma skip_on:
  "whole cb mem \<Longrightarrow> unat w = m \<Longrightarrow> n + m \<le> length mem \<Longrightarrow> skip_or (SkipBigEndian cb w) k (at_pos mem n) = k (at_pos mem (n + m))"
  by (simp add: skip_at)

lemma read_no_room:
  assumes "whole cb mem" and "n \<le> length mem"
  shows "\<not> n + 4 \<le> length mem \<Longrightarrow> read_or (ReadBigEndian32 cb True) k4 (at_pos mem n) = (Ok (Inl E_INVALIDARG), at_pos mem n)"
    and "\<not> n + 2 \<le> length mem \<Longrightarrow> read_or (ReadBigEndian16 cb True) k2 (at_pos mem n) = (Ok (Inl E_INVALIDARG), at_pos mem n)"
  by (simp_all add: read_or_def sbind_def ReadBigEndian32_def ReadBigEndian16_def at_pos_facts [OF assms] ret_app)

lemma read32_at:
  assumes "whole cb mem" and "has_at mem n (enc32 v)"
  shows "read_or (ReadBigEndian32 cb True) k (at_pos mem n) = k v (at_pos mem (n + 4))"
proof -
  have n: "n + 4 \<le> length mem" "n \<le> length mem" using has_at_le [OF assms(2)] by simp_all
  have "ReadBigEndian32 cb True (at_pos mem n) = (Ok (S_OK, Some v), be_adv 4 (at_pos mem n))"
    using n assms by (intro ReadBigEndian32_room) (simp_all add: at_pos_facts [of cb] holds_at_at_pos [of cb])
  then show ?thesis by (simp add: read_or_def sbind_def at_pos_facts [OF assms(1) n(2)])
qed

lemma read16_at:
  assumes "whole cb mem" and "has_at mem n (enc16 v)"
  shows "read_or (ReadBigEndian16 cb True) k (at_pos mem n) = k v (at_pos mem (n + 2))"
proof -
  have n: "n + 2 \<le> length mem" "n \<le> length mem" using has_at_le [OF assms(2)] by simp_all
  have "ReadBigEndian16 cb True (at_pos mem n) = (Ok (S_OK, Some v), be_adv 2 (at_pos mem n))"
    using n assms by (intro ReadBigEndian16_room) (simp_all add: at_pos_facts [of cb] holds_at_at_pos [of cb])
  then show ?thesis by (simp add: read_or_def sbind_def at_pos_facts [OF assms(1) n(2)])
qed

lemma readbuf_at:
  assumes "whole cb mem" and "n \<le> length mem"
  shows "read_or (ReadBigEndianBuf cb True w) k (at_pos mem n) =
    (if n + unat w \<le> length mem then k (of_nat n) (at_pos mem (n + unat w)) else (Ok (Inl E_INVALIDARG), at_pos mem n))"
  by (simp add: read_or_def sbind_def ReadBigEndianBuf_room at_pos_facts [OF assms] ret_app)
    (simp add: at_pos_def cursor_def)

text \<open>A buffer behind its size.\<close>

definition sized :: "ByteVec \<Rightarrow> ByteVec" where
  "sized xs = enc16 (of_nat (length xs)) @ xs"

definition short :: "ByteVec \<Rightarrow> bool" where
  "short xs \<longleftrightarrow> length xs < 65536"

lemma length_sized_bytes [simp]: "length (sized xs) = 2 + length xs"
  by (simp add: sized_def)

lemma unat_short: "short xs \<Longrightarrow> unat (of_nat (length xs) :: UINT16) = length xs"
  by (simp add: short_def unsigned_of_nat take_bit_nat_eq_self)

lemma skip2B_at:
  assumes w: "whole cb mem" and h: "has_at mem n (sized xs)" and s: "short xs"
  shows "skip_or (SkipBigEndian2B cb) k (at_pos mem n) = k (at_pos mem (n + 2 + length xs))"
proof -
  have n: "n + 2 + length xs \<le> length mem" "n \<le> length mem" "n + 2 \<le> length mem" using has_at_le [OF h] by simp_all
  have h1: "has_at mem n (enc16 (of_nat (length xs)))" using h by (simp add: sized_def has_at_append)
  have "SkipBigEndian2B cb (at_pos mem n) = (Ok S_OK, at_pos mem (n + 2 + length xs))"
    using SkipBigEndian2B_room [of cb "at_pos mem n" "of_nat (length xs)"] n h1 unat_short [OF s]
    by (simp add: at_pos_facts [OF w] holds_at_at_pos [OF w])
  then show ?thesis by (simp add: skip_or_def sbind_def)
qed

lemma read2B_at:
  assumes w: "whole cb mem" and h: "has_at mem n (sized xs)" and s: "short xs"
  shows "read2B_or (ReadBigEndian2B cb True) k (at_pos mem n) =
    k (of_nat (length xs)) (of_nat (n + 2)) (at_pos mem (n + 2 + length xs))"
proof -
  have n: "n + 2 + length xs \<le> length mem" "n \<le> length mem" "n + 2 \<le> length mem" using has_at_le [OF h] by simp_all
  have h1: "has_at mem n (enc16 (of_nat (length xs)))" using h by (simp add: sized_def has_at_append)
  have "ReadBigEndian2B cb True (at_pos mem n) =
      (Ok (S_OK, Some (of_nat (length xs)), Some (of_nat (n + 2))), at_pos mem (n + 2 + length xs))"
    using ReadBigEndian2B_room [of cb "at_pos mem n" "of_nat (length xs)"] n h1 unat_short [OF s]
    by (simp add: at_pos_facts [OF w] holds_at_at_pos [OF w]) (simp add: at_pos_def cursor_def)
  then show ?thesis by (simp add: read2B_or_def sbind_def)
qed

text \<open>The other way round: a sequence that got further has seen what it asked for.\<close>

lemma skip_seen:
  assumes "skip_or (SkipBigEndian cb w) k (at_pos mem n) = (Ok (Inr x), b)" and "whole cb mem" "n \<le> length mem"
  obtains "n + unat w \<le> length mem" and "k (at_pos mem (n + unat w)) = (Ok (Inr x), b)"
  using assms skip_at [OF assms(2,3), of w k] by (auto split: if_splits)

lemma skip_bytes_seen:
  assumes "skip_or (SkipBigEndian cb w) k (at_pos mem n) = (Ok (Inr x), b)" and "whole cb mem" "n \<le> length mem"
  obtains xs where "length xs = unat w" and "has_at mem n xs" and "n + length xs \<le> length mem"
    and "k (at_pos mem (n + length xs)) = (Ok (Inr x), b)"
  using assms skip_seen [OF assms] some_bytes [of n "unat w" mem] by metis

lemma readbuf_seen:
  assumes "read_or (ReadBigEndianBuf cb True w) k (at_pos mem n) = (Ok (Inr x), b)" and "whole cb mem" "n \<le> length mem"
  obtains xs where "length xs = unat w" and "has_at mem n xs" and "n + unat w \<le> length mem"
    and "k (of_nat n) (at_pos mem (n + unat w)) = (Ok (Inr x), b)"
proof -
  have r: "n + unat w \<le> length mem" "k (of_nat n) (at_pos mem (n + unat w)) = (Ok (Inr x), b)"
    using assms readbuf_at [OF assms(2,3), of w k] by (auto split: if_splits)
  then show ?thesis using that some_bytes [of n "unat w" mem] by blast
qed

lemma read32_seen:
  assumes "read_or (ReadBigEndian32 cb True) k (at_pos mem n) = (Ok (Inr x), b)" and "whole cb mem" "n \<le> length mem"
  obtains v where "has_at mem n (enc32 v)" and "n + 4 \<le> length mem" and "k v (at_pos mem (n + 4)) = (Ok (Inr x), b)"
proof -
  have r: "n + 4 \<le> length mem" using assms(1) read_no_room(1) [OF assms(2,3), of k] by (cases "n + 4 \<le> length mem") simp_all
  then obtain xs where xs: "length xs = 4" "has_at mem n xs" using some_bytes by blast
  then obtain v where "xs = enc32 v" using ex_enc32 by blast
  then show ?thesis using that [of v] xs r assms(1) by (simp add: read32_at [OF assms(2)])
qed

lemma read16_seen:
  assumes "read_or (ReadBigEndian16 cb True) k (at_pos mem n) = (Ok (Inr x), b)" and "whole cb mem" "n \<le> length mem"
  obtains v where "has_at mem n (enc16 v)" and "n + 2 \<le> length mem" and "k v (at_pos mem (n + 2)) = (Ok (Inr x), b)"
proof -
  have r: "n + 2 \<le> length mem" using assms(1) read_no_room(2) [OF assms(2,3), of k] by (cases "n + 2 \<le> length mem") simp_all
  then obtain xs where xs: "length xs = 2" "has_at mem n xs" using some_bytes by blast
  then obtain v where "xs = enc16 v" using ex_enc16 by blast
  then show ?thesis using that [of v] xs r assms(1) by (simp add: read16_at [OF assms(2)])
qed

lemma some_sized:
  assumes "has_at mem n (enc16 m)" and "n + 2 + unat m \<le> length mem"
  shows "\<exists>xs. short xs \<and> has_at mem n (sized xs) \<and> unat m = length xs"
proof -
  obtain xs where xs: "length xs = unat m" "has_at mem (n + 2) xs" using some_bytes [OF assms(2)] by blast
  have "unat m < 65536" using unsigned_less [of m] by simp
  moreover have "of_nat (length xs) = m" using xs(1) by simp
  ultimately show ?thesis using xs assms(1) by (intro exI [of _ xs]) (simp add: short_def sized_def has_at_append)
qed

lemma prefix_fits:
  assumes "whole cb mem" "n \<le> length mem"
    and no: "\<not> n + 2 \<le> length mem \<Longrightarrow> f = (Ok (Inl e), b0)"
    and yes: "\<And>m. n + 2 \<le> length mem \<Longrightarrow> has_at mem n (enc16 m) \<Longrightarrow> \<not> n + 2 + unat m \<le> length mem \<Longrightarrow> f = (Ok (Inl e), b1)"
    and f: "f = (Ok (Inr x), b)"
  obtains xs where "short xs" "has_at mem n (sized xs)"
proof -
  have r: "n + 2 \<le> length mem" using no f by fastforce
  then obtain ys where ys: "length ys = 2" "has_at mem n ys" using some_bytes by blast
  then obtain m where m: "ys = enc16 m" using ex_enc16 by blast
  then have "n + 2 + unat m \<le> length mem" using yes [OF r] ys f by fastforce
  then show ?thesis using that some_sized [of mem n m] ys m by blast
qed

lemma skip2B_seen:
  assumes f: "skip_or (SkipBigEndian2B cb) k (at_pos mem n) = (Ok (Inr x), b)" and w: "whole cb mem" and n: "n \<le> length mem"
  obtains xs where "short xs" and "has_at mem n (sized xs)" and "n + 2 + length xs \<le> length mem"
    and "k (at_pos mem (n + 2 + length xs)) = (Ok (Inr x), b)"
proof -
  obtain xs where xs: "short xs" "has_at mem n (sized xs)"
  proof (rule prefix_fits [OF w n _ _ f])
    show "\<not> n + 2 \<le> length mem \<Longrightarrow> skip_or (SkipBigEndian2B cb) k (at_pos mem n) = (Ok (Inl E_INVALIDARG), at_pos mem n)"
      by (simp add: skip_or_def sbind_def SkipBigEndian2B_def at_pos_facts [OF w n] ret_app)
    fix m assume m: "n + 2 \<le> length mem" "has_at mem n (enc16 m)" "\<not> n + 2 + unat m \<le> length mem"
    show "skip_or (SkipBigEndian2B cb) k (at_pos mem n) = (Ok (Inl E_INVALIDARG), at_pos mem (n + 2))"
      using SkipBigEndian2B_room [of cb "at_pos mem n" m] m n
      by (simp add: skip_or_def sbind_def at_pos_facts [OF w] holds_at_at_pos [OF w] ret_app)
  qed
  then show ?thesis using that [OF xs] f has_at_le [OF xs(2)] by (simp add: skip2B_at [OF w xs(2,1)])
qed

lemma read2B_seen:
  assumes f: "read2B_or (ReadBigEndian2B cb True) k (at_pos mem n) = (Ok (Inr x), b)" and w: "whole cb mem" and n: "n \<le> length mem"
  obtains xs where "short xs" and "has_at mem n (sized xs)" and "n + 2 + length xs \<le> length mem"
    and "k (of_nat (length xs)) (of_nat (n + 2)) (at_pos mem (n + 2 + length xs)) = (Ok (Inr x), b)"
proof -
  obtain xs where xs: "short xs" "has_at mem n (sized xs)"
  proof (rule prefix_fits [OF w n _ _ f])
    show "\<not> n + 2 \<le> length mem \<Longrightarrow> read2B_or (ReadBigEndian2B cb True) k (at_pos mem n) = (Ok (Inl E_INVALIDARG), at_pos mem n)"
      by (simp add: read2B_or_def sbind_def ReadBigEndian2B_def at_pos_facts [OF w n] ret_app)
    fix m assume m: "n + 2 \<le> length mem" "has_at mem n (enc16 m)" "\<not> n + 2 + unat m \<le> length mem"
    show "read2B_or (ReadBigEndian2B cb True) k (at_pos mem n) = (Ok (Inl E_INVALIDARG), at_pos mem (n + 2))"
      using ReadBigEndian2B_room [of cb "at_pos mem n" m] m n
      by (simp add: read2B_or_def sbind_def at_pos_facts [OF w] holds_at_at_pos [OF w] ret_app)
  qed
  then show ?thesis using that [OF xs] f has_at_le [OF xs(2)] by (simp add: read2B_at [OF w xs(2,1)])
qed

lemma refuse_if_seen:
  "refuse_if c k s = (Ok (Inr x), b) \<longleftrightarrow> \<not> c \<and> k s = (Ok (Inr x), b)"
  by (simp add: refuse_if_def ret_app)

section \<open>How a sequence fails\<close>

definition fails_well :: "'a parse \<Rightarrow> bool" where
  "fails_well m \<longleftrightarrow> (\<forall>s hr b. m s = (Ok (Inl hr), b) \<longrightarrow> FAILED hr)"

lemma fails_well_ret: "fails_well (ret (Inr x))" "FAILED hr \<Longrightarrow> fails_well (ret (Inl hr))"
  by (simp_all add: fails_well_def ret_app)

lemma fails_well_skip: "fails_well k \<Longrightarrow> fails_well (skip_or m k)"
  unfolding fails_well_def skip_or_def sbind_def by (auto simp: ret_app split: outcome.splits prod.splits if_splits)

lemma fails_well_read: "(\<And>v. fails_well (k v)) \<Longrightarrow> fails_well (read_or m k)"
  unfolding fails_well_def read_or_def sbind_def by (auto simp: ret_app split: outcome.splits prod.splits if_splits)

lemma fails_well_read2B: "(\<And>n p. fails_well (k n p)) \<Longrightarrow> fails_well (read2B_or m k)"
  unfolding fails_well_def read2B_or_def sbind_def by (auto simp: ret_app split: outcome.splits prod.splits if_splits)

lemma fails_well_refuse: "fails_well k \<Longrightarrow> fails_well (refuse_if c k)"
  unfolding fails_well_def refuse_if_def by (auto simp: ret_app)

lemma fails_well_sbind: "(\<And>x. fails_well (k x)) \<Longrightarrow> fails_well (sbind m k)"
  unfolding fails_well_def sbind_def by (auto split: outcome.splits prod.splits)

lemma fails_well_last: "fails_well (\<lambda>b. refuse_if (f b) (ret (Inr x)) b)"
  unfolding fails_well_def refuse_if_def by (auto simp: ret_app)

lemma fails_well_if: "fails_well k \<Longrightarrow> fails_well k' \<Longrightarrow> fails_well (if c then k else k')"
  by simp

lemmas fails_well_rules = fails_well_ret(1) fails_well_ret(2) [OF FAILED_codes(1)] fails_well_skip fails_well_read
  fails_well_read2B fails_well_refuse fails_well_sbind fails_well_if fails_well_last

end
