(* ===== verification/PcpLog.thy ===== *)
theory PcpLog
  imports PcpWbcl
begin

unbundle bit_operations_syntax

text \<open>
  \<^verbatim>\<open>PCPTool.v11/dll/AttestationApi.cpp\<close>: the hash function of the tool, the replay of a measured-boot log into
  software PCRs, and the filter that keeps a log's entries for some PCRs.

  Windows' BCrypt is a parameter; its functions return an \<open>NTSTATUS\<close>. The provider handles that the tool
  caches are not part of the model: a provider opens with the same result every time. An allocation
  succeeds. An output that is not written is 0.
\<close>

section \<open>Hashing\<close>

record Bcrypt =
  bc_open :: "string \<Rightarrow> bool \<Rightarrow> UINT32"
    \<comment> \<open>BCryptOpenAlgorithmProvider for an algorithm, with or without the HMAC flag\<close>
  bc_hash_length :: "string \<Rightarrow> bool \<Rightarrow> UINT32 \<times> UINT32"
    \<comment> \<open>BCryptGetProperty of BCRYPT_HASH_LENGTH\<close>
  bc_digest :: "string \<Rightarrow> ByteVec option \<Rightarrow> ByteVec \<Rightarrow> UINT32 \<Rightarrow> UINT32 \<times> ByteVec"
    \<comment> \<open>BCryptCreateHash with an optional key, BCryptHashData, BCryptFinishHash for a buffer of a size\<close>

definition HRESULT_FROM_NT :: "UINT32 \<Rightarrow> HRESULT" where
  "HRESULT_FROM_NT x = x OR 0x10000000"

abbreviation (input) BCRYPT_SHA1_ALGORITHM :: string where "BCRYPT_SHA1_ALGORITHM \<equiv> ''SHA1''"
abbreviation (input) BCRYPT_SHA256_ALGORITHM :: string where "BCRYPT_SHA256_ALGORITHM \<equiv> ''SHA256''"
abbreviation (input) BCRYPT_SHA384_ALGORITHM :: string where "BCRYPT_SHA384_ALGORITHM \<equiv> ''SHA384''"

text \<open>
  \<open>cbResult\<close> is \<open>None\<close> for a null \<open>pbResult\<close>. The results are the code, \<open>*pcbResult\<close> and the bytes at
  \<open>pbResult\<close>, the last two when they are written.
\<close>

definition TpmAttiShaHash ::
  "Bcrypt \<Rightarrow> string \<Rightarrow> ByteVec option \<Rightarrow> ByteVec \<Rightarrow> UINT32 option \<Rightarrow> HRESULT \<times> UINT32 option \<times> ByteVec option" where
  "TpmAttiShaHash bc pszAlgId pbKey pbData cbResult =
     (let keyed = pbKey \<noteq> None \<and> pbKey \<noteq> Some [] in
      if pszAlgId \<noteq> BCRYPT_SHA1_ALGORITHM \<and> pszAlgId \<noteq> BCRYPT_SHA256_ALGORITHM \<and> pszAlgId \<noteq> BCRYPT_SHA384_ALGORITHM
      then (E_INVALIDARG, None, None)
      else
        let hr = HRESULT_FROM_NT (bc_open bc pszAlgId keyed) in
        if FAILED hr then (hr, None, None)
        else
          let hr = HRESULT_FROM_NT (fst (bc_hash_length bc pszAlgId keyed));
              hashSize = snd (bc_hash_length bc pszAlgId keyed) in
          if FAILED hr then (hr, None, None)
          else if cbResult = None \<or> cbResult = Some 0 then (hr, Some hashSize, None)
          else if the cbResult < hashSize
          then (HRESULT_FROM_WIN32 ERROR_INSUFFICIENT_BUFFER, Some hashSize, None)
          else
            let key = (if keyed then pbKey else None);
                hr = HRESULT_FROM_NT (fst (bc_digest bc pszAlgId key pbData (the cbResult))) in
            if FAILED hr then (hr, None, None)
            else (hr, Some hashSize, Some (snd (bc_digest bc pszAlgId key pbData (the cbResult)))))"

section \<open>Software PCRs\<close>

abbreviation (input) AVAILABLE_PLATFORM_PCRS :: nat where "AVAILABLE_PLATFORM_PCRS \<equiv> 24"
abbreviation (input) TPM12_1ST_RESETTABLE_PCR :: nat where "TPM12_1ST_RESETTABLE_PCR \<equiv> 17"
abbreviation (input) TPM12_NUM_RESETTABLE_PCR :: nat where "TPM12_NUM_RESETTABLE_PCR \<equiv> 6"
abbreviation (input) TPM_API_ALG_ID_SHA1 :: UINT16 where "TPM_API_ALG_ID_SHA1 \<equiv> 0x0004"
abbreviation (input) TPM_API_ALG_ID_SHA256 :: UINT16 where "TPM_API_ALG_ID_SHA256 \<equiv> 0x000B"
abbreviation (input) TPM_API_ALG_ID_SHA384 :: UINT16 where "TPM_API_ALG_ID_SHA384 \<equiv> 0x000C"

definition TCG_STARTUP_LOCALITY_EVENT_SIGNATURE :: ByteVec where
  "TCG_STARTUP_LOCALITY_EVENT_SIGNATURE =
     [0x53, 0x74, 0x61, 0x72, 0x74, 0x75, 0x70, 0x4C, 0x6F, 0x63, 0x61, 0x6C, 0x69, 0x74, 0x79, 0x00]"

text \<open>The buffer of PCR values, the mask of the PCRs that were extended, and \<open>cbDigestSize\<close>.\<close>

record SoftPcrs =
  sp_buf :: ByteVec
  sp_mask :: UINT32
  sp_digestSize :: UINT32

definition pcr_at :: "nat \<Rightarrow> nat \<Rightarrow> ByteVec \<Rightarrow> ByteVec" where
  "pcr_at sz i buf = take sz (drop (i * sz) buf)"

text \<open>The check for the startup locality event of PCR 0.\<close>

definition is_startup_locality :: "ByteVec \<Rightarrow> wbcl_element \<Rightarrow> bool outcome" where
  "is_startup_locality mem el =
     (if el_eventType el = SIPAEV_NO_ACTION \<and> el_pcrIndex el = 0 \<and>
         unat (el_dataSize el) = length TCG_STARTUP_LOCALITY_EVENT_SIGNATURE + 1
      then at_ptr (el_data el) (\<lambda>d. obind (LOAD mem d (length TCG_STARTUP_LOCALITY_EVENT_SIGNATURE))
             (\<lambda>sig. Ok (sig = TCG_STARTUP_LOCALITY_EVENT_SIGNATURE)))
      else Ok False)"

definition startup_locality :: "ByteVec \<Rightarrow> wbcl_element \<Rightarrow> SoftPcrs \<Rightarrow> (HRESULT \<times> SoftPcrs) outcome" where
  "startup_locality mem el s =
     (let size = unat (sp_digestSize s) in
      if pcr_at size 0 (sp_buf s) \<noteq> replicate size 0 then Ok (E_FAIL, s)
      else at_ptr (el_data el) (\<lambda>d. obind (LOAD8 mem (d + length TCG_STARTUP_LOCALITY_EVENT_SIGNATURE))
        (\<lambda>StartupLocality.
          if StartupLocality \<noteq> 0 \<and> StartupLocality \<noteq> 3 then Ok (E_FAIL, s)
          else Ok (S_OK, s\<lparr>sp_buf := (sp_buf s)[size - 1 := StartupLocality]\<rparr>))))"

definition extend_pcr ::
  "Bcrypt \<Rightarrow> ByteVec \<Rightarrow> string \<Rightarrow> wbcl_element \<Rightarrow> SoftPcrs \<Rightarrow> (HRESULT \<times> SoftPcrs) outcome" where
  "extend_pcr bc mem AlgorithmName el s =
     (let size = unat (sp_digestSize s); i = unat (el_pcrIndex el) in
      case el_digest el of
        None \<Rightarrow> Ok (E_FAIL, s)
      | Some d \<Rightarrow> obind (LOAD mem d size) (\<lambda>digest.
          case TpmAttiShaHash bc AlgorithmName None (pcr_at size i (sp_buf s) @ digest) (Some (sp_digestSize s)) of
            (hr, len, res) \<Rightarrow>
              if FAILED hr then Ok (hr, s)
              else Ok (S_OK, s\<lparr>sp_buf := overwrite (i * size) (case res of Some r \<Rightarrow> r | None \<Rightarrow> []) (sp_buf s),
                sp_digestSize := (case len of Some n \<Rightarrow> n | None \<Rightarrow> sp_digestSize s),
                sp_mask := sp_mask s OR push_bit i 1\<rparr>)))"

text \<open>The body of the loop.\<close>

definition soft_pcr_event ::
  "Bcrypt \<Rightarrow> ByteVec \<Rightarrow> string \<Rightarrow> WBCL_Iterator \<Rightarrow> wbcl_element \<Rightarrow> SoftPcrs \<Rightarrow> (HRESULT \<times> SoftPcrs) outcome" where
  "soft_pcr_event bc mem AlgorithmName it el s =
     (if AVAILABLE_PLATFORM_PCRS \<le> unat (el_pcrIndex el) then Ok (S_OK, s)
      else obind (is_startup_locality mem el) (\<lambda>startup.
        obind (if startup then startup_locality mem el s else Ok (S_OK, s)) (\<lambda>(hr, s).
          if FAILED hr then Ok (hr, s)
          else if el_eventType el = SIPAEV_NO_ACTION then Ok (S_OK, s)
          else extend_pcr bc mem AlgorithmName el s)))"

definition reset_pcrs :: "nat \<Rightarrow> ByteVec" where
  "reset_pcrs sz = replicate (TPM12_1ST_RESETTABLE_PCR * sz) 0 @
     replicate (sz * TPM12_NUM_RESETTABLE_PCR) 0xff @ replicate sz 0"

definition blank_iterator :: WBCL_Iterator where
  "blank_iterator = \<lparr>it_firstElementPtr = None, it_logSize = 0, it_currentElementPtr = None,
     it_currentElementSize = 0, it_digestSize = 0, it_logFormat = 0, it_numberOfDigests = 0,
     it_digestSizes = None, it_hashAlgorithm = 0\<rparr>"

text \<open>
  The replay once the algorithm is known. A buffer that is shorter than one digest makes the cleanup free
  \<open>digestBuffer\<close>, which has no value yet; one that is shorter than the 24 PCRs is overrun by \<open>memset\<close>, before
  its size is checked.
\<close>

definition compute_soft_pcrs ::
  "Bcrypt \<Rightarrow> ByteVec \<Rightarrow> UINT32 \<Rightarrow> UINT16 \<Rightarrow> ByteVec \<Rightarrow> UINT32 \<Rightarrow> string \<Rightarrow> UINT32 \<Rightarrow>
     (HRESULT \<times> ByteVec \<times> UINT32) outcome" where
  "compute_soft_pcrs bc log cbEventLog pcrAlgId pcrs cbSwPcr AlgorithmName cbDigestSize =
     (let size = unat cbDigestSize; n = AVAILABLE_PLATFORM_PCRS * size in
      if cbSwPcr < cbDigestSize \<or> length pcrs < n then Undef
      else
        let pcrs = overwrite 0 (reset_pcrs size) pcrs in
        obind (WbclApiInitIterator (Some log) cbEventLog blank_iterator) (\<lambda>(hr, it).
          if FAILED hr then Ok (hr, pcrs, 0)
          else if ucast (it_digestSize it) \<noteq> cbDigestSize \<or> it_hashAlgorithm it \<noteq> pcrAlgId then Ok (E_INVALIDARG, pcrs, 0)
          else if unat cbSwPcr < n then Ok (E_INVALIDARG, pcrs, 0)
          else obind (log_loop log (soft_pcr_event bc log AlgorithmName) it
                 \<lparr>sp_buf = pcrs, sp_mask = 0, sp_digestSize = cbDigestSize\<rparr>) (\<lambda>(hr, s).
            if FAILED hr then Ok (hr, sp_buf s, 0) else Ok (S_OK, sp_buf s, sp_mask s))))"

definition TpmAttiComputeSoftPCRs ::
  "Bcrypt \<Rightarrow> ByteVec option \<Rightarrow> UINT32 \<Rightarrow> UINT16 \<Rightarrow> ByteVec option \<Rightarrow> UINT32 \<Rightarrow>
     (HRESULT \<times> ByteVec \<times> UINT32) outcome" where
  "TpmAttiComputeSoftPCRs bc pbEventLog cbEventLog pcrAlgId pbSwPcr cbSwPcr =
     (case (pbEventLog, pbSwPcr) of
        (Some log, Some pcrs) \<Rightarrow>
          if cbEventLog = 0 \<or> cbSwPcr = 0 then Ok (E_INVALIDARG, pcrs, 0)
          else if pcrAlgId = TPM_API_ALG_ID_SHA1
          then compute_soft_pcrs bc log cbEventLog pcrAlgId pcrs cbSwPcr BCRYPT_SHA1_ALGORITHM 20
          else if pcrAlgId = TPM_API_ALG_ID_SHA256
          then compute_soft_pcrs bc log cbEventLog pcrAlgId pcrs cbSwPcr BCRYPT_SHA256_ALGORITHM 32
          else Ok (E_INVALIDARG, pcrs, 0)
      | _ \<Rightarrow> Ok (E_INVALIDARG, [], 0))"

section \<open>Filtering a log\<close>

definition kept :: "UINT32 \<Rightarrow> UINT32 \<Rightarrow> bool" where
  "kept pcrMask pcrIndex \<longleftrightarrow>
     unat pcrIndex < AVAILABLE_PLATFORM_PCRS \<and> push_bit (unat pcrIndex) 1 AND pcrMask \<noteq> 0"

text \<open>The two passes: the size of what is kept, and the copying.\<close>

definition count_event :: "UINT32 \<Rightarrow> WBCL_Iterator \<Rightarrow> wbcl_element \<Rightarrow> UINT32 \<Rightarrow> (HRESULT \<times> UINT32) outcome" where
  "count_event pcrMask it el cbTargetLog =
     Ok (S_OK, if kept pcrMask (el_pcrIndex el) then cbTargetLog + it_currentElementSize it else cbTargetLog)"

text \<open>One copy to \<open>pbOutput[cbOutputIndex]\<close>, with its check of the room and \<open>memcpy_s\<close>.\<close>

definition copy_entry ::
  "ByteVec \<Rightarrow> UINT32 \<Rightarrow> nat \<Rightarrow> UINT32 \<Rightarrow> UINT32 \<times> ByteVec \<Rightarrow> (HRESULT \<times> UINT32 \<times> ByteVec) outcome" where
  "copy_entry mem cbOutput src sz = (\<lambda>(cbOutputIndex, out).
     if cbOutput < cbOutputIndex + sz then Ok (E_INVALIDARG, cbOutputIndex, out)
     else if cbOutput - cbOutputIndex < sz
     then Ok (E_FAIL, cbOutputIndex, overwrite (unat cbOutputIndex) (replicate (unat (cbOutput - cbOutputIndex)) 0) out)
     else obind (LOAD mem src (unat sz)) (\<lambda>bs.
       if length out < unat cbOutputIndex + unat sz then Undef
       else Ok (S_OK, cbOutputIndex + sz, overwrite (unat cbOutputIndex) bs out)))"

definition copy_event ::
  "ByteVec \<Rightarrow> UINT32 \<Rightarrow> UINT32 \<Rightarrow> WBCL_Iterator \<Rightarrow> wbcl_element \<Rightarrow> UINT32 \<times> ByteVec \<Rightarrow>
     (HRESULT \<times> UINT32 \<times> ByteVec) outcome" where
  "copy_event mem pcrMask cbOutput it el s =
     (if kept pcrMask (el_pcrIndex el)
      then at_ptr (it_currentElementPtr it) (\<lambda>cur. copy_entry mem cbOutput cur (it_currentElementSize it) s)
      else Ok (S_OK, s))"

text \<open>
  \<open>pbOutput\<close> is \<open>None\<close> when null. The results are the code, \<open>*pcbResult\<close> and the output buffer.
\<close>

definition TpmAttiFilterLog ::
  "ByteVec option \<Rightarrow> UINT32 \<Rightarrow> UINT32 \<Rightarrow> ByteVec option \<Rightarrow> UINT32 \<Rightarrow> (HRESULT \<times> UINT32 \<times> ByteVec) outcome" where
  "TpmAttiFilterLog pbEventLog cbEventLog pcrMask pbOutput cbOutput =
     (let out = (case pbOutput of Some out \<Rightarrow> out | None \<Rightarrow> []) in
      case pbEventLog of
        None \<Rightarrow> Ok (E_INVALIDARG, 0, out)
      | Some log \<Rightarrow>
          if cbEventLog = 0 \<or> pcrMask = 0 then Ok (E_INVALIDARG, 0, out)
          else obind (WbclApiInitIterator (Some log) cbEventLog blank_iterator) (\<lambda>(hr, it).
            if FAILED hr then Ok (hr, 0, out)
            else
              let firstElementSize = (if it_logFormat it = TREE_EVENT_LOG_FORMAT_TCG_2
                    then of_nat (the (it_currentElementPtr it)) else 0)
              in obind (log_loop log (count_event pcrMask) it firstElementSize) (\<lambda>(hr, cbTargetLog).
                if FAILED hr then Ok (hr, 0, out)
                else if pbOutput = None \<or> cbOutput = 0 then Ok (S_OK, cbTargetLog, out)
                else if cbOutput < cbTargetLog
                then Ok (HRESULT_FROM_WIN32 ERROR_INSUFFICIENT_BUFFER, cbTargetLog, out)
                else obind (WbclApiInitIterator (Some log) cbEventLog it) (\<lambda>(hr, it).
                  if FAILED hr then Ok (hr, 0, out)
                  else obind (if firstElementSize \<noteq> 0 then copy_entry log cbOutput 0 firstElementSize (0, out)
                              else Ok (S_OK, 0, out)) (\<lambda>(hr, s).
                    if FAILED hr then Ok (hr, 0, snd s)
                    else obind (log_loop log (copy_event log pcrMask cbOutput) it s) (\<lambda>(hr, s).
                      if FAILED hr then Ok (hr, 0, snd s) else Ok (S_OK, cbTargetLog, snd s)))))))"

end
