(* ===== verification/PcpQuote.thy ===== *)
theory PcpQuote
  imports PcpParse PcpLog
begin

unbundle bit_operations_syntax

text \<open>
  The checks of a quote in \<^verbatim>\<open>PCPTool.v11/dll/TPM20.cpp\<close> (\<open>ValidateQuoteContext20\<close>) and
  \<^verbatim>\<open>Tpm12.cpp\<close> (\<open>ValidateQuoteContext12\<close>): the structure that the TPM signed is taken apart, and the digest in
  it is compared with that of the PCR values of the list.

  \<open>pbQuote\<close>, \<open>pbPcrList\<close> and \<open>pbNonce\<close> are \<open>None\<close> when null and otherwise the memory they point to; the mask
  that is returned through \<open>pPcrMask\<close> is part of the result.
\<close>

section \<open>TPM 2.0\<close>

definition pcr_selected :: "UINT32 \<Rightarrow> nat \<Rightarrow> bool" where
  "pcr_selected pcrMask n \<longleftrightarrow> pcrMask AND push_bit n 1 \<noteq> 0"

text \<open>The PCRs of the mask are written one after the other into the reference buffer of \<open>cb\<close> bytes.\<close>

fun write_selected :: "UINT32 \<Rightarrow> ByteVec \<Rightarrow> UINT32 \<Rightarrow> UINT32 \<Rightarrow> nat list \<Rightarrow> (BEBuf, HRESULT) sx" where
  "write_selected cb pcrList digestSize pcrMask [] = ret S_OK"
| "write_selected cb pcrList digestSize pcrMask (n # ns) =
     (if pcr_selected pcrMask n
      then sbind (\<lambda>b. (LOAD pcrList (n * unat digestSize) (unat digestSize), b)) (\<lambda>v.
        sbind (WriteBigEndianBuf cb (Some v) digestSize) (\<lambda>hr.
          if FAILED hr then ret hr else write_selected cb pcrList digestSize pcrMask ns))
      else write_selected cb pcrList digestSize pcrMask ns)"

text \<open>
  The comparison of the nonce: only one of the size of a SHA-1 digest is compared. It reads as many bytes of the
  nonce's memory as it reads of the quote.
\<close>

definition nonce20 :: "UINT32 \<Rightarrow> ByteVec option \<Rightarrow> UINT32 \<Rightarrow> 'a parse \<Rightarrow> 'a parse" where
  "nonce20 cbQuote pbNonce cbNonce k =
     (if pbNonce \<noteq> None \<and> cbNonce = 20
      then read2B_or (ReadBigEndian2B cbQuote True) (\<lambda>cbExtraData pbExtraData.
        if ucast cbExtraData \<noteq> cbNonce then ret (Inl E_INVALIDARG)
        else sbind (same_bytes pbExtraData (unat cbExtraData) (the pbNonce))
          (\<lambda>same. refuse_if (\<not> same) k))
      else skip_or (SkipBigEndian2B cbQuote) k)"

text \<open>What is read: the mask, and the size and place of the digest.\<close>

definition parse_quote20 ::
  "UINT32 \<Rightarrow> ByteVec option \<Rightarrow> UINT32 \<Rightarrow> UINT16 \<Rightarrow> (UINT32 \<times> UINT16 \<times> UINT32) parse" where
  "parse_quote20 cbQuote pbNonce cbNonce pcrAlgId =
     read_or (ReadBigEndian32 cbQuote True) (\<lambda>magic. refuse_if (magic \<noteq> 0xFF544347) (
     read_or (ReadBigEndian16 cbQuote True) (\<lambda>attestType. refuse_if (attestType \<noteq> 0x8018) (
     skip_or (SkipBigEndian2B cbQuote) (
     nonce20 cbQuote pbNonce cbNonce (
     skip_or (SkipBigEndian cbQuote (8 + 1 + 4 + 4)) (
     skip_or (SkipBigEndian cbQuote 8) (
     read_or (ReadBigEndian32 cbQuote True) (\<lambda>count. refuse_if (count \<noteq> 1) (
     read_or (ReadBigEndian16 cbQuote True) (\<lambda>digestAlg. refuse_if (digestAlg \<noteq> pcrAlgId) (
     read_or (ReadBigEndian32 cbQuote True) (\<lambda>m. refuse_if (m AND 0xff000000 \<noteq> 0x03000000) (
     read2B_or (ReadBigEndian2B cbQuote True) (\<lambda>cbPcrDigest pbPcrDigest. \<lambda>b.
       refuse_if (cbQuote \<noteq> cursor b)
         (ret (Inr (ENDIANSWAPUINT32 (push_bit 8 m AND 0xffffff00), cbPcrDigest, pbPcrDigest))) b)))))))))))))))"

text \<open>
  The digest of the selected values against the one in the quote. Its hash algorithm is guessed from its size.
\<close>

definition check_selected20 ::
  "Bcrypt \<Rightarrow> ByteVec \<Rightarrow> ByteVec \<Rightarrow> UINT32 \<Rightarrow> UINT32 \<Rightarrow> UINT16 \<Rightarrow> UINT32 \<Rightarrow> (HRESULT \<times> UINT32 option) outcome" where
  "check_selected20 bc quote pcrList digestSize pcrMaskQuote cbPcrDigest pbPcrDigest =
     (case write_selected (24 * 64) pcrList digestSize pcrMaskQuote [0..<AVAILABLE_PLATFORM_PCRS]
        \<lparr>be_mem = replicate (24 * 64) 0, be_cursor = Some 0\<rparr> of (r, b) \<Rightarrow> obind r (\<lambda>hr.
      if FAILED hr then Ok (hr, None)
      else
        let alg = (if cbPcrDigest = 32 then BCRYPT_SHA256_ALGORITHM else BCRYPT_SHA1_ALGORITHM) in
        case TpmAttiShaHash bc alg None (take (unat (cursor b)) (be_mem b)) (Some (ucast cbPcrDigest)) of (hr, len, res) \<Rightarrow>
          if FAILED hr then Ok (hr, None)
          else if Some (ucast cbPcrDigest) \<noteq> len then Ok (E_INVALIDARG, None)
          else obind (LOAD quote (unat pbPcrDigest) (unat cbPcrDigest)) (\<lambda>d.
            let reference = overwrite 0 (case res of Some r \<Rightarrow> r | None \<Rightarrow> []) (replicate 64 0) in
            if 64 < unat cbPcrDigest then Undef
            else if d \<noteq> take (unat cbPcrDigest) reference then Ok (E_INVALIDARG, None)
            else Ok (S_OK, Some pcrMaskQuote))))"

definition ValidateQuoteContext20 ::
  "Bcrypt \<Rightarrow> ByteVec option \<Rightarrow> UINT32 \<Rightarrow> ByteVec option \<Rightarrow> UINT32 \<Rightarrow> ByteVec option \<Rightarrow> UINT32 \<Rightarrow> UINT16 \<Rightarrow>
     (HRESULT \<times> UINT32 option) outcome" where
  "ValidateQuoteContext20 bc pbQuote cbQuote pbPcrList cbPcrList pbNonce cbNonce pcrAlgId =
     (let digestSize = (if pcrAlgId = TPM_API_ALG_ID_SHA256 then 32 else 20) in
      case (pbQuote, pbPcrList) of
        (Some quote, Some pcrList) \<Rightarrow>
          if cbQuote = 0 \<or> cbPcrList = 0 \<or> cbPcrList mod digestSize \<noteq> 0 then Ok (E_INVALIDARG, None)
          else (case parse_quote20 cbQuote pbNonce cbNonce pcrAlgId \<lparr>be_mem = quote, be_cursor = Some 0\<rparr> of (r, _) \<Rightarrow>
            obind r (\<lambda>p. case p of
              Inl hr \<Rightarrow> Ok (hr, None)
            | Inr (pcrMaskQuote, cbPcrDigest, pbPcrDigest) \<Rightarrow>
                check_selected20 bc quote pcrList digestSize pcrMaskQuote cbPcrDigest pbPcrDigest))
      | _ \<Rightarrow> Ok (E_INVALIDARG, None))"

section \<open>TPM 1.2\<close>

definition nonce12 :: "UINT32 \<Rightarrow> ByteVec option \<Rightarrow> UINT32 \<Rightarrow> 'a parse \<Rightarrow> 'a parse" where
  "nonce12 cbQuote pbNonce cbNonce k =
     (if pbNonce \<noteq> None \<and> cbNonce = 20
      then read_or (ReadBigEndianBuf cbQuote True 20) (\<lambda>pbExternalData.
        sbind (same_bytes pbExternalData 20 (the pbNonce)) (\<lambda>same. refuse_if (\<not> same) k))
      else skip_or (SkipBigEndian cbQuote 20) k)"

text \<open>The places of the mask's three bytes and of the digest.\<close>

definition parse_quote12 :: "UINT32 \<Rightarrow> ByteVec option \<Rightarrow> UINT32 \<Rightarrow> (UINT32 \<times> UINT32) parse" where
  "parse_quote12 cbQuote pbNonce cbNonce =
     read_or (ReadBigEndian16 cbQuote True) (\<lambda>attestTag. refuse_if (attestTag \<noteq> 0x0036) (
     read_or (ReadBigEndian32 cbQuote True) (\<lambda>fixed. refuse_if (fixed \<noteq> 0x51555432) (
     nonce12 cbQuote pbNonce cbNonce (
     read_or (ReadBigEndian16 cbQuote True) (\<lambda>sizeOfSelect. refuse_if (sizeOfSelect \<noteq> 3) (
     read_or (ReadBigEndianBuf cbQuote True 3) (\<lambda>pPcrMaskQuote.
     skip_or (SkipBigEndian cbQuote 1) (
     read_or (ReadBigEndianBuf cbQuote True 20) (\<lambda>pbPcrDigest.
     skip_or (SkipBigEndian cbQuote (2 + 4 + 2 + 1 + 1 * 4)) (
     read_or (ReadBigEndian16 cbQuote True) (\<lambda>cbVendorSpecific.
     (if cbVendorSpecific \<noteq> 0 then skip_or (SkipBigEndian cbQuote (ucast cbVendorSpecific)) else id) (\<lambda>b.
       refuse_if (cbQuote \<noteq> cursor b) (ret (Inr (pPcrMaskQuote, pbPcrDigest))) b)))))))))))))"

text \<open>
  The composite of the TPM 1.2 whose digest is quoted; the size of the values is written last, through the
  cursor \<open>valueSizeOffset\<close>.
\<close>

definition write_composite :: "ByteVec \<Rightarrow> ByteVec \<Rightarrow> UINT32 \<Rightarrow> (BEBuf, HRESULT) sx" where
  "write_composite pcrList select pcrMaskQuote =
     (let cb = 2 + 1 * 3 + 4 + 24 * 20 in
      check_failed (WriteBigEndian16 cb 3) (
      check_failed (WriteBigEndianBuf cb (Some select) 3) (\<lambda>b.
        let valueSizeOffset = cursor b in
        check_failed (WriteBigEndian32 cb (24 * 20)) (\<lambda>b.
          let pcrCompositHdrSize = cursor b in
          check_failed (write_selected cb pcrList 20 pcrMaskQuote [0..<AVAILABLE_PLATFORM_PCRS]) (\<lambda>b.
            write_at valueSizeOffset (WriteBigEndian32 cb (cursor b - pcrCompositHdrSize)) b) b) b)))"

definition check_composite12 ::
  "Bcrypt \<Rightarrow> ByteVec \<Rightarrow> ByteVec \<Rightarrow> UINT32 \<Rightarrow> UINT32 \<Rightarrow> (HRESULT \<times> UINT32 option) outcome" where
  "check_composite12 bc quote pcrList pPcrMaskQuote pbPcrDigest =
     obind (LOAD quote (unat pPcrMaskQuote) 3) (\<lambda>select.
       let pcrMaskQuote = foldl (OR) 0 (map (\<lambda>n. push_bit (8 * n) (ucast (select ! n))) [0..<3]) in
       case write_composite pcrList select pcrMaskQuote \<lparr>be_mem = replicate (2 + 1 * 3 + 4 + 24 * 20) 0, be_cursor = Some 0\<rparr> of
         (r, b) \<Rightarrow> obind r (\<lambda>hr.
           if FAILED hr then Ok (hr, None)
           else case TpmAttiShaHash bc BCRYPT_SHA1_ALGORITHM None (take (unat (cursor b)) (be_mem b)) (Some 20) of (hr, len, res) \<Rightarrow>
             if FAILED hr then Ok (hr, None)
             else if len \<noteq> Some 20 then Ok (E_INVALIDARG, None)
             else obind (LOAD quote (unat pbPcrDigest) 20) (\<lambda>d.
               if d \<noteq> take 20 (case res of Some r \<Rightarrow> r | None \<Rightarrow> []) then Ok (E_INVALIDARG, None)
               else Ok (S_OK, Some pcrMaskQuote))))"

definition ValidateQuoteContext12 ::
  "Bcrypt \<Rightarrow> ByteVec option \<Rightarrow> UINT32 \<Rightarrow> ByteVec option \<Rightarrow> UINT32 \<Rightarrow> ByteVec option \<Rightarrow> UINT32 \<Rightarrow>
     (HRESULT \<times> UINT32 option) outcome" where
  "ValidateQuoteContext12 bc pbQuote cbQuote pbPcrList cbPcrList pbNonce cbNonce =
     (case (pbQuote, pbPcrList) of
        (Some quote, Some pcrList) \<Rightarrow>
          if cbQuote = 0 \<or> cbPcrList \<noteq> 24 * 20 then Ok (E_INVALIDARG, None)
          else (case parse_quote12 cbQuote pbNonce cbNonce \<lparr>be_mem = quote, be_cursor = Some 0\<rparr> of (r, _) \<Rightarrow>
            obind r (\<lambda>p. case p of
              Inl hr \<Rightarrow> Ok (hr, None)
            | Inr (pPcrMaskQuote, pbPcrDigest) \<Rightarrow> check_composite12 bc quote pcrList pPcrMaskQuote pbPcrDigest))
      | _ \<Rightarrow> Ok (E_INVALIDARG, None))"

end
