(* ===== verification/PcpAttest.thy ===== *)
theory PcpAttest
  imports PcpQuote
begin

unbundle bit_operations_syntax

text \<open>
  The validation of a platform attestation, \<open>TpmAttValidatePlatformAttestation\<close> of
  \<^verbatim>\<open>PCPTool.v11/dll/AttestationApi.cpp\<close>, and what it calls to read the PCRs of the local TPM
  (\<open>GetPlatformPcrs20\<close> of \<^verbatim>\<open>TPM20.cpp\<close>, \<open>GetPlatformPcrs12\<close> of \<^verbatim>\<open>Tpm12.cpp\<close>).

  The TPM base services of Windows are a parameter. A key is the function by which BCrypt verifies a
  signature with it. An allocation succeeds.
\<close>

section \<open>Reading the PCRs of a TPM\<close>

record Tbs =
  tbs_device :: "UINT32 \<times> UINT32" \<comment> \<open>Tbsi_GetDeviceInfo: the result and the version of the TPM\<close>
  tbs_create :: UINT32 \<comment> \<open>Tbsi_Context_Create\<close>
  tbs_submit :: "nat \<Rightarrow> ByteVec \<Rightarrow> UINT32 \<times> ByteVec"
    \<comment> \<open>Tbsip_Submit_Command: the n-th command; the result and a response of at most 512 bytes\<close>

definition TpmAttiGetTpmVersion :: "Tbs \<Rightarrow> HRESULT \<times> UINT32 option" where
  "TpmAttiGetTpmVersion tbs =
     (if FAILED (fst (tbs_device tbs)) then (fst (tbs_device tbs), None)
      else (fst (tbs_device tbs), Some (snd (tbs_device tbs))))"

text \<open>The response is read through one cursor, and the digests in it are written through another.\<close>

definition read_rsp :: "(BEBuf, HRESULT \<times> 'v option) sx \<Rightarrow> BEBuf \<times> BEBuf \<Rightarrow>
    ('v \<Rightarrow> BEBuf \<times> BEBuf \<Rightarrow> (HRESULT \<times> BEBuf) outcome) \<Rightarrow> (HRESULT \<times> BEBuf) outcome" where
  "read_rsp m s k = (case m (fst s) of (r, b) \<Rightarrow> obind r (\<lambda>(hr, v).
     if FAILED hr then Ok (hr, snd s) else k (the v) (b, snd s)))"

definition copy_digest :: "UINT32 \<Rightarrow> UINT32 \<Rightarrow> BEBuf \<times> BEBuf \<Rightarrow> UINT32 \<Rightarrow>
    (BEBuf \<times> BEBuf \<Rightarrow> (HRESULT \<times> BEBuf) outcome) \<Rightarrow> (HRESULT \<times> BEBuf) outcome" where
  "copy_digest cbRsp cbOutput s cbDigest k =
     read_rsp (ReadBigEndianBuf cbRsp True cbDigest) s (\<lambda>pbDigest (rsp, out).
       obind (LOAD (be_mem rsp) (unat pbDigest) (unat cbDigest)) (\<lambda>d.
         case WriteBigEndianBuf cbOutput (Some d) cbDigest out of (r, out) \<Rightarrow> obind r (\<lambda>hr.
           if FAILED hr then Ok (hr, out) else k (rsp, out))))"

fun copy_digests20 :: "UINT32 \<Rightarrow> UINT32 \<Rightarrow> nat \<Rightarrow> BEBuf \<times> BEBuf \<Rightarrow> (HRESULT \<times> BEBuf) outcome" where
  "copy_digests20 cbRsp cbOutput 0 s = Ok (S_OK, snd s)"
| "copy_digests20 cbRsp cbOutput (Suc m) s =
     read_rsp (ReadBigEndian16 cbRsp True) s (\<lambda>cbDigest s.
       copy_digest cbRsp cbOutput s (ucast cbDigest) (copy_digests20 cbRsp cbOutput m))"

definition response20 :: "UINT32 \<Rightarrow> UINT32 parse" where
  "response20 cbRsp =
     skip_or (SkipBigEndian cbRsp 2) (
     read_or (ReadBigEndian32 cbRsp True) (\<lambda>responseSize.
     if responseSize \<noteq> cbRsp then ret (Inl E_FAIL) else
     read_or (ReadBigEndian32 cbRsp True) (\<lambda>returnCode.
     if returnCode \<noteq> 0 then ret (Inl E_FAIL) else
     skip_or (SkipBigEndian cbRsp 4) (
     skip_or (SkipBigEndian cbRsp 10) (
     read_or (ReadBigEndian32 cbRsp True) (\<lambda>pcrCount. ret (Inr pcrCount)))))))"

text \<open>The command, with the size of the whole written last; the cursor is left at its end.\<close>

definition pcr_read_command :: "ByteVec \<Rightarrow> (BEBuf, HRESULT) sx" where
  "pcr_read_command pcrProfile =
     check_failed (WriteBigEndian16 512 0x8001) (\<lambda>b.
       let cursorParamSize = cursor b in
       check_failed (WriteBigEndian32 512 0) (
       check_failed (WriteBigEndian32 512 0x17E) (
       check_failed (WriteBigEndianBuf 512 (Some pcrProfile) 10) (\<lambda>b.
         write_at cursorParamSize (WriteBigEndian32 512 (cursor b)) b))) b)"

definition pcr_read_selection :: "nat \<Rightarrow> UINT32" where
  "pcr_read_selection n = drop_bit (n * 8) 0x00ff0000 OR 0x03000000"

text \<open>The loop over the three blocks of eight PCRs; \<open>cmd\<close> and \<open>rsp\<close> are the buffers of the function.\<close>

fun read_blocks20 :: "Tbs \<Rightarrow> UINT32 \<Rightarrow> BEBuf \<Rightarrow> ByteVec \<Rightarrow> nat list \<Rightarrow> BEBuf \<Rightarrow> (HRESULT \<times> BEBuf) outcome" where
  "read_blocks20 tbs cbOutput cmd rsp [] out = Ok (S_OK, out)"
| "read_blocks20 tbs cbOutput cmd rsp (n # ns) out =
     (case write_at (cursor cmd - 4) (WriteBigEndian32 512 (pcr_read_selection n)) cmd of (r, cmd) \<Rightarrow> obind r (\<lambda>hr.
      if FAILED hr then Ok (hr, out)
      else case tbs_submit tbs n (take (unat (cursor cmd)) (be_mem cmd)) of (hr, bytes) \<Rightarrow>
        if FAILED hr then Ok (hr, out)
        else
          let cbRsp = of_nat (length bytes); rsp = overwrite 0 bytes rsp in
          case response20 cbRsp \<lparr>be_mem = rsp, be_cursor = Some 0\<rparr> of (r, b) \<Rightarrow> obind r (\<lambda>p.
            case p of
              Inl hr \<Rightarrow> Ok (hr, out)
            | Inr pcrCount \<Rightarrow> obind (copy_digests20 cbRsp cbOutput (unat pcrCount) (b, out)) (\<lambda>(hr, out).
                if FAILED hr then Ok (hr, out) else read_blocks20 tbs cbOutput cmd rsp ns out))))"

text \<open>The results are the code, \<open>*pcbResult\<close> and the output.\<close>

definition GetPlatformPcrs20 ::
  "Tbs \<Rightarrow> UINT16 \<Rightarrow> ByteVec option \<Rightarrow> UINT32 \<Rightarrow> (HRESULT \<times> UINT32 \<times> ByteVec) outcome" where
  "GetPlatformPcrs20 tbs pcrAlgId pbOutput cbOutput =
     (let out = (case pbOutput of Some out \<Rightarrow> out | None \<Rightarrow> []);
          cbRequired = 24 * (if pcrAlgId = TPM_API_ALG_ID_SHA256 then 32 else 20) in
      case WriteBigEndian16 10 pcrAlgId \<lparr>be_mem = [0, 0, 0, 1, 0, 4, 3, 0, 0, 0], be_cursor = Some 4\<rparr> of
        (r, profile) \<Rightarrow> obind r (\<lambda>hr.
          if FAILED hr then Ok (hr, 0, out)
          else if pbOutput = None \<or> cbOutput = 0 then Ok (S_OK, cbRequired, out)
          else if cbOutput < cbRequired then Ok (HRESULT_FROM_WIN32 ERROR_INSUFFICIENT_BUFFER, cbRequired, out)
          else case pcr_read_command (be_mem profile) \<lparr>be_mem = replicate 512 0, be_cursor = Some 0\<rparr> of
            (r, cmd) \<Rightarrow> obind r (\<lambda>hr.
              if FAILED hr then Ok (hr, 0, out)
              else obind (read_blocks20 tbs cbOutput cmd (replicate 512 0) [0..<3] \<lparr>be_mem = out, be_cursor = Some 0\<rparr>)
                (\<lambda>(hr, b).
                  if FAILED hr then Ok (hr, 0, be_mem b)
                  else if cbOutput < cursor b then Ok (E_INVALIDARG, cursor b, be_mem b)
                  else Ok (S_OK, cursor b, be_mem b)))))"

definition response12 :: "UINT32 \<Rightarrow> unit parse" where
  "response12 cbRsp =
     skip_or (SkipBigEndian cbRsp 2) (
     read_or (ReadBigEndian32 cbRsp True) (\<lambda>paramSize.
     if paramSize \<noteq> cbRsp then ret (Inl E_FAIL) else
     read_or (ReadBigEndian32 cbRsp True) (\<lambda>returnCode.
     if returnCode \<noteq> 0 then ret (Inl E_FAIL) else ret (Inr ()))))"

fun read_pcrs12 :: "Tbs \<Rightarrow> UINT32 \<Rightarrow> BEBuf \<Rightarrow> ByteVec \<Rightarrow> nat list \<Rightarrow> BEBuf \<Rightarrow> (HRESULT \<times> BEBuf) outcome" where
  "read_pcrs12 tbs cbOutput cmd rsp [] out = Ok (S_OK, out)"
| "read_pcrs12 tbs cbOutput cmd rsp (n # ns) out =
     (case write_at 10 (WriteBigEndian32 14 (of_nat n)) cmd of (r, cmd) \<Rightarrow> obind r (\<lambda>hr.
      if FAILED hr then Ok (hr, out)
      else case tbs_submit tbs n (be_mem cmd) of (hr, bytes) \<Rightarrow>
        if FAILED hr then Ok (hr, out)
        else
          let cbRsp = of_nat (length bytes); rsp = overwrite 0 bytes rsp in
          case response12 cbRsp \<lparr>be_mem = rsp, be_cursor = Some 0\<rparr> of (r, b) \<Rightarrow> obind r (\<lambda>p.
            case p of
              Inl hr \<Rightarrow> Ok (hr, out)
            | Inr _ \<Rightarrow> copy_digest cbRsp cbOutput (b, out) 20 (\<lambda>(_, out). read_pcrs12 tbs cbOutput cmd rsp ns out))))"

definition GetPlatformPcrs12 :: "Tbs \<Rightarrow> ByteVec option \<Rightarrow> UINT32 \<Rightarrow> (HRESULT \<times> UINT32 \<times> ByteVec) outcome" where
  "GetPlatformPcrs12 tbs pbOutput cbOutput =
     (let out = (case pbOutput of Some out \<Rightarrow> out | None \<Rightarrow> []);
          cmd = [0x00, 0xc1, 0x00, 0x00, 0x00, 0x0e, 0x00, 0x00, 0x00, 0x15, 0x00, 0x00, 0x00, 0x00];
          cbRequired = 24 * 20 in
      if pbOutput = None \<or> cbOutput = 0 then Ok (S_OK, cbRequired, out)
      else if cbOutput < cbRequired then Ok (HRESULT_FROM_WIN32 ERROR_INSUFFICIENT_BUFFER, cbRequired, out)
      else obind (read_pcrs12 tbs cbOutput \<lparr>be_mem = cmd, be_cursor = Some 10\<rparr> (replicate 512 0) [0..<24]
          \<lparr>be_mem = out, be_cursor = Some 0\<rparr>) (\<lambda>(hr, b).
        if FAILED hr then Ok (hr, 0, be_mem b)
        else if cbOutput < cursor b then Ok (E_INVALIDARG, cursor b, be_mem b)
        else Ok (S_OK, cursor b, be_mem b)))"

section \<open>Validating an attestation\<close>

abbreviation (input) PCP_PLATFORM_ATTESTATION_MAGIC :: UINT32 where "PCP_PLATFORM_ATTESTATION_MAGIC \<equiv> 0x53444150"
abbreviation (input) PCP_PLATFORM_ATTESTATION_MAGIC2 :: UINT32 where "PCP_PLATFORM_ATTESTATION_MAGIC2 \<equiv> 0x32444150"
abbreviation (input) TPM_VERSION_12 :: UINT32 where "TPM_VERSION_12 \<equiv> 1"
abbreviation (input) TPM_VERSION_20 :: UINT32 where "TPM_VERSION_20 \<equiv> 2"

text \<open>The fields of the header.\<close>

record attestation_blob =
  ab_Magic :: UINT32
  ab_Platform :: UINT32
  ab_HeaderSize :: UINT32
  ab_cbPcrValues :: UINT32
  ab_cbQuote :: UINT32
  ab_cbSignature :: UINT32
  ab_cbLog :: UINT32

definition load_blob :: "ByteVec \<Rightarrow> attestation_blob outcome" where
  "load_blob mem =
     obind (LOAD32 mem 0) (\<lambda>magic. obind (LOAD32 mem 4) (\<lambda>platform. obind (LOAD32 mem 8) (\<lambda>headerSize.
     obind (LOAD32 mem 12) (\<lambda>cbPcrValues. obind (LOAD32 mem 16) (\<lambda>cbQuote. obind (LOAD32 mem 20) (\<lambda>cbSignature.
     obind (LOAD32 mem 24) (\<lambda>cbLog.
       Ok \<lparr>ab_Magic = magic, ab_Platform = platform, ab_HeaderSize = headerSize, ab_cbPcrValues = cbPcrValues,
         ab_cbQuote = cbQuote, ab_cbSignature = cbSignature, ab_cbLog = cbLog\<rparr>)))))))"

text \<open>The memory from an offset on; an offset behind the end leaves nothing that can be read.\<close>

abbreviation (input) memory_at :: "ByteVec \<Rightarrow> UINT32 \<Rightarrow> ByteVec" where
  "memory_at mem p \<equiv> drop (unat p) mem"

definition compare_pcr :: "ByteVec \<Rightarrow> nat \<Rightarrow> UINT32 \<Rightarrow> ByteVec \<Rightarrow> nat \<Rightarrow> bool outcome" where
  "compare_pcr pcrValues sz pcrMask softwarePCR n =
     (if \<not> pcr_selected pcrMask n
      then Ok (pcr_at sz n softwarePCR = replicate sz 0 \<or> pcr_at sz n softwarePCR = replicate sz 0xff)
      else obind (LOAD pcrValues (sz * n) sz) (\<lambda>v. Ok (v = pcr_at sz n softwarePCR)))"

text \<open>Step 5.\<close>

fun compare_pcrs :: "ByteVec \<Rightarrow> nat \<Rightarrow> UINT32 \<Rightarrow> ByteVec \<Rightarrow> nat list \<Rightarrow> HRESULT outcome" where
  "compare_pcrs pcrValues sz pcrMask softwarePCR [] = Ok S_OK"
| "compare_pcrs pcrValues sz pcrMask softwarePCR (n # ns) =
     obind (compare_pcr pcrValues sz pcrMask softwarePCR n) (\<lambda>same.
       if same then compare_pcrs pcrValues sz pcrMask softwarePCR ns else Ok E_INVALIDARG)"

text \<open>Step 6, over the PCRs of the log.\<close>

fun compare_current :: "ByteVec \<Rightarrow> nat \<Rightarrow> UINT32 \<Rightarrow> ByteVec \<Rightarrow> nat list \<Rightarrow> HRESULT outcome" where
  "compare_current pcrValues sz pcrMaskLog currentPCR [] = Ok S_OK"
| "compare_current pcrValues sz pcrMaskLog currentPCR (n # ns) =
     (if pcr_selected pcrMaskLog n
      then obind (LOAD pcrValues (sz * n) sz) (\<lambda>v.
        if v \<noteq> pcr_at sz n currentPCR then Ok E_INVALIDARG else compare_current pcrValues sz pcrMaskLog currentPCR ns)
      else compare_current pcrValues sz pcrMaskLog currentPCR ns)"

definition local_attestation :: "Tbs \<Rightarrow> UINT16 \<Rightarrow> nat \<Rightarrow> ByteVec \<Rightarrow> UINT32 \<Rightarrow> HRESULT outcome" where
  "local_attestation tbs pcrAlgId sz pcrValues pcrMaskLog =
     (case TpmAttiGetTpmVersion tbs of (hr, version) \<Rightarrow>
        if FAILED hr then Ok hr
        else if FAILED (tbs_create tbs) then Ok (tbs_create tbs)
        else if version = Some TPM_VERSION_12 \<or> version = Some TPM_VERSION_20
        then obind (if version = Some TPM_VERSION_12 then GetPlatformPcrs12 tbs (Some (replicate (24 * 64) 0)) (24 * 64)
              else GetPlatformPcrs20 tbs pcrAlgId (Some (replicate (24 * 64) 0)) (24 * 64)) (\<lambda>(hr, _, currentPCR).
          if FAILED hr then Ok hr else compare_current pcrValues sz pcrMaskLog currentPCR [0..<24])
        else Ok E_FAIL)"

text \<open>
  Steps 1 to 3: the signature of the quote, and what the quote says. \<open>pbQuote\<close> is the \<open>cbQuote\<close> bytes it points
  to, which the cursor does not leave; the PCR values are the memory from their place on.
\<close>

definition remote_attestation ::
  "Bcrypt \<Rightarrow> (ByteVec \<Rightarrow> ByteVec \<Rightarrow> UINT32) \<Rightarrow> UINT32 \<Rightarrow> ByteVec option \<Rightarrow> UINT32 \<Rightarrow> ByteVec \<Rightarrow> UINT32 \<Rightarrow> ByteVec \<Rightarrow>
     ByteVec option \<Rightarrow> UINT32 \<Rightarrow> UINT16 \<Rightarrow> (HRESULT \<times> UINT32 option) outcome" where
  "remote_attestation bc aik platform pbQuote cbQuote pcrValues cbPcrValues signature pbNonce cbNonce pcrAlgId =
     (case TpmAttiShaHash bc BCRYPT_SHA1_ALGORITHM None (case pbQuote of None \<Rightarrow> [] | Some q \<Rightarrow> q) (Some 20) of
        (hr, _, res) \<Rightarrow>
          if FAILED hr then Ok (hr, None)
          else
            let quoteDigest = take 20 (overwrite 0 (case res of Some r \<Rightarrow> r | None \<Rightarrow> []) (replicate 20 0));
                hr = HRESULT_FROM_NT (aik quoteDigest signature) in
            if FAILED hr then Ok (hr, None)
            else if platform = TPM_VERSION_12
            then ValidateQuoteContext12 bc pbQuote cbQuote (Some pcrValues) cbPcrValues pbNonce cbNonce
            else if platform = TPM_VERSION_20
            then ValidateQuoteContext20 bc pbQuote cbQuote (Some pcrValues) cbPcrValues pbNonce cbNonce pcrAlgId
            else Ok (E_INVALIDARG, None))"

definition TpmAttValidatePlatformAttestation ::
  "Bcrypt \<Rightarrow> Tbs \<Rightarrow> (ByteVec \<Rightarrow> ByteVec \<Rightarrow> UINT32) option \<Rightarrow> ByteVec option \<Rightarrow> UINT32 \<Rightarrow> ByteVec option \<Rightarrow> UINT32 \<Rightarrow>
     HRESULT outcome" where
  "TpmAttValidatePlatformAttestation bc tbs hAik pbNonce cbNonce pbAttestation cbAttestation =
     (case pbAttestation of
        None \<Rightarrow> Ok E_INVALIDARG
      | Some mem \<Rightarrow>
          if cbAttestation < 28 then Ok E_INVALIDARG
          else obind (load_blob mem) (\<lambda>a.
            if ab_Magic a \<noteq> PCP_PLATFORM_ATTESTATION_MAGIC \<and> ab_Magic a \<noteq> PCP_PLATFORM_ATTESTATION_MAGIC2 \<or>
               cbAttestation \<noteq> ab_HeaderSize a + ab_cbPcrValues a + ab_cbQuote a + ab_cbSignature a + ab_cbLog a
            then Ok E_INVALIDARG
            else obind (if ab_Magic a = PCP_PLATFORM_ATTESTATION_MAGIC2 then LOAD32 mem 28 else Ok 4) (\<lambda>alg.
              let pcrAlgId = ucast alg :: UINT16;
                  sz = (if pcrAlgId = TPM_API_ALG_ID_SHA256 then 32 else 20);
                  pValues = ab_HeaderSize a;
                  pQuote = pValues + ab_cbPcrValues a;
                  pSignature = pQuote + ab_cbQuote a;
                  pLog = pSignature + ab_cbSignature a;
                  pcrValues = memory_at mem pValues
              in obind (case hAik of
                   None \<Rightarrow> Ok (S_OK, None)
                 | Some aik \<Rightarrow>
                     obind (LOAD mem (unat pQuote) (unat (ab_cbQuote a))) (\<lambda>quote.
                     obind (LOAD mem (unat pSignature) (unat (ab_cbSignature a))) (\<lambda>signature.
                       remote_attestation bc aik (ab_Platform a) (if ab_cbQuote a \<noteq> 0 then Some quote else None)
                         (ab_cbQuote a) pcrValues (ab_cbPcrValues a) signature pbNonce cbNonce pcrAlgId))) (\<lambda>(hr, quoteMask).
                if FAILED hr then Ok hr
                else obind (TpmAttiComputeSoftPCRs bc (Some (memory_at mem pLog)) (ab_cbLog a) pcrAlgId
                       (Some (replicate (24 * 64) 0)) (24 * 64)) (\<lambda>(hr, softwarePCR, pcrMaskLog).
                  if FAILED hr then Ok hr
                  else
                    let pcrMask = (if hAik = None then pcrMaskLog else case quoteMask of Some m \<Rightarrow> m | None \<Rightarrow> 0) in
                    obind (compare_pcrs pcrValues sz pcrMask softwarePCR [0..<24]) (\<lambda>hr.
                      if FAILED hr then Ok hr
                      else if hAik = None then local_attestation tbs pcrAlgId sz pcrValues pcrMaskLog
                      else Ok S_OK))))))"

end
