(* ===== verification/PcpLogLaws.thy ===== *)
theory PcpLogLaws
  imports PcpLog PcpWbclLaws
begin

unbundle bit_operations_syntax

text \<open>
  The replay of a log computes, for every PCR, the fold of the log's events for that PCR; the filter returns
  the log of the events it keeps. So a filtered log replays to the same values, for the PCRs of the mask.
\<close>

section \<open>What the tool relies on of BCrypt\<close>

definition hash_size :: "string \<Rightarrow> UINT32" where
  "hash_size alg = (if alg = BCRYPT_SHA1_ALGORITHM then 20 else if alg = BCRYPT_SHA256_ALGORITHM then 32 else 48)"

abbreviation (input) known_hash :: "string \<Rightarrow> bool" where
  "known_hash alg \<equiv> alg \<in> {BCRYPT_SHA1_ALGORITHM, BCRYPT_SHA256_ALGORITHM, BCRYPT_SHA384_ALGORITHM}"

definition bc_ok :: "Bcrypt \<Rightarrow> bool" where
  "bc_ok bc \<longleftrightarrow> (\<forall>alg keyed. known_hash alg \<longrightarrow>
     \<not> FAILED (HRESULT_FROM_NT (bc_open bc alg keyed)) \<and>
     \<not> FAILED (HRESULT_FROM_NT (fst (bc_hash_length bc alg keyed))) \<and> snd (bc_hash_length bc alg keyed) = hash_size alg) \<and>
   (\<forall>alg key m. known_hash alg \<longrightarrow> \<not> FAILED (HRESULT_FROM_NT (fst (bc_digest bc alg key m (hash_size alg)))) \<and>
     length (snd (bc_digest bc alg key m (hash_size alg))) = unat (hash_size alg))"

definition bc_hash :: "Bcrypt \<Rightarrow> string \<Rightarrow> ByteVec \<Rightarrow> ByteVec" where
  "bc_hash bc alg m = snd (bc_digest bc alg None m (hash_size alg))"

definition bc_hmac :: "Bcrypt \<Rightarrow> string \<Rightarrow> ByteVec \<Rightarrow> ByteVec \<Rightarrow> ByteVec" where
  "bc_hmac bc alg key m = snd (bc_digest bc alg (Some key) m (hash_size alg))"

lemma length_bc_hash [simp]: "bc_ok bc \<Longrightarrow> known_hash alg \<Longrightarrow> length (bc_hash bc alg m) = unat (hash_size alg)"
  unfolding bc_ok_def bc_hash_def by blast

lemma length_bc_hmac [simp]: "bc_ok bc \<Longrightarrow> known_hash alg \<Longrightarrow> length (bc_hmac bc alg key m) = unat (hash_size alg)"
  unfolding bc_ok_def bc_hmac_def by blast

lemma hash_size_nz: "hash_size alg \<noteq> 0"
  by (simp add: hash_size_def)

lemma TpmAttiShaHash_hash:
  assumes "bc_ok bc" and "known_hash alg"
  obtains hr where "TpmAttiShaHash bc alg None m (Some (hash_size alg)) = (hr, Some (hash_size alg), Some (bc_hash bc alg m))"
    and "\<not> FAILED hr"
proof (rule that)
  have "\<not> FAILED (HRESULT_FROM_NT (bc_open bc alg False))" "\<not> FAILED (HRESULT_FROM_NT (fst (bc_hash_length bc alg False)))"
    "snd (bc_hash_length bc alg False) = hash_size alg"
    "\<not> FAILED (HRESULT_FROM_NT (fst (bc_digest bc alg None m (hash_size alg))))"
    using assms unfolding bc_ok_def by blast+
  then show "TpmAttiShaHash bc alg None m (Some (hash_size alg)) =
      (HRESULT_FROM_NT (fst (bc_digest bc alg None m (hash_size alg))), Some (hash_size alg), Some (bc_hash bc alg m))"
    and "\<not> FAILED (HRESULT_FROM_NT (fst (bc_digest bc alg None m (hash_size alg))))"
    using assms(2) hash_size_nz [of alg] by (auto simp: TpmAttiShaHash_def bc_hash_def Let_def)
qed

lemma not_FAILED_S_OK [simp]: "\<not> FAILED S_OK"
  by (simp add: FAILED_def)

lemma FAILED_E_FAIL [simp]: "FAILED E_FAIL" "FAILED E_INVALIDARG"
  by code_simp+

section \<open>The values of the PCRs\<close>

definition startup_event :: "log_event \<Rightarrow> bool" where
  "startup_event e \<longleftrightarrow> ev_type e = SIPAEV_NO_ACTION \<and> ev_pcr e = 0 \<and> length (ev_data e) = 17 \<and>
     take 16 (ev_data e) = TCG_STARTUP_LOCALITY_EVENT_SIGNATURE"

text \<open>What an event does to its PCR.\<close>

definition pcr_step :: "(ByteVec \<Rightarrow> ByteVec) \<Rightarrow> log_format \<Rightarrow> nat \<Rightarrow> ByteVec \<Rightarrow> log_event \<Rightarrow> ByteVec" where
  "pcr_step H lf sz v e =
     (if ev_type e \<noteq> SIPAEV_NO_ACTION then H (v @ event_digest lf e)
      else if startup_event e then v[sz - 1 := ev_data e ! 16] else v)"

definition pcr_start :: "nat \<Rightarrow> nat \<Rightarrow> ByteVec" where
  "pcr_start sz i = replicate sz (if 17 \<le> i \<and> i < 23 then 0xff else 0)"

definition events_of :: "nat \<Rightarrow> log_event list \<Rightarrow> log_event list" where
  "events_of i es = filter (\<lambda>e. unat (ev_pcr e) = i) es"

definition soft_pcr :: "(ByteVec \<Rightarrow> ByteVec) \<Rightarrow> log_format \<Rightarrow> nat \<Rightarrow> log_event list \<Rightarrow> nat \<Rightarrow> ByteVec" where
  "soft_pcr H lf sz es i = foldl (pcr_step H lf sz) (pcr_start sz i) (events_of i es)"

definition extended_in :: "log_event list \<Rightarrow> nat \<Rightarrow> bool" where
  "extended_in es i \<longleftrightarrow> (\<exists>e \<in> set es. unat (ev_pcr e) = i \<and> ev_type e \<noteq> SIPAEV_NO_ACTION)"

text \<open>The startup locality is 0 or 3, and stands before everything that is measured into PCR 0.\<close>

fun startup_ok :: "(ByteVec \<Rightarrow> ByteVec) \<Rightarrow> log_format \<Rightarrow> nat \<Rightarrow> ByteVec \<Rightarrow> log_event list \<Rightarrow> bool" where
  "startup_ok H lf sz v [] = True"
| "startup_ok H lf sz v (e # es) =
     ((startup_event e \<longrightarrow> v = replicate sz 0 \<and> ev_data e ! 16 \<in> {0, 3}) \<and> startup_ok H lf sz (pcr_step H lf sz v e) es)"

section \<open>One event\<close>

lemma pcr_at_overwrite:
  assumes "length v = sz" and "Suc i * sz \<le> length buf"
  shows "pcr_at sz j (overwrite (i * sz) v buf) = (if j = i then v else pcr_at sz j buf)"
proof (cases j i rule: linorder_cases)
  case less
  then have "Suc j * sz \<le> i * sz" by (intro mult_right_mono) simp_all
  then have "sz \<le> i * sz - j * sz" "i * sz \<le> length buf" using assms(2) by simp_all
  then show ?thesis using less assms by (simp add: pcr_at_def overwrite_def drop_take)
next
  case equal
  then show ?thesis using assms by (simp add: pcr_at_def overwrite_def)
next
  case greater
  then have "Suc i * sz \<le> j * sz" by (intro mult_right_mono) simp_all
  then show ?thesis using greater assms by (simp add: pcr_at_def overwrite_def min_def)
qed

lemma pcr_at_update:
  assumes "0 < sz" and "sz \<le> length buf"
  shows "pcr_at sz j (buf[sz - 1 := b]) = (if j = 0 then (pcr_at sz 0 buf)[sz - 1 := b] else pcr_at sz j buf)"
proof (cases j)
  case 0
  then show ?thesis by (simp add: pcr_at_def take_update_swap)
next
  case (Suc k)
  have "sz - 1 < Suc k * sz" using assms(1) by simp
  then show ?thesis using Suc by (simp add: pcr_at_def drop_update_cancel del: mult_Suc)
qed

text \<open>The loop's state fits the algorithm.\<close>

definition soft_inv :: "string \<Rightarrow> SoftPcrs \<Rightarrow> bool" where
  "soft_inv alg s \<longleftrightarrow> sp_digestSize s = hash_size alg \<and> 24 * unat (hash_size alg) \<le> length (sp_buf s)"

definition soft_event :: "(ByteVec \<Rightarrow> ByteVec) \<Rightarrow> log_format \<Rightarrow> nat \<Rightarrow> log_event \<Rightarrow> SoftPcrs \<Rightarrow> (HRESULT \<times> SoftPcrs) outcome" where
  "soft_event H lf sz e s =
     (let i = unat (ev_pcr e) in
      if 24 \<le> i then Ok (S_OK, s)
      else if startup_event e
      then if pcr_at sz 0 (sp_buf s) = replicate sz 0 \<and> ev_data e ! 16 \<in> {0, 3}
        then Ok (S_OK, s\<lparr>sp_buf := (sp_buf s)[sz - 1 := ev_data e ! 16]\<rparr>) else Ok (E_FAIL, s)
      else if ev_type e = SIPAEV_NO_ACTION then Ok (S_OK, s)
      else Ok (S_OK, s\<lparr>sp_buf := overwrite (i * sz) (H (pcr_at sz i (sp_buf s) @ event_digest lf e)) (sp_buf s),
        sp_mask := sp_mask s OR push_bit i 1\<rparr>))"

lemma length_event_digest:
  assumes "event_ok lf e" and "lf_size lf = table_size (lf_table lf) (lf_alg lf)" and "\<not> lf_agile lf \<Longrightarrow> lf_size lf = 20"
  shows "length (event_digest lf e) = unat (lf_size lf)"
proof (cases "lf_agile lf")
  case True
  then obtain x where x: "map_of (ev_digests e) (lf_alg lf) = Some x"
    using assms(1) by (auto simp: event_ok_def dest: weak_map_of_SomeI)
  then show ?thesis using True assms(1,2) map_of_SomeD [OF x] by (auto simp: event_ok_def event_digest_def)
qed (use assms in \<open>simp add: event_ok_def event_digest_def\<close>)

lemma soft_pcr_event_shows:
  assumes bc: "bc_ok bc" "known_hash alg" and sz: "unat (hash_size alg) = sz" "length (event_digest lf e) = sz"
    and sh: "shows_event mem lf el e" and inv: "soft_inv alg s"
  shows "soft_pcr_event bc mem alg it el s = soft_event (bc_hash bc alg) lf sz e s"
proof -
  have el: "el_pcrIndex el = ev_pcr e" "el_eventType el = ev_type e" "unat (el_dataSize el) = length (ev_data e)"
    using sh by (simp_all add: shows_event_def)
  obtain q where q: "el_digest el = Some q" "LOAD mem q sz = Ok (event_digest lf e)"
    using sh sz(2) by (auto simp: shows_event_def LOAD_has_at)
  have lsig: "length TCG_STARTUP_LOCALITY_EVENT_SIGNATURE = 16" by (simp add: TCG_STARTUP_LOCALITY_EVENT_SIGNATURE_def)
  have st: "is_startup_locality mem el = Ok (startup_event e)"
  proof (cases "ev_type e = 3 \<and> ev_pcr e = 0 \<and> length (ev_data e) = 17")
    case True
    then obtain d where d: "el_data el = Some d" "has_at mem d (ev_data e)" using sh by (auto simp: shows_event_def)
    have "has_at mem d (take 16 (ev_data e))"
      using has_at_append [of mem d "take 16 (ev_data e)" "drop 16 (ev_data e)"] d(2) by simp
    then show ?thesis using True el lsig d(1)
      by (simp add: is_startup_locality_def at_ptr_def LOAD_has_at startup_event_def)
  next
    case False
    then show ?thesis using el lsig by (auto simp: is_startup_locality_def startup_event_def)
  qed
  have loc: "startup_locality mem el s = (if pcr_at sz 0 (sp_buf s) = replicate sz 0 \<and> ev_data e ! 16 \<in> {0, 3}
        then Ok (S_OK, s\<lparr>sp_buf := (sp_buf s)[sz - 1 := ev_data e ! 16]\<rparr>) else Ok (E_FAIL, s))" if "startup_event e"
  proof -
    have l: "length (ev_data e) = 17" using that by (simp add: startup_event_def)
    then obtain d where d: "el_data el = Some d" "has_at mem d (ev_data e)" using sh by (auto simp: shows_event_def)
    have "ev_data e = take 16 (ev_data e) @ [ev_data e ! 16]"
      using l by (metis append_take_drop_id Cons_nth_drop_Suc drop_all eval_nat_numeral(3) lessI linorder_le_less_linear
          numeral_eq_Suc order_refl semiring_norm(26) semiring_norm(27) semiring_norm(28))
    then have "has_at mem (d + 16) [ev_data e ! 16]"
      using d(2) l has_at_append [of mem d "take 16 (ev_data e)" "[ev_data e ! 16]"] by simp
    then show ?thesis using inv sz(1) d(1) lsig
      by (auto simp: startup_locality_def soft_inv_def at_ptr_def LOAD8_has_at)
  qed
  obtain hr where hash: "TpmAttiShaHash bc alg None (pcr_at sz (unat (ev_pcr e)) (sp_buf s) @ event_digest lf e)
      (Some (hash_size alg)) = (hr, Some (hash_size alg), Some (bc_hash bc alg
        (pcr_at sz (unat (ev_pcr e)) (sp_buf s) @ event_digest lf e)))" "\<not> FAILED hr"
    using TpmAttiShaHash_hash [OF bc] by metis
  have ext: "extend_pcr bc mem alg el s = Ok (S_OK, s\<lparr>sp_buf := overwrite (unat (ev_pcr e) * sz)
      (bc_hash bc alg (pcr_at sz (unat (ev_pcr e)) (sp_buf s) @ event_digest lf e)) (sp_buf s),
        sp_mask := sp_mask s OR push_bit (unat (ev_pcr e)) 1\<rparr>)"
    using inv sz(1) q hash by (simp add: extend_pcr_def soft_inv_def el Let_def)
  show ?thesis
    by (auto simp: soft_pcr_event_def el st loc ext soft_event_def Let_def startup_event_def)
qed

section \<open>The replay of a log\<close>

lemma pcr_room: "i < n \<Longrightarrow> n * sz \<le> l \<Longrightarrow> Suc i * sz \<le> (l :: nat)"
  by (rule order_trans [of _ "n * sz"]) (simp_all add: mult_right_mono del: mult_Suc)

lemma pcr_room_diff: "i < n \<Longrightarrow> sz \<le> n * sz - i * (sz :: nat)"
  by (auto simp: diff_mult_distrib [symmetric] Suc_le_eq)

lemma soft_event_inv:
  assumes "soft_inv alg s" and "\<And>m. length (H m) = unat (hash_size alg)" and "unat (hash_size alg) = sz"
    and "soft_event H lf sz e s = Ok (hr, s')"
  shows "soft_inv alg s'"
proof -
  let ?i = "unat (ev_pcr e)"
  have "length (overwrite (?i * sz) (H m) (sp_buf s)) = length (sp_buf s)" if "?i < 24" for m
    using assms(1-3) pcr_room [OF that, of sz "length (sp_buf s)"] by (intro length_overwrite) (simp add: soft_inv_def)
  then show ?thesis using assms(1,3,4) by (auto simp: soft_event_def soft_inv_def Let_def split: if_splits)
qed

lemma run_soft_events:
  assumes H: "\<And>m. length (H m) = unat (hash_size alg)" and sz: "unat (hash_size alg) = sz"
    and inv: "soft_inv alg s" and st: "startup_ok H lf sz (pcr_at sz 0 (sp_buf s)) (events_of 0 es)"
  shows "\<exists>s'. run_events (soft_event H lf sz) es s = Ok (S_OK, s') \<and> length (sp_buf s') = length (sp_buf s) \<and>
    (\<forall>i < 24. pcr_at sz i (sp_buf s') = foldl (pcr_step H lf sz) (pcr_at sz i (sp_buf s)) (events_of i es)) \<and>
    (\<forall>i < 24. bit (sp_mask s') i \<longleftrightarrow> bit (sp_mask s) i \<or> extended_in es i)"
  using inv st
proof (induction es arbitrary: s)
  case Nil
  then show ?case by (simp add: events_of_def extended_in_def)
next
  case (Cons e es)
  let ?i = "unat (ev_pcr e)"
  have pos: "0 < sz" using sz hash_size_nz [of alg] by (auto simp: unat_gt_0)
  have len: "Suc i * sz \<le> length (sp_buf s)" if "i < 24" for i
    using Cons.prems(1) sz that pcr_room [of i 24 sz] by (simp add: soft_inv_def)
  have first: "\<exists>t. soft_event H lf sz e s = Ok (S_OK, t) \<and> length (sp_buf t) = length (sp_buf s) \<and>
    (\<forall>j < 24. pcr_at sz j (sp_buf t) = (if ?i = j then pcr_step H lf sz (pcr_at sz j (sp_buf s)) e else pcr_at sz j (sp_buf s))) \<and>
    (\<forall>j < 24. bit (sp_mask t) j \<longleftrightarrow> bit (sp_mask s) j \<or> ?i = j \<and> ev_type e \<noteq> 3)"
  proof (cases "24 \<le> ?i")
    case True
    then show ?thesis by (auto simp: soft_event_def)
  next
    case False
    note l = len [of ?i] len [of 0]
    show ?thesis
    proof (cases "startup_event e")
      case True
      then have i: "?i = 0" and ty: "ev_type e = 3" by (simp_all add: startup_event_def)
      have "startup_ok H lf sz (pcr_at sz 0 (sp_buf s)) (e # events_of 0 es)"
        using Cons.prems(2) i by (simp add: events_of_def)
      then have "pcr_at sz 0 (sp_buf s) = replicate sz 0 \<and> ev_data e ! 16 \<in> {0, 3}" using True by simp
      then have "soft_event H lf sz e s = Ok (S_OK, s\<lparr>sp_buf := (sp_buf s)[sz - 1 := ev_data e ! 16]\<rparr>)"
        using True i by (simp add: soft_event_def)
      then show ?thesis using l(2) pos True i ty by (auto simp: pcr_at_update [simplified] pcr_step_def)
    next
      case nost: False
      show ?thesis
      proof (cases "ev_type e = 3")
        case True
        then show ?thesis using nost False by (auto simp: soft_event_def pcr_step_def)
      next
        case ty: False
        have "soft_event H lf sz e s = Ok (S_OK, s\<lparr>sp_buf := overwrite (?i * sz)
            (H (pcr_at sz ?i (sp_buf s) @ event_digest lf e)) (sp_buf s), sp_mask := sp_mask s OR push_bit ?i 1\<rparr>)"
          using nost ty False by (simp add: soft_event_def Let_def)
        then show ?thesis using False l(1) H sz ty
          by (auto simp: pcr_at_overwrite pcr_step_def bit_simps)
      qed
    qed
  qed
  then obtain t where t: "soft_event H lf sz e s = Ok (S_OK, t)" "length (sp_buf t) = length (sp_buf s)"
    "\<And>j. j < 24 \<Longrightarrow> pcr_at sz j (sp_buf t) = (if ?i = j then pcr_step H lf sz (pcr_at sz j (sp_buf s)) e else pcr_at sz j (sp_buf s))"
    "\<And>j. j < 24 \<Longrightarrow> bit (sp_mask t) j \<longleftrightarrow> bit (sp_mask s) j \<or> ?i = j \<and> ev_type e \<noteq> 3" by blast
  have "startup_ok H lf sz (pcr_at sz 0 (sp_buf t)) (events_of 0 es)"
    using Cons.prems(2) t(3) [of 0] by (auto simp: events_of_def split: if_splits)
  then obtain s' where s': "run_events (soft_event H lf sz) es t = Ok (S_OK, s')" "length (sp_buf s') = length (sp_buf t)"
    "\<forall>i < 24. pcr_at sz i (sp_buf s') = foldl (pcr_step H lf sz) (pcr_at sz i (sp_buf t)) (events_of i es)"
    "\<forall>i < 24. bit (sp_mask s') i \<longleftrightarrow> bit (sp_mask t) i \<or> extended_in es i"
    using Cons.IH [OF soft_event_inv [OF Cons.prems(1) H sz t(1)]] by blast
  show ?case
  proof (intro exI [of _ s'] conjI allI impI)
    fix i :: nat assume i: "i < 24"
    show "pcr_at sz i (sp_buf s') = foldl (pcr_step H lf sz) (pcr_at sz i (sp_buf s)) (events_of i (e # es))"
      using s'(3) t(3) [OF i] i by (simp add: events_of_def)
    show "bit (sp_mask s') i \<longleftrightarrow> bit (sp_mask s) i \<or> extended_in (e # es) i"
      using s'(4) t(4) [OF i] i by (auto simp: extended_in_def)
  qed (use s' t in simp_all)
qed

lemma pcr_at_reset: "i < 24 \<Longrightarrow> 24 * sz \<le> length buf \<Longrightarrow> pcr_at sz i (overwrite 0 (reset_pcrs sz) buf) = pcr_start sz i"
proof -
  assume i: "i < 24" and l: "24 * sz \<le> length buf"
  have r: "reset_pcrs sz = replicate (17 * sz) 0 @ replicate (6 * sz) 0xff @ replicate sz 0"
    by (simp add: reset_pcrs_def mult.commute)
  consider "i < 17" | "17 \<le> i" "i < 23" | "i = 23" using i by linarith
  then show ?thesis
  proof cases
    case 1
    then have "sz \<le> 17 * sz - i * sz" by (rule pcr_room_diff)
    then show ?thesis using 1 l by (simp add: pcr_at_def pcr_start_def r overwrite_def min_def)
  next
    case 2
    then have "sz \<le> 23 * sz - i * sz" by (intro pcr_room_diff)
    moreover have "17 * sz \<le> i * sz" using 2 by (intro mult_right_mono) simp_all
    ultimately have "17 * sz \<le> i * sz" "sz \<le> 6 * sz - (i * sz - 17 * sz)" by linarith+
    then show ?thesis using 2 l by (simp add: pcr_at_def pcr_start_def r overwrite_def min_def)
  next
    case 3
    then show ?thesis using l by (simp add: pcr_at_def pcr_start_def r overwrite_def)
  qed
qed

text \<open>The algorithm of a format.\<close>

definition hash_of :: "log_format \<Rightarrow> string" where
  "hash_of lf = (if lf_alg lf = TPM_API_ALG_ID_SHA256 then BCRYPT_SHA256_ALGORITHM else BCRYPT_SHA1_ALGORITHM)"

lemma format_alg:
  "lf_alg (format_of oh) = 11 \<and> lf_size (format_of oh) = 32 \<or> lf_alg (format_of oh) = 4 \<and> lf_size (format_of oh) = 20"
  by (auto simp: format_of_def sha1_format_def agile_format_def split: option.splits)

lemma hash_of_size: "hash_size (hash_of (format_of oh)) = ucast (lf_size (format_of oh))"
  "unat (hash_size (hash_of (format_of oh))) = unat (lf_size (format_of oh))" "known_hash (hash_of (format_of oh))"
  using format_alg [of oh] by (auto simp: hash_of_def hash_size_def)

lemma log_digest_length:
  assumes "log_ok oh es" and "e \<in> set es"
  shows "length (event_digest (format_of oh) e) = unat (lf_size (format_of oh))"
  using assms by (intro length_event_digest) (auto simp: log_ok_def format_of_def table_ok_def sha1_format_def
      table_size_def split: option.splits)

theorem ComputeSoftPCRs_log:
  assumes bc: "bc_ok bc" and ok: "log_ok oh es"
  defines "lf \<equiv> format_of oh" and "mem \<equiv> log_bytes oh es"
  defines "sz \<equiv> unat (lf_size lf)" and "H \<equiv> bc_hash bc (hash_of lf)"
  assumes st: "startup_ok H lf sz (replicate sz 0) (events_of 0 es)"
    and room: "24 * sz \<le> unat cbSwPcr" "24 * sz \<le> length pcrs"
  shows "\<exists>pcrs' mask. TpmAttiComputeSoftPCRs bc (Some mem) (of_nat (length mem)) (lf_alg lf) (Some pcrs) cbSwPcr =
      Ok (S_OK, pcrs', mask) \<and> length pcrs' = length pcrs \<and>
    (\<forall>i < 24. pcr_at sz i pcrs' = soft_pcr H lf sz es i) \<and> (\<forall>i < 24. bit mask i \<longleftrightarrow> extended_in es i)"
proof -
  let ?alg = "hash_of lf"
  note hs = hash_of_size [of oh, folded lf_def]
  have szs: "unat (hash_size ?alg) = sz" using hs(2) by (simp add: sz_def)
  have sz: "sz = 20 \<or> sz = 32" using format_alg [of oh] by (auto simp: sz_def lf_def)
  have H: "length (H m) = unat (hash_size ?alg)" for m unfolding H_def by (rule length_bc_hash [OF bc hs(3)])
  obtain e es' where es: "es = e # es'" using ok by (cases es) (auto simp: log_ok_def)
  obtain it where it: "WbclApiInitIterator (Some mem) (of_nat (length mem)) blank_iterator = Ok (S_OK, it)"
      "ready mem lf it (length (header_bytes oh)) e"
    using WbclApiInitIterator_log [of oh e es'] ok unfolding mem_def lf_def es by blast
  let ?s = "\<lparr>sp_buf = overwrite 0 (reset_pcrs sz) pcrs, sp_mask = 0, sp_digestSize = hash_size ?alg\<rparr>"
  have lr: "length (overwrite 0 (reset_pcrs sz) pcrs) = length pcrs"
    using room(2) by (intro length_overwrite) (simp add: reset_pcrs_def)
  have inv: "soft_inv ?alg ?s" using lr room(2) szs by (simp add: soft_inv_def)
  have "pcr_at sz 0 (sp_buf ?s) = replicate sz 0" using pcr_at_reset [of 0 sz pcrs] room(2) by (simp add: pcr_start_def)
  then obtain s' where s': "run_events (soft_event H lf sz) es ?s = Ok (S_OK, s')" "length (sp_buf s') = length pcrs"
    "\<forall>i < 24. pcr_at sz i (sp_buf s') = soft_pcr H lf sz es i" "\<forall>i < 24. bit (sp_mask s') i \<longleftrightarrow> extended_in es i"
    using run_soft_events [where H = H, OF H szs inv, where lf = lf and es = es] st lr room(2) by (auto simp: soft_pcr_def pcr_at_reset)
  have body: "soft_pcr_event bc mem ?alg it el s = soft_event H lf sz e s"
    if "ready mem lf it cur e" "shows_event mem lf el e" "soft_inv ?alg s" for it cur el e s
  proof -
    have "event_ok lf e" "lf_size lf = table_size (lf_table lf) (lf_alg lf)"
      using that(1) by (simp_all add: ready_def stands_at_def iterates_def)
    moreover have "\<not> lf_agile lf \<Longrightarrow> lf_size lf = 20" by (auto simp: lf_def format_of_def sha1_format_def split: option.splits)
    ultimately have "length (event_digest lf e) = sz" unfolding sz_def by (intro length_event_digest)
    then show ?thesis unfolding H_def using soft_pcr_event_shows [OF bc hs(3) szs _ that(2,3)] by blast
  qed
  have loop: "log_loop mem (soft_pcr_event bc mem ?alg) it ?s = run_events (soft_event H lf sz) (e # es') ?s"
  proof (rule log_loop_events [where I = "soft_inv ?alg" and lf = lf and f = "soft_event H lf sz" and
        body = "soft_pcr_event bc mem ?alg"])
    show "soft_inv ?alg ?s" "ready mem lf it (length (header_bytes oh)) e" by (fact inv, fact it(2))
    have "mem = header_bytes oh @ events_bytes lf (e # es')" by (simp add: mem_def log_bytes_def lf_def es)
    then show "length (header_bytes oh) + length (concat (map (event_bytes (lf_agile lf)) (e # es'))) = length mem"
      by (simp add: events_bytes_def)
    show "has_at mem (length (header_bytes oh)) (concat (map (event_bytes (lf_agile lf)) (e # es')))"
      using log_bytes_parts [of oh es] by (simp add: mem_def lf_def events_bytes_def es)
    show "\<forall>e \<in> set es'. event_ok lf e" using ok es by (simp add: log_ok_def lf_def)
  qed (erule (2) body, erule soft_event_inv [where H = H, OF _ H szs])
  have itf: "it_digestSize it = lf_size lf" "it_hashAlgorithm it = lf_alg lf"
    using it(2) by (simp_all add: ready_def stands_at_def iterates_def)
  have d: "ucast (it_digestSize it) = hash_size ?alg" by (simp add: itf hs(1))
  have c: "\<not> cbSwPcr < hash_size ?alg" using room(1) szs by (simp add: word_less_nat_alt)
  have comp: "compute_soft_pcrs bc mem (of_nat (length mem)) (lf_alg lf) pcrs cbSwPcr ?alg (hash_size ?alg) =
      Ok (S_OK, sp_buf s', sp_mask s')"
    using c room it(1) d itf(2) loop s'(1) es by (simp add: compute_soft_pcrs_def Let_def szs del: run_events.simps)
  have nz: "cbSwPcr \<noteq> 0" using room(1) sz by auto
  have "0 < length mem" "length mem < 2 ^ 32"
    using ok by (auto simp: mem_def log_bytes_def events_bytes_def log_ok_def length_event_bytes es)
  then have "(of_nat (length mem) :: UINT32) \<noteq> 0" using unat_small [of "length mem"] by fastforce
  then have "TpmAttiComputeSoftPCRs bc (Some mem) (of_nat (length mem)) (lf_alg lf) (Some pcrs) cbSwPcr =
      Ok (S_OK, sp_buf s', sp_mask s')"
    using comp nz format_alg [of oh, folded lf_def]
    by (auto simp: TpmAttiComputeSoftPCRs_def hash_of_def hash_size_def)
  then show ?thesis using s' by blast
qed

section \<open>The filter\<close>

definition keep_events :: "UINT32 \<Rightarrow> log_event list \<Rightarrow> log_event list" where
  "keep_events pcrMask es = filter (\<lambda>e. kept pcrMask (ev_pcr e)) es"

definition copy_bytes :: "UINT32 \<Rightarrow> ByteVec \<Rightarrow> UINT32 \<times> ByteVec \<Rightarrow> (HRESULT \<times> UINT32 \<times> ByteVec) outcome" where
  "copy_bytes cbOutput bs = (\<lambda>(i, out). copy_entry bs cbOutput 0 (of_nat (length bs)) (i, out))"

lemma copy_entry_bytes:
  assumes "LOAD mem src (length bs) = Ok bs" and "length bs < 2 ^ 32"
  shows "copy_entry mem cbOutput src (of_nat (length bs)) s = copy_bytes cbOutput bs s"
  using assms LOAD_has_at [OF has_at_all refl] by (cases s) (simp add: copy_bytes_def copy_entry_def)

lemma uint32_lt: "unat (v :: UINT32) < 2 ^ 32"
  using unsigned_less [of v] by simp

lemma copy_bytes_room:
  assumes "unat i + length bs \<le> unat cbOutput" and "unat cbOutput \<le> length out"
  shows "copy_bytes cbOutput bs (i, out) = Ok (S_OK, i + of_nat (length bs), overwrite (unat i) bs out)"
    and "unat (i + of_nat (length bs)) = unat i + length bs"
proof -
  have l: "length bs < 2 ^ 32" "unat i + length bs < 2 ^ 32" using assms(1) uint32_lt [of cbOutput] by simp_all
  then have u: "unat (of_nat (length bs) :: UINT32) = length bs" by simp
  then show s: "unat (i + of_nat (length bs)) = unat i + length bs"
    using l(2) by (simp add: unat_word_ariths)
  have i: "i \<le> cbOutput" using assms(1) by (simp add: word_le_nat_alt)
  then have "unat (cbOutput - i) = unat cbOutput - unat i" by (simp add: unat_sub)
  then have "\<not> cbOutput - i < of_nat (length bs)" "\<not> cbOutput < i + of_nat (length bs)"
    using assms(1) u s by (simp_all add: word_less_nat_alt)
  then show "copy_bytes cbOutput bs (i, out) = Ok (S_OK, i + of_nat (length bs), overwrite (unat i) bs out)"
    using assms LOAD_has_at [OF has_at_all refl, of bs] u by (simp add: copy_bytes_def copy_entry_def)
qed

lemma run_count_events:
  "run_events (\<lambda>e n. Ok (S_OK, if kept pcrMask (ev_pcr e) then n + of_nat (length (event_bytes (lf_agile lf) e)) else n)) es n =
     Ok (S_OK, n + of_nat (length (events_bytes lf (keep_events pcrMask es))))"
  by (induction es arbitrary: n) (simp_all add: events_bytes_def keep_events_def ac_simps)

lemma run_copy_events:
  assumes "unat i + length (events_bytes lf (keep_events pcrMask es)) \<le> unat cbOutput" and "unat cbOutput \<le> length out"
  shows "run_events (\<lambda>e s. if kept pcrMask (ev_pcr e) then copy_bytes cbOutput (event_bytes (lf_agile lf) e) s else Ok (S_OK, s))
      es (i, out) = Ok (S_OK, i + of_nat (length (events_bytes lf (keep_events pcrMask es))),
        overwrite (unat i) (events_bytes lf (keep_events pcrMask es)) out)"
  using assms
proof (induction es arbitrary: i out)
  case Nil
  then show ?case by (simp add: events_bytes_def keep_events_def)
next
  case (Cons e es)
  show ?case
  proof (cases "kept pcrMask (ev_pcr e)")
    case True
    let ?b = "event_bytes (lf_agile lf) e" and ?bs = "events_bytes lf (keep_events pcrMask es)"
    have b: "events_bytes lf (keep_events pcrMask (e # es)) = ?b @ ?bs"
      using True by (simp add: events_bytes_def keep_events_def)
    have r: "unat i + length ?b \<le> unat cbOutput" using Cons.prems(1) b by simp
    note c = copy_bytes_room [OF r Cons.prems(2)]
    have "unat (i + of_nat (length ?b)) + length ?bs \<le> unat cbOutput" using Cons.prems(1) b c(2) by simp
    moreover have "unat cbOutput \<le> length (overwrite (unat i) ?b out)" using r Cons.prems(2) by simp
    moreover have "unat i + length ?b + length ?bs \<le> length out" using Cons.prems b by simp
    ultimately show ?thesis
      using Cons.IH [of "i + of_nat (length ?b)" "overwrite (unat i) ?b out"] True c
      by (simp add: b overwrite_overwrite_append ac_simps)
  next
    case False
    then have "keep_events pcrMask (e # es) = keep_events pcrMask es" by (simp add: keep_events_def)
    then show ?thesis using Cons False by simp
  qed
qed

lemma length_keep_events: "length (events_bytes lf (keep_events pcrMask es)) \<le> length (events_bytes lf es)"
  by (induction es) (simp_all add: events_bytes_def keep_events_def)

text \<open>A loop over a whole log.\<close>

lemma log_loop_log:
  assumes ok: "log_ok oh (e0 # es)" and r: "ready (log_bytes oh (e0 # es)) (format_of oh) it (length (header_bytes oh)) e0"
    and body: "\<And>it cur el e s. ready (log_bytes oh (e0 # es)) (format_of oh) it cur e \<Longrightarrow>
      shows_event (log_bytes oh (e0 # es)) (format_of oh) el e \<Longrightarrow> body it el s = f e s"
  shows "log_loop (log_bytes oh (e0 # es)) body it s = run_events f (e0 # es) s"
proof (rule log_loop_events [where I = "\<lambda>_. True" and lf = "format_of oh" and f = f and body = body])
  let ?mem = "log_bytes oh (e0 # es)"
  show "length (header_bytes oh) + length (concat (map (event_bytes (lf_agile (format_of oh))) (e0 # es))) = length ?mem"
    by (simp add: events_bytes_def log_bytes_def)
  show "has_at ?mem (length (header_bytes oh)) (concat (map (event_bytes (lf_agile (format_of oh))) (e0 # es)))"
    using log_bytes_parts [of oh "e0 # es"] by (simp add: events_bytes_def)
  show "\<forall>e \<in> set es. event_ok (format_of oh) e" using ok by (simp add: log_ok_def)
  show "ready ?mem (format_of oh) it (length (header_bytes oh)) e0" by (fact r)
qed (erule (1) body, simp_all)

theorem FilterLog_log:
  assumes ok: "log_ok oh es" and m: "pcrMask \<noteq> 0"
  defines "mem \<equiv> log_bytes oh es" and "flog \<equiv> log_bytes oh (keep_events pcrMask es)"
  shows "TpmAttiFilterLog (Some mem) (of_nat (length mem)) pcrMask None cbOutput = Ok (S_OK, of_nat (length flog), [])"
    and "length flog \<le> unat cbOutput \<Longrightarrow> unat cbOutput \<le> length out \<Longrightarrow> cbOutput \<noteq> 0 \<Longrightarrow>
      TpmAttiFilterLog (Some mem) (of_nat (length mem)) pcrMask (Some out) cbOutput =
        Ok (S_OK, of_nat (length flog), overwrite 0 flog out)"
    and "length flog \<le> length mem"
proof -
  obtain e es' where es: "es = e # es'" using ok by (cases es) (auto simp: log_ok_def)
  let ?lf = "format_of oh" and ?h = "header_bytes oh"
  have init: "\<exists>it'. WbclApiInitIterator (Some mem) (of_nat (length mem)) it = Ok (S_OK, it') \<and>
      ready mem ?lf it' (length ?h) e" for it
    using WbclApiInitIterator_log [of oh e es'] ok unfolding mem_def es by blast
  obtain it where it: "WbclApiInitIterator (Some mem) (of_nat (length mem)) blank_iterator = Ok (S_OK, it)"
      "ready mem ?lf it (length ?h) e" using init by blast
  obtain it2 where it2: "WbclApiInitIterator (Some mem) (of_nat (length mem)) it = Ok (S_OK, it2)"
      "ready mem ?lf it2 (length ?h) e" using init by blast
  have lm: "length mem < 2 ^ 32" using ok by (simp add: log_ok_def mem_def)
  have "0 < length mem" by (simp add: mem_def log_bytes_def events_bytes_def length_event_bytes es)
  then have nz: "(of_nat (length mem) :: UINT32) \<noteq> 0" using unat_small [OF lm] by fastforce
  show fl: "length flog \<le> length mem"
    using length_keep_events [of ?lf pcrMask es] by (simp add: flog_def mem_def log_bytes_def)
  have first: "(if it_logFormat it = 2 then of_nat (the (it_currentElementPtr it)) else 0) = (of_nat (length ?h) :: UINT32)"
    using it(2) by (auto simp: ready_def stands_at_def iterates_def header_bytes_def split: option.splits)
  have size_at: "it_currentElementSize it = of_nat (length (event_bytes (lf_agile ?lf) e))" if "ready mem ?lf it cur e" for it cur e
    using that by (simp add: ready_def)
  have count: "log_loop mem (count_event pcrMask) it (of_nat (length ?h)) = Ok (S_OK, of_nat (length flog))"
  proof -
    have "log_loop mem (count_event pcrMask) it (of_nat (length ?h)) =
      run_events (\<lambda>e n. Ok (S_OK, if kept pcrMask (ev_pcr e) then n + of_nat (length (event_bytes (lf_agile ?lf) e)) else n))
        es (of_nat (length ?h))"
      unfolding es mem_def
      by (rule log_loop_log [OF ok [unfolded es] it(2) [unfolded mem_def es]])
        (simp add: count_event_def shows_event_def ready_def)
    then show ?thesis by (simp add: run_count_events flog_def log_bytes_def)
  qed
  show "TpmAttiFilterLog (Some mem) (of_nat (length mem)) pcrMask None cbOutput = Ok (S_OK, of_nat (length flog), [])"
    using it(1) first count nz m by (simp add: TpmAttiFilterLog_def Let_def)
  assume room: "length flog \<le> unat cbOutput" "unat cbOutput \<le> length out" "cbOutput \<noteq> 0"
  have u: "unat (of_nat (length flog) :: UINT32) = length flog" using fl lm by simp
  then have c: "\<not> cbOutput < of_nat (length flog)" using room(1) by (simp add: word_less_nat_alt)
  let ?ev = "events_bytes ?lf (keep_events pcrMask es)"
  have fe: "flog = ?h @ ?ev" by (simp add: flog_def log_bytes_def)
  have lh: "length ?h < 2 ^ 32" "length ?h \<le> unat cbOutput" using fl lm fe room(1) by simp_all
  have hd: "(if (of_nat (length ?h) :: UINT32) \<noteq> 0 then copy_entry mem cbOutput 0 (of_nat (length ?h)) (0, out) else Ok (S_OK, 0, out)) =
      Ok (S_OK, of_nat (length ?h), overwrite 0 ?h out)"
  proof (cases "?h = []")
    case False
    then have "(of_nat (length ?h) :: UINT32) \<noteq> 0" using unat_small [OF lh(1)] by fastforce
    moreover have "has_at mem 0 ?h" using has_at_all [of mem] by (simp add: mem_def log_bytes_def has_at_append)
    ultimately show ?thesis
      using copy_entry_bytes [OF LOAD_has_at [OF _ refl] lh(1)] copy_bytes_room [of 0 ?h cbOutput out] lh(2) room(2) by simp
  qed simp
  have body: "copy_event mem pcrMask cbOutput it el s =
      (if kept pcrMask (ev_pcr e) then copy_bytes cbOutput (event_bytes (lf_agile ?lf) e) s else Ok (S_OK, s))"
    if r: "ready mem ?lf it cur e" and sh: "shows_event mem ?lf el e" for it cur el e s
  proof -
    have "has_at mem cur (event_bytes (lf_agile ?lf) e)" "it_currentElementPtr it = Some cur"
      "it_currentElementSize it = of_nat (length (event_bytes (lf_agile ?lf) e))"
      using r by (simp_all add: ready_def stands_at_def)
    moreover have "length (event_bytes (lf_agile ?lf) e) < 2 ^ 32" using has_at_le [OF calculation(1)] lm by simp
    ultimately show ?thesis
      using sh copy_entry_bytes [OF LOAD_has_at [OF _ refl], of mem cur "event_bytes (lf_agile ?lf) e" cbOutput s]
      by (simp add: copy_event_def at_ptr_def shows_event_def)
  qed
  have copy: "log_loop mem (copy_event mem pcrMask cbOutput) it2 (of_nat (length ?h), overwrite 0 ?h out) =
      Ok (S_OK, of_nat (length flog), overwrite 0 flog out)"
  proof -
    have "log_loop mem (copy_event mem pcrMask cbOutput) it2 s =
      run_events (\<lambda>e s. if kept pcrMask (ev_pcr e) then copy_bytes cbOutput (event_bytes (lf_agile ?lf) e) s else Ok (S_OK, s)) es s" for s
      unfolding es mem_def
      by (rule log_loop_log [OF ok [unfolded es] it2(2) [unfolded mem_def es]]) (rule body [unfolded mem_def es])
    also have "run_events (\<lambda>e s. if kept pcrMask (ev_pcr e) then copy_bytes cbOutput (event_bytes (lf_agile ?lf) e) s else Ok (S_OK, s))
        es (of_nat (length ?h), overwrite 0 ?h out) = Ok (S_OK, of_nat (length ?h) + of_nat (length ?ev),
          overwrite (length ?h) ?ev (overwrite 0 ?h out))"
      using run_copy_events [of "of_nat (length ?h)" ?lf pcrMask es cbOutput "overwrite 0 ?h out"] lh room fe by simp
    finally show ?thesis using overwrite_overwrite_append [of 0 ?h ?ev out] room fe by simp
  qed
  show "TpmAttiFilterLog (Some mem) (of_nat (length mem)) pcrMask (Some out) cbOutput =
        Ok (S_OK, of_nat (length flog), overwrite 0 flog out)"
    using it(1) it2(1) first count nz m c room(3) copy by (simp add: TpmAttiFilterLog_def Let_def hd cong: if_cong split del: if_split)
qed

section \<open>The replay of a filtered log\<close>

lemma mask_bit: "n < 32 \<Longrightarrow> push_bit n 1 AND m \<noteq> 0 \<longleftrightarrow> bit (m :: UINT32) n"
  by (auto simp: bit_eq_iff [of "_ AND _" 0] bit_simps)

lemma kept_bit: "kept pcrMask i \<longleftrightarrow> unat i < 24 \<and> bit pcrMask (unat i)"
  using mask_bit [of "unat i" pcrMask] by (auto simp: kept_def)

lemma events_of_keep_events:
  "i < 24 \<Longrightarrow> events_of i (keep_events pcrMask es) = (if bit pcrMask i then events_of i es else [])"
  by (induction es) (auto simp: events_of_def keep_events_def kept_bit)

lemma soft_pcr_keep_events:
  "i < 24 \<Longrightarrow> soft_pcr H lf sz (keep_events pcrMask es) i = (if bit pcrMask i then soft_pcr H lf sz es i else pcr_start sz i)"
  by (simp add: soft_pcr_def events_of_keep_events)

lemma extended_keep_events: "i < 24 \<Longrightarrow> extended_in (keep_events pcrMask es) i \<longleftrightarrow> bit pcrMask i \<and> extended_in es i"
  by (auto simp: extended_in_def keep_events_def kept_bit)

lemma log_ok_keep_events:
  assumes "log_ok oh es" and "keep_events pcrMask es \<noteq> []" and "oh = None \<Longrightarrow> \<not> looks_like_header (hd (keep_events pcrMask es))"
  shows "log_ok oh (keep_events pcrMask es)"
  using assms length_keep_events [of "format_of oh" pcrMask es]
  by (auto simp: log_ok_def keep_events_def log_bytes_def split: option.splits)

theorem filtered_log_replay:
  assumes bc: "bc_ok bc" and ok: "log_ok oh es"
  defines "lf \<equiv> format_of oh" and "log \<equiv> log_bytes oh es"
  defines "sz \<equiv> unat (lf_size lf)"
  assumes st: "startup_ok (bc_hash bc (hash_of lf)) lf sz (replicate sz 0) (events_of 0 es)"
    and room: "24 * sz \<le> unat cbSwPcr" "24 * sz \<le> length pcrs"
    and k: "keep_events pcrMask es \<noteq> []" "oh = None \<Longrightarrow> \<not> looks_like_header (hd (keep_events pcrMask es))"
    and out: "length log \<le> unat cbOutput" "unat cbOutput \<le> length out"
  shows "\<exists>n out' pcrs1 mask1 pcrs2 mask2.
    TpmAttiFilterLog (Some log) (of_nat (length log)) pcrMask (Some out) cbOutput = Ok (S_OK, n, out') \<and>
    TpmAttiComputeSoftPCRs bc (Some log) (of_nat (length log)) (lf_alg lf) (Some pcrs) cbSwPcr = Ok (S_OK, pcrs1, mask1) \<and>
    TpmAttiComputeSoftPCRs bc (Some (take (unat n) out')) n (lf_alg lf) (Some pcrs) cbSwPcr = Ok (S_OK, pcrs2, mask2) \<and>
    (\<forall>i < 24. pcr_at sz i pcrs2 = (if bit pcrMask i then pcr_at sz i pcrs1 else pcr_start sz i)) \<and>
    (\<forall>i < 24. bit mask2 i \<longleftrightarrow> bit pcrMask i \<and> bit mask1 i)"
proof -
  let ?k = "keep_events pcrMask es" and ?H = "bc_hash bc (hash_of lf)"
  let ?flog = "log_bytes oh ?k"
  have okk: "log_ok oh ?k" by (rule log_ok_keep_events [OF ok k])
  have st': "startup_ok ?H lf sz (replicate sz 0) (events_of 0 ?k)"
    using st by (simp add: events_of_keep_events)
  have m: "pcrMask \<noteq> 0"
  proof
    assume "pcrMask = 0"
    then have "?k = []" by (simp add: keep_events_def kept_bit)
    then show False using k(1) by simp
  qed
  note f = FilterLog_log [OF ok m, folded log_def]
  have lf: "length ?flog \<le> unat cbOutput" "length ?flog < 2 ^ 32"
    using f(3) out(1) okk by (simp_all add: log_ok_def)
  have "0 < length ?flog" using k(1) by (cases ?k) (simp_all add: log_bytes_def events_bytes_def length_event_bytes)
  then have "cbOutput \<noteq> 0" using lf(1) by auto
  then have f2: "TpmAttiFilterLog (Some log) (of_nat (length log)) pcrMask (Some out) cbOutput =
      Ok (S_OK, of_nat (length ?flog), overwrite 0 ?flog out)" using f(2) lf(1) out(2) by blast
  have t: "take (unat (of_nat (length ?flog) :: UINT32)) (overwrite 0 ?flog out) = ?flog"
    using lf by (simp add: overwrite_def)
  obtain pcrs1 mask1 where c1: "TpmAttiComputeSoftPCRs bc (Some log) (of_nat (length log)) (lf_alg lf) (Some pcrs) cbSwPcr =
      Ok (S_OK, pcrs1, mask1)" "\<forall>i < 24. pcr_at sz i pcrs1 = soft_pcr ?H lf sz es i" "\<forall>i < 24. bit mask1 i \<longleftrightarrow> extended_in es i"
    using ComputeSoftPCRs_log [OF bc ok, folded lf_def, folded sz_def log_def, OF st room] by blast
  obtain pcrs2 mask2 where c2: "TpmAttiComputeSoftPCRs bc (Some ?flog) (of_nat (length ?flog)) (lf_alg lf) (Some pcrs) cbSwPcr =
      Ok (S_OK, pcrs2, mask2)" "\<forall>i < 24. pcr_at sz i pcrs2 = soft_pcr ?H lf sz ?k i" "\<forall>i < 24. bit mask2 i \<longleftrightarrow> extended_in ?k i"
    using ComputeSoftPCRs_log [OF bc okk, folded lf_def, folded sz_def, OF st' room] by blast
  show ?thesis
    using f2 c1 c2 t by (intro exI conjI) (auto simp: soft_pcr_keep_events extended_keep_events)
qed

end
