(* ===== verification/PcpKdf.thy ===== *)
theory PcpKdf
  imports PcpLogLaws PcpParse CryptoOps TypeExtensions
begin

unbundle bit_operations_syntax

text \<open>
  \<^verbatim>\<open>PCPTool.v11/dll/TPM20.cpp\<close>: the key derivation \<open>KDFa\<close> and the name of a public area. The tool has an
  implementation of KDFa of its own; it derives the same bytes as the one of TSS.C++.
\<close>

section \<open>KDFa\<close>

abbreviation (input) MAX_PATH :: nat where "MAX_PATH \<equiv> 260"
abbreviation (input) STRSAFE_E_INVALID_PARAMETER :: HRESULT where "STRSAFE_E_INVALID_PARAMETER \<equiv> 0x80070057"

text \<open>
  What is hashed: the counter, which \<open>pI\<close> stores as a number of the machine, the label with its end, both
  contexts and the number of bits.
\<close>

definition kdfa_data :: "UINT32 \<Rightarrow> string \<Rightarrow> ByteVec \<Rightarrow> ByteVec \<Rightarrow> UINT32 \<Rightarrow> ByteVec" where
  "kdfa_data iteration label contextU contextV bits =
     le_bytes 4 (ENDIANSWAPUINT32 iteration) @ map of_char label @ [0] @ contextU @ contextV @
     [ucast (drop_bit 24 (bits AND 0xff000000)), ucast (drop_bit 16 (bits AND 0x00ff0000)),
      ucast (drop_bit 8 (bits AND 0x0000ff00)), ucast (bits AND 0x000000ff)]"

lemma kdfa_cursor:
  assumes "cur < cbOutput" and "n \<le> cbOutput - cur" and "n \<noteq> (0 :: UINT32)"
  shows "unat (cur + n) = unat cur + unat n" and "unat (cbOutput - (cur + n)) < unat (cbOutput - cur)"
    and "cur + n \<le> cbOutput"
proof -
  have d: "unat (cbOutput - cur) = unat cbOutput - unat cur"
    using assms(1) by (simp add: unat_sub less_imp_le)
  have l: "unat cur < unat cbOutput" "unat n \<le> unat cbOutput - unat cur" "0 < unat n"
    using assms d by (simp_all add: word_less_nat_alt word_le_nat_alt unat_gt_0)
  moreover have "unat cbOutput < 2 ^ 32" by (rule uint32_lt)
  ultimately show u: "unat (cur + n) = unat cur + unat n" by (simp add: unat_word_ariths)
  show le: "cur + n \<le> cbOutput" using l u by (simp add: word_le_nat_alt)
  show "unat (cbOutput - (cur + n)) < unat (cbOutput - cur)" using le l u d by (simp add: unat_sub)
qed

text \<open>
  The generation loop; \<open>iter\<close> is the iteration buffer. A fragment without bytes would keep the loop where it
  is; the allocation of a buffer for it has failed before.
\<close>

function kdfa_loop ::
  "(UINT32 \<Rightarrow> UINT32 \<Rightarrow> HRESULT \<times> UINT32 option \<times> ByteVec option) \<Rightarrow> UINT32 \<Rightarrow> UINT32 \<Rightarrow> UINT32 \<Rightarrow> UINT32 \<Rightarrow>
     ByteVec \<Rightarrow> ByteVec \<Rightarrow> (HRESULT \<times> ByteVec) outcome" where
  "kdfa_loop hash cbOutput iteration cur cbIter iter out =
     (if cur < cbOutput
      then
        (case hash (iteration + 1) cbIter of (hr, len, res) \<Rightarrow>
          if FAILED hr then Ok (hr, out)
          else
            let cbIter = (case len of Some n \<Rightarrow> n | None \<Rightarrow> cbIter);
                iter = (case res of Some r \<Rightarrow> overwrite 0 r iter | None \<Rightarrow> iter);
                n = (if cbIter \<le> cbOutput - cur then cbIter else cbOutput - cur) in
            if n = 0 then Undef
            else if length iter < unat n \<or> length out < unat cur + unat n then Undef
            else kdfa_loop hash cbOutput (iteration + 1) (cur + n) cbIter iter
                   (overwrite (unat cur) (take (unat n) iter) out))
      else Ok (S_OK, out))"
  by pat_completeness auto

termination
proof (relation "measure (\<lambda>(_, cbOutput, _, cur, _). unat (cbOutput - cur))", goal_cases)
  case (2 hash cbOutput iteration cur cbIter)
  then show ?case using kdfa_cursor(2) [of cur cbOutput] by (auto simp: not_le split: if_splits)
qed simp

declare kdfa_loop.simps [simp del]

text \<open>
  \<open>pbKey\<close>, \<open>label\<close> and \<open>pbOutput\<close> are \<open>None\<close> when null. The results are the code, \<open>*pcbResult\<close> and the output.
\<close>

definition KDFa_pcp ::
  "Bcrypt \<Rightarrow> string \<Rightarrow> ByteVec option \<Rightarrow> string option \<Rightarrow> ByteVec \<Rightarrow> ByteVec \<Rightarrow> UINT32 \<Rightarrow> ByteVec option \<Rightarrow> UINT32 \<Rightarrow>
     (HRESULT \<times> UINT32 \<times> ByteVec) outcome" where
  "KDFa_pcp bc pszAlgId pbKey label contextU contextV bits pbOutput cbOutput =
     (let out = (case pbOutput of Some out \<Rightarrow> out | None \<Rightarrow> []) in
      if pbKey = None \<or> pbKey = Some [] \<or> label = None \<or> bits = 0 \<or> bits mod 8 \<noteq> 0 then Ok (E_INVALIDARG, 0, out)
      else
        let cbResult = bits div 8 in
        if pbOutput = None \<or> cbOutput = 0 then Ok (S_OK, cbResult, out)
        else if cbOutput < cbResult then Ok (HRESULT_FROM_WIN32 ERROR_INSUFFICIENT_BUFFER, cbResult, out)
        else if MAX_PATH \<le> length (the label) then Ok (STRSAFE_E_INVALID_PARAMETER, cbResult, out)
        else if 2 ^ 32 \<le> 4 + length (the label) + 1 + length contextU + length contextV + 4 then Undef
        else
          let data = (\<lambda>i. kdfa_data i (the label) contextU contextV bits) in
          case TpmAttiShaHash bc pszAlgId pbKey (data 0) None of (hr, len, _) \<Rightarrow>
            if FAILED hr then Ok (hr, cbResult, out)
            else
              let cbIter = (case len of Some n \<Rightarrow> n | None \<Rightarrow> 0) in
              if cbIter = 0 then Ok (E_INVALIDARG, cbResult, out)
              else obind (kdfa_loop (\<lambda>i n. TpmAttiShaHash bc pszAlgId pbKey (data i) (Some n)) cbOutput 0 0 cbIter
                     (replicate (unat cbIter) 0) out) (\<lambda>(hr, out). Ok (hr, cbResult, out)))"

section \<open>The name of a public area\<close>

text \<open>
  \<open>*pNameAlg\<close> is part of the result when \<open>pNameAlg\<close> is not null. The results are the code, the algorithm,
  \<open>*pcbResult\<close> and the output.
\<close>

definition GetNameFromPublic ::
  "Bcrypt \<Rightarrow> ByteVec option \<Rightarrow> UINT32 \<Rightarrow> ByteVec option \<Rightarrow> UINT32 \<Rightarrow>
     (HRESULT \<times> string option \<times> UINT32 \<times> ByteVec) outcome" where
  "GetNameFromPublic bc pbKeyBlob cbKeyBlob pbOutput cbOutput =
     (let out = (case pbOutput of Some out \<Rightarrow> out | None \<Rightarrow> []) in
      case pbKeyBlob of
        None \<Rightarrow> Ok (E_INVALIDARG, None, 0, out)
      | Some blob \<Rightarrow>
          if cbKeyBlob = 0 then Ok (E_INVALIDARG, None, 0, out)
          else
            case sbind (SkipBigEndian cbKeyBlob 2) (\<lambda>hr.
                if FAILED hr then ret (hr, None) else ReadBigEndian16 cbKeyBlob True)
              \<lparr>be_mem = blob, be_cursor = Some 0\<rparr> of
              (r, _) \<Rightarrow> obind r (\<lambda>(hr, nameAlg).
                if FAILED hr then Ok (hr, None, 0, out)
                else
                  let alg = (if nameAlg = Some TPM_API_ALG_ID_SHA1 then Some (BCRYPT_SHA1_ALGORITHM, 20)
                        else if nameAlg = Some TPM_API_ALG_ID_SHA256 then Some (BCRYPT_SHA256_ALGORITHM, 32)
                        else if nameAlg = Some TPM_API_ALG_ID_SHA384 then Some (BCRYPT_SHA384_ALGORITHM, 48) else None) in
                  case alg of
                    None \<Rightarrow> Ok (E_INVALIDARG, None, 0, out)
                  | Some (szHashAlg, sz) \<Rightarrow>
                      let cbResult = sz + 2 in
                      if pbOutput = None \<or> cbOutput = 0 then Ok (S_OK, None, cbResult, out)
                      else if cbOutput < cbResult
                      then Ok (HRESULT_FROM_WIN32 ERROR_INSUFFICIENT_BUFFER, None, cbResult, out)
                      else obind (LOAD blob 0 (unat cbKeyBlob)) (\<lambda>data.
                        case TpmAttiShaHash bc szHashAlg None data (Some (cbOutput - 2)) of (hr, len, res) \<Rightarrow>
                          let cbResult = (case len of Some n \<Rightarrow> n | None \<Rightarrow> cbResult) in
                          if FAILED hr then Ok (hr, None, cbResult, out)
                          else
                            let digest = (case res of Some r \<Rightarrow> r | None \<Rightarrow> []) in
                            if length out < 2 + length digest then Undef
                            else case ENDIANSWAP_UINT16TOARRAY (the nameAlg)
                                \<lparr>be_mem = overwrite 2 digest out, be_cursor = Some 0\<rparr> of
                              (r, b) \<Rightarrow> obind r (\<lambda>_. Ok (S_OK, Some szHashAlg, cbResult + 2, be_mem b)))))"

section \<open>The derived bytes\<close>

lemma le_bytes_4:
  "le_bytes 4 (v :: UINT32) = [ucast v, ucast (drop_bit 8 v), ucast (drop_bit 16 v), ucast (drop_bit 24 v)]"
  by (simp add: eval_nat_numeral)

lemma enc32_le_bytes: "enc32 v = rev (le_bytes 4 v)"
  by (simp add: le_bytes_4 enc32_def be_bytes_def byte_at_def)
    (intro conjI bit_word_eqI; auto simp: be_masks bit_simps)

lemma swap_bytes:
  "(ucast (ENDIANSWAPUINT32 x) :: byte) = ucast (drop_bit 24 x)"
  "(ucast (drop_bit 8 (ENDIANSWAPUINT32 x)) :: byte) = ucast (drop_bit 16 x)"
  "(ucast (drop_bit 16 (ENDIANSWAPUINT32 x)) :: byte) = ucast (drop_bit 8 x)"
  "(ucast (drop_bit 24 (ENDIANSWAPUINT32 x)) :: byte) = ucast x"
  unfolding ENDIANSWAPUINT32_def be_masks by (rule bit_word_eqI; auto simp: bit_simps)+

lemma le_bytes_swap: "le_bytes 4 (ENDIANSWAPUINT32 x) = enc32 x"
  by (simp add: enc32_le_bytes le_bytes_4 swap_bytes)

lemma kdfa_data_enc: "kdfa_data i label u v n = enc32 i @ map of_char label @ [0] @ u @ v @ enc32 n"
  by (simp add: kdfa_data_def le_bytes_swap enc32_bytes)

text \<open>The loop writes the fragments one after the other, and of the last one what fits.\<close>

lemma kdfa_loop_concat:
  assumes frag: "\<And>i. \<exists>hr. hash i hw = (hr, Some hw, Some (g i)) \<and> \<not> FAILED hr" "\<And>i. length (g i) = unat hw"
    and h: "0 < unat hw" and N: "unat cbOutput \<le> length out"
  shows "k * unat hw \<le> unat cbOutput \<Longrightarrow> unat cbOutput \<le> L * unat hw \<Longrightarrow> length iter = unat hw \<Longrightarrow>
    unat cbOutput \<le> length out \<Longrightarrow>
    kdfa_loop hash cbOutput (of_nat k) (of_nat (k * unat hw)) hw iter out =
      Ok (S_OK, overwrite (k * unat hw)
        (take (unat cbOutput - k * unat hw) (concat (map (\<lambda>i. g (of_nat (Suc i))) [k..<L]))) out)"
proof (induction "L - k" arbitrary: k iter out)
  case 0
  then have "L \<le> k" by simp
  then have "L * unat hw \<le> k * unat hw" by (rule mult_le_mono1)
  then have "k * unat hw = unat cbOutput" using 0(2,3) by linarith
  then show ?case by (subst kdfa_loop.simps) (simp add: overwrite_def)
next
  case (Suc d)
  let ?h = "unat hw" and ?N = "unat cbOutput" and ?i = "of_nat (Suc k) :: UINT32"
  have NL: "?N < 2 ^ 32" by (rule uint32_lt)
  have cu: "unat (of_nat (k * ?h) :: UINT32) = k * ?h" using Suc.prems(1) NL by (intro unat_small) linarith
  have upt: "[k..<L] = k # [Suc k..<L]" using Suc.hyps(2) by (simp add: upt_conv_Cons)
  show ?case
  proof (cases "k * ?h = ?N")
    case True
    then show ?thesis by (subst kdfa_loop.simps) (simp add: overwrite_def)
  next
    case False
    then have lt: "(of_nat (k * ?h) :: UINT32) < cbOutput" using Suc.prems(1) cu by (simp add: word_less_nat_alt)
    have d: "unat (cbOutput - of_nat (k * ?h)) = ?N - k * ?h" using lt cu by (simp add: unat_sub less_imp_le)
    obtain hr where hr: "hash (of_nat k + 1) hw = (hr, Some hw, Some (g ?i))" "\<not> FAILED hr"
      using frag(1) [of ?i] by (auto simp: add.commute)
    have it: "overwrite 0 (g ?i) iter = g ?i" using Suc.prems(3) frag(2) by (simp add: overwrite_def)
    have loop: "kdfa_loop hash cbOutput (of_nat k) (of_nat (k * ?h)) hw iter out =
      (let n = (if hw \<le> cbOutput - of_nat (k * ?h) then hw else cbOutput - of_nat (k * ?h)) in
       if n = 0 then Undef
       else if length (g ?i) < unat n \<or> length out < k * ?h + unat n then Undef
       else kdfa_loop hash cbOutput ?i (of_nat (k * ?h) + n) hw (g ?i) (overwrite (k * ?h) (take (unat n) (g ?i)) out))"
      using lt hr cu it by (subst kdfa_loop.simps) (simp add: Let_def add.commute)
    show ?thesis
    proof (cases "?h \<le> ?N - k * ?h")
      case True
      then have c: "hw \<le> cbOutput - of_nat (k * ?h)" using d by (simp add: word_le_nat_alt)
      have nz: "hw \<noteq> 0" using h by auto
      have s: "Suc k * ?h \<le> ?N" using True False Suc.prems(1) by simp
      have nx: "of_nat (k * ?h) + hw = (of_nat (Suc k * ?h) :: UINT32)" by simp
      have "kdfa_loop hash cbOutput (of_nat k) (of_nat (k * ?h)) hw iter out =
          kdfa_loop hash cbOutput ?i (of_nat (Suc k * ?h)) hw (g ?i) (overwrite (k * ?h) (g ?i) out)"
        using c nz s Suc.prems(4) frag(2) by (simp only: loop Let_def nx if_True if_False) simp
      also have "\<dots> = Ok (S_OK, overwrite (Suc k * ?h)
          (take (?N - Suc k * ?h) (concat (map (\<lambda>i. g (of_nat (Suc i))) [Suc k..<L]))) (overwrite (k * ?h) (g ?i) out))"
        by (rule Suc.hyps(1)) (use Suc.hyps(2) Suc.prems s frag(2) in simp_all)
      also have "overwrite (Suc k * ?h)
          (take (?N - Suc k * ?h) (concat (map (\<lambda>i. g (of_nat (Suc i))) [Suc k..<L]))) (overwrite (k * ?h) (g ?i) out) =
          overwrite (k * ?h) (g ?i @ take (?N - Suc k * ?h) (concat (map (\<lambda>i. g (of_nat (Suc i))) [Suc k..<L]))) out"
      proof -
        let ?t = "take (?N - Suc k * ?h) (concat (map (\<lambda>i. g (of_nat (Suc i))) [Suc k..<L]))"
        have "length ?t \<le> ?N - Suc k * ?h" by simp
        then have "k * ?h + length (g ?i) + length ?t \<le> length out" using frag(2) s Suc.prems(4) by simp
        then show ?thesis using overwrite_overwrite_append [of "k * ?h" "g ?i" ?t out] frag(2) by (simp add: add.commute)
      qed
      finally show ?thesis using frag(2) True by (simp add: upt add.commute)
    next
      case no: False
      then have c: "\<not> hw \<le> cbOutput - of_nat (k * ?h)" using d by (simp add: word_le_nat_alt)
      have nz: "cbOutput - of_nat (k * ?h) \<noteq> 0" using lt by auto
      have "kdfa_loop hash cbOutput (of_nat k) (of_nat (k * ?h)) hw iter out =
          Ok (S_OK, overwrite (k * ?h) (take (?N - k * ?h) (g ?i)) out)"
        using c nz d no frag(2) Suc.prems(1,4)
        by (simp only: loop Let_def if_False) (subst kdfa_loop.simps, simp)
      then show ?thesis using no frag(2) by (simp add: upt)
    qed
  qed
qed

lemma TpmAttiShaHash_hmac:
  assumes "bc_ok bc" and "known_hash alg" and "key \<noteq> []"
  shows "\<exists>hr. TpmAttiShaHash bc alg (Some key) m (Some (hash_size alg)) =
      (hr, Some (hash_size alg), Some (bc_hmac bc alg key m)) \<and> \<not> FAILED hr"
    and "\<exists>hr. TpmAttiShaHash bc alg (Some key) m None = (hr, Some (hash_size alg), None) \<and> \<not> FAILED hr"
proof -
  have "\<not> FAILED (HRESULT_FROM_NT (bc_open bc alg True))" "\<not> FAILED (HRESULT_FROM_NT (fst (bc_hash_length bc alg True)))"
    "snd (bc_hash_length bc alg True) = hash_size alg"
    "\<not> FAILED (HRESULT_FROM_NT (fst (bc_digest bc alg (Some key) m (hash_size alg))))"
    using assms(1,2) unfolding bc_ok_def by blast+
  then show "\<exists>hr. TpmAttiShaHash bc alg (Some key) m (Some (hash_size alg)) =
      (hr, Some (hash_size alg), Some (bc_hmac bc alg key m)) \<and> \<not> FAILED hr"
    and "\<exists>hr. TpmAttiShaHash bc alg (Some key) m None = (hr, Some (hash_size alg), None) \<and> \<not> FAILED hr"
    using assms(2,3) hash_size_nz [of alg] by (auto simp: TpmAttiShaHash_def bc_hmac_def Let_def)
qed

definition pcp_stream :: "Bcrypt \<Rightarrow> string \<Rightarrow> ByteVec \<Rightarrow> string \<Rightarrow> ByteVec \<Rightarrow> ByteVec \<Rightarrow> UINT32 \<Rightarrow> nat \<Rightarrow> ByteVec" where
  "pcp_stream bc alg key label u v n L =
     concat (map (\<lambda>i. bc_hmac bc alg key (kdfa_data (of_nat (Suc i)) label u v n)) [0..<L])"

text \<open>The whole output is filled, also when it is longer than the number of bytes that is reported.\<close>

lemma KDFa_pcp_stream:
  assumes bc: "bc_ok bc" "known_hash alg" "key \<noteq> []" and n: "n \<noteq> 0" "n mod 8 = 0"
    and len: "length label < 260" "4 + length label + 1 + length u + length v + 4 < 2 ^ 32"
    and out: "n div 8 \<le> cbOutput" "cbOutput \<noteq> 0" "unat cbOutput \<le> length out" and L: "unat cbOutput \<le> L * unat (hash_size alg)"
  shows "KDFa_pcp bc alg (Some key) (Some label) u v n (Some out) cbOutput =
    Ok (S_OK, n div 8, overwrite 0 (take (unat cbOutput) (pcp_stream bc alg key label u v n L)) out)"
proof -
  let ?hash = "\<lambda>i m. TpmAttiShaHash bc alg (Some key) (kdfa_data i label u v n) (Some m)"
  let ?g = "\<lambda>i. bc_hmac bc alg key (kdfa_data i label u v n)" and ?h = "hash_size alg"
  have g: "length (?g i) = unat ?h" for i by (rule length_bc_hmac [OF bc(1,2)])
  have h: "0 < unat ?h" using hash_size_nz [of alg] by (simp add: unat_gt_0)
  have frag: "\<exists>hr. ?hash i ?h = (hr, Some ?h, Some (?g i)) \<and> \<not> FAILED hr" for i
    by (rule TpmAttiShaHash_hmac(1) [OF bc])
  have loop: "kdfa_loop ?hash cbOutput 0 0 ?h (replicate (unat ?h) 0) out =
      Ok (S_OK, overwrite 0 (take (unat cbOutput) (pcp_stream bc alg key label u v n L)) out)"
    using kdfa_loop_concat [of ?hash ?h ?g cbOutput out 0 L "replicate (unat ?h) 0", OF frag g h out(3)] out(3) L
    by (simp add: pcp_stream_def)
  obtain hr where q: "TpmAttiShaHash bc alg (Some key) (kdfa_data 0 label u v n) None = (hr, Some ?h, None)" "\<not> FAILED hr"
    using TpmAttiShaHash_hmac(2) [OF bc] by blast
  show ?thesis
    using n len out q loop hash_size_nz [of alg] bc(3) by (auto simp: KDFa_pcp_def Let_def)
qed

text \<open>The hash algorithms that both implementations have.\<close>

definition same_hash :: "TPM_ALG_ID \<Rightarrow> string \<Rightarrow> bool" where
  "same_hash a alg \<longleftrightarrow> (a, alg) \<in> {(TPM_ALG_ID_SHA1, BCRYPT_SHA1_ALGORITHM),
     (TPM_ALG_ID_SHA256, BCRYPT_SHA256_ALGORITHM), (TPM_ALG_ID_SHA384, BCRYPT_SHA384_ALGORITHM)}"

lemma same_hash_facts:
  assumes "same_hash a alg"
  shows "known_hash alg" "IsImplemented ossl a" "unat (HashLength a) = unat (hash_size alg)"
  using assms by (auto simp: same_hash_def IsImplemented_def HashLength_def hash_size_def)

lemma KDFa_agree:
  assumes bc: "bc_ok bc" and ossl: "ossl_ok ossl" and a: "same_hash a alg"
    and hmac: "\<And>m. bc_hmac bc alg key m = ossl_hmac ossl a key m" and key: "key \<noteq> []"
    and n: "n \<noteq> 0" "unat n mod 8 = 0" "unat n \<le> 2 ^ 31"
    and len: "length label < 260" "length label + length u + length v + 9 \<le> 4096" and out: "unat n div 8 \<le> length out"
  shows "\<exists>k. KDFa ossl a key label u v n = Ok k \<and>
    KDFa_pcp bc alg (Some key) (Some label) u v n (Some out) (n div 8) = Ok (S_OK, n div 8, overwrite 0 k out)"
proof -
  let ?h = "unat (HashLength a)" let ?L = "(unat n + 8 * ?h - 1) div (8 * ?h)"
  note f = same_hash_facts(1) [OF a] same_hash_facts(2) [OF a, of ossl] same_hash_facts(3) [OF a]
  have s: "pcp_stream bc alg key label u v n L = kdf_stream ossl a key label u v n L" for L
    by (simp add: pcp_stream_def kdf_stream_def kdfa_data_enc hmac)
  have nd: "unat (n div 8) = unat n div 8" by (simp add: unat_div)
  obtain m where m: "unat n = 8 * m" using n(2) by auto
  have "0 < unat n" using n(1) by (simp add: unat_gt_0)
  then have nz: "n div 8 \<noteq> 0" using nd m by (metis bot_nat_0.not_eq_extremum mult_is_0 nonzero_mult_div_cancel_left unat_0 zero_neq_numeral)
  have m8: "n mod 8 = 0" using n(2) by (simp add: unat_eq_zero [symmetric] unat_mod del: unat_eq_zero)
  have h: "0 < ?h" "?h \<le> 64" using IsImplemented_HashLength [OF f(2)] by auto
  have "unat n \<le> 8 * ?h * ?L" by (rule kdf_arith(6) [OF unat_bitsPerLoop [OF f(2)] h n(3)])
  then have L: "unat (n div 8) \<le> ?L * unat (hash_size alg)" using nd f(3) m by (simp add: mult.assoc mult.commute)
  have "KDFa_pcp bc alg (Some key) (Some label) u v n (Some out) (n div 8) =
      Ok (S_OK, n div 8, overwrite 0 (take (unat (n div 8)) (pcp_stream bc alg key label u v n ?L)) out)"
    by (rule KDFa_pcp_stream [OF bc f(1) key n(1) m8 len(1) _ order_refl nz _ L]) (use len(2) out nd in simp_all)
  then show ?thesis using KDFa_bytes [OF ossl f(2) n(3,2) len(2), of key] s nd by simp
qed

section \<open>Names\<close>

text \<open>
  The name of a public area: the tool hashes the bytes it was given, TSS.C++ marshals the structure first. Both
  compute the same name.
\<close>

lemma GetNameFromPublic_bytes:
  assumes bc: "bc_ok bc" and a: "same_hash a alg" and h: "has_at blob 2 (enc16 a)" and l: "length blob < 2 ^ 32"
    and out: "2 + unat (hash_size alg) \<le> length out"
  shows "GetNameFromPublic bc (Some blob) (of_nat (length blob)) (Some out) (2 + hash_size alg) =
    Ok (S_OK, Some alg, 2 + hash_size alg, overwrite 0 (enc16 a @ bc_hash bc alg blob) out)"
proof -
  let ?cb = "of_nat (length blob) :: UINT32" and ?b = "\<lparr>be_mem = blob, be_cursor = Some 0\<rparr>"
  have w: "whole ?cb blob" using l by (simp add: whole_def)
  have n: "4 \<le> length blob" using has_at_le [OF h] by simp
  have ul: "unat ?cb = length blob" using l by simp
  then have cb: "?cb \<noteq> 0" using n by auto
  have b: "?b = at_pos blob 0" by (simp add: at_pos_def)
  have u2: "unat (2 :: UINT32) = 2" by simp
  have "be_adv 2 (at_pos blob 0) = at_pos blob 2"
    using at_pos_facts(5) [OF w, of 0 2] unfolding u2 add_0 by simp
  then have "SkipBigEndian ?cb 2 (at_pos blob 0) = (Ok S_OK, at_pos blob 2)"
    unfolding SkipBigEndian_room u2 using n at_pos_facts(4) [OF w, of 0 2] by simp
  moreover have "ReadBigEndian16 ?cb True (at_pos blob 2) = (Ok (S_OK, Some a), be_adv 2 (at_pos blob 2))"
    using n w h by (intro ReadBigEndian16_room) (simp_all add: at_pos_facts [of ?cb] holds_at_at_pos [of ?cb])
  ultimately have rd: "sbind (SkipBigEndian ?cb 2) (\<lambda>hr. if FAILED hr then ret (hr, None) else ReadBigEndian16 ?cb True) ?b =
      (Ok (S_OK, Some a), be_adv 2 (at_pos blob 2))"
    by (simp add: b sbind_def)
  have k: "known_hash alg" by (rule same_hash_facts(1) [OF a])
  obtain hr where hr: "TpmAttiShaHash bc alg None blob (Some (hash_size alg)) = (hr, Some (hash_size alg), Some (bc_hash bc alg blob))"
      "\<not> FAILED hr" using TpmAttiShaHash_hash [OF bc k] by blast
  have lh: "length (bc_hash bc alg blob) = unat (hash_size alg)" by (rule length_bc_hash [OF bc k])
  let ?o = "\<lparr>be_mem = overwrite 2 (bc_hash bc alg blob) out, be_cursor = Some 0\<rparr>"
  have lo: "length (be_mem ?o) = length out" using out lh by simp
  have st: "ENDIANSWAP_UINT16TOARRAY a ?o = (Ok (), \<lparr>be_mem = overwrite 0 (enc16 a @ bc_hash bc alg blob) out, be_cursor = Some 0\<rparr>)"
  proof -
    have "ENDIANSWAP_UINT16TOARRAY a ?o = (Ok (), ?o\<lparr>be_mem := overwrite (unat (cursor ?o)) (enc16 a) (be_mem ?o)\<rparr>)"
      by (rule store16_room [where cbBuffer = 2]) (use lo out in \<open>simp_all add: room_def mem_ok_def cursor_def\<close>)
    moreover have "overwrite 0 (enc16 a) (overwrite 2 (bc_hash bc alg blob) out) = overwrite 0 (enc16 a @ bc_hash bc alg blob) out"
      using out lh by (simp add: overwrite_def)
    ultimately show ?thesis by (simp add: cursor_def)
  qed
  have ld: "LOAD blob 0 (unat ?cb) = Ok blob" by (simp add: LOAD_def ul)
  show ?thesis
    using a rd hr st ld cb lh out
    by (auto simp: GetNameFromPublic_def same_hash_def Let_def hash_size_def)
qed

lemma GetName_agree:
  assumes bc: "bc_ok bc" and a: "same_hash (TPMT_PUBLIC_nameAlg x) alg" and x: "TPMT_PUBLIC_valid x" "length (TPMT_PUBLIC_enc x) \<le> 4096"
    and d: "bc_hash bc alg (TPMT_PUBLIC_enc x) = ossl_digest ossl (TPMT_PUBLIC_nameAlg x) (TPMT_PUBLIC_enc x)"
    and out: "2 + unat (hash_size alg) \<le> length out"
  shows "\<exists>name. TPMT_PUBLIC_GetName ossl x = Ok name \<and>
    GetNameFromPublic bc (Some (TPMT_PUBLIC_enc x)) (of_nat (length (TPMT_PUBLIC_enc x))) (Some out) (2 + hash_size alg) =
      Ok (S_OK, Some alg, 2 + hash_size alg, overwrite 0 name out)"
proof -
  obtain p where "TPMT_PUBLIC_parameters x = Some p" using x(1) by (auto simp: TPMT_PUBLIC_valid_def opt_ok_iff)
  then obtain rest where e: "TPMT_PUBLIC_enc x = enc16 (TPMU_PUBLIC_PARMS_GetUnionSelector p) @ enc16 (TPMT_PUBLIC_nameAlg x) @ rest"
    by (auto simp: TPMT_PUBLIC_enc_def)
  have "has_at (TPMT_PUBLIC_enc x) 0 (TPMT_PUBLIC_enc x)" by (rule has_at_all)
  then have "has_at (TPMT_PUBLIC_enc x) 2 (enc16 (TPMT_PUBLIC_nameAlg x))" unfolding e has_at_append by (simp add: numeral_2_eq_2)
  then show ?thesis
    using GetNameFromPublic_bytes [OF bc a _ _ out, of "TPMT_PUBLIC_enc x"] x(2) d
      TPMT_PUBLIC_GetName_enc [OF x same_hash_facts(2) [OF a]] by simp
qed

end
