(* ===== verification/PcpQuoteLaws.thy ===== *)
theory PcpQuoteLaws
  imports PcpQuote PcpKdf
begin

unbundle bit_operations_syntax

text \<open>
  A quote is accepted exactly if it is the structure of the TPM, with the right nonce (when one of 20 bytes is
  asked for) and PCR bank, and its digest is that of the selected PCR values of the list.
\<close>

section \<open>The structures\<close>

record tpm_quote =
  q_signer :: ByteVec
  q_extraData :: ByteVec
  q_clockInfo :: ByteVec
  q_firmware :: ByteVec
  q_select :: UINT32 \<comment> \<open>the size of the selection and its three bytes\<close>
  q_digest :: ByteVec

definition quote_ok :: "tpm_quote \<Rightarrow> bool" where
  "quote_ok q \<longleftrightarrow> short (q_signer q) \<and> short (q_extraData q) \<and> length (q_clockInfo q) = 17 \<and>
     length (q_firmware q) = 8 \<and> q_select q AND 0xff000000 = 0x03000000 \<and> short (q_digest q)"

definition quote_bytes :: "UINT16 \<Rightarrow> tpm_quote \<Rightarrow> ByteVec" where
  "quote_bytes alg q = enc32 0xFF544347 @ enc16 0x8018 @ sized (q_signer q) @ sized (q_extraData q) @
     q_clockInfo q @ q_firmware q @ enc32 1 @ enc16 alg @ enc32 (q_select q) @ sized (q_digest q)"

definition quote_mask :: "tpm_quote \<Rightarrow> UINT32" where
  "quote_mask q = ENDIANSWAPUINT32 (push_bit 8 (q_select q) AND 0xffffff00)"

definition nonce_ok :: "ByteVec option \<Rightarrow> UINT32 \<Rightarrow> ByteVec \<Rightarrow> bool" where
  "nonce_ok pbNonce cbNonce extra \<longleftrightarrow> (pbNonce \<noteq> None \<and> cbNonce = 20 \<longrightarrow> extra = take 20 (the pbNonce) \<and> length extra = 20)"

lemma same_bytes_at:
  "has_at mem n xs \<Longrightarrow> length mem < 2 ^ 32 \<Longrightarrow> length xs = k \<Longrightarrow>
   same_bytes (of_nat n) k bs (at_pos mem p) = (if k \<le> length bs then Ok (xs = take k bs) else Undef, at_pos mem p)"
  using has_at_le [of mem n xs] by (simp add: same_bytes_def at_pos_def LOAD_has_at) (simp add: LOAD_def)

lemma short_20:
  assumes "short xs"
  shows "(ucast (of_nat (length xs) :: UINT16) :: UINT32) = 20 \<longleftrightarrow> length xs = 20"
proof -
  have u: "unat (ucast (of_nat (length xs) :: UINT16) :: UINT32) = length xs" using unat_short [OF assms] by simp
  show ?thesis using u by (auto simp: word_unat_eq_iff)
qed

lemma nonce20_at:
  assumes w: "whole cb mem" and h: "has_at mem n (sized xs)" and s: "short xs" and ok: "nonce_ok pbNonce cbNonce xs"
  shows "nonce20 cb pbNonce cbNonce k (at_pos mem n) = k (at_pos mem (n + 2 + length xs))"
proof (cases "pbNonce \<noteq> None \<and> cbNonce = 20")
  case True
  then have x: "xs = take 20 (the pbNonce)" "length xs = 20" using ok unfolding nonce_ok_def by blast+
  have h2: "has_at mem (n + 2) xs" using h by (simp add: sized_def has_at_append)
  have "same_bytes (of_nat (n + 2)) 20 (the pbNonce) (at_pos mem (n + 2 + 20)) = (Ok True, at_pos mem (n + 2 + 20))"
    using same_bytes_at [OF h2 _ x(2), of "the pbNonce"] w x by (simp add: whole_def)
  then show ?thesis using True x(2) short_20 [OF s] unat_short [OF s]
    by (simp add: nonce20_def read2B_at [OF w h s] sbind_def refuse_if_def)
next
  case False
  then show ?thesis by (simp only: nonce20_def if_False skip2B_at [OF w h s])
qed

lemma nonce20_seen:
  assumes f: "nonce20 cb pbNonce cbNonce k (at_pos mem n) = (Ok (Inr x), b)" and w: "whole cb mem" and n: "n \<le> length mem"
  obtains xs where "short xs" and "has_at mem n (sized xs)" and "n + 2 + length xs \<le> length mem"
    and "nonce_ok pbNonce cbNonce xs" and "k (at_pos mem (n + 2 + length xs)) = (Ok (Inr x), b)"
proof (cases "pbNonce \<noteq> None \<and> cbNonce = 20")
  case True
  define K where "K = (\<lambda>(m :: UINT16) p. if ucast m \<noteq> cbNonce then ret (Inl E_INVALIDARG)
      else sbind (same_bytes p (unat m) (the pbNonce)) (\<lambda>same. refuse_if (\<not> same) k))"
  have "read2B_or (ReadBigEndian2B cb True) K (at_pos mem n) = (Ok (Inr x), b)" using f True by (simp add: nonce20_def K_def)
  then obtain xs where xs: "short xs" "has_at mem n (sized xs)" "n + 2 + length xs \<le> length mem"
      "K (of_nat (length xs)) (of_nat (n + 2)) (at_pos mem (n + 2 + length xs)) = (Ok (Inr x), b)"
    by (rule read2B_seen [OF _ w n])
  have l: "length xs = 20" using xs(4) True short_20 [OF xs(1)] by (auto simp: K_def ret_app split: if_splits)
  have h2: "has_at mem (n + 2) xs" using xs(2) by (simp add: sized_def has_at_append)
  have sb: "same_bytes (of_nat (n + 2)) 20 bs (at_pos mem p) =
      (if 20 \<le> length bs then Ok (xs = take 20 bs) else Undef, at_pos mem p)" for bs p
    using same_bytes_at [OF h2 _ l] w by (simp add: whole_def)
  have "xs = take 20 (the pbNonce) \<and> k (at_pos mem (n + 2 + length xs)) = (Ok (Inr x), b)"
    using xs(4) True l short_20 [OF xs(1)] unat_short [OF xs(1)] sb
    by (auto simp: K_def sbind_def refuse_if_def ret_app split: if_splits)
  then show ?thesis using that [OF xs(1-3)] l by (simp add: nonce_ok_def)
next
  case False
  then have "skip_or (SkipBigEndian2B cb) k (at_pos mem n) = (Ok (Inr x), b)" using f by (simp only: nonce20_def if_False)
  then show ?thesis using that False by (elim skip2B_seen [OF _ w n]) (auto simp: nonce_ok_def)
qed

section \<open>Taking the quote apart\<close>

lemma parse_quote20_at:
  assumes w: "whole cb (quote_bytes alg q)" and ok: "quote_ok q" and nc: "nonce_ok pbNonce cbNonce (q_extraData q)"
  defines "p \<equiv> length (quote_bytes alg q) - length (q_digest q)"
  shows "parse_quote20 cb pbNonce cbNonce alg (at_pos (quote_bytes alg q) 0) =
      (Ok (Inr (quote_mask q, of_nat (length (q_digest q)), of_nat p)), at_pos (quote_bytes alg q) (length (quote_bytes alg q)))"
    and "has_at (quote_bytes alg q) p (q_digest q)"
proof -
  let ?mem = "quote_bytes alg q"
  have k: "short (q_signer q)" "short (q_extraData q)" "length (q_clockInfo q) = 17" "length (q_firmware q) = 8"
      "q_select q AND 0xff000000 = 0x03000000" "short (q_digest q)"
    using ok by (simp_all add: quote_ok_def)
  let ?s = "length (q_signer q)" and ?e = "length (q_extraData q)"
  have l: "length ?mem = 47 + ?s + ?e + length (q_digest q)" by (simp add: quote_bytes_def k)
  have "has_at ?mem 0 ?mem" by (rule has_at_all)
  then have h: "has_at ?mem 0 (enc32 0xFF544347)" "has_at ?mem 4 (enc16 0x8018)" "has_at ?mem 6 (sized (q_signer q))"
      "has_at ?mem (8 + ?s) (sized (q_extraData q))" "has_at ?mem (35 + ?s + ?e) (enc32 1)"
      "has_at ?mem (39 + ?s + ?e) (enc16 alg)" "has_at ?mem (41 + ?s + ?e) (enc32 (q_select q))"
      "has_at ?mem (45 + ?s + ?e) (sized (q_digest q))"
    unfolding quote_bytes_def [of alg q] has_at_append by (simp_all add: k ac_simps)
  have p: "p = 45 + ?s + ?e + 2" by (simp add: p_def l)
  then show "has_at ?mem p (q_digest q)" using h(8) by (simp add: sized_def has_at_append)
  have u: "unat (17 :: UINT32) = 17" "unat (8 :: UINT32) = 8" by simp_all
  have r0: "read_or (ReadBigEndian32 cb True) k (at_pos ?mem 0) = k 0xFF544347 (at_pos ?mem 4)" for k
    using read32_at [OF w h(1), of k] l p by (simp add: ac_simps)
  have r1: "read_or (ReadBigEndian16 cb True) k (at_pos ?mem 4) = k 0x8018 (at_pos ?mem 6)" for k
    using read16_at [OF w h(2), of k] l p by (simp add: ac_simps)
  have r2: "skip_or (SkipBigEndian2B cb) k (at_pos ?mem 6) = k (at_pos ?mem (8 + ?s))" for k
    using skip2B_at [OF w h(3) k(1), of k] l p by (simp add: ac_simps)
  have r3: "nonce20 cb pbNonce cbNonce k (at_pos ?mem (8 + ?s)) = k (at_pos ?mem (10 + ?s + ?e))" for k
    using nonce20_at [OF w h(4) k(2) nc, of k] l p by (simp add: ac_simps)
  have r4: "skip_or (SkipBigEndian cb (8 + 1 + 4 + 4)) k (at_pos ?mem (10 + ?s + ?e)) = k (at_pos ?mem (27 + ?s + ?e))" for k
    using skip_on [OF w u(1), of "10 + ?s + ?e" k] l p by (simp add: ac_simps)
  have r5: "skip_or (SkipBigEndian cb 8) k (at_pos ?mem (27 + ?s + ?e)) = k (at_pos ?mem (35 + ?s + ?e))" for k
    using skip_on [OF w u(2), of "27 + ?s + ?e" k] l p by (simp add: ac_simps)
  have r6: "read_or (ReadBigEndian32 cb True) k (at_pos ?mem (35 + ?s + ?e)) = k 1 (at_pos ?mem (39 + ?s + ?e))" for k
    using read32_at [OF w h(5), of k] l p by (simp add: ac_simps)
  have r7: "read_or (ReadBigEndian16 cb True) k (at_pos ?mem (39 + ?s + ?e)) = k alg (at_pos ?mem (41 + ?s + ?e))" for k
    using read16_at [OF w h(6), of k] l p by (simp add: ac_simps)
  have r8: "read_or (ReadBigEndian32 cb True) k (at_pos ?mem (41 + ?s + ?e)) = k (q_select q) (at_pos ?mem (45 + ?s + ?e))" for k
    using read32_at [OF w h(7), of k] l p by (simp add: ac_simps)
  have r9: "read2B_or (ReadBigEndian2B cb True) k (at_pos ?mem (45 + ?s + ?e)) = k (of_nat (length (q_digest q))) (of_nat p) (at_pos ?mem (length ?mem))" for k
    using read2B_at [OF w h(8) k(6), of k] l p by (simp add: ac_simps)
  have c: "cursor (at_pos ?mem (length ?mem)) = cb" using w by (simp add: whole_def at_pos_def cursor_def)
  show "parse_quote20 cb pbNonce cbNonce alg (at_pos ?mem 0) =
      (Ok (Inr (quote_mask q, of_nat (length (q_digest q)), of_nat p)), at_pos ?mem (length ?mem))"
    unfolding parse_quote20_def quote_mask_def
    by (simp only: r0 r1 r2 r3 r4 r5 r6 r7 r8 r9 refuse_if_def c k(5) if_False not_True_eq_False simp_thms ret_app)
qed

lemma has_at_whole:
  assumes "has_at mem 0 xs" and "length mem = length xs"
  shows "mem = xs"
  using assms by (simp add: has_at_def)

lemma end_at_pos:
  "whole cb mem \<Longrightarrow> n \<le> length mem \<Longrightarrow> cb = cursor (at_pos mem n) \<Longrightarrow> length mem = n"
  using at_pos_facts(1) [of cb mem n] by (auto simp: whole_def)

lemma quote_from_parts:
  assumes w: "whole cb mem" and ok: "quote_ok q" "nonce_ok pbNonce cbNonce (q_extraData q)"
    and h: "has_at mem 0 (enc32 0xFF544347)" "has_at mem 4 (enc16 0x8018)" "has_at mem 6 (sized (q_signer q))"
      "has_at mem (8 + length (q_signer q)) (sized (q_extraData q))"
      "has_at mem (10 + length (q_signer q) + length (q_extraData q)) (q_clockInfo q)"
      "has_at mem (27 + length (q_signer q) + length (q_extraData q)) (q_firmware q)"
      "has_at mem (35 + length (q_signer q) + length (q_extraData q)) (enc32 1)"
      "has_at mem (39 + length (q_signer q) + length (q_extraData q)) (enc16 alg)"
      "has_at mem (41 + length (q_signer q) + length (q_extraData q)) (enc32 (q_select q))"
      "has_at mem (45 + length (q_signer q) + length (q_extraData q)) (sized (q_digest q))"
    and e: "cb = cursor (at_pos mem (47 + length (q_signer q) + length (q_extraData q) + length (q_digest q)))"
  shows "mem = quote_bytes alg q \<and> quote_ok q \<and> nonce_ok pbNonce cbNonce (q_extraData q)"
proof -
  have k: "length (q_clockInfo q) = 17" "length (q_firmware q) = 8" using ok(1) by (simp_all add: quote_ok_def)
  have "length mem = 47 + length (q_signer q) + length (q_extraData q) + length (q_digest q)"
    by (rule end_at_pos [OF w _ e]) (use has_at_le [OF h(10)] in simp)
  moreover have "has_at mem 0 (quote_bytes alg q)"
    unfolding quote_bytes_def has_at_append using h k by (simp add: ac_simps)
  ultimately have "mem = quote_bytes alg q" by (intro has_at_whole) (simp_all add: quote_bytes_def k)
  then show ?thesis using ok by simp
qed

lemma parse_quote20_seen:
  assumes f: "parse_quote20 cb pbNonce cbNonce alg (at_pos mem 0) = (Ok (Inr x), b)" and w: "whole cb mem"
  shows "\<exists>q. mem = quote_bytes alg q \<and> quote_ok q \<and> nonce_ok pbNonce cbNonce (q_extraData q)"
  using f unfolding parse_quote20_def
  apply (elim read32_seen [OF _ w])
   apply simp
  apply (simp only: refuse_if_seen not_not, elim conjE)
  apply (erule (1) read16_seen [OF _ w], simp only: refuse_if_seen not_not, elim conjE)
  apply (erule (1) skip2B_seen [OF _ w])
  apply (erule (1) nonce20_seen [OF _ w])
  apply (erule (1) skip_bytes_seen [OF _ w])
  apply (erule (1) skip_bytes_seen [OF _ w])
  apply (erule (1) read32_seen [OF _ w], simp only: refuse_if_seen not_not, elim conjE)
  apply (erule (1) read16_seen [OF _ w], simp only: refuse_if_seen not_not, elim conjE)
  apply (erule (1) read32_seen [OF _ w], simp only: refuse_if_seen not_not, elim conjE)
  apply (erule (1) read2B_seen [OF _ w], simp only: refuse_if_seen not_not, elim conjE)
  subgoal for v t signer extra clock firmware count bank select digest
    by (rule exI [of _ "\<lparr>q_signer = signer, q_extraData = extra, q_clockInfo = clock, q_firmware = firmware,
        q_select = select, q_digest = digest\<rparr>"], rule quote_from_parts [OF w]) (simp_all add: add.assoc quote_ok_def)
  done

section \<open>The selected values\<close>

definition selected_values :: "nat \<Rightarrow> UINT32 \<Rightarrow> ByteVec \<Rightarrow> nat list \<Rightarrow> ByteVec" where
  "selected_values sz pcrMask pcrList ns = concat (map (\<lambda>n. pcr_at sz n pcrList) (filter (pcr_selected pcrMask) ns))"

lemma length_pcr_at: "Suc n * sz \<le> length pcrList \<Longrightarrow> length (pcr_at sz n pcrList) = sz"
  by (simp add: pcr_at_def)

lemma write_selected_values:
  assumes sz: "unat digestSize = sz" and l: "\<And>n. n \<in> set ns \<Longrightarrow> Suc n * sz \<le> length pcrList"
    and m: "mem_ok cb b" and r: "room cb (length ns * sz) b"
  shows "\<exists>b'. write_selected cb pcrList digestSize pcrMask ns b = (Ok S_OK, b') \<and> mem_ok cb b' \<and> be_cursor b' \<noteq> None \<and>
    unat (cursor b') = unat (cursor b) + length (selected_values sz pcrMask pcrList ns) \<and>
    take (unat (cursor b')) (be_mem b') = take (unat (cursor b)) (be_mem b) @ selected_values sz pcrMask pcrList ns"
  using l m r
proof (induction ns arbitrary: b)
  case Nil
  then show ?case by (simp add: selected_values_def ret_app room_unat)
next
  case (Cons n ns)
  show ?case
  proof (cases "pcr_selected pcrMask n")
    case True
    let ?v = "pcr_at sz n pcrList" and ?b = "be_adv digestSize (be_put (pcr_at sz n pcrList) b)"
    have v: "LOAD pcrList (n * unat digestSize) (unat digestSize) = Ok ?v" "length ?v = sz"
      using Cons.prems(1) [of n] sz by (simp_all add: LOAD_def pcr_at_def add.commute)
    have r: "room cb sz b" "room cb (sz + length ns * sz) b" using Cons.prems(3) by (simp_all add: room_unat)
    have c: "unat (cursor ?b) = unat (cursor b) + sz" using unat_cursor_add [OF r(1), of digestSize] sz by simp
    have mo: "mem_ok cb (be_put ?v b)" using mem_ok_put [of cb ?v b] r(1) v(2) Cons.prems(2) by simp
    have mem: "be_mem ?b = overwrite (unat (cursor b)) ?v (be_mem b)" by (simp add: be_adv_def be_put_def)
    have fits: "unat (cursor b) + sz \<le> length (be_mem b)" using room_mem [OF r(1) Cons.prems(2)] .
    have w: "WriteBigEndianBuf cb (Some ?v) digestSize b = (Ok S_OK, ?b)"
      using WriteBigEndianBuf_room [of ?v digestSize cb b] v(2) sz Cons.prems(2) r(1) by simp
    have "room cb (length ns * sz) ?b" using r(2) c by (simp add: room_unat)
    moreover have "mem_ok cb ?b" using mo by (simp add: mem_ok_def be_adv_def)
    ultimately obtain b' where b': "write_selected cb pcrList digestSize pcrMask ns ?b = (Ok S_OK, b')" "mem_ok cb b'" "be_cursor b' \<noteq> None"
        "unat (cursor b') = unat (cursor ?b) + length (selected_values sz pcrMask pcrList ns)"
        "take (unat (cursor b')) (be_mem b') = take (unat (cursor ?b)) (be_mem ?b) @ selected_values sz pcrMask pcrList ns"
      using Cons.IH [of ?b] Cons.prems(1) by auto
    have "take (unat (cursor ?b)) (be_mem ?b) = take (unat (cursor b)) (be_mem b) @ ?v"
      using c mem fits v(2) by (simp add: overwrite_def)
    then show ?thesis
      using b' True w c v by (intro exI [of _ b']) (simp add: sbind_def selected_values_def)
  next
    case False
    have "room cb (length ns * sz) b" using Cons.prems(3) by (simp add: room_unat)
    then show ?thesis using Cons.IH [of b] Cons.prems False by (simp add: selected_values_def)
  qed
qed

text \<open>The hash algorithm that is guessed.\<close>

definition quote_hash :: "Bcrypt \<Rightarrow> nat \<Rightarrow> ByteVec \<Rightarrow> ByteVec" where
  "quote_hash bc n = bc_hash bc (if n = 32 then BCRYPT_SHA256_ALGORITHM else BCRYPT_SHA1_ALGORITHM)"

text \<open>The check, with the values written and the quote's digest loaded.\<close>

lemma check_selected20_run:
  assumes sz: "sz = 20 \<or> sz = 32" and l: "24 * sz \<le> length pcrList" and d: "short d" "has_at quote (unat p) d"
  defines "alg \<equiv> (if length d = 32 then BCRYPT_SHA256_ALGORITHM else BCRYPT_SHA1_ALGORITHM)"
  defines "n \<equiv> ucast (of_nat (length d) :: UINT16) :: UINT32"
  shows "check_selected20 bc quote pcrList (of_nat sz) pcrMask (of_nat (length d)) p =
     (case TpmAttiShaHash bc alg None (selected_values sz pcrMask pcrList [0..<24]) (Some n) of (hr, len, res) \<Rightarrow>
      if FAILED hr then Ok (hr, None)
      else if Some n \<noteq> len then Ok (E_INVALIDARG, None)
      else if 64 < length d then Undef
      else if d \<noteq> take (length d) (overwrite 0 (case res of Some r \<Rightarrow> r | None \<Rightarrow> []) (replicate 64 0)) then Ok (E_INVALIDARG, None)
      else Ok (S_OK, Some pcrMask))"
proof -
  let ?cb = "24 * 64 :: UINT32" and ?b = "\<lparr>be_mem = replicate (24 * 64) 0, be_cursor = Some 0\<rparr>"
  have szw: "unat (of_nat sz :: UINT32) = sz" using sz by auto
  have cb: "unat ?cb = 1536" by simp
  have ns: "Suc n * sz \<le> length pcrList" if "n \<in> set [0..<24]" for n
  proof -
    have "Suc n * sz \<le> 24 * sz" using that by (intro mult_le_mono1) simp
    then show ?thesis using l by (rule order_trans)
  qed
  have mb: "mem_ok ?cb ?b" unfolding mem_ok_def cb by simp
  have rb: "room ?cb (length [0..<24] * sz) ?b" using sz unfolding room_unat cb by (auto simp: cursor_def)
  obtain b' where w: "write_selected ?cb pcrList (of_nat sz) pcrMask [0..<24] ?b = (Ok S_OK, b')"
      "take (unat (cursor b')) (be_mem b') = selected_values sz pcrMask pcrList [0..<24]"
    using write_selected_values [OF szw ns mb rb, of pcrMask] by (auto simp: cursor_def)
  have u: "unat (of_nat (length d) :: UINT16) = length d" by (rule unat_short [OF d(1)])
  have n32: "(of_nat (length d) :: UINT16) = 32 \<longleftrightarrow> length d = 32" using u by (auto simp: word_unat_eq_iff)
  have load: "LOAD quote (unat p) (length d) = Ok d" by (rule LOAD_has_at [OF d(2) refl])
  obtain hr len res where "TpmAttiShaHash bc alg None (selected_values sz pcrMask pcrList [0..<24]) (Some n) = (hr, len, res)"
    using prod_cases3 by blast
  then show ?thesis
    using w u n32 by (auto simp: check_selected20_def load Let_def alg_def n_def)
qed

lemma TpmAttiShaHash_len:
  assumes "bc_ok bc" and "known_hash alg" and "TpmAttiShaHash bc alg None m c = (hr, len, res)"
  shows "len = None \<or> len = Some (hash_size alg)"
proof -
  have "snd (bc_hash_length bc alg False) = hash_size alg" using assms(1,2) unfolding bc_ok_def by blast
  then show ?thesis using assms(3) by (auto simp: TpmAttiShaHash_def Let_def split: if_splits)
qed

lemma check_selected20_iff:
  assumes bc: "bc_ok bc" and sz: "sz = 20 \<or> sz = 32" and l: "24 * sz \<le> length pcrList"
    and d: "short d" "has_at quote p d" and q: "length quote < 2 ^ 32"
  shows "check_selected20 bc quote pcrList (of_nat sz) pcrMask (of_nat (length d)) (of_nat p) = Ok (S_OK, Some m) \<longleftrightarrow>
    m = pcrMask \<and> length d \<in> {20, 32} \<and> d = quote_hash bc (length d) (selected_values sz pcrMask pcrList [0..<24])"
proof -
  let ?n = "length d" and ?v = "selected_values sz pcrMask pcrList [0..<24]"
  let ?alg = "if ?n = 32 then BCRYPT_SHA256_ALGORITHM else BCRYPT_SHA1_ALGORITHM"
  have p: "has_at quote (unat (of_nat p :: UINT32)) d" using d(2) has_at_le [OF d(2)] q by simp
  have u: "unat (ucast (of_nat ?n :: UINT16) :: UINT32) = ?n" using unat_short [OF d(1)] by simp
  obtain hr len res where h: "TpmAttiShaHash bc ?alg None ?v (Some (ucast (of_nat ?n :: UINT16))) = (hr, len, res)"
    using prod_cases3 by blast
  note un = check_selected20_run [OF sz l d(1) p, of bc pcrMask, unfolded h prod.case]
  show ?thesis
  proof (cases "?n = 20 \<or> ?n = 32")
    case True
    have k: "known_hash ?alg" "(ucast (of_nat ?n :: UINT16) :: UINT32) = hash_size ?alg"
      using True by (auto simp: hash_size_def)
    obtain hr' where "TpmAttiShaHash bc ?alg None ?v (Some (hash_size ?alg)) = (hr', Some (hash_size ?alg), Some (bc_hash bc ?alg ?v))"
        "\<not> FAILED hr'" using TpmAttiShaHash_hash [OF bc k(1)] by blast
    then have hr: "\<not> FAILED hr" "len = Some (hash_size ?alg)" "res = Some (bc_hash bc ?alg ?v)" using h k(2) by simp_all
    have lh: "length (bc_hash bc ?alg ?v) = ?n" using length_bc_hash [OF bc k(1)] True by (auto simp: hash_size_def)
    have "take ?n (overwrite 0 (bc_hash bc ?alg ?v) (replicate 64 0)) = bc_hash bc ?alg ?v" by (simp add: overwrite_def lh)
    then show ?thesis using True un hr k(2) by (auto simp: quote_hash_def)
  next
    case False
    have ne: "(ucast (of_nat ?n :: UINT16) :: UINT32) \<noteq> hash_size ?alg"
      using False u by (auto simp: hash_size_def word_unat_eq_iff)
    have "len = None \<or> len = Some (hash_size ?alg)" by (rule TpmAttiShaHash_len [OF bc _ h]) simp
    then have "len \<noteq> Some (ucast (of_nat ?n :: UINT16))" using ne by auto
    then show ?thesis using un False by (auto simp: FAILED_def)
  qed
qed

section \<open>Which quotes are accepted\<close>

definition bank_size :: "UINT16 \<Rightarrow> nat" where
  "bank_size alg = (if alg = TPM_API_ALG_ID_SHA256 then 32 else 20)"

definition quote_covers :: "Bcrypt \<Rightarrow> UINT16 \<Rightarrow> tpm_quote \<Rightarrow> ByteVec \<Rightarrow> bool" where
  "quote_covers bc alg q pcrList \<longleftrightarrow> length (q_digest q) \<in> {20, 32} \<and>
     q_digest q = quote_hash bc (length (q_digest q)) (selected_values (bank_size alg) (quote_mask q) pcrList [0..<24])"

theorem ValidateQuoteContext20_iff:
  assumes bc: "bc_ok bc" and w: "whole cbQuote quote" and ne: "quote \<noteq> []"
    and l: "24 * bank_size alg \<le> length pcrList" and cb: "cbPcrList = of_nat (24 * bank_size alg)"
  shows "ValidateQuoteContext20 bc (Some quote) cbQuote (Some pcrList) cbPcrList pbNonce cbNonce alg = Ok (S_OK, Some m) \<longleftrightarrow>
    (\<exists>q. quote = quote_bytes alg q \<and> quote_ok q \<and> nonce_ok pbNonce cbNonce (q_extraData q) \<and> m = quote_mask q \<and>
      quote_covers bc alg q pcrList)"
proof -
  let ?sz = "bank_size alg"
  let ?p = "parse_quote20 cbQuote pbNonce cbNonce alg \<lparr>be_mem = quote, be_cursor = Some 0\<rparr>"
  have s: "?sz = 20 \<or> ?sz = 32" by (simp add: bank_size_def)
  have "unat cbQuote = length quote" using w by (simp add: whole_def)
  then have c0: "cbQuote \<noteq> 0" using ne by auto
  have z: "\<lparr>be_mem = quote, be_cursor = Some 0\<rparr> = at_pos quote 0" by (simp add: at_pos_def)
  have v: "ValidateQuoteContext20 bc (Some quote) cbQuote (Some pcrList) cbPcrList pbNonce cbNonce alg =
      (case ?p of (r, _) \<Rightarrow> obind r (\<lambda>p. case p of Inl hr \<Rightarrow> Ok (hr, None)
        | Inr (m, n, p) \<Rightarrow> check_selected20 bc quote pcrList (of_nat ?sz) m n p))"
    using c0 by (simp add: ValidateQuoteContext20_def cb bank_size_def Let_def)
  have q: "ValidateQuoteContext20 bc (Some quote) cbQuote (Some pcrList) cbPcrList pbNonce cbNonce alg = Ok (S_OK, Some m) \<longleftrightarrow>
      m = quote_mask q \<and> quote_covers bc alg q pcrList"
    if "quote = quote_bytes alg q" "quote_ok q" "nonce_ok pbNonce cbNonce (q_extraData q)" for q
  proof -
    note a = parse_quote20_at [OF w [unfolded that(1)] that(2,3), folded that(1)]
    have "short (q_digest q)" "length quote < 2 ^ 32" using that(2) w by (simp_all add: quote_ok_def whole_def)
    then show ?thesis
      using check_selected20_iff [OF bc s l _ a(2), of "quote_mask q" m] unfolding v z a(1) by (auto simp: quote_covers_def)
  qed
  show ?thesis
  proof
    assume ok: "ValidateQuoteContext20 bc (Some quote) cbQuote (Some pcrList) cbPcrList pbNonce cbNonce alg = Ok (S_OK, Some m)"
    obtain r b where p: "?p = (r, b)" by (cases ?p)
    then obtain x where "r = Ok x" "\<not> isl x" using ok unfolding v by (cases r) (auto split: sum.splits)
    then obtain x b where "?p = (Ok (Inr x), b)" using p by (metis sum.collapse(2))
    then obtain q' where "quote = quote_bytes alg q'" "quote_ok q'" "nonce_ok pbNonce cbNonce (q_extraData q')"
      using parse_quote20_seen [OF _ w] unfolding z by blast
    then show "\<exists>q. quote = quote_bytes alg q \<and> quote_ok q \<and> nonce_ok pbNonce cbNonce (q_extraData q) \<and> m = quote_mask q \<and>
        quote_covers bc alg q pcrList" using q ok by blast
  qed (use q in blast)
qed

text \<open>A result that is no failure has the mask.\<close>

lemma fails_well_nonce20: "fails_well k \<Longrightarrow> fails_well (nonce20 cb pbNonce cbNonce k)"
  unfolding nonce20_def by (intro fails_well_rules)

lemma fails_well_quote20: "fails_well (parse_quote20 cb pbNonce cbNonce alg)"
  unfolding parse_quote20_def
  by (intro fails_well_rules fails_well_nonce20)

lemma check_selected20_code:
  "check_selected20 bc quote pcrList sz m n p = Ok (hr, x) \<Longrightarrow> FAILED hr \<or> hr = S_OK \<and> x = Some m"
  by (auto simp: check_selected20_def Let_def obind_eq_Ok split: prod.splits if_splits)

lemma ValidateQuoteContext20_code:
  assumes v: "ValidateQuoteContext20 bc pbQuote cbQuote pbPcrList cbPcrs nc cbNonce alg = Ok (hr, x)" and hr: "\<not> FAILED hr"
  obtains m where "hr = S_OK" and "x = Some m"
proof -
  obtain quote pcrList where p: "pbQuote = Some quote" "pbPcrList = Some pcrList"
    using v hr by (cases pbQuote; cases pbPcrList) (auto simp: ValidateQuoteContext20_def)
  obtain r b where r: "parse_quote20 cbQuote nc cbNonce alg \<lparr>be_mem = quote, be_cursor = Some 0\<rparr> = (r, b)" by fastforce
  have "obind r (\<lambda>p. case p of Inl hr \<Rightarrow> Ok (hr, None)
      | Inr (m, n, p) \<Rightarrow> check_selected20 bc quote pcrList (if alg = 0x000B then 32 else 20) m n p) = Ok (hr, x)"
    using v hr r by (auto simp: p ValidateQuoteContext20_def Let_def split: if_splits)
  then obtain y where y: "r = Ok y" "(case y of Inl hr \<Rightarrow> Ok (hr, None)
      | Inr (m, n, p) \<Rightarrow> check_selected20 bc quote pcrList (if alg = 0x000B then 32 else 20) m n p) = Ok (hr, x)"
    by (auto simp: obind_eq_Ok)
  show ?thesis
  proof (cases y)
    case (Inl e)
    then have "FAILED e" using fails_well_quote20 r y(1) unfolding fails_well_def by blast
    then show ?thesis using y(2) Inl hr by simp
  next
    case (Inr z)
    obtain m n p where "z = (m, n, p)" by (cases z)
    then show ?thesis using y(2) Inr check_selected20_code hr that by fastforce
  qed
qed

text \<open>The bytes of the selection, in the order of the quote, are the bits of the mask.\<close>

lemma pcr_selected_bit: "n < 32 \<Longrightarrow> pcr_selected m n \<longleftrightarrow> bit m n"
  using mask_bit [of n m] by (simp add: pcr_selected_def and.commute)

lemma enc32_nth:
  "enc32 v ! Suc 0 = ucast (drop_bit 16 v)" "enc32 v ! 2 = ucast (drop_bit 8 v)" "enc32 v ! 3 = ucast v"
  by (simp_all add: enc32_le_bytes le_bytes_4 numeral_2_eq_2 numeral_3_eq_3)

lemma quote_mask_bit:
  assumes "n < 24"
  shows "pcr_selected (quote_mask q) n \<longleftrightarrow> bit (enc32 (q_select q) ! (1 + n div 8)) (n mod 8)"
proof -
  have swap: "bit (ENDIANSWAPUINT32 x) n \<longleftrightarrow> bit x (if n < 8 then n + 24 else if n < 16 then n + 8 else n - 8)" for x
    unfolding ENDIANSWAPUINT32_def be_masks using assms by (auto simp: bit_simps add.commute)
  have c: "(0xffffff00 :: UINT32) = NOT (mask 8)" by (simp add: mask_eq_exp_minus_1 not_eq_complement)
  consider "n < 8" | "8 \<le> n" "n < 16" | "16 \<le> n" "n < 24" using assms by linarith
  then show ?thesis
  proof cases
    case 1
    then show ?thesis
      by (simp add: pcr_selected_bit quote_mask_def swap c enc32_nth bit_simps add.commute)
  next
    case 2
    then have "1 + n div 8 = 2" "n mod 8 = n - 8" "n - 8 < 8" by (simp_all add: div_nat_eqI le_mod_geq)
    then show ?thesis using 2
      by (simp only: pcr_selected_bit enc32_nth) (simp add: pcr_selected_bit quote_mask_def swap c bit_simps add.commute)
  next
    case 3
    then have "1 + n div 8 = 3" "n mod 8 = n - 16" "n - 16 < 8" "8 \<le> n - 8" "n - 8 < 32"
      by (simp_all add: div_nat_eqI le_mod_geq)
    then show ?thesis using 3
      by (simp only: pcr_selected_bit enc32_nth) (simp add: pcr_selected_bit quote_mask_def swap c bit_simps)
  qed
qed

end
