(* ===== verification/PcpQuote12Laws.thy ===== *)
theory PcpQuote12Laws
  imports PcpQuoteLaws
begin

unbundle bit_operations_syntax

text \<open>
  The quote of a TPM 1.2: accepted exactly if it is the structure of the specification with the right nonce,
  and its digest is that of the composite of the selection and the selected PCR values.
\<close>

section \<open>The structure\<close>

record tpm12_quote =
  r_externalData :: ByteVec
  r_select :: ByteVec
  r_locality :: ByteVec
  r_digest :: ByteVec
  r_version :: ByteVec \<comment> \<open>tag, version, level, errata, vendor id\<close>
  r_vendor :: ByteVec

definition quote12_ok :: "tpm12_quote \<Rightarrow> bool" where
  "quote12_ok r \<longleftrightarrow> length (r_externalData r) = 20 \<and> length (r_select r) = 3 \<and> length (r_locality r) = 1 \<and>
     length (r_digest r) = 20 \<and> length (r_version r) = 13 \<and> short (r_vendor r)"

definition quote12_bytes :: "tpm12_quote \<Rightarrow> ByteVec" where
  "quote12_bytes r = enc16 0x0036 @ enc32 0x51555432 @ r_externalData r @ enc16 3 @ r_select r @ r_locality r @
     r_digest r @ r_version r @ sized (r_vendor r)"

definition nonce12_ok :: "ByteVec option \<Rightarrow> UINT32 \<Rightarrow> ByteVec \<Rightarrow> bool" where
  "nonce12_ok pbNonce cbNonce extra \<longleftrightarrow> (pbNonce \<noteq> None \<and> cbNonce = 20 \<longrightarrow> extra = take 20 (the pbNonce))"

definition quote12_mask :: "ByteVec \<Rightarrow> UINT32" where
  "quote12_mask sel = foldl (OR) 0 (map (\<lambda>n. push_bit (8 * n) (ucast (sel ! n))) [0..<3])"

section \<open>Taking it apart\<close>

lemma nonce12_at:
  assumes w: "whole cb mem" and h: "has_at mem n xs" "length xs = 20" and ok: "nonce12_ok pbNonce cbNonce xs"
  shows "nonce12 cb pbNonce cbNonce k (at_pos mem n) = k (at_pos mem (n + 20))"
proof -
  have n: "n \<le> length mem" "n + 20 \<le> length mem" using has_at_le [OF h(1)] h(2) by simp_all
  have "same_bytes (of_nat n) 20 bs (at_pos mem p) =
      (if 20 \<le> length bs then Ok (xs = take 20 bs) else Undef, at_pos mem p)" for bs p
    using same_bytes_at [OF h(1) _ h(2)] w by (simp add: whole_def)
  then show ?thesis
    using ok n h(2) by (auto simp: nonce12_def nonce12_ok_def readbuf_at [OF w n(1)] skip_at [OF w n(1)] sbind_def refuse_if_def)
qed

lemma nonce12_seen:
  assumes f: "nonce12 cb pbNonce cbNonce k (at_pos mem n) = (Ok (Inr x), b)" and w: "whole cb mem" and n: "n \<le> length mem"
  obtains xs where "length xs = 20" and "has_at mem n xs" and "n + 20 \<le> length mem"
    and "nonce12_ok pbNonce cbNonce xs" and "k (at_pos mem (n + 20)) = (Ok (Inr x), b)"
proof -
  have r: "n + 20 \<le> length mem"
    using f by (auto simp: nonce12_def readbuf_at [OF w n] skip_at [OF w n] split: if_splits)
  then obtain xs where xs: "length xs = 20" "has_at mem n xs" using some_bytes by blast
  have "same_bytes (of_nat n) 20 bs (at_pos mem p) =
      (if 20 \<le> length bs then Ok (xs = take 20 bs) else Undef, at_pos mem p)" for bs p
    using same_bytes_at [OF xs(2) _ xs(1)] w by (simp add: whole_def)
  then have "nonce12_ok pbNonce cbNonce xs \<and> k (at_pos mem (n + 20)) = (Ok (Inr x), b)"
    using f r by (auto simp: nonce12_def nonce12_ok_def readbuf_at [OF w n] skip_at [OF w n] sbind_def refuse_if_def ret_app
        split: if_splits)
  then show ?thesis using that [OF xs r] by blast
qed

definition skip_vendor :: "UINT32 \<Rightarrow> UINT16 \<Rightarrow> 'a parse \<Rightarrow> 'a parse" where
  "skip_vendor cb v k = (if v \<noteq> 0 then skip_or (SkipBigEndian cb (ucast v)) else id) k"

lemma skip_vendor_at:
  assumes "whole cb mem" and "n + length xs \<le> length mem" and "short xs"
  shows "skip_vendor cb (of_nat (length xs)) k (at_pos mem n) = k (at_pos mem (n + length xs))"
proof (cases "xs = []")
  case False
  then have nz: "(of_nat (length xs) :: UINT16) \<noteq> 0" using unat_short [OF assms(3)] by auto
  have "unat (ucast (of_nat (length xs) :: UINT16) :: UINT32) = length xs" using unat_short [OF assms(3)] by simp
  then show ?thesis using nz skip_on [OF assms(1) _ assms(2), of _ k] by (simp only: skip_vendor_def if_True not_False_eq_True)
qed (simp add: skip_vendor_def)

lemma skip_vendor_seen:
  assumes f: "skip_vendor cb v k (at_pos mem n) = (Ok (Inr x), b)" and w: "whole cb mem" and n: "n \<le> length mem"
  obtains xs where "v = of_nat (length xs)" and "short xs" and "has_at mem n xs" and "n + length xs \<le> length mem"
    and "k (at_pos mem (n + length xs)) = (Ok (Inr x), b)"
proof -
  have s: "n + unat v \<le> length mem \<and> k (at_pos mem (n + unat v)) = (Ok (Inr x), b)"
    using f n by (auto simp: skip_vendor_def skip_at [OF w] split: if_splits)
  then obtain xs where xs: "length xs = unat v" "has_at mem n xs" using some_bytes by blast
  have "unat v < 65536" using unsigned_less [of v] by simp
  then show ?thesis using that [of xs] xs s by (simp add: short_def)
qed

text \<open>The parse, as a chain of the steps above.\<close>

lemma parse_quote12_chain:
  "parse_quote12 cb pbNonce cbNonce =
     read_or (ReadBigEndian16 cb True) (\<lambda>attestTag. refuse_if (attestTag \<noteq> 0x0036) (
     read_or (ReadBigEndian32 cb True) (\<lambda>fixed. refuse_if (fixed \<noteq> 0x51555432) (
     nonce12 cb pbNonce cbNonce (
     read_or (ReadBigEndian16 cb True) (\<lambda>sizeOfSelect. refuse_if (sizeOfSelect \<noteq> 3) (
     read_or (ReadBigEndianBuf cb True 3) (\<lambda>pPcrMaskQuote.
     skip_or (SkipBigEndian cb 1) (
     read_or (ReadBigEndianBuf cb True 20) (\<lambda>pbPcrDigest.
     skip_or (SkipBigEndian cb 13) (
     read_or (ReadBigEndian16 cb True) (\<lambda>cbVendorSpecific.
     skip_vendor cb cbVendorSpecific (\<lambda>b.
       refuse_if (cb \<noteq> cursor b) (ret (Inr (pPcrMaskQuote, pbPcrDigest))) b)))))))))))))"
  by (simp add: parse_quote12_def skip_vendor_def)

lemma quote12_parts:
  assumes "quote12_ok r"
  shows "has_at (quote12_bytes r) 0 (enc16 0x0036)" "has_at (quote12_bytes r) 2 (enc32 0x51555432)"
    "has_at (quote12_bytes r) 6 (r_externalData r)" "has_at (quote12_bytes r) 26 (enc16 3)"
    "has_at (quote12_bytes r) 28 (r_select r)" "has_at (quote12_bytes r) 32 (r_digest r)"
    "has_at (quote12_bytes r) 65 (enc16 (of_nat (length (r_vendor r))))" "has_at (quote12_bytes r) 67 (r_vendor r)"
    "length (quote12_bytes r) = 67 + length (r_vendor r)"
proof -
  have "has_at (quote12_bytes r) 0 (quote12_bytes r)" by (rule has_at_all)
  then show "has_at (quote12_bytes r) 0 (enc16 0x0036)" "has_at (quote12_bytes r) 2 (enc32 0x51555432)"
    "has_at (quote12_bytes r) 6 (r_externalData r)" "has_at (quote12_bytes r) 26 (enc16 3)"
    "has_at (quote12_bytes r) 28 (r_select r)" "has_at (quote12_bytes r) 32 (r_digest r)"
    "has_at (quote12_bytes r) 65 (enc16 (of_nat (length (r_vendor r))))" "has_at (quote12_bytes r) 67 (r_vendor r)"
    using assms unfolding quote12_bytes_def [of r] sized_def has_at_append by (simp_all add: quote12_ok_def numeral_2_eq_2)
  show "length (quote12_bytes r) = 67 + length (r_vendor r)" using assms by (simp add: quote12_bytes_def quote12_ok_def)
qed

lemma parse_quote12_at:
  assumes w: "whole cb (quote12_bytes r)" and ok: "quote12_ok r" and nc: "nonce12_ok pbNonce cbNonce (r_externalData r)"
  shows "parse_quote12 cb pbNonce cbNonce (at_pos (quote12_bytes r) 0) =
      (Ok (Inr (28, 32)), at_pos (quote12_bytes r) (length (quote12_bytes r)))"
proof -
  let ?mem = "quote12_bytes r"
  note h = quote12_parts [OF ok]
  have k: "length (r_externalData r) = 20" "short (r_vendor r)" using ok by (simp_all add: quote12_ok_def)
  have u: "unat (1 :: UINT32) = 1" "unat (13 :: UINT32) = 13" by simp_all
  have b3: "read_or (ReadBigEndianBuf cb True 3) k' (at_pos ?mem 28) = k' 28 (at_pos ?mem 31)" for k'
    using readbuf_at [OF w, of 28 3 k'] h(9) by simp
  have b20: "read_or (ReadBigEndianBuf cb True 20) k' (at_pos ?mem 32) = k' 32 (at_pos ?mem 52)" for k'
    using readbuf_at [OF w, of 32 20 k'] h(9) by simp
  have c: "cursor (at_pos ?mem (67 + length (r_vendor r))) = cb" using w h(9) by (simp add: whole_def at_pos_def cursor_def)
  have r0: "read_or (ReadBigEndian16 cb True) k (at_pos ?mem 0) = k 0x36 (at_pos ?mem 2)" for k
    using read16_at [OF w h(1), of k] by (simp only: add_0)
  have r1: "read_or (ReadBigEndian32 cb True) k (at_pos ?mem 2) = k 0x51555432 (at_pos ?mem 6)" for k
    using read32_at [OF w h(2), of k] by simp
  have r2: "nonce12 cb pbNonce cbNonce k (at_pos ?mem 6) = k (at_pos ?mem 26)" for k
    using nonce12_at [OF w h(3) k(1) nc, of k] by simp
  have r3: "read_or (ReadBigEndian16 cb True) k (at_pos ?mem 26) = k 3 (at_pos ?mem 28)" for k
    using read16_at [OF w h(4), of k] by simp
  have r4: "skip_or (SkipBigEndian cb 1) k (at_pos ?mem 31) = k (at_pos ?mem 32)" for k
    using skip_on [OF w u(1), of 31] h(9) by simp
  have r5: "skip_or (SkipBigEndian cb 13) k (at_pos ?mem 52) = k (at_pos ?mem 65)" for k
    using skip_on [OF w u(2), of 52] h(9) by simp
  have r6: "read_or (ReadBigEndian16 cb True) k (at_pos ?mem 65) = k (of_nat (length (r_vendor r))) (at_pos ?mem 67)" for k
    using read16_at [OF w h(7), of k] by simp
  have r7: "skip_vendor cb (of_nat (length (r_vendor r))) k (at_pos ?mem 67) = k (at_pos ?mem (67 + length (r_vendor r)))" for k
    using skip_vendor_at [OF w _ k(2), of 67] h(9) by simp
  show ?thesis
    unfolding parse_quote12_chain h(9)
    by (simp only: r0 r1 r2 r3 b3 r4 b20 r5 r6 r7 c refuse_if_def if_False simp_thms ret_app)
qed

lemma quote12_from_parts:
  assumes w: "whole cb mem" and ok: "quote12_ok r" "nonce12_ok pbNonce cbNonce (r_externalData r)"
    and h: "has_at mem 0 (enc16 0x0036)" "has_at mem 2 (enc32 0x51555432)" "has_at mem 6 (r_externalData r)"
      "has_at mem 26 (enc16 3)" "has_at mem 28 (r_select r)" "has_at mem 31 (r_locality r)" "has_at mem 32 (r_digest r)"
      "has_at mem 52 (r_version r)" "has_at mem 65 (enc16 (of_nat (length (r_vendor r))))" "has_at mem 67 (r_vendor r)"
    and e: "cb = cursor (at_pos mem (67 + length (r_vendor r)))"
  shows "mem = quote12_bytes r \<and> quote12_ok r \<and> nonce12_ok pbNonce cbNonce (r_externalData r)"
proof -
  have "length mem = 67 + length (r_vendor r)"
    by (rule end_at_pos [OF w _ e]) (use has_at_le [OF h(10)] in simp)
  moreover have "has_at mem 0 (quote12_bytes r)"
    unfolding quote12_bytes_def sized_def has_at_append using h ok(1) by (simp add: quote12_ok_def numeral_2_eq_2)
  ultimately have "mem = quote12_bytes r" using quote12_parts(9) [OF ok(1)] by (intro has_at_whole) simp_all
  then show ?thesis using ok by simp
qed

lemma parse_quote12_seen:
  assumes f: "parse_quote12 cb pbNonce cbNonce (at_pos mem 0) = (Ok (Inr x), b)" and w: "whole cb mem"
  shows "\<exists>r. mem = quote12_bytes r \<and> quote12_ok r \<and> nonce12_ok pbNonce cbNonce (r_externalData r)"
  using f unfolding parse_quote12_chain
  apply (elim read16_seen [OF _ w])
   apply simp
  apply (simp only: refuse_if_seen not_not, elim conjE)
  apply (erule (1) read32_seen [OF _ w], simp only: refuse_if_seen not_not, elim conjE)
  apply (erule (1) nonce12_seen [OF _ w])
  apply (erule (1) read16_seen [OF _ w], simp only: refuse_if_seen not_not, elim conjE)
  apply (erule (1) readbuf_seen [OF _ w])
  apply (erule (1) skip_bytes_seen [OF _ w])
  apply (erule (1) readbuf_seen [OF _ w])
  apply (erule (1) skip_bytes_seen [OF _ w])
  apply (erule (1) read16_seen [OF _ w])
  apply (erule (1) skip_vendor_seen [OF _ w], simp only: refuse_if_seen not_not, elim conjE)
  subgoal for tag fixed ext n sel loc digest ver v vendor
    by (rule exI [of _ "\<lparr>r_externalData = ext, r_select = sel, r_locality = loc, r_digest = digest,
        r_version = ver, r_vendor = vendor\<rparr>"], rule quote12_from_parts [OF w]) (simp_all add: quote12_ok_def numeral_2_eq_2 [symmetric])
  done

section \<open>The composite\<close>

definition composite :: "ByteVec \<Rightarrow> ByteVec \<Rightarrow> ByteVec" where
  "composite sel pcrList =
     (let vals = selected_values 20 (quote12_mask sel) pcrList [0..<24] in
      enc16 3 @ sel @ enc32 (of_nat (length vals)) @ vals)"

lemma take_overwrite_front:
  "p + length v \<le> n \<Longrightarrow> n \<le> length m \<Longrightarrow> take n (overwrite p v m) = overwrite p v (take n m)"
  by (simp add: overwrite_def take_drop)

lemma length_selected_values:
  assumes "\<And>n. n \<in> set ns \<Longrightarrow> Suc n * sz \<le> length pcrList"
  shows "length (selected_values sz m pcrList ns) \<le> length ns * sz"
  using assms
proof (induction ns)
  case (Cons n ns)
  then have "length (pcr_at sz n pcrList) = sz" using length_pcr_at [of n sz pcrList] by simp
  then show ?case using Cons by (auto simp: selected_values_def)
qed (simp add: selected_values_def)

lemma write_composite_bytes:
  assumes sel: "length sel = 3" and l: "480 \<le> length pcrList"
  shows "\<exists>b. write_composite pcrList sel (quote12_mask sel) \<lparr>be_mem = replicate (2 + 1 * 3 + 4 + 24 * 20) 0, be_cursor = Some 0\<rparr> =
      (Ok S_OK, b) \<and> take (unat (cursor b)) (be_mem b) = composite sel pcrList"
proof -
  let ?cb = "2 + 1 * 3 + 4 + 24 * 20 :: UINT32" and ?m = "quote12_mask sel"
  let ?vals = "selected_values 20 ?m pcrList [0..<24]"
  define b0 where "b0 = \<lparr>be_mem = replicate (2 + 1 * 3 + 4 + 24 * 20) (0 :: byte), be_cursor = Some (0 :: UINT32)\<rparr>"
  define b1 where "b1 = be_adv 2 (be_put (enc16 3) b0)"
  define b2 where "b2 = be_adv 3 (be_put sel b1)"
  define b3 where "b3 = be_adv 4 (be_put (enc32 (24 * 20)) b2)"
  have cb: "unat ?cb = 489" by simp
  have c: "cursor b0 = 0" "cursor b1 = 2" "cursor b2 = 5" "cursor b3 = 9"
    by (simp_all add: b0_def b1_def b2_def b3_def cursor_def be_adv_def be_put_def)
  have n: "be_cursor b0 \<noteq> None" "be_cursor b1 \<noteq> None" "be_cursor b2 \<noteq> None" "be_cursor b3 \<noteq> None"
    by (simp_all add: b0_def b1_def b2_def b3_def be_adv_def)
  have m0: "length (be_mem b0) = 489" by (simp add: b0_def)
  have m1: "be_mem b1 = overwrite 0 (enc16 3) (be_mem b0)" by (simp add: b1_def be_adv_def be_put_def c)
  then have l1: "length (be_mem b1) = 489" using m0 by simp
  have m2: "be_mem b2 = overwrite 2 sel (be_mem b1)" by (simp add: b2_def be_adv_def be_put_def c)
  then have l2: "length (be_mem b2) = 489" using l1 sel by simp
  have m3: "be_mem b3 = overwrite 5 (enc32 (24 * 20)) (be_mem b2)" by (simp add: b3_def be_adv_def be_put_def c)
  then have l3: "length (be_mem b3) = 489" using l2 by simp
  have ok: "mem_ok ?cb b0" "mem_ok ?cb b1" "mem_ok ?cb b2" "mem_ok ?cb b3"
    unfolding mem_ok_def cb using m0 l1 l2 l3 by simp_all
  have rm: "room ?cb k b0 \<longleftrightarrow> k \<le> 489" "room ?cb k b1 \<longleftrightarrow> 2 + k \<le> 489" "room ?cb k b2 \<longleftrightarrow> 5 + k \<le> 489"
    "room ?cb k b3 \<longleftrightarrow> 9 + k \<le> 489" for k
    unfolding room_unat cb c using n by simp_all
  have w1: "WriteBigEndian16 ?cb 3 b0 = (Ok S_OK, b1)"
    unfolding b1_def using WriteBigEndian16_room [of ?cb b0 3] ok(1) rm(1) [of 2] by simp
  have w2: "WriteBigEndianBuf ?cb (Some sel) 3 b1 = (Ok S_OK, b2)"
    using WriteBigEndianBuf_room [of sel 3 ?cb b1] sel ok(2) rm(2) [of 3] by (simp only: b2_def) simp
  have w3: "WriteBigEndian32 ?cb (24 * 20) b2 = (Ok S_OK, b3)"
    unfolding b3_def using WriteBigEndian32_room [of ?cb b2 "24 * 20"] ok(3) rm(3) [of 4] by simp
  have ns: "Suc n * 20 \<le> length pcrList" if "n \<in> set [0..<24]" for n using that l by simp
  have "room ?cb (length [0..<24] * 20) b3" unfolding rm by simp
  then obtain b4 where w4: "write_selected ?cb pcrList 20 ?m [0..<24] b3 = (Ok S_OK, b4)" "mem_ok ?cb b4" "be_cursor b4 \<noteq> None"
      "unat (cursor b4) = 9 + length ?vals" "take (unat (cursor b4)) (be_mem b4) = take 9 (be_mem b3) @ ?vals"
    using write_selected_values [of 20 20 "[0..<24]" pcrList ?cb b3 ?m] ns ok(4) c(4) by auto
  let ?c = "b4\<lparr>be_cursor := Some 5\<rparr>" and ?v = "cursor b4 - 9"
  have lv: "length ?vals \<le> 480" using length_selected_values [of "[0..<24]" 20 pcrList ?m] ns by simp
  have "9 \<le> cursor b4" using w4(4) by (simp add: word_le_nat_alt)
  then have "unat ?v = length ?vals" using w4(4) by (simp add: unat_sub)
  then have v: "?v = of_nat (length ?vals)" by (metis of_nat_unat_32)
  have r5: "room ?cb 4 ?c" "mem_ok ?cb ?c" unfolding room_unat cb using w4(2) by (simp_all add: cursor_def mem_ok_def)
  have w5: "WriteBigEndian32 ?cb ?v ?c = (Ok S_OK, be_adv 4 (be_put (enc32 ?v) ?c))"
    by (rule WriteBigEndian32_room [OF r5])
  let ?b = "b4\<lparr>be_mem := overwrite 5 (enc32 ?v) (be_mem b4)\<rparr>"
  have fin: "(be_adv 4 (be_put (enc32 ?v) ?c))\<lparr>be_cursor := be_cursor b4\<rparr> = ?b"
    by (simp add: be_adv_def be_put_def cursor_def)
  have run: "write_composite pcrList sel ?m b0 = (Ok S_OK, ?b)"
    using fin w1 w2 w3 w4(1) w5 by (simp add: write_composite_def Let_def check_failed_def write_at_def sbind_def c)
  have t9: "take 9 (be_mem b3) = enc16 3 @ sel @ enc32 (24 * 20)"
    using m3 m2 m1 m0 l1 l2 sel by (simp add: overwrite_def)
  have "unat (cursor b4) \<le> length (be_mem b4)"
    using w4(2,4) lv cb by (simp add: mem_ok_def)
  then have "take (unat (cursor b4)) (overwrite 5 (enc32 ?v) (be_mem b4)) =
      overwrite 5 (enc32 ?v) (take (unat (cursor b4)) (be_mem b4))"
    using w4(4) by (intro take_overwrite_front) simp_all
  also have "\<dots> = enc16 3 @ sel @ enc32 ?v @ ?vals"
    using sel by (simp add: w4(5) t9 overwrite_def)
  finally have "take (unat (cursor ?b)) (be_mem ?b) = composite sel pcrList"
    unfolding composite_def Let_def v [symmetric] by simp
  then show ?thesis using run unfolding b0_def by blast
qed

section \<open>Which quotes are accepted\<close>

theorem ValidateQuoteContext12_iff:
  assumes bc: "bc_ok bc" and w: "whole cbQuote quote" and ne: "quote \<noteq> []" and l: "480 \<le> length pcrList"
  shows "ValidateQuoteContext12 bc (Some quote) cbQuote (Some pcrList) 480 pbNonce cbNonce = Ok (S_OK, Some m) \<longleftrightarrow>
    (\<exists>r. quote = quote12_bytes r \<and> quote12_ok r \<and> nonce12_ok pbNonce cbNonce (r_externalData r) \<and>
      m = quote12_mask (r_select r) \<and> r_digest r = bc_hash bc BCRYPT_SHA1_ALGORITHM (composite (r_select r) pcrList))"
proof -
  let ?p = "parse_quote12 cbQuote pbNonce cbNonce \<lparr>be_mem = quote, be_cursor = Some 0\<rparr>"
  have "unat cbQuote = length quote" using w by (simp add: whole_def)
  then have c0: "cbQuote \<noteq> 0" using ne by auto
  have z: "\<lparr>be_mem = quote, be_cursor = Some 0\<rparr> = at_pos quote 0" by (simp add: at_pos_def)
  have v: "ValidateQuoteContext12 bc (Some quote) cbQuote (Some pcrList) 480 pbNonce cbNonce =
      (case ?p of (r, _) \<Rightarrow> obind r (\<lambda>p. case p of Inl hr \<Rightarrow> Ok (hr, None)
        | Inr (s, d) \<Rightarrow> check_composite12 bc quote pcrList s d))"
    using c0 by (simp add: ValidateQuoteContext12_def)
  have q: "ValidateQuoteContext12 bc (Some quote) cbQuote (Some pcrList) 480 pbNonce cbNonce = Ok (S_OK, Some m) \<longleftrightarrow>
      m = quote12_mask (r_select r) \<and> r_digest r = bc_hash bc BCRYPT_SHA1_ALGORITHM (composite (r_select r) pcrList)"
    if q: "quote = quote12_bytes r" "quote12_ok r" "nonce12_ok pbNonce cbNonce (r_externalData r)" for r
  proof -
    note a = parse_quote12_at [OF w [unfolded q(1)] q(2,3), folded q(1)] and h = quote12_parts [OF q(2), folded q(1)]
    have s: "length (r_select r) = 3" "length (r_digest r) = 20" using q(2) by (simp_all add: quote12_ok_def)
    have ld: "LOAD quote 28 3 = Ok (r_select r)" "LOAD quote 32 20 = Ok (r_digest r)"
      using LOAD_has_at [OF h(5) s(1)] LOAD_has_at [OF h(6) s(2)] .
    obtain b where b: "write_composite pcrList (r_select r) (quote12_mask (r_select r))
        \<lparr>be_mem = replicate (2 + 1 * 3 + 4 + 24 * 20) 0, be_cursor = Some 0\<rparr> = (Ok S_OK, b)"
        "take (unat (cursor b)) (be_mem b) = composite (r_select r) pcrList"
      using write_composite_bytes [OF s(1) l] by blast
    let ?d = "bc_hash bc BCRYPT_SHA1_ALGORITHM (composite (r_select r) pcrList)"
    obtain hr where hr: "TpmAttiShaHash bc BCRYPT_SHA1_ALGORITHM None (composite (r_select r) pcrList)
        (Some (hash_size BCRYPT_SHA1_ALGORITHM)) = (hr, Some (hash_size BCRYPT_SHA1_ALGORITHM), Some ?d)" "\<not> FAILED hr"
      using TpmAttiShaHash_hash [OF bc, of BCRYPT_SHA1_ALGORITHM] by blast
    have hs: "hash_size BCRYPT_SHA1_ALGORITHM = 20" by (simp add: hash_size_def)
    have ld20: "length ?d = 20" using length_bc_hash [OF bc, of BCRYPT_SHA1_ALGORITHM] hs by simp
    have u: "unat (28 :: UINT32) = 28" "unat (32 :: UINT32) = 32" by simp_all
    have "check_composite12 bc quote pcrList 28 32 =
        (if r_digest r \<noteq> ?d then Ok (E_INVALIDARG, None) else Ok (S_OK, Some (quote12_mask (r_select r))))"
      unfolding check_composite12_def quote12_mask_def [symmetric] Let_def u ld obind.simps b prod.case
      using hr hs ld20 by (simp add: b(2) ld(2))
    then show ?thesis unfolding v z a by auto
  qed
  show ?thesis
  proof
    assume ok: "ValidateQuoteContext12 bc (Some quote) cbQuote (Some pcrList) 480 pbNonce cbNonce = Ok (S_OK, Some m)"
    obtain r b where p: "?p = (r, b)" by (cases ?p)
    then obtain x where "r = Ok x" "\<not> isl x" using ok unfolding v by (cases r) (auto split: sum.splits)
    then obtain x b where "?p = (Ok (Inr x), b)" using p by (metis sum.collapse(2))
    then obtain r' where "quote = quote12_bytes r'" "quote12_ok r'" "nonce12_ok pbNonce cbNonce (r_externalData r')"
      using parse_quote12_seen [OF _ w] unfolding z by blast
    then show "\<exists>r. quote = quote12_bytes r \<and> quote12_ok r \<and> nonce12_ok pbNonce cbNonce (r_externalData r) \<and>
      m = quote12_mask (r_select r) \<and> r_digest r = bc_hash bc BCRYPT_SHA1_ALGORITHM (composite (r_select r) pcrList)"
      using q ok by blast
  qed (use q in blast)
qed

end
