(* ===== verification/PcpAttestLaws.thy ===== *)
theory PcpAttestLaws
  imports PcpAttest PcpQuote12Laws
begin

unbundle bit_operations_syntax

text \<open>
  What an attestation that is accepted says: the quote in it is signed by the key and carries the nonce, it is
  a quote of the PCR values in it, and the event log in it replays to these values.
\<close>

section \<open>The blob\<close>

record attestation =
  at_alg :: "UINT32 option" \<comment> \<open>the PCR bank, in the second version of the header\<close>
  at_platform :: UINT32
  at_extra :: ByteVec \<comment> \<open>what else the header has\<close>
  at_values :: ByteVec
  at_quote :: ByteVec
  at_signature :: ByteVec
  at_log :: ByteVec

definition header_size :: "attestation \<Rightarrow> nat" where
  "header_size a = 28 + (if at_alg a = None then 0 else 4) + length (at_extra a)"

definition header_fields :: "attestation \<Rightarrow> ByteVec" where
  "header_fields a =
     le_bytes 4 (if at_alg a = None then PCP_PLATFORM_ATTESTATION_MAGIC else PCP_PLATFORM_ATTESTATION_MAGIC2) @
     le_bytes 4 (at_platform a) @ le_bytes 4 (of_nat (header_size a) :: UINT32) @
     le_bytes 4 (of_nat (length (at_values a)) :: UINT32) @ le_bytes 4 (of_nat (length (at_quote a)) :: UINT32) @
     le_bytes 4 (of_nat (length (at_signature a)) :: UINT32) @ le_bytes 4 (of_nat (length (at_log a)) :: UINT32)"

definition attestation_bytes :: "attestation \<Rightarrow> ByteVec" where
  "attestation_bytes a = header_fields a @ (case at_alg a of None \<Rightarrow> [] | Some alg \<Rightarrow> le_bytes 4 alg) @ at_extra a @
     at_values a @ at_quote a @ at_signature a @ at_log a"

definition pcr_alg :: "attestation \<Rightarrow> UINT16" where
  "pcr_alg a = (case at_alg a of None \<Rightarrow> TPM_API_ALG_ID_SHA1 | Some alg \<Rightarrow> ucast alg)"

lemma length_header_fields: "length (header_fields a) = 28"
  by (simp add: header_fields_def)

lemma length_attestation_bytes:
  "length (attestation_bytes a) = header_size a + length (at_values a) + length (at_quote a) +
     length (at_signature a) + length (at_log a)"
  by (simp add: attestation_bytes_def length_header_fields header_size_def split: option.splits)

lemma attestation_parts:
  fixes a :: attestation
  defines "mem \<equiv> attestation_bytes a" and "h \<equiv> header_size a"
  shows "has_at mem 0 (header_fields a)" "case_option True (\<lambda>alg. has_at mem 28 (le_bytes 4 alg)) (at_alg a)"
    "has_at mem (h + length (at_values a)) (at_quote a)"
    "has_at mem (h + length (at_values a) + length (at_quote a)) (at_signature a)"
    "drop h mem = at_values a @ at_quote a @ at_signature a @ at_log a"
    "drop (h + length (at_values a) + length (at_quote a) + length (at_signature a)) mem = at_log a"
proof -
  let ?front = "header_fields a @ (case at_alg a of None \<Rightarrow> [] | Some alg \<Rightarrow> le_bytes 4 alg) @ at_extra a"
  have l: "length ?front = h" by (simp add: h_def header_size_def length_header_fields split: option.splits)
  have m: "mem = ?front @ at_values a @ at_quote a @ at_signature a @ at_log a" by (simp add: mem_def attestation_bytes_def)
  have "has_at mem 0 (?front @ at_values a @ at_quote a @ at_signature a @ at_log a)" using has_at_all [of mem] m by simp
  then have p: "has_at mem 0 ?front" "has_at mem h (at_values a @ at_quote a @ at_signature a @ at_log a)"
    using l by (simp_all only: has_at_append add_0)
  show "has_at mem 0 (header_fields a)" "case_option True (\<lambda>alg. has_at mem 28 (le_bytes 4 alg)) (at_alg a)"
    using p(1) by (auto simp: has_at_append length_header_fields split: option.splits)
  show "has_at mem (h + length (at_values a)) (at_quote a)"
    "has_at mem (h + length (at_values a) + length (at_quote a)) (at_signature a)"
    using p(2) by (simp_all add: has_at_append)
  show d: "drop h mem = at_values a @ at_quote a @ at_signature a @ at_log a" using m l by (metis append_eq_conv_conj)
  show "drop (h + length (at_values a) + length (at_quote a) + length (at_signature a)) mem = at_log a"
    using d drop_drop [of "length (at_values a) + length (at_quote a) + length (at_signature a)" h mem]
    by (simp add: ac_simps)
qed

lemma load_blob_bytes:
  "load_blob (attestation_bytes a) = Ok \<lparr>ab_Magic = (if at_alg a = None then PCP_PLATFORM_ATTESTATION_MAGIC else PCP_PLATFORM_ATTESTATION_MAGIC2),
     ab_Platform = at_platform a, ab_HeaderSize = of_nat (header_size a), ab_cbPcrValues = of_nat (length (at_values a)),
     ab_cbQuote = of_nat (length (at_quote a)), ab_cbSignature = of_nat (length (at_signature a)),
     ab_cbLog = of_nat (length (at_log a))\<rparr>"
proof -
  let ?mem = "attestation_bytes a"
  let ?magic = "if at_alg a = None then PCP_PLATFORM_ATTESTATION_MAGIC else PCP_PLATFORM_ATTESTATION_MAGIC2"
  have "has_at ?mem 0 (le_bytes 4 ?magic)" "has_at ?mem 4 (le_bytes 4 (at_platform a))"
    "has_at ?mem 8 (le_bytes 4 (of_nat (header_size a) :: UINT32))" "has_at ?mem 12 (le_bytes 4 (of_nat (length (at_values a)) :: UINT32))"
    "has_at ?mem 16 (le_bytes 4 (of_nat (length (at_quote a)) :: UINT32))"
    "has_at ?mem 20 (le_bytes 4 (of_nat (length (at_signature a)) :: UINT32))"
    "has_at ?mem 24 (le_bytes 4 (of_nat (length (at_log a)) :: UINT32))"
    using attestation_parts(1) [of a] unfolding header_fields_def has_at_append by simp_all
  note h = this [THEN LOAD32_has_at]
  show ?thesis by (simp only: load_blob_def h obind.simps)
qed

text \<open>With its parts in place, the validation of a blob comes down to the checks of its parts.\<close>

lemma validate_parts:
  assumes m: "length (attestation_bytes a) < 2 ^ 32" and q: "at_quote a \<noteq> []"
  shows "TpmAttValidatePlatformAttestation bc tbs (Some aik) pbNonce cbNonce (Some (attestation_bytes a))
      (of_nat (length (attestation_bytes a))) =
    obind (remote_attestation bc aik (at_platform a) (Some (at_quote a)) (of_nat (length (at_quote a)))
        (at_values a @ at_quote a @ at_signature a @ at_log a) (of_nat (length (at_values a))) (at_signature a)
        pbNonce cbNonce (pcr_alg a)) (\<lambda>(hr, quoteMask).
      if FAILED hr then Ok hr
      else obind (TpmAttiComputeSoftPCRs bc (Some (at_log a)) (of_nat (length (at_log a))) (pcr_alg a)
          (Some (replicate (24 * 64) 0)) (24 * 64)) (\<lambda>(hr, softwarePCR, _).
        if FAILED hr then Ok hr
        else obind (compare_pcrs (at_values a @ at_quote a @ at_signature a @ at_log a) (bank_size (pcr_alg a))
            (case quoteMask of Some m \<Rightarrow> m | None \<Rightarrow> 0) softwarePCR [0..<24]) (\<lambda>hr.
          if FAILED hr then Ok hr else Ok S_OK)))"
proof -
  let ?mem = "attestation_bytes a" and ?h = "header_size a"
  let ?v = "length (at_values a)" and ?q = "length (at_quote a)" and ?s = "length (at_signature a)" and ?l = "length (at_log a)"
  have len: "length ?mem = ?h + ?v + ?q + ?s + ?l" by (rule length_attestation_bytes)
  have u: "unat (of_nat ?h :: UINT32) = ?h" "unat (of_nat ?h + of_nat ?v :: UINT32) = ?h + ?v"
    "unat (of_nat ?h + of_nat ?v + of_nat ?q :: UINT32) = ?h + ?v + ?q"
    "unat (of_nat ?h + of_nat ?v + of_nat ?q + of_nat ?s :: UINT32) = ?h + ?v + ?q + ?s"
    "unat (of_nat ?q :: UINT32) = ?q" "unat (of_nat ?s :: UINT32) = ?s"
    using m len by (simp_all flip: of_nat_add)
  have sum: "(of_nat ?h + of_nat ?v + of_nat ?q + of_nat ?s + of_nat ?l :: UINT32) = of_nat (length ?mem)" by (simp add: len)
  have "28 \<le> length ?mem" by (simp add: len header_size_def)
  then have big: "\<not> (of_nat (length ?mem) :: UINT32) < 28" using m by (simp add: word_less_nat_alt)
  have "?q \<noteq> 0" using q by simp
  then have nz: "(of_nat ?q :: UINT32) \<noteq> 0" using u(5) by auto
  note p = attestation_parts [of a]
  have ld: "LOAD ?mem (?h + ?v) ?q = Ok (at_quote a)" "LOAD ?mem (?h + ?v + ?q) ?s = Ok (at_signature a)"
    using LOAD_has_at [OF p(3) refl] LOAD_has_at [OF p(4) refl] .
  have alg: "(if (if at_alg a = None then PCP_PLATFORM_ATTESTATION_MAGIC else PCP_PLATFORM_ATTESTATION_MAGIC2) = PCP_PLATFORM_ATTESTATION_MAGIC2
      then LOAD32 ?mem 28 else Ok 4) = Ok (case at_alg a of None \<Rightarrow> 4 | Some alg \<Rightarrow> alg)"
    using p(2) by (auto simp: LOAD32_has_at split: option.splits)
  have alg2: "ucast (case at_alg a of None \<Rightarrow> 4 | Some alg \<Rightarrow> alg) = pcr_alg a"
    by (simp add: pcr_alg_def split: option.splits)
  have mg: "\<not> ((if at_alg a = None then PCP_PLATFORM_ATTESTATION_MAGIC else PCP_PLATFORM_ATTESTATION_MAGIC2) \<noteq> PCP_PLATFORM_ATTESTATION_MAGIC \<and>
      (if at_alg a = None then PCP_PLATFORM_ATTESTATION_MAGIC else PCP_PLATFORM_ATTESTATION_MAGIC2) \<noteq> PCP_PLATFORM_ATTESTATION_MAGIC2)"
    by simp
  show ?thesis
    unfolding TpmAttValidatePlatformAttestation_def
    by (simp only: option.case big if_False load_blob_bytes obind.simps attestation_blob.simps mg sum simp_thms alg Let_def alg2
        u ld nz if_True p(5,6) bank_size_def option.distinct)
qed

section \<open>Accepted attestations\<close>

lemma compare_pcr_Ok:
  assumes "Suc n * sz \<le> length pcrValues"
  shows "compare_pcr pcrValues sz m soft n = Ok (if pcr_selected m n then pcr_at sz n pcrValues = pcr_at sz n soft
    else pcr_at sz n soft \<in> {replicate sz 0, replicate sz 0xff})"
  using assms by (auto simp: compare_pcr_def LOAD_def pcr_at_def mult.commute add.commute)

lemma compare_pcrs_Ok:
  assumes "\<forall>n \<in> set ns. Suc n * sz \<le> length pcrValues"
  shows "compare_pcrs pcrValues sz m soft ns =
    Ok (if \<forall>n \<in> set ns. if pcr_selected m n then pcr_at sz n pcrValues = pcr_at sz n soft
          else pcr_at sz n soft \<in> {replicate sz 0, replicate sz 0xff} then S_OK else E_INVALIDARG)"
  using assms by (induction ns) (simp_all add: compare_pcr_Ok)

lemma pcr_at_append: "Suc n * sz \<le> length xs \<Longrightarrow> pcr_at sz n (xs @ ys) = pcr_at sz n xs"
  by (simp add: pcr_at_def)

lemma quote_covers_append:
  assumes "24 * bank_size alg \<le> length xs"
  shows "quote_covers bc alg q (xs @ ys) \<longleftrightarrow> quote_covers bc alg q xs"
proof -
  have "pcr_at (bank_size alg) n (xs @ ys) = pcr_at (bank_size alg) n xs" if "n < 24" for n
  proof (rule pcr_at_append)
    have "Suc n * bank_size alg \<le> 24 * bank_size alg" using that by (intro mult_le_mono1) simp
    then show "Suc n * bank_size alg \<le> length xs" using assms by (rule order_trans)
  qed
  then have "selected_values (bank_size alg) m (xs @ ys) [0..<24] = selected_values (bank_size alg) m xs [0..<24]" for m
    by (auto simp: selected_values_def intro!: arg_cong [of _ _ concat] map_cong)
  then show ?thesis by (simp add: quote_covers_def)
qed

text \<open>What the signature covers, and what the validation of the quote adds to it.\<close>

lemma remote_attestation_20:
  assumes bc: "bc_ok bc"
  shows "remote_attestation bc aik 2 (Some quote) cbQuote pcrValues cbPcrValues signature pbNonce cbNonce alg =
    (let hr = HRESULT_FROM_NT (aik (bc_hash bc BCRYPT_SHA1_ALGORITHM quote) signature) in
     if FAILED hr then Ok (hr, None)
     else ValidateQuoteContext20 bc (Some quote) cbQuote (Some pcrValues) cbPcrValues pbNonce cbNonce alg)"
proof -
  let ?d = "bc_hash bc BCRYPT_SHA1_ALGORITHM quote"
  have hs: "hash_size BCRYPT_SHA1_ALGORITHM = 20" by (simp add: hash_size_def)
  obtain hr where hr: "TpmAttiShaHash bc BCRYPT_SHA1_ALGORITHM None quote (Some 20) = (hr, Some 20, Some ?d)" "\<not> FAILED hr"
    using TpmAttiShaHash_hash [OF bc, of BCRYPT_SHA1_ALGORITHM quote] hs by auto
  have "length ?d = 20" using length_bc_hash [OF bc, of BCRYPT_SHA1_ALGORITHM] hs by simp
  then have "take 20 (overwrite 0 ?d (replicate 20 0)) = ?d" by (simp add: overwrite_def)
  then show ?thesis using hr by (simp add: remote_attestation_def Let_def)
qed

theorem attestation_accepted:
  fixes a :: attestation
  assumes bc: "bc_ok bc" and ok: "log_ok oh es" and m: "length (attestation_bytes a) < 2 ^ 32"
    and q: "at_quote a \<noteq> []" and p: "at_platform a = 2"
  defines "lf \<equiv> format_of oh" and "alg \<equiv> pcr_alg a" and "sz \<equiv> bank_size (pcr_alg a)"
  assumes log: "at_log a = log_bytes oh es" "lf_alg lf = alg" and vals: "length (at_values a) = 24 * sz"
    and st: "startup_ok (bc_hash bc (hash_of lf)) lf sz (replicate sz 0) (events_of 0 es)"
  shows "TpmAttValidatePlatformAttestation bc tbs (Some aik) pbNonce cbNonce (Some (attestation_bytes a))
      (of_nat (length (attestation_bytes a))) = Ok S_OK \<longleftrightarrow>
    \<not> FAILED (HRESULT_FROM_NT (aik (bc_hash bc BCRYPT_SHA1_ALGORITHM (at_quote a)) (at_signature a))) \<and>
    (\<exists>q. at_quote a = quote_bytes alg q \<and> quote_ok q \<and> nonce_ok pbNonce cbNonce (q_extraData q) \<and>
      quote_covers bc alg q (at_values a) \<and>
      (\<forall>n < 24. if pcr_selected (quote_mask q) n
        then pcr_at sz n (at_values a) = soft_pcr (bc_hash bc (hash_of lf)) lf sz es n
        else soft_pcr (bc_hash bc (hash_of lf)) lf sz es n \<in> {replicate sz 0, replicate sz 0xff}))"
    (is "?accept \<longleftrightarrow> ?signed \<and> ?quoted")
proof -
  let ?V = "at_values a @ at_quote a @ at_signature a @ at_log a" and ?H = "bc_hash bc (hash_of lf)"
  have szl: "unat (lf_size lf) = sz" using format_alg [of oh] log(2) by (auto simp: lf_def alg_def sz_def bank_size_def)
  have sz: "sz = 20 \<or> sz = 32" by (simp add: sz_def bank_size_def)
  have lq: "length (at_quote a) < 2 ^ 32" using m by (simp add: length_attestation_bytes)
  then have w: "whole (of_nat (length (at_quote a))) (at_quote a)" by (simp add: whole_def)
  have lv: "24 * sz \<le> length ?V" using vals by simp
  obtain pcrs mask where soft: "TpmAttiComputeSoftPCRs bc (Some (at_log a)) (of_nat (length (at_log a))) alg
      (Some (replicate (24 * 64) 0)) (24 * 64) = Ok (S_OK, pcrs, mask)"
      "\<forall>i < 24. pcr_at sz i pcrs = soft_pcr ?H lf sz es i"
    using ComputeSoftPCRs_log [OF bc ok, folded lf_def, unfolded szl, OF st, of "24 * 64" "replicate (24 * 64) 0"] sz log
    by auto
  have ns: "Suc n * sz \<le> length (at_values a)" if "n < 24" for n
  proof -
    have "Suc n * sz \<le> 24 * sz" using that by (intro mult_le_mono1) simp
    then show ?thesis using vals by simp
  qed
  have cmp: "compare_pcrs ?V sz k pcrs [0..<24] =
      Ok (if \<forall>n < 24. if pcr_selected k n then pcr_at sz n (at_values a) = soft_pcr ?H lf sz es n
            else soft_pcr ?H lf sz es n \<in> {replicate sz 0, replicate sz 0xff} then S_OK else E_INVALIDARG)" for k
  proof -
    have "\<forall>n \<in> set [0..<24]. Suc n * sz \<le> length ?V" using ns by fastforce
    note c = compare_pcrs_Ok [OF this, of k pcrs]
    have "(\<forall>n \<in> set [0..<24]. if pcr_selected k n then pcr_at sz n ?V = pcr_at sz n pcrs
        else pcr_at sz n pcrs \<in> {replicate sz 0, replicate sz 0xff}) \<longleftrightarrow>
      (\<forall>n < 24. if pcr_selected k n then pcr_at sz n (at_values a) = soft_pcr ?H lf sz es n
        else soft_pcr ?H lf sz es n \<in> {replicate sz 0, replicate sz 0xff})"
      using soft(2) ns pcr_at_append by auto
    then show ?thesis unfolding c by simp
  qed
  note vq = ValidateQuoteContext20_iff [OF bc w q lv [unfolded sz_def] refl, of pbNonce cbNonce, folded sz_def alg_def]
  define VQ where "VQ = ValidateQuoteContext20 bc (Some (at_quote a)) (of_nat (length (at_quote a))) (Some ?V) (of_nat (24 * sz)) pbNonce cbNonce alg"
  define C where "C k = compare_pcrs ?V sz k pcrs [0..<24]" for k
  have sza: "sz = bank_size alg" by (simp add: sz_def alg_def)
  have C: "C k = Ok S_OK \<or> C k = Ok E_INVALIDARG" for k unfolding C_def cmp by simp
  let ?hr = "HRESULT_FROM_NT (aik (bc_hash bc BCRYPT_SHA1_ALGORITHM (at_quote a)) (at_signature a))"
  have run: "TpmAttValidatePlatformAttestation bc tbs (Some aik) pbNonce cbNonce (Some (attestation_bytes a))
      (of_nat (length (attestation_bytes a))) =
    obind (if FAILED ?hr then Ok (?hr, None) else VQ) (\<lambda>(hr, mask). if FAILED hr then Ok hr
      else obind (C (case mask of Some m \<Rightarrow> m | None \<Rightarrow> 0)) (\<lambda>hr. if FAILED hr then Ok hr else Ok S_OK))"
    unfolding validate_parts [OF m q] p remote_attestation_20 [OF bc] alg_def [symmetric] sza [symmetric] vals
      VQ_def [symmetric] Let_def soft(1) obind.simps prod.case C_def [symmetric]
    by (simp cong: if_cong)
  have acc: "?accept \<longleftrightarrow> ?signed \<and> (\<exists>k. VQ = Ok (S_OK, Some k) \<and> C k = Ok S_OK)"
  proof (cases "FAILED ?hr")
    case True
    then show ?thesis unfolding run by (auto simp: FAILED_def)
  next
    case signed: False
    show ?thesis
    proof (cases VQ)
      case (Ok r)
      obtain hr x where r: "r = (hr, x)" by (cases r)
      show ?thesis
      proof (cases "FAILED hr")
        case True
        then show ?thesis using signed unfolding run Ok r by (auto simp: FAILED_def)
      next
        case False
        then obtain k where k: "hr = S_OK" "x = Some k" using Ok r VQ_def by (auto elim: ValidateQuoteContext20_code)
        show ?thesis using signed C [of k] unfolding run Ok r k by auto
      qed
    qed (use signed run in simp_all)
  qed
  have good: "C k = Ok S_OK \<longleftrightarrow> (\<forall>n < 24. if pcr_selected k n then pcr_at sz n (at_values a) = soft_pcr ?H lf sz es n
      else soft_pcr ?H lf sz es n \<in> {replicate sz 0, replicate sz 0xff})" for k
    unfolding C_def cmp by simp
  have covers: "quote_covers bc alg q ?V \<longleftrightarrow> quote_covers bc alg q (at_values a)" for q
    by (rule quote_covers_append) (simp add: vals sza)
  show ?thesis unfolding acc good VQ_def vq covers by blast
qed

end
