(* ===== verification/PcpSafe.thy ===== *)
theory PcpSafe
  imports PcpAttestLaws
begin

unbundle bit_operations_syntax

text \<open>
  Input that is not trusted: whatever bytes a quote has, and whatever a TPM answers, the functions that take
  them apart stay inside their buffers and return.
\<close>

section \<open>Sequences that stay inside their buffer\<close>

text \<open>\<open>be_safe\<close>, with a property of the result.\<close>

definition safe_res :: "UINT32 \<Rightarrow> ('r \<Rightarrow> bool) \<Rightarrow> (BEBuf, 'r) sx \<Rightarrow> bool" where
  "safe_res cb P m \<longleftrightarrow> (\<forall>b. be_inv cb b \<longrightarrow>
     (\<exists>r b'. m b = (Ok r, b') \<and> P r \<and> be_inv cb b' \<and> length (be_mem b') = length (be_mem b)))"

lemma safe_resD:
  assumes "safe_res cb P m" and "be_inv cb b"
  obtains r b' where "m b = (Ok r, b')" "P r" "be_inv cb b'" "length (be_mem b') = length (be_mem b)"
  using assms unfolding safe_res_def by blast

lemma be_safe_res: "be_safe cb m \<Longrightarrow> safe_res cb (\<lambda>_. True) m"
  unfolding safe_res_def be_safe_def by blast

lemma safe_res_bind:
  assumes m: "safe_res cb P m" and k: "\<And>x. P x \<Longrightarrow> safe_res cb Q (k x)"
  shows "safe_res cb Q (sbind m k)"
  unfolding safe_res_def
proof (intro allI impI)
  fix b assume "be_inv cb b"
  then obtain x c where x: "m b = (Ok x, c)" "P x" "be_inv cb c" "length (be_mem c) = length (be_mem b)"
    by (rule safe_resD [OF m])
  obtain r b' where "k x c = (Ok r, b')" "Q r" "be_inv cb b'" "length (be_mem b') = length (be_mem c)"
    by (rule safe_resD [OF k [OF x(2)] x(3)])
  then show "\<exists>r b'. sbind m k b = (Ok r, b') \<and> Q r \<and> be_inv cb b' \<and> length (be_mem b') = length (be_mem b)"
    using x by (simp add: sbind_def)
qed

lemma safe_res_ret: "P x \<Longrightarrow> safe_res cb P (ret x)"
  by (simp add: safe_res_def ret_app)

lemma safe_res_if: "(c \<Longrightarrow> safe_res cb P m) \<Longrightarrow> (\<not> c \<Longrightarrow> safe_res cb P k) \<Longrightarrow> safe_res cb P (if c then m else k)"
  by simp

lemma safe_res_last: "P (Inl E_INVALIDARG) \<Longrightarrow> P (Inr x) \<Longrightarrow> safe_res cb P (\<lambda>b. refuse_if (f b) (ret (Inr x)) b)"
  by (simp add: safe_res_def refuse_if_def ret_app)

text \<open>A property of parses that failures have.\<close>

definition if_parsed :: "('a \<Rightarrow> bool) \<Rightarrow> HRESULT + 'a \<Rightarrow> bool" where
  "if_parsed P p = (case p of Inl _ \<Rightarrow> True | Inr x \<Rightarrow> P x)"

lemma if_parsed_simps [simp]: "if_parsed P (Inl hr)" "if_parsed P (Inr x) = P x"
  by (simp_all add: if_parsed_def)

lemma safe_skip: "be_safe cb m \<Longrightarrow> safe_res cb (if_parsed P) k \<Longrightarrow> safe_res cb (if_parsed P) (skip_or m k)"
  unfolding skip_or_def by (rule safe_res_bind [OF be_safe_res]) (simp_all add: safe_res_if safe_res_ret)

lemma safe_read: "be_safe cb m \<Longrightarrow> (\<And>v. safe_res cb (if_parsed P) (k v)) \<Longrightarrow> safe_res cb (if_parsed P) (read_or m k)"
  unfolding read_or_def by (rule safe_res_bind [OF be_safe_res]) (auto intro: safe_res_if safe_res_ret split: prod.splits)

lemma safe_refuse: "safe_res cb (if_parsed P) k \<Longrightarrow> safe_res cb (if_parsed P) (refuse_if c k)"
  unfolding refuse_if_def by (intro safe_res_if safe_res_ret) simp_all

text \<open>The reads that return a place in the buffer.\<close>

lemma read2B_place:
  "safe_res cb (\<lambda>(hr, n, p). FAILED hr \<or> (\<exists>n' p'. n = Some n' \<and> p = Some p' \<and> unat p' + unat n' \<le> unat cb)) (ReadBigEndian2B cb True)"
  unfolding safe_res_def
proof (intro allI impI)
  fix b assume inv: "be_inv cb b"
  obtain r b' where r: "ReadBigEndian2B cb True b = (Ok r, b')" "be_inv cb b'" "length (be_mem b') = length (be_mem b)"
    using be_safe_app [OF ReadBigEndian2B_safe inv] by blast
  have "case r of (hr, n, p) \<Rightarrow> FAILED hr \<or> (\<exists>n' p'. n = Some n' \<and> p = Some p' \<and> unat p' + unat n' \<le> unat cb)"
  proof (cases "room cb 2 b")
    case True
    obtain bs where bs: "length bs = 2" "holds_at b bs" by (rule holds_some [OF True be_inv_mem_ok [OF inv]])
    then obtain n where n: "holds_at b (enc16 n)" using ex_enc16 by blast
    have c: "unat (cursor b + 2) = unat (cursor b) + 2" using unat_cursor_add [OF True, of 2] by simp
    show ?thesis
      using ReadBigEndian2B_room [OF True be_inv_mem_ok [OF inv] n] r(1) c
      by (auto simp: room_unat cursor_def be_adv_def split: if_splits)
  next
    case False
    then show ?thesis using r(1) by (auto simp: ReadBigEndian2B_def)
  qed
  then show "\<exists>r b'. ReadBigEndian2B cb True b = (Ok r, b') \<and>
      (case r of (hr, n, p) \<Rightarrow> FAILED hr \<or> (\<exists>n' p'. n = Some n' \<and> p = Some p' \<and> unat p' + unat n' \<le> unat cb)) \<and>
      be_inv cb b' \<and> length (be_mem b') = length (be_mem b)"
    using r by blast
qed

lemma safe_read2B:
  assumes "\<And>n p. unat p + unat n \<le> unat cb \<Longrightarrow> safe_res cb (if_parsed P) (k n p)"
  shows "safe_res cb (if_parsed P) (read2B_or (ReadBigEndian2B cb True) k)"
  unfolding read2B_or_def
  by (rule safe_res_bind [OF read2B_place]) (auto intro!: safe_res_if safe_res_ret assms split: prod.splits)

lemma readbuf_place:
  "safe_res cb (\<lambda>(hr, p). FAILED hr \<or> (\<exists>p'. p = Some p' \<and> unat p' + unat w \<le> unat cb)) (ReadBigEndianBuf cb True w)"
  unfolding safe_res_def
proof (intro allI impI)
  fix b assume inv: "be_inv cb b"
  obtain r b' where r: "ReadBigEndianBuf cb True w b = (Ok r, b')" "be_inv cb b'" "length (be_mem b') = length (be_mem b)"
    using be_safe_app [OF ReadBigEndianBuf_safe inv] by blast
  then show "\<exists>r b'. ReadBigEndianBuf cb True w b = (Ok r, b') \<and>
      (case r of (hr, p) \<Rightarrow> FAILED hr \<or> (\<exists>p'. p = Some p' \<and> unat p' + unat w \<le> unat cb)) \<and>
      be_inv cb b' \<and> length (be_mem b') = length (be_mem b)"
    by (auto simp: ReadBigEndianBuf_room room_unat split: if_splits)
qed

lemma safe_readbuf:
  assumes "\<And>p. unat p + unat w \<le> unat cb \<Longrightarrow> safe_res cb (if_parsed P) (k p)"
  shows "safe_res cb (if_parsed P) (read_or (ReadBigEndianBuf cb True w) k)"
  unfolding read_or_def
  by (rule safe_res_bind [OF readbuf_place]) (auto intro!: safe_res_if safe_res_ret assms split: prod.splits)

lemma safe_same_bytes: "unat p + n \<le> unat cb \<Longrightarrow> n \<le> length bs \<Longrightarrow> safe_res cb (\<lambda>_. True) (same_bytes p n bs)"
  by (auto simp: safe_res_def same_bytes_def LOAD_def be_inv_def mem_ok_def)

lemmas safe_rules = safe_skip safe_read safe_refuse safe_read2B safe_readbuf safe_res_if safe_res_ret safe_res_last
  SkipBigEndian_safe SkipBigEndian2B_safe be32.rd_safe be16.rd_safe

section \<open>Quotes\<close>

lemma safe_nonce20:
  assumes n: "pbNonce \<noteq> None \<Longrightarrow> unat cbNonce \<le> length (the pbNonce)" and k: "safe_res cb (if_parsed P) k"
  shows "safe_res cb (if_parsed P) (nonce20 cb pbNonce cbNonce k)"
proof (cases "pbNonce \<noteq> None \<and> cbNonce = 20")
  case True
  have "unat (m :: UINT16) \<le> length (the pbNonce)" if "(ucast m :: UINT32) = cbNonce" for m
  proof -
    have "unat (ucast m :: UINT32) = unat m" by (simp add: unsigned_ucast_eq take_bit_word_eq_self)
    then show ?thesis using that n True by simp
  qed
  then show ?thesis
    unfolding nonce20_def by (intro safe_rules safe_res_bind [OF safe_same_bytes] k) simp_all
next
  case False
  then show ?thesis unfolding nonce20_def by (simp only: if_False) (intro safe_rules k)
qed

lemma safe_quote20:
  assumes "pbNonce \<noteq> None \<Longrightarrow> unat cbNonce \<le> length (the pbNonce)"
  shows "safe_res cb (if_parsed (\<lambda>(m, n, p). unat p + unat n \<le> unat cb)) (parse_quote20 cb pbNonce cbNonce alg)"
  unfolding parse_quote20_def by (intro safe_rules safe_nonce20 assms) simp_all

theorem quote20_returns:
  assumes bc: "bc_ok bc" and q: "unat cbQuote \<le> length quote" and l: "24 * bank_size alg \<le> length pcrList"
    and n: "pbNonce \<noteq> None \<Longrightarrow> unat cbNonce \<le> length (the pbNonce)"
  shows "\<exists>hr m. ValidateQuoteContext20 bc (Some quote) cbQuote (Some pcrList) cbPcrList pbNonce cbNonce alg = Ok (hr, m)"
proof -
  have s: "bank_size alg = 20 \<or> bank_size alg = 32" by (simp add: bank_size_def)
  have inv: "be_inv cbQuote \<lparr>be_mem = quote, be_cursor = Some 0\<rparr>"
    using q by (simp add: be_inv_def mem_ok_def cursor_def)
  obtain p b where p: "parse_quote20 cbQuote pbNonce cbNonce alg \<lparr>be_mem = quote, be_cursor = Some 0\<rparr> = (Ok p, b)"
      "if_parsed (\<lambda>(m, n, p). unat p + unat n \<le> unat cbQuote) p"
    by (rule safe_resD [OF safe_quote20 [OF n] inv])
  have chk: "\<exists>hr x. check_selected20 bc quote pcrList (of_nat (bank_size alg)) m n p = Ok (hr, x)"
    if "unat p + unat n \<le> unat cbQuote" for m n p
  proof -
    have "unat p + unat n \<le> length quote" using that q by simp
    then obtain d where d: "length d = unat n" "has_at quote (unat p) d" using some_bytes by blast
    have "unat n < 65536" using unsigned_less [of n] by simp
    then have sh: "short d" and n: "of_nat (length d) = n" using d(1) by (simp_all add: short_def)
    have u: "unat (ucast (of_nat (length d) :: UINT16) :: UINT32) = length d" using unat_short [OF sh] by simp
    let ?alg = "if length d = 32 then BCRYPT_SHA256_ALGORITHM else BCRYPT_SHA1_ALGORITHM"
    obtain hr len res where h: "TpmAttiShaHash bc ?alg None (selected_values (bank_size alg) m pcrList [0..<24])
        (Some (ucast (of_nat (length d) :: UINT16))) = (hr, len, res)" using prod_cases3 by blast
    have "len = None \<or> len = Some (hash_size ?alg)" by (rule TpmAttiShaHash_len [OF bc _ h]) simp
    moreover have "unat (hash_size ?alg) \<le> 64" by (simp add: hash_size_def)
    ultimately have "len = Some (ucast (of_nat (length d) :: UINT16)) \<longrightarrow> unat (ucast (of_nat (length d) :: UINT16) :: UINT32) \<le> 64"
      by fastforce
    then have "len = Some (ucast (of_nat (length d) :: UINT16)) \<longrightarrow> length d \<le> 64" unfolding u .
    then show ?thesis
      unfolding n [symmetric] using check_selected20_run [OF s l sh d(2), of bc m] by (auto simp: h)
  qed
  show ?thesis
    using p chk by (auto simp: ValidateQuoteContext20_def bank_size_def Let_def split: sum.splits if_splits)
qed

section \<open>Responses\<close>

lemma be_inv_fresh: "unat cb \<le> length mem \<Longrightarrow> be_inv cb \<lparr>be_mem = mem, be_cursor = Some 0\<rparr>"
  by (simp add: be_inv_def mem_ok_def cursor_def)

text \<open>A continuation that returns for all buffers of these sizes, and keeps the size of the output.\<close>

definition returns :: "UINT32 \<Rightarrow> UINT32 \<Rightarrow> nat \<Rightarrow> nat \<Rightarrow> (BEBuf \<times> BEBuf \<Rightarrow> (HRESULT \<times> BEBuf) outcome) \<Rightarrow> bool" where
  "returns cbRsp cbOutput lr lo k \<longleftrightarrow> (\<forall>rsp out. be_inv cbRsp rsp \<longrightarrow> length (be_mem rsp) = lr \<longrightarrow> be_inv cbOutput out \<longrightarrow>
     length (be_mem out) = lo \<longrightarrow>
     (\<exists>hr b. k (rsp, out) = Ok (hr, b) \<and> be_inv cbOutput b \<and> length (be_mem b) = lo))"

lemma returns_read:
  assumes m: "safe_res cbRsp (\<lambda>(hr, v). FAILED hr \<or> P (the v)) m" and k: "\<And>v. P v \<Longrightarrow> returns cbRsp cbOutput lr lo (k v)"
  shows "returns cbRsp cbOutput lr lo (\<lambda>s. read_rsp m s k)"
  unfolding returns_def
proof (intro allI impI)
  fix rsp out
  assume r: "be_inv cbRsp rsp" "length (be_mem rsp) = lr" and o: "be_inv cbOutput out" "length (be_mem out) = lo"
  obtain x b' where x: "m rsp = (Ok x, b')" "case x of (hr, v) \<Rightarrow> FAILED hr \<or> P (the v)" "be_inv cbRsp b'"
      "length (be_mem b') = length (be_mem rsp)"
    by (rule safe_resD [OF m r(1)])
  obtain hr v where hv: "x = (hr, v)" by (cases x)
  show "\<exists>hr b. read_rsp m (rsp, out) k = Ok (hr, b) \<and> be_inv cbOutput b \<and> length (be_mem b) = lo"
  proof (cases "FAILED hr")
    case False
    then have "P (the v)" using x(2) hv by simp
    then show ?thesis using k [of "the v"] x r(2) o False hv unfolding returns_def read_rsp_def by simp
  qed (use x o hv in \<open>simp add: read_rsp_def\<close>)
qed

lemma copy_digest_returns:
  assumes k: "returns cbRsp cbOutput lr lo k" and c: "unat cbRsp \<le> lr"
  shows "returns cbRsp cbOutput lr lo (\<lambda>s. copy_digest cbRsp cbOutput s cbDigest k)"
  unfolding copy_digest_def
proof (rule returns_read [where P = "\<lambda>p. unat p + unat cbDigest \<le> unat cbRsp"])
  show "safe_res cbRsp (\<lambda>(hr, v). FAILED hr \<or> unat (the v) + unat cbDigest \<le> unat cbRsp) (ReadBigEndianBuf cbRsp True cbDigest)"
    using readbuf_place [of cbRsp cbDigest] unfolding safe_res_def by fastforce
next
  fix p :: UINT32 assume p: "unat p + unat cbDigest \<le> unat cbRsp"
  show "returns cbRsp cbOutput lr lo (\<lambda>(rsp, out). obind (LOAD (be_mem rsp) (unat p) (unat cbDigest)) (\<lambda>d.
      case WriteBigEndianBuf cbOutput (Some d) cbDigest out of (r, out) \<Rightarrow> obind r (\<lambda>hr.
        if FAILED hr then Ok (hr, out) else k (rsp, out))))"
    unfolding returns_def
  proof (intro allI impI)
    fix rsp out
    assume r: "be_inv cbRsp rsp" "length (be_mem rsp) = lr" and o: "be_inv cbOutput out" "length (be_mem out) = lo"
    have ld: "LOAD (be_mem rsp) (unat p) (unat cbDigest) = Ok (take (unat cbDigest) (drop (unat p) (be_mem rsp)))"
      using p c r(2) by (simp add: LOAD_def)
    let ?d = "take (unat cbDigest) (drop (unat p) (be_mem rsp))"
    have l: "length ?d = unat cbDigest" using p c r(2) by simp
    obtain hr b where w: "WriteBigEndianBuf cbOutput (Some ?d) cbDigest out = (Ok hr, b)" "be_inv cbOutput b"
        "length (be_mem b) = length (be_mem out)"
      using be_safe_app [OF WriteBigEndianBuf_safe [OF l] o(1)] by blast
    show "\<exists>hr b. (case (rsp, out) of (rsp, out) \<Rightarrow> obind (LOAD (be_mem rsp) (unat p) (unat cbDigest)) (\<lambda>d.
        case WriteBigEndianBuf cbOutput (Some d) cbDigest out of (r, out) \<Rightarrow> obind r (\<lambda>hr.
          if FAILED hr then Ok (hr, out) else k (rsp, out)))) = Ok (hr, b) \<and> be_inv cbOutput b \<and> length (be_mem b) = lo"
      using k r o w ld unfolding returns_def by (cases "FAILED hr") simp_all
  qed
qed

lemma copy_digests20_returns:
  "unat cbRsp \<le> lr \<Longrightarrow> returns cbRsp cbOutput lr lo (copy_digests20 cbRsp cbOutput m)"
proof (induction m)
  case 0
  then show ?case by (simp add: returns_def)
next
  case (Suc m)
  have "returns cbRsp cbOutput lr lo (\<lambda>s. read_rsp (ReadBigEndian16 cbRsp True) s
      (\<lambda>cbDigest s. copy_digest cbRsp cbOutput s (ucast cbDigest) (copy_digests20 cbRsp cbOutput m)))"
    by (rule returns_read [where P = "\<lambda>_. True"])
      (use be_safe_res [OF be16.rd_safe] copy_digest_returns [OF Suc.IH [OF Suc.prems] Suc.prems] in \<open>auto simp: safe_res_def\<close>)
  then show ?case by (simp add: returns_def)
qed

section \<open>The PCRs of the platform\<close>

text \<open>A response fits into the buffer of 512 bytes.\<close>

definition tbs_fits :: "Tbs \<Rightarrow> bool" where
  "tbs_fits tbs \<longleftrightarrow> (\<forall>n c. length (snd (tbs_submit tbs n c)) \<le> 512)"

lemma safe_write_at:
  assumes "\<And>b. mem_ok cb b \<Longrightarrow> \<exists>hr b'. m b = (Ok hr, b') \<and> length (be_mem b') = length (be_mem b)"
  shows "safe_res cb (\<lambda>_. True) (write_at cur m)"
  unfolding safe_res_def
proof (intro allI impI)
  fix b assume inv: "be_inv cb b"
  have "mem_ok cb (b\<lparr>be_cursor := Some cur\<rparr>)" using inv by (simp add: be_inv_def mem_ok_def)
  then obtain hr b' where "m (b\<lparr>be_cursor := Some cur\<rparr>) = (Ok hr, b')" "length (be_mem b') = length (be_mem b)"
    using assms by fastforce
  then show "\<exists>r b'. write_at cur m b = (Ok r, b') \<and> True \<and> be_inv cb b' \<and> length (be_mem b') = length (be_mem b)"
    using inv by (auto simp: write_at_def be_inv_def mem_ok_def cursor_def)
qed

lemma WriteBigEndian32_any:
  "mem_ok cb b \<Longrightarrow> \<exists>hr b'. WriteBigEndian32 cb v b = (Ok hr, b') \<and> length (be_mem b') = length (be_mem b)"
  using WriteBigEndian32_room [of cb b v] room_mem [of cb 4 b]
  by (cases "room cb 4 b") (auto simp: be_adv_def be_put_def WriteBigEndian32_def)

lemma safe_check:
  "safe_res cb (\<lambda>_. True) m \<Longrightarrow> safe_res cb (\<lambda>_. True) k \<Longrightarrow> safe_res cb (\<lambda>_. True) (check_failed m k)"
  unfolding check_failed_def by (rule safe_res_bind) (simp_all add: safe_res_if safe_res_ret)

lemma safe_state: "(\<And>b. safe_res cb P (k b)) \<Longrightarrow> safe_res cb P (\<lambda>b. k b b)"
  unfolding safe_res_def by blast

lemma safe_command: "length profile = 10 \<Longrightarrow> safe_res 512 (\<lambda>_. True) (pcr_read_command profile)"
  unfolding pcr_read_command_def Let_def
  by (rule safe_check, rule be_safe_res, rule be16.wr_safe, rule safe_state, rule safe_check, rule be_safe_res, rule be32.wr_safe,
      rule safe_check, rule be_safe_res, rule be32.wr_safe, rule safe_check, rule be_safe_res, rule WriteBigEndianBuf_safe, simp,
      rule safe_state, rule safe_write_at, rule WriteBigEndian32_any)

lemma safe_response20: "safe_res cb (if_parsed (\<lambda>_. True)) (response20 cb)"
  unfolding response20_def by (intro safe_rules) simp_all

lemma safe_response12: "safe_res cb (if_parsed (\<lambda>_. True)) (response12 cb)"
  unfolding response12_def by (intro safe_rules) simp_all

lemma read_blocks20_returns:
  assumes t: "tbs_fits tbs"
  shows "be_inv 512 cmd \<Longrightarrow> length rsp = 512 \<Longrightarrow> be_inv cbOutput out \<Longrightarrow>
    \<exists>hr b. read_blocks20 tbs cbOutput cmd rsp ns out = Ok (hr, b) \<and> be_inv cbOutput b \<and> length (be_mem b) = length (be_mem out)"
proof (induction ns arbitrary: cmd rsp out)
  case (Cons n ns)
  obtain hr cmd' where w: "write_at (cursor cmd - 4) (WriteBigEndian32 512 (pcr_read_selection n)) cmd = (Ok hr, cmd')" "be_inv 512 cmd'"
    by (rule safe_resD [OF safe_write_at [OF WriteBigEndian32_any] Cons.prems(1)])
  obtain hr2 bytes where s: "tbs_submit tbs n (take (unat (cursor cmd')) (be_mem cmd')) = (hr2, bytes)" by fastforce
  have lb: "length bytes \<le> 512" using t s unfolding tbs_fits_def by (metis snd_conv)
  let ?cb = "of_nat (length bytes) :: UINT32" and ?rsp = "overwrite 0 bytes rsp"
  have u: "unat ?cb = length bytes" using lb by simp
  have lr: "length ?rsp = 512" using lb Cons.prems(2) by simp
  have "be_inv ?cb \<lparr>be_mem = ?rsp, be_cursor = Some 0\<rparr>" by (rule be_inv_fresh) (simp add: u lr lb)
  then obtain p b where p: "response20 ?cb \<lparr>be_mem = ?rsp, be_cursor = Some 0\<rparr> = (Ok p, b)" "be_inv ?cb b" "length (be_mem b) = 512"
    using lr by (auto elim: safe_resD [OF safe_response20])
  have copy: "\<exists>hr b'. copy_digests20 ?cb cbOutput k (b, out) = Ok (hr, b') \<and> be_inv cbOutput b' \<and> length (be_mem b') = length (be_mem out)" for k
    using copy_digests20_returns [of ?cb 512 cbOutput "length (be_mem out)" k] p(2,3) Cons.prems(3) u lb
    unfolding returns_def by simp
  show ?case
  proof (cases "FAILED hr \<or> FAILED hr2 \<or> isl p")
    case True
    then show ?thesis using w s p(1) Cons.prems(3) by (cases p) (auto simp: Let_def)
  next
    case False
    then obtain k where k: "p = Inr k" by (cases p) auto
    obtain hr3 b' where c: "copy_digests20 ?cb cbOutput (unat k) (b, out) = Ok (hr3, b')" "be_inv cbOutput b'"
        "length (be_mem b') = length (be_mem out)" using copy by blast
    then show ?thesis using Cons.IH [OF w(2) lr c(2)] False w(1) s p(1) k by (auto simp: Let_def)
  qed
qed simp

theorem GetPlatformPcrs20_returns:
  assumes t: "tbs_fits tbs" and out: "unat cbOutput \<le> length out"
  shows "\<exists>hr n out'. GetPlatformPcrs20 tbs alg (Some out) cbOutput = Ok (hr, n, out') \<and> length out' = length out"
proof -
  let ?p = "\<lparr>be_mem = [0, 0, 0, 1, 0, 4, 3, 0, 0, 0], be_cursor = Some 4\<rparr>"
  have "be_inv 10 ?p" by (simp add: be_inv_def mem_ok_def cursor_def)
  then obtain hr profile where pr: "WriteBigEndian16 10 alg ?p = (Ok hr, profile)" "length (be_mem profile) = 10"
    using be_safe_app [OF be16.wr_safe] by fastforce
  have "be_inv 512 \<lparr>be_mem = replicate 512 0, be_cursor = Some 0\<rparr>" by (rule be_inv_fresh) simp
  then obtain hr2 cmd where c: "pcr_read_command (be_mem profile) \<lparr>be_mem = replicate 512 0, be_cursor = Some 0\<rparr> = (Ok hr2, cmd)" "be_inv 512 cmd"
    by (rule safe_resD [OF safe_command [OF pr(2)]])
  obtain hr3 b where b: "read_blocks20 tbs cbOutput cmd (replicate 512 0) [0..<3] \<lparr>be_mem = out, be_cursor = Some 0\<rparr> = Ok (hr3, b)"
      "length (be_mem b) = length out"
    using read_blocks20_returns [OF t c(2) _ be_inv_fresh [OF out], of "replicate 512 0" "[0..<3]"] by fastforce
  show ?thesis using pr c b by (simp add: GetPlatformPcrs20_def Let_def)
qed

lemma read_pcrs12_returns:
  assumes t: "tbs_fits tbs"
  shows "be_inv 14 cmd \<Longrightarrow> length rsp = 512 \<Longrightarrow> be_inv cbOutput out \<Longrightarrow>
    \<exists>hr b. read_pcrs12 tbs cbOutput cmd rsp ns out = Ok (hr, b) \<and> be_inv cbOutput b \<and> length (be_mem b) = length (be_mem out)"
proof (induction ns arbitrary: cmd rsp out)
  case (Cons n ns)
  obtain hr cmd' where w: "write_at 10 (WriteBigEndian32 14 (of_nat n)) cmd = (Ok hr, cmd')" "be_inv 14 cmd'"
    by (rule safe_resD [OF safe_write_at [OF WriteBigEndian32_any] Cons.prems(1)])
  obtain hr2 bytes where s: "tbs_submit tbs n (be_mem cmd') = (hr2, bytes)" by fastforce
  have lb: "length bytes \<le> 512" using t s unfolding tbs_fits_def by (metis snd_conv)
  let ?cb = "of_nat (length bytes) :: UINT32" and ?rsp = "overwrite 0 bytes rsp"
  have u: "unat ?cb = length bytes" using lb by simp
  have lr: "length ?rsp = 512" using lb Cons.prems(2) by simp
  have "be_inv ?cb \<lparr>be_mem = ?rsp, be_cursor = Some 0\<rparr>" by (rule be_inv_fresh) (simp add: u lr lb)
  then obtain p b where p: "response12 ?cb \<lparr>be_mem = ?rsp, be_cursor = Some 0\<rparr> = (Ok p, b)" "be_inv ?cb b" "length (be_mem b) = 512"
    using lr by (auto elim: safe_resD [OF safe_response12])
  have "returns ?cb cbOutput 512 (length (be_mem out)) (\<lambda>(_, out). read_pcrs12 tbs cbOutput cmd' ?rsp ns out)"
    using Cons.IH [OF w(2) lr] unfolding returns_def prod.case by metis
  then have "returns ?cb cbOutput 512 (length (be_mem out))
      (\<lambda>s. copy_digest ?cb cbOutput s 20 (\<lambda>(_, out). read_pcrs12 tbs cbOutput cmd' ?rsp ns out))"
    by (rule copy_digest_returns) (simp add: u lb)
  then have copy: "\<exists>hr b'. copy_digest ?cb cbOutput (b, out) 20 (\<lambda>(_, out). read_pcrs12 tbs cbOutput cmd' ?rsp ns out) = Ok (hr, b') \<and>
      be_inv cbOutput b' \<and> length (be_mem b') = length (be_mem out)"
    using p(2,3) Cons.prems(3) unfolding returns_def by simp
  show ?case
  proof (cases "FAILED hr \<or> FAILED hr2 \<or> isl p")
    case True
    then show ?thesis using w s p(1) Cons.prems(3) by (cases p) (auto simp: Let_def)
  next
    case False
    then obtain k where "p = Inr k" by (cases p) auto
    then show ?thesis using copy False w(1) s p(1) by (auto simp: Let_def)
  qed
qed simp

theorem GetPlatformPcrs12_returns:
  assumes t: "tbs_fits tbs" and out: "unat cbOutput \<le> length out"
  shows "\<exists>hr n out'. GetPlatformPcrs12 tbs (Some out) cbOutput = Ok (hr, n, out') \<and> length out' = length out"
proof -
  let ?cmd = "\<lparr>be_mem = [0x00, 0xc1, 0x00, 0x00, 0x00, 0x0e, 0x00, 0x00, 0x00, 0x15, 0x00, 0x00, 0x00, 0x00], be_cursor = Some 10\<rparr>"
  have "be_inv 14 ?cmd" by (simp add: be_inv_def mem_ok_def cursor_def)
  then obtain hr b where "read_pcrs12 tbs cbOutput ?cmd (replicate 512 0) [0..<24] \<lparr>be_mem = out, be_cursor = Some 0\<rparr> = Ok (hr, b)"
      "length (be_mem b) = length out"
    using read_pcrs12_returns [OF t _ _ be_inv_fresh [OF out], of ?cmd "replicate 512 0" "[0..<24]"] by fastforce
  then show ?thesis by (simp add: GetPlatformPcrs12_def Let_def)
qed

end
