(* ===== verification/PcpRuns.thy ===== *)
theory PcpRuns
  imports PcpSafe PcpKdf Samples
begin

text \<open>
  A provider of digests and two logs, one in each format, on which the theorems about the PCP tool are
  applied.
\<close>

definition toy_digest :: "nat \<Rightarrow> ByteVec \<Rightarrow> ByteVec" where
  "toy_digest n m = map (\<lambda>i. fold (\<lambda>b a. 31 * a + b) m (of_nat i)) [0..<n]"

definition sample_bc :: Bcrypt where
  "sample_bc = \<lparr>bc_open = \<lambda>_ _. 0, bc_hash_length = \<lambda>alg _. (0, hash_size alg),
     bc_digest = \<lambda>alg key m n. (0, toy_digest (unat n) (case key of None \<Rightarrow> m | Some k \<Rightarrow> k @ m))\<rparr>"

lemma sample_bc_ok: "bc_ok sample_bc"
  by (simp add: bc_ok_def sample_bc_def toy_digest_def HRESULT_FROM_NT_def FAILED_def bit_simps)

definition sample_header :: log_header where
  "sample_header = \<lparr>lh_class = 0, lh_minor = 0, lh_major = 2, lh_errata = 0, lh_uintn = 2,
     lh_table = [(4, 20), (11, 32)], lh_vendor = []\<rparr>"

definition two_digests :: "byte \<Rightarrow> (UINT16 \<times> ByteVec) list" where
  "two_digests b = [(4, replicate 20 b), (11, replicate 32 b)]"

definition sample_events :: "log_event list" where
  "sample_events = [
     \<lparr>ev_pcr = 0, ev_type = 3, ev_digests = two_digests 0, ev_data = TCG_STARTUP_LOCALITY_EVENT_SIGNATURE @ [3]\<rparr>,
     \<lparr>ev_pcr = 0, ev_type = 8, ev_digests = two_digests 1, ev_data = [1, 2]\<rparr>,
     \<lparr>ev_pcr = 7, ev_type = 0x80000001, ev_digests = two_digests 2, ev_data = []\<rparr>,
     \<lparr>ev_pcr = 30, ev_type = 8, ev_digests = two_digests 3, ev_data = [5]\<rparr>,
     \<lparr>ev_pcr = 0, ev_type = 4, ev_digests = two_digests 4, ev_data = [6, 7, 8]\<rparr>]"

lemma sample_sizes:
  "length (log_bytes (Some sample_header) sample_events) = 452" "unat (lf_size (format_of (Some sample_header))) = 32"
  by code_simp+

lemma sample_events_ok: "list_all (event_ok (format_of (Some sample_header))) sample_events"
  by code_simp

lemma sample_header_ok: "header_ok sample_header \<and> table_ok (lh_table sample_header) \<and> sample_events \<noteq> []"
  by code_simp

lemma sample_log_ok: "log_ok (Some sample_header) sample_events"
  using sample_sizes sample_events_ok sample_header_ok by (simp add: log_ok_def list_all_iff)

lemma sample_startup:
  "startup_ok (bc_hash sample_bc (hash_of (format_of (Some sample_header)))) (format_of (Some sample_header))
     (unat (lf_size (format_of (Some sample_header))))
     (replicate (unat (lf_size (format_of (Some sample_header)))) 0) (events_of 0 sample_events)"
  by code_simp

lemma sample_kept: "keep_events 0x80 sample_events \<noteq> []"
  by code_simp

text \<open>A provider with the functions of the sample of OpenSSL.\<close>

definition both_bc :: Bcrypt where
  "both_bc = \<lparr>bc_open = \<lambda>_ _. 0, bc_hash_length = \<lambda>alg _. (0, hash_size alg),
     bc_digest = \<lambda>alg key m n. (0, take (unat n) ((case key of None \<Rightarrow> m | Some k \<Rightarrow> k @ m) @ replicate 64 0))\<rparr>"

lemma both_bc_ok: "bc_ok both_bc"
  by (simp add: bc_ok_def both_bc_def HRESULT_FROM_NT_def FAILED_def bit_simps hash_size_def) (auto simp: min_def)

lemma both_bc_same:
  "bc_hmac both_bc BCRYPT_SHA256_ALGORITHM key m = ossl_hmac sample_ossl TPM_ALG_ID_SHA256 key m"
  "bc_hash both_bc BCRYPT_SHA256_ALGORITHM m = ossl_digest sample_ossl TPM_ALG_ID_SHA256 m"
  by (simp_all add: bc_hmac_def bc_hash_def both_bc_def hash_size_def HashLength_def)

section \<open>An attestation\<close>

text \<open>The values that the log replays to, a quote of PCRs 0 and 7 of the SHA-256 bank, and a signature.\<close>

definition sample_H :: "ByteVec \<Rightarrow> ByteVec" where
  "sample_H = bc_hash sample_bc BCRYPT_SHA256_ALGORITHM"

definition sample_values :: ByteVec where
  "sample_values = concat (map (soft_pcr sample_H (format_of (Some sample_header)) 32 sample_events) [0..<24])"

definition sample_quote :: tpm_quote where
  "sample_quote = \<lparr>q_signer = [1, 2], q_extraData = replicate 20 9, q_clockInfo = replicate 17 0,
     q_firmware = replicate 8 0, q_select = 0x03810000,
     q_digest = sample_H (selected_values 32 0x81 sample_values [0..<24])\<rparr>"

definition sample_attestation :: attestation where
  "sample_attestation = \<lparr>at_alg = Some 11, at_platform = 2, at_extra = [], at_values = sample_values,
     at_quote = quote_bytes 11 sample_quote, at_signature = [7],
     at_log = log_bytes (Some sample_header) sample_events\<rparr>"

text \<open>The values are cut into those of the 24 PCRs.\<close>

lemma length_sample_H: "length (sample_H m) = 32"
  by (simp add: sample_H_def sample_bc_ok hash_size_def)

lemma length_sample_pcr: "length (soft_pcr sample_H (format_of (Some sample_header)) 32 sample_events n) = 32"
proof -
  have step: "length (pcr_step sample_H lf 32 v e) = 32" if "length v = 32" for lf v e
    using that by (simp add: pcr_step_def length_sample_H)
  have "length (foldl (pcr_step sample_H lf 32) v es) = 32" if "length v = 32" for lf v es
    using that by (induction es arbitrary: v) (simp_all add: step)
  then show ?thesis by (simp add: soft_pcr_def pcr_start_def)
qed

lemma pcr_at_concat: "(\<And>x. x \<in> set xs \<Longrightarrow> length (f x) = sz) \<Longrightarrow> n < length xs \<Longrightarrow> pcr_at sz n (concat (map f xs)) = f (xs ! n)"
proof (induction xs arbitrary: n)
  case (Cons x xs)
  then show ?case by (cases n) (auto simp: pcr_at_def)
qed simp

lemma sample_value: "n < 24 \<Longrightarrow> pcr_at 32 n sample_values = soft_pcr sample_H (format_of (Some sample_header)) 32 sample_events n"
  unfolding sample_values_def by (subst pcr_at_concat) (simp_all add: length_sample_pcr)

lemma length_sample_values: "length sample_values = 768"
  unfolding sample_values_def by (simp add: length_concat length_sample_pcr comp_def sum_list_triv)

text \<open>Only PCRs 0 and 7 are extended.\<close>

lemma sample_unselected:
  assumes "n < 24" and "\<not> pcr_selected 0x81 n"
  shows "soft_pcr H (format_of (Some sample_header)) 32 sample_events n \<in> {replicate 32 0, replicate 32 0xff}"
proof -
  have "\<forall>n \<in> set [0..<24]. \<not> pcr_selected 0x81 n \<longrightarrow> events_of n sample_events = []" by code_simp
  then have "events_of n sample_events = []" using assms by simp
  then show ?thesis by (simp add: soft_pcr_def pcr_start_def)
qed

lemma sample_replay:
  "\<forall>n < 24. if pcr_selected 0x81 n then pcr_at 32 n sample_values = soft_pcr sample_H (format_of (Some sample_header)) 32 sample_events n
    else soft_pcr sample_H (format_of (Some sample_header)) 32 sample_events n \<in> {replicate 32 0, replicate 32 0xff}"
  using sample_value sample_unselected by presburger

lemma sample_quote_sel [simp]:
  "quote_mask sample_quote = 0x81" "q_extraData sample_quote = replicate 20 9" "length (q_digest sample_quote) = 32"
  "q_digest sample_quote = sample_H (selected_values 32 0x81 sample_values [0..<24])"
  by (simp_all add: sample_quote_def quote_mask_def length_sample_H ENDIANSWAPUINT32_def)

lemma sample_quote_ok: "quote_ok sample_quote"
  by (simp add: sample_quote_def quote_ok_def short_def length_sample_H)

lemma sample_quote_nonce: "nonce_ok (Some (replicate 20 9)) 20 (q_extraData sample_quote)"
  by (simp add: nonce_ok_def)

lemma sample_quote_covers: "quote_covers sample_bc 11 sample_quote sample_values"
proof -
  have l: "length (q_digest sample_quote) = 32" by (simp add: length_sample_H)
  show ?thesis unfolding quote_covers_def l by (simp add: quote_hash_def bank_size_def sample_H_def)
qed

lemma sample_attestation_sel [simp]:
  "at_quote sample_attestation = quote_bytes 11 sample_quote" "at_platform sample_attestation = 2"
  "at_log sample_attestation = log_bytes (Some sample_header) sample_events" "pcr_alg sample_attestation = 11"
  "at_values sample_attestation = sample_values" "at_signature sample_attestation = [7]"
  by (simp_all add: sample_attestation_def pcr_alg_def)

lemma sample_format: "lf_alg (format_of (Some sample_header)) = 11" "unat (lf_size (format_of (Some sample_header))) = 32"
    "hash_of (format_of (Some sample_header)) = BCRYPT_SHA256_ALGORITHM"
  by code_simp+

lemma sample_attestation_short: "length (attestation_bytes sample_attestation) < 2 ^ 32" "quote_bytes 11 sample_quote \<noteq> []"
proof -
  have "length (quote_bytes 11 sample_quote) = 101"
    by (simp add: quote_bytes_def sized_def length_sample_H) (simp add: sample_quote_def)
  then show "length (attestation_bytes sample_attestation) < 2 ^ 32" "quote_bytes 11 sample_quote \<noteq> []"
    using sample_sizes(1) by (auto simp: length_attestation_bytes length_sample_values)
      (simp add: header_size_def sample_attestation_def)
qed

text \<open>A quote of PCR 0 by a TPM 1.2.\<close>

definition sample_quote12 :: tpm12_quote where
  "sample_quote12 = \<lparr>r_externalData = replicate 20 9, r_select = [1, 0, 0], r_locality = [0],
     r_digest = bc_hash sample_bc BCRYPT_SHA1_ALGORITHM (composite [1, 0, 0] (replicate 480 5)),
     r_version = replicate 13 0, r_vendor = []\<rparr>"

lemma sample_quote12_sel [simp]:
  "r_select sample_quote12 = [1, 0, 0]" "r_externalData sample_quote12 = replicate 20 9"
  "r_digest sample_quote12 = bc_hash sample_bc BCRYPT_SHA1_ALGORITHM (composite [1, 0, 0] (replicate 480 5))"
  by (simp_all add: sample_quote12_def)

lemma sample_quote12_ok: "quote12_ok sample_quote12" "length (quote12_bytes sample_quote12) = 67"
    "quote12_mask (r_select sample_quote12) = 1"
proof -
  have l: "length (bc_hash sample_bc BCRYPT_SHA1_ALGORITHM m) = 20" for m by (simp add: sample_bc_ok hash_size_def)
  show "quote12_ok sample_quote12" by (simp add: quote12_ok_def l) (simp add: sample_quote12_def short_def)
  show "length (quote12_bytes sample_quote12) = 67" by (simp add: quote12_bytes_def l) (simp add: sample_quote12_def sized_def)
  show "quote12_mask (r_select sample_quote12) = 1" by (simp add: quote12_mask_def upt_rec)
qed

text \<open>A TPM that answers every command with 511 bytes of its own.\<close>

definition sample_tbs :: Tbs where
  "sample_tbs = \<lparr>tbs_device = (0, 2), tbs_create = 0, tbs_submit = \<lambda>n cmd. (0, replicate 511 (of_nat n))\<rparr>"

lemma sample_tbs_fits: "tbs_fits sample_tbs"
  by (simp add: tbs_fits_def sample_tbs_def)

section \<open>Input that makes the code leave its buffers\<close>

text \<open>The size of the only element wraps around to 16; its descriptor is looked for behind the log.\<close>

lemma element_size_wraps:
  "WbclApiInitIterator (Some ([0, 0, 0, 0, 3, 0, 0, 0] @ replicate 20 0 @ [0xf0, 0xff, 0xff, 0xff])) 32 blank_iterator = Undef"
  by code_simp

text \<open>The table of the header names algorithm 14, behind the end of \<open>g_WbclAlgotihmIdToBitmapTable\<close>.\<close>

definition algorithm14_log :: ByteVec where
  "algorithm14_log = log_bytes (Some (sample_header\<lparr>lh_table := [(4, 20), (14, 20)]\<rparr>)) []"

lemma algorithm_table_overrun:
  "WbclApiInitIterator (Some algorithm14_log) (of_nat (length algorithm14_log)) blank_iterator = Undef"
  by code_simp

text \<open>A log that ends in its last digest: the size of the data is read from behind it.\<close>

definition cut_log :: ByteVec where
  "cut_log = header_bytes (Some sample_header) @ le_bytes 4 (0 :: UINT32) @ le_bytes 4 (4 :: UINT32) @ le_bytes 4 (2 :: UINT32) @
     digest_entry (4, replicate 20 1) @ digest_entry (11, replicate 32 1)"

lemma data_size_overrun:
  "WbclApiInitIterator (Some cut_log) (of_nat (length cut_log)) blank_iterator = Undef"
  by code_simp

text \<open>The buffer for 24 PCRs is written to before its size is looked at.\<close>

lemma software_PCRs_overrun:
  assumes "cbSwPcr < 20 \<or> length pcrs < 480" and "cbSwPcr \<noteq> 0" and "cbEventLog \<noteq> 0"
  shows "TpmAttiComputeSoftPCRs bc (Some log) cbEventLog TPM_API_ALG_ID_SHA1 (Some pcrs) cbSwPcr = Undef"
  using assms by (simp add: TpmAttiComputeSoftPCRs_def compute_soft_pcrs_def)

text \<open>A header of the second version that stops where the algorithm should be.\<close>

definition bare_header :: ByteVec where
  "bare_header = le_bytes 4 (0x32444150 :: UINT32) @ le_bytes 4 (2 :: UINT32) @ le_bytes 4 (28 :: UINT32) @ replicate 16 0"

lemma attestation_header_overrun:
  "TpmAttValidatePlatformAttestation bc tbs aik pbNonce cbNonce (Some bare_header) 28 = Undef"
proof -
  have "load_blob bare_header = Ok \<lparr>ab_Magic = 0x32444150, ab_Platform = 2, ab_HeaderSize = 28, ab_cbPcrValues = 0,
      ab_cbQuote = 0, ab_cbSignature = 0, ab_cbLog = 0\<rparr>" by code_simp
  moreover have "LOAD32 bare_header 28 = Undef" by code_simp
  ultimately show ?thesis by (simp add: TpmAttValidatePlatformAttestation_def)
qed

text \<open>A nonce that is not of 20 bytes is not compared.\<close>

lemma long_nonce_ignored: "cbNonce \<noteq> 20 \<Longrightarrow> nonce_ok pbNonce cbNonce extra" "cbNonce \<noteq> 20 \<Longrightarrow> nonce12_ok pbNonce cbNonce extra"
  by (simp_all add: nonce_ok_def nonce12_ok_def)

end
