(* ===== verification/MoreLaws.thy ===== *)
theory MoreLaws
  imports EnumText SampleRuns TextLimits WireLimits InlineFn
begin

text \<open>
  Laws of single operations, each with an application of it: text, marshaling and key derivation, the
  cursor of the PCP tool, policy digests.
\<close>

text \<open>Trimming removes all trailing zeros of an authorization value and nothing else.\<close>

theorem trim_zeros:
  "\<exists>k. buf = TrimTrailingZeros buf @ replicate k 0 \<and> \<not> (\<exists>bs. TrimTrailingZeros buf = bs @ [0])"
proof -
  have "trim_size buf n \<le> n" for n by (induction n) auto
  moreover have "take n buf \<noteq> bs @ [0]" if "n \<le> length buf" "n = 0 \<or> buf ! (n - 1) \<noteq> 0" for n bs
    using that by (cases n) (auto simp: take_Suc_conv_app_nth)
  ultimately show ?thesis
    using take_trim_size [of "length buf" buf] by (auto simp: TrimTrailingZeros_def)
qed

text \<open>A number printed in hexadecimal, at any width, reads back as that number.\<close>

theorem hex_roundtrip: "from_hex (to_hex v width) = v"
  by (rule from_hex_to_hex)

text \<open>Every marshaled structure has to fit into the 4096 bytes of a fresh buffer, size prefix included: a longer one is refused with an exception whose message is empty, and no byte is written past the end.\<close>

theorem marshal_capacity:
  "toBytes TPM2B_MAX_BUFFER_toTpm \<lparr>TPM2B_MAX_BUFFER_buffer = bs\<rparr> =
     (if length bs + 2 \<le> 4096 then Ok (enc16 (of_nat (length bs)) @ bs) else Throw (runtime_error ''''))"
  by (rule TPM2B_MAX_BUFFER_capacity)

text \<open>For a number of bits that is not a multiple of eight KDFa never returns: the loop that shifts the result right counts an unsigned index below zero and leaves the vector, unless the shift is by more than seven bits, which is an exception.\<close>

theorem KDFa_partial_byte:
  assumes "ossl_ok ossl" and "IsImplemented ossl a" and "unat n \<le> 2 ^ 31" and "unat n mod 8 \<noteq> 0"
    and "length label + length u + length v + 9 \<le> 4096"
  shows "KDFa ossl a key label u v n \<in> {Undef, Throw (domain_error ''Can only shift up to 7 bits'')}"
  by (rule KDFa_odd_bits [OF assms])

theorem KDFa_partial_byte_witness:
  "KDFa sample_ossl TPM_ALG_ID_SHA256 [1] ''ATH'' [] [] 12 \<in>
     {Undef, Throw (domain_error ''Can only shift up to 7 bits'')}"
  by (rule KDFa_partial_byte) simp_all

text \<open>A buffer that was written with its size prefix is read back where it was written: its size, a pointer to its bytes, and the cursor behind it.\<close>

theorem cursor_write_read:
  assumes "length src = unat n" and "room cb (2 + length src) b" and "mem_ok cb b"
  shows "\<exists>b'. WriteBigEndian2B cb n (Some src) b = (Ok S_OK, b') \<and>
    ReadBigEndian2B cb True (b'\<lparr>be_cursor := be_cursor b\<rparr>) = (Ok (S_OK, Some n, Some (cursor b + 2)), b') \<and>
    take (length src) (drop (unat (cursor b + 2)) (be_mem b')) = src"
  by (rule write_read_2B [OF assms]) blast

theorem cursor_write_read_witness:
  "\<exists>b'. WriteBigEndian2B 8 1 (Some [5]) \<lparr>be_mem = replicate 8 0, be_cursor = Some 1\<rparr> = (Ok S_OK, b') \<and>
     take 1 (drop 3 (be_mem b')) = [5]"
  using cursor_write_read [of "[5]" 1 8 "\<lparr>be_mem = replicate 8 0, be_cursor = Some 1\<rparr>"]
  by (auto simp: room_unat mem_ok_def cursor_def)

text \<open>A policy digest that can be computed is a digest of the algorithm it was asked for, whatever the expression.\<close>

theorem policy_digest_size:
  assumes "ossl_ok ossl" and "IsImplemented ossl alg" and "GetPolicyDigest ossl chain alg = Ok d"
  shows "ha_ok ossl d \<and> TPMT_HA_hashAlg d = alg"
  by (rule GetPolicyDigest_ok [OF assms])

theorem policy_digest_size_witness:
  "\<exists>d. GetPolicyDigest sample_ossl [PolicyAuthValue ''leaf''] TPM_ALG_ID_SHA256 = Ok d \<and>
     ha_ok sample_ossl d \<and> TPMT_HA_hashAlg d = TPM_ALG_ID_SHA256"
proof -
  have "UpdatePolicyDigest sample_ossl (PolicyAuthValue ''leaf'') (TPMT_HA_of_alg TPM_ALG_ID_SHA256) =
      Ok (extended sample_ossl (TPMT_HA_of_alg TPM_ALG_ID_SHA256) (enc32 TPM_CC_PolicyAuthValue))"
    by (rule UpdatePolicyDigest_bytes) (simp_all add: ha_ok_of_alg)
  then show ?thesis
    using policy_digest_size [of sample_ossl TPM_ALG_ID_SHA256 "[PolicyAuthValue ''leaf'']"]
    by (simp add: GetPolicyDigest_def del: UpdatePolicyDigest.simps)
qed

text \<open>The algorithm list of a capability is written to JSON but refused when it is read: its selector TPM_CAP::ALGS is 0, which the reader takes for an empty union, so it expects the end of the object where the data is.\<close>

theorem ALGS_capability_not_read_back:
  assumes "TPML_ALG_PROPERTY_text_ok JsonSerializer x"
  shows "\<exists>str. TpmStructure_Serialize p JsonSerializer ''TPMS_CAPABILITY_DATA''
      (TPMS_CAPABILITY_DATA_Serialize \<lparr>TPMS_CAPABILITY_DATA_data = Some (CAPABILITIES_TPML_ALG_PROPERTY x)\<rparr>) = Ok str \<and>
    TpmStructure_Deserialize p JsonSerializer str ''TPMS_CAPABILITY_DATA''
      (TPMS_CAPABILITY_DATA_Deserialize TPMS_CAPABILITY_DATA_default) = Throw (throwMissingAt ''}'' 22)"
  by (rule ALGS_capability_refused [OF assms])

theorem ALGS_capability_not_read_back_witness:
  "\<exists>str. TpmStructure_Deserialize (\<lambda>_. True) JsonSerializer str ''TPMS_CAPABILITY_DATA''
      (TPMS_CAPABILITY_DATA_Deserialize TPMS_CAPABILITY_DATA_default) = Throw (throwMissingAt ''}'' 22)"
  using ALGS_capability_not_read_back [OF sample_property_text, of "\<lambda>_. True"] by blast

text \<open>A capability answer about the audited commands is read correctly, but it does not remember its selector: marshaled again it is labelled as the list of commands that need physical presence.\<close>

theorem audit_commands_relabelled:
  assumes "length ccs < 1000"
  shows "\<exists>x. fromBytes TPMS_CAPABILITY_DATA_initFromTpm TPMS_CAPABILITY_DATA_default
        (enc32 TPM_CAP_AUDIT_COMMANDS @ TPML_CC_enc \<lparr>TPML_CC_commandCodes = ccs\<rparr>) = Ok x \<and>
      toBytes TPMS_CAPABILITY_DATA_toTpm x =
        Ok (enc32 TPM_CAP_PP_COMMANDS @ TPML_CC_enc \<lparr>TPML_CC_commandCodes = ccs\<rparr>)"
  by (rule capability_audit_commands [OF assms])

theorem audit_commands_relabelled_witness:
  "\<exists>x. fromBytes TPMS_CAPABILITY_DATA_initFromTpm TPMS_CAPABILITY_DATA_default
        (enc32 TPM_CAP_AUDIT_COMMANDS @ TPML_CC_enc \<lparr>TPML_CC_commandCodes = [TPM_CC_Clear]\<rparr>) = Ok x \<and>
      toBytes TPMS_CAPABILITY_DATA_toTpm x =
        Ok (enc32 TPM_CAP_PP_COMMANDS @ TPML_CC_enc \<lparr>TPML_CC_commandCodes = [TPM_CC_Clear]\<rparr>)"
  by (rule audit_commands_relabelled) simp

text \<open>The key of a bound or salted session is one HMAC, keyed with the bound object's authorization value (without its trailing zeros) followed by the salt, over the label ATH and the two nonces; a session that is neither has no key.\<close>

theorem session_key_derivation:
  assumes "ossl_ok ossl" and "IsImplemented ossl (as_HashAlg s)" and "nonces_ok s" and "as_SessionKey s = []"
  shows "CalcSessionKey ossl s =
    (if as_Salt s = [] \<and> TPM_HANDLE_handle (as_BindObject s) = TPM_RH_NULL then Ok s
     else Ok (s\<lparr>as_SessionKey := ossl_hmac ossl (as_HashAlg s)
       (TrimTrailingZeros (TPM_HANDLE_AuthValue (as_BindObject s)) @ as_Salt s)
       (enc32 1 @ map of_char ''ATH'' @ [0] @ as_NonceTpm s @ as_NonceCaller s @
        enc32 (ucast (HashLength (as_HashAlg s)) * 8))\<rparr>))"
  using CalcSessionKey_none [OF assms(4)] CalcSessionKey_bound [OF assms]
  unfolding session_key_def by auto

theorem session_key_derivation_witness:
  "\<exists>k. CalcSessionKey sample_ossl sample_session = Ok (sample_session\<lparr>as_SessionKey := k\<rparr>)"
  using session_key_derivation [of sample_ossl sample_session]
  by (auto simp: sample_session_def nonces_ok_def)

text \<open>A list of command codes is written to JSON but never read back, not even the empty one: the vector version of readEnumArr asks twice for the size only, going back to the same place, and the second time a comma is expected in front of it, so reading ends with an exception.\<close>

theorem enum_arrays_not_read_back:
  "\<exists>str. TpmStructure_Serialize p JsonSerializer ''TPML_CC'' (TPML_CC_Serialize x) = Ok str \<and>
     TpmStructure_Deserialize p JsonSerializer str ''TPML_CC'' (TPML_CC_Deserialize y) = Throw (throwMissingAt '','' 6)"
  unfolding TPML_CC_Serialize_def TPML_CC_Deserialize_def by (rule enum_array_refused) (simp_all add: word_simps)

end
