(* ===== verification/Spec2Isabelle.thy ===== *)
theory Spec2Isabelle
  imports InlineFn EnumText PolicyDigest WireLimits SampleRuns
    Tpm2Encryption Tpm2Methods Tpm2MethodsMore Tpm2Async Tpm2Complete 
    TextObjectCommands TextCryptoCommands TextAttestCommands TextPolicyCommands TextAdminCommands TextNvCommands
    TextLimits Tpm2SyncAsync Canonical
    PcpSafe PcpQuote12Laws PcpRuns MoreLaws Tpm2Sessions
begin

text \<open>
  A model of the C++ library of the TPM Software Stack, \<^verbatim>\<open>src/TSS.CPP\<close>, and of the part
  of the PCP tool, \<^verbatim>\<open>src/PCPTool.v11\<close>, that decides whether the attestation of a platform is to be trusted.

  \<^bold>\<open>The program.\<close> A client of TSS.C++ calls a method of the class \<open>Tpm2\<close>. The arguments are put in a request
  structure, marshaled to the TPM's wire format, accompanied by one authorization for each session,
  and sent to a device; the response is unmarshaled, the authorizations in it are checked, and a
  response structure comes back, or an exception. The parts are

  \<^item> \<^verbatim>\<open>Helpers.h\<close>, \<^verbatim>\<open>TpmHelpers.cpp\<close>: integers and byte vectors (theory \<open>Helpers\<close>),
    enumerators and hexadecimal numbers as text (\<open>EnumText\<close>, with the tables of names in \<open>EnumMaps\<close>);
  \<^item> \<^verbatim>\<open>TpmMarshal.h\<close>: \<open>TpmBuffer\<close>, the buffer with a position, a status and a stack of size-prefixed
    areas (theory \<open>TpmMarshal\<close>);
  \<^item> \<^verbatim>\<open>TpmStructure.h/.cpp\<close>: the base class of everything marshaled (theory \<open>TpmStructure\<close>);
  \<^item> \<^verbatim>\<open>TpmTypes.h/.cpp\<close>: the constants, structures, unions, commands and responses of the TPM
    specification (theories \<open>TpmEnums\<close>, \<open>Tpm*Types\<close>, \<open>Tpm*Commands\<close>);
  \<^item> \<^verbatim>\<open>Serialize.h/.cpp\<close>: the JSON and the plain text serializer (theory \<open>Serialize\<close>, with its laws in
    \<open>SerializeLaws\<close>), and the \<open>Serialize\<close> and \<open>Deserialize\<close> methods of every structure (theories \<open>TextCodec\<close>,
    \<open>Text*Types\<close>, \<open>Text*Commands\<close>);
  \<^item> \<^verbatim>\<open>Crypto.cpp\<close>: digests, HMAC, the key derivation function, CFB encryption (\<open>Crypto\<close>, \<open>CryptoOps\<close>);
  \<^item> \<^verbatim>\<open>TpmAuthSessions.cpp\<close>: sessions (theory \<open>AuthSession\<close>) and how they are started (\<open>Tpm2Sessions\<close>);
  \<^item> \<^verbatim>\<open>TpmTypeExtensions.cpp\<close>: handles, PCR selections, hash values, public areas and the validation of
    attestations (theory \<open>TypeExtensions\<close>); salts, credentials and duplicated objects, which are wrapped
    in software for a TPM to open (\<open>TypeBlobs\<close>);
  \<^item> \<^verbatim>\<open>Tpm2.cpp\<close>: the dispatcher of commands (theories \<open>Tpm2Dispatch\<close>, \<open>Tpm2Behaviour\<close>, \<open>Tpm2Command\<close>,
    \<open>Tpm2Progress\<close>, \<open>Tpm2Encryption\<close>, \<open>Tpm2Responses\<close>);
  \<^item> the methods of \<open>Tpm2\<close> for the single commands, in \<^verbatim>\<open>TpmTypes.cpp\<close> (theories \<open>Tpm2Calls\<close>, \<open>Tpm2Methods\<close>,
    \<open>Tpm2MethodsMore\<close>), and those that send a command and take in its response separately (\<open>Tpm2Async\<close>,
    \<open>Tpm2Complete\<close>);
  \<^item> \<^verbatim>\<open>TpmPolicy.h/.cpp\<close>: policies: their digests (theories \<open>TpmPolicy\<close>, \<open>PolicyDigest\<close>) and their
    execution on a TPM (\<open>PolicyExecute\<close>, \<open>PolicyRefinement\<close>);
  \<^item> \<^verbatim>\<open>InlineFn.h\<close>: the cursor through raw memory of the PCP tool (theory \<open>InlineFn\<close>; sequences of its operations
    that stop at the first failure in \<open>PcpParse\<close>);
  \<^item> \<^verbatim>\<open>PCPWbcl.cpp\<close>: the iterator over a measured-boot log (\<open>PcpWbcl\<close>), on which the replay of a log into software
    PCRs and the filter of \<^verbatim>\<open>AttestationApi.cpp\<close> work (\<open>PcpLog\<close>);
  \<^item> \<^verbatim>\<open>TPM20.cpp\<close>, \<^verbatim>\<open>Tpm12.cpp\<close>: key derivation and names (\<open>PcpKdf\<close>), the validation of quotes (\<open>PcpQuote\<close>) and
    the reading of the PCRs of a TPM; \<open>TpmAttValidatePlatformAttestation\<close>, which puts them together, is in \<open>PcpAttest\<close>.

  \<^bold>\<open>How the code is modelled.\<close> A class is a record, a union an option of a datatype (the null pointer is
  \<open>None\<close>), an enumerator a number of its width. Fallible code returns an \<open>outcome\<close>: a value, a C++
  exception, a failed assertion (\<open>_ASSERT\<close>; the model is that of a build with assertions, which the release flags
  of \<^verbatim>\<open>TSS.CPP/Makefile\<close> compile out: \<open>fromBytes_NDEBUG\<close> is what is left of \<open>fromBytes\<close> then), or \<open>Undef\<close> for an access outside a vector or through a null pointer
  and for a loop that leaves its vector. Code that works on a \<open>TpmBuffer\<close> is a function of type \<open>tpm\<close>, a state
  monad over the buffer; the methods of \<open>Tpm2\<close> are functions of type \<open>tp\<close>, which keep the state when an
  exception leaves them, as C++ does. Integers keep their width; \<open>size_t\<close> is a natural number where no
  wrap-around can happen, and 64 bits wide where it does (\<open>getCurStuctRemainingSize\<close>). A state that loops through the
  device is a \<open>partial_function (option)\<close>: \<open>Dispatch = None\<close> is the loop that never ends.

  OpenSSL and the device are not under \<^verbatim>\<open>src\<close> in a form that could be read as C++ of this library; they
  are the parameters \<open>Openssl\<close> (digest, HMAC, CFB encryption, random bytes, signature verification), \<open>rsa_oaep\<close>
  (RSA encryption with OAEP) and \<open>TpmDevice\<close>.
  The hypothesis \<open>ossl_ok\<close> states what the library relies on: digests and HMACs have their algorithm's
  size, and CFB decryption inverts encryption of the same length; \<open>oaep_ok\<close> says that the private key, which only the
  TPM has, undoes an encryption with the same modulus, exponent, hash algorithm and label. The TPM decrypts with the name
  algorithm and the exponent of the key; \<open>RsaEncrypt\<close> always encrypts over SHA-1 with the exponent 65537, so what is
  wrapped for a TPM is proved to be opened for such keys only (\<open>sha1_key\<close>, \<open>rsa_key_ok\<close>). Windows' BCrypt and TBS are the parameters \<open>Bcrypt\<close> and
  \<open>Tbs\<close> of the PCP tool; \<open>bc_ok\<close> says that the hash functions are there and have the sizes of their algorithms,
  \<open>tbs_fits\<close> that a response fits in the buffer it is asked for.

  \<^bold>\<open>The lemmas.\<close> For every structure the generated theories prove the contract of the locale \<open>tpm_codec\<close>:
  a valid value is written as \<open>T_enc x\<close>, and reading \<open>T_enc x\<close>, whatever follows, restores \<open>x\<close>. The locale
  gives the round trip through \<open>toBytes\<close> and \<open>fromBytes\<close>, injectivity and prefix freedom; \<open>tpm_body\<close>
  does the same for the bodies of size-prefixed areas. \<open>Accepts\<close> has the converse contract, that a reader accepts
  nothing else, and \<open>Canonical\<close> proves it for the public area of a key. For the text formats the locales
  \<open>text_codec\<close> and \<open>text_union\<close> of \<open>TextCodec\<close> do what \<open>tpm_codec\<close> does for the wire format; \<open>T_text_ok c\<close> are the
  values that the format \<open>c\<close> can carry, and \<open>TextLimits\<close> shows what it cannot. \<open>PolicyRefinement\<close> relates the
  execution of a policy to its digest for a TPM that keeps the policy digest of a session as the specification
  says and may refuse any command (\<open>policy_tpm\<close>, which is about the well-formed policy commands only); \<open>Tpm2SyncAsync\<close>
  relates the synchronous commands to the asynchronous ones, and lists the methods that take in a response
  (\<open>complete_methods\<close>).
  \<open>TypeBlobs\<close> and \<open>Tpm2Sessions\<close> describe the TPM's side of credentials, duplication and salted sessions after the
  specification (\<open>activate_credential\<close>, \<open>import_object\<close>, \<open>tpm_session_key\<close>) and show that it gets what software put in;
  \<open>Tpm2Sessions\<close> also has the authorization that Part 1 of the specification asks for (\<open>session_command\<close>,
  \<open>tpm_command_hmac\<close>) and shows that a command with a session is sent with it. \<open>Samples\<close> and \<open>SampleRuns\<close>
   hold the concrete inputs of the examples. In \<open>InlineFn\<close>
  the locale \<open>be_number\<close> holds the contract of the big-endian readers and writers at their three widths. For the PCP
  tool \<open>PcpWbclLaws\<close> describes the bytes of a log (\<open>log_bytes\<close>) and shows that the iterator visits its events,
  \<open>PcpLogLaws\<close> that a replay computes \<open>soft_pcr\<close> and that a filtered log replays alike; \<open>PcpQuoteLaws\<close> and
  \<open>PcpQuote12Laws\<close> say which quotes are accepted, \<open>PcpAttestLaws\<close> which attestations; \<open>PcpSafe\<close> shows that input of
  any shape leads to a result; \<open>PcpKdf\<close> compares the tool with TSS.C++; \<open>PcpRuns\<close> holds examples,
  input that leaves the buffers among them. \<open>MoreLaws\<close> collects laws of single operations. The theories of
  the components hold the lemmas on each operation; this theory states the properties that matter to
  a user of the library, and how the components work together.

  \<^bold>\<open>Bounds.\<close> A \<open>TpmBuffer\<close> has 4096 bytes, as in the code; every theorem on marshaling says what happens beyond.
  No fuel is used: every loop is a structural recursion or a \<open>partial_function\<close>.

  \<^bold>\<open>Not modelled.\<close> The sockets and device files of \<^verbatim>\<open>TpmDevice.cpp\<close>; the arithmetic of RSA and ECC in OpenSSL;
  constructors that only store their arguments, and \<open>Clone\<close>; a structure that is left
  half filled by an exception; the samples; the bundled
  OpenSSL headers; of the PCP tool what keeps keys in NCrypt, builds the other commands by hand
  (certification, activation, key import), and its command line program; and the libraries of the other languages.
\<close>

unbundle bit_operations_syntax

text \<open>
  C1: A public area whose unions agree on the object type is marshaled to its wire format, or refused
  with an exception if that exceeds the 4096 bytes of a buffer; unmarshaling the format restores the
  public area exactly, and any bytes after it fail the assertion on the position.
\<close>

theorem TPMT_PUBLIC_wire_roundtrip:
  assumes "TPMT_PUBLIC_valid x"
  shows "toBytes TPMT_PUBLIC_toTpm x =
      (if length (TPMT_PUBLIC_enc x) \<le> 4096 then Ok (TPMT_PUBLIC_enc x) else Throw (runtime_error '''')) \<and>
    fromBytes TPMT_PUBLIC_initFromTpm TPMT_PUBLIC_default (TPMT_PUBLIC_enc x @ rest) =
      (if rest = [] then Ok x else AssertFailed)"
  by (intro conjI TPMT_PUBLIC_codec.toBytes_enc TPMT_PUBLIC_codec.fromBytes_enc assms)

theorem TPMT_PUBLIC_wire_roundtrip_witness:
  "toBytes TPMT_PUBLIC_toTpm sample_key = Ok (TPMT_PUBLIC_enc sample_key) \<and>
   fromBytes TPMT_PUBLIC_initFromTpm TPMT_PUBLIC_default (TPMT_PUBLIC_enc sample_key) = Ok sample_key"
  using TPMT_PUBLIC_wire_roundtrip [OF sample_key_valid, of "[]"] by simp

text \<open>
  C2: The bytes that are hashed and signed for an attestation determine it: two attestations, marshaled
  and followed by whatever bytes, can only be the same bytes if they are the same attestation.
\<close>

theorem TPMS_ATTEST_unambiguous:
  assumes "TPMS_ATTEST_valid x" and "TPMS_ATTEST_valid y"
    and "toBytes TPMS_ATTEST_toTpm x = Ok a" and "toBytes TPMS_ATTEST_toTpm y = Ok b" and "a @ r = b @ s"
  shows "x = y \<and> r = s"
  using assms TPMS_ATTEST_codec.enc_prefix_free [of x y r s]
  by (auto simp: TPMS_ATTEST_codec.toBytes_enc split: if_splits)

theorem TPMS_ATTEST_unambiguous_witness:
  "\<exists>a. toBytes TPMS_ATTEST_toTpm sample_attest = Ok a \<and> sample_attest = sample_attest \<and> [9] = ([9] :: ByteVec)"
  using TPMS_ATTEST_unambiguous [OF sample_attest_valid sample_attest_valid _ _ refl, of "TPMS_ATTEST_enc sample_attest" "[9]"]
  by (simp add: TPMS_ATTEST_codec.toBytes_enc)

text \<open>
  C3: The size prefix of a byte buffer is not checked against what is left of the input: when it
  announces more bytes than there are, readSizedByteBuf constructs a vector from beyond the end of
  the buffer instead of throwing.
\<close>

theorem sized_buffer_reads_past_end:
  assumes "length bs < unat n"
  shows "fromBytes TPM2B_DIGEST_initFromTpm TPM2B_DIGEST_default (enc16 n @ bs) = Undef"
  by (rule TPM2B_DIGEST_short [OF assms])

theorem sized_buffer_reads_past_end_witness:
  "fromBytes TPM2B_DIGEST_initFromTpm TPM2B_DIGEST_default (enc16 3 @ [1, 2]) = Undef"
  by (rule sized_buffer_reads_past_end) simp

text \<open>
  C4: For a whole number of bytes of at most 2^31 bits, and a label and contexts that fit with the 9
  bytes of counter, zero and length into the 4096-byte buffer, KDFa is the prefix of the
  concatenated HMACs over the counter, the label with its terminating zero, both contexts and the
  number of bits, as SP 800-108 in counter mode prescribes: within these bounds none of its 32-bit
  computations wraps. (Near 2^32 bits the sum that rounds the number of loops up does.)
\<close>

theorem KDFa_is_counter_stream:
  assumes "ossl_ok ossl" and "IsImplemented ossl a" and "unat n \<le> 2 ^ 31" and "unat n mod 8 = 0"
    and "length label + length u + length v + 9 \<le> 4096"
  shows "KDFa ossl a key label u v n = Ok (take (unat n div 8) (kdf_stream ossl a key label u v n
    ((unat n + 8 * unat (HashLength a) - 1) div (8 * unat (HashLength a)))))"
  by (rule KDFa_bytes [OF assms])

theorem KDFa_is_counter_stream_witness:
  "KDFa sample_ossl TPM_ALG_ID_SHA256 [1] ''ATH'' [] [] 256 =
     Ok (take 32 (kdf_stream sample_ossl TPM_ALG_ID_SHA256 [1] ''ATH'' [] [] 256 1))"
  using KDFa_is_counter_stream [of sample_ossl TPM_ALG_ID_SHA256 256 "''ATH''" "[]" "[]" "[1]"]
  by (simp add: HashLength_def)

text \<open>
  C5: A session that is salted with EncryptSessionSalt, or bound, or neither, and started with
  StartAuthSession, the salt key being one whose name algorithm is SHA-1 and whose exponent is 65537
  (the code encrypts for these whatever the key says) and the salt no longer than a SHA-1 digest:
  the TPM is sent the command of the specification with a fresh nonce of the size of a digest, and
  the session that comes back has the handle and the nonce that the TPM answered with, and the key
  that the TPM derives from the salt it decrypts and the authorization value it keeps for the bound
  entity.
\<close>

theorem salted_session_agrees:
  assumes "ossl_ok ossl" and "IsImplemented ossl authHash"
    and "idle t" and "tp_EncSession t = None" and "tp_device t = Some d"
    and "salt_of rsa saltPub salt encryptedSalt" and "rsa_key_ok rsa unseal saltPub" and "sha1_key saltPub"
    and "length salt \<le> 20"
    and "auth (TPM_HANDLE_handle bindHandle) = TrimTrailingZeros (TPM_HANDLE_AuthValue (SetRhAuthValue t bindHandle))"
    and "TPMT_SYM_DEF_valid symDef" and "length nonceTPM \<le> 64"
    and "answers dev d (start_command saltKey bindHandle (ossl_rand ossl (tp_rands t) (unat (HashLength authHash)))
      encryptedSalt sessionType symDef authHash) (start_answer h nonceTPM) d'"
  shows "\<exists>s t'. StartAuthSession_salted ossl dev saltKey bindHandle sessionType authHash attr symDef salt encryptedSalt t =
      Some (Ok s, t') \<and> idle t' \<and> tp_device t' = Some d' \<and> as_SessionInitted s \<and>
    as_handle s = TPM_HANDLE_of h \<and> as_NonceTpm s = nonceTPM \<and> as_SessionAttributes s = attr \<and> as_Symmetric s = symDef \<and>
    tpm_session_key ossl unseal (TPMT_PUBLIC_nameAlg saltPub) auth authHash (TPM_HANDLE_handle bindHandle) nonceTPM
      (as_NonceCaller s) encryptedSalt = Some (as_SessionKey s)"
  by (rule StartAuthSession_agrees) (use assms in simp_all)

theorem salted_session_agrees_witness:
  "\<exists>e s t'. EncryptSessionSalt sample_rsa sample_parent [9, 8] = Ok e \<and>
    StartAuthSession_salted sample_ossl (sample_dev (start_answer 0x2000001 [4])) (TPM_HANDLE_of 0x80000001)
      TPM_HANDLE_default TPM_SE_HMAC TPM_ALG_ID_SHA256 TPMA_SESSION_continueSession no_sym_def [9, 8] e sample_tpm =
      Some (Ok s, t') \<and> as_handle s = TPM_HANDLE_of 0x2000001 \<and>
    tpm_session_key sample_ossl sample_unseal TPM_ALG_ID_SHA1 (\<lambda>_. []) TPM_ALG_ID_SHA256 TPM_RH_NULL [4]
      (as_NonceCaller s) e = Some (as_SessionKey s)"
proof -
  let ?dev = "sample_dev (start_answer 0x2000001 [4])"
  obtain e where e: "EncryptSessionSalt sample_rsa sample_parent [9, 8] = Ok e" "e \<noteq> []" using sample_salt by blast
  have t: "idle sample_tpm" "tp_EncSession sample_tpm = None" "tp_device sample_tpm = Some ()"
    by (simp_all add: idle_def sample_client_def)
  have sym: "TPMT_SYM_DEF_valid no_sym_def" by (simp add: no_sym_def_def TPMT_SYM_DEF_valid_def)
  have auth: "(\<lambda>_. []) (TPM_HANDLE_handle TPM_HANDLE_default) =
      TrimTrailingZeros (TPM_HANDLE_AuthValue (SetRhAuthValue sample_tpm TPM_HANDLE_default))"
    by (simp only: SetRhAuthValue_default) (simp add: TPM_HANDLE_default_def TrimTrailingZeros_def)
  have dev: "answers ?dev () cmd (start_answer 0x2000001 [4]) ()" for cmd
    by (simp add: answers_def sample_dev_def ret_app)
  have salt: "salt_of sample_rsa sample_parent [9, 8] e" using e by (simp add: salt_of_def)
  show ?thesis
    using salted_session_agrees [OF sample_ossl_ok sample_implements(1) t salt sample_parent_ok(1,3) _ auth sym _ dev,
        of "TPM_HANDLE_of 0x80000001" TPM_SE_HMAC TPMA_SESSION_continueSession] e(1)
    by (auto simp: TPM_HANDLE_default_def)
qed







text \<open>
  C9: What one side encrypts as the first parameter, the other side, which holds the same session with
  the nonces exchanged, decrypts to the same bytes.
\<close>

theorem parameter_encryption_peer:
  assumes "ossl_ok ossl" and "ParamXcrypt ossl s parm True = Ok c"
  shows "length c = length parm \<and> ParamXcrypt ossl (peer s) c False = Ok parm"
  by (rule ParamXcrypt_peer [OF assms])

theorem parameter_encryption_peer_witness:
  "\<exists>c. ParamXcrypt sample_ossl sample_session [1, 2, 3] True = Ok c \<and>
     ParamXcrypt sample_ossl (peer sample_session) c False = Ok [1, 2, 3]"
proof -
  have "aes_cfb 128 sample_session" by (simp add: aes_cfb_def sample_session_def)
  moreover have "nonces_ok sample_session" by (simp add: nonces_ok_def sample_session_def)
  ultimately obtain c where "ParamXcrypt sample_ossl sample_session [1, 2, 3] True = Ok c"
    using ParamXcrypt_128 [of sample_ossl sample_session "[1, 2, 3]" True] by (auto simp: sample_session_def)
  then show ?thesis using parameter_encryption_peer [of sample_ossl] by auto
qed

text \<open>
  C10: With a 256-bit AES session key nothing of the derived key material is left for the initialisation
  vector, which is then zero for every command of the session.
\<close>

theorem aes256_zero_iv:
  assumes "ossl_ok ossl" and "IsImplemented ossl (as_HashAlg s)" and "nonces_ok s" and "aes_cfb 256 s"
    and "parm \<noteq> []"
  shows "ParamXcrypt ossl s parm d =
    Ok (ossl_cfb128 ossl d (xcrypt_stream ossl s d) (replicate 16 0) parm)"
  by (rule ParamXcrypt_256 [OF assms])

theorem aes256_zero_iv_witness:
  "\<exists>k. ParamXcrypt sample_ossl (sample_session\<lparr>as_Symmetric := \<lparr>TPMT_SYM_DEF_algorithm = TPM_ALG_ID_AES,
       TPMT_SYM_DEF_keyBits = 256, TPMT_SYM_DEF_mode = TPM_ALG_ID_CFB\<rparr>\<rparr>) [1] True =
     Ok (ossl_cfb128 sample_ossl True k (replicate 16 0) [1])"
  using aes256_zero_iv [of sample_ossl "sample_session\<lparr>as_Symmetric := \<lparr>TPMT_SYM_DEF_algorithm = TPM_ALG_ID_AES,
       TPMT_SYM_DEF_keyBits = 256, TPMT_SYM_DEF_mode = TPM_ALG_ID_CFB\<rparr>\<rparr>" "[1]" True]
  by (auto simp: sample_session_def nonces_ok_def aes_cfb_def)

text \<open>
  C11: A quote is only accepted if its wire form carries the TPM's magic number and the caller's nonce,
  is signed with the key under its own hash algorithm, and states the PCR selection and the hash of
  the PCR values that were passed.
\<close>

theorem attested_quote:
  assumes "ValidateQuote ossl self e N q = Ok True" and "TPMS_ATTEST_valid (QuoteResponse_quoted q)"
  shows "\<exists>alg info. attested_by ossl self N (QuoteResponse_quoted q) (QuoteResponse_signature q) alg \<and>
     TPMS_ATTEST_attested (QuoteResponse_quoted q) = Some (ATTEST_TPMS_QUOTE_INFO info) \<and>
     vectors_eq TPMS_PCR_SELECTION_toTpm (TPMS_QUOTE_INFO_pcrSelect info)
       (PCR_ReadResponse_pcrSelectionOut e) = Ok True \<and>
     HashPcrs ossl alg (map TPM2B_DIGEST_buffer (PCR_ReadResponse_pcrValues e)) =
       Ok (TPMS_QUOTE_INFO_pcrDigest info)"
  by (rule ValidateQuote_True [OF assms])

theorem attested_quote_witness:
  "attested_by sample_ossl sample_key [1, 2, 3] sample_attest sample_signature TPM_ALG_ID_SHA256"
proof -
  from attested_quote [OF sample_quote_accepted [of 0]] show ?thesis by (auto simp: attested_by_def)
qed

text \<open>
  C12: Which platform attestations the PCP tool accepts, with an attestation key and the log of some
  events: exactly those whose signature verifies over the SHA-1 digest of the quote, whose quote is
  the marshaled structure of TPM2_Quote with the nonce, if the caller gives one of 20 bytes, and
  with the digest of the selected PCR values of the attestation, and whose log replays to these
  values, while every PCR that is not selected replays to its value after a reset. A nonce of any
  other size is not compared with the quote at all, although the tool documents the nonce as its
  check of freshness.
\<close>

theorem accepted_attestation:
  fixes a :: attestation
  assumes "bc_ok bc" and "log_ok oh es" and "length (attestation_bytes a) < 2 ^ 32"
    and "at_quote a \<noteq> []" and "at_platform a = 2" and "at_log a = log_bytes oh es" and "lf_alg (format_of oh) = pcr_alg a"
    and "length (at_values a) = 24 * bank_size (pcr_alg a)"
    and "startup_ok (bc_hash bc (hash_of (format_of oh))) (format_of oh) (bank_size (pcr_alg a))
      (replicate (bank_size (pcr_alg a)) 0) (events_of 0 es)"
  shows "TpmAttValidatePlatformAttestation bc tbs (Some aik) pbNonce cbNonce (Some (attestation_bytes a))
      (of_nat (length (attestation_bytes a))) = Ok S_OK \<longleftrightarrow>
    \<not> FAILED (HRESULT_FROM_NT (aik (bc_hash bc BCRYPT_SHA1_ALGORITHM (at_quote a)) (at_signature a))) \<and>
    (\<exists>q. at_quote a = quote_bytes (pcr_alg a) q \<and> quote_ok q \<and> nonce_ok pbNonce cbNonce (q_extraData q) \<and>
      quote_covers bc (pcr_alg a) q (at_values a) \<and>
      (\<forall>n < 24. let sz = bank_size (pcr_alg a); v = soft_pcr (bc_hash bc (hash_of (format_of oh))) (format_of oh) sz es n in
        if pcr_selected (quote_mask q) n then pcr_at sz n (at_values a) = v
        else v \<in> {replicate sz 0, replicate sz 0xff}))"
  unfolding Let_def by (rule attestation_accepted [OF assms])

theorem accepted_attestation_witness:
  "TpmAttValidatePlatformAttestation sample_bc sample_tbs (Some (\<lambda>d s. if s = [7] then 0 else 0xC0000001))
     (Some (replicate 20 9)) 20 (Some (attestation_bytes sample_attestation))
     (of_nat (length (attestation_bytes sample_attestation))) = Ok S_OK"
proof -
  have st: "startup_ok (bc_hash sample_bc (hash_of (format_of (Some sample_header)))) (format_of (Some sample_header))
      (bank_size (pcr_alg sample_attestation)) (replicate (bank_size (pcr_alg sample_attestation)) 0) (events_of 0 sample_events)"
    using sample_startup by (simp add: sample_format bank_size_def)
  have s: "\<not> FAILED (HRESULT_FROM_NT 0)" by code_simp
  have sz: "bank_size 11 = 32" by (simp add: bank_size_def)
  have f: "at_quote sample_attestation \<noteq> []" "at_platform sample_attestation = 2"
      "at_log sample_attestation = log_bytes (Some sample_header) sample_events"
      "lf_alg (format_of (Some sample_header)) = pcr_alg sample_attestation"
      "length (at_values sample_attestation) = 24 * bank_size (pcr_alg sample_attestation)"
    using sample_attestation_short(2) by (simp_all add: sample_format length_sample_values sz)
  show ?thesis
    unfolding accepted_attestation [OF sample_bc_ok sample_log_ok sample_attestation_short(1) f st]
      Let_def sample_attestation_sel sample_format sz
    by (intro conjI exI [of _ sample_quote])
      (use s sample_quote_ok sample_quote_nonce sample_quote_covers sample_replay [unfolded sample_H_def]
        in \<open>simp_all del: insert_iff split del: if_split\<close>)
qed

text \<open>
  C13: The filtered log stands for the original: replaying what TpmAttiFilterLog keeps gives the PCRs of
  the mask the values, and the mask of extended PCRs the bits, that replaying the whole log gives,
  and leaves the other PCRs at their start value.
\<close>

theorem filtered_log_same_PCRs:
  assumes "bc_ok bc" and "log_ok oh es"
    and "startup_ok (bc_hash bc (hash_of (format_of oh))) (format_of oh) (unat (lf_size (format_of oh)))
      (replicate (unat (lf_size (format_of oh))) 0) (events_of 0 es)"
    and "24 * unat (lf_size (format_of oh)) \<le> unat cbSwPcr" and "24 * unat (lf_size (format_of oh)) \<le> length pcrs"
    and "keep_events pcrMask es \<noteq> []" and "oh = None \<Longrightarrow> \<not> looks_like_header (hd (keep_events pcrMask es))"
    and "length (log_bytes oh es) \<le> unat cbOutput" and "unat cbOutput \<le> length out"
  shows "\<exists>n out' pcrs1 mask1 pcrs2 mask2.
    TpmAttiFilterLog (Some (log_bytes oh es)) (of_nat (length (log_bytes oh es))) pcrMask (Some out) cbOutput = Ok (S_OK, n, out') \<and>
    TpmAttiComputeSoftPCRs bc (Some (log_bytes oh es)) (of_nat (length (log_bytes oh es))) (lf_alg (format_of oh)) (Some pcrs) cbSwPcr =
      Ok (S_OK, pcrs1, mask1) \<and>
    TpmAttiComputeSoftPCRs bc (Some (take (unat n) out')) n (lf_alg (format_of oh)) (Some pcrs) cbSwPcr = Ok (S_OK, pcrs2, mask2) \<and>
    (\<forall>i < 24. let sz = unat (lf_size (format_of oh)) in
      pcr_at sz i pcrs2 = (if bit pcrMask i then pcr_at sz i pcrs1 else pcr_start sz i)) \<and>
    (\<forall>i < 24. bit mask2 i \<longleftrightarrow> bit pcrMask i \<and> bit mask1 i)"
  unfolding Let_def by (rule filtered_log_replay [OF assms])

theorem filtered_log_same_PCRs_witness:
  "\<exists>n out' pcrs1 mask1 pcrs2 mask2.
    TpmAttiFilterLog (Some (log_bytes (Some sample_header) sample_events)) (of_nat (length (log_bytes (Some sample_header) sample_events)))
      0x80 (Some (replicate 452 0)) 452 = Ok (S_OK, n, out') \<and>
    TpmAttiComputeSoftPCRs sample_bc (Some (log_bytes (Some sample_header) sample_events))
      (of_nat (length (log_bytes (Some sample_header) sample_events))) 11 (Some (replicate 768 0)) 768 = Ok (S_OK, pcrs1, mask1) \<and>
    TpmAttiComputeSoftPCRs sample_bc (Some (take (unat n) out')) n 11 (Some (replicate 768 0)) 768 = Ok (S_OK, pcrs2, mask2) \<and>
    pcr_at 32 7 pcrs2 = pcr_at 32 7 pcrs1 \<and> pcr_at 32 0 pcrs2 = pcr_start 32 0"
proof -
  have b: "bit (0x80 :: UINT32) 7" "\<not> bit (0x80 :: UINT32) 0" by code_simp+
  show ?thesis
    using filtered_log_same_PCRs [OF sample_bc_ok sample_log_ok sample_startup _ _ sample_kept, of 768 "replicate 768 0" 452 "replicate 452 0"]
      sample_sizes sample_format b by (fastforce simp: Let_def)
qed

text \<open>
  C14: The replay of the log of a list of events, in the SHA-1 or in the crypto-agile format, computes
  for each of the 24 PCRs the fold of the extend operation over the digests of its events, from its
  value after a reset and, for PCR 0, from the startup locality; events of other PCRs and events
  without action do not count.
\<close>

theorem event_log_replay:
  assumes "bc_ok bc" and "log_ok oh es"
    and "startup_ok (bc_hash bc (hash_of (format_of oh))) (format_of oh) (unat (lf_size (format_of oh)))
      (replicate (unat (lf_size (format_of oh))) 0) (events_of 0 es)"
    and "24 * unat (lf_size (format_of oh)) \<le> unat cbSwPcr" and "24 * unat (lf_size (format_of oh)) \<le> length pcrs"
  shows "\<exists>pcrs' mask. TpmAttiComputeSoftPCRs bc (Some (log_bytes oh es)) (of_nat (length (log_bytes oh es)))
        (lf_alg (format_of oh)) (Some pcrs) cbSwPcr = Ok (S_OK, pcrs', mask) \<and> length pcrs' = length pcrs \<and>
      (\<forall>i < 24. pcr_at (unat (lf_size (format_of oh))) i pcrs' =
        soft_pcr (bc_hash bc (hash_of (format_of oh))) (format_of oh) (unat (lf_size (format_of oh))) es i) \<and>
      (\<forall>i < 24. bit mask i \<longleftrightarrow> extended_in es i)"
  by (rule ComputeSoftPCRs_log [OF assms])

theorem event_log_replay_witness:
  "\<exists>pcrs' mask. TpmAttiComputeSoftPCRs sample_bc (Some (log_bytes (Some sample_header) sample_events))
        (of_nat (length (log_bytes (Some sample_header) sample_events))) 11 (Some (replicate 768 0)) 768 = Ok (S_OK, pcrs', mask) \<and>
      pcr_at 32 7 pcrs' = sample_H (replicate 32 0 @ replicate 32 2) \<and> bit mask 7 \<and> \<not> bit mask 5"
proof -
  have e: "events_of 7 sample_events = [sample_events ! 2]" "extended_in sample_events 7" "\<not> extended_in sample_events 5"
      "event_digest (format_of (Some sample_header)) (sample_events ! 2) = replicate 32 2" "ev_type (sample_events ! 2) = 0x80000001"
    by code_simp+
  have "soft_pcr (bc_hash sample_bc BCRYPT_SHA256_ALGORITHM) (format_of (Some sample_header)) 32 sample_events 7 =
      sample_H (replicate 32 0 @ replicate 32 2)"
    by (simp add: soft_pcr_def e pcr_step_def pcr_start_def sample_H_def)
  then show ?thesis
    using event_log_replay [OF sample_bc_ok sample_log_ok sample_startup, of 768 "replicate 768 0"] sample_format e
    by fastforce
qed

text \<open>
  C15: The PCP tool and TSS.C++, which each implement KDFa, derive the same key, given cryptographic
  providers that compute the same HMAC.
\<close>

theorem KDFa_in_both_libraries:
  assumes "bc_ok bc" and "ossl_ok ossl" and "same_hash a alg"
    and "\<And>m. bc_hmac bc alg key m = ossl_hmac ossl a key m" and "key \<noteq> []"
    and "n \<noteq> 0" "unat n mod 8 = 0" "unat n \<le> 2 ^ 31"
    and "length label < 260" "length label + length u + length v + 9 \<le> 4096" and "unat n div 8 \<le> length out"
  shows "\<exists>k. KDFa ossl a key label u v n = Ok k \<and>
    KDFa_pcp bc alg (Some key) (Some label) u v n (Some out) (n div 8) = Ok (S_OK, n div 8, overwrite 0 k out)"
  by (rule KDFa_agree [OF assms])

theorem KDFa_in_both_libraries_witness:
  "\<exists>k. KDFa sample_ossl TPM_ALG_ID_SHA256 [1] ''ATH'' [2] [3, 4] 512 = Ok k \<and>
    KDFa_pcp both_bc BCRYPT_SHA256_ALGORITHM (Some [1]) (Some ''ATH'') [2] [3, 4] 512 (Some (replicate 64 0)) 64 =
      Ok (S_OK, 64, overwrite 0 k (replicate 64 0))"
  using KDFa_in_both_libraries [OF both_bc_ok sample_ossl_ok _ both_bc_same(1), of "[1]" 512 "''ATH''" "[2]" "[3, 4]" "replicate 64 0"]
  by (simp add: same_hash_def)

text \<open>
  C16: The PCP tool computes the name of a marshaled public area that TSS.C++ computes for the public
  area, given cryptographic providers that compute the same digest.
\<close>

theorem names_in_both_libraries:
  assumes "bc_ok bc" and "same_hash (TPMT_PUBLIC_nameAlg x) alg" and "TPMT_PUBLIC_valid x" "length (TPMT_PUBLIC_enc x) \<le> 4096"
    and "bc_hash bc alg (TPMT_PUBLIC_enc x) = ossl_digest ossl (TPMT_PUBLIC_nameAlg x) (TPMT_PUBLIC_enc x)"
    and "2 + unat (hash_size alg) \<le> length out"
  shows "\<exists>name. TPMT_PUBLIC_GetName ossl x = Ok name \<and>
    GetNameFromPublic bc (Some (TPMT_PUBLIC_enc x)) (of_nat (length (TPMT_PUBLIC_enc x))) (Some out) (2 + hash_size alg) =
      Ok (S_OK, Some alg, 2 + hash_size alg, overwrite 0 name out)"
  by (rule GetName_agree [OF assms])

theorem names_in_both_libraries_witness:
  "\<exists>name. TPMT_PUBLIC_GetName sample_ossl sample_key = Ok name \<and>
    GetNameFromPublic both_bc (Some (TPMT_PUBLIC_enc sample_key)) 56 (Some (replicate 34 0)) 34 =
      Ok (S_OK, Some BCRYPT_SHA256_ALGORITHM, 34, overwrite 0 name (replicate 34 0))"
  using names_in_both_libraries [OF both_bc_ok, of sample_key BCRYPT_SHA256_ALGORITHM sample_ossl "replicate 34 0"] both_bc_same(2)
  by (simp add: same_hash_def hash_size_def)

text \<open>
  C17: Whatever the bytes of a quote, and whatever a TPM answers, the validation of the quote and the
  reading of the PCRs return a result, without an access outside their buffers, given 24 PCR values
  to compare with, a nonce whose memory holds the bytes that its size says, and responses of at most
  512 bytes.
\<close>

theorem hostile_input_returns:
  assumes "bc_ok bc" and "unat cbQuote \<le> length quote" and "24 * bank_size alg \<le> length pcrList"
    and "pbNonce \<noteq> None \<Longrightarrow> unat cbNonce \<le> length (the pbNonce)"
    and "tbs_fits tbs" and "unat cbOutput \<le> length out"
  shows "(\<exists>hr m. ValidateQuoteContext20 bc (Some quote) cbQuote (Some pcrList) cbPcrList pbNonce cbNonce alg = Ok (hr, m)) \<and>
    (\<exists>hr n out'. GetPlatformPcrs20 tbs pcrAlg (Some out) cbOutput = Ok (hr, n, out') \<and> length out' = length out) \<and>
    (\<exists>hr n out'. GetPlatformPcrs12 tbs (Some out) cbOutput = Ok (hr, n, out') \<and> length out' = length out)"
  by (intro conjI quote20_returns GetPlatformPcrs20_returns GetPlatformPcrs12_returns assms)

theorem hostile_input_returns_witness:
  "(\<exists>hr m. ValidateQuoteContext20 sample_bc (Some [0xFF, 0x54]) 2 (Some (replicate 480 0)) 480 (Some (replicate 20 9)) 20 4 = Ok (hr, m)) \<and>
    (\<exists>hr n out'. GetPlatformPcrs20 sample_tbs 4 (Some (replicate 480 0)) 480 = Ok (hr, n, out') \<and> length out' = 480)"
  using hostile_input_returns [OF sample_bc_ok, of 2 "[0xFF, 0x54]" 4 "replicate 480 0" "Some (replicate 20 9)" 20
      sample_tbs 480 "replicate 480 0" 480 4] sample_tbs_fits by (simp add: bank_size_def)

text \<open>
  C18: Which quotes of a TPM 1.2 are accepted: exactly the marshaled structures of TPM_Quote2 that carry
  the nonce, if that has 20 bytes, and the digest of the composite of their selection and the
  selected PCR values; the result is the selection.
\<close>

theorem accepted_TPM12_quote:
  assumes "bc_ok bc" and "whole cbQuote quote" and "quote \<noteq> []" and "480 \<le> length pcrList"
  shows "ValidateQuoteContext12 bc (Some quote) cbQuote (Some pcrList) 480 pbNonce cbNonce = Ok (S_OK, Some m) \<longleftrightarrow>
    (\<exists>r. quote = quote12_bytes r \<and> quote12_ok r \<and> nonce12_ok pbNonce cbNonce (r_externalData r) \<and>
      m = quote12_mask (r_select r) \<and> r_digest r = bc_hash bc BCRYPT_SHA1_ALGORITHM (composite (r_select r) pcrList))"
  by (rule ValidateQuoteContext12_iff [OF assms])

theorem accepted_TPM12_quote_witness:
  "ValidateQuoteContext12 sample_bc (Some (quote12_bytes sample_quote12)) 67 (Some (replicate 480 5)) 480 (Some (replicate 20 9)) 20 =
     Ok (S_OK, Some 1)"
  using sample_quote12_ok
  by (subst accepted_TPM12_quote) (auto simp: sample_bc_ok whole_def nonce12_ok_def intro!: exI [of _ sample_quote12])

text \<open>
  C19: The checks do not all look at what kind of structure was attested. For a structure with the nonce
  of the caller and the TPM's magic number, whatever its kind: the check of a time attestation gives
  just what the verification of the signature gives, and those of a command audit, of a session
  audit and of an NV certification dereference a null pointer whenever the structure is of any kind
  but their own.
\<close>

theorem attestation_kind_not_checked:
  assumes "GetSigningHashAlg self = Ok alg" and "TPMS_ATTEST_extraData a = N"
    and "TPMS_ATTEST_magic a = TPM_GENERATED_VALUE" and "TPMS_ATTEST_attested a = Some u"
  shows "ValidateGetTime ossl self N \<lparr>GetTimeResponse_timeInfo = a, GetTimeResponse_signature = s\<rparr> =
      verify_attest ossl self alg a s \<and>
    (TPMU_ATTEST_GetUnionSelector u \<noteq> TPM_ST_ATTEST_COMMAND_AUDIT \<longrightarrow> ValidateCommandAudit ossl self h N
      \<lparr>GetCommandAuditDigestResponse_auditInfo = a, GetCommandAuditDigestResponse_signature = s\<rparr> = Undef) \<and>
    (TPMU_ATTEST_GetUnionSelector u \<noteq> TPM_ST_ATTEST_SESSION_AUDIT \<longrightarrow> ValidateSessionAudit ossl self h N
      \<lparr>GetSessionAuditDigestResponse_auditInfo = a, GetSessionAuditDigestResponse_signature = s\<rparr> = Undef) \<and>
    (TPMU_ATTEST_GetUnionSelector u \<noteq> TPM_ST_ATTEST_NV \<longrightarrow> ValidateCertifyNV ossl self N c off
      \<lparr>NV_CertifyResponse_certifyInfo = a, NV_CertifyResponse_signature = s\<rparr> = Undef)"
  using ValidateGetTime_any [OF assms(1-3)] audit_null [OF assms] by blast

theorem attestation_kind_not_checked_witness:
  "ValidateGetTime sample_ossl sample_key [1, 2, 3]
     \<lparr>GetTimeResponse_timeInfo = sample_attest, GetTimeResponse_signature = sample_signature\<rparr> =
     verify_attest sample_ossl sample_key TPM_ALG_ID_SHA256 sample_attest sample_signature \<and>
   ValidateCommandAudit sample_ossl sample_key (TPMT_HA_of_alg TPM_ALG_ID_SHA256) [1, 2, 3]
     \<lparr>GetCommandAuditDigestResponse_auditInfo = sample_attest,
      GetCommandAuditDigestResponse_signature = sample_signature\<rparr> = Undef \<and>
   ValidateSessionAudit sample_ossl sample_key (TPMT_HA_of_alg TPM_ALG_ID_SHA256) [1, 2, 3]
     \<lparr>GetSessionAuditDigestResponse_auditInfo = sample_attest,
      GetSessionAuditDigestResponse_signature = sample_signature\<rparr> = Undef \<and>
   ValidateCertifyNV sample_ossl sample_key [1, 2, 3] [7] 0
     \<lparr>NV_CertifyResponse_certifyInfo = sample_attest, NV_CertifyResponse_signature = sample_signature\<rparr> = Undef"
proof -
  have a: "TPMS_ATTEST_extraData sample_attest = [1, 2, 3]" "TPMS_ATTEST_magic sample_attest = TPM_GENERATED_VALUE"
    by (simp_all add: sample_attest_def)
  have "TPMS_ATTEST_attested sample_attest = Some (ATTEST_TPMS_QUOTE_INFO
      \<lparr>TPMS_QUOTE_INFO_pcrSelect = [], TPMS_QUOTE_INFO_pcrDigest = replicate 32 0\<rparr>)"
    by (simp add: sample_attest_def)
  from attestation_kind_not_checked [OF sample_key_alg(2) a this] show ?thesis by simp
qed

text \<open>
  C20: The name of an object is its algorithm followed by the digest of its public area; two different
  public areas of one name give two different messages with the same digest.
\<close>

theorem object_name_is_binding:
  assumes x: "TPMT_PUBLIC_valid x" "length (TPMT_PUBLIC_enc x) \<le> 4096" "IsImplemented ossl (TPMT_PUBLIC_nameAlg x)"
    and y: "TPMT_PUBLIC_valid y" "length (TPMT_PUBLIC_enc y) \<le> 4096" "IsImplemented ossl (TPMT_PUBLIC_nameAlg y)"
  shows "TPMT_PUBLIC_GetName ossl x = Ok (enc16 (TPMT_PUBLIC_nameAlg x) @
      ossl_digest ossl (TPMT_PUBLIC_nameAlg x) (TPMT_PUBLIC_enc x)) \<and>
    (TPMT_PUBLIC_GetName ossl x = TPMT_PUBLIC_GetName ossl y \<and> x \<noteq> y \<longrightarrow>
      (\<exists>m m'. m \<noteq> m' \<and> ossl_digest ossl (TPMT_PUBLIC_nameAlg x) m = ossl_digest ossl (TPMT_PUBLIC_nameAlg x) m'))"
  using TPMT_PUBLIC_GetName_enc [OF x] TPMT_PUBLIC_GetName_collision [OF x y] by metis

theorem object_name_is_binding_witness:
  "TPMT_PUBLIC_GetName sample_ossl sample_key =
     Ok (enc16 TPM_ALG_ID_SHA256 @ take 32 (TPMT_PUBLIC_enc sample_key @ replicate 64 0))"
  using object_name_is_binding [of sample_key sample_ossl sample_key] by (simp add: HashLength_def)

text \<open>
  C21: A PCR selection made from a list of register numbers, in any order and with repetitions, selects
  those and no others among the numbers that its bitmap has a bit for, and lists them in ascending
  order without repetition as long as all are below 2^31 - 8; with a larger number the int that
  ToArray counts up to overflows.
\<close>

theorem pcr_selection_as_set:
  assumes "unat (p div 8) < length (TPMS_PCR_SELECTION_pcrSelect (TPMS_PCR_SELECTION_set hashAlg pcrs))"
  shows "PcrIsSelected (TPMS_PCR_SELECTION_set hashAlg pcrs) p = Ok (p \<in> set pcrs) \<and>
    (if \<forall>q \<in> set pcrs. unat q < 2 ^ 31 - 8
     then \<exists>arr. ToArray (TPMS_PCR_SELECTION_set hashAlg pcrs) = Ok arr \<and> set arr = set pcrs \<and>
       sorted arr \<and> distinct arr
     else ToArray (TPMS_PCR_SELECTION_set hashAlg pcrs) = Undef)"
  using assms PcrIsSelected_set [of p hashAlg pcrs] ToArray_sorted [of pcrs hashAlg] ToArray_overflow [of pcrs hashAlg]
  unfolding pcr_selection_def by presburger

theorem pcr_selection_as_set_witness:
  "PcrIsSelected (TPMS_PCR_SELECTION_set TPM_ALG_ID_SHA256 [7, 0, 7]) 7 = Ok True \<and>
   (\<exists>arr. ToArray (TPMS_PCR_SELECTION_set TPM_ALG_ID_SHA256 [7, 0, 7]) = Ok arr \<and> set arr = {0, 7})"
  using pcr_selection_as_set [of 7 TPM_ALG_ID_SHA256 "[7, 0, 7]"]
  by (auto simp: TPMS_PCR_SELECTION_set_def Let_def)

text \<open>
  C22: A hash value has the size of its algorithm from its construction on: resetting, extending and
  recording an event keep both, extending digests the old value followed by the data, and an event
  extends with the digest of its data, except that an empty event extends with zeros.
\<close>

theorem hash_value_invariant:
  assumes "ossl_ok ossl" and "ha_ok ossl h"
  shows "ha_ok ossl (Reset h) \<and> Reset h = TPMT_HA_of_alg (TPMT_HA_hashAlg h) \<and>
    (\<exists>h'. Extend ossl x h = Ok h' \<and> ha_ok ossl h' \<and> TPMT_HA_hashAlg h' = TPMT_HA_hashAlg h \<and>
      TPMT_HA_digest h' = ossl_digest ossl (TPMT_HA_hashAlg h) (TPMT_HA_digest h @ x)) \<and>
    Event ossl x h = Extend ossl (if x = [] then TPMT_HA_digest (Reset h)
      else ossl_digest ossl (TPMT_HA_hashAlg h) x) h"
  using ha_ok_Reset [OF assms(2)] Reset_of_alg [OF assms(2)] ha_ok_extended [OF assms, of x]
  by (simp add: Extend_extended [OF assms(2)] Event_extended [OF assms(2)] TPMT_HA_of_alg_def)
    (simp add: extended_def)

theorem hash_value_invariant_witness:
  "\<exists>h. Extend sample_ossl [1] (TPMT_HA_of_alg TPM_ALG_ID_SHA256) = Ok h \<and> ha_ok sample_ossl h"
  using hash_value_invariant [of sample_ossl "TPMT_HA_of_alg TPM_ALG_ID_SHA256" "[1]"]
  by (auto simp: ha_ok_of_alg)

text \<open>
  C23: Whatever the arguments and whatever is in memory, no operation of the cursor reads or writes
  outside the caller's buffer, and the cursor stays within it and does not move back; a failure is a
  return code.
\<close>

theorem cursor_stays_inside:
  assumes "length src = unat n"
  shows "be_safe cb (WriteBigEndian32 cb x) \<and> be_safe cb (ReadBigEndian32 cb out) \<and>
    be_safe cb (WriteBigEndian16 cb y) \<and> be_safe cb (ReadBigEndian16 cb out) \<and>
    be_safe cb (WriteBigEndian8 cb z) \<and> be_safe cb (ReadBigEndian8 cb out) \<and>
    be_safe cb (SkipBigEndian cb m) \<and> be_safe cb (ReadBigEndianBuf cb out m) \<and>
    be_safe cb (WriteBigEndianBuf cb (Some src) (ucast n)) \<and>
    be_safe cb (SkipBigEndian2B cb) \<and> be_safe cb (ReadBigEndian2B cb out) \<and>
    be_safe cb (WriteBigEndian2B cb n (Some src))"
  using assms
  by (intro conjI be32.wr_safe be32.rd_safe be16.wr_safe be16.rd_safe be8.wr_safe be8.rd_safe
      SkipBigEndian_safe ReadBigEndianBuf_safe WriteBigEndianBuf_safe SkipBigEndian2B_safe
      ReadBigEndian2B_safe WriteBigEndian2B_safe) simp_all

theorem cursor_stays_inside_witness: "be_safe 16 (WriteBigEndian2B 16 2 (Some [1, 2]))"
  using cursor_stays_inside [of "[1, 2]" 2 16] by simp

text \<open>
  C24: Once the response of a command was taken in, no session is attached any more and every setting
  made for this one invocation (errors tolerated, demanded or expected, parameter hash, audit) is
  reset.
\<close>

theorem command_ends_clean:
  assumes "DispatchIn ossl dev m cc resp t = (Ok (True, resp'), t')"
  shows "tp_Sessions t' = [] \<and> invocation t' = no_invocation"
  by (rule DispatchIn_finished [OF assms])

theorem command_ends_clean_witness:
  "\<exists>t'. DispatchIn sample_ossl (sample_dev (raw_response TPM_ST_NO_SESSIONS TPM_RC_FAILURE [])) no_response TPM_CC_Clear (Resp_other ())
      (sample_tpm\<lparr>tp_PendingCommand := TPM_CC_Clear, tp_AllowErrors := True, tp_Sessions := [7]\<rparr>) =
    (Ok (True, Resp_other ()), t') \<and> tp_Sessions t' = [] \<and> invocation t' = no_invocation"
  using command_ends_clean [OF sample_failure_tolerated] sample_failure_tolerated by blast

text \<open>
  C25: An error of the TPM ends the command with an exception that carries the masked code, unless the
  settings of the invocation tolerate it; on both paths the settings and the sessions are gone and
  the next command can be sent.
\<close>

theorem tpm_error_ends_command:
  assumes "awaits cc t" and "tp_device t = Some d"
    and "dev_GetResponse dev d = (Ok (raw_response tag code body), d')" and "length body + 10 < 2 ^ 32"
    and "code \<noteq> TPM_RC_RETRY" and "code \<noteq> TPM_RC_SUCCESS"
    and "ResponseCodeFromTpmError code \<noteq> TPM_RC_SUCCESS"
  shows "\<exists>u. tp_LastResponseCode u = ResponseCodeFromTpmError code \<and> tp_AllowErrors u = tp_AllowErrors t \<and>
    tp_DemandError u = tp_DemandError t \<and> tp_ExpectedError u = tp_ExpectedError t \<and>
    DispatchIn ossl dev m cc resp t =
      (if tolerated u code then Ok (True, resp)
       else Throw (system_error (ResponseCodeFromTpmError code) (error_message u cc code)),
       (reset_invocation u)\<lparr>tp_Sessions := []\<rparr>)"
  by (rule exI [of _ "noted code (received d' (raw_response tag code body) t)"])
    (simp add: DispatchIn_error [OF assms], simp add: noted_def received_def)

theorem tpm_error_ends_command_witness:
  "\<exists>u. tp_LastResponseCode u = TPM_RC_FAILURE \<and> DispatchIn sample_ossl (sample_dev (raw_response TPM_ST_NO_SESSIONS TPM_RC_FAILURE []))
      no_response TPM_CC_Clear (Resp_other ()) (sample_tpm\<lparr>tp_PendingCommand := TPM_CC_Clear\<rparr>) =
    (Throw (system_error TPM_RC_FAILURE (error_message u TPM_CC_Clear TPM_RC_FAILURE)),
     (reset_invocation u)\<lparr>tp_Sessions := []\<rparr>)"
  using tpm_error_ends_command [of TPM_CC_Clear "sample_tpm\<lparr>tp_PendingCommand := TPM_CC_Clear\<rparr>" "()"
    "sample_dev (raw_response TPM_ST_NO_SESSIONS TPM_RC_FAILURE [])" TPM_ST_NO_SESSIONS TPM_RC_FAILURE "[]" "()"
    sample_ossl no_response "Resp_other ()"]
  by (auto simp: awaits_def sample_client_def sample_dev_def ret_app ResponseCodeFromTpmError_def IsFmt1_def
      tolerated_def)

text \<open>
  C26: A successful response whose tag is not the one of the command is refused with an exception, but
  the sessions of the refused command stay attached: whatever command is sent next, to whatever
  device, goes out with a session area, and its first authorizations are those of these sessions, in
  their order. Supposed is that the bookkeeping for the handles of the refused command, which comes
  before the check, succeeds, and that the caller has not asked for an error of the TPM.
\<close>

theorem wrong_tag_keeps_sessions:
  assumes "awaits cc t" and "tp_device t = Some d"
    and "dev_GetResponse dev d = (Ok (raw_response tag TPM_RC_SUCCESS body), d')" and "length body + 10 < 2 ^ 32"
    and "CompleteUpdateRequestHandles cc
      (noted TPM_RC_SUCCESS (received d' (raw_response tag TPM_RC_SUCCESS body) t)) = (Ok (), u)"
    and "tolerated t TPM_RC_SUCCESS" and "tp_SessTag t \<noteq> tag" and "tp_Sessions t \<noteq> []"
  shows "\<exists>t'. DispatchIn ossl dev m cc resp t = (Throw (runtime_error ''Wrong response session tag''), t') \<and>
    tp_Sessions t' = tp_Sessions t \<and>
    (\<forall>dev' cc' req req' t'' params. DispatchOut ossl dev' cc' req t' = (Ok (True, req'), t'') \<longrightarrow>
       writes (req_toTpm (req_methods req)) params \<longrightarrow>
       (\<exists>auths params'. sent dev' (command_bytes TPM_ST_SESSIONS cc' (req_getHandles (req_methods req)) (auth_area auths) params') t' t'' \<and>
          take (length (tp_Sessions t)) (map auth_handle auths) = map (session_handle t) (tp_Sessions t)))"
  using DispatchIn_wrong_tag_next [OF assms(1-7)] assms(8) by metis

theorem wrong_tag_keeps_sessions_witness:
  "\<exists>t'. DispatchIn sample_ossl (sample_dev (raw_response TPM_ST_NO_SESSIONS TPM_RC_SUCCESS [])) no_response TPM_CC_Clear (Resp_other ())
      (sample_tpm\<lparr>tp_PendingCommand := TPM_CC_Clear, tp_SessTag := TPM_ST_SESSIONS, tp_Sessions := [7]\<rparr>) =
    (Throw (runtime_error ''Wrong response session tag''), t') \<and> tp_Sessions t' = [7]"
proof -
  let ?t = "sample_tpm\<lparr>tp_PendingCommand := TPM_CC_Clear, tp_SessTag := TPM_ST_SESSIONS, tp_Sessions := [7]\<rparr>"
  let ?raw = "raw_response TPM_ST_NO_SESSIONS TPM_RC_SUCCESS []"
  obtain u where u: "CompleteUpdateRequestHandles TPM_CC_Clear (noted TPM_RC_SUCCESS (received () ?raw ?t)) = (Ok (), u)"
    using sample_Clear_updated [of "noted TPM_RC_SUCCESS (received () ?raw ?t)"] by blast
  have f: "awaits TPM_CC_Clear ?t" "tp_device ?t = Some ()" "dev_GetResponse (sample_dev ?raw) () = (Ok ?raw, ())"
    "tolerated ?t TPM_RC_SUCCESS" "tp_SessTag ?t \<noteq> TPM_ST_NO_SESSIONS" "tp_Sessions ?t = [7]"
    by (simp_all add: awaits_def sample_client_def sample_dev_def ret_app tolerated_def)
  show ?thesis
    using wrong_tag_keeps_sessions [OF f(1,2,3) _ u f(4,5), of sample_ossl no_response "Resp_other ()"] f(6) by auto
qed

text \<open>
  C27: A command fails to return exactly if there is an endless sequence of rounds in which it is sent
  and the TPM answers that it should be retried: no number of retries ends the loop, and nothing
  else can keep it going.
\<close>

theorem command_returns:
  "Dispatch ossl dev m cc req resp t = None \<longleftrightarrow>
   (\<exists>f. f 0 = (req, t) \<and> (\<forall>i. retry_round ossl dev m cc resp (f i) (f (Suc i))))"
  by (rule Dispatch_never_returns)

text \<open>
  C28: Whenever DispatchOut sends a command, the bytes the device receives have the layout of Part 1 of
  the specification: the tag that says whether there are sessions, the length of the whole, the
  command code, the handles, one authorization for each session (at least one for each handle that
  needs one) with the size of that area, and parameters of the length of the marshaled ones, which
  are those themselves when there are no sessions.
\<close>

theorem command_format:
  assumes "DispatchOut ossl dev cc reqObj t = (Ok (True, reqObj'), t')"
    and "writes (req_toTpm (req_methods reqObj)) params"
  shows "\<exists>area params'. sent dev (command_bytes (command_tag t reqObj) cc
      (req_getHandles (req_methods reqObj)) area params') t t' \<and>
    length params' = length params \<and> tp_PendingCommand t' = cc \<and>
    (if uses_sessions t reqObj
     then \<exists>auths. area = auth_area auths \<and>
       length auths = max (length (tp_Sessions t)) (unat (req_numAuthHandles (req_methods reqObj)))
     else area = [] \<and> params' = params)"
  by (rule DispatchOut_format [OF assms])

theorem command_format_witness:
  "\<exists>t'. DispatchOut sample_ossl (sample_dev []) TPM_CC_GetRandom sample_request sample_tpm =
      (Ok (True, sample_request), t') \<and>
    sent (sample_dev []) (command_bytes TPM_ST_NO_SESSIONS TPM_CC_GetRandom [] [] (enc16 8)) sample_tpm t'"
  using command_format [OF sample_request_sent sample_request_writes] sample_request_sent sample_request_plain
  by (auto simp: sample_request_methods command_tag_def)

text \<open>
  C29: With a decryption session, the data of the first sized parameter are replaced by their encryption
  and nothing else of the parameters changes; but the request clears both the encryption and the
  decryption session, so an encrypted response of the same command will not be decrypted.
\<close>

theorem encrypts_first_parameter:
  assumes "tp_DecSession t = Some a" and "sizeLen sei = 2" and "valLen sei = 1" and "sized_ok 2 data"
    and "ParamXcrypt ossl (tp_sess t a) data True = Ok res" and "length res = length data"
  shows "DoParmEncryption ossl sei (full (enc_sized 2 data @ rest)) 0 True t =
    (Ok (full (enc_sized 2 res @ rest)), t\<lparr>tp_EncSession := None, tp_DecSession := None\<rparr>)"
  by (rule DoParmEncryption_first [OF assms])

theorem encrypts_first_parameter_witness:
  "\<exists>res. DoParmEncryption sample_ossl \<lparr>sizeLen = 2, valLen = 1\<rparr> (full (enc_sized 2 [8, 9] @ [7])) 0 True
      (sample_tpm\<lparr>tp_DecSession := Some 7, tp_EncSession := Some 7\<rparr>) =
    (Ok (full (enc_sized 2 res @ [7])), sample_tpm)"
proof -
  obtain res where x: "ParamXcrypt sample_ossl sample_session [8, 9] True = Ok res" "length res = 2"
    by (rule sample_ParamXcrypt)
  then show ?thesis
    using encrypts_first_parameter [of "sample_tpm\<lparr>tp_DecSession := Some 7, tp_EncSession := Some 7\<rparr>" 7
      "\<lparr>sizeLen = 2, valLen = 1\<rparr>" "[8, 9]" sample_ossl res "[7]"]
    by (intro exI [of _ res]) (simp add: sized_ok_def sample_client_def PwapSession_def)
qed

text \<open>
  C30: A simple assertion extends the digest with its command code and its arguments as Part 3 of the
  specification prescribes; the operands of a comparison are digested first.
\<close>

theorem assertion_digest:
  assumes "ossl_ok ossl" and "ha_ok ossl acc" and "small_args p"
    and "assertion_bytes ossl (TPMT_HA_hashAlg acc) p = Some bs"
  shows "UpdatePolicyDigest ossl p acc = Ok (extended ossl acc bs)"
  by (rule UpdatePolicyDigest_bytes [OF assms])

theorem assertion_digest_witness:
  "UpdatePolicyDigest sample_ossl (PolicyLocality '''' 4) (TPMT_HA_of_alg TPM_ALG_ID_SHA1) =
     Ok (extended sample_ossl (TPMT_HA_of_alg TPM_ALG_ID_SHA1) (enc32 TPM_CC_PolicyLocality @ enc8 4))"
  by (rule assertion_digest) (simp_all add: ha_ok_of_alg)

text \<open>
  C31: A whole command, from the call to the returned value: between two commands, with no session
  attached and no encryption session left over, GetRandom hands the device exactly the bytes of the
  command, and from the device's answer returns exactly the random bytes in it; afterwards the
  client is as before.
\<close>

theorem get_random_end_to_end:
  assumes "idle t" and "tp_EncSession t = None" and "tp_device t = Some d"
    and "answers dev d (command_bytes TPM_ST_NO_SESSIONS TPM_CC_GetRandom [] [] (enc16 n))
      (raw_response TPM_ST_NO_SESSIONS TPM_RC_SUCCESS (enc_sized 2 bytes)) d'"
    and "sized_ok 2 bytes"
  shows "\<exists>t'. Tpm2_GetRandom ossl dev n t = Some (Ok bytes, t') \<and> idle t' \<and> tp_device t' = Some d'"
  by (rule GetRandom_plain [OF assms])

theorem get_random_end_to_end_witness:
  "\<exists>t'. Tpm2_GetRandom sample_ossl (sample_dev (raw_response TPM_ST_NO_SESSIONS TPM_RC_SUCCESS (enc_sized 2 [4, 2]))) 2
      sample_tpm = Some (Ok [4, 2], t') \<and> idle t'"
  using get_random_end_to_end [of sample_tpm "()"
      "sample_dev (raw_response TPM_ST_NO_SESSIONS TPM_RC_SUCCESS (enc_sized 2 [4, 2]))" 2 "[4, 2]" "()" sample_ossl]
  by (auto simp: idle_def answers_def sample_client_def sample_dev_def ret_app sized_ok_def)

text \<open>
  C32: An error of the TPM ends a command but does not reset its encryption session. The next command,
  although it is sent without any session and answered in the clear, has its response decrypted with
  that session: GetRandom then returns not the bytes that the TPM sent but their decryption.
\<close>

theorem failed_command_leaves_encryption:
  assumes "awaits cc s" and "tp_device s = Some c"
    and "dev_GetResponse dev c = (Ok (raw_response tag code body), d)" and "length body + 10 < 2 ^ 32"
    and "code \<noteq> TPM_RC_RETRY" and "code \<noteq> TPM_RC_SUCCESS" and "ResponseCodeFromTpmError code \<noteq> TPM_RC_SUCCESS"
    and "tp_EncSession s = Some a"
    and "answers dev d (command_bytes TPM_ST_NO_SESSIONS TPM_CC_GetRandom [] [] (enc16 n))
      (raw_response TPM_ST_NO_SESSIONS TPM_RC_SUCCESS (enc_sized 2 bytes)) d'"
    and "sized_ok 2 bytes" and "ParamXcrypt ossl (tp_sess s a) bytes False = Ok res" and "length res = length bytes"
  shows "\<exists>t'. Tpm2_GetRandom ossl dev n (snd (DispatchIn ossl dev m cc resp s)) = Some (Ok res, t')"
  by (rule error_then_GetRandom [OF assms])

theorem failed_command_leaves_encryption_witness:
  "\<exists>(dev :: bool TpmDevice) s res t'. fst (DispatchIn sample_ossl dev no_response TPM_CC_Clear (Resp_other ()) s) \<noteq> Ok (True, Resp_other ()) \<and>
     Tpm2_GetRandom sample_ossl dev 2 (snd (DispatchIn sample_ossl dev no_response TPM_CC_Clear (Resp_other ()) s)) =
       Some (Ok res, t') \<and> res \<noteq> [8, 9]"
proof -
  let ?fail = "raw_response TPM_ST_NO_SESSIONS TPM_RC_FAILURE []"
  let ?dev = "\<lparr>dev_DispatchCommand = (\<lambda>cmd d. (Ok (), True)), dev_GetResponse = (\<lambda>d. (Ok (if d
    then raw_response TPM_ST_NO_SESSIONS TPM_RC_SUCCESS (enc_sized 2 [8, 9]) else ?fail), d))\<rparr> :: bool TpmDevice"
  let ?s = "(sample_client False)\<lparr>tp_PendingCommand := TPM_CC_Clear, tp_EncSession := Some 7,
    tp_sess := (\<lambda>_. sample_keyed_session)\<rparr>"
  note x = sample_ParamXcrypt_response
  have s: "awaits TPM_CC_Clear ?s" "tp_device ?s = Some False" "tp_EncSession ?s = Some 7" "tp_sess ?s 7 = sample_keyed_session"
    by (simp_all add: awaits_def sample_client_def)
  have rc: "ResponseCodeFromTpmError TPM_RC_FAILURE = TPM_RC_FAILURE"
    by (simp add: ResponseCodeFromTpmError_def IsFmt1_def)
  have fails: "fst (DispatchIn sample_ossl ?dev no_response TPM_CC_Clear (Resp_other ()) ?s) \<noteq> Ok (True, Resp_other ())"
    by (subst DispatchIn_error [OF s(1,2), where code = TPM_RC_FAILURE and tag = TPM_ST_NO_SESSIONS and body = "[]" and d' = False])
      (simp_all add: rc, simp add: tolerated_def noted_def received_def sample_client_def)
  have "\<exists>t'. Tpm2_GetRandom sample_ossl ?dev 2
      (snd (DispatchIn sample_ossl ?dev no_response TPM_CC_Clear (Resp_other ()) ?s)) = Some (Ok [13, 12], t')"
    using x s(4)
    by (intro failed_command_leaves_encryption [OF s(1,2) _ _ _ _ _ s(3), where code = TPM_RC_FAILURE
          and tag = TPM_ST_NO_SESSIONS and body = "[]" and d = False and d' = True and bytes = "[8, 9]"])
      (auto simp: rc answers_def sized_ok_def)
  then obtain t' where "Tpm2_GetRandom sample_ossl ?dev 2
      (snd (DispatchIn sample_ossl ?dev no_response TPM_CC_Clear (Resp_other ()) ?s)) = Some (Ok [13, 12], t')"
    by blast
  moreover have "[13, 12] \<noteq> [8, 9 :: 8 word]"
    by simp
  ultimately show ?thesis
    using fails by blast
qed

text \<open>
  C33: Each of the 122 Complete methods, which take in the response of a command sent asynchronously,
  drops the result of DispatchIn: when the TPM asks for a retry, the method returns the default of
  its response (the comparison with that default is true), as if the command had succeeded with it,
  and the pending command is forgotten, so that the retry can only be sent as a new command.
\<close>

theorem async_retry_looks_done:
  assumes "(cc, m) \<in> set (complete_methods ossl dev)" and "awaits cc t" and "tp_device t = Some d"
    and "dev_GetResponse dev d = (Ok (raw_response tag TPM_RC_RETRY body), d')" and "length body + 10 < 2 ^ 32"
  shows "\<exists>t'. m t = (Ok True, t') \<and> tp_PendingCommand t' = 0"
proof -
  have "takes_retry dev (cc, m)" using complete_methods_retry [of dev ossl] assms(1) unfolding list_all_iff by blast
  then show ?thesis using assms(2-5) unfolding takes_retry_def prod.case by (auto simp: received_def)
qed

theorem async_retry_looks_done_witness:
  "(\<exists>t'. is_default (Async_GetRandomComplete sample_ossl (sample_dev (raw_response TPM_ST_NO_SESSIONS TPM_RC_RETRY [])))
      (GetRandomResponse_randomBytes GetRandomResponse_default) (sample_tpm\<lparr>tp_PendingCommand := TPM_CC_GetRandom\<rparr>) = (Ok True, t') \<and>
      tp_PendingCommand t' = 0) \<and>
   (\<exists>t'. is_default (Async_CreateComplete sample_ossl (sample_dev (raw_response TPM_ST_NO_SESSIONS TPM_RC_RETRY [])))
      CreateResponse_default (sample_tpm\<lparr>tp_PendingCommand := TPM_CC_Create\<rparr>) = (Ok True, t') \<and> tp_PendingCommand t' = 0)"
  (is "?random \<and> ?create")
proof
  show ?random
    by (rule async_retry_looks_done [of TPM_CC_GetRandom _ _ _ _ "()" TPM_ST_NO_SESSIONS "[]" "()"])
      (simp add: complete_methods_def, simp_all add: awaits_def sample_client_def sample_dev_def ret_app)
  show ?create
    by (rule async_retry_looks_done [of TPM_CC_Create _ _ _ _ "()" TPM_ST_NO_SESSIONS "[]" "()"])
      (simp add: complete_methods_def, simp_all add: awaits_def sample_client_def sample_dev_def ret_app)
qed

text \<open>
  C34: The execution of a policy on a TPM refines the digest that is computed for it in software. The
  policy is a chain of plain assertions, which may end in a PolicyOr of two to eight such chains;
  the TPM is any that answers each well-formed policy command either with an error, other than the
  request to retry, or by carrying it out as the specification says. Then Execute returns, for every
  branch identifier: either with success, and the digest of the policy session on the TPM is
  GetPolicyDigest of the whole policy, whichever branch was taken; or with an exception, the TPM
  having answered the command that was sent last with an error although the digest of the session
  was no reason for it (a PolicyOR was sent only with the digest of the branch already in the
  session).
\<close>

theorem policy_execution_refines:
  fixes dev :: "'d TpmDevice"
  assumes "policy_tpm there ossl alg h dev pd" and "ossl_ok ossl" and "IsImplemented ossl alg"
    and "pe_ossl env = ossl"
    and "policy = ps \<or> (\<exists>tag bs. policy = ps @ [PolicyOr tag bs] \<and> or_branches ossl alg bs \<and> 2 \<le> length bs \<and>
      (\<forall>b \<in> set bs. \<forall>p \<in> set b. registers there p))"
    and "plain_chain ossl alg ps" and "\<forall>p \<in> set ps. registers there p"
    and "GetBranchIds policy = Ok ids" and "bid \<in> set ids" and "bid \<noteq> ''''"
    and "executing a h alg d t" and "pd d = replicate (unat (HashLength alg)) 0"
  shows "\<exists>r t'. Execute env dev a policy bid t = Some (r, t') \<and>
    ((r = Ok TPM_RC_SUCCESS \<and> (\<exists>d' D. tp_device t' = Some d' \<and> GetPolicyDigest ossl policy alg = Ok D \<and> pd d' = TPMT_HA_digest D)) \<or>
     stopped ossl alg h dev pd True r t')"
  by (rule Execute_refines [OF assms])

theorem policy_execution_refines_witness:
  "\<exists>t' d' D. Execute policy_env policy_dev 3 sample_policy ''once'' policy_client = Some (Ok TPM_RC_SUCCESS, t') \<and>
     tp_device t' = Some d' \<and> GetPolicyDigest policy_ossl sample_policy TPM_ALG_ID_SHA256 = Ok D \<and>
     fst d' = TPMT_HA_digest D"
  using policy_execution_refines [OF policy_dev_tpm policy_ossl_ok _ _ _ sample_policy_plain(2) _ sample_policy_ids _ _
      policy_client_executing, where env = policy_env and bid = "''once''"] sample_policy_plain(1)
  by (auto simp: policy_env_def sample_policy_def sample_branches_def HashLength_def)

text \<open>
  C35: A branch identifier inside a PolicyOr that itself ends a branch of a PolicyOr is accepted by
  Execute, but no assertion of it is executed: the test for a nested PolicyOr never holds, and the
  TPM only receives the outer PolicyOR.
\<close>

theorem nested_branch_not_executed:
  assumes "GetBranchIds [PolicyOr tag bs] = Ok ids" and "bid \<in> set ids" and "bid \<noteq> ''''"
    and "\<forall>b \<in> set bs. GetBranchId b \<noteq> bid"
  shows "Execute env dev a [PolicyOr tag bs] bid = cbind (PolicyOr_Execute env dev a bs) (\<lambda>_. cret TPM_RC_SUCCESS)"
  using assms skip_branches [of bs bid env dev a] by (simp add: Execute_def)

theorem nested_branch_not_executed_witness:
  "Execute policy_env policy_dev 3
     [PolicyOr '''' [[PolicyOr '''' [[PolicyLocality ''a'' 1], [PolicyAuthValue ''b'']]], [PolicyCommandCode ''c'' TPM_CC_Sign]]] ''a'' =
   cbind (PolicyOr_Execute policy_env policy_dev 3
     [[PolicyOr '''' [[PolicyLocality ''a'' 1], [PolicyAuthValue ''b'']]], [PolicyCommandCode ''c'' TPM_CC_Sign]])
     (\<lambda>_. cret TPM_RC_SUCCESS)"
  by (rule nested_branch_not_executed [where ids = "[''a'', ''b'', ''c'']"])
    (simp_all add: GetBranchIds_def GetBranchIdsInternal_def GetBranchId_def)

text \<open>
  C36: PolicyOr forgets the digest so far, and the check that it stands at the end of its chain never
  fires: a chain that goes on after a PolicyOr is accepted, and the assertions after it are no part
  of the policy's digest.
\<close>

theorem or_drops_the_rest:
  assumes "ossl_ok ossl" and "IsImplemented ossl alg" and "or_branches ossl alg bs" and "plain_chain ossl alg qs"
    and "check_tags (ps @ PolicyOr tag bs # qs) [] = Ok tags" and "qs \<noteq> []"
  shows "GetBranchIds (ps @ PolicyOr tag bs # qs) = Ok [GetBranchId qs] \<and>
    GetPolicyDigest ossl (ps @ PolicyOr tag bs # qs) alg = GetPolicyDigest ossl (ps @ [PolicyOr tag bs]) alg"
  using or_in_the_middle [OF assms] by simp

theorem or_drops_the_rest_witness:
  "GetPolicyDigest policy_ossl [PolicyOr '''' sample_branches, PolicyAuthValue ''auth''] TPM_ALG_ID_SHA256 =
   GetPolicyDigest policy_ossl [PolicyOr '''' sample_branches] TPM_ALG_ID_SHA256"
  using or_drops_the_rest [OF policy_ossl_ok _ sample_policy_plain(1), where qs = "[PolicyAuthValue ''auth'']" and ps = "[]"
      and tag = "''''" and alg = TPM_ALG_ID_SHA256]
  by (simp add: plain_chain_def)

text \<open>
  C37: A successful response in an HMAC session is taken in if and only if the HMAC in it is the
  session's, over the digest of the code, the command and all parameters, the TPM's new nonce, the
  caller's nonce and the attributes; otherwise the command ends with an exception. By then, however,
  the session has already taken over the nonce and the attributes of the rejected response, and it
  stays attached.
\<close>

theorem response_needs_its_hmac:
  fixes m :: "(TPM_HANDLE, 'r) RespStructure"
  assumes "ossl_ok ossl" and "hmac_session ossl (tp_sess t a)"
    and "tp_Sessions t = [a]" "tp_SessTag t = TPM_ST_SESSIONS" "tp_EncSession t = None"
      "tp_NonceTpmDec t = []" "tp_NonceTpmEnc t = []"
    and "\<not> tp_AuditCommand t" "\<not> tp_DemandError t" "tp_ExpectedError t = TPM_RC_SUCCESS"
    and "awaits cc t" "plain_code cc" and "tp_device t = Some d"
    and "dev_GetResponse dev d = (Ok (raw_response TPM_ST_SESSIONS TPM_RC_SUCCESS (session_body body ar)), d')"
    and "length (session_body body ar) + 10 < 2 ^ 32" and "TPMS_AUTH_RESPONSE_valid ar"
    and "resp_numHandles m = 0" "reads (resp_initFromTpm m r) r' body"
  shows "\<exists>u. DispatchIn ossl dev m cc (Resp_other r) t =
      (if TPMS_AUTH_RESPONSE_hmac ar = response_hmac ossl t (tp_sess t a) cc body ar
       then (Ok (True, Resp_other r'), u\<lparr>tp_Sessions := []\<rparr>)
       else (Throw (runtime_error ''Invalid TPM response HMAC''), u)) \<and>
    tp_Sessions u = [a] \<and> tp_sess u a = session_after t ar (tp_sess t a)"
  by (rule DispatchIn_session [OF assms])

theorem response_needs_its_hmac_witness:
  "(\<exists>u. DispatchIn sample_ossl (sample_dev (raw_response TPM_ST_SESSIONS TPM_RC_SUCCESS (session_body [] (sample_area [1, 2, 3]))))
      no_response TPM_CC_SelfTest (Resp_other ()) sample_waiting =
      (Throw (runtime_error ''Invalid TPM response HMAC''), u) \<and> as_NonceTpm (tp_sess u 7) = [9, 9]) \<and>
   (\<exists>u. DispatchIn sample_ossl (sample_dev (raw_response TPM_ST_SESSIONS TPM_RC_SUCCESS (session_body [] (sample_area sample_hmac))))
      no_response TPM_CC_SelfTest (Resp_other ()) sample_waiting = (Ok (True, Resp_other ()), u))"
proof -
  have run: "\<exists>u. DispatchIn sample_ossl (sample_dev (raw_response TPM_ST_SESSIONS TPM_RC_SUCCESS (session_body [] (sample_area h))))
      no_response TPM_CC_SelfTest (Resp_other ()) sample_waiting =
      (if h = sample_hmac then (Ok (True, Resp_other ()), u\<lparr>tp_Sessions := []\<rparr>)
       else (Throw (runtime_error ''Invalid TPM response HMAC''), u)) \<and> tp_Sessions u = [7] \<and>
      tp_sess u 7 = session_after sample_waiting (sample_area h) (tp_sess sample_waiting 7)" if "length h \<le> 64" for h
    using response_needs_its_hmac [OF sample_ossl_ok sample_waiting_session sample_waiting_facts _
        sample_area_bytes(2,1) [OF that] no_response_reads, of "sample_dev _" "()"]
    by (simp add: sample_hmac sample_dev_def ret_app)
  have "length [1, 2, 3 :: 8 word] \<noteq> length sample_hmac" by (simp add: length_sample_hmac)
  then have "[1, 2, 3] \<noteq> sample_hmac" by metis
  then show ?thesis using run [of "[1, 2, 3]"] run [of sample_hmac] length_sample_hmac by auto
qed

text \<open>
  C38: A key of the library (public and private part) is the same after Serialize has written it as text
  and Deserialize has read it back, in JSON and in the plain format in which byte arrays are written
  in full (the other, of ToString(precise = false), leaves out the middle of long ones and cannot be
  read back), whichever equal string literals the compiler pools (p). In both formats the unique
  identifier and the parameters of the public area must be of the same algorithm (or both absent),
  because only one selector is written; that, and the names of the enumerators that the plain format
  needs, is TSS_KEY_text_ok.
\<close>

theorem TSS_KEY_text_roundtrip:
  assumes "TSS_KEY_text_ok c x"
  shows "\<exists>str. TpmStructure_Serialize p c ''TSS_KEY'' (TSS_KEY_Serialize x) = Ok str \<and>
    TpmStructure_Deserialize p c str ''TSS_KEY'' (TSS_KEY_Deserialize TSS_KEY_default) = Ok x"
  by (rule TSS_KEY_text.text_round_trip [OF assms])

theorem TSS_KEY_text_roundtrip_witness:
  "\<exists>js pl. TpmStructure_Deserialize (\<lambda>_. True) JsonSerializer js ''TSS_KEY'' (TSS_KEY_Deserialize TSS_KEY_default) = Ok sample_tss_key \<and>
     TpmStructure_Deserialize (\<lambda>_. True) PlainTextSerializer pl ''TSS_KEY'' (TSS_KEY_Deserialize TSS_KEY_default) = Ok sample_tss_key"
  using TSS_KEY_text_roundtrip [OF sample_tss_key_text(1), of "\<lambda>_. True"]
    TSS_KEY_text_roundtrip [OF sample_tss_key_text(2), of "\<lambda>_. True"] by blast

text \<open>
  C39: The synchronous call and the two halves of the asynchronous one are the same: once the command is
  out and the TPM answers with anything but a request to retry, GetRandom returns, and leaves the
  client, exactly as AsyncMethods::GetRandom followed by GetRandomComplete, errors included.
\<close>

theorem sync_is_async:
  assumes "DispatchOut ossl dev TPM_CC_GetRandom (Req_other (TPM2_GetRandom_REQUEST_req \<lparr>TPM2_GetRandom_REQUEST_bytesRequested = n\<rparr>)) t =
      (Ok (True, req), t1)"
    and "tp_device t1 = Some d" and "dev_GetResponse dev d = (Ok (raw_response tag code body), d')"
    and "length body + 10 < 2 ^ 32" and "code \<noteq> TPM_RC_RETRY"
  shows "Async_GetRandom ossl dev n t = (Ok (), t1) \<and>
    Tpm2_GetRandom ossl dev n t = Some (Async_GetRandomComplete ossl dev t1)"
proof
  show "Async_GetRandom ossl dev n t = (Ok (), t1)"
    by (simp add: Async_GetRandom_def sbind_Ok [where m = "DispatchOut _ _ _ _", OF assms(1)] ret_app)
  show "Tpm2_GetRandom ossl dev n t = Some (Async_GetRandomComplete ossl dev t1)"
    unfolding Tpm2_GetRandom_def Async_GetRandomComplete_def
    by (rule returning_Some, rule Dispatch_in_one_round [OF assms(1)], rule DispatchIn_done [OF assms(2-5)])
qed

theorem sync_is_async_witness:
  "\<exists>t1. Async_GetRandom sample_ossl (sample_dev (raw_response TPM_ST_NO_SESSIONS TPM_RC_SUCCESS (enc_sized 2 [4, 2]))) 8 sample_tpm =
       (Ok (), t1) \<and>
     Tpm2_GetRandom sample_ossl (sample_dev (raw_response TPM_ST_NO_SESSIONS TPM_RC_SUCCESS (enc_sized 2 [4, 2]))) 8 sample_tpm =
       Some (Async_GetRandomComplete sample_ossl (sample_dev (raw_response TPM_ST_NO_SESSIONS TPM_RC_SUCCESS (enc_sized 2 [4, 2]))) t1)"
  using sync_is_async [OF sample_request_sent [unfolded sample_request_def], of "()"
      "raw_response TPM_ST_NO_SESSIONS TPM_RC_SUCCESS (enc_sized 2 [4, 2])" TPM_ST_NO_SESSIONS TPM_RC_SUCCESS "enc_sized 2 [4, 2]" "()"]
  by (force simp: sample_client_def sample_dev_def ret_app enc_sized_def)

text \<open>
  C40: In a build with assertions, a well-formed public area has exactly one wire form that fromBytes
  reads as it: two different byte strings are never taken for the same public area, so a name or
  signature over the bytes identifies the value. This rests on the assertion that nothing is left
  over, which the release flags (-DNDEBUG) compile out: there fromBytes reads the public area from
  exactly the byte strings that begin with its wire form, and whatever follows is ignored.
\<close>

theorem canonical_public_area:
  assumes "TPMT_PUBLIC_valid x"
  shows "(fromBytes TPMT_PUBLIC_initFromTpm TPMT_PUBLIC_default bs = Ok x \<longleftrightarrow> bs = TPMT_PUBLIC_enc x) \<and>
    (fromBytes_NDEBUG TPMT_PUBLIC_initFromTpm TPMT_PUBLIC_default bs = Ok x \<longleftrightarrow> (\<exists>rest. bs = TPMT_PUBLIC_enc x @ rest))"
proof
  show "fromBytes TPMT_PUBLIC_initFromTpm TPMT_PUBLIC_default bs = Ok x \<longleftrightarrow> bs = TPMT_PUBLIC_enc x"
    using fromBytes_accepts [where init = TPMT_PUBLIC_initFromTpm, OF TPMT_PUBLIC_accepts, of bs x]
      TPMT_PUBLIC_codec.fromBytes_enc [OF assms, of "[]"] assms by auto
  show "fromBytes_NDEBUG TPMT_PUBLIC_initFromTpm TPMT_PUBLIC_default bs = Ok x \<longleftrightarrow> (\<exists>rest. bs = TPMT_PUBLIC_enc x @ rest)"
    using fromBytes_NDEBUG_accepts [where init = TPMT_PUBLIC_initFromTpm, OF TPMT_PUBLIC_accepts, of bs x]
      TPMT_PUBLIC_codec.fromBytes_NDEBUG_enc [OF assms] assms by auto
qed

theorem canonical_public_area_witness:
  "fromBytes TPMT_PUBLIC_initFromTpm TPMT_PUBLIC_default (TPMT_PUBLIC_enc sample_key) = Ok sample_key \<and>
   fromBytes TPMT_PUBLIC_initFromTpm TPMT_PUBLIC_default (TPMT_PUBLIC_enc sample_key @ [0]) \<noteq> Ok sample_key \<and>
   fromBytes_NDEBUG TPMT_PUBLIC_initFromTpm TPMT_PUBLIC_default (TPMT_PUBLIC_enc sample_key @ [0]) = Ok sample_key"
  using canonical_public_area [OF sample_key_valid] by simp

end
